(* ===== verification/TSS_Prelude.thy ===== *)
theory TSS_Prelude
  imports Main "HOL-Library.Word"
begin

text \<open>
  Shared vocabulary of the development: the C integer types of \<open>tss2_common.h\<close>, the
  \<open>TSS2_RC\<close> return codes, the object representation of integers in memory and the byte-order
  conversions of \<open>util/tss2_endian.h\<close>, and memory accesses that may run out of their object.
\<close>

unbundle bit_operations_syntax

section \<open>Collections\<close>

named_theorems mu_defs \<open>definitions of the marshalling functions\<close>
named_theorems mu_codec \<open>contracts of the marshalling functions\<close>
named_theorems spec_defs \<open>well-formedness, typing and wire-format definitions\<close>

section \<open>C types\<close>

type_synonym UINT8 = "8 word"
type_synonym BYTE = "8 word"
type_synonym INT8 = "8 word"
type_synonym UINT16 = "16 word"
type_synonym INT16 = "16 word"
type_synonym UINT32 = "32 word"
type_synonym INT32 = "32 word"
type_synonym UINT64 = "64 word"
type_synonym INT64 = "64 word"
type_synonym size_t = "64 word"
type_synonym TSS2_RC = "32 word"
type_synonym buf = "BYTE list"

section \<open>Return codes\<close>

definition TSS2_RC_LAYER :: "TSS2_RC \<Rightarrow> TSS2_RC" where
  "TSS2_RC_LAYER level = push_bit 16 level"

definition TSS2_RC_LAYER_MASK :: TSS2_RC where
  "TSS2_RC_LAYER_MASK = TSS2_RC_LAYER 0xff"

definition TSS2_SYS_RC_LAYER :: TSS2_RC where "TSS2_SYS_RC_LAYER = TSS2_RC_LAYER 8"
definition TSS2_MU_RC_LAYER :: TSS2_RC where "TSS2_MU_RC_LAYER = TSS2_RC_LAYER 9"
definition TSS2_TCTI_RC_LAYER :: TSS2_RC where "TSS2_TCTI_RC_LAYER = TSS2_RC_LAYER 10"

abbreviation TSS2_RC_SUCCESS :: TSS2_RC where "TSS2_RC_SUCCESS \<equiv> 0"

definition TSS2_MU_RC_GENERAL_FAILURE :: TSS2_RC where
  "TSS2_MU_RC_GENERAL_FAILURE = TSS2_MU_RC_LAYER OR 1"
definition TSS2_MU_RC_BAD_REFERENCE :: TSS2_RC where
  "TSS2_MU_RC_BAD_REFERENCE = TSS2_MU_RC_LAYER OR 5"
definition TSS2_MU_RC_INSUFFICIENT_BUFFER :: TSS2_RC where
  "TSS2_MU_RC_INSUFFICIENT_BUFFER = TSS2_MU_RC_LAYER OR 6"
definition TSS2_MU_RC_BAD_VALUE :: TSS2_RC where
  "TSS2_MU_RC_BAD_VALUE = TSS2_MU_RC_LAYER OR 11"
definition TSS2_MU_RC_BAD_SIZE :: TSS2_RC where
  "TSS2_MU_RC_BAD_SIZE = TSS2_MU_RC_LAYER OR 16"
definition TSS2_SYS_RC_BAD_REFERENCE :: TSS2_RC where
  "TSS2_SYS_RC_BAD_REFERENCE = TSS2_SYS_RC_LAYER OR 5"
definition TSS2_SYS_RC_BAD_VALUE :: TSS2_RC where
  "TSS2_SYS_RC_BAD_VALUE = TSS2_SYS_RC_LAYER OR 11"
definition TSS2_SYS_RC_MALFORMED_RESPONSE :: TSS2_RC where
  "TSS2_SYS_RC_MALFORMED_RESPONSE = TSS2_SYS_RC_LAYER OR 17"

lemmas rc_layer_defs = TSS2_RC_LAYER_def TSS2_RC_LAYER_MASK_def TSS2_SYS_RC_LAYER_def
  TSS2_MU_RC_LAYER_def TSS2_TCTI_RC_LAYER_def

lemmas rc_defs = rc_layer_defs
  TSS2_MU_RC_GENERAL_FAILURE_def TSS2_MU_RC_BAD_REFERENCE_def TSS2_MU_RC_INSUFFICIENT_BUFFER_def
  TSS2_MU_RC_BAD_VALUE_def TSS2_MU_RC_BAD_SIZE_def TSS2_SYS_RC_BAD_REFERENCE_def
  TSS2_SYS_RC_BAD_VALUE_def TSS2_SYS_RC_MALFORMED_RESPONSE_def

lemma rc_nonzero [simp]:
  "TSS2_MU_RC_GENERAL_FAILURE \<noteq> 0" "TSS2_MU_RC_BAD_REFERENCE \<noteq> 0"
  "TSS2_MU_RC_INSUFFICIENT_BUFFER \<noteq> 0" "TSS2_MU_RC_BAD_VALUE \<noteq> 0"
  "TSS2_MU_RC_BAD_SIZE \<noteq> 0" "TSS2_SYS_RC_BAD_REFERENCE \<noteq> 0"
  "TSS2_SYS_RC_BAD_VALUE \<noteq> 0" "TSS2_SYS_RC_MALFORMED_RESPONSE \<noteq> 0"
  by (simp_all add: rc_defs)

section \<open>Integers in memory and byte order\<close>

text \<open>
  The host is little-endian (the \<open>WORDS_BIGENDIAN\<close>-free branch of \<open>tss2_endian.h\<close>):
  \<open>bytes_of w\<close> is the object representation of \<open>w\<close>, least significant byte first.
\<close>

definition bytes_of :: "'a::len word \<Rightarrow> BYTE list" where
  "bytes_of w = map (\<lambda>i. of_nat (unat w div 256 ^ i)) [0..<LENGTH('a) div 8]"

definition word_of :: "BYTE list \<Rightarrow> 'a::len word" where
  "word_of bs = of_nat (horner_sum unat 256 bs)"

abbreviation sizeof_word :: "'a::len word \<Rightarrow> nat" where
  "sizeof_word w \<equiv> LENGTH('a) div 8"

text \<open>\<open>htobe16\<close> and its kin on a little-endian host reverse the bytes of the object.\<close>

definition HOST_TO_BE :: "'a::len word \<Rightarrow> 'a word" where
  "HOST_TO_BE w = word_of (rev (bytes_of w))"

definition BE_TO_HOST :: "'a::len word \<Rightarrow> 'a word" where
  "BE_TO_HOST w = word_of (rev (bytes_of w))"

definition be_bytes :: "'a::len word \<Rightarrow> BYTE list" where
  "be_bytes w = rev (bytes_of w)"

text \<open>The portable conversions of \<open>tss2_endian.h\<close>, written with masks and shifts.\<close>

definition endian_conv_16 :: "16 word \<Rightarrow> 16 word" where
  "endian_conv_16 v = (push_bit 8 (v AND 0xff)) OR (drop_bit 8 (v AND push_bit 8 0xff))"

definition endian_conv_32 :: "32 word \<Rightarrow> 32 word" where
  "endian_conv_32 v =
     push_bit 24 (v AND 0xff) OR push_bit 8 (v AND push_bit 8 0xff)
     OR drop_bit 8 (v AND push_bit 16 0xff) OR drop_bit 24 (v AND push_bit 24 0xff)"

definition endian_conv_64 :: "64 word \<Rightarrow> 64 word" where
  "endian_conv_64 v =
     push_bit 56 (v AND 0xff) OR push_bit 40 (v AND push_bit 8 0xff)
     OR push_bit 24 (v AND push_bit 16 0xff) OR push_bit 8 (v AND push_bit 24 0xff)
     OR drop_bit 8 (v AND push_bit 32 0xff) OR drop_bit 24 (v AND push_bit 40 0xff)
     OR drop_bit 40 (v AND push_bit 48 0xff) OR drop_bit 56 (v AND push_bit 56 0xff)"

lemma length_bytes_of [simp]: "length (bytes_of (w :: 'a::len word)) = LENGTH('a) div 8"
  by (simp add: bytes_of_def)

lemma length_be_bytes [simp]: "length (be_bytes (w :: 'a::len word)) = LENGTH('a) div 8"
  by (simp add: be_bytes_def)

lemma unat_byte_less [simp]: "unat (b :: BYTE) < 256"
  using unsigned_less [of b] by simp

lemma horner_sum_digits:
  "horner_sum (\<lambda>i. n div 256 ^ i mod 256) 256 [0..<k] = (n::nat) mod 256 ^ k"
proof (induction k)
  case 0
  then show ?case by simp
next
  case (Suc k)
  have "n mod 256 ^ Suc k = 256 ^ k * (n div 256 ^ k mod 256) + n mod 256 ^ k"
    using mod_mult2_eq [of n "256 ^ k" 256] by (simp add: mult.commute)
  then show ?case
    using Suc by (simp add: horner_sum_append)
qed

lemma horner_sum_bound: "horner_sum unat 256 (bs :: BYTE list) < 256 ^ length bs"
proof (induction bs)
  case Nil
  then show ?case by simp
next
  case (Cons b bs)
  have "unat b < 256" by (rule unat_byte_less)
  then have "unat b + 256 * horner_sum unat 256 bs < 256 + 256 * horner_sum unat 256 bs"
    by simp
  also have "\<dots> = 256 * Suc (horner_sum unat 256 bs)" by simp
  also have "\<dots> \<le> 256 * 256 ^ length bs"
    using Cons by (intro mult_le_mono2) simp
  finally show ?case by simp
qed

lemma digits_horner_sum:
  "map (\<lambda>i. of_nat (horner_sum unat 256 bs div 256 ^ i)) [0..<length bs] = (bs :: BYTE list)"
proof (induction bs)
  case Nil
  then show ?case by simp
next
  case (Cons b bs)
  have b: "unat b < 256" by (rule unat_byte_less)
  have step: "(unat b + 256 * h) div 256 ^ Suc i = h div 256 ^ i" for h i :: nat
    using b by (simp add: div_mult2_eq)
  have head: "of_nat (unat b + 256 * h) = b" for h :: nat
  proof -
    have "(of_nat (unat b + 256 * h) :: BYTE) = of_nat (unat b) + of_nat 256 * of_nat h"
      by (simp del: of_nat_numeral)
    also have "(of_nat 256 :: BYTE) = 0" by simp
    finally show ?thesis by simp
  qed
  have "map (\<lambda>i. of_nat (horner_sum unat 256 (b # bs) div 256 ^ i)) [0..<length (b # bs)]
        = of_nat (unat b + 256 * horner_sum unat 256 bs)
          # map (\<lambda>i. of_nat (horner_sum unat 256 (b # bs) div 256 ^ Suc i) :: BYTE) [0..<length bs]"
    by (simp add: upt_conv_Cons map_Suc_upt [symmetric] comp_def del: upt_Suc power_Suc)
  also have "\<dots> = b # map (\<lambda>i. of_nat (horner_sum unat 256 bs div 256 ^ i)) [0..<length bs]"
    by (simp only: head horner_sum_simps step)
  finally show ?case
    using Cons by simp
qed

lemma unat_less_exp: "LENGTH('a) = 8 * k \<Longrightarrow> unat (w :: 'a::len word) < 256 ^ k"
proof -
  assume k: "LENGTH('a) = 8 * k"
  have "unat w < 2 ^ LENGTH('a)" by (rule unsigned_less)
  then show ?thesis by (simp add: k power_mult)
qed

lemma word_of_bytes_of [simp]:
  "8 dvd LENGTH('a) \<Longrightarrow> word_of (bytes_of w) = (w :: 'a::len word)"
proof -
  assume "8 dvd LENGTH('a)"
  then obtain k where k: "LENGTH('a) = 8 * k" by (auto elim: dvdE)
  have "horner_sum unat 256 (bytes_of w) = horner_sum (\<lambda>i. unat w div 256 ^ i mod 256) 256 [0..<k]"
    by (simp add: bytes_of_def k horner_sum_eq_sum unat_of_nat)
  also have "\<dots> = unat w"
    using unat_less_exp [OF k] by (simp add: horner_sum_digits)
  finally show ?thesis by (simp add: word_of_def)
qed

lemma bytes_of_word_of:
  "LENGTH('a) = 8 * length bs \<Longrightarrow> bytes_of (word_of bs :: 'a::len word) = bs"
proof -
  assume len: "LENGTH('a) = 8 * length bs"
  have "unat (word_of bs :: 'a word) = horner_sum unat 256 bs"
    using horner_sum_bound [of bs] by (simp add: word_of_def unat_of_nat len power_mult)
  then show ?thesis
    by (simp add: bytes_of_def len digits_horner_sum)
qed

lemma bytes_of_HOST_TO_BE [simp]:
  "8 dvd LENGTH('a) \<Longrightarrow> bytes_of (HOST_TO_BE (w :: 'a::len word)) = be_bytes w"
  by (auto simp: HOST_TO_BE_def be_bytes_def bytes_of_word_of)

lemma BE_TO_HOST_word_of:
  "LENGTH('a) = 8 * length bs \<Longrightarrow> BE_TO_HOST (word_of bs :: 'a::len word) = word_of (rev bs)"
  by (simp add: BE_TO_HOST_def bytes_of_word_of)

lemma word_of_rev_be_bytes [simp]:
  "8 dvd LENGTH('a) \<Longrightarrow> word_of (rev (be_bytes w)) = (w :: 'a::len word)"
  by (simp add: be_bytes_def)

lemma be_bytes_word_of:
  "LENGTH('a) = 8 * length bs \<Longrightarrow> be_bytes (word_of (rev bs) :: 'a::len word) = bs"
  by (simp add: be_bytes_def bytes_of_word_of)

lemma be_bytes_inject:
  "8 dvd LENGTH('a) \<Longrightarrow> be_bytes v = be_bytes w \<longleftrightarrow> v = (w :: 'a::len word)"
  by (metis word_of_rev_be_bytes)

lemma bytes_of_alt [code]:
  "bytes_of (w :: 'a::len word) = map (\<lambda>i. ucast (drop_bit (8 * i) w)) [0..<LENGTH('a) div 8]"
proof -
  have "of_nat (unat w div 256 ^ i) = (ucast (drop_bit (8 * i) w) :: BYTE)" for i
  proof -
    have "unat (drop_bit (8 * i) w) = unat w div 256 ^ i"
      by (simp only: unat_drop_bit_eq drop_bit_eq_div [of _ "unat w"] power_mult) simp
    then show ?thesis by (metis of_nat_unat)
  qed
  then show ?thesis by (simp add: bytes_of_def)
qed

lemma word_of_foldr [code]:
  "word_of bs = foldr (\<lambda>b w. ucast b + 256 * w) bs (0 :: 'a::len word)"
  by (induction bs) (simp_all add: word_of_def)

lemma bytes_of_inject:
  "8 dvd LENGTH('a) \<Longrightarrow> bytes_of v = bytes_of w \<Longrightarrow> v = (w :: 'a::len word)"
  by (metis word_of_bytes_of)

lemma HOST_TO_BE_eqI:
  assumes "8 dvd LENGTH('a)" and "bytes_of v = rev (bytes_of w)"
  shows "v = HOST_TO_BE (w :: 'a::len word)"
  using assms by (intro bytes_of_inject) (simp_all add: be_bytes_def)

lemma ff_mask: "(0xff :: 'a::len word) = mask 8"
  by (simp add: mask_eq_exp_minus_1)

lemma endian_conv_16_eq: "endian_conv_16 v = HOST_TO_BE v"
  by (rule HOST_TO_BE_eqI)
    (auto simp add: bytes_of_alt upt_rec endian_conv_16_def ff_mask bit_simps intro!: bit_word_eqI
      simp del: push_bit_numeral mask_numeral)

lemma endian_conv_32_eq: "endian_conv_32 v = HOST_TO_BE v"
  by (rule HOST_TO_BE_eqI)
    (auto simp add: bytes_of_alt upt_rec endian_conv_32_def ff_mask bit_simps intro!: bit_word_eqI
      simp del: push_bit_numeral mask_numeral)

lemma endian_conv_64_eq: "endian_conv_64 v = HOST_TO_BE v"
  by (rule HOST_TO_BE_eqI)
    (auto simp add: bytes_of_alt upt_rec endian_conv_64_def ff_mask bit_simps intro!: bit_word_eqI
      simp del: push_bit_numeral mask_numeral)

section \<open>Memory accesses\<close>

text \<open>
  A buffer is the array object a pointer designates.  An access that leaves the object is
  undefined in C; here it is \<open>None\<close>, the fault every safety theorem excludes.
\<close>

definition patch :: "buf \<Rightarrow> nat \<Rightarrow> BYTE list \<Rightarrow> buf" where
  "patch b i xs = take i b @ xs @ drop (i + length xs) b"

definition seg :: "buf \<Rightarrow> nat \<Rightarrow> nat \<Rightarrow> BYTE list" where
  "seg b i n = take n (drop i b)"

definition mem_write :: "buf \<Rightarrow> size_t \<Rightarrow> BYTE list \<Rightarrow> buf option" where
  "mem_write b i xs = (if unat i + length xs \<le> length b then Some (patch b (unat i) xs) else None)"

definition mem_read :: "buf \<Rightarrow> size_t \<Rightarrow> nat \<Rightarrow> BYTE list option" where
  "mem_read b i n = (if unat i + n \<le> length b then Some (seg b (unat i) n) else None)"

lemma length_patch [simp]: "i + length xs \<le> length b \<Longrightarrow> length (patch b i xs) = length b"
  by (simp add: patch_def)

lemma patch_nth:
  "i + length xs \<le> length b \<Longrightarrow> j < length b \<Longrightarrow>
    patch b i xs ! j = (if i \<le> j \<and> j < i + length xs then xs ! (j - i) else b ! j)"
  by (auto simp: patch_def nth_append min_def)

lemma patch_Nil [simp]: "patch b i [] = b"
  by (simp add: patch_def)

lemma patch_append:
  assumes "i + length xs + length ys \<le> length b"
  shows "patch (patch b i xs) (i + length xs) ys = patch b i (xs @ ys)"
proof -
  have "min (length b) i = i" using assms by simp
  then show ?thesis by (simp add: patch_def ac_simps)
qed

lemma seg_patch [simp]: "i + length xs \<le> length b \<Longrightarrow> seg (patch b i xs) i (length xs) = xs"
  by (simp add: seg_def patch_def)

lemma length_seg [simp]: "i + n \<le> length b \<Longrightarrow> length (seg b i n) = n"
  by (simp add: seg_def)

lemma seg_0 [simp]: "seg b i 0 = []"
  by (simp add: seg_def)

lemma seg_append:
  "seg b i (m + n) = seg b i m @ seg b (i + m) n"
  by (simp add: seg_def take_add add.commute)

lemma seg_eq_append_iff:
  assumes "i + length xs + length ys \<le> length b"
  shows "seg b i (length xs + length ys) = xs @ ys \<longleftrightarrow>
         seg b i (length xs) = xs \<and> seg b (i + length xs) (length ys) = ys"
  using assms by (simp add: seg_append)

end
