(* ===== verification/C_Layout.thy ===== *)
theory C_Layout
  imports TSS_Prelude
begin

text \<open>
  Sizes of the C types.  The marshalling code bounds its copies by \<open>sizeof\<close> of types and arrays of
  \<open>tss2_tpm2_types.h\<close>; the functions below compute \<open>sizeof\<close> for the layout of the x86-64 and
  AArch64 ABIs (natural alignment, structures padded to their alignment), and one constant per
  type follows its declaration member by member.
\<close>

section \<open>Layout rules\<close>

datatype ctype = CInt nat | CArray nat ctype | CStruct "ctype list" | CUnion "ctype list"

definition round_up :: "nat \<Rightarrow> nat \<Rightarrow> nat" where
  "round_up n a = (if n mod a = 0 then n else n + (a - n mod a))"

fun alignof :: "ctype \<Rightarrow> nat" where
  "alignof (CInt n) = n"
| "alignof (CArray n t) = alignof t"
| "alignof (CStruct ts) = fold max (map alignof ts) 1"
| "alignof (CUnion ts) = fold max (map alignof ts) 1"

fun sizeof :: "ctype \<Rightarrow> nat" where
  "sizeof (CInt n) = n"
| "sizeof (CArray n t) = n * sizeof t"
| "sizeof (CStruct ts) =
     round_up (fold (\<lambda>(s, a) off. round_up off a + s) (map (\<lambda>t. (sizeof t, alignof t)) ts) 0)
       (fold max (map alignof ts) 1)"
| "sizeof (CUnion ts) = round_up (fold max (map sizeof ts) 0) (fold max (map alignof ts) 1)"

section \<open>Constants and declarations of \<open>tss2_tpm2_types.h\<close>\<close>

declare round_up_def [simp]

definition TPM2_SHA1_DIGEST_SIZE :: nat where
  "TPM2_SHA1_DIGEST_SIZE = 20"

lemma TPM2_SHA1_DIGEST_SIZE_val [simp]: "TPM2_SHA1_DIGEST_SIZE = 20"
  by (simp add: TPM2_SHA1_DIGEST_SIZE_def)

definition TPM2_SHA256_DIGEST_SIZE :: nat where
  "TPM2_SHA256_DIGEST_SIZE = 32"

lemma TPM2_SHA256_DIGEST_SIZE_val [simp]: "TPM2_SHA256_DIGEST_SIZE = 32"
  by (simp add: TPM2_SHA256_DIGEST_SIZE_def)

definition TPM2_SHA384_DIGEST_SIZE :: nat where
  "TPM2_SHA384_DIGEST_SIZE = 48"

lemma TPM2_SHA384_DIGEST_SIZE_val [simp]: "TPM2_SHA384_DIGEST_SIZE = 48"
  by (simp add: TPM2_SHA384_DIGEST_SIZE_def)

definition TPM2_SHA512_DIGEST_SIZE :: nat where
  "TPM2_SHA512_DIGEST_SIZE = 64"

lemma TPM2_SHA512_DIGEST_SIZE_val [simp]: "TPM2_SHA512_DIGEST_SIZE = 64"
  by (simp add: TPM2_SHA512_DIGEST_SIZE_def)

definition TPM2_SM3_256_DIGEST_SIZE :: nat where
  "TPM2_SM3_256_DIGEST_SIZE = 32"

lemma TPM2_SM3_256_DIGEST_SIZE_val [simp]: "TPM2_SM3_256_DIGEST_SIZE = 32"
  by (simp add: TPM2_SM3_256_DIGEST_SIZE_def)

definition TPM2_SHA_DIGEST_SIZE :: nat where
  "TPM2_SHA_DIGEST_SIZE = 20"

lemma TPM2_SHA_DIGEST_SIZE_val [simp]: "TPM2_SHA_DIGEST_SIZE = 20"
  by (simp add: TPM2_SHA_DIGEST_SIZE_def)

definition ct_TPMU_HA :: ctype where
  "ct_TPMU_HA = CUnion [CArray (TPM2_SHA_DIGEST_SIZE) (CInt 1),
     CArray (TPM2_SHA1_DIGEST_SIZE) (CInt 1),
     CArray (TPM2_SHA256_DIGEST_SIZE) (CInt 1),
     CArray (TPM2_SHA384_DIGEST_SIZE) (CInt 1),
     CArray (TPM2_SHA512_DIGEST_SIZE) (CInt 1),
     CArray (TPM2_SM3_256_DIGEST_SIZE) (CInt 1)]"

lemma ct_TPMU_HA_layout [simp]: "sizeof ct_TPMU_HA = 64" "alignof ct_TPMU_HA = 1"
  by (simp_all add: ct_TPMU_HA_def del: One_nat_def)

definition ct_TPM2B_DIGEST :: ctype where
  "ct_TPM2B_DIGEST = CStruct [CInt 2, CArray (sizeof ct_TPMU_HA) (CInt 1)]"

lemma ct_TPM2B_DIGEST_layout [simp]: "sizeof ct_TPM2B_DIGEST = 66" "alignof ct_TPM2B_DIGEST = 2"
  by (simp_all add: ct_TPM2B_DIGEST_def del: One_nat_def)

definition ct_TPM2B_DATA :: ctype where
  "ct_TPM2B_DATA = CStruct [CInt 2, CArray (sizeof ct_TPMU_HA) (CInt 1)]"

lemma ct_TPM2B_DATA_layout [simp]: "sizeof ct_TPM2B_DATA = 66" "alignof ct_TPM2B_DATA = 2"
  by (simp_all add: ct_TPM2B_DATA_def del: One_nat_def)

definition ct_TPM2B_EVENT :: ctype where
  "ct_TPM2B_EVENT = CStruct [CInt 2, CArray (1024) (CInt 1)]"

lemma ct_TPM2B_EVENT_layout [simp]: "sizeof ct_TPM2B_EVENT = 1026" "alignof ct_TPM2B_EVENT = 2"
  by (simp_all add: ct_TPM2B_EVENT_def del: One_nat_def)

definition TPM2_MAX_DIGEST_BUFFER :: nat where
  "TPM2_MAX_DIGEST_BUFFER = 1024"

lemma TPM2_MAX_DIGEST_BUFFER_val [simp]: "TPM2_MAX_DIGEST_BUFFER = 1024"
  by (simp add: TPM2_MAX_DIGEST_BUFFER_def)

definition ct_TPM2B_MAX_BUFFER :: ctype where
  "ct_TPM2B_MAX_BUFFER = CStruct [CInt 2, CArray (TPM2_MAX_DIGEST_BUFFER) (CInt 1)]"

lemma ct_TPM2B_MAX_BUFFER_layout [simp]: "sizeof ct_TPM2B_MAX_BUFFER = 1026" "alignof ct_TPM2B_MAX_BUFFER = 2"
  by (simp_all add: ct_TPM2B_MAX_BUFFER_def del: One_nat_def)

definition TPM2_MAX_NV_BUFFER_SIZE :: nat where
  "TPM2_MAX_NV_BUFFER_SIZE = 2048"

lemma TPM2_MAX_NV_BUFFER_SIZE_val [simp]: "TPM2_MAX_NV_BUFFER_SIZE = 2048"
  by (simp add: TPM2_MAX_NV_BUFFER_SIZE_def)

definition ct_TPM2B_MAX_NV_BUFFER :: ctype where
  "ct_TPM2B_MAX_NV_BUFFER = CStruct [CInt 2, CArray (TPM2_MAX_NV_BUFFER_SIZE) (CInt 1)]"

lemma ct_TPM2B_MAX_NV_BUFFER_layout [simp]: "sizeof ct_TPM2B_MAX_NV_BUFFER = 2050" "alignof ct_TPM2B_MAX_NV_BUFFER = 2"
  by (simp_all add: ct_TPM2B_MAX_NV_BUFFER_def del: One_nat_def)

definition TPM2_MAX_SYM_BLOCK_SIZE :: nat where
  "TPM2_MAX_SYM_BLOCK_SIZE = 16"

lemma TPM2_MAX_SYM_BLOCK_SIZE_val [simp]: "TPM2_MAX_SYM_BLOCK_SIZE = 16"
  by (simp add: TPM2_MAX_SYM_BLOCK_SIZE_def)

definition ct_TPM2B_IV :: ctype where
  "ct_TPM2B_IV = CStruct [CInt 2, CArray (TPM2_MAX_SYM_BLOCK_SIZE) (CInt 1)]"

lemma ct_TPM2B_IV_layout [simp]: "sizeof ct_TPM2B_IV = 18" "alignof ct_TPM2B_IV = 2"
  by (simp_all add: ct_TPM2B_IV_def del: One_nat_def)

definition ct_TPMT_HA :: ctype where
  "ct_TPMT_HA = CStruct [CInt 2, ct_TPMU_HA]"

lemma ct_TPMT_HA_layout [simp]: "sizeof ct_TPMT_HA = 66" "alignof ct_TPMT_HA = 2"
  by (simp_all add: ct_TPMT_HA_def del: One_nat_def)

definition ct_TPMU_NAME :: ctype where
  "ct_TPMU_NAME = CUnion [ct_TPMT_HA, CInt 4]"

lemma ct_TPMU_NAME_layout [simp]: "sizeof ct_TPMU_NAME = 68" "alignof ct_TPMU_NAME = 4"
  by (simp_all add: ct_TPMU_NAME_def del: One_nat_def)

definition ct_TPM2B_NAME :: ctype where
  "ct_TPM2B_NAME = CStruct [CInt 2, CArray (sizeof ct_TPMU_NAME) (CInt 1)]"

lemma ct_TPM2B_NAME_layout [simp]: "sizeof ct_TPM2B_NAME = 70" "alignof ct_TPM2B_NAME = 2"
  by (simp_all add: ct_TPM2B_NAME_def del: One_nat_def)

definition ct_TPMS_CLOCK_INFO :: ctype where
  "ct_TPMS_CLOCK_INFO = CStruct [CInt 8, CInt 4, CInt 4, CInt 1]"

lemma ct_TPMS_CLOCK_INFO_layout [simp]: "sizeof ct_TPMS_CLOCK_INFO = 24" "alignof ct_TPMS_CLOCK_INFO = 8"
  by (simp_all add: ct_TPMS_CLOCK_INFO_def del: One_nat_def)

definition ct_TPMS_CERTIFY_INFO :: ctype where
  "ct_TPMS_CERTIFY_INFO = CStruct [ct_TPM2B_NAME, ct_TPM2B_NAME]"

lemma ct_TPMS_CERTIFY_INFO_layout [simp]: "sizeof ct_TPMS_CERTIFY_INFO = 140" "alignof ct_TPMS_CERTIFY_INFO = 2"
  by (simp_all add: ct_TPMS_CERTIFY_INFO_def del: One_nat_def)

definition ct_TPMS_CREATION_INFO :: ctype where
  "ct_TPMS_CREATION_INFO = CStruct [ct_TPM2B_NAME, ct_TPM2B_DIGEST]"

lemma ct_TPMS_CREATION_INFO_layout [simp]: "sizeof ct_TPMS_CREATION_INFO = 136" "alignof ct_TPMS_CREATION_INFO = 2"
  by (simp_all add: ct_TPMS_CREATION_INFO_def del: One_nat_def)

definition TPM2_MAX_PCRS :: nat where
  "TPM2_MAX_PCRS = 32"

lemma TPM2_MAX_PCRS_val [simp]: "TPM2_MAX_PCRS = 32"
  by (simp add: TPM2_MAX_PCRS_def)

definition TPM2_PCR_SELECT_MAX :: nat where
  "TPM2_PCR_SELECT_MAX = ((TPM2_MAX_PCRS + 7) div 8)"

lemma TPM2_PCR_SELECT_MAX_val [simp]: "TPM2_PCR_SELECT_MAX = 4"
  by (simp add: TPM2_PCR_SELECT_MAX_def)

definition ct_TPMS_PCR_SELECTION :: ctype where
  "ct_TPMS_PCR_SELECTION = CStruct [CInt 2, CInt 1, CArray (TPM2_PCR_SELECT_MAX) (CInt 1)]"

lemma ct_TPMS_PCR_SELECTION_layout [simp]: "sizeof ct_TPMS_PCR_SELECTION = 8" "alignof ct_TPMS_PCR_SELECTION = 2"
  by (simp_all add: ct_TPMS_PCR_SELECTION_def del: One_nat_def)

definition TPM2_NUM_PCR_BANKS :: nat where
  "TPM2_NUM_PCR_BANKS = 16"

lemma TPM2_NUM_PCR_BANKS_val [simp]: "TPM2_NUM_PCR_BANKS = 16"
  by (simp add: TPM2_NUM_PCR_BANKS_def)

definition ct_TPML_PCR_SELECTION :: ctype where
  "ct_TPML_PCR_SELECTION = CStruct [CInt 4, CArray (TPM2_NUM_PCR_BANKS) ct_TPMS_PCR_SELECTION]"

lemma ct_TPML_PCR_SELECTION_layout [simp]: "sizeof ct_TPML_PCR_SELECTION = 132" "alignof ct_TPML_PCR_SELECTION = 4"
  by (simp_all add: ct_TPML_PCR_SELECTION_def del: One_nat_def)

definition ct_TPMS_QUOTE_INFO :: ctype where
  "ct_TPMS_QUOTE_INFO = CStruct [ct_TPML_PCR_SELECTION, ct_TPM2B_DIGEST]"

lemma ct_TPMS_QUOTE_INFO_layout [simp]: "sizeof ct_TPMS_QUOTE_INFO = 200" "alignof ct_TPMS_QUOTE_INFO = 4"
  by (simp_all add: ct_TPMS_QUOTE_INFO_def del: One_nat_def)

definition ct_TPMS_COMMAND_AUDIT_INFO :: ctype where
  "ct_TPMS_COMMAND_AUDIT_INFO = CStruct [CInt 8, CInt 2, ct_TPM2B_DIGEST, ct_TPM2B_DIGEST]"

lemma ct_TPMS_COMMAND_AUDIT_INFO_layout [simp]: "sizeof ct_TPMS_COMMAND_AUDIT_INFO = 144" "alignof ct_TPMS_COMMAND_AUDIT_INFO = 8"
  by (simp_all add: ct_TPMS_COMMAND_AUDIT_INFO_def del: One_nat_def)

definition ct_TPMS_SESSION_AUDIT_INFO :: ctype where
  "ct_TPMS_SESSION_AUDIT_INFO = CStruct [CInt 1, ct_TPM2B_DIGEST]"

lemma ct_TPMS_SESSION_AUDIT_INFO_layout [simp]: "sizeof ct_TPMS_SESSION_AUDIT_INFO = 68" "alignof ct_TPMS_SESSION_AUDIT_INFO = 2"
  by (simp_all add: ct_TPMS_SESSION_AUDIT_INFO_def del: One_nat_def)

definition ct_TPMS_TIME_INFO :: ctype where
  "ct_TPMS_TIME_INFO = CStruct [CInt 8, ct_TPMS_CLOCK_INFO]"

lemma ct_TPMS_TIME_INFO_layout [simp]: "sizeof ct_TPMS_TIME_INFO = 32" "alignof ct_TPMS_TIME_INFO = 8"
  by (simp_all add: ct_TPMS_TIME_INFO_def del: One_nat_def)

definition ct_TPMS_TIME_ATTEST_INFO :: ctype where
  "ct_TPMS_TIME_ATTEST_INFO = CStruct [ct_TPMS_TIME_INFO, CInt 8]"

lemma ct_TPMS_TIME_ATTEST_INFO_layout [simp]: "sizeof ct_TPMS_TIME_ATTEST_INFO = 40" "alignof ct_TPMS_TIME_ATTEST_INFO = 8"
  by (simp_all add: ct_TPMS_TIME_ATTEST_INFO_def del: One_nat_def)

definition ct_TPMS_NV_CERTIFY_INFO :: ctype where
  "ct_TPMS_NV_CERTIFY_INFO = CStruct [ct_TPM2B_NAME, CInt 2, ct_TPM2B_MAX_NV_BUFFER]"

lemma ct_TPMS_NV_CERTIFY_INFO_layout [simp]: "sizeof ct_TPMS_NV_CERTIFY_INFO = 2122" "alignof ct_TPMS_NV_CERTIFY_INFO = 2"
  by (simp_all add: ct_TPMS_NV_CERTIFY_INFO_def del: One_nat_def)

definition ct_TPMU_ATTEST :: ctype where
  "ct_TPMU_ATTEST = CUnion [ct_TPMS_CERTIFY_INFO,
     ct_TPMS_CREATION_INFO,
     ct_TPMS_QUOTE_INFO,
     ct_TPMS_COMMAND_AUDIT_INFO,
     ct_TPMS_SESSION_AUDIT_INFO,
     ct_TPMS_TIME_ATTEST_INFO,
     ct_TPMS_NV_CERTIFY_INFO]"

lemma ct_TPMU_ATTEST_layout [simp]: "sizeof ct_TPMU_ATTEST = 2128" "alignof ct_TPMU_ATTEST = 8"
  by (simp_all add: ct_TPMU_ATTEST_def del: One_nat_def)

definition ct_TPMS_ATTEST :: ctype where
  "ct_TPMS_ATTEST = CStruct [CInt 4,
     CInt 2,
     ct_TPM2B_NAME,
     ct_TPM2B_DATA,
     ct_TPMS_CLOCK_INFO,
     CInt 8,
     ct_TPMU_ATTEST]"

lemma ct_TPMS_ATTEST_layout [simp]: "sizeof ct_TPMS_ATTEST = 2304" "alignof ct_TPMS_ATTEST = 8"
  by (simp_all add: ct_TPMS_ATTEST_def del: One_nat_def)

definition ct_TPM2B_ATTEST :: ctype where
  "ct_TPM2B_ATTEST = CStruct [CInt 2, CArray (sizeof ct_TPMS_ATTEST) (CInt 1)]"

lemma ct_TPM2B_ATTEST_layout [simp]: "sizeof ct_TPM2B_ATTEST = 2306" "alignof ct_TPM2B_ATTEST = 2"
  by (simp_all add: ct_TPM2B_ATTEST_def del: One_nat_def)

definition TPM2_MAX_SYM_KEY_BYTES :: nat where
  "TPM2_MAX_SYM_KEY_BYTES = 32"

lemma TPM2_MAX_SYM_KEY_BYTES_val [simp]: "TPM2_MAX_SYM_KEY_BYTES = 32"
  by (simp add: TPM2_MAX_SYM_KEY_BYTES_def)

definition ct_TPM2B_SYM_KEY :: ctype where
  "ct_TPM2B_SYM_KEY = CStruct [CInt 2, CArray (TPM2_MAX_SYM_KEY_BYTES) (CInt 1)]"

lemma ct_TPM2B_SYM_KEY_layout [simp]: "sizeof ct_TPM2B_SYM_KEY = 34" "alignof ct_TPM2B_SYM_KEY = 2"
  by (simp_all add: ct_TPM2B_SYM_KEY_def del: One_nat_def)

definition TPM2_LABEL_MAX_BUFFER :: nat where
  "TPM2_LABEL_MAX_BUFFER = 32"

lemma TPM2_LABEL_MAX_BUFFER_val [simp]: "TPM2_LABEL_MAX_BUFFER = 32"
  by (simp add: TPM2_LABEL_MAX_BUFFER_def)

definition ct_TPM2B_LABEL :: ctype where
  "ct_TPM2B_LABEL = CStruct [CInt 2, CArray (TPM2_LABEL_MAX_BUFFER) (CInt 1)]"

lemma ct_TPM2B_LABEL_layout [simp]: "sizeof ct_TPM2B_LABEL = 34" "alignof ct_TPM2B_LABEL = 2"
  by (simp_all add: ct_TPM2B_LABEL_def del: One_nat_def)

definition ct_TPMS_DERIVE :: ctype where
  "ct_TPMS_DERIVE = CStruct [ct_TPM2B_LABEL, ct_TPM2B_LABEL]"

lemma ct_TPMS_DERIVE_layout [simp]: "sizeof ct_TPMS_DERIVE = 68" "alignof ct_TPMS_DERIVE = 2"
  by (simp_all add: ct_TPMS_DERIVE_def del: One_nat_def)

definition TPM2_MAX_SYM_DATA :: nat where
  "TPM2_MAX_SYM_DATA = 256"

lemma TPM2_MAX_SYM_DATA_val [simp]: "TPM2_MAX_SYM_DATA = 256"
  by (simp add: TPM2_MAX_SYM_DATA_def)

definition ct_TPMU_SENSITIVE_CREATE :: ctype where
  "ct_TPMU_SENSITIVE_CREATE = CUnion [CArray (TPM2_MAX_SYM_DATA) (CInt 1), ct_TPMS_DERIVE]"

lemma ct_TPMU_SENSITIVE_CREATE_layout [simp]: "sizeof ct_TPMU_SENSITIVE_CREATE = 256" "alignof ct_TPMU_SENSITIVE_CREATE = 2"
  by (simp_all add: ct_TPMU_SENSITIVE_CREATE_def del: One_nat_def)

definition ct_TPM2B_SENSITIVE_DATA :: ctype where
  "ct_TPM2B_SENSITIVE_DATA = CStruct [CInt 2, CArray (sizeof ct_TPMU_SENSITIVE_CREATE) (CInt 1)]"

lemma ct_TPM2B_SENSITIVE_DATA_layout [simp]: "sizeof ct_TPM2B_SENSITIVE_DATA = 258" "alignof ct_TPM2B_SENSITIVE_DATA = 2"
  by (simp_all add: ct_TPM2B_SENSITIVE_DATA_def del: One_nat_def)

definition TPM2_MAX_RSA_KEY_BYTES :: nat where
  "TPM2_MAX_RSA_KEY_BYTES = 512"

lemma TPM2_MAX_RSA_KEY_BYTES_val [simp]: "TPM2_MAX_RSA_KEY_BYTES = 512"
  by (simp add: TPM2_MAX_RSA_KEY_BYTES_def)

definition ct_TPM2B_PUBLIC_KEY_RSA :: ctype where
  "ct_TPM2B_PUBLIC_KEY_RSA = CStruct [CInt 2, CArray (TPM2_MAX_RSA_KEY_BYTES) (CInt 1)]"

lemma ct_TPM2B_PUBLIC_KEY_RSA_layout [simp]: "sizeof ct_TPM2B_PUBLIC_KEY_RSA = 514" "alignof ct_TPM2B_PUBLIC_KEY_RSA = 2"
  by (simp_all add: ct_TPM2B_PUBLIC_KEY_RSA_def del: One_nat_def)

definition ct_TPM2B_PRIVATE_KEY_RSA :: ctype where
  "ct_TPM2B_PRIVATE_KEY_RSA = CStruct [CInt 2, CArray (TPM2_MAX_RSA_KEY_BYTES div 2 * 5) (CInt 1)]"

lemma ct_TPM2B_PRIVATE_KEY_RSA_layout [simp]: "sizeof ct_TPM2B_PRIVATE_KEY_RSA = 1282" "alignof ct_TPM2B_PRIVATE_KEY_RSA = 2"
  by (simp_all add: ct_TPM2B_PRIVATE_KEY_RSA_def del: One_nat_def)

definition TPM2_MAX_ECC_KEY_BYTES :: nat where
  "TPM2_MAX_ECC_KEY_BYTES = 128"

lemma TPM2_MAX_ECC_KEY_BYTES_val [simp]: "TPM2_MAX_ECC_KEY_BYTES = 128"
  by (simp add: TPM2_MAX_ECC_KEY_BYTES_def)

definition ct_TPM2B_ECC_PARAMETER :: ctype where
  "ct_TPM2B_ECC_PARAMETER = CStruct [CInt 2, CArray (TPM2_MAX_ECC_KEY_BYTES) (CInt 1)]"

lemma ct_TPM2B_ECC_PARAMETER_layout [simp]: "sizeof ct_TPM2B_ECC_PARAMETER = 130" "alignof ct_TPM2B_ECC_PARAMETER = 2"
  by (simp_all add: ct_TPM2B_ECC_PARAMETER_def del: One_nat_def)

definition ct_TPMS_ECC_POINT :: ctype where
  "ct_TPMS_ECC_POINT = CStruct [ct_TPM2B_ECC_PARAMETER, ct_TPM2B_ECC_PARAMETER]"

lemma ct_TPMS_ECC_POINT_layout [simp]: "sizeof ct_TPMS_ECC_POINT = 260" "alignof ct_TPMS_ECC_POINT = 2"
  by (simp_all add: ct_TPMS_ECC_POINT_def del: One_nat_def)

definition TPM2_MAX_MLKEM_CIPHERTEXT_SIZE :: nat where
  "TPM2_MAX_MLKEM_CIPHERTEXT_SIZE = 1568"

lemma TPM2_MAX_MLKEM_CIPHERTEXT_SIZE_val [simp]: "TPM2_MAX_MLKEM_CIPHERTEXT_SIZE = 1568"
  by (simp add: TPM2_MAX_MLKEM_CIPHERTEXT_SIZE_def)

definition ct_TPMU_ENCRYPTED_SECRET :: ctype where
  "ct_TPMU_ENCRYPTED_SECRET = CUnion [CArray (sizeof ct_TPMS_ECC_POINT) (CInt 1),
     CArray (TPM2_MAX_RSA_KEY_BYTES) (CInt 1),
     CArray (sizeof ct_TPM2B_DIGEST) (CInt 1),
     CArray (sizeof ct_TPM2B_DIGEST) (CInt 1),
     CArray (TPM2_MAX_MLKEM_CIPHERTEXT_SIZE) (CInt 1)]"

lemma ct_TPMU_ENCRYPTED_SECRET_layout [simp]: "sizeof ct_TPMU_ENCRYPTED_SECRET = 1568" "alignof ct_TPMU_ENCRYPTED_SECRET = 1"
  by (simp_all add: ct_TPMU_ENCRYPTED_SECRET_def del: One_nat_def)

definition ct_TPM2B_ENCRYPTED_SECRET :: ctype where
  "ct_TPM2B_ENCRYPTED_SECRET = CStruct [CInt 2, CArray (sizeof ct_TPMU_ENCRYPTED_SECRET) (CInt 1)]"

lemma ct_TPM2B_ENCRYPTED_SECRET_layout [simp]: "sizeof ct_TPM2B_ENCRYPTED_SECRET = 1570" "alignof ct_TPM2B_ENCRYPTED_SECRET = 2"
  by (simp_all add: ct_TPM2B_ENCRYPTED_SECRET_def del: One_nat_def)

definition TPM2_PRIVATE_VENDOR_SPECIFIC_BYTES :: nat where
  "TPM2_PRIVATE_VENDOR_SPECIFIC_BYTES = ((TPM2_MAX_RSA_KEY_BYTES div 2) * (3 + 2))"

lemma TPM2_PRIVATE_VENDOR_SPECIFIC_BYTES_val [simp]: "TPM2_PRIVATE_VENDOR_SPECIFIC_BYTES = 1280"
  by (simp add: TPM2_PRIVATE_VENDOR_SPECIFIC_BYTES_def)

definition ct_TPM2B_PRIVATE_VENDOR_SPECIFIC :: ctype where
  "ct_TPM2B_PRIVATE_VENDOR_SPECIFIC = CStruct [CInt 2, CArray (TPM2_PRIVATE_VENDOR_SPECIFIC_BYTES) (CInt 1)]"

lemma ct_TPM2B_PRIVATE_VENDOR_SPECIFIC_layout [simp]: "sizeof ct_TPM2B_PRIVATE_VENDOR_SPECIFIC = 1282" "alignof ct_TPM2B_PRIVATE_VENDOR_SPECIFIC = 2"
  by (simp_all add: ct_TPM2B_PRIVATE_VENDOR_SPECIFIC_def del: One_nat_def)

definition TPM2_MLKEM_PRIVATE_KEY_SIZE :: nat where
  "TPM2_MLKEM_PRIVATE_KEY_SIZE = 64"

lemma TPM2_MLKEM_PRIVATE_KEY_SIZE_val [simp]: "TPM2_MLKEM_PRIVATE_KEY_SIZE = 64"
  by (simp add: TPM2_MLKEM_PRIVATE_KEY_SIZE_def)

definition ct_TPM2B_MLKEM_PRIVATE_KEY :: ctype where
  "ct_TPM2B_MLKEM_PRIVATE_KEY = CStruct [CInt 2, CArray (TPM2_MLKEM_PRIVATE_KEY_SIZE) (CInt 1)]"

lemma ct_TPM2B_MLKEM_PRIVATE_KEY_layout [simp]: "sizeof ct_TPM2B_MLKEM_PRIVATE_KEY = 66" "alignof ct_TPM2B_MLKEM_PRIVATE_KEY = 2"
  by (simp_all add: ct_TPM2B_MLKEM_PRIVATE_KEY_def del: One_nat_def)

definition TPM2_MLDSA_PRIVATE_KEY_SIZE :: nat where
  "TPM2_MLDSA_PRIVATE_KEY_SIZE = 32"

lemma TPM2_MLDSA_PRIVATE_KEY_SIZE_val [simp]: "TPM2_MLDSA_PRIVATE_KEY_SIZE = 32"
  by (simp add: TPM2_MLDSA_PRIVATE_KEY_SIZE_def)

definition ct_TPM2B_MLDSA_PRIVATE_KEY :: ctype where
  "ct_TPM2B_MLDSA_PRIVATE_KEY = CStruct [CInt 2, CArray (TPM2_MLDSA_PRIVATE_KEY_SIZE) (CInt 1)]"

lemma ct_TPM2B_MLDSA_PRIVATE_KEY_layout [simp]: "sizeof ct_TPM2B_MLDSA_PRIVATE_KEY = 34" "alignof ct_TPM2B_MLDSA_PRIVATE_KEY = 2"
  by (simp_all add: ct_TPM2B_MLDSA_PRIVATE_KEY_def del: One_nat_def)

definition ct_TPMU_SENSITIVE_COMPOSITE :: ctype where
  "ct_TPMU_SENSITIVE_COMPOSITE = CUnion [ct_TPM2B_PRIVATE_KEY_RSA,
     ct_TPM2B_ECC_PARAMETER,
     ct_TPM2B_SENSITIVE_DATA,
     ct_TPM2B_SYM_KEY,
     ct_TPM2B_PRIVATE_VENDOR_SPECIFIC,
     ct_TPM2B_MLKEM_PRIVATE_KEY,
     ct_TPM2B_MLDSA_PRIVATE_KEY]"

lemma ct_TPMU_SENSITIVE_COMPOSITE_layout [simp]: "sizeof ct_TPMU_SENSITIVE_COMPOSITE = 1282" "alignof ct_TPMU_SENSITIVE_COMPOSITE = 2"
  by (simp_all add: ct_TPMU_SENSITIVE_COMPOSITE_def del: One_nat_def)

definition ct_TPMT_SENSITIVE :: ctype where
  "ct_TPMT_SENSITIVE = CStruct [CInt 2,
     ct_TPM2B_DIGEST,
     ct_TPM2B_DIGEST,
     ct_TPMU_SENSITIVE_COMPOSITE]"

lemma ct_TPMT_SENSITIVE_layout [simp]: "sizeof ct_TPMT_SENSITIVE = 1416" "alignof ct_TPMT_SENSITIVE = 2"
  by (simp_all add: ct_TPMT_SENSITIVE_def del: One_nat_def)

definition ct_TPM2B_SENSITIVE :: ctype where
  "ct_TPM2B_SENSITIVE = CStruct [CInt 2, ct_TPMT_SENSITIVE]"

lemma ct_TPM2B_SENSITIVE_layout [simp]: "sizeof ct_TPM2B_SENSITIVE = 1418" "alignof ct_TPM2B_SENSITIVE = 2"
  by (simp_all add: ct_TPM2B_SENSITIVE_def del: One_nat_def)

definition ct_PRIVATE :: ctype where
  "ct_PRIVATE = CStruct [ct_TPM2B_DIGEST, ct_TPM2B_DIGEST, ct_TPM2B_SENSITIVE]"

lemma ct_PRIVATE_layout [simp]: "sizeof ct_PRIVATE = 1550" "alignof ct_PRIVATE = 2"
  by (simp_all add: ct_PRIVATE_def del: One_nat_def)

definition ct_TPM2B_PRIVATE :: ctype where
  "ct_TPM2B_PRIVATE = CStruct [CInt 2, CArray (sizeof ct_PRIVATE) (CInt 1)]"

lemma ct_TPM2B_PRIVATE_layout [simp]: "sizeof ct_TPM2B_PRIVATE = 1552" "alignof ct_TPM2B_PRIVATE = 2"
  by (simp_all add: ct_TPM2B_PRIVATE_def del: One_nat_def)

definition ct_TPMS_ID_OBJECT :: ctype where
  "ct_TPMS_ID_OBJECT = CStruct [ct_TPM2B_DIGEST, ct_TPM2B_DIGEST]"

lemma ct_TPMS_ID_OBJECT_layout [simp]: "sizeof ct_TPMS_ID_OBJECT = 132" "alignof ct_TPMS_ID_OBJECT = 2"
  by (simp_all add: ct_TPMS_ID_OBJECT_def del: One_nat_def)

definition ct_TPM2B_ID_OBJECT :: ctype where
  "ct_TPM2B_ID_OBJECT = CStruct [CInt 2, CArray (sizeof ct_TPMS_ID_OBJECT) (CInt 1)]"

lemma ct_TPM2B_ID_OBJECT_layout [simp]: "sizeof ct_TPM2B_ID_OBJECT = 134" "alignof ct_TPM2B_ID_OBJECT = 2"
  by (simp_all add: ct_TPM2B_ID_OBJECT_def del: One_nat_def)

definition TPM2_MAX_CONTEXT_SIZE :: nat where
  "TPM2_MAX_CONTEXT_SIZE = 5120"

lemma TPM2_MAX_CONTEXT_SIZE_val [simp]: "TPM2_MAX_CONTEXT_SIZE = 5120"
  by (simp add: TPM2_MAX_CONTEXT_SIZE_def)

definition ct_TPM2B_CONTEXT_SENSITIVE :: ctype where
  "ct_TPM2B_CONTEXT_SENSITIVE = CStruct [CInt 2, CArray (TPM2_MAX_CONTEXT_SIZE) (CInt 1)]"

lemma ct_TPM2B_CONTEXT_SENSITIVE_layout [simp]: "sizeof ct_TPM2B_CONTEXT_SENSITIVE = 5122" "alignof ct_TPM2B_CONTEXT_SENSITIVE = 2"
  by (simp_all add: ct_TPM2B_CONTEXT_SENSITIVE_def del: One_nat_def)

definition ct_TPMS_CONTEXT_DATA :: ctype where
  "ct_TPMS_CONTEXT_DATA = CStruct [ct_TPM2B_DIGEST, ct_TPM2B_CONTEXT_SENSITIVE]"

lemma ct_TPMS_CONTEXT_DATA_layout [simp]: "sizeof ct_TPMS_CONTEXT_DATA = 5188" "alignof ct_TPMS_CONTEXT_DATA = 2"
  by (simp_all add: ct_TPMS_CONTEXT_DATA_def del: One_nat_def)

definition ct_TPM2B_CONTEXT_DATA :: ctype where
  "ct_TPM2B_CONTEXT_DATA = CStruct [CInt 2, CArray (sizeof ct_TPMS_CONTEXT_DATA) (CInt 1)]"

lemma ct_TPM2B_CONTEXT_DATA_layout [simp]: "sizeof ct_TPM2B_CONTEXT_DATA = 5190" "alignof ct_TPM2B_CONTEXT_DATA = 2"
  by (simp_all add: ct_TPM2B_CONTEXT_DATA_def del: One_nat_def)

definition ct_TPMS_SCHEME_HASH :: ctype where
  "ct_TPMS_SCHEME_HASH = CStruct [CInt 2]"

lemma ct_TPMS_SCHEME_HASH_layout [simp]: "sizeof ct_TPMS_SCHEME_HASH = 2" "alignof ct_TPMS_SCHEME_HASH = 2"
  by (simp_all add: ct_TPMS_SCHEME_HASH_def del: One_nat_def)

definition ct_TPMS_SCHEME_XOR :: ctype where
  "ct_TPMS_SCHEME_XOR = CStruct [CInt 2, CInt 2]"

lemma ct_TPMS_SCHEME_XOR_layout [simp]: "sizeof ct_TPMS_SCHEME_XOR = 4" "alignof ct_TPMS_SCHEME_XOR = 2"
  by (simp_all add: ct_TPMS_SCHEME_XOR_def del: One_nat_def)

definition ct_TPMS_EMPTY :: ctype where
  "ct_TPMS_EMPTY = CStruct [CArray (1) (CInt 1)]"

lemma ct_TPMS_EMPTY_layout [simp]: "sizeof ct_TPMS_EMPTY = 1" "alignof ct_TPMS_EMPTY = 1"
  by (simp_all add: ct_TPMS_EMPTY_def del: One_nat_def)

definition ct_TPMU_SCHEME_KEYEDHASH :: ctype where
  "ct_TPMU_SCHEME_KEYEDHASH = CUnion [ct_TPMS_SCHEME_HASH, ct_TPMS_SCHEME_XOR, ct_TPMS_EMPTY]"

lemma ct_TPMU_SCHEME_KEYEDHASH_layout [simp]: "sizeof ct_TPMU_SCHEME_KEYEDHASH = 4" "alignof ct_TPMU_SCHEME_KEYEDHASH = 2"
  by (simp_all add: ct_TPMU_SCHEME_KEYEDHASH_def del: One_nat_def)

definition ct_TPMT_KEYEDHASH_SCHEME :: ctype where
  "ct_TPMT_KEYEDHASH_SCHEME = CStruct [CInt 2, ct_TPMU_SCHEME_KEYEDHASH]"

lemma ct_TPMT_KEYEDHASH_SCHEME_layout [simp]: "sizeof ct_TPMT_KEYEDHASH_SCHEME = 6" "alignof ct_TPMT_KEYEDHASH_SCHEME = 2"
  by (simp_all add: ct_TPMT_KEYEDHASH_SCHEME_def del: One_nat_def)

definition ct_TPMS_KEYEDHASH_PARMS :: ctype where
  "ct_TPMS_KEYEDHASH_PARMS = CStruct [ct_TPMT_KEYEDHASH_SCHEME]"

lemma ct_TPMS_KEYEDHASH_PARMS_layout [simp]: "sizeof ct_TPMS_KEYEDHASH_PARMS = 6" "alignof ct_TPMS_KEYEDHASH_PARMS = 2"
  by (simp_all add: ct_TPMS_KEYEDHASH_PARMS_def del: One_nat_def)

definition ct_TPMU_SYM_KEY_BITS :: ctype where
  "ct_TPMU_SYM_KEY_BITS = CUnion [CInt 2, CInt 2, CInt 2, CInt 2, CInt 2, ct_TPMS_EMPTY]"

lemma ct_TPMU_SYM_KEY_BITS_layout [simp]: "sizeof ct_TPMU_SYM_KEY_BITS = 2" "alignof ct_TPMU_SYM_KEY_BITS = 2"
  by (simp_all add: ct_TPMU_SYM_KEY_BITS_def del: One_nat_def)

definition ct_TPMU_SYM_MODE :: ctype where
  "ct_TPMU_SYM_MODE = CUnion [CInt 2, CInt 2, CInt 2, CInt 2, ct_TPMS_EMPTY, ct_TPMS_EMPTY]"

lemma ct_TPMU_SYM_MODE_layout [simp]: "sizeof ct_TPMU_SYM_MODE = 2" "alignof ct_TPMU_SYM_MODE = 2"
  by (simp_all add: ct_TPMU_SYM_MODE_def del: One_nat_def)

definition ct_TPMT_SYM_DEF_OBJECT :: ctype where
  "ct_TPMT_SYM_DEF_OBJECT = CStruct [CInt 2, ct_TPMU_SYM_KEY_BITS, ct_TPMU_SYM_MODE]"

lemma ct_TPMT_SYM_DEF_OBJECT_layout [simp]: "sizeof ct_TPMT_SYM_DEF_OBJECT = 6" "alignof ct_TPMT_SYM_DEF_OBJECT = 2"
  by (simp_all add: ct_TPMT_SYM_DEF_OBJECT_def del: One_nat_def)

definition ct_TPMS_SYMCIPHER_PARMS :: ctype where
  "ct_TPMS_SYMCIPHER_PARMS = CStruct [ct_TPMT_SYM_DEF_OBJECT]"

lemma ct_TPMS_SYMCIPHER_PARMS_layout [simp]: "sizeof ct_TPMS_SYMCIPHER_PARMS = 6" "alignof ct_TPMS_SYMCIPHER_PARMS = 2"
  by (simp_all add: ct_TPMS_SYMCIPHER_PARMS_def del: One_nat_def)

definition ct_TPMS_SCHEME_ECDAA :: ctype where
  "ct_TPMS_SCHEME_ECDAA = CStruct [CInt 2, CInt 2]"

lemma ct_TPMS_SCHEME_ECDAA_layout [simp]: "sizeof ct_TPMS_SCHEME_ECDAA = 4" "alignof ct_TPMS_SCHEME_ECDAA = 2"
  by (simp_all add: ct_TPMS_SCHEME_ECDAA_def del: One_nat_def)

definition ct_TPMU_ASYM_SCHEME :: ctype where
  "ct_TPMU_ASYM_SCHEME = CUnion [ct_TPMS_SCHEME_HASH,
     ct_TPMS_SCHEME_HASH,
     ct_TPMS_SCHEME_HASH,
     ct_TPMS_SCHEME_HASH,
     ct_TPMS_SCHEME_HASH,
     ct_TPMS_SCHEME_ECDAA,
     ct_TPMS_SCHEME_HASH,
     ct_TPMS_SCHEME_HASH,
     ct_TPMS_EMPTY,
     ct_TPMS_SCHEME_HASH,
     ct_TPMS_SCHEME_HASH,
     ct_TPMS_SCHEME_HASH,
     ct_TPMS_EMPTY]"

lemma ct_TPMU_ASYM_SCHEME_layout [simp]: "sizeof ct_TPMU_ASYM_SCHEME = 4" "alignof ct_TPMU_ASYM_SCHEME = 2"
  by (simp_all add: ct_TPMU_ASYM_SCHEME_def del: One_nat_def)

definition ct_TPMT_RSA_SCHEME :: ctype where
  "ct_TPMT_RSA_SCHEME = CStruct [CInt 2, ct_TPMU_ASYM_SCHEME]"

lemma ct_TPMT_RSA_SCHEME_layout [simp]: "sizeof ct_TPMT_RSA_SCHEME = 6" "alignof ct_TPMT_RSA_SCHEME = 2"
  by (simp_all add: ct_TPMT_RSA_SCHEME_def del: One_nat_def)

definition ct_TPMS_RSA_PARMS :: ctype where
  "ct_TPMS_RSA_PARMS = CStruct [ct_TPMT_SYM_DEF_OBJECT, ct_TPMT_RSA_SCHEME, CInt 2, CInt 4]"

lemma ct_TPMS_RSA_PARMS_layout [simp]: "sizeof ct_TPMS_RSA_PARMS = 20" "alignof ct_TPMS_RSA_PARMS = 4"
  by (simp_all add: ct_TPMS_RSA_PARMS_def del: One_nat_def)

definition ct_TPMT_ECC_SCHEME :: ctype where
  "ct_TPMT_ECC_SCHEME = CStruct [CInt 2, ct_TPMU_ASYM_SCHEME]"

lemma ct_TPMT_ECC_SCHEME_layout [simp]: "sizeof ct_TPMT_ECC_SCHEME = 6" "alignof ct_TPMT_ECC_SCHEME = 2"
  by (simp_all add: ct_TPMT_ECC_SCHEME_def del: One_nat_def)

definition ct_TPMU_KDF_SCHEME :: ctype where
  "ct_TPMU_KDF_SCHEME = CUnion [ct_TPMS_SCHEME_HASH,
     ct_TPMS_SCHEME_HASH,
     ct_TPMS_SCHEME_HASH,
     ct_TPMS_SCHEME_HASH,
     ct_TPMS_EMPTY]"

lemma ct_TPMU_KDF_SCHEME_layout [simp]: "sizeof ct_TPMU_KDF_SCHEME = 2" "alignof ct_TPMU_KDF_SCHEME = 2"
  by (simp_all add: ct_TPMU_KDF_SCHEME_def del: One_nat_def)

definition ct_TPMT_KDF_SCHEME :: ctype where
  "ct_TPMT_KDF_SCHEME = CStruct [CInt 2, ct_TPMU_KDF_SCHEME]"

lemma ct_TPMT_KDF_SCHEME_layout [simp]: "sizeof ct_TPMT_KDF_SCHEME = 4" "alignof ct_TPMT_KDF_SCHEME = 2"
  by (simp_all add: ct_TPMT_KDF_SCHEME_def del: One_nat_def)

definition ct_TPMS_ECC_PARMS :: ctype where
  "ct_TPMS_ECC_PARMS = CStruct [ct_TPMT_SYM_DEF_OBJECT,
     ct_TPMT_ECC_SCHEME,
     CInt 2,
     ct_TPMT_KDF_SCHEME]"

lemma ct_TPMS_ECC_PARMS_layout [simp]: "sizeof ct_TPMS_ECC_PARMS = 18" "alignof ct_TPMS_ECC_PARMS = 2"
  by (simp_all add: ct_TPMS_ECC_PARMS_def del: One_nat_def)

definition ct_TPMS_ML_PARAMETER_SET :: ctype where
  "ct_TPMS_ML_PARAMETER_SET = CStruct [CInt 4]"

lemma ct_TPMS_ML_PARAMETER_SET_layout [simp]: "sizeof ct_TPMS_ML_PARAMETER_SET = 4" "alignof ct_TPMS_ML_PARAMETER_SET = 4"
  by (simp_all add: ct_TPMS_ML_PARAMETER_SET_def del: One_nat_def)

definition ct_TPMS_MLKEM_PARMS :: ctype where
  "ct_TPMS_MLKEM_PARMS = CStruct [CInt 2, ct_TPMS_ML_PARAMETER_SET]"

lemma ct_TPMS_MLKEM_PARMS_layout [simp]: "sizeof ct_TPMS_MLKEM_PARMS = 8" "alignof ct_TPMS_MLKEM_PARMS = 4"
  by (simp_all add: ct_TPMS_MLKEM_PARMS_def del: One_nat_def)

definition ct_TPMS_MLDSA_PARMS :: ctype where
  "ct_TPMS_MLDSA_PARMS = CStruct [CInt 2, ct_TPMS_ML_PARAMETER_SET]"

lemma ct_TPMS_MLDSA_PARMS_layout [simp]: "sizeof ct_TPMS_MLDSA_PARMS = 8" "alignof ct_TPMS_MLDSA_PARMS = 4"
  by (simp_all add: ct_TPMS_MLDSA_PARMS_def del: One_nat_def)

definition ct_TPMS_HASH_MLDSA_PARMS :: ctype where
  "ct_TPMS_HASH_MLDSA_PARMS = CStruct [CInt 2, ct_TPMS_ML_PARAMETER_SET]"

lemma ct_TPMS_HASH_MLDSA_PARMS_layout [simp]: "sizeof ct_TPMS_HASH_MLDSA_PARMS = 8" "alignof ct_TPMS_HASH_MLDSA_PARMS = 4"
  by (simp_all add: ct_TPMS_HASH_MLDSA_PARMS_def del: One_nat_def)

definition ct_TPMT_ASYM_SCHEME :: ctype where
  "ct_TPMT_ASYM_SCHEME = CStruct [CInt 2, ct_TPMU_ASYM_SCHEME]"

lemma ct_TPMT_ASYM_SCHEME_layout [simp]: "sizeof ct_TPMT_ASYM_SCHEME = 6" "alignof ct_TPMT_ASYM_SCHEME = 2"
  by (simp_all add: ct_TPMT_ASYM_SCHEME_def del: One_nat_def)

definition ct_TPMS_ASYM_PARMS :: ctype where
  "ct_TPMS_ASYM_PARMS = CStruct [ct_TPMT_SYM_DEF_OBJECT, ct_TPMT_ASYM_SCHEME]"

lemma ct_TPMS_ASYM_PARMS_layout [simp]: "sizeof ct_TPMS_ASYM_PARMS = 12" "alignof ct_TPMS_ASYM_PARMS = 2"
  by (simp_all add: ct_TPMS_ASYM_PARMS_def del: One_nat_def)

definition ct_TPMU_PUBLIC_PARMS :: ctype where
  "ct_TPMU_PUBLIC_PARMS = CUnion [ct_TPMS_KEYEDHASH_PARMS,
     ct_TPMS_SYMCIPHER_PARMS,
     ct_TPMS_RSA_PARMS,
     ct_TPMS_ECC_PARMS,
     ct_TPMS_MLKEM_PARMS,
     ct_TPMS_MLDSA_PARMS,
     ct_TPMS_HASH_MLDSA_PARMS,
     ct_TPMS_ASYM_PARMS]"

lemma ct_TPMU_PUBLIC_PARMS_layout [simp]: "sizeof ct_TPMU_PUBLIC_PARMS = 20" "alignof ct_TPMU_PUBLIC_PARMS = 4"
  by (simp_all add: ct_TPMU_PUBLIC_PARMS_def del: One_nat_def)

definition TPM2_MAX_MLKEM_PUBLIC_KEY_SIZE :: nat where
  "TPM2_MAX_MLKEM_PUBLIC_KEY_SIZE = 1568"

lemma TPM2_MAX_MLKEM_PUBLIC_KEY_SIZE_val [simp]: "TPM2_MAX_MLKEM_PUBLIC_KEY_SIZE = 1568"
  by (simp add: TPM2_MAX_MLKEM_PUBLIC_KEY_SIZE_def)

definition ct_TPM2B_MLKEM_PUBLIC_KEY :: ctype where
  "ct_TPM2B_MLKEM_PUBLIC_KEY = CStruct [CInt 2, CArray (TPM2_MAX_MLKEM_PUBLIC_KEY_SIZE) (CInt 1)]"

lemma ct_TPM2B_MLKEM_PUBLIC_KEY_layout [simp]: "sizeof ct_TPM2B_MLKEM_PUBLIC_KEY = 1570" "alignof ct_TPM2B_MLKEM_PUBLIC_KEY = 2"
  by (simp_all add: ct_TPM2B_MLKEM_PUBLIC_KEY_def del: One_nat_def)

definition TPM2_MAX_MLDSA_PUBLIC_KEY_SIZE :: nat where
  "TPM2_MAX_MLDSA_PUBLIC_KEY_SIZE = 2592"

lemma TPM2_MAX_MLDSA_PUBLIC_KEY_SIZE_val [simp]: "TPM2_MAX_MLDSA_PUBLIC_KEY_SIZE = 2592"
  by (simp add: TPM2_MAX_MLDSA_PUBLIC_KEY_SIZE_def)

definition ct_TPM2B_MLDSA_PUBLIC_KEY :: ctype where
  "ct_TPM2B_MLDSA_PUBLIC_KEY = CStruct [CInt 2, CArray (TPM2_MAX_MLDSA_PUBLIC_KEY_SIZE) (CInt 1)]"

lemma ct_TPM2B_MLDSA_PUBLIC_KEY_layout [simp]: "sizeof ct_TPM2B_MLDSA_PUBLIC_KEY = 2594" "alignof ct_TPM2B_MLDSA_PUBLIC_KEY = 2"
  by (simp_all add: ct_TPM2B_MLDSA_PUBLIC_KEY_def del: One_nat_def)

definition ct_TPMU_PUBLIC_ID :: ctype where
  "ct_TPMU_PUBLIC_ID = CUnion [ct_TPM2B_DIGEST,
     ct_TPM2B_DIGEST,
     ct_TPM2B_PUBLIC_KEY_RSA,
     ct_TPMS_ECC_POINT,
     ct_TPMS_DERIVE,
     ct_TPM2B_MLKEM_PUBLIC_KEY,
     ct_TPM2B_MLDSA_PUBLIC_KEY]"

lemma ct_TPMU_PUBLIC_ID_layout [simp]: "sizeof ct_TPMU_PUBLIC_ID = 2594" "alignof ct_TPMU_PUBLIC_ID = 2"
  by (simp_all add: ct_TPMU_PUBLIC_ID_def del: One_nat_def)

definition ct_TPMT_PUBLIC :: ctype where
  "ct_TPMT_PUBLIC = CStruct [CInt 2,
     CInt 2,
     CInt 4,
     ct_TPM2B_DIGEST,
     ct_TPMU_PUBLIC_PARMS,
     ct_TPMU_PUBLIC_ID]"

lemma ct_TPMT_PUBLIC_layout [simp]: "sizeof ct_TPMT_PUBLIC = 2692" "alignof ct_TPMT_PUBLIC = 4"
  by (simp_all add: ct_TPMT_PUBLIC_def del: One_nat_def)

definition ct_TPM2B_TEMPLATE :: ctype where
  "ct_TPM2B_TEMPLATE = CStruct [CInt 2, CArray (sizeof ct_TPMT_PUBLIC) (CInt 1)]"

lemma ct_TPM2B_TEMPLATE_layout [simp]: "sizeof ct_TPM2B_TEMPLATE = 2694" "alignof ct_TPM2B_TEMPLATE = 2"
  by (simp_all add: ct_TPM2B_TEMPLATE_def del: One_nat_def)

definition TPM2_MAX_CAP_BUFFER :: nat where
  "TPM2_MAX_CAP_BUFFER = 1024"

lemma TPM2_MAX_CAP_BUFFER_val [simp]: "TPM2_MAX_CAP_BUFFER = 1024"
  by (simp add: TPM2_MAX_CAP_BUFFER_def)

definition ct_TPM2B_MAX_CAP_BUFFER :: ctype where
  "ct_TPM2B_MAX_CAP_BUFFER = CStruct [CInt 2, CArray (TPM2_MAX_CAP_BUFFER) (CInt 1)]"

lemma ct_TPM2B_MAX_CAP_BUFFER_layout [simp]: "sizeof ct_TPM2B_MAX_CAP_BUFFER = 1026" "alignof ct_TPM2B_MAX_CAP_BUFFER = 2"
  by (simp_all add: ct_TPM2B_MAX_CAP_BUFFER_def del: One_nat_def)

definition ct_TPM2B_ECC_POINT :: ctype where
  "ct_TPM2B_ECC_POINT = CStruct [CInt 2, ct_TPMS_ECC_POINT]"

lemma ct_TPM2B_ECC_POINT_layout [simp]: "sizeof ct_TPM2B_ECC_POINT = 262" "alignof ct_TPM2B_ECC_POINT = 2"
  by (simp_all add: ct_TPM2B_ECC_POINT_def del: One_nat_def)

definition ct_TPMS_NV_PUBLIC :: ctype where
  "ct_TPMS_NV_PUBLIC = CStruct [CInt 4, CInt 2, CInt 4, ct_TPM2B_DIGEST, CInt 2]"

lemma ct_TPMS_NV_PUBLIC_layout [simp]: "sizeof ct_TPMS_NV_PUBLIC = 80" "alignof ct_TPMS_NV_PUBLIC = 4"
  by (simp_all add: ct_TPMS_NV_PUBLIC_def del: One_nat_def)

definition ct_TPM2B_NV_PUBLIC :: ctype where
  "ct_TPM2B_NV_PUBLIC = CStruct [CInt 2, ct_TPMS_NV_PUBLIC]"

lemma ct_TPM2B_NV_PUBLIC_layout [simp]: "sizeof ct_TPM2B_NV_PUBLIC = 84" "alignof ct_TPM2B_NV_PUBLIC = 4"
  by (simp_all add: ct_TPM2B_NV_PUBLIC_def del: One_nat_def)

definition ct_TPMS_SENSITIVE_CREATE :: ctype where
  "ct_TPMS_SENSITIVE_CREATE = CStruct [ct_TPM2B_DIGEST, ct_TPM2B_SENSITIVE_DATA]"

lemma ct_TPMS_SENSITIVE_CREATE_layout [simp]: "sizeof ct_TPMS_SENSITIVE_CREATE = 324" "alignof ct_TPMS_SENSITIVE_CREATE = 2"
  by (simp_all add: ct_TPMS_SENSITIVE_CREATE_def del: One_nat_def)

definition ct_TPM2B_SENSITIVE_CREATE :: ctype where
  "ct_TPM2B_SENSITIVE_CREATE = CStruct [CInt 2, ct_TPMS_SENSITIVE_CREATE]"

lemma ct_TPM2B_SENSITIVE_CREATE_layout [simp]: "sizeof ct_TPM2B_SENSITIVE_CREATE = 326" "alignof ct_TPM2B_SENSITIVE_CREATE = 2"
  by (simp_all add: ct_TPM2B_SENSITIVE_CREATE_def del: One_nat_def)

definition ct_TPMS_CREATION_DATA :: ctype where
  "ct_TPMS_CREATION_DATA = CStruct [ct_TPML_PCR_SELECTION,
     ct_TPM2B_DIGEST,
     CInt 1,
     CInt 2,
     ct_TPM2B_NAME,
     ct_TPM2B_NAME,
     ct_TPM2B_DATA]"

lemma ct_TPMS_CREATION_DATA_layout [simp]: "sizeof ct_TPMS_CREATION_DATA = 408" "alignof ct_TPMS_CREATION_DATA = 4"
  by (simp_all add: ct_TPMS_CREATION_DATA_def del: One_nat_def)

definition ct_TPM2B_CREATION_DATA :: ctype where
  "ct_TPM2B_CREATION_DATA = CStruct [CInt 2, ct_TPMS_CREATION_DATA]"

lemma ct_TPM2B_CREATION_DATA_layout [simp]: "sizeof ct_TPM2B_CREATION_DATA = 412" "alignof ct_TPM2B_CREATION_DATA = 4"
  by (simp_all add: ct_TPM2B_CREATION_DATA_def del: One_nat_def)

definition ct_TPM2B_PUBLIC :: ctype where
  "ct_TPM2B_PUBLIC = CStruct [CInt 2, ct_TPMT_PUBLIC]"

lemma ct_TPM2B_PUBLIC_layout [simp]: "sizeof ct_TPM2B_PUBLIC = 2696" "alignof ct_TPM2B_PUBLIC = 4"
  by (simp_all add: ct_TPM2B_PUBLIC_def del: One_nat_def)

definition ct_TPM2B_MLKEM_CIPHERTEXT :: ctype where
  "ct_TPM2B_MLKEM_CIPHERTEXT = CStruct [CInt 2, CArray (TPM2_MAX_MLKEM_CIPHERTEXT_SIZE) (CInt 1)]"

lemma ct_TPM2B_MLKEM_CIPHERTEXT_layout [simp]: "sizeof ct_TPM2B_MLKEM_CIPHERTEXT = 1570" "alignof ct_TPM2B_MLKEM_CIPHERTEXT = 2"
  by (simp_all add: ct_TPM2B_MLKEM_CIPHERTEXT_def del: One_nat_def)

definition TPM2_MAX_MLDSA_SIGNATURE_SIZE :: nat where
  "TPM2_MAX_MLDSA_SIGNATURE_SIZE = 4627"

lemma TPM2_MAX_MLDSA_SIGNATURE_SIZE_val [simp]: "TPM2_MAX_MLDSA_SIGNATURE_SIZE = 4627"
  by (simp add: TPM2_MAX_MLDSA_SIGNATURE_SIZE_def)

definition ct_TPM2B_MLDSA_SIGNATURE :: ctype where
  "ct_TPM2B_MLDSA_SIGNATURE = CStruct [CInt 2, CArray (TPM2_MAX_MLDSA_SIGNATURE_SIZE) (CInt 1)]"

lemma ct_TPM2B_MLDSA_SIGNATURE_layout [simp]: "sizeof ct_TPM2B_MLDSA_SIGNATURE = 4630" "alignof ct_TPM2B_MLDSA_SIGNATURE = 2"
  by (simp_all add: ct_TPM2B_MLDSA_SIGNATURE_def del: One_nat_def)

definition TPM2_MAX_CAP_CC :: nat where
  "TPM2_MAX_CAP_CC = 256"

lemma TPM2_MAX_CAP_CC_val [simp]: "TPM2_MAX_CAP_CC = 256"
  by (simp add: TPM2_MAX_CAP_CC_def)

definition ct_TPML_CC :: ctype where
  "ct_TPML_CC = CStruct [CInt 4, CArray (TPM2_MAX_CAP_CC) (CInt 4)]"

lemma ct_TPML_CC_layout [simp]: "sizeof ct_TPML_CC = 1028" "alignof ct_TPML_CC = 4"
  by (simp_all add: ct_TPML_CC_def del: One_nat_def)

definition ct_TPML_CCA :: ctype where
  "ct_TPML_CCA = CStruct [CInt 4, CArray (TPM2_MAX_CAP_CC) (CInt 4)]"

lemma ct_TPML_CCA_layout [simp]: "sizeof ct_TPML_CCA = 1028" "alignof ct_TPML_CCA = 4"
  by (simp_all add: ct_TPML_CCA_def del: One_nat_def)

definition TPM2_MAX_ALG_LIST_SIZE :: nat where
  "TPM2_MAX_ALG_LIST_SIZE = 128"

lemma TPM2_MAX_ALG_LIST_SIZE_val [simp]: "TPM2_MAX_ALG_LIST_SIZE = 128"
  by (simp add: TPM2_MAX_ALG_LIST_SIZE_def)

definition ct_TPML_ALG :: ctype where
  "ct_TPML_ALG = CStruct [CInt 4, CArray (TPM2_MAX_ALG_LIST_SIZE) (CInt 2)]"

lemma ct_TPML_ALG_layout [simp]: "sizeof ct_TPML_ALG = 260" "alignof ct_TPML_ALG = 4"
  by (simp_all add: ct_TPML_ALG_def del: One_nat_def)

definition TPM2_MAX_CAP_HANDLES :: nat where
  "TPM2_MAX_CAP_HANDLES = ((TPM2_MAX_CAP_BUFFER - sizeof (CInt 4) - sizeof (CInt 4)) div sizeof (CInt 4))"

lemma TPM2_MAX_CAP_HANDLES_val [simp]: "TPM2_MAX_CAP_HANDLES = 254"
  by (simp add: TPM2_MAX_CAP_HANDLES_def)

definition ct_TPML_HANDLE :: ctype where
  "ct_TPML_HANDLE = CStruct [CInt 4, CArray (TPM2_MAX_CAP_HANDLES) (CInt 4)]"

lemma ct_TPML_HANDLE_layout [simp]: "sizeof ct_TPML_HANDLE = 1020" "alignof ct_TPML_HANDLE = 4"
  by (simp_all add: ct_TPML_HANDLE_def del: One_nat_def)

definition ct_TPML_DIGEST :: ctype where
  "ct_TPML_DIGEST = CStruct [CInt 4, CArray (8) ct_TPM2B_DIGEST]"

lemma ct_TPML_DIGEST_layout [simp]: "sizeof ct_TPML_DIGEST = 532" "alignof ct_TPML_DIGEST = 4"
  by (simp_all add: ct_TPML_DIGEST_def del: One_nat_def)

definition ct_TPMS_ALG_PROPERTY :: ctype where
  "ct_TPMS_ALG_PROPERTY = CStruct [CInt 2, CInt 4]"

lemma ct_TPMS_ALG_PROPERTY_layout [simp]: "sizeof ct_TPMS_ALG_PROPERTY = 8" "alignof ct_TPMS_ALG_PROPERTY = 4"
  by (simp_all add: ct_TPMS_ALG_PROPERTY_def del: One_nat_def)

definition TPM2_MAX_CAP_ALGS :: nat where
  "TPM2_MAX_CAP_ALGS = ((TPM2_MAX_CAP_BUFFER - sizeof (CInt 4) - sizeof (CInt 4)) div sizeof ct_TPMS_ALG_PROPERTY)"

lemma TPM2_MAX_CAP_ALGS_val [simp]: "TPM2_MAX_CAP_ALGS = 127"
  by (simp add: TPM2_MAX_CAP_ALGS_def)

definition ct_TPML_ALG_PROPERTY :: ctype where
  "ct_TPML_ALG_PROPERTY = CStruct [CInt 4, CArray (TPM2_MAX_CAP_ALGS) ct_TPMS_ALG_PROPERTY]"

lemma ct_TPML_ALG_PROPERTY_layout [simp]: "sizeof ct_TPML_ALG_PROPERTY = 1020" "alignof ct_TPML_ALG_PROPERTY = 4"
  by (simp_all add: ct_TPML_ALG_PROPERTY_def del: One_nat_def)

definition TPM2_MAX_ECC_CURVES :: nat where
  "TPM2_MAX_ECC_CURVES = ((TPM2_MAX_CAP_BUFFER - sizeof (CInt 4) - sizeof (CInt 4)) div sizeof (CInt 2))"

lemma TPM2_MAX_ECC_CURVES_val [simp]: "TPM2_MAX_ECC_CURVES = 508"
  by (simp add: TPM2_MAX_ECC_CURVES_def)

definition ct_TPML_ECC_CURVE :: ctype where
  "ct_TPML_ECC_CURVE = CStruct [CInt 4, CArray (TPM2_MAX_ECC_CURVES) (CInt 2)]"

lemma ct_TPML_ECC_CURVE_layout [simp]: "sizeof ct_TPML_ECC_CURVE = 1020" "alignof ct_TPML_ECC_CURVE = 4"
  by (simp_all add: ct_TPML_ECC_CURVE_def del: One_nat_def)

definition ct_TPMS_TAGGED_PROPERTY :: ctype where
  "ct_TPMS_TAGGED_PROPERTY = CStruct [CInt 4, CInt 4]"

lemma ct_TPMS_TAGGED_PROPERTY_layout [simp]: "sizeof ct_TPMS_TAGGED_PROPERTY = 8" "alignof ct_TPMS_TAGGED_PROPERTY = 4"
  by (simp_all add: ct_TPMS_TAGGED_PROPERTY_def del: One_nat_def)

definition TPM2_MAX_TPM_PROPERTIES :: nat where
  "TPM2_MAX_TPM_PROPERTIES = ((TPM2_MAX_CAP_BUFFER - sizeof (CInt 4) - sizeof (CInt 4)) div sizeof ct_TPMS_TAGGED_PROPERTY)"

lemma TPM2_MAX_TPM_PROPERTIES_val [simp]: "TPM2_MAX_TPM_PROPERTIES = 127"
  by (simp add: TPM2_MAX_TPM_PROPERTIES_def)

definition ct_TPML_TAGGED_TPM_PROPERTY :: ctype where
  "ct_TPML_TAGGED_TPM_PROPERTY = CStruct [CInt 4,
     CArray (TPM2_MAX_TPM_PROPERTIES) ct_TPMS_TAGGED_PROPERTY]"

lemma ct_TPML_TAGGED_TPM_PROPERTY_layout [simp]: "sizeof ct_TPML_TAGGED_TPM_PROPERTY = 1020" "alignof ct_TPML_TAGGED_TPM_PROPERTY = 4"
  by (simp_all add: ct_TPML_TAGGED_TPM_PROPERTY_def del: One_nat_def)

definition ct_TPMS_TAGGED_PCR_SELECT :: ctype where
  "ct_TPMS_TAGGED_PCR_SELECT = CStruct [CInt 4, CInt 1, CArray (TPM2_PCR_SELECT_MAX) (CInt 1)]"

lemma ct_TPMS_TAGGED_PCR_SELECT_layout [simp]: "sizeof ct_TPMS_TAGGED_PCR_SELECT = 12" "alignof ct_TPMS_TAGGED_PCR_SELECT = 4"
  by (simp_all add: ct_TPMS_TAGGED_PCR_SELECT_def del: One_nat_def)

definition TPM2_MAX_PCR_PROPERTIES :: nat where
  "TPM2_MAX_PCR_PROPERTIES = ((TPM2_MAX_CAP_BUFFER - sizeof (CInt 4) - sizeof (CInt 4)) div sizeof ct_TPMS_TAGGED_PCR_SELECT)"

lemma TPM2_MAX_PCR_PROPERTIES_val [simp]: "TPM2_MAX_PCR_PROPERTIES = 84"
  by (simp add: TPM2_MAX_PCR_PROPERTIES_def)

definition ct_TPML_TAGGED_PCR_PROPERTY :: ctype where
  "ct_TPML_TAGGED_PCR_PROPERTY = CStruct [CInt 4,
     CArray (TPM2_MAX_PCR_PROPERTIES) ct_TPMS_TAGGED_PCR_SELECT]"

lemma ct_TPML_TAGGED_PCR_PROPERTY_layout [simp]: "sizeof ct_TPML_TAGGED_PCR_PROPERTY = 1012" "alignof ct_TPML_TAGGED_PCR_PROPERTY = 4"
  by (simp_all add: ct_TPML_TAGGED_PCR_PROPERTY_def del: One_nat_def)

definition ct_TPML_DIGEST_VALUES :: ctype where
  "ct_TPML_DIGEST_VALUES = CStruct [CInt 4, CArray (TPM2_NUM_PCR_BANKS) ct_TPMT_HA]"

lemma ct_TPML_DIGEST_VALUES_layout [simp]: "sizeof ct_TPML_DIGEST_VALUES = 1060" "alignof ct_TPML_DIGEST_VALUES = 4"
  by (simp_all add: ct_TPML_DIGEST_VALUES_def del: One_nat_def)

definition TPM2_MAX_PTT_PROPERTIES :: nat where
  "TPM2_MAX_PTT_PROPERTIES = (TPM2_MAX_CAP_BUFFER div sizeof (CInt 4))"

lemma TPM2_MAX_PTT_PROPERTIES_val [simp]: "TPM2_MAX_PTT_PROPERTIES = 256"
  by (simp add: TPM2_MAX_PTT_PROPERTIES_def)

definition ct_TPML_INTEL_PTT_PROPERTY :: ctype where
  "ct_TPML_INTEL_PTT_PROPERTY = CStruct [CInt 4, CArray (TPM2_MAX_PTT_PROPERTIES) (CInt 4)]"

lemma ct_TPML_INTEL_PTT_PROPERTY_layout [simp]: "sizeof ct_TPML_INTEL_PTT_PROPERTY = 1028" "alignof ct_TPML_INTEL_PTT_PROPERTY = 4"
  by (simp_all add: ct_TPML_INTEL_PTT_PROPERTY_def del: One_nat_def)

definition ct_TPMS_AC_OUTPUT :: ctype where
  "ct_TPMS_AC_OUTPUT = CStruct [CInt 4, CInt 4]"

lemma ct_TPMS_AC_OUTPUT_layout [simp]: "sizeof ct_TPMS_AC_OUTPUT = 8" "alignof ct_TPMS_AC_OUTPUT = 4"
  by (simp_all add: ct_TPMS_AC_OUTPUT_def del: One_nat_def)

definition TPM2_MAX_AC_CAPABILITIES :: nat where
  "TPM2_MAX_AC_CAPABILITIES = (TPM2_MAX_CAP_BUFFER div sizeof ct_TPMS_AC_OUTPUT)"

lemma TPM2_MAX_AC_CAPABILITIES_val [simp]: "TPM2_MAX_AC_CAPABILITIES = 128"
  by (simp add: TPM2_MAX_AC_CAPABILITIES_def)

definition ct_TPML_AC_CAPABILITIES :: ctype where
  "ct_TPML_AC_CAPABILITIES = CStruct [CInt 4, CArray (TPM2_MAX_AC_CAPABILITIES) ct_TPMS_AC_OUTPUT]"

lemma ct_TPML_AC_CAPABILITIES_layout [simp]: "sizeof ct_TPML_AC_CAPABILITIES = 1028" "alignof ct_TPML_AC_CAPABILITIES = 4"
  by (simp_all add: ct_TPML_AC_CAPABILITIES_def del: One_nat_def)

definition ct_TPMS_TAGGED_POLICY :: ctype where
  "ct_TPMS_TAGGED_POLICY = CStruct [CInt 4, ct_TPMT_HA]"

lemma ct_TPMS_TAGGED_POLICY_layout [simp]: "sizeof ct_TPMS_TAGGED_POLICY = 72" "alignof ct_TPMS_TAGGED_POLICY = 4"
  by (simp_all add: ct_TPMS_TAGGED_POLICY_def del: One_nat_def)

definition TPM2_MAX_TAGGED_POLICIES :: nat where
  "TPM2_MAX_TAGGED_POLICIES = ((TPM2_MAX_CAP_BUFFER - sizeof (CInt 4) - sizeof (CInt 4)) div sizeof ct_TPMS_TAGGED_POLICY)"

lemma TPM2_MAX_TAGGED_POLICIES_val [simp]: "TPM2_MAX_TAGGED_POLICIES = 14"
  by (simp add: TPM2_MAX_TAGGED_POLICIES_def)

definition ct_TPML_TAGGED_POLICY :: ctype where
  "ct_TPML_TAGGED_POLICY = CStruct [CInt 4,
     CArray (TPM2_MAX_TAGGED_POLICIES) ct_TPMS_TAGGED_POLICY]"

lemma ct_TPML_TAGGED_POLICY_layout [simp]: "sizeof ct_TPML_TAGGED_POLICY = 1012" "alignof ct_TPML_TAGGED_POLICY = 4"
  by (simp_all add: ct_TPML_TAGGED_POLICY_def del: One_nat_def)

definition ct_TPMS_ACT_DATA :: ctype where
  "ct_TPMS_ACT_DATA = CStruct [CInt 4, CInt 4, CInt 4]"

lemma ct_TPMS_ACT_DATA_layout [simp]: "sizeof ct_TPMS_ACT_DATA = 12" "alignof ct_TPMS_ACT_DATA = 4"
  by (simp_all add: ct_TPMS_ACT_DATA_def del: One_nat_def)

definition TPM2_MAX_ACT_DATA :: nat where
  "TPM2_MAX_ACT_DATA = ((TPM2_MAX_CAP_BUFFER - sizeof (CInt 4) - sizeof (CInt 4)) div sizeof ct_TPMS_ACT_DATA)"

lemma TPM2_MAX_ACT_DATA_val [simp]: "TPM2_MAX_ACT_DATA = 84"
  by (simp add: TPM2_MAX_ACT_DATA_def)

definition ct_TPML_ACT_DATA :: ctype where
  "ct_TPML_ACT_DATA = CStruct [CInt 4, CArray (TPM2_MAX_ACT_DATA) ct_TPMS_ACT_DATA]"

lemma ct_TPML_ACT_DATA_layout [simp]: "sizeof ct_TPML_ACT_DATA = 1012" "alignof ct_TPML_ACT_DATA = 4"
  by (simp_all add: ct_TPML_ACT_DATA_def del: One_nat_def)

definition ct_TPML_ML_PARAMETER_SET :: ctype where
  "ct_TPML_ML_PARAMETER_SET = CStruct [CInt 4, CArray (6) ct_TPMS_ML_PARAMETER_SET]"

lemma ct_TPML_ML_PARAMETER_SET_layout [simp]: "sizeof ct_TPML_ML_PARAMETER_SET = 28" "alignof ct_TPML_ML_PARAMETER_SET = 4"
  by (simp_all add: ct_TPML_ML_PARAMETER_SET_def del: One_nat_def)

definition ct_TPMS_PCR_SELECT :: ctype where
  "ct_TPMS_PCR_SELECT = CStruct [CInt 1, CArray (TPM2_PCR_SELECT_MAX) (CInt 1)]"

lemma ct_TPMS_PCR_SELECT_layout [simp]: "sizeof ct_TPMS_PCR_SELECT = 5" "alignof ct_TPMS_PCR_SELECT = 1"
  by (simp_all add: ct_TPMS_PCR_SELECT_def del: One_nat_def)

definition ct_TPMS_AUTH_COMMAND :: ctype where
  "ct_TPMS_AUTH_COMMAND = CStruct [CInt 4, ct_TPM2B_DIGEST, CInt 1, ct_TPM2B_DIGEST]"

lemma ct_TPMS_AUTH_COMMAND_layout [simp]: "sizeof ct_TPMS_AUTH_COMMAND = 140" "alignof ct_TPMS_AUTH_COMMAND = 4"
  by (simp_all add: ct_TPMS_AUTH_COMMAND_def del: One_nat_def)

definition ct_TPMS_AUTH_RESPONSE :: ctype where
  "ct_TPMS_AUTH_RESPONSE = CStruct [ct_TPM2B_DIGEST, CInt 1, ct_TPM2B_DIGEST]"

lemma ct_TPMS_AUTH_RESPONSE_layout [simp]: "sizeof ct_TPMS_AUTH_RESPONSE = 134" "alignof ct_TPMS_AUTH_RESPONSE = 2"
  by (simp_all add: ct_TPMS_AUTH_RESPONSE_def del: One_nat_def)

definition ct_TPMS_SIGNATURE_RSA :: ctype where
  "ct_TPMS_SIGNATURE_RSA = CStruct [CInt 2, ct_TPM2B_PUBLIC_KEY_RSA]"

lemma ct_TPMS_SIGNATURE_RSA_layout [simp]: "sizeof ct_TPMS_SIGNATURE_RSA = 516" "alignof ct_TPMS_SIGNATURE_RSA = 2"
  by (simp_all add: ct_TPMS_SIGNATURE_RSA_def del: One_nat_def)

definition ct_TPMS_SIGNATURE_ECC :: ctype where
  "ct_TPMS_SIGNATURE_ECC = CStruct [CInt 2, ct_TPM2B_ECC_PARAMETER, ct_TPM2B_ECC_PARAMETER]"

lemma ct_TPMS_SIGNATURE_ECC_layout [simp]: "sizeof ct_TPMS_SIGNATURE_ECC = 262" "alignof ct_TPMS_SIGNATURE_ECC = 2"
  by (simp_all add: ct_TPMS_SIGNATURE_ECC_def del: One_nat_def)

definition ct_TPMS_NV_PIN_COUNTER_PARAMETERS :: ctype where
  "ct_TPMS_NV_PIN_COUNTER_PARAMETERS = CStruct [CInt 4, CInt 4]"

lemma ct_TPMS_NV_PIN_COUNTER_PARAMETERS_layout [simp]: "sizeof ct_TPMS_NV_PIN_COUNTER_PARAMETERS = 8" "alignof ct_TPMS_NV_PIN_COUNTER_PARAMETERS = 4"
  by (simp_all add: ct_TPMS_NV_PIN_COUNTER_PARAMETERS_def del: One_nat_def)

definition ct_TPMS_CONTEXT :: ctype where
  "ct_TPMS_CONTEXT = CStruct [CInt 8, CInt 4, CInt 4, ct_TPM2B_CONTEXT_DATA]"

lemma ct_TPMS_CONTEXT_layout [simp]: "sizeof ct_TPMS_CONTEXT = 5208" "alignof ct_TPMS_CONTEXT = 8"
  by (simp_all add: ct_TPMS_CONTEXT_def del: One_nat_def)

definition ct_TPMS_SIGNATURE_MLDSA :: ctype where
  "ct_TPMS_SIGNATURE_MLDSA = CStruct [CInt 2, ct_TPM2B_MLDSA_SIGNATURE]"

lemma ct_TPMS_SIGNATURE_MLDSA_layout [simp]: "sizeof ct_TPMS_SIGNATURE_MLDSA = 4632" "alignof ct_TPMS_SIGNATURE_MLDSA = 2"
  by (simp_all add: ct_TPMS_SIGNATURE_MLDSA_def del: One_nat_def)

definition ct_TPMS_ALGORITHM_DETAIL_ECC :: ctype where
  "ct_TPMS_ALGORITHM_DETAIL_ECC = CStruct [CInt 2,
     CInt 2,
     ct_TPMT_KDF_SCHEME,
     ct_TPMT_ECC_SCHEME,
     ct_TPM2B_ECC_PARAMETER,
     ct_TPM2B_ECC_PARAMETER,
     ct_TPM2B_ECC_PARAMETER,
     ct_TPM2B_ECC_PARAMETER,
     ct_TPM2B_ECC_PARAMETER,
     ct_TPM2B_ECC_PARAMETER,
     ct_TPM2B_ECC_PARAMETER]"

lemma ct_TPMS_ALGORITHM_DETAIL_ECC_layout [simp]: "sizeof ct_TPMS_ALGORITHM_DETAIL_ECC = 924" "alignof ct_TPMS_ALGORITHM_DETAIL_ECC = 2"
  by (simp_all add: ct_TPMS_ALGORITHM_DETAIL_ECC_def del: One_nat_def)

definition ct_TPMU_CAPABILITIES :: ctype where
  "ct_TPMU_CAPABILITIES = CUnion [ct_TPML_ALG_PROPERTY,
     ct_TPML_HANDLE,
     ct_TPML_CCA,
     ct_TPML_CC,
     ct_TPML_CC,
     ct_TPML_PCR_SELECTION,
     ct_TPML_TAGGED_TPM_PROPERTY,
     ct_TPML_TAGGED_PCR_PROPERTY,
     ct_TPML_ECC_CURVE,
     ct_TPML_TAGGED_POLICY,
     ct_TPML_ACT_DATA,
     ct_TPM2B_MAX_CAP_BUFFER]"

lemma ct_TPMU_CAPABILITIES_layout [simp]: "sizeof ct_TPMU_CAPABILITIES = 1028" "alignof ct_TPMU_CAPABILITIES = 4"
  by (simp_all add: ct_TPMU_CAPABILITIES_def del: One_nat_def)

definition ct_TPMS_CAPABILITY_DATA :: ctype where
  "ct_TPMS_CAPABILITY_DATA = CStruct [CInt 4, ct_TPMU_CAPABILITIES]"

lemma ct_TPMS_CAPABILITY_DATA_layout [simp]: "sizeof ct_TPMS_CAPABILITY_DATA = 1032" "alignof ct_TPMS_CAPABILITY_DATA = 4"
  by (simp_all add: ct_TPMS_CAPABILITY_DATA_def del: One_nat_def)

definition ct_TPMS_NV_DIGEST_CERTIFY_INFO :: ctype where
  "ct_TPMS_NV_DIGEST_CERTIFY_INFO = CStruct [ct_TPM2B_NAME, ct_TPM2B_DIGEST]"

lemma ct_TPMS_NV_DIGEST_CERTIFY_INFO_layout [simp]: "sizeof ct_TPMS_NV_DIGEST_CERTIFY_INFO = 136" "alignof ct_TPMS_NV_DIGEST_CERTIFY_INFO = 2"
  by (simp_all add: ct_TPMS_NV_DIGEST_CERTIFY_INFO_def del: One_nat_def)

definition ct_TPMU_SIG_SCHEME :: ctype where
  "ct_TPMU_SIG_SCHEME = CUnion [ct_TPMS_SCHEME_HASH,
     ct_TPMS_SCHEME_HASH,
     ct_TPMS_SCHEME_HASH,
     ct_TPMS_SCHEME_ECDAA,
     ct_TPMS_SCHEME_HASH,
     ct_TPMS_SCHEME_HASH,
     ct_TPMS_SCHEME_HASH,
     ct_TPMS_SCHEME_HASH,
     ct_TPMS_EMPTY]"

lemma ct_TPMU_SIG_SCHEME_layout [simp]: "sizeof ct_TPMU_SIG_SCHEME = 4" "alignof ct_TPMU_SIG_SCHEME = 2"
  by (simp_all add: ct_TPMU_SIG_SCHEME_def del: One_nat_def)

definition ct_TPMU_SIGNATURE :: ctype where
  "ct_TPMU_SIGNATURE = CUnion [ct_TPMS_SIGNATURE_RSA,
     ct_TPMS_SIGNATURE_RSA,
     ct_TPMS_SIGNATURE_ECC,
     ct_TPMS_SIGNATURE_ECC,
     ct_TPMS_SIGNATURE_ECC,
     ct_TPMS_SIGNATURE_ECC,
     ct_TPMS_SIGNATURE_MLDSA,
     ct_TPMT_HA,
     ct_TPMS_SCHEME_HASH,
     ct_TPMS_EMPTY]"

lemma ct_TPMU_SIGNATURE_layout [simp]: "sizeof ct_TPMU_SIGNATURE = 4632" "alignof ct_TPMU_SIGNATURE = 2"
  by (simp_all add: ct_TPMU_SIGNATURE_def del: One_nat_def)

definition ct_TPMT_SYM_DEF :: ctype where
  "ct_TPMT_SYM_DEF = CStruct [CInt 2, ct_TPMU_SYM_KEY_BITS, ct_TPMU_SYM_MODE]"

lemma ct_TPMT_SYM_DEF_layout [simp]: "sizeof ct_TPMT_SYM_DEF = 6" "alignof ct_TPMT_SYM_DEF = 2"
  by (simp_all add: ct_TPMT_SYM_DEF_def del: One_nat_def)

definition ct_TPMT_SIG_SCHEME :: ctype where
  "ct_TPMT_SIG_SCHEME = CStruct [CInt 2, ct_TPMU_SIG_SCHEME]"

lemma ct_TPMT_SIG_SCHEME_layout [simp]: "sizeof ct_TPMT_SIG_SCHEME = 6" "alignof ct_TPMT_SIG_SCHEME = 2"
  by (simp_all add: ct_TPMT_SIG_SCHEME_def del: One_nat_def)

definition ct_TPMT_RSA_DECRYPT :: ctype where
  "ct_TPMT_RSA_DECRYPT = CStruct [CInt 2, ct_TPMU_ASYM_SCHEME]"

lemma ct_TPMT_RSA_DECRYPT_layout [simp]: "sizeof ct_TPMT_RSA_DECRYPT = 6" "alignof ct_TPMT_RSA_DECRYPT = 2"
  by (simp_all add: ct_TPMT_RSA_DECRYPT_def del: One_nat_def)

definition ct_TPMT_SIGNATURE :: ctype where
  "ct_TPMT_SIGNATURE = CStruct [CInt 2, ct_TPMU_SIGNATURE]"

lemma ct_TPMT_SIGNATURE_layout [simp]: "sizeof ct_TPMT_SIGNATURE = 4634" "alignof ct_TPMT_SIGNATURE = 2"
  by (simp_all add: ct_TPMT_SIGNATURE_def del: One_nat_def)

definition ct_TPMT_PUBLIC_PARMS :: ctype where
  "ct_TPMT_PUBLIC_PARMS = CStruct [CInt 2, ct_TPMU_PUBLIC_PARMS]"

lemma ct_TPMT_PUBLIC_PARMS_layout [simp]: "sizeof ct_TPMT_PUBLIC_PARMS = 24" "alignof ct_TPMT_PUBLIC_PARMS = 4"
  by (simp_all add: ct_TPMT_PUBLIC_PARMS_def del: One_nat_def)

definition ct_TPMT_TK_CREATION :: ctype where
  "ct_TPMT_TK_CREATION = CStruct [CInt 2, CInt 4, ct_TPM2B_DIGEST]"

lemma ct_TPMT_TK_CREATION_layout [simp]: "sizeof ct_TPMT_TK_CREATION = 76" "alignof ct_TPMT_TK_CREATION = 4"
  by (simp_all add: ct_TPMT_TK_CREATION_def del: One_nat_def)

definition ct_TPMT_TK_VERIFIED :: ctype where
  "ct_TPMT_TK_VERIFIED = CStruct [CInt 2, CInt 4, ct_TPM2B_DIGEST]"

lemma ct_TPMT_TK_VERIFIED_layout [simp]: "sizeof ct_TPMT_TK_VERIFIED = 76" "alignof ct_TPMT_TK_VERIFIED = 4"
  by (simp_all add: ct_TPMT_TK_VERIFIED_def del: One_nat_def)

definition ct_TPMT_TK_AUTH :: ctype where
  "ct_TPMT_TK_AUTH = CStruct [CInt 2, CInt 4, ct_TPM2B_DIGEST]"

lemma ct_TPMT_TK_AUTH_layout [simp]: "sizeof ct_TPMT_TK_AUTH = 76" "alignof ct_TPMT_TK_AUTH = 4"
  by (simp_all add: ct_TPMT_TK_AUTH_def del: One_nat_def)

definition ct_TPMT_TK_HASHCHECK :: ctype where
  "ct_TPMT_TK_HASHCHECK = CStruct [CInt 2, CInt 4, ct_TPM2B_DIGEST]"

lemma ct_TPMT_TK_HASHCHECK_layout [simp]: "sizeof ct_TPMT_TK_HASHCHECK = 76" "alignof ct_TPMT_TK_HASHCHECK = 4"
  by (simp_all add: ct_TPMT_TK_HASHCHECK_def del: One_nat_def)

declare round_up_def [simp del]

section \<open>Selectors\<close>

definition TPM2_ALG_RSA :: UINT16 where
  "TPM2_ALG_RSA = 0x0001"

definition TPM2_ALG_SHA1 :: UINT16 where
  "TPM2_ALG_SHA1 = 0x0004"

definition TPM2_ALG_HMAC :: UINT16 where
  "TPM2_ALG_HMAC = 0x0005"

definition TPM2_ALG_AES :: UINT16 where
  "TPM2_ALG_AES = 0x0006"

definition TPM2_ALG_MGF1 :: UINT16 where
  "TPM2_ALG_MGF1 = 0x0007"

definition TPM2_ALG_KEYEDHASH :: UINT16 where
  "TPM2_ALG_KEYEDHASH = 0x0008"

definition TPM2_ALG_XOR :: UINT16 where
  "TPM2_ALG_XOR = 0x000A"

definition TPM2_ALG_SHA256 :: UINT16 where
  "TPM2_ALG_SHA256 = 0x000B"

definition TPM2_ALG_SHA384 :: UINT16 where
  "TPM2_ALG_SHA384 = 0x000C"

definition TPM2_ALG_SHA512 :: UINT16 where
  "TPM2_ALG_SHA512 = 0x000D"

definition TPM2_ALG_NULL :: UINT16 where
  "TPM2_ALG_NULL = 0x0010"

definition TPM2_ALG_SM3_256 :: UINT16 where
  "TPM2_ALG_SM3_256 = 0x0012"

definition TPM2_ALG_SM4 :: UINT16 where
  "TPM2_ALG_SM4 = 0x0013"

definition TPM2_ALG_RSASSA :: UINT16 where
  "TPM2_ALG_RSASSA = 0x0014"

definition TPM2_ALG_RSAES :: UINT16 where
  "TPM2_ALG_RSAES = 0x0015"

definition TPM2_ALG_RSAPSS :: UINT16 where
  "TPM2_ALG_RSAPSS = 0x0016"

definition TPM2_ALG_OAEP :: UINT16 where
  "TPM2_ALG_OAEP = 0x0017"

definition TPM2_ALG_ECDSA :: UINT16 where
  "TPM2_ALG_ECDSA = 0x0018"

definition TPM2_ALG_ECDH :: UINT16 where
  "TPM2_ALG_ECDH = 0x0019"

definition TPM2_ALG_ECDAA :: UINT16 where
  "TPM2_ALG_ECDAA = 0x001A"

definition TPM2_ALG_SM2 :: UINT16 where
  "TPM2_ALG_SM2 = 0x001B"

definition TPM2_ALG_ECSCHNORR :: UINT16 where
  "TPM2_ALG_ECSCHNORR = 0x001C"

definition TPM2_ALG_ECMQV :: UINT16 where
  "TPM2_ALG_ECMQV = 0x001D"

definition TPM2_ALG_KDF1_SP800_56A :: UINT16 where
  "TPM2_ALG_KDF1_SP800_56A = 0x0020"

definition TPM2_ALG_KDF2 :: UINT16 where
  "TPM2_ALG_KDF2 = 0x0021"

definition TPM2_ALG_KDF1_SP800_108 :: UINT16 where
  "TPM2_ALG_KDF1_SP800_108 = 0x0022"

definition TPM2_ALG_ECC :: UINT16 where
  "TPM2_ALG_ECC = 0x0023"

definition TPM2_ALG_SYMCIPHER :: UINT16 where
  "TPM2_ALG_SYMCIPHER = 0x0025"

definition TPM2_ALG_CAMELLIA :: UINT16 where
  "TPM2_ALG_CAMELLIA = 0x0026"

definition TPM2_ALG_MLKEM :: UINT16 where
  "TPM2_ALG_MLKEM = 0x00A0"

definition TPM2_ALG_MLDSA :: UINT16 where
  "TPM2_ALG_MLDSA = 0x00A1"

definition TPM2_ST_ATTEST_NV :: UINT16 where
  "TPM2_ST_ATTEST_NV = 0x8014"

definition TPM2_ST_ATTEST_COMMAND_AUDIT :: UINT16 where
  "TPM2_ST_ATTEST_COMMAND_AUDIT = 0x8015"

definition TPM2_ST_ATTEST_SESSION_AUDIT :: UINT16 where
  "TPM2_ST_ATTEST_SESSION_AUDIT = 0x8016"

definition TPM2_ST_ATTEST_CERTIFY :: UINT16 where
  "TPM2_ST_ATTEST_CERTIFY = 0x8017"

definition TPM2_ST_ATTEST_QUOTE :: UINT16 where
  "TPM2_ST_ATTEST_QUOTE = 0x8018"

definition TPM2_ST_ATTEST_TIME :: UINT16 where
  "TPM2_ST_ATTEST_TIME = 0x8019"

definition TPM2_ST_ATTEST_CREATION :: UINT16 where
  "TPM2_ST_ATTEST_CREATION = 0x801A"

definition TPM2_CAP_ALGS :: UINT32 where
  "TPM2_CAP_ALGS = 0x00000000"

definition TPM2_CAP_HANDLES :: UINT32 where
  "TPM2_CAP_HANDLES = 0x00000001"

definition TPM2_CAP_COMMANDS :: UINT32 where
  "TPM2_CAP_COMMANDS = 0x00000002"

definition TPM2_CAP_PP_COMMANDS :: UINT32 where
  "TPM2_CAP_PP_COMMANDS = 0x00000003"

definition TPM2_CAP_AUDIT_COMMANDS :: UINT32 where
  "TPM2_CAP_AUDIT_COMMANDS = 0x00000004"

definition TPM2_CAP_PCRS :: UINT32 where
  "TPM2_CAP_PCRS = 0x00000005"

definition TPM2_CAP_TPM_PROPERTIES :: UINT32 where
  "TPM2_CAP_TPM_PROPERTIES = 0x00000006"

definition TPM2_CAP_PCR_PROPERTIES :: UINT32 where
  "TPM2_CAP_PCR_PROPERTIES = 0x00000007"

definition TPM2_CAP_ECC_CURVES :: UINT32 where
  "TPM2_CAP_ECC_CURVES = 0x00000008"

definition TPM2_CAP_AUTH_POLICIES :: UINT32 where
  "TPM2_CAP_AUTH_POLICIES = 0x00000009"

definition TPM2_CAP_ACT :: UINT32 where
  "TPM2_CAP_ACT = 0x0000000A"

definition TPM2_CAP_VENDOR_PROPERTY :: UINT32 where
  "TPM2_CAP_VENDOR_PROPERTY = 0x00000100"

definition TPM2_GENERATED_VALUE :: UINT32 where
  "TPM2_GENERATED_VALUE = 0xff544347"

lemmas selector_defs =
  TPM2_ALG_RSA_def
  TPM2_ALG_SHA1_def
  TPM2_ALG_HMAC_def
  TPM2_ALG_AES_def
  TPM2_ALG_MGF1_def
  TPM2_ALG_KEYEDHASH_def
  TPM2_ALG_XOR_def
  TPM2_ALG_SHA256_def
  TPM2_ALG_SHA384_def
  TPM2_ALG_SHA512_def
  TPM2_ALG_NULL_def
  TPM2_ALG_SM3_256_def
  TPM2_ALG_SM4_def
  TPM2_ALG_RSASSA_def
  TPM2_ALG_RSAES_def
  TPM2_ALG_RSAPSS_def
  TPM2_ALG_OAEP_def
  TPM2_ALG_ECDSA_def
  TPM2_ALG_ECDH_def
  TPM2_ALG_ECDAA_def
  TPM2_ALG_SM2_def
  TPM2_ALG_ECSCHNORR_def
  TPM2_ALG_ECMQV_def
  TPM2_ALG_KDF1_SP800_56A_def
  TPM2_ALG_KDF2_def
  TPM2_ALG_KDF1_SP800_108_def
  TPM2_ALG_ECC_def
  TPM2_ALG_SYMCIPHER_def
  TPM2_ALG_CAMELLIA_def
  TPM2_ALG_MLKEM_def
  TPM2_ALG_MLDSA_def
  TPM2_ST_ATTEST_NV_def
  TPM2_ST_ATTEST_COMMAND_AUDIT_def
  TPM2_ST_ATTEST_SESSION_AUDIT_def
  TPM2_ST_ATTEST_CERTIFY_def
  TPM2_ST_ATTEST_QUOTE_def
  TPM2_ST_ATTEST_TIME_def
  TPM2_ST_ATTEST_CREATION_def
  TPM2_CAP_ALGS_def
  TPM2_CAP_HANDLES_def
  TPM2_CAP_COMMANDS_def
  TPM2_CAP_PP_COMMANDS_def
  TPM2_CAP_AUDIT_COMMANDS_def
  TPM2_CAP_PCRS_def
  TPM2_CAP_TPM_PROPERTIES_def
  TPM2_CAP_PCR_PROPERTIES_def
  TPM2_CAP_ECC_CURVES_def
  TPM2_CAP_AUTH_POLICIES_def
  TPM2_CAP_ACT_def
  TPM2_CAP_VENDOR_PROPERTY_def

end
