(* ===== verification/MU_Contract.thy ===== *)
theory MU_Contract
  imports TSS_Prelude
begin

text \<open>
  The interfaces of the marshalling library \<open>tss2-mu\<close>.  Every function of \<open>tss2_mu.h\<close> has one of
  two shapes, the types \<open>mfun\<close> and \<open>ufun\<close> below, and one contract per shape: the locale
  \<open>marshaler\<close> says what \<open>Tss2_MU_T_Marshal\<close> does with a source value, a buffer and an offset,
  the locales \<open>unmarshaler\<close> and \<open>strict_unmarshaler\<close> say what \<open>Tss2_MU_T_Unmarshal\<close> does with a
  buffer, an offset and a destination.  The locale \<open>codec\<close> joins the two and proves the round trip.
\<close>

section \<open>Function shapes\<close>

text \<open>
  A marshal function takes the source, the buffer pointer, \<open>buffer_size\<close> and the offset pointer
  (\<open>None\<close> is \<open>NULL\<close>).  The result is \<open>None\<close> when an access leaves its object, and otherwise the
  return code with the buffer and the offset as the call leaves them.
\<close>

type_synonym mres = "(TSS2_RC \<times> buf option \<times> size_t option) option"
type_synonym 'a mfun = "'a \<Rightarrow> buf option \<Rightarrow> size_t \<Rightarrow> size_t option \<Rightarrow> mres"
type_synonym 'a ures = "(TSS2_RC \<times> size_t option \<times> 'a option) option"
type_synonym 'a ufun = "buf option \<Rightarrow> size_t \<Rightarrow> size_t option \<Rightarrow> 'a option \<Rightarrow> 'a ures"

section \<open>Room in a buffer\<close>

definition fits :: "size_t \<Rightarrow> size_t \<Rightarrow> nat \<Rightarrow> bool" where
  "fits bs off n \<longleftrightarrow> n = 0 \<or> unat off + n \<le> unat bs"

definition untouched :: "buf \<Rightarrow> buf \<Rightarrow> size_t \<Rightarrow> size_t \<Rightarrow> bool" where
  "untouched b b' off bs \<longleftrightarrow> length b' = length b \<and>
     (\<forall>i < length b. i < unat off \<or> unat bs \<le> i \<longrightarrow> b' ! i = b ! i)"

definition holds_at :: "buf \<Rightarrow> size_t \<Rightarrow> size_t \<Rightarrow> BYTE list \<Rightarrow> bool" where
  "holds_at b bs off xs \<longleftrightarrow> fits bs off (length xs) \<and> seg b (unat off) (length xs) = xs"

lemma fits_0 [simp]: "fits bs off 0"
  by (simp add: fits_def)

lemma unat_add_fits:
  assumes "unat (off :: size_t) + n \<le> unat (bs :: size_t)"
  shows "unat (off + of_nat n) = unat off + n"
proof -
  have "unat off + n < 2 ^ LENGTH(64)"
    using assms unsigned_less [of bs, where ?'a = nat] by simp
  then show ?thesis
    by (simp add: unat_word_ariths unat_of_nat)
qed

lemma fits_add:
  "fits bs off (m + n) \<longleftrightarrow> fits bs off m \<and> fits bs (off + of_nat m) n"
proof (cases "m = 0 \<or> \<not> unat off + m \<le> unat bs")
  case True
  then show ?thesis by (auto simp: fits_def)
next
  case False
  then have "unat (off + of_nat m) = unat off + m" by (intro unat_add_fits [of _ _ bs]) simp
  with False show ?thesis by (auto simp: fits_def)
qed

lemma untouched_refl [simp]: "untouched b b off bs"
  by (simp add: untouched_def)

lemma untouched_trans:
  "untouched b b' off bs \<Longrightarrow> untouched b' b'' off bs \<Longrightarrow> untouched b b'' off bs"
  by (simp add: untouched_def)

lemma untouched_later:
  "untouched b b' (off + of_nat n) bs \<Longrightarrow> fits bs off n \<Longrightarrow> untouched b b' off bs"
  by (cases "n = 0") (auto simp: untouched_def fits_def unat_add_fits)

lemma untouched_patch:
  assumes "fits bs off (length xs)" "unat bs \<le> length b"
  shows "untouched b (patch b (unat off) xs) off bs"
proof (cases "xs = []")
  case True
  then show ?thesis by simp
next
  case False
  with assms have "unat off + length xs \<le> unat bs" by (simp add: fits_def)
  with assms show ?thesis by (auto simp: untouched_def patch_nth)
qed

lemma patch_patch_fits:
  assumes "fits bs off (length xs + length ys)" "unat bs \<le> length b"
  shows "patch (patch b (unat off) xs) (unat (off + of_nat (length xs))) ys
         = patch b (unat off) (xs @ ys)"
proof (cases "xs = [] \<or> ys = []")
  case True
  then show ?thesis by auto
next
  case False
  with assms have le: "unat off + length xs + length ys \<le> unat bs" by (simp add: fits_def)
  then have "unat (off + of_nat (length xs)) = unat off + length xs"
    by (intro unat_add_fits [of _ _ bs]) linarith
  with le assms(2) show ?thesis by (simp add: patch_append)
qed

lemma holds_at_Nil [simp]: "holds_at b bs off []"
  by (simp add: holds_at_def)

lemma holds_at_append:
  assumes "unat bs \<le> length b"
  shows "holds_at b bs off (xs @ ys) \<longleftrightarrow>
         holds_at b bs off xs \<and> holds_at b bs (off + of_nat (length xs)) ys"
proof (cases "xs = []")
  case True
  then show ?thesis by simp
next
  case False
  show ?thesis
  proof (cases "fits bs off (length xs)")
    case True
    with False have "unat off + length xs \<le> unat bs" by (simp add: fits_def)
    then have "unat (off + of_nat (length xs)) = unat off + length xs" by (rule unat_add_fits)
    then show ?thesis
      using \<open>unat off + length xs \<le> unat bs\<close> assms
      by (auto simp: holds_at_def fits_add seg_append)
  next
    case False
    then show ?thesis by (simp add: holds_at_def fits_add)
  qed
qed

lemma holds_at_patch:
  assumes "fits bs off (length xs)" "unat bs \<le> length b"
  shows "holds_at (patch b (unat off) xs) bs off xs"
  using assms by (cases "xs = []") (auto simp: holds_at_def fits_def)

lemma holds_at_prefix:
  "unat bs \<le> length b \<Longrightarrow> holds_at b bs off xs \<Longrightarrow> holds_at b bs off ys \<Longrightarrow> length xs = length ys \<Longrightarrow> xs = ys"
  by (simp add: holds_at_def)

section \<open>Contract of the marshal functions\<close>

text \<open>
  \<open>src\<close> are the source objects a caller may pass (arrays of their declared length, the union
  member that the selector names), \<open>valid\<close> those that have a wire format, \<open>wire\<close> that format and
  \<open>lim\<close> a bound on its length.  On every \<open>src\<close> value the call stays inside source and buffer,
  writes nothing outside the room \<open>[offset, buffer_size)\<close> and moves the offset only on success,
  and it succeeds only on \<open>valid\<close> values that fit.  A \<open>valid\<close> value that fits is written at the offset
  and the offset moves past it; one that does not fit gives \<open>INSUFFICIENT_BUFFER\<close>.
\<close>

locale marshaler =
  fixes F :: "'a mfun"
    and src :: "'a \<Rightarrow> bool"
    and valid :: "'a \<Rightarrow> bool"
    and wire :: "'a \<Rightarrow> BYTE list"
    and lim :: nat
  assumes valid_src: "valid x \<Longrightarrow> src x"
    and wire_le: "valid x \<Longrightarrow> length (wire x) \<le> lim"
    and marshal_total: "src x \<Longrightarrow> unat bs \<le> length b \<Longrightarrow>
      \<exists>rc b' off'. F x (Some b) bs (Some off) = Some (rc, Some b', Some off') \<and>
        untouched b b' off bs \<and> (rc \<noteq> 0 \<longrightarrow> off' = off) \<and>
        (rc = 0 \<longrightarrow> valid x \<and> fits bs off (length (wire x)))"
    and marshal_fit: "valid x \<Longrightarrow> unat bs \<le> length b \<Longrightarrow> fits bs off (length (wire x)) \<Longrightarrow>
      F x (Some b) bs (Some off) =
        Some (0, Some (patch b (unat off) (wire x)), Some (off + of_nat (length (wire x))))"
    and marshal_short: "valid x \<Longrightarrow> unat bs \<le> length b \<Longrightarrow> \<not> fits bs off (length (wire x)) \<Longrightarrow>
      \<exists>b'. F x (Some b) bs (Some off) =
        Some (TSS2_MU_RC_INSUFFICIENT_BUFFER, Some b', Some off)"
begin

lemma marshal_success_iff:
  assumes "src x" "unat bs \<le> length b"
  shows "(\<exists>b' off'. F x (Some b) bs (Some off) = Some (0, b', off')) \<longleftrightarrow>
         valid x \<and> fits bs off (length (wire x))"
  using marshal_total [OF assms, of off] marshal_fit [OF _ assms(2)] by fastforce

lemma marshal_reject:
  assumes "src x" "\<not> valid x" "unat bs \<le> length b"
  shows "\<exists>rc b'. F x (Some b) bs (Some off) = Some (rc, Some b', Some off) \<and> rc \<noteq> 0
           \<and> untouched b b' off bs"
  using marshal_total [OF assms(1,3), of off] assms(2) by auto

lemma marshal_then_holds:
  assumes "src x" "unat bs \<le> length b" "F x (Some b) bs (Some off) = Some (0, Some b', Some off')"
  shows "valid x \<and> holds_at b' bs off (wire x) \<and> untouched b b' off bs
         \<and> off' = off + of_nat (length (wire x))"
proof -
  have valid: "valid x" and fit: "fits bs off (length (wire x))"
    using marshal_success_iff [OF assms(1,2), of off] assms(3) by auto
  then show ?thesis
    using marshal_fit [OF valid assms(2) fit] assms(2,3)
    by (auto simp: holds_at_patch untouched_patch)
qed

end

section \<open>Contract of the unmarshal functions\<close>

text \<open>
  \<open>wt\<close> are the destination objects, arrays of their declared length.  An unmarshal call with a
  buffer and a destination never faults, keeps the destination well typed and moves the offset
  only on success; if the wire format of some \<open>valid\<close> value lies at the offset the call succeeds,
  consumes it and leaves a destination with that wire format.
\<close>

locale unmarshaler =
  fixes U :: "'a ufun"
    and wt :: "'a \<Rightarrow> bool"
    and valid :: "'a \<Rightarrow> bool"
    and wire :: "'a \<Rightarrow> BYTE list"
  assumes unmarshal_total: "wt d \<Longrightarrow> unat bs \<le> length b \<Longrightarrow>
      \<exists>rc off' d'. U (Some b) bs (Some off) (Some d) = Some (rc, Some off', Some d') \<and>
        wt d' \<and> (rc \<noteq> 0 \<longrightarrow> off' = off)"
    and unmarshal_complete: "wt d \<Longrightarrow> unat bs \<le> length b \<Longrightarrow> valid x \<Longrightarrow> holds_at b bs off (wire x) \<Longrightarrow>
      \<exists>d'. U (Some b) bs (Some off) (Some d) =
        Some (0, Some (off + of_nat (length (wire x))), Some d') \<and> wire d' = wire x"

text \<open>
  A strict unmarshal function also succeeds on nothing else: after a success the destination is
  a \<open>valid\<close> value and exactly its wire format was consumed.
\<close>

locale strict_unmarshaler = unmarshaler +
  assumes unmarshal_sound: "wt d \<Longrightarrow> unat bs \<le> length b \<Longrightarrow>
      U (Some b) bs (Some off) (Some d) = Some (0, Some off', Some d') \<Longrightarrow>
      valid d' \<and> holds_at b bs off (wire d') \<and> off' = off + of_nat (length (wire d'))"
begin

lemma unmarshal_deterministic:
  assumes "wt d" "unat bs \<le> length b" "valid x" "holds_at b bs off (wire x)"
  shows "\<exists>d'. U (Some b) bs (Some off) (Some d) =
           Some (0, Some (off + of_nat (length (wire x))), Some d') \<and> valid d' \<and> wt d' \<and> wire d' = wire x"
  using unmarshal_complete [OF assms] unmarshal_sound [OF assms(1,2)]
    unmarshal_total [OF assms(1,2), of off] by fastforce

text \<open>Wire formats are prefix-free: the bytes at an offset determine the value read there.\<close>

lemma wire_prefix_free:
  assumes "wt d" "unat bs \<le> length b" "valid x" "valid y"
    and "holds_at b bs off (wire x)" "holds_at b bs off (wire y)"
  shows "wire x = wire y"
  using unmarshal_complete [OF assms(1,2,3,5)] unmarshal_complete [OF assms(1,2,4,6)] by auto

end

text \<open>The same contract as one statement about the outcome of a call.\<close>

definition read_outcome ::
  "('a \<Rightarrow> bool) \<Rightarrow> ('a \<Rightarrow> bool) \<Rightarrow> ('a \<Rightarrow> BYTE list) \<Rightarrow> buf \<Rightarrow> size_t \<Rightarrow> size_t \<Rightarrow> 'a ures \<Rightarrow> bool" where
  "read_outcome wt valid wire b bs off res \<longleftrightarrow>
     (\<exists>rc off' d'. res = Some (rc, Some off', Some d') \<and> wt d' \<and> (rc \<noteq> 0 \<longrightarrow> off' = off) \<and>
        (rc = 0 \<longrightarrow> valid d' \<and> holds_at b bs off (wire d') \<and> off' = off + of_nat (length (wire d'))) \<and>
        (\<forall>x. valid x \<longrightarrow> holds_at b bs off (wire x) \<longrightarrow> rc = 0 \<and> wire d' = wire x))"

lemma read_outcomeI:
  assumes "wt d'" "rc \<noteq> 0 \<Longrightarrow> off' = off"
    and "rc = 0 \<Longrightarrow> valid d' \<and> holds_at b bs off (wire d') \<and> off' = off + of_nat (length (wire d'))"
    and "\<And>x. valid x \<Longrightarrow> holds_at b bs off (wire x) \<Longrightarrow> rc = 0 \<and> wire d' = wire x"
  shows "read_outcome wt valid wire b bs off (Some (rc, Some off', Some d'))"
  unfolding read_outcome_def using assms by blast

lemma read_outcomeE:
  assumes "read_outcome wt valid wire b bs off res"
  obtains rc off' d' where "res = Some (rc, Some off', Some d')" "wt d'" "rc \<noteq> 0 \<Longrightarrow> off' = off"
    and "rc = 0 \<Longrightarrow> valid d' \<and> holds_at b bs off (wire d') \<and> off' = off + of_nat (length (wire d'))"
    and "\<And>x. valid x \<Longrightarrow> holds_at b bs off (wire x) \<Longrightarrow> rc = 0 \<and> wire d' = wire x"
  using assms unfolding read_outcome_def by blast

lemma strict_unmarshaler_iff:
  "strict_unmarshaler U wt valid wire \<longleftrightarrow>
     (\<forall>d bs b off. wt d \<longrightarrow> unat bs \<le> length b \<longrightarrow>
        read_outcome wt valid wire b bs off (U (Some b) bs (Some off) (Some d)))"
  (is "?L \<longleftrightarrow> ?R")
proof
  assume L: ?L
  show ?R
  proof (intro allI impI)
    fix d and bs off :: size_t and b :: buf
    assume a: "wt d" "unat bs \<le> length b"
    have u: "unmarshaler U wt valid wire" using L by (rule strict_unmarshaler.axioms)
    from unmarshaler.unmarshal_total [OF u a, of off] obtain rc off' d' where
      r: "U (Some b) bs (Some off) (Some d) = Some (rc, Some off', Some d')" "wt d'" "rc \<noteq> 0 \<longrightarrow> off' = off"
      by blast
    moreover have "rc = 0 \<longrightarrow> valid d' \<and> holds_at b bs off (wire d') \<and> off' = off + of_nat (length (wire d'))"
      using strict_unmarshaler.unmarshal_sound [OF L a] r by blast
    moreover have "\<forall>x. valid x \<longrightarrow> holds_at b bs off (wire x) \<longrightarrow> rc = 0 \<and> wire d' = wire x"
      using unmarshaler.unmarshal_complete [OF u a] r by fastforce
    ultimately show "read_outcome wt valid wire b bs off (U (Some b) bs (Some off) (Some d))"
      unfolding read_outcome_def by blast
  qed
next
  assume ?R
  then have R: "wt d \<Longrightarrow> unat bs \<le> length b \<Longrightarrow>
      read_outcome wt valid wire b bs off (U (Some b) bs (Some off) (Some d))" for d bs b off
    by blast
  show ?L
  proof
    fix d bs b off x off' d' assume a: "wt d" "unat (bs :: size_t) \<le> length (b :: buf)"
    show "\<exists>rc off' d'. U (Some b) bs (Some off) (Some d) = Some (rc, Some off', Some d') \<and> wt d' \<and>
            (rc \<noteq> 0 \<longrightarrow> off' = off)"
      using R [OF a, of off] unfolding read_outcome_def by blast
    show "\<exists>d'. U (Some b) bs (Some off) (Some d) =
            Some (0, Some (off + of_nat (length (wire x))), Some d') \<and> wire d' = wire x"
      if "valid x" "holds_at b bs off (wire x)"
      using R [OF a, of off] that unfolding read_outcome_def by fastforce
    show "valid d' \<and> holds_at b bs off (wire d') \<and> off' = off + of_nat (length (wire d'))"
      if "U (Some b) bs (Some off) (Some d) = Some (0, Some off', Some d')"
      using R [OF a, of off] that unfolding read_outcome_def by auto
  qed
qed

section \<open>Codecs\<close>

text \<open>
  \<open>transport\<close> pairs the two functions of a type.  \<open>readable\<close> are the values the unmarshal function
  accepts; for all types but \<open>TPMS_ATTEST\<close>, whose magic number is checked on reading only, they
  are the \<open>valid\<close> ones.
\<close>

locale transport = marshaler F src valid wire lim + unmarshaler U wt readable wire
  for F :: "'a mfun" and src valid wire lim and U :: "'a ufun" and wt readable +
  assumes readable_valid: "readable x \<Longrightarrow> valid x"
begin

lemma round_trip:
  assumes "readable x" "wt d" "unat bs \<le> length b"
    and "F x (Some b) bs (Some off) = Some (0, Some b', Some off')"
  shows "\<exists>d'. U (Some b') bs (Some off) (Some d) = Some (0, Some off', Some d') \<and> wire d' = wire x"
proof -
  have "src x" using assms(1) by (intro valid_src readable_valid)
  from marshal_then_holds [OF this assms(3,4)]
  have h: "holds_at b' bs off (wire x)" "off' = off + of_nat (length (wire x))" "length b' = length b"
    by (auto simp: untouched_def)
  with assms(3) have "unat bs \<le> length b'" by simp
  from unmarshal_complete [OF assms(2) this assms(1) h(1)] h(2) show ?thesis by simp
qed

lemma marshal_then_unmarshal:
  assumes "readable x" "wt d" "unat bs \<le> length b" "fits bs off (length (wire x))"
  shows "\<exists>b' off' d'. F x (Some b) bs (Some off) = Some (0, Some b', Some off') \<and>
           U (Some b') bs (Some off) (Some d) = Some (0, Some off', Some d') \<and> wire d' = wire x"
  using marshal_fit [OF readable_valid [OF assms(1)] assms(3,4)] round_trip [OF assms(1-3)] by blast

end

locale codec = transport F src valid wire lim U wt readable + strict_unmarshaler U wt readable wire
  for F :: "'a mfun" and src valid wire lim and U :: "'a ufun" and wt readable
begin

text \<open>Unmarshalling and marshalling again reproduces the bytes that were read.\<close>

lemma reverse_round_trip:
  assumes "wt d" "unat bs \<le> length b" "unat bs' \<le> length c"
    and "U (Some b) bs (Some off) (Some d) = Some (0, Some off', Some d')"
    and "fits bs' o2 (length (wire d'))"
  shows "F d' (Some c) bs' (Some o2) =
           Some (0, Some (patch c (unat o2) (seg b (unat off) (length (wire d')))),
                 Some (o2 + of_nat (length (wire d'))))"
  using unmarshal_sound [OF assms(1,2,4)] marshal_fit [OF readable_valid assms(3,5)]
  by (simp add: holds_at_def)

lemma unmarshal_bounded:
  assumes "wt d" "unat bs \<le> length b"
    and "U (Some b) bs (Some off) (Some d) = Some (0, Some off', Some d')" "off \<le> bs"
  shows "off \<le> off' \<and> off' \<le> bs \<and> unat off' - unat off \<le> lim"
proof -
  from unmarshal_sound [OF assms(1-3)]
  have v: "readable d'" and f: "fits bs off (length (wire d'))" and o: "off' = off + of_nat (length (wire d'))"
    by (auto simp: holds_at_def)
  from wire_le [OF readable_valid [OF v]] f o assms(4) show ?thesis
    by (cases "length (wire d') = 0") (auto simp: fits_def unat_add_fits word_le_nat_alt)
qed

end

lemma transportI:
  "marshaler F src valid wire lim \<Longrightarrow> unmarshaler U wt valid wire \<Longrightarrow>
   transport F src valid wire lim U wt valid"
  by (simp add: transport_def transport_axioms_def)

lemma codecI:
  "marshaler F src valid wire lim \<Longrightarrow> strict_unmarshaler U wt valid wire \<Longrightarrow>
   codec F src valid wire lim U wt valid"
  by (simp add: codec_def transportI strict_unmarshaler.axioms)

end
