(* ===== verification/MU_Base.thy ===== *)
theory MU_Base
  imports MU_Contract
begin

text \<open>
  The integer codecs of \<open>tss2-mu\<close>: the macros \<open>BASE_MARSHAL\<close> and \<open>BASE_UNMARSHAL\<close> of
  \<open>base-types.c\<close> and \<open>TPMA_MARSHAL\<close> and \<open>TPMA_UNMARSHAL\<close> of \<open>tpma-types.c\<close>, polymorphic in the
  width of the integer, and the functions they expand to.
\<close>

section \<open>The bounds check\<close>

text \<open>\<open>buffer_size < local_offset || buffer_size - local_offset < n\<close>, in \<open>size_t\<close> arithmetic.\<close>

definition lacks_room :: "size_t \<Rightarrow> size_t \<Rightarrow> size_t \<Rightarrow> bool" where
  "lacks_room buffer_size local_offset n \<longleftrightarrow>
     buffer_size < local_offset \<or> buffer_size - local_offset < n"

definition local_of :: "size_t option \<Rightarrow> size_t" where
  "local_of offset = (case offset of None \<Rightarrow> 0 | Some off \<Rightarrow> off)"

lemma local_of_simps [simp]: "local_of None = 0" "local_of (Some off) = off"
  by (simp_all add: local_of_def)

lemma lacks_room_iff: "lacks_room bs off n \<longleftrightarrow> \<not> unat off + unat n \<le> unat bs"
  by (auto simp: lacks_room_def word_less_nat_alt unat_sub_if_size not_less)

section \<open>Macros\<close>

definition BASE_MARSHAL :: "'a::len word mfun" where
  "BASE_MARSHAL src buffer buffer_size offset =
     (let local_offset = local_of offset; n = of_nat (sizeof_word src) in
      case buffer of
        None \<Rightarrow> (case offset of
            None \<Rightarrow> Some (TSS2_MU_RC_BAD_REFERENCE, buffer, offset)
          | Some off \<Rightarrow> Some (TSS2_RC_SUCCESS, buffer, Some (off + n)))
      | Some b \<Rightarrow>
          if lacks_room buffer_size local_offset n
          then Some (TSS2_MU_RC_INSUFFICIENT_BUFFER, buffer, offset)
          else if sizeof_word src \<notin> {1, 2, 4, 8}
          then Some (TSS2_MU_RC_BAD_SIZE, buffer, offset)
          else
            (case mem_write b local_offset
                    (bytes_of (if sizeof_word src = 1 then src else HOST_TO_BE src)) of
               None \<Rightarrow> None
             | Some b' \<Rightarrow> Some (TSS2_RC_SUCCESS, Some b', map_option (\<lambda>_. local_offset + n) offset)))"

definition BASE_UNMARSHAL :: "'a::len word ufun" where
  "BASE_UNMARSHAL buffer buffer_size offset dest =
     (let local_offset = local_of offset; k = LENGTH('a) div 8 in
      case buffer of
        None \<Rightarrow> Some (TSS2_MU_RC_BAD_REFERENCE, offset, dest)
      | Some b \<Rightarrow>
          if dest = None \<and> offset = None then Some (TSS2_MU_RC_BAD_REFERENCE, offset, dest)
          else if lacks_room buffer_size local_offset (of_nat k)
          then Some (TSS2_MU_RC_INSUFFICIENT_BUFFER, offset, dest)
          else if dest = None
          then Some (TSS2_RC_SUCCESS, map_option (\<lambda>off. off + of_nat k) offset, dest)
          else
            (case mem_read b local_offset k of
               None \<Rightarrow> None
             | Some xs \<Rightarrow>
                 let tmp = word_of xs in
                 if k \<notin> {1, 2, 4, 8} then Some (TSS2_MU_RC_BAD_SIZE, offset, dest)
                 else Some (TSS2_RC_SUCCESS, map_option (\<lambda>_. local_offset + of_nat k) offset,
                            Some (if k = 1 then tmp else BE_TO_HOST tmp))))"

definition TPMA_MARSHAL :: "'a::len word mfun" where
  "TPMA_MARSHAL src buffer buffer_size offset =
     (let local_offset = local_of offset; n = of_nat (sizeof_word src) in
      case buffer of
        None \<Rightarrow> (case offset of
            None \<Rightarrow> Some (TSS2_MU_RC_BAD_REFERENCE, buffer, offset)
          | Some off \<Rightarrow> Some (TSS2_RC_SUCCESS, buffer, Some (off + n)))
      | Some b \<Rightarrow>
          if lacks_room buffer_size local_offset n
          then Some (TSS2_MU_RC_INSUFFICIENT_BUFFER, buffer, offset)
          else if sizeof_word src \<notin> {1, 2, 4, 8}
          then Some (TSS2_MU_RC_GENERAL_FAILURE, buffer, offset)
          else
            (case mem_write b local_offset
                    (bytes_of (if sizeof_word src = 1 then src else HOST_TO_BE src)) of
               None \<Rightarrow> None
             | Some b' \<Rightarrow> Some (TSS2_RC_SUCCESS, Some b', map_option (\<lambda>_. local_offset + n) offset)))"

text \<open>Unlike \<open>BASE_UNMARSHAL\<close>, this one skips (\<open>dest\<close> is \<open>NULL\<close>) before it looks at the room.\<close>

definition TPMA_UNMARSHAL :: "'a::len word ufun" where
  "TPMA_UNMARSHAL buffer buffer_size offset dest =
     (let local_offset = local_of offset; k = LENGTH('a) div 8 in
      case buffer of
        None \<Rightarrow> Some (TSS2_MU_RC_BAD_REFERENCE, offset, dest)
      | Some b \<Rightarrow>
          if dest = None \<and> offset = None then Some (TSS2_MU_RC_BAD_REFERENCE, offset, dest)
          else if dest = None
          then Some (TSS2_RC_SUCCESS, map_option (\<lambda>off. off + of_nat k) offset, dest)
          else if lacks_room buffer_size local_offset (of_nat k)
          then Some (TSS2_MU_RC_INSUFFICIENT_BUFFER, offset, dest)
          else
            (case mem_read b local_offset k of
               None \<Rightarrow> None
             | Some xs \<Rightarrow>
                 let tmp = word_of xs in
                 if k \<notin> {1, 2, 4, 8} then Some (TSS2_MU_RC_GENERAL_FAILURE, offset, dest)
                 else Some (TSS2_RC_SUCCESS, map_option (\<lambda>_. local_offset + of_nat k) offset,
                            Some (if k = 1 then tmp else BE_TO_HOST tmp))))"

section \<open>Contracts of the macros\<close>

lemma sizeof_byte_word: "8 dvd LENGTH('a) \<Longrightarrow> LENGTH('a::len) div 8 = 1 \<Longrightarrow> LENGTH('a) = 8"
  by auto

lemma bytes_of_be:
  assumes "8 dvd LENGTH('a)"
  shows "bytes_of (if LENGTH('a) div 8 = 1 then w else HOST_TO_BE w) = be_bytes (w :: 'a::len word)"
proof (cases "LENGTH('a) div 8 = 1")
  case True
  then have "length (bytes_of w) = 1" by simp
  then have "rev (bytes_of w) = bytes_of w" by (cases "bytes_of w") auto
  with True show ?thesis by (simp add: be_bytes_def)
next
  case False
  with assms show ?thesis by simp
qed

lemma word_of_be:
  assumes "8 dvd LENGTH('a)" "length xs = LENGTH('a) div 8"
  shows "(if LENGTH('a) div 8 = 1 then word_of xs else BE_TO_HOST (word_of xs))
         = (word_of (rev xs) :: 'a::len word)"
proof (cases "LENGTH('a) div 8 = 1")
  case True
  with assms have "length xs = 1" by simp
  then have "rev xs = xs" by (cases xs) auto
  with True show ?thesis by simp
next
  case False
  with assms show ?thesis by (auto simp: BE_TO_HOST_word_of)
qed

text \<open>The widths of the C types; in all of them \<open>sizeof\<close> is a small number of \<open>size_t\<close>.\<close>

definition int_width :: "nat \<Rightarrow> bool" where
  "int_width n \<longleftrightarrow> n \<in> {8, 16, 32, 64}"

lemma int_widthD:
  assumes "int_width n"
  shows "8 dvd n" "n div 8 \<in> {1, 2, 4, 8}" "unat (of_nat (n div 8) :: size_t) = n div 8"
  using assms by (auto simp: int_width_def)

lemma int_width_simps [simp]: "int_width 8" "int_width 16" "int_width 32" "int_width 64"
  by (simp_all add: int_width_def)

lemma BASE_MARSHAL_Some:
  assumes w: "int_width LENGTH('a)" and bs: "unat bs \<le> length b"
  shows "BASE_MARSHAL (x :: 'a::len word) (Some b) bs (Some off) =
     (if fits bs off (length (be_bytes x))
      then Some (0, Some (patch b (unat off) (be_bytes x)), Some (off + of_nat (length (be_bytes x))))
      else Some (TSS2_MU_RC_INSUFFICIENT_BUFFER, Some b, Some off))"
  using int_widthD [OF w] bs unfolding BASE_MARSHAL_def Let_def bytes_of_be [OF int_widthD(1) [OF w]]
  by (auto simp: lacks_room_iff fits_def mem_write_def)

lemma TPMA_MARSHAL_Some:
  assumes w: "int_width LENGTH('a)"
  shows "TPMA_MARSHAL (x :: 'a::len word) (Some b) bs (Some off) = BASE_MARSHAL x (Some b) bs (Some off)"
  using int_widthD [OF w] by (auto simp: BASE_MARSHAL_def TPMA_MARSHAL_def Let_def)

lemma BASE_UNMARSHAL_Some:
  assumes w: "int_width LENGTH('a)" and bs: "unat bs \<le> length b"
  shows "BASE_UNMARSHAL (Some b) bs (Some off) (Some (d :: 'a::len word)) =
     (if fits bs off (LENGTH('a) div 8)
      then Some (0, Some (off + of_nat (LENGTH('a) div 8)),
                 Some (word_of (rev (seg b (unat off) (LENGTH('a) div 8)))))
      else Some (TSS2_MU_RC_INSUFFICIENT_BUFFER, Some off, Some d))"
  using int_widthD [OF w] bs unfolding BASE_UNMARSHAL_def Let_def
  by (auto simp: lacks_room_iff fits_def mem_read_def word_of_be [OF int_widthD(1) [OF w], simplified])

lemma TPMA_UNMARSHAL_Some:
  assumes w: "int_width LENGTH('a)"
  shows "TPMA_UNMARSHAL (Some b) bs (Some off) (Some (d :: 'a::len word))
         = BASE_UNMARSHAL (Some b) bs (Some off) (Some d)"
  using int_widthD [OF w]
  by (auto simp: BASE_UNMARSHAL_def TPMA_UNMARSHAL_def Let_def split: option.splits)

lemma marshaler_BASE [mu_codec]:
  assumes w: "int_width LENGTH('a)"
  shows "marshaler (BASE_MARSHAL :: 'a::len word mfun) (\<lambda>_. True) (\<lambda>_. True) be_bytes (LENGTH('a) div 8)"
  by unfold_locales (auto simp: BASE_MARSHAL_Some [OF w] untouched_patch)

lemma marshaler_TPMA [mu_codec]:
  assumes w: "int_width LENGTH('a)"
  shows "marshaler (TPMA_MARSHAL :: 'a::len word mfun) (\<lambda>_. True) (\<lambda>_. True) be_bytes (LENGTH('a) div 8)"
  using marshaler_BASE [OF w] unfolding marshaler_def TPMA_MARSHAL_Some [OF w] .

lemma holds_at_be_bytes:
  assumes w: "int_width LENGTH('a)" and bs: "unat bs \<le> length b"
  shows "holds_at b bs off (be_bytes (x :: 'a::len word)) \<longleftrightarrow>
     fits bs off (LENGTH('a) div 8) \<and> word_of (rev (seg b (unat off) (LENGTH('a) div 8))) = x"
proof -
  have len: "LENGTH('a) = 8 * length (seg b (unat off) (LENGTH('a) div 8))"
    if "fits bs off (LENGTH('a) div 8)"
    using that w bs by (auto simp: fits_def int_width_def)
  show ?thesis
    using be_bytes_word_of [OF len] int_widthD(1) [OF w]
    by (auto simp: holds_at_def)
qed

lemma strict_unmarshaler_BASE [mu_codec]:
  assumes w: "int_width LENGTH('a)"
  shows "strict_unmarshaler (BASE_UNMARSHAL :: 'a::len word ufun) (\<lambda>_. True) (\<lambda>_. True) be_bytes"
  by unfold_locales
    (auto simp: BASE_UNMARSHAL_Some [OF w] holds_at_be_bytes [OF w] split: if_splits)

lemma strict_unmarshaler_TPMA [mu_codec]:
  assumes w: "int_width LENGTH('a)"
  shows "strict_unmarshaler (TPMA_UNMARSHAL :: 'a::len word ufun) (\<lambda>_. True) (\<lambda>_. True) be_bytes"
  using strict_unmarshaler_BASE [OF w]
  unfolding strict_unmarshaler_def strict_unmarshaler_axioms_def unmarshaler_def
    TPMA_UNMARSHAL_Some [OF w] .

section \<open>Functions of \<open>base-types.c\<close>\<close>

definition Tss2_MU_BYTE_Marshal :: "8 word mfun" where
  "Tss2_MU_BYTE_Marshal = BASE_MARSHAL"

definition Tss2_MU_BYTE_Unmarshal :: "8 word ufun" where
  "Tss2_MU_BYTE_Unmarshal = BASE_UNMARSHAL"

definition Tss2_MU_INT8_Marshal :: "8 word mfun" where
  "Tss2_MU_INT8_Marshal = BASE_MARSHAL"

definition Tss2_MU_INT8_Unmarshal :: "8 word ufun" where
  "Tss2_MU_INT8_Unmarshal = BASE_UNMARSHAL"

definition Tss2_MU_INT16_Marshal :: "16 word mfun" where
  "Tss2_MU_INT16_Marshal = BASE_MARSHAL"

definition Tss2_MU_INT16_Unmarshal :: "16 word ufun" where
  "Tss2_MU_INT16_Unmarshal = BASE_UNMARSHAL"

definition Tss2_MU_INT32_Marshal :: "32 word mfun" where
  "Tss2_MU_INT32_Marshal = BASE_MARSHAL"

definition Tss2_MU_INT32_Unmarshal :: "32 word ufun" where
  "Tss2_MU_INT32_Unmarshal = BASE_UNMARSHAL"

definition Tss2_MU_INT64_Marshal :: "64 word mfun" where
  "Tss2_MU_INT64_Marshal = BASE_MARSHAL"

definition Tss2_MU_INT64_Unmarshal :: "64 word ufun" where
  "Tss2_MU_INT64_Unmarshal = BASE_UNMARSHAL"

definition Tss2_MU_UINT8_Marshal :: "8 word mfun" where
  "Tss2_MU_UINT8_Marshal = BASE_MARSHAL"

definition Tss2_MU_UINT8_Unmarshal :: "8 word ufun" where
  "Tss2_MU_UINT8_Unmarshal = BASE_UNMARSHAL"

definition Tss2_MU_UINT16_Marshal :: "16 word mfun" where
  "Tss2_MU_UINT16_Marshal = BASE_MARSHAL"

definition Tss2_MU_UINT16_Unmarshal :: "16 word ufun" where
  "Tss2_MU_UINT16_Unmarshal = BASE_UNMARSHAL"

definition Tss2_MU_UINT32_Marshal :: "32 word mfun" where
  "Tss2_MU_UINT32_Marshal = BASE_MARSHAL"

definition Tss2_MU_UINT32_Unmarshal :: "32 word ufun" where
  "Tss2_MU_UINT32_Unmarshal = BASE_UNMARSHAL"

definition Tss2_MU_UINT64_Marshal :: "64 word mfun" where
  "Tss2_MU_UINT64_Marshal = BASE_MARSHAL"

definition Tss2_MU_UINT64_Unmarshal :: "64 word ufun" where
  "Tss2_MU_UINT64_Unmarshal = BASE_UNMARSHAL"

definition Tss2_MU_TPM2_CC_Marshal :: "32 word mfun" where
  "Tss2_MU_TPM2_CC_Marshal = BASE_MARSHAL"

definition Tss2_MU_TPM2_CC_Unmarshal :: "32 word ufun" where
  "Tss2_MU_TPM2_CC_Unmarshal = BASE_UNMARSHAL"

definition Tss2_MU_TPM2_ST_Marshal :: "16 word mfun" where
  "Tss2_MU_TPM2_ST_Marshal = BASE_MARSHAL"

definition Tss2_MU_TPM2_ST_Unmarshal :: "16 word ufun" where
  "Tss2_MU_TPM2_ST_Unmarshal = BASE_UNMARSHAL"

definition Tss2_MU_TPM2_SE_Marshal :: "8 word mfun" where
  "Tss2_MU_TPM2_SE_Marshal = BASE_MARSHAL"

definition Tss2_MU_TPM2_SE_Unmarshal :: "8 word ufun" where
  "Tss2_MU_TPM2_SE_Unmarshal = BASE_UNMARSHAL"

definition Tss2_MU_TPM2_NT_Marshal :: "8 word mfun" where
  "Tss2_MU_TPM2_NT_Marshal = BASE_MARSHAL"

definition Tss2_MU_TPM2_NT_Unmarshal :: "8 word ufun" where
  "Tss2_MU_TPM2_NT_Unmarshal = BASE_UNMARSHAL"

definition Tss2_MU_TPM2_HANDLE_Marshal :: "32 word mfun" where
  "Tss2_MU_TPM2_HANDLE_Marshal = BASE_MARSHAL"

definition Tss2_MU_TPM2_HANDLE_Unmarshal :: "32 word ufun" where
  "Tss2_MU_TPM2_HANDLE_Unmarshal = BASE_UNMARSHAL"

definition Tss2_MU_TPMI_ALG_HASH_Marshal :: "16 word mfun" where
  "Tss2_MU_TPMI_ALG_HASH_Marshal = BASE_MARSHAL"

definition Tss2_MU_TPMI_ALG_HASH_Unmarshal :: "16 word ufun" where
  "Tss2_MU_TPMI_ALG_HASH_Unmarshal = BASE_UNMARSHAL"

interpretation mu_BYTE: codec Tss2_MU_BYTE_Marshal "\<lambda>_. True" "\<lambda>_. True" be_bytes "1"
  Tss2_MU_BYTE_Unmarshal "\<lambda>_. True" "\<lambda>_. True"
  using codecI [OF marshaler_BASE [where ?'a = 8] strict_unmarshaler_BASE [where ?'a = 8]]
  by (simp add: Tss2_MU_BYTE_Marshal_def Tss2_MU_BYTE_Unmarshal_def)

interpretation mu_INT8: codec Tss2_MU_INT8_Marshal "\<lambda>_. True" "\<lambda>_. True" be_bytes "1"
  Tss2_MU_INT8_Unmarshal "\<lambda>_. True" "\<lambda>_. True"
  using codecI [OF marshaler_BASE [where ?'a = 8] strict_unmarshaler_BASE [where ?'a = 8]]
  by (simp add: Tss2_MU_INT8_Marshal_def Tss2_MU_INT8_Unmarshal_def)

interpretation mu_INT16: codec Tss2_MU_INT16_Marshal "\<lambda>_. True" "\<lambda>_. True" be_bytes "2"
  Tss2_MU_INT16_Unmarshal "\<lambda>_. True" "\<lambda>_. True"
  using codecI [OF marshaler_BASE [where ?'a = 16] strict_unmarshaler_BASE [where ?'a = 16]]
  by (simp add: Tss2_MU_INT16_Marshal_def Tss2_MU_INT16_Unmarshal_def)

interpretation mu_INT32: codec Tss2_MU_INT32_Marshal "\<lambda>_. True" "\<lambda>_. True" be_bytes "4"
  Tss2_MU_INT32_Unmarshal "\<lambda>_. True" "\<lambda>_. True"
  using codecI [OF marshaler_BASE [where ?'a = 32] strict_unmarshaler_BASE [where ?'a = 32]]
  by (simp add: Tss2_MU_INT32_Marshal_def Tss2_MU_INT32_Unmarshal_def)

interpretation mu_INT64: codec Tss2_MU_INT64_Marshal "\<lambda>_. True" "\<lambda>_. True" be_bytes "8"
  Tss2_MU_INT64_Unmarshal "\<lambda>_. True" "\<lambda>_. True"
  using codecI [OF marshaler_BASE [where ?'a = 64] strict_unmarshaler_BASE [where ?'a = 64]]
  by (simp add: Tss2_MU_INT64_Marshal_def Tss2_MU_INT64_Unmarshal_def)

interpretation mu_UINT8: codec Tss2_MU_UINT8_Marshal "\<lambda>_. True" "\<lambda>_. True" be_bytes "1"
  Tss2_MU_UINT8_Unmarshal "\<lambda>_. True" "\<lambda>_. True"
  using codecI [OF marshaler_BASE [where ?'a = 8] strict_unmarshaler_BASE [where ?'a = 8]]
  by (simp add: Tss2_MU_UINT8_Marshal_def Tss2_MU_UINT8_Unmarshal_def)

interpretation mu_UINT16: codec Tss2_MU_UINT16_Marshal "\<lambda>_. True" "\<lambda>_. True" be_bytes "2"
  Tss2_MU_UINT16_Unmarshal "\<lambda>_. True" "\<lambda>_. True"
  using codecI [OF marshaler_BASE [where ?'a = 16] strict_unmarshaler_BASE [where ?'a = 16]]
  by (simp add: Tss2_MU_UINT16_Marshal_def Tss2_MU_UINT16_Unmarshal_def)

interpretation mu_UINT32: codec Tss2_MU_UINT32_Marshal "\<lambda>_. True" "\<lambda>_. True" be_bytes "4"
  Tss2_MU_UINT32_Unmarshal "\<lambda>_. True" "\<lambda>_. True"
  using codecI [OF marshaler_BASE [where ?'a = 32] strict_unmarshaler_BASE [where ?'a = 32]]
  by (simp add: Tss2_MU_UINT32_Marshal_def Tss2_MU_UINT32_Unmarshal_def)

interpretation mu_UINT64: codec Tss2_MU_UINT64_Marshal "\<lambda>_. True" "\<lambda>_. True" be_bytes "8"
  Tss2_MU_UINT64_Unmarshal "\<lambda>_. True" "\<lambda>_. True"
  using codecI [OF marshaler_BASE [where ?'a = 64] strict_unmarshaler_BASE [where ?'a = 64]]
  by (simp add: Tss2_MU_UINT64_Marshal_def Tss2_MU_UINT64_Unmarshal_def)

interpretation mu_TPM2_CC: codec Tss2_MU_TPM2_CC_Marshal "\<lambda>_. True" "\<lambda>_. True" be_bytes "4"
  Tss2_MU_TPM2_CC_Unmarshal "\<lambda>_. True" "\<lambda>_. True"
  using codecI [OF marshaler_BASE [where ?'a = 32] strict_unmarshaler_BASE [where ?'a = 32]]
  by (simp add: Tss2_MU_TPM2_CC_Marshal_def Tss2_MU_TPM2_CC_Unmarshal_def)

interpretation mu_TPM2_ST: codec Tss2_MU_TPM2_ST_Marshal "\<lambda>_. True" "\<lambda>_. True" be_bytes "2"
  Tss2_MU_TPM2_ST_Unmarshal "\<lambda>_. True" "\<lambda>_. True"
  using codecI [OF marshaler_BASE [where ?'a = 16] strict_unmarshaler_BASE [where ?'a = 16]]
  by (simp add: Tss2_MU_TPM2_ST_Marshal_def Tss2_MU_TPM2_ST_Unmarshal_def)

interpretation mu_TPM2_SE: codec Tss2_MU_TPM2_SE_Marshal "\<lambda>_. True" "\<lambda>_. True" be_bytes "1"
  Tss2_MU_TPM2_SE_Unmarshal "\<lambda>_. True" "\<lambda>_. True"
  using codecI [OF marshaler_BASE [where ?'a = 8] strict_unmarshaler_BASE [where ?'a = 8]]
  by (simp add: Tss2_MU_TPM2_SE_Marshal_def Tss2_MU_TPM2_SE_Unmarshal_def)

interpretation mu_TPM2_NT: codec Tss2_MU_TPM2_NT_Marshal "\<lambda>_. True" "\<lambda>_. True" be_bytes "1"
  Tss2_MU_TPM2_NT_Unmarshal "\<lambda>_. True" "\<lambda>_. True"
  using codecI [OF marshaler_BASE [where ?'a = 8] strict_unmarshaler_BASE [where ?'a = 8]]
  by (simp add: Tss2_MU_TPM2_NT_Marshal_def Tss2_MU_TPM2_NT_Unmarshal_def)

interpretation mu_TPM2_HANDLE: codec Tss2_MU_TPM2_HANDLE_Marshal "\<lambda>_. True" "\<lambda>_. True" be_bytes "4"
  Tss2_MU_TPM2_HANDLE_Unmarshal "\<lambda>_. True" "\<lambda>_. True"
  using codecI [OF marshaler_BASE [where ?'a = 32] strict_unmarshaler_BASE [where ?'a = 32]]
  by (simp add: Tss2_MU_TPM2_HANDLE_Marshal_def Tss2_MU_TPM2_HANDLE_Unmarshal_def)

interpretation mu_TPMI_ALG_HASH: codec Tss2_MU_TPMI_ALG_HASH_Marshal "\<lambda>_. True" "\<lambda>_. True" be_bytes "2"
  Tss2_MU_TPMI_ALG_HASH_Unmarshal "\<lambda>_. True" "\<lambda>_. True"
  using codecI [OF marshaler_BASE [where ?'a = 16] strict_unmarshaler_BASE [where ?'a = 16]]
  by (simp add: Tss2_MU_TPMI_ALG_HASH_Marshal_def Tss2_MU_TPMI_ALG_HASH_Unmarshal_def)

section \<open>Functions of \<open>tpma-types.c\<close>\<close>

definition Tss2_MU_TPMA_ALGORITHM_Marshal :: "32 word mfun" where
  "Tss2_MU_TPMA_ALGORITHM_Marshal = TPMA_MARSHAL"

definition Tss2_MU_TPMA_ALGORITHM_Unmarshal :: "32 word ufun" where
  "Tss2_MU_TPMA_ALGORITHM_Unmarshal = TPMA_UNMARSHAL"

definition Tss2_MU_TPMA_CC_Marshal :: "32 word mfun" where
  "Tss2_MU_TPMA_CC_Marshal = TPMA_MARSHAL"

definition Tss2_MU_TPMA_CC_Unmarshal :: "32 word ufun" where
  "Tss2_MU_TPMA_CC_Unmarshal = TPMA_UNMARSHAL"

definition Tss2_MU_TPMA_LOCALITY_Marshal :: "8 word mfun" where
  "Tss2_MU_TPMA_LOCALITY_Marshal = TPMA_MARSHAL"

definition Tss2_MU_TPMA_LOCALITY_Unmarshal :: "8 word ufun" where
  "Tss2_MU_TPMA_LOCALITY_Unmarshal = TPMA_UNMARSHAL"

definition Tss2_MU_TPMA_NV_Marshal :: "32 word mfun" where
  "Tss2_MU_TPMA_NV_Marshal = TPMA_MARSHAL"

definition Tss2_MU_TPMA_NV_Unmarshal :: "32 word ufun" where
  "Tss2_MU_TPMA_NV_Unmarshal = TPMA_UNMARSHAL"

definition Tss2_MU_TPMA_OBJECT_Marshal :: "32 word mfun" where
  "Tss2_MU_TPMA_OBJECT_Marshal = TPMA_MARSHAL"

definition Tss2_MU_TPMA_OBJECT_Unmarshal :: "32 word ufun" where
  "Tss2_MU_TPMA_OBJECT_Unmarshal = TPMA_UNMARSHAL"

definition Tss2_MU_TPMA_PERMANENT_Marshal :: "32 word mfun" where
  "Tss2_MU_TPMA_PERMANENT_Marshal = TPMA_MARSHAL"

definition Tss2_MU_TPMA_PERMANENT_Unmarshal :: "32 word ufun" where
  "Tss2_MU_TPMA_PERMANENT_Unmarshal = TPMA_UNMARSHAL"

definition Tss2_MU_TPMA_SESSION_Marshal :: "8 word mfun" where
  "Tss2_MU_TPMA_SESSION_Marshal = TPMA_MARSHAL"

definition Tss2_MU_TPMA_SESSION_Unmarshal :: "8 word ufun" where
  "Tss2_MU_TPMA_SESSION_Unmarshal = TPMA_UNMARSHAL"

definition Tss2_MU_TPMA_STARTUP_CLEAR_Marshal :: "32 word mfun" where
  "Tss2_MU_TPMA_STARTUP_CLEAR_Marshal = TPMA_MARSHAL"

definition Tss2_MU_TPMA_STARTUP_CLEAR_Unmarshal :: "32 word ufun" where
  "Tss2_MU_TPMA_STARTUP_CLEAR_Unmarshal = TPMA_UNMARSHAL"

interpretation mu_TPMA_ALGORITHM: codec Tss2_MU_TPMA_ALGORITHM_Marshal "\<lambda>_. True" "\<lambda>_. True" be_bytes "4"
  Tss2_MU_TPMA_ALGORITHM_Unmarshal "\<lambda>_. True" "\<lambda>_. True"
  using codecI [OF marshaler_TPMA [where ?'a = 32] strict_unmarshaler_TPMA [where ?'a = 32]]
  by (simp add: Tss2_MU_TPMA_ALGORITHM_Marshal_def Tss2_MU_TPMA_ALGORITHM_Unmarshal_def)

interpretation mu_TPMA_CC: codec Tss2_MU_TPMA_CC_Marshal "\<lambda>_. True" "\<lambda>_. True" be_bytes "4"
  Tss2_MU_TPMA_CC_Unmarshal "\<lambda>_. True" "\<lambda>_. True"
  using codecI [OF marshaler_TPMA [where ?'a = 32] strict_unmarshaler_TPMA [where ?'a = 32]]
  by (simp add: Tss2_MU_TPMA_CC_Marshal_def Tss2_MU_TPMA_CC_Unmarshal_def)

interpretation mu_TPMA_LOCALITY: codec Tss2_MU_TPMA_LOCALITY_Marshal "\<lambda>_. True" "\<lambda>_. True" be_bytes "1"
  Tss2_MU_TPMA_LOCALITY_Unmarshal "\<lambda>_. True" "\<lambda>_. True"
  using codecI [OF marshaler_TPMA [where ?'a = 8] strict_unmarshaler_TPMA [where ?'a = 8]]
  by (simp add: Tss2_MU_TPMA_LOCALITY_Marshal_def Tss2_MU_TPMA_LOCALITY_Unmarshal_def)

interpretation mu_TPMA_NV: codec Tss2_MU_TPMA_NV_Marshal "\<lambda>_. True" "\<lambda>_. True" be_bytes "4"
  Tss2_MU_TPMA_NV_Unmarshal "\<lambda>_. True" "\<lambda>_. True"
  using codecI [OF marshaler_TPMA [where ?'a = 32] strict_unmarshaler_TPMA [where ?'a = 32]]
  by (simp add: Tss2_MU_TPMA_NV_Marshal_def Tss2_MU_TPMA_NV_Unmarshal_def)

interpretation mu_TPMA_OBJECT: codec Tss2_MU_TPMA_OBJECT_Marshal "\<lambda>_. True" "\<lambda>_. True" be_bytes "4"
  Tss2_MU_TPMA_OBJECT_Unmarshal "\<lambda>_. True" "\<lambda>_. True"
  using codecI [OF marshaler_TPMA [where ?'a = 32] strict_unmarshaler_TPMA [where ?'a = 32]]
  by (simp add: Tss2_MU_TPMA_OBJECT_Marshal_def Tss2_MU_TPMA_OBJECT_Unmarshal_def)

interpretation mu_TPMA_PERMANENT: codec Tss2_MU_TPMA_PERMANENT_Marshal "\<lambda>_. True" "\<lambda>_. True" be_bytes "4"
  Tss2_MU_TPMA_PERMANENT_Unmarshal "\<lambda>_. True" "\<lambda>_. True"
  using codecI [OF marshaler_TPMA [where ?'a = 32] strict_unmarshaler_TPMA [where ?'a = 32]]
  by (simp add: Tss2_MU_TPMA_PERMANENT_Marshal_def Tss2_MU_TPMA_PERMANENT_Unmarshal_def)

interpretation mu_TPMA_SESSION: codec Tss2_MU_TPMA_SESSION_Marshal "\<lambda>_. True" "\<lambda>_. True" be_bytes "1"
  Tss2_MU_TPMA_SESSION_Unmarshal "\<lambda>_. True" "\<lambda>_. True"
  using codecI [OF marshaler_TPMA [where ?'a = 8] strict_unmarshaler_TPMA [where ?'a = 8]]
  by (simp add: Tss2_MU_TPMA_SESSION_Marshal_def Tss2_MU_TPMA_SESSION_Unmarshal_def)

interpretation mu_TPMA_STARTUP_CLEAR: codec Tss2_MU_TPMA_STARTUP_CLEAR_Marshal "\<lambda>_. True" "\<lambda>_. True" be_bytes "4"
  Tss2_MU_TPMA_STARTUP_CLEAR_Unmarshal "\<lambda>_. True" "\<lambda>_. True"
  using codecI [OF marshaler_TPMA [where ?'a = 32] strict_unmarshaler_TPMA [where ?'a = 32]]
  by (simp add: Tss2_MU_TPMA_STARTUP_CLEAR_Marshal_def Tss2_MU_TPMA_STARTUP_CLEAR_Unmarshal_def)

end
