(* ===== verification/MU_TPM2B.thy ===== *)
theory MU_TPM2B
  imports MU_Base
begin

text \<open>
  Sized buffers: the macros \<open>TPM2B_MARSHAL\<close>, \<open>TPM2B_UNMARSHAL\<close> and their \<open>_SUBTYPE\<close> forms of
  \<open>tpm2b-types.c\<close>, over the integer codecs, with their contracts.
\<close>

section \<open>Sized byte buffers\<close>

text \<open>
  All \<open>TPM2B_\<close> types without a typed payload share this record, as the C code shares the type
  \<open>TPM2B\<close> when it copies the payload; the list is the whole array, so its length is the declared
  one (\<open>wt_TPM2B\<close>).
\<close>

record TPM2B =
  TPM2B_size :: UINT16
  TPM2B_buffer :: "BYTE list"

definition TPM2B_MARSHAL :: "nat \<Rightarrow> TPM2B option \<Rightarrow> buf option \<Rightarrow> size_t \<Rightarrow> size_t option \<Rightarrow> mres" where
  "TPM2B_MARSHAL sizeof_type src buffer buffer_size offset =
     (case src of
        None \<Rightarrow> Some (TSS2_MU_RC_BAD_REFERENCE, buffer, offset)
      | Some s \<Rightarrow>
          let local_offset = local_of offset; n = 2 + ucast (TPM2B_size s) in
          case buffer of
            None \<Rightarrow> (case offset of
                None \<Rightarrow> Some (TSS2_MU_RC_BAD_REFERENCE, buffer, offset)
              | Some off \<Rightarrow> Some (TSS2_RC_SUCCESS, buffer, Some (off + n)))
          | Some b \<Rightarrow>
              if lacks_room buffer_size local_offset n
              then Some (TSS2_MU_RC_INSUFFICIENT_BUFFER, buffer, offset)
              else if sizeof_type - 2 < unat (TPM2B_size s)
              then Some (TSS2_MU_RC_BAD_SIZE, buffer, offset)
              else
                (case Tss2_MU_UINT16_Marshal (TPM2B_size s) buffer buffer_size (Some local_offset) of
                   Some (rc, Some b', Some local_offset') \<Rightarrow>
                     if rc \<noteq> 0 then Some (rc, Some b', offset)
                     else if TPM2B_size s = 0
                     then Some (TSS2_RC_SUCCESS, Some b', map_option (\<lambda>_. local_offset') offset)
                     else
                       (case mem_read (TPM2B_buffer s) 0 (unat (TPM2B_size s)) of
                          None \<Rightarrow> None
                        | Some xs \<Rightarrow>
                            (case mem_write b' local_offset' xs of
                               None \<Rightarrow> None
                             | Some b'' \<Rightarrow>
                                 Some (TSS2_RC_SUCCESS, Some b'',
                                   map_option (\<lambda>_. local_offset' + ucast (TPM2B_size s)) offset)))
                 | _ \<Rightarrow> None))"

definition TPM2B_UNMARSHAL :: "nat \<Rightarrow> TPM2B ufun" where
  "TPM2B_UNMARSHAL sizeof_buf buffer buffer_size offset dest =
     (let local_offset = local_of offset in
      case buffer of
        None \<Rightarrow> Some (TSS2_MU_RC_BAD_REFERENCE, offset, dest)
      | Some b \<Rightarrow>
          if dest = None \<and> offset = None then Some (TSS2_MU_RC_BAD_REFERENCE, offset, dest)
          else if lacks_room buffer_size local_offset 2
          then Some (TSS2_MU_RC_INSUFFICIENT_BUFFER, offset, dest)
          else
            (case Tss2_MU_UINT16_Unmarshal buffer buffer_size (Some local_offset) (Some 0) of
               Some (rc, Some local_offset', Some sz) \<Rightarrow>
                 if rc \<noteq> 0 then Some (rc, offset, dest)
                 else if buffer_size - local_offset' < ucast sz
                 then Some (TSS2_MU_RC_INSUFFICIENT_BUFFER, offset, dest)
                 else if sizeof_buf < unat sz
                 then Some (TSS2_MU_RC_INSUFFICIENT_BUFFER, offset, dest)
                 else
                   (case dest of
                      None \<Rightarrow> Some (TSS2_RC_SUCCESS,
                                map_option (\<lambda>_. local_offset' + ucast sz) offset, None)
                    | Some d \<Rightarrow>
                        (case mem_read b local_offset' (unat sz) of
                           None \<Rightarrow> None
                         | Some xs \<Rightarrow>
                             (case mem_write (TPM2B_buffer d) 0 xs of
                                None \<Rightarrow> None
                              | Some ys \<Rightarrow>
                                  Some (TSS2_RC_SUCCESS,
                                    map_option (\<lambda>_. local_offset' + ucast sz) offset,
                                    Some (d\<lparr>TPM2B_size := sz, TPM2B_buffer := ys\<rparr>)))))
             | _ \<Rightarrow> None))"

subsection \<open>Contract\<close>

definition wt_TPM2B :: "nat \<Rightarrow> TPM2B \<Rightarrow> bool" where
  "wt_TPM2B N s \<longleftrightarrow> length (TPM2B_buffer s) = N"

definition valid_TPM2B :: "nat \<Rightarrow> TPM2B \<Rightarrow> bool" where
  "valid_TPM2B N s \<longleftrightarrow> wt_TPM2B N s \<and> unat (TPM2B_size s) \<le> N"

text \<open>
  \<open>TPM2B_MARSHAL\<close> bounds the size by \<open>sizeof(type) - 2\<close>, the array and the padding behind it: with
  padding, a size between the two is read past the array.
\<close>

definition src_TPM2B :: "nat \<Rightarrow> nat \<Rightarrow> TPM2B \<Rightarrow> bool" where
  "src_TPM2B sizeof_type N s \<longleftrightarrow>
     wt_TPM2B N s \<and> (unat (TPM2B_size s) \<le> sizeof_type - 2 \<longrightarrow> unat (TPM2B_size s) \<le> N)"

definition wire_TPM2B :: "TPM2B \<Rightarrow> BYTE list" where
  "wire_TPM2B s = be_bytes (TPM2B_size s) @ take (unat (TPM2B_size s)) (TPM2B_buffer s)"

definition zero_TPM2B :: "nat \<Rightarrow> TPM2B" where
  "zero_TPM2B N = \<lparr>TPM2B_size = 0, TPM2B_buffer = replicate N 0\<rparr>"

lemma wt_zero_TPM2B [simp]: "wt_TPM2B N (zero_TPM2B N)"
  by (simp add: wt_TPM2B_def zero_TPM2B_def)

lemma unat_size16_less: "unat (s :: UINT16) < 65536"
  using unsigned_less [of s, where ?'a = nat] by simp

lemma ucast16: "(ucast (s :: UINT16) :: size_t) = of_nat (unat s)"
  by simp

lemma unat_of_size16 [simp]: "unat (of_nat (unat (s :: UINT16)) :: size_t) = unat s"
  using unat_size16_less [of s] by (simp add: unat_of_nat del: of_nat_unat)

lemma lacks_room16:
  "lacks_room bs off (2 + ucast (s :: UINT16)) \<longleftrightarrow> \<not> fits bs off (2 + unat s)"
proof -
  have "unat (2 + of_nat (unat s) :: size_t) = 2 + unat s"
    using unat_size16_less [of s] by (simp add: unat_word_ariths del: of_nat_unat)
  then show ?thesis by (simp add: lacks_room_iff fits_def)
qed

lemma fits_2_plus: "fits bs off (2 + n) \<longleftrightarrow> fits bs off 2 \<and> fits bs (off + 2) n"
  using fits_add [of bs off 2 n] by simp

lemma length_wire_TPM2B:
  "unat (TPM2B_size s) \<le> length (TPM2B_buffer s) \<Longrightarrow>
   length (wire_TPM2B s) = 2 + unat (TPM2B_size s)"
  by (simp add: wire_TPM2B_def)

lemma TPM2B_MARSHAL_fit:
  assumes bs: "unat bs \<le> length b" and fit: "fits bs off (2 + unat (TPM2B_size s))"
    and "\<not> st - 2 < unat (TPM2B_size s)" "unat (TPM2B_size s) \<le> length (TPM2B_buffer s)"
  shows "TPM2B_MARSHAL st (Some s) (Some b) bs (Some off) =
     Some (0, Some (patch b (unat off) (wire_TPM2B s)), Some (off + of_nat (2 + unat (TPM2B_size s))))"
proof -
  define n where "n = unat (TPM2B_size s)"
  let ?h = "be_bytes (TPM2B_size s)"
  let ?b' = "patch b (unat off) ?h"
  have n: "ucast (TPM2B_size s) = (of_nat n :: size_t)" "TPM2B_size s = 0 \<longleftrightarrow> n = 0"
    by (simp_all add: n_def unat_eq_0)
  have le: "unat off + 2 + n \<le> unat bs" using fit by (simp add: fits_def n_def)
  have o2: "unat (off + 2) = unat off + 2"
    using unat_add_fits [of off 2 bs] le by simp
  have U: "Tss2_MU_UINT16_Marshal (TPM2B_size s) (Some b) bs (Some off)
           = Some (0, Some ?b', Some (off + 2))"
    using mu_UINT16.marshal_fit [OF _ bs, of off "TPM2B_size s"] le by (simp add: fits_def)
  have len: "length ?b' = length b" using le bs by simp
  have pp: "patch ?b' (unat off + 2) (take n (TPM2B_buffer s)) = patch b (unat off) (wire_TPM2B s)"
    using patch_append [of "unat off" ?h "take n (TPM2B_buffer s)" b] le bs assms(4)
    by (simp add: wire_TPM2B_def n_def)
  have w0: "wire_TPM2B s = ?h" if "n = 0"
    using that by (simp add: wire_TPM2B_def n_def)
  have read: "mem_read (TPM2B_buffer s) 0 n = Some (take n (TPM2B_buffer s))"
    using assms(4) by (simp add: mem_read_def seg_def n_def)
  have wr: "mem_write ?b' (off + 2) (take n (TPM2B_buffer s)) = Some (patch b (unat off) (wire_TPM2B s))"
    using pp le bs assms(4) by (simp add: mem_write_def len o2 n_def)
  have room: "\<not> lacks_room bs off (2 + of_nat n)"
    using fit lacks_room16 [of bs off "TPM2B_size s"] by (simp add: n_def)
  show ?thesis
    using assms room by (simp add: TPM2B_MARSHAL_def Let_def U n_def [symmetric] n(1)
        n(2) read wr w0 add.assoc del: of_nat_unat)
qed

lemma TPM2B_MARSHAL_Some:
  assumes bs: "unat bs \<le> length b"
  shows "TPM2B_MARSHAL st (Some s) (Some b) bs (Some off) =
     (if \<not> fits bs off (2 + unat (TPM2B_size s))
      then Some (TSS2_MU_RC_INSUFFICIENT_BUFFER, Some b, Some off)
      else if st - 2 < unat (TPM2B_size s) then Some (TSS2_MU_RC_BAD_SIZE, Some b, Some off)
      else if length (TPM2B_buffer s) < unat (TPM2B_size s) then None
      else Some (0, Some (patch b (unat off) (wire_TPM2B s)), Some (off + of_nat (2 + unat (TPM2B_size s)))))"
proof (cases "fits bs off (2 + unat (TPM2B_size s)) \<and> \<not> st - 2 < unat (TPM2B_size s)")
  case True
  have U: "Tss2_MU_UINT16_Marshal (TPM2B_size s) (Some b) bs (Some off)
           = Some (0, Some (patch b (unat off) (be_bytes (TPM2B_size s))), Some (off + 2))"
    using mu_UINT16.marshal_fit [OF _ bs, of off "TPM2B_size s"] True by (simp add: fits_def)
  show ?thesis
  proof (cases "length (TPM2B_buffer s) < unat (TPM2B_size s)")
    case big: True
    then have "TPM2B_size s \<noteq> 0" by auto
    with big True show ?thesis
      by (simp add: TPM2B_MARSHAL_def Let_def lacks_room16 U mem_read_def)
  next
    case False
    with True TPM2B_MARSHAL_fit [OF bs] show ?thesis by simp
  qed
next
  case False
  then show ?thesis
    by (auto simp: TPM2B_MARSHAL_def Let_def lacks_room16)
qed

lemma marshaler_TPM2B [mu_codec]:
  assumes "N \<le> st - 2"
  shows "marshaler (\<lambda>s. TPM2B_MARSHAL st (Some s)) (src_TPM2B st N) (valid_TPM2B N) wire_TPM2B (2 + N)"
  using assms
  by unfold_locales
    (auto simp: TPM2B_MARSHAL_Some src_TPM2B_def valid_TPM2B_def wt_TPM2B_def length_wire_TPM2B
      untouched_patch)

subsection \<open>Unmarshalling\<close>

lemma TPM2B_UNMARSHAL_Some:
  fixes off :: size_t
  assumes bs: "unat bs \<le> length b" and wt: "wt_TPM2B N d"
  defines "sz \<equiv> word_of (rev (seg b (unat off) 2)) :: UINT16"
  shows "TPM2B_UNMARSHAL N (Some b) bs (Some off) (Some d) =
     (if fits bs off 2 \<and> fits bs off (2 + unat sz) \<and> unat sz \<le> N
      then Some (0, Some (off + of_nat (2 + unat sz)),
                 Some (d\<lparr>TPM2B_size := sz,
                         TPM2B_buffer := patch (TPM2B_buffer d) 0 (seg b (unat off + 2) (unat sz))\<rparr>))
      else Some (TSS2_MU_RC_INSUFFICIENT_BUFFER, Some off, Some d))"
proof (cases "fits bs off 2")
  case True
  then have le: "unat off + 2 \<le> unat bs" by (simp add: fits_def)
  have U: "Tss2_MU_UINT16_Unmarshal (Some b) bs (Some off) (Some 0) = Some (0, Some (off + 2), Some sz)"
    using True bs BASE_UNMARSHAL_Some [where ?'a = 16, OF _ bs, of off 0]
    by (simp add: Tss2_MU_UINT16_Unmarshal_def sz_def)
  have o2: "unat (off + 2) = unat off + 2"
    using unat_add_fits [of off 2 bs] le by simp
  have room: "buffer_size - (off + 2) < of_nat (unat sz) \<longleftrightarrow> \<not> fits bs off (2 + unat sz)"
    if "buffer_size = bs" for buffer_size
    using that le by (simp add: word_less_nat_alt unat_sub_if_size o2 fits_def not_less del: of_nat_unat)
      linarith
  show ?thesis
    using True wt le bs
    by (auto simp: TPM2B_UNMARSHAL_def Let_def lacks_room_iff fits_def [of bs off 2] U ucast16 room
        mem_read_def mem_write_def o2 wt_TPM2B_def fits_def [of bs off "Suc (Suc (unat sz))"] add.assoc
        simp del: of_nat_unat)
next
  case False
  then show ?thesis
    by (simp add: TPM2B_UNMARSHAL_def Let_def lacks_room_iff fits_def)
qed

lemma holds_at_TPM2B:
  assumes bs: "unat bs \<le> length b" and valid: "valid_TPM2B N s"
  shows "holds_at b bs off (wire_TPM2B s) \<longleftrightarrow>
     fits bs off (2 + unat (TPM2B_size s)) \<and>
     word_of (rev (seg b (unat off) 2)) = TPM2B_size s \<and>
     seg b (unat off + 2) (unat (TPM2B_size s)) = take (unat (TPM2B_size s)) (TPM2B_buffer s)"
proof (cases "fits bs off 2")
  case True
  then have "unat off + 2 \<le> unat bs" by (simp add: fits_def)
  then have o2: "unat (off + 2) = unat off + 2"
    using unat_add_fits [of off 2 bs] by simp
  have "holds_at b bs off (be_bytes (TPM2B_size s)) \<longleftrightarrow> word_of (rev (seg b (unat off) 2)) = TPM2B_size s"
    using holds_at_be_bytes [where ?'a = 16, OF _ bs] True by simp
  then show ?thesis
    using valid True fits_2_plus [of bs off "unat (TPM2B_size s)"]
    by (auto simp: wire_TPM2B_def holds_at_append [OF bs] holds_at_def [of b bs "off + 2"] o2
        valid_TPM2B_def wt_TPM2B_def min_absorb2)
next
  case False
  then show ?thesis
    using valid fits_2_plus [of bs off "unat (TPM2B_size s)"]
    by (simp add: holds_at_def length_wire_TPM2B valid_TPM2B_def wt_TPM2B_def)
qed

lemma strict_unmarshaler_TPM2B [mu_codec]:
  "strict_unmarshaler (TPM2B_UNMARSHAL N) (wt_TPM2B N) (valid_TPM2B N) wire_TPM2B"
proof unfold_locales
  fix d :: TPM2B and bs off :: size_t and b :: buf
  assume wt: "wt_TPM2B N d" and bs: "unat bs \<le> length b"
  let ?sz = "word_of (rev (seg b (unat off) 2)) :: UINT16"
  let ?d = "d\<lparr>TPM2B_size := ?sz,
              TPM2B_buffer := patch (TPM2B_buffer d) 0 (seg b (unat off + 2) (unat ?sz))\<rparr>"
  have ok: "valid_TPM2B N ?d \<and> wt_TPM2B N ?d \<and>
            take (unat ?sz) (TPM2B_buffer ?d) = seg b (unat off + 2) (unat ?sz)"
    if "fits bs off (2 + unat ?sz)" "unat ?sz \<le> N"
  proof -
    have "length (seg b (unat off + 2) (unat ?sz)) = unat ?sz"
      using that bs by (simp add: fits_def)
    with that wt show ?thesis by (simp add: valid_TPM2B_def wt_TPM2B_def patch_def)
  qed
  show "\<exists>rc off' d'. TPM2B_UNMARSHAL N (Some b) bs (Some off) (Some d) = Some (rc, Some off', Some d') \<and>
          wt_TPM2B N d' \<and> (rc \<noteq> 0 \<longrightarrow> off' = off)"
    using wt ok by (auto simp: TPM2B_UNMARSHAL_Some [OF bs wt])
  show "\<exists>d'. TPM2B_UNMARSHAL N (Some b) bs (Some off) (Some d) =
             Some (0, Some (off + of_nat (length (wire_TPM2B x))), Some d') \<and> wire_TPM2B d' = wire_TPM2B x"
    if "valid_TPM2B N x" "holds_at b bs off (wire_TPM2B x)" for x
  proof -
    have h: "fits bs off (2 + unat (TPM2B_size x))" "?sz = TPM2B_size x"
        "seg b (unat off + 2) (unat (TPM2B_size x)) = take (unat (TPM2B_size x)) (TPM2B_buffer x)"
      using that holds_at_TPM2B [OF bs that(1), of off] by auto
    have x: "unat (TPM2B_size x) \<le> N" "length (TPM2B_buffer x) = N"
      using that by (auto simp: valid_TPM2B_def wt_TPM2B_def)
    have "wire_TPM2B ?d = wire_TPM2B x"
      using ok h x by (simp add: wire_TPM2B_def)
    with h x show ?thesis
      using fits_2_plus [of bs off "unat (TPM2B_size x)"]
      by (simp add: TPM2B_UNMARSHAL_Some [OF bs wt] length_wire_TPM2B)
  qed
  show "valid_TPM2B N d' \<and> holds_at b bs off (wire_TPM2B d') \<and> off' = off + of_nat (length (wire_TPM2B d'))"
    if "TPM2B_UNMARSHAL N (Some b) bs (Some off) (Some d) = Some (0, Some off', Some d')" for off' d'
  proof -
    have h: "fits bs off (2 + unat ?sz)" "unat ?sz \<le> N" "d' = ?d" "off' = off + of_nat (2 + unat ?sz)"
      using that by (auto simp: TPM2B_UNMARSHAL_Some [OF bs wt] split: if_splits)
    have k: "valid_TPM2B N ?d" "take (unat ?sz) (TPM2B_buffer ?d) = seg b (unat off + 2) (unat ?sz)"
      using ok h by auto
    then have "length (wire_TPM2B ?d) = 2 + unat ?sz"
      using length_wire_TPM2B [of ?d] by (simp add: valid_TPM2B_def wt_TPM2B_def)
    moreover have "holds_at b bs off (wire_TPM2B ?d)"
      using h k holds_at_TPM2B [OF bs k(1), of off] by simp
    ultimately show ?thesis
      using h k by simp
  qed
qed

section \<open>Sized structures\<close>

text \<open>
  \<open>TPM2B_MARSHAL_SUBTYPE(type, subtype, member)\<close>: a size, then the marshalled member; the size
  on the wire is patched afterwards with what the member really took.
\<close>

record 'a TPM2B_SUBTYPE =
  TPM2B_SUBTYPE_size :: UINT16
  TPM2B_SUBTYPE_member :: 'a

definition TPM2B_MARSHAL_SUBTYPE :: "'a option mfun \<Rightarrow> 'a TPM2B_SUBTYPE option mfun" where
  "TPM2B_MARSHAL_SUBTYPE marshal_subtype src buffer buffer_size offset =
     (case src of
        None \<Rightarrow> Some (TSS2_MU_RC_BAD_REFERENCE, buffer, offset)
      | Some s \<Rightarrow>
          let local_offset = local_of offset; ptr = local_offset in
          if buffer = None \<and> offset = None then Some (TSS2_MU_RC_BAD_REFERENCE, buffer, offset)
          else if lacks_room buffer_size local_offset 2
          then Some (TSS2_MU_RC_INSUFFICIENT_BUFFER, buffer, offset)
          else
            (case Tss2_MU_UINT16_Marshal (TPM2B_SUBTYPE_size s) buffer buffer_size (Some local_offset) of
               Some (rc, buffer', Some local_offset') \<Rightarrow>
                 if rc \<noteq> 0 then Some (rc, buffer', offset)
                 else
                   (case marshal_subtype (Some (TPM2B_SUBTYPE_member s)) buffer' buffer_size
                           (Some local_offset') of
                      Some (rc, buffer'', Some local_offset'') \<Rightarrow>
                        if rc \<noteq> 0 then Some (rc, buffer'', offset)
                        else
                          (case buffer'' of
                             None \<Rightarrow> Some (TSS2_RC_SUCCESS, buffer'', map_option (\<lambda>_. local_offset'') offset)
                           | Some b \<Rightarrow>
                               let t = HOST_TO_BE (ucast (local_offset'' - ptr - 2) :: UINT16) in
                               (case mem_write b ptr (bytes_of t) of
                                  None \<Rightarrow> None
                                | Some b' \<Rightarrow>
                                    Some (TSS2_RC_SUCCESS, Some b',
                                          map_option (\<lambda>_. local_offset'') offset)))
                    | _ \<Rightarrow> None)
             | _ \<Rightarrow> None))"

text \<open>
  \<open>TPM2B_UNMARSHAL_SUBTYPE\<close> calls the unmarshal function of the member and drops its return code,
  so \<open>rc\<close> is still the success of the size field when it is tested.
\<close>

definition TPM2B_UNMARSHAL_SUBTYPE :: "nat \<Rightarrow> 'a ufun \<Rightarrow> 'a TPM2B_SUBTYPE ufun" where
  "TPM2B_UNMARSHAL_SUBTYPE sizeof_member unmarshal_subtype buffer buffer_size offset dest =
     (let local_offset = local_of offset in
      case buffer of
        None \<Rightarrow> Some (TSS2_MU_RC_BAD_REFERENCE, offset, dest)
      | Some b \<Rightarrow>
          if dest = None \<and> offset = None then Some (TSS2_MU_RC_BAD_REFERENCE, offset, dest)
          else if lacks_room buffer_size local_offset 2
          then Some (TSS2_MU_RC_INSUFFICIENT_BUFFER, offset, dest)
          else
            (case Tss2_MU_UINT16_Unmarshal buffer buffer_size (Some local_offset) (Some 0) of
               Some (rc, Some local_offset', Some sz) \<Rightarrow>
                 if rc \<noteq> 0 then Some (rc, offset, dest)
                 else if buffer_size - local_offset' < ucast sz
                 then Some (TSS2_MU_RC_INSUFFICIENT_BUFFER, offset, dest)
                 else if sizeof_member < unat sz
                 then Some (TSS2_MU_RC_INSUFFICIENT_BUFFER, offset, dest)
                 else
                   (case dest of
                      None \<Rightarrow> Some (TSS2_RC_SUCCESS,
                                map_option (\<lambda>_. local_offset' + ucast sz) offset, None)
                    | Some d \<Rightarrow>
                        (case unmarshal_subtype buffer buffer_size (Some local_offset')
                                (Some (TPM2B_SUBTYPE_member d)) of
                           Some (_, Some local_offset'', Some m) \<Rightarrow>
                             if rc \<noteq> 0 then Some (rc, offset, Some (d\<lparr>TPM2B_SUBTYPE_size := sz,
                                                                   TPM2B_SUBTYPE_member := m\<rparr>))
                             else Some (TSS2_RC_SUCCESS, map_option (\<lambda>_. local_offset'') offset,
                                        Some (d\<lparr>TPM2B_SUBTYPE_size := sz, TPM2B_SUBTYPE_member := m\<rparr>))
                         | _ \<Rightarrow> None))
             | _ \<Rightarrow> None))"

definition wire_SUBTYPE :: "('a \<Rightarrow> BYTE list) \<Rightarrow> 'a TPM2B_SUBTYPE \<Rightarrow> BYTE list" where
  "wire_SUBTYPE wire s =
     be_bytes (of_nat (length (wire (TPM2B_SUBTYPE_member s))) :: UINT16) @ wire (TPM2B_SUBTYPE_member s)"

lemma patch_head:
  assumes "i + length xs + length ys \<le> length b" "length xs' = length xs"
  shows "patch (patch b i (xs @ ys)) i xs' = patch b i (xs' @ ys)"
proof -
  have "min (length b) i = i" using assms by simp
  then show ?thesis using assms by (simp add: patch_def ac_simps)
qed

lemma SUBTYPE_fit:
  assumes "marshaler (\<lambda>m. F (Some m)) src valid wire lim" and "lim < 2 ^ 16"
    and valid: "valid (TPM2B_SUBTYPE_member s)" and bs: "unat bs \<le> length b"
    and fit: "fits bs off (length (wire_SUBTYPE wire s))"
  shows "TPM2B_MARSHAL_SUBTYPE F (Some s) (Some b) bs (Some off) =
     Some (0, Some (patch b (unat off) (wire_SUBTYPE wire s)),
           Some (off + of_nat (length (wire_SUBTYPE wire s))))"
proof -
  let ?m = "TPM2B_SUBTYPE_member s" and ?h = "be_bytes (TPM2B_SUBTYPE_size s)"
  define n where "n = length (wire ?m)"
  have n: "n < 65536"
    using marshaler.wire_le [OF assms(1) valid] assms(2) by (simp add: n_def)
  have le: "unat off + 2 + n \<le> unat bs" "fits bs (off + 2) n"
    using fit fits_2_plus [of bs off n] by (auto simp: fits_def wire_SUBTYPE_def n_def)
  have U: "Tss2_MU_UINT16_Marshal (TPM2B_SUBTYPE_size s) (Some b) bs (Some off)
           = Some (0, Some (patch b (unat off) ?h), Some (off + 2))"
    using mu_UINT16.marshal_fit [OF _ bs, of off "TPM2B_SUBTYPE_size s"] le(1) by (simp add: fits_def)
  have o2: "unat (off + 2) = unat off + 2"
    using unat_add_fits [of off 2 bs] le by simp
  have "F (Some ?m) (Some (patch b (unat off) ?h)) bs (Some (off + 2))
        = Some (0, Some (patch (patch b (unat off) ?h) (unat off + 2) (wire ?m)), Some (off + 2 + of_nat n))"
    using marshaler.marshal_fit [OF assms(1) valid, of bs "patch b (unat off) ?h" "off + 2"] le bs o2
    by (simp add: n_def)
  also have "patch (patch b (unat off) ?h) (unat off + 2) (wire ?m) = patch b (unat off) (?h @ wire ?m)"
    using patch_append [of "unat off" ?h "wire ?m" b] le bs by (simp add: n_def)
  finally have M: "F (Some ?m) (Some (patch b (unat off) ?h)) bs (Some (off + 2))
        = Some (0, Some (patch b (unat off) (?h @ wire ?m)), Some (off + 2 + of_nat n))" .
  have t: "(ucast (of_nat n :: size_t) :: UINT16) = of_nat n"
    using n by (simp add: unsigned_of_nat take_bit_nat_eq_self)
  have W: "mem_write (patch b (unat off) (?h @ wire ?m)) off (be_bytes (of_nat n :: UINT16))
           = Some (patch b (unat off) (wire_SUBTYPE wire s))"
    using le bs patch_head [of "unat off" ?h "wire ?m" b "be_bytes (of_nat n :: UINT16)"]
    by (simp add: mem_write_def wire_SUBTYPE_def n_def)
  show ?thesis
    using le by (simp add: TPM2B_MARSHAL_SUBTYPE_def Let_def lacks_room_iff U M t W wire_SUBTYPE_def
        n_def [symmetric] add.assoc)
qed

lemma SUBTYPE_no_room:
  "\<not> fits bs off 2 \<Longrightarrow> TPM2B_MARSHAL_SUBTYPE F (Some s) (Some b) bs (Some off) =
     Some (TSS2_MU_RC_INSUFFICIENT_BUFFER, Some b, Some off)"
  by (simp add: TPM2B_MARSHAL_SUBTYPE_def Let_def lacks_room_iff fits_def)

lemma SUBTYPE_inner_error:
  assumes bs: "unat bs \<le> length b" and "fits bs off 2"
    and "F (Some (TPM2B_SUBTYPE_member s))
           (Some (patch b (unat off) (be_bytes (TPM2B_SUBTYPE_size s)))) bs (Some (off + 2))
         = Some (rc, Some b', Some (off + 2))" and "rc \<noteq> 0"
  shows "TPM2B_MARSHAL_SUBTYPE F (Some s) (Some b) bs (Some off) = Some (rc, Some b', Some off)"
proof -
  have "Tss2_MU_UINT16_Marshal (TPM2B_SUBTYPE_size s) (Some b) bs (Some off)
        = Some (0, Some (patch b (unat off) (be_bytes (TPM2B_SUBTYPE_size s))), Some (off + 2))"
    using mu_UINT16.marshal_fit [OF _ bs, of off "TPM2B_SUBTYPE_size s"] assms(2) by simp
  with assms show ?thesis
    by (simp add: TPM2B_MARSHAL_SUBTYPE_def Let_def lacks_room_iff fits_def)
qed

lemma marshaler_SUBTYPE [mu_codec]:
  assumes M: "marshaler (\<lambda>m. F (Some m)) src valid wire lim" and lim: "lim < 2 ^ 16"
  shows "marshaler (\<lambda>s. TPM2B_MARSHAL_SUBTYPE F (Some s))
           (\<lambda>s. src (TPM2B_SUBTYPE_member s)) (\<lambda>s. valid (TPM2B_SUBTYPE_member s))
           (wire_SUBTYPE wire) (2 + lim)"
proof
  fix s :: "'a TPM2B_SUBTYPE" and b :: buf and bs off :: size_t
  let ?m = "TPM2B_SUBTYPE_member s"
  let ?b = "patch b (unat off) (be_bytes (TPM2B_SUBTYPE_size s))"
  show "src ?m" if "valid ?m"
    using that marshaler.valid_src [OF M] by simp
  show "length (wire_SUBTYPE wire s) \<le> 2 + lim" if "valid ?m"
    using that marshaler.wire_le [OF M] by (simp add: wire_SUBTYPE_def)
  assume bs: "unat bs \<le> length b"
  have b2: "unat bs \<le> length ?b" "untouched b ?b off bs" if "fits bs off 2"
    using that bs untouched_patch [of bs off "be_bytes (TPM2B_SUBTYPE_size s)" b]
    by (auto simp: untouched_def)
  have fw: "fits bs off (length (wire_SUBTYPE wire s)) \<longleftrightarrow> fits bs off 2 \<and> fits bs (off + 2) (length (wire ?m))"
    using fits_2_plus [of bs off "length (wire ?m)"] by (simp add: wire_SUBTYPE_def)
  show fit: "TPM2B_MARSHAL_SUBTYPE F (Some s) (Some b) bs (Some off) =
      Some (0, Some (patch b (unat off) (wire_SUBTYPE wire s)),
            Some (off + of_nat (length (wire_SUBTYPE wire s))))"
    if "valid ?m" "fits bs off (length (wire_SUBTYPE wire s))"
    by (rule SUBTYPE_fit [OF M lim that(1) bs that(2)])
  show "\<exists>b'. TPM2B_MARSHAL_SUBTYPE F (Some s) (Some b) bs (Some off) =
          Some (TSS2_MU_RC_INSUFFICIENT_BUFFER, Some b', Some off)"
    if "valid ?m" "\<not> fits bs off (length (wire_SUBTYPE wire s))"
  proof (cases "fits bs off 2")
    case True
    with that(2) fw have "\<not> fits bs (off + 2) (length (wire ?m))" by simp
    from marshaler.marshal_short [OF M that(1) b2(1) [OF True] this]
    show ?thesis using SUBTYPE_inner_error [where F = F, OF bs True] rc_nonzero(3) by blast
  qed (simp add: SUBTYPE_no_room)
  show "\<exists>rc b' off'. TPM2B_MARSHAL_SUBTYPE F (Some s) (Some b) bs (Some off) = Some (rc, Some b', Some off')
          \<and> untouched b b' off bs \<and> (rc \<noteq> 0 \<longrightarrow> off' = off)
          \<and> (rc = 0 \<longrightarrow> valid ?m \<and> fits bs off (length (wire_SUBTYPE wire s)))"
    if "src ?m"
  proof (cases "fits bs off 2")
    case True
    from marshaler.marshal_total [OF M that b2(1) [OF True], of "off + 2"] obtain rc b' off' where
      f: "F (Some ?m) (Some ?b) bs (Some (off + 2)) = Some (rc, Some b', Some off')"
        "untouched ?b b' (off + 2) bs" "rc \<noteq> 0 \<longrightarrow> off' = off + 2"
        "rc = 0 \<longrightarrow> valid ?m \<and> fits bs (off + 2) (length (wire ?m))" by blast
    show ?thesis
    proof (cases "rc = 0")
      case True
      with f(4) \<open>fits bs off 2\<close> have "valid ?m" "fits bs off (length (wire_SUBTYPE wire s))"
        by (simp_all add: fw)
      with fit bs show ?thesis by (simp add: untouched_patch)
    next
      case False
      with f have "TPM2B_MARSHAL_SUBTYPE F (Some s) (Some b) bs (Some off) = Some (rc, Some b', Some off)"
        using SUBTYPE_inner_error [where F = F, OF bs True] by simp
      moreover have "untouched b b' off bs"
        using untouched_trans [OF b2(2) [OF True] untouched_later [of _ _ _ 2]] f(2) True by simp
      ultimately show ?thesis using False by simp
    qed
  qed (simp add: SUBTYPE_no_room)
qed

text \<open>
  The unmarshal function of a sized structure satisfies the total and complete part of the
  contract; it is not strict (\<open>TPM2B_UNMARSHAL_SUBTYPE_drops_error\<close>).
\<close>

lemma SUBTYPE_UNMARSHAL_Some:
  fixes off :: size_t
  assumes bs: "unat bs \<le> length b"
  defines "sz \<equiv> word_of (rev (seg b (unat off) 2)) :: UINT16"
  shows "TPM2B_UNMARSHAL_SUBTYPE N U (Some b) bs (Some off) (Some d) =
     (if fits bs off 2 \<and> fits bs off (2 + unat sz) \<and> unat sz \<le> N
      then (case U (Some b) bs (Some (off + 2)) (Some (TPM2B_SUBTYPE_member d)) of
              Some (_, Some off', Some m) \<Rightarrow>
                Some (0, Some off', Some (d\<lparr>TPM2B_SUBTYPE_size := sz, TPM2B_SUBTYPE_member := m\<rparr>))
            | _ \<Rightarrow> None)
      else Some (TSS2_MU_RC_INSUFFICIENT_BUFFER, Some off, Some d))"
proof (cases "fits bs off 2")
  case True
  then have le: "unat off + 2 \<le> unat bs" by (simp add: fits_def)
  have U: "Tss2_MU_UINT16_Unmarshal (Some b) bs (Some off) (Some 0) = Some (0, Some (off + 2), Some sz)"
    using True bs BASE_UNMARSHAL_Some [where ?'a = 16, OF _ bs, of off 0]
    by (simp add: Tss2_MU_UINT16_Unmarshal_def sz_def)
  have o2: "unat (off + 2) = unat off + 2"
    using unat_add_fits [of off 2 bs] le by simp
  have room: "bs - (off + 2) < of_nat (unat sz) \<longleftrightarrow> \<not> fits bs off (2 + unat sz)"
    using le by (simp add: word_less_nat_alt unat_sub_if_size o2 fits_def not_less del: of_nat_unat)
      linarith
  show ?thesis
    using True le
    by (auto simp: TPM2B_UNMARSHAL_SUBTYPE_def Let_def lacks_room_iff fits_def [of bs off 2] U ucast16
        room simp del: of_nat_unat split: option.splits)
next
  case False
  then show ?thesis
    by (simp add: TPM2B_UNMARSHAL_SUBTYPE_def Let_def lacks_room_iff fits_def)
qed

lemma unmarshaler_SUBTYPE [mu_codec]:
  assumes U: "unmarshaler U wt valid wire" and lim: "\<And>x. valid x \<Longrightarrow> length (wire x) \<le> N" and "N < 2 ^ 16"
  shows "unmarshaler (TPM2B_UNMARSHAL_SUBTYPE N U)
           (\<lambda>s. wt (TPM2B_SUBTYPE_member s)) (\<lambda>s. valid (TPM2B_SUBTYPE_member s)) (wire_SUBTYPE wire)"
proof
  fix d :: "'a TPM2B_SUBTYPE" and b :: buf and bs off :: size_t
  assume wt: "wt (TPM2B_SUBTYPE_member d)" and bs: "unat bs \<le> length b"
  show "\<exists>rc off' d'. TPM2B_UNMARSHAL_SUBTYPE N U (Some b) bs (Some off) (Some d) = Some (rc, Some off', Some d') \<and>
          wt (TPM2B_SUBTYPE_member d') \<and> (rc \<noteq> 0 \<longrightarrow> off' = off)"
    using unmarshaler.unmarshal_total [OF U wt bs, of "off + 2"] wt
    by (auto simp: SUBTYPE_UNMARSHAL_Some [OF bs])
  fix x :: "'a TPM2B_SUBTYPE"
  assume valid: "valid (TPM2B_SUBTYPE_member x)" and h: "holds_at b bs off (wire_SUBTYPE wire x)"
  define n where "n = length (wire (TPM2B_SUBTYPE_member x))"
  have n: "n \<le> N" "n < 65536" using lim [OF valid] \<open>N < 2 ^ 16\<close> by (simp_all add: n_def)
  have h1: "holds_at b bs off (be_bytes (of_nat n :: UINT16))"
    and h2: "holds_at b bs (off + 2) (wire (TPM2B_SUBTYPE_member x))"
    using h by (auto simp: wire_SUBTYPE_def holds_at_append [OF bs] n_def)
  have f: "fits bs off 2" "fits bs off (2 + n)"
    using h1 h2 fits_2_plus [of bs off n] by (auto simp: holds_at_def n_def)
  have sz: "word_of (rev (seg b (unat off) 2)) = (of_nat n :: UINT16)"
    using h1 holds_at_be_bytes [where ?'a = 16, OF _ bs, of off "of_nat n"] by simp
  have un: "unat (of_nat n :: UINT16) = n" using n by (simp add: unat_of_nat)
  from unmarshaler.unmarshal_complete [OF U wt bs valid h2] obtain m where
    m: "U (Some b) bs (Some (off + 2)) (Some (TPM2B_SUBTYPE_member d)) = Some (0, Some (off + 2 + of_nat n), Some m)"
      "wire m = wire (TPM2B_SUBTYPE_member x)" by (auto simp: n_def)
  show "\<exists>d'. TPM2B_UNMARSHAL_SUBTYPE N U (Some b) bs (Some off) (Some d) =
          Some (0, Some (off + of_nat (length (wire_SUBTYPE wire x))), Some d') \<and>
          wire_SUBTYPE wire d' = wire_SUBTYPE wire x"
    using f n m by (simp add: SUBTYPE_UNMARSHAL_Some [OF bs] sz un wire_SUBTYPE_def n_def [symmetric]
        add.assoc)
qed

end
