(* ===== verification/MU_Struct.thy ===== *)
theory MU_Struct
  imports MU_Base
begin

text \<open>
  Structures: the macro families \<open>TPMS_MARSHAL_n\<close>, \<open>TPMS_UNMARSHAL_n\<close> (\<open>tpms-types.c\<close>) and
  \<open>TPMT_MARSHAL_n\<close>, \<open>TPMT_UNMARSHAL_n\<close> (\<open>tpmt-types.c\<close>).  A macro argument pair (member, function) is
  a step; the macro body runs its steps in order on a local offset.  The contracts compose: a
  structure of codecs is a codec.
\<close>

section \<open>Marshalling a structure\<close>

text \<open>\<open>VAL\<close> and \<open>ADDR\<close> of the macro arguments: the member by value or by address.\<close>

definition VAL :: "('r \<Rightarrow> 'a) \<Rightarrow> 'a mfun \<Rightarrow> 'r mfun" where
  "VAL m fn = (\<lambda>s. fn (m s))"

definition ADDR :: "('r \<Rightarrow> 'a) \<Rightarrow> 'a option mfun \<Rightarrow> 'r mfun" where
  "ADDR m fn = (\<lambda>s. fn (Some (m s)))"

text \<open>A union member is passed with its selector, \<open>fn(op src->m, src->sel, ...)\<close>.\<close>

definition ADDR_SEL :: "('r \<Rightarrow> UINT32) \<Rightarrow> ('r \<Rightarrow> 'a) \<Rightarrow> ('a option \<Rightarrow> UINT32 \<Rightarrow> buf option \<Rightarrow> size_t \<Rightarrow> size_t option \<Rightarrow> mres) \<Rightarrow> 'r mfun" where
  "ADDR_SEL sel m fn = (\<lambda>s. fn (Some (m s)) (sel s))"

fun mseq :: "'r mfun list \<Rightarrow> 'r \<Rightarrow> buf option \<Rightarrow> size_t \<Rightarrow> size_t \<Rightarrow> (TSS2_RC \<times> buf option \<times> size_t) option" where
  "mseq [] s buffer buffer_size local_offset = Some (TSS2_RC_SUCCESS, buffer, local_offset)"
| "mseq (fn # fns) s buffer buffer_size local_offset =
     (case fn s buffer buffer_size (Some local_offset) of
        Some (ret, buffer', Some local_offset') \<Rightarrow>
          if ret \<noteq> 0 then Some (ret, buffer', local_offset')
          else mseq fns s buffer' buffer_size local_offset'
      | _ \<Rightarrow> None)"

definition struct_marshal :: "TSS2_RC \<Rightarrow> 'r mfun list \<Rightarrow> 'r option mfun" where
  "struct_marshal null_rc fns src buffer buffer_size offset =
     (case src of
        None \<Rightarrow> Some (null_rc, buffer, offset)
      | Some s \<Rightarrow>
          if offset = None \<and> buffer = None then Some (TSS2_MU_RC_BAD_REFERENCE, buffer, offset)
          else
            (case mseq fns s buffer buffer_size (local_of offset) of
               None \<Rightarrow> None
             | Some (ret, buffer', local_offset) \<Rightarrow>
                 Some (ret, buffer',
                       if ret = 0 then map_option (\<lambda>_. local_offset) offset else offset)))"

text \<open>The macros with one member pass the offset pointer through.\<close>

definition TPMS_MARSHAL_1 :: "'r mfun \<Rightarrow> 'r option mfun" where
  "TPMS_MARSHAL_1 f src buffer buffer_size offset =
     (case src of
        None \<Rightarrow> Some (TSS2_MU_RC_BAD_REFERENCE, buffer, offset)
      | Some s \<Rightarrow> f s buffer buffer_size offset)"

definition TPMS_MARSHAL_0 :: "'r option mfun" where
  "TPMS_MARSHAL_0 src buffer buffer_size offset =
     (case src of
        None \<Rightarrow> Some (TSS2_MU_RC_BAD_REFERENCE, buffer, offset)
      | Some _ \<Rightarrow> (case offset of None \<Rightarrow> None | Some _ \<Rightarrow> Some (TSS2_RC_SUCCESS, buffer, offset)))"

lemmas struct_marshal_simps =
  struct_marshal_def mseq.simps

section \<open>Contracts of structures\<close>

lemma marshaler_VAL [mu_codec]:
  "marshaler fn src valid wire lim \<Longrightarrow>
   marshaler (VAL m fn) (\<lambda>s. src (m s)) (\<lambda>s. valid (m s)) (\<lambda>s. wire (m s)) lim"
  unfolding marshaler_def VAL_def by blast

lemma marshaler_ADDR [mu_codec]:
  "marshaler (\<lambda>x. fn (Some x)) src valid wire lim \<Longrightarrow>
   marshaler (ADDR m fn) (\<lambda>s. src (m s)) (\<lambda>s. valid (m s)) (\<lambda>s. wire (m s)) lim"
  unfolding marshaler_def ADDR_def by blast

lemma marshaler_ADDR_SEL [mu_codec]:
  "(\<And>k. marshaler (\<lambda>x. fn (Some x) k) (src k) (valid k) (wire k) lim) \<Longrightarrow>
   marshaler (ADDR_SEL sel m fn) (\<lambda>s. src (sel s) (m s)) (\<lambda>s. valid (sel s) (m s))
     (\<lambda>s. wire (sel s) (m s)) lim"
  unfolding marshaler_def ADDR_SEL_def by blast

lemma marshaler_Nil:
  "marshaler (\<lambda>s. struct_marshal rc [] (Some s)) (\<lambda>_. True) (\<lambda>_. True) (\<lambda>_. []) 0"
  by unfold_locales (auto simp: struct_marshal_simps)

lemma struct_marshal_Cons:
  assumes "f s (Some b) bs (Some off) = Some (0, Some b', Some off')"
  shows "struct_marshal rc (f # fs) (Some s) (Some b) bs (Some off) =
    (case struct_marshal rc fs (Some s) (Some b') bs (Some off') of
       None \<Rightarrow> None
     | Some (ret, b'', off'') \<Rightarrow> Some (ret, b'', if ret = 0 then off'' else Some off))"
  using assms by (simp add: struct_marshal_simps split: option.splits)

lemma struct_marshal_Cons_error:
  assumes "f s (Some b) bs (Some off) = Some (ret, Some b', Some off')" "ret \<noteq> 0"
  shows "struct_marshal rc (f # fs) (Some s) (Some b) bs (Some off) = Some (ret, Some b', Some off)"
  using assms by (simp add: struct_marshal_simps)

lemma marshaler_Cons:
  assumes f: "marshaler f src1 valid1 wire1 lim1"
    and fs: "marshaler (\<lambda>s. struct_marshal rc fs (Some s)) src2 valid2 wire2 lim2"
  shows "marshaler (\<lambda>s. struct_marshal rc (f # fs) (Some s)) (\<lambda>s. src1 s \<and> src2 s)
           (\<lambda>s. valid1 s \<and> valid2 s) (\<lambda>s. wire1 s @ wire2 s) (lim1 + lim2)"
proof
  note f_fit = marshaler.marshal_fit [OF f] and fs_fit = marshaler.marshal_fit [OF fs]
  fix s :: 'a and b :: buf and bs off :: size_t
  show "src1 s \<and> src2 s" if "valid1 s \<and> valid2 s"
    using that marshaler.valid_src [OF f] marshaler.valid_src [OF fs] by simp
  show "length (wire1 s @ wire2 s) \<le> lim1 + lim2" if "valid1 s \<and> valid2 s"
    using that marshaler.wire_le [OF f] marshaler.wire_le [OF fs] by (simp add: add_mono)
  assume bs: "unat bs \<le> length b"
  let ?b1 = "patch b (unat off) (wire1 s)" and ?o1 = "off + of_nat (length (wire1 s))"
  have b1: "unat bs \<le> length ?b1" "untouched b ?b1 off bs" if "fits bs off (length (wire1 s))"
    using that bs untouched_patch [OF that bs] by (auto simp: untouched_def)
  show "struct_marshal rc (f # fs) (Some s) (Some b) bs (Some off) =
        Some (0, Some (patch b (unat off) (wire1 s @ wire2 s)), Some (off + of_nat (length (wire1 s @ wire2 s))))"
    if "valid1 s \<and> valid2 s" "fits bs off (length (wire1 s @ wire2 s))"
    using that bs b1 patch_patch_fits [of bs off "wire1 s" "wire2 s" b]
    by (simp add: struct_marshal_Cons f_fit fs_fit fits_add add.assoc)
  show "\<exists>b'. struct_marshal rc (f # fs) (Some s) (Some b) bs (Some off) =
          Some (TSS2_MU_RC_INSUFFICIENT_BUFFER, Some b', Some off)"
    if v: "valid1 s \<and> valid2 s" and n: "\<not> fits bs off (length (wire1 s @ wire2 s))"
  proof (cases "fits bs off (length (wire1 s))")
    case True
    then have "\<not> fits bs ?o1 (length (wire2 s))" using n by (simp add: fits_add)
    with v b1(1) [OF True] show ?thesis
      using marshaler.marshal_short [OF fs, of s bs ?b1 ?o1]
      by (auto simp: struct_marshal_Cons [where f = f, OF f_fit [OF _ bs True]])
  next
    case False
    with v bs show ?thesis
      using marshaler.marshal_short [OF f, of s bs b off]
      by (auto simp: struct_marshal_Cons_error [where f = f])
  qed
  show "\<exists>ret b' off'. struct_marshal rc (f # fs) (Some s) (Some b) bs (Some off) = Some (ret, Some b', Some off')
          \<and> untouched b b' off bs \<and> (ret \<noteq> 0 \<longrightarrow> off' = off)
          \<and> (ret = 0 \<longrightarrow> (valid1 s \<and> valid2 s) \<and> fits bs off (length (wire1 s @ wire2 s)))"
    if "src1 s \<and> src2 s"
  proof -
    from marshaler.marshal_total [OF f _ bs, of s off] that obtain ret b' off' where
      r: "f s (Some b) bs (Some off) = Some (ret, Some b', Some off')" "untouched b b' off bs"
        "ret = 0 \<longrightarrow> valid1 s \<and> fits bs off (length (wire1 s))" by blast
    show ?thesis
    proof (cases "ret = 0")
      case False
      with r show ?thesis by (simp add: struct_marshal_Cons_error)
    next
      case True
      with r have v: "valid1 s" and fit: "fits bs off (length (wire1 s))" by auto
      from marshaler.marshal_total [OF fs _ b1(1) [OF fit], of s ?o1] that obtain ret2 b2 off2 where
        "struct_marshal rc fs (Some s) (Some ?b1) bs (Some ?o1) = Some (ret2, Some b2, Some off2)"
        "untouched ?b1 b2 ?o1 bs" "ret2 = 0 \<longrightarrow> valid2 s \<and> fits bs ?o1 (length (wire2 s))" by blast
      with v fit show ?thesis
        using untouched_trans [OF b1(2) [OF fit] untouched_later [OF _ fit]]
        by (auto simp: struct_marshal_Cons [where f = f, OF f_fit [OF v bs fit]] fits_add)
    qed
  qed
qed

lemma marshaler_TPMS_1 [mu_codec]:
  "marshaler f src valid wire lim \<Longrightarrow>
   marshaler (\<lambda>s. TPMS_MARSHAL_1 f (Some s)) src valid wire lim"
  unfolding marshaler_def TPMS_MARSHAL_1_def by simp

text \<open>Contracts up to equivalent specifications and a larger bound.\<close>

lemma marshaler_cong:
  assumes "marshaler F src valid wire lim" "\<And>x. src' x = src x" "\<And>x. valid' x = valid x"
    "\<And>x. wire' x = wire x" "lim \<le> lim'"
  shows "marshaler F src' valid' wire' lim'"
proof -
  have "src' = src" "valid' = valid" "wire' = wire" using assms by auto
  with assms(1,5) show ?thesis by (auto simp: marshaler_def intro: le_trans)
qed

section \<open>Unmarshalling a structure\<close>

text \<open>
  A step reads one member of the structure.  Its arguments after the offset say whether \<open>dest\<close> is
  non-\<open>NULL\<close>, and hold the structure the step works on: \<open>*dest\<close>, or the local \<open>tmp\<close> of the macro.
\<close>

type_synonym 'r ustep =
  "buf option \<Rightarrow> size_t \<Rightarrow> size_t option \<Rightarrow> bool \<Rightarrow> 'r \<Rightarrow> (TSS2_RC \<times> size_t option \<times> 'r) option"

definition store_field :: "(('a \<Rightarrow> 'a) \<Rightarrow> 'r \<Rightarrow> 'r) \<Rightarrow> 'r \<Rightarrow> 'a ures \<Rightarrow> (TSS2_RC \<times> size_t option \<times> 'r) option" where
  "store_field upd r res =
     (case res of
        None \<Rightarrow> None
      | Some (ret, offset, d) \<Rightarrow>
          Some (ret, offset, case d of None \<Rightarrow> r | Some v \<Rightarrow> upd (\<lambda>_. v) r))"

text \<open>\<open>dest ? &dest->m : NULL\<close>, \<open>dest ? &dest->m : &tmp.m\<close>, and the two forms of union members.\<close>

definition FLD :: "('r \<Rightarrow> 'a) \<Rightarrow> (('a \<Rightarrow> 'a) \<Rightarrow> 'r \<Rightarrow> 'r) \<Rightarrow> 'a ufun \<Rightarrow> 'r ustep" where
  "FLD m m_update fn buffer buffer_size offset dest r =
     store_field m_update r (fn buffer buffer_size offset (if dest then Some (m r) else None))"

definition FLD_TMP :: "('r \<Rightarrow> 'a) \<Rightarrow> (('a \<Rightarrow> 'a) \<Rightarrow> 'r \<Rightarrow> 'r) \<Rightarrow> 'a ufun \<Rightarrow> 'r ustep" where
  "FLD_TMP m m_update fn buffer buffer_size offset dest r =
     store_field m_update r (fn buffer buffer_size offset (Some (m r)))"

definition UNI :: "('r \<Rightarrow> UINT32) \<Rightarrow> ('r \<Rightarrow> 'a) \<Rightarrow> (('a \<Rightarrow> 'a) \<Rightarrow> 'r \<Rightarrow> 'r) \<Rightarrow>
    (buf option \<Rightarrow> size_t \<Rightarrow> size_t option \<Rightarrow> UINT32 \<Rightarrow> 'a option \<Rightarrow> 'a ures) \<Rightarrow> 'r ustep" where
  "UNI sel m m_update fn buffer buffer_size offset dest r =
     store_field m_update r (fn buffer buffer_size offset (sel r) (if dest then Some (m r) else None))"

text \<open>In \<open>TPMS_UNMARSHAL_7_U\<close> the selector is \<open>dest ? dest->m2 : 0\<close>.\<close>

definition UNI_DEST :: "('r \<Rightarrow> UINT32) \<Rightarrow> ('r \<Rightarrow> 'a) \<Rightarrow> (('a \<Rightarrow> 'a) \<Rightarrow> 'r \<Rightarrow> 'r) \<Rightarrow>
    (buf option \<Rightarrow> size_t \<Rightarrow> size_t option \<Rightarrow> UINT32 \<Rightarrow> 'a option \<Rightarrow> 'a ures) \<Rightarrow> 'r ustep" where
  "UNI_DEST sel m m_update fn buffer buffer_size offset dest r =
     store_field m_update r (fn buffer buffer_size offset (if dest then sel r else 0)
                               (if dest then Some (m r) else None))"

fun useq :: "'r ustep list \<Rightarrow> buf option \<Rightarrow> size_t \<Rightarrow> size_t \<Rightarrow> bool \<Rightarrow> 'r \<Rightarrow> (TSS2_RC \<times> size_t \<times> 'r) option" where
  "useq [] buffer buffer_size local_offset dest r = Some (TSS2_RC_SUCCESS, local_offset, r)"
| "useq (st # sts) buffer buffer_size local_offset dest r =
     (case st buffer buffer_size (Some local_offset) dest r of
        Some (ret, Some local_offset', r') \<Rightarrow>
          if ret \<noteq> 0 then Some (ret, local_offset', r')
          else useq sts buffer buffer_size local_offset' dest r'
      | _ \<Rightarrow> None)"

text \<open>
  \<open>start\<close> is what the macro does to \<open>*dest\<close> before the first step: \<open>memset\<close> to zero in the \<open>TPMS_\<close>
  macros, nothing in the \<open>TPMT_\<close> macros.  \<open>tmp\<close> is the local structure used when \<open>dest\<close> is \<open>NULL\<close>.
\<close>

definition struct_unmarshal :: "('r \<Rightarrow> 'r) \<Rightarrow> 'r \<Rightarrow> 'r ustep list \<Rightarrow> 'r ufun" where
  "struct_unmarshal start tmp sts buffer buffer_size offset dest =
     (if offset = None \<and> dest = None then Some (TSS2_MU_RC_BAD_REFERENCE, offset, dest)
      else
        (case useq sts buffer buffer_size (local_of offset) (dest \<noteq> None)
                (case dest of None \<Rightarrow> tmp | Some d \<Rightarrow> start d) of
           None \<Rightarrow> None
         | Some (ret, local_offset, r) \<Rightarrow>
             Some (ret, if ret = 0 then map_option (\<lambda>_. local_offset) offset else offset,
                   map_option (\<lambda>_. r) dest)))"

definition TPMS_UNMARSHAL_1 :: "'r \<Rightarrow> 'r ustep \<Rightarrow> 'r ufun" where
  "TPMS_UNMARSHAL_1 tmp st buffer buffer_size offset dest =
     (case st buffer buffer_size offset (dest \<noteq> None) (case dest of None \<Rightarrow> tmp | Some d \<Rightarrow> d) of
        None \<Rightarrow> None
      | Some (ret, offset', r) \<Rightarrow> Some (ret, offset', map_option (\<lambda>_. r) dest))"

definition TPMS_UNMARSHAL_0 :: "'r ufun" where
  "TPMS_UNMARSHAL_0 buffer buffer_size offset dest =
     (case dest of
        None \<Rightarrow> Some (TSS2_MU_RC_BAD_REFERENCE, offset, dest)
      | Some _ \<Rightarrow> (case offset of None \<Rightarrow> None | Some _ \<Rightarrow> Some (TSS2_RC_SUCCESS, offset, dest)))"

section \<open>Contracts of unmarshalling steps\<close>

text \<open>
  \<open>useq_ok sel sts wt valid wire\<close>: run on a destination, the steps never fault and keep it well
  typed; on success they consumed exactly \<open>wire\<close> of the members they set, which are then \<open>valid\<close>;
  and if the buffer holds \<open>wire x\<close> of a \<open>valid\<close> \<open>x\<close> with the selector already in the destination,
  they succeed and reproduce it.
\<close>

definition useq_ok :: "('r \<Rightarrow> UINT32) \<Rightarrow> 'r ustep list \<Rightarrow> ('r \<Rightarrow> bool) \<Rightarrow> ('r \<Rightarrow> bool) \<Rightarrow> ('r \<Rightarrow> BYTE list) \<Rightarrow> bool" where
  "useq_ok sel sts wt valid wire \<longleftrightarrow>
     (\<forall>b bs off r. unat bs \<le> length b \<longrightarrow> wt r \<longrightarrow>
        (\<exists>ret off' r'. useq sts (Some b) bs off True r = Some (ret, off', r') \<and> wt r' \<and>
           (ret = 0 \<longrightarrow> valid r' \<and> holds_at b bs off (wire r') \<and> off' = off + of_nat (length (wire r'))) \<and>
           (\<forall>x. valid x \<longrightarrow> sel r = sel x \<longrightarrow> holds_at b bs off (wire x) \<longrightarrow>
              ret = 0 \<and> wire r' = wire x)))"

text \<open>\<open>keeps sts P\<close>: no step changes what \<open>P\<close> observes of the structure.\<close>

definition keeps :: "'r ustep list \<Rightarrow> ('r \<Rightarrow> 'p) \<Rightarrow> bool" where
  "keeps sts P \<longleftrightarrow> (\<forall>st \<in> set sts. \<forall>b bs off dest r ret off' r'.
     st b bs off dest r = Some (ret, off', r') \<longrightarrow> P r' = P r)"

lemma keeps_Nil [simp]: "keeps [] P"
  by (simp add: keeps_def)

lemma keeps_Cons: "keeps (st # sts) P \<longleftrightarrow> keeps [st] P \<and> keeps sts P"
  by (auto simp: keeps_def)

lemma store_field_keeps:
  "(\<And>f r. P (upd f r) = P r) \<Longrightarrow> store_field upd r res = Some (ret, off, r') \<Longrightarrow> P r' = P r"
  by (auto simp: store_field_def split: option.splits)

lemma keeps_step:
  assumes "\<And>f r. P (upd f r) = P r"
  shows "keeps [FLD get upd U] P" "keeps [FLD_TMP get upd U] P" "keeps [UNI sel get upd V] P"
    "keeps [UNI_DEST sel get upd V] P"
  using store_field_keeps [of P upd, OF assms]
  by (auto simp: keeps_def FLD_def FLD_TMP_def UNI_def UNI_DEST_def)

lemma useq_keeps:
  "keeps sts P \<Longrightarrow> useq sts b bs off dest r = Some (ret, off', r') \<Longrightarrow> P r' = P r"
proof (induction sts arbitrary: off r)
  case Nil
  then show ?case by simp
next
  case (Cons st sts)
  then show ?case
    by (auto simp: keeps_Cons [of st sts] split: option.splits if_splits)
      (auto simp: keeps_def)
qed

lemma useq_ok_Nil: "useq_ok sel [] (\<lambda>_. True) (\<lambda>_. True) (\<lambda>_. [])"
  by (simp add: useq_ok_def)

lemma useq_ok_step:
  assumes "\<And>b bs off r. unat bs \<le> length b \<Longrightarrow> wt (get r) \<Longrightarrow>
      \<exists>res. st (Some b) bs (Some off) True r = store_field upd r res \<and>
            read_outcome wt (valid (sel r)) (wire (sel r)) b bs off res"
    and get: "\<And>f r. get (upd f r) = f (get r)" and sel: "\<And>f r. sel (upd f r) = sel r"
  shows "useq_ok sel [st] (\<lambda>r. wt (get r)) (\<lambda>r. valid (sel r) (get r)) (\<lambda>r. wire (sel r) (get r))"
  unfolding useq_ok_def
proof (intro allI impI)
  fix b :: buf and bs off :: size_t and r
  assume "unat bs \<le> length b" "wt (get r)"
  from assms(1) [OF this, of off] obtain rc off' d' where
    st: "st (Some b) bs (Some off) True r = store_field upd r (Some (rc, Some off', Some d'))"
    and o: "read_outcome wt (valid (sel r)) (wire (sel r)) b bs off (Some (rc, Some off', Some d'))"
    by (auto simp: read_outcome_def)
  have "useq [st] (Some b) bs off True r = Some (rc, off', upd (\<lambda>_. d') r)"
    by (simp add: st store_field_def)
  with o show "\<exists>ret off' r'. useq [st] (Some b) bs off True r = Some (ret, off', r') \<and> wt (get r') \<and>
      (ret = 0 \<longrightarrow> valid (sel r') (get r') \<and> holds_at b bs off (wire (sel r') (get r')) \<and>
                    off' = off + of_nat (length (wire (sel r') (get r')))) \<and>
      (\<forall>x. valid (sel x) (get x) \<longrightarrow> sel r = sel x \<longrightarrow> holds_at b bs off (wire (sel x) (get x)) \<longrightarrow>
           ret = 0 \<and> wire (sel r') (get r') = wire (sel x) (get x))"
    by (auto simp: read_outcome_def get sel)
qed

lemma useq_ok_sel_mono: "useq_ok (\<lambda>_. 0) sts wt valid wire \<Longrightarrow> useq_ok sel sts wt valid wire"
  unfolding useq_ok_def by blast

text \<open>The steps of the macros, over members with a strict unmarshal function.\<close>

lemma useq_ok_FLD:
  assumes U: "strict_unmarshaler U wt valid wire" and get: "\<And>f r. get (upd f r) = f (get r)"
  shows "useq_ok sel [FLD get upd U] (\<lambda>r. wt (get r)) (\<lambda>r. valid (get r)) (\<lambda>r. wire (get r))"
    and "useq_ok sel [FLD_TMP get upd U] (\<lambda>r. wt (get r)) (\<lambda>r. valid (get r)) (\<lambda>r. wire (get r))"
proof -
  let ?step = "\<lambda>st. useq_ok (\<lambda>_. 0) [st] (\<lambda>r. wt (get r)) (\<lambda>r. valid (get r)) (\<lambda>r. wire (get r))"
  have "?step (FLD get upd U)" "?step (FLD_TMP get upd U)"
    using U get
    by (intro useq_ok_step [where upd = upd and get = get and wt = wt and sel = "\<lambda>_. 0"
          and valid = "\<lambda>_. valid" and wire = "\<lambda>_. wire"],
        auto simp: FLD_def FLD_TMP_def strict_unmarshaler_iff)+
  then show "useq_ok sel [FLD get upd U] (\<lambda>r. wt (get r)) (\<lambda>r. valid (get r)) (\<lambda>r. wire (get r))"
    and "useq_ok sel [FLD_TMP get upd U] (\<lambda>r. wt (get r)) (\<lambda>r. valid (get r)) (\<lambda>r. wire (get r))"
    by (blast intro: useq_ok_sel_mono)+
qed

lemma useq_ok_UNI:
  assumes U: "\<And>k. strict_unmarshaler (\<lambda>b bs off. U b bs off k) wt (valid k) (wire k)"
    and get: "\<And>f r. get (upd f r) = f (get r)" and sel: "\<And>f r. sel (upd f r) = sel r"
  shows "useq_ok sel [UNI sel get upd U] (\<lambda>r. wt (get r)) (\<lambda>r. valid (sel r) (get r)) (\<lambda>r. wire (sel r) (get r))"
    and "useq_ok sel [UNI_DEST sel get upd U] (\<lambda>r. wt (get r)) (\<lambda>r. valid (sel r) (get r)) (\<lambda>r. wire (sel r) (get r))"
  using U get sel
  by (intro useq_ok_step [where upd = upd], auto simp: UNI_def UNI_DEST_def strict_unmarshaler_iff)+

lemma useq_append: "useq (xs @ ys) b bs off dest r =
  (case useq xs b bs off dest r of
     None \<Rightarrow> None
   | Some (ret, off', r') \<Rightarrow> if ret \<noteq> 0 then Some (ret, off', r') else useq ys b bs off' dest r')"
  by (induction xs arbitrary: off r) (auto split: option.splits)

lemma useq_ok_append:
  assumes s1: "useq_ok sel1 xs wt1 valid1 wire1" and s2: "useq_ok sel2 ys wt2 valid2 wire2"
    and k2: "keeps xs wt2" and k1: "keeps ys wt1" "keeps ys valid1" "keeps ys wire1"
    and sel: "\<And>r r' x b bs off ret off'. useq xs b bs off True r = Some (ret, off', r') \<Longrightarrow>
                sel1 r = sel1 x \<Longrightarrow> wire1 r' = wire1 x \<Longrightarrow> sel2 r' = sel2 x"
  shows "useq_ok sel1 (xs @ ys) (\<lambda>r. wt1 r \<and> wt2 r) (\<lambda>r. valid1 r \<and> valid2 r) (\<lambda>r. wire1 r @ wire2 r)"
  unfolding useq_ok_def
proof (intro allI impI)
  fix b :: buf and bs off :: size_t and r
  assume bs: "unat bs \<le> length b" and wt: "wt1 r \<and> wt2 r"
  from s1 bs wt obtain ret1 off1 r1 where
    r1: "useq xs (Some b) bs off True r = Some (ret1, off1, r1)" "wt1 r1"
      "ret1 = 0 \<Longrightarrow> valid1 r1 \<and> holds_at b bs off (wire1 r1) \<and> off1 = off + of_nat (length (wire1 r1))"
      "\<And>x. valid1 x \<Longrightarrow> sel1 r = sel1 x \<Longrightarrow> holds_at b bs off (wire1 x) \<Longrightarrow> ret1 = 0 \<and> wire1 r1 = wire1 x"
    unfolding useq_ok_def by meson
  have "wt2 r1" using useq_keeps [OF k2 r1(1)] wt by simp
  with s2 bs obtain ret2 off2 r2 where
    r2: "useq ys (Some b) bs off1 True r1 = Some (ret2, off2, r2)" "wt2 r2"
      "ret2 = 0 \<Longrightarrow> valid2 r2 \<and> holds_at b bs off1 (wire2 r2) \<and> off2 = off1 + of_nat (length (wire2 r2))"
      "\<And>x. valid2 x \<Longrightarrow> sel2 r1 = sel2 x \<Longrightarrow> holds_at b bs off1 (wire2 x) \<Longrightarrow> ret2 = 0 \<and> wire2 r2 = wire2 x"
    unfolding useq_ok_def by meson
  have k: "wt1 r2 = wt1 r1" "valid1 r2 = valid1 r1" "wire1 r2 = wire1 r1"
    using useq_keeps [OF _ r2(1)] k1 by auto
  let ?P = "\<lambda>ret off' r'. (wt1 r' \<and> wt2 r') \<and>
      (ret = 0 \<longrightarrow> (valid1 r' \<and> valid2 r') \<and> holds_at b bs off (wire1 r' @ wire2 r') \<and>
                    off' = off + of_nat (length (wire1 r' @ wire2 r'))) \<and>
      (\<forall>x. valid1 x \<and> valid2 x \<longrightarrow> sel1 r = sel1 x \<longrightarrow> holds_at b bs off (wire1 x @ wire2 x) \<longrightarrow>
           ret = 0 \<and> wire1 r' @ wire2 r' = wire1 x @ wire2 x)"
  show "\<exists>ret off' r'. useq (xs @ ys) (Some b) bs off True r = Some (ret, off', r') \<and> ?P ret off' r'"
  proof (cases "ret1 = 0")
    case False
    then have "useq (xs @ ys) (Some b) bs off True r = Some (ret1, off1, r1)"
      by (simp add: useq_append r1(1))
    moreover have "?P ret1 off1 r1"
      using False r1(2) \<open>wt2 r1\<close> r1(4) by (auto simp: holds_at_append [OF bs])
    ultimately show ?thesis by blast
  next
    case True
    then have u: "useq (xs @ ys) (Some b) bs off True r = Some (ret2, off2, r2)"
      by (simp add: useq_append r1(1) r2(1))
    have "?P ret2 off2 r2"
    proof (intro conjI impI allI)
      show "wt1 r2" "wt2 r2" using k r1(2) r2(2) by simp_all
      assume z: "ret2 = 0"
      show "valid1 r2" "valid2 r2" using k z True r1(3) r2(3) by simp_all
      show "holds_at b bs off (wire1 r2 @ wire2 r2)" "off2 = off + of_nat (length (wire1 r2 @ wire2 r2))"
        using k z True r1(3) r2(3) by (auto simp: holds_at_append [OF bs])
    next
      fix x assume x: "valid1 x \<and> valid2 x" "sel1 r = sel1 x" "holds_at b bs off (wire1 x @ wire2 x)"
      then have h1: "holds_at b bs off (wire1 x)" and h2: "holds_at b bs (off + of_nat (length (wire1 x))) (wire2 x)"
        by (auto simp: holds_at_append [OF bs])
      have w1: "wire1 r1 = wire1 x" using r1(4) x(1,2) h1 by blast
      then have "off1 = off + of_nat (length (wire1 x))" using r1(3) True by simp
      moreover have "sel2 r1 = sel2 x" using sel [OF r1(1) x(2) w1] .
      ultimately have "ret2 = 0 \<and> wire2 r2 = wire2 x" using r2(4) [of x] x(1) h2 by simp
      then show "ret2 = 0" "wire1 r2 @ wire2 r2 = wire1 x @ wire2 x" using k w1 by simp_all
    qed
    with u show ?thesis by blast
  qed
qed

text \<open>
  The three ways a macro body grows: a step that leaves the selector alone, the step that reads
  the selector, and the last step.
\<close>

lemma useq_ok_Cons:
  assumes "useq_ok sel [st] wt1 valid1 wire1" "useq_ok sel sts wt2 valid2 wire2"
    and "keeps [st] sel" "keeps [st] wt2" "keeps sts wt1" "keeps sts valid1" "keeps sts wire1"
  shows "useq_ok sel (st # sts) (\<lambda>r. wt1 r \<and> wt2 r) (\<lambda>r. valid1 r \<and> valid2 r) (\<lambda>r. wire1 r @ wire2 r)"
proof -
  have "useq_ok sel ([st] @ sts) (\<lambda>r. wt1 r \<and> wt2 r) (\<lambda>r. valid1 r \<and> valid2 r) (\<lambda>r. wire1 r @ wire2 r)"
    by (rule useq_ok_append [OF assms(1,2,4-7)]) (simp only: useq_keeps [OF assms(3)])
  then show ?thesis by simp
qed

lemma useq_ok_Cons_sel:
  assumes "useq_ok (\<lambda>_. 0) [st] wt1 valid1 wire1" "useq_ok sel sts wt2 valid2 wire2"
    and "\<And>r x. wire1 r = wire1 x \<Longrightarrow> sel r = sel x"
    and "keeps [st] wt2" "keeps sts wt1" "keeps sts valid1" "keeps sts wire1"
  shows "useq_ok (\<lambda>_. 0) (st # sts) (\<lambda>r. wt1 r \<and> wt2 r) (\<lambda>r. valid1 r \<and> valid2 r) (\<lambda>r. wire1 r @ wire2 r)"
proof -
  have "useq_ok (\<lambda>_. 0) ([st] @ sts) (\<lambda>r. wt1 r \<and> wt2 r) (\<lambda>r. valid1 r \<and> valid2 r) (\<lambda>r. wire1 r @ wire2 r)"
    by (rule useq_ok_append [OF assms(1,2,4-7)]) (rule assms(3))
  then show ?thesis by simp
qed

lemma useq_okE:
  assumes "useq_ok sel sts wt valid wire" "unat bs \<le> length b" "wt r"
  obtains ret off' r' where "useq sts (Some b) bs off True r = Some (ret, off', r')" "wt r'"
    and "ret = 0 \<Longrightarrow> valid r' \<and> holds_at b bs off (wire r') \<and> off' = off + of_nat (length (wire r'))"
    and "\<And>x. valid x \<Longrightarrow> sel r = sel x \<Longrightarrow> holds_at b bs off (wire x) \<Longrightarrow> ret = 0 \<and> wire r' = wire x"
  using assms unfolding useq_ok_def by meson

lemma strict_unmarshaler_struct:
  assumes "useq_ok (\<lambda>_. 0) sts wt valid wire" "\<And>d. wt d \<Longrightarrow> wt (start d)"
  shows "strict_unmarshaler (struct_unmarshal start tmp sts) wt valid wire"
  unfolding strict_unmarshaler_iff
proof (intro allI impI)
  fix d and bs off :: size_t and b :: buf
  assume a: "wt d" "unat bs \<le> length b"
  from assms(1) a(2) assms(2) [OF a(1)] show
    "read_outcome wt valid wire b bs off (struct_unmarshal start tmp sts (Some b) bs (Some off) (Some d))"
  proof (rule useq_okE [where off = off])
    fix ret off' r'
    assume r: "useq sts (Some b) bs off True (start d) = Some (ret, off', r')" "wt r'"
      "ret = 0 \<Longrightarrow> valid r' \<and> holds_at b bs off (wire r') \<and> off' = off + of_nat (length (wire r'))"
      "\<And>x. valid x \<Longrightarrow> 0 = 0 \<Longrightarrow> holds_at b bs off (wire x) \<Longrightarrow> ret = 0 \<and> wire r' = wire x"
    have eq: "struct_unmarshal start tmp sts (Some b) bs (Some off) (Some d)
          = Some (ret, Some (if ret = 0 then off' else off), Some r')"
      by (simp add: struct_unmarshal_def r(1))
    show ?thesis
      unfolding eq by (rule read_outcomeI) (use r(2,3) r(4) [OF _ refl] in simp_all)
  qed
qed

lemma strict_unmarshaler_TPMS_1:
  assumes U: "strict_unmarshaler U wt valid wire" and get: "\<And>f r. get (upd f r) = f (get r)"
  shows "strict_unmarshaler (TPMS_UNMARSHAL_1 tmp (FLD get upd U))
           (\<lambda>r. wt (get r)) (\<lambda>r. valid (get r)) (\<lambda>r. wire (get r))"
  unfolding strict_unmarshaler_iff
proof (intro allI impI)
  fix d and bs off :: size_t and b :: buf
  assume "wt (get d)" "unat bs \<le> length b"
  with U have "read_outcome wt valid wire b bs off (U (Some b) bs (Some off) (Some (get d)))"
    unfolding strict_unmarshaler_iff by blast
  then show "read_outcome (\<lambda>r. wt (get r)) (\<lambda>r. valid (get r)) (\<lambda>r. wire (get r)) b bs off
          (TPMS_UNMARSHAL_1 tmp (FLD get upd U) (Some b) bs (Some off) (Some d))"
  proof (rule read_outcomeE)
    fix rc off' d'
    assume r: "U (Some b) bs (Some off) (Some (get d)) = Some (rc, Some off', Some d')" "wt d'"
      "rc \<noteq> 0 \<Longrightarrow> off' = off"
      "rc = 0 \<Longrightarrow> valid d' \<and> holds_at b bs off (wire d') \<and> off' = off + of_nat (length (wire d'))"
      "\<And>x. valid x \<Longrightarrow> holds_at b bs off (wire x) \<Longrightarrow> rc = 0 \<and> wire d' = wire x"
    have eq: "TPMS_UNMARSHAL_1 tmp (FLD get upd U) (Some b) bs (Some off) (Some d)
              = Some (rc, Some off', Some (upd (\<lambda>_. d') d))"
      by (simp add: TPMS_UNMARSHAL_1_def FLD_def store_field_def r(1))
    show ?thesis
      unfolding eq by (rule read_outcomeI, unfold get) (use r(2-4) in simp_all, use r(5) in blast)
  qed
qed

lemma strict_unmarshaler_cong:
  assumes "strict_unmarshaler U wt valid wire" "\<And>x. wt' x = wt x" "\<And>x. valid' x = valid x"
    "\<And>x. wire' x = wire x"
  shows "strict_unmarshaler U wt' valid' wire'"
proof -
  have "wt' = wt" "valid' = valid" "wire' = wire" using assms by auto
  with assms(1) show ?thesis by simp
qed

section \<open>The macro families\<close>

text \<open>
  A marshal macro takes its steps (\<open>VAL\<close> or \<open>ADDR\<close> applied to member and function).  The \<open>TPMS_\<close>
  macros answer a \<open>NULL\<close> source with \<open>TSS2_MU_RC_BAD_REFERENCE\<close>, the \<open>TPMT_\<close> macros with
  \<open>TSS2_SYS_RC_BAD_REFERENCE\<close>.
\<close>

definition TPMS_MARSHAL_2 :: "'r mfun \<Rightarrow> 'r mfun \<Rightarrow> 'r option mfun" where
  "TPMS_MARSHAL_2 f1 f2 =
     struct_marshal TSS2_MU_RC_BAD_REFERENCE [f1, f2]"

definition TPMS_MARSHAL_2_U :: "'r mfun \<Rightarrow> 'r mfun \<Rightarrow> 'r option mfun" where
  "TPMS_MARSHAL_2_U f1 f2 =
     struct_marshal TSS2_MU_RC_BAD_REFERENCE [f1, f2]"

definition TPMS_MARSHAL_3 :: "'r mfun \<Rightarrow> 'r mfun \<Rightarrow> 'r mfun \<Rightarrow> 'r option mfun" where
  "TPMS_MARSHAL_3 f1 f2 f3 =
     struct_marshal TSS2_MU_RC_BAD_REFERENCE [f1, f2, f3]"

definition TPMS_MARSHAL_4 :: "'r mfun \<Rightarrow> 'r mfun \<Rightarrow> 'r mfun \<Rightarrow> 'r mfun \<Rightarrow> 'r option mfun" where
  "TPMS_MARSHAL_4 f1 f2 f3 f4 =
     struct_marshal TSS2_MU_RC_BAD_REFERENCE [f1, f2, f3, f4]"

definition TPMS_MARSHAL_5 :: "'r mfun \<Rightarrow> 'r mfun \<Rightarrow> 'r mfun \<Rightarrow> 'r mfun \<Rightarrow> 'r mfun \<Rightarrow> 'r option mfun" where
  "TPMS_MARSHAL_5 f1 f2 f3 f4 f5 =
     struct_marshal TSS2_MU_RC_BAD_REFERENCE [f1, f2, f3, f4, f5]"

definition TPMS_MARSHAL_7 :: "'r mfun \<Rightarrow> 'r mfun \<Rightarrow> 'r mfun \<Rightarrow> 'r mfun \<Rightarrow> 'r mfun \<Rightarrow> 'r mfun \<Rightarrow> 'r mfun \<Rightarrow> 'r option mfun" where
  "TPMS_MARSHAL_7 f1 f2 f3 f4 f5 f6 f7 =
     struct_marshal TSS2_MU_RC_BAD_REFERENCE [f1, f2, f3, f4, f5, f6, f7]"

definition TPMS_MARSHAL_7_U :: "'r mfun \<Rightarrow> 'r mfun \<Rightarrow> 'r mfun \<Rightarrow> 'r mfun \<Rightarrow> 'r mfun \<Rightarrow> 'r mfun \<Rightarrow> 'r mfun \<Rightarrow> 'r option mfun" where
  "TPMS_MARSHAL_7_U f1 f2 f3 f4 f5 f6 f7 =
     struct_marshal TSS2_MU_RC_BAD_REFERENCE [f1, f2, f3, f4, f5, f6, f7]"

definition TPMS_MARSHAL_11 :: "'r mfun \<Rightarrow> 'r mfun \<Rightarrow> 'r mfun \<Rightarrow> 'r mfun \<Rightarrow> 'r mfun \<Rightarrow> 'r mfun \<Rightarrow> 'r mfun \<Rightarrow> 'r mfun \<Rightarrow> 'r mfun \<Rightarrow> 'r mfun \<Rightarrow> 'r mfun \<Rightarrow> 'r option mfun" where
  "TPMS_MARSHAL_11 f1 f2 f3 f4 f5 f6 f7 f8 f9 f10 f11 =
     struct_marshal TSS2_MU_RC_BAD_REFERENCE [f1, f2, f3, f4, f5, f6, f7, f8, f9, f10, f11]"

definition TPMT_MARSHAL_2 :: "'r mfun \<Rightarrow> 'r mfun \<Rightarrow> 'r option mfun" where
  "TPMT_MARSHAL_2 f1 f2 =
     struct_marshal TSS2_SYS_RC_BAD_REFERENCE [f1, f2]"

definition TPMT_MARSHAL_3 :: "'r mfun \<Rightarrow> 'r mfun \<Rightarrow> 'r mfun \<Rightarrow> 'r option mfun" where
  "TPMT_MARSHAL_3 f1 f2 f3 =
     struct_marshal TSS2_SYS_RC_BAD_REFERENCE [f1, f2, f3]"

definition TPMT_MARSHAL_TK :: "'r mfun \<Rightarrow> 'r mfun \<Rightarrow> 'r mfun \<Rightarrow> 'r option mfun" where
  "TPMT_MARSHAL_TK f1 f2 f3 =
     struct_marshal TSS2_SYS_RC_BAD_REFERENCE [f1, f2, f3]"

definition TPMT_MARSHAL_4 :: "'r mfun \<Rightarrow> 'r mfun \<Rightarrow> 'r mfun \<Rightarrow> 'r mfun \<Rightarrow> 'r option mfun" where
  "TPMT_MARSHAL_4 f1 f2 f3 f4 =
     struct_marshal TSS2_SYS_RC_BAD_REFERENCE [f1, f2, f3, f4]"

definition TPMT_MARSHAL_5 :: "'r mfun \<Rightarrow> 'r mfun \<Rightarrow> 'r mfun \<Rightarrow> 'r mfun \<Rightarrow> 'r mfun \<Rightarrow> 'r option mfun" where
  "TPMT_MARSHAL_5 f1 f2 f3 f4 f5 =
     struct_marshal TSS2_SYS_RC_BAD_REFERENCE [f1, f2, f3, f4, f5]"

definition TPMT_MARSHAL_6 :: "'r mfun \<Rightarrow> 'r mfun \<Rightarrow> 'r mfun \<Rightarrow> 'r mfun \<Rightarrow> 'r mfun \<Rightarrow> 'r mfun \<Rightarrow> 'r option mfun" where
  "TPMT_MARSHAL_6 f1 f2 f3 f4 f5 f6 =
     struct_marshal TSS2_SYS_RC_BAD_REFERENCE [f1, f2, f3, f4, f5, f6]"

lemmas struct_marshal_defs =
  TPMS_MARSHAL_2_def
  TPMS_MARSHAL_2_U_def
  TPMS_MARSHAL_3_def
  TPMS_MARSHAL_4_def
  TPMS_MARSHAL_5_def
  TPMS_MARSHAL_7_def
  TPMS_MARSHAL_7_U_def
  TPMS_MARSHAL_11_def
  TPMT_MARSHAL_2_def
  TPMT_MARSHAL_3_def
  TPMT_MARSHAL_TK_def
  TPMT_MARSHAL_4_def
  TPMT_MARSHAL_5_def
  TPMT_MARSHAL_6_def

text \<open>
  An unmarshal macro takes the all-zero structure, and for each member its selector and update
  functions and the unmarshal function; union members also take their selector.
\<close>

definition TPMS_UNMARSHAL_2_U where
  "TPMS_UNMARSHAL_2_U zero m1 u1 fn1 m2 u2 sel2 fn2 =
     struct_unmarshal (\<lambda>_. zero) zero
       [FLD_TMP m1 u1 fn1,
        UNI sel2 m2 u2 fn2]"

definition TPMS_UNMARSHAL_2 where
  "TPMS_UNMARSHAL_2 zero m1 u1 fn1 m2 u2 fn2 =
     struct_unmarshal (\<lambda>_. zero) zero
       [FLD m1 u1 fn1,
        FLD m2 u2 fn2]"

definition TPMS_UNMARSHAL_3 where
  "TPMS_UNMARSHAL_3 zero m1 u1 fn1 m2 u2 fn2 m3 u3 fn3 =
     struct_unmarshal (\<lambda>_. zero) zero
       [FLD m1 u1 fn1,
        FLD m2 u2 fn2,
        FLD m3 u3 fn3]"

definition TPMS_UNMARSHAL_4 where
  "TPMS_UNMARSHAL_4 zero m1 u1 fn1 m2 u2 fn2 m3 u3 fn3 m4 u4 fn4 =
     struct_unmarshal (\<lambda>_. zero) zero
       [FLD m1 u1 fn1,
        FLD m2 u2 fn2,
        FLD m3 u3 fn3,
        FLD m4 u4 fn4]"

definition TPMS_UNMARSHAL_5 where
  "TPMS_UNMARSHAL_5 zero m1 u1 fn1 m2 u2 fn2 m3 u3 fn3 m4 u4 fn4
      m5 u5 fn5 =
     struct_unmarshal (\<lambda>_. zero) zero
       [FLD m1 u1 fn1,
        FLD m2 u2 fn2,
        FLD m3 u3 fn3,
        FLD m4 u4 fn4,
        FLD m5 u5 fn5]"

definition TPMS_UNMARSHAL_7 where
  "TPMS_UNMARSHAL_7 zero m1 u1 fn1 m2 u2 fn2 m3 u3 fn3 m4 u4 fn4
      m5 u5 fn5 m6 u6 fn6 m7 u7 fn7 =
     struct_unmarshal (\<lambda>_. zero) zero
       [FLD m1 u1 fn1,
        FLD m2 u2 fn2,
        FLD m3 u3 fn3,
        FLD m4 u4 fn4,
        FLD m5 u5 fn5,
        FLD m6 u6 fn6,
        FLD m7 u7 fn7]"

definition TPMS_UNMARSHAL_7_U where
  "TPMS_UNMARSHAL_7_U zero m1 u1 fn1 m2 u2 fn2 m3 u3 fn3 m4 u4 fn4
      m5 u5 fn5 m6 u6 fn6 m7 u7 sel7 fn7 =
     struct_unmarshal (\<lambda>_. zero) zero
       [FLD m1 u1 fn1,
        FLD m2 u2 fn2,
        FLD m3 u3 fn3,
        FLD m4 u4 fn4,
        FLD m5 u5 fn5,
        FLD m6 u6 fn6,
        UNI_DEST sel7 m7 u7 fn7]"

definition TPMS_UNMARSHAL_11 where
  "TPMS_UNMARSHAL_11 zero m1 u1 fn1 m2 u2 fn2 m3 u3 fn3 m4 u4 fn4
      m5 u5 fn5 m6 u6 fn6 m7 u7 fn7 m8 u8 fn8
      m9 u9 fn9 m10 u10 fn10 m11 u11 fn11 =
     struct_unmarshal (\<lambda>_. zero) zero
       [FLD m1 u1 fn1,
        FLD m2 u2 fn2,
        FLD m3 u3 fn3,
        FLD m4 u4 fn4,
        FLD m5 u5 fn5,
        FLD m6 u6 fn6,
        FLD m7 u7 fn7,
        FLD m8 u8 fn8,
        FLD m9 u9 fn9,
        FLD m10 u10 fn10,
        FLD m11 u11 fn11]"

definition TPMT_UNMARSHAL_2 where
  "TPMT_UNMARSHAL_2 zero m1 u1 fn1 m2 u2 sel2 fn2 =
     struct_unmarshal (\<lambda>d. d) zero
       [FLD_TMP m1 u1 fn1,
        UNI sel2 m2 u2 fn2]"

definition TPMT_UNMARSHAL_3 where
  "TPMT_UNMARSHAL_3 zero m1 u1 fn1 m2 u2 sel2 fn2 m3 u3 sel3 fn3 =
     struct_unmarshal (\<lambda>d. d) zero
       [FLD_TMP m1 u1 fn1,
        UNI sel2 m2 u2 fn2,
        UNI sel3 m3 u3 fn3]"

definition TPMT_UNMARSHAL_TK where
  "TPMT_UNMARSHAL_TK zero m1 u1 fn1 m2 u2 fn2 m3 u3 fn3 =
     struct_unmarshal (\<lambda>d. d) zero
       [FLD m1 u1 fn1,
        FLD m2 u2 fn2,
        FLD m3 u3 fn3]"

definition TPMT_UNMARSHAL_4 where
  "TPMT_UNMARSHAL_4 zero m1 u1 fn1 m2 u2 fn2 m3 u3 fn3 m4 u4 sel4 fn4 =
     struct_unmarshal (\<lambda>d. d) zero
       [FLD_TMP m1 u1 fn1,
        FLD_TMP m2 u2 fn2,
        FLD_TMP m3 u3 fn3,
        UNI sel4 m4 u4 fn4]"

definition TPMT_UNMARSHAL_5 where
  "TPMT_UNMARSHAL_5 zero m1 u1 fn1 m2 u2 fn2 m3 u3 fn3 m4 u4 fn4
      m5 u5 fn5 =
     struct_unmarshal (\<lambda>d. d) zero
       [FLD m1 u1 fn1,
        FLD m2 u2 fn2,
        FLD m3 u3 fn3,
        FLD m4 u4 fn4,
        FLD m5 u5 fn5]"

definition TPMT_UNMARSHAL_6 where
  "TPMT_UNMARSHAL_6 zero m1 u1 fn1 m2 u2 fn2 m3 u3 fn3 m4 u4 fn4
      m5 u5 sel5 fn5 m6 u6 sel6 fn6 =
     struct_unmarshal (\<lambda>d. d) zero
       [FLD_TMP m1 u1 fn1,
        FLD_TMP m2 u2 fn2,
        FLD_TMP m3 u3 fn3,
        FLD_TMP m4 u4 fn4,
        UNI sel5 m5 u5 fn5,
        UNI sel6 m6 u6 fn6]"

lemmas struct_unmarshal_defs =
  TPMS_UNMARSHAL_2_U_def
  TPMS_UNMARSHAL_2_def
  TPMS_UNMARSHAL_3_def
  TPMS_UNMARSHAL_4_def
  TPMS_UNMARSHAL_5_def
  TPMS_UNMARSHAL_7_def
  TPMS_UNMARSHAL_7_U_def
  TPMS_UNMARSHAL_11_def
  TPMT_UNMARSHAL_2_def
  TPMT_UNMARSHAL_3_def
  TPMT_UNMARSHAL_TK_def
  TPMT_UNMARSHAL_4_def
  TPMT_UNMARSHAL_5_def
  TPMT_UNMARSHAL_6_def

text \<open>Automation for the instances: frame conditions of the steps are rewriting.\<close>

lemma keeps_simps:
  assumes "\<And>f r. P (upd f r) = P r"
  shows "keeps (FLD get upd U # sts) P \<longleftrightarrow> keeps sts P" "keeps (FLD_TMP get upd U # sts) P \<longleftrightarrow> keeps sts P"
    "keeps (UNI sel get upd V # sts) P \<longleftrightarrow> keeps sts P" "keeps (UNI_DEST sel get upd V # sts) P \<longleftrightarrow> keeps sts P"
  using keeps_step [of P upd, OF assms]
  by (subst keeps_Cons, simp)+

end
