(* ===== verification/MU_List.thy ===== *)
theory MU_List
  imports MU_Struct
begin

text \<open>
  Arrays: the macros \<open>TPML_MARSHAL\<close> and \<open>TPML_UNMARSHAL\<close> of \<open>tpml-types.c\<close> and \<open>TPMS_PCR_MARSHAL\<close>
  and \<open>TPMS_PCR_UNMARSHAL\<close> of \<open>tpms-types.c\<close>.  Each reads or writes a count and then that many
  elements of an array in a loop.
\<close>

section \<open>Loops over an array\<close>

text \<open>
  \<open>for (i = 0; i < n; i++) fn(arr[i], ...)\<close>, with the elements from the \<open>i\<close>-th on as the list; an
  index past the end of the array is a fault.
\<close>

fun marshal_loop :: "'a mfun \<Rightarrow> nat \<Rightarrow> 'a list \<Rightarrow> buf option \<Rightarrow> size_t \<Rightarrow> size_t \<Rightarrow>
    (TSS2_RC \<times> buf option \<times> size_t) option" where
  "marshal_loop fn 0 xs buffer buffer_size local_offset = Some (TSS2_RC_SUCCESS, buffer, local_offset)"
| "marshal_loop fn (Suc n) [] buffer buffer_size local_offset = None"
| "marshal_loop fn (Suc n) (x # xs) buffer buffer_size local_offset =
     (case fn x buffer buffer_size (Some local_offset) of
        Some (ret, buffer', Some local_offset') \<Rightarrow>
          if ret \<noteq> 0 then Some (ret, buffer', local_offset')
          else marshal_loop fn n xs buffer' buffer_size local_offset'
      | _ \<Rightarrow> None)"

text \<open>The unmarshal loop passes \<open>&dest->arr[i]\<close>, or \<open>NULL\<close> when there is no destination.\<close>

fun unmarshal_loop :: "'a ufun \<Rightarrow> nat \<Rightarrow> buf option \<Rightarrow> size_t \<Rightarrow> size_t \<Rightarrow> 'a list option \<Rightarrow>
    (TSS2_RC \<times> size_t \<times> 'a list option) option" where
  "unmarshal_loop fn 0 buffer buffer_size local_offset ds = Some (TSS2_RC_SUCCESS, local_offset, ds)"
| "unmarshal_loop fn (Suc n) buffer buffer_size local_offset None =
     (case fn buffer buffer_size (Some local_offset) None of
        Some (ret, Some local_offset', _) \<Rightarrow>
          if ret \<noteq> 0 then Some (ret, local_offset', None)
          else unmarshal_loop fn n buffer buffer_size local_offset' None
      | _ \<Rightarrow> None)"
| "unmarshal_loop fn (Suc n) buffer buffer_size local_offset (Some []) = None"
| "unmarshal_loop fn (Suc n) buffer buffer_size local_offset (Some (d # ds)) =
     (case fn buffer buffer_size (Some local_offset) (Some d) of
        Some (ret, Some local_offset', Some d') \<Rightarrow>
          if ret \<noteq> 0 then Some (ret, local_offset', Some (d' # ds))
          else
            (case unmarshal_loop fn n buffer buffer_size local_offset' (Some ds) of
               Some (ret', local_offset'', Some ds') \<Rightarrow> Some (ret', local_offset'', Some (d' # ds'))
             | _ \<Rightarrow> None)
      | _ \<Rightarrow> None)"

lemma marshal_loop_mseq:
  "n \<le> length xs \<Longrightarrow>
   marshal_loop fn n xs b bs off = mseq (map (\<lambda>x _. fn x) (take n xs)) (() :: unit) b bs off"
proof (induction fn n xs b bs off rule: marshal_loop.induct)
  case (3 fn n x xs b bs off)
  then show ?case by (auto split: option.splits)
qed simp_all

definition wire_list :: "('a \<Rightarrow> BYTE list) \<Rightarrow> 'a list \<Rightarrow> BYTE list" where
  "wire_list wire xs = concat (map wire xs)"

lemma wire_list_simps [simp]:
  "wire_list wire [] = []" "wire_list wire (x # xs) = wire x @ wire_list wire xs"
  by (simp_all add: wire_list_def)

lemma marshaler_elements:
  assumes "marshaler fn src valid wire lim"
  shows "marshaler (\<lambda>u. struct_marshal rc (map (\<lambda>x _. fn x) xs) (Some (u :: unit)))
           (\<lambda>_. \<forall>x \<in> set xs. src x) (\<lambda>_. \<forall>x \<in> set xs. valid x) (\<lambda>_. wire_list wire xs) (length xs * lim)"
proof (induction xs)
  case Nil
  show ?case using marshaler_Nil [where ?'a = unit and rc = rc] by simp
next
  case (Cons x xs)
  have "marshaler (\<lambda>_ :: unit. fn x) (\<lambda>_. src x) (\<lambda>_. valid x) (\<lambda>_. wire x) lim"
    using assms unfolding marshaler_def by blast
  from marshaler_Cons [OF this Cons] show ?case by simp
qed

text \<open>A contract that holds for every source value in turn holds for the function.\<close>

lemma marshaler_pointwise:
  assumes "\<And>s. marshaler (G s) (\<lambda>_ :: unit. src s) (\<lambda>_. valid s) (\<lambda>_. wire s) (lim s)"
    and "\<And>s. valid s \<Longrightarrow> lim s \<le> lim'"
    and "\<And>s b bs off. unat bs \<le> length b \<Longrightarrow> src s \<Longrightarrow> F s (Some b) bs (Some off) = G s () (Some b) bs (Some off)"
  shows "marshaler F src valid wire lim'"
proof
  fix s and b :: buf and bs off :: size_t
  note G = assms(1) [of s]
  show src: "src s" if "valid s" for s using that marshaler.valid_src [OF assms(1)] by simp
  show "length (wire s) \<le> lim'" if "valid s"
    using that marshaler.wire_le [OF G] assms(2) [OF that] by simp
  assume bs: "unat bs \<le> length b"
  show "\<exists>rc b' off'. F s (Some b) bs (Some off) = Some (rc, Some b', Some off') \<and> untouched b b' off bs \<and>
          (rc \<noteq> 0 \<longrightarrow> off' = off) \<and> (rc = 0 \<longrightarrow> valid s \<and> fits bs off (length (wire s)))" if "src s"
    using marshaler.marshal_total [OF G that bs, of "()" off] assms(3) [OF bs that] by simp
  show "F s (Some b) bs (Some off) = Some (0, Some (patch b (unat off) (wire s)), Some (off + of_nat (length (wire s))))"
    if "valid s" "fits bs off (length (wire s))"
    using marshaler.marshal_fit [OF G that(1) bs that(2), of "()"] assms(3) [OF bs src [OF that(1)]] by simp
  show "\<exists>b'. F s (Some b) bs (Some off) = Some (TSS2_MU_RC_INSUFFICIENT_BUFFER, Some b', Some off)"
    if "valid s" "\<not> fits bs off (length (wire s))"
    using marshaler.marshal_short [OF G that(1) bs that(2), of "()"] assms(3) [OF bs src [OF that(1)]] by simp
qed

lemma unmarshal_loop_ok:
  assumes U: "strict_unmarshaler U wt valid wire" and bs: "unat bs \<le> length b"
    and "\<forall>d \<in> set ds. wt d" "n \<le> length ds"
  shows "\<exists>ret off' ds'. unmarshal_loop U n (Some b) bs off (Some ds) = Some (ret, off', Some ds') \<and>
     length ds' = length ds \<and> (\<forall>d \<in> set ds'. wt d) \<and> drop n ds' = drop n ds \<and>
     (ret = 0 \<longrightarrow> (\<forall>d \<in> set (take n ds'). valid d) \<and> holds_at b bs off (wire_list wire (take n ds')) \<and>
        off' = off + of_nat (length (wire_list wire (take n ds')))) \<and>
     (\<forall>xs. length xs = n \<longrightarrow> (\<forall>x \<in> set xs. valid x) \<longrightarrow> holds_at b bs off (wire_list wire xs) \<longrightarrow>
        ret = 0 \<and> wire_list wire (take n ds') = wire_list wire xs)"
  using assms(3,4)
proof (induction n arbitrary: ds off)
  case 0
  then show ?case by simp
next
  case (Suc n)
  then obtain d ds1 where ds: "ds = d # ds1" by (cases ds) auto
  with Suc.prems U bs have "read_outcome wt valid wire b bs off (U (Some b) bs (Some off) (Some d))"
    by (simp add: strict_unmarshaler_iff)
  then show ?case
  proof (rule read_outcomeE)
    fix rc off1 d'
    assume r: "U (Some b) bs (Some off) (Some d) = Some (rc, Some off1, Some d')" "wt d'" "rc \<noteq> 0 \<Longrightarrow> off1 = off"
      "rc = 0 \<Longrightarrow> valid d' \<and> holds_at b bs off (wire d') \<and> off1 = off + of_nat (length (wire d'))"
      "\<And>x. valid x \<Longrightarrow> holds_at b bs off (wire x) \<Longrightarrow> rc = 0 \<and> wire d' = wire x"
    show ?thesis
    proof (cases "rc = 0")
      case False
      then have "\<not> (\<exists>x. valid x \<and> holds_at b bs off (wire x))" using r(5) by blast
      then have "\<not> holds_at b bs off (wire_list wire xs)"
        if "length xs = Suc n" "\<forall>x \<in> set xs. valid x" for xs
        using that by (cases xs) (auto simp: holds_at_append [OF bs])
      with False ds r(1,2) Suc.prems show ?thesis by auto
    next
      case True
      from Suc.IH [of ds1 off1] Suc.prems ds obtain ret off2 ds2 where
        i: "unmarshal_loop U n (Some b) bs off1 (Some ds1) = Some (ret, off2, Some ds2)"
          "length ds2 = length ds1" "\<forall>d \<in> set ds2. wt d" "drop n ds2 = drop n ds1"
          "ret = 0 \<longrightarrow> (\<forall>d \<in> set (take n ds2). valid d) \<and> holds_at b bs off1 (wire_list wire (take n ds2)) \<and>
             off2 = off1 + of_nat (length (wire_list wire (take n ds2)))"
          "\<And>xs. length xs = n \<Longrightarrow> \<forall>x \<in> set xs. valid x \<Longrightarrow> holds_at b bs off1 (wire_list wire xs) \<Longrightarrow>
             ret = 0 \<and> wire_list wire (take n ds2) = wire_list wire xs"
        by auto
      have complete: "ret = 0 \<and> wire d' @ wire_list wire (take n ds2) = wire_list wire xs"
        if len: "length xs = Suc n" and v: "\<forall>x \<in> set xs. valid x"
          and h: "holds_at b bs off (wire_list wire xs)" for xs
      proof -
        obtain y ys where xs: "xs = y # ys" using len by (cases xs) auto
        with h have "holds_at b bs off (wire y)" "holds_at b bs (off + of_nat (length (wire y))) (wire_list wire ys)"
          by (auto simp: holds_at_append [OF bs])
        moreover from this(1) have "wire d' = wire y" using r(5) [of y] v xs by simp
        ultimately show ?thesis using i(6) [of ys] r(4) True len v xs by simp
      qed
      have "unmarshal_loop U (Suc n) (Some b) bs off (Some ds) = Some (ret, off2, Some (d' # ds2))"
        using True by (simp add: ds r(1) i(1))
      then show ?thesis
        using True complete i(2-5) r(2,4) ds by (auto simp: holds_at_append [OF bs])
    qed
  qed
qed

section \<open>Counted lists\<close>

record 'a TPML =
  TPML_count :: UINT32
  TPML_items :: "'a list"

text \<open>
  \<open>TPML_MARSHAL(type, marshal_func, buf_name, op)\<close>: \<open>tab_size\<close> is \<open>TAB_SIZE(src->buf_name)\<close> and \<open>fn\<close>
  is \<open>marshal_func\<close> applied by value or by address.  The room for the count is checked also when
  \<open>buffer\<close> is \<open>NULL\<close>.
\<close>

definition TPML_MARSHAL :: "nat \<Rightarrow> 'a mfun \<Rightarrow> 'a TPML option mfun" where
  "TPML_MARSHAL tab_size fn src buffer buffer_size offset =
     (case src of
        None \<Rightarrow> Some (TSS2_MU_RC_BAD_REFERENCE, buffer, offset)
      | Some s \<Rightarrow>
          let local_offset = local_of offset in
          if buffer = None \<and> offset = None then Some (TSS2_MU_RC_BAD_REFERENCE, buffer, offset)
          else if lacks_room buffer_size local_offset 4
          then Some (TSS2_MU_RC_INSUFFICIENT_BUFFER, buffer, offset)
          else if tab_size < unat (TPML_count s) then Some (TSS2_SYS_RC_BAD_VALUE, buffer, offset)
          else
            (case Tss2_MU_UINT32_Marshal (TPML_count s) buffer buffer_size (Some local_offset) of
               Some (ret, buffer', Some local_offset') \<Rightarrow>
                 if ret \<noteq> 0 then Some (ret, buffer', offset)
                 else
                   (case marshal_loop fn (unat (TPML_count s)) (TPML_items s) buffer' buffer_size local_offset' of
                      None \<Rightarrow> None
                    | Some (ret, buffer'', local_offset'') \<Rightarrow>
                        if ret \<noteq> 0 then Some (ret, buffer'', offset)
                        else Some (TSS2_RC_SUCCESS, buffer'', map_option (\<lambda>_. local_offset'') offset))
             | _ \<Rightarrow> None))"

text \<open>\<open>zero\<close> is the element \<open>memset(dest, 0, sizeof(*dest))\<close> leaves in the array.\<close>

definition TPML_UNMARSHAL :: "nat \<Rightarrow> 'a \<Rightarrow> 'a ufun \<Rightarrow> 'a TPML ufun" where
  "TPML_UNMARSHAL tab_size zero fn buffer buffer_size offset dest =
     (let local_offset = local_of offset in
      case buffer of
        None \<Rightarrow> Some (TSS2_MU_RC_BAD_REFERENCE, offset, dest)
      | Some b \<Rightarrow>
          if dest = None \<and> offset = None then Some (TSS2_MU_RC_BAD_REFERENCE, offset, dest)
          else if lacks_room buffer_size local_offset 4
          then Some (TSS2_MU_RC_INSUFFICIENT_BUFFER, offset, dest)
          else
            (case Tss2_MU_UINT32_Unmarshal buffer buffer_size (Some local_offset) (Some 0) of
               Some (ret, Some local_offset', Some count) \<Rightarrow>
                 if ret \<noteq> 0 then Some (ret, offset, dest)
                 else if tab_size < unat count then Some (TSS2_SYS_RC_MALFORMED_RESPONSE, offset, dest)
                 else
                   (case unmarshal_loop fn (unat count) buffer buffer_size local_offset'
                           (map_option (\<lambda>_. replicate tab_size zero) dest) of
                      None \<Rightarrow> None
                    | Some (ret, local_offset'', items) \<Rightarrow>
                        Some (ret,
                              if ret = 0 then map_option (\<lambda>_. local_offset'') offset else offset,
                              map_option (\<lambda>xs. \<lparr>TPML_count = count, TPML_items = xs\<rparr>) items))
             | _ \<Rightarrow> None))"

definition wt_TPML :: "nat \<Rightarrow> ('a \<Rightarrow> bool) \<Rightarrow> 'a TPML \<Rightarrow> bool" where
  "wt_TPML N wt l \<longleftrightarrow> length (TPML_items l) = N \<and> (\<forall>x \<in> set (TPML_items l). wt x)"

definition src_TPML :: "nat \<Rightarrow> ('a \<Rightarrow> bool) \<Rightarrow> 'a TPML \<Rightarrow> bool" where
  "src_TPML N src l \<longleftrightarrow> length (TPML_items l) = N \<and> (\<forall>x \<in> set (take (unat (TPML_count l)) (TPML_items l)). src x)"

definition valid_TPML :: "nat \<Rightarrow> ('a \<Rightarrow> bool) \<Rightarrow> 'a TPML \<Rightarrow> bool" where
  "valid_TPML N valid l \<longleftrightarrow> length (TPML_items l) = N \<and> unat (TPML_count l) \<le> N \<and>
     (\<forall>x \<in> set (take (unat (TPML_count l)) (TPML_items l)). valid x)"

definition wire_TPML :: "('a \<Rightarrow> BYTE list) \<Rightarrow> 'a TPML \<Rightarrow> BYTE list" where
  "wire_TPML wire l = be_bytes (TPML_count l) @ wire_list wire (take (unat (TPML_count l)) (TPML_items l))"

text \<open>On a buffer, marshalling a list is marshalling the count and then its elements.\<close>

definition list_steps :: "'a mfun \<Rightarrow> 'a TPML \<Rightarrow> unit mfun list" where
  "list_steps fn s = (\<lambda>_. Tss2_MU_UINT32_Marshal (TPML_count s))
     # map (\<lambda>x _. fn x) (take (unat (TPML_count s)) (TPML_items s))"

lemma marshaler_list_steps:
  assumes "marshaler fn src valid wire lim"
  shows "marshaler (\<lambda>u. struct_marshal rc (list_steps fn s) (Some u))
    (\<lambda>_. True \<and> (\<forall>x \<in> set (take (unat (TPML_count s)) (TPML_items s)). src x))
    (\<lambda>_. True \<and> (\<forall>x \<in> set (take (unat (TPML_count s)) (TPML_items s)). valid x))
    (\<lambda>_. wire_TPML wire s) (4 + length (take (unat (TPML_count s)) (TPML_items s)) * lim)"
proof -
  have "marshaler (\<lambda>_ :: unit. Tss2_MU_UINT32_Marshal (TPML_count s)) (\<lambda>_. True) (\<lambda>_. True)
          (\<lambda>_. be_bytes (TPML_count s)) 4"
    using mu_UINT32.marshaler_axioms unfolding marshaler_def by blast
  from marshaler_Cons [OF this marshaler_elements [OF assms]] show ?thesis
    unfolding list_steps_def wire_TPML_def .
qed

lemma TPML_MARSHAL_Some:
  assumes "unat bs \<le> length b" "length (TPML_items s) = N"
  shows "TPML_MARSHAL N fn (Some s) (Some b) bs (Some off) =
    (if \<not> fits bs off 4 then Some (TSS2_MU_RC_INSUFFICIENT_BUFFER, Some b, Some off)
     else if N < unat (TPML_count s) then Some (TSS2_SYS_RC_BAD_VALUE, Some b, Some off)
     else struct_marshal 0 (list_steps fn s) (Some ()) (Some b) bs (Some off))"
  using assms
  by (auto simp: TPML_MARSHAL_def Let_def lacks_room_iff fits_def marshal_loop_mseq list_steps_def
      struct_marshal_simps split: option.splits if_splits)

lemma fits_wire_TPML: "fits bs off (length (wire_TPML wire s)) \<Longrightarrow> fits bs off 4"
  by (auto simp: wire_TPML_def fits_def)

lemma marshaler_TPML [mu_codec]:
  assumes fn: "marshaler fn src valid wire lim"
  shows "marshaler (\<lambda>s. TPML_MARSHAL N fn (Some s)) (src_TPML N src) (valid_TPML N valid)
           (wire_TPML wire) (4 + N * lim)"
proof
  fix s and b :: buf and bs off :: size_t
  note M = marshaler_list_steps [OF fn, of 0 s]
  have src_if: "src x" if "valid x" for x using that by (rule marshaler.valid_src [OF fn])
  show "src_TPML N src s" if "valid_TPML N valid s"
    using that src_if by (auto simp: valid_TPML_def src_TPML_def)
  show "length (wire_TPML wire s) \<le> 4 + N * lim" if "valid_TPML N valid s"
    using that marshaler.wire_le [OF M] by (auto simp: valid_TPML_def intro: le_trans)
  assume bs: "unat bs \<le> length b"
  note S = TPML_MARSHAL_Some [OF bs, of s N fn off]
  show "TPML_MARSHAL N fn (Some s) (Some b) bs (Some off) =
        Some (0, Some (patch b (unat off) (wire_TPML wire s)), Some (off + of_nat (length (wire_TPML wire s))))"
    if "valid_TPML N valid s" "fits bs off (length (wire_TPML wire s))"
    using that marshaler.marshal_fit [OF M _ bs that(2)] S fits_wire_TPML [OF that(2)]
    by (simp add: valid_TPML_def)
  show "\<exists>b'. TPML_MARSHAL N fn (Some s) (Some b) bs (Some off) =
          Some (TSS2_MU_RC_INSUFFICIENT_BUFFER, Some b', Some off)"
    if "valid_TPML N valid s" "\<not> fits bs off (length (wire_TPML wire s))"
    using that marshaler.marshal_short [OF M _ bs that(2)] S by (auto simp: valid_TPML_def)
  show "\<exists>rc b' off'. TPML_MARSHAL N fn (Some s) (Some b) bs (Some off) = Some (rc, Some b', Some off') \<and>
          untouched b b' off bs \<and> (rc \<noteq> 0 \<longrightarrow> off' = off) \<and>
          (rc = 0 \<longrightarrow> valid_TPML N valid s \<and> fits bs off (length (wire_TPML wire s)))"
    if "src_TPML N src s"
    using that marshaler.marshal_total [OF M _ bs, of "()" off] S
    by (auto simp: src_TPML_def valid_TPML_def)
qed

lemma word_of_rev_seg:
  assumes w: "int_width LENGTH('a)" and bs: "unat bs \<le> length b"
    and "fits bs off (LENGTH('a) div 8)"
  shows "holds_at b bs off (be_bytes (word_of (rev (seg b (unat off) (LENGTH('a) div 8))) :: 'a::len word))"
  using assms holds_at_be_bytes [OF w bs] by blast

lemma strict_unmarshaler_TPML [mu_codec]:
  assumes U: "strict_unmarshaler U wt valid wire" and zero: "wt zero"
  shows "strict_unmarshaler (TPML_UNMARSHAL N zero U) (wt_TPML N wt) (valid_TPML N valid) (wire_TPML wire)"
  unfolding strict_unmarshaler_iff
proof (intro allI impI)
  fix d :: "'a TPML" and bs off :: size_t and b :: buf
  assume wt: "wt_TPML N wt d" and bs: "unat bs \<le> length b"
  let ?c = "word_of (rev (seg b (unat off) 4)) :: UINT32"
  let ?call = "TPML_UNMARSHAL N zero U (Some b) bs (Some off) (Some d)"
  have c: "fits bs off 4 \<and> ?c = TPML_count x \<and> holds_at b bs (off + 4) (wire_list wire (take (unat ?c) (TPML_items x)))"
    if "holds_at b bs off (wire_TPML wire x)" for x
    using that holds_at_be_bytes [where ?'a = 32, OF _ bs, of off "TPML_count x"]
    by (auto simp: wire_TPML_def holds_at_append [OF bs])
  show "read_outcome (wt_TPML N wt) (valid_TPML N valid) (wire_TPML wire) b bs off ?call"
  proof (cases "fits bs off 4")
    case False
    then have "?call = Some (TSS2_MU_RC_INSUFFICIENT_BUFFER, Some off, Some d)"
      by (simp add: TPML_UNMARSHAL_def lacks_room_iff fits_def)
    moreover have "\<not> holds_at b bs off (wire_TPML wire x)" for x using False c by blast
    ultimately show ?thesis using wt by (auto intro: read_outcomeI)
  next
    case True
    then have room: "\<not> lacks_room bs off 4" by (simp add: lacks_room_iff fits_def)
    have rd: "Tss2_MU_UINT32_Unmarshal (Some b) bs (Some off) (Some 0) = Some (0, Some (off + 4), Some ?c)"
      using True BASE_UNMARSHAL_Some [where ?'a = 32, OF _ bs, of off 0] by (simp add: Tss2_MU_UINT32_Unmarshal_def)
    show ?thesis
    proof (cases "N < unat ?c")
      case True
      then have "?call = Some (TSS2_SYS_RC_MALFORMED_RESPONSE, Some off, Some d)"
        by (simp add: TPML_UNMARSHAL_def rd room)
      moreover have "\<not> (valid_TPML N valid x \<and> holds_at b bs off (wire_TPML wire x))" for x
        using True c [of x] by (auto simp: valid_TPML_def)
      ultimately show ?thesis using wt by (auto intro: read_outcomeI)
    next
      case False
      have "\<forall>e \<in> set (replicate N zero). wt e" "unat ?c \<le> length (replicate N zero)"
        using zero False by auto
      from unmarshal_loop_ok [OF U bs this, of "off + 4"] obtain ret off' ds where
        l: "unmarshal_loop U (unat ?c) (Some b) bs (off + 4) (Some (replicate N zero)) = Some (ret, off', Some ds)"
          "length ds = N" "\<forall>e \<in> set ds. wt e"
          "ret = 0 \<longrightarrow> (\<forall>e \<in> set (take (unat ?c) ds). valid e) \<and>
             holds_at b bs (off + 4) (wire_list wire (take (unat ?c) ds)) \<and>
             off' = off + 4 + of_nat (length (wire_list wire (take (unat ?c) ds)))"
          "\<And>xs. length xs = unat ?c \<Longrightarrow> \<forall>x \<in> set xs. valid x \<Longrightarrow> holds_at b bs (off + 4) (wire_list wire xs) \<Longrightarrow>
             ret = 0 \<and> wire_list wire (take (unat ?c) ds) = wire_list wire xs"
        by auto
      let ?d = "\<lparr>TPML_count = ?c, TPML_items = ds\<rparr>"
      have call: "?call = Some (ret, Some (if ret = 0 then off' else off), Some ?d)"
        using False by (simp add: TPML_UNMARSHAL_def rd room l(1))
      have h4: "holds_at b bs off (be_bytes ?c)"
        using word_of_rev_seg [where ?'a = 32, OF _ bs] \<open>fits bs off 4\<close> by simp
      show ?thesis
        unfolding call
      proof (rule read_outcomeI)
        show "wt_TPML N wt ?d" using l(2,3) by (simp add: wt_TPML_def)
        show "(if ret = 0 then off' else off) = off" if "ret \<noteq> 0" using that by simp
        show "valid_TPML N valid ?d \<and> holds_at b bs off (wire_TPML wire ?d) \<and>
              (if ret = 0 then off' else off) = off + of_nat (length (wire_TPML wire ?d))" if "ret = 0"
          using that l(2,4) False h4
          by (simp add: valid_TPML_def wire_TPML_def holds_at_append [OF bs] add.assoc)
        show "ret = 0 \<and> wire_TPML wire ?d = wire_TPML wire x"
          if "valid_TPML N valid x" "holds_at b bs off (wire_TPML wire x)" for x
          using that c [OF that(2)] l(5) [of "take (unat ?c) (TPML_items x)"] False
          by (auto simp: valid_TPML_def wire_TPML_def)
      qed
    qed
  qed
qed

section \<open>PCR selections\<close>

text \<open>
  The three \<open>TPMS_PCR\<close> types have a bitmap \<open>pcrSelect\<close> of \<open>sizeofSelect\<close> bytes after an optional
  first field; \<open>first\<close> is the macro argument \<open>firstFieldMarshal\<close>.
\<close>

definition TPMS_PCR_MARSHAL :: "('r \<Rightarrow> UINT8) \<Rightarrow> ('r \<Rightarrow> BYTE list) \<Rightarrow> 'r mfun list \<Rightarrow> nat \<Rightarrow> 'r option mfun" where
  "TPMS_PCR_MARSHAL sizeofSelect pcrSelect first tab_size src buffer buffer_size offset =
     (case src of
        None \<Rightarrow> Some (TSS2_MU_RC_BAD_REFERENCE, buffer, offset)
      | Some s \<Rightarrow>
          if offset = None \<and> buffer = None then Some (TSS2_MU_RC_BAD_REFERENCE, buffer, offset)
          else if tab_size < unat (sizeofSelect s) then Some (TSS2_SYS_RC_BAD_VALUE, buffer, offset)
          else
            (case mseq (first @ [VAL sizeofSelect Tss2_MU_UINT8_Marshal]) s buffer buffer_size (local_of offset) of
               None \<Rightarrow> None
             | Some (ret, buffer', local_offset) \<Rightarrow>
                 if ret \<noteq> 0 then Some (ret, buffer', offset)
                 else
                   (case marshal_loop Tss2_MU_BYTE_Marshal (unat (sizeofSelect s)) (pcrSelect s)
                           buffer' buffer_size local_offset of
                      None \<Rightarrow> None
                    | Some (ret, buffer'', local_offset') \<Rightarrow>
                        Some (ret, buffer'',
                              if ret = 0 then map_option (\<lambda>_. local_offset') offset else offset))))"

definition TPMS_PCR_UNMARSHAL ::
  "'r \<Rightarrow> ('r \<Rightarrow> UINT8) \<Rightarrow> ((UINT8 \<Rightarrow> UINT8) \<Rightarrow> 'r \<Rightarrow> 'r) \<Rightarrow> ('r \<Rightarrow> BYTE list) \<Rightarrow>
   ((BYTE list \<Rightarrow> BYTE list) \<Rightarrow> 'r \<Rightarrow> 'r) \<Rightarrow> 'r ustep list \<Rightarrow> nat \<Rightarrow> 'r ufun" where
  "TPMS_PCR_UNMARSHAL zero sizeofSelect sizeofSelect_update pcrSelect pcrSelect_update first tab_size
      buffer buffer_size offset dest =
     (if offset = None \<and> dest = None then Some (TSS2_MU_RC_BAD_REFERENCE, offset, dest)
      else
        (case useq (first @ [FLD_TMP sizeofSelect sizeofSelect_update Tss2_MU_UINT8_Unmarshal])
                buffer buffer_size (local_of offset) (dest \<noteq> None) zero of
           None \<Rightarrow> None
         | Some (ret, local_offset, r) \<Rightarrow>
             if ret \<noteq> 0 then Some (ret, offset, map_option (\<lambda>_. r) dest)
             else if tab_size < unat (sizeofSelect r)
             then Some (TSS2_SYS_RC_MALFORMED_RESPONSE, offset, map_option (\<lambda>_. r) dest)
             else
               (case unmarshal_loop Tss2_MU_UINT8_Unmarshal (unat (sizeofSelect r)) buffer buffer_size
                       local_offset (map_option (\<lambda>_. pcrSelect r) dest) of
                  None \<Rightarrow> None
                | Some (ret, local_offset', bytes) \<Rightarrow>
                    Some (ret, if ret = 0 then map_option (\<lambda>_. local_offset') offset else offset,
                          map_option (\<lambda>xs. pcrSelect_update (\<lambda>_. xs) r) bytes))))"

lemma be_bytes_byte [simp]: "be_bytes (b :: BYTE) = [b]"
  by (simp add: be_bytes_def bytes_of_def)

lemma wire_list_bytes [simp]: "wire_list be_bytes (xs :: BYTE list) = xs"
  by (induction xs) simp_all

lemma mseq_append: "mseq (xs @ ys) s b bs off =
  (case mseq xs s b bs off of
     None \<Rightarrow> None
   | Some (ret, b', off') \<Rightarrow> if ret \<noteq> 0 then Some (ret, b', off') else mseq ys s b' bs off')"
  by (induction xs arbitrary: b off) (auto split: option.splits)

lemma marshaler_PCR:
  assumes head: "marshaler (\<lambda>s. struct_marshal 0 (first @ [VAL sz Tss2_MU_UINT8_Marshal]) (Some s))
      src1 valid1 wire1 lim1"
  shows "marshaler (\<lambda>s. TPMS_PCR_MARSHAL sz ps first N (Some s))
     (\<lambda>s. src1 s \<and> length (ps s) = N) (\<lambda>s. valid1 s \<and> length (ps s) = N \<and> unat (sz s) \<le> N)
     (\<lambda>s. wire1 s @ take (unat (sz s)) (ps s)) (lim1 + N)"
    (is "marshaler ?F ?src ?valid ?wire _")
proof
  fix s and b :: buf and bs off :: size_t
  let ?xs = "take (unat (sz s)) (ps s)"
  let ?head = "\<lambda>_ :: unit. struct_marshal 0 (first @ [VAL sz Tss2_MU_UINT8_Marshal]) (Some s)"
  let ?G = "\<lambda>u. struct_marshal 0 (?head # map (\<lambda>x _. Tss2_MU_BYTE_Marshal x) ?xs) (Some u)"
  have "marshaler ?head (\<lambda>_. src1 s) (\<lambda>_. valid1 s) (\<lambda>_. wire1 s) lim1"
    using head unfolding marshaler_def by blast
  from marshaler_Cons [OF this marshaler_elements [OF mu_BYTE.marshaler_axioms, of 0 ?xs]]
  have M: "marshaler ?G (\<lambda>_. src1 s) (\<lambda>_. valid1 s) (\<lambda>_. ?wire s) (lim1 + length ?xs)" by simp
  have F: "?F s (Some b) bs (Some off) =
      (if N < unat (sz s) then Some (TSS2_SYS_RC_BAD_VALUE, Some b, Some off) else ?G () (Some b) bs (Some off))"
    if "length (ps s) = N"
    using that by (auto simp: TPMS_PCR_MARSHAL_def struct_marshal_def marshal_loop_mseq split: option.splits)
  show "?src s" if "?valid s" using that marshaler.valid_src [OF head] by simp
  show "length (?wire s) \<le> lim1 + N" if "?valid s"
    using that marshaler.wire_le [OF M] by (auto intro: le_trans)
  assume bs: "unat bs \<le> length b"
  show "?F s (Some b) bs (Some off) = Some (0, Some (patch b (unat off) (?wire s)), Some (off + of_nat (length (?wire s))))"
    if "?valid s" "fits bs off (length (?wire s))"
    using that marshaler.marshal_fit [OF M _ bs that(2), of "()"] F by simp
  show "\<exists>b'. ?F s (Some b) bs (Some off) = Some (TSS2_MU_RC_INSUFFICIENT_BUFFER, Some b', Some off)"
    if "?valid s" "\<not> fits bs off (length (?wire s))"
    using that marshaler.marshal_short [OF M _ bs that(2), of "()"] F by simp
  show "\<exists>rc b' off'. ?F s (Some b) bs (Some off) = Some (rc, Some b', Some off') \<and> untouched b b' off bs \<and>
          (rc \<noteq> 0 \<longrightarrow> off' = off) \<and> (rc = 0 \<longrightarrow> ?valid s \<and> fits bs off (length (?wire s)))" if "?src s"
    using that marshaler.marshal_total [OF M _ bs, of "()" off] F by auto
qed

lemma strict_unmarshaler_PCR:
  assumes head: "useq_ok (\<lambda>_. 0) (first @ [FLD_TMP sz sz_upd Tss2_MU_UINT8_Unmarshal]) wt1 valid1 wire1"
    and keep: "keeps (first @ [FLD_TMP sz sz_upd Tss2_MU_UINT8_Unmarshal]) ps"
    and wire1: "\<And>r x. wire1 r = wire1 x \<Longrightarrow> sz r = sz x"
    and upd: "\<And>f r. wt1 (ps_upd f r) = wt1 r" "\<And>f r. valid1 (ps_upd f r) = valid1 r"
      "\<And>f r. wire1 (ps_upd f r) = wire1 r" "\<And>f r. sz (ps_upd f r) = sz r" "\<And>f r. ps (ps_upd f r) = f (ps r)"
    and zero: "wt1 zero" "length (ps zero) = N"
  shows "strict_unmarshaler (TPMS_PCR_UNMARSHAL zero sz sz_upd ps ps_upd first N)
     (\<lambda>r. wt1 r \<and> length (ps r) = N) (\<lambda>r. valid1 r \<and> length (ps r) = N \<and> unat (sz r) \<le> N)
     (\<lambda>r. wire1 r @ take (unat (sz r)) (ps r))" (is "strict_unmarshaler ?U ?wt ?valid ?wire")
  unfolding strict_unmarshaler_iff
proof (intro allI impI)
  fix d and bs off :: size_t and b :: buf
  assume bs: "unat bs \<le> length b"
  let ?call = "?U (Some b) bs (Some off) (Some d)"
  from head bs zero(1) show "read_outcome ?wt ?valid ?wire b bs off ?call"
  proof (rule useq_okE [where off = off])
    fix ret off1 r
    assume h: "useq (first @ [FLD_TMP sz sz_upd Tss2_MU_UINT8_Unmarshal]) (Some b) bs off True zero = Some (ret, off1, r)"
      and wt1: "wt1 r"
      and sound: "ret = 0 \<Longrightarrow> valid1 r \<and> holds_at b bs off (wire1 r) \<and> off1 = off + of_nat (length (wire1 r))"
      and comp: "\<And>x. valid1 x \<Longrightarrow> 0 = 0 \<Longrightarrow> holds_at b bs off (wire1 x) \<Longrightarrow> ret = 0 \<and> wire1 r = wire1 x"
    have ps: "length (ps r) = N" using useq_keeps [OF keep h] zero(2) by simp
    have x: "ret = 0 \<and> wire1 r = wire1 x \<and> sz r = sz x \<and> holds_at b bs off1 (take (unat (sz x)) (ps x))"
      if "?valid x" "holds_at b bs off (?wire x)" for x
      using comp [of x] sound that wire1 [of r x] by (auto simp: holds_at_append [OF bs])
    show ?thesis
    proof (cases "ret = 0 \<and> unat (sz r) \<le> N")
      case False
      then obtain rc where "?call = Some (rc, Some off, Some r)" "rc \<noteq> 0"
        using h by (cases "ret = 0") (auto simp: TPMS_PCR_UNMARSHAL_def)
      moreover have "\<not> (?valid x \<and> holds_at b bs off (?wire x))" for x using x [of x] False by auto
      ultimately show ?thesis using wt1 ps by (auto intro: read_outcomeI)
    next
      case True
      then have "unat (sz r) \<le> length (ps r)" using ps by simp
      from unmarshal_loop_ok [OF mu_UINT8.strict_unmarshaler_axioms bs _ this, of off1] obtain ret' off' ds where
        l: "unmarshal_loop Tss2_MU_UINT8_Unmarshal (unat (sz r)) (Some b) bs off1 (Some (ps r)) = Some (ret', off', Some ds)"
          "length ds = N"
          "ret' = 0 \<longrightarrow> holds_at b bs off1 (take (unat (sz r)) ds) \<and> off' = off1 + of_nat (length (take (unat (sz r)) ds))"
          "\<And>xs. length xs = unat (sz r) \<Longrightarrow> holds_at b bs off1 xs \<Longrightarrow> ret' = 0 \<and> take (unat (sz r)) ds = xs"
        using ps by auto
      have call: "?call = Some (ret', Some (if ret' = 0 then off' else off), Some (ps_upd (\<lambda>_. ds) r))"
        using True h l(1) by (simp add: TPMS_PCR_UNMARSHAL_def)
      show ?thesis
        unfolding call
      proof (rule read_outcomeI, unfold upd)
        show "wt1 r \<and> length ds = N" using wt1 l(2) by simp
        show "(if ret' = 0 then off' else off) = off" if "ret' \<noteq> 0" using that by simp
        show "(valid1 r \<and> length ds = N \<and> unat (sz r) \<le> N) \<and> holds_at b bs off (wire1 r @ take (unat (sz r)) ds) \<and>
            (if ret' = 0 then off' else off) = off + of_nat (length (wire1 r @ take (unat (sz r)) ds))" if "ret' = 0"
          using that True sound l(2,3) by (simp add: holds_at_append [OF bs] add.assoc)
        show "ret' = 0 \<and> wire1 r @ take (unat (sz r)) ds = ?wire x"
          if "?valid x" "holds_at b bs off (?wire x)" for x
          using x [OF that] that(1) l(4) [of "take (unat (sz x)) (ps x)"] by auto
      qed
    qed
  qed
qed

end
