(* ===== verification/TPM2_Types.thy ===== *)
theory TPM2_Types
  imports C_Layout MU_TPM2B MU_List
begin

text \<open>
  The structures and unions of \<open>tss2_tpm2_types.h\<close> that \<open>tss2-mu\<close> moves: a structure is a record
  whose fields carry the name of the structure, a union is a datatype with one constructor per
  member, a sized buffer is \<open>TPM2B\<close> and a counted list is \<open>TPML\<close>.  Beside each type are its all-zero
  value (what \<open>memset\<close> leaves) and the predicate that its arrays have their declared length.
\<close>

datatype TPMU_HA =
    TPMU_HA_sha "BYTE list"
  | TPMU_HA_sha1 "BYTE list"
  | TPMU_HA_sha256 "BYTE list"
  | TPMU_HA_sha384 "BYTE list"
  | TPMU_HA_sha512 "BYTE list"
  | TPMU_HA_sm3_256 "BYTE list"

definition zero_TPMU_HA :: TPMU_HA where
  "zero_TPMU_HA = TPMU_HA_sha (replicate 20 0)"

primrec wt_TPMU_HA :: "TPMU_HA \<Rightarrow> bool" where
    "wt_TPMU_HA (TPMU_HA_sha x) = (length x = 20)"
  | "wt_TPMU_HA (TPMU_HA_sha1 x) = (length x = 20)"
  | "wt_TPMU_HA (TPMU_HA_sha256 x) = (length x = 32)"
  | "wt_TPMU_HA (TPMU_HA_sha384 x) = (length x = 48)"
  | "wt_TPMU_HA (TPMU_HA_sha512 x) = (length x = 64)"
  | "wt_TPMU_HA (TPMU_HA_sm3_256 x) = (length x = 32)"

definition get_TPMU_HA_sha :: "TPMU_HA \<Rightarrow> (BYTE list) option" where
  "get_TPMU_HA_sha u = (case u of TPMU_HA_sha x \<Rightarrow> Some x | _ \<Rightarrow> None)"

definition get_TPMU_HA_sha1 :: "TPMU_HA \<Rightarrow> (BYTE list) option" where
  "get_TPMU_HA_sha1 u = (case u of TPMU_HA_sha1 x \<Rightarrow> Some x | _ \<Rightarrow> None)"

definition get_TPMU_HA_sha256 :: "TPMU_HA \<Rightarrow> (BYTE list) option" where
  "get_TPMU_HA_sha256 u = (case u of TPMU_HA_sha256 x \<Rightarrow> Some x | _ \<Rightarrow> None)"

definition get_TPMU_HA_sha384 :: "TPMU_HA \<Rightarrow> (BYTE list) option" where
  "get_TPMU_HA_sha384 u = (case u of TPMU_HA_sha384 x \<Rightarrow> Some x | _ \<Rightarrow> None)"

definition get_TPMU_HA_sha512 :: "TPMU_HA \<Rightarrow> (BYTE list) option" where
  "get_TPMU_HA_sha512 u = (case u of TPMU_HA_sha512 x \<Rightarrow> Some x | _ \<Rightarrow> None)"

definition get_TPMU_HA_sm3_256 :: "TPMU_HA \<Rightarrow> (BYTE list) option" where
  "get_TPMU_HA_sm3_256 u = (case u of TPMU_HA_sm3_256 x \<Rightarrow> Some x | _ \<Rightarrow> None)"

lemma get_TPMU_HA [simp]:
  "get_TPMU_HA_sha u = Some (x0) \<longleftrightarrow> u = TPMU_HA_sha x0"
  "get_TPMU_HA_sha1 u = Some (x1) \<longleftrightarrow> u = TPMU_HA_sha1 x1"
  "get_TPMU_HA_sha256 u = Some (x2) \<longleftrightarrow> u = TPMU_HA_sha256 x2"
  "get_TPMU_HA_sha384 u = Some (x3) \<longleftrightarrow> u = TPMU_HA_sha384 x3"
  "get_TPMU_HA_sha512 u = Some (x4) \<longleftrightarrow> u = TPMU_HA_sha512 x4"
  "get_TPMU_HA_sm3_256 u = Some (x5) \<longleftrightarrow> u = TPMU_HA_sm3_256 x5"
  by (cases u; simp add: get_TPMU_HA_sha_def get_TPMU_HA_sha1_def get_TPMU_HA_sha256_def get_TPMU_HA_sha384_def get_TPMU_HA_sha512_def get_TPMU_HA_sm3_256_def)+

lemma wt_zero_TPMU_HA [simp]: "wt_TPMU_HA zero_TPMU_HA"
  by (simp add: zero_TPMU_HA_def)

record TPMT_HA =
  TPMT_HA_hashAlg :: "UINT16"
  TPMT_HA_digest :: "TPMU_HA"

definition zero_TPMT_HA :: TPMT_HA where
  "zero_TPMT_HA = \<lparr>TPMT_HA_hashAlg = 0,
     TPMT_HA_digest = zero_TPMU_HA\<rparr>"

definition wt_TPMT_HA :: "TPMT_HA \<Rightarrow> bool" where
  "wt_TPMT_HA s \<longleftrightarrow> wt_TPMU_HA (TPMT_HA_digest s)"

lemma wt_zero_TPMT_HA [simp]: "wt_TPMT_HA zero_TPMT_HA"
  by (simp add: zero_TPMT_HA_def wt_TPMT_HA_def)

datatype TPMU_NAME =
    TPMU_NAME_digest "TPMT_HA"
  | TPMU_NAME_handle "UINT32"

definition zero_TPMU_NAME :: TPMU_NAME where
  "zero_TPMU_NAME = TPMU_NAME_digest zero_TPMT_HA"

primrec wt_TPMU_NAME :: "TPMU_NAME \<Rightarrow> bool" where
    "wt_TPMU_NAME (TPMU_NAME_digest x) = wt_TPMT_HA x"
  | "wt_TPMU_NAME (TPMU_NAME_handle x) = True"

definition get_TPMU_NAME_digest :: "TPMU_NAME \<Rightarrow> (TPMT_HA) option" where
  "get_TPMU_NAME_digest u = (case u of TPMU_NAME_digest x \<Rightarrow> Some x | _ \<Rightarrow> None)"

definition get_TPMU_NAME_handle :: "TPMU_NAME \<Rightarrow> (UINT32) option" where
  "get_TPMU_NAME_handle u = (case u of TPMU_NAME_handle x \<Rightarrow> Some x | _ \<Rightarrow> None)"

lemma get_TPMU_NAME [simp]:
  "get_TPMU_NAME_digest u = Some (x0) \<longleftrightarrow> u = TPMU_NAME_digest x0"
  "get_TPMU_NAME_handle u = Some (x1) \<longleftrightarrow> u = TPMU_NAME_handle x1"
  by (cases u; simp add: get_TPMU_NAME_digest_def get_TPMU_NAME_handle_def)+

lemma wt_zero_TPMU_NAME [simp]: "wt_TPMU_NAME zero_TPMU_NAME"
  by (simp add: zero_TPMU_NAME_def)

record TPMS_CLOCK_INFO =
  TPMS_CLOCK_INFO_clock :: "UINT64"
  TPMS_CLOCK_INFO_resetCount :: "UINT32"
  TPMS_CLOCK_INFO_restartCount :: "UINT32"
  TPMS_CLOCK_INFO_safe :: "UINT8"

definition zero_TPMS_CLOCK_INFO :: TPMS_CLOCK_INFO where
  "zero_TPMS_CLOCK_INFO = \<lparr>TPMS_CLOCK_INFO_clock = 0,
     TPMS_CLOCK_INFO_resetCount = 0,
     TPMS_CLOCK_INFO_restartCount = 0,
     TPMS_CLOCK_INFO_safe = 0\<rparr>"

definition wt_TPMS_CLOCK_INFO :: "TPMS_CLOCK_INFO \<Rightarrow> bool" where
  "wt_TPMS_CLOCK_INFO s \<longleftrightarrow> True"

lemma wt_zero_TPMS_CLOCK_INFO [simp]: "wt_TPMS_CLOCK_INFO zero_TPMS_CLOCK_INFO"
  by (simp add: zero_TPMS_CLOCK_INFO_def wt_TPMS_CLOCK_INFO_def)

record TPMS_CERTIFY_INFO =
  TPMS_CERTIFY_INFO_name :: "TPM2B"
  TPMS_CERTIFY_INFO_qualifiedName :: "TPM2B"

definition zero_TPMS_CERTIFY_INFO :: TPMS_CERTIFY_INFO where
  "zero_TPMS_CERTIFY_INFO = \<lparr>TPMS_CERTIFY_INFO_name = (zero_TPM2B 68),
     TPMS_CERTIFY_INFO_qualifiedName = (zero_TPM2B 68)\<rparr>"

definition wt_TPMS_CERTIFY_INFO :: "TPMS_CERTIFY_INFO \<Rightarrow> bool" where
  "wt_TPMS_CERTIFY_INFO s \<longleftrightarrow> (wt_TPM2B 68) (TPMS_CERTIFY_INFO_name s) \<and>
     (wt_TPM2B 68) (TPMS_CERTIFY_INFO_qualifiedName s)"

lemma wt_zero_TPMS_CERTIFY_INFO [simp]: "wt_TPMS_CERTIFY_INFO zero_TPMS_CERTIFY_INFO"
  by (simp add: zero_TPMS_CERTIFY_INFO_def wt_TPMS_CERTIFY_INFO_def)

record TPMS_CREATION_INFO =
  TPMS_CREATION_INFO_objectName :: "TPM2B"
  TPMS_CREATION_INFO_creationHash :: "TPM2B"

definition zero_TPMS_CREATION_INFO :: TPMS_CREATION_INFO where
  "zero_TPMS_CREATION_INFO = \<lparr>TPMS_CREATION_INFO_objectName = (zero_TPM2B 68),
     TPMS_CREATION_INFO_creationHash = (zero_TPM2B 64)\<rparr>"

definition wt_TPMS_CREATION_INFO :: "TPMS_CREATION_INFO \<Rightarrow> bool" where
  "wt_TPMS_CREATION_INFO s \<longleftrightarrow> (wt_TPM2B 68) (TPMS_CREATION_INFO_objectName s) \<and>
     (wt_TPM2B 64) (TPMS_CREATION_INFO_creationHash s)"

lemma wt_zero_TPMS_CREATION_INFO [simp]: "wt_TPMS_CREATION_INFO zero_TPMS_CREATION_INFO"
  by (simp add: zero_TPMS_CREATION_INFO_def wt_TPMS_CREATION_INFO_def)

record TPMS_PCR_SELECTION =
  TPMS_PCR_SELECTION_hash :: "UINT16"
  TPMS_PCR_SELECTION_sizeofSelect :: "UINT8"
  TPMS_PCR_SELECTION_pcrSelect :: "BYTE list"

definition zero_TPMS_PCR_SELECTION :: TPMS_PCR_SELECTION where
  "zero_TPMS_PCR_SELECTION = \<lparr>TPMS_PCR_SELECTION_hash = 0,
     TPMS_PCR_SELECTION_sizeofSelect = 0,
     TPMS_PCR_SELECTION_pcrSelect = (replicate 4 0)\<rparr>"

definition wt_TPMS_PCR_SELECTION :: "TPMS_PCR_SELECTION \<Rightarrow> bool" where
  "wt_TPMS_PCR_SELECTION s \<longleftrightarrow> length (TPMS_PCR_SELECTION_pcrSelect s) = 4"

lemma wt_zero_TPMS_PCR_SELECTION [simp]: "wt_TPMS_PCR_SELECTION zero_TPMS_PCR_SELECTION"
  by (simp add: zero_TPMS_PCR_SELECTION_def wt_TPMS_PCR_SELECTION_def)

type_synonym TPML_PCR_SELECTION = "TPMS_PCR_SELECTION TPML"

definition zero_TPML_PCR_SELECTION :: TPML_PCR_SELECTION where
  "zero_TPML_PCR_SELECTION = \<lparr>TPML_count = 0, TPML_items = replicate 16 zero_TPMS_PCR_SELECTION\<rparr>"

lemma wt_zero_TPML_PCR_SELECTION [simp]: "wt_TPML 16 wt_TPMS_PCR_SELECTION zero_TPML_PCR_SELECTION"
  by (simp add: wt_TPML_def zero_TPML_PCR_SELECTION_def)

record TPMS_QUOTE_INFO =
  TPMS_QUOTE_INFO_pcrSelect :: "TPML_PCR_SELECTION"
  TPMS_QUOTE_INFO_pcrDigest :: "TPM2B"

definition zero_TPMS_QUOTE_INFO :: TPMS_QUOTE_INFO where
  "zero_TPMS_QUOTE_INFO = \<lparr>TPMS_QUOTE_INFO_pcrSelect = zero_TPML_PCR_SELECTION,
     TPMS_QUOTE_INFO_pcrDigest = (zero_TPM2B 64)\<rparr>"

definition wt_TPMS_QUOTE_INFO :: "TPMS_QUOTE_INFO \<Rightarrow> bool" where
  "wt_TPMS_QUOTE_INFO s \<longleftrightarrow> (wt_TPML 16 wt_TPMS_PCR_SELECTION) (TPMS_QUOTE_INFO_pcrSelect s) \<and>
     (wt_TPM2B 64) (TPMS_QUOTE_INFO_pcrDigest s)"

lemma wt_zero_TPMS_QUOTE_INFO [simp]: "wt_TPMS_QUOTE_INFO zero_TPMS_QUOTE_INFO"
  by (simp add: zero_TPMS_QUOTE_INFO_def wt_TPMS_QUOTE_INFO_def)

record TPMS_COMMAND_AUDIT_INFO =
  TPMS_COMMAND_AUDIT_INFO_auditCounter :: "UINT64"
  TPMS_COMMAND_AUDIT_INFO_digestAlg :: "UINT16"
  TPMS_COMMAND_AUDIT_INFO_auditDigest :: "TPM2B"
  TPMS_COMMAND_AUDIT_INFO_commandDigest :: "TPM2B"

definition zero_TPMS_COMMAND_AUDIT_INFO :: TPMS_COMMAND_AUDIT_INFO where
  "zero_TPMS_COMMAND_AUDIT_INFO = \<lparr>TPMS_COMMAND_AUDIT_INFO_auditCounter = 0,
     TPMS_COMMAND_AUDIT_INFO_digestAlg = 0,
     TPMS_COMMAND_AUDIT_INFO_auditDigest = (zero_TPM2B 64),
     TPMS_COMMAND_AUDIT_INFO_commandDigest = (zero_TPM2B 64)\<rparr>"

definition wt_TPMS_COMMAND_AUDIT_INFO :: "TPMS_COMMAND_AUDIT_INFO \<Rightarrow> bool" where
  "wt_TPMS_COMMAND_AUDIT_INFO s \<longleftrightarrow> (wt_TPM2B 64) (TPMS_COMMAND_AUDIT_INFO_auditDigest s) \<and>
     (wt_TPM2B 64) (TPMS_COMMAND_AUDIT_INFO_commandDigest s)"

lemma wt_zero_TPMS_COMMAND_AUDIT_INFO [simp]: "wt_TPMS_COMMAND_AUDIT_INFO zero_TPMS_COMMAND_AUDIT_INFO"
  by (simp add: zero_TPMS_COMMAND_AUDIT_INFO_def wt_TPMS_COMMAND_AUDIT_INFO_def)

record TPMS_SESSION_AUDIT_INFO =
  TPMS_SESSION_AUDIT_INFO_exclusiveSession :: "UINT8"
  TPMS_SESSION_AUDIT_INFO_sessionDigest :: "TPM2B"

definition zero_TPMS_SESSION_AUDIT_INFO :: TPMS_SESSION_AUDIT_INFO where
  "zero_TPMS_SESSION_AUDIT_INFO = \<lparr>TPMS_SESSION_AUDIT_INFO_exclusiveSession = 0,
     TPMS_SESSION_AUDIT_INFO_sessionDigest = (zero_TPM2B 64)\<rparr>"

definition wt_TPMS_SESSION_AUDIT_INFO :: "TPMS_SESSION_AUDIT_INFO \<Rightarrow> bool" where
  "wt_TPMS_SESSION_AUDIT_INFO s \<longleftrightarrow> (wt_TPM2B 64) (TPMS_SESSION_AUDIT_INFO_sessionDigest s)"

lemma wt_zero_TPMS_SESSION_AUDIT_INFO [simp]: "wt_TPMS_SESSION_AUDIT_INFO zero_TPMS_SESSION_AUDIT_INFO"
  by (simp add: zero_TPMS_SESSION_AUDIT_INFO_def wt_TPMS_SESSION_AUDIT_INFO_def)

record TPMS_TIME_INFO =
  TPMS_TIME_INFO_time :: "UINT64"
  TPMS_TIME_INFO_clockInfo :: "TPMS_CLOCK_INFO"

definition zero_TPMS_TIME_INFO :: TPMS_TIME_INFO where
  "zero_TPMS_TIME_INFO = \<lparr>TPMS_TIME_INFO_time = 0,
     TPMS_TIME_INFO_clockInfo = zero_TPMS_CLOCK_INFO\<rparr>"

definition wt_TPMS_TIME_INFO :: "TPMS_TIME_INFO \<Rightarrow> bool" where
  "wt_TPMS_TIME_INFO s \<longleftrightarrow> wt_TPMS_CLOCK_INFO (TPMS_TIME_INFO_clockInfo s)"

lemma wt_zero_TPMS_TIME_INFO [simp]: "wt_TPMS_TIME_INFO zero_TPMS_TIME_INFO"
  by (simp add: zero_TPMS_TIME_INFO_def wt_TPMS_TIME_INFO_def)

record TPMS_TIME_ATTEST_INFO =
  TPMS_TIME_ATTEST_INFO_time :: "TPMS_TIME_INFO"
  TPMS_TIME_ATTEST_INFO_firmwareVersion :: "UINT64"

definition zero_TPMS_TIME_ATTEST_INFO :: TPMS_TIME_ATTEST_INFO where
  "zero_TPMS_TIME_ATTEST_INFO = \<lparr>TPMS_TIME_ATTEST_INFO_time = zero_TPMS_TIME_INFO,
     TPMS_TIME_ATTEST_INFO_firmwareVersion = 0\<rparr>"

definition wt_TPMS_TIME_ATTEST_INFO :: "TPMS_TIME_ATTEST_INFO \<Rightarrow> bool" where
  "wt_TPMS_TIME_ATTEST_INFO s \<longleftrightarrow> wt_TPMS_TIME_INFO (TPMS_TIME_ATTEST_INFO_time s)"

lemma wt_zero_TPMS_TIME_ATTEST_INFO [simp]: "wt_TPMS_TIME_ATTEST_INFO zero_TPMS_TIME_ATTEST_INFO"
  by (simp add: zero_TPMS_TIME_ATTEST_INFO_def wt_TPMS_TIME_ATTEST_INFO_def)

record TPMS_NV_CERTIFY_INFO =
  TPMS_NV_CERTIFY_INFO_indexName :: "TPM2B"
  TPMS_NV_CERTIFY_INFO_offset :: "UINT16"
  TPMS_NV_CERTIFY_INFO_nvContents :: "TPM2B"

definition zero_TPMS_NV_CERTIFY_INFO :: TPMS_NV_CERTIFY_INFO where
  "zero_TPMS_NV_CERTIFY_INFO = \<lparr>TPMS_NV_CERTIFY_INFO_indexName = (zero_TPM2B 68),
     TPMS_NV_CERTIFY_INFO_offset = 0,
     TPMS_NV_CERTIFY_INFO_nvContents = (zero_TPM2B 2048)\<rparr>"

definition wt_TPMS_NV_CERTIFY_INFO :: "TPMS_NV_CERTIFY_INFO \<Rightarrow> bool" where
  "wt_TPMS_NV_CERTIFY_INFO s \<longleftrightarrow> (wt_TPM2B 68) (TPMS_NV_CERTIFY_INFO_indexName s) \<and>
     (wt_TPM2B 2048) (TPMS_NV_CERTIFY_INFO_nvContents s)"

lemma wt_zero_TPMS_NV_CERTIFY_INFO [simp]: "wt_TPMS_NV_CERTIFY_INFO zero_TPMS_NV_CERTIFY_INFO"
  by (simp add: zero_TPMS_NV_CERTIFY_INFO_def wt_TPMS_NV_CERTIFY_INFO_def)

datatype TPMU_ATTEST =
    TPMU_ATTEST_certify "TPMS_CERTIFY_INFO"
  | TPMU_ATTEST_creation "TPMS_CREATION_INFO"
  | TPMU_ATTEST_quote "TPMS_QUOTE_INFO"
  | TPMU_ATTEST_commandAudit "TPMS_COMMAND_AUDIT_INFO"
  | TPMU_ATTEST_sessionAudit "TPMS_SESSION_AUDIT_INFO"
  | TPMU_ATTEST_time "TPMS_TIME_ATTEST_INFO"
  | TPMU_ATTEST_nv "TPMS_NV_CERTIFY_INFO"

definition zero_TPMU_ATTEST :: TPMU_ATTEST where
  "zero_TPMU_ATTEST = TPMU_ATTEST_certify zero_TPMS_CERTIFY_INFO"

primrec wt_TPMU_ATTEST :: "TPMU_ATTEST \<Rightarrow> bool" where
    "wt_TPMU_ATTEST (TPMU_ATTEST_certify x) = wt_TPMS_CERTIFY_INFO x"
  | "wt_TPMU_ATTEST (TPMU_ATTEST_creation x) = wt_TPMS_CREATION_INFO x"
  | "wt_TPMU_ATTEST (TPMU_ATTEST_quote x) = wt_TPMS_QUOTE_INFO x"
  | "wt_TPMU_ATTEST (TPMU_ATTEST_commandAudit x) = wt_TPMS_COMMAND_AUDIT_INFO x"
  | "wt_TPMU_ATTEST (TPMU_ATTEST_sessionAudit x) = wt_TPMS_SESSION_AUDIT_INFO x"
  | "wt_TPMU_ATTEST (TPMU_ATTEST_time x) = wt_TPMS_TIME_ATTEST_INFO x"
  | "wt_TPMU_ATTEST (TPMU_ATTEST_nv x) = wt_TPMS_NV_CERTIFY_INFO x"

definition get_TPMU_ATTEST_certify :: "TPMU_ATTEST \<Rightarrow> (TPMS_CERTIFY_INFO) option" where
  "get_TPMU_ATTEST_certify u = (case u of TPMU_ATTEST_certify x \<Rightarrow> Some x | _ \<Rightarrow> None)"

definition get_TPMU_ATTEST_creation :: "TPMU_ATTEST \<Rightarrow> (TPMS_CREATION_INFO) option" where
  "get_TPMU_ATTEST_creation u = (case u of TPMU_ATTEST_creation x \<Rightarrow> Some x | _ \<Rightarrow> None)"

definition get_TPMU_ATTEST_quote :: "TPMU_ATTEST \<Rightarrow> (TPMS_QUOTE_INFO) option" where
  "get_TPMU_ATTEST_quote u = (case u of TPMU_ATTEST_quote x \<Rightarrow> Some x | _ \<Rightarrow> None)"

definition get_TPMU_ATTEST_commandAudit :: "TPMU_ATTEST \<Rightarrow> (TPMS_COMMAND_AUDIT_INFO) option" where
  "get_TPMU_ATTEST_commandAudit u = (case u of TPMU_ATTEST_commandAudit x \<Rightarrow> Some x | _ \<Rightarrow> None)"

definition get_TPMU_ATTEST_sessionAudit :: "TPMU_ATTEST \<Rightarrow> (TPMS_SESSION_AUDIT_INFO) option" where
  "get_TPMU_ATTEST_sessionAudit u = (case u of TPMU_ATTEST_sessionAudit x \<Rightarrow> Some x | _ \<Rightarrow> None)"

definition get_TPMU_ATTEST_time :: "TPMU_ATTEST \<Rightarrow> (TPMS_TIME_ATTEST_INFO) option" where
  "get_TPMU_ATTEST_time u = (case u of TPMU_ATTEST_time x \<Rightarrow> Some x | _ \<Rightarrow> None)"

definition get_TPMU_ATTEST_nv :: "TPMU_ATTEST \<Rightarrow> (TPMS_NV_CERTIFY_INFO) option" where
  "get_TPMU_ATTEST_nv u = (case u of TPMU_ATTEST_nv x \<Rightarrow> Some x | _ \<Rightarrow> None)"

lemma get_TPMU_ATTEST [simp]:
  "get_TPMU_ATTEST_certify u = Some (x0) \<longleftrightarrow> u = TPMU_ATTEST_certify x0"
  "get_TPMU_ATTEST_creation u = Some (x1) \<longleftrightarrow> u = TPMU_ATTEST_creation x1"
  "get_TPMU_ATTEST_quote u = Some (x2) \<longleftrightarrow> u = TPMU_ATTEST_quote x2"
  "get_TPMU_ATTEST_commandAudit u = Some (x3) \<longleftrightarrow> u = TPMU_ATTEST_commandAudit x3"
  "get_TPMU_ATTEST_sessionAudit u = Some (x4) \<longleftrightarrow> u = TPMU_ATTEST_sessionAudit x4"
  "get_TPMU_ATTEST_time u = Some (x5) \<longleftrightarrow> u = TPMU_ATTEST_time x5"
  "get_TPMU_ATTEST_nv u = Some (x6) \<longleftrightarrow> u = TPMU_ATTEST_nv x6"
  by (cases u; simp add: get_TPMU_ATTEST_certify_def get_TPMU_ATTEST_creation_def get_TPMU_ATTEST_quote_def get_TPMU_ATTEST_commandAudit_def get_TPMU_ATTEST_sessionAudit_def get_TPMU_ATTEST_time_def get_TPMU_ATTEST_nv_def)+

lemma wt_zero_TPMU_ATTEST [simp]: "wt_TPMU_ATTEST zero_TPMU_ATTEST"
  by (simp add: zero_TPMU_ATTEST_def)

record TPMS_ATTEST =
  TPMS_ATTEST_magic :: "UINT32"
  TPMS_ATTEST_type :: "UINT16"
  TPMS_ATTEST_qualifiedSigner :: "TPM2B"
  TPMS_ATTEST_extraData :: "TPM2B"
  TPMS_ATTEST_clockInfo :: "TPMS_CLOCK_INFO"
  TPMS_ATTEST_firmwareVersion :: "UINT64"
  TPMS_ATTEST_attested :: "TPMU_ATTEST"

definition zero_TPMS_ATTEST :: TPMS_ATTEST where
  "zero_TPMS_ATTEST = \<lparr>TPMS_ATTEST_magic = 0,
     TPMS_ATTEST_type = 0,
     TPMS_ATTEST_qualifiedSigner = (zero_TPM2B 68),
     TPMS_ATTEST_extraData = (zero_TPM2B 64),
     TPMS_ATTEST_clockInfo = zero_TPMS_CLOCK_INFO,
     TPMS_ATTEST_firmwareVersion = 0,
     TPMS_ATTEST_attested = zero_TPMU_ATTEST\<rparr>"

definition wt_TPMS_ATTEST :: "TPMS_ATTEST \<Rightarrow> bool" where
  "wt_TPMS_ATTEST s \<longleftrightarrow> (wt_TPM2B 68) (TPMS_ATTEST_qualifiedSigner s) \<and>
     (wt_TPM2B 64) (TPMS_ATTEST_extraData s) \<and>
     wt_TPMS_CLOCK_INFO (TPMS_ATTEST_clockInfo s) \<and>
     wt_TPMU_ATTEST (TPMS_ATTEST_attested s)"

lemma wt_zero_TPMS_ATTEST [simp]: "wt_TPMS_ATTEST zero_TPMS_ATTEST"
  by (simp add: zero_TPMS_ATTEST_def wt_TPMS_ATTEST_def)

record TPMS_DERIVE =
  TPMS_DERIVE_label :: "TPM2B"
  TPMS_DERIVE_context :: "TPM2B"

definition zero_TPMS_DERIVE :: TPMS_DERIVE where
  "zero_TPMS_DERIVE = \<lparr>TPMS_DERIVE_label = (zero_TPM2B 32),
     TPMS_DERIVE_context = (zero_TPM2B 32)\<rparr>"

definition wt_TPMS_DERIVE :: "TPMS_DERIVE \<Rightarrow> bool" where
  "wt_TPMS_DERIVE s \<longleftrightarrow> (wt_TPM2B 32) (TPMS_DERIVE_label s) \<and>
     (wt_TPM2B 32) (TPMS_DERIVE_context s)"

lemma wt_zero_TPMS_DERIVE [simp]: "wt_TPMS_DERIVE zero_TPMS_DERIVE"
  by (simp add: zero_TPMS_DERIVE_def wt_TPMS_DERIVE_def)

record TPMS_ECC_POINT =
  TPMS_ECC_POINT_x :: "TPM2B"
  TPMS_ECC_POINT_y :: "TPM2B"

definition zero_TPMS_ECC_POINT :: TPMS_ECC_POINT where
  "zero_TPMS_ECC_POINT = \<lparr>TPMS_ECC_POINT_x = (zero_TPM2B 128),
     TPMS_ECC_POINT_y = (zero_TPM2B 128)\<rparr>"

definition wt_TPMS_ECC_POINT :: "TPMS_ECC_POINT \<Rightarrow> bool" where
  "wt_TPMS_ECC_POINT s \<longleftrightarrow> (wt_TPM2B 128) (TPMS_ECC_POINT_x s) \<and>
     (wt_TPM2B 128) (TPMS_ECC_POINT_y s)"

lemma wt_zero_TPMS_ECC_POINT [simp]: "wt_TPMS_ECC_POINT zero_TPMS_ECC_POINT"
  by (simp add: zero_TPMS_ECC_POINT_def wt_TPMS_ECC_POINT_def)

datatype TPMU_ENCRYPTED_SECRET =
    TPMU_ENCRYPTED_SECRET_ecc "BYTE list"
  | TPMU_ENCRYPTED_SECRET_rsa "BYTE list"
  | TPMU_ENCRYPTED_SECRET_symmetric "BYTE list"
  | TPMU_ENCRYPTED_SECRET_keyedHash "BYTE list"
  | TPMU_ENCRYPTED_SECRET_mlkem "BYTE list"

definition zero_TPMU_ENCRYPTED_SECRET :: TPMU_ENCRYPTED_SECRET where
  "zero_TPMU_ENCRYPTED_SECRET = TPMU_ENCRYPTED_SECRET_ecc (replicate 260 0)"

primrec wt_TPMU_ENCRYPTED_SECRET :: "TPMU_ENCRYPTED_SECRET \<Rightarrow> bool" where
    "wt_TPMU_ENCRYPTED_SECRET (TPMU_ENCRYPTED_SECRET_ecc x) = (length x = 260)"
  | "wt_TPMU_ENCRYPTED_SECRET (TPMU_ENCRYPTED_SECRET_rsa x) = (length x = 512)"
  | "wt_TPMU_ENCRYPTED_SECRET (TPMU_ENCRYPTED_SECRET_symmetric x) = (length x = 66)"
  | "wt_TPMU_ENCRYPTED_SECRET (TPMU_ENCRYPTED_SECRET_keyedHash x) = (length x = 66)"
  | "wt_TPMU_ENCRYPTED_SECRET (TPMU_ENCRYPTED_SECRET_mlkem x) = (length x = 1568)"

definition get_TPMU_ENCRYPTED_SECRET_ecc :: "TPMU_ENCRYPTED_SECRET \<Rightarrow> (BYTE list) option" where
  "get_TPMU_ENCRYPTED_SECRET_ecc u = (case u of TPMU_ENCRYPTED_SECRET_ecc x \<Rightarrow> Some x | _ \<Rightarrow> None)"

definition get_TPMU_ENCRYPTED_SECRET_rsa :: "TPMU_ENCRYPTED_SECRET \<Rightarrow> (BYTE list) option" where
  "get_TPMU_ENCRYPTED_SECRET_rsa u = (case u of TPMU_ENCRYPTED_SECRET_rsa x \<Rightarrow> Some x | _ \<Rightarrow> None)"

definition get_TPMU_ENCRYPTED_SECRET_symmetric :: "TPMU_ENCRYPTED_SECRET \<Rightarrow> (BYTE list) option" where
  "get_TPMU_ENCRYPTED_SECRET_symmetric u = (case u of TPMU_ENCRYPTED_SECRET_symmetric x \<Rightarrow> Some x | _ \<Rightarrow> None)"

definition get_TPMU_ENCRYPTED_SECRET_keyedHash :: "TPMU_ENCRYPTED_SECRET \<Rightarrow> (BYTE list) option" where
  "get_TPMU_ENCRYPTED_SECRET_keyedHash u = (case u of TPMU_ENCRYPTED_SECRET_keyedHash x \<Rightarrow> Some x | _ \<Rightarrow> None)"

definition get_TPMU_ENCRYPTED_SECRET_mlkem :: "TPMU_ENCRYPTED_SECRET \<Rightarrow> (BYTE list) option" where
  "get_TPMU_ENCRYPTED_SECRET_mlkem u = (case u of TPMU_ENCRYPTED_SECRET_mlkem x \<Rightarrow> Some x | _ \<Rightarrow> None)"

lemma get_TPMU_ENCRYPTED_SECRET [simp]:
  "get_TPMU_ENCRYPTED_SECRET_ecc u = Some (x0) \<longleftrightarrow> u = TPMU_ENCRYPTED_SECRET_ecc x0"
  "get_TPMU_ENCRYPTED_SECRET_rsa u = Some (x1) \<longleftrightarrow> u = TPMU_ENCRYPTED_SECRET_rsa x1"
  "get_TPMU_ENCRYPTED_SECRET_symmetric u = Some (x2) \<longleftrightarrow> u = TPMU_ENCRYPTED_SECRET_symmetric x2"
  "get_TPMU_ENCRYPTED_SECRET_keyedHash u = Some (x3) \<longleftrightarrow> u = TPMU_ENCRYPTED_SECRET_keyedHash x3"
  "get_TPMU_ENCRYPTED_SECRET_mlkem u = Some (x4) \<longleftrightarrow> u = TPMU_ENCRYPTED_SECRET_mlkem x4"
  by (cases u; simp add: get_TPMU_ENCRYPTED_SECRET_ecc_def get_TPMU_ENCRYPTED_SECRET_rsa_def get_TPMU_ENCRYPTED_SECRET_symmetric_def get_TPMU_ENCRYPTED_SECRET_keyedHash_def get_TPMU_ENCRYPTED_SECRET_mlkem_def)+

lemma wt_zero_TPMU_ENCRYPTED_SECRET [simp]: "wt_TPMU_ENCRYPTED_SECRET zero_TPMU_ENCRYPTED_SECRET"
  by (simp add: zero_TPMU_ENCRYPTED_SECRET_def)

datatype TPMU_SENSITIVE_COMPOSITE =
    TPMU_SENSITIVE_COMPOSITE_rsa "TPM2B"
  | TPMU_SENSITIVE_COMPOSITE_ecc "TPM2B"
  | TPMU_SENSITIVE_COMPOSITE_bits "TPM2B"
  | TPMU_SENSITIVE_COMPOSITE_sym "TPM2B"
  | TPMU_SENSITIVE_COMPOSITE_any "TPM2B"
  | TPMU_SENSITIVE_COMPOSITE_mlkem "TPM2B"
  | TPMU_SENSITIVE_COMPOSITE_mldsa "TPM2B"

definition zero_TPMU_SENSITIVE_COMPOSITE :: TPMU_SENSITIVE_COMPOSITE where
  "zero_TPMU_SENSITIVE_COMPOSITE = TPMU_SENSITIVE_COMPOSITE_rsa (zero_TPM2B 1280)"

primrec wt_TPMU_SENSITIVE_COMPOSITE :: "TPMU_SENSITIVE_COMPOSITE \<Rightarrow> bool" where
    "wt_TPMU_SENSITIVE_COMPOSITE (TPMU_SENSITIVE_COMPOSITE_rsa x) = (wt_TPM2B 1280) x"
  | "wt_TPMU_SENSITIVE_COMPOSITE (TPMU_SENSITIVE_COMPOSITE_ecc x) = (wt_TPM2B 128) x"
  | "wt_TPMU_SENSITIVE_COMPOSITE (TPMU_SENSITIVE_COMPOSITE_bits x) = (wt_TPM2B 256) x"
  | "wt_TPMU_SENSITIVE_COMPOSITE (TPMU_SENSITIVE_COMPOSITE_sym x) = (wt_TPM2B 32) x"
  | "wt_TPMU_SENSITIVE_COMPOSITE (TPMU_SENSITIVE_COMPOSITE_any x) = (wt_TPM2B 1280) x"
  | "wt_TPMU_SENSITIVE_COMPOSITE (TPMU_SENSITIVE_COMPOSITE_mlkem x) = (wt_TPM2B 64) x"
  | "wt_TPMU_SENSITIVE_COMPOSITE (TPMU_SENSITIVE_COMPOSITE_mldsa x) = (wt_TPM2B 32) x"

definition get_TPMU_SENSITIVE_COMPOSITE_rsa :: "TPMU_SENSITIVE_COMPOSITE \<Rightarrow> (TPM2B) option" where
  "get_TPMU_SENSITIVE_COMPOSITE_rsa u = (case u of TPMU_SENSITIVE_COMPOSITE_rsa x \<Rightarrow> Some x | _ \<Rightarrow> None)"

definition get_TPMU_SENSITIVE_COMPOSITE_ecc :: "TPMU_SENSITIVE_COMPOSITE \<Rightarrow> (TPM2B) option" where
  "get_TPMU_SENSITIVE_COMPOSITE_ecc u = (case u of TPMU_SENSITIVE_COMPOSITE_ecc x \<Rightarrow> Some x | _ \<Rightarrow> None)"

definition get_TPMU_SENSITIVE_COMPOSITE_bits :: "TPMU_SENSITIVE_COMPOSITE \<Rightarrow> (TPM2B) option" where
  "get_TPMU_SENSITIVE_COMPOSITE_bits u = (case u of TPMU_SENSITIVE_COMPOSITE_bits x \<Rightarrow> Some x | _ \<Rightarrow> None)"

definition get_TPMU_SENSITIVE_COMPOSITE_sym :: "TPMU_SENSITIVE_COMPOSITE \<Rightarrow> (TPM2B) option" where
  "get_TPMU_SENSITIVE_COMPOSITE_sym u = (case u of TPMU_SENSITIVE_COMPOSITE_sym x \<Rightarrow> Some x | _ \<Rightarrow> None)"

definition get_TPMU_SENSITIVE_COMPOSITE_any :: "TPMU_SENSITIVE_COMPOSITE \<Rightarrow> (TPM2B) option" where
  "get_TPMU_SENSITIVE_COMPOSITE_any u = (case u of TPMU_SENSITIVE_COMPOSITE_any x \<Rightarrow> Some x | _ \<Rightarrow> None)"

definition get_TPMU_SENSITIVE_COMPOSITE_mlkem :: "TPMU_SENSITIVE_COMPOSITE \<Rightarrow> (TPM2B) option" where
  "get_TPMU_SENSITIVE_COMPOSITE_mlkem u = (case u of TPMU_SENSITIVE_COMPOSITE_mlkem x \<Rightarrow> Some x | _ \<Rightarrow> None)"

definition get_TPMU_SENSITIVE_COMPOSITE_mldsa :: "TPMU_SENSITIVE_COMPOSITE \<Rightarrow> (TPM2B) option" where
  "get_TPMU_SENSITIVE_COMPOSITE_mldsa u = (case u of TPMU_SENSITIVE_COMPOSITE_mldsa x \<Rightarrow> Some x | _ \<Rightarrow> None)"

lemma get_TPMU_SENSITIVE_COMPOSITE [simp]:
  "get_TPMU_SENSITIVE_COMPOSITE_rsa u = Some (x0) \<longleftrightarrow> u = TPMU_SENSITIVE_COMPOSITE_rsa x0"
  "get_TPMU_SENSITIVE_COMPOSITE_ecc u = Some (x1) \<longleftrightarrow> u = TPMU_SENSITIVE_COMPOSITE_ecc x1"
  "get_TPMU_SENSITIVE_COMPOSITE_bits u = Some (x2) \<longleftrightarrow> u = TPMU_SENSITIVE_COMPOSITE_bits x2"
  "get_TPMU_SENSITIVE_COMPOSITE_sym u = Some (x3) \<longleftrightarrow> u = TPMU_SENSITIVE_COMPOSITE_sym x3"
  "get_TPMU_SENSITIVE_COMPOSITE_any u = Some (x4) \<longleftrightarrow> u = TPMU_SENSITIVE_COMPOSITE_any x4"
  "get_TPMU_SENSITIVE_COMPOSITE_mlkem u = Some (x5) \<longleftrightarrow> u = TPMU_SENSITIVE_COMPOSITE_mlkem x5"
  "get_TPMU_SENSITIVE_COMPOSITE_mldsa u = Some (x6) \<longleftrightarrow> u = TPMU_SENSITIVE_COMPOSITE_mldsa x6"
  by (cases u; simp add: get_TPMU_SENSITIVE_COMPOSITE_rsa_def get_TPMU_SENSITIVE_COMPOSITE_ecc_def get_TPMU_SENSITIVE_COMPOSITE_bits_def get_TPMU_SENSITIVE_COMPOSITE_sym_def get_TPMU_SENSITIVE_COMPOSITE_any_def get_TPMU_SENSITIVE_COMPOSITE_mlkem_def get_TPMU_SENSITIVE_COMPOSITE_mldsa_def)+

lemma wt_zero_TPMU_SENSITIVE_COMPOSITE [simp]: "wt_TPMU_SENSITIVE_COMPOSITE zero_TPMU_SENSITIVE_COMPOSITE"
  by (simp add: zero_TPMU_SENSITIVE_COMPOSITE_def)

record TPMT_SENSITIVE =
  TPMT_SENSITIVE_sensitiveType :: "UINT16"
  TPMT_SENSITIVE_authValue :: "TPM2B"
  TPMT_SENSITIVE_seedValue :: "TPM2B"
  TPMT_SENSITIVE_sensitive :: "TPMU_SENSITIVE_COMPOSITE"

definition zero_TPMT_SENSITIVE :: TPMT_SENSITIVE where
  "zero_TPMT_SENSITIVE = \<lparr>TPMT_SENSITIVE_sensitiveType = 0,
     TPMT_SENSITIVE_authValue = (zero_TPM2B 64),
     TPMT_SENSITIVE_seedValue = (zero_TPM2B 64),
     TPMT_SENSITIVE_sensitive = zero_TPMU_SENSITIVE_COMPOSITE\<rparr>"

definition wt_TPMT_SENSITIVE :: "TPMT_SENSITIVE \<Rightarrow> bool" where
  "wt_TPMT_SENSITIVE s \<longleftrightarrow> (wt_TPM2B 64) (TPMT_SENSITIVE_authValue s) \<and>
     (wt_TPM2B 64) (TPMT_SENSITIVE_seedValue s) \<and>
     wt_TPMU_SENSITIVE_COMPOSITE (TPMT_SENSITIVE_sensitive s)"

lemma wt_zero_TPMT_SENSITIVE [simp]: "wt_TPMT_SENSITIVE zero_TPMT_SENSITIVE"
  by (simp add: zero_TPMT_SENSITIVE_def wt_TPMT_SENSITIVE_def)

type_synonym TPM2B_SENSITIVE = "TPMT_SENSITIVE TPM2B_SUBTYPE"

record TPMS_ID_OBJECT =
  TPMS_ID_OBJECT_integrityHMAC :: "TPM2B"
  TPMS_ID_OBJECT_encIdentity :: "TPM2B"

definition zero_TPMS_ID_OBJECT :: TPMS_ID_OBJECT where
  "zero_TPMS_ID_OBJECT = \<lparr>TPMS_ID_OBJECT_integrityHMAC = (zero_TPM2B 64),
     TPMS_ID_OBJECT_encIdentity = (zero_TPM2B 64)\<rparr>"

definition wt_TPMS_ID_OBJECT :: "TPMS_ID_OBJECT \<Rightarrow> bool" where
  "wt_TPMS_ID_OBJECT s \<longleftrightarrow> (wt_TPM2B 64) (TPMS_ID_OBJECT_integrityHMAC s) \<and>
     (wt_TPM2B 64) (TPMS_ID_OBJECT_encIdentity s)"

lemma wt_zero_TPMS_ID_OBJECT [simp]: "wt_TPMS_ID_OBJECT zero_TPMS_ID_OBJECT"
  by (simp add: zero_TPMS_ID_OBJECT_def wt_TPMS_ID_OBJECT_def)

record TPMS_CONTEXT_DATA =
  TPMS_CONTEXT_DATA_integrity :: "TPM2B"
  TPMS_CONTEXT_DATA_encrypted :: "TPM2B"

definition zero_TPMS_CONTEXT_DATA :: TPMS_CONTEXT_DATA where
  "zero_TPMS_CONTEXT_DATA = \<lparr>TPMS_CONTEXT_DATA_integrity = (zero_TPM2B 64),
     TPMS_CONTEXT_DATA_encrypted = (zero_TPM2B 5120)\<rparr>"

definition wt_TPMS_CONTEXT_DATA :: "TPMS_CONTEXT_DATA \<Rightarrow> bool" where
  "wt_TPMS_CONTEXT_DATA s \<longleftrightarrow> (wt_TPM2B 64) (TPMS_CONTEXT_DATA_integrity s) \<and>
     (wt_TPM2B 5120) (TPMS_CONTEXT_DATA_encrypted s)"

lemma wt_zero_TPMS_CONTEXT_DATA [simp]: "wt_TPMS_CONTEXT_DATA zero_TPMS_CONTEXT_DATA"
  by (simp add: zero_TPMS_CONTEXT_DATA_def wt_TPMS_CONTEXT_DATA_def)

record TPMS_SCHEME_HASH =
  TPMS_SCHEME_HASH_hashAlg :: "UINT16"

definition zero_TPMS_SCHEME_HASH :: TPMS_SCHEME_HASH where
  "zero_TPMS_SCHEME_HASH = \<lparr>TPMS_SCHEME_HASH_hashAlg = 0\<rparr>"

definition wt_TPMS_SCHEME_HASH :: "TPMS_SCHEME_HASH \<Rightarrow> bool" where
  "wt_TPMS_SCHEME_HASH s \<longleftrightarrow> True"

lemma wt_zero_TPMS_SCHEME_HASH [simp]: "wt_TPMS_SCHEME_HASH zero_TPMS_SCHEME_HASH"
  by (simp add: zero_TPMS_SCHEME_HASH_def wt_TPMS_SCHEME_HASH_def)

record TPMS_SCHEME_XOR =
  TPMS_SCHEME_XOR_hashAlg :: "UINT16"
  TPMS_SCHEME_XOR_kdf :: "UINT16"

definition zero_TPMS_SCHEME_XOR :: TPMS_SCHEME_XOR where
  "zero_TPMS_SCHEME_XOR = \<lparr>TPMS_SCHEME_XOR_hashAlg = 0,
     TPMS_SCHEME_XOR_kdf = 0\<rparr>"

definition wt_TPMS_SCHEME_XOR :: "TPMS_SCHEME_XOR \<Rightarrow> bool" where
  "wt_TPMS_SCHEME_XOR s \<longleftrightarrow> True"

lemma wt_zero_TPMS_SCHEME_XOR [simp]: "wt_TPMS_SCHEME_XOR zero_TPMS_SCHEME_XOR"
  by (simp add: zero_TPMS_SCHEME_XOR_def wt_TPMS_SCHEME_XOR_def)

record TPMS_EMPTY =
  TPMS_EMPTY_empty :: "BYTE list"

definition zero_TPMS_EMPTY :: TPMS_EMPTY where
  "zero_TPMS_EMPTY = \<lparr>TPMS_EMPTY_empty = (replicate 1 0)\<rparr>"

definition wt_TPMS_EMPTY :: "TPMS_EMPTY \<Rightarrow> bool" where
  "wt_TPMS_EMPTY s \<longleftrightarrow> length (TPMS_EMPTY_empty s) = 1"

lemma wt_zero_TPMS_EMPTY [simp]: "wt_TPMS_EMPTY zero_TPMS_EMPTY"
  by (simp add: zero_TPMS_EMPTY_def wt_TPMS_EMPTY_def)

datatype TPMU_SCHEME_KEYEDHASH =
    TPMU_SCHEME_KEYEDHASH_hmac "TPMS_SCHEME_HASH"
  | TPMU_SCHEME_KEYEDHASH_exclusiveOr "TPMS_SCHEME_XOR"
  | TPMU_SCHEME_KEYEDHASH_null "TPMS_EMPTY"

definition zero_TPMU_SCHEME_KEYEDHASH :: TPMU_SCHEME_KEYEDHASH where
  "zero_TPMU_SCHEME_KEYEDHASH = TPMU_SCHEME_KEYEDHASH_hmac zero_TPMS_SCHEME_HASH"

primrec wt_TPMU_SCHEME_KEYEDHASH :: "TPMU_SCHEME_KEYEDHASH \<Rightarrow> bool" where
    "wt_TPMU_SCHEME_KEYEDHASH (TPMU_SCHEME_KEYEDHASH_hmac x) = wt_TPMS_SCHEME_HASH x"
  | "wt_TPMU_SCHEME_KEYEDHASH (TPMU_SCHEME_KEYEDHASH_exclusiveOr x) = wt_TPMS_SCHEME_XOR x"
  | "wt_TPMU_SCHEME_KEYEDHASH (TPMU_SCHEME_KEYEDHASH_null x) = wt_TPMS_EMPTY x"

definition get_TPMU_SCHEME_KEYEDHASH_hmac :: "TPMU_SCHEME_KEYEDHASH \<Rightarrow> (TPMS_SCHEME_HASH) option" where
  "get_TPMU_SCHEME_KEYEDHASH_hmac u = (case u of TPMU_SCHEME_KEYEDHASH_hmac x \<Rightarrow> Some x | _ \<Rightarrow> None)"

definition get_TPMU_SCHEME_KEYEDHASH_exclusiveOr :: "TPMU_SCHEME_KEYEDHASH \<Rightarrow> (TPMS_SCHEME_XOR) option" where
  "get_TPMU_SCHEME_KEYEDHASH_exclusiveOr u = (case u of TPMU_SCHEME_KEYEDHASH_exclusiveOr x \<Rightarrow> Some x | _ \<Rightarrow> None)"

definition get_TPMU_SCHEME_KEYEDHASH_null :: "TPMU_SCHEME_KEYEDHASH \<Rightarrow> (TPMS_EMPTY) option" where
  "get_TPMU_SCHEME_KEYEDHASH_null u = (case u of TPMU_SCHEME_KEYEDHASH_null x \<Rightarrow> Some x | _ \<Rightarrow> None)"

lemma get_TPMU_SCHEME_KEYEDHASH [simp]:
  "get_TPMU_SCHEME_KEYEDHASH_hmac u = Some (x0) \<longleftrightarrow> u = TPMU_SCHEME_KEYEDHASH_hmac x0"
  "get_TPMU_SCHEME_KEYEDHASH_exclusiveOr u = Some (x1) \<longleftrightarrow> u = TPMU_SCHEME_KEYEDHASH_exclusiveOr x1"
  "get_TPMU_SCHEME_KEYEDHASH_null u = Some (x2) \<longleftrightarrow> u = TPMU_SCHEME_KEYEDHASH_null x2"
  by (cases u; simp add: get_TPMU_SCHEME_KEYEDHASH_hmac_def get_TPMU_SCHEME_KEYEDHASH_exclusiveOr_def get_TPMU_SCHEME_KEYEDHASH_null_def)+

lemma wt_zero_TPMU_SCHEME_KEYEDHASH [simp]: "wt_TPMU_SCHEME_KEYEDHASH zero_TPMU_SCHEME_KEYEDHASH"
  by (simp add: zero_TPMU_SCHEME_KEYEDHASH_def)

record TPMT_KEYEDHASH_SCHEME =
  TPMT_KEYEDHASH_SCHEME_scheme :: "UINT16"
  TPMT_KEYEDHASH_SCHEME_details :: "TPMU_SCHEME_KEYEDHASH"

definition zero_TPMT_KEYEDHASH_SCHEME :: TPMT_KEYEDHASH_SCHEME where
  "zero_TPMT_KEYEDHASH_SCHEME = \<lparr>TPMT_KEYEDHASH_SCHEME_scheme = 0,
     TPMT_KEYEDHASH_SCHEME_details = zero_TPMU_SCHEME_KEYEDHASH\<rparr>"

definition wt_TPMT_KEYEDHASH_SCHEME :: "TPMT_KEYEDHASH_SCHEME \<Rightarrow> bool" where
  "wt_TPMT_KEYEDHASH_SCHEME s \<longleftrightarrow> wt_TPMU_SCHEME_KEYEDHASH (TPMT_KEYEDHASH_SCHEME_details s)"

lemma wt_zero_TPMT_KEYEDHASH_SCHEME [simp]: "wt_TPMT_KEYEDHASH_SCHEME zero_TPMT_KEYEDHASH_SCHEME"
  by (simp add: zero_TPMT_KEYEDHASH_SCHEME_def wt_TPMT_KEYEDHASH_SCHEME_def)

record TPMS_KEYEDHASH_PARMS =
  TPMS_KEYEDHASH_PARMS_scheme :: "TPMT_KEYEDHASH_SCHEME"

definition zero_TPMS_KEYEDHASH_PARMS :: TPMS_KEYEDHASH_PARMS where
  "zero_TPMS_KEYEDHASH_PARMS = \<lparr>TPMS_KEYEDHASH_PARMS_scheme = zero_TPMT_KEYEDHASH_SCHEME\<rparr>"

definition wt_TPMS_KEYEDHASH_PARMS :: "TPMS_KEYEDHASH_PARMS \<Rightarrow> bool" where
  "wt_TPMS_KEYEDHASH_PARMS s \<longleftrightarrow> wt_TPMT_KEYEDHASH_SCHEME (TPMS_KEYEDHASH_PARMS_scheme s)"

lemma wt_zero_TPMS_KEYEDHASH_PARMS [simp]: "wt_TPMS_KEYEDHASH_PARMS zero_TPMS_KEYEDHASH_PARMS"
  by (simp add: zero_TPMS_KEYEDHASH_PARMS_def wt_TPMS_KEYEDHASH_PARMS_def)

datatype TPMU_SYM_KEY_BITS =
    TPMU_SYM_KEY_BITS_aes "UINT16"
  | TPMU_SYM_KEY_BITS_sm4 "UINT16"
  | TPMU_SYM_KEY_BITS_camellia "UINT16"
  | TPMU_SYM_KEY_BITS_sym "UINT16"
  | TPMU_SYM_KEY_BITS_exclusiveOr "UINT16"
  | TPMU_SYM_KEY_BITS_null "TPMS_EMPTY"

definition zero_TPMU_SYM_KEY_BITS :: TPMU_SYM_KEY_BITS where
  "zero_TPMU_SYM_KEY_BITS = TPMU_SYM_KEY_BITS_aes 0"

primrec wt_TPMU_SYM_KEY_BITS :: "TPMU_SYM_KEY_BITS \<Rightarrow> bool" where
    "wt_TPMU_SYM_KEY_BITS (TPMU_SYM_KEY_BITS_aes x) = True"
  | "wt_TPMU_SYM_KEY_BITS (TPMU_SYM_KEY_BITS_sm4 x) = True"
  | "wt_TPMU_SYM_KEY_BITS (TPMU_SYM_KEY_BITS_camellia x) = True"
  | "wt_TPMU_SYM_KEY_BITS (TPMU_SYM_KEY_BITS_sym x) = True"
  | "wt_TPMU_SYM_KEY_BITS (TPMU_SYM_KEY_BITS_exclusiveOr x) = True"
  | "wt_TPMU_SYM_KEY_BITS (TPMU_SYM_KEY_BITS_null x) = wt_TPMS_EMPTY x"

definition get_TPMU_SYM_KEY_BITS_aes :: "TPMU_SYM_KEY_BITS \<Rightarrow> (UINT16) option" where
  "get_TPMU_SYM_KEY_BITS_aes u = (case u of TPMU_SYM_KEY_BITS_aes x \<Rightarrow> Some x | _ \<Rightarrow> None)"

definition get_TPMU_SYM_KEY_BITS_sm4 :: "TPMU_SYM_KEY_BITS \<Rightarrow> (UINT16) option" where
  "get_TPMU_SYM_KEY_BITS_sm4 u = (case u of TPMU_SYM_KEY_BITS_sm4 x \<Rightarrow> Some x | _ \<Rightarrow> None)"

definition get_TPMU_SYM_KEY_BITS_camellia :: "TPMU_SYM_KEY_BITS \<Rightarrow> (UINT16) option" where
  "get_TPMU_SYM_KEY_BITS_camellia u = (case u of TPMU_SYM_KEY_BITS_camellia x \<Rightarrow> Some x | _ \<Rightarrow> None)"

definition get_TPMU_SYM_KEY_BITS_sym :: "TPMU_SYM_KEY_BITS \<Rightarrow> (UINT16) option" where
  "get_TPMU_SYM_KEY_BITS_sym u = (case u of TPMU_SYM_KEY_BITS_sym x \<Rightarrow> Some x | _ \<Rightarrow> None)"

definition get_TPMU_SYM_KEY_BITS_exclusiveOr :: "TPMU_SYM_KEY_BITS \<Rightarrow> (UINT16) option" where
  "get_TPMU_SYM_KEY_BITS_exclusiveOr u = (case u of TPMU_SYM_KEY_BITS_exclusiveOr x \<Rightarrow> Some x | _ \<Rightarrow> None)"

definition get_TPMU_SYM_KEY_BITS_null :: "TPMU_SYM_KEY_BITS \<Rightarrow> (TPMS_EMPTY) option" where
  "get_TPMU_SYM_KEY_BITS_null u = (case u of TPMU_SYM_KEY_BITS_null x \<Rightarrow> Some x | _ \<Rightarrow> None)"

lemma get_TPMU_SYM_KEY_BITS [simp]:
  "get_TPMU_SYM_KEY_BITS_aes u = Some (x0) \<longleftrightarrow> u = TPMU_SYM_KEY_BITS_aes x0"
  "get_TPMU_SYM_KEY_BITS_sm4 u = Some (x1) \<longleftrightarrow> u = TPMU_SYM_KEY_BITS_sm4 x1"
  "get_TPMU_SYM_KEY_BITS_camellia u = Some (x2) \<longleftrightarrow> u = TPMU_SYM_KEY_BITS_camellia x2"
  "get_TPMU_SYM_KEY_BITS_sym u = Some (x3) \<longleftrightarrow> u = TPMU_SYM_KEY_BITS_sym x3"
  "get_TPMU_SYM_KEY_BITS_exclusiveOr u = Some (x4) \<longleftrightarrow> u = TPMU_SYM_KEY_BITS_exclusiveOr x4"
  "get_TPMU_SYM_KEY_BITS_null u = Some (x5) \<longleftrightarrow> u = TPMU_SYM_KEY_BITS_null x5"
  by (cases u; simp add: get_TPMU_SYM_KEY_BITS_aes_def get_TPMU_SYM_KEY_BITS_sm4_def get_TPMU_SYM_KEY_BITS_camellia_def get_TPMU_SYM_KEY_BITS_sym_def get_TPMU_SYM_KEY_BITS_exclusiveOr_def get_TPMU_SYM_KEY_BITS_null_def)+

lemma wt_zero_TPMU_SYM_KEY_BITS [simp]: "wt_TPMU_SYM_KEY_BITS zero_TPMU_SYM_KEY_BITS"
  by (simp add: zero_TPMU_SYM_KEY_BITS_def)

datatype TPMU_SYM_MODE =
    TPMU_SYM_MODE_aes "UINT16"
  | TPMU_SYM_MODE_sm4 "UINT16"
  | TPMU_SYM_MODE_camellia "UINT16"
  | TPMU_SYM_MODE_sym "UINT16"
  | TPMU_SYM_MODE_exclusiveOr "TPMS_EMPTY"
  | TPMU_SYM_MODE_null "TPMS_EMPTY"

definition zero_TPMU_SYM_MODE :: TPMU_SYM_MODE where
  "zero_TPMU_SYM_MODE = TPMU_SYM_MODE_aes 0"

primrec wt_TPMU_SYM_MODE :: "TPMU_SYM_MODE \<Rightarrow> bool" where
    "wt_TPMU_SYM_MODE (TPMU_SYM_MODE_aes x) = True"
  | "wt_TPMU_SYM_MODE (TPMU_SYM_MODE_sm4 x) = True"
  | "wt_TPMU_SYM_MODE (TPMU_SYM_MODE_camellia x) = True"
  | "wt_TPMU_SYM_MODE (TPMU_SYM_MODE_sym x) = True"
  | "wt_TPMU_SYM_MODE (TPMU_SYM_MODE_exclusiveOr x) = wt_TPMS_EMPTY x"
  | "wt_TPMU_SYM_MODE (TPMU_SYM_MODE_null x) = wt_TPMS_EMPTY x"

definition get_TPMU_SYM_MODE_aes :: "TPMU_SYM_MODE \<Rightarrow> (UINT16) option" where
  "get_TPMU_SYM_MODE_aes u = (case u of TPMU_SYM_MODE_aes x \<Rightarrow> Some x | _ \<Rightarrow> None)"

definition get_TPMU_SYM_MODE_sm4 :: "TPMU_SYM_MODE \<Rightarrow> (UINT16) option" where
  "get_TPMU_SYM_MODE_sm4 u = (case u of TPMU_SYM_MODE_sm4 x \<Rightarrow> Some x | _ \<Rightarrow> None)"

definition get_TPMU_SYM_MODE_camellia :: "TPMU_SYM_MODE \<Rightarrow> (UINT16) option" where
  "get_TPMU_SYM_MODE_camellia u = (case u of TPMU_SYM_MODE_camellia x \<Rightarrow> Some x | _ \<Rightarrow> None)"

definition get_TPMU_SYM_MODE_sym :: "TPMU_SYM_MODE \<Rightarrow> (UINT16) option" where
  "get_TPMU_SYM_MODE_sym u = (case u of TPMU_SYM_MODE_sym x \<Rightarrow> Some x | _ \<Rightarrow> None)"

definition get_TPMU_SYM_MODE_exclusiveOr :: "TPMU_SYM_MODE \<Rightarrow> (TPMS_EMPTY) option" where
  "get_TPMU_SYM_MODE_exclusiveOr u = (case u of TPMU_SYM_MODE_exclusiveOr x \<Rightarrow> Some x | _ \<Rightarrow> None)"

definition get_TPMU_SYM_MODE_null :: "TPMU_SYM_MODE \<Rightarrow> (TPMS_EMPTY) option" where
  "get_TPMU_SYM_MODE_null u = (case u of TPMU_SYM_MODE_null x \<Rightarrow> Some x | _ \<Rightarrow> None)"

lemma get_TPMU_SYM_MODE [simp]:
  "get_TPMU_SYM_MODE_aes u = Some (x0) \<longleftrightarrow> u = TPMU_SYM_MODE_aes x0"
  "get_TPMU_SYM_MODE_sm4 u = Some (x1) \<longleftrightarrow> u = TPMU_SYM_MODE_sm4 x1"
  "get_TPMU_SYM_MODE_camellia u = Some (x2) \<longleftrightarrow> u = TPMU_SYM_MODE_camellia x2"
  "get_TPMU_SYM_MODE_sym u = Some (x3) \<longleftrightarrow> u = TPMU_SYM_MODE_sym x3"
  "get_TPMU_SYM_MODE_exclusiveOr u = Some (x4) \<longleftrightarrow> u = TPMU_SYM_MODE_exclusiveOr x4"
  "get_TPMU_SYM_MODE_null u = Some (x5) \<longleftrightarrow> u = TPMU_SYM_MODE_null x5"
  by (cases u; simp add: get_TPMU_SYM_MODE_aes_def get_TPMU_SYM_MODE_sm4_def get_TPMU_SYM_MODE_camellia_def get_TPMU_SYM_MODE_sym_def get_TPMU_SYM_MODE_exclusiveOr_def get_TPMU_SYM_MODE_null_def)+

lemma wt_zero_TPMU_SYM_MODE [simp]: "wt_TPMU_SYM_MODE zero_TPMU_SYM_MODE"
  by (simp add: zero_TPMU_SYM_MODE_def)

record TPMT_SYM_DEF_OBJECT =
  TPMT_SYM_DEF_OBJECT_algorithm :: "UINT16"
  TPMT_SYM_DEF_OBJECT_keyBits :: "TPMU_SYM_KEY_BITS"
  TPMT_SYM_DEF_OBJECT_mode :: "TPMU_SYM_MODE"

definition zero_TPMT_SYM_DEF_OBJECT :: TPMT_SYM_DEF_OBJECT where
  "zero_TPMT_SYM_DEF_OBJECT = \<lparr>TPMT_SYM_DEF_OBJECT_algorithm = 0,
     TPMT_SYM_DEF_OBJECT_keyBits = zero_TPMU_SYM_KEY_BITS,
     TPMT_SYM_DEF_OBJECT_mode = zero_TPMU_SYM_MODE\<rparr>"

definition wt_TPMT_SYM_DEF_OBJECT :: "TPMT_SYM_DEF_OBJECT \<Rightarrow> bool" where
  "wt_TPMT_SYM_DEF_OBJECT s \<longleftrightarrow> wt_TPMU_SYM_KEY_BITS (TPMT_SYM_DEF_OBJECT_keyBits s) \<and>
     wt_TPMU_SYM_MODE (TPMT_SYM_DEF_OBJECT_mode s)"

lemma wt_zero_TPMT_SYM_DEF_OBJECT [simp]: "wt_TPMT_SYM_DEF_OBJECT zero_TPMT_SYM_DEF_OBJECT"
  by (simp add: zero_TPMT_SYM_DEF_OBJECT_def wt_TPMT_SYM_DEF_OBJECT_def)

record TPMS_SYMCIPHER_PARMS =
  TPMS_SYMCIPHER_PARMS_sym :: "TPMT_SYM_DEF_OBJECT"

definition zero_TPMS_SYMCIPHER_PARMS :: TPMS_SYMCIPHER_PARMS where
  "zero_TPMS_SYMCIPHER_PARMS = \<lparr>TPMS_SYMCIPHER_PARMS_sym = zero_TPMT_SYM_DEF_OBJECT\<rparr>"

definition wt_TPMS_SYMCIPHER_PARMS :: "TPMS_SYMCIPHER_PARMS \<Rightarrow> bool" where
  "wt_TPMS_SYMCIPHER_PARMS s \<longleftrightarrow> wt_TPMT_SYM_DEF_OBJECT (TPMS_SYMCIPHER_PARMS_sym s)"

lemma wt_zero_TPMS_SYMCIPHER_PARMS [simp]: "wt_TPMS_SYMCIPHER_PARMS zero_TPMS_SYMCIPHER_PARMS"
  by (simp add: zero_TPMS_SYMCIPHER_PARMS_def wt_TPMS_SYMCIPHER_PARMS_def)

record TPMS_SCHEME_ECDAA =
  TPMS_SCHEME_ECDAA_hashAlg :: "UINT16"
  TPMS_SCHEME_ECDAA_count :: "UINT16"

definition zero_TPMS_SCHEME_ECDAA :: TPMS_SCHEME_ECDAA where
  "zero_TPMS_SCHEME_ECDAA = \<lparr>TPMS_SCHEME_ECDAA_hashAlg = 0,
     TPMS_SCHEME_ECDAA_count = 0\<rparr>"

definition wt_TPMS_SCHEME_ECDAA :: "TPMS_SCHEME_ECDAA \<Rightarrow> bool" where
  "wt_TPMS_SCHEME_ECDAA s \<longleftrightarrow> True"

lemma wt_zero_TPMS_SCHEME_ECDAA [simp]: "wt_TPMS_SCHEME_ECDAA zero_TPMS_SCHEME_ECDAA"
  by (simp add: zero_TPMS_SCHEME_ECDAA_def wt_TPMS_SCHEME_ECDAA_def)

datatype TPMU_ASYM_SCHEME =
    TPMU_ASYM_SCHEME_ecdh "TPMS_SCHEME_HASH"
  | TPMU_ASYM_SCHEME_ecmqv "TPMS_SCHEME_HASH"
  | TPMU_ASYM_SCHEME_rsassa "TPMS_SCHEME_HASH"
  | TPMU_ASYM_SCHEME_rsapss "TPMS_SCHEME_HASH"
  | TPMU_ASYM_SCHEME_ecdsa "TPMS_SCHEME_HASH"
  | TPMU_ASYM_SCHEME_ecdaa "TPMS_SCHEME_ECDAA"
  | TPMU_ASYM_SCHEME_sm2 "TPMS_SCHEME_HASH"
  | TPMU_ASYM_SCHEME_ecschnorr "TPMS_SCHEME_HASH"
  | TPMU_ASYM_SCHEME_rsaes "TPMS_EMPTY"
  | TPMU_ASYM_SCHEME_oaep "TPMS_SCHEME_HASH"
  | TPMU_ASYM_SCHEME_mldsa "TPMS_SCHEME_HASH"
  | TPMU_ASYM_SCHEME_anySig "TPMS_SCHEME_HASH"
  | TPMU_ASYM_SCHEME_null "TPMS_EMPTY"

definition zero_TPMU_ASYM_SCHEME :: TPMU_ASYM_SCHEME where
  "zero_TPMU_ASYM_SCHEME = TPMU_ASYM_SCHEME_ecdh zero_TPMS_SCHEME_HASH"

primrec wt_TPMU_ASYM_SCHEME :: "TPMU_ASYM_SCHEME \<Rightarrow> bool" where
    "wt_TPMU_ASYM_SCHEME (TPMU_ASYM_SCHEME_ecdh x) = wt_TPMS_SCHEME_HASH x"
  | "wt_TPMU_ASYM_SCHEME (TPMU_ASYM_SCHEME_ecmqv x) = wt_TPMS_SCHEME_HASH x"
  | "wt_TPMU_ASYM_SCHEME (TPMU_ASYM_SCHEME_rsassa x) = wt_TPMS_SCHEME_HASH x"
  | "wt_TPMU_ASYM_SCHEME (TPMU_ASYM_SCHEME_rsapss x) = wt_TPMS_SCHEME_HASH x"
  | "wt_TPMU_ASYM_SCHEME (TPMU_ASYM_SCHEME_ecdsa x) = wt_TPMS_SCHEME_HASH x"
  | "wt_TPMU_ASYM_SCHEME (TPMU_ASYM_SCHEME_ecdaa x) = wt_TPMS_SCHEME_ECDAA x"
  | "wt_TPMU_ASYM_SCHEME (TPMU_ASYM_SCHEME_sm2 x) = wt_TPMS_SCHEME_HASH x"
  | "wt_TPMU_ASYM_SCHEME (TPMU_ASYM_SCHEME_ecschnorr x) = wt_TPMS_SCHEME_HASH x"
  | "wt_TPMU_ASYM_SCHEME (TPMU_ASYM_SCHEME_rsaes x) = wt_TPMS_EMPTY x"
  | "wt_TPMU_ASYM_SCHEME (TPMU_ASYM_SCHEME_oaep x) = wt_TPMS_SCHEME_HASH x"
  | "wt_TPMU_ASYM_SCHEME (TPMU_ASYM_SCHEME_mldsa x) = wt_TPMS_SCHEME_HASH x"
  | "wt_TPMU_ASYM_SCHEME (TPMU_ASYM_SCHEME_anySig x) = wt_TPMS_SCHEME_HASH x"
  | "wt_TPMU_ASYM_SCHEME (TPMU_ASYM_SCHEME_null x) = wt_TPMS_EMPTY x"

definition get_TPMU_ASYM_SCHEME_ecdh :: "TPMU_ASYM_SCHEME \<Rightarrow> (TPMS_SCHEME_HASH) option" where
  "get_TPMU_ASYM_SCHEME_ecdh u = (case u of TPMU_ASYM_SCHEME_ecdh x \<Rightarrow> Some x | _ \<Rightarrow> None)"

definition get_TPMU_ASYM_SCHEME_ecmqv :: "TPMU_ASYM_SCHEME \<Rightarrow> (TPMS_SCHEME_HASH) option" where
  "get_TPMU_ASYM_SCHEME_ecmqv u = (case u of TPMU_ASYM_SCHEME_ecmqv x \<Rightarrow> Some x | _ \<Rightarrow> None)"

definition get_TPMU_ASYM_SCHEME_rsassa :: "TPMU_ASYM_SCHEME \<Rightarrow> (TPMS_SCHEME_HASH) option" where
  "get_TPMU_ASYM_SCHEME_rsassa u = (case u of TPMU_ASYM_SCHEME_rsassa x \<Rightarrow> Some x | _ \<Rightarrow> None)"

definition get_TPMU_ASYM_SCHEME_rsapss :: "TPMU_ASYM_SCHEME \<Rightarrow> (TPMS_SCHEME_HASH) option" where
  "get_TPMU_ASYM_SCHEME_rsapss u = (case u of TPMU_ASYM_SCHEME_rsapss x \<Rightarrow> Some x | _ \<Rightarrow> None)"

definition get_TPMU_ASYM_SCHEME_ecdsa :: "TPMU_ASYM_SCHEME \<Rightarrow> (TPMS_SCHEME_HASH) option" where
  "get_TPMU_ASYM_SCHEME_ecdsa u = (case u of TPMU_ASYM_SCHEME_ecdsa x \<Rightarrow> Some x | _ \<Rightarrow> None)"

definition get_TPMU_ASYM_SCHEME_ecdaa :: "TPMU_ASYM_SCHEME \<Rightarrow> (TPMS_SCHEME_ECDAA) option" where
  "get_TPMU_ASYM_SCHEME_ecdaa u = (case u of TPMU_ASYM_SCHEME_ecdaa x \<Rightarrow> Some x | _ \<Rightarrow> None)"

definition get_TPMU_ASYM_SCHEME_sm2 :: "TPMU_ASYM_SCHEME \<Rightarrow> (TPMS_SCHEME_HASH) option" where
  "get_TPMU_ASYM_SCHEME_sm2 u = (case u of TPMU_ASYM_SCHEME_sm2 x \<Rightarrow> Some x | _ \<Rightarrow> None)"

definition get_TPMU_ASYM_SCHEME_ecschnorr :: "TPMU_ASYM_SCHEME \<Rightarrow> (TPMS_SCHEME_HASH) option" where
  "get_TPMU_ASYM_SCHEME_ecschnorr u = (case u of TPMU_ASYM_SCHEME_ecschnorr x \<Rightarrow> Some x | _ \<Rightarrow> None)"

definition get_TPMU_ASYM_SCHEME_rsaes :: "TPMU_ASYM_SCHEME \<Rightarrow> (TPMS_EMPTY) option" where
  "get_TPMU_ASYM_SCHEME_rsaes u = (case u of TPMU_ASYM_SCHEME_rsaes x \<Rightarrow> Some x | _ \<Rightarrow> None)"

definition get_TPMU_ASYM_SCHEME_oaep :: "TPMU_ASYM_SCHEME \<Rightarrow> (TPMS_SCHEME_HASH) option" where
  "get_TPMU_ASYM_SCHEME_oaep u = (case u of TPMU_ASYM_SCHEME_oaep x \<Rightarrow> Some x | _ \<Rightarrow> None)"

definition get_TPMU_ASYM_SCHEME_mldsa :: "TPMU_ASYM_SCHEME \<Rightarrow> (TPMS_SCHEME_HASH) option" where
  "get_TPMU_ASYM_SCHEME_mldsa u = (case u of TPMU_ASYM_SCHEME_mldsa x \<Rightarrow> Some x | _ \<Rightarrow> None)"

definition get_TPMU_ASYM_SCHEME_anySig :: "TPMU_ASYM_SCHEME \<Rightarrow> (TPMS_SCHEME_HASH) option" where
  "get_TPMU_ASYM_SCHEME_anySig u = (case u of TPMU_ASYM_SCHEME_anySig x \<Rightarrow> Some x | _ \<Rightarrow> None)"

definition get_TPMU_ASYM_SCHEME_null :: "TPMU_ASYM_SCHEME \<Rightarrow> (TPMS_EMPTY) option" where
  "get_TPMU_ASYM_SCHEME_null u = (case u of TPMU_ASYM_SCHEME_null x \<Rightarrow> Some x | _ \<Rightarrow> None)"

lemma get_TPMU_ASYM_SCHEME [simp]:
  "get_TPMU_ASYM_SCHEME_ecdh u = Some (x0) \<longleftrightarrow> u = TPMU_ASYM_SCHEME_ecdh x0"
  "get_TPMU_ASYM_SCHEME_ecmqv u = Some (x1) \<longleftrightarrow> u = TPMU_ASYM_SCHEME_ecmqv x1"
  "get_TPMU_ASYM_SCHEME_rsassa u = Some (x2) \<longleftrightarrow> u = TPMU_ASYM_SCHEME_rsassa x2"
  "get_TPMU_ASYM_SCHEME_rsapss u = Some (x3) \<longleftrightarrow> u = TPMU_ASYM_SCHEME_rsapss x3"
  "get_TPMU_ASYM_SCHEME_ecdsa u = Some (x4) \<longleftrightarrow> u = TPMU_ASYM_SCHEME_ecdsa x4"
  "get_TPMU_ASYM_SCHEME_ecdaa u = Some (x5) \<longleftrightarrow> u = TPMU_ASYM_SCHEME_ecdaa x5"
  "get_TPMU_ASYM_SCHEME_sm2 u = Some (x6) \<longleftrightarrow> u = TPMU_ASYM_SCHEME_sm2 x6"
  "get_TPMU_ASYM_SCHEME_ecschnorr u = Some (x7) \<longleftrightarrow> u = TPMU_ASYM_SCHEME_ecschnorr x7"
  "get_TPMU_ASYM_SCHEME_rsaes u = Some (x8) \<longleftrightarrow> u = TPMU_ASYM_SCHEME_rsaes x8"
  "get_TPMU_ASYM_SCHEME_oaep u = Some (x9) \<longleftrightarrow> u = TPMU_ASYM_SCHEME_oaep x9"
  "get_TPMU_ASYM_SCHEME_mldsa u = Some (x10) \<longleftrightarrow> u = TPMU_ASYM_SCHEME_mldsa x10"
  "get_TPMU_ASYM_SCHEME_anySig u = Some (x11) \<longleftrightarrow> u = TPMU_ASYM_SCHEME_anySig x11"
  "get_TPMU_ASYM_SCHEME_null u = Some (x12) \<longleftrightarrow> u = TPMU_ASYM_SCHEME_null x12"
  by (cases u; simp add: get_TPMU_ASYM_SCHEME_ecdh_def get_TPMU_ASYM_SCHEME_ecmqv_def get_TPMU_ASYM_SCHEME_rsassa_def get_TPMU_ASYM_SCHEME_rsapss_def get_TPMU_ASYM_SCHEME_ecdsa_def get_TPMU_ASYM_SCHEME_ecdaa_def get_TPMU_ASYM_SCHEME_sm2_def get_TPMU_ASYM_SCHEME_ecschnorr_def get_TPMU_ASYM_SCHEME_rsaes_def get_TPMU_ASYM_SCHEME_oaep_def get_TPMU_ASYM_SCHEME_mldsa_def get_TPMU_ASYM_SCHEME_anySig_def get_TPMU_ASYM_SCHEME_null_def)+

lemma wt_zero_TPMU_ASYM_SCHEME [simp]: "wt_TPMU_ASYM_SCHEME zero_TPMU_ASYM_SCHEME"
  by (simp add: zero_TPMU_ASYM_SCHEME_def)

record TPMT_RSA_SCHEME =
  TPMT_RSA_SCHEME_scheme :: "UINT16"
  TPMT_RSA_SCHEME_details :: "TPMU_ASYM_SCHEME"

definition zero_TPMT_RSA_SCHEME :: TPMT_RSA_SCHEME where
  "zero_TPMT_RSA_SCHEME = \<lparr>TPMT_RSA_SCHEME_scheme = 0,
     TPMT_RSA_SCHEME_details = zero_TPMU_ASYM_SCHEME\<rparr>"

definition wt_TPMT_RSA_SCHEME :: "TPMT_RSA_SCHEME \<Rightarrow> bool" where
  "wt_TPMT_RSA_SCHEME s \<longleftrightarrow> wt_TPMU_ASYM_SCHEME (TPMT_RSA_SCHEME_details s)"

lemma wt_zero_TPMT_RSA_SCHEME [simp]: "wt_TPMT_RSA_SCHEME zero_TPMT_RSA_SCHEME"
  by (simp add: zero_TPMT_RSA_SCHEME_def wt_TPMT_RSA_SCHEME_def)

record TPMS_RSA_PARMS =
  TPMS_RSA_PARMS_symmetric :: "TPMT_SYM_DEF_OBJECT"
  TPMS_RSA_PARMS_scheme :: "TPMT_RSA_SCHEME"
  TPMS_RSA_PARMS_keyBits :: "UINT16"
  TPMS_RSA_PARMS_exponent :: "UINT32"

definition zero_TPMS_RSA_PARMS :: TPMS_RSA_PARMS where
  "zero_TPMS_RSA_PARMS = \<lparr>TPMS_RSA_PARMS_symmetric = zero_TPMT_SYM_DEF_OBJECT,
     TPMS_RSA_PARMS_scheme = zero_TPMT_RSA_SCHEME,
     TPMS_RSA_PARMS_keyBits = 0,
     TPMS_RSA_PARMS_exponent = 0\<rparr>"

definition wt_TPMS_RSA_PARMS :: "TPMS_RSA_PARMS \<Rightarrow> bool" where
  "wt_TPMS_RSA_PARMS s \<longleftrightarrow> wt_TPMT_SYM_DEF_OBJECT (TPMS_RSA_PARMS_symmetric s) \<and>
     wt_TPMT_RSA_SCHEME (TPMS_RSA_PARMS_scheme s)"

lemma wt_zero_TPMS_RSA_PARMS [simp]: "wt_TPMS_RSA_PARMS zero_TPMS_RSA_PARMS"
  by (simp add: zero_TPMS_RSA_PARMS_def wt_TPMS_RSA_PARMS_def)

record TPMT_ECC_SCHEME =
  TPMT_ECC_SCHEME_scheme :: "UINT16"
  TPMT_ECC_SCHEME_details :: "TPMU_ASYM_SCHEME"

definition zero_TPMT_ECC_SCHEME :: TPMT_ECC_SCHEME where
  "zero_TPMT_ECC_SCHEME = \<lparr>TPMT_ECC_SCHEME_scheme = 0,
     TPMT_ECC_SCHEME_details = zero_TPMU_ASYM_SCHEME\<rparr>"

definition wt_TPMT_ECC_SCHEME :: "TPMT_ECC_SCHEME \<Rightarrow> bool" where
  "wt_TPMT_ECC_SCHEME s \<longleftrightarrow> wt_TPMU_ASYM_SCHEME (TPMT_ECC_SCHEME_details s)"

lemma wt_zero_TPMT_ECC_SCHEME [simp]: "wt_TPMT_ECC_SCHEME zero_TPMT_ECC_SCHEME"
  by (simp add: zero_TPMT_ECC_SCHEME_def wt_TPMT_ECC_SCHEME_def)

datatype TPMU_KDF_SCHEME =
    TPMU_KDF_SCHEME_mgf1 "TPMS_SCHEME_HASH"
  | TPMU_KDF_SCHEME_kdf1_sp800_56a "TPMS_SCHEME_HASH"
  | TPMU_KDF_SCHEME_kdf2 "TPMS_SCHEME_HASH"
  | TPMU_KDF_SCHEME_kdf1_sp800_108 "TPMS_SCHEME_HASH"
  | TPMU_KDF_SCHEME_null "TPMS_EMPTY"

definition zero_TPMU_KDF_SCHEME :: TPMU_KDF_SCHEME where
  "zero_TPMU_KDF_SCHEME = TPMU_KDF_SCHEME_mgf1 zero_TPMS_SCHEME_HASH"

primrec wt_TPMU_KDF_SCHEME :: "TPMU_KDF_SCHEME \<Rightarrow> bool" where
    "wt_TPMU_KDF_SCHEME (TPMU_KDF_SCHEME_mgf1 x) = wt_TPMS_SCHEME_HASH x"
  | "wt_TPMU_KDF_SCHEME (TPMU_KDF_SCHEME_kdf1_sp800_56a x) = wt_TPMS_SCHEME_HASH x"
  | "wt_TPMU_KDF_SCHEME (TPMU_KDF_SCHEME_kdf2 x) = wt_TPMS_SCHEME_HASH x"
  | "wt_TPMU_KDF_SCHEME (TPMU_KDF_SCHEME_kdf1_sp800_108 x) = wt_TPMS_SCHEME_HASH x"
  | "wt_TPMU_KDF_SCHEME (TPMU_KDF_SCHEME_null x) = wt_TPMS_EMPTY x"

definition get_TPMU_KDF_SCHEME_mgf1 :: "TPMU_KDF_SCHEME \<Rightarrow> (TPMS_SCHEME_HASH) option" where
  "get_TPMU_KDF_SCHEME_mgf1 u = (case u of TPMU_KDF_SCHEME_mgf1 x \<Rightarrow> Some x | _ \<Rightarrow> None)"

definition get_TPMU_KDF_SCHEME_kdf1_sp800_56a :: "TPMU_KDF_SCHEME \<Rightarrow> (TPMS_SCHEME_HASH) option" where
  "get_TPMU_KDF_SCHEME_kdf1_sp800_56a u = (case u of TPMU_KDF_SCHEME_kdf1_sp800_56a x \<Rightarrow> Some x | _ \<Rightarrow> None)"

definition get_TPMU_KDF_SCHEME_kdf2 :: "TPMU_KDF_SCHEME \<Rightarrow> (TPMS_SCHEME_HASH) option" where
  "get_TPMU_KDF_SCHEME_kdf2 u = (case u of TPMU_KDF_SCHEME_kdf2 x \<Rightarrow> Some x | _ \<Rightarrow> None)"

definition get_TPMU_KDF_SCHEME_kdf1_sp800_108 :: "TPMU_KDF_SCHEME \<Rightarrow> (TPMS_SCHEME_HASH) option" where
  "get_TPMU_KDF_SCHEME_kdf1_sp800_108 u = (case u of TPMU_KDF_SCHEME_kdf1_sp800_108 x \<Rightarrow> Some x | _ \<Rightarrow> None)"

definition get_TPMU_KDF_SCHEME_null :: "TPMU_KDF_SCHEME \<Rightarrow> (TPMS_EMPTY) option" where
  "get_TPMU_KDF_SCHEME_null u = (case u of TPMU_KDF_SCHEME_null x \<Rightarrow> Some x | _ \<Rightarrow> None)"

lemma get_TPMU_KDF_SCHEME [simp]:
  "get_TPMU_KDF_SCHEME_mgf1 u = Some (x0) \<longleftrightarrow> u = TPMU_KDF_SCHEME_mgf1 x0"
  "get_TPMU_KDF_SCHEME_kdf1_sp800_56a u = Some (x1) \<longleftrightarrow> u = TPMU_KDF_SCHEME_kdf1_sp800_56a x1"
  "get_TPMU_KDF_SCHEME_kdf2 u = Some (x2) \<longleftrightarrow> u = TPMU_KDF_SCHEME_kdf2 x2"
  "get_TPMU_KDF_SCHEME_kdf1_sp800_108 u = Some (x3) \<longleftrightarrow> u = TPMU_KDF_SCHEME_kdf1_sp800_108 x3"
  "get_TPMU_KDF_SCHEME_null u = Some (x4) \<longleftrightarrow> u = TPMU_KDF_SCHEME_null x4"
  by (cases u; simp add: get_TPMU_KDF_SCHEME_mgf1_def get_TPMU_KDF_SCHEME_kdf1_sp800_56a_def get_TPMU_KDF_SCHEME_kdf2_def get_TPMU_KDF_SCHEME_kdf1_sp800_108_def get_TPMU_KDF_SCHEME_null_def)+

lemma wt_zero_TPMU_KDF_SCHEME [simp]: "wt_TPMU_KDF_SCHEME zero_TPMU_KDF_SCHEME"
  by (simp add: zero_TPMU_KDF_SCHEME_def)

record TPMT_KDF_SCHEME =
  TPMT_KDF_SCHEME_scheme :: "UINT16"
  TPMT_KDF_SCHEME_details :: "TPMU_KDF_SCHEME"

definition zero_TPMT_KDF_SCHEME :: TPMT_KDF_SCHEME where
  "zero_TPMT_KDF_SCHEME = \<lparr>TPMT_KDF_SCHEME_scheme = 0,
     TPMT_KDF_SCHEME_details = zero_TPMU_KDF_SCHEME\<rparr>"

definition wt_TPMT_KDF_SCHEME :: "TPMT_KDF_SCHEME \<Rightarrow> bool" where
  "wt_TPMT_KDF_SCHEME s \<longleftrightarrow> wt_TPMU_KDF_SCHEME (TPMT_KDF_SCHEME_details s)"

lemma wt_zero_TPMT_KDF_SCHEME [simp]: "wt_TPMT_KDF_SCHEME zero_TPMT_KDF_SCHEME"
  by (simp add: zero_TPMT_KDF_SCHEME_def wt_TPMT_KDF_SCHEME_def)

record TPMS_ECC_PARMS =
  TPMS_ECC_PARMS_symmetric :: "TPMT_SYM_DEF_OBJECT"
  TPMS_ECC_PARMS_scheme :: "TPMT_ECC_SCHEME"
  TPMS_ECC_PARMS_curveID :: "UINT16"
  TPMS_ECC_PARMS_kdf :: "TPMT_KDF_SCHEME"

definition zero_TPMS_ECC_PARMS :: TPMS_ECC_PARMS where
  "zero_TPMS_ECC_PARMS = \<lparr>TPMS_ECC_PARMS_symmetric = zero_TPMT_SYM_DEF_OBJECT,
     TPMS_ECC_PARMS_scheme = zero_TPMT_ECC_SCHEME,
     TPMS_ECC_PARMS_curveID = 0,
     TPMS_ECC_PARMS_kdf = zero_TPMT_KDF_SCHEME\<rparr>"

definition wt_TPMS_ECC_PARMS :: "TPMS_ECC_PARMS \<Rightarrow> bool" where
  "wt_TPMS_ECC_PARMS s \<longleftrightarrow> wt_TPMT_SYM_DEF_OBJECT (TPMS_ECC_PARMS_symmetric s) \<and>
     wt_TPMT_ECC_SCHEME (TPMS_ECC_PARMS_scheme s) \<and>
     wt_TPMT_KDF_SCHEME (TPMS_ECC_PARMS_kdf s)"

lemma wt_zero_TPMS_ECC_PARMS [simp]: "wt_TPMS_ECC_PARMS zero_TPMS_ECC_PARMS"
  by (simp add: zero_TPMS_ECC_PARMS_def wt_TPMS_ECC_PARMS_def)

record TPMS_ML_PARAMETER_SET =
  TPMS_ML_PARAMETER_SET_identifier :: "UINT32"

definition zero_TPMS_ML_PARAMETER_SET :: TPMS_ML_PARAMETER_SET where
  "zero_TPMS_ML_PARAMETER_SET = \<lparr>TPMS_ML_PARAMETER_SET_identifier = 0\<rparr>"

definition wt_TPMS_ML_PARAMETER_SET :: "TPMS_ML_PARAMETER_SET \<Rightarrow> bool" where
  "wt_TPMS_ML_PARAMETER_SET s \<longleftrightarrow> True"

lemma wt_zero_TPMS_ML_PARAMETER_SET [simp]: "wt_TPMS_ML_PARAMETER_SET zero_TPMS_ML_PARAMETER_SET"
  by (simp add: zero_TPMS_ML_PARAMETER_SET_def wt_TPMS_ML_PARAMETER_SET_def)

record TPMS_MLKEM_PARMS =
  TPMS_MLKEM_PARMS_nameAlg :: "UINT16"
  TPMS_MLKEM_PARMS_parameterSet :: "TPMS_ML_PARAMETER_SET"

definition zero_TPMS_MLKEM_PARMS :: TPMS_MLKEM_PARMS where
  "zero_TPMS_MLKEM_PARMS = \<lparr>TPMS_MLKEM_PARMS_nameAlg = 0,
     TPMS_MLKEM_PARMS_parameterSet = zero_TPMS_ML_PARAMETER_SET\<rparr>"

definition wt_TPMS_MLKEM_PARMS :: "TPMS_MLKEM_PARMS \<Rightarrow> bool" where
  "wt_TPMS_MLKEM_PARMS s \<longleftrightarrow> wt_TPMS_ML_PARAMETER_SET (TPMS_MLKEM_PARMS_parameterSet s)"

lemma wt_zero_TPMS_MLKEM_PARMS [simp]: "wt_TPMS_MLKEM_PARMS zero_TPMS_MLKEM_PARMS"
  by (simp add: zero_TPMS_MLKEM_PARMS_def wt_TPMS_MLKEM_PARMS_def)

record TPMS_MLDSA_PARMS =
  TPMS_MLDSA_PARMS_nameAlg :: "UINT16"
  TPMS_MLDSA_PARMS_parameterSet :: "TPMS_ML_PARAMETER_SET"

definition zero_TPMS_MLDSA_PARMS :: TPMS_MLDSA_PARMS where
  "zero_TPMS_MLDSA_PARMS = \<lparr>TPMS_MLDSA_PARMS_nameAlg = 0,
     TPMS_MLDSA_PARMS_parameterSet = zero_TPMS_ML_PARAMETER_SET\<rparr>"

definition wt_TPMS_MLDSA_PARMS :: "TPMS_MLDSA_PARMS \<Rightarrow> bool" where
  "wt_TPMS_MLDSA_PARMS s \<longleftrightarrow> wt_TPMS_ML_PARAMETER_SET (TPMS_MLDSA_PARMS_parameterSet s)"

lemma wt_zero_TPMS_MLDSA_PARMS [simp]: "wt_TPMS_MLDSA_PARMS zero_TPMS_MLDSA_PARMS"
  by (simp add: zero_TPMS_MLDSA_PARMS_def wt_TPMS_MLDSA_PARMS_def)

record TPMS_HASH_MLDSA_PARMS =
  TPMS_HASH_MLDSA_PARMS_nameAlg :: "UINT16"
  TPMS_HASH_MLDSA_PARMS_parameterSet :: "TPMS_ML_PARAMETER_SET"

definition zero_TPMS_HASH_MLDSA_PARMS :: TPMS_HASH_MLDSA_PARMS where
  "zero_TPMS_HASH_MLDSA_PARMS = \<lparr>TPMS_HASH_MLDSA_PARMS_nameAlg = 0,
     TPMS_HASH_MLDSA_PARMS_parameterSet = zero_TPMS_ML_PARAMETER_SET\<rparr>"

definition wt_TPMS_HASH_MLDSA_PARMS :: "TPMS_HASH_MLDSA_PARMS \<Rightarrow> bool" where
  "wt_TPMS_HASH_MLDSA_PARMS s \<longleftrightarrow> wt_TPMS_ML_PARAMETER_SET (TPMS_HASH_MLDSA_PARMS_parameterSet s)"

lemma wt_zero_TPMS_HASH_MLDSA_PARMS [simp]: "wt_TPMS_HASH_MLDSA_PARMS zero_TPMS_HASH_MLDSA_PARMS"
  by (simp add: zero_TPMS_HASH_MLDSA_PARMS_def wt_TPMS_HASH_MLDSA_PARMS_def)

record TPMT_ASYM_SCHEME =
  TPMT_ASYM_SCHEME_scheme :: "UINT16"
  TPMT_ASYM_SCHEME_details :: "TPMU_ASYM_SCHEME"

definition zero_TPMT_ASYM_SCHEME :: TPMT_ASYM_SCHEME where
  "zero_TPMT_ASYM_SCHEME = \<lparr>TPMT_ASYM_SCHEME_scheme = 0,
     TPMT_ASYM_SCHEME_details = zero_TPMU_ASYM_SCHEME\<rparr>"

definition wt_TPMT_ASYM_SCHEME :: "TPMT_ASYM_SCHEME \<Rightarrow> bool" where
  "wt_TPMT_ASYM_SCHEME s \<longleftrightarrow> wt_TPMU_ASYM_SCHEME (TPMT_ASYM_SCHEME_details s)"

lemma wt_zero_TPMT_ASYM_SCHEME [simp]: "wt_TPMT_ASYM_SCHEME zero_TPMT_ASYM_SCHEME"
  by (simp add: zero_TPMT_ASYM_SCHEME_def wt_TPMT_ASYM_SCHEME_def)

record TPMS_ASYM_PARMS =
  TPMS_ASYM_PARMS_symmetric :: "TPMT_SYM_DEF_OBJECT"
  TPMS_ASYM_PARMS_scheme :: "TPMT_ASYM_SCHEME"

definition zero_TPMS_ASYM_PARMS :: TPMS_ASYM_PARMS where
  "zero_TPMS_ASYM_PARMS = \<lparr>TPMS_ASYM_PARMS_symmetric = zero_TPMT_SYM_DEF_OBJECT,
     TPMS_ASYM_PARMS_scheme = zero_TPMT_ASYM_SCHEME\<rparr>"

definition wt_TPMS_ASYM_PARMS :: "TPMS_ASYM_PARMS \<Rightarrow> bool" where
  "wt_TPMS_ASYM_PARMS s \<longleftrightarrow> wt_TPMT_SYM_DEF_OBJECT (TPMS_ASYM_PARMS_symmetric s) \<and>
     wt_TPMT_ASYM_SCHEME (TPMS_ASYM_PARMS_scheme s)"

lemma wt_zero_TPMS_ASYM_PARMS [simp]: "wt_TPMS_ASYM_PARMS zero_TPMS_ASYM_PARMS"
  by (simp add: zero_TPMS_ASYM_PARMS_def wt_TPMS_ASYM_PARMS_def)

datatype TPMU_PUBLIC_PARMS =
    TPMU_PUBLIC_PARMS_keyedHashDetail "TPMS_KEYEDHASH_PARMS"
  | TPMU_PUBLIC_PARMS_symDetail "TPMS_SYMCIPHER_PARMS"
  | TPMU_PUBLIC_PARMS_rsaDetail "TPMS_RSA_PARMS"
  | TPMU_PUBLIC_PARMS_eccDetail "TPMS_ECC_PARMS"
  | TPMU_PUBLIC_PARMS_mlkemDetail "TPMS_MLKEM_PARMS"
  | TPMU_PUBLIC_PARMS_mldsaDetail "TPMS_MLDSA_PARMS"
  | TPMU_PUBLIC_PARMS_hashMldsaDetail "TPMS_HASH_MLDSA_PARMS"
  | TPMU_PUBLIC_PARMS_asymDetail "TPMS_ASYM_PARMS"

definition zero_TPMU_PUBLIC_PARMS :: TPMU_PUBLIC_PARMS where
  "zero_TPMU_PUBLIC_PARMS = TPMU_PUBLIC_PARMS_keyedHashDetail zero_TPMS_KEYEDHASH_PARMS"

primrec wt_TPMU_PUBLIC_PARMS :: "TPMU_PUBLIC_PARMS \<Rightarrow> bool" where
    "wt_TPMU_PUBLIC_PARMS (TPMU_PUBLIC_PARMS_keyedHashDetail x) = wt_TPMS_KEYEDHASH_PARMS x"
  | "wt_TPMU_PUBLIC_PARMS (TPMU_PUBLIC_PARMS_symDetail x) = wt_TPMS_SYMCIPHER_PARMS x"
  | "wt_TPMU_PUBLIC_PARMS (TPMU_PUBLIC_PARMS_rsaDetail x) = wt_TPMS_RSA_PARMS x"
  | "wt_TPMU_PUBLIC_PARMS (TPMU_PUBLIC_PARMS_eccDetail x) = wt_TPMS_ECC_PARMS x"
  | "wt_TPMU_PUBLIC_PARMS (TPMU_PUBLIC_PARMS_mlkemDetail x) = wt_TPMS_MLKEM_PARMS x"
  | "wt_TPMU_PUBLIC_PARMS (TPMU_PUBLIC_PARMS_mldsaDetail x) = wt_TPMS_MLDSA_PARMS x"
  | "wt_TPMU_PUBLIC_PARMS (TPMU_PUBLIC_PARMS_hashMldsaDetail x) = wt_TPMS_HASH_MLDSA_PARMS x"
  | "wt_TPMU_PUBLIC_PARMS (TPMU_PUBLIC_PARMS_asymDetail x) = wt_TPMS_ASYM_PARMS x"

definition get_TPMU_PUBLIC_PARMS_keyedHashDetail :: "TPMU_PUBLIC_PARMS \<Rightarrow> (TPMS_KEYEDHASH_PARMS) option" where
  "get_TPMU_PUBLIC_PARMS_keyedHashDetail u = (case u of TPMU_PUBLIC_PARMS_keyedHashDetail x \<Rightarrow> Some x | _ \<Rightarrow> None)"

definition get_TPMU_PUBLIC_PARMS_symDetail :: "TPMU_PUBLIC_PARMS \<Rightarrow> (TPMS_SYMCIPHER_PARMS) option" where
  "get_TPMU_PUBLIC_PARMS_symDetail u = (case u of TPMU_PUBLIC_PARMS_symDetail x \<Rightarrow> Some x | _ \<Rightarrow> None)"

definition get_TPMU_PUBLIC_PARMS_rsaDetail :: "TPMU_PUBLIC_PARMS \<Rightarrow> (TPMS_RSA_PARMS) option" where
  "get_TPMU_PUBLIC_PARMS_rsaDetail u = (case u of TPMU_PUBLIC_PARMS_rsaDetail x \<Rightarrow> Some x | _ \<Rightarrow> None)"

definition get_TPMU_PUBLIC_PARMS_eccDetail :: "TPMU_PUBLIC_PARMS \<Rightarrow> (TPMS_ECC_PARMS) option" where
  "get_TPMU_PUBLIC_PARMS_eccDetail u = (case u of TPMU_PUBLIC_PARMS_eccDetail x \<Rightarrow> Some x | _ \<Rightarrow> None)"

definition get_TPMU_PUBLIC_PARMS_mlkemDetail :: "TPMU_PUBLIC_PARMS \<Rightarrow> (TPMS_MLKEM_PARMS) option" where
  "get_TPMU_PUBLIC_PARMS_mlkemDetail u = (case u of TPMU_PUBLIC_PARMS_mlkemDetail x \<Rightarrow> Some x | _ \<Rightarrow> None)"

definition get_TPMU_PUBLIC_PARMS_mldsaDetail :: "TPMU_PUBLIC_PARMS \<Rightarrow> (TPMS_MLDSA_PARMS) option" where
  "get_TPMU_PUBLIC_PARMS_mldsaDetail u = (case u of TPMU_PUBLIC_PARMS_mldsaDetail x \<Rightarrow> Some x | _ \<Rightarrow> None)"

definition get_TPMU_PUBLIC_PARMS_hashMldsaDetail :: "TPMU_PUBLIC_PARMS \<Rightarrow> (TPMS_HASH_MLDSA_PARMS) option" where
  "get_TPMU_PUBLIC_PARMS_hashMldsaDetail u = (case u of TPMU_PUBLIC_PARMS_hashMldsaDetail x \<Rightarrow> Some x | _ \<Rightarrow> None)"

definition get_TPMU_PUBLIC_PARMS_asymDetail :: "TPMU_PUBLIC_PARMS \<Rightarrow> (TPMS_ASYM_PARMS) option" where
  "get_TPMU_PUBLIC_PARMS_asymDetail u = (case u of TPMU_PUBLIC_PARMS_asymDetail x \<Rightarrow> Some x | _ \<Rightarrow> None)"

lemma get_TPMU_PUBLIC_PARMS [simp]:
  "get_TPMU_PUBLIC_PARMS_keyedHashDetail u = Some (x0) \<longleftrightarrow> u = TPMU_PUBLIC_PARMS_keyedHashDetail x0"
  "get_TPMU_PUBLIC_PARMS_symDetail u = Some (x1) \<longleftrightarrow> u = TPMU_PUBLIC_PARMS_symDetail x1"
  "get_TPMU_PUBLIC_PARMS_rsaDetail u = Some (x2) \<longleftrightarrow> u = TPMU_PUBLIC_PARMS_rsaDetail x2"
  "get_TPMU_PUBLIC_PARMS_eccDetail u = Some (x3) \<longleftrightarrow> u = TPMU_PUBLIC_PARMS_eccDetail x3"
  "get_TPMU_PUBLIC_PARMS_mlkemDetail u = Some (x4) \<longleftrightarrow> u = TPMU_PUBLIC_PARMS_mlkemDetail x4"
  "get_TPMU_PUBLIC_PARMS_mldsaDetail u = Some (x5) \<longleftrightarrow> u = TPMU_PUBLIC_PARMS_mldsaDetail x5"
  "get_TPMU_PUBLIC_PARMS_hashMldsaDetail u = Some (x6) \<longleftrightarrow> u = TPMU_PUBLIC_PARMS_hashMldsaDetail x6"
  "get_TPMU_PUBLIC_PARMS_asymDetail u = Some (x7) \<longleftrightarrow> u = TPMU_PUBLIC_PARMS_asymDetail x7"
  by (cases u; simp add: get_TPMU_PUBLIC_PARMS_keyedHashDetail_def get_TPMU_PUBLIC_PARMS_symDetail_def get_TPMU_PUBLIC_PARMS_rsaDetail_def get_TPMU_PUBLIC_PARMS_eccDetail_def get_TPMU_PUBLIC_PARMS_mlkemDetail_def get_TPMU_PUBLIC_PARMS_mldsaDetail_def get_TPMU_PUBLIC_PARMS_hashMldsaDetail_def get_TPMU_PUBLIC_PARMS_asymDetail_def)+

lemma wt_zero_TPMU_PUBLIC_PARMS [simp]: "wt_TPMU_PUBLIC_PARMS zero_TPMU_PUBLIC_PARMS"
  by (simp add: zero_TPMU_PUBLIC_PARMS_def)

datatype TPMU_PUBLIC_ID =
    TPMU_PUBLIC_ID_keyedHash "TPM2B"
  | TPMU_PUBLIC_ID_sym "TPM2B"
  | TPMU_PUBLIC_ID_rsa "TPM2B"
  | TPMU_PUBLIC_ID_ecc "TPMS_ECC_POINT"
  | TPMU_PUBLIC_ID_derive "TPMS_DERIVE"
  | TPMU_PUBLIC_ID_mlkem "TPM2B"
  | TPMU_PUBLIC_ID_mldsa "TPM2B"

definition zero_TPMU_PUBLIC_ID :: TPMU_PUBLIC_ID where
  "zero_TPMU_PUBLIC_ID = TPMU_PUBLIC_ID_keyedHash (zero_TPM2B 64)"

primrec wt_TPMU_PUBLIC_ID :: "TPMU_PUBLIC_ID \<Rightarrow> bool" where
    "wt_TPMU_PUBLIC_ID (TPMU_PUBLIC_ID_keyedHash x) = (wt_TPM2B 64) x"
  | "wt_TPMU_PUBLIC_ID (TPMU_PUBLIC_ID_sym x) = (wt_TPM2B 64) x"
  | "wt_TPMU_PUBLIC_ID (TPMU_PUBLIC_ID_rsa x) = (wt_TPM2B 512) x"
  | "wt_TPMU_PUBLIC_ID (TPMU_PUBLIC_ID_ecc x) = wt_TPMS_ECC_POINT x"
  | "wt_TPMU_PUBLIC_ID (TPMU_PUBLIC_ID_derive x) = wt_TPMS_DERIVE x"
  | "wt_TPMU_PUBLIC_ID (TPMU_PUBLIC_ID_mlkem x) = (wt_TPM2B 1568) x"
  | "wt_TPMU_PUBLIC_ID (TPMU_PUBLIC_ID_mldsa x) = (wt_TPM2B 2592) x"

definition get_TPMU_PUBLIC_ID_keyedHash :: "TPMU_PUBLIC_ID \<Rightarrow> (TPM2B) option" where
  "get_TPMU_PUBLIC_ID_keyedHash u = (case u of TPMU_PUBLIC_ID_keyedHash x \<Rightarrow> Some x | _ \<Rightarrow> None)"

definition get_TPMU_PUBLIC_ID_sym :: "TPMU_PUBLIC_ID \<Rightarrow> (TPM2B) option" where
  "get_TPMU_PUBLIC_ID_sym u = (case u of TPMU_PUBLIC_ID_sym x \<Rightarrow> Some x | _ \<Rightarrow> None)"

definition get_TPMU_PUBLIC_ID_rsa :: "TPMU_PUBLIC_ID \<Rightarrow> (TPM2B) option" where
  "get_TPMU_PUBLIC_ID_rsa u = (case u of TPMU_PUBLIC_ID_rsa x \<Rightarrow> Some x | _ \<Rightarrow> None)"

definition get_TPMU_PUBLIC_ID_ecc :: "TPMU_PUBLIC_ID \<Rightarrow> (TPMS_ECC_POINT) option" where
  "get_TPMU_PUBLIC_ID_ecc u = (case u of TPMU_PUBLIC_ID_ecc x \<Rightarrow> Some x | _ \<Rightarrow> None)"

definition get_TPMU_PUBLIC_ID_derive :: "TPMU_PUBLIC_ID \<Rightarrow> (TPMS_DERIVE) option" where
  "get_TPMU_PUBLIC_ID_derive u = (case u of TPMU_PUBLIC_ID_derive x \<Rightarrow> Some x | _ \<Rightarrow> None)"

definition get_TPMU_PUBLIC_ID_mlkem :: "TPMU_PUBLIC_ID \<Rightarrow> (TPM2B) option" where
  "get_TPMU_PUBLIC_ID_mlkem u = (case u of TPMU_PUBLIC_ID_mlkem x \<Rightarrow> Some x | _ \<Rightarrow> None)"

definition get_TPMU_PUBLIC_ID_mldsa :: "TPMU_PUBLIC_ID \<Rightarrow> (TPM2B) option" where
  "get_TPMU_PUBLIC_ID_mldsa u = (case u of TPMU_PUBLIC_ID_mldsa x \<Rightarrow> Some x | _ \<Rightarrow> None)"

lemma get_TPMU_PUBLIC_ID [simp]:
  "get_TPMU_PUBLIC_ID_keyedHash u = Some (x0) \<longleftrightarrow> u = TPMU_PUBLIC_ID_keyedHash x0"
  "get_TPMU_PUBLIC_ID_sym u = Some (x1) \<longleftrightarrow> u = TPMU_PUBLIC_ID_sym x1"
  "get_TPMU_PUBLIC_ID_rsa u = Some (x2) \<longleftrightarrow> u = TPMU_PUBLIC_ID_rsa x2"
  "get_TPMU_PUBLIC_ID_ecc u = Some (x3) \<longleftrightarrow> u = TPMU_PUBLIC_ID_ecc x3"
  "get_TPMU_PUBLIC_ID_derive u = Some (x4) \<longleftrightarrow> u = TPMU_PUBLIC_ID_derive x4"
  "get_TPMU_PUBLIC_ID_mlkem u = Some (x5) \<longleftrightarrow> u = TPMU_PUBLIC_ID_mlkem x5"
  "get_TPMU_PUBLIC_ID_mldsa u = Some (x6) \<longleftrightarrow> u = TPMU_PUBLIC_ID_mldsa x6"
  by (cases u; simp add: get_TPMU_PUBLIC_ID_keyedHash_def get_TPMU_PUBLIC_ID_sym_def get_TPMU_PUBLIC_ID_rsa_def get_TPMU_PUBLIC_ID_ecc_def get_TPMU_PUBLIC_ID_derive_def get_TPMU_PUBLIC_ID_mlkem_def get_TPMU_PUBLIC_ID_mldsa_def)+

lemma wt_zero_TPMU_PUBLIC_ID [simp]: "wt_TPMU_PUBLIC_ID zero_TPMU_PUBLIC_ID"
  by (simp add: zero_TPMU_PUBLIC_ID_def)

record TPMT_PUBLIC =
  TPMT_PUBLIC_type :: "UINT16"
  TPMT_PUBLIC_nameAlg :: "UINT16"
  TPMT_PUBLIC_objectAttributes :: "UINT32"
  TPMT_PUBLIC_authPolicy :: "TPM2B"
  TPMT_PUBLIC_parameters :: "TPMU_PUBLIC_PARMS"
  TPMT_PUBLIC_unique :: "TPMU_PUBLIC_ID"

definition zero_TPMT_PUBLIC :: TPMT_PUBLIC where
  "zero_TPMT_PUBLIC = \<lparr>TPMT_PUBLIC_type = 0,
     TPMT_PUBLIC_nameAlg = 0,
     TPMT_PUBLIC_objectAttributes = 0,
     TPMT_PUBLIC_authPolicy = (zero_TPM2B 64),
     TPMT_PUBLIC_parameters = zero_TPMU_PUBLIC_PARMS,
     TPMT_PUBLIC_unique = zero_TPMU_PUBLIC_ID\<rparr>"

definition wt_TPMT_PUBLIC :: "TPMT_PUBLIC \<Rightarrow> bool" where
  "wt_TPMT_PUBLIC s \<longleftrightarrow> (wt_TPM2B 64) (TPMT_PUBLIC_authPolicy s) \<and>
     wt_TPMU_PUBLIC_PARMS (TPMT_PUBLIC_parameters s) \<and>
     wt_TPMU_PUBLIC_ID (TPMT_PUBLIC_unique s)"

lemma wt_zero_TPMT_PUBLIC [simp]: "wt_TPMT_PUBLIC zero_TPMT_PUBLIC"
  by (simp add: zero_TPMT_PUBLIC_def wt_TPMT_PUBLIC_def)

type_synonym TPM2B_ECC_POINT = "TPMS_ECC_POINT TPM2B_SUBTYPE"

record TPMS_NV_PUBLIC =
  TPMS_NV_PUBLIC_nvIndex :: "UINT32"
  TPMS_NV_PUBLIC_nameAlg :: "UINT16"
  TPMS_NV_PUBLIC_attributes :: "UINT32"
  TPMS_NV_PUBLIC_authPolicy :: "TPM2B"
  TPMS_NV_PUBLIC_dataSize :: "UINT16"

definition zero_TPMS_NV_PUBLIC :: TPMS_NV_PUBLIC where
  "zero_TPMS_NV_PUBLIC = \<lparr>TPMS_NV_PUBLIC_nvIndex = 0,
     TPMS_NV_PUBLIC_nameAlg = 0,
     TPMS_NV_PUBLIC_attributes = 0,
     TPMS_NV_PUBLIC_authPolicy = (zero_TPM2B 64),
     TPMS_NV_PUBLIC_dataSize = 0\<rparr>"

definition wt_TPMS_NV_PUBLIC :: "TPMS_NV_PUBLIC \<Rightarrow> bool" where
  "wt_TPMS_NV_PUBLIC s \<longleftrightarrow> (wt_TPM2B 64) (TPMS_NV_PUBLIC_authPolicy s)"

lemma wt_zero_TPMS_NV_PUBLIC [simp]: "wt_TPMS_NV_PUBLIC zero_TPMS_NV_PUBLIC"
  by (simp add: zero_TPMS_NV_PUBLIC_def wt_TPMS_NV_PUBLIC_def)

type_synonym TPM2B_NV_PUBLIC = "TPMS_NV_PUBLIC TPM2B_SUBTYPE"

record TPMS_SENSITIVE_CREATE =
  TPMS_SENSITIVE_CREATE_userAuth :: "TPM2B"
  TPMS_SENSITIVE_CREATE_data :: "TPM2B"

definition zero_TPMS_SENSITIVE_CREATE :: TPMS_SENSITIVE_CREATE where
  "zero_TPMS_SENSITIVE_CREATE = \<lparr>TPMS_SENSITIVE_CREATE_userAuth = (zero_TPM2B 64),
     TPMS_SENSITIVE_CREATE_data = (zero_TPM2B 256)\<rparr>"

definition wt_TPMS_SENSITIVE_CREATE :: "TPMS_SENSITIVE_CREATE \<Rightarrow> bool" where
  "wt_TPMS_SENSITIVE_CREATE s \<longleftrightarrow> (wt_TPM2B 64) (TPMS_SENSITIVE_CREATE_userAuth s) \<and>
     (wt_TPM2B 256) (TPMS_SENSITIVE_CREATE_data s)"

lemma wt_zero_TPMS_SENSITIVE_CREATE [simp]: "wt_TPMS_SENSITIVE_CREATE zero_TPMS_SENSITIVE_CREATE"
  by (simp add: zero_TPMS_SENSITIVE_CREATE_def wt_TPMS_SENSITIVE_CREATE_def)

type_synonym TPM2B_SENSITIVE_CREATE = "TPMS_SENSITIVE_CREATE TPM2B_SUBTYPE"

record TPMS_CREATION_DATA =
  TPMS_CREATION_DATA_pcrSelect :: "TPML_PCR_SELECTION"
  TPMS_CREATION_DATA_pcrDigest :: "TPM2B"
  TPMS_CREATION_DATA_locality :: "UINT8"
  TPMS_CREATION_DATA_parentNameAlg :: "UINT16"
  TPMS_CREATION_DATA_parentName :: "TPM2B"
  TPMS_CREATION_DATA_parentQualifiedName :: "TPM2B"
  TPMS_CREATION_DATA_outsideInfo :: "TPM2B"

definition zero_TPMS_CREATION_DATA :: TPMS_CREATION_DATA where
  "zero_TPMS_CREATION_DATA = \<lparr>TPMS_CREATION_DATA_pcrSelect = zero_TPML_PCR_SELECTION,
     TPMS_CREATION_DATA_pcrDigest = (zero_TPM2B 64),
     TPMS_CREATION_DATA_locality = 0,
     TPMS_CREATION_DATA_parentNameAlg = 0,
     TPMS_CREATION_DATA_parentName = (zero_TPM2B 68),
     TPMS_CREATION_DATA_parentQualifiedName = (zero_TPM2B 68),
     TPMS_CREATION_DATA_outsideInfo = (zero_TPM2B 64)\<rparr>"

definition wt_TPMS_CREATION_DATA :: "TPMS_CREATION_DATA \<Rightarrow> bool" where
  "wt_TPMS_CREATION_DATA s \<longleftrightarrow> (wt_TPML 16 wt_TPMS_PCR_SELECTION) (TPMS_CREATION_DATA_pcrSelect s) \<and>
     (wt_TPM2B 64) (TPMS_CREATION_DATA_pcrDigest s) \<and>
     (wt_TPM2B 68) (TPMS_CREATION_DATA_parentName s) \<and>
     (wt_TPM2B 68) (TPMS_CREATION_DATA_parentQualifiedName s) \<and>
     (wt_TPM2B 64) (TPMS_CREATION_DATA_outsideInfo s)"

lemma wt_zero_TPMS_CREATION_DATA [simp]: "wt_TPMS_CREATION_DATA zero_TPMS_CREATION_DATA"
  by (simp add: zero_TPMS_CREATION_DATA_def wt_TPMS_CREATION_DATA_def)

type_synonym TPM2B_CREATION_DATA = "TPMS_CREATION_DATA TPM2B_SUBTYPE"

type_synonym TPM2B_PUBLIC = "TPMT_PUBLIC TPM2B_SUBTYPE"

type_synonym TPML_CC = "UINT32 TPML"

definition zero_TPML_CC :: TPML_CC where
  "zero_TPML_CC = \<lparr>TPML_count = 0, TPML_items = replicate 256 0\<rparr>"

lemma wt_zero_TPML_CC [simp]: "wt_TPML 256 (\<lambda>_. True) zero_TPML_CC"
  by (simp add: wt_TPML_def zero_TPML_CC_def)

type_synonym TPML_CCA = "UINT32 TPML"

definition zero_TPML_CCA :: TPML_CCA where
  "zero_TPML_CCA = \<lparr>TPML_count = 0, TPML_items = replicate 256 0\<rparr>"

lemma wt_zero_TPML_CCA [simp]: "wt_TPML 256 (\<lambda>_. True) zero_TPML_CCA"
  by (simp add: wt_TPML_def zero_TPML_CCA_def)

type_synonym TPML_ALG = "UINT16 TPML"

definition zero_TPML_ALG :: TPML_ALG where
  "zero_TPML_ALG = \<lparr>TPML_count = 0, TPML_items = replicate 128 0\<rparr>"

lemma wt_zero_TPML_ALG [simp]: "wt_TPML 128 (\<lambda>_. True) zero_TPML_ALG"
  by (simp add: wt_TPML_def zero_TPML_ALG_def)

type_synonym TPML_HANDLE = "UINT32 TPML"

definition zero_TPML_HANDLE :: TPML_HANDLE where
  "zero_TPML_HANDLE = \<lparr>TPML_count = 0, TPML_items = replicate 254 0\<rparr>"

lemma wt_zero_TPML_HANDLE [simp]: "wt_TPML 254 (\<lambda>_. True) zero_TPML_HANDLE"
  by (simp add: wt_TPML_def zero_TPML_HANDLE_def)

type_synonym TPML_DIGEST = "TPM2B TPML"

definition zero_TPML_DIGEST :: TPML_DIGEST where
  "zero_TPML_DIGEST = \<lparr>TPML_count = 0, TPML_items = replicate 8 (zero_TPM2B 64)\<rparr>"

lemma wt_zero_TPML_DIGEST [simp]: "wt_TPML 8 (wt_TPM2B 64) zero_TPML_DIGEST"
  by (simp add: wt_TPML_def zero_TPML_DIGEST_def)

record TPMS_ALG_PROPERTY =
  TPMS_ALG_PROPERTY_alg :: "UINT16"
  TPMS_ALG_PROPERTY_algProperties :: "UINT32"

definition zero_TPMS_ALG_PROPERTY :: TPMS_ALG_PROPERTY where
  "zero_TPMS_ALG_PROPERTY = \<lparr>TPMS_ALG_PROPERTY_alg = 0,
     TPMS_ALG_PROPERTY_algProperties = 0\<rparr>"

definition wt_TPMS_ALG_PROPERTY :: "TPMS_ALG_PROPERTY \<Rightarrow> bool" where
  "wt_TPMS_ALG_PROPERTY s \<longleftrightarrow> True"

lemma wt_zero_TPMS_ALG_PROPERTY [simp]: "wt_TPMS_ALG_PROPERTY zero_TPMS_ALG_PROPERTY"
  by (simp add: zero_TPMS_ALG_PROPERTY_def wt_TPMS_ALG_PROPERTY_def)

type_synonym TPML_ALG_PROPERTY = "TPMS_ALG_PROPERTY TPML"

definition zero_TPML_ALG_PROPERTY :: TPML_ALG_PROPERTY where
  "zero_TPML_ALG_PROPERTY = \<lparr>TPML_count = 0, TPML_items = replicate 127 zero_TPMS_ALG_PROPERTY\<rparr>"

lemma wt_zero_TPML_ALG_PROPERTY [simp]: "wt_TPML 127 wt_TPMS_ALG_PROPERTY zero_TPML_ALG_PROPERTY"
  by (simp add: wt_TPML_def zero_TPML_ALG_PROPERTY_def)

type_synonym TPML_ECC_CURVE = "UINT16 TPML"

definition zero_TPML_ECC_CURVE :: TPML_ECC_CURVE where
  "zero_TPML_ECC_CURVE = \<lparr>TPML_count = 0, TPML_items = replicate 508 0\<rparr>"

lemma wt_zero_TPML_ECC_CURVE [simp]: "wt_TPML 508 (\<lambda>_. True) zero_TPML_ECC_CURVE"
  by (simp add: wt_TPML_def zero_TPML_ECC_CURVE_def)

record TPMS_TAGGED_PROPERTY =
  TPMS_TAGGED_PROPERTY_property :: "UINT32"
  TPMS_TAGGED_PROPERTY_value :: "UINT32"

definition zero_TPMS_TAGGED_PROPERTY :: TPMS_TAGGED_PROPERTY where
  "zero_TPMS_TAGGED_PROPERTY = \<lparr>TPMS_TAGGED_PROPERTY_property = 0,
     TPMS_TAGGED_PROPERTY_value = 0\<rparr>"

definition wt_TPMS_TAGGED_PROPERTY :: "TPMS_TAGGED_PROPERTY \<Rightarrow> bool" where
  "wt_TPMS_TAGGED_PROPERTY s \<longleftrightarrow> True"

lemma wt_zero_TPMS_TAGGED_PROPERTY [simp]: "wt_TPMS_TAGGED_PROPERTY zero_TPMS_TAGGED_PROPERTY"
  by (simp add: zero_TPMS_TAGGED_PROPERTY_def wt_TPMS_TAGGED_PROPERTY_def)

type_synonym TPML_TAGGED_TPM_PROPERTY = "TPMS_TAGGED_PROPERTY TPML"

definition zero_TPML_TAGGED_TPM_PROPERTY :: TPML_TAGGED_TPM_PROPERTY where
  "zero_TPML_TAGGED_TPM_PROPERTY = \<lparr>TPML_count = 0, TPML_items = replicate 127 zero_TPMS_TAGGED_PROPERTY\<rparr>"

lemma wt_zero_TPML_TAGGED_TPM_PROPERTY [simp]: "wt_TPML 127 wt_TPMS_TAGGED_PROPERTY zero_TPML_TAGGED_TPM_PROPERTY"
  by (simp add: wt_TPML_def zero_TPML_TAGGED_TPM_PROPERTY_def)

record TPMS_TAGGED_PCR_SELECT =
  TPMS_TAGGED_PCR_SELECT_tag :: "UINT32"
  TPMS_TAGGED_PCR_SELECT_sizeofSelect :: "UINT8"
  TPMS_TAGGED_PCR_SELECT_pcrSelect :: "BYTE list"

definition zero_TPMS_TAGGED_PCR_SELECT :: TPMS_TAGGED_PCR_SELECT where
  "zero_TPMS_TAGGED_PCR_SELECT = \<lparr>TPMS_TAGGED_PCR_SELECT_tag = 0,
     TPMS_TAGGED_PCR_SELECT_sizeofSelect = 0,
     TPMS_TAGGED_PCR_SELECT_pcrSelect = (replicate 4 0)\<rparr>"

definition wt_TPMS_TAGGED_PCR_SELECT :: "TPMS_TAGGED_PCR_SELECT \<Rightarrow> bool" where
  "wt_TPMS_TAGGED_PCR_SELECT s \<longleftrightarrow> length (TPMS_TAGGED_PCR_SELECT_pcrSelect s) = 4"

lemma wt_zero_TPMS_TAGGED_PCR_SELECT [simp]: "wt_TPMS_TAGGED_PCR_SELECT zero_TPMS_TAGGED_PCR_SELECT"
  by (simp add: zero_TPMS_TAGGED_PCR_SELECT_def wt_TPMS_TAGGED_PCR_SELECT_def)

type_synonym TPML_TAGGED_PCR_PROPERTY = "TPMS_TAGGED_PCR_SELECT TPML"

definition zero_TPML_TAGGED_PCR_PROPERTY :: TPML_TAGGED_PCR_PROPERTY where
  "zero_TPML_TAGGED_PCR_PROPERTY = \<lparr>TPML_count = 0, TPML_items = replicate 84 zero_TPMS_TAGGED_PCR_SELECT\<rparr>"

lemma wt_zero_TPML_TAGGED_PCR_PROPERTY [simp]: "wt_TPML 84 wt_TPMS_TAGGED_PCR_SELECT zero_TPML_TAGGED_PCR_PROPERTY"
  by (simp add: wt_TPML_def zero_TPML_TAGGED_PCR_PROPERTY_def)

type_synonym TPML_DIGEST_VALUES = "TPMT_HA TPML"

definition zero_TPML_DIGEST_VALUES :: TPML_DIGEST_VALUES where
  "zero_TPML_DIGEST_VALUES = \<lparr>TPML_count = 0, TPML_items = replicate 16 zero_TPMT_HA\<rparr>"

lemma wt_zero_TPML_DIGEST_VALUES [simp]: "wt_TPML 16 wt_TPMT_HA zero_TPML_DIGEST_VALUES"
  by (simp add: wt_TPML_def zero_TPML_DIGEST_VALUES_def)

type_synonym TPML_INTEL_PTT_PROPERTY = "UINT32 TPML"

definition zero_TPML_INTEL_PTT_PROPERTY :: TPML_INTEL_PTT_PROPERTY where
  "zero_TPML_INTEL_PTT_PROPERTY = \<lparr>TPML_count = 0, TPML_items = replicate 256 0\<rparr>"

lemma wt_zero_TPML_INTEL_PTT_PROPERTY [simp]: "wt_TPML 256 (\<lambda>_. True) zero_TPML_INTEL_PTT_PROPERTY"
  by (simp add: wt_TPML_def zero_TPML_INTEL_PTT_PROPERTY_def)

record TPMS_AC_OUTPUT =
  TPMS_AC_OUTPUT_tag :: "UINT32"
  TPMS_AC_OUTPUT_data :: "UINT32"

definition zero_TPMS_AC_OUTPUT :: TPMS_AC_OUTPUT where
  "zero_TPMS_AC_OUTPUT = \<lparr>TPMS_AC_OUTPUT_tag = 0,
     TPMS_AC_OUTPUT_data = 0\<rparr>"

definition wt_TPMS_AC_OUTPUT :: "TPMS_AC_OUTPUT \<Rightarrow> bool" where
  "wt_TPMS_AC_OUTPUT s \<longleftrightarrow> True"

lemma wt_zero_TPMS_AC_OUTPUT [simp]: "wt_TPMS_AC_OUTPUT zero_TPMS_AC_OUTPUT"
  by (simp add: zero_TPMS_AC_OUTPUT_def wt_TPMS_AC_OUTPUT_def)

type_synonym TPML_AC_CAPABILITIES = "TPMS_AC_OUTPUT TPML"

definition zero_TPML_AC_CAPABILITIES :: TPML_AC_CAPABILITIES where
  "zero_TPML_AC_CAPABILITIES = \<lparr>TPML_count = 0, TPML_items = replicate 128 zero_TPMS_AC_OUTPUT\<rparr>"

lemma wt_zero_TPML_AC_CAPABILITIES [simp]: "wt_TPML 128 wt_TPMS_AC_OUTPUT zero_TPML_AC_CAPABILITIES"
  by (simp add: wt_TPML_def zero_TPML_AC_CAPABILITIES_def)

record TPMS_TAGGED_POLICY =
  TPMS_TAGGED_POLICY_handle :: "UINT32"
  TPMS_TAGGED_POLICY_policyHash :: "TPMT_HA"

definition zero_TPMS_TAGGED_POLICY :: TPMS_TAGGED_POLICY where
  "zero_TPMS_TAGGED_POLICY = \<lparr>TPMS_TAGGED_POLICY_handle = 0,
     TPMS_TAGGED_POLICY_policyHash = zero_TPMT_HA\<rparr>"

definition wt_TPMS_TAGGED_POLICY :: "TPMS_TAGGED_POLICY \<Rightarrow> bool" where
  "wt_TPMS_TAGGED_POLICY s \<longleftrightarrow> wt_TPMT_HA (TPMS_TAGGED_POLICY_policyHash s)"

lemma wt_zero_TPMS_TAGGED_POLICY [simp]: "wt_TPMS_TAGGED_POLICY zero_TPMS_TAGGED_POLICY"
  by (simp add: zero_TPMS_TAGGED_POLICY_def wt_TPMS_TAGGED_POLICY_def)

type_synonym TPML_TAGGED_POLICY = "TPMS_TAGGED_POLICY TPML"

definition zero_TPML_TAGGED_POLICY :: TPML_TAGGED_POLICY where
  "zero_TPML_TAGGED_POLICY = \<lparr>TPML_count = 0, TPML_items = replicate 14 zero_TPMS_TAGGED_POLICY\<rparr>"

lemma wt_zero_TPML_TAGGED_POLICY [simp]: "wt_TPML 14 wt_TPMS_TAGGED_POLICY zero_TPML_TAGGED_POLICY"
  by (simp add: wt_TPML_def zero_TPML_TAGGED_POLICY_def)

record TPMS_ACT_DATA =
  TPMS_ACT_DATA_handle :: "UINT32"
  TPMS_ACT_DATA_timeout :: "UINT32"
  TPMS_ACT_DATA_attributes :: "UINT32"

definition zero_TPMS_ACT_DATA :: TPMS_ACT_DATA where
  "zero_TPMS_ACT_DATA = \<lparr>TPMS_ACT_DATA_handle = 0,
     TPMS_ACT_DATA_timeout = 0,
     TPMS_ACT_DATA_attributes = 0\<rparr>"

definition wt_TPMS_ACT_DATA :: "TPMS_ACT_DATA \<Rightarrow> bool" where
  "wt_TPMS_ACT_DATA s \<longleftrightarrow> True"

lemma wt_zero_TPMS_ACT_DATA [simp]: "wt_TPMS_ACT_DATA zero_TPMS_ACT_DATA"
  by (simp add: zero_TPMS_ACT_DATA_def wt_TPMS_ACT_DATA_def)

type_synonym TPML_ACT_DATA = "TPMS_ACT_DATA TPML"

definition zero_TPML_ACT_DATA :: TPML_ACT_DATA where
  "zero_TPML_ACT_DATA = \<lparr>TPML_count = 0, TPML_items = replicate 84 zero_TPMS_ACT_DATA\<rparr>"

lemma wt_zero_TPML_ACT_DATA [simp]: "wt_TPML 84 wt_TPMS_ACT_DATA zero_TPML_ACT_DATA"
  by (simp add: wt_TPML_def zero_TPML_ACT_DATA_def)

type_synonym TPML_ML_PARAMETER_SET = "TPMS_ML_PARAMETER_SET TPML"

definition zero_TPML_ML_PARAMETER_SET :: TPML_ML_PARAMETER_SET where
  "zero_TPML_ML_PARAMETER_SET = \<lparr>TPML_count = 0, TPML_items = replicate 6 zero_TPMS_ML_PARAMETER_SET\<rparr>"

lemma wt_zero_TPML_ML_PARAMETER_SET [simp]: "wt_TPML 6 wt_TPMS_ML_PARAMETER_SET zero_TPML_ML_PARAMETER_SET"
  by (simp add: wt_TPML_def zero_TPML_ML_PARAMETER_SET_def)

record TPMS_PCR_SELECT =
  TPMS_PCR_SELECT_sizeofSelect :: "UINT8"
  TPMS_PCR_SELECT_pcrSelect :: "BYTE list"

definition zero_TPMS_PCR_SELECT :: TPMS_PCR_SELECT where
  "zero_TPMS_PCR_SELECT = \<lparr>TPMS_PCR_SELECT_sizeofSelect = 0,
     TPMS_PCR_SELECT_pcrSelect = (replicate 4 0)\<rparr>"

definition wt_TPMS_PCR_SELECT :: "TPMS_PCR_SELECT \<Rightarrow> bool" where
  "wt_TPMS_PCR_SELECT s \<longleftrightarrow> length (TPMS_PCR_SELECT_pcrSelect s) = 4"

lemma wt_zero_TPMS_PCR_SELECT [simp]: "wt_TPMS_PCR_SELECT zero_TPMS_PCR_SELECT"
  by (simp add: zero_TPMS_PCR_SELECT_def wt_TPMS_PCR_SELECT_def)

record TPMS_AUTH_COMMAND =
  TPMS_AUTH_COMMAND_sessionHandle :: "UINT32"
  TPMS_AUTH_COMMAND_nonce :: "TPM2B"
  TPMS_AUTH_COMMAND_sessionAttributes :: "UINT8"
  TPMS_AUTH_COMMAND_hmac :: "TPM2B"

definition zero_TPMS_AUTH_COMMAND :: TPMS_AUTH_COMMAND where
  "zero_TPMS_AUTH_COMMAND = \<lparr>TPMS_AUTH_COMMAND_sessionHandle = 0,
     TPMS_AUTH_COMMAND_nonce = (zero_TPM2B 64),
     TPMS_AUTH_COMMAND_sessionAttributes = 0,
     TPMS_AUTH_COMMAND_hmac = (zero_TPM2B 64)\<rparr>"

definition wt_TPMS_AUTH_COMMAND :: "TPMS_AUTH_COMMAND \<Rightarrow> bool" where
  "wt_TPMS_AUTH_COMMAND s \<longleftrightarrow> (wt_TPM2B 64) (TPMS_AUTH_COMMAND_nonce s) \<and>
     (wt_TPM2B 64) (TPMS_AUTH_COMMAND_hmac s)"

lemma wt_zero_TPMS_AUTH_COMMAND [simp]: "wt_TPMS_AUTH_COMMAND zero_TPMS_AUTH_COMMAND"
  by (simp add: zero_TPMS_AUTH_COMMAND_def wt_TPMS_AUTH_COMMAND_def)

record TPMS_AUTH_RESPONSE =
  TPMS_AUTH_RESPONSE_nonce :: "TPM2B"
  TPMS_AUTH_RESPONSE_sessionAttributes :: "UINT8"
  TPMS_AUTH_RESPONSE_hmac :: "TPM2B"

definition zero_TPMS_AUTH_RESPONSE :: TPMS_AUTH_RESPONSE where
  "zero_TPMS_AUTH_RESPONSE = \<lparr>TPMS_AUTH_RESPONSE_nonce = (zero_TPM2B 64),
     TPMS_AUTH_RESPONSE_sessionAttributes = 0,
     TPMS_AUTH_RESPONSE_hmac = (zero_TPM2B 64)\<rparr>"

definition wt_TPMS_AUTH_RESPONSE :: "TPMS_AUTH_RESPONSE \<Rightarrow> bool" where
  "wt_TPMS_AUTH_RESPONSE s \<longleftrightarrow> (wt_TPM2B 64) (TPMS_AUTH_RESPONSE_nonce s) \<and>
     (wt_TPM2B 64) (TPMS_AUTH_RESPONSE_hmac s)"

lemma wt_zero_TPMS_AUTH_RESPONSE [simp]: "wt_TPMS_AUTH_RESPONSE zero_TPMS_AUTH_RESPONSE"
  by (simp add: zero_TPMS_AUTH_RESPONSE_def wt_TPMS_AUTH_RESPONSE_def)

record TPMS_SIGNATURE_RSA =
  TPMS_SIGNATURE_RSA_hash :: "UINT16"
  TPMS_SIGNATURE_RSA_sig :: "TPM2B"

definition zero_TPMS_SIGNATURE_RSA :: TPMS_SIGNATURE_RSA where
  "zero_TPMS_SIGNATURE_RSA = \<lparr>TPMS_SIGNATURE_RSA_hash = 0,
     TPMS_SIGNATURE_RSA_sig = (zero_TPM2B 512)\<rparr>"

definition wt_TPMS_SIGNATURE_RSA :: "TPMS_SIGNATURE_RSA \<Rightarrow> bool" where
  "wt_TPMS_SIGNATURE_RSA s \<longleftrightarrow> (wt_TPM2B 512) (TPMS_SIGNATURE_RSA_sig s)"

lemma wt_zero_TPMS_SIGNATURE_RSA [simp]: "wt_TPMS_SIGNATURE_RSA zero_TPMS_SIGNATURE_RSA"
  by (simp add: zero_TPMS_SIGNATURE_RSA_def wt_TPMS_SIGNATURE_RSA_def)

record TPMS_SIGNATURE_ECC =
  TPMS_SIGNATURE_ECC_hash :: "UINT16"
  TPMS_SIGNATURE_ECC_signatureR :: "TPM2B"
  TPMS_SIGNATURE_ECC_signatureS :: "TPM2B"

definition zero_TPMS_SIGNATURE_ECC :: TPMS_SIGNATURE_ECC where
  "zero_TPMS_SIGNATURE_ECC = \<lparr>TPMS_SIGNATURE_ECC_hash = 0,
     TPMS_SIGNATURE_ECC_signatureR = (zero_TPM2B 128),
     TPMS_SIGNATURE_ECC_signatureS = (zero_TPM2B 128)\<rparr>"

definition wt_TPMS_SIGNATURE_ECC :: "TPMS_SIGNATURE_ECC \<Rightarrow> bool" where
  "wt_TPMS_SIGNATURE_ECC s \<longleftrightarrow> (wt_TPM2B 128) (TPMS_SIGNATURE_ECC_signatureR s) \<and>
     (wt_TPM2B 128) (TPMS_SIGNATURE_ECC_signatureS s)"

lemma wt_zero_TPMS_SIGNATURE_ECC [simp]: "wt_TPMS_SIGNATURE_ECC zero_TPMS_SIGNATURE_ECC"
  by (simp add: zero_TPMS_SIGNATURE_ECC_def wt_TPMS_SIGNATURE_ECC_def)

record TPMS_NV_PIN_COUNTER_PARAMETERS =
  TPMS_NV_PIN_COUNTER_PARAMETERS_pinCount :: "UINT32"
  TPMS_NV_PIN_COUNTER_PARAMETERS_pinLimit :: "UINT32"

definition zero_TPMS_NV_PIN_COUNTER_PARAMETERS :: TPMS_NV_PIN_COUNTER_PARAMETERS where
  "zero_TPMS_NV_PIN_COUNTER_PARAMETERS = \<lparr>TPMS_NV_PIN_COUNTER_PARAMETERS_pinCount = 0,
     TPMS_NV_PIN_COUNTER_PARAMETERS_pinLimit = 0\<rparr>"

definition wt_TPMS_NV_PIN_COUNTER_PARAMETERS :: "TPMS_NV_PIN_COUNTER_PARAMETERS \<Rightarrow> bool" where
  "wt_TPMS_NV_PIN_COUNTER_PARAMETERS s \<longleftrightarrow> True"

lemma wt_zero_TPMS_NV_PIN_COUNTER_PARAMETERS [simp]: "wt_TPMS_NV_PIN_COUNTER_PARAMETERS zero_TPMS_NV_PIN_COUNTER_PARAMETERS"
  by (simp add: zero_TPMS_NV_PIN_COUNTER_PARAMETERS_def wt_TPMS_NV_PIN_COUNTER_PARAMETERS_def)

record TPMS_CONTEXT =
  TPMS_CONTEXT_sequence :: "UINT64"
  TPMS_CONTEXT_savedHandle :: "UINT32"
  TPMS_CONTEXT_hierarchy :: "UINT32"
  TPMS_CONTEXT_contextBlob :: "TPM2B"

definition zero_TPMS_CONTEXT :: TPMS_CONTEXT where
  "zero_TPMS_CONTEXT = \<lparr>TPMS_CONTEXT_sequence = 0,
     TPMS_CONTEXT_savedHandle = 0,
     TPMS_CONTEXT_hierarchy = 0,
     TPMS_CONTEXT_contextBlob = (zero_TPM2B 5188)\<rparr>"

definition wt_TPMS_CONTEXT :: "TPMS_CONTEXT \<Rightarrow> bool" where
  "wt_TPMS_CONTEXT s \<longleftrightarrow> (wt_TPM2B 5188) (TPMS_CONTEXT_contextBlob s)"

lemma wt_zero_TPMS_CONTEXT [simp]: "wt_TPMS_CONTEXT zero_TPMS_CONTEXT"
  by (simp add: zero_TPMS_CONTEXT_def wt_TPMS_CONTEXT_def)

record TPMS_SIGNATURE_MLDSA =
  TPMS_SIGNATURE_MLDSA_hash :: "UINT16"
  TPMS_SIGNATURE_MLDSA_sig :: "TPM2B"

definition zero_TPMS_SIGNATURE_MLDSA :: TPMS_SIGNATURE_MLDSA where
  "zero_TPMS_SIGNATURE_MLDSA = \<lparr>TPMS_SIGNATURE_MLDSA_hash = 0,
     TPMS_SIGNATURE_MLDSA_sig = (zero_TPM2B 4627)\<rparr>"

definition wt_TPMS_SIGNATURE_MLDSA :: "TPMS_SIGNATURE_MLDSA \<Rightarrow> bool" where
  "wt_TPMS_SIGNATURE_MLDSA s \<longleftrightarrow> (wt_TPM2B 4627) (TPMS_SIGNATURE_MLDSA_sig s)"

lemma wt_zero_TPMS_SIGNATURE_MLDSA [simp]: "wt_TPMS_SIGNATURE_MLDSA zero_TPMS_SIGNATURE_MLDSA"
  by (simp add: zero_TPMS_SIGNATURE_MLDSA_def wt_TPMS_SIGNATURE_MLDSA_def)

record TPMS_ALGORITHM_DETAIL_ECC =
  TPMS_ALGORITHM_DETAIL_ECC_curveID :: "UINT16"
  TPMS_ALGORITHM_DETAIL_ECC_keySize :: "UINT16"
  TPMS_ALGORITHM_DETAIL_ECC_kdf :: "TPMT_KDF_SCHEME"
  TPMS_ALGORITHM_DETAIL_ECC_sign :: "TPMT_ECC_SCHEME"
  TPMS_ALGORITHM_DETAIL_ECC_p :: "TPM2B"
  TPMS_ALGORITHM_DETAIL_ECC_a :: "TPM2B"
  TPMS_ALGORITHM_DETAIL_ECC_b :: "TPM2B"
  TPMS_ALGORITHM_DETAIL_ECC_gX :: "TPM2B"
  TPMS_ALGORITHM_DETAIL_ECC_gY :: "TPM2B"
  TPMS_ALGORITHM_DETAIL_ECC_n :: "TPM2B"
  TPMS_ALGORITHM_DETAIL_ECC_h :: "TPM2B"

definition zero_TPMS_ALGORITHM_DETAIL_ECC :: TPMS_ALGORITHM_DETAIL_ECC where
  "zero_TPMS_ALGORITHM_DETAIL_ECC = \<lparr>TPMS_ALGORITHM_DETAIL_ECC_curveID = 0,
     TPMS_ALGORITHM_DETAIL_ECC_keySize = 0,
     TPMS_ALGORITHM_DETAIL_ECC_kdf = zero_TPMT_KDF_SCHEME,
     TPMS_ALGORITHM_DETAIL_ECC_sign = zero_TPMT_ECC_SCHEME,
     TPMS_ALGORITHM_DETAIL_ECC_p = (zero_TPM2B 128),
     TPMS_ALGORITHM_DETAIL_ECC_a = (zero_TPM2B 128),
     TPMS_ALGORITHM_DETAIL_ECC_b = (zero_TPM2B 128),
     TPMS_ALGORITHM_DETAIL_ECC_gX = (zero_TPM2B 128),
     TPMS_ALGORITHM_DETAIL_ECC_gY = (zero_TPM2B 128),
     TPMS_ALGORITHM_DETAIL_ECC_n = (zero_TPM2B 128),
     TPMS_ALGORITHM_DETAIL_ECC_h = (zero_TPM2B 128)\<rparr>"

definition wt_TPMS_ALGORITHM_DETAIL_ECC :: "TPMS_ALGORITHM_DETAIL_ECC \<Rightarrow> bool" where
  "wt_TPMS_ALGORITHM_DETAIL_ECC s \<longleftrightarrow> wt_TPMT_KDF_SCHEME (TPMS_ALGORITHM_DETAIL_ECC_kdf s) \<and>
     wt_TPMT_ECC_SCHEME (TPMS_ALGORITHM_DETAIL_ECC_sign s) \<and>
     (wt_TPM2B 128) (TPMS_ALGORITHM_DETAIL_ECC_p s) \<and>
     (wt_TPM2B 128) (TPMS_ALGORITHM_DETAIL_ECC_a s) \<and>
     (wt_TPM2B 128) (TPMS_ALGORITHM_DETAIL_ECC_b s) \<and>
     (wt_TPM2B 128) (TPMS_ALGORITHM_DETAIL_ECC_gX s) \<and>
     (wt_TPM2B 128) (TPMS_ALGORITHM_DETAIL_ECC_gY s) \<and>
     (wt_TPM2B 128) (TPMS_ALGORITHM_DETAIL_ECC_n s) \<and>
     (wt_TPM2B 128) (TPMS_ALGORITHM_DETAIL_ECC_h s)"

lemma wt_zero_TPMS_ALGORITHM_DETAIL_ECC [simp]: "wt_TPMS_ALGORITHM_DETAIL_ECC zero_TPMS_ALGORITHM_DETAIL_ECC"
  by (simp add: zero_TPMS_ALGORITHM_DETAIL_ECC_def wt_TPMS_ALGORITHM_DETAIL_ECC_def)

datatype TPMU_CAPABILITIES =
    TPMU_CAPABILITIES_algorithms "TPML_ALG_PROPERTY"
  | TPMU_CAPABILITIES_handles "TPML_HANDLE"
  | TPMU_CAPABILITIES_command "TPML_CCA"
  | TPMU_CAPABILITIES_ppCommands "TPML_CC"
  | TPMU_CAPABILITIES_auditCommands "TPML_CC"
  | TPMU_CAPABILITIES_assignedPCR "TPML_PCR_SELECTION"
  | TPMU_CAPABILITIES_tpmProperties "TPML_TAGGED_TPM_PROPERTY"
  | TPMU_CAPABILITIES_pcrProperties "TPML_TAGGED_PCR_PROPERTY"
  | TPMU_CAPABILITIES_eccCurves "TPML_ECC_CURVE"
  | TPMU_CAPABILITIES_authPolicies "TPML_TAGGED_POLICY"
  | TPMU_CAPABILITIES_actData "TPML_ACT_DATA"
  | TPMU_CAPABILITIES_vendor "TPM2B"

definition zero_TPMU_CAPABILITIES :: TPMU_CAPABILITIES where
  "zero_TPMU_CAPABILITIES = TPMU_CAPABILITIES_algorithms zero_TPML_ALG_PROPERTY"

primrec wt_TPMU_CAPABILITIES :: "TPMU_CAPABILITIES \<Rightarrow> bool" where
    "wt_TPMU_CAPABILITIES (TPMU_CAPABILITIES_algorithms x) = (wt_TPML 127 wt_TPMS_ALG_PROPERTY) x"
  | "wt_TPMU_CAPABILITIES (TPMU_CAPABILITIES_handles x) = (wt_TPML 254 (\<lambda>_. True)) x"
  | "wt_TPMU_CAPABILITIES (TPMU_CAPABILITIES_command x) = (wt_TPML 256 (\<lambda>_. True)) x"
  | "wt_TPMU_CAPABILITIES (TPMU_CAPABILITIES_ppCommands x) = (wt_TPML 256 (\<lambda>_. True)) x"
  | "wt_TPMU_CAPABILITIES (TPMU_CAPABILITIES_auditCommands x) = (wt_TPML 256 (\<lambda>_. True)) x"
  | "wt_TPMU_CAPABILITIES (TPMU_CAPABILITIES_assignedPCR x) = (wt_TPML 16 wt_TPMS_PCR_SELECTION) x"
  | "wt_TPMU_CAPABILITIES (TPMU_CAPABILITIES_tpmProperties x) = (wt_TPML 127 wt_TPMS_TAGGED_PROPERTY) x"
  | "wt_TPMU_CAPABILITIES (TPMU_CAPABILITIES_pcrProperties x) = (wt_TPML 84 wt_TPMS_TAGGED_PCR_SELECT) x"
  | "wt_TPMU_CAPABILITIES (TPMU_CAPABILITIES_eccCurves x) = (wt_TPML 508 (\<lambda>_. True)) x"
  | "wt_TPMU_CAPABILITIES (TPMU_CAPABILITIES_authPolicies x) = (wt_TPML 14 wt_TPMS_TAGGED_POLICY) x"
  | "wt_TPMU_CAPABILITIES (TPMU_CAPABILITIES_actData x) = (wt_TPML 84 wt_TPMS_ACT_DATA) x"
  | "wt_TPMU_CAPABILITIES (TPMU_CAPABILITIES_vendor x) = (wt_TPM2B 1024) x"

definition get_TPMU_CAPABILITIES_algorithms :: "TPMU_CAPABILITIES \<Rightarrow> (TPML_ALG_PROPERTY) option" where
  "get_TPMU_CAPABILITIES_algorithms u = (case u of TPMU_CAPABILITIES_algorithms x \<Rightarrow> Some x | _ \<Rightarrow> None)"

definition get_TPMU_CAPABILITIES_handles :: "TPMU_CAPABILITIES \<Rightarrow> (TPML_HANDLE) option" where
  "get_TPMU_CAPABILITIES_handles u = (case u of TPMU_CAPABILITIES_handles x \<Rightarrow> Some x | _ \<Rightarrow> None)"

definition get_TPMU_CAPABILITIES_command :: "TPMU_CAPABILITIES \<Rightarrow> (TPML_CCA) option" where
  "get_TPMU_CAPABILITIES_command u = (case u of TPMU_CAPABILITIES_command x \<Rightarrow> Some x | _ \<Rightarrow> None)"

definition get_TPMU_CAPABILITIES_ppCommands :: "TPMU_CAPABILITIES \<Rightarrow> (TPML_CC) option" where
  "get_TPMU_CAPABILITIES_ppCommands u = (case u of TPMU_CAPABILITIES_ppCommands x \<Rightarrow> Some x | _ \<Rightarrow> None)"

definition get_TPMU_CAPABILITIES_auditCommands :: "TPMU_CAPABILITIES \<Rightarrow> (TPML_CC) option" where
  "get_TPMU_CAPABILITIES_auditCommands u = (case u of TPMU_CAPABILITIES_auditCommands x \<Rightarrow> Some x | _ \<Rightarrow> None)"

definition get_TPMU_CAPABILITIES_assignedPCR :: "TPMU_CAPABILITIES \<Rightarrow> (TPML_PCR_SELECTION) option" where
  "get_TPMU_CAPABILITIES_assignedPCR u = (case u of TPMU_CAPABILITIES_assignedPCR x \<Rightarrow> Some x | _ \<Rightarrow> None)"

definition get_TPMU_CAPABILITIES_tpmProperties :: "TPMU_CAPABILITIES \<Rightarrow> (TPML_TAGGED_TPM_PROPERTY) option" where
  "get_TPMU_CAPABILITIES_tpmProperties u = (case u of TPMU_CAPABILITIES_tpmProperties x \<Rightarrow> Some x | _ \<Rightarrow> None)"

definition get_TPMU_CAPABILITIES_pcrProperties :: "TPMU_CAPABILITIES \<Rightarrow> (TPML_TAGGED_PCR_PROPERTY) option" where
  "get_TPMU_CAPABILITIES_pcrProperties u = (case u of TPMU_CAPABILITIES_pcrProperties x \<Rightarrow> Some x | _ \<Rightarrow> None)"

definition get_TPMU_CAPABILITIES_eccCurves :: "TPMU_CAPABILITIES \<Rightarrow> (TPML_ECC_CURVE) option" where
  "get_TPMU_CAPABILITIES_eccCurves u = (case u of TPMU_CAPABILITIES_eccCurves x \<Rightarrow> Some x | _ \<Rightarrow> None)"

definition get_TPMU_CAPABILITIES_authPolicies :: "TPMU_CAPABILITIES \<Rightarrow> (TPML_TAGGED_POLICY) option" where
  "get_TPMU_CAPABILITIES_authPolicies u = (case u of TPMU_CAPABILITIES_authPolicies x \<Rightarrow> Some x | _ \<Rightarrow> None)"

definition get_TPMU_CAPABILITIES_actData :: "TPMU_CAPABILITIES \<Rightarrow> (TPML_ACT_DATA) option" where
  "get_TPMU_CAPABILITIES_actData u = (case u of TPMU_CAPABILITIES_actData x \<Rightarrow> Some x | _ \<Rightarrow> None)"

definition get_TPMU_CAPABILITIES_vendor :: "TPMU_CAPABILITIES \<Rightarrow> (TPM2B) option" where
  "get_TPMU_CAPABILITIES_vendor u = (case u of TPMU_CAPABILITIES_vendor x \<Rightarrow> Some x | _ \<Rightarrow> None)"

lemma get_TPMU_CAPABILITIES [simp]:
  "get_TPMU_CAPABILITIES_algorithms u = Some (x0) \<longleftrightarrow> u = TPMU_CAPABILITIES_algorithms x0"
  "get_TPMU_CAPABILITIES_handles u = Some (x1) \<longleftrightarrow> u = TPMU_CAPABILITIES_handles x1"
  "get_TPMU_CAPABILITIES_command u = Some (x2) \<longleftrightarrow> u = TPMU_CAPABILITIES_command x2"
  "get_TPMU_CAPABILITIES_ppCommands u = Some (x3) \<longleftrightarrow> u = TPMU_CAPABILITIES_ppCommands x3"
  "get_TPMU_CAPABILITIES_auditCommands u = Some (x4) \<longleftrightarrow> u = TPMU_CAPABILITIES_auditCommands x4"
  "get_TPMU_CAPABILITIES_assignedPCR u = Some (x5) \<longleftrightarrow> u = TPMU_CAPABILITIES_assignedPCR x5"
  "get_TPMU_CAPABILITIES_tpmProperties u = Some (x6) \<longleftrightarrow> u = TPMU_CAPABILITIES_tpmProperties x6"
  "get_TPMU_CAPABILITIES_pcrProperties u = Some (x7) \<longleftrightarrow> u = TPMU_CAPABILITIES_pcrProperties x7"
  "get_TPMU_CAPABILITIES_eccCurves u = Some (x8) \<longleftrightarrow> u = TPMU_CAPABILITIES_eccCurves x8"
  "get_TPMU_CAPABILITIES_authPolicies u = Some (x9) \<longleftrightarrow> u = TPMU_CAPABILITIES_authPolicies x9"
  "get_TPMU_CAPABILITIES_actData u = Some (x10) \<longleftrightarrow> u = TPMU_CAPABILITIES_actData x10"
  "get_TPMU_CAPABILITIES_vendor u = Some (x11) \<longleftrightarrow> u = TPMU_CAPABILITIES_vendor x11"
  by (cases u; simp add: get_TPMU_CAPABILITIES_algorithms_def get_TPMU_CAPABILITIES_handles_def get_TPMU_CAPABILITIES_command_def get_TPMU_CAPABILITIES_ppCommands_def get_TPMU_CAPABILITIES_auditCommands_def get_TPMU_CAPABILITIES_assignedPCR_def get_TPMU_CAPABILITIES_tpmProperties_def get_TPMU_CAPABILITIES_pcrProperties_def get_TPMU_CAPABILITIES_eccCurves_def get_TPMU_CAPABILITIES_authPolicies_def get_TPMU_CAPABILITIES_actData_def get_TPMU_CAPABILITIES_vendor_def)+

lemma wt_zero_TPMU_CAPABILITIES [simp]: "wt_TPMU_CAPABILITIES zero_TPMU_CAPABILITIES"
  by (simp add: zero_TPMU_CAPABILITIES_def)

record TPMS_CAPABILITY_DATA =
  TPMS_CAPABILITY_DATA_capability :: "UINT32"
  TPMS_CAPABILITY_DATA_data :: "TPMU_CAPABILITIES"

definition zero_TPMS_CAPABILITY_DATA :: TPMS_CAPABILITY_DATA where
  "zero_TPMS_CAPABILITY_DATA = \<lparr>TPMS_CAPABILITY_DATA_capability = 0,
     TPMS_CAPABILITY_DATA_data = zero_TPMU_CAPABILITIES\<rparr>"

definition wt_TPMS_CAPABILITY_DATA :: "TPMS_CAPABILITY_DATA \<Rightarrow> bool" where
  "wt_TPMS_CAPABILITY_DATA s \<longleftrightarrow> wt_TPMU_CAPABILITIES (TPMS_CAPABILITY_DATA_data s)"

lemma wt_zero_TPMS_CAPABILITY_DATA [simp]: "wt_TPMS_CAPABILITY_DATA zero_TPMS_CAPABILITY_DATA"
  by (simp add: zero_TPMS_CAPABILITY_DATA_def wt_TPMS_CAPABILITY_DATA_def)

record TPMS_NV_DIGEST_CERTIFY_INFO =
  TPMS_NV_DIGEST_CERTIFY_INFO_indexName :: "TPM2B"
  TPMS_NV_DIGEST_CERTIFY_INFO_nvDigest :: "TPM2B"

definition zero_TPMS_NV_DIGEST_CERTIFY_INFO :: TPMS_NV_DIGEST_CERTIFY_INFO where
  "zero_TPMS_NV_DIGEST_CERTIFY_INFO = \<lparr>TPMS_NV_DIGEST_CERTIFY_INFO_indexName = (zero_TPM2B 68),
     TPMS_NV_DIGEST_CERTIFY_INFO_nvDigest = (zero_TPM2B 64)\<rparr>"

definition wt_TPMS_NV_DIGEST_CERTIFY_INFO :: "TPMS_NV_DIGEST_CERTIFY_INFO \<Rightarrow> bool" where
  "wt_TPMS_NV_DIGEST_CERTIFY_INFO s \<longleftrightarrow> (wt_TPM2B 68) (TPMS_NV_DIGEST_CERTIFY_INFO_indexName s) \<and>
     (wt_TPM2B 64) (TPMS_NV_DIGEST_CERTIFY_INFO_nvDigest s)"

lemma wt_zero_TPMS_NV_DIGEST_CERTIFY_INFO [simp]: "wt_TPMS_NV_DIGEST_CERTIFY_INFO zero_TPMS_NV_DIGEST_CERTIFY_INFO"
  by (simp add: zero_TPMS_NV_DIGEST_CERTIFY_INFO_def wt_TPMS_NV_DIGEST_CERTIFY_INFO_def)

datatype TPMU_SIG_SCHEME =
    TPMU_SIG_SCHEME_rsassa "TPMS_SCHEME_HASH"
  | TPMU_SIG_SCHEME_rsapss "TPMS_SCHEME_HASH"
  | TPMU_SIG_SCHEME_ecdsa "TPMS_SCHEME_HASH"
  | TPMU_SIG_SCHEME_ecdaa "TPMS_SCHEME_ECDAA"
  | TPMU_SIG_SCHEME_sm2 "TPMS_SCHEME_HASH"
  | TPMU_SIG_SCHEME_ecschnorr "TPMS_SCHEME_HASH"
  | TPMU_SIG_SCHEME_hmac "TPMS_SCHEME_HASH"
  | TPMU_SIG_SCHEME_any "TPMS_SCHEME_HASH"
  | TPMU_SIG_SCHEME_null "TPMS_EMPTY"

definition zero_TPMU_SIG_SCHEME :: TPMU_SIG_SCHEME where
  "zero_TPMU_SIG_SCHEME = TPMU_SIG_SCHEME_rsassa zero_TPMS_SCHEME_HASH"

primrec wt_TPMU_SIG_SCHEME :: "TPMU_SIG_SCHEME \<Rightarrow> bool" where
    "wt_TPMU_SIG_SCHEME (TPMU_SIG_SCHEME_rsassa x) = wt_TPMS_SCHEME_HASH x"
  | "wt_TPMU_SIG_SCHEME (TPMU_SIG_SCHEME_rsapss x) = wt_TPMS_SCHEME_HASH x"
  | "wt_TPMU_SIG_SCHEME (TPMU_SIG_SCHEME_ecdsa x) = wt_TPMS_SCHEME_HASH x"
  | "wt_TPMU_SIG_SCHEME (TPMU_SIG_SCHEME_ecdaa x) = wt_TPMS_SCHEME_ECDAA x"
  | "wt_TPMU_SIG_SCHEME (TPMU_SIG_SCHEME_sm2 x) = wt_TPMS_SCHEME_HASH x"
  | "wt_TPMU_SIG_SCHEME (TPMU_SIG_SCHEME_ecschnorr x) = wt_TPMS_SCHEME_HASH x"
  | "wt_TPMU_SIG_SCHEME (TPMU_SIG_SCHEME_hmac x) = wt_TPMS_SCHEME_HASH x"
  | "wt_TPMU_SIG_SCHEME (TPMU_SIG_SCHEME_any x) = wt_TPMS_SCHEME_HASH x"
  | "wt_TPMU_SIG_SCHEME (TPMU_SIG_SCHEME_null x) = wt_TPMS_EMPTY x"

definition get_TPMU_SIG_SCHEME_rsassa :: "TPMU_SIG_SCHEME \<Rightarrow> (TPMS_SCHEME_HASH) option" where
  "get_TPMU_SIG_SCHEME_rsassa u = (case u of TPMU_SIG_SCHEME_rsassa x \<Rightarrow> Some x | _ \<Rightarrow> None)"

definition get_TPMU_SIG_SCHEME_rsapss :: "TPMU_SIG_SCHEME \<Rightarrow> (TPMS_SCHEME_HASH) option" where
  "get_TPMU_SIG_SCHEME_rsapss u = (case u of TPMU_SIG_SCHEME_rsapss x \<Rightarrow> Some x | _ \<Rightarrow> None)"

definition get_TPMU_SIG_SCHEME_ecdsa :: "TPMU_SIG_SCHEME \<Rightarrow> (TPMS_SCHEME_HASH) option" where
  "get_TPMU_SIG_SCHEME_ecdsa u = (case u of TPMU_SIG_SCHEME_ecdsa x \<Rightarrow> Some x | _ \<Rightarrow> None)"

definition get_TPMU_SIG_SCHEME_ecdaa :: "TPMU_SIG_SCHEME \<Rightarrow> (TPMS_SCHEME_ECDAA) option" where
  "get_TPMU_SIG_SCHEME_ecdaa u = (case u of TPMU_SIG_SCHEME_ecdaa x \<Rightarrow> Some x | _ \<Rightarrow> None)"

definition get_TPMU_SIG_SCHEME_sm2 :: "TPMU_SIG_SCHEME \<Rightarrow> (TPMS_SCHEME_HASH) option" where
  "get_TPMU_SIG_SCHEME_sm2 u = (case u of TPMU_SIG_SCHEME_sm2 x \<Rightarrow> Some x | _ \<Rightarrow> None)"

definition get_TPMU_SIG_SCHEME_ecschnorr :: "TPMU_SIG_SCHEME \<Rightarrow> (TPMS_SCHEME_HASH) option" where
  "get_TPMU_SIG_SCHEME_ecschnorr u = (case u of TPMU_SIG_SCHEME_ecschnorr x \<Rightarrow> Some x | _ \<Rightarrow> None)"

definition get_TPMU_SIG_SCHEME_hmac :: "TPMU_SIG_SCHEME \<Rightarrow> (TPMS_SCHEME_HASH) option" where
  "get_TPMU_SIG_SCHEME_hmac u = (case u of TPMU_SIG_SCHEME_hmac x \<Rightarrow> Some x | _ \<Rightarrow> None)"

definition get_TPMU_SIG_SCHEME_any :: "TPMU_SIG_SCHEME \<Rightarrow> (TPMS_SCHEME_HASH) option" where
  "get_TPMU_SIG_SCHEME_any u = (case u of TPMU_SIG_SCHEME_any x \<Rightarrow> Some x | _ \<Rightarrow> None)"

definition get_TPMU_SIG_SCHEME_null :: "TPMU_SIG_SCHEME \<Rightarrow> (TPMS_EMPTY) option" where
  "get_TPMU_SIG_SCHEME_null u = (case u of TPMU_SIG_SCHEME_null x \<Rightarrow> Some x | _ \<Rightarrow> None)"

lemma get_TPMU_SIG_SCHEME [simp]:
  "get_TPMU_SIG_SCHEME_rsassa u = Some (x0) \<longleftrightarrow> u = TPMU_SIG_SCHEME_rsassa x0"
  "get_TPMU_SIG_SCHEME_rsapss u = Some (x1) \<longleftrightarrow> u = TPMU_SIG_SCHEME_rsapss x1"
  "get_TPMU_SIG_SCHEME_ecdsa u = Some (x2) \<longleftrightarrow> u = TPMU_SIG_SCHEME_ecdsa x2"
  "get_TPMU_SIG_SCHEME_ecdaa u = Some (x3) \<longleftrightarrow> u = TPMU_SIG_SCHEME_ecdaa x3"
  "get_TPMU_SIG_SCHEME_sm2 u = Some (x4) \<longleftrightarrow> u = TPMU_SIG_SCHEME_sm2 x4"
  "get_TPMU_SIG_SCHEME_ecschnorr u = Some (x5) \<longleftrightarrow> u = TPMU_SIG_SCHEME_ecschnorr x5"
  "get_TPMU_SIG_SCHEME_hmac u = Some (x6) \<longleftrightarrow> u = TPMU_SIG_SCHEME_hmac x6"
  "get_TPMU_SIG_SCHEME_any u = Some (x7) \<longleftrightarrow> u = TPMU_SIG_SCHEME_any x7"
  "get_TPMU_SIG_SCHEME_null u = Some (x8) \<longleftrightarrow> u = TPMU_SIG_SCHEME_null x8"
  by (cases u; simp add: get_TPMU_SIG_SCHEME_rsassa_def get_TPMU_SIG_SCHEME_rsapss_def get_TPMU_SIG_SCHEME_ecdsa_def get_TPMU_SIG_SCHEME_ecdaa_def get_TPMU_SIG_SCHEME_sm2_def get_TPMU_SIG_SCHEME_ecschnorr_def get_TPMU_SIG_SCHEME_hmac_def get_TPMU_SIG_SCHEME_any_def get_TPMU_SIG_SCHEME_null_def)+

lemma wt_zero_TPMU_SIG_SCHEME [simp]: "wt_TPMU_SIG_SCHEME zero_TPMU_SIG_SCHEME"
  by (simp add: zero_TPMU_SIG_SCHEME_def)

datatype TPMU_SIGNATURE =
    TPMU_SIGNATURE_rsassa "TPMS_SIGNATURE_RSA"
  | TPMU_SIGNATURE_rsapss "TPMS_SIGNATURE_RSA"
  | TPMU_SIGNATURE_ecdsa "TPMS_SIGNATURE_ECC"
  | TPMU_SIGNATURE_ecdaa "TPMS_SIGNATURE_ECC"
  | TPMU_SIGNATURE_sm2 "TPMS_SIGNATURE_ECC"
  | TPMU_SIGNATURE_ecschnorr "TPMS_SIGNATURE_ECC"
  | TPMU_SIGNATURE_mldsa "TPMS_SIGNATURE_MLDSA"
  | TPMU_SIGNATURE_hmac "TPMT_HA"
  | TPMU_SIGNATURE_any "TPMS_SCHEME_HASH"
  | TPMU_SIGNATURE_null "TPMS_EMPTY"

definition zero_TPMU_SIGNATURE :: TPMU_SIGNATURE where
  "zero_TPMU_SIGNATURE = TPMU_SIGNATURE_rsassa zero_TPMS_SIGNATURE_RSA"

primrec wt_TPMU_SIGNATURE :: "TPMU_SIGNATURE \<Rightarrow> bool" where
    "wt_TPMU_SIGNATURE (TPMU_SIGNATURE_rsassa x) = wt_TPMS_SIGNATURE_RSA x"
  | "wt_TPMU_SIGNATURE (TPMU_SIGNATURE_rsapss x) = wt_TPMS_SIGNATURE_RSA x"
  | "wt_TPMU_SIGNATURE (TPMU_SIGNATURE_ecdsa x) = wt_TPMS_SIGNATURE_ECC x"
  | "wt_TPMU_SIGNATURE (TPMU_SIGNATURE_ecdaa x) = wt_TPMS_SIGNATURE_ECC x"
  | "wt_TPMU_SIGNATURE (TPMU_SIGNATURE_sm2 x) = wt_TPMS_SIGNATURE_ECC x"
  | "wt_TPMU_SIGNATURE (TPMU_SIGNATURE_ecschnorr x) = wt_TPMS_SIGNATURE_ECC x"
  | "wt_TPMU_SIGNATURE (TPMU_SIGNATURE_mldsa x) = wt_TPMS_SIGNATURE_MLDSA x"
  | "wt_TPMU_SIGNATURE (TPMU_SIGNATURE_hmac x) = wt_TPMT_HA x"
  | "wt_TPMU_SIGNATURE (TPMU_SIGNATURE_any x) = wt_TPMS_SCHEME_HASH x"
  | "wt_TPMU_SIGNATURE (TPMU_SIGNATURE_null x) = wt_TPMS_EMPTY x"

definition get_TPMU_SIGNATURE_rsassa :: "TPMU_SIGNATURE \<Rightarrow> (TPMS_SIGNATURE_RSA) option" where
  "get_TPMU_SIGNATURE_rsassa u = (case u of TPMU_SIGNATURE_rsassa x \<Rightarrow> Some x | _ \<Rightarrow> None)"

definition get_TPMU_SIGNATURE_rsapss :: "TPMU_SIGNATURE \<Rightarrow> (TPMS_SIGNATURE_RSA) option" where
  "get_TPMU_SIGNATURE_rsapss u = (case u of TPMU_SIGNATURE_rsapss x \<Rightarrow> Some x | _ \<Rightarrow> None)"

definition get_TPMU_SIGNATURE_ecdsa :: "TPMU_SIGNATURE \<Rightarrow> (TPMS_SIGNATURE_ECC) option" where
  "get_TPMU_SIGNATURE_ecdsa u = (case u of TPMU_SIGNATURE_ecdsa x \<Rightarrow> Some x | _ \<Rightarrow> None)"

definition get_TPMU_SIGNATURE_ecdaa :: "TPMU_SIGNATURE \<Rightarrow> (TPMS_SIGNATURE_ECC) option" where
  "get_TPMU_SIGNATURE_ecdaa u = (case u of TPMU_SIGNATURE_ecdaa x \<Rightarrow> Some x | _ \<Rightarrow> None)"

definition get_TPMU_SIGNATURE_sm2 :: "TPMU_SIGNATURE \<Rightarrow> (TPMS_SIGNATURE_ECC) option" where
  "get_TPMU_SIGNATURE_sm2 u = (case u of TPMU_SIGNATURE_sm2 x \<Rightarrow> Some x | _ \<Rightarrow> None)"

definition get_TPMU_SIGNATURE_ecschnorr :: "TPMU_SIGNATURE \<Rightarrow> (TPMS_SIGNATURE_ECC) option" where
  "get_TPMU_SIGNATURE_ecschnorr u = (case u of TPMU_SIGNATURE_ecschnorr x \<Rightarrow> Some x | _ \<Rightarrow> None)"

definition get_TPMU_SIGNATURE_mldsa :: "TPMU_SIGNATURE \<Rightarrow> (TPMS_SIGNATURE_MLDSA) option" where
  "get_TPMU_SIGNATURE_mldsa u = (case u of TPMU_SIGNATURE_mldsa x \<Rightarrow> Some x | _ \<Rightarrow> None)"

definition get_TPMU_SIGNATURE_hmac :: "TPMU_SIGNATURE \<Rightarrow> (TPMT_HA) option" where
  "get_TPMU_SIGNATURE_hmac u = (case u of TPMU_SIGNATURE_hmac x \<Rightarrow> Some x | _ \<Rightarrow> None)"

definition get_TPMU_SIGNATURE_any :: "TPMU_SIGNATURE \<Rightarrow> (TPMS_SCHEME_HASH) option" where
  "get_TPMU_SIGNATURE_any u = (case u of TPMU_SIGNATURE_any x \<Rightarrow> Some x | _ \<Rightarrow> None)"

definition get_TPMU_SIGNATURE_null :: "TPMU_SIGNATURE \<Rightarrow> (TPMS_EMPTY) option" where
  "get_TPMU_SIGNATURE_null u = (case u of TPMU_SIGNATURE_null x \<Rightarrow> Some x | _ \<Rightarrow> None)"

lemma get_TPMU_SIGNATURE [simp]:
  "get_TPMU_SIGNATURE_rsassa u = Some (x0) \<longleftrightarrow> u = TPMU_SIGNATURE_rsassa x0"
  "get_TPMU_SIGNATURE_rsapss u = Some (x1) \<longleftrightarrow> u = TPMU_SIGNATURE_rsapss x1"
  "get_TPMU_SIGNATURE_ecdsa u = Some (x2) \<longleftrightarrow> u = TPMU_SIGNATURE_ecdsa x2"
  "get_TPMU_SIGNATURE_ecdaa u = Some (x3) \<longleftrightarrow> u = TPMU_SIGNATURE_ecdaa x3"
  "get_TPMU_SIGNATURE_sm2 u = Some (x4) \<longleftrightarrow> u = TPMU_SIGNATURE_sm2 x4"
  "get_TPMU_SIGNATURE_ecschnorr u = Some (x5) \<longleftrightarrow> u = TPMU_SIGNATURE_ecschnorr x5"
  "get_TPMU_SIGNATURE_mldsa u = Some (x6) \<longleftrightarrow> u = TPMU_SIGNATURE_mldsa x6"
  "get_TPMU_SIGNATURE_hmac u = Some (x7) \<longleftrightarrow> u = TPMU_SIGNATURE_hmac x7"
  "get_TPMU_SIGNATURE_any u = Some (x8) \<longleftrightarrow> u = TPMU_SIGNATURE_any x8"
  "get_TPMU_SIGNATURE_null u = Some (x9) \<longleftrightarrow> u = TPMU_SIGNATURE_null x9"
  by (cases u; simp add: get_TPMU_SIGNATURE_rsassa_def get_TPMU_SIGNATURE_rsapss_def get_TPMU_SIGNATURE_ecdsa_def get_TPMU_SIGNATURE_ecdaa_def get_TPMU_SIGNATURE_sm2_def get_TPMU_SIGNATURE_ecschnorr_def get_TPMU_SIGNATURE_mldsa_def get_TPMU_SIGNATURE_hmac_def get_TPMU_SIGNATURE_any_def get_TPMU_SIGNATURE_null_def)+

lemma wt_zero_TPMU_SIGNATURE [simp]: "wt_TPMU_SIGNATURE zero_TPMU_SIGNATURE"
  by (simp add: zero_TPMU_SIGNATURE_def)

record TPMT_SYM_DEF =
  TPMT_SYM_DEF_algorithm :: "UINT16"
  TPMT_SYM_DEF_keyBits :: "TPMU_SYM_KEY_BITS"
  TPMT_SYM_DEF_mode :: "TPMU_SYM_MODE"

definition zero_TPMT_SYM_DEF :: TPMT_SYM_DEF where
  "zero_TPMT_SYM_DEF = \<lparr>TPMT_SYM_DEF_algorithm = 0,
     TPMT_SYM_DEF_keyBits = zero_TPMU_SYM_KEY_BITS,
     TPMT_SYM_DEF_mode = zero_TPMU_SYM_MODE\<rparr>"

definition wt_TPMT_SYM_DEF :: "TPMT_SYM_DEF \<Rightarrow> bool" where
  "wt_TPMT_SYM_DEF s \<longleftrightarrow> wt_TPMU_SYM_KEY_BITS (TPMT_SYM_DEF_keyBits s) \<and>
     wt_TPMU_SYM_MODE (TPMT_SYM_DEF_mode s)"

lemma wt_zero_TPMT_SYM_DEF [simp]: "wt_TPMT_SYM_DEF zero_TPMT_SYM_DEF"
  by (simp add: zero_TPMT_SYM_DEF_def wt_TPMT_SYM_DEF_def)

record TPMT_SIG_SCHEME =
  TPMT_SIG_SCHEME_scheme :: "UINT16"
  TPMT_SIG_SCHEME_details :: "TPMU_SIG_SCHEME"

definition zero_TPMT_SIG_SCHEME :: TPMT_SIG_SCHEME where
  "zero_TPMT_SIG_SCHEME = \<lparr>TPMT_SIG_SCHEME_scheme = 0,
     TPMT_SIG_SCHEME_details = zero_TPMU_SIG_SCHEME\<rparr>"

definition wt_TPMT_SIG_SCHEME :: "TPMT_SIG_SCHEME \<Rightarrow> bool" where
  "wt_TPMT_SIG_SCHEME s \<longleftrightarrow> wt_TPMU_SIG_SCHEME (TPMT_SIG_SCHEME_details s)"

lemma wt_zero_TPMT_SIG_SCHEME [simp]: "wt_TPMT_SIG_SCHEME zero_TPMT_SIG_SCHEME"
  by (simp add: zero_TPMT_SIG_SCHEME_def wt_TPMT_SIG_SCHEME_def)

record TPMT_RSA_DECRYPT =
  TPMT_RSA_DECRYPT_scheme :: "UINT16"
  TPMT_RSA_DECRYPT_details :: "TPMU_ASYM_SCHEME"

definition zero_TPMT_RSA_DECRYPT :: TPMT_RSA_DECRYPT where
  "zero_TPMT_RSA_DECRYPT = \<lparr>TPMT_RSA_DECRYPT_scheme = 0,
     TPMT_RSA_DECRYPT_details = zero_TPMU_ASYM_SCHEME\<rparr>"

definition wt_TPMT_RSA_DECRYPT :: "TPMT_RSA_DECRYPT \<Rightarrow> bool" where
  "wt_TPMT_RSA_DECRYPT s \<longleftrightarrow> wt_TPMU_ASYM_SCHEME (TPMT_RSA_DECRYPT_details s)"

lemma wt_zero_TPMT_RSA_DECRYPT [simp]: "wt_TPMT_RSA_DECRYPT zero_TPMT_RSA_DECRYPT"
  by (simp add: zero_TPMT_RSA_DECRYPT_def wt_TPMT_RSA_DECRYPT_def)

record TPMT_SIGNATURE =
  TPMT_SIGNATURE_sigAlg :: "UINT16"
  TPMT_SIGNATURE_signature :: "TPMU_SIGNATURE"

definition zero_TPMT_SIGNATURE :: TPMT_SIGNATURE where
  "zero_TPMT_SIGNATURE = \<lparr>TPMT_SIGNATURE_sigAlg = 0,
     TPMT_SIGNATURE_signature = zero_TPMU_SIGNATURE\<rparr>"

definition wt_TPMT_SIGNATURE :: "TPMT_SIGNATURE \<Rightarrow> bool" where
  "wt_TPMT_SIGNATURE s \<longleftrightarrow> wt_TPMU_SIGNATURE (TPMT_SIGNATURE_signature s)"

lemma wt_zero_TPMT_SIGNATURE [simp]: "wt_TPMT_SIGNATURE zero_TPMT_SIGNATURE"
  by (simp add: zero_TPMT_SIGNATURE_def wt_TPMT_SIGNATURE_def)

record TPMT_PUBLIC_PARMS =
  TPMT_PUBLIC_PARMS_type :: "UINT16"
  TPMT_PUBLIC_PARMS_parameters :: "TPMU_PUBLIC_PARMS"

definition zero_TPMT_PUBLIC_PARMS :: TPMT_PUBLIC_PARMS where
  "zero_TPMT_PUBLIC_PARMS = \<lparr>TPMT_PUBLIC_PARMS_type = 0,
     TPMT_PUBLIC_PARMS_parameters = zero_TPMU_PUBLIC_PARMS\<rparr>"

definition wt_TPMT_PUBLIC_PARMS :: "TPMT_PUBLIC_PARMS \<Rightarrow> bool" where
  "wt_TPMT_PUBLIC_PARMS s \<longleftrightarrow> wt_TPMU_PUBLIC_PARMS (TPMT_PUBLIC_PARMS_parameters s)"

lemma wt_zero_TPMT_PUBLIC_PARMS [simp]: "wt_TPMT_PUBLIC_PARMS zero_TPMT_PUBLIC_PARMS"
  by (simp add: zero_TPMT_PUBLIC_PARMS_def wt_TPMT_PUBLIC_PARMS_def)

record TPMT_TK_CREATION =
  TPMT_TK_CREATION_tag :: "UINT16"
  TPMT_TK_CREATION_hierarchy :: "UINT32"
  TPMT_TK_CREATION_digest :: "TPM2B"

definition zero_TPMT_TK_CREATION :: TPMT_TK_CREATION where
  "zero_TPMT_TK_CREATION = \<lparr>TPMT_TK_CREATION_tag = 0,
     TPMT_TK_CREATION_hierarchy = 0,
     TPMT_TK_CREATION_digest = (zero_TPM2B 64)\<rparr>"

definition wt_TPMT_TK_CREATION :: "TPMT_TK_CREATION \<Rightarrow> bool" where
  "wt_TPMT_TK_CREATION s \<longleftrightarrow> (wt_TPM2B 64) (TPMT_TK_CREATION_digest s)"

lemma wt_zero_TPMT_TK_CREATION [simp]: "wt_TPMT_TK_CREATION zero_TPMT_TK_CREATION"
  by (simp add: zero_TPMT_TK_CREATION_def wt_TPMT_TK_CREATION_def)

record TPMT_TK_VERIFIED =
  TPMT_TK_VERIFIED_tag :: "UINT16"
  TPMT_TK_VERIFIED_hierarchy :: "UINT32"
  TPMT_TK_VERIFIED_digest :: "TPM2B"

definition zero_TPMT_TK_VERIFIED :: TPMT_TK_VERIFIED where
  "zero_TPMT_TK_VERIFIED = \<lparr>TPMT_TK_VERIFIED_tag = 0,
     TPMT_TK_VERIFIED_hierarchy = 0,
     TPMT_TK_VERIFIED_digest = (zero_TPM2B 64)\<rparr>"

definition wt_TPMT_TK_VERIFIED :: "TPMT_TK_VERIFIED \<Rightarrow> bool" where
  "wt_TPMT_TK_VERIFIED s \<longleftrightarrow> (wt_TPM2B 64) (TPMT_TK_VERIFIED_digest s)"

lemma wt_zero_TPMT_TK_VERIFIED [simp]: "wt_TPMT_TK_VERIFIED zero_TPMT_TK_VERIFIED"
  by (simp add: zero_TPMT_TK_VERIFIED_def wt_TPMT_TK_VERIFIED_def)

record TPMT_TK_AUTH =
  TPMT_TK_AUTH_tag :: "UINT16"
  TPMT_TK_AUTH_hierarchy :: "UINT32"
  TPMT_TK_AUTH_digest :: "TPM2B"

definition zero_TPMT_TK_AUTH :: TPMT_TK_AUTH where
  "zero_TPMT_TK_AUTH = \<lparr>TPMT_TK_AUTH_tag = 0,
     TPMT_TK_AUTH_hierarchy = 0,
     TPMT_TK_AUTH_digest = (zero_TPM2B 64)\<rparr>"

definition wt_TPMT_TK_AUTH :: "TPMT_TK_AUTH \<Rightarrow> bool" where
  "wt_TPMT_TK_AUTH s \<longleftrightarrow> (wt_TPM2B 64) (TPMT_TK_AUTH_digest s)"

lemma wt_zero_TPMT_TK_AUTH [simp]: "wt_TPMT_TK_AUTH zero_TPMT_TK_AUTH"
  by (simp add: zero_TPMT_TK_AUTH_def wt_TPMT_TK_AUTH_def)

record TPMT_TK_HASHCHECK =
  TPMT_TK_HASHCHECK_tag :: "UINT16"
  TPMT_TK_HASHCHECK_hierarchy :: "UINT32"
  TPMT_TK_HASHCHECK_digest :: "TPM2B"

definition zero_TPMT_TK_HASHCHECK :: TPMT_TK_HASHCHECK where
  "zero_TPMT_TK_HASHCHECK = \<lparr>TPMT_TK_HASHCHECK_tag = 0,
     TPMT_TK_HASHCHECK_hierarchy = 0,
     TPMT_TK_HASHCHECK_digest = (zero_TPM2B 64)\<rparr>"

definition wt_TPMT_TK_HASHCHECK :: "TPMT_TK_HASHCHECK \<Rightarrow> bool" where
  "wt_TPMT_TK_HASHCHECK s \<longleftrightarrow> (wt_TPM2B 64) (TPMT_TK_HASHCHECK_digest s)"

lemma wt_zero_TPMT_TK_HASHCHECK [simp]: "wt_TPMT_TK_HASHCHECK zero_TPMT_TK_HASHCHECK"
  by (simp add: zero_TPMT_TK_HASHCHECK_def wt_TPMT_TK_HASHCHECK_def)

end
