(* ===== verification/MU_Union.thy ===== *)
theory MU_Union
  imports C_Layout MU_Struct
begin

text \<open>
  Unions: \<open>tpmu-types.c\<close>.  \<open>marshal_tab\<close> and \<open>unmarshal_tab\<close> copy a fixed number of bytes, and the
  macros \<open>TPMU_MARSHAL2\<close> and \<open>TPMU_UNMARSHAL2\<close> dispatch on a selector through a table of at most
  twelve members.
\<close>

section \<open>Fixed-size byte arrays\<close>

definition marshal_tab :: "nat \<Rightarrow> BYTE list option mfun" where
  "marshal_tab sz src buffer buffer_size offset =
     (case src of
        None \<Rightarrow> Some (TSS2_MU_RC_BAD_REFERENCE, buffer, offset)
      | Some s \<Rightarrow>
          let local_offset = local_of offset; n = of_nat sz in
          case buffer of
            None \<Rightarrow> (case offset of
                None \<Rightarrow> Some (TSS2_MU_RC_BAD_REFERENCE, buffer, offset)
              | Some off \<Rightarrow> Some (TSS2_RC_SUCCESS, buffer, Some (off + n)))
          | Some b \<Rightarrow>
              if lacks_room buffer_size local_offset n
              then Some (TSS2_MU_RC_INSUFFICIENT_BUFFER, buffer, offset)
              else
                (case mem_read s 0 sz of
                   None \<Rightarrow> None
                 | Some xs \<Rightarrow>
                     (case mem_write b local_offset xs of
                        None \<Rightarrow> None
                      | Some b' \<Rightarrow>
                          Some (TSS2_RC_SUCCESS, Some b', map_option (\<lambda>_. local_offset + n) offset))))"

definition unmarshal_tab :: "nat \<Rightarrow> BYTE list ufun" where
  "unmarshal_tab sz buffer buffer_size offset dest =
     (let local_offset = local_of offset; n = of_nat sz in
      case buffer of
        None \<Rightarrow> Some (TSS2_MU_RC_BAD_REFERENCE, offset, dest)
      | Some b \<Rightarrow>
          (case dest of
             None \<Rightarrow> (case offset of
                 None \<Rightarrow> Some (TSS2_MU_RC_BAD_REFERENCE, offset, dest)
               | Some off \<Rightarrow> Some (TSS2_RC_SUCCESS, Some (off + n), dest))
           | Some d \<Rightarrow>
               if lacks_room buffer_size local_offset n
               then Some (TSS2_MU_RC_INSUFFICIENT_BUFFER, offset, dest)
               else
                 (case mem_read b local_offset sz of
                    None \<Rightarrow> None
                  | Some xs \<Rightarrow>
                      (case mem_write d 0 xs of
                         None \<Rightarrow> None
                       | Some d' \<Rightarrow>
                           Some (TSS2_RC_SUCCESS, map_option (\<lambda>_. local_offset + n) offset, Some d')))))"

definition marshal_null :: "'a mfun" where
  "marshal_null src buffer buffer_size offset = Some (TSS2_RC_SUCCESS, buffer, offset)"

definition unmarshal_null :: "'a ufun" where
  "unmarshal_null buffer buffer_size offset dest = Some (TSS2_RC_SUCCESS, offset, dest)"

lemma unat_of_nat_size: "n < 2 ^ 64 \<Longrightarrow> unat (of_nat n :: size_t) = n"
  by (simp add: unat_of_nat)

lemma marshaler_tab [mu_codec]:
  assumes "n < 2 ^ 64" "0 < n"
  shows "marshaler (\<lambda>s. marshal_tab n (Some s)) (\<lambda>s. length s = n) (\<lambda>s. length s = n) (\<lambda>s. s) n"
  using assms(2) unat_of_nat_size [OF assms(1)]
  by unfold_locales
    (auto simp: marshal_tab_def Let_def lacks_room_iff fits_def mem_read_def mem_write_def seg_def
      untouched_patch)

lemma strict_unmarshaler_tab [mu_codec]:
  assumes "n < 2 ^ 64" "0 < n"
  shows "strict_unmarshaler (unmarshal_tab n) (\<lambda>d. length d = n) (\<lambda>d. length d = n) (\<lambda>d. d)"
  using assms(2) unat_of_nat_size [OF assms(1)]
  by unfold_locales
    (auto simp: unmarshal_tab_def Let_def lacks_room_iff fits_def mem_read_def mem_write_def patch_def
      holds_at_def split: if_splits)

section \<open>Dispatch on the selector\<close>

text \<open>
  A union is a datatype with one constructor per member; \<open>get\<close> is \<open>Some\<close> on the values of one
  member.  Reading a member that is not the active one is outside the model (a fault); writing a
  member over another starts from that member's zero value.
\<close>

definition U_VAL :: "('u \<Rightarrow> 'a option) \<Rightarrow> 'a mfun \<Rightarrow> 'u mfun" where
  "U_VAL get fn u buffer buffer_size offset =
     (case get u of None \<Rightarrow> None | Some x \<Rightarrow> fn x buffer buffer_size offset)"

definition U_ADDR :: "('u \<Rightarrow> 'a option) \<Rightarrow> 'a option mfun \<Rightarrow> 'u mfun" where
  "U_ADDR get fn u buffer buffer_size offset =
     (case get u of None \<Rightarrow> None | Some x \<Rightarrow> fn (Some x) buffer buffer_size offset)"

definition U_MEM :: "('u \<Rightarrow> 'a option) \<Rightarrow> ('a \<Rightarrow> 'u) \<Rightarrow> 'a \<Rightarrow> 'a ufun \<Rightarrow> 'u ufun" where
  "U_MEM get put zero fn buffer buffer_size offset dest =
     (case fn buffer buffer_size offset
             (map_option (\<lambda>u. case get u of None \<Rightarrow> zero | Some x \<Rightarrow> x) dest) of
        None \<Rightarrow> None
      | Some (ret, offset', d) \<Rightarrow> Some (ret, offset', map_option put d))"

definition TPMU_MARSHAL :: "(UINT32 \<times> 'u mfun) list \<Rightarrow> 'u option \<Rightarrow> UINT32 \<Rightarrow> buf option \<Rightarrow> size_t \<Rightarrow> size_t option \<Rightarrow> mres" where
  "TPMU_MARSHAL tab src selector buffer buffer_size offset =
     (case src of
        None \<Rightarrow> Some (TSS2_MU_RC_BAD_REFERENCE, buffer, offset)
      | Some s \<Rightarrow>
          (case map_of tab selector of
             Some fn \<Rightarrow> fn s buffer buffer_size offset
           | None \<Rightarrow>
               if selector = ucast TPM2_ALG_NULL then Some (TSS2_RC_SUCCESS, buffer, offset)
               else Some (TSS2_MU_RC_BAD_VALUE, buffer, offset)))"

definition TPMU_UNMARSHAL :: "(UINT32 \<times> 'u ufun) list \<Rightarrow> buf option \<Rightarrow> size_t \<Rightarrow> size_t option \<Rightarrow> UINT32 \<Rightarrow> 'u option \<Rightarrow> 'u ures" where
  "TPMU_UNMARSHAL tab buffer buffer_size offset selector dest =
     (case map_of tab selector of
        Some fn \<Rightarrow> fn buffer buffer_size offset dest
      | None \<Rightarrow>
          if selector = ucast TPM2_ALG_NULL then Some (TSS2_RC_SUCCESS, offset, dest)
          else Some (TSS2_MU_RC_BAD_VALUE, offset, dest))"

text \<open>
  \<open>TPMU_MARSHAL2\<close> pads its tuples with ten no-op tuples for the selectors \<open>-1\<close> to \<open>-10\<close>, of which
  \<open>TPMU_MARSHAL\<close> takes the first twelve and drops the rest.
\<close>

definition pad_selectors :: "UINT32 list" where
  "pad_selectors = [-1, -2, -3, -4, -5, -6, -7, -8, -9, -10]"

definition padded :: "'f \<Rightarrow> (UINT32 \<times> 'f) list \<Rightarrow> (UINT32 \<times> 'f) list" where
  "padded null tab = take 12 (tab @ map (\<lambda>k. (k, null)) pad_selectors)"

definition TPMU_MARSHAL2 :: "(UINT32 \<times> 'u mfun) list \<Rightarrow> 'u option \<Rightarrow> UINT32 \<Rightarrow> buf option \<Rightarrow> size_t \<Rightarrow> size_t option \<Rightarrow> mres" where
  "TPMU_MARSHAL2 tab = TPMU_MARSHAL (padded marshal_null tab)"

definition TPMU_UNMARSHAL2 :: "(UINT32 \<times> 'u ufun) list \<Rightarrow> buf option \<Rightarrow> size_t \<Rightarrow> size_t option \<Rightarrow> UINT32 \<Rightarrow> 'u option \<Rightarrow> 'u ures" where
  "TPMU_UNMARSHAL2 tab = TPMU_UNMARSHAL (padded unmarshal_null tab)"

section \<open>Contracts of unions\<close>

text \<open>The specification of a union: for each selector what a source, a valid value and its format are.\<close>

type_synonym 'u mspec = "('u \<Rightarrow> bool) \<times> ('u \<Rightarrow> bool) \<times> ('u \<Rightarrow> BYTE list)"

definition null_spec :: "'u mspec" where
  "null_spec = (\<lambda>_. True, \<lambda>_. True, \<lambda>_. [])"

definition member_spec :: "('u \<Rightarrow> 'a option) \<Rightarrow> ('a \<Rightarrow> bool) \<Rightarrow> ('a \<Rightarrow> bool) \<Rightarrow> ('a \<Rightarrow> BYTE list) \<Rightarrow> 'u mspec" where
  "member_spec get src valid wire =
     (\<lambda>u. case get u of None \<Rightarrow> False | Some x \<Rightarrow> src x,
      \<lambda>u. case get u of None \<Rightarrow> False | Some x \<Rightarrow> valid x,
      \<lambda>u. case get u of None \<Rightarrow> [] | Some x \<Rightarrow> wire x)"

definition select_spec :: "(UINT32 \<times> 'u mspec) list \<Rightarrow> UINT32 \<Rightarrow> 'u mspec" where
  "select_spec spec k =
     (case map_of (padded null_spec spec) k of
        Some m \<Rightarrow> m
      | None \<Rightarrow> (\<lambda>_. True, \<lambda>_. k = ucast TPM2_ALG_NULL, \<lambda>_. []))"

definition src_union :: "(UINT32 \<times> 'u mspec) list \<Rightarrow> UINT32 \<Rightarrow> 'u \<Rightarrow> bool" where
  "src_union spec k = fst (select_spec spec k)"

definition valid_union :: "(UINT32 \<times> 'u mspec) list \<Rightarrow> UINT32 \<Rightarrow> 'u \<Rightarrow> bool" where
  "valid_union spec k = fst (snd (select_spec spec k))"

definition wire_union :: "(UINT32 \<times> 'u mspec) list \<Rightarrow> UINT32 \<Rightarrow> 'u \<Rightarrow> BYTE list" where
  "wire_union spec k = snd (snd (select_spec spec k))"

definition entry_rel :: "('f \<Rightarrow> 's \<Rightarrow> bool) \<Rightarrow> (UINT32 \<times> 'f) list \<Rightarrow> (UINT32 \<times> 's) list \<Rightarrow> bool" where
  "entry_rel R = list_all2 (\<lambda>(k, f) (k', m). k = k' \<and> R f m)"

lemma entry_rel_simps [simp]:
  "entry_rel R [] []"
  "entry_rel R ((k, f) # tab) ((k', m) # spec) \<longleftrightarrow> k = k' \<and> R f m \<and> entry_rel R tab spec"
  by (simp_all add: entry_rel_def)

lemma entry_rel_padded:
  assumes "entry_rel R tab spec" "R null null'"
  shows "entry_rel R (padded null tab) (padded null' spec)"
  using assms unfolding entry_rel_def padded_def
  by (intro list_all2_takeI list_all2_appendI) (simp_all add: list_all2_conv_all_nth)

lemma entry_rel_map_of:
  "entry_rel R tab spec \<Longrightarrow> rel_option R (map_of tab k) (map_of spec k)"
  unfolding entry_rel_def by (induction rule: list_all2_induct) auto

definition marshals :: "nat \<Rightarrow> 'u mfun \<Rightarrow> 'u mspec \<Rightarrow> bool" where
  "marshals lim f m \<longleftrightarrow> marshaler f (fst m) (fst (snd m)) (snd (snd m)) lim"

definition unmarshals :: "('u \<Rightarrow> bool) \<Rightarrow> 'u ufun \<Rightarrow> 'u mspec \<Rightarrow> bool" where
  "unmarshals wt f m \<longleftrightarrow> strict_unmarshaler f wt (fst (snd m)) (snd (snd m))"

lemma marshals_null: "marshals lim marshal_null null_spec"
  unfolding marshals_def null_spec_def by unfold_locales (auto simp: marshal_null_def)

lemma unmarshals_null: "unmarshals wt unmarshal_null null_spec"
  unfolding unmarshals_def null_spec_def by unfold_locales (auto simp: unmarshal_null_def)

lemma marshaler_TPMU:
  assumes "entry_rel (marshals lim) tab spec"
  shows "marshaler (\<lambda>u. TPMU_MARSHAL2 tab (Some u) k) (src_union spec k) (valid_union spec k) (wire_union spec k) lim"
proof -
  from entry_rel_map_of [OF entry_rel_padded [where R = "marshals lim", OF assms marshals_null], of k]
  show ?thesis
  proof cases
    case None
    then show ?thesis
      by unfold_locales
        (auto simp: TPMU_MARSHAL2_def TPMU_MARSHAL_def src_union_def valid_union_def wire_union_def select_spec_def)
  next
    case (Some f m)
    then have "(\<lambda>u. TPMU_MARSHAL2 tab (Some u) k) = f" "select_spec spec k = m"
      by (auto simp: TPMU_MARSHAL2_def TPMU_MARSHAL_def select_spec_def fun_eq_iff)
    with Some(3) show ?thesis
      by (simp add: marshals_def src_union_def valid_union_def wire_union_def)
  qed
qed

lemma strict_unmarshaler_TPMU:
  assumes "entry_rel (unmarshals wt) tab spec"
  shows "strict_unmarshaler (\<lambda>b bs off. TPMU_UNMARSHAL2 tab b bs off k) wt (valid_union spec k) (wire_union spec k)"
proof -
  from entry_rel_map_of [OF entry_rel_padded [where R = "unmarshals wt", OF assms unmarshals_null], of k]
  show ?thesis
  proof cases
    case None
    then show ?thesis
      by unfold_locales
        (auto simp: TPMU_UNMARSHAL2_def TPMU_UNMARSHAL_def valid_union_def wire_union_def select_spec_def
          split: if_splits)
  next
    case (Some f m)
    then have "(\<lambda>b bs off. TPMU_UNMARSHAL2 tab b bs off k) = f" "select_spec spec k = m"
      by (auto simp: TPMU_UNMARSHAL2_def TPMU_UNMARSHAL_def select_spec_def fun_eq_iff)
    with Some(3) show ?thesis
      by (simp add: unmarshals_def valid_union_def wire_union_def)
  qed
qed

text \<open>Table entries.\<close>

lemma marshals_VAL:
  assumes "marshaler fn src valid wire lim" "lim \<le> lim'"
  shows "marshals lim' (U_VAL get fn) (member_spec get src valid wire)"
  using assms(1) le_trans [OF _ assms(2)]
  unfolding marshals_def member_spec_def marshaler_def U_VAL_def
  by (auto split: option.splits)

lemma marshals_ADDR:
  assumes "marshaler (\<lambda>x. fn (Some x)) src valid wire lim" "lim \<le> lim'"
  shows "marshals lim' (U_ADDR get fn) (member_spec get src valid wire)"
  using marshals_VAL [OF assms] by (simp add: U_ADDR_def [abs_def] U_VAL_def [abs_def])

lemma unmarshals_MEM:
  assumes U: "strict_unmarshaler fn wt valid wire" and zero: "wt zero"
    and get: "\<And>x. get (put x) = Some x" and wtu: "\<And>u x. wtu u \<Longrightarrow> get u = Some x \<Longrightarrow> wt x"
    and put: "\<And>x. wt x \<Longrightarrow> wtu (put x)"
  shows "unmarshals wtu (U_MEM get put zero fn) (member_spec get src valid wire)"
  unfolding unmarshals_def strict_unmarshaler_iff
proof (intro allI impI)
  fix d and bs off :: size_t and b :: buf
  assume wt: "wtu d" and bs: "unat bs \<le> length b"
  let ?x = "case get d of None \<Rightarrow> zero | Some x \<Rightarrow> x"
  have "wt ?x" using wt zero wtu by (auto split: option.splits)
  with U bs have "read_outcome wt valid wire b bs off (fn (Some b) bs (Some off) (Some ?x))"
    unfolding strict_unmarshaler_iff by blast
  then show "read_outcome wtu (fst (snd (member_spec get src valid wire))) (snd (snd (member_spec get src valid wire)))
      b bs off (U_MEM get put zero fn (Some b) bs (Some off) (Some d))"
  proof (rule read_outcomeE)
    fix rc off' d'
    assume r: "fn (Some b) bs (Some off) (Some ?x) = Some (rc, Some off', Some d')" "wt d'" "rc \<noteq> 0 \<Longrightarrow> off' = off"
      "rc = 0 \<Longrightarrow> valid d' \<and> holds_at b bs off (wire d') \<and> off' = off + of_nat (length (wire d'))"
      "\<And>x. valid x \<Longrightarrow> holds_at b bs off (wire x) \<Longrightarrow> rc = 0 \<and> wire d' = wire x"
    have call: "U_MEM get put zero fn (Some b) bs (Some off) (Some d) = Some (rc, Some off', Some (put d'))"
      by (simp add: U_MEM_def r(1))
    show ?thesis
      unfolding call member_spec_def
      by (rule read_outcomeI)
        (use r(2-4) put in \<open>simp_all add: get\<close>, use r(5) in \<open>auto split: option.splits\<close>)
  qed
qed

end
