(* ===== verification/MU_Buffers.thy ===== *)
theory MU_Buffers
  imports TPM2_Types MU_Union
begin

text \<open>
  The sized buffers of \<open>tpm2b-types.c\<close> and the fixed arrays of \<open>tpmu-types.c\<close>: one pair of
  functions per type, each an instance of its macro and a codec.
\<close>

section \<open>Functions of \<open>tpm2b-types.c\<close>\<close>

definition Tss2_MU_TPM2B_DIGEST_Marshal :: "TPM2B option mfun" where
  "Tss2_MU_TPM2B_DIGEST_Marshal = TPM2B_MARSHAL (sizeof ct_TPM2B_DIGEST)"

definition Tss2_MU_TPM2B_DIGEST_Unmarshal :: "TPM2B ufun" where
  "Tss2_MU_TPM2B_DIGEST_Unmarshal = TPM2B_UNMARSHAL (sizeof ct_TPMU_HA)"

interpretation mu_TPM2B_DIGEST: codec "\<lambda>s. Tss2_MU_TPM2B_DIGEST_Marshal (Some s)"
  "(src_TPM2B 66 64)" "(valid_TPM2B 64)" "wire_TPM2B" "66" Tss2_MU_TPM2B_DIGEST_Unmarshal "(wt_TPM2B 64)" "(valid_TPM2B 64)"
  using codecI [OF marshaler_TPM2B [of 64 66] strict_unmarshaler_TPM2B [of 64]]
  by (simp add: Tss2_MU_TPM2B_DIGEST_Marshal_def Tss2_MU_TPM2B_DIGEST_Unmarshal_def)

definition Tss2_MU_TPM2B_DATA_Marshal :: "TPM2B option mfun" where
  "Tss2_MU_TPM2B_DATA_Marshal = TPM2B_MARSHAL (sizeof ct_TPM2B_DATA)"

definition Tss2_MU_TPM2B_DATA_Unmarshal :: "TPM2B ufun" where
  "Tss2_MU_TPM2B_DATA_Unmarshal = TPM2B_UNMARSHAL (sizeof ct_TPMU_HA)"

interpretation mu_TPM2B_DATA: codec "\<lambda>s. Tss2_MU_TPM2B_DATA_Marshal (Some s)"
  "(src_TPM2B 66 64)" "(valid_TPM2B 64)" "wire_TPM2B" "66" Tss2_MU_TPM2B_DATA_Unmarshal "(wt_TPM2B 64)" "(valid_TPM2B 64)"
  using codecI [OF marshaler_TPM2B [of 64 66] strict_unmarshaler_TPM2B [of 64]]
  by (simp add: Tss2_MU_TPM2B_DATA_Marshal_def Tss2_MU_TPM2B_DATA_Unmarshal_def)

definition Tss2_MU_TPM2B_EVENT_Marshal :: "TPM2B option mfun" where
  "Tss2_MU_TPM2B_EVENT_Marshal = TPM2B_MARSHAL (sizeof ct_TPM2B_EVENT)"

definition Tss2_MU_TPM2B_EVENT_Unmarshal :: "TPM2B ufun" where
  "Tss2_MU_TPM2B_EVENT_Unmarshal = TPM2B_UNMARSHAL (1024)"

interpretation mu_TPM2B_EVENT: codec "\<lambda>s. Tss2_MU_TPM2B_EVENT_Marshal (Some s)"
  "(src_TPM2B 1026 1024)" "(valid_TPM2B 1024)" "wire_TPM2B" "1026" Tss2_MU_TPM2B_EVENT_Unmarshal "(wt_TPM2B 1024)" "(valid_TPM2B 1024)"
  using codecI [OF marshaler_TPM2B [of 1024 1026] strict_unmarshaler_TPM2B [of 1024]]
  by (simp add: Tss2_MU_TPM2B_EVENT_Marshal_def Tss2_MU_TPM2B_EVENT_Unmarshal_def)

definition Tss2_MU_TPM2B_MAX_BUFFER_Marshal :: "TPM2B option mfun" where
  "Tss2_MU_TPM2B_MAX_BUFFER_Marshal = TPM2B_MARSHAL (sizeof ct_TPM2B_MAX_BUFFER)"

definition Tss2_MU_TPM2B_MAX_BUFFER_Unmarshal :: "TPM2B ufun" where
  "Tss2_MU_TPM2B_MAX_BUFFER_Unmarshal = TPM2B_UNMARSHAL (TPM2_MAX_DIGEST_BUFFER)"

interpretation mu_TPM2B_MAX_BUFFER: codec "\<lambda>s. Tss2_MU_TPM2B_MAX_BUFFER_Marshal (Some s)"
  "(src_TPM2B 1026 1024)" "(valid_TPM2B 1024)" "wire_TPM2B" "1026" Tss2_MU_TPM2B_MAX_BUFFER_Unmarshal "(wt_TPM2B 1024)" "(valid_TPM2B 1024)"
  using codecI [OF marshaler_TPM2B [of 1024 1026] strict_unmarshaler_TPM2B [of 1024]]
  by (simp add: Tss2_MU_TPM2B_MAX_BUFFER_Marshal_def Tss2_MU_TPM2B_MAX_BUFFER_Unmarshal_def)

definition Tss2_MU_TPM2B_MAX_NV_BUFFER_Marshal :: "TPM2B option mfun" where
  "Tss2_MU_TPM2B_MAX_NV_BUFFER_Marshal = TPM2B_MARSHAL (sizeof ct_TPM2B_MAX_NV_BUFFER)"

definition Tss2_MU_TPM2B_MAX_NV_BUFFER_Unmarshal :: "TPM2B ufun" where
  "Tss2_MU_TPM2B_MAX_NV_BUFFER_Unmarshal = TPM2B_UNMARSHAL (TPM2_MAX_NV_BUFFER_SIZE)"

interpretation mu_TPM2B_MAX_NV_BUFFER: codec "\<lambda>s. Tss2_MU_TPM2B_MAX_NV_BUFFER_Marshal (Some s)"
  "(src_TPM2B 2050 2048)" "(valid_TPM2B 2048)" "wire_TPM2B" "2050" Tss2_MU_TPM2B_MAX_NV_BUFFER_Unmarshal "(wt_TPM2B 2048)" "(valid_TPM2B 2048)"
  using codecI [OF marshaler_TPM2B [of 2048 2050] strict_unmarshaler_TPM2B [of 2048]]
  by (simp add: Tss2_MU_TPM2B_MAX_NV_BUFFER_Marshal_def Tss2_MU_TPM2B_MAX_NV_BUFFER_Unmarshal_def)

definition Tss2_MU_TPM2B_IV_Marshal :: "TPM2B option mfun" where
  "Tss2_MU_TPM2B_IV_Marshal = TPM2B_MARSHAL (sizeof ct_TPM2B_IV)"

definition Tss2_MU_TPM2B_IV_Unmarshal :: "TPM2B ufun" where
  "Tss2_MU_TPM2B_IV_Unmarshal = TPM2B_UNMARSHAL (TPM2_MAX_SYM_BLOCK_SIZE)"

interpretation mu_TPM2B_IV: codec "\<lambda>s. Tss2_MU_TPM2B_IV_Marshal (Some s)"
  "(src_TPM2B 18 16)" "(valid_TPM2B 16)" "wire_TPM2B" "18" Tss2_MU_TPM2B_IV_Unmarshal "(wt_TPM2B 16)" "(valid_TPM2B 16)"
  using codecI [OF marshaler_TPM2B [of 16 18] strict_unmarshaler_TPM2B [of 16]]
  by (simp add: Tss2_MU_TPM2B_IV_Marshal_def Tss2_MU_TPM2B_IV_Unmarshal_def)

definition Tss2_MU_TPM2B_NAME_Marshal :: "TPM2B option mfun" where
  "Tss2_MU_TPM2B_NAME_Marshal = TPM2B_MARSHAL (sizeof ct_TPM2B_NAME)"

definition Tss2_MU_TPM2B_NAME_Unmarshal :: "TPM2B ufun" where
  "Tss2_MU_TPM2B_NAME_Unmarshal = TPM2B_UNMARSHAL (sizeof ct_TPMU_NAME)"

interpretation mu_TPM2B_NAME: codec "\<lambda>s. Tss2_MU_TPM2B_NAME_Marshal (Some s)"
  "(src_TPM2B 70 68)" "(valid_TPM2B 68)" "wire_TPM2B" "70" Tss2_MU_TPM2B_NAME_Unmarshal "(wt_TPM2B 68)" "(valid_TPM2B 68)"
  using codecI [OF marshaler_TPM2B [of 68 70] strict_unmarshaler_TPM2B [of 68]]
  by (simp add: Tss2_MU_TPM2B_NAME_Marshal_def Tss2_MU_TPM2B_NAME_Unmarshal_def)

definition Tss2_MU_TPM2B_ATTEST_Marshal :: "TPM2B option mfun" where
  "Tss2_MU_TPM2B_ATTEST_Marshal = TPM2B_MARSHAL (sizeof ct_TPM2B_ATTEST)"

definition Tss2_MU_TPM2B_ATTEST_Unmarshal :: "TPM2B ufun" where
  "Tss2_MU_TPM2B_ATTEST_Unmarshal = TPM2B_UNMARSHAL (sizeof ct_TPMS_ATTEST)"

interpretation mu_TPM2B_ATTEST: codec "\<lambda>s. Tss2_MU_TPM2B_ATTEST_Marshal (Some s)"
  "(src_TPM2B 2306 2304)" "(valid_TPM2B 2304)" "wire_TPM2B" "2306" Tss2_MU_TPM2B_ATTEST_Unmarshal "(wt_TPM2B 2304)" "(valid_TPM2B 2304)"
  using codecI [OF marshaler_TPM2B [of 2304 2306] strict_unmarshaler_TPM2B [of 2304]]
  by (simp add: Tss2_MU_TPM2B_ATTEST_Marshal_def Tss2_MU_TPM2B_ATTEST_Unmarshal_def)

definition Tss2_MU_TPM2B_SYM_KEY_Marshal :: "TPM2B option mfun" where
  "Tss2_MU_TPM2B_SYM_KEY_Marshal = TPM2B_MARSHAL (sizeof ct_TPM2B_SYM_KEY)"

definition Tss2_MU_TPM2B_SYM_KEY_Unmarshal :: "TPM2B ufun" where
  "Tss2_MU_TPM2B_SYM_KEY_Unmarshal = TPM2B_UNMARSHAL (TPM2_MAX_SYM_KEY_BYTES)"

interpretation mu_TPM2B_SYM_KEY: codec "\<lambda>s. Tss2_MU_TPM2B_SYM_KEY_Marshal (Some s)"
  "(src_TPM2B 34 32)" "(valid_TPM2B 32)" "wire_TPM2B" "34" Tss2_MU_TPM2B_SYM_KEY_Unmarshal "(wt_TPM2B 32)" "(valid_TPM2B 32)"
  using codecI [OF marshaler_TPM2B [of 32 34] strict_unmarshaler_TPM2B [of 32]]
  by (simp add: Tss2_MU_TPM2B_SYM_KEY_Marshal_def Tss2_MU_TPM2B_SYM_KEY_Unmarshal_def)

definition Tss2_MU_TPM2B_SENSITIVE_DATA_Marshal :: "TPM2B option mfun" where
  "Tss2_MU_TPM2B_SENSITIVE_DATA_Marshal = TPM2B_MARSHAL (sizeof ct_TPM2B_SENSITIVE_DATA)"

definition Tss2_MU_TPM2B_SENSITIVE_DATA_Unmarshal :: "TPM2B ufun" where
  "Tss2_MU_TPM2B_SENSITIVE_DATA_Unmarshal = TPM2B_UNMARSHAL (sizeof ct_TPMU_SENSITIVE_CREATE)"

interpretation mu_TPM2B_SENSITIVE_DATA: codec "\<lambda>s. Tss2_MU_TPM2B_SENSITIVE_DATA_Marshal (Some s)"
  "(src_TPM2B 258 256)" "(valid_TPM2B 256)" "wire_TPM2B" "258" Tss2_MU_TPM2B_SENSITIVE_DATA_Unmarshal "(wt_TPM2B 256)" "(valid_TPM2B 256)"
  using codecI [OF marshaler_TPM2B [of 256 258] strict_unmarshaler_TPM2B [of 256]]
  by (simp add: Tss2_MU_TPM2B_SENSITIVE_DATA_Marshal_def Tss2_MU_TPM2B_SENSITIVE_DATA_Unmarshal_def)

definition Tss2_MU_TPM2B_PUBLIC_KEY_RSA_Marshal :: "TPM2B option mfun" where
  "Tss2_MU_TPM2B_PUBLIC_KEY_RSA_Marshal = TPM2B_MARSHAL (sizeof ct_TPM2B_PUBLIC_KEY_RSA)"

definition Tss2_MU_TPM2B_PUBLIC_KEY_RSA_Unmarshal :: "TPM2B ufun" where
  "Tss2_MU_TPM2B_PUBLIC_KEY_RSA_Unmarshal = TPM2B_UNMARSHAL (TPM2_MAX_RSA_KEY_BYTES)"

interpretation mu_TPM2B_PUBLIC_KEY_RSA: codec "\<lambda>s. Tss2_MU_TPM2B_PUBLIC_KEY_RSA_Marshal (Some s)"
  "(src_TPM2B 514 512)" "(valid_TPM2B 512)" "wire_TPM2B" "514" Tss2_MU_TPM2B_PUBLIC_KEY_RSA_Unmarshal "(wt_TPM2B 512)" "(valid_TPM2B 512)"
  using codecI [OF marshaler_TPM2B [of 512 514] strict_unmarshaler_TPM2B [of 512]]
  by (simp add: Tss2_MU_TPM2B_PUBLIC_KEY_RSA_Marshal_def Tss2_MU_TPM2B_PUBLIC_KEY_RSA_Unmarshal_def)

definition Tss2_MU_TPM2B_PRIVATE_KEY_RSA_Marshal :: "TPM2B option mfun" where
  "Tss2_MU_TPM2B_PRIVATE_KEY_RSA_Marshal = TPM2B_MARSHAL (sizeof ct_TPM2B_PRIVATE_KEY_RSA)"

definition Tss2_MU_TPM2B_PRIVATE_KEY_RSA_Unmarshal :: "TPM2B ufun" where
  "Tss2_MU_TPM2B_PRIVATE_KEY_RSA_Unmarshal = TPM2B_UNMARSHAL (TPM2_MAX_RSA_KEY_BYTES div 2 * 5)"

interpretation mu_TPM2B_PRIVATE_KEY_RSA: codec "\<lambda>s. Tss2_MU_TPM2B_PRIVATE_KEY_RSA_Marshal (Some s)"
  "(src_TPM2B 1282 1280)" "(valid_TPM2B 1280)" "wire_TPM2B" "1282" Tss2_MU_TPM2B_PRIVATE_KEY_RSA_Unmarshal "(wt_TPM2B 1280)" "(valid_TPM2B 1280)"
  using codecI [OF marshaler_TPM2B [of 1280 1282] strict_unmarshaler_TPM2B [of 1280]]
  by (simp add: Tss2_MU_TPM2B_PRIVATE_KEY_RSA_Marshal_def Tss2_MU_TPM2B_PRIVATE_KEY_RSA_Unmarshal_def)

definition Tss2_MU_TPM2B_ECC_PARAMETER_Marshal :: "TPM2B option mfun" where
  "Tss2_MU_TPM2B_ECC_PARAMETER_Marshal = TPM2B_MARSHAL (sizeof ct_TPM2B_ECC_PARAMETER)"

definition Tss2_MU_TPM2B_ECC_PARAMETER_Unmarshal :: "TPM2B ufun" where
  "Tss2_MU_TPM2B_ECC_PARAMETER_Unmarshal = TPM2B_UNMARSHAL (TPM2_MAX_ECC_KEY_BYTES)"

interpretation mu_TPM2B_ECC_PARAMETER: codec "\<lambda>s. Tss2_MU_TPM2B_ECC_PARAMETER_Marshal (Some s)"
  "(src_TPM2B 130 128)" "(valid_TPM2B 128)" "wire_TPM2B" "130" Tss2_MU_TPM2B_ECC_PARAMETER_Unmarshal "(wt_TPM2B 128)" "(valid_TPM2B 128)"
  using codecI [OF marshaler_TPM2B [of 128 130] strict_unmarshaler_TPM2B [of 128]]
  by (simp add: Tss2_MU_TPM2B_ECC_PARAMETER_Marshal_def Tss2_MU_TPM2B_ECC_PARAMETER_Unmarshal_def)

definition Tss2_MU_TPM2B_ENCRYPTED_SECRET_Marshal :: "TPM2B option mfun" where
  "Tss2_MU_TPM2B_ENCRYPTED_SECRET_Marshal = TPM2B_MARSHAL (sizeof ct_TPM2B_ENCRYPTED_SECRET)"

definition Tss2_MU_TPM2B_ENCRYPTED_SECRET_Unmarshal :: "TPM2B ufun" where
  "Tss2_MU_TPM2B_ENCRYPTED_SECRET_Unmarshal = TPM2B_UNMARSHAL (sizeof ct_TPMU_ENCRYPTED_SECRET)"

interpretation mu_TPM2B_ENCRYPTED_SECRET: codec "\<lambda>s. Tss2_MU_TPM2B_ENCRYPTED_SECRET_Marshal (Some s)"
  "(src_TPM2B 1570 1568)" "(valid_TPM2B 1568)" "wire_TPM2B" "1570" Tss2_MU_TPM2B_ENCRYPTED_SECRET_Unmarshal "(wt_TPM2B 1568)" "(valid_TPM2B 1568)"
  using codecI [OF marshaler_TPM2B [of 1568 1570] strict_unmarshaler_TPM2B [of 1568]]
  by (simp add: Tss2_MU_TPM2B_ENCRYPTED_SECRET_Marshal_def Tss2_MU_TPM2B_ENCRYPTED_SECRET_Unmarshal_def)

definition Tss2_MU_TPM2B_PRIVATE_VENDOR_SPECIFIC_Marshal :: "TPM2B option mfun" where
  "Tss2_MU_TPM2B_PRIVATE_VENDOR_SPECIFIC_Marshal = TPM2B_MARSHAL (sizeof ct_TPM2B_PRIVATE_VENDOR_SPECIFIC)"

definition Tss2_MU_TPM2B_PRIVATE_VENDOR_SPECIFIC_Unmarshal :: "TPM2B ufun" where
  "Tss2_MU_TPM2B_PRIVATE_VENDOR_SPECIFIC_Unmarshal = TPM2B_UNMARSHAL (TPM2_PRIVATE_VENDOR_SPECIFIC_BYTES)"

interpretation mu_TPM2B_PRIVATE_VENDOR_SPECIFIC: codec "\<lambda>s. Tss2_MU_TPM2B_PRIVATE_VENDOR_SPECIFIC_Marshal (Some s)"
  "(src_TPM2B 1282 1280)" "(valid_TPM2B 1280)" "wire_TPM2B" "1282" Tss2_MU_TPM2B_PRIVATE_VENDOR_SPECIFIC_Unmarshal "(wt_TPM2B 1280)" "(valid_TPM2B 1280)"
  using codecI [OF marshaler_TPM2B [of 1280 1282] strict_unmarshaler_TPM2B [of 1280]]
  by (simp add: Tss2_MU_TPM2B_PRIVATE_VENDOR_SPECIFIC_Marshal_def Tss2_MU_TPM2B_PRIVATE_VENDOR_SPECIFIC_Unmarshal_def)

definition Tss2_MU_TPM2B_PRIVATE_Marshal :: "TPM2B option mfun" where
  "Tss2_MU_TPM2B_PRIVATE_Marshal = TPM2B_MARSHAL (sizeof ct_TPM2B_PRIVATE)"

definition Tss2_MU_TPM2B_PRIVATE_Unmarshal :: "TPM2B ufun" where
  "Tss2_MU_TPM2B_PRIVATE_Unmarshal = TPM2B_UNMARSHAL (sizeof ct_PRIVATE)"

interpretation mu_TPM2B_PRIVATE: codec "\<lambda>s. Tss2_MU_TPM2B_PRIVATE_Marshal (Some s)"
  "(src_TPM2B 1552 1550)" "(valid_TPM2B 1550)" "wire_TPM2B" "1552" Tss2_MU_TPM2B_PRIVATE_Unmarshal "(wt_TPM2B 1550)" "(valid_TPM2B 1550)"
  using codecI [OF marshaler_TPM2B [of 1550 1552] strict_unmarshaler_TPM2B [of 1550]]
  by (simp add: Tss2_MU_TPM2B_PRIVATE_Marshal_def Tss2_MU_TPM2B_PRIVATE_Unmarshal_def)

definition Tss2_MU_TPM2B_ID_OBJECT_Marshal :: "TPM2B option mfun" where
  "Tss2_MU_TPM2B_ID_OBJECT_Marshal = TPM2B_MARSHAL (sizeof ct_TPM2B_ID_OBJECT)"

definition Tss2_MU_TPM2B_ID_OBJECT_Unmarshal :: "TPM2B ufun" where
  "Tss2_MU_TPM2B_ID_OBJECT_Unmarshal = TPM2B_UNMARSHAL (sizeof ct_TPMS_ID_OBJECT)"

interpretation mu_TPM2B_ID_OBJECT: codec "\<lambda>s. Tss2_MU_TPM2B_ID_OBJECT_Marshal (Some s)"
  "(src_TPM2B 134 132)" "(valid_TPM2B 132)" "wire_TPM2B" "134" Tss2_MU_TPM2B_ID_OBJECT_Unmarshal "(wt_TPM2B 132)" "(valid_TPM2B 132)"
  using codecI [OF marshaler_TPM2B [of 132 134] strict_unmarshaler_TPM2B [of 132]]
  by (simp add: Tss2_MU_TPM2B_ID_OBJECT_Marshal_def Tss2_MU_TPM2B_ID_OBJECT_Unmarshal_def)

definition Tss2_MU_TPM2B_CONTEXT_SENSITIVE_Marshal :: "TPM2B option mfun" where
  "Tss2_MU_TPM2B_CONTEXT_SENSITIVE_Marshal = TPM2B_MARSHAL (sizeof ct_TPM2B_CONTEXT_SENSITIVE)"

definition Tss2_MU_TPM2B_CONTEXT_SENSITIVE_Unmarshal :: "TPM2B ufun" where
  "Tss2_MU_TPM2B_CONTEXT_SENSITIVE_Unmarshal = TPM2B_UNMARSHAL (TPM2_MAX_CONTEXT_SIZE)"

interpretation mu_TPM2B_CONTEXT_SENSITIVE: codec "\<lambda>s. Tss2_MU_TPM2B_CONTEXT_SENSITIVE_Marshal (Some s)"
  "(src_TPM2B 5122 5120)" "(valid_TPM2B 5120)" "wire_TPM2B" "5122" Tss2_MU_TPM2B_CONTEXT_SENSITIVE_Unmarshal "(wt_TPM2B 5120)" "(valid_TPM2B 5120)"
  using codecI [OF marshaler_TPM2B [of 5120 5122] strict_unmarshaler_TPM2B [of 5120]]
  by (simp add: Tss2_MU_TPM2B_CONTEXT_SENSITIVE_Marshal_def Tss2_MU_TPM2B_CONTEXT_SENSITIVE_Unmarshal_def)

definition Tss2_MU_TPM2B_CONTEXT_DATA_Marshal :: "TPM2B option mfun" where
  "Tss2_MU_TPM2B_CONTEXT_DATA_Marshal = TPM2B_MARSHAL (sizeof ct_TPM2B_CONTEXT_DATA)"

definition Tss2_MU_TPM2B_CONTEXT_DATA_Unmarshal :: "TPM2B ufun" where
  "Tss2_MU_TPM2B_CONTEXT_DATA_Unmarshal = TPM2B_UNMARSHAL (sizeof ct_TPMS_CONTEXT_DATA)"

interpretation mu_TPM2B_CONTEXT_DATA: codec "\<lambda>s. Tss2_MU_TPM2B_CONTEXT_DATA_Marshal (Some s)"
  "(src_TPM2B 5190 5188)" "(valid_TPM2B 5188)" "wire_TPM2B" "5190" Tss2_MU_TPM2B_CONTEXT_DATA_Unmarshal "(wt_TPM2B 5188)" "(valid_TPM2B 5188)"
  using codecI [OF marshaler_TPM2B [of 5188 5190] strict_unmarshaler_TPM2B [of 5188]]
  by (simp add: Tss2_MU_TPM2B_CONTEXT_DATA_Marshal_def Tss2_MU_TPM2B_CONTEXT_DATA_Unmarshal_def)

definition Tss2_MU_TPM2B_NONCE_Marshal :: "TPM2B option mfun" where
  "Tss2_MU_TPM2B_NONCE_Marshal = TPM2B_MARSHAL (sizeof ct_TPM2B_DIGEST)"

definition Tss2_MU_TPM2B_NONCE_Unmarshal :: "TPM2B ufun" where
  "Tss2_MU_TPM2B_NONCE_Unmarshal = TPM2B_UNMARSHAL (sizeof ct_TPMU_HA)"

interpretation mu_TPM2B_NONCE: codec "\<lambda>s. Tss2_MU_TPM2B_NONCE_Marshal (Some s)"
  "(src_TPM2B 66 64)" "(valid_TPM2B 64)" "wire_TPM2B" "66" Tss2_MU_TPM2B_NONCE_Unmarshal "(wt_TPM2B 64)" "(valid_TPM2B 64)"
  using codecI [OF marshaler_TPM2B [of 64 66] strict_unmarshaler_TPM2B [of 64]]
  by (simp add: Tss2_MU_TPM2B_NONCE_Marshal_def Tss2_MU_TPM2B_NONCE_Unmarshal_def)

definition Tss2_MU_TPM2B_TIMEOUT_Marshal :: "TPM2B option mfun" where
  "Tss2_MU_TPM2B_TIMEOUT_Marshal = TPM2B_MARSHAL (sizeof ct_TPM2B_DIGEST)"

definition Tss2_MU_TPM2B_TIMEOUT_Unmarshal :: "TPM2B ufun" where
  "Tss2_MU_TPM2B_TIMEOUT_Unmarshal = TPM2B_UNMARSHAL (sizeof ct_TPMU_HA)"

interpretation mu_TPM2B_TIMEOUT: codec "\<lambda>s. Tss2_MU_TPM2B_TIMEOUT_Marshal (Some s)"
  "(src_TPM2B 66 64)" "(valid_TPM2B 64)" "wire_TPM2B" "66" Tss2_MU_TPM2B_TIMEOUT_Unmarshal "(wt_TPM2B 64)" "(valid_TPM2B 64)"
  using codecI [OF marshaler_TPM2B [of 64 66] strict_unmarshaler_TPM2B [of 64]]
  by (simp add: Tss2_MU_TPM2B_TIMEOUT_Marshal_def Tss2_MU_TPM2B_TIMEOUT_Unmarshal_def)

definition Tss2_MU_TPM2B_AUTH_Marshal :: "TPM2B option mfun" where
  "Tss2_MU_TPM2B_AUTH_Marshal = TPM2B_MARSHAL (sizeof ct_TPM2B_DIGEST)"

definition Tss2_MU_TPM2B_AUTH_Unmarshal :: "TPM2B ufun" where
  "Tss2_MU_TPM2B_AUTH_Unmarshal = TPM2B_UNMARSHAL (sizeof ct_TPMU_HA)"

interpretation mu_TPM2B_AUTH: codec "\<lambda>s. Tss2_MU_TPM2B_AUTH_Marshal (Some s)"
  "(src_TPM2B 66 64)" "(valid_TPM2B 64)" "wire_TPM2B" "66" Tss2_MU_TPM2B_AUTH_Unmarshal "(wt_TPM2B 64)" "(valid_TPM2B 64)"
  using codecI [OF marshaler_TPM2B [of 64 66] strict_unmarshaler_TPM2B [of 64]]
  by (simp add: Tss2_MU_TPM2B_AUTH_Marshal_def Tss2_MU_TPM2B_AUTH_Unmarshal_def)

definition Tss2_MU_TPM2B_OPERAND_Marshal :: "TPM2B option mfun" where
  "Tss2_MU_TPM2B_OPERAND_Marshal = TPM2B_MARSHAL (sizeof ct_TPM2B_DIGEST)"

definition Tss2_MU_TPM2B_OPERAND_Unmarshal :: "TPM2B ufun" where
  "Tss2_MU_TPM2B_OPERAND_Unmarshal = TPM2B_UNMARSHAL (sizeof ct_TPMU_HA)"

interpretation mu_TPM2B_OPERAND: codec "\<lambda>s. Tss2_MU_TPM2B_OPERAND_Marshal (Some s)"
  "(src_TPM2B 66 64)" "(valid_TPM2B 64)" "wire_TPM2B" "66" Tss2_MU_TPM2B_OPERAND_Unmarshal "(wt_TPM2B 64)" "(valid_TPM2B 64)"
  using codecI [OF marshaler_TPM2B [of 64 66] strict_unmarshaler_TPM2B [of 64]]
  by (simp add: Tss2_MU_TPM2B_OPERAND_Marshal_def Tss2_MU_TPM2B_OPERAND_Unmarshal_def)

definition Tss2_MU_TPM2B_TEMPLATE_Marshal :: "TPM2B option mfun" where
  "Tss2_MU_TPM2B_TEMPLATE_Marshal = TPM2B_MARSHAL (sizeof ct_TPM2B_TEMPLATE)"

definition Tss2_MU_TPM2B_TEMPLATE_Unmarshal :: "TPM2B ufun" where
  "Tss2_MU_TPM2B_TEMPLATE_Unmarshal = TPM2B_UNMARSHAL (sizeof ct_TPMT_PUBLIC)"

interpretation mu_TPM2B_TEMPLATE: codec "\<lambda>s. Tss2_MU_TPM2B_TEMPLATE_Marshal (Some s)"
  "(src_TPM2B 2694 2692)" "(valid_TPM2B 2692)" "wire_TPM2B" "2694" Tss2_MU_TPM2B_TEMPLATE_Unmarshal "(wt_TPM2B 2692)" "(valid_TPM2B 2692)"
  using codecI [OF marshaler_TPM2B [of 2692 2694] strict_unmarshaler_TPM2B [of 2692]]
  by (simp add: Tss2_MU_TPM2B_TEMPLATE_Marshal_def Tss2_MU_TPM2B_TEMPLATE_Unmarshal_def)

definition Tss2_MU_TPM2B_MAX_CAP_BUFFER_Marshal :: "TPM2B option mfun" where
  "Tss2_MU_TPM2B_MAX_CAP_BUFFER_Marshal = TPM2B_MARSHAL (sizeof ct_TPM2B_MAX_CAP_BUFFER)"

definition Tss2_MU_TPM2B_MAX_CAP_BUFFER_Unmarshal :: "TPM2B ufun" where
  "Tss2_MU_TPM2B_MAX_CAP_BUFFER_Unmarshal = TPM2B_UNMARSHAL (TPM2_MAX_CAP_BUFFER)"

interpretation mu_TPM2B_MAX_CAP_BUFFER: codec "\<lambda>s. Tss2_MU_TPM2B_MAX_CAP_BUFFER_Marshal (Some s)"
  "(src_TPM2B 1026 1024)" "(valid_TPM2B 1024)" "wire_TPM2B" "1026" Tss2_MU_TPM2B_MAX_CAP_BUFFER_Unmarshal "(wt_TPM2B 1024)" "(valid_TPM2B 1024)"
  using codecI [OF marshaler_TPM2B [of 1024 1026] strict_unmarshaler_TPM2B [of 1024]]
  by (simp add: Tss2_MU_TPM2B_MAX_CAP_BUFFER_Marshal_def Tss2_MU_TPM2B_MAX_CAP_BUFFER_Unmarshal_def)

definition Tss2_MU_TPM2B_MLKEM_PRIVATE_KEY_Marshal :: "TPM2B option mfun" where
  "Tss2_MU_TPM2B_MLKEM_PRIVATE_KEY_Marshal = TPM2B_MARSHAL (sizeof ct_TPM2B_MLKEM_PRIVATE_KEY)"

definition Tss2_MU_TPM2B_MLKEM_PRIVATE_KEY_Unmarshal :: "TPM2B ufun" where
  "Tss2_MU_TPM2B_MLKEM_PRIVATE_KEY_Unmarshal = TPM2B_UNMARSHAL (TPM2_MLKEM_PRIVATE_KEY_SIZE)"

interpretation mu_TPM2B_MLKEM_PRIVATE_KEY: codec "\<lambda>s. Tss2_MU_TPM2B_MLKEM_PRIVATE_KEY_Marshal (Some s)"
  "(src_TPM2B 66 64)" "(valid_TPM2B 64)" "wire_TPM2B" "66" Tss2_MU_TPM2B_MLKEM_PRIVATE_KEY_Unmarshal "(wt_TPM2B 64)" "(valid_TPM2B 64)"
  using codecI [OF marshaler_TPM2B [of 64 66] strict_unmarshaler_TPM2B [of 64]]
  by (simp add: Tss2_MU_TPM2B_MLKEM_PRIVATE_KEY_Marshal_def Tss2_MU_TPM2B_MLKEM_PRIVATE_KEY_Unmarshal_def)

definition Tss2_MU_TPM2B_MLDSA_PRIVATE_KEY_Marshal :: "TPM2B option mfun" where
  "Tss2_MU_TPM2B_MLDSA_PRIVATE_KEY_Marshal = TPM2B_MARSHAL (sizeof ct_TPM2B_MLDSA_PRIVATE_KEY)"

definition Tss2_MU_TPM2B_MLDSA_PRIVATE_KEY_Unmarshal :: "TPM2B ufun" where
  "Tss2_MU_TPM2B_MLDSA_PRIVATE_KEY_Unmarshal = TPM2B_UNMARSHAL (TPM2_MLDSA_PRIVATE_KEY_SIZE)"

interpretation mu_TPM2B_MLDSA_PRIVATE_KEY: codec "\<lambda>s. Tss2_MU_TPM2B_MLDSA_PRIVATE_KEY_Marshal (Some s)"
  "(src_TPM2B 34 32)" "(valid_TPM2B 32)" "wire_TPM2B" "34" Tss2_MU_TPM2B_MLDSA_PRIVATE_KEY_Unmarshal "(wt_TPM2B 32)" "(valid_TPM2B 32)"
  using codecI [OF marshaler_TPM2B [of 32 34] strict_unmarshaler_TPM2B [of 32]]
  by (simp add: Tss2_MU_TPM2B_MLDSA_PRIVATE_KEY_Marshal_def Tss2_MU_TPM2B_MLDSA_PRIVATE_KEY_Unmarshal_def)

definition Tss2_MU_TPM2B_MLKEM_PUBLIC_KEY_Marshal :: "TPM2B option mfun" where
  "Tss2_MU_TPM2B_MLKEM_PUBLIC_KEY_Marshal = TPM2B_MARSHAL (sizeof ct_TPM2B_MLKEM_PUBLIC_KEY)"

definition Tss2_MU_TPM2B_MLKEM_PUBLIC_KEY_Unmarshal :: "TPM2B ufun" where
  "Tss2_MU_TPM2B_MLKEM_PUBLIC_KEY_Unmarshal = TPM2B_UNMARSHAL (TPM2_MAX_MLKEM_PUBLIC_KEY_SIZE)"

interpretation mu_TPM2B_MLKEM_PUBLIC_KEY: codec "\<lambda>s. Tss2_MU_TPM2B_MLKEM_PUBLIC_KEY_Marshal (Some s)"
  "(src_TPM2B 1570 1568)" "(valid_TPM2B 1568)" "wire_TPM2B" "1570" Tss2_MU_TPM2B_MLKEM_PUBLIC_KEY_Unmarshal "(wt_TPM2B 1568)" "(valid_TPM2B 1568)"
  using codecI [OF marshaler_TPM2B [of 1568 1570] strict_unmarshaler_TPM2B [of 1568]]
  by (simp add: Tss2_MU_TPM2B_MLKEM_PUBLIC_KEY_Marshal_def Tss2_MU_TPM2B_MLKEM_PUBLIC_KEY_Unmarshal_def)

definition Tss2_MU_TPM2B_MLDSA_PUBLIC_KEY_Marshal :: "TPM2B option mfun" where
  "Tss2_MU_TPM2B_MLDSA_PUBLIC_KEY_Marshal = TPM2B_MARSHAL (sizeof ct_TPM2B_MLDSA_PUBLIC_KEY)"

definition Tss2_MU_TPM2B_MLDSA_PUBLIC_KEY_Unmarshal :: "TPM2B ufun" where
  "Tss2_MU_TPM2B_MLDSA_PUBLIC_KEY_Unmarshal = TPM2B_UNMARSHAL (TPM2_MAX_MLDSA_PUBLIC_KEY_SIZE)"

interpretation mu_TPM2B_MLDSA_PUBLIC_KEY: codec "\<lambda>s. Tss2_MU_TPM2B_MLDSA_PUBLIC_KEY_Marshal (Some s)"
  "(src_TPM2B 2594 2592)" "(valid_TPM2B 2592)" "wire_TPM2B" "2594" Tss2_MU_TPM2B_MLDSA_PUBLIC_KEY_Unmarshal "(wt_TPM2B 2592)" "(valid_TPM2B 2592)"
  using codecI [OF marshaler_TPM2B [of 2592 2594] strict_unmarshaler_TPM2B [of 2592]]
  by (simp add: Tss2_MU_TPM2B_MLDSA_PUBLIC_KEY_Marshal_def Tss2_MU_TPM2B_MLDSA_PUBLIC_KEY_Unmarshal_def)

definition Tss2_MU_TPM2B_MLKEM_CIPHERTEXT_Marshal :: "TPM2B option mfun" where
  "Tss2_MU_TPM2B_MLKEM_CIPHERTEXT_Marshal = TPM2B_MARSHAL (sizeof ct_TPM2B_MLKEM_CIPHERTEXT)"

definition Tss2_MU_TPM2B_MLKEM_CIPHERTEXT_Unmarshal :: "TPM2B ufun" where
  "Tss2_MU_TPM2B_MLKEM_CIPHERTEXT_Unmarshal = TPM2B_UNMARSHAL (TPM2_MAX_MLKEM_CIPHERTEXT_SIZE)"

interpretation mu_TPM2B_MLKEM_CIPHERTEXT: codec "\<lambda>s. Tss2_MU_TPM2B_MLKEM_CIPHERTEXT_Marshal (Some s)"
  "(src_TPM2B 1570 1568)" "(valid_TPM2B 1568)" "wire_TPM2B" "1570" Tss2_MU_TPM2B_MLKEM_CIPHERTEXT_Unmarshal "(wt_TPM2B 1568)" "(valid_TPM2B 1568)"
  using codecI [OF marshaler_TPM2B [of 1568 1570] strict_unmarshaler_TPM2B [of 1568]]
  by (simp add: Tss2_MU_TPM2B_MLKEM_CIPHERTEXT_Marshal_def Tss2_MU_TPM2B_MLKEM_CIPHERTEXT_Unmarshal_def)

definition Tss2_MU_TPM2B_MLDSA_SIGNATURE_Marshal :: "TPM2B option mfun" where
  "Tss2_MU_TPM2B_MLDSA_SIGNATURE_Marshal = TPM2B_MARSHAL (sizeof ct_TPM2B_MLDSA_SIGNATURE)"

definition Tss2_MU_TPM2B_MLDSA_SIGNATURE_Unmarshal :: "TPM2B ufun" where
  "Tss2_MU_TPM2B_MLDSA_SIGNATURE_Unmarshal = TPM2B_UNMARSHAL (TPM2_MAX_MLDSA_SIGNATURE_SIZE)"

interpretation mu_TPM2B_MLDSA_SIGNATURE: codec "\<lambda>s. Tss2_MU_TPM2B_MLDSA_SIGNATURE_Marshal (Some s)"
  "(src_TPM2B 4630 4627)" "(valid_TPM2B 4627)" "wire_TPM2B" "4629" Tss2_MU_TPM2B_MLDSA_SIGNATURE_Unmarshal "(wt_TPM2B 4627)" "(valid_TPM2B 4627)"
  using codecI [OF marshaler_TPM2B [of 4627 4630] strict_unmarshaler_TPM2B [of 4627]]
  by (simp add: Tss2_MU_TPM2B_MLDSA_SIGNATURE_Marshal_def Tss2_MU_TPM2B_MLDSA_SIGNATURE_Unmarshal_def)

section \<open>Fixed arrays of \<open>tpmu-types.c\<close>\<close>

definition marshal_hash_sha :: "BYTE list option mfun" where
  "marshal_hash_sha = marshal_tab (TPM2_SHA1_DIGEST_SIZE)"

lemma marshaler_marshal_hash_sha:
  "marshaler (\<lambda>x. marshal_hash_sha (Some x)) (\<lambda>x. length x = 20) (\<lambda>x. length x = 20) (\<lambda>x. x) 20"
  using marshaler_tab [of 20] by (simp add: marshal_hash_sha_def)

definition marshal_hash_sha256 :: "BYTE list option mfun" where
  "marshal_hash_sha256 = marshal_tab (TPM2_SHA256_DIGEST_SIZE)"

lemma marshaler_marshal_hash_sha256:
  "marshaler (\<lambda>x. marshal_hash_sha256 (Some x)) (\<lambda>x. length x = 32) (\<lambda>x. length x = 32) (\<lambda>x. x) 32"
  using marshaler_tab [of 32] by (simp add: marshal_hash_sha256_def)

definition marshal_hash_sha384 :: "BYTE list option mfun" where
  "marshal_hash_sha384 = marshal_tab (TPM2_SHA384_DIGEST_SIZE)"

lemma marshaler_marshal_hash_sha384:
  "marshaler (\<lambda>x. marshal_hash_sha384 (Some x)) (\<lambda>x. length x = 48) (\<lambda>x. length x = 48) (\<lambda>x. x) 48"
  using marshaler_tab [of 48] by (simp add: marshal_hash_sha384_def)

definition marshal_hash_sha512 :: "BYTE list option mfun" where
  "marshal_hash_sha512 = marshal_tab (TPM2_SHA512_DIGEST_SIZE)"

lemma marshaler_marshal_hash_sha512:
  "marshaler (\<lambda>x. marshal_hash_sha512 (Some x)) (\<lambda>x. length x = 64) (\<lambda>x. length x = 64) (\<lambda>x. x) 64"
  using marshaler_tab [of 64] by (simp add: marshal_hash_sha512_def)

definition marshal_sm3_256 :: "BYTE list option mfun" where
  "marshal_sm3_256 = marshal_tab (TPM2_SM3_256_DIGEST_SIZE)"

lemma marshaler_marshal_sm3_256:
  "marshaler (\<lambda>x. marshal_sm3_256 (Some x)) (\<lambda>x. length x = 32) (\<lambda>x. length x = 32) (\<lambda>x. x) 32"
  using marshaler_tab [of 32] by (simp add: marshal_sm3_256_def)

definition marshal_ecc :: "BYTE list option mfun" where
  "marshal_ecc = marshal_tab (sizeof ct_TPMS_ECC_POINT)"

lemma marshaler_marshal_ecc:
  "marshaler (\<lambda>x. marshal_ecc (Some x)) (\<lambda>x. length x = 260) (\<lambda>x. length x = 260) (\<lambda>x. x) 260"
  using marshaler_tab [of 260] by (simp add: marshal_ecc_def)

definition marshal_rsa :: "BYTE list option mfun" where
  "marshal_rsa = marshal_tab (TPM2_MAX_RSA_KEY_BYTES)"

lemma marshaler_marshal_rsa:
  "marshaler (\<lambda>x. marshal_rsa (Some x)) (\<lambda>x. length x = 512) (\<lambda>x. length x = 512) (\<lambda>x. x) 512"
  using marshaler_tab [of 512] by (simp add: marshal_rsa_def)

definition marshal_symmetric :: "BYTE list option mfun" where
  "marshal_symmetric = marshal_tab (sizeof ct_TPM2B_DIGEST)"

lemma marshaler_marshal_symmetric:
  "marshaler (\<lambda>x. marshal_symmetric (Some x)) (\<lambda>x. length x = 66) (\<lambda>x. length x = 66) (\<lambda>x. x) 66"
  using marshaler_tab [of 66] by (simp add: marshal_symmetric_def)

definition marshal_keyedhash :: "BYTE list option mfun" where
  "marshal_keyedhash = marshal_tab (sizeof ct_TPM2B_DIGEST)"

lemma marshaler_marshal_keyedhash:
  "marshaler (\<lambda>x. marshal_keyedhash (Some x)) (\<lambda>x. length x = 66) (\<lambda>x. length x = 66) (\<lambda>x. x) 66"
  using marshaler_tab [of 66] by (simp add: marshal_keyedhash_def)

definition unmarshal_hash_sha :: "BYTE list ufun" where
  "unmarshal_hash_sha = unmarshal_tab (TPM2_SHA1_DIGEST_SIZE)"

lemma unmarshaler_unmarshal_hash_sha:
  "strict_unmarshaler unmarshal_hash_sha (\<lambda>x. length x = 20) (\<lambda>x. length x = 20) (\<lambda>x. x)"
  using strict_unmarshaler_tab [of 20] by (simp add: unmarshal_hash_sha_def)

definition unmarshal_hash_sha256 :: "BYTE list ufun" where
  "unmarshal_hash_sha256 = unmarshal_tab (TPM2_SHA256_DIGEST_SIZE)"

lemma unmarshaler_unmarshal_hash_sha256:
  "strict_unmarshaler unmarshal_hash_sha256 (\<lambda>x. length x = 32) (\<lambda>x. length x = 32) (\<lambda>x. x)"
  using strict_unmarshaler_tab [of 32] by (simp add: unmarshal_hash_sha256_def)

definition unmarshal_hash_sha384 :: "BYTE list ufun" where
  "unmarshal_hash_sha384 = unmarshal_tab (TPM2_SHA384_DIGEST_SIZE)"

lemma unmarshaler_unmarshal_hash_sha384:
  "strict_unmarshaler unmarshal_hash_sha384 (\<lambda>x. length x = 48) (\<lambda>x. length x = 48) (\<lambda>x. x)"
  using strict_unmarshaler_tab [of 48] by (simp add: unmarshal_hash_sha384_def)

definition unmarshal_hash_sha512 :: "BYTE list ufun" where
  "unmarshal_hash_sha512 = unmarshal_tab (TPM2_SHA512_DIGEST_SIZE)"

lemma unmarshaler_unmarshal_hash_sha512:
  "strict_unmarshaler unmarshal_hash_sha512 (\<lambda>x. length x = 64) (\<lambda>x. length x = 64) (\<lambda>x. x)"
  using strict_unmarshaler_tab [of 64] by (simp add: unmarshal_hash_sha512_def)

definition unmarshal_sm3_256 :: "BYTE list ufun" where
  "unmarshal_sm3_256 = unmarshal_tab (TPM2_SM3_256_DIGEST_SIZE)"

lemma unmarshaler_unmarshal_sm3_256:
  "strict_unmarshaler unmarshal_sm3_256 (\<lambda>x. length x = 32) (\<lambda>x. length x = 32) (\<lambda>x. x)"
  using strict_unmarshaler_tab [of 32] by (simp add: unmarshal_sm3_256_def)

definition unmarshal_ecc :: "BYTE list ufun" where
  "unmarshal_ecc = unmarshal_tab (sizeof ct_TPMS_ECC_POINT)"

lemma unmarshaler_unmarshal_ecc:
  "strict_unmarshaler unmarshal_ecc (\<lambda>x. length x = 260) (\<lambda>x. length x = 260) (\<lambda>x. x)"
  using strict_unmarshaler_tab [of 260] by (simp add: unmarshal_ecc_def)

definition unmarshal_rsa :: "BYTE list ufun" where
  "unmarshal_rsa = unmarshal_tab (TPM2_MAX_RSA_KEY_BYTES)"

lemma unmarshaler_unmarshal_rsa:
  "strict_unmarshaler unmarshal_rsa (\<lambda>x. length x = 512) (\<lambda>x. length x = 512) (\<lambda>x. x)"
  using strict_unmarshaler_tab [of 512] by (simp add: unmarshal_rsa_def)

definition unmarshal_symmetric :: "BYTE list ufun" where
  "unmarshal_symmetric = unmarshal_tab (sizeof ct_TPM2B_DIGEST)"

lemma unmarshaler_unmarshal_symmetric:
  "strict_unmarshaler unmarshal_symmetric (\<lambda>x. length x = 66) (\<lambda>x. length x = 66) (\<lambda>x. x)"
  using strict_unmarshaler_tab [of 66] by (simp add: unmarshal_symmetric_def)

definition unmarshal_keyedhash :: "BYTE list ufun" where
  "unmarshal_keyedhash = unmarshal_tab (sizeof ct_TPM2B_DIGEST)"

lemma unmarshaler_unmarshal_keyedhash:
  "strict_unmarshaler unmarshal_keyedhash (\<lambda>x. length x = 66) (\<lambda>x. length x = 66) (\<lambda>x. x)"
  using strict_unmarshaler_tab [of 66] by (simp add: unmarshal_keyedhash_def)


end
