(* ===== verification/MU_Objects.thy ===== *)
theory MU_Objects
  imports MU_Buffers
begin

text \<open>
  Structures, lists and unions of public and sensitive areas, NV public areas and creation data
  (\<open>tpms-types.c\<close>, \<open>tpmt-types.c\<close>, \<open>tpml-types.c\<close>, \<open>tpmu-types.c\<close>).  For each type: its two functions as the macro
  invocation gives them, what a source, a valid value and its wire format are, and the
  interpretation of the codec interface by the functions.
\<close>

section \<open>Public areas\<close>

definition Tss2_MU_TPMS_ECC_POINT_Marshal :: "TPMS_ECC_POINT option mfun" where
  "Tss2_MU_TPMS_ECC_POINT_Marshal = TPMS_MARSHAL_2
     (ADDR TPMS_ECC_POINT_x Tss2_MU_TPM2B_ECC_PARAMETER_Marshal)
     (ADDR TPMS_ECC_POINT_y Tss2_MU_TPM2B_ECC_PARAMETER_Marshal)"

definition Tss2_MU_TPMS_ECC_POINT_Unmarshal :: "TPMS_ECC_POINT ufun" where
  "Tss2_MU_TPMS_ECC_POINT_Unmarshal = TPMS_UNMARSHAL_2 zero_TPMS_ECC_POINT
     TPMS_ECC_POINT_x TPMS_ECC_POINT_x_update Tss2_MU_TPM2B_ECC_PARAMETER_Unmarshal
     TPMS_ECC_POINT_y TPMS_ECC_POINT_y_update Tss2_MU_TPM2B_ECC_PARAMETER_Unmarshal"

definition src_TPMS_ECC_POINT :: "TPMS_ECC_POINT \<Rightarrow> bool" where
  "src_TPMS_ECC_POINT s \<longleftrightarrow> (src_TPM2B 130 128) (TPMS_ECC_POINT_x s) \<and>
     (src_TPM2B 130 128) (TPMS_ECC_POINT_y s)"

definition valid_TPMS_ECC_POINT :: "TPMS_ECC_POINT \<Rightarrow> bool" where
  "valid_TPMS_ECC_POINT s \<longleftrightarrow> (valid_TPM2B 128) (TPMS_ECC_POINT_x s) \<and>
     (valid_TPM2B 128) (TPMS_ECC_POINT_y s)"

definition wire_TPMS_ECC_POINT :: "TPMS_ECC_POINT \<Rightarrow> BYTE list" where
  "wire_TPMS_ECC_POINT s = wire_TPM2B (TPMS_ECC_POINT_x s) @
     wire_TPM2B (TPMS_ECC_POINT_y s)"

lemma marshaler_TPMS_ECC_POINT:
  "marshaler (\<lambda>s. Tss2_MU_TPMS_ECC_POINT_Marshal (Some s)) src_TPMS_ECC_POINT valid_TPMS_ECC_POINT wire_TPMS_ECC_POINT 260"
  unfolding Tss2_MU_TPMS_ECC_POINT_Marshal_def struct_marshal_defs
  by (rule marshaler_cong,
      (rule marshaler_Cons marshaler_Nil marshaler_ADDR [OF mu_TPM2B_ECC_PARAMETER.marshaler_axioms])+)
    (simp_all add: src_TPMS_ECC_POINT_def valid_TPMS_ECC_POINT_def wire_TPMS_ECC_POINT_def)

lemma unmarshaler_TPMS_ECC_POINT:
  "strict_unmarshaler Tss2_MU_TPMS_ECC_POINT_Unmarshal wt_TPMS_ECC_POINT valid_TPMS_ECC_POINT wire_TPMS_ECC_POINT"
  unfolding Tss2_MU_TPMS_ECC_POINT_Unmarshal_def struct_unmarshal_defs
  by (rule strict_unmarshaler_cong, rule strict_unmarshaler_struct,
      rule useq_ok_Cons,
      rule useq_ok_FLD(1) [OF mu_TPM2B_ECC_PARAMETER.strict_unmarshaler_axioms], simp,
      rule useq_ok_Cons,
      rule useq_ok_FLD(1) [OF mu_TPM2B_ECC_PARAMETER.strict_unmarshaler_axioms], simp,
      rule useq_ok_Nil)
    (simp_all add: keeps_simps be_bytes_inject wt_TPMS_ECC_POINT_def valid_TPMS_ECC_POINT_def wire_TPMS_ECC_POINT_def wt_zero_TPMS_ECC_POINT [unfolded wt_TPMS_ECC_POINT_def])

interpretation mu_TPMS_ECC_POINT: codec "\<lambda>s. Tss2_MU_TPMS_ECC_POINT_Marshal (Some s)"
  "src_TPMS_ECC_POINT" "valid_TPMS_ECC_POINT" "wire_TPMS_ECC_POINT" "260" Tss2_MU_TPMS_ECC_POINT_Unmarshal "wt_TPMS_ECC_POINT" "valid_TPMS_ECC_POINT"
  by (rule codecI [OF marshaler_TPMS_ECC_POINT unmarshaler_TPMS_ECC_POINT])

definition Tss2_MU_TPM2B_ECC_POINT_Marshal :: "TPM2B_ECC_POINT option mfun" where
  "Tss2_MU_TPM2B_ECC_POINT_Marshal = TPM2B_MARSHAL_SUBTYPE Tss2_MU_TPMS_ECC_POINT_Marshal"

definition Tss2_MU_TPM2B_ECC_POINT_Unmarshal :: "TPM2B_ECC_POINT ufun" where
  "Tss2_MU_TPM2B_ECC_POINT_Unmarshal = TPM2B_UNMARSHAL_SUBTYPE (sizeof ct_TPMS_ECC_POINT) Tss2_MU_TPMS_ECC_POINT_Unmarshal"

interpretation mu_TPM2B_ECC_POINT: transport "\<lambda>s. Tss2_MU_TPM2B_ECC_POINT_Marshal (Some s)"
  "(\<lambda>s. src_TPMS_ECC_POINT (TPM2B_SUBTYPE_member s))" "(\<lambda>s. valid_TPMS_ECC_POINT (TPM2B_SUBTYPE_member s))" "(wire_SUBTYPE wire_TPMS_ECC_POINT)" "262" Tss2_MU_TPM2B_ECC_POINT_Unmarshal "(\<lambda>s. wt_TPMS_ECC_POINT (TPM2B_SUBTYPE_member s))" "(\<lambda>s. valid_TPMS_ECC_POINT (TPM2B_SUBTYPE_member s))"
  using transportI [OF marshaler_SUBTYPE [OF mu_TPMS_ECC_POINT.marshaler_axioms]
      unmarshaler_SUBTYPE [OF mu_TPMS_ECC_POINT.unmarshaler_axioms le_trans [OF mu_TPMS_ECC_POINT.wire_le]], of 260]
  by (simp add: Tss2_MU_TPM2B_ECC_POINT_Marshal_def Tss2_MU_TPM2B_ECC_POINT_Unmarshal_def)

definition Tss2_MU_TPMS_NV_PUBLIC_Marshal :: "TPMS_NV_PUBLIC option mfun" where
  "Tss2_MU_TPMS_NV_PUBLIC_Marshal = TPMS_MARSHAL_5
     (VAL TPMS_NV_PUBLIC_nvIndex Tss2_MU_UINT32_Marshal)
     (VAL TPMS_NV_PUBLIC_nameAlg Tss2_MU_UINT16_Marshal)
     (VAL TPMS_NV_PUBLIC_attributes Tss2_MU_TPMA_NV_Marshal)
     (ADDR TPMS_NV_PUBLIC_authPolicy Tss2_MU_TPM2B_DIGEST_Marshal)
     (VAL TPMS_NV_PUBLIC_dataSize Tss2_MU_UINT16_Marshal)"

definition Tss2_MU_TPMS_NV_PUBLIC_Unmarshal :: "TPMS_NV_PUBLIC ufun" where
  "Tss2_MU_TPMS_NV_PUBLIC_Unmarshal = TPMS_UNMARSHAL_5 zero_TPMS_NV_PUBLIC
     TPMS_NV_PUBLIC_nvIndex TPMS_NV_PUBLIC_nvIndex_update Tss2_MU_UINT32_Unmarshal
     TPMS_NV_PUBLIC_nameAlg TPMS_NV_PUBLIC_nameAlg_update Tss2_MU_UINT16_Unmarshal
     TPMS_NV_PUBLIC_attributes TPMS_NV_PUBLIC_attributes_update Tss2_MU_TPMA_NV_Unmarshal
     TPMS_NV_PUBLIC_authPolicy TPMS_NV_PUBLIC_authPolicy_update Tss2_MU_TPM2B_DIGEST_Unmarshal
     TPMS_NV_PUBLIC_dataSize TPMS_NV_PUBLIC_dataSize_update Tss2_MU_UINT16_Unmarshal"

definition src_TPMS_NV_PUBLIC :: "TPMS_NV_PUBLIC \<Rightarrow> bool" where
  "src_TPMS_NV_PUBLIC s \<longleftrightarrow> (src_TPM2B 66 64) (TPMS_NV_PUBLIC_authPolicy s)"

definition valid_TPMS_NV_PUBLIC :: "TPMS_NV_PUBLIC \<Rightarrow> bool" where
  "valid_TPMS_NV_PUBLIC s \<longleftrightarrow> (valid_TPM2B 64) (TPMS_NV_PUBLIC_authPolicy s)"

definition wire_TPMS_NV_PUBLIC :: "TPMS_NV_PUBLIC \<Rightarrow> BYTE list" where
  "wire_TPMS_NV_PUBLIC s = be_bytes (TPMS_NV_PUBLIC_nvIndex s) @
     be_bytes (TPMS_NV_PUBLIC_nameAlg s) @
     be_bytes (TPMS_NV_PUBLIC_attributes s) @
     wire_TPM2B (TPMS_NV_PUBLIC_authPolicy s) @
     be_bytes (TPMS_NV_PUBLIC_dataSize s)"

lemma marshaler_TPMS_NV_PUBLIC:
  "marshaler (\<lambda>s. Tss2_MU_TPMS_NV_PUBLIC_Marshal (Some s)) src_TPMS_NV_PUBLIC valid_TPMS_NV_PUBLIC wire_TPMS_NV_PUBLIC 78"
  unfolding Tss2_MU_TPMS_NV_PUBLIC_Marshal_def struct_marshal_defs
  by (rule marshaler_cong,
      (rule marshaler_Cons marshaler_Nil marshaler_VAL [OF mu_UINT32.marshaler_axioms]
        marshaler_VAL [OF mu_UINT16.marshaler_axioms]
        marshaler_VAL [OF mu_TPMA_NV.marshaler_axioms]
        marshaler_ADDR [OF mu_TPM2B_DIGEST.marshaler_axioms])+)
    (simp_all add: src_TPMS_NV_PUBLIC_def valid_TPMS_NV_PUBLIC_def wire_TPMS_NV_PUBLIC_def)

lemma unmarshaler_TPMS_NV_PUBLIC:
  "strict_unmarshaler Tss2_MU_TPMS_NV_PUBLIC_Unmarshal wt_TPMS_NV_PUBLIC valid_TPMS_NV_PUBLIC wire_TPMS_NV_PUBLIC"
  unfolding Tss2_MU_TPMS_NV_PUBLIC_Unmarshal_def struct_unmarshal_defs
  by (rule strict_unmarshaler_cong, rule strict_unmarshaler_struct,
      rule useq_ok_Cons,
      rule useq_ok_FLD(1) [OF mu_UINT32.strict_unmarshaler_axioms], simp,
      rule useq_ok_Cons,
      rule useq_ok_FLD(1) [OF mu_UINT16.strict_unmarshaler_axioms], simp,
      rule useq_ok_Cons,
      rule useq_ok_FLD(1) [OF mu_TPMA_NV.strict_unmarshaler_axioms], simp,
      rule useq_ok_Cons,
      rule useq_ok_FLD(1) [OF mu_TPM2B_DIGEST.strict_unmarshaler_axioms], simp,
      rule useq_ok_Cons,
      rule useq_ok_FLD(1) [OF mu_UINT16.strict_unmarshaler_axioms], simp,
      rule useq_ok_Nil)
    (simp_all add: keeps_simps be_bytes_inject wt_TPMS_NV_PUBLIC_def valid_TPMS_NV_PUBLIC_def wire_TPMS_NV_PUBLIC_def wt_zero_TPMS_NV_PUBLIC [unfolded wt_TPMS_NV_PUBLIC_def])

interpretation mu_TPMS_NV_PUBLIC: codec "\<lambda>s. Tss2_MU_TPMS_NV_PUBLIC_Marshal (Some s)"
  "src_TPMS_NV_PUBLIC" "valid_TPMS_NV_PUBLIC" "wire_TPMS_NV_PUBLIC" "78" Tss2_MU_TPMS_NV_PUBLIC_Unmarshal "wt_TPMS_NV_PUBLIC" "valid_TPMS_NV_PUBLIC"
  by (rule codecI [OF marshaler_TPMS_NV_PUBLIC unmarshaler_TPMS_NV_PUBLIC])

definition Tss2_MU_TPM2B_NV_PUBLIC_Marshal :: "TPM2B_NV_PUBLIC option mfun" where
  "Tss2_MU_TPM2B_NV_PUBLIC_Marshal = TPM2B_MARSHAL_SUBTYPE Tss2_MU_TPMS_NV_PUBLIC_Marshal"

definition Tss2_MU_TPM2B_NV_PUBLIC_Unmarshal :: "TPM2B_NV_PUBLIC ufun" where
  "Tss2_MU_TPM2B_NV_PUBLIC_Unmarshal = TPM2B_UNMARSHAL_SUBTYPE (sizeof ct_TPMS_NV_PUBLIC) Tss2_MU_TPMS_NV_PUBLIC_Unmarshal"

interpretation mu_TPM2B_NV_PUBLIC: transport "\<lambda>s. Tss2_MU_TPM2B_NV_PUBLIC_Marshal (Some s)"
  "(\<lambda>s. src_TPMS_NV_PUBLIC (TPM2B_SUBTYPE_member s))" "(\<lambda>s. valid_TPMS_NV_PUBLIC (TPM2B_SUBTYPE_member s))" "(wire_SUBTYPE wire_TPMS_NV_PUBLIC)" "80" Tss2_MU_TPM2B_NV_PUBLIC_Unmarshal "(\<lambda>s. wt_TPMS_NV_PUBLIC (TPM2B_SUBTYPE_member s))" "(\<lambda>s. valid_TPMS_NV_PUBLIC (TPM2B_SUBTYPE_member s))"
  using transportI [OF marshaler_SUBTYPE [OF mu_TPMS_NV_PUBLIC.marshaler_axioms]
      unmarshaler_SUBTYPE [OF mu_TPMS_NV_PUBLIC.unmarshaler_axioms le_trans [OF mu_TPMS_NV_PUBLIC.wire_le]], of 80]
  by (simp add: Tss2_MU_TPM2B_NV_PUBLIC_Marshal_def Tss2_MU_TPM2B_NV_PUBLIC_Unmarshal_def)

definition Tss2_MU_TPMU_SENSITIVE_COMPOSITE_Marshal :: "TPMU_SENSITIVE_COMPOSITE option \<Rightarrow> UINT32 \<Rightarrow> buf option \<Rightarrow> size_t \<Rightarrow> size_t option \<Rightarrow> mres" where
  "Tss2_MU_TPMU_SENSITIVE_COMPOSITE_Marshal = TPMU_MARSHAL2
    [(ucast TPM2_ALG_RSA, U_ADDR get_TPMU_SENSITIVE_COMPOSITE_rsa Tss2_MU_TPM2B_PRIVATE_KEY_RSA_Marshal),
     (ucast TPM2_ALG_ECC, U_ADDR get_TPMU_SENSITIVE_COMPOSITE_ecc Tss2_MU_TPM2B_ECC_PARAMETER_Marshal),
     (ucast TPM2_ALG_KEYEDHASH, U_ADDR get_TPMU_SENSITIVE_COMPOSITE_bits Tss2_MU_TPM2B_SENSITIVE_DATA_Marshal),
     (ucast TPM2_ALG_SYMCIPHER, U_ADDR get_TPMU_SENSITIVE_COMPOSITE_sym Tss2_MU_TPM2B_SYM_KEY_Marshal),
     (ucast TPM2_ALG_MLKEM, U_ADDR get_TPMU_SENSITIVE_COMPOSITE_mlkem Tss2_MU_TPM2B_MLKEM_PRIVATE_KEY_Marshal),
     (ucast TPM2_ALG_MLDSA, U_ADDR get_TPMU_SENSITIVE_COMPOSITE_mldsa Tss2_MU_TPM2B_MLDSA_PRIVATE_KEY_Marshal)]"

definition Tss2_MU_TPMU_SENSITIVE_COMPOSITE_Unmarshal :: "buf option \<Rightarrow> size_t \<Rightarrow> size_t option \<Rightarrow> UINT32 \<Rightarrow> TPMU_SENSITIVE_COMPOSITE option \<Rightarrow> TPMU_SENSITIVE_COMPOSITE ures" where
  "Tss2_MU_TPMU_SENSITIVE_COMPOSITE_Unmarshal = TPMU_UNMARSHAL2
    [(ucast TPM2_ALG_RSA, U_MEM get_TPMU_SENSITIVE_COMPOSITE_rsa TPMU_SENSITIVE_COMPOSITE_rsa (zero_TPM2B 1280) Tss2_MU_TPM2B_PRIVATE_KEY_RSA_Unmarshal),
     (ucast TPM2_ALG_ECC, U_MEM get_TPMU_SENSITIVE_COMPOSITE_ecc TPMU_SENSITIVE_COMPOSITE_ecc (zero_TPM2B 128) Tss2_MU_TPM2B_ECC_PARAMETER_Unmarshal),
     (ucast TPM2_ALG_KEYEDHASH, U_MEM get_TPMU_SENSITIVE_COMPOSITE_bits TPMU_SENSITIVE_COMPOSITE_bits (zero_TPM2B 256) Tss2_MU_TPM2B_SENSITIVE_DATA_Unmarshal),
     (ucast TPM2_ALG_SYMCIPHER, U_MEM get_TPMU_SENSITIVE_COMPOSITE_sym TPMU_SENSITIVE_COMPOSITE_sym (zero_TPM2B 32) Tss2_MU_TPM2B_SYM_KEY_Unmarshal),
     (ucast TPM2_ALG_MLKEM, U_MEM get_TPMU_SENSITIVE_COMPOSITE_mlkem TPMU_SENSITIVE_COMPOSITE_mlkem (zero_TPM2B 64) Tss2_MU_TPM2B_MLKEM_PRIVATE_KEY_Unmarshal),
     (ucast TPM2_ALG_MLDSA, U_MEM get_TPMU_SENSITIVE_COMPOSITE_mldsa TPMU_SENSITIVE_COMPOSITE_mldsa (zero_TPM2B 32) Tss2_MU_TPM2B_MLDSA_PRIVATE_KEY_Unmarshal)]"

definition spec_TPMU_SENSITIVE_COMPOSITE :: "(UINT32 \<times> TPMU_SENSITIVE_COMPOSITE mspec) list" where
  "spec_TPMU_SENSITIVE_COMPOSITE =
    [(ucast TPM2_ALG_RSA, member_spec get_TPMU_SENSITIVE_COMPOSITE_rsa (src_TPM2B 1282 1280) (valid_TPM2B 1280) wire_TPM2B),
     (ucast TPM2_ALG_ECC, member_spec get_TPMU_SENSITIVE_COMPOSITE_ecc (src_TPM2B 130 128) (valid_TPM2B 128) wire_TPM2B),
     (ucast TPM2_ALG_KEYEDHASH, member_spec get_TPMU_SENSITIVE_COMPOSITE_bits (src_TPM2B 258 256) (valid_TPM2B 256) wire_TPM2B),
     (ucast TPM2_ALG_SYMCIPHER, member_spec get_TPMU_SENSITIVE_COMPOSITE_sym (src_TPM2B 34 32) (valid_TPM2B 32) wire_TPM2B),
     (ucast TPM2_ALG_MLKEM, member_spec get_TPMU_SENSITIVE_COMPOSITE_mlkem (src_TPM2B 66 64) (valid_TPM2B 64) wire_TPM2B),
     (ucast TPM2_ALG_MLDSA, member_spec get_TPMU_SENSITIVE_COMPOSITE_mldsa (src_TPM2B 34 32) (valid_TPM2B 32) wire_TPM2B)]"

abbreviation "src_TPMU_SENSITIVE_COMPOSITE \<equiv> src_union spec_TPMU_SENSITIVE_COMPOSITE"
abbreviation "valid_TPMU_SENSITIVE_COMPOSITE \<equiv> valid_union spec_TPMU_SENSITIVE_COMPOSITE"
abbreviation "wire_TPMU_SENSITIVE_COMPOSITE \<equiv> wire_union spec_TPMU_SENSITIVE_COMPOSITE"

lemma marshaler_TPMU_SENSITIVE_COMPOSITE:
  "marshaler (\<lambda>u. Tss2_MU_TPMU_SENSITIVE_COMPOSITE_Marshal (Some u) k) (src_TPMU_SENSITIVE_COMPOSITE k) (valid_TPMU_SENSITIVE_COMPOSITE k) (wire_TPMU_SENSITIVE_COMPOSITE k) 1282"
  unfolding Tss2_MU_TPMU_SENSITIVE_COMPOSITE_Marshal_def spec_TPMU_SENSITIVE_COMPOSITE_def
  by (rule marshaler_TPMU, simp only: entry_rel_simps, intro conjI refl TrueI
      marshals_ADDR [OF mu_TPM2B_PRIVATE_KEY_RSA.marshaler_axioms]
      marshals_ADDR [OF mu_TPM2B_ECC_PARAMETER.marshaler_axioms]
      marshals_ADDR [OF mu_TPM2B_SENSITIVE_DATA.marshaler_axioms]
      marshals_ADDR [OF mu_TPM2B_SYM_KEY.marshaler_axioms]
      marshals_ADDR [OF mu_TPM2B_MLKEM_PRIVATE_KEY.marshaler_axioms]
      marshals_ADDR [OF mu_TPM2B_MLDSA_PRIVATE_KEY.marshaler_axioms])
    (simp_all add: get_TPMU_SENSITIVE_COMPOSITE)

lemma unmarshaler_TPMU_SENSITIVE_COMPOSITE:
  "strict_unmarshaler (\<lambda>b bs off. Tss2_MU_TPMU_SENSITIVE_COMPOSITE_Unmarshal b bs off k) wt_TPMU_SENSITIVE_COMPOSITE (valid_TPMU_SENSITIVE_COMPOSITE k) (wire_TPMU_SENSITIVE_COMPOSITE k)"
  unfolding Tss2_MU_TPMU_SENSITIVE_COMPOSITE_Unmarshal_def spec_TPMU_SENSITIVE_COMPOSITE_def
  by (rule strict_unmarshaler_TPMU, simp only: entry_rel_simps, intro conjI refl TrueI
      unmarshals_MEM [OF mu_TPM2B_PRIVATE_KEY_RSA.strict_unmarshaler_axioms]
      unmarshals_MEM [OF mu_TPM2B_ECC_PARAMETER.strict_unmarshaler_axioms]
      unmarshals_MEM [OF mu_TPM2B_SENSITIVE_DATA.strict_unmarshaler_axioms]
      unmarshals_MEM [OF mu_TPM2B_SYM_KEY.strict_unmarshaler_axioms]
      unmarshals_MEM [OF mu_TPM2B_MLKEM_PRIVATE_KEY.strict_unmarshaler_axioms]
      unmarshals_MEM [OF mu_TPM2B_MLDSA_PRIVATE_KEY.strict_unmarshaler_axioms])
    (simp_all add: get_TPMU_SENSITIVE_COMPOSITE)

interpretation mu_TPMU_SENSITIVE_COMPOSITE: codec "\<lambda>u. Tss2_MU_TPMU_SENSITIVE_COMPOSITE_Marshal (Some u) k" "src_TPMU_SENSITIVE_COMPOSITE k" "valid_TPMU_SENSITIVE_COMPOSITE k" "wire_TPMU_SENSITIVE_COMPOSITE k" "1282"
  "\<lambda>b bs off. Tss2_MU_TPMU_SENSITIVE_COMPOSITE_Unmarshal b bs off k" wt_TPMU_SENSITIVE_COMPOSITE "valid_TPMU_SENSITIVE_COMPOSITE k" for k
  by (rule codecI [OF marshaler_TPMU_SENSITIVE_COMPOSITE unmarshaler_TPMU_SENSITIVE_COMPOSITE])

definition Tss2_MU_TPMT_SENSITIVE_Marshal :: "TPMT_SENSITIVE option mfun" where
  "Tss2_MU_TPMT_SENSITIVE_Marshal = TPMT_MARSHAL_4
     (VAL TPMT_SENSITIVE_sensitiveType Tss2_MU_UINT16_Marshal)
     (ADDR TPMT_SENSITIVE_authValue Tss2_MU_TPM2B_DIGEST_Marshal)
     (ADDR TPMT_SENSITIVE_seedValue Tss2_MU_TPM2B_DIGEST_Marshal)
     (ADDR_SEL (\<lambda>s. ucast (TPMT_SENSITIVE_sensitiveType s)) TPMT_SENSITIVE_sensitive Tss2_MU_TPMU_SENSITIVE_COMPOSITE_Marshal)"

definition Tss2_MU_TPMT_SENSITIVE_Unmarshal :: "TPMT_SENSITIVE ufun" where
  "Tss2_MU_TPMT_SENSITIVE_Unmarshal = TPMT_UNMARSHAL_4 zero_TPMT_SENSITIVE
     TPMT_SENSITIVE_sensitiveType TPMT_SENSITIVE_sensitiveType_update Tss2_MU_UINT16_Unmarshal
     TPMT_SENSITIVE_authValue TPMT_SENSITIVE_authValue_update Tss2_MU_TPM2B_DIGEST_Unmarshal
     TPMT_SENSITIVE_seedValue TPMT_SENSITIVE_seedValue_update Tss2_MU_TPM2B_DIGEST_Unmarshal
     TPMT_SENSITIVE_sensitive TPMT_SENSITIVE_sensitive_update (\<lambda>s. ucast (TPMT_SENSITIVE_sensitiveType s)) Tss2_MU_TPMU_SENSITIVE_COMPOSITE_Unmarshal"

definition src_TPMT_SENSITIVE :: "TPMT_SENSITIVE \<Rightarrow> bool" where
  "src_TPMT_SENSITIVE s \<longleftrightarrow> (src_TPM2B 66 64) (TPMT_SENSITIVE_authValue s) \<and>
     (src_TPM2B 66 64) (TPMT_SENSITIVE_seedValue s) \<and>
     src_TPMU_SENSITIVE_COMPOSITE (ucast (TPMT_SENSITIVE_sensitiveType s)) (TPMT_SENSITIVE_sensitive s)"

definition valid_TPMT_SENSITIVE :: "TPMT_SENSITIVE \<Rightarrow> bool" where
  "valid_TPMT_SENSITIVE s \<longleftrightarrow> (valid_TPM2B 64) (TPMT_SENSITIVE_authValue s) \<and>
     (valid_TPM2B 64) (TPMT_SENSITIVE_seedValue s) \<and>
     valid_TPMU_SENSITIVE_COMPOSITE (ucast (TPMT_SENSITIVE_sensitiveType s)) (TPMT_SENSITIVE_sensitive s)"

definition wire_TPMT_SENSITIVE :: "TPMT_SENSITIVE \<Rightarrow> BYTE list" where
  "wire_TPMT_SENSITIVE s = be_bytes (TPMT_SENSITIVE_sensitiveType s) @
     wire_TPM2B (TPMT_SENSITIVE_authValue s) @
     wire_TPM2B (TPMT_SENSITIVE_seedValue s) @
     wire_TPMU_SENSITIVE_COMPOSITE (ucast (TPMT_SENSITIVE_sensitiveType s)) (TPMT_SENSITIVE_sensitive s)"

lemma marshaler_TPMT_SENSITIVE:
  "marshaler (\<lambda>s. Tss2_MU_TPMT_SENSITIVE_Marshal (Some s)) src_TPMT_SENSITIVE valid_TPMT_SENSITIVE wire_TPMT_SENSITIVE 1416"
  unfolding Tss2_MU_TPMT_SENSITIVE_Marshal_def struct_marshal_defs
  by (rule marshaler_cong,
      (rule marshaler_Cons marshaler_Nil marshaler_VAL [OF mu_UINT16.marshaler_axioms]
        marshaler_ADDR [OF mu_TPM2B_DIGEST.marshaler_axioms]
        marshaler_ADDR_SEL [OF marshaler_TPMU_SENSITIVE_COMPOSITE])+)
    (simp_all add: src_TPMT_SENSITIVE_def valid_TPMT_SENSITIVE_def wire_TPMT_SENSITIVE_def)

lemma unmarshaler_TPMT_SENSITIVE:
  "strict_unmarshaler Tss2_MU_TPMT_SENSITIVE_Unmarshal wt_TPMT_SENSITIVE valid_TPMT_SENSITIVE wire_TPMT_SENSITIVE"
  unfolding Tss2_MU_TPMT_SENSITIVE_Unmarshal_def struct_unmarshal_defs
  by (rule strict_unmarshaler_cong, rule strict_unmarshaler_struct,
      rule useq_ok_Cons_sel [where sel = "\<lambda>s. ucast (TPMT_SENSITIVE_sensitiveType s)"],
      rule useq_ok_FLD(2) [OF mu_UINT16.strict_unmarshaler_axioms], simp,
      rule useq_ok_Cons,
      rule useq_ok_FLD(2) [OF mu_TPM2B_DIGEST.strict_unmarshaler_axioms], simp,
      rule useq_ok_Cons,
      rule useq_ok_FLD(2) [OF mu_TPM2B_DIGEST.strict_unmarshaler_axioms], simp,
      rule useq_ok_Cons,
      rule useq_ok_UNI(1) [OF unmarshaler_TPMU_SENSITIVE_COMPOSITE], simp, simp,
      rule useq_ok_Nil)
    (simp_all add: keeps_simps be_bytes_inject wt_TPMT_SENSITIVE_def valid_TPMT_SENSITIVE_def wire_TPMT_SENSITIVE_def wt_zero_TPMT_SENSITIVE [unfolded wt_TPMT_SENSITIVE_def])

interpretation mu_TPMT_SENSITIVE: codec "\<lambda>s. Tss2_MU_TPMT_SENSITIVE_Marshal (Some s)"
  "src_TPMT_SENSITIVE" "valid_TPMT_SENSITIVE" "wire_TPMT_SENSITIVE" "1416" Tss2_MU_TPMT_SENSITIVE_Unmarshal "wt_TPMT_SENSITIVE" "valid_TPMT_SENSITIVE"
  by (rule codecI [OF marshaler_TPMT_SENSITIVE unmarshaler_TPMT_SENSITIVE])

definition Tss2_MU_TPM2B_SENSITIVE_Marshal :: "TPM2B_SENSITIVE option mfun" where
  "Tss2_MU_TPM2B_SENSITIVE_Marshal = TPM2B_MARSHAL_SUBTYPE Tss2_MU_TPMT_SENSITIVE_Marshal"

definition Tss2_MU_TPM2B_SENSITIVE_Unmarshal :: "TPM2B_SENSITIVE ufun" where
  "Tss2_MU_TPM2B_SENSITIVE_Unmarshal = TPM2B_UNMARSHAL_SUBTYPE (sizeof ct_TPMT_SENSITIVE) Tss2_MU_TPMT_SENSITIVE_Unmarshal"

interpretation mu_TPM2B_SENSITIVE: transport "\<lambda>s. Tss2_MU_TPM2B_SENSITIVE_Marshal (Some s)"
  "(\<lambda>s. src_TPMT_SENSITIVE (TPM2B_SUBTYPE_member s))" "(\<lambda>s. valid_TPMT_SENSITIVE (TPM2B_SUBTYPE_member s))" "(wire_SUBTYPE wire_TPMT_SENSITIVE)" "1418" Tss2_MU_TPM2B_SENSITIVE_Unmarshal "(\<lambda>s. wt_TPMT_SENSITIVE (TPM2B_SUBTYPE_member s))" "(\<lambda>s. valid_TPMT_SENSITIVE (TPM2B_SUBTYPE_member s))"
  using transportI [OF marshaler_SUBTYPE [OF mu_TPMT_SENSITIVE.marshaler_axioms]
      unmarshaler_SUBTYPE [OF mu_TPMT_SENSITIVE.unmarshaler_axioms le_trans [OF mu_TPMT_SENSITIVE.wire_le]], of 1416]
  by (simp add: Tss2_MU_TPM2B_SENSITIVE_Marshal_def Tss2_MU_TPM2B_SENSITIVE_Unmarshal_def)

definition Tss2_MU_TPMS_SENSITIVE_CREATE_Marshal :: "TPMS_SENSITIVE_CREATE option mfun" where
  "Tss2_MU_TPMS_SENSITIVE_CREATE_Marshal = TPMS_MARSHAL_2
     (ADDR TPMS_SENSITIVE_CREATE_userAuth Tss2_MU_TPM2B_DIGEST_Marshal)
     (ADDR TPMS_SENSITIVE_CREATE_data Tss2_MU_TPM2B_SENSITIVE_DATA_Marshal)"

definition Tss2_MU_TPMS_SENSITIVE_CREATE_Unmarshal :: "TPMS_SENSITIVE_CREATE ufun" where
  "Tss2_MU_TPMS_SENSITIVE_CREATE_Unmarshal = TPMS_UNMARSHAL_2 zero_TPMS_SENSITIVE_CREATE
     TPMS_SENSITIVE_CREATE_userAuth TPMS_SENSITIVE_CREATE_userAuth_update Tss2_MU_TPM2B_DIGEST_Unmarshal
     TPMS_SENSITIVE_CREATE_data TPMS_SENSITIVE_CREATE_data_update Tss2_MU_TPM2B_SENSITIVE_DATA_Unmarshal"

definition src_TPMS_SENSITIVE_CREATE :: "TPMS_SENSITIVE_CREATE \<Rightarrow> bool" where
  "src_TPMS_SENSITIVE_CREATE s \<longleftrightarrow> (src_TPM2B 66 64) (TPMS_SENSITIVE_CREATE_userAuth s) \<and>
     (src_TPM2B 258 256) (TPMS_SENSITIVE_CREATE_data s)"

definition valid_TPMS_SENSITIVE_CREATE :: "TPMS_SENSITIVE_CREATE \<Rightarrow> bool" where
  "valid_TPMS_SENSITIVE_CREATE s \<longleftrightarrow> (valid_TPM2B 64) (TPMS_SENSITIVE_CREATE_userAuth s) \<and>
     (valid_TPM2B 256) (TPMS_SENSITIVE_CREATE_data s)"

definition wire_TPMS_SENSITIVE_CREATE :: "TPMS_SENSITIVE_CREATE \<Rightarrow> BYTE list" where
  "wire_TPMS_SENSITIVE_CREATE s = wire_TPM2B (TPMS_SENSITIVE_CREATE_userAuth s) @
     wire_TPM2B (TPMS_SENSITIVE_CREATE_data s)"

lemma marshaler_TPMS_SENSITIVE_CREATE:
  "marshaler (\<lambda>s. Tss2_MU_TPMS_SENSITIVE_CREATE_Marshal (Some s)) src_TPMS_SENSITIVE_CREATE valid_TPMS_SENSITIVE_CREATE wire_TPMS_SENSITIVE_CREATE 324"
  unfolding Tss2_MU_TPMS_SENSITIVE_CREATE_Marshal_def struct_marshal_defs
  by (rule marshaler_cong,
      (rule marshaler_Cons marshaler_Nil marshaler_ADDR [OF mu_TPM2B_DIGEST.marshaler_axioms]
        marshaler_ADDR [OF mu_TPM2B_SENSITIVE_DATA.marshaler_axioms])+)
    (simp_all add: src_TPMS_SENSITIVE_CREATE_def valid_TPMS_SENSITIVE_CREATE_def wire_TPMS_SENSITIVE_CREATE_def)

lemma unmarshaler_TPMS_SENSITIVE_CREATE:
  "strict_unmarshaler Tss2_MU_TPMS_SENSITIVE_CREATE_Unmarshal wt_TPMS_SENSITIVE_CREATE valid_TPMS_SENSITIVE_CREATE wire_TPMS_SENSITIVE_CREATE"
  unfolding Tss2_MU_TPMS_SENSITIVE_CREATE_Unmarshal_def struct_unmarshal_defs
  by (rule strict_unmarshaler_cong, rule strict_unmarshaler_struct,
      rule useq_ok_Cons,
      rule useq_ok_FLD(1) [OF mu_TPM2B_DIGEST.strict_unmarshaler_axioms], simp,
      rule useq_ok_Cons,
      rule useq_ok_FLD(1) [OF mu_TPM2B_SENSITIVE_DATA.strict_unmarshaler_axioms], simp,
      rule useq_ok_Nil)
    (simp_all add: keeps_simps be_bytes_inject wt_TPMS_SENSITIVE_CREATE_def valid_TPMS_SENSITIVE_CREATE_def wire_TPMS_SENSITIVE_CREATE_def wt_zero_TPMS_SENSITIVE_CREATE [unfolded wt_TPMS_SENSITIVE_CREATE_def])

interpretation mu_TPMS_SENSITIVE_CREATE: codec "\<lambda>s. Tss2_MU_TPMS_SENSITIVE_CREATE_Marshal (Some s)"
  "src_TPMS_SENSITIVE_CREATE" "valid_TPMS_SENSITIVE_CREATE" "wire_TPMS_SENSITIVE_CREATE" "324" Tss2_MU_TPMS_SENSITIVE_CREATE_Unmarshal "wt_TPMS_SENSITIVE_CREATE" "valid_TPMS_SENSITIVE_CREATE"
  by (rule codecI [OF marshaler_TPMS_SENSITIVE_CREATE unmarshaler_TPMS_SENSITIVE_CREATE])

definition Tss2_MU_TPM2B_SENSITIVE_CREATE_Marshal :: "TPM2B_SENSITIVE_CREATE option mfun" where
  "Tss2_MU_TPM2B_SENSITIVE_CREATE_Marshal = TPM2B_MARSHAL_SUBTYPE Tss2_MU_TPMS_SENSITIVE_CREATE_Marshal"

definition Tss2_MU_TPM2B_SENSITIVE_CREATE_Unmarshal :: "TPM2B_SENSITIVE_CREATE ufun" where
  "Tss2_MU_TPM2B_SENSITIVE_CREATE_Unmarshal = TPM2B_UNMARSHAL_SUBTYPE (sizeof ct_TPMS_SENSITIVE_CREATE) Tss2_MU_TPMS_SENSITIVE_CREATE_Unmarshal"

interpretation mu_TPM2B_SENSITIVE_CREATE: transport "\<lambda>s. Tss2_MU_TPM2B_SENSITIVE_CREATE_Marshal (Some s)"
  "(\<lambda>s. src_TPMS_SENSITIVE_CREATE (TPM2B_SUBTYPE_member s))" "(\<lambda>s. valid_TPMS_SENSITIVE_CREATE (TPM2B_SUBTYPE_member s))" "(wire_SUBTYPE wire_TPMS_SENSITIVE_CREATE)" "326" Tss2_MU_TPM2B_SENSITIVE_CREATE_Unmarshal "(\<lambda>s. wt_TPMS_SENSITIVE_CREATE (TPM2B_SUBTYPE_member s))" "(\<lambda>s. valid_TPMS_SENSITIVE_CREATE (TPM2B_SUBTYPE_member s))"
  using transportI [OF marshaler_SUBTYPE [OF mu_TPMS_SENSITIVE_CREATE.marshaler_axioms]
      unmarshaler_SUBTYPE [OF mu_TPMS_SENSITIVE_CREATE.unmarshaler_axioms le_trans [OF mu_TPMS_SENSITIVE_CREATE.wire_le]], of 324]
  by (simp add: Tss2_MU_TPM2B_SENSITIVE_CREATE_Marshal_def Tss2_MU_TPM2B_SENSITIVE_CREATE_Unmarshal_def)

definition Tss2_MU_TPMS_PCR_SELECTION_Marshal :: "TPMS_PCR_SELECTION option mfun" where
  "Tss2_MU_TPMS_PCR_SELECTION_Marshal = TPMS_PCR_MARSHAL TPMS_PCR_SELECTION_sizeofSelect TPMS_PCR_SELECTION_pcrSelect
     [VAL TPMS_PCR_SELECTION_hash Tss2_MU_TPMI_ALG_HASH_Marshal] TPM2_PCR_SELECT_MAX"

definition Tss2_MU_TPMS_PCR_SELECTION_Unmarshal :: "TPMS_PCR_SELECTION ufun" where
  "Tss2_MU_TPMS_PCR_SELECTION_Unmarshal = TPMS_PCR_UNMARSHAL zero_TPMS_PCR_SELECTION TPMS_PCR_SELECTION_sizeofSelect TPMS_PCR_SELECTION_sizeofSelect_update
     TPMS_PCR_SELECTION_pcrSelect TPMS_PCR_SELECTION_pcrSelect_update [FLD TPMS_PCR_SELECTION_hash TPMS_PCR_SELECTION_hash_update Tss2_MU_TPMI_ALG_HASH_Unmarshal] TPM2_PCR_SELECT_MAX"

definition src_TPMS_PCR_SELECTION :: "TPMS_PCR_SELECTION \<Rightarrow> bool" where
  "src_TPMS_PCR_SELECTION s \<longleftrightarrow> length (TPMS_PCR_SELECTION_pcrSelect s) = 4"

definition valid_TPMS_PCR_SELECTION :: "TPMS_PCR_SELECTION \<Rightarrow> bool" where
  "valid_TPMS_PCR_SELECTION s \<longleftrightarrow> length (TPMS_PCR_SELECTION_pcrSelect s) = 4 \<and> unat (TPMS_PCR_SELECTION_sizeofSelect s) \<le> 4"

definition wire_TPMS_PCR_SELECTION :: "TPMS_PCR_SELECTION \<Rightarrow> BYTE list" where
  "wire_TPMS_PCR_SELECTION s = be_bytes (TPMS_PCR_SELECTION_hash s) @ [TPMS_PCR_SELECTION_sizeofSelect s] @ take (unat (TPMS_PCR_SELECTION_sizeofSelect s)) (TPMS_PCR_SELECTION_pcrSelect s)"

lemma marshaler_TPMS_PCR_SELECTION:
  "marshaler (\<lambda>s. Tss2_MU_TPMS_PCR_SELECTION_Marshal (Some s)) src_TPMS_PCR_SELECTION valid_TPMS_PCR_SELECTION wire_TPMS_PCR_SELECTION 7"
  unfolding Tss2_MU_TPMS_PCR_SELECTION_Marshal_def
  by (rule marshaler_cong, rule marshaler_PCR, unfold append.simps,
      (rule marshaler_Cons marshaler_Nil marshaler_VAL [OF mu_UINT8.marshaler_axioms] marshaler_VAL [OF mu_TPMI_ALG_HASH.marshaler_axioms])+)
    (simp_all add: src_TPMS_PCR_SELECTION_def valid_TPMS_PCR_SELECTION_def wire_TPMS_PCR_SELECTION_def)

lemma unmarshaler_TPMS_PCR_SELECTION:
  "strict_unmarshaler Tss2_MU_TPMS_PCR_SELECTION_Unmarshal wt_TPMS_PCR_SELECTION valid_TPMS_PCR_SELECTION wire_TPMS_PCR_SELECTION"
  unfolding Tss2_MU_TPMS_PCR_SELECTION_Unmarshal_def
  by (rule strict_unmarshaler_cong, rule strict_unmarshaler_PCR, unfold append.simps,
      rule useq_ok_Cons, rule useq_ok_FLD(1) [OF mu_TPMI_ALG_HASH.strict_unmarshaler_axioms], simp,
      rule useq_ok_Cons, rule useq_ok_FLD(2) [OF mu_UINT8.strict_unmarshaler_axioms], simp, rule useq_ok_Nil)
    (simp_all add: keeps_simps wt_TPMS_PCR_SELECTION_def valid_TPMS_PCR_SELECTION_def wire_TPMS_PCR_SELECTION_def wt_zero_TPMS_PCR_SELECTION [unfolded wt_TPMS_PCR_SELECTION_def]
      append_eq_append_conv)

interpretation mu_TPMS_PCR_SELECTION: codec "\<lambda>s. Tss2_MU_TPMS_PCR_SELECTION_Marshal (Some s)"
  "src_TPMS_PCR_SELECTION" "valid_TPMS_PCR_SELECTION" "wire_TPMS_PCR_SELECTION" "7" Tss2_MU_TPMS_PCR_SELECTION_Unmarshal "wt_TPMS_PCR_SELECTION" "valid_TPMS_PCR_SELECTION"
  by (rule codecI [OF marshaler_TPMS_PCR_SELECTION unmarshaler_TPMS_PCR_SELECTION])

definition Tss2_MU_TPML_PCR_SELECTION_Marshal :: "TPML_PCR_SELECTION option mfun" where
  "Tss2_MU_TPML_PCR_SELECTION_Marshal = TPML_MARSHAL (TPM2_NUM_PCR_BANKS) (ADDR (\<lambda>x. x) Tss2_MU_TPMS_PCR_SELECTION_Marshal)"

definition Tss2_MU_TPML_PCR_SELECTION_Unmarshal :: "TPML_PCR_SELECTION ufun" where
  "Tss2_MU_TPML_PCR_SELECTION_Unmarshal = TPML_UNMARSHAL (TPM2_NUM_PCR_BANKS) zero_TPMS_PCR_SELECTION Tss2_MU_TPMS_PCR_SELECTION_Unmarshal"

interpretation mu_TPML_PCR_SELECTION: codec "\<lambda>s. Tss2_MU_TPML_PCR_SELECTION_Marshal (Some s)"
  "(src_TPML 16 src_TPMS_PCR_SELECTION)" "(valid_TPML 16 valid_TPMS_PCR_SELECTION)" "(wire_TPML wire_TPMS_PCR_SELECTION)" "116" Tss2_MU_TPML_PCR_SELECTION_Unmarshal "(wt_TPML 16 wt_TPMS_PCR_SELECTION)" "(valid_TPML 16 valid_TPMS_PCR_SELECTION)"
  using codecI [OF marshaler_TPML [of "ADDR (\<lambda>x. x) Tss2_MU_TPMS_PCR_SELECTION_Marshal", OF marshaler_ADDR [OF mu_TPMS_PCR_SELECTION.marshaler_axioms], of 16] strict_unmarshaler_TPML [where zero = "zero_TPMS_PCR_SELECTION" and N = 16, OF mu_TPMS_PCR_SELECTION.strict_unmarshaler_axioms]]
  by (simp add: Tss2_MU_TPML_PCR_SELECTION_Marshal_def Tss2_MU_TPML_PCR_SELECTION_Unmarshal_def)

definition Tss2_MU_TPMS_CREATION_DATA_Marshal :: "TPMS_CREATION_DATA option mfun" where
  "Tss2_MU_TPMS_CREATION_DATA_Marshal = TPMS_MARSHAL_7
     (ADDR TPMS_CREATION_DATA_pcrSelect Tss2_MU_TPML_PCR_SELECTION_Marshal)
     (ADDR TPMS_CREATION_DATA_pcrDigest Tss2_MU_TPM2B_DIGEST_Marshal)
     (VAL TPMS_CREATION_DATA_locality Tss2_MU_TPMA_LOCALITY_Marshal)
     (VAL TPMS_CREATION_DATA_parentNameAlg Tss2_MU_UINT16_Marshal)
     (ADDR TPMS_CREATION_DATA_parentName Tss2_MU_TPM2B_NAME_Marshal)
     (ADDR TPMS_CREATION_DATA_parentQualifiedName Tss2_MU_TPM2B_NAME_Marshal)
     (ADDR TPMS_CREATION_DATA_outsideInfo Tss2_MU_TPM2B_DATA_Marshal)"

definition Tss2_MU_TPMS_CREATION_DATA_Unmarshal :: "TPMS_CREATION_DATA ufun" where
  "Tss2_MU_TPMS_CREATION_DATA_Unmarshal = TPMS_UNMARSHAL_7 zero_TPMS_CREATION_DATA
     TPMS_CREATION_DATA_pcrSelect TPMS_CREATION_DATA_pcrSelect_update Tss2_MU_TPML_PCR_SELECTION_Unmarshal
     TPMS_CREATION_DATA_pcrDigest TPMS_CREATION_DATA_pcrDigest_update Tss2_MU_TPM2B_DIGEST_Unmarshal
     TPMS_CREATION_DATA_locality TPMS_CREATION_DATA_locality_update Tss2_MU_TPMA_LOCALITY_Unmarshal
     TPMS_CREATION_DATA_parentNameAlg TPMS_CREATION_DATA_parentNameAlg_update Tss2_MU_UINT16_Unmarshal
     TPMS_CREATION_DATA_parentName TPMS_CREATION_DATA_parentName_update Tss2_MU_TPM2B_NAME_Unmarshal
     TPMS_CREATION_DATA_parentQualifiedName TPMS_CREATION_DATA_parentQualifiedName_update Tss2_MU_TPM2B_NAME_Unmarshal
     TPMS_CREATION_DATA_outsideInfo TPMS_CREATION_DATA_outsideInfo_update Tss2_MU_TPM2B_DATA_Unmarshal"

definition src_TPMS_CREATION_DATA :: "TPMS_CREATION_DATA \<Rightarrow> bool" where
  "src_TPMS_CREATION_DATA s \<longleftrightarrow> (src_TPML 16 src_TPMS_PCR_SELECTION) (TPMS_CREATION_DATA_pcrSelect s) \<and>
     (src_TPM2B 66 64) (TPMS_CREATION_DATA_pcrDigest s) \<and>
     (src_TPM2B 70 68) (TPMS_CREATION_DATA_parentName s) \<and>
     (src_TPM2B 70 68) (TPMS_CREATION_DATA_parentQualifiedName s) \<and>
     (src_TPM2B 66 64) (TPMS_CREATION_DATA_outsideInfo s)"

definition valid_TPMS_CREATION_DATA :: "TPMS_CREATION_DATA \<Rightarrow> bool" where
  "valid_TPMS_CREATION_DATA s \<longleftrightarrow> (valid_TPML 16 valid_TPMS_PCR_SELECTION) (TPMS_CREATION_DATA_pcrSelect s) \<and>
     (valid_TPM2B 64) (TPMS_CREATION_DATA_pcrDigest s) \<and>
     (valid_TPM2B 68) (TPMS_CREATION_DATA_parentName s) \<and>
     (valid_TPM2B 68) (TPMS_CREATION_DATA_parentQualifiedName s) \<and>
     (valid_TPM2B 64) (TPMS_CREATION_DATA_outsideInfo s)"

definition wire_TPMS_CREATION_DATA :: "TPMS_CREATION_DATA \<Rightarrow> BYTE list" where
  "wire_TPMS_CREATION_DATA s = (wire_TPML wire_TPMS_PCR_SELECTION) (TPMS_CREATION_DATA_pcrSelect s) @
     wire_TPM2B (TPMS_CREATION_DATA_pcrDigest s) @
     be_bytes (TPMS_CREATION_DATA_locality s) @
     be_bytes (TPMS_CREATION_DATA_parentNameAlg s) @
     wire_TPM2B (TPMS_CREATION_DATA_parentName s) @
     wire_TPM2B (TPMS_CREATION_DATA_parentQualifiedName s) @
     wire_TPM2B (TPMS_CREATION_DATA_outsideInfo s)"

lemma marshaler_TPMS_CREATION_DATA:
  "marshaler (\<lambda>s. Tss2_MU_TPMS_CREATION_DATA_Marshal (Some s)) src_TPMS_CREATION_DATA valid_TPMS_CREATION_DATA wire_TPMS_CREATION_DATA 391"
  unfolding Tss2_MU_TPMS_CREATION_DATA_Marshal_def struct_marshal_defs
  by (rule marshaler_cong,
      (rule marshaler_Cons marshaler_Nil marshaler_ADDR [OF mu_TPML_PCR_SELECTION.marshaler_axioms]
        marshaler_ADDR [OF mu_TPM2B_DIGEST.marshaler_axioms]
        marshaler_VAL [OF mu_TPMA_LOCALITY.marshaler_axioms]
        marshaler_VAL [OF mu_UINT16.marshaler_axioms]
        marshaler_ADDR [OF mu_TPM2B_NAME.marshaler_axioms]
        marshaler_ADDR [OF mu_TPM2B_DATA.marshaler_axioms])+)
    (simp_all add: src_TPMS_CREATION_DATA_def valid_TPMS_CREATION_DATA_def wire_TPMS_CREATION_DATA_def)

lemma unmarshaler_TPMS_CREATION_DATA:
  "strict_unmarshaler Tss2_MU_TPMS_CREATION_DATA_Unmarshal wt_TPMS_CREATION_DATA valid_TPMS_CREATION_DATA wire_TPMS_CREATION_DATA"
  unfolding Tss2_MU_TPMS_CREATION_DATA_Unmarshal_def struct_unmarshal_defs
  by (rule strict_unmarshaler_cong, rule strict_unmarshaler_struct,
      rule useq_ok_Cons,
      rule useq_ok_FLD(1) [OF mu_TPML_PCR_SELECTION.strict_unmarshaler_axioms], simp,
      rule useq_ok_Cons,
      rule useq_ok_FLD(1) [OF mu_TPM2B_DIGEST.strict_unmarshaler_axioms], simp,
      rule useq_ok_Cons,
      rule useq_ok_FLD(1) [OF mu_TPMA_LOCALITY.strict_unmarshaler_axioms], simp,
      rule useq_ok_Cons,
      rule useq_ok_FLD(1) [OF mu_UINT16.strict_unmarshaler_axioms], simp,
      rule useq_ok_Cons,
      rule useq_ok_FLD(1) [OF mu_TPM2B_NAME.strict_unmarshaler_axioms], simp,
      rule useq_ok_Cons,
      rule useq_ok_FLD(1) [OF mu_TPM2B_NAME.strict_unmarshaler_axioms], simp,
      rule useq_ok_Cons,
      rule useq_ok_FLD(1) [OF mu_TPM2B_DATA.strict_unmarshaler_axioms], simp,
      rule useq_ok_Nil)
    (simp_all add: keeps_simps be_bytes_inject wt_TPMS_CREATION_DATA_def valid_TPMS_CREATION_DATA_def wire_TPMS_CREATION_DATA_def wt_zero_TPMS_CREATION_DATA [unfolded wt_TPMS_CREATION_DATA_def])

interpretation mu_TPMS_CREATION_DATA: codec "\<lambda>s. Tss2_MU_TPMS_CREATION_DATA_Marshal (Some s)"
  "src_TPMS_CREATION_DATA" "valid_TPMS_CREATION_DATA" "wire_TPMS_CREATION_DATA" "391" Tss2_MU_TPMS_CREATION_DATA_Unmarshal "wt_TPMS_CREATION_DATA" "valid_TPMS_CREATION_DATA"
  by (rule codecI [OF marshaler_TPMS_CREATION_DATA unmarshaler_TPMS_CREATION_DATA])

definition Tss2_MU_TPM2B_CREATION_DATA_Marshal :: "TPM2B_CREATION_DATA option mfun" where
  "Tss2_MU_TPM2B_CREATION_DATA_Marshal = TPM2B_MARSHAL_SUBTYPE Tss2_MU_TPMS_CREATION_DATA_Marshal"

definition Tss2_MU_TPM2B_CREATION_DATA_Unmarshal :: "TPM2B_CREATION_DATA ufun" where
  "Tss2_MU_TPM2B_CREATION_DATA_Unmarshal = TPM2B_UNMARSHAL_SUBTYPE (sizeof ct_TPMS_CREATION_DATA) Tss2_MU_TPMS_CREATION_DATA_Unmarshal"

interpretation mu_TPM2B_CREATION_DATA: transport "\<lambda>s. Tss2_MU_TPM2B_CREATION_DATA_Marshal (Some s)"
  "(\<lambda>s. src_TPMS_CREATION_DATA (TPM2B_SUBTYPE_member s))" "(\<lambda>s. valid_TPMS_CREATION_DATA (TPM2B_SUBTYPE_member s))" "(wire_SUBTYPE wire_TPMS_CREATION_DATA)" "393" Tss2_MU_TPM2B_CREATION_DATA_Unmarshal "(\<lambda>s. wt_TPMS_CREATION_DATA (TPM2B_SUBTYPE_member s))" "(\<lambda>s. valid_TPMS_CREATION_DATA (TPM2B_SUBTYPE_member s))"
  using transportI [OF marshaler_SUBTYPE [OF mu_TPMS_CREATION_DATA.marshaler_axioms]
      unmarshaler_SUBTYPE [OF mu_TPMS_CREATION_DATA.unmarshaler_axioms le_trans [OF mu_TPMS_CREATION_DATA.wire_le]], of 408]
  by (simp add: Tss2_MU_TPM2B_CREATION_DATA_Marshal_def Tss2_MU_TPM2B_CREATION_DATA_Unmarshal_def)

definition Tss2_MU_TPMS_SCHEME_HASH_Marshal :: "TPMS_SCHEME_HASH option mfun" where
  "Tss2_MU_TPMS_SCHEME_HASH_Marshal = TPMS_MARSHAL_1
     (VAL TPMS_SCHEME_HASH_hashAlg Tss2_MU_UINT16_Marshal)"

definition Tss2_MU_TPMS_SCHEME_HASH_Unmarshal :: "TPMS_SCHEME_HASH ufun" where
  "Tss2_MU_TPMS_SCHEME_HASH_Unmarshal = TPMS_UNMARSHAL_1 zero_TPMS_SCHEME_HASH (FLD TPMS_SCHEME_HASH_hashAlg TPMS_SCHEME_HASH_hashAlg_update Tss2_MU_UINT16_Unmarshal)"

definition src_TPMS_SCHEME_HASH :: "TPMS_SCHEME_HASH \<Rightarrow> bool" where
  "src_TPMS_SCHEME_HASH s \<longleftrightarrow> True"

definition valid_TPMS_SCHEME_HASH :: "TPMS_SCHEME_HASH \<Rightarrow> bool" where
  "valid_TPMS_SCHEME_HASH s \<longleftrightarrow> True"

definition wire_TPMS_SCHEME_HASH :: "TPMS_SCHEME_HASH \<Rightarrow> BYTE list" where
  "wire_TPMS_SCHEME_HASH s = be_bytes (TPMS_SCHEME_HASH_hashAlg s)"

lemma marshaler_TPMS_SCHEME_HASH:
  "marshaler (\<lambda>s. Tss2_MU_TPMS_SCHEME_HASH_Marshal (Some s)) src_TPMS_SCHEME_HASH valid_TPMS_SCHEME_HASH wire_TPMS_SCHEME_HASH 2"
  unfolding Tss2_MU_TPMS_SCHEME_HASH_Marshal_def
  by (rule marshaler_cong [OF marshaler_TPMS_1 [OF marshaler_VAL [OF mu_UINT16.marshaler_axioms]]])
    (simp_all add: src_TPMS_SCHEME_HASH_def valid_TPMS_SCHEME_HASH_def wire_TPMS_SCHEME_HASH_def)

lemma unmarshaler_TPMS_SCHEME_HASH:
  "strict_unmarshaler Tss2_MU_TPMS_SCHEME_HASH_Unmarshal wt_TPMS_SCHEME_HASH valid_TPMS_SCHEME_HASH wire_TPMS_SCHEME_HASH"
  unfolding Tss2_MU_TPMS_SCHEME_HASH_Unmarshal_def
  by (rule strict_unmarshaler_cong [OF strict_unmarshaler_TPMS_1 [OF mu_UINT16.strict_unmarshaler_axioms, of TPMS_SCHEME_HASH_hashAlg TPMS_SCHEME_HASH_hashAlg_update]])
    (simp_all add: wt_TPMS_SCHEME_HASH_def valid_TPMS_SCHEME_HASH_def wire_TPMS_SCHEME_HASH_def)

interpretation mu_TPMS_SCHEME_HASH: codec "\<lambda>s. Tss2_MU_TPMS_SCHEME_HASH_Marshal (Some s)"
  "src_TPMS_SCHEME_HASH" "valid_TPMS_SCHEME_HASH" "wire_TPMS_SCHEME_HASH" "2" Tss2_MU_TPMS_SCHEME_HASH_Unmarshal "wt_TPMS_SCHEME_HASH" "valid_TPMS_SCHEME_HASH"
  by (rule codecI [OF marshaler_TPMS_SCHEME_HASH unmarshaler_TPMS_SCHEME_HASH])

definition Tss2_MU_TPMS_SCHEME_XOR_Marshal :: "TPMS_SCHEME_XOR option mfun" where
  "Tss2_MU_TPMS_SCHEME_XOR_Marshal = TPMS_MARSHAL_2
     (VAL TPMS_SCHEME_XOR_hashAlg Tss2_MU_UINT16_Marshal)
     (VAL TPMS_SCHEME_XOR_kdf Tss2_MU_UINT16_Marshal)"

definition Tss2_MU_TPMS_SCHEME_XOR_Unmarshal :: "TPMS_SCHEME_XOR ufun" where
  "Tss2_MU_TPMS_SCHEME_XOR_Unmarshal = TPMS_UNMARSHAL_2 zero_TPMS_SCHEME_XOR
     TPMS_SCHEME_XOR_hashAlg TPMS_SCHEME_XOR_hashAlg_update Tss2_MU_UINT16_Unmarshal
     TPMS_SCHEME_XOR_kdf TPMS_SCHEME_XOR_kdf_update Tss2_MU_UINT16_Unmarshal"

definition src_TPMS_SCHEME_XOR :: "TPMS_SCHEME_XOR \<Rightarrow> bool" where
  "src_TPMS_SCHEME_XOR s \<longleftrightarrow> True"

definition valid_TPMS_SCHEME_XOR :: "TPMS_SCHEME_XOR \<Rightarrow> bool" where
  "valid_TPMS_SCHEME_XOR s \<longleftrightarrow> True"

definition wire_TPMS_SCHEME_XOR :: "TPMS_SCHEME_XOR \<Rightarrow> BYTE list" where
  "wire_TPMS_SCHEME_XOR s = be_bytes (TPMS_SCHEME_XOR_hashAlg s) @
     be_bytes (TPMS_SCHEME_XOR_kdf s)"

lemma marshaler_TPMS_SCHEME_XOR:
  "marshaler (\<lambda>s. Tss2_MU_TPMS_SCHEME_XOR_Marshal (Some s)) src_TPMS_SCHEME_XOR valid_TPMS_SCHEME_XOR wire_TPMS_SCHEME_XOR 4"
  unfolding Tss2_MU_TPMS_SCHEME_XOR_Marshal_def struct_marshal_defs
  by (rule marshaler_cong,
      (rule marshaler_Cons marshaler_Nil marshaler_VAL [OF mu_UINT16.marshaler_axioms])+)
    (simp_all add: src_TPMS_SCHEME_XOR_def valid_TPMS_SCHEME_XOR_def wire_TPMS_SCHEME_XOR_def)

lemma unmarshaler_TPMS_SCHEME_XOR:
  "strict_unmarshaler Tss2_MU_TPMS_SCHEME_XOR_Unmarshal wt_TPMS_SCHEME_XOR valid_TPMS_SCHEME_XOR wire_TPMS_SCHEME_XOR"
  unfolding Tss2_MU_TPMS_SCHEME_XOR_Unmarshal_def struct_unmarshal_defs
  by (rule strict_unmarshaler_cong, rule strict_unmarshaler_struct,
      rule useq_ok_Cons,
      rule useq_ok_FLD(1) [OF mu_UINT16.strict_unmarshaler_axioms], simp,
      rule useq_ok_Cons,
      rule useq_ok_FLD(1) [OF mu_UINT16.strict_unmarshaler_axioms], simp,
      rule useq_ok_Nil)
    (simp_all add: keeps_simps be_bytes_inject wt_TPMS_SCHEME_XOR_def valid_TPMS_SCHEME_XOR_def wire_TPMS_SCHEME_XOR_def wt_zero_TPMS_SCHEME_XOR [unfolded wt_TPMS_SCHEME_XOR_def])

interpretation mu_TPMS_SCHEME_XOR: codec "\<lambda>s. Tss2_MU_TPMS_SCHEME_XOR_Marshal (Some s)"
  "src_TPMS_SCHEME_XOR" "valid_TPMS_SCHEME_XOR" "wire_TPMS_SCHEME_XOR" "4" Tss2_MU_TPMS_SCHEME_XOR_Unmarshal "wt_TPMS_SCHEME_XOR" "valid_TPMS_SCHEME_XOR"
  by (rule codecI [OF marshaler_TPMS_SCHEME_XOR unmarshaler_TPMS_SCHEME_XOR])

definition Tss2_MU_TPMU_SCHEME_KEYEDHASH_Marshal :: "TPMU_SCHEME_KEYEDHASH option \<Rightarrow> UINT32 \<Rightarrow> buf option \<Rightarrow> size_t \<Rightarrow> size_t option \<Rightarrow> mres" where
  "Tss2_MU_TPMU_SCHEME_KEYEDHASH_Marshal = TPMU_MARSHAL2
    [(ucast TPM2_ALG_HMAC, U_ADDR get_TPMU_SCHEME_KEYEDHASH_hmac Tss2_MU_TPMS_SCHEME_HASH_Marshal),
     (ucast TPM2_ALG_XOR, U_ADDR get_TPMU_SCHEME_KEYEDHASH_exclusiveOr Tss2_MU_TPMS_SCHEME_XOR_Marshal)]"

definition Tss2_MU_TPMU_SCHEME_KEYEDHASH_Unmarshal :: "buf option \<Rightarrow> size_t \<Rightarrow> size_t option \<Rightarrow> UINT32 \<Rightarrow> TPMU_SCHEME_KEYEDHASH option \<Rightarrow> TPMU_SCHEME_KEYEDHASH ures" where
  "Tss2_MU_TPMU_SCHEME_KEYEDHASH_Unmarshal = TPMU_UNMARSHAL2
    [(ucast TPM2_ALG_HMAC, U_MEM get_TPMU_SCHEME_KEYEDHASH_hmac TPMU_SCHEME_KEYEDHASH_hmac zero_TPMS_SCHEME_HASH Tss2_MU_TPMS_SCHEME_HASH_Unmarshal),
     (ucast TPM2_ALG_XOR, U_MEM get_TPMU_SCHEME_KEYEDHASH_exclusiveOr TPMU_SCHEME_KEYEDHASH_exclusiveOr zero_TPMS_SCHEME_XOR Tss2_MU_TPMS_SCHEME_XOR_Unmarshal)]"

definition spec_TPMU_SCHEME_KEYEDHASH :: "(UINT32 \<times> TPMU_SCHEME_KEYEDHASH mspec) list" where
  "spec_TPMU_SCHEME_KEYEDHASH =
    [(ucast TPM2_ALG_HMAC, member_spec get_TPMU_SCHEME_KEYEDHASH_hmac src_TPMS_SCHEME_HASH valid_TPMS_SCHEME_HASH wire_TPMS_SCHEME_HASH),
     (ucast TPM2_ALG_XOR, member_spec get_TPMU_SCHEME_KEYEDHASH_exclusiveOr src_TPMS_SCHEME_XOR valid_TPMS_SCHEME_XOR wire_TPMS_SCHEME_XOR)]"

abbreviation "src_TPMU_SCHEME_KEYEDHASH \<equiv> src_union spec_TPMU_SCHEME_KEYEDHASH"
abbreviation "valid_TPMU_SCHEME_KEYEDHASH \<equiv> valid_union spec_TPMU_SCHEME_KEYEDHASH"
abbreviation "wire_TPMU_SCHEME_KEYEDHASH \<equiv> wire_union spec_TPMU_SCHEME_KEYEDHASH"

lemma marshaler_TPMU_SCHEME_KEYEDHASH:
  "marshaler (\<lambda>u. Tss2_MU_TPMU_SCHEME_KEYEDHASH_Marshal (Some u) k) (src_TPMU_SCHEME_KEYEDHASH k) (valid_TPMU_SCHEME_KEYEDHASH k) (wire_TPMU_SCHEME_KEYEDHASH k) 4"
  unfolding Tss2_MU_TPMU_SCHEME_KEYEDHASH_Marshal_def spec_TPMU_SCHEME_KEYEDHASH_def
  by (rule marshaler_TPMU, simp only: entry_rel_simps, intro conjI refl TrueI
      marshals_ADDR [OF mu_TPMS_SCHEME_HASH.marshaler_axioms]
      marshals_ADDR [OF mu_TPMS_SCHEME_XOR.marshaler_axioms])
    (simp_all add: get_TPMU_SCHEME_KEYEDHASH)

lemma unmarshaler_TPMU_SCHEME_KEYEDHASH:
  "strict_unmarshaler (\<lambda>b bs off. Tss2_MU_TPMU_SCHEME_KEYEDHASH_Unmarshal b bs off k) wt_TPMU_SCHEME_KEYEDHASH (valid_TPMU_SCHEME_KEYEDHASH k) (wire_TPMU_SCHEME_KEYEDHASH k)"
  unfolding Tss2_MU_TPMU_SCHEME_KEYEDHASH_Unmarshal_def spec_TPMU_SCHEME_KEYEDHASH_def
  by (rule strict_unmarshaler_TPMU, simp only: entry_rel_simps, intro conjI refl TrueI
      unmarshals_MEM [OF mu_TPMS_SCHEME_HASH.strict_unmarshaler_axioms]
      unmarshals_MEM [OF mu_TPMS_SCHEME_XOR.strict_unmarshaler_axioms])
    (simp_all add: get_TPMU_SCHEME_KEYEDHASH)

interpretation mu_TPMU_SCHEME_KEYEDHASH: codec "\<lambda>u. Tss2_MU_TPMU_SCHEME_KEYEDHASH_Marshal (Some u) k" "src_TPMU_SCHEME_KEYEDHASH k" "valid_TPMU_SCHEME_KEYEDHASH k" "wire_TPMU_SCHEME_KEYEDHASH k" "4"
  "\<lambda>b bs off. Tss2_MU_TPMU_SCHEME_KEYEDHASH_Unmarshal b bs off k" wt_TPMU_SCHEME_KEYEDHASH "valid_TPMU_SCHEME_KEYEDHASH k" for k
  by (rule codecI [OF marshaler_TPMU_SCHEME_KEYEDHASH unmarshaler_TPMU_SCHEME_KEYEDHASH])

definition Tss2_MU_TPMT_KEYEDHASH_SCHEME_Marshal :: "TPMT_KEYEDHASH_SCHEME option mfun" where
  "Tss2_MU_TPMT_KEYEDHASH_SCHEME_Marshal = TPMT_MARSHAL_2
     (VAL TPMT_KEYEDHASH_SCHEME_scheme Tss2_MU_UINT16_Marshal)
     (ADDR_SEL (\<lambda>s. ucast (TPMT_KEYEDHASH_SCHEME_scheme s)) TPMT_KEYEDHASH_SCHEME_details Tss2_MU_TPMU_SCHEME_KEYEDHASH_Marshal)"

definition Tss2_MU_TPMT_KEYEDHASH_SCHEME_Unmarshal :: "TPMT_KEYEDHASH_SCHEME ufun" where
  "Tss2_MU_TPMT_KEYEDHASH_SCHEME_Unmarshal = TPMT_UNMARSHAL_2 zero_TPMT_KEYEDHASH_SCHEME
     TPMT_KEYEDHASH_SCHEME_scheme TPMT_KEYEDHASH_SCHEME_scheme_update Tss2_MU_UINT16_Unmarshal
     TPMT_KEYEDHASH_SCHEME_details TPMT_KEYEDHASH_SCHEME_details_update (\<lambda>s. ucast (TPMT_KEYEDHASH_SCHEME_scheme s)) Tss2_MU_TPMU_SCHEME_KEYEDHASH_Unmarshal"

definition src_TPMT_KEYEDHASH_SCHEME :: "TPMT_KEYEDHASH_SCHEME \<Rightarrow> bool" where
  "src_TPMT_KEYEDHASH_SCHEME s \<longleftrightarrow> src_TPMU_SCHEME_KEYEDHASH (ucast (TPMT_KEYEDHASH_SCHEME_scheme s)) (TPMT_KEYEDHASH_SCHEME_details s)"

definition valid_TPMT_KEYEDHASH_SCHEME :: "TPMT_KEYEDHASH_SCHEME \<Rightarrow> bool" where
  "valid_TPMT_KEYEDHASH_SCHEME s \<longleftrightarrow> valid_TPMU_SCHEME_KEYEDHASH (ucast (TPMT_KEYEDHASH_SCHEME_scheme s)) (TPMT_KEYEDHASH_SCHEME_details s)"

definition wire_TPMT_KEYEDHASH_SCHEME :: "TPMT_KEYEDHASH_SCHEME \<Rightarrow> BYTE list" where
  "wire_TPMT_KEYEDHASH_SCHEME s = be_bytes (TPMT_KEYEDHASH_SCHEME_scheme s) @
     wire_TPMU_SCHEME_KEYEDHASH (ucast (TPMT_KEYEDHASH_SCHEME_scheme s)) (TPMT_KEYEDHASH_SCHEME_details s)"

lemma marshaler_TPMT_KEYEDHASH_SCHEME:
  "marshaler (\<lambda>s. Tss2_MU_TPMT_KEYEDHASH_SCHEME_Marshal (Some s)) src_TPMT_KEYEDHASH_SCHEME valid_TPMT_KEYEDHASH_SCHEME wire_TPMT_KEYEDHASH_SCHEME 6"
  unfolding Tss2_MU_TPMT_KEYEDHASH_SCHEME_Marshal_def struct_marshal_defs
  by (rule marshaler_cong,
      (rule marshaler_Cons marshaler_Nil marshaler_VAL [OF mu_UINT16.marshaler_axioms]
        marshaler_ADDR_SEL [OF marshaler_TPMU_SCHEME_KEYEDHASH])+)
    (simp_all add: src_TPMT_KEYEDHASH_SCHEME_def valid_TPMT_KEYEDHASH_SCHEME_def wire_TPMT_KEYEDHASH_SCHEME_def)

lemma unmarshaler_TPMT_KEYEDHASH_SCHEME:
  "strict_unmarshaler Tss2_MU_TPMT_KEYEDHASH_SCHEME_Unmarshal wt_TPMT_KEYEDHASH_SCHEME valid_TPMT_KEYEDHASH_SCHEME wire_TPMT_KEYEDHASH_SCHEME"
  unfolding Tss2_MU_TPMT_KEYEDHASH_SCHEME_Unmarshal_def struct_unmarshal_defs
  by (rule strict_unmarshaler_cong, rule strict_unmarshaler_struct,
      rule useq_ok_Cons_sel [where sel = "\<lambda>s. ucast (TPMT_KEYEDHASH_SCHEME_scheme s)"],
      rule useq_ok_FLD(2) [OF mu_UINT16.strict_unmarshaler_axioms], simp,
      rule useq_ok_Cons,
      rule useq_ok_UNI(1) [OF unmarshaler_TPMU_SCHEME_KEYEDHASH], simp, simp,
      rule useq_ok_Nil)
    (simp_all add: keeps_simps be_bytes_inject wt_TPMT_KEYEDHASH_SCHEME_def valid_TPMT_KEYEDHASH_SCHEME_def wire_TPMT_KEYEDHASH_SCHEME_def wt_zero_TPMT_KEYEDHASH_SCHEME [unfolded wt_TPMT_KEYEDHASH_SCHEME_def])

interpretation mu_TPMT_KEYEDHASH_SCHEME: codec "\<lambda>s. Tss2_MU_TPMT_KEYEDHASH_SCHEME_Marshal (Some s)"
  "src_TPMT_KEYEDHASH_SCHEME" "valid_TPMT_KEYEDHASH_SCHEME" "wire_TPMT_KEYEDHASH_SCHEME" "6" Tss2_MU_TPMT_KEYEDHASH_SCHEME_Unmarshal "wt_TPMT_KEYEDHASH_SCHEME" "valid_TPMT_KEYEDHASH_SCHEME"
  by (rule codecI [OF marshaler_TPMT_KEYEDHASH_SCHEME unmarshaler_TPMT_KEYEDHASH_SCHEME])

definition Tss2_MU_TPMS_KEYEDHASH_PARMS_Marshal :: "TPMS_KEYEDHASH_PARMS option mfun" where
  "Tss2_MU_TPMS_KEYEDHASH_PARMS_Marshal = TPMS_MARSHAL_1
     (ADDR TPMS_KEYEDHASH_PARMS_scheme Tss2_MU_TPMT_KEYEDHASH_SCHEME_Marshal)"

definition Tss2_MU_TPMS_KEYEDHASH_PARMS_Unmarshal :: "TPMS_KEYEDHASH_PARMS ufun" where
  "Tss2_MU_TPMS_KEYEDHASH_PARMS_Unmarshal = TPMS_UNMARSHAL_1 zero_TPMS_KEYEDHASH_PARMS (FLD TPMS_KEYEDHASH_PARMS_scheme TPMS_KEYEDHASH_PARMS_scheme_update Tss2_MU_TPMT_KEYEDHASH_SCHEME_Unmarshal)"

definition src_TPMS_KEYEDHASH_PARMS :: "TPMS_KEYEDHASH_PARMS \<Rightarrow> bool" where
  "src_TPMS_KEYEDHASH_PARMS s \<longleftrightarrow> src_TPMT_KEYEDHASH_SCHEME (TPMS_KEYEDHASH_PARMS_scheme s)"

definition valid_TPMS_KEYEDHASH_PARMS :: "TPMS_KEYEDHASH_PARMS \<Rightarrow> bool" where
  "valid_TPMS_KEYEDHASH_PARMS s \<longleftrightarrow> valid_TPMT_KEYEDHASH_SCHEME (TPMS_KEYEDHASH_PARMS_scheme s)"

definition wire_TPMS_KEYEDHASH_PARMS :: "TPMS_KEYEDHASH_PARMS \<Rightarrow> BYTE list" where
  "wire_TPMS_KEYEDHASH_PARMS s = wire_TPMT_KEYEDHASH_SCHEME (TPMS_KEYEDHASH_PARMS_scheme s)"

lemma marshaler_TPMS_KEYEDHASH_PARMS:
  "marshaler (\<lambda>s. Tss2_MU_TPMS_KEYEDHASH_PARMS_Marshal (Some s)) src_TPMS_KEYEDHASH_PARMS valid_TPMS_KEYEDHASH_PARMS wire_TPMS_KEYEDHASH_PARMS 6"
  unfolding Tss2_MU_TPMS_KEYEDHASH_PARMS_Marshal_def
  by (rule marshaler_cong [OF marshaler_TPMS_1 [OF marshaler_ADDR [OF mu_TPMT_KEYEDHASH_SCHEME.marshaler_axioms]]])
    (simp_all add: src_TPMS_KEYEDHASH_PARMS_def valid_TPMS_KEYEDHASH_PARMS_def wire_TPMS_KEYEDHASH_PARMS_def)

lemma unmarshaler_TPMS_KEYEDHASH_PARMS:
  "strict_unmarshaler Tss2_MU_TPMS_KEYEDHASH_PARMS_Unmarshal wt_TPMS_KEYEDHASH_PARMS valid_TPMS_KEYEDHASH_PARMS wire_TPMS_KEYEDHASH_PARMS"
  unfolding Tss2_MU_TPMS_KEYEDHASH_PARMS_Unmarshal_def
  by (rule strict_unmarshaler_cong [OF strict_unmarshaler_TPMS_1 [OF mu_TPMT_KEYEDHASH_SCHEME.strict_unmarshaler_axioms, of TPMS_KEYEDHASH_PARMS_scheme TPMS_KEYEDHASH_PARMS_scheme_update]])
    (simp_all add: wt_TPMS_KEYEDHASH_PARMS_def valid_TPMS_KEYEDHASH_PARMS_def wire_TPMS_KEYEDHASH_PARMS_def)

interpretation mu_TPMS_KEYEDHASH_PARMS: codec "\<lambda>s. Tss2_MU_TPMS_KEYEDHASH_PARMS_Marshal (Some s)"
  "src_TPMS_KEYEDHASH_PARMS" "valid_TPMS_KEYEDHASH_PARMS" "wire_TPMS_KEYEDHASH_PARMS" "6" Tss2_MU_TPMS_KEYEDHASH_PARMS_Unmarshal "wt_TPMS_KEYEDHASH_PARMS" "valid_TPMS_KEYEDHASH_PARMS"
  by (rule codecI [OF marshaler_TPMS_KEYEDHASH_PARMS unmarshaler_TPMS_KEYEDHASH_PARMS])

definition Tss2_MU_TPMU_SYM_KEY_BITS_Marshal :: "TPMU_SYM_KEY_BITS option \<Rightarrow> UINT32 \<Rightarrow> buf option \<Rightarrow> size_t \<Rightarrow> size_t option \<Rightarrow> mres" where
  "Tss2_MU_TPMU_SYM_KEY_BITS_Marshal = TPMU_MARSHAL2
    [(ucast TPM2_ALG_AES, U_VAL get_TPMU_SYM_KEY_BITS_aes Tss2_MU_UINT16_Marshal),
     (ucast TPM2_ALG_SM4, U_VAL get_TPMU_SYM_KEY_BITS_sm4 Tss2_MU_UINT16_Marshal),
     (ucast TPM2_ALG_CAMELLIA, U_VAL get_TPMU_SYM_KEY_BITS_camellia Tss2_MU_UINT16_Marshal),
     (ucast TPM2_ALG_XOR, U_VAL get_TPMU_SYM_KEY_BITS_exclusiveOr Tss2_MU_UINT16_Marshal),
     (ucast TPM2_ALG_SYMCIPHER, U_VAL get_TPMU_SYM_KEY_BITS_sym Tss2_MU_UINT16_Marshal)]"

definition Tss2_MU_TPMU_SYM_KEY_BITS_Unmarshal :: "buf option \<Rightarrow> size_t \<Rightarrow> size_t option \<Rightarrow> UINT32 \<Rightarrow> TPMU_SYM_KEY_BITS option \<Rightarrow> TPMU_SYM_KEY_BITS ures" where
  "Tss2_MU_TPMU_SYM_KEY_BITS_Unmarshal = TPMU_UNMARSHAL2
    [(ucast TPM2_ALG_AES, U_MEM get_TPMU_SYM_KEY_BITS_aes TPMU_SYM_KEY_BITS_aes 0 Tss2_MU_UINT16_Unmarshal),
     (ucast TPM2_ALG_SM4, U_MEM get_TPMU_SYM_KEY_BITS_sm4 TPMU_SYM_KEY_BITS_sm4 0 Tss2_MU_UINT16_Unmarshal),
     (ucast TPM2_ALG_CAMELLIA, U_MEM get_TPMU_SYM_KEY_BITS_camellia TPMU_SYM_KEY_BITS_camellia 0 Tss2_MU_UINT16_Unmarshal),
     (ucast TPM2_ALG_XOR, U_MEM get_TPMU_SYM_KEY_BITS_exclusiveOr TPMU_SYM_KEY_BITS_exclusiveOr 0 Tss2_MU_UINT16_Unmarshal),
     (ucast TPM2_ALG_SYMCIPHER, U_MEM get_TPMU_SYM_KEY_BITS_sym TPMU_SYM_KEY_BITS_sym 0 Tss2_MU_UINT16_Unmarshal)]"

definition spec_TPMU_SYM_KEY_BITS :: "(UINT32 \<times> TPMU_SYM_KEY_BITS mspec) list" where
  "spec_TPMU_SYM_KEY_BITS =
    [(ucast TPM2_ALG_AES, member_spec get_TPMU_SYM_KEY_BITS_aes (\<lambda>_. True) (\<lambda>_. True) be_bytes),
     (ucast TPM2_ALG_SM4, member_spec get_TPMU_SYM_KEY_BITS_sm4 (\<lambda>_. True) (\<lambda>_. True) be_bytes),
     (ucast TPM2_ALG_CAMELLIA, member_spec get_TPMU_SYM_KEY_BITS_camellia (\<lambda>_. True) (\<lambda>_. True) be_bytes),
     (ucast TPM2_ALG_XOR, member_spec get_TPMU_SYM_KEY_BITS_exclusiveOr (\<lambda>_. True) (\<lambda>_. True) be_bytes),
     (ucast TPM2_ALG_SYMCIPHER, member_spec get_TPMU_SYM_KEY_BITS_sym (\<lambda>_. True) (\<lambda>_. True) be_bytes)]"

abbreviation "src_TPMU_SYM_KEY_BITS \<equiv> src_union spec_TPMU_SYM_KEY_BITS"
abbreviation "valid_TPMU_SYM_KEY_BITS \<equiv> valid_union spec_TPMU_SYM_KEY_BITS"
abbreviation "wire_TPMU_SYM_KEY_BITS \<equiv> wire_union spec_TPMU_SYM_KEY_BITS"

lemma marshaler_TPMU_SYM_KEY_BITS:
  "marshaler (\<lambda>u. Tss2_MU_TPMU_SYM_KEY_BITS_Marshal (Some u) k) (src_TPMU_SYM_KEY_BITS k) (valid_TPMU_SYM_KEY_BITS k) (wire_TPMU_SYM_KEY_BITS k) 2"
  unfolding Tss2_MU_TPMU_SYM_KEY_BITS_Marshal_def spec_TPMU_SYM_KEY_BITS_def
  by (rule marshaler_TPMU, simp only: entry_rel_simps, intro conjI refl TrueI
      marshals_VAL [OF mu_UINT16.marshaler_axioms])
    (simp_all add: get_TPMU_SYM_KEY_BITS)

lemma unmarshaler_TPMU_SYM_KEY_BITS:
  "strict_unmarshaler (\<lambda>b bs off. Tss2_MU_TPMU_SYM_KEY_BITS_Unmarshal b bs off k) wt_TPMU_SYM_KEY_BITS (valid_TPMU_SYM_KEY_BITS k) (wire_TPMU_SYM_KEY_BITS k)"
  unfolding Tss2_MU_TPMU_SYM_KEY_BITS_Unmarshal_def spec_TPMU_SYM_KEY_BITS_def
  by (rule strict_unmarshaler_TPMU, simp only: entry_rel_simps, intro conjI refl TrueI
      unmarshals_MEM [OF mu_UINT16.strict_unmarshaler_axioms])
    (simp_all add: get_TPMU_SYM_KEY_BITS)

interpretation mu_TPMU_SYM_KEY_BITS: codec "\<lambda>u. Tss2_MU_TPMU_SYM_KEY_BITS_Marshal (Some u) k" "src_TPMU_SYM_KEY_BITS k" "valid_TPMU_SYM_KEY_BITS k" "wire_TPMU_SYM_KEY_BITS k" "2"
  "\<lambda>b bs off. Tss2_MU_TPMU_SYM_KEY_BITS_Unmarshal b bs off k" wt_TPMU_SYM_KEY_BITS "valid_TPMU_SYM_KEY_BITS k" for k
  by (rule codecI [OF marshaler_TPMU_SYM_KEY_BITS unmarshaler_TPMU_SYM_KEY_BITS])

definition Tss2_MU_TPMU_SYM_MODE_Marshal :: "TPMU_SYM_MODE option \<Rightarrow> UINT32 \<Rightarrow> buf option \<Rightarrow> size_t \<Rightarrow> size_t option \<Rightarrow> mres" where
  "Tss2_MU_TPMU_SYM_MODE_Marshal = TPMU_MARSHAL2
    [(ucast TPM2_ALG_AES, U_VAL get_TPMU_SYM_MODE_aes Tss2_MU_UINT16_Marshal),
     (ucast TPM2_ALG_SM4, U_VAL get_TPMU_SYM_MODE_sm4 Tss2_MU_UINT16_Marshal),
     (ucast TPM2_ALG_CAMELLIA, U_VAL get_TPMU_SYM_MODE_camellia Tss2_MU_UINT16_Marshal),
     (ucast TPM2_ALG_XOR, marshal_null),
     (ucast TPM2_ALG_SYMCIPHER, U_VAL get_TPMU_SYM_MODE_sym Tss2_MU_UINT16_Marshal)]"

definition Tss2_MU_TPMU_SYM_MODE_Unmarshal :: "buf option \<Rightarrow> size_t \<Rightarrow> size_t option \<Rightarrow> UINT32 \<Rightarrow> TPMU_SYM_MODE option \<Rightarrow> TPMU_SYM_MODE ures" where
  "Tss2_MU_TPMU_SYM_MODE_Unmarshal = TPMU_UNMARSHAL2
    [(ucast TPM2_ALG_AES, U_MEM get_TPMU_SYM_MODE_aes TPMU_SYM_MODE_aes 0 Tss2_MU_UINT16_Unmarshal),
     (ucast TPM2_ALG_SM4, U_MEM get_TPMU_SYM_MODE_sm4 TPMU_SYM_MODE_sm4 0 Tss2_MU_UINT16_Unmarshal),
     (ucast TPM2_ALG_CAMELLIA, U_MEM get_TPMU_SYM_MODE_camellia TPMU_SYM_MODE_camellia 0 Tss2_MU_UINT16_Unmarshal),
     (ucast TPM2_ALG_XOR, unmarshal_null),
     (ucast TPM2_ALG_SYMCIPHER, U_MEM get_TPMU_SYM_MODE_sym TPMU_SYM_MODE_sym 0 Tss2_MU_UINT16_Unmarshal)]"

definition spec_TPMU_SYM_MODE :: "(UINT32 \<times> TPMU_SYM_MODE mspec) list" where
  "spec_TPMU_SYM_MODE =
    [(ucast TPM2_ALG_AES, member_spec get_TPMU_SYM_MODE_aes (\<lambda>_. True) (\<lambda>_. True) be_bytes),
     (ucast TPM2_ALG_SM4, member_spec get_TPMU_SYM_MODE_sm4 (\<lambda>_. True) (\<lambda>_. True) be_bytes),
     (ucast TPM2_ALG_CAMELLIA, member_spec get_TPMU_SYM_MODE_camellia (\<lambda>_. True) (\<lambda>_. True) be_bytes),
     (ucast TPM2_ALG_XOR, null_spec),
     (ucast TPM2_ALG_SYMCIPHER, member_spec get_TPMU_SYM_MODE_sym (\<lambda>_. True) (\<lambda>_. True) be_bytes)]"

abbreviation "src_TPMU_SYM_MODE \<equiv> src_union spec_TPMU_SYM_MODE"
abbreviation "valid_TPMU_SYM_MODE \<equiv> valid_union spec_TPMU_SYM_MODE"
abbreviation "wire_TPMU_SYM_MODE \<equiv> wire_union spec_TPMU_SYM_MODE"

lemma marshaler_TPMU_SYM_MODE:
  "marshaler (\<lambda>u. Tss2_MU_TPMU_SYM_MODE_Marshal (Some u) k) (src_TPMU_SYM_MODE k) (valid_TPMU_SYM_MODE k) (wire_TPMU_SYM_MODE k) 2"
  unfolding Tss2_MU_TPMU_SYM_MODE_Marshal_def spec_TPMU_SYM_MODE_def
  by (rule marshaler_TPMU, simp only: entry_rel_simps, intro conjI refl TrueI
      marshals_VAL [OF mu_UINT16.marshaler_axioms]
      marshals_null)
    (simp_all add: get_TPMU_SYM_MODE)

lemma unmarshaler_TPMU_SYM_MODE:
  "strict_unmarshaler (\<lambda>b bs off. Tss2_MU_TPMU_SYM_MODE_Unmarshal b bs off k) wt_TPMU_SYM_MODE (valid_TPMU_SYM_MODE k) (wire_TPMU_SYM_MODE k)"
  unfolding Tss2_MU_TPMU_SYM_MODE_Unmarshal_def spec_TPMU_SYM_MODE_def
  by (rule strict_unmarshaler_TPMU, simp only: entry_rel_simps, intro conjI refl TrueI
      unmarshals_MEM [OF mu_UINT16.strict_unmarshaler_axioms]
      unmarshals_null)
    (simp_all add: get_TPMU_SYM_MODE)

interpretation mu_TPMU_SYM_MODE: codec "\<lambda>u. Tss2_MU_TPMU_SYM_MODE_Marshal (Some u) k" "src_TPMU_SYM_MODE k" "valid_TPMU_SYM_MODE k" "wire_TPMU_SYM_MODE k" "2"
  "\<lambda>b bs off. Tss2_MU_TPMU_SYM_MODE_Unmarshal b bs off k" wt_TPMU_SYM_MODE "valid_TPMU_SYM_MODE k" for k
  by (rule codecI [OF marshaler_TPMU_SYM_MODE unmarshaler_TPMU_SYM_MODE])

definition Tss2_MU_TPMT_SYM_DEF_OBJECT_Marshal :: "TPMT_SYM_DEF_OBJECT option mfun" where
  "Tss2_MU_TPMT_SYM_DEF_OBJECT_Marshal = TPMT_MARSHAL_3
     (VAL TPMT_SYM_DEF_OBJECT_algorithm Tss2_MU_UINT16_Marshal)
     (ADDR_SEL (\<lambda>s. ucast (TPMT_SYM_DEF_OBJECT_algorithm s)) TPMT_SYM_DEF_OBJECT_keyBits Tss2_MU_TPMU_SYM_KEY_BITS_Marshal)
     (ADDR_SEL (\<lambda>s. ucast (TPMT_SYM_DEF_OBJECT_algorithm s)) TPMT_SYM_DEF_OBJECT_mode Tss2_MU_TPMU_SYM_MODE_Marshal)"

definition Tss2_MU_TPMT_SYM_DEF_OBJECT_Unmarshal :: "TPMT_SYM_DEF_OBJECT ufun" where
  "Tss2_MU_TPMT_SYM_DEF_OBJECT_Unmarshal = TPMT_UNMARSHAL_3 zero_TPMT_SYM_DEF_OBJECT
     TPMT_SYM_DEF_OBJECT_algorithm TPMT_SYM_DEF_OBJECT_algorithm_update Tss2_MU_UINT16_Unmarshal
     TPMT_SYM_DEF_OBJECT_keyBits TPMT_SYM_DEF_OBJECT_keyBits_update (\<lambda>s. ucast (TPMT_SYM_DEF_OBJECT_algorithm s)) Tss2_MU_TPMU_SYM_KEY_BITS_Unmarshal
     TPMT_SYM_DEF_OBJECT_mode TPMT_SYM_DEF_OBJECT_mode_update (\<lambda>s. ucast (TPMT_SYM_DEF_OBJECT_algorithm s)) Tss2_MU_TPMU_SYM_MODE_Unmarshal"

definition src_TPMT_SYM_DEF_OBJECT :: "TPMT_SYM_DEF_OBJECT \<Rightarrow> bool" where
  "src_TPMT_SYM_DEF_OBJECT s \<longleftrightarrow> src_TPMU_SYM_KEY_BITS (ucast (TPMT_SYM_DEF_OBJECT_algorithm s)) (TPMT_SYM_DEF_OBJECT_keyBits s) \<and>
     src_TPMU_SYM_MODE (ucast (TPMT_SYM_DEF_OBJECT_algorithm s)) (TPMT_SYM_DEF_OBJECT_mode s)"

definition valid_TPMT_SYM_DEF_OBJECT :: "TPMT_SYM_DEF_OBJECT \<Rightarrow> bool" where
  "valid_TPMT_SYM_DEF_OBJECT s \<longleftrightarrow> valid_TPMU_SYM_KEY_BITS (ucast (TPMT_SYM_DEF_OBJECT_algorithm s)) (TPMT_SYM_DEF_OBJECT_keyBits s) \<and>
     valid_TPMU_SYM_MODE (ucast (TPMT_SYM_DEF_OBJECT_algorithm s)) (TPMT_SYM_DEF_OBJECT_mode s)"

definition wire_TPMT_SYM_DEF_OBJECT :: "TPMT_SYM_DEF_OBJECT \<Rightarrow> BYTE list" where
  "wire_TPMT_SYM_DEF_OBJECT s = be_bytes (TPMT_SYM_DEF_OBJECT_algorithm s) @
     wire_TPMU_SYM_KEY_BITS (ucast (TPMT_SYM_DEF_OBJECT_algorithm s)) (TPMT_SYM_DEF_OBJECT_keyBits s) @
     wire_TPMU_SYM_MODE (ucast (TPMT_SYM_DEF_OBJECT_algorithm s)) (TPMT_SYM_DEF_OBJECT_mode s)"

lemma marshaler_TPMT_SYM_DEF_OBJECT:
  "marshaler (\<lambda>s. Tss2_MU_TPMT_SYM_DEF_OBJECT_Marshal (Some s)) src_TPMT_SYM_DEF_OBJECT valid_TPMT_SYM_DEF_OBJECT wire_TPMT_SYM_DEF_OBJECT 6"
  unfolding Tss2_MU_TPMT_SYM_DEF_OBJECT_Marshal_def struct_marshal_defs
  by (rule marshaler_cong,
      (rule marshaler_Cons marshaler_Nil marshaler_VAL [OF mu_UINT16.marshaler_axioms]
        marshaler_ADDR_SEL [OF marshaler_TPMU_SYM_KEY_BITS]
        marshaler_ADDR_SEL [OF marshaler_TPMU_SYM_MODE])+)
    (simp_all add: src_TPMT_SYM_DEF_OBJECT_def valid_TPMT_SYM_DEF_OBJECT_def wire_TPMT_SYM_DEF_OBJECT_def)

lemma unmarshaler_TPMT_SYM_DEF_OBJECT:
  "strict_unmarshaler Tss2_MU_TPMT_SYM_DEF_OBJECT_Unmarshal wt_TPMT_SYM_DEF_OBJECT valid_TPMT_SYM_DEF_OBJECT wire_TPMT_SYM_DEF_OBJECT"
  unfolding Tss2_MU_TPMT_SYM_DEF_OBJECT_Unmarshal_def struct_unmarshal_defs
  by (rule strict_unmarshaler_cong, rule strict_unmarshaler_struct,
      rule useq_ok_Cons_sel [where sel = "\<lambda>s. ucast (TPMT_SYM_DEF_OBJECT_algorithm s)"],
      rule useq_ok_FLD(2) [OF mu_UINT16.strict_unmarshaler_axioms], simp,
      rule useq_ok_Cons,
      rule useq_ok_UNI(1) [OF unmarshaler_TPMU_SYM_KEY_BITS], simp, simp,
      rule useq_ok_Cons,
      rule useq_ok_UNI(1) [OF unmarshaler_TPMU_SYM_MODE], simp, simp,
      rule useq_ok_Nil)
    (simp_all add: keeps_simps be_bytes_inject wt_TPMT_SYM_DEF_OBJECT_def valid_TPMT_SYM_DEF_OBJECT_def wire_TPMT_SYM_DEF_OBJECT_def wt_zero_TPMT_SYM_DEF_OBJECT [unfolded wt_TPMT_SYM_DEF_OBJECT_def])

interpretation mu_TPMT_SYM_DEF_OBJECT: codec "\<lambda>s. Tss2_MU_TPMT_SYM_DEF_OBJECT_Marshal (Some s)"
  "src_TPMT_SYM_DEF_OBJECT" "valid_TPMT_SYM_DEF_OBJECT" "wire_TPMT_SYM_DEF_OBJECT" "6" Tss2_MU_TPMT_SYM_DEF_OBJECT_Unmarshal "wt_TPMT_SYM_DEF_OBJECT" "valid_TPMT_SYM_DEF_OBJECT"
  by (rule codecI [OF marshaler_TPMT_SYM_DEF_OBJECT unmarshaler_TPMT_SYM_DEF_OBJECT])

definition Tss2_MU_TPMS_SYMCIPHER_PARMS_Marshal :: "TPMS_SYMCIPHER_PARMS option mfun" where
  "Tss2_MU_TPMS_SYMCIPHER_PARMS_Marshal = TPMS_MARSHAL_1
     (ADDR TPMS_SYMCIPHER_PARMS_sym Tss2_MU_TPMT_SYM_DEF_OBJECT_Marshal)"

definition Tss2_MU_TPMS_SYMCIPHER_PARMS_Unmarshal :: "TPMS_SYMCIPHER_PARMS ufun" where
  "Tss2_MU_TPMS_SYMCIPHER_PARMS_Unmarshal = TPMS_UNMARSHAL_1 zero_TPMS_SYMCIPHER_PARMS (FLD TPMS_SYMCIPHER_PARMS_sym TPMS_SYMCIPHER_PARMS_sym_update Tss2_MU_TPMT_SYM_DEF_OBJECT_Unmarshal)"

definition src_TPMS_SYMCIPHER_PARMS :: "TPMS_SYMCIPHER_PARMS \<Rightarrow> bool" where
  "src_TPMS_SYMCIPHER_PARMS s \<longleftrightarrow> src_TPMT_SYM_DEF_OBJECT (TPMS_SYMCIPHER_PARMS_sym s)"

definition valid_TPMS_SYMCIPHER_PARMS :: "TPMS_SYMCIPHER_PARMS \<Rightarrow> bool" where
  "valid_TPMS_SYMCIPHER_PARMS s \<longleftrightarrow> valid_TPMT_SYM_DEF_OBJECT (TPMS_SYMCIPHER_PARMS_sym s)"

definition wire_TPMS_SYMCIPHER_PARMS :: "TPMS_SYMCIPHER_PARMS \<Rightarrow> BYTE list" where
  "wire_TPMS_SYMCIPHER_PARMS s = wire_TPMT_SYM_DEF_OBJECT (TPMS_SYMCIPHER_PARMS_sym s)"

lemma marshaler_TPMS_SYMCIPHER_PARMS:
  "marshaler (\<lambda>s. Tss2_MU_TPMS_SYMCIPHER_PARMS_Marshal (Some s)) src_TPMS_SYMCIPHER_PARMS valid_TPMS_SYMCIPHER_PARMS wire_TPMS_SYMCIPHER_PARMS 6"
  unfolding Tss2_MU_TPMS_SYMCIPHER_PARMS_Marshal_def
  by (rule marshaler_cong [OF marshaler_TPMS_1 [OF marshaler_ADDR [OF mu_TPMT_SYM_DEF_OBJECT.marshaler_axioms]]])
    (simp_all add: src_TPMS_SYMCIPHER_PARMS_def valid_TPMS_SYMCIPHER_PARMS_def wire_TPMS_SYMCIPHER_PARMS_def)

lemma unmarshaler_TPMS_SYMCIPHER_PARMS:
  "strict_unmarshaler Tss2_MU_TPMS_SYMCIPHER_PARMS_Unmarshal wt_TPMS_SYMCIPHER_PARMS valid_TPMS_SYMCIPHER_PARMS wire_TPMS_SYMCIPHER_PARMS"
  unfolding Tss2_MU_TPMS_SYMCIPHER_PARMS_Unmarshal_def
  by (rule strict_unmarshaler_cong [OF strict_unmarshaler_TPMS_1 [OF mu_TPMT_SYM_DEF_OBJECT.strict_unmarshaler_axioms, of TPMS_SYMCIPHER_PARMS_sym TPMS_SYMCIPHER_PARMS_sym_update]])
    (simp_all add: wt_TPMS_SYMCIPHER_PARMS_def valid_TPMS_SYMCIPHER_PARMS_def wire_TPMS_SYMCIPHER_PARMS_def)

interpretation mu_TPMS_SYMCIPHER_PARMS: codec "\<lambda>s. Tss2_MU_TPMS_SYMCIPHER_PARMS_Marshal (Some s)"
  "src_TPMS_SYMCIPHER_PARMS" "valid_TPMS_SYMCIPHER_PARMS" "wire_TPMS_SYMCIPHER_PARMS" "6" Tss2_MU_TPMS_SYMCIPHER_PARMS_Unmarshal "wt_TPMS_SYMCIPHER_PARMS" "valid_TPMS_SYMCIPHER_PARMS"
  by (rule codecI [OF marshaler_TPMS_SYMCIPHER_PARMS unmarshaler_TPMS_SYMCIPHER_PARMS])

definition Tss2_MU_TPMS_SCHEME_ECDAA_Marshal :: "TPMS_SCHEME_ECDAA option mfun" where
  "Tss2_MU_TPMS_SCHEME_ECDAA_Marshal = TPMS_MARSHAL_2
     (VAL TPMS_SCHEME_ECDAA_hashAlg Tss2_MU_UINT16_Marshal)
     (VAL TPMS_SCHEME_ECDAA_count Tss2_MU_UINT16_Marshal)"

definition Tss2_MU_TPMS_SCHEME_ECDAA_Unmarshal :: "TPMS_SCHEME_ECDAA ufun" where
  "Tss2_MU_TPMS_SCHEME_ECDAA_Unmarshal = TPMS_UNMARSHAL_2 zero_TPMS_SCHEME_ECDAA
     TPMS_SCHEME_ECDAA_hashAlg TPMS_SCHEME_ECDAA_hashAlg_update Tss2_MU_UINT16_Unmarshal
     TPMS_SCHEME_ECDAA_count TPMS_SCHEME_ECDAA_count_update Tss2_MU_UINT16_Unmarshal"

definition src_TPMS_SCHEME_ECDAA :: "TPMS_SCHEME_ECDAA \<Rightarrow> bool" where
  "src_TPMS_SCHEME_ECDAA s \<longleftrightarrow> True"

definition valid_TPMS_SCHEME_ECDAA :: "TPMS_SCHEME_ECDAA \<Rightarrow> bool" where
  "valid_TPMS_SCHEME_ECDAA s \<longleftrightarrow> True"

definition wire_TPMS_SCHEME_ECDAA :: "TPMS_SCHEME_ECDAA \<Rightarrow> BYTE list" where
  "wire_TPMS_SCHEME_ECDAA s = be_bytes (TPMS_SCHEME_ECDAA_hashAlg s) @
     be_bytes (TPMS_SCHEME_ECDAA_count s)"

lemma marshaler_TPMS_SCHEME_ECDAA:
  "marshaler (\<lambda>s. Tss2_MU_TPMS_SCHEME_ECDAA_Marshal (Some s)) src_TPMS_SCHEME_ECDAA valid_TPMS_SCHEME_ECDAA wire_TPMS_SCHEME_ECDAA 4"
  unfolding Tss2_MU_TPMS_SCHEME_ECDAA_Marshal_def struct_marshal_defs
  by (rule marshaler_cong,
      (rule marshaler_Cons marshaler_Nil marshaler_VAL [OF mu_UINT16.marshaler_axioms])+)
    (simp_all add: src_TPMS_SCHEME_ECDAA_def valid_TPMS_SCHEME_ECDAA_def wire_TPMS_SCHEME_ECDAA_def)

lemma unmarshaler_TPMS_SCHEME_ECDAA:
  "strict_unmarshaler Tss2_MU_TPMS_SCHEME_ECDAA_Unmarshal wt_TPMS_SCHEME_ECDAA valid_TPMS_SCHEME_ECDAA wire_TPMS_SCHEME_ECDAA"
  unfolding Tss2_MU_TPMS_SCHEME_ECDAA_Unmarshal_def struct_unmarshal_defs
  by (rule strict_unmarshaler_cong, rule strict_unmarshaler_struct,
      rule useq_ok_Cons,
      rule useq_ok_FLD(1) [OF mu_UINT16.strict_unmarshaler_axioms], simp,
      rule useq_ok_Cons,
      rule useq_ok_FLD(1) [OF mu_UINT16.strict_unmarshaler_axioms], simp,
      rule useq_ok_Nil)
    (simp_all add: keeps_simps be_bytes_inject wt_TPMS_SCHEME_ECDAA_def valid_TPMS_SCHEME_ECDAA_def wire_TPMS_SCHEME_ECDAA_def wt_zero_TPMS_SCHEME_ECDAA [unfolded wt_TPMS_SCHEME_ECDAA_def])

interpretation mu_TPMS_SCHEME_ECDAA: codec "\<lambda>s. Tss2_MU_TPMS_SCHEME_ECDAA_Marshal (Some s)"
  "src_TPMS_SCHEME_ECDAA" "valid_TPMS_SCHEME_ECDAA" "wire_TPMS_SCHEME_ECDAA" "4" Tss2_MU_TPMS_SCHEME_ECDAA_Unmarshal "wt_TPMS_SCHEME_ECDAA" "valid_TPMS_SCHEME_ECDAA"
  by (rule codecI [OF marshaler_TPMS_SCHEME_ECDAA unmarshaler_TPMS_SCHEME_ECDAA])

definition Tss2_MU_TPMU_ASYM_SCHEME_Marshal :: "TPMU_ASYM_SCHEME option \<Rightarrow> UINT32 \<Rightarrow> buf option \<Rightarrow> size_t \<Rightarrow> size_t option \<Rightarrow> mres" where
  "Tss2_MU_TPMU_ASYM_SCHEME_Marshal = TPMU_MARSHAL2
    [(ucast TPM2_ALG_ECDH, U_ADDR get_TPMU_ASYM_SCHEME_ecdh Tss2_MU_TPMS_SCHEME_HASH_Marshal),
     (ucast TPM2_ALG_ECMQV, U_ADDR get_TPMU_ASYM_SCHEME_ecmqv Tss2_MU_TPMS_SCHEME_HASH_Marshal),
     (ucast TPM2_ALG_RSASSA, U_ADDR get_TPMU_ASYM_SCHEME_rsassa Tss2_MU_TPMS_SCHEME_HASH_Marshal),
     (ucast TPM2_ALG_RSAPSS, U_ADDR get_TPMU_ASYM_SCHEME_rsapss Tss2_MU_TPMS_SCHEME_HASH_Marshal),
     (ucast TPM2_ALG_ECDSA, U_ADDR get_TPMU_ASYM_SCHEME_ecdsa Tss2_MU_TPMS_SCHEME_HASH_Marshal),
     (ucast TPM2_ALG_ECDAA, U_ADDR get_TPMU_ASYM_SCHEME_ecdaa Tss2_MU_TPMS_SCHEME_ECDAA_Marshal),
     (ucast TPM2_ALG_SM2, U_ADDR get_TPMU_ASYM_SCHEME_sm2 Tss2_MU_TPMS_SCHEME_HASH_Marshal),
     (ucast TPM2_ALG_ECSCHNORR, U_ADDR get_TPMU_ASYM_SCHEME_ecschnorr Tss2_MU_TPMS_SCHEME_HASH_Marshal),
     (ucast TPM2_ALG_RSAES, marshal_null),
     (ucast TPM2_ALG_OAEP, U_ADDR get_TPMU_ASYM_SCHEME_oaep Tss2_MU_TPMS_SCHEME_HASH_Marshal),
     (ucast TPM2_ALG_MLDSA, U_ADDR get_TPMU_ASYM_SCHEME_mldsa Tss2_MU_TPMS_SCHEME_HASH_Marshal)]"

definition Tss2_MU_TPMU_ASYM_SCHEME_Unmarshal :: "buf option \<Rightarrow> size_t \<Rightarrow> size_t option \<Rightarrow> UINT32 \<Rightarrow> TPMU_ASYM_SCHEME option \<Rightarrow> TPMU_ASYM_SCHEME ures" where
  "Tss2_MU_TPMU_ASYM_SCHEME_Unmarshal = TPMU_UNMARSHAL2
    [(ucast TPM2_ALG_ECDH, U_MEM get_TPMU_ASYM_SCHEME_ecdh TPMU_ASYM_SCHEME_ecdh zero_TPMS_SCHEME_HASH Tss2_MU_TPMS_SCHEME_HASH_Unmarshal),
     (ucast TPM2_ALG_ECMQV, U_MEM get_TPMU_ASYM_SCHEME_ecmqv TPMU_ASYM_SCHEME_ecmqv zero_TPMS_SCHEME_HASH Tss2_MU_TPMS_SCHEME_HASH_Unmarshal),
     (ucast TPM2_ALG_RSASSA, U_MEM get_TPMU_ASYM_SCHEME_rsassa TPMU_ASYM_SCHEME_rsassa zero_TPMS_SCHEME_HASH Tss2_MU_TPMS_SCHEME_HASH_Unmarshal),
     (ucast TPM2_ALG_RSAPSS, U_MEM get_TPMU_ASYM_SCHEME_rsapss TPMU_ASYM_SCHEME_rsapss zero_TPMS_SCHEME_HASH Tss2_MU_TPMS_SCHEME_HASH_Unmarshal),
     (ucast TPM2_ALG_ECDSA, U_MEM get_TPMU_ASYM_SCHEME_ecdsa TPMU_ASYM_SCHEME_ecdsa zero_TPMS_SCHEME_HASH Tss2_MU_TPMS_SCHEME_HASH_Unmarshal),
     (ucast TPM2_ALG_ECDAA, U_MEM get_TPMU_ASYM_SCHEME_ecdaa TPMU_ASYM_SCHEME_ecdaa zero_TPMS_SCHEME_ECDAA Tss2_MU_TPMS_SCHEME_ECDAA_Unmarshal),
     (ucast TPM2_ALG_SM2, U_MEM get_TPMU_ASYM_SCHEME_sm2 TPMU_ASYM_SCHEME_sm2 zero_TPMS_SCHEME_HASH Tss2_MU_TPMS_SCHEME_HASH_Unmarshal),
     (ucast TPM2_ALG_ECSCHNORR, U_MEM get_TPMU_ASYM_SCHEME_ecschnorr TPMU_ASYM_SCHEME_ecschnorr zero_TPMS_SCHEME_HASH Tss2_MU_TPMS_SCHEME_HASH_Unmarshal),
     (ucast TPM2_ALG_RSAES, unmarshal_null),
     (ucast TPM2_ALG_OAEP, U_MEM get_TPMU_ASYM_SCHEME_oaep TPMU_ASYM_SCHEME_oaep zero_TPMS_SCHEME_HASH Tss2_MU_TPMS_SCHEME_HASH_Unmarshal),
     (ucast TPM2_ALG_MLDSA, U_MEM get_TPMU_ASYM_SCHEME_mldsa TPMU_ASYM_SCHEME_mldsa zero_TPMS_SCHEME_HASH Tss2_MU_TPMS_SCHEME_HASH_Unmarshal)]"

definition spec_TPMU_ASYM_SCHEME :: "(UINT32 \<times> TPMU_ASYM_SCHEME mspec) list" where
  "spec_TPMU_ASYM_SCHEME =
    [(ucast TPM2_ALG_ECDH, member_spec get_TPMU_ASYM_SCHEME_ecdh src_TPMS_SCHEME_HASH valid_TPMS_SCHEME_HASH wire_TPMS_SCHEME_HASH),
     (ucast TPM2_ALG_ECMQV, member_spec get_TPMU_ASYM_SCHEME_ecmqv src_TPMS_SCHEME_HASH valid_TPMS_SCHEME_HASH wire_TPMS_SCHEME_HASH),
     (ucast TPM2_ALG_RSASSA, member_spec get_TPMU_ASYM_SCHEME_rsassa src_TPMS_SCHEME_HASH valid_TPMS_SCHEME_HASH wire_TPMS_SCHEME_HASH),
     (ucast TPM2_ALG_RSAPSS, member_spec get_TPMU_ASYM_SCHEME_rsapss src_TPMS_SCHEME_HASH valid_TPMS_SCHEME_HASH wire_TPMS_SCHEME_HASH),
     (ucast TPM2_ALG_ECDSA, member_spec get_TPMU_ASYM_SCHEME_ecdsa src_TPMS_SCHEME_HASH valid_TPMS_SCHEME_HASH wire_TPMS_SCHEME_HASH),
     (ucast TPM2_ALG_ECDAA, member_spec get_TPMU_ASYM_SCHEME_ecdaa src_TPMS_SCHEME_ECDAA valid_TPMS_SCHEME_ECDAA wire_TPMS_SCHEME_ECDAA),
     (ucast TPM2_ALG_SM2, member_spec get_TPMU_ASYM_SCHEME_sm2 src_TPMS_SCHEME_HASH valid_TPMS_SCHEME_HASH wire_TPMS_SCHEME_HASH),
     (ucast TPM2_ALG_ECSCHNORR, member_spec get_TPMU_ASYM_SCHEME_ecschnorr src_TPMS_SCHEME_HASH valid_TPMS_SCHEME_HASH wire_TPMS_SCHEME_HASH),
     (ucast TPM2_ALG_RSAES, null_spec),
     (ucast TPM2_ALG_OAEP, member_spec get_TPMU_ASYM_SCHEME_oaep src_TPMS_SCHEME_HASH valid_TPMS_SCHEME_HASH wire_TPMS_SCHEME_HASH),
     (ucast TPM2_ALG_MLDSA, member_spec get_TPMU_ASYM_SCHEME_mldsa src_TPMS_SCHEME_HASH valid_TPMS_SCHEME_HASH wire_TPMS_SCHEME_HASH)]"

abbreviation "src_TPMU_ASYM_SCHEME \<equiv> src_union spec_TPMU_ASYM_SCHEME"
abbreviation "valid_TPMU_ASYM_SCHEME \<equiv> valid_union spec_TPMU_ASYM_SCHEME"
abbreviation "wire_TPMU_ASYM_SCHEME \<equiv> wire_union spec_TPMU_ASYM_SCHEME"

lemma marshaler_TPMU_ASYM_SCHEME:
  "marshaler (\<lambda>u. Tss2_MU_TPMU_ASYM_SCHEME_Marshal (Some u) k) (src_TPMU_ASYM_SCHEME k) (valid_TPMU_ASYM_SCHEME k) (wire_TPMU_ASYM_SCHEME k) 4"
  unfolding Tss2_MU_TPMU_ASYM_SCHEME_Marshal_def spec_TPMU_ASYM_SCHEME_def
  by (rule marshaler_TPMU, simp only: entry_rel_simps, intro conjI refl TrueI
      marshals_ADDR [OF mu_TPMS_SCHEME_HASH.marshaler_axioms]
      marshals_ADDR [OF mu_TPMS_SCHEME_ECDAA.marshaler_axioms]
      marshals_null)
    (simp_all add: get_TPMU_ASYM_SCHEME)

lemma unmarshaler_TPMU_ASYM_SCHEME:
  "strict_unmarshaler (\<lambda>b bs off. Tss2_MU_TPMU_ASYM_SCHEME_Unmarshal b bs off k) wt_TPMU_ASYM_SCHEME (valid_TPMU_ASYM_SCHEME k) (wire_TPMU_ASYM_SCHEME k)"
  unfolding Tss2_MU_TPMU_ASYM_SCHEME_Unmarshal_def spec_TPMU_ASYM_SCHEME_def
  by (rule strict_unmarshaler_TPMU, simp only: entry_rel_simps, intro conjI refl TrueI
      unmarshals_MEM [OF mu_TPMS_SCHEME_HASH.strict_unmarshaler_axioms]
      unmarshals_MEM [OF mu_TPMS_SCHEME_ECDAA.strict_unmarshaler_axioms]
      unmarshals_null)
    (simp_all add: get_TPMU_ASYM_SCHEME)

interpretation mu_TPMU_ASYM_SCHEME: codec "\<lambda>u. Tss2_MU_TPMU_ASYM_SCHEME_Marshal (Some u) k" "src_TPMU_ASYM_SCHEME k" "valid_TPMU_ASYM_SCHEME k" "wire_TPMU_ASYM_SCHEME k" "4"
  "\<lambda>b bs off. Tss2_MU_TPMU_ASYM_SCHEME_Unmarshal b bs off k" wt_TPMU_ASYM_SCHEME "valid_TPMU_ASYM_SCHEME k" for k
  by (rule codecI [OF marshaler_TPMU_ASYM_SCHEME unmarshaler_TPMU_ASYM_SCHEME])

definition Tss2_MU_TPMT_RSA_SCHEME_Marshal :: "TPMT_RSA_SCHEME option mfun" where
  "Tss2_MU_TPMT_RSA_SCHEME_Marshal = TPMT_MARSHAL_2
     (VAL TPMT_RSA_SCHEME_scheme Tss2_MU_UINT16_Marshal)
     (ADDR_SEL (\<lambda>s. ucast (TPMT_RSA_SCHEME_scheme s)) TPMT_RSA_SCHEME_details Tss2_MU_TPMU_ASYM_SCHEME_Marshal)"

definition Tss2_MU_TPMT_RSA_SCHEME_Unmarshal :: "TPMT_RSA_SCHEME ufun" where
  "Tss2_MU_TPMT_RSA_SCHEME_Unmarshal = TPMT_UNMARSHAL_2 zero_TPMT_RSA_SCHEME
     TPMT_RSA_SCHEME_scheme TPMT_RSA_SCHEME_scheme_update Tss2_MU_UINT16_Unmarshal
     TPMT_RSA_SCHEME_details TPMT_RSA_SCHEME_details_update (\<lambda>s. ucast (TPMT_RSA_SCHEME_scheme s)) Tss2_MU_TPMU_ASYM_SCHEME_Unmarshal"

definition src_TPMT_RSA_SCHEME :: "TPMT_RSA_SCHEME \<Rightarrow> bool" where
  "src_TPMT_RSA_SCHEME s \<longleftrightarrow> src_TPMU_ASYM_SCHEME (ucast (TPMT_RSA_SCHEME_scheme s)) (TPMT_RSA_SCHEME_details s)"

definition valid_TPMT_RSA_SCHEME :: "TPMT_RSA_SCHEME \<Rightarrow> bool" where
  "valid_TPMT_RSA_SCHEME s \<longleftrightarrow> valid_TPMU_ASYM_SCHEME (ucast (TPMT_RSA_SCHEME_scheme s)) (TPMT_RSA_SCHEME_details s)"

definition wire_TPMT_RSA_SCHEME :: "TPMT_RSA_SCHEME \<Rightarrow> BYTE list" where
  "wire_TPMT_RSA_SCHEME s = be_bytes (TPMT_RSA_SCHEME_scheme s) @
     wire_TPMU_ASYM_SCHEME (ucast (TPMT_RSA_SCHEME_scheme s)) (TPMT_RSA_SCHEME_details s)"

lemma marshaler_TPMT_RSA_SCHEME:
  "marshaler (\<lambda>s. Tss2_MU_TPMT_RSA_SCHEME_Marshal (Some s)) src_TPMT_RSA_SCHEME valid_TPMT_RSA_SCHEME wire_TPMT_RSA_SCHEME 6"
  unfolding Tss2_MU_TPMT_RSA_SCHEME_Marshal_def struct_marshal_defs
  by (rule marshaler_cong,
      (rule marshaler_Cons marshaler_Nil marshaler_VAL [OF mu_UINT16.marshaler_axioms]
        marshaler_ADDR_SEL [OF marshaler_TPMU_ASYM_SCHEME])+)
    (simp_all add: src_TPMT_RSA_SCHEME_def valid_TPMT_RSA_SCHEME_def wire_TPMT_RSA_SCHEME_def)

lemma unmarshaler_TPMT_RSA_SCHEME:
  "strict_unmarshaler Tss2_MU_TPMT_RSA_SCHEME_Unmarshal wt_TPMT_RSA_SCHEME valid_TPMT_RSA_SCHEME wire_TPMT_RSA_SCHEME"
  unfolding Tss2_MU_TPMT_RSA_SCHEME_Unmarshal_def struct_unmarshal_defs
  by (rule strict_unmarshaler_cong, rule strict_unmarshaler_struct,
      rule useq_ok_Cons_sel [where sel = "\<lambda>s. ucast (TPMT_RSA_SCHEME_scheme s)"],
      rule useq_ok_FLD(2) [OF mu_UINT16.strict_unmarshaler_axioms], simp,
      rule useq_ok_Cons,
      rule useq_ok_UNI(1) [OF unmarshaler_TPMU_ASYM_SCHEME], simp, simp,
      rule useq_ok_Nil)
    (simp_all add: keeps_simps be_bytes_inject wt_TPMT_RSA_SCHEME_def valid_TPMT_RSA_SCHEME_def wire_TPMT_RSA_SCHEME_def wt_zero_TPMT_RSA_SCHEME [unfolded wt_TPMT_RSA_SCHEME_def])

interpretation mu_TPMT_RSA_SCHEME: codec "\<lambda>s. Tss2_MU_TPMT_RSA_SCHEME_Marshal (Some s)"
  "src_TPMT_RSA_SCHEME" "valid_TPMT_RSA_SCHEME" "wire_TPMT_RSA_SCHEME" "6" Tss2_MU_TPMT_RSA_SCHEME_Unmarshal "wt_TPMT_RSA_SCHEME" "valid_TPMT_RSA_SCHEME"
  by (rule codecI [OF marshaler_TPMT_RSA_SCHEME unmarshaler_TPMT_RSA_SCHEME])

definition Tss2_MU_TPMS_RSA_PARMS_Marshal :: "TPMS_RSA_PARMS option mfun" where
  "Tss2_MU_TPMS_RSA_PARMS_Marshal = TPMS_MARSHAL_4
     (ADDR TPMS_RSA_PARMS_symmetric Tss2_MU_TPMT_SYM_DEF_OBJECT_Marshal)
     (ADDR TPMS_RSA_PARMS_scheme Tss2_MU_TPMT_RSA_SCHEME_Marshal)
     (VAL TPMS_RSA_PARMS_keyBits Tss2_MU_UINT16_Marshal)
     (VAL TPMS_RSA_PARMS_exponent Tss2_MU_UINT32_Marshal)"

definition Tss2_MU_TPMS_RSA_PARMS_Unmarshal :: "TPMS_RSA_PARMS ufun" where
  "Tss2_MU_TPMS_RSA_PARMS_Unmarshal = TPMS_UNMARSHAL_4 zero_TPMS_RSA_PARMS
     TPMS_RSA_PARMS_symmetric TPMS_RSA_PARMS_symmetric_update Tss2_MU_TPMT_SYM_DEF_OBJECT_Unmarshal
     TPMS_RSA_PARMS_scheme TPMS_RSA_PARMS_scheme_update Tss2_MU_TPMT_RSA_SCHEME_Unmarshal
     TPMS_RSA_PARMS_keyBits TPMS_RSA_PARMS_keyBits_update Tss2_MU_UINT16_Unmarshal
     TPMS_RSA_PARMS_exponent TPMS_RSA_PARMS_exponent_update Tss2_MU_UINT32_Unmarshal"

definition src_TPMS_RSA_PARMS :: "TPMS_RSA_PARMS \<Rightarrow> bool" where
  "src_TPMS_RSA_PARMS s \<longleftrightarrow> src_TPMT_SYM_DEF_OBJECT (TPMS_RSA_PARMS_symmetric s) \<and>
     src_TPMT_RSA_SCHEME (TPMS_RSA_PARMS_scheme s)"

definition valid_TPMS_RSA_PARMS :: "TPMS_RSA_PARMS \<Rightarrow> bool" where
  "valid_TPMS_RSA_PARMS s \<longleftrightarrow> valid_TPMT_SYM_DEF_OBJECT (TPMS_RSA_PARMS_symmetric s) \<and>
     valid_TPMT_RSA_SCHEME (TPMS_RSA_PARMS_scheme s)"

definition wire_TPMS_RSA_PARMS :: "TPMS_RSA_PARMS \<Rightarrow> BYTE list" where
  "wire_TPMS_RSA_PARMS s = wire_TPMT_SYM_DEF_OBJECT (TPMS_RSA_PARMS_symmetric s) @
     wire_TPMT_RSA_SCHEME (TPMS_RSA_PARMS_scheme s) @
     be_bytes (TPMS_RSA_PARMS_keyBits s) @
     be_bytes (TPMS_RSA_PARMS_exponent s)"

lemma marshaler_TPMS_RSA_PARMS:
  "marshaler (\<lambda>s. Tss2_MU_TPMS_RSA_PARMS_Marshal (Some s)) src_TPMS_RSA_PARMS valid_TPMS_RSA_PARMS wire_TPMS_RSA_PARMS 18"
  unfolding Tss2_MU_TPMS_RSA_PARMS_Marshal_def struct_marshal_defs
  by (rule marshaler_cong,
      (rule marshaler_Cons marshaler_Nil marshaler_ADDR [OF mu_TPMT_SYM_DEF_OBJECT.marshaler_axioms]
        marshaler_ADDR [OF mu_TPMT_RSA_SCHEME.marshaler_axioms]
        marshaler_VAL [OF mu_UINT16.marshaler_axioms]
        marshaler_VAL [OF mu_UINT32.marshaler_axioms])+)
    (simp_all add: src_TPMS_RSA_PARMS_def valid_TPMS_RSA_PARMS_def wire_TPMS_RSA_PARMS_def)

lemma unmarshaler_TPMS_RSA_PARMS:
  "strict_unmarshaler Tss2_MU_TPMS_RSA_PARMS_Unmarshal wt_TPMS_RSA_PARMS valid_TPMS_RSA_PARMS wire_TPMS_RSA_PARMS"
  unfolding Tss2_MU_TPMS_RSA_PARMS_Unmarshal_def struct_unmarshal_defs
  by (rule strict_unmarshaler_cong, rule strict_unmarshaler_struct,
      rule useq_ok_Cons,
      rule useq_ok_FLD(1) [OF mu_TPMT_SYM_DEF_OBJECT.strict_unmarshaler_axioms], simp,
      rule useq_ok_Cons,
      rule useq_ok_FLD(1) [OF mu_TPMT_RSA_SCHEME.strict_unmarshaler_axioms], simp,
      rule useq_ok_Cons,
      rule useq_ok_FLD(1) [OF mu_UINT16.strict_unmarshaler_axioms], simp,
      rule useq_ok_Cons,
      rule useq_ok_FLD(1) [OF mu_UINT32.strict_unmarshaler_axioms], simp,
      rule useq_ok_Nil)
    (simp_all add: keeps_simps be_bytes_inject wt_TPMS_RSA_PARMS_def valid_TPMS_RSA_PARMS_def wire_TPMS_RSA_PARMS_def wt_zero_TPMS_RSA_PARMS [unfolded wt_TPMS_RSA_PARMS_def])

interpretation mu_TPMS_RSA_PARMS: codec "\<lambda>s. Tss2_MU_TPMS_RSA_PARMS_Marshal (Some s)"
  "src_TPMS_RSA_PARMS" "valid_TPMS_RSA_PARMS" "wire_TPMS_RSA_PARMS" "18" Tss2_MU_TPMS_RSA_PARMS_Unmarshal "wt_TPMS_RSA_PARMS" "valid_TPMS_RSA_PARMS"
  by (rule codecI [OF marshaler_TPMS_RSA_PARMS unmarshaler_TPMS_RSA_PARMS])

definition Tss2_MU_TPMT_ECC_SCHEME_Marshal :: "TPMT_ECC_SCHEME option mfun" where
  "Tss2_MU_TPMT_ECC_SCHEME_Marshal = TPMT_MARSHAL_2
     (VAL TPMT_ECC_SCHEME_scheme Tss2_MU_UINT16_Marshal)
     (ADDR_SEL (\<lambda>s. ucast (TPMT_ECC_SCHEME_scheme s)) TPMT_ECC_SCHEME_details Tss2_MU_TPMU_ASYM_SCHEME_Marshal)"

definition Tss2_MU_TPMT_ECC_SCHEME_Unmarshal :: "TPMT_ECC_SCHEME ufun" where
  "Tss2_MU_TPMT_ECC_SCHEME_Unmarshal = TPMT_UNMARSHAL_2 zero_TPMT_ECC_SCHEME
     TPMT_ECC_SCHEME_scheme TPMT_ECC_SCHEME_scheme_update Tss2_MU_UINT16_Unmarshal
     TPMT_ECC_SCHEME_details TPMT_ECC_SCHEME_details_update (\<lambda>s. ucast (TPMT_ECC_SCHEME_scheme s)) Tss2_MU_TPMU_ASYM_SCHEME_Unmarshal"

definition src_TPMT_ECC_SCHEME :: "TPMT_ECC_SCHEME \<Rightarrow> bool" where
  "src_TPMT_ECC_SCHEME s \<longleftrightarrow> src_TPMU_ASYM_SCHEME (ucast (TPMT_ECC_SCHEME_scheme s)) (TPMT_ECC_SCHEME_details s)"

definition valid_TPMT_ECC_SCHEME :: "TPMT_ECC_SCHEME \<Rightarrow> bool" where
  "valid_TPMT_ECC_SCHEME s \<longleftrightarrow> valid_TPMU_ASYM_SCHEME (ucast (TPMT_ECC_SCHEME_scheme s)) (TPMT_ECC_SCHEME_details s)"

definition wire_TPMT_ECC_SCHEME :: "TPMT_ECC_SCHEME \<Rightarrow> BYTE list" where
  "wire_TPMT_ECC_SCHEME s = be_bytes (TPMT_ECC_SCHEME_scheme s) @
     wire_TPMU_ASYM_SCHEME (ucast (TPMT_ECC_SCHEME_scheme s)) (TPMT_ECC_SCHEME_details s)"

lemma marshaler_TPMT_ECC_SCHEME:
  "marshaler (\<lambda>s. Tss2_MU_TPMT_ECC_SCHEME_Marshal (Some s)) src_TPMT_ECC_SCHEME valid_TPMT_ECC_SCHEME wire_TPMT_ECC_SCHEME 6"
  unfolding Tss2_MU_TPMT_ECC_SCHEME_Marshal_def struct_marshal_defs
  by (rule marshaler_cong,
      (rule marshaler_Cons marshaler_Nil marshaler_VAL [OF mu_UINT16.marshaler_axioms]
        marshaler_ADDR_SEL [OF marshaler_TPMU_ASYM_SCHEME])+)
    (simp_all add: src_TPMT_ECC_SCHEME_def valid_TPMT_ECC_SCHEME_def wire_TPMT_ECC_SCHEME_def)

lemma unmarshaler_TPMT_ECC_SCHEME:
  "strict_unmarshaler Tss2_MU_TPMT_ECC_SCHEME_Unmarshal wt_TPMT_ECC_SCHEME valid_TPMT_ECC_SCHEME wire_TPMT_ECC_SCHEME"
  unfolding Tss2_MU_TPMT_ECC_SCHEME_Unmarshal_def struct_unmarshal_defs
  by (rule strict_unmarshaler_cong, rule strict_unmarshaler_struct,
      rule useq_ok_Cons_sel [where sel = "\<lambda>s. ucast (TPMT_ECC_SCHEME_scheme s)"],
      rule useq_ok_FLD(2) [OF mu_UINT16.strict_unmarshaler_axioms], simp,
      rule useq_ok_Cons,
      rule useq_ok_UNI(1) [OF unmarshaler_TPMU_ASYM_SCHEME], simp, simp,
      rule useq_ok_Nil)
    (simp_all add: keeps_simps be_bytes_inject wt_TPMT_ECC_SCHEME_def valid_TPMT_ECC_SCHEME_def wire_TPMT_ECC_SCHEME_def wt_zero_TPMT_ECC_SCHEME [unfolded wt_TPMT_ECC_SCHEME_def])

interpretation mu_TPMT_ECC_SCHEME: codec "\<lambda>s. Tss2_MU_TPMT_ECC_SCHEME_Marshal (Some s)"
  "src_TPMT_ECC_SCHEME" "valid_TPMT_ECC_SCHEME" "wire_TPMT_ECC_SCHEME" "6" Tss2_MU_TPMT_ECC_SCHEME_Unmarshal "wt_TPMT_ECC_SCHEME" "valid_TPMT_ECC_SCHEME"
  by (rule codecI [OF marshaler_TPMT_ECC_SCHEME unmarshaler_TPMT_ECC_SCHEME])

definition Tss2_MU_TPMU_KDF_SCHEME_Marshal :: "TPMU_KDF_SCHEME option \<Rightarrow> UINT32 \<Rightarrow> buf option \<Rightarrow> size_t \<Rightarrow> size_t option \<Rightarrow> mres" where
  "Tss2_MU_TPMU_KDF_SCHEME_Marshal = TPMU_MARSHAL2
    [(ucast TPM2_ALG_MGF1, U_ADDR get_TPMU_KDF_SCHEME_mgf1 Tss2_MU_TPMS_SCHEME_HASH_Marshal),
     (ucast TPM2_ALG_KDF1_SP800_56A, U_ADDR get_TPMU_KDF_SCHEME_kdf1_sp800_56a Tss2_MU_TPMS_SCHEME_HASH_Marshal),
     (ucast TPM2_ALG_KDF1_SP800_108, U_ADDR get_TPMU_KDF_SCHEME_kdf1_sp800_108 Tss2_MU_TPMS_SCHEME_HASH_Marshal),
     (ucast TPM2_ALG_KDF2, U_ADDR get_TPMU_KDF_SCHEME_kdf2 Tss2_MU_TPMS_SCHEME_HASH_Marshal)]"

definition Tss2_MU_TPMU_KDF_SCHEME_Unmarshal :: "buf option \<Rightarrow> size_t \<Rightarrow> size_t option \<Rightarrow> UINT32 \<Rightarrow> TPMU_KDF_SCHEME option \<Rightarrow> TPMU_KDF_SCHEME ures" where
  "Tss2_MU_TPMU_KDF_SCHEME_Unmarshal = TPMU_UNMARSHAL2
    [(ucast TPM2_ALG_MGF1, U_MEM get_TPMU_KDF_SCHEME_mgf1 TPMU_KDF_SCHEME_mgf1 zero_TPMS_SCHEME_HASH Tss2_MU_TPMS_SCHEME_HASH_Unmarshal),
     (ucast TPM2_ALG_KDF1_SP800_56A, U_MEM get_TPMU_KDF_SCHEME_kdf1_sp800_56a TPMU_KDF_SCHEME_kdf1_sp800_56a zero_TPMS_SCHEME_HASH Tss2_MU_TPMS_SCHEME_HASH_Unmarshal),
     (ucast TPM2_ALG_KDF1_SP800_108, U_MEM get_TPMU_KDF_SCHEME_kdf1_sp800_108 TPMU_KDF_SCHEME_kdf1_sp800_108 zero_TPMS_SCHEME_HASH Tss2_MU_TPMS_SCHEME_HASH_Unmarshal),
     (ucast TPM2_ALG_KDF2, U_MEM get_TPMU_KDF_SCHEME_kdf2 TPMU_KDF_SCHEME_kdf2 zero_TPMS_SCHEME_HASH Tss2_MU_TPMS_SCHEME_HASH_Unmarshal)]"

definition spec_TPMU_KDF_SCHEME :: "(UINT32 \<times> TPMU_KDF_SCHEME mspec) list" where
  "spec_TPMU_KDF_SCHEME =
    [(ucast TPM2_ALG_MGF1, member_spec get_TPMU_KDF_SCHEME_mgf1 src_TPMS_SCHEME_HASH valid_TPMS_SCHEME_HASH wire_TPMS_SCHEME_HASH),
     (ucast TPM2_ALG_KDF1_SP800_56A, member_spec get_TPMU_KDF_SCHEME_kdf1_sp800_56a src_TPMS_SCHEME_HASH valid_TPMS_SCHEME_HASH wire_TPMS_SCHEME_HASH),
     (ucast TPM2_ALG_KDF1_SP800_108, member_spec get_TPMU_KDF_SCHEME_kdf1_sp800_108 src_TPMS_SCHEME_HASH valid_TPMS_SCHEME_HASH wire_TPMS_SCHEME_HASH),
     (ucast TPM2_ALG_KDF2, member_spec get_TPMU_KDF_SCHEME_kdf2 src_TPMS_SCHEME_HASH valid_TPMS_SCHEME_HASH wire_TPMS_SCHEME_HASH)]"

abbreviation "src_TPMU_KDF_SCHEME \<equiv> src_union spec_TPMU_KDF_SCHEME"
abbreviation "valid_TPMU_KDF_SCHEME \<equiv> valid_union spec_TPMU_KDF_SCHEME"
abbreviation "wire_TPMU_KDF_SCHEME \<equiv> wire_union spec_TPMU_KDF_SCHEME"

lemma marshaler_TPMU_KDF_SCHEME:
  "marshaler (\<lambda>u. Tss2_MU_TPMU_KDF_SCHEME_Marshal (Some u) k) (src_TPMU_KDF_SCHEME k) (valid_TPMU_KDF_SCHEME k) (wire_TPMU_KDF_SCHEME k) 2"
  unfolding Tss2_MU_TPMU_KDF_SCHEME_Marshal_def spec_TPMU_KDF_SCHEME_def
  by (rule marshaler_TPMU, simp only: entry_rel_simps, intro conjI refl TrueI
      marshals_ADDR [OF mu_TPMS_SCHEME_HASH.marshaler_axioms])
    (simp_all add: get_TPMU_KDF_SCHEME)

lemma unmarshaler_TPMU_KDF_SCHEME:
  "strict_unmarshaler (\<lambda>b bs off. Tss2_MU_TPMU_KDF_SCHEME_Unmarshal b bs off k) wt_TPMU_KDF_SCHEME (valid_TPMU_KDF_SCHEME k) (wire_TPMU_KDF_SCHEME k)"
  unfolding Tss2_MU_TPMU_KDF_SCHEME_Unmarshal_def spec_TPMU_KDF_SCHEME_def
  by (rule strict_unmarshaler_TPMU, simp only: entry_rel_simps, intro conjI refl TrueI
      unmarshals_MEM [OF mu_TPMS_SCHEME_HASH.strict_unmarshaler_axioms])
    (simp_all add: get_TPMU_KDF_SCHEME)

interpretation mu_TPMU_KDF_SCHEME: codec "\<lambda>u. Tss2_MU_TPMU_KDF_SCHEME_Marshal (Some u) k" "src_TPMU_KDF_SCHEME k" "valid_TPMU_KDF_SCHEME k" "wire_TPMU_KDF_SCHEME k" "2"
  "\<lambda>b bs off. Tss2_MU_TPMU_KDF_SCHEME_Unmarshal b bs off k" wt_TPMU_KDF_SCHEME "valid_TPMU_KDF_SCHEME k" for k
  by (rule codecI [OF marshaler_TPMU_KDF_SCHEME unmarshaler_TPMU_KDF_SCHEME])

definition Tss2_MU_TPMT_KDF_SCHEME_Marshal :: "TPMT_KDF_SCHEME option mfun" where
  "Tss2_MU_TPMT_KDF_SCHEME_Marshal = TPMT_MARSHAL_2
     (VAL TPMT_KDF_SCHEME_scheme Tss2_MU_UINT16_Marshal)
     (ADDR_SEL (\<lambda>s. ucast (TPMT_KDF_SCHEME_scheme s)) TPMT_KDF_SCHEME_details Tss2_MU_TPMU_KDF_SCHEME_Marshal)"

definition Tss2_MU_TPMT_KDF_SCHEME_Unmarshal :: "TPMT_KDF_SCHEME ufun" where
  "Tss2_MU_TPMT_KDF_SCHEME_Unmarshal = TPMT_UNMARSHAL_2 zero_TPMT_KDF_SCHEME
     TPMT_KDF_SCHEME_scheme TPMT_KDF_SCHEME_scheme_update Tss2_MU_UINT16_Unmarshal
     TPMT_KDF_SCHEME_details TPMT_KDF_SCHEME_details_update (\<lambda>s. ucast (TPMT_KDF_SCHEME_scheme s)) Tss2_MU_TPMU_KDF_SCHEME_Unmarshal"

definition src_TPMT_KDF_SCHEME :: "TPMT_KDF_SCHEME \<Rightarrow> bool" where
  "src_TPMT_KDF_SCHEME s \<longleftrightarrow> src_TPMU_KDF_SCHEME (ucast (TPMT_KDF_SCHEME_scheme s)) (TPMT_KDF_SCHEME_details s)"

definition valid_TPMT_KDF_SCHEME :: "TPMT_KDF_SCHEME \<Rightarrow> bool" where
  "valid_TPMT_KDF_SCHEME s \<longleftrightarrow> valid_TPMU_KDF_SCHEME (ucast (TPMT_KDF_SCHEME_scheme s)) (TPMT_KDF_SCHEME_details s)"

definition wire_TPMT_KDF_SCHEME :: "TPMT_KDF_SCHEME \<Rightarrow> BYTE list" where
  "wire_TPMT_KDF_SCHEME s = be_bytes (TPMT_KDF_SCHEME_scheme s) @
     wire_TPMU_KDF_SCHEME (ucast (TPMT_KDF_SCHEME_scheme s)) (TPMT_KDF_SCHEME_details s)"

lemma marshaler_TPMT_KDF_SCHEME:
  "marshaler (\<lambda>s. Tss2_MU_TPMT_KDF_SCHEME_Marshal (Some s)) src_TPMT_KDF_SCHEME valid_TPMT_KDF_SCHEME wire_TPMT_KDF_SCHEME 4"
  unfolding Tss2_MU_TPMT_KDF_SCHEME_Marshal_def struct_marshal_defs
  by (rule marshaler_cong,
      (rule marshaler_Cons marshaler_Nil marshaler_VAL [OF mu_UINT16.marshaler_axioms]
        marshaler_ADDR_SEL [OF marshaler_TPMU_KDF_SCHEME])+)
    (simp_all add: src_TPMT_KDF_SCHEME_def valid_TPMT_KDF_SCHEME_def wire_TPMT_KDF_SCHEME_def)

lemma unmarshaler_TPMT_KDF_SCHEME:
  "strict_unmarshaler Tss2_MU_TPMT_KDF_SCHEME_Unmarshal wt_TPMT_KDF_SCHEME valid_TPMT_KDF_SCHEME wire_TPMT_KDF_SCHEME"
  unfolding Tss2_MU_TPMT_KDF_SCHEME_Unmarshal_def struct_unmarshal_defs
  by (rule strict_unmarshaler_cong, rule strict_unmarshaler_struct,
      rule useq_ok_Cons_sel [where sel = "\<lambda>s. ucast (TPMT_KDF_SCHEME_scheme s)"],
      rule useq_ok_FLD(2) [OF mu_UINT16.strict_unmarshaler_axioms], simp,
      rule useq_ok_Cons,
      rule useq_ok_UNI(1) [OF unmarshaler_TPMU_KDF_SCHEME], simp, simp,
      rule useq_ok_Nil)
    (simp_all add: keeps_simps be_bytes_inject wt_TPMT_KDF_SCHEME_def valid_TPMT_KDF_SCHEME_def wire_TPMT_KDF_SCHEME_def wt_zero_TPMT_KDF_SCHEME [unfolded wt_TPMT_KDF_SCHEME_def])

interpretation mu_TPMT_KDF_SCHEME: codec "\<lambda>s. Tss2_MU_TPMT_KDF_SCHEME_Marshal (Some s)"
  "src_TPMT_KDF_SCHEME" "valid_TPMT_KDF_SCHEME" "wire_TPMT_KDF_SCHEME" "4" Tss2_MU_TPMT_KDF_SCHEME_Unmarshal "wt_TPMT_KDF_SCHEME" "valid_TPMT_KDF_SCHEME"
  by (rule codecI [OF marshaler_TPMT_KDF_SCHEME unmarshaler_TPMT_KDF_SCHEME])

definition Tss2_MU_TPMS_ECC_PARMS_Marshal :: "TPMS_ECC_PARMS option mfun" where
  "Tss2_MU_TPMS_ECC_PARMS_Marshal = TPMS_MARSHAL_4
     (ADDR TPMS_ECC_PARMS_symmetric Tss2_MU_TPMT_SYM_DEF_OBJECT_Marshal)
     (ADDR TPMS_ECC_PARMS_scheme Tss2_MU_TPMT_ECC_SCHEME_Marshal)
     (VAL TPMS_ECC_PARMS_curveID Tss2_MU_UINT16_Marshal)
     (ADDR TPMS_ECC_PARMS_kdf Tss2_MU_TPMT_KDF_SCHEME_Marshal)"

definition Tss2_MU_TPMS_ECC_PARMS_Unmarshal :: "TPMS_ECC_PARMS ufun" where
  "Tss2_MU_TPMS_ECC_PARMS_Unmarshal = TPMS_UNMARSHAL_4 zero_TPMS_ECC_PARMS
     TPMS_ECC_PARMS_symmetric TPMS_ECC_PARMS_symmetric_update Tss2_MU_TPMT_SYM_DEF_OBJECT_Unmarshal
     TPMS_ECC_PARMS_scheme TPMS_ECC_PARMS_scheme_update Tss2_MU_TPMT_ECC_SCHEME_Unmarshal
     TPMS_ECC_PARMS_curveID TPMS_ECC_PARMS_curveID_update Tss2_MU_UINT16_Unmarshal
     TPMS_ECC_PARMS_kdf TPMS_ECC_PARMS_kdf_update Tss2_MU_TPMT_KDF_SCHEME_Unmarshal"

definition src_TPMS_ECC_PARMS :: "TPMS_ECC_PARMS \<Rightarrow> bool" where
  "src_TPMS_ECC_PARMS s \<longleftrightarrow> src_TPMT_SYM_DEF_OBJECT (TPMS_ECC_PARMS_symmetric s) \<and>
     src_TPMT_ECC_SCHEME (TPMS_ECC_PARMS_scheme s) \<and>
     src_TPMT_KDF_SCHEME (TPMS_ECC_PARMS_kdf s)"

definition valid_TPMS_ECC_PARMS :: "TPMS_ECC_PARMS \<Rightarrow> bool" where
  "valid_TPMS_ECC_PARMS s \<longleftrightarrow> valid_TPMT_SYM_DEF_OBJECT (TPMS_ECC_PARMS_symmetric s) \<and>
     valid_TPMT_ECC_SCHEME (TPMS_ECC_PARMS_scheme s) \<and>
     valid_TPMT_KDF_SCHEME (TPMS_ECC_PARMS_kdf s)"

definition wire_TPMS_ECC_PARMS :: "TPMS_ECC_PARMS \<Rightarrow> BYTE list" where
  "wire_TPMS_ECC_PARMS s = wire_TPMT_SYM_DEF_OBJECT (TPMS_ECC_PARMS_symmetric s) @
     wire_TPMT_ECC_SCHEME (TPMS_ECC_PARMS_scheme s) @
     be_bytes (TPMS_ECC_PARMS_curveID s) @
     wire_TPMT_KDF_SCHEME (TPMS_ECC_PARMS_kdf s)"

lemma marshaler_TPMS_ECC_PARMS:
  "marshaler (\<lambda>s. Tss2_MU_TPMS_ECC_PARMS_Marshal (Some s)) src_TPMS_ECC_PARMS valid_TPMS_ECC_PARMS wire_TPMS_ECC_PARMS 18"
  unfolding Tss2_MU_TPMS_ECC_PARMS_Marshal_def struct_marshal_defs
  by (rule marshaler_cong,
      (rule marshaler_Cons marshaler_Nil marshaler_ADDR [OF mu_TPMT_SYM_DEF_OBJECT.marshaler_axioms]
        marshaler_ADDR [OF mu_TPMT_ECC_SCHEME.marshaler_axioms]
        marshaler_VAL [OF mu_UINT16.marshaler_axioms]
        marshaler_ADDR [OF mu_TPMT_KDF_SCHEME.marshaler_axioms])+)
    (simp_all add: src_TPMS_ECC_PARMS_def valid_TPMS_ECC_PARMS_def wire_TPMS_ECC_PARMS_def)

lemma unmarshaler_TPMS_ECC_PARMS:
  "strict_unmarshaler Tss2_MU_TPMS_ECC_PARMS_Unmarshal wt_TPMS_ECC_PARMS valid_TPMS_ECC_PARMS wire_TPMS_ECC_PARMS"
  unfolding Tss2_MU_TPMS_ECC_PARMS_Unmarshal_def struct_unmarshal_defs
  by (rule strict_unmarshaler_cong, rule strict_unmarshaler_struct,
      rule useq_ok_Cons,
      rule useq_ok_FLD(1) [OF mu_TPMT_SYM_DEF_OBJECT.strict_unmarshaler_axioms], simp,
      rule useq_ok_Cons,
      rule useq_ok_FLD(1) [OF mu_TPMT_ECC_SCHEME.strict_unmarshaler_axioms], simp,
      rule useq_ok_Cons,
      rule useq_ok_FLD(1) [OF mu_UINT16.strict_unmarshaler_axioms], simp,
      rule useq_ok_Cons,
      rule useq_ok_FLD(1) [OF mu_TPMT_KDF_SCHEME.strict_unmarshaler_axioms], simp,
      rule useq_ok_Nil)
    (simp_all add: keeps_simps be_bytes_inject wt_TPMS_ECC_PARMS_def valid_TPMS_ECC_PARMS_def wire_TPMS_ECC_PARMS_def wt_zero_TPMS_ECC_PARMS [unfolded wt_TPMS_ECC_PARMS_def])

interpretation mu_TPMS_ECC_PARMS: codec "\<lambda>s. Tss2_MU_TPMS_ECC_PARMS_Marshal (Some s)"
  "src_TPMS_ECC_PARMS" "valid_TPMS_ECC_PARMS" "wire_TPMS_ECC_PARMS" "18" Tss2_MU_TPMS_ECC_PARMS_Unmarshal "wt_TPMS_ECC_PARMS" "valid_TPMS_ECC_PARMS"
  by (rule codecI [OF marshaler_TPMS_ECC_PARMS unmarshaler_TPMS_ECC_PARMS])

definition Tss2_MU_TPMS_ML_PARAMETER_SET_Marshal :: "TPMS_ML_PARAMETER_SET option mfun" where
  "Tss2_MU_TPMS_ML_PARAMETER_SET_Marshal = TPMS_MARSHAL_1
     (VAL TPMS_ML_PARAMETER_SET_identifier Tss2_MU_UINT32_Marshal)"

definition Tss2_MU_TPMS_ML_PARAMETER_SET_Unmarshal :: "TPMS_ML_PARAMETER_SET ufun" where
  "Tss2_MU_TPMS_ML_PARAMETER_SET_Unmarshal = TPMS_UNMARSHAL_1 zero_TPMS_ML_PARAMETER_SET (FLD TPMS_ML_PARAMETER_SET_identifier TPMS_ML_PARAMETER_SET_identifier_update Tss2_MU_UINT32_Unmarshal)"

definition src_TPMS_ML_PARAMETER_SET :: "TPMS_ML_PARAMETER_SET \<Rightarrow> bool" where
  "src_TPMS_ML_PARAMETER_SET s \<longleftrightarrow> True"

definition valid_TPMS_ML_PARAMETER_SET :: "TPMS_ML_PARAMETER_SET \<Rightarrow> bool" where
  "valid_TPMS_ML_PARAMETER_SET s \<longleftrightarrow> True"

definition wire_TPMS_ML_PARAMETER_SET :: "TPMS_ML_PARAMETER_SET \<Rightarrow> BYTE list" where
  "wire_TPMS_ML_PARAMETER_SET s = be_bytes (TPMS_ML_PARAMETER_SET_identifier s)"

lemma marshaler_TPMS_ML_PARAMETER_SET:
  "marshaler (\<lambda>s. Tss2_MU_TPMS_ML_PARAMETER_SET_Marshal (Some s)) src_TPMS_ML_PARAMETER_SET valid_TPMS_ML_PARAMETER_SET wire_TPMS_ML_PARAMETER_SET 4"
  unfolding Tss2_MU_TPMS_ML_PARAMETER_SET_Marshal_def
  by (rule marshaler_cong [OF marshaler_TPMS_1 [OF marshaler_VAL [OF mu_UINT32.marshaler_axioms]]])
    (simp_all add: src_TPMS_ML_PARAMETER_SET_def valid_TPMS_ML_PARAMETER_SET_def wire_TPMS_ML_PARAMETER_SET_def)

lemma unmarshaler_TPMS_ML_PARAMETER_SET:
  "strict_unmarshaler Tss2_MU_TPMS_ML_PARAMETER_SET_Unmarshal wt_TPMS_ML_PARAMETER_SET valid_TPMS_ML_PARAMETER_SET wire_TPMS_ML_PARAMETER_SET"
  unfolding Tss2_MU_TPMS_ML_PARAMETER_SET_Unmarshal_def
  by (rule strict_unmarshaler_cong [OF strict_unmarshaler_TPMS_1 [OF mu_UINT32.strict_unmarshaler_axioms, of TPMS_ML_PARAMETER_SET_identifier TPMS_ML_PARAMETER_SET_identifier_update]])
    (simp_all add: wt_TPMS_ML_PARAMETER_SET_def valid_TPMS_ML_PARAMETER_SET_def wire_TPMS_ML_PARAMETER_SET_def)

interpretation mu_TPMS_ML_PARAMETER_SET: codec "\<lambda>s. Tss2_MU_TPMS_ML_PARAMETER_SET_Marshal (Some s)"
  "src_TPMS_ML_PARAMETER_SET" "valid_TPMS_ML_PARAMETER_SET" "wire_TPMS_ML_PARAMETER_SET" "4" Tss2_MU_TPMS_ML_PARAMETER_SET_Unmarshal "wt_TPMS_ML_PARAMETER_SET" "valid_TPMS_ML_PARAMETER_SET"
  by (rule codecI [OF marshaler_TPMS_ML_PARAMETER_SET unmarshaler_TPMS_ML_PARAMETER_SET])

definition Tss2_MU_TPMS_MLKEM_PARMS_Marshal :: "TPMS_MLKEM_PARMS option mfun" where
  "Tss2_MU_TPMS_MLKEM_PARMS_Marshal = TPMS_MARSHAL_2
     (VAL TPMS_MLKEM_PARMS_nameAlg Tss2_MU_UINT16_Marshal)
     (ADDR TPMS_MLKEM_PARMS_parameterSet Tss2_MU_TPMS_ML_PARAMETER_SET_Marshal)"

definition Tss2_MU_TPMS_MLKEM_PARMS_Unmarshal :: "TPMS_MLKEM_PARMS ufun" where
  "Tss2_MU_TPMS_MLKEM_PARMS_Unmarshal = TPMS_UNMARSHAL_2 zero_TPMS_MLKEM_PARMS
     TPMS_MLKEM_PARMS_nameAlg TPMS_MLKEM_PARMS_nameAlg_update Tss2_MU_UINT16_Unmarshal
     TPMS_MLKEM_PARMS_parameterSet TPMS_MLKEM_PARMS_parameterSet_update Tss2_MU_TPMS_ML_PARAMETER_SET_Unmarshal"

definition src_TPMS_MLKEM_PARMS :: "TPMS_MLKEM_PARMS \<Rightarrow> bool" where
  "src_TPMS_MLKEM_PARMS s \<longleftrightarrow> src_TPMS_ML_PARAMETER_SET (TPMS_MLKEM_PARMS_parameterSet s)"

definition valid_TPMS_MLKEM_PARMS :: "TPMS_MLKEM_PARMS \<Rightarrow> bool" where
  "valid_TPMS_MLKEM_PARMS s \<longleftrightarrow> valid_TPMS_ML_PARAMETER_SET (TPMS_MLKEM_PARMS_parameterSet s)"

definition wire_TPMS_MLKEM_PARMS :: "TPMS_MLKEM_PARMS \<Rightarrow> BYTE list" where
  "wire_TPMS_MLKEM_PARMS s = be_bytes (TPMS_MLKEM_PARMS_nameAlg s) @
     wire_TPMS_ML_PARAMETER_SET (TPMS_MLKEM_PARMS_parameterSet s)"

lemma marshaler_TPMS_MLKEM_PARMS:
  "marshaler (\<lambda>s. Tss2_MU_TPMS_MLKEM_PARMS_Marshal (Some s)) src_TPMS_MLKEM_PARMS valid_TPMS_MLKEM_PARMS wire_TPMS_MLKEM_PARMS 6"
  unfolding Tss2_MU_TPMS_MLKEM_PARMS_Marshal_def struct_marshal_defs
  by (rule marshaler_cong,
      (rule marshaler_Cons marshaler_Nil marshaler_VAL [OF mu_UINT16.marshaler_axioms]
        marshaler_ADDR [OF mu_TPMS_ML_PARAMETER_SET.marshaler_axioms])+)
    (simp_all add: src_TPMS_MLKEM_PARMS_def valid_TPMS_MLKEM_PARMS_def wire_TPMS_MLKEM_PARMS_def)

lemma unmarshaler_TPMS_MLKEM_PARMS:
  "strict_unmarshaler Tss2_MU_TPMS_MLKEM_PARMS_Unmarshal wt_TPMS_MLKEM_PARMS valid_TPMS_MLKEM_PARMS wire_TPMS_MLKEM_PARMS"
  unfolding Tss2_MU_TPMS_MLKEM_PARMS_Unmarshal_def struct_unmarshal_defs
  by (rule strict_unmarshaler_cong, rule strict_unmarshaler_struct,
      rule useq_ok_Cons,
      rule useq_ok_FLD(1) [OF mu_UINT16.strict_unmarshaler_axioms], simp,
      rule useq_ok_Cons,
      rule useq_ok_FLD(1) [OF mu_TPMS_ML_PARAMETER_SET.strict_unmarshaler_axioms], simp,
      rule useq_ok_Nil)
    (simp_all add: keeps_simps be_bytes_inject wt_TPMS_MLKEM_PARMS_def valid_TPMS_MLKEM_PARMS_def wire_TPMS_MLKEM_PARMS_def wt_zero_TPMS_MLKEM_PARMS [unfolded wt_TPMS_MLKEM_PARMS_def])

interpretation mu_TPMS_MLKEM_PARMS: codec "\<lambda>s. Tss2_MU_TPMS_MLKEM_PARMS_Marshal (Some s)"
  "src_TPMS_MLKEM_PARMS" "valid_TPMS_MLKEM_PARMS" "wire_TPMS_MLKEM_PARMS" "6" Tss2_MU_TPMS_MLKEM_PARMS_Unmarshal "wt_TPMS_MLKEM_PARMS" "valid_TPMS_MLKEM_PARMS"
  by (rule codecI [OF marshaler_TPMS_MLKEM_PARMS unmarshaler_TPMS_MLKEM_PARMS])

definition Tss2_MU_TPMS_MLDSA_PARMS_Marshal :: "TPMS_MLDSA_PARMS option mfun" where
  "Tss2_MU_TPMS_MLDSA_PARMS_Marshal = TPMS_MARSHAL_2
     (VAL TPMS_MLDSA_PARMS_nameAlg Tss2_MU_UINT16_Marshal)
     (ADDR TPMS_MLDSA_PARMS_parameterSet Tss2_MU_TPMS_ML_PARAMETER_SET_Marshal)"

definition Tss2_MU_TPMS_MLDSA_PARMS_Unmarshal :: "TPMS_MLDSA_PARMS ufun" where
  "Tss2_MU_TPMS_MLDSA_PARMS_Unmarshal = TPMS_UNMARSHAL_2 zero_TPMS_MLDSA_PARMS
     TPMS_MLDSA_PARMS_nameAlg TPMS_MLDSA_PARMS_nameAlg_update Tss2_MU_UINT16_Unmarshal
     TPMS_MLDSA_PARMS_parameterSet TPMS_MLDSA_PARMS_parameterSet_update Tss2_MU_TPMS_ML_PARAMETER_SET_Unmarshal"

definition src_TPMS_MLDSA_PARMS :: "TPMS_MLDSA_PARMS \<Rightarrow> bool" where
  "src_TPMS_MLDSA_PARMS s \<longleftrightarrow> src_TPMS_ML_PARAMETER_SET (TPMS_MLDSA_PARMS_parameterSet s)"

definition valid_TPMS_MLDSA_PARMS :: "TPMS_MLDSA_PARMS \<Rightarrow> bool" where
  "valid_TPMS_MLDSA_PARMS s \<longleftrightarrow> valid_TPMS_ML_PARAMETER_SET (TPMS_MLDSA_PARMS_parameterSet s)"

definition wire_TPMS_MLDSA_PARMS :: "TPMS_MLDSA_PARMS \<Rightarrow> BYTE list" where
  "wire_TPMS_MLDSA_PARMS s = be_bytes (TPMS_MLDSA_PARMS_nameAlg s) @
     wire_TPMS_ML_PARAMETER_SET (TPMS_MLDSA_PARMS_parameterSet s)"

lemma marshaler_TPMS_MLDSA_PARMS:
  "marshaler (\<lambda>s. Tss2_MU_TPMS_MLDSA_PARMS_Marshal (Some s)) src_TPMS_MLDSA_PARMS valid_TPMS_MLDSA_PARMS wire_TPMS_MLDSA_PARMS 6"
  unfolding Tss2_MU_TPMS_MLDSA_PARMS_Marshal_def struct_marshal_defs
  by (rule marshaler_cong,
      (rule marshaler_Cons marshaler_Nil marshaler_VAL [OF mu_UINT16.marshaler_axioms]
        marshaler_ADDR [OF mu_TPMS_ML_PARAMETER_SET.marshaler_axioms])+)
    (simp_all add: src_TPMS_MLDSA_PARMS_def valid_TPMS_MLDSA_PARMS_def wire_TPMS_MLDSA_PARMS_def)

lemma unmarshaler_TPMS_MLDSA_PARMS:
  "strict_unmarshaler Tss2_MU_TPMS_MLDSA_PARMS_Unmarshal wt_TPMS_MLDSA_PARMS valid_TPMS_MLDSA_PARMS wire_TPMS_MLDSA_PARMS"
  unfolding Tss2_MU_TPMS_MLDSA_PARMS_Unmarshal_def struct_unmarshal_defs
  by (rule strict_unmarshaler_cong, rule strict_unmarshaler_struct,
      rule useq_ok_Cons,
      rule useq_ok_FLD(1) [OF mu_UINT16.strict_unmarshaler_axioms], simp,
      rule useq_ok_Cons,
      rule useq_ok_FLD(1) [OF mu_TPMS_ML_PARAMETER_SET.strict_unmarshaler_axioms], simp,
      rule useq_ok_Nil)
    (simp_all add: keeps_simps be_bytes_inject wt_TPMS_MLDSA_PARMS_def valid_TPMS_MLDSA_PARMS_def wire_TPMS_MLDSA_PARMS_def wt_zero_TPMS_MLDSA_PARMS [unfolded wt_TPMS_MLDSA_PARMS_def])

interpretation mu_TPMS_MLDSA_PARMS: codec "\<lambda>s. Tss2_MU_TPMS_MLDSA_PARMS_Marshal (Some s)"
  "src_TPMS_MLDSA_PARMS" "valid_TPMS_MLDSA_PARMS" "wire_TPMS_MLDSA_PARMS" "6" Tss2_MU_TPMS_MLDSA_PARMS_Unmarshal "wt_TPMS_MLDSA_PARMS" "valid_TPMS_MLDSA_PARMS"
  by (rule codecI [OF marshaler_TPMS_MLDSA_PARMS unmarshaler_TPMS_MLDSA_PARMS])

definition Tss2_MU_TPMU_PUBLIC_PARMS_Marshal :: "TPMU_PUBLIC_PARMS option \<Rightarrow> UINT32 \<Rightarrow> buf option \<Rightarrow> size_t \<Rightarrow> size_t option \<Rightarrow> mres" where
  "Tss2_MU_TPMU_PUBLIC_PARMS_Marshal = TPMU_MARSHAL2
    [(ucast TPM2_ALG_KEYEDHASH, U_ADDR get_TPMU_PUBLIC_PARMS_keyedHashDetail Tss2_MU_TPMS_KEYEDHASH_PARMS_Marshal),
     (ucast TPM2_ALG_SYMCIPHER, U_ADDR get_TPMU_PUBLIC_PARMS_symDetail Tss2_MU_TPMS_SYMCIPHER_PARMS_Marshal),
     (ucast TPM2_ALG_RSA, U_ADDR get_TPMU_PUBLIC_PARMS_rsaDetail Tss2_MU_TPMS_RSA_PARMS_Marshal),
     (ucast TPM2_ALG_ECC, U_ADDR get_TPMU_PUBLIC_PARMS_eccDetail Tss2_MU_TPMS_ECC_PARMS_Marshal),
     (ucast TPM2_ALG_MLKEM, U_ADDR get_TPMU_PUBLIC_PARMS_mlkemDetail Tss2_MU_TPMS_MLKEM_PARMS_Marshal),
     (ucast TPM2_ALG_MLDSA, U_ADDR get_TPMU_PUBLIC_PARMS_mldsaDetail Tss2_MU_TPMS_MLDSA_PARMS_Marshal)]"

definition Tss2_MU_TPMU_PUBLIC_PARMS_Unmarshal :: "buf option \<Rightarrow> size_t \<Rightarrow> size_t option \<Rightarrow> UINT32 \<Rightarrow> TPMU_PUBLIC_PARMS option \<Rightarrow> TPMU_PUBLIC_PARMS ures" where
  "Tss2_MU_TPMU_PUBLIC_PARMS_Unmarshal = TPMU_UNMARSHAL2
    [(ucast TPM2_ALG_KEYEDHASH, U_MEM get_TPMU_PUBLIC_PARMS_keyedHashDetail TPMU_PUBLIC_PARMS_keyedHashDetail zero_TPMS_KEYEDHASH_PARMS Tss2_MU_TPMS_KEYEDHASH_PARMS_Unmarshal),
     (ucast TPM2_ALG_SYMCIPHER, U_MEM get_TPMU_PUBLIC_PARMS_symDetail TPMU_PUBLIC_PARMS_symDetail zero_TPMS_SYMCIPHER_PARMS Tss2_MU_TPMS_SYMCIPHER_PARMS_Unmarshal),
     (ucast TPM2_ALG_RSA, U_MEM get_TPMU_PUBLIC_PARMS_rsaDetail TPMU_PUBLIC_PARMS_rsaDetail zero_TPMS_RSA_PARMS Tss2_MU_TPMS_RSA_PARMS_Unmarshal),
     (ucast TPM2_ALG_ECC, U_MEM get_TPMU_PUBLIC_PARMS_eccDetail TPMU_PUBLIC_PARMS_eccDetail zero_TPMS_ECC_PARMS Tss2_MU_TPMS_ECC_PARMS_Unmarshal),
     (ucast TPM2_ALG_MLKEM, U_MEM get_TPMU_PUBLIC_PARMS_mlkemDetail TPMU_PUBLIC_PARMS_mlkemDetail zero_TPMS_MLKEM_PARMS Tss2_MU_TPMS_MLKEM_PARMS_Unmarshal),
     (ucast TPM2_ALG_MLDSA, U_MEM get_TPMU_PUBLIC_PARMS_mldsaDetail TPMU_PUBLIC_PARMS_mldsaDetail zero_TPMS_MLDSA_PARMS Tss2_MU_TPMS_MLDSA_PARMS_Unmarshal)]"

definition spec_TPMU_PUBLIC_PARMS :: "(UINT32 \<times> TPMU_PUBLIC_PARMS mspec) list" where
  "spec_TPMU_PUBLIC_PARMS =
    [(ucast TPM2_ALG_KEYEDHASH, member_spec get_TPMU_PUBLIC_PARMS_keyedHashDetail src_TPMS_KEYEDHASH_PARMS valid_TPMS_KEYEDHASH_PARMS wire_TPMS_KEYEDHASH_PARMS),
     (ucast TPM2_ALG_SYMCIPHER, member_spec get_TPMU_PUBLIC_PARMS_symDetail src_TPMS_SYMCIPHER_PARMS valid_TPMS_SYMCIPHER_PARMS wire_TPMS_SYMCIPHER_PARMS),
     (ucast TPM2_ALG_RSA, member_spec get_TPMU_PUBLIC_PARMS_rsaDetail src_TPMS_RSA_PARMS valid_TPMS_RSA_PARMS wire_TPMS_RSA_PARMS),
     (ucast TPM2_ALG_ECC, member_spec get_TPMU_PUBLIC_PARMS_eccDetail src_TPMS_ECC_PARMS valid_TPMS_ECC_PARMS wire_TPMS_ECC_PARMS),
     (ucast TPM2_ALG_MLKEM, member_spec get_TPMU_PUBLIC_PARMS_mlkemDetail src_TPMS_MLKEM_PARMS valid_TPMS_MLKEM_PARMS wire_TPMS_MLKEM_PARMS),
     (ucast TPM2_ALG_MLDSA, member_spec get_TPMU_PUBLIC_PARMS_mldsaDetail src_TPMS_MLDSA_PARMS valid_TPMS_MLDSA_PARMS wire_TPMS_MLDSA_PARMS)]"

abbreviation "src_TPMU_PUBLIC_PARMS \<equiv> src_union spec_TPMU_PUBLIC_PARMS"
abbreviation "valid_TPMU_PUBLIC_PARMS \<equiv> valid_union spec_TPMU_PUBLIC_PARMS"
abbreviation "wire_TPMU_PUBLIC_PARMS \<equiv> wire_union spec_TPMU_PUBLIC_PARMS"

lemma marshaler_TPMU_PUBLIC_PARMS:
  "marshaler (\<lambda>u. Tss2_MU_TPMU_PUBLIC_PARMS_Marshal (Some u) k) (src_TPMU_PUBLIC_PARMS k) (valid_TPMU_PUBLIC_PARMS k) (wire_TPMU_PUBLIC_PARMS k) 18"
  unfolding Tss2_MU_TPMU_PUBLIC_PARMS_Marshal_def spec_TPMU_PUBLIC_PARMS_def
  by (rule marshaler_TPMU, simp only: entry_rel_simps, intro conjI refl TrueI
      marshals_ADDR [OF mu_TPMS_KEYEDHASH_PARMS.marshaler_axioms]
      marshals_ADDR [OF mu_TPMS_SYMCIPHER_PARMS.marshaler_axioms]
      marshals_ADDR [OF mu_TPMS_RSA_PARMS.marshaler_axioms]
      marshals_ADDR [OF mu_TPMS_ECC_PARMS.marshaler_axioms]
      marshals_ADDR [OF mu_TPMS_MLKEM_PARMS.marshaler_axioms]
      marshals_ADDR [OF mu_TPMS_MLDSA_PARMS.marshaler_axioms])
    (simp_all add: get_TPMU_PUBLIC_PARMS)

lemma unmarshaler_TPMU_PUBLIC_PARMS:
  "strict_unmarshaler (\<lambda>b bs off. Tss2_MU_TPMU_PUBLIC_PARMS_Unmarshal b bs off k) wt_TPMU_PUBLIC_PARMS (valid_TPMU_PUBLIC_PARMS k) (wire_TPMU_PUBLIC_PARMS k)"
  unfolding Tss2_MU_TPMU_PUBLIC_PARMS_Unmarshal_def spec_TPMU_PUBLIC_PARMS_def
  by (rule strict_unmarshaler_TPMU, simp only: entry_rel_simps, intro conjI refl TrueI
      unmarshals_MEM [OF mu_TPMS_KEYEDHASH_PARMS.strict_unmarshaler_axioms]
      unmarshals_MEM [OF mu_TPMS_SYMCIPHER_PARMS.strict_unmarshaler_axioms]
      unmarshals_MEM [OF mu_TPMS_RSA_PARMS.strict_unmarshaler_axioms]
      unmarshals_MEM [OF mu_TPMS_ECC_PARMS.strict_unmarshaler_axioms]
      unmarshals_MEM [OF mu_TPMS_MLKEM_PARMS.strict_unmarshaler_axioms]
      unmarshals_MEM [OF mu_TPMS_MLDSA_PARMS.strict_unmarshaler_axioms])
    (simp_all add: get_TPMU_PUBLIC_PARMS)

interpretation mu_TPMU_PUBLIC_PARMS: codec "\<lambda>u. Tss2_MU_TPMU_PUBLIC_PARMS_Marshal (Some u) k" "src_TPMU_PUBLIC_PARMS k" "valid_TPMU_PUBLIC_PARMS k" "wire_TPMU_PUBLIC_PARMS k" "18"
  "\<lambda>b bs off. Tss2_MU_TPMU_PUBLIC_PARMS_Unmarshal b bs off k" wt_TPMU_PUBLIC_PARMS "valid_TPMU_PUBLIC_PARMS k" for k
  by (rule codecI [OF marshaler_TPMU_PUBLIC_PARMS unmarshaler_TPMU_PUBLIC_PARMS])

definition Tss2_MU_TPMU_PUBLIC_ID_Marshal :: "TPMU_PUBLIC_ID option \<Rightarrow> UINT32 \<Rightarrow> buf option \<Rightarrow> size_t \<Rightarrow> size_t option \<Rightarrow> mres" where
  "Tss2_MU_TPMU_PUBLIC_ID_Marshal = TPMU_MARSHAL2
    [(ucast TPM2_ALG_KEYEDHASH, U_ADDR get_TPMU_PUBLIC_ID_keyedHash Tss2_MU_TPM2B_DIGEST_Marshal),
     (ucast TPM2_ALG_SYMCIPHER, U_ADDR get_TPMU_PUBLIC_ID_sym Tss2_MU_TPM2B_DIGEST_Marshal),
     (ucast TPM2_ALG_RSA, U_ADDR get_TPMU_PUBLIC_ID_rsa Tss2_MU_TPM2B_PUBLIC_KEY_RSA_Marshal),
     (ucast TPM2_ALG_ECC, U_ADDR get_TPMU_PUBLIC_ID_ecc Tss2_MU_TPMS_ECC_POINT_Marshal),
     (ucast TPM2_ALG_MLKEM, U_ADDR get_TPMU_PUBLIC_ID_mlkem Tss2_MU_TPM2B_MLKEM_PUBLIC_KEY_Marshal),
     (ucast TPM2_ALG_MLDSA, U_ADDR get_TPMU_PUBLIC_ID_mldsa Tss2_MU_TPM2B_MLDSA_PUBLIC_KEY_Marshal)]"

definition Tss2_MU_TPMU_PUBLIC_ID_Unmarshal :: "buf option \<Rightarrow> size_t \<Rightarrow> size_t option \<Rightarrow> UINT32 \<Rightarrow> TPMU_PUBLIC_ID option \<Rightarrow> TPMU_PUBLIC_ID ures" where
  "Tss2_MU_TPMU_PUBLIC_ID_Unmarshal = TPMU_UNMARSHAL2
    [(ucast TPM2_ALG_KEYEDHASH, U_MEM get_TPMU_PUBLIC_ID_keyedHash TPMU_PUBLIC_ID_keyedHash (zero_TPM2B 64) Tss2_MU_TPM2B_DIGEST_Unmarshal),
     (ucast TPM2_ALG_SYMCIPHER, U_MEM get_TPMU_PUBLIC_ID_sym TPMU_PUBLIC_ID_sym (zero_TPM2B 64) Tss2_MU_TPM2B_DIGEST_Unmarshal),
     (ucast TPM2_ALG_RSA, U_MEM get_TPMU_PUBLIC_ID_rsa TPMU_PUBLIC_ID_rsa (zero_TPM2B 512) Tss2_MU_TPM2B_PUBLIC_KEY_RSA_Unmarshal),
     (ucast TPM2_ALG_ECC, U_MEM get_TPMU_PUBLIC_ID_ecc TPMU_PUBLIC_ID_ecc zero_TPMS_ECC_POINT Tss2_MU_TPMS_ECC_POINT_Unmarshal),
     (ucast TPM2_ALG_MLKEM, U_MEM get_TPMU_PUBLIC_ID_mlkem TPMU_PUBLIC_ID_mlkem (zero_TPM2B 1568) Tss2_MU_TPM2B_MLKEM_PUBLIC_KEY_Unmarshal),
     (ucast TPM2_ALG_MLDSA, U_MEM get_TPMU_PUBLIC_ID_mldsa TPMU_PUBLIC_ID_mldsa (zero_TPM2B 2592) Tss2_MU_TPM2B_MLDSA_PUBLIC_KEY_Unmarshal)]"

definition spec_TPMU_PUBLIC_ID :: "(UINT32 \<times> TPMU_PUBLIC_ID mspec) list" where
  "spec_TPMU_PUBLIC_ID =
    [(ucast TPM2_ALG_KEYEDHASH, member_spec get_TPMU_PUBLIC_ID_keyedHash (src_TPM2B 66 64) (valid_TPM2B 64) wire_TPM2B),
     (ucast TPM2_ALG_SYMCIPHER, member_spec get_TPMU_PUBLIC_ID_sym (src_TPM2B 66 64) (valid_TPM2B 64) wire_TPM2B),
     (ucast TPM2_ALG_RSA, member_spec get_TPMU_PUBLIC_ID_rsa (src_TPM2B 514 512) (valid_TPM2B 512) wire_TPM2B),
     (ucast TPM2_ALG_ECC, member_spec get_TPMU_PUBLIC_ID_ecc src_TPMS_ECC_POINT valid_TPMS_ECC_POINT wire_TPMS_ECC_POINT),
     (ucast TPM2_ALG_MLKEM, member_spec get_TPMU_PUBLIC_ID_mlkem (src_TPM2B 1570 1568) (valid_TPM2B 1568) wire_TPM2B),
     (ucast TPM2_ALG_MLDSA, member_spec get_TPMU_PUBLIC_ID_mldsa (src_TPM2B 2594 2592) (valid_TPM2B 2592) wire_TPM2B)]"

abbreviation "src_TPMU_PUBLIC_ID \<equiv> src_union spec_TPMU_PUBLIC_ID"
abbreviation "valid_TPMU_PUBLIC_ID \<equiv> valid_union spec_TPMU_PUBLIC_ID"
abbreviation "wire_TPMU_PUBLIC_ID \<equiv> wire_union spec_TPMU_PUBLIC_ID"

lemma marshaler_TPMU_PUBLIC_ID:
  "marshaler (\<lambda>u. Tss2_MU_TPMU_PUBLIC_ID_Marshal (Some u) k) (src_TPMU_PUBLIC_ID k) (valid_TPMU_PUBLIC_ID k) (wire_TPMU_PUBLIC_ID k) 2594"
  unfolding Tss2_MU_TPMU_PUBLIC_ID_Marshal_def spec_TPMU_PUBLIC_ID_def
  by (rule marshaler_TPMU, simp only: entry_rel_simps, intro conjI refl TrueI
      marshals_ADDR [OF mu_TPM2B_DIGEST.marshaler_axioms]
      marshals_ADDR [OF mu_TPM2B_PUBLIC_KEY_RSA.marshaler_axioms]
      marshals_ADDR [OF mu_TPMS_ECC_POINT.marshaler_axioms]
      marshals_ADDR [OF mu_TPM2B_MLKEM_PUBLIC_KEY.marshaler_axioms]
      marshals_ADDR [OF mu_TPM2B_MLDSA_PUBLIC_KEY.marshaler_axioms])
    (simp_all add: get_TPMU_PUBLIC_ID)

lemma unmarshaler_TPMU_PUBLIC_ID:
  "strict_unmarshaler (\<lambda>b bs off. Tss2_MU_TPMU_PUBLIC_ID_Unmarshal b bs off k) wt_TPMU_PUBLIC_ID (valid_TPMU_PUBLIC_ID k) (wire_TPMU_PUBLIC_ID k)"
  unfolding Tss2_MU_TPMU_PUBLIC_ID_Unmarshal_def spec_TPMU_PUBLIC_ID_def
  by (rule strict_unmarshaler_TPMU, simp only: entry_rel_simps, intro conjI refl TrueI
      unmarshals_MEM [OF mu_TPM2B_DIGEST.strict_unmarshaler_axioms]
      unmarshals_MEM [OF mu_TPM2B_PUBLIC_KEY_RSA.strict_unmarshaler_axioms]
      unmarshals_MEM [OF mu_TPMS_ECC_POINT.strict_unmarshaler_axioms]
      unmarshals_MEM [OF mu_TPM2B_MLKEM_PUBLIC_KEY.strict_unmarshaler_axioms]
      unmarshals_MEM [OF mu_TPM2B_MLDSA_PUBLIC_KEY.strict_unmarshaler_axioms])
    (simp_all add: get_TPMU_PUBLIC_ID)

interpretation mu_TPMU_PUBLIC_ID: codec "\<lambda>u. Tss2_MU_TPMU_PUBLIC_ID_Marshal (Some u) k" "src_TPMU_PUBLIC_ID k" "valid_TPMU_PUBLIC_ID k" "wire_TPMU_PUBLIC_ID k" "2594"
  "\<lambda>b bs off. Tss2_MU_TPMU_PUBLIC_ID_Unmarshal b bs off k" wt_TPMU_PUBLIC_ID "valid_TPMU_PUBLIC_ID k" for k
  by (rule codecI [OF marshaler_TPMU_PUBLIC_ID unmarshaler_TPMU_PUBLIC_ID])

definition Tss2_MU_TPMT_PUBLIC_Marshal :: "TPMT_PUBLIC option mfun" where
  "Tss2_MU_TPMT_PUBLIC_Marshal = TPMT_MARSHAL_6
     (VAL TPMT_PUBLIC_type Tss2_MU_UINT16_Marshal)
     (VAL TPMT_PUBLIC_nameAlg Tss2_MU_UINT16_Marshal)
     (VAL TPMT_PUBLIC_objectAttributes Tss2_MU_TPMA_OBJECT_Marshal)
     (ADDR TPMT_PUBLIC_authPolicy Tss2_MU_TPM2B_DIGEST_Marshal)
     (ADDR_SEL (\<lambda>s. ucast (TPMT_PUBLIC_type s)) TPMT_PUBLIC_parameters Tss2_MU_TPMU_PUBLIC_PARMS_Marshal)
     (ADDR_SEL (\<lambda>s. ucast (TPMT_PUBLIC_type s)) TPMT_PUBLIC_unique Tss2_MU_TPMU_PUBLIC_ID_Marshal)"

definition Tss2_MU_TPMT_PUBLIC_Unmarshal :: "TPMT_PUBLIC ufun" where
  "Tss2_MU_TPMT_PUBLIC_Unmarshal = TPMT_UNMARSHAL_6 zero_TPMT_PUBLIC
     TPMT_PUBLIC_type TPMT_PUBLIC_type_update Tss2_MU_UINT16_Unmarshal
     TPMT_PUBLIC_nameAlg TPMT_PUBLIC_nameAlg_update Tss2_MU_UINT16_Unmarshal
     TPMT_PUBLIC_objectAttributes TPMT_PUBLIC_objectAttributes_update Tss2_MU_TPMA_OBJECT_Unmarshal
     TPMT_PUBLIC_authPolicy TPMT_PUBLIC_authPolicy_update Tss2_MU_TPM2B_DIGEST_Unmarshal
     TPMT_PUBLIC_parameters TPMT_PUBLIC_parameters_update (\<lambda>s. ucast (TPMT_PUBLIC_type s)) Tss2_MU_TPMU_PUBLIC_PARMS_Unmarshal
     TPMT_PUBLIC_unique TPMT_PUBLIC_unique_update (\<lambda>s. ucast (TPMT_PUBLIC_type s)) Tss2_MU_TPMU_PUBLIC_ID_Unmarshal"

definition src_TPMT_PUBLIC :: "TPMT_PUBLIC \<Rightarrow> bool" where
  "src_TPMT_PUBLIC s \<longleftrightarrow> (src_TPM2B 66 64) (TPMT_PUBLIC_authPolicy s) \<and>
     src_TPMU_PUBLIC_PARMS (ucast (TPMT_PUBLIC_type s)) (TPMT_PUBLIC_parameters s) \<and>
     src_TPMU_PUBLIC_ID (ucast (TPMT_PUBLIC_type s)) (TPMT_PUBLIC_unique s)"

definition valid_TPMT_PUBLIC :: "TPMT_PUBLIC \<Rightarrow> bool" where
  "valid_TPMT_PUBLIC s \<longleftrightarrow> (valid_TPM2B 64) (TPMT_PUBLIC_authPolicy s) \<and>
     valid_TPMU_PUBLIC_PARMS (ucast (TPMT_PUBLIC_type s)) (TPMT_PUBLIC_parameters s) \<and>
     valid_TPMU_PUBLIC_ID (ucast (TPMT_PUBLIC_type s)) (TPMT_PUBLIC_unique s)"

definition wire_TPMT_PUBLIC :: "TPMT_PUBLIC \<Rightarrow> BYTE list" where
  "wire_TPMT_PUBLIC s = be_bytes (TPMT_PUBLIC_type s) @
     be_bytes (TPMT_PUBLIC_nameAlg s) @
     be_bytes (TPMT_PUBLIC_objectAttributes s) @
     wire_TPM2B (TPMT_PUBLIC_authPolicy s) @
     wire_TPMU_PUBLIC_PARMS (ucast (TPMT_PUBLIC_type s)) (TPMT_PUBLIC_parameters s) @
     wire_TPMU_PUBLIC_ID (ucast (TPMT_PUBLIC_type s)) (TPMT_PUBLIC_unique s)"

lemma marshaler_TPMT_PUBLIC:
  "marshaler (\<lambda>s. Tss2_MU_TPMT_PUBLIC_Marshal (Some s)) src_TPMT_PUBLIC valid_TPMT_PUBLIC wire_TPMT_PUBLIC 2686"
  unfolding Tss2_MU_TPMT_PUBLIC_Marshal_def struct_marshal_defs
  by (rule marshaler_cong,
      (rule marshaler_Cons marshaler_Nil marshaler_VAL [OF mu_UINT16.marshaler_axioms]
        marshaler_VAL [OF mu_TPMA_OBJECT.marshaler_axioms]
        marshaler_ADDR [OF mu_TPM2B_DIGEST.marshaler_axioms]
        marshaler_ADDR_SEL [OF marshaler_TPMU_PUBLIC_PARMS]
        marshaler_ADDR_SEL [OF marshaler_TPMU_PUBLIC_ID])+)
    (simp_all add: src_TPMT_PUBLIC_def valid_TPMT_PUBLIC_def wire_TPMT_PUBLIC_def)

lemma unmarshaler_TPMT_PUBLIC:
  "strict_unmarshaler Tss2_MU_TPMT_PUBLIC_Unmarshal wt_TPMT_PUBLIC valid_TPMT_PUBLIC wire_TPMT_PUBLIC"
  unfolding Tss2_MU_TPMT_PUBLIC_Unmarshal_def struct_unmarshal_defs
  by (rule strict_unmarshaler_cong, rule strict_unmarshaler_struct,
      rule useq_ok_Cons_sel [where sel = "\<lambda>s. ucast (TPMT_PUBLIC_type s)"],
      rule useq_ok_FLD(2) [OF mu_UINT16.strict_unmarshaler_axioms], simp,
      rule useq_ok_Cons,
      rule useq_ok_FLD(2) [OF mu_UINT16.strict_unmarshaler_axioms], simp,
      rule useq_ok_Cons,
      rule useq_ok_FLD(2) [OF mu_TPMA_OBJECT.strict_unmarshaler_axioms], simp,
      rule useq_ok_Cons,
      rule useq_ok_FLD(2) [OF mu_TPM2B_DIGEST.strict_unmarshaler_axioms], simp,
      rule useq_ok_Cons,
      rule useq_ok_UNI(1) [OF unmarshaler_TPMU_PUBLIC_PARMS], simp, simp,
      rule useq_ok_Cons,
      rule useq_ok_UNI(1) [OF unmarshaler_TPMU_PUBLIC_ID], simp, simp,
      rule useq_ok_Nil)
    (simp_all add: keeps_simps be_bytes_inject wt_TPMT_PUBLIC_def valid_TPMT_PUBLIC_def wire_TPMT_PUBLIC_def wt_zero_TPMT_PUBLIC [unfolded wt_TPMT_PUBLIC_def])

interpretation mu_TPMT_PUBLIC: codec "\<lambda>s. Tss2_MU_TPMT_PUBLIC_Marshal (Some s)"
  "src_TPMT_PUBLIC" "valid_TPMT_PUBLIC" "wire_TPMT_PUBLIC" "2686" Tss2_MU_TPMT_PUBLIC_Unmarshal "wt_TPMT_PUBLIC" "valid_TPMT_PUBLIC"
  by (rule codecI [OF marshaler_TPMT_PUBLIC unmarshaler_TPMT_PUBLIC])

definition Tss2_MU_TPM2B_PUBLIC_Marshal :: "TPM2B_PUBLIC option mfun" where
  "Tss2_MU_TPM2B_PUBLIC_Marshal = TPM2B_MARSHAL_SUBTYPE Tss2_MU_TPMT_PUBLIC_Marshal"

definition Tss2_MU_TPM2B_PUBLIC_Unmarshal :: "TPM2B_PUBLIC ufun" where
  "Tss2_MU_TPM2B_PUBLIC_Unmarshal = TPM2B_UNMARSHAL_SUBTYPE (sizeof ct_TPMT_PUBLIC) Tss2_MU_TPMT_PUBLIC_Unmarshal"

interpretation mu_TPM2B_PUBLIC: transport "\<lambda>s. Tss2_MU_TPM2B_PUBLIC_Marshal (Some s)"
  "(\<lambda>s. src_TPMT_PUBLIC (TPM2B_SUBTYPE_member s))" "(\<lambda>s. valid_TPMT_PUBLIC (TPM2B_SUBTYPE_member s))" "(wire_SUBTYPE wire_TPMT_PUBLIC)" "2688" Tss2_MU_TPM2B_PUBLIC_Unmarshal "(\<lambda>s. wt_TPMT_PUBLIC (TPM2B_SUBTYPE_member s))" "(\<lambda>s. valid_TPMT_PUBLIC (TPM2B_SUBTYPE_member s))"
  using transportI [OF marshaler_SUBTYPE [OF mu_TPMT_PUBLIC.marshaler_axioms]
      unmarshaler_SUBTYPE [OF mu_TPMT_PUBLIC.unmarshaler_axioms le_trans [OF mu_TPMT_PUBLIC.wire_le]], of 2692]
  by (simp add: Tss2_MU_TPM2B_PUBLIC_Marshal_def Tss2_MU_TPM2B_PUBLIC_Unmarshal_def)


end
