(* ===== verification/MU_Attest.thy ===== *)
theory MU_Attest
  imports MU_Objects
begin

text \<open>
  Attestation structures, authorisation areas, contexts and capability data.  For each type: its two functions as the macro
  invocation gives them, what a source, a valid value and its wire format are, and the
  interpretation of the codec interface by the functions.
\<close>

section \<open>TPM2_GENERATED\<close>

definition TPM2_GENERATED_Unmarshal :: "UINT32 ufun" where
  "TPM2_GENERATED_Unmarshal buffer buffer_size offset magic =
     (case Tss2_MU_UINT32_Unmarshal buffer buffer_size offset (Some 0) of
        Some (rc, offset', Some mymagic) \<Rightarrow>
          if rc \<noteq> TSS2_RC_SUCCESS then Some (rc, offset', magic)
          else if mymagic \<noteq> TPM2_GENERATED_VALUE then Some (TSS2_SYS_RC_BAD_VALUE, offset', magic)
          else Some (TSS2_RC_SUCCESS, offset', map_option (\<lambda>_. mymagic) magic)
      | _ \<Rightarrow> None)"

text \<open>
  With a wrong magic number the offset has already moved, so this helper is not an \<open>unmarshaler\<close>;
  as a step of a macro, whose offset is local, it is fine.
\<close>

lemma useq_ok_GENERATED:
  assumes get: "\<And>f r. get (upd f r) = f (get r)"
  shows "useq_ok sel [FLD get upd TPM2_GENERATED_Unmarshal] (\<lambda>_. True)
           (\<lambda>r. get r = TPM2_GENERATED_VALUE) (\<lambda>r. be_bytes (get r))"
  unfolding useq_ok_def
proof (intro allI impI)
  fix b :: buf and bs off :: size_t and r
  assume bs: "unat bs \<le> length b"
  let ?w = "word_of (rev (seg b (unat off) 4)) :: UINT32"
  have U: "Tss2_MU_UINT32_Unmarshal (Some b) bs (Some off) (Some 0) =
      (if fits bs off 4 then Some (0, Some (off + 4), Some ?w)
       else Some (TSS2_MU_RC_INSUFFICIENT_BUFFER, Some off, Some 0))"
    using BASE_UNMARSHAL_Some [where ?'a = 32, OF _ bs, of off 0] by (simp add: Tss2_MU_UINT32_Unmarshal_def)
  have h: "holds_at b bs off (be_bytes x) \<longleftrightarrow> fits bs off 4 \<and> ?w = x" for x :: UINT32
    using holds_at_be_bytes [where ?'a = 32, OF _ bs, of off x] by simp
  show "\<exists>ret off' r'. useq [FLD get upd TPM2_GENERATED_Unmarshal] (Some b) bs off True r = Some (ret, off', r') \<and>
      True \<and> (ret = 0 \<longrightarrow> get r' = TPM2_GENERATED_VALUE \<and> holds_at b bs off (be_bytes (get r')) \<and>
                off' = off + of_nat (length (be_bytes (get r')))) \<and>
      (\<forall>x. get x = TPM2_GENERATED_VALUE \<longrightarrow> sel r = sel x \<longrightarrow> holds_at b bs off (be_bytes (get x)) \<longrightarrow>
           ret = 0 \<and> be_bytes (get r') = be_bytes (get x))"
    by (cases "fits bs off 4"; cases "?w = TPM2_GENERATED_VALUE")
      (auto simp: FLD_def store_field_def TPM2_GENERATED_Unmarshal_def U h get)
qed

section \<open>Attestation and capabilities\<close>

definition Tss2_MU_TPMS_PCR_SELECT_Marshal :: "TPMS_PCR_SELECT option mfun" where
  "Tss2_MU_TPMS_PCR_SELECT_Marshal = TPMS_PCR_MARSHAL TPMS_PCR_SELECT_sizeofSelect TPMS_PCR_SELECT_pcrSelect
     [] TPM2_PCR_SELECT_MAX"

definition Tss2_MU_TPMS_PCR_SELECT_Unmarshal :: "TPMS_PCR_SELECT ufun" where
  "Tss2_MU_TPMS_PCR_SELECT_Unmarshal = TPMS_PCR_UNMARSHAL zero_TPMS_PCR_SELECT TPMS_PCR_SELECT_sizeofSelect TPMS_PCR_SELECT_sizeofSelect_update
     TPMS_PCR_SELECT_pcrSelect TPMS_PCR_SELECT_pcrSelect_update [] TPM2_PCR_SELECT_MAX"

definition src_TPMS_PCR_SELECT :: "TPMS_PCR_SELECT \<Rightarrow> bool" where
  "src_TPMS_PCR_SELECT s \<longleftrightarrow> length (TPMS_PCR_SELECT_pcrSelect s) = 4"

definition valid_TPMS_PCR_SELECT :: "TPMS_PCR_SELECT \<Rightarrow> bool" where
  "valid_TPMS_PCR_SELECT s \<longleftrightarrow> length (TPMS_PCR_SELECT_pcrSelect s) = 4 \<and> unat (TPMS_PCR_SELECT_sizeofSelect s) \<le> 4"

definition wire_TPMS_PCR_SELECT :: "TPMS_PCR_SELECT \<Rightarrow> BYTE list" where
  "wire_TPMS_PCR_SELECT s = [TPMS_PCR_SELECT_sizeofSelect s] @ take (unat (TPMS_PCR_SELECT_sizeofSelect s)) (TPMS_PCR_SELECT_pcrSelect s)"

lemma marshaler_TPMS_PCR_SELECT:
  "marshaler (\<lambda>s. Tss2_MU_TPMS_PCR_SELECT_Marshal (Some s)) src_TPMS_PCR_SELECT valid_TPMS_PCR_SELECT wire_TPMS_PCR_SELECT 5"
  unfolding Tss2_MU_TPMS_PCR_SELECT_Marshal_def
  by (rule marshaler_cong, rule marshaler_PCR, unfold append.simps,
      (rule marshaler_Cons marshaler_Nil marshaler_VAL [OF mu_UINT8.marshaler_axioms])+)
    (simp_all add: src_TPMS_PCR_SELECT_def valid_TPMS_PCR_SELECT_def wire_TPMS_PCR_SELECT_def)

lemma unmarshaler_TPMS_PCR_SELECT:
  "strict_unmarshaler Tss2_MU_TPMS_PCR_SELECT_Unmarshal wt_TPMS_PCR_SELECT valid_TPMS_PCR_SELECT wire_TPMS_PCR_SELECT"
  unfolding Tss2_MU_TPMS_PCR_SELECT_Unmarshal_def
  by (rule strict_unmarshaler_cong, rule strict_unmarshaler_PCR, unfold append.simps,
      rule useq_ok_Cons, rule useq_ok_FLD(2) [OF mu_UINT8.strict_unmarshaler_axioms], simp, rule useq_ok_Nil)
    (simp_all add: keeps_simps wt_TPMS_PCR_SELECT_def valid_TPMS_PCR_SELECT_def wire_TPMS_PCR_SELECT_def wt_zero_TPMS_PCR_SELECT [unfolded wt_TPMS_PCR_SELECT_def]
      append_eq_append_conv)

interpretation mu_TPMS_PCR_SELECT: codec "\<lambda>s. Tss2_MU_TPMS_PCR_SELECT_Marshal (Some s)"
  "src_TPMS_PCR_SELECT" "valid_TPMS_PCR_SELECT" "wire_TPMS_PCR_SELECT" "5" Tss2_MU_TPMS_PCR_SELECT_Unmarshal "wt_TPMS_PCR_SELECT" "valid_TPMS_PCR_SELECT"
  by (rule codecI [OF marshaler_TPMS_PCR_SELECT unmarshaler_TPMS_PCR_SELECT])

definition Tss2_MU_TPMS_TAGGED_PCR_SELECT_Marshal :: "TPMS_TAGGED_PCR_SELECT option mfun" where
  "Tss2_MU_TPMS_TAGGED_PCR_SELECT_Marshal = TPMS_PCR_MARSHAL TPMS_TAGGED_PCR_SELECT_sizeofSelect TPMS_TAGGED_PCR_SELECT_pcrSelect
     [VAL TPMS_TAGGED_PCR_SELECT_tag Tss2_MU_UINT32_Marshal] TPM2_PCR_SELECT_MAX"

definition Tss2_MU_TPMS_TAGGED_PCR_SELECT_Unmarshal :: "TPMS_TAGGED_PCR_SELECT ufun" where
  "Tss2_MU_TPMS_TAGGED_PCR_SELECT_Unmarshal = TPMS_PCR_UNMARSHAL zero_TPMS_TAGGED_PCR_SELECT TPMS_TAGGED_PCR_SELECT_sizeofSelect TPMS_TAGGED_PCR_SELECT_sizeofSelect_update
     TPMS_TAGGED_PCR_SELECT_pcrSelect TPMS_TAGGED_PCR_SELECT_pcrSelect_update [FLD TPMS_TAGGED_PCR_SELECT_tag TPMS_TAGGED_PCR_SELECT_tag_update Tss2_MU_UINT32_Unmarshal] TPM2_PCR_SELECT_MAX"

definition src_TPMS_TAGGED_PCR_SELECT :: "TPMS_TAGGED_PCR_SELECT \<Rightarrow> bool" where
  "src_TPMS_TAGGED_PCR_SELECT s \<longleftrightarrow> length (TPMS_TAGGED_PCR_SELECT_pcrSelect s) = 4"

definition valid_TPMS_TAGGED_PCR_SELECT :: "TPMS_TAGGED_PCR_SELECT \<Rightarrow> bool" where
  "valid_TPMS_TAGGED_PCR_SELECT s \<longleftrightarrow> length (TPMS_TAGGED_PCR_SELECT_pcrSelect s) = 4 \<and> unat (TPMS_TAGGED_PCR_SELECT_sizeofSelect s) \<le> 4"

definition wire_TPMS_TAGGED_PCR_SELECT :: "TPMS_TAGGED_PCR_SELECT \<Rightarrow> BYTE list" where
  "wire_TPMS_TAGGED_PCR_SELECT s = be_bytes (TPMS_TAGGED_PCR_SELECT_tag s) @ [TPMS_TAGGED_PCR_SELECT_sizeofSelect s] @ take (unat (TPMS_TAGGED_PCR_SELECT_sizeofSelect s)) (TPMS_TAGGED_PCR_SELECT_pcrSelect s)"

lemma marshaler_TPMS_TAGGED_PCR_SELECT:
  "marshaler (\<lambda>s. Tss2_MU_TPMS_TAGGED_PCR_SELECT_Marshal (Some s)) src_TPMS_TAGGED_PCR_SELECT valid_TPMS_TAGGED_PCR_SELECT wire_TPMS_TAGGED_PCR_SELECT 9"
  unfolding Tss2_MU_TPMS_TAGGED_PCR_SELECT_Marshal_def
  by (rule marshaler_cong, rule marshaler_PCR, unfold append.simps,
      (rule marshaler_Cons marshaler_Nil marshaler_VAL [OF mu_UINT8.marshaler_axioms] marshaler_VAL [OF mu_UINT32.marshaler_axioms])+)
    (simp_all add: src_TPMS_TAGGED_PCR_SELECT_def valid_TPMS_TAGGED_PCR_SELECT_def wire_TPMS_TAGGED_PCR_SELECT_def)

lemma unmarshaler_TPMS_TAGGED_PCR_SELECT:
  "strict_unmarshaler Tss2_MU_TPMS_TAGGED_PCR_SELECT_Unmarshal wt_TPMS_TAGGED_PCR_SELECT valid_TPMS_TAGGED_PCR_SELECT wire_TPMS_TAGGED_PCR_SELECT"
  unfolding Tss2_MU_TPMS_TAGGED_PCR_SELECT_Unmarshal_def
  by (rule strict_unmarshaler_cong, rule strict_unmarshaler_PCR, unfold append.simps,
      rule useq_ok_Cons, rule useq_ok_FLD(1) [OF mu_UINT32.strict_unmarshaler_axioms], simp,
      rule useq_ok_Cons, rule useq_ok_FLD(2) [OF mu_UINT8.strict_unmarshaler_axioms], simp, rule useq_ok_Nil)
    (simp_all add: keeps_simps wt_TPMS_TAGGED_PCR_SELECT_def valid_TPMS_TAGGED_PCR_SELECT_def wire_TPMS_TAGGED_PCR_SELECT_def wt_zero_TPMS_TAGGED_PCR_SELECT [unfolded wt_TPMS_TAGGED_PCR_SELECT_def]
      append_eq_append_conv)

interpretation mu_TPMS_TAGGED_PCR_SELECT: codec "\<lambda>s. Tss2_MU_TPMS_TAGGED_PCR_SELECT_Marshal (Some s)"
  "src_TPMS_TAGGED_PCR_SELECT" "valid_TPMS_TAGGED_PCR_SELECT" "wire_TPMS_TAGGED_PCR_SELECT" "9" Tss2_MU_TPMS_TAGGED_PCR_SELECT_Unmarshal "wt_TPMS_TAGGED_PCR_SELECT" "valid_TPMS_TAGGED_PCR_SELECT"
  by (rule codecI [OF marshaler_TPMS_TAGGED_PCR_SELECT unmarshaler_TPMS_TAGGED_PCR_SELECT])

definition Tss2_MU_TPMS_ALG_PROPERTY_Marshal :: "TPMS_ALG_PROPERTY option mfun" where
  "Tss2_MU_TPMS_ALG_PROPERTY_Marshal = TPMS_MARSHAL_2
     (VAL TPMS_ALG_PROPERTY_alg Tss2_MU_UINT16_Marshal)
     (VAL TPMS_ALG_PROPERTY_algProperties Tss2_MU_TPMA_ALGORITHM_Marshal)"

definition Tss2_MU_TPMS_ALG_PROPERTY_Unmarshal :: "TPMS_ALG_PROPERTY ufun" where
  "Tss2_MU_TPMS_ALG_PROPERTY_Unmarshal = TPMS_UNMARSHAL_2 zero_TPMS_ALG_PROPERTY
     TPMS_ALG_PROPERTY_alg TPMS_ALG_PROPERTY_alg_update Tss2_MU_UINT16_Unmarshal
     TPMS_ALG_PROPERTY_algProperties TPMS_ALG_PROPERTY_algProperties_update Tss2_MU_TPMA_ALGORITHM_Unmarshal"

definition src_TPMS_ALG_PROPERTY :: "TPMS_ALG_PROPERTY \<Rightarrow> bool" where
  "src_TPMS_ALG_PROPERTY s \<longleftrightarrow> True"

definition valid_TPMS_ALG_PROPERTY :: "TPMS_ALG_PROPERTY \<Rightarrow> bool" where
  "valid_TPMS_ALG_PROPERTY s \<longleftrightarrow> True"

definition wire_TPMS_ALG_PROPERTY :: "TPMS_ALG_PROPERTY \<Rightarrow> BYTE list" where
  "wire_TPMS_ALG_PROPERTY s = be_bytes (TPMS_ALG_PROPERTY_alg s) @
     be_bytes (TPMS_ALG_PROPERTY_algProperties s)"

lemma marshaler_TPMS_ALG_PROPERTY:
  "marshaler (\<lambda>s. Tss2_MU_TPMS_ALG_PROPERTY_Marshal (Some s)) src_TPMS_ALG_PROPERTY valid_TPMS_ALG_PROPERTY wire_TPMS_ALG_PROPERTY 6"
  unfolding Tss2_MU_TPMS_ALG_PROPERTY_Marshal_def struct_marshal_defs
  by (rule marshaler_cong,
      (rule marshaler_Cons marshaler_Nil marshaler_VAL [OF mu_UINT16.marshaler_axioms]
        marshaler_VAL [OF mu_TPMA_ALGORITHM.marshaler_axioms])+)
    (simp_all add: src_TPMS_ALG_PROPERTY_def valid_TPMS_ALG_PROPERTY_def wire_TPMS_ALG_PROPERTY_def)

lemma unmarshaler_TPMS_ALG_PROPERTY:
  "strict_unmarshaler Tss2_MU_TPMS_ALG_PROPERTY_Unmarshal wt_TPMS_ALG_PROPERTY valid_TPMS_ALG_PROPERTY wire_TPMS_ALG_PROPERTY"
  unfolding Tss2_MU_TPMS_ALG_PROPERTY_Unmarshal_def struct_unmarshal_defs
  by (rule strict_unmarshaler_cong, rule strict_unmarshaler_struct,
      rule useq_ok_Cons,
      rule useq_ok_FLD(1) [OF mu_UINT16.strict_unmarshaler_axioms], simp,
      rule useq_ok_Cons,
      rule useq_ok_FLD(1) [OF mu_TPMA_ALGORITHM.strict_unmarshaler_axioms], simp,
      rule useq_ok_Nil)
    (simp_all add: keeps_simps be_bytes_inject wt_TPMS_ALG_PROPERTY_def valid_TPMS_ALG_PROPERTY_def wire_TPMS_ALG_PROPERTY_def wt_zero_TPMS_ALG_PROPERTY [unfolded wt_TPMS_ALG_PROPERTY_def])

interpretation mu_TPMS_ALG_PROPERTY: codec "\<lambda>s. Tss2_MU_TPMS_ALG_PROPERTY_Marshal (Some s)"
  "src_TPMS_ALG_PROPERTY" "valid_TPMS_ALG_PROPERTY" "wire_TPMS_ALG_PROPERTY" "6" Tss2_MU_TPMS_ALG_PROPERTY_Unmarshal "wt_TPMS_ALG_PROPERTY" "valid_TPMS_ALG_PROPERTY"
  by (rule codecI [OF marshaler_TPMS_ALG_PROPERTY unmarshaler_TPMS_ALG_PROPERTY])

definition Tss2_MU_TPMS_TAGGED_PROPERTY_Marshal :: "TPMS_TAGGED_PROPERTY option mfun" where
  "Tss2_MU_TPMS_TAGGED_PROPERTY_Marshal = TPMS_MARSHAL_2
     (VAL TPMS_TAGGED_PROPERTY_property Tss2_MU_UINT32_Marshal)
     (VAL TPMS_TAGGED_PROPERTY_value Tss2_MU_UINT32_Marshal)"

definition Tss2_MU_TPMS_TAGGED_PROPERTY_Unmarshal :: "TPMS_TAGGED_PROPERTY ufun" where
  "Tss2_MU_TPMS_TAGGED_PROPERTY_Unmarshal = TPMS_UNMARSHAL_2 zero_TPMS_TAGGED_PROPERTY
     TPMS_TAGGED_PROPERTY_property TPMS_TAGGED_PROPERTY_property_update Tss2_MU_UINT32_Unmarshal
     TPMS_TAGGED_PROPERTY_value TPMS_TAGGED_PROPERTY_value_update Tss2_MU_UINT32_Unmarshal"

definition src_TPMS_TAGGED_PROPERTY :: "TPMS_TAGGED_PROPERTY \<Rightarrow> bool" where
  "src_TPMS_TAGGED_PROPERTY s \<longleftrightarrow> True"

definition valid_TPMS_TAGGED_PROPERTY :: "TPMS_TAGGED_PROPERTY \<Rightarrow> bool" where
  "valid_TPMS_TAGGED_PROPERTY s \<longleftrightarrow> True"

definition wire_TPMS_TAGGED_PROPERTY :: "TPMS_TAGGED_PROPERTY \<Rightarrow> BYTE list" where
  "wire_TPMS_TAGGED_PROPERTY s = be_bytes (TPMS_TAGGED_PROPERTY_property s) @
     be_bytes (TPMS_TAGGED_PROPERTY_value s)"

lemma marshaler_TPMS_TAGGED_PROPERTY:
  "marshaler (\<lambda>s. Tss2_MU_TPMS_TAGGED_PROPERTY_Marshal (Some s)) src_TPMS_TAGGED_PROPERTY valid_TPMS_TAGGED_PROPERTY wire_TPMS_TAGGED_PROPERTY 8"
  unfolding Tss2_MU_TPMS_TAGGED_PROPERTY_Marshal_def struct_marshal_defs
  by (rule marshaler_cong,
      (rule marshaler_Cons marshaler_Nil marshaler_VAL [OF mu_UINT32.marshaler_axioms])+)
    (simp_all add: src_TPMS_TAGGED_PROPERTY_def valid_TPMS_TAGGED_PROPERTY_def wire_TPMS_TAGGED_PROPERTY_def)

lemma unmarshaler_TPMS_TAGGED_PROPERTY:
  "strict_unmarshaler Tss2_MU_TPMS_TAGGED_PROPERTY_Unmarshal wt_TPMS_TAGGED_PROPERTY valid_TPMS_TAGGED_PROPERTY wire_TPMS_TAGGED_PROPERTY"
  unfolding Tss2_MU_TPMS_TAGGED_PROPERTY_Unmarshal_def struct_unmarshal_defs
  by (rule strict_unmarshaler_cong, rule strict_unmarshaler_struct,
      rule useq_ok_Cons,
      rule useq_ok_FLD(1) [OF mu_UINT32.strict_unmarshaler_axioms], simp,
      rule useq_ok_Cons,
      rule useq_ok_FLD(1) [OF mu_UINT32.strict_unmarshaler_axioms], simp,
      rule useq_ok_Nil)
    (simp_all add: keeps_simps be_bytes_inject wt_TPMS_TAGGED_PROPERTY_def valid_TPMS_TAGGED_PROPERTY_def wire_TPMS_TAGGED_PROPERTY_def wt_zero_TPMS_TAGGED_PROPERTY [unfolded wt_TPMS_TAGGED_PROPERTY_def])

interpretation mu_TPMS_TAGGED_PROPERTY: codec "\<lambda>s. Tss2_MU_TPMS_TAGGED_PROPERTY_Marshal (Some s)"
  "src_TPMS_TAGGED_PROPERTY" "valid_TPMS_TAGGED_PROPERTY" "wire_TPMS_TAGGED_PROPERTY" "8" Tss2_MU_TPMS_TAGGED_PROPERTY_Unmarshal "wt_TPMS_TAGGED_PROPERTY" "valid_TPMS_TAGGED_PROPERTY"
  by (rule codecI [OF marshaler_TPMS_TAGGED_PROPERTY unmarshaler_TPMS_TAGGED_PROPERTY])

definition Tss2_MU_TPMU_HA_Marshal :: "TPMU_HA option \<Rightarrow> UINT32 \<Rightarrow> buf option \<Rightarrow> size_t \<Rightarrow> size_t option \<Rightarrow> mres" where
  "Tss2_MU_TPMU_HA_Marshal = TPMU_MARSHAL2
    [(ucast TPM2_ALG_SHA1, U_ADDR get_TPMU_HA_sha1 marshal_hash_sha),
     (ucast TPM2_ALG_SHA256, U_ADDR get_TPMU_HA_sha256 marshal_hash_sha256),
     (ucast TPM2_ALG_SHA384, U_ADDR get_TPMU_HA_sha384 marshal_hash_sha384),
     (ucast TPM2_ALG_SHA512, U_ADDR get_TPMU_HA_sha512 marshal_hash_sha512),
     (ucast TPM2_ALG_SM3_256, U_ADDR get_TPMU_HA_sm3_256 marshal_sm3_256)]"

definition Tss2_MU_TPMU_HA_Unmarshal :: "buf option \<Rightarrow> size_t \<Rightarrow> size_t option \<Rightarrow> UINT32 \<Rightarrow> TPMU_HA option \<Rightarrow> TPMU_HA ures" where
  "Tss2_MU_TPMU_HA_Unmarshal = TPMU_UNMARSHAL2
    [(ucast TPM2_ALG_SHA1, U_MEM get_TPMU_HA_sha1 TPMU_HA_sha1 (replicate 20 0) unmarshal_hash_sha),
     (ucast TPM2_ALG_SHA256, U_MEM get_TPMU_HA_sha256 TPMU_HA_sha256 (replicate 32 0) unmarshal_hash_sha256),
     (ucast TPM2_ALG_SHA384, U_MEM get_TPMU_HA_sha384 TPMU_HA_sha384 (replicate 48 0) unmarshal_hash_sha384),
     (ucast TPM2_ALG_SHA512, U_MEM get_TPMU_HA_sha512 TPMU_HA_sha512 (replicate 64 0) unmarshal_hash_sha512),
     (ucast TPM2_ALG_SM3_256, U_MEM get_TPMU_HA_sm3_256 TPMU_HA_sm3_256 (replicate 32 0) unmarshal_sm3_256)]"

definition spec_TPMU_HA :: "(UINT32 \<times> TPMU_HA mspec) list" where
  "spec_TPMU_HA =
    [(ucast TPM2_ALG_SHA1, member_spec get_TPMU_HA_sha1 (\<lambda>x. length x = 20) (\<lambda>x. length x = 20) (\<lambda>x. x)),
     (ucast TPM2_ALG_SHA256, member_spec get_TPMU_HA_sha256 (\<lambda>x. length x = 32) (\<lambda>x. length x = 32) (\<lambda>x. x)),
     (ucast TPM2_ALG_SHA384, member_spec get_TPMU_HA_sha384 (\<lambda>x. length x = 48) (\<lambda>x. length x = 48) (\<lambda>x. x)),
     (ucast TPM2_ALG_SHA512, member_spec get_TPMU_HA_sha512 (\<lambda>x. length x = 64) (\<lambda>x. length x = 64) (\<lambda>x. x)),
     (ucast TPM2_ALG_SM3_256, member_spec get_TPMU_HA_sm3_256 (\<lambda>x. length x = 32) (\<lambda>x. length x = 32) (\<lambda>x. x))]"

abbreviation "src_TPMU_HA \<equiv> src_union spec_TPMU_HA"
abbreviation "valid_TPMU_HA \<equiv> valid_union spec_TPMU_HA"
abbreviation "wire_TPMU_HA \<equiv> wire_union spec_TPMU_HA"

lemma marshaler_TPMU_HA:
  "marshaler (\<lambda>u. Tss2_MU_TPMU_HA_Marshal (Some u) k) (src_TPMU_HA k) (valid_TPMU_HA k) (wire_TPMU_HA k) 64"
  unfolding Tss2_MU_TPMU_HA_Marshal_def spec_TPMU_HA_def
  by (rule marshaler_TPMU, simp only: entry_rel_simps, intro conjI refl TrueI
      marshals_ADDR [OF marshaler_marshal_hash_sha]
      marshals_ADDR [OF marshaler_marshal_hash_sha256]
      marshals_ADDR [OF marshaler_marshal_hash_sha384]
      marshals_ADDR [OF marshaler_marshal_hash_sha512]
      marshals_ADDR [OF marshaler_marshal_sm3_256])
    (simp_all add: get_TPMU_HA)

lemma unmarshaler_TPMU_HA:
  "strict_unmarshaler (\<lambda>b bs off. Tss2_MU_TPMU_HA_Unmarshal b bs off k) wt_TPMU_HA (valid_TPMU_HA k) (wire_TPMU_HA k)"
  unfolding Tss2_MU_TPMU_HA_Unmarshal_def spec_TPMU_HA_def
  by (rule strict_unmarshaler_TPMU, simp only: entry_rel_simps, intro conjI refl TrueI
      unmarshals_MEM [OF unmarshaler_unmarshal_hash_sha]
      unmarshals_MEM [OF unmarshaler_unmarshal_hash_sha256]
      unmarshals_MEM [OF unmarshaler_unmarshal_hash_sha384]
      unmarshals_MEM [OF unmarshaler_unmarshal_hash_sha512]
      unmarshals_MEM [OF unmarshaler_unmarshal_sm3_256])
    (simp_all add: get_TPMU_HA)

interpretation mu_TPMU_HA: codec "\<lambda>u. Tss2_MU_TPMU_HA_Marshal (Some u) k" "src_TPMU_HA k" "valid_TPMU_HA k" "wire_TPMU_HA k" "64"
  "\<lambda>b bs off. Tss2_MU_TPMU_HA_Unmarshal b bs off k" wt_TPMU_HA "valid_TPMU_HA k" for k
  by (rule codecI [OF marshaler_TPMU_HA unmarshaler_TPMU_HA])

definition Tss2_MU_TPMT_HA_Marshal :: "TPMT_HA option mfun" where
  "Tss2_MU_TPMT_HA_Marshal = TPMT_MARSHAL_2
     (VAL TPMT_HA_hashAlg Tss2_MU_UINT16_Marshal)
     (ADDR_SEL (\<lambda>s. ucast (TPMT_HA_hashAlg s)) TPMT_HA_digest Tss2_MU_TPMU_HA_Marshal)"

definition Tss2_MU_TPMT_HA_Unmarshal :: "TPMT_HA ufun" where
  "Tss2_MU_TPMT_HA_Unmarshal = TPMT_UNMARSHAL_2 zero_TPMT_HA
     TPMT_HA_hashAlg TPMT_HA_hashAlg_update Tss2_MU_UINT16_Unmarshal
     TPMT_HA_digest TPMT_HA_digest_update (\<lambda>s. ucast (TPMT_HA_hashAlg s)) Tss2_MU_TPMU_HA_Unmarshal"

definition src_TPMT_HA :: "TPMT_HA \<Rightarrow> bool" where
  "src_TPMT_HA s \<longleftrightarrow> src_TPMU_HA (ucast (TPMT_HA_hashAlg s)) (TPMT_HA_digest s)"

definition valid_TPMT_HA :: "TPMT_HA \<Rightarrow> bool" where
  "valid_TPMT_HA s \<longleftrightarrow> valid_TPMU_HA (ucast (TPMT_HA_hashAlg s)) (TPMT_HA_digest s)"

definition wire_TPMT_HA :: "TPMT_HA \<Rightarrow> BYTE list" where
  "wire_TPMT_HA s = be_bytes (TPMT_HA_hashAlg s) @
     wire_TPMU_HA (ucast (TPMT_HA_hashAlg s)) (TPMT_HA_digest s)"

lemma marshaler_TPMT_HA:
  "marshaler (\<lambda>s. Tss2_MU_TPMT_HA_Marshal (Some s)) src_TPMT_HA valid_TPMT_HA wire_TPMT_HA 66"
  unfolding Tss2_MU_TPMT_HA_Marshal_def struct_marshal_defs
  by (rule marshaler_cong,
      (rule marshaler_Cons marshaler_Nil marshaler_VAL [OF mu_UINT16.marshaler_axioms]
        marshaler_ADDR_SEL [OF marshaler_TPMU_HA])+)
    (simp_all add: src_TPMT_HA_def valid_TPMT_HA_def wire_TPMT_HA_def)

lemma unmarshaler_TPMT_HA:
  "strict_unmarshaler Tss2_MU_TPMT_HA_Unmarshal wt_TPMT_HA valid_TPMT_HA wire_TPMT_HA"
  unfolding Tss2_MU_TPMT_HA_Unmarshal_def struct_unmarshal_defs
  by (rule strict_unmarshaler_cong, rule strict_unmarshaler_struct,
      rule useq_ok_Cons_sel [where sel = "\<lambda>s. ucast (TPMT_HA_hashAlg s)"],
      rule useq_ok_FLD(2) [OF mu_UINT16.strict_unmarshaler_axioms], simp,
      rule useq_ok_Cons,
      rule useq_ok_UNI(1) [OF unmarshaler_TPMU_HA], simp, simp,
      rule useq_ok_Nil)
    (simp_all add: keeps_simps be_bytes_inject wt_TPMT_HA_def valid_TPMT_HA_def wire_TPMT_HA_def wt_zero_TPMT_HA [unfolded wt_TPMT_HA_def])

interpretation mu_TPMT_HA: codec "\<lambda>s. Tss2_MU_TPMT_HA_Marshal (Some s)"
  "src_TPMT_HA" "valid_TPMT_HA" "wire_TPMT_HA" "66" Tss2_MU_TPMT_HA_Unmarshal "wt_TPMT_HA" "valid_TPMT_HA"
  by (rule codecI [OF marshaler_TPMT_HA unmarshaler_TPMT_HA])

definition Tss2_MU_TPMS_TAGGED_POLICY_Marshal :: "TPMS_TAGGED_POLICY option mfun" where
  "Tss2_MU_TPMS_TAGGED_POLICY_Marshal = TPMS_MARSHAL_2
     (VAL TPMS_TAGGED_POLICY_handle Tss2_MU_UINT32_Marshal)
     (ADDR TPMS_TAGGED_POLICY_policyHash Tss2_MU_TPMT_HA_Marshal)"

definition Tss2_MU_TPMS_TAGGED_POLICY_Unmarshal :: "TPMS_TAGGED_POLICY ufun" where
  "Tss2_MU_TPMS_TAGGED_POLICY_Unmarshal = TPMS_UNMARSHAL_2 zero_TPMS_TAGGED_POLICY
     TPMS_TAGGED_POLICY_handle TPMS_TAGGED_POLICY_handle_update Tss2_MU_UINT32_Unmarshal
     TPMS_TAGGED_POLICY_policyHash TPMS_TAGGED_POLICY_policyHash_update Tss2_MU_TPMT_HA_Unmarshal"

definition src_TPMS_TAGGED_POLICY :: "TPMS_TAGGED_POLICY \<Rightarrow> bool" where
  "src_TPMS_TAGGED_POLICY s \<longleftrightarrow> src_TPMT_HA (TPMS_TAGGED_POLICY_policyHash s)"

definition valid_TPMS_TAGGED_POLICY :: "TPMS_TAGGED_POLICY \<Rightarrow> bool" where
  "valid_TPMS_TAGGED_POLICY s \<longleftrightarrow> valid_TPMT_HA (TPMS_TAGGED_POLICY_policyHash s)"

definition wire_TPMS_TAGGED_POLICY :: "TPMS_TAGGED_POLICY \<Rightarrow> BYTE list" where
  "wire_TPMS_TAGGED_POLICY s = be_bytes (TPMS_TAGGED_POLICY_handle s) @
     wire_TPMT_HA (TPMS_TAGGED_POLICY_policyHash s)"

lemma marshaler_TPMS_TAGGED_POLICY:
  "marshaler (\<lambda>s. Tss2_MU_TPMS_TAGGED_POLICY_Marshal (Some s)) src_TPMS_TAGGED_POLICY valid_TPMS_TAGGED_POLICY wire_TPMS_TAGGED_POLICY 70"
  unfolding Tss2_MU_TPMS_TAGGED_POLICY_Marshal_def struct_marshal_defs
  by (rule marshaler_cong,
      (rule marshaler_Cons marshaler_Nil marshaler_VAL [OF mu_UINT32.marshaler_axioms]
        marshaler_ADDR [OF mu_TPMT_HA.marshaler_axioms])+)
    (simp_all add: src_TPMS_TAGGED_POLICY_def valid_TPMS_TAGGED_POLICY_def wire_TPMS_TAGGED_POLICY_def)

lemma unmarshaler_TPMS_TAGGED_POLICY:
  "strict_unmarshaler Tss2_MU_TPMS_TAGGED_POLICY_Unmarshal wt_TPMS_TAGGED_POLICY valid_TPMS_TAGGED_POLICY wire_TPMS_TAGGED_POLICY"
  unfolding Tss2_MU_TPMS_TAGGED_POLICY_Unmarshal_def struct_unmarshal_defs
  by (rule strict_unmarshaler_cong, rule strict_unmarshaler_struct,
      rule useq_ok_Cons,
      rule useq_ok_FLD(1) [OF mu_UINT32.strict_unmarshaler_axioms], simp,
      rule useq_ok_Cons,
      rule useq_ok_FLD(1) [OF mu_TPMT_HA.strict_unmarshaler_axioms], simp,
      rule useq_ok_Nil)
    (simp_all add: keeps_simps be_bytes_inject wt_TPMS_TAGGED_POLICY_def valid_TPMS_TAGGED_POLICY_def wire_TPMS_TAGGED_POLICY_def wt_zero_TPMS_TAGGED_POLICY [unfolded wt_TPMS_TAGGED_POLICY_def])

interpretation mu_TPMS_TAGGED_POLICY: codec "\<lambda>s. Tss2_MU_TPMS_TAGGED_POLICY_Marshal (Some s)"
  "src_TPMS_TAGGED_POLICY" "valid_TPMS_TAGGED_POLICY" "wire_TPMS_TAGGED_POLICY" "70" Tss2_MU_TPMS_TAGGED_POLICY_Unmarshal "wt_TPMS_TAGGED_POLICY" "valid_TPMS_TAGGED_POLICY"
  by (rule codecI [OF marshaler_TPMS_TAGGED_POLICY unmarshaler_TPMS_TAGGED_POLICY])

definition Tss2_MU_TPMS_CLOCK_INFO_Marshal :: "TPMS_CLOCK_INFO option mfun" where
  "Tss2_MU_TPMS_CLOCK_INFO_Marshal = TPMS_MARSHAL_4
     (VAL TPMS_CLOCK_INFO_clock Tss2_MU_UINT64_Marshal)
     (VAL TPMS_CLOCK_INFO_resetCount Tss2_MU_UINT32_Marshal)
     (VAL TPMS_CLOCK_INFO_restartCount Tss2_MU_UINT32_Marshal)
     (VAL TPMS_CLOCK_INFO_safe Tss2_MU_UINT8_Marshal)"

definition Tss2_MU_TPMS_CLOCK_INFO_Unmarshal :: "TPMS_CLOCK_INFO ufun" where
  "Tss2_MU_TPMS_CLOCK_INFO_Unmarshal = TPMS_UNMARSHAL_4 zero_TPMS_CLOCK_INFO
     TPMS_CLOCK_INFO_clock TPMS_CLOCK_INFO_clock_update Tss2_MU_UINT64_Unmarshal
     TPMS_CLOCK_INFO_resetCount TPMS_CLOCK_INFO_resetCount_update Tss2_MU_UINT32_Unmarshal
     TPMS_CLOCK_INFO_restartCount TPMS_CLOCK_INFO_restartCount_update Tss2_MU_UINT32_Unmarshal
     TPMS_CLOCK_INFO_safe TPMS_CLOCK_INFO_safe_update Tss2_MU_UINT8_Unmarshal"

definition src_TPMS_CLOCK_INFO :: "TPMS_CLOCK_INFO \<Rightarrow> bool" where
  "src_TPMS_CLOCK_INFO s \<longleftrightarrow> True"

definition valid_TPMS_CLOCK_INFO :: "TPMS_CLOCK_INFO \<Rightarrow> bool" where
  "valid_TPMS_CLOCK_INFO s \<longleftrightarrow> True"

definition wire_TPMS_CLOCK_INFO :: "TPMS_CLOCK_INFO \<Rightarrow> BYTE list" where
  "wire_TPMS_CLOCK_INFO s = be_bytes (TPMS_CLOCK_INFO_clock s) @
     be_bytes (TPMS_CLOCK_INFO_resetCount s) @
     be_bytes (TPMS_CLOCK_INFO_restartCount s) @
     be_bytes (TPMS_CLOCK_INFO_safe s)"

lemma marshaler_TPMS_CLOCK_INFO:
  "marshaler (\<lambda>s. Tss2_MU_TPMS_CLOCK_INFO_Marshal (Some s)) src_TPMS_CLOCK_INFO valid_TPMS_CLOCK_INFO wire_TPMS_CLOCK_INFO 17"
  unfolding Tss2_MU_TPMS_CLOCK_INFO_Marshal_def struct_marshal_defs
  by (rule marshaler_cong,
      (rule marshaler_Cons marshaler_Nil marshaler_VAL [OF mu_UINT64.marshaler_axioms]
        marshaler_VAL [OF mu_UINT32.marshaler_axioms]
        marshaler_VAL [OF mu_UINT8.marshaler_axioms])+)
    (simp_all add: src_TPMS_CLOCK_INFO_def valid_TPMS_CLOCK_INFO_def wire_TPMS_CLOCK_INFO_def)

lemma unmarshaler_TPMS_CLOCK_INFO:
  "strict_unmarshaler Tss2_MU_TPMS_CLOCK_INFO_Unmarshal wt_TPMS_CLOCK_INFO valid_TPMS_CLOCK_INFO wire_TPMS_CLOCK_INFO"
  unfolding Tss2_MU_TPMS_CLOCK_INFO_Unmarshal_def struct_unmarshal_defs
  by (rule strict_unmarshaler_cong, rule strict_unmarshaler_struct,
      rule useq_ok_Cons,
      rule useq_ok_FLD(1) [OF mu_UINT64.strict_unmarshaler_axioms], simp,
      rule useq_ok_Cons,
      rule useq_ok_FLD(1) [OF mu_UINT32.strict_unmarshaler_axioms], simp,
      rule useq_ok_Cons,
      rule useq_ok_FLD(1) [OF mu_UINT32.strict_unmarshaler_axioms], simp,
      rule useq_ok_Cons,
      rule useq_ok_FLD(1) [OF mu_UINT8.strict_unmarshaler_axioms], simp,
      rule useq_ok_Nil)
    (simp_all add: keeps_simps be_bytes_inject wt_TPMS_CLOCK_INFO_def valid_TPMS_CLOCK_INFO_def wire_TPMS_CLOCK_INFO_def wt_zero_TPMS_CLOCK_INFO [unfolded wt_TPMS_CLOCK_INFO_def])

interpretation mu_TPMS_CLOCK_INFO: codec "\<lambda>s. Tss2_MU_TPMS_CLOCK_INFO_Marshal (Some s)"
  "src_TPMS_CLOCK_INFO" "valid_TPMS_CLOCK_INFO" "wire_TPMS_CLOCK_INFO" "17" Tss2_MU_TPMS_CLOCK_INFO_Unmarshal "wt_TPMS_CLOCK_INFO" "valid_TPMS_CLOCK_INFO"
  by (rule codecI [OF marshaler_TPMS_CLOCK_INFO unmarshaler_TPMS_CLOCK_INFO])

definition Tss2_MU_TPMS_TIME_INFO_Marshal :: "TPMS_TIME_INFO option mfun" where
  "Tss2_MU_TPMS_TIME_INFO_Marshal = TPMS_MARSHAL_2
     (VAL TPMS_TIME_INFO_time Tss2_MU_UINT64_Marshal)
     (ADDR TPMS_TIME_INFO_clockInfo Tss2_MU_TPMS_CLOCK_INFO_Marshal)"

definition Tss2_MU_TPMS_TIME_INFO_Unmarshal :: "TPMS_TIME_INFO ufun" where
  "Tss2_MU_TPMS_TIME_INFO_Unmarshal = TPMS_UNMARSHAL_2 zero_TPMS_TIME_INFO
     TPMS_TIME_INFO_time TPMS_TIME_INFO_time_update Tss2_MU_UINT64_Unmarshal
     TPMS_TIME_INFO_clockInfo TPMS_TIME_INFO_clockInfo_update Tss2_MU_TPMS_CLOCK_INFO_Unmarshal"

definition src_TPMS_TIME_INFO :: "TPMS_TIME_INFO \<Rightarrow> bool" where
  "src_TPMS_TIME_INFO s \<longleftrightarrow> src_TPMS_CLOCK_INFO (TPMS_TIME_INFO_clockInfo s)"

definition valid_TPMS_TIME_INFO :: "TPMS_TIME_INFO \<Rightarrow> bool" where
  "valid_TPMS_TIME_INFO s \<longleftrightarrow> valid_TPMS_CLOCK_INFO (TPMS_TIME_INFO_clockInfo s)"

definition wire_TPMS_TIME_INFO :: "TPMS_TIME_INFO \<Rightarrow> BYTE list" where
  "wire_TPMS_TIME_INFO s = be_bytes (TPMS_TIME_INFO_time s) @
     wire_TPMS_CLOCK_INFO (TPMS_TIME_INFO_clockInfo s)"

lemma marshaler_TPMS_TIME_INFO:
  "marshaler (\<lambda>s. Tss2_MU_TPMS_TIME_INFO_Marshal (Some s)) src_TPMS_TIME_INFO valid_TPMS_TIME_INFO wire_TPMS_TIME_INFO 25"
  unfolding Tss2_MU_TPMS_TIME_INFO_Marshal_def struct_marshal_defs
  by (rule marshaler_cong,
      (rule marshaler_Cons marshaler_Nil marshaler_VAL [OF mu_UINT64.marshaler_axioms]
        marshaler_ADDR [OF mu_TPMS_CLOCK_INFO.marshaler_axioms])+)
    (simp_all add: src_TPMS_TIME_INFO_def valid_TPMS_TIME_INFO_def wire_TPMS_TIME_INFO_def)

lemma unmarshaler_TPMS_TIME_INFO:
  "strict_unmarshaler Tss2_MU_TPMS_TIME_INFO_Unmarshal wt_TPMS_TIME_INFO valid_TPMS_TIME_INFO wire_TPMS_TIME_INFO"
  unfolding Tss2_MU_TPMS_TIME_INFO_Unmarshal_def struct_unmarshal_defs
  by (rule strict_unmarshaler_cong, rule strict_unmarshaler_struct,
      rule useq_ok_Cons,
      rule useq_ok_FLD(1) [OF mu_UINT64.strict_unmarshaler_axioms], simp,
      rule useq_ok_Cons,
      rule useq_ok_FLD(1) [OF mu_TPMS_CLOCK_INFO.strict_unmarshaler_axioms], simp,
      rule useq_ok_Nil)
    (simp_all add: keeps_simps be_bytes_inject wt_TPMS_TIME_INFO_def valid_TPMS_TIME_INFO_def wire_TPMS_TIME_INFO_def wt_zero_TPMS_TIME_INFO [unfolded wt_TPMS_TIME_INFO_def])

interpretation mu_TPMS_TIME_INFO: codec "\<lambda>s. Tss2_MU_TPMS_TIME_INFO_Marshal (Some s)"
  "src_TPMS_TIME_INFO" "valid_TPMS_TIME_INFO" "wire_TPMS_TIME_INFO" "25" Tss2_MU_TPMS_TIME_INFO_Unmarshal "wt_TPMS_TIME_INFO" "valid_TPMS_TIME_INFO"
  by (rule codecI [OF marshaler_TPMS_TIME_INFO unmarshaler_TPMS_TIME_INFO])

definition Tss2_MU_TPMS_TIME_ATTEST_INFO_Marshal :: "TPMS_TIME_ATTEST_INFO option mfun" where
  "Tss2_MU_TPMS_TIME_ATTEST_INFO_Marshal = TPMS_MARSHAL_2
     (ADDR TPMS_TIME_ATTEST_INFO_time Tss2_MU_TPMS_TIME_INFO_Marshal)
     (VAL TPMS_TIME_ATTEST_INFO_firmwareVersion Tss2_MU_UINT64_Marshal)"

definition Tss2_MU_TPMS_TIME_ATTEST_INFO_Unmarshal :: "TPMS_TIME_ATTEST_INFO ufun" where
  "Tss2_MU_TPMS_TIME_ATTEST_INFO_Unmarshal = TPMS_UNMARSHAL_2 zero_TPMS_TIME_ATTEST_INFO
     TPMS_TIME_ATTEST_INFO_time TPMS_TIME_ATTEST_INFO_time_update Tss2_MU_TPMS_TIME_INFO_Unmarshal
     TPMS_TIME_ATTEST_INFO_firmwareVersion TPMS_TIME_ATTEST_INFO_firmwareVersion_update Tss2_MU_UINT64_Unmarshal"

definition src_TPMS_TIME_ATTEST_INFO :: "TPMS_TIME_ATTEST_INFO \<Rightarrow> bool" where
  "src_TPMS_TIME_ATTEST_INFO s \<longleftrightarrow> src_TPMS_TIME_INFO (TPMS_TIME_ATTEST_INFO_time s)"

definition valid_TPMS_TIME_ATTEST_INFO :: "TPMS_TIME_ATTEST_INFO \<Rightarrow> bool" where
  "valid_TPMS_TIME_ATTEST_INFO s \<longleftrightarrow> valid_TPMS_TIME_INFO (TPMS_TIME_ATTEST_INFO_time s)"

definition wire_TPMS_TIME_ATTEST_INFO :: "TPMS_TIME_ATTEST_INFO \<Rightarrow> BYTE list" where
  "wire_TPMS_TIME_ATTEST_INFO s = wire_TPMS_TIME_INFO (TPMS_TIME_ATTEST_INFO_time s) @
     be_bytes (TPMS_TIME_ATTEST_INFO_firmwareVersion s)"

lemma marshaler_TPMS_TIME_ATTEST_INFO:
  "marshaler (\<lambda>s. Tss2_MU_TPMS_TIME_ATTEST_INFO_Marshal (Some s)) src_TPMS_TIME_ATTEST_INFO valid_TPMS_TIME_ATTEST_INFO wire_TPMS_TIME_ATTEST_INFO 33"
  unfolding Tss2_MU_TPMS_TIME_ATTEST_INFO_Marshal_def struct_marshal_defs
  by (rule marshaler_cong,
      (rule marshaler_Cons marshaler_Nil marshaler_ADDR [OF mu_TPMS_TIME_INFO.marshaler_axioms]
        marshaler_VAL [OF mu_UINT64.marshaler_axioms])+)
    (simp_all add: src_TPMS_TIME_ATTEST_INFO_def valid_TPMS_TIME_ATTEST_INFO_def wire_TPMS_TIME_ATTEST_INFO_def)

lemma unmarshaler_TPMS_TIME_ATTEST_INFO:
  "strict_unmarshaler Tss2_MU_TPMS_TIME_ATTEST_INFO_Unmarshal wt_TPMS_TIME_ATTEST_INFO valid_TPMS_TIME_ATTEST_INFO wire_TPMS_TIME_ATTEST_INFO"
  unfolding Tss2_MU_TPMS_TIME_ATTEST_INFO_Unmarshal_def struct_unmarshal_defs
  by (rule strict_unmarshaler_cong, rule strict_unmarshaler_struct,
      rule useq_ok_Cons,
      rule useq_ok_FLD(1) [OF mu_TPMS_TIME_INFO.strict_unmarshaler_axioms], simp,
      rule useq_ok_Cons,
      rule useq_ok_FLD(1) [OF mu_UINT64.strict_unmarshaler_axioms], simp,
      rule useq_ok_Nil)
    (simp_all add: keeps_simps be_bytes_inject wt_TPMS_TIME_ATTEST_INFO_def valid_TPMS_TIME_ATTEST_INFO_def wire_TPMS_TIME_ATTEST_INFO_def wt_zero_TPMS_TIME_ATTEST_INFO [unfolded wt_TPMS_TIME_ATTEST_INFO_def])

interpretation mu_TPMS_TIME_ATTEST_INFO: codec "\<lambda>s. Tss2_MU_TPMS_TIME_ATTEST_INFO_Marshal (Some s)"
  "src_TPMS_TIME_ATTEST_INFO" "valid_TPMS_TIME_ATTEST_INFO" "wire_TPMS_TIME_ATTEST_INFO" "33" Tss2_MU_TPMS_TIME_ATTEST_INFO_Unmarshal "wt_TPMS_TIME_ATTEST_INFO" "valid_TPMS_TIME_ATTEST_INFO"
  by (rule codecI [OF marshaler_TPMS_TIME_ATTEST_INFO unmarshaler_TPMS_TIME_ATTEST_INFO])

definition Tss2_MU_TPMS_CERTIFY_INFO_Marshal :: "TPMS_CERTIFY_INFO option mfun" where
  "Tss2_MU_TPMS_CERTIFY_INFO_Marshal = TPMS_MARSHAL_2
     (ADDR TPMS_CERTIFY_INFO_name Tss2_MU_TPM2B_NAME_Marshal)
     (ADDR TPMS_CERTIFY_INFO_qualifiedName Tss2_MU_TPM2B_NAME_Marshal)"

definition Tss2_MU_TPMS_CERTIFY_INFO_Unmarshal :: "TPMS_CERTIFY_INFO ufun" where
  "Tss2_MU_TPMS_CERTIFY_INFO_Unmarshal = TPMS_UNMARSHAL_2 zero_TPMS_CERTIFY_INFO
     TPMS_CERTIFY_INFO_name TPMS_CERTIFY_INFO_name_update Tss2_MU_TPM2B_NAME_Unmarshal
     TPMS_CERTIFY_INFO_qualifiedName TPMS_CERTIFY_INFO_qualifiedName_update Tss2_MU_TPM2B_NAME_Unmarshal"

definition src_TPMS_CERTIFY_INFO :: "TPMS_CERTIFY_INFO \<Rightarrow> bool" where
  "src_TPMS_CERTIFY_INFO s \<longleftrightarrow> (src_TPM2B 70 68) (TPMS_CERTIFY_INFO_name s) \<and>
     (src_TPM2B 70 68) (TPMS_CERTIFY_INFO_qualifiedName s)"

definition valid_TPMS_CERTIFY_INFO :: "TPMS_CERTIFY_INFO \<Rightarrow> bool" where
  "valid_TPMS_CERTIFY_INFO s \<longleftrightarrow> (valid_TPM2B 68) (TPMS_CERTIFY_INFO_name s) \<and>
     (valid_TPM2B 68) (TPMS_CERTIFY_INFO_qualifiedName s)"

definition wire_TPMS_CERTIFY_INFO :: "TPMS_CERTIFY_INFO \<Rightarrow> BYTE list" where
  "wire_TPMS_CERTIFY_INFO s = wire_TPM2B (TPMS_CERTIFY_INFO_name s) @
     wire_TPM2B (TPMS_CERTIFY_INFO_qualifiedName s)"

lemma marshaler_TPMS_CERTIFY_INFO:
  "marshaler (\<lambda>s. Tss2_MU_TPMS_CERTIFY_INFO_Marshal (Some s)) src_TPMS_CERTIFY_INFO valid_TPMS_CERTIFY_INFO wire_TPMS_CERTIFY_INFO 140"
  unfolding Tss2_MU_TPMS_CERTIFY_INFO_Marshal_def struct_marshal_defs
  by (rule marshaler_cong,
      (rule marshaler_Cons marshaler_Nil marshaler_ADDR [OF mu_TPM2B_NAME.marshaler_axioms])+)
    (simp_all add: src_TPMS_CERTIFY_INFO_def valid_TPMS_CERTIFY_INFO_def wire_TPMS_CERTIFY_INFO_def)

lemma unmarshaler_TPMS_CERTIFY_INFO:
  "strict_unmarshaler Tss2_MU_TPMS_CERTIFY_INFO_Unmarshal wt_TPMS_CERTIFY_INFO valid_TPMS_CERTIFY_INFO wire_TPMS_CERTIFY_INFO"
  unfolding Tss2_MU_TPMS_CERTIFY_INFO_Unmarshal_def struct_unmarshal_defs
  by (rule strict_unmarshaler_cong, rule strict_unmarshaler_struct,
      rule useq_ok_Cons,
      rule useq_ok_FLD(1) [OF mu_TPM2B_NAME.strict_unmarshaler_axioms], simp,
      rule useq_ok_Cons,
      rule useq_ok_FLD(1) [OF mu_TPM2B_NAME.strict_unmarshaler_axioms], simp,
      rule useq_ok_Nil)
    (simp_all add: keeps_simps be_bytes_inject wt_TPMS_CERTIFY_INFO_def valid_TPMS_CERTIFY_INFO_def wire_TPMS_CERTIFY_INFO_def wt_zero_TPMS_CERTIFY_INFO [unfolded wt_TPMS_CERTIFY_INFO_def])

interpretation mu_TPMS_CERTIFY_INFO: codec "\<lambda>s. Tss2_MU_TPMS_CERTIFY_INFO_Marshal (Some s)"
  "src_TPMS_CERTIFY_INFO" "valid_TPMS_CERTIFY_INFO" "wire_TPMS_CERTIFY_INFO" "140" Tss2_MU_TPMS_CERTIFY_INFO_Unmarshal "wt_TPMS_CERTIFY_INFO" "valid_TPMS_CERTIFY_INFO"
  by (rule codecI [OF marshaler_TPMS_CERTIFY_INFO unmarshaler_TPMS_CERTIFY_INFO])

definition Tss2_MU_TPMS_COMMAND_AUDIT_INFO_Marshal :: "TPMS_COMMAND_AUDIT_INFO option mfun" where
  "Tss2_MU_TPMS_COMMAND_AUDIT_INFO_Marshal = TPMS_MARSHAL_4
     (VAL TPMS_COMMAND_AUDIT_INFO_auditCounter Tss2_MU_UINT64_Marshal)
     (VAL TPMS_COMMAND_AUDIT_INFO_digestAlg Tss2_MU_UINT16_Marshal)
     (ADDR TPMS_COMMAND_AUDIT_INFO_auditDigest Tss2_MU_TPM2B_DIGEST_Marshal)
     (ADDR TPMS_COMMAND_AUDIT_INFO_commandDigest Tss2_MU_TPM2B_DIGEST_Marshal)"

definition Tss2_MU_TPMS_COMMAND_AUDIT_INFO_Unmarshal :: "TPMS_COMMAND_AUDIT_INFO ufun" where
  "Tss2_MU_TPMS_COMMAND_AUDIT_INFO_Unmarshal = TPMS_UNMARSHAL_4 zero_TPMS_COMMAND_AUDIT_INFO
     TPMS_COMMAND_AUDIT_INFO_auditCounter TPMS_COMMAND_AUDIT_INFO_auditCounter_update Tss2_MU_UINT64_Unmarshal
     TPMS_COMMAND_AUDIT_INFO_digestAlg TPMS_COMMAND_AUDIT_INFO_digestAlg_update Tss2_MU_UINT16_Unmarshal
     TPMS_COMMAND_AUDIT_INFO_auditDigest TPMS_COMMAND_AUDIT_INFO_auditDigest_update Tss2_MU_TPM2B_DIGEST_Unmarshal
     TPMS_COMMAND_AUDIT_INFO_commandDigest TPMS_COMMAND_AUDIT_INFO_commandDigest_update Tss2_MU_TPM2B_DIGEST_Unmarshal"

definition src_TPMS_COMMAND_AUDIT_INFO :: "TPMS_COMMAND_AUDIT_INFO \<Rightarrow> bool" where
  "src_TPMS_COMMAND_AUDIT_INFO s \<longleftrightarrow> (src_TPM2B 66 64) (TPMS_COMMAND_AUDIT_INFO_auditDigest s) \<and>
     (src_TPM2B 66 64) (TPMS_COMMAND_AUDIT_INFO_commandDigest s)"

definition valid_TPMS_COMMAND_AUDIT_INFO :: "TPMS_COMMAND_AUDIT_INFO \<Rightarrow> bool" where
  "valid_TPMS_COMMAND_AUDIT_INFO s \<longleftrightarrow> (valid_TPM2B 64) (TPMS_COMMAND_AUDIT_INFO_auditDigest s) \<and>
     (valid_TPM2B 64) (TPMS_COMMAND_AUDIT_INFO_commandDigest s)"

definition wire_TPMS_COMMAND_AUDIT_INFO :: "TPMS_COMMAND_AUDIT_INFO \<Rightarrow> BYTE list" where
  "wire_TPMS_COMMAND_AUDIT_INFO s = be_bytes (TPMS_COMMAND_AUDIT_INFO_auditCounter s) @
     be_bytes (TPMS_COMMAND_AUDIT_INFO_digestAlg s) @
     wire_TPM2B (TPMS_COMMAND_AUDIT_INFO_auditDigest s) @
     wire_TPM2B (TPMS_COMMAND_AUDIT_INFO_commandDigest s)"

lemma marshaler_TPMS_COMMAND_AUDIT_INFO:
  "marshaler (\<lambda>s. Tss2_MU_TPMS_COMMAND_AUDIT_INFO_Marshal (Some s)) src_TPMS_COMMAND_AUDIT_INFO valid_TPMS_COMMAND_AUDIT_INFO wire_TPMS_COMMAND_AUDIT_INFO 142"
  unfolding Tss2_MU_TPMS_COMMAND_AUDIT_INFO_Marshal_def struct_marshal_defs
  by (rule marshaler_cong,
      (rule marshaler_Cons marshaler_Nil marshaler_VAL [OF mu_UINT64.marshaler_axioms]
        marshaler_VAL [OF mu_UINT16.marshaler_axioms]
        marshaler_ADDR [OF mu_TPM2B_DIGEST.marshaler_axioms])+)
    (simp_all add: src_TPMS_COMMAND_AUDIT_INFO_def valid_TPMS_COMMAND_AUDIT_INFO_def wire_TPMS_COMMAND_AUDIT_INFO_def)

lemma unmarshaler_TPMS_COMMAND_AUDIT_INFO:
  "strict_unmarshaler Tss2_MU_TPMS_COMMAND_AUDIT_INFO_Unmarshal wt_TPMS_COMMAND_AUDIT_INFO valid_TPMS_COMMAND_AUDIT_INFO wire_TPMS_COMMAND_AUDIT_INFO"
  unfolding Tss2_MU_TPMS_COMMAND_AUDIT_INFO_Unmarshal_def struct_unmarshal_defs
  by (rule strict_unmarshaler_cong, rule strict_unmarshaler_struct,
      rule useq_ok_Cons,
      rule useq_ok_FLD(1) [OF mu_UINT64.strict_unmarshaler_axioms], simp,
      rule useq_ok_Cons,
      rule useq_ok_FLD(1) [OF mu_UINT16.strict_unmarshaler_axioms], simp,
      rule useq_ok_Cons,
      rule useq_ok_FLD(1) [OF mu_TPM2B_DIGEST.strict_unmarshaler_axioms], simp,
      rule useq_ok_Cons,
      rule useq_ok_FLD(1) [OF mu_TPM2B_DIGEST.strict_unmarshaler_axioms], simp,
      rule useq_ok_Nil)
    (simp_all add: keeps_simps be_bytes_inject wt_TPMS_COMMAND_AUDIT_INFO_def valid_TPMS_COMMAND_AUDIT_INFO_def wire_TPMS_COMMAND_AUDIT_INFO_def wt_zero_TPMS_COMMAND_AUDIT_INFO [unfolded wt_TPMS_COMMAND_AUDIT_INFO_def])

interpretation mu_TPMS_COMMAND_AUDIT_INFO: codec "\<lambda>s. Tss2_MU_TPMS_COMMAND_AUDIT_INFO_Marshal (Some s)"
  "src_TPMS_COMMAND_AUDIT_INFO" "valid_TPMS_COMMAND_AUDIT_INFO" "wire_TPMS_COMMAND_AUDIT_INFO" "142" Tss2_MU_TPMS_COMMAND_AUDIT_INFO_Unmarshal "wt_TPMS_COMMAND_AUDIT_INFO" "valid_TPMS_COMMAND_AUDIT_INFO"
  by (rule codecI [OF marshaler_TPMS_COMMAND_AUDIT_INFO unmarshaler_TPMS_COMMAND_AUDIT_INFO])

definition Tss2_MU_TPMS_SESSION_AUDIT_INFO_Marshal :: "TPMS_SESSION_AUDIT_INFO option mfun" where
  "Tss2_MU_TPMS_SESSION_AUDIT_INFO_Marshal = TPMS_MARSHAL_2
     (VAL TPMS_SESSION_AUDIT_INFO_exclusiveSession Tss2_MU_UINT8_Marshal)
     (ADDR TPMS_SESSION_AUDIT_INFO_sessionDigest Tss2_MU_TPM2B_DIGEST_Marshal)"

definition Tss2_MU_TPMS_SESSION_AUDIT_INFO_Unmarshal :: "TPMS_SESSION_AUDIT_INFO ufun" where
  "Tss2_MU_TPMS_SESSION_AUDIT_INFO_Unmarshal = TPMS_UNMARSHAL_2 zero_TPMS_SESSION_AUDIT_INFO
     TPMS_SESSION_AUDIT_INFO_exclusiveSession TPMS_SESSION_AUDIT_INFO_exclusiveSession_update Tss2_MU_UINT8_Unmarshal
     TPMS_SESSION_AUDIT_INFO_sessionDigest TPMS_SESSION_AUDIT_INFO_sessionDigest_update Tss2_MU_TPM2B_DIGEST_Unmarshal"

definition src_TPMS_SESSION_AUDIT_INFO :: "TPMS_SESSION_AUDIT_INFO \<Rightarrow> bool" where
  "src_TPMS_SESSION_AUDIT_INFO s \<longleftrightarrow> (src_TPM2B 66 64) (TPMS_SESSION_AUDIT_INFO_sessionDigest s)"

definition valid_TPMS_SESSION_AUDIT_INFO :: "TPMS_SESSION_AUDIT_INFO \<Rightarrow> bool" where
  "valid_TPMS_SESSION_AUDIT_INFO s \<longleftrightarrow> (valid_TPM2B 64) (TPMS_SESSION_AUDIT_INFO_sessionDigest s)"

definition wire_TPMS_SESSION_AUDIT_INFO :: "TPMS_SESSION_AUDIT_INFO \<Rightarrow> BYTE list" where
  "wire_TPMS_SESSION_AUDIT_INFO s = be_bytes (TPMS_SESSION_AUDIT_INFO_exclusiveSession s) @
     wire_TPM2B (TPMS_SESSION_AUDIT_INFO_sessionDigest s)"

lemma marshaler_TPMS_SESSION_AUDIT_INFO:
  "marshaler (\<lambda>s. Tss2_MU_TPMS_SESSION_AUDIT_INFO_Marshal (Some s)) src_TPMS_SESSION_AUDIT_INFO valid_TPMS_SESSION_AUDIT_INFO wire_TPMS_SESSION_AUDIT_INFO 67"
  unfolding Tss2_MU_TPMS_SESSION_AUDIT_INFO_Marshal_def struct_marshal_defs
  by (rule marshaler_cong,
      (rule marshaler_Cons marshaler_Nil marshaler_VAL [OF mu_UINT8.marshaler_axioms]
        marshaler_ADDR [OF mu_TPM2B_DIGEST.marshaler_axioms])+)
    (simp_all add: src_TPMS_SESSION_AUDIT_INFO_def valid_TPMS_SESSION_AUDIT_INFO_def wire_TPMS_SESSION_AUDIT_INFO_def)

lemma unmarshaler_TPMS_SESSION_AUDIT_INFO:
  "strict_unmarshaler Tss2_MU_TPMS_SESSION_AUDIT_INFO_Unmarshal wt_TPMS_SESSION_AUDIT_INFO valid_TPMS_SESSION_AUDIT_INFO wire_TPMS_SESSION_AUDIT_INFO"
  unfolding Tss2_MU_TPMS_SESSION_AUDIT_INFO_Unmarshal_def struct_unmarshal_defs
  by (rule strict_unmarshaler_cong, rule strict_unmarshaler_struct,
      rule useq_ok_Cons,
      rule useq_ok_FLD(1) [OF mu_UINT8.strict_unmarshaler_axioms], simp,
      rule useq_ok_Cons,
      rule useq_ok_FLD(1) [OF mu_TPM2B_DIGEST.strict_unmarshaler_axioms], simp,
      rule useq_ok_Nil)
    (simp_all add: keeps_simps be_bytes_inject wt_TPMS_SESSION_AUDIT_INFO_def valid_TPMS_SESSION_AUDIT_INFO_def wire_TPMS_SESSION_AUDIT_INFO_def wt_zero_TPMS_SESSION_AUDIT_INFO [unfolded wt_TPMS_SESSION_AUDIT_INFO_def])

interpretation mu_TPMS_SESSION_AUDIT_INFO: codec "\<lambda>s. Tss2_MU_TPMS_SESSION_AUDIT_INFO_Marshal (Some s)"
  "src_TPMS_SESSION_AUDIT_INFO" "valid_TPMS_SESSION_AUDIT_INFO" "wire_TPMS_SESSION_AUDIT_INFO" "67" Tss2_MU_TPMS_SESSION_AUDIT_INFO_Unmarshal "wt_TPMS_SESSION_AUDIT_INFO" "valid_TPMS_SESSION_AUDIT_INFO"
  by (rule codecI [OF marshaler_TPMS_SESSION_AUDIT_INFO unmarshaler_TPMS_SESSION_AUDIT_INFO])

definition Tss2_MU_TPMS_CREATION_INFO_Marshal :: "TPMS_CREATION_INFO option mfun" where
  "Tss2_MU_TPMS_CREATION_INFO_Marshal = TPMS_MARSHAL_2
     (ADDR TPMS_CREATION_INFO_objectName Tss2_MU_TPM2B_NAME_Marshal)
     (ADDR TPMS_CREATION_INFO_creationHash Tss2_MU_TPM2B_DIGEST_Marshal)"

definition Tss2_MU_TPMS_CREATION_INFO_Unmarshal :: "TPMS_CREATION_INFO ufun" where
  "Tss2_MU_TPMS_CREATION_INFO_Unmarshal = TPMS_UNMARSHAL_2 zero_TPMS_CREATION_INFO
     TPMS_CREATION_INFO_objectName TPMS_CREATION_INFO_objectName_update Tss2_MU_TPM2B_NAME_Unmarshal
     TPMS_CREATION_INFO_creationHash TPMS_CREATION_INFO_creationHash_update Tss2_MU_TPM2B_DIGEST_Unmarshal"

definition src_TPMS_CREATION_INFO :: "TPMS_CREATION_INFO \<Rightarrow> bool" where
  "src_TPMS_CREATION_INFO s \<longleftrightarrow> (src_TPM2B 70 68) (TPMS_CREATION_INFO_objectName s) \<and>
     (src_TPM2B 66 64) (TPMS_CREATION_INFO_creationHash s)"

definition valid_TPMS_CREATION_INFO :: "TPMS_CREATION_INFO \<Rightarrow> bool" where
  "valid_TPMS_CREATION_INFO s \<longleftrightarrow> (valid_TPM2B 68) (TPMS_CREATION_INFO_objectName s) \<and>
     (valid_TPM2B 64) (TPMS_CREATION_INFO_creationHash s)"

definition wire_TPMS_CREATION_INFO :: "TPMS_CREATION_INFO \<Rightarrow> BYTE list" where
  "wire_TPMS_CREATION_INFO s = wire_TPM2B (TPMS_CREATION_INFO_objectName s) @
     wire_TPM2B (TPMS_CREATION_INFO_creationHash s)"

lemma marshaler_TPMS_CREATION_INFO:
  "marshaler (\<lambda>s. Tss2_MU_TPMS_CREATION_INFO_Marshal (Some s)) src_TPMS_CREATION_INFO valid_TPMS_CREATION_INFO wire_TPMS_CREATION_INFO 136"
  unfolding Tss2_MU_TPMS_CREATION_INFO_Marshal_def struct_marshal_defs
  by (rule marshaler_cong,
      (rule marshaler_Cons marshaler_Nil marshaler_ADDR [OF mu_TPM2B_NAME.marshaler_axioms]
        marshaler_ADDR [OF mu_TPM2B_DIGEST.marshaler_axioms])+)
    (simp_all add: src_TPMS_CREATION_INFO_def valid_TPMS_CREATION_INFO_def wire_TPMS_CREATION_INFO_def)

lemma unmarshaler_TPMS_CREATION_INFO:
  "strict_unmarshaler Tss2_MU_TPMS_CREATION_INFO_Unmarshal wt_TPMS_CREATION_INFO valid_TPMS_CREATION_INFO wire_TPMS_CREATION_INFO"
  unfolding Tss2_MU_TPMS_CREATION_INFO_Unmarshal_def struct_unmarshal_defs
  by (rule strict_unmarshaler_cong, rule strict_unmarshaler_struct,
      rule useq_ok_Cons,
      rule useq_ok_FLD(1) [OF mu_TPM2B_NAME.strict_unmarshaler_axioms], simp,
      rule useq_ok_Cons,
      rule useq_ok_FLD(1) [OF mu_TPM2B_DIGEST.strict_unmarshaler_axioms], simp,
      rule useq_ok_Nil)
    (simp_all add: keeps_simps be_bytes_inject wt_TPMS_CREATION_INFO_def valid_TPMS_CREATION_INFO_def wire_TPMS_CREATION_INFO_def wt_zero_TPMS_CREATION_INFO [unfolded wt_TPMS_CREATION_INFO_def])

interpretation mu_TPMS_CREATION_INFO: codec "\<lambda>s. Tss2_MU_TPMS_CREATION_INFO_Marshal (Some s)"
  "src_TPMS_CREATION_INFO" "valid_TPMS_CREATION_INFO" "wire_TPMS_CREATION_INFO" "136" Tss2_MU_TPMS_CREATION_INFO_Unmarshal "wt_TPMS_CREATION_INFO" "valid_TPMS_CREATION_INFO"
  by (rule codecI [OF marshaler_TPMS_CREATION_INFO unmarshaler_TPMS_CREATION_INFO])

definition Tss2_MU_TPMS_NV_CERTIFY_INFO_Marshal :: "TPMS_NV_CERTIFY_INFO option mfun" where
  "Tss2_MU_TPMS_NV_CERTIFY_INFO_Marshal = TPMS_MARSHAL_3
     (ADDR TPMS_NV_CERTIFY_INFO_indexName Tss2_MU_TPM2B_NAME_Marshal)
     (VAL TPMS_NV_CERTIFY_INFO_offset Tss2_MU_UINT16_Marshal)
     (ADDR TPMS_NV_CERTIFY_INFO_nvContents Tss2_MU_TPM2B_MAX_NV_BUFFER_Marshal)"

definition Tss2_MU_TPMS_NV_CERTIFY_INFO_Unmarshal :: "TPMS_NV_CERTIFY_INFO ufun" where
  "Tss2_MU_TPMS_NV_CERTIFY_INFO_Unmarshal = TPMS_UNMARSHAL_3 zero_TPMS_NV_CERTIFY_INFO
     TPMS_NV_CERTIFY_INFO_indexName TPMS_NV_CERTIFY_INFO_indexName_update Tss2_MU_TPM2B_NAME_Unmarshal
     TPMS_NV_CERTIFY_INFO_offset TPMS_NV_CERTIFY_INFO_offset_update Tss2_MU_UINT16_Unmarshal
     TPMS_NV_CERTIFY_INFO_nvContents TPMS_NV_CERTIFY_INFO_nvContents_update Tss2_MU_TPM2B_MAX_NV_BUFFER_Unmarshal"

definition src_TPMS_NV_CERTIFY_INFO :: "TPMS_NV_CERTIFY_INFO \<Rightarrow> bool" where
  "src_TPMS_NV_CERTIFY_INFO s \<longleftrightarrow> (src_TPM2B 70 68) (TPMS_NV_CERTIFY_INFO_indexName s) \<and>
     (src_TPM2B 2050 2048) (TPMS_NV_CERTIFY_INFO_nvContents s)"

definition valid_TPMS_NV_CERTIFY_INFO :: "TPMS_NV_CERTIFY_INFO \<Rightarrow> bool" where
  "valid_TPMS_NV_CERTIFY_INFO s \<longleftrightarrow> (valid_TPM2B 68) (TPMS_NV_CERTIFY_INFO_indexName s) \<and>
     (valid_TPM2B 2048) (TPMS_NV_CERTIFY_INFO_nvContents s)"

definition wire_TPMS_NV_CERTIFY_INFO :: "TPMS_NV_CERTIFY_INFO \<Rightarrow> BYTE list" where
  "wire_TPMS_NV_CERTIFY_INFO s = wire_TPM2B (TPMS_NV_CERTIFY_INFO_indexName s) @
     be_bytes (TPMS_NV_CERTIFY_INFO_offset s) @
     wire_TPM2B (TPMS_NV_CERTIFY_INFO_nvContents s)"

lemma marshaler_TPMS_NV_CERTIFY_INFO:
  "marshaler (\<lambda>s. Tss2_MU_TPMS_NV_CERTIFY_INFO_Marshal (Some s)) src_TPMS_NV_CERTIFY_INFO valid_TPMS_NV_CERTIFY_INFO wire_TPMS_NV_CERTIFY_INFO 2122"
  unfolding Tss2_MU_TPMS_NV_CERTIFY_INFO_Marshal_def struct_marshal_defs
  by (rule marshaler_cong,
      (rule marshaler_Cons marshaler_Nil marshaler_ADDR [OF mu_TPM2B_NAME.marshaler_axioms]
        marshaler_VAL [OF mu_UINT16.marshaler_axioms]
        marshaler_ADDR [OF mu_TPM2B_MAX_NV_BUFFER.marshaler_axioms])+)
    (simp_all add: src_TPMS_NV_CERTIFY_INFO_def valid_TPMS_NV_CERTIFY_INFO_def wire_TPMS_NV_CERTIFY_INFO_def)

lemma unmarshaler_TPMS_NV_CERTIFY_INFO:
  "strict_unmarshaler Tss2_MU_TPMS_NV_CERTIFY_INFO_Unmarshal wt_TPMS_NV_CERTIFY_INFO valid_TPMS_NV_CERTIFY_INFO wire_TPMS_NV_CERTIFY_INFO"
  unfolding Tss2_MU_TPMS_NV_CERTIFY_INFO_Unmarshal_def struct_unmarshal_defs
  by (rule strict_unmarshaler_cong, rule strict_unmarshaler_struct,
      rule useq_ok_Cons,
      rule useq_ok_FLD(1) [OF mu_TPM2B_NAME.strict_unmarshaler_axioms], simp,
      rule useq_ok_Cons,
      rule useq_ok_FLD(1) [OF mu_UINT16.strict_unmarshaler_axioms], simp,
      rule useq_ok_Cons,
      rule useq_ok_FLD(1) [OF mu_TPM2B_MAX_NV_BUFFER.strict_unmarshaler_axioms], simp,
      rule useq_ok_Nil)
    (simp_all add: keeps_simps be_bytes_inject wt_TPMS_NV_CERTIFY_INFO_def valid_TPMS_NV_CERTIFY_INFO_def wire_TPMS_NV_CERTIFY_INFO_def wt_zero_TPMS_NV_CERTIFY_INFO [unfolded wt_TPMS_NV_CERTIFY_INFO_def])

interpretation mu_TPMS_NV_CERTIFY_INFO: codec "\<lambda>s. Tss2_MU_TPMS_NV_CERTIFY_INFO_Marshal (Some s)"
  "src_TPMS_NV_CERTIFY_INFO" "valid_TPMS_NV_CERTIFY_INFO" "wire_TPMS_NV_CERTIFY_INFO" "2122" Tss2_MU_TPMS_NV_CERTIFY_INFO_Unmarshal "wt_TPMS_NV_CERTIFY_INFO" "valid_TPMS_NV_CERTIFY_INFO"
  by (rule codecI [OF marshaler_TPMS_NV_CERTIFY_INFO unmarshaler_TPMS_NV_CERTIFY_INFO])

definition Tss2_MU_TPMS_AUTH_COMMAND_Marshal :: "TPMS_AUTH_COMMAND option mfun" where
  "Tss2_MU_TPMS_AUTH_COMMAND_Marshal = TPMS_MARSHAL_4
     (VAL TPMS_AUTH_COMMAND_sessionHandle Tss2_MU_UINT32_Marshal)
     (ADDR TPMS_AUTH_COMMAND_nonce Tss2_MU_TPM2B_DIGEST_Marshal)
     (VAL TPMS_AUTH_COMMAND_sessionAttributes Tss2_MU_TPMA_SESSION_Marshal)
     (ADDR TPMS_AUTH_COMMAND_hmac Tss2_MU_TPM2B_DIGEST_Marshal)"

definition Tss2_MU_TPMS_AUTH_COMMAND_Unmarshal :: "TPMS_AUTH_COMMAND ufun" where
  "Tss2_MU_TPMS_AUTH_COMMAND_Unmarshal = TPMS_UNMARSHAL_4 zero_TPMS_AUTH_COMMAND
     TPMS_AUTH_COMMAND_sessionHandle TPMS_AUTH_COMMAND_sessionHandle_update Tss2_MU_UINT32_Unmarshal
     TPMS_AUTH_COMMAND_nonce TPMS_AUTH_COMMAND_nonce_update Tss2_MU_TPM2B_DIGEST_Unmarshal
     TPMS_AUTH_COMMAND_sessionAttributes TPMS_AUTH_COMMAND_sessionAttributes_update Tss2_MU_TPMA_SESSION_Unmarshal
     TPMS_AUTH_COMMAND_hmac TPMS_AUTH_COMMAND_hmac_update Tss2_MU_TPM2B_DIGEST_Unmarshal"

definition src_TPMS_AUTH_COMMAND :: "TPMS_AUTH_COMMAND \<Rightarrow> bool" where
  "src_TPMS_AUTH_COMMAND s \<longleftrightarrow> (src_TPM2B 66 64) (TPMS_AUTH_COMMAND_nonce s) \<and>
     (src_TPM2B 66 64) (TPMS_AUTH_COMMAND_hmac s)"

definition valid_TPMS_AUTH_COMMAND :: "TPMS_AUTH_COMMAND \<Rightarrow> bool" where
  "valid_TPMS_AUTH_COMMAND s \<longleftrightarrow> (valid_TPM2B 64) (TPMS_AUTH_COMMAND_nonce s) \<and>
     (valid_TPM2B 64) (TPMS_AUTH_COMMAND_hmac s)"

definition wire_TPMS_AUTH_COMMAND :: "TPMS_AUTH_COMMAND \<Rightarrow> BYTE list" where
  "wire_TPMS_AUTH_COMMAND s = be_bytes (TPMS_AUTH_COMMAND_sessionHandle s) @
     wire_TPM2B (TPMS_AUTH_COMMAND_nonce s) @
     be_bytes (TPMS_AUTH_COMMAND_sessionAttributes s) @
     wire_TPM2B (TPMS_AUTH_COMMAND_hmac s)"

lemma marshaler_TPMS_AUTH_COMMAND:
  "marshaler (\<lambda>s. Tss2_MU_TPMS_AUTH_COMMAND_Marshal (Some s)) src_TPMS_AUTH_COMMAND valid_TPMS_AUTH_COMMAND wire_TPMS_AUTH_COMMAND 137"
  unfolding Tss2_MU_TPMS_AUTH_COMMAND_Marshal_def struct_marshal_defs
  by (rule marshaler_cong,
      (rule marshaler_Cons marshaler_Nil marshaler_VAL [OF mu_UINT32.marshaler_axioms]
        marshaler_ADDR [OF mu_TPM2B_DIGEST.marshaler_axioms]
        marshaler_VAL [OF mu_TPMA_SESSION.marshaler_axioms])+)
    (simp_all add: src_TPMS_AUTH_COMMAND_def valid_TPMS_AUTH_COMMAND_def wire_TPMS_AUTH_COMMAND_def)

lemma unmarshaler_TPMS_AUTH_COMMAND:
  "strict_unmarshaler Tss2_MU_TPMS_AUTH_COMMAND_Unmarshal wt_TPMS_AUTH_COMMAND valid_TPMS_AUTH_COMMAND wire_TPMS_AUTH_COMMAND"
  unfolding Tss2_MU_TPMS_AUTH_COMMAND_Unmarshal_def struct_unmarshal_defs
  by (rule strict_unmarshaler_cong, rule strict_unmarshaler_struct,
      rule useq_ok_Cons,
      rule useq_ok_FLD(1) [OF mu_UINT32.strict_unmarshaler_axioms], simp,
      rule useq_ok_Cons,
      rule useq_ok_FLD(1) [OF mu_TPM2B_DIGEST.strict_unmarshaler_axioms], simp,
      rule useq_ok_Cons,
      rule useq_ok_FLD(1) [OF mu_TPMA_SESSION.strict_unmarshaler_axioms], simp,
      rule useq_ok_Cons,
      rule useq_ok_FLD(1) [OF mu_TPM2B_DIGEST.strict_unmarshaler_axioms], simp,
      rule useq_ok_Nil)
    (simp_all add: keeps_simps be_bytes_inject wt_TPMS_AUTH_COMMAND_def valid_TPMS_AUTH_COMMAND_def wire_TPMS_AUTH_COMMAND_def wt_zero_TPMS_AUTH_COMMAND [unfolded wt_TPMS_AUTH_COMMAND_def])

interpretation mu_TPMS_AUTH_COMMAND: codec "\<lambda>s. Tss2_MU_TPMS_AUTH_COMMAND_Marshal (Some s)"
  "src_TPMS_AUTH_COMMAND" "valid_TPMS_AUTH_COMMAND" "wire_TPMS_AUTH_COMMAND" "137" Tss2_MU_TPMS_AUTH_COMMAND_Unmarshal "wt_TPMS_AUTH_COMMAND" "valid_TPMS_AUTH_COMMAND"
  by (rule codecI [OF marshaler_TPMS_AUTH_COMMAND unmarshaler_TPMS_AUTH_COMMAND])

definition Tss2_MU_TPMS_AUTH_RESPONSE_Marshal :: "TPMS_AUTH_RESPONSE option mfun" where
  "Tss2_MU_TPMS_AUTH_RESPONSE_Marshal = TPMS_MARSHAL_3
     (ADDR TPMS_AUTH_RESPONSE_nonce Tss2_MU_TPM2B_DIGEST_Marshal)
     (VAL TPMS_AUTH_RESPONSE_sessionAttributes Tss2_MU_TPMA_SESSION_Marshal)
     (ADDR TPMS_AUTH_RESPONSE_hmac Tss2_MU_TPM2B_DIGEST_Marshal)"

definition Tss2_MU_TPMS_AUTH_RESPONSE_Unmarshal :: "TPMS_AUTH_RESPONSE ufun" where
  "Tss2_MU_TPMS_AUTH_RESPONSE_Unmarshal = TPMS_UNMARSHAL_3 zero_TPMS_AUTH_RESPONSE
     TPMS_AUTH_RESPONSE_nonce TPMS_AUTH_RESPONSE_nonce_update Tss2_MU_TPM2B_DIGEST_Unmarshal
     TPMS_AUTH_RESPONSE_sessionAttributes TPMS_AUTH_RESPONSE_sessionAttributes_update Tss2_MU_TPMA_SESSION_Unmarshal
     TPMS_AUTH_RESPONSE_hmac TPMS_AUTH_RESPONSE_hmac_update Tss2_MU_TPM2B_DIGEST_Unmarshal"

definition src_TPMS_AUTH_RESPONSE :: "TPMS_AUTH_RESPONSE \<Rightarrow> bool" where
  "src_TPMS_AUTH_RESPONSE s \<longleftrightarrow> (src_TPM2B 66 64) (TPMS_AUTH_RESPONSE_nonce s) \<and>
     (src_TPM2B 66 64) (TPMS_AUTH_RESPONSE_hmac s)"

definition valid_TPMS_AUTH_RESPONSE :: "TPMS_AUTH_RESPONSE \<Rightarrow> bool" where
  "valid_TPMS_AUTH_RESPONSE s \<longleftrightarrow> (valid_TPM2B 64) (TPMS_AUTH_RESPONSE_nonce s) \<and>
     (valid_TPM2B 64) (TPMS_AUTH_RESPONSE_hmac s)"

definition wire_TPMS_AUTH_RESPONSE :: "TPMS_AUTH_RESPONSE \<Rightarrow> BYTE list" where
  "wire_TPMS_AUTH_RESPONSE s = wire_TPM2B (TPMS_AUTH_RESPONSE_nonce s) @
     be_bytes (TPMS_AUTH_RESPONSE_sessionAttributes s) @
     wire_TPM2B (TPMS_AUTH_RESPONSE_hmac s)"

lemma marshaler_TPMS_AUTH_RESPONSE:
  "marshaler (\<lambda>s. Tss2_MU_TPMS_AUTH_RESPONSE_Marshal (Some s)) src_TPMS_AUTH_RESPONSE valid_TPMS_AUTH_RESPONSE wire_TPMS_AUTH_RESPONSE 133"
  unfolding Tss2_MU_TPMS_AUTH_RESPONSE_Marshal_def struct_marshal_defs
  by (rule marshaler_cong,
      (rule marshaler_Cons marshaler_Nil marshaler_ADDR [OF mu_TPM2B_DIGEST.marshaler_axioms]
        marshaler_VAL [OF mu_TPMA_SESSION.marshaler_axioms])+)
    (simp_all add: src_TPMS_AUTH_RESPONSE_def valid_TPMS_AUTH_RESPONSE_def wire_TPMS_AUTH_RESPONSE_def)

lemma unmarshaler_TPMS_AUTH_RESPONSE:
  "strict_unmarshaler Tss2_MU_TPMS_AUTH_RESPONSE_Unmarshal wt_TPMS_AUTH_RESPONSE valid_TPMS_AUTH_RESPONSE wire_TPMS_AUTH_RESPONSE"
  unfolding Tss2_MU_TPMS_AUTH_RESPONSE_Unmarshal_def struct_unmarshal_defs
  by (rule strict_unmarshaler_cong, rule strict_unmarshaler_struct,
      rule useq_ok_Cons,
      rule useq_ok_FLD(1) [OF mu_TPM2B_DIGEST.strict_unmarshaler_axioms], simp,
      rule useq_ok_Cons,
      rule useq_ok_FLD(1) [OF mu_TPMA_SESSION.strict_unmarshaler_axioms], simp,
      rule useq_ok_Cons,
      rule useq_ok_FLD(1) [OF mu_TPM2B_DIGEST.strict_unmarshaler_axioms], simp,
      rule useq_ok_Nil)
    (simp_all add: keeps_simps be_bytes_inject wt_TPMS_AUTH_RESPONSE_def valid_TPMS_AUTH_RESPONSE_def wire_TPMS_AUTH_RESPONSE_def wt_zero_TPMS_AUTH_RESPONSE [unfolded wt_TPMS_AUTH_RESPONSE_def])

interpretation mu_TPMS_AUTH_RESPONSE: codec "\<lambda>s. Tss2_MU_TPMS_AUTH_RESPONSE_Marshal (Some s)"
  "src_TPMS_AUTH_RESPONSE" "valid_TPMS_AUTH_RESPONSE" "wire_TPMS_AUTH_RESPONSE" "133" Tss2_MU_TPMS_AUTH_RESPONSE_Unmarshal "wt_TPMS_AUTH_RESPONSE" "valid_TPMS_AUTH_RESPONSE"
  by (rule codecI [OF marshaler_TPMS_AUTH_RESPONSE unmarshaler_TPMS_AUTH_RESPONSE])

definition Tss2_MU_TPMS_SIGNATURE_RSA_Marshal :: "TPMS_SIGNATURE_RSA option mfun" where
  "Tss2_MU_TPMS_SIGNATURE_RSA_Marshal = TPMS_MARSHAL_2
     (VAL TPMS_SIGNATURE_RSA_hash Tss2_MU_UINT16_Marshal)
     (ADDR TPMS_SIGNATURE_RSA_sig Tss2_MU_TPM2B_PUBLIC_KEY_RSA_Marshal)"

definition Tss2_MU_TPMS_SIGNATURE_RSA_Unmarshal :: "TPMS_SIGNATURE_RSA ufun" where
  "Tss2_MU_TPMS_SIGNATURE_RSA_Unmarshal = TPMS_UNMARSHAL_2 zero_TPMS_SIGNATURE_RSA
     TPMS_SIGNATURE_RSA_hash TPMS_SIGNATURE_RSA_hash_update Tss2_MU_UINT16_Unmarshal
     TPMS_SIGNATURE_RSA_sig TPMS_SIGNATURE_RSA_sig_update Tss2_MU_TPM2B_PUBLIC_KEY_RSA_Unmarshal"

definition src_TPMS_SIGNATURE_RSA :: "TPMS_SIGNATURE_RSA \<Rightarrow> bool" where
  "src_TPMS_SIGNATURE_RSA s \<longleftrightarrow> (src_TPM2B 514 512) (TPMS_SIGNATURE_RSA_sig s)"

definition valid_TPMS_SIGNATURE_RSA :: "TPMS_SIGNATURE_RSA \<Rightarrow> bool" where
  "valid_TPMS_SIGNATURE_RSA s \<longleftrightarrow> (valid_TPM2B 512) (TPMS_SIGNATURE_RSA_sig s)"

definition wire_TPMS_SIGNATURE_RSA :: "TPMS_SIGNATURE_RSA \<Rightarrow> BYTE list" where
  "wire_TPMS_SIGNATURE_RSA s = be_bytes (TPMS_SIGNATURE_RSA_hash s) @
     wire_TPM2B (TPMS_SIGNATURE_RSA_sig s)"

lemma marshaler_TPMS_SIGNATURE_RSA:
  "marshaler (\<lambda>s. Tss2_MU_TPMS_SIGNATURE_RSA_Marshal (Some s)) src_TPMS_SIGNATURE_RSA valid_TPMS_SIGNATURE_RSA wire_TPMS_SIGNATURE_RSA 516"
  unfolding Tss2_MU_TPMS_SIGNATURE_RSA_Marshal_def struct_marshal_defs
  by (rule marshaler_cong,
      (rule marshaler_Cons marshaler_Nil marshaler_VAL [OF mu_UINT16.marshaler_axioms]
        marshaler_ADDR [OF mu_TPM2B_PUBLIC_KEY_RSA.marshaler_axioms])+)
    (simp_all add: src_TPMS_SIGNATURE_RSA_def valid_TPMS_SIGNATURE_RSA_def wire_TPMS_SIGNATURE_RSA_def)

lemma unmarshaler_TPMS_SIGNATURE_RSA:
  "strict_unmarshaler Tss2_MU_TPMS_SIGNATURE_RSA_Unmarshal wt_TPMS_SIGNATURE_RSA valid_TPMS_SIGNATURE_RSA wire_TPMS_SIGNATURE_RSA"
  unfolding Tss2_MU_TPMS_SIGNATURE_RSA_Unmarshal_def struct_unmarshal_defs
  by (rule strict_unmarshaler_cong, rule strict_unmarshaler_struct,
      rule useq_ok_Cons,
      rule useq_ok_FLD(1) [OF mu_UINT16.strict_unmarshaler_axioms], simp,
      rule useq_ok_Cons,
      rule useq_ok_FLD(1) [OF mu_TPM2B_PUBLIC_KEY_RSA.strict_unmarshaler_axioms], simp,
      rule useq_ok_Nil)
    (simp_all add: keeps_simps be_bytes_inject wt_TPMS_SIGNATURE_RSA_def valid_TPMS_SIGNATURE_RSA_def wire_TPMS_SIGNATURE_RSA_def wt_zero_TPMS_SIGNATURE_RSA [unfolded wt_TPMS_SIGNATURE_RSA_def])

interpretation mu_TPMS_SIGNATURE_RSA: codec "\<lambda>s. Tss2_MU_TPMS_SIGNATURE_RSA_Marshal (Some s)"
  "src_TPMS_SIGNATURE_RSA" "valid_TPMS_SIGNATURE_RSA" "wire_TPMS_SIGNATURE_RSA" "516" Tss2_MU_TPMS_SIGNATURE_RSA_Unmarshal "wt_TPMS_SIGNATURE_RSA" "valid_TPMS_SIGNATURE_RSA"
  by (rule codecI [OF marshaler_TPMS_SIGNATURE_RSA unmarshaler_TPMS_SIGNATURE_RSA])

definition Tss2_MU_TPMS_SIGNATURE_ECC_Marshal :: "TPMS_SIGNATURE_ECC option mfun" where
  "Tss2_MU_TPMS_SIGNATURE_ECC_Marshal = TPMS_MARSHAL_3
     (VAL TPMS_SIGNATURE_ECC_hash Tss2_MU_UINT16_Marshal)
     (ADDR TPMS_SIGNATURE_ECC_signatureR Tss2_MU_TPM2B_ECC_PARAMETER_Marshal)
     (ADDR TPMS_SIGNATURE_ECC_signatureS Tss2_MU_TPM2B_ECC_PARAMETER_Marshal)"

definition Tss2_MU_TPMS_SIGNATURE_ECC_Unmarshal :: "TPMS_SIGNATURE_ECC ufun" where
  "Tss2_MU_TPMS_SIGNATURE_ECC_Unmarshal = TPMS_UNMARSHAL_3 zero_TPMS_SIGNATURE_ECC
     TPMS_SIGNATURE_ECC_hash TPMS_SIGNATURE_ECC_hash_update Tss2_MU_UINT16_Unmarshal
     TPMS_SIGNATURE_ECC_signatureR TPMS_SIGNATURE_ECC_signatureR_update Tss2_MU_TPM2B_ECC_PARAMETER_Unmarshal
     TPMS_SIGNATURE_ECC_signatureS TPMS_SIGNATURE_ECC_signatureS_update Tss2_MU_TPM2B_ECC_PARAMETER_Unmarshal"

definition src_TPMS_SIGNATURE_ECC :: "TPMS_SIGNATURE_ECC \<Rightarrow> bool" where
  "src_TPMS_SIGNATURE_ECC s \<longleftrightarrow> (src_TPM2B 130 128) (TPMS_SIGNATURE_ECC_signatureR s) \<and>
     (src_TPM2B 130 128) (TPMS_SIGNATURE_ECC_signatureS s)"

definition valid_TPMS_SIGNATURE_ECC :: "TPMS_SIGNATURE_ECC \<Rightarrow> bool" where
  "valid_TPMS_SIGNATURE_ECC s \<longleftrightarrow> (valid_TPM2B 128) (TPMS_SIGNATURE_ECC_signatureR s) \<and>
     (valid_TPM2B 128) (TPMS_SIGNATURE_ECC_signatureS s)"

definition wire_TPMS_SIGNATURE_ECC :: "TPMS_SIGNATURE_ECC \<Rightarrow> BYTE list" where
  "wire_TPMS_SIGNATURE_ECC s = be_bytes (TPMS_SIGNATURE_ECC_hash s) @
     wire_TPM2B (TPMS_SIGNATURE_ECC_signatureR s) @
     wire_TPM2B (TPMS_SIGNATURE_ECC_signatureS s)"

lemma marshaler_TPMS_SIGNATURE_ECC:
  "marshaler (\<lambda>s. Tss2_MU_TPMS_SIGNATURE_ECC_Marshal (Some s)) src_TPMS_SIGNATURE_ECC valid_TPMS_SIGNATURE_ECC wire_TPMS_SIGNATURE_ECC 262"
  unfolding Tss2_MU_TPMS_SIGNATURE_ECC_Marshal_def struct_marshal_defs
  by (rule marshaler_cong,
      (rule marshaler_Cons marshaler_Nil marshaler_VAL [OF mu_UINT16.marshaler_axioms]
        marshaler_ADDR [OF mu_TPM2B_ECC_PARAMETER.marshaler_axioms])+)
    (simp_all add: src_TPMS_SIGNATURE_ECC_def valid_TPMS_SIGNATURE_ECC_def wire_TPMS_SIGNATURE_ECC_def)

lemma unmarshaler_TPMS_SIGNATURE_ECC:
  "strict_unmarshaler Tss2_MU_TPMS_SIGNATURE_ECC_Unmarshal wt_TPMS_SIGNATURE_ECC valid_TPMS_SIGNATURE_ECC wire_TPMS_SIGNATURE_ECC"
  unfolding Tss2_MU_TPMS_SIGNATURE_ECC_Unmarshal_def struct_unmarshal_defs
  by (rule strict_unmarshaler_cong, rule strict_unmarshaler_struct,
      rule useq_ok_Cons,
      rule useq_ok_FLD(1) [OF mu_UINT16.strict_unmarshaler_axioms], simp,
      rule useq_ok_Cons,
      rule useq_ok_FLD(1) [OF mu_TPM2B_ECC_PARAMETER.strict_unmarshaler_axioms], simp,
      rule useq_ok_Cons,
      rule useq_ok_FLD(1) [OF mu_TPM2B_ECC_PARAMETER.strict_unmarshaler_axioms], simp,
      rule useq_ok_Nil)
    (simp_all add: keeps_simps be_bytes_inject wt_TPMS_SIGNATURE_ECC_def valid_TPMS_SIGNATURE_ECC_def wire_TPMS_SIGNATURE_ECC_def wt_zero_TPMS_SIGNATURE_ECC [unfolded wt_TPMS_SIGNATURE_ECC_def])

interpretation mu_TPMS_SIGNATURE_ECC: codec "\<lambda>s. Tss2_MU_TPMS_SIGNATURE_ECC_Marshal (Some s)"
  "src_TPMS_SIGNATURE_ECC" "valid_TPMS_SIGNATURE_ECC" "wire_TPMS_SIGNATURE_ECC" "262" Tss2_MU_TPMS_SIGNATURE_ECC_Unmarshal "wt_TPMS_SIGNATURE_ECC" "valid_TPMS_SIGNATURE_ECC"
  by (rule codecI [OF marshaler_TPMS_SIGNATURE_ECC unmarshaler_TPMS_SIGNATURE_ECC])

definition Tss2_MU_TPMS_NV_PIN_COUNTER_PARAMETERS_Marshal :: "TPMS_NV_PIN_COUNTER_PARAMETERS option mfun" where
  "Tss2_MU_TPMS_NV_PIN_COUNTER_PARAMETERS_Marshal = TPMS_MARSHAL_2
     (VAL TPMS_NV_PIN_COUNTER_PARAMETERS_pinCount Tss2_MU_UINT32_Marshal)
     (VAL TPMS_NV_PIN_COUNTER_PARAMETERS_pinLimit Tss2_MU_UINT32_Marshal)"

definition Tss2_MU_TPMS_NV_PIN_COUNTER_PARAMETERS_Unmarshal :: "TPMS_NV_PIN_COUNTER_PARAMETERS ufun" where
  "Tss2_MU_TPMS_NV_PIN_COUNTER_PARAMETERS_Unmarshal = TPMS_UNMARSHAL_2 zero_TPMS_NV_PIN_COUNTER_PARAMETERS
     TPMS_NV_PIN_COUNTER_PARAMETERS_pinCount TPMS_NV_PIN_COUNTER_PARAMETERS_pinCount_update Tss2_MU_UINT32_Unmarshal
     TPMS_NV_PIN_COUNTER_PARAMETERS_pinLimit TPMS_NV_PIN_COUNTER_PARAMETERS_pinLimit_update Tss2_MU_UINT32_Unmarshal"

definition src_TPMS_NV_PIN_COUNTER_PARAMETERS :: "TPMS_NV_PIN_COUNTER_PARAMETERS \<Rightarrow> bool" where
  "src_TPMS_NV_PIN_COUNTER_PARAMETERS s \<longleftrightarrow> True"

definition valid_TPMS_NV_PIN_COUNTER_PARAMETERS :: "TPMS_NV_PIN_COUNTER_PARAMETERS \<Rightarrow> bool" where
  "valid_TPMS_NV_PIN_COUNTER_PARAMETERS s \<longleftrightarrow> True"

definition wire_TPMS_NV_PIN_COUNTER_PARAMETERS :: "TPMS_NV_PIN_COUNTER_PARAMETERS \<Rightarrow> BYTE list" where
  "wire_TPMS_NV_PIN_COUNTER_PARAMETERS s = be_bytes (TPMS_NV_PIN_COUNTER_PARAMETERS_pinCount s) @
     be_bytes (TPMS_NV_PIN_COUNTER_PARAMETERS_pinLimit s)"

lemma marshaler_TPMS_NV_PIN_COUNTER_PARAMETERS:
  "marshaler (\<lambda>s. Tss2_MU_TPMS_NV_PIN_COUNTER_PARAMETERS_Marshal (Some s)) src_TPMS_NV_PIN_COUNTER_PARAMETERS valid_TPMS_NV_PIN_COUNTER_PARAMETERS wire_TPMS_NV_PIN_COUNTER_PARAMETERS 8"
  unfolding Tss2_MU_TPMS_NV_PIN_COUNTER_PARAMETERS_Marshal_def struct_marshal_defs
  by (rule marshaler_cong,
      (rule marshaler_Cons marshaler_Nil marshaler_VAL [OF mu_UINT32.marshaler_axioms])+)
    (simp_all add: src_TPMS_NV_PIN_COUNTER_PARAMETERS_def valid_TPMS_NV_PIN_COUNTER_PARAMETERS_def wire_TPMS_NV_PIN_COUNTER_PARAMETERS_def)

lemma unmarshaler_TPMS_NV_PIN_COUNTER_PARAMETERS:
  "strict_unmarshaler Tss2_MU_TPMS_NV_PIN_COUNTER_PARAMETERS_Unmarshal wt_TPMS_NV_PIN_COUNTER_PARAMETERS valid_TPMS_NV_PIN_COUNTER_PARAMETERS wire_TPMS_NV_PIN_COUNTER_PARAMETERS"
  unfolding Tss2_MU_TPMS_NV_PIN_COUNTER_PARAMETERS_Unmarshal_def struct_unmarshal_defs
  by (rule strict_unmarshaler_cong, rule strict_unmarshaler_struct,
      rule useq_ok_Cons,
      rule useq_ok_FLD(1) [OF mu_UINT32.strict_unmarshaler_axioms], simp,
      rule useq_ok_Cons,
      rule useq_ok_FLD(1) [OF mu_UINT32.strict_unmarshaler_axioms], simp,
      rule useq_ok_Nil)
    (simp_all add: keeps_simps be_bytes_inject wt_TPMS_NV_PIN_COUNTER_PARAMETERS_def valid_TPMS_NV_PIN_COUNTER_PARAMETERS_def wire_TPMS_NV_PIN_COUNTER_PARAMETERS_def wt_zero_TPMS_NV_PIN_COUNTER_PARAMETERS [unfolded wt_TPMS_NV_PIN_COUNTER_PARAMETERS_def])

interpretation mu_TPMS_NV_PIN_COUNTER_PARAMETERS: codec "\<lambda>s. Tss2_MU_TPMS_NV_PIN_COUNTER_PARAMETERS_Marshal (Some s)"
  "src_TPMS_NV_PIN_COUNTER_PARAMETERS" "valid_TPMS_NV_PIN_COUNTER_PARAMETERS" "wire_TPMS_NV_PIN_COUNTER_PARAMETERS" "8" Tss2_MU_TPMS_NV_PIN_COUNTER_PARAMETERS_Unmarshal "wt_TPMS_NV_PIN_COUNTER_PARAMETERS" "valid_TPMS_NV_PIN_COUNTER_PARAMETERS"
  by (rule codecI [OF marshaler_TPMS_NV_PIN_COUNTER_PARAMETERS unmarshaler_TPMS_NV_PIN_COUNTER_PARAMETERS])

definition Tss2_MU_TPMS_CONTEXT_DATA_Marshal :: "TPMS_CONTEXT_DATA option mfun" where
  "Tss2_MU_TPMS_CONTEXT_DATA_Marshal = TPMS_MARSHAL_2
     (ADDR TPMS_CONTEXT_DATA_integrity Tss2_MU_TPM2B_DIGEST_Marshal)
     (ADDR TPMS_CONTEXT_DATA_encrypted Tss2_MU_TPM2B_CONTEXT_SENSITIVE_Marshal)"

definition Tss2_MU_TPMS_CONTEXT_DATA_Unmarshal :: "TPMS_CONTEXT_DATA ufun" where
  "Tss2_MU_TPMS_CONTEXT_DATA_Unmarshal = TPMS_UNMARSHAL_2 zero_TPMS_CONTEXT_DATA
     TPMS_CONTEXT_DATA_integrity TPMS_CONTEXT_DATA_integrity_update Tss2_MU_TPM2B_DIGEST_Unmarshal
     TPMS_CONTEXT_DATA_encrypted TPMS_CONTEXT_DATA_encrypted_update Tss2_MU_TPM2B_CONTEXT_SENSITIVE_Unmarshal"

definition src_TPMS_CONTEXT_DATA :: "TPMS_CONTEXT_DATA \<Rightarrow> bool" where
  "src_TPMS_CONTEXT_DATA s \<longleftrightarrow> (src_TPM2B 66 64) (TPMS_CONTEXT_DATA_integrity s) \<and>
     (src_TPM2B 5122 5120) (TPMS_CONTEXT_DATA_encrypted s)"

definition valid_TPMS_CONTEXT_DATA :: "TPMS_CONTEXT_DATA \<Rightarrow> bool" where
  "valid_TPMS_CONTEXT_DATA s \<longleftrightarrow> (valid_TPM2B 64) (TPMS_CONTEXT_DATA_integrity s) \<and>
     (valid_TPM2B 5120) (TPMS_CONTEXT_DATA_encrypted s)"

definition wire_TPMS_CONTEXT_DATA :: "TPMS_CONTEXT_DATA \<Rightarrow> BYTE list" where
  "wire_TPMS_CONTEXT_DATA s = wire_TPM2B (TPMS_CONTEXT_DATA_integrity s) @
     wire_TPM2B (TPMS_CONTEXT_DATA_encrypted s)"

lemma marshaler_TPMS_CONTEXT_DATA:
  "marshaler (\<lambda>s. Tss2_MU_TPMS_CONTEXT_DATA_Marshal (Some s)) src_TPMS_CONTEXT_DATA valid_TPMS_CONTEXT_DATA wire_TPMS_CONTEXT_DATA 5188"
  unfolding Tss2_MU_TPMS_CONTEXT_DATA_Marshal_def struct_marshal_defs
  by (rule marshaler_cong,
      (rule marshaler_Cons marshaler_Nil marshaler_ADDR [OF mu_TPM2B_DIGEST.marshaler_axioms]
        marshaler_ADDR [OF mu_TPM2B_CONTEXT_SENSITIVE.marshaler_axioms])+)
    (simp_all add: src_TPMS_CONTEXT_DATA_def valid_TPMS_CONTEXT_DATA_def wire_TPMS_CONTEXT_DATA_def)

lemma unmarshaler_TPMS_CONTEXT_DATA:
  "strict_unmarshaler Tss2_MU_TPMS_CONTEXT_DATA_Unmarshal wt_TPMS_CONTEXT_DATA valid_TPMS_CONTEXT_DATA wire_TPMS_CONTEXT_DATA"
  unfolding Tss2_MU_TPMS_CONTEXT_DATA_Unmarshal_def struct_unmarshal_defs
  by (rule strict_unmarshaler_cong, rule strict_unmarshaler_struct,
      rule useq_ok_Cons,
      rule useq_ok_FLD(1) [OF mu_TPM2B_DIGEST.strict_unmarshaler_axioms], simp,
      rule useq_ok_Cons,
      rule useq_ok_FLD(1) [OF mu_TPM2B_CONTEXT_SENSITIVE.strict_unmarshaler_axioms], simp,
      rule useq_ok_Nil)
    (simp_all add: keeps_simps be_bytes_inject wt_TPMS_CONTEXT_DATA_def valid_TPMS_CONTEXT_DATA_def wire_TPMS_CONTEXT_DATA_def wt_zero_TPMS_CONTEXT_DATA [unfolded wt_TPMS_CONTEXT_DATA_def])

interpretation mu_TPMS_CONTEXT_DATA: codec "\<lambda>s. Tss2_MU_TPMS_CONTEXT_DATA_Marshal (Some s)"
  "src_TPMS_CONTEXT_DATA" "valid_TPMS_CONTEXT_DATA" "wire_TPMS_CONTEXT_DATA" "5188" Tss2_MU_TPMS_CONTEXT_DATA_Unmarshal "wt_TPMS_CONTEXT_DATA" "valid_TPMS_CONTEXT_DATA"
  by (rule codecI [OF marshaler_TPMS_CONTEXT_DATA unmarshaler_TPMS_CONTEXT_DATA])

definition Tss2_MU_TPMS_CONTEXT_Marshal :: "TPMS_CONTEXT option mfun" where
  "Tss2_MU_TPMS_CONTEXT_Marshal = TPMS_MARSHAL_4
     (VAL TPMS_CONTEXT_sequence Tss2_MU_UINT64_Marshal)
     (VAL TPMS_CONTEXT_savedHandle Tss2_MU_UINT32_Marshal)
     (VAL TPMS_CONTEXT_hierarchy Tss2_MU_UINT32_Marshal)
     (ADDR TPMS_CONTEXT_contextBlob Tss2_MU_TPM2B_CONTEXT_DATA_Marshal)"

definition Tss2_MU_TPMS_CONTEXT_Unmarshal :: "TPMS_CONTEXT ufun" where
  "Tss2_MU_TPMS_CONTEXT_Unmarshal = TPMS_UNMARSHAL_4 zero_TPMS_CONTEXT
     TPMS_CONTEXT_sequence TPMS_CONTEXT_sequence_update Tss2_MU_UINT64_Unmarshal
     TPMS_CONTEXT_savedHandle TPMS_CONTEXT_savedHandle_update Tss2_MU_UINT32_Unmarshal
     TPMS_CONTEXT_hierarchy TPMS_CONTEXT_hierarchy_update Tss2_MU_UINT32_Unmarshal
     TPMS_CONTEXT_contextBlob TPMS_CONTEXT_contextBlob_update Tss2_MU_TPM2B_CONTEXT_DATA_Unmarshal"

definition src_TPMS_CONTEXT :: "TPMS_CONTEXT \<Rightarrow> bool" where
  "src_TPMS_CONTEXT s \<longleftrightarrow> (src_TPM2B 5190 5188) (TPMS_CONTEXT_contextBlob s)"

definition valid_TPMS_CONTEXT :: "TPMS_CONTEXT \<Rightarrow> bool" where
  "valid_TPMS_CONTEXT s \<longleftrightarrow> (valid_TPM2B 5188) (TPMS_CONTEXT_contextBlob s)"

definition wire_TPMS_CONTEXT :: "TPMS_CONTEXT \<Rightarrow> BYTE list" where
  "wire_TPMS_CONTEXT s = be_bytes (TPMS_CONTEXT_sequence s) @
     be_bytes (TPMS_CONTEXT_savedHandle s) @
     be_bytes (TPMS_CONTEXT_hierarchy s) @
     wire_TPM2B (TPMS_CONTEXT_contextBlob s)"

lemma marshaler_TPMS_CONTEXT:
  "marshaler (\<lambda>s. Tss2_MU_TPMS_CONTEXT_Marshal (Some s)) src_TPMS_CONTEXT valid_TPMS_CONTEXT wire_TPMS_CONTEXT 5206"
  unfolding Tss2_MU_TPMS_CONTEXT_Marshal_def struct_marshal_defs
  by (rule marshaler_cong,
      (rule marshaler_Cons marshaler_Nil marshaler_VAL [OF mu_UINT64.marshaler_axioms]
        marshaler_VAL [OF mu_UINT32.marshaler_axioms]
        marshaler_ADDR [OF mu_TPM2B_CONTEXT_DATA.marshaler_axioms])+)
    (simp_all add: src_TPMS_CONTEXT_def valid_TPMS_CONTEXT_def wire_TPMS_CONTEXT_def)

lemma unmarshaler_TPMS_CONTEXT:
  "strict_unmarshaler Tss2_MU_TPMS_CONTEXT_Unmarshal wt_TPMS_CONTEXT valid_TPMS_CONTEXT wire_TPMS_CONTEXT"
  unfolding Tss2_MU_TPMS_CONTEXT_Unmarshal_def struct_unmarshal_defs
  by (rule strict_unmarshaler_cong, rule strict_unmarshaler_struct,
      rule useq_ok_Cons,
      rule useq_ok_FLD(1) [OF mu_UINT64.strict_unmarshaler_axioms], simp,
      rule useq_ok_Cons,
      rule useq_ok_FLD(1) [OF mu_UINT32.strict_unmarshaler_axioms], simp,
      rule useq_ok_Cons,
      rule useq_ok_FLD(1) [OF mu_UINT32.strict_unmarshaler_axioms], simp,
      rule useq_ok_Cons,
      rule useq_ok_FLD(1) [OF mu_TPM2B_CONTEXT_DATA.strict_unmarshaler_axioms], simp,
      rule useq_ok_Nil)
    (simp_all add: keeps_simps be_bytes_inject wt_TPMS_CONTEXT_def valid_TPMS_CONTEXT_def wire_TPMS_CONTEXT_def wt_zero_TPMS_CONTEXT [unfolded wt_TPMS_CONTEXT_def])

interpretation mu_TPMS_CONTEXT: codec "\<lambda>s. Tss2_MU_TPMS_CONTEXT_Marshal (Some s)"
  "src_TPMS_CONTEXT" "valid_TPMS_CONTEXT" "wire_TPMS_CONTEXT" "5206" Tss2_MU_TPMS_CONTEXT_Unmarshal "wt_TPMS_CONTEXT" "valid_TPMS_CONTEXT"
  by (rule codecI [OF marshaler_TPMS_CONTEXT unmarshaler_TPMS_CONTEXT])

definition Tss2_MU_TPMS_QUOTE_INFO_Marshal :: "TPMS_QUOTE_INFO option mfun" where
  "Tss2_MU_TPMS_QUOTE_INFO_Marshal = TPMS_MARSHAL_2
     (ADDR TPMS_QUOTE_INFO_pcrSelect Tss2_MU_TPML_PCR_SELECTION_Marshal)
     (ADDR TPMS_QUOTE_INFO_pcrDigest Tss2_MU_TPM2B_DIGEST_Marshal)"

definition Tss2_MU_TPMS_QUOTE_INFO_Unmarshal :: "TPMS_QUOTE_INFO ufun" where
  "Tss2_MU_TPMS_QUOTE_INFO_Unmarshal = TPMS_UNMARSHAL_2 zero_TPMS_QUOTE_INFO
     TPMS_QUOTE_INFO_pcrSelect TPMS_QUOTE_INFO_pcrSelect_update Tss2_MU_TPML_PCR_SELECTION_Unmarshal
     TPMS_QUOTE_INFO_pcrDigest TPMS_QUOTE_INFO_pcrDigest_update Tss2_MU_TPM2B_DIGEST_Unmarshal"

definition src_TPMS_QUOTE_INFO :: "TPMS_QUOTE_INFO \<Rightarrow> bool" where
  "src_TPMS_QUOTE_INFO s \<longleftrightarrow> (src_TPML 16 src_TPMS_PCR_SELECTION) (TPMS_QUOTE_INFO_pcrSelect s) \<and>
     (src_TPM2B 66 64) (TPMS_QUOTE_INFO_pcrDigest s)"

definition valid_TPMS_QUOTE_INFO :: "TPMS_QUOTE_INFO \<Rightarrow> bool" where
  "valid_TPMS_QUOTE_INFO s \<longleftrightarrow> (valid_TPML 16 valid_TPMS_PCR_SELECTION) (TPMS_QUOTE_INFO_pcrSelect s) \<and>
     (valid_TPM2B 64) (TPMS_QUOTE_INFO_pcrDigest s)"

definition wire_TPMS_QUOTE_INFO :: "TPMS_QUOTE_INFO \<Rightarrow> BYTE list" where
  "wire_TPMS_QUOTE_INFO s = (wire_TPML wire_TPMS_PCR_SELECTION) (TPMS_QUOTE_INFO_pcrSelect s) @
     wire_TPM2B (TPMS_QUOTE_INFO_pcrDigest s)"

lemma marshaler_TPMS_QUOTE_INFO:
  "marshaler (\<lambda>s. Tss2_MU_TPMS_QUOTE_INFO_Marshal (Some s)) src_TPMS_QUOTE_INFO valid_TPMS_QUOTE_INFO wire_TPMS_QUOTE_INFO 182"
  unfolding Tss2_MU_TPMS_QUOTE_INFO_Marshal_def struct_marshal_defs
  by (rule marshaler_cong,
      (rule marshaler_Cons marshaler_Nil marshaler_ADDR [OF mu_TPML_PCR_SELECTION.marshaler_axioms]
        marshaler_ADDR [OF mu_TPM2B_DIGEST.marshaler_axioms])+)
    (simp_all add: src_TPMS_QUOTE_INFO_def valid_TPMS_QUOTE_INFO_def wire_TPMS_QUOTE_INFO_def)

lemma unmarshaler_TPMS_QUOTE_INFO:
  "strict_unmarshaler Tss2_MU_TPMS_QUOTE_INFO_Unmarshal wt_TPMS_QUOTE_INFO valid_TPMS_QUOTE_INFO wire_TPMS_QUOTE_INFO"
  unfolding Tss2_MU_TPMS_QUOTE_INFO_Unmarshal_def struct_unmarshal_defs
  by (rule strict_unmarshaler_cong, rule strict_unmarshaler_struct,
      rule useq_ok_Cons,
      rule useq_ok_FLD(1) [OF mu_TPML_PCR_SELECTION.strict_unmarshaler_axioms], simp,
      rule useq_ok_Cons,
      rule useq_ok_FLD(1) [OF mu_TPM2B_DIGEST.strict_unmarshaler_axioms], simp,
      rule useq_ok_Nil)
    (simp_all add: keeps_simps be_bytes_inject wt_TPMS_QUOTE_INFO_def valid_TPMS_QUOTE_INFO_def wire_TPMS_QUOTE_INFO_def wt_zero_TPMS_QUOTE_INFO [unfolded wt_TPMS_QUOTE_INFO_def])

interpretation mu_TPMS_QUOTE_INFO: codec "\<lambda>s. Tss2_MU_TPMS_QUOTE_INFO_Marshal (Some s)"
  "src_TPMS_QUOTE_INFO" "valid_TPMS_QUOTE_INFO" "wire_TPMS_QUOTE_INFO" "182" Tss2_MU_TPMS_QUOTE_INFO_Unmarshal "wt_TPMS_QUOTE_INFO" "valid_TPMS_QUOTE_INFO"
  by (rule codecI [OF marshaler_TPMS_QUOTE_INFO unmarshaler_TPMS_QUOTE_INFO])

definition Tss2_MU_TPMS_SIGNATURE_MLDSA_Marshal :: "TPMS_SIGNATURE_MLDSA option mfun" where
  "Tss2_MU_TPMS_SIGNATURE_MLDSA_Marshal = TPMS_MARSHAL_2
     (VAL TPMS_SIGNATURE_MLDSA_hash Tss2_MU_UINT16_Marshal)
     (ADDR TPMS_SIGNATURE_MLDSA_sig Tss2_MU_TPM2B_MLDSA_SIGNATURE_Marshal)"

definition Tss2_MU_TPMS_SIGNATURE_MLDSA_Unmarshal :: "TPMS_SIGNATURE_MLDSA ufun" where
  "Tss2_MU_TPMS_SIGNATURE_MLDSA_Unmarshal = TPMS_UNMARSHAL_2 zero_TPMS_SIGNATURE_MLDSA
     TPMS_SIGNATURE_MLDSA_hash TPMS_SIGNATURE_MLDSA_hash_update Tss2_MU_UINT16_Unmarshal
     TPMS_SIGNATURE_MLDSA_sig TPMS_SIGNATURE_MLDSA_sig_update Tss2_MU_TPM2B_MLDSA_SIGNATURE_Unmarshal"

definition src_TPMS_SIGNATURE_MLDSA :: "TPMS_SIGNATURE_MLDSA \<Rightarrow> bool" where
  "src_TPMS_SIGNATURE_MLDSA s \<longleftrightarrow> (src_TPM2B 4630 4627) (TPMS_SIGNATURE_MLDSA_sig s)"

definition valid_TPMS_SIGNATURE_MLDSA :: "TPMS_SIGNATURE_MLDSA \<Rightarrow> bool" where
  "valid_TPMS_SIGNATURE_MLDSA s \<longleftrightarrow> (valid_TPM2B 4627) (TPMS_SIGNATURE_MLDSA_sig s)"

definition wire_TPMS_SIGNATURE_MLDSA :: "TPMS_SIGNATURE_MLDSA \<Rightarrow> BYTE list" where
  "wire_TPMS_SIGNATURE_MLDSA s = be_bytes (TPMS_SIGNATURE_MLDSA_hash s) @
     wire_TPM2B (TPMS_SIGNATURE_MLDSA_sig s)"

lemma marshaler_TPMS_SIGNATURE_MLDSA:
  "marshaler (\<lambda>s. Tss2_MU_TPMS_SIGNATURE_MLDSA_Marshal (Some s)) src_TPMS_SIGNATURE_MLDSA valid_TPMS_SIGNATURE_MLDSA wire_TPMS_SIGNATURE_MLDSA 4631"
  unfolding Tss2_MU_TPMS_SIGNATURE_MLDSA_Marshal_def struct_marshal_defs
  by (rule marshaler_cong,
      (rule marshaler_Cons marshaler_Nil marshaler_VAL [OF mu_UINT16.marshaler_axioms]
        marshaler_ADDR [OF mu_TPM2B_MLDSA_SIGNATURE.marshaler_axioms])+)
    (simp_all add: src_TPMS_SIGNATURE_MLDSA_def valid_TPMS_SIGNATURE_MLDSA_def wire_TPMS_SIGNATURE_MLDSA_def)

lemma unmarshaler_TPMS_SIGNATURE_MLDSA:
  "strict_unmarshaler Tss2_MU_TPMS_SIGNATURE_MLDSA_Unmarshal wt_TPMS_SIGNATURE_MLDSA valid_TPMS_SIGNATURE_MLDSA wire_TPMS_SIGNATURE_MLDSA"
  unfolding Tss2_MU_TPMS_SIGNATURE_MLDSA_Unmarshal_def struct_unmarshal_defs
  by (rule strict_unmarshaler_cong, rule strict_unmarshaler_struct,
      rule useq_ok_Cons,
      rule useq_ok_FLD(1) [OF mu_UINT16.strict_unmarshaler_axioms], simp,
      rule useq_ok_Cons,
      rule useq_ok_FLD(1) [OF mu_TPM2B_MLDSA_SIGNATURE.strict_unmarshaler_axioms], simp,
      rule useq_ok_Nil)
    (simp_all add: keeps_simps be_bytes_inject wt_TPMS_SIGNATURE_MLDSA_def valid_TPMS_SIGNATURE_MLDSA_def wire_TPMS_SIGNATURE_MLDSA_def wt_zero_TPMS_SIGNATURE_MLDSA [unfolded wt_TPMS_SIGNATURE_MLDSA_def])

interpretation mu_TPMS_SIGNATURE_MLDSA: codec "\<lambda>s. Tss2_MU_TPMS_SIGNATURE_MLDSA_Marshal (Some s)"
  "src_TPMS_SIGNATURE_MLDSA" "valid_TPMS_SIGNATURE_MLDSA" "wire_TPMS_SIGNATURE_MLDSA" "4631" Tss2_MU_TPMS_SIGNATURE_MLDSA_Unmarshal "wt_TPMS_SIGNATURE_MLDSA" "valid_TPMS_SIGNATURE_MLDSA"
  by (rule codecI [OF marshaler_TPMS_SIGNATURE_MLDSA unmarshaler_TPMS_SIGNATURE_MLDSA])

definition Tss2_MU_TPMU_ATTEST_Marshal :: "TPMU_ATTEST option \<Rightarrow> UINT32 \<Rightarrow> buf option \<Rightarrow> size_t \<Rightarrow> size_t option \<Rightarrow> mres" where
  "Tss2_MU_TPMU_ATTEST_Marshal = TPMU_MARSHAL2
    [(ucast TPM2_ST_ATTEST_CERTIFY, U_ADDR get_TPMU_ATTEST_certify Tss2_MU_TPMS_CERTIFY_INFO_Marshal),
     (ucast TPM2_ST_ATTEST_CREATION, U_ADDR get_TPMU_ATTEST_creation Tss2_MU_TPMS_CREATION_INFO_Marshal),
     (ucast TPM2_ST_ATTEST_QUOTE, U_ADDR get_TPMU_ATTEST_quote Tss2_MU_TPMS_QUOTE_INFO_Marshal),
     (ucast TPM2_ST_ATTEST_COMMAND_AUDIT, U_ADDR get_TPMU_ATTEST_commandAudit Tss2_MU_TPMS_COMMAND_AUDIT_INFO_Marshal),
     (ucast TPM2_ST_ATTEST_SESSION_AUDIT, U_ADDR get_TPMU_ATTEST_sessionAudit Tss2_MU_TPMS_SESSION_AUDIT_INFO_Marshal),
     (ucast TPM2_ST_ATTEST_TIME, U_ADDR get_TPMU_ATTEST_time Tss2_MU_TPMS_TIME_ATTEST_INFO_Marshal),
     (ucast TPM2_ST_ATTEST_NV, U_ADDR get_TPMU_ATTEST_nv Tss2_MU_TPMS_NV_CERTIFY_INFO_Marshal)]"

definition Tss2_MU_TPMU_ATTEST_Unmarshal :: "buf option \<Rightarrow> size_t \<Rightarrow> size_t option \<Rightarrow> UINT32 \<Rightarrow> TPMU_ATTEST option \<Rightarrow> TPMU_ATTEST ures" where
  "Tss2_MU_TPMU_ATTEST_Unmarshal = TPMU_UNMARSHAL2
    [(ucast TPM2_ST_ATTEST_CERTIFY, U_MEM get_TPMU_ATTEST_certify TPMU_ATTEST_certify zero_TPMS_CERTIFY_INFO Tss2_MU_TPMS_CERTIFY_INFO_Unmarshal),
     (ucast TPM2_ST_ATTEST_CREATION, U_MEM get_TPMU_ATTEST_creation TPMU_ATTEST_creation zero_TPMS_CREATION_INFO Tss2_MU_TPMS_CREATION_INFO_Unmarshal),
     (ucast TPM2_ST_ATTEST_QUOTE, U_MEM get_TPMU_ATTEST_quote TPMU_ATTEST_quote zero_TPMS_QUOTE_INFO Tss2_MU_TPMS_QUOTE_INFO_Unmarshal),
     (ucast TPM2_ST_ATTEST_COMMAND_AUDIT, U_MEM get_TPMU_ATTEST_commandAudit TPMU_ATTEST_commandAudit zero_TPMS_COMMAND_AUDIT_INFO Tss2_MU_TPMS_COMMAND_AUDIT_INFO_Unmarshal),
     (ucast TPM2_ST_ATTEST_SESSION_AUDIT, U_MEM get_TPMU_ATTEST_sessionAudit TPMU_ATTEST_sessionAudit zero_TPMS_SESSION_AUDIT_INFO Tss2_MU_TPMS_SESSION_AUDIT_INFO_Unmarshal),
     (ucast TPM2_ST_ATTEST_TIME, U_MEM get_TPMU_ATTEST_time TPMU_ATTEST_time zero_TPMS_TIME_ATTEST_INFO Tss2_MU_TPMS_TIME_ATTEST_INFO_Unmarshal),
     (ucast TPM2_ST_ATTEST_NV, U_MEM get_TPMU_ATTEST_nv TPMU_ATTEST_nv zero_TPMS_NV_CERTIFY_INFO Tss2_MU_TPMS_NV_CERTIFY_INFO_Unmarshal)]"

definition spec_TPMU_ATTEST :: "(UINT32 \<times> TPMU_ATTEST mspec) list" where
  "spec_TPMU_ATTEST =
    [(ucast TPM2_ST_ATTEST_CERTIFY, member_spec get_TPMU_ATTEST_certify src_TPMS_CERTIFY_INFO valid_TPMS_CERTIFY_INFO wire_TPMS_CERTIFY_INFO),
     (ucast TPM2_ST_ATTEST_CREATION, member_spec get_TPMU_ATTEST_creation src_TPMS_CREATION_INFO valid_TPMS_CREATION_INFO wire_TPMS_CREATION_INFO),
     (ucast TPM2_ST_ATTEST_QUOTE, member_spec get_TPMU_ATTEST_quote src_TPMS_QUOTE_INFO valid_TPMS_QUOTE_INFO wire_TPMS_QUOTE_INFO),
     (ucast TPM2_ST_ATTEST_COMMAND_AUDIT, member_spec get_TPMU_ATTEST_commandAudit src_TPMS_COMMAND_AUDIT_INFO valid_TPMS_COMMAND_AUDIT_INFO wire_TPMS_COMMAND_AUDIT_INFO),
     (ucast TPM2_ST_ATTEST_SESSION_AUDIT, member_spec get_TPMU_ATTEST_sessionAudit src_TPMS_SESSION_AUDIT_INFO valid_TPMS_SESSION_AUDIT_INFO wire_TPMS_SESSION_AUDIT_INFO),
     (ucast TPM2_ST_ATTEST_TIME, member_spec get_TPMU_ATTEST_time src_TPMS_TIME_ATTEST_INFO valid_TPMS_TIME_ATTEST_INFO wire_TPMS_TIME_ATTEST_INFO),
     (ucast TPM2_ST_ATTEST_NV, member_spec get_TPMU_ATTEST_nv src_TPMS_NV_CERTIFY_INFO valid_TPMS_NV_CERTIFY_INFO wire_TPMS_NV_CERTIFY_INFO)]"

abbreviation "src_TPMU_ATTEST \<equiv> src_union spec_TPMU_ATTEST"
abbreviation "valid_TPMU_ATTEST \<equiv> valid_union spec_TPMU_ATTEST"
abbreviation "wire_TPMU_ATTEST \<equiv> wire_union spec_TPMU_ATTEST"

lemma marshaler_TPMU_ATTEST:
  "marshaler (\<lambda>u. Tss2_MU_TPMU_ATTEST_Marshal (Some u) k) (src_TPMU_ATTEST k) (valid_TPMU_ATTEST k) (wire_TPMU_ATTEST k) 2122"
  unfolding Tss2_MU_TPMU_ATTEST_Marshal_def spec_TPMU_ATTEST_def
  by (rule marshaler_TPMU, simp only: entry_rel_simps, intro conjI refl TrueI
      marshals_ADDR [OF mu_TPMS_CERTIFY_INFO.marshaler_axioms]
      marshals_ADDR [OF mu_TPMS_CREATION_INFO.marshaler_axioms]
      marshals_ADDR [OF mu_TPMS_QUOTE_INFO.marshaler_axioms]
      marshals_ADDR [OF mu_TPMS_COMMAND_AUDIT_INFO.marshaler_axioms]
      marshals_ADDR [OF mu_TPMS_SESSION_AUDIT_INFO.marshaler_axioms]
      marshals_ADDR [OF mu_TPMS_TIME_ATTEST_INFO.marshaler_axioms]
      marshals_ADDR [OF mu_TPMS_NV_CERTIFY_INFO.marshaler_axioms])
    (simp_all add: get_TPMU_ATTEST)

lemma unmarshaler_TPMU_ATTEST:
  "strict_unmarshaler (\<lambda>b bs off. Tss2_MU_TPMU_ATTEST_Unmarshal b bs off k) wt_TPMU_ATTEST (valid_TPMU_ATTEST k) (wire_TPMU_ATTEST k)"
  unfolding Tss2_MU_TPMU_ATTEST_Unmarshal_def spec_TPMU_ATTEST_def
  by (rule strict_unmarshaler_TPMU, simp only: entry_rel_simps, intro conjI refl TrueI
      unmarshals_MEM [OF mu_TPMS_CERTIFY_INFO.strict_unmarshaler_axioms]
      unmarshals_MEM [OF mu_TPMS_CREATION_INFO.strict_unmarshaler_axioms]
      unmarshals_MEM [OF mu_TPMS_QUOTE_INFO.strict_unmarshaler_axioms]
      unmarshals_MEM [OF mu_TPMS_COMMAND_AUDIT_INFO.strict_unmarshaler_axioms]
      unmarshals_MEM [OF mu_TPMS_SESSION_AUDIT_INFO.strict_unmarshaler_axioms]
      unmarshals_MEM [OF mu_TPMS_TIME_ATTEST_INFO.strict_unmarshaler_axioms]
      unmarshals_MEM [OF mu_TPMS_NV_CERTIFY_INFO.strict_unmarshaler_axioms])
    (simp_all add: get_TPMU_ATTEST)

interpretation mu_TPMU_ATTEST: codec "\<lambda>u. Tss2_MU_TPMU_ATTEST_Marshal (Some u) k" "src_TPMU_ATTEST k" "valid_TPMU_ATTEST k" "wire_TPMU_ATTEST k" "2122"
  "\<lambda>b bs off. Tss2_MU_TPMU_ATTEST_Unmarshal b bs off k" wt_TPMU_ATTEST "valid_TPMU_ATTEST k" for k
  by (rule codecI [OF marshaler_TPMU_ATTEST unmarshaler_TPMU_ATTEST])

definition Tss2_MU_TPMS_ATTEST_Marshal :: "TPMS_ATTEST option mfun" where
  "Tss2_MU_TPMS_ATTEST_Marshal = TPMS_MARSHAL_7_U
     (VAL TPMS_ATTEST_magic Tss2_MU_UINT32_Marshal)
     (VAL TPMS_ATTEST_type Tss2_MU_TPM2_ST_Marshal)
     (ADDR TPMS_ATTEST_qualifiedSigner Tss2_MU_TPM2B_NAME_Marshal)
     (ADDR TPMS_ATTEST_extraData Tss2_MU_TPM2B_DATA_Marshal)
     (ADDR TPMS_ATTEST_clockInfo Tss2_MU_TPMS_CLOCK_INFO_Marshal)
     (VAL TPMS_ATTEST_firmwareVersion Tss2_MU_UINT64_Marshal)
     (ADDR_SEL (\<lambda>s. ucast (TPMS_ATTEST_type s)) TPMS_ATTEST_attested Tss2_MU_TPMU_ATTEST_Marshal)"

definition Tss2_MU_TPMS_ATTEST_Unmarshal :: "TPMS_ATTEST ufun" where
  "Tss2_MU_TPMS_ATTEST_Unmarshal = TPMS_UNMARSHAL_7_U zero_TPMS_ATTEST
     TPMS_ATTEST_magic TPMS_ATTEST_magic_update TPM2_GENERATED_Unmarshal
     TPMS_ATTEST_type TPMS_ATTEST_type_update Tss2_MU_TPM2_ST_Unmarshal
     TPMS_ATTEST_qualifiedSigner TPMS_ATTEST_qualifiedSigner_update Tss2_MU_TPM2B_NAME_Unmarshal
     TPMS_ATTEST_extraData TPMS_ATTEST_extraData_update Tss2_MU_TPM2B_DATA_Unmarshal
     TPMS_ATTEST_clockInfo TPMS_ATTEST_clockInfo_update Tss2_MU_TPMS_CLOCK_INFO_Unmarshal
     TPMS_ATTEST_firmwareVersion TPMS_ATTEST_firmwareVersion_update Tss2_MU_UINT64_Unmarshal
     TPMS_ATTEST_attested TPMS_ATTEST_attested_update (\<lambda>s. ucast (TPMS_ATTEST_type s)) Tss2_MU_TPMU_ATTEST_Unmarshal"

definition src_TPMS_ATTEST :: "TPMS_ATTEST \<Rightarrow> bool" where
  "src_TPMS_ATTEST s \<longleftrightarrow> (src_TPM2B 70 68) (TPMS_ATTEST_qualifiedSigner s) \<and>
     (src_TPM2B 66 64) (TPMS_ATTEST_extraData s) \<and>
     src_TPMS_CLOCK_INFO (TPMS_ATTEST_clockInfo s) \<and>
     src_TPMU_ATTEST (ucast (TPMS_ATTEST_type s)) (TPMS_ATTEST_attested s)"

definition valid_TPMS_ATTEST :: "TPMS_ATTEST \<Rightarrow> bool" where
  "valid_TPMS_ATTEST s \<longleftrightarrow> (valid_TPM2B 68) (TPMS_ATTEST_qualifiedSigner s) \<and>
     (valid_TPM2B 64) (TPMS_ATTEST_extraData s) \<and>
     valid_TPMS_CLOCK_INFO (TPMS_ATTEST_clockInfo s) \<and>
     valid_TPMU_ATTEST (ucast (TPMS_ATTEST_type s)) (TPMS_ATTEST_attested s)"

definition wire_TPMS_ATTEST :: "TPMS_ATTEST \<Rightarrow> BYTE list" where
  "wire_TPMS_ATTEST s = be_bytes (TPMS_ATTEST_magic s) @
     be_bytes (TPMS_ATTEST_type s) @
     wire_TPM2B (TPMS_ATTEST_qualifiedSigner s) @
     wire_TPM2B (TPMS_ATTEST_extraData s) @
     wire_TPMS_CLOCK_INFO (TPMS_ATTEST_clockInfo s) @
     be_bytes (TPMS_ATTEST_firmwareVersion s) @
     wire_TPMU_ATTEST (ucast (TPMS_ATTEST_type s)) (TPMS_ATTEST_attested s)"

lemma marshaler_TPMS_ATTEST:
  "marshaler (\<lambda>s. Tss2_MU_TPMS_ATTEST_Marshal (Some s)) src_TPMS_ATTEST valid_TPMS_ATTEST wire_TPMS_ATTEST 2289"
  unfolding Tss2_MU_TPMS_ATTEST_Marshal_def struct_marshal_defs
  by (rule marshaler_cong,
      (rule marshaler_Cons marshaler_Nil marshaler_VAL [OF mu_UINT32.marshaler_axioms]
        marshaler_VAL [OF mu_TPM2_ST.marshaler_axioms]
        marshaler_ADDR [OF mu_TPM2B_NAME.marshaler_axioms]
        marshaler_ADDR [OF mu_TPM2B_DATA.marshaler_axioms]
        marshaler_ADDR [OF mu_TPMS_CLOCK_INFO.marshaler_axioms]
        marshaler_VAL [OF mu_UINT64.marshaler_axioms]
        marshaler_ADDR_SEL [OF marshaler_TPMU_ATTEST])+)
    (simp_all add: src_TPMS_ATTEST_def valid_TPMS_ATTEST_def wire_TPMS_ATTEST_def)

definition readable_TPMS_ATTEST :: "TPMS_ATTEST \<Rightarrow> bool" where
  "readable_TPMS_ATTEST s \<longleftrightarrow> TPMS_ATTEST_magic s = TPM2_GENERATED_VALUE \<and> valid_TPMS_ATTEST s"

lemma unmarshaler_TPMS_ATTEST:
  "strict_unmarshaler Tss2_MU_TPMS_ATTEST_Unmarshal wt_TPMS_ATTEST readable_TPMS_ATTEST wire_TPMS_ATTEST"
  unfolding Tss2_MU_TPMS_ATTEST_Unmarshal_def struct_unmarshal_defs
  by (rule strict_unmarshaler_cong, rule strict_unmarshaler_struct,
      rule useq_ok_Cons,
      rule useq_ok_GENERATED, simp,
      rule useq_ok_Cons_sel [where sel = "\<lambda>s. ucast (TPMS_ATTEST_type s)"],
      rule useq_ok_FLD(1) [OF mu_TPM2_ST.strict_unmarshaler_axioms], simp,
      rule useq_ok_Cons,
      rule useq_ok_FLD(1) [OF mu_TPM2B_NAME.strict_unmarshaler_axioms], simp,
      rule useq_ok_Cons,
      rule useq_ok_FLD(1) [OF mu_TPM2B_DATA.strict_unmarshaler_axioms], simp,
      rule useq_ok_Cons,
      rule useq_ok_FLD(1) [OF mu_TPMS_CLOCK_INFO.strict_unmarshaler_axioms], simp,
      rule useq_ok_Cons,
      rule useq_ok_FLD(1) [OF mu_UINT64.strict_unmarshaler_axioms], simp,
      rule useq_ok_Cons,
      rule useq_ok_UNI(2) [OF unmarshaler_TPMU_ATTEST], simp, simp,
      rule useq_ok_Nil)
    (simp_all add: keeps_simps be_bytes_inject wt_TPMS_ATTEST_def valid_TPMS_ATTEST_def wire_TPMS_ATTEST_def wt_zero_TPMS_ATTEST [unfolded wt_TPMS_ATTEST_def] readable_TPMS_ATTEST_def)

interpretation mu_TPMS_ATTEST: codec "\<lambda>s. Tss2_MU_TPMS_ATTEST_Marshal (Some s)"
  src_TPMS_ATTEST valid_TPMS_ATTEST wire_TPMS_ATTEST "2289" Tss2_MU_TPMS_ATTEST_Unmarshal wt_TPMS_ATTEST readable_TPMS_ATTEST
  by (intro codec.intro transport.intro transport_axioms.intro marshaler_TPMS_ATTEST unmarshaler_TPMS_ATTEST
      strict_unmarshaler.axioms(1) [OF unmarshaler_TPMS_ATTEST]) (simp add: readable_TPMS_ATTEST_def)

definition Tss2_MU_TPMS_ALGORITHM_DETAIL_ECC_Marshal :: "TPMS_ALGORITHM_DETAIL_ECC option mfun" where
  "Tss2_MU_TPMS_ALGORITHM_DETAIL_ECC_Marshal = TPMS_MARSHAL_11
     (VAL TPMS_ALGORITHM_DETAIL_ECC_curveID Tss2_MU_UINT16_Marshal)
     (VAL TPMS_ALGORITHM_DETAIL_ECC_keySize Tss2_MU_UINT16_Marshal)
     (ADDR TPMS_ALGORITHM_DETAIL_ECC_kdf Tss2_MU_TPMT_KDF_SCHEME_Marshal)
     (ADDR TPMS_ALGORITHM_DETAIL_ECC_sign Tss2_MU_TPMT_ECC_SCHEME_Marshal)
     (ADDR TPMS_ALGORITHM_DETAIL_ECC_p Tss2_MU_TPM2B_ECC_PARAMETER_Marshal)
     (ADDR TPMS_ALGORITHM_DETAIL_ECC_a Tss2_MU_TPM2B_ECC_PARAMETER_Marshal)
     (ADDR TPMS_ALGORITHM_DETAIL_ECC_b Tss2_MU_TPM2B_ECC_PARAMETER_Marshal)
     (ADDR TPMS_ALGORITHM_DETAIL_ECC_gX Tss2_MU_TPM2B_ECC_PARAMETER_Marshal)
     (ADDR TPMS_ALGORITHM_DETAIL_ECC_gY Tss2_MU_TPM2B_ECC_PARAMETER_Marshal)
     (ADDR TPMS_ALGORITHM_DETAIL_ECC_n Tss2_MU_TPM2B_ECC_PARAMETER_Marshal)
     (ADDR TPMS_ALGORITHM_DETAIL_ECC_h Tss2_MU_TPM2B_ECC_PARAMETER_Marshal)"

definition Tss2_MU_TPMS_ALGORITHM_DETAIL_ECC_Unmarshal :: "TPMS_ALGORITHM_DETAIL_ECC ufun" where
  "Tss2_MU_TPMS_ALGORITHM_DETAIL_ECC_Unmarshal = TPMS_UNMARSHAL_11 zero_TPMS_ALGORITHM_DETAIL_ECC
     TPMS_ALGORITHM_DETAIL_ECC_curveID TPMS_ALGORITHM_DETAIL_ECC_curveID_update Tss2_MU_UINT16_Unmarshal
     TPMS_ALGORITHM_DETAIL_ECC_keySize TPMS_ALGORITHM_DETAIL_ECC_keySize_update Tss2_MU_UINT16_Unmarshal
     TPMS_ALGORITHM_DETAIL_ECC_kdf TPMS_ALGORITHM_DETAIL_ECC_kdf_update Tss2_MU_TPMT_KDF_SCHEME_Unmarshal
     TPMS_ALGORITHM_DETAIL_ECC_sign TPMS_ALGORITHM_DETAIL_ECC_sign_update Tss2_MU_TPMT_ECC_SCHEME_Unmarshal
     TPMS_ALGORITHM_DETAIL_ECC_p TPMS_ALGORITHM_DETAIL_ECC_p_update Tss2_MU_TPM2B_ECC_PARAMETER_Unmarshal
     TPMS_ALGORITHM_DETAIL_ECC_a TPMS_ALGORITHM_DETAIL_ECC_a_update Tss2_MU_TPM2B_ECC_PARAMETER_Unmarshal
     TPMS_ALGORITHM_DETAIL_ECC_b TPMS_ALGORITHM_DETAIL_ECC_b_update Tss2_MU_TPM2B_ECC_PARAMETER_Unmarshal
     TPMS_ALGORITHM_DETAIL_ECC_gX TPMS_ALGORITHM_DETAIL_ECC_gX_update Tss2_MU_TPM2B_ECC_PARAMETER_Unmarshal
     TPMS_ALGORITHM_DETAIL_ECC_gY TPMS_ALGORITHM_DETAIL_ECC_gY_update Tss2_MU_TPM2B_ECC_PARAMETER_Unmarshal
     TPMS_ALGORITHM_DETAIL_ECC_n TPMS_ALGORITHM_DETAIL_ECC_n_update Tss2_MU_TPM2B_ECC_PARAMETER_Unmarshal
     TPMS_ALGORITHM_DETAIL_ECC_h TPMS_ALGORITHM_DETAIL_ECC_h_update Tss2_MU_TPM2B_ECC_PARAMETER_Unmarshal"

definition src_TPMS_ALGORITHM_DETAIL_ECC :: "TPMS_ALGORITHM_DETAIL_ECC \<Rightarrow> bool" where
  "src_TPMS_ALGORITHM_DETAIL_ECC s \<longleftrightarrow> src_TPMT_KDF_SCHEME (TPMS_ALGORITHM_DETAIL_ECC_kdf s) \<and>
     src_TPMT_ECC_SCHEME (TPMS_ALGORITHM_DETAIL_ECC_sign s) \<and>
     (src_TPM2B 130 128) (TPMS_ALGORITHM_DETAIL_ECC_p s) \<and>
     (src_TPM2B 130 128) (TPMS_ALGORITHM_DETAIL_ECC_a s) \<and>
     (src_TPM2B 130 128) (TPMS_ALGORITHM_DETAIL_ECC_b s) \<and>
     (src_TPM2B 130 128) (TPMS_ALGORITHM_DETAIL_ECC_gX s) \<and>
     (src_TPM2B 130 128) (TPMS_ALGORITHM_DETAIL_ECC_gY s) \<and>
     (src_TPM2B 130 128) (TPMS_ALGORITHM_DETAIL_ECC_n s) \<and>
     (src_TPM2B 130 128) (TPMS_ALGORITHM_DETAIL_ECC_h s)"

definition valid_TPMS_ALGORITHM_DETAIL_ECC :: "TPMS_ALGORITHM_DETAIL_ECC \<Rightarrow> bool" where
  "valid_TPMS_ALGORITHM_DETAIL_ECC s \<longleftrightarrow> valid_TPMT_KDF_SCHEME (TPMS_ALGORITHM_DETAIL_ECC_kdf s) \<and>
     valid_TPMT_ECC_SCHEME (TPMS_ALGORITHM_DETAIL_ECC_sign s) \<and>
     (valid_TPM2B 128) (TPMS_ALGORITHM_DETAIL_ECC_p s) \<and>
     (valid_TPM2B 128) (TPMS_ALGORITHM_DETAIL_ECC_a s) \<and>
     (valid_TPM2B 128) (TPMS_ALGORITHM_DETAIL_ECC_b s) \<and>
     (valid_TPM2B 128) (TPMS_ALGORITHM_DETAIL_ECC_gX s) \<and>
     (valid_TPM2B 128) (TPMS_ALGORITHM_DETAIL_ECC_gY s) \<and>
     (valid_TPM2B 128) (TPMS_ALGORITHM_DETAIL_ECC_n s) \<and>
     (valid_TPM2B 128) (TPMS_ALGORITHM_DETAIL_ECC_h s)"

definition wire_TPMS_ALGORITHM_DETAIL_ECC :: "TPMS_ALGORITHM_DETAIL_ECC \<Rightarrow> BYTE list" where
  "wire_TPMS_ALGORITHM_DETAIL_ECC s = be_bytes (TPMS_ALGORITHM_DETAIL_ECC_curveID s) @
     be_bytes (TPMS_ALGORITHM_DETAIL_ECC_keySize s) @
     wire_TPMT_KDF_SCHEME (TPMS_ALGORITHM_DETAIL_ECC_kdf s) @
     wire_TPMT_ECC_SCHEME (TPMS_ALGORITHM_DETAIL_ECC_sign s) @
     wire_TPM2B (TPMS_ALGORITHM_DETAIL_ECC_p s) @
     wire_TPM2B (TPMS_ALGORITHM_DETAIL_ECC_a s) @
     wire_TPM2B (TPMS_ALGORITHM_DETAIL_ECC_b s) @
     wire_TPM2B (TPMS_ALGORITHM_DETAIL_ECC_gX s) @
     wire_TPM2B (TPMS_ALGORITHM_DETAIL_ECC_gY s) @
     wire_TPM2B (TPMS_ALGORITHM_DETAIL_ECC_n s) @
     wire_TPM2B (TPMS_ALGORITHM_DETAIL_ECC_h s)"

lemma marshaler_TPMS_ALGORITHM_DETAIL_ECC:
  "marshaler (\<lambda>s. Tss2_MU_TPMS_ALGORITHM_DETAIL_ECC_Marshal (Some s)) src_TPMS_ALGORITHM_DETAIL_ECC valid_TPMS_ALGORITHM_DETAIL_ECC wire_TPMS_ALGORITHM_DETAIL_ECC 924"
  unfolding Tss2_MU_TPMS_ALGORITHM_DETAIL_ECC_Marshal_def struct_marshal_defs
  by (rule marshaler_cong,
      (rule marshaler_Cons marshaler_Nil marshaler_VAL [OF mu_UINT16.marshaler_axioms]
        marshaler_ADDR [OF mu_TPMT_KDF_SCHEME.marshaler_axioms]
        marshaler_ADDR [OF mu_TPMT_ECC_SCHEME.marshaler_axioms]
        marshaler_ADDR [OF mu_TPM2B_ECC_PARAMETER.marshaler_axioms])+)
    (simp_all add: src_TPMS_ALGORITHM_DETAIL_ECC_def valid_TPMS_ALGORITHM_DETAIL_ECC_def wire_TPMS_ALGORITHM_DETAIL_ECC_def)

lemma unmarshaler_TPMS_ALGORITHM_DETAIL_ECC:
  "strict_unmarshaler Tss2_MU_TPMS_ALGORITHM_DETAIL_ECC_Unmarshal wt_TPMS_ALGORITHM_DETAIL_ECC valid_TPMS_ALGORITHM_DETAIL_ECC wire_TPMS_ALGORITHM_DETAIL_ECC"
  unfolding Tss2_MU_TPMS_ALGORITHM_DETAIL_ECC_Unmarshal_def struct_unmarshal_defs
  by (rule strict_unmarshaler_cong, rule strict_unmarshaler_struct,
      rule useq_ok_Cons,
      rule useq_ok_FLD(1) [OF mu_UINT16.strict_unmarshaler_axioms], simp,
      rule useq_ok_Cons,
      rule useq_ok_FLD(1) [OF mu_UINT16.strict_unmarshaler_axioms], simp,
      rule useq_ok_Cons,
      rule useq_ok_FLD(1) [OF mu_TPMT_KDF_SCHEME.strict_unmarshaler_axioms], simp,
      rule useq_ok_Cons,
      rule useq_ok_FLD(1) [OF mu_TPMT_ECC_SCHEME.strict_unmarshaler_axioms], simp,
      rule useq_ok_Cons,
      rule useq_ok_FLD(1) [OF mu_TPM2B_ECC_PARAMETER.strict_unmarshaler_axioms], simp,
      rule useq_ok_Cons,
      rule useq_ok_FLD(1) [OF mu_TPM2B_ECC_PARAMETER.strict_unmarshaler_axioms], simp,
      rule useq_ok_Cons,
      rule useq_ok_FLD(1) [OF mu_TPM2B_ECC_PARAMETER.strict_unmarshaler_axioms], simp,
      rule useq_ok_Cons,
      rule useq_ok_FLD(1) [OF mu_TPM2B_ECC_PARAMETER.strict_unmarshaler_axioms], simp,
      rule useq_ok_Cons,
      rule useq_ok_FLD(1) [OF mu_TPM2B_ECC_PARAMETER.strict_unmarshaler_axioms], simp,
      rule useq_ok_Cons,
      rule useq_ok_FLD(1) [OF mu_TPM2B_ECC_PARAMETER.strict_unmarshaler_axioms], simp,
      rule useq_ok_Cons,
      rule useq_ok_FLD(1) [OF mu_TPM2B_ECC_PARAMETER.strict_unmarshaler_axioms], simp,
      rule useq_ok_Nil)
    (simp_all add: keeps_simps be_bytes_inject wt_TPMS_ALGORITHM_DETAIL_ECC_def valid_TPMS_ALGORITHM_DETAIL_ECC_def wire_TPMS_ALGORITHM_DETAIL_ECC_def wt_zero_TPMS_ALGORITHM_DETAIL_ECC [unfolded wt_TPMS_ALGORITHM_DETAIL_ECC_def])

interpretation mu_TPMS_ALGORITHM_DETAIL_ECC: codec "\<lambda>s. Tss2_MU_TPMS_ALGORITHM_DETAIL_ECC_Marshal (Some s)"
  "src_TPMS_ALGORITHM_DETAIL_ECC" "valid_TPMS_ALGORITHM_DETAIL_ECC" "wire_TPMS_ALGORITHM_DETAIL_ECC" "924" Tss2_MU_TPMS_ALGORITHM_DETAIL_ECC_Unmarshal "wt_TPMS_ALGORITHM_DETAIL_ECC" "valid_TPMS_ALGORITHM_DETAIL_ECC"
  by (rule codecI [OF marshaler_TPMS_ALGORITHM_DETAIL_ECC unmarshaler_TPMS_ALGORITHM_DETAIL_ECC])

definition Tss2_MU_TPML_ALG_PROPERTY_Marshal :: "TPML_ALG_PROPERTY option mfun" where
  "Tss2_MU_TPML_ALG_PROPERTY_Marshal = TPML_MARSHAL (TPM2_MAX_CAP_ALGS) (ADDR (\<lambda>x. x) Tss2_MU_TPMS_ALG_PROPERTY_Marshal)"

definition Tss2_MU_TPML_ALG_PROPERTY_Unmarshal :: "TPML_ALG_PROPERTY ufun" where
  "Tss2_MU_TPML_ALG_PROPERTY_Unmarshal = TPML_UNMARSHAL (TPM2_MAX_CAP_ALGS) zero_TPMS_ALG_PROPERTY Tss2_MU_TPMS_ALG_PROPERTY_Unmarshal"

interpretation mu_TPML_ALG_PROPERTY: codec "\<lambda>s. Tss2_MU_TPML_ALG_PROPERTY_Marshal (Some s)"
  "(src_TPML 127 src_TPMS_ALG_PROPERTY)" "(valid_TPML 127 valid_TPMS_ALG_PROPERTY)" "(wire_TPML wire_TPMS_ALG_PROPERTY)" "766" Tss2_MU_TPML_ALG_PROPERTY_Unmarshal "(wt_TPML 127 wt_TPMS_ALG_PROPERTY)" "(valid_TPML 127 valid_TPMS_ALG_PROPERTY)"
  using codecI [OF marshaler_TPML [of "ADDR (\<lambda>x. x) Tss2_MU_TPMS_ALG_PROPERTY_Marshal", OF marshaler_ADDR [OF mu_TPMS_ALG_PROPERTY.marshaler_axioms], of 127] strict_unmarshaler_TPML [where zero = "zero_TPMS_ALG_PROPERTY" and N = 127, OF mu_TPMS_ALG_PROPERTY.strict_unmarshaler_axioms]]
  by (simp add: Tss2_MU_TPML_ALG_PROPERTY_Marshal_def Tss2_MU_TPML_ALG_PROPERTY_Unmarshal_def)

definition Tss2_MU_TPML_HANDLE_Marshal :: "TPML_HANDLE option mfun" where
  "Tss2_MU_TPML_HANDLE_Marshal = TPML_MARSHAL (TPM2_MAX_CAP_HANDLES) (VAL (\<lambda>x. x) Tss2_MU_UINT32_Marshal)"

definition Tss2_MU_TPML_HANDLE_Unmarshal :: "TPML_HANDLE ufun" where
  "Tss2_MU_TPML_HANDLE_Unmarshal = TPML_UNMARSHAL (TPM2_MAX_CAP_HANDLES) 0 Tss2_MU_UINT32_Unmarshal"

interpretation mu_TPML_HANDLE: codec "\<lambda>s. Tss2_MU_TPML_HANDLE_Marshal (Some s)"
  "(src_TPML 254 (\<lambda>_. True))" "(valid_TPML 254 (\<lambda>_. True))" "(wire_TPML be_bytes)" "1020" Tss2_MU_TPML_HANDLE_Unmarshal "(wt_TPML 254 (\<lambda>_. True))" "(valid_TPML 254 (\<lambda>_. True))"
  using codecI [OF marshaler_TPML [of "VAL (\<lambda>x. x) Tss2_MU_UINT32_Marshal", OF marshaler_VAL [OF mu_UINT32.marshaler_axioms], of 254] strict_unmarshaler_TPML [where zero = "0" and N = 254, OF mu_UINT32.strict_unmarshaler_axioms]]
  by (simp add: Tss2_MU_TPML_HANDLE_Marshal_def Tss2_MU_TPML_HANDLE_Unmarshal_def)

definition Tss2_MU_TPML_CCA_Marshal :: "TPML_CCA option mfun" where
  "Tss2_MU_TPML_CCA_Marshal = TPML_MARSHAL (TPM2_MAX_CAP_CC) (VAL (\<lambda>x. x) Tss2_MU_TPMA_CC_Marshal)"

definition Tss2_MU_TPML_CCA_Unmarshal :: "TPML_CCA ufun" where
  "Tss2_MU_TPML_CCA_Unmarshal = TPML_UNMARSHAL (TPM2_MAX_CAP_CC) 0 Tss2_MU_TPMA_CC_Unmarshal"

interpretation mu_TPML_CCA: codec "\<lambda>s. Tss2_MU_TPML_CCA_Marshal (Some s)"
  "(src_TPML 256 (\<lambda>_. True))" "(valid_TPML 256 (\<lambda>_. True))" "(wire_TPML be_bytes)" "1028" Tss2_MU_TPML_CCA_Unmarshal "(wt_TPML 256 (\<lambda>_. True))" "(valid_TPML 256 (\<lambda>_. True))"
  using codecI [OF marshaler_TPML [of "VAL (\<lambda>x. x) Tss2_MU_TPMA_CC_Marshal", OF marshaler_VAL [OF mu_TPMA_CC.marshaler_axioms], of 256] strict_unmarshaler_TPML [where zero = "0" and N = 256, OF mu_TPMA_CC.strict_unmarshaler_axioms]]
  by (simp add: Tss2_MU_TPML_CCA_Marshal_def Tss2_MU_TPML_CCA_Unmarshal_def)

definition Tss2_MU_TPML_CC_Marshal :: "TPML_CC option mfun" where
  "Tss2_MU_TPML_CC_Marshal = TPML_MARSHAL (TPM2_MAX_CAP_CC) (VAL (\<lambda>x. x) Tss2_MU_TPM2_CC_Marshal)"

definition Tss2_MU_TPML_CC_Unmarshal :: "TPML_CC ufun" where
  "Tss2_MU_TPML_CC_Unmarshal = TPML_UNMARSHAL (TPM2_MAX_CAP_CC) 0 Tss2_MU_TPM2_CC_Unmarshal"

interpretation mu_TPML_CC: codec "\<lambda>s. Tss2_MU_TPML_CC_Marshal (Some s)"
  "(src_TPML 256 (\<lambda>_. True))" "(valid_TPML 256 (\<lambda>_. True))" "(wire_TPML be_bytes)" "1028" Tss2_MU_TPML_CC_Unmarshal "(wt_TPML 256 (\<lambda>_. True))" "(valid_TPML 256 (\<lambda>_. True))"
  using codecI [OF marshaler_TPML [of "VAL (\<lambda>x. x) Tss2_MU_TPM2_CC_Marshal", OF marshaler_VAL [OF mu_TPM2_CC.marshaler_axioms], of 256] strict_unmarshaler_TPML [where zero = "0" and N = 256, OF mu_TPM2_CC.strict_unmarshaler_axioms]]
  by (simp add: Tss2_MU_TPML_CC_Marshal_def Tss2_MU_TPML_CC_Unmarshal_def)

definition Tss2_MU_TPML_TAGGED_TPM_PROPERTY_Marshal :: "TPML_TAGGED_TPM_PROPERTY option mfun" where
  "Tss2_MU_TPML_TAGGED_TPM_PROPERTY_Marshal = TPML_MARSHAL (TPM2_MAX_TPM_PROPERTIES) (ADDR (\<lambda>x. x) Tss2_MU_TPMS_TAGGED_PROPERTY_Marshal)"

definition Tss2_MU_TPML_TAGGED_TPM_PROPERTY_Unmarshal :: "TPML_TAGGED_TPM_PROPERTY ufun" where
  "Tss2_MU_TPML_TAGGED_TPM_PROPERTY_Unmarshal = TPML_UNMARSHAL (TPM2_MAX_TPM_PROPERTIES) zero_TPMS_TAGGED_PROPERTY Tss2_MU_TPMS_TAGGED_PROPERTY_Unmarshal"

interpretation mu_TPML_TAGGED_TPM_PROPERTY: codec "\<lambda>s. Tss2_MU_TPML_TAGGED_TPM_PROPERTY_Marshal (Some s)"
  "(src_TPML 127 src_TPMS_TAGGED_PROPERTY)" "(valid_TPML 127 valid_TPMS_TAGGED_PROPERTY)" "(wire_TPML wire_TPMS_TAGGED_PROPERTY)" "1020" Tss2_MU_TPML_TAGGED_TPM_PROPERTY_Unmarshal "(wt_TPML 127 wt_TPMS_TAGGED_PROPERTY)" "(valid_TPML 127 valid_TPMS_TAGGED_PROPERTY)"
  using codecI [OF marshaler_TPML [of "ADDR (\<lambda>x. x) Tss2_MU_TPMS_TAGGED_PROPERTY_Marshal", OF marshaler_ADDR [OF mu_TPMS_TAGGED_PROPERTY.marshaler_axioms], of 127] strict_unmarshaler_TPML [where zero = "zero_TPMS_TAGGED_PROPERTY" and N = 127, OF mu_TPMS_TAGGED_PROPERTY.strict_unmarshaler_axioms]]
  by (simp add: Tss2_MU_TPML_TAGGED_TPM_PROPERTY_Marshal_def Tss2_MU_TPML_TAGGED_TPM_PROPERTY_Unmarshal_def)

definition Tss2_MU_TPML_TAGGED_PCR_PROPERTY_Marshal :: "TPML_TAGGED_PCR_PROPERTY option mfun" where
  "Tss2_MU_TPML_TAGGED_PCR_PROPERTY_Marshal = TPML_MARSHAL (TPM2_MAX_PCR_PROPERTIES) (ADDR (\<lambda>x. x) Tss2_MU_TPMS_TAGGED_PCR_SELECT_Marshal)"

definition Tss2_MU_TPML_TAGGED_PCR_PROPERTY_Unmarshal :: "TPML_TAGGED_PCR_PROPERTY ufun" where
  "Tss2_MU_TPML_TAGGED_PCR_PROPERTY_Unmarshal = TPML_UNMARSHAL (TPM2_MAX_PCR_PROPERTIES) zero_TPMS_TAGGED_PCR_SELECT Tss2_MU_TPMS_TAGGED_PCR_SELECT_Unmarshal"

interpretation mu_TPML_TAGGED_PCR_PROPERTY: codec "\<lambda>s. Tss2_MU_TPML_TAGGED_PCR_PROPERTY_Marshal (Some s)"
  "(src_TPML 84 src_TPMS_TAGGED_PCR_SELECT)" "(valid_TPML 84 valid_TPMS_TAGGED_PCR_SELECT)" "(wire_TPML wire_TPMS_TAGGED_PCR_SELECT)" "760" Tss2_MU_TPML_TAGGED_PCR_PROPERTY_Unmarshal "(wt_TPML 84 wt_TPMS_TAGGED_PCR_SELECT)" "(valid_TPML 84 valid_TPMS_TAGGED_PCR_SELECT)"
  using codecI [OF marshaler_TPML [of "ADDR (\<lambda>x. x) Tss2_MU_TPMS_TAGGED_PCR_SELECT_Marshal", OF marshaler_ADDR [OF mu_TPMS_TAGGED_PCR_SELECT.marshaler_axioms], of 84] strict_unmarshaler_TPML [where zero = "zero_TPMS_TAGGED_PCR_SELECT" and N = 84, OF mu_TPMS_TAGGED_PCR_SELECT.strict_unmarshaler_axioms]]
  by (simp add: Tss2_MU_TPML_TAGGED_PCR_PROPERTY_Marshal_def Tss2_MU_TPML_TAGGED_PCR_PROPERTY_Unmarshal_def)

definition Tss2_MU_TPML_ECC_CURVE_Marshal :: "TPML_ECC_CURVE option mfun" where
  "Tss2_MU_TPML_ECC_CURVE_Marshal = TPML_MARSHAL (TPM2_MAX_ECC_CURVES) (VAL (\<lambda>x. x) Tss2_MU_UINT16_Marshal)"

definition Tss2_MU_TPML_ECC_CURVE_Unmarshal :: "TPML_ECC_CURVE ufun" where
  "Tss2_MU_TPML_ECC_CURVE_Unmarshal = TPML_UNMARSHAL (TPM2_MAX_ECC_CURVES) 0 Tss2_MU_UINT16_Unmarshal"

interpretation mu_TPML_ECC_CURVE: codec "\<lambda>s. Tss2_MU_TPML_ECC_CURVE_Marshal (Some s)"
  "(src_TPML 508 (\<lambda>_. True))" "(valid_TPML 508 (\<lambda>_. True))" "(wire_TPML be_bytes)" "1020" Tss2_MU_TPML_ECC_CURVE_Unmarshal "(wt_TPML 508 (\<lambda>_. True))" "(valid_TPML 508 (\<lambda>_. True))"
  using codecI [OF marshaler_TPML [of "VAL (\<lambda>x. x) Tss2_MU_UINT16_Marshal", OF marshaler_VAL [OF mu_UINT16.marshaler_axioms], of 508] strict_unmarshaler_TPML [where zero = "0" and N = 508, OF mu_UINT16.strict_unmarshaler_axioms]]
  by (simp add: Tss2_MU_TPML_ECC_CURVE_Marshal_def Tss2_MU_TPML_ECC_CURVE_Unmarshal_def)

definition Tss2_MU_TPML_TAGGED_POLICY_Marshal :: "TPML_TAGGED_POLICY option mfun" where
  "Tss2_MU_TPML_TAGGED_POLICY_Marshal = TPML_MARSHAL (TPM2_MAX_TAGGED_POLICIES) (ADDR (\<lambda>x. x) Tss2_MU_TPMS_TAGGED_POLICY_Marshal)"

definition Tss2_MU_TPML_TAGGED_POLICY_Unmarshal :: "TPML_TAGGED_POLICY ufun" where
  "Tss2_MU_TPML_TAGGED_POLICY_Unmarshal = TPML_UNMARSHAL (TPM2_MAX_TAGGED_POLICIES) zero_TPMS_TAGGED_POLICY Tss2_MU_TPMS_TAGGED_POLICY_Unmarshal"

interpretation mu_TPML_TAGGED_POLICY: codec "\<lambda>s. Tss2_MU_TPML_TAGGED_POLICY_Marshal (Some s)"
  "(src_TPML 14 src_TPMS_TAGGED_POLICY)" "(valid_TPML 14 valid_TPMS_TAGGED_POLICY)" "(wire_TPML wire_TPMS_TAGGED_POLICY)" "984" Tss2_MU_TPML_TAGGED_POLICY_Unmarshal "(wt_TPML 14 wt_TPMS_TAGGED_POLICY)" "(valid_TPML 14 valid_TPMS_TAGGED_POLICY)"
  using codecI [OF marshaler_TPML [of "ADDR (\<lambda>x. x) Tss2_MU_TPMS_TAGGED_POLICY_Marshal", OF marshaler_ADDR [OF mu_TPMS_TAGGED_POLICY.marshaler_axioms], of 14] strict_unmarshaler_TPML [where zero = "zero_TPMS_TAGGED_POLICY" and N = 14, OF mu_TPMS_TAGGED_POLICY.strict_unmarshaler_axioms]]
  by (simp add: Tss2_MU_TPML_TAGGED_POLICY_Marshal_def Tss2_MU_TPML_TAGGED_POLICY_Unmarshal_def)

definition Tss2_MU_TPMS_ACT_DATA_Marshal :: "TPMS_ACT_DATA option mfun" where
  "Tss2_MU_TPMS_ACT_DATA_Marshal = TPMS_MARSHAL_3
     (VAL TPMS_ACT_DATA_handle Tss2_MU_TPM2_HANDLE_Marshal)
     (VAL TPMS_ACT_DATA_timeout Tss2_MU_UINT32_Marshal)
     (VAL TPMS_ACT_DATA_attributes Tss2_MU_UINT32_Marshal)"

definition Tss2_MU_TPMS_ACT_DATA_Unmarshal :: "TPMS_ACT_DATA ufun" where
  "Tss2_MU_TPMS_ACT_DATA_Unmarshal = TPMS_UNMARSHAL_3 zero_TPMS_ACT_DATA
     TPMS_ACT_DATA_handle TPMS_ACT_DATA_handle_update Tss2_MU_TPM2_HANDLE_Unmarshal
     TPMS_ACT_DATA_timeout TPMS_ACT_DATA_timeout_update Tss2_MU_UINT32_Unmarshal
     TPMS_ACT_DATA_attributes TPMS_ACT_DATA_attributes_update Tss2_MU_UINT32_Unmarshal"

definition src_TPMS_ACT_DATA :: "TPMS_ACT_DATA \<Rightarrow> bool" where
  "src_TPMS_ACT_DATA s \<longleftrightarrow> True"

definition valid_TPMS_ACT_DATA :: "TPMS_ACT_DATA \<Rightarrow> bool" where
  "valid_TPMS_ACT_DATA s \<longleftrightarrow> True"

definition wire_TPMS_ACT_DATA :: "TPMS_ACT_DATA \<Rightarrow> BYTE list" where
  "wire_TPMS_ACT_DATA s = be_bytes (TPMS_ACT_DATA_handle s) @
     be_bytes (TPMS_ACT_DATA_timeout s) @
     be_bytes (TPMS_ACT_DATA_attributes s)"

lemma marshaler_TPMS_ACT_DATA:
  "marshaler (\<lambda>s. Tss2_MU_TPMS_ACT_DATA_Marshal (Some s)) src_TPMS_ACT_DATA valid_TPMS_ACT_DATA wire_TPMS_ACT_DATA 12"
  unfolding Tss2_MU_TPMS_ACT_DATA_Marshal_def struct_marshal_defs
  by (rule marshaler_cong,
      (rule marshaler_Cons marshaler_Nil marshaler_VAL [OF mu_TPM2_HANDLE.marshaler_axioms]
        marshaler_VAL [OF mu_UINT32.marshaler_axioms])+)
    (simp_all add: src_TPMS_ACT_DATA_def valid_TPMS_ACT_DATA_def wire_TPMS_ACT_DATA_def)

lemma unmarshaler_TPMS_ACT_DATA:
  "strict_unmarshaler Tss2_MU_TPMS_ACT_DATA_Unmarshal wt_TPMS_ACT_DATA valid_TPMS_ACT_DATA wire_TPMS_ACT_DATA"
  unfolding Tss2_MU_TPMS_ACT_DATA_Unmarshal_def struct_unmarshal_defs
  by (rule strict_unmarshaler_cong, rule strict_unmarshaler_struct,
      rule useq_ok_Cons,
      rule useq_ok_FLD(1) [OF mu_TPM2_HANDLE.strict_unmarshaler_axioms], simp,
      rule useq_ok_Cons,
      rule useq_ok_FLD(1) [OF mu_UINT32.strict_unmarshaler_axioms], simp,
      rule useq_ok_Cons,
      rule useq_ok_FLD(1) [OF mu_UINT32.strict_unmarshaler_axioms], simp,
      rule useq_ok_Nil)
    (simp_all add: keeps_simps be_bytes_inject wt_TPMS_ACT_DATA_def valid_TPMS_ACT_DATA_def wire_TPMS_ACT_DATA_def wt_zero_TPMS_ACT_DATA [unfolded wt_TPMS_ACT_DATA_def])

interpretation mu_TPMS_ACT_DATA: codec "\<lambda>s. Tss2_MU_TPMS_ACT_DATA_Marshal (Some s)"
  "src_TPMS_ACT_DATA" "valid_TPMS_ACT_DATA" "wire_TPMS_ACT_DATA" "12" Tss2_MU_TPMS_ACT_DATA_Unmarshal "wt_TPMS_ACT_DATA" "valid_TPMS_ACT_DATA"
  by (rule codecI [OF marshaler_TPMS_ACT_DATA unmarshaler_TPMS_ACT_DATA])

definition Tss2_MU_TPML_ACT_DATA_Marshal :: "TPML_ACT_DATA option mfun" where
  "Tss2_MU_TPML_ACT_DATA_Marshal = TPML_MARSHAL (TPM2_MAX_ACT_DATA) (ADDR (\<lambda>x. x) Tss2_MU_TPMS_ACT_DATA_Marshal)"

definition Tss2_MU_TPML_ACT_DATA_Unmarshal :: "TPML_ACT_DATA ufun" where
  "Tss2_MU_TPML_ACT_DATA_Unmarshal = TPML_UNMARSHAL (TPM2_MAX_ACT_DATA) zero_TPMS_ACT_DATA Tss2_MU_TPMS_ACT_DATA_Unmarshal"

interpretation mu_TPML_ACT_DATA: codec "\<lambda>s. Tss2_MU_TPML_ACT_DATA_Marshal (Some s)"
  "(src_TPML 84 src_TPMS_ACT_DATA)" "(valid_TPML 84 valid_TPMS_ACT_DATA)" "(wire_TPML wire_TPMS_ACT_DATA)" "1012" Tss2_MU_TPML_ACT_DATA_Unmarshal "(wt_TPML 84 wt_TPMS_ACT_DATA)" "(valid_TPML 84 valid_TPMS_ACT_DATA)"
  using codecI [OF marshaler_TPML [of "ADDR (\<lambda>x. x) Tss2_MU_TPMS_ACT_DATA_Marshal", OF marshaler_ADDR [OF mu_TPMS_ACT_DATA.marshaler_axioms], of 84] strict_unmarshaler_TPML [where zero = "zero_TPMS_ACT_DATA" and N = 84, OF mu_TPMS_ACT_DATA.strict_unmarshaler_axioms]]
  by (simp add: Tss2_MU_TPML_ACT_DATA_Marshal_def Tss2_MU_TPML_ACT_DATA_Unmarshal_def)

definition Tss2_MU_TPMU_CAPABILITIES_Marshal :: "TPMU_CAPABILITIES option \<Rightarrow> UINT32 \<Rightarrow> buf option \<Rightarrow> size_t \<Rightarrow> size_t option \<Rightarrow> mres" where
  "Tss2_MU_TPMU_CAPABILITIES_Marshal = TPMU_MARSHAL2
    [(TPM2_CAP_ALGS, U_ADDR get_TPMU_CAPABILITIES_algorithms Tss2_MU_TPML_ALG_PROPERTY_Marshal),
     (TPM2_CAP_HANDLES, U_ADDR get_TPMU_CAPABILITIES_handles Tss2_MU_TPML_HANDLE_Marshal),
     (TPM2_CAP_COMMANDS, U_ADDR get_TPMU_CAPABILITIES_command Tss2_MU_TPML_CCA_Marshal),
     (TPM2_CAP_PP_COMMANDS, U_ADDR get_TPMU_CAPABILITIES_ppCommands Tss2_MU_TPML_CC_Marshal),
     (TPM2_CAP_AUDIT_COMMANDS, U_ADDR get_TPMU_CAPABILITIES_auditCommands Tss2_MU_TPML_CC_Marshal),
     (TPM2_CAP_PCRS, U_ADDR get_TPMU_CAPABILITIES_assignedPCR Tss2_MU_TPML_PCR_SELECTION_Marshal),
     (TPM2_CAP_TPM_PROPERTIES, U_ADDR get_TPMU_CAPABILITIES_tpmProperties Tss2_MU_TPML_TAGGED_TPM_PROPERTY_Marshal),
     (TPM2_CAP_PCR_PROPERTIES, U_ADDR get_TPMU_CAPABILITIES_pcrProperties Tss2_MU_TPML_TAGGED_PCR_PROPERTY_Marshal),
     (TPM2_CAP_ECC_CURVES, U_ADDR get_TPMU_CAPABILITIES_eccCurves Tss2_MU_TPML_ECC_CURVE_Marshal),
     (TPM2_CAP_AUTH_POLICIES, U_ADDR get_TPMU_CAPABILITIES_authPolicies Tss2_MU_TPML_TAGGED_POLICY_Marshal),
     (TPM2_CAP_ACT, U_ADDR get_TPMU_CAPABILITIES_actData Tss2_MU_TPML_ACT_DATA_Marshal),
     (TPM2_CAP_VENDOR_PROPERTY, U_ADDR get_TPMU_CAPABILITIES_vendor Tss2_MU_TPM2B_MAX_CAP_BUFFER_Marshal)]"

definition Tss2_MU_TPMU_CAPABILITIES_Unmarshal :: "buf option \<Rightarrow> size_t \<Rightarrow> size_t option \<Rightarrow> UINT32 \<Rightarrow> TPMU_CAPABILITIES option \<Rightarrow> TPMU_CAPABILITIES ures" where
  "Tss2_MU_TPMU_CAPABILITIES_Unmarshal = TPMU_UNMARSHAL2
    [(TPM2_CAP_ALGS, U_MEM get_TPMU_CAPABILITIES_algorithms TPMU_CAPABILITIES_algorithms zero_TPML_ALG_PROPERTY Tss2_MU_TPML_ALG_PROPERTY_Unmarshal),
     (TPM2_CAP_HANDLES, U_MEM get_TPMU_CAPABILITIES_handles TPMU_CAPABILITIES_handles zero_TPML_HANDLE Tss2_MU_TPML_HANDLE_Unmarshal),
     (TPM2_CAP_COMMANDS, U_MEM get_TPMU_CAPABILITIES_command TPMU_CAPABILITIES_command zero_TPML_CCA Tss2_MU_TPML_CCA_Unmarshal),
     (TPM2_CAP_PP_COMMANDS, U_MEM get_TPMU_CAPABILITIES_ppCommands TPMU_CAPABILITIES_ppCommands zero_TPML_CC Tss2_MU_TPML_CC_Unmarshal),
     (TPM2_CAP_AUDIT_COMMANDS, U_MEM get_TPMU_CAPABILITIES_auditCommands TPMU_CAPABILITIES_auditCommands zero_TPML_CC Tss2_MU_TPML_CC_Unmarshal),
     (TPM2_CAP_PCRS, U_MEM get_TPMU_CAPABILITIES_assignedPCR TPMU_CAPABILITIES_assignedPCR zero_TPML_PCR_SELECTION Tss2_MU_TPML_PCR_SELECTION_Unmarshal),
     (TPM2_CAP_TPM_PROPERTIES, U_MEM get_TPMU_CAPABILITIES_tpmProperties TPMU_CAPABILITIES_tpmProperties zero_TPML_TAGGED_TPM_PROPERTY Tss2_MU_TPML_TAGGED_TPM_PROPERTY_Unmarshal),
     (TPM2_CAP_PCR_PROPERTIES, U_MEM get_TPMU_CAPABILITIES_pcrProperties TPMU_CAPABILITIES_pcrProperties zero_TPML_TAGGED_PCR_PROPERTY Tss2_MU_TPML_TAGGED_PCR_PROPERTY_Unmarshal),
     (TPM2_CAP_ECC_CURVES, U_MEM get_TPMU_CAPABILITIES_eccCurves TPMU_CAPABILITIES_eccCurves zero_TPML_ECC_CURVE Tss2_MU_TPML_ECC_CURVE_Unmarshal),
     (TPM2_CAP_AUTH_POLICIES, U_MEM get_TPMU_CAPABILITIES_authPolicies TPMU_CAPABILITIES_authPolicies zero_TPML_TAGGED_POLICY Tss2_MU_TPML_TAGGED_POLICY_Unmarshal),
     (TPM2_CAP_ACT, U_MEM get_TPMU_CAPABILITIES_actData TPMU_CAPABILITIES_actData zero_TPML_ACT_DATA Tss2_MU_TPML_ACT_DATA_Unmarshal),
     (TPM2_CAP_VENDOR_PROPERTY, U_MEM get_TPMU_CAPABILITIES_vendor TPMU_CAPABILITIES_vendor (zero_TPM2B 1024) Tss2_MU_TPM2B_MAX_CAP_BUFFER_Unmarshal)]"

definition spec_TPMU_CAPABILITIES :: "(UINT32 \<times> TPMU_CAPABILITIES mspec) list" where
  "spec_TPMU_CAPABILITIES =
    [(TPM2_CAP_ALGS, member_spec get_TPMU_CAPABILITIES_algorithms (src_TPML 127 src_TPMS_ALG_PROPERTY) (valid_TPML 127 valid_TPMS_ALG_PROPERTY) (wire_TPML wire_TPMS_ALG_PROPERTY)),
     (TPM2_CAP_HANDLES, member_spec get_TPMU_CAPABILITIES_handles (src_TPML 254 (\<lambda>_. True)) (valid_TPML 254 (\<lambda>_. True)) (wire_TPML be_bytes)),
     (TPM2_CAP_COMMANDS, member_spec get_TPMU_CAPABILITIES_command (src_TPML 256 (\<lambda>_. True)) (valid_TPML 256 (\<lambda>_. True)) (wire_TPML be_bytes)),
     (TPM2_CAP_PP_COMMANDS, member_spec get_TPMU_CAPABILITIES_ppCommands (src_TPML 256 (\<lambda>_. True)) (valid_TPML 256 (\<lambda>_. True)) (wire_TPML be_bytes)),
     (TPM2_CAP_AUDIT_COMMANDS, member_spec get_TPMU_CAPABILITIES_auditCommands (src_TPML 256 (\<lambda>_. True)) (valid_TPML 256 (\<lambda>_. True)) (wire_TPML be_bytes)),
     (TPM2_CAP_PCRS, member_spec get_TPMU_CAPABILITIES_assignedPCR (src_TPML 16 src_TPMS_PCR_SELECTION) (valid_TPML 16 valid_TPMS_PCR_SELECTION) (wire_TPML wire_TPMS_PCR_SELECTION)),
     (TPM2_CAP_TPM_PROPERTIES, member_spec get_TPMU_CAPABILITIES_tpmProperties (src_TPML 127 src_TPMS_TAGGED_PROPERTY) (valid_TPML 127 valid_TPMS_TAGGED_PROPERTY) (wire_TPML wire_TPMS_TAGGED_PROPERTY)),
     (TPM2_CAP_PCR_PROPERTIES, member_spec get_TPMU_CAPABILITIES_pcrProperties (src_TPML 84 src_TPMS_TAGGED_PCR_SELECT) (valid_TPML 84 valid_TPMS_TAGGED_PCR_SELECT) (wire_TPML wire_TPMS_TAGGED_PCR_SELECT)),
     (TPM2_CAP_ECC_CURVES, member_spec get_TPMU_CAPABILITIES_eccCurves (src_TPML 508 (\<lambda>_. True)) (valid_TPML 508 (\<lambda>_. True)) (wire_TPML be_bytes)),
     (TPM2_CAP_AUTH_POLICIES, member_spec get_TPMU_CAPABILITIES_authPolicies (src_TPML 14 src_TPMS_TAGGED_POLICY) (valid_TPML 14 valid_TPMS_TAGGED_POLICY) (wire_TPML wire_TPMS_TAGGED_POLICY)),
     (TPM2_CAP_ACT, member_spec get_TPMU_CAPABILITIES_actData (src_TPML 84 src_TPMS_ACT_DATA) (valid_TPML 84 valid_TPMS_ACT_DATA) (wire_TPML wire_TPMS_ACT_DATA)),
     (TPM2_CAP_VENDOR_PROPERTY, member_spec get_TPMU_CAPABILITIES_vendor (src_TPM2B 1026 1024) (valid_TPM2B 1024) wire_TPM2B)]"

abbreviation "src_TPMU_CAPABILITIES \<equiv> src_union spec_TPMU_CAPABILITIES"
abbreviation "valid_TPMU_CAPABILITIES \<equiv> valid_union spec_TPMU_CAPABILITIES"
abbreviation "wire_TPMU_CAPABILITIES \<equiv> wire_union spec_TPMU_CAPABILITIES"

lemma marshaler_TPMU_CAPABILITIES:
  "marshaler (\<lambda>u. Tss2_MU_TPMU_CAPABILITIES_Marshal (Some u) k) (src_TPMU_CAPABILITIES k) (valid_TPMU_CAPABILITIES k) (wire_TPMU_CAPABILITIES k) 1028"
  unfolding Tss2_MU_TPMU_CAPABILITIES_Marshal_def spec_TPMU_CAPABILITIES_def
  by (rule marshaler_TPMU, simp only: entry_rel_simps, intro conjI refl TrueI
      marshals_ADDR [OF mu_TPML_ALG_PROPERTY.marshaler_axioms]
      marshals_ADDR [OF mu_TPML_HANDLE.marshaler_axioms]
      marshals_ADDR [OF mu_TPML_CCA.marshaler_axioms]
      marshals_ADDR [OF mu_TPML_CC.marshaler_axioms]
      marshals_ADDR [OF mu_TPML_PCR_SELECTION.marshaler_axioms]
      marshals_ADDR [OF mu_TPML_TAGGED_TPM_PROPERTY.marshaler_axioms]
      marshals_ADDR [OF mu_TPML_TAGGED_PCR_PROPERTY.marshaler_axioms]
      marshals_ADDR [OF mu_TPML_ECC_CURVE.marshaler_axioms]
      marshals_ADDR [OF mu_TPML_TAGGED_POLICY.marshaler_axioms]
      marshals_ADDR [OF mu_TPML_ACT_DATA.marshaler_axioms]
      marshals_ADDR [OF mu_TPM2B_MAX_CAP_BUFFER.marshaler_axioms])
    (simp_all add: get_TPMU_CAPABILITIES)

lemma unmarshaler_TPMU_CAPABILITIES:
  "strict_unmarshaler (\<lambda>b bs off. Tss2_MU_TPMU_CAPABILITIES_Unmarshal b bs off k) wt_TPMU_CAPABILITIES (valid_TPMU_CAPABILITIES k) (wire_TPMU_CAPABILITIES k)"
  unfolding Tss2_MU_TPMU_CAPABILITIES_Unmarshal_def spec_TPMU_CAPABILITIES_def
  by (rule strict_unmarshaler_TPMU, simp only: entry_rel_simps, intro conjI refl TrueI
      unmarshals_MEM [OF mu_TPML_ALG_PROPERTY.strict_unmarshaler_axioms]
      unmarshals_MEM [OF mu_TPML_HANDLE.strict_unmarshaler_axioms]
      unmarshals_MEM [OF mu_TPML_CCA.strict_unmarshaler_axioms]
      unmarshals_MEM [OF mu_TPML_CC.strict_unmarshaler_axioms]
      unmarshals_MEM [OF mu_TPML_PCR_SELECTION.strict_unmarshaler_axioms]
      unmarshals_MEM [OF mu_TPML_TAGGED_TPM_PROPERTY.strict_unmarshaler_axioms]
      unmarshals_MEM [OF mu_TPML_TAGGED_PCR_PROPERTY.strict_unmarshaler_axioms]
      unmarshals_MEM [OF mu_TPML_ECC_CURVE.strict_unmarshaler_axioms]
      unmarshals_MEM [OF mu_TPML_TAGGED_POLICY.strict_unmarshaler_axioms]
      unmarshals_MEM [OF mu_TPML_ACT_DATA.strict_unmarshaler_axioms]
      unmarshals_MEM [OF mu_TPM2B_MAX_CAP_BUFFER.strict_unmarshaler_axioms])
    (simp_all add: get_TPMU_CAPABILITIES)

interpretation mu_TPMU_CAPABILITIES: codec "\<lambda>u. Tss2_MU_TPMU_CAPABILITIES_Marshal (Some u) k" "src_TPMU_CAPABILITIES k" "valid_TPMU_CAPABILITIES k" "wire_TPMU_CAPABILITIES k" "1028"
  "\<lambda>b bs off. Tss2_MU_TPMU_CAPABILITIES_Unmarshal b bs off k" wt_TPMU_CAPABILITIES "valid_TPMU_CAPABILITIES k" for k
  by (rule codecI [OF marshaler_TPMU_CAPABILITIES unmarshaler_TPMU_CAPABILITIES])

definition Tss2_MU_TPMS_CAPABILITY_DATA_Marshal :: "TPMS_CAPABILITY_DATA option mfun" where
  "Tss2_MU_TPMS_CAPABILITY_DATA_Marshal = TPMS_MARSHAL_2_U
     (VAL TPMS_CAPABILITY_DATA_capability Tss2_MU_UINT32_Marshal)
     (ADDR_SEL (\<lambda>s. ucast (TPMS_CAPABILITY_DATA_capability s)) TPMS_CAPABILITY_DATA_data Tss2_MU_TPMU_CAPABILITIES_Marshal)"

definition Tss2_MU_TPMS_CAPABILITY_DATA_Unmarshal :: "TPMS_CAPABILITY_DATA ufun" where
  "Tss2_MU_TPMS_CAPABILITY_DATA_Unmarshal = TPMS_UNMARSHAL_2_U zero_TPMS_CAPABILITY_DATA
     TPMS_CAPABILITY_DATA_capability TPMS_CAPABILITY_DATA_capability_update Tss2_MU_UINT32_Unmarshal
     TPMS_CAPABILITY_DATA_data TPMS_CAPABILITY_DATA_data_update (\<lambda>s. ucast (TPMS_CAPABILITY_DATA_capability s)) Tss2_MU_TPMU_CAPABILITIES_Unmarshal"

definition src_TPMS_CAPABILITY_DATA :: "TPMS_CAPABILITY_DATA \<Rightarrow> bool" where
  "src_TPMS_CAPABILITY_DATA s \<longleftrightarrow> src_TPMU_CAPABILITIES (ucast (TPMS_CAPABILITY_DATA_capability s)) (TPMS_CAPABILITY_DATA_data s)"

definition valid_TPMS_CAPABILITY_DATA :: "TPMS_CAPABILITY_DATA \<Rightarrow> bool" where
  "valid_TPMS_CAPABILITY_DATA s \<longleftrightarrow> valid_TPMU_CAPABILITIES (ucast (TPMS_CAPABILITY_DATA_capability s)) (TPMS_CAPABILITY_DATA_data s)"

definition wire_TPMS_CAPABILITY_DATA :: "TPMS_CAPABILITY_DATA \<Rightarrow> BYTE list" where
  "wire_TPMS_CAPABILITY_DATA s = be_bytes (TPMS_CAPABILITY_DATA_capability s) @
     wire_TPMU_CAPABILITIES (ucast (TPMS_CAPABILITY_DATA_capability s)) (TPMS_CAPABILITY_DATA_data s)"

lemma marshaler_TPMS_CAPABILITY_DATA:
  "marshaler (\<lambda>s. Tss2_MU_TPMS_CAPABILITY_DATA_Marshal (Some s)) src_TPMS_CAPABILITY_DATA valid_TPMS_CAPABILITY_DATA wire_TPMS_CAPABILITY_DATA 1032"
  unfolding Tss2_MU_TPMS_CAPABILITY_DATA_Marshal_def struct_marshal_defs
  by (rule marshaler_cong,
      (rule marshaler_Cons marshaler_Nil marshaler_VAL [OF mu_UINT32.marshaler_axioms]
        marshaler_ADDR_SEL [OF marshaler_TPMU_CAPABILITIES])+)
    (simp_all add: src_TPMS_CAPABILITY_DATA_def valid_TPMS_CAPABILITY_DATA_def wire_TPMS_CAPABILITY_DATA_def)

lemma unmarshaler_TPMS_CAPABILITY_DATA:
  "strict_unmarshaler Tss2_MU_TPMS_CAPABILITY_DATA_Unmarshal wt_TPMS_CAPABILITY_DATA valid_TPMS_CAPABILITY_DATA wire_TPMS_CAPABILITY_DATA"
  unfolding Tss2_MU_TPMS_CAPABILITY_DATA_Unmarshal_def struct_unmarshal_defs
  by (rule strict_unmarshaler_cong, rule strict_unmarshaler_struct,
      rule useq_ok_Cons_sel [where sel = "\<lambda>s. ucast (TPMS_CAPABILITY_DATA_capability s)"],
      rule useq_ok_FLD(2) [OF mu_UINT32.strict_unmarshaler_axioms], simp,
      rule useq_ok_Cons,
      rule useq_ok_UNI(1) [OF unmarshaler_TPMU_CAPABILITIES], simp, simp,
      rule useq_ok_Nil)
    (simp_all add: keeps_simps be_bytes_inject wt_TPMS_CAPABILITY_DATA_def valid_TPMS_CAPABILITY_DATA_def wire_TPMS_CAPABILITY_DATA_def wt_zero_TPMS_CAPABILITY_DATA [unfolded wt_TPMS_CAPABILITY_DATA_def])

interpretation mu_TPMS_CAPABILITY_DATA: codec "\<lambda>s. Tss2_MU_TPMS_CAPABILITY_DATA_Marshal (Some s)"
  "src_TPMS_CAPABILITY_DATA" "valid_TPMS_CAPABILITY_DATA" "wire_TPMS_CAPABILITY_DATA" "1032" Tss2_MU_TPMS_CAPABILITY_DATA_Unmarshal "wt_TPMS_CAPABILITY_DATA" "valid_TPMS_CAPABILITY_DATA"
  by (rule codecI [OF marshaler_TPMS_CAPABILITY_DATA unmarshaler_TPMS_CAPABILITY_DATA])


end
