(* ===== verification/MU_Misc.thy ===== *)
theory MU_Misc
  imports MU_Attest
begin

text \<open>
  Signatures, schemes, tickets and the remaining lists.  For each type: its two functions as the macro
  invocation gives them, what a source, a valid value and its wire format are, and the
  interpretation of the codec interface by the functions.
\<close>

section \<open>Signatures, tickets and lists\<close>

definition Tss2_MU_TPMS_EMPTY_Marshal :: "TPMS_EMPTY option mfun" where
  "Tss2_MU_TPMS_EMPTY_Marshal = TPMS_MARSHAL_0"

definition Tss2_MU_TPMS_EMPTY_Unmarshal :: "TPMS_EMPTY ufun" where
  "Tss2_MU_TPMS_EMPTY_Unmarshal = TPMS_UNMARSHAL_0"

interpretation mu_TPMS_EMPTY: codec "\<lambda>s. Tss2_MU_TPMS_EMPTY_Marshal (Some s)"
  "\<lambda>_. True" "\<lambda>_. True" "\<lambda>_. []" "0" Tss2_MU_TPMS_EMPTY_Unmarshal wt_TPMS_EMPTY "\<lambda>_. True"
  by unfold_locales
    (auto simp: Tss2_MU_TPMS_EMPTY_Marshal_def Tss2_MU_TPMS_EMPTY_Unmarshal_def TPMS_MARSHAL_0_def
      TPMS_UNMARSHAL_0_def)

definition Tss2_MU_TPMS_AC_OUTPUT_Marshal :: "TPMS_AC_OUTPUT option mfun" where
  "Tss2_MU_TPMS_AC_OUTPUT_Marshal = TPMS_MARSHAL_2
     (VAL TPMS_AC_OUTPUT_tag Tss2_MU_UINT32_Marshal)
     (VAL TPMS_AC_OUTPUT_data Tss2_MU_UINT32_Marshal)"

definition Tss2_MU_TPMS_AC_OUTPUT_Unmarshal :: "TPMS_AC_OUTPUT ufun" where
  "Tss2_MU_TPMS_AC_OUTPUT_Unmarshal = TPMS_UNMARSHAL_2 zero_TPMS_AC_OUTPUT
     TPMS_AC_OUTPUT_tag TPMS_AC_OUTPUT_tag_update Tss2_MU_UINT32_Unmarshal
     TPMS_AC_OUTPUT_data TPMS_AC_OUTPUT_data_update Tss2_MU_UINT32_Unmarshal"

definition src_TPMS_AC_OUTPUT :: "TPMS_AC_OUTPUT \<Rightarrow> bool" where
  "src_TPMS_AC_OUTPUT s \<longleftrightarrow> True"

definition valid_TPMS_AC_OUTPUT :: "TPMS_AC_OUTPUT \<Rightarrow> bool" where
  "valid_TPMS_AC_OUTPUT s \<longleftrightarrow> True"

definition wire_TPMS_AC_OUTPUT :: "TPMS_AC_OUTPUT \<Rightarrow> BYTE list" where
  "wire_TPMS_AC_OUTPUT s = be_bytes (TPMS_AC_OUTPUT_tag s) @
     be_bytes (TPMS_AC_OUTPUT_data s)"

lemma marshaler_TPMS_AC_OUTPUT:
  "marshaler (\<lambda>s. Tss2_MU_TPMS_AC_OUTPUT_Marshal (Some s)) src_TPMS_AC_OUTPUT valid_TPMS_AC_OUTPUT wire_TPMS_AC_OUTPUT 8"
  unfolding Tss2_MU_TPMS_AC_OUTPUT_Marshal_def struct_marshal_defs
  by (rule marshaler_cong,
      (rule marshaler_Cons marshaler_Nil marshaler_VAL [OF mu_UINT32.marshaler_axioms])+)
    (simp_all add: src_TPMS_AC_OUTPUT_def valid_TPMS_AC_OUTPUT_def wire_TPMS_AC_OUTPUT_def)

lemma unmarshaler_TPMS_AC_OUTPUT:
  "strict_unmarshaler Tss2_MU_TPMS_AC_OUTPUT_Unmarshal wt_TPMS_AC_OUTPUT valid_TPMS_AC_OUTPUT wire_TPMS_AC_OUTPUT"
  unfolding Tss2_MU_TPMS_AC_OUTPUT_Unmarshal_def struct_unmarshal_defs
  by (rule strict_unmarshaler_cong, rule strict_unmarshaler_struct,
      rule useq_ok_Cons,
      rule useq_ok_FLD(1) [OF mu_UINT32.strict_unmarshaler_axioms], simp,
      rule useq_ok_Cons,
      rule useq_ok_FLD(1) [OF mu_UINT32.strict_unmarshaler_axioms], simp,
      rule useq_ok_Nil)
    (simp_all add: keeps_simps be_bytes_inject wt_TPMS_AC_OUTPUT_def valid_TPMS_AC_OUTPUT_def wire_TPMS_AC_OUTPUT_def wt_zero_TPMS_AC_OUTPUT [unfolded wt_TPMS_AC_OUTPUT_def])

interpretation mu_TPMS_AC_OUTPUT: codec "\<lambda>s. Tss2_MU_TPMS_AC_OUTPUT_Marshal (Some s)"
  "src_TPMS_AC_OUTPUT" "valid_TPMS_AC_OUTPUT" "wire_TPMS_AC_OUTPUT" "8" Tss2_MU_TPMS_AC_OUTPUT_Unmarshal "wt_TPMS_AC_OUTPUT" "valid_TPMS_AC_OUTPUT"
  by (rule codecI [OF marshaler_TPMS_AC_OUTPUT unmarshaler_TPMS_AC_OUTPUT])

definition Tss2_MU_TPMS_ID_OBJECT_Marshal :: "TPMS_ID_OBJECT option mfun" where
  "Tss2_MU_TPMS_ID_OBJECT_Marshal = TPMS_MARSHAL_2
     (ADDR TPMS_ID_OBJECT_integrityHMAC Tss2_MU_TPM2B_DIGEST_Marshal)
     (ADDR TPMS_ID_OBJECT_encIdentity Tss2_MU_TPM2B_DIGEST_Marshal)"

definition Tss2_MU_TPMS_ID_OBJECT_Unmarshal :: "TPMS_ID_OBJECT ufun" where
  "Tss2_MU_TPMS_ID_OBJECT_Unmarshal = TPMS_UNMARSHAL_2 zero_TPMS_ID_OBJECT
     TPMS_ID_OBJECT_integrityHMAC TPMS_ID_OBJECT_integrityHMAC_update Tss2_MU_TPM2B_DIGEST_Unmarshal
     TPMS_ID_OBJECT_encIdentity TPMS_ID_OBJECT_encIdentity_update Tss2_MU_TPM2B_DIGEST_Unmarshal"

definition src_TPMS_ID_OBJECT :: "TPMS_ID_OBJECT \<Rightarrow> bool" where
  "src_TPMS_ID_OBJECT s \<longleftrightarrow> (src_TPM2B 66 64) (TPMS_ID_OBJECT_integrityHMAC s) \<and>
     (src_TPM2B 66 64) (TPMS_ID_OBJECT_encIdentity s)"

definition valid_TPMS_ID_OBJECT :: "TPMS_ID_OBJECT \<Rightarrow> bool" where
  "valid_TPMS_ID_OBJECT s \<longleftrightarrow> (valid_TPM2B 64) (TPMS_ID_OBJECT_integrityHMAC s) \<and>
     (valid_TPM2B 64) (TPMS_ID_OBJECT_encIdentity s)"

definition wire_TPMS_ID_OBJECT :: "TPMS_ID_OBJECT \<Rightarrow> BYTE list" where
  "wire_TPMS_ID_OBJECT s = wire_TPM2B (TPMS_ID_OBJECT_integrityHMAC s) @
     wire_TPM2B (TPMS_ID_OBJECT_encIdentity s)"

lemma marshaler_TPMS_ID_OBJECT:
  "marshaler (\<lambda>s. Tss2_MU_TPMS_ID_OBJECT_Marshal (Some s)) src_TPMS_ID_OBJECT valid_TPMS_ID_OBJECT wire_TPMS_ID_OBJECT 132"
  unfolding Tss2_MU_TPMS_ID_OBJECT_Marshal_def struct_marshal_defs
  by (rule marshaler_cong,
      (rule marshaler_Cons marshaler_Nil marshaler_ADDR [OF mu_TPM2B_DIGEST.marshaler_axioms])+)
    (simp_all add: src_TPMS_ID_OBJECT_def valid_TPMS_ID_OBJECT_def wire_TPMS_ID_OBJECT_def)

lemma unmarshaler_TPMS_ID_OBJECT:
  "strict_unmarshaler Tss2_MU_TPMS_ID_OBJECT_Unmarshal wt_TPMS_ID_OBJECT valid_TPMS_ID_OBJECT wire_TPMS_ID_OBJECT"
  unfolding Tss2_MU_TPMS_ID_OBJECT_Unmarshal_def struct_unmarshal_defs
  by (rule strict_unmarshaler_cong, rule strict_unmarshaler_struct,
      rule useq_ok_Cons,
      rule useq_ok_FLD(1) [OF mu_TPM2B_DIGEST.strict_unmarshaler_axioms], simp,
      rule useq_ok_Cons,
      rule useq_ok_FLD(1) [OF mu_TPM2B_DIGEST.strict_unmarshaler_axioms], simp,
      rule useq_ok_Nil)
    (simp_all add: keeps_simps be_bytes_inject wt_TPMS_ID_OBJECT_def valid_TPMS_ID_OBJECT_def wire_TPMS_ID_OBJECT_def wt_zero_TPMS_ID_OBJECT [unfolded wt_TPMS_ID_OBJECT_def])

interpretation mu_TPMS_ID_OBJECT: codec "\<lambda>s. Tss2_MU_TPMS_ID_OBJECT_Marshal (Some s)"
  "src_TPMS_ID_OBJECT" "valid_TPMS_ID_OBJECT" "wire_TPMS_ID_OBJECT" "132" Tss2_MU_TPMS_ID_OBJECT_Unmarshal "wt_TPMS_ID_OBJECT" "valid_TPMS_ID_OBJECT"
  by (rule codecI [OF marshaler_TPMS_ID_OBJECT unmarshaler_TPMS_ID_OBJECT])

definition Tss2_MU_TPMS_NV_DIGEST_CERTIFY_INFO_Marshal :: "TPMS_NV_DIGEST_CERTIFY_INFO option mfun" where
  "Tss2_MU_TPMS_NV_DIGEST_CERTIFY_INFO_Marshal = TPMS_MARSHAL_2
     (ADDR TPMS_NV_DIGEST_CERTIFY_INFO_indexName Tss2_MU_TPM2B_NAME_Marshal)
     (ADDR TPMS_NV_DIGEST_CERTIFY_INFO_nvDigest Tss2_MU_TPM2B_DIGEST_Marshal)"

definition Tss2_MU_TPMS_NV_DIGEST_CERTIFY_INFO_Unmarshal :: "TPMS_NV_DIGEST_CERTIFY_INFO ufun" where
  "Tss2_MU_TPMS_NV_DIGEST_CERTIFY_INFO_Unmarshal = TPMS_UNMARSHAL_2 zero_TPMS_NV_DIGEST_CERTIFY_INFO
     TPMS_NV_DIGEST_CERTIFY_INFO_indexName TPMS_NV_DIGEST_CERTIFY_INFO_indexName_update Tss2_MU_TPM2B_NAME_Unmarshal
     TPMS_NV_DIGEST_CERTIFY_INFO_nvDigest TPMS_NV_DIGEST_CERTIFY_INFO_nvDigest_update Tss2_MU_TPM2B_DIGEST_Unmarshal"

definition src_TPMS_NV_DIGEST_CERTIFY_INFO :: "TPMS_NV_DIGEST_CERTIFY_INFO \<Rightarrow> bool" where
  "src_TPMS_NV_DIGEST_CERTIFY_INFO s \<longleftrightarrow> (src_TPM2B 70 68) (TPMS_NV_DIGEST_CERTIFY_INFO_indexName s) \<and>
     (src_TPM2B 66 64) (TPMS_NV_DIGEST_CERTIFY_INFO_nvDigest s)"

definition valid_TPMS_NV_DIGEST_CERTIFY_INFO :: "TPMS_NV_DIGEST_CERTIFY_INFO \<Rightarrow> bool" where
  "valid_TPMS_NV_DIGEST_CERTIFY_INFO s \<longleftrightarrow> (valid_TPM2B 68) (TPMS_NV_DIGEST_CERTIFY_INFO_indexName s) \<and>
     (valid_TPM2B 64) (TPMS_NV_DIGEST_CERTIFY_INFO_nvDigest s)"

definition wire_TPMS_NV_DIGEST_CERTIFY_INFO :: "TPMS_NV_DIGEST_CERTIFY_INFO \<Rightarrow> BYTE list" where
  "wire_TPMS_NV_DIGEST_CERTIFY_INFO s = wire_TPM2B (TPMS_NV_DIGEST_CERTIFY_INFO_indexName s) @
     wire_TPM2B (TPMS_NV_DIGEST_CERTIFY_INFO_nvDigest s)"

lemma marshaler_TPMS_NV_DIGEST_CERTIFY_INFO:
  "marshaler (\<lambda>s. Tss2_MU_TPMS_NV_DIGEST_CERTIFY_INFO_Marshal (Some s)) src_TPMS_NV_DIGEST_CERTIFY_INFO valid_TPMS_NV_DIGEST_CERTIFY_INFO wire_TPMS_NV_DIGEST_CERTIFY_INFO 136"
  unfolding Tss2_MU_TPMS_NV_DIGEST_CERTIFY_INFO_Marshal_def struct_marshal_defs
  by (rule marshaler_cong,
      (rule marshaler_Cons marshaler_Nil marshaler_ADDR [OF mu_TPM2B_NAME.marshaler_axioms]
        marshaler_ADDR [OF mu_TPM2B_DIGEST.marshaler_axioms])+)
    (simp_all add: src_TPMS_NV_DIGEST_CERTIFY_INFO_def valid_TPMS_NV_DIGEST_CERTIFY_INFO_def wire_TPMS_NV_DIGEST_CERTIFY_INFO_def)

lemma unmarshaler_TPMS_NV_DIGEST_CERTIFY_INFO:
  "strict_unmarshaler Tss2_MU_TPMS_NV_DIGEST_CERTIFY_INFO_Unmarshal wt_TPMS_NV_DIGEST_CERTIFY_INFO valid_TPMS_NV_DIGEST_CERTIFY_INFO wire_TPMS_NV_DIGEST_CERTIFY_INFO"
  unfolding Tss2_MU_TPMS_NV_DIGEST_CERTIFY_INFO_Unmarshal_def struct_unmarshal_defs
  by (rule strict_unmarshaler_cong, rule strict_unmarshaler_struct,
      rule useq_ok_Cons,
      rule useq_ok_FLD(1) [OF mu_TPM2B_NAME.strict_unmarshaler_axioms], simp,
      rule useq_ok_Cons,
      rule useq_ok_FLD(1) [OF mu_TPM2B_DIGEST.strict_unmarshaler_axioms], simp,
      rule useq_ok_Nil)
    (simp_all add: keeps_simps be_bytes_inject wt_TPMS_NV_DIGEST_CERTIFY_INFO_def valid_TPMS_NV_DIGEST_CERTIFY_INFO_def wire_TPMS_NV_DIGEST_CERTIFY_INFO_def wt_zero_TPMS_NV_DIGEST_CERTIFY_INFO [unfolded wt_TPMS_NV_DIGEST_CERTIFY_INFO_def])

interpretation mu_TPMS_NV_DIGEST_CERTIFY_INFO: codec "\<lambda>s. Tss2_MU_TPMS_NV_DIGEST_CERTIFY_INFO_Marshal (Some s)"
  "src_TPMS_NV_DIGEST_CERTIFY_INFO" "valid_TPMS_NV_DIGEST_CERTIFY_INFO" "wire_TPMS_NV_DIGEST_CERTIFY_INFO" "136" Tss2_MU_TPMS_NV_DIGEST_CERTIFY_INFO_Unmarshal "wt_TPMS_NV_DIGEST_CERTIFY_INFO" "valid_TPMS_NV_DIGEST_CERTIFY_INFO"
  by (rule codecI [OF marshaler_TPMS_NV_DIGEST_CERTIFY_INFO unmarshaler_TPMS_NV_DIGEST_CERTIFY_INFO])

definition Tss2_MU_TPMT_SYM_DEF_Marshal :: "TPMT_SYM_DEF option mfun" where
  "Tss2_MU_TPMT_SYM_DEF_Marshal = TPMT_MARSHAL_3
     (VAL TPMT_SYM_DEF_algorithm Tss2_MU_UINT16_Marshal)
     (ADDR_SEL (\<lambda>s. ucast (TPMT_SYM_DEF_algorithm s)) TPMT_SYM_DEF_keyBits Tss2_MU_TPMU_SYM_KEY_BITS_Marshal)
     (ADDR_SEL (\<lambda>s. ucast (TPMT_SYM_DEF_algorithm s)) TPMT_SYM_DEF_mode Tss2_MU_TPMU_SYM_MODE_Marshal)"

definition Tss2_MU_TPMT_SYM_DEF_Unmarshal :: "TPMT_SYM_DEF ufun" where
  "Tss2_MU_TPMT_SYM_DEF_Unmarshal = TPMT_UNMARSHAL_3 zero_TPMT_SYM_DEF
     TPMT_SYM_DEF_algorithm TPMT_SYM_DEF_algorithm_update Tss2_MU_UINT16_Unmarshal
     TPMT_SYM_DEF_keyBits TPMT_SYM_DEF_keyBits_update (\<lambda>s. ucast (TPMT_SYM_DEF_algorithm s)) Tss2_MU_TPMU_SYM_KEY_BITS_Unmarshal
     TPMT_SYM_DEF_mode TPMT_SYM_DEF_mode_update (\<lambda>s. ucast (TPMT_SYM_DEF_algorithm s)) Tss2_MU_TPMU_SYM_MODE_Unmarshal"

definition src_TPMT_SYM_DEF :: "TPMT_SYM_DEF \<Rightarrow> bool" where
  "src_TPMT_SYM_DEF s \<longleftrightarrow> src_TPMU_SYM_KEY_BITS (ucast (TPMT_SYM_DEF_algorithm s)) (TPMT_SYM_DEF_keyBits s) \<and>
     src_TPMU_SYM_MODE (ucast (TPMT_SYM_DEF_algorithm s)) (TPMT_SYM_DEF_mode s)"

definition valid_TPMT_SYM_DEF :: "TPMT_SYM_DEF \<Rightarrow> bool" where
  "valid_TPMT_SYM_DEF s \<longleftrightarrow> valid_TPMU_SYM_KEY_BITS (ucast (TPMT_SYM_DEF_algorithm s)) (TPMT_SYM_DEF_keyBits s) \<and>
     valid_TPMU_SYM_MODE (ucast (TPMT_SYM_DEF_algorithm s)) (TPMT_SYM_DEF_mode s)"

definition wire_TPMT_SYM_DEF :: "TPMT_SYM_DEF \<Rightarrow> BYTE list" where
  "wire_TPMT_SYM_DEF s = be_bytes (TPMT_SYM_DEF_algorithm s) @
     wire_TPMU_SYM_KEY_BITS (ucast (TPMT_SYM_DEF_algorithm s)) (TPMT_SYM_DEF_keyBits s) @
     wire_TPMU_SYM_MODE (ucast (TPMT_SYM_DEF_algorithm s)) (TPMT_SYM_DEF_mode s)"

lemma marshaler_TPMT_SYM_DEF:
  "marshaler (\<lambda>s. Tss2_MU_TPMT_SYM_DEF_Marshal (Some s)) src_TPMT_SYM_DEF valid_TPMT_SYM_DEF wire_TPMT_SYM_DEF 6"
  unfolding Tss2_MU_TPMT_SYM_DEF_Marshal_def struct_marshal_defs
  by (rule marshaler_cong,
      (rule marshaler_Cons marshaler_Nil marshaler_VAL [OF mu_UINT16.marshaler_axioms]
        marshaler_ADDR_SEL [OF marshaler_TPMU_SYM_KEY_BITS]
        marshaler_ADDR_SEL [OF marshaler_TPMU_SYM_MODE])+)
    (simp_all add: src_TPMT_SYM_DEF_def valid_TPMT_SYM_DEF_def wire_TPMT_SYM_DEF_def)

lemma unmarshaler_TPMT_SYM_DEF:
  "strict_unmarshaler Tss2_MU_TPMT_SYM_DEF_Unmarshal wt_TPMT_SYM_DEF valid_TPMT_SYM_DEF wire_TPMT_SYM_DEF"
  unfolding Tss2_MU_TPMT_SYM_DEF_Unmarshal_def struct_unmarshal_defs
  by (rule strict_unmarshaler_cong, rule strict_unmarshaler_struct,
      rule useq_ok_Cons_sel [where sel = "\<lambda>s. ucast (TPMT_SYM_DEF_algorithm s)"],
      rule useq_ok_FLD(2) [OF mu_UINT16.strict_unmarshaler_axioms], simp,
      rule useq_ok_Cons,
      rule useq_ok_UNI(1) [OF unmarshaler_TPMU_SYM_KEY_BITS], simp, simp,
      rule useq_ok_Cons,
      rule useq_ok_UNI(1) [OF unmarshaler_TPMU_SYM_MODE], simp, simp,
      rule useq_ok_Nil)
    (simp_all add: keeps_simps be_bytes_inject wt_TPMT_SYM_DEF_def valid_TPMT_SYM_DEF_def wire_TPMT_SYM_DEF_def wt_zero_TPMT_SYM_DEF [unfolded wt_TPMT_SYM_DEF_def])

interpretation mu_TPMT_SYM_DEF: codec "\<lambda>s. Tss2_MU_TPMT_SYM_DEF_Marshal (Some s)"
  "src_TPMT_SYM_DEF" "valid_TPMT_SYM_DEF" "wire_TPMT_SYM_DEF" "6" Tss2_MU_TPMT_SYM_DEF_Unmarshal "wt_TPMT_SYM_DEF" "valid_TPMT_SYM_DEF"
  by (rule codecI [OF marshaler_TPMT_SYM_DEF unmarshaler_TPMT_SYM_DEF])

definition Tss2_MU_TPMU_SIG_SCHEME_Marshal :: "TPMU_SIG_SCHEME option \<Rightarrow> UINT32 \<Rightarrow> buf option \<Rightarrow> size_t \<Rightarrow> size_t option \<Rightarrow> mres" where
  "Tss2_MU_TPMU_SIG_SCHEME_Marshal = TPMU_MARSHAL2
    [(ucast TPM2_ALG_RSASSA, U_ADDR get_TPMU_SIG_SCHEME_rsassa Tss2_MU_TPMS_SCHEME_HASH_Marshal),
     (ucast TPM2_ALG_RSAPSS, U_ADDR get_TPMU_SIG_SCHEME_rsapss Tss2_MU_TPMS_SCHEME_HASH_Marshal),
     (ucast TPM2_ALG_ECDSA, U_ADDR get_TPMU_SIG_SCHEME_ecdsa Tss2_MU_TPMS_SCHEME_HASH_Marshal),
     (ucast TPM2_ALG_ECDAA, U_ADDR get_TPMU_SIG_SCHEME_ecdaa Tss2_MU_TPMS_SCHEME_ECDAA_Marshal),
     (ucast TPM2_ALG_SM2, U_ADDR get_TPMU_SIG_SCHEME_sm2 Tss2_MU_TPMS_SCHEME_HASH_Marshal),
     (ucast TPM2_ALG_ECSCHNORR, U_ADDR get_TPMU_SIG_SCHEME_ecschnorr Tss2_MU_TPMS_SCHEME_HASH_Marshal),
     (ucast TPM2_ALG_HMAC, U_ADDR get_TPMU_SIG_SCHEME_hmac Tss2_MU_TPMS_SCHEME_HASH_Marshal)]"

definition Tss2_MU_TPMU_SIG_SCHEME_Unmarshal :: "buf option \<Rightarrow> size_t \<Rightarrow> size_t option \<Rightarrow> UINT32 \<Rightarrow> TPMU_SIG_SCHEME option \<Rightarrow> TPMU_SIG_SCHEME ures" where
  "Tss2_MU_TPMU_SIG_SCHEME_Unmarshal = TPMU_UNMARSHAL2
    [(ucast TPM2_ALG_RSASSA, U_MEM get_TPMU_SIG_SCHEME_rsassa TPMU_SIG_SCHEME_rsassa zero_TPMS_SCHEME_HASH Tss2_MU_TPMS_SCHEME_HASH_Unmarshal),
     (ucast TPM2_ALG_RSAPSS, U_MEM get_TPMU_SIG_SCHEME_rsapss TPMU_SIG_SCHEME_rsapss zero_TPMS_SCHEME_HASH Tss2_MU_TPMS_SCHEME_HASH_Unmarshal),
     (ucast TPM2_ALG_ECDSA, U_MEM get_TPMU_SIG_SCHEME_ecdsa TPMU_SIG_SCHEME_ecdsa zero_TPMS_SCHEME_HASH Tss2_MU_TPMS_SCHEME_HASH_Unmarshal),
     (ucast TPM2_ALG_ECDAA, U_MEM get_TPMU_SIG_SCHEME_ecdaa TPMU_SIG_SCHEME_ecdaa zero_TPMS_SCHEME_ECDAA Tss2_MU_TPMS_SCHEME_ECDAA_Unmarshal),
     (ucast TPM2_ALG_SM2, U_MEM get_TPMU_SIG_SCHEME_sm2 TPMU_SIG_SCHEME_sm2 zero_TPMS_SCHEME_HASH Tss2_MU_TPMS_SCHEME_HASH_Unmarshal),
     (ucast TPM2_ALG_ECSCHNORR, U_MEM get_TPMU_SIG_SCHEME_ecschnorr TPMU_SIG_SCHEME_ecschnorr zero_TPMS_SCHEME_HASH Tss2_MU_TPMS_SCHEME_HASH_Unmarshal),
     (ucast TPM2_ALG_HMAC, U_MEM get_TPMU_SIG_SCHEME_hmac TPMU_SIG_SCHEME_hmac zero_TPMS_SCHEME_HASH Tss2_MU_TPMS_SCHEME_HASH_Unmarshal)]"

definition spec_TPMU_SIG_SCHEME :: "(UINT32 \<times> TPMU_SIG_SCHEME mspec) list" where
  "spec_TPMU_SIG_SCHEME =
    [(ucast TPM2_ALG_RSASSA, member_spec get_TPMU_SIG_SCHEME_rsassa src_TPMS_SCHEME_HASH valid_TPMS_SCHEME_HASH wire_TPMS_SCHEME_HASH),
     (ucast TPM2_ALG_RSAPSS, member_spec get_TPMU_SIG_SCHEME_rsapss src_TPMS_SCHEME_HASH valid_TPMS_SCHEME_HASH wire_TPMS_SCHEME_HASH),
     (ucast TPM2_ALG_ECDSA, member_spec get_TPMU_SIG_SCHEME_ecdsa src_TPMS_SCHEME_HASH valid_TPMS_SCHEME_HASH wire_TPMS_SCHEME_HASH),
     (ucast TPM2_ALG_ECDAA, member_spec get_TPMU_SIG_SCHEME_ecdaa src_TPMS_SCHEME_ECDAA valid_TPMS_SCHEME_ECDAA wire_TPMS_SCHEME_ECDAA),
     (ucast TPM2_ALG_SM2, member_spec get_TPMU_SIG_SCHEME_sm2 src_TPMS_SCHEME_HASH valid_TPMS_SCHEME_HASH wire_TPMS_SCHEME_HASH),
     (ucast TPM2_ALG_ECSCHNORR, member_spec get_TPMU_SIG_SCHEME_ecschnorr src_TPMS_SCHEME_HASH valid_TPMS_SCHEME_HASH wire_TPMS_SCHEME_HASH),
     (ucast TPM2_ALG_HMAC, member_spec get_TPMU_SIG_SCHEME_hmac src_TPMS_SCHEME_HASH valid_TPMS_SCHEME_HASH wire_TPMS_SCHEME_HASH)]"

abbreviation "src_TPMU_SIG_SCHEME \<equiv> src_union spec_TPMU_SIG_SCHEME"
abbreviation "valid_TPMU_SIG_SCHEME \<equiv> valid_union spec_TPMU_SIG_SCHEME"
abbreviation "wire_TPMU_SIG_SCHEME \<equiv> wire_union spec_TPMU_SIG_SCHEME"

lemma marshaler_TPMU_SIG_SCHEME:
  "marshaler (\<lambda>u. Tss2_MU_TPMU_SIG_SCHEME_Marshal (Some u) k) (src_TPMU_SIG_SCHEME k) (valid_TPMU_SIG_SCHEME k) (wire_TPMU_SIG_SCHEME k) 4"
  unfolding Tss2_MU_TPMU_SIG_SCHEME_Marshal_def spec_TPMU_SIG_SCHEME_def
  by (rule marshaler_TPMU, simp only: entry_rel_simps, intro conjI refl TrueI
      marshals_ADDR [OF mu_TPMS_SCHEME_HASH.marshaler_axioms]
      marshals_ADDR [OF mu_TPMS_SCHEME_ECDAA.marshaler_axioms])
    (simp_all add: get_TPMU_SIG_SCHEME)

lemma unmarshaler_TPMU_SIG_SCHEME:
  "strict_unmarshaler (\<lambda>b bs off. Tss2_MU_TPMU_SIG_SCHEME_Unmarshal b bs off k) wt_TPMU_SIG_SCHEME (valid_TPMU_SIG_SCHEME k) (wire_TPMU_SIG_SCHEME k)"
  unfolding Tss2_MU_TPMU_SIG_SCHEME_Unmarshal_def spec_TPMU_SIG_SCHEME_def
  by (rule strict_unmarshaler_TPMU, simp only: entry_rel_simps, intro conjI refl TrueI
      unmarshals_MEM [OF mu_TPMS_SCHEME_HASH.strict_unmarshaler_axioms]
      unmarshals_MEM [OF mu_TPMS_SCHEME_ECDAA.strict_unmarshaler_axioms])
    (simp_all add: get_TPMU_SIG_SCHEME)

interpretation mu_TPMU_SIG_SCHEME: codec "\<lambda>u. Tss2_MU_TPMU_SIG_SCHEME_Marshal (Some u) k" "src_TPMU_SIG_SCHEME k" "valid_TPMU_SIG_SCHEME k" "wire_TPMU_SIG_SCHEME k" "4"
  "\<lambda>b bs off. Tss2_MU_TPMU_SIG_SCHEME_Unmarshal b bs off k" wt_TPMU_SIG_SCHEME "valid_TPMU_SIG_SCHEME k" for k
  by (rule codecI [OF marshaler_TPMU_SIG_SCHEME unmarshaler_TPMU_SIG_SCHEME])

definition Tss2_MU_TPMT_SIG_SCHEME_Marshal :: "TPMT_SIG_SCHEME option mfun" where
  "Tss2_MU_TPMT_SIG_SCHEME_Marshal = TPMT_MARSHAL_2
     (VAL TPMT_SIG_SCHEME_scheme Tss2_MU_UINT16_Marshal)
     (ADDR_SEL (\<lambda>s. ucast (TPMT_SIG_SCHEME_scheme s)) TPMT_SIG_SCHEME_details Tss2_MU_TPMU_SIG_SCHEME_Marshal)"

definition Tss2_MU_TPMT_SIG_SCHEME_Unmarshal :: "TPMT_SIG_SCHEME ufun" where
  "Tss2_MU_TPMT_SIG_SCHEME_Unmarshal = TPMT_UNMARSHAL_2 zero_TPMT_SIG_SCHEME
     TPMT_SIG_SCHEME_scheme TPMT_SIG_SCHEME_scheme_update Tss2_MU_UINT16_Unmarshal
     TPMT_SIG_SCHEME_details TPMT_SIG_SCHEME_details_update (\<lambda>s. ucast (TPMT_SIG_SCHEME_scheme s)) Tss2_MU_TPMU_SIG_SCHEME_Unmarshal"

definition src_TPMT_SIG_SCHEME :: "TPMT_SIG_SCHEME \<Rightarrow> bool" where
  "src_TPMT_SIG_SCHEME s \<longleftrightarrow> src_TPMU_SIG_SCHEME (ucast (TPMT_SIG_SCHEME_scheme s)) (TPMT_SIG_SCHEME_details s)"

definition valid_TPMT_SIG_SCHEME :: "TPMT_SIG_SCHEME \<Rightarrow> bool" where
  "valid_TPMT_SIG_SCHEME s \<longleftrightarrow> valid_TPMU_SIG_SCHEME (ucast (TPMT_SIG_SCHEME_scheme s)) (TPMT_SIG_SCHEME_details s)"

definition wire_TPMT_SIG_SCHEME :: "TPMT_SIG_SCHEME \<Rightarrow> BYTE list" where
  "wire_TPMT_SIG_SCHEME s = be_bytes (TPMT_SIG_SCHEME_scheme s) @
     wire_TPMU_SIG_SCHEME (ucast (TPMT_SIG_SCHEME_scheme s)) (TPMT_SIG_SCHEME_details s)"

lemma marshaler_TPMT_SIG_SCHEME:
  "marshaler (\<lambda>s. Tss2_MU_TPMT_SIG_SCHEME_Marshal (Some s)) src_TPMT_SIG_SCHEME valid_TPMT_SIG_SCHEME wire_TPMT_SIG_SCHEME 6"
  unfolding Tss2_MU_TPMT_SIG_SCHEME_Marshal_def struct_marshal_defs
  by (rule marshaler_cong,
      (rule marshaler_Cons marshaler_Nil marshaler_VAL [OF mu_UINT16.marshaler_axioms]
        marshaler_ADDR_SEL [OF marshaler_TPMU_SIG_SCHEME])+)
    (simp_all add: src_TPMT_SIG_SCHEME_def valid_TPMT_SIG_SCHEME_def wire_TPMT_SIG_SCHEME_def)

lemma unmarshaler_TPMT_SIG_SCHEME:
  "strict_unmarshaler Tss2_MU_TPMT_SIG_SCHEME_Unmarshal wt_TPMT_SIG_SCHEME valid_TPMT_SIG_SCHEME wire_TPMT_SIG_SCHEME"
  unfolding Tss2_MU_TPMT_SIG_SCHEME_Unmarshal_def struct_unmarshal_defs
  by (rule strict_unmarshaler_cong, rule strict_unmarshaler_struct,
      rule useq_ok_Cons_sel [where sel = "\<lambda>s. ucast (TPMT_SIG_SCHEME_scheme s)"],
      rule useq_ok_FLD(2) [OF mu_UINT16.strict_unmarshaler_axioms], simp,
      rule useq_ok_Cons,
      rule useq_ok_UNI(1) [OF unmarshaler_TPMU_SIG_SCHEME], simp, simp,
      rule useq_ok_Nil)
    (simp_all add: keeps_simps be_bytes_inject wt_TPMT_SIG_SCHEME_def valid_TPMT_SIG_SCHEME_def wire_TPMT_SIG_SCHEME_def wt_zero_TPMT_SIG_SCHEME [unfolded wt_TPMT_SIG_SCHEME_def])

interpretation mu_TPMT_SIG_SCHEME: codec "\<lambda>s. Tss2_MU_TPMT_SIG_SCHEME_Marshal (Some s)"
  "src_TPMT_SIG_SCHEME" "valid_TPMT_SIG_SCHEME" "wire_TPMT_SIG_SCHEME" "6" Tss2_MU_TPMT_SIG_SCHEME_Unmarshal "wt_TPMT_SIG_SCHEME" "valid_TPMT_SIG_SCHEME"
  by (rule codecI [OF marshaler_TPMT_SIG_SCHEME unmarshaler_TPMT_SIG_SCHEME])

definition Tss2_MU_TPMT_ASYM_SCHEME_Marshal :: "TPMT_ASYM_SCHEME option mfun" where
  "Tss2_MU_TPMT_ASYM_SCHEME_Marshal = TPMT_MARSHAL_2
     (VAL TPMT_ASYM_SCHEME_scheme Tss2_MU_UINT16_Marshal)
     (ADDR_SEL (\<lambda>s. ucast (TPMT_ASYM_SCHEME_scheme s)) TPMT_ASYM_SCHEME_details Tss2_MU_TPMU_ASYM_SCHEME_Marshal)"

definition Tss2_MU_TPMT_ASYM_SCHEME_Unmarshal :: "TPMT_ASYM_SCHEME ufun" where
  "Tss2_MU_TPMT_ASYM_SCHEME_Unmarshal = TPMT_UNMARSHAL_2 zero_TPMT_ASYM_SCHEME
     TPMT_ASYM_SCHEME_scheme TPMT_ASYM_SCHEME_scheme_update Tss2_MU_UINT16_Unmarshal
     TPMT_ASYM_SCHEME_details TPMT_ASYM_SCHEME_details_update (\<lambda>s. ucast (TPMT_ASYM_SCHEME_scheme s)) Tss2_MU_TPMU_ASYM_SCHEME_Unmarshal"

definition src_TPMT_ASYM_SCHEME :: "TPMT_ASYM_SCHEME \<Rightarrow> bool" where
  "src_TPMT_ASYM_SCHEME s \<longleftrightarrow> src_TPMU_ASYM_SCHEME (ucast (TPMT_ASYM_SCHEME_scheme s)) (TPMT_ASYM_SCHEME_details s)"

definition valid_TPMT_ASYM_SCHEME :: "TPMT_ASYM_SCHEME \<Rightarrow> bool" where
  "valid_TPMT_ASYM_SCHEME s \<longleftrightarrow> valid_TPMU_ASYM_SCHEME (ucast (TPMT_ASYM_SCHEME_scheme s)) (TPMT_ASYM_SCHEME_details s)"

definition wire_TPMT_ASYM_SCHEME :: "TPMT_ASYM_SCHEME \<Rightarrow> BYTE list" where
  "wire_TPMT_ASYM_SCHEME s = be_bytes (TPMT_ASYM_SCHEME_scheme s) @
     wire_TPMU_ASYM_SCHEME (ucast (TPMT_ASYM_SCHEME_scheme s)) (TPMT_ASYM_SCHEME_details s)"

lemma marshaler_TPMT_ASYM_SCHEME:
  "marshaler (\<lambda>s. Tss2_MU_TPMT_ASYM_SCHEME_Marshal (Some s)) src_TPMT_ASYM_SCHEME valid_TPMT_ASYM_SCHEME wire_TPMT_ASYM_SCHEME 6"
  unfolding Tss2_MU_TPMT_ASYM_SCHEME_Marshal_def struct_marshal_defs
  by (rule marshaler_cong,
      (rule marshaler_Cons marshaler_Nil marshaler_VAL [OF mu_UINT16.marshaler_axioms]
        marshaler_ADDR_SEL [OF marshaler_TPMU_ASYM_SCHEME])+)
    (simp_all add: src_TPMT_ASYM_SCHEME_def valid_TPMT_ASYM_SCHEME_def wire_TPMT_ASYM_SCHEME_def)

lemma unmarshaler_TPMT_ASYM_SCHEME:
  "strict_unmarshaler Tss2_MU_TPMT_ASYM_SCHEME_Unmarshal wt_TPMT_ASYM_SCHEME valid_TPMT_ASYM_SCHEME wire_TPMT_ASYM_SCHEME"
  unfolding Tss2_MU_TPMT_ASYM_SCHEME_Unmarshal_def struct_unmarshal_defs
  by (rule strict_unmarshaler_cong, rule strict_unmarshaler_struct,
      rule useq_ok_Cons_sel [where sel = "\<lambda>s. ucast (TPMT_ASYM_SCHEME_scheme s)"],
      rule useq_ok_FLD(2) [OF mu_UINT16.strict_unmarshaler_axioms], simp,
      rule useq_ok_Cons,
      rule useq_ok_UNI(1) [OF unmarshaler_TPMU_ASYM_SCHEME], simp, simp,
      rule useq_ok_Nil)
    (simp_all add: keeps_simps be_bytes_inject wt_TPMT_ASYM_SCHEME_def valid_TPMT_ASYM_SCHEME_def wire_TPMT_ASYM_SCHEME_def wt_zero_TPMT_ASYM_SCHEME [unfolded wt_TPMT_ASYM_SCHEME_def])

interpretation mu_TPMT_ASYM_SCHEME: codec "\<lambda>s. Tss2_MU_TPMT_ASYM_SCHEME_Marshal (Some s)"
  "src_TPMT_ASYM_SCHEME" "valid_TPMT_ASYM_SCHEME" "wire_TPMT_ASYM_SCHEME" "6" Tss2_MU_TPMT_ASYM_SCHEME_Unmarshal "wt_TPMT_ASYM_SCHEME" "valid_TPMT_ASYM_SCHEME"
  by (rule codecI [OF marshaler_TPMT_ASYM_SCHEME unmarshaler_TPMT_ASYM_SCHEME])

definition Tss2_MU_TPMT_RSA_DECRYPT_Marshal :: "TPMT_RSA_DECRYPT option mfun" where
  "Tss2_MU_TPMT_RSA_DECRYPT_Marshal = TPMT_MARSHAL_2
     (VAL TPMT_RSA_DECRYPT_scheme Tss2_MU_UINT16_Marshal)
     (ADDR_SEL (\<lambda>s. ucast (TPMT_RSA_DECRYPT_scheme s)) TPMT_RSA_DECRYPT_details Tss2_MU_TPMU_ASYM_SCHEME_Marshal)"

definition Tss2_MU_TPMT_RSA_DECRYPT_Unmarshal :: "TPMT_RSA_DECRYPT ufun" where
  "Tss2_MU_TPMT_RSA_DECRYPT_Unmarshal = TPMT_UNMARSHAL_2 zero_TPMT_RSA_DECRYPT
     TPMT_RSA_DECRYPT_scheme TPMT_RSA_DECRYPT_scheme_update Tss2_MU_UINT16_Unmarshal
     TPMT_RSA_DECRYPT_details TPMT_RSA_DECRYPT_details_update (\<lambda>s. ucast (TPMT_RSA_DECRYPT_scheme s)) Tss2_MU_TPMU_ASYM_SCHEME_Unmarshal"

definition src_TPMT_RSA_DECRYPT :: "TPMT_RSA_DECRYPT \<Rightarrow> bool" where
  "src_TPMT_RSA_DECRYPT s \<longleftrightarrow> src_TPMU_ASYM_SCHEME (ucast (TPMT_RSA_DECRYPT_scheme s)) (TPMT_RSA_DECRYPT_details s)"

definition valid_TPMT_RSA_DECRYPT :: "TPMT_RSA_DECRYPT \<Rightarrow> bool" where
  "valid_TPMT_RSA_DECRYPT s \<longleftrightarrow> valid_TPMU_ASYM_SCHEME (ucast (TPMT_RSA_DECRYPT_scheme s)) (TPMT_RSA_DECRYPT_details s)"

definition wire_TPMT_RSA_DECRYPT :: "TPMT_RSA_DECRYPT \<Rightarrow> BYTE list" where
  "wire_TPMT_RSA_DECRYPT s = be_bytes (TPMT_RSA_DECRYPT_scheme s) @
     wire_TPMU_ASYM_SCHEME (ucast (TPMT_RSA_DECRYPT_scheme s)) (TPMT_RSA_DECRYPT_details s)"

lemma marshaler_TPMT_RSA_DECRYPT:
  "marshaler (\<lambda>s. Tss2_MU_TPMT_RSA_DECRYPT_Marshal (Some s)) src_TPMT_RSA_DECRYPT valid_TPMT_RSA_DECRYPT wire_TPMT_RSA_DECRYPT 6"
  unfolding Tss2_MU_TPMT_RSA_DECRYPT_Marshal_def struct_marshal_defs
  by (rule marshaler_cong,
      (rule marshaler_Cons marshaler_Nil marshaler_VAL [OF mu_UINT16.marshaler_axioms]
        marshaler_ADDR_SEL [OF marshaler_TPMU_ASYM_SCHEME])+)
    (simp_all add: src_TPMT_RSA_DECRYPT_def valid_TPMT_RSA_DECRYPT_def wire_TPMT_RSA_DECRYPT_def)

lemma unmarshaler_TPMT_RSA_DECRYPT:
  "strict_unmarshaler Tss2_MU_TPMT_RSA_DECRYPT_Unmarshal wt_TPMT_RSA_DECRYPT valid_TPMT_RSA_DECRYPT wire_TPMT_RSA_DECRYPT"
  unfolding Tss2_MU_TPMT_RSA_DECRYPT_Unmarshal_def struct_unmarshal_defs
  by (rule strict_unmarshaler_cong, rule strict_unmarshaler_struct,
      rule useq_ok_Cons_sel [where sel = "\<lambda>s. ucast (TPMT_RSA_DECRYPT_scheme s)"],
      rule useq_ok_FLD(2) [OF mu_UINT16.strict_unmarshaler_axioms], simp,
      rule useq_ok_Cons,
      rule useq_ok_UNI(1) [OF unmarshaler_TPMU_ASYM_SCHEME], simp, simp,
      rule useq_ok_Nil)
    (simp_all add: keeps_simps be_bytes_inject wt_TPMT_RSA_DECRYPT_def valid_TPMT_RSA_DECRYPT_def wire_TPMT_RSA_DECRYPT_def wt_zero_TPMT_RSA_DECRYPT [unfolded wt_TPMT_RSA_DECRYPT_def])

interpretation mu_TPMT_RSA_DECRYPT: codec "\<lambda>s. Tss2_MU_TPMT_RSA_DECRYPT_Marshal (Some s)"
  "src_TPMT_RSA_DECRYPT" "valid_TPMT_RSA_DECRYPT" "wire_TPMT_RSA_DECRYPT" "6" Tss2_MU_TPMT_RSA_DECRYPT_Unmarshal "wt_TPMT_RSA_DECRYPT" "valid_TPMT_RSA_DECRYPT"
  by (rule codecI [OF marshaler_TPMT_RSA_DECRYPT unmarshaler_TPMT_RSA_DECRYPT])

definition Tss2_MU_TPMU_SIGNATURE_Marshal :: "TPMU_SIGNATURE option \<Rightarrow> UINT32 \<Rightarrow> buf option \<Rightarrow> size_t \<Rightarrow> size_t option \<Rightarrow> mres" where
  "Tss2_MU_TPMU_SIGNATURE_Marshal = TPMU_MARSHAL2
    [(ucast TPM2_ALG_RSASSA, U_ADDR get_TPMU_SIGNATURE_rsassa Tss2_MU_TPMS_SIGNATURE_RSA_Marshal),
     (ucast TPM2_ALG_RSAPSS, U_ADDR get_TPMU_SIGNATURE_rsapss Tss2_MU_TPMS_SIGNATURE_RSA_Marshal),
     (ucast TPM2_ALG_ECDSA, U_ADDR get_TPMU_SIGNATURE_ecdsa Tss2_MU_TPMS_SIGNATURE_ECC_Marshal),
     (ucast TPM2_ALG_ECDAA, U_ADDR get_TPMU_SIGNATURE_ecdaa Tss2_MU_TPMS_SIGNATURE_ECC_Marshal),
     (ucast TPM2_ALG_SM2, U_ADDR get_TPMU_SIGNATURE_sm2 Tss2_MU_TPMS_SIGNATURE_ECC_Marshal),
     (ucast TPM2_ALG_ECSCHNORR, U_ADDR get_TPMU_SIGNATURE_ecschnorr Tss2_MU_TPMS_SIGNATURE_ECC_Marshal),
     (ucast TPM2_ALG_HMAC, U_ADDR get_TPMU_SIGNATURE_hmac Tss2_MU_TPMT_HA_Marshal),
     (ucast TPM2_ALG_MLDSA, U_ADDR get_TPMU_SIGNATURE_mldsa Tss2_MU_TPMS_SIGNATURE_MLDSA_Marshal)]"

definition Tss2_MU_TPMU_SIGNATURE_Unmarshal :: "buf option \<Rightarrow> size_t \<Rightarrow> size_t option \<Rightarrow> UINT32 \<Rightarrow> TPMU_SIGNATURE option \<Rightarrow> TPMU_SIGNATURE ures" where
  "Tss2_MU_TPMU_SIGNATURE_Unmarshal = TPMU_UNMARSHAL2
    [(ucast TPM2_ALG_RSASSA, U_MEM get_TPMU_SIGNATURE_rsassa TPMU_SIGNATURE_rsassa zero_TPMS_SIGNATURE_RSA Tss2_MU_TPMS_SIGNATURE_RSA_Unmarshal),
     (ucast TPM2_ALG_RSAPSS, U_MEM get_TPMU_SIGNATURE_rsapss TPMU_SIGNATURE_rsapss zero_TPMS_SIGNATURE_RSA Tss2_MU_TPMS_SIGNATURE_RSA_Unmarshal),
     (ucast TPM2_ALG_ECDSA, U_MEM get_TPMU_SIGNATURE_ecdsa TPMU_SIGNATURE_ecdsa zero_TPMS_SIGNATURE_ECC Tss2_MU_TPMS_SIGNATURE_ECC_Unmarshal),
     (ucast TPM2_ALG_ECDAA, U_MEM get_TPMU_SIGNATURE_ecdaa TPMU_SIGNATURE_ecdaa zero_TPMS_SIGNATURE_ECC Tss2_MU_TPMS_SIGNATURE_ECC_Unmarshal),
     (ucast TPM2_ALG_SM2, U_MEM get_TPMU_SIGNATURE_sm2 TPMU_SIGNATURE_sm2 zero_TPMS_SIGNATURE_ECC Tss2_MU_TPMS_SIGNATURE_ECC_Unmarshal),
     (ucast TPM2_ALG_ECSCHNORR, U_MEM get_TPMU_SIGNATURE_ecschnorr TPMU_SIGNATURE_ecschnorr zero_TPMS_SIGNATURE_ECC Tss2_MU_TPMS_SIGNATURE_ECC_Unmarshal),
     (ucast TPM2_ALG_HMAC, U_MEM get_TPMU_SIGNATURE_hmac TPMU_SIGNATURE_hmac zero_TPMT_HA Tss2_MU_TPMT_HA_Unmarshal),
     (ucast TPM2_ALG_MLDSA, U_MEM get_TPMU_SIGNATURE_mldsa TPMU_SIGNATURE_mldsa zero_TPMS_SIGNATURE_MLDSA Tss2_MU_TPMS_SIGNATURE_MLDSA_Unmarshal)]"

definition spec_TPMU_SIGNATURE :: "(UINT32 \<times> TPMU_SIGNATURE mspec) list" where
  "spec_TPMU_SIGNATURE =
    [(ucast TPM2_ALG_RSASSA, member_spec get_TPMU_SIGNATURE_rsassa src_TPMS_SIGNATURE_RSA valid_TPMS_SIGNATURE_RSA wire_TPMS_SIGNATURE_RSA),
     (ucast TPM2_ALG_RSAPSS, member_spec get_TPMU_SIGNATURE_rsapss src_TPMS_SIGNATURE_RSA valid_TPMS_SIGNATURE_RSA wire_TPMS_SIGNATURE_RSA),
     (ucast TPM2_ALG_ECDSA, member_spec get_TPMU_SIGNATURE_ecdsa src_TPMS_SIGNATURE_ECC valid_TPMS_SIGNATURE_ECC wire_TPMS_SIGNATURE_ECC),
     (ucast TPM2_ALG_ECDAA, member_spec get_TPMU_SIGNATURE_ecdaa src_TPMS_SIGNATURE_ECC valid_TPMS_SIGNATURE_ECC wire_TPMS_SIGNATURE_ECC),
     (ucast TPM2_ALG_SM2, member_spec get_TPMU_SIGNATURE_sm2 src_TPMS_SIGNATURE_ECC valid_TPMS_SIGNATURE_ECC wire_TPMS_SIGNATURE_ECC),
     (ucast TPM2_ALG_ECSCHNORR, member_spec get_TPMU_SIGNATURE_ecschnorr src_TPMS_SIGNATURE_ECC valid_TPMS_SIGNATURE_ECC wire_TPMS_SIGNATURE_ECC),
     (ucast TPM2_ALG_HMAC, member_spec get_TPMU_SIGNATURE_hmac src_TPMT_HA valid_TPMT_HA wire_TPMT_HA),
     (ucast TPM2_ALG_MLDSA, member_spec get_TPMU_SIGNATURE_mldsa src_TPMS_SIGNATURE_MLDSA valid_TPMS_SIGNATURE_MLDSA wire_TPMS_SIGNATURE_MLDSA)]"

abbreviation "src_TPMU_SIGNATURE \<equiv> src_union spec_TPMU_SIGNATURE"
abbreviation "valid_TPMU_SIGNATURE \<equiv> valid_union spec_TPMU_SIGNATURE"
abbreviation "wire_TPMU_SIGNATURE \<equiv> wire_union spec_TPMU_SIGNATURE"

lemma marshaler_TPMU_SIGNATURE:
  "marshaler (\<lambda>u. Tss2_MU_TPMU_SIGNATURE_Marshal (Some u) k) (src_TPMU_SIGNATURE k) (valid_TPMU_SIGNATURE k) (wire_TPMU_SIGNATURE k) 4631"
  unfolding Tss2_MU_TPMU_SIGNATURE_Marshal_def spec_TPMU_SIGNATURE_def
  by (rule marshaler_TPMU, simp only: entry_rel_simps, intro conjI refl TrueI
      marshals_ADDR [OF mu_TPMS_SIGNATURE_RSA.marshaler_axioms]
      marshals_ADDR [OF mu_TPMS_SIGNATURE_ECC.marshaler_axioms]
      marshals_ADDR [OF mu_TPMT_HA.marshaler_axioms]
      marshals_ADDR [OF mu_TPMS_SIGNATURE_MLDSA.marshaler_axioms])
    (simp_all add: get_TPMU_SIGNATURE)

lemma unmarshaler_TPMU_SIGNATURE:
  "strict_unmarshaler (\<lambda>b bs off. Tss2_MU_TPMU_SIGNATURE_Unmarshal b bs off k) wt_TPMU_SIGNATURE (valid_TPMU_SIGNATURE k) (wire_TPMU_SIGNATURE k)"
  unfolding Tss2_MU_TPMU_SIGNATURE_Unmarshal_def spec_TPMU_SIGNATURE_def
  by (rule strict_unmarshaler_TPMU, simp only: entry_rel_simps, intro conjI refl TrueI
      unmarshals_MEM [OF mu_TPMS_SIGNATURE_RSA.strict_unmarshaler_axioms]
      unmarshals_MEM [OF mu_TPMS_SIGNATURE_ECC.strict_unmarshaler_axioms]
      unmarshals_MEM [OF mu_TPMT_HA.strict_unmarshaler_axioms]
      unmarshals_MEM [OF mu_TPMS_SIGNATURE_MLDSA.strict_unmarshaler_axioms])
    (simp_all add: get_TPMU_SIGNATURE)

interpretation mu_TPMU_SIGNATURE: codec "\<lambda>u. Tss2_MU_TPMU_SIGNATURE_Marshal (Some u) k" "src_TPMU_SIGNATURE k" "valid_TPMU_SIGNATURE k" "wire_TPMU_SIGNATURE k" "4631"
  "\<lambda>b bs off. Tss2_MU_TPMU_SIGNATURE_Unmarshal b bs off k" wt_TPMU_SIGNATURE "valid_TPMU_SIGNATURE k" for k
  by (rule codecI [OF marshaler_TPMU_SIGNATURE unmarshaler_TPMU_SIGNATURE])

definition Tss2_MU_TPMT_SIGNATURE_Marshal :: "TPMT_SIGNATURE option mfun" where
  "Tss2_MU_TPMT_SIGNATURE_Marshal = TPMT_MARSHAL_2
     (VAL TPMT_SIGNATURE_sigAlg Tss2_MU_UINT16_Marshal)
     (ADDR_SEL (\<lambda>s. ucast (TPMT_SIGNATURE_sigAlg s)) TPMT_SIGNATURE_signature Tss2_MU_TPMU_SIGNATURE_Marshal)"

definition Tss2_MU_TPMT_SIGNATURE_Unmarshal :: "TPMT_SIGNATURE ufun" where
  "Tss2_MU_TPMT_SIGNATURE_Unmarshal = TPMT_UNMARSHAL_2 zero_TPMT_SIGNATURE
     TPMT_SIGNATURE_sigAlg TPMT_SIGNATURE_sigAlg_update Tss2_MU_UINT16_Unmarshal
     TPMT_SIGNATURE_signature TPMT_SIGNATURE_signature_update (\<lambda>s. ucast (TPMT_SIGNATURE_sigAlg s)) Tss2_MU_TPMU_SIGNATURE_Unmarshal"

definition src_TPMT_SIGNATURE :: "TPMT_SIGNATURE \<Rightarrow> bool" where
  "src_TPMT_SIGNATURE s \<longleftrightarrow> src_TPMU_SIGNATURE (ucast (TPMT_SIGNATURE_sigAlg s)) (TPMT_SIGNATURE_signature s)"

definition valid_TPMT_SIGNATURE :: "TPMT_SIGNATURE \<Rightarrow> bool" where
  "valid_TPMT_SIGNATURE s \<longleftrightarrow> valid_TPMU_SIGNATURE (ucast (TPMT_SIGNATURE_sigAlg s)) (TPMT_SIGNATURE_signature s)"

definition wire_TPMT_SIGNATURE :: "TPMT_SIGNATURE \<Rightarrow> BYTE list" where
  "wire_TPMT_SIGNATURE s = be_bytes (TPMT_SIGNATURE_sigAlg s) @
     wire_TPMU_SIGNATURE (ucast (TPMT_SIGNATURE_sigAlg s)) (TPMT_SIGNATURE_signature s)"

lemma marshaler_TPMT_SIGNATURE:
  "marshaler (\<lambda>s. Tss2_MU_TPMT_SIGNATURE_Marshal (Some s)) src_TPMT_SIGNATURE valid_TPMT_SIGNATURE wire_TPMT_SIGNATURE 4633"
  unfolding Tss2_MU_TPMT_SIGNATURE_Marshal_def struct_marshal_defs
  by (rule marshaler_cong,
      (rule marshaler_Cons marshaler_Nil marshaler_VAL [OF mu_UINT16.marshaler_axioms]
        marshaler_ADDR_SEL [OF marshaler_TPMU_SIGNATURE])+)
    (simp_all add: src_TPMT_SIGNATURE_def valid_TPMT_SIGNATURE_def wire_TPMT_SIGNATURE_def)

lemma unmarshaler_TPMT_SIGNATURE:
  "strict_unmarshaler Tss2_MU_TPMT_SIGNATURE_Unmarshal wt_TPMT_SIGNATURE valid_TPMT_SIGNATURE wire_TPMT_SIGNATURE"
  unfolding Tss2_MU_TPMT_SIGNATURE_Unmarshal_def struct_unmarshal_defs
  by (rule strict_unmarshaler_cong, rule strict_unmarshaler_struct,
      rule useq_ok_Cons_sel [where sel = "\<lambda>s. ucast (TPMT_SIGNATURE_sigAlg s)"],
      rule useq_ok_FLD(2) [OF mu_UINT16.strict_unmarshaler_axioms], simp,
      rule useq_ok_Cons,
      rule useq_ok_UNI(1) [OF unmarshaler_TPMU_SIGNATURE], simp, simp,
      rule useq_ok_Nil)
    (simp_all add: keeps_simps be_bytes_inject wt_TPMT_SIGNATURE_def valid_TPMT_SIGNATURE_def wire_TPMT_SIGNATURE_def wt_zero_TPMT_SIGNATURE [unfolded wt_TPMT_SIGNATURE_def])

interpretation mu_TPMT_SIGNATURE: codec "\<lambda>s. Tss2_MU_TPMT_SIGNATURE_Marshal (Some s)"
  "src_TPMT_SIGNATURE" "valid_TPMT_SIGNATURE" "wire_TPMT_SIGNATURE" "4633" Tss2_MU_TPMT_SIGNATURE_Unmarshal "wt_TPMT_SIGNATURE" "valid_TPMT_SIGNATURE"
  by (rule codecI [OF marshaler_TPMT_SIGNATURE unmarshaler_TPMT_SIGNATURE])

definition Tss2_MU_TPMT_PUBLIC_PARMS_Marshal :: "TPMT_PUBLIC_PARMS option mfun" where
  "Tss2_MU_TPMT_PUBLIC_PARMS_Marshal = TPMT_MARSHAL_2
     (VAL TPMT_PUBLIC_PARMS_type Tss2_MU_UINT16_Marshal)
     (ADDR_SEL (\<lambda>s. ucast (TPMT_PUBLIC_PARMS_type s)) TPMT_PUBLIC_PARMS_parameters Tss2_MU_TPMU_PUBLIC_PARMS_Marshal)"

definition Tss2_MU_TPMT_PUBLIC_PARMS_Unmarshal :: "TPMT_PUBLIC_PARMS ufun" where
  "Tss2_MU_TPMT_PUBLIC_PARMS_Unmarshal = TPMT_UNMARSHAL_2 zero_TPMT_PUBLIC_PARMS
     TPMT_PUBLIC_PARMS_type TPMT_PUBLIC_PARMS_type_update Tss2_MU_UINT16_Unmarshal
     TPMT_PUBLIC_PARMS_parameters TPMT_PUBLIC_PARMS_parameters_update (\<lambda>s. ucast (TPMT_PUBLIC_PARMS_type s)) Tss2_MU_TPMU_PUBLIC_PARMS_Unmarshal"

definition src_TPMT_PUBLIC_PARMS :: "TPMT_PUBLIC_PARMS \<Rightarrow> bool" where
  "src_TPMT_PUBLIC_PARMS s \<longleftrightarrow> src_TPMU_PUBLIC_PARMS (ucast (TPMT_PUBLIC_PARMS_type s)) (TPMT_PUBLIC_PARMS_parameters s)"

definition valid_TPMT_PUBLIC_PARMS :: "TPMT_PUBLIC_PARMS \<Rightarrow> bool" where
  "valid_TPMT_PUBLIC_PARMS s \<longleftrightarrow> valid_TPMU_PUBLIC_PARMS (ucast (TPMT_PUBLIC_PARMS_type s)) (TPMT_PUBLIC_PARMS_parameters s)"

definition wire_TPMT_PUBLIC_PARMS :: "TPMT_PUBLIC_PARMS \<Rightarrow> BYTE list" where
  "wire_TPMT_PUBLIC_PARMS s = be_bytes (TPMT_PUBLIC_PARMS_type s) @
     wire_TPMU_PUBLIC_PARMS (ucast (TPMT_PUBLIC_PARMS_type s)) (TPMT_PUBLIC_PARMS_parameters s)"

lemma marshaler_TPMT_PUBLIC_PARMS:
  "marshaler (\<lambda>s. Tss2_MU_TPMT_PUBLIC_PARMS_Marshal (Some s)) src_TPMT_PUBLIC_PARMS valid_TPMT_PUBLIC_PARMS wire_TPMT_PUBLIC_PARMS 20"
  unfolding Tss2_MU_TPMT_PUBLIC_PARMS_Marshal_def struct_marshal_defs
  by (rule marshaler_cong,
      (rule marshaler_Cons marshaler_Nil marshaler_VAL [OF mu_UINT16.marshaler_axioms]
        marshaler_ADDR_SEL [OF marshaler_TPMU_PUBLIC_PARMS])+)
    (simp_all add: src_TPMT_PUBLIC_PARMS_def valid_TPMT_PUBLIC_PARMS_def wire_TPMT_PUBLIC_PARMS_def)

lemma unmarshaler_TPMT_PUBLIC_PARMS:
  "strict_unmarshaler Tss2_MU_TPMT_PUBLIC_PARMS_Unmarshal wt_TPMT_PUBLIC_PARMS valid_TPMT_PUBLIC_PARMS wire_TPMT_PUBLIC_PARMS"
  unfolding Tss2_MU_TPMT_PUBLIC_PARMS_Unmarshal_def struct_unmarshal_defs
  by (rule strict_unmarshaler_cong, rule strict_unmarshaler_struct,
      rule useq_ok_Cons_sel [where sel = "\<lambda>s. ucast (TPMT_PUBLIC_PARMS_type s)"],
      rule useq_ok_FLD(2) [OF mu_UINT16.strict_unmarshaler_axioms], simp,
      rule useq_ok_Cons,
      rule useq_ok_UNI(1) [OF unmarshaler_TPMU_PUBLIC_PARMS], simp, simp,
      rule useq_ok_Nil)
    (simp_all add: keeps_simps be_bytes_inject wt_TPMT_PUBLIC_PARMS_def valid_TPMT_PUBLIC_PARMS_def wire_TPMT_PUBLIC_PARMS_def wt_zero_TPMT_PUBLIC_PARMS [unfolded wt_TPMT_PUBLIC_PARMS_def])

interpretation mu_TPMT_PUBLIC_PARMS: codec "\<lambda>s. Tss2_MU_TPMT_PUBLIC_PARMS_Marshal (Some s)"
  "src_TPMT_PUBLIC_PARMS" "valid_TPMT_PUBLIC_PARMS" "wire_TPMT_PUBLIC_PARMS" "20" Tss2_MU_TPMT_PUBLIC_PARMS_Unmarshal "wt_TPMT_PUBLIC_PARMS" "valid_TPMT_PUBLIC_PARMS"
  by (rule codecI [OF marshaler_TPMT_PUBLIC_PARMS unmarshaler_TPMT_PUBLIC_PARMS])

definition Tss2_MU_TPMT_TK_CREATION_Marshal :: "TPMT_TK_CREATION option mfun" where
  "Tss2_MU_TPMT_TK_CREATION_Marshal = TPMT_MARSHAL_TK
     (VAL TPMT_TK_CREATION_tag Tss2_MU_UINT16_Marshal)
     (VAL TPMT_TK_CREATION_hierarchy Tss2_MU_UINT32_Marshal)
     (ADDR TPMT_TK_CREATION_digest Tss2_MU_TPM2B_DIGEST_Marshal)"

definition Tss2_MU_TPMT_TK_CREATION_Unmarshal :: "TPMT_TK_CREATION ufun" where
  "Tss2_MU_TPMT_TK_CREATION_Unmarshal = TPMT_UNMARSHAL_TK zero_TPMT_TK_CREATION
     TPMT_TK_CREATION_tag TPMT_TK_CREATION_tag_update Tss2_MU_UINT16_Unmarshal
     TPMT_TK_CREATION_hierarchy TPMT_TK_CREATION_hierarchy_update Tss2_MU_UINT32_Unmarshal
     TPMT_TK_CREATION_digest TPMT_TK_CREATION_digest_update Tss2_MU_TPM2B_DIGEST_Unmarshal"

definition src_TPMT_TK_CREATION :: "TPMT_TK_CREATION \<Rightarrow> bool" where
  "src_TPMT_TK_CREATION s \<longleftrightarrow> (src_TPM2B 66 64) (TPMT_TK_CREATION_digest s)"

definition valid_TPMT_TK_CREATION :: "TPMT_TK_CREATION \<Rightarrow> bool" where
  "valid_TPMT_TK_CREATION s \<longleftrightarrow> (valid_TPM2B 64) (TPMT_TK_CREATION_digest s)"

definition wire_TPMT_TK_CREATION :: "TPMT_TK_CREATION \<Rightarrow> BYTE list" where
  "wire_TPMT_TK_CREATION s = be_bytes (TPMT_TK_CREATION_tag s) @
     be_bytes (TPMT_TK_CREATION_hierarchy s) @
     wire_TPM2B (TPMT_TK_CREATION_digest s)"

lemma marshaler_TPMT_TK_CREATION:
  "marshaler (\<lambda>s. Tss2_MU_TPMT_TK_CREATION_Marshal (Some s)) src_TPMT_TK_CREATION valid_TPMT_TK_CREATION wire_TPMT_TK_CREATION 72"
  unfolding Tss2_MU_TPMT_TK_CREATION_Marshal_def struct_marshal_defs
  by (rule marshaler_cong,
      (rule marshaler_Cons marshaler_Nil marshaler_VAL [OF mu_UINT16.marshaler_axioms]
        marshaler_VAL [OF mu_UINT32.marshaler_axioms]
        marshaler_ADDR [OF mu_TPM2B_DIGEST.marshaler_axioms])+)
    (simp_all add: src_TPMT_TK_CREATION_def valid_TPMT_TK_CREATION_def wire_TPMT_TK_CREATION_def)

lemma unmarshaler_TPMT_TK_CREATION:
  "strict_unmarshaler Tss2_MU_TPMT_TK_CREATION_Unmarshal wt_TPMT_TK_CREATION valid_TPMT_TK_CREATION wire_TPMT_TK_CREATION"
  unfolding Tss2_MU_TPMT_TK_CREATION_Unmarshal_def struct_unmarshal_defs
  by (rule strict_unmarshaler_cong, rule strict_unmarshaler_struct,
      rule useq_ok_Cons,
      rule useq_ok_FLD(1) [OF mu_UINT16.strict_unmarshaler_axioms], simp,
      rule useq_ok_Cons,
      rule useq_ok_FLD(1) [OF mu_UINT32.strict_unmarshaler_axioms], simp,
      rule useq_ok_Cons,
      rule useq_ok_FLD(1) [OF mu_TPM2B_DIGEST.strict_unmarshaler_axioms], simp,
      rule useq_ok_Nil)
    (simp_all add: keeps_simps be_bytes_inject wt_TPMT_TK_CREATION_def valid_TPMT_TK_CREATION_def wire_TPMT_TK_CREATION_def wt_zero_TPMT_TK_CREATION [unfolded wt_TPMT_TK_CREATION_def])

interpretation mu_TPMT_TK_CREATION: codec "\<lambda>s. Tss2_MU_TPMT_TK_CREATION_Marshal (Some s)"
  "src_TPMT_TK_CREATION" "valid_TPMT_TK_CREATION" "wire_TPMT_TK_CREATION" "72" Tss2_MU_TPMT_TK_CREATION_Unmarshal "wt_TPMT_TK_CREATION" "valid_TPMT_TK_CREATION"
  by (rule codecI [OF marshaler_TPMT_TK_CREATION unmarshaler_TPMT_TK_CREATION])

definition Tss2_MU_TPMT_TK_VERIFIED_Marshal :: "TPMT_TK_VERIFIED option mfun" where
  "Tss2_MU_TPMT_TK_VERIFIED_Marshal = TPMT_MARSHAL_TK
     (VAL TPMT_TK_VERIFIED_tag Tss2_MU_UINT16_Marshal)
     (VAL TPMT_TK_VERIFIED_hierarchy Tss2_MU_UINT32_Marshal)
     (ADDR TPMT_TK_VERIFIED_digest Tss2_MU_TPM2B_DIGEST_Marshal)"

definition Tss2_MU_TPMT_TK_VERIFIED_Unmarshal :: "TPMT_TK_VERIFIED ufun" where
  "Tss2_MU_TPMT_TK_VERIFIED_Unmarshal = TPMT_UNMARSHAL_TK zero_TPMT_TK_VERIFIED
     TPMT_TK_VERIFIED_tag TPMT_TK_VERIFIED_tag_update Tss2_MU_UINT16_Unmarshal
     TPMT_TK_VERIFIED_hierarchy TPMT_TK_VERIFIED_hierarchy_update Tss2_MU_UINT32_Unmarshal
     TPMT_TK_VERIFIED_digest TPMT_TK_VERIFIED_digest_update Tss2_MU_TPM2B_DIGEST_Unmarshal"

definition src_TPMT_TK_VERIFIED :: "TPMT_TK_VERIFIED \<Rightarrow> bool" where
  "src_TPMT_TK_VERIFIED s \<longleftrightarrow> (src_TPM2B 66 64) (TPMT_TK_VERIFIED_digest s)"

definition valid_TPMT_TK_VERIFIED :: "TPMT_TK_VERIFIED \<Rightarrow> bool" where
  "valid_TPMT_TK_VERIFIED s \<longleftrightarrow> (valid_TPM2B 64) (TPMT_TK_VERIFIED_digest s)"

definition wire_TPMT_TK_VERIFIED :: "TPMT_TK_VERIFIED \<Rightarrow> BYTE list" where
  "wire_TPMT_TK_VERIFIED s = be_bytes (TPMT_TK_VERIFIED_tag s) @
     be_bytes (TPMT_TK_VERIFIED_hierarchy s) @
     wire_TPM2B (TPMT_TK_VERIFIED_digest s)"

lemma marshaler_TPMT_TK_VERIFIED:
  "marshaler (\<lambda>s. Tss2_MU_TPMT_TK_VERIFIED_Marshal (Some s)) src_TPMT_TK_VERIFIED valid_TPMT_TK_VERIFIED wire_TPMT_TK_VERIFIED 72"
  unfolding Tss2_MU_TPMT_TK_VERIFIED_Marshal_def struct_marshal_defs
  by (rule marshaler_cong,
      (rule marshaler_Cons marshaler_Nil marshaler_VAL [OF mu_UINT16.marshaler_axioms]
        marshaler_VAL [OF mu_UINT32.marshaler_axioms]
        marshaler_ADDR [OF mu_TPM2B_DIGEST.marshaler_axioms])+)
    (simp_all add: src_TPMT_TK_VERIFIED_def valid_TPMT_TK_VERIFIED_def wire_TPMT_TK_VERIFIED_def)

lemma unmarshaler_TPMT_TK_VERIFIED:
  "strict_unmarshaler Tss2_MU_TPMT_TK_VERIFIED_Unmarshal wt_TPMT_TK_VERIFIED valid_TPMT_TK_VERIFIED wire_TPMT_TK_VERIFIED"
  unfolding Tss2_MU_TPMT_TK_VERIFIED_Unmarshal_def struct_unmarshal_defs
  by (rule strict_unmarshaler_cong, rule strict_unmarshaler_struct,
      rule useq_ok_Cons,
      rule useq_ok_FLD(1) [OF mu_UINT16.strict_unmarshaler_axioms], simp,
      rule useq_ok_Cons,
      rule useq_ok_FLD(1) [OF mu_UINT32.strict_unmarshaler_axioms], simp,
      rule useq_ok_Cons,
      rule useq_ok_FLD(1) [OF mu_TPM2B_DIGEST.strict_unmarshaler_axioms], simp,
      rule useq_ok_Nil)
    (simp_all add: keeps_simps be_bytes_inject wt_TPMT_TK_VERIFIED_def valid_TPMT_TK_VERIFIED_def wire_TPMT_TK_VERIFIED_def wt_zero_TPMT_TK_VERIFIED [unfolded wt_TPMT_TK_VERIFIED_def])

interpretation mu_TPMT_TK_VERIFIED: codec "\<lambda>s. Tss2_MU_TPMT_TK_VERIFIED_Marshal (Some s)"
  "src_TPMT_TK_VERIFIED" "valid_TPMT_TK_VERIFIED" "wire_TPMT_TK_VERIFIED" "72" Tss2_MU_TPMT_TK_VERIFIED_Unmarshal "wt_TPMT_TK_VERIFIED" "valid_TPMT_TK_VERIFIED"
  by (rule codecI [OF marshaler_TPMT_TK_VERIFIED unmarshaler_TPMT_TK_VERIFIED])

definition Tss2_MU_TPMT_TK_AUTH_Marshal :: "TPMT_TK_AUTH option mfun" where
  "Tss2_MU_TPMT_TK_AUTH_Marshal = TPMT_MARSHAL_TK
     (VAL TPMT_TK_AUTH_tag Tss2_MU_UINT16_Marshal)
     (VAL TPMT_TK_AUTH_hierarchy Tss2_MU_UINT32_Marshal)
     (ADDR TPMT_TK_AUTH_digest Tss2_MU_TPM2B_DIGEST_Marshal)"

definition Tss2_MU_TPMT_TK_AUTH_Unmarshal :: "TPMT_TK_AUTH ufun" where
  "Tss2_MU_TPMT_TK_AUTH_Unmarshal = TPMT_UNMARSHAL_TK zero_TPMT_TK_AUTH
     TPMT_TK_AUTH_tag TPMT_TK_AUTH_tag_update Tss2_MU_UINT16_Unmarshal
     TPMT_TK_AUTH_hierarchy TPMT_TK_AUTH_hierarchy_update Tss2_MU_UINT32_Unmarshal
     TPMT_TK_AUTH_digest TPMT_TK_AUTH_digest_update Tss2_MU_TPM2B_DIGEST_Unmarshal"

definition src_TPMT_TK_AUTH :: "TPMT_TK_AUTH \<Rightarrow> bool" where
  "src_TPMT_TK_AUTH s \<longleftrightarrow> (src_TPM2B 66 64) (TPMT_TK_AUTH_digest s)"

definition valid_TPMT_TK_AUTH :: "TPMT_TK_AUTH \<Rightarrow> bool" where
  "valid_TPMT_TK_AUTH s \<longleftrightarrow> (valid_TPM2B 64) (TPMT_TK_AUTH_digest s)"

definition wire_TPMT_TK_AUTH :: "TPMT_TK_AUTH \<Rightarrow> BYTE list" where
  "wire_TPMT_TK_AUTH s = be_bytes (TPMT_TK_AUTH_tag s) @
     be_bytes (TPMT_TK_AUTH_hierarchy s) @
     wire_TPM2B (TPMT_TK_AUTH_digest s)"

lemma marshaler_TPMT_TK_AUTH:
  "marshaler (\<lambda>s. Tss2_MU_TPMT_TK_AUTH_Marshal (Some s)) src_TPMT_TK_AUTH valid_TPMT_TK_AUTH wire_TPMT_TK_AUTH 72"
  unfolding Tss2_MU_TPMT_TK_AUTH_Marshal_def struct_marshal_defs
  by (rule marshaler_cong,
      (rule marshaler_Cons marshaler_Nil marshaler_VAL [OF mu_UINT16.marshaler_axioms]
        marshaler_VAL [OF mu_UINT32.marshaler_axioms]
        marshaler_ADDR [OF mu_TPM2B_DIGEST.marshaler_axioms])+)
    (simp_all add: src_TPMT_TK_AUTH_def valid_TPMT_TK_AUTH_def wire_TPMT_TK_AUTH_def)

lemma unmarshaler_TPMT_TK_AUTH:
  "strict_unmarshaler Tss2_MU_TPMT_TK_AUTH_Unmarshal wt_TPMT_TK_AUTH valid_TPMT_TK_AUTH wire_TPMT_TK_AUTH"
  unfolding Tss2_MU_TPMT_TK_AUTH_Unmarshal_def struct_unmarshal_defs
  by (rule strict_unmarshaler_cong, rule strict_unmarshaler_struct,
      rule useq_ok_Cons,
      rule useq_ok_FLD(1) [OF mu_UINT16.strict_unmarshaler_axioms], simp,
      rule useq_ok_Cons,
      rule useq_ok_FLD(1) [OF mu_UINT32.strict_unmarshaler_axioms], simp,
      rule useq_ok_Cons,
      rule useq_ok_FLD(1) [OF mu_TPM2B_DIGEST.strict_unmarshaler_axioms], simp,
      rule useq_ok_Nil)
    (simp_all add: keeps_simps be_bytes_inject wt_TPMT_TK_AUTH_def valid_TPMT_TK_AUTH_def wire_TPMT_TK_AUTH_def wt_zero_TPMT_TK_AUTH [unfolded wt_TPMT_TK_AUTH_def])

interpretation mu_TPMT_TK_AUTH: codec "\<lambda>s. Tss2_MU_TPMT_TK_AUTH_Marshal (Some s)"
  "src_TPMT_TK_AUTH" "valid_TPMT_TK_AUTH" "wire_TPMT_TK_AUTH" "72" Tss2_MU_TPMT_TK_AUTH_Unmarshal "wt_TPMT_TK_AUTH" "valid_TPMT_TK_AUTH"
  by (rule codecI [OF marshaler_TPMT_TK_AUTH unmarshaler_TPMT_TK_AUTH])

definition Tss2_MU_TPMT_TK_HASHCHECK_Marshal :: "TPMT_TK_HASHCHECK option mfun" where
  "Tss2_MU_TPMT_TK_HASHCHECK_Marshal = TPMT_MARSHAL_TK
     (VAL TPMT_TK_HASHCHECK_tag Tss2_MU_UINT16_Marshal)
     (VAL TPMT_TK_HASHCHECK_hierarchy Tss2_MU_UINT32_Marshal)
     (ADDR TPMT_TK_HASHCHECK_digest Tss2_MU_TPM2B_DIGEST_Marshal)"

definition Tss2_MU_TPMT_TK_HASHCHECK_Unmarshal :: "TPMT_TK_HASHCHECK ufun" where
  "Tss2_MU_TPMT_TK_HASHCHECK_Unmarshal = TPMT_UNMARSHAL_TK zero_TPMT_TK_HASHCHECK
     TPMT_TK_HASHCHECK_tag TPMT_TK_HASHCHECK_tag_update Tss2_MU_UINT16_Unmarshal
     TPMT_TK_HASHCHECK_hierarchy TPMT_TK_HASHCHECK_hierarchy_update Tss2_MU_UINT32_Unmarshal
     TPMT_TK_HASHCHECK_digest TPMT_TK_HASHCHECK_digest_update Tss2_MU_TPM2B_DIGEST_Unmarshal"

definition src_TPMT_TK_HASHCHECK :: "TPMT_TK_HASHCHECK \<Rightarrow> bool" where
  "src_TPMT_TK_HASHCHECK s \<longleftrightarrow> (src_TPM2B 66 64) (TPMT_TK_HASHCHECK_digest s)"

definition valid_TPMT_TK_HASHCHECK :: "TPMT_TK_HASHCHECK \<Rightarrow> bool" where
  "valid_TPMT_TK_HASHCHECK s \<longleftrightarrow> (valid_TPM2B 64) (TPMT_TK_HASHCHECK_digest s)"

definition wire_TPMT_TK_HASHCHECK :: "TPMT_TK_HASHCHECK \<Rightarrow> BYTE list" where
  "wire_TPMT_TK_HASHCHECK s = be_bytes (TPMT_TK_HASHCHECK_tag s) @
     be_bytes (TPMT_TK_HASHCHECK_hierarchy s) @
     wire_TPM2B (TPMT_TK_HASHCHECK_digest s)"

lemma marshaler_TPMT_TK_HASHCHECK:
  "marshaler (\<lambda>s. Tss2_MU_TPMT_TK_HASHCHECK_Marshal (Some s)) src_TPMT_TK_HASHCHECK valid_TPMT_TK_HASHCHECK wire_TPMT_TK_HASHCHECK 72"
  unfolding Tss2_MU_TPMT_TK_HASHCHECK_Marshal_def struct_marshal_defs
  by (rule marshaler_cong,
      (rule marshaler_Cons marshaler_Nil marshaler_VAL [OF mu_UINT16.marshaler_axioms]
        marshaler_VAL [OF mu_UINT32.marshaler_axioms]
        marshaler_ADDR [OF mu_TPM2B_DIGEST.marshaler_axioms])+)
    (simp_all add: src_TPMT_TK_HASHCHECK_def valid_TPMT_TK_HASHCHECK_def wire_TPMT_TK_HASHCHECK_def)

lemma unmarshaler_TPMT_TK_HASHCHECK:
  "strict_unmarshaler Tss2_MU_TPMT_TK_HASHCHECK_Unmarshal wt_TPMT_TK_HASHCHECK valid_TPMT_TK_HASHCHECK wire_TPMT_TK_HASHCHECK"
  unfolding Tss2_MU_TPMT_TK_HASHCHECK_Unmarshal_def struct_unmarshal_defs
  by (rule strict_unmarshaler_cong, rule strict_unmarshaler_struct,
      rule useq_ok_Cons,
      rule useq_ok_FLD(1) [OF mu_UINT16.strict_unmarshaler_axioms], simp,
      rule useq_ok_Cons,
      rule useq_ok_FLD(1) [OF mu_UINT32.strict_unmarshaler_axioms], simp,
      rule useq_ok_Cons,
      rule useq_ok_FLD(1) [OF mu_TPM2B_DIGEST.strict_unmarshaler_axioms], simp,
      rule useq_ok_Nil)
    (simp_all add: keeps_simps be_bytes_inject wt_TPMT_TK_HASHCHECK_def valid_TPMT_TK_HASHCHECK_def wire_TPMT_TK_HASHCHECK_def wt_zero_TPMT_TK_HASHCHECK [unfolded wt_TPMT_TK_HASHCHECK_def])

interpretation mu_TPMT_TK_HASHCHECK: codec "\<lambda>s. Tss2_MU_TPMT_TK_HASHCHECK_Marshal (Some s)"
  "src_TPMT_TK_HASHCHECK" "valid_TPMT_TK_HASHCHECK" "wire_TPMT_TK_HASHCHECK" "72" Tss2_MU_TPMT_TK_HASHCHECK_Unmarshal "wt_TPMT_TK_HASHCHECK" "valid_TPMT_TK_HASHCHECK"
  by (rule codecI [OF marshaler_TPMT_TK_HASHCHECK unmarshaler_TPMT_TK_HASHCHECK])

definition Tss2_MU_TPMU_ENCRYPTED_SECRET_Marshal :: "TPMU_ENCRYPTED_SECRET option \<Rightarrow> UINT32 \<Rightarrow> buf option \<Rightarrow> size_t \<Rightarrow> size_t option \<Rightarrow> mres" where
  "Tss2_MU_TPMU_ENCRYPTED_SECRET_Marshal = TPMU_MARSHAL2
    [(ucast TPM2_ALG_ECC, U_ADDR get_TPMU_ENCRYPTED_SECRET_ecc marshal_ecc),
     (ucast TPM2_ALG_RSA, U_ADDR get_TPMU_ENCRYPTED_SECRET_rsa marshal_rsa),
     (ucast TPM2_ALG_SYMCIPHER, U_ADDR get_TPMU_ENCRYPTED_SECRET_symmetric marshal_symmetric),
     (ucast TPM2_ALG_KEYEDHASH, U_ADDR get_TPMU_ENCRYPTED_SECRET_keyedHash marshal_keyedhash)]"

definition Tss2_MU_TPMU_ENCRYPTED_SECRET_Unmarshal :: "buf option \<Rightarrow> size_t \<Rightarrow> size_t option \<Rightarrow> UINT32 \<Rightarrow> TPMU_ENCRYPTED_SECRET option \<Rightarrow> TPMU_ENCRYPTED_SECRET ures" where
  "Tss2_MU_TPMU_ENCRYPTED_SECRET_Unmarshal = TPMU_UNMARSHAL2
    [(ucast TPM2_ALG_ECC, U_MEM get_TPMU_ENCRYPTED_SECRET_ecc TPMU_ENCRYPTED_SECRET_ecc (replicate 260 0) unmarshal_ecc),
     (ucast TPM2_ALG_RSA, U_MEM get_TPMU_ENCRYPTED_SECRET_rsa TPMU_ENCRYPTED_SECRET_rsa (replicate 512 0) unmarshal_rsa),
     (ucast TPM2_ALG_SYMCIPHER, U_MEM get_TPMU_ENCRYPTED_SECRET_symmetric TPMU_ENCRYPTED_SECRET_symmetric (replicate 66 0) unmarshal_symmetric),
     (ucast TPM2_ALG_KEYEDHASH, U_MEM get_TPMU_ENCRYPTED_SECRET_keyedHash TPMU_ENCRYPTED_SECRET_keyedHash (replicate 66 0) unmarshal_keyedhash)]"

definition spec_TPMU_ENCRYPTED_SECRET :: "(UINT32 \<times> TPMU_ENCRYPTED_SECRET mspec) list" where
  "spec_TPMU_ENCRYPTED_SECRET =
    [(ucast TPM2_ALG_ECC, member_spec get_TPMU_ENCRYPTED_SECRET_ecc (\<lambda>x. length x = 260) (\<lambda>x. length x = 260) (\<lambda>x. x)),
     (ucast TPM2_ALG_RSA, member_spec get_TPMU_ENCRYPTED_SECRET_rsa (\<lambda>x. length x = 512) (\<lambda>x. length x = 512) (\<lambda>x. x)),
     (ucast TPM2_ALG_SYMCIPHER, member_spec get_TPMU_ENCRYPTED_SECRET_symmetric (\<lambda>x. length x = 66) (\<lambda>x. length x = 66) (\<lambda>x. x)),
     (ucast TPM2_ALG_KEYEDHASH, member_spec get_TPMU_ENCRYPTED_SECRET_keyedHash (\<lambda>x. length x = 66) (\<lambda>x. length x = 66) (\<lambda>x. x))]"

abbreviation "src_TPMU_ENCRYPTED_SECRET \<equiv> src_union spec_TPMU_ENCRYPTED_SECRET"
abbreviation "valid_TPMU_ENCRYPTED_SECRET \<equiv> valid_union spec_TPMU_ENCRYPTED_SECRET"
abbreviation "wire_TPMU_ENCRYPTED_SECRET \<equiv> wire_union spec_TPMU_ENCRYPTED_SECRET"

lemma marshaler_TPMU_ENCRYPTED_SECRET:
  "marshaler (\<lambda>u. Tss2_MU_TPMU_ENCRYPTED_SECRET_Marshal (Some u) k) (src_TPMU_ENCRYPTED_SECRET k) (valid_TPMU_ENCRYPTED_SECRET k) (wire_TPMU_ENCRYPTED_SECRET k) 512"
  unfolding Tss2_MU_TPMU_ENCRYPTED_SECRET_Marshal_def spec_TPMU_ENCRYPTED_SECRET_def
  by (rule marshaler_TPMU, simp only: entry_rel_simps, intro conjI refl TrueI
      marshals_ADDR [OF marshaler_marshal_ecc]
      marshals_ADDR [OF marshaler_marshal_rsa]
      marshals_ADDR [OF marshaler_marshal_symmetric]
      marshals_ADDR [OF marshaler_marshal_keyedhash])
    (simp_all add: get_TPMU_ENCRYPTED_SECRET)

lemma unmarshaler_TPMU_ENCRYPTED_SECRET:
  "strict_unmarshaler (\<lambda>b bs off. Tss2_MU_TPMU_ENCRYPTED_SECRET_Unmarshal b bs off k) wt_TPMU_ENCRYPTED_SECRET (valid_TPMU_ENCRYPTED_SECRET k) (wire_TPMU_ENCRYPTED_SECRET k)"
  unfolding Tss2_MU_TPMU_ENCRYPTED_SECRET_Unmarshal_def spec_TPMU_ENCRYPTED_SECRET_def
  by (rule strict_unmarshaler_TPMU, simp only: entry_rel_simps, intro conjI refl TrueI
      unmarshals_MEM [OF unmarshaler_unmarshal_ecc]
      unmarshals_MEM [OF unmarshaler_unmarshal_rsa]
      unmarshals_MEM [OF unmarshaler_unmarshal_symmetric]
      unmarshals_MEM [OF unmarshaler_unmarshal_keyedhash])
    (simp_all add: get_TPMU_ENCRYPTED_SECRET)

interpretation mu_TPMU_ENCRYPTED_SECRET: codec "\<lambda>u. Tss2_MU_TPMU_ENCRYPTED_SECRET_Marshal (Some u) k" "src_TPMU_ENCRYPTED_SECRET k" "valid_TPMU_ENCRYPTED_SECRET k" "wire_TPMU_ENCRYPTED_SECRET k" "512"
  "\<lambda>b bs off. Tss2_MU_TPMU_ENCRYPTED_SECRET_Unmarshal b bs off k" wt_TPMU_ENCRYPTED_SECRET "valid_TPMU_ENCRYPTED_SECRET k" for k
  by (rule codecI [OF marshaler_TPMU_ENCRYPTED_SECRET unmarshaler_TPMU_ENCRYPTED_SECRET])

definition Tss2_MU_TPMU_NAME_Marshal :: "TPMU_NAME option \<Rightarrow> UINT32 \<Rightarrow> buf option \<Rightarrow> size_t \<Rightarrow> size_t option \<Rightarrow> mres" where
  "Tss2_MU_TPMU_NAME_Marshal = TPMU_MARSHAL2
    [(of_nat (sizeof (CInt 4)), U_VAL get_TPMU_NAME_handle Tss2_MU_UINT32_Marshal),
     (of_nat (sizeof (CInt 2) + TPM2_SHA1_DIGEST_SIZE), U_ADDR get_TPMU_NAME_digest Tss2_MU_TPMT_HA_Marshal),
     (of_nat (sizeof (CInt 2) + TPM2_SHA256_DIGEST_SIZE), U_ADDR get_TPMU_NAME_digest Tss2_MU_TPMT_HA_Marshal),
     (of_nat (sizeof (CInt 2) + TPM2_SHA384_DIGEST_SIZE), U_ADDR get_TPMU_NAME_digest Tss2_MU_TPMT_HA_Marshal),
     (of_nat (sizeof (CInt 2) + TPM2_SHA512_DIGEST_SIZE), U_ADDR get_TPMU_NAME_digest Tss2_MU_TPMT_HA_Marshal)]"

definition Tss2_MU_TPMU_NAME_Unmarshal :: "buf option \<Rightarrow> size_t \<Rightarrow> size_t option \<Rightarrow> UINT32 \<Rightarrow> TPMU_NAME option \<Rightarrow> TPMU_NAME ures" where
  "Tss2_MU_TPMU_NAME_Unmarshal = TPMU_UNMARSHAL2
    [(of_nat (sizeof (CInt 4)), U_MEM get_TPMU_NAME_handle TPMU_NAME_handle 0 Tss2_MU_UINT32_Unmarshal),
     (of_nat (sizeof (CInt 2) + TPM2_SHA1_DIGEST_SIZE), U_MEM get_TPMU_NAME_digest TPMU_NAME_digest zero_TPMT_HA Tss2_MU_TPMT_HA_Unmarshal),
     (of_nat (sizeof (CInt 2) + TPM2_SHA256_DIGEST_SIZE), U_MEM get_TPMU_NAME_digest TPMU_NAME_digest zero_TPMT_HA Tss2_MU_TPMT_HA_Unmarshal),
     (of_nat (sizeof (CInt 2) + TPM2_SHA384_DIGEST_SIZE), U_MEM get_TPMU_NAME_digest TPMU_NAME_digest zero_TPMT_HA Tss2_MU_TPMT_HA_Unmarshal),
     (of_nat (sizeof (CInt 2) + TPM2_SHA512_DIGEST_SIZE), U_MEM get_TPMU_NAME_digest TPMU_NAME_digest zero_TPMT_HA Tss2_MU_TPMT_HA_Unmarshal)]"

definition spec_TPMU_NAME :: "(UINT32 \<times> TPMU_NAME mspec) list" where
  "spec_TPMU_NAME =
    [(of_nat (sizeof (CInt 4)), member_spec get_TPMU_NAME_handle (\<lambda>_. True) (\<lambda>_. True) be_bytes),
     (of_nat (sizeof (CInt 2) + TPM2_SHA1_DIGEST_SIZE), member_spec get_TPMU_NAME_digest src_TPMT_HA valid_TPMT_HA wire_TPMT_HA),
     (of_nat (sizeof (CInt 2) + TPM2_SHA256_DIGEST_SIZE), member_spec get_TPMU_NAME_digest src_TPMT_HA valid_TPMT_HA wire_TPMT_HA),
     (of_nat (sizeof (CInt 2) + TPM2_SHA384_DIGEST_SIZE), member_spec get_TPMU_NAME_digest src_TPMT_HA valid_TPMT_HA wire_TPMT_HA),
     (of_nat (sizeof (CInt 2) + TPM2_SHA512_DIGEST_SIZE), member_spec get_TPMU_NAME_digest src_TPMT_HA valid_TPMT_HA wire_TPMT_HA)]"

abbreviation "src_TPMU_NAME \<equiv> src_union spec_TPMU_NAME"
abbreviation "valid_TPMU_NAME \<equiv> valid_union spec_TPMU_NAME"
abbreviation "wire_TPMU_NAME \<equiv> wire_union spec_TPMU_NAME"

lemma marshaler_TPMU_NAME:
  "marshaler (\<lambda>u. Tss2_MU_TPMU_NAME_Marshal (Some u) k) (src_TPMU_NAME k) (valid_TPMU_NAME k) (wire_TPMU_NAME k) 66"
  unfolding Tss2_MU_TPMU_NAME_Marshal_def spec_TPMU_NAME_def
  by (rule marshaler_TPMU, simp only: entry_rel_simps, intro conjI refl TrueI
      marshals_VAL [OF mu_UINT32.marshaler_axioms]
      marshals_ADDR [OF mu_TPMT_HA.marshaler_axioms])
    (simp_all add: get_TPMU_NAME)

lemma unmarshaler_TPMU_NAME:
  "strict_unmarshaler (\<lambda>b bs off. Tss2_MU_TPMU_NAME_Unmarshal b bs off k) wt_TPMU_NAME (valid_TPMU_NAME k) (wire_TPMU_NAME k)"
  unfolding Tss2_MU_TPMU_NAME_Unmarshal_def spec_TPMU_NAME_def
  by (rule strict_unmarshaler_TPMU, simp only: entry_rel_simps, intro conjI refl TrueI
      unmarshals_MEM [OF mu_UINT32.strict_unmarshaler_axioms]
      unmarshals_MEM [OF mu_TPMT_HA.strict_unmarshaler_axioms])
    (simp_all add: get_TPMU_NAME)

interpretation mu_TPMU_NAME: codec "\<lambda>u. Tss2_MU_TPMU_NAME_Marshal (Some u) k" "src_TPMU_NAME k" "valid_TPMU_NAME k" "wire_TPMU_NAME k" "66"
  "\<lambda>b bs off. Tss2_MU_TPMU_NAME_Unmarshal b bs off k" wt_TPMU_NAME "valid_TPMU_NAME k" for k
  by (rule codecI [OF marshaler_TPMU_NAME unmarshaler_TPMU_NAME])

definition Tss2_MU_TPML_ALG_Marshal :: "TPML_ALG option mfun" where
  "Tss2_MU_TPML_ALG_Marshal = TPML_MARSHAL (TPM2_MAX_ALG_LIST_SIZE) (VAL (\<lambda>x. x) Tss2_MU_UINT16_Marshal)"

definition Tss2_MU_TPML_ALG_Unmarshal :: "TPML_ALG ufun" where
  "Tss2_MU_TPML_ALG_Unmarshal = TPML_UNMARSHAL (TPM2_MAX_ALG_LIST_SIZE) 0 Tss2_MU_UINT16_Unmarshal"

interpretation mu_TPML_ALG: codec "\<lambda>s. Tss2_MU_TPML_ALG_Marshal (Some s)"
  "(src_TPML 128 (\<lambda>_. True))" "(valid_TPML 128 (\<lambda>_. True))" "(wire_TPML be_bytes)" "260" Tss2_MU_TPML_ALG_Unmarshal "(wt_TPML 128 (\<lambda>_. True))" "(valid_TPML 128 (\<lambda>_. True))"
  using codecI [OF marshaler_TPML [of "VAL (\<lambda>x. x) Tss2_MU_UINT16_Marshal", OF marshaler_VAL [OF mu_UINT16.marshaler_axioms], of 128] strict_unmarshaler_TPML [where zero = "0" and N = 128, OF mu_UINT16.strict_unmarshaler_axioms]]
  by (simp add: Tss2_MU_TPML_ALG_Marshal_def Tss2_MU_TPML_ALG_Unmarshal_def)

definition Tss2_MU_TPML_DIGEST_Marshal :: "TPML_DIGEST option mfun" where
  "Tss2_MU_TPML_DIGEST_Marshal = TPML_MARSHAL (8) (ADDR (\<lambda>x. x) Tss2_MU_TPM2B_DIGEST_Marshal)"

definition Tss2_MU_TPML_DIGEST_Unmarshal :: "TPML_DIGEST ufun" where
  "Tss2_MU_TPML_DIGEST_Unmarshal = TPML_UNMARSHAL (8) (zero_TPM2B 64) Tss2_MU_TPM2B_DIGEST_Unmarshal"

interpretation mu_TPML_DIGEST: codec "\<lambda>s. Tss2_MU_TPML_DIGEST_Marshal (Some s)"
  "(src_TPML 8 (src_TPM2B 66 64))" "(valid_TPML 8 (valid_TPM2B 64))" "(wire_TPML wire_TPM2B)" "532" Tss2_MU_TPML_DIGEST_Unmarshal "(wt_TPML 8 (wt_TPM2B 64))" "(valid_TPML 8 (valid_TPM2B 64))"
  using codecI [OF marshaler_TPML [of "ADDR (\<lambda>x. x) Tss2_MU_TPM2B_DIGEST_Marshal", OF marshaler_ADDR [OF mu_TPM2B_DIGEST.marshaler_axioms], of 8] strict_unmarshaler_TPML [where zero = "(zero_TPM2B 64)" and N = 8, OF mu_TPM2B_DIGEST.strict_unmarshaler_axioms]]
  by (simp add: Tss2_MU_TPML_DIGEST_Marshal_def Tss2_MU_TPML_DIGEST_Unmarshal_def)

definition Tss2_MU_TPML_DIGEST_VALUES_Marshal :: "TPML_DIGEST_VALUES option mfun" where
  "Tss2_MU_TPML_DIGEST_VALUES_Marshal = TPML_MARSHAL (TPM2_NUM_PCR_BANKS) (ADDR (\<lambda>x. x) Tss2_MU_TPMT_HA_Marshal)"

definition Tss2_MU_TPML_DIGEST_VALUES_Unmarshal :: "TPML_DIGEST_VALUES ufun" where
  "Tss2_MU_TPML_DIGEST_VALUES_Unmarshal = TPML_UNMARSHAL (TPM2_NUM_PCR_BANKS) zero_TPMT_HA Tss2_MU_TPMT_HA_Unmarshal"

interpretation mu_TPML_DIGEST_VALUES: codec "\<lambda>s. Tss2_MU_TPML_DIGEST_VALUES_Marshal (Some s)"
  "(src_TPML 16 src_TPMT_HA)" "(valid_TPML 16 valid_TPMT_HA)" "(wire_TPML wire_TPMT_HA)" "1060" Tss2_MU_TPML_DIGEST_VALUES_Unmarshal "(wt_TPML 16 wt_TPMT_HA)" "(valid_TPML 16 valid_TPMT_HA)"
  using codecI [OF marshaler_TPML [of "ADDR (\<lambda>x. x) Tss2_MU_TPMT_HA_Marshal", OF marshaler_ADDR [OF mu_TPMT_HA.marshaler_axioms], of 16] strict_unmarshaler_TPML [where zero = "zero_TPMT_HA" and N = 16, OF mu_TPMT_HA.strict_unmarshaler_axioms]]
  by (simp add: Tss2_MU_TPML_DIGEST_VALUES_Marshal_def Tss2_MU_TPML_DIGEST_VALUES_Unmarshal_def)

definition Tss2_MU_TPML_INTEL_PTT_PROPERTY_Marshal :: "TPML_INTEL_PTT_PROPERTY option mfun" where
  "Tss2_MU_TPML_INTEL_PTT_PROPERTY_Marshal = TPML_MARSHAL (TPM2_MAX_PTT_PROPERTIES) (VAL (\<lambda>x. x) Tss2_MU_UINT32_Marshal)"

definition Tss2_MU_TPML_INTEL_PTT_PROPERTY_Unmarshal :: "TPML_INTEL_PTT_PROPERTY ufun" where
  "Tss2_MU_TPML_INTEL_PTT_PROPERTY_Unmarshal = TPML_UNMARSHAL (TPM2_MAX_PTT_PROPERTIES) 0 Tss2_MU_UINT32_Unmarshal"

interpretation mu_TPML_INTEL_PTT_PROPERTY: codec "\<lambda>s. Tss2_MU_TPML_INTEL_PTT_PROPERTY_Marshal (Some s)"
  "(src_TPML 256 (\<lambda>_. True))" "(valid_TPML 256 (\<lambda>_. True))" "(wire_TPML be_bytes)" "1028" Tss2_MU_TPML_INTEL_PTT_PROPERTY_Unmarshal "(wt_TPML 256 (\<lambda>_. True))" "(valid_TPML 256 (\<lambda>_. True))"
  using codecI [OF marshaler_TPML [of "VAL (\<lambda>x. x) Tss2_MU_UINT32_Marshal", OF marshaler_VAL [OF mu_UINT32.marshaler_axioms], of 256] strict_unmarshaler_TPML [where zero = "0" and N = 256, OF mu_UINT32.strict_unmarshaler_axioms]]
  by (simp add: Tss2_MU_TPML_INTEL_PTT_PROPERTY_Marshal_def Tss2_MU_TPML_INTEL_PTT_PROPERTY_Unmarshal_def)

definition Tss2_MU_TPML_AC_CAPABILITIES_Marshal :: "TPML_AC_CAPABILITIES option mfun" where
  "Tss2_MU_TPML_AC_CAPABILITIES_Marshal = TPML_MARSHAL (TPM2_MAX_AC_CAPABILITIES) (ADDR (\<lambda>x. x) Tss2_MU_TPMS_AC_OUTPUT_Marshal)"

definition Tss2_MU_TPML_AC_CAPABILITIES_Unmarshal :: "TPML_AC_CAPABILITIES ufun" where
  "Tss2_MU_TPML_AC_CAPABILITIES_Unmarshal = TPML_UNMARSHAL (TPM2_MAX_AC_CAPABILITIES) zero_TPMS_AC_OUTPUT Tss2_MU_TPMS_AC_OUTPUT_Unmarshal"

interpretation mu_TPML_AC_CAPABILITIES: codec "\<lambda>s. Tss2_MU_TPML_AC_CAPABILITIES_Marshal (Some s)"
  "(src_TPML 128 src_TPMS_AC_OUTPUT)" "(valid_TPML 128 valid_TPMS_AC_OUTPUT)" "(wire_TPML wire_TPMS_AC_OUTPUT)" "1028" Tss2_MU_TPML_AC_CAPABILITIES_Unmarshal "(wt_TPML 128 wt_TPMS_AC_OUTPUT)" "(valid_TPML 128 valid_TPMS_AC_OUTPUT)"
  using codecI [OF marshaler_TPML [of "ADDR (\<lambda>x. x) Tss2_MU_TPMS_AC_OUTPUT_Marshal", OF marshaler_ADDR [OF mu_TPMS_AC_OUTPUT.marshaler_axioms], of 128] strict_unmarshaler_TPML [where zero = "zero_TPMS_AC_OUTPUT" and N = 128, OF mu_TPMS_AC_OUTPUT.strict_unmarshaler_axioms]]
  by (simp add: Tss2_MU_TPML_AC_CAPABILITIES_Marshal_def Tss2_MU_TPML_AC_CAPABILITIES_Unmarshal_def)

definition Tss2_MU_TPML_ML_PARAMETER_SET_Marshal :: "TPML_ML_PARAMETER_SET option mfun" where
  "Tss2_MU_TPML_ML_PARAMETER_SET_Marshal = TPML_MARSHAL (6) (ADDR (\<lambda>x. x) Tss2_MU_TPMS_ML_PARAMETER_SET_Marshal)"

definition Tss2_MU_TPML_ML_PARAMETER_SET_Unmarshal :: "TPML_ML_PARAMETER_SET ufun" where
  "Tss2_MU_TPML_ML_PARAMETER_SET_Unmarshal = TPML_UNMARSHAL (6) zero_TPMS_ML_PARAMETER_SET Tss2_MU_TPMS_ML_PARAMETER_SET_Unmarshal"

interpretation mu_TPML_ML_PARAMETER_SET: codec "\<lambda>s. Tss2_MU_TPML_ML_PARAMETER_SET_Marshal (Some s)"
  "(src_TPML 6 src_TPMS_ML_PARAMETER_SET)" "(valid_TPML 6 valid_TPMS_ML_PARAMETER_SET)" "(wire_TPML wire_TPMS_ML_PARAMETER_SET)" "28" Tss2_MU_TPML_ML_PARAMETER_SET_Unmarshal "(wt_TPML 6 wt_TPMS_ML_PARAMETER_SET)" "(valid_TPML 6 valid_TPMS_ML_PARAMETER_SET)"
  using codecI [OF marshaler_TPML [of "ADDR (\<lambda>x. x) Tss2_MU_TPMS_ML_PARAMETER_SET_Marshal", OF marshaler_ADDR [OF mu_TPMS_ML_PARAMETER_SET.marshaler_axioms], of 6] strict_unmarshaler_TPML [where zero = "zero_TPMS_ML_PARAMETER_SET" and N = 6, OF mu_TPMS_ML_PARAMETER_SET.strict_unmarshaler_axioms]]
  by (simp add: Tss2_MU_TPML_ML_PARAMETER_SET_Marshal_def Tss2_MU_TPML_ML_PARAMETER_SET_Unmarshal_def)


end
