(* ===== verification/MU_Properties.thy ===== *)
theory MU_Properties
  imports MU_Misc
begin

text \<open>
  What the marshalling library guarantees, stated on the functions of \<open>tss2_mu.h\<close>: round trips,
  memory safety and soundness of parsing, error branches, and the places where the code departs
  from its own conventions.
\<close>

section \<open>Example values\<close>

text \<open>An ML-KEM public area with a two-byte key.\<close>

definition ex_public :: TPMT_PUBLIC where
  "ex_public = zero_TPMT_PUBLIC\<lparr>
     TPMT_PUBLIC_type := TPM2_ALG_MLKEM,
     TPMT_PUBLIC_nameAlg := TPM2_ALG_SHA256,
     TPMT_PUBLIC_objectAttributes := 0x00020072,
     TPMT_PUBLIC_parameters := TPMU_PUBLIC_PARMS_mlkemDetail
       \<lparr>TPMS_MLKEM_PARMS_nameAlg = TPM2_ALG_SHA256,
        TPMS_MLKEM_PARMS_parameterSet = \<lparr>TPMS_ML_PARAMETER_SET_identifier = 3\<rparr>\<rparr>,
     TPMT_PUBLIC_unique := TPMU_PUBLIC_ID_mlkem
       \<lparr>TPM2B_size = 2, TPM2B_buffer = [0xAB, 0xCD] @ replicate 1566 0\<rparr>\<rparr>"

lemma ex_public_length: "length (wire_TPMT_PUBLIC ex_public) = 20"
  by code_simp

lemma ex_public_valid: "valid_TPMT_PUBLIC ex_public"
  by code_simp

text \<open>A null signature and its four-byte neighbourhood.\<close>

definition ex_null_signature :: "BYTE list" where
  "ex_null_signature = [0x00, 0x10, 0x55, 0x66]"

lemma ex_null_signature_read:
  "Tss2_MU_TPMT_SIGNATURE_Unmarshal (Some ex_null_signature) 4 (Some 0) (Some zero_TPMT_SIGNATURE) =
     Some (0, Some 2, Some (zero_TPMT_SIGNATURE\<lparr>TPMT_SIGNATURE_sigAlg := TPM2_ALG_NULL\<rparr>))"
  by code_simp

section \<open>Public areas\<close>

text \<open>
  C1: A public area that has a wire format, marshalled into a buffer with room for it and
  unmarshalled from the same offset, succeeds both times, ends at the same offset, and gives back
  a public area of the same content, whatever the destination held before.
\<close>

theorem TPMT_PUBLIC_round_trip:
  assumes "valid_TPMT_PUBLIC x" "wt_TPMT_PUBLIC d" "unat bs \<le> length b"
    and "fits bs off (length (wire_TPMT_PUBLIC x))"
  shows "\<exists>b' off' d'.
     Tss2_MU_TPMT_PUBLIC_Marshal (Some x) (Some b) bs (Some off) = Some (TSS2_RC_SUCCESS, Some b', Some off') \<and>
     Tss2_MU_TPMT_PUBLIC_Unmarshal (Some b') bs (Some off) (Some d) = Some (TSS2_RC_SUCCESS, Some off', Some d') \<and>
     valid_TPMT_PUBLIC d' \<and> wire_TPMT_PUBLIC d' = wire_TPMT_PUBLIC x"
proof -
  from mu_TPMT_PUBLIC.marshal_then_unmarshal [OF assms] obtain b' off' d' where
    r: "Tss2_MU_TPMT_PUBLIC_Marshal (Some x) (Some b) bs (Some off) = Some (0, Some b', Some off')"
      "Tss2_MU_TPMT_PUBLIC_Unmarshal (Some b') bs (Some off) (Some d) = Some (0, Some off', Some d')"
      "wire_TPMT_PUBLIC d' = wire_TPMT_PUBLIC x" by blast
  have "untouched b b' off bs"
    using mu_TPMT_PUBLIC.marshal_then_holds [OF mu_TPMT_PUBLIC.valid_src [OF assms(1)] assms(3) r(1)] by simp
  with assms(3) have "unat bs \<le> length b'" by (simp add: untouched_def)
  from mu_TPMT_PUBLIC.unmarshal_sound [OF assms(2) this r(2)] r show ?thesis by blast
qed

theorem TPMT_PUBLIC_round_trip_witness:
  "\<exists>b' off' d'.
     Tss2_MU_TPMT_PUBLIC_Marshal (Some ex_public) (Some (replicate 30 0)) 30 (Some 2) =
       Some (TSS2_RC_SUCCESS, Some b', Some off') \<and>
     Tss2_MU_TPMT_PUBLIC_Unmarshal (Some b') 30 (Some 2) (Some zero_TPMT_PUBLIC) =
       Some (TSS2_RC_SUCCESS, Some off', Some d') \<and>
     valid_TPMT_PUBLIC d' \<and> wire_TPMT_PUBLIC d' = wire_TPMT_PUBLIC ex_public"
  by (rule TPMT_PUBLIC_round_trip) (simp_all add: ex_public_valid ex_public_length fits_def)

text \<open>
  C3: Unmarshalling a public area from arbitrary bytes is memory safe and total: with a buffer of
  at least \<open>buffer_size\<close> bytes it never reads outside it, keeps the destination well typed and
  leaves the offset alone when it fails; when it succeeds it has consumed exactly the wire format
  of the public area it delivers, and never passes \<open>buffer_size\<close>.
\<close>

theorem TPMT_PUBLIC_unmarshal_safe:
  assumes "wt_TPMT_PUBLIC d" "unat bs \<le> length b"
  shows "\<exists>rc off' d'.
     Tss2_MU_TPMT_PUBLIC_Unmarshal (Some b) bs (Some off) (Some d) = Some (rc, Some off', Some d') \<and>
     wt_TPMT_PUBLIC d' \<and> (rc \<noteq> TSS2_RC_SUCCESS \<longrightarrow> off' = off) \<and>
     (rc = TSS2_RC_SUCCESS \<longrightarrow> valid_TPMT_PUBLIC d' \<and> unat off + length (wire_TPMT_PUBLIC d') \<le> unat bs \<and>
        seg b (unat off) (length (wire_TPMT_PUBLIC d')) = wire_TPMT_PUBLIC d' \<and>
        unat off' = unat off + length (wire_TPMT_PUBLIC d'))"
proof -
  from mu_TPMT_PUBLIC.unmarshal_total [OF assms, of off] obtain rc off' d' where
    r: "Tss2_MU_TPMT_PUBLIC_Unmarshal (Some b) bs (Some off) (Some d) = Some (rc, Some off', Some d')"
      "wt_TPMT_PUBLIC d'" "rc \<noteq> 0 \<longrightarrow> off' = off" by blast
  have "0 < length (wire_TPMT_PUBLIC x)" for x by (simp add: wire_TPMT_PUBLIC_def)
  then have "rc = 0 \<longrightarrow> valid_TPMT_PUBLIC d' \<and> unat off + length (wire_TPMT_PUBLIC d') \<le> unat bs \<and>
        seg b (unat off) (length (wire_TPMT_PUBLIC d')) = wire_TPMT_PUBLIC d' \<and>
        unat off' = unat off + length (wire_TPMT_PUBLIC d')"
    using mu_TPMT_PUBLIC.unmarshal_sound [OF assms, of off off' d'] r(1)
    by (auto simp: holds_at_def fits_def unat_add_fits)
  with r show ?thesis by blast
qed

theorem TPMT_PUBLIC_unmarshal_safe_witness:
  "\<exists>rc off' d'.
     Tss2_MU_TPMT_PUBLIC_Unmarshal (Some [0x00, 0x23, 0xFF]) 3 (Some 1) (Some zero_TPMT_PUBLIC) =
       Some (rc, Some off', Some d') \<and>
     wt_TPMT_PUBLIC d' \<and> (rc \<noteq> TSS2_RC_SUCCESS \<longrightarrow> off' = 1) \<and>
     (rc = TSS2_RC_SUCCESS \<longrightarrow> valid_TPMT_PUBLIC d' \<and> unat (1 :: size_t) + length (wire_TPMT_PUBLIC d') \<le> unat (3 :: size_t) \<and>
        seg [0x00, 0x23, 0xFF] (unat (1 :: size_t)) (length (wire_TPMT_PUBLIC d')) = wire_TPMT_PUBLIC d' \<and>
        unat off' = unat (1 :: size_t) + length (wire_TPMT_PUBLIC d'))"
  by (rule TPMT_PUBLIC_unmarshal_safe) simp_all

text \<open>
  C10: Marshalling any public area a caller may pass (arrays of their declared length, union members
  that match the selectors) is memory safe: it succeeds exactly when the value has a wire format
  and the room suffices, changes no byte outside \<open>[offset, buffer_size)\<close>, and on failure leaves the
  offset alone.
\<close>

theorem TPMT_PUBLIC_marshal_safe:
  assumes "src_TPMT_PUBLIC x" "unat bs \<le> length b"
  shows "\<exists>rc b' off'.
     Tss2_MU_TPMT_PUBLIC_Marshal (Some x) (Some b) bs (Some off) = Some (rc, Some b', Some off') \<and>
     length b' = length b \<and> (\<forall>i < length b. i < unat off \<or> unat bs \<le> i \<longrightarrow> b' ! i = b ! i) \<and>
     (rc = TSS2_RC_SUCCESS \<longleftrightarrow> valid_TPMT_PUBLIC x \<and> fits bs off (length (wire_TPMT_PUBLIC x))) \<and>
     (rc \<noteq> TSS2_RC_SUCCESS \<longrightarrow> off' = off)"
proof -
  from mu_TPMT_PUBLIC.marshal_total [OF assms, of off] obtain rc b' off' where
    r: "Tss2_MU_TPMT_PUBLIC_Marshal (Some x) (Some b) bs (Some off) = Some (rc, Some b', Some off')"
      "untouched b b' off bs" "rc \<noteq> 0 \<longrightarrow> off' = off" by blast
  moreover have "rc = 0 \<longleftrightarrow> valid_TPMT_PUBLIC x \<and> fits bs off (length (wire_TPMT_PUBLIC x))"
    using mu_TPMT_PUBLIC.marshal_success_iff [OF assms, of off] r(1) by simp
  ultimately show ?thesis by (simp add: untouched_def)
qed

theorem TPMT_PUBLIC_marshal_safe_witness:
  "\<exists>rc b' off'.
     Tss2_MU_TPMT_PUBLIC_Marshal (Some ex_public) (Some (replicate 10 7)) 8 (Some 2) = Some (rc, Some b', Some off') \<and>
     length b' = length (replicate 10 (7 :: BYTE)) \<and>
     (\<forall>i < length (replicate 10 (7 :: BYTE)). i < unat (2 :: size_t) \<or> unat (8 :: size_t) \<le> i \<longrightarrow> b' ! i = replicate 10 7 ! i) \<and>
     (rc = TSS2_RC_SUCCESS \<longleftrightarrow> valid_TPMT_PUBLIC ex_public \<and> fits 8 2 (length (wire_TPMT_PUBLIC ex_public))) \<and>
     (rc \<noteq> TSS2_RC_SUCCESS \<longrightarrow> off' = 2)"
  by (rule TPMT_PUBLIC_marshal_safe) (simp_all add: mu_TPMT_PUBLIC.valid_src ex_public_valid)

section \<open>Sized public areas\<close>

lemma TPM2B_PUBLIC_size_read:
  assumes "unat bs \<le> length b"
    and "Tss2_MU_TPM2B_PUBLIC_Unmarshal (Some b) bs (Some off) (Some d) = Some (0, Some off', Some d')"
  shows "TPM2B_SUBTYPE_size d' = word_of (rev (seg b (unat off) 2))"
  using assms(2) unfolding Tss2_MU_TPM2B_PUBLIC_Unmarshal_def
  by (auto simp: SUBTYPE_UNMARSHAL_Some [OF assms(1)] split: if_splits option.splits prod.splits)

text \<open>
  C11: Marshalling a \<open>TPM2B_PUBLIC\<close> ignores the size member of the source: it writes the length the
  public area really takes as a big-endian 16-bit number, then the public area; unmarshalling what
  was written delivers that size and a public area of the same content.
\<close>

theorem TPM2B_PUBLIC_transfer:
  assumes "valid_TPMT_PUBLIC (TPM2B_SUBTYPE_member x)" "wt_TPMT_PUBLIC (TPM2B_SUBTYPE_member d)"
    and "unat bs \<le> length b" "unat off + 2 + length (wire_TPMT_PUBLIC (TPM2B_SUBTYPE_member x)) \<le> unat bs"
  defines "body \<equiv> wire_TPMT_PUBLIC (TPM2B_SUBTYPE_member x)"
  defines "b' \<equiv> patch b (unat off) (be_bytes (of_nat (length body) :: UINT16) @ body)"
  shows "Tss2_MU_TPM2B_PUBLIC_Marshal (Some x) (Some b) bs (Some off) =
      Some (TSS2_RC_SUCCESS, Some b', Some (off + of_nat (2 + length body))) \<and>
    (\<exists>d'. Tss2_MU_TPM2B_PUBLIC_Unmarshal (Some b') bs (Some off) (Some d) =
        Some (TSS2_RC_SUCCESS, Some (off + of_nat (2 + length body)), Some d') \<and>
      unat (TPM2B_SUBTYPE_size d') = length body \<and>
      wire_TPMT_PUBLIC (TPM2B_SUBTYPE_member d') = body)"
proof -
  let ?h = "be_bytes (of_nat (length body) :: UINT16)"
  have len: "length body < 65536"
    using mu_TPMT_PUBLIC.wire_le [OF assms(1)] by (simp add: body_def)
  have w: "wire_SUBTYPE wire_TPMT_PUBLIC x = ?h @ body" by (simp add: wire_SUBTYPE_def body_def)
  have fit: "fits bs off (length (wire_SUBTYPE wire_TPMT_PUBLIC x))"
    using assms(4) by (simp add: w fits_def body_def)
  have m: "Tss2_MU_TPM2B_PUBLIC_Marshal (Some x) (Some b) bs (Some off) =
      Some (0, Some b', Some (off + of_nat (2 + length body)))"
    using mu_TPM2B_PUBLIC.marshal_fit [OF assms(1,3) fit] by (simp add: w b'_def)
  have bs': "unat bs \<le> length b'" using assms(3,4) by (simp add: b'_def body_def)
  from mu_TPM2B_PUBLIC.round_trip [OF assms(1,2,3) m] obtain d' where
    u: "Tss2_MU_TPM2B_PUBLIC_Unmarshal (Some b') bs (Some off) (Some d) =
          Some (0, Some (off + of_nat (2 + length body)), Some d')"
      "wire_SUBTYPE wire_TPMT_PUBLIC d' = ?h @ body" by (auto simp: w)
  have "holds_at b' bs off (?h @ body)"
    using holds_at_patch [OF fit assms(3)] by (simp add: w b'_def)
  then have "holds_at b' bs off ?h" by (simp add: holds_at_append [OF bs'])
  then have "TPM2B_SUBTYPE_size d' = of_nat (length body)"
    using TPM2B_PUBLIC_size_read [OF bs' u(1)] holds_at_be_bytes [where ?'a = 16, OF _ bs', of off]
    by simp
  then have "unat (TPM2B_SUBTYPE_size d') = length body"
    using len by (simp add: unat_of_nat)
  moreover have "wire_TPMT_PUBLIC (TPM2B_SUBTYPE_member d') = body"
    using u(2) by (simp add: wire_SUBTYPE_def append_eq_append_conv)
  ultimately show ?thesis using m u(1) by blast
qed

theorem TPM2B_PUBLIC_transfer_witness:
  "\<exists>d'. Tss2_MU_TPM2B_PUBLIC_Unmarshal
      (Some (patch (replicate 30 0) 4 ([0, 20] @ wire_TPMT_PUBLIC ex_public))) 30 (Some 4)
      (Some (TPM2B_SUBTYPE.make 0 zero_TPMT_PUBLIC)) = Some (TSS2_RC_SUCCESS, Some 26, Some d') \<and>
    unat (TPM2B_SUBTYPE_size d') = 20"
proof -
  have h: "be_bytes (20 :: UINT16) = [0, 20]" by code_simp
  show ?thesis
    using TPM2B_PUBLIC_transfer [of "TPM2B_SUBTYPE.make 99 ex_public" "TPM2B_SUBTYPE.make 0 zero_TPMT_PUBLIC"
        30 "replicate 30 0" 4]
    by (auto simp: TPM2B_SUBTYPE.defs ex_public_valid ex_public_length h)
qed

text \<open>
  C16: A \<open>TPM2B_PUBLIC\<close> is accepted whatever its payload is, because \<open>TPM2B_UNMARSHAL_SUBTYPE\<close> drops the
  return code of the payload's unmarshal function.  For every buffer whose size field is within the
  buffer and within \<open>sizeof(TPMT_PUBLIC)\<close>, with any bytes behind it, \<open>Tss2_MU_TPM2B_PUBLIC_Unmarshal\<close> reports
  success; when the public area could not be read, the destination holds what the failed read left
  there, and the offset stands behind the size field instead of behind the announced bytes.
\<close>

theorem TPM2B_UNMARSHAL_SUBTYPE_drops_error:
  assumes "wt_TPMT_PUBLIC (TPM2B_SUBTYPE_member d)" "unat bs \<le> length b"
    and "seg b (unat off) 2 = be_bytes (sz :: UINT16)" "unat off + 2 + unat sz \<le> unat bs" "unat sz \<le> sizeof ct_TPMT_PUBLIC"
  shows "\<exists>rc off'' m. Tss2_MU_TPMT_PUBLIC_Unmarshal (Some b) bs (Some (off + 2)) (Some (TPM2B_SUBTYPE_member d)) =
      Some (rc, Some off'', Some m) \<and>
    Tss2_MU_TPM2B_PUBLIC_Unmarshal (Some b) bs (Some off) (Some d) =
      Some (TSS2_RC_SUCCESS, Some (if rc = TSS2_RC_SUCCESS then off'' else off + 2),
        Some (d\<lparr>TPM2B_SUBTYPE_size := sz, TPM2B_SUBTYPE_member := m\<rparr>))"
proof -
  from mu_TPMT_PUBLIC.unmarshal_total [OF assms(1,2), of "off + 2"] obtain rc off'' m where
    u: "Tss2_MU_TPMT_PUBLIC_Unmarshal (Some b) bs (Some (off + 2)) (Some (TPM2B_SUBTYPE_member d)) = Some (rc, Some off'', Some m)"
      "rc \<noteq> 0 \<longrightarrow> off'' = off + 2" by blast
  have "Tss2_MU_TPM2B_PUBLIC_Unmarshal (Some b) bs (Some off) (Some d) =
      Some (0, Some off'', Some (d\<lparr>TPM2B_SUBTYPE_size := sz, TPM2B_SUBTYPE_member := m\<rparr>))"
    using assms(3-5) u(1) by (simp add: Tss2_MU_TPM2B_PUBLIC_Unmarshal_def SUBTYPE_UNMARSHAL_Some [OF assms(2)] fits_def)
  with u show ?thesis by auto
qed

theorem TPM2B_UNMARSHAL_SUBTYPE_drops_error_witness:
  "Tss2_MU_TPMT_PUBLIC_Unmarshal (Some [0, 1, 7]) 3 (Some 2) (Some zero_TPMT_PUBLIC) =
     Some (TSS2_MU_RC_INSUFFICIENT_BUFFER, Some 2, Some zero_TPMT_PUBLIC) \<and>
   Tss2_MU_TPM2B_PUBLIC_Unmarshal (Some [0, 1, 7]) 3 (Some 0) (Some (TPM2B_SUBTYPE.make 9 zero_TPMT_PUBLIC)) =
     Some (TSS2_RC_SUCCESS, Some 2, Some (TPM2B_SUBTYPE.make 1 zero_TPMT_PUBLIC))"
proof -
  have r: "Tss2_MU_TPMT_PUBLIC_Unmarshal (Some [0, 1, 7]) 3 (Some 2) (Some zero_TPMT_PUBLIC) =
     Some (TSS2_MU_RC_INSUFFICIENT_BUFFER, Some 2, Some zero_TPMT_PUBLIC)" by code_simp
  have h: "seg [0, 1, 7] 0 2 = be_bytes (1 :: UINT16)" by code_simp
  from TPM2B_UNMARSHAL_SUBTYPE_drops_error [of "TPM2B_SUBTYPE.make 9 zero_TPMT_PUBLIC" 3 "[0, 1, 7]" 0 1] r h show ?thesis
    by (auto simp: TPM2B_SUBTYPE.defs)
qed

text \<open>
  C17: Sized structures written one behind the other are read back one behind the other.  Every valid
  public area and every valid creation data, whatever the size members of the two \<open>TPM2B\<close> structures say,
  are marshalled into a buffer with room for them and unmarshalled again: both readers accept (the size
  check against \<open>sizeof\<close> refuses nothing that was marshalled), each starts where the other ended, and
  they deliver the same contents.
\<close>

theorem subtypes_back_to_back:
  assumes p: "valid_TPMT_PUBLIC (TPM2B_SUBTYPE_member p)" "wt_TPMT_PUBLIC (TPM2B_SUBTYPE_member d)"
    and c: "valid_TPMS_CREATION_DATA (TPM2B_SUBTYPE_member c)" "wt_TPMS_CREATION_DATA (TPM2B_SUBTYPE_member e)"
    and b: "unat bs \<le> length b" "unat off + (2 + length (wire_TPMT_PUBLIC (TPM2B_SUBTYPE_member p))) +
      (2 + length (wire_TPMS_CREATION_DATA (TPM2B_SUBTYPE_member c))) \<le> unat bs"
  shows "\<exists>b1 o1 b2 o2 p' c'.
    Tss2_MU_TPM2B_PUBLIC_Marshal (Some p) (Some b) bs (Some off) = Some (TSS2_RC_SUCCESS, Some b1, Some o1) \<and>
    Tss2_MU_TPM2B_CREATION_DATA_Marshal (Some c) (Some b1) bs (Some o1) = Some (TSS2_RC_SUCCESS, Some b2, Some o2) \<and>
    Tss2_MU_TPM2B_PUBLIC_Unmarshal (Some b2) bs (Some off) (Some d) = Some (TSS2_RC_SUCCESS, Some o1, Some p') \<and>
    Tss2_MU_TPM2B_CREATION_DATA_Unmarshal (Some b2) bs (Some o1) (Some e) = Some (TSS2_RC_SUCCESS, Some o2, Some c') \<and>
    wire_SUBTYPE wire_TPMT_PUBLIC p' = wire_SUBTYPE wire_TPMT_PUBLIC p \<and>
    wire_SUBTYPE wire_TPMS_CREATION_DATA c' = wire_SUBTYPE wire_TPMS_CREATION_DATA c"
proof -
  let ?p = "wire_SUBTYPE wire_TPMT_PUBLIC p" and ?c = "wire_SUBTYPE wire_TPMS_CREATION_DATA c"
  let ?b1 = "patch b (unat off) ?p" and ?o1 = "off + of_nat (length ?p)" and ?b2 = "patch b (unat off) (?p @ ?c)"
  have fit: "fits bs off (length ?p)" "fits bs off (length (?p @ ?c))" "fits bs ?o1 (length ?c)" "unat off + length (?p @ ?c) \<le> unat bs"
    using b(2) fits_add [of bs off "length ?p" "length ?c"] by (simp_all add: wire_SUBTYPE_def fits_def)
  have l: "unat bs \<le> length ?b1" "unat bs \<le> length ?b2" using b(1) fit(4) by simp_all
  have m: "Tss2_MU_TPM2B_PUBLIC_Marshal (Some p) (Some b) bs (Some off) = Some (0, Some ?b1, Some ?o1)"
    using mu_TPM2B_PUBLIC.marshal_fit [OF p(1) b(1) fit(1)] by simp
  have "Tss2_MU_TPM2B_CREATION_DATA_Marshal (Some c) (Some ?b1) bs (Some ?o1) = Some (0, Some ?b2, Some (?o1 + of_nat (length ?c)))"
    using mu_TPM2B_CREATION_DATA.marshal_fit [OF c(1) l(1) fit(3)] patch_patch_fits [of bs off ?p ?c] fit(2) b(1) by simp
  moreover have "holds_at ?b2 bs off ?p" "holds_at ?b2 bs ?o1 ?c"
    using holds_at_patch [OF fit(2) b(1)] by (simp_all add: holds_at_append [OF l(2)])
  ultimately show ?thesis
    using m mu_TPM2B_PUBLIC.unmarshal_complete [OF p(2) l(2) p(1)] mu_TPM2B_CREATION_DATA.unmarshal_complete [OF c(2) l(2) c(1)]
    by blast
qed

theorem subtypes_back_to_back_witness:
  "\<exists>b1 o1 b2 o2 p' c'.
    Tss2_MU_TPM2B_PUBLIC_Marshal (Some (TPM2B_SUBTYPE.make 99 ex_public)) (Some (replicate 90 0)) 90 (Some 3) =
      Some (TSS2_RC_SUCCESS, Some b1, Some o1) \<and>
    Tss2_MU_TPM2B_CREATION_DATA_Marshal (Some (TPM2B_SUBTYPE.make 7 zero_TPMS_CREATION_DATA)) (Some b1) 90 (Some o1) =
      Some (TSS2_RC_SUCCESS, Some b2, Some o2) \<and>
    Tss2_MU_TPM2B_PUBLIC_Unmarshal (Some b2) 90 (Some 3) (Some (TPM2B_SUBTYPE.make 0 zero_TPMT_PUBLIC)) =
      Some (TSS2_RC_SUCCESS, Some o1, Some p') \<and>
    Tss2_MU_TPM2B_CREATION_DATA_Unmarshal (Some b2) 90 (Some o1) (Some (TPM2B_SUBTYPE.make 0 zero_TPMS_CREATION_DATA)) =
      Some (TSS2_RC_SUCCESS, Some o2, Some c') \<and>
    wire_SUBTYPE wire_TPMT_PUBLIC p' = wire_SUBTYPE wire_TPMT_PUBLIC (TPM2B_SUBTYPE.make 99 ex_public) \<and>
    wire_SUBTYPE wire_TPMS_CREATION_DATA c' = wire_SUBTYPE wire_TPMS_CREATION_DATA (TPM2B_SUBTYPE.make 7 zero_TPMS_CREATION_DATA)"
proof -
  have v: "valid_TPMS_CREATION_DATA zero_TPMS_CREATION_DATA" "length (wire_TPMS_CREATION_DATA zero_TPMS_CREATION_DATA) \<le> 40" by code_simp+
  show ?thesis
    by (rule subtypes_back_to_back) (use v in \<open>simp_all add: TPM2B_SUBTYPE.defs ex_public_valid ex_public_length\<close>)
qed

section \<open>Attestation and capability data\<close>

text \<open>
  C18: An attestation structure is read successfully only if it carries the magic number
  \<open>0xff544347\<close> of structures generated inside a TPM, and the bytes consumed are its wire format.
\<close>

theorem TPMS_ATTEST_magic_checked:
  assumes "wt_TPMS_ATTEST d" "unat bs \<le> length b"
    and "Tss2_MU_TPMS_ATTEST_Unmarshal (Some b) bs (Some off) (Some d) = Some (TSS2_RC_SUCCESS, Some off', Some d')"
  shows "TPMS_ATTEST_magic d' = 0xff544347 \<and> seg b (unat off) 4 = [0xff, 0x54, 0x43, 0x47] \<and>
    valid_TPMS_ATTEST d' \<and> holds_at b bs off (wire_TPMS_ATTEST d')"
proof -
  from mu_TPMS_ATTEST.unmarshal_sound [OF assms]
  have r: "readable_TPMS_ATTEST d'" "holds_at b bs off (wire_TPMS_ATTEST d')" by auto
  have m: "TPMS_ATTEST_magic d' = 0xff544347"
    using r(1) by (simp add: readable_TPMS_ATTEST_def TPM2_GENERATED_VALUE_def)
  have "holds_at b bs off (be_bytes (0xff544347 :: UINT32))"
    using r(2) by (simp add: wire_TPMS_ATTEST_def m holds_at_append [OF assms(2)])
  moreover have "be_bytes (0xff544347 :: UINT32) = [0xff, 0x54, 0x43, 0x47]" by code_simp
  ultimately have "seg b (unat off) 4 = [0xff, 0x54, 0x43, 0x47]" by (simp add: holds_at_def numeral_eq_Suc)
  with r m show ?thesis by (simp add: readable_TPMS_ATTEST_def)
qed

text \<open>A time attestation with empty names, read back from its wire format.\<close>

definition ex_attest :: TPMS_ATTEST where
  "ex_attest = zero_TPMS_ATTEST\<lparr>TPMS_ATTEST_magic := 0xff544347, TPMS_ATTEST_type := TPM2_ST_ATTEST_TIME,
     TPMS_ATTEST_attested := TPMU_ATTEST_time zero_TPMS_TIME_ATTEST_INFO\<rparr>"

lemma ex_attest_readable: "readable_TPMS_ATTEST ex_attest"
  by code_simp

lemma ex_attest_read:
  "\<exists>off' d'. Tss2_MU_TPMS_ATTEST_Unmarshal (Some (wire_TPMS_ATTEST ex_attest))
     (of_nat (length (wire_TPMS_ATTEST ex_attest))) (Some 0) (Some zero_TPMS_ATTEST) = Some (0, Some off', Some d')"
proof -
  let ?w = "wire_TPMS_ATTEST ex_attest"
  have "length ?w \<le> 2289" using mu_TPMS_ATTEST.wire_le mu_TPMS_ATTEST.readable_valid [OF ex_attest_readable] by blast
  then have n: "unat (of_nat (length ?w) :: size_t) = length ?w" by (simp add: unat_of_nat)
  have "holds_at ?w (of_nat (length ?w)) 0 ?w" by (simp add: holds_at_def fits_def n seg_def)
  from mu_TPMS_ATTEST.unmarshal_complete [OF wt_zero_TPMS_ATTEST _ ex_attest_readable this] show ?thesis
    by (auto simp: n)
qed

theorem TPMS_ATTEST_magic_checked_witness:
  "\<exists>off' d'. Tss2_MU_TPMS_ATTEST_Unmarshal (Some (wire_TPMS_ATTEST ex_attest)) (of_nat (length (wire_TPMS_ATTEST ex_attest))) (Some 0)
       (Some zero_TPMS_ATTEST) = Some (TSS2_RC_SUCCESS, Some off', Some d') \<and> TPMS_ATTEST_magic d' = 0xff544347 \<and>
     holds_at (wire_TPMS_ATTEST ex_attest) (of_nat (length (wire_TPMS_ATTEST ex_attest))) 0 (wire_TPMS_ATTEST d')"
proof -
  let ?w = "wire_TPMS_ATTEST ex_attest"
  have "length ?w \<le> 2289" using mu_TPMS_ATTEST.wire_le mu_TPMS_ATTEST.readable_valid [OF ex_attest_readable] by blast
  then have "unat (of_nat (length ?w) :: size_t) \<le> length ?w" by (simp add: unat_of_nat)
  with ex_attest_read TPMS_ATTEST_magic_checked [OF wt_zero_TPMS_ATTEST] show ?thesis by blast
qed

text \<open>
  C19: Reading capability data moves the offset forward, never past \<open>buffer_size\<close> and never by more
  than 1032 bytes, the longest capability answer.
\<close>

theorem TPMS_CAPABILITY_DATA_bounded:
  assumes "wt_TPMS_CAPABILITY_DATA d" "unat bs \<le> length b" "off \<le> bs"
    and "Tss2_MU_TPMS_CAPABILITY_DATA_Unmarshal (Some b) bs (Some off) (Some d) = Some (TSS2_RC_SUCCESS, Some off', Some d')"
  shows "off \<le> off' \<and> off' \<le> bs \<and> unat off' - unat off \<le> 1032"
  using mu_TPMS_CAPABILITY_DATA.unmarshal_bounded [OF assms(1,2,4,3)] by simp

lemma ex_capability_read:
  "Tss2_MU_TPMS_CAPABILITY_DATA_Unmarshal (Some [0, 0, 0, 8, 0, 0, 0, 1, 0, 3]) 10 (Some 0)
     (Some zero_TPMS_CAPABILITY_DATA) =
   Some (TSS2_RC_SUCCESS, Some 10,
     Some \<lparr>TPMS_CAPABILITY_DATA_capability = 8,
       TPMS_CAPABILITY_DATA_data = TPMU_CAPABILITIES_eccCurves
         \<lparr>TPML_count = 1, TPML_items = 3 # replicate 507 0\<rparr>\<rparr>)"
  by code_simp

theorem TPMS_CAPABILITY_DATA_bounded_witness:
  "\<exists>off' d'. Tss2_MU_TPMS_CAPABILITY_DATA_Unmarshal (Some [0, 0, 0, 8, 0, 0, 0, 1, 0, 3]) 10 (Some 0) (Some zero_TPMS_CAPABILITY_DATA) =
      Some (TSS2_RC_SUCCESS, Some off', Some d') \<and>
    TPMS_CAPABILITY_DATA_data d' = TPMU_CAPABILITIES_eccCurves \<lparr>TPML_count = 1, TPML_items = 3 # replicate 507 0\<rparr> \<and>
    0 \<le> off' \<and> off' \<le> 10 \<and> unat off' - unat (0 :: size_t) \<le> 1032"
  using TPMS_CAPABILITY_DATA_bounded [OF wt_zero_TPMS_CAPABILITY_DATA _ _ ex_capability_read] ex_capability_read by auto

section \<open>Signatures and contexts\<close>

text \<open>
  C20: A signature that was unmarshalled marshals back to exactly the bytes it was read from.
\<close>

theorem TPMT_SIGNATURE_reverse_round_trip:
  assumes "wt_TPMT_SIGNATURE d" "unat bs \<le> length b" "unat bs' \<le> length c"
    and "Tss2_MU_TPMT_SIGNATURE_Unmarshal (Some b) bs (Some off) (Some d) = Some (TSS2_RC_SUCCESS, Some off', Some d')"
    and "unat o2 + (unat off' - unat off) \<le> unat bs'"
  shows "Tss2_MU_TPMT_SIGNATURE_Marshal (Some d') (Some c) bs' (Some o2) =
     Some (TSS2_RC_SUCCESS, Some (patch c (unat o2) (seg b (unat off) (unat off' - unat off))), Some (o2 + (off' - off)))"
proof -
  from mu_TPMT_SIGNATURE.unmarshal_sound [OF assms(1,2,4)]
  have s: "fits bs off (length (wire_TPMT_SIGNATURE d'))" "off' = off + of_nat (length (wire_TPMT_SIGNATURE d'))"
    by (auto simp: holds_at_def)
  moreover have "0 < length (wire_TPMT_SIGNATURE d')" by (simp add: wire_TPMT_SIGNATURE_def)
  ultimately have n: "unat off' - unat off = length (wire_TPMT_SIGNATURE d')"
      "off' - off = of_nat (length (wire_TPMT_SIGNATURE d'))"
    by (simp_all add: fits_def unat_add_fits)
  with assms(5) have "fits bs' o2 (length (wire_TPMT_SIGNATURE d'))" by (simp add: fits_def)
  from mu_TPMT_SIGNATURE.reverse_round_trip [OF assms(1-4) this] show ?thesis by (simp add: n)
qed

theorem TPMT_SIGNATURE_reverse_round_trip_witness:
  "Tss2_MU_TPMT_SIGNATURE_Marshal (Some (zero_TPMT_SIGNATURE\<lparr>TPMT_SIGNATURE_sigAlg := TPM2_ALG_NULL\<rparr>))
     (Some [1, 2, 3]) 3 (Some 1) =
   Some (TSS2_RC_SUCCESS, Some (patch [1, 2, 3] 1 (seg ex_null_signature 0 2)), Some 3)"
  using TPMT_SIGNATURE_reverse_round_trip [OF wt_zero_TPMT_SIGNATURE _ _ ex_null_signature_read,
      where bs' = 3 and c = "[1, 2, 3]" and ?o2.0 = 1]
  by (simp add: ex_null_signature_def)

text \<open>
  C21: Reading a saved context depends on the bytes it consumes and on nothing else.  Whenever
  \<open>Tss2_MU_TPMS_CONTEXT_Unmarshal\<close> reads a context from one buffer, it reads a context of the same content from
  every buffer that has those bytes, at any other offset, whatever comes before and behind them and
  whatever the destination held, and again moves by exactly their number.
\<close>

theorem TPMS_CONTEXT_read_local:
  assumes d: "wt_TPMS_CONTEXT d" "wt_TPMS_CONTEXT e" and b: "unat bs \<le> length b" "unat bs2 \<le> length b2"
    and read: "Tss2_MU_TPMS_CONTEXT_Unmarshal (Some b) bs (Some off) (Some d) = Some (TSS2_RC_SUCCESS, Some off', Some x)"
    and n: "n = unat off' - unat off"
    and same: "seg b2 (unat o2) n = seg b (unat off) n" "unat o2 + n \<le> unat bs2"
  shows "\<exists>y. Tss2_MU_TPMS_CONTEXT_Unmarshal (Some b2) bs2 (Some o2) (Some e) = Some (TSS2_RC_SUCCESS, Some (o2 + of_nat n), Some y) \<and>
    valid_TPMS_CONTEXT y \<and> wire_TPMS_CONTEXT y = seg b (unat off) n \<and> wire_TPMS_CONTEXT x = seg b (unat off) n"
proof -
  let ?w = "wire_TPMS_CONTEXT x"
  from mu_TPMS_CONTEXT.unmarshal_sound [OF d(1) b(1) read] have
    x: "valid_TPMS_CONTEXT x" "fits bs off (length ?w)" "seg b (unat off) (length ?w) = ?w" "off' = off + of_nat (length ?w)"
    by (auto simp: holds_at_def)
  have "0 < length ?w" by (simp add: wire_TPMS_CONTEXT_def)
  then have len: "n = length ?w" using x(2,4) n by (simp add: fits_def unat_add_fits)
  have "holds_at b2 bs2 o2 ?w" using same x(3) len by (simp add: holds_at_def fits_def)
  from mu_TPMS_CONTEXT.unmarshal_deterministic [OF d(2) b(2) x(1) this] x(3) len show ?thesis by auto
qed

theorem TPMS_CONTEXT_read_local_witness:
  "\<exists>off' x y. Tss2_MU_TPMS_CONTEXT_Unmarshal (Some (replicate 18 0)) 18 (Some 0) (Some zero_TPMS_CONTEXT) = Some (TSS2_RC_SUCCESS, Some off', Some x) \<and>
    Tss2_MU_TPMS_CONTEXT_Unmarshal (Some ([9, 9] @ replicate 18 0 @ [5])) 21 (Some 2) (Some zero_TPMS_CONTEXT) = Some (TSS2_RC_SUCCESS, Some (2 + off'), Some y) \<and>
    wire_TPMS_CONTEXT x = replicate 18 0 \<and> wire_TPMS_CONTEXT y = replicate 18 0"
proof -
  have w: "wire_TPMS_CONTEXT zero_TPMS_CONTEXT = replicate 18 0" "valid_TPMS_CONTEXT zero_TPMS_CONTEXT" by code_simp+
  have "holds_at (replicate 18 0) 18 0 (wire_TPMS_CONTEXT zero_TPMS_CONTEXT)" by (simp add: w(1) holds_at_def fits_def seg_def)
  from mu_TPMS_CONTEXT.unmarshal_complete [OF wt_zero_TPMS_CONTEXT _ w(2) this] obtain x where
    r: "Tss2_MU_TPMS_CONTEXT_Unmarshal (Some (replicate 18 0)) 18 (Some 0) (Some zero_TPMS_CONTEXT) = Some (TSS2_RC_SUCCESS, Some 18, Some x)"
    by (auto simp: w(1))
  have s: "seg ([9, 9] @ replicate 18 0 @ [5]) (unat (2 :: size_t)) 18 = seg (replicate 18 0) (unat (0 :: size_t)) 18" by (simp add: seg_def)
  have p: "unat (18 :: size_t) \<le> length (replicate 18 (0 :: BYTE))" "unat (21 :: size_t) \<le> length ([9, 9] @ replicate 18 0 @ [5 :: BYTE])"
    "18 = unat (18 :: size_t) - unat (0 :: size_t)" "unat (2 :: size_t) + 18 \<le> unat (21 :: size_t)" by simp_all
  have e: "seg (replicate 18 0) (unat (0 :: size_t)) 18 = replicate 18 (0 :: BYTE)" "(of_nat 18 :: size_t) = 18" by (simp_all add: seg_def)
  from TPMS_CONTEXT_read_local [OF wt_zero_TPMS_CONTEXT wt_zero_TPMS_CONTEXT p(1,2) r p(3) s p(4)] r show ?thesis unfolding e by blast
qed

section \<open>Error branches\<close>

text \<open>
  \<open>Tss2_MU_UINT32_Marshal\<close> on every branch: two null pointers are a bad reference, a null
  buffer only advances the offset, too little room is reported and nothing changes, and otherwise
  the four big-endian bytes are stored at the offset (0 when the offset pointer is null).
\<close>

theorem UINT32_Marshal_branches:
  assumes "unat bs \<le> length b"
  shows "Tss2_MU_UINT32_Marshal x None bs None = Some (TSS2_MU_RC_BAD_REFERENCE, None, None) \<and>
    Tss2_MU_UINT32_Marshal x None bs (Some off) = Some (TSS2_RC_SUCCESS, None, Some (off + 4)) \<and>
    Tss2_MU_UINT32_Marshal x (Some b) bs (Some off) =
      (if unat off + 4 \<le> unat bs
       then Some (TSS2_RC_SUCCESS, Some (patch b (unat off) (be_bytes x)), Some (off + 4))
       else Some (TSS2_MU_RC_INSUFFICIENT_BUFFER, Some b, Some off)) \<and>
    Tss2_MU_UINT32_Marshal x (Some b) bs None =
      (if 4 \<le> unat bs
       then Some (TSS2_RC_SUCCESS, Some (patch b 0 (be_bytes x)), None)
       else Some (TSS2_MU_RC_INSUFFICIENT_BUFFER, Some b, None))"
  using assms bytes_of_be [of x]
  by (auto simp: Tss2_MU_UINT32_Marshal_def BASE_MARSHAL_def Let_def lacks_room_iff mem_write_def)

theorem UINT32_Marshal_branches_witness:
  "Tss2_MU_UINT32_Marshal 0x01020304 (Some [0, 0, 0, 0, 0]) 5 (Some 1) =
     Some (TSS2_RC_SUCCESS, Some [0, 1, 2, 3, 4], Some 5)"
proof -
  have "be_bytes (0x01020304 :: UINT32) = [1, 2, 3, 4]" by code_simp
  with UINT32_Marshal_branches [of 5 "[0, 0, 0, 0, 0]" "0x01020304" 1] show ?thesis
    by (simp add: patch_def)
qed

text \<open>
  \<open>Tss2_MU_TPM2B_DIGEST_Marshal\<close> on every branch: a null source is a bad reference, a null
  buffer advances the offset by the size field and the payload, too little room and a size above
  the 64 bytes of the array are rejected without a change, and otherwise the size and that many
  bytes of the array are written.
\<close>

theorem TPM2B_DIGEST_Marshal_branches:
  assumes "length (TPM2B_buffer s) = 64" "unat bs \<le> length b"
  shows "Tss2_MU_TPM2B_DIGEST_Marshal None bu bs o' = Some (TSS2_MU_RC_BAD_REFERENCE, bu, o') \<and>
    Tss2_MU_TPM2B_DIGEST_Marshal (Some s) None bs None = Some (TSS2_MU_RC_BAD_REFERENCE, None, None) \<and>
    Tss2_MU_TPM2B_DIGEST_Marshal (Some s) None bs (Some off) =
      Some (TSS2_RC_SUCCESS, None, Some (off + (2 + ucast (TPM2B_size s)))) \<and>
    Tss2_MU_TPM2B_DIGEST_Marshal (Some s) (Some b) bs (Some off) =
      (if unat bs < unat off + 2 + unat (TPM2B_size s)
       then Some (TSS2_MU_RC_INSUFFICIENT_BUFFER, Some b, Some off)
       else if 64 < unat (TPM2B_size s) then Some (TSS2_MU_RC_BAD_SIZE, Some b, Some off)
       else Some (TSS2_RC_SUCCESS, Some (patch b (unat off) (wire_TPM2B s)),
                  Some (off + of_nat (2 + unat (TPM2B_size s)))))"
  using assms TPM2B_MARSHAL_Some [OF assms(2), of 66 s off]
  by (auto simp: Tss2_MU_TPM2B_DIGEST_Marshal_def TPM2B_MARSHAL_def [of _ None] TPM2B_MARSHAL_def [of _ _ None]
      Let_def fits_def)

theorem TPM2B_DIGEST_Marshal_branches_witness:
  "Tss2_MU_TPM2B_DIGEST_Marshal (Some \<lparr>TPM2B_size = 65, TPM2B_buffer = replicate 64 1\<rparr>)
     (Some (replicate 80 0)) 80 (Some 3) = Some (TSS2_MU_RC_BAD_SIZE, Some (replicate 80 0), Some 3)"
  using TPM2B_DIGEST_Marshal_branches [of "\<lparr>TPM2B_size = 65, TPM2B_buffer = replicate 64 1\<rparr>" 80 "replicate 80 0"]
  by simp

text \<open>
  A counted list that announces more elements than its array holds is refused before any
  element is read: \<open>TPML_DIGEST_VALUES\<close> with a count above 16 gives \<open>MALFORMED_RESPONSE\<close>, and
  destination and offset stay as they were.
\<close>

theorem TPML_DIGEST_VALUES_count_refused:
  assumes "unat bs \<le> length b" "unat off + 4 \<le> unat bs"
    and "16 < unat (word_of (rev (seg b (unat off) 4)) :: UINT32)"
  shows "Tss2_MU_TPML_DIGEST_VALUES_Unmarshal (Some b) bs (Some off) (Some d) =
    Some (TSS2_SYS_RC_MALFORMED_RESPONSE, Some off, Some d)"
proof -
  have "Tss2_MU_UINT32_Unmarshal (Some b) bs (Some off) (Some 0) =
      Some (0, Some (off + 4), Some (word_of (rev (seg b (unat off) 4))))"
    using assms(2) BASE_UNMARSHAL_Some [where ?'a = 32, OF _ assms(1), of off 0]
    by (simp add: Tss2_MU_UINT32_Unmarshal_def fits_def)
  with assms show ?thesis
    by (simp add: Tss2_MU_TPML_DIGEST_VALUES_Unmarshal_def TPML_UNMARSHAL_def lacks_room_iff)
qed

theorem TPML_DIGEST_VALUES_count_refused_witness:
  "Tss2_MU_TPML_DIGEST_VALUES_Unmarshal (Some [0, 0, 0, 17]) 4 (Some 0) (Some zero_TPML_DIGEST_VALUES) =
    Some (TSS2_SYS_RC_MALFORMED_RESPONSE, Some 0, Some zero_TPML_DIGEST_VALUES)"
proof -
  have "word_of (rev (seg [0, 0, 0, 17] (unat (0 :: size_t)) 4)) = (17 :: UINT32)" by code_simp
  then show ?thesis by (intro TPML_DIGEST_VALUES_count_refused) simp_all
qed

text \<open>
  A public area whose type is none of the six known ones and not \<open>TPM2_ALG_NULL\<close> is refused
  with \<open>TSS2_MU_RC_BAD_VALUE\<close> by its union, and nothing is read for it.
\<close>

theorem TPMU_PUBLIC_ID_unknown_selector:
  assumes "k \<notin> {TPM2_ALG_KEYEDHASH, TPM2_ALG_SYMCIPHER, TPM2_ALG_RSA, TPM2_ALG_ECC, TPM2_ALG_MLKEM, TPM2_ALG_MLDSA}"
    and "k \<noteq> TPM2_ALG_NULL"
  shows "Tss2_MU_TPMU_PUBLIC_ID_Unmarshal bu bs o' (ucast k) d = Some (TSS2_MU_RC_BAD_VALUE, o', d) \<and>
    Tss2_MU_TPMU_PUBLIC_ID_Marshal (Some u) (ucast k) bu bs o' = Some (TSS2_MU_RC_BAD_VALUE, bu, o')"
proof -
  have un: "unat (ucast j :: UINT32) = unat j" for j :: UINT16
    using unat_size16_less [of j] by (simp add: unsigned_ucast_eq take_bit_nat_eq_self)
  then have inj: "(ucast k :: UINT32) = ucast j \<longleftrightarrow> k = j" for j :: UINT16
    by (metis unsigned_word_eqI)
  have pad: "(ucast k :: UINT32) \<notin> set pad_selectors"
  proof
    assume "(ucast k :: UINT32) \<in> set pad_selectors"
    then have "65536 \<le> unat (ucast k :: UINT32)"
      by (auto simp: pad_selectors_def unsigned_minus_1_eq_mask mask_eq_exp_minus_1)
    with un [of k] unat_size16_less [of k] show False by simp
  qed
  show ?thesis
    using assms pad
    by (simp add: Tss2_MU_TPMU_PUBLIC_ID_Unmarshal_def Tss2_MU_TPMU_PUBLIC_ID_Marshal_def TPMU_UNMARSHAL2_def
        TPMU_MARSHAL2_def TPMU_UNMARSHAL_def TPMU_MARSHAL_def padded_def pad_selectors_def inj)
qed

theorem TPMU_PUBLIC_ID_unknown_selector_witness:
  "Tss2_MU_TPMU_PUBLIC_ID_Unmarshal (Some [1, 2]) 2 (Some 0) (ucast (0xA2 :: UINT16)) None =
     Some (TSS2_MU_RC_BAD_VALUE, Some 0, None)"
  using TPMU_PUBLIC_ID_unknown_selector [of "0xA2"] by (simp add: selector_defs)

section \<open>Departures\<close>

text \<open>
  C22: \<open>TPM2B_MLDSA_SIGNATURE\<close> is the one sized buffer with an odd array (4627 bytes), so
  \<open>sizeof(type) - 2\<close> is 4628: marshalling lets a size of 4628 pass and copies one byte from behind
  the array, while unmarshalling refuses that size.
\<close>

theorem TPM2B_MLDSA_SIGNATURE_overread:
  assumes "TPM2B_size s = 4628" "length (TPM2B_buffer s) = 4627" "unat bs \<le> length b" "4630 \<le> unat bs"
  shows "sizeof ct_TPM2B_MLDSA_SIGNATURE - 2 = TPM2_MAX_MLDSA_SIGNATURE_SIZE + 1 \<and>
    Tss2_MU_TPM2B_MLDSA_SIGNATURE_Marshal (Some s) (Some b) bs (Some 0) = None"
  using assms TPM2B_MARSHAL_Some [OF assms(3), of 4630 s 0]
  by (simp add: Tss2_MU_TPM2B_MLDSA_SIGNATURE_Marshal_def fits_def)

theorem TPM2B_MLDSA_SIGNATURE_overread_witness:
  "Tss2_MU_TPM2B_MLDSA_SIGNATURE_Marshal (Some \<lparr>TPM2B_size = 4628, TPM2B_buffer = replicate 4627 0\<rparr>)
     (Some (replicate 4630 0)) 4630 (Some 0) = None"
  using TPM2B_MLDSA_SIGNATURE_overread [of "\<lparr>TPM2B_size = 4628, TPM2B_buffer = replicate 4627 0\<rparr>" 4630
      "replicate 4630 0"]
  by simp

text \<open>
  With no destination (the mode that only computes how much would be read) an attestation
  structure is never accepted: \<open>TPMS_UNMARSHAL_7_U\<close> passes selector 0 to the union when \<open>dest\<close> is
  null, and the union refuses it.  Here the well-formed example fails.
\<close>

theorem TPMS_ATTEST_skip_fails:
  "Tss2_MU_TPMU_ATTEST_Unmarshal bu bs o' 0 None = Some (TSS2_MU_RC_BAD_VALUE, o', None) \<and>
   readable_TPMS_ATTEST ex_attest \<and>
   Tss2_MU_TPMS_ATTEST_Unmarshal (Some (wire_TPMS_ATTEST ex_attest)) 100 (Some 0) None =
     Some (TSS2_MU_RC_BAD_VALUE, Some 0, None)"
proof (intro conjI)
  show "Tss2_MU_TPMU_ATTEST_Unmarshal bu bs o' 0 None = Some (TSS2_MU_RC_BAD_VALUE, o', None)"
    by (simp add: Tss2_MU_TPMU_ATTEST_Unmarshal_def TPMU_UNMARSHAL2_def TPMU_UNMARSHAL_def padded_def
        pad_selectors_def selector_defs)
  show "readable_TPMS_ATTEST ex_attest" by (rule ex_attest_readable)
  show "Tss2_MU_TPMS_ATTEST_Unmarshal (Some (wire_TPMS_ATTEST ex_attest)) 100 (Some 0) None =
     Some (TSS2_MU_RC_BAD_VALUE, Some 0, None)" by code_simp
qed

text \<open>
  Skipping (no destination) is bounded by \<open>buffer_size\<close> for integers but not for attribute
  types: \<open>Tss2_MU_TPMA_OBJECT_Unmarshal\<close> moves the offset past the end of a buffer that
  \<open>Tss2_MU_UINT32_Unmarshal\<close> refuses.
\<close>

theorem TPMA_skip_unbounded:
  assumes "\<not> unat off + 4 \<le> unat bs"
  shows "Tss2_MU_TPMA_OBJECT_Unmarshal (Some b) bs (Some off) None = Some (TSS2_RC_SUCCESS, Some (off + 4), None) \<and>
    Tss2_MU_UINT32_Unmarshal (Some b) bs (Some off) None = Some (TSS2_MU_RC_INSUFFICIENT_BUFFER, Some off, None)"
  using assms
  by (simp add: Tss2_MU_TPMA_OBJECT_Unmarshal_def Tss2_MU_UINT32_Unmarshal_def TPMA_UNMARSHAL_def
      BASE_UNMARSHAL_def Let_def lacks_room_iff)

theorem TPMA_skip_unbounded_witness:
  "Tss2_MU_TPMA_OBJECT_Unmarshal (Some []) 0 (Some 8) None = Some (TSS2_RC_SUCCESS, Some 12, None)"
  using TPMA_skip_unbounded [of 8 0 "[]"] by simp

text \<open>
  Computing the size of a list (null buffer) fails unless \<open>buffer_size\<close> leaves room for the
  count, although no buffer exists; for a sized buffer the same call succeeds.
\<close>

theorem TPML_sizing_needs_room:
  assumes "\<not> unat off + 4 \<le> unat bs"
  shows "Tss2_MU_TPML_DIGEST_Marshal (Some l) None bs (Some off) = Some (TSS2_MU_RC_INSUFFICIENT_BUFFER, None, Some off) \<and>
    Tss2_MU_TPM2B_DIGEST_Marshal (Some s) None bs (Some off) =
      Some (TSS2_RC_SUCCESS, None, Some (off + (2 + ucast (TPM2B_size s))))"
  using assms
  by (simp add: Tss2_MU_TPML_DIGEST_Marshal_def TPML_MARSHAL_def Tss2_MU_TPM2B_DIGEST_Marshal_def
      TPM2B_MARSHAL_def Let_def lacks_room_iff)

theorem TPML_sizing_needs_room_witness:
  "Tss2_MU_TPML_DIGEST_Marshal (Some zero_TPML_DIGEST) None 0 (Some 0) =
     Some (TSS2_MU_RC_INSUFFICIENT_BUFFER, None, Some 0)"
  using TPML_sizing_needs_room [of 0 0 zero_TPML_DIGEST] by simp

section \<open>Byte order\<close>

text \<open>
  The portable byte-order conversions of \<open>tss2_endian.h\<close>, written with masks and shifts, all
  reverse the bytes of the integer, and each is its own inverse.
\<close>

theorem endian_conv_reverses:
  "bytes_of (endian_conv_16 v) = rev (bytes_of v) \<and> endian_conv_16 (endian_conv_16 v) = v \<and>
   bytes_of (endian_conv_32 w) = rev (bytes_of w) \<and> endian_conv_32 (endian_conv_32 w) = w \<and>
   bytes_of (endian_conv_64 x) = rev (bytes_of x) \<and> endian_conv_64 (endian_conv_64 x) = x"
  by (simp add: endian_conv_16_eq endian_conv_32_eq endian_conv_64_eq be_bytes_def
      HOST_TO_BE_def [of "HOST_TO_BE _"])

end
