(* ===== verification/Sys_Context.thy ===== *)
theory Sys_Context
  imports MU_Misc
begin

text \<open>
  The system API (\<open>tss2-sys\<close>): the context a command lives in, the helpers of \<open>sysapi_util.c\<close> that
  every command function is built from, and the transport interface \<open>tss2_tcti.h\<close> below it.  A
  context holds one buffer, in which the command is marshalled and which the response then
  overwrites, and the stage the command has reached.
\<close>

section \<open>Return codes, tags and command codes\<close>

definition TSS2_SYS_RC_GENERAL_FAILURE :: TSS2_RC where
  "TSS2_SYS_RC_GENERAL_FAILURE = TSS2_SYS_RC_LAYER OR 1"
definition TSS2_SYS_RC_ABI_MISMATCH :: TSS2_RC where
  "TSS2_SYS_RC_ABI_MISMATCH = TSS2_SYS_RC_LAYER OR 4"
definition TSS2_SYS_RC_BAD_SEQUENCE :: TSS2_RC where
  "TSS2_SYS_RC_BAD_SEQUENCE = TSS2_SYS_RC_LAYER OR 7"
definition TSS2_SYS_RC_INVALID_SESSIONS :: TSS2_RC where
  "TSS2_SYS_RC_INVALID_SESSIONS = TSS2_SYS_RC_LAYER OR 13"
definition TSS2_SYS_RC_NO_DECRYPT_PARAM :: TSS2_RC where
  "TSS2_SYS_RC_NO_DECRYPT_PARAM = TSS2_SYS_RC_LAYER OR 14"
definition TSS2_SYS_RC_NO_ENCRYPT_PARAM :: TSS2_RC where
  "TSS2_SYS_RC_NO_ENCRYPT_PARAM = TSS2_SYS_RC_LAYER OR 15"
definition TSS2_SYS_RC_BAD_SIZE :: TSS2_RC where
  "TSS2_SYS_RC_BAD_SIZE = TSS2_SYS_RC_LAYER OR 16"
definition TSS2_SYS_RC_INSUFFICIENT_CONTEXT :: TSS2_RC where
  "TSS2_SYS_RC_INSUFFICIENT_CONTEXT = TSS2_SYS_RC_LAYER OR 18"
definition TSS2_SYS_RC_INSUFFICIENT_RESPONSE :: TSS2_RC where
  "TSS2_SYS_RC_INSUFFICIENT_RESPONSE = TSS2_SYS_RC_LAYER OR 19"
definition TSS2_SYS_RC_BAD_TCTI_STRUCTURE :: TSS2_RC where
  "TSS2_SYS_RC_BAD_TCTI_STRUCTURE = TSS2_SYS_RC_LAYER OR 22"
definition TSS2_TCTI_RC_NOT_IMPLEMENTED :: TSS2_RC where
  "TSS2_TCTI_RC_NOT_IMPLEMENTED = TSS2_TCTI_RC_LAYER OR 2"
definition TSS2_TCTI_RC_ABI_MISMATCH :: TSS2_RC where
  "TSS2_TCTI_RC_ABI_MISMATCH = TSS2_TCTI_RC_LAYER OR 4"
definition TSS2_TCTI_RC_BAD_REFERENCE :: TSS2_RC where
  "TSS2_TCTI_RC_BAD_REFERENCE = TSS2_TCTI_RC_LAYER OR 5"
definition TSS2_TCTI_RC_INSUFFICIENT_BUFFER :: TSS2_RC where
  "TSS2_TCTI_RC_INSUFFICIENT_BUFFER = TSS2_TCTI_RC_LAYER OR 6"

lemmas sys_rc_defs = rc_layer_defs TSS2_SYS_RC_GENERAL_FAILURE_def TSS2_SYS_RC_ABI_MISMATCH_def
  TSS2_SYS_RC_BAD_SEQUENCE_def TSS2_SYS_RC_INVALID_SESSIONS_def TSS2_SYS_RC_NO_DECRYPT_PARAM_def
  TSS2_SYS_RC_NO_ENCRYPT_PARAM_def TSS2_SYS_RC_BAD_SIZE_def TSS2_SYS_RC_INSUFFICIENT_CONTEXT_def
  TSS2_SYS_RC_INSUFFICIENT_RESPONSE_def TSS2_SYS_RC_BAD_TCTI_STRUCTURE_def
  TSS2_TCTI_RC_NOT_IMPLEMENTED_def TSS2_TCTI_RC_ABI_MISMATCH_def TSS2_TCTI_RC_BAD_REFERENCE_def
  TSS2_TCTI_RC_INSUFFICIENT_BUFFER_def

lemma sys_rc_nonzero [simp]:
  "TSS2_SYS_RC_GENERAL_FAILURE \<noteq> 0" "TSS2_SYS_RC_ABI_MISMATCH \<noteq> 0" "TSS2_SYS_RC_BAD_SEQUENCE \<noteq> 0"
  "TSS2_SYS_RC_INVALID_SESSIONS \<noteq> 0" "TSS2_SYS_RC_NO_DECRYPT_PARAM \<noteq> 0"
  "TSS2_SYS_RC_NO_ENCRYPT_PARAM \<noteq> 0" "TSS2_SYS_RC_BAD_SIZE \<noteq> 0"
  "TSS2_SYS_RC_INSUFFICIENT_CONTEXT \<noteq> 0" "TSS2_SYS_RC_INSUFFICIENT_RESPONSE \<noteq> 0"
  "TSS2_SYS_RC_BAD_TCTI_STRUCTURE \<noteq> 0" "TSS2_TCTI_RC_NOT_IMPLEMENTED \<noteq> 0"
  "TSS2_TCTI_RC_ABI_MISMATCH \<noteq> 0" "TSS2_TCTI_RC_BAD_REFERENCE \<noteq> 0"
  "TSS2_TCTI_RC_INSUFFICIENT_BUFFER \<noteq> 0"
  by (simp_all add: sys_rc_defs)

definition TPM2_ST_RSP_COMMAND :: UINT16 where "TPM2_ST_RSP_COMMAND = 0x00C4"
definition TPM2_ST_NO_SESSIONS :: UINT16 where "TPM2_ST_NO_SESSIONS = 0x8001"
definition TPM2_ST_SESSIONS :: UINT16 where "TPM2_ST_SESSIONS = 0x8002"
definition TPM2_RC_VER1 :: TSS2_RC where "TPM2_RC_VER1 = 0x100"
definition TPM2_RC_INITIALIZE :: TSS2_RC where "TPM2_RC_INITIALIZE = TPM2_RC_VER1 + 0"
definition TPM2_MAX_COMMAND_SIZE :: nat where "TPM2_MAX_COMMAND_SIZE = 8192"

definition TPM2_CC_NV_UndefineSpaceSpecial :: UINT32 where "TPM2_CC_NV_UndefineSpaceSpecial = 0x0000011f"
definition TPM2_CC_EvictControl :: UINT32 where "TPM2_CC_EvictControl = 0x00000120"
definition TPM2_CC_HierarchyControl :: UINT32 where "TPM2_CC_HierarchyControl = 0x00000121"
definition TPM2_CC_NV_UndefineSpace :: UINT32 where "TPM2_CC_NV_UndefineSpace = 0x00000122"
definition TPM2_CC_ChangeEPS :: UINT32 where "TPM2_CC_ChangeEPS = 0x00000124"
definition TPM2_CC_ChangePPS :: UINT32 where "TPM2_CC_ChangePPS = 0x00000125"
definition TPM2_CC_Clear :: UINT32 where "TPM2_CC_Clear = 0x00000126"
definition TPM2_CC_ClearControl :: UINT32 where "TPM2_CC_ClearControl = 0x00000127"
definition TPM2_CC_ClockSet :: UINT32 where "TPM2_CC_ClockSet = 0x00000128"
definition TPM2_CC_HierarchyChangeAuth :: UINT32 where "TPM2_CC_HierarchyChangeAuth = 0x00000129"
definition TPM2_CC_NV_DefineSpace :: UINT32 where "TPM2_CC_NV_DefineSpace = 0x0000012a"
definition TPM2_CC_PCR_Allocate :: UINT32 where "TPM2_CC_PCR_Allocate = 0x0000012b"
definition TPM2_CC_PCR_SetAuthPolicy :: UINT32 where "TPM2_CC_PCR_SetAuthPolicy = 0x0000012c"
definition TPM2_CC_PP_Commands :: UINT32 where "TPM2_CC_PP_Commands = 0x0000012d"
definition TPM2_CC_SetPrimaryPolicy :: UINT32 where "TPM2_CC_SetPrimaryPolicy = 0x0000012e"
definition TPM2_CC_FieldUpgradeStart :: UINT32 where "TPM2_CC_FieldUpgradeStart = 0x0000012f"
definition TPM2_CC_ClockRateAdjust :: UINT32 where "TPM2_CC_ClockRateAdjust = 0x00000130"
definition TPM2_CC_CreatePrimary :: UINT32 where "TPM2_CC_CreatePrimary = 0x00000131"
definition TPM2_CC_NV_GlobalWriteLock :: UINT32 where "TPM2_CC_NV_GlobalWriteLock = 0x00000132"
definition TPM2_CC_GetCommandAuditDigest :: UINT32 where "TPM2_CC_GetCommandAuditDigest = 0x00000133"
definition TPM2_CC_NV_Increment :: UINT32 where "TPM2_CC_NV_Increment = 0x00000134"
definition TPM2_CC_NV_SetBits :: UINT32 where "TPM2_CC_NV_SetBits = 0x00000135"
definition TPM2_CC_NV_Extend :: UINT32 where "TPM2_CC_NV_Extend = 0x00000136"
definition TPM2_CC_NV_Write :: UINT32 where "TPM2_CC_NV_Write = 0x00000137"
definition TPM2_CC_NV_WriteLock :: UINT32 where "TPM2_CC_NV_WriteLock = 0x00000138"
definition TPM2_CC_DictionaryAttackLockReset :: UINT32 where "TPM2_CC_DictionaryAttackLockReset = 0x00000139"
definition TPM2_CC_DictionaryAttackParameters :: UINT32 where "TPM2_CC_DictionaryAttackParameters = 0x0000013a"
definition TPM2_CC_NV_ChangeAuth :: UINT32 where "TPM2_CC_NV_ChangeAuth = 0x0000013b"
definition TPM2_CC_PCR_Event :: UINT32 where "TPM2_CC_PCR_Event = 0x0000013c"
definition TPM2_CC_PCR_Reset :: UINT32 where "TPM2_CC_PCR_Reset = 0x0000013d"
definition TPM2_CC_SequenceComplete :: UINT32 where "TPM2_CC_SequenceComplete = 0x0000013e"
definition TPM2_CC_SetAlgorithmSet :: UINT32 where "TPM2_CC_SetAlgorithmSet = 0x0000013f"
definition TPM2_CC_SetCommandCodeAuditStatus :: UINT32 where "TPM2_CC_SetCommandCodeAuditStatus = 0x00000140"
definition TPM2_CC_FieldUpgradeData :: UINT32 where "TPM2_CC_FieldUpgradeData = 0x00000141"
definition TPM2_CC_IncrementalSelfTest :: UINT32 where "TPM2_CC_IncrementalSelfTest = 0x00000142"
definition TPM2_CC_SelfTest :: UINT32 where "TPM2_CC_SelfTest = 0x00000143"
definition TPM2_CC_Startup :: UINT32 where "TPM2_CC_Startup = 0x00000144"
definition TPM2_CC_Shutdown :: UINT32 where "TPM2_CC_Shutdown = 0x00000145"
definition TPM2_CC_StirRandom :: UINT32 where "TPM2_CC_StirRandom = 0x00000146"
definition TPM2_CC_ActivateCredential :: UINT32 where "TPM2_CC_ActivateCredential = 0x00000147"
definition TPM2_CC_Certify :: UINT32 where "TPM2_CC_Certify = 0x00000148"
definition TPM2_CC_PolicyNV :: UINT32 where "TPM2_CC_PolicyNV = 0x00000149"
definition TPM2_CC_CertifyCreation :: UINT32 where "TPM2_CC_CertifyCreation = 0x0000014a"
definition TPM2_CC_Duplicate :: UINT32 where "TPM2_CC_Duplicate = 0x0000014b"
definition TPM2_CC_GetTime :: UINT32 where "TPM2_CC_GetTime = 0x0000014c"
definition TPM2_CC_GetSessionAuditDigest :: UINT32 where "TPM2_CC_GetSessionAuditDigest = 0x0000014d"
definition TPM2_CC_NV_Read :: UINT32 where "TPM2_CC_NV_Read = 0x0000014e"
definition TPM2_CC_NV_ReadLock :: UINT32 where "TPM2_CC_NV_ReadLock = 0x0000014f"
definition TPM2_CC_ObjectChangeAuth :: UINT32 where "TPM2_CC_ObjectChangeAuth = 0x00000150"
definition TPM2_CC_PolicySecret :: UINT32 where "TPM2_CC_PolicySecret = 0x00000151"
definition TPM2_CC_Rewrap :: UINT32 where "TPM2_CC_Rewrap = 0x00000152"
definition TPM2_CC_Create :: UINT32 where "TPM2_CC_Create = 0x00000153"
definition TPM2_CC_ECDH_ZGen :: UINT32 where "TPM2_CC_ECDH_ZGen = 0x00000154"
definition TPM2_CC_HMAC :: UINT32 where "TPM2_CC_HMAC = 0x00000155"
definition TPM2_CC_MAC :: UINT32 where "TPM2_CC_MAC = 0x00000155"
definition TPM2_CC_Import :: UINT32 where "TPM2_CC_Import = 0x00000156"
definition TPM2_CC_Load :: UINT32 where "TPM2_CC_Load = 0x00000157"
definition TPM2_CC_Quote :: UINT32 where "TPM2_CC_Quote = 0x00000158"
definition TPM2_CC_RSA_Decrypt :: UINT32 where "TPM2_CC_RSA_Decrypt = 0x00000159"
definition TPM2_CC_HMAC_Start :: UINT32 where "TPM2_CC_HMAC_Start = 0x0000015b"
definition TPM2_CC_MAC_Start :: UINT32 where "TPM2_CC_MAC_Start = 0x0000015b"
definition TPM2_CC_SequenceUpdate :: UINT32 where "TPM2_CC_SequenceUpdate = 0x0000015c"
definition TPM2_CC_Sign :: UINT32 where "TPM2_CC_Sign = 0x0000015d"
definition TPM2_CC_Unseal :: UINT32 where "TPM2_CC_Unseal = 0x0000015e"
definition TPM2_CC_PolicySigned :: UINT32 where "TPM2_CC_PolicySigned = 0x00000160"
definition TPM2_CC_ContextLoad :: UINT32 where "TPM2_CC_ContextLoad = 0x00000161"
definition TPM2_CC_ContextSave :: UINT32 where "TPM2_CC_ContextSave = 0x00000162"
definition TPM2_CC_ECDH_KeyGen :: UINT32 where "TPM2_CC_ECDH_KeyGen = 0x00000163"
definition TPM2_CC_EncryptDecrypt :: UINT32 where "TPM2_CC_EncryptDecrypt = 0x00000164"
definition TPM2_CC_FlushContext :: UINT32 where "TPM2_CC_FlushContext = 0x00000165"
definition TPM2_CC_LoadExternal :: UINT32 where "TPM2_CC_LoadExternal = 0x00000167"
definition TPM2_CC_MakeCredential :: UINT32 where "TPM2_CC_MakeCredential = 0x00000168"
definition TPM2_CC_NV_ReadPublic :: UINT32 where "TPM2_CC_NV_ReadPublic = 0x00000169"
definition TPM2_CC_PolicyAuthorize :: UINT32 where "TPM2_CC_PolicyAuthorize = 0x0000016a"
definition TPM2_CC_PolicyAuthValue :: UINT32 where "TPM2_CC_PolicyAuthValue = 0x0000016b"
definition TPM2_CC_PolicyCommandCode :: UINT32 where "TPM2_CC_PolicyCommandCode = 0x0000016c"
definition TPM2_CC_PolicyCounterTimer :: UINT32 where "TPM2_CC_PolicyCounterTimer = 0x0000016d"
definition TPM2_CC_PolicyCpHash :: UINT32 where "TPM2_CC_PolicyCpHash = 0x0000016e"
definition TPM2_CC_PolicyLocality :: UINT32 where "TPM2_CC_PolicyLocality = 0x0000016f"
definition TPM2_CC_PolicyNameHash :: UINT32 where "TPM2_CC_PolicyNameHash = 0x00000170"
definition TPM2_CC_PolicyOR :: UINT32 where "TPM2_CC_PolicyOR = 0x00000171"
definition TPM2_CC_PolicyTicket :: UINT32 where "TPM2_CC_PolicyTicket = 0x00000172"
definition TPM2_CC_ReadPublic :: UINT32 where "TPM2_CC_ReadPublic = 0x00000173"
definition TPM2_CC_RSA_Encrypt :: UINT32 where "TPM2_CC_RSA_Encrypt = 0x00000174"
definition TPM2_CC_StartAuthSession :: UINT32 where "TPM2_CC_StartAuthSession = 0x00000176"
definition TPM2_CC_VerifySignature :: UINT32 where "TPM2_CC_VerifySignature = 0x00000177"
definition TPM2_CC_ECC_Parameters :: UINT32 where "TPM2_CC_ECC_Parameters = 0x00000178"
definition TPM2_CC_FirmwareRead :: UINT32 where "TPM2_CC_FirmwareRead = 0x00000179"
definition TPM2_CC_GetCapability :: UINT32 where "TPM2_CC_GetCapability = 0x0000017a"
definition TPM2_CC_GetRandom :: UINT32 where "TPM2_CC_GetRandom = 0x0000017b"
definition TPM2_CC_GetTestResult :: UINT32 where "TPM2_CC_GetTestResult = 0x0000017c"
definition TPM2_CC_Hash :: UINT32 where "TPM2_CC_Hash = 0x0000017d"
definition TPM2_CC_PCR_Read :: UINT32 where "TPM2_CC_PCR_Read = 0x0000017e"
definition TPM2_CC_PolicyPCR :: UINT32 where "TPM2_CC_PolicyPCR = 0x0000017f"
definition TPM2_CC_PolicyRestart :: UINT32 where "TPM2_CC_PolicyRestart = 0x00000180"
definition TPM2_CC_ReadClock :: UINT32 where "TPM2_CC_ReadClock = 0x00000181"
definition TPM2_CC_PCR_Extend :: UINT32 where "TPM2_CC_PCR_Extend = 0x00000182"
definition TPM2_CC_PCR_SetAuthValue :: UINT32 where "TPM2_CC_PCR_SetAuthValue = 0x00000183"
definition TPM2_CC_NV_Certify :: UINT32 where "TPM2_CC_NV_Certify = 0x00000184"
definition TPM2_CC_EventSequenceComplete :: UINT32 where "TPM2_CC_EventSequenceComplete = 0x00000185"
definition TPM2_CC_HashSequenceStart :: UINT32 where "TPM2_CC_HashSequenceStart = 0x00000186"
definition TPM2_CC_PolicyPhysicalPresence :: UINT32 where "TPM2_CC_PolicyPhysicalPresence = 0x00000187"
definition TPM2_CC_PolicyDuplicationSelect :: UINT32 where "TPM2_CC_PolicyDuplicationSelect = 0x00000188"
definition TPM2_CC_PolicyGetDigest :: UINT32 where "TPM2_CC_PolicyGetDigest = 0x00000189"
definition TPM2_CC_TestParms :: UINT32 where "TPM2_CC_TestParms = 0x0000018a"
definition TPM2_CC_Commit :: UINT32 where "TPM2_CC_Commit = 0x0000018b"
definition TPM2_CC_PolicyPassword :: UINT32 where "TPM2_CC_PolicyPassword = 0x0000018c"
definition TPM2_CC_ZGen_2Phase :: UINT32 where "TPM2_CC_ZGen_2Phase = 0x0000018d"
definition TPM2_CC_EC_Ephemeral :: UINT32 where "TPM2_CC_EC_Ephemeral = 0x0000018e"
definition TPM2_CC_PolicyNvWritten :: UINT32 where "TPM2_CC_PolicyNvWritten = 0x0000018f"
definition TPM2_CC_PolicyTemplate :: UINT32 where "TPM2_CC_PolicyTemplate = 0x00000190"
definition TPM2_CC_CreateLoaded :: UINT32 where "TPM2_CC_CreateLoaded = 0x00000191"
definition TPM2_CC_PolicyAuthorizeNV :: UINT32 where "TPM2_CC_PolicyAuthorizeNV = 0x00000192"
definition TPM2_CC_EncryptDecrypt2 :: UINT32 where "TPM2_CC_EncryptDecrypt2 = 0x00000193"
definition TPM2_CC_AC_GetCapability :: UINT32 where "TPM2_CC_AC_GetCapability = 0x00000194"
definition TPM2_CC_AC_Send :: UINT32 where "TPM2_CC_AC_Send = 0x00000195"
definition TPM2_CC_Policy_AC_SendSelect :: UINT32 where "TPM2_CC_Policy_AC_SendSelect = 0x00000196"
definition TPM2_CC_CertifyX509 :: UINT32 where "TPM2_CC_CertifyX509 = 0x00000197"
definition TPM2_CC_ACT_SetTimeout :: UINT32 where "TPM2_CC_ACT_SetTimeout = 0x00000198"
definition TPM2_CC_ECC_Encrypt :: UINT32 where "TPM2_CC_ECC_Encrypt = 0x00000199"
definition TPM2_CC_ECC_Decrypt :: UINT32 where "TPM2_CC_ECC_Decrypt = 0x0000019a"
definition TPM2_CC_VerifySequenceComplete :: UINT32 where "TPM2_CC_VerifySequenceComplete = 0x000001A3"
definition TPM2_CC_SignSequenceComplete :: UINT32 where "TPM2_CC_SignSequenceComplete = 0x000001A4"
definition TPM2_CC_VerifyDigestSignature :: UINT32 where "TPM2_CC_VerifyDigestSignature = 0x000001A5"
definition TPM2_CC_SignDigest :: UINT32 where "TPM2_CC_SignDigest = 0x000001A6"
definition TPM2_CC_Encapsulate :: UINT32 where "TPM2_CC_Encapsulate = 0x000001A7"
definition TPM2_CC_Decapsulate :: UINT32 where "TPM2_CC_Decapsulate = 0x000001A8"
definition TPM2_CC_VerifySequenceStart :: UINT32 where "TPM2_CC_VerifySequenceStart = 0x000001A9"
definition TPM2_CC_SignSequenceStart :: UINT32 where "TPM2_CC_SignSequenceStart = 0x000001AA"
definition TPM2_CC_Vendor_TCG_Test :: UINT32 where "TPM2_CC_Vendor_TCG_Test = 0x20000000"

lemmas cc_defs =
  TPM2_CC_NV_UndefineSpaceSpecial_def TPM2_CC_EvictControl_def TPM2_CC_HierarchyControl_def TPM2_CC_NV_UndefineSpace_def
  TPM2_CC_ChangeEPS_def TPM2_CC_ChangePPS_def TPM2_CC_Clear_def TPM2_CC_ClearControl_def
  TPM2_CC_ClockSet_def TPM2_CC_HierarchyChangeAuth_def TPM2_CC_NV_DefineSpace_def TPM2_CC_PCR_Allocate_def
  TPM2_CC_PCR_SetAuthPolicy_def TPM2_CC_PP_Commands_def TPM2_CC_SetPrimaryPolicy_def TPM2_CC_FieldUpgradeStart_def
  TPM2_CC_ClockRateAdjust_def TPM2_CC_CreatePrimary_def TPM2_CC_NV_GlobalWriteLock_def TPM2_CC_GetCommandAuditDigest_def
  TPM2_CC_NV_Increment_def TPM2_CC_NV_SetBits_def TPM2_CC_NV_Extend_def TPM2_CC_NV_Write_def
  TPM2_CC_NV_WriteLock_def TPM2_CC_DictionaryAttackLockReset_def TPM2_CC_DictionaryAttackParameters_def TPM2_CC_NV_ChangeAuth_def
  TPM2_CC_PCR_Event_def TPM2_CC_PCR_Reset_def TPM2_CC_SequenceComplete_def TPM2_CC_SetAlgorithmSet_def
  TPM2_CC_SetCommandCodeAuditStatus_def TPM2_CC_FieldUpgradeData_def TPM2_CC_IncrementalSelfTest_def TPM2_CC_SelfTest_def
  TPM2_CC_Startup_def TPM2_CC_Shutdown_def TPM2_CC_StirRandom_def TPM2_CC_ActivateCredential_def
  TPM2_CC_Certify_def TPM2_CC_PolicyNV_def TPM2_CC_CertifyCreation_def TPM2_CC_Duplicate_def
  TPM2_CC_GetTime_def TPM2_CC_GetSessionAuditDigest_def TPM2_CC_NV_Read_def TPM2_CC_NV_ReadLock_def
  TPM2_CC_ObjectChangeAuth_def TPM2_CC_PolicySecret_def TPM2_CC_Rewrap_def TPM2_CC_Create_def
  TPM2_CC_ECDH_ZGen_def TPM2_CC_HMAC_def TPM2_CC_MAC_def TPM2_CC_Import_def
  TPM2_CC_Load_def TPM2_CC_Quote_def TPM2_CC_RSA_Decrypt_def TPM2_CC_HMAC_Start_def
  TPM2_CC_MAC_Start_def TPM2_CC_SequenceUpdate_def TPM2_CC_Sign_def TPM2_CC_Unseal_def
  TPM2_CC_PolicySigned_def TPM2_CC_ContextLoad_def TPM2_CC_ContextSave_def TPM2_CC_ECDH_KeyGen_def
  TPM2_CC_EncryptDecrypt_def TPM2_CC_FlushContext_def TPM2_CC_LoadExternal_def TPM2_CC_MakeCredential_def
  TPM2_CC_NV_ReadPublic_def TPM2_CC_PolicyAuthorize_def TPM2_CC_PolicyAuthValue_def TPM2_CC_PolicyCommandCode_def
  TPM2_CC_PolicyCounterTimer_def TPM2_CC_PolicyCpHash_def TPM2_CC_PolicyLocality_def TPM2_CC_PolicyNameHash_def
  TPM2_CC_PolicyOR_def TPM2_CC_PolicyTicket_def TPM2_CC_ReadPublic_def TPM2_CC_RSA_Encrypt_def
  TPM2_CC_StartAuthSession_def TPM2_CC_VerifySignature_def TPM2_CC_ECC_Parameters_def TPM2_CC_FirmwareRead_def
  TPM2_CC_GetCapability_def TPM2_CC_GetRandom_def TPM2_CC_GetTestResult_def TPM2_CC_Hash_def
  TPM2_CC_PCR_Read_def TPM2_CC_PolicyPCR_def TPM2_CC_PolicyRestart_def TPM2_CC_ReadClock_def
  TPM2_CC_PCR_Extend_def TPM2_CC_PCR_SetAuthValue_def TPM2_CC_NV_Certify_def TPM2_CC_EventSequenceComplete_def
  TPM2_CC_HashSequenceStart_def TPM2_CC_PolicyPhysicalPresence_def TPM2_CC_PolicyDuplicationSelect_def TPM2_CC_PolicyGetDigest_def
  TPM2_CC_TestParms_def TPM2_CC_Commit_def TPM2_CC_PolicyPassword_def TPM2_CC_ZGen_2Phase_def
  TPM2_CC_EC_Ephemeral_def TPM2_CC_PolicyNvWritten_def TPM2_CC_PolicyTemplate_def TPM2_CC_CreateLoaded_def
  TPM2_CC_PolicyAuthorizeNV_def TPM2_CC_EncryptDecrypt2_def TPM2_CC_AC_GetCapability_def TPM2_CC_AC_Send_def
  TPM2_CC_Policy_AC_SendSelect_def TPM2_CC_CertifyX509_def TPM2_CC_ACT_SetTimeout_def TPM2_CC_ECC_Encrypt_def
  TPM2_CC_ECC_Decrypt_def TPM2_CC_VerifySequenceComplete_def TPM2_CC_SignSequenceComplete_def TPM2_CC_VerifyDigestSignature_def
  TPM2_CC_SignDigest_def TPM2_CC_Encapsulate_def TPM2_CC_Decapsulate_def TPM2_CC_VerifySequenceStart_def
  TPM2_CC_SignSequenceStart_def TPM2_CC_Vendor_TCG_Test_def

text \<open>The table of \<open>GetNumHandles\<close>: command code, handles of the command, handles of the response.\<close>

definition commandArray :: "(UINT32 \<times> nat \<times> nat) list" where
  "commandArray =
    [(TPM2_CC_Startup, 0, 0),
     (TPM2_CC_Shutdown, 0, 0),
     (TPM2_CC_SelfTest, 0, 0),
     (TPM2_CC_IncrementalSelfTest, 0, 0),
     (TPM2_CC_GetTestResult, 0, 0),
     (TPM2_CC_StartAuthSession, 2, 1),
     (TPM2_CC_PolicyRestart, 1, 0),
     (TPM2_CC_Create, 1, 0),
     (TPM2_CC_Load, 1, 1),
     (TPM2_CC_LoadExternal, 0, 1),
     (TPM2_CC_ReadPublic, 1, 0),
     (TPM2_CC_ActivateCredential, 2, 0),
     (TPM2_CC_MakeCredential, 1, 0),
     (TPM2_CC_Unseal, 1, 0),
     (TPM2_CC_ObjectChangeAuth, 2, 0),
     (TPM2_CC_Duplicate, 2, 0),
     (TPM2_CC_Rewrap, 2, 0),
     (TPM2_CC_Import, 1, 0),
     (TPM2_CC_RSA_Encrypt, 1, 0),
     (TPM2_CC_RSA_Decrypt, 1, 0),
     (TPM2_CC_ECDH_KeyGen, 1, 0),
     (TPM2_CC_ECDH_ZGen, 1, 0),
     (TPM2_CC_ECC_Parameters, 0, 0),
     (TPM2_CC_ZGen_2Phase, 1, 0),
     (TPM2_CC_EncryptDecrypt, 1, 0),
     (TPM2_CC_EncryptDecrypt2, 1, 0),
     (TPM2_CC_Hash, 0, 0),
     (TPM2_CC_HMAC, 1, 0),
     (TPM2_CC_GetRandom, 0, 0),
     (TPM2_CC_StirRandom, 0, 0),
     (TPM2_CC_HMAC_Start, 1, 1),
     (TPM2_CC_HashSequenceStart, 0, 1),
     (TPM2_CC_SequenceUpdate, 1, 0),
     (TPM2_CC_SequenceComplete, 1, 0),
     (TPM2_CC_EventSequenceComplete, 2, 0),
     (TPM2_CC_Certify, 2, 0),
     (TPM2_CC_CertifyCreation, 2, 0),
     (TPM2_CC_Quote, 1, 0),
     (TPM2_CC_GetSessionAuditDigest, 3, 0),
     (TPM2_CC_GetCommandAuditDigest, 2, 0),
     (TPM2_CC_GetTime, 2, 0),
     (TPM2_CC_Commit, 1, 0),
     (TPM2_CC_EC_Ephemeral, 0, 0),
     (TPM2_CC_VerifySignature, 1, 0),
     (TPM2_CC_Sign, 1, 0),
     (TPM2_CC_SetCommandCodeAuditStatus, 1, 0),
     (TPM2_CC_PCR_Extend, 1, 0),
     (TPM2_CC_PCR_Event, 1, 0),
     (TPM2_CC_PCR_Read, 0, 0),
     (TPM2_CC_PCR_Allocate, 1, 0),
     (TPM2_CC_PCR_SetAuthPolicy, 1, 0),
     (TPM2_CC_PCR_SetAuthValue, 1, 0),
     (TPM2_CC_PCR_Reset, 1, 0),
     (TPM2_CC_PolicySigned, 2, 0),
     (TPM2_CC_PolicySecret, 2, 0),
     (TPM2_CC_PolicyTicket, 1, 0),
     (TPM2_CC_PolicyOR, 1, 0),
     (TPM2_CC_PolicyPCR, 1, 0),
     (TPM2_CC_PolicyLocality, 1, 0),
     (TPM2_CC_PolicyNV, 3, 0),
     (TPM2_CC_PolicyNvWritten, 1, 0),
     (TPM2_CC_PolicyCounterTimer, 1, 0),
     (TPM2_CC_PolicyCommandCode, 1, 0),
     (TPM2_CC_PolicyPhysicalPresence, 1, 0),
     (TPM2_CC_PolicyCpHash, 1, 0),
     (TPM2_CC_PolicyNameHash, 1, 0),
     (TPM2_CC_PolicyDuplicationSelect, 1, 0),
     (TPM2_CC_PolicyAuthorize, 1, 0),
     (TPM2_CC_PolicyAuthValue, 1, 0),
     (TPM2_CC_PolicyPassword, 1, 0),
     (TPM2_CC_PolicyGetDigest, 1, 0),
     (TPM2_CC_PolicyTemplate, 1, 0),
     (TPM2_CC_CreatePrimary, 1, 1),
     (TPM2_CC_HierarchyControl, 1, 0),
     (TPM2_CC_SetPrimaryPolicy, 1, 0),
     (TPM2_CC_ChangePPS, 1, 0),
     (TPM2_CC_ChangeEPS, 1, 0),
     (TPM2_CC_Clear, 1, 0),
     (TPM2_CC_ClearControl, 1, 0),
     (TPM2_CC_HierarchyChangeAuth, 1, 0),
     (TPM2_CC_DictionaryAttackLockReset, 1, 0),
     (TPM2_CC_DictionaryAttackParameters, 1, 0),
     (TPM2_CC_PP_Commands, 1, 0),
     (TPM2_CC_SetAlgorithmSet, 1, 0),
     (TPM2_CC_FieldUpgradeStart, 2, 0),
     (TPM2_CC_FieldUpgradeData, 0, 0),
     (TPM2_CC_FirmwareRead, 0, 0),
     (TPM2_CC_ContextSave, 1, 0),
     (TPM2_CC_ContextLoad, 0, 1),
     (TPM2_CC_FlushContext, 0, 0),
     (TPM2_CC_EvictControl, 2, 0),
     (TPM2_CC_ReadClock, 0, 0),
     (TPM2_CC_ClockSet, 1, 0),
     (TPM2_CC_ClockRateAdjust, 1, 0),
     (TPM2_CC_GetCapability, 0, 0),
     (TPM2_CC_TestParms, 0, 0),
     (TPM2_CC_NV_DefineSpace, 1, 0),
     (TPM2_CC_NV_UndefineSpace, 2, 0),
     (TPM2_CC_NV_UndefineSpaceSpecial, 2, 0),
     (TPM2_CC_NV_ReadPublic, 1, 0),
     (TPM2_CC_NV_Write, 2, 0),
     (TPM2_CC_NV_Increment, 2, 0),
     (TPM2_CC_NV_Extend, 2, 0),
     (TPM2_CC_NV_SetBits, 2, 0),
     (TPM2_CC_NV_WriteLock, 2, 0),
     (TPM2_CC_NV_GlobalWriteLock, 1, 0),
     (TPM2_CC_NV_Read, 2, 0),
     (TPM2_CC_NV_ReadLock, 2, 0),
     (TPM2_CC_NV_ChangeAuth, 1, 0),
     (TPM2_CC_NV_Certify, 3, 0),
     (TPM2_CC_CreateLoaded, 1, 1),
     (TPM2_CC_PolicyAuthorizeNV, 3, 0),
     (TPM2_CC_AC_GetCapability, 1, 0),
     (TPM2_CC_AC_Send, 3, 0),
     (TPM2_CC_Policy_AC_SendSelect, 1, 0),
     (TPM2_CC_ACT_SetTimeout, 1, 0),
     (TPM2_CC_CertifyX509, 2, 0),
     (TPM2_CC_ECC_Encrypt, 1, 0),
     (TPM2_CC_ECC_Decrypt, 1, 0),
     (TPM2_CC_Encapsulate, 1, 0),
     (TPM2_CC_Decapsulate, 1, 0),
     (TPM2_CC_SignDigest, 1, 0),
     (TPM2_CC_VerifyDigestSignature, 1, 0),
     (TPM2_CC_SignSequenceStart, 1, 1),
     (TPM2_CC_VerifySequenceStart, 1, 1),
     (TPM2_CC_SignSequenceComplete, 1, 0),
     (TPM2_CC_VerifySequenceComplete, 1, 0)]"

section \<open>Transport\<close>

text \<open>
  The part of \<open>TSS2_TCTI_CONTEXT_COMMON_V1\<close> the system API uses.  The transport behind the two
  function pointers is a parameter: its state \<open>'t\<close> is opaque, \<open>transmit\<close> gets the bytes of the
  command, \<open>receive\<close> gets the size cell, the response buffer (\<open>None\<close> for \<open>NULL\<close>) and the timeout and
  returns them changed.
\<close>

record 't TSS2_TCTI_CONTEXT =
  TCTI_version :: UINT32
  TCTI_transmit :: "('t \<Rightarrow> BYTE list \<Rightarrow> TSS2_RC \<times> 't) option"
  TCTI_receive :: "('t \<Rightarrow> size_t \<Rightarrow> buf option \<Rightarrow> INT32 \<Rightarrow> TSS2_RC \<times> size_t \<times> buf option \<times> 't) option"
  TCTI_state :: 't

definition TSS2_TCTI_TIMEOUT_BLOCK :: INT32 where "TSS2_TCTI_TIMEOUT_BLOCK = -1"

definition Tss2_Tcti_Transmit ::
  "'t TSS2_TCTI_CONTEXT option \<Rightarrow> size_t \<Rightarrow> buf \<Rightarrow> (TSS2_RC \<times> 't TSS2_TCTI_CONTEXT option) option" where
  "Tss2_Tcti_Transmit tctiContext sz command =
     (case tctiContext of
        None \<Rightarrow> Some (TSS2_TCTI_RC_BAD_REFERENCE, tctiContext)
      | Some t \<Rightarrow>
          if TCTI_version t < 1 then Some (TSS2_TCTI_RC_ABI_MISMATCH, tctiContext)
          else
            (case TCTI_transmit t of
               None \<Rightarrow> Some (TSS2_TCTI_RC_NOT_IMPLEMENTED, tctiContext)
             | Some transmit \<Rightarrow>
                 (case mem_read command 0 (unat sz) of
                    None \<Rightarrow> None
                  | Some bs \<Rightarrow>
                      (case transmit (TCTI_state t) bs of (rc, s) \<Rightarrow> Some (rc, Some (t\<lparr>TCTI_state := s\<rparr>))))))"

definition Tss2_Tcti_Receive ::
  "'t TSS2_TCTI_CONTEXT option \<Rightarrow> size_t \<Rightarrow> buf option \<Rightarrow> INT32 \<Rightarrow>
    TSS2_RC \<times> size_t \<times> buf option \<times> 't TSS2_TCTI_CONTEXT option" where
  "Tss2_Tcti_Receive tctiContext sz response timeout =
     (case tctiContext of
        None \<Rightarrow> (TSS2_TCTI_RC_BAD_REFERENCE, sz, response, tctiContext)
      | Some t \<Rightarrow>
          if TCTI_version t < 1 then (TSS2_TCTI_RC_ABI_MISMATCH, sz, response, tctiContext)
          else
            (case TCTI_receive t of
               None \<Rightarrow> (TSS2_TCTI_RC_NOT_IMPLEMENTED, sz, response, tctiContext)
             | Some receive \<Rightarrow>
                 (case receive (TCTI_state t) sz response timeout of
                    (rc, sz', response', s) \<Rightarrow> (rc, sz', response', Some (t\<lparr>TCTI_state := s\<rparr>)))))"

section \<open>The context\<close>

definition CMD_STAGE_INITIALIZE :: UINT8 where "CMD_STAGE_INITIALIZE = 0"
definition CMD_STAGE_PREPARE :: UINT8 where "CMD_STAGE_PREPARE = 1"
definition CMD_STAGE_SEND_COMMAND :: UINT8 where "CMD_STAGE_SEND_COMMAND = 2"
definition CMD_STAGE_RECEIVE_RESPONSE :: UINT8 where "CMD_STAGE_RECEIVE_RESPONSE = 3"

lemmas stage_defs = CMD_STAGE_INITIALIZE_def CMD_STAGE_PREPARE_def CMD_STAGE_SEND_COMMAND_def
  CMD_STAGE_RECEIVE_RESPONSE_def

record TPM20_Header_Out =
  TPM20_Header_Out_tag :: UINT16
  TPM20_Header_Out_responseSize :: UINT32
  TPM20_Header_Out_responseCode :: UINT32

text \<open>
  \<open>ctx_cmdBuffer\<close> is the memory behind the structure in the object the caller allocated.  The two
  pointers into it, \<open>cpBuffer\<close> and \<open>rspParamsSize\<close>, are kept as distances from its start.  The
  one-bit flags are truth values.
\<close>

record 't TSS2_SYS_CONTEXT_BLOB =
  ctx_tctiContext :: "'t TSS2_TCTI_CONTEXT option"
  ctx_cmdBuffer :: buf
  ctx_maxCmdSize :: UINT32
  ctx_cmd_header :: "BYTE list"
  ctx_rsp_header :: TPM20_Header_Out
  ctx_commandCode :: UINT32
  ctx_cpBufferUsedSize :: UINT32
  ctx_cpBuffer :: size_t
  ctx_rspParamsSize :: size_t
  ctx_previousStage :: UINT8
  ctx_authsCount :: UINT8
  ctx_numResponseHandles :: UINT8
  ctx_decryptAllowed :: bool
  ctx_encryptAllowed :: bool
  ctx_decryptNull :: bool
  ctx_authAllowed :: bool
  ctx_nextData :: size_t

type_synonym 't sysctx = "'t TSS2_SYS_CONTEXT_BLOB option"

definition ct_TPM20_Header :: ctype where
  "ct_TPM20_Header = CArray 10 (CInt 1)"

definition ct_TSS2_SYS_CONTEXT_BLOB :: ctype where
  "ct_TSS2_SYS_CONTEXT_BLOB =
     CStruct [CInt 8, CInt 8, CInt 4, CArray 10 (CInt 1), ct_TPM20_Header, CInt 4, CInt 4, CInt 8,
       CInt 8, CInt 1, CInt 1, CInt 1, CStruct [CInt 2], CInt 8]"

lemma ct_TSS2_SYS_CONTEXT_BLOB_size [simp]: "sizeof ct_TSS2_SYS_CONTEXT_BLOB = 80"
  by (simp add: ct_TSS2_SYS_CONTEXT_BLOB_def ct_TPM20_Header_def round_up_def del: One_nat_def)

abbreviation sizeof_header :: nat where "sizeof_header \<equiv> 10"

section \<open>Sequences of calls\<close>

text \<open>
  \<open>rval = f(...); if (rval) return rval;\<close> repeated is the usual body of a function here.  A step
  takes the state it may change and returns the return code with the changed state, or \<open>None\<close> when
  it leaves its memory; \<open>steps\<close> runs a list of them up to the first error.
\<close>

type_synonym 's step = "'s \<Rightarrow> (TSS2_RC \<times> 's) option"

fun steps :: "'s step list \<Rightarrow> 's step" where
  "steps [] s = Some (TSS2_RC_SUCCESS, s)"
| "steps (f # fs) s =
     (case f s of
        None \<Rightarrow> None
      | Some (rval, s') \<Rightarrow> if rval \<noteq> 0 then Some (rval, s') else steps fs s')"

text \<open>\<open>if (!ctx || !p || ...) return TSS2_SYS_RC_BAD_REFERENCE;\<close>\<close>

definition null_check :: "bool list \<Rightarrow> 't sysctx step" where
  "null_check nulls ctx =
     Some (if Option.is_none ctx \<or> True \<in> set nulls then TSS2_SYS_RC_BAD_REFERENCE else TSS2_RC_SUCCESS, ctx)"

text \<open>\<open>Tss2_MU_T_Marshal(x, ctx->cmdBuffer, ctx->maxCmdSize, &ctx->nextData)\<close>\<close>

definition put :: "(buf option \<Rightarrow> size_t \<Rightarrow> size_t option \<Rightarrow> mres) \<Rightarrow> 't sysctx step" where
  "put marshal ctx =
     (case ctx of
        None \<Rightarrow> None
      | Some c \<Rightarrow>
          (case marshal (Some (ctx_cmdBuffer c)) (ucast (ctx_maxCmdSize c)) (Some (ctx_nextData c)) of
             Some (rval, Some b, Some n) \<Rightarrow>
               Some (rval, Some (c\<lparr>ctx_cmdBuffer := b, ctx_nextData := n\<rparr>))
           | _ \<Rightarrow> None))"

definition ret :: "TSS2_RC \<Rightarrow> 's step" where
  "ret rval s = Some (rval, s)"

definition assign :: "('t TSS2_SYS_CONTEXT_BLOB \<Rightarrow> 't TSS2_SYS_CONTEXT_BLOB) \<Rightarrow> 't sysctx step" where
  "assign f ctx = (case ctx of None \<Rightarrow> None | Some c \<Rightarrow> Some (TSS2_RC_SUCCESS, Some (f c)))"

text \<open>
  A \<open>_Complete\<close> function also changes the objects its output parameters point to (\<open>None\<close> for a null
  pointer), kept beside the context as a tuple that ends in \<open>()\<close>.
  \<open>get_out\<close> is \<open>Tss2_MU_T_Unmarshal(ctx->cmdBuffer, ctx->maxCmdSize, &ctx->nextData, out)\<close> on the first
  of them, \<open>skip_out\<close> moves on to the next.
\<close>

definition get_out :: "'a ufun \<Rightarrow> ('t sysctx \<times> 'a option \<times> 'o) step" where
  "get_out unmarshal = (\<lambda>(ctx, d, outs).
     case ctx of
       None \<Rightarrow> None
     | Some c \<Rightarrow>
         (case unmarshal (Some (ctx_cmdBuffer c)) (ucast (ctx_maxCmdSize c)) (Some (ctx_nextData c)) d of
            Some (rval, Some n, d') \<Rightarrow> Some (rval, Some (c\<lparr>ctx_nextData := n\<rparr>), d', outs)
          | _ \<Rightarrow> None))"

definition skip_out :: "('t sysctx \<times> 'o) step \<Rightarrow> ('t sysctx \<times> 'a \<times> 'o) step" where
  "skip_out op = (\<lambda>(ctx, d, outs).
     case op (ctx, outs) of None \<Rightarrow> None | Some (rval, ctx', outs') \<Rightarrow> Some (rval, ctx', d, outs'))"

definition on_fst :: "'s step \<Rightarrow> ('s \<times> 'r) step" where
  "on_fst op = (\<lambda>(s, r). case op s of None \<Rightarrow> None | Some (rval, s') \<Rightarrow> Some (rval, s', r))"

text \<open>In a one-call function the array for the response authorizations comes first of the outputs.\<close>

definition on_rsp :: "('c \<times> 'a) step \<Rightarrow> ('c \<times> 'a \<times> 'o) step" where
  "on_rsp op = (\<lambda>(ctx, a, outs).
     case op (ctx, a) of None \<Rightarrow> None | Some (rval, ctx', a') \<Rightarrow> Some (rval, ctx', a', outs))"

text \<open>\<open>ctx->decryptAllowed = ..; ctx->encryptAllowed = ..; ctx->authAllowed = ..;\<close>\<close>

definition flags :: "bool \<Rightarrow> bool \<Rightarrow> bool \<Rightarrow> 't TSS2_SYS_CONTEXT_BLOB \<Rightarrow> 't TSS2_SYS_CONTEXT_BLOB" where
  "flags dec enc auth c = c\<lparr>ctx_decryptAllowed := dec, ctx_encryptAllowed := enc, ctx_authAllowed := auth\<rparr>"

section \<open>Helpers of sysapi_util.c\<close>

definition InitSysContextFields :: "'t TSS2_SYS_CONTEXT_BLOB \<Rightarrow> 't TSS2_SYS_CONTEXT_BLOB" where
  "InitSysContextFields ctx =
     ctx\<lparr>ctx_decryptAllowed := False, ctx_encryptAllowed := False, ctx_decryptNull := False,
       ctx_authAllowed := False, ctx_nextData := 0\<rparr>"

text \<open>The command buffer starts behind the structure, so only its size changes.\<close>

definition InitSysContextPtrs :: "'t TSS2_SYS_CONTEXT_BLOB \<Rightarrow> size_t \<Rightarrow> 't TSS2_SYS_CONTEXT_BLOB" where
  "InitSysContextPtrs ctx contextSize =
     ctx\<lparr>ctx_maxCmdSize := ucast (contextSize - of_nat (sizeof ct_TSS2_SYS_CONTEXT_BLOB))\<rparr>"

text \<open>Members of the request and response header: the tag at 0, the size at 2, the code at 6.\<close>

definition header_get :: "buf \<Rightarrow> size_t \<Rightarrow> 'a::len word option" where
  "header_get b i = map_option (\<lambda>xs. BE_TO_HOST (word_of xs)) (mem_read b i (LENGTH('a) div 8))"

definition header_set :: "size_t \<Rightarrow> 'a::len word \<Rightarrow> 't TSS2_SYS_CONTEXT_BLOB \<Rightarrow> 't TSS2_SYS_CONTEXT_BLOB option" where
  "header_set i w ctx =
     map_option (\<lambda>b. ctx\<lparr>ctx_cmdBuffer := b\<rparr>) (mem_write (ctx_cmdBuffer ctx) i (bytes_of (HOST_TO_BE w)))"

definition GetCommandSize :: "'t TSS2_SYS_CONTEXT_BLOB \<Rightarrow> UINT32 option" where
  "GetCommandSize ctx = header_get (ctx_cmdBuffer ctx) 2"

definition CopyCommandHeader :: "'t sysctx \<Rightarrow> UINT32 \<Rightarrow> (TSS2_RC \<times> 't sysctx) option" where
  "CopyCommandHeader ctx commandCode =
     (case ctx of
        None \<Rightarrow> Some (TSS2_SYS_RC_BAD_REFERENCE, ctx)
      | Some c \<Rightarrow>
          (case put (Tss2_MU_TPM2_ST_Marshal TPM2_ST_NO_SESSIONS) (Some (c\<lparr>ctx_nextData := 0\<rparr>)) of
             Some (rval, Some c') \<Rightarrow>
               if rval \<noteq> 0 then Some (rval, Some c')
               else
                 (case header_set 6 commandCode c' of
                    None \<Rightarrow> None
                  | Some c'' \<Rightarrow> Some (rval, Some (c''\<lparr>ctx_nextData := of_nat sizeof_header\<rparr>)))
           | _ \<Rightarrow> None))"

definition GetNumHandles :: "UINT32 \<Rightarrow> bool \<Rightarrow> nat" where
  "GetNumHandles commandCode req =
     (case find (\<lambda>(cc, _, _). commandCode = cc) commandArray of
        None \<Rightarrow> 0
      | Some (_, numCommandHandles, numResponseHandles) \<Rightarrow> if req then numCommandHandles else numResponseHandles)"

lemma find_key:
  "distinct (map fst xs) \<Longrightarrow> (k, v) \<in> set xs \<Longrightarrow> find (\<lambda>(c, _). k = c) xs = Some (k, v)"
  by (induction xs) (auto, metis image_eqI fst_conv)

lemma commandArray_distinct: "distinct (map fst commandArray)"
proof -
  have "distinct (map (unat \<circ> fst) commandArray)" by (simp add: commandArray_def cc_defs)
  then have "distinct (map unat (map fst commandArray))" by (simp only: map_map)
  then show ?thesis unfolding distinct_map [of unat] by (rule conjunct1)
qed

definition GetNumCommandHandles :: "UINT32 \<Rightarrow> nat" where
  "GetNumCommandHandles commandCode = GetNumHandles commandCode True"

definition GetNumResponseHandles :: "UINT32 \<Rightarrow> nat" where
  "GetNumResponseHandles commandCode = GetNumHandles commandCode False"

lemma GetNumHandles_entry:
  assumes "(cc, h, r) \<in> set commandArray"
  shows "GetNumCommandHandles cc = h" "GetNumResponseHandles cc = r"
proof -
  have "(\<lambda>(c, _). cc = c) = (\<lambda>(c, _ :: nat, _ :: nat). cc = c)" by auto
  with find_key [OF commandArray_distinct assms]
  have "find (\<lambda>(c, _, _). cc = c) commandArray = Some (cc, h, r)" by simp
  then show "GetNumCommandHandles cc = h" "GetNumResponseHandles cc = r"
    by (simp_all add: GetNumCommandHandles_def GetNumResponseHandles_def GetNumHandles_def)
qed

lemma GetNumHandles_unlisted:
  assumes "unat cc \<notin> set (map (unat \<circ> fst) commandArray)"
  shows "GetNumCommandHandles cc = 0" "GetNumResponseHandles cc = 0"
proof -
  have "find (\<lambda>(c, _, _). cc = c) commandArray = None"
    using assms by (force simp: find_None_iff)
  then show "GetNumCommandHandles cc = 0" "GetNumResponseHandles cc = 0"
    by (simp_all add: GetNumCommandHandles_def GetNumResponseHandles_def GetNumHandles_def)
qed

definition CommonPreparePrologue :: "UINT32 \<Rightarrow> 't sysctx step" where
  "CommonPreparePrologue commandCode ctx =
     (case ctx of
        None \<Rightarrow> Some (TSS2_SYS_RC_BAD_REFERENCE, ctx)
      | Some c \<Rightarrow>
          let c1 = InitSysContextFields c in
          if ctx_previousStage c1 \<noteq> CMD_STAGE_INITIALIZE \<and>
             ctx_previousStage c1 \<noteq> CMD_STAGE_RECEIVE_RESPONSE \<and>
             ctx_previousStage c1 \<noteq> CMD_STAGE_PREPARE
          then Some (TSS2_SYS_RC_BAD_SEQUENCE, Some c1)
          else
            (case CopyCommandHeader (Some c1) commandCode of
               Some (rval, Some c2) \<Rightarrow>
                 if rval \<noteq> 0 then Some (rval, Some c2)
                 else Some (rval, Some (c2\<lparr>
                   ctx_commandCode := commandCode,
                   ctx_numResponseHandles := of_nat (GetNumResponseHandles commandCode),
                   ctx_rspParamsSize := of_nat sizeof_header + of_nat (GetNumResponseHandles commandCode) * 4,
                   ctx_cpBuffer := ctx_nextData c2 + of_nat (GetNumCommandHandles commandCode) * 4\<rparr>))
             | _ \<Rightarrow> None))"

definition CommonPrepareEpilogue :: "'t sysctx step" where
  "CommonPrepareEpilogue ctx =
     (case ctx of
        None \<Rightarrow> None
      | Some c \<Rightarrow>
          (case header_set 2 (ucast (ctx_nextData c) :: UINT32)
                  (c\<lparr>ctx_cpBufferUsedSize := ucast (ctx_nextData c - ctx_cpBuffer c)\<rparr>) of
             None \<Rightarrow> None
           | Some c' \<Rightarrow> Some (TSS2_RC_SUCCESS, Some (c'\<lparr>ctx_previousStage := CMD_STAGE_PREPARE\<rparr>))))"

definition CommonComplete :: "'t sysctx step" where
  "CommonComplete ctx =
     (case ctx of
        None \<Rightarrow> Some (TSS2_SYS_RC_BAD_REFERENCE, ctx)
      | Some c \<Rightarrow>
          (case header_get (ctx_cmdBuffer c) 2 :: UINT32 option of
             None \<Rightarrow> None
           | Some rspSize \<Rightarrow>
               if rspSize > ctx_maxCmdSize c then Some (TSS2_SYS_RC_MALFORMED_RESPONSE, ctx)
               else if ctx_previousStage c \<noteq> CMD_STAGE_RECEIVE_RESPONSE
               then Some (TSS2_SYS_RC_BAD_SEQUENCE, ctx)
               else
                 let c1 = c\<lparr>ctx_nextData := ctx_rspParamsSize c\<rparr> in
                 (case Tss2_MU_TPM2_ST_Unmarshal (Some (ctx_cmdBuffer c)) (ucast (ctx_maxCmdSize c)) (Some 0) (Some 0) of
                    Some (rval, _, Some tag) \<Rightarrow>
                      if rval \<noteq> 0 then Some (rval, Some c1)
                      else if tag = TPM2_ST_SESSIONS then
                        (case Tss2_MU_UINT32_Unmarshal (Some (ctx_cmdBuffer c)) (ucast (ctx_maxCmdSize c))
                                (Some (ctx_nextData c1)) None of
                           Some (rval, Some n, _) \<Rightarrow> Some (rval, Some (c1\<lparr>ctx_nextData := n\<rparr>))
                         | _ \<Rightarrow> None)
                      else Some (rval, Some c1)
                  | _ \<Rightarrow> None)))"

text \<open>
  The checks for weak algorithms, in a build without \<open>--disable-weakcrypto\<close>: macros that expand to
  success.
\<close>

definition IsAlgorithmWeak :: "UINT16 \<Rightarrow> UINT16 \<Rightarrow> TSS2_RC" where
  "IsAlgorithmWeak algorithm key_size = TSS2_RC_SUCCESS"

definition ValidatePublicTemplate :: "TPMT_PUBLIC TPM2B_SUBTYPE option \<Rightarrow> TSS2_RC" where
  "ValidatePublicTemplate pub = TSS2_RC_SUCCESS"

definition ValidateNV_Public :: "TPMS_NV_PUBLIC TPM2B_SUBTYPE option \<Rightarrow> TSS2_RC" where
  "ValidateNV_Public nv_public_info = TSS2_RC_SUCCESS"

definition ValidateTPML_PCR_SELECTION :: "TPMS_PCR_SELECTION TPML option \<Rightarrow> TSS2_RC" where
  "ValidateTPML_PCR_SELECTION pcr_selection = TSS2_RC_SUCCESS"

lemmas weak_defs = IsAlgorithmWeak_def ValidatePublicTemplate_def ValidateNV_Public_def ValidateTPML_PCR_SELECTION_def

lemma steps_ret [simp]:
  "steps (ret rval # fs) s = (if rval \<noteq> 0 then Some (rval, s) else steps fs s)"
  by (simp add: ret_def)

end
