(* ===== verification/Sys_Api.thy ===== *)
theory Sys_Api
  imports Sys_Context
begin

text \<open>
  The functions of the system API that are not TPM commands: setting up and leaving a context,
  access to the parts of a prepared command and of a response, authorizations, and execution.
\<close>

section \<open>Setting up a context\<close>

record TSS2_ABI_VERSION =
  ABI_tssCreator :: UINT32
  ABI_tssFamily :: UINT32
  ABI_tssLevel :: UINT32
  ABI_tssVersion :: UINT32

definition TSS2_ABI_VERSION_CURRENT :: TSS2_ABI_VERSION where
  "TSS2_ABI_VERSION_CURRENT = \<lparr>ABI_tssCreator = 1, ABI_tssFamily = 2, ABI_tssLevel = 1, ABI_tssVersion = 108\<rparr>"

definition Tss2_Sys_GetContextSize :: "size_t \<Rightarrow> size_t" where
  "Tss2_Sys_GetContextSize maxCommandSize =
     (if maxCommandSize = 0
      then of_nat (sizeof ct_TSS2_SYS_CONTEXT_BLOB) + of_nat TPM2_MAX_COMMAND_SIZE
      else of_nat (sizeof ct_TSS2_SYS_CONTEXT_BLOB) +
           (if maxCommandSize > of_nat sizeof_header then maxCommandSize else of_nat sizeof_header))"

definition Tss2_Sys_Initialize ::
  "'t sysctx \<Rightarrow> size_t \<Rightarrow> 't TSS2_TCTI_CONTEXT option \<Rightarrow> TSS2_ABI_VERSION option \<Rightarrow> (TSS2_RC \<times> 't sysctx) option" where
  "Tss2_Sys_Initialize sysContext contextSize tctiContext abiVersion =
     (case (sysContext, tctiContext) of
        (Some ctx, Some tcti) \<Rightarrow>
          if contextSize < of_nat (sizeof ct_TSS2_SYS_CONTEXT_BLOB)
          then Some (TSS2_SYS_RC_INSUFFICIENT_CONTEXT, sysContext)
          else if Option.is_none (TCTI_transmit tcti) \<or> Option.is_none (TCTI_receive tcti)
          then Some (TSS2_SYS_RC_BAD_TCTI_STRUCTURE, sysContext)
          else if (case abiVersion of None \<Rightarrow> False | Some v \<Rightarrow> v \<noteq> TSS2_ABI_VERSION_CURRENT)
          then Some (TSS2_SYS_RC_ABI_MISMATCH, sysContext)
          else Some (TSS2_RC_SUCCESS, Some
            ((InitSysContextFields (InitSysContextPtrs (ctx\<lparr>ctx_tctiContext := tctiContext\<rparr>) contextSize))
               \<lparr>ctx_previousStage := CMD_STAGE_INITIALIZE\<rparr>))
      | _ \<Rightarrow> Some (TSS2_SYS_RC_BAD_REFERENCE, sysContext))"

definition Tss2_Sys_Finalize :: "'t sysctx \<Rightarrow> unit" where
  "Tss2_Sys_Finalize sysContext = ()"

definition Tss2_Sys_Abort :: "'t sysctx step" where
  "Tss2_Sys_Abort sysContext =
     (case sysContext of
        None \<Rightarrow> Some (TSS2_SYS_RC_BAD_REFERENCE, sysContext)
      | Some ctx \<Rightarrow> Some (TSS2_RC_SUCCESS, Some (ctx\<lparr>ctx_previousStage := CMD_STAGE_INITIALIZE\<rparr>)))"

text \<open>
  The query functions leave the context alone.  An output parameter is the cell it points to,
  \<open>None\<close> for a null pointer; the result has the cells as the call leaves them.  A pointer into the
  command buffer is its distance from the start.
\<close>

definition Tss2_Sys_GetTctiContext ::
  "'t sysctx \<Rightarrow> 't TSS2_TCTI_CONTEXT option option \<Rightarrow> TSS2_RC \<times> 't TSS2_TCTI_CONTEXT option option" where
  "Tss2_Sys_GetTctiContext sysContext tctiContext =
     (case (sysContext, tctiContext) of
        (Some ctx, Some _) \<Rightarrow> (TSS2_RC_SUCCESS, Some (ctx_tctiContext ctx))
      | _ \<Rightarrow> (TSS2_SYS_RC_BAD_REFERENCE, tctiContext))"

definition Tss2_Sys_GetCommandCode :: "'t sysctx \<Rightarrow> BYTE list option \<Rightarrow> (TSS2_RC \<times> BYTE list option) option" where
  "Tss2_Sys_GetCommandCode sysContext commandCode =
     (case (sysContext, commandCode) of
        (Some ctx, Some code) \<Rightarrow>
          if ctx_previousStage ctx = CMD_STAGE_INITIALIZE then Some (TSS2_SYS_RC_BAD_SEQUENCE, commandCode)
          else
            (case mem_write code 0 (bytes_of (HOST_TO_BE (ctx_commandCode ctx))) of
               None \<Rightarrow> None
             | Some code' \<Rightarrow> Some (TSS2_RC_SUCCESS, Some code'))
      | _ \<Rightarrow> Some (TSS2_SYS_RC_BAD_REFERENCE, commandCode))"

definition Tss2_Sys_GetCpBuffer ::
  "'t sysctx \<Rightarrow> size_t option \<Rightarrow> size_t option \<Rightarrow> TSS2_RC \<times> size_t option \<times> size_t option" where
  "Tss2_Sys_GetCpBuffer sysContext cpBufferUsedSize cpBuffer =
     (case (sysContext, cpBufferUsedSize, cpBuffer) of
        (Some ctx, Some _, Some _) \<Rightarrow>
          if ctx_previousStage ctx \<noteq> CMD_STAGE_PREPARE \<and> ctx_previousStage ctx \<noteq> CMD_STAGE_SEND_COMMAND
          then (TSS2_SYS_RC_BAD_SEQUENCE, cpBufferUsedSize, cpBuffer)
          else (TSS2_RC_SUCCESS, Some (ucast (ctx_cpBufferUsedSize ctx)), Some (ctx_cpBuffer ctx))
      | _ \<Rightarrow> (TSS2_SYS_RC_BAD_REFERENCE, cpBufferUsedSize, cpBuffer))"

definition Tss2_Sys_GetRpBuffer ::
  "'t sysctx \<Rightarrow> size_t option \<Rightarrow> size_t option \<Rightarrow> (TSS2_RC \<times> size_t option \<times> size_t option) option" where
  "Tss2_Sys_GetRpBuffer sysContext rpBufferUsedSize rpBuffer =
     (case (sysContext, rpBufferUsedSize, rpBuffer) of
        (Some ctx, Some _, Some _) \<Rightarrow>
          if ctx_previousStage ctx \<noteq> CMD_STAGE_RECEIVE_RESPONSE
          then Some (TSS2_SYS_RC_BAD_SEQUENCE, rpBufferUsedSize, rpBuffer)
          else
            let offset = of_nat sizeof_header + ucast (ctx_numResponseHandles ctx) * 4 in
            if TPM20_Header_Out_tag (ctx_rsp_header ctx) = TPM2_ST_SESSIONS then
              (case Tss2_MU_UINT32_Unmarshal (Some (ctx_cmdBuffer ctx))
                      (ucast (TPM20_Header_Out_responseSize (ctx_rsp_header ctx))) (Some offset) (Some 0) of
                 Some (rval, Some offset', Some parameterSize) \<Rightarrow>
                   if rval \<noteq> 0 then Some (rval, rpBufferUsedSize, rpBuffer)
                   else Some (TSS2_RC_SUCCESS, Some (ucast parameterSize), Some offset')
               | _ \<Rightarrow> None)
            else Some (TSS2_RC_SUCCESS,
                   Some (ucast (TPM20_Header_Out_responseSize (ctx_rsp_header ctx)) - offset), Some offset)
      | _ \<Rightarrow> Some (TSS2_SYS_RC_BAD_REFERENCE, rpBufferUsedSize, rpBuffer))"

section \<open>Parameter encryption\<close>

definition Tss2_Sys_GetDecryptParam ::
  "'t sysctx \<Rightarrow> size_t option \<Rightarrow> size_t option \<Rightarrow> (TSS2_RC \<times> size_t option \<times> size_t option) option" where
  "Tss2_Sys_GetDecryptParam sysContext decryptParamSize decryptParamBuffer =
     (case (sysContext, decryptParamSize, decryptParamBuffer) of
        (Some ctx, Some _, Some _) \<Rightarrow>
          if ctx_previousStage ctx \<noteq> CMD_STAGE_PREPARE
          then Some (TSS2_SYS_RC_BAD_SEQUENCE, decryptParamSize, decryptParamBuffer)
          else if \<not> ctx_decryptAllowed ctx
          then Some (TSS2_SYS_RC_NO_DECRYPT_PARAM, decryptParamSize, decryptParamBuffer)
          else
            (case header_get (ctx_cmdBuffer ctx) (ctx_cpBuffer ctx) :: UINT16 option of
               None \<Rightarrow> None
             | Some n \<Rightarrow> Some (TSS2_RC_SUCCESS, Some (ucast n), Some (ctx_cpBuffer ctx + 2)))
      | _ \<Rightarrow> Some (TSS2_SYS_RC_BAD_REFERENCE, decryptParamSize, decryptParamBuffer))"

text \<open>
  Pointers are compared by their distances; \<open>limit\<close> is \<open>maxCmdSize\<close>.  The lengths \<open>len\<close> are 32-bit
  numbers as in the code.
\<close>

definition insert_param :: "'t TSS2_SYS_CONTEXT_BLOB \<Rightarrow> size_t \<Rightarrow> (TSS2_RC \<times> 't TSS2_SYS_CONTEXT_BLOB) option" where
  "insert_param ctx param_size =
     (let src = ctx_cpBuffer ctx + 2;
          dst = ctx_cpBuffer ctx + ucast (ctx_cpBufferUsedSize ctx) + 2;
          len = ctx_cpBufferUsedSize ctx - 2;
          limit = ucast (ctx_maxCmdSize ctx) in
      if dst + ucast len > limit then Some (TSS2_SYS_RC_INSUFFICIENT_CONTEXT, ctx)
      else
        (case mem_read (ctx_cmdBuffer ctx) src (unat len) of
           None \<Rightarrow> None
         | Some xs \<Rightarrow>
             (case mem_write (ctx_cmdBuffer ctx) dst xs of
                None \<Rightarrow> None
              | Some b \<Rightarrow>
                  (case header_set (ctx_cpBuffer ctx) (ucast param_size :: UINT16)
                          (ctx\<lparr>ctx_cmdBuffer := b,
                            ctx_cpBufferUsedSize := ctx_cpBufferUsedSize ctx + ucast param_size\<rparr>) of
                     None \<Rightarrow> None
                   | Some c1 \<Rightarrow>
                       (case header_get (ctx_cmdBuffer c1) 2 :: UINT32 option of
                          None \<Rightarrow> None
                        | Some command_size \<Rightarrow>
                            (case header_set 2 (command_size + ucast param_size) c1 of
                               None \<Rightarrow> None
                             | Some c2 \<Rightarrow> Some (TSS2_RC_SUCCESS, c2)))))))"

definition Tss2_Sys_SetDecryptParam :: "'t sysctx \<Rightarrow> size_t \<Rightarrow> BYTE list option \<Rightarrow> (TSS2_RC \<times> 't sysctx) option" where
  "Tss2_Sys_SetDecryptParam sysContext param_size param_buffer =
     (case (param_buffer, sysContext) of
        (Some pb, Some ctx) \<Rightarrow>
          if ctx_previousStage ctx \<noteq> CMD_STAGE_PREPARE then Some (TSS2_SYS_RC_BAD_SEQUENCE, sysContext)
          else if \<not> ctx_decryptAllowed ctx then Some (TSS2_SYS_RC_NO_DECRYPT_PARAM, sysContext)
          else if param_size < 1 then Some (TSS2_SYS_RC_BAD_VALUE, sysContext)
          else
            (case GetCommandSize ctx of
               None \<Rightarrow> None
             | Some command_size \<Rightarrow>
                 if ucast command_size + param_size > ucast (ctx_maxCmdSize ctx)
                 then Some (TSS2_SYS_RC_INSUFFICIENT_CONTEXT, sysContext)
                 else
                   (case Tss2_Sys_GetDecryptParam sysContext (Some 0) (Some 0) of
                      Some (rval, Some curr_param_size, Some curr_param_buffer) \<Rightarrow>
                        if rval \<noteq> 0 then Some (rval, sysContext)
                        else
                          (case (if curr_param_size = 0 \<and> ctx_decryptNull ctx then insert_param ctx param_size
                                 else if curr_param_size \<noteq> param_size then Some (TSS2_SYS_RC_BAD_SIZE, ctx)
                                 else Some (TSS2_RC_SUCCESS, ctx)) of
                             None \<Rightarrow> None
                           | Some (r, c1) \<Rightarrow>
                               if r \<noteq> 0 then Some (r, Some c1)
                               else
                                 (case header_set (ctx_cpBuffer c1) (ucast param_size :: UINT16) c1 of
                                    None \<Rightarrow> None
                                  | Some c2 \<Rightarrow>
                                      let len = ucast param_size :: UINT32 in
                                      if curr_param_buffer + ucast len > ucast (ctx_maxCmdSize c2)
                                      then Some (TSS2_SYS_RC_INSUFFICIENT_CONTEXT, Some c2)
                                      else
                                        (case mem_read pb 0 (unat len) of
                                           None \<Rightarrow> None
                                         | Some xs \<Rightarrow>
                                             (case mem_write (ctx_cmdBuffer c2) curr_param_buffer xs of
                                                None \<Rightarrow> None
                                              | Some b \<Rightarrow> Some (TSS2_RC_SUCCESS, Some (c2\<lparr>ctx_cmdBuffer := b\<rparr>))))))
                    | _ \<Rightarrow> None))
      | _ \<Rightarrow> Some (TSS2_SYS_RC_BAD_REFERENCE, sysContext))"

definition Tss2_Sys_GetEncryptParam ::
  "'t sysctx \<Rightarrow> size_t option \<Rightarrow> size_t option \<Rightarrow> (TSS2_RC \<times> size_t option \<times> size_t option) option" where
  "Tss2_Sys_GetEncryptParam sysContext encryptParamSize encryptParamBuffer =
     (case (sysContext, encryptParamSize, encryptParamBuffer) of
        (Some ctx, Some _, Some _) \<Rightarrow>
          if \<not> ctx_encryptAllowed ctx
          then Some (TSS2_SYS_RC_NO_ENCRYPT_PARAM, encryptParamSize, encryptParamBuffer)
          else if ctx_previousStage ctx \<noteq> CMD_STAGE_RECEIVE_RESPONSE
          then Some (TSS2_SYS_RC_BAD_SEQUENCE, encryptParamSize, encryptParamBuffer)
          else
            (case header_get (ctx_cmdBuffer ctx) 0 :: UINT16 option of
               None \<Rightarrow> None
             | Some tag \<Rightarrow>
                 if tag = TPM2_ST_NO_SESSIONS
                 then Some (TSS2_SYS_RC_NO_ENCRYPT_PARAM, encryptParamSize, encryptParamBuffer)
                 else
                   let offset = of_nat sizeof_header + ucast (ctx_numResponseHandles ctx) * 4 + 4 in
                   (case header_get (ctx_cmdBuffer ctx) offset :: UINT16 option of
                      None \<Rightarrow> None
                    | Some n \<Rightarrow> Some (TSS2_RC_SUCCESS, Some (ucast n), Some (offset + 2))))
      | _ \<Rightarrow> Some (TSS2_SYS_RC_BAD_REFERENCE, encryptParamSize, encryptParamBuffer))"

definition Tss2_Sys_SetEncryptParam :: "'t sysctx \<Rightarrow> size_t \<Rightarrow> BYTE list option \<Rightarrow> (TSS2_RC \<times> 't sysctx) option" where
  "Tss2_Sys_SetEncryptParam sysContext encryptParamSize encryptParamBuffer =
     (case (encryptParamBuffer, sysContext) of
        (Some pb, Some ctx) \<Rightarrow>
          (case Tss2_Sys_GetEncryptParam sysContext (Some 0) (Some 0) of
             Some (rval, Some currEncryptParamSize, Some currEncryptParamBuffer) \<Rightarrow>
               if rval \<noteq> 0 then Some (rval, sysContext)
               else if encryptParamSize \<noteq> currEncryptParamSize then Some (TSS2_SYS_RC_BAD_SIZE, sysContext)
               else if currEncryptParamBuffer + encryptParamSize > ucast (ctx_maxCmdSize ctx)
               then Some (TSS2_SYS_RC_INSUFFICIENT_CONTEXT, sysContext)
               else
                 (case mem_read pb 0 (unat encryptParamSize) of
                    None \<Rightarrow> None
                  | Some xs \<Rightarrow>
                      (case mem_write (ctx_cmdBuffer ctx) currEncryptParamBuffer xs of
                         None \<Rightarrow> None
                       | Some b \<Rightarrow> Some (TSS2_RC_SUCCESS, Some (ctx\<lparr>ctx_cmdBuffer := b\<rparr>))))
           | _ \<Rightarrow> None)
      | _ \<Rightarrow> Some (TSS2_SYS_RC_BAD_REFERENCE, sysContext))"

end
