(* ===== verification/Sys_Execute.thy ===== *)
theory Sys_Execute
  imports Sys_Api
begin

text \<open>
  Authorizations and execution: \<open>Tss2_Sys_SetCmdAuths\<close> inserts the authorization area into a prepared
  command, \<open>Tss2_Sys_Execute\<close> sends it and receives the response, \<open>Tss2_Sys_GetRspAuths\<close> reads the
  authorization area of the response, and \<open>CommonOneCall\<close> chains them for the one-call functions.
\<close>

section \<open>Authorizations of the command\<close>

definition TSS2_SYS_MAX_SESSIONS :: nat where "TSS2_SYS_MAX_SESSIONS = 3"

record TSS2L_SYS_AUTH_COMMAND =
  AUTH_COMMAND_count :: UINT16
  AUTH_COMMAND_auths :: "TPMS_AUTH_COMMAND list"

record TSS2L_SYS_AUTH_RESPONSE =
  AUTH_RESPONSE_count :: UINT16
  AUTH_RESPONSE_auths :: "TPMS_AUTH_RESPONSE list"

text \<open>The two loops over \<open>auths[0], ..., auths[count - 1]\<close>.\<close>

fun auth_area_size :: "TPMS_AUTH_COMMAND list \<Rightarrow> UINT32 \<Rightarrow> UINT32" where
  "auth_area_size [] authSize = authSize"
| "auth_area_size (a # as) authSize =
     auth_area_size as
       (authSize + 4 + (2 + ucast (TPM2B_size (TPMS_AUTH_COMMAND_nonce a))) + 1 +
         (2 + ucast (TPM2B_size (TPMS_AUTH_COMMAND_hmac a))))"

fun marshal_auths ::
  "TPMS_AUTH_COMMAND list \<Rightarrow> buf \<Rightarrow> size_t \<Rightarrow> size_t \<Rightarrow> (TSS2_RC \<times> buf \<times> size_t) option" where
  "marshal_auths [] b bs authOffset = Some (TSS2_RC_SUCCESS, b, authOffset)"
| "marshal_auths (a # as) b bs authOffset =
     (case Tss2_MU_TPMS_AUTH_COMMAND_Marshal (Some a) (Some b) bs (Some authOffset) of
        Some (rval, Some b', Some o') \<Rightarrow> if rval \<noteq> 0 then Some (rval, b', o') else marshal_auths as b' bs o'
      | _ \<Rightarrow> None)"

text \<open>
  From the computed size of the area on: move the parameters down, clear the size field, marshal
  the size and the authorizations, and update pointer, command size and count, also when an
  authorization could not be marshalled.
\<close>

definition insert_auths ::
  "UINT32 \<Rightarrow> UINT32 \<Rightarrow> TPMS_AUTH_COMMAND list \<Rightarrow> 't TSS2_SYS_CONTEXT_BLOB \<Rightarrow> (TSS2_RC \<times> 't TSS2_SYS_CONTEXT_BLOB) option" where
  "insert_auths authSize newCmdSize auths ctx =
     (let down = ucast authSize + 4 :: size_t; cp = ctx_cpBuffer ctx in
      case mem_read (ctx_cmdBuffer ctx) cp (unat (ctx_cpBufferUsedSize ctx)) of
        None \<Rightarrow> None
      | Some xs \<Rightarrow>
          (case mem_write (ctx_cmdBuffer ctx) (cp + down) xs of
             None \<Rightarrow> None
           | Some b1 \<Rightarrow>
               (case mem_write b1 cp [0, 0, 0, 0] of
                  None \<Rightarrow> None
                | Some b2 \<Rightarrow>
                    (case Tss2_MU_UINT32_Marshal authSize (Some b2) (ucast newCmdSize) (Some cp) of
                       Some (rval, Some b3, Some authOffset) \<Rightarrow>
                         if rval \<noteq> 0 then Some (rval, ctx\<lparr>ctx_cmdBuffer := b3\<rparr>)
                         else
                           (case marshal_auths auths b3 (ucast newCmdSize) authOffset of
                              None \<Rightarrow> None
                            | Some (rval, b4, _) \<Rightarrow>
                                (case header_set 2 newCmdSize (ctx\<lparr>ctx_cmdBuffer := b4, ctx_cpBuffer := cp + down\<rparr>) of
                                   None \<Rightarrow> None
                                 | Some c \<Rightarrow> Some (rval, c\<lparr>ctx_authsCount := of_nat (length auths)\<rparr>)))
                     | _ \<Rightarrow> None))))"

definition Tss2_Sys_SetCmdAuths ::
  "'t sysctx \<Rightarrow> TSS2L_SYS_AUTH_COMMAND option \<Rightarrow> (TSS2_RC \<times> 't sysctx) option" where
  "Tss2_Sys_SetCmdAuths sysContext cmdAuthsArray =
     (case (sysContext, cmdAuthsArray) of
        (Some ctx, Some arr) \<Rightarrow>
          let count = AUTH_COMMAND_count arr; auths = take (unat count) (AUTH_COMMAND_auths arr) in
          if unat count > TSS2_SYS_MAX_SESSIONS \<or> count = 0 then Some (TSS2_SYS_RC_BAD_SIZE, sysContext)
          else if ctx_previousStage ctx \<noteq> CMD_STAGE_PREPARE then Some (TSS2_SYS_RC_BAD_SEQUENCE, sysContext)
          else if \<not> ctx_authAllowed ctx then Some (TSS2_RC_SUCCESS, sysContext)
          else if length auths < unat count then None
          else
            (case header_set 0 TPM2_ST_SESSIONS (ctx\<lparr>ctx_authsCount := 0\<rparr>) of
               None \<Rightarrow> None
             | Some c1 \<Rightarrow>
                 let authSize = auth_area_size auths 0 in
                 (case GetCommandSize c1 of
                    None \<Rightarrow> None
                  | Some commandSize \<Rightarrow>
                      let newCmdSize = authSize + 4 + commandSize in
                      if newCmdSize > ctx_maxCmdSize c1 then Some (TSS2_SYS_RC_INSUFFICIENT_CONTEXT, Some c1)
                      else if ctx_cpBufferUsedSize c1 > ctx_maxCmdSize c1
                      then Some (TSS2_SYS_RC_INSUFFICIENT_CONTEXT, Some c1)
                      else map_option (\<lambda>(rval, c). (rval, Some c)) (insert_auths authSize newCmdSize auths c1)))
      | _ \<Rightarrow> Some (TSS2_SYS_RC_BAD_REFERENCE, sysContext))"

section \<open>Authorizations of the response\<close>

text \<open>
  The validation loop, one pass per authorization: nonce, attributes and HMAC must end within
  \<open>responseSize\<close>.  \<open>is\<close> are the values the loop counter still takes.
\<close>

fun check_rsp_auths :: "nat list \<Rightarrow> nat \<Rightarrow> buf \<Rightarrow> size_t \<Rightarrow> size_t \<Rightarrow> TSS2_RC option" where
  "check_rsp_auths [] authsCount b responseSize offset_tmp = Some TSS2_RC_SUCCESS"
| "check_rsp_auths (i # is) authsCount b responseSize offset_tmp =
     (if offset_tmp > responseSize then Some TSS2_SYS_RC_MALFORMED_RESPONSE
      else
        (case header_get b offset_tmp :: UINT16 option of
           None \<Rightarrow> None
         | Some tmp \<Rightarrow>
             let offset_tmp = offset_tmp + 2 + ucast tmp in
             if offset_tmp > responseSize then Some TSS2_SYS_RC_MALFORMED_RESPONSE
             else
               let offset_tmp = offset_tmp + 1 in
               if offset_tmp > responseSize then Some TSS2_SYS_RC_MALFORMED_RESPONSE
               else
                 (case header_get b offset_tmp :: UINT16 option of
                    None \<Rightarrow> None
                  | Some tmp \<Rightarrow>
                      let offset_tmp = offset_tmp + 2 + ucast tmp in
                      if offset_tmp > responseSize then Some TSS2_SYS_RC_MALFORMED_RESPONSE
                      else if i + 1 > authsCount then Some TSS2_SYS_RC_INVALID_SESSIONS
                      else check_rsp_auths is authsCount b responseSize offset_tmp)))"

fun unmarshal_rsp_auths ::
  "nat list \<Rightarrow> buf \<Rightarrow> size_t \<Rightarrow> size_t \<Rightarrow> TPMS_AUTH_RESPONSE list \<Rightarrow> (TSS2_RC \<times> TPMS_AUTH_RESPONSE list) option" where
  "unmarshal_rsp_auths [] b bs offset auths = Some (TSS2_RC_SUCCESS, auths)"
| "unmarshal_rsp_auths (i # is) b bs offset auths =
     (if i < length auths then
        (case Tss2_MU_TPMS_AUTH_RESPONSE_Unmarshal (Some b) bs (Some offset) (Some (auths ! i)) of
           Some (rval, Some offset', Some a) \<Rightarrow>
             if rval \<noteq> 0 then Some (rval, auths[i := a])
             else unmarshal_rsp_auths is b bs offset' (auths[i := a])
         | _ \<Rightarrow> None)
      else None)"

definition Tss2_Sys_GetRspAuths ::
  "'t sysctx \<Rightarrow> TSS2L_SYS_AUTH_RESPONSE option \<Rightarrow> (TSS2_RC \<times> TSS2L_SYS_AUTH_RESPONSE option) option" where
  "Tss2_Sys_GetRspAuths sysContext rspAuthsArray =
     (case (sysContext, rspAuthsArray) of
        (Some ctx, Some arr) \<Rightarrow>
          if ctx_previousStage ctx \<noteq> CMD_STAGE_RECEIVE_RESPONSE \<or>
             TPM20_Header_Out_responseCode (ctx_rsp_header ctx) \<noteq> TSS2_RC_SUCCESS \<or> \<not> ctx_authAllowed ctx
          then Some (TSS2_SYS_RC_BAD_SEQUENCE, rspAuthsArray)
          else if TPM2_ST_SESSIONS \<noteq> TPM20_Header_Out_tag (ctx_rsp_header ctx)
          then Some (TSS2_SYS_RC_BAD_SEQUENCE, rspAuthsArray)
          else
            (case header_get (ctx_cmdBuffer ctx) (ctx_rspParamsSize ctx) :: UINT32 option of
               None \<Rightarrow> None
             | Some rspParamsSize \<Rightarrow>
                 let offset = of_nat sizeof_header + ucast (ctx_numResponseHandles ctx) * 4 + ucast rspParamsSize + 4;
                     n = unat (ctx_authsCount ctx) in
                 (case check_rsp_auths [0..<n] n (ctx_cmdBuffer ctx)
                         (ucast (TPM20_Header_Out_responseSize (ctx_rsp_header ctx))) offset of
                    None \<Rightarrow> None
                  | Some rval \<Rightarrow>
                      if rval \<noteq> 0 then Some (rval, rspAuthsArray)
                      else
                        (case unmarshal_rsp_auths [0..<n] (ctx_cmdBuffer ctx) (ucast (ctx_maxCmdSize ctx)) offset
                                (AUTH_RESPONSE_auths arr) of
                           None \<Rightarrow> None
                         | Some (rval, auths) \<Rightarrow>
                             Some (rval, Some (arr\<lparr>AUTH_RESPONSE_auths := auths,
                               AUTH_RESPONSE_count := ucast (ctx_authsCount ctx)\<rparr>)))))
      | _ \<Rightarrow> Some (TSS2_SYS_RC_BAD_REFERENCE, rspAuthsArray))"

section \<open>Execution\<close>

definition Tss2_Sys_ExecuteAsync :: "'t sysctx step" where
  "Tss2_Sys_ExecuteAsync sysContext =
     (case sysContext of
        None \<Rightarrow> Some (TSS2_SYS_RC_BAD_REFERENCE, sysContext)
      | Some ctx \<Rightarrow>
          if ctx_previousStage ctx \<noteq> CMD_STAGE_PREPARE then Some (TSS2_SYS_RC_BAD_SEQUENCE, sysContext)
          else
            (case GetCommandSize ctx of
               None \<Rightarrow> None
             | Some n \<Rightarrow>
                 (case Tss2_Tcti_Transmit (ctx_tctiContext ctx) (ucast n) (ctx_cmdBuffer ctx) of
                    None \<Rightarrow> None
                  | Some (rval, tcti) \<Rightarrow>
                      let c1 = ctx\<lparr>ctx_tctiContext := tcti\<rparr> in
                      if rval \<noteq> 0 then Some (rval, Some c1)
                      else
                        (case mem_read (ctx_cmdBuffer c1) 0 sizeof_header of
                           None \<Rightarrow> None
                         | Some h \<Rightarrow>
                             Some (rval, Some (c1\<lparr>ctx_cmd_header := h,
                               ctx_previousStage := CMD_STAGE_SEND_COMMAND\<rparr>))))))"

text \<open>The response header is unmarshalled member by member into \<open>ctx->rsp_header\<close>.\<close>

definition get_header ::
  "'a ufun \<Rightarrow> (TPM20_Header_Out \<Rightarrow> 'a) \<Rightarrow> ('a \<Rightarrow> TPM20_Header_Out \<Rightarrow> TPM20_Header_Out) \<Rightarrow> 't TSS2_SYS_CONTEXT_BLOB \<Rightarrow>
    (TSS2_RC \<times> 't TSS2_SYS_CONTEXT_BLOB) option" where
  "get_header U m upd ctx =
     (case U (Some (ctx_cmdBuffer ctx)) (ucast (ctx_maxCmdSize ctx)) (Some (ctx_nextData ctx))
             (Some (m (ctx_rsp_header ctx))) of
        Some (rval, Some n, Some x) \<Rightarrow>
          Some (rval, ctx\<lparr>ctx_nextData := n, ctx_rsp_header := upd x (ctx_rsp_header ctx)\<rparr>)
      | _ \<Rightarrow> None)"

definition read_rsp_header :: "'t TSS2_SYS_CONTEXT_BLOB \<Rightarrow> (TSS2_RC \<times> 't TSS2_SYS_CONTEXT_BLOB) option" where
  "read_rsp_header ctx =
     steps
       [get_header Tss2_MU_TPM2_ST_Unmarshal TPM20_Header_Out_tag (\<lambda>x. TPM20_Header_Out_tag_update (\<lambda>_. x)),
        \<lambda>c. let tag = TPM20_Header_Out_tag (ctx_rsp_header c) in
          Some (if tag \<noteq> TPM2_ST_SESSIONS \<and> tag \<noteq> TPM2_ST_NO_SESSIONS
                then if tag = TPM2_ST_RSP_COMMAND then TSS2_SYS_RC_GENERAL_FAILURE
                     else TSS2_SYS_RC_MALFORMED_RESPONSE
                else TSS2_RC_SUCCESS, c),
        get_header Tss2_MU_UINT32_Unmarshal TPM20_Header_Out_responseSize
          (\<lambda>x. TPM20_Header_Out_responseSize_update (\<lambda>_. x)),
        \<lambda>c. Some (if TPM20_Header_Out_responseSize (ctx_rsp_header c) > ctx_maxCmdSize c
                  then TSS2_SYS_RC_MALFORMED_RESPONSE else TSS2_RC_SUCCESS, c),
        get_header Tss2_MU_UINT32_Unmarshal TPM20_Header_Out_responseCode
          (\<lambda>x. TPM20_Header_Out_responseCode_update (\<lambda>_. x))]
       (ctx\<lparr>ctx_nextData := 0\<rparr>)"

definition finish_response :: "'t TSS2_SYS_CONTEXT_BLOB \<Rightarrow> (TSS2_RC \<times> 't TSS2_SYS_CONTEXT_BLOB) option" where
  "finish_response ctx =
     (let rval = TPM20_Header_Out_responseCode (ctx_rsp_header ctx) in
      if TPM20_Header_Out_responseSize (ctx_rsp_header ctx) < of_nat sizeof_header
      then Some (TSS2_SYS_RC_INSUFFICIENT_RESPONSE, ctx\<lparr>ctx_previousStage := CMD_STAGE_PREPARE\<rparr>)
      else if rval \<noteq> 0 \<and> rval \<noteq> TPM2_RC_INITIALIZE then
        (case mem_write (ctx_cmdBuffer ctx) 0 (ctx_cmd_header ctx) of
           None \<Rightarrow> None
         | Some b \<Rightarrow> Some (rval, ctx\<lparr>ctx_previousStage := CMD_STAGE_PREPARE, ctx_cmdBuffer := b\<rparr>))
      else Some (rval, ctx\<lparr>ctx_previousStage := CMD_STAGE_RECEIVE_RESPONSE\<rparr>))"

definition Tss2_Sys_ExecuteFinish :: "'t sysctx \<Rightarrow> INT32 \<Rightarrow> (TSS2_RC \<times> 't sysctx) option" where
  "Tss2_Sys_ExecuteFinish sysContext timeout =
     (case sysContext of
        None \<Rightarrow> Some (TSS2_SYS_RC_BAD_REFERENCE, sysContext)
      | Some ctx \<Rightarrow>
          if ctx_previousStage ctx \<noteq> CMD_STAGE_SEND_COMMAND then Some (TSS2_SYS_RC_BAD_SEQUENCE, sysContext)
          else
            (case Tss2_Tcti_Receive (ctx_tctiContext ctx) 0 None timeout of
               (rval, response_size, _, tcti) \<Rightarrow>
                 let c1 = ctx\<lparr>ctx_tctiContext := tcti\<rparr> in
                 if rval \<noteq> 0 then Some (rval, Some c1)
                 else if response_size < of_nat sizeof_header
                 then Some (TSS2_SYS_RC_INSUFFICIENT_RESPONSE, Some (c1\<lparr>ctx_previousStage := CMD_STAGE_PREPARE\<rparr>))
                 else if response_size > ucast (ctx_maxCmdSize c1)
                 then Some (TSS2_SYS_RC_INSUFFICIENT_CONTEXT, Some (c1\<lparr>ctx_previousStage := CMD_STAGE_PREPARE\<rparr>))
                 else
                   (case Tss2_Tcti_Receive (ctx_tctiContext c1) response_size (Some (ctx_cmdBuffer c1)) timeout of
                      (rval, _, Some b, tcti') \<Rightarrow>
                        let c2 = c1\<lparr>ctx_tctiContext := tcti', ctx_cmdBuffer := b\<rparr> in
                        if rval = TSS2_TCTI_RC_INSUFFICIENT_BUFFER
                        then Some (TSS2_SYS_RC_INSUFFICIENT_CONTEXT, Some c2)
                        else if rval \<noteq> 0 then Some (rval, Some c2)
                        else
                          (case read_rsp_header c2 of
                             None \<Rightarrow> None
                           | Some (rval, c3) \<Rightarrow>
                               if rval \<noteq> 0 then Some (rval, Some c3)
                               else map_option (\<lambda>(r, c). (r, Some c)) (finish_response c3))
                    | _ \<Rightarrow> None)))"

definition Tss2_Sys_Execute :: "'t sysctx step" where
  "Tss2_Sys_Execute sysContext =
     (case sysContext of
        None \<Rightarrow> Some (TSS2_SYS_RC_BAD_REFERENCE, sysContext)
      | Some _ \<Rightarrow>
          steps [Tss2_Sys_ExecuteAsync, \<lambda>ctx. Tss2_Sys_ExecuteFinish ctx TSS2_TCTI_TIMEOUT_BLOCK] sysContext)"

text \<open>
  The one-call functions work on the context and the array for the response authorizations.
  \<open>rsp_header.responseCode\<close> is not zero only when \<open>Tss2_Sys_Execute\<close> returned it.
\<close>

definition CommonOneCall ::
  "TSS2L_SYS_AUTH_COMMAND option \<Rightarrow> ('t sysctx \<times> TSS2L_SYS_AUTH_RESPONSE option) step" where
  "CommonOneCall cmdAuthsArray =
     (\<lambda>(ctx, rspAuthsArray).
        (case steps
           [\<lambda>ctx. if Option.is_none cmdAuthsArray then Some (TSS2_RC_SUCCESS, ctx)
                  else Tss2_Sys_SetCmdAuths ctx cmdAuthsArray,
            Tss2_Sys_Execute,
            \<lambda>ctx. (case ctx of None \<Rightarrow> None
                   | Some c \<Rightarrow> Some (TPM20_Header_Out_responseCode (ctx_rsp_header c), ctx))] ctx of
           None \<Rightarrow> None
         | Some (rval, ctx') \<Rightarrow>
             if rval \<noteq> 0 then Some (rval, ctx', rspAuthsArray)
             else
               (case ctx' of
                  None \<Rightarrow> None
                | Some c \<Rightarrow>
                    (case header_get (ctx_cmdBuffer c) 0 :: UINT16 option of
                       None \<Rightarrow> None
                     | Some tag \<Rightarrow>
                         if tag = TPM2_ST_SESSIONS \<and> \<not> Option.is_none rspAuthsArray then
                           map_option (\<lambda>(r, arr). (r, ctx', arr)) (Tss2_Sys_GetRspAuths ctx' rspAuthsArray)
                         else Some (rval, ctx', rspAuthsArray)))))"

end
