(* ===== verification/Sys_Contract.thy ===== *)
theory Sys_Contract
  imports Sys_Execute
begin

text \<open>
  Contracts of the command functions.  \<open>emits\<close> says what a step of a \<open>_Prepare\<close> function appends to the
  command; the locale \<open>sys_prepare\<close> says what a whole \<open>_Prepare\<close> function does.
\<close>

section \<open>Contexts\<close>

definition ctx_ok :: "'t TSS2_SYS_CONTEXT_BLOB \<Rightarrow> bool" where
  "ctx_ok c \<longleftrightarrow> sizeof_header \<le> unat (ctx_maxCmdSize c) \<and> unat (ctx_maxCmdSize c) \<le> length (ctx_cmdBuffer c) \<and>
     length (ctx_cmd_header c) = sizeof_header"

definition may_prepare :: "'t TSS2_SYS_CONTEXT_BLOB \<Rightarrow> bool" where
  "may_prepare c \<longleftrightarrow>
     ctx_previousStage c \<in> {CMD_STAGE_INITIALIZE, CMD_STAGE_PREPARE, CMD_STAGE_RECEIVE_RESPONSE}"

lemma unat_32_less: "unat (w :: UINT32) < 2 ^ 32"
  using unsigned_less [of w] by simp

lemma unat_ucast_32_64 [simp]: "unat (ucast (w :: UINT32) :: size_t) = unat w"
  using unat_32_less [of w] by (simp add: unsigned_ucast_eq take_bit_nat_eq_self)

lemma ucast_of_nat_32: "n < 2 ^ 32 \<Longrightarrow> (ucast (of_nat n :: size_t) :: UINT32) = of_nat n"
  by (simp add: unsigned_of_nat take_bit_nat_eq_self)

lemma patch_patch_commute:
  assumes "i + length xs \<le> j" "j + length ys \<le> length b"
  shows "patch (patch b j ys) i xs = patch (patch b i xs) j ys"
  using assms by (intro nth_equalityI) (auto simp: patch_nth)

lemma ctx_ok_update [simp]:
  "ctx_ok (c\<lparr>ctx_nextData := n\<rparr>) = ctx_ok c" "ctx_ok (c\<lparr>ctx_decryptNull := d\<rparr>) = ctx_ok c"
  "ctx_ok (c\<lparr>ctx_decryptAllowed := d\<rparr>) = ctx_ok c" "ctx_ok (c\<lparr>ctx_encryptAllowed := d\<rparr>) = ctx_ok c"
  "ctx_ok (c\<lparr>ctx_authAllowed := d\<rparr>) = ctx_ok c" "ctx_ok (c\<lparr>ctx_previousStage := st\<rparr>) = ctx_ok c"
  "ctx_ok (c\<lparr>ctx_commandCode := cc\<rparr>) = ctx_ok c" "ctx_ok (c\<lparr>ctx_cpBuffer := n\<rparr>) = ctx_ok c"
  "ctx_ok (c\<lparr>ctx_rspParamsSize := n\<rparr>) = ctx_ok c" "ctx_ok (c\<lparr>ctx_numResponseHandles := k\<rparr>) = ctx_ok c"
  "ctx_ok (c\<lparr>ctx_cpBufferUsedSize := u\<rparr>) = ctx_ok c" "ctx_ok (c\<lparr>ctx_authsCount := k\<rparr>) = ctx_ok c"
  "ctx_ok (c\<lparr>ctx_rsp_header := h\<rparr>) = ctx_ok c" "ctx_ok (c\<lparr>ctx_tctiContext := t\<rparr>) = ctx_ok c"
  by (simp_all add: ctx_ok_def)

section \<open>What a step appends\<close>

definition filled :: "BYTE list \<Rightarrow> bool \<Rightarrow> 't TSS2_SYS_CONTEXT_BLOB \<Rightarrow> 't TSS2_SYS_CONTEXT_BLOB" where
  "filled w null c =
     c\<lparr>ctx_cmdBuffer := patch (ctx_cmdBuffer c) (unat (ctx_nextData c)) w,
       ctx_nextData := ctx_nextData c + of_nat (length w),
       ctx_decryptNull := (ctx_decryptNull c \<or> null)\<rparr>"

definition spoiled :: "'t TSS2_SYS_CONTEXT_BLOB \<Rightarrow> 't TSS2_SYS_CONTEXT_BLOB \<Rightarrow> bool" where
  "spoiled c c' \<longleftrightarrow>
     (\<exists>b n d. c' = c\<lparr>ctx_cmdBuffer := b, ctx_nextData := n, ctx_decryptNull := d\<rparr> \<and>
        untouched (ctx_cmdBuffer c) b (ctx_nextData c) (ucast (ctx_maxCmdSize c)))"

definition fits_ctx :: "'t TSS2_SYS_CONTEXT_BLOB \<Rightarrow> nat \<Rightarrow> bool" where
  "fits_ctx c n \<longleftrightarrow> fits (ucast (ctx_maxCmdSize c)) (ctx_nextData c) n"

text \<open>
  \<open>emits op src valid wire null\<close>: for arguments a caller may pass (\<open>src\<close>) the step never leaves its
  memory; it appends \<open>wire\<close> to the command if the arguments are \<open>valid\<close> and there is room, and fails
  otherwise.  \<open>null\<close> tells whether it marks the first parameter as missing.
\<close>

definition emits :: "'t sysctx step \<Rightarrow> bool \<Rightarrow> bool \<Rightarrow> BYTE list \<Rightarrow> bool \<Rightarrow> bool" where
  "emits op src valid wire null \<longleftrightarrow> (valid \<longrightarrow> src) \<and>
     (\<forall>c. unat (ctx_maxCmdSize c) \<le> length (ctx_cmdBuffer c) \<longrightarrow> src \<longrightarrow>
        (if valid \<and> fits_ctx c (length wire) then op (Some c) = Some (0, Some (filled wire null c))
         else \<exists>rc c'. op (Some c) = Some (rc, Some c') \<and> rc \<noteq> 0 \<and> spoiled c c'))"

lemma emitsD:
  assumes "emits op src valid wire null" "unat (ctx_maxCmdSize c) \<le> length (ctx_cmdBuffer c)" src
  shows "if valid \<and> fits_ctx c (length wire) then op (Some c) = Some (0, Some (filled wire null c))
    else \<exists>rc c'. op (Some c) = Some (rc, Some c') \<and> rc \<noteq> 0 \<and> spoiled c c'"
  using assms unfolding emits_def by blast

lemma filled_sel [simp]:
  "ctx_maxCmdSize (filled w d c) = ctx_maxCmdSize c"
  "ctx_nextData (filled w d c) = ctx_nextData c + of_nat (length w)"
  by (simp_all add: filled_def)

lemma fits_ctx_room: "fits_ctx c n \<Longrightarrow> n \<noteq> 0 \<Longrightarrow> unat (ctx_nextData c) + n \<le> unat (ctx_maxCmdSize c)"
  by (simp add: fits_ctx_def fits_def)

lemma length_filled:
  assumes "unat (ctx_maxCmdSize c) \<le> length (ctx_cmdBuffer c)" "fits_ctx c (length w)"
  shows "length (ctx_cmdBuffer (filled w d c)) = length (ctx_cmdBuffer c)"
  using assms fits_ctx_room [OF assms(2)] by (cases "w = []") (auto simp: filled_def)

lemma filled_Nil [simp]: "filled [] False c = c"
  by (simp add: filled_def)

lemma fits_ctx_add:
  "fits_ctx c (m + n) \<longleftrightarrow> fits_ctx c m \<and> fits (ucast (ctx_maxCmdSize c)) (ctx_nextData c + of_nat m) n"
  by (simp add: fits_ctx_def fits_add)

lemma filled_filled:
  assumes "unat (ctx_maxCmdSize c) \<le> length (ctx_cmdBuffer c)" "fits_ctx c (length v + length w)"
  shows "filled w d' (filled v d c) = filled (v @ w) (d \<or> d') c"
  using assms patch_patch_fits [of "ucast (ctx_maxCmdSize c)" "ctx_nextData c" v w "ctx_cmdBuffer c"]
  by (simp add: filled_def fits_ctx_def add.assoc disj_assoc)

lemma spoiled_filled:
  assumes "spoiled (filled v d c) c'" "unat (ctx_maxCmdSize c) \<le> length (ctx_cmdBuffer c)" "fits_ctx c (length v)"
  shows "spoiled c c'"
proof -
  from assms(1) obtain b n e where c': "c' = (filled v d c)\<lparr>ctx_cmdBuffer := b, ctx_nextData := n, ctx_decryptNull := e\<rparr>"
    and u: "untouched (patch (ctx_cmdBuffer c) (unat (ctx_nextData c)) v) b
      (ctx_nextData c + of_nat (length v)) (ucast (ctx_maxCmdSize c))"
    unfolding spoiled_def by (auto simp: filled_def)
  have f: "fits (ucast (ctx_maxCmdSize c)) (ctx_nextData c) (length v)" using assms(3) by (simp add: fits_ctx_def)
  have "untouched (ctx_cmdBuffer c) b (ctx_nextData c) (ucast (ctx_maxCmdSize c))"
    using untouched_trans [OF untouched_patch [OF f] untouched_later [OF u f]] assms(2) by simp
  then show ?thesis unfolding spoiled_def c' by (intro exI [of _ b] exI [of _ n] exI [of _ e]) (simp add: filled_def)
qed

lemma emits_skip: "emits (steps []) True True [] False"
  by (simp add: emits_def fits_ctx_def)

lemma emits_Cons:
  assumes op: "emits op s1 v1 w1 n1" and ops: "emits (steps ops) s2 v2 w2 n2"
  shows "emits (steps (op # ops)) (s1 \<and> s2) (v1 \<and> v2) (w1 @ w2) (n1 \<or> n2)"
  unfolding emits_def
proof (intro conjI allI impI)
  show "s1" "s2" if "v1 \<and> v2" using that op ops by (auto simp: emits_def)
  fix c :: "'a TSS2_SYS_CONTEXT_BLOB"
  assume len: "unat (ctx_maxCmdSize c) \<le> length (ctx_cmdBuffer c)" and s: "s1 \<and> s2"
  show "if (v1 \<and> v2) \<and> fits_ctx c (length (w1 @ w2))
    then steps (op # ops) (Some c) = Some (0, Some (filled (w1 @ w2) (n1 \<or> n2) c))
    else \<exists>rc c'. steps (op # ops) (Some c) = Some (rc, Some c') \<and> rc \<noteq> 0 \<and> spoiled c c'"
  proof (cases "v1 \<and> fits_ctx c (length w1)")
    case False
    with op len s obtain rc c' where "op (Some c) = Some (rc, Some c')" "rc \<noteq> 0" "spoiled c c'"
      unfolding emits_def by metis
    with False show ?thesis by (auto simp: fits_ctx_add)
  next
    case True
    with op len s have 1: "op (Some c) = Some (0, Some (filled w1 n1 c))" unfolding emits_def by metis
    have len': "unat (ctx_maxCmdSize (filled w1 n1 c)) \<le> length (ctx_cmdBuffer (filled w1 n1 c))"
      using len True by (simp add: length_filled)
    have fit: "fits_ctx c (length (w1 @ w2)) \<longleftrightarrow> fits_ctx (filled w1 n1 c) (length w2)"
      using True by (simp add: fits_ctx_add) (simp add: fits_ctx_def)
    show ?thesis
    proof (cases "v2 \<and> fits_ctx (filled w1 n1 c) (length w2)")
      case v2: True
      with ops len' s have "steps ops (Some (filled w1 n1 c)) = Some (0, Some (filled w2 n2 (filled w1 n1 c)))"
        unfolding emits_def by metis
      with 1 v2 True fit len show ?thesis by (simp add: filled_filled)
    next
      case v2: False
      with ops len' s obtain rc c' where "steps ops (Some (filled w1 n1 c)) = Some (rc, Some c')" "rc \<noteq> 0"
        "spoiled (filled w1 n1 c) c'" unfolding emits_def by metis
      with 1 v2 True fit len show ?thesis by (auto dest: spoiled_filled)
    qed
  qed
qed

text \<open>
  The arguments.  A value or a structure passed by address is marshalled (\<open>put\<close>); of an optional
  parameter a null pointer stands for an empty sized buffer.
\<close>

lemma emits_put:
  assumes "marshaler F src valid wire lim"
  shows "emits (put (F x)) (src x) (valid x) (wire x) False"
  unfolding emits_def
proof (intro conjI allI impI)
  show "src x" if "valid x" using marshaler.valid_src [OF assms that] .
  fix c :: "'b TSS2_SYS_CONTEXT_BLOB"
  assume len: "unat (ctx_maxCmdSize c) \<le> length (ctx_cmdBuffer c)" and s: "src x"
  let ?bs = "ucast (ctx_maxCmdSize c) :: size_t"
  have bs: "unat ?bs \<le> length (ctx_cmdBuffer c)" using len by simp
  from marshaler.marshal_total [OF assms s bs, of "ctx_nextData c"] obtain rc b' off' where
    r: "F x (Some (ctx_cmdBuffer c)) ?bs (Some (ctx_nextData c)) = Some (rc, Some b', Some off')"
      "untouched (ctx_cmdBuffer c) b' (ctx_nextData c) ?bs"
      "rc = 0 \<longrightarrow> valid x \<and> fits ?bs (ctx_nextData c) (length (wire x))" by blast
  show "if valid x \<and> fits_ctx c (length (wire x)) then put (F x) (Some c) = Some (0, Some (filled (wire x) False c))
    else \<exists>rc c'. put (F x) (Some c) = Some (rc, Some c') \<and> rc \<noteq> 0 \<and> spoiled c c'"
  proof (cases "valid x \<and> fits_ctx c (length (wire x))")
    case True
    then show ?thesis
      using marshaler.marshal_fit [OF assms _ bs, of x "ctx_nextData c"]
      by (simp add: put_def filled_def fits_ctx_def)
  next
    case False
    with r have "rc \<noteq> 0" by (auto simp: fits_ctx_def)
    moreover have "spoiled c (c\<lparr>ctx_cmdBuffer := b', ctx_nextData := off'\<rparr>)"
      unfolding spoiled_def using r(2)
      by (intro exI [of _ b'] exI [of _ off'] exI [of _ "ctx_decryptNull c"]) simp
    ultimately show ?thesis using False r(1) by (auto simp: put_def)
  qed
qed

definition null_rejects :: "('a option \<Rightarrow> buf option \<Rightarrow> size_t \<Rightarrow> size_t option \<Rightarrow> mres) \<Rightarrow> bool" where
  "null_rejects M \<longleftrightarrow> (\<forall>b bs off. \<exists>rc. rc \<noteq> 0 \<and> M None (Some b) bs (Some off) = Some (rc, Some b, Some off))"

definition ptr_valid :: "('a \<Rightarrow> bool) \<Rightarrow> 'a option \<Rightarrow> bool" where
  "ptr_valid valid p = (case p of None \<Rightarrow> False | Some x \<Rightarrow> valid x)"

definition ptr_wire :: "('a \<Rightarrow> BYTE list) \<Rightarrow> 'a option \<Rightarrow> BYTE list" where
  "ptr_wire wire p = (case p of None \<Rightarrow> [] | Some x \<Rightarrow> wire x)"

definition opt_valid :: "('a \<Rightarrow> bool) \<Rightarrow> 'a option \<Rightarrow> bool" where
  "opt_valid valid p = (case p of None \<Rightarrow> True | Some x \<Rightarrow> valid x)"

definition opt_wire :: "('a \<Rightarrow> BYTE list) \<Rightarrow> 'a option \<Rightarrow> BYTE list" where
  "opt_wire wire p = (case p of None \<Rightarrow> [0, 0] | Some x \<Rightarrow> wire x)"

lemma arg_simps [simp]:
  "ptr_valid v None = False" "ptr_valid v (Some x) = v x" "ptr_wire w None = []" "ptr_wire w (Some x) = w x"
  "opt_valid v None = True" "opt_valid v (Some x) = v x" "opt_wire w None = [0, 0]" "opt_wire w (Some x) = w x"
  by (simp_all add: ptr_valid_def ptr_wire_def opt_valid_def opt_wire_def)

lemma spoiled_refl: "spoiled c c"
  unfolding spoiled_def
  by (intro exI [of _ "ctx_cmdBuffer c"] exI [of _ "ctx_nextData c"] exI [of _ "ctx_decryptNull c"]) simp

lemma emits_ptr:
  assumes "marshaler (\<lambda>x. M (Some x)) src valid wire lim" "null_rejects M"
  shows "emits (put (M p)) (opt_valid src p) (ptr_valid valid p) (ptr_wire wire p) False"
proof (cases p)
  case None
  have "\<exists>rc c'. put (M None) (Some c) = Some (rc, Some c') \<and> rc \<noteq> 0 \<and> spoiled c c'" for c :: "'b TSS2_SYS_CONTEXT_BLOB"
  proof -
    obtain rc where "rc \<noteq> 0" "M None (Some (ctx_cmdBuffer c)) (ucast (ctx_maxCmdSize c)) (Some (ctx_nextData c)) =
        Some (rc, Some (ctx_cmdBuffer c), Some (ctx_nextData c))"
      using assms(2) unfolding null_rejects_def by blast
    then show ?thesis using spoiled_refl [of c] by (auto simp: put_def)
  qed
  with None show ?thesis by (simp add: emits_def)
next
  case (Some x)
  then show ?thesis using emits_put [OF assms(1), of x] by simp
qed

lemma be_bytes_0_16 [simp]: "be_bytes (0 :: UINT16) = [0, 0]"
  by code_simp

lemma emits_empty: "emits (put (Tss2_MU_UINT16_Marshal 0)) True True [0, 0] False"
  using emits_put [OF mu_UINT16.marshaler_axioms, of 0] by simp

lemma emits_empty_null:
  "emits (steps [assign (ctx_decryptNull_update (\<lambda>_. True)), put (Tss2_MU_UINT16_Marshal 0)]) True True [0, 0] True"
  unfolding emits_def
proof (intro conjI allI impI)
  fix c :: "'a TSS2_SYS_CONTEXT_BLOB"
  assume len: "unat (ctx_maxCmdSize c) \<le> length (ctx_cmdBuffer c)"
  let ?c = "c\<lparr>ctx_decryptNull := True\<rparr>"
  have e: "if fits_ctx ?c 2 then put (Tss2_MU_UINT16_Marshal 0) (Some ?c) = Some (0, Some (filled [0, 0] False ?c))
    else \<exists>rc c'. put (Tss2_MU_UINT16_Marshal 0) (Some ?c) = Some (rc, Some c') \<and> rc \<noteq> 0 \<and> spoiled ?c c'"
    using emitsD [OF emits_empty, of ?c] len by (simp add: numeral_2_eq_2)
  moreover have "spoiled c c'" if "spoiled ?c c'" for c'
    using that by (fastforce simp: spoiled_def)
  moreover have "filled [0, 0] False ?c = filled [0, 0] True c" "fits_ctx ?c 2 = fits_ctx c 2"
    by (simp_all add: filled_def fits_ctx_def)
  ultimately show "if True \<and> fits_ctx c (length [0 :: BYTE, 0])
    then steps [assign (ctx_decryptNull_update (\<lambda>_. True)), put (Tss2_MU_UINT16_Marshal 0)] (Some c) =
      Some (0, Some (filled [0, 0] True c))
    else \<exists>rc c'. steps [assign (ctx_decryptNull_update (\<lambda>_. True)), put (Tss2_MU_UINT16_Marshal 0)] (Some c) =
      Some (rc, Some c') \<and> rc \<noteq> 0 \<and> spoiled c c'"
    by (auto simp: assign_def numeral_2_eq_2)
qed simp

lemma emits_opt:
  assumes "marshaler (\<lambda>x. M (Some x)) src valid wire lim"
  shows "emits (if Option.is_none p then put (Tss2_MU_UINT16_Marshal 0) else put (M p))
    (opt_valid src p) (opt_valid valid p) (opt_wire wire p) False"
  using emits_empty emits_put [OF assms, of "the p"] by (cases p) simp_all

lemma emits_opt_null:
  assumes "marshaler (\<lambda>x. M (Some x)) src valid wire lim"
  shows "emits (if Option.is_none p
      then steps [assign (ctx_decryptNull_update (\<lambda>_. True)), put (Tss2_MU_UINT16_Marshal 0)] else put (M p))
    (opt_valid src p) (opt_valid valid p) (opt_wire wire p) (Option.is_none p)"
  using emits_empty_null emits_put [OF assms, of "the p"] by (cases p) simp_all

section \<open>A whole _Prepare function\<close>

definition prepared ::
  "UINT32 \<Rightarrow> BYTE list \<Rightarrow> BYTE list \<Rightarrow> bool \<Rightarrow> bool \<Rightarrow> bool \<Rightarrow> bool \<Rightarrow> 't TSS2_SYS_CONTEXT_BLOB \<Rightarrow> 't TSS2_SYS_CONTEXT_BLOB" where
  "prepared cc handles params null dec enc auth c =
     c\<lparr>ctx_cmdBuffer := patch (ctx_cmdBuffer c) 0
          (be_bytes TPM2_ST_NO_SESSIONS @
           be_bytes (of_nat (sizeof_header + length handles + length params) :: UINT32) @
           be_bytes cc @ handles @ params),
       ctx_commandCode := cc,
       ctx_cpBufferUsedSize := of_nat (length params),
       ctx_cpBuffer := of_nat (sizeof_header + length handles),
       ctx_rspParamsSize := of_nat sizeof_header + of_nat (GetNumResponseHandles cc) * 4,
       ctx_previousStage := CMD_STAGE_PREPARE,
       ctx_numResponseHandles := of_nat (GetNumResponseHandles cc),
       ctx_decryptAllowed := dec, ctx_encryptAllowed := enc, ctx_decryptNull := null, ctx_authAllowed := auth,
       ctx_nextData := of_nat (sizeof_header + length handles + length params)\<rparr>"

definition begun :: "UINT32 \<Rightarrow> 't TSS2_SYS_CONTEXT_BLOB \<Rightarrow> 't TSS2_SYS_CONTEXT_BLOB" where
  "begun cc c =
     c\<lparr>ctx_cmdBuffer := patch (patch (ctx_cmdBuffer c) 0 (be_bytes TPM2_ST_NO_SESSIONS)) 6 (be_bytes cc),
       ctx_commandCode := cc,
       ctx_cpBuffer := of_nat (sizeof_header + 4 * GetNumCommandHandles cc),
       ctx_rspParamsSize := of_nat sizeof_header + of_nat (GetNumResponseHandles cc) * 4,
       ctx_numResponseHandles := of_nat (GetNumResponseHandles cc),
       ctx_decryptAllowed := False, ctx_encryptAllowed := False, ctx_decryptNull := False,
       ctx_authAllowed := False, ctx_nextData := of_nat sizeof_header\<rparr>"

lemma CommonPreparePrologue_ok:
  assumes "ctx_ok c" "may_prepare c"
  shows "CommonPreparePrologue cc (Some c) = Some (0, Some (begun cc c))"
proof -
  have m: "10 \<le> unat (ctx_maxCmdSize c)" "unat (ctx_maxCmdSize c) \<le> length (ctx_cmdBuffer c)"
    using assms(1) by (simp_all add: ctx_ok_def)
  let ?c = "(InitSysContextFields c)\<lparr>ctx_nextData := 0\<rparr>"
  have "put (Tss2_MU_TPM2_ST_Marshal TPM2_ST_NO_SESSIONS) (Some ?c) =
      Some (0, Some (filled (be_bytes TPM2_ST_NO_SESSIONS) False ?c))"
    using emitsD [OF emits_put [OF mu_TPM2_ST.marshaler_axioms, of TPM2_ST_NO_SESSIONS], of ?c] m
    by (simp add: fits_ctx_def fits_def InitSysContextFields_def)
  then show ?thesis
    using assms(2) m
    by (cases c) (auto simp: CommonPreparePrologue_def CopyCommandHeader_def may_prepare_def InitSysContextFields_def
        filled_def header_set_def mem_write_def begun_def Let_def)
qed

lemma CommonPreparePrologue_stage:
  "\<not> may_prepare c \<Longrightarrow>
   CommonPreparePrologue cc (Some c) = Some (TSS2_SYS_RC_BAD_SEQUENCE, Some (InitSysContextFields c))"
  by (simp add: CommonPreparePrologue_def may_prepare_def InitSysContextFields_def)

lemma header_patch:
  assumes "length tag = 2" "length sz = 4" "length code = 4" "10 + length w \<le> length b"
  shows "patch (patch (patch (patch b 0 tag) 6 code) 10 w) 2 sz = patch b 0 (tag @ sz @ code @ w)"
proof -
  have "patch (patch (patch (patch b 0 tag) 6 code) 10 w) 2 sz =
      patch (patch (patch (patch b 0 tag) 2 sz) 6 code) 10 w"
    using assms patch_patch_commute [of 2 sz 10 w "patch (patch b 0 tag) 6 code"]
      patch_patch_commute [of 2 sz 6 code "patch b 0 tag"] by simp
  also have "\<dots> = patch b 0 (tag @ sz @ code @ w)"
    using assms patch_append [of 0 tag sz b] patch_append [of 0 "tag @ sz" code b]
      patch_append [of 0 "tag @ sz @ code" w b] by (simp add: numeral_2_eq_2)
  finally show ?thesis .
qed

lemma CommonPrepareEpilogue_ok:
  assumes "ctx_ok c" "length handles = 4 * GetNumCommandHandles cc"
    and "sizeof_header + length handles + length params \<le> unat (ctx_maxCmdSize c)"
  shows "CommonPrepareEpilogue (Some (flags dec enc auth (filled (handles @ params) null (begun cc c)))) =
    Some (0, Some (prepared cc handles params null dec enc auth c))"
proof -
  let ?n = "10 + length handles + length params"
  have n: "?n < 2 ^ 32" "?n \<le> length (ctx_cmdBuffer c)" using assms(1,3) unat_32_less [of "ctx_maxCmdSize c"] by (simp_all add: ctx_ok_def)
  have nxt: "(10 :: size_t) + of_nat (length handles + length params) = of_nat ?n" by simp
  have used: "(of_nat ?n :: size_t) - of_nat (10 + length handles) = of_nat (length params)" by simp
  have "patch (patch (patch (patch (ctx_cmdBuffer c) 0 (be_bytes TPM2_ST_NO_SESSIONS)) 6 (be_bytes cc)) 10 (handles @ params)) 2
      (be_bytes (of_nat ?n :: UINT32)) =
    patch (ctx_cmdBuffer c) 0 (be_bytes TPM2_ST_NO_SESSIONS @ be_bytes (of_nat ?n :: UINT32) @ be_bytes cc @ handles @ params)"
    using n(2) by (intro header_patch) simp_all
  then show ?thesis
    using n used ucast_of_nat_32 [of ?n] ucast_of_nat_32 [of "length params"]
    by (cases c) (simp add: CommonPrepareEpilogue_def header_set_def mem_write_def flags_def filled_def begun_def
        prepared_def assms(2) add.assoc)
qed

lemma ctx_ok_begun: "ctx_ok c \<Longrightarrow> ctx_ok (begun cc c)"
  by (simp add: ctx_ok_def begun_def)

lemma ctx_ok_spoiled: "spoiled c c' \<Longrightarrow> ctx_ok c \<Longrightarrow> ctx_ok c'"
  by (auto simp: spoiled_def ctx_ok_def untouched_def)

lemma fits_begun:
  "ctx_ok c \<Longrightarrow> fits_ctx (begun cc c) n \<longleftrightarrow> sizeof_header + n \<le> unat (ctx_maxCmdSize c)"
  by (auto simp: fits_ctx_def fits_def begun_def ctx_ok_def)

lemma steps_append:
  "steps (fs @ gs) s = (case steps fs s of None \<Rightarrow> None
     | Some (rval, s') \<Rightarrow> if rval \<noteq> 0 then Some (rval, s') else steps gs s')"
  by (induction fs arbitrary: s) (auto split: option.splits)

text \<open>The outcome of a \<open>_Prepare\<close> function as one statement.\<close>

definition prepare_outcome ::
  "UINT32 \<Rightarrow> bool \<Rightarrow> bool \<Rightarrow> BYTE list \<Rightarrow> BYTE list \<Rightarrow> bool \<Rightarrow> bool \<Rightarrow> bool \<Rightarrow> bool \<Rightarrow>
    't TSS2_SYS_CONTEXT_BLOB \<Rightarrow> (TSS2_RC \<times> 't sysctx) option \<Rightarrow> bool" where
  "prepare_outcome cc src valid handles params null dec enc auth c res \<longleftrightarrow>
     (ctx_ok c \<longrightarrow> may_prepare c \<longrightarrow> src \<longrightarrow>
        (if valid \<and> sizeof_header + length handles + length params \<le> unat (ctx_maxCmdSize c)
         then res = Some (0, Some (prepared cc handles params null dec enc auth c))
         else \<exists>rc c'. res = Some (rc, Some c') \<and> rc \<noteq> 0 \<and> spoiled (begun cc c) c'))"

lemma prepare_steps:
  assumes "emits (steps body) src valid (handles @ params) null"
    and "length handles = 4 * GetNumCommandHandles cc"
  shows "prepare_outcome cc src valid handles params null dec enc auth c
    (steps (CommonPreparePrologue cc # body @ [assign (flags dec enc auth), CommonPrepareEpilogue]) (Some c))"
  unfolding prepare_outcome_def
proof (intro impI)
  assume c: "ctx_ok c" "may_prepare c" and s: src
  let ?b = "begun cc c"
  have len: "unat (ctx_maxCmdSize ?b) \<le> length (ctx_cmdBuffer ?b)"
    using ctx_ok_begun [OF c(1), of cc] by (simp add: ctx_ok_def)
  note e = emitsD [OF assms(1) len s]
  show "if valid \<and> sizeof_header + length handles + length params \<le> unat (ctx_maxCmdSize c)
    then steps (CommonPreparePrologue cc # body @ [assign (flags dec enc auth), CommonPrepareEpilogue]) (Some c) =
      Some (0, Some (prepared cc handles params null dec enc auth c))
    else \<exists>rc c'. steps (CommonPreparePrologue cc # body @ [assign (flags dec enc auth), CommonPrepareEpilogue]) (Some c) =
      Some (rc, Some c') \<and> rc \<noteq> 0 \<and> spoiled ?b c'"
  proof (cases "valid \<and> sizeof_header + length handles + length params \<le> unat (ctx_maxCmdSize c)")
    case True
    with e have "steps body (Some ?b) = Some (0, Some (filled (handles @ params) null ?b))"
      using c(1) by (simp add: fits_begun add.assoc)
    with True show ?thesis
      using CommonPrepareEpilogue_ok [OF c(1) assms(2), of params dec enc auth null]
      by (simp add: CommonPreparePrologue_ok [OF c] steps_append assign_def)
  next
    case False
    with e c(1) have "\<exists>rc c'. steps body (Some ?b) = Some (rc, Some c') \<and> rc \<noteq> 0 \<and> spoiled ?b c'"
      by (auto simp: fits_begun add.assoc)
    with False show ?thesis by (auto simp: CommonPreparePrologue_ok [OF c] steps_append)
  qed
qed

text \<open>
  The contract: without a context, with a null pointer where none is allowed, and in a stage in
  which a command is under way the function refuses; otherwise it builds exactly the command
  \<open>header, handles, params\<close> or fails, and it never leaves the buffer.
\<close>

locale sys_prepare =
  fixes P :: "'t sysctx step"
    and cc :: UINT32
    and nulls src valid :: bool
    and handles params :: "BYTE list"
    and null dec enc auth :: bool
  assumes no_context: "P None = Some (TSS2_SYS_RC_BAD_REFERENCE, None)"
    and null_argument: "nulls \<Longrightarrow> P (Some c) = Some (TSS2_SYS_RC_BAD_REFERENCE, Some c)"
    and wrong_stage: "\<not> nulls \<Longrightarrow> \<not> may_prepare c \<Longrightarrow>
      P (Some c) = Some (TSS2_SYS_RC_BAD_SEQUENCE, Some (InitSysContextFields c))"
    and outcome: "\<not> nulls \<Longrightarrow> prepare_outcome cc src valid handles params null dec enc auth c (P (Some c))"
    and handle_count: "length handles = 4 * GetNumCommandHandles cc"
    and valid_src: "valid \<Longrightarrow> src"
begin

abbreviation cmd_size :: nat where
  "cmd_size \<equiv> sizeof_header + length handles + length params"

lemma prepare_ok:
  assumes "\<not> nulls" "ctx_ok c" "may_prepare c" valid "cmd_size \<le> unat (ctx_maxCmdSize c)"
  shows "P (Some c) = Some (0, Some (prepared cc handles params null dec enc auth c))"
  using outcome [OF assms(1), of c] assms valid_src by (simp add: prepare_outcome_def)

lemma prepare_fail:
  assumes "\<not> nulls" "ctx_ok c" "may_prepare c" src "\<not> (valid \<and> cmd_size \<le> unat (ctx_maxCmdSize c))"
  shows "\<exists>rc c'. P (Some c) = Some (rc, Some c') \<and> rc \<noteq> 0 \<and> spoiled (begun cc c) c'"
  using outcome [OF assms(1), of c] assms(2-) unfolding prepare_outcome_def by presburger

lemma prepare_total:
  assumes "ctx_ok c" src
  shows "\<exists>rc c'. P (Some c) = Some (rc, Some c') \<and> ctx_ok c' \<and>
    (rc = 0 \<longleftrightarrow> \<not> nulls \<and> may_prepare c \<and> valid \<and> cmd_size \<le> unat (ctx_maxCmdSize c)) \<and>
    (rc = 0 \<longrightarrow> c' = prepared cc handles params null dec enc auth c) \<and>
    (rc \<noteq> 0 \<longrightarrow> ctx_previousStage c' = ctx_previousStage c) \<and> ctx_tctiContext c' = ctx_tctiContext c \<and>
    length (ctx_cmdBuffer c') = length (ctx_cmdBuffer c)"
proof (cases "\<not> nulls \<and> may_prepare c")
  case False
  show ?thesis
  proof (cases nulls)
    case True
    then show ?thesis using assms(1) null_argument [of c] rc_nonzero(6) by blast
  next
    case nn: False
    with False have "P (Some c) = Some (TSS2_SYS_RC_BAD_SEQUENCE, Some (InitSysContextFields c))" by (simp add: wrong_stage)
    moreover have "ctx_ok (InitSysContextFields c)" "ctx_previousStage (InitSysContextFields c) = ctx_previousStage c"
      "ctx_tctiContext (InitSysContextFields c) = ctx_tctiContext c" "ctx_cmdBuffer (InitSysContextFields c) = ctx_cmdBuffer c"
      using assms(1) by (simp_all add: InitSysContextFields_def)
    ultimately show ?thesis using False sys_rc_nonzero(3) by auto
  qed
next
  case True
  show ?thesis
  proof (cases "valid \<and> cmd_size \<le> unat (ctx_maxCmdSize c)")
    case ok: True
    then have "ctx_ok (prepared cc handles params null dec enc auth c)"
      "ctx_tctiContext (prepared cc handles params null dec enc auth c) = ctx_tctiContext c"
      "length (ctx_cmdBuffer (prepared cc handles params null dec enc auth c)) = length (ctx_cmdBuffer c)"
      using assms(1) by (simp_all add: ctx_ok_def prepared_def)
    moreover have "P (Some c) = Some (0, Some (prepared cc handles params null dec enc auth c))"
      using prepare_ok [of c] ok True assms(1) by blast
    ultimately show ?thesis using ok True by blast
  next
    case False
    then obtain rc c' where r: "P (Some c) = Some (rc, Some c')" "rc \<noteq> 0" "spoiled (begun cc c) c'"
      using prepare_fail [of c] True assms by blast
    have "ctx_previousStage c' = ctx_previousStage c" "ctx_tctiContext c' = ctx_tctiContext c"
      "length (ctx_cmdBuffer c') = length (ctx_cmdBuffer c)"
      using r(3) assms(1) by (auto simp: spoiled_def begun_def untouched_def ctx_ok_def)
    moreover have "ctx_ok c'" using ctx_ok_spoiled [OF r(3) ctx_ok_begun [OF assms(1)]] .
    ultimately show ?thesis using False r(1,2) by blast
  qed
qed

end

text \<open>The rule by which the command functions are shown to satisfy the contract.\<close>

lemma sys_prepareI:
  assumes "emits (steps body) src' valid' wire' null'" "wire' = handles @ params"
    and "src' = src" "valid' = valid" "null' = null" "length handles = 4 * GetNumCommandHandles cc"
    and P: "\<And>ctx. P ctx = steps (null_check nulls # CommonPreparePrologue cc #
      body @ [assign (flags dec enc auth), CommonPrepareEpilogue]) ctx"
  shows "sys_prepare P cc (True \<in> set nulls) src valid handles params null dec enc auth"
proof
  have e: "emits (steps body) src valid (handles @ params) null" using assms(1-5) by simp
  show "P None = Some (TSS2_SYS_RC_BAD_REFERENCE, None)" by (simp add: P null_check_def)
  show "P (Some c) = Some (TSS2_SYS_RC_BAD_REFERENCE, Some c)" if "True \<in> set nulls" for c
    using that by (simp add: P null_check_def)
  show "P (Some c) = Some (TSS2_SYS_RC_BAD_SEQUENCE, Some (InitSysContextFields c))"
    if "True \<notin> set nulls" "\<not> may_prepare c" for c
    using that by (simp add: P null_check_def CommonPreparePrologue_stage)
  show "prepare_outcome cc src valid handles params null dec enc auth c (P (Some c))" if "True \<notin> set nulls" for c
    using that prepare_steps [OF e assms(6), of dec enc auth c] by (simp add: P null_check_def)
  show "length handles = 4 * GetNumCommandHandles cc" by (rule assms(6))
  show src if valid using e that by (simp add: emits_def)
qed

lemma steps_ret_0 [simp]: "steps (ret 0 # fs) = steps fs"
  by (rule ext) (simp add: ret_def)

lemma steps_single [simp]: "steps [f] = f"
  by (rule ext) (auto split: option.splits)

lemma steps_drop_ret:
  "steps (f # ret 0 # fs) = steps (f # fs)" "steps (f # g # ret 0 # fs) = steps (f # g # fs)"
  by (rule ext; auto simp: ret_def split: option.splits)+

end
