(* ===== verification/Sys_Complete.thy ===== *)
theory Sys_Complete
  imports Sys_Contract
begin

text \<open>
  The contract of the \<open>_Complete\<close> functions: they read the handles and parameters of a response into
  the output parameters of the caller.
\<close>

section \<open>Reading outputs\<close>

text \<open>
  \<open>reads ops wt valid wire\<close>: the steps never leave the buffer and keep the outputs well typed, and
  if the wire format of valid values lies at the current place they succeed, move behind it and
  leave values of that wire format.
\<close>

definition reads :: "('t sysctx \<times> 'o) step list \<Rightarrow> ('o \<Rightarrow> bool) \<Rightarrow> ('o \<Rightarrow> bool) \<Rightarrow> ('o \<Rightarrow> BYTE list) \<Rightarrow> bool" where
  "reads ops wt valid wire \<longleftrightarrow>
     (\<forall>c r. unat (ctx_maxCmdSize c) \<le> length (ctx_cmdBuffer c) \<longrightarrow> wt r \<longrightarrow>
        (\<exists>rc n r'. steps ops (Some c, r) = Some (rc, Some (c\<lparr>ctx_nextData := n\<rparr>), r') \<and> wt r') \<and>
        (\<forall>x. valid x \<longrightarrow> holds_at (ctx_cmdBuffer c) (ucast (ctx_maxCmdSize c)) (ctx_nextData c) (wire x) \<longrightarrow>
           (\<exists>r'. steps ops (Some c, r) =
              Some (0, Some (c\<lparr>ctx_nextData := ctx_nextData c + of_nat (length (wire x))\<rparr>), r') \<and> wire r' = wire x)))"

lemma readsD:
  assumes "reads ops wt valid wire" "unat (ctx_maxCmdSize c) \<le> length (ctx_cmdBuffer c)" "wt r"
  shows "\<exists>rc n r'. steps ops (Some c, r) = Some (rc, Some (c\<lparr>ctx_nextData := n\<rparr>), r') \<and> wt r'"
    and "valid x \<Longrightarrow> holds_at (ctx_cmdBuffer c) (ucast (ctx_maxCmdSize c)) (ctx_nextData c) (wire x) \<Longrightarrow>
      \<exists>r'. steps ops (Some c, r) =
        Some (0, Some (c\<lparr>ctx_nextData := ctx_nextData c + of_nat (length (wire x))\<rparr>), r') \<and> wire r' = wire x"
  using assms unfolding reads_def by blast+

lemma reads_Nil: "reads [] (\<lambda>_. True) (\<lambda>_. True) (\<lambda>_. [])"
  unfolding reads_def
proof (intro allI impI conjI)
  fix c :: "'a TSS2_SYS_CONTEXT_BLOB" and r :: 'b
  show "\<exists>rc n r'. steps [] (Some c, r) = Some (rc, Some (c\<lparr>ctx_nextData := n\<rparr>), r') \<and> True"
    by (intro exI [of _ 0] exI [of _ "ctx_nextData c"] exI [of _ r]) simp
  show "\<exists>r'. steps [] (Some c, r) = Some (0, Some (c\<lparr>ctx_nextData := ctx_nextData c + of_nat (length [])\<rparr>), r') \<and> [] = []"
    by (intro exI [of _ r]) simp
qed

lemma steps_skip_out:
  "steps (map skip_out ops) (ctx, d, r) =
     (case steps ops (ctx, r) of None \<Rightarrow> None | Some (rval, ctx', r') \<Rightarrow> Some (rval, ctx', d, r'))"
  by (induction ops arbitrary: ctx r) (auto simp: skip_out_def split: option.splits)

lemma get_out_Some:
  assumes "unmarshaler U wt valid wire" "unat (ctx_maxCmdSize c) \<le> length (ctx_cmdBuffer c)" "wt d"
  shows "\<exists>rc n d'. get_out U (Some c, Some d, r) = Some (rc, Some (c\<lparr>ctx_nextData := n\<rparr>), Some d', r) \<and> wt d' \<and>
      (\<forall>x. valid x \<longrightarrow> holds_at (ctx_cmdBuffer c) (ucast (ctx_maxCmdSize c)) (ctx_nextData c) (wire x) \<longrightarrow>
         rc = 0 \<and> n = ctx_nextData c + of_nat (length (wire x)) \<and> wire d' = wire x)"
proof -
  let ?bs = "ucast (ctx_maxCmdSize c) :: size_t"
  have bs: "unat ?bs \<le> length (ctx_cmdBuffer c)" using assms(2) by simp
  from unmarshaler.unmarshal_total [OF assms(1,3) bs, of "ctx_nextData c"] obtain rc n d' where
    u: "U (Some (ctx_cmdBuffer c)) ?bs (Some (ctx_nextData c)) (Some d) = Some (rc, Some n, Some d')" "wt d'" by blast
  moreover have "rc = 0 \<and> n = ctx_nextData c + of_nat (length (wire x)) \<and> wire d' = wire x"
    if "valid x" "holds_at (ctx_cmdBuffer c) ?bs (ctx_nextData c) (wire x)" for x
    using unmarshaler.unmarshal_complete [OF assms(1,3) bs that] u by auto
  ultimately show ?thesis by (auto simp: get_out_def)
qed

lemma reads_Cons:
  assumes U: "unmarshaler U wt valid wire" and ops: "reads ops wt' valid' wire'"
  shows "reads (get_out U # map skip_out ops) (\<lambda>(d, r). ptr_valid wt d \<and> wt' r)
    (\<lambda>(d, r). ptr_valid valid d \<and> valid' r) (\<lambda>(d, r). ptr_wire wire d @ wire' r)"
  unfolding reads_def
proof (intro allI impI, goal_cases)
  case (1 c r)
  then obtain d s where r: "r = (Some d, s)" and w: "wt d" "wt' s" by (cases r; cases "fst r") auto
  note len = 1(1)
  from get_out_Some [OF U len w(1), of s] obtain rc n d' where
    g: "get_out U (Some c, Some d, s) = Some (rc, Some (c\<lparr>ctx_nextData := n\<rparr>), Some d', s)" "wt d'"
      "\<And>x. valid x \<Longrightarrow> holds_at (ctx_cmdBuffer c) (ucast (ctx_maxCmdSize c)) (ctx_nextData c) (wire x) \<Longrightarrow>
        rc = 0 \<and> n = ctx_nextData c + of_nat (length (wire x)) \<and> wire d' = wire x" by blast
  let ?c = "c\<lparr>ctx_nextData := n\<rparr>"
  have len': "unat (ctx_maxCmdSize ?c) \<le> length (ctx_cmdBuffer ?c)" using len by simp
  note more = readsD [OF ops len' w(2)]
  show ?case
  proof (intro conjI allI impI)
    from more(1) obtain rc2 n2 s' where "steps ops (Some ?c, s) = Some (rc2, Some (?c\<lparr>ctx_nextData := n2\<rparr>), s')" "wt' s'"
      by blast
    then show "\<exists>rc n r'. steps (get_out U # map skip_out ops) (Some c, r) = Some (rc, Some (c\<lparr>ctx_nextData := n\<rparr>), r') \<and>
        (case r' of (d, r) \<Rightarrow> ptr_valid wt d \<and> wt' r)"
      using g(1,2) w by (cases "rc = 0") (auto simp: r steps_skip_out)
  next
    fix x
    assume v: "case x of (d, r) \<Rightarrow> ptr_valid valid d \<and> valid' r"
      and h: "holds_at (ctx_cmdBuffer c) (ucast (ctx_maxCmdSize c)) (ctx_nextData c)
        (case x of (d, r) \<Rightarrow> ptr_wire wire d @ wire' r)"
    from v obtain y z where x: "x = (Some y, z)" and vy: "valid y" and vz: "valid' z"
      by (cases x; cases "fst x") auto
    have "holds_at (ctx_cmdBuffer c) (ucast (ctx_maxCmdSize c)) (ctx_nextData c) (wire y)"
      and hz: "holds_at (ctx_cmdBuffer c) (ucast (ctx_maxCmdSize c)) (ctx_nextData c + of_nat (length (wire y))) (wire' z)"
      using h len by (auto simp: x holds_at_append)
    with g(3) [OF vy] have r0: "rc = 0" "n = ctx_nextData c + of_nat (length (wire y))" "wire d' = wire y" by auto
    from more(2) [OF vz] hz r0(2) obtain s' where
      "steps ops (Some ?c, s) = Some (0, Some (?c\<lparr>ctx_nextData := n + of_nat (length (wire' z))\<rparr>), s')" "wire' s' = wire' z"
      by auto
    with g(1) r0 show "\<exists>r'. steps (get_out U # map skip_out ops) (Some c, r) =
        Some (0, Some (c\<lparr>ctx_nextData := ctx_nextData c + of_nat (length (case x of (d, r) \<Rightarrow> ptr_wire wire d @ wire' r))\<rparr>), r') \<and>
        (case r' of (d, r) \<Rightarrow> ptr_wire wire d @ wire' r) = (case x of (d, r) \<Rightarrow> ptr_wire wire d @ wire' r)"
      by (auto simp: r x steps_skip_out add.assoc)
  qed
qed

section \<open>The response\<close>

text \<open>The header members of the response in the buffer.\<close>

definition rsp_tag :: "'t TSS2_SYS_CONTEXT_BLOB \<Rightarrow> UINT16" where
  "rsp_tag c = word_of (rev (seg (ctx_cmdBuffer c) 0 2))"

definition rsp_size :: "'t TSS2_SYS_CONTEXT_BLOB \<Rightarrow> UINT32" where
  "rsp_size c = word_of (rev (seg (ctx_cmdBuffer c) 2 4))"

text \<open>Where the response parameters start: behind the handles and, with sessions, the parameter size.\<close>

definition params_at :: "'t TSS2_SYS_CONTEXT_BLOB \<Rightarrow> size_t" where
  "params_at c = ctx_rspParamsSize c + (if rsp_tag c = TPM2_ST_SESSIONS then 4 else 0)"

lemma header_get_eq:
  assumes "unat i + LENGTH('a) div 8 \<le> length b" "8 dvd LENGTH('a)"
  shows "header_get b i = Some (word_of (rev (seg b (unat i) (LENGTH('a) div 8))) :: 'a::len word)"
proof -
  have "LENGTH('a) = 8 * length (seg b (unat i) (LENGTH('a) div 8))" using assms by simp
  from BE_TO_HOST_word_of [OF this] show ?thesis using assms by (simp add: header_get_def mem_read_def)
qed

lemma TPM2_ST_at_0:
  assumes "ctx_ok c"
  shows "Tss2_MU_TPM2_ST_Unmarshal (Some (ctx_cmdBuffer c)) (ucast (ctx_maxCmdSize c)) (Some 0) (Some d) =
    Some (0, Some 2, Some (rsp_tag c))"
proof -
  let ?x = "rsp_tag c"
  have m: "10 \<le> unat (ctx_maxCmdSize c)" "unat (ctx_maxCmdSize c) \<le> length (ctx_cmdBuffer c)"
    using assms by (simp_all add: ctx_ok_def)
  have "be_bytes ?x = seg (ctx_cmdBuffer c) 0 2"
    unfolding rsp_tag_def using m by (intro be_bytes_word_of) simp
  then have "holds_at (ctx_cmdBuffer c) (ucast (ctx_maxCmdSize c)) 0 (be_bytes ?x)"
    using m by (simp add: holds_at_def fits_def numeral_2_eq_2)
  from mu_TPM2_ST.unmarshal_complete [OF _ _ _ this, of d] m show ?thesis
    by (auto simp: be_bytes_inject)
qed

lemma CommonComplete_eq:
  assumes "ctx_ok c"
  shows "CommonComplete (Some c) =
    (if rsp_size c > ctx_maxCmdSize c then Some (TSS2_SYS_RC_MALFORMED_RESPONSE, Some c)
     else if ctx_previousStage c \<noteq> CMD_STAGE_RECEIVE_RESPONSE then Some (TSS2_SYS_RC_BAD_SEQUENCE, Some c)
     else if rsp_tag c = TPM2_ST_SESSIONS \<and> \<not> unat (ctx_rspParamsSize c) + 4 \<le> unat (ctx_maxCmdSize c)
     then Some (TSS2_MU_RC_INSUFFICIENT_BUFFER, Some (c\<lparr>ctx_nextData := ctx_rspParamsSize c\<rparr>))
     else Some (0, Some (c\<lparr>ctx_nextData := params_at c\<rparr>)))"
proof -
  have m: "10 \<le> unat (ctx_maxCmdSize c)" "unat (ctx_maxCmdSize c) \<le> length (ctx_cmdBuffer c)"
    using assms by (simp_all add: ctx_ok_def)
  have "header_get (ctx_cmdBuffer c) 2 = Some (rsp_size c)"
    using m by (subst header_get_eq) (simp_all add: rsp_size_def)
  moreover have "Tss2_MU_UINT32_Unmarshal (Some (ctx_cmdBuffer c)) (ucast (ctx_maxCmdSize c)) (Some n) None =
      (if unat n + 4 \<le> unat (ctx_maxCmdSize c) then Some (0, Some (n + 4), None)
       else Some (TSS2_MU_RC_INSUFFICIENT_BUFFER, Some n, None))" for n
    by (simp add: Tss2_MU_UINT32_Unmarshal_def BASE_UNMARSHAL_def lacks_room_iff Let_def)
  ultimately show ?thesis
    by (simp add: CommonComplete_def TPM2_ST_at_0 [OF assms] params_at_def Let_def)
qed

lemma CommonComplete_cases:
  assumes "ctx_ok c"
  obtains "CommonComplete (Some c) = Some (0, Some (c\<lparr>ctx_nextData := params_at c\<rparr>))"
      "ctx_previousStage c = CMD_STAGE_RECEIVE_RESPONSE"
    | rc n where "CommonComplete (Some c) = Some (rc, Some (c\<lparr>ctx_nextData := n\<rparr>))" "rc \<noteq> 0"
proof -
  have c: "c\<lparr>ctx_nextData := ctx_nextData c\<rparr> = c" by simp
  consider "rsp_size c > ctx_maxCmdSize c"
    | "\<not> rsp_size c > ctx_maxCmdSize c" "ctx_previousStage c \<noteq> CMD_STAGE_RECEIVE_RESPONSE"
    | "\<not> rsp_size c > ctx_maxCmdSize c" "ctx_previousStage c = CMD_STAGE_RECEIVE_RESPONSE"
      "rsp_tag c = TPM2_ST_SESSIONS \<and> \<not> unat (ctx_rspParamsSize c) + 4 \<le> unat (ctx_maxCmdSize c)"
    | "\<not> rsp_size c > ctx_maxCmdSize c" "ctx_previousStage c = CMD_STAGE_RECEIVE_RESPONSE"
      "\<not> (rsp_tag c = TPM2_ST_SESSIONS \<and> \<not> unat (ctx_rspParamsSize c) + 4 \<le> unat (ctx_maxCmdSize c))"
    by blast
  then show thesis
  proof cases
    case 1
    with that(2) [of TSS2_SYS_RC_MALFORMED_RESPONSE "ctx_nextData c"] show ?thesis
      unfolding CommonComplete_eq [OF assms] c by simp
  next
    case 2
    with that(2) [of TSS2_SYS_RC_BAD_SEQUENCE "ctx_nextData c"] show ?thesis
      unfolding CommonComplete_eq [OF assms] c by simp
  next
    case 3
    with that(2) [of TSS2_MU_RC_INSUFFICIENT_BUFFER "ctx_rspParamsSize c"] show ?thesis
      unfolding CommonComplete_eq [OF assms] by simp
  next
    case 4
    with that(1) show ?thesis unfolding CommonComplete_eq [OF assms] by presburger
  qed
qed

text \<open>
  \<open>response_holds c handles params\<close>: a response to the command of \<open>c\<close> has been received whose handle
  area is \<open>handles\<close> and whose parameter area starts with \<open>params\<close>.
\<close>

definition response_holds :: "'t TSS2_SYS_CONTEXT_BLOB \<Rightarrow> BYTE list \<Rightarrow> BYTE list \<Rightarrow> bool" where
  "response_holds c handles params \<longleftrightarrow> ctx_ok c \<and> rsp_size c \<le> ctx_maxCmdSize c \<and>
     ctx_previousStage c = CMD_STAGE_RECEIVE_RESPONSE \<and> ctx_nextData c = of_nat sizeof_header \<and>
     (rsp_tag c = TPM2_ST_SESSIONS \<longrightarrow> unat (ctx_rspParamsSize c) + 4 \<le> unat (ctx_maxCmdSize c)) \<and>
     holds_at (ctx_cmdBuffer c) (ucast (ctx_maxCmdSize c)) (of_nat sizeof_header) handles \<and>
     holds_at (ctx_cmdBuffer c) (ucast (ctx_maxCmdSize c)) (params_at c) params"

locale sys_complete =
  fixes C :: "('t sysctx \<times> 'o) step"
    and cc :: UINT32
    and wt valid :: "'o \<Rightarrow> bool"
    and handles params :: "'o \<Rightarrow> BYTE list"
  assumes no_context: "C (None, outs) = Some (TSS2_SYS_RC_BAD_REFERENCE, None, outs)"
    and complete_total: "ctx_ok c \<Longrightarrow> wt outs \<Longrightarrow>
      \<exists>rc n outs'. C (Some c, outs) = Some (rc, Some (c\<lparr>ctx_nextData := n\<rparr>), outs') \<and> wt outs' \<and>
        (ctx_previousStage c \<noteq> CMD_STAGE_RECEIVE_RESPONSE \<longrightarrow> rc \<noteq> 0)"
    and complete_delivers: "valid x \<Longrightarrow> wt outs \<Longrightarrow> response_holds c (handles x) (params x) \<Longrightarrow>
      \<exists>c' outs'. C (Some c, outs) = Some (0, Some c', outs') \<and> handles outs' = handles x \<and> params outs' = params x"
    and handle_count: "valid x \<Longrightarrow> length (handles x) = 4 * GetNumResponseHandles cc"

lemma on_fst_eq [simp]:
  "on_fst op (s, r) = (case op s of None \<Rightarrow> None | Some (rval, s') \<Rightarrow> Some (rval, s', r))"
  by (simp add: on_fst_def)

lemma null_check_eq [simp]:
  "null_check nulls None = Some (TSS2_SYS_RC_BAD_REFERENCE, None)"
  "null_check nulls (Some c) = Some (if True \<in> set nulls then TSS2_SYS_RC_BAD_REFERENCE else 0, Some c)"
  by (simp_all add: null_check_def)

lemma after_CommonComplete:
  assumes ops: "reads ops wt valid wire" and c: "ctx_ok c" and w: "wt outs"
  shows "\<exists>rc n outs'. steps (on_fst CommonComplete # ops) (Some c, outs) = Some (rc, Some (c\<lparr>ctx_nextData := n\<rparr>), outs') \<and>
      wt outs' \<and> (ctx_previousStage c \<noteq> CMD_STAGE_RECEIVE_RESPONSE \<longrightarrow> rc \<noteq> 0)"
    and "valid x \<Longrightarrow> response_holds (c\<lparr>ctx_nextData := of_nat sizeof_header\<rparr>) h (wire x) \<Longrightarrow>
      \<exists>c' outs'. steps (on_fst CommonComplete # ops) (Some c, outs) = Some (0, Some c', outs') \<and> wire outs' = wire x"
proof -
  let ?c = "c\<lparr>ctx_nextData := params_at c\<rparr>"
  have len: "unat (ctx_maxCmdSize ?c) \<le> length (ctx_cmdBuffer ?c)" using c by (simp add: ctx_ok_def)
  note more = readsD [OF ops len w]
  from more(1) obtain rc n outs' where r: "steps ops (Some ?c, outs) = Some (rc, Some (?c\<lparr>ctx_nextData := n\<rparr>), outs')" "wt outs'"
    by blast
  show "\<exists>rc n outs'. steps (on_fst CommonComplete # ops) (Some c, outs) = Some (rc, Some (c\<lparr>ctx_nextData := n\<rparr>), outs') \<and>
      wt outs' \<and> (ctx_previousStage c \<noteq> CMD_STAGE_RECEIVE_RESPONSE \<longrightarrow> rc \<noteq> 0)"
    by (rule CommonComplete_cases [OF c]) (use r w in auto)
  assume v: "valid x" and h: "response_holds (c\<lparr>ctx_nextData := of_nat sizeof_header\<rparr>) h (wire x)"
  then have "CommonComplete (Some c) = Some (0, Some ?c)"
    and "holds_at (ctx_cmdBuffer ?c) (ucast (ctx_maxCmdSize ?c)) (ctx_nextData ?c) (wire x)"
    using c by (auto simp: CommonComplete_eq response_holds_def rsp_size_def rsp_tag_def params_at_def)
  with more(2) [OF v] show "\<exists>c' outs'. steps (on_fst CommonComplete # ops) (Some c, outs) = Some (0, Some c', outs') \<and>
      wire outs' = wire x" by auto
qed

lemma sys_complete_plain:
  assumes ops: "reads ops wt valid wire" and nr: "GetNumResponseHandles cc = 0"
  shows "sys_complete (steps (on_fst (null_check []) # on_fst CommonComplete # ops)) cc wt valid (\<lambda>_. []) wire"
proof
  fix outs x and c :: "'a TSS2_SYS_CONTEXT_BLOB"
  show "steps (on_fst (null_check []) # on_fst CommonComplete # ops) (None, outs) =
      Some (TSS2_SYS_RC_BAD_REFERENCE, None, outs)" by simp
  show "length ([] :: BYTE list) = 4 * GetNumResponseHandles cc" using nr by simp
  show "\<exists>rc n outs'. steps (on_fst (null_check []) # on_fst CommonComplete # ops) (Some c, outs) =
      Some (rc, Some (c\<lparr>ctx_nextData := n\<rparr>), outs') \<and> wt outs' \<and> (ctx_previousStage c \<noteq> CMD_STAGE_RECEIVE_RESPONSE \<longrightarrow> rc \<noteq> 0)"
    if "ctx_ok c" "wt outs" using after_CommonComplete(1) [OF ops that] by simp
  show "\<exists>c' outs'. steps (on_fst (null_check []) # on_fst CommonComplete # ops) (Some c, outs) = Some (0, Some c', outs') \<and>
      [] = [] \<and> wire outs' = wire x"
    if "valid x" "wt outs" "response_holds c [] (wire x)"
  proof -
    have "ctx_ok c" "c\<lparr>ctx_nextData := of_nat sizeof_header\<rparr> = c" using that(3) by (simp_all add: response_holds_def)
    with after_CommonComplete(2) [OF ops _ that(2,1), of c "[]"] that(3) show ?thesis by simp
  qed
qed

lemma sys_complete_handle:
  fixes ops :: "('t sysctx \<times> 'o) step list"
  assumes ops: "reads ops wt valid wire" and nr: "GetNumResponseHandles cc = 1"
  shows "sys_complete
    (steps (on_fst (null_check []) # get_out Tss2_MU_UINT32_Unmarshal # on_fst CommonComplete # map skip_out ops)) cc
    (\<lambda>(h, r). ptr_valid (\<lambda>_. True) h \<and> wt r) (\<lambda>(h, r). ptr_valid (\<lambda>_. True) h \<and> valid r)
    (\<lambda>(h, r). ptr_wire be_bytes h) (\<lambda>(h, r). wire r)"
    (is "sys_complete ?C cc ?wt ?valid ?h ?w")
proof
  fix outs x and c :: "'t TSS2_SYS_CONTEXT_BLOB"
  show "?C (None, outs) = Some (TSS2_SYS_RC_BAD_REFERENCE, None, outs)" by simp
  show "length (?h x) = 4 * GetNumResponseHandles cc" if "?valid x"
    using that nr by (cases x; cases "fst x") auto
  define T where "T = steps (on_fst CommonComplete # map (skip_out :: _ \<Rightarrow> ('t sysctx \<times> UINT32 option \<times> 'o) step) ops)"
  define T' where "T' = steps (on_fst CommonComplete # ops)"
  have C: "?C (Some c, outs) = (case get_out Tss2_MU_UINT32_Unmarshal (Some c, outs) of None \<Rightarrow> None
      | Some (rval, s) \<Rightarrow> if rval \<noteq> 0 then Some (rval, s) else T s)" unfolding T_def by simp
  have skip: "T (ctx, d, r) =
      (case T' (ctx, r) of None \<Rightarrow> None | Some (rval, ctx', r') \<Rightarrow> Some (rval, ctx', d, r'))"
    for ctx :: "'t sysctx" and d :: "UINT32 option" and r
    by (auto simp: T_def T'_def steps_skip_out split: option.splits)
  show "\<exists>rc n outs'. ?C (Some c, outs) = Some (rc, Some (c\<lparr>ctx_nextData := n\<rparr>), outs') \<and> ?wt outs' \<and>
      (ctx_previousStage c \<noteq> CMD_STAGE_RECEIVE_RESPONSE \<longrightarrow> rc \<noteq> 0)"
    if c: "ctx_ok c" and w: "?wt outs"
  proof -
    from w obtain d r where o: "outs = (Some d, r)" and r: "wt r" by (cases outs; cases "fst outs") auto
    have len: "unat (ctx_maxCmdSize c) \<le> length (ctx_cmdBuffer c)" using c by (simp add: ctx_ok_def)
    from get_out_Some [OF mu_UINT32.unmarshaler_axioms len, of d r] obtain rc n d' where
      g: "get_out Tss2_MU_UINT32_Unmarshal (Some c, Some d, r) = Some (rc, Some (c\<lparr>ctx_nextData := n\<rparr>), Some d', r)" by auto
    have "ctx_ok (c\<lparr>ctx_nextData := n\<rparr>)" using c by simp
    from after_CommonComplete(1) [OF ops this r, folded T'_def] obtain rc2 n2 r2 where
      "T' (Some (c\<lparr>ctx_nextData := n\<rparr>), r) = Some (rc2, Some (c\<lparr>ctx_nextData := n2\<rparr>), r2)"
      "wt r2" "ctx_previousStage c \<noteq> CMD_STAGE_RECEIVE_RESPONSE \<longrightarrow> rc2 \<noteq> 0" by auto
    with g r show ?thesis unfolding C by (cases "rc = 0") (auto simp: o skip)
  qed
  show "\<exists>c' outs'. ?C (Some c, outs) = Some (0, Some c', outs') \<and> ?h outs' = ?h x \<and> ?w outs' = ?w x"
    if v: "?valid x" and w: "?wt outs" and h: "response_holds c (?h x) (?w x)"
  proof -
    from w obtain d r where o: "outs = (Some d, r)" and r: "wt r" by (cases outs; cases "fst outs") auto
    from v obtain y z where x: "x = (Some y, z)" and vz: "valid z" by (cases x; cases "fst x") auto
    have c: "ctx_ok c" "ctx_nextData c = 10" using h by (simp_all add: response_holds_def)
    have len: "unat (ctx_maxCmdSize c) \<le> length (ctx_cmdBuffer c)" using c by (simp add: ctx_ok_def)
    have "holds_at (ctx_cmdBuffer c) (ucast (ctx_maxCmdSize c)) (ctx_nextData c) (be_bytes y)"
      using h by (simp add: response_holds_def x)
    with get_out_Some [OF mu_UINT32.unmarshaler_axioms len, of d r] obtain n d' where
      g: "get_out Tss2_MU_UINT32_Unmarshal (Some c, Some d, r) = Some (0, Some (c\<lparr>ctx_nextData := n\<rparr>), Some d', r)"
        "be_bytes d' = be_bytes y" by blast
    have c10: "c\<lparr>ctx_nextData := 10\<rparr> = c" using c(2) by simp
    have "response_holds ((c\<lparr>ctx_nextData := n\<rparr>)\<lparr>ctx_nextData := of_nat sizeof_header\<rparr>) (be_bytes y) (wire z)"
      using h c10 by (simp add: x)
    from after_CommonComplete(2) [OF ops _ r vz this, folded T'_def] c(1) obtain c' r' where
      "T' (Some (c\<lparr>ctx_nextData := n\<rparr>), r) = Some (0, Some c', r')" "wire r' = wire z" by auto
    with g show ?thesis unfolding C by (auto simp: o x skip)
  qed
qed

end
