(* ===== verification/Sys_Args.thy ===== *)
theory Sys_Args
  imports Sys_Complete
begin

text \<open>
  What the command functions need beside the contracts: null source pointers are refused by the
  marshal functions, some argument checks, and the reading of capability data.
\<close>

section \<open>Argument checks\<close>

definition null_rc :: "bool list \<Rightarrow> TSS2_RC" where
  "null_rc nulls = (if True \<in> set nulls then TSS2_SYS_RC_BAD_REFERENCE else TSS2_RC_SUCCESS)"

lemma steps_null_check_merge:
  "steps (null_check a # ret (null_rc b) # fs) = steps (null_check (a @ b) # fs)"
  by (rule ext) (simp add: null_check_def null_rc_def ret_def)

lemmas prepare_simps = steps_null_check_merge steps_drop_ret

text \<open>\<open>if (reserved->size > 0) return TSS2_SYS_RC_BAD_VALUE;\<close>\<close>

definition size_check :: "TPM2B option \<Rightarrow> 's step" where
  "size_check p s =
     (case p of
        None \<Rightarrow> None
      | Some x \<Rightarrow> Some (if TPM2B_size x > 0 then TSS2_SYS_RC_BAD_VALUE else TSS2_RC_SUCCESS, s))"

section \<open>Null pointers\<close>

lemmas null_defs = null_rejects_def TPM2B_MARSHAL_def TPML_MARSHAL_def struct_marshal_def struct_marshal_defs

lemma null_TPM2B_DATA: "null_rejects Tss2_MU_TPM2B_DATA_Marshal"
  by (simp add: Tss2_MU_TPM2B_DATA_Marshal_def null_defs)

lemma null_TPM2B_DIGEST: "null_rejects Tss2_MU_TPM2B_DIGEST_Marshal"
  by (simp add: Tss2_MU_TPM2B_DIGEST_Marshal_def null_defs)

lemma null_TPM2B_MAX_BUFFER: "null_rejects Tss2_MU_TPM2B_MAX_BUFFER_Marshal"
  by (simp add: Tss2_MU_TPM2B_MAX_BUFFER_Marshal_def null_defs)

lemma null_TPM2B_TEMPLATE: "null_rejects Tss2_MU_TPM2B_TEMPLATE_Marshal"
  by (simp add: Tss2_MU_TPM2B_TEMPLATE_Marshal_def null_defs)

lemma null_TPML_ALG: "null_rejects Tss2_MU_TPML_ALG_Marshal"
  by (simp add: Tss2_MU_TPML_ALG_Marshal_def null_defs)

lemma null_TPML_CC: "null_rejects Tss2_MU_TPML_CC_Marshal"
  by (simp add: Tss2_MU_TPML_CC_Marshal_def null_defs)

lemma null_TPML_DIGEST: "null_rejects Tss2_MU_TPML_DIGEST_Marshal"
  by (simp add: Tss2_MU_TPML_DIGEST_Marshal_def null_defs)

lemma null_TPML_DIGEST_VALUES: "null_rejects Tss2_MU_TPML_DIGEST_VALUES_Marshal"
  by (simp add: Tss2_MU_TPML_DIGEST_VALUES_Marshal_def null_defs)

lemma null_TPML_PCR_SELECTION: "null_rejects Tss2_MU_TPML_PCR_SELECTION_Marshal"
  by (simp add: Tss2_MU_TPML_PCR_SELECTION_Marshal_def null_defs)

lemma null_TPMS_CONTEXT: "null_rejects Tss2_MU_TPMS_CONTEXT_Marshal"
  by (simp add: Tss2_MU_TPMS_CONTEXT_Marshal_def null_defs)

lemma null_TPMT_KDF_SCHEME: "null_rejects Tss2_MU_TPMT_KDF_SCHEME_Marshal"
  by (simp add: Tss2_MU_TPMT_KDF_SCHEME_Marshal_def null_defs)

lemma null_TPMT_PUBLIC_PARMS: "null_rejects Tss2_MU_TPMT_PUBLIC_PARMS_Marshal"
  by (simp add: Tss2_MU_TPMT_PUBLIC_PARMS_Marshal_def null_defs)

lemma null_TPMT_RSA_DECRYPT: "null_rejects Tss2_MU_TPMT_RSA_DECRYPT_Marshal"
  by (simp add: Tss2_MU_TPMT_RSA_DECRYPT_Marshal_def null_defs)

lemma null_TPMT_SIGNATURE: "null_rejects Tss2_MU_TPMT_SIGNATURE_Marshal"
  by (simp add: Tss2_MU_TPMT_SIGNATURE_Marshal_def null_defs)

lemma null_TPMT_SIG_SCHEME: "null_rejects Tss2_MU_TPMT_SIG_SCHEME_Marshal"
  by (simp add: Tss2_MU_TPMT_SIG_SCHEME_Marshal_def null_defs)

lemma null_TPMT_SYM_DEF: "null_rejects Tss2_MU_TPMT_SYM_DEF_Marshal"
  by (simp add: Tss2_MU_TPMT_SYM_DEF_Marshal_def null_defs)

lemma null_TPMT_SYM_DEF_OBJECT: "null_rejects Tss2_MU_TPMT_SYM_DEF_OBJECT_Marshal"
  by (simp add: Tss2_MU_TPMT_SYM_DEF_OBJECT_Marshal_def null_defs)

lemma null_TPMT_TK_AUTH: "null_rejects Tss2_MU_TPMT_TK_AUTH_Marshal"
  by (simp add: Tss2_MU_TPMT_TK_AUTH_Marshal_def null_defs)

lemma null_TPMT_TK_CREATION: "null_rejects Tss2_MU_TPMT_TK_CREATION_Marshal"
  by (simp add: Tss2_MU_TPMT_TK_CREATION_Marshal_def null_defs)

lemma null_TPMT_TK_HASHCHECK: "null_rejects Tss2_MU_TPMT_TK_HASHCHECK_Marshal"
  by (simp add: Tss2_MU_TPMT_TK_HASHCHECK_Marshal_def null_defs)

lemma null_TPMT_TK_VERIFIED: "null_rejects Tss2_MU_TPMT_TK_VERIFIED_Marshal"
  by (simp add: Tss2_MU_TPMT_TK_VERIFIED_Marshal_def null_defs)

section \<open>Contracts\<close>

lemma sys_completeI:
  assumes "sys_complete C cc wt valid handles params"
    and "\<And>ctx outs. C' (ctx, outs) = C (ctx, outs)" "\<And>outs. wt' outs = wt outs" "\<And>outs. valid' outs = valid outs"
    and "\<And>outs. handles' outs = handles outs" "\<And>outs. params' outs = params outs"
  shows "sys_complete C' cc wt' valid' handles' params'"
proof -
  have "C' = C" using assms(2) by auto
  moreover have "wt' = wt" "valid' = valid" "handles' = handles" "params' = params" using assms(3-) by auto
  ultimately show ?thesis using assms(1) by simp
qed

section \<open>Capability data\<close>

text \<open>
  \<open>Tss2_Sys_GetCapability_Complete\<close> looks at the capability first: vendor data is copied up to the end of
  the response, everything else is unmarshalled.
\<close>

definition get_capability :: "('t sysctx \<times> TPMS_CAPABILITY_DATA option \<times> 'o) step" where
  "get_capability = (\<lambda>(ctx, capabilityData, outs).
     case ctx of
       None \<Rightarrow> None
     | Some c \<Rightarrow>
         (case Tss2_MU_UINT32_Unmarshal (Some (ctx_cmdBuffer c)) (ucast (ctx_maxCmdSize c)) (Some (ctx_nextData c)) (Some 0) of
            Some (rval, Some next_data_vendor, Some cap) \<Rightarrow>
              if rval \<noteq> 0 then Some (rval, ctx, capabilityData, outs)
              else if cap \<noteq> TPM2_CAP_VENDOR_PROPERTY
              then get_out Tss2_MU_TPMS_CAPABILITY_DATA_Unmarshal (ctx, capabilityData, outs)
              else
                let c1 = c\<lparr>ctx_nextData := next_data_vendor\<rparr>;
                    left = ucast (TPM20_Header_Out_responseSize (ctx_rsp_header c1)) - ctx_nextData c1;
                    c2 = c1\<lparr>ctx_nextData := ctx_nextData c1 + left\<rparr> in
                if left > of_nat TPM2_MAX_CAP_BUFFER then Some (TSS2_MU_RC_BAD_SIZE, Some c1, capabilityData, outs)
                else
                  (case capabilityData of
                     None \<Rightarrow> Some (TSS2_RC_SUCCESS, Some c2, None, outs)
                   | Some d \<Rightarrow>
                       let old = (case get_TPMU_CAPABILITIES_vendor (TPMS_CAPABILITY_DATA_data d) of
                                    Some v \<Rightarrow> v | None \<Rightarrow> zero_TPM2B TPM2_MAX_CAP_BUFFER) in
                       (case mem_read (ctx_cmdBuffer c1) (ctx_nextData c1) (unat left) of
                          None \<Rightarrow> None
                        | Some xs \<Rightarrow>
                            Some (TSS2_RC_SUCCESS, Some c2,
                              Some (d\<lparr>TPMS_CAPABILITY_DATA_capability := cap,
                                TPMS_CAPABILITY_DATA_data := TPMU_CAPABILITIES_vendor
                                  \<lparr>TPM2B_size = ucast left, TPM2B_buffer = patch (TPM2B_buffer old) 0 xs\<rparr>\<rparr>), outs)))
          | _ \<Rightarrow> None))"

end
