(* ===== verification/Sys_Session.thy ===== *)
theory Sys_Session
  imports Sys_Args
begin

text \<open>
  What \<open>Tss2_Sys_SetCmdAuths\<close> makes of a prepared command, and what \<open>Tss2_Sys_ExecuteAsync\<close> sends.
\<close>

section \<open>Commands in the buffer\<close>

definition cmd_bytes :: "UINT16 \<Rightarrow> UINT32 \<Rightarrow> BYTE list \<Rightarrow> BYTE list \<Rightarrow> BYTE list \<Rightarrow> BYTE list" where
  "cmd_bytes tag cc handles area params =
     be_bytes tag @ be_bytes (of_nat (sizeof_header + length handles + length area + length params) :: UINT32) @
     be_bytes cc @ handles @ area @ params"

lemma length_cmd_bytes [simp]:
  "length (cmd_bytes tag cc handles area params) = sizeof_header + length handles + length area + length params"
  by (simp add: cmd_bytes_def)

text \<open>\<open>c\<close> is ready to be sent and its buffer starts with this command.\<close>

definition holds_command ::
  "UINT16 \<Rightarrow> UINT32 \<Rightarrow> BYTE list \<Rightarrow> BYTE list \<Rightarrow> BYTE list \<Rightarrow> 't TSS2_SYS_CONTEXT_BLOB \<Rightarrow> bool" where
  "holds_command tag cc handles area params c \<longleftrightarrow> ctx_ok c \<and> ctx_previousStage c = CMD_STAGE_PREPARE \<and>
     sizeof_header + length handles + length area + length params \<le> unat (ctx_maxCmdSize c) \<and>
     (\<exists>rest. ctx_cmdBuffer c = cmd_bytes tag cc handles area params @ rest) \<and>
     ctx_cpBuffer c = of_nat (sizeof_header + length handles + length area) \<and>
     ctx_cpBufferUsedSize c = of_nat (length params) \<and> ctx_commandCode c = cc"

lemma patch_at_end: "length xs = i \<Longrightarrow> patch (xs @ ys) i zs = xs @ zs @ drop (length zs) ys"
  by (simp add: patch_def)

lemma holds_command_prepared:
  assumes "ctx_ok c" "sizeof_header + length handles + length params \<le> unat (ctx_maxCmdSize c)"
  shows "holds_command TPM2_ST_NO_SESSIONS cc handles [] params (prepared cc handles params null dec enc auth c)"
  using assms
  by (auto simp: holds_command_def prepared_def ctx_ok_def cmd_bytes_def patch_def)

section \<open>The authorization area\<close>

abbreviation auths_wire :: "TPMS_AUTH_COMMAND list \<Rightarrow> BYTE list" where
  "auths_wire auths \<equiv> concat (map wire_TPMS_AUTH_COMMAND auths)"

lemma length_wire_AUTH_COMMAND:
  assumes "valid_TPMS_AUTH_COMMAND a"
  shows "length (wire_TPMS_AUTH_COMMAND a) =
    9 + unat (TPM2B_size (TPMS_AUTH_COMMAND_nonce a)) + unat (TPM2B_size (TPMS_AUTH_COMMAND_hmac a))"
  using assms by (simp add: valid_TPMS_AUTH_COMMAND_def wire_TPMS_AUTH_COMMAND_def wire_TPM2B_def valid_TPM2B_def wt_TPM2B_def)

lemma auth_area_size_acc:
  "\<forall>a \<in> set auths. valid_TPMS_AUTH_COMMAND a \<Longrightarrow>
   auth_area_size auths n = n + of_nat (length (auths_wire auths))"
proof (induction auths arbitrary: n)
  case (Cons a auths)
  have "(ucast w :: UINT32) = of_nat (unat w)" for w :: UINT16 by simp
  with Cons show ?case by (simp add: length_wire_AUTH_COMMAND algebra_simps)
qed simp

lemma marshal_auths_ok:
  assumes "\<forall>a \<in> set auths. valid_TPMS_AUTH_COMMAND a" "unat bs \<le> length b"
    and "unat off + length (auths_wire auths) \<le> unat bs"
  shows "marshal_auths auths b bs off =
    Some (0, patch b (unat off) (auths_wire auths), off + of_nat (length (auths_wire auths)))"
  using assms
proof (induction auths arbitrary: b off)
  case (Cons a auths)
  let ?w = "wire_TPMS_AUTH_COMMAND a"
  have fit: "fits bs off (length ?w)" using Cons.prems by (simp add: fits_def)
  have off: "unat (off + of_nat (length ?w)) = unat off + length ?w"
    using Cons.prems by (intro unat_add_fits [of _ _ bs]) simp
  have "Tss2_MU_TPMS_AUTH_COMMAND_Marshal (Some a) (Some b) bs (Some off) =
      Some (0, Some (patch b (unat off) ?w), Some (off + of_nat (length ?w)))"
    using Cons.prems fit by (intro mu_TPMS_AUTH_COMMAND.marshal_fit) simp_all
  moreover have "patch (patch b (unat off) ?w) (unat off + length ?w) (auths_wire auths) =
      patch b (unat off) (?w @ auths_wire auths)"
    using Cons.prems by (intro patch_append) simp
  ultimately show ?case
    using Cons.IH [of "patch b (unat off) ?w" "off + of_nat (length ?w)"] Cons.prems off
    by (simp add: add.assoc)
qed simp

lemma unat_of_nat_32: "n < 2 ^ 32 \<Longrightarrow> unat (of_nat n :: UINT32) = n"
  by (simp add: unat_of_nat)

lemma unat_of_nat_64: "n < 2 ^ 32 \<Longrightarrow> unat (of_nat n :: size_t) = n"
  by (simp add: unat_of_nat)

text \<open>Moving the parameters down and writing the area, on the bytes behind the handles.\<close>

lemma area_patches:
  assumes cp: "length pre = cp" and down: "down = 4 + length ws" and room: "down + length p \<le> length q"
    and sz: "length sz = 4"
  shows "patch (patch (patch (patch (pre @ q) (cp + down) p) cp [0, 0, 0, 0]) cp sz) (cp + 4) ws =
    pre @ sz @ ws @ p @ drop (down + length p) q"
proof -
  have 1: "patch (pre @ q) (cp + down) p = pre @ take down q @ p @ drop (down + length p) q"
    using room cp patch_at_end [of "pre @ take down q" "cp + down" "drop down q" p]
    by (simp add: add.commute)
  have td: "length (take down q) = 4 + length ws" using room down by simp
  have 2: "patch (pre @ take down q @ z) cp [0, 0, 0, 0] = pre @ [0, 0, 0, 0] @ drop 4 (take down q) @ z" for z
    using td cp by (simp add: patch_at_end numeral_eq_Suc)
  have 3: "patch (pre @ [0, 0, 0, 0] @ z) cp sz = pre @ sz @ z" for z :: "BYTE list"
    using cp sz by (simp add: patch_at_end)
  have 4: "patch (pre @ sz @ drop 4 (take down q) @ z) (cp + 4) ws = pre @ sz @ ws @ z" for z
    using td cp sz patch_at_end [of "pre @ sz" "cp + 4" "drop 4 (take down q) @ z" ws] by simp
  show ?thesis unfolding 1 2 3 4 ..
qed

lemma insert_auths_ok:
  assumes c: "holds_command TPM2_ST_SESSIONS cc handles [] params c"
    and valid: "\<forall>a \<in> set auths. valid_TPMS_AUTH_COMMAND a"
    and n: "n = length (auths_wire auths)"
    and N: "N = sizeof_header + length handles + (4 + n) + length params" "N \<le> unat (ctx_maxCmdSize c)"
  shows "\<exists>rest. N + length rest = length (ctx_cmdBuffer c) \<and> insert_auths (of_nat n) (of_nat N) auths c =
    Some (0, c\<lparr>ctx_cmdBuffer := cmd_bytes TPM2_ST_SESSIONS cc handles (be_bytes (of_nat n :: UINT32) @ auths_wire auths) params @ rest,
      ctx_cpBuffer := of_nat (sizeof_header + length handles + (4 + n)), ctx_authsCount := of_nat (length auths)\<rparr>)"
proof -
  from c obtain rest where b: "ctx_cmdBuffer c = cmd_bytes TPM2_ST_SESSIONS cc handles [] params @ rest"
    and ok: "ctx_ok c" and cp: "ctx_cpBuffer c = of_nat (10 + length handles)" "ctx_cpBufferUsedSize c = of_nat (length params)"
    by (auto simp: holds_command_def)
  have N32: "N < 2 ^ 32" "N \<le> length (ctx_cmdBuffer c)" using N(2) ok unat_32_less [of "ctx_maxCmdSize c"] by (auto simp: ctx_ok_def)
  let ?H = "be_bytes TPM2_ST_SESSIONS @ be_bytes (of_nat (10 + length handles + length params) :: UINT32) @ be_bytes cc @ handles"
  let ?cp = "10 + length handles" and ?sz = "be_bytes (of_nat n :: UINT32)" and ?ws = "auths_wire auths"
  have bH: "ctx_cmdBuffer c = ?H @ params @ rest" by (simp add: b cmd_bytes_def)
  have u: "unat (of_nat ?cp :: size_t) = ?cp" "unat (of_nat (?cp + 4) :: size_t) = ?cp + 4"
    "unat (of_nat (?cp + (4 + n)) :: size_t) = ?cp + (4 + n)"
    "unat (of_nat (length params) :: UINT32) = length params" "unat (of_nat N :: UINT32) = N"
    using N32(1) N(1) by (intro unat_of_nat_64 unat_of_nat_32, simp)+
  have down: "of_nat ?cp + (ucast (of_nat n :: UINT32) + 4) = (of_nat (?cp + (4 + n)) :: size_t)"
  proof -
    have "(ucast (of_nat n :: UINT32) :: size_t) = of_nat n"
      using N32(1) N(1) by (simp add: unsigned_of_nat take_bit_nat_eq_self)
    then show ?thesis by simp
  qed
  let ?b1 = "patch (ctx_cmdBuffer c) (?cp + (4 + n)) params"
  let ?b2 = "patch ?b1 ?cp [0, 0, 0, 0]"
  let ?b3 = "patch ?b2 ?cp ?sz"
  let ?b4 = "patch ?b3 (?cp + 4) ?ws"
  have lens: "length ?b1 = length (ctx_cmdBuffer c)" "length ?b2 = length (ctx_cmdBuffer c)" "length ?b3 = length (ctx_cmdBuffer c)"
    using N32(2) N(1) by simp_all
  have l4: "6 \<le> length ?b4" using N32(2) N(1) lens(3) n by simp
  have b4: "?b4 = ?H @ ?sz @ ?ws @ params @ drop (4 + n + length params) (params @ rest)"
    unfolding bH using N32(2) N(1) n bH by (intro area_patches) simp_all
  have read: "mem_read (ctx_cmdBuffer c) (of_nat ?cp) (length params) = Some params"
    using u(1) by (simp add: mem_read_def bH seg_def del: of_nat_add)
  have m: "Tss2_MU_UINT32_Marshal (of_nat n) (Some ?b2) (ucast (of_nat N :: UINT32)) (Some (of_nat ?cp)) =
      Some (0, Some ?b3, Some (of_nat (?cp + 4)))"
    using mu_UINT32.marshal_fit [of "ucast (of_nat N :: UINT32)" ?b2 "of_nat ?cp" "of_nat n"] u lens N32 N(1)
    by (simp add: fits_def del: of_nat_add) simp
  have ma: "marshal_auths auths ?b3 (ucast (of_nat N :: UINT32)) (of_nat (?cp + 4)) =
      Some (0, ?b4, of_nat (?cp + 4) + of_nat (length ?ws))"
    using marshal_auths_ok [OF valid, of "ucast (of_nat N :: UINT32)" ?b3 "of_nat (?cp + 4)"] u lens N32 N(1) n
    by (simp del: of_nat_add)
  have fin: "patch ?b4 2 (be_bytes (of_nat N :: UINT32)) =
      cmd_bytes TPM2_ST_SESSIONS cc handles (?sz @ ?ws) params @ drop (4 + n + length params) (params @ rest)"
    unfolding b4 using N(1) n patch_at_end [of "be_bytes TPM2_ST_SESSIONS" 2 _ "be_bytes (of_nat N :: UINT32)"]
    by (simp add: cmd_bytes_def add.assoc)
  show ?thesis
  proof (intro exI conjI)
    show "N + length (drop (4 + n + length params) (params @ rest)) = length (ctx_cmdBuffer c)"
      using N32(2) N(1) by (simp add: bH)
    show "insert_auths (of_nat n) (of_nat N) auths c =
      Some (0, c\<lparr>ctx_cmdBuffer := cmd_bytes TPM2_ST_SESSIONS cc handles (?sz @ ?ws) params @ drop (4 + n + length params) (params @ rest),
        ctx_cpBuffer := of_nat (?cp + (4 + n)), ctx_authsCount := of_nat (length auths)\<rparr>)"
      unfolding insert_auths_def cp down Let_def u(4) read
      using N32(2) N(1) lens m ma fin u l4
      by (simp add: mem_write_def header_set_def del: of_nat_add)
  qed
qed

section \<open>SetCmdAuths\<close>

lemma GetCommandSize_holds:
  assumes "holds_command tag cc handles area params c"
  shows "GetCommandSize c = Some (of_nat (sizeof_header + length handles + length area + length params))"
proof -
  from assms obtain rest where b: "ctx_cmdBuffer c = cmd_bytes tag cc handles area params @ rest"
    by (auto simp: holds_command_def)
  have "seg (ctx_cmdBuffer c) 2 4 = be_bytes (of_nat (sizeof_header + length handles + length area + length params) :: UINT32)"
    by (simp add: b cmd_bytes_def seg_def)
  then show ?thesis
    by (subst GetCommandSize_def, subst header_get_eq) (simp_all add: b)
qed

lemma holds_command_tag:
  assumes "holds_command tag cc handles area params c"
  shows "\<exists>c'. header_set 0 tag' (c\<lparr>ctx_authsCount := k\<rparr>) = Some c' \<and> holds_command tag' cc handles area params c' \<and>
    ctx_maxCmdSize c' = ctx_maxCmdSize c \<and>
    (\<exists>b. c' = c\<lparr>ctx_authsCount := k, ctx_cmdBuffer := b\<rparr>)"
proof -
  from assms obtain rest where b: "ctx_cmdBuffer c = cmd_bytes tag cc handles area params @ rest"
    by (auto simp: holds_command_def)
  have "patch (ctx_cmdBuffer c) 0 (be_bytes tag') = cmd_bytes tag' cc handles area params @ rest"
    by (simp add: b cmd_bytes_def patch_def)
  with assms b show ?thesis
    by (auto simp: header_set_def mem_write_def holds_command_def ctx_ok_def)
qed

lemma SetCmdAuths_ok:
  assumes c: "holds_command TPM2_ST_NO_SESSIONS cc handles [] params c" "ctx_authAllowed c"
    and auths: "AUTH_COMMAND_count arr = of_nat (length auths)" "take (length auths) (AUTH_COMMAND_auths arr) = auths"
      "0 < length auths" "length auths \<le> 3"
    and valid: "\<forall>a \<in> set auths. valid_TPMS_AUTH_COMMAND a"
    and room: "sizeof_header + length handles + (4 + length (auths_wire auths)) + length params \<le> unat (ctx_maxCmdSize c)"
  shows "\<exists>c'. Tss2_Sys_SetCmdAuths (Some c) (Some arr) = Some (0, Some c') \<and>
    holds_command TPM2_ST_SESSIONS cc handles
      (be_bytes (of_nat (length (auths_wire auths)) :: UINT32) @ auths_wire auths) params c' \<and>
    c' = c\<lparr>ctx_cmdBuffer := ctx_cmdBuffer c', ctx_cpBuffer := ctx_cpBuffer c', ctx_authsCount := of_nat (length auths)\<rparr>"
proof -
  let ?n = "length (auths_wire auths)"
  let ?N = "10 + length handles + (4 + ?n) + length params"
  from holds_command_tag [OF c(1), of TPM2_ST_SESSIONS 0] obtain c1 b where
    t: "header_set 0 TPM2_ST_SESSIONS (c\<lparr>ctx_authsCount := 0\<rparr>) = Some c1"
      "holds_command TPM2_ST_SESSIONS cc handles [] params c1" "ctx_maxCmdSize c1 = ctx_maxCmdSize c"
      "c1 = c\<lparr>ctx_authsCount := 0, ctx_cmdBuffer := b\<rparr>" by blast
  have N: "?N \<le> unat (ctx_maxCmdSize c1)" "?N < 2 ^ 32"
    using room t(3) unat_32_less [of "ctx_maxCmdSize c"] by simp_all
  from insert_auths_ok [OF t(2) valid refl refl N(1)] obtain rest where
    r: "?N + length rest = length (ctx_cmdBuffer c1)" and
    i: "insert_auths (of_nat ?n) (of_nat ?N) auths c1 = Some (0, c1\<lparr>
      ctx_cmdBuffer := cmd_bytes TPM2_ST_SESSIONS cc handles (be_bytes (of_nat ?n :: UINT32) @ auths_wire auths) params @ rest,
      ctx_cpBuffer := of_nat (10 + length handles + (4 + ?n)), ctx_authsCount := of_nat (length auths)\<rparr>)"
    (is "_ = Some (0, ?c2)") by blast
  have cnt: "unat (AUTH_COMMAND_count arr) = length auths" using auths(1,4) by (simp add: unat_of_nat)
  then have cnt0: "AUTH_COMMAND_count arr \<noteq> 0" using auths(3) by (metis unat_0 less_not_refl)
  have new: "auth_area_size auths 0 + 4 + of_nat (10 + length handles + length ([] :: BYTE list) + length params) = of_nat ?N"
    by (simp add: auth_area_size_acc [OF valid])
  have le: "\<not> of_nat ?N > ctx_maxCmdSize c1" "\<not> ctx_cpBufferUsedSize c1 > ctx_maxCmdSize c1"
  proof -
    show "\<not> of_nat ?N > ctx_maxCmdSize c1"
      using N by (simp add: word_less_nat_alt unat_of_nat_32 del: of_nat_add)
    have "ctx_cpBufferUsedSize c1 = of_nat (length params)" using t(2) by (simp add: holds_command_def)
    then show "\<not> ctx_cpBufferUsedSize c1 > ctx_maxCmdSize c1"
      using N by (simp add: word_less_nat_alt unat_of_nat_32)
  qed
  have "Tss2_Sys_SetCmdAuths (Some c) (Some arr) = Some (0, Some ?c2)"
    using c auths(2-4) cnt cnt0 t(1) le i new GetCommandSize_holds [OF t(2)]
    by (simp add: Tss2_Sys_SetCmdAuths_def TSS2_SYS_MAX_SESSIONS_def holds_command_def Let_def
        auth_area_size_acc [OF valid] del: of_nat_add)
  moreover have "holds_command TPM2_ST_SESSIONS cc handles (be_bytes (of_nat ?n :: UINT32) @ auths_wire auths) params ?c2"
    using t(2) N r by (auto simp: holds_command_def ctx_ok_def)
  moreover have "?c2 = c\<lparr>ctx_cmdBuffer := ctx_cmdBuffer ?c2, ctx_cpBuffer := ctx_cpBuffer ?c2, ctx_authsCount := of_nat (length auths)\<rparr>"
    by (simp add: t(4))
  ultimately show ?thesis by blast
qed

end
