(* ===== verification/Sys_Transfer.thy ===== *)
theory Sys_Transfer
  imports Sys_Session
begin

text \<open>
  Sending a command and receiving its response: what reaches the transport, what the context holds
  afterwards, and the invariant that every call keeps.
\<close>

section \<open>Sending\<close>

lemma ExecuteAsync_sends:
  assumes c: "holds_command tag cc handles area params c"
    and t: "ctx_tctiContext c = Some t" "1 \<le> TCTI_version t" "TCTI_transmit t = Some transmit"
    and r: "transmit (TCTI_state t) (cmd_bytes tag cc handles area params) = (rval, s)"
  shows "Tss2_Sys_ExecuteAsync (Some c) = Some (rval, Some
    (if rval = 0
     then c\<lparr>ctx_tctiContext := Some (t\<lparr>TCTI_state := s\<rparr>), ctx_previousStage := CMD_STAGE_SEND_COMMAND,
       ctx_cmd_header := take sizeof_header (cmd_bytes tag cc handles area params)\<rparr>
     else c\<lparr>ctx_tctiContext := Some (t\<lparr>TCTI_state := s\<rparr>)\<rparr>))"
proof -
  let ?w = "cmd_bytes tag cc handles area params" and ?n = "10 + length handles + length area + length params"
  from c obtain rest where b: "ctx_cmdBuffer c = ?w @ rest" and n: "?n < 2 ^ 32"
    using unat_32_less [of "ctx_maxCmdSize c"] by (fastforce simp: holds_command_def)
  have "mem_read (ctx_cmdBuffer c) 0 ?n = Some ?w"
    by (simp add: mem_read_def b seg_def)
  moreover have "mem_read (ctx_cmdBuffer c) 0 10 = Some (take 10 ?w)"
    by (simp add: mem_read_def b seg_def)
  ultimately show ?thesis
    using c GetCommandSize_holds [OF c] t r n
    by (cases c) (auto simp: Tss2_Sys_ExecuteAsync_def Tss2_Tcti_Transmit_def holds_command_def unat_of_nat_32
        not_less [symmetric] simp del: of_nat_add)
qed

section \<open>The response header\<close>

definition rsp_code :: "'t TSS2_SYS_CONTEXT_BLOB \<Rightarrow> UINT32" where
  "rsp_code c = word_of (rev (seg (ctx_cmdBuffer c) 6 4))"

lemma UINT32_read:
  assumes "unat bs \<le> length b" "unat off + 4 \<le> unat bs"
  shows "Tss2_MU_UINT32_Unmarshal (Some b) bs (Some off) (Some d) =
    Some (0, Some (off + 4), Some (word_of (rev (seg b (unat off) 4))))"
proof -
  let ?x = "word_of (rev (seg b (unat off) 4)) :: UINT32"
  have "be_bytes ?x = seg b (unat off) 4" using assms by (intro be_bytes_word_of) simp
  then have "holds_at b bs off (be_bytes ?x)"
    using assms by (simp add: holds_at_def fits_def numeral_eq_Suc)
  from mu_UINT32.unmarshal_complete [OF _ assms(1) _ this, of d] show ?thesis
    by (auto simp: be_bytes_inject)
qed

lemma read_rsp_header_eq:
  assumes "ctx_ok c"
  shows "read_rsp_header c =
    (let h = (ctx_rsp_header c)\<lparr>TPM20_Header_Out_tag := rsp_tag c\<rparr>;
         h' = h\<lparr>TPM20_Header_Out_responseSize := rsp_size c\<rparr> in
     if rsp_tag c \<noteq> TPM2_ST_SESSIONS \<and> rsp_tag c \<noteq> TPM2_ST_NO_SESSIONS
     then Some (if rsp_tag c = TPM2_ST_RSP_COMMAND then TSS2_SYS_RC_GENERAL_FAILURE else TSS2_SYS_RC_MALFORMED_RESPONSE,
       c\<lparr>ctx_nextData := 2, ctx_rsp_header := h\<rparr>)
     else if rsp_size c > ctx_maxCmdSize c
     then Some (TSS2_SYS_RC_MALFORMED_RESPONSE, c\<lparr>ctx_nextData := 6, ctx_rsp_header := h'\<rparr>)
     else Some (0, c\<lparr>ctx_nextData := 10, ctx_rsp_header := h'\<lparr>TPM20_Header_Out_responseCode := rsp_code c\<rparr>\<rparr>))"
proof -
  have m: "10 \<le> unat (ctx_maxCmdSize c)" "unat (ctx_maxCmdSize c) \<le> length (ctx_cmdBuffer c)"
    using assms by (simp_all add: ctx_ok_def)
  have s: "Tss2_MU_UINT32_Unmarshal (Some (ctx_cmdBuffer c)) (ucast (ctx_maxCmdSize c)) (Some 2) (Some d) = Some (0, Some 6, Some (rsp_size c))"
    and k: "Tss2_MU_UINT32_Unmarshal (Some (ctx_cmdBuffer c)) (ucast (ctx_maxCmdSize c)) (Some 6) (Some d) = Some (0, Some 10, Some (rsp_code c))" for d
    using UINT32_read [of "ucast (ctx_maxCmdSize c)" "ctx_cmdBuffer c" 2 d]
      UINT32_read [of "ucast (ctx_maxCmdSize c)" "ctx_cmdBuffer c" 6 d] m
    by (simp_all add: rsp_size_def rsp_code_def)
  show ?thesis
    by (simp add: read_rsp_header_def get_header_def TPM2_ST_at_0 [OF assms] s k Let_def)
qed

section \<open>Receiving\<close>

text \<open>The response as the transport delivers it: \<open>r\<close> at the start of the buffer.\<close>

definition answered :: "'t TSS2_TCTI_CONTEXT \<Rightarrow> 't \<Rightarrow> BYTE list \<Rightarrow> 't TSS2_SYS_CONTEXT_BLOB \<Rightarrow> 't TSS2_SYS_CONTEXT_BLOB" where
  "answered t s r c =
     c\<lparr>ctx_tctiContext := Some (t\<lparr>TCTI_state := s\<rparr>), ctx_cmdBuffer := patch (ctx_cmdBuffer c) 0 r,
       ctx_rsp_header := \<lparr>TPM20_Header_Out_tag = word_of (rev (seg r 0 2)),
         TPM20_Header_Out_responseSize = word_of (rev (seg r 2 4)),
         TPM20_Header_Out_responseCode = word_of (rev (seg r 6 4))\<rparr>,
       ctx_nextData := of_nat sizeof_header\<rparr>"

definition rsp_bytes :: "UINT16 \<Rightarrow> UINT32 \<Rightarrow> BYTE list \<Rightarrow> BYTE list" where
  "rsp_bytes tag code body = be_bytes tag @ be_bytes (of_nat (sizeof_header + length body) :: UINT32) @ be_bytes code @ body"

lemma length_rsp_bytes [simp]: "length (rsp_bytes tag code body) = sizeof_header + length body"
  by (simp add: rsp_bytes_def)

text \<open>A transport that answers with \<open>r\<close>: first its size, then the bytes.\<close>

definition answers_with ::
  "'t TSS2_TCTI_CONTEXT \<Rightarrow> INT32 \<Rightarrow> buf \<Rightarrow> BYTE list \<Rightarrow> 't \<Rightarrow> bool" where
  "answers_with t timeout b r s \<longleftrightarrow> 1 \<le> TCTI_version t \<and>
     (case TCTI_receive t of
        None \<Rightarrow> False
      | Some receive \<Rightarrow>
          (case receive (TCTI_state t) 0 None timeout of
             (rc, n, _, s1) \<Rightarrow> rc = 0 \<and> n = of_nat (length r) \<and>
               (case receive s1 n (Some b) timeout of
                  (rc', _, b', s2) \<Rightarrow> rc' = 0 \<and> b' = Some (patch b 0 r) \<and> s2 = s)))"

lemma ExecuteFinish_response:
  assumes c: "ctx_ok c" "ctx_previousStage c = CMD_STAGE_SEND_COMMAND" "ctx_tctiContext c = Some t"
    and a: "answers_with t timeout (ctx_cmdBuffer c) (rsp_bytes tag code body) s"
    and tag: "tag = TPM2_ST_SESSIONS \<or> tag = TPM2_ST_NO_SESSIONS"
    and n: "sizeof_header + length body \<le> unat (ctx_maxCmdSize c)"
  shows "Tss2_Sys_ExecuteFinish (Some c) timeout = Some (code, Some
    (let c' = answered t s (rsp_bytes tag code body) c in
     if code \<noteq> 0 \<and> code \<noteq> TPM2_RC_INITIALIZE
     then c'\<lparr>ctx_previousStage := CMD_STAGE_PREPARE, ctx_cmdBuffer := patch (ctx_cmdBuffer c') 0 (ctx_cmd_header c)\<rparr>
     else c'\<lparr>ctx_previousStage := CMD_STAGE_RECEIVE_RESPONSE\<rparr>))"
proof -
  let ?r = "rsp_bytes tag code body" and ?n = "10 + length body"
  have n32: "?n < 2 ^ 32" and len: "?n \<le> length (ctx_cmdBuffer c)"
    using n unat_32_less [of "ctx_maxCmdSize c"] c(1) by (auto simp: ctx_ok_def)
  from a obtain receive s1 n' x where g: "TCTI_receive t = Some receive" "1 \<le> TCTI_version t"
    "receive (TCTI_state t) 0 None timeout = (0, of_nat ?n, x, s1)"
    "receive s1 (of_nat ?n) (Some (ctx_cmdBuffer c)) timeout = (0, n', Some (patch (ctx_cmdBuffer c) 0 ?r), s)"
    by (auto simp: answers_with_def split: option.splits prod.splits simp del: of_nat_add)
  let ?c2 = "c\<lparr>ctx_tctiContext := Some (t\<lparr>TCTI_state := s\<rparr>), ctx_cmdBuffer := patch (ctx_cmdBuffer c) 0 ?r\<rparr>"
  have ok: "ctx_ok ?c2" using c(1) len by (simp add: ctx_ok_def)
  have seg: "seg (patch (ctx_cmdBuffer c) 0 ?r) i k = seg ?r i k" if "i + k \<le> 10" for i k
    using that by (simp add: patch_def seg_def take_drop)
  have parts: "seg ?r 0 2 = be_bytes tag" "seg ?r 2 4 = be_bytes (of_nat ?n :: UINT32)" "seg ?r 6 4 = be_bytes code"
    by (simp_all add: rsp_bytes_def seg_def)
  have hdr: "rsp_tag ?c2 = tag" "rsp_size ?c2 = of_nat ?n" "rsp_code ?c2 = code"
    by (simp_all add: rsp_tag_def rsp_size_def rsp_code_def seg parts del: of_nat_add)
  have sz: "\<not> of_nat ?n > ctx_maxCmdSize c" "\<not> (of_nat ?n :: UINT32) < 10"
    using n n32 by (simp_all add: word_less_nat_alt unat_of_nat_32 del: of_nat_add)
  have sz64: "\<not> (of_nat ?n :: size_t) < 10" "\<not> of_nat ?n > (ucast (ctx_maxCmdSize c) :: size_t)"
    using n n32 by (simp_all add: word_less_nat_alt unat_of_nat_64 del: of_nat_add)
  have "read_rsp_header ?c2 = Some (0, answered t s ?r c)"
    using tag sz hdr by (cases "ctx_rsp_header c") (auto simp: read_rsp_header_eq [OF ok] Let_def answered_def parts simp del: of_nat_add)
  then show ?thesis
    using c g sz sz64 len
    by (simp add: Tss2_Sys_ExecuteFinish_def Tss2_Tcti_Receive_def Let_def not_less [symmetric] finish_response_def
        answered_def parts ctx_ok_def mem_write_def del: of_nat_add)
qed

lemma patch_same: "length r \<le> length b \<Longrightarrow> patch (patch b 0 r) 0 (take (length r) b) = b"
  by (simp add: patch_def)

text \<open>After an error response of ten bytes the context holds the command again.\<close>

lemma holds_command_restored:
  assumes "holds_command tag cc handles area params c" "length r = sizeof_header"
  shows "holds_command tag cc handles area params
    (c\<lparr>ctx_tctiContext := t, ctx_cmdBuffer := patch (patch (ctx_cmdBuffer c) 0 r) 0
        (take sizeof_header (cmd_bytes tag cc handles area params)),
      ctx_rsp_header := h, ctx_nextData := n, ctx_cmd_header := take sizeof_header (cmd_bytes tag cc handles area params)\<rparr>)"
proof -
  from assms(1) obtain rest where b: "ctx_cmdBuffer c = cmd_bytes tag cc handles area params @ rest"
    by (auto simp: holds_command_def)
  then have "take 10 (ctx_cmdBuffer c) = take 10 (cmd_bytes tag cc handles area params)" by simp
  with patch_same [of r "ctx_cmdBuffer c"] assms(2) b
  have "patch (patch (ctx_cmdBuffer c) 0 r) 0 (take 10 (cmd_bytes tag cc handles area params)) = ctx_cmdBuffer c" by simp
  with assms b show ?thesis by (auto simp: holds_command_def ctx_ok_def)
qed

text \<open>After a successful response the outputs can be read.\<close>

lemma response_holds_answered:
  assumes c: "ctx_ok c" "ctx_rspParamsSize c = of_nat (sizeof_header + length handles)"
    and n: "sizeof_header + length body \<le> unat (ctx_maxCmdSize c)"
    and body: "body = handles @ psize @ params @ rest"
      "psize = (if tag = TPM2_ST_SESSIONS then be_bytes (k :: UINT32) else [])"
  shows "response_holds ((answered t s (rsp_bytes tag 0 body) c)\<lparr>ctx_previousStage := CMD_STAGE_RECEIVE_RESPONSE\<rparr>) handles params"
proof -
  let ?r = "rsp_bytes tag 0 body"
  let ?c = "(answered t s ?r c)\<lparr>ctx_previousStage := CMD_STAGE_RECEIVE_RESPONSE\<rparr>"
  have len: "10 + length body \<le> length (ctx_cmdBuffer c)" and n32: "10 + length body < 2 ^ 32"
    using c(1) n unat_32_less [of "ctx_maxCmdSize c"] by (auto simp: ctx_ok_def)
  have sg: "seg (patch (ctx_cmdBuffer c) 0 ?r) i k = seg ?r i k" if "i + k \<le> 10 + length body" for i k
    using that by (simp add: patch_def seg_def take_drop)
  have tg: "rsp_tag ?c = tag"
    by (simp add: rsp_tag_def answered_def sg) (simp add: seg_def rsp_bytes_def)
  have sz: "rsp_size ?c = of_nat (10 + length body)"
    by (simp add: rsp_size_def answered_def sg del: of_nat_add) (simp add: seg_def rsp_bytes_def)
  have pl: "length psize = (if tag = TPM2_ST_SESSIONS then 4 else 0)" by (simp add: body(2))
  have at: "params_at ?c = of_nat (10 + length handles + length psize)"
    unfolding params_at_def tg using pl by (simp add: answered_def c(2))
  have lb: "length body = length handles + length psize + length params + length rest" by (simp add: body(1))
  have u: "unat (params_at ?c) = 10 + length handles + length psize"
    unfolding at using n32 lb by (intro unat_of_nat_64) simp
  have uh: "unat (of_nat (10 + length handles) :: size_t) = 10 + length handles"
    using n32 lb by (intro unat_of_nat_64) simp
  have h: "seg ?r 10 (length handles) = handles" by (simp add: seg_def rsp_bytes_def body(1))
  have q: "seg ?r (10 + length handles + length psize) (length params) = params"
    by (simp add: seg_def rsp_bytes_def body(1))
  have ok: "ctx_ok ?c" using c(1) len by (simp add: answered_def ctx_ok_def)
  have le: "rsp_size ?c \<le> ctx_maxCmdSize c"
    unfolding sz using n n32 by (simp add: word_le_nat_alt unat_of_nat_32 del: of_nat_add)
  have buf: "ctx_cmdBuffer ?c = patch (ctx_cmdBuffer c) 0 ?r" "ctx_maxCmdSize ?c = ctx_maxCmdSize c"
    "ctx_rspParamsSize ?c = ctx_rspParamsSize c" "ctx_nextData ?c = 10" "ctx_previousStage ?c = CMD_STAGE_RECEIVE_RESPONSE"
    by (simp_all add: answered_def)
  have "holds_at (patch (ctx_cmdBuffer c) 0 ?r) (ucast (ctx_maxCmdSize c)) 10 handles"
    using sg [of 10 "length handles"] h n lb by (simp add: holds_at_def fits_def)
  moreover have "holds_at (patch (ctx_cmdBuffer c) 0 ?r) (ucast (ctx_maxCmdSize c)) (params_at ?c) params"
    using sg [of "10 + length handles + length psize" "length params"] q n lb u by (simp add: holds_at_def fits_def)
  moreover have "tag = TPM2_ST_SESSIONS \<longrightarrow> unat (ctx_rspParamsSize c) + 4 \<le> unat (ctx_maxCmdSize c)"
    using n lb pl uh by (auto simp: c(2) simp del: of_nat_add)
  ultimately show ?thesis unfolding response_holds_def tg buf using ok le by auto
qed

end
