(* ===== verification/Sys_Machine.thy ===== *)
theory Sys_Machine
  imports Sys_Transfer
begin

text \<open>
  The system API as a state machine: one step is one call on a context, with any arguments a
  caller may pass and any transport that keeps to its contract.  The invariant of the reachable
  contexts and the order in which the stages follow each other are shown by rule induction.
\<close>

section \<open>Transports\<close>

text \<open>
  What the API relies on: \<open>receive\<close> leaves the response buffer a buffer of the same length, whatever
  it writes into it.
\<close>

definition tcti_ok :: "'t TSS2_TCTI_CONTEXT \<Rightarrow> bool" where
  "tcti_ok t \<longleftrightarrow> (\<forall>receive. TCTI_receive t = Some receive \<longrightarrow>
     (\<forall>s n b timeout. \<exists>rc n' b' s'. receive s n (Some b) timeout = (rc, n', Some b', s') \<and> length b' = length b))"

definition ctx_inv :: "'t TSS2_SYS_CONTEXT_BLOB \<Rightarrow> bool" where
  "ctx_inv c \<longleftrightarrow> ctx_ok c \<and> (\<forall>t. ctx_tctiContext c = Some t \<longrightarrow> tcti_ok t) \<and>
     ctx_previousStage c \<in> {CMD_STAGE_INITIALIZE, CMD_STAGE_PREPARE, CMD_STAGE_SEND_COMMAND, CMD_STAGE_RECEIVE_RESPONSE}"

lemma tcti_ok_state [simp]: "tcti_ok (t\<lparr>TCTI_state := s\<rparr>) = tcti_ok t"
  by (simp add: tcti_ok_def)

lemma Receive_keeps:
  assumes "\<forall>t. tc = Some t \<longrightarrow> tcti_ok t"
  shows "\<exists>rc n' b' tc'. Tss2_Tcti_Receive tc n (Some b) timeout = (rc, n', Some b', tc') \<and> length b' = length b \<and>
    (\<forall>t. tc' = Some t \<longrightarrow> tcti_ok t)"
proof (cases "\<exists>t g. tc = Some t \<and> \<not> TCTI_version t < 1 \<and> TCTI_receive t = Some g")
  case True
  then obtain t g where t: "tc = Some t" "\<not> TCTI_version t < 1" "TCTI_receive t = Some g" by blast
  then obtain rc n' b' s' where "g (TCTI_state t) n (Some b) timeout = (rc, n', Some b', s')" "length b' = length b"
    using assms by (metis tcti_ok_def)
  with t assms show ?thesis by (simp add: Tss2_Tcti_Receive_def)
next
  case False
  then show ?thesis using assms by (cases tc) (auto simp: Tss2_Tcti_Receive_def split: option.splits)
qed

lemma Receive_tcti:
  assumes "\<forall>t. tc = Some t \<longrightarrow> tcti_ok t" "Tss2_Tcti_Receive tc n b timeout = (rc, n', b', tc')"
  shows "\<forall>t. tc' = Some t \<longrightarrow> tcti_ok t"
  using assms by (auto simp: Tss2_Tcti_Receive_def split: option.splits if_splits prod.splits)

section \<open>Calls keep the invariant\<close>

lemma finish_response_keeps:
  assumes "ctx_ok c"
  shows "\<exists>rc c'. finish_response c = Some (rc, c') \<and> ctx_ok c' \<and> ctx_tctiContext c' = ctx_tctiContext c \<and>
    ctx_previousStage c' \<in> {CMD_STAGE_PREPARE, CMD_STAGE_RECEIVE_RESPONSE}"
  using assms by (auto simp: finish_response_def Let_def mem_write_def ctx_ok_def)

lemma read_rsp_header_keeps:
  assumes "ctx_ok c"
  shows "\<exists>rc c'. read_rsp_header c = Some (rc, c') \<and> ctx_ok c' \<and> ctx_tctiContext c' = ctx_tctiContext c \<and>
    ctx_previousStage c' = ctx_previousStage c"
  using assms by (auto simp: read_rsp_header_eq Let_def)

lemma ExecuteFinish_keeps:
  assumes "ctx_inv c"
  shows "\<exists>rc c'. Tss2_Sys_ExecuteFinish (Some c) timeout = Some (rc, Some c') \<and> ctx_inv c' \<and>
    (ctx_previousStage c' = ctx_previousStage c \<or> ctx_previousStage c = CMD_STAGE_SEND_COMMAND \<and>
      ctx_previousStage c' \<in> {CMD_STAGE_PREPARE, CMD_STAGE_RECEIVE_RESPONSE})"
proof (cases "ctx_previousStage c = CMD_STAGE_SEND_COMMAND")
  case False
  then show ?thesis using assms by (simp add: Tss2_Sys_ExecuteFinish_def)
next
  case st: True
  obtain r1 n1 b1 tc1 where 1: "Tss2_Tcti_Receive (ctx_tctiContext c) 0 None timeout = (r1, n1, b1, tc1)"
    by (metis prod_cases4)
  have inv: "ctx_ok c" "\<forall>t. ctx_tctiContext c = Some t \<longrightarrow> tcti_ok t" using assms by (auto simp: ctx_inv_def)
  have t1: "\<forall>t. tc1 = Some t \<longrightarrow> tcti_ok t" by (rule Receive_tcti [OF inv(2) 1])
  from Receive_keeps [OF t1, of n1 "ctx_cmdBuffer c" timeout] obtain r2 n2 b2 tc2 where
    2: "Tss2_Tcti_Receive tc1 n1 (Some (ctx_cmdBuffer c)) timeout = (r2, n2, Some b2, tc2)"
      "length b2 = length (ctx_cmdBuffer c)" "\<forall>t. tc2 = Some t \<longrightarrow> tcti_ok t" by blast
  let ?c2 = "c\<lparr>ctx_tctiContext := tc2, ctx_cmdBuffer := b2\<rparr>"
  have ok2: "ctx_ok ?c2" using inv(1) 2(2) by (simp add: ctx_ok_def)
  from read_rsp_header_keeps [OF ok2] obtain r3 c3 where
    3: "read_rsp_header ?c2 = Some (r3, c3)" "ctx_ok c3" "ctx_tctiContext c3 = tc2" "ctx_previousStage c3 = CMD_STAGE_SEND_COMMAND"
    using st by auto
  from finish_response_keeps [OF 3(2)] obtain r4 c4 where
    4: "finish_response c3 = Some (r4, c4)" "ctx_ok c4" "ctx_tctiContext c4 = tc2"
      "ctx_previousStage c4 \<in> {CMD_STAGE_PREPARE, CMD_STAGE_RECEIVE_RESPONSE}"
    using 3(3) by auto
  have "Tss2_Sys_ExecuteFinish (Some c) timeout =
    (if r1 \<noteq> 0 then Some (r1, Some (c\<lparr>ctx_tctiContext := tc1\<rparr>))
     else if n1 < 10 then Some (TSS2_SYS_RC_INSUFFICIENT_RESPONSE, Some (c\<lparr>ctx_tctiContext := tc1, ctx_previousStage := CMD_STAGE_PREPARE\<rparr>))
     else if n1 > ucast (ctx_maxCmdSize c) then Some (TSS2_SYS_RC_INSUFFICIENT_CONTEXT, Some (c\<lparr>ctx_tctiContext := tc1, ctx_previousStage := CMD_STAGE_PREPARE\<rparr>))
     else if r2 = TSS2_TCTI_RC_INSUFFICIENT_BUFFER then Some (TSS2_SYS_RC_INSUFFICIENT_CONTEXT, Some ?c2)
     else if r2 \<noteq> 0 then Some (r2, Some ?c2)
     else if r3 \<noteq> 0 then Some (r3, Some c3) else Some (r4, Some c4))"
    using st 1 2(1) 3(1) 4(1) by (simp add: Tss2_Sys_ExecuteFinish_def Let_def)
  then show ?thesis
    using assms inv(1) t1 2(3) ok2 3(2-4) 4(2-4) st unfolding ctx_inv_def
    by (simp split: if_split) auto
qed

text \<open>Calls that only write into the buffer and move the pointers.\<close>

definition same_room :: "'t TSS2_SYS_CONTEXT_BLOB \<Rightarrow> 't TSS2_SYS_CONTEXT_BLOB \<Rightarrow> bool" where
  "same_room c c' \<longleftrightarrow> length (ctx_cmdBuffer c') = length (ctx_cmdBuffer c) \<and> ctx_maxCmdSize c' = ctx_maxCmdSize c \<and>
     ctx_cmd_header c' = ctx_cmd_header c \<and> ctx_tctiContext c' = ctx_tctiContext c \<and>
     ctx_previousStage c' = ctx_previousStage c"

lemma same_room_refl [simp]: "same_room c c"
  by (simp add: same_room_def)

lemma same_room_trans: "same_room c c' \<Longrightarrow> same_room c' c'' \<Longrightarrow> same_room c c''"
  by (simp add: same_room_def)

lemma same_room_inv: "same_room c c' \<Longrightarrow> ctx_inv c \<Longrightarrow> ctx_inv c'"
  by (simp add: same_room_def ctx_inv_def ctx_ok_def)

lemma same_room_update [simp]:
  "same_room (c\<lparr>ctx_authsCount := k\<rparr>) c' = same_room c c'" "same_room c (c'\<lparr>ctx_authsCount := k\<rparr>) = same_room c c'"
  "same_room c (c'\<lparr>ctx_cpBuffer := n\<rparr>) = same_room c c'" "same_room c (c'\<lparr>ctx_cpBufferUsedSize := u\<rparr>) = same_room c c'"
  "length b = length (ctx_cmdBuffer c) \<Longrightarrow> same_room c (c\<lparr>ctx_cmdBuffer := b\<rparr>)"
  by (simp_all add: same_room_def)

lemma mem_write_length: "mem_write b i xs = Some b' \<Longrightarrow> length b' = length b"
  by (auto simp: mem_write_def split: if_splits)

lemma header_set_room: "header_set i w c = Some c' \<Longrightarrow> same_room c c'"
  by (auto simp: header_set_def dest: mem_write_length)

lemma marshal_auths_length:
  "marshal_auths auths b bs off = Some (rc, b', off') \<Longrightarrow> \<forall>a \<in> set auths. src_TPMS_AUTH_COMMAND a \<Longrightarrow>
   unat bs \<le> length b \<Longrightarrow> length b' = length b"
proof (induction auths arbitrary: b off)
  case (Cons a auths)
  then have "src_TPMS_AUTH_COMMAND a" by simp
  from mu_TPMS_AUTH_COMMAND.marshal_total [OF this Cons.prems(3), of off] obtain r b1 o1 where
    m: "Tss2_MU_TPMS_AUTH_COMMAND_Marshal (Some a) (Some b) bs (Some off) = Some (r, Some b1, Some o1)" "length b1 = length b"
    by (auto simp: untouched_def)
  with Cons show ?case by (auto split: if_splits)
qed simp

lemma insert_auths_room:
  assumes "insert_auths n N auths c = Some (rc, c')" "\<forall>a \<in> set auths. src_TPMS_AUTH_COMMAND a"
    and "unat N \<le> length (ctx_cmdBuffer c)"
  shows "same_room c c'"
proof -
  from assms(1) obtain xs b1 b2 r b3 o3 where
    1: "mem_write (ctx_cmdBuffer c) (ctx_cpBuffer c + (ucast n + 4)) xs = Some b1" "mem_write b1 (ctx_cpBuffer c) [0, 0, 0, 0] = Some b2"
    and 2: "Tss2_MU_UINT32_Marshal n (Some b2) (ucast N) (Some (ctx_cpBuffer c)) = Some (r, Some b3, Some o3)"
    and 3: "(if r \<noteq> 0 then Some (r, c\<lparr>ctx_cmdBuffer := b3\<rparr>)
       else (case marshal_auths auths b3 (ucast N) o3 of None \<Rightarrow> None
             | Some (rval, b4, _) \<Rightarrow>
                 (case header_set 2 N (c\<lparr>ctx_cmdBuffer := b4, ctx_cpBuffer := ctx_cpBuffer c + (ucast n + 4)\<rparr>) of
                    None \<Rightarrow> None | Some c \<Rightarrow> Some (rval, c\<lparr>ctx_authsCount := of_nat (length auths)\<rparr>)))) = Some (rc, c')"
    by (auto simp: insert_auths_def Let_def split: option.splits prod.splits)
  have l2: "length b2 = length (ctx_cmdBuffer c)" using mem_write_length [OF 1(1)] mem_write_length [OF 1(2)] by simp
  have "unat (ucast N :: size_t) \<le> length b2" using assms(3) l2 by simp
  from mu_UINT32.marshal_total [OF _ this, of n "ctx_cpBuffer c"] 2 l2 have l3: "length b3 = length (ctx_cmdBuffer c)"
    by (auto simp: untouched_def)
  show ?thesis
  proof (cases "r = 0")
    case False
    with 3 l3 show ?thesis by auto
  next
    case True
    with 3 obtain rval b4 o4 c4 where
      4: "marshal_auths auths b3 (ucast N) o3 = Some (rval, b4, o4)"
        "header_set 2 N (c\<lparr>ctx_cmdBuffer := b4, ctx_cpBuffer := ctx_cpBuffer c + (ucast n + 4)\<rparr>) = Some c4"
        "c' = c4\<lparr>ctx_authsCount := of_nat (length auths)\<rparr>" by (auto split: option.splits prod.splits)
    have "length b4 = length (ctx_cmdBuffer c)"
      using marshal_auths_length [OF 4(1) assms(2)] assms(3) l3 by simp
    then show ?thesis using header_set_room [OF 4(2)] 4(3) by (simp add: same_room_def)
  qed
qed

lemma SetCmdAuths_room:
  assumes "Tss2_Sys_SetCmdAuths (Some c) arr = Some (rc, Some c')" "ctx_ok c"
    and "\<forall>a. arr = Some a \<longrightarrow> (\<forall>x \<in> set (AUTH_COMMAND_auths a). src_TPMS_AUTH_COMMAND x)"
  shows "same_room c c'"
proof (cases "c' = c")
  case False
  let ?hs = "\<lambda>c1. header_set 0 TPM2_ST_SESSIONS (c\<lparr>ctx_authsCount := 0\<rparr>) = Some c1"
  from assms(1) False obtain a c1 where a: "arr = Some a" and h: "?hs c1"
    by (auto simp: Tss2_Sys_SetCmdAuths_def Let_def split: option.splits if_splits)
  have r1: "same_room c c1" using header_set_room [OF h] by simp
  from assms(1) False a h consider "c' = c1"
    | auths n N where "insert_auths n N auths c1 = Some (rc, c')" "N \<le> ctx_maxCmdSize c1" "set auths \<subseteq> set (AUTH_COMMAND_auths a)"
    by (auto simp: Tss2_Sys_SetCmdAuths_def Let_def not_less split: option.splits if_splits dest: in_set_takeD)
  then show ?thesis
  proof cases
    case 1
    then show ?thesis using r1 by simp
  next
    case 2
    have "unat N \<le> length (ctx_cmdBuffer c1)"
      using 2(2) r1 assms(2) by (auto simp: same_room_def ctx_ok_def word_le_nat_alt)
    moreover have "\<forall>x \<in> set auths. src_TPMS_AUTH_COMMAND x" using assms(3) a 2(3) by auto
    ultimately show ?thesis using insert_auths_room [OF 2(1)] r1 same_room_trans by blast
  qed
qed simp

lemma insert_param_room: "insert_param c n = Some (rc, c') \<Longrightarrow> same_room c c'"
  by (auto simp: insert_param_def Let_def same_room_def header_set_def dest!: mem_write_length split: option.splits if_splits)

lemma SetDecryptParam_room:
  "Tss2_Sys_SetDecryptParam (Some c) n pb = Some (rc, Some c') \<Longrightarrow> same_room c c'"
  by (auto simp: Tss2_Sys_SetDecryptParam_def Let_def same_room_def header_set_def
      dest!: insert_param_room mem_write_length split: option.splits prod.splits if_splits)

lemma SetEncryptParam_room:
  "Tss2_Sys_SetEncryptParam (Some c) n pb = Some (rc, Some c') \<Longrightarrow> same_room c c'"
  by (auto simp: Tss2_Sys_SetEncryptParam_def dest!: mem_write_length split: option.splits prod.splits if_splits)

lemma ExecuteAsync_keeps:
  assumes "Tss2_Sys_ExecuteAsync (Some c) = Some (rc, Some c')" "ctx_inv c"
  shows "ctx_inv c' \<and> (ctx_previousStage c' = ctx_previousStage c \<or>
    ctx_previousStage c = CMD_STAGE_PREPARE \<and> ctx_previousStage c' = CMD_STAGE_SEND_COMMAND)"
proof -
  have t: "\<forall>t. tc = Some t \<longrightarrow> tcti_ok t" if "Tss2_Tcti_Transmit (ctx_tctiContext c) n b = Some (r, tc)" for n b r tc
    using that assms(2) by (auto simp: Tss2_Tcti_Transmit_def ctx_inv_def split: option.splits if_splits prod.splits)
  show ?thesis
    using assms t
    by (auto simp: Tss2_Sys_ExecuteAsync_def Let_def ctx_inv_def ctx_ok_def mem_read_def split: option.splits if_splits)
qed

section \<open>The machine\<close>

text \<open>
  One call that returned, with the stage it may lead to.  A \<open>_Complete\<close> function changes nothing but
  the position in the response (\<open>complete_call\<close>).
\<close>

definition completes :: "'t TSS2_SYS_CONTEXT_BLOB \<Rightarrow> 't TSS2_SYS_CONTEXT_BLOB \<Rightarrow> bool" where
  "completes c c' \<longleftrightarrow> c' = c\<lparr>ctx_nextData := ctx_nextData c'\<rparr>"

inductive sys_call :: "'t TSS2_SYS_CONTEXT_BLOB \<Rightarrow> 't TSS2_SYS_CONTEXT_BLOB \<Rightarrow> bool" where
  call_prepare: "sys_prepare P cc nulls src valid handles params null dec enc auth \<Longrightarrow> src \<Longrightarrow>
    P (Some c) = Some (rc, Some c') \<Longrightarrow> sys_call c c'"
| call_set_auths: "Tss2_Sys_SetCmdAuths (Some c) arr = Some (rc, Some c') \<Longrightarrow>
    \<forall>a. arr = Some a \<longrightarrow> (\<forall>x \<in> set (AUTH_COMMAND_auths a). src_TPMS_AUTH_COMMAND x) \<Longrightarrow> sys_call c c'"
| call_set_decrypt: "Tss2_Sys_SetDecryptParam (Some c) n pb = Some (rc, Some c') \<Longrightarrow> sys_call c c'"
| call_set_encrypt: "Tss2_Sys_SetEncryptParam (Some c) n pb = Some (rc, Some c') \<Longrightarrow> sys_call c c'"
| call_async: "Tss2_Sys_ExecuteAsync (Some c) = Some (rc, Some c') \<Longrightarrow> sys_call c c'"
| call_finish: "Tss2_Sys_ExecuteFinish (Some c) timeout = Some (rc, Some c') \<Longrightarrow> sys_call c c'"
| call_complete: "completes c c' \<Longrightarrow> sys_call c c'"
| call_abort: "Tss2_Sys_Abort (Some c) = Some (rc, Some c') \<Longrightarrow> sys_call c c'"

definition next_stages :: "UINT8 \<Rightarrow> UINT8 set" where
  "next_stages st = {st, CMD_STAGE_INITIALIZE} \<union>
     (if st \<in> {CMD_STAGE_INITIALIZE, CMD_STAGE_RECEIVE_RESPONSE} then {CMD_STAGE_PREPARE} else {}) \<union>
     (if st = CMD_STAGE_PREPARE then {CMD_STAGE_SEND_COMMAND} else {}) \<union>
     (if st = CMD_STAGE_SEND_COMMAND then {CMD_STAGE_PREPARE, CMD_STAGE_RECEIVE_RESPONSE} else {})"

lemma complete_call:
  assumes "sys_complete C cc wt valid handles params" "ctx_ok c" "wt outs"
    and "C (Some c, outs) = Some (rc, Some c', outs')"
  shows "sys_call c c'"
  using sys_complete.complete_total [OF assms(1-3)] assms(4)
  by (intro call_complete) (auto simp: completes_def)

lemma sys_call_inv:
  assumes "sys_call c c'" "ctx_inv c"
  shows "ctx_inv c' \<and> ctx_previousStage c' \<in> next_stages (ctx_previousStage c)"
  using assms
proof (induction rule: sys_call.induct)
  case (call_prepare P cc nulls src valid handles params null dec enc auth c rc c')
  have ok: "ctx_ok c" using call_prepare.prems by (simp add: ctx_inv_def)
  from sys_prepare.prepare_total [OF call_prepare.hyps(1) ok call_prepare.hyps(2)] call_prepare.hyps(3)
  have c': "ctx_ok c'" "rc = 0 \<longrightarrow> may_prepare c \<and> c' = prepared cc handles params null dec enc auth c"
    "rc \<noteq> 0 \<longrightarrow> ctx_previousStage c' = ctx_previousStage c" by auto
  have "ctx_tctiContext c' = ctx_tctiContext c"
    using sys_prepare.prepare_total [OF call_prepare.hyps(1) ok call_prepare.hyps(2)] call_prepare.hyps(3) by auto
  then show ?case using c' call_prepare.prems
    by (cases "rc = 0") (auto simp: ctx_inv_def prepared_def may_prepare_def next_stages_def)
next
  case (call_set_auths c arr rc c')
  then have "same_room c c'" by (intro SetCmdAuths_room) (auto simp: ctx_inv_def)
  with call_set_auths.prems same_room_inv show ?case by (auto simp: same_room_def next_stages_def)
next
  case (call_set_decrypt c n pb rc c')
  then have "same_room c c'" by (intro SetDecryptParam_room)
  with call_set_decrypt.prems same_room_inv show ?case by (auto simp: same_room_def next_stages_def)
next
  case (call_set_encrypt c n pb rc c')
  then have "same_room c c'" by (intro SetEncryptParam_room)
  with call_set_encrypt.prems same_room_inv show ?case by (auto simp: same_room_def next_stages_def)
next
  case (call_async c rc c')
  with ExecuteAsync_keeps [of c rc c'] show ?case by (auto simp: next_stages_def)
next
  case (call_finish c timeout rc c')
  with ExecuteFinish_keeps [of c timeout] show ?case by (auto simp: next_stages_def)
next
  case (call_complete c c')
  then obtain n where "c' = c\<lparr>ctx_nextData := n\<rparr>" unfolding completes_def by blast
  with call_complete.prems show ?case by (simp add: ctx_inv_def next_stages_def)
next
  case (call_abort c rc c')
  then show ?case by (auto simp: Tss2_Sys_Abort_def ctx_inv_def next_stages_def)
qed

lemma reachable_inv:
  assumes "sys_call\<^sup>*\<^sup>* c c'" "ctx_inv c"
  shows "ctx_inv c'"
  using assms by (induction rule: rtranclp_induct) (auto dest: sys_call_inv)

text \<open>
  The specification of the system API as a protocol of four phases with labelled steps, and the proof
  that every sequence of calls on a context, each labelled with its return code, is a run of it.
  After it, the safety of building a command: whatever authorizations and parameters are put
  into a prepared command, nothing is read or written outside the command buffer.
\<close>

section \<open>Runs and simulations\<close>

inductive runs :: "('s \<Rightarrow> 'e \<Rightarrow> 's \<Rightarrow> bool) \<Rightarrow> 's \<Rightarrow> 'e list \<Rightarrow> 's \<Rightarrow> bool" for step where
  runs_Nil: "runs step s [] s"
| runs_Cons: "step s e s' \<Longrightarrow> runs step s' es s'' \<Longrightarrow> runs step s (e # es) s''"

inductive_simps runs_simps [simp]: "runs step s [] s'" "runs step s (e # es) s''"

locale simulation =
  fixes step :: "'s \<Rightarrow> 'e \<Rightarrow> 's \<Rightarrow> bool" and spec :: "'a \<Rightarrow> 'e \<Rightarrow> 'a \<Rightarrow> bool" and abs :: "'s \<Rightarrow> 'a" and inv :: "'s \<Rightarrow> bool"
  assumes step_inv: "inv s \<Longrightarrow> step s e s' \<Longrightarrow> inv s'"
    and step_spec: "inv s \<Longrightarrow> step s e s' \<Longrightarrow> spec (abs s) e (abs s')"
begin

lemma runs_inv: "runs step s es s' \<Longrightarrow> inv s \<Longrightarrow> inv s'"
  by (induction rule: runs.induct) (auto dest: step_inv)

lemma runs_spec: "runs step s es s' \<Longrightarrow> inv s \<Longrightarrow> runs spec (abs s) es (abs s')"
  by (induction rule: runs.induct) (auto dest: step_inv step_spec)

end

section \<open>The protocol\<close>

datatype phase = Idle | Ready | Waiting | Answered

text \<open>A call with the code it returned.\<close>

datatype sys_event = EvPrepare TSS2_RC | EvSetCmdAuths TSS2_RC | EvSetDecryptParam TSS2_RC | EvSetEncryptParam TSS2_RC
  | EvExecuteAsync TSS2_RC | EvExecuteFinish TSS2_RC | EvComplete TSS2_RC | EvAbort

text \<open>
  The phases and the codes that may come with them.  A command is prepared unless one is under way;
  it takes authorizations and a parameter only when it is ready, and is sent only then.  Only a
  context that waits receives: success makes the response available, and an error either
  leaves the context waiting or makes the command ready to be sent again; \<open>TPM2_RC_INITIALIZE\<close> is the
  one error that counts as a response.  Outputs are read only from a response.
\<close>

inductive protocol :: "phase \<Rightarrow> sys_event \<Rightarrow> phase \<Rightarrow> bool" where
  prepare: "p \<noteq> Waiting \<Longrightarrow> protocol p (EvPrepare 0) Ready"
| prepare_error: "rc \<noteq> 0 \<Longrightarrow> protocol p (EvPrepare rc) p"
| auths: "rc = 0 \<longrightarrow> p = Ready \<Longrightarrow> protocol p (EvSetCmdAuths rc) p"
| decrypt: "rc = 0 \<longrightarrow> p = Ready \<Longrightarrow> protocol p (EvSetDecryptParam rc) p"
| encrypt: "rc = 0 \<longrightarrow> p = Answered \<Longrightarrow> protocol p (EvSetEncryptParam rc) p"
| send: "protocol Ready (EvExecuteAsync 0) Waiting"
| send_error: "rc \<noteq> 0 \<Longrightarrow> p \<noteq> Ready \<longrightarrow> rc = TSS2_SYS_RC_BAD_SEQUENCE \<Longrightarrow> protocol p (EvExecuteAsync rc) p"
| receive: "protocol Waiting (EvExecuteFinish 0) Answered"
| receive_early: "rc \<noteq> 0 \<Longrightarrow> p \<noteq> Waiting \<longrightarrow> rc = TSS2_SYS_RC_BAD_SEQUENCE \<Longrightarrow> protocol p (EvExecuteFinish rc) p"
| receive_error: "rc \<noteq> 0 \<Longrightarrow> protocol Waiting (EvExecuteFinish rc) Ready"
| receive_initialize: "protocol Waiting (EvExecuteFinish TPM2_RC_INITIALIZE) Answered"
| complete: "rc = 0 \<longrightarrow> p = Answered \<Longrightarrow> protocol p (EvComplete rc) p"
| abort: "protocol p EvAbort Idle"

inductive_simps protocol_simps [simp]:
  "protocol p (EvPrepare rc) q" "protocol p (EvSetCmdAuths rc) q" "protocol p (EvSetDecryptParam rc) q"
  "protocol p (EvSetEncryptParam rc) q" "protocol p (EvExecuteAsync rc) q" "protocol p (EvExecuteFinish rc) q"
  "protocol p (EvComplete rc) q" "protocol p EvAbort q"

definition waiting :: "phase \<Rightarrow> nat" where
  "waiting p = (if p = Waiting then 1 else 0)"

text \<open>In the protocol no two responses belong to one sent command.\<close>

lemma protocol_response_per_send:
  assumes "runs protocol p es q"
  shows "length (filter (\<lambda>e. e = EvExecuteFinish 0) es) + waiting q \<le> length (filter (\<lambda>e. e = EvExecuteAsync 0) es) + waiting p"
  using assms
proof (induction rule: runs.induct)
  case (runs_Cons p e q es r)
  then show ?case by (cases e) (auto simp: waiting_def split: if_splits)
qed simp

definition phase_of :: "'t TSS2_SYS_CONTEXT_BLOB \<Rightarrow> phase" where
  "phase_of c =
     (if ctx_previousStage c = CMD_STAGE_PREPARE then Ready
      else if ctx_previousStage c = CMD_STAGE_SEND_COMMAND then Waiting
      else if ctx_previousStage c = CMD_STAGE_RECEIVE_RESPONSE then Answered
      else Idle)"

lemma stages_distinct [simp]:
  "CMD_STAGE_INITIALIZE \<noteq> CMD_STAGE_PREPARE" "CMD_STAGE_INITIALIZE \<noteq> CMD_STAGE_SEND_COMMAND"
  "CMD_STAGE_INITIALIZE \<noteq> CMD_STAGE_RECEIVE_RESPONSE" "CMD_STAGE_PREPARE \<noteq> CMD_STAGE_SEND_COMMAND"
  "CMD_STAGE_PREPARE \<noteq> CMD_STAGE_RECEIVE_RESPONSE" "CMD_STAGE_SEND_COMMAND \<noteq> CMD_STAGE_RECEIVE_RESPONSE"
  by (simp_all add: stage_defs)

lemma phase_of_simps [simp]:
  "ctx_previousStage c = CMD_STAGE_INITIALIZE \<Longrightarrow> phase_of c = Idle"
  "ctx_previousStage c = CMD_STAGE_PREPARE \<Longrightarrow> phase_of c = Ready"
  "ctx_previousStage c = CMD_STAGE_SEND_COMMAND \<Longrightarrow> phase_of c = Waiting"
  "ctx_previousStage c = CMD_STAGE_RECEIVE_RESPONSE \<Longrightarrow> phase_of c = Answered"
  by (simp_all add: phase_of_def stages_distinct [symmetric])

lemma phase_of_eq:
  "phase_of c = Ready \<longleftrightarrow> ctx_previousStage c = CMD_STAGE_PREPARE"
  "phase_of c = Waiting \<longleftrightarrow> ctx_previousStage c = CMD_STAGE_SEND_COMMAND"
  "phase_of c = Answered \<longleftrightarrow> ctx_previousStage c = CMD_STAGE_RECEIVE_RESPONSE"
  by (auto simp: phase_of_def stages_distinct [symmetric])

lemma same_room_phase: "same_room c c' \<Longrightarrow> phase_of c' = phase_of c"
  by (simp add: same_room_def phase_of_def)

section \<open>Calls with their codes\<close>

text \<open>
  A call on a context with any arguments and any transport, labelled with the code it returns.  The
  contracts \<open>sys_prepare\<close> and \<open>sys_complete\<close> hold for the \<open>_Prepare\<close> and \<open>_Complete\<close> functions of every
  command; what the latter do to a context is \<open>completes_with\<close> (\<open>complete_step\<close>).
\<close>

definition completes_with :: "'t TSS2_SYS_CONTEXT_BLOB \<Rightarrow> TSS2_RC \<Rightarrow> 't TSS2_SYS_CONTEXT_BLOB \<Rightarrow> bool" where
  "completes_with c rc c' \<longleftrightarrow> completes c c' \<and> (ctx_previousStage c \<noteq> CMD_STAGE_RECEIVE_RESPONSE \<longrightarrow> rc \<noteq> 0)"

inductive sys_step :: "'t TSS2_SYS_CONTEXT_BLOB \<Rightarrow> sys_event \<Rightarrow> 't TSS2_SYS_CONTEXT_BLOB \<Rightarrow> bool" where
  step_prepare: "sys_prepare P cc nulls src valid handles params null dec enc auth \<Longrightarrow> src \<Longrightarrow>
    P (Some c) = Some (rc, Some c') \<Longrightarrow> sys_step c (EvPrepare rc) c'"
| step_auths: "Tss2_Sys_SetCmdAuths (Some c) arr = Some (rc, Some c') \<Longrightarrow>
    \<forall>a. arr = Some a \<longrightarrow> (\<forall>x \<in> set (AUTH_COMMAND_auths a). src_TPMS_AUTH_COMMAND x) \<Longrightarrow> sys_step c (EvSetCmdAuths rc) c'"
| step_decrypt: "Tss2_Sys_SetDecryptParam (Some c) n pb = Some (rc, Some c') \<Longrightarrow> sys_step c (EvSetDecryptParam rc) c'"
| step_encrypt: "Tss2_Sys_SetEncryptParam (Some c) n pb = Some (rc, Some c') \<Longrightarrow> sys_step c (EvSetEncryptParam rc) c'"
| step_async: "Tss2_Sys_ExecuteAsync (Some c) = Some (rc, Some c') \<Longrightarrow> sys_step c (EvExecuteAsync rc) c'"
| step_finish: "Tss2_Sys_ExecuteFinish (Some c) timeout = Some (rc, Some c') \<Longrightarrow> sys_step c (EvExecuteFinish rc) c'"
| step_complete: "completes_with c rc c' \<Longrightarrow> sys_step c (EvComplete rc) c'"
| step_abort: "Tss2_Sys_Abort (Some c) = Some (rc, Some c') \<Longrightarrow> sys_step c EvAbort c'"

lemma complete_step:
  assumes "sys_complete C cc wt valid handles params" "ctx_ok c" "wt outs"
    and "C (Some c, outs) = Some (rc, Some c', outs')"
  shows "sys_step c (EvComplete rc) c'"
  using sys_complete.complete_total [OF assms(1-3)] assms(4)
  by (intro step_complete) (auto simp: completes_def completes_with_def)

lemma sys_step_call: "sys_step c e c' \<Longrightarrow> sys_call c c'"
  by (induction rule: sys_step.induct) (auto simp: completes_with_def intro: sys_call.intros)

lemma SetCmdAuths_stage:
  "Tss2_Sys_SetCmdAuths (Some c) arr = Some (0, Some c') \<Longrightarrow> ctx_previousStage c = CMD_STAGE_PREPARE"
  by (auto simp: Tss2_Sys_SetCmdAuths_def Let_def split: option.splits if_splits)

lemma SetDecryptParam_stage:
  "Tss2_Sys_SetDecryptParam (Some c) n pb = Some (0, Some c') \<Longrightarrow> ctx_previousStage c = CMD_STAGE_PREPARE"
  by (auto simp: Tss2_Sys_SetDecryptParam_def split: option.splits if_splits)

lemma SetEncryptParam_stage:
  "Tss2_Sys_SetEncryptParam (Some c) n pb = Some (0, Some c') \<Longrightarrow> ctx_previousStage c = CMD_STAGE_RECEIVE_RESPONSE"
  by (auto simp: Tss2_Sys_SetEncryptParam_def Tss2_Sys_GetEncryptParam_def split: option.splits if_splits)

lemma ExecuteAsync_code:
  assumes "Tss2_Sys_ExecuteAsync (Some c) = Some (rc, Some c')"
  shows "if ctx_previousStage c \<noteq> CMD_STAGE_PREPARE then rc = TSS2_SYS_RC_BAD_SEQUENCE \<and> c' = c
    else ctx_previousStage c' = (if rc = 0 then CMD_STAGE_SEND_COMMAND else CMD_STAGE_PREPARE)"
  using assms by (auto simp: Tss2_Sys_ExecuteAsync_def Let_def split: option.splits prod.splits if_splits)

lemma ExecuteFinish_stage:
  assumes f: "Tss2_Sys_ExecuteFinish (Some c) timeout = Some (rc, Some c')" and "ctx_inv c"
  shows "if ctx_previousStage c \<noteq> CMD_STAGE_SEND_COMMAND then rc = TSS2_SYS_RC_BAD_SEQUENCE \<and> c' = c
    else ctx_previousStage c' \<in> {CMD_STAGE_SEND_COMMAND, CMD_STAGE_PREPARE} \<and> rc \<noteq> 0 \<or>
      ctx_previousStage c' = CMD_STAGE_RECEIVE_RESPONSE \<and> rc \<in> {0, TPM2_RC_INITIALIZE}"
proof (cases "ctx_previousStage c = CMD_STAGE_SEND_COMMAND")
  case False
  then show ?thesis using f by (auto simp: Tss2_Sys_ExecuteFinish_def)
next
  case st: True
  have inv: "ctx_ok c" "\<forall>t. ctx_tctiContext c = Some t \<longrightarrow> tcti_ok t" using assms(2) by (auto simp: ctx_inv_def)
  obtain r1 n1 b1 tc1 where 1: "Tss2_Tcti_Receive (ctx_tctiContext c) 0 None timeout = (r1, n1, b1, tc1)"
    by (metis prod_cases4)
  have t1: "\<forall>t. tc1 = Some t \<longrightarrow> tcti_ok t" by (rule Receive_tcti [OF inv(2) 1])
  from Receive_keeps [OF t1, of n1 "ctx_cmdBuffer c" timeout] obtain r2 n2 b2 tc2 where
    2: "Tss2_Tcti_Receive tc1 n1 (Some (ctx_cmdBuffer c)) timeout = (r2, n2, Some b2, tc2)"
      "length b2 = length (ctx_cmdBuffer c)" by blast
  let ?c2 = "c\<lparr>ctx_tctiContext := tc2, ctx_cmdBuffer := b2\<rparr>"
  have ok: "ctx_ok ?c2" using inv(1) 2(2) by (simp add: ctx_ok_def)
  from read_rsp_header_keeps [OF ok] obtain r3 c3 where
    3: "read_rsp_header ?c2 = Some (r3, c3)" "ctx_previousStage c3 = CMD_STAGE_SEND_COMMAND" using st by auto
  consider "ctx_previousStage c' \<in> {CMD_STAGE_SEND_COMMAND, CMD_STAGE_PREPARE}" "rc \<noteq> 0" | "finish_response c3 = Some (rc, c')"
    using f st 1 2(1) 3
    by (auto simp: Tss2_Sys_ExecuteFinish_def Let_def split: if_splits option.splits prod.splits)
  then show ?thesis
    using st by cases (auto simp: finish_response_def Let_def split: if_splits option.splits)
qed

section \<open>The calls implement the protocol\<close>

lemma sys_step_protocol:
  assumes "sys_step c e c'" "ctx_inv c"
  shows "protocol (phase_of c) e (phase_of c')"
  using assms
proof (induction rule: sys_step.induct)
  case (step_prepare P cc nulls src valid handles params null dec enc auth c rc c')
  have ok: "ctx_ok c" using step_prepare.prems by (simp add: ctx_inv_def)
  from sys_prepare.prepare_total [OF step_prepare.hyps(1) ok step_prepare.hyps(2)] step_prepare.hyps(3)
  have c': "rc = 0 \<longrightarrow> may_prepare c \<and> ctx_previousStage c' = CMD_STAGE_PREPARE"
    "rc \<noteq> 0 \<longrightarrow> ctx_previousStage c' = ctx_previousStage c" by (auto simp: prepared_def)
  then show ?case by (cases "rc = 0") (auto simp: may_prepare_def phase_of_def stages_distinct [symmetric])
next
  case (step_auths c arr rc c')
  then have "same_room c c'" by (intro SetCmdAuths_room) (auto simp: ctx_inv_def)
  then show ?case using step_auths.hyps(1) by (auto simp: same_room_phase dest: SetCmdAuths_stage)
next
  case (step_decrypt c n pb rc c')
  then show ?case by (auto simp: same_room_phase [OF SetDecryptParam_room] dest: SetDecryptParam_stage)
next
  case (step_encrypt c n pb rc c')
  then show ?case by (auto simp: same_room_phase [OF SetEncryptParam_room] dest: SetEncryptParam_stage)
next
  case (step_async c rc c')
  then show ?case using ExecuteAsync_code [of c rc c'] by (auto simp: phase_of_eq split: if_splits)
next
  case (step_finish c timeout rc c')
  then show ?case using ExecuteFinish_stage [of c timeout rc c'] by (auto simp: phase_of_eq split: if_splits)
next
  case (step_complete c rc c')
  then obtain n where "c' = c\<lparr>ctx_nextData := n\<rparr>" unfolding completes_with_def completes_def by blast
  then show ?case using step_complete.hyps by (auto simp: completes_with_def phase_of_def)
next
  case (step_abort c rc c')
  then show ?case by (auto simp: Tss2_Sys_Abort_def)
qed

interpretation sys_protocol: simulation sys_step protocol phase_of ctx_inv
  by unfold_locales (auto dest: sys_step_protocol sys_step_call sys_call_inv)

section \<open>Building a command is safe\<close>

definition command_size :: "'t TSS2_SYS_CONTEXT_BLOB \<Rightarrow> UINT32" where
  "command_size c = word_of (rev (seg (ctx_cmdBuffer c) 2 4))"

text \<open>
  A command under construction: the parameters lie behind the header and within the size that the
  header names, which is within the buffer.
\<close>

definition command_ok :: "'t TSS2_SYS_CONTEXT_BLOB \<Rightarrow> bool" where
  "command_ok c \<longleftrightarrow> ctx_ok c \<and> ctx_previousStage c = CMD_STAGE_PREPARE \<and> sizeof_header \<le> unat (ctx_cpBuffer c) \<and>
     unat (ctx_cpBuffer c) + unat (ctx_cpBufferUsedSize c) \<le> unat (command_size c) \<and>
     command_size c \<le> ctx_maxCmdSize c \<and> unat (ctx_maxCmdSize c) < 2 ^ 31 \<and>
     (ctx_decryptAllowed c \<longrightarrow> 2 \<le> unat (ctx_cpBufferUsedSize c))"

lemma GetCommandSize_ok: "ctx_ok c \<Longrightarrow> GetCommandSize c = Some (command_size c)"
  by (subst GetCommandSize_def, subst header_get_eq) (auto simp: ctx_ok_def command_size_def)

lemma seg_patch_other:
  assumes "i + length xs \<le> j \<or> j + n \<le> i" "i + length xs \<le> length b"
  shows "seg (patch b i xs) j n = seg b j n"
  using assms by (intro nth_equalityI) (auto simp: seg_def patch_nth)

lemma header_set_eq:
  fixes w :: "'a::len word"
  assumes "unat i + LENGTH('a) div 8 \<le> length (ctx_cmdBuffer c)" "8 dvd LENGTH('a)"
  shows "header_set i w c = Some (c\<lparr>ctx_cmdBuffer := patch (ctx_cmdBuffer c) (unat i) (be_bytes w)\<rparr>)"
  using assms by (simp add: header_set_def mem_write_def)

lemma command_size_patch [simp]:
  "\<lbrakk>6 \<le> i; i + length xs \<le> length (ctx_cmdBuffer c)\<rbrakk> \<Longrightarrow> command_size (c\<lparr>ctx_cmdBuffer := patch (ctx_cmdBuffer c) i xs\<rparr>) = command_size c"
  "2 \<le> length (ctx_cmdBuffer c) \<Longrightarrow> command_size (c\<lparr>ctx_cmdBuffer := patch (ctx_cmdBuffer c) 0 (be_bytes (tag :: UINT16))\<rparr>) = command_size c"
  "6 \<le> length (ctx_cmdBuffer c) \<Longrightarrow> command_size (c\<lparr>ctx_cmdBuffer := patch (ctx_cmdBuffer c) 2 (be_bytes w)\<rparr>) = w"
  using seg_patch [of 2 "be_bytes w" "ctx_cmdBuffer c"] by (simp_all add: command_size_def seg_patch_other)

lemma command_size_update [simp]:
  "command_size (c\<lparr>ctx_authsCount := k\<rparr>) = command_size c" "command_size (c\<lparr>ctx_cpBuffer := p\<rparr>) = command_size c"
  "command_size (c\<lparr>ctx_cpBufferUsedSize := u\<rparr>) = command_size c"
  by (simp_all add: command_size_def)

lemma auth_area_size_eq:
  "auth_area_size auths n = n + of_nat (\<Sum>a\<leftarrow>auths. 9 + unat (TPM2B_size (TPMS_AUTH_COMMAND_nonce a)) + unat (TPM2B_size (TPMS_AUTH_COMMAND_hmac a)))"
proof (induction auths arbitrary: n)
  case (Cons a auths)
  have "(ucast w :: UINT32) = of_nat (unat w)" for w :: UINT16 by simp
  with Cons show ?case by (simp add: algebra_simps)
qed simp

lemma auth_area_size_bound: "length auths \<le> 3 \<Longrightarrow> unat (auth_area_size auths 0) < 2 ^ 20"
proof -
  assume "length auths \<le> 3"
  have b: "unat (w :: UINT16) < 2 ^ 16" for w using unsigned_less [of w] by simp
  have "(\<Sum>a\<leftarrow>auths. 9 + unat (TPM2B_size (TPMS_AUTH_COMMAND_nonce a)) + unat (TPM2B_size (TPMS_AUTH_COMMAND_hmac a))) \<le> length auths * 131081"
  proof (induction auths)
    case (Cons a auths)
    then show ?case using b [of "TPM2B_size (TPMS_AUTH_COMMAND_nonce a)"] b [of "TPM2B_size (TPMS_AUTH_COMMAND_hmac a)"] by simp
  qed simp
  with \<open>length auths \<le> 3\<close> show ?thesis unfolding auth_area_size_eq by (simp add: unat_of_nat_32)
qed


lemma marshal_auths_total:
  assumes "\<forall>a \<in> set auths. src_TPMS_AUTH_COMMAND a" "unat bs \<le> length b"
  shows "\<exists>rc b' off'. marshal_auths auths b bs off = Some (rc, b', off') \<and> length b' = length b"
  using assms
proof (induction auths arbitrary: b off)
  case (Cons a auths)
  then have "src_TPMS_AUTH_COMMAND a" by simp
  from mu_TPMS_AUTH_COMMAND.marshal_total [OF this Cons.prems(2), of off] obtain r b1 o1 where
    m: "Tss2_MU_TPMS_AUTH_COMMAND_Marshal (Some a) (Some b) bs (Some off) = Some (r, Some b1, Some o1)" "length b1 = length b"
    by (auto simp: untouched_def)
  with Cons.prems Cons.IH [of b1 o1] show ?case by auto
qed simp

lemma insert_auths_total:
  assumes c: "command_ok c" and N: "N = n + 4 + command_size c" "N \<le> ctx_maxCmdSize c" "unat n < 2 ^ 20"
    and auths: "\<forall>a \<in> set auths. src_TPMS_AUTH_COMMAND a"
  shows "\<exists>rc c'. insert_auths n N auths c = Some (rc, c') \<and> command_ok c'"
proof -
  let ?cp = "unat (ctx_cpBuffer c)" and ?u = "unat (ctx_cpBufferUsedSize c)" and ?b = "ctx_cmdBuffer c"
  have ok: "ctx_ok c" "10 \<le> ?cp" "?cp + ?u \<le> unat (command_size c)" "unat (command_size c) \<le> unat (ctx_maxCmdSize c)"
    "unat (ctx_maxCmdSize c) < 2 ^ 31" "unat (ctx_maxCmdSize c) \<le> length ?b"
    using c by (auto simp: command_ok_def ctx_ok_def word_le_nat_alt)
  have uN: "unat N = unat n + 4 + unat (command_size c)"
  proof -
    have "N = of_nat (unat n + 4 + unat (command_size c))" using N(1) by simp
    moreover have "unat n + 4 + unat (command_size c) < 2 ^ 32" using N(3) ok(4,5) by simp
    ultimately show ?thesis by (metis unat_of_nat_32)
  qed
  have le: "unat N \<le> length ?b" using N(2) ok(6) by (simp add: word_le_nat_alt)
  have dn: "unat (ctx_cpBuffer c + (ucast n + 4)) = ?cp + (unat n + 4)"
  proof -
    have "ctx_cpBuffer c + (ucast n + 4) = of_nat (?cp + (unat n + 4))" by simp
    moreover have "?cp + (unat n + 4) < 2 ^ 32" using N(3) ok(3-5) by simp
    ultimately show ?thesis by (metis unat_of_nat_64)
  qed
  obtain xs where xs: "mem_read ?b (ctx_cpBuffer c) ?u = Some xs" "length xs = ?u"
    using ok(3,4,6) by (simp add: mem_read_def)
  obtain b1 where b1: "mem_write ?b (ctx_cpBuffer c + (ucast n + 4)) xs = Some b1" "length b1 = length ?b"
    using le uN ok(3) by (simp add: mem_write_def dn xs(2))
  obtain b2 where b2: "mem_write b1 (ctx_cpBuffer c) [0, 0, 0, 0] = Some b2" "length b2 = length ?b"
    using le uN ok(3) b1(2) by (simp add: mem_write_def)
  have bs: "unat (ucast N :: size_t) = unat N" by simp
  have fit: "fits (ucast N) (ctx_cpBuffer c) 4" using uN ok(3) by (simp add: fits_def)
  obtain b3 where b3: "Tss2_MU_UINT32_Marshal n (Some b2) (ucast N) (Some (ctx_cpBuffer c)) = Some (0, Some b3, Some (ctx_cpBuffer c + 4))"
    "length b3 = length ?b"
    using mu_UINT32.marshal_fit [of "ucast N" b2 "ctx_cpBuffer c" n] fit le b2(2) uN ok(3) by simp
  from marshal_auths_total [OF auths, of "ucast N" b3 "ctx_cpBuffer c + 4"] le b3(2) obtain rc b4 o4 where
    b4: "marshal_auths auths b3 (ucast N) (ctx_cpBuffer c + 4) = Some (rc, b4, o4)" "length b4 = length ?b" by auto
  let ?c4 = "c\<lparr>ctx_cmdBuffer := b4, ctx_cpBuffer := ctx_cpBuffer c + (ucast n + 4)\<rparr>"
  let ?c5 = "?c4\<lparr>ctx_cmdBuffer := patch (ctx_cmdBuffer ?c4) 2 (be_bytes N)\<rparr>"
  have hs: "header_set 2 N ?c4 = Some ?c5" using header_set_eq [of 2 ?c4 N] b4(2) le uN ok(2,3) by simp
  have "command_size ?c5 = N" using command_size_patch(3) [of ?c4 N] b4(2) le uN ok(2,3) by simp
  then have "command_ok (?c5\<lparr>ctx_authsCount := of_nat (length auths)\<rparr>)"
    using c N(2) b4(2) le uN ok dn by (auto simp: command_ok_def ctx_ok_def)
  moreover have "insert_auths n N auths c = Some (rc, ?c5\<lparr>ctx_authsCount := of_nat (length auths)\<rparr>)"
    using xs(1) b1(1) b2(1) b3(1) b4(1) hs by (simp add: insert_auths_def Let_def)
  ultimately show ?thesis by blast
qed

definition auths_src :: "TSS2L_SYS_AUTH_COMMAND \<Rightarrow> bool" where
  "auths_src a \<longleftrightarrow> length (AUTH_COMMAND_auths a) = TSS2_SYS_MAX_SESSIONS \<and> list_all src_TPMS_AUTH_COMMAND (AUTH_COMMAND_auths a)"

lemma SetCmdAuths_total:
  assumes c: "command_ok c" and arr: "\<forall>a. arr = Some a \<longrightarrow> auths_src a"
  shows "\<exists>rc c'. Tss2_Sys_SetCmdAuths (Some c) arr = Some (rc, Some c') \<and> command_ok c'"
proof (cases "\<exists>a. arr = Some a \<and> unat (AUTH_COMMAND_count a) \<le> TSS2_SYS_MAX_SESSIONS \<and> AUTH_COMMAND_count a \<noteq> 0 \<and> ctx_authAllowed c")
  case False
  then have "\<exists>rc. Tss2_Sys_SetCmdAuths (Some c) arr = Some (rc, Some c)"
    using c by (cases arr) (auto simp: Tss2_Sys_SetCmdAuths_def command_ok_def Let_def)
  then show ?thesis using c by blast
next
  case True
  then obtain a where a: "arr = Some a" "unat (AUTH_COMMAND_count a) \<le> 3" "AUTH_COMMAND_count a \<noteq> 0" "ctx_authAllowed c" "auths_src a"
    using arr by (auto simp: TSS2_SYS_MAX_SESSIONS_def)
  let ?auths = "take (unat (AUTH_COMMAND_count a)) (AUTH_COMMAND_auths a)"
  let ?c0 = "c\<lparr>ctx_authsCount := 0\<rparr>"
  let ?c1 = "?c0\<lparr>ctx_cmdBuffer := patch (ctx_cmdBuffer ?c0) 0 (be_bytes TPM2_ST_SESSIONS)\<rparr>"
  have l: "10 \<le> length (ctx_cmdBuffer c)" using c by (auto simp: command_ok_def ctx_ok_def)
  have hs: "header_set 0 TPM2_ST_SESSIONS ?c0 = Some ?c1" using header_set_eq [of 0 ?c0 TPM2_ST_SESSIONS] l by simp
  have "command_size ?c1 = command_size c" using command_size_patch(2) [of ?c0 TPM2_ST_SESSIONS] l by simp
  then have ok1: "command_ok ?c1" using c l by (simp add: command_ok_def ctx_ok_def)
  have auths: "length ?auths = unat (AUTH_COMMAND_count a)" "length ?auths \<le> 3" "\<forall>x \<in> set ?auths. src_TPMS_AUTH_COMMAND x"
    using a by (auto simp: auths_src_def TSS2_SYS_MAX_SESSIONS_def list_all_iff dest: in_set_takeD)
  let ?n = "auth_area_size ?auths 0"
  let ?N = "?n + 4 + command_size ?c1"
  have gs: "GetCommandSize ?c1 = Some (command_size ?c1)" using ok1 by (intro GetCommandSize_ok) (simp add: command_ok_def)
  have st: "ctx_previousStage c = CMD_STAGE_PREPARE" using c by (simp add: command_ok_def)
  show ?thesis
  proof (cases "?N > ctx_maxCmdSize ?c1 \<or> ctx_cpBufferUsedSize ?c1 > ctx_maxCmdSize ?c1")
    case True
    then have "Tss2_Sys_SetCmdAuths (Some c) arr = Some (TSS2_SYS_RC_INSUFFICIENT_CONTEXT, Some ?c1)"
      using a st auths(1) hs gs by (auto simp: Tss2_Sys_SetCmdAuths_def Let_def TSS2_SYS_MAX_SESSIONS_def simp del: length_take)
    then show ?thesis using ok1 by auto
  next
    case False
    then have "?N \<le> ctx_maxCmdSize ?c1" by (simp add: not_less)
    from insert_auths_total [OF ok1 refl this auth_area_size_bound [OF auths(2)] auths(3)] obtain rc c' where
      i: "insert_auths ?n ?N ?auths ?c1 = Some (rc, c')" "command_ok c'" by blast
    have "Tss2_Sys_SetCmdAuths (Some c) arr = Some (rc, Some c')"
      using a st auths(1) hs gs False i(1) by (auto simp: Tss2_Sys_SetCmdAuths_def Let_def TSS2_SYS_MAX_SESSIONS_def simp del: length_take)
    then show ?thesis using i(2) by blast
  qed
qed


lemma command_ok_facts:
  assumes "command_ok c"
  shows "ctx_ok c" "10 \<le> unat (ctx_cpBuffer c)" "unat (ctx_cpBuffer c) + unat (ctx_cpBufferUsedSize c) \<le> unat (command_size c)"
    "unat (command_size c) \<le> unat (ctx_maxCmdSize c)" "unat (ctx_maxCmdSize c) < 2 ^ 31"
    "unat (ctx_maxCmdSize c) \<le> length (ctx_cmdBuffer c)" "ctx_previousStage c = CMD_STAGE_PREPARE"
  using assms by (auto simp: command_ok_def ctx_ok_def word_le_nat_alt)

lemma unat_small_64: "\<lbrakk>w = of_nat n; n < 2 ^ 32\<rbrakk> \<Longrightarrow> unat (w :: size_t) = n"
  by (simp only: unat_of_nat_64)

lemma unat_small_32: "\<lbrakk>w = of_nat n; n < 2 ^ 32\<rbrakk> \<Longrightarrow> unat (w :: UINT32) = n"
  by (simp only: unat_of_nat_32)

lemma command_ok_patch:
  assumes "command_ok c" "10 \<le> i" "i + length xs \<le> length (ctx_cmdBuffer c)"
  shows "command_ok (c\<lparr>ctx_cmdBuffer := patch (ctx_cmdBuffer c) i xs\<rparr>)"
  using assms command_size_patch(1) [of i xs c] by (simp add: command_ok_def ctx_ok_def)

lemma insert_param_total:
  assumes c: "command_ok c" "ctx_decryptAllowed c" and n: "unat (command_size c) + unat n \<le> unat (ctx_maxCmdSize c)"
  shows "\<exists>rc c'. insert_param c n = Some (rc, c') \<and> command_ok c' \<and> same_room c c' \<and> ctx_cpBuffer c' = ctx_cpBuffer c"
proof -
  note ok = command_ok_facts [OF c(1)]
  let ?cp = "unat (ctx_cpBuffer c)" and ?u = "unat (ctx_cpBufferUsedSize c)" and ?b = "ctx_cmdBuffer c"
  let ?dst = "ctx_cpBuffer c + ucast (ctx_cpBufferUsedSize c) + 2" and ?len = "ctx_cpBufferUsedSize c - 2"
  have u2: "2 \<le> ?u" using c by (simp add: command_ok_def)
  have len: "unat ?len = ?u - 2" using u2 by (simp add: unat_sub word_le_nat_alt)
  have src: "unat (ctx_cpBuffer c + 2) = ?cp + 2" using ok(3-5) by (intro unat_small_64) simp_all
  have dst: "unat ?dst = ?cp + ?u + 2" using ok(3-5) by (intro unat_small_64) simp_all
  have lim: "unat (?dst + ucast ?len) = ?cp + 2 * ?u"
  proof -
    have "(ucast ?len :: size_t) = of_nat (?u - 2)" unfolding len [symmetric] by simp
    then show ?thesis using ok(3-5) u2 by (intro unat_small_64) (simp_all add: of_nat_diff)
  qed
  show ?thesis
  proof (cases "?dst + ucast ?len > ucast (ctx_maxCmdSize c)")
    case True
    then show ?thesis using c(1) by (simp add: insert_param_def Let_def)
  next
    case False
    then have fit: "?cp + 2 * ?u \<le> unat (ctx_maxCmdSize c)" unfolding not_less word_le_nat_alt lim by simp
    have "?cp + 2 + (?u - 2) \<le> length ?b" using ok(3,4,6) u2 by linarith
    then obtain xs where xs: "mem_read ?b (ctx_cpBuffer c + 2) (unat ?len) = Some xs" "length xs = ?u - 2"
      unfolding mem_read_def src len by simp
    let ?b1 = "patch ?b (?cp + ?u + 2) xs"
    have b1: "mem_write ?b ?dst xs = Some ?b1" "length ?b1 = length ?b"
      using fit ok(6) u2 by (simp_all add: mem_write_def dst xs(2))
    let ?c1 = "c\<lparr>ctx_cmdBuffer := ?b1, ctx_cpBufferUsedSize := ctx_cpBufferUsedSize c + ucast n\<rparr>"
    let ?c2 = "?c1\<lparr>ctx_cmdBuffer := patch (ctx_cmdBuffer ?c1) ?cp (be_bytes (ucast n :: UINT16))\<rparr>"
    have c2: "header_set (ctx_cpBuffer c) (ucast n :: UINT16) ?c1 = Some ?c2"
      using header_set_eq [of "ctx_cpBuffer c" ?c1 "ucast n :: UINT16"] b1(2) fit ok(6) u2 by simp
    let ?s = "command_size c + ucast n"
    have s2: "command_size ?c2 = command_size c"
      using command_size_patch(1) [of ?cp "be_bytes (ucast n :: UINT16)" ?c1] command_size_patch(1) [of "?cp + ?u + 2" xs c]
        b1(2) fit ok(2,6) u2 xs(2) by (simp add: command_size_def)
    have l2: "length (ctx_cmdBuffer ?c2) = length ?b" using b1(2) fit ok(6) u2 by simp
    have g: "header_get (ctx_cmdBuffer ?c2) 2 = Some (command_size c)"
      using GetCommandSize_ok [of ?c2] s2 ok(1) l2 by (simp add: GetCommandSize_def ctx_ok_def)
    let ?c3 = "?c2\<lparr>ctx_cmdBuffer := patch (ctx_cmdBuffer ?c2) 2 (be_bytes ?s)\<rparr>"
    have h: "header_set 2 ?s ?c2 = Some ?c3" using header_set_eq [of 2 ?c2 ?s] l2 ok(2-4,6) by simp
    have "command_size ?c3 = ?s" using command_size_patch(3) [of ?c2 ?s] l2 ok(2-4,6) by simp
    moreover have "unat ?s = unat (command_size c) + unat n"
      using n ok(5) by (intro unat_small_32) (simp_all add: unsigned_ucast_eq)
    moreover have "unat (ctx_cpBufferUsedSize c + ucast n) = ?u + unat n"
      using n ok(3,5) by (intro unat_small_32) (simp_all add: unsigned_ucast_eq)
    ultimately have "command_ok ?c3" using c(1) n l2 ok u2 by (auto simp: command_ok_def ctx_ok_def word_le_nat_alt)
    moreover have "insert_param c n = Some (0, ?c3)"
      using False xs(1) b1(1) c2 g h by (simp add: insert_param_def Let_def)
    moreover have "same_room c ?c3" using l2 ok(2-4,6) by (simp add: same_room_def)
    ultimately show ?thesis by (intro exI [of _ 0] exI [of _ ?c3]) simp
  qed
qed


definition param_src :: "size_t \<Rightarrow> BYTE list option \<Rightarrow> bool" where
  "param_src n pb \<longleftrightarrow> (\<forall>xs. pb = Some xs \<longrightarrow> unat n \<le> length xs \<and> length xs < 2 ^ 63)"

lemma SetDecryptParam_total:
  assumes c: "command_ok c" and p: "param_src n pb"
  shows "\<exists>rc c'. Tss2_Sys_SetDecryptParam (Some c) n pb = Some (rc, Some c') \<and> command_ok c'"
proof (cases "\<exists>xs. pb = Some xs \<and> ctx_decryptAllowed c \<and> \<not> n < 1 \<and> \<not> ucast (command_size c) + n > ucast (ctx_maxCmdSize c)")
  case False
  then have "\<exists>rc. Tss2_Sys_SetDecryptParam (Some c) n pb = Some (rc, Some c)"
    using command_ok_facts(7) [OF c] GetCommandSize_ok [OF command_ok_facts(1) [OF c]]
    by (cases pb) (auto simp: Tss2_Sys_SetDecryptParam_def)
  then show ?thesis using c by blast
next
  case True
  then obtain xs where xs: "pb = Some xs" "ctx_decryptAllowed c" "\<not> n < 1" "\<not> ucast (command_size c) + n > ucast (ctx_maxCmdSize c)"
    "unat n \<le> length xs" "length xs < 2 ^ 63" using p by (auto simp: param_src_def)
  note ok = command_ok_facts [OF c]
  have "unat (ucast (command_size c) + n) = unat (command_size c) + unat n"
    using xs(5,6) unat_32_less [of "command_size c"] unat_plus_if_size [of "ucast (command_size c)" n] by (simp add: word_size)
  then have n: "unat (command_size c) + unat n \<le> unat (ctx_maxCmdSize c)"
    using xs(4) by (simp add: not_less word_le_nat_alt)
  let ?cp = "unat (ctx_cpBuffer c)"
  have u2: "2 \<le> unat (ctx_cpBufferUsedSize c)" using c xs(2) by (simp add: command_ok_def)
  obtain m :: UINT16 where m: "header_get (ctx_cmdBuffer c) (ctx_cpBuffer c) = Some m"
    using ok u2 header_get_eq [where ?'a = 16, of "ctx_cpBuffer c" "ctx_cmdBuffer c"] by simp
  have g: "Tss2_Sys_GetDecryptParam (Some c) (Some 0) (Some 0) = Some (0, Some (ucast m), Some (ctx_cpBuffer c + 2))"
    using ok(7) xs(2) m by (simp add: Tss2_Sys_GetDecryptParam_def)
  let ?ins = "if ucast m = (0 :: size_t) \<and> ctx_decryptNull c then insert_param c n
    else if ucast m \<noteq> n then Some (TSS2_SYS_RC_BAD_SIZE, c) else Some (TSS2_RC_SUCCESS, c)"
  have "\<exists>r c1. ?ins = Some (r, c1) \<and> command_ok c1 \<and> same_room c c1 \<and> ctx_cpBuffer c1 = ctx_cpBuffer c"
    using insert_param_total [OF c xs(2) n] c by (simp split: if_split)
  then obtain r c1 where c1: "?ins = Some (r, c1)" "command_ok c1" "same_room c c1" "ctx_cpBuffer c1 = ctx_cpBuffer c" by blast
  let ?c2 = "c1\<lparr>ctx_cmdBuffer := patch (ctx_cmdBuffer c1) ?cp (be_bytes (ucast n :: UINT16))\<rparr>"
  have l1: "length (ctx_cmdBuffer c1) = length (ctx_cmdBuffer c)" "ctx_maxCmdSize c1 = ctx_maxCmdSize c"
    using c1(3) by (simp_all add: same_room_def)
  have hs: "header_set (ctx_cpBuffer c1) (ucast n :: UINT16) c1 = Some ?c2"
    using header_set_eq [of "ctx_cpBuffer c1" c1 "ucast n :: UINT16"] l1 c1(4) ok u2 by simp
  have ok2: "command_ok ?c2" using command_ok_patch [OF c1(2), of ?cp "be_bytes (ucast n :: UINT16)"] l1 ok u2 by simp
  let ?at = "ctx_cpBuffer c + 2" and ?len = "ucast n :: UINT32"
  have len: "unat ?len = unat n" using n ok(5) by (simp add: unsigned_ucast_eq take_bit_nat_eq_self)
  have at: "unat ?at = ?cp + 2" using ok(3-5) by (intro unat_small_64) simp_all
  have lim: "unat (?at + ucast ?len) = ?cp + 2 + unat n"
  proof -
    have "(ucast ?len :: size_t) = of_nat (unat n)" unfolding len [symmetric] by simp
    then show ?thesis using n ok(3-5) by (intro unat_small_64) simp_all
  qed
  have rd: "mem_read xs 0 (unat ?len) = Some (take (unat n) xs)" using xs(5) by (simp add: mem_read_def seg_def len)
  let ?c3 = "?c2\<lparr>ctx_cmdBuffer := patch (ctx_cmdBuffer ?c2) (?cp + 2) (take (unat n) xs)\<rparr>"
  have res: "Tss2_Sys_SetDecryptParam (Some c) n pb =
    (if r \<noteq> 0 then Some (r, Some c1) else if ?at + ucast ?len > ucast (ctx_maxCmdSize c) then Some (TSS2_SYS_RC_INSUFFICIENT_CONTEXT, Some ?c2)
     else (case mem_write (ctx_cmdBuffer ?c2) ?at (take (unat n) xs) of None \<Rightarrow> None
           | Some b \<Rightarrow> Some (0, Some (?c2\<lparr>ctx_cmdBuffer := b\<rparr>))))"
    using xs(1-4) ok(7) GetCommandSize_ok [OF ok(1)] g c1(1) hs rd l1(2)
    by (simp add: Tss2_Sys_SetDecryptParam_def Let_def)
  show ?thesis
  proof (cases "r \<noteq> 0 \<or> ?at + ucast ?len > ucast (ctx_maxCmdSize c)")
    case True
    then show ?thesis using res c1(2) ok2 by auto
  next
    case False
    then have f: "?cp + 2 + unat n \<le> length (ctx_cmdBuffer ?c2)"
      using ok2 l1 ok(6) unfolding not_less word_le_nat_alt lim by (simp add: not_less word_le_nat_alt lim)
    then have "command_ok ?c3" using xs(5) ok(2) by (intro command_ok_patch [OF ok2]) simp_all
    moreover have "mem_write (ctx_cmdBuffer ?c2) ?at (take (unat n) xs) = Some (ctx_cmdBuffer ?c3)"
      using f xs(5) by (simp add: mem_write_def at)
    ultimately show ?thesis using res False by simp
  qed
qed


lemma SetEncryptParam_total:
  assumes "command_ok c"
  shows "\<exists>rc. Tss2_Sys_SetEncryptParam (Some c) n pb = Some (rc, Some c)"
  using command_ok_facts(7) [OF assms]
  by (cases pb) (auto simp: Tss2_Sys_SetEncryptParam_def Tss2_Sys_GetEncryptParam_def)

lemma ExecuteAsync_total:
  assumes "command_ok c"
  shows "\<exists>rc c'. Tss2_Sys_ExecuteAsync (Some c) = Some (rc, Some c')"
proof -
  note ok = command_ok_facts [OF assms]
  have "\<exists>rc tc. Tss2_Tcti_Transmit (ctx_tctiContext c) (ucast (command_size c)) (ctx_cmdBuffer c) = Some (rc, tc)"
    using ok(4,6) by (auto simp: Tss2_Tcti_Transmit_def mem_read_def split: option.splits prod.splits)
  then obtain rc tc where t: "Tss2_Tcti_Transmit (ctx_tctiContext c) (ucast (command_size c)) (ctx_cmdBuffer c) = Some (rc, tc)" by blast
  show ?thesis using t ok GetCommandSize_ok [OF ok(1)]
    by (auto simp: Tss2_Sys_ExecuteAsync_def Let_def mem_read_def ctx_ok_def)
qed

text \<open>
  A caller works on a prepared command with any sequence of these calls, whatever codes they return.
\<close>

datatype edit = SetCmdAuths "TSS2L_SYS_AUTH_COMMAND option" | SetDecryptParam size_t "BYTE list option"
  | SetEncryptParam size_t "BYTE list option"

fun edit_src :: "edit \<Rightarrow> bool" where
  "edit_src (SetCmdAuths arr) \<longleftrightarrow> (\<forall>a. arr = Some a \<longrightarrow> auths_src a)"
| "edit_src (SetDecryptParam n pb) \<longleftrightarrow> param_src n pb"
| "edit_src (SetEncryptParam n pb) \<longleftrightarrow> param_src n pb"

fun run_edit :: "edit \<Rightarrow> 't sysctx step" where
  "run_edit (SetCmdAuths arr) ctx = Tss2_Sys_SetCmdAuths ctx arr"
| "run_edit (SetDecryptParam n pb) ctx = Tss2_Sys_SetDecryptParam ctx n pb"
| "run_edit (SetEncryptParam n pb) ctx = Tss2_Sys_SetEncryptParam ctx n pb"

fun run_edits :: "edit list \<Rightarrow> 't sysctx \<Rightarrow> 't sysctx option" where
  "run_edits [] ctx = Some ctx"
| "run_edits (e # es) ctx = (case run_edit e ctx of None \<Rightarrow> None | Some (rc, ctx') \<Rightarrow> run_edits es ctx')"

lemma run_edit_total:
  "command_ok c \<Longrightarrow> edit_src e \<Longrightarrow> \<exists>rc c'. run_edit e (Some c) = Some (rc, Some c') \<and> command_ok c'"
  using SetCmdAuths_total SetDecryptParam_total SetEncryptParam_total by (cases e) (simp_all, blast+)

lemma run_edit_room:
  assumes "run_edit e (Some c) = Some (rc, Some c')" "command_ok c" "edit_src e"
  shows "same_room c c'"
  using assms SetCmdAuths_room [of c] SetDecryptParam_room SetEncryptParam_room
  by (cases e) (auto simp: auths_src_def list_all_iff command_ok_def)

lemma run_edits_total:
  "command_ok c \<Longrightarrow> list_all edit_src es \<Longrightarrow> \<exists>c'. run_edits es (Some c) = Some (Some c') \<and> command_ok c' \<and> same_room c c'"
proof (induction es arbitrary: c)
  case (Cons e es)
  then obtain rc c1 where 1: "run_edit e (Some c) = Some (rc, Some c1)" "command_ok c1" using run_edit_total by fastforce
  moreover have "same_room c c1" using run_edit_room [OF 1(1)] Cons.prems by simp
  ultimately show ?case using Cons.IH [of c1] Cons.prems same_room_trans by fastforce
qed simp

lemma command_ok_prepared:
  assumes "sys_prepare P cc nulls src valid handles params null dec enc auth" "ctx_ok c" "src" "P (Some c) = Some (0, Some c')"
    and "unat (ctx_maxCmdSize c) < 2 ^ 31" "dec \<longrightarrow> 2 \<le> length params"
  shows "command_ok c'"
proof -
  from sys_prepare.prepare_total [OF assms(1-3)] assms(4) have
    c': "c' = prepared cc handles params null dec enc auth c" and n: "10 + length handles + length params \<le> unat (ctx_maxCmdSize c)"
    by auto
  have h: "holds_command TPM2_ST_NO_SESSIONS cc handles [] params c'"
    unfolding c' using assms(2) n by (intro holds_command_prepared) simp_all
  have "ctx_ok c'" using h by (simp add: holds_command_def)
  from GetCommandSize_holds [OF h] GetCommandSize_ok [OF this] have "command_size c' = of_nat (10 + length handles + length params)"
    by simp
  then have "unat (command_size c') = 10 + length handles + length params" using n assms(5) by (intro unat_small_32) simp_all
  moreover have "unat (ctx_cpBuffer c') = 10 + length handles" "unat (ctx_cpBufferUsedSize c') = length params"
    using h n assms(5) by (auto simp: holds_command_def intro!: unat_small_64 unat_small_32)
  moreover have "ctx_maxCmdSize c' = ctx_maxCmdSize c" "ctx_decryptAllowed c' = dec" by (simp_all add: c' prepared_def)
  ultimately show ?thesis using h n assms(5,6) by (auto simp: command_ok_def holds_command_def word_le_nat_alt)
qed

end
