(* ===== verification/Sys_RspAuths.thy ===== *)
theory Sys_RspAuths
  imports Sys_Transfer
begin

text \<open>The authorization area of the response: \<open>Tss2_Sys_GetRspAuths\<close> delivers what the TPM sent.\<close>

abbreviation rsp_auths_wire :: "TPMS_AUTH_RESPONSE list \<Rightarrow> BYTE list" where
  "rsp_auths_wire auths \<equiv> concat (map wire_TPMS_AUTH_RESPONSE auths)"

lemma length_wire_AUTH_RESPONSE:
  "valid_TPMS_AUTH_RESPONSE a \<Longrightarrow> length (wire_TPMS_AUTH_RESPONSE a) =
    2 + unat (TPM2B_size (TPMS_AUTH_RESPONSE_nonce a)) + 1 + (2 + unat (TPM2B_size (TPMS_AUTH_RESPONSE_hmac a)))"
  by (simp add: valid_TPMS_AUTH_RESPONSE_def wire_TPMS_AUTH_RESPONSE_def wire_TPM2B_def valid_TPM2B_def wt_TPM2B_def)

text \<open>The size member of a sized buffer, read through a cast pointer.\<close>

lemma header_get_size:
  assumes "unat bs \<le> length b" "valid_TPM2B N s" "holds_at b bs off (wire_TPM2B s)"
  shows "header_get b off = Some (TPM2B_size s)" "unat (off + 2 + ucast (TPM2B_size s)) = unat off + 2 + unat (TPM2B_size s)"
    "unat off + 2 + unat (TPM2B_size s) \<le> unat bs"
proof -
  from assms holds_at_TPM2B [OF assms(1,2), of off] have h: "fits bs off (2 + unat (TPM2B_size s))"
    "word_of (rev (seg b (unat off) 2)) = TPM2B_size s" by auto
  then show le: "unat off + 2 + unat (TPM2B_size s) \<le> unat bs" by (simp add: fits_def)
  show "header_get b off = Some (TPM2B_size s)"
    using h(2) le assms(1) by (subst header_get_eq) simp_all
  have "off + 2 + ucast (TPM2B_size s) = off + of_nat (2 + unat (TPM2B_size s))" by simp
  also have "unat \<dots> = unat off + (2 + unat (TPM2B_size s))" using le by (intro unat_add_fits [of _ _ bs]) simp
  finally show "unat (off + 2 + ucast (TPM2B_size s)) = unat off + 2 + unat (TPM2B_size s)" by simp
qed

lemma check_rsp_auths_step:
  assumes "unat rs \<le> length b" "valid_TPMS_AUTH_RESPONSE a" "holds_at b rs off (wire_TPMS_AUTH_RESPONSE a)" "i < n"
  shows "check_rsp_auths (i # is) n b rs off =
    check_rsp_auths is n b rs (off + of_nat (length (wire_TPMS_AUTH_RESPONSE a)))"
proof -
  let ?x = "TPMS_AUTH_RESPONSE_nonce a" and ?y = "TPMS_AUTH_RESPONSE_hmac a"
  let ?o = "off + 2 + ucast (TPM2B_size ?x) + 1"
  have v: "valid_TPM2B 64 ?x" "valid_TPM2B 64 ?y" using assms(2) by (simp_all add: valid_TPMS_AUTH_RESPONSE_def)
  have lx: "length (wire_TPM2B ?x) = 2 + unat (TPM2B_size ?x)" using v(1) by (simp add: wire_TPM2B_def valid_TPM2B_def wt_TPM2B_def)
  have wire: "wire_TPMS_AUTH_RESPONSE a = (wire_TPM2B ?x @ [TPMS_AUTH_RESPONSE_sessionAttributes a]) @ wire_TPM2B ?y"
    by (simp add: wire_TPMS_AUTH_RESPONSE_def)
  have hx: "holds_at b rs off (wire_TPM2B ?x)" and hy: "holds_at b rs ?o (wire_TPM2B ?y)"
    using assms(3) lx unfolding wire holds_at_append [OF assms(1)] by (simp_all add: algebra_simps)
  note x = header_get_size [OF assms(1) v(1) hx] and y = header_get_size [OF assms(1) v(2) hy]
  have o: "unat ?o = unat off + 2 + unat (TPM2B_size ?x) + 1"
  proof -
    have "?o = off + of_nat (2 + unat (TPM2B_size ?x) + 1)" by simp
    moreover have "unat off + (2 + unat (TPM2B_size ?x) + 1) \<le> unat rs"
      using assms(3) by (auto simp: wire_TPMS_AUTH_RESPONSE_def holds_at_def fits_def lx)
    ultimately have "unat ?o = unat off + (2 + unat (TPM2B_size ?x) + 1)" by (simp only: unat_add_fits)
    then show ?thesis by simp
  qed
  have "off + of_nat (length (wire_TPMS_AUTH_RESPONSE a)) = ?o + 2 + ucast (TPM2B_size ?y)"
    using assms(2) by (simp add: length_wire_AUTH_RESPONSE algebra_simps)
  moreover have "\<not> off > rs" "\<not> off + 2 + ucast (TPM2B_size ?x) > rs" "\<not> ?o > rs" "\<not> ?o + 2 + ucast (TPM2B_size ?y) > rs"
    using x(2,3) y(2,3) o unfolding word_less_nat_alt by linarith+
  ultimately show ?thesis
    using assms(4) by (simp only: check_rsp_auths.simps x(1) y(1) option.case Let_def if_False not_less [symmetric])
      simp
qed

lemma check_rsp_auths_ok:
  assumes "unat rs \<le> length b" "\<forall>a \<in> set auths. valid_TPMS_AUTH_RESPONSE a"
    "holds_at b rs off (rsp_auths_wire auths)" "k + length auths \<le> n"
  shows "check_rsp_auths [k..<k + length auths] n b rs off = Some 0"
  using assms
proof (induction auths arbitrary: off k)
  case (Cons a auths)
  have "[k..<k + length (a # auths)] = k # [Suc k..<Suc k + length auths]" by (simp add: upt_rec)
  moreover have "holds_at b rs off (wire_TPMS_AUTH_RESPONSE a)"
    "holds_at b rs (off + of_nat (length (wire_TPMS_AUTH_RESPONSE a))) (rsp_auths_wire auths)"
    using Cons.prems(3) by (simp_all add: holds_at_append [OF Cons.prems(1)])
  ultimately show ?case
    using Cons.prems Cons.IH [of "off + of_nat (length (wire_TPMS_AUTH_RESPONSE a))" "Suc k"]
    by (simp add: check_rsp_auths_step [of rs b a off k n] del: check_rsp_auths.simps)
qed simp

lemma unmarshal_rsp_auths_ok:
  assumes "unat bs \<le> length b" "\<forall>a \<in> set auths. valid_TPMS_AUTH_RESPONSE a"
    "holds_at b bs off (rsp_auths_wire auths)" "k + length auths \<le> length arr" "\<forall>a \<in> set arr. wt_TPMS_AUTH_RESPONSE a"
  shows "\<exists>arr'. unmarshal_rsp_auths [k..<k + length auths] b bs off arr = Some (0, arr') \<and> length arr' = length arr \<and>
    take k arr' = take k arr \<and> map wire_TPMS_AUTH_RESPONSE (take (length auths) (drop k arr')) = map wire_TPMS_AUTH_RESPONSE auths"
  using assms
proof (induction auths arbitrary: off k arr)
  case (Cons a auths)
  let ?off = "off + of_nat (length (wire_TPMS_AUTH_RESPONSE a))"
  have upt: "[k..<k + length (a # auths)] = k # [Suc k..<Suc k + length auths]" by (simp add: upt_rec)
  have h: "holds_at b bs off (wire_TPMS_AUTH_RESPONSE a)" "holds_at b bs ?off (rsp_auths_wire auths)"
    using Cons.prems(3) by (simp_all add: holds_at_append [OF Cons.prems(1)])
  have k: "k < length arr" using Cons.prems(4) by simp
  then have w: "wt_TPMS_AUTH_RESPONSE (arr ! k)" using Cons.prems(5) by simp
  from mu_TPMS_AUTH_RESPONSE.unmarshal_deterministic [OF w Cons.prems(1) _ h(1)] Cons.prems(2) obtain d where
    d: "Tss2_MU_TPMS_AUTH_RESPONSE_Unmarshal (Some b) bs (Some off) (Some (arr ! k)) = Some (0, Some ?off, Some d)"
      "wt_TPMS_AUTH_RESPONSE d" "wire_TPMS_AUTH_RESPONSE d = wire_TPMS_AUTH_RESPONSE a" by auto
  have "\<forall>x \<in> set (arr[k := d]). wt_TPMS_AUTH_RESPONSE x" using Cons.prems(5) d(2) k by (auto dest: set_update_subset_insert [THEN subsetD])
  with Cons.IH [of ?off "Suc k" "arr[k := d]"] Cons.prems h(2) obtain arr' where
    r: "unmarshal_rsp_auths [Suc k..<Suc k + length auths] b bs ?off (arr[k := d]) = Some (0, arr')" "length arr' = length arr"
      "take (Suc k) arr' = take (Suc k) (arr[k := d])"
      "map wire_TPMS_AUTH_RESPONSE (take (length auths) (drop (Suc k) arr')) = map wire_TPMS_AUTH_RESPONSE auths" by auto
  have "take (Suc k) arr' = take k arr @ [d]" using r(3) k by (simp add: take_Suc_conv_app_nth)
  then have "take k arr' = take k arr" "arr' ! k = d" using k r(2) by (simp_all add: take_Suc_conv_app_nth)
  moreover have "drop k arr' = d # drop (Suc k) arr'" using k r(2) calculation(2) by (simp add: Cons_nth_drop_Suc [symmetric])
  ultimately show ?case unfolding upt using d k r by auto
qed auto

lemma seg_answered: "i + k \<le> length r \<Longrightarrow> seg (patch b 0 r) i k = seg r i k"
  by (simp add: patch_def seg_def take_drop)

lemma ucast_of_nat_64: "n < 2 ^ 32 \<Longrightarrow> (ucast (of_nat n :: UINT32) :: size_t) = of_nat n"
  by (simp add: unsigned_of_nat take_bit_nat_eq_self)

text \<open>
  The response \<open>r\<close> has handles, parameter size, parameters and then the authorizations; as many
  as the command had.
\<close>

lemma GetRspAuths_ok:
  assumes c: "ctx_ok c" "ctx_authAllowed c" "ctx_rspParamsSize c = of_nat (sizeof_header + length handles)"
      "length handles = 4 * unat (ctx_numResponseHandles c)"
    and body: "body = handles @ be_bytes (of_nat (length params) :: UINT32) @ params @ rsp_auths_wire auths @ rest"
    and n: "sizeof_header + length body \<le> unat (ctx_maxCmdSize c)"
    and auths: "\<forall>a \<in> set auths. valid_TPMS_AUTH_RESPONSE a" "ctx_authsCount c = of_nat (length auths)"
      "length auths \<le> TSS2_SYS_MAX_SESSIONS"
    and arr: "length (AUTH_RESPONSE_auths arr) = TSS2_SYS_MAX_SESSIONS" "\<forall>a \<in> set (AUTH_RESPONSE_auths arr). wt_TPMS_AUTH_RESPONSE a"
  shows "\<exists>arr'. Tss2_Sys_GetRspAuths (Some ((answered t s (rsp_bytes TPM2_ST_SESSIONS 0 body) c)\<lparr>ctx_previousStage := CMD_STAGE_RECEIVE_RESPONSE\<rparr>))
      (Some arr) = Some (0, Some arr') \<and> unat (AUTH_RESPONSE_count arr') = length auths \<and>
    map wire_TPMS_AUTH_RESPONSE (take (length auths) (AUTH_RESPONSE_auths arr')) = map wire_TPMS_AUTH_RESPONSE auths"
proof -
  let ?r = "rsp_bytes TPM2_ST_SESSIONS 0 body" and ?ps = "be_bytes (of_nat (length params) :: UINT32)"
  let ?c = "(answered t s ?r c)\<lparr>ctx_previousStage := CMD_STAGE_RECEIVE_RESPONSE\<rparr>"
  let ?b = "patch (ctx_cmdBuffer c) 0 ?r" and ?hl = "10 + length handles"
  have lb: "length body = length handles + 4 + length params + length (rsp_auths_wire auths) + length rest" by (simp add: body)
  have len: "10 + length body \<le> length (ctx_cmdBuffer c)" and n32: "10 + length body < 2 ^ 32"
    using c(1) n unat_32_less [of "ctx_maxCmdSize c"] by (auto simp: ctx_ok_def)
  have rb: "?r = (be_bytes TPM2_ST_SESSIONS @ be_bytes (of_nat (10 + length body) :: UINT32) @ be_bytes (0 :: UINT32)) @
      handles @ ?ps @ params @ rsp_auths_wire auths @ rest" by (simp add: rsp_bytes_def body)
  have hdr: "TPM20_Header_Out_tag (ctx_rsp_header ?c) = TPM2_ST_SESSIONS"
    "TPM20_Header_Out_responseSize (ctx_rsp_header ?c) = of_nat (10 + length body)"
    "TPM20_Header_Out_responseCode (ctx_rsp_header ?c) = 0"
    unfolding rb by (simp_all add: answered_def seg_def del: of_nat_add)
  have pos: "unat (ctx_rspParamsSize c) = ?hl" unfolding c(3) using n32 lb by (intro unat_of_nat_64) simp
  have "seg ?b ?hl 4 = seg ?r ?hl 4" using lb by (intro seg_answered) simp
  also have "\<dots> = ?ps" unfolding rb by (simp add: seg_def)
  finally have "seg ?b ?hl 4 = ?ps" .
  then have ps: "header_get ?b (ctx_rspParamsSize c) = Some (of_nat (length params) :: UINT32)"
    using pos len lb by (subst header_get_eq) simp_all
  let ?off = "of_nat (10 + length handles + 4 + length params) :: size_t"
  have uoff: "unat ?off = 10 + length handles + 4 + length params" using n32 lb by (intro unat_of_nat_64) simp
  have off: "10 + ucast (ctx_numResponseHandles c) * 4 + ucast (of_nat (length params) :: UINT32) + 4 = ?off"
  proof -
    have "(ucast (ctx_numResponseHandles c) :: size_t) * 4 = of_nat (length handles)" by (simp add: c(4) mult.commute)
    moreover have "(ucast (of_nat (length params) :: UINT32) :: size_t) = of_nat (length params)"
      using n32 lb by (simp add: ucast_of_nat_64)
    ultimately show ?thesis by simp
  qed
  have "seg ?b (unat ?off) (length (rsp_auths_wire auths)) = seg ?r (unat ?off) (length (rsp_auths_wire auths))"
    using lb uoff by (intro seg_answered) simp
  also have "\<dots> = rsp_auths_wire auths" unfolding uoff rb by (simp add: seg_def)
  finally have sg: "seg ?b (unat ?off) (length (rsp_auths_wire auths)) = rsp_auths_wire auths" .
  let ?rs = "of_nat (10 + length body) :: size_t"
  have urs: "unat ?rs = 10 + length body" using n32 by (intro unat_of_nat_64)
  have rs: "ucast (of_nat (10 + length body) :: UINT32) = ?rs" using n32 by (intro ucast_of_nat_64)
  have h: "holds_at ?b bs ?off (rsp_auths_wire auths)" if "10 + length body \<le> unat bs" for bs
    using sg uoff lb that by (simp add: holds_at_def fits_def del: of_nat_add)
  have cnt: "unat (ctx_authsCount c) = length auths" using auths(2,3) by (simp add: TSS2_SYS_MAX_SESSIONS_def unat_of_nat)
  have chk: "check_rsp_auths [0..<length auths] (length auths) ?b ?rs ?off = Some 0"
    using check_rsp_auths_ok [OF _ auths(1) h, of ?rs 0 "length auths"] urs len by simp
  have lb': "length ?b = length (ctx_cmdBuffer c)" using len by simp
  have "unat (ucast (ctx_maxCmdSize c) :: size_t) \<le> length ?b" unfolding lb' using c(1) by (simp add: ctx_ok_def)
  from unmarshal_rsp_auths_ok [OF this auths(1) h, of 0 "AUTH_RESPONSE_auths arr"] n arr auths(3) obtain as where
    un: "unmarshal_rsp_auths [0..<length auths] ?b (ucast (ctx_maxCmdSize c)) ?off (AUTH_RESPONSE_auths arr) = Some (0, as)"
      "map wire_TPMS_AUTH_RESPONSE (take (length auths) as) = map wire_TPMS_AUTH_RESPONSE auths" by auto
  have sel: "ctx_cmdBuffer ?c = ?b" "ctx_rspParamsSize ?c = ctx_rspParamsSize c" "ctx_numResponseHandles ?c = ctx_numResponseHandles c"
    "ctx_authsCount ?c = ctx_authsCount c" "ctx_maxCmdSize ?c = ctx_maxCmdSize c" "ctx_authAllowed ?c = ctx_authAllowed c"
    "ctx_previousStage ?c = CMD_STAGE_RECEIVE_RESPONSE" by (simp_all add: answered_def)
  have "Tss2_Sys_GetRspAuths (Some ?c) (Some arr) =
      Some (0, Some (arr\<lparr>AUTH_RESPONSE_auths := as, AUTH_RESPONSE_count := ucast (ctx_authsCount c)\<rparr>))"
    unfolding Tss2_Sys_GetRspAuths_def option.case prod.case sel hdr ps Let_def
    by (simp only: c(2) cnt off rs chk un option.case prod.case if_False if_True refl simp_thms of_nat_numeral)
  moreover have "unat (ucast (ctx_authsCount c) :: UINT16) = length auths"
    using auths(3) unfolding auths(2) by (simp add: unsigned_ucast_eq unat_of_nat take_bit_nat_eq_self TSS2_SYS_MAX_SESSIONS_def)
  ultimately show ?thesis using un(2) by simp
qed

end
