(* ===== verification/Sys_OneCall.thy ===== *)
theory Sys_OneCall
  imports Sys_RspAuths
begin

text \<open>
  The one-call functions, shown once for every command that keeps the contracts of its \<open>_Prepare\<close> and
  \<open>_Complete\<close> function: the command reaches the transport byte for byte, and what the TPM answers
  reaches the caller.
\<close>

section \<open>One exchange with the TPM\<close>

text \<open>The transport takes the command \<open>w\<close>, then answers with \<open>r\<close>.\<close>

definition exchange :: "'t TSS2_TCTI_CONTEXT \<Rightarrow> BYTE list \<Rightarrow> BYTE list \<Rightarrow> 't \<Rightarrow> bool" where
  "exchange t w r s \<longleftrightarrow> 1 \<le> TCTI_version t \<and>
     (case TCTI_transmit t of
        None \<Rightarrow> False
      | Some transmit \<Rightarrow>
          (case transmit (TCTI_state t) w of
             (rc, s1) \<Rightarrow> rc = 0 \<and>
               (\<forall>b. length r \<le> length b \<longrightarrow> answers_with (t\<lparr>TCTI_state := s1\<rparr>) TSS2_TCTI_TIMEOUT_BLOCK b r s)))"

definition exchanged :: "'t TSS2_TCTI_CONTEXT \<Rightarrow> 't \<Rightarrow> BYTE list \<Rightarrow> BYTE list \<Rightarrow> 't TSS2_SYS_CONTEXT_BLOB \<Rightarrow> 't TSS2_SYS_CONTEXT_BLOB" where
  "exchanged t s w r c = answered t s r (c\<lparr>ctx_cmd_header := take sizeof_header w\<rparr>)"

lemma Execute_exchange:
  assumes c: "holds_command tag cc handles area params c" "ctx_tctiContext c = Some t"
    and x: "exchange t (cmd_bytes tag cc handles area params) (rsp_bytes rtag code body) s"
    and rtag: "rtag = TPM2_ST_SESSIONS \<or> rtag = TPM2_ST_NO_SESSIONS"
    and n: "sizeof_header + length body \<le> unat (ctx_maxCmdSize c)"
  shows "Tss2_Sys_Execute (Some c) = Some (code, Some
    (let c' = exchanged t s (cmd_bytes tag cc handles area params) (rsp_bytes rtag code body) c in
     if code \<noteq> 0 \<and> code \<noteq> TPM2_RC_INITIALIZE
     then c'\<lparr>ctx_previousStage := CMD_STAGE_PREPARE,
       ctx_cmdBuffer := patch (ctx_cmdBuffer c') 0 (take sizeof_header (cmd_bytes tag cc handles area params))\<rparr>
     else c'\<lparr>ctx_previousStage := CMD_STAGE_RECEIVE_RESPONSE\<rparr>))"
proof -
  let ?w = "cmd_bytes tag cc handles area params" and ?r = "rsp_bytes rtag code body"
  from x obtain transmit s1 where t: "1 \<le> TCTI_version t" "TCTI_transmit t = Some transmit"
    "transmit (TCTI_state t) ?w = (0, s1)"
    and a: "\<And>b. length ?r \<le> length b \<Longrightarrow> answers_with (t\<lparr>TCTI_state := s1\<rparr>) TSS2_TCTI_TIMEOUT_BLOCK b ?r s"
    unfolding exchange_def by (auto split: option.splits prod.splits)
  let ?c1 = "c\<lparr>ctx_tctiContext := Some (t\<lparr>TCTI_state := s1\<rparr>), ctx_previousStage := CMD_STAGE_SEND_COMMAND,
       ctx_cmd_header := take sizeof_header ?w\<rparr>"
  have ok: "ctx_ok ?c1" using c(1) by (simp add: holds_command_def ctx_ok_def)
  have len: "length ?r \<le> length (ctx_cmdBuffer ?c1)" using n ok by (simp add: ctx_ok_def)
  have "Tss2_Sys_ExecuteAsync (Some c) = Some (0, Some ?c1)"
    using ExecuteAsync_sends [OF c t] by simp
  moreover note ExecuteFinish_response [OF ok _ _ a [OF len] rtag, simplified]
  ultimately show ?thesis
    using n by (simp add: Tss2_Sys_Execute_def exchanged_def Let_def) (simp add: answered_def)
qed

section \<open>Authorizations\<close>

text \<open>The authorization area of the command, and the arrays a caller may pass.\<close>

definition array_auths :: "TSS2L_SYS_AUTH_COMMAND \<Rightarrow> TPMS_AUTH_COMMAND list" where
  "array_auths arr = take (unat (AUTH_COMMAND_count arr)) (AUTH_COMMAND_auths arr)"

fun cmd_tag :: "TSS2L_SYS_AUTH_COMMAND option \<Rightarrow> UINT16" where
  "cmd_tag None = TPM2_ST_NO_SESSIONS"
| "cmd_tag (Some arr) = TPM2_ST_SESSIONS"

fun cmd_area :: "TSS2L_SYS_AUTH_COMMAND option \<Rightarrow> BYTE list" where
  "cmd_area None = []"
| "cmd_area (Some arr) =
     be_bytes (of_nat (length (auths_wire (array_auths arr))) :: UINT32) @ auths_wire (array_auths arr)"

fun auths_ok :: "bool \<Rightarrow> TSS2L_SYS_AUTH_COMMAND option \<Rightarrow> bool" where
  "auths_ok auth None = True"
| "auths_ok auth (Some arr) \<longleftrightarrow> auth \<and> 0 < AUTH_COMMAND_count arr \<and> AUTH_COMMAND_count arr \<le> 3 \<and>
     unat (AUTH_COMMAND_count arr) \<le> length (AUTH_COMMAND_auths arr) \<and> list_all valid_TPMS_AUTH_COMMAND (array_auths arr)"

lemma set_auths_ok:
  assumes c: "holds_command TPM2_ST_NO_SESSIONS cc handles [] params c" "auths_ok (ctx_authAllowed c) arr"
    and room: "sizeof_header + length handles + length params + length (cmd_area arr) \<le> unat (ctx_maxCmdSize c)"
  shows "\<exists>c'. (if Option.is_none arr then Some (TSS2_RC_SUCCESS, Some c) else Tss2_Sys_SetCmdAuths (Some c) arr) = Some (0, Some c') \<and>
    holds_command (cmd_tag arr) cc handles (cmd_area arr) params c' \<and>
    c' = c\<lparr>ctx_cmdBuffer := ctx_cmdBuffer c', ctx_cpBuffer := ctx_cpBuffer c', ctx_authsCount := ctx_authsCount c'\<rparr> \<and>
    (\<forall>a. arr = Some a \<longrightarrow> ctx_authsCount c' = of_nat (length (array_auths a)))"
proof (cases arr)
  case None
  with c show ?thesis by simp
next
  case (Some a)
  let ?as = "array_auths a"
  have n: "length ?as = unat (AUTH_COMMAND_count a)" "0 < length ?as" "length ?as \<le> 3"
    using c(2) Some by (auto simp: array_auths_def word_le_nat_alt word_less_nat_alt)
  then have "AUTH_COMMAND_count a = of_nat (length ?as)" "take (length ?as) (AUTH_COMMAND_auths a) = ?as"
    by (simp_all add: array_auths_def)
  from SetCmdAuths_ok [OF c(1) _ this n(2,3)] c(2) room obtain c' where
    h: "Tss2_Sys_SetCmdAuths (Some c) (Some a) = Some (0, Some c')"
      "holds_command TPM2_ST_SESSIONS cc handles (be_bytes (of_nat (length (auths_wire ?as)) :: UINT32) @ auths_wire ?as) params c'"
    and e: "c' = c\<lparr>ctx_cmdBuffer := ctx_cmdBuffer c', ctx_cpBuffer := ctx_cpBuffer c', ctx_authsCount := of_nat (length ?as)\<rparr>"
    by (auto simp: Some list_all_iff)
  have k: "ctx_authsCount c' = of_nat (length ?as)" by (subst e) simp
  with h e show ?thesis unfolding Some by (intro exI [of _ c']) (simp add: k)
qed

section \<open>The common part of the one-call functions\<close>

lemma tags_distinct [simp]: "TPM2_ST_NO_SESSIONS \<noteq> TPM2_ST_SESSIONS" "TPM2_ST_SESSIONS \<noteq> TPM2_ST_NO_SESSIONS"
  by (simp_all add: TPM2_ST_NO_SESSIONS_def TPM2_ST_SESSIONS_def)

lemma GetNumResponseHandles_le: "GetNumResponseHandles cc \<le> 1"
proof -
  have "list_all (\<lambda>(_, _, r). r \<le> 1) commandArray" by (simp add: commandArray_def)
  then show ?thesis
    by (auto simp: GetNumResponseHandles_def GetNumHandles_def find_Some_iff list_all_length split: option.splits)
qed

text \<open>The response to a command with the authorizations \<open>arr\<close>, for the authorizations \<open>ras\<close> of the TPM.\<close>

fun rsp_body :: "TSS2L_SYS_AUTH_COMMAND option \<Rightarrow> BYTE list \<Rightarrow> BYTE list \<Rightarrow> TPMS_AUTH_RESPONSE list \<Rightarrow> BYTE list" where
  "rsp_body None handles params ras = handles @ params"
| "rsp_body (Some _) handles params ras =
     handles @ be_bytes (of_nat (length params) :: UINT32) @ params @ rsp_auths_wire ras"

fun ras_ok :: "TSS2L_SYS_AUTH_COMMAND option \<Rightarrow> TPMS_AUTH_RESPONSE list \<Rightarrow> bool" where
  "ras_ok None ras = True"
| "ras_ok (Some arr) ras \<longleftrightarrow> length ras = length (array_auths arr) \<and> list_all valid_TPMS_AUTH_RESPONSE ras"

definition rsp_array_ok :: "TSS2L_SYS_AUTH_RESPONSE \<Rightarrow> bool" where
  "rsp_array_ok r \<longleftrightarrow> length (AUTH_RESPONSE_auths r) = TSS2_SYS_MAX_SESSIONS \<and>
     list_all wt_TPMS_AUTH_RESPONSE (AUTH_RESPONSE_auths r)"

text \<open>What the caller's array for the response authorizations holds afterwards.\<close>

definition delivered ::
  "TSS2L_SYS_AUTH_COMMAND option \<Rightarrow> TPMS_AUTH_RESPONSE list \<Rightarrow> TSS2L_SYS_AUTH_RESPONSE option \<Rightarrow>
    TSS2L_SYS_AUTH_RESPONSE option \<Rightarrow> bool" where
  "delivered arr ras rsp rsp' \<longleftrightarrow>
     (case (arr, rsp') of
        (Some _, Some r) \<Rightarrow> unat (AUTH_RESPONSE_count r) = length ras \<and>
          map wire_TPMS_AUTH_RESPONSE (take (length ras) (AUTH_RESPONSE_auths r)) = map wire_TPMS_AUTH_RESPONSE ras
      | _ \<Rightarrow> rsp' = rsp)"

lemma tag_of_response:
  assumes "sizeof_header \<le> length (ctx_cmdBuffer c)"
  shows "header_get (ctx_cmdBuffer (exchanged t s w (rsp_bytes tag code body) c)) 0 = Some tag"
proof -
  let ?r = "rsp_bytes tag code body"
  have "seg (patch (ctx_cmdBuffer c) 0 ?r) 0 2 = seg ?r 0 2" by (intro seg_answered) simp
  also have "\<dots> = be_bytes tag" by (simp add: rsp_bytes_def seg_def)
  finally have "seg (patch (ctx_cmdBuffer c) 0 ?r) 0 2 = be_bytes tag" .
  then show ?thesis
    using assms by (subst header_get_eq) (auto simp: exchanged_def answered_def patch_def)
qed

lemma CommonOneCall_answer:
  assumes c: "holds_command TPM2_ST_NO_SESSIONS cc handles [] params c" "auths_ok (ctx_authAllowed c) arr"
      "ctx_tctiContext c = Some t"
      "sizeof_header + length handles + length params + length (cmd_area arr) \<le> unat (ctx_maxCmdSize c)"
    and hc: "ctx_rspParamsSize c = of_nat (sizeof_header + length rhandles)" "length rhandles = 4 * unat (ctx_numResponseHandles c)"
    and body: "body = rsp_body arr rhandles rparams ras" "sizeof_header + length body \<le> unat (ctx_maxCmdSize c)" "ras_ok arr ras"
    and rsp: "\<forall>r. rsp = Some r \<longrightarrow> rsp_array_ok r"
    and x: "exchange t (cmd_bytes (cmd_tag arr) cc handles (cmd_area arr) params) (rsp_bytes (cmd_tag arr) 0 body) s"
  shows "\<exists>c' rsp'. CommonOneCall arr (Some c, rsp) = Some (0, Some c', rsp') \<and>
    response_holds c' rhandles rparams \<and> delivered arr ras rsp rsp'"
proof -
  from set_auths_ok [OF c(1,2,4)] obtain c1 where
    1: "(if Option.is_none arr then Some (TSS2_RC_SUCCESS, Some c) else Tss2_Sys_SetCmdAuths (Some c) arr) = Some (0, Some c1)"
      "holds_command (cmd_tag arr) cc handles (cmd_area arr) params c1"
      "\<forall>a. arr = Some a \<longrightarrow> ctx_authsCount c1 = of_nat (length (array_auths a))"
    and e: "c1 = c\<lparr>ctx_cmdBuffer := ctx_cmdBuffer c1, ctx_cpBuffer := ctx_cpBuffer c1, ctx_authsCount := ctx_authsCount c1\<rparr>" by blast
  have same: "ctx_tctiContext c1 = Some t" "ctx_maxCmdSize c1 = ctx_maxCmdSize c" "ctx_rspParamsSize c1 = ctx_rspParamsSize c"
    "ctx_numResponseHandles c1 = ctx_numResponseHandles c" "ctx_authAllowed c1 = ctx_authAllowed c"
    using c(3) by (subst e, simp)+
  let ?w = "cmd_bytes (cmd_tag arr) cc handles (cmd_area arr) params" and ?r = "rsp_bytes (cmd_tag arr) 0 body"
  let ?c2 = "(exchanged t s ?w ?r c1)\<lparr>ctx_previousStage := CMD_STAGE_RECEIVE_RESPONSE\<rparr>"
  let ?c1 = "c1\<lparr>ctx_cmd_header := take sizeof_header ?w\<rparr>"
  have ok1: "ctx_ok ?c1" using 1(2) by (simp add: holds_command_def ctx_ok_def)
  have n1: "sizeof_header + length body \<le> unat (ctx_maxCmdSize ?c1)" using body(2) same by simp
  have 2: "Tss2_Sys_Execute (Some c1) = Some (0, Some ?c2)"
    using Execute_exchange [OF 1(2) same(1) x] body(2) same(2) by (cases arr) (simp_all add: Let_def)
  have code: "TPM20_Header_Out_responseCode (ctx_rsp_header ?c2) = 0"
    by (simp add: exchanged_def answered_def) (simp add: rsp_bytes_def seg_def)
  have tag: "header_get (ctx_cmdBuffer ?c2) 0 = Some (cmd_tag arr)"
    using tag_of_response [of c1 t s ?w "cmd_tag arr" 0 body] ok1 by (simp add: ctx_ok_def)
  have holds: "response_holds ?c2 rhandles rparams"
    unfolding exchanged_def
    using response_holds_answered [OF ok1 _ n1, of rhandles "if arr = None then [] else be_bytes (of_nat (length rparams) :: UINT32)"
        rparams "if arr = None then [] else rsp_auths_wire ras" "cmd_tag arr" "of_nat (length rparams)"] hc(1) same(3) body(1)
    by (cases arr) auto
  have pre: "CommonOneCall arr (Some c, rsp) =
      (if cmd_tag arr = TPM2_ST_SESSIONS \<and> \<not> Option.is_none rsp
       then map_option (\<lambda>(r, a). (r, Some ?c2, a)) (Tss2_Sys_GetRspAuths (Some ?c2) rsp) else Some (0, Some ?c2, rsp))"
    using 1(1) 2 code tag by (simp add: CommonOneCall_def split: if_splits)
  show ?thesis
  proof (cases "cmd_tag arr = TPM2_ST_SESSIONS \<and> \<not> Option.is_none rsp")
    case False
    then have "delivered arr ras rsp rsp" by (cases arr; cases rsp) (auto simp: delivered_def)
    with False pre holds show ?thesis by auto
  next
    case True
    then obtain a r where ar: "arr = Some a" "rsp = Some r" by (cases arr; cases rsp) auto
    have "length ras \<le> TSS2_SYS_MAX_SESSIONS"
      using c(2) body(3) by (auto simp: ar array_auths_def TSS2_SYS_MAX_SESSIONS_def word_le_nat_alt)
    with GetRspAuths_ok [OF ok1, of rhandles body rparams ras "[]" r t s] 1(3) c(2) same hc body n1 rsp obtain r' where
      "Tss2_Sys_GetRspAuths (Some ?c2) (Some r) = Some (0, Some r')" "unat (AUTH_RESPONSE_count r') = length ras"
      "map wire_TPMS_AUTH_RESPONSE (take (length ras) (AUTH_RESPONSE_auths r')) = map wire_TPMS_AUTH_RESPONSE ras"
      by (auto simp: ar exchanged_def rsp_array_ok_def list_all_iff)
    with True pre holds show ?thesis by (auto simp: ar delivered_def)
  qed
qed

text \<open>An error the TPM answers with ends the call; the command can be sent again.\<close>

lemma CommonOneCall_error:
  assumes c: "holds_command TPM2_ST_NO_SESSIONS cc handles [] params c" "auths_ok (ctx_authAllowed c) arr"
      "ctx_tctiContext c = Some t"
      "sizeof_header + length handles + length params + length (cmd_area arr) \<le> unat (ctx_maxCmdSize c)"
    and code: "code \<noteq> 0" "code \<noteq> TPM2_RC_INITIALIZE"
    and x: "exchange t (cmd_bytes (cmd_tag arr) cc handles (cmd_area arr) params) (rsp_bytes TPM2_ST_NO_SESSIONS code []) s"
  shows "\<exists>c'. CommonOneCall arr (Some c, rsp) = Some (code, Some c', rsp) \<and>
    holds_command (cmd_tag arr) cc handles (cmd_area arr) params c' \<and> ctx_tctiContext c' = Some (t\<lparr>TCTI_state := s\<rparr>)"
proof -
  from set_auths_ok [OF c(1,2,4)] obtain c1 where
    1: "(if Option.is_none arr then Some (TSS2_RC_SUCCESS, Some c) else Tss2_Sys_SetCmdAuths (Some c) arr) = Some (0, Some c1)"
      "holds_command (cmd_tag arr) cc handles (cmd_area arr) params c1"
    and e: "c1 = c\<lparr>ctx_cmdBuffer := ctx_cmdBuffer c1, ctx_cpBuffer := ctx_cpBuffer c1, ctx_authsCount := ctx_authsCount c1\<rparr>" by blast
  have same: "ctx_tctiContext c1 = Some t" "ctx_maxCmdSize c1 = ctx_maxCmdSize c" using c(3) by (subst e, simp)+
  let ?w = "cmd_bytes (cmd_tag arr) cc handles (cmd_area arr) params" and ?r = "rsp_bytes TPM2_ST_NO_SESSIONS code []"
  let ?x = "exchanged t s ?w ?r c1"
  let ?c2 = "?x\<lparr>ctx_previousStage := CMD_STAGE_PREPARE, ctx_cmdBuffer := patch (ctx_cmdBuffer ?x) 0 (take sizeof_header ?w)\<rparr>"
  have "10 \<le> unat (ctx_maxCmdSize c1)" "ctx_previousStage c1 = CMD_STAGE_PREPARE"
    using 1(2) by (simp_all add: holds_command_def ctx_ok_def)
  with Execute_exchange [OF 1(2) same(1) x] code have "Tss2_Sys_Execute (Some c1) = Some (code, Some ?c2)"
    by (simp add: Let_def)
  with 1(1) code(1) have "CommonOneCall arr (Some c, rsp) = Some (code, Some ?c2, rsp)"
    by (simp add: CommonOneCall_def split: if_splits)
  moreover have "holds_command (cmd_tag arr) cc handles (cmd_area arr) params ?c2"
    using holds_command_restored [OF 1(2), of ?r 10 "ctx_rsp_header ?x" "Some (t\<lparr>TCTI_state := s\<rparr>)"]
    by (auto simp: exchanged_def answered_def holds_command_def ctx_ok_def)
  moreover have "ctx_tctiContext ?c2 = Some (t\<lparr>TCTI_state := s\<rparr>)" by (simp add: exchanged_def answered_def)
  ultimately show ?thesis by blast
qed

section \<open>Whole commands\<close>

text \<open>The three parts of a one-call function.\<close>

definition one_call ::
  "'t sysctx step \<Rightarrow> ('t sysctx \<times> 'o) step \<Rightarrow> TSS2L_SYS_AUTH_COMMAND option \<Rightarrow>
    ('t sysctx \<times> TSS2L_SYS_AUTH_RESPONSE option \<times> 'o) step" where
  "one_call P C arr = steps [on_fst P, on_rsp (CommonOneCall arr), skip_out C]"

text \<open>Argument checks in front of the three parts.\<close>

lemma one_call_simps:
  "steps (ret (null_rc nulls) # fs) s = (if True \<in> set nulls then Some (TSS2_SYS_RC_BAD_REFERENCE, s) else steps fs s)"
  "steps (on_fst (null_check nulls) # fs) (Some c, r) =
    (if True \<in> set nulls then Some (TSS2_SYS_RC_BAD_REFERENCE, Some c, r) else steps fs (Some c, r))"
  by (simp_all add: ret_def null_rc_def)

lemma ptr_valid_some: "ptr_valid v p \<Longrightarrow> \<exists>x. p = Some x"
  by (cases p) auto

locale sys_command =
  prepare: sys_prepare P cc nulls src valid handles params null dec enc auth +
  complete: sys_complete C cc wt cvalid chandles cparams
  for P :: "'t sysctx step" and C :: "('t sysctx \<times> 'o) step" and cc nulls src valid handles params null dec enc auth
    and wt cvalid chandles cparams +
  fixes F :: "('t sysctx \<times> TSS2L_SYS_AUTH_RESPONSE option \<times> 'o) step" and arr :: "TSS2L_SYS_AUTH_COMMAND option"
  assumes whole: "\<not> nulls \<Longrightarrow> wt outs \<Longrightarrow> F (Some c, rsp, outs) = one_call P C arr (Some c, rsp, outs)"
begin

text \<open>The bytes the transport has to see.\<close>

abbreviation command :: "BYTE list" where
  "command \<equiv> cmd_bytes (cmd_tag arr) cc handles (cmd_area arr) params"

lemma prepared_holds:
  assumes "\<not> nulls" valid "ctx_ok c" "may_prepare c" "length (command) \<le> unat (ctx_maxCmdSize c)"
  shows "P (Some c) = Some (0, Some (prepared cc handles params null dec enc auth c))"
    and "holds_command TPM2_ST_NO_SESSIONS cc handles [] params (prepared cc handles params null dec enc auth c)"
  using assms prepare.prepare_ok [of c] holds_command_prepared [of c handles params cc null dec enc auth] by auto

lemma call_delivers:
  assumes call: "\<not> nulls" valid "ctx_ok c" "may_prepare c" "length (command) \<le> unat (ctx_maxCmdSize c)"
    and c: "auths_ok auth arr" "ctx_tctiContext c = Some t"
    and x: "cvalid x" "wt outs" "body = rsp_body arr (chandles x) (cparams x) ras" "ras_ok arr ras"
      "sizeof_header + length body \<le> unat (ctx_maxCmdSize c)"
    and rsp: "\<forall>r. rsp = Some r \<longrightarrow> rsp_array_ok r"
    and tpm: "exchange t (command) (rsp_bytes (cmd_tag arr) 0 body) s"
  shows "\<exists>c' rsp' outs'. F (Some c, rsp, outs) = Some (0, Some c', rsp', outs') \<and>
    chandles outs' = chandles x \<and> cparams outs' = cparams x \<and> delivered arr ras rsp rsp'"
proof -
  let ?p = "prepared cc handles params null dec enc auth c"
  note p = prepared_holds [OF call]
  have sel: "ctx_authAllowed ?p = auth" "ctx_tctiContext ?p = Some t" "ctx_maxCmdSize ?p = ctx_maxCmdSize c"
    "ctx_rspParamsSize ?p = of_nat (10 + length (chandles x))" "length (chandles x) = 4 * unat (ctx_numResponseHandles ?p)"
    using c(2) complete.handle_count [OF x(1)] GetNumResponseHandles_le [of cc] by (simp_all add: prepared_def unat_of_nat)
  obtain c1 rsp' where 1: "CommonOneCall arr (Some ?p, rsp) = Some (0, Some c1, rsp')"
    "response_holds c1 (chandles x) (cparams x)" "delivered arr ras rsp rsp'"
    using CommonOneCall_answer [OF p(2) _ sel(2) _ sel(4,5) x(3) _ x(4) rsp, OF _ _ _ tpm] c(1) x(5) sel(1,3) call(5)
    by auto
  from complete.complete_delivers [OF x(1,2) 1(2)] obtain c2 outs' where
    "C (Some c1, outs) = Some (0, Some c2, outs')" "chandles outs' = chandles x" "cparams outs' = cparams x" by blast
  with p(1) 1 show ?thesis using whole [OF call(1)] x(2) by (simp add: one_call_def on_rsp_def skip_out_def)
qed

lemma call_error:
  assumes call: "\<not> nulls" valid "ctx_ok c" "may_prepare c" "length (command) \<le> unat (ctx_maxCmdSize c)"
    and c: "auths_ok auth arr" "ctx_tctiContext c = Some t"
    and outs: "wt outs"
    and code: "code \<noteq> 0" "code \<noteq> TPM2_RC_INITIALIZE"
    and tpm: "exchange t (command) (rsp_bytes TPM2_ST_NO_SESSIONS code []) s"
  shows "\<exists>c'. F (Some c, rsp, outs) = Some (code, Some c', rsp, outs) \<and>
    holds_command (cmd_tag arr) cc handles (cmd_area arr) params c' \<and> ctx_tctiContext c' = Some (t\<lparr>TCTI_state := s\<rparr>)"
proof -
  let ?p = "prepared cc handles params null dec enc auth c"
  note p = prepared_holds [OF call]
  have sel: "ctx_authAllowed ?p = auth" "ctx_tctiContext ?p = Some t" "ctx_maxCmdSize ?p = ctx_maxCmdSize c"
    using c(2) by (simp_all add: prepared_def)
  obtain c1 where "CommonOneCall arr (Some ?p, rsp) = Some (code, Some c1, rsp)"
    "holds_command (cmd_tag arr) cc handles (cmd_area arr) params c1" "ctx_tctiContext c1 = Some (t\<lparr>TCTI_state := s\<rparr>)"
    using CommonOneCall_error [OF p(2) _ sel(2) _ code, OF _ _ tpm, of rsp] c(1) sel(1,3) call(5)
    by auto
  with p(1) code(1) show ?thesis using whole [OF call(1) outs] by (simp add: one_call_def on_rsp_def)
qed

end

end
