(* ===== verification/Sys_Commands_1.thy ===== *)
theory Sys_Commands_1
  imports Sys_OneCall
begin

text \<open>
  The command functions of \<open>src/tss2-sys/api\<close> from \<open>ACT_SetTimeout\<close> to \<open>ECC_Parameters\<close>: for each command \<open>_Prepare\<close>, \<open>_Complete\<close> and
  the one-call function, with the contracts they satisfy.
\<close>

section \<open>Commands\<close>

subsection \<open>ACT SetTimeout\<close>

definition Tss2_Sys_ACT_SetTimeout_Prepare where
  "Tss2_Sys_ACT_SetTimeout_Prepare sysContext actHandle startTimeout = steps
     [null_check [],
      CommonPreparePrologue TPM2_CC_ACT_SetTimeout,
      put (Tss2_MU_UINT32_Marshal actHandle),
      put (Tss2_MU_UINT32_Marshal startTimeout),
      assign (flags False False True),
      CommonPrepareEpilogue]
     sysContext"

definition Tss2_Sys_ACT_SetTimeout_Complete where
  "Tss2_Sys_ACT_SetTimeout_Complete sysContext = steps
     [on_fst (null_check []),
      on_fst CommonComplete]
     (sysContext, ())"

definition Tss2_Sys_ACT_SetTimeout where
  "Tss2_Sys_ACT_SetTimeout sysContext actHandle cmdAuthsArray startTimeout rspAuthsArray = steps
     [on_fst (\<lambda>ctx. Tss2_Sys_ACT_SetTimeout_Prepare ctx actHandle startTimeout),
      on_rsp (CommonOneCall cmdAuthsArray),
      skip_out (\<lambda>(ctx, _). Tss2_Sys_ACT_SetTimeout_Complete ctx)]
     (sysContext, rspAuthsArray, ())"

lemma ACT_SetTimeout_handles [simp]:
  "GetNumCommandHandles TPM2_CC_ACT_SetTimeout = 1" "GetNumResponseHandles TPM2_CC_ACT_SetTimeout = 0"
  using GetNumHandles_entry [of TPM2_CC_ACT_SetTimeout 1 0] by (simp_all add: commandArray_def)

interpretation prepare_ACT_SetTimeout: sys_prepare "\<lambda>ctx. Tss2_Sys_ACT_SetTimeout_Prepare ctx actHandle startTimeout" TPM2_CC_ACT_SetTimeout "True \<in> set []"
  "True"
  "True"
  "be_bytes actHandle"
  "be_bytes startTimeout" "False" False False True
  for actHandle startTimeout
  by (rule sys_prepareI [OF emits_Cons [OF emits_put [OF mu_UINT32.marshaler_axioms, of actHandle]
    emits_Cons [OF emits_put [OF mu_UINT32.marshaler_axioms, of startTimeout]
    emits_skip]]])
    (simp_all add: Tss2_Sys_ACT_SetTimeout_Prepare_def weak_defs prepare_simps del: steps.simps)

interpretation complete_ACT_SetTimeout: sys_complete "\<lambda>(ctx, _). Tss2_Sys_ACT_SetTimeout_Complete ctx" TPM2_CC_ACT_SetTimeout
  "\<lambda>(_). True"
  "\<lambda>(_). True"
  "\<lambda>(_). []"
  "\<lambda>(_). []"
  by (rule sys_completeI [OF sys_complete_plain [OF reads_Nil]])
    (simp_all add: Tss2_Sys_ACT_SetTimeout_Complete_def split_paired_all del: steps.simps)

interpretation cmd_ACT_SetTimeout: sys_command "\<lambda>ctx. Tss2_Sys_ACT_SetTimeout_Prepare ctx actHandle startTimeout"
  "\<lambda>(ctx, _). Tss2_Sys_ACT_SetTimeout_Complete ctx" TPM2_CC_ACT_SetTimeout "True \<in> set []"
  "True"
  "True"
  "be_bytes actHandle"
  "be_bytes startTimeout" "False" False False True
  "\<lambda>(_). True"
  "\<lambda>(_). True"
  "\<lambda>(_). []"
  "\<lambda>(_). []"
  "\<lambda>(ctx, rsp, _). Tss2_Sys_ACT_SetTimeout ctx actHandle cmdAuthsArray startTimeout rsp" cmdAuthsArray
  for actHandle startTimeout cmdAuthsArray
  by (rule sys_command.intro [OF prepare_ACT_SetTimeout.sys_prepare_axioms complete_ACT_SetTimeout.sys_complete_axioms sys_command_axioms.intro])
    (auto simp: Tss2_Sys_ACT_SetTimeout_def one_call_def one_call_simps null_rc_def dest!: ptr_valid_some simp del: steps.simps)

subsection \<open>AC GetCapability\<close>

definition Tss2_Sys_AC_GetCapability_Prepare where
  "Tss2_Sys_AC_GetCapability_Prepare sysContext ac capability count' = steps
     [null_check [],
      CommonPreparePrologue TPM2_CC_AC_GetCapability,
      put (Tss2_MU_TPM2_HANDLE_Marshal ac),
      put (Tss2_MU_UINT32_Marshal capability),
      put (Tss2_MU_UINT32_Marshal count'),
      assign (flags False False True),
      CommonPrepareEpilogue]
     sysContext"

definition Tss2_Sys_AC_GetCapability_Complete where
  "Tss2_Sys_AC_GetCapability_Complete sysContext moreData capabilityData = steps
     [on_fst (null_check []),
      on_fst CommonComplete,
      get_out Tss2_MU_UINT8_Unmarshal,
      skip_out (get_out Tss2_MU_TPML_AC_CAPABILITIES_Unmarshal)]
     (sysContext, moreData, capabilityData, ())"

definition Tss2_Sys_AC_GetCapability where
  "Tss2_Sys_AC_GetCapability sysContext ac cmdAuthsArray capability count' moreData capabilityData rspAuthsArray = steps
     [on_fst (\<lambda>ctx. Tss2_Sys_AC_GetCapability_Prepare ctx ac capability count'),
      on_rsp (CommonOneCall cmdAuthsArray),
      skip_out (\<lambda>(ctx, d1, d2, _). Tss2_Sys_AC_GetCapability_Complete ctx d1 d2)]
     (sysContext, rspAuthsArray, moreData, capabilityData, ())"

lemma AC_GetCapability_handles [simp]:
  "GetNumCommandHandles TPM2_CC_AC_GetCapability = 1" "GetNumResponseHandles TPM2_CC_AC_GetCapability = 0"
  using GetNumHandles_entry [of TPM2_CC_AC_GetCapability 1 0] by (simp_all add: commandArray_def)

interpretation prepare_AC_GetCapability: sys_prepare "\<lambda>ctx. Tss2_Sys_AC_GetCapability_Prepare ctx ac capability count'" TPM2_CC_AC_GetCapability "True \<in> set []"
  "True"
  "True"
  "be_bytes ac"
  "be_bytes capability @ be_bytes count'" "False" False False True
  for ac capability count'
  by (rule sys_prepareI [OF emits_Cons [OF emits_put [OF mu_TPM2_HANDLE.marshaler_axioms, of ac]
    emits_Cons [OF emits_put [OF mu_UINT32.marshaler_axioms, of capability]
    emits_Cons [OF emits_put [OF mu_UINT32.marshaler_axioms, of count']
    emits_skip]]]])
    (simp_all add: Tss2_Sys_AC_GetCapability_Prepare_def weak_defs prepare_simps del: steps.simps)

interpretation complete_AC_GetCapability: sys_complete "\<lambda>(ctx, d1, d2, _). Tss2_Sys_AC_GetCapability_Complete ctx d1 d2" TPM2_CC_AC_GetCapability
  "\<lambda>(d1, d2, _). ptr_valid (\<lambda>_. True) d1 \<and> ptr_valid (wt_TPML 128 wt_TPMS_AC_OUTPUT) d2"
  "\<lambda>(d1, d2, _). ptr_valid (\<lambda>_. True) d1 \<and> ptr_valid (valid_TPML 128 valid_TPMS_AC_OUTPUT) d2"
  "\<lambda>(_, _, _). []"
  "\<lambda>(d1, d2, _). ptr_wire be_bytes d1 @ ptr_wire (wire_TPML wire_TPMS_AC_OUTPUT) d2"
  by (rule sys_completeI [OF sys_complete_plain [OF reads_Cons [OF mu_UINT8.unmarshaler_axioms
    reads_Cons [OF mu_TPML_AC_CAPABILITIES.unmarshaler_axioms
    reads_Nil]]]])
    (simp_all add: Tss2_Sys_AC_GetCapability_Complete_def split_paired_all del: steps.simps)

interpretation cmd_AC_GetCapability: sys_command "\<lambda>ctx. Tss2_Sys_AC_GetCapability_Prepare ctx ac capability count'"
  "\<lambda>(ctx, d1, d2, _). Tss2_Sys_AC_GetCapability_Complete ctx d1 d2" TPM2_CC_AC_GetCapability "True \<in> set []"
  "True"
  "True"
  "be_bytes ac"
  "be_bytes capability @ be_bytes count'" "False" False False True
  "\<lambda>(d1, d2, _). ptr_valid (\<lambda>_. True) d1 \<and> ptr_valid (wt_TPML 128 wt_TPMS_AC_OUTPUT) d2"
  "\<lambda>(d1, d2, _). ptr_valid (\<lambda>_. True) d1 \<and> ptr_valid (valid_TPML 128 valid_TPMS_AC_OUTPUT) d2"
  "\<lambda>(_, _, _). []"
  "\<lambda>(d1, d2, _). ptr_wire be_bytes d1 @ ptr_wire (wire_TPML wire_TPMS_AC_OUTPUT) d2"
  "\<lambda>(ctx, rsp, d1, d2, _). Tss2_Sys_AC_GetCapability ctx ac cmdAuthsArray capability count' d1 d2 rsp" cmdAuthsArray
  for ac capability count' cmdAuthsArray
  by (rule sys_command.intro [OF prepare_AC_GetCapability.sys_prepare_axioms complete_AC_GetCapability.sys_complete_axioms sys_command_axioms.intro])
    (auto simp: Tss2_Sys_AC_GetCapability_def one_call_def one_call_simps null_rc_def dest!: ptr_valid_some simp del: steps.simps)

subsection \<open>AC Send\<close>

definition Tss2_Sys_AC_Send_Prepare where
  "Tss2_Sys_AC_Send_Prepare sysContext sendObject authHandle ac acDataIn = steps
     [null_check [],
      CommonPreparePrologue TPM2_CC_AC_Send,
      put (Tss2_MU_TPM2_HANDLE_Marshal sendObject),
      put (Tss2_MU_TPM2_HANDLE_Marshal authHandle),
      put (Tss2_MU_TPM2_HANDLE_Marshal ac),
      if Option.is_none acDataIn
        then steps [assign (ctx_decryptNull_update (\<lambda>_. True)), put (Tss2_MU_UINT16_Marshal 0)]
        else put (Tss2_MU_TPM2B_MAX_BUFFER_Marshal acDataIn),
      assign (flags True False True),
      CommonPrepareEpilogue]
     sysContext"

definition Tss2_Sys_AC_Send_Complete where
  "Tss2_Sys_AC_Send_Complete sysContext acDataOut = steps
     [on_fst (null_check []),
      on_fst CommonComplete,
      get_out Tss2_MU_TPMS_AC_OUTPUT_Unmarshal]
     (sysContext, acDataOut, ())"

definition Tss2_Sys_AC_Send where
  "Tss2_Sys_AC_Send sysContext sendObject authHandle ac cmdAuthsArray acDataIn acDataOut rspAuthsArray = steps
     [on_fst (\<lambda>ctx. Tss2_Sys_AC_Send_Prepare ctx sendObject authHandle ac acDataIn),
      on_rsp (CommonOneCall cmdAuthsArray),
      skip_out (\<lambda>(ctx, d1, _). Tss2_Sys_AC_Send_Complete ctx d1)]
     (sysContext, rspAuthsArray, acDataOut, ())"

lemma AC_Send_handles [simp]:
  "GetNumCommandHandles TPM2_CC_AC_Send = 3" "GetNumResponseHandles TPM2_CC_AC_Send = 0"
  using GetNumHandles_entry [of TPM2_CC_AC_Send 3 0] by (simp_all add: commandArray_def)

interpretation prepare_AC_Send: sys_prepare "\<lambda>ctx. Tss2_Sys_AC_Send_Prepare ctx sendObject authHandle ac acDataIn" TPM2_CC_AC_Send "True \<in> set []"
  "opt_valid (src_TPM2B 1026 1024) acDataIn"
  "opt_valid (valid_TPM2B 1024) acDataIn"
  "be_bytes sendObject @ be_bytes authHandle @ be_bytes ac"
  "opt_wire wire_TPM2B acDataIn" "Option.is_none acDataIn" True False True
  for sendObject authHandle ac acDataIn
  by (rule sys_prepareI [OF emits_Cons [OF emits_put [OF mu_TPM2_HANDLE.marshaler_axioms, of sendObject]
    emits_Cons [OF emits_put [OF mu_TPM2_HANDLE.marshaler_axioms, of authHandle]
    emits_Cons [OF emits_put [OF mu_TPM2_HANDLE.marshaler_axioms, of ac]
    emits_Cons [OF emits_opt_null [OF mu_TPM2B_MAX_BUFFER.marshaler_axioms, of acDataIn]
    emits_skip]]]]])
    (simp_all add: Tss2_Sys_AC_Send_Prepare_def weak_defs prepare_simps del: steps.simps)

interpretation complete_AC_Send: sys_complete "\<lambda>(ctx, d1, _). Tss2_Sys_AC_Send_Complete ctx d1" TPM2_CC_AC_Send
  "\<lambda>(d1, _). ptr_valid wt_TPMS_AC_OUTPUT d1"
  "\<lambda>(d1, _). ptr_valid valid_TPMS_AC_OUTPUT d1"
  "\<lambda>(_, _). []"
  "\<lambda>(d1, _). ptr_wire wire_TPMS_AC_OUTPUT d1"
  by (rule sys_completeI [OF sys_complete_plain [OF reads_Cons [OF mu_TPMS_AC_OUTPUT.unmarshaler_axioms
    reads_Nil]]])
    (simp_all add: Tss2_Sys_AC_Send_Complete_def split_paired_all del: steps.simps)

interpretation cmd_AC_Send: sys_command "\<lambda>ctx. Tss2_Sys_AC_Send_Prepare ctx sendObject authHandle ac acDataIn"
  "\<lambda>(ctx, d1, _). Tss2_Sys_AC_Send_Complete ctx d1" TPM2_CC_AC_Send "True \<in> set []"
  "opt_valid (src_TPM2B 1026 1024) acDataIn"
  "opt_valid (valid_TPM2B 1024) acDataIn"
  "be_bytes sendObject @ be_bytes authHandle @ be_bytes ac"
  "opt_wire wire_TPM2B acDataIn" "Option.is_none acDataIn" True False True
  "\<lambda>(d1, _). ptr_valid wt_TPMS_AC_OUTPUT d1"
  "\<lambda>(d1, _). ptr_valid valid_TPMS_AC_OUTPUT d1"
  "\<lambda>(_, _). []"
  "\<lambda>(d1, _). ptr_wire wire_TPMS_AC_OUTPUT d1"
  "\<lambda>(ctx, rsp, d1, _). Tss2_Sys_AC_Send ctx sendObject authHandle ac cmdAuthsArray acDataIn d1 rsp" cmdAuthsArray
  for sendObject authHandle ac acDataIn cmdAuthsArray
  by (rule sys_command.intro [OF prepare_AC_Send.sys_prepare_axioms complete_AC_Send.sys_complete_axioms sys_command_axioms.intro])
    (auto simp: Tss2_Sys_AC_Send_def one_call_def one_call_simps null_rc_def dest!: ptr_valid_some simp del: steps.simps)

subsection \<open>ActivateCredential\<close>

definition Tss2_Sys_ActivateCredential_Prepare where
  "Tss2_Sys_ActivateCredential_Prepare sysContext activateHandle keyHandle credentialBlob secret = steps
     [null_check [],
      CommonPreparePrologue TPM2_CC_ActivateCredential,
      put (Tss2_MU_UINT32_Marshal activateHandle),
      put (Tss2_MU_UINT32_Marshal keyHandle),
      if Option.is_none credentialBlob
        then steps [assign (ctx_decryptNull_update (\<lambda>_. True)), put (Tss2_MU_UINT16_Marshal 0)]
        else put (Tss2_MU_TPM2B_ID_OBJECT_Marshal credentialBlob),
      if Option.is_none secret
        then put (Tss2_MU_UINT16_Marshal 0)
        else put (Tss2_MU_TPM2B_ENCRYPTED_SECRET_Marshal secret),
      assign (flags True True True),
      CommonPrepareEpilogue]
     sysContext"

definition Tss2_Sys_ActivateCredential_Complete where
  "Tss2_Sys_ActivateCredential_Complete sysContext certInfo = steps
     [on_fst (null_check []),
      on_fst CommonComplete,
      get_out Tss2_MU_TPM2B_DIGEST_Unmarshal]
     (sysContext, certInfo, ())"

definition Tss2_Sys_ActivateCredential where
  "Tss2_Sys_ActivateCredential sysContext activateHandle keyHandle cmdAuthsArray credentialBlob secret certInfo rspAuthsArray = steps
     [on_fst (\<lambda>ctx. Tss2_Sys_ActivateCredential_Prepare ctx activateHandle keyHandle credentialBlob secret),
      on_rsp (CommonOneCall cmdAuthsArray),
      skip_out (\<lambda>(ctx, d1, _). Tss2_Sys_ActivateCredential_Complete ctx d1)]
     (sysContext, rspAuthsArray, certInfo, ())"

lemma ActivateCredential_handles [simp]:
  "GetNumCommandHandles TPM2_CC_ActivateCredential = 2" "GetNumResponseHandles TPM2_CC_ActivateCredential = 0"
  using GetNumHandles_entry [of TPM2_CC_ActivateCredential 2 0] by (simp_all add: commandArray_def)

interpretation prepare_ActivateCredential: sys_prepare "\<lambda>ctx. Tss2_Sys_ActivateCredential_Prepare ctx activateHandle keyHandle credentialBlob secret" TPM2_CC_ActivateCredential "True \<in> set []"
  "opt_valid (src_TPM2B 134 132) credentialBlob \<and> opt_valid (src_TPM2B 1570 1568) secret"
  "opt_valid (valid_TPM2B 132) credentialBlob \<and> opt_valid (valid_TPM2B 1568) secret"
  "be_bytes activateHandle @ be_bytes keyHandle"
  "opt_wire wire_TPM2B credentialBlob @ opt_wire wire_TPM2B secret" "Option.is_none credentialBlob" True True True
  for activateHandle keyHandle credentialBlob secret
  by (rule sys_prepareI [OF emits_Cons [OF emits_put [OF mu_UINT32.marshaler_axioms, of activateHandle]
    emits_Cons [OF emits_put [OF mu_UINT32.marshaler_axioms, of keyHandle]
    emits_Cons [OF emits_opt_null [OF mu_TPM2B_ID_OBJECT.marshaler_axioms, of credentialBlob]
    emits_Cons [OF emits_opt [OF mu_TPM2B_ENCRYPTED_SECRET.marshaler_axioms, of secret]
    emits_skip]]]]])
    (simp_all add: Tss2_Sys_ActivateCredential_Prepare_def weak_defs prepare_simps del: steps.simps)

interpretation complete_ActivateCredential: sys_complete "\<lambda>(ctx, d1, _). Tss2_Sys_ActivateCredential_Complete ctx d1" TPM2_CC_ActivateCredential
  "\<lambda>(d1, _). ptr_valid (wt_TPM2B 64) d1"
  "\<lambda>(d1, _). ptr_valid (valid_TPM2B 64) d1"
  "\<lambda>(_, _). []"
  "\<lambda>(d1, _). ptr_wire wire_TPM2B d1"
  by (rule sys_completeI [OF sys_complete_plain [OF reads_Cons [OF mu_TPM2B_DIGEST.unmarshaler_axioms
    reads_Nil]]])
    (simp_all add: Tss2_Sys_ActivateCredential_Complete_def split_paired_all del: steps.simps)

interpretation cmd_ActivateCredential: sys_command "\<lambda>ctx. Tss2_Sys_ActivateCredential_Prepare ctx activateHandle keyHandle credentialBlob secret"
  "\<lambda>(ctx, d1, _). Tss2_Sys_ActivateCredential_Complete ctx d1" TPM2_CC_ActivateCredential "True \<in> set []"
  "opt_valid (src_TPM2B 134 132) credentialBlob \<and> opt_valid (src_TPM2B 1570 1568) secret"
  "opt_valid (valid_TPM2B 132) credentialBlob \<and> opt_valid (valid_TPM2B 1568) secret"
  "be_bytes activateHandle @ be_bytes keyHandle"
  "opt_wire wire_TPM2B credentialBlob @ opt_wire wire_TPM2B secret" "Option.is_none credentialBlob" True True True
  "\<lambda>(d1, _). ptr_valid (wt_TPM2B 64) d1"
  "\<lambda>(d1, _). ptr_valid (valid_TPM2B 64) d1"
  "\<lambda>(_, _). []"
  "\<lambda>(d1, _). ptr_wire wire_TPM2B d1"
  "\<lambda>(ctx, rsp, d1, _). Tss2_Sys_ActivateCredential ctx activateHandle keyHandle cmdAuthsArray credentialBlob secret d1 rsp" cmdAuthsArray
  for activateHandle keyHandle credentialBlob secret cmdAuthsArray
  by (rule sys_command.intro [OF prepare_ActivateCredential.sys_prepare_axioms complete_ActivateCredential.sys_complete_axioms sys_command_axioms.intro])
    (auto simp: Tss2_Sys_ActivateCredential_def one_call_def one_call_simps null_rc_def dest!: ptr_valid_some simp del: steps.simps)

subsection \<open>Certify\<close>

definition Tss2_Sys_Certify_Prepare where
  "Tss2_Sys_Certify_Prepare sysContext objectHandle signHandle qualifyingData inScheme = steps
     [null_check [Option.is_none inScheme],
      CommonPreparePrologue TPM2_CC_Certify,
      put (Tss2_MU_UINT32_Marshal objectHandle),
      put (Tss2_MU_UINT32_Marshal signHandle),
      if Option.is_none qualifyingData
        then steps [assign (ctx_decryptNull_update (\<lambda>_. True)), put (Tss2_MU_UINT16_Marshal 0)]
        else put (Tss2_MU_TPM2B_DATA_Marshal qualifyingData),
      put (Tss2_MU_TPMT_SIG_SCHEME_Marshal inScheme),
      assign (flags True True True),
      CommonPrepareEpilogue]
     sysContext"

definition Tss2_Sys_Certify_Complete where
  "Tss2_Sys_Certify_Complete sysContext certifyInfo signature = steps
     [on_fst (null_check []),
      on_fst CommonComplete,
      get_out Tss2_MU_TPM2B_ATTEST_Unmarshal,
      skip_out (get_out Tss2_MU_TPMT_SIGNATURE_Unmarshal)]
     (sysContext, certifyInfo, signature, ())"

definition Tss2_Sys_Certify where
  "Tss2_Sys_Certify sysContext objectHandle signHandle cmdAuthsArray qualifyingData inScheme certifyInfo signature rspAuthsArray = steps
     [ret (null_rc [Option.is_none inScheme]),
      on_fst (\<lambda>ctx. Tss2_Sys_Certify_Prepare ctx objectHandle signHandle qualifyingData inScheme),
      on_rsp (CommonOneCall cmdAuthsArray),
      skip_out (\<lambda>(ctx, d1, d2, _). Tss2_Sys_Certify_Complete ctx d1 d2)]
     (sysContext, rspAuthsArray, certifyInfo, signature, ())"

lemma Certify_handles [simp]:
  "GetNumCommandHandles TPM2_CC_Certify = 2" "GetNumResponseHandles TPM2_CC_Certify = 0"
  using GetNumHandles_entry [of TPM2_CC_Certify 2 0] by (simp_all add: commandArray_def)

interpretation prepare_Certify: sys_prepare "\<lambda>ctx. Tss2_Sys_Certify_Prepare ctx objectHandle signHandle qualifyingData inScheme" TPM2_CC_Certify "True \<in> set [Option.is_none inScheme]"
  "opt_valid (src_TPM2B 66 64) qualifyingData \<and> opt_valid src_TPMT_SIG_SCHEME inScheme"
  "opt_valid (valid_TPM2B 64) qualifyingData \<and> ptr_valid valid_TPMT_SIG_SCHEME inScheme"
  "be_bytes objectHandle @ be_bytes signHandle"
  "opt_wire wire_TPM2B qualifyingData @ ptr_wire wire_TPMT_SIG_SCHEME inScheme" "Option.is_none qualifyingData" True True True
  for objectHandle signHandle qualifyingData inScheme
  by (rule sys_prepareI [OF emits_Cons [OF emits_put [OF mu_UINT32.marshaler_axioms, of objectHandle]
    emits_Cons [OF emits_put [OF mu_UINT32.marshaler_axioms, of signHandle]
    emits_Cons [OF emits_opt_null [OF mu_TPM2B_DATA.marshaler_axioms, of qualifyingData]
    emits_Cons [OF emits_ptr [OF mu_TPMT_SIG_SCHEME.marshaler_axioms null_TPMT_SIG_SCHEME, of inScheme]
    emits_skip]]]]])
    (simp_all add: Tss2_Sys_Certify_Prepare_def weak_defs prepare_simps del: steps.simps)

interpretation complete_Certify: sys_complete "\<lambda>(ctx, d1, d2, _). Tss2_Sys_Certify_Complete ctx d1 d2" TPM2_CC_Certify
  "\<lambda>(d1, d2, _). ptr_valid (wt_TPM2B 2304) d1 \<and> ptr_valid wt_TPMT_SIGNATURE d2"
  "\<lambda>(d1, d2, _). ptr_valid (valid_TPM2B 2304) d1 \<and> ptr_valid valid_TPMT_SIGNATURE d2"
  "\<lambda>(_, _, _). []"
  "\<lambda>(d1, d2, _). ptr_wire wire_TPM2B d1 @ ptr_wire wire_TPMT_SIGNATURE d2"
  by (rule sys_completeI [OF sys_complete_plain [OF reads_Cons [OF mu_TPM2B_ATTEST.unmarshaler_axioms
    reads_Cons [OF mu_TPMT_SIGNATURE.unmarshaler_axioms
    reads_Nil]]]])
    (simp_all add: Tss2_Sys_Certify_Complete_def split_paired_all del: steps.simps)

interpretation cmd_Certify: sys_command "\<lambda>ctx. Tss2_Sys_Certify_Prepare ctx objectHandle signHandle qualifyingData inScheme"
  "\<lambda>(ctx, d1, d2, _). Tss2_Sys_Certify_Complete ctx d1 d2" TPM2_CC_Certify "True \<in> set [Option.is_none inScheme]"
  "opt_valid (src_TPM2B 66 64) qualifyingData \<and> opt_valid src_TPMT_SIG_SCHEME inScheme"
  "opt_valid (valid_TPM2B 64) qualifyingData \<and> ptr_valid valid_TPMT_SIG_SCHEME inScheme"
  "be_bytes objectHandle @ be_bytes signHandle"
  "opt_wire wire_TPM2B qualifyingData @ ptr_wire wire_TPMT_SIG_SCHEME inScheme" "Option.is_none qualifyingData" True True True
  "\<lambda>(d1, d2, _). ptr_valid (wt_TPM2B 2304) d1 \<and> ptr_valid wt_TPMT_SIGNATURE d2"
  "\<lambda>(d1, d2, _). ptr_valid (valid_TPM2B 2304) d1 \<and> ptr_valid valid_TPMT_SIGNATURE d2"
  "\<lambda>(_, _, _). []"
  "\<lambda>(d1, d2, _). ptr_wire wire_TPM2B d1 @ ptr_wire wire_TPMT_SIGNATURE d2"
  "\<lambda>(ctx, rsp, d1, d2, _). Tss2_Sys_Certify ctx objectHandle signHandle cmdAuthsArray qualifyingData inScheme d1 d2 rsp" cmdAuthsArray
  for objectHandle signHandle qualifyingData inScheme cmdAuthsArray
  by (rule sys_command.intro [OF prepare_Certify.sys_prepare_axioms complete_Certify.sys_complete_axioms sys_command_axioms.intro])
    (auto simp: Tss2_Sys_Certify_def one_call_def one_call_simps null_rc_def dest!: ptr_valid_some simp del: steps.simps)

subsection \<open>CertifyCreation\<close>

definition Tss2_Sys_CertifyCreation_Prepare where
  "Tss2_Sys_CertifyCreation_Prepare sysContext signHandle objectHandle qualifyingData creationHash inScheme creationTicket = steps
     [null_check [Option.is_none inScheme, Option.is_none creationTicket],
      CommonPreparePrologue TPM2_CC_CertifyCreation,
      put (Tss2_MU_UINT32_Marshal signHandle),
      put (Tss2_MU_UINT32_Marshal objectHandle),
      if Option.is_none qualifyingData
        then steps [assign (ctx_decryptNull_update (\<lambda>_. True)), put (Tss2_MU_UINT16_Marshal 0)]
        else put (Tss2_MU_TPM2B_DATA_Marshal qualifyingData),
      put (Tss2_MU_TPM2B_DIGEST_Marshal creationHash),
      put (Tss2_MU_TPMT_SIG_SCHEME_Marshal inScheme),
      put (Tss2_MU_TPMT_TK_CREATION_Marshal creationTicket),
      assign (flags True True True),
      CommonPrepareEpilogue]
     sysContext"

definition Tss2_Sys_CertifyCreation_Complete where
  "Tss2_Sys_CertifyCreation_Complete sysContext certifyInfo signature = steps
     [on_fst (null_check []),
      on_fst CommonComplete,
      get_out Tss2_MU_TPM2B_ATTEST_Unmarshal,
      skip_out (get_out Tss2_MU_TPMT_SIGNATURE_Unmarshal)]
     (sysContext, certifyInfo, signature, ())"

definition Tss2_Sys_CertifyCreation where
  "Tss2_Sys_CertifyCreation sysContext signHandle objectHandle cmdAuthsArray qualifyingData creationHash inScheme creationTicket certifyInfo signature rspAuthsArray = steps
     [ret (null_rc [Option.is_none inScheme, Option.is_none creationTicket]),
      on_fst (\<lambda>ctx. Tss2_Sys_CertifyCreation_Prepare ctx signHandle objectHandle qualifyingData creationHash inScheme creationTicket),
      on_rsp (CommonOneCall cmdAuthsArray),
      skip_out (\<lambda>(ctx, d1, d2, _). Tss2_Sys_CertifyCreation_Complete ctx d1 d2)]
     (sysContext, rspAuthsArray, certifyInfo, signature, ())"

lemma CertifyCreation_handles [simp]:
  "GetNumCommandHandles TPM2_CC_CertifyCreation = 2" "GetNumResponseHandles TPM2_CC_CertifyCreation = 0"
  using GetNumHandles_entry [of TPM2_CC_CertifyCreation 2 0] by (simp_all add: commandArray_def)

interpretation prepare_CertifyCreation: sys_prepare "\<lambda>ctx. Tss2_Sys_CertifyCreation_Prepare ctx signHandle objectHandle qualifyingData creationHash inScheme creationTicket" TPM2_CC_CertifyCreation "True \<in> set [Option.is_none inScheme, Option.is_none creationTicket]"
  "opt_valid (src_TPM2B 66 64) qualifyingData \<and> opt_valid (src_TPM2B 66 64) creationHash \<and> opt_valid src_TPMT_SIG_SCHEME inScheme \<and> opt_valid src_TPMT_TK_CREATION creationTicket"
  "opt_valid (valid_TPM2B 64) qualifyingData \<and> ptr_valid (valid_TPM2B 64) creationHash \<and> ptr_valid valid_TPMT_SIG_SCHEME inScheme \<and> ptr_valid valid_TPMT_TK_CREATION creationTicket"
  "be_bytes signHandle @ be_bytes objectHandle"
  "opt_wire wire_TPM2B qualifyingData @ ptr_wire wire_TPM2B creationHash @ ptr_wire wire_TPMT_SIG_SCHEME inScheme @ ptr_wire wire_TPMT_TK_CREATION creationTicket" "Option.is_none qualifyingData" True True True
  for signHandle objectHandle qualifyingData creationHash inScheme creationTicket
  by (rule sys_prepareI [OF emits_Cons [OF emits_put [OF mu_UINT32.marshaler_axioms, of signHandle]
    emits_Cons [OF emits_put [OF mu_UINT32.marshaler_axioms, of objectHandle]
    emits_Cons [OF emits_opt_null [OF mu_TPM2B_DATA.marshaler_axioms, of qualifyingData]
    emits_Cons [OF emits_ptr [OF mu_TPM2B_DIGEST.marshaler_axioms null_TPM2B_DIGEST, of creationHash]
    emits_Cons [OF emits_ptr [OF mu_TPMT_SIG_SCHEME.marshaler_axioms null_TPMT_SIG_SCHEME, of inScheme]
    emits_Cons [OF emits_ptr [OF mu_TPMT_TK_CREATION.marshaler_axioms null_TPMT_TK_CREATION, of creationTicket]
    emits_skip]]]]]]])
    (simp_all add: Tss2_Sys_CertifyCreation_Prepare_def weak_defs prepare_simps del: steps.simps)

interpretation complete_CertifyCreation: sys_complete "\<lambda>(ctx, d1, d2, _). Tss2_Sys_CertifyCreation_Complete ctx d1 d2" TPM2_CC_CertifyCreation
  "\<lambda>(d1, d2, _). ptr_valid (wt_TPM2B 2304) d1 \<and> ptr_valid wt_TPMT_SIGNATURE d2"
  "\<lambda>(d1, d2, _). ptr_valid (valid_TPM2B 2304) d1 \<and> ptr_valid valid_TPMT_SIGNATURE d2"
  "\<lambda>(_, _, _). []"
  "\<lambda>(d1, d2, _). ptr_wire wire_TPM2B d1 @ ptr_wire wire_TPMT_SIGNATURE d2"
  by (rule sys_completeI [OF sys_complete_plain [OF reads_Cons [OF mu_TPM2B_ATTEST.unmarshaler_axioms
    reads_Cons [OF mu_TPMT_SIGNATURE.unmarshaler_axioms
    reads_Nil]]]])
    (simp_all add: Tss2_Sys_CertifyCreation_Complete_def split_paired_all del: steps.simps)

interpretation cmd_CertifyCreation: sys_command "\<lambda>ctx. Tss2_Sys_CertifyCreation_Prepare ctx signHandle objectHandle qualifyingData creationHash inScheme creationTicket"
  "\<lambda>(ctx, d1, d2, _). Tss2_Sys_CertifyCreation_Complete ctx d1 d2" TPM2_CC_CertifyCreation "True \<in> set [Option.is_none inScheme, Option.is_none creationTicket]"
  "opt_valid (src_TPM2B 66 64) qualifyingData \<and> opt_valid (src_TPM2B 66 64) creationHash \<and> opt_valid src_TPMT_SIG_SCHEME inScheme \<and> opt_valid src_TPMT_TK_CREATION creationTicket"
  "opt_valid (valid_TPM2B 64) qualifyingData \<and> ptr_valid (valid_TPM2B 64) creationHash \<and> ptr_valid valid_TPMT_SIG_SCHEME inScheme \<and> ptr_valid valid_TPMT_TK_CREATION creationTicket"
  "be_bytes signHandle @ be_bytes objectHandle"
  "opt_wire wire_TPM2B qualifyingData @ ptr_wire wire_TPM2B creationHash @ ptr_wire wire_TPMT_SIG_SCHEME inScheme @ ptr_wire wire_TPMT_TK_CREATION creationTicket" "Option.is_none qualifyingData" True True True
  "\<lambda>(d1, d2, _). ptr_valid (wt_TPM2B 2304) d1 \<and> ptr_valid wt_TPMT_SIGNATURE d2"
  "\<lambda>(d1, d2, _). ptr_valid (valid_TPM2B 2304) d1 \<and> ptr_valid valid_TPMT_SIGNATURE d2"
  "\<lambda>(_, _, _). []"
  "\<lambda>(d1, d2, _). ptr_wire wire_TPM2B d1 @ ptr_wire wire_TPMT_SIGNATURE d2"
  "\<lambda>(ctx, rsp, d1, d2, _). Tss2_Sys_CertifyCreation ctx signHandle objectHandle cmdAuthsArray qualifyingData creationHash inScheme creationTicket d1 d2 rsp" cmdAuthsArray
  for signHandle objectHandle qualifyingData creationHash inScheme creationTicket cmdAuthsArray
  by (rule sys_command.intro [OF prepare_CertifyCreation.sys_prepare_axioms complete_CertifyCreation.sys_complete_axioms sys_command_axioms.intro])
    (auto simp: Tss2_Sys_CertifyCreation_def one_call_def one_call_simps null_rc_def dest!: ptr_valid_some simp del: steps.simps)

subsection \<open>CertifyX509\<close>

definition Tss2_Sys_CertifyX509_Prepare where
  "Tss2_Sys_CertifyX509_Prepare sysContext objectHandle signHandle reserved inScheme partialCertificate = steps
     [null_check [Option.is_none reserved, Option.is_none inScheme, Option.is_none partialCertificate],
      size_check reserved,
      CommonPreparePrologue TPM2_CC_CertifyX509,
      put (Tss2_MU_UINT32_Marshal objectHandle),
      put (Tss2_MU_UINT32_Marshal signHandle),
      put (Tss2_MU_TPM2B_DATA_Marshal reserved),
      put (Tss2_MU_TPMT_SIG_SCHEME_Marshal inScheme),
      put (Tss2_MU_TPM2B_MAX_BUFFER_Marshal partialCertificate),
      assign (flags True True True),
      CommonPrepareEpilogue]
     sysContext"

definition Tss2_Sys_CertifyX509_Complete where
  "Tss2_Sys_CertifyX509_Complete sysContext addedToCertificate tbsDigest signature = steps
     [on_fst (null_check []),
      on_fst CommonComplete,
      get_out Tss2_MU_TPM2B_MAX_BUFFER_Unmarshal,
      skip_out (get_out Tss2_MU_TPM2B_DIGEST_Unmarshal),
      skip_out (skip_out (get_out Tss2_MU_TPMT_SIGNATURE_Unmarshal))]
     (sysContext, addedToCertificate, tbsDigest, signature, ())"

definition Tss2_Sys_CertifyX509 where
  "Tss2_Sys_CertifyX509 sysContext objectHandle signHandle cmdAuthsArray reserved inScheme partialCertificate addedToCertificate tbsDigest signature rspAuthsArray = steps
     [on_fst (\<lambda>ctx. Tss2_Sys_CertifyX509_Prepare ctx objectHandle signHandle reserved inScheme partialCertificate),
      on_rsp (CommonOneCall cmdAuthsArray),
      skip_out (\<lambda>(ctx, d1, d2, d3, _). Tss2_Sys_CertifyX509_Complete ctx d1 d2 d3)]
     (sysContext, rspAuthsArray, addedToCertificate, tbsDigest, signature, ())"

lemma CertifyX509_handles [simp]:
  "GetNumCommandHandles TPM2_CC_CertifyX509 = 2" "GetNumResponseHandles TPM2_CC_CertifyX509 = 0"
  using GetNumHandles_entry [of TPM2_CC_CertifyX509 2 0] by (simp_all add: commandArray_def)


interpretation complete_CertifyX509: sys_complete "\<lambda>(ctx, d1, d2, d3, _). Tss2_Sys_CertifyX509_Complete ctx d1 d2 d3" TPM2_CC_CertifyX509
  "\<lambda>(d1, d2, d3, _). ptr_valid (wt_TPM2B 1024) d1 \<and> ptr_valid (wt_TPM2B 64) d2 \<and> ptr_valid wt_TPMT_SIGNATURE d3"
  "\<lambda>(d1, d2, d3, _). ptr_valid (valid_TPM2B 1024) d1 \<and> ptr_valid (valid_TPM2B 64) d2 \<and> ptr_valid valid_TPMT_SIGNATURE d3"
  "\<lambda>(_, _, _, _). []"
  "\<lambda>(d1, d2, d3, _). ptr_wire wire_TPM2B d1 @ ptr_wire wire_TPM2B d2 @ ptr_wire wire_TPMT_SIGNATURE d3"
  by (rule sys_completeI [OF sys_complete_plain [OF reads_Cons [OF mu_TPM2B_MAX_BUFFER.unmarshaler_axioms
    reads_Cons [OF mu_TPM2B_DIGEST.unmarshaler_axioms
    reads_Cons [OF mu_TPMT_SIGNATURE.unmarshaler_axioms
    reads_Nil]]]]])
    (simp_all add: Tss2_Sys_CertifyX509_Complete_def split_paired_all del: steps.simps)

subsection \<open>ChangeEPS\<close>

definition Tss2_Sys_ChangeEPS_Prepare where
  "Tss2_Sys_ChangeEPS_Prepare sysContext authHandle = steps
     [null_check [],
      CommonPreparePrologue TPM2_CC_ChangeEPS,
      put (Tss2_MU_UINT32_Marshal authHandle),
      assign (flags False False True),
      CommonPrepareEpilogue]
     sysContext"

definition Tss2_Sys_ChangeEPS_Complete where
  "Tss2_Sys_ChangeEPS_Complete sysContext = steps
     [on_fst (null_check []),
      on_fst CommonComplete]
     (sysContext, ())"

definition Tss2_Sys_ChangeEPS where
  "Tss2_Sys_ChangeEPS sysContext authHandle cmdAuthsArray rspAuthsArray = steps
     [on_fst (\<lambda>ctx. Tss2_Sys_ChangeEPS_Prepare ctx authHandle),
      on_rsp (CommonOneCall cmdAuthsArray),
      skip_out (\<lambda>(ctx, _). Tss2_Sys_ChangeEPS_Complete ctx)]
     (sysContext, rspAuthsArray, ())"

lemma ChangeEPS_handles [simp]:
  "GetNumCommandHandles TPM2_CC_ChangeEPS = 1" "GetNumResponseHandles TPM2_CC_ChangeEPS = 0"
  using GetNumHandles_entry [of TPM2_CC_ChangeEPS 1 0] by (simp_all add: commandArray_def)

interpretation prepare_ChangeEPS: sys_prepare "\<lambda>ctx. Tss2_Sys_ChangeEPS_Prepare ctx authHandle" TPM2_CC_ChangeEPS "True \<in> set []"
  "True"
  "True"
  "be_bytes authHandle"
  "[]" "False" False False True
  for authHandle
  by (rule sys_prepareI [OF emits_Cons [OF emits_put [OF mu_UINT32.marshaler_axioms, of authHandle]
    emits_skip]])
    (simp_all add: Tss2_Sys_ChangeEPS_Prepare_def weak_defs prepare_simps del: steps.simps)

interpretation complete_ChangeEPS: sys_complete "\<lambda>(ctx, _). Tss2_Sys_ChangeEPS_Complete ctx" TPM2_CC_ChangeEPS
  "\<lambda>(_). True"
  "\<lambda>(_). True"
  "\<lambda>(_). []"
  "\<lambda>(_). []"
  by (rule sys_completeI [OF sys_complete_plain [OF reads_Nil]])
    (simp_all add: Tss2_Sys_ChangeEPS_Complete_def split_paired_all del: steps.simps)

interpretation cmd_ChangeEPS: sys_command "\<lambda>ctx. Tss2_Sys_ChangeEPS_Prepare ctx authHandle"
  "\<lambda>(ctx, _). Tss2_Sys_ChangeEPS_Complete ctx" TPM2_CC_ChangeEPS "True \<in> set []"
  "True"
  "True"
  "be_bytes authHandle"
  "[]" "False" False False True
  "\<lambda>(_). True"
  "\<lambda>(_). True"
  "\<lambda>(_). []"
  "\<lambda>(_). []"
  "\<lambda>(ctx, rsp, _). Tss2_Sys_ChangeEPS ctx authHandle cmdAuthsArray rsp" cmdAuthsArray
  for authHandle cmdAuthsArray
  by (rule sys_command.intro [OF prepare_ChangeEPS.sys_prepare_axioms complete_ChangeEPS.sys_complete_axioms sys_command_axioms.intro])
    (auto simp: Tss2_Sys_ChangeEPS_def one_call_def one_call_simps null_rc_def dest!: ptr_valid_some simp del: steps.simps)

subsection \<open>ChangePPS\<close>

definition Tss2_Sys_ChangePPS_Prepare where
  "Tss2_Sys_ChangePPS_Prepare sysContext authHandle = steps
     [null_check [],
      CommonPreparePrologue TPM2_CC_ChangePPS,
      put (Tss2_MU_UINT32_Marshal authHandle),
      assign (flags False False True),
      CommonPrepareEpilogue]
     sysContext"

definition Tss2_Sys_ChangePPS_Complete where
  "Tss2_Sys_ChangePPS_Complete sysContext = steps
     [on_fst (null_check []),
      on_fst CommonComplete]
     (sysContext, ())"

definition Tss2_Sys_ChangePPS where
  "Tss2_Sys_ChangePPS sysContext authHandle cmdAuthsArray rspAuthsArray = steps
     [on_fst (\<lambda>ctx. Tss2_Sys_ChangePPS_Prepare ctx authHandle),
      on_rsp (CommonOneCall cmdAuthsArray),
      skip_out (\<lambda>(ctx, _). Tss2_Sys_ChangePPS_Complete ctx)]
     (sysContext, rspAuthsArray, ())"

lemma ChangePPS_handles [simp]:
  "GetNumCommandHandles TPM2_CC_ChangePPS = 1" "GetNumResponseHandles TPM2_CC_ChangePPS = 0"
  using GetNumHandles_entry [of TPM2_CC_ChangePPS 1 0] by (simp_all add: commandArray_def)

interpretation prepare_ChangePPS: sys_prepare "\<lambda>ctx. Tss2_Sys_ChangePPS_Prepare ctx authHandle" TPM2_CC_ChangePPS "True \<in> set []"
  "True"
  "True"
  "be_bytes authHandle"
  "[]" "False" False False True
  for authHandle
  by (rule sys_prepareI [OF emits_Cons [OF emits_put [OF mu_UINT32.marshaler_axioms, of authHandle]
    emits_skip]])
    (simp_all add: Tss2_Sys_ChangePPS_Prepare_def weak_defs prepare_simps del: steps.simps)

interpretation complete_ChangePPS: sys_complete "\<lambda>(ctx, _). Tss2_Sys_ChangePPS_Complete ctx" TPM2_CC_ChangePPS
  "\<lambda>(_). True"
  "\<lambda>(_). True"
  "\<lambda>(_). []"
  "\<lambda>(_). []"
  by (rule sys_completeI [OF sys_complete_plain [OF reads_Nil]])
    (simp_all add: Tss2_Sys_ChangePPS_Complete_def split_paired_all del: steps.simps)

interpretation cmd_ChangePPS: sys_command "\<lambda>ctx. Tss2_Sys_ChangePPS_Prepare ctx authHandle"
  "\<lambda>(ctx, _). Tss2_Sys_ChangePPS_Complete ctx" TPM2_CC_ChangePPS "True \<in> set []"
  "True"
  "True"
  "be_bytes authHandle"
  "[]" "False" False False True
  "\<lambda>(_). True"
  "\<lambda>(_). True"
  "\<lambda>(_). []"
  "\<lambda>(_). []"
  "\<lambda>(ctx, rsp, _). Tss2_Sys_ChangePPS ctx authHandle cmdAuthsArray rsp" cmdAuthsArray
  for authHandle cmdAuthsArray
  by (rule sys_command.intro [OF prepare_ChangePPS.sys_prepare_axioms complete_ChangePPS.sys_complete_axioms sys_command_axioms.intro])
    (auto simp: Tss2_Sys_ChangePPS_def one_call_def one_call_simps null_rc_def dest!: ptr_valid_some simp del: steps.simps)

subsection \<open>Clear\<close>

definition Tss2_Sys_Clear_Prepare where
  "Tss2_Sys_Clear_Prepare sysContext authHandle = steps
     [null_check [],
      CommonPreparePrologue TPM2_CC_Clear,
      put (Tss2_MU_UINT32_Marshal authHandle),
      assign (flags False False True),
      CommonPrepareEpilogue]
     sysContext"

definition Tss2_Sys_Clear_Complete where
  "Tss2_Sys_Clear_Complete sysContext = steps
     [on_fst (null_check []),
      on_fst CommonComplete]
     (sysContext, ())"

definition Tss2_Sys_Clear where
  "Tss2_Sys_Clear sysContext authHandle cmdAuthsArray rspAuthsArray = steps
     [on_fst (\<lambda>ctx. Tss2_Sys_Clear_Prepare ctx authHandle),
      on_rsp (CommonOneCall cmdAuthsArray),
      skip_out (\<lambda>(ctx, _). Tss2_Sys_Clear_Complete ctx)]
     (sysContext, rspAuthsArray, ())"

lemma Clear_handles [simp]:
  "GetNumCommandHandles TPM2_CC_Clear = 1" "GetNumResponseHandles TPM2_CC_Clear = 0"
  using GetNumHandles_entry [of TPM2_CC_Clear 1 0] by (simp_all add: commandArray_def)

interpretation prepare_Clear: sys_prepare "\<lambda>ctx. Tss2_Sys_Clear_Prepare ctx authHandle" TPM2_CC_Clear "True \<in> set []"
  "True"
  "True"
  "be_bytes authHandle"
  "[]" "False" False False True
  for authHandle
  by (rule sys_prepareI [OF emits_Cons [OF emits_put [OF mu_UINT32.marshaler_axioms, of authHandle]
    emits_skip]])
    (simp_all add: Tss2_Sys_Clear_Prepare_def weak_defs prepare_simps del: steps.simps)

interpretation complete_Clear: sys_complete "\<lambda>(ctx, _). Tss2_Sys_Clear_Complete ctx" TPM2_CC_Clear
  "\<lambda>(_). True"
  "\<lambda>(_). True"
  "\<lambda>(_). []"
  "\<lambda>(_). []"
  by (rule sys_completeI [OF sys_complete_plain [OF reads_Nil]])
    (simp_all add: Tss2_Sys_Clear_Complete_def split_paired_all del: steps.simps)

interpretation cmd_Clear: sys_command "\<lambda>ctx. Tss2_Sys_Clear_Prepare ctx authHandle"
  "\<lambda>(ctx, _). Tss2_Sys_Clear_Complete ctx" TPM2_CC_Clear "True \<in> set []"
  "True"
  "True"
  "be_bytes authHandle"
  "[]" "False" False False True
  "\<lambda>(_). True"
  "\<lambda>(_). True"
  "\<lambda>(_). []"
  "\<lambda>(_). []"
  "\<lambda>(ctx, rsp, _). Tss2_Sys_Clear ctx authHandle cmdAuthsArray rsp" cmdAuthsArray
  for authHandle cmdAuthsArray
  by (rule sys_command.intro [OF prepare_Clear.sys_prepare_axioms complete_Clear.sys_complete_axioms sys_command_axioms.intro])
    (auto simp: Tss2_Sys_Clear_def one_call_def one_call_simps null_rc_def dest!: ptr_valid_some simp del: steps.simps)

subsection \<open>ClearControl\<close>

definition Tss2_Sys_ClearControl_Prepare where
  "Tss2_Sys_ClearControl_Prepare sysContext auth disable = steps
     [null_check [],
      CommonPreparePrologue TPM2_CC_ClearControl,
      put (Tss2_MU_UINT32_Marshal auth),
      put (Tss2_MU_UINT8_Marshal disable),
      assign (flags False False True),
      CommonPrepareEpilogue]
     sysContext"

definition Tss2_Sys_ClearControl_Complete where
  "Tss2_Sys_ClearControl_Complete sysContext = steps
     [on_fst (null_check []),
      on_fst CommonComplete]
     (sysContext, ())"

definition Tss2_Sys_ClearControl where
  "Tss2_Sys_ClearControl sysContext auth cmdAuthsArray disable rspAuthsArray = steps
     [on_fst (\<lambda>ctx. Tss2_Sys_ClearControl_Prepare ctx auth disable),
      on_rsp (CommonOneCall cmdAuthsArray),
      skip_out (\<lambda>(ctx, _). Tss2_Sys_ClearControl_Complete ctx)]
     (sysContext, rspAuthsArray, ())"

lemma ClearControl_handles [simp]:
  "GetNumCommandHandles TPM2_CC_ClearControl = 1" "GetNumResponseHandles TPM2_CC_ClearControl = 0"
  using GetNumHandles_entry [of TPM2_CC_ClearControl 1 0] by (simp_all add: commandArray_def)

interpretation prepare_ClearControl: sys_prepare "\<lambda>ctx. Tss2_Sys_ClearControl_Prepare ctx auth disable" TPM2_CC_ClearControl "True \<in> set []"
  "True"
  "True"
  "be_bytes auth"
  "be_bytes disable" "False" False False True
  for auth disable
  by (rule sys_prepareI [OF emits_Cons [OF emits_put [OF mu_UINT32.marshaler_axioms, of auth]
    emits_Cons [OF emits_put [OF mu_UINT8.marshaler_axioms, of disable]
    emits_skip]]])
    (simp_all add: Tss2_Sys_ClearControl_Prepare_def weak_defs prepare_simps del: steps.simps)

interpretation complete_ClearControl: sys_complete "\<lambda>(ctx, _). Tss2_Sys_ClearControl_Complete ctx" TPM2_CC_ClearControl
  "\<lambda>(_). True"
  "\<lambda>(_). True"
  "\<lambda>(_). []"
  "\<lambda>(_). []"
  by (rule sys_completeI [OF sys_complete_plain [OF reads_Nil]])
    (simp_all add: Tss2_Sys_ClearControl_Complete_def split_paired_all del: steps.simps)

interpretation cmd_ClearControl: sys_command "\<lambda>ctx. Tss2_Sys_ClearControl_Prepare ctx auth disable"
  "\<lambda>(ctx, _). Tss2_Sys_ClearControl_Complete ctx" TPM2_CC_ClearControl "True \<in> set []"
  "True"
  "True"
  "be_bytes auth"
  "be_bytes disable" "False" False False True
  "\<lambda>(_). True"
  "\<lambda>(_). True"
  "\<lambda>(_). []"
  "\<lambda>(_). []"
  "\<lambda>(ctx, rsp, _). Tss2_Sys_ClearControl ctx auth cmdAuthsArray disable rsp" cmdAuthsArray
  for auth disable cmdAuthsArray
  by (rule sys_command.intro [OF prepare_ClearControl.sys_prepare_axioms complete_ClearControl.sys_complete_axioms sys_command_axioms.intro])
    (auto simp: Tss2_Sys_ClearControl_def one_call_def one_call_simps null_rc_def dest!: ptr_valid_some simp del: steps.simps)

subsection \<open>ClockRateAdjust\<close>

definition Tss2_Sys_ClockRateAdjust_Prepare where
  "Tss2_Sys_ClockRateAdjust_Prepare sysContext auth rateAdjust = steps
     [null_check [],
      CommonPreparePrologue TPM2_CC_ClockRateAdjust,
      put (Tss2_MU_UINT32_Marshal auth),
      put (Tss2_MU_UINT8_Marshal rateAdjust),
      assign (flags False False True),
      CommonPrepareEpilogue]
     sysContext"

definition Tss2_Sys_ClockRateAdjust_Complete where
  "Tss2_Sys_ClockRateAdjust_Complete sysContext = steps
     [on_fst (null_check []),
      on_fst CommonComplete]
     (sysContext, ())"

definition Tss2_Sys_ClockRateAdjust where
  "Tss2_Sys_ClockRateAdjust sysContext auth cmdAuthsArray rateAdjust rspAuthsArray = steps
     [on_fst (\<lambda>ctx. Tss2_Sys_ClockRateAdjust_Prepare ctx auth rateAdjust),
      on_rsp (CommonOneCall cmdAuthsArray),
      skip_out (\<lambda>(ctx, _). Tss2_Sys_ClockRateAdjust_Complete ctx)]
     (sysContext, rspAuthsArray, ())"

lemma ClockRateAdjust_handles [simp]:
  "GetNumCommandHandles TPM2_CC_ClockRateAdjust = 1" "GetNumResponseHandles TPM2_CC_ClockRateAdjust = 0"
  using GetNumHandles_entry [of TPM2_CC_ClockRateAdjust 1 0] by (simp_all add: commandArray_def)

interpretation prepare_ClockRateAdjust: sys_prepare "\<lambda>ctx. Tss2_Sys_ClockRateAdjust_Prepare ctx auth rateAdjust" TPM2_CC_ClockRateAdjust "True \<in> set []"
  "True"
  "True"
  "be_bytes auth"
  "be_bytes rateAdjust" "False" False False True
  for auth rateAdjust
  by (rule sys_prepareI [OF emits_Cons [OF emits_put [OF mu_UINT32.marshaler_axioms, of auth]
    emits_Cons [OF emits_put [OF mu_UINT8.marshaler_axioms, of rateAdjust]
    emits_skip]]])
    (simp_all add: Tss2_Sys_ClockRateAdjust_Prepare_def weak_defs prepare_simps del: steps.simps)

interpretation complete_ClockRateAdjust: sys_complete "\<lambda>(ctx, _). Tss2_Sys_ClockRateAdjust_Complete ctx" TPM2_CC_ClockRateAdjust
  "\<lambda>(_). True"
  "\<lambda>(_). True"
  "\<lambda>(_). []"
  "\<lambda>(_). []"
  by (rule sys_completeI [OF sys_complete_plain [OF reads_Nil]])
    (simp_all add: Tss2_Sys_ClockRateAdjust_Complete_def split_paired_all del: steps.simps)

interpretation cmd_ClockRateAdjust: sys_command "\<lambda>ctx. Tss2_Sys_ClockRateAdjust_Prepare ctx auth rateAdjust"
  "\<lambda>(ctx, _). Tss2_Sys_ClockRateAdjust_Complete ctx" TPM2_CC_ClockRateAdjust "True \<in> set []"
  "True"
  "True"
  "be_bytes auth"
  "be_bytes rateAdjust" "False" False False True
  "\<lambda>(_). True"
  "\<lambda>(_). True"
  "\<lambda>(_). []"
  "\<lambda>(_). []"
  "\<lambda>(ctx, rsp, _). Tss2_Sys_ClockRateAdjust ctx auth cmdAuthsArray rateAdjust rsp" cmdAuthsArray
  for auth rateAdjust cmdAuthsArray
  by (rule sys_command.intro [OF prepare_ClockRateAdjust.sys_prepare_axioms complete_ClockRateAdjust.sys_complete_axioms sys_command_axioms.intro])
    (auto simp: Tss2_Sys_ClockRateAdjust_def one_call_def one_call_simps null_rc_def dest!: ptr_valid_some simp del: steps.simps)

subsection \<open>ClockSet\<close>

definition Tss2_Sys_ClockSet_Prepare where
  "Tss2_Sys_ClockSet_Prepare sysContext auth newTime = steps
     [null_check [],
      CommonPreparePrologue TPM2_CC_ClockSet,
      put (Tss2_MU_UINT32_Marshal auth),
      put (Tss2_MU_UINT64_Marshal newTime),
      assign (flags False False True),
      CommonPrepareEpilogue]
     sysContext"

definition Tss2_Sys_ClockSet_Complete where
  "Tss2_Sys_ClockSet_Complete sysContext = steps
     [on_fst (null_check []),
      on_fst CommonComplete]
     (sysContext, ())"

definition Tss2_Sys_ClockSet where
  "Tss2_Sys_ClockSet sysContext auth cmdAuthsArray newTime rspAuthsArray = steps
     [on_fst (\<lambda>ctx. Tss2_Sys_ClockSet_Prepare ctx auth newTime),
      on_rsp (CommonOneCall cmdAuthsArray),
      skip_out (\<lambda>(ctx, _). Tss2_Sys_ClockSet_Complete ctx)]
     (sysContext, rspAuthsArray, ())"

lemma ClockSet_handles [simp]:
  "GetNumCommandHandles TPM2_CC_ClockSet = 1" "GetNumResponseHandles TPM2_CC_ClockSet = 0"
  using GetNumHandles_entry [of TPM2_CC_ClockSet 1 0] by (simp_all add: commandArray_def)

interpretation prepare_ClockSet: sys_prepare "\<lambda>ctx. Tss2_Sys_ClockSet_Prepare ctx auth newTime" TPM2_CC_ClockSet "True \<in> set []"
  "True"
  "True"
  "be_bytes auth"
  "be_bytes newTime" "False" False False True
  for auth newTime
  by (rule sys_prepareI [OF emits_Cons [OF emits_put [OF mu_UINT32.marshaler_axioms, of auth]
    emits_Cons [OF emits_put [OF mu_UINT64.marshaler_axioms, of newTime]
    emits_skip]]])
    (simp_all add: Tss2_Sys_ClockSet_Prepare_def weak_defs prepare_simps del: steps.simps)

interpretation complete_ClockSet: sys_complete "\<lambda>(ctx, _). Tss2_Sys_ClockSet_Complete ctx" TPM2_CC_ClockSet
  "\<lambda>(_). True"
  "\<lambda>(_). True"
  "\<lambda>(_). []"
  "\<lambda>(_). []"
  by (rule sys_completeI [OF sys_complete_plain [OF reads_Nil]])
    (simp_all add: Tss2_Sys_ClockSet_Complete_def split_paired_all del: steps.simps)

interpretation cmd_ClockSet: sys_command "\<lambda>ctx. Tss2_Sys_ClockSet_Prepare ctx auth newTime"
  "\<lambda>(ctx, _). Tss2_Sys_ClockSet_Complete ctx" TPM2_CC_ClockSet "True \<in> set []"
  "True"
  "True"
  "be_bytes auth"
  "be_bytes newTime" "False" False False True
  "\<lambda>(_). True"
  "\<lambda>(_). True"
  "\<lambda>(_). []"
  "\<lambda>(_). []"
  "\<lambda>(ctx, rsp, _). Tss2_Sys_ClockSet ctx auth cmdAuthsArray newTime rsp" cmdAuthsArray
  for auth newTime cmdAuthsArray
  by (rule sys_command.intro [OF prepare_ClockSet.sys_prepare_axioms complete_ClockSet.sys_complete_axioms sys_command_axioms.intro])
    (auto simp: Tss2_Sys_ClockSet_def one_call_def one_call_simps null_rc_def dest!: ptr_valid_some simp del: steps.simps)

subsection \<open>Commit\<close>

definition Tss2_Sys_Commit_Prepare where
  "Tss2_Sys_Commit_Prepare sysContext signHandle P1 s2 y2 = steps
     [null_check [],
      CommonPreparePrologue TPM2_CC_Commit,
      put (Tss2_MU_UINT32_Marshal signHandle),
      if Option.is_none P1
        then steps [assign (ctx_decryptNull_update (\<lambda>_. True)), put (Tss2_MU_UINT16_Marshal 0)]
        else put (Tss2_MU_TPM2B_ECC_POINT_Marshal P1),
      if Option.is_none s2
        then put (Tss2_MU_UINT16_Marshal 0)
        else put (Tss2_MU_TPM2B_SENSITIVE_DATA_Marshal s2),
      if Option.is_none y2
        then put (Tss2_MU_UINT16_Marshal 0)
        else put (Tss2_MU_TPM2B_ECC_PARAMETER_Marshal y2),
      assign (flags True True True),
      CommonPrepareEpilogue]
     sysContext"

definition Tss2_Sys_Commit_Complete where
  "Tss2_Sys_Commit_Complete sysContext K L E counter = steps
     [on_fst (null_check []),
      on_fst CommonComplete,
      get_out Tss2_MU_TPM2B_ECC_POINT_Unmarshal,
      skip_out (get_out Tss2_MU_TPM2B_ECC_POINT_Unmarshal),
      skip_out (skip_out (get_out Tss2_MU_TPM2B_ECC_POINT_Unmarshal)),
      skip_out (skip_out (skip_out (get_out Tss2_MU_UINT16_Unmarshal)))]
     (sysContext, K, L, E, counter, ())"

definition Tss2_Sys_Commit where
  "Tss2_Sys_Commit sysContext signHandle cmdAuthsArray P1 s2 y2 K L E counter rspAuthsArray = steps
     [on_fst (\<lambda>ctx. Tss2_Sys_Commit_Prepare ctx signHandle P1 s2 y2),
      on_rsp (CommonOneCall cmdAuthsArray),
      skip_out (\<lambda>(ctx, d1, d2, d3, d4, _). Tss2_Sys_Commit_Complete ctx d1 d2 d3 d4)]
     (sysContext, rspAuthsArray, K, L, E, counter, ())"

lemma Commit_handles [simp]:
  "GetNumCommandHandles TPM2_CC_Commit = 1" "GetNumResponseHandles TPM2_CC_Commit = 0"
  using GetNumHandles_entry [of TPM2_CC_Commit 1 0] by (simp_all add: commandArray_def)

interpretation prepare_Commit: sys_prepare "\<lambda>ctx. Tss2_Sys_Commit_Prepare ctx signHandle P1 s2 y2" TPM2_CC_Commit "True \<in> set []"
  "opt_valid (\<lambda>s. src_TPMS_ECC_POINT (TPM2B_SUBTYPE_member s)) P1 \<and> opt_valid (src_TPM2B 258 256) s2 \<and> opt_valid (src_TPM2B 130 128) y2"
  "opt_valid (\<lambda>s. valid_TPMS_ECC_POINT (TPM2B_SUBTYPE_member s)) P1 \<and> opt_valid (valid_TPM2B 256) s2 \<and> opt_valid (valid_TPM2B 128) y2"
  "be_bytes signHandle"
  "opt_wire (wire_SUBTYPE wire_TPMS_ECC_POINT) P1 @ opt_wire wire_TPM2B s2 @ opt_wire wire_TPM2B y2" "Option.is_none P1" True True True
  for signHandle P1 s2 y2
  by (rule sys_prepareI [OF emits_Cons [OF emits_put [OF mu_UINT32.marshaler_axioms, of signHandle]
    emits_Cons [OF emits_opt_null [OF mu_TPM2B_ECC_POINT.marshaler_axioms, of P1]
    emits_Cons [OF emits_opt [OF mu_TPM2B_SENSITIVE_DATA.marshaler_axioms, of s2]
    emits_Cons [OF emits_opt [OF mu_TPM2B_ECC_PARAMETER.marshaler_axioms, of y2]
    emits_skip]]]]])
    (simp_all add: Tss2_Sys_Commit_Prepare_def weak_defs prepare_simps del: steps.simps)

interpretation complete_Commit: sys_complete "\<lambda>(ctx, d1, d2, d3, d4, _). Tss2_Sys_Commit_Complete ctx d1 d2 d3 d4" TPM2_CC_Commit
  "\<lambda>(d1, d2, d3, d4, _). ptr_valid (\<lambda>s. wt_TPMS_ECC_POINT (TPM2B_SUBTYPE_member s)) d1 \<and> ptr_valid (\<lambda>s. wt_TPMS_ECC_POINT (TPM2B_SUBTYPE_member s)) d2 \<and> ptr_valid (\<lambda>s. wt_TPMS_ECC_POINT (TPM2B_SUBTYPE_member s)) d3 \<and> ptr_valid (\<lambda>_. True) d4"
  "\<lambda>(d1, d2, d3, d4, _). ptr_valid (\<lambda>s. valid_TPMS_ECC_POINT (TPM2B_SUBTYPE_member s)) d1 \<and> ptr_valid (\<lambda>s. valid_TPMS_ECC_POINT (TPM2B_SUBTYPE_member s)) d2 \<and> ptr_valid (\<lambda>s. valid_TPMS_ECC_POINT (TPM2B_SUBTYPE_member s)) d3 \<and> ptr_valid (\<lambda>_. True) d4"
  "\<lambda>(_, _, _, _, _). []"
  "\<lambda>(d1, d2, d3, d4, _). ptr_wire (wire_SUBTYPE wire_TPMS_ECC_POINT) d1 @ ptr_wire (wire_SUBTYPE wire_TPMS_ECC_POINT) d2 @ ptr_wire (wire_SUBTYPE wire_TPMS_ECC_POINT) d3 @ ptr_wire be_bytes d4"
  by (rule sys_completeI [OF sys_complete_plain [OF reads_Cons [OF mu_TPM2B_ECC_POINT.unmarshaler_axioms
    reads_Cons [OF mu_TPM2B_ECC_POINT.unmarshaler_axioms
    reads_Cons [OF mu_TPM2B_ECC_POINT.unmarshaler_axioms
    reads_Cons [OF mu_UINT16.unmarshaler_axioms
    reads_Nil]]]]]])
    (simp_all add: Tss2_Sys_Commit_Complete_def split_paired_all del: steps.simps)

interpretation cmd_Commit: sys_command "\<lambda>ctx. Tss2_Sys_Commit_Prepare ctx signHandle P1 s2 y2"
  "\<lambda>(ctx, d1, d2, d3, d4, _). Tss2_Sys_Commit_Complete ctx d1 d2 d3 d4" TPM2_CC_Commit "True \<in> set []"
  "opt_valid (\<lambda>s. src_TPMS_ECC_POINT (TPM2B_SUBTYPE_member s)) P1 \<and> opt_valid (src_TPM2B 258 256) s2 \<and> opt_valid (src_TPM2B 130 128) y2"
  "opt_valid (\<lambda>s. valid_TPMS_ECC_POINT (TPM2B_SUBTYPE_member s)) P1 \<and> opt_valid (valid_TPM2B 256) s2 \<and> opt_valid (valid_TPM2B 128) y2"
  "be_bytes signHandle"
  "opt_wire (wire_SUBTYPE wire_TPMS_ECC_POINT) P1 @ opt_wire wire_TPM2B s2 @ opt_wire wire_TPM2B y2" "Option.is_none P1" True True True
  "\<lambda>(d1, d2, d3, d4, _). ptr_valid (\<lambda>s. wt_TPMS_ECC_POINT (TPM2B_SUBTYPE_member s)) d1 \<and> ptr_valid (\<lambda>s. wt_TPMS_ECC_POINT (TPM2B_SUBTYPE_member s)) d2 \<and> ptr_valid (\<lambda>s. wt_TPMS_ECC_POINT (TPM2B_SUBTYPE_member s)) d3 \<and> ptr_valid (\<lambda>_. True) d4"
  "\<lambda>(d1, d2, d3, d4, _). ptr_valid (\<lambda>s. valid_TPMS_ECC_POINT (TPM2B_SUBTYPE_member s)) d1 \<and> ptr_valid (\<lambda>s. valid_TPMS_ECC_POINT (TPM2B_SUBTYPE_member s)) d2 \<and> ptr_valid (\<lambda>s. valid_TPMS_ECC_POINT (TPM2B_SUBTYPE_member s)) d3 \<and> ptr_valid (\<lambda>_. True) d4"
  "\<lambda>(_, _, _, _, _). []"
  "\<lambda>(d1, d2, d3, d4, _). ptr_wire (wire_SUBTYPE wire_TPMS_ECC_POINT) d1 @ ptr_wire (wire_SUBTYPE wire_TPMS_ECC_POINT) d2 @ ptr_wire (wire_SUBTYPE wire_TPMS_ECC_POINT) d3 @ ptr_wire be_bytes d4"
  "\<lambda>(ctx, rsp, d1, d2, d3, d4, _). Tss2_Sys_Commit ctx signHandle cmdAuthsArray P1 s2 y2 d1 d2 d3 d4 rsp" cmdAuthsArray
  for signHandle P1 s2 y2 cmdAuthsArray
  by (rule sys_command.intro [OF prepare_Commit.sys_prepare_axioms complete_Commit.sys_complete_axioms sys_command_axioms.intro])
    (auto simp: Tss2_Sys_Commit_def one_call_def one_call_simps null_rc_def dest!: ptr_valid_some simp del: steps.simps)

subsection \<open>ContextLoad\<close>

definition Tss2_Sys_ContextLoad_Prepare where
  "Tss2_Sys_ContextLoad_Prepare sysContext context' = steps
     [null_check [Option.is_none context'],
      CommonPreparePrologue TPM2_CC_ContextLoad,
      put (Tss2_MU_TPMS_CONTEXT_Marshal context'),
      assign (flags False False False),
      CommonPrepareEpilogue]
     sysContext"

definition Tss2_Sys_ContextLoad_Complete where
  "Tss2_Sys_ContextLoad_Complete sysContext loadedHandle = steps
     [on_fst (null_check []),
      get_out Tss2_MU_UINT32_Unmarshal,
      on_fst CommonComplete]
     (sysContext, loadedHandle, ())"

definition Tss2_Sys_ContextLoad where
  "Tss2_Sys_ContextLoad sysContext context' loadedHandle = steps
     [ret (null_rc [Option.is_none context']),
      on_fst (\<lambda>ctx. Tss2_Sys_ContextLoad_Prepare ctx context'),
      on_rsp (CommonOneCall None),
      skip_out (\<lambda>(ctx, d1, _). Tss2_Sys_ContextLoad_Complete ctx d1)]
     (sysContext, None, loadedHandle, ())"

lemma ContextLoad_handles [simp]:
  "GetNumCommandHandles TPM2_CC_ContextLoad = 0" "GetNumResponseHandles TPM2_CC_ContextLoad = 1"
  using GetNumHandles_entry [of TPM2_CC_ContextLoad 0 1] by (simp_all add: commandArray_def)

interpretation prepare_ContextLoad: sys_prepare "\<lambda>ctx. Tss2_Sys_ContextLoad_Prepare ctx context'" TPM2_CC_ContextLoad "True \<in> set [Option.is_none context']"
  "opt_valid src_TPMS_CONTEXT context'"
  "ptr_valid valid_TPMS_CONTEXT context'"
  "[]"
  "ptr_wire wire_TPMS_CONTEXT context'" "False" False False False
  for context'
  by (rule sys_prepareI [OF emits_Cons [OF emits_ptr [OF mu_TPMS_CONTEXT.marshaler_axioms null_TPMS_CONTEXT, of context']
    emits_skip]])
    (simp_all add: Tss2_Sys_ContextLoad_Prepare_def weak_defs prepare_simps del: steps.simps)

interpretation complete_ContextLoad: sys_complete "\<lambda>(ctx, d1, _). Tss2_Sys_ContextLoad_Complete ctx d1" TPM2_CC_ContextLoad
  "\<lambda>(d1, _). ptr_valid (\<lambda>_. True) d1"
  "\<lambda>(d1, _). ptr_valid (\<lambda>_. True) d1"
  "\<lambda>(d1, _). ptr_wire be_bytes d1"
  "\<lambda>(_, _). []"
  by (rule sys_completeI [OF sys_complete_handle [OF reads_Nil]])
    (simp_all add: Tss2_Sys_ContextLoad_Complete_def split_paired_all del: steps.simps)

subsection \<open>ContextSave\<close>

definition Tss2_Sys_ContextSave_Prepare where
  "Tss2_Sys_ContextSave_Prepare sysContext saveHandle = steps
     [null_check [],
      CommonPreparePrologue TPM2_CC_ContextSave,
      put (Tss2_MU_UINT32_Marshal saveHandle),
      assign (flags False False False),
      CommonPrepareEpilogue]
     sysContext"

definition Tss2_Sys_ContextSave_Complete where
  "Tss2_Sys_ContextSave_Complete sysContext context' = steps
     [on_fst (null_check []),
      on_fst CommonComplete,
      get_out Tss2_MU_TPMS_CONTEXT_Unmarshal]
     (sysContext, context', ())"

definition Tss2_Sys_ContextSave where
  "Tss2_Sys_ContextSave sysContext saveHandle context' = steps
     [on_fst (\<lambda>ctx. Tss2_Sys_ContextSave_Prepare ctx saveHandle),
      on_rsp (CommonOneCall None),
      skip_out (\<lambda>(ctx, d1, _). Tss2_Sys_ContextSave_Complete ctx d1)]
     (sysContext, None, context', ())"

lemma ContextSave_handles [simp]:
  "GetNumCommandHandles TPM2_CC_ContextSave = 1" "GetNumResponseHandles TPM2_CC_ContextSave = 0"
  using GetNumHandles_entry [of TPM2_CC_ContextSave 1 0] by (simp_all add: commandArray_def)

interpretation prepare_ContextSave: sys_prepare "\<lambda>ctx. Tss2_Sys_ContextSave_Prepare ctx saveHandle" TPM2_CC_ContextSave "True \<in> set []"
  "True"
  "True"
  "be_bytes saveHandle"
  "[]" "False" False False False
  for saveHandle
  by (rule sys_prepareI [OF emits_Cons [OF emits_put [OF mu_UINT32.marshaler_axioms, of saveHandle]
    emits_skip]])
    (simp_all add: Tss2_Sys_ContextSave_Prepare_def weak_defs prepare_simps del: steps.simps)

interpretation complete_ContextSave: sys_complete "\<lambda>(ctx, d1, _). Tss2_Sys_ContextSave_Complete ctx d1" TPM2_CC_ContextSave
  "\<lambda>(d1, _). ptr_valid wt_TPMS_CONTEXT d1"
  "\<lambda>(d1, _). ptr_valid valid_TPMS_CONTEXT d1"
  "\<lambda>(_, _). []"
  "\<lambda>(d1, _). ptr_wire wire_TPMS_CONTEXT d1"
  by (rule sys_completeI [OF sys_complete_plain [OF reads_Cons [OF mu_TPMS_CONTEXT.unmarshaler_axioms
    reads_Nil]]])
    (simp_all add: Tss2_Sys_ContextSave_Complete_def split_paired_all del: steps.simps)

subsection \<open>Create\<close>

definition Tss2_Sys_Create_Prepare where
  "Tss2_Sys_Create_Prepare sysContext parentHandle inSensitive inPublic outsideInfo creationPCR = steps
     [null_check [Option.is_none creationPCR],
      ret (ValidateTPML_PCR_SELECTION creationPCR),
      CommonPreparePrologue TPM2_CC_Create,
      put (Tss2_MU_UINT32_Marshal parentHandle),
      if Option.is_none inSensitive
        then steps [assign (ctx_decryptNull_update (\<lambda>_. True)), put (Tss2_MU_UINT16_Marshal 0)]
        else put (Tss2_MU_TPM2B_SENSITIVE_CREATE_Marshal inSensitive),
      if Option.is_none inPublic
        then put (Tss2_MU_UINT16_Marshal 0)
        else steps [ret (ValidatePublicTemplate inPublic), put (Tss2_MU_TPM2B_PUBLIC_Marshal inPublic)],
      if Option.is_none outsideInfo
        then put (Tss2_MU_UINT16_Marshal 0)
        else put (Tss2_MU_TPM2B_DATA_Marshal outsideInfo),
      put (Tss2_MU_TPML_PCR_SELECTION_Marshal creationPCR),
      assign (flags True True True),
      CommonPrepareEpilogue]
     sysContext"

definition Tss2_Sys_Create_Complete where
  "Tss2_Sys_Create_Complete sysContext outPrivate outPublic creationData creationHash creationTicket = steps
     [on_fst (null_check []),
      on_fst CommonComplete,
      get_out Tss2_MU_TPM2B_PRIVATE_Unmarshal,
      skip_out (get_out Tss2_MU_TPM2B_PUBLIC_Unmarshal),
      skip_out (skip_out (get_out Tss2_MU_TPM2B_CREATION_DATA_Unmarshal)),
      skip_out (skip_out (skip_out (get_out Tss2_MU_TPM2B_DIGEST_Unmarshal))),
      skip_out (skip_out (skip_out (skip_out (get_out Tss2_MU_TPMT_TK_CREATION_Unmarshal))))]
     (sysContext, outPrivate, outPublic, creationData, creationHash, creationTicket, ())"

definition Tss2_Sys_Create where
  "Tss2_Sys_Create sysContext parentHandle cmdAuthsArray inSensitive inPublic outsideInfo creationPCR outPrivate outPublic creationData creationHash creationTicket rspAuthsArray = steps
     [ret (null_rc [Option.is_none creationPCR]),
      on_fst (\<lambda>ctx. Tss2_Sys_Create_Prepare ctx parentHandle inSensitive inPublic outsideInfo creationPCR),
      on_rsp (CommonOneCall cmdAuthsArray),
      skip_out (\<lambda>(ctx, d1, d2, d3, d4, d5, _). Tss2_Sys_Create_Complete ctx d1 d2 d3 d4 d5)]
     (sysContext, rspAuthsArray, outPrivate, outPublic, creationData, creationHash, creationTicket, ())"

lemma Create_handles [simp]:
  "GetNumCommandHandles TPM2_CC_Create = 1" "GetNumResponseHandles TPM2_CC_Create = 0"
  using GetNumHandles_entry [of TPM2_CC_Create 1 0] by (simp_all add: commandArray_def)

interpretation prepare_Create: sys_prepare "\<lambda>ctx. Tss2_Sys_Create_Prepare ctx parentHandle inSensitive inPublic outsideInfo creationPCR" TPM2_CC_Create "True \<in> set [Option.is_none creationPCR]"
  "opt_valid (\<lambda>s. src_TPMS_SENSITIVE_CREATE (TPM2B_SUBTYPE_member s)) inSensitive \<and> opt_valid (\<lambda>s. src_TPMT_PUBLIC (TPM2B_SUBTYPE_member s)) inPublic \<and> opt_valid (src_TPM2B 66 64) outsideInfo \<and> opt_valid (src_TPML 16 src_TPMS_PCR_SELECTION) creationPCR"
  "opt_valid (\<lambda>s. valid_TPMS_SENSITIVE_CREATE (TPM2B_SUBTYPE_member s)) inSensitive \<and> opt_valid (\<lambda>s. valid_TPMT_PUBLIC (TPM2B_SUBTYPE_member s)) inPublic \<and> opt_valid (valid_TPM2B 64) outsideInfo \<and> ptr_valid (valid_TPML 16 valid_TPMS_PCR_SELECTION) creationPCR"
  "be_bytes parentHandle"
  "opt_wire (wire_SUBTYPE wire_TPMS_SENSITIVE_CREATE) inSensitive @ opt_wire (wire_SUBTYPE wire_TPMT_PUBLIC) inPublic @ opt_wire wire_TPM2B outsideInfo @ ptr_wire (wire_TPML wire_TPMS_PCR_SELECTION) creationPCR" "Option.is_none inSensitive" True True True
  for parentHandle inSensitive inPublic outsideInfo creationPCR
  by (rule sys_prepareI [OF emits_Cons [OF emits_put [OF mu_UINT32.marshaler_axioms, of parentHandle]
    emits_Cons [OF emits_opt_null [OF mu_TPM2B_SENSITIVE_CREATE.marshaler_axioms, of inSensitive]
    emits_Cons [OF emits_opt [OF mu_TPM2B_PUBLIC.marshaler_axioms, of inPublic]
    emits_Cons [OF emits_opt [OF mu_TPM2B_DATA.marshaler_axioms, of outsideInfo]
    emits_Cons [OF emits_ptr [OF mu_TPML_PCR_SELECTION.marshaler_axioms null_TPML_PCR_SELECTION, of creationPCR]
    emits_skip]]]]]])
    (simp_all add: Tss2_Sys_Create_Prepare_def weak_defs prepare_simps del: steps.simps)

interpretation complete_Create: sys_complete "\<lambda>(ctx, d1, d2, d3, d4, d5, _). Tss2_Sys_Create_Complete ctx d1 d2 d3 d4 d5" TPM2_CC_Create
  "\<lambda>(d1, d2, d3, d4, d5, _). ptr_valid (wt_TPM2B 1550) d1 \<and> ptr_valid (\<lambda>s. wt_TPMT_PUBLIC (TPM2B_SUBTYPE_member s)) d2 \<and> ptr_valid (\<lambda>s. wt_TPMS_CREATION_DATA (TPM2B_SUBTYPE_member s)) d3 \<and> ptr_valid (wt_TPM2B 64) d4 \<and> ptr_valid wt_TPMT_TK_CREATION d5"
  "\<lambda>(d1, d2, d3, d4, d5, _). ptr_valid (valid_TPM2B 1550) d1 \<and> ptr_valid (\<lambda>s. valid_TPMT_PUBLIC (TPM2B_SUBTYPE_member s)) d2 \<and> ptr_valid (\<lambda>s. valid_TPMS_CREATION_DATA (TPM2B_SUBTYPE_member s)) d3 \<and> ptr_valid (valid_TPM2B 64) d4 \<and> ptr_valid valid_TPMT_TK_CREATION d5"
  "\<lambda>(_, _, _, _, _, _). []"
  "\<lambda>(d1, d2, d3, d4, d5, _). ptr_wire wire_TPM2B d1 @ ptr_wire (wire_SUBTYPE wire_TPMT_PUBLIC) d2 @ ptr_wire (wire_SUBTYPE wire_TPMS_CREATION_DATA) d3 @ ptr_wire wire_TPM2B d4 @ ptr_wire wire_TPMT_TK_CREATION d5"
  by (rule sys_completeI [OF sys_complete_plain [OF reads_Cons [OF mu_TPM2B_PRIVATE.unmarshaler_axioms
    reads_Cons [OF mu_TPM2B_PUBLIC.unmarshaler_axioms
    reads_Cons [OF mu_TPM2B_CREATION_DATA.unmarshaler_axioms
    reads_Cons [OF mu_TPM2B_DIGEST.unmarshaler_axioms
    reads_Cons [OF mu_TPMT_TK_CREATION.unmarshaler_axioms
    reads_Nil]]]]]]])
    (simp_all add: Tss2_Sys_Create_Complete_def split_paired_all del: steps.simps)

interpretation cmd_Create: sys_command "\<lambda>ctx. Tss2_Sys_Create_Prepare ctx parentHandle inSensitive inPublic outsideInfo creationPCR"
  "\<lambda>(ctx, d1, d2, d3, d4, d5, _). Tss2_Sys_Create_Complete ctx d1 d2 d3 d4 d5" TPM2_CC_Create "True \<in> set [Option.is_none creationPCR]"
  "opt_valid (\<lambda>s. src_TPMS_SENSITIVE_CREATE (TPM2B_SUBTYPE_member s)) inSensitive \<and> opt_valid (\<lambda>s. src_TPMT_PUBLIC (TPM2B_SUBTYPE_member s)) inPublic \<and> opt_valid (src_TPM2B 66 64) outsideInfo \<and> opt_valid (src_TPML 16 src_TPMS_PCR_SELECTION) creationPCR"
  "opt_valid (\<lambda>s. valid_TPMS_SENSITIVE_CREATE (TPM2B_SUBTYPE_member s)) inSensitive \<and> opt_valid (\<lambda>s. valid_TPMT_PUBLIC (TPM2B_SUBTYPE_member s)) inPublic \<and> opt_valid (valid_TPM2B 64) outsideInfo \<and> ptr_valid (valid_TPML 16 valid_TPMS_PCR_SELECTION) creationPCR"
  "be_bytes parentHandle"
  "opt_wire (wire_SUBTYPE wire_TPMS_SENSITIVE_CREATE) inSensitive @ opt_wire (wire_SUBTYPE wire_TPMT_PUBLIC) inPublic @ opt_wire wire_TPM2B outsideInfo @ ptr_wire (wire_TPML wire_TPMS_PCR_SELECTION) creationPCR" "Option.is_none inSensitive" True True True
  "\<lambda>(d1, d2, d3, d4, d5, _). ptr_valid (wt_TPM2B 1550) d1 \<and> ptr_valid (\<lambda>s. wt_TPMT_PUBLIC (TPM2B_SUBTYPE_member s)) d2 \<and> ptr_valid (\<lambda>s. wt_TPMS_CREATION_DATA (TPM2B_SUBTYPE_member s)) d3 \<and> ptr_valid (wt_TPM2B 64) d4 \<and> ptr_valid wt_TPMT_TK_CREATION d5"
  "\<lambda>(d1, d2, d3, d4, d5, _). ptr_valid (valid_TPM2B 1550) d1 \<and> ptr_valid (\<lambda>s. valid_TPMT_PUBLIC (TPM2B_SUBTYPE_member s)) d2 \<and> ptr_valid (\<lambda>s. valid_TPMS_CREATION_DATA (TPM2B_SUBTYPE_member s)) d3 \<and> ptr_valid (valid_TPM2B 64) d4 \<and> ptr_valid valid_TPMT_TK_CREATION d5"
  "\<lambda>(_, _, _, _, _, _). []"
  "\<lambda>(d1, d2, d3, d4, d5, _). ptr_wire wire_TPM2B d1 @ ptr_wire (wire_SUBTYPE wire_TPMT_PUBLIC) d2 @ ptr_wire (wire_SUBTYPE wire_TPMS_CREATION_DATA) d3 @ ptr_wire wire_TPM2B d4 @ ptr_wire wire_TPMT_TK_CREATION d5"
  "\<lambda>(ctx, rsp, d1, d2, d3, d4, d5, _). Tss2_Sys_Create ctx parentHandle cmdAuthsArray inSensitive inPublic outsideInfo creationPCR d1 d2 d3 d4 d5 rsp" cmdAuthsArray
  for parentHandle inSensitive inPublic outsideInfo creationPCR cmdAuthsArray
  by (rule sys_command.intro [OF prepare_Create.sys_prepare_axioms complete_Create.sys_complete_axioms sys_command_axioms.intro])
    (auto simp: Tss2_Sys_Create_def one_call_def one_call_simps null_rc_def dest!: ptr_valid_some simp del: steps.simps)

subsection \<open>CreateLoaded\<close>

definition Tss2_Sys_CreateLoaded_Prepare where
  "Tss2_Sys_CreateLoaded_Prepare sysContext parentHandle inSensitive inPublic = steps
     [null_check [],
      ret (null_rc [Option.is_none inPublic]),
      CommonPreparePrologue TPM2_CC_CreateLoaded,
      put (Tss2_MU_UINT32_Marshal parentHandle),
      if Option.is_none inSensitive
        then steps [assign (ctx_decryptNull_update (\<lambda>_. True)), put (Tss2_MU_UINT16_Marshal 0)]
        else put (Tss2_MU_TPM2B_SENSITIVE_CREATE_Marshal inSensitive),
      put (Tss2_MU_TPM2B_TEMPLATE_Marshal inPublic),
      assign (flags True True True),
      CommonPrepareEpilogue]
     sysContext"

definition Tss2_Sys_CreateLoaded_Complete where
  "Tss2_Sys_CreateLoaded_Complete sysContext objectHandle outPrivate outPublic name = steps
     [on_fst (null_check []),
      get_out Tss2_MU_UINT32_Unmarshal,
      on_fst CommonComplete,
      skip_out (get_out Tss2_MU_TPM2B_PRIVATE_Unmarshal),
      skip_out (skip_out (get_out Tss2_MU_TPM2B_PUBLIC_Unmarshal)),
      skip_out (skip_out (skip_out (get_out Tss2_MU_TPM2B_NAME_Unmarshal)))]
     (sysContext, objectHandle, outPrivate, outPublic, name, ())"

definition Tss2_Sys_CreateLoaded where
  "Tss2_Sys_CreateLoaded sysContext parentHandle cmdAuthsArray inSensitive inPublic objectHandle outPrivate outPublic name rspAuthsArray = steps
     [on_fst (null_check [Option.is_none objectHandle, Option.is_none outPrivate, Option.is_none outPublic, Option.is_none name]),
      on_fst (\<lambda>ctx. Tss2_Sys_CreateLoaded_Prepare ctx parentHandle inSensitive inPublic),
      on_rsp (CommonOneCall cmdAuthsArray),
      skip_out (\<lambda>(ctx, d1, d2, d3, d4, _). Tss2_Sys_CreateLoaded_Complete ctx d1 d2 d3 d4)]
     (sysContext, rspAuthsArray, objectHandle, outPrivate, outPublic, name, ())"

lemma CreateLoaded_handles [simp]:
  "GetNumCommandHandles TPM2_CC_CreateLoaded = 1" "GetNumResponseHandles TPM2_CC_CreateLoaded = 1"
  using GetNumHandles_entry [of TPM2_CC_CreateLoaded 1 1] by (simp_all add: commandArray_def)

interpretation prepare_CreateLoaded: sys_prepare "\<lambda>ctx. Tss2_Sys_CreateLoaded_Prepare ctx parentHandle inSensitive inPublic" TPM2_CC_CreateLoaded "True \<in> set [Option.is_none inPublic]"
  "opt_valid (\<lambda>s. src_TPMS_SENSITIVE_CREATE (TPM2B_SUBTYPE_member s)) inSensitive \<and> opt_valid (src_TPM2B 2694 2692) inPublic"
  "opt_valid (\<lambda>s. valid_TPMS_SENSITIVE_CREATE (TPM2B_SUBTYPE_member s)) inSensitive \<and> ptr_valid (valid_TPM2B 2692) inPublic"
  "be_bytes parentHandle"
  "opt_wire (wire_SUBTYPE wire_TPMS_SENSITIVE_CREATE) inSensitive @ ptr_wire wire_TPM2B inPublic" "Option.is_none inSensitive" True True True
  for parentHandle inSensitive inPublic
  by (rule sys_prepareI [OF emits_Cons [OF emits_put [OF mu_UINT32.marshaler_axioms, of parentHandle]
    emits_Cons [OF emits_opt_null [OF mu_TPM2B_SENSITIVE_CREATE.marshaler_axioms, of inSensitive]
    emits_Cons [OF emits_ptr [OF mu_TPM2B_TEMPLATE.marshaler_axioms null_TPM2B_TEMPLATE, of inPublic]
    emits_skip]]]])
    (simp_all add: Tss2_Sys_CreateLoaded_Prepare_def weak_defs prepare_simps del: steps.simps)

interpretation complete_CreateLoaded: sys_complete "\<lambda>(ctx, d1, d2, d3, d4, _). Tss2_Sys_CreateLoaded_Complete ctx d1 d2 d3 d4" TPM2_CC_CreateLoaded
  "\<lambda>(d1, d2, d3, d4, _). ptr_valid (\<lambda>_. True) d1 \<and> ptr_valid (wt_TPM2B 1550) d2 \<and> ptr_valid (\<lambda>s. wt_TPMT_PUBLIC (TPM2B_SUBTYPE_member s)) d3 \<and> ptr_valid (wt_TPM2B 68) d4"
  "\<lambda>(d1, d2, d3, d4, _). ptr_valid (\<lambda>_. True) d1 \<and> ptr_valid (valid_TPM2B 1550) d2 \<and> ptr_valid (\<lambda>s. valid_TPMT_PUBLIC (TPM2B_SUBTYPE_member s)) d3 \<and> ptr_valid (valid_TPM2B 68) d4"
  "\<lambda>(d1, _, _, _, _). ptr_wire be_bytes d1"
  "\<lambda>(_, d2, d3, d4, _). ptr_wire wire_TPM2B d2 @ ptr_wire (wire_SUBTYPE wire_TPMT_PUBLIC) d3 @ ptr_wire wire_TPM2B d4"
  by (rule sys_completeI [OF sys_complete_handle [OF reads_Cons [OF mu_TPM2B_PRIVATE.unmarshaler_axioms
    reads_Cons [OF mu_TPM2B_PUBLIC.unmarshaler_axioms
    reads_Cons [OF mu_TPM2B_NAME.unmarshaler_axioms
    reads_Nil]]]]])
    (simp_all add: Tss2_Sys_CreateLoaded_Complete_def split_paired_all del: steps.simps)

interpretation cmd_CreateLoaded: sys_command "\<lambda>ctx. Tss2_Sys_CreateLoaded_Prepare ctx parentHandle inSensitive inPublic"
  "\<lambda>(ctx, d1, d2, d3, d4, _). Tss2_Sys_CreateLoaded_Complete ctx d1 d2 d3 d4" TPM2_CC_CreateLoaded "True \<in> set [Option.is_none inPublic]"
  "opt_valid (\<lambda>s. src_TPMS_SENSITIVE_CREATE (TPM2B_SUBTYPE_member s)) inSensitive \<and> opt_valid (src_TPM2B 2694 2692) inPublic"
  "opt_valid (\<lambda>s. valid_TPMS_SENSITIVE_CREATE (TPM2B_SUBTYPE_member s)) inSensitive \<and> ptr_valid (valid_TPM2B 2692) inPublic"
  "be_bytes parentHandle"
  "opt_wire (wire_SUBTYPE wire_TPMS_SENSITIVE_CREATE) inSensitive @ ptr_wire wire_TPM2B inPublic" "Option.is_none inSensitive" True True True
  "\<lambda>(d1, d2, d3, d4, _). ptr_valid (\<lambda>_. True) d1 \<and> ptr_valid (wt_TPM2B 1550) d2 \<and> ptr_valid (\<lambda>s. wt_TPMT_PUBLIC (TPM2B_SUBTYPE_member s)) d3 \<and> ptr_valid (wt_TPM2B 68) d4"
  "\<lambda>(d1, d2, d3, d4, _). ptr_valid (\<lambda>_. True) d1 \<and> ptr_valid (valid_TPM2B 1550) d2 \<and> ptr_valid (\<lambda>s. valid_TPMT_PUBLIC (TPM2B_SUBTYPE_member s)) d3 \<and> ptr_valid (valid_TPM2B 68) d4"
  "\<lambda>(d1, _, _, _, _). ptr_wire be_bytes d1"
  "\<lambda>(_, d2, d3, d4, _). ptr_wire wire_TPM2B d2 @ ptr_wire (wire_SUBTYPE wire_TPMT_PUBLIC) d3 @ ptr_wire wire_TPM2B d4"
  "\<lambda>(ctx, rsp, d1, d2, d3, d4, _). Tss2_Sys_CreateLoaded ctx parentHandle cmdAuthsArray inSensitive inPublic d1 d2 d3 d4 rsp" cmdAuthsArray
  for parentHandle inSensitive inPublic cmdAuthsArray
  by (rule sys_command.intro [OF prepare_CreateLoaded.sys_prepare_axioms complete_CreateLoaded.sys_complete_axioms sys_command_axioms.intro])
    (auto simp: Tss2_Sys_CreateLoaded_def one_call_def one_call_simps null_rc_def dest!: ptr_valid_some simp del: steps.simps)

subsection \<open>CreatePrimary\<close>

definition Tss2_Sys_CreatePrimary_Prepare where
  "Tss2_Sys_CreatePrimary_Prepare sysContext primaryHandle inSensitive inPublic outsideInfo creationPCR = steps
     [null_check [],
      ret (null_rc [Option.is_none creationPCR]),
      CommonPreparePrologue TPM2_CC_CreatePrimary,
      put (Tss2_MU_UINT32_Marshal primaryHandle),
      if Option.is_none inSensitive
        then steps [assign (ctx_decryptNull_update (\<lambda>_. True)), put (Tss2_MU_UINT16_Marshal 0)]
        else put (Tss2_MU_TPM2B_SENSITIVE_CREATE_Marshal inSensitive),
      if Option.is_none inPublic
        then put (Tss2_MU_UINT16_Marshal 0)
        else steps [ret (ValidatePublicTemplate inPublic), put (Tss2_MU_TPM2B_PUBLIC_Marshal inPublic)],
      if Option.is_none outsideInfo
        then put (Tss2_MU_UINT16_Marshal 0)
        else put (Tss2_MU_TPM2B_DATA_Marshal outsideInfo),
      put (Tss2_MU_TPML_PCR_SELECTION_Marshal creationPCR),
      assign (flags True True True),
      CommonPrepareEpilogue]
     sysContext"

definition Tss2_Sys_CreatePrimary_Complete where
  "Tss2_Sys_CreatePrimary_Complete sysContext objectHandle outPublic creationData creationHash creationTicket name = steps
     [on_fst (null_check []),
      get_out Tss2_MU_UINT32_Unmarshal,
      on_fst CommonComplete,
      skip_out (get_out Tss2_MU_TPM2B_PUBLIC_Unmarshal),
      skip_out (skip_out (get_out Tss2_MU_TPM2B_CREATION_DATA_Unmarshal)),
      skip_out (skip_out (skip_out (get_out Tss2_MU_TPM2B_DIGEST_Unmarshal))),
      skip_out (skip_out (skip_out (skip_out (get_out Tss2_MU_TPMT_TK_CREATION_Unmarshal)))),
      skip_out (skip_out (skip_out (skip_out (skip_out (get_out Tss2_MU_TPM2B_NAME_Unmarshal)))))]
     (sysContext, objectHandle, outPublic, creationData, creationHash, creationTicket, name, ())"

definition Tss2_Sys_CreatePrimary where
  "Tss2_Sys_CreatePrimary sysContext primaryHandle cmdAuthsArray inSensitive inPublic outsideInfo creationPCR objectHandle outPublic creationData creationHash creationTicket name rspAuthsArray = steps
     [on_fst (null_check [Option.is_none creationPCR]),
      on_fst (\<lambda>ctx. Tss2_Sys_CreatePrimary_Prepare ctx primaryHandle inSensitive inPublic outsideInfo creationPCR),
      on_rsp (CommonOneCall cmdAuthsArray),
      skip_out (\<lambda>(ctx, d1, d2, d3, d4, d5, d6, _). Tss2_Sys_CreatePrimary_Complete ctx d1 d2 d3 d4 d5 d6)]
     (sysContext, rspAuthsArray, objectHandle, outPublic, creationData, creationHash, creationTicket, name, ())"

lemma CreatePrimary_handles [simp]:
  "GetNumCommandHandles TPM2_CC_CreatePrimary = 1" "GetNumResponseHandles TPM2_CC_CreatePrimary = 1"
  using GetNumHandles_entry [of TPM2_CC_CreatePrimary 1 1] by (simp_all add: commandArray_def)

interpretation prepare_CreatePrimary: sys_prepare "\<lambda>ctx. Tss2_Sys_CreatePrimary_Prepare ctx primaryHandle inSensitive inPublic outsideInfo creationPCR" TPM2_CC_CreatePrimary "True \<in> set [Option.is_none creationPCR]"
  "opt_valid (\<lambda>s. src_TPMS_SENSITIVE_CREATE (TPM2B_SUBTYPE_member s)) inSensitive \<and> opt_valid (\<lambda>s. src_TPMT_PUBLIC (TPM2B_SUBTYPE_member s)) inPublic \<and> opt_valid (src_TPM2B 66 64) outsideInfo \<and> opt_valid (src_TPML 16 src_TPMS_PCR_SELECTION) creationPCR"
  "opt_valid (\<lambda>s. valid_TPMS_SENSITIVE_CREATE (TPM2B_SUBTYPE_member s)) inSensitive \<and> opt_valid (\<lambda>s. valid_TPMT_PUBLIC (TPM2B_SUBTYPE_member s)) inPublic \<and> opt_valid (valid_TPM2B 64) outsideInfo \<and> ptr_valid (valid_TPML 16 valid_TPMS_PCR_SELECTION) creationPCR"
  "be_bytes primaryHandle"
  "opt_wire (wire_SUBTYPE wire_TPMS_SENSITIVE_CREATE) inSensitive @ opt_wire (wire_SUBTYPE wire_TPMT_PUBLIC) inPublic @ opt_wire wire_TPM2B outsideInfo @ ptr_wire (wire_TPML wire_TPMS_PCR_SELECTION) creationPCR" "Option.is_none inSensitive" True True True
  for primaryHandle inSensitive inPublic outsideInfo creationPCR
  by (rule sys_prepareI [OF emits_Cons [OF emits_put [OF mu_UINT32.marshaler_axioms, of primaryHandle]
    emits_Cons [OF emits_opt_null [OF mu_TPM2B_SENSITIVE_CREATE.marshaler_axioms, of inSensitive]
    emits_Cons [OF emits_opt [OF mu_TPM2B_PUBLIC.marshaler_axioms, of inPublic]
    emits_Cons [OF emits_opt [OF mu_TPM2B_DATA.marshaler_axioms, of outsideInfo]
    emits_Cons [OF emits_ptr [OF mu_TPML_PCR_SELECTION.marshaler_axioms null_TPML_PCR_SELECTION, of creationPCR]
    emits_skip]]]]]])
    (simp_all add: Tss2_Sys_CreatePrimary_Prepare_def weak_defs prepare_simps del: steps.simps)

interpretation complete_CreatePrimary: sys_complete "\<lambda>(ctx, d1, d2, d3, d4, d5, d6, _). Tss2_Sys_CreatePrimary_Complete ctx d1 d2 d3 d4 d5 d6" TPM2_CC_CreatePrimary
  "\<lambda>(d1, d2, d3, d4, d5, d6, _). ptr_valid (\<lambda>_. True) d1 \<and> ptr_valid (\<lambda>s. wt_TPMT_PUBLIC (TPM2B_SUBTYPE_member s)) d2 \<and> ptr_valid (\<lambda>s. wt_TPMS_CREATION_DATA (TPM2B_SUBTYPE_member s)) d3 \<and> ptr_valid (wt_TPM2B 64) d4 \<and> ptr_valid wt_TPMT_TK_CREATION d5 \<and> ptr_valid (wt_TPM2B 68) d6"
  "\<lambda>(d1, d2, d3, d4, d5, d6, _). ptr_valid (\<lambda>_. True) d1 \<and> ptr_valid (\<lambda>s. valid_TPMT_PUBLIC (TPM2B_SUBTYPE_member s)) d2 \<and> ptr_valid (\<lambda>s. valid_TPMS_CREATION_DATA (TPM2B_SUBTYPE_member s)) d3 \<and> ptr_valid (valid_TPM2B 64) d4 \<and> ptr_valid valid_TPMT_TK_CREATION d5 \<and> ptr_valid (valid_TPM2B 68) d6"
  "\<lambda>(d1, _, _, _, _, _, _). ptr_wire be_bytes d1"
  "\<lambda>(_, d2, d3, d4, d5, d6, _). ptr_wire (wire_SUBTYPE wire_TPMT_PUBLIC) d2 @ ptr_wire (wire_SUBTYPE wire_TPMS_CREATION_DATA) d3 @ ptr_wire wire_TPM2B d4 @ ptr_wire wire_TPMT_TK_CREATION d5 @ ptr_wire wire_TPM2B d6"
  by (rule sys_completeI [OF sys_complete_handle [OF reads_Cons [OF mu_TPM2B_PUBLIC.unmarshaler_axioms
    reads_Cons [OF mu_TPM2B_CREATION_DATA.unmarshaler_axioms
    reads_Cons [OF mu_TPM2B_DIGEST.unmarshaler_axioms
    reads_Cons [OF mu_TPMT_TK_CREATION.unmarshaler_axioms
    reads_Cons [OF mu_TPM2B_NAME.unmarshaler_axioms
    reads_Nil]]]]]]])
    (simp_all add: Tss2_Sys_CreatePrimary_Complete_def split_paired_all del: steps.simps)

interpretation cmd_CreatePrimary: sys_command "\<lambda>ctx. Tss2_Sys_CreatePrimary_Prepare ctx primaryHandle inSensitive inPublic outsideInfo creationPCR"
  "\<lambda>(ctx, d1, d2, d3, d4, d5, d6, _). Tss2_Sys_CreatePrimary_Complete ctx d1 d2 d3 d4 d5 d6" TPM2_CC_CreatePrimary "True \<in> set [Option.is_none creationPCR]"
  "opt_valid (\<lambda>s. src_TPMS_SENSITIVE_CREATE (TPM2B_SUBTYPE_member s)) inSensitive \<and> opt_valid (\<lambda>s. src_TPMT_PUBLIC (TPM2B_SUBTYPE_member s)) inPublic \<and> opt_valid (src_TPM2B 66 64) outsideInfo \<and> opt_valid (src_TPML 16 src_TPMS_PCR_SELECTION) creationPCR"
  "opt_valid (\<lambda>s. valid_TPMS_SENSITIVE_CREATE (TPM2B_SUBTYPE_member s)) inSensitive \<and> opt_valid (\<lambda>s. valid_TPMT_PUBLIC (TPM2B_SUBTYPE_member s)) inPublic \<and> opt_valid (valid_TPM2B 64) outsideInfo \<and> ptr_valid (valid_TPML 16 valid_TPMS_PCR_SELECTION) creationPCR"
  "be_bytes primaryHandle"
  "opt_wire (wire_SUBTYPE wire_TPMS_SENSITIVE_CREATE) inSensitive @ opt_wire (wire_SUBTYPE wire_TPMT_PUBLIC) inPublic @ opt_wire wire_TPM2B outsideInfo @ ptr_wire (wire_TPML wire_TPMS_PCR_SELECTION) creationPCR" "Option.is_none inSensitive" True True True
  "\<lambda>(d1, d2, d3, d4, d5, d6, _). ptr_valid (\<lambda>_. True) d1 \<and> ptr_valid (\<lambda>s. wt_TPMT_PUBLIC (TPM2B_SUBTYPE_member s)) d2 \<and> ptr_valid (\<lambda>s. wt_TPMS_CREATION_DATA (TPM2B_SUBTYPE_member s)) d3 \<and> ptr_valid (wt_TPM2B 64) d4 \<and> ptr_valid wt_TPMT_TK_CREATION d5 \<and> ptr_valid (wt_TPM2B 68) d6"
  "\<lambda>(d1, d2, d3, d4, d5, d6, _). ptr_valid (\<lambda>_. True) d1 \<and> ptr_valid (\<lambda>s. valid_TPMT_PUBLIC (TPM2B_SUBTYPE_member s)) d2 \<and> ptr_valid (\<lambda>s. valid_TPMS_CREATION_DATA (TPM2B_SUBTYPE_member s)) d3 \<and> ptr_valid (valid_TPM2B 64) d4 \<and> ptr_valid valid_TPMT_TK_CREATION d5 \<and> ptr_valid (valid_TPM2B 68) d6"
  "\<lambda>(d1, _, _, _, _, _, _). ptr_wire be_bytes d1"
  "\<lambda>(_, d2, d3, d4, d5, d6, _). ptr_wire (wire_SUBTYPE wire_TPMT_PUBLIC) d2 @ ptr_wire (wire_SUBTYPE wire_TPMS_CREATION_DATA) d3 @ ptr_wire wire_TPM2B d4 @ ptr_wire wire_TPMT_TK_CREATION d5 @ ptr_wire wire_TPM2B d6"
  "\<lambda>(ctx, rsp, d1, d2, d3, d4, d5, d6, _). Tss2_Sys_CreatePrimary ctx primaryHandle cmdAuthsArray inSensitive inPublic outsideInfo creationPCR d1 d2 d3 d4 d5 d6 rsp" cmdAuthsArray
  for primaryHandle inSensitive inPublic outsideInfo creationPCR cmdAuthsArray
  by (rule sys_command.intro [OF prepare_CreatePrimary.sys_prepare_axioms complete_CreatePrimary.sys_complete_axioms sys_command_axioms.intro])
    (auto simp: Tss2_Sys_CreatePrimary_def one_call_def one_call_simps null_rc_def dest!: ptr_valid_some simp del: steps.simps)

subsection \<open>Decapsulate\<close>

definition Tss2_Sys_Decapsulate_Prepare where
  "Tss2_Sys_Decapsulate_Prepare sysContext keyHandle cipherText label' = steps
     [null_check [],
      CommonPreparePrologue TPM2_CC_Decapsulate,
      put (Tss2_MU_UINT32_Marshal keyHandle),
      if Option.is_none cipherText
        then put (Tss2_MU_UINT16_Marshal 0)
        else put (Tss2_MU_TPM2B_ENCRYPTED_SECRET_Marshal cipherText),
      if Option.is_none label'
        then put (Tss2_MU_UINT16_Marshal 0)
        else put (Tss2_MU_TPM2B_DATA_Marshal label'),
      assign (flags True True True),
      CommonPrepareEpilogue]
     sysContext"

definition Tss2_Sys_Decapsulate_Complete where
  "Tss2_Sys_Decapsulate_Complete sysContext outSymSeed = steps
     [on_fst (null_check []),
      on_fst CommonComplete,
      get_out Tss2_MU_TPM2B_DATA_Unmarshal]
     (sysContext, outSymSeed, ())"

definition Tss2_Sys_Decapsulate where
  "Tss2_Sys_Decapsulate sysContext keyHandle cmdAuthsArray cipherText label' outSymSeed rspAuthsArray = steps
     [on_fst (\<lambda>ctx. Tss2_Sys_Decapsulate_Prepare ctx keyHandle cipherText label'),
      on_rsp (CommonOneCall cmdAuthsArray),
      skip_out (\<lambda>(ctx, d1, _). Tss2_Sys_Decapsulate_Complete ctx d1)]
     (sysContext, rspAuthsArray, outSymSeed, ())"

lemma Decapsulate_handles [simp]:
  "GetNumCommandHandles TPM2_CC_Decapsulate = 1" "GetNumResponseHandles TPM2_CC_Decapsulate = 0"
  using GetNumHandles_entry [of TPM2_CC_Decapsulate 1 0] by (simp_all add: commandArray_def)

interpretation prepare_Decapsulate: sys_prepare "\<lambda>ctx. Tss2_Sys_Decapsulate_Prepare ctx keyHandle cipherText label'" TPM2_CC_Decapsulate "True \<in> set []"
  "opt_valid (src_TPM2B 1570 1568) cipherText \<and> opt_valid (src_TPM2B 66 64) label'"
  "opt_valid (valid_TPM2B 1568) cipherText \<and> opt_valid (valid_TPM2B 64) label'"
  "be_bytes keyHandle"
  "opt_wire wire_TPM2B cipherText @ opt_wire wire_TPM2B label'" "False" True True True
  for keyHandle cipherText label'
  by (rule sys_prepareI [OF emits_Cons [OF emits_put [OF mu_UINT32.marshaler_axioms, of keyHandle]
    emits_Cons [OF emits_opt [OF mu_TPM2B_ENCRYPTED_SECRET.marshaler_axioms, of cipherText]
    emits_Cons [OF emits_opt [OF mu_TPM2B_DATA.marshaler_axioms, of label']
    emits_skip]]]])
    (simp_all add: Tss2_Sys_Decapsulate_Prepare_def weak_defs prepare_simps del: steps.simps)

interpretation complete_Decapsulate: sys_complete "\<lambda>(ctx, d1, _). Tss2_Sys_Decapsulate_Complete ctx d1" TPM2_CC_Decapsulate
  "\<lambda>(d1, _). ptr_valid (wt_TPM2B 64) d1"
  "\<lambda>(d1, _). ptr_valid (valid_TPM2B 64) d1"
  "\<lambda>(_, _). []"
  "\<lambda>(d1, _). ptr_wire wire_TPM2B d1"
  by (rule sys_completeI [OF sys_complete_plain [OF reads_Cons [OF mu_TPM2B_DATA.unmarshaler_axioms
    reads_Nil]]])
    (simp_all add: Tss2_Sys_Decapsulate_Complete_def split_paired_all del: steps.simps)

interpretation cmd_Decapsulate: sys_command "\<lambda>ctx. Tss2_Sys_Decapsulate_Prepare ctx keyHandle cipherText label'"
  "\<lambda>(ctx, d1, _). Tss2_Sys_Decapsulate_Complete ctx d1" TPM2_CC_Decapsulate "True \<in> set []"
  "opt_valid (src_TPM2B 1570 1568) cipherText \<and> opt_valid (src_TPM2B 66 64) label'"
  "opt_valid (valid_TPM2B 1568) cipherText \<and> opt_valid (valid_TPM2B 64) label'"
  "be_bytes keyHandle"
  "opt_wire wire_TPM2B cipherText @ opt_wire wire_TPM2B label'" "False" True True True
  "\<lambda>(d1, _). ptr_valid (wt_TPM2B 64) d1"
  "\<lambda>(d1, _). ptr_valid (valid_TPM2B 64) d1"
  "\<lambda>(_, _). []"
  "\<lambda>(d1, _). ptr_wire wire_TPM2B d1"
  "\<lambda>(ctx, rsp, d1, _). Tss2_Sys_Decapsulate ctx keyHandle cmdAuthsArray cipherText label' d1 rsp" cmdAuthsArray
  for keyHandle cipherText label' cmdAuthsArray
  by (rule sys_command.intro [OF prepare_Decapsulate.sys_prepare_axioms complete_Decapsulate.sys_complete_axioms sys_command_axioms.intro])
    (auto simp: Tss2_Sys_Decapsulate_def one_call_def one_call_simps null_rc_def dest!: ptr_valid_some simp del: steps.simps)

subsection \<open>DictionaryAttackLockReset\<close>

definition Tss2_Sys_DictionaryAttackLockReset_Prepare where
  "Tss2_Sys_DictionaryAttackLockReset_Prepare sysContext lockHandle = steps
     [null_check [],
      CommonPreparePrologue TPM2_CC_DictionaryAttackLockReset,
      put (Tss2_MU_UINT32_Marshal lockHandle),
      assign (flags False False True),
      CommonPrepareEpilogue]
     sysContext"

definition Tss2_Sys_DictionaryAttackLockReset_Complete where
  "Tss2_Sys_DictionaryAttackLockReset_Complete sysContext = steps
     [on_fst (null_check []),
      on_fst CommonComplete]
     (sysContext, ())"

definition Tss2_Sys_DictionaryAttackLockReset where
  "Tss2_Sys_DictionaryAttackLockReset sysContext lockHandle cmdAuthsArray rspAuthsArray = steps
     [on_fst (\<lambda>ctx. Tss2_Sys_DictionaryAttackLockReset_Prepare ctx lockHandle),
      on_rsp (CommonOneCall cmdAuthsArray),
      skip_out (\<lambda>(ctx, _). Tss2_Sys_DictionaryAttackLockReset_Complete ctx)]
     (sysContext, rspAuthsArray, ())"

lemma DictionaryAttackLockReset_handles [simp]:
  "GetNumCommandHandles TPM2_CC_DictionaryAttackLockReset = 1" "GetNumResponseHandles TPM2_CC_DictionaryAttackLockReset = 0"
  using GetNumHandles_entry [of TPM2_CC_DictionaryAttackLockReset 1 0] by (simp_all add: commandArray_def)

interpretation prepare_DictionaryAttackLockReset: sys_prepare "\<lambda>ctx. Tss2_Sys_DictionaryAttackLockReset_Prepare ctx lockHandle" TPM2_CC_DictionaryAttackLockReset "True \<in> set []"
  "True"
  "True"
  "be_bytes lockHandle"
  "[]" "False" False False True
  for lockHandle
  by (rule sys_prepareI [OF emits_Cons [OF emits_put [OF mu_UINT32.marshaler_axioms, of lockHandle]
    emits_skip]])
    (simp_all add: Tss2_Sys_DictionaryAttackLockReset_Prepare_def weak_defs prepare_simps del: steps.simps)

interpretation complete_DictionaryAttackLockReset: sys_complete "\<lambda>(ctx, _). Tss2_Sys_DictionaryAttackLockReset_Complete ctx" TPM2_CC_DictionaryAttackLockReset
  "\<lambda>(_). True"
  "\<lambda>(_). True"
  "\<lambda>(_). []"
  "\<lambda>(_). []"
  by (rule sys_completeI [OF sys_complete_plain [OF reads_Nil]])
    (simp_all add: Tss2_Sys_DictionaryAttackLockReset_Complete_def split_paired_all del: steps.simps)

interpretation cmd_DictionaryAttackLockReset: sys_command "\<lambda>ctx. Tss2_Sys_DictionaryAttackLockReset_Prepare ctx lockHandle"
  "\<lambda>(ctx, _). Tss2_Sys_DictionaryAttackLockReset_Complete ctx" TPM2_CC_DictionaryAttackLockReset "True \<in> set []"
  "True"
  "True"
  "be_bytes lockHandle"
  "[]" "False" False False True
  "\<lambda>(_). True"
  "\<lambda>(_). True"
  "\<lambda>(_). []"
  "\<lambda>(_). []"
  "\<lambda>(ctx, rsp, _). Tss2_Sys_DictionaryAttackLockReset ctx lockHandle cmdAuthsArray rsp" cmdAuthsArray
  for lockHandle cmdAuthsArray
  by (rule sys_command.intro [OF prepare_DictionaryAttackLockReset.sys_prepare_axioms complete_DictionaryAttackLockReset.sys_complete_axioms sys_command_axioms.intro])
    (auto simp: Tss2_Sys_DictionaryAttackLockReset_def one_call_def one_call_simps null_rc_def dest!: ptr_valid_some simp del: steps.simps)

subsection \<open>DictionaryAttackParameters\<close>

definition Tss2_Sys_DictionaryAttackParameters_Prepare where
  "Tss2_Sys_DictionaryAttackParameters_Prepare sysContext lockHandle newMaxTries newRecoveryTime lockoutRecovery = steps
     [null_check [],
      CommonPreparePrologue TPM2_CC_DictionaryAttackParameters,
      put (Tss2_MU_UINT32_Marshal lockHandle),
      put (Tss2_MU_UINT32_Marshal newMaxTries),
      put (Tss2_MU_UINT32_Marshal newRecoveryTime),
      put (Tss2_MU_UINT32_Marshal lockoutRecovery),
      assign (flags False False True),
      CommonPrepareEpilogue]
     sysContext"

definition Tss2_Sys_DictionaryAttackParameters_Complete where
  "Tss2_Sys_DictionaryAttackParameters_Complete sysContext = steps
     [on_fst (null_check []),
      on_fst CommonComplete]
     (sysContext, ())"

definition Tss2_Sys_DictionaryAttackParameters where
  "Tss2_Sys_DictionaryAttackParameters sysContext lockHandle cmdAuthsArray newMaxTries newRecoveryTime lockoutRecovery rspAuthsArray = steps
     [on_fst (\<lambda>ctx. Tss2_Sys_DictionaryAttackParameters_Prepare ctx lockHandle newMaxTries newRecoveryTime lockoutRecovery),
      on_rsp (CommonOneCall cmdAuthsArray),
      skip_out (\<lambda>(ctx, _). Tss2_Sys_DictionaryAttackParameters_Complete ctx)]
     (sysContext, rspAuthsArray, ())"

lemma DictionaryAttackParameters_handles [simp]:
  "GetNumCommandHandles TPM2_CC_DictionaryAttackParameters = 1" "GetNumResponseHandles TPM2_CC_DictionaryAttackParameters = 0"
  using GetNumHandles_entry [of TPM2_CC_DictionaryAttackParameters 1 0] by (simp_all add: commandArray_def)

interpretation prepare_DictionaryAttackParameters: sys_prepare "\<lambda>ctx. Tss2_Sys_DictionaryAttackParameters_Prepare ctx lockHandle newMaxTries newRecoveryTime lockoutRecovery" TPM2_CC_DictionaryAttackParameters "True \<in> set []"
  "True"
  "True"
  "be_bytes lockHandle"
  "be_bytes newMaxTries @ be_bytes newRecoveryTime @ be_bytes lockoutRecovery" "False" False False True
  for lockHandle newMaxTries newRecoveryTime lockoutRecovery
  by (rule sys_prepareI [OF emits_Cons [OF emits_put [OF mu_UINT32.marshaler_axioms, of lockHandle]
    emits_Cons [OF emits_put [OF mu_UINT32.marshaler_axioms, of newMaxTries]
    emits_Cons [OF emits_put [OF mu_UINT32.marshaler_axioms, of newRecoveryTime]
    emits_Cons [OF emits_put [OF mu_UINT32.marshaler_axioms, of lockoutRecovery]
    emits_skip]]]]])
    (simp_all add: Tss2_Sys_DictionaryAttackParameters_Prepare_def weak_defs prepare_simps del: steps.simps)

interpretation complete_DictionaryAttackParameters: sys_complete "\<lambda>(ctx, _). Tss2_Sys_DictionaryAttackParameters_Complete ctx" TPM2_CC_DictionaryAttackParameters
  "\<lambda>(_). True"
  "\<lambda>(_). True"
  "\<lambda>(_). []"
  "\<lambda>(_). []"
  by (rule sys_completeI [OF sys_complete_plain [OF reads_Nil]])
    (simp_all add: Tss2_Sys_DictionaryAttackParameters_Complete_def split_paired_all del: steps.simps)

interpretation cmd_DictionaryAttackParameters: sys_command "\<lambda>ctx. Tss2_Sys_DictionaryAttackParameters_Prepare ctx lockHandle newMaxTries newRecoveryTime lockoutRecovery"
  "\<lambda>(ctx, _). Tss2_Sys_DictionaryAttackParameters_Complete ctx" TPM2_CC_DictionaryAttackParameters "True \<in> set []"
  "True"
  "True"
  "be_bytes lockHandle"
  "be_bytes newMaxTries @ be_bytes newRecoveryTime @ be_bytes lockoutRecovery" "False" False False True
  "\<lambda>(_). True"
  "\<lambda>(_). True"
  "\<lambda>(_). []"
  "\<lambda>(_). []"
  "\<lambda>(ctx, rsp, _). Tss2_Sys_DictionaryAttackParameters ctx lockHandle cmdAuthsArray newMaxTries newRecoveryTime lockoutRecovery rsp" cmdAuthsArray
  for lockHandle newMaxTries newRecoveryTime lockoutRecovery cmdAuthsArray
  by (rule sys_command.intro [OF prepare_DictionaryAttackParameters.sys_prepare_axioms complete_DictionaryAttackParameters.sys_complete_axioms sys_command_axioms.intro])
    (auto simp: Tss2_Sys_DictionaryAttackParameters_def one_call_def one_call_simps null_rc_def dest!: ptr_valid_some simp del: steps.simps)

subsection \<open>Duplicate\<close>

definition Tss2_Sys_Duplicate_Prepare where
  "Tss2_Sys_Duplicate_Prepare sysContext objectHandle newParentHandle encryptionKeyIn symmetricAlg = steps
     [null_check [Option.is_none symmetricAlg],
      CommonPreparePrologue TPM2_CC_Duplicate,
      put (Tss2_MU_UINT32_Marshal objectHandle),
      put (Tss2_MU_UINT32_Marshal newParentHandle),
      if Option.is_none encryptionKeyIn
        then steps [assign (ctx_decryptNull_update (\<lambda>_. True)), put (Tss2_MU_UINT16_Marshal 0)]
        else put (Tss2_MU_TPM2B_DATA_Marshal encryptionKeyIn),
      put (Tss2_MU_TPMT_SYM_DEF_OBJECT_Marshal symmetricAlg),
      assign (flags True True True),
      CommonPrepareEpilogue]
     sysContext"

definition Tss2_Sys_Duplicate_Complete where
  "Tss2_Sys_Duplicate_Complete sysContext encryptionKeyOut duplicate outSymSeed = steps
     [on_fst (null_check []),
      on_fst CommonComplete,
      get_out Tss2_MU_TPM2B_DATA_Unmarshal,
      skip_out (get_out Tss2_MU_TPM2B_PRIVATE_Unmarshal),
      skip_out (skip_out (get_out Tss2_MU_TPM2B_ENCRYPTED_SECRET_Unmarshal))]
     (sysContext, encryptionKeyOut, duplicate, outSymSeed, ())"

definition Tss2_Sys_Duplicate where
  "Tss2_Sys_Duplicate sysContext objectHandle newParentHandle cmdAuthsArray encryptionKeyIn symmetricAlg encryptionKeyOut duplicate outSymSeed rspAuthsArray = steps
     [ret (null_rc [Option.is_none symmetricAlg]),
      on_fst (\<lambda>ctx. Tss2_Sys_Duplicate_Prepare ctx objectHandle newParentHandle encryptionKeyIn symmetricAlg),
      on_rsp (CommonOneCall cmdAuthsArray),
      skip_out (\<lambda>(ctx, d1, d2, d3, _). Tss2_Sys_Duplicate_Complete ctx d1 d2 d3)]
     (sysContext, rspAuthsArray, encryptionKeyOut, duplicate, outSymSeed, ())"

lemma Duplicate_handles [simp]:
  "GetNumCommandHandles TPM2_CC_Duplicate = 2" "GetNumResponseHandles TPM2_CC_Duplicate = 0"
  using GetNumHandles_entry [of TPM2_CC_Duplicate 2 0] by (simp_all add: commandArray_def)

interpretation prepare_Duplicate: sys_prepare "\<lambda>ctx. Tss2_Sys_Duplicate_Prepare ctx objectHandle newParentHandle encryptionKeyIn symmetricAlg" TPM2_CC_Duplicate "True \<in> set [Option.is_none symmetricAlg]"
  "opt_valid (src_TPM2B 66 64) encryptionKeyIn \<and> opt_valid src_TPMT_SYM_DEF_OBJECT symmetricAlg"
  "opt_valid (valid_TPM2B 64) encryptionKeyIn \<and> ptr_valid valid_TPMT_SYM_DEF_OBJECT symmetricAlg"
  "be_bytes objectHandle @ be_bytes newParentHandle"
  "opt_wire wire_TPM2B encryptionKeyIn @ ptr_wire wire_TPMT_SYM_DEF_OBJECT symmetricAlg" "Option.is_none encryptionKeyIn" True True True
  for objectHandle newParentHandle encryptionKeyIn symmetricAlg
  by (rule sys_prepareI [OF emits_Cons [OF emits_put [OF mu_UINT32.marshaler_axioms, of objectHandle]
    emits_Cons [OF emits_put [OF mu_UINT32.marshaler_axioms, of newParentHandle]
    emits_Cons [OF emits_opt_null [OF mu_TPM2B_DATA.marshaler_axioms, of encryptionKeyIn]
    emits_Cons [OF emits_ptr [OF mu_TPMT_SYM_DEF_OBJECT.marshaler_axioms null_TPMT_SYM_DEF_OBJECT, of symmetricAlg]
    emits_skip]]]]])
    (simp_all add: Tss2_Sys_Duplicate_Prepare_def weak_defs prepare_simps del: steps.simps)

interpretation complete_Duplicate: sys_complete "\<lambda>(ctx, d1, d2, d3, _). Tss2_Sys_Duplicate_Complete ctx d1 d2 d3" TPM2_CC_Duplicate
  "\<lambda>(d1, d2, d3, _). ptr_valid (wt_TPM2B 64) d1 \<and> ptr_valid (wt_TPM2B 1550) d2 \<and> ptr_valid (wt_TPM2B 1568) d3"
  "\<lambda>(d1, d2, d3, _). ptr_valid (valid_TPM2B 64) d1 \<and> ptr_valid (valid_TPM2B 1550) d2 \<and> ptr_valid (valid_TPM2B 1568) d3"
  "\<lambda>(_, _, _, _). []"
  "\<lambda>(d1, d2, d3, _). ptr_wire wire_TPM2B d1 @ ptr_wire wire_TPM2B d2 @ ptr_wire wire_TPM2B d3"
  by (rule sys_completeI [OF sys_complete_plain [OF reads_Cons [OF mu_TPM2B_DATA.unmarshaler_axioms
    reads_Cons [OF mu_TPM2B_PRIVATE.unmarshaler_axioms
    reads_Cons [OF mu_TPM2B_ENCRYPTED_SECRET.unmarshaler_axioms
    reads_Nil]]]]])
    (simp_all add: Tss2_Sys_Duplicate_Complete_def split_paired_all del: steps.simps)

interpretation cmd_Duplicate: sys_command "\<lambda>ctx. Tss2_Sys_Duplicate_Prepare ctx objectHandle newParentHandle encryptionKeyIn symmetricAlg"
  "\<lambda>(ctx, d1, d2, d3, _). Tss2_Sys_Duplicate_Complete ctx d1 d2 d3" TPM2_CC_Duplicate "True \<in> set [Option.is_none symmetricAlg]"
  "opt_valid (src_TPM2B 66 64) encryptionKeyIn \<and> opt_valid src_TPMT_SYM_DEF_OBJECT symmetricAlg"
  "opt_valid (valid_TPM2B 64) encryptionKeyIn \<and> ptr_valid valid_TPMT_SYM_DEF_OBJECT symmetricAlg"
  "be_bytes objectHandle @ be_bytes newParentHandle"
  "opt_wire wire_TPM2B encryptionKeyIn @ ptr_wire wire_TPMT_SYM_DEF_OBJECT symmetricAlg" "Option.is_none encryptionKeyIn" True True True
  "\<lambda>(d1, d2, d3, _). ptr_valid (wt_TPM2B 64) d1 \<and> ptr_valid (wt_TPM2B 1550) d2 \<and> ptr_valid (wt_TPM2B 1568) d3"
  "\<lambda>(d1, d2, d3, _). ptr_valid (valid_TPM2B 64) d1 \<and> ptr_valid (valid_TPM2B 1550) d2 \<and> ptr_valid (valid_TPM2B 1568) d3"
  "\<lambda>(_, _, _, _). []"
  "\<lambda>(d1, d2, d3, _). ptr_wire wire_TPM2B d1 @ ptr_wire wire_TPM2B d2 @ ptr_wire wire_TPM2B d3"
  "\<lambda>(ctx, rsp, d1, d2, d3, _). Tss2_Sys_Duplicate ctx objectHandle newParentHandle cmdAuthsArray encryptionKeyIn symmetricAlg d1 d2 d3 rsp" cmdAuthsArray
  for objectHandle newParentHandle encryptionKeyIn symmetricAlg cmdAuthsArray
  by (rule sys_command.intro [OF prepare_Duplicate.sys_prepare_axioms complete_Duplicate.sys_complete_axioms sys_command_axioms.intro])
    (auto simp: Tss2_Sys_Duplicate_def one_call_def one_call_simps null_rc_def dest!: ptr_valid_some simp del: steps.simps)

subsection \<open>ECC Decrypt\<close>

definition Tss2_Sys_ECC_Decrypt_Prepare where
  "Tss2_Sys_ECC_Decrypt_Prepare sysContext keyHandle c1 c2 c3 inScheme = steps
     [null_check [Option.is_none inScheme],
      CommonPreparePrologue TPM2_CC_ECC_Decrypt,
      put (Tss2_MU_UINT32_Marshal keyHandle),
      if Option.is_none c1
        then put (Tss2_MU_UINT16_Marshal 0)
        else put (Tss2_MU_TPM2B_ECC_POINT_Marshal c1),
      if Option.is_none c2
        then put (Tss2_MU_UINT16_Marshal 0)
        else put (Tss2_MU_TPM2B_MAX_BUFFER_Marshal c2),
      if Option.is_none c3
        then put (Tss2_MU_UINT16_Marshal 0)
        else put (Tss2_MU_TPM2B_DIGEST_Marshal c3),
      put (Tss2_MU_TPMT_KDF_SCHEME_Marshal inScheme),
      assign (flags True True True),
      CommonPrepareEpilogue]
     sysContext"

definition Tss2_Sys_ECC_Decrypt_Complete where
  "Tss2_Sys_ECC_Decrypt_Complete sysContext plaintText = steps
     [on_fst (null_check []),
      on_fst CommonComplete,
      get_out Tss2_MU_TPM2B_MAX_BUFFER_Unmarshal]
     (sysContext, plaintText, ())"

definition Tss2_Sys_ECC_Decrypt where
  "Tss2_Sys_ECC_Decrypt sysContext keyHandle cmdAuthsArray c1 c2 c3 inScheme plaintText rspAuthsArray = steps
     [ret (null_rc [Option.is_none inScheme]),
      on_fst (\<lambda>ctx. Tss2_Sys_ECC_Decrypt_Prepare ctx keyHandle c1 c2 c3 inScheme),
      on_rsp (CommonOneCall cmdAuthsArray),
      skip_out (\<lambda>(ctx, d1, _). Tss2_Sys_ECC_Decrypt_Complete ctx d1)]
     (sysContext, rspAuthsArray, plaintText, ())"

lemma ECC_Decrypt_handles [simp]:
  "GetNumCommandHandles TPM2_CC_ECC_Decrypt = 1" "GetNumResponseHandles TPM2_CC_ECC_Decrypt = 0"
  using GetNumHandles_entry [of TPM2_CC_ECC_Decrypt 1 0] by (simp_all add: commandArray_def)

interpretation prepare_ECC_Decrypt: sys_prepare "\<lambda>ctx. Tss2_Sys_ECC_Decrypt_Prepare ctx keyHandle c1 c2 c3 inScheme" TPM2_CC_ECC_Decrypt "True \<in> set [Option.is_none inScheme]"
  "opt_valid (\<lambda>s. src_TPMS_ECC_POINT (TPM2B_SUBTYPE_member s)) c1 \<and> opt_valid (src_TPM2B 1026 1024) c2 \<and> opt_valid (src_TPM2B 66 64) c3 \<and> opt_valid src_TPMT_KDF_SCHEME inScheme"
  "opt_valid (\<lambda>s. valid_TPMS_ECC_POINT (TPM2B_SUBTYPE_member s)) c1 \<and> opt_valid (valid_TPM2B 1024) c2 \<and> opt_valid (valid_TPM2B 64) c3 \<and> ptr_valid valid_TPMT_KDF_SCHEME inScheme"
  "be_bytes keyHandle"
  "opt_wire (wire_SUBTYPE wire_TPMS_ECC_POINT) c1 @ opt_wire wire_TPM2B c2 @ opt_wire wire_TPM2B c3 @ ptr_wire wire_TPMT_KDF_SCHEME inScheme" "False" True True True
  for keyHandle c1 c2 c3 inScheme
  by (rule sys_prepareI [OF emits_Cons [OF emits_put [OF mu_UINT32.marshaler_axioms, of keyHandle]
    emits_Cons [OF emits_opt [OF mu_TPM2B_ECC_POINT.marshaler_axioms, of c1]
    emits_Cons [OF emits_opt [OF mu_TPM2B_MAX_BUFFER.marshaler_axioms, of c2]
    emits_Cons [OF emits_opt [OF mu_TPM2B_DIGEST.marshaler_axioms, of c3]
    emits_Cons [OF emits_ptr [OF mu_TPMT_KDF_SCHEME.marshaler_axioms null_TPMT_KDF_SCHEME, of inScheme]
    emits_skip]]]]]])
    (simp_all add: Tss2_Sys_ECC_Decrypt_Prepare_def weak_defs prepare_simps del: steps.simps)

interpretation complete_ECC_Decrypt: sys_complete "\<lambda>(ctx, d1, _). Tss2_Sys_ECC_Decrypt_Complete ctx d1" TPM2_CC_ECC_Decrypt
  "\<lambda>(d1, _). ptr_valid (wt_TPM2B 1024) d1"
  "\<lambda>(d1, _). ptr_valid (valid_TPM2B 1024) d1"
  "\<lambda>(_, _). []"
  "\<lambda>(d1, _). ptr_wire wire_TPM2B d1"
  by (rule sys_completeI [OF sys_complete_plain [OF reads_Cons [OF mu_TPM2B_MAX_BUFFER.unmarshaler_axioms
    reads_Nil]]])
    (simp_all add: Tss2_Sys_ECC_Decrypt_Complete_def split_paired_all del: steps.simps)

interpretation cmd_ECC_Decrypt: sys_command "\<lambda>ctx. Tss2_Sys_ECC_Decrypt_Prepare ctx keyHandle c1 c2 c3 inScheme"
  "\<lambda>(ctx, d1, _). Tss2_Sys_ECC_Decrypt_Complete ctx d1" TPM2_CC_ECC_Decrypt "True \<in> set [Option.is_none inScheme]"
  "opt_valid (\<lambda>s. src_TPMS_ECC_POINT (TPM2B_SUBTYPE_member s)) c1 \<and> opt_valid (src_TPM2B 1026 1024) c2 \<and> opt_valid (src_TPM2B 66 64) c3 \<and> opt_valid src_TPMT_KDF_SCHEME inScheme"
  "opt_valid (\<lambda>s. valid_TPMS_ECC_POINT (TPM2B_SUBTYPE_member s)) c1 \<and> opt_valid (valid_TPM2B 1024) c2 \<and> opt_valid (valid_TPM2B 64) c3 \<and> ptr_valid valid_TPMT_KDF_SCHEME inScheme"
  "be_bytes keyHandle"
  "opt_wire (wire_SUBTYPE wire_TPMS_ECC_POINT) c1 @ opt_wire wire_TPM2B c2 @ opt_wire wire_TPM2B c3 @ ptr_wire wire_TPMT_KDF_SCHEME inScheme" "False" True True True
  "\<lambda>(d1, _). ptr_valid (wt_TPM2B 1024) d1"
  "\<lambda>(d1, _). ptr_valid (valid_TPM2B 1024) d1"
  "\<lambda>(_, _). []"
  "\<lambda>(d1, _). ptr_wire wire_TPM2B d1"
  "\<lambda>(ctx, rsp, d1, _). Tss2_Sys_ECC_Decrypt ctx keyHandle cmdAuthsArray c1 c2 c3 inScheme d1 rsp" cmdAuthsArray
  for keyHandle c1 c2 c3 inScheme cmdAuthsArray
  by (rule sys_command.intro [OF prepare_ECC_Decrypt.sys_prepare_axioms complete_ECC_Decrypt.sys_complete_axioms sys_command_axioms.intro])
    (auto simp: Tss2_Sys_ECC_Decrypt_def one_call_def one_call_simps null_rc_def dest!: ptr_valid_some simp del: steps.simps)

subsection \<open>ECC Encrypt\<close>

definition Tss2_Sys_ECC_Encrypt_Prepare where
  "Tss2_Sys_ECC_Encrypt_Prepare sysContext keyHandle platinText inScheme = steps
     [null_check [Option.is_none inScheme],
      CommonPreparePrologue TPM2_CC_ECC_Encrypt,
      put (Tss2_MU_UINT32_Marshal keyHandle),
      if Option.is_none platinText
        then steps [assign (ctx_decryptNull_update (\<lambda>_. True)), put (Tss2_MU_UINT16_Marshal 0)]
        else put (Tss2_MU_TPM2B_MAX_BUFFER_Marshal platinText),
      put (Tss2_MU_TPMT_KDF_SCHEME_Marshal inScheme),
      assign (flags True True True),
      CommonPrepareEpilogue]
     sysContext"

definition Tss2_Sys_ECC_Encrypt_Complete where
  "Tss2_Sys_ECC_Encrypt_Complete sysContext c1 c2 c3 = steps
     [on_fst (null_check []),
      on_fst CommonComplete,
      get_out Tss2_MU_TPM2B_ECC_POINT_Unmarshal,
      skip_out (get_out Tss2_MU_TPM2B_MAX_BUFFER_Unmarshal),
      skip_out (skip_out (get_out Tss2_MU_TPM2B_DIGEST_Unmarshal))]
     (sysContext, c1, c2, c3, ())"

definition Tss2_Sys_ECC_Encrypt where
  "Tss2_Sys_ECC_Encrypt sysContext keyHandle cmdAuthsArray plainText inScheme c1 c2 c3 rspAuthsArray = steps
     [ret (null_rc [Option.is_none inScheme]),
      on_fst (\<lambda>ctx. Tss2_Sys_ECC_Encrypt_Prepare ctx keyHandle plainText inScheme),
      on_rsp (CommonOneCall cmdAuthsArray),
      skip_out (\<lambda>(ctx, d1, d2, d3, _). Tss2_Sys_ECC_Encrypt_Complete ctx d1 d2 d3)]
     (sysContext, rspAuthsArray, c1, c2, c3, ())"

lemma ECC_Encrypt_handles [simp]:
  "GetNumCommandHandles TPM2_CC_ECC_Encrypt = 1" "GetNumResponseHandles TPM2_CC_ECC_Encrypt = 0"
  using GetNumHandles_entry [of TPM2_CC_ECC_Encrypt 1 0] by (simp_all add: commandArray_def)

interpretation prepare_ECC_Encrypt: sys_prepare "\<lambda>ctx. Tss2_Sys_ECC_Encrypt_Prepare ctx keyHandle platinText inScheme" TPM2_CC_ECC_Encrypt "True \<in> set [Option.is_none inScheme]"
  "opt_valid (src_TPM2B 1026 1024) platinText \<and> opt_valid src_TPMT_KDF_SCHEME inScheme"
  "opt_valid (valid_TPM2B 1024) platinText \<and> ptr_valid valid_TPMT_KDF_SCHEME inScheme"
  "be_bytes keyHandle"
  "opt_wire wire_TPM2B platinText @ ptr_wire wire_TPMT_KDF_SCHEME inScheme" "Option.is_none platinText" True True True
  for keyHandle platinText inScheme
  by (rule sys_prepareI [OF emits_Cons [OF emits_put [OF mu_UINT32.marshaler_axioms, of keyHandle]
    emits_Cons [OF emits_opt_null [OF mu_TPM2B_MAX_BUFFER.marshaler_axioms, of platinText]
    emits_Cons [OF emits_ptr [OF mu_TPMT_KDF_SCHEME.marshaler_axioms null_TPMT_KDF_SCHEME, of inScheme]
    emits_skip]]]])
    (simp_all add: Tss2_Sys_ECC_Encrypt_Prepare_def weak_defs prepare_simps del: steps.simps)

interpretation complete_ECC_Encrypt: sys_complete "\<lambda>(ctx, d1, d2, d3, _). Tss2_Sys_ECC_Encrypt_Complete ctx d1 d2 d3" TPM2_CC_ECC_Encrypt
  "\<lambda>(d1, d2, d3, _). ptr_valid (\<lambda>s. wt_TPMS_ECC_POINT (TPM2B_SUBTYPE_member s)) d1 \<and> ptr_valid (wt_TPM2B 1024) d2 \<and> ptr_valid (wt_TPM2B 64) d3"
  "\<lambda>(d1, d2, d3, _). ptr_valid (\<lambda>s. valid_TPMS_ECC_POINT (TPM2B_SUBTYPE_member s)) d1 \<and> ptr_valid (valid_TPM2B 1024) d2 \<and> ptr_valid (valid_TPM2B 64) d3"
  "\<lambda>(_, _, _, _). []"
  "\<lambda>(d1, d2, d3, _). ptr_wire (wire_SUBTYPE wire_TPMS_ECC_POINT) d1 @ ptr_wire wire_TPM2B d2 @ ptr_wire wire_TPM2B d3"
  by (rule sys_completeI [OF sys_complete_plain [OF reads_Cons [OF mu_TPM2B_ECC_POINT.unmarshaler_axioms
    reads_Cons [OF mu_TPM2B_MAX_BUFFER.unmarshaler_axioms
    reads_Cons [OF mu_TPM2B_DIGEST.unmarshaler_axioms
    reads_Nil]]]]])
    (simp_all add: Tss2_Sys_ECC_Encrypt_Complete_def split_paired_all del: steps.simps)

interpretation cmd_ECC_Encrypt: sys_command "\<lambda>ctx. Tss2_Sys_ECC_Encrypt_Prepare ctx keyHandle platinText inScheme"
  "\<lambda>(ctx, d1, d2, d3, _). Tss2_Sys_ECC_Encrypt_Complete ctx d1 d2 d3" TPM2_CC_ECC_Encrypt "True \<in> set [Option.is_none inScheme]"
  "opt_valid (src_TPM2B 1026 1024) platinText \<and> opt_valid src_TPMT_KDF_SCHEME inScheme"
  "opt_valid (valid_TPM2B 1024) platinText \<and> ptr_valid valid_TPMT_KDF_SCHEME inScheme"
  "be_bytes keyHandle"
  "opt_wire wire_TPM2B platinText @ ptr_wire wire_TPMT_KDF_SCHEME inScheme" "Option.is_none platinText" True True True
  "\<lambda>(d1, d2, d3, _). ptr_valid (\<lambda>s. wt_TPMS_ECC_POINT (TPM2B_SUBTYPE_member s)) d1 \<and> ptr_valid (wt_TPM2B 1024) d2 \<and> ptr_valid (wt_TPM2B 64) d3"
  "\<lambda>(d1, d2, d3, _). ptr_valid (\<lambda>s. valid_TPMS_ECC_POINT (TPM2B_SUBTYPE_member s)) d1 \<and> ptr_valid (valid_TPM2B 1024) d2 \<and> ptr_valid (valid_TPM2B 64) d3"
  "\<lambda>(_, _, _, _). []"
  "\<lambda>(d1, d2, d3, _). ptr_wire (wire_SUBTYPE wire_TPMS_ECC_POINT) d1 @ ptr_wire wire_TPM2B d2 @ ptr_wire wire_TPM2B d3"
  "\<lambda>(ctx, rsp, d1, d2, d3, _). Tss2_Sys_ECC_Encrypt ctx keyHandle cmdAuthsArray platinText inScheme d1 d2 d3 rsp" cmdAuthsArray
  for keyHandle platinText inScheme cmdAuthsArray
  by (rule sys_command.intro [OF prepare_ECC_Encrypt.sys_prepare_axioms complete_ECC_Encrypt.sys_complete_axioms sys_command_axioms.intro])
    (auto simp: Tss2_Sys_ECC_Encrypt_def one_call_def one_call_simps null_rc_def dest!: ptr_valid_some simp del: steps.simps)

subsection \<open>ECC Parameters\<close>

definition Tss2_Sys_ECC_Parameters_Prepare where
  "Tss2_Sys_ECC_Parameters_Prepare sysContext curveID = steps
     [null_check [],
      CommonPreparePrologue TPM2_CC_ECC_Parameters,
      put (Tss2_MU_UINT16_Marshal curveID),
      assign (flags False False True),
      CommonPrepareEpilogue]
     sysContext"

definition Tss2_Sys_ECC_Parameters_Complete where
  "Tss2_Sys_ECC_Parameters_Complete sysContext parameters = steps
     [on_fst (null_check []),
      on_fst CommonComplete,
      get_out Tss2_MU_TPMS_ALGORITHM_DETAIL_ECC_Unmarshal]
     (sysContext, parameters, ())"

definition Tss2_Sys_ECC_Parameters where
  "Tss2_Sys_ECC_Parameters sysContext cmdAuthsArray curveID parameters rspAuthsArray = steps
     [on_fst (\<lambda>ctx. Tss2_Sys_ECC_Parameters_Prepare ctx curveID),
      on_rsp (CommonOneCall cmdAuthsArray),
      skip_out (\<lambda>(ctx, d1, _). Tss2_Sys_ECC_Parameters_Complete ctx d1)]
     (sysContext, rspAuthsArray, parameters, ())"

lemma ECC_Parameters_handles [simp]:
  "GetNumCommandHandles TPM2_CC_ECC_Parameters = 0" "GetNumResponseHandles TPM2_CC_ECC_Parameters = 0"
  using GetNumHandles_entry [of TPM2_CC_ECC_Parameters 0 0] by (simp_all add: commandArray_def)

interpretation prepare_ECC_Parameters: sys_prepare "\<lambda>ctx. Tss2_Sys_ECC_Parameters_Prepare ctx curveID" TPM2_CC_ECC_Parameters "True \<in> set []"
  "True"
  "True"
  "[]"
  "be_bytes curveID" "False" False False True
  for curveID
  by (rule sys_prepareI [OF emits_Cons [OF emits_put [OF mu_UINT16.marshaler_axioms, of curveID]
    emits_skip]])
    (simp_all add: Tss2_Sys_ECC_Parameters_Prepare_def weak_defs prepare_simps del: steps.simps)

interpretation complete_ECC_Parameters: sys_complete "\<lambda>(ctx, d1, _). Tss2_Sys_ECC_Parameters_Complete ctx d1" TPM2_CC_ECC_Parameters
  "\<lambda>(d1, _). ptr_valid wt_TPMS_ALGORITHM_DETAIL_ECC d1"
  "\<lambda>(d1, _). ptr_valid valid_TPMS_ALGORITHM_DETAIL_ECC d1"
  "\<lambda>(_, _). []"
  "\<lambda>(d1, _). ptr_wire wire_TPMS_ALGORITHM_DETAIL_ECC d1"
  by (rule sys_completeI [OF sys_complete_plain [OF reads_Cons [OF mu_TPMS_ALGORITHM_DETAIL_ECC.unmarshaler_axioms
    reads_Nil]]])
    (simp_all add: Tss2_Sys_ECC_Parameters_Complete_def split_paired_all del: steps.simps)

interpretation cmd_ECC_Parameters: sys_command "\<lambda>ctx. Tss2_Sys_ECC_Parameters_Prepare ctx curveID"
  "\<lambda>(ctx, d1, _). Tss2_Sys_ECC_Parameters_Complete ctx d1" TPM2_CC_ECC_Parameters "True \<in> set []"
  "True"
  "True"
  "[]"
  "be_bytes curveID" "False" False False True
  "\<lambda>(d1, _). ptr_valid wt_TPMS_ALGORITHM_DETAIL_ECC d1"
  "\<lambda>(d1, _). ptr_valid valid_TPMS_ALGORITHM_DETAIL_ECC d1"
  "\<lambda>(_, _). []"
  "\<lambda>(d1, _). ptr_wire wire_TPMS_ALGORITHM_DETAIL_ECC d1"
  "\<lambda>(ctx, rsp, d1, _). Tss2_Sys_ECC_Parameters ctx cmdAuthsArray curveID d1 rsp" cmdAuthsArray
  for curveID cmdAuthsArray
  by (rule sys_command.intro [OF prepare_ECC_Parameters.sys_prepare_axioms complete_ECC_Parameters.sys_complete_axioms sys_command_axioms.intro])
    (auto simp: Tss2_Sys_ECC_Parameters_def one_call_def one_call_simps null_rc_def dest!: ptr_valid_some simp del: steps.simps)

end
