(* ===== verification/Sys_Commands_2.thy ===== *)
theory Sys_Commands_2
  imports Sys_OneCall
begin

text \<open>
  The command functions of \<open>src/tss2-sys/api\<close> from \<open>ECDH_KeyGen\<close> to \<open>IncrementalSelfTest\<close>: for each command \<open>_Prepare\<close>, \<open>_Complete\<close> and
  the one-call function, with the contracts they satisfy.
\<close>

section \<open>Commands\<close>

subsection \<open>ECDH KeyGen\<close>

definition Tss2_Sys_ECDH_KeyGen_Prepare where
  "Tss2_Sys_ECDH_KeyGen_Prepare sysContext keyHandle = steps
     [null_check [],
      CommonPreparePrologue TPM2_CC_ECDH_KeyGen,
      put (Tss2_MU_UINT32_Marshal keyHandle),
      assign (flags False True True),
      CommonPrepareEpilogue]
     sysContext"

definition Tss2_Sys_ECDH_KeyGen_Complete where
  "Tss2_Sys_ECDH_KeyGen_Complete sysContext zPoint pubPoint = steps
     [on_fst (null_check []),
      on_fst CommonComplete,
      get_out Tss2_MU_TPM2B_ECC_POINT_Unmarshal,
      skip_out (get_out Tss2_MU_TPM2B_ECC_POINT_Unmarshal)]
     (sysContext, zPoint, pubPoint, ())"

definition Tss2_Sys_ECDH_KeyGen where
  "Tss2_Sys_ECDH_KeyGen sysContext keyHandle cmdAuthsArray zPoint pubPoint rspAuthsArray = steps
     [on_fst (\<lambda>ctx. Tss2_Sys_ECDH_KeyGen_Prepare ctx keyHandle),
      on_rsp (CommonOneCall cmdAuthsArray),
      skip_out (\<lambda>(ctx, d1, d2, _). Tss2_Sys_ECDH_KeyGen_Complete ctx d1 d2)]
     (sysContext, rspAuthsArray, zPoint, pubPoint, ())"

lemma ECDH_KeyGen_handles [simp]:
  "GetNumCommandHandles TPM2_CC_ECDH_KeyGen = 1" "GetNumResponseHandles TPM2_CC_ECDH_KeyGen = 0"
  using GetNumHandles_entry [of TPM2_CC_ECDH_KeyGen 1 0] by (simp_all add: commandArray_def)

interpretation prepare_ECDH_KeyGen: sys_prepare "\<lambda>ctx. Tss2_Sys_ECDH_KeyGen_Prepare ctx keyHandle" TPM2_CC_ECDH_KeyGen "True \<in> set []"
  "True"
  "True"
  "be_bytes keyHandle"
  "[]" "False" False True True
  for keyHandle
  by (rule sys_prepareI [OF emits_Cons [OF emits_put [OF mu_UINT32.marshaler_axioms, of keyHandle]
    emits_skip]])
    (simp_all add: Tss2_Sys_ECDH_KeyGen_Prepare_def weak_defs prepare_simps del: steps.simps)

interpretation complete_ECDH_KeyGen: sys_complete "\<lambda>(ctx, d1, d2, _). Tss2_Sys_ECDH_KeyGen_Complete ctx d1 d2" TPM2_CC_ECDH_KeyGen
  "\<lambda>(d1, d2, _). ptr_valid (\<lambda>s. wt_TPMS_ECC_POINT (TPM2B_SUBTYPE_member s)) d1 \<and> ptr_valid (\<lambda>s. wt_TPMS_ECC_POINT (TPM2B_SUBTYPE_member s)) d2"
  "\<lambda>(d1, d2, _). ptr_valid (\<lambda>s. valid_TPMS_ECC_POINT (TPM2B_SUBTYPE_member s)) d1 \<and> ptr_valid (\<lambda>s. valid_TPMS_ECC_POINT (TPM2B_SUBTYPE_member s)) d2"
  "\<lambda>(_, _, _). []"
  "\<lambda>(d1, d2, _). ptr_wire (wire_SUBTYPE wire_TPMS_ECC_POINT) d1 @ ptr_wire (wire_SUBTYPE wire_TPMS_ECC_POINT) d2"
  by (rule sys_completeI [OF sys_complete_plain [OF reads_Cons [OF mu_TPM2B_ECC_POINT.unmarshaler_axioms
    reads_Cons [OF mu_TPM2B_ECC_POINT.unmarshaler_axioms
    reads_Nil]]]])
    (simp_all add: Tss2_Sys_ECDH_KeyGen_Complete_def split_paired_all del: steps.simps)

interpretation cmd_ECDH_KeyGen: sys_command "\<lambda>ctx. Tss2_Sys_ECDH_KeyGen_Prepare ctx keyHandle"
  "\<lambda>(ctx, d1, d2, _). Tss2_Sys_ECDH_KeyGen_Complete ctx d1 d2" TPM2_CC_ECDH_KeyGen "True \<in> set []"
  "True"
  "True"
  "be_bytes keyHandle"
  "[]" "False" False True True
  "\<lambda>(d1, d2, _). ptr_valid (\<lambda>s. wt_TPMS_ECC_POINT (TPM2B_SUBTYPE_member s)) d1 \<and> ptr_valid (\<lambda>s. wt_TPMS_ECC_POINT (TPM2B_SUBTYPE_member s)) d2"
  "\<lambda>(d1, d2, _). ptr_valid (\<lambda>s. valid_TPMS_ECC_POINT (TPM2B_SUBTYPE_member s)) d1 \<and> ptr_valid (\<lambda>s. valid_TPMS_ECC_POINT (TPM2B_SUBTYPE_member s)) d2"
  "\<lambda>(_, _, _). []"
  "\<lambda>(d1, d2, _). ptr_wire (wire_SUBTYPE wire_TPMS_ECC_POINT) d1 @ ptr_wire (wire_SUBTYPE wire_TPMS_ECC_POINT) d2"
  "\<lambda>(ctx, rsp, d1, d2, _). Tss2_Sys_ECDH_KeyGen ctx keyHandle cmdAuthsArray d1 d2 rsp" cmdAuthsArray
  for keyHandle cmdAuthsArray
  by (rule sys_command.intro [OF prepare_ECDH_KeyGen.sys_prepare_axioms complete_ECDH_KeyGen.sys_complete_axioms sys_command_axioms.intro])
    (auto simp: Tss2_Sys_ECDH_KeyGen_def one_call_def one_call_simps null_rc_def dest!: ptr_valid_some simp del: steps.simps)

subsection \<open>ECDH ZGen\<close>

definition Tss2_Sys_ECDH_ZGen_Prepare where
  "Tss2_Sys_ECDH_ZGen_Prepare sysContext keyHandle inPoint = steps
     [null_check [],
      CommonPreparePrologue TPM2_CC_ECDH_ZGen,
      put (Tss2_MU_UINT32_Marshal keyHandle),
      if Option.is_none inPoint
        then put (Tss2_MU_UINT16_Marshal 0)
        else put (Tss2_MU_TPM2B_ECC_POINT_Marshal inPoint),
      assign (flags True True True),
      CommonPrepareEpilogue]
     sysContext"

definition Tss2_Sys_ECDH_ZGen_Complete where
  "Tss2_Sys_ECDH_ZGen_Complete sysContext outPoint = steps
     [on_fst (null_check []),
      on_fst CommonComplete,
      get_out Tss2_MU_TPM2B_ECC_POINT_Unmarshal]
     (sysContext, outPoint, ())"

definition Tss2_Sys_ECDH_ZGen where
  "Tss2_Sys_ECDH_ZGen sysContext keyHandle cmdAuthsArray inPoint outPoint rspAuthsArray = steps
     [on_fst (\<lambda>ctx. Tss2_Sys_ECDH_ZGen_Prepare ctx keyHandle inPoint),
      on_rsp (CommonOneCall cmdAuthsArray),
      skip_out (\<lambda>(ctx, d1, _). Tss2_Sys_ECDH_ZGen_Complete ctx d1)]
     (sysContext, rspAuthsArray, outPoint, ())"

lemma ECDH_ZGen_handles [simp]:
  "GetNumCommandHandles TPM2_CC_ECDH_ZGen = 1" "GetNumResponseHandles TPM2_CC_ECDH_ZGen = 0"
  using GetNumHandles_entry [of TPM2_CC_ECDH_ZGen 1 0] by (simp_all add: commandArray_def)

interpretation prepare_ECDH_ZGen: sys_prepare "\<lambda>ctx. Tss2_Sys_ECDH_ZGen_Prepare ctx keyHandle inPoint" TPM2_CC_ECDH_ZGen "True \<in> set []"
  "opt_valid (\<lambda>s. src_TPMS_ECC_POINT (TPM2B_SUBTYPE_member s)) inPoint"
  "opt_valid (\<lambda>s. valid_TPMS_ECC_POINT (TPM2B_SUBTYPE_member s)) inPoint"
  "be_bytes keyHandle"
  "opt_wire (wire_SUBTYPE wire_TPMS_ECC_POINT) inPoint" "False" True True True
  for keyHandle inPoint
  by (rule sys_prepareI [OF emits_Cons [OF emits_put [OF mu_UINT32.marshaler_axioms, of keyHandle]
    emits_Cons [OF emits_opt [OF mu_TPM2B_ECC_POINT.marshaler_axioms, of inPoint]
    emits_skip]]])
    (simp_all add: Tss2_Sys_ECDH_ZGen_Prepare_def weak_defs prepare_simps del: steps.simps)

interpretation complete_ECDH_ZGen: sys_complete "\<lambda>(ctx, d1, _). Tss2_Sys_ECDH_ZGen_Complete ctx d1" TPM2_CC_ECDH_ZGen
  "\<lambda>(d1, _). ptr_valid (\<lambda>s. wt_TPMS_ECC_POINT (TPM2B_SUBTYPE_member s)) d1"
  "\<lambda>(d1, _). ptr_valid (\<lambda>s. valid_TPMS_ECC_POINT (TPM2B_SUBTYPE_member s)) d1"
  "\<lambda>(_, _). []"
  "\<lambda>(d1, _). ptr_wire (wire_SUBTYPE wire_TPMS_ECC_POINT) d1"
  by (rule sys_completeI [OF sys_complete_plain [OF reads_Cons [OF mu_TPM2B_ECC_POINT.unmarshaler_axioms
    reads_Nil]]])
    (simp_all add: Tss2_Sys_ECDH_ZGen_Complete_def split_paired_all del: steps.simps)

interpretation cmd_ECDH_ZGen: sys_command "\<lambda>ctx. Tss2_Sys_ECDH_ZGen_Prepare ctx keyHandle inPoint"
  "\<lambda>(ctx, d1, _). Tss2_Sys_ECDH_ZGen_Complete ctx d1" TPM2_CC_ECDH_ZGen "True \<in> set []"
  "opt_valid (\<lambda>s. src_TPMS_ECC_POINT (TPM2B_SUBTYPE_member s)) inPoint"
  "opt_valid (\<lambda>s. valid_TPMS_ECC_POINT (TPM2B_SUBTYPE_member s)) inPoint"
  "be_bytes keyHandle"
  "opt_wire (wire_SUBTYPE wire_TPMS_ECC_POINT) inPoint" "False" True True True
  "\<lambda>(d1, _). ptr_valid (\<lambda>s. wt_TPMS_ECC_POINT (TPM2B_SUBTYPE_member s)) d1"
  "\<lambda>(d1, _). ptr_valid (\<lambda>s. valid_TPMS_ECC_POINT (TPM2B_SUBTYPE_member s)) d1"
  "\<lambda>(_, _). []"
  "\<lambda>(d1, _). ptr_wire (wire_SUBTYPE wire_TPMS_ECC_POINT) d1"
  "\<lambda>(ctx, rsp, d1, _). Tss2_Sys_ECDH_ZGen ctx keyHandle cmdAuthsArray inPoint d1 rsp" cmdAuthsArray
  for keyHandle inPoint cmdAuthsArray
  by (rule sys_command.intro [OF prepare_ECDH_ZGen.sys_prepare_axioms complete_ECDH_ZGen.sys_complete_axioms sys_command_axioms.intro])
    (auto simp: Tss2_Sys_ECDH_ZGen_def one_call_def one_call_simps null_rc_def dest!: ptr_valid_some simp del: steps.simps)

subsection \<open>EC Ephemeral\<close>

definition Tss2_Sys_EC_Ephemeral_Prepare where
  "Tss2_Sys_EC_Ephemeral_Prepare sysContext curveID = steps
     [null_check [],
      CommonPreparePrologue TPM2_CC_EC_Ephemeral,
      put (Tss2_MU_UINT16_Marshal curveID),
      assign (flags False True True),
      CommonPrepareEpilogue]
     sysContext"

definition Tss2_Sys_EC_Ephemeral_Complete where
  "Tss2_Sys_EC_Ephemeral_Complete sysContext Q counter = steps
     [on_fst (null_check []),
      on_fst CommonComplete,
      get_out Tss2_MU_TPM2B_ECC_POINT_Unmarshal,
      skip_out (get_out Tss2_MU_UINT16_Unmarshal)]
     (sysContext, Q, counter, ())"

definition Tss2_Sys_EC_Ephemeral where
  "Tss2_Sys_EC_Ephemeral sysContext cmdAuthsArray curveID Q counter rspAuthsArray = steps
     [on_fst (\<lambda>ctx. Tss2_Sys_EC_Ephemeral_Prepare ctx curveID),
      on_rsp (CommonOneCall cmdAuthsArray),
      skip_out (\<lambda>(ctx, d1, d2, _). Tss2_Sys_EC_Ephemeral_Complete ctx d1 d2)]
     (sysContext, rspAuthsArray, Q, counter, ())"

lemma EC_Ephemeral_handles [simp]:
  "GetNumCommandHandles TPM2_CC_EC_Ephemeral = 0" "GetNumResponseHandles TPM2_CC_EC_Ephemeral = 0"
  using GetNumHandles_entry [of TPM2_CC_EC_Ephemeral 0 0] by (simp_all add: commandArray_def)

interpretation prepare_EC_Ephemeral: sys_prepare "\<lambda>ctx. Tss2_Sys_EC_Ephemeral_Prepare ctx curveID" TPM2_CC_EC_Ephemeral "True \<in> set []"
  "True"
  "True"
  "[]"
  "be_bytes curveID" "False" False True True
  for curveID
  by (rule sys_prepareI [OF emits_Cons [OF emits_put [OF mu_UINT16.marshaler_axioms, of curveID]
    emits_skip]])
    (simp_all add: Tss2_Sys_EC_Ephemeral_Prepare_def weak_defs prepare_simps del: steps.simps)

interpretation complete_EC_Ephemeral: sys_complete "\<lambda>(ctx, d1, d2, _). Tss2_Sys_EC_Ephemeral_Complete ctx d1 d2" TPM2_CC_EC_Ephemeral
  "\<lambda>(d1, d2, _). ptr_valid (\<lambda>s. wt_TPMS_ECC_POINT (TPM2B_SUBTYPE_member s)) d1 \<and> ptr_valid (\<lambda>_. True) d2"
  "\<lambda>(d1, d2, _). ptr_valid (\<lambda>s. valid_TPMS_ECC_POINT (TPM2B_SUBTYPE_member s)) d1 \<and> ptr_valid (\<lambda>_. True) d2"
  "\<lambda>(_, _, _). []"
  "\<lambda>(d1, d2, _). ptr_wire (wire_SUBTYPE wire_TPMS_ECC_POINT) d1 @ ptr_wire be_bytes d2"
  by (rule sys_completeI [OF sys_complete_plain [OF reads_Cons [OF mu_TPM2B_ECC_POINT.unmarshaler_axioms
    reads_Cons [OF mu_UINT16.unmarshaler_axioms
    reads_Nil]]]])
    (simp_all add: Tss2_Sys_EC_Ephemeral_Complete_def split_paired_all del: steps.simps)

interpretation cmd_EC_Ephemeral: sys_command "\<lambda>ctx. Tss2_Sys_EC_Ephemeral_Prepare ctx curveID"
  "\<lambda>(ctx, d1, d2, _). Tss2_Sys_EC_Ephemeral_Complete ctx d1 d2" TPM2_CC_EC_Ephemeral "True \<in> set []"
  "True"
  "True"
  "[]"
  "be_bytes curveID" "False" False True True
  "\<lambda>(d1, d2, _). ptr_valid (\<lambda>s. wt_TPMS_ECC_POINT (TPM2B_SUBTYPE_member s)) d1 \<and> ptr_valid (\<lambda>_. True) d2"
  "\<lambda>(d1, d2, _). ptr_valid (\<lambda>s. valid_TPMS_ECC_POINT (TPM2B_SUBTYPE_member s)) d1 \<and> ptr_valid (\<lambda>_. True) d2"
  "\<lambda>(_, _, _). []"
  "\<lambda>(d1, d2, _). ptr_wire (wire_SUBTYPE wire_TPMS_ECC_POINT) d1 @ ptr_wire be_bytes d2"
  "\<lambda>(ctx, rsp, d1, d2, _). Tss2_Sys_EC_Ephemeral ctx cmdAuthsArray curveID d1 d2 rsp" cmdAuthsArray
  for curveID cmdAuthsArray
  by (rule sys_command.intro [OF prepare_EC_Ephemeral.sys_prepare_axioms complete_EC_Ephemeral.sys_complete_axioms sys_command_axioms.intro])
    (auto simp: Tss2_Sys_EC_Ephemeral_def one_call_def one_call_simps null_rc_def dest!: ptr_valid_some simp del: steps.simps)

subsection \<open>Encapsulate\<close>

definition Tss2_Sys_Encapsulate_Prepare where
  "Tss2_Sys_Encapsulate_Prepare sysContext keyHandle label' = steps
     [null_check [],
      CommonPreparePrologue TPM2_CC_Encapsulate,
      put (Tss2_MU_UINT32_Marshal keyHandle),
      if Option.is_none label'
        then put (Tss2_MU_UINT16_Marshal 0)
        else put (Tss2_MU_TPM2B_DATA_Marshal label'),
      assign (flags True True True),
      CommonPrepareEpilogue]
     sysContext"

definition Tss2_Sys_Encapsulate_Complete where
  "Tss2_Sys_Encapsulate_Complete sysContext outSymSeed cipherText = steps
     [on_fst (null_check []),
      on_fst CommonComplete,
      get_out Tss2_MU_TPM2B_DATA_Unmarshal,
      skip_out (get_out Tss2_MU_TPM2B_ENCRYPTED_SECRET_Unmarshal)]
     (sysContext, outSymSeed, cipherText, ())"

definition Tss2_Sys_Encapsulate where
  "Tss2_Sys_Encapsulate sysContext keyHandle cmdAuthsArray label' outSymSeed cipherText rspAuthsArray = steps
     [on_fst (\<lambda>ctx. Tss2_Sys_Encapsulate_Prepare ctx keyHandle label'),
      on_rsp (CommonOneCall cmdAuthsArray),
      skip_out (\<lambda>(ctx, d1, d2, _). Tss2_Sys_Encapsulate_Complete ctx d1 d2)]
     (sysContext, rspAuthsArray, outSymSeed, cipherText, ())"

lemma Encapsulate_handles [simp]:
  "GetNumCommandHandles TPM2_CC_Encapsulate = 1" "GetNumResponseHandles TPM2_CC_Encapsulate = 0"
  using GetNumHandles_entry [of TPM2_CC_Encapsulate 1 0] by (simp_all add: commandArray_def)

interpretation prepare_Encapsulate: sys_prepare "\<lambda>ctx. Tss2_Sys_Encapsulate_Prepare ctx keyHandle label'" TPM2_CC_Encapsulate "True \<in> set []"
  "opt_valid (src_TPM2B 66 64) label'"
  "opt_valid (valid_TPM2B 64) label'"
  "be_bytes keyHandle"
  "opt_wire wire_TPM2B label'" "False" True True True
  for keyHandle label'
  by (rule sys_prepareI [OF emits_Cons [OF emits_put [OF mu_UINT32.marshaler_axioms, of keyHandle]
    emits_Cons [OF emits_opt [OF mu_TPM2B_DATA.marshaler_axioms, of label']
    emits_skip]]])
    (simp_all add: Tss2_Sys_Encapsulate_Prepare_def weak_defs prepare_simps del: steps.simps)

interpretation complete_Encapsulate: sys_complete "\<lambda>(ctx, d1, d2, _). Tss2_Sys_Encapsulate_Complete ctx d1 d2" TPM2_CC_Encapsulate
  "\<lambda>(d1, d2, _). ptr_valid (wt_TPM2B 64) d1 \<and> ptr_valid (wt_TPM2B 1568) d2"
  "\<lambda>(d1, d2, _). ptr_valid (valid_TPM2B 64) d1 \<and> ptr_valid (valid_TPM2B 1568) d2"
  "\<lambda>(_, _, _). []"
  "\<lambda>(d1, d2, _). ptr_wire wire_TPM2B d1 @ ptr_wire wire_TPM2B d2"
  by (rule sys_completeI [OF sys_complete_plain [OF reads_Cons [OF mu_TPM2B_DATA.unmarshaler_axioms
    reads_Cons [OF mu_TPM2B_ENCRYPTED_SECRET.unmarshaler_axioms
    reads_Nil]]]])
    (simp_all add: Tss2_Sys_Encapsulate_Complete_def split_paired_all del: steps.simps)

interpretation cmd_Encapsulate: sys_command "\<lambda>ctx. Tss2_Sys_Encapsulate_Prepare ctx keyHandle label'"
  "\<lambda>(ctx, d1, d2, _). Tss2_Sys_Encapsulate_Complete ctx d1 d2" TPM2_CC_Encapsulate "True \<in> set []"
  "opt_valid (src_TPM2B 66 64) label'"
  "opt_valid (valid_TPM2B 64) label'"
  "be_bytes keyHandle"
  "opt_wire wire_TPM2B label'" "False" True True True
  "\<lambda>(d1, d2, _). ptr_valid (wt_TPM2B 64) d1 \<and> ptr_valid (wt_TPM2B 1568) d2"
  "\<lambda>(d1, d2, _). ptr_valid (valid_TPM2B 64) d1 \<and> ptr_valid (valid_TPM2B 1568) d2"
  "\<lambda>(_, _, _). []"
  "\<lambda>(d1, d2, _). ptr_wire wire_TPM2B d1 @ ptr_wire wire_TPM2B d2"
  "\<lambda>(ctx, rsp, d1, d2, _). Tss2_Sys_Encapsulate ctx keyHandle cmdAuthsArray label' d1 d2 rsp" cmdAuthsArray
  for keyHandle label' cmdAuthsArray
  by (rule sys_command.intro [OF prepare_Encapsulate.sys_prepare_axioms complete_Encapsulate.sys_complete_axioms sys_command_axioms.intro])
    (auto simp: Tss2_Sys_Encapsulate_def one_call_def one_call_simps null_rc_def dest!: ptr_valid_some simp del: steps.simps)

subsection \<open>EncryptDecrypt\<close>

definition Tss2_Sys_EncryptDecrypt_Prepare where
  "Tss2_Sys_EncryptDecrypt_Prepare sysContext keyHandle decrypt mode ivIn inData = steps
     [null_check [],
      CommonPreparePrologue TPM2_CC_EncryptDecrypt,
      put (Tss2_MU_UINT32_Marshal keyHandle),
      put (Tss2_MU_UINT8_Marshal decrypt),
      put (Tss2_MU_UINT16_Marshal mode),
      if Option.is_none ivIn
        then put (Tss2_MU_UINT16_Marshal 0)
        else put (Tss2_MU_TPM2B_IV_Marshal ivIn),
      if Option.is_none inData
        then put (Tss2_MU_UINT16_Marshal 0)
        else put (Tss2_MU_TPM2B_MAX_BUFFER_Marshal inData),
      assign (flags False True True),
      CommonPrepareEpilogue]
     sysContext"

definition Tss2_Sys_EncryptDecrypt_Complete where
  "Tss2_Sys_EncryptDecrypt_Complete sysContext outData ivOut = steps
     [on_fst (null_check []),
      on_fst CommonComplete,
      get_out Tss2_MU_TPM2B_MAX_BUFFER_Unmarshal,
      skip_out (get_out Tss2_MU_TPM2B_IV_Unmarshal)]
     (sysContext, outData, ivOut, ())"

definition Tss2_Sys_EncryptDecrypt where
  "Tss2_Sys_EncryptDecrypt sysContext keyHandle cmdAuthsArray decrypt mode ivIn inData outData ivOut rspAuthsArray = steps
     [on_fst (\<lambda>ctx. Tss2_Sys_EncryptDecrypt_Prepare ctx keyHandle decrypt mode ivIn inData),
      on_rsp (CommonOneCall cmdAuthsArray),
      skip_out (\<lambda>(ctx, d1, d2, _). Tss2_Sys_EncryptDecrypt_Complete ctx d1 d2)]
     (sysContext, rspAuthsArray, outData, ivOut, ())"

lemma EncryptDecrypt_handles [simp]:
  "GetNumCommandHandles TPM2_CC_EncryptDecrypt = 1" "GetNumResponseHandles TPM2_CC_EncryptDecrypt = 0"
  using GetNumHandles_entry [of TPM2_CC_EncryptDecrypt 1 0] by (simp_all add: commandArray_def)

interpretation prepare_EncryptDecrypt: sys_prepare "\<lambda>ctx. Tss2_Sys_EncryptDecrypt_Prepare ctx keyHandle decrypt mode ivIn inData" TPM2_CC_EncryptDecrypt "True \<in> set []"
  "opt_valid (src_TPM2B 18 16) ivIn \<and> opt_valid (src_TPM2B 1026 1024) inData"
  "opt_valid (valid_TPM2B 16) ivIn \<and> opt_valid (valid_TPM2B 1024) inData"
  "be_bytes keyHandle"
  "be_bytes decrypt @ be_bytes mode @ opt_wire wire_TPM2B ivIn @ opt_wire wire_TPM2B inData" "False" False True True
  for keyHandle decrypt mode ivIn inData
  by (rule sys_prepareI [OF emits_Cons [OF emits_put [OF mu_UINT32.marshaler_axioms, of keyHandle]
    emits_Cons [OF emits_put [OF mu_UINT8.marshaler_axioms, of decrypt]
    emits_Cons [OF emits_put [OF mu_UINT16.marshaler_axioms, of mode]
    emits_Cons [OF emits_opt [OF mu_TPM2B_IV.marshaler_axioms, of ivIn]
    emits_Cons [OF emits_opt [OF mu_TPM2B_MAX_BUFFER.marshaler_axioms, of inData]
    emits_skip]]]]]])
    (simp_all add: Tss2_Sys_EncryptDecrypt_Prepare_def weak_defs prepare_simps del: steps.simps)

interpretation complete_EncryptDecrypt: sys_complete "\<lambda>(ctx, d1, d2, _). Tss2_Sys_EncryptDecrypt_Complete ctx d1 d2" TPM2_CC_EncryptDecrypt
  "\<lambda>(d1, d2, _). ptr_valid (wt_TPM2B 1024) d1 \<and> ptr_valid (wt_TPM2B 16) d2"
  "\<lambda>(d1, d2, _). ptr_valid (valid_TPM2B 1024) d1 \<and> ptr_valid (valid_TPM2B 16) d2"
  "\<lambda>(_, _, _). []"
  "\<lambda>(d1, d2, _). ptr_wire wire_TPM2B d1 @ ptr_wire wire_TPM2B d2"
  by (rule sys_completeI [OF sys_complete_plain [OF reads_Cons [OF mu_TPM2B_MAX_BUFFER.unmarshaler_axioms
    reads_Cons [OF mu_TPM2B_IV.unmarshaler_axioms
    reads_Nil]]]])
    (simp_all add: Tss2_Sys_EncryptDecrypt_Complete_def split_paired_all del: steps.simps)

interpretation cmd_EncryptDecrypt: sys_command "\<lambda>ctx. Tss2_Sys_EncryptDecrypt_Prepare ctx keyHandle decrypt mode ivIn inData"
  "\<lambda>(ctx, d1, d2, _). Tss2_Sys_EncryptDecrypt_Complete ctx d1 d2" TPM2_CC_EncryptDecrypt "True \<in> set []"
  "opt_valid (src_TPM2B 18 16) ivIn \<and> opt_valid (src_TPM2B 1026 1024) inData"
  "opt_valid (valid_TPM2B 16) ivIn \<and> opt_valid (valid_TPM2B 1024) inData"
  "be_bytes keyHandle"
  "be_bytes decrypt @ be_bytes mode @ opt_wire wire_TPM2B ivIn @ opt_wire wire_TPM2B inData" "False" False True True
  "\<lambda>(d1, d2, _). ptr_valid (wt_TPM2B 1024) d1 \<and> ptr_valid (wt_TPM2B 16) d2"
  "\<lambda>(d1, d2, _). ptr_valid (valid_TPM2B 1024) d1 \<and> ptr_valid (valid_TPM2B 16) d2"
  "\<lambda>(_, _, _). []"
  "\<lambda>(d1, d2, _). ptr_wire wire_TPM2B d1 @ ptr_wire wire_TPM2B d2"
  "\<lambda>(ctx, rsp, d1, d2, _). Tss2_Sys_EncryptDecrypt ctx keyHandle cmdAuthsArray decrypt mode ivIn inData d1 d2 rsp" cmdAuthsArray
  for keyHandle decrypt mode ivIn inData cmdAuthsArray
  by (rule sys_command.intro [OF prepare_EncryptDecrypt.sys_prepare_axioms complete_EncryptDecrypt.sys_complete_axioms sys_command_axioms.intro])
    (auto simp: Tss2_Sys_EncryptDecrypt_def one_call_def one_call_simps null_rc_def dest!: ptr_valid_some simp del: steps.simps)

subsection \<open>EncryptDecrypt2\<close>

definition Tss2_Sys_EncryptDecrypt2_Prepare where
  "Tss2_Sys_EncryptDecrypt2_Prepare sysContext keyHandle inData decrypt mode ivIn = steps
     [null_check [],
      CommonPreparePrologue TPM2_CC_EncryptDecrypt2,
      put (Tss2_MU_UINT32_Marshal keyHandle),
      if Option.is_none inData
        then put (Tss2_MU_UINT16_Marshal 0)
        else put (Tss2_MU_TPM2B_MAX_BUFFER_Marshal inData),
      put (Tss2_MU_UINT8_Marshal decrypt),
      put (Tss2_MU_UINT16_Marshal mode),
      if Option.is_none ivIn
        then put (Tss2_MU_UINT16_Marshal 0)
        else put (Tss2_MU_TPM2B_IV_Marshal ivIn),
      assign (flags True True True),
      CommonPrepareEpilogue]
     sysContext"

definition Tss2_Sys_EncryptDecrypt2_Complete where
  "Tss2_Sys_EncryptDecrypt2_Complete sysContext outData ivOut = steps
     [on_fst (null_check []),
      on_fst CommonComplete,
      get_out Tss2_MU_TPM2B_MAX_BUFFER_Unmarshal,
      skip_out (get_out Tss2_MU_TPM2B_IV_Unmarshal)]
     (sysContext, outData, ivOut, ())"

definition Tss2_Sys_EncryptDecrypt2 where
  "Tss2_Sys_EncryptDecrypt2 sysContext keyHandle cmdAuthsArray inData decrypt mode ivIn outData ivOut rspAuthsArray = steps
     [on_fst (\<lambda>ctx. Tss2_Sys_EncryptDecrypt2_Prepare ctx keyHandle inData decrypt mode ivIn),
      on_rsp (CommonOneCall cmdAuthsArray),
      skip_out (\<lambda>(ctx, d1, d2, _). Tss2_Sys_EncryptDecrypt2_Complete ctx d1 d2)]
     (sysContext, rspAuthsArray, outData, ivOut, ())"

lemma EncryptDecrypt2_handles [simp]:
  "GetNumCommandHandles TPM2_CC_EncryptDecrypt2 = 1" "GetNumResponseHandles TPM2_CC_EncryptDecrypt2 = 0"
  using GetNumHandles_entry [of TPM2_CC_EncryptDecrypt2 1 0] by (simp_all add: commandArray_def)

interpretation prepare_EncryptDecrypt2: sys_prepare "\<lambda>ctx. Tss2_Sys_EncryptDecrypt2_Prepare ctx keyHandle inData decrypt mode ivIn" TPM2_CC_EncryptDecrypt2 "True \<in> set []"
  "opt_valid (src_TPM2B 1026 1024) inData \<and> opt_valid (src_TPM2B 18 16) ivIn"
  "opt_valid (valid_TPM2B 1024) inData \<and> opt_valid (valid_TPM2B 16) ivIn"
  "be_bytes keyHandle"
  "opt_wire wire_TPM2B inData @ be_bytes decrypt @ be_bytes mode @ opt_wire wire_TPM2B ivIn" "False" True True True
  for keyHandle inData decrypt mode ivIn
  by (rule sys_prepareI [OF emits_Cons [OF emits_put [OF mu_UINT32.marshaler_axioms, of keyHandle]
    emits_Cons [OF emits_opt [OF mu_TPM2B_MAX_BUFFER.marshaler_axioms, of inData]
    emits_Cons [OF emits_put [OF mu_UINT8.marshaler_axioms, of decrypt]
    emits_Cons [OF emits_put [OF mu_UINT16.marshaler_axioms, of mode]
    emits_Cons [OF emits_opt [OF mu_TPM2B_IV.marshaler_axioms, of ivIn]
    emits_skip]]]]]])
    (simp_all add: Tss2_Sys_EncryptDecrypt2_Prepare_def weak_defs prepare_simps del: steps.simps)

interpretation complete_EncryptDecrypt2: sys_complete "\<lambda>(ctx, d1, d2, _). Tss2_Sys_EncryptDecrypt2_Complete ctx d1 d2" TPM2_CC_EncryptDecrypt2
  "\<lambda>(d1, d2, _). ptr_valid (wt_TPM2B 1024) d1 \<and> ptr_valid (wt_TPM2B 16) d2"
  "\<lambda>(d1, d2, _). ptr_valid (valid_TPM2B 1024) d1 \<and> ptr_valid (valid_TPM2B 16) d2"
  "\<lambda>(_, _, _). []"
  "\<lambda>(d1, d2, _). ptr_wire wire_TPM2B d1 @ ptr_wire wire_TPM2B d2"
  by (rule sys_completeI [OF sys_complete_plain [OF reads_Cons [OF mu_TPM2B_MAX_BUFFER.unmarshaler_axioms
    reads_Cons [OF mu_TPM2B_IV.unmarshaler_axioms
    reads_Nil]]]])
    (simp_all add: Tss2_Sys_EncryptDecrypt2_Complete_def split_paired_all del: steps.simps)

interpretation cmd_EncryptDecrypt2: sys_command "\<lambda>ctx. Tss2_Sys_EncryptDecrypt2_Prepare ctx keyHandle inData decrypt mode ivIn"
  "\<lambda>(ctx, d1, d2, _). Tss2_Sys_EncryptDecrypt2_Complete ctx d1 d2" TPM2_CC_EncryptDecrypt2 "True \<in> set []"
  "opt_valid (src_TPM2B 1026 1024) inData \<and> opt_valid (src_TPM2B 18 16) ivIn"
  "opt_valid (valid_TPM2B 1024) inData \<and> opt_valid (valid_TPM2B 16) ivIn"
  "be_bytes keyHandle"
  "opt_wire wire_TPM2B inData @ be_bytes decrypt @ be_bytes mode @ opt_wire wire_TPM2B ivIn" "False" True True True
  "\<lambda>(d1, d2, _). ptr_valid (wt_TPM2B 1024) d1 \<and> ptr_valid (wt_TPM2B 16) d2"
  "\<lambda>(d1, d2, _). ptr_valid (valid_TPM2B 1024) d1 \<and> ptr_valid (valid_TPM2B 16) d2"
  "\<lambda>(_, _, _). []"
  "\<lambda>(d1, d2, _). ptr_wire wire_TPM2B d1 @ ptr_wire wire_TPM2B d2"
  "\<lambda>(ctx, rsp, d1, d2, _). Tss2_Sys_EncryptDecrypt2 ctx keyHandle cmdAuthsArray inData decrypt mode ivIn d1 d2 rsp" cmdAuthsArray
  for keyHandle inData decrypt mode ivIn cmdAuthsArray
  by (rule sys_command.intro [OF prepare_EncryptDecrypt2.sys_prepare_axioms complete_EncryptDecrypt2.sys_complete_axioms sys_command_axioms.intro])
    (auto simp: Tss2_Sys_EncryptDecrypt2_def one_call_def one_call_simps null_rc_def dest!: ptr_valid_some simp del: steps.simps)

subsection \<open>EventSequenceComplete\<close>

definition Tss2_Sys_EventSequenceComplete_Prepare where
  "Tss2_Sys_EventSequenceComplete_Prepare sysContext pcrHandle sequenceHandle buffer = steps
     [null_check [],
      CommonPreparePrologue TPM2_CC_EventSequenceComplete,
      put (Tss2_MU_UINT32_Marshal pcrHandle),
      put (Tss2_MU_UINT32_Marshal sequenceHandle),
      if Option.is_none buffer
        then put (Tss2_MU_UINT16_Marshal 0)
        else put (Tss2_MU_TPM2B_MAX_BUFFER_Marshal buffer),
      assign (flags True False True),
      CommonPrepareEpilogue]
     sysContext"

definition Tss2_Sys_EventSequenceComplete_Complete where
  "Tss2_Sys_EventSequenceComplete_Complete sysContext results = steps
     [on_fst (null_check []),
      on_fst CommonComplete,
      get_out Tss2_MU_TPML_DIGEST_VALUES_Unmarshal]
     (sysContext, results, ())"

definition Tss2_Sys_EventSequenceComplete where
  "Tss2_Sys_EventSequenceComplete sysContext pcrHandle sequenceHandle cmdAuthsArray buffer results rspAuthsArray = steps
     [on_fst (\<lambda>ctx. Tss2_Sys_EventSequenceComplete_Prepare ctx pcrHandle sequenceHandle buffer),
      on_rsp (CommonOneCall cmdAuthsArray),
      skip_out (\<lambda>(ctx, d1, _). Tss2_Sys_EventSequenceComplete_Complete ctx d1)]
     (sysContext, rspAuthsArray, results, ())"

lemma EventSequenceComplete_handles [simp]:
  "GetNumCommandHandles TPM2_CC_EventSequenceComplete = 2" "GetNumResponseHandles TPM2_CC_EventSequenceComplete = 0"
  using GetNumHandles_entry [of TPM2_CC_EventSequenceComplete 2 0] by (simp_all add: commandArray_def)

interpretation prepare_EventSequenceComplete: sys_prepare "\<lambda>ctx. Tss2_Sys_EventSequenceComplete_Prepare ctx pcrHandle sequenceHandle buffer" TPM2_CC_EventSequenceComplete "True \<in> set []"
  "opt_valid (src_TPM2B 1026 1024) buffer"
  "opt_valid (valid_TPM2B 1024) buffer"
  "be_bytes pcrHandle @ be_bytes sequenceHandle"
  "opt_wire wire_TPM2B buffer" "False" True False True
  for pcrHandle sequenceHandle buffer
  by (rule sys_prepareI [OF emits_Cons [OF emits_put [OF mu_UINT32.marshaler_axioms, of pcrHandle]
    emits_Cons [OF emits_put [OF mu_UINT32.marshaler_axioms, of sequenceHandle]
    emits_Cons [OF emits_opt [OF mu_TPM2B_MAX_BUFFER.marshaler_axioms, of buffer]
    emits_skip]]]])
    (simp_all add: Tss2_Sys_EventSequenceComplete_Prepare_def weak_defs prepare_simps del: steps.simps)

interpretation complete_EventSequenceComplete: sys_complete "\<lambda>(ctx, d1, _). Tss2_Sys_EventSequenceComplete_Complete ctx d1" TPM2_CC_EventSequenceComplete
  "\<lambda>(d1, _). ptr_valid (wt_TPML 16 wt_TPMT_HA) d1"
  "\<lambda>(d1, _). ptr_valid (valid_TPML 16 valid_TPMT_HA) d1"
  "\<lambda>(_, _). []"
  "\<lambda>(d1, _). ptr_wire (wire_TPML wire_TPMT_HA) d1"
  by (rule sys_completeI [OF sys_complete_plain [OF reads_Cons [OF mu_TPML_DIGEST_VALUES.unmarshaler_axioms
    reads_Nil]]])
    (simp_all add: Tss2_Sys_EventSequenceComplete_Complete_def split_paired_all del: steps.simps)

interpretation cmd_EventSequenceComplete: sys_command "\<lambda>ctx. Tss2_Sys_EventSequenceComplete_Prepare ctx pcrHandle sequenceHandle buffer"
  "\<lambda>(ctx, d1, _). Tss2_Sys_EventSequenceComplete_Complete ctx d1" TPM2_CC_EventSequenceComplete "True \<in> set []"
  "opt_valid (src_TPM2B 1026 1024) buffer"
  "opt_valid (valid_TPM2B 1024) buffer"
  "be_bytes pcrHandle @ be_bytes sequenceHandle"
  "opt_wire wire_TPM2B buffer" "False" True False True
  "\<lambda>(d1, _). ptr_valid (wt_TPML 16 wt_TPMT_HA) d1"
  "\<lambda>(d1, _). ptr_valid (valid_TPML 16 valid_TPMT_HA) d1"
  "\<lambda>(_, _). []"
  "\<lambda>(d1, _). ptr_wire (wire_TPML wire_TPMT_HA) d1"
  "\<lambda>(ctx, rsp, d1, _). Tss2_Sys_EventSequenceComplete ctx pcrHandle sequenceHandle cmdAuthsArray buffer d1 rsp" cmdAuthsArray
  for pcrHandle sequenceHandle buffer cmdAuthsArray
  by (rule sys_command.intro [OF prepare_EventSequenceComplete.sys_prepare_axioms complete_EventSequenceComplete.sys_complete_axioms sys_command_axioms.intro])
    (auto simp: Tss2_Sys_EventSequenceComplete_def one_call_def one_call_simps null_rc_def dest!: ptr_valid_some simp del: steps.simps)

subsection \<open>EvictControl\<close>

definition Tss2_Sys_EvictControl_Prepare where
  "Tss2_Sys_EvictControl_Prepare sysContext auth objectHandle persistentHandle = steps
     [null_check [],
      CommonPreparePrologue TPM2_CC_EvictControl,
      put (Tss2_MU_UINT32_Marshal auth),
      put (Tss2_MU_UINT32_Marshal objectHandle),
      put (Tss2_MU_UINT32_Marshal persistentHandle),
      assign (flags False False True),
      CommonPrepareEpilogue]
     sysContext"

definition Tss2_Sys_EvictControl_Complete where
  "Tss2_Sys_EvictControl_Complete sysContext = steps
     [on_fst (null_check []),
      on_fst CommonComplete]
     (sysContext, ())"

definition Tss2_Sys_EvictControl where
  "Tss2_Sys_EvictControl sysContext auth objectHandle cmdAuthsArray persistentHandle rspAuthsArray = steps
     [on_fst (\<lambda>ctx. Tss2_Sys_EvictControl_Prepare ctx auth objectHandle persistentHandle),
      on_rsp (CommonOneCall cmdAuthsArray),
      skip_out (\<lambda>(ctx, _). Tss2_Sys_EvictControl_Complete ctx)]
     (sysContext, rspAuthsArray, ())"

lemma EvictControl_handles [simp]:
  "GetNumCommandHandles TPM2_CC_EvictControl = 2" "GetNumResponseHandles TPM2_CC_EvictControl = 0"
  using GetNumHandles_entry [of TPM2_CC_EvictControl 2 0] by (simp_all add: commandArray_def)

interpretation prepare_EvictControl: sys_prepare "\<lambda>ctx. Tss2_Sys_EvictControl_Prepare ctx auth objectHandle persistentHandle" TPM2_CC_EvictControl "True \<in> set []"
  "True"
  "True"
  "be_bytes auth @ be_bytes objectHandle"
  "be_bytes persistentHandle" "False" False False True
  for auth objectHandle persistentHandle
  by (rule sys_prepareI [OF emits_Cons [OF emits_put [OF mu_UINT32.marshaler_axioms, of auth]
    emits_Cons [OF emits_put [OF mu_UINT32.marshaler_axioms, of objectHandle]
    emits_Cons [OF emits_put [OF mu_UINT32.marshaler_axioms, of persistentHandle]
    emits_skip]]]])
    (simp_all add: Tss2_Sys_EvictControl_Prepare_def weak_defs prepare_simps del: steps.simps)

interpretation complete_EvictControl: sys_complete "\<lambda>(ctx, _). Tss2_Sys_EvictControl_Complete ctx" TPM2_CC_EvictControl
  "\<lambda>(_). True"
  "\<lambda>(_). True"
  "\<lambda>(_). []"
  "\<lambda>(_). []"
  by (rule sys_completeI [OF sys_complete_plain [OF reads_Nil]])
    (simp_all add: Tss2_Sys_EvictControl_Complete_def split_paired_all del: steps.simps)

interpretation cmd_EvictControl: sys_command "\<lambda>ctx. Tss2_Sys_EvictControl_Prepare ctx auth objectHandle persistentHandle"
  "\<lambda>(ctx, _). Tss2_Sys_EvictControl_Complete ctx" TPM2_CC_EvictControl "True \<in> set []"
  "True"
  "True"
  "be_bytes auth @ be_bytes objectHandle"
  "be_bytes persistentHandle" "False" False False True
  "\<lambda>(_). True"
  "\<lambda>(_). True"
  "\<lambda>(_). []"
  "\<lambda>(_). []"
  "\<lambda>(ctx, rsp, _). Tss2_Sys_EvictControl ctx auth objectHandle cmdAuthsArray persistentHandle rsp" cmdAuthsArray
  for auth objectHandle persistentHandle cmdAuthsArray
  by (rule sys_command.intro [OF prepare_EvictControl.sys_prepare_axioms complete_EvictControl.sys_complete_axioms sys_command_axioms.intro])
    (auto simp: Tss2_Sys_EvictControl_def one_call_def one_call_simps null_rc_def dest!: ptr_valid_some simp del: steps.simps)

subsection \<open>FieldUpgradeData\<close>

definition Tss2_Sys_FieldUpgradeData_Prepare where
  "Tss2_Sys_FieldUpgradeData_Prepare sysContext fuData = steps
     [null_check [],
      CommonPreparePrologue TPM2_CC_FieldUpgradeData,
      if Option.is_none fuData
        then put (Tss2_MU_UINT16_Marshal 0)
        else put (Tss2_MU_TPM2B_MAX_BUFFER_Marshal fuData),
      assign (flags True False True),
      CommonPrepareEpilogue]
     sysContext"

definition Tss2_Sys_FieldUpgradeData_Complete where
  "Tss2_Sys_FieldUpgradeData_Complete sysContext nextDigest firstDigest = steps
     [on_fst (null_check []),
      on_fst CommonComplete,
      get_out Tss2_MU_TPMT_HA_Unmarshal,
      skip_out (get_out Tss2_MU_TPMT_HA_Unmarshal)]
     (sysContext, nextDigest, firstDigest, ())"

definition Tss2_Sys_FieldUpgradeData where
  "Tss2_Sys_FieldUpgradeData sysContext cmdAuthsArray fuData nextDigest firstDigest rspAuthsArray = steps
     [on_fst (\<lambda>ctx. Tss2_Sys_FieldUpgradeData_Prepare ctx fuData),
      on_rsp (CommonOneCall cmdAuthsArray),
      skip_out (\<lambda>(ctx, d1, d2, _). Tss2_Sys_FieldUpgradeData_Complete ctx d1 d2)]
     (sysContext, rspAuthsArray, nextDigest, firstDigest, ())"

lemma FieldUpgradeData_handles [simp]:
  "GetNumCommandHandles TPM2_CC_FieldUpgradeData = 0" "GetNumResponseHandles TPM2_CC_FieldUpgradeData = 0"
  using GetNumHandles_entry [of TPM2_CC_FieldUpgradeData 0 0] by (simp_all add: commandArray_def)

interpretation prepare_FieldUpgradeData: sys_prepare "\<lambda>ctx. Tss2_Sys_FieldUpgradeData_Prepare ctx fuData" TPM2_CC_FieldUpgradeData "True \<in> set []"
  "opt_valid (src_TPM2B 1026 1024) fuData"
  "opt_valid (valid_TPM2B 1024) fuData"
  "[]"
  "opt_wire wire_TPM2B fuData" "False" True False True
  for fuData
  by (rule sys_prepareI [OF emits_Cons [OF emits_opt [OF mu_TPM2B_MAX_BUFFER.marshaler_axioms, of fuData]
    emits_skip]])
    (simp_all add: Tss2_Sys_FieldUpgradeData_Prepare_def weak_defs prepare_simps del: steps.simps)

interpretation complete_FieldUpgradeData: sys_complete "\<lambda>(ctx, d1, d2, _). Tss2_Sys_FieldUpgradeData_Complete ctx d1 d2" TPM2_CC_FieldUpgradeData
  "\<lambda>(d1, d2, _). ptr_valid wt_TPMT_HA d1 \<and> ptr_valid wt_TPMT_HA d2"
  "\<lambda>(d1, d2, _). ptr_valid valid_TPMT_HA d1 \<and> ptr_valid valid_TPMT_HA d2"
  "\<lambda>(_, _, _). []"
  "\<lambda>(d1, d2, _). ptr_wire wire_TPMT_HA d1 @ ptr_wire wire_TPMT_HA d2"
  by (rule sys_completeI [OF sys_complete_plain [OF reads_Cons [OF mu_TPMT_HA.unmarshaler_axioms
    reads_Cons [OF mu_TPMT_HA.unmarshaler_axioms
    reads_Nil]]]])
    (simp_all add: Tss2_Sys_FieldUpgradeData_Complete_def split_paired_all del: steps.simps)

interpretation cmd_FieldUpgradeData: sys_command "\<lambda>ctx. Tss2_Sys_FieldUpgradeData_Prepare ctx fuData"
  "\<lambda>(ctx, d1, d2, _). Tss2_Sys_FieldUpgradeData_Complete ctx d1 d2" TPM2_CC_FieldUpgradeData "True \<in> set []"
  "opt_valid (src_TPM2B 1026 1024) fuData"
  "opt_valid (valid_TPM2B 1024) fuData"
  "[]"
  "opt_wire wire_TPM2B fuData" "False" True False True
  "\<lambda>(d1, d2, _). ptr_valid wt_TPMT_HA d1 \<and> ptr_valid wt_TPMT_HA d2"
  "\<lambda>(d1, d2, _). ptr_valid valid_TPMT_HA d1 \<and> ptr_valid valid_TPMT_HA d2"
  "\<lambda>(_, _, _). []"
  "\<lambda>(d1, d2, _). ptr_wire wire_TPMT_HA d1 @ ptr_wire wire_TPMT_HA d2"
  "\<lambda>(ctx, rsp, d1, d2, _). Tss2_Sys_FieldUpgradeData ctx cmdAuthsArray fuData d1 d2 rsp" cmdAuthsArray
  for fuData cmdAuthsArray
  by (rule sys_command.intro [OF prepare_FieldUpgradeData.sys_prepare_axioms complete_FieldUpgradeData.sys_complete_axioms sys_command_axioms.intro])
    (auto simp: Tss2_Sys_FieldUpgradeData_def one_call_def one_call_simps null_rc_def dest!: ptr_valid_some simp del: steps.simps)

subsection \<open>FieldUpgradeStart\<close>

definition Tss2_Sys_FieldUpgradeStart_Prepare where
  "Tss2_Sys_FieldUpgradeStart_Prepare sysContext authorization keyHandle fuDigest manifestSignature = steps
     [null_check [Option.is_none manifestSignature],
      CommonPreparePrologue TPM2_CC_FieldUpgradeStart,
      put (Tss2_MU_UINT32_Marshal authorization),
      put (Tss2_MU_UINT32_Marshal keyHandle),
      if Option.is_none fuDigest
        then steps [assign (ctx_decryptNull_update (\<lambda>_. True)), put (Tss2_MU_UINT16_Marshal 0)]
        else put (Tss2_MU_TPM2B_DIGEST_Marshal fuDigest),
      put (Tss2_MU_TPMT_SIGNATURE_Marshal manifestSignature),
      assign (flags True False True),
      CommonPrepareEpilogue]
     sysContext"

definition Tss2_Sys_FieldUpgradeStart_Complete where
  "Tss2_Sys_FieldUpgradeStart_Complete sysContext = steps
     [on_fst (null_check []),
      on_fst CommonComplete]
     (sysContext, ())"

definition Tss2_Sys_FieldUpgradeStart where
  "Tss2_Sys_FieldUpgradeStart sysContext authorization keyHandle cmdAuthsArray fuDigest manifestSignature rspAuthsArray = steps
     [ret (null_rc [Option.is_none manifestSignature]),
      on_fst (\<lambda>ctx. Tss2_Sys_FieldUpgradeStart_Prepare ctx authorization keyHandle fuDigest manifestSignature),
      on_rsp (CommonOneCall cmdAuthsArray),
      skip_out (\<lambda>(ctx, _). Tss2_Sys_FieldUpgradeStart_Complete ctx)]
     (sysContext, rspAuthsArray, ())"

lemma FieldUpgradeStart_handles [simp]:
  "GetNumCommandHandles TPM2_CC_FieldUpgradeStart = 2" "GetNumResponseHandles TPM2_CC_FieldUpgradeStart = 0"
  using GetNumHandles_entry [of TPM2_CC_FieldUpgradeStart 2 0] by (simp_all add: commandArray_def)

interpretation prepare_FieldUpgradeStart: sys_prepare "\<lambda>ctx. Tss2_Sys_FieldUpgradeStart_Prepare ctx authorization keyHandle fuDigest manifestSignature" TPM2_CC_FieldUpgradeStart "True \<in> set [Option.is_none manifestSignature]"
  "opt_valid (src_TPM2B 66 64) fuDigest \<and> opt_valid src_TPMT_SIGNATURE manifestSignature"
  "opt_valid (valid_TPM2B 64) fuDigest \<and> ptr_valid valid_TPMT_SIGNATURE manifestSignature"
  "be_bytes authorization @ be_bytes keyHandle"
  "opt_wire wire_TPM2B fuDigest @ ptr_wire wire_TPMT_SIGNATURE manifestSignature" "Option.is_none fuDigest" True False True
  for authorization keyHandle fuDigest manifestSignature
  by (rule sys_prepareI [OF emits_Cons [OF emits_put [OF mu_UINT32.marshaler_axioms, of authorization]
    emits_Cons [OF emits_put [OF mu_UINT32.marshaler_axioms, of keyHandle]
    emits_Cons [OF emits_opt_null [OF mu_TPM2B_DIGEST.marshaler_axioms, of fuDigest]
    emits_Cons [OF emits_ptr [OF mu_TPMT_SIGNATURE.marshaler_axioms null_TPMT_SIGNATURE, of manifestSignature]
    emits_skip]]]]])
    (simp_all add: Tss2_Sys_FieldUpgradeStart_Prepare_def weak_defs prepare_simps del: steps.simps)

interpretation complete_FieldUpgradeStart: sys_complete "\<lambda>(ctx, _). Tss2_Sys_FieldUpgradeStart_Complete ctx" TPM2_CC_FieldUpgradeStart
  "\<lambda>(_). True"
  "\<lambda>(_). True"
  "\<lambda>(_). []"
  "\<lambda>(_). []"
  by (rule sys_completeI [OF sys_complete_plain [OF reads_Nil]])
    (simp_all add: Tss2_Sys_FieldUpgradeStart_Complete_def split_paired_all del: steps.simps)

interpretation cmd_FieldUpgradeStart: sys_command "\<lambda>ctx. Tss2_Sys_FieldUpgradeStart_Prepare ctx authorization keyHandle fuDigest manifestSignature"
  "\<lambda>(ctx, _). Tss2_Sys_FieldUpgradeStart_Complete ctx" TPM2_CC_FieldUpgradeStart "True \<in> set [Option.is_none manifestSignature]"
  "opt_valid (src_TPM2B 66 64) fuDigest \<and> opt_valid src_TPMT_SIGNATURE manifestSignature"
  "opt_valid (valid_TPM2B 64) fuDigest \<and> ptr_valid valid_TPMT_SIGNATURE manifestSignature"
  "be_bytes authorization @ be_bytes keyHandle"
  "opt_wire wire_TPM2B fuDigest @ ptr_wire wire_TPMT_SIGNATURE manifestSignature" "Option.is_none fuDigest" True False True
  "\<lambda>(_). True"
  "\<lambda>(_). True"
  "\<lambda>(_). []"
  "\<lambda>(_). []"
  "\<lambda>(ctx, rsp, _). Tss2_Sys_FieldUpgradeStart ctx authorization keyHandle cmdAuthsArray fuDigest manifestSignature rsp" cmdAuthsArray
  for authorization keyHandle fuDigest manifestSignature cmdAuthsArray
  by (rule sys_command.intro [OF prepare_FieldUpgradeStart.sys_prepare_axioms complete_FieldUpgradeStart.sys_complete_axioms sys_command_axioms.intro])
    (auto simp: Tss2_Sys_FieldUpgradeStart_def one_call_def one_call_simps null_rc_def dest!: ptr_valid_some simp del: steps.simps)

subsection \<open>FirmwareRead\<close>

definition Tss2_Sys_FirmwareRead_Prepare where
  "Tss2_Sys_FirmwareRead_Prepare sysContext sequenceNumber = steps
     [null_check [],
      CommonPreparePrologue TPM2_CC_FirmwareRead,
      put (Tss2_MU_UINT32_Marshal sequenceNumber),
      assign (flags False True True),
      CommonPrepareEpilogue]
     sysContext"

definition Tss2_Sys_FirmwareRead_Complete where
  "Tss2_Sys_FirmwareRead_Complete sysContext fuData = steps
     [on_fst (null_check []),
      on_fst CommonComplete,
      get_out Tss2_MU_TPM2B_MAX_BUFFER_Unmarshal]
     (sysContext, fuData, ())"

definition Tss2_Sys_FirmwareRead where
  "Tss2_Sys_FirmwareRead sysContext cmdAuthsArray sequenceNumber fuData rspAuthsArray = steps
     [on_fst (\<lambda>ctx. Tss2_Sys_FirmwareRead_Prepare ctx sequenceNumber),
      on_rsp (CommonOneCall cmdAuthsArray),
      skip_out (\<lambda>(ctx, d1, _). Tss2_Sys_FirmwareRead_Complete ctx d1)]
     (sysContext, rspAuthsArray, fuData, ())"

lemma FirmwareRead_handles [simp]:
  "GetNumCommandHandles TPM2_CC_FirmwareRead = 0" "GetNumResponseHandles TPM2_CC_FirmwareRead = 0"
  using GetNumHandles_entry [of TPM2_CC_FirmwareRead 0 0] by (simp_all add: commandArray_def)

interpretation prepare_FirmwareRead: sys_prepare "\<lambda>ctx. Tss2_Sys_FirmwareRead_Prepare ctx sequenceNumber" TPM2_CC_FirmwareRead "True \<in> set []"
  "True"
  "True"
  "[]"
  "be_bytes sequenceNumber" "False" False True True
  for sequenceNumber
  by (rule sys_prepareI [OF emits_Cons [OF emits_put [OF mu_UINT32.marshaler_axioms, of sequenceNumber]
    emits_skip]])
    (simp_all add: Tss2_Sys_FirmwareRead_Prepare_def weak_defs prepare_simps del: steps.simps)

interpretation complete_FirmwareRead: sys_complete "\<lambda>(ctx, d1, _). Tss2_Sys_FirmwareRead_Complete ctx d1" TPM2_CC_FirmwareRead
  "\<lambda>(d1, _). ptr_valid (wt_TPM2B 1024) d1"
  "\<lambda>(d1, _). ptr_valid (valid_TPM2B 1024) d1"
  "\<lambda>(_, _). []"
  "\<lambda>(d1, _). ptr_wire wire_TPM2B d1"
  by (rule sys_completeI [OF sys_complete_plain [OF reads_Cons [OF mu_TPM2B_MAX_BUFFER.unmarshaler_axioms
    reads_Nil]]])
    (simp_all add: Tss2_Sys_FirmwareRead_Complete_def split_paired_all del: steps.simps)

interpretation cmd_FirmwareRead: sys_command "\<lambda>ctx. Tss2_Sys_FirmwareRead_Prepare ctx sequenceNumber"
  "\<lambda>(ctx, d1, _). Tss2_Sys_FirmwareRead_Complete ctx d1" TPM2_CC_FirmwareRead "True \<in> set []"
  "True"
  "True"
  "[]"
  "be_bytes sequenceNumber" "False" False True True
  "\<lambda>(d1, _). ptr_valid (wt_TPM2B 1024) d1"
  "\<lambda>(d1, _). ptr_valid (valid_TPM2B 1024) d1"
  "\<lambda>(_, _). []"
  "\<lambda>(d1, _). ptr_wire wire_TPM2B d1"
  "\<lambda>(ctx, rsp, d1, _). Tss2_Sys_FirmwareRead ctx cmdAuthsArray sequenceNumber d1 rsp" cmdAuthsArray
  for sequenceNumber cmdAuthsArray
  by (rule sys_command.intro [OF prepare_FirmwareRead.sys_prepare_axioms complete_FirmwareRead.sys_complete_axioms sys_command_axioms.intro])
    (auto simp: Tss2_Sys_FirmwareRead_def one_call_def one_call_simps null_rc_def dest!: ptr_valid_some simp del: steps.simps)

subsection \<open>FlushContext\<close>

definition Tss2_Sys_FlushContext_Prepare where
  "Tss2_Sys_FlushContext_Prepare sysContext flushHandle = steps
     [null_check [],
      CommonPreparePrologue TPM2_CC_FlushContext,
      put (Tss2_MU_UINT32_Marshal flushHandle),
      assign (flags False False False),
      CommonPrepareEpilogue]
     sysContext"

definition Tss2_Sys_FlushContext_Complete where
  "Tss2_Sys_FlushContext_Complete sysContext = steps
     [on_fst (null_check []),
      on_fst CommonComplete]
     (sysContext, ())"

definition Tss2_Sys_FlushContext where
  "Tss2_Sys_FlushContext sysContext flushHandle = steps
     [on_fst (\<lambda>ctx. Tss2_Sys_FlushContext_Prepare ctx flushHandle),
      on_rsp (CommonOneCall None),
      skip_out (\<lambda>(ctx, _). Tss2_Sys_FlushContext_Complete ctx)]
     (sysContext, None, ())"

lemma FlushContext_handles [simp]:
  "GetNumCommandHandles TPM2_CC_FlushContext = 0" "GetNumResponseHandles TPM2_CC_FlushContext = 0"
  using GetNumHandles_entry [of TPM2_CC_FlushContext 0 0] by (simp_all add: commandArray_def)

interpretation prepare_FlushContext: sys_prepare "\<lambda>ctx. Tss2_Sys_FlushContext_Prepare ctx flushHandle" TPM2_CC_FlushContext "True \<in> set []"
  "True"
  "True"
  "[]"
  "be_bytes flushHandle" "False" False False False
  for flushHandle
  by (rule sys_prepareI [OF emits_Cons [OF emits_put [OF mu_UINT32.marshaler_axioms, of flushHandle]
    emits_skip]])
    (simp_all add: Tss2_Sys_FlushContext_Prepare_def weak_defs prepare_simps del: steps.simps)

interpretation complete_FlushContext: sys_complete "\<lambda>(ctx, _). Tss2_Sys_FlushContext_Complete ctx" TPM2_CC_FlushContext
  "\<lambda>(_). True"
  "\<lambda>(_). True"
  "\<lambda>(_). []"
  "\<lambda>(_). []"
  by (rule sys_completeI [OF sys_complete_plain [OF reads_Nil]])
    (simp_all add: Tss2_Sys_FlushContext_Complete_def split_paired_all del: steps.simps)

subsection \<open>GetCapability\<close>

definition Tss2_Sys_GetCapability_Prepare where
  "Tss2_Sys_GetCapability_Prepare sysContext capability property propertyCount = steps
     [null_check [],
      CommonPreparePrologue TPM2_CC_GetCapability,
      put (Tss2_MU_UINT32_Marshal capability),
      put (Tss2_MU_UINT32_Marshal property),
      put (Tss2_MU_UINT32_Marshal propertyCount),
      assign (flags False False True),
      CommonPrepareEpilogue]
     sysContext"

definition Tss2_Sys_GetCapability_Complete where
  "Tss2_Sys_GetCapability_Complete sysContext moreData capabilityData = steps
     [on_fst (null_check []),
      on_fst CommonComplete,
      get_out Tss2_MU_UINT8_Unmarshal,
      skip_out get_capability]
     (sysContext, moreData, capabilityData, ())"

definition Tss2_Sys_GetCapability where
  "Tss2_Sys_GetCapability sysContext cmdAuthsArray capability property propertyCount moreData capabilityData rspAuthsArray = steps
     [on_fst (\<lambda>ctx. Tss2_Sys_GetCapability_Prepare ctx capability property propertyCount),
      on_rsp (CommonOneCall cmdAuthsArray),
      skip_out (\<lambda>(ctx, d1, d2, _). Tss2_Sys_GetCapability_Complete ctx d1 d2)]
     (sysContext, rspAuthsArray, moreData, capabilityData, ())"

lemma GetCapability_handles [simp]:
  "GetNumCommandHandles TPM2_CC_GetCapability = 0" "GetNumResponseHandles TPM2_CC_GetCapability = 0"
  using GetNumHandles_entry [of TPM2_CC_GetCapability 0 0] by (simp_all add: commandArray_def)

interpretation prepare_GetCapability: sys_prepare "\<lambda>ctx. Tss2_Sys_GetCapability_Prepare ctx capability property propertyCount" TPM2_CC_GetCapability "True \<in> set []"
  "True"
  "True"
  "[]"
  "be_bytes capability @ be_bytes property @ be_bytes propertyCount" "False" False False True
  for capability property propertyCount
  by (rule sys_prepareI [OF emits_Cons [OF emits_put [OF mu_UINT32.marshaler_axioms, of capability]
    emits_Cons [OF emits_put [OF mu_UINT32.marshaler_axioms, of property]
    emits_Cons [OF emits_put [OF mu_UINT32.marshaler_axioms, of propertyCount]
    emits_skip]]]])
    (simp_all add: Tss2_Sys_GetCapability_Prepare_def weak_defs prepare_simps del: steps.simps)

subsection \<open>GetCommandAuditDigest\<close>

definition Tss2_Sys_GetCommandAuditDigest_Prepare where
  "Tss2_Sys_GetCommandAuditDigest_Prepare sysContext privacyHandle signHandle qualifyingData inScheme = steps
     [null_check [Option.is_none inScheme],
      CommonPreparePrologue TPM2_CC_GetCommandAuditDigest,
      put (Tss2_MU_UINT32_Marshal privacyHandle),
      put (Tss2_MU_UINT32_Marshal signHandle),
      if Option.is_none qualifyingData
        then steps [assign (ctx_decryptNull_update (\<lambda>_. True)), put (Tss2_MU_UINT16_Marshal 0)]
        else put (Tss2_MU_TPM2B_DATA_Marshal qualifyingData),
      put (Tss2_MU_TPMT_SIG_SCHEME_Marshal inScheme),
      assign (flags True True True),
      CommonPrepareEpilogue]
     sysContext"

definition Tss2_Sys_GetCommandAuditDigest_Complete where
  "Tss2_Sys_GetCommandAuditDigest_Complete sysContext auditInfo signature = steps
     [on_fst (null_check []),
      on_fst CommonComplete,
      get_out Tss2_MU_TPM2B_ATTEST_Unmarshal,
      skip_out (get_out Tss2_MU_TPMT_SIGNATURE_Unmarshal)]
     (sysContext, auditInfo, signature, ())"

definition Tss2_Sys_GetCommandAuditDigest where
  "Tss2_Sys_GetCommandAuditDigest sysContext privacyHandle signHandle cmdAuthsArray qualifyingData inScheme auditInfo signature rspAuthsArray = steps
     [ret (null_rc [Option.is_none inScheme]),
      on_fst (\<lambda>ctx. Tss2_Sys_GetCommandAuditDigest_Prepare ctx privacyHandle signHandle qualifyingData inScheme),
      on_rsp (CommonOneCall cmdAuthsArray),
      skip_out (\<lambda>(ctx, d1, d2, _). Tss2_Sys_GetCommandAuditDigest_Complete ctx d1 d2)]
     (sysContext, rspAuthsArray, auditInfo, signature, ())"

lemma GetCommandAuditDigest_handles [simp]:
  "GetNumCommandHandles TPM2_CC_GetCommandAuditDigest = 2" "GetNumResponseHandles TPM2_CC_GetCommandAuditDigest = 0"
  using GetNumHandles_entry [of TPM2_CC_GetCommandAuditDigest 2 0] by (simp_all add: commandArray_def)

interpretation prepare_GetCommandAuditDigest: sys_prepare "\<lambda>ctx. Tss2_Sys_GetCommandAuditDigest_Prepare ctx privacyHandle signHandle qualifyingData inScheme" TPM2_CC_GetCommandAuditDigest "True \<in> set [Option.is_none inScheme]"
  "opt_valid (src_TPM2B 66 64) qualifyingData \<and> opt_valid src_TPMT_SIG_SCHEME inScheme"
  "opt_valid (valid_TPM2B 64) qualifyingData \<and> ptr_valid valid_TPMT_SIG_SCHEME inScheme"
  "be_bytes privacyHandle @ be_bytes signHandle"
  "opt_wire wire_TPM2B qualifyingData @ ptr_wire wire_TPMT_SIG_SCHEME inScheme" "Option.is_none qualifyingData" True True True
  for privacyHandle signHandle qualifyingData inScheme
  by (rule sys_prepareI [OF emits_Cons [OF emits_put [OF mu_UINT32.marshaler_axioms, of privacyHandle]
    emits_Cons [OF emits_put [OF mu_UINT32.marshaler_axioms, of signHandle]
    emits_Cons [OF emits_opt_null [OF mu_TPM2B_DATA.marshaler_axioms, of qualifyingData]
    emits_Cons [OF emits_ptr [OF mu_TPMT_SIG_SCHEME.marshaler_axioms null_TPMT_SIG_SCHEME, of inScheme]
    emits_skip]]]]])
    (simp_all add: Tss2_Sys_GetCommandAuditDigest_Prepare_def weak_defs prepare_simps del: steps.simps)

interpretation complete_GetCommandAuditDigest: sys_complete "\<lambda>(ctx, d1, d2, _). Tss2_Sys_GetCommandAuditDigest_Complete ctx d1 d2" TPM2_CC_GetCommandAuditDigest
  "\<lambda>(d1, d2, _). ptr_valid (wt_TPM2B 2304) d1 \<and> ptr_valid wt_TPMT_SIGNATURE d2"
  "\<lambda>(d1, d2, _). ptr_valid (valid_TPM2B 2304) d1 \<and> ptr_valid valid_TPMT_SIGNATURE d2"
  "\<lambda>(_, _, _). []"
  "\<lambda>(d1, d2, _). ptr_wire wire_TPM2B d1 @ ptr_wire wire_TPMT_SIGNATURE d2"
  by (rule sys_completeI [OF sys_complete_plain [OF reads_Cons [OF mu_TPM2B_ATTEST.unmarshaler_axioms
    reads_Cons [OF mu_TPMT_SIGNATURE.unmarshaler_axioms
    reads_Nil]]]])
    (simp_all add: Tss2_Sys_GetCommandAuditDigest_Complete_def split_paired_all del: steps.simps)

interpretation cmd_GetCommandAuditDigest: sys_command "\<lambda>ctx. Tss2_Sys_GetCommandAuditDigest_Prepare ctx privacyHandle signHandle qualifyingData inScheme"
  "\<lambda>(ctx, d1, d2, _). Tss2_Sys_GetCommandAuditDigest_Complete ctx d1 d2" TPM2_CC_GetCommandAuditDigest "True \<in> set [Option.is_none inScheme]"
  "opt_valid (src_TPM2B 66 64) qualifyingData \<and> opt_valid src_TPMT_SIG_SCHEME inScheme"
  "opt_valid (valid_TPM2B 64) qualifyingData \<and> ptr_valid valid_TPMT_SIG_SCHEME inScheme"
  "be_bytes privacyHandle @ be_bytes signHandle"
  "opt_wire wire_TPM2B qualifyingData @ ptr_wire wire_TPMT_SIG_SCHEME inScheme" "Option.is_none qualifyingData" True True True
  "\<lambda>(d1, d2, _). ptr_valid (wt_TPM2B 2304) d1 \<and> ptr_valid wt_TPMT_SIGNATURE d2"
  "\<lambda>(d1, d2, _). ptr_valid (valid_TPM2B 2304) d1 \<and> ptr_valid valid_TPMT_SIGNATURE d2"
  "\<lambda>(_, _, _). []"
  "\<lambda>(d1, d2, _). ptr_wire wire_TPM2B d1 @ ptr_wire wire_TPMT_SIGNATURE d2"
  "\<lambda>(ctx, rsp, d1, d2, _). Tss2_Sys_GetCommandAuditDigest ctx privacyHandle signHandle cmdAuthsArray qualifyingData inScheme d1 d2 rsp" cmdAuthsArray
  for privacyHandle signHandle qualifyingData inScheme cmdAuthsArray
  by (rule sys_command.intro [OF prepare_GetCommandAuditDigest.sys_prepare_axioms complete_GetCommandAuditDigest.sys_complete_axioms sys_command_axioms.intro])
    (auto simp: Tss2_Sys_GetCommandAuditDigest_def one_call_def one_call_simps null_rc_def dest!: ptr_valid_some simp del: steps.simps)

subsection \<open>GetRandom\<close>

definition Tss2_Sys_GetRandom_Prepare where
  "Tss2_Sys_GetRandom_Prepare sysContext bytesRequested = steps
     [null_check [],
      CommonPreparePrologue TPM2_CC_GetRandom,
      put (Tss2_MU_UINT16_Marshal bytesRequested),
      assign (flags False True True),
      CommonPrepareEpilogue]
     sysContext"

definition Tss2_Sys_GetRandom_Complete where
  "Tss2_Sys_GetRandom_Complete sysContext randomBytes = steps
     [on_fst (null_check []),
      on_fst CommonComplete,
      get_out Tss2_MU_TPM2B_DIGEST_Unmarshal]
     (sysContext, randomBytes, ())"

definition Tss2_Sys_GetRandom where
  "Tss2_Sys_GetRandom sysContext cmdAuthsArray bytesRequested randomBytes rspAuthsArray = steps
     [on_fst (\<lambda>ctx. Tss2_Sys_GetRandom_Prepare ctx bytesRequested),
      on_rsp (CommonOneCall cmdAuthsArray),
      skip_out (\<lambda>(ctx, d1, _). Tss2_Sys_GetRandom_Complete ctx d1)]
     (sysContext, rspAuthsArray, randomBytes, ())"

lemma GetRandom_handles [simp]:
  "GetNumCommandHandles TPM2_CC_GetRandom = 0" "GetNumResponseHandles TPM2_CC_GetRandom = 0"
  using GetNumHandles_entry [of TPM2_CC_GetRandom 0 0] by (simp_all add: commandArray_def)

interpretation prepare_GetRandom: sys_prepare "\<lambda>ctx. Tss2_Sys_GetRandom_Prepare ctx bytesRequested" TPM2_CC_GetRandom "True \<in> set []"
  "True"
  "True"
  "[]"
  "be_bytes bytesRequested" "False" False True True
  for bytesRequested
  by (rule sys_prepareI [OF emits_Cons [OF emits_put [OF mu_UINT16.marshaler_axioms, of bytesRequested]
    emits_skip]])
    (simp_all add: Tss2_Sys_GetRandom_Prepare_def weak_defs prepare_simps del: steps.simps)

interpretation complete_GetRandom: sys_complete "\<lambda>(ctx, d1, _). Tss2_Sys_GetRandom_Complete ctx d1" TPM2_CC_GetRandom
  "\<lambda>(d1, _). ptr_valid (wt_TPM2B 64) d1"
  "\<lambda>(d1, _). ptr_valid (valid_TPM2B 64) d1"
  "\<lambda>(_, _). []"
  "\<lambda>(d1, _). ptr_wire wire_TPM2B d1"
  by (rule sys_completeI [OF sys_complete_plain [OF reads_Cons [OF mu_TPM2B_DIGEST.unmarshaler_axioms
    reads_Nil]]])
    (simp_all add: Tss2_Sys_GetRandom_Complete_def split_paired_all del: steps.simps)

interpretation cmd_GetRandom: sys_command "\<lambda>ctx. Tss2_Sys_GetRandom_Prepare ctx bytesRequested"
  "\<lambda>(ctx, d1, _). Tss2_Sys_GetRandom_Complete ctx d1" TPM2_CC_GetRandom "True \<in> set []"
  "True"
  "True"
  "[]"
  "be_bytes bytesRequested" "False" False True True
  "\<lambda>(d1, _). ptr_valid (wt_TPM2B 64) d1"
  "\<lambda>(d1, _). ptr_valid (valid_TPM2B 64) d1"
  "\<lambda>(_, _). []"
  "\<lambda>(d1, _). ptr_wire wire_TPM2B d1"
  "\<lambda>(ctx, rsp, d1, _). Tss2_Sys_GetRandom ctx cmdAuthsArray bytesRequested d1 rsp" cmdAuthsArray
  for bytesRequested cmdAuthsArray
  by (rule sys_command.intro [OF prepare_GetRandom.sys_prepare_axioms complete_GetRandom.sys_complete_axioms sys_command_axioms.intro])
    (auto simp: Tss2_Sys_GetRandom_def one_call_def one_call_simps null_rc_def dest!: ptr_valid_some simp del: steps.simps)

subsection \<open>GetSessionAuditDigest\<close>

definition Tss2_Sys_GetSessionAuditDigest_Prepare where
  "Tss2_Sys_GetSessionAuditDigest_Prepare sysContext privacyAdminHandle signHandle sessionHandle qualifyingData inScheme = steps
     [null_check [Option.is_none inScheme],
      CommonPreparePrologue TPM2_CC_GetSessionAuditDigest,
      put (Tss2_MU_UINT32_Marshal privacyAdminHandle),
      put (Tss2_MU_UINT32_Marshal signHandle),
      put (Tss2_MU_UINT32_Marshal sessionHandle),
      if Option.is_none qualifyingData
        then steps [assign (ctx_decryptNull_update (\<lambda>_. True)), put (Tss2_MU_UINT16_Marshal 0)]
        else put (Tss2_MU_TPM2B_DATA_Marshal qualifyingData),
      put (Tss2_MU_TPMT_SIG_SCHEME_Marshal inScheme),
      assign (flags True True True),
      CommonPrepareEpilogue]
     sysContext"

definition Tss2_Sys_GetSessionAuditDigest_Complete where
  "Tss2_Sys_GetSessionAuditDigest_Complete sysContext auditInfo signature = steps
     [on_fst (null_check []),
      on_fst CommonComplete,
      get_out Tss2_MU_TPM2B_ATTEST_Unmarshal,
      skip_out (get_out Tss2_MU_TPMT_SIGNATURE_Unmarshal)]
     (sysContext, auditInfo, signature, ())"

definition Tss2_Sys_GetSessionAuditDigest where
  "Tss2_Sys_GetSessionAuditDigest sysContext privacyAdminHandle signHandle sessionHandle cmdAuthsArray qualifyingData inScheme auditInfo signature rspAuthsArray = steps
     [ret (null_rc [Option.is_none inScheme]),
      on_fst (\<lambda>ctx. Tss2_Sys_GetSessionAuditDigest_Prepare ctx privacyAdminHandle signHandle sessionHandle qualifyingData inScheme),
      on_rsp (CommonOneCall cmdAuthsArray),
      skip_out (\<lambda>(ctx, d1, d2, _). Tss2_Sys_GetSessionAuditDigest_Complete ctx d1 d2)]
     (sysContext, rspAuthsArray, auditInfo, signature, ())"

lemma GetSessionAuditDigest_handles [simp]:
  "GetNumCommandHandles TPM2_CC_GetSessionAuditDigest = 3" "GetNumResponseHandles TPM2_CC_GetSessionAuditDigest = 0"
  using GetNumHandles_entry [of TPM2_CC_GetSessionAuditDigest 3 0] by (simp_all add: commandArray_def)

interpretation prepare_GetSessionAuditDigest: sys_prepare "\<lambda>ctx. Tss2_Sys_GetSessionAuditDigest_Prepare ctx privacyAdminHandle signHandle sessionHandle qualifyingData inScheme" TPM2_CC_GetSessionAuditDigest "True \<in> set [Option.is_none inScheme]"
  "opt_valid (src_TPM2B 66 64) qualifyingData \<and> opt_valid src_TPMT_SIG_SCHEME inScheme"
  "opt_valid (valid_TPM2B 64) qualifyingData \<and> ptr_valid valid_TPMT_SIG_SCHEME inScheme"
  "be_bytes privacyAdminHandle @ be_bytes signHandle @ be_bytes sessionHandle"
  "opt_wire wire_TPM2B qualifyingData @ ptr_wire wire_TPMT_SIG_SCHEME inScheme" "Option.is_none qualifyingData" True True True
  for privacyAdminHandle signHandle sessionHandle qualifyingData inScheme
  by (rule sys_prepareI [OF emits_Cons [OF emits_put [OF mu_UINT32.marshaler_axioms, of privacyAdminHandle]
    emits_Cons [OF emits_put [OF mu_UINT32.marshaler_axioms, of signHandle]
    emits_Cons [OF emits_put [OF mu_UINT32.marshaler_axioms, of sessionHandle]
    emits_Cons [OF emits_opt_null [OF mu_TPM2B_DATA.marshaler_axioms, of qualifyingData]
    emits_Cons [OF emits_ptr [OF mu_TPMT_SIG_SCHEME.marshaler_axioms null_TPMT_SIG_SCHEME, of inScheme]
    emits_skip]]]]]])
    (simp_all add: Tss2_Sys_GetSessionAuditDigest_Prepare_def weak_defs prepare_simps del: steps.simps)

interpretation complete_GetSessionAuditDigest: sys_complete "\<lambda>(ctx, d1, d2, _). Tss2_Sys_GetSessionAuditDigest_Complete ctx d1 d2" TPM2_CC_GetSessionAuditDigest
  "\<lambda>(d1, d2, _). ptr_valid (wt_TPM2B 2304) d1 \<and> ptr_valid wt_TPMT_SIGNATURE d2"
  "\<lambda>(d1, d2, _). ptr_valid (valid_TPM2B 2304) d1 \<and> ptr_valid valid_TPMT_SIGNATURE d2"
  "\<lambda>(_, _, _). []"
  "\<lambda>(d1, d2, _). ptr_wire wire_TPM2B d1 @ ptr_wire wire_TPMT_SIGNATURE d2"
  by (rule sys_completeI [OF sys_complete_plain [OF reads_Cons [OF mu_TPM2B_ATTEST.unmarshaler_axioms
    reads_Cons [OF mu_TPMT_SIGNATURE.unmarshaler_axioms
    reads_Nil]]]])
    (simp_all add: Tss2_Sys_GetSessionAuditDigest_Complete_def split_paired_all del: steps.simps)

interpretation cmd_GetSessionAuditDigest: sys_command "\<lambda>ctx. Tss2_Sys_GetSessionAuditDigest_Prepare ctx privacyAdminHandle signHandle sessionHandle qualifyingData inScheme"
  "\<lambda>(ctx, d1, d2, _). Tss2_Sys_GetSessionAuditDigest_Complete ctx d1 d2" TPM2_CC_GetSessionAuditDigest "True \<in> set [Option.is_none inScheme]"
  "opt_valid (src_TPM2B 66 64) qualifyingData \<and> opt_valid src_TPMT_SIG_SCHEME inScheme"
  "opt_valid (valid_TPM2B 64) qualifyingData \<and> ptr_valid valid_TPMT_SIG_SCHEME inScheme"
  "be_bytes privacyAdminHandle @ be_bytes signHandle @ be_bytes sessionHandle"
  "opt_wire wire_TPM2B qualifyingData @ ptr_wire wire_TPMT_SIG_SCHEME inScheme" "Option.is_none qualifyingData" True True True
  "\<lambda>(d1, d2, _). ptr_valid (wt_TPM2B 2304) d1 \<and> ptr_valid wt_TPMT_SIGNATURE d2"
  "\<lambda>(d1, d2, _). ptr_valid (valid_TPM2B 2304) d1 \<and> ptr_valid valid_TPMT_SIGNATURE d2"
  "\<lambda>(_, _, _). []"
  "\<lambda>(d1, d2, _). ptr_wire wire_TPM2B d1 @ ptr_wire wire_TPMT_SIGNATURE d2"
  "\<lambda>(ctx, rsp, d1, d2, _). Tss2_Sys_GetSessionAuditDigest ctx privacyAdminHandle signHandle sessionHandle cmdAuthsArray qualifyingData inScheme d1 d2 rsp" cmdAuthsArray
  for privacyAdminHandle signHandle sessionHandle qualifyingData inScheme cmdAuthsArray
  by (rule sys_command.intro [OF prepare_GetSessionAuditDigest.sys_prepare_axioms complete_GetSessionAuditDigest.sys_complete_axioms sys_command_axioms.intro])
    (auto simp: Tss2_Sys_GetSessionAuditDigest_def one_call_def one_call_simps null_rc_def dest!: ptr_valid_some simp del: steps.simps)

subsection \<open>GetTestResult\<close>

definition Tss2_Sys_GetTestResult_Prepare where
  "Tss2_Sys_GetTestResult_Prepare sysContext = steps
     [null_check [],
      CommonPreparePrologue TPM2_CC_GetTestResult,
      assign (flags False True True),
      CommonPrepareEpilogue]
     sysContext"

definition Tss2_Sys_GetTestResult_Complete where
  "Tss2_Sys_GetTestResult_Complete sysContext outData testResult = steps
     [on_fst (null_check []),
      on_fst CommonComplete,
      get_out Tss2_MU_TPM2B_MAX_BUFFER_Unmarshal,
      skip_out (get_out Tss2_MU_UINT32_Unmarshal)]
     (sysContext, outData, testResult, ())"

definition Tss2_Sys_GetTestResult where
  "Tss2_Sys_GetTestResult sysContext cmdAuthsArray outData testResult rspAuthsArray = steps
     [on_fst (\<lambda>ctx. Tss2_Sys_GetTestResult_Prepare ctx),
      on_rsp (CommonOneCall cmdAuthsArray),
      skip_out (\<lambda>(ctx, d1, d2, _). Tss2_Sys_GetTestResult_Complete ctx d1 d2)]
     (sysContext, rspAuthsArray, outData, testResult, ())"

lemma GetTestResult_handles [simp]:
  "GetNumCommandHandles TPM2_CC_GetTestResult = 0" "GetNumResponseHandles TPM2_CC_GetTestResult = 0"
  using GetNumHandles_entry [of TPM2_CC_GetTestResult 0 0] by (simp_all add: commandArray_def)

interpretation prepare_GetTestResult: sys_prepare "\<lambda>ctx. Tss2_Sys_GetTestResult_Prepare ctx" TPM2_CC_GetTestResult "True \<in> set []"
  "True"
  "True"
  "[]"
  "[]" "False" False True True
  by (rule sys_prepareI [OF emits_skip])
    (simp_all add: Tss2_Sys_GetTestResult_Prepare_def weak_defs prepare_simps del: steps.simps)

interpretation complete_GetTestResult: sys_complete "\<lambda>(ctx, d1, d2, _). Tss2_Sys_GetTestResult_Complete ctx d1 d2" TPM2_CC_GetTestResult
  "\<lambda>(d1, d2, _). ptr_valid (wt_TPM2B 1024) d1 \<and> ptr_valid (\<lambda>_. True) d2"
  "\<lambda>(d1, d2, _). ptr_valid (valid_TPM2B 1024) d1 \<and> ptr_valid (\<lambda>_. True) d2"
  "\<lambda>(_, _, _). []"
  "\<lambda>(d1, d2, _). ptr_wire wire_TPM2B d1 @ ptr_wire be_bytes d2"
  by (rule sys_completeI [OF sys_complete_plain [OF reads_Cons [OF mu_TPM2B_MAX_BUFFER.unmarshaler_axioms
    reads_Cons [OF mu_UINT32.unmarshaler_axioms
    reads_Nil]]]])
    (simp_all add: Tss2_Sys_GetTestResult_Complete_def split_paired_all del: steps.simps)

interpretation cmd_GetTestResult: sys_command "\<lambda>ctx. Tss2_Sys_GetTestResult_Prepare ctx"
  "\<lambda>(ctx, d1, d2, _). Tss2_Sys_GetTestResult_Complete ctx d1 d2" TPM2_CC_GetTestResult "True \<in> set []"
  "True"
  "True"
  "[]"
  "[]" "False" False True True
  "\<lambda>(d1, d2, _). ptr_valid (wt_TPM2B 1024) d1 \<and> ptr_valid (\<lambda>_. True) d2"
  "\<lambda>(d1, d2, _). ptr_valid (valid_TPM2B 1024) d1 \<and> ptr_valid (\<lambda>_. True) d2"
  "\<lambda>(_, _, _). []"
  "\<lambda>(d1, d2, _). ptr_wire wire_TPM2B d1 @ ptr_wire be_bytes d2"
  "\<lambda>(ctx, rsp, d1, d2, _). Tss2_Sys_GetTestResult ctx cmdAuthsArray d1 d2 rsp" cmdAuthsArray
  for cmdAuthsArray
  by (rule sys_command.intro [OF prepare_GetTestResult.sys_prepare_axioms complete_GetTestResult.sys_complete_axioms sys_command_axioms.intro])
    (auto simp: Tss2_Sys_GetTestResult_def one_call_def one_call_simps null_rc_def dest!: ptr_valid_some simp del: steps.simps)

subsection \<open>GetTime\<close>

definition Tss2_Sys_GetTime_Prepare where
  "Tss2_Sys_GetTime_Prepare sysContext privacyAdminHandle signHandle qualifyingData inScheme = steps
     [null_check [Option.is_none inScheme],
      CommonPreparePrologue TPM2_CC_GetTime,
      put (Tss2_MU_UINT32_Marshal privacyAdminHandle),
      put (Tss2_MU_UINT32_Marshal signHandle),
      if Option.is_none qualifyingData
        then steps [assign (ctx_decryptNull_update (\<lambda>_. True)), put (Tss2_MU_UINT16_Marshal 0)]
        else put (Tss2_MU_TPM2B_DATA_Marshal qualifyingData),
      put (Tss2_MU_TPMT_SIG_SCHEME_Marshal inScheme),
      assign (flags True True True),
      CommonPrepareEpilogue]
     sysContext"

definition Tss2_Sys_GetTime_Complete where
  "Tss2_Sys_GetTime_Complete sysContext timeInfo signature = steps
     [on_fst (null_check []),
      on_fst CommonComplete,
      get_out Tss2_MU_TPM2B_ATTEST_Unmarshal,
      skip_out (get_out Tss2_MU_TPMT_SIGNATURE_Unmarshal)]
     (sysContext, timeInfo, signature, ())"

definition Tss2_Sys_GetTime where
  "Tss2_Sys_GetTime sysContext privacyAdminHandle signHandle cmdAuthsArray qualifyingData inScheme timeInfo signature rspAuthsArray = steps
     [ret (null_rc [Option.is_none inScheme]),
      on_fst (\<lambda>ctx. Tss2_Sys_GetTime_Prepare ctx privacyAdminHandle signHandle qualifyingData inScheme),
      on_rsp (CommonOneCall cmdAuthsArray),
      skip_out (\<lambda>(ctx, d1, d2, _). Tss2_Sys_GetTime_Complete ctx d1 d2)]
     (sysContext, rspAuthsArray, timeInfo, signature, ())"

lemma GetTime_handles [simp]:
  "GetNumCommandHandles TPM2_CC_GetTime = 2" "GetNumResponseHandles TPM2_CC_GetTime = 0"
  using GetNumHandles_entry [of TPM2_CC_GetTime 2 0] by (simp_all add: commandArray_def)

interpretation prepare_GetTime: sys_prepare "\<lambda>ctx. Tss2_Sys_GetTime_Prepare ctx privacyAdminHandle signHandle qualifyingData inScheme" TPM2_CC_GetTime "True \<in> set [Option.is_none inScheme]"
  "opt_valid (src_TPM2B 66 64) qualifyingData \<and> opt_valid src_TPMT_SIG_SCHEME inScheme"
  "opt_valid (valid_TPM2B 64) qualifyingData \<and> ptr_valid valid_TPMT_SIG_SCHEME inScheme"
  "be_bytes privacyAdminHandle @ be_bytes signHandle"
  "opt_wire wire_TPM2B qualifyingData @ ptr_wire wire_TPMT_SIG_SCHEME inScheme" "Option.is_none qualifyingData" True True True
  for privacyAdminHandle signHandle qualifyingData inScheme
  by (rule sys_prepareI [OF emits_Cons [OF emits_put [OF mu_UINT32.marshaler_axioms, of privacyAdminHandle]
    emits_Cons [OF emits_put [OF mu_UINT32.marshaler_axioms, of signHandle]
    emits_Cons [OF emits_opt_null [OF mu_TPM2B_DATA.marshaler_axioms, of qualifyingData]
    emits_Cons [OF emits_ptr [OF mu_TPMT_SIG_SCHEME.marshaler_axioms null_TPMT_SIG_SCHEME, of inScheme]
    emits_skip]]]]])
    (simp_all add: Tss2_Sys_GetTime_Prepare_def weak_defs prepare_simps del: steps.simps)

interpretation complete_GetTime: sys_complete "\<lambda>(ctx, d1, d2, _). Tss2_Sys_GetTime_Complete ctx d1 d2" TPM2_CC_GetTime
  "\<lambda>(d1, d2, _). ptr_valid (wt_TPM2B 2304) d1 \<and> ptr_valid wt_TPMT_SIGNATURE d2"
  "\<lambda>(d1, d2, _). ptr_valid (valid_TPM2B 2304) d1 \<and> ptr_valid valid_TPMT_SIGNATURE d2"
  "\<lambda>(_, _, _). []"
  "\<lambda>(d1, d2, _). ptr_wire wire_TPM2B d1 @ ptr_wire wire_TPMT_SIGNATURE d2"
  by (rule sys_completeI [OF sys_complete_plain [OF reads_Cons [OF mu_TPM2B_ATTEST.unmarshaler_axioms
    reads_Cons [OF mu_TPMT_SIGNATURE.unmarshaler_axioms
    reads_Nil]]]])
    (simp_all add: Tss2_Sys_GetTime_Complete_def split_paired_all del: steps.simps)

interpretation cmd_GetTime: sys_command "\<lambda>ctx. Tss2_Sys_GetTime_Prepare ctx privacyAdminHandle signHandle qualifyingData inScheme"
  "\<lambda>(ctx, d1, d2, _). Tss2_Sys_GetTime_Complete ctx d1 d2" TPM2_CC_GetTime "True \<in> set [Option.is_none inScheme]"
  "opt_valid (src_TPM2B 66 64) qualifyingData \<and> opt_valid src_TPMT_SIG_SCHEME inScheme"
  "opt_valid (valid_TPM2B 64) qualifyingData \<and> ptr_valid valid_TPMT_SIG_SCHEME inScheme"
  "be_bytes privacyAdminHandle @ be_bytes signHandle"
  "opt_wire wire_TPM2B qualifyingData @ ptr_wire wire_TPMT_SIG_SCHEME inScheme" "Option.is_none qualifyingData" True True True
  "\<lambda>(d1, d2, _). ptr_valid (wt_TPM2B 2304) d1 \<and> ptr_valid wt_TPMT_SIGNATURE d2"
  "\<lambda>(d1, d2, _). ptr_valid (valid_TPM2B 2304) d1 \<and> ptr_valid valid_TPMT_SIGNATURE d2"
  "\<lambda>(_, _, _). []"
  "\<lambda>(d1, d2, _). ptr_wire wire_TPM2B d1 @ ptr_wire wire_TPMT_SIGNATURE d2"
  "\<lambda>(ctx, rsp, d1, d2, _). Tss2_Sys_GetTime ctx privacyAdminHandle signHandle cmdAuthsArray qualifyingData inScheme d1 d2 rsp" cmdAuthsArray
  for privacyAdminHandle signHandle qualifyingData inScheme cmdAuthsArray
  by (rule sys_command.intro [OF prepare_GetTime.sys_prepare_axioms complete_GetTime.sys_complete_axioms sys_command_axioms.intro])
    (auto simp: Tss2_Sys_GetTime_def one_call_def one_call_simps null_rc_def dest!: ptr_valid_some simp del: steps.simps)

subsection \<open>HMAC\<close>

definition Tss2_Sys_HMAC_Prepare where
  "Tss2_Sys_HMAC_Prepare sysContext handle buffer hashAlg = steps
     [null_check [],
      ret (if IsAlgorithmWeak hashAlg 0 \<noteq> 0 then TSS2_SYS_RC_BAD_VALUE else TSS2_RC_SUCCESS),
      CommonPreparePrologue TPM2_CC_HMAC,
      put (Tss2_MU_UINT32_Marshal handle),
      if Option.is_none buffer
        then steps [assign (ctx_decryptNull_update (\<lambda>_. True)), put (Tss2_MU_UINT16_Marshal 0)]
        else put (Tss2_MU_TPM2B_MAX_BUFFER_Marshal buffer),
      put (Tss2_MU_UINT16_Marshal hashAlg),
      assign (flags True True True),
      CommonPrepareEpilogue]
     sysContext"

definition Tss2_Sys_HMAC_Complete where
  "Tss2_Sys_HMAC_Complete sysContext outHMAC = steps
     [on_fst (null_check []),
      on_fst CommonComplete,
      get_out Tss2_MU_TPM2B_DIGEST_Unmarshal]
     (sysContext, outHMAC, ())"

definition Tss2_Sys_HMAC where
  "Tss2_Sys_HMAC sysContext handle cmdAuthsArray buffer hashAlg outHMAC rspAuthsArray = steps
     [on_fst (\<lambda>ctx. Tss2_Sys_HMAC_Prepare ctx handle buffer hashAlg),
      on_rsp (CommonOneCall cmdAuthsArray),
      skip_out (\<lambda>(ctx, d1, _). Tss2_Sys_HMAC_Complete ctx d1)]
     (sysContext, rspAuthsArray, outHMAC, ())"

lemma HMAC_handles [simp]:
  "GetNumCommandHandles TPM2_CC_HMAC = 1" "GetNumResponseHandles TPM2_CC_HMAC = 0"
  using GetNumHandles_entry [of TPM2_CC_HMAC 1 0] by (simp_all add: commandArray_def)

interpretation prepare_HMAC: sys_prepare "\<lambda>ctx. Tss2_Sys_HMAC_Prepare ctx handle buffer hashAlg" TPM2_CC_HMAC "True \<in> set []"
  "opt_valid (src_TPM2B 1026 1024) buffer"
  "opt_valid (valid_TPM2B 1024) buffer"
  "be_bytes handle"
  "opt_wire wire_TPM2B buffer @ be_bytes hashAlg" "Option.is_none buffer" True True True
  for handle buffer hashAlg
  by (rule sys_prepareI [OF emits_Cons [OF emits_put [OF mu_UINT32.marshaler_axioms, of handle]
    emits_Cons [OF emits_opt_null [OF mu_TPM2B_MAX_BUFFER.marshaler_axioms, of buffer]
    emits_Cons [OF emits_put [OF mu_UINT16.marshaler_axioms, of hashAlg]
    emits_skip]]]])
    (simp_all add: Tss2_Sys_HMAC_Prepare_def weak_defs prepare_simps del: steps.simps)

interpretation complete_HMAC: sys_complete "\<lambda>(ctx, d1, _). Tss2_Sys_HMAC_Complete ctx d1" TPM2_CC_HMAC
  "\<lambda>(d1, _). ptr_valid (wt_TPM2B 64) d1"
  "\<lambda>(d1, _). ptr_valid (valid_TPM2B 64) d1"
  "\<lambda>(_, _). []"
  "\<lambda>(d1, _). ptr_wire wire_TPM2B d1"
  by (rule sys_completeI [OF sys_complete_plain [OF reads_Cons [OF mu_TPM2B_DIGEST.unmarshaler_axioms
    reads_Nil]]])
    (simp_all add: Tss2_Sys_HMAC_Complete_def split_paired_all del: steps.simps)

interpretation cmd_HMAC: sys_command "\<lambda>ctx. Tss2_Sys_HMAC_Prepare ctx handle buffer hashAlg"
  "\<lambda>(ctx, d1, _). Tss2_Sys_HMAC_Complete ctx d1" TPM2_CC_HMAC "True \<in> set []"
  "opt_valid (src_TPM2B 1026 1024) buffer"
  "opt_valid (valid_TPM2B 1024) buffer"
  "be_bytes handle"
  "opt_wire wire_TPM2B buffer @ be_bytes hashAlg" "Option.is_none buffer" True True True
  "\<lambda>(d1, _). ptr_valid (wt_TPM2B 64) d1"
  "\<lambda>(d1, _). ptr_valid (valid_TPM2B 64) d1"
  "\<lambda>(_, _). []"
  "\<lambda>(d1, _). ptr_wire wire_TPM2B d1"
  "\<lambda>(ctx, rsp, d1, _). Tss2_Sys_HMAC ctx handle cmdAuthsArray buffer hashAlg d1 rsp" cmdAuthsArray
  for handle buffer hashAlg cmdAuthsArray
  by (rule sys_command.intro [OF prepare_HMAC.sys_prepare_axioms complete_HMAC.sys_complete_axioms sys_command_axioms.intro])
    (auto simp: Tss2_Sys_HMAC_def one_call_def one_call_simps null_rc_def dest!: ptr_valid_some simp del: steps.simps)

subsection \<open>HMAC Start\<close>

definition Tss2_Sys_HMAC_Start_Prepare where
  "Tss2_Sys_HMAC_Start_Prepare sysContext handle auth hashAlg = steps
     [null_check [],
      ret (if IsAlgorithmWeak hashAlg 0 \<noteq> 0 then TSS2_SYS_RC_BAD_VALUE else TSS2_RC_SUCCESS),
      CommonPreparePrologue TPM2_CC_HMAC_Start,
      put (Tss2_MU_UINT32_Marshal handle),
      if Option.is_none auth
        then steps [assign (ctx_decryptNull_update (\<lambda>_. True)), put (Tss2_MU_UINT16_Marshal 0)]
        else put (Tss2_MU_TPM2B_AUTH_Marshal auth),
      put (Tss2_MU_UINT16_Marshal hashAlg),
      assign (flags True False True),
      CommonPrepareEpilogue]
     sysContext"

definition Tss2_Sys_HMAC_Start_Complete where
  "Tss2_Sys_HMAC_Start_Complete sysContext sequenceHandle = steps
     [on_fst (null_check []),
      get_out Tss2_MU_UINT32_Unmarshal,
      on_fst CommonComplete]
     (sysContext, sequenceHandle, ())"

definition Tss2_Sys_HMAC_Start where
  "Tss2_Sys_HMAC_Start sysContext handle cmdAuthsArray auth hashAlg sequenceHandle rspAuthsArray = steps
     [on_fst (\<lambda>ctx. Tss2_Sys_HMAC_Start_Prepare ctx handle auth hashAlg),
      on_rsp (CommonOneCall cmdAuthsArray),
      skip_out (\<lambda>(ctx, d1, _). Tss2_Sys_HMAC_Start_Complete ctx d1)]
     (sysContext, rspAuthsArray, sequenceHandle, ())"

lemma HMAC_Start_handles [simp]:
  "GetNumCommandHandles TPM2_CC_HMAC_Start = 1" "GetNumResponseHandles TPM2_CC_HMAC_Start = 1"
  using GetNumHandles_entry [of TPM2_CC_HMAC_Start 1 1] by (simp_all add: commandArray_def)

interpretation prepare_HMAC_Start: sys_prepare "\<lambda>ctx. Tss2_Sys_HMAC_Start_Prepare ctx handle auth hashAlg" TPM2_CC_HMAC_Start "True \<in> set []"
  "opt_valid (src_TPM2B 66 64) auth"
  "opt_valid (valid_TPM2B 64) auth"
  "be_bytes handle"
  "opt_wire wire_TPM2B auth @ be_bytes hashAlg" "Option.is_none auth" True False True
  for handle auth hashAlg
  by (rule sys_prepareI [OF emits_Cons [OF emits_put [OF mu_UINT32.marshaler_axioms, of handle]
    emits_Cons [OF emits_opt_null [OF mu_TPM2B_AUTH.marshaler_axioms, of auth]
    emits_Cons [OF emits_put [OF mu_UINT16.marshaler_axioms, of hashAlg]
    emits_skip]]]])
    (simp_all add: Tss2_Sys_HMAC_Start_Prepare_def weak_defs prepare_simps del: steps.simps)

interpretation complete_HMAC_Start: sys_complete "\<lambda>(ctx, d1, _). Tss2_Sys_HMAC_Start_Complete ctx d1" TPM2_CC_HMAC_Start
  "\<lambda>(d1, _). ptr_valid (\<lambda>_. True) d1"
  "\<lambda>(d1, _). ptr_valid (\<lambda>_. True) d1"
  "\<lambda>(d1, _). ptr_wire be_bytes d1"
  "\<lambda>(_, _). []"
  by (rule sys_completeI [OF sys_complete_handle [OF reads_Nil]])
    (simp_all add: Tss2_Sys_HMAC_Start_Complete_def split_paired_all del: steps.simps)

interpretation cmd_HMAC_Start: sys_command "\<lambda>ctx. Tss2_Sys_HMAC_Start_Prepare ctx handle auth hashAlg"
  "\<lambda>(ctx, d1, _). Tss2_Sys_HMAC_Start_Complete ctx d1" TPM2_CC_HMAC_Start "True \<in> set []"
  "opt_valid (src_TPM2B 66 64) auth"
  "opt_valid (valid_TPM2B 64) auth"
  "be_bytes handle"
  "opt_wire wire_TPM2B auth @ be_bytes hashAlg" "Option.is_none auth" True False True
  "\<lambda>(d1, _). ptr_valid (\<lambda>_. True) d1"
  "\<lambda>(d1, _). ptr_valid (\<lambda>_. True) d1"
  "\<lambda>(d1, _). ptr_wire be_bytes d1"
  "\<lambda>(_, _). []"
  "\<lambda>(ctx, rsp, d1, _). Tss2_Sys_HMAC_Start ctx handle cmdAuthsArray auth hashAlg d1 rsp" cmdAuthsArray
  for handle auth hashAlg cmdAuthsArray
  by (rule sys_command.intro [OF prepare_HMAC_Start.sys_prepare_axioms complete_HMAC_Start.sys_complete_axioms sys_command_axioms.intro])
    (auto simp: Tss2_Sys_HMAC_Start_def one_call_def one_call_simps null_rc_def dest!: ptr_valid_some simp del: steps.simps)

subsection \<open>Hash\<close>

definition Tss2_Sys_Hash_Prepare where
  "Tss2_Sys_Hash_Prepare sysContext data' hashAlg hierarchy = steps
     [null_check [],
      ret (if IsAlgorithmWeak hashAlg 0 \<noteq> 0 then TSS2_SYS_RC_BAD_VALUE else TSS2_RC_SUCCESS),
      CommonPreparePrologue TPM2_CC_Hash,
      if Option.is_none data'
        then steps [assign (ctx_decryptNull_update (\<lambda>_. True)), put (Tss2_MU_UINT16_Marshal 0)]
        else put (Tss2_MU_TPM2B_MAX_BUFFER_Marshal data'),
      put (Tss2_MU_UINT16_Marshal hashAlg),
      put (Tss2_MU_UINT32_Marshal hierarchy),
      assign (flags True True True),
      CommonPrepareEpilogue]
     sysContext"

definition Tss2_Sys_Hash_Complete where
  "Tss2_Sys_Hash_Complete sysContext outHash validation = steps
     [on_fst (null_check []),
      on_fst CommonComplete,
      get_out Tss2_MU_TPM2B_DIGEST_Unmarshal,
      skip_out (get_out Tss2_MU_TPMT_TK_HASHCHECK_Unmarshal)]
     (sysContext, outHash, validation, ())"

definition Tss2_Sys_Hash where
  "Tss2_Sys_Hash sysContext cmdAuthsArray data' hashAlg hierarchy outHash validation rspAuthsArray = steps
     [on_fst (\<lambda>ctx. Tss2_Sys_Hash_Prepare ctx data' hashAlg hierarchy),
      on_rsp (CommonOneCall cmdAuthsArray),
      skip_out (\<lambda>(ctx, d1, d2, _). Tss2_Sys_Hash_Complete ctx d1 d2)]
     (sysContext, rspAuthsArray, outHash, validation, ())"

lemma Hash_handles [simp]:
  "GetNumCommandHandles TPM2_CC_Hash = 0" "GetNumResponseHandles TPM2_CC_Hash = 0"
  using GetNumHandles_entry [of TPM2_CC_Hash 0 0] by (simp_all add: commandArray_def)

interpretation prepare_Hash: sys_prepare "\<lambda>ctx. Tss2_Sys_Hash_Prepare ctx data' hashAlg hierarchy" TPM2_CC_Hash "True \<in> set []"
  "opt_valid (src_TPM2B 1026 1024) data'"
  "opt_valid (valid_TPM2B 1024) data'"
  "[]"
  "opt_wire wire_TPM2B data' @ be_bytes hashAlg @ be_bytes hierarchy" "Option.is_none data'" True True True
  for data' hashAlg hierarchy
  by (rule sys_prepareI [OF emits_Cons [OF emits_opt_null [OF mu_TPM2B_MAX_BUFFER.marshaler_axioms, of data']
    emits_Cons [OF emits_put [OF mu_UINT16.marshaler_axioms, of hashAlg]
    emits_Cons [OF emits_put [OF mu_UINT32.marshaler_axioms, of hierarchy]
    emits_skip]]]])
    (simp_all add: Tss2_Sys_Hash_Prepare_def weak_defs prepare_simps del: steps.simps)

interpretation complete_Hash: sys_complete "\<lambda>(ctx, d1, d2, _). Tss2_Sys_Hash_Complete ctx d1 d2" TPM2_CC_Hash
  "\<lambda>(d1, d2, _). ptr_valid (wt_TPM2B 64) d1 \<and> ptr_valid wt_TPMT_TK_HASHCHECK d2"
  "\<lambda>(d1, d2, _). ptr_valid (valid_TPM2B 64) d1 \<and> ptr_valid valid_TPMT_TK_HASHCHECK d2"
  "\<lambda>(_, _, _). []"
  "\<lambda>(d1, d2, _). ptr_wire wire_TPM2B d1 @ ptr_wire wire_TPMT_TK_HASHCHECK d2"
  by (rule sys_completeI [OF sys_complete_plain [OF reads_Cons [OF mu_TPM2B_DIGEST.unmarshaler_axioms
    reads_Cons [OF mu_TPMT_TK_HASHCHECK.unmarshaler_axioms
    reads_Nil]]]])
    (simp_all add: Tss2_Sys_Hash_Complete_def split_paired_all del: steps.simps)

interpretation cmd_Hash: sys_command "\<lambda>ctx. Tss2_Sys_Hash_Prepare ctx data' hashAlg hierarchy"
  "\<lambda>(ctx, d1, d2, _). Tss2_Sys_Hash_Complete ctx d1 d2" TPM2_CC_Hash "True \<in> set []"
  "opt_valid (src_TPM2B 1026 1024) data'"
  "opt_valid (valid_TPM2B 1024) data'"
  "[]"
  "opt_wire wire_TPM2B data' @ be_bytes hashAlg @ be_bytes hierarchy" "Option.is_none data'" True True True
  "\<lambda>(d1, d2, _). ptr_valid (wt_TPM2B 64) d1 \<and> ptr_valid wt_TPMT_TK_HASHCHECK d2"
  "\<lambda>(d1, d2, _). ptr_valid (valid_TPM2B 64) d1 \<and> ptr_valid valid_TPMT_TK_HASHCHECK d2"
  "\<lambda>(_, _, _). []"
  "\<lambda>(d1, d2, _). ptr_wire wire_TPM2B d1 @ ptr_wire wire_TPMT_TK_HASHCHECK d2"
  "\<lambda>(ctx, rsp, d1, d2, _). Tss2_Sys_Hash ctx cmdAuthsArray data' hashAlg hierarchy d1 d2 rsp" cmdAuthsArray
  for data' hashAlg hierarchy cmdAuthsArray
  by (rule sys_command.intro [OF prepare_Hash.sys_prepare_axioms complete_Hash.sys_complete_axioms sys_command_axioms.intro])
    (auto simp: Tss2_Sys_Hash_def one_call_def one_call_simps null_rc_def dest!: ptr_valid_some simp del: steps.simps)

subsection \<open>HashSequenceStart\<close>

definition Tss2_Sys_HashSequenceStart_Prepare where
  "Tss2_Sys_HashSequenceStart_Prepare sysContext auth hashAlg = steps
     [null_check [],
      ret (if IsAlgorithmWeak hashAlg 0 \<noteq> 0 then TSS2_SYS_RC_BAD_VALUE else TSS2_RC_SUCCESS),
      CommonPreparePrologue TPM2_CC_HashSequenceStart,
      if Option.is_none auth
        then steps [assign (ctx_decryptNull_update (\<lambda>_. True)), put (Tss2_MU_UINT16_Marshal 0)]
        else put (Tss2_MU_TPM2B_AUTH_Marshal auth),
      put (Tss2_MU_UINT16_Marshal hashAlg),
      assign (flags True False True),
      CommonPrepareEpilogue]
     sysContext"

definition Tss2_Sys_HashSequenceStart_Complete where
  "Tss2_Sys_HashSequenceStart_Complete sysContext sequenceHandle = steps
     [on_fst (null_check []),
      get_out Tss2_MU_UINT32_Unmarshal,
      on_fst CommonComplete]
     (sysContext, sequenceHandle, ())"

definition Tss2_Sys_HashSequenceStart where
  "Tss2_Sys_HashSequenceStart sysContext cmdAuthsArray auth hashAlg sequenceHandle rspAuthsArray = steps
     [on_fst (\<lambda>ctx. Tss2_Sys_HashSequenceStart_Prepare ctx auth hashAlg),
      on_rsp (CommonOneCall cmdAuthsArray),
      skip_out (\<lambda>(ctx, d1, _). Tss2_Sys_HashSequenceStart_Complete ctx d1)]
     (sysContext, rspAuthsArray, sequenceHandle, ())"

lemma HashSequenceStart_handles [simp]:
  "GetNumCommandHandles TPM2_CC_HashSequenceStart = 0" "GetNumResponseHandles TPM2_CC_HashSequenceStart = 1"
  using GetNumHandles_entry [of TPM2_CC_HashSequenceStart 0 1] by (simp_all add: commandArray_def)

interpretation prepare_HashSequenceStart: sys_prepare "\<lambda>ctx. Tss2_Sys_HashSequenceStart_Prepare ctx auth hashAlg" TPM2_CC_HashSequenceStart "True \<in> set []"
  "opt_valid (src_TPM2B 66 64) auth"
  "opt_valid (valid_TPM2B 64) auth"
  "[]"
  "opt_wire wire_TPM2B auth @ be_bytes hashAlg" "Option.is_none auth" True False True
  for auth hashAlg
  by (rule sys_prepareI [OF emits_Cons [OF emits_opt_null [OF mu_TPM2B_AUTH.marshaler_axioms, of auth]
    emits_Cons [OF emits_put [OF mu_UINT16.marshaler_axioms, of hashAlg]
    emits_skip]]])
    (simp_all add: Tss2_Sys_HashSequenceStart_Prepare_def weak_defs prepare_simps del: steps.simps)

interpretation complete_HashSequenceStart: sys_complete "\<lambda>(ctx, d1, _). Tss2_Sys_HashSequenceStart_Complete ctx d1" TPM2_CC_HashSequenceStart
  "\<lambda>(d1, _). ptr_valid (\<lambda>_. True) d1"
  "\<lambda>(d1, _). ptr_valid (\<lambda>_. True) d1"
  "\<lambda>(d1, _). ptr_wire be_bytes d1"
  "\<lambda>(_, _). []"
  by (rule sys_completeI [OF sys_complete_handle [OF reads_Nil]])
    (simp_all add: Tss2_Sys_HashSequenceStart_Complete_def split_paired_all del: steps.simps)

interpretation cmd_HashSequenceStart: sys_command "\<lambda>ctx. Tss2_Sys_HashSequenceStart_Prepare ctx auth hashAlg"
  "\<lambda>(ctx, d1, _). Tss2_Sys_HashSequenceStart_Complete ctx d1" TPM2_CC_HashSequenceStart "True \<in> set []"
  "opt_valid (src_TPM2B 66 64) auth"
  "opt_valid (valid_TPM2B 64) auth"
  "[]"
  "opt_wire wire_TPM2B auth @ be_bytes hashAlg" "Option.is_none auth" True False True
  "\<lambda>(d1, _). ptr_valid (\<lambda>_. True) d1"
  "\<lambda>(d1, _). ptr_valid (\<lambda>_. True) d1"
  "\<lambda>(d1, _). ptr_wire be_bytes d1"
  "\<lambda>(_, _). []"
  "\<lambda>(ctx, rsp, d1, _). Tss2_Sys_HashSequenceStart ctx cmdAuthsArray auth hashAlg d1 rsp" cmdAuthsArray
  for auth hashAlg cmdAuthsArray
  by (rule sys_command.intro [OF prepare_HashSequenceStart.sys_prepare_axioms complete_HashSequenceStart.sys_complete_axioms sys_command_axioms.intro])
    (auto simp: Tss2_Sys_HashSequenceStart_def one_call_def one_call_simps null_rc_def dest!: ptr_valid_some simp del: steps.simps)

subsection \<open>HierarchyChangeAuth\<close>

definition Tss2_Sys_HierarchyChangeAuth_Prepare where
  "Tss2_Sys_HierarchyChangeAuth_Prepare sysContext authHandle newAuth = steps
     [null_check [],
      CommonPreparePrologue TPM2_CC_HierarchyChangeAuth,
      put (Tss2_MU_UINT32_Marshal authHandle),
      if Option.is_none newAuth
        then put (Tss2_MU_UINT16_Marshal 0)
        else put (Tss2_MU_TPM2B_AUTH_Marshal newAuth),
      assign (flags True False True),
      CommonPrepareEpilogue]
     sysContext"

definition Tss2_Sys_HierarchyChangeAuth_Complete where
  "Tss2_Sys_HierarchyChangeAuth_Complete sysContext = steps
     [on_fst (null_check []),
      on_fst CommonComplete]
     (sysContext, ())"

definition Tss2_Sys_HierarchyChangeAuth where
  "Tss2_Sys_HierarchyChangeAuth sysContext authHandle cmdAuthsArray newAuth rspAuthsArray = steps
     [on_fst (\<lambda>ctx. Tss2_Sys_HierarchyChangeAuth_Prepare ctx authHandle newAuth),
      on_rsp (CommonOneCall cmdAuthsArray),
      skip_out (\<lambda>(ctx, _). Tss2_Sys_HierarchyChangeAuth_Complete ctx)]
     (sysContext, rspAuthsArray, ())"

lemma HierarchyChangeAuth_handles [simp]:
  "GetNumCommandHandles TPM2_CC_HierarchyChangeAuth = 1" "GetNumResponseHandles TPM2_CC_HierarchyChangeAuth = 0"
  using GetNumHandles_entry [of TPM2_CC_HierarchyChangeAuth 1 0] by (simp_all add: commandArray_def)

interpretation prepare_HierarchyChangeAuth: sys_prepare "\<lambda>ctx. Tss2_Sys_HierarchyChangeAuth_Prepare ctx authHandle newAuth" TPM2_CC_HierarchyChangeAuth "True \<in> set []"
  "opt_valid (src_TPM2B 66 64) newAuth"
  "opt_valid (valid_TPM2B 64) newAuth"
  "be_bytes authHandle"
  "opt_wire wire_TPM2B newAuth" "False" True False True
  for authHandle newAuth
  by (rule sys_prepareI [OF emits_Cons [OF emits_put [OF mu_UINT32.marshaler_axioms, of authHandle]
    emits_Cons [OF emits_opt [OF mu_TPM2B_AUTH.marshaler_axioms, of newAuth]
    emits_skip]]])
    (simp_all add: Tss2_Sys_HierarchyChangeAuth_Prepare_def weak_defs prepare_simps del: steps.simps)

interpretation complete_HierarchyChangeAuth: sys_complete "\<lambda>(ctx, _). Tss2_Sys_HierarchyChangeAuth_Complete ctx" TPM2_CC_HierarchyChangeAuth
  "\<lambda>(_). True"
  "\<lambda>(_). True"
  "\<lambda>(_). []"
  "\<lambda>(_). []"
  by (rule sys_completeI [OF sys_complete_plain [OF reads_Nil]])
    (simp_all add: Tss2_Sys_HierarchyChangeAuth_Complete_def split_paired_all del: steps.simps)

interpretation cmd_HierarchyChangeAuth: sys_command "\<lambda>ctx. Tss2_Sys_HierarchyChangeAuth_Prepare ctx authHandle newAuth"
  "\<lambda>(ctx, _). Tss2_Sys_HierarchyChangeAuth_Complete ctx" TPM2_CC_HierarchyChangeAuth "True \<in> set []"
  "opt_valid (src_TPM2B 66 64) newAuth"
  "opt_valid (valid_TPM2B 64) newAuth"
  "be_bytes authHandle"
  "opt_wire wire_TPM2B newAuth" "False" True False True
  "\<lambda>(_). True"
  "\<lambda>(_). True"
  "\<lambda>(_). []"
  "\<lambda>(_). []"
  "\<lambda>(ctx, rsp, _). Tss2_Sys_HierarchyChangeAuth ctx authHandle cmdAuthsArray newAuth rsp" cmdAuthsArray
  for authHandle newAuth cmdAuthsArray
  by (rule sys_command.intro [OF prepare_HierarchyChangeAuth.sys_prepare_axioms complete_HierarchyChangeAuth.sys_complete_axioms sys_command_axioms.intro])
    (auto simp: Tss2_Sys_HierarchyChangeAuth_def one_call_def one_call_simps null_rc_def dest!: ptr_valid_some simp del: steps.simps)

subsection \<open>HierarchyControl\<close>

definition Tss2_Sys_HierarchyControl_Prepare where
  "Tss2_Sys_HierarchyControl_Prepare sysContext authHandle enable state = steps
     [null_check [],
      CommonPreparePrologue TPM2_CC_HierarchyControl,
      put (Tss2_MU_UINT32_Marshal authHandle),
      put (Tss2_MU_UINT32_Marshal enable),
      put (Tss2_MU_UINT8_Marshal state),
      assign (flags False False True),
      CommonPrepareEpilogue]
     sysContext"

definition Tss2_Sys_HierarchyControl_Complete where
  "Tss2_Sys_HierarchyControl_Complete sysContext = steps
     [on_fst (null_check []),
      on_fst CommonComplete]
     (sysContext, ())"

definition Tss2_Sys_HierarchyControl where
  "Tss2_Sys_HierarchyControl sysContext authHandle cmdAuthsArray enable state rspAuthsArray = steps
     [on_fst (\<lambda>ctx. Tss2_Sys_HierarchyControl_Prepare ctx authHandle enable state),
      on_rsp (CommonOneCall cmdAuthsArray),
      skip_out (\<lambda>(ctx, _). Tss2_Sys_HierarchyControl_Complete ctx)]
     (sysContext, rspAuthsArray, ())"

lemma HierarchyControl_handles [simp]:
  "GetNumCommandHandles TPM2_CC_HierarchyControl = 1" "GetNumResponseHandles TPM2_CC_HierarchyControl = 0"
  using GetNumHandles_entry [of TPM2_CC_HierarchyControl 1 0] by (simp_all add: commandArray_def)

interpretation prepare_HierarchyControl: sys_prepare "\<lambda>ctx. Tss2_Sys_HierarchyControl_Prepare ctx authHandle enable state" TPM2_CC_HierarchyControl "True \<in> set []"
  "True"
  "True"
  "be_bytes authHandle"
  "be_bytes enable @ be_bytes state" "False" False False True
  for authHandle enable state
  by (rule sys_prepareI [OF emits_Cons [OF emits_put [OF mu_UINT32.marshaler_axioms, of authHandle]
    emits_Cons [OF emits_put [OF mu_UINT32.marshaler_axioms, of enable]
    emits_Cons [OF emits_put [OF mu_UINT8.marshaler_axioms, of state]
    emits_skip]]]])
    (simp_all add: Tss2_Sys_HierarchyControl_Prepare_def weak_defs prepare_simps del: steps.simps)

interpretation complete_HierarchyControl: sys_complete "\<lambda>(ctx, _). Tss2_Sys_HierarchyControl_Complete ctx" TPM2_CC_HierarchyControl
  "\<lambda>(_). True"
  "\<lambda>(_). True"
  "\<lambda>(_). []"
  "\<lambda>(_). []"
  by (rule sys_completeI [OF sys_complete_plain [OF reads_Nil]])
    (simp_all add: Tss2_Sys_HierarchyControl_Complete_def split_paired_all del: steps.simps)

interpretation cmd_HierarchyControl: sys_command "\<lambda>ctx. Tss2_Sys_HierarchyControl_Prepare ctx authHandle enable state"
  "\<lambda>(ctx, _). Tss2_Sys_HierarchyControl_Complete ctx" TPM2_CC_HierarchyControl "True \<in> set []"
  "True"
  "True"
  "be_bytes authHandle"
  "be_bytes enable @ be_bytes state" "False" False False True
  "\<lambda>(_). True"
  "\<lambda>(_). True"
  "\<lambda>(_). []"
  "\<lambda>(_). []"
  "\<lambda>(ctx, rsp, _). Tss2_Sys_HierarchyControl ctx authHandle cmdAuthsArray enable state rsp" cmdAuthsArray
  for authHandle enable state cmdAuthsArray
  by (rule sys_command.intro [OF prepare_HierarchyControl.sys_prepare_axioms complete_HierarchyControl.sys_complete_axioms sys_command_axioms.intro])
    (auto simp: Tss2_Sys_HierarchyControl_def one_call_def one_call_simps null_rc_def dest!: ptr_valid_some simp del: steps.simps)

subsection \<open>Import\<close>

definition Tss2_Sys_Import_Prepare where
  "Tss2_Sys_Import_Prepare sysContext parentHandle encryptionKey objectPublic duplicate inSymSeed symmetricAlg = steps
     [null_check [Option.is_none symmetricAlg],
      CommonPreparePrologue TPM2_CC_Import,
      put (Tss2_MU_UINT32_Marshal parentHandle),
      if Option.is_none encryptionKey
        then steps [assign (ctx_decryptNull_update (\<lambda>_. True)), put (Tss2_MU_UINT16_Marshal 0)]
        else put (Tss2_MU_TPM2B_DATA_Marshal encryptionKey),
      if Option.is_none objectPublic
        then put (Tss2_MU_UINT16_Marshal 0)
        else steps [ret (ValidatePublicTemplate objectPublic), put (Tss2_MU_TPM2B_PUBLIC_Marshal objectPublic)],
      if Option.is_none duplicate
        then put (Tss2_MU_UINT16_Marshal 0)
        else put (Tss2_MU_TPM2B_PRIVATE_Marshal duplicate),
      if Option.is_none inSymSeed
        then put (Tss2_MU_UINT16_Marshal 0)
        else put (Tss2_MU_TPM2B_ENCRYPTED_SECRET_Marshal inSymSeed),
      put (Tss2_MU_TPMT_SYM_DEF_OBJECT_Marshal symmetricAlg),
      assign (flags True True True),
      CommonPrepareEpilogue]
     sysContext"

definition Tss2_Sys_Import_Complete where
  "Tss2_Sys_Import_Complete sysContext outPrivate = steps
     [on_fst (null_check []),
      on_fst CommonComplete,
      get_out Tss2_MU_TPM2B_PRIVATE_Unmarshal]
     (sysContext, outPrivate, ())"

definition Tss2_Sys_Import where
  "Tss2_Sys_Import sysContext parentHandle cmdAuthsArray encryptionKey objectPublic duplicate inSymSeed symmetricAlg outPrivate rspAuthsArray = steps
     [ret (null_rc [Option.is_none symmetricAlg]),
      on_fst (\<lambda>ctx. Tss2_Sys_Import_Prepare ctx parentHandle encryptionKey objectPublic duplicate inSymSeed symmetricAlg),
      on_rsp (CommonOneCall cmdAuthsArray),
      skip_out (\<lambda>(ctx, d1, _). Tss2_Sys_Import_Complete ctx d1)]
     (sysContext, rspAuthsArray, outPrivate, ())"

lemma Import_handles [simp]:
  "GetNumCommandHandles TPM2_CC_Import = 1" "GetNumResponseHandles TPM2_CC_Import = 0"
  using GetNumHandles_entry [of TPM2_CC_Import 1 0] by (simp_all add: commandArray_def)

interpretation prepare_Import: sys_prepare "\<lambda>ctx. Tss2_Sys_Import_Prepare ctx parentHandle encryptionKey objectPublic duplicate inSymSeed symmetricAlg" TPM2_CC_Import "True \<in> set [Option.is_none symmetricAlg]"
  "opt_valid (src_TPM2B 66 64) encryptionKey \<and> opt_valid (\<lambda>s. src_TPMT_PUBLIC (TPM2B_SUBTYPE_member s)) objectPublic \<and> opt_valid (src_TPM2B 1552 1550) duplicate \<and> opt_valid (src_TPM2B 1570 1568) inSymSeed \<and> opt_valid src_TPMT_SYM_DEF_OBJECT symmetricAlg"
  "opt_valid (valid_TPM2B 64) encryptionKey \<and> opt_valid (\<lambda>s. valid_TPMT_PUBLIC (TPM2B_SUBTYPE_member s)) objectPublic \<and> opt_valid (valid_TPM2B 1550) duplicate \<and> opt_valid (valid_TPM2B 1568) inSymSeed \<and> ptr_valid valid_TPMT_SYM_DEF_OBJECT symmetricAlg"
  "be_bytes parentHandle"
  "opt_wire wire_TPM2B encryptionKey @ opt_wire (wire_SUBTYPE wire_TPMT_PUBLIC) objectPublic @ opt_wire wire_TPM2B duplicate @ opt_wire wire_TPM2B inSymSeed @ ptr_wire wire_TPMT_SYM_DEF_OBJECT symmetricAlg" "Option.is_none encryptionKey" True True True
  for parentHandle encryptionKey objectPublic duplicate inSymSeed symmetricAlg
  by (rule sys_prepareI [OF emits_Cons [OF emits_put [OF mu_UINT32.marshaler_axioms, of parentHandle]
    emits_Cons [OF emits_opt_null [OF mu_TPM2B_DATA.marshaler_axioms, of encryptionKey]
    emits_Cons [OF emits_opt [OF mu_TPM2B_PUBLIC.marshaler_axioms, of objectPublic]
    emits_Cons [OF emits_opt [OF mu_TPM2B_PRIVATE.marshaler_axioms, of duplicate]
    emits_Cons [OF emits_opt [OF mu_TPM2B_ENCRYPTED_SECRET.marshaler_axioms, of inSymSeed]
    emits_Cons [OF emits_ptr [OF mu_TPMT_SYM_DEF_OBJECT.marshaler_axioms null_TPMT_SYM_DEF_OBJECT, of symmetricAlg]
    emits_skip]]]]]]])
    (simp_all add: Tss2_Sys_Import_Prepare_def weak_defs prepare_simps del: steps.simps)

interpretation complete_Import: sys_complete "\<lambda>(ctx, d1, _). Tss2_Sys_Import_Complete ctx d1" TPM2_CC_Import
  "\<lambda>(d1, _). ptr_valid (wt_TPM2B 1550) d1"
  "\<lambda>(d1, _). ptr_valid (valid_TPM2B 1550) d1"
  "\<lambda>(_, _). []"
  "\<lambda>(d1, _). ptr_wire wire_TPM2B d1"
  by (rule sys_completeI [OF sys_complete_plain [OF reads_Cons [OF mu_TPM2B_PRIVATE.unmarshaler_axioms
    reads_Nil]]])
    (simp_all add: Tss2_Sys_Import_Complete_def split_paired_all del: steps.simps)

interpretation cmd_Import: sys_command "\<lambda>ctx. Tss2_Sys_Import_Prepare ctx parentHandle encryptionKey objectPublic duplicate inSymSeed symmetricAlg"
  "\<lambda>(ctx, d1, _). Tss2_Sys_Import_Complete ctx d1" TPM2_CC_Import "True \<in> set [Option.is_none symmetricAlg]"
  "opt_valid (src_TPM2B 66 64) encryptionKey \<and> opt_valid (\<lambda>s. src_TPMT_PUBLIC (TPM2B_SUBTYPE_member s)) objectPublic \<and> opt_valid (src_TPM2B 1552 1550) duplicate \<and> opt_valid (src_TPM2B 1570 1568) inSymSeed \<and> opt_valid src_TPMT_SYM_DEF_OBJECT symmetricAlg"
  "opt_valid (valid_TPM2B 64) encryptionKey \<and> opt_valid (\<lambda>s. valid_TPMT_PUBLIC (TPM2B_SUBTYPE_member s)) objectPublic \<and> opt_valid (valid_TPM2B 1550) duplicate \<and> opt_valid (valid_TPM2B 1568) inSymSeed \<and> ptr_valid valid_TPMT_SYM_DEF_OBJECT symmetricAlg"
  "be_bytes parentHandle"
  "opt_wire wire_TPM2B encryptionKey @ opt_wire (wire_SUBTYPE wire_TPMT_PUBLIC) objectPublic @ opt_wire wire_TPM2B duplicate @ opt_wire wire_TPM2B inSymSeed @ ptr_wire wire_TPMT_SYM_DEF_OBJECT symmetricAlg" "Option.is_none encryptionKey" True True True
  "\<lambda>(d1, _). ptr_valid (wt_TPM2B 1550) d1"
  "\<lambda>(d1, _). ptr_valid (valid_TPM2B 1550) d1"
  "\<lambda>(_, _). []"
  "\<lambda>(d1, _). ptr_wire wire_TPM2B d1"
  "\<lambda>(ctx, rsp, d1, _). Tss2_Sys_Import ctx parentHandle cmdAuthsArray encryptionKey objectPublic duplicate inSymSeed symmetricAlg d1 rsp" cmdAuthsArray
  for parentHandle encryptionKey objectPublic duplicate inSymSeed symmetricAlg cmdAuthsArray
  by (rule sys_command.intro [OF prepare_Import.sys_prepare_axioms complete_Import.sys_complete_axioms sys_command_axioms.intro])
    (auto simp: Tss2_Sys_Import_def one_call_def one_call_simps null_rc_def dest!: ptr_valid_some simp del: steps.simps)

subsection \<open>IncrementalSelfTest\<close>

definition Tss2_Sys_IncrementalSelfTest_Prepare where
  "Tss2_Sys_IncrementalSelfTest_Prepare sysContext toTest = steps
     [null_check [Option.is_none toTest],
      CommonPreparePrologue TPM2_CC_IncrementalSelfTest,
      put (Tss2_MU_TPML_ALG_Marshal toTest),
      assign (flags False False True),
      CommonPrepareEpilogue]
     sysContext"

definition Tss2_Sys_IncrementalSelfTest_Complete where
  "Tss2_Sys_IncrementalSelfTest_Complete sysContext toDoList = steps
     [on_fst (null_check []),
      on_fst CommonComplete,
      get_out Tss2_MU_TPML_ALG_Unmarshal]
     (sysContext, toDoList, ())"

definition Tss2_Sys_IncrementalSelfTest where
  "Tss2_Sys_IncrementalSelfTest sysContext cmdAuthsArray toTest toDoList rspAuthsArray = steps
     [ret (null_rc [Option.is_none toTest]),
      on_fst (\<lambda>ctx. Tss2_Sys_IncrementalSelfTest_Prepare ctx toTest),
      on_rsp (CommonOneCall cmdAuthsArray),
      skip_out (\<lambda>(ctx, d1, _). Tss2_Sys_IncrementalSelfTest_Complete ctx d1)]
     (sysContext, rspAuthsArray, toDoList, ())"

lemma IncrementalSelfTest_handles [simp]:
  "GetNumCommandHandles TPM2_CC_IncrementalSelfTest = 0" "GetNumResponseHandles TPM2_CC_IncrementalSelfTest = 0"
  using GetNumHandles_entry [of TPM2_CC_IncrementalSelfTest 0 0] by (simp_all add: commandArray_def)

interpretation prepare_IncrementalSelfTest: sys_prepare "\<lambda>ctx. Tss2_Sys_IncrementalSelfTest_Prepare ctx toTest" TPM2_CC_IncrementalSelfTest "True \<in> set [Option.is_none toTest]"
  "opt_valid (src_TPML 128 (\<lambda>_. True)) toTest"
  "ptr_valid (valid_TPML 128 (\<lambda>_. True)) toTest"
  "[]"
  "ptr_wire (wire_TPML be_bytes) toTest" "False" False False True
  for toTest
  by (rule sys_prepareI [OF emits_Cons [OF emits_ptr [OF mu_TPML_ALG.marshaler_axioms null_TPML_ALG, of toTest]
    emits_skip]])
    (simp_all add: Tss2_Sys_IncrementalSelfTest_Prepare_def weak_defs prepare_simps del: steps.simps)

interpretation complete_IncrementalSelfTest: sys_complete "\<lambda>(ctx, d1, _). Tss2_Sys_IncrementalSelfTest_Complete ctx d1" TPM2_CC_IncrementalSelfTest
  "\<lambda>(d1, _). ptr_valid (wt_TPML 128 (\<lambda>_. True)) d1"
  "\<lambda>(d1, _). ptr_valid (valid_TPML 128 (\<lambda>_. True)) d1"
  "\<lambda>(_, _). []"
  "\<lambda>(d1, _). ptr_wire (wire_TPML be_bytes) d1"
  by (rule sys_completeI [OF sys_complete_plain [OF reads_Cons [OF mu_TPML_ALG.unmarshaler_axioms
    reads_Nil]]])
    (simp_all add: Tss2_Sys_IncrementalSelfTest_Complete_def split_paired_all del: steps.simps)

interpretation cmd_IncrementalSelfTest: sys_command "\<lambda>ctx. Tss2_Sys_IncrementalSelfTest_Prepare ctx toTest"
  "\<lambda>(ctx, d1, _). Tss2_Sys_IncrementalSelfTest_Complete ctx d1" TPM2_CC_IncrementalSelfTest "True \<in> set [Option.is_none toTest]"
  "opt_valid (src_TPML 128 (\<lambda>_. True)) toTest"
  "ptr_valid (valid_TPML 128 (\<lambda>_. True)) toTest"
  "[]"
  "ptr_wire (wire_TPML be_bytes) toTest" "False" False False True
  "\<lambda>(d1, _). ptr_valid (wt_TPML 128 (\<lambda>_. True)) d1"
  "\<lambda>(d1, _). ptr_valid (valid_TPML 128 (\<lambda>_. True)) d1"
  "\<lambda>(_, _). []"
  "\<lambda>(d1, _). ptr_wire (wire_TPML be_bytes) d1"
  "\<lambda>(ctx, rsp, d1, _). Tss2_Sys_IncrementalSelfTest ctx cmdAuthsArray toTest d1 rsp" cmdAuthsArray
  for toTest cmdAuthsArray
  by (rule sys_command.intro [OF prepare_IncrementalSelfTest.sys_prepare_axioms complete_IncrementalSelfTest.sys_complete_axioms sys_command_axioms.intro])
    (auto simp: Tss2_Sys_IncrementalSelfTest_def one_call_def one_call_simps null_rc_def dest!: ptr_valid_some simp del: steps.simps)

end
