(* ===== verification/Sys_Commands_3.thy ===== *)
theory Sys_Commands_3
  imports Sys_OneCall
begin

text \<open>
  The command functions of \<open>src/tss2-sys/api\<close> from \<open>Load\<close> to \<open>PCR_SetAuthPolicy\<close>: for each command \<open>_Prepare\<close>, \<open>_Complete\<close> and
  the one-call function, with the contracts they satisfy.
\<close>

section \<open>Commands\<close>

subsection \<open>Load\<close>

definition Tss2_Sys_Load_Prepare where
  "Tss2_Sys_Load_Prepare sysContext parentHandle inPrivate inPublic = steps
     [null_check [],
      CommonPreparePrologue TPM2_CC_Load,
      put (Tss2_MU_UINT32_Marshal parentHandle),
      if Option.is_none inPrivate
        then steps [assign (ctx_decryptNull_update (\<lambda>_. True)), put (Tss2_MU_UINT16_Marshal 0)]
        else put (Tss2_MU_TPM2B_PRIVATE_Marshal inPrivate),
      if Option.is_none inPublic
        then put (Tss2_MU_UINT16_Marshal 0)
        else steps [ret (ValidatePublicTemplate inPublic), put (Tss2_MU_TPM2B_PUBLIC_Marshal inPublic)],
      assign (flags True True True),
      CommonPrepareEpilogue]
     sysContext"

definition Tss2_Sys_Load_Complete where
  "Tss2_Sys_Load_Complete sysContext objectHandle name = steps
     [on_fst (null_check []),
      get_out Tss2_MU_UINT32_Unmarshal,
      on_fst CommonComplete,
      skip_out (get_out Tss2_MU_TPM2B_NAME_Unmarshal)]
     (sysContext, objectHandle, name, ())"

definition Tss2_Sys_Load where
  "Tss2_Sys_Load sysContext parentHandle cmdAuthsArray inPrivate inPublic objectHandle name rspAuthsArray = steps
     [on_fst (\<lambda>ctx. Tss2_Sys_Load_Prepare ctx parentHandle inPrivate inPublic),
      on_rsp (CommonOneCall cmdAuthsArray),
      skip_out (\<lambda>(ctx, d1, d2, _). Tss2_Sys_Load_Complete ctx d1 d2)]
     (sysContext, rspAuthsArray, objectHandle, name, ())"

lemma Load_handles [simp]:
  "GetNumCommandHandles TPM2_CC_Load = 1" "GetNumResponseHandles TPM2_CC_Load = 1"
  using GetNumHandles_entry [of TPM2_CC_Load 1 1] by (simp_all add: commandArray_def)

interpretation prepare_Load: sys_prepare "\<lambda>ctx. Tss2_Sys_Load_Prepare ctx parentHandle inPrivate inPublic" TPM2_CC_Load "True \<in> set []"
  "opt_valid (src_TPM2B 1552 1550) inPrivate \<and> opt_valid (\<lambda>s. src_TPMT_PUBLIC (TPM2B_SUBTYPE_member s)) inPublic"
  "opt_valid (valid_TPM2B 1550) inPrivate \<and> opt_valid (\<lambda>s. valid_TPMT_PUBLIC (TPM2B_SUBTYPE_member s)) inPublic"
  "be_bytes parentHandle"
  "opt_wire wire_TPM2B inPrivate @ opt_wire (wire_SUBTYPE wire_TPMT_PUBLIC) inPublic" "Option.is_none inPrivate" True True True
  for parentHandle inPrivate inPublic
  by (rule sys_prepareI [OF emits_Cons [OF emits_put [OF mu_UINT32.marshaler_axioms, of parentHandle]
    emits_Cons [OF emits_opt_null [OF mu_TPM2B_PRIVATE.marshaler_axioms, of inPrivate]
    emits_Cons [OF emits_opt [OF mu_TPM2B_PUBLIC.marshaler_axioms, of inPublic]
    emits_skip]]]])
    (simp_all add: Tss2_Sys_Load_Prepare_def weak_defs prepare_simps del: steps.simps)

interpretation complete_Load: sys_complete "\<lambda>(ctx, d1, d2, _). Tss2_Sys_Load_Complete ctx d1 d2" TPM2_CC_Load
  "\<lambda>(d1, d2, _). ptr_valid (\<lambda>_. True) d1 \<and> ptr_valid (wt_TPM2B 68) d2"
  "\<lambda>(d1, d2, _). ptr_valid (\<lambda>_. True) d1 \<and> ptr_valid (valid_TPM2B 68) d2"
  "\<lambda>(d1, _, _). ptr_wire be_bytes d1"
  "\<lambda>(_, d2, _). ptr_wire wire_TPM2B d2"
  by (rule sys_completeI [OF sys_complete_handle [OF reads_Cons [OF mu_TPM2B_NAME.unmarshaler_axioms
    reads_Nil]]])
    (simp_all add: Tss2_Sys_Load_Complete_def split_paired_all del: steps.simps)

interpretation cmd_Load: sys_command "\<lambda>ctx. Tss2_Sys_Load_Prepare ctx parentHandle inPrivate inPublic"
  "\<lambda>(ctx, d1, d2, _). Tss2_Sys_Load_Complete ctx d1 d2" TPM2_CC_Load "True \<in> set []"
  "opt_valid (src_TPM2B 1552 1550) inPrivate \<and> opt_valid (\<lambda>s. src_TPMT_PUBLIC (TPM2B_SUBTYPE_member s)) inPublic"
  "opt_valid (valid_TPM2B 1550) inPrivate \<and> opt_valid (\<lambda>s. valid_TPMT_PUBLIC (TPM2B_SUBTYPE_member s)) inPublic"
  "be_bytes parentHandle"
  "opt_wire wire_TPM2B inPrivate @ opt_wire (wire_SUBTYPE wire_TPMT_PUBLIC) inPublic" "Option.is_none inPrivate" True True True
  "\<lambda>(d1, d2, _). ptr_valid (\<lambda>_. True) d1 \<and> ptr_valid (wt_TPM2B 68) d2"
  "\<lambda>(d1, d2, _). ptr_valid (\<lambda>_. True) d1 \<and> ptr_valid (valid_TPM2B 68) d2"
  "\<lambda>(d1, _, _). ptr_wire be_bytes d1"
  "\<lambda>(_, d2, _). ptr_wire wire_TPM2B d2"
  "\<lambda>(ctx, rsp, d1, d2, _). Tss2_Sys_Load ctx parentHandle cmdAuthsArray inPrivate inPublic d1 d2 rsp" cmdAuthsArray
  for parentHandle inPrivate inPublic cmdAuthsArray
  by (rule sys_command.intro [OF prepare_Load.sys_prepare_axioms complete_Load.sys_complete_axioms sys_command_axioms.intro])
    (auto simp: Tss2_Sys_Load_def one_call_def one_call_simps null_rc_def dest!: ptr_valid_some simp del: steps.simps)

subsection \<open>LoadExternal\<close>

definition Tss2_Sys_LoadExternal_Prepare where
  "Tss2_Sys_LoadExternal_Prepare sysContext inPrivate inPublic hierarchy = steps
     [null_check [],
      CommonPreparePrologue TPM2_CC_LoadExternal,
      if Option.is_none inPrivate
        then steps [assign (ctx_decryptNull_update (\<lambda>_. True)), put (Tss2_MU_UINT16_Marshal 0)]
        else put (Tss2_MU_TPM2B_SENSITIVE_Marshal inPrivate),
      if Option.is_none inPublic
        then put (Tss2_MU_UINT16_Marshal 0)
        else steps [ret (ValidatePublicTemplate inPublic), put (Tss2_MU_TPM2B_PUBLIC_Marshal inPublic)],
      put (Tss2_MU_UINT32_Marshal hierarchy),
      assign (flags True True True),
      CommonPrepareEpilogue]
     sysContext"

definition Tss2_Sys_LoadExternal_Complete where
  "Tss2_Sys_LoadExternal_Complete sysContext objectHandle name = steps
     [on_fst (null_check []),
      get_out Tss2_MU_UINT32_Unmarshal,
      on_fst CommonComplete,
      skip_out (get_out Tss2_MU_TPM2B_NAME_Unmarshal)]
     (sysContext, objectHandle, name, ())"

definition Tss2_Sys_LoadExternal where
  "Tss2_Sys_LoadExternal sysContext cmdAuthsArray inPrivate inPublic hierarchy objectHandle name rspAuthsArray = steps
     [on_fst (\<lambda>ctx. Tss2_Sys_LoadExternal_Prepare ctx inPrivate inPublic hierarchy),
      on_rsp (CommonOneCall cmdAuthsArray),
      skip_out (\<lambda>(ctx, d1, d2, _). Tss2_Sys_LoadExternal_Complete ctx d1 d2)]
     (sysContext, rspAuthsArray, objectHandle, name, ())"

lemma LoadExternal_handles [simp]:
  "GetNumCommandHandles TPM2_CC_LoadExternal = 0" "GetNumResponseHandles TPM2_CC_LoadExternal = 1"
  using GetNumHandles_entry [of TPM2_CC_LoadExternal 0 1] by (simp_all add: commandArray_def)

interpretation prepare_LoadExternal: sys_prepare "\<lambda>ctx. Tss2_Sys_LoadExternal_Prepare ctx inPrivate inPublic hierarchy" TPM2_CC_LoadExternal "True \<in> set []"
  "opt_valid (\<lambda>s. src_TPMT_SENSITIVE (TPM2B_SUBTYPE_member s)) inPrivate \<and> opt_valid (\<lambda>s. src_TPMT_PUBLIC (TPM2B_SUBTYPE_member s)) inPublic"
  "opt_valid (\<lambda>s. valid_TPMT_SENSITIVE (TPM2B_SUBTYPE_member s)) inPrivate \<and> opt_valid (\<lambda>s. valid_TPMT_PUBLIC (TPM2B_SUBTYPE_member s)) inPublic"
  "[]"
  "opt_wire (wire_SUBTYPE wire_TPMT_SENSITIVE) inPrivate @ opt_wire (wire_SUBTYPE wire_TPMT_PUBLIC) inPublic @ be_bytes hierarchy" "Option.is_none inPrivate" True True True
  for inPrivate inPublic hierarchy
  by (rule sys_prepareI [OF emits_Cons [OF emits_opt_null [OF mu_TPM2B_SENSITIVE.marshaler_axioms, of inPrivate]
    emits_Cons [OF emits_opt [OF mu_TPM2B_PUBLIC.marshaler_axioms, of inPublic]
    emits_Cons [OF emits_put [OF mu_UINT32.marshaler_axioms, of hierarchy]
    emits_skip]]]])
    (simp_all add: Tss2_Sys_LoadExternal_Prepare_def weak_defs prepare_simps del: steps.simps)

interpretation complete_LoadExternal: sys_complete "\<lambda>(ctx, d1, d2, _). Tss2_Sys_LoadExternal_Complete ctx d1 d2" TPM2_CC_LoadExternal
  "\<lambda>(d1, d2, _). ptr_valid (\<lambda>_. True) d1 \<and> ptr_valid (wt_TPM2B 68) d2"
  "\<lambda>(d1, d2, _). ptr_valid (\<lambda>_. True) d1 \<and> ptr_valid (valid_TPM2B 68) d2"
  "\<lambda>(d1, _, _). ptr_wire be_bytes d1"
  "\<lambda>(_, d2, _). ptr_wire wire_TPM2B d2"
  by (rule sys_completeI [OF sys_complete_handle [OF reads_Cons [OF mu_TPM2B_NAME.unmarshaler_axioms
    reads_Nil]]])
    (simp_all add: Tss2_Sys_LoadExternal_Complete_def split_paired_all del: steps.simps)

interpretation cmd_LoadExternal: sys_command "\<lambda>ctx. Tss2_Sys_LoadExternal_Prepare ctx inPrivate inPublic hierarchy"
  "\<lambda>(ctx, d1, d2, _). Tss2_Sys_LoadExternal_Complete ctx d1 d2" TPM2_CC_LoadExternal "True \<in> set []"
  "opt_valid (\<lambda>s. src_TPMT_SENSITIVE (TPM2B_SUBTYPE_member s)) inPrivate \<and> opt_valid (\<lambda>s. src_TPMT_PUBLIC (TPM2B_SUBTYPE_member s)) inPublic"
  "opt_valid (\<lambda>s. valid_TPMT_SENSITIVE (TPM2B_SUBTYPE_member s)) inPrivate \<and> opt_valid (\<lambda>s. valid_TPMT_PUBLIC (TPM2B_SUBTYPE_member s)) inPublic"
  "[]"
  "opt_wire (wire_SUBTYPE wire_TPMT_SENSITIVE) inPrivate @ opt_wire (wire_SUBTYPE wire_TPMT_PUBLIC) inPublic @ be_bytes hierarchy" "Option.is_none inPrivate" True True True
  "\<lambda>(d1, d2, _). ptr_valid (\<lambda>_. True) d1 \<and> ptr_valid (wt_TPM2B 68) d2"
  "\<lambda>(d1, d2, _). ptr_valid (\<lambda>_. True) d1 \<and> ptr_valid (valid_TPM2B 68) d2"
  "\<lambda>(d1, _, _). ptr_wire be_bytes d1"
  "\<lambda>(_, d2, _). ptr_wire wire_TPM2B d2"
  "\<lambda>(ctx, rsp, d1, d2, _). Tss2_Sys_LoadExternal ctx cmdAuthsArray inPrivate inPublic hierarchy d1 d2 rsp" cmdAuthsArray
  for inPrivate inPublic hierarchy cmdAuthsArray
  by (rule sys_command.intro [OF prepare_LoadExternal.sys_prepare_axioms complete_LoadExternal.sys_complete_axioms sys_command_axioms.intro])
    (auto simp: Tss2_Sys_LoadExternal_def one_call_def one_call_simps null_rc_def dest!: ptr_valid_some simp del: steps.simps)

subsection \<open>MAC\<close>

definition Tss2_Sys_MAC_Prepare where
  "Tss2_Sys_MAC_Prepare sysContext handle buffer inScheme = steps
     [null_check [],
      CommonPreparePrologue TPM2_CC_MAC,
      put (Tss2_MU_UINT32_Marshal handle),
      if Option.is_none buffer
        then steps [assign (ctx_decryptNull_update (\<lambda>_. True)), put (Tss2_MU_UINT16_Marshal 0)]
        else put (Tss2_MU_TPM2B_MAX_BUFFER_Marshal buffer),
      put (Tss2_MU_UINT16_Marshal inScheme),
      assign (flags True True True),
      CommonPrepareEpilogue]
     sysContext"

definition Tss2_Sys_MAC_Complete where
  "Tss2_Sys_MAC_Complete sysContext outMAC = steps
     [on_fst (null_check []),
      on_fst CommonComplete,
      get_out Tss2_MU_TPM2B_DIGEST_Unmarshal]
     (sysContext, outMAC, ())"

definition Tss2_Sys_MAC where
  "Tss2_Sys_MAC sysContext handle cmdAuths buffer inScheme outMAC rspAuths = steps
     [on_fst (\<lambda>ctx. Tss2_Sys_MAC_Prepare ctx handle buffer inScheme),
      on_rsp (CommonOneCall cmdAuths),
      skip_out (\<lambda>(ctx, d1, _). Tss2_Sys_MAC_Complete ctx d1)]
     (sysContext, rspAuths, outMAC, ())"

lemma MAC_handles [simp]:
  "GetNumCommandHandles TPM2_CC_MAC = 1" "GetNumResponseHandles TPM2_CC_MAC = 0"
  proof -
  have "TPM2_CC_MAC = TPM2_CC_HMAC" by (simp add: TPM2_CC_MAC_def TPM2_CC_HMAC_def)
  then show "GetNumCommandHandles TPM2_CC_MAC = 1" "GetNumResponseHandles TPM2_CC_MAC = 0"
    using GetNumHandles_entry [of TPM2_CC_HMAC 1 0] by (simp_all add: commandArray_def)
qed

interpretation prepare_MAC: sys_prepare "\<lambda>ctx. Tss2_Sys_MAC_Prepare ctx handle buffer inScheme" TPM2_CC_MAC "True \<in> set []"
  "opt_valid (src_TPM2B 1026 1024) buffer"
  "opt_valid (valid_TPM2B 1024) buffer"
  "be_bytes handle"
  "opt_wire wire_TPM2B buffer @ be_bytes inScheme" "Option.is_none buffer" True True True
  for handle buffer inScheme
  by (rule sys_prepareI [OF emits_Cons [OF emits_put [OF mu_UINT32.marshaler_axioms, of handle]
    emits_Cons [OF emits_opt_null [OF mu_TPM2B_MAX_BUFFER.marshaler_axioms, of buffer]
    emits_Cons [OF emits_put [OF mu_UINT16.marshaler_axioms, of inScheme]
    emits_skip]]]])
    (simp_all add: Tss2_Sys_MAC_Prepare_def weak_defs prepare_simps del: steps.simps)

interpretation complete_MAC: sys_complete "\<lambda>(ctx, d1, _). Tss2_Sys_MAC_Complete ctx d1" TPM2_CC_MAC
  "\<lambda>(d1, _). ptr_valid (wt_TPM2B 64) d1"
  "\<lambda>(d1, _). ptr_valid (valid_TPM2B 64) d1"
  "\<lambda>(_, _). []"
  "\<lambda>(d1, _). ptr_wire wire_TPM2B d1"
  by (rule sys_completeI [OF sys_complete_plain [OF reads_Cons [OF mu_TPM2B_DIGEST.unmarshaler_axioms
    reads_Nil]]])
    (simp_all add: Tss2_Sys_MAC_Complete_def split_paired_all del: steps.simps)

interpretation cmd_MAC: sys_command "\<lambda>ctx. Tss2_Sys_MAC_Prepare ctx handle buffer inScheme"
  "\<lambda>(ctx, d1, _). Tss2_Sys_MAC_Complete ctx d1" TPM2_CC_MAC "True \<in> set []"
  "opt_valid (src_TPM2B 1026 1024) buffer"
  "opt_valid (valid_TPM2B 1024) buffer"
  "be_bytes handle"
  "opt_wire wire_TPM2B buffer @ be_bytes inScheme" "Option.is_none buffer" True True True
  "\<lambda>(d1, _). ptr_valid (wt_TPM2B 64) d1"
  "\<lambda>(d1, _). ptr_valid (valid_TPM2B 64) d1"
  "\<lambda>(_, _). []"
  "\<lambda>(d1, _). ptr_wire wire_TPM2B d1"
  "\<lambda>(ctx, rsp, d1, _). Tss2_Sys_MAC ctx handle cmdAuths buffer inScheme d1 rsp" cmdAuths
  for handle buffer inScheme cmdAuths
  by (rule sys_command.intro [OF prepare_MAC.sys_prepare_axioms complete_MAC.sys_complete_axioms sys_command_axioms.intro])
    (auto simp: Tss2_Sys_MAC_def one_call_def one_call_simps null_rc_def dest!: ptr_valid_some simp del: steps.simps)

subsection \<open>MAC Start\<close>

definition Tss2_Sys_MAC_Start_Prepare where
  "Tss2_Sys_MAC_Start_Prepare sysContext handle auth inScheme = steps
     [null_check [],
      CommonPreparePrologue TPM2_CC_MAC_Start,
      put (Tss2_MU_UINT32_Marshal handle),
      if Option.is_none auth
        then steps [assign (ctx_decryptNull_update (\<lambda>_. True)), put (Tss2_MU_UINT16_Marshal 0)]
        else put (Tss2_MU_TPM2B_AUTH_Marshal auth),
      put (Tss2_MU_UINT16_Marshal inScheme),
      assign (flags True False True),
      CommonPrepareEpilogue]
     sysContext"

definition Tss2_Sys_MAC_Start_Complete where
  "Tss2_Sys_MAC_Start_Complete sysContext sequenceHandle = steps
     [on_fst (null_check []),
      get_out Tss2_MU_UINT32_Unmarshal,
      on_fst CommonComplete]
     (sysContext, sequenceHandle, ())"

definition Tss2_Sys_MAC_Start where
  "Tss2_Sys_MAC_Start sysContext handle cmdAuthsArray auth inScheme sequenceHandle rspAuthsArray = steps
     [on_fst (\<lambda>ctx. Tss2_Sys_MAC_Start_Prepare ctx handle auth inScheme),
      on_rsp (CommonOneCall cmdAuthsArray),
      skip_out (\<lambda>(ctx, d1, _). Tss2_Sys_MAC_Start_Complete ctx d1)]
     (sysContext, rspAuthsArray, sequenceHandle, ())"

lemma MAC_Start_handles [simp]:
  "GetNumCommandHandles TPM2_CC_MAC_Start = 1" "GetNumResponseHandles TPM2_CC_MAC_Start = 1"
  proof -
  have "TPM2_CC_MAC_Start = TPM2_CC_HMAC_Start" by (simp add: TPM2_CC_MAC_Start_def TPM2_CC_HMAC_Start_def)
  then show "GetNumCommandHandles TPM2_CC_MAC_Start = 1" "GetNumResponseHandles TPM2_CC_MAC_Start = 1"
    using GetNumHandles_entry [of TPM2_CC_HMAC_Start 1 1] by (simp_all add: commandArray_def)
qed

interpretation prepare_MAC_Start: sys_prepare "\<lambda>ctx. Tss2_Sys_MAC_Start_Prepare ctx handle auth inScheme" TPM2_CC_MAC_Start "True \<in> set []"
  "opt_valid (src_TPM2B 66 64) auth"
  "opt_valid (valid_TPM2B 64) auth"
  "be_bytes handle"
  "opt_wire wire_TPM2B auth @ be_bytes inScheme" "Option.is_none auth" True False True
  for handle auth inScheme
  by (rule sys_prepareI [OF emits_Cons [OF emits_put [OF mu_UINT32.marshaler_axioms, of handle]
    emits_Cons [OF emits_opt_null [OF mu_TPM2B_AUTH.marshaler_axioms, of auth]
    emits_Cons [OF emits_put [OF mu_UINT16.marshaler_axioms, of inScheme]
    emits_skip]]]])
    (simp_all add: Tss2_Sys_MAC_Start_Prepare_def weak_defs prepare_simps del: steps.simps)

interpretation complete_MAC_Start: sys_complete "\<lambda>(ctx, d1, _). Tss2_Sys_MAC_Start_Complete ctx d1" TPM2_CC_MAC_Start
  "\<lambda>(d1, _). ptr_valid (\<lambda>_. True) d1"
  "\<lambda>(d1, _). ptr_valid (\<lambda>_. True) d1"
  "\<lambda>(d1, _). ptr_wire be_bytes d1"
  "\<lambda>(_, _). []"
  by (rule sys_completeI [OF sys_complete_handle [OF reads_Nil]])
    (simp_all add: Tss2_Sys_MAC_Start_Complete_def split_paired_all del: steps.simps)

interpretation cmd_MAC_Start: sys_command "\<lambda>ctx. Tss2_Sys_MAC_Start_Prepare ctx handle auth inScheme"
  "\<lambda>(ctx, d1, _). Tss2_Sys_MAC_Start_Complete ctx d1" TPM2_CC_MAC_Start "True \<in> set []"
  "opt_valid (src_TPM2B 66 64) auth"
  "opt_valid (valid_TPM2B 64) auth"
  "be_bytes handle"
  "opt_wire wire_TPM2B auth @ be_bytes inScheme" "Option.is_none auth" True False True
  "\<lambda>(d1, _). ptr_valid (\<lambda>_. True) d1"
  "\<lambda>(d1, _). ptr_valid (\<lambda>_. True) d1"
  "\<lambda>(d1, _). ptr_wire be_bytes d1"
  "\<lambda>(_, _). []"
  "\<lambda>(ctx, rsp, d1, _). Tss2_Sys_MAC_Start ctx handle cmdAuthsArray auth inScheme d1 rsp" cmdAuthsArray
  for handle auth inScheme cmdAuthsArray
  by (rule sys_command.intro [OF prepare_MAC_Start.sys_prepare_axioms complete_MAC_Start.sys_complete_axioms sys_command_axioms.intro])
    (auto simp: Tss2_Sys_MAC_Start_def one_call_def one_call_simps null_rc_def dest!: ptr_valid_some simp del: steps.simps)

subsection \<open>MakeCredential\<close>

definition Tss2_Sys_MakeCredential_Prepare where
  "Tss2_Sys_MakeCredential_Prepare sysContext handle credential objectName = steps
     [null_check [],
      CommonPreparePrologue TPM2_CC_MakeCredential,
      put (Tss2_MU_UINT32_Marshal handle),
      if Option.is_none credential
        then steps [assign (ctx_decryptNull_update (\<lambda>_. True)), put (Tss2_MU_UINT16_Marshal 0)]
        else put (Tss2_MU_TPM2B_DIGEST_Marshal credential),
      if Option.is_none objectName
        then put (Tss2_MU_UINT16_Marshal 0)
        else put (Tss2_MU_TPM2B_NAME_Marshal objectName),
      assign (flags True True True),
      CommonPrepareEpilogue]
     sysContext"

definition Tss2_Sys_MakeCredential_Complete where
  "Tss2_Sys_MakeCredential_Complete sysContext credentialBlob secret = steps
     [on_fst (null_check []),
      on_fst CommonComplete,
      get_out Tss2_MU_TPM2B_ID_OBJECT_Unmarshal,
      skip_out (get_out Tss2_MU_TPM2B_ENCRYPTED_SECRET_Unmarshal)]
     (sysContext, credentialBlob, secret, ())"

definition Tss2_Sys_MakeCredential where
  "Tss2_Sys_MakeCredential sysContext handle cmdAuthsArray credential objectName credentialBlob secret rspAuthsArray = steps
     [on_fst (\<lambda>ctx. Tss2_Sys_MakeCredential_Prepare ctx handle credential objectName),
      on_rsp (CommonOneCall cmdAuthsArray),
      skip_out (\<lambda>(ctx, d1, d2, _). Tss2_Sys_MakeCredential_Complete ctx d1 d2)]
     (sysContext, rspAuthsArray, credentialBlob, secret, ())"

lemma MakeCredential_handles [simp]:
  "GetNumCommandHandles TPM2_CC_MakeCredential = 1" "GetNumResponseHandles TPM2_CC_MakeCredential = 0"
  using GetNumHandles_entry [of TPM2_CC_MakeCredential 1 0] by (simp_all add: commandArray_def)

interpretation prepare_MakeCredential: sys_prepare "\<lambda>ctx. Tss2_Sys_MakeCredential_Prepare ctx handle credential objectName" TPM2_CC_MakeCredential "True \<in> set []"
  "opt_valid (src_TPM2B 66 64) credential \<and> opt_valid (src_TPM2B 70 68) objectName"
  "opt_valid (valid_TPM2B 64) credential \<and> opt_valid (valid_TPM2B 68) objectName"
  "be_bytes handle"
  "opt_wire wire_TPM2B credential @ opt_wire wire_TPM2B objectName" "Option.is_none credential" True True True
  for handle credential objectName
  by (rule sys_prepareI [OF emits_Cons [OF emits_put [OF mu_UINT32.marshaler_axioms, of handle]
    emits_Cons [OF emits_opt_null [OF mu_TPM2B_DIGEST.marshaler_axioms, of credential]
    emits_Cons [OF emits_opt [OF mu_TPM2B_NAME.marshaler_axioms, of objectName]
    emits_skip]]]])
    (simp_all add: Tss2_Sys_MakeCredential_Prepare_def weak_defs prepare_simps del: steps.simps)

interpretation complete_MakeCredential: sys_complete "\<lambda>(ctx, d1, d2, _). Tss2_Sys_MakeCredential_Complete ctx d1 d2" TPM2_CC_MakeCredential
  "\<lambda>(d1, d2, _). ptr_valid (wt_TPM2B 132) d1 \<and> ptr_valid (wt_TPM2B 1568) d2"
  "\<lambda>(d1, d2, _). ptr_valid (valid_TPM2B 132) d1 \<and> ptr_valid (valid_TPM2B 1568) d2"
  "\<lambda>(_, _, _). []"
  "\<lambda>(d1, d2, _). ptr_wire wire_TPM2B d1 @ ptr_wire wire_TPM2B d2"
  by (rule sys_completeI [OF sys_complete_plain [OF reads_Cons [OF mu_TPM2B_ID_OBJECT.unmarshaler_axioms
    reads_Cons [OF mu_TPM2B_ENCRYPTED_SECRET.unmarshaler_axioms
    reads_Nil]]]])
    (simp_all add: Tss2_Sys_MakeCredential_Complete_def split_paired_all del: steps.simps)

interpretation cmd_MakeCredential: sys_command "\<lambda>ctx. Tss2_Sys_MakeCredential_Prepare ctx handle credential objectName"
  "\<lambda>(ctx, d1, d2, _). Tss2_Sys_MakeCredential_Complete ctx d1 d2" TPM2_CC_MakeCredential "True \<in> set []"
  "opt_valid (src_TPM2B 66 64) credential \<and> opt_valid (src_TPM2B 70 68) objectName"
  "opt_valid (valid_TPM2B 64) credential \<and> opt_valid (valid_TPM2B 68) objectName"
  "be_bytes handle"
  "opt_wire wire_TPM2B credential @ opt_wire wire_TPM2B objectName" "Option.is_none credential" True True True
  "\<lambda>(d1, d2, _). ptr_valid (wt_TPM2B 132) d1 \<and> ptr_valid (wt_TPM2B 1568) d2"
  "\<lambda>(d1, d2, _). ptr_valid (valid_TPM2B 132) d1 \<and> ptr_valid (valid_TPM2B 1568) d2"
  "\<lambda>(_, _, _). []"
  "\<lambda>(d1, d2, _). ptr_wire wire_TPM2B d1 @ ptr_wire wire_TPM2B d2"
  "\<lambda>(ctx, rsp, d1, d2, _). Tss2_Sys_MakeCredential ctx handle cmdAuthsArray credential objectName d1 d2 rsp" cmdAuthsArray
  for handle credential objectName cmdAuthsArray
  by (rule sys_command.intro [OF prepare_MakeCredential.sys_prepare_axioms complete_MakeCredential.sys_complete_axioms sys_command_axioms.intro])
    (auto simp: Tss2_Sys_MakeCredential_def one_call_def one_call_simps null_rc_def dest!: ptr_valid_some simp del: steps.simps)

subsection \<open>NV Certify\<close>

definition Tss2_Sys_NV_Certify_Prepare where
  "Tss2_Sys_NV_Certify_Prepare sysContext signHandle authHandle nvIndex qualifyingData inScheme size' offset = steps
     [null_check [Option.is_none inScheme],
      CommonPreparePrologue TPM2_CC_NV_Certify,
      put (Tss2_MU_UINT32_Marshal signHandle),
      put (Tss2_MU_UINT32_Marshal authHandle),
      put (Tss2_MU_UINT32_Marshal nvIndex),
      if Option.is_none qualifyingData
        then steps [assign (ctx_decryptNull_update (\<lambda>_. True)), put (Tss2_MU_UINT16_Marshal 0)]
        else put (Tss2_MU_TPM2B_DATA_Marshal qualifyingData),
      put (Tss2_MU_TPMT_SIG_SCHEME_Marshal inScheme),
      put (Tss2_MU_UINT16_Marshal size'),
      put (Tss2_MU_UINT16_Marshal offset),
      assign (flags True True True),
      CommonPrepareEpilogue]
     sysContext"

definition Tss2_Sys_NV_Certify_Complete where
  "Tss2_Sys_NV_Certify_Complete sysContext certifyInfo signature = steps
     [on_fst (null_check []),
      on_fst CommonComplete,
      get_out Tss2_MU_TPM2B_ATTEST_Unmarshal,
      skip_out (get_out Tss2_MU_TPMT_SIGNATURE_Unmarshal)]
     (sysContext, certifyInfo, signature, ())"

definition Tss2_Sys_NV_Certify where
  "Tss2_Sys_NV_Certify sysContext signHandle authHandle nvIndex cmdAuthsArray qualifyingData inScheme size' offset certifyInfo signature rspAuthsArray = steps
     [ret (null_rc [Option.is_none inScheme]),
      on_fst (\<lambda>ctx. Tss2_Sys_NV_Certify_Prepare ctx signHandle authHandle nvIndex qualifyingData inScheme size' offset),
      on_rsp (CommonOneCall cmdAuthsArray),
      skip_out (\<lambda>(ctx, d1, d2, _). Tss2_Sys_NV_Certify_Complete ctx d1 d2)]
     (sysContext, rspAuthsArray, certifyInfo, signature, ())"

lemma NV_Certify_handles [simp]:
  "GetNumCommandHandles TPM2_CC_NV_Certify = 3" "GetNumResponseHandles TPM2_CC_NV_Certify = 0"
  using GetNumHandles_entry [of TPM2_CC_NV_Certify 3 0] by (simp_all add: commandArray_def)

interpretation prepare_NV_Certify: sys_prepare "\<lambda>ctx. Tss2_Sys_NV_Certify_Prepare ctx signHandle authHandle nvIndex qualifyingData inScheme size' offset" TPM2_CC_NV_Certify "True \<in> set [Option.is_none inScheme]"
  "opt_valid (src_TPM2B 66 64) qualifyingData \<and> opt_valid src_TPMT_SIG_SCHEME inScheme"
  "opt_valid (valid_TPM2B 64) qualifyingData \<and> ptr_valid valid_TPMT_SIG_SCHEME inScheme"
  "be_bytes signHandle @ be_bytes authHandle @ be_bytes nvIndex"
  "opt_wire wire_TPM2B qualifyingData @ ptr_wire wire_TPMT_SIG_SCHEME inScheme @ be_bytes size' @ be_bytes offset" "Option.is_none qualifyingData" True True True
  for signHandle authHandle nvIndex qualifyingData inScheme size' offset
  by (rule sys_prepareI [OF emits_Cons [OF emits_put [OF mu_UINT32.marshaler_axioms, of signHandle]
    emits_Cons [OF emits_put [OF mu_UINT32.marshaler_axioms, of authHandle]
    emits_Cons [OF emits_put [OF mu_UINT32.marshaler_axioms, of nvIndex]
    emits_Cons [OF emits_opt_null [OF mu_TPM2B_DATA.marshaler_axioms, of qualifyingData]
    emits_Cons [OF emits_ptr [OF mu_TPMT_SIG_SCHEME.marshaler_axioms null_TPMT_SIG_SCHEME, of inScheme]
    emits_Cons [OF emits_put [OF mu_UINT16.marshaler_axioms, of size']
    emits_Cons [OF emits_put [OF mu_UINT16.marshaler_axioms, of offset]
    emits_skip]]]]]]]])
    (simp_all add: Tss2_Sys_NV_Certify_Prepare_def weak_defs prepare_simps del: steps.simps)

interpretation complete_NV_Certify: sys_complete "\<lambda>(ctx, d1, d2, _). Tss2_Sys_NV_Certify_Complete ctx d1 d2" TPM2_CC_NV_Certify
  "\<lambda>(d1, d2, _). ptr_valid (wt_TPM2B 2304) d1 \<and> ptr_valid wt_TPMT_SIGNATURE d2"
  "\<lambda>(d1, d2, _). ptr_valid (valid_TPM2B 2304) d1 \<and> ptr_valid valid_TPMT_SIGNATURE d2"
  "\<lambda>(_, _, _). []"
  "\<lambda>(d1, d2, _). ptr_wire wire_TPM2B d1 @ ptr_wire wire_TPMT_SIGNATURE d2"
  by (rule sys_completeI [OF sys_complete_plain [OF reads_Cons [OF mu_TPM2B_ATTEST.unmarshaler_axioms
    reads_Cons [OF mu_TPMT_SIGNATURE.unmarshaler_axioms
    reads_Nil]]]])
    (simp_all add: Tss2_Sys_NV_Certify_Complete_def split_paired_all del: steps.simps)

interpretation cmd_NV_Certify: sys_command "\<lambda>ctx. Tss2_Sys_NV_Certify_Prepare ctx signHandle authHandle nvIndex qualifyingData inScheme size' offset"
  "\<lambda>(ctx, d1, d2, _). Tss2_Sys_NV_Certify_Complete ctx d1 d2" TPM2_CC_NV_Certify "True \<in> set [Option.is_none inScheme]"
  "opt_valid (src_TPM2B 66 64) qualifyingData \<and> opt_valid src_TPMT_SIG_SCHEME inScheme"
  "opt_valid (valid_TPM2B 64) qualifyingData \<and> ptr_valid valid_TPMT_SIG_SCHEME inScheme"
  "be_bytes signHandle @ be_bytes authHandle @ be_bytes nvIndex"
  "opt_wire wire_TPM2B qualifyingData @ ptr_wire wire_TPMT_SIG_SCHEME inScheme @ be_bytes size' @ be_bytes offset" "Option.is_none qualifyingData" True True True
  "\<lambda>(d1, d2, _). ptr_valid (wt_TPM2B 2304) d1 \<and> ptr_valid wt_TPMT_SIGNATURE d2"
  "\<lambda>(d1, d2, _). ptr_valid (valid_TPM2B 2304) d1 \<and> ptr_valid valid_TPMT_SIGNATURE d2"
  "\<lambda>(_, _, _). []"
  "\<lambda>(d1, d2, _). ptr_wire wire_TPM2B d1 @ ptr_wire wire_TPMT_SIGNATURE d2"
  "\<lambda>(ctx, rsp, d1, d2, _). Tss2_Sys_NV_Certify ctx signHandle authHandle nvIndex cmdAuthsArray qualifyingData inScheme size' offset d1 d2 rsp" cmdAuthsArray
  for signHandle authHandle nvIndex qualifyingData inScheme size' offset cmdAuthsArray
  by (rule sys_command.intro [OF prepare_NV_Certify.sys_prepare_axioms complete_NV_Certify.sys_complete_axioms sys_command_axioms.intro])
    (auto simp: Tss2_Sys_NV_Certify_def one_call_def one_call_simps null_rc_def dest!: ptr_valid_some simp del: steps.simps)

subsection \<open>NV ChangeAuth\<close>

definition Tss2_Sys_NV_ChangeAuth_Prepare where
  "Tss2_Sys_NV_ChangeAuth_Prepare sysContext nvIndex newAuth = steps
     [null_check [],
      CommonPreparePrologue TPM2_CC_NV_ChangeAuth,
      put (Tss2_MU_UINT32_Marshal nvIndex),
      if Option.is_none newAuth
        then put (Tss2_MU_UINT16_Marshal 0)
        else put (Tss2_MU_TPM2B_AUTH_Marshal newAuth),
      assign (flags True False True),
      CommonPrepareEpilogue]
     sysContext"

definition Tss2_Sys_NV_ChangeAuth_Complete where
  "Tss2_Sys_NV_ChangeAuth_Complete sysContext = steps
     [on_fst (null_check []),
      on_fst CommonComplete]
     (sysContext, ())"

definition Tss2_Sys_NV_ChangeAuth where
  "Tss2_Sys_NV_ChangeAuth sysContext nvIndex cmdAuthsArray newAuth rspAuthsArray = steps
     [on_fst (\<lambda>ctx. Tss2_Sys_NV_ChangeAuth_Prepare ctx nvIndex newAuth),
      on_rsp (CommonOneCall cmdAuthsArray),
      skip_out (\<lambda>(ctx, _). Tss2_Sys_NV_ChangeAuth_Complete ctx)]
     (sysContext, rspAuthsArray, ())"

lemma NV_ChangeAuth_handles [simp]:
  "GetNumCommandHandles TPM2_CC_NV_ChangeAuth = 1" "GetNumResponseHandles TPM2_CC_NV_ChangeAuth = 0"
  using GetNumHandles_entry [of TPM2_CC_NV_ChangeAuth 1 0] by (simp_all add: commandArray_def)

interpretation prepare_NV_ChangeAuth: sys_prepare "\<lambda>ctx. Tss2_Sys_NV_ChangeAuth_Prepare ctx nvIndex newAuth" TPM2_CC_NV_ChangeAuth "True \<in> set []"
  "opt_valid (src_TPM2B 66 64) newAuth"
  "opt_valid (valid_TPM2B 64) newAuth"
  "be_bytes nvIndex"
  "opt_wire wire_TPM2B newAuth" "False" True False True
  for nvIndex newAuth
  by (rule sys_prepareI [OF emits_Cons [OF emits_put [OF mu_UINT32.marshaler_axioms, of nvIndex]
    emits_Cons [OF emits_opt [OF mu_TPM2B_AUTH.marshaler_axioms, of newAuth]
    emits_skip]]])
    (simp_all add: Tss2_Sys_NV_ChangeAuth_Prepare_def weak_defs prepare_simps del: steps.simps)

interpretation complete_NV_ChangeAuth: sys_complete "\<lambda>(ctx, _). Tss2_Sys_NV_ChangeAuth_Complete ctx" TPM2_CC_NV_ChangeAuth
  "\<lambda>(_). True"
  "\<lambda>(_). True"
  "\<lambda>(_). []"
  "\<lambda>(_). []"
  by (rule sys_completeI [OF sys_complete_plain [OF reads_Nil]])
    (simp_all add: Tss2_Sys_NV_ChangeAuth_Complete_def split_paired_all del: steps.simps)

interpretation cmd_NV_ChangeAuth: sys_command "\<lambda>ctx. Tss2_Sys_NV_ChangeAuth_Prepare ctx nvIndex newAuth"
  "\<lambda>(ctx, _). Tss2_Sys_NV_ChangeAuth_Complete ctx" TPM2_CC_NV_ChangeAuth "True \<in> set []"
  "opt_valid (src_TPM2B 66 64) newAuth"
  "opt_valid (valid_TPM2B 64) newAuth"
  "be_bytes nvIndex"
  "opt_wire wire_TPM2B newAuth" "False" True False True
  "\<lambda>(_). True"
  "\<lambda>(_). True"
  "\<lambda>(_). []"
  "\<lambda>(_). []"
  "\<lambda>(ctx, rsp, _). Tss2_Sys_NV_ChangeAuth ctx nvIndex cmdAuthsArray newAuth rsp" cmdAuthsArray
  for nvIndex newAuth cmdAuthsArray
  by (rule sys_command.intro [OF prepare_NV_ChangeAuth.sys_prepare_axioms complete_NV_ChangeAuth.sys_complete_axioms sys_command_axioms.intro])
    (auto simp: Tss2_Sys_NV_ChangeAuth_def one_call_def one_call_simps null_rc_def dest!: ptr_valid_some simp del: steps.simps)

subsection \<open>NV DefineSpace\<close>

definition Tss2_Sys_NV_DefineSpace_Prepare where
  "Tss2_Sys_NV_DefineSpace_Prepare sysContext authHandle auth publicInfo = steps
     [null_check [],
      ret (ValidateNV_Public publicInfo),
      CommonPreparePrologue TPM2_CC_NV_DefineSpace,
      put (Tss2_MU_UINT32_Marshal authHandle),
      if Option.is_none auth
        then steps [assign (ctx_decryptNull_update (\<lambda>_. True)), put (Tss2_MU_UINT16_Marshal 0)]
        else put (Tss2_MU_TPM2B_AUTH_Marshal auth),
      if Option.is_none publicInfo
        then put (Tss2_MU_UINT16_Marshal 0)
        else put (Tss2_MU_TPM2B_NV_PUBLIC_Marshal publicInfo),
      assign (flags True False True),
      CommonPrepareEpilogue]
     sysContext"

definition Tss2_Sys_NV_DefineSpace_Complete where
  "Tss2_Sys_NV_DefineSpace_Complete sysContext = steps
     [on_fst (null_check []),
      on_fst CommonComplete]
     (sysContext, ())"

definition Tss2_Sys_NV_DefineSpace where
  "Tss2_Sys_NV_DefineSpace sysContext authHandle cmdAuthsArray auth publicInfo rspAuthsArray = steps
     [on_fst (\<lambda>ctx. Tss2_Sys_NV_DefineSpace_Prepare ctx authHandle auth publicInfo),
      on_rsp (CommonOneCall cmdAuthsArray),
      skip_out (\<lambda>(ctx, _). Tss2_Sys_NV_DefineSpace_Complete ctx)]
     (sysContext, rspAuthsArray, ())"

lemma NV_DefineSpace_handles [simp]:
  "GetNumCommandHandles TPM2_CC_NV_DefineSpace = 1" "GetNumResponseHandles TPM2_CC_NV_DefineSpace = 0"
  using GetNumHandles_entry [of TPM2_CC_NV_DefineSpace 1 0] by (simp_all add: commandArray_def)

interpretation prepare_NV_DefineSpace: sys_prepare "\<lambda>ctx. Tss2_Sys_NV_DefineSpace_Prepare ctx authHandle auth publicInfo" TPM2_CC_NV_DefineSpace "True \<in> set []"
  "opt_valid (src_TPM2B 66 64) auth \<and> opt_valid (\<lambda>s. src_TPMS_NV_PUBLIC (TPM2B_SUBTYPE_member s)) publicInfo"
  "opt_valid (valid_TPM2B 64) auth \<and> opt_valid (\<lambda>s. valid_TPMS_NV_PUBLIC (TPM2B_SUBTYPE_member s)) publicInfo"
  "be_bytes authHandle"
  "opt_wire wire_TPM2B auth @ opt_wire (wire_SUBTYPE wire_TPMS_NV_PUBLIC) publicInfo" "Option.is_none auth" True False True
  for authHandle auth publicInfo
  by (rule sys_prepareI [OF emits_Cons [OF emits_put [OF mu_UINT32.marshaler_axioms, of authHandle]
    emits_Cons [OF emits_opt_null [OF mu_TPM2B_AUTH.marshaler_axioms, of auth]
    emits_Cons [OF emits_opt [OF mu_TPM2B_NV_PUBLIC.marshaler_axioms, of publicInfo]
    emits_skip]]]])
    (simp_all add: Tss2_Sys_NV_DefineSpace_Prepare_def weak_defs prepare_simps del: steps.simps)

interpretation complete_NV_DefineSpace: sys_complete "\<lambda>(ctx, _). Tss2_Sys_NV_DefineSpace_Complete ctx" TPM2_CC_NV_DefineSpace
  "\<lambda>(_). True"
  "\<lambda>(_). True"
  "\<lambda>(_). []"
  "\<lambda>(_). []"
  by (rule sys_completeI [OF sys_complete_plain [OF reads_Nil]])
    (simp_all add: Tss2_Sys_NV_DefineSpace_Complete_def split_paired_all del: steps.simps)

interpretation cmd_NV_DefineSpace: sys_command "\<lambda>ctx. Tss2_Sys_NV_DefineSpace_Prepare ctx authHandle auth publicInfo"
  "\<lambda>(ctx, _). Tss2_Sys_NV_DefineSpace_Complete ctx" TPM2_CC_NV_DefineSpace "True \<in> set []"
  "opt_valid (src_TPM2B 66 64) auth \<and> opt_valid (\<lambda>s. src_TPMS_NV_PUBLIC (TPM2B_SUBTYPE_member s)) publicInfo"
  "opt_valid (valid_TPM2B 64) auth \<and> opt_valid (\<lambda>s. valid_TPMS_NV_PUBLIC (TPM2B_SUBTYPE_member s)) publicInfo"
  "be_bytes authHandle"
  "opt_wire wire_TPM2B auth @ opt_wire (wire_SUBTYPE wire_TPMS_NV_PUBLIC) publicInfo" "Option.is_none auth" True False True
  "\<lambda>(_). True"
  "\<lambda>(_). True"
  "\<lambda>(_). []"
  "\<lambda>(_). []"
  "\<lambda>(ctx, rsp, _). Tss2_Sys_NV_DefineSpace ctx authHandle cmdAuthsArray auth publicInfo rsp" cmdAuthsArray
  for authHandle auth publicInfo cmdAuthsArray
  by (rule sys_command.intro [OF prepare_NV_DefineSpace.sys_prepare_axioms complete_NV_DefineSpace.sys_complete_axioms sys_command_axioms.intro])
    (auto simp: Tss2_Sys_NV_DefineSpace_def one_call_def one_call_simps null_rc_def dest!: ptr_valid_some simp del: steps.simps)

subsection \<open>NV Extend\<close>

definition Tss2_Sys_NV_Extend_Prepare where
  "Tss2_Sys_NV_Extend_Prepare sysContext authHandle nvIndex data' = steps
     [null_check [],
      CommonPreparePrologue TPM2_CC_NV_Extend,
      put (Tss2_MU_UINT32_Marshal authHandle),
      put (Tss2_MU_UINT32_Marshal nvIndex),
      if Option.is_none data'
        then put (Tss2_MU_UINT16_Marshal 0)
        else put (Tss2_MU_TPM2B_MAX_NV_BUFFER_Marshal data'),
      assign (flags True False True),
      CommonPrepareEpilogue]
     sysContext"

definition Tss2_Sys_NV_Extend_Complete where
  "Tss2_Sys_NV_Extend_Complete sysContext = steps
     [on_fst (null_check []),
      on_fst CommonComplete]
     (sysContext, ())"

definition Tss2_Sys_NV_Extend where
  "Tss2_Sys_NV_Extend sysContext authHandle nvIndex cmdAuthsArray data' rspAuthsArray = steps
     [on_fst (\<lambda>ctx. Tss2_Sys_NV_Extend_Prepare ctx authHandle nvIndex data'),
      on_rsp (CommonOneCall cmdAuthsArray),
      skip_out (\<lambda>(ctx, _). Tss2_Sys_NV_Extend_Complete ctx)]
     (sysContext, rspAuthsArray, ())"

lemma NV_Extend_handles [simp]:
  "GetNumCommandHandles TPM2_CC_NV_Extend = 2" "GetNumResponseHandles TPM2_CC_NV_Extend = 0"
  using GetNumHandles_entry [of TPM2_CC_NV_Extend 2 0] by (simp_all add: commandArray_def)

interpretation prepare_NV_Extend: sys_prepare "\<lambda>ctx. Tss2_Sys_NV_Extend_Prepare ctx authHandle nvIndex data'" TPM2_CC_NV_Extend "True \<in> set []"
  "opt_valid (src_TPM2B 2050 2048) data'"
  "opt_valid (valid_TPM2B 2048) data'"
  "be_bytes authHandle @ be_bytes nvIndex"
  "opt_wire wire_TPM2B data'" "False" True False True
  for authHandle nvIndex data'
  by (rule sys_prepareI [OF emits_Cons [OF emits_put [OF mu_UINT32.marshaler_axioms, of authHandle]
    emits_Cons [OF emits_put [OF mu_UINT32.marshaler_axioms, of nvIndex]
    emits_Cons [OF emits_opt [OF mu_TPM2B_MAX_NV_BUFFER.marshaler_axioms, of data']
    emits_skip]]]])
    (simp_all add: Tss2_Sys_NV_Extend_Prepare_def weak_defs prepare_simps del: steps.simps)

interpretation complete_NV_Extend: sys_complete "\<lambda>(ctx, _). Tss2_Sys_NV_Extend_Complete ctx" TPM2_CC_NV_Extend
  "\<lambda>(_). True"
  "\<lambda>(_). True"
  "\<lambda>(_). []"
  "\<lambda>(_). []"
  by (rule sys_completeI [OF sys_complete_plain [OF reads_Nil]])
    (simp_all add: Tss2_Sys_NV_Extend_Complete_def split_paired_all del: steps.simps)

interpretation cmd_NV_Extend: sys_command "\<lambda>ctx. Tss2_Sys_NV_Extend_Prepare ctx authHandle nvIndex data'"
  "\<lambda>(ctx, _). Tss2_Sys_NV_Extend_Complete ctx" TPM2_CC_NV_Extend "True \<in> set []"
  "opt_valid (src_TPM2B 2050 2048) data'"
  "opt_valid (valid_TPM2B 2048) data'"
  "be_bytes authHandle @ be_bytes nvIndex"
  "opt_wire wire_TPM2B data'" "False" True False True
  "\<lambda>(_). True"
  "\<lambda>(_). True"
  "\<lambda>(_). []"
  "\<lambda>(_). []"
  "\<lambda>(ctx, rsp, _). Tss2_Sys_NV_Extend ctx authHandle nvIndex cmdAuthsArray data' rsp" cmdAuthsArray
  for authHandle nvIndex data' cmdAuthsArray
  by (rule sys_command.intro [OF prepare_NV_Extend.sys_prepare_axioms complete_NV_Extend.sys_complete_axioms sys_command_axioms.intro])
    (auto simp: Tss2_Sys_NV_Extend_def one_call_def one_call_simps null_rc_def dest!: ptr_valid_some simp del: steps.simps)

subsection \<open>NV GlobalWriteLock\<close>

definition Tss2_Sys_NV_GlobalWriteLock_Prepare where
  "Tss2_Sys_NV_GlobalWriteLock_Prepare sysContext authHandle = steps
     [null_check [],
      CommonPreparePrologue TPM2_CC_NV_GlobalWriteLock,
      put (Tss2_MU_UINT32_Marshal authHandle),
      assign (flags False False True),
      CommonPrepareEpilogue]
     sysContext"

definition Tss2_Sys_NV_GlobalWriteLock_Complete where
  "Tss2_Sys_NV_GlobalWriteLock_Complete sysContext = steps
     [on_fst (null_check []),
      on_fst CommonComplete]
     (sysContext, ())"

definition Tss2_Sys_NV_GlobalWriteLock where
  "Tss2_Sys_NV_GlobalWriteLock sysContext authHandle cmdAuthsArray rspAuthsArray = steps
     [on_fst (\<lambda>ctx. Tss2_Sys_NV_GlobalWriteLock_Prepare ctx authHandle),
      on_rsp (CommonOneCall cmdAuthsArray),
      skip_out (\<lambda>(ctx, _). Tss2_Sys_NV_GlobalWriteLock_Complete ctx)]
     (sysContext, rspAuthsArray, ())"

lemma NV_GlobalWriteLock_handles [simp]:
  "GetNumCommandHandles TPM2_CC_NV_GlobalWriteLock = 1" "GetNumResponseHandles TPM2_CC_NV_GlobalWriteLock = 0"
  using GetNumHandles_entry [of TPM2_CC_NV_GlobalWriteLock 1 0] by (simp_all add: commandArray_def)

interpretation prepare_NV_GlobalWriteLock: sys_prepare "\<lambda>ctx. Tss2_Sys_NV_GlobalWriteLock_Prepare ctx authHandle" TPM2_CC_NV_GlobalWriteLock "True \<in> set []"
  "True"
  "True"
  "be_bytes authHandle"
  "[]" "False" False False True
  for authHandle
  by (rule sys_prepareI [OF emits_Cons [OF emits_put [OF mu_UINT32.marshaler_axioms, of authHandle]
    emits_skip]])
    (simp_all add: Tss2_Sys_NV_GlobalWriteLock_Prepare_def weak_defs prepare_simps del: steps.simps)

interpretation complete_NV_GlobalWriteLock: sys_complete "\<lambda>(ctx, _). Tss2_Sys_NV_GlobalWriteLock_Complete ctx" TPM2_CC_NV_GlobalWriteLock
  "\<lambda>(_). True"
  "\<lambda>(_). True"
  "\<lambda>(_). []"
  "\<lambda>(_). []"
  by (rule sys_completeI [OF sys_complete_plain [OF reads_Nil]])
    (simp_all add: Tss2_Sys_NV_GlobalWriteLock_Complete_def split_paired_all del: steps.simps)

interpretation cmd_NV_GlobalWriteLock: sys_command "\<lambda>ctx. Tss2_Sys_NV_GlobalWriteLock_Prepare ctx authHandle"
  "\<lambda>(ctx, _). Tss2_Sys_NV_GlobalWriteLock_Complete ctx" TPM2_CC_NV_GlobalWriteLock "True \<in> set []"
  "True"
  "True"
  "be_bytes authHandle"
  "[]" "False" False False True
  "\<lambda>(_). True"
  "\<lambda>(_). True"
  "\<lambda>(_). []"
  "\<lambda>(_). []"
  "\<lambda>(ctx, rsp, _). Tss2_Sys_NV_GlobalWriteLock ctx authHandle cmdAuthsArray rsp" cmdAuthsArray
  for authHandle cmdAuthsArray
  by (rule sys_command.intro [OF prepare_NV_GlobalWriteLock.sys_prepare_axioms complete_NV_GlobalWriteLock.sys_complete_axioms sys_command_axioms.intro])
    (auto simp: Tss2_Sys_NV_GlobalWriteLock_def one_call_def one_call_simps null_rc_def dest!: ptr_valid_some simp del: steps.simps)

subsection \<open>NV Increment\<close>

definition Tss2_Sys_NV_Increment_Prepare where
  "Tss2_Sys_NV_Increment_Prepare sysContext authHandle nvIndex = steps
     [null_check [],
      CommonPreparePrologue TPM2_CC_NV_Increment,
      put (Tss2_MU_UINT32_Marshal authHandle),
      put (Tss2_MU_UINT32_Marshal nvIndex),
      assign (flags False False True),
      CommonPrepareEpilogue]
     sysContext"

definition Tss2_Sys_NV_Increment_Complete where
  "Tss2_Sys_NV_Increment_Complete sysContext = steps
     [on_fst (null_check []),
      on_fst CommonComplete]
     (sysContext, ())"

definition Tss2_Sys_NV_Increment where
  "Tss2_Sys_NV_Increment sysContext authHandle nvIndex cmdAuthsArray rspAuthsArray = steps
     [on_fst (\<lambda>ctx. Tss2_Sys_NV_Increment_Prepare ctx authHandle nvIndex),
      on_rsp (CommonOneCall cmdAuthsArray),
      skip_out (\<lambda>(ctx, _). Tss2_Sys_NV_Increment_Complete ctx)]
     (sysContext, rspAuthsArray, ())"

lemma NV_Increment_handles [simp]:
  "GetNumCommandHandles TPM2_CC_NV_Increment = 2" "GetNumResponseHandles TPM2_CC_NV_Increment = 0"
  using GetNumHandles_entry [of TPM2_CC_NV_Increment 2 0] by (simp_all add: commandArray_def)

interpretation prepare_NV_Increment: sys_prepare "\<lambda>ctx. Tss2_Sys_NV_Increment_Prepare ctx authHandle nvIndex" TPM2_CC_NV_Increment "True \<in> set []"
  "True"
  "True"
  "be_bytes authHandle @ be_bytes nvIndex"
  "[]" "False" False False True
  for authHandle nvIndex
  by (rule sys_prepareI [OF emits_Cons [OF emits_put [OF mu_UINT32.marshaler_axioms, of authHandle]
    emits_Cons [OF emits_put [OF mu_UINT32.marshaler_axioms, of nvIndex]
    emits_skip]]])
    (simp_all add: Tss2_Sys_NV_Increment_Prepare_def weak_defs prepare_simps del: steps.simps)

interpretation complete_NV_Increment: sys_complete "\<lambda>(ctx, _). Tss2_Sys_NV_Increment_Complete ctx" TPM2_CC_NV_Increment
  "\<lambda>(_). True"
  "\<lambda>(_). True"
  "\<lambda>(_). []"
  "\<lambda>(_). []"
  by (rule sys_completeI [OF sys_complete_plain [OF reads_Nil]])
    (simp_all add: Tss2_Sys_NV_Increment_Complete_def split_paired_all del: steps.simps)

interpretation cmd_NV_Increment: sys_command "\<lambda>ctx. Tss2_Sys_NV_Increment_Prepare ctx authHandle nvIndex"
  "\<lambda>(ctx, _). Tss2_Sys_NV_Increment_Complete ctx" TPM2_CC_NV_Increment "True \<in> set []"
  "True"
  "True"
  "be_bytes authHandle @ be_bytes nvIndex"
  "[]" "False" False False True
  "\<lambda>(_). True"
  "\<lambda>(_). True"
  "\<lambda>(_). []"
  "\<lambda>(_). []"
  "\<lambda>(ctx, rsp, _). Tss2_Sys_NV_Increment ctx authHandle nvIndex cmdAuthsArray rsp" cmdAuthsArray
  for authHandle nvIndex cmdAuthsArray
  by (rule sys_command.intro [OF prepare_NV_Increment.sys_prepare_axioms complete_NV_Increment.sys_complete_axioms sys_command_axioms.intro])
    (auto simp: Tss2_Sys_NV_Increment_def one_call_def one_call_simps null_rc_def dest!: ptr_valid_some simp del: steps.simps)

subsection \<open>NV Read\<close>

definition Tss2_Sys_NV_Read_Prepare where
  "Tss2_Sys_NV_Read_Prepare sysContext authHandle nvIndex size' offset = steps
     [null_check [],
      CommonPreparePrologue TPM2_CC_NV_Read,
      put (Tss2_MU_UINT32_Marshal authHandle),
      put (Tss2_MU_UINT32_Marshal nvIndex),
      put (Tss2_MU_UINT16_Marshal size'),
      put (Tss2_MU_UINT16_Marshal offset),
      assign (flags False True True),
      CommonPrepareEpilogue]
     sysContext"

definition Tss2_Sys_NV_Read_Complete where
  "Tss2_Sys_NV_Read_Complete sysContext data' = steps
     [on_fst (null_check []),
      on_fst CommonComplete,
      get_out Tss2_MU_TPM2B_MAX_NV_BUFFER_Unmarshal]
     (sysContext, data', ())"

definition Tss2_Sys_NV_Read where
  "Tss2_Sys_NV_Read sysContext authHandle nvIndex cmdAuthsArray size' offset data' rspAuthsArray = steps
     [on_fst (\<lambda>ctx. Tss2_Sys_NV_Read_Prepare ctx authHandle nvIndex size' offset),
      on_rsp (CommonOneCall cmdAuthsArray),
      skip_out (\<lambda>(ctx, d1, _). Tss2_Sys_NV_Read_Complete ctx d1)]
     (sysContext, rspAuthsArray, data', ())"

lemma NV_Read_handles [simp]:
  "GetNumCommandHandles TPM2_CC_NV_Read = 2" "GetNumResponseHandles TPM2_CC_NV_Read = 0"
  using GetNumHandles_entry [of TPM2_CC_NV_Read 2 0] by (simp_all add: commandArray_def)

interpretation prepare_NV_Read: sys_prepare "\<lambda>ctx. Tss2_Sys_NV_Read_Prepare ctx authHandle nvIndex size' offset" TPM2_CC_NV_Read "True \<in> set []"
  "True"
  "True"
  "be_bytes authHandle @ be_bytes nvIndex"
  "be_bytes size' @ be_bytes offset" "False" False True True
  for authHandle nvIndex size' offset
  by (rule sys_prepareI [OF emits_Cons [OF emits_put [OF mu_UINT32.marshaler_axioms, of authHandle]
    emits_Cons [OF emits_put [OF mu_UINT32.marshaler_axioms, of nvIndex]
    emits_Cons [OF emits_put [OF mu_UINT16.marshaler_axioms, of size']
    emits_Cons [OF emits_put [OF mu_UINT16.marshaler_axioms, of offset]
    emits_skip]]]]])
    (simp_all add: Tss2_Sys_NV_Read_Prepare_def weak_defs prepare_simps del: steps.simps)

interpretation complete_NV_Read: sys_complete "\<lambda>(ctx, d1, _). Tss2_Sys_NV_Read_Complete ctx d1" TPM2_CC_NV_Read
  "\<lambda>(d1, _). ptr_valid (wt_TPM2B 2048) d1"
  "\<lambda>(d1, _). ptr_valid (valid_TPM2B 2048) d1"
  "\<lambda>(_, _). []"
  "\<lambda>(d1, _). ptr_wire wire_TPM2B d1"
  by (rule sys_completeI [OF sys_complete_plain [OF reads_Cons [OF mu_TPM2B_MAX_NV_BUFFER.unmarshaler_axioms
    reads_Nil]]])
    (simp_all add: Tss2_Sys_NV_Read_Complete_def split_paired_all del: steps.simps)

interpretation cmd_NV_Read: sys_command "\<lambda>ctx. Tss2_Sys_NV_Read_Prepare ctx authHandle nvIndex size' offset"
  "\<lambda>(ctx, d1, _). Tss2_Sys_NV_Read_Complete ctx d1" TPM2_CC_NV_Read "True \<in> set []"
  "True"
  "True"
  "be_bytes authHandle @ be_bytes nvIndex"
  "be_bytes size' @ be_bytes offset" "False" False True True
  "\<lambda>(d1, _). ptr_valid (wt_TPM2B 2048) d1"
  "\<lambda>(d1, _). ptr_valid (valid_TPM2B 2048) d1"
  "\<lambda>(_, _). []"
  "\<lambda>(d1, _). ptr_wire wire_TPM2B d1"
  "\<lambda>(ctx, rsp, d1, _). Tss2_Sys_NV_Read ctx authHandle nvIndex cmdAuthsArray size' offset d1 rsp" cmdAuthsArray
  for authHandle nvIndex size' offset cmdAuthsArray
  by (rule sys_command.intro [OF prepare_NV_Read.sys_prepare_axioms complete_NV_Read.sys_complete_axioms sys_command_axioms.intro])
    (auto simp: Tss2_Sys_NV_Read_def one_call_def one_call_simps null_rc_def dest!: ptr_valid_some simp del: steps.simps)

subsection \<open>NV ReadLock\<close>

definition Tss2_Sys_NV_ReadLock_Prepare where
  "Tss2_Sys_NV_ReadLock_Prepare sysContext authHandle nvIndex = steps
     [null_check [],
      CommonPreparePrologue TPM2_CC_NV_ReadLock,
      put (Tss2_MU_UINT32_Marshal authHandle),
      put (Tss2_MU_UINT32_Marshal nvIndex),
      assign (flags False False True),
      CommonPrepareEpilogue]
     sysContext"

definition Tss2_Sys_NV_ReadLock_Complete where
  "Tss2_Sys_NV_ReadLock_Complete sysContext = steps
     [on_fst (null_check []),
      on_fst CommonComplete]
     (sysContext, ())"

definition Tss2_Sys_NV_ReadLock where
  "Tss2_Sys_NV_ReadLock sysContext authHandle nvIndex cmdAuthsArray rspAuthsArray = steps
     [on_fst (\<lambda>ctx. Tss2_Sys_NV_ReadLock_Prepare ctx authHandle nvIndex),
      on_rsp (CommonOneCall cmdAuthsArray),
      skip_out (\<lambda>(ctx, _). Tss2_Sys_NV_ReadLock_Complete ctx)]
     (sysContext, rspAuthsArray, ())"

lemma NV_ReadLock_handles [simp]:
  "GetNumCommandHandles TPM2_CC_NV_ReadLock = 2" "GetNumResponseHandles TPM2_CC_NV_ReadLock = 0"
  using GetNumHandles_entry [of TPM2_CC_NV_ReadLock 2 0] by (simp_all add: commandArray_def)

interpretation prepare_NV_ReadLock: sys_prepare "\<lambda>ctx. Tss2_Sys_NV_ReadLock_Prepare ctx authHandle nvIndex" TPM2_CC_NV_ReadLock "True \<in> set []"
  "True"
  "True"
  "be_bytes authHandle @ be_bytes nvIndex"
  "[]" "False" False False True
  for authHandle nvIndex
  by (rule sys_prepareI [OF emits_Cons [OF emits_put [OF mu_UINT32.marshaler_axioms, of authHandle]
    emits_Cons [OF emits_put [OF mu_UINT32.marshaler_axioms, of nvIndex]
    emits_skip]]])
    (simp_all add: Tss2_Sys_NV_ReadLock_Prepare_def weak_defs prepare_simps del: steps.simps)

interpretation complete_NV_ReadLock: sys_complete "\<lambda>(ctx, _). Tss2_Sys_NV_ReadLock_Complete ctx" TPM2_CC_NV_ReadLock
  "\<lambda>(_). True"
  "\<lambda>(_). True"
  "\<lambda>(_). []"
  "\<lambda>(_). []"
  by (rule sys_completeI [OF sys_complete_plain [OF reads_Nil]])
    (simp_all add: Tss2_Sys_NV_ReadLock_Complete_def split_paired_all del: steps.simps)

interpretation cmd_NV_ReadLock: sys_command "\<lambda>ctx. Tss2_Sys_NV_ReadLock_Prepare ctx authHandle nvIndex"
  "\<lambda>(ctx, _). Tss2_Sys_NV_ReadLock_Complete ctx" TPM2_CC_NV_ReadLock "True \<in> set []"
  "True"
  "True"
  "be_bytes authHandle @ be_bytes nvIndex"
  "[]" "False" False False True
  "\<lambda>(_). True"
  "\<lambda>(_). True"
  "\<lambda>(_). []"
  "\<lambda>(_). []"
  "\<lambda>(ctx, rsp, _). Tss2_Sys_NV_ReadLock ctx authHandle nvIndex cmdAuthsArray rsp" cmdAuthsArray
  for authHandle nvIndex cmdAuthsArray
  by (rule sys_command.intro [OF prepare_NV_ReadLock.sys_prepare_axioms complete_NV_ReadLock.sys_complete_axioms sys_command_axioms.intro])
    (auto simp: Tss2_Sys_NV_ReadLock_def one_call_def one_call_simps null_rc_def dest!: ptr_valid_some simp del: steps.simps)

subsection \<open>NV ReadPublic\<close>

definition Tss2_Sys_NV_ReadPublic_Prepare where
  "Tss2_Sys_NV_ReadPublic_Prepare sysContext nvIndex = steps
     [null_check [],
      CommonPreparePrologue TPM2_CC_NV_ReadPublic,
      put (Tss2_MU_UINT32_Marshal nvIndex),
      assign (flags False True True),
      CommonPrepareEpilogue]
     sysContext"

definition Tss2_Sys_NV_ReadPublic_Complete where
  "Tss2_Sys_NV_ReadPublic_Complete sysContext nvPublic nvName = steps
     [on_fst (null_check []),
      on_fst CommonComplete,
      get_out Tss2_MU_TPM2B_NV_PUBLIC_Unmarshal,
      skip_out (get_out Tss2_MU_TPM2B_NAME_Unmarshal)]
     (sysContext, nvPublic, nvName, ())"

definition Tss2_Sys_NV_ReadPublic where
  "Tss2_Sys_NV_ReadPublic sysContext nvIndex cmdAuthsArray nvPublic nvName rspAuthsArray = steps
     [on_fst (\<lambda>ctx. Tss2_Sys_NV_ReadPublic_Prepare ctx nvIndex),
      on_rsp (CommonOneCall cmdAuthsArray),
      skip_out (\<lambda>(ctx, d1, d2, _). Tss2_Sys_NV_ReadPublic_Complete ctx d1 d2)]
     (sysContext, rspAuthsArray, nvPublic, nvName, ())"

lemma NV_ReadPublic_handles [simp]:
  "GetNumCommandHandles TPM2_CC_NV_ReadPublic = 1" "GetNumResponseHandles TPM2_CC_NV_ReadPublic = 0"
  using GetNumHandles_entry [of TPM2_CC_NV_ReadPublic 1 0] by (simp_all add: commandArray_def)

interpretation prepare_NV_ReadPublic: sys_prepare "\<lambda>ctx. Tss2_Sys_NV_ReadPublic_Prepare ctx nvIndex" TPM2_CC_NV_ReadPublic "True \<in> set []"
  "True"
  "True"
  "be_bytes nvIndex"
  "[]" "False" False True True
  for nvIndex
  by (rule sys_prepareI [OF emits_Cons [OF emits_put [OF mu_UINT32.marshaler_axioms, of nvIndex]
    emits_skip]])
    (simp_all add: Tss2_Sys_NV_ReadPublic_Prepare_def weak_defs prepare_simps del: steps.simps)

interpretation complete_NV_ReadPublic: sys_complete "\<lambda>(ctx, d1, d2, _). Tss2_Sys_NV_ReadPublic_Complete ctx d1 d2" TPM2_CC_NV_ReadPublic
  "\<lambda>(d1, d2, _). ptr_valid (\<lambda>s. wt_TPMS_NV_PUBLIC (TPM2B_SUBTYPE_member s)) d1 \<and> ptr_valid (wt_TPM2B 68) d2"
  "\<lambda>(d1, d2, _). ptr_valid (\<lambda>s. valid_TPMS_NV_PUBLIC (TPM2B_SUBTYPE_member s)) d1 \<and> ptr_valid (valid_TPM2B 68) d2"
  "\<lambda>(_, _, _). []"
  "\<lambda>(d1, d2, _). ptr_wire (wire_SUBTYPE wire_TPMS_NV_PUBLIC) d1 @ ptr_wire wire_TPM2B d2"
  by (rule sys_completeI [OF sys_complete_plain [OF reads_Cons [OF mu_TPM2B_NV_PUBLIC.unmarshaler_axioms
    reads_Cons [OF mu_TPM2B_NAME.unmarshaler_axioms
    reads_Nil]]]])
    (simp_all add: Tss2_Sys_NV_ReadPublic_Complete_def split_paired_all del: steps.simps)

interpretation cmd_NV_ReadPublic: sys_command "\<lambda>ctx. Tss2_Sys_NV_ReadPublic_Prepare ctx nvIndex"
  "\<lambda>(ctx, d1, d2, _). Tss2_Sys_NV_ReadPublic_Complete ctx d1 d2" TPM2_CC_NV_ReadPublic "True \<in> set []"
  "True"
  "True"
  "be_bytes nvIndex"
  "[]" "False" False True True
  "\<lambda>(d1, d2, _). ptr_valid (\<lambda>s. wt_TPMS_NV_PUBLIC (TPM2B_SUBTYPE_member s)) d1 \<and> ptr_valid (wt_TPM2B 68) d2"
  "\<lambda>(d1, d2, _). ptr_valid (\<lambda>s. valid_TPMS_NV_PUBLIC (TPM2B_SUBTYPE_member s)) d1 \<and> ptr_valid (valid_TPM2B 68) d2"
  "\<lambda>(_, _, _). []"
  "\<lambda>(d1, d2, _). ptr_wire (wire_SUBTYPE wire_TPMS_NV_PUBLIC) d1 @ ptr_wire wire_TPM2B d2"
  "\<lambda>(ctx, rsp, d1, d2, _). Tss2_Sys_NV_ReadPublic ctx nvIndex cmdAuthsArray d1 d2 rsp" cmdAuthsArray
  for nvIndex cmdAuthsArray
  by (rule sys_command.intro [OF prepare_NV_ReadPublic.sys_prepare_axioms complete_NV_ReadPublic.sys_complete_axioms sys_command_axioms.intro])
    (auto simp: Tss2_Sys_NV_ReadPublic_def one_call_def one_call_simps null_rc_def dest!: ptr_valid_some simp del: steps.simps)

subsection \<open>NV SetBits\<close>

definition Tss2_Sys_NV_SetBits_Prepare where
  "Tss2_Sys_NV_SetBits_Prepare sysContext authHandle nvIndex bits = steps
     [null_check [],
      CommonPreparePrologue TPM2_CC_NV_SetBits,
      put (Tss2_MU_UINT32_Marshal authHandle),
      put (Tss2_MU_UINT32_Marshal nvIndex),
      put (Tss2_MU_UINT64_Marshal bits),
      assign (flags False False True),
      CommonPrepareEpilogue]
     sysContext"

definition Tss2_Sys_NV_SetBits_Complete where
  "Tss2_Sys_NV_SetBits_Complete sysContext = steps
     [on_fst (null_check []),
      on_fst CommonComplete]
     (sysContext, ())"

definition Tss2_Sys_NV_SetBits where
  "Tss2_Sys_NV_SetBits sysContext authHandle nvIndex cmdAuthsArray bits rspAuthsArray = steps
     [on_fst (\<lambda>ctx. Tss2_Sys_NV_SetBits_Prepare ctx authHandle nvIndex bits),
      on_rsp (CommonOneCall cmdAuthsArray),
      skip_out (\<lambda>(ctx, _). Tss2_Sys_NV_SetBits_Complete ctx)]
     (sysContext, rspAuthsArray, ())"

lemma NV_SetBits_handles [simp]:
  "GetNumCommandHandles TPM2_CC_NV_SetBits = 2" "GetNumResponseHandles TPM2_CC_NV_SetBits = 0"
  using GetNumHandles_entry [of TPM2_CC_NV_SetBits 2 0] by (simp_all add: commandArray_def)

interpretation prepare_NV_SetBits: sys_prepare "\<lambda>ctx. Tss2_Sys_NV_SetBits_Prepare ctx authHandle nvIndex bits" TPM2_CC_NV_SetBits "True \<in> set []"
  "True"
  "True"
  "be_bytes authHandle @ be_bytes nvIndex"
  "be_bytes bits" "False" False False True
  for authHandle nvIndex bits
  by (rule sys_prepareI [OF emits_Cons [OF emits_put [OF mu_UINT32.marshaler_axioms, of authHandle]
    emits_Cons [OF emits_put [OF mu_UINT32.marshaler_axioms, of nvIndex]
    emits_Cons [OF emits_put [OF mu_UINT64.marshaler_axioms, of bits]
    emits_skip]]]])
    (simp_all add: Tss2_Sys_NV_SetBits_Prepare_def weak_defs prepare_simps del: steps.simps)

interpretation complete_NV_SetBits: sys_complete "\<lambda>(ctx, _). Tss2_Sys_NV_SetBits_Complete ctx" TPM2_CC_NV_SetBits
  "\<lambda>(_). True"
  "\<lambda>(_). True"
  "\<lambda>(_). []"
  "\<lambda>(_). []"
  by (rule sys_completeI [OF sys_complete_plain [OF reads_Nil]])
    (simp_all add: Tss2_Sys_NV_SetBits_Complete_def split_paired_all del: steps.simps)

interpretation cmd_NV_SetBits: sys_command "\<lambda>ctx. Tss2_Sys_NV_SetBits_Prepare ctx authHandle nvIndex bits"
  "\<lambda>(ctx, _). Tss2_Sys_NV_SetBits_Complete ctx" TPM2_CC_NV_SetBits "True \<in> set []"
  "True"
  "True"
  "be_bytes authHandle @ be_bytes nvIndex"
  "be_bytes bits" "False" False False True
  "\<lambda>(_). True"
  "\<lambda>(_). True"
  "\<lambda>(_). []"
  "\<lambda>(_). []"
  "\<lambda>(ctx, rsp, _). Tss2_Sys_NV_SetBits ctx authHandle nvIndex cmdAuthsArray bits rsp" cmdAuthsArray
  for authHandle nvIndex bits cmdAuthsArray
  by (rule sys_command.intro [OF prepare_NV_SetBits.sys_prepare_axioms complete_NV_SetBits.sys_complete_axioms sys_command_axioms.intro])
    (auto simp: Tss2_Sys_NV_SetBits_def one_call_def one_call_simps null_rc_def dest!: ptr_valid_some simp del: steps.simps)

subsection \<open>NV UndefineSpace\<close>

definition Tss2_Sys_NV_UndefineSpace_Prepare where
  "Tss2_Sys_NV_UndefineSpace_Prepare sysContext authHandle nvIndex = steps
     [null_check [],
      CommonPreparePrologue TPM2_CC_NV_UndefineSpace,
      put (Tss2_MU_UINT32_Marshal authHandle),
      put (Tss2_MU_UINT32_Marshal nvIndex),
      assign (flags False False True),
      CommonPrepareEpilogue]
     sysContext"

definition Tss2_Sys_NV_UndefineSpace_Complete where
  "Tss2_Sys_NV_UndefineSpace_Complete sysContext = steps
     [on_fst (null_check []),
      on_fst CommonComplete]
     (sysContext, ())"

definition Tss2_Sys_NV_UndefineSpace where
  "Tss2_Sys_NV_UndefineSpace sysContext authHandle nvIndex cmdAuthsArray rspAuthsArray = steps
     [on_fst (\<lambda>ctx. Tss2_Sys_NV_UndefineSpace_Prepare ctx authHandle nvIndex),
      on_rsp (CommonOneCall cmdAuthsArray),
      skip_out (\<lambda>(ctx, _). Tss2_Sys_NV_UndefineSpace_Complete ctx)]
     (sysContext, rspAuthsArray, ())"

lemma NV_UndefineSpace_handles [simp]:
  "GetNumCommandHandles TPM2_CC_NV_UndefineSpace = 2" "GetNumResponseHandles TPM2_CC_NV_UndefineSpace = 0"
  using GetNumHandles_entry [of TPM2_CC_NV_UndefineSpace 2 0] by (simp_all add: commandArray_def)

interpretation prepare_NV_UndefineSpace: sys_prepare "\<lambda>ctx. Tss2_Sys_NV_UndefineSpace_Prepare ctx authHandle nvIndex" TPM2_CC_NV_UndefineSpace "True \<in> set []"
  "True"
  "True"
  "be_bytes authHandle @ be_bytes nvIndex"
  "[]" "False" False False True
  for authHandle nvIndex
  by (rule sys_prepareI [OF emits_Cons [OF emits_put [OF mu_UINT32.marshaler_axioms, of authHandle]
    emits_Cons [OF emits_put [OF mu_UINT32.marshaler_axioms, of nvIndex]
    emits_skip]]])
    (simp_all add: Tss2_Sys_NV_UndefineSpace_Prepare_def weak_defs prepare_simps del: steps.simps)

interpretation complete_NV_UndefineSpace: sys_complete "\<lambda>(ctx, _). Tss2_Sys_NV_UndefineSpace_Complete ctx" TPM2_CC_NV_UndefineSpace
  "\<lambda>(_). True"
  "\<lambda>(_). True"
  "\<lambda>(_). []"
  "\<lambda>(_). []"
  by (rule sys_completeI [OF sys_complete_plain [OF reads_Nil]])
    (simp_all add: Tss2_Sys_NV_UndefineSpace_Complete_def split_paired_all del: steps.simps)

interpretation cmd_NV_UndefineSpace: sys_command "\<lambda>ctx. Tss2_Sys_NV_UndefineSpace_Prepare ctx authHandle nvIndex"
  "\<lambda>(ctx, _). Tss2_Sys_NV_UndefineSpace_Complete ctx" TPM2_CC_NV_UndefineSpace "True \<in> set []"
  "True"
  "True"
  "be_bytes authHandle @ be_bytes nvIndex"
  "[]" "False" False False True
  "\<lambda>(_). True"
  "\<lambda>(_). True"
  "\<lambda>(_). []"
  "\<lambda>(_). []"
  "\<lambda>(ctx, rsp, _). Tss2_Sys_NV_UndefineSpace ctx authHandle nvIndex cmdAuthsArray rsp" cmdAuthsArray
  for authHandle nvIndex cmdAuthsArray
  by (rule sys_command.intro [OF prepare_NV_UndefineSpace.sys_prepare_axioms complete_NV_UndefineSpace.sys_complete_axioms sys_command_axioms.intro])
    (auto simp: Tss2_Sys_NV_UndefineSpace_def one_call_def one_call_simps null_rc_def dest!: ptr_valid_some simp del: steps.simps)

subsection \<open>NV UndefineSpaceSpecial\<close>

definition Tss2_Sys_NV_UndefineSpaceSpecial_Prepare where
  "Tss2_Sys_NV_UndefineSpaceSpecial_Prepare sysContext nvIndex platform = steps
     [null_check [],
      CommonPreparePrologue TPM2_CC_NV_UndefineSpaceSpecial,
      put (Tss2_MU_UINT32_Marshal nvIndex),
      put (Tss2_MU_UINT32_Marshal platform),
      assign (flags False False True),
      CommonPrepareEpilogue]
     sysContext"

definition Tss2_Sys_NV_UndefineSpaceSpecial_Complete where
  "Tss2_Sys_NV_UndefineSpaceSpecial_Complete sysContext = steps
     [on_fst (null_check []),
      on_fst CommonComplete]
     (sysContext, ())"

definition Tss2_Sys_NV_UndefineSpaceSpecial where
  "Tss2_Sys_NV_UndefineSpaceSpecial sysContext nvIndex platform cmdAuthsArray rspAuthsArray = steps
     [on_fst (\<lambda>ctx. Tss2_Sys_NV_UndefineSpaceSpecial_Prepare ctx nvIndex platform),
      on_rsp (CommonOneCall cmdAuthsArray),
      skip_out (\<lambda>(ctx, _). Tss2_Sys_NV_UndefineSpaceSpecial_Complete ctx)]
     (sysContext, rspAuthsArray, ())"

lemma NV_UndefineSpaceSpecial_handles [simp]:
  "GetNumCommandHandles TPM2_CC_NV_UndefineSpaceSpecial = 2" "GetNumResponseHandles TPM2_CC_NV_UndefineSpaceSpecial = 0"
  using GetNumHandles_entry [of TPM2_CC_NV_UndefineSpaceSpecial 2 0] by (simp_all add: commandArray_def)

interpretation prepare_NV_UndefineSpaceSpecial: sys_prepare "\<lambda>ctx. Tss2_Sys_NV_UndefineSpaceSpecial_Prepare ctx nvIndex platform" TPM2_CC_NV_UndefineSpaceSpecial "True \<in> set []"
  "True"
  "True"
  "be_bytes nvIndex @ be_bytes platform"
  "[]" "False" False False True
  for nvIndex platform
  by (rule sys_prepareI [OF emits_Cons [OF emits_put [OF mu_UINT32.marshaler_axioms, of nvIndex]
    emits_Cons [OF emits_put [OF mu_UINT32.marshaler_axioms, of platform]
    emits_skip]]])
    (simp_all add: Tss2_Sys_NV_UndefineSpaceSpecial_Prepare_def weak_defs prepare_simps del: steps.simps)

interpretation complete_NV_UndefineSpaceSpecial: sys_complete "\<lambda>(ctx, _). Tss2_Sys_NV_UndefineSpaceSpecial_Complete ctx" TPM2_CC_NV_UndefineSpaceSpecial
  "\<lambda>(_). True"
  "\<lambda>(_). True"
  "\<lambda>(_). []"
  "\<lambda>(_). []"
  by (rule sys_completeI [OF sys_complete_plain [OF reads_Nil]])
    (simp_all add: Tss2_Sys_NV_UndefineSpaceSpecial_Complete_def split_paired_all del: steps.simps)

interpretation cmd_NV_UndefineSpaceSpecial: sys_command "\<lambda>ctx. Tss2_Sys_NV_UndefineSpaceSpecial_Prepare ctx nvIndex platform"
  "\<lambda>(ctx, _). Tss2_Sys_NV_UndefineSpaceSpecial_Complete ctx" TPM2_CC_NV_UndefineSpaceSpecial "True \<in> set []"
  "True"
  "True"
  "be_bytes nvIndex @ be_bytes platform"
  "[]" "False" False False True
  "\<lambda>(_). True"
  "\<lambda>(_). True"
  "\<lambda>(_). []"
  "\<lambda>(_). []"
  "\<lambda>(ctx, rsp, _). Tss2_Sys_NV_UndefineSpaceSpecial ctx nvIndex platform cmdAuthsArray rsp" cmdAuthsArray
  for nvIndex platform cmdAuthsArray
  by (rule sys_command.intro [OF prepare_NV_UndefineSpaceSpecial.sys_prepare_axioms complete_NV_UndefineSpaceSpecial.sys_complete_axioms sys_command_axioms.intro])
    (auto simp: Tss2_Sys_NV_UndefineSpaceSpecial_def one_call_def one_call_simps null_rc_def dest!: ptr_valid_some simp del: steps.simps)

subsection \<open>NV Write\<close>

definition Tss2_Sys_NV_Write_Prepare where
  "Tss2_Sys_NV_Write_Prepare sysContext authHandle nvIndex data' offset = steps
     [null_check [],
      CommonPreparePrologue TPM2_CC_NV_Write,
      put (Tss2_MU_UINT32_Marshal authHandle),
      put (Tss2_MU_UINT32_Marshal nvIndex),
      if Option.is_none data'
        then steps [assign (ctx_decryptNull_update (\<lambda>_. True)), put (Tss2_MU_UINT16_Marshal 0)]
        else put (Tss2_MU_TPM2B_MAX_NV_BUFFER_Marshal data'),
      put (Tss2_MU_UINT16_Marshal offset),
      assign (flags True False True),
      CommonPrepareEpilogue]
     sysContext"

definition Tss2_Sys_NV_Write_Complete where
  "Tss2_Sys_NV_Write_Complete sysContext = steps
     [on_fst (null_check []),
      on_fst CommonComplete]
     (sysContext, ())"

definition Tss2_Sys_NV_Write where
  "Tss2_Sys_NV_Write sysContext authHandle nvIndex cmdAuthsArray data' offset rspAuthsArray = steps
     [on_fst (\<lambda>ctx. Tss2_Sys_NV_Write_Prepare ctx authHandle nvIndex data' offset),
      on_rsp (CommonOneCall cmdAuthsArray),
      skip_out (\<lambda>(ctx, _). Tss2_Sys_NV_Write_Complete ctx)]
     (sysContext, rspAuthsArray, ())"

lemma NV_Write_handles [simp]:
  "GetNumCommandHandles TPM2_CC_NV_Write = 2" "GetNumResponseHandles TPM2_CC_NV_Write = 0"
  using GetNumHandles_entry [of TPM2_CC_NV_Write 2 0] by (simp_all add: commandArray_def)

interpretation prepare_NV_Write: sys_prepare "\<lambda>ctx. Tss2_Sys_NV_Write_Prepare ctx authHandle nvIndex data' offset" TPM2_CC_NV_Write "True \<in> set []"
  "opt_valid (src_TPM2B 2050 2048) data'"
  "opt_valid (valid_TPM2B 2048) data'"
  "be_bytes authHandle @ be_bytes nvIndex"
  "opt_wire wire_TPM2B data' @ be_bytes offset" "Option.is_none data'" True False True
  for authHandle nvIndex data' offset
  by (rule sys_prepareI [OF emits_Cons [OF emits_put [OF mu_UINT32.marshaler_axioms, of authHandle]
    emits_Cons [OF emits_put [OF mu_UINT32.marshaler_axioms, of nvIndex]
    emits_Cons [OF emits_opt_null [OF mu_TPM2B_MAX_NV_BUFFER.marshaler_axioms, of data']
    emits_Cons [OF emits_put [OF mu_UINT16.marshaler_axioms, of offset]
    emits_skip]]]]])
    (simp_all add: Tss2_Sys_NV_Write_Prepare_def weak_defs prepare_simps del: steps.simps)

interpretation complete_NV_Write: sys_complete "\<lambda>(ctx, _). Tss2_Sys_NV_Write_Complete ctx" TPM2_CC_NV_Write
  "\<lambda>(_). True"
  "\<lambda>(_). True"
  "\<lambda>(_). []"
  "\<lambda>(_). []"
  by (rule sys_completeI [OF sys_complete_plain [OF reads_Nil]])
    (simp_all add: Tss2_Sys_NV_Write_Complete_def split_paired_all del: steps.simps)

interpretation cmd_NV_Write: sys_command "\<lambda>ctx. Tss2_Sys_NV_Write_Prepare ctx authHandle nvIndex data' offset"
  "\<lambda>(ctx, _). Tss2_Sys_NV_Write_Complete ctx" TPM2_CC_NV_Write "True \<in> set []"
  "opt_valid (src_TPM2B 2050 2048) data'"
  "opt_valid (valid_TPM2B 2048) data'"
  "be_bytes authHandle @ be_bytes nvIndex"
  "opt_wire wire_TPM2B data' @ be_bytes offset" "Option.is_none data'" True False True
  "\<lambda>(_). True"
  "\<lambda>(_). True"
  "\<lambda>(_). []"
  "\<lambda>(_). []"
  "\<lambda>(ctx, rsp, _). Tss2_Sys_NV_Write ctx authHandle nvIndex cmdAuthsArray data' offset rsp" cmdAuthsArray
  for authHandle nvIndex data' offset cmdAuthsArray
  by (rule sys_command.intro [OF prepare_NV_Write.sys_prepare_axioms complete_NV_Write.sys_complete_axioms sys_command_axioms.intro])
    (auto simp: Tss2_Sys_NV_Write_def one_call_def one_call_simps null_rc_def dest!: ptr_valid_some simp del: steps.simps)

subsection \<open>NV WriteLock\<close>

definition Tss2_Sys_NV_WriteLock_Prepare where
  "Tss2_Sys_NV_WriteLock_Prepare sysContext authHandle nvIndex = steps
     [null_check [],
      CommonPreparePrologue TPM2_CC_NV_WriteLock,
      put (Tss2_MU_UINT32_Marshal authHandle),
      put (Tss2_MU_UINT32_Marshal nvIndex),
      assign (flags False False True),
      CommonPrepareEpilogue]
     sysContext"

definition Tss2_Sys_NV_WriteLock_Complete where
  "Tss2_Sys_NV_WriteLock_Complete sysContext = steps
     [on_fst (null_check []),
      on_fst CommonComplete]
     (sysContext, ())"

definition Tss2_Sys_NV_WriteLock where
  "Tss2_Sys_NV_WriteLock sysContext authHandle nvIndex cmdAuthsArray rspAuthsArray = steps
     [on_fst (\<lambda>ctx. Tss2_Sys_NV_WriteLock_Prepare ctx authHandle nvIndex),
      on_rsp (CommonOneCall cmdAuthsArray),
      skip_out (\<lambda>(ctx, _). Tss2_Sys_NV_WriteLock_Complete ctx)]
     (sysContext, rspAuthsArray, ())"

lemma NV_WriteLock_handles [simp]:
  "GetNumCommandHandles TPM2_CC_NV_WriteLock = 2" "GetNumResponseHandles TPM2_CC_NV_WriteLock = 0"
  using GetNumHandles_entry [of TPM2_CC_NV_WriteLock 2 0] by (simp_all add: commandArray_def)

interpretation prepare_NV_WriteLock: sys_prepare "\<lambda>ctx. Tss2_Sys_NV_WriteLock_Prepare ctx authHandle nvIndex" TPM2_CC_NV_WriteLock "True \<in> set []"
  "True"
  "True"
  "be_bytes authHandle @ be_bytes nvIndex"
  "[]" "False" False False True
  for authHandle nvIndex
  by (rule sys_prepareI [OF emits_Cons [OF emits_put [OF mu_UINT32.marshaler_axioms, of authHandle]
    emits_Cons [OF emits_put [OF mu_UINT32.marshaler_axioms, of nvIndex]
    emits_skip]]])
    (simp_all add: Tss2_Sys_NV_WriteLock_Prepare_def weak_defs prepare_simps del: steps.simps)

interpretation complete_NV_WriteLock: sys_complete "\<lambda>(ctx, _). Tss2_Sys_NV_WriteLock_Complete ctx" TPM2_CC_NV_WriteLock
  "\<lambda>(_). True"
  "\<lambda>(_). True"
  "\<lambda>(_). []"
  "\<lambda>(_). []"
  by (rule sys_completeI [OF sys_complete_plain [OF reads_Nil]])
    (simp_all add: Tss2_Sys_NV_WriteLock_Complete_def split_paired_all del: steps.simps)

interpretation cmd_NV_WriteLock: sys_command "\<lambda>ctx. Tss2_Sys_NV_WriteLock_Prepare ctx authHandle nvIndex"
  "\<lambda>(ctx, _). Tss2_Sys_NV_WriteLock_Complete ctx" TPM2_CC_NV_WriteLock "True \<in> set []"
  "True"
  "True"
  "be_bytes authHandle @ be_bytes nvIndex"
  "[]" "False" False False True
  "\<lambda>(_). True"
  "\<lambda>(_). True"
  "\<lambda>(_). []"
  "\<lambda>(_). []"
  "\<lambda>(ctx, rsp, _). Tss2_Sys_NV_WriteLock ctx authHandle nvIndex cmdAuthsArray rsp" cmdAuthsArray
  for authHandle nvIndex cmdAuthsArray
  by (rule sys_command.intro [OF prepare_NV_WriteLock.sys_prepare_axioms complete_NV_WriteLock.sys_complete_axioms sys_command_axioms.intro])
    (auto simp: Tss2_Sys_NV_WriteLock_def one_call_def one_call_simps null_rc_def dest!: ptr_valid_some simp del: steps.simps)

subsection \<open>ObjectChangeAuth\<close>

definition Tss2_Sys_ObjectChangeAuth_Prepare where
  "Tss2_Sys_ObjectChangeAuth_Prepare sysContext objectHandle parentHandle newAuth = steps
     [null_check [],
      CommonPreparePrologue TPM2_CC_ObjectChangeAuth,
      put (Tss2_MU_UINT32_Marshal objectHandle),
      put (Tss2_MU_UINT32_Marshal parentHandle),
      if Option.is_none newAuth
        then put (Tss2_MU_UINT16_Marshal 0)
        else put (Tss2_MU_TPM2B_AUTH_Marshal newAuth),
      assign (flags True True True),
      CommonPrepareEpilogue]
     sysContext"

definition Tss2_Sys_ObjectChangeAuth_Complete where
  "Tss2_Sys_ObjectChangeAuth_Complete sysContext outPrivate = steps
     [on_fst (null_check []),
      on_fst CommonComplete,
      get_out Tss2_MU_TPM2B_PRIVATE_Unmarshal]
     (sysContext, outPrivate, ())"

definition Tss2_Sys_ObjectChangeAuth where
  "Tss2_Sys_ObjectChangeAuth sysContext objectHandle parentHandle cmdAuthsArray newAuth outPrivate rspAuthsArray = steps
     [on_fst (\<lambda>ctx. Tss2_Sys_ObjectChangeAuth_Prepare ctx objectHandle parentHandle newAuth),
      on_rsp (CommonOneCall cmdAuthsArray),
      skip_out (\<lambda>(ctx, d1, _). Tss2_Sys_ObjectChangeAuth_Complete ctx d1)]
     (sysContext, rspAuthsArray, outPrivate, ())"

lemma ObjectChangeAuth_handles [simp]:
  "GetNumCommandHandles TPM2_CC_ObjectChangeAuth = 2" "GetNumResponseHandles TPM2_CC_ObjectChangeAuth = 0"
  using GetNumHandles_entry [of TPM2_CC_ObjectChangeAuth 2 0] by (simp_all add: commandArray_def)

interpretation prepare_ObjectChangeAuth: sys_prepare "\<lambda>ctx. Tss2_Sys_ObjectChangeAuth_Prepare ctx objectHandle parentHandle newAuth" TPM2_CC_ObjectChangeAuth "True \<in> set []"
  "opt_valid (src_TPM2B 66 64) newAuth"
  "opt_valid (valid_TPM2B 64) newAuth"
  "be_bytes objectHandle @ be_bytes parentHandle"
  "opt_wire wire_TPM2B newAuth" "False" True True True
  for objectHandle parentHandle newAuth
  by (rule sys_prepareI [OF emits_Cons [OF emits_put [OF mu_UINT32.marshaler_axioms, of objectHandle]
    emits_Cons [OF emits_put [OF mu_UINT32.marshaler_axioms, of parentHandle]
    emits_Cons [OF emits_opt [OF mu_TPM2B_AUTH.marshaler_axioms, of newAuth]
    emits_skip]]]])
    (simp_all add: Tss2_Sys_ObjectChangeAuth_Prepare_def weak_defs prepare_simps del: steps.simps)

interpretation complete_ObjectChangeAuth: sys_complete "\<lambda>(ctx, d1, _). Tss2_Sys_ObjectChangeAuth_Complete ctx d1" TPM2_CC_ObjectChangeAuth
  "\<lambda>(d1, _). ptr_valid (wt_TPM2B 1550) d1"
  "\<lambda>(d1, _). ptr_valid (valid_TPM2B 1550) d1"
  "\<lambda>(_, _). []"
  "\<lambda>(d1, _). ptr_wire wire_TPM2B d1"
  by (rule sys_completeI [OF sys_complete_plain [OF reads_Cons [OF mu_TPM2B_PRIVATE.unmarshaler_axioms
    reads_Nil]]])
    (simp_all add: Tss2_Sys_ObjectChangeAuth_Complete_def split_paired_all del: steps.simps)

interpretation cmd_ObjectChangeAuth: sys_command "\<lambda>ctx. Tss2_Sys_ObjectChangeAuth_Prepare ctx objectHandle parentHandle newAuth"
  "\<lambda>(ctx, d1, _). Tss2_Sys_ObjectChangeAuth_Complete ctx d1" TPM2_CC_ObjectChangeAuth "True \<in> set []"
  "opt_valid (src_TPM2B 66 64) newAuth"
  "opt_valid (valid_TPM2B 64) newAuth"
  "be_bytes objectHandle @ be_bytes parentHandle"
  "opt_wire wire_TPM2B newAuth" "False" True True True
  "\<lambda>(d1, _). ptr_valid (wt_TPM2B 1550) d1"
  "\<lambda>(d1, _). ptr_valid (valid_TPM2B 1550) d1"
  "\<lambda>(_, _). []"
  "\<lambda>(d1, _). ptr_wire wire_TPM2B d1"
  "\<lambda>(ctx, rsp, d1, _). Tss2_Sys_ObjectChangeAuth ctx objectHandle parentHandle cmdAuthsArray newAuth d1 rsp" cmdAuthsArray
  for objectHandle parentHandle newAuth cmdAuthsArray
  by (rule sys_command.intro [OF prepare_ObjectChangeAuth.sys_prepare_axioms complete_ObjectChangeAuth.sys_complete_axioms sys_command_axioms.intro])
    (auto simp: Tss2_Sys_ObjectChangeAuth_def one_call_def one_call_simps null_rc_def dest!: ptr_valid_some simp del: steps.simps)

subsection \<open>PCR Allocate\<close>

definition Tss2_Sys_PCR_Allocate_Prepare where
  "Tss2_Sys_PCR_Allocate_Prepare sysContext authHandle pcrAllocation = steps
     [null_check [Option.is_none pcrAllocation],
      ret (ValidateTPML_PCR_SELECTION pcrAllocation),
      CommonPreparePrologue TPM2_CC_PCR_Allocate,
      put (Tss2_MU_UINT32_Marshal authHandle),
      put (Tss2_MU_TPML_PCR_SELECTION_Marshal pcrAllocation),
      assign (flags False False True),
      CommonPrepareEpilogue]
     sysContext"

definition Tss2_Sys_PCR_Allocate_Complete where
  "Tss2_Sys_PCR_Allocate_Complete sysContext allocationSuccess maxPCR sizeNeeded sizeAvailable = steps
     [on_fst (null_check []),
      on_fst CommonComplete,
      get_out Tss2_MU_UINT8_Unmarshal,
      skip_out (get_out Tss2_MU_UINT32_Unmarshal),
      skip_out (skip_out (get_out Tss2_MU_UINT32_Unmarshal)),
      skip_out (skip_out (skip_out (get_out Tss2_MU_UINT32_Unmarshal)))]
     (sysContext, allocationSuccess, maxPCR, sizeNeeded, sizeAvailable, ())"

definition Tss2_Sys_PCR_Allocate where
  "Tss2_Sys_PCR_Allocate sysContext authHandle cmdAuthsArray pcrAllocation allocationSuccess maxPCR sizeNeeded sizeAvailable rspAuthsArray = steps
     [ret (null_rc [Option.is_none pcrAllocation]),
      on_fst (\<lambda>ctx. Tss2_Sys_PCR_Allocate_Prepare ctx authHandle pcrAllocation),
      on_rsp (CommonOneCall cmdAuthsArray),
      skip_out (\<lambda>(ctx, d1, d2, d3, d4, _). Tss2_Sys_PCR_Allocate_Complete ctx d1 d2 d3 d4)]
     (sysContext, rspAuthsArray, allocationSuccess, maxPCR, sizeNeeded, sizeAvailable, ())"

lemma PCR_Allocate_handles [simp]:
  "GetNumCommandHandles TPM2_CC_PCR_Allocate = 1" "GetNumResponseHandles TPM2_CC_PCR_Allocate = 0"
  using GetNumHandles_entry [of TPM2_CC_PCR_Allocate 1 0] by (simp_all add: commandArray_def)

interpretation prepare_PCR_Allocate: sys_prepare "\<lambda>ctx. Tss2_Sys_PCR_Allocate_Prepare ctx authHandle pcrAllocation" TPM2_CC_PCR_Allocate "True \<in> set [Option.is_none pcrAllocation]"
  "opt_valid (src_TPML 16 src_TPMS_PCR_SELECTION) pcrAllocation"
  "ptr_valid (valid_TPML 16 valid_TPMS_PCR_SELECTION) pcrAllocation"
  "be_bytes authHandle"
  "ptr_wire (wire_TPML wire_TPMS_PCR_SELECTION) pcrAllocation" "False" False False True
  for authHandle pcrAllocation
  by (rule sys_prepareI [OF emits_Cons [OF emits_put [OF mu_UINT32.marshaler_axioms, of authHandle]
    emits_Cons [OF emits_ptr [OF mu_TPML_PCR_SELECTION.marshaler_axioms null_TPML_PCR_SELECTION, of pcrAllocation]
    emits_skip]]])
    (simp_all add: Tss2_Sys_PCR_Allocate_Prepare_def weak_defs prepare_simps del: steps.simps)

interpretation complete_PCR_Allocate: sys_complete "\<lambda>(ctx, d1, d2, d3, d4, _). Tss2_Sys_PCR_Allocate_Complete ctx d1 d2 d3 d4" TPM2_CC_PCR_Allocate
  "\<lambda>(d1, d2, d3, d4, _). ptr_valid (\<lambda>_. True) d1 \<and> ptr_valid (\<lambda>_. True) d2 \<and> ptr_valid (\<lambda>_. True) d3 \<and> ptr_valid (\<lambda>_. True) d4"
  "\<lambda>(d1, d2, d3, d4, _). ptr_valid (\<lambda>_. True) d1 \<and> ptr_valid (\<lambda>_. True) d2 \<and> ptr_valid (\<lambda>_. True) d3 \<and> ptr_valid (\<lambda>_. True) d4"
  "\<lambda>(_, _, _, _, _). []"
  "\<lambda>(d1, d2, d3, d4, _). ptr_wire be_bytes d1 @ ptr_wire be_bytes d2 @ ptr_wire be_bytes d3 @ ptr_wire be_bytes d4"
  by (rule sys_completeI [OF sys_complete_plain [OF reads_Cons [OF mu_UINT8.unmarshaler_axioms
    reads_Cons [OF mu_UINT32.unmarshaler_axioms
    reads_Cons [OF mu_UINT32.unmarshaler_axioms
    reads_Cons [OF mu_UINT32.unmarshaler_axioms
    reads_Nil]]]]]])
    (simp_all add: Tss2_Sys_PCR_Allocate_Complete_def split_paired_all del: steps.simps)

interpretation cmd_PCR_Allocate: sys_command "\<lambda>ctx. Tss2_Sys_PCR_Allocate_Prepare ctx authHandle pcrAllocation"
  "\<lambda>(ctx, d1, d2, d3, d4, _). Tss2_Sys_PCR_Allocate_Complete ctx d1 d2 d3 d4" TPM2_CC_PCR_Allocate "True \<in> set [Option.is_none pcrAllocation]"
  "opt_valid (src_TPML 16 src_TPMS_PCR_SELECTION) pcrAllocation"
  "ptr_valid (valid_TPML 16 valid_TPMS_PCR_SELECTION) pcrAllocation"
  "be_bytes authHandle"
  "ptr_wire (wire_TPML wire_TPMS_PCR_SELECTION) pcrAllocation" "False" False False True
  "\<lambda>(d1, d2, d3, d4, _). ptr_valid (\<lambda>_. True) d1 \<and> ptr_valid (\<lambda>_. True) d2 \<and> ptr_valid (\<lambda>_. True) d3 \<and> ptr_valid (\<lambda>_. True) d4"
  "\<lambda>(d1, d2, d3, d4, _). ptr_valid (\<lambda>_. True) d1 \<and> ptr_valid (\<lambda>_. True) d2 \<and> ptr_valid (\<lambda>_. True) d3 \<and> ptr_valid (\<lambda>_. True) d4"
  "\<lambda>(_, _, _, _, _). []"
  "\<lambda>(d1, d2, d3, d4, _). ptr_wire be_bytes d1 @ ptr_wire be_bytes d2 @ ptr_wire be_bytes d3 @ ptr_wire be_bytes d4"
  "\<lambda>(ctx, rsp, d1, d2, d3, d4, _). Tss2_Sys_PCR_Allocate ctx authHandle cmdAuthsArray pcrAllocation d1 d2 d3 d4 rsp" cmdAuthsArray
  for authHandle pcrAllocation cmdAuthsArray
  by (rule sys_command.intro [OF prepare_PCR_Allocate.sys_prepare_axioms complete_PCR_Allocate.sys_complete_axioms sys_command_axioms.intro])
    (auto simp: Tss2_Sys_PCR_Allocate_def one_call_def one_call_simps null_rc_def dest!: ptr_valid_some simp del: steps.simps)

subsection \<open>PCR Event\<close>

definition Tss2_Sys_PCR_Event_Prepare where
  "Tss2_Sys_PCR_Event_Prepare sysContext pcrHandle eventData = steps
     [null_check [],
      CommonPreparePrologue TPM2_CC_PCR_Event,
      put (Tss2_MU_UINT32_Marshal pcrHandle),
      if Option.is_none eventData
        then put (Tss2_MU_UINT16_Marshal 0)
        else put (Tss2_MU_TPM2B_EVENT_Marshal eventData),
      assign (flags True False True),
      CommonPrepareEpilogue]
     sysContext"

definition Tss2_Sys_PCR_Event_Complete where
  "Tss2_Sys_PCR_Event_Complete sysContext digests = steps
     [on_fst (null_check []),
      on_fst CommonComplete,
      get_out Tss2_MU_TPML_DIGEST_VALUES_Unmarshal]
     (sysContext, digests, ())"

definition Tss2_Sys_PCR_Event where
  "Tss2_Sys_PCR_Event sysContext pcrHandle cmdAuthsArray eventData digests rspAuthsArray = steps
     [on_fst (\<lambda>ctx. Tss2_Sys_PCR_Event_Prepare ctx pcrHandle eventData),
      on_rsp (CommonOneCall cmdAuthsArray),
      skip_out (\<lambda>(ctx, d1, _). Tss2_Sys_PCR_Event_Complete ctx d1)]
     (sysContext, rspAuthsArray, digests, ())"

lemma PCR_Event_handles [simp]:
  "GetNumCommandHandles TPM2_CC_PCR_Event = 1" "GetNumResponseHandles TPM2_CC_PCR_Event = 0"
  using GetNumHandles_entry [of TPM2_CC_PCR_Event 1 0] by (simp_all add: commandArray_def)

interpretation prepare_PCR_Event: sys_prepare "\<lambda>ctx. Tss2_Sys_PCR_Event_Prepare ctx pcrHandle eventData" TPM2_CC_PCR_Event "True \<in> set []"
  "opt_valid (src_TPM2B 1026 1024) eventData"
  "opt_valid (valid_TPM2B 1024) eventData"
  "be_bytes pcrHandle"
  "opt_wire wire_TPM2B eventData" "False" True False True
  for pcrHandle eventData
  by (rule sys_prepareI [OF emits_Cons [OF emits_put [OF mu_UINT32.marshaler_axioms, of pcrHandle]
    emits_Cons [OF emits_opt [OF mu_TPM2B_EVENT.marshaler_axioms, of eventData]
    emits_skip]]])
    (simp_all add: Tss2_Sys_PCR_Event_Prepare_def weak_defs prepare_simps del: steps.simps)

interpretation complete_PCR_Event: sys_complete "\<lambda>(ctx, d1, _). Tss2_Sys_PCR_Event_Complete ctx d1" TPM2_CC_PCR_Event
  "\<lambda>(d1, _). ptr_valid (wt_TPML 16 wt_TPMT_HA) d1"
  "\<lambda>(d1, _). ptr_valid (valid_TPML 16 valid_TPMT_HA) d1"
  "\<lambda>(_, _). []"
  "\<lambda>(d1, _). ptr_wire (wire_TPML wire_TPMT_HA) d1"
  by (rule sys_completeI [OF sys_complete_plain [OF reads_Cons [OF mu_TPML_DIGEST_VALUES.unmarshaler_axioms
    reads_Nil]]])
    (simp_all add: Tss2_Sys_PCR_Event_Complete_def split_paired_all del: steps.simps)

interpretation cmd_PCR_Event: sys_command "\<lambda>ctx. Tss2_Sys_PCR_Event_Prepare ctx pcrHandle eventData"
  "\<lambda>(ctx, d1, _). Tss2_Sys_PCR_Event_Complete ctx d1" TPM2_CC_PCR_Event "True \<in> set []"
  "opt_valid (src_TPM2B 1026 1024) eventData"
  "opt_valid (valid_TPM2B 1024) eventData"
  "be_bytes pcrHandle"
  "opt_wire wire_TPM2B eventData" "False" True False True
  "\<lambda>(d1, _). ptr_valid (wt_TPML 16 wt_TPMT_HA) d1"
  "\<lambda>(d1, _). ptr_valid (valid_TPML 16 valid_TPMT_HA) d1"
  "\<lambda>(_, _). []"
  "\<lambda>(d1, _). ptr_wire (wire_TPML wire_TPMT_HA) d1"
  "\<lambda>(ctx, rsp, d1, _). Tss2_Sys_PCR_Event ctx pcrHandle cmdAuthsArray eventData d1 rsp" cmdAuthsArray
  for pcrHandle eventData cmdAuthsArray
  by (rule sys_command.intro [OF prepare_PCR_Event.sys_prepare_axioms complete_PCR_Event.sys_complete_axioms sys_command_axioms.intro])
    (auto simp: Tss2_Sys_PCR_Event_def one_call_def one_call_simps null_rc_def dest!: ptr_valid_some simp del: steps.simps)

subsection \<open>PCR Extend\<close>

definition Tss2_Sys_PCR_Extend_Prepare where
  "Tss2_Sys_PCR_Extend_Prepare sysContext pcrHandle digests = steps
     [null_check [Option.is_none digests],
      CommonPreparePrologue TPM2_CC_PCR_Extend,
      put (Tss2_MU_UINT32_Marshal pcrHandle),
      put (Tss2_MU_TPML_DIGEST_VALUES_Marshal digests),
      assign (flags False False True),
      CommonPrepareEpilogue]
     sysContext"

definition Tss2_Sys_PCR_Extend_Complete where
  "Tss2_Sys_PCR_Extend_Complete sysContext = steps
     [on_fst (null_check []),
      on_fst CommonComplete]
     (sysContext, ())"

definition Tss2_Sys_PCR_Extend where
  "Tss2_Sys_PCR_Extend sysContext pcrHandle cmdAuthsArray digests rspAuthsArray = steps
     [ret (null_rc [Option.is_none digests]),
      on_fst (\<lambda>ctx. Tss2_Sys_PCR_Extend_Prepare ctx pcrHandle digests),
      on_rsp (CommonOneCall cmdAuthsArray),
      skip_out (\<lambda>(ctx, _). Tss2_Sys_PCR_Extend_Complete ctx)]
     (sysContext, rspAuthsArray, ())"

lemma PCR_Extend_handles [simp]:
  "GetNumCommandHandles TPM2_CC_PCR_Extend = 1" "GetNumResponseHandles TPM2_CC_PCR_Extend = 0"
  using GetNumHandles_entry [of TPM2_CC_PCR_Extend 1 0] by (simp_all add: commandArray_def)

interpretation prepare_PCR_Extend: sys_prepare "\<lambda>ctx. Tss2_Sys_PCR_Extend_Prepare ctx pcrHandle digests" TPM2_CC_PCR_Extend "True \<in> set [Option.is_none digests]"
  "opt_valid (src_TPML 16 src_TPMT_HA) digests"
  "ptr_valid (valid_TPML 16 valid_TPMT_HA) digests"
  "be_bytes pcrHandle"
  "ptr_wire (wire_TPML wire_TPMT_HA) digests" "False" False False True
  for pcrHandle digests
  by (rule sys_prepareI [OF emits_Cons [OF emits_put [OF mu_UINT32.marshaler_axioms, of pcrHandle]
    emits_Cons [OF emits_ptr [OF mu_TPML_DIGEST_VALUES.marshaler_axioms null_TPML_DIGEST_VALUES, of digests]
    emits_skip]]])
    (simp_all add: Tss2_Sys_PCR_Extend_Prepare_def weak_defs prepare_simps del: steps.simps)

interpretation complete_PCR_Extend: sys_complete "\<lambda>(ctx, _). Tss2_Sys_PCR_Extend_Complete ctx" TPM2_CC_PCR_Extend
  "\<lambda>(_). True"
  "\<lambda>(_). True"
  "\<lambda>(_). []"
  "\<lambda>(_). []"
  by (rule sys_completeI [OF sys_complete_plain [OF reads_Nil]])
    (simp_all add: Tss2_Sys_PCR_Extend_Complete_def split_paired_all del: steps.simps)

interpretation cmd_PCR_Extend: sys_command "\<lambda>ctx. Tss2_Sys_PCR_Extend_Prepare ctx pcrHandle digests"
  "\<lambda>(ctx, _). Tss2_Sys_PCR_Extend_Complete ctx" TPM2_CC_PCR_Extend "True \<in> set [Option.is_none digests]"
  "opt_valid (src_TPML 16 src_TPMT_HA) digests"
  "ptr_valid (valid_TPML 16 valid_TPMT_HA) digests"
  "be_bytes pcrHandle"
  "ptr_wire (wire_TPML wire_TPMT_HA) digests" "False" False False True
  "\<lambda>(_). True"
  "\<lambda>(_). True"
  "\<lambda>(_). []"
  "\<lambda>(_). []"
  "\<lambda>(ctx, rsp, _). Tss2_Sys_PCR_Extend ctx pcrHandle cmdAuthsArray digests rsp" cmdAuthsArray
  for pcrHandle digests cmdAuthsArray
  by (rule sys_command.intro [OF prepare_PCR_Extend.sys_prepare_axioms complete_PCR_Extend.sys_complete_axioms sys_command_axioms.intro])
    (auto simp: Tss2_Sys_PCR_Extend_def one_call_def one_call_simps null_rc_def dest!: ptr_valid_some simp del: steps.simps)

subsection \<open>PCR Read\<close>

definition Tss2_Sys_PCR_Read_Prepare where
  "Tss2_Sys_PCR_Read_Prepare sysContext pcrSelectionIn = steps
     [null_check [Option.is_none pcrSelectionIn],
      CommonPreparePrologue TPM2_CC_PCR_Read,
      put (Tss2_MU_TPML_PCR_SELECTION_Marshal pcrSelectionIn),
      assign (flags False False True),
      CommonPrepareEpilogue]
     sysContext"

definition Tss2_Sys_PCR_Read_Complete where
  "Tss2_Sys_PCR_Read_Complete sysContext pcrUpdateCounter pcrSelectionOut pcrValues = steps
     [on_fst (null_check []),
      on_fst CommonComplete,
      get_out Tss2_MU_UINT32_Unmarshal,
      skip_out (get_out Tss2_MU_TPML_PCR_SELECTION_Unmarshal),
      skip_out (skip_out (get_out Tss2_MU_TPML_DIGEST_Unmarshal))]
     (sysContext, pcrUpdateCounter, pcrSelectionOut, pcrValues, ())"

definition Tss2_Sys_PCR_Read where
  "Tss2_Sys_PCR_Read sysContext cmdAuthsArray pcrSelectionIn pcrUpdateCounter pcrSelectionOut pcrValues rspAuthsArray = steps
     [ret (null_rc [Option.is_none pcrSelectionIn]),
      on_fst (\<lambda>ctx. Tss2_Sys_PCR_Read_Prepare ctx pcrSelectionIn),
      on_rsp (CommonOneCall cmdAuthsArray),
      skip_out (\<lambda>(ctx, d1, d2, d3, _). Tss2_Sys_PCR_Read_Complete ctx d1 d2 d3)]
     (sysContext, rspAuthsArray, pcrUpdateCounter, pcrSelectionOut, pcrValues, ())"

lemma PCR_Read_handles [simp]:
  "GetNumCommandHandles TPM2_CC_PCR_Read = 0" "GetNumResponseHandles TPM2_CC_PCR_Read = 0"
  using GetNumHandles_entry [of TPM2_CC_PCR_Read 0 0] by (simp_all add: commandArray_def)

interpretation prepare_PCR_Read: sys_prepare "\<lambda>ctx. Tss2_Sys_PCR_Read_Prepare ctx pcrSelectionIn" TPM2_CC_PCR_Read "True \<in> set [Option.is_none pcrSelectionIn]"
  "opt_valid (src_TPML 16 src_TPMS_PCR_SELECTION) pcrSelectionIn"
  "ptr_valid (valid_TPML 16 valid_TPMS_PCR_SELECTION) pcrSelectionIn"
  "[]"
  "ptr_wire (wire_TPML wire_TPMS_PCR_SELECTION) pcrSelectionIn" "False" False False True
  for pcrSelectionIn
  by (rule sys_prepareI [OF emits_Cons [OF emits_ptr [OF mu_TPML_PCR_SELECTION.marshaler_axioms null_TPML_PCR_SELECTION, of pcrSelectionIn]
    emits_skip]])
    (simp_all add: Tss2_Sys_PCR_Read_Prepare_def weak_defs prepare_simps del: steps.simps)

interpretation complete_PCR_Read: sys_complete "\<lambda>(ctx, d1, d2, d3, _). Tss2_Sys_PCR_Read_Complete ctx d1 d2 d3" TPM2_CC_PCR_Read
  "\<lambda>(d1, d2, d3, _). ptr_valid (\<lambda>_. True) d1 \<and> ptr_valid (wt_TPML 16 wt_TPMS_PCR_SELECTION) d2 \<and> ptr_valid (wt_TPML 8 (wt_TPM2B 64)) d3"
  "\<lambda>(d1, d2, d3, _). ptr_valid (\<lambda>_. True) d1 \<and> ptr_valid (valid_TPML 16 valid_TPMS_PCR_SELECTION) d2 \<and> ptr_valid (valid_TPML 8 (valid_TPM2B 64)) d3"
  "\<lambda>(_, _, _, _). []"
  "\<lambda>(d1, d2, d3, _). ptr_wire be_bytes d1 @ ptr_wire (wire_TPML wire_TPMS_PCR_SELECTION) d2 @ ptr_wire (wire_TPML wire_TPM2B) d3"
  by (rule sys_completeI [OF sys_complete_plain [OF reads_Cons [OF mu_UINT32.unmarshaler_axioms
    reads_Cons [OF mu_TPML_PCR_SELECTION.unmarshaler_axioms
    reads_Cons [OF mu_TPML_DIGEST.unmarshaler_axioms
    reads_Nil]]]]])
    (simp_all add: Tss2_Sys_PCR_Read_Complete_def split_paired_all del: steps.simps)

interpretation cmd_PCR_Read: sys_command "\<lambda>ctx. Tss2_Sys_PCR_Read_Prepare ctx pcrSelectionIn"
  "\<lambda>(ctx, d1, d2, d3, _). Tss2_Sys_PCR_Read_Complete ctx d1 d2 d3" TPM2_CC_PCR_Read "True \<in> set [Option.is_none pcrSelectionIn]"
  "opt_valid (src_TPML 16 src_TPMS_PCR_SELECTION) pcrSelectionIn"
  "ptr_valid (valid_TPML 16 valid_TPMS_PCR_SELECTION) pcrSelectionIn"
  "[]"
  "ptr_wire (wire_TPML wire_TPMS_PCR_SELECTION) pcrSelectionIn" "False" False False True
  "\<lambda>(d1, d2, d3, _). ptr_valid (\<lambda>_. True) d1 \<and> ptr_valid (wt_TPML 16 wt_TPMS_PCR_SELECTION) d2 \<and> ptr_valid (wt_TPML 8 (wt_TPM2B 64)) d3"
  "\<lambda>(d1, d2, d3, _). ptr_valid (\<lambda>_. True) d1 \<and> ptr_valid (valid_TPML 16 valid_TPMS_PCR_SELECTION) d2 \<and> ptr_valid (valid_TPML 8 (valid_TPM2B 64)) d3"
  "\<lambda>(_, _, _, _). []"
  "\<lambda>(d1, d2, d3, _). ptr_wire be_bytes d1 @ ptr_wire (wire_TPML wire_TPMS_PCR_SELECTION) d2 @ ptr_wire (wire_TPML wire_TPM2B) d3"
  "\<lambda>(ctx, rsp, d1, d2, d3, _). Tss2_Sys_PCR_Read ctx cmdAuthsArray pcrSelectionIn d1 d2 d3 rsp" cmdAuthsArray
  for pcrSelectionIn cmdAuthsArray
  by (rule sys_command.intro [OF prepare_PCR_Read.sys_prepare_axioms complete_PCR_Read.sys_complete_axioms sys_command_axioms.intro])
    (auto simp: Tss2_Sys_PCR_Read_def one_call_def one_call_simps null_rc_def dest!: ptr_valid_some simp del: steps.simps)

subsection \<open>PCR Reset\<close>

definition Tss2_Sys_PCR_Reset_Prepare where
  "Tss2_Sys_PCR_Reset_Prepare sysContext pcrHandle = steps
     [null_check [],
      CommonPreparePrologue TPM2_CC_PCR_Reset,
      put (Tss2_MU_UINT32_Marshal pcrHandle),
      assign (flags False False True),
      CommonPrepareEpilogue]
     sysContext"

definition Tss2_Sys_PCR_Reset_Complete where
  "Tss2_Sys_PCR_Reset_Complete sysContext = steps
     [on_fst (null_check []),
      on_fst CommonComplete]
     (sysContext, ())"

definition Tss2_Sys_PCR_Reset where
  "Tss2_Sys_PCR_Reset sysContext pcrHandle cmdAuthsArray rspAuthsArray = steps
     [on_fst (\<lambda>ctx. Tss2_Sys_PCR_Reset_Prepare ctx pcrHandle),
      on_rsp (CommonOneCall cmdAuthsArray),
      skip_out (\<lambda>(ctx, _). Tss2_Sys_PCR_Reset_Complete ctx)]
     (sysContext, rspAuthsArray, ())"

lemma PCR_Reset_handles [simp]:
  "GetNumCommandHandles TPM2_CC_PCR_Reset = 1" "GetNumResponseHandles TPM2_CC_PCR_Reset = 0"
  using GetNumHandles_entry [of TPM2_CC_PCR_Reset 1 0] by (simp_all add: commandArray_def)

interpretation prepare_PCR_Reset: sys_prepare "\<lambda>ctx. Tss2_Sys_PCR_Reset_Prepare ctx pcrHandle" TPM2_CC_PCR_Reset "True \<in> set []"
  "True"
  "True"
  "be_bytes pcrHandle"
  "[]" "False" False False True
  for pcrHandle
  by (rule sys_prepareI [OF emits_Cons [OF emits_put [OF mu_UINT32.marshaler_axioms, of pcrHandle]
    emits_skip]])
    (simp_all add: Tss2_Sys_PCR_Reset_Prepare_def weak_defs prepare_simps del: steps.simps)

interpretation complete_PCR_Reset: sys_complete "\<lambda>(ctx, _). Tss2_Sys_PCR_Reset_Complete ctx" TPM2_CC_PCR_Reset
  "\<lambda>(_). True"
  "\<lambda>(_). True"
  "\<lambda>(_). []"
  "\<lambda>(_). []"
  by (rule sys_completeI [OF sys_complete_plain [OF reads_Nil]])
    (simp_all add: Tss2_Sys_PCR_Reset_Complete_def split_paired_all del: steps.simps)

interpretation cmd_PCR_Reset: sys_command "\<lambda>ctx. Tss2_Sys_PCR_Reset_Prepare ctx pcrHandle"
  "\<lambda>(ctx, _). Tss2_Sys_PCR_Reset_Complete ctx" TPM2_CC_PCR_Reset "True \<in> set []"
  "True"
  "True"
  "be_bytes pcrHandle"
  "[]" "False" False False True
  "\<lambda>(_). True"
  "\<lambda>(_). True"
  "\<lambda>(_). []"
  "\<lambda>(_). []"
  "\<lambda>(ctx, rsp, _). Tss2_Sys_PCR_Reset ctx pcrHandle cmdAuthsArray rsp" cmdAuthsArray
  for pcrHandle cmdAuthsArray
  by (rule sys_command.intro [OF prepare_PCR_Reset.sys_prepare_axioms complete_PCR_Reset.sys_complete_axioms sys_command_axioms.intro])
    (auto simp: Tss2_Sys_PCR_Reset_def one_call_def one_call_simps null_rc_def dest!: ptr_valid_some simp del: steps.simps)

subsection \<open>PCR SetAuthPolicy\<close>

definition Tss2_Sys_PCR_SetAuthPolicy_Prepare where
  "Tss2_Sys_PCR_SetAuthPolicy_Prepare sysContext authHandle authPolicy hashAlg pcrNum = steps
     [null_check [],
      ret (if IsAlgorithmWeak hashAlg 0 \<noteq> 0 then TSS2_SYS_RC_BAD_VALUE else TSS2_RC_SUCCESS),
      CommonPreparePrologue TPM2_CC_PCR_SetAuthPolicy,
      put (Tss2_MU_UINT32_Marshal authHandle),
      if Option.is_none authPolicy
        then steps [assign (ctx_decryptNull_update (\<lambda>_. True)), put (Tss2_MU_UINT16_Marshal 0)]
        else put (Tss2_MU_TPM2B_DIGEST_Marshal authPolicy),
      put (Tss2_MU_UINT16_Marshal hashAlg),
      put (Tss2_MU_UINT32_Marshal pcrNum),
      assign (flags True False True),
      CommonPrepareEpilogue]
     sysContext"

definition Tss2_Sys_PCR_SetAuthPolicy_Complete where
  "Tss2_Sys_PCR_SetAuthPolicy_Complete sysContext = steps
     [on_fst (null_check []),
      on_fst CommonComplete]
     (sysContext, ())"

definition Tss2_Sys_PCR_SetAuthPolicy where
  "Tss2_Sys_PCR_SetAuthPolicy sysContext authHandle cmdAuthsArray authPolicy hashAlg pcrNum rspAuthsArray = steps
     [on_fst (\<lambda>ctx. Tss2_Sys_PCR_SetAuthPolicy_Prepare ctx authHandle authPolicy hashAlg pcrNum),
      on_rsp (CommonOneCall cmdAuthsArray),
      skip_out (\<lambda>(ctx, _). Tss2_Sys_PCR_SetAuthPolicy_Complete ctx)]
     (sysContext, rspAuthsArray, ())"

lemma PCR_SetAuthPolicy_handles [simp]:
  "GetNumCommandHandles TPM2_CC_PCR_SetAuthPolicy = 1" "GetNumResponseHandles TPM2_CC_PCR_SetAuthPolicy = 0"
  using GetNumHandles_entry [of TPM2_CC_PCR_SetAuthPolicy 1 0] by (simp_all add: commandArray_def)

interpretation prepare_PCR_SetAuthPolicy: sys_prepare "\<lambda>ctx. Tss2_Sys_PCR_SetAuthPolicy_Prepare ctx authHandle authPolicy hashAlg pcrNum" TPM2_CC_PCR_SetAuthPolicy "True \<in> set []"
  "opt_valid (src_TPM2B 66 64) authPolicy"
  "opt_valid (valid_TPM2B 64) authPolicy"
  "be_bytes authHandle"
  "opt_wire wire_TPM2B authPolicy @ be_bytes hashAlg @ be_bytes pcrNum" "Option.is_none authPolicy" True False True
  for authHandle authPolicy hashAlg pcrNum
  by (rule sys_prepareI [OF emits_Cons [OF emits_put [OF mu_UINT32.marshaler_axioms, of authHandle]
    emits_Cons [OF emits_opt_null [OF mu_TPM2B_DIGEST.marshaler_axioms, of authPolicy]
    emits_Cons [OF emits_put [OF mu_UINT16.marshaler_axioms, of hashAlg]
    emits_Cons [OF emits_put [OF mu_UINT32.marshaler_axioms, of pcrNum]
    emits_skip]]]]])
    (simp_all add: Tss2_Sys_PCR_SetAuthPolicy_Prepare_def weak_defs prepare_simps del: steps.simps)

interpretation complete_PCR_SetAuthPolicy: sys_complete "\<lambda>(ctx, _). Tss2_Sys_PCR_SetAuthPolicy_Complete ctx" TPM2_CC_PCR_SetAuthPolicy
  "\<lambda>(_). True"
  "\<lambda>(_). True"
  "\<lambda>(_). []"
  "\<lambda>(_). []"
  by (rule sys_completeI [OF sys_complete_plain [OF reads_Nil]])
    (simp_all add: Tss2_Sys_PCR_SetAuthPolicy_Complete_def split_paired_all del: steps.simps)

interpretation cmd_PCR_SetAuthPolicy: sys_command "\<lambda>ctx. Tss2_Sys_PCR_SetAuthPolicy_Prepare ctx authHandle authPolicy hashAlg pcrNum"
  "\<lambda>(ctx, _). Tss2_Sys_PCR_SetAuthPolicy_Complete ctx" TPM2_CC_PCR_SetAuthPolicy "True \<in> set []"
  "opt_valid (src_TPM2B 66 64) authPolicy"
  "opt_valid (valid_TPM2B 64) authPolicy"
  "be_bytes authHandle"
  "opt_wire wire_TPM2B authPolicy @ be_bytes hashAlg @ be_bytes pcrNum" "Option.is_none authPolicy" True False True
  "\<lambda>(_). True"
  "\<lambda>(_). True"
  "\<lambda>(_). []"
  "\<lambda>(_). []"
  "\<lambda>(ctx, rsp, _). Tss2_Sys_PCR_SetAuthPolicy ctx authHandle cmdAuthsArray authPolicy hashAlg pcrNum rsp" cmdAuthsArray
  for authHandle authPolicy hashAlg pcrNum cmdAuthsArray
  by (rule sys_command.intro [OF prepare_PCR_SetAuthPolicy.sys_prepare_axioms complete_PCR_SetAuthPolicy.sys_complete_axioms sys_command_axioms.intro])
    (auto simp: Tss2_Sys_PCR_SetAuthPolicy_def one_call_def one_call_simps null_rc_def dest!: ptr_valid_some simp del: steps.simps)

end
