(* ===== verification/Sys_Commands_4.thy ===== *)
theory Sys_Commands_4
  imports Sys_OneCall
begin

text \<open>
  The command functions of \<open>src/tss2-sys/api\<close> from \<open>PCR_SetAuthValue\<close> to \<open>RSA_Decrypt\<close>: for each command \<open>_Prepare\<close>, \<open>_Complete\<close> and
  the one-call function, with the contracts they satisfy.
\<close>

section \<open>Commands\<close>

subsection \<open>PCR SetAuthValue\<close>

definition Tss2_Sys_PCR_SetAuthValue_Prepare where
  "Tss2_Sys_PCR_SetAuthValue_Prepare sysContext pcrHandle auth = steps
     [null_check [],
      CommonPreparePrologue TPM2_CC_PCR_SetAuthValue,
      put (Tss2_MU_UINT32_Marshal pcrHandle),
      if Option.is_none auth
        then put (Tss2_MU_UINT16_Marshal 0)
        else put (Tss2_MU_TPM2B_DIGEST_Marshal auth),
      assign (flags True False True),
      CommonPrepareEpilogue]
     sysContext"

definition Tss2_Sys_PCR_SetAuthValue_Complete where
  "Tss2_Sys_PCR_SetAuthValue_Complete sysContext = steps
     [on_fst (null_check []),
      on_fst CommonComplete]
     (sysContext, ())"

definition Tss2_Sys_PCR_SetAuthValue where
  "Tss2_Sys_PCR_SetAuthValue sysContext pcrHandle cmdAuthsArray auth rspAuthsArray = steps
     [on_fst (\<lambda>ctx. Tss2_Sys_PCR_SetAuthValue_Prepare ctx pcrHandle auth),
      on_rsp (CommonOneCall cmdAuthsArray),
      skip_out (\<lambda>(ctx, _). Tss2_Sys_PCR_SetAuthValue_Complete ctx)]
     (sysContext, rspAuthsArray, ())"

lemma PCR_SetAuthValue_handles [simp]:
  "GetNumCommandHandles TPM2_CC_PCR_SetAuthValue = 1" "GetNumResponseHandles TPM2_CC_PCR_SetAuthValue = 0"
  using GetNumHandles_entry [of TPM2_CC_PCR_SetAuthValue 1 0] by (simp_all add: commandArray_def)

interpretation prepare_PCR_SetAuthValue: sys_prepare "\<lambda>ctx. Tss2_Sys_PCR_SetAuthValue_Prepare ctx pcrHandle auth" TPM2_CC_PCR_SetAuthValue "True \<in> set []"
  "opt_valid (src_TPM2B 66 64) auth"
  "opt_valid (valid_TPM2B 64) auth"
  "be_bytes pcrHandle"
  "opt_wire wire_TPM2B auth" "False" True False True
  for pcrHandle auth
  by (rule sys_prepareI [OF emits_Cons [OF emits_put [OF mu_UINT32.marshaler_axioms, of pcrHandle]
    emits_Cons [OF emits_opt [OF mu_TPM2B_DIGEST.marshaler_axioms, of auth]
    emits_skip]]])
    (simp_all add: Tss2_Sys_PCR_SetAuthValue_Prepare_def weak_defs prepare_simps del: steps.simps)

interpretation complete_PCR_SetAuthValue: sys_complete "\<lambda>(ctx, _). Tss2_Sys_PCR_SetAuthValue_Complete ctx" TPM2_CC_PCR_SetAuthValue
  "\<lambda>(_). True"
  "\<lambda>(_). True"
  "\<lambda>(_). []"
  "\<lambda>(_). []"
  by (rule sys_completeI [OF sys_complete_plain [OF reads_Nil]])
    (simp_all add: Tss2_Sys_PCR_SetAuthValue_Complete_def split_paired_all del: steps.simps)

interpretation cmd_PCR_SetAuthValue: sys_command "\<lambda>ctx. Tss2_Sys_PCR_SetAuthValue_Prepare ctx pcrHandle auth"
  "\<lambda>(ctx, _). Tss2_Sys_PCR_SetAuthValue_Complete ctx" TPM2_CC_PCR_SetAuthValue "True \<in> set []"
  "opt_valid (src_TPM2B 66 64) auth"
  "opt_valid (valid_TPM2B 64) auth"
  "be_bytes pcrHandle"
  "opt_wire wire_TPM2B auth" "False" True False True
  "\<lambda>(_). True"
  "\<lambda>(_). True"
  "\<lambda>(_). []"
  "\<lambda>(_). []"
  "\<lambda>(ctx, rsp, _). Tss2_Sys_PCR_SetAuthValue ctx pcrHandle cmdAuthsArray auth rsp" cmdAuthsArray
  for pcrHandle auth cmdAuthsArray
  by (rule sys_command.intro [OF prepare_PCR_SetAuthValue.sys_prepare_axioms complete_PCR_SetAuthValue.sys_complete_axioms sys_command_axioms.intro])
    (auto simp: Tss2_Sys_PCR_SetAuthValue_def one_call_def one_call_simps null_rc_def dest!: ptr_valid_some simp del: steps.simps)

subsection \<open>PP Commands\<close>

definition Tss2_Sys_PP_Commands_Prepare where
  "Tss2_Sys_PP_Commands_Prepare sysContext auth setList clearList = steps
     [null_check [Option.is_none setList, Option.is_none clearList],
      CommonPreparePrologue TPM2_CC_PP_Commands,
      put (Tss2_MU_UINT32_Marshal auth),
      put (Tss2_MU_TPML_CC_Marshal setList),
      put (Tss2_MU_TPML_CC_Marshal clearList),
      assign (flags False False True),
      CommonPrepareEpilogue]
     sysContext"

definition Tss2_Sys_PP_Commands_Complete where
  "Tss2_Sys_PP_Commands_Complete sysContext = steps
     [on_fst (null_check []),
      on_fst CommonComplete]
     (sysContext, ())"

definition Tss2_Sys_PP_Commands where
  "Tss2_Sys_PP_Commands sysContext auth cmdAuthsArray setList clearList rspAuthsArray = steps
     [ret (null_rc [Option.is_none setList, Option.is_none clearList]),
      on_fst (\<lambda>ctx. Tss2_Sys_PP_Commands_Prepare ctx auth setList clearList),
      on_rsp (CommonOneCall cmdAuthsArray),
      skip_out (\<lambda>(ctx, _). Tss2_Sys_PP_Commands_Complete ctx)]
     (sysContext, rspAuthsArray, ())"

lemma PP_Commands_handles [simp]:
  "GetNumCommandHandles TPM2_CC_PP_Commands = 1" "GetNumResponseHandles TPM2_CC_PP_Commands = 0"
  using GetNumHandles_entry [of TPM2_CC_PP_Commands 1 0] by (simp_all add: commandArray_def)

interpretation prepare_PP_Commands: sys_prepare "\<lambda>ctx. Tss2_Sys_PP_Commands_Prepare ctx auth setList clearList" TPM2_CC_PP_Commands "True \<in> set [Option.is_none setList, Option.is_none clearList]"
  "opt_valid (src_TPML 256 (\<lambda>_. True)) setList \<and> opt_valid (src_TPML 256 (\<lambda>_. True)) clearList"
  "ptr_valid (valid_TPML 256 (\<lambda>_. True)) setList \<and> ptr_valid (valid_TPML 256 (\<lambda>_. True)) clearList"
  "be_bytes auth"
  "ptr_wire (wire_TPML be_bytes) setList @ ptr_wire (wire_TPML be_bytes) clearList" "False" False False True
  for auth setList clearList
  by (rule sys_prepareI [OF emits_Cons [OF emits_put [OF mu_UINT32.marshaler_axioms, of auth]
    emits_Cons [OF emits_ptr [OF mu_TPML_CC.marshaler_axioms null_TPML_CC, of setList]
    emits_Cons [OF emits_ptr [OF mu_TPML_CC.marshaler_axioms null_TPML_CC, of clearList]
    emits_skip]]]])
    (simp_all add: Tss2_Sys_PP_Commands_Prepare_def weak_defs prepare_simps del: steps.simps)

interpretation complete_PP_Commands: sys_complete "\<lambda>(ctx, _). Tss2_Sys_PP_Commands_Complete ctx" TPM2_CC_PP_Commands
  "\<lambda>(_). True"
  "\<lambda>(_). True"
  "\<lambda>(_). []"
  "\<lambda>(_). []"
  by (rule sys_completeI [OF sys_complete_plain [OF reads_Nil]])
    (simp_all add: Tss2_Sys_PP_Commands_Complete_def split_paired_all del: steps.simps)

interpretation cmd_PP_Commands: sys_command "\<lambda>ctx. Tss2_Sys_PP_Commands_Prepare ctx auth setList clearList"
  "\<lambda>(ctx, _). Tss2_Sys_PP_Commands_Complete ctx" TPM2_CC_PP_Commands "True \<in> set [Option.is_none setList, Option.is_none clearList]"
  "opt_valid (src_TPML 256 (\<lambda>_. True)) setList \<and> opt_valid (src_TPML 256 (\<lambda>_. True)) clearList"
  "ptr_valid (valid_TPML 256 (\<lambda>_. True)) setList \<and> ptr_valid (valid_TPML 256 (\<lambda>_. True)) clearList"
  "be_bytes auth"
  "ptr_wire (wire_TPML be_bytes) setList @ ptr_wire (wire_TPML be_bytes) clearList" "False" False False True
  "\<lambda>(_). True"
  "\<lambda>(_). True"
  "\<lambda>(_). []"
  "\<lambda>(_). []"
  "\<lambda>(ctx, rsp, _). Tss2_Sys_PP_Commands ctx auth cmdAuthsArray setList clearList rsp" cmdAuthsArray
  for auth setList clearList cmdAuthsArray
  by (rule sys_command.intro [OF prepare_PP_Commands.sys_prepare_axioms complete_PP_Commands.sys_complete_axioms sys_command_axioms.intro])
    (auto simp: Tss2_Sys_PP_Commands_def one_call_def one_call_simps null_rc_def dest!: ptr_valid_some simp del: steps.simps)

subsection \<open>PolicyAuthValue\<close>

definition Tss2_Sys_PolicyAuthValue_Prepare where
  "Tss2_Sys_PolicyAuthValue_Prepare sysContext policySession = steps
     [null_check [],
      CommonPreparePrologue TPM2_CC_PolicyAuthValue,
      put (Tss2_MU_UINT32_Marshal policySession),
      assign (flags False False True),
      CommonPrepareEpilogue]
     sysContext"

definition Tss2_Sys_PolicyAuthValue_Complete where
  "Tss2_Sys_PolicyAuthValue_Complete sysContext = steps
     [on_fst (null_check []),
      on_fst CommonComplete]
     (sysContext, ())"

definition Tss2_Sys_PolicyAuthValue where
  "Tss2_Sys_PolicyAuthValue sysContext policySession cmdAuthsArray rspAuthsArray = steps
     [on_fst (\<lambda>ctx. Tss2_Sys_PolicyAuthValue_Prepare ctx policySession),
      on_rsp (CommonOneCall cmdAuthsArray),
      skip_out (\<lambda>(ctx, _). Tss2_Sys_PolicyAuthValue_Complete ctx)]
     (sysContext, rspAuthsArray, ())"

lemma PolicyAuthValue_handles [simp]:
  "GetNumCommandHandles TPM2_CC_PolicyAuthValue = 1" "GetNumResponseHandles TPM2_CC_PolicyAuthValue = 0"
  using GetNumHandles_entry [of TPM2_CC_PolicyAuthValue 1 0] by (simp_all add: commandArray_def)

interpretation prepare_PolicyAuthValue: sys_prepare "\<lambda>ctx. Tss2_Sys_PolicyAuthValue_Prepare ctx policySession" TPM2_CC_PolicyAuthValue "True \<in> set []"
  "True"
  "True"
  "be_bytes policySession"
  "[]" "False" False False True
  for policySession
  by (rule sys_prepareI [OF emits_Cons [OF emits_put [OF mu_UINT32.marshaler_axioms, of policySession]
    emits_skip]])
    (simp_all add: Tss2_Sys_PolicyAuthValue_Prepare_def weak_defs prepare_simps del: steps.simps)

interpretation complete_PolicyAuthValue: sys_complete "\<lambda>(ctx, _). Tss2_Sys_PolicyAuthValue_Complete ctx" TPM2_CC_PolicyAuthValue
  "\<lambda>(_). True"
  "\<lambda>(_). True"
  "\<lambda>(_). []"
  "\<lambda>(_). []"
  by (rule sys_completeI [OF sys_complete_plain [OF reads_Nil]])
    (simp_all add: Tss2_Sys_PolicyAuthValue_Complete_def split_paired_all del: steps.simps)

interpretation cmd_PolicyAuthValue: sys_command "\<lambda>ctx. Tss2_Sys_PolicyAuthValue_Prepare ctx policySession"
  "\<lambda>(ctx, _). Tss2_Sys_PolicyAuthValue_Complete ctx" TPM2_CC_PolicyAuthValue "True \<in> set []"
  "True"
  "True"
  "be_bytes policySession"
  "[]" "False" False False True
  "\<lambda>(_). True"
  "\<lambda>(_). True"
  "\<lambda>(_). []"
  "\<lambda>(_). []"
  "\<lambda>(ctx, rsp, _). Tss2_Sys_PolicyAuthValue ctx policySession cmdAuthsArray rsp" cmdAuthsArray
  for policySession cmdAuthsArray
  by (rule sys_command.intro [OF prepare_PolicyAuthValue.sys_prepare_axioms complete_PolicyAuthValue.sys_complete_axioms sys_command_axioms.intro])
    (auto simp: Tss2_Sys_PolicyAuthValue_def one_call_def one_call_simps null_rc_def dest!: ptr_valid_some simp del: steps.simps)

subsection \<open>PolicyAuthorize\<close>

definition Tss2_Sys_PolicyAuthorize_Prepare where
  "Tss2_Sys_PolicyAuthorize_Prepare sysContext policySession approvedPolicy policyRef keySign checkTicket = steps
     [null_check [Option.is_none checkTicket],
      CommonPreparePrologue TPM2_CC_PolicyAuthorize,
      put (Tss2_MU_UINT32_Marshal policySession),
      if Option.is_none approvedPolicy
        then steps [assign (ctx_decryptNull_update (\<lambda>_. True)), put (Tss2_MU_UINT16_Marshal 0)]
        else put (Tss2_MU_TPM2B_DIGEST_Marshal approvedPolicy),
      if Option.is_none policyRef
        then put (Tss2_MU_UINT16_Marshal 0)
        else put (Tss2_MU_TPM2B_NONCE_Marshal policyRef),
      if Option.is_none keySign
        then put (Tss2_MU_UINT16_Marshal 0)
        else put (Tss2_MU_TPM2B_NAME_Marshal keySign),
      put (Tss2_MU_TPMT_TK_VERIFIED_Marshal checkTicket),
      assign (flags True False True),
      CommonPrepareEpilogue]
     sysContext"

definition Tss2_Sys_PolicyAuthorize_Complete where
  "Tss2_Sys_PolicyAuthorize_Complete sysContext = steps
     [on_fst (null_check []),
      on_fst CommonComplete]
     (sysContext, ())"

definition Tss2_Sys_PolicyAuthorize where
  "Tss2_Sys_PolicyAuthorize sysContext policySession cmdAuthsArray approvedPolicy policyRef keySign checkTicket rspAuthsArray = steps
     [ret (null_rc [Option.is_none checkTicket]),
      on_fst (\<lambda>ctx. Tss2_Sys_PolicyAuthorize_Prepare ctx policySession approvedPolicy policyRef keySign checkTicket),
      on_rsp (CommonOneCall cmdAuthsArray),
      skip_out (\<lambda>(ctx, _). Tss2_Sys_PolicyAuthorize_Complete ctx)]
     (sysContext, rspAuthsArray, ())"

lemma PolicyAuthorize_handles [simp]:
  "GetNumCommandHandles TPM2_CC_PolicyAuthorize = 1" "GetNumResponseHandles TPM2_CC_PolicyAuthorize = 0"
  using GetNumHandles_entry [of TPM2_CC_PolicyAuthorize 1 0] by (simp_all add: commandArray_def)

interpretation prepare_PolicyAuthorize: sys_prepare "\<lambda>ctx. Tss2_Sys_PolicyAuthorize_Prepare ctx policySession approvedPolicy policyRef keySign checkTicket" TPM2_CC_PolicyAuthorize "True \<in> set [Option.is_none checkTicket]"
  "opt_valid (src_TPM2B 66 64) approvedPolicy \<and> opt_valid (src_TPM2B 66 64) policyRef \<and> opt_valid (src_TPM2B 70 68) keySign \<and> opt_valid src_TPMT_TK_VERIFIED checkTicket"
  "opt_valid (valid_TPM2B 64) approvedPolicy \<and> opt_valid (valid_TPM2B 64) policyRef \<and> opt_valid (valid_TPM2B 68) keySign \<and> ptr_valid valid_TPMT_TK_VERIFIED checkTicket"
  "be_bytes policySession"
  "opt_wire wire_TPM2B approvedPolicy @ opt_wire wire_TPM2B policyRef @ opt_wire wire_TPM2B keySign @ ptr_wire wire_TPMT_TK_VERIFIED checkTicket" "Option.is_none approvedPolicy" True False True
  for policySession approvedPolicy policyRef keySign checkTicket
  by (rule sys_prepareI [OF emits_Cons [OF emits_put [OF mu_UINT32.marshaler_axioms, of policySession]
    emits_Cons [OF emits_opt_null [OF mu_TPM2B_DIGEST.marshaler_axioms, of approvedPolicy]
    emits_Cons [OF emits_opt [OF mu_TPM2B_NONCE.marshaler_axioms, of policyRef]
    emits_Cons [OF emits_opt [OF mu_TPM2B_NAME.marshaler_axioms, of keySign]
    emits_Cons [OF emits_ptr [OF mu_TPMT_TK_VERIFIED.marshaler_axioms null_TPMT_TK_VERIFIED, of checkTicket]
    emits_skip]]]]]])
    (simp_all add: Tss2_Sys_PolicyAuthorize_Prepare_def weak_defs prepare_simps del: steps.simps)

interpretation complete_PolicyAuthorize: sys_complete "\<lambda>(ctx, _). Tss2_Sys_PolicyAuthorize_Complete ctx" TPM2_CC_PolicyAuthorize
  "\<lambda>(_). True"
  "\<lambda>(_). True"
  "\<lambda>(_). []"
  "\<lambda>(_). []"
  by (rule sys_completeI [OF sys_complete_plain [OF reads_Nil]])
    (simp_all add: Tss2_Sys_PolicyAuthorize_Complete_def split_paired_all del: steps.simps)

interpretation cmd_PolicyAuthorize: sys_command "\<lambda>ctx. Tss2_Sys_PolicyAuthorize_Prepare ctx policySession approvedPolicy policyRef keySign checkTicket"
  "\<lambda>(ctx, _). Tss2_Sys_PolicyAuthorize_Complete ctx" TPM2_CC_PolicyAuthorize "True \<in> set [Option.is_none checkTicket]"
  "opt_valid (src_TPM2B 66 64) approvedPolicy \<and> opt_valid (src_TPM2B 66 64) policyRef \<and> opt_valid (src_TPM2B 70 68) keySign \<and> opt_valid src_TPMT_TK_VERIFIED checkTicket"
  "opt_valid (valid_TPM2B 64) approvedPolicy \<and> opt_valid (valid_TPM2B 64) policyRef \<and> opt_valid (valid_TPM2B 68) keySign \<and> ptr_valid valid_TPMT_TK_VERIFIED checkTicket"
  "be_bytes policySession"
  "opt_wire wire_TPM2B approvedPolicy @ opt_wire wire_TPM2B policyRef @ opt_wire wire_TPM2B keySign @ ptr_wire wire_TPMT_TK_VERIFIED checkTicket" "Option.is_none approvedPolicy" True False True
  "\<lambda>(_). True"
  "\<lambda>(_). True"
  "\<lambda>(_). []"
  "\<lambda>(_). []"
  "\<lambda>(ctx, rsp, _). Tss2_Sys_PolicyAuthorize ctx policySession cmdAuthsArray approvedPolicy policyRef keySign checkTicket rsp" cmdAuthsArray
  for policySession approvedPolicy policyRef keySign checkTicket cmdAuthsArray
  by (rule sys_command.intro [OF prepare_PolicyAuthorize.sys_prepare_axioms complete_PolicyAuthorize.sys_complete_axioms sys_command_axioms.intro])
    (auto simp: Tss2_Sys_PolicyAuthorize_def one_call_def one_call_simps null_rc_def dest!: ptr_valid_some simp del: steps.simps)

subsection \<open>PolicyAuthorizeNV\<close>

definition Tss2_Sys_PolicyAuthorizeNV_Prepare where
  "Tss2_Sys_PolicyAuthorizeNV_Prepare sysContext authHandle nvIndex policySession = steps
     [null_check [],
      CommonPreparePrologue TPM2_CC_PolicyAuthorizeNV,
      put (Tss2_MU_TPM2_HANDLE_Marshal authHandle),
      put (Tss2_MU_TPM2_HANDLE_Marshal nvIndex),
      put (Tss2_MU_TPM2_HANDLE_Marshal policySession),
      assign (flags False False True),
      CommonPrepareEpilogue]
     sysContext"

definition Tss2_Sys_PolicyAuthorizeNV_Complete where
  "Tss2_Sys_PolicyAuthorizeNV_Complete sysContext = steps
     [on_fst (null_check []),
      on_fst CommonComplete]
     (sysContext, ())"

definition Tss2_Sys_PolicyAuthorizeNV where
  "Tss2_Sys_PolicyAuthorizeNV sysContext authHandle nvIndex policySession cmdAuthsArray rspAuthsArray = steps
     [on_fst (\<lambda>ctx. Tss2_Sys_PolicyAuthorizeNV_Prepare ctx authHandle nvIndex policySession),
      on_rsp (CommonOneCall cmdAuthsArray),
      skip_out (\<lambda>(ctx, _). Tss2_Sys_PolicyAuthorizeNV_Complete ctx)]
     (sysContext, rspAuthsArray, ())"

lemma PolicyAuthorizeNV_handles [simp]:
  "GetNumCommandHandles TPM2_CC_PolicyAuthorizeNV = 3" "GetNumResponseHandles TPM2_CC_PolicyAuthorizeNV = 0"
  using GetNumHandles_entry [of TPM2_CC_PolicyAuthorizeNV 3 0] by (simp_all add: commandArray_def)

interpretation prepare_PolicyAuthorizeNV: sys_prepare "\<lambda>ctx. Tss2_Sys_PolicyAuthorizeNV_Prepare ctx authHandle nvIndex policySession" TPM2_CC_PolicyAuthorizeNV "True \<in> set []"
  "True"
  "True"
  "be_bytes authHandle @ be_bytes nvIndex @ be_bytes policySession"
  "[]" "False" False False True
  for authHandle nvIndex policySession
  by (rule sys_prepareI [OF emits_Cons [OF emits_put [OF mu_TPM2_HANDLE.marshaler_axioms, of authHandle]
    emits_Cons [OF emits_put [OF mu_TPM2_HANDLE.marshaler_axioms, of nvIndex]
    emits_Cons [OF emits_put [OF mu_TPM2_HANDLE.marshaler_axioms, of policySession]
    emits_skip]]]])
    (simp_all add: Tss2_Sys_PolicyAuthorizeNV_Prepare_def weak_defs prepare_simps del: steps.simps)

interpretation complete_PolicyAuthorizeNV: sys_complete "\<lambda>(ctx, _). Tss2_Sys_PolicyAuthorizeNV_Complete ctx" TPM2_CC_PolicyAuthorizeNV
  "\<lambda>(_). True"
  "\<lambda>(_). True"
  "\<lambda>(_). []"
  "\<lambda>(_). []"
  by (rule sys_completeI [OF sys_complete_plain [OF reads_Nil]])
    (simp_all add: Tss2_Sys_PolicyAuthorizeNV_Complete_def split_paired_all del: steps.simps)

interpretation cmd_PolicyAuthorizeNV: sys_command "\<lambda>ctx. Tss2_Sys_PolicyAuthorizeNV_Prepare ctx authHandle nvIndex policySession"
  "\<lambda>(ctx, _). Tss2_Sys_PolicyAuthorizeNV_Complete ctx" TPM2_CC_PolicyAuthorizeNV "True \<in> set []"
  "True"
  "True"
  "be_bytes authHandle @ be_bytes nvIndex @ be_bytes policySession"
  "[]" "False" False False True
  "\<lambda>(_). True"
  "\<lambda>(_). True"
  "\<lambda>(_). []"
  "\<lambda>(_). []"
  "\<lambda>(ctx, rsp, _). Tss2_Sys_PolicyAuthorizeNV ctx authHandle nvIndex policySession cmdAuthsArray rsp" cmdAuthsArray
  for authHandle nvIndex policySession cmdAuthsArray
  by (rule sys_command.intro [OF prepare_PolicyAuthorizeNV.sys_prepare_axioms complete_PolicyAuthorizeNV.sys_complete_axioms sys_command_axioms.intro])
    (auto simp: Tss2_Sys_PolicyAuthorizeNV_def one_call_def one_call_simps null_rc_def dest!: ptr_valid_some simp del: steps.simps)

subsection \<open>PolicyCommandCode\<close>

definition Tss2_Sys_PolicyCommandCode_Prepare where
  "Tss2_Sys_PolicyCommandCode_Prepare sysContext policySession code = steps
     [null_check [],
      CommonPreparePrologue TPM2_CC_PolicyCommandCode,
      put (Tss2_MU_UINT32_Marshal policySession),
      put (Tss2_MU_UINT32_Marshal code),
      assign (flags False False True),
      CommonPrepareEpilogue]
     sysContext"

definition Tss2_Sys_PolicyCommandCode_Complete where
  "Tss2_Sys_PolicyCommandCode_Complete sysContext = steps
     [on_fst (null_check []),
      on_fst CommonComplete]
     (sysContext, ())"

definition Tss2_Sys_PolicyCommandCode where
  "Tss2_Sys_PolicyCommandCode sysContext policySession cmdAuthsArray code rspAuthsArray = steps
     [on_fst (\<lambda>ctx. Tss2_Sys_PolicyCommandCode_Prepare ctx policySession code),
      on_rsp (CommonOneCall cmdAuthsArray),
      skip_out (\<lambda>(ctx, _). Tss2_Sys_PolicyCommandCode_Complete ctx)]
     (sysContext, rspAuthsArray, ())"

lemma PolicyCommandCode_handles [simp]:
  "GetNumCommandHandles TPM2_CC_PolicyCommandCode = 1" "GetNumResponseHandles TPM2_CC_PolicyCommandCode = 0"
  using GetNumHandles_entry [of TPM2_CC_PolicyCommandCode 1 0] by (simp_all add: commandArray_def)

interpretation prepare_PolicyCommandCode: sys_prepare "\<lambda>ctx. Tss2_Sys_PolicyCommandCode_Prepare ctx policySession code" TPM2_CC_PolicyCommandCode "True \<in> set []"
  "True"
  "True"
  "be_bytes policySession"
  "be_bytes code" "False" False False True
  for policySession code
  by (rule sys_prepareI [OF emits_Cons [OF emits_put [OF mu_UINT32.marshaler_axioms, of policySession]
    emits_Cons [OF emits_put [OF mu_UINT32.marshaler_axioms, of code]
    emits_skip]]])
    (simp_all add: Tss2_Sys_PolicyCommandCode_Prepare_def weak_defs prepare_simps del: steps.simps)

interpretation complete_PolicyCommandCode: sys_complete "\<lambda>(ctx, _). Tss2_Sys_PolicyCommandCode_Complete ctx" TPM2_CC_PolicyCommandCode
  "\<lambda>(_). True"
  "\<lambda>(_). True"
  "\<lambda>(_). []"
  "\<lambda>(_). []"
  by (rule sys_completeI [OF sys_complete_plain [OF reads_Nil]])
    (simp_all add: Tss2_Sys_PolicyCommandCode_Complete_def split_paired_all del: steps.simps)

interpretation cmd_PolicyCommandCode: sys_command "\<lambda>ctx. Tss2_Sys_PolicyCommandCode_Prepare ctx policySession code"
  "\<lambda>(ctx, _). Tss2_Sys_PolicyCommandCode_Complete ctx" TPM2_CC_PolicyCommandCode "True \<in> set []"
  "True"
  "True"
  "be_bytes policySession"
  "be_bytes code" "False" False False True
  "\<lambda>(_). True"
  "\<lambda>(_). True"
  "\<lambda>(_). []"
  "\<lambda>(_). []"
  "\<lambda>(ctx, rsp, _). Tss2_Sys_PolicyCommandCode ctx policySession cmdAuthsArray code rsp" cmdAuthsArray
  for policySession code cmdAuthsArray
  by (rule sys_command.intro [OF prepare_PolicyCommandCode.sys_prepare_axioms complete_PolicyCommandCode.sys_complete_axioms sys_command_axioms.intro])
    (auto simp: Tss2_Sys_PolicyCommandCode_def one_call_def one_call_simps null_rc_def dest!: ptr_valid_some simp del: steps.simps)

subsection \<open>PolicyCounterTimer\<close>

definition Tss2_Sys_PolicyCounterTimer_Prepare where
  "Tss2_Sys_PolicyCounterTimer_Prepare sysContext policySession operandB offset operation = steps
     [null_check [],
      CommonPreparePrologue TPM2_CC_PolicyCounterTimer,
      put (Tss2_MU_UINT32_Marshal policySession),
      if Option.is_none operandB
        then steps [assign (ctx_decryptNull_update (\<lambda>_. True)), put (Tss2_MU_UINT16_Marshal 0)]
        else put (Tss2_MU_TPM2B_OPERAND_Marshal operandB),
      put (Tss2_MU_UINT16_Marshal offset),
      put (Tss2_MU_UINT16_Marshal operation),
      assign (flags True False True),
      CommonPrepareEpilogue]
     sysContext"

definition Tss2_Sys_PolicyCounterTimer_Complete where
  "Tss2_Sys_PolicyCounterTimer_Complete sysContext = steps
     [on_fst (null_check []),
      on_fst CommonComplete]
     (sysContext, ())"

definition Tss2_Sys_PolicyCounterTimer where
  "Tss2_Sys_PolicyCounterTimer sysContext policySession cmdAuthsArray operandB offset operation rspAuthsArray = steps
     [on_fst (\<lambda>ctx. Tss2_Sys_PolicyCounterTimer_Prepare ctx policySession operandB offset operation),
      on_rsp (CommonOneCall cmdAuthsArray),
      skip_out (\<lambda>(ctx, _). Tss2_Sys_PolicyCounterTimer_Complete ctx)]
     (sysContext, rspAuthsArray, ())"

lemma PolicyCounterTimer_handles [simp]:
  "GetNumCommandHandles TPM2_CC_PolicyCounterTimer = 1" "GetNumResponseHandles TPM2_CC_PolicyCounterTimer = 0"
  using GetNumHandles_entry [of TPM2_CC_PolicyCounterTimer 1 0] by (simp_all add: commandArray_def)

interpretation prepare_PolicyCounterTimer: sys_prepare "\<lambda>ctx. Tss2_Sys_PolicyCounterTimer_Prepare ctx policySession operandB offset operation" TPM2_CC_PolicyCounterTimer "True \<in> set []"
  "opt_valid (src_TPM2B 66 64) operandB"
  "opt_valid (valid_TPM2B 64) operandB"
  "be_bytes policySession"
  "opt_wire wire_TPM2B operandB @ be_bytes offset @ be_bytes operation" "Option.is_none operandB" True False True
  for policySession operandB offset operation
  by (rule sys_prepareI [OF emits_Cons [OF emits_put [OF mu_UINT32.marshaler_axioms, of policySession]
    emits_Cons [OF emits_opt_null [OF mu_TPM2B_OPERAND.marshaler_axioms, of operandB]
    emits_Cons [OF emits_put [OF mu_UINT16.marshaler_axioms, of offset]
    emits_Cons [OF emits_put [OF mu_UINT16.marshaler_axioms, of operation]
    emits_skip]]]]])
    (simp_all add: Tss2_Sys_PolicyCounterTimer_Prepare_def weak_defs prepare_simps del: steps.simps)

interpretation complete_PolicyCounterTimer: sys_complete "\<lambda>(ctx, _). Tss2_Sys_PolicyCounterTimer_Complete ctx" TPM2_CC_PolicyCounterTimer
  "\<lambda>(_). True"
  "\<lambda>(_). True"
  "\<lambda>(_). []"
  "\<lambda>(_). []"
  by (rule sys_completeI [OF sys_complete_plain [OF reads_Nil]])
    (simp_all add: Tss2_Sys_PolicyCounterTimer_Complete_def split_paired_all del: steps.simps)

interpretation cmd_PolicyCounterTimer: sys_command "\<lambda>ctx. Tss2_Sys_PolicyCounterTimer_Prepare ctx policySession operandB offset operation"
  "\<lambda>(ctx, _). Tss2_Sys_PolicyCounterTimer_Complete ctx" TPM2_CC_PolicyCounterTimer "True \<in> set []"
  "opt_valid (src_TPM2B 66 64) operandB"
  "opt_valid (valid_TPM2B 64) operandB"
  "be_bytes policySession"
  "opt_wire wire_TPM2B operandB @ be_bytes offset @ be_bytes operation" "Option.is_none operandB" True False True
  "\<lambda>(_). True"
  "\<lambda>(_). True"
  "\<lambda>(_). []"
  "\<lambda>(_). []"
  "\<lambda>(ctx, rsp, _). Tss2_Sys_PolicyCounterTimer ctx policySession cmdAuthsArray operandB offset operation rsp" cmdAuthsArray
  for policySession operandB offset operation cmdAuthsArray
  by (rule sys_command.intro [OF prepare_PolicyCounterTimer.sys_prepare_axioms complete_PolicyCounterTimer.sys_complete_axioms sys_command_axioms.intro])
    (auto simp: Tss2_Sys_PolicyCounterTimer_def one_call_def one_call_simps null_rc_def dest!: ptr_valid_some simp del: steps.simps)

subsection \<open>PolicyCpHash\<close>

definition Tss2_Sys_PolicyCpHash_Prepare where
  "Tss2_Sys_PolicyCpHash_Prepare sysContext policySession cpHashA = steps
     [null_check [],
      CommonPreparePrologue TPM2_CC_PolicyCpHash,
      put (Tss2_MU_UINT32_Marshal policySession),
      if Option.is_none cpHashA
        then put (Tss2_MU_UINT16_Marshal 0)
        else put (Tss2_MU_TPM2B_DIGEST_Marshal cpHashA),
      assign (flags True False True),
      CommonPrepareEpilogue]
     sysContext"

definition Tss2_Sys_PolicyCpHash_Complete where
  "Tss2_Sys_PolicyCpHash_Complete sysContext = steps
     [on_fst (null_check []),
      on_fst CommonComplete]
     (sysContext, ())"

definition Tss2_Sys_PolicyCpHash where
  "Tss2_Sys_PolicyCpHash sysContext policySession cmdAuthsArray cpHashA rspAuthsArray = steps
     [on_fst (\<lambda>ctx. Tss2_Sys_PolicyCpHash_Prepare ctx policySession cpHashA),
      on_rsp (CommonOneCall cmdAuthsArray),
      skip_out (\<lambda>(ctx, _). Tss2_Sys_PolicyCpHash_Complete ctx)]
     (sysContext, rspAuthsArray, ())"

lemma PolicyCpHash_handles [simp]:
  "GetNumCommandHandles TPM2_CC_PolicyCpHash = 1" "GetNumResponseHandles TPM2_CC_PolicyCpHash = 0"
  using GetNumHandles_entry [of TPM2_CC_PolicyCpHash 1 0] by (simp_all add: commandArray_def)

interpretation prepare_PolicyCpHash: sys_prepare "\<lambda>ctx. Tss2_Sys_PolicyCpHash_Prepare ctx policySession cpHashA" TPM2_CC_PolicyCpHash "True \<in> set []"
  "opt_valid (src_TPM2B 66 64) cpHashA"
  "opt_valid (valid_TPM2B 64) cpHashA"
  "be_bytes policySession"
  "opt_wire wire_TPM2B cpHashA" "False" True False True
  for policySession cpHashA
  by (rule sys_prepareI [OF emits_Cons [OF emits_put [OF mu_UINT32.marshaler_axioms, of policySession]
    emits_Cons [OF emits_opt [OF mu_TPM2B_DIGEST.marshaler_axioms, of cpHashA]
    emits_skip]]])
    (simp_all add: Tss2_Sys_PolicyCpHash_Prepare_def weak_defs prepare_simps del: steps.simps)

interpretation complete_PolicyCpHash: sys_complete "\<lambda>(ctx, _). Tss2_Sys_PolicyCpHash_Complete ctx" TPM2_CC_PolicyCpHash
  "\<lambda>(_). True"
  "\<lambda>(_). True"
  "\<lambda>(_). []"
  "\<lambda>(_). []"
  by (rule sys_completeI [OF sys_complete_plain [OF reads_Nil]])
    (simp_all add: Tss2_Sys_PolicyCpHash_Complete_def split_paired_all del: steps.simps)

interpretation cmd_PolicyCpHash: sys_command "\<lambda>ctx. Tss2_Sys_PolicyCpHash_Prepare ctx policySession cpHashA"
  "\<lambda>(ctx, _). Tss2_Sys_PolicyCpHash_Complete ctx" TPM2_CC_PolicyCpHash "True \<in> set []"
  "opt_valid (src_TPM2B 66 64) cpHashA"
  "opt_valid (valid_TPM2B 64) cpHashA"
  "be_bytes policySession"
  "opt_wire wire_TPM2B cpHashA" "False" True False True
  "\<lambda>(_). True"
  "\<lambda>(_). True"
  "\<lambda>(_). []"
  "\<lambda>(_). []"
  "\<lambda>(ctx, rsp, _). Tss2_Sys_PolicyCpHash ctx policySession cmdAuthsArray cpHashA rsp" cmdAuthsArray
  for policySession cpHashA cmdAuthsArray
  by (rule sys_command.intro [OF prepare_PolicyCpHash.sys_prepare_axioms complete_PolicyCpHash.sys_complete_axioms sys_command_axioms.intro])
    (auto simp: Tss2_Sys_PolicyCpHash_def one_call_def one_call_simps null_rc_def dest!: ptr_valid_some simp del: steps.simps)

subsection \<open>PolicyDuplicationSelect\<close>

definition Tss2_Sys_PolicyDuplicationSelect_Prepare where
  "Tss2_Sys_PolicyDuplicationSelect_Prepare sysContext policySession objectName newParentName includeObject = steps
     [null_check [],
      CommonPreparePrologue TPM2_CC_PolicyDuplicationSelect,
      put (Tss2_MU_UINT32_Marshal policySession),
      if Option.is_none objectName
        then steps [assign (ctx_decryptNull_update (\<lambda>_. True)), put (Tss2_MU_UINT16_Marshal 0)]
        else put (Tss2_MU_TPM2B_NAME_Marshal objectName),
      if Option.is_none newParentName
        then put (Tss2_MU_UINT16_Marshal 0)
        else put (Tss2_MU_TPM2B_NAME_Marshal newParentName),
      put (Tss2_MU_UINT8_Marshal includeObject),
      assign (flags True False True),
      CommonPrepareEpilogue]
     sysContext"

definition Tss2_Sys_PolicyDuplicationSelect_Complete where
  "Tss2_Sys_PolicyDuplicationSelect_Complete sysContext = steps
     [on_fst (null_check []),
      on_fst CommonComplete]
     (sysContext, ())"

definition Tss2_Sys_PolicyDuplicationSelect where
  "Tss2_Sys_PolicyDuplicationSelect sysContext policySession cmdAuthsArray objectName newParentName includeObject rspAuthsArray = steps
     [on_fst (\<lambda>ctx. Tss2_Sys_PolicyDuplicationSelect_Prepare ctx policySession objectName newParentName includeObject),
      on_rsp (CommonOneCall cmdAuthsArray),
      skip_out (\<lambda>(ctx, _). Tss2_Sys_PolicyDuplicationSelect_Complete ctx)]
     (sysContext, rspAuthsArray, ())"

lemma PolicyDuplicationSelect_handles [simp]:
  "GetNumCommandHandles TPM2_CC_PolicyDuplicationSelect = 1" "GetNumResponseHandles TPM2_CC_PolicyDuplicationSelect = 0"
  using GetNumHandles_entry [of TPM2_CC_PolicyDuplicationSelect 1 0] by (simp_all add: commandArray_def)

interpretation prepare_PolicyDuplicationSelect: sys_prepare "\<lambda>ctx. Tss2_Sys_PolicyDuplicationSelect_Prepare ctx policySession objectName newParentName includeObject" TPM2_CC_PolicyDuplicationSelect "True \<in> set []"
  "opt_valid (src_TPM2B 70 68) objectName \<and> opt_valid (src_TPM2B 70 68) newParentName"
  "opt_valid (valid_TPM2B 68) objectName \<and> opt_valid (valid_TPM2B 68) newParentName"
  "be_bytes policySession"
  "opt_wire wire_TPM2B objectName @ opt_wire wire_TPM2B newParentName @ be_bytes includeObject" "Option.is_none objectName" True False True
  for policySession objectName newParentName includeObject
  by (rule sys_prepareI [OF emits_Cons [OF emits_put [OF mu_UINT32.marshaler_axioms, of policySession]
    emits_Cons [OF emits_opt_null [OF mu_TPM2B_NAME.marshaler_axioms, of objectName]
    emits_Cons [OF emits_opt [OF mu_TPM2B_NAME.marshaler_axioms, of newParentName]
    emits_Cons [OF emits_put [OF mu_UINT8.marshaler_axioms, of includeObject]
    emits_skip]]]]])
    (simp_all add: Tss2_Sys_PolicyDuplicationSelect_Prepare_def weak_defs prepare_simps del: steps.simps)

interpretation complete_PolicyDuplicationSelect: sys_complete "\<lambda>(ctx, _). Tss2_Sys_PolicyDuplicationSelect_Complete ctx" TPM2_CC_PolicyDuplicationSelect
  "\<lambda>(_). True"
  "\<lambda>(_). True"
  "\<lambda>(_). []"
  "\<lambda>(_). []"
  by (rule sys_completeI [OF sys_complete_plain [OF reads_Nil]])
    (simp_all add: Tss2_Sys_PolicyDuplicationSelect_Complete_def split_paired_all del: steps.simps)

interpretation cmd_PolicyDuplicationSelect: sys_command "\<lambda>ctx. Tss2_Sys_PolicyDuplicationSelect_Prepare ctx policySession objectName newParentName includeObject"
  "\<lambda>(ctx, _). Tss2_Sys_PolicyDuplicationSelect_Complete ctx" TPM2_CC_PolicyDuplicationSelect "True \<in> set []"
  "opt_valid (src_TPM2B 70 68) objectName \<and> opt_valid (src_TPM2B 70 68) newParentName"
  "opt_valid (valid_TPM2B 68) objectName \<and> opt_valid (valid_TPM2B 68) newParentName"
  "be_bytes policySession"
  "opt_wire wire_TPM2B objectName @ opt_wire wire_TPM2B newParentName @ be_bytes includeObject" "Option.is_none objectName" True False True
  "\<lambda>(_). True"
  "\<lambda>(_). True"
  "\<lambda>(_). []"
  "\<lambda>(_). []"
  "\<lambda>(ctx, rsp, _). Tss2_Sys_PolicyDuplicationSelect ctx policySession cmdAuthsArray objectName newParentName includeObject rsp" cmdAuthsArray
  for policySession objectName newParentName includeObject cmdAuthsArray
  by (rule sys_command.intro [OF prepare_PolicyDuplicationSelect.sys_prepare_axioms complete_PolicyDuplicationSelect.sys_complete_axioms sys_command_axioms.intro])
    (auto simp: Tss2_Sys_PolicyDuplicationSelect_def one_call_def one_call_simps null_rc_def dest!: ptr_valid_some simp del: steps.simps)

subsection \<open>PolicyGetDigest\<close>

definition Tss2_Sys_PolicyGetDigest_Prepare where
  "Tss2_Sys_PolicyGetDigest_Prepare sysContext policySession = steps
     [null_check [],
      CommonPreparePrologue TPM2_CC_PolicyGetDigest,
      put (Tss2_MU_UINT32_Marshal policySession),
      assign (flags False True True),
      CommonPrepareEpilogue]
     sysContext"

definition Tss2_Sys_PolicyGetDigest_Complete where
  "Tss2_Sys_PolicyGetDigest_Complete sysContext policyDigest = steps
     [on_fst (null_check []),
      on_fst CommonComplete,
      get_out Tss2_MU_TPM2B_DIGEST_Unmarshal]
     (sysContext, policyDigest, ())"

definition Tss2_Sys_PolicyGetDigest where
  "Tss2_Sys_PolicyGetDigest sysContext policySession cmdAuthsArray policyDigest rspAuthsArray = steps
     [on_fst (\<lambda>ctx. Tss2_Sys_PolicyGetDigest_Prepare ctx policySession),
      on_rsp (CommonOneCall cmdAuthsArray),
      skip_out (\<lambda>(ctx, d1, _). Tss2_Sys_PolicyGetDigest_Complete ctx d1)]
     (sysContext, rspAuthsArray, policyDigest, ())"

lemma PolicyGetDigest_handles [simp]:
  "GetNumCommandHandles TPM2_CC_PolicyGetDigest = 1" "GetNumResponseHandles TPM2_CC_PolicyGetDigest = 0"
  using GetNumHandles_entry [of TPM2_CC_PolicyGetDigest 1 0] by (simp_all add: commandArray_def)

interpretation prepare_PolicyGetDigest: sys_prepare "\<lambda>ctx. Tss2_Sys_PolicyGetDigest_Prepare ctx policySession" TPM2_CC_PolicyGetDigest "True \<in> set []"
  "True"
  "True"
  "be_bytes policySession"
  "[]" "False" False True True
  for policySession
  by (rule sys_prepareI [OF emits_Cons [OF emits_put [OF mu_UINT32.marshaler_axioms, of policySession]
    emits_skip]])
    (simp_all add: Tss2_Sys_PolicyGetDigest_Prepare_def weak_defs prepare_simps del: steps.simps)

interpretation complete_PolicyGetDigest: sys_complete "\<lambda>(ctx, d1, _). Tss2_Sys_PolicyGetDigest_Complete ctx d1" TPM2_CC_PolicyGetDigest
  "\<lambda>(d1, _). ptr_valid (wt_TPM2B 64) d1"
  "\<lambda>(d1, _). ptr_valid (valid_TPM2B 64) d1"
  "\<lambda>(_, _). []"
  "\<lambda>(d1, _). ptr_wire wire_TPM2B d1"
  by (rule sys_completeI [OF sys_complete_plain [OF reads_Cons [OF mu_TPM2B_DIGEST.unmarshaler_axioms
    reads_Nil]]])
    (simp_all add: Tss2_Sys_PolicyGetDigest_Complete_def split_paired_all del: steps.simps)

interpretation cmd_PolicyGetDigest: sys_command "\<lambda>ctx. Tss2_Sys_PolicyGetDigest_Prepare ctx policySession"
  "\<lambda>(ctx, d1, _). Tss2_Sys_PolicyGetDigest_Complete ctx d1" TPM2_CC_PolicyGetDigest "True \<in> set []"
  "True"
  "True"
  "be_bytes policySession"
  "[]" "False" False True True
  "\<lambda>(d1, _). ptr_valid (wt_TPM2B 64) d1"
  "\<lambda>(d1, _). ptr_valid (valid_TPM2B 64) d1"
  "\<lambda>(_, _). []"
  "\<lambda>(d1, _). ptr_wire wire_TPM2B d1"
  "\<lambda>(ctx, rsp, d1, _). Tss2_Sys_PolicyGetDigest ctx policySession cmdAuthsArray d1 rsp" cmdAuthsArray
  for policySession cmdAuthsArray
  by (rule sys_command.intro [OF prepare_PolicyGetDigest.sys_prepare_axioms complete_PolicyGetDigest.sys_complete_axioms sys_command_axioms.intro])
    (auto simp: Tss2_Sys_PolicyGetDigest_def one_call_def one_call_simps null_rc_def dest!: ptr_valid_some simp del: steps.simps)

subsection \<open>PolicyLocality\<close>

definition Tss2_Sys_PolicyLocality_Prepare where
  "Tss2_Sys_PolicyLocality_Prepare sysContext policySession locality = steps
     [null_check [],
      CommonPreparePrologue TPM2_CC_PolicyLocality,
      put (Tss2_MU_UINT32_Marshal policySession),
      put (Tss2_MU_TPMA_LOCALITY_Marshal locality),
      assign (flags False False True),
      CommonPrepareEpilogue]
     sysContext"

definition Tss2_Sys_PolicyLocality_Complete where
  "Tss2_Sys_PolicyLocality_Complete sysContext = steps
     [on_fst (null_check []),
      on_fst CommonComplete]
     (sysContext, ())"

definition Tss2_Sys_PolicyLocality where
  "Tss2_Sys_PolicyLocality sysContext policySession cmdAuthsArray locality rspAuthsArray = steps
     [on_fst (\<lambda>ctx. Tss2_Sys_PolicyLocality_Prepare ctx policySession locality),
      on_rsp (CommonOneCall cmdAuthsArray),
      skip_out (\<lambda>(ctx, _). Tss2_Sys_PolicyLocality_Complete ctx)]
     (sysContext, rspAuthsArray, ())"

lemma PolicyLocality_handles [simp]:
  "GetNumCommandHandles TPM2_CC_PolicyLocality = 1" "GetNumResponseHandles TPM2_CC_PolicyLocality = 0"
  using GetNumHandles_entry [of TPM2_CC_PolicyLocality 1 0] by (simp_all add: commandArray_def)

interpretation prepare_PolicyLocality: sys_prepare "\<lambda>ctx. Tss2_Sys_PolicyLocality_Prepare ctx policySession locality" TPM2_CC_PolicyLocality "True \<in> set []"
  "True"
  "True"
  "be_bytes policySession"
  "be_bytes locality" "False" False False True
  for policySession locality
  by (rule sys_prepareI [OF emits_Cons [OF emits_put [OF mu_UINT32.marshaler_axioms, of policySession]
    emits_Cons [OF emits_put [OF mu_TPMA_LOCALITY.marshaler_axioms, of locality]
    emits_skip]]])
    (simp_all add: Tss2_Sys_PolicyLocality_Prepare_def weak_defs prepare_simps del: steps.simps)

interpretation complete_PolicyLocality: sys_complete "\<lambda>(ctx, _). Tss2_Sys_PolicyLocality_Complete ctx" TPM2_CC_PolicyLocality
  "\<lambda>(_). True"
  "\<lambda>(_). True"
  "\<lambda>(_). []"
  "\<lambda>(_). []"
  by (rule sys_completeI [OF sys_complete_plain [OF reads_Nil]])
    (simp_all add: Tss2_Sys_PolicyLocality_Complete_def split_paired_all del: steps.simps)

interpretation cmd_PolicyLocality: sys_command "\<lambda>ctx. Tss2_Sys_PolicyLocality_Prepare ctx policySession locality"
  "\<lambda>(ctx, _). Tss2_Sys_PolicyLocality_Complete ctx" TPM2_CC_PolicyLocality "True \<in> set []"
  "True"
  "True"
  "be_bytes policySession"
  "be_bytes locality" "False" False False True
  "\<lambda>(_). True"
  "\<lambda>(_). True"
  "\<lambda>(_). []"
  "\<lambda>(_). []"
  "\<lambda>(ctx, rsp, _). Tss2_Sys_PolicyLocality ctx policySession cmdAuthsArray locality rsp" cmdAuthsArray
  for policySession locality cmdAuthsArray
  by (rule sys_command.intro [OF prepare_PolicyLocality.sys_prepare_axioms complete_PolicyLocality.sys_complete_axioms sys_command_axioms.intro])
    (auto simp: Tss2_Sys_PolicyLocality_def one_call_def one_call_simps null_rc_def dest!: ptr_valid_some simp del: steps.simps)

subsection \<open>PolicyNV\<close>

definition Tss2_Sys_PolicyNV_Prepare where
  "Tss2_Sys_PolicyNV_Prepare sysContext authHandle nvIndex policySession operandB offset operation = steps
     [null_check [],
      CommonPreparePrologue TPM2_CC_PolicyNV,
      put (Tss2_MU_UINT32_Marshal authHandle),
      put (Tss2_MU_UINT32_Marshal nvIndex),
      put (Tss2_MU_UINT32_Marshal policySession),
      if Option.is_none operandB
        then steps [assign (ctx_decryptNull_update (\<lambda>_. True)), put (Tss2_MU_UINT16_Marshal 0)]
        else put (Tss2_MU_TPM2B_OPERAND_Marshal operandB),
      put (Tss2_MU_UINT16_Marshal offset),
      put (Tss2_MU_UINT16_Marshal operation),
      assign (flags True False True),
      CommonPrepareEpilogue]
     sysContext"

definition Tss2_Sys_PolicyNV_Complete where
  "Tss2_Sys_PolicyNV_Complete sysContext = steps
     [on_fst (null_check []),
      on_fst CommonComplete]
     (sysContext, ())"

definition Tss2_Sys_PolicyNV where
  "Tss2_Sys_PolicyNV sysContext authHandle nvIndex policySession cmdAuthsArray operandB offset operation rspAuthsArray = steps
     [on_fst (\<lambda>ctx. Tss2_Sys_PolicyNV_Prepare ctx authHandle nvIndex policySession operandB offset operation),
      on_rsp (CommonOneCall cmdAuthsArray),
      skip_out (\<lambda>(ctx, _). Tss2_Sys_PolicyNV_Complete ctx)]
     (sysContext, rspAuthsArray, ())"

lemma PolicyNV_handles [simp]:
  "GetNumCommandHandles TPM2_CC_PolicyNV = 3" "GetNumResponseHandles TPM2_CC_PolicyNV = 0"
  using GetNumHandles_entry [of TPM2_CC_PolicyNV 3 0] by (simp_all add: commandArray_def)

interpretation prepare_PolicyNV: sys_prepare "\<lambda>ctx. Tss2_Sys_PolicyNV_Prepare ctx authHandle nvIndex policySession operandB offset operation" TPM2_CC_PolicyNV "True \<in> set []"
  "opt_valid (src_TPM2B 66 64) operandB"
  "opt_valid (valid_TPM2B 64) operandB"
  "be_bytes authHandle @ be_bytes nvIndex @ be_bytes policySession"
  "opt_wire wire_TPM2B operandB @ be_bytes offset @ be_bytes operation" "Option.is_none operandB" True False True
  for authHandle nvIndex policySession operandB offset operation
  by (rule sys_prepareI [OF emits_Cons [OF emits_put [OF mu_UINT32.marshaler_axioms, of authHandle]
    emits_Cons [OF emits_put [OF mu_UINT32.marshaler_axioms, of nvIndex]
    emits_Cons [OF emits_put [OF mu_UINT32.marshaler_axioms, of policySession]
    emits_Cons [OF emits_opt_null [OF mu_TPM2B_OPERAND.marshaler_axioms, of operandB]
    emits_Cons [OF emits_put [OF mu_UINT16.marshaler_axioms, of offset]
    emits_Cons [OF emits_put [OF mu_UINT16.marshaler_axioms, of operation]
    emits_skip]]]]]]])
    (simp_all add: Tss2_Sys_PolicyNV_Prepare_def weak_defs prepare_simps del: steps.simps)

interpretation complete_PolicyNV: sys_complete "\<lambda>(ctx, _). Tss2_Sys_PolicyNV_Complete ctx" TPM2_CC_PolicyNV
  "\<lambda>(_). True"
  "\<lambda>(_). True"
  "\<lambda>(_). []"
  "\<lambda>(_). []"
  by (rule sys_completeI [OF sys_complete_plain [OF reads_Nil]])
    (simp_all add: Tss2_Sys_PolicyNV_Complete_def split_paired_all del: steps.simps)

interpretation cmd_PolicyNV: sys_command "\<lambda>ctx. Tss2_Sys_PolicyNV_Prepare ctx authHandle nvIndex policySession operandB offset operation"
  "\<lambda>(ctx, _). Tss2_Sys_PolicyNV_Complete ctx" TPM2_CC_PolicyNV "True \<in> set []"
  "opt_valid (src_TPM2B 66 64) operandB"
  "opt_valid (valid_TPM2B 64) operandB"
  "be_bytes authHandle @ be_bytes nvIndex @ be_bytes policySession"
  "opt_wire wire_TPM2B operandB @ be_bytes offset @ be_bytes operation" "Option.is_none operandB" True False True
  "\<lambda>(_). True"
  "\<lambda>(_). True"
  "\<lambda>(_). []"
  "\<lambda>(_). []"
  "\<lambda>(ctx, rsp, _). Tss2_Sys_PolicyNV ctx authHandle nvIndex policySession cmdAuthsArray operandB offset operation rsp" cmdAuthsArray
  for authHandle nvIndex policySession operandB offset operation cmdAuthsArray
  by (rule sys_command.intro [OF prepare_PolicyNV.sys_prepare_axioms complete_PolicyNV.sys_complete_axioms sys_command_axioms.intro])
    (auto simp: Tss2_Sys_PolicyNV_def one_call_def one_call_simps null_rc_def dest!: ptr_valid_some simp del: steps.simps)

subsection \<open>PolicyNameHash\<close>

definition Tss2_Sys_PolicyNameHash_Prepare where
  "Tss2_Sys_PolicyNameHash_Prepare sysContext policySession nameHash = steps
     [null_check [],
      CommonPreparePrologue TPM2_CC_PolicyNameHash,
      put (Tss2_MU_UINT32_Marshal policySession),
      if Option.is_none nameHash
        then put (Tss2_MU_UINT16_Marshal 0)
        else put (Tss2_MU_TPM2B_DIGEST_Marshal nameHash),
      assign (flags True False True),
      CommonPrepareEpilogue]
     sysContext"

definition Tss2_Sys_PolicyNameHash_Complete where
  "Tss2_Sys_PolicyNameHash_Complete sysContext = steps
     [on_fst (null_check []),
      on_fst CommonComplete]
     (sysContext, ())"

definition Tss2_Sys_PolicyNameHash where
  "Tss2_Sys_PolicyNameHash sysContext policySession cmdAuthsArray nameHash rspAuthsArray = steps
     [on_fst (\<lambda>ctx. Tss2_Sys_PolicyNameHash_Prepare ctx policySession nameHash),
      on_rsp (CommonOneCall cmdAuthsArray),
      skip_out (\<lambda>(ctx, _). Tss2_Sys_PolicyNameHash_Complete ctx)]
     (sysContext, rspAuthsArray, ())"

lemma PolicyNameHash_handles [simp]:
  "GetNumCommandHandles TPM2_CC_PolicyNameHash = 1" "GetNumResponseHandles TPM2_CC_PolicyNameHash = 0"
  using GetNumHandles_entry [of TPM2_CC_PolicyNameHash 1 0] by (simp_all add: commandArray_def)

interpretation prepare_PolicyNameHash: sys_prepare "\<lambda>ctx. Tss2_Sys_PolicyNameHash_Prepare ctx policySession nameHash" TPM2_CC_PolicyNameHash "True \<in> set []"
  "opt_valid (src_TPM2B 66 64) nameHash"
  "opt_valid (valid_TPM2B 64) nameHash"
  "be_bytes policySession"
  "opt_wire wire_TPM2B nameHash" "False" True False True
  for policySession nameHash
  by (rule sys_prepareI [OF emits_Cons [OF emits_put [OF mu_UINT32.marshaler_axioms, of policySession]
    emits_Cons [OF emits_opt [OF mu_TPM2B_DIGEST.marshaler_axioms, of nameHash]
    emits_skip]]])
    (simp_all add: Tss2_Sys_PolicyNameHash_Prepare_def weak_defs prepare_simps del: steps.simps)

interpretation complete_PolicyNameHash: sys_complete "\<lambda>(ctx, _). Tss2_Sys_PolicyNameHash_Complete ctx" TPM2_CC_PolicyNameHash
  "\<lambda>(_). True"
  "\<lambda>(_). True"
  "\<lambda>(_). []"
  "\<lambda>(_). []"
  by (rule sys_completeI [OF sys_complete_plain [OF reads_Nil]])
    (simp_all add: Tss2_Sys_PolicyNameHash_Complete_def split_paired_all del: steps.simps)

interpretation cmd_PolicyNameHash: sys_command "\<lambda>ctx. Tss2_Sys_PolicyNameHash_Prepare ctx policySession nameHash"
  "\<lambda>(ctx, _). Tss2_Sys_PolicyNameHash_Complete ctx" TPM2_CC_PolicyNameHash "True \<in> set []"
  "opt_valid (src_TPM2B 66 64) nameHash"
  "opt_valid (valid_TPM2B 64) nameHash"
  "be_bytes policySession"
  "opt_wire wire_TPM2B nameHash" "False" True False True
  "\<lambda>(_). True"
  "\<lambda>(_). True"
  "\<lambda>(_). []"
  "\<lambda>(_). []"
  "\<lambda>(ctx, rsp, _). Tss2_Sys_PolicyNameHash ctx policySession cmdAuthsArray nameHash rsp" cmdAuthsArray
  for policySession nameHash cmdAuthsArray
  by (rule sys_command.intro [OF prepare_PolicyNameHash.sys_prepare_axioms complete_PolicyNameHash.sys_complete_axioms sys_command_axioms.intro])
    (auto simp: Tss2_Sys_PolicyNameHash_def one_call_def one_call_simps null_rc_def dest!: ptr_valid_some simp del: steps.simps)

subsection \<open>PolicyNvWritten\<close>

definition Tss2_Sys_PolicyNvWritten_Prepare where
  "Tss2_Sys_PolicyNvWritten_Prepare sysContext policySession writtenSet = steps
     [null_check [],
      CommonPreparePrologue TPM2_CC_PolicyNvWritten,
      put (Tss2_MU_UINT32_Marshal policySession),
      put (Tss2_MU_UINT8_Marshal writtenSet),
      assign (flags False False True),
      CommonPrepareEpilogue]
     sysContext"

definition Tss2_Sys_PolicyNvWritten_Complete where
  "Tss2_Sys_PolicyNvWritten_Complete sysContext = steps
     [on_fst (null_check []),
      on_fst CommonComplete]
     (sysContext, ())"

definition Tss2_Sys_PolicyNvWritten where
  "Tss2_Sys_PolicyNvWritten sysContext policySession cmdAuthsArray writtenSet rspAuthsArray = steps
     [on_fst (\<lambda>ctx. Tss2_Sys_PolicyNvWritten_Prepare ctx policySession writtenSet),
      on_rsp (CommonOneCall cmdAuthsArray),
      skip_out (\<lambda>(ctx, _). Tss2_Sys_PolicyNvWritten_Complete ctx)]
     (sysContext, rspAuthsArray, ())"

lemma PolicyNvWritten_handles [simp]:
  "GetNumCommandHandles TPM2_CC_PolicyNvWritten = 1" "GetNumResponseHandles TPM2_CC_PolicyNvWritten = 0"
  using GetNumHandles_entry [of TPM2_CC_PolicyNvWritten 1 0] by (simp_all add: commandArray_def)

interpretation prepare_PolicyNvWritten: sys_prepare "\<lambda>ctx. Tss2_Sys_PolicyNvWritten_Prepare ctx policySession writtenSet" TPM2_CC_PolicyNvWritten "True \<in> set []"
  "True"
  "True"
  "be_bytes policySession"
  "be_bytes writtenSet" "False" False False True
  for policySession writtenSet
  by (rule sys_prepareI [OF emits_Cons [OF emits_put [OF mu_UINT32.marshaler_axioms, of policySession]
    emits_Cons [OF emits_put [OF mu_UINT8.marshaler_axioms, of writtenSet]
    emits_skip]]])
    (simp_all add: Tss2_Sys_PolicyNvWritten_Prepare_def weak_defs prepare_simps del: steps.simps)

interpretation complete_PolicyNvWritten: sys_complete "\<lambda>(ctx, _). Tss2_Sys_PolicyNvWritten_Complete ctx" TPM2_CC_PolicyNvWritten
  "\<lambda>(_). True"
  "\<lambda>(_). True"
  "\<lambda>(_). []"
  "\<lambda>(_). []"
  by (rule sys_completeI [OF sys_complete_plain [OF reads_Nil]])
    (simp_all add: Tss2_Sys_PolicyNvWritten_Complete_def split_paired_all del: steps.simps)

interpretation cmd_PolicyNvWritten: sys_command "\<lambda>ctx. Tss2_Sys_PolicyNvWritten_Prepare ctx policySession writtenSet"
  "\<lambda>(ctx, _). Tss2_Sys_PolicyNvWritten_Complete ctx" TPM2_CC_PolicyNvWritten "True \<in> set []"
  "True"
  "True"
  "be_bytes policySession"
  "be_bytes writtenSet" "False" False False True
  "\<lambda>(_). True"
  "\<lambda>(_). True"
  "\<lambda>(_). []"
  "\<lambda>(_). []"
  "\<lambda>(ctx, rsp, _). Tss2_Sys_PolicyNvWritten ctx policySession cmdAuthsArray writtenSet rsp" cmdAuthsArray
  for policySession writtenSet cmdAuthsArray
  by (rule sys_command.intro [OF prepare_PolicyNvWritten.sys_prepare_axioms complete_PolicyNvWritten.sys_complete_axioms sys_command_axioms.intro])
    (auto simp: Tss2_Sys_PolicyNvWritten_def one_call_def one_call_simps null_rc_def dest!: ptr_valid_some simp del: steps.simps)

subsection \<open>PolicyOR\<close>

definition Tss2_Sys_PolicyOR_Prepare where
  "Tss2_Sys_PolicyOR_Prepare sysContext policySession pHashList = steps
     [null_check [Option.is_none pHashList],
      CommonPreparePrologue TPM2_CC_PolicyOR,
      put (Tss2_MU_UINT32_Marshal policySession),
      put (Tss2_MU_TPML_DIGEST_Marshal pHashList),
      assign (flags False False True),
      CommonPrepareEpilogue]
     sysContext"

definition Tss2_Sys_PolicyOR_Complete where
  "Tss2_Sys_PolicyOR_Complete sysContext = steps
     [on_fst (null_check []),
      on_fst CommonComplete]
     (sysContext, ())"

definition Tss2_Sys_PolicyOR where
  "Tss2_Sys_PolicyOR sysContext policySession cmdAuthsArray pHashList rspAuthsArray = steps
     [ret (null_rc [Option.is_none pHashList]),
      on_fst (\<lambda>ctx. Tss2_Sys_PolicyOR_Prepare ctx policySession pHashList),
      on_rsp (CommonOneCall cmdAuthsArray),
      skip_out (\<lambda>(ctx, _). Tss2_Sys_PolicyOR_Complete ctx)]
     (sysContext, rspAuthsArray, ())"

lemma PolicyOR_handles [simp]:
  "GetNumCommandHandles TPM2_CC_PolicyOR = 1" "GetNumResponseHandles TPM2_CC_PolicyOR = 0"
  using GetNumHandles_entry [of TPM2_CC_PolicyOR 1 0] by (simp_all add: commandArray_def)

interpretation prepare_PolicyOR: sys_prepare "\<lambda>ctx. Tss2_Sys_PolicyOR_Prepare ctx policySession pHashList" TPM2_CC_PolicyOR "True \<in> set [Option.is_none pHashList]"
  "opt_valid (src_TPML 8 (src_TPM2B 66 64)) pHashList"
  "ptr_valid (valid_TPML 8 (valid_TPM2B 64)) pHashList"
  "be_bytes policySession"
  "ptr_wire (wire_TPML wire_TPM2B) pHashList" "False" False False True
  for policySession pHashList
  by (rule sys_prepareI [OF emits_Cons [OF emits_put [OF mu_UINT32.marshaler_axioms, of policySession]
    emits_Cons [OF emits_ptr [OF mu_TPML_DIGEST.marshaler_axioms null_TPML_DIGEST, of pHashList]
    emits_skip]]])
    (simp_all add: Tss2_Sys_PolicyOR_Prepare_def weak_defs prepare_simps del: steps.simps)

interpretation complete_PolicyOR: sys_complete "\<lambda>(ctx, _). Tss2_Sys_PolicyOR_Complete ctx" TPM2_CC_PolicyOR
  "\<lambda>(_). True"
  "\<lambda>(_). True"
  "\<lambda>(_). []"
  "\<lambda>(_). []"
  by (rule sys_completeI [OF sys_complete_plain [OF reads_Nil]])
    (simp_all add: Tss2_Sys_PolicyOR_Complete_def split_paired_all del: steps.simps)

interpretation cmd_PolicyOR: sys_command "\<lambda>ctx. Tss2_Sys_PolicyOR_Prepare ctx policySession pHashList"
  "\<lambda>(ctx, _). Tss2_Sys_PolicyOR_Complete ctx" TPM2_CC_PolicyOR "True \<in> set [Option.is_none pHashList]"
  "opt_valid (src_TPML 8 (src_TPM2B 66 64)) pHashList"
  "ptr_valid (valid_TPML 8 (valid_TPM2B 64)) pHashList"
  "be_bytes policySession"
  "ptr_wire (wire_TPML wire_TPM2B) pHashList" "False" False False True
  "\<lambda>(_). True"
  "\<lambda>(_). True"
  "\<lambda>(_). []"
  "\<lambda>(_). []"
  "\<lambda>(ctx, rsp, _). Tss2_Sys_PolicyOR ctx policySession cmdAuthsArray pHashList rsp" cmdAuthsArray
  for policySession pHashList cmdAuthsArray
  by (rule sys_command.intro [OF prepare_PolicyOR.sys_prepare_axioms complete_PolicyOR.sys_complete_axioms sys_command_axioms.intro])
    (auto simp: Tss2_Sys_PolicyOR_def one_call_def one_call_simps null_rc_def dest!: ptr_valid_some simp del: steps.simps)

subsection \<open>PolicyPCR\<close>

definition Tss2_Sys_PolicyPCR_Prepare where
  "Tss2_Sys_PolicyPCR_Prepare sysContext policySession pcrDigest pcrs = steps
     [null_check [Option.is_none pcrs],
      ret (ValidateTPML_PCR_SELECTION pcrs),
      CommonPreparePrologue TPM2_CC_PolicyPCR,
      put (Tss2_MU_UINT32_Marshal policySession),
      if Option.is_none pcrDigest
        then steps [assign (ctx_decryptNull_update (\<lambda>_. True)), put (Tss2_MU_UINT16_Marshal 0)]
        else put (Tss2_MU_TPM2B_DIGEST_Marshal pcrDigest),
      put (Tss2_MU_TPML_PCR_SELECTION_Marshal pcrs),
      assign (flags True False True),
      CommonPrepareEpilogue]
     sysContext"

definition Tss2_Sys_PolicyPCR_Complete where
  "Tss2_Sys_PolicyPCR_Complete sysContext = steps
     [on_fst (null_check []),
      on_fst CommonComplete]
     (sysContext, ())"

definition Tss2_Sys_PolicyPCR where
  "Tss2_Sys_PolicyPCR sysContext policySession cmdAuthsArray pcrDigest pcrs rspAuthsArray = steps
     [ret (null_rc [Option.is_none pcrs]),
      on_fst (\<lambda>ctx. Tss2_Sys_PolicyPCR_Prepare ctx policySession pcrDigest pcrs),
      on_rsp (CommonOneCall cmdAuthsArray),
      skip_out (\<lambda>(ctx, _). Tss2_Sys_PolicyPCR_Complete ctx)]
     (sysContext, rspAuthsArray, ())"

lemma PolicyPCR_handles [simp]:
  "GetNumCommandHandles TPM2_CC_PolicyPCR = 1" "GetNumResponseHandles TPM2_CC_PolicyPCR = 0"
  using GetNumHandles_entry [of TPM2_CC_PolicyPCR 1 0] by (simp_all add: commandArray_def)

interpretation prepare_PolicyPCR: sys_prepare "\<lambda>ctx. Tss2_Sys_PolicyPCR_Prepare ctx policySession pcrDigest pcrs" TPM2_CC_PolicyPCR "True \<in> set [Option.is_none pcrs]"
  "opt_valid (src_TPM2B 66 64) pcrDigest \<and> opt_valid (src_TPML 16 src_TPMS_PCR_SELECTION) pcrs"
  "opt_valid (valid_TPM2B 64) pcrDigest \<and> ptr_valid (valid_TPML 16 valid_TPMS_PCR_SELECTION) pcrs"
  "be_bytes policySession"
  "opt_wire wire_TPM2B pcrDigest @ ptr_wire (wire_TPML wire_TPMS_PCR_SELECTION) pcrs" "Option.is_none pcrDigest" True False True
  for policySession pcrDigest pcrs
  by (rule sys_prepareI [OF emits_Cons [OF emits_put [OF mu_UINT32.marshaler_axioms, of policySession]
    emits_Cons [OF emits_opt_null [OF mu_TPM2B_DIGEST.marshaler_axioms, of pcrDigest]
    emits_Cons [OF emits_ptr [OF mu_TPML_PCR_SELECTION.marshaler_axioms null_TPML_PCR_SELECTION, of pcrs]
    emits_skip]]]])
    (simp_all add: Tss2_Sys_PolicyPCR_Prepare_def weak_defs prepare_simps del: steps.simps)

interpretation complete_PolicyPCR: sys_complete "\<lambda>(ctx, _). Tss2_Sys_PolicyPCR_Complete ctx" TPM2_CC_PolicyPCR
  "\<lambda>(_). True"
  "\<lambda>(_). True"
  "\<lambda>(_). []"
  "\<lambda>(_). []"
  by (rule sys_completeI [OF sys_complete_plain [OF reads_Nil]])
    (simp_all add: Tss2_Sys_PolicyPCR_Complete_def split_paired_all del: steps.simps)

interpretation cmd_PolicyPCR: sys_command "\<lambda>ctx. Tss2_Sys_PolicyPCR_Prepare ctx policySession pcrDigest pcrs"
  "\<lambda>(ctx, _). Tss2_Sys_PolicyPCR_Complete ctx" TPM2_CC_PolicyPCR "True \<in> set [Option.is_none pcrs]"
  "opt_valid (src_TPM2B 66 64) pcrDigest \<and> opt_valid (src_TPML 16 src_TPMS_PCR_SELECTION) pcrs"
  "opt_valid (valid_TPM2B 64) pcrDigest \<and> ptr_valid (valid_TPML 16 valid_TPMS_PCR_SELECTION) pcrs"
  "be_bytes policySession"
  "opt_wire wire_TPM2B pcrDigest @ ptr_wire (wire_TPML wire_TPMS_PCR_SELECTION) pcrs" "Option.is_none pcrDigest" True False True
  "\<lambda>(_). True"
  "\<lambda>(_). True"
  "\<lambda>(_). []"
  "\<lambda>(_). []"
  "\<lambda>(ctx, rsp, _). Tss2_Sys_PolicyPCR ctx policySession cmdAuthsArray pcrDigest pcrs rsp" cmdAuthsArray
  for policySession pcrDigest pcrs cmdAuthsArray
  by (rule sys_command.intro [OF prepare_PolicyPCR.sys_prepare_axioms complete_PolicyPCR.sys_complete_axioms sys_command_axioms.intro])
    (auto simp: Tss2_Sys_PolicyPCR_def one_call_def one_call_simps null_rc_def dest!: ptr_valid_some simp del: steps.simps)

subsection \<open>PolicyPassword\<close>

definition Tss2_Sys_PolicyPassword_Prepare where
  "Tss2_Sys_PolicyPassword_Prepare sysContext policySession = steps
     [null_check [],
      CommonPreparePrologue TPM2_CC_PolicyPassword,
      put (Tss2_MU_UINT32_Marshal policySession),
      assign (flags False False True),
      CommonPrepareEpilogue]
     sysContext"

definition Tss2_Sys_PolicyPassword_Complete where
  "Tss2_Sys_PolicyPassword_Complete sysContext = steps
     [on_fst (null_check []),
      on_fst CommonComplete]
     (sysContext, ())"

definition Tss2_Sys_PolicyPassword where
  "Tss2_Sys_PolicyPassword sysContext policySession cmdAuthsArray rspAuthsArray = steps
     [on_fst (\<lambda>ctx. Tss2_Sys_PolicyPassword_Prepare ctx policySession),
      on_rsp (CommonOneCall cmdAuthsArray),
      skip_out (\<lambda>(ctx, _). Tss2_Sys_PolicyPassword_Complete ctx)]
     (sysContext, rspAuthsArray, ())"

lemma PolicyPassword_handles [simp]:
  "GetNumCommandHandles TPM2_CC_PolicyPassword = 1" "GetNumResponseHandles TPM2_CC_PolicyPassword = 0"
  using GetNumHandles_entry [of TPM2_CC_PolicyPassword 1 0] by (simp_all add: commandArray_def)

interpretation prepare_PolicyPassword: sys_prepare "\<lambda>ctx. Tss2_Sys_PolicyPassword_Prepare ctx policySession" TPM2_CC_PolicyPassword "True \<in> set []"
  "True"
  "True"
  "be_bytes policySession"
  "[]" "False" False False True
  for policySession
  by (rule sys_prepareI [OF emits_Cons [OF emits_put [OF mu_UINT32.marshaler_axioms, of policySession]
    emits_skip]])
    (simp_all add: Tss2_Sys_PolicyPassword_Prepare_def weak_defs prepare_simps del: steps.simps)

interpretation complete_PolicyPassword: sys_complete "\<lambda>(ctx, _). Tss2_Sys_PolicyPassword_Complete ctx" TPM2_CC_PolicyPassword
  "\<lambda>(_). True"
  "\<lambda>(_). True"
  "\<lambda>(_). []"
  "\<lambda>(_). []"
  by (rule sys_completeI [OF sys_complete_plain [OF reads_Nil]])
    (simp_all add: Tss2_Sys_PolicyPassword_Complete_def split_paired_all del: steps.simps)

interpretation cmd_PolicyPassword: sys_command "\<lambda>ctx. Tss2_Sys_PolicyPassword_Prepare ctx policySession"
  "\<lambda>(ctx, _). Tss2_Sys_PolicyPassword_Complete ctx" TPM2_CC_PolicyPassword "True \<in> set []"
  "True"
  "True"
  "be_bytes policySession"
  "[]" "False" False False True
  "\<lambda>(_). True"
  "\<lambda>(_). True"
  "\<lambda>(_). []"
  "\<lambda>(_). []"
  "\<lambda>(ctx, rsp, _). Tss2_Sys_PolicyPassword ctx policySession cmdAuthsArray rsp" cmdAuthsArray
  for policySession cmdAuthsArray
  by (rule sys_command.intro [OF prepare_PolicyPassword.sys_prepare_axioms complete_PolicyPassword.sys_complete_axioms sys_command_axioms.intro])
    (auto simp: Tss2_Sys_PolicyPassword_def one_call_def one_call_simps null_rc_def dest!: ptr_valid_some simp del: steps.simps)

subsection \<open>PolicyPhysicalPresence\<close>

definition Tss2_Sys_PolicyPhysicalPresence_Prepare where
  "Tss2_Sys_PolicyPhysicalPresence_Prepare sysContext policySession = steps
     [null_check [],
      CommonPreparePrologue TPM2_CC_PolicyPhysicalPresence,
      put (Tss2_MU_UINT32_Marshal policySession),
      assign (flags False False True),
      CommonPrepareEpilogue]
     sysContext"

definition Tss2_Sys_PolicyPhysicalPresence_Complete where
  "Tss2_Sys_PolicyPhysicalPresence_Complete sysContext = steps
     [on_fst (null_check []),
      on_fst CommonComplete]
     (sysContext, ())"

definition Tss2_Sys_PolicyPhysicalPresence where
  "Tss2_Sys_PolicyPhysicalPresence sysContext policySession cmdAuthsArray rspAuthsArray = steps
     [on_fst (\<lambda>ctx. Tss2_Sys_PolicyPhysicalPresence_Prepare ctx policySession),
      on_rsp (CommonOneCall cmdAuthsArray),
      skip_out (\<lambda>(ctx, _). Tss2_Sys_PolicyPhysicalPresence_Complete ctx)]
     (sysContext, rspAuthsArray, ())"

lemma PolicyPhysicalPresence_handles [simp]:
  "GetNumCommandHandles TPM2_CC_PolicyPhysicalPresence = 1" "GetNumResponseHandles TPM2_CC_PolicyPhysicalPresence = 0"
  using GetNumHandles_entry [of TPM2_CC_PolicyPhysicalPresence 1 0] by (simp_all add: commandArray_def)

interpretation prepare_PolicyPhysicalPresence: sys_prepare "\<lambda>ctx. Tss2_Sys_PolicyPhysicalPresence_Prepare ctx policySession" TPM2_CC_PolicyPhysicalPresence "True \<in> set []"
  "True"
  "True"
  "be_bytes policySession"
  "[]" "False" False False True
  for policySession
  by (rule sys_prepareI [OF emits_Cons [OF emits_put [OF mu_UINT32.marshaler_axioms, of policySession]
    emits_skip]])
    (simp_all add: Tss2_Sys_PolicyPhysicalPresence_Prepare_def weak_defs prepare_simps del: steps.simps)

interpretation complete_PolicyPhysicalPresence: sys_complete "\<lambda>(ctx, _). Tss2_Sys_PolicyPhysicalPresence_Complete ctx" TPM2_CC_PolicyPhysicalPresence
  "\<lambda>(_). True"
  "\<lambda>(_). True"
  "\<lambda>(_). []"
  "\<lambda>(_). []"
  by (rule sys_completeI [OF sys_complete_plain [OF reads_Nil]])
    (simp_all add: Tss2_Sys_PolicyPhysicalPresence_Complete_def split_paired_all del: steps.simps)

interpretation cmd_PolicyPhysicalPresence: sys_command "\<lambda>ctx. Tss2_Sys_PolicyPhysicalPresence_Prepare ctx policySession"
  "\<lambda>(ctx, _). Tss2_Sys_PolicyPhysicalPresence_Complete ctx" TPM2_CC_PolicyPhysicalPresence "True \<in> set []"
  "True"
  "True"
  "be_bytes policySession"
  "[]" "False" False False True
  "\<lambda>(_). True"
  "\<lambda>(_). True"
  "\<lambda>(_). []"
  "\<lambda>(_). []"
  "\<lambda>(ctx, rsp, _). Tss2_Sys_PolicyPhysicalPresence ctx policySession cmdAuthsArray rsp" cmdAuthsArray
  for policySession cmdAuthsArray
  by (rule sys_command.intro [OF prepare_PolicyPhysicalPresence.sys_prepare_axioms complete_PolicyPhysicalPresence.sys_complete_axioms sys_command_axioms.intro])
    (auto simp: Tss2_Sys_PolicyPhysicalPresence_def one_call_def one_call_simps null_rc_def dest!: ptr_valid_some simp del: steps.simps)

subsection \<open>PolicyRestart\<close>

definition Tss2_Sys_PolicyRestart_Prepare where
  "Tss2_Sys_PolicyRestart_Prepare sysContext sessionHandle = steps
     [null_check [],
      CommonPreparePrologue TPM2_CC_PolicyRestart,
      put (Tss2_MU_UINT32_Marshal sessionHandle),
      assign (flags False False True),
      CommonPrepareEpilogue]
     sysContext"

definition Tss2_Sys_PolicyRestart_Complete where
  "Tss2_Sys_PolicyRestart_Complete sysContext = steps
     [on_fst (null_check []),
      on_fst CommonComplete]
     (sysContext, ())"

definition Tss2_Sys_PolicyRestart where
  "Tss2_Sys_PolicyRestart sysContext sessionHandle cmdAuthsArray rspAuthsArray = steps
     [on_fst (\<lambda>ctx. Tss2_Sys_PolicyRestart_Prepare ctx sessionHandle),
      on_rsp (CommonOneCall cmdAuthsArray),
      skip_out (\<lambda>(ctx, _). Tss2_Sys_PolicyRestart_Complete ctx)]
     (sysContext, rspAuthsArray, ())"

lemma PolicyRestart_handles [simp]:
  "GetNumCommandHandles TPM2_CC_PolicyRestart = 1" "GetNumResponseHandles TPM2_CC_PolicyRestart = 0"
  using GetNumHandles_entry [of TPM2_CC_PolicyRestart 1 0] by (simp_all add: commandArray_def)

interpretation prepare_PolicyRestart: sys_prepare "\<lambda>ctx. Tss2_Sys_PolicyRestart_Prepare ctx sessionHandle" TPM2_CC_PolicyRestart "True \<in> set []"
  "True"
  "True"
  "be_bytes sessionHandle"
  "[]" "False" False False True
  for sessionHandle
  by (rule sys_prepareI [OF emits_Cons [OF emits_put [OF mu_UINT32.marshaler_axioms, of sessionHandle]
    emits_skip]])
    (simp_all add: Tss2_Sys_PolicyRestart_Prepare_def weak_defs prepare_simps del: steps.simps)

interpretation complete_PolicyRestart: sys_complete "\<lambda>(ctx, _). Tss2_Sys_PolicyRestart_Complete ctx" TPM2_CC_PolicyRestart
  "\<lambda>(_). True"
  "\<lambda>(_). True"
  "\<lambda>(_). []"
  "\<lambda>(_). []"
  by (rule sys_completeI [OF sys_complete_plain [OF reads_Nil]])
    (simp_all add: Tss2_Sys_PolicyRestart_Complete_def split_paired_all del: steps.simps)

interpretation cmd_PolicyRestart: sys_command "\<lambda>ctx. Tss2_Sys_PolicyRestart_Prepare ctx sessionHandle"
  "\<lambda>(ctx, _). Tss2_Sys_PolicyRestart_Complete ctx" TPM2_CC_PolicyRestart "True \<in> set []"
  "True"
  "True"
  "be_bytes sessionHandle"
  "[]" "False" False False True
  "\<lambda>(_). True"
  "\<lambda>(_). True"
  "\<lambda>(_). []"
  "\<lambda>(_). []"
  "\<lambda>(ctx, rsp, _). Tss2_Sys_PolicyRestart ctx sessionHandle cmdAuthsArray rsp" cmdAuthsArray
  for sessionHandle cmdAuthsArray
  by (rule sys_command.intro [OF prepare_PolicyRestart.sys_prepare_axioms complete_PolicyRestart.sys_complete_axioms sys_command_axioms.intro])
    (auto simp: Tss2_Sys_PolicyRestart_def one_call_def one_call_simps null_rc_def dest!: ptr_valid_some simp del: steps.simps)

subsection \<open>PolicySecret\<close>

definition Tss2_Sys_PolicySecret_Prepare where
  "Tss2_Sys_PolicySecret_Prepare sysContext authHandle policySession nonceTPM cpHashA policyRef expiration = steps
     [null_check [],
      CommonPreparePrologue TPM2_CC_PolicySecret,
      put (Tss2_MU_UINT32_Marshal authHandle),
      put (Tss2_MU_UINT32_Marshal policySession),
      if Option.is_none nonceTPM
        then steps [assign (ctx_decryptNull_update (\<lambda>_. True)), put (Tss2_MU_UINT16_Marshal 0)]
        else put (Tss2_MU_TPM2B_NONCE_Marshal nonceTPM),
      if Option.is_none cpHashA
        then put (Tss2_MU_UINT16_Marshal 0)
        else put (Tss2_MU_TPM2B_DIGEST_Marshal cpHashA),
      if Option.is_none policyRef
        then put (Tss2_MU_UINT16_Marshal 0)
        else put (Tss2_MU_TPM2B_NONCE_Marshal policyRef),
      put (Tss2_MU_UINT32_Marshal expiration),
      assign (flags True True True),
      CommonPrepareEpilogue]
     sysContext"

definition Tss2_Sys_PolicySecret_Complete where
  "Tss2_Sys_PolicySecret_Complete sysContext timeout policyTicket = steps
     [on_fst (null_check []),
      on_fst CommonComplete,
      get_out Tss2_MU_TPM2B_TIMEOUT_Unmarshal,
      skip_out (get_out Tss2_MU_TPMT_TK_AUTH_Unmarshal)]
     (sysContext, timeout, policyTicket, ())"

definition Tss2_Sys_PolicySecret where
  "Tss2_Sys_PolicySecret sysContext authHandle policySession cmdAuthsArray nonceTPM cpHashA policyRef expiration timeout policyTicket rspAuthsArray = steps
     [on_fst (\<lambda>ctx. Tss2_Sys_PolicySecret_Prepare ctx authHandle policySession nonceTPM cpHashA policyRef expiration),
      on_rsp (CommonOneCall cmdAuthsArray),
      skip_out (\<lambda>(ctx, d1, d2, _). Tss2_Sys_PolicySecret_Complete ctx d1 d2)]
     (sysContext, rspAuthsArray, timeout, policyTicket, ())"

lemma PolicySecret_handles [simp]:
  "GetNumCommandHandles TPM2_CC_PolicySecret = 2" "GetNumResponseHandles TPM2_CC_PolicySecret = 0"
  using GetNumHandles_entry [of TPM2_CC_PolicySecret 2 0] by (simp_all add: commandArray_def)

interpretation prepare_PolicySecret: sys_prepare "\<lambda>ctx. Tss2_Sys_PolicySecret_Prepare ctx authHandle policySession nonceTPM cpHashA policyRef expiration" TPM2_CC_PolicySecret "True \<in> set []"
  "opt_valid (src_TPM2B 66 64) nonceTPM \<and> opt_valid (src_TPM2B 66 64) cpHashA \<and> opt_valid (src_TPM2B 66 64) policyRef"
  "opt_valid (valid_TPM2B 64) nonceTPM \<and> opt_valid (valid_TPM2B 64) cpHashA \<and> opt_valid (valid_TPM2B 64) policyRef"
  "be_bytes authHandle @ be_bytes policySession"
  "opt_wire wire_TPM2B nonceTPM @ opt_wire wire_TPM2B cpHashA @ opt_wire wire_TPM2B policyRef @ be_bytes expiration" "Option.is_none nonceTPM" True True True
  for authHandle policySession nonceTPM cpHashA policyRef expiration
  by (rule sys_prepareI [OF emits_Cons [OF emits_put [OF mu_UINT32.marshaler_axioms, of authHandle]
    emits_Cons [OF emits_put [OF mu_UINT32.marshaler_axioms, of policySession]
    emits_Cons [OF emits_opt_null [OF mu_TPM2B_NONCE.marshaler_axioms, of nonceTPM]
    emits_Cons [OF emits_opt [OF mu_TPM2B_DIGEST.marshaler_axioms, of cpHashA]
    emits_Cons [OF emits_opt [OF mu_TPM2B_NONCE.marshaler_axioms, of policyRef]
    emits_Cons [OF emits_put [OF mu_UINT32.marshaler_axioms, of expiration]
    emits_skip]]]]]]])
    (simp_all add: Tss2_Sys_PolicySecret_Prepare_def weak_defs prepare_simps del: steps.simps)

interpretation complete_PolicySecret: sys_complete "\<lambda>(ctx, d1, d2, _). Tss2_Sys_PolicySecret_Complete ctx d1 d2" TPM2_CC_PolicySecret
  "\<lambda>(d1, d2, _). ptr_valid (wt_TPM2B 64) d1 \<and> ptr_valid wt_TPMT_TK_AUTH d2"
  "\<lambda>(d1, d2, _). ptr_valid (valid_TPM2B 64) d1 \<and> ptr_valid valid_TPMT_TK_AUTH d2"
  "\<lambda>(_, _, _). []"
  "\<lambda>(d1, d2, _). ptr_wire wire_TPM2B d1 @ ptr_wire wire_TPMT_TK_AUTH d2"
  by (rule sys_completeI [OF sys_complete_plain [OF reads_Cons [OF mu_TPM2B_TIMEOUT.unmarshaler_axioms
    reads_Cons [OF mu_TPMT_TK_AUTH.unmarshaler_axioms
    reads_Nil]]]])
    (simp_all add: Tss2_Sys_PolicySecret_Complete_def split_paired_all del: steps.simps)

interpretation cmd_PolicySecret: sys_command "\<lambda>ctx. Tss2_Sys_PolicySecret_Prepare ctx authHandle policySession nonceTPM cpHashA policyRef expiration"
  "\<lambda>(ctx, d1, d2, _). Tss2_Sys_PolicySecret_Complete ctx d1 d2" TPM2_CC_PolicySecret "True \<in> set []"
  "opt_valid (src_TPM2B 66 64) nonceTPM \<and> opt_valid (src_TPM2B 66 64) cpHashA \<and> opt_valid (src_TPM2B 66 64) policyRef"
  "opt_valid (valid_TPM2B 64) nonceTPM \<and> opt_valid (valid_TPM2B 64) cpHashA \<and> opt_valid (valid_TPM2B 64) policyRef"
  "be_bytes authHandle @ be_bytes policySession"
  "opt_wire wire_TPM2B nonceTPM @ opt_wire wire_TPM2B cpHashA @ opt_wire wire_TPM2B policyRef @ be_bytes expiration" "Option.is_none nonceTPM" True True True
  "\<lambda>(d1, d2, _). ptr_valid (wt_TPM2B 64) d1 \<and> ptr_valid wt_TPMT_TK_AUTH d2"
  "\<lambda>(d1, d2, _). ptr_valid (valid_TPM2B 64) d1 \<and> ptr_valid valid_TPMT_TK_AUTH d2"
  "\<lambda>(_, _, _). []"
  "\<lambda>(d1, d2, _). ptr_wire wire_TPM2B d1 @ ptr_wire wire_TPMT_TK_AUTH d2"
  "\<lambda>(ctx, rsp, d1, d2, _). Tss2_Sys_PolicySecret ctx authHandle policySession cmdAuthsArray nonceTPM cpHashA policyRef expiration d1 d2 rsp" cmdAuthsArray
  for authHandle policySession nonceTPM cpHashA policyRef expiration cmdAuthsArray
  by (rule sys_command.intro [OF prepare_PolicySecret.sys_prepare_axioms complete_PolicySecret.sys_complete_axioms sys_command_axioms.intro])
    (auto simp: Tss2_Sys_PolicySecret_def one_call_def one_call_simps null_rc_def dest!: ptr_valid_some simp del: steps.simps)

subsection \<open>PolicySigned\<close>

definition Tss2_Sys_PolicySigned_Prepare where
  "Tss2_Sys_PolicySigned_Prepare sysContext authObject policySession nonceTPM cpHashA policyRef expiration auth = steps
     [null_check [Option.is_none auth],
      CommonPreparePrologue TPM2_CC_PolicySigned,
      put (Tss2_MU_UINT32_Marshal authObject),
      put (Tss2_MU_UINT32_Marshal policySession),
      if Option.is_none nonceTPM
        then steps [assign (ctx_decryptNull_update (\<lambda>_. True)), put (Tss2_MU_UINT16_Marshal 0)]
        else put (Tss2_MU_TPM2B_NONCE_Marshal nonceTPM),
      if Option.is_none cpHashA
        then put (Tss2_MU_UINT16_Marshal 0)
        else put (Tss2_MU_TPM2B_DIGEST_Marshal cpHashA),
      if Option.is_none policyRef
        then put (Tss2_MU_UINT16_Marshal 0)
        else put (Tss2_MU_TPM2B_NONCE_Marshal policyRef),
      put (Tss2_MU_UINT32_Marshal expiration),
      put (Tss2_MU_TPMT_SIGNATURE_Marshal auth),
      assign (flags True True True),
      CommonPrepareEpilogue]
     sysContext"

definition Tss2_Sys_PolicySigned_Complete where
  "Tss2_Sys_PolicySigned_Complete sysContext timeout policyTicket = steps
     [on_fst (null_check []),
      on_fst CommonComplete,
      get_out Tss2_MU_TPM2B_TIMEOUT_Unmarshal,
      skip_out (get_out Tss2_MU_TPMT_TK_AUTH_Unmarshal)]
     (sysContext, timeout, policyTicket, ())"

definition Tss2_Sys_PolicySigned where
  "Tss2_Sys_PolicySigned sysContext authObject policySession cmdAuthsArray nonceTPM cpHashA policyRef expiration auth timeout policyTicket rspAuthsArray = steps
     [ret (null_rc [Option.is_none auth]),
      on_fst (\<lambda>ctx. Tss2_Sys_PolicySigned_Prepare ctx authObject policySession nonceTPM cpHashA policyRef expiration auth),
      on_rsp (CommonOneCall cmdAuthsArray),
      skip_out (\<lambda>(ctx, d1, d2, _). Tss2_Sys_PolicySigned_Complete ctx d1 d2)]
     (sysContext, rspAuthsArray, timeout, policyTicket, ())"

lemma PolicySigned_handles [simp]:
  "GetNumCommandHandles TPM2_CC_PolicySigned = 2" "GetNumResponseHandles TPM2_CC_PolicySigned = 0"
  using GetNumHandles_entry [of TPM2_CC_PolicySigned 2 0] by (simp_all add: commandArray_def)

interpretation prepare_PolicySigned: sys_prepare "\<lambda>ctx. Tss2_Sys_PolicySigned_Prepare ctx authObject policySession nonceTPM cpHashA policyRef expiration auth" TPM2_CC_PolicySigned "True \<in> set [Option.is_none auth]"
  "opt_valid (src_TPM2B 66 64) nonceTPM \<and> opt_valid (src_TPM2B 66 64) cpHashA \<and> opt_valid (src_TPM2B 66 64) policyRef \<and> opt_valid src_TPMT_SIGNATURE auth"
  "opt_valid (valid_TPM2B 64) nonceTPM \<and> opt_valid (valid_TPM2B 64) cpHashA \<and> opt_valid (valid_TPM2B 64) policyRef \<and> ptr_valid valid_TPMT_SIGNATURE auth"
  "be_bytes authObject @ be_bytes policySession"
  "opt_wire wire_TPM2B nonceTPM @ opt_wire wire_TPM2B cpHashA @ opt_wire wire_TPM2B policyRef @ be_bytes expiration @ ptr_wire wire_TPMT_SIGNATURE auth" "Option.is_none nonceTPM" True True True
  for authObject policySession nonceTPM cpHashA policyRef expiration auth
  by (rule sys_prepareI [OF emits_Cons [OF emits_put [OF mu_UINT32.marshaler_axioms, of authObject]
    emits_Cons [OF emits_put [OF mu_UINT32.marshaler_axioms, of policySession]
    emits_Cons [OF emits_opt_null [OF mu_TPM2B_NONCE.marshaler_axioms, of nonceTPM]
    emits_Cons [OF emits_opt [OF mu_TPM2B_DIGEST.marshaler_axioms, of cpHashA]
    emits_Cons [OF emits_opt [OF mu_TPM2B_NONCE.marshaler_axioms, of policyRef]
    emits_Cons [OF emits_put [OF mu_UINT32.marshaler_axioms, of expiration]
    emits_Cons [OF emits_ptr [OF mu_TPMT_SIGNATURE.marshaler_axioms null_TPMT_SIGNATURE, of auth]
    emits_skip]]]]]]]])
    (simp_all add: Tss2_Sys_PolicySigned_Prepare_def weak_defs prepare_simps del: steps.simps)

interpretation complete_PolicySigned: sys_complete "\<lambda>(ctx, d1, d2, _). Tss2_Sys_PolicySigned_Complete ctx d1 d2" TPM2_CC_PolicySigned
  "\<lambda>(d1, d2, _). ptr_valid (wt_TPM2B 64) d1 \<and> ptr_valid wt_TPMT_TK_AUTH d2"
  "\<lambda>(d1, d2, _). ptr_valid (valid_TPM2B 64) d1 \<and> ptr_valid valid_TPMT_TK_AUTH d2"
  "\<lambda>(_, _, _). []"
  "\<lambda>(d1, d2, _). ptr_wire wire_TPM2B d1 @ ptr_wire wire_TPMT_TK_AUTH d2"
  by (rule sys_completeI [OF sys_complete_plain [OF reads_Cons [OF mu_TPM2B_TIMEOUT.unmarshaler_axioms
    reads_Cons [OF mu_TPMT_TK_AUTH.unmarshaler_axioms
    reads_Nil]]]])
    (simp_all add: Tss2_Sys_PolicySigned_Complete_def split_paired_all del: steps.simps)

interpretation cmd_PolicySigned: sys_command "\<lambda>ctx. Tss2_Sys_PolicySigned_Prepare ctx authObject policySession nonceTPM cpHashA policyRef expiration auth"
  "\<lambda>(ctx, d1, d2, _). Tss2_Sys_PolicySigned_Complete ctx d1 d2" TPM2_CC_PolicySigned "True \<in> set [Option.is_none auth]"
  "opt_valid (src_TPM2B 66 64) nonceTPM \<and> opt_valid (src_TPM2B 66 64) cpHashA \<and> opt_valid (src_TPM2B 66 64) policyRef \<and> opt_valid src_TPMT_SIGNATURE auth"
  "opt_valid (valid_TPM2B 64) nonceTPM \<and> opt_valid (valid_TPM2B 64) cpHashA \<and> opt_valid (valid_TPM2B 64) policyRef \<and> ptr_valid valid_TPMT_SIGNATURE auth"
  "be_bytes authObject @ be_bytes policySession"
  "opt_wire wire_TPM2B nonceTPM @ opt_wire wire_TPM2B cpHashA @ opt_wire wire_TPM2B policyRef @ be_bytes expiration @ ptr_wire wire_TPMT_SIGNATURE auth" "Option.is_none nonceTPM" True True True
  "\<lambda>(d1, d2, _). ptr_valid (wt_TPM2B 64) d1 \<and> ptr_valid wt_TPMT_TK_AUTH d2"
  "\<lambda>(d1, d2, _). ptr_valid (valid_TPM2B 64) d1 \<and> ptr_valid valid_TPMT_TK_AUTH d2"
  "\<lambda>(_, _, _). []"
  "\<lambda>(d1, d2, _). ptr_wire wire_TPM2B d1 @ ptr_wire wire_TPMT_TK_AUTH d2"
  "\<lambda>(ctx, rsp, d1, d2, _). Tss2_Sys_PolicySigned ctx authObject policySession cmdAuthsArray nonceTPM cpHashA policyRef expiration auth d1 d2 rsp" cmdAuthsArray
  for authObject policySession nonceTPM cpHashA policyRef expiration auth cmdAuthsArray
  by (rule sys_command.intro [OF prepare_PolicySigned.sys_prepare_axioms complete_PolicySigned.sys_complete_axioms sys_command_axioms.intro])
    (auto simp: Tss2_Sys_PolicySigned_def one_call_def one_call_simps null_rc_def dest!: ptr_valid_some simp del: steps.simps)

subsection \<open>PolicyTemplate\<close>

definition Tss2_Sys_PolicyTemplate_Prepare where
  "Tss2_Sys_PolicyTemplate_Prepare sysContext policySession templateHash = steps
     [null_check [],
      CommonPreparePrologue TPM2_CC_PolicyTemplate,
      put (Tss2_MU_TPM2_HANDLE_Marshal policySession),
      if Option.is_none templateHash
        then put (Tss2_MU_UINT16_Marshal 0)
        else put (Tss2_MU_TPM2B_DIGEST_Marshal templateHash),
      assign (flags True False True),
      CommonPrepareEpilogue]
     sysContext"

definition Tss2_Sys_PolicyTemplate_Complete where
  "Tss2_Sys_PolicyTemplate_Complete sysContext = steps
     [on_fst (null_check []),
      on_fst CommonComplete]
     (sysContext, ())"

definition Tss2_Sys_PolicyTemplate where
  "Tss2_Sys_PolicyTemplate sysContext policySession cmdAuthsArray templateHash rspAuthsArray = steps
     [on_fst (\<lambda>ctx. Tss2_Sys_PolicyTemplate_Prepare ctx policySession templateHash),
      on_rsp (CommonOneCall cmdAuthsArray),
      skip_out (\<lambda>(ctx, _). Tss2_Sys_PolicyTemplate_Complete ctx)]
     (sysContext, rspAuthsArray, ())"

lemma PolicyTemplate_handles [simp]:
  "GetNumCommandHandles TPM2_CC_PolicyTemplate = 1" "GetNumResponseHandles TPM2_CC_PolicyTemplate = 0"
  using GetNumHandles_entry [of TPM2_CC_PolicyTemplate 1 0] by (simp_all add: commandArray_def)

interpretation prepare_PolicyTemplate: sys_prepare "\<lambda>ctx. Tss2_Sys_PolicyTemplate_Prepare ctx policySession templateHash" TPM2_CC_PolicyTemplate "True \<in> set []"
  "opt_valid (src_TPM2B 66 64) templateHash"
  "opt_valid (valid_TPM2B 64) templateHash"
  "be_bytes policySession"
  "opt_wire wire_TPM2B templateHash" "False" True False True
  for policySession templateHash
  by (rule sys_prepareI [OF emits_Cons [OF emits_put [OF mu_TPM2_HANDLE.marshaler_axioms, of policySession]
    emits_Cons [OF emits_opt [OF mu_TPM2B_DIGEST.marshaler_axioms, of templateHash]
    emits_skip]]])
    (simp_all add: Tss2_Sys_PolicyTemplate_Prepare_def weak_defs prepare_simps del: steps.simps)

interpretation complete_PolicyTemplate: sys_complete "\<lambda>(ctx, _). Tss2_Sys_PolicyTemplate_Complete ctx" TPM2_CC_PolicyTemplate
  "\<lambda>(_). True"
  "\<lambda>(_). True"
  "\<lambda>(_). []"
  "\<lambda>(_). []"
  by (rule sys_completeI [OF sys_complete_plain [OF reads_Nil]])
    (simp_all add: Tss2_Sys_PolicyTemplate_Complete_def split_paired_all del: steps.simps)

interpretation cmd_PolicyTemplate: sys_command "\<lambda>ctx. Tss2_Sys_PolicyTemplate_Prepare ctx policySession templateHash"
  "\<lambda>(ctx, _). Tss2_Sys_PolicyTemplate_Complete ctx" TPM2_CC_PolicyTemplate "True \<in> set []"
  "opt_valid (src_TPM2B 66 64) templateHash"
  "opt_valid (valid_TPM2B 64) templateHash"
  "be_bytes policySession"
  "opt_wire wire_TPM2B templateHash" "False" True False True
  "\<lambda>(_). True"
  "\<lambda>(_). True"
  "\<lambda>(_). []"
  "\<lambda>(_). []"
  "\<lambda>(ctx, rsp, _). Tss2_Sys_PolicyTemplate ctx policySession cmdAuthsArray templateHash rsp" cmdAuthsArray
  for policySession templateHash cmdAuthsArray
  by (rule sys_command.intro [OF prepare_PolicyTemplate.sys_prepare_axioms complete_PolicyTemplate.sys_complete_axioms sys_command_axioms.intro])
    (auto simp: Tss2_Sys_PolicyTemplate_def one_call_def one_call_simps null_rc_def dest!: ptr_valid_some simp del: steps.simps)

subsection \<open>PolicyTicket\<close>

definition Tss2_Sys_PolicyTicket_Prepare where
  "Tss2_Sys_PolicyTicket_Prepare sysContext policySession timeout cpHashA policyRef authName ticket = steps
     [null_check [Option.is_none ticket],
      CommonPreparePrologue TPM2_CC_PolicyTicket,
      put (Tss2_MU_UINT32_Marshal policySession),
      if Option.is_none timeout
        then steps [assign (ctx_decryptNull_update (\<lambda>_. True)), put (Tss2_MU_UINT16_Marshal 0)]
        else put (Tss2_MU_TPM2B_TIMEOUT_Marshal timeout),
      if Option.is_none cpHashA
        then put (Tss2_MU_UINT16_Marshal 0)
        else put (Tss2_MU_TPM2B_DIGEST_Marshal cpHashA),
      if Option.is_none policyRef
        then put (Tss2_MU_UINT16_Marshal 0)
        else put (Tss2_MU_TPM2B_NONCE_Marshal policyRef),
      if Option.is_none authName
        then put (Tss2_MU_UINT16_Marshal 0)
        else put (Tss2_MU_TPM2B_NAME_Marshal authName),
      put (Tss2_MU_TPMT_TK_AUTH_Marshal ticket),
      assign (flags True False True),
      CommonPrepareEpilogue]
     sysContext"

definition Tss2_Sys_PolicyTicket_Complete where
  "Tss2_Sys_PolicyTicket_Complete sysContext = steps
     [on_fst (null_check []),
      on_fst CommonComplete]
     (sysContext, ())"

definition Tss2_Sys_PolicyTicket where
  "Tss2_Sys_PolicyTicket sysContext policySession cmdAuthsArray timeout cpHashA policyRef authName ticket rspAuthsArray = steps
     [ret (null_rc [Option.is_none ticket]),
      on_fst (\<lambda>ctx. Tss2_Sys_PolicyTicket_Prepare ctx policySession timeout cpHashA policyRef authName ticket),
      on_rsp (CommonOneCall cmdAuthsArray),
      skip_out (\<lambda>(ctx, _). Tss2_Sys_PolicyTicket_Complete ctx)]
     (sysContext, rspAuthsArray, ())"

lemma PolicyTicket_handles [simp]:
  "GetNumCommandHandles TPM2_CC_PolicyTicket = 1" "GetNumResponseHandles TPM2_CC_PolicyTicket = 0"
  using GetNumHandles_entry [of TPM2_CC_PolicyTicket 1 0] by (simp_all add: commandArray_def)

interpretation prepare_PolicyTicket: sys_prepare "\<lambda>ctx. Tss2_Sys_PolicyTicket_Prepare ctx policySession timeout cpHashA policyRef authName ticket" TPM2_CC_PolicyTicket "True \<in> set [Option.is_none ticket]"
  "opt_valid (src_TPM2B 66 64) timeout \<and> opt_valid (src_TPM2B 66 64) cpHashA \<and> opt_valid (src_TPM2B 66 64) policyRef \<and> opt_valid (src_TPM2B 70 68) authName \<and> opt_valid src_TPMT_TK_AUTH ticket"
  "opt_valid (valid_TPM2B 64) timeout \<and> opt_valid (valid_TPM2B 64) cpHashA \<and> opt_valid (valid_TPM2B 64) policyRef \<and> opt_valid (valid_TPM2B 68) authName \<and> ptr_valid valid_TPMT_TK_AUTH ticket"
  "be_bytes policySession"
  "opt_wire wire_TPM2B timeout @ opt_wire wire_TPM2B cpHashA @ opt_wire wire_TPM2B policyRef @ opt_wire wire_TPM2B authName @ ptr_wire wire_TPMT_TK_AUTH ticket" "Option.is_none timeout" True False True
  for policySession timeout cpHashA policyRef authName ticket
  by (rule sys_prepareI [OF emits_Cons [OF emits_put [OF mu_UINT32.marshaler_axioms, of policySession]
    emits_Cons [OF emits_opt_null [OF mu_TPM2B_TIMEOUT.marshaler_axioms, of timeout]
    emits_Cons [OF emits_opt [OF mu_TPM2B_DIGEST.marshaler_axioms, of cpHashA]
    emits_Cons [OF emits_opt [OF mu_TPM2B_NONCE.marshaler_axioms, of policyRef]
    emits_Cons [OF emits_opt [OF mu_TPM2B_NAME.marshaler_axioms, of authName]
    emits_Cons [OF emits_ptr [OF mu_TPMT_TK_AUTH.marshaler_axioms null_TPMT_TK_AUTH, of ticket]
    emits_skip]]]]]]])
    (simp_all add: Tss2_Sys_PolicyTicket_Prepare_def weak_defs prepare_simps del: steps.simps)

interpretation complete_PolicyTicket: sys_complete "\<lambda>(ctx, _). Tss2_Sys_PolicyTicket_Complete ctx" TPM2_CC_PolicyTicket
  "\<lambda>(_). True"
  "\<lambda>(_). True"
  "\<lambda>(_). []"
  "\<lambda>(_). []"
  by (rule sys_completeI [OF sys_complete_plain [OF reads_Nil]])
    (simp_all add: Tss2_Sys_PolicyTicket_Complete_def split_paired_all del: steps.simps)

interpretation cmd_PolicyTicket: sys_command "\<lambda>ctx. Tss2_Sys_PolicyTicket_Prepare ctx policySession timeout cpHashA policyRef authName ticket"
  "\<lambda>(ctx, _). Tss2_Sys_PolicyTicket_Complete ctx" TPM2_CC_PolicyTicket "True \<in> set [Option.is_none ticket]"
  "opt_valid (src_TPM2B 66 64) timeout \<and> opt_valid (src_TPM2B 66 64) cpHashA \<and> opt_valid (src_TPM2B 66 64) policyRef \<and> opt_valid (src_TPM2B 70 68) authName \<and> opt_valid src_TPMT_TK_AUTH ticket"
  "opt_valid (valid_TPM2B 64) timeout \<and> opt_valid (valid_TPM2B 64) cpHashA \<and> opt_valid (valid_TPM2B 64) policyRef \<and> opt_valid (valid_TPM2B 68) authName \<and> ptr_valid valid_TPMT_TK_AUTH ticket"
  "be_bytes policySession"
  "opt_wire wire_TPM2B timeout @ opt_wire wire_TPM2B cpHashA @ opt_wire wire_TPM2B policyRef @ opt_wire wire_TPM2B authName @ ptr_wire wire_TPMT_TK_AUTH ticket" "Option.is_none timeout" True False True
  "\<lambda>(_). True"
  "\<lambda>(_). True"
  "\<lambda>(_). []"
  "\<lambda>(_). []"
  "\<lambda>(ctx, rsp, _). Tss2_Sys_PolicyTicket ctx policySession cmdAuthsArray timeout cpHashA policyRef authName ticket rsp" cmdAuthsArray
  for policySession timeout cpHashA policyRef authName ticket cmdAuthsArray
  by (rule sys_command.intro [OF prepare_PolicyTicket.sys_prepare_axioms complete_PolicyTicket.sys_complete_axioms sys_command_axioms.intro])
    (auto simp: Tss2_Sys_PolicyTicket_def one_call_def one_call_simps null_rc_def dest!: ptr_valid_some simp del: steps.simps)

subsection \<open>Policy AC SendSelect\<close>

definition Tss2_Sys_Policy_AC_SendSelect_Prepare where
  "Tss2_Sys_Policy_AC_SendSelect_Prepare sysContext policySession objectName authHandleName acName includeObject = steps
     [null_check [],
      CommonPreparePrologue TPM2_CC_Policy_AC_SendSelect,
      put (Tss2_MU_TPM2_HANDLE_Marshal policySession),
      if Option.is_none objectName
        then steps [assign (ctx_decryptNull_update (\<lambda>_. True)), put (Tss2_MU_UINT16_Marshal 0)]
        else put (Tss2_MU_TPM2B_NAME_Marshal objectName),
      if Option.is_none authHandleName
        then put (Tss2_MU_UINT16_Marshal 0)
        else put (Tss2_MU_TPM2B_NAME_Marshal authHandleName),
      if Option.is_none acName
        then put (Tss2_MU_UINT16_Marshal 0)
        else put (Tss2_MU_TPM2B_NAME_Marshal acName),
      put (Tss2_MU_UINT8_Marshal includeObject),
      assign (flags True False True),
      CommonPrepareEpilogue]
     sysContext"

definition Tss2_Sys_Policy_AC_SendSelect_Complete where
  "Tss2_Sys_Policy_AC_SendSelect_Complete sysContext = steps
     [on_fst (null_check []),
      on_fst CommonComplete]
     (sysContext, ())"

definition Tss2_Sys_Policy_AC_SendSelect where
  "Tss2_Sys_Policy_AC_SendSelect sysContext policySession cmdAuthsArray objectName authHandleName acName includeObject rspAuthsArray = steps
     [on_fst (\<lambda>ctx. Tss2_Sys_Policy_AC_SendSelect_Prepare ctx policySession objectName authHandleName acName includeObject),
      on_rsp (CommonOneCall cmdAuthsArray),
      skip_out (\<lambda>(ctx, _). Tss2_Sys_Policy_AC_SendSelect_Complete ctx)]
     (sysContext, rspAuthsArray, ())"

lemma Policy_AC_SendSelect_handles [simp]:
  "GetNumCommandHandles TPM2_CC_Policy_AC_SendSelect = 1" "GetNumResponseHandles TPM2_CC_Policy_AC_SendSelect = 0"
  using GetNumHandles_entry [of TPM2_CC_Policy_AC_SendSelect 1 0] by (simp_all add: commandArray_def)

interpretation prepare_Policy_AC_SendSelect: sys_prepare "\<lambda>ctx. Tss2_Sys_Policy_AC_SendSelect_Prepare ctx policySession objectName authHandleName acName includeObject" TPM2_CC_Policy_AC_SendSelect "True \<in> set []"
  "opt_valid (src_TPM2B 70 68) objectName \<and> opt_valid (src_TPM2B 70 68) authHandleName \<and> opt_valid (src_TPM2B 70 68) acName"
  "opt_valid (valid_TPM2B 68) objectName \<and> opt_valid (valid_TPM2B 68) authHandleName \<and> opt_valid (valid_TPM2B 68) acName"
  "be_bytes policySession"
  "opt_wire wire_TPM2B objectName @ opt_wire wire_TPM2B authHandleName @ opt_wire wire_TPM2B acName @ be_bytes includeObject" "Option.is_none objectName" True False True
  for policySession objectName authHandleName acName includeObject
  by (rule sys_prepareI [OF emits_Cons [OF emits_put [OF mu_TPM2_HANDLE.marshaler_axioms, of policySession]
    emits_Cons [OF emits_opt_null [OF mu_TPM2B_NAME.marshaler_axioms, of objectName]
    emits_Cons [OF emits_opt [OF mu_TPM2B_NAME.marshaler_axioms, of authHandleName]
    emits_Cons [OF emits_opt [OF mu_TPM2B_NAME.marshaler_axioms, of acName]
    emits_Cons [OF emits_put [OF mu_UINT8.marshaler_axioms, of includeObject]
    emits_skip]]]]]])
    (simp_all add: Tss2_Sys_Policy_AC_SendSelect_Prepare_def weak_defs prepare_simps del: steps.simps)

interpretation complete_Policy_AC_SendSelect: sys_complete "\<lambda>(ctx, _). Tss2_Sys_Policy_AC_SendSelect_Complete ctx" TPM2_CC_Policy_AC_SendSelect
  "\<lambda>(_). True"
  "\<lambda>(_). True"
  "\<lambda>(_). []"
  "\<lambda>(_). []"
  by (rule sys_completeI [OF sys_complete_plain [OF reads_Nil]])
    (simp_all add: Tss2_Sys_Policy_AC_SendSelect_Complete_def split_paired_all del: steps.simps)

interpretation cmd_Policy_AC_SendSelect: sys_command "\<lambda>ctx. Tss2_Sys_Policy_AC_SendSelect_Prepare ctx policySession objectName authHandleName acName includeObject"
  "\<lambda>(ctx, _). Tss2_Sys_Policy_AC_SendSelect_Complete ctx" TPM2_CC_Policy_AC_SendSelect "True \<in> set []"
  "opt_valid (src_TPM2B 70 68) objectName \<and> opt_valid (src_TPM2B 70 68) authHandleName \<and> opt_valid (src_TPM2B 70 68) acName"
  "opt_valid (valid_TPM2B 68) objectName \<and> opt_valid (valid_TPM2B 68) authHandleName \<and> opt_valid (valid_TPM2B 68) acName"
  "be_bytes policySession"
  "opt_wire wire_TPM2B objectName @ opt_wire wire_TPM2B authHandleName @ opt_wire wire_TPM2B acName @ be_bytes includeObject" "Option.is_none objectName" True False True
  "\<lambda>(_). True"
  "\<lambda>(_). True"
  "\<lambda>(_). []"
  "\<lambda>(_). []"
  "\<lambda>(ctx, rsp, _). Tss2_Sys_Policy_AC_SendSelect ctx policySession cmdAuthsArray objectName authHandleName acName includeObject rsp" cmdAuthsArray
  for policySession objectName authHandleName acName includeObject cmdAuthsArray
  by (rule sys_command.intro [OF prepare_Policy_AC_SendSelect.sys_prepare_axioms complete_Policy_AC_SendSelect.sys_complete_axioms sys_command_axioms.intro])
    (auto simp: Tss2_Sys_Policy_AC_SendSelect_def one_call_def one_call_simps null_rc_def dest!: ptr_valid_some simp del: steps.simps)

subsection \<open>Quote\<close>

definition Tss2_Sys_Quote_Prepare where
  "Tss2_Sys_Quote_Prepare sysContext signHandle qualifyingData inScheme PCRselect = steps
     [null_check [Option.is_none inScheme, Option.is_none PCRselect],
      ret (ValidateTPML_PCR_SELECTION PCRselect),
      CommonPreparePrologue TPM2_CC_Quote,
      put (Tss2_MU_UINT32_Marshal signHandle),
      if Option.is_none qualifyingData
        then steps [assign (ctx_decryptNull_update (\<lambda>_. True)), put (Tss2_MU_UINT16_Marshal 0)]
        else put (Tss2_MU_TPM2B_DATA_Marshal qualifyingData),
      put (Tss2_MU_TPMT_SIG_SCHEME_Marshal inScheme),
      put (Tss2_MU_TPML_PCR_SELECTION_Marshal PCRselect),
      assign (flags True True True),
      CommonPrepareEpilogue]
     sysContext"

definition Tss2_Sys_Quote_Complete where
  "Tss2_Sys_Quote_Complete sysContext quoted signature = steps
     [on_fst (null_check []),
      on_fst CommonComplete,
      get_out Tss2_MU_TPM2B_ATTEST_Unmarshal,
      skip_out (get_out Tss2_MU_TPMT_SIGNATURE_Unmarshal)]
     (sysContext, quoted, signature, ())"

definition Tss2_Sys_Quote where
  "Tss2_Sys_Quote sysContext signHandle cmdAuthsArray qualifyingData inScheme PCRselect quoted signature rspAuthsArray = steps
     [ret (null_rc [Option.is_none inScheme, Option.is_none PCRselect]),
      on_fst (\<lambda>ctx. Tss2_Sys_Quote_Prepare ctx signHandle qualifyingData inScheme PCRselect),
      on_rsp (CommonOneCall cmdAuthsArray),
      skip_out (\<lambda>(ctx, d1, d2, _). Tss2_Sys_Quote_Complete ctx d1 d2)]
     (sysContext, rspAuthsArray, quoted, signature, ())"

lemma Quote_handles [simp]:
  "GetNumCommandHandles TPM2_CC_Quote = 1" "GetNumResponseHandles TPM2_CC_Quote = 0"
  using GetNumHandles_entry [of TPM2_CC_Quote 1 0] by (simp_all add: commandArray_def)

interpretation prepare_Quote: sys_prepare "\<lambda>ctx. Tss2_Sys_Quote_Prepare ctx signHandle qualifyingData inScheme PCRselect" TPM2_CC_Quote "True \<in> set [Option.is_none inScheme, Option.is_none PCRselect]"
  "opt_valid (src_TPM2B 66 64) qualifyingData \<and> opt_valid src_TPMT_SIG_SCHEME inScheme \<and> opt_valid (src_TPML 16 src_TPMS_PCR_SELECTION) PCRselect"
  "opt_valid (valid_TPM2B 64) qualifyingData \<and> ptr_valid valid_TPMT_SIG_SCHEME inScheme \<and> ptr_valid (valid_TPML 16 valid_TPMS_PCR_SELECTION) PCRselect"
  "be_bytes signHandle"
  "opt_wire wire_TPM2B qualifyingData @ ptr_wire wire_TPMT_SIG_SCHEME inScheme @ ptr_wire (wire_TPML wire_TPMS_PCR_SELECTION) PCRselect" "Option.is_none qualifyingData" True True True
  for signHandle qualifyingData inScheme PCRselect
  by (rule sys_prepareI [OF emits_Cons [OF emits_put [OF mu_UINT32.marshaler_axioms, of signHandle]
    emits_Cons [OF emits_opt_null [OF mu_TPM2B_DATA.marshaler_axioms, of qualifyingData]
    emits_Cons [OF emits_ptr [OF mu_TPMT_SIG_SCHEME.marshaler_axioms null_TPMT_SIG_SCHEME, of inScheme]
    emits_Cons [OF emits_ptr [OF mu_TPML_PCR_SELECTION.marshaler_axioms null_TPML_PCR_SELECTION, of PCRselect]
    emits_skip]]]]])
    (simp_all add: Tss2_Sys_Quote_Prepare_def weak_defs prepare_simps del: steps.simps)

interpretation complete_Quote: sys_complete "\<lambda>(ctx, d1, d2, _). Tss2_Sys_Quote_Complete ctx d1 d2" TPM2_CC_Quote
  "\<lambda>(d1, d2, _). ptr_valid (wt_TPM2B 2304) d1 \<and> ptr_valid wt_TPMT_SIGNATURE d2"
  "\<lambda>(d1, d2, _). ptr_valid (valid_TPM2B 2304) d1 \<and> ptr_valid valid_TPMT_SIGNATURE d2"
  "\<lambda>(_, _, _). []"
  "\<lambda>(d1, d2, _). ptr_wire wire_TPM2B d1 @ ptr_wire wire_TPMT_SIGNATURE d2"
  by (rule sys_completeI [OF sys_complete_plain [OF reads_Cons [OF mu_TPM2B_ATTEST.unmarshaler_axioms
    reads_Cons [OF mu_TPMT_SIGNATURE.unmarshaler_axioms
    reads_Nil]]]])
    (simp_all add: Tss2_Sys_Quote_Complete_def split_paired_all del: steps.simps)

interpretation cmd_Quote: sys_command "\<lambda>ctx. Tss2_Sys_Quote_Prepare ctx signHandle qualifyingData inScheme PCRselect"
  "\<lambda>(ctx, d1, d2, _). Tss2_Sys_Quote_Complete ctx d1 d2" TPM2_CC_Quote "True \<in> set [Option.is_none inScheme, Option.is_none PCRselect]"
  "opt_valid (src_TPM2B 66 64) qualifyingData \<and> opt_valid src_TPMT_SIG_SCHEME inScheme \<and> opt_valid (src_TPML 16 src_TPMS_PCR_SELECTION) PCRselect"
  "opt_valid (valid_TPM2B 64) qualifyingData \<and> ptr_valid valid_TPMT_SIG_SCHEME inScheme \<and> ptr_valid (valid_TPML 16 valid_TPMS_PCR_SELECTION) PCRselect"
  "be_bytes signHandle"
  "opt_wire wire_TPM2B qualifyingData @ ptr_wire wire_TPMT_SIG_SCHEME inScheme @ ptr_wire (wire_TPML wire_TPMS_PCR_SELECTION) PCRselect" "Option.is_none qualifyingData" True True True
  "\<lambda>(d1, d2, _). ptr_valid (wt_TPM2B 2304) d1 \<and> ptr_valid wt_TPMT_SIGNATURE d2"
  "\<lambda>(d1, d2, _). ptr_valid (valid_TPM2B 2304) d1 \<and> ptr_valid valid_TPMT_SIGNATURE d2"
  "\<lambda>(_, _, _). []"
  "\<lambda>(d1, d2, _). ptr_wire wire_TPM2B d1 @ ptr_wire wire_TPMT_SIGNATURE d2"
  "\<lambda>(ctx, rsp, d1, d2, _). Tss2_Sys_Quote ctx signHandle cmdAuthsArray qualifyingData inScheme PCRselect d1 d2 rsp" cmdAuthsArray
  for signHandle qualifyingData inScheme PCRselect cmdAuthsArray
  by (rule sys_command.intro [OF prepare_Quote.sys_prepare_axioms complete_Quote.sys_complete_axioms sys_command_axioms.intro])
    (auto simp: Tss2_Sys_Quote_def one_call_def one_call_simps null_rc_def dest!: ptr_valid_some simp del: steps.simps)

subsection \<open>RSA Decrypt\<close>

definition Tss2_Sys_RSA_Decrypt_Prepare where
  "Tss2_Sys_RSA_Decrypt_Prepare sysContext keyHandle cipherText inScheme label' = steps
     [null_check [Option.is_none inScheme],
      CommonPreparePrologue TPM2_CC_RSA_Decrypt,
      put (Tss2_MU_UINT32_Marshal keyHandle),
      if Option.is_none cipherText
        then steps [assign (ctx_decryptNull_update (\<lambda>_. True)), put (Tss2_MU_UINT16_Marshal 0)]
        else put (Tss2_MU_TPM2B_PUBLIC_KEY_RSA_Marshal cipherText),
      put (Tss2_MU_TPMT_RSA_DECRYPT_Marshal inScheme),
      if Option.is_none label'
        then put (Tss2_MU_UINT16_Marshal 0)
        else put (Tss2_MU_TPM2B_DATA_Marshal label'),
      assign (flags True True True),
      CommonPrepareEpilogue]
     sysContext"

definition Tss2_Sys_RSA_Decrypt_Complete where
  "Tss2_Sys_RSA_Decrypt_Complete sysContext message = steps
     [on_fst (null_check []),
      on_fst CommonComplete,
      get_out Tss2_MU_TPM2B_PUBLIC_KEY_RSA_Unmarshal]
     (sysContext, message, ())"

definition Tss2_Sys_RSA_Decrypt where
  "Tss2_Sys_RSA_Decrypt sysContext keyHandle cmdAuthsArray cipherText inScheme label' message rspAuthsArray = steps
     [ret (null_rc [Option.is_none inScheme]),
      on_fst (\<lambda>ctx. Tss2_Sys_RSA_Decrypt_Prepare ctx keyHandle cipherText inScheme label'),
      on_rsp (CommonOneCall cmdAuthsArray),
      skip_out (\<lambda>(ctx, d1, _). Tss2_Sys_RSA_Decrypt_Complete ctx d1)]
     (sysContext, rspAuthsArray, message, ())"

lemma RSA_Decrypt_handles [simp]:
  "GetNumCommandHandles TPM2_CC_RSA_Decrypt = 1" "GetNumResponseHandles TPM2_CC_RSA_Decrypt = 0"
  using GetNumHandles_entry [of TPM2_CC_RSA_Decrypt 1 0] by (simp_all add: commandArray_def)

interpretation prepare_RSA_Decrypt: sys_prepare "\<lambda>ctx. Tss2_Sys_RSA_Decrypt_Prepare ctx keyHandle cipherText inScheme label'" TPM2_CC_RSA_Decrypt "True \<in> set [Option.is_none inScheme]"
  "opt_valid (src_TPM2B 514 512) cipherText \<and> opt_valid src_TPMT_RSA_DECRYPT inScheme \<and> opt_valid (src_TPM2B 66 64) label'"
  "opt_valid (valid_TPM2B 512) cipherText \<and> ptr_valid valid_TPMT_RSA_DECRYPT inScheme \<and> opt_valid (valid_TPM2B 64) label'"
  "be_bytes keyHandle"
  "opt_wire wire_TPM2B cipherText @ ptr_wire wire_TPMT_RSA_DECRYPT inScheme @ opt_wire wire_TPM2B label'" "Option.is_none cipherText" True True True
  for keyHandle cipherText inScheme label'
  by (rule sys_prepareI [OF emits_Cons [OF emits_put [OF mu_UINT32.marshaler_axioms, of keyHandle]
    emits_Cons [OF emits_opt_null [OF mu_TPM2B_PUBLIC_KEY_RSA.marshaler_axioms, of cipherText]
    emits_Cons [OF emits_ptr [OF mu_TPMT_RSA_DECRYPT.marshaler_axioms null_TPMT_RSA_DECRYPT, of inScheme]
    emits_Cons [OF emits_opt [OF mu_TPM2B_DATA.marshaler_axioms, of label']
    emits_skip]]]]])
    (simp_all add: Tss2_Sys_RSA_Decrypt_Prepare_def weak_defs prepare_simps del: steps.simps)

interpretation complete_RSA_Decrypt: sys_complete "\<lambda>(ctx, d1, _). Tss2_Sys_RSA_Decrypt_Complete ctx d1" TPM2_CC_RSA_Decrypt
  "\<lambda>(d1, _). ptr_valid (wt_TPM2B 512) d1"
  "\<lambda>(d1, _). ptr_valid (valid_TPM2B 512) d1"
  "\<lambda>(_, _). []"
  "\<lambda>(d1, _). ptr_wire wire_TPM2B d1"
  by (rule sys_completeI [OF sys_complete_plain [OF reads_Cons [OF mu_TPM2B_PUBLIC_KEY_RSA.unmarshaler_axioms
    reads_Nil]]])
    (simp_all add: Tss2_Sys_RSA_Decrypt_Complete_def split_paired_all del: steps.simps)

interpretation cmd_RSA_Decrypt: sys_command "\<lambda>ctx. Tss2_Sys_RSA_Decrypt_Prepare ctx keyHandle cipherText inScheme label'"
  "\<lambda>(ctx, d1, _). Tss2_Sys_RSA_Decrypt_Complete ctx d1" TPM2_CC_RSA_Decrypt "True \<in> set [Option.is_none inScheme]"
  "opt_valid (src_TPM2B 514 512) cipherText \<and> opt_valid src_TPMT_RSA_DECRYPT inScheme \<and> opt_valid (src_TPM2B 66 64) label'"
  "opt_valid (valid_TPM2B 512) cipherText \<and> ptr_valid valid_TPMT_RSA_DECRYPT inScheme \<and> opt_valid (valid_TPM2B 64) label'"
  "be_bytes keyHandle"
  "opt_wire wire_TPM2B cipherText @ ptr_wire wire_TPMT_RSA_DECRYPT inScheme @ opt_wire wire_TPM2B label'" "Option.is_none cipherText" True True True
  "\<lambda>(d1, _). ptr_valid (wt_TPM2B 512) d1"
  "\<lambda>(d1, _). ptr_valid (valid_TPM2B 512) d1"
  "\<lambda>(_, _). []"
  "\<lambda>(d1, _). ptr_wire wire_TPM2B d1"
  "\<lambda>(ctx, rsp, d1, _). Tss2_Sys_RSA_Decrypt ctx keyHandle cmdAuthsArray cipherText inScheme label' d1 rsp" cmdAuthsArray
  for keyHandle cipherText inScheme label' cmdAuthsArray
  by (rule sys_command.intro [OF prepare_RSA_Decrypt.sys_prepare_axioms complete_RSA_Decrypt.sys_complete_axioms sys_command_axioms.intro])
    (auto simp: Tss2_Sys_RSA_Decrypt_def one_call_def one_call_simps null_rc_def dest!: ptr_valid_some simp del: steps.simps)

end
