(* ===== verification/Sys_Commands_5.thy ===== *)
theory Sys_Commands_5
  imports Sys_OneCall
begin

text \<open>
  The command functions of \<open>src/tss2-sys/api\<close> from \<open>RSA_Encrypt\<close> to \<open>ZGen_2Phase\<close>: for each command \<open>_Prepare\<close>, \<open>_Complete\<close> and
  the one-call function, with the contracts they satisfy.
\<close>

section \<open>Commands\<close>

subsection \<open>RSA Encrypt\<close>

definition Tss2_Sys_RSA_Encrypt_Prepare where
  "Tss2_Sys_RSA_Encrypt_Prepare sysContext keyHandle message inScheme label' = steps
     [null_check [Option.is_none inScheme],
      CommonPreparePrologue TPM2_CC_RSA_Encrypt,
      put (Tss2_MU_UINT32_Marshal keyHandle),
      if Option.is_none message
        then steps [assign (ctx_decryptNull_update (\<lambda>_. True)), put (Tss2_MU_UINT16_Marshal 0)]
        else put (Tss2_MU_TPM2B_PUBLIC_KEY_RSA_Marshal message),
      put (Tss2_MU_TPMT_RSA_DECRYPT_Marshal inScheme),
      if Option.is_none label'
        then put (Tss2_MU_UINT16_Marshal 0)
        else put (Tss2_MU_TPM2B_DATA_Marshal label'),
      assign (flags True True True),
      CommonPrepareEpilogue]
     sysContext"

definition Tss2_Sys_RSA_Encrypt_Complete where
  "Tss2_Sys_RSA_Encrypt_Complete sysContext outData = steps
     [on_fst (null_check []),
      on_fst CommonComplete,
      get_out Tss2_MU_TPM2B_PUBLIC_KEY_RSA_Unmarshal]
     (sysContext, outData, ())"

definition Tss2_Sys_RSA_Encrypt where
  "Tss2_Sys_RSA_Encrypt sysContext keyHandle cmdAuthsArray message inScheme label' outData rspAuthsArray = steps
     [ret (null_rc [Option.is_none inScheme]),
      on_fst (\<lambda>ctx. Tss2_Sys_RSA_Encrypt_Prepare ctx keyHandle message inScheme label'),
      on_rsp (CommonOneCall cmdAuthsArray),
      skip_out (\<lambda>(ctx, d1, _). Tss2_Sys_RSA_Encrypt_Complete ctx d1)]
     (sysContext, rspAuthsArray, outData, ())"

lemma RSA_Encrypt_handles [simp]:
  "GetNumCommandHandles TPM2_CC_RSA_Encrypt = 1" "GetNumResponseHandles TPM2_CC_RSA_Encrypt = 0"
  using GetNumHandles_entry [of TPM2_CC_RSA_Encrypt 1 0] by (simp_all add: commandArray_def)

interpretation prepare_RSA_Encrypt: sys_prepare "\<lambda>ctx. Tss2_Sys_RSA_Encrypt_Prepare ctx keyHandle message inScheme label'" TPM2_CC_RSA_Encrypt "True \<in> set [Option.is_none inScheme]"
  "opt_valid (src_TPM2B 514 512) message \<and> opt_valid src_TPMT_RSA_DECRYPT inScheme \<and> opt_valid (src_TPM2B 66 64) label'"
  "opt_valid (valid_TPM2B 512) message \<and> ptr_valid valid_TPMT_RSA_DECRYPT inScheme \<and> opt_valid (valid_TPM2B 64) label'"
  "be_bytes keyHandle"
  "opt_wire wire_TPM2B message @ ptr_wire wire_TPMT_RSA_DECRYPT inScheme @ opt_wire wire_TPM2B label'" "Option.is_none message" True True True
  for keyHandle message inScheme label'
  by (rule sys_prepareI [OF emits_Cons [OF emits_put [OF mu_UINT32.marshaler_axioms, of keyHandle]
    emits_Cons [OF emits_opt_null [OF mu_TPM2B_PUBLIC_KEY_RSA.marshaler_axioms, of message]
    emits_Cons [OF emits_ptr [OF mu_TPMT_RSA_DECRYPT.marshaler_axioms null_TPMT_RSA_DECRYPT, of inScheme]
    emits_Cons [OF emits_opt [OF mu_TPM2B_DATA.marshaler_axioms, of label']
    emits_skip]]]]])
    (simp_all add: Tss2_Sys_RSA_Encrypt_Prepare_def weak_defs prepare_simps del: steps.simps)

interpretation complete_RSA_Encrypt: sys_complete "\<lambda>(ctx, d1, _). Tss2_Sys_RSA_Encrypt_Complete ctx d1" TPM2_CC_RSA_Encrypt
  "\<lambda>(d1, _). ptr_valid (wt_TPM2B 512) d1"
  "\<lambda>(d1, _). ptr_valid (valid_TPM2B 512) d1"
  "\<lambda>(_, _). []"
  "\<lambda>(d1, _). ptr_wire wire_TPM2B d1"
  by (rule sys_completeI [OF sys_complete_plain [OF reads_Cons [OF mu_TPM2B_PUBLIC_KEY_RSA.unmarshaler_axioms
    reads_Nil]]])
    (simp_all add: Tss2_Sys_RSA_Encrypt_Complete_def split_paired_all del: steps.simps)

interpretation cmd_RSA_Encrypt: sys_command "\<lambda>ctx. Tss2_Sys_RSA_Encrypt_Prepare ctx keyHandle message inScheme label'"
  "\<lambda>(ctx, d1, _). Tss2_Sys_RSA_Encrypt_Complete ctx d1" TPM2_CC_RSA_Encrypt "True \<in> set [Option.is_none inScheme]"
  "opt_valid (src_TPM2B 514 512) message \<and> opt_valid src_TPMT_RSA_DECRYPT inScheme \<and> opt_valid (src_TPM2B 66 64) label'"
  "opt_valid (valid_TPM2B 512) message \<and> ptr_valid valid_TPMT_RSA_DECRYPT inScheme \<and> opt_valid (valid_TPM2B 64) label'"
  "be_bytes keyHandle"
  "opt_wire wire_TPM2B message @ ptr_wire wire_TPMT_RSA_DECRYPT inScheme @ opt_wire wire_TPM2B label'" "Option.is_none message" True True True
  "\<lambda>(d1, _). ptr_valid (wt_TPM2B 512) d1"
  "\<lambda>(d1, _). ptr_valid (valid_TPM2B 512) d1"
  "\<lambda>(_, _). []"
  "\<lambda>(d1, _). ptr_wire wire_TPM2B d1"
  "\<lambda>(ctx, rsp, d1, _). Tss2_Sys_RSA_Encrypt ctx keyHandle cmdAuthsArray message inScheme label' d1 rsp" cmdAuthsArray
  for keyHandle message inScheme label' cmdAuthsArray
  by (rule sys_command.intro [OF prepare_RSA_Encrypt.sys_prepare_axioms complete_RSA_Encrypt.sys_complete_axioms sys_command_axioms.intro])
    (auto simp: Tss2_Sys_RSA_Encrypt_def one_call_def one_call_simps null_rc_def dest!: ptr_valid_some simp del: steps.simps)

subsection \<open>ReadClock\<close>

definition Tss2_Sys_ReadClock_Prepare where
  "Tss2_Sys_ReadClock_Prepare sysContext = steps
     [null_check [],
      CommonPreparePrologue TPM2_CC_ReadClock,
      assign (flags False False True),
      CommonPrepareEpilogue]
     sysContext"

definition Tss2_Sys_ReadClock_Complete where
  "Tss2_Sys_ReadClock_Complete sysContext currentTime = steps
     [on_fst (null_check []),
      on_fst CommonComplete,
      get_out Tss2_MU_TPMS_TIME_INFO_Unmarshal]
     (sysContext, currentTime, ())"

definition Tss2_Sys_ReadClock where
  "Tss2_Sys_ReadClock sysContext cmdAuthsArray currentTime rspAuthsArray = steps
     [on_fst (\<lambda>ctx. Tss2_Sys_ReadClock_Prepare ctx),
      on_rsp (CommonOneCall cmdAuthsArray),
      skip_out (\<lambda>(ctx, d1, _). Tss2_Sys_ReadClock_Complete ctx d1)]
     (sysContext, rspAuthsArray, currentTime, ())"

lemma ReadClock_handles [simp]:
  "GetNumCommandHandles TPM2_CC_ReadClock = 0" "GetNumResponseHandles TPM2_CC_ReadClock = 0"
  using GetNumHandles_entry [of TPM2_CC_ReadClock 0 0] by (simp_all add: commandArray_def)

interpretation prepare_ReadClock: sys_prepare "\<lambda>ctx. Tss2_Sys_ReadClock_Prepare ctx" TPM2_CC_ReadClock "True \<in> set []"
  "True"
  "True"
  "[]"
  "[]" "False" False False True
  by (rule sys_prepareI [OF emits_skip])
    (simp_all add: Tss2_Sys_ReadClock_Prepare_def weak_defs prepare_simps del: steps.simps)

interpretation complete_ReadClock: sys_complete "\<lambda>(ctx, d1, _). Tss2_Sys_ReadClock_Complete ctx d1" TPM2_CC_ReadClock
  "\<lambda>(d1, _). ptr_valid wt_TPMS_TIME_INFO d1"
  "\<lambda>(d1, _). ptr_valid valid_TPMS_TIME_INFO d1"
  "\<lambda>(_, _). []"
  "\<lambda>(d1, _). ptr_wire wire_TPMS_TIME_INFO d1"
  by (rule sys_completeI [OF sys_complete_plain [OF reads_Cons [OF mu_TPMS_TIME_INFO.unmarshaler_axioms
    reads_Nil]]])
    (simp_all add: Tss2_Sys_ReadClock_Complete_def split_paired_all del: steps.simps)

interpretation cmd_ReadClock: sys_command "\<lambda>ctx. Tss2_Sys_ReadClock_Prepare ctx"
  "\<lambda>(ctx, d1, _). Tss2_Sys_ReadClock_Complete ctx d1" TPM2_CC_ReadClock "True \<in> set []"
  "True"
  "True"
  "[]"
  "[]" "False" False False True
  "\<lambda>(d1, _). ptr_valid wt_TPMS_TIME_INFO d1"
  "\<lambda>(d1, _). ptr_valid valid_TPMS_TIME_INFO d1"
  "\<lambda>(_, _). []"
  "\<lambda>(d1, _). ptr_wire wire_TPMS_TIME_INFO d1"
  "\<lambda>(ctx, rsp, d1, _). Tss2_Sys_ReadClock ctx cmdAuthsArray d1 rsp" cmdAuthsArray
  for cmdAuthsArray
  by (rule sys_command.intro [OF prepare_ReadClock.sys_prepare_axioms complete_ReadClock.sys_complete_axioms sys_command_axioms.intro])
    (auto simp: Tss2_Sys_ReadClock_def one_call_def one_call_simps null_rc_def dest!: ptr_valid_some simp del: steps.simps)

subsection \<open>ReadPublic\<close>

definition Tss2_Sys_ReadPublic_Prepare where
  "Tss2_Sys_ReadPublic_Prepare sysContext objectHandle = steps
     [null_check [],
      CommonPreparePrologue TPM2_CC_ReadPublic,
      put (Tss2_MU_UINT32_Marshal objectHandle),
      assign (flags False True True),
      CommonPrepareEpilogue]
     sysContext"

definition Tss2_Sys_ReadPublic_Complete where
  "Tss2_Sys_ReadPublic_Complete sysContext outPublic name qualifiedName = steps
     [on_fst (null_check []),
      on_fst CommonComplete,
      get_out Tss2_MU_TPM2B_PUBLIC_Unmarshal,
      skip_out (get_out Tss2_MU_TPM2B_NAME_Unmarshal),
      skip_out (skip_out (get_out Tss2_MU_TPM2B_NAME_Unmarshal))]
     (sysContext, outPublic, name, qualifiedName, ())"

definition Tss2_Sys_ReadPublic where
  "Tss2_Sys_ReadPublic sysContext objectHandle cmdAuthsArray outPublic name qualifiedName rspAuthsArray = steps
     [on_fst (\<lambda>ctx. Tss2_Sys_ReadPublic_Prepare ctx objectHandle),
      on_rsp (CommonOneCall cmdAuthsArray),
      skip_out (\<lambda>(ctx, d1, d2, d3, _). Tss2_Sys_ReadPublic_Complete ctx d1 d2 d3)]
     (sysContext, rspAuthsArray, outPublic, name, qualifiedName, ())"

lemma ReadPublic_handles [simp]:
  "GetNumCommandHandles TPM2_CC_ReadPublic = 1" "GetNumResponseHandles TPM2_CC_ReadPublic = 0"
  using GetNumHandles_entry [of TPM2_CC_ReadPublic 1 0] by (simp_all add: commandArray_def)

interpretation prepare_ReadPublic: sys_prepare "\<lambda>ctx. Tss2_Sys_ReadPublic_Prepare ctx objectHandle" TPM2_CC_ReadPublic "True \<in> set []"
  "True"
  "True"
  "be_bytes objectHandle"
  "[]" "False" False True True
  for objectHandle
  by (rule sys_prepareI [OF emits_Cons [OF emits_put [OF mu_UINT32.marshaler_axioms, of objectHandle]
    emits_skip]])
    (simp_all add: Tss2_Sys_ReadPublic_Prepare_def weak_defs prepare_simps del: steps.simps)

interpretation complete_ReadPublic: sys_complete "\<lambda>(ctx, d1, d2, d3, _). Tss2_Sys_ReadPublic_Complete ctx d1 d2 d3" TPM2_CC_ReadPublic
  "\<lambda>(d1, d2, d3, _). ptr_valid (\<lambda>s. wt_TPMT_PUBLIC (TPM2B_SUBTYPE_member s)) d1 \<and> ptr_valid (wt_TPM2B 68) d2 \<and> ptr_valid (wt_TPM2B 68) d3"
  "\<lambda>(d1, d2, d3, _). ptr_valid (\<lambda>s. valid_TPMT_PUBLIC (TPM2B_SUBTYPE_member s)) d1 \<and> ptr_valid (valid_TPM2B 68) d2 \<and> ptr_valid (valid_TPM2B 68) d3"
  "\<lambda>(_, _, _, _). []"
  "\<lambda>(d1, d2, d3, _). ptr_wire (wire_SUBTYPE wire_TPMT_PUBLIC) d1 @ ptr_wire wire_TPM2B d2 @ ptr_wire wire_TPM2B d3"
  by (rule sys_completeI [OF sys_complete_plain [OF reads_Cons [OF mu_TPM2B_PUBLIC.unmarshaler_axioms
    reads_Cons [OF mu_TPM2B_NAME.unmarshaler_axioms
    reads_Cons [OF mu_TPM2B_NAME.unmarshaler_axioms
    reads_Nil]]]]])
    (simp_all add: Tss2_Sys_ReadPublic_Complete_def split_paired_all del: steps.simps)

interpretation cmd_ReadPublic: sys_command "\<lambda>ctx. Tss2_Sys_ReadPublic_Prepare ctx objectHandle"
  "\<lambda>(ctx, d1, d2, d3, _). Tss2_Sys_ReadPublic_Complete ctx d1 d2 d3" TPM2_CC_ReadPublic "True \<in> set []"
  "True"
  "True"
  "be_bytes objectHandle"
  "[]" "False" False True True
  "\<lambda>(d1, d2, d3, _). ptr_valid (\<lambda>s. wt_TPMT_PUBLIC (TPM2B_SUBTYPE_member s)) d1 \<and> ptr_valid (wt_TPM2B 68) d2 \<and> ptr_valid (wt_TPM2B 68) d3"
  "\<lambda>(d1, d2, d3, _). ptr_valid (\<lambda>s. valid_TPMT_PUBLIC (TPM2B_SUBTYPE_member s)) d1 \<and> ptr_valid (valid_TPM2B 68) d2 \<and> ptr_valid (valid_TPM2B 68) d3"
  "\<lambda>(_, _, _, _). []"
  "\<lambda>(d1, d2, d3, _). ptr_wire (wire_SUBTYPE wire_TPMT_PUBLIC) d1 @ ptr_wire wire_TPM2B d2 @ ptr_wire wire_TPM2B d3"
  "\<lambda>(ctx, rsp, d1, d2, d3, _). Tss2_Sys_ReadPublic ctx objectHandle cmdAuthsArray d1 d2 d3 rsp" cmdAuthsArray
  for objectHandle cmdAuthsArray
  by (rule sys_command.intro [OF prepare_ReadPublic.sys_prepare_axioms complete_ReadPublic.sys_complete_axioms sys_command_axioms.intro])
    (auto simp: Tss2_Sys_ReadPublic_def one_call_def one_call_simps null_rc_def dest!: ptr_valid_some simp del: steps.simps)

subsection \<open>Rewrap\<close>

definition Tss2_Sys_Rewrap_Prepare where
  "Tss2_Sys_Rewrap_Prepare sysContext oldParent newParent inDuplicate name inSymSeed = steps
     [null_check [],
      CommonPreparePrologue TPM2_CC_Rewrap,
      put (Tss2_MU_UINT32_Marshal oldParent),
      put (Tss2_MU_UINT32_Marshal newParent),
      if Option.is_none inDuplicate
        then steps [assign (ctx_decryptNull_update (\<lambda>_. True)), put (Tss2_MU_UINT16_Marshal 0)]
        else put (Tss2_MU_TPM2B_PRIVATE_Marshal inDuplicate),
      if Option.is_none name
        then put (Tss2_MU_UINT16_Marshal 0)
        else put (Tss2_MU_TPM2B_NAME_Marshal name),
      if Option.is_none inSymSeed
        then put (Tss2_MU_UINT16_Marshal 0)
        else put (Tss2_MU_TPM2B_ENCRYPTED_SECRET_Marshal inSymSeed),
      assign (flags True True True),
      CommonPrepareEpilogue]
     sysContext"

definition Tss2_Sys_Rewrap_Complete where
  "Tss2_Sys_Rewrap_Complete sysContext outDuplicate outSymSeed = steps
     [on_fst (null_check []),
      on_fst CommonComplete,
      get_out Tss2_MU_TPM2B_PRIVATE_Unmarshal,
      skip_out (get_out Tss2_MU_TPM2B_ENCRYPTED_SECRET_Unmarshal)]
     (sysContext, outDuplicate, outSymSeed, ())"

definition Tss2_Sys_Rewrap where
  "Tss2_Sys_Rewrap sysContext oldParent newParent cmdAuthsArray inDuplicate name inSymSeed outDuplicate outSymSeed rspAuthsArray = steps
     [on_fst (\<lambda>ctx. Tss2_Sys_Rewrap_Prepare ctx oldParent newParent inDuplicate name inSymSeed),
      on_rsp (CommonOneCall cmdAuthsArray),
      skip_out (\<lambda>(ctx, d1, d2, _). Tss2_Sys_Rewrap_Complete ctx d1 d2)]
     (sysContext, rspAuthsArray, outDuplicate, outSymSeed, ())"

lemma Rewrap_handles [simp]:
  "GetNumCommandHandles TPM2_CC_Rewrap = 2" "GetNumResponseHandles TPM2_CC_Rewrap = 0"
  using GetNumHandles_entry [of TPM2_CC_Rewrap 2 0] by (simp_all add: commandArray_def)

interpretation prepare_Rewrap: sys_prepare "\<lambda>ctx. Tss2_Sys_Rewrap_Prepare ctx oldParent newParent inDuplicate name inSymSeed" TPM2_CC_Rewrap "True \<in> set []"
  "opt_valid (src_TPM2B 1552 1550) inDuplicate \<and> opt_valid (src_TPM2B 70 68) name \<and> opt_valid (src_TPM2B 1570 1568) inSymSeed"
  "opt_valid (valid_TPM2B 1550) inDuplicate \<and> opt_valid (valid_TPM2B 68) name \<and> opt_valid (valid_TPM2B 1568) inSymSeed"
  "be_bytes oldParent @ be_bytes newParent"
  "opt_wire wire_TPM2B inDuplicate @ opt_wire wire_TPM2B name @ opt_wire wire_TPM2B inSymSeed" "Option.is_none inDuplicate" True True True
  for oldParent newParent inDuplicate name inSymSeed
  by (rule sys_prepareI [OF emits_Cons [OF emits_put [OF mu_UINT32.marshaler_axioms, of oldParent]
    emits_Cons [OF emits_put [OF mu_UINT32.marshaler_axioms, of newParent]
    emits_Cons [OF emits_opt_null [OF mu_TPM2B_PRIVATE.marshaler_axioms, of inDuplicate]
    emits_Cons [OF emits_opt [OF mu_TPM2B_NAME.marshaler_axioms, of name]
    emits_Cons [OF emits_opt [OF mu_TPM2B_ENCRYPTED_SECRET.marshaler_axioms, of inSymSeed]
    emits_skip]]]]]])
    (simp_all add: Tss2_Sys_Rewrap_Prepare_def weak_defs prepare_simps del: steps.simps)

interpretation complete_Rewrap: sys_complete "\<lambda>(ctx, d1, d2, _). Tss2_Sys_Rewrap_Complete ctx d1 d2" TPM2_CC_Rewrap
  "\<lambda>(d1, d2, _). ptr_valid (wt_TPM2B 1550) d1 \<and> ptr_valid (wt_TPM2B 1568) d2"
  "\<lambda>(d1, d2, _). ptr_valid (valid_TPM2B 1550) d1 \<and> ptr_valid (valid_TPM2B 1568) d2"
  "\<lambda>(_, _, _). []"
  "\<lambda>(d1, d2, _). ptr_wire wire_TPM2B d1 @ ptr_wire wire_TPM2B d2"
  by (rule sys_completeI [OF sys_complete_plain [OF reads_Cons [OF mu_TPM2B_PRIVATE.unmarshaler_axioms
    reads_Cons [OF mu_TPM2B_ENCRYPTED_SECRET.unmarshaler_axioms
    reads_Nil]]]])
    (simp_all add: Tss2_Sys_Rewrap_Complete_def split_paired_all del: steps.simps)

interpretation cmd_Rewrap: sys_command "\<lambda>ctx. Tss2_Sys_Rewrap_Prepare ctx oldParent newParent inDuplicate name inSymSeed"
  "\<lambda>(ctx, d1, d2, _). Tss2_Sys_Rewrap_Complete ctx d1 d2" TPM2_CC_Rewrap "True \<in> set []"
  "opt_valid (src_TPM2B 1552 1550) inDuplicate \<and> opt_valid (src_TPM2B 70 68) name \<and> opt_valid (src_TPM2B 1570 1568) inSymSeed"
  "opt_valid (valid_TPM2B 1550) inDuplicate \<and> opt_valid (valid_TPM2B 68) name \<and> opt_valid (valid_TPM2B 1568) inSymSeed"
  "be_bytes oldParent @ be_bytes newParent"
  "opt_wire wire_TPM2B inDuplicate @ opt_wire wire_TPM2B name @ opt_wire wire_TPM2B inSymSeed" "Option.is_none inDuplicate" True True True
  "\<lambda>(d1, d2, _). ptr_valid (wt_TPM2B 1550) d1 \<and> ptr_valid (wt_TPM2B 1568) d2"
  "\<lambda>(d1, d2, _). ptr_valid (valid_TPM2B 1550) d1 \<and> ptr_valid (valid_TPM2B 1568) d2"
  "\<lambda>(_, _, _). []"
  "\<lambda>(d1, d2, _). ptr_wire wire_TPM2B d1 @ ptr_wire wire_TPM2B d2"
  "\<lambda>(ctx, rsp, d1, d2, _). Tss2_Sys_Rewrap ctx oldParent newParent cmdAuthsArray inDuplicate name inSymSeed d1 d2 rsp" cmdAuthsArray
  for oldParent newParent inDuplicate name inSymSeed cmdAuthsArray
  by (rule sys_command.intro [OF prepare_Rewrap.sys_prepare_axioms complete_Rewrap.sys_complete_axioms sys_command_axioms.intro])
    (auto simp: Tss2_Sys_Rewrap_def one_call_def one_call_simps null_rc_def dest!: ptr_valid_some simp del: steps.simps)

subsection \<open>SelfTest\<close>

definition Tss2_Sys_SelfTest_Prepare where
  "Tss2_Sys_SelfTest_Prepare sysContext fullTest = steps
     [null_check [],
      CommonPreparePrologue TPM2_CC_SelfTest,
      put (Tss2_MU_UINT8_Marshal fullTest),
      assign (flags False False True),
      CommonPrepareEpilogue]
     sysContext"

definition Tss2_Sys_SelfTest_Complete where
  "Tss2_Sys_SelfTest_Complete sysContext = steps
     [on_fst (null_check []),
      on_fst CommonComplete]
     (sysContext, ())"

definition Tss2_Sys_SelfTest where
  "Tss2_Sys_SelfTest sysContext cmdAuthsArray fullTest rspAuthsArray = steps
     [on_fst (\<lambda>ctx. Tss2_Sys_SelfTest_Prepare ctx fullTest),
      on_rsp (CommonOneCall cmdAuthsArray),
      skip_out (\<lambda>(ctx, _). Tss2_Sys_SelfTest_Complete ctx)]
     (sysContext, rspAuthsArray, ())"

lemma SelfTest_handles [simp]:
  "GetNumCommandHandles TPM2_CC_SelfTest = 0" "GetNumResponseHandles TPM2_CC_SelfTest = 0"
  using GetNumHandles_entry [of TPM2_CC_SelfTest 0 0] by (simp_all add: commandArray_def)

interpretation prepare_SelfTest: sys_prepare "\<lambda>ctx. Tss2_Sys_SelfTest_Prepare ctx fullTest" TPM2_CC_SelfTest "True \<in> set []"
  "True"
  "True"
  "[]"
  "be_bytes fullTest" "False" False False True
  for fullTest
  by (rule sys_prepareI [OF emits_Cons [OF emits_put [OF mu_UINT8.marshaler_axioms, of fullTest]
    emits_skip]])
    (simp_all add: Tss2_Sys_SelfTest_Prepare_def weak_defs prepare_simps del: steps.simps)

interpretation complete_SelfTest: sys_complete "\<lambda>(ctx, _). Tss2_Sys_SelfTest_Complete ctx" TPM2_CC_SelfTest
  "\<lambda>(_). True"
  "\<lambda>(_). True"
  "\<lambda>(_). []"
  "\<lambda>(_). []"
  by (rule sys_completeI [OF sys_complete_plain [OF reads_Nil]])
    (simp_all add: Tss2_Sys_SelfTest_Complete_def split_paired_all del: steps.simps)

interpretation cmd_SelfTest: sys_command "\<lambda>ctx. Tss2_Sys_SelfTest_Prepare ctx fullTest"
  "\<lambda>(ctx, _). Tss2_Sys_SelfTest_Complete ctx" TPM2_CC_SelfTest "True \<in> set []"
  "True"
  "True"
  "[]"
  "be_bytes fullTest" "False" False False True
  "\<lambda>(_). True"
  "\<lambda>(_). True"
  "\<lambda>(_). []"
  "\<lambda>(_). []"
  "\<lambda>(ctx, rsp, _). Tss2_Sys_SelfTest ctx cmdAuthsArray fullTest rsp" cmdAuthsArray
  for fullTest cmdAuthsArray
  by (rule sys_command.intro [OF prepare_SelfTest.sys_prepare_axioms complete_SelfTest.sys_complete_axioms sys_command_axioms.intro])
    (auto simp: Tss2_Sys_SelfTest_def one_call_def one_call_simps null_rc_def dest!: ptr_valid_some simp del: steps.simps)

subsection \<open>SequenceComplete\<close>

definition Tss2_Sys_SequenceComplete_Prepare where
  "Tss2_Sys_SequenceComplete_Prepare sysContext sequenceHandle buffer hierarchy = steps
     [null_check [],
      CommonPreparePrologue TPM2_CC_SequenceComplete,
      put (Tss2_MU_UINT32_Marshal sequenceHandle),
      if Option.is_none buffer
        then steps [assign (ctx_decryptNull_update (\<lambda>_. True)), put (Tss2_MU_UINT16_Marshal 0)]
        else put (Tss2_MU_TPM2B_MAX_BUFFER_Marshal buffer),
      put (Tss2_MU_UINT32_Marshal hierarchy),
      assign (flags True True True),
      CommonPrepareEpilogue]
     sysContext"

definition Tss2_Sys_SequenceComplete_Complete where
  "Tss2_Sys_SequenceComplete_Complete sysContext result validation = steps
     [on_fst (null_check []),
      on_fst CommonComplete,
      get_out Tss2_MU_TPM2B_DIGEST_Unmarshal,
      skip_out (get_out Tss2_MU_TPMT_TK_HASHCHECK_Unmarshal)]
     (sysContext, result, validation, ())"

definition Tss2_Sys_SequenceComplete where
  "Tss2_Sys_SequenceComplete sysContext sequenceHandle cmdAuthsArray buffer hierarchy result validation rspAuthsArray = steps
     [on_fst (\<lambda>ctx. Tss2_Sys_SequenceComplete_Prepare ctx sequenceHandle buffer hierarchy),
      on_rsp (CommonOneCall cmdAuthsArray),
      skip_out (\<lambda>(ctx, d1, d2, _). Tss2_Sys_SequenceComplete_Complete ctx d1 d2)]
     (sysContext, rspAuthsArray, result, validation, ())"

lemma SequenceComplete_handles [simp]:
  "GetNumCommandHandles TPM2_CC_SequenceComplete = 1" "GetNumResponseHandles TPM2_CC_SequenceComplete = 0"
  using GetNumHandles_entry [of TPM2_CC_SequenceComplete 1 0] by (simp_all add: commandArray_def)

interpretation prepare_SequenceComplete: sys_prepare "\<lambda>ctx. Tss2_Sys_SequenceComplete_Prepare ctx sequenceHandle buffer hierarchy" TPM2_CC_SequenceComplete "True \<in> set []"
  "opt_valid (src_TPM2B 1026 1024) buffer"
  "opt_valid (valid_TPM2B 1024) buffer"
  "be_bytes sequenceHandle"
  "opt_wire wire_TPM2B buffer @ be_bytes hierarchy" "Option.is_none buffer" True True True
  for sequenceHandle buffer hierarchy
  by (rule sys_prepareI [OF emits_Cons [OF emits_put [OF mu_UINT32.marshaler_axioms, of sequenceHandle]
    emits_Cons [OF emits_opt_null [OF mu_TPM2B_MAX_BUFFER.marshaler_axioms, of buffer]
    emits_Cons [OF emits_put [OF mu_UINT32.marshaler_axioms, of hierarchy]
    emits_skip]]]])
    (simp_all add: Tss2_Sys_SequenceComplete_Prepare_def weak_defs prepare_simps del: steps.simps)

interpretation complete_SequenceComplete: sys_complete "\<lambda>(ctx, d1, d2, _). Tss2_Sys_SequenceComplete_Complete ctx d1 d2" TPM2_CC_SequenceComplete
  "\<lambda>(d1, d2, _). ptr_valid (wt_TPM2B 64) d1 \<and> ptr_valid wt_TPMT_TK_HASHCHECK d2"
  "\<lambda>(d1, d2, _). ptr_valid (valid_TPM2B 64) d1 \<and> ptr_valid valid_TPMT_TK_HASHCHECK d2"
  "\<lambda>(_, _, _). []"
  "\<lambda>(d1, d2, _). ptr_wire wire_TPM2B d1 @ ptr_wire wire_TPMT_TK_HASHCHECK d2"
  by (rule sys_completeI [OF sys_complete_plain [OF reads_Cons [OF mu_TPM2B_DIGEST.unmarshaler_axioms
    reads_Cons [OF mu_TPMT_TK_HASHCHECK.unmarshaler_axioms
    reads_Nil]]]])
    (simp_all add: Tss2_Sys_SequenceComplete_Complete_def split_paired_all del: steps.simps)

interpretation cmd_SequenceComplete: sys_command "\<lambda>ctx. Tss2_Sys_SequenceComplete_Prepare ctx sequenceHandle buffer hierarchy"
  "\<lambda>(ctx, d1, d2, _). Tss2_Sys_SequenceComplete_Complete ctx d1 d2" TPM2_CC_SequenceComplete "True \<in> set []"
  "opt_valid (src_TPM2B 1026 1024) buffer"
  "opt_valid (valid_TPM2B 1024) buffer"
  "be_bytes sequenceHandle"
  "opt_wire wire_TPM2B buffer @ be_bytes hierarchy" "Option.is_none buffer" True True True
  "\<lambda>(d1, d2, _). ptr_valid (wt_TPM2B 64) d1 \<and> ptr_valid wt_TPMT_TK_HASHCHECK d2"
  "\<lambda>(d1, d2, _). ptr_valid (valid_TPM2B 64) d1 \<and> ptr_valid valid_TPMT_TK_HASHCHECK d2"
  "\<lambda>(_, _, _). []"
  "\<lambda>(d1, d2, _). ptr_wire wire_TPM2B d1 @ ptr_wire wire_TPMT_TK_HASHCHECK d2"
  "\<lambda>(ctx, rsp, d1, d2, _). Tss2_Sys_SequenceComplete ctx sequenceHandle cmdAuthsArray buffer hierarchy d1 d2 rsp" cmdAuthsArray
  for sequenceHandle buffer hierarchy cmdAuthsArray
  by (rule sys_command.intro [OF prepare_SequenceComplete.sys_prepare_axioms complete_SequenceComplete.sys_complete_axioms sys_command_axioms.intro])
    (auto simp: Tss2_Sys_SequenceComplete_def one_call_def one_call_simps null_rc_def dest!: ptr_valid_some simp del: steps.simps)

subsection \<open>SequenceUpdate\<close>

definition Tss2_Sys_SequenceUpdate_Prepare where
  "Tss2_Sys_SequenceUpdate_Prepare sysContext sequenceHandle buffer = steps
     [null_check [],
      CommonPreparePrologue TPM2_CC_SequenceUpdate,
      put (Tss2_MU_UINT32_Marshal sequenceHandle),
      if Option.is_none buffer
        then put (Tss2_MU_UINT16_Marshal 0)
        else put (Tss2_MU_TPM2B_MAX_BUFFER_Marshal buffer),
      assign (flags True False True),
      CommonPrepareEpilogue]
     sysContext"

definition Tss2_Sys_SequenceUpdate_Complete where
  "Tss2_Sys_SequenceUpdate_Complete sysContext = steps
     [on_fst (null_check []),
      on_fst CommonComplete]
     (sysContext, ())"

definition Tss2_Sys_SequenceUpdate where
  "Tss2_Sys_SequenceUpdate sysContext sequenceHandle cmdAuthsArray buffer rspAuthsArray = steps
     [on_fst (\<lambda>ctx. Tss2_Sys_SequenceUpdate_Prepare ctx sequenceHandle buffer),
      on_rsp (CommonOneCall cmdAuthsArray),
      skip_out (\<lambda>(ctx, _). Tss2_Sys_SequenceUpdate_Complete ctx)]
     (sysContext, rspAuthsArray, ())"

lemma SequenceUpdate_handles [simp]:
  "GetNumCommandHandles TPM2_CC_SequenceUpdate = 1" "GetNumResponseHandles TPM2_CC_SequenceUpdate = 0"
  using GetNumHandles_entry [of TPM2_CC_SequenceUpdate 1 0] by (simp_all add: commandArray_def)

interpretation prepare_SequenceUpdate: sys_prepare "\<lambda>ctx. Tss2_Sys_SequenceUpdate_Prepare ctx sequenceHandle buffer" TPM2_CC_SequenceUpdate "True \<in> set []"
  "opt_valid (src_TPM2B 1026 1024) buffer"
  "opt_valid (valid_TPM2B 1024) buffer"
  "be_bytes sequenceHandle"
  "opt_wire wire_TPM2B buffer" "False" True False True
  for sequenceHandle buffer
  by (rule sys_prepareI [OF emits_Cons [OF emits_put [OF mu_UINT32.marshaler_axioms, of sequenceHandle]
    emits_Cons [OF emits_opt [OF mu_TPM2B_MAX_BUFFER.marshaler_axioms, of buffer]
    emits_skip]]])
    (simp_all add: Tss2_Sys_SequenceUpdate_Prepare_def weak_defs prepare_simps del: steps.simps)

interpretation complete_SequenceUpdate: sys_complete "\<lambda>(ctx, _). Tss2_Sys_SequenceUpdate_Complete ctx" TPM2_CC_SequenceUpdate
  "\<lambda>(_). True"
  "\<lambda>(_). True"
  "\<lambda>(_). []"
  "\<lambda>(_). []"
  by (rule sys_completeI [OF sys_complete_plain [OF reads_Nil]])
    (simp_all add: Tss2_Sys_SequenceUpdate_Complete_def split_paired_all del: steps.simps)

interpretation cmd_SequenceUpdate: sys_command "\<lambda>ctx. Tss2_Sys_SequenceUpdate_Prepare ctx sequenceHandle buffer"
  "\<lambda>(ctx, _). Tss2_Sys_SequenceUpdate_Complete ctx" TPM2_CC_SequenceUpdate "True \<in> set []"
  "opt_valid (src_TPM2B 1026 1024) buffer"
  "opt_valid (valid_TPM2B 1024) buffer"
  "be_bytes sequenceHandle"
  "opt_wire wire_TPM2B buffer" "False" True False True
  "\<lambda>(_). True"
  "\<lambda>(_). True"
  "\<lambda>(_). []"
  "\<lambda>(_). []"
  "\<lambda>(ctx, rsp, _). Tss2_Sys_SequenceUpdate ctx sequenceHandle cmdAuthsArray buffer rsp" cmdAuthsArray
  for sequenceHandle buffer cmdAuthsArray
  by (rule sys_command.intro [OF prepare_SequenceUpdate.sys_prepare_axioms complete_SequenceUpdate.sys_complete_axioms sys_command_axioms.intro])
    (auto simp: Tss2_Sys_SequenceUpdate_def one_call_def one_call_simps null_rc_def dest!: ptr_valid_some simp del: steps.simps)

subsection \<open>SetAlgorithmSet\<close>

definition Tss2_Sys_SetAlgorithmSet_Prepare where
  "Tss2_Sys_SetAlgorithmSet_Prepare sysContext authHandle algorithmSet = steps
     [null_check [],
      CommonPreparePrologue TPM2_CC_SetAlgorithmSet,
      put (Tss2_MU_UINT32_Marshal authHandle),
      put (Tss2_MU_UINT32_Marshal algorithmSet),
      assign (flags False False True),
      CommonPrepareEpilogue]
     sysContext"

definition Tss2_Sys_SetAlgorithmSet_Complete where
  "Tss2_Sys_SetAlgorithmSet_Complete sysContext = steps
     [on_fst (null_check []),
      on_fst CommonComplete]
     (sysContext, ())"

definition Tss2_Sys_SetAlgorithmSet where
  "Tss2_Sys_SetAlgorithmSet sysContext authHandle cmdAuthsArray algorithmSet rspAuthsArray = steps
     [on_fst (\<lambda>ctx. Tss2_Sys_SetAlgorithmSet_Prepare ctx authHandle algorithmSet),
      on_rsp (CommonOneCall cmdAuthsArray),
      skip_out (\<lambda>(ctx, _). Tss2_Sys_SetAlgorithmSet_Complete ctx)]
     (sysContext, rspAuthsArray, ())"

lemma SetAlgorithmSet_handles [simp]:
  "GetNumCommandHandles TPM2_CC_SetAlgorithmSet = 1" "GetNumResponseHandles TPM2_CC_SetAlgorithmSet = 0"
  using GetNumHandles_entry [of TPM2_CC_SetAlgorithmSet 1 0] by (simp_all add: commandArray_def)

interpretation prepare_SetAlgorithmSet: sys_prepare "\<lambda>ctx. Tss2_Sys_SetAlgorithmSet_Prepare ctx authHandle algorithmSet" TPM2_CC_SetAlgorithmSet "True \<in> set []"
  "True"
  "True"
  "be_bytes authHandle"
  "be_bytes algorithmSet" "False" False False True
  for authHandle algorithmSet
  by (rule sys_prepareI [OF emits_Cons [OF emits_put [OF mu_UINT32.marshaler_axioms, of authHandle]
    emits_Cons [OF emits_put [OF mu_UINT32.marshaler_axioms, of algorithmSet]
    emits_skip]]])
    (simp_all add: Tss2_Sys_SetAlgorithmSet_Prepare_def weak_defs prepare_simps del: steps.simps)

interpretation complete_SetAlgorithmSet: sys_complete "\<lambda>(ctx, _). Tss2_Sys_SetAlgorithmSet_Complete ctx" TPM2_CC_SetAlgorithmSet
  "\<lambda>(_). True"
  "\<lambda>(_). True"
  "\<lambda>(_). []"
  "\<lambda>(_). []"
  by (rule sys_completeI [OF sys_complete_plain [OF reads_Nil]])
    (simp_all add: Tss2_Sys_SetAlgorithmSet_Complete_def split_paired_all del: steps.simps)

interpretation cmd_SetAlgorithmSet: sys_command "\<lambda>ctx. Tss2_Sys_SetAlgorithmSet_Prepare ctx authHandle algorithmSet"
  "\<lambda>(ctx, _). Tss2_Sys_SetAlgorithmSet_Complete ctx" TPM2_CC_SetAlgorithmSet "True \<in> set []"
  "True"
  "True"
  "be_bytes authHandle"
  "be_bytes algorithmSet" "False" False False True
  "\<lambda>(_). True"
  "\<lambda>(_). True"
  "\<lambda>(_). []"
  "\<lambda>(_). []"
  "\<lambda>(ctx, rsp, _). Tss2_Sys_SetAlgorithmSet ctx authHandle cmdAuthsArray algorithmSet rsp" cmdAuthsArray
  for authHandle algorithmSet cmdAuthsArray
  by (rule sys_command.intro [OF prepare_SetAlgorithmSet.sys_prepare_axioms complete_SetAlgorithmSet.sys_complete_axioms sys_command_axioms.intro])
    (auto simp: Tss2_Sys_SetAlgorithmSet_def one_call_def one_call_simps null_rc_def dest!: ptr_valid_some simp del: steps.simps)

subsection \<open>SetCommandCodeAuditStatus\<close>

definition Tss2_Sys_SetCommandCodeAuditStatus_Prepare where
  "Tss2_Sys_SetCommandCodeAuditStatus_Prepare sysContext auth auditAlg setList clearList = steps
     [null_check [Option.is_none setList, Option.is_none clearList],
      ret (if IsAlgorithmWeak auditAlg 0 \<noteq> 0 then TSS2_SYS_RC_BAD_VALUE else TSS2_RC_SUCCESS),
      CommonPreparePrologue TPM2_CC_SetCommandCodeAuditStatus,
      put (Tss2_MU_UINT32_Marshal auth),
      put (Tss2_MU_UINT16_Marshal auditAlg),
      put (Tss2_MU_TPML_CC_Marshal setList),
      put (Tss2_MU_TPML_CC_Marshal clearList),
      assign (flags False False True),
      CommonPrepareEpilogue]
     sysContext"

definition Tss2_Sys_SetCommandCodeAuditStatus_Complete where
  "Tss2_Sys_SetCommandCodeAuditStatus_Complete sysContext = steps
     [on_fst (null_check []),
      on_fst CommonComplete]
     (sysContext, ())"

definition Tss2_Sys_SetCommandCodeAuditStatus where
  "Tss2_Sys_SetCommandCodeAuditStatus sysContext auth cmdAuthsArray auditAlg setList clearList rspAuthsArray = steps
     [ret (null_rc [Option.is_none setList, Option.is_none clearList]),
      on_fst (\<lambda>ctx. Tss2_Sys_SetCommandCodeAuditStatus_Prepare ctx auth auditAlg setList clearList),
      on_rsp (CommonOneCall cmdAuthsArray),
      skip_out (\<lambda>(ctx, _). Tss2_Sys_SetCommandCodeAuditStatus_Complete ctx)]
     (sysContext, rspAuthsArray, ())"

lemma SetCommandCodeAuditStatus_handles [simp]:
  "GetNumCommandHandles TPM2_CC_SetCommandCodeAuditStatus = 1" "GetNumResponseHandles TPM2_CC_SetCommandCodeAuditStatus = 0"
  using GetNumHandles_entry [of TPM2_CC_SetCommandCodeAuditStatus 1 0] by (simp_all add: commandArray_def)

interpretation prepare_SetCommandCodeAuditStatus: sys_prepare "\<lambda>ctx. Tss2_Sys_SetCommandCodeAuditStatus_Prepare ctx auth auditAlg setList clearList" TPM2_CC_SetCommandCodeAuditStatus "True \<in> set [Option.is_none setList, Option.is_none clearList]"
  "opt_valid (src_TPML 256 (\<lambda>_. True)) setList \<and> opt_valid (src_TPML 256 (\<lambda>_. True)) clearList"
  "ptr_valid (valid_TPML 256 (\<lambda>_. True)) setList \<and> ptr_valid (valid_TPML 256 (\<lambda>_. True)) clearList"
  "be_bytes auth"
  "be_bytes auditAlg @ ptr_wire (wire_TPML be_bytes) setList @ ptr_wire (wire_TPML be_bytes) clearList" "False" False False True
  for auth auditAlg setList clearList
  by (rule sys_prepareI [OF emits_Cons [OF emits_put [OF mu_UINT32.marshaler_axioms, of auth]
    emits_Cons [OF emits_put [OF mu_UINT16.marshaler_axioms, of auditAlg]
    emits_Cons [OF emits_ptr [OF mu_TPML_CC.marshaler_axioms null_TPML_CC, of setList]
    emits_Cons [OF emits_ptr [OF mu_TPML_CC.marshaler_axioms null_TPML_CC, of clearList]
    emits_skip]]]]])
    (simp_all add: Tss2_Sys_SetCommandCodeAuditStatus_Prepare_def weak_defs prepare_simps del: steps.simps)

interpretation complete_SetCommandCodeAuditStatus: sys_complete "\<lambda>(ctx, _). Tss2_Sys_SetCommandCodeAuditStatus_Complete ctx" TPM2_CC_SetCommandCodeAuditStatus
  "\<lambda>(_). True"
  "\<lambda>(_). True"
  "\<lambda>(_). []"
  "\<lambda>(_). []"
  by (rule sys_completeI [OF sys_complete_plain [OF reads_Nil]])
    (simp_all add: Tss2_Sys_SetCommandCodeAuditStatus_Complete_def split_paired_all del: steps.simps)

interpretation cmd_SetCommandCodeAuditStatus: sys_command "\<lambda>ctx. Tss2_Sys_SetCommandCodeAuditStatus_Prepare ctx auth auditAlg setList clearList"
  "\<lambda>(ctx, _). Tss2_Sys_SetCommandCodeAuditStatus_Complete ctx" TPM2_CC_SetCommandCodeAuditStatus "True \<in> set [Option.is_none setList, Option.is_none clearList]"
  "opt_valid (src_TPML 256 (\<lambda>_. True)) setList \<and> opt_valid (src_TPML 256 (\<lambda>_. True)) clearList"
  "ptr_valid (valid_TPML 256 (\<lambda>_. True)) setList \<and> ptr_valid (valid_TPML 256 (\<lambda>_. True)) clearList"
  "be_bytes auth"
  "be_bytes auditAlg @ ptr_wire (wire_TPML be_bytes) setList @ ptr_wire (wire_TPML be_bytes) clearList" "False" False False True
  "\<lambda>(_). True"
  "\<lambda>(_). True"
  "\<lambda>(_). []"
  "\<lambda>(_). []"
  "\<lambda>(ctx, rsp, _). Tss2_Sys_SetCommandCodeAuditStatus ctx auth cmdAuthsArray auditAlg setList clearList rsp" cmdAuthsArray
  for auth auditAlg setList clearList cmdAuthsArray
  by (rule sys_command.intro [OF prepare_SetCommandCodeAuditStatus.sys_prepare_axioms complete_SetCommandCodeAuditStatus.sys_complete_axioms sys_command_axioms.intro])
    (auto simp: Tss2_Sys_SetCommandCodeAuditStatus_def one_call_def one_call_simps null_rc_def dest!: ptr_valid_some simp del: steps.simps)

subsection \<open>SetPrimaryPolicy\<close>

definition Tss2_Sys_SetPrimaryPolicy_Prepare where
  "Tss2_Sys_SetPrimaryPolicy_Prepare sysContext authHandle authPolicy hashAlg = steps
     [null_check [],
      ret (if IsAlgorithmWeak hashAlg 0 \<noteq> 0 then TSS2_SYS_RC_BAD_VALUE else TSS2_RC_SUCCESS),
      CommonPreparePrologue TPM2_CC_SetPrimaryPolicy,
      put (Tss2_MU_UINT32_Marshal authHandle),
      if Option.is_none authPolicy
        then steps [assign (ctx_decryptNull_update (\<lambda>_. True)), put (Tss2_MU_UINT16_Marshal 0)]
        else put (Tss2_MU_TPM2B_DIGEST_Marshal authPolicy),
      put (Tss2_MU_UINT16_Marshal hashAlg),
      assign (flags True False True),
      CommonPrepareEpilogue]
     sysContext"

definition Tss2_Sys_SetPrimaryPolicy_Complete where
  "Tss2_Sys_SetPrimaryPolicy_Complete sysContext = steps
     [on_fst (null_check []),
      on_fst CommonComplete]
     (sysContext, ())"

definition Tss2_Sys_SetPrimaryPolicy where
  "Tss2_Sys_SetPrimaryPolicy sysContext authHandle cmdAuthsArray authPolicy hashAlg rspAuthsArray = steps
     [on_fst (\<lambda>ctx. Tss2_Sys_SetPrimaryPolicy_Prepare ctx authHandle authPolicy hashAlg),
      on_rsp (CommonOneCall cmdAuthsArray),
      skip_out (\<lambda>(ctx, _). Tss2_Sys_SetPrimaryPolicy_Complete ctx)]
     (sysContext, rspAuthsArray, ())"

lemma SetPrimaryPolicy_handles [simp]:
  "GetNumCommandHandles TPM2_CC_SetPrimaryPolicy = 1" "GetNumResponseHandles TPM2_CC_SetPrimaryPolicy = 0"
  using GetNumHandles_entry [of TPM2_CC_SetPrimaryPolicy 1 0] by (simp_all add: commandArray_def)

interpretation prepare_SetPrimaryPolicy: sys_prepare "\<lambda>ctx. Tss2_Sys_SetPrimaryPolicy_Prepare ctx authHandle authPolicy hashAlg" TPM2_CC_SetPrimaryPolicy "True \<in> set []"
  "opt_valid (src_TPM2B 66 64) authPolicy"
  "opt_valid (valid_TPM2B 64) authPolicy"
  "be_bytes authHandle"
  "opt_wire wire_TPM2B authPolicy @ be_bytes hashAlg" "Option.is_none authPolicy" True False True
  for authHandle authPolicy hashAlg
  by (rule sys_prepareI [OF emits_Cons [OF emits_put [OF mu_UINT32.marshaler_axioms, of authHandle]
    emits_Cons [OF emits_opt_null [OF mu_TPM2B_DIGEST.marshaler_axioms, of authPolicy]
    emits_Cons [OF emits_put [OF mu_UINT16.marshaler_axioms, of hashAlg]
    emits_skip]]]])
    (simp_all add: Tss2_Sys_SetPrimaryPolicy_Prepare_def weak_defs prepare_simps del: steps.simps)

interpretation complete_SetPrimaryPolicy: sys_complete "\<lambda>(ctx, _). Tss2_Sys_SetPrimaryPolicy_Complete ctx" TPM2_CC_SetPrimaryPolicy
  "\<lambda>(_). True"
  "\<lambda>(_). True"
  "\<lambda>(_). []"
  "\<lambda>(_). []"
  by (rule sys_completeI [OF sys_complete_plain [OF reads_Nil]])
    (simp_all add: Tss2_Sys_SetPrimaryPolicy_Complete_def split_paired_all del: steps.simps)

interpretation cmd_SetPrimaryPolicy: sys_command "\<lambda>ctx. Tss2_Sys_SetPrimaryPolicy_Prepare ctx authHandle authPolicy hashAlg"
  "\<lambda>(ctx, _). Tss2_Sys_SetPrimaryPolicy_Complete ctx" TPM2_CC_SetPrimaryPolicy "True \<in> set []"
  "opt_valid (src_TPM2B 66 64) authPolicy"
  "opt_valid (valid_TPM2B 64) authPolicy"
  "be_bytes authHandle"
  "opt_wire wire_TPM2B authPolicy @ be_bytes hashAlg" "Option.is_none authPolicy" True False True
  "\<lambda>(_). True"
  "\<lambda>(_). True"
  "\<lambda>(_). []"
  "\<lambda>(_). []"
  "\<lambda>(ctx, rsp, _). Tss2_Sys_SetPrimaryPolicy ctx authHandle cmdAuthsArray authPolicy hashAlg rsp" cmdAuthsArray
  for authHandle authPolicy hashAlg cmdAuthsArray
  by (rule sys_command.intro [OF prepare_SetPrimaryPolicy.sys_prepare_axioms complete_SetPrimaryPolicy.sys_complete_axioms sys_command_axioms.intro])
    (auto simp: Tss2_Sys_SetPrimaryPolicy_def one_call_def one_call_simps null_rc_def dest!: ptr_valid_some simp del: steps.simps)

subsection \<open>Shutdown\<close>

definition Tss2_Sys_Shutdown_Prepare where
  "Tss2_Sys_Shutdown_Prepare sysContext shutdownType = steps
     [null_check [],
      CommonPreparePrologue TPM2_CC_Shutdown,
      put (Tss2_MU_UINT16_Marshal shutdownType),
      assign (flags False False True),
      CommonPrepareEpilogue]
     sysContext"

definition Tss2_Sys_Shutdown_Complete where
  "Tss2_Sys_Shutdown_Complete sysContext = steps
     [on_fst (null_check []),
      on_fst CommonComplete]
     (sysContext, ())"

definition Tss2_Sys_Shutdown where
  "Tss2_Sys_Shutdown sysContext cmdAuthsArray shutdownType rspAuthsArray = steps
     [on_fst (\<lambda>ctx. Tss2_Sys_Shutdown_Prepare ctx shutdownType),
      on_rsp (CommonOneCall cmdAuthsArray),
      skip_out (\<lambda>(ctx, _). Tss2_Sys_Shutdown_Complete ctx)]
     (sysContext, rspAuthsArray, ())"

lemma Shutdown_handles [simp]:
  "GetNumCommandHandles TPM2_CC_Shutdown = 0" "GetNumResponseHandles TPM2_CC_Shutdown = 0"
  using GetNumHandles_entry [of TPM2_CC_Shutdown 0 0] by (simp_all add: commandArray_def)

interpretation prepare_Shutdown: sys_prepare "\<lambda>ctx. Tss2_Sys_Shutdown_Prepare ctx shutdownType" TPM2_CC_Shutdown "True \<in> set []"
  "True"
  "True"
  "[]"
  "be_bytes shutdownType" "False" False False True
  for shutdownType
  by (rule sys_prepareI [OF emits_Cons [OF emits_put [OF mu_UINT16.marshaler_axioms, of shutdownType]
    emits_skip]])
    (simp_all add: Tss2_Sys_Shutdown_Prepare_def weak_defs prepare_simps del: steps.simps)

interpretation complete_Shutdown: sys_complete "\<lambda>(ctx, _). Tss2_Sys_Shutdown_Complete ctx" TPM2_CC_Shutdown
  "\<lambda>(_). True"
  "\<lambda>(_). True"
  "\<lambda>(_). []"
  "\<lambda>(_). []"
  by (rule sys_completeI [OF sys_complete_plain [OF reads_Nil]])
    (simp_all add: Tss2_Sys_Shutdown_Complete_def split_paired_all del: steps.simps)

interpretation cmd_Shutdown: sys_command "\<lambda>ctx. Tss2_Sys_Shutdown_Prepare ctx shutdownType"
  "\<lambda>(ctx, _). Tss2_Sys_Shutdown_Complete ctx" TPM2_CC_Shutdown "True \<in> set []"
  "True"
  "True"
  "[]"
  "be_bytes shutdownType" "False" False False True
  "\<lambda>(_). True"
  "\<lambda>(_). True"
  "\<lambda>(_). []"
  "\<lambda>(_). []"
  "\<lambda>(ctx, rsp, _). Tss2_Sys_Shutdown ctx cmdAuthsArray shutdownType rsp" cmdAuthsArray
  for shutdownType cmdAuthsArray
  by (rule sys_command.intro [OF prepare_Shutdown.sys_prepare_axioms complete_Shutdown.sys_complete_axioms sys_command_axioms.intro])
    (auto simp: Tss2_Sys_Shutdown_def one_call_def one_call_simps null_rc_def dest!: ptr_valid_some simp del: steps.simps)

subsection \<open>Sign\<close>

definition Tss2_Sys_Sign_Prepare where
  "Tss2_Sys_Sign_Prepare sysContext keyHandle digest inScheme validation = steps
     [null_check [Option.is_none inScheme, Option.is_none validation],
      CommonPreparePrologue TPM2_CC_Sign,
      put (Tss2_MU_UINT32_Marshal keyHandle),
      if Option.is_none digest
        then steps [assign (ctx_decryptNull_update (\<lambda>_. True)), put (Tss2_MU_UINT16_Marshal 0)]
        else put (Tss2_MU_TPM2B_DIGEST_Marshal digest),
      put (Tss2_MU_TPMT_SIG_SCHEME_Marshal inScheme),
      put (Tss2_MU_TPMT_TK_HASHCHECK_Marshal validation),
      assign (flags True False True),
      CommonPrepareEpilogue]
     sysContext"

definition Tss2_Sys_Sign_Complete where
  "Tss2_Sys_Sign_Complete sysContext signature = steps
     [on_fst (null_check []),
      on_fst CommonComplete,
      get_out Tss2_MU_TPMT_SIGNATURE_Unmarshal]
     (sysContext, signature, ())"

definition Tss2_Sys_Sign where
  "Tss2_Sys_Sign sysContext keyHandle cmdAuthsArray digest inScheme validation signature rspAuthsArray = steps
     [ret (null_rc [Option.is_none inScheme, Option.is_none validation]),
      on_fst (\<lambda>ctx. Tss2_Sys_Sign_Prepare ctx keyHandle digest inScheme validation),
      on_rsp (CommonOneCall cmdAuthsArray),
      skip_out (\<lambda>(ctx, d1, _). Tss2_Sys_Sign_Complete ctx d1)]
     (sysContext, rspAuthsArray, signature, ())"

lemma Sign_handles [simp]:
  "GetNumCommandHandles TPM2_CC_Sign = 1" "GetNumResponseHandles TPM2_CC_Sign = 0"
  using GetNumHandles_entry [of TPM2_CC_Sign 1 0] by (simp_all add: commandArray_def)

interpretation prepare_Sign: sys_prepare "\<lambda>ctx. Tss2_Sys_Sign_Prepare ctx keyHandle digest inScheme validation" TPM2_CC_Sign "True \<in> set [Option.is_none inScheme, Option.is_none validation]"
  "opt_valid (src_TPM2B 66 64) digest \<and> opt_valid src_TPMT_SIG_SCHEME inScheme \<and> opt_valid src_TPMT_TK_HASHCHECK validation"
  "opt_valid (valid_TPM2B 64) digest \<and> ptr_valid valid_TPMT_SIG_SCHEME inScheme \<and> ptr_valid valid_TPMT_TK_HASHCHECK validation"
  "be_bytes keyHandle"
  "opt_wire wire_TPM2B digest @ ptr_wire wire_TPMT_SIG_SCHEME inScheme @ ptr_wire wire_TPMT_TK_HASHCHECK validation" "Option.is_none digest" True False True
  for keyHandle digest inScheme validation
  by (rule sys_prepareI [OF emits_Cons [OF emits_put [OF mu_UINT32.marshaler_axioms, of keyHandle]
    emits_Cons [OF emits_opt_null [OF mu_TPM2B_DIGEST.marshaler_axioms, of digest]
    emits_Cons [OF emits_ptr [OF mu_TPMT_SIG_SCHEME.marshaler_axioms null_TPMT_SIG_SCHEME, of inScheme]
    emits_Cons [OF emits_ptr [OF mu_TPMT_TK_HASHCHECK.marshaler_axioms null_TPMT_TK_HASHCHECK, of validation]
    emits_skip]]]]])
    (simp_all add: Tss2_Sys_Sign_Prepare_def weak_defs prepare_simps del: steps.simps)

interpretation complete_Sign: sys_complete "\<lambda>(ctx, d1, _). Tss2_Sys_Sign_Complete ctx d1" TPM2_CC_Sign
  "\<lambda>(d1, _). ptr_valid wt_TPMT_SIGNATURE d1"
  "\<lambda>(d1, _). ptr_valid valid_TPMT_SIGNATURE d1"
  "\<lambda>(_, _). []"
  "\<lambda>(d1, _). ptr_wire wire_TPMT_SIGNATURE d1"
  by (rule sys_completeI [OF sys_complete_plain [OF reads_Cons [OF mu_TPMT_SIGNATURE.unmarshaler_axioms
    reads_Nil]]])
    (simp_all add: Tss2_Sys_Sign_Complete_def split_paired_all del: steps.simps)

interpretation cmd_Sign: sys_command "\<lambda>ctx. Tss2_Sys_Sign_Prepare ctx keyHandle digest inScheme validation"
  "\<lambda>(ctx, d1, _). Tss2_Sys_Sign_Complete ctx d1" TPM2_CC_Sign "True \<in> set [Option.is_none inScheme, Option.is_none validation]"
  "opt_valid (src_TPM2B 66 64) digest \<and> opt_valid src_TPMT_SIG_SCHEME inScheme \<and> opt_valid src_TPMT_TK_HASHCHECK validation"
  "opt_valid (valid_TPM2B 64) digest \<and> ptr_valid valid_TPMT_SIG_SCHEME inScheme \<and> ptr_valid valid_TPMT_TK_HASHCHECK validation"
  "be_bytes keyHandle"
  "opt_wire wire_TPM2B digest @ ptr_wire wire_TPMT_SIG_SCHEME inScheme @ ptr_wire wire_TPMT_TK_HASHCHECK validation" "Option.is_none digest" True False True
  "\<lambda>(d1, _). ptr_valid wt_TPMT_SIGNATURE d1"
  "\<lambda>(d1, _). ptr_valid valid_TPMT_SIGNATURE d1"
  "\<lambda>(_, _). []"
  "\<lambda>(d1, _). ptr_wire wire_TPMT_SIGNATURE d1"
  "\<lambda>(ctx, rsp, d1, _). Tss2_Sys_Sign ctx keyHandle cmdAuthsArray digest inScheme validation d1 rsp" cmdAuthsArray
  for keyHandle digest inScheme validation cmdAuthsArray
  by (rule sys_command.intro [OF prepare_Sign.sys_prepare_axioms complete_Sign.sys_complete_axioms sys_command_axioms.intro])
    (auto simp: Tss2_Sys_Sign_def one_call_def one_call_simps null_rc_def dest!: ptr_valid_some simp del: steps.simps)

subsection \<open>SignDigest\<close>

definition Tss2_Sys_SignDigest_Prepare where
  "Tss2_Sys_SignDigest_Prepare sysContext keyHandle digest inScheme validation = steps
     [null_check [Option.is_none inScheme, Option.is_none validation],
      CommonPreparePrologue TPM2_CC_SignDigest,
      put (Tss2_MU_UINT32_Marshal keyHandle),
      if Option.is_none digest
        then steps [assign (ctx_decryptNull_update (\<lambda>_. True)), put (Tss2_MU_UINT16_Marshal 0)]
        else put (Tss2_MU_TPM2B_DIGEST_Marshal digest),
      put (Tss2_MU_TPMT_SIG_SCHEME_Marshal inScheme),
      put (Tss2_MU_TPMT_TK_HASHCHECK_Marshal validation),
      assign (flags True False True),
      CommonPrepareEpilogue]
     sysContext"

definition Tss2_Sys_SignDigest_Complete where
  "Tss2_Sys_SignDigest_Complete sysContext signature = steps
     [on_fst (null_check []),
      on_fst CommonComplete,
      get_out Tss2_MU_TPMT_SIGNATURE_Unmarshal]
     (sysContext, signature, ())"

definition Tss2_Sys_SignDigest where
  "Tss2_Sys_SignDigest sysContext keyHandle cmdAuthsArray digest inScheme validation signature rspAuthsArray = steps
     [ret (null_rc [Option.is_none inScheme, Option.is_none validation]),
      on_fst (\<lambda>ctx. Tss2_Sys_SignDigest_Prepare ctx keyHandle digest inScheme validation),
      on_rsp (CommonOneCall cmdAuthsArray),
      skip_out (\<lambda>(ctx, d1, _). Tss2_Sys_SignDigest_Complete ctx d1)]
     (sysContext, rspAuthsArray, signature, ())"

lemma SignDigest_handles [simp]:
  "GetNumCommandHandles TPM2_CC_SignDigest = 1" "GetNumResponseHandles TPM2_CC_SignDigest = 0"
  using GetNumHandles_entry [of TPM2_CC_SignDigest 1 0] by (simp_all add: commandArray_def)

interpretation prepare_SignDigest: sys_prepare "\<lambda>ctx. Tss2_Sys_SignDigest_Prepare ctx keyHandle digest inScheme validation" TPM2_CC_SignDigest "True \<in> set [Option.is_none inScheme, Option.is_none validation]"
  "opt_valid (src_TPM2B 66 64) digest \<and> opt_valid src_TPMT_SIG_SCHEME inScheme \<and> opt_valid src_TPMT_TK_HASHCHECK validation"
  "opt_valid (valid_TPM2B 64) digest \<and> ptr_valid valid_TPMT_SIG_SCHEME inScheme \<and> ptr_valid valid_TPMT_TK_HASHCHECK validation"
  "be_bytes keyHandle"
  "opt_wire wire_TPM2B digest @ ptr_wire wire_TPMT_SIG_SCHEME inScheme @ ptr_wire wire_TPMT_TK_HASHCHECK validation" "Option.is_none digest" True False True
  for keyHandle digest inScheme validation
  by (rule sys_prepareI [OF emits_Cons [OF emits_put [OF mu_UINT32.marshaler_axioms, of keyHandle]
    emits_Cons [OF emits_opt_null [OF mu_TPM2B_DIGEST.marshaler_axioms, of digest]
    emits_Cons [OF emits_ptr [OF mu_TPMT_SIG_SCHEME.marshaler_axioms null_TPMT_SIG_SCHEME, of inScheme]
    emits_Cons [OF emits_ptr [OF mu_TPMT_TK_HASHCHECK.marshaler_axioms null_TPMT_TK_HASHCHECK, of validation]
    emits_skip]]]]])
    (simp_all add: Tss2_Sys_SignDigest_Prepare_def weak_defs prepare_simps del: steps.simps)

interpretation complete_SignDigest: sys_complete "\<lambda>(ctx, d1, _). Tss2_Sys_SignDigest_Complete ctx d1" TPM2_CC_SignDigest
  "\<lambda>(d1, _). ptr_valid wt_TPMT_SIGNATURE d1"
  "\<lambda>(d1, _). ptr_valid valid_TPMT_SIGNATURE d1"
  "\<lambda>(_, _). []"
  "\<lambda>(d1, _). ptr_wire wire_TPMT_SIGNATURE d1"
  by (rule sys_completeI [OF sys_complete_plain [OF reads_Cons [OF mu_TPMT_SIGNATURE.unmarshaler_axioms
    reads_Nil]]])
    (simp_all add: Tss2_Sys_SignDigest_Complete_def split_paired_all del: steps.simps)

interpretation cmd_SignDigest: sys_command "\<lambda>ctx. Tss2_Sys_SignDigest_Prepare ctx keyHandle digest inScheme validation"
  "\<lambda>(ctx, d1, _). Tss2_Sys_SignDigest_Complete ctx d1" TPM2_CC_SignDigest "True \<in> set [Option.is_none inScheme, Option.is_none validation]"
  "opt_valid (src_TPM2B 66 64) digest \<and> opt_valid src_TPMT_SIG_SCHEME inScheme \<and> opt_valid src_TPMT_TK_HASHCHECK validation"
  "opt_valid (valid_TPM2B 64) digest \<and> ptr_valid valid_TPMT_SIG_SCHEME inScheme \<and> ptr_valid valid_TPMT_TK_HASHCHECK validation"
  "be_bytes keyHandle"
  "opt_wire wire_TPM2B digest @ ptr_wire wire_TPMT_SIG_SCHEME inScheme @ ptr_wire wire_TPMT_TK_HASHCHECK validation" "Option.is_none digest" True False True
  "\<lambda>(d1, _). ptr_valid wt_TPMT_SIGNATURE d1"
  "\<lambda>(d1, _). ptr_valid valid_TPMT_SIGNATURE d1"
  "\<lambda>(_, _). []"
  "\<lambda>(d1, _). ptr_wire wire_TPMT_SIGNATURE d1"
  "\<lambda>(ctx, rsp, d1, _). Tss2_Sys_SignDigest ctx keyHandle cmdAuthsArray digest inScheme validation d1 rsp" cmdAuthsArray
  for keyHandle digest inScheme validation cmdAuthsArray
  by (rule sys_command.intro [OF prepare_SignDigest.sys_prepare_axioms complete_SignDigest.sys_complete_axioms sys_command_axioms.intro])
    (auto simp: Tss2_Sys_SignDigest_def one_call_def one_call_simps null_rc_def dest!: ptr_valid_some simp del: steps.simps)

subsection \<open>SignSequenceComplete\<close>

definition Tss2_Sys_SignSequenceComplete_Prepare where
  "Tss2_Sys_SignSequenceComplete_Prepare sysContext sequenceHandle buffer = steps
     [null_check [],
      CommonPreparePrologue TPM2_CC_SignSequenceComplete,
      put (Tss2_MU_UINT32_Marshal sequenceHandle),
      if Option.is_none buffer
        then steps [assign (ctx_decryptNull_update (\<lambda>_. True)), put (Tss2_MU_UINT16_Marshal 0)]
        else put (Tss2_MU_TPM2B_MAX_BUFFER_Marshal buffer),
      assign (flags True False True),
      CommonPrepareEpilogue]
     sysContext"

definition Tss2_Sys_SignSequenceComplete_Complete where
  "Tss2_Sys_SignSequenceComplete_Complete sysContext signature = steps
     [on_fst (null_check []),
      on_fst CommonComplete,
      get_out Tss2_MU_TPMT_SIGNATURE_Unmarshal]
     (sysContext, signature, ())"

definition Tss2_Sys_SignSequenceComplete where
  "Tss2_Sys_SignSequenceComplete sysContext sequenceHandle cmdAuthsArray buffer signature rspAuthsArray = steps
     [on_fst (\<lambda>ctx. Tss2_Sys_SignSequenceComplete_Prepare ctx sequenceHandle buffer),
      on_rsp (CommonOneCall cmdAuthsArray),
      skip_out (\<lambda>(ctx, d1, _). Tss2_Sys_SignSequenceComplete_Complete ctx d1)]
     (sysContext, rspAuthsArray, signature, ())"

lemma SignSequenceComplete_handles [simp]:
  "GetNumCommandHandles TPM2_CC_SignSequenceComplete = 1" "GetNumResponseHandles TPM2_CC_SignSequenceComplete = 0"
  using GetNumHandles_entry [of TPM2_CC_SignSequenceComplete 1 0] by (simp_all add: commandArray_def)

interpretation prepare_SignSequenceComplete: sys_prepare "\<lambda>ctx. Tss2_Sys_SignSequenceComplete_Prepare ctx sequenceHandle buffer" TPM2_CC_SignSequenceComplete "True \<in> set []"
  "opt_valid (src_TPM2B 1026 1024) buffer"
  "opt_valid (valid_TPM2B 1024) buffer"
  "be_bytes sequenceHandle"
  "opt_wire wire_TPM2B buffer" "Option.is_none buffer" True False True
  for sequenceHandle buffer
  by (rule sys_prepareI [OF emits_Cons [OF emits_put [OF mu_UINT32.marshaler_axioms, of sequenceHandle]
    emits_Cons [OF emits_opt_null [OF mu_TPM2B_MAX_BUFFER.marshaler_axioms, of buffer]
    emits_skip]]])
    (simp_all add: Tss2_Sys_SignSequenceComplete_Prepare_def weak_defs prepare_simps del: steps.simps)

interpretation complete_SignSequenceComplete: sys_complete "\<lambda>(ctx, d1, _). Tss2_Sys_SignSequenceComplete_Complete ctx d1" TPM2_CC_SignSequenceComplete
  "\<lambda>(d1, _). ptr_valid wt_TPMT_SIGNATURE d1"
  "\<lambda>(d1, _). ptr_valid valid_TPMT_SIGNATURE d1"
  "\<lambda>(_, _). []"
  "\<lambda>(d1, _). ptr_wire wire_TPMT_SIGNATURE d1"
  by (rule sys_completeI [OF sys_complete_plain [OF reads_Cons [OF mu_TPMT_SIGNATURE.unmarshaler_axioms
    reads_Nil]]])
    (simp_all add: Tss2_Sys_SignSequenceComplete_Complete_def split_paired_all del: steps.simps)

interpretation cmd_SignSequenceComplete: sys_command "\<lambda>ctx. Tss2_Sys_SignSequenceComplete_Prepare ctx sequenceHandle buffer"
  "\<lambda>(ctx, d1, _). Tss2_Sys_SignSequenceComplete_Complete ctx d1" TPM2_CC_SignSequenceComplete "True \<in> set []"
  "opt_valid (src_TPM2B 1026 1024) buffer"
  "opt_valid (valid_TPM2B 1024) buffer"
  "be_bytes sequenceHandle"
  "opt_wire wire_TPM2B buffer" "Option.is_none buffer" True False True
  "\<lambda>(d1, _). ptr_valid wt_TPMT_SIGNATURE d1"
  "\<lambda>(d1, _). ptr_valid valid_TPMT_SIGNATURE d1"
  "\<lambda>(_, _). []"
  "\<lambda>(d1, _). ptr_wire wire_TPMT_SIGNATURE d1"
  "\<lambda>(ctx, rsp, d1, _). Tss2_Sys_SignSequenceComplete ctx sequenceHandle cmdAuthsArray buffer d1 rsp" cmdAuthsArray
  for sequenceHandle buffer cmdAuthsArray
  by (rule sys_command.intro [OF prepare_SignSequenceComplete.sys_prepare_axioms complete_SignSequenceComplete.sys_complete_axioms sys_command_axioms.intro])
    (auto simp: Tss2_Sys_SignSequenceComplete_def one_call_def one_call_simps null_rc_def dest!: ptr_valid_some simp del: steps.simps)

subsection \<open>SignSequenceStart\<close>

definition Tss2_Sys_SignSequenceStart_Prepare where
  "Tss2_Sys_SignSequenceStart_Prepare sysContext keyHandle inScheme keyB = steps
     [null_check [Option.is_none inScheme],
      CommonPreparePrologue TPM2_CC_SignSequenceStart,
      put (Tss2_MU_UINT32_Marshal keyHandle),
      put (Tss2_MU_TPMT_SIG_SCHEME_Marshal inScheme),
      put (Tss2_MU_UINT32_Marshal keyB),
      assign (flags False False True),
      CommonPrepareEpilogue]
     sysContext"

definition Tss2_Sys_SignSequenceStart_Complete where
  "Tss2_Sys_SignSequenceStart_Complete sysContext sequenceHandle = steps
     [on_fst (null_check []),
      on_fst CommonComplete,
      get_out Tss2_MU_UINT32_Unmarshal]
     (sysContext, sequenceHandle, ())"

definition Tss2_Sys_SignSequenceStart where
  "Tss2_Sys_SignSequenceStart sysContext keyHandle cmdAuthsArray inScheme keyB sequenceHandle rspAuthsArray = steps
     [on_fst (\<lambda>ctx. Tss2_Sys_SignSequenceStart_Prepare ctx keyHandle inScheme keyB),
      on_rsp (CommonOneCall cmdAuthsArray),
      skip_out (\<lambda>(ctx, d1, _). Tss2_Sys_SignSequenceStart_Complete ctx d1)]
     (sysContext, rspAuthsArray, sequenceHandle, ())"

lemma SignSequenceStart_handles [simp]:
  "GetNumCommandHandles TPM2_CC_SignSequenceStart = 1" "GetNumResponseHandles TPM2_CC_SignSequenceStart = 1"
  using GetNumHandles_entry [of TPM2_CC_SignSequenceStart 1 1] by (simp_all add: commandArray_def)

interpretation prepare_SignSequenceStart: sys_prepare "\<lambda>ctx. Tss2_Sys_SignSequenceStart_Prepare ctx keyHandle inScheme keyB" TPM2_CC_SignSequenceStart "True \<in> set [Option.is_none inScheme]"
  "opt_valid src_TPMT_SIG_SCHEME inScheme"
  "ptr_valid valid_TPMT_SIG_SCHEME inScheme"
  "be_bytes keyHandle"
  "ptr_wire wire_TPMT_SIG_SCHEME inScheme @ be_bytes keyB" "False" False False True
  for keyHandle inScheme keyB
  by (rule sys_prepareI [OF emits_Cons [OF emits_put [OF mu_UINT32.marshaler_axioms, of keyHandle]
    emits_Cons [OF emits_ptr [OF mu_TPMT_SIG_SCHEME.marshaler_axioms null_TPMT_SIG_SCHEME, of inScheme]
    emits_Cons [OF emits_put [OF mu_UINT32.marshaler_axioms, of keyB]
    emits_skip]]]])
    (simp_all add: Tss2_Sys_SignSequenceStart_Prepare_def weak_defs prepare_simps del: steps.simps)

subsection \<open>StartAuthSession\<close>

definition Tss2_Sys_StartAuthSession_Prepare where
  "Tss2_Sys_StartAuthSession_Prepare sysContext tpmKey bind nonceCaller encryptedSalt sessionType symmetric authHash = steps
     [null_check [Option.is_none symmetric],
      ret (if IsAlgorithmWeak authHash 0 \<noteq> 0 then TSS2_SYS_RC_BAD_VALUE else TSS2_RC_SUCCESS),
      CommonPreparePrologue TPM2_CC_StartAuthSession,
      put (Tss2_MU_UINT32_Marshal tpmKey),
      put (Tss2_MU_UINT32_Marshal bind),
      if Option.is_none nonceCaller
        then steps [assign (ctx_decryptNull_update (\<lambda>_. True)), put (Tss2_MU_UINT16_Marshal 0)]
        else put (Tss2_MU_TPM2B_NONCE_Marshal nonceCaller),
      if Option.is_none encryptedSalt
        then put (Tss2_MU_UINT16_Marshal 0)
        else put (Tss2_MU_TPM2B_ENCRYPTED_SECRET_Marshal encryptedSalt),
      put (Tss2_MU_UINT8_Marshal sessionType),
      put (Tss2_MU_TPMT_SYM_DEF_Marshal symmetric),
      put (Tss2_MU_UINT16_Marshal authHash),
      assign (flags True True True),
      CommonPrepareEpilogue]
     sysContext"

definition Tss2_Sys_StartAuthSession_Complete where
  "Tss2_Sys_StartAuthSession_Complete sysContext sessionHandle nonceTPM = steps
     [on_fst (null_check []),
      get_out Tss2_MU_UINT32_Unmarshal,
      on_fst CommonComplete,
      skip_out (get_out Tss2_MU_TPM2B_NONCE_Unmarshal)]
     (sysContext, sessionHandle, nonceTPM, ())"

definition Tss2_Sys_StartAuthSession where
  "Tss2_Sys_StartAuthSession sysContext tpmKey bind cmdAuthsArray nonceCaller encryptedSalt sessionType symmetric authHash sessionHandle nonceTPM rspAuthsArray = steps
     [ret (null_rc [Option.is_none symmetric]),
      on_fst (\<lambda>ctx. Tss2_Sys_StartAuthSession_Prepare ctx tpmKey bind nonceCaller encryptedSalt sessionType symmetric authHash),
      on_rsp (CommonOneCall cmdAuthsArray),
      skip_out (\<lambda>(ctx, d1, d2, _). Tss2_Sys_StartAuthSession_Complete ctx d1 d2)]
     (sysContext, rspAuthsArray, sessionHandle, nonceTPM, ())"

lemma StartAuthSession_handles [simp]:
  "GetNumCommandHandles TPM2_CC_StartAuthSession = 2" "GetNumResponseHandles TPM2_CC_StartAuthSession = 1"
  using GetNumHandles_entry [of TPM2_CC_StartAuthSession 2 1] by (simp_all add: commandArray_def)

interpretation prepare_StartAuthSession: sys_prepare "\<lambda>ctx. Tss2_Sys_StartAuthSession_Prepare ctx tpmKey bind nonceCaller encryptedSalt sessionType symmetric authHash" TPM2_CC_StartAuthSession "True \<in> set [Option.is_none symmetric]"
  "opt_valid (src_TPM2B 66 64) nonceCaller \<and> opt_valid (src_TPM2B 1570 1568) encryptedSalt \<and> opt_valid src_TPMT_SYM_DEF symmetric"
  "opt_valid (valid_TPM2B 64) nonceCaller \<and> opt_valid (valid_TPM2B 1568) encryptedSalt \<and> ptr_valid valid_TPMT_SYM_DEF symmetric"
  "be_bytes tpmKey @ be_bytes bind"
  "opt_wire wire_TPM2B nonceCaller @ opt_wire wire_TPM2B encryptedSalt @ be_bytes sessionType @ ptr_wire wire_TPMT_SYM_DEF symmetric @ be_bytes authHash" "Option.is_none nonceCaller" True True True
  for tpmKey bind nonceCaller encryptedSalt sessionType symmetric authHash
  by (rule sys_prepareI [OF emits_Cons [OF emits_put [OF mu_UINT32.marshaler_axioms, of tpmKey]
    emits_Cons [OF emits_put [OF mu_UINT32.marshaler_axioms, of bind]
    emits_Cons [OF emits_opt_null [OF mu_TPM2B_NONCE.marshaler_axioms, of nonceCaller]
    emits_Cons [OF emits_opt [OF mu_TPM2B_ENCRYPTED_SECRET.marshaler_axioms, of encryptedSalt]
    emits_Cons [OF emits_put [OF mu_UINT8.marshaler_axioms, of sessionType]
    emits_Cons [OF emits_ptr [OF mu_TPMT_SYM_DEF.marshaler_axioms null_TPMT_SYM_DEF, of symmetric]
    emits_Cons [OF emits_put [OF mu_UINT16.marshaler_axioms, of authHash]
    emits_skip]]]]]]]])
    (simp_all add: Tss2_Sys_StartAuthSession_Prepare_def weak_defs prepare_simps del: steps.simps)

interpretation complete_StartAuthSession: sys_complete "\<lambda>(ctx, d1, d2, _). Tss2_Sys_StartAuthSession_Complete ctx d1 d2" TPM2_CC_StartAuthSession
  "\<lambda>(d1, d2, _). ptr_valid (\<lambda>_. True) d1 \<and> ptr_valid (wt_TPM2B 64) d2"
  "\<lambda>(d1, d2, _). ptr_valid (\<lambda>_. True) d1 \<and> ptr_valid (valid_TPM2B 64) d2"
  "\<lambda>(d1, _, _). ptr_wire be_bytes d1"
  "\<lambda>(_, d2, _). ptr_wire wire_TPM2B d2"
  by (rule sys_completeI [OF sys_complete_handle [OF reads_Cons [OF mu_TPM2B_NONCE.unmarshaler_axioms
    reads_Nil]]])
    (simp_all add: Tss2_Sys_StartAuthSession_Complete_def split_paired_all del: steps.simps)

interpretation cmd_StartAuthSession: sys_command "\<lambda>ctx. Tss2_Sys_StartAuthSession_Prepare ctx tpmKey bind nonceCaller encryptedSalt sessionType symmetric authHash"
  "\<lambda>(ctx, d1, d2, _). Tss2_Sys_StartAuthSession_Complete ctx d1 d2" TPM2_CC_StartAuthSession "True \<in> set [Option.is_none symmetric]"
  "opt_valid (src_TPM2B 66 64) nonceCaller \<and> opt_valid (src_TPM2B 1570 1568) encryptedSalt \<and> opt_valid src_TPMT_SYM_DEF symmetric"
  "opt_valid (valid_TPM2B 64) nonceCaller \<and> opt_valid (valid_TPM2B 1568) encryptedSalt \<and> ptr_valid valid_TPMT_SYM_DEF symmetric"
  "be_bytes tpmKey @ be_bytes bind"
  "opt_wire wire_TPM2B nonceCaller @ opt_wire wire_TPM2B encryptedSalt @ be_bytes sessionType @ ptr_wire wire_TPMT_SYM_DEF symmetric @ be_bytes authHash" "Option.is_none nonceCaller" True True True
  "\<lambda>(d1, d2, _). ptr_valid (\<lambda>_. True) d1 \<and> ptr_valid (wt_TPM2B 64) d2"
  "\<lambda>(d1, d2, _). ptr_valid (\<lambda>_. True) d1 \<and> ptr_valid (valid_TPM2B 64) d2"
  "\<lambda>(d1, _, _). ptr_wire be_bytes d1"
  "\<lambda>(_, d2, _). ptr_wire wire_TPM2B d2"
  "\<lambda>(ctx, rsp, d1, d2, _). Tss2_Sys_StartAuthSession ctx tpmKey bind cmdAuthsArray nonceCaller encryptedSalt sessionType symmetric authHash d1 d2 rsp" cmdAuthsArray
  for tpmKey bind nonceCaller encryptedSalt sessionType symmetric authHash cmdAuthsArray
  by (rule sys_command.intro [OF prepare_StartAuthSession.sys_prepare_axioms complete_StartAuthSession.sys_complete_axioms sys_command_axioms.intro])
    (auto simp: Tss2_Sys_StartAuthSession_def one_call_def one_call_simps null_rc_def dest!: ptr_valid_some simp del: steps.simps)

subsection \<open>Startup\<close>

definition Tss2_Sys_Startup_Prepare where
  "Tss2_Sys_Startup_Prepare sysContext startupType = steps
     [null_check [],
      CommonPreparePrologue TPM2_CC_Startup,
      put (Tss2_MU_UINT16_Marshal startupType),
      assign (flags False False False),
      CommonPrepareEpilogue]
     sysContext"

definition Tss2_Sys_Startup_Complete where
  "Tss2_Sys_Startup_Complete sysContext = steps
     [on_fst (null_check []),
      on_fst CommonComplete]
     (sysContext, ())"

definition Tss2_Sys_Startup where
  "Tss2_Sys_Startup sysContext startupType = steps
     [on_fst (\<lambda>ctx. Tss2_Sys_Startup_Prepare ctx startupType),
      on_rsp (CommonOneCall None),
      skip_out (\<lambda>(ctx, _). Tss2_Sys_Startup_Complete ctx)]
     (sysContext, None, ())"

lemma Startup_handles [simp]:
  "GetNumCommandHandles TPM2_CC_Startup = 0" "GetNumResponseHandles TPM2_CC_Startup = 0"
  using GetNumHandles_entry [of TPM2_CC_Startup 0 0] by (simp_all add: commandArray_def)

interpretation prepare_Startup: sys_prepare "\<lambda>ctx. Tss2_Sys_Startup_Prepare ctx startupType" TPM2_CC_Startup "True \<in> set []"
  "True"
  "True"
  "[]"
  "be_bytes startupType" "False" False False False
  for startupType
  by (rule sys_prepareI [OF emits_Cons [OF emits_put [OF mu_UINT16.marshaler_axioms, of startupType]
    emits_skip]])
    (simp_all add: Tss2_Sys_Startup_Prepare_def weak_defs prepare_simps del: steps.simps)

interpretation complete_Startup: sys_complete "\<lambda>(ctx, _). Tss2_Sys_Startup_Complete ctx" TPM2_CC_Startup
  "\<lambda>(_). True"
  "\<lambda>(_). True"
  "\<lambda>(_). []"
  "\<lambda>(_). []"
  by (rule sys_completeI [OF sys_complete_plain [OF reads_Nil]])
    (simp_all add: Tss2_Sys_Startup_Complete_def split_paired_all del: steps.simps)

subsection \<open>StirRandom\<close>

definition Tss2_Sys_StirRandom_Prepare where
  "Tss2_Sys_StirRandom_Prepare sysContext inData = steps
     [null_check [],
      CommonPreparePrologue TPM2_CC_StirRandom,
      if Option.is_none inData
        then put (Tss2_MU_UINT16_Marshal 0)
        else put (Tss2_MU_TPM2B_SENSITIVE_DATA_Marshal inData),
      assign (flags True False True),
      CommonPrepareEpilogue]
     sysContext"

definition Tss2_Sys_StirRandom_Complete where
  "Tss2_Sys_StirRandom_Complete sysContext = steps
     [on_fst (null_check []),
      on_fst CommonComplete]
     (sysContext, ())"

definition Tss2_Sys_StirRandom where
  "Tss2_Sys_StirRandom sysContext cmdAuthsArray inData rspAuthsArray = steps
     [on_fst (\<lambda>ctx. Tss2_Sys_StirRandom_Prepare ctx inData),
      on_rsp (CommonOneCall cmdAuthsArray),
      skip_out (\<lambda>(ctx, _). Tss2_Sys_StirRandom_Complete ctx)]
     (sysContext, rspAuthsArray, ())"

lemma StirRandom_handles [simp]:
  "GetNumCommandHandles TPM2_CC_StirRandom = 0" "GetNumResponseHandles TPM2_CC_StirRandom = 0"
  using GetNumHandles_entry [of TPM2_CC_StirRandom 0 0] by (simp_all add: commandArray_def)

interpretation prepare_StirRandom: sys_prepare "\<lambda>ctx. Tss2_Sys_StirRandom_Prepare ctx inData" TPM2_CC_StirRandom "True \<in> set []"
  "opt_valid (src_TPM2B 258 256) inData"
  "opt_valid (valid_TPM2B 256) inData"
  "[]"
  "opt_wire wire_TPM2B inData" "False" True False True
  for inData
  by (rule sys_prepareI [OF emits_Cons [OF emits_opt [OF mu_TPM2B_SENSITIVE_DATA.marshaler_axioms, of inData]
    emits_skip]])
    (simp_all add: Tss2_Sys_StirRandom_Prepare_def weak_defs prepare_simps del: steps.simps)

interpretation complete_StirRandom: sys_complete "\<lambda>(ctx, _). Tss2_Sys_StirRandom_Complete ctx" TPM2_CC_StirRandom
  "\<lambda>(_). True"
  "\<lambda>(_). True"
  "\<lambda>(_). []"
  "\<lambda>(_). []"
  by (rule sys_completeI [OF sys_complete_plain [OF reads_Nil]])
    (simp_all add: Tss2_Sys_StirRandom_Complete_def split_paired_all del: steps.simps)

interpretation cmd_StirRandom: sys_command "\<lambda>ctx. Tss2_Sys_StirRandom_Prepare ctx inData"
  "\<lambda>(ctx, _). Tss2_Sys_StirRandom_Complete ctx" TPM2_CC_StirRandom "True \<in> set []"
  "opt_valid (src_TPM2B 258 256) inData"
  "opt_valid (valid_TPM2B 256) inData"
  "[]"
  "opt_wire wire_TPM2B inData" "False" True False True
  "\<lambda>(_). True"
  "\<lambda>(_). True"
  "\<lambda>(_). []"
  "\<lambda>(_). []"
  "\<lambda>(ctx, rsp, _). Tss2_Sys_StirRandom ctx cmdAuthsArray inData rsp" cmdAuthsArray
  for inData cmdAuthsArray
  by (rule sys_command.intro [OF prepare_StirRandom.sys_prepare_axioms complete_StirRandom.sys_complete_axioms sys_command_axioms.intro])
    (auto simp: Tss2_Sys_StirRandom_def one_call_def one_call_simps null_rc_def dest!: ptr_valid_some simp del: steps.simps)

subsection \<open>TestParms\<close>

definition Tss2_Sys_TestParms_Prepare where
  "Tss2_Sys_TestParms_Prepare sysContext parameters = steps
     [null_check [Option.is_none parameters],
      CommonPreparePrologue TPM2_CC_TestParms,
      put (Tss2_MU_TPMT_PUBLIC_PARMS_Marshal parameters),
      assign (flags False False True),
      CommonPrepareEpilogue]
     sysContext"

definition Tss2_Sys_TestParms_Complete where
  "Tss2_Sys_TestParms_Complete sysContext = steps
     [on_fst (null_check []),
      on_fst CommonComplete]
     (sysContext, ())"

definition Tss2_Sys_TestParms where
  "Tss2_Sys_TestParms sysContext cmdAuthsArray parameters rspAuthsArray = steps
     [ret (null_rc [Option.is_none parameters]),
      on_fst (\<lambda>ctx. Tss2_Sys_TestParms_Prepare ctx parameters),
      on_rsp (CommonOneCall cmdAuthsArray),
      skip_out (\<lambda>(ctx, _). Tss2_Sys_TestParms_Complete ctx)]
     (sysContext, rspAuthsArray, ())"

lemma TestParms_handles [simp]:
  "GetNumCommandHandles TPM2_CC_TestParms = 0" "GetNumResponseHandles TPM2_CC_TestParms = 0"
  using GetNumHandles_entry [of TPM2_CC_TestParms 0 0] by (simp_all add: commandArray_def)

interpretation prepare_TestParms: sys_prepare "\<lambda>ctx. Tss2_Sys_TestParms_Prepare ctx parameters" TPM2_CC_TestParms "True \<in> set [Option.is_none parameters]"
  "opt_valid src_TPMT_PUBLIC_PARMS parameters"
  "ptr_valid valid_TPMT_PUBLIC_PARMS parameters"
  "[]"
  "ptr_wire wire_TPMT_PUBLIC_PARMS parameters" "False" False False True
  for parameters
  by (rule sys_prepareI [OF emits_Cons [OF emits_ptr [OF mu_TPMT_PUBLIC_PARMS.marshaler_axioms null_TPMT_PUBLIC_PARMS, of parameters]
    emits_skip]])
    (simp_all add: Tss2_Sys_TestParms_Prepare_def weak_defs prepare_simps del: steps.simps)

interpretation complete_TestParms: sys_complete "\<lambda>(ctx, _). Tss2_Sys_TestParms_Complete ctx" TPM2_CC_TestParms
  "\<lambda>(_). True"
  "\<lambda>(_). True"
  "\<lambda>(_). []"
  "\<lambda>(_). []"
  by (rule sys_completeI [OF sys_complete_plain [OF reads_Nil]])
    (simp_all add: Tss2_Sys_TestParms_Complete_def split_paired_all del: steps.simps)

interpretation cmd_TestParms: sys_command "\<lambda>ctx. Tss2_Sys_TestParms_Prepare ctx parameters"
  "\<lambda>(ctx, _). Tss2_Sys_TestParms_Complete ctx" TPM2_CC_TestParms "True \<in> set [Option.is_none parameters]"
  "opt_valid src_TPMT_PUBLIC_PARMS parameters"
  "ptr_valid valid_TPMT_PUBLIC_PARMS parameters"
  "[]"
  "ptr_wire wire_TPMT_PUBLIC_PARMS parameters" "False" False False True
  "\<lambda>(_). True"
  "\<lambda>(_). True"
  "\<lambda>(_). []"
  "\<lambda>(_). []"
  "\<lambda>(ctx, rsp, _). Tss2_Sys_TestParms ctx cmdAuthsArray parameters rsp" cmdAuthsArray
  for parameters cmdAuthsArray
  by (rule sys_command.intro [OF prepare_TestParms.sys_prepare_axioms complete_TestParms.sys_complete_axioms sys_command_axioms.intro])
    (auto simp: Tss2_Sys_TestParms_def one_call_def one_call_simps null_rc_def dest!: ptr_valid_some simp del: steps.simps)

subsection \<open>Unseal\<close>

definition Tss2_Sys_Unseal_Prepare where
  "Tss2_Sys_Unseal_Prepare sysContext itemHandle = steps
     [null_check [],
      CommonPreparePrologue TPM2_CC_Unseal,
      put (Tss2_MU_UINT32_Marshal itemHandle),
      assign (flags False True True),
      CommonPrepareEpilogue]
     sysContext"

definition Tss2_Sys_Unseal_Complete where
  "Tss2_Sys_Unseal_Complete sysContext outData = steps
     [on_fst (null_check []),
      on_fst CommonComplete,
      get_out Tss2_MU_TPM2B_SENSITIVE_DATA_Unmarshal]
     (sysContext, outData, ())"

definition Tss2_Sys_Unseal where
  "Tss2_Sys_Unseal sysContext itemHandle cmdAuthsArray outData rspAuthsArray = steps
     [on_fst (\<lambda>ctx. Tss2_Sys_Unseal_Prepare ctx itemHandle),
      on_rsp (CommonOneCall cmdAuthsArray),
      skip_out (\<lambda>(ctx, d1, _). Tss2_Sys_Unseal_Complete ctx d1)]
     (sysContext, rspAuthsArray, outData, ())"

lemma Unseal_handles [simp]:
  "GetNumCommandHandles TPM2_CC_Unseal = 1" "GetNumResponseHandles TPM2_CC_Unseal = 0"
  using GetNumHandles_entry [of TPM2_CC_Unseal 1 0] by (simp_all add: commandArray_def)

interpretation prepare_Unseal: sys_prepare "\<lambda>ctx. Tss2_Sys_Unseal_Prepare ctx itemHandle" TPM2_CC_Unseal "True \<in> set []"
  "True"
  "True"
  "be_bytes itemHandle"
  "[]" "False" False True True
  for itemHandle
  by (rule sys_prepareI [OF emits_Cons [OF emits_put [OF mu_UINT32.marshaler_axioms, of itemHandle]
    emits_skip]])
    (simp_all add: Tss2_Sys_Unseal_Prepare_def weak_defs prepare_simps del: steps.simps)

interpretation complete_Unseal: sys_complete "\<lambda>(ctx, d1, _). Tss2_Sys_Unseal_Complete ctx d1" TPM2_CC_Unseal
  "\<lambda>(d1, _). ptr_valid (wt_TPM2B 256) d1"
  "\<lambda>(d1, _). ptr_valid (valid_TPM2B 256) d1"
  "\<lambda>(_, _). []"
  "\<lambda>(d1, _). ptr_wire wire_TPM2B d1"
  by (rule sys_completeI [OF sys_complete_plain [OF reads_Cons [OF mu_TPM2B_SENSITIVE_DATA.unmarshaler_axioms
    reads_Nil]]])
    (simp_all add: Tss2_Sys_Unseal_Complete_def split_paired_all del: steps.simps)

interpretation cmd_Unseal: sys_command "\<lambda>ctx. Tss2_Sys_Unseal_Prepare ctx itemHandle"
  "\<lambda>(ctx, d1, _). Tss2_Sys_Unseal_Complete ctx d1" TPM2_CC_Unseal "True \<in> set []"
  "True"
  "True"
  "be_bytes itemHandle"
  "[]" "False" False True True
  "\<lambda>(d1, _). ptr_valid (wt_TPM2B 256) d1"
  "\<lambda>(d1, _). ptr_valid (valid_TPM2B 256) d1"
  "\<lambda>(_, _). []"
  "\<lambda>(d1, _). ptr_wire wire_TPM2B d1"
  "\<lambda>(ctx, rsp, d1, _). Tss2_Sys_Unseal ctx itemHandle cmdAuthsArray d1 rsp" cmdAuthsArray
  for itemHandle cmdAuthsArray
  by (rule sys_command.intro [OF prepare_Unseal.sys_prepare_axioms complete_Unseal.sys_complete_axioms sys_command_axioms.intro])
    (auto simp: Tss2_Sys_Unseal_def one_call_def one_call_simps null_rc_def dest!: ptr_valid_some simp del: steps.simps)

subsection \<open>Vendor TCG Test\<close>

definition Tss2_Sys_Vendor_TCG_Test_Prepare where
  "Tss2_Sys_Vendor_TCG_Test_Prepare sysContext inputData = steps
     [null_check [],
      CommonPreparePrologue TPM2_CC_Vendor_TCG_Test,
      if Option.is_none inputData
        then put (Tss2_MU_UINT16_Marshal 0)
        else put (Tss2_MU_TPM2B_DATA_Marshal inputData),
      assign (flags True True True),
      CommonPrepareEpilogue]
     sysContext"

definition Tss2_Sys_Vendor_TCG_Test_Complete where
  "Tss2_Sys_Vendor_TCG_Test_Complete sysContext outputData = steps
     [on_fst (null_check []),
      on_fst CommonComplete,
      get_out Tss2_MU_TPM2B_DATA_Unmarshal]
     (sysContext, outputData, ())"

definition Tss2_Sys_Vendor_TCG_Test where
  "Tss2_Sys_Vendor_TCG_Test sysContext cmdAuthsArray inputData outputData rspAuthsArray = steps
     [on_fst (\<lambda>ctx. Tss2_Sys_Vendor_TCG_Test_Prepare ctx inputData),
      on_rsp (CommonOneCall cmdAuthsArray),
      skip_out (\<lambda>(ctx, d1, _). Tss2_Sys_Vendor_TCG_Test_Complete ctx d1)]
     (sysContext, rspAuthsArray, outputData, ())"

lemma Vendor_TCG_Test_handles [simp]:
  "GetNumCommandHandles TPM2_CC_Vendor_TCG_Test = 0" "GetNumResponseHandles TPM2_CC_Vendor_TCG_Test = 0"
  using GetNumHandles_unlisted [of TPM2_CC_Vendor_TCG_Test] by (simp_all add: commandArray_def cc_defs)

interpretation prepare_Vendor_TCG_Test: sys_prepare "\<lambda>ctx. Tss2_Sys_Vendor_TCG_Test_Prepare ctx inputData" TPM2_CC_Vendor_TCG_Test "True \<in> set []"
  "opt_valid (src_TPM2B 66 64) inputData"
  "opt_valid (valid_TPM2B 64) inputData"
  "[]"
  "opt_wire wire_TPM2B inputData" "False" True True True
  for inputData
  by (rule sys_prepareI [OF emits_Cons [OF emits_opt [OF mu_TPM2B_DATA.marshaler_axioms, of inputData]
    emits_skip]])
    (simp_all add: Tss2_Sys_Vendor_TCG_Test_Prepare_def weak_defs prepare_simps del: steps.simps)

interpretation complete_Vendor_TCG_Test: sys_complete "\<lambda>(ctx, d1, _). Tss2_Sys_Vendor_TCG_Test_Complete ctx d1" TPM2_CC_Vendor_TCG_Test
  "\<lambda>(d1, _). ptr_valid (wt_TPM2B 64) d1"
  "\<lambda>(d1, _). ptr_valid (valid_TPM2B 64) d1"
  "\<lambda>(_, _). []"
  "\<lambda>(d1, _). ptr_wire wire_TPM2B d1"
  by (rule sys_completeI [OF sys_complete_plain [OF reads_Cons [OF mu_TPM2B_DATA.unmarshaler_axioms
    reads_Nil]]])
    (simp_all add: Tss2_Sys_Vendor_TCG_Test_Complete_def split_paired_all del: steps.simps)

interpretation cmd_Vendor_TCG_Test: sys_command "\<lambda>ctx. Tss2_Sys_Vendor_TCG_Test_Prepare ctx inputData"
  "\<lambda>(ctx, d1, _). Tss2_Sys_Vendor_TCG_Test_Complete ctx d1" TPM2_CC_Vendor_TCG_Test "True \<in> set []"
  "opt_valid (src_TPM2B 66 64) inputData"
  "opt_valid (valid_TPM2B 64) inputData"
  "[]"
  "opt_wire wire_TPM2B inputData" "False" True True True
  "\<lambda>(d1, _). ptr_valid (wt_TPM2B 64) d1"
  "\<lambda>(d1, _). ptr_valid (valid_TPM2B 64) d1"
  "\<lambda>(_, _). []"
  "\<lambda>(d1, _). ptr_wire wire_TPM2B d1"
  "\<lambda>(ctx, rsp, d1, _). Tss2_Sys_Vendor_TCG_Test ctx cmdAuthsArray inputData d1 rsp" cmdAuthsArray
  for inputData cmdAuthsArray
  by (rule sys_command.intro [OF prepare_Vendor_TCG_Test.sys_prepare_axioms complete_Vendor_TCG_Test.sys_complete_axioms sys_command_axioms.intro])
    (auto simp: Tss2_Sys_Vendor_TCG_Test_def one_call_def one_call_simps null_rc_def dest!: ptr_valid_some simp del: steps.simps)

subsection \<open>VerifyDigestSignature\<close>

definition Tss2_Sys_VerifyDigestSignature_Prepare where
  "Tss2_Sys_VerifyDigestSignature_Prepare sysContext keyHandle digest signature = steps
     [null_check [Option.is_none signature],
      CommonPreparePrologue TPM2_CC_VerifyDigestSignature,
      put (Tss2_MU_UINT32_Marshal keyHandle),
      if Option.is_none digest
        then steps [assign (ctx_decryptNull_update (\<lambda>_. True)), put (Tss2_MU_UINT16_Marshal 0)]
        else put (Tss2_MU_TPM2B_DIGEST_Marshal digest),
      put (Tss2_MU_TPMT_SIGNATURE_Marshal signature),
      assign (flags True False True),
      CommonPrepareEpilogue]
     sysContext"

definition Tss2_Sys_VerifyDigestSignature_Complete where
  "Tss2_Sys_VerifyDigestSignature_Complete sysContext validation = steps
     [on_fst (null_check []),
      on_fst CommonComplete,
      get_out Tss2_MU_TPMT_TK_VERIFIED_Unmarshal]
     (sysContext, validation, ())"

definition Tss2_Sys_VerifyDigestSignature where
  "Tss2_Sys_VerifyDigestSignature sysContext keyHandle cmdAuthsArray digest signature validation rspAuthsArray = steps
     [ret (null_rc [Option.is_none signature]),
      on_fst (\<lambda>ctx. Tss2_Sys_VerifyDigestSignature_Prepare ctx keyHandle digest signature),
      on_rsp (CommonOneCall cmdAuthsArray),
      skip_out (\<lambda>(ctx, d1, _). Tss2_Sys_VerifyDigestSignature_Complete ctx d1)]
     (sysContext, rspAuthsArray, validation, ())"

lemma VerifyDigestSignature_handles [simp]:
  "GetNumCommandHandles TPM2_CC_VerifyDigestSignature = 1" "GetNumResponseHandles TPM2_CC_VerifyDigestSignature = 0"
  using GetNumHandles_entry [of TPM2_CC_VerifyDigestSignature 1 0] by (simp_all add: commandArray_def)

interpretation prepare_VerifyDigestSignature: sys_prepare "\<lambda>ctx. Tss2_Sys_VerifyDigestSignature_Prepare ctx keyHandle digest signature" TPM2_CC_VerifyDigestSignature "True \<in> set [Option.is_none signature]"
  "opt_valid (src_TPM2B 66 64) digest \<and> opt_valid src_TPMT_SIGNATURE signature"
  "opt_valid (valid_TPM2B 64) digest \<and> ptr_valid valid_TPMT_SIGNATURE signature"
  "be_bytes keyHandle"
  "opt_wire wire_TPM2B digest @ ptr_wire wire_TPMT_SIGNATURE signature" "Option.is_none digest" True False True
  for keyHandle digest signature
  by (rule sys_prepareI [OF emits_Cons [OF emits_put [OF mu_UINT32.marshaler_axioms, of keyHandle]
    emits_Cons [OF emits_opt_null [OF mu_TPM2B_DIGEST.marshaler_axioms, of digest]
    emits_Cons [OF emits_ptr [OF mu_TPMT_SIGNATURE.marshaler_axioms null_TPMT_SIGNATURE, of signature]
    emits_skip]]]])
    (simp_all add: Tss2_Sys_VerifyDigestSignature_Prepare_def weak_defs prepare_simps del: steps.simps)

interpretation complete_VerifyDigestSignature: sys_complete "\<lambda>(ctx, d1, _). Tss2_Sys_VerifyDigestSignature_Complete ctx d1" TPM2_CC_VerifyDigestSignature
  "\<lambda>(d1, _). ptr_valid wt_TPMT_TK_VERIFIED d1"
  "\<lambda>(d1, _). ptr_valid valid_TPMT_TK_VERIFIED d1"
  "\<lambda>(_, _). []"
  "\<lambda>(d1, _). ptr_wire wire_TPMT_TK_VERIFIED d1"
  by (rule sys_completeI [OF sys_complete_plain [OF reads_Cons [OF mu_TPMT_TK_VERIFIED.unmarshaler_axioms
    reads_Nil]]])
    (simp_all add: Tss2_Sys_VerifyDigestSignature_Complete_def split_paired_all del: steps.simps)

interpretation cmd_VerifyDigestSignature: sys_command "\<lambda>ctx. Tss2_Sys_VerifyDigestSignature_Prepare ctx keyHandle digest signature"
  "\<lambda>(ctx, d1, _). Tss2_Sys_VerifyDigestSignature_Complete ctx d1" TPM2_CC_VerifyDigestSignature "True \<in> set [Option.is_none signature]"
  "opt_valid (src_TPM2B 66 64) digest \<and> opt_valid src_TPMT_SIGNATURE signature"
  "opt_valid (valid_TPM2B 64) digest \<and> ptr_valid valid_TPMT_SIGNATURE signature"
  "be_bytes keyHandle"
  "opt_wire wire_TPM2B digest @ ptr_wire wire_TPMT_SIGNATURE signature" "Option.is_none digest" True False True
  "\<lambda>(d1, _). ptr_valid wt_TPMT_TK_VERIFIED d1"
  "\<lambda>(d1, _). ptr_valid valid_TPMT_TK_VERIFIED d1"
  "\<lambda>(_, _). []"
  "\<lambda>(d1, _). ptr_wire wire_TPMT_TK_VERIFIED d1"
  "\<lambda>(ctx, rsp, d1, _). Tss2_Sys_VerifyDigestSignature ctx keyHandle cmdAuthsArray digest signature d1 rsp" cmdAuthsArray
  for keyHandle digest signature cmdAuthsArray
  by (rule sys_command.intro [OF prepare_VerifyDigestSignature.sys_prepare_axioms complete_VerifyDigestSignature.sys_complete_axioms sys_command_axioms.intro])
    (auto simp: Tss2_Sys_VerifyDigestSignature_def one_call_def one_call_simps null_rc_def dest!: ptr_valid_some simp del: steps.simps)

subsection \<open>VerifySequenceComplete\<close>

definition Tss2_Sys_VerifySequenceComplete_Prepare where
  "Tss2_Sys_VerifySequenceComplete_Prepare sysContext sequenceHandle buffer = steps
     [null_check [],
      CommonPreparePrologue TPM2_CC_VerifySequenceComplete,
      put (Tss2_MU_UINT32_Marshal sequenceHandle),
      if Option.is_none buffer
        then steps [assign (ctx_decryptNull_update (\<lambda>_. True)), put (Tss2_MU_UINT16_Marshal 0)]
        else put (Tss2_MU_TPM2B_MAX_BUFFER_Marshal buffer),
      assign (flags True False True),
      CommonPrepareEpilogue]
     sysContext"

definition Tss2_Sys_VerifySequenceComplete_Complete where
  "Tss2_Sys_VerifySequenceComplete_Complete sysContext validation = steps
     [on_fst (null_check []),
      on_fst CommonComplete,
      get_out Tss2_MU_TPMT_TK_VERIFIED_Unmarshal]
     (sysContext, validation, ())"

definition Tss2_Sys_VerifySequenceComplete where
  "Tss2_Sys_VerifySequenceComplete sysContext sequenceHandle cmdAuthsArray buffer validation rspAuthsArray = steps
     [on_fst (\<lambda>ctx. Tss2_Sys_VerifySequenceComplete_Prepare ctx sequenceHandle buffer),
      on_rsp (CommonOneCall cmdAuthsArray),
      skip_out (\<lambda>(ctx, d1, _). Tss2_Sys_VerifySequenceComplete_Complete ctx d1)]
     (sysContext, rspAuthsArray, validation, ())"

lemma VerifySequenceComplete_handles [simp]:
  "GetNumCommandHandles TPM2_CC_VerifySequenceComplete = 1" "GetNumResponseHandles TPM2_CC_VerifySequenceComplete = 0"
  using GetNumHandles_entry [of TPM2_CC_VerifySequenceComplete 1 0] by (simp_all add: commandArray_def)

interpretation prepare_VerifySequenceComplete: sys_prepare "\<lambda>ctx. Tss2_Sys_VerifySequenceComplete_Prepare ctx sequenceHandle buffer" TPM2_CC_VerifySequenceComplete "True \<in> set []"
  "opt_valid (src_TPM2B 1026 1024) buffer"
  "opt_valid (valid_TPM2B 1024) buffer"
  "be_bytes sequenceHandle"
  "opt_wire wire_TPM2B buffer" "Option.is_none buffer" True False True
  for sequenceHandle buffer
  by (rule sys_prepareI [OF emits_Cons [OF emits_put [OF mu_UINT32.marshaler_axioms, of sequenceHandle]
    emits_Cons [OF emits_opt_null [OF mu_TPM2B_MAX_BUFFER.marshaler_axioms, of buffer]
    emits_skip]]])
    (simp_all add: Tss2_Sys_VerifySequenceComplete_Prepare_def weak_defs prepare_simps del: steps.simps)

interpretation complete_VerifySequenceComplete: sys_complete "\<lambda>(ctx, d1, _). Tss2_Sys_VerifySequenceComplete_Complete ctx d1" TPM2_CC_VerifySequenceComplete
  "\<lambda>(d1, _). ptr_valid wt_TPMT_TK_VERIFIED d1"
  "\<lambda>(d1, _). ptr_valid valid_TPMT_TK_VERIFIED d1"
  "\<lambda>(_, _). []"
  "\<lambda>(d1, _). ptr_wire wire_TPMT_TK_VERIFIED d1"
  by (rule sys_completeI [OF sys_complete_plain [OF reads_Cons [OF mu_TPMT_TK_VERIFIED.unmarshaler_axioms
    reads_Nil]]])
    (simp_all add: Tss2_Sys_VerifySequenceComplete_Complete_def split_paired_all del: steps.simps)

interpretation cmd_VerifySequenceComplete: sys_command "\<lambda>ctx. Tss2_Sys_VerifySequenceComplete_Prepare ctx sequenceHandle buffer"
  "\<lambda>(ctx, d1, _). Tss2_Sys_VerifySequenceComplete_Complete ctx d1" TPM2_CC_VerifySequenceComplete "True \<in> set []"
  "opt_valid (src_TPM2B 1026 1024) buffer"
  "opt_valid (valid_TPM2B 1024) buffer"
  "be_bytes sequenceHandle"
  "opt_wire wire_TPM2B buffer" "Option.is_none buffer" True False True
  "\<lambda>(d1, _). ptr_valid wt_TPMT_TK_VERIFIED d1"
  "\<lambda>(d1, _). ptr_valid valid_TPMT_TK_VERIFIED d1"
  "\<lambda>(_, _). []"
  "\<lambda>(d1, _). ptr_wire wire_TPMT_TK_VERIFIED d1"
  "\<lambda>(ctx, rsp, d1, _). Tss2_Sys_VerifySequenceComplete ctx sequenceHandle cmdAuthsArray buffer d1 rsp" cmdAuthsArray
  for sequenceHandle buffer cmdAuthsArray
  by (rule sys_command.intro [OF prepare_VerifySequenceComplete.sys_prepare_axioms complete_VerifySequenceComplete.sys_complete_axioms sys_command_axioms.intro])
    (auto simp: Tss2_Sys_VerifySequenceComplete_def one_call_def one_call_simps null_rc_def dest!: ptr_valid_some simp del: steps.simps)

subsection \<open>VerifySequenceStart\<close>

definition Tss2_Sys_VerifySequenceStart_Prepare where
  "Tss2_Sys_VerifySequenceStart_Prepare sysContext keyHandle signature = steps
     [null_check [Option.is_none signature],
      CommonPreparePrologue TPM2_CC_VerifySequenceStart,
      put (Tss2_MU_UINT32_Marshal keyHandle),
      put (Tss2_MU_TPMT_SIGNATURE_Marshal signature),
      assign (flags False False True),
      CommonPrepareEpilogue]
     sysContext"

definition Tss2_Sys_VerifySequenceStart_Complete where
  "Tss2_Sys_VerifySequenceStart_Complete sysContext sequenceHandle = steps
     [on_fst (null_check []),
      on_fst CommonComplete,
      get_out Tss2_MU_UINT32_Unmarshal]
     (sysContext, sequenceHandle, ())"

definition Tss2_Sys_VerifySequenceStart where
  "Tss2_Sys_VerifySequenceStart sysContext keyHandle cmdAuthsArray signature sequenceHandle rspAuthsArray = steps
     [on_fst (\<lambda>ctx. Tss2_Sys_VerifySequenceStart_Prepare ctx keyHandle signature),
      on_rsp (CommonOneCall cmdAuthsArray),
      skip_out (\<lambda>(ctx, d1, _). Tss2_Sys_VerifySequenceStart_Complete ctx d1)]
     (sysContext, rspAuthsArray, sequenceHandle, ())"

lemma VerifySequenceStart_handles [simp]:
  "GetNumCommandHandles TPM2_CC_VerifySequenceStart = 1" "GetNumResponseHandles TPM2_CC_VerifySequenceStart = 1"
  using GetNumHandles_entry [of TPM2_CC_VerifySequenceStart 1 1] by (simp_all add: commandArray_def)

interpretation prepare_VerifySequenceStart: sys_prepare "\<lambda>ctx. Tss2_Sys_VerifySequenceStart_Prepare ctx keyHandle signature" TPM2_CC_VerifySequenceStart "True \<in> set [Option.is_none signature]"
  "opt_valid src_TPMT_SIGNATURE signature"
  "ptr_valid valid_TPMT_SIGNATURE signature"
  "be_bytes keyHandle"
  "ptr_wire wire_TPMT_SIGNATURE signature" "False" False False True
  for keyHandle signature
  by (rule sys_prepareI [OF emits_Cons [OF emits_put [OF mu_UINT32.marshaler_axioms, of keyHandle]
    emits_Cons [OF emits_ptr [OF mu_TPMT_SIGNATURE.marshaler_axioms null_TPMT_SIGNATURE, of signature]
    emits_skip]]])
    (simp_all add: Tss2_Sys_VerifySequenceStart_Prepare_def weak_defs prepare_simps del: steps.simps)

subsection \<open>VerifySignature\<close>

definition Tss2_Sys_VerifySignature_Prepare where
  "Tss2_Sys_VerifySignature_Prepare sysContext keyHandle digest signature = steps
     [null_check [Option.is_none signature],
      CommonPreparePrologue TPM2_CC_VerifySignature,
      put (Tss2_MU_UINT32_Marshal keyHandle),
      if Option.is_none digest
        then steps [assign (ctx_decryptNull_update (\<lambda>_. True)), put (Tss2_MU_UINT16_Marshal 0)]
        else put (Tss2_MU_TPM2B_DIGEST_Marshal digest),
      put (Tss2_MU_TPMT_SIGNATURE_Marshal signature),
      assign (flags True False True),
      CommonPrepareEpilogue]
     sysContext"

definition Tss2_Sys_VerifySignature_Complete where
  "Tss2_Sys_VerifySignature_Complete sysContext validation = steps
     [on_fst (null_check []),
      on_fst CommonComplete,
      get_out Tss2_MU_TPMT_TK_VERIFIED_Unmarshal]
     (sysContext, validation, ())"

definition Tss2_Sys_VerifySignature where
  "Tss2_Sys_VerifySignature sysContext keyHandle cmdAuthsArray digest signature validation rspAuthsArray = steps
     [ret (null_rc [Option.is_none signature]),
      on_fst (\<lambda>ctx. Tss2_Sys_VerifySignature_Prepare ctx keyHandle digest signature),
      on_rsp (CommonOneCall cmdAuthsArray),
      skip_out (\<lambda>(ctx, d1, _). Tss2_Sys_VerifySignature_Complete ctx d1)]
     (sysContext, rspAuthsArray, validation, ())"

lemma VerifySignature_handles [simp]:
  "GetNumCommandHandles TPM2_CC_VerifySignature = 1" "GetNumResponseHandles TPM2_CC_VerifySignature = 0"
  using GetNumHandles_entry [of TPM2_CC_VerifySignature 1 0] by (simp_all add: commandArray_def)

interpretation prepare_VerifySignature: sys_prepare "\<lambda>ctx. Tss2_Sys_VerifySignature_Prepare ctx keyHandle digest signature" TPM2_CC_VerifySignature "True \<in> set [Option.is_none signature]"
  "opt_valid (src_TPM2B 66 64) digest \<and> opt_valid src_TPMT_SIGNATURE signature"
  "opt_valid (valid_TPM2B 64) digest \<and> ptr_valid valid_TPMT_SIGNATURE signature"
  "be_bytes keyHandle"
  "opt_wire wire_TPM2B digest @ ptr_wire wire_TPMT_SIGNATURE signature" "Option.is_none digest" True False True
  for keyHandle digest signature
  by (rule sys_prepareI [OF emits_Cons [OF emits_put [OF mu_UINT32.marshaler_axioms, of keyHandle]
    emits_Cons [OF emits_opt_null [OF mu_TPM2B_DIGEST.marshaler_axioms, of digest]
    emits_Cons [OF emits_ptr [OF mu_TPMT_SIGNATURE.marshaler_axioms null_TPMT_SIGNATURE, of signature]
    emits_skip]]]])
    (simp_all add: Tss2_Sys_VerifySignature_Prepare_def weak_defs prepare_simps del: steps.simps)

interpretation complete_VerifySignature: sys_complete "\<lambda>(ctx, d1, _). Tss2_Sys_VerifySignature_Complete ctx d1" TPM2_CC_VerifySignature
  "\<lambda>(d1, _). ptr_valid wt_TPMT_TK_VERIFIED d1"
  "\<lambda>(d1, _). ptr_valid valid_TPMT_TK_VERIFIED d1"
  "\<lambda>(_, _). []"
  "\<lambda>(d1, _). ptr_wire wire_TPMT_TK_VERIFIED d1"
  by (rule sys_completeI [OF sys_complete_plain [OF reads_Cons [OF mu_TPMT_TK_VERIFIED.unmarshaler_axioms
    reads_Nil]]])
    (simp_all add: Tss2_Sys_VerifySignature_Complete_def split_paired_all del: steps.simps)

interpretation cmd_VerifySignature: sys_command "\<lambda>ctx. Tss2_Sys_VerifySignature_Prepare ctx keyHandle digest signature"
  "\<lambda>(ctx, d1, _). Tss2_Sys_VerifySignature_Complete ctx d1" TPM2_CC_VerifySignature "True \<in> set [Option.is_none signature]"
  "opt_valid (src_TPM2B 66 64) digest \<and> opt_valid src_TPMT_SIGNATURE signature"
  "opt_valid (valid_TPM2B 64) digest \<and> ptr_valid valid_TPMT_SIGNATURE signature"
  "be_bytes keyHandle"
  "opt_wire wire_TPM2B digest @ ptr_wire wire_TPMT_SIGNATURE signature" "Option.is_none digest" True False True
  "\<lambda>(d1, _). ptr_valid wt_TPMT_TK_VERIFIED d1"
  "\<lambda>(d1, _). ptr_valid valid_TPMT_TK_VERIFIED d1"
  "\<lambda>(_, _). []"
  "\<lambda>(d1, _). ptr_wire wire_TPMT_TK_VERIFIED d1"
  "\<lambda>(ctx, rsp, d1, _). Tss2_Sys_VerifySignature ctx keyHandle cmdAuthsArray digest signature d1 rsp" cmdAuthsArray
  for keyHandle digest signature cmdAuthsArray
  by (rule sys_command.intro [OF prepare_VerifySignature.sys_prepare_axioms complete_VerifySignature.sys_complete_axioms sys_command_axioms.intro])
    (auto simp: Tss2_Sys_VerifySignature_def one_call_def one_call_simps null_rc_def dest!: ptr_valid_some simp del: steps.simps)

subsection \<open>ZGen 2Phase\<close>

definition Tss2_Sys_ZGen_2Phase_Prepare where
  "Tss2_Sys_ZGen_2Phase_Prepare sysContext keyA inQsB inQeB inScheme counter = steps
     [null_check [],
      CommonPreparePrologue TPM2_CC_ZGen_2Phase,
      put (Tss2_MU_UINT32_Marshal keyA),
      if Option.is_none inQsB
        then steps [assign (ctx_decryptNull_update (\<lambda>_. True)), put (Tss2_MU_UINT16_Marshal 0)]
        else put (Tss2_MU_TPM2B_ECC_POINT_Marshal inQsB),
      if Option.is_none inQeB
        then put (Tss2_MU_UINT16_Marshal 0)
        else put (Tss2_MU_TPM2B_ECC_POINT_Marshal inQeB),
      put (Tss2_MU_UINT16_Marshal inScheme),
      put (Tss2_MU_UINT16_Marshal counter),
      assign (flags True True True),
      CommonPrepareEpilogue]
     sysContext"

definition Tss2_Sys_ZGen_2Phase_Complete where
  "Tss2_Sys_ZGen_2Phase_Complete sysContext outZ1 outZ2 = steps
     [on_fst (null_check []),
      on_fst CommonComplete,
      get_out Tss2_MU_TPM2B_ECC_POINT_Unmarshal,
      skip_out (get_out Tss2_MU_TPM2B_ECC_POINT_Unmarshal)]
     (sysContext, outZ1, outZ2, ())"

definition Tss2_Sys_ZGen_2Phase where
  "Tss2_Sys_ZGen_2Phase sysContext keyA cmdAuthsArray inQsB inQeB inScheme counter outZ1 outZ2 rspAuthsArray = steps
     [on_fst (\<lambda>ctx. Tss2_Sys_ZGen_2Phase_Prepare ctx keyA inQsB inQeB inScheme counter),
      on_rsp (CommonOneCall cmdAuthsArray),
      skip_out (\<lambda>(ctx, d1, d2, _). Tss2_Sys_ZGen_2Phase_Complete ctx d1 d2)]
     (sysContext, rspAuthsArray, outZ1, outZ2, ())"

lemma ZGen_2Phase_handles [simp]:
  "GetNumCommandHandles TPM2_CC_ZGen_2Phase = 1" "GetNumResponseHandles TPM2_CC_ZGen_2Phase = 0"
  using GetNumHandles_entry [of TPM2_CC_ZGen_2Phase 1 0] by (simp_all add: commandArray_def)

interpretation prepare_ZGen_2Phase: sys_prepare "\<lambda>ctx. Tss2_Sys_ZGen_2Phase_Prepare ctx keyA inQsB inQeB inScheme counter" TPM2_CC_ZGen_2Phase "True \<in> set []"
  "opt_valid (\<lambda>s. src_TPMS_ECC_POINT (TPM2B_SUBTYPE_member s)) inQsB \<and> opt_valid (\<lambda>s. src_TPMS_ECC_POINT (TPM2B_SUBTYPE_member s)) inQeB"
  "opt_valid (\<lambda>s. valid_TPMS_ECC_POINT (TPM2B_SUBTYPE_member s)) inQsB \<and> opt_valid (\<lambda>s. valid_TPMS_ECC_POINT (TPM2B_SUBTYPE_member s)) inQeB"
  "be_bytes keyA"
  "opt_wire (wire_SUBTYPE wire_TPMS_ECC_POINT) inQsB @ opt_wire (wire_SUBTYPE wire_TPMS_ECC_POINT) inQeB @ be_bytes inScheme @ be_bytes counter" "Option.is_none inQsB" True True True
  for keyA inQsB inQeB inScheme counter
  by (rule sys_prepareI [OF emits_Cons [OF emits_put [OF mu_UINT32.marshaler_axioms, of keyA]
    emits_Cons [OF emits_opt_null [OF mu_TPM2B_ECC_POINT.marshaler_axioms, of inQsB]
    emits_Cons [OF emits_opt [OF mu_TPM2B_ECC_POINT.marshaler_axioms, of inQeB]
    emits_Cons [OF emits_put [OF mu_UINT16.marshaler_axioms, of inScheme]
    emits_Cons [OF emits_put [OF mu_UINT16.marshaler_axioms, of counter]
    emits_skip]]]]]])
    (simp_all add: Tss2_Sys_ZGen_2Phase_Prepare_def weak_defs prepare_simps del: steps.simps)

interpretation complete_ZGen_2Phase: sys_complete "\<lambda>(ctx, d1, d2, _). Tss2_Sys_ZGen_2Phase_Complete ctx d1 d2" TPM2_CC_ZGen_2Phase
  "\<lambda>(d1, d2, _). ptr_valid (\<lambda>s. wt_TPMS_ECC_POINT (TPM2B_SUBTYPE_member s)) d1 \<and> ptr_valid (\<lambda>s. wt_TPMS_ECC_POINT (TPM2B_SUBTYPE_member s)) d2"
  "\<lambda>(d1, d2, _). ptr_valid (\<lambda>s. valid_TPMS_ECC_POINT (TPM2B_SUBTYPE_member s)) d1 \<and> ptr_valid (\<lambda>s. valid_TPMS_ECC_POINT (TPM2B_SUBTYPE_member s)) d2"
  "\<lambda>(_, _, _). []"
  "\<lambda>(d1, d2, _). ptr_wire (wire_SUBTYPE wire_TPMS_ECC_POINT) d1 @ ptr_wire (wire_SUBTYPE wire_TPMS_ECC_POINT) d2"
  by (rule sys_completeI [OF sys_complete_plain [OF reads_Cons [OF mu_TPM2B_ECC_POINT.unmarshaler_axioms
    reads_Cons [OF mu_TPM2B_ECC_POINT.unmarshaler_axioms
    reads_Nil]]]])
    (simp_all add: Tss2_Sys_ZGen_2Phase_Complete_def split_paired_all del: steps.simps)

interpretation cmd_ZGen_2Phase: sys_command "\<lambda>ctx. Tss2_Sys_ZGen_2Phase_Prepare ctx keyA inQsB inQeB inScheme counter"
  "\<lambda>(ctx, d1, d2, _). Tss2_Sys_ZGen_2Phase_Complete ctx d1 d2" TPM2_CC_ZGen_2Phase "True \<in> set []"
  "opt_valid (\<lambda>s. src_TPMS_ECC_POINT (TPM2B_SUBTYPE_member s)) inQsB \<and> opt_valid (\<lambda>s. src_TPMS_ECC_POINT (TPM2B_SUBTYPE_member s)) inQeB"
  "opt_valid (\<lambda>s. valid_TPMS_ECC_POINT (TPM2B_SUBTYPE_member s)) inQsB \<and> opt_valid (\<lambda>s. valid_TPMS_ECC_POINT (TPM2B_SUBTYPE_member s)) inQeB"
  "be_bytes keyA"
  "opt_wire (wire_SUBTYPE wire_TPMS_ECC_POINT) inQsB @ opt_wire (wire_SUBTYPE wire_TPMS_ECC_POINT) inQeB @ be_bytes inScheme @ be_bytes counter" "Option.is_none inQsB" True True True
  "\<lambda>(d1, d2, _). ptr_valid (\<lambda>s. wt_TPMS_ECC_POINT (TPM2B_SUBTYPE_member s)) d1 \<and> ptr_valid (\<lambda>s. wt_TPMS_ECC_POINT (TPM2B_SUBTYPE_member s)) d2"
  "\<lambda>(d1, d2, _). ptr_valid (\<lambda>s. valid_TPMS_ECC_POINT (TPM2B_SUBTYPE_member s)) d1 \<and> ptr_valid (\<lambda>s. valid_TPMS_ECC_POINT (TPM2B_SUBTYPE_member s)) d2"
  "\<lambda>(_, _, _). []"
  "\<lambda>(d1, d2, _). ptr_wire (wire_SUBTYPE wire_TPMS_ECC_POINT) d1 @ ptr_wire (wire_SUBTYPE wire_TPMS_ECC_POINT) d2"
  "\<lambda>(ctx, rsp, d1, d2, _). Tss2_Sys_ZGen_2Phase ctx keyA cmdAuthsArray inQsB inQeB inScheme counter d1 d2 rsp" cmdAuthsArray
  for keyA inQsB inQeB inScheme counter cmdAuthsArray
  by (rule sys_command.intro [OF prepare_ZGen_2Phase.sys_prepare_axioms complete_ZGen_2Phase.sys_complete_axioms sys_command_axioms.intro])
    (auto simp: Tss2_Sys_ZGen_2Phase_def one_call_def one_call_simps null_rc_def dest!: ptr_valid_some simp del: steps.simps)

end
