(* ===== verification/Sys_Properties.thy ===== *)
theory Sys_Properties
  imports Sys_Machine Sys_Commands_1 Sys_Commands_2 Sys_Commands_3 Sys_Commands_4 Sys_Commands_5
begin

text \<open>
  What the system API guarantees, stated on the functions of \<open>tss2_sys.h\<close>: whole commands against a
  transport, the construction of commands, sessions, sending and receiving, the order of calls, and
  the places where the code departs from what it means to do.
\<close>

section \<open>An example context\<close>

text \<open>A transport that logs what it is sent and answers everything with \<open>r\<close>.\<close>

definition ex_receive :: "BYTE list \<Rightarrow> BYTE list list \<Rightarrow> size_t \<Rightarrow> buf option \<Rightarrow> INT32 \<Rightarrow> TSS2_RC \<times> size_t \<times> buf option \<times> BYTE list list" where
  "ex_receive r s n b timeout =
     (case b of None \<Rightarrow> (0, of_nat (length r), None, s) | Some b \<Rightarrow> (0, n, Some (if length r \<le> length b then patch b 0 r else b), s))"

definition ex_tcti :: "BYTE list \<Rightarrow> BYTE list list TSS2_TCTI_CONTEXT" where
  "ex_tcti r = \<lparr>TCTI_version = 2, TCTI_transmit = Some (\<lambda>s w. (0, w # s)),
     TCTI_receive = Some (ex_receive r), TCTI_state = []\<rparr>"

definition ex_ctx :: "BYTE list \<Rightarrow> BYTE list list TSS2_SYS_CONTEXT_BLOB" where
  "ex_ctx r = \<lparr>ctx_tctiContext = Some (ex_tcti r), ctx_cmdBuffer = replicate 4096 0, ctx_maxCmdSize = 4096,
     ctx_cmd_header = replicate 10 0, ctx_rsp_header = \<lparr>TPM20_Header_Out_tag = 0, TPM20_Header_Out_responseSize = 0,
     TPM20_Header_Out_responseCode = 0\<rparr>, ctx_commandCode = 0, ctx_cpBufferUsedSize = 0, ctx_cpBuffer = 0,
     ctx_rspParamsSize = 0, ctx_previousStage = CMD_STAGE_INITIALIZE, ctx_authsCount = 0, ctx_numResponseHandles = 0,
     ctx_decryptAllowed = False, ctx_encryptAllowed = False, ctx_decryptNull = False, ctx_authAllowed = False,
     ctx_nextData = 0\<rparr>"

lemma ex_ctx_ok [simp]: "ctx_ok (ex_ctx r)" "may_prepare (ex_ctx r)" "ctx_tctiContext (ex_ctx r) = Some (ex_tcti r)"
  "ctx_maxCmdSize (ex_ctx r) = 4096"
  by (simp_all add: ex_ctx_def ctx_ok_def may_prepare_def)

lemma ex_tcti_exchange [simp]: "exchange (ex_tcti r) w r [w]"
  by (simp add: exchange_def answers_with_def ex_tcti_def ex_receive_def)

lemma ex_tcti_ok [simp]: "tcti_ok (ex_tcti r)"
  by (simp add: tcti_ok_def ex_tcti_def ex_receive_def)

text \<open>One password authorization, and the answer to it.\<close>

definition ex_password :: TPMS_AUTH_COMMAND where
  "ex_password = \<lparr>TPMS_AUTH_COMMAND_sessionHandle = 0x40000009, TPMS_AUTH_COMMAND_nonce = zero_TPM2B 64,
     TPMS_AUTH_COMMAND_sessionAttributes = 1,
     TPMS_AUTH_COMMAND_hmac = \<lparr>TPM2B_size = 2, TPM2B_buffer = [0x70, 0x77] @ replicate 62 0\<rparr>\<rparr>"

definition ex_auths :: TSS2L_SYS_AUTH_COMMAND where
  "ex_auths = \<lparr>AUTH_COMMAND_count = 1, AUTH_COMMAND_auths = [ex_password]\<rparr>"

definition ex_rsp_auths :: TSS2L_SYS_AUTH_RESPONSE where
  "ex_rsp_auths = \<lparr>AUTH_RESPONSE_count = 0, AUTH_RESPONSE_auths = replicate 3 zero_TPMS_AUTH_RESPONSE\<rparr>"

lemma ex_password_valid: "valid_TPMS_AUTH_COMMAND ex_password"
  by code_simp

lemma ex_password_length: "length (wire_TPMS_AUTH_COMMAND ex_password) = 11"
  by code_simp

lemma ex_auths_ok [simp]: "auths_ok True (Some ex_auths)"
  by (simp add: ex_auths_def array_auths_def ex_password_valid)

lemma zero_AUTH_RESPONSE [simp]: "valid_TPMS_AUTH_RESPONSE zero_TPMS_AUTH_RESPONSE"
  "length (wire_TPMS_AUTH_RESPONSE zero_TPMS_AUTH_RESPONSE) = 5"
  by code_simp+

lemma ex_ras_ok [simp]: "ras_ok (Some ex_auths) [zero_TPMS_AUTH_RESPONSE]"
  by (simp add: ex_auths_def array_auths_def)

lemma ex_rsp_array_ok [simp]: "rsp_array_ok ex_rsp_auths"
  by (simp add: ex_rsp_auths_def rsp_array_ok_def TSS2_SYS_MAX_SESSIONS_def numeral_3_eq_3)

lemma ex_area_length [simp]: "length (cmd_area (Some ex_auths)) = 15"
  by (simp add: ex_auths_def array_auths_def ex_password_length)

section \<open>Whole commands\<close>

lemma ptr_wire_simps:
  "ptr_wire be_bytes d = be_bytes x \<longleftrightarrow> d = Some (x :: UINT32)"
  "ptr_wire wire_TPM2B e = wire_TPM2B y \<longleftrightarrow> (\<exists>z. e = Some z \<and> wire_TPM2B z = wire_TPM2B y)"
proof -
  have "be_bytes x \<noteq> []" using length_be_bytes [of x] by (auto simp del: length_be_bytes)
  then show "ptr_wire be_bytes d = be_bytes x \<longleftrightarrow> d = Some x" by (cases d) (auto simp: be_bytes_inject)
  have "2 \<le> length (wire_TPM2B y)" by (simp add: wire_TPM2B_def)
  then have "wire_TPM2B y \<noteq> []" by auto
  then show "ptr_wire wire_TPM2B e = wire_TPM2B y \<longleftrightarrow> (\<exists>z. e = Some z \<and> wire_TPM2B z = wire_TPM2B y)"
    by (cases e) auto
qed

text \<open>
  C13: A key is loaded in one call.  For every parent handle, every private and public part with a
  wire format (or none), with or without authorizations: \<open>Tss2_Sys_Load\<close> hands the transport exactly the
  bytes of the TPM2_Load command, and when the TPM answers with a handle, a name and its
  authorizations, it returns success and delivers that handle, that name and those authorizations.
\<close>

theorem Load_delivers:
  assumes c: "ctx_ok c" "may_prepare c" "ctx_tctiContext c = Some t"
    and args: "opt_valid (valid_TPM2B 1550) inPrivate" "opt_valid (\<lambda>s. valid_TPMT_PUBLIC (TPM2B_SUBTYPE_member s)) inPublic"
      "auths_ok True cmdAuths"
    and command: "command = cmd_bytes (cmd_tag cmdAuths) TPM2_CC_Load (be_bytes parentHandle) (cmd_area cmdAuths)
        (opt_wire wire_TPM2B inPrivate @ opt_wire (wire_SUBTYPE wire_TPMT_PUBLIC) inPublic)"
      "length command \<le> unat (ctx_maxCmdSize c)"
    and answer: "valid_TPM2B 68 nm" "body = rsp_body cmdAuths (be_bytes handle) (wire_TPM2B nm) ras" "ras_ok cmdAuths ras"
      "sizeof_header + length body \<le> unat (ctx_maxCmdSize c)"
    and tpm: "exchange t command (rsp_bytes (cmd_tag cmdAuths) 0 body) s"
    and outs: "wt_TPM2B 68 nm0" "\<forall>r. rspAuths = Some r \<longrightarrow> rsp_array_ok r"
  shows "\<exists>c' rspAuths' nm'. Tss2_Sys_Load (Some c) parentHandle cmdAuths inPrivate inPublic (Some h0) (Some nm0) rspAuths =
      Some (TSS2_RC_SUCCESS, Some c', rspAuths', Some handle, Some nm', ()) \<and>
    wire_TPM2B nm' = wire_TPM2B nm \<and> delivered cmdAuths ras rspAuths rspAuths'"
proof -
  from cmd_Load.call_delivers [of inPrivate inPublic c cmdAuths parentHandle t "(Some handle, Some nm, ())" "(Some h0, Some nm0, ())"
      body ras rspAuths s] assms
  obtain c' rsp' d1 d2 u where r: "Tss2_Sys_Load (Some c) parentHandle cmdAuths inPrivate inPublic (Some h0) (Some nm0) rspAuths =
      Some (0, Some c', rsp', d1, d2, u)" "ptr_wire be_bytes d1 = be_bytes handle" "ptr_wire wire_TPM2B d2 = wire_TPM2B nm"
    "delivered cmdAuths ras rspAuths rsp'" by auto
  then show ?thesis by (auto simp: ptr_wire_simps)
qed

definition ex_name :: TPM2B where
  "ex_name = \<lparr>TPM2B_size = 3, TPM2B_buffer = [0, 11, 0xA1] @ replicate 65 0\<rparr>"

definition ex_private :: TPM2B where
  "ex_private = \<lparr>TPM2B_size = 2, TPM2B_buffer = [0xDE, 0xAD] @ replicate 1548 0\<rparr>"

lemma ex_values [simp]: "valid_TPM2B 68 ex_name" "valid_TPM2B 1550 ex_private" "length (wire_TPM2B ex_name) = 5"
  "length (wire_TPM2B ex_private) = 4"
  by code_simp+

definition ex_load_body :: "BYTE list" where
  "ex_load_body = rsp_body (Some ex_auths) (be_bytes (0x80000001 :: UINT32)) (wire_TPM2B ex_name) [zero_TPMS_AUTH_RESPONSE]"

theorem Load_delivers_witness:
  "\<exists>c' rspAuths' nm'. Tss2_Sys_Load (Some (ex_ctx (rsp_bytes (cmd_tag (Some ex_auths)) 0 ex_load_body))) 0x81000001
      (Some ex_auths) (Some ex_private) None (Some 0) (Some (zero_TPM2B 68)) (Some ex_rsp_auths) =
      Some (TSS2_RC_SUCCESS, Some c', rspAuths', Some 0x80000001, Some nm', ()) \<and>
    wire_TPM2B nm' = wire_TPM2B ex_name \<and>
    delivered (Some ex_auths) [zero_TPMS_AUTH_RESPONSE] (Some ex_rsp_auths) rspAuths'"
  by (rule Load_delivers [OF ex_ctx_ok(1,2,3) _ _ _ refl _ _ ex_load_body_def _ _ ex_tcti_exchange])
    (simp_all add: ex_load_body_def del: cmd_area.simps auths_ok.simps ras_ok.simps)

text \<open>
  C23: An error code from the TPM ends a call without any effect on the outputs, and the context still
  holds the command: \<open>Tss2_Sys_ExecuteAsync\<close> sends exactly the same bytes again.
\<close>

theorem GetRandom_error_resend:
  assumes c: "ctx_ok c" "may_prepare c" "ctx_tctiContext c = Some t" "auths_ok True cmdAuths"
    and command: "command = cmd_bytes (cmd_tag cmdAuths) TPM2_CC_GetRandom [] (cmd_area cmdAuths) (be_bytes bytesRequested)"
      "length command \<le> unat (ctx_maxCmdSize c)"
    and tpm: "exchange t command (rsp_bytes TPM2_ST_NO_SESSIONS code []) s" "code \<noteq> 0" "code \<noteq> TPM2_RC_INITIALIZE"
    and out: "wt_TPM2B 64 d"
    and again: "TCTI_transmit t = Some transmit" "1 \<le> TCTI_version t" "transmit s command = (rval, s')"
  shows "\<exists>c' c''. Tss2_Sys_GetRandom (Some c) cmdAuths bytesRequested (Some d) rspAuths =
      Some (code, Some c', rspAuths, Some d, ()) \<and> ctx_previousStage c' = CMD_STAGE_PREPARE \<and>
    Tss2_Sys_ExecuteAsync (Some c') = Some (rval, Some c'') \<and> ctx_tctiContext c'' = Some (t\<lparr>TCTI_state := s'\<rparr>)"
proof -
  from cmd_GetRandom.call_error [of c cmdAuths bytesRequested t "(Some d, ())" code s rspAuths] assms obtain c' where
    1: "Tss2_Sys_GetRandom (Some c) cmdAuths bytesRequested (Some d) rspAuths = Some (code, Some c', rspAuths, Some d, ())"
      "holds_command (cmd_tag cmdAuths) TPM2_CC_GetRandom [] (cmd_area cmdAuths) (be_bytes bytesRequested) c'"
      "ctx_tctiContext c' = Some (t\<lparr>TCTI_state := s\<rparr>)" by auto
  with ExecuteAsync_sends [OF 1(2,3), of transmit rval s'] again command(1) show ?thesis
    by (auto simp: holds_command_def)
qed

theorem GetRandom_error_resend_witness:
  "\<exists>c' c''. Tss2_Sys_GetRandom (Some (ex_ctx (rsp_bytes TPM2_ST_NO_SESSIONS 0x922 []))) (Some ex_auths) 16 (Some (zero_TPM2B 64)) None =
      Some (0x922, Some c', None, Some (zero_TPM2B 64), ()) \<and> ctx_previousStage c' = CMD_STAGE_PREPARE \<and>
    Tss2_Sys_ExecuteAsync (Some c') = Some (0, Some c'') \<and>
    ctx_tctiContext c'' = Some ((ex_tcti (rsp_bytes TPM2_ST_NO_SESSIONS 0x922 []))\<lparr>TCTI_state :=
      [cmd_bytes TPM2_ST_SESSIONS TPM2_CC_GetRandom [] (cmd_area (Some ex_auths)) (be_bytes (16 :: UINT16)),
       cmd_bytes TPM2_ST_SESSIONS TPM2_CC_GetRandom [] (cmd_area (Some ex_auths)) (be_bytes (16 :: UINT16))]\<rparr>)"
  by (rule GetRandom_error_resend [OF ex_ctx_ok(1,2,3) _ refl _ ex_tcti_exchange])
    (simp_all add: ex_tcti_def TPM2_RC_INITIALIZE_def TPM2_RC_VER1_def del: cmd_area.simps auths_ok.simps)

section \<open>Building commands\<close>

text \<open>
  C24: \<open>Tss2_Sys_Create_Prepare\<close> always returns, never writes outside the buffer, and succeeds exactly when
  the PCR selection is there, no command is under way, every argument has a wire format and the
  command fits; then the buffer starts with the TPM2_Create command byte for byte.  When it
  fails the stage is what it was.
\<close>

theorem Create_Prepare_outcome:
  assumes "params = opt_wire (wire_SUBTYPE wire_TPMS_SENSITIVE_CREATE) inSensitive @ opt_wire (wire_SUBTYPE wire_TPMT_PUBLIC) inPublic @
    opt_wire wire_TPM2B outsideInfo @ ptr_wire (wire_TPML wire_TPMS_PCR_SELECTION) creationPCR"
    "ctx_ok c" "opt_valid (\<lambda>s. src_TPMS_SENSITIVE_CREATE (TPM2B_SUBTYPE_member s)) inSensitive"
    "opt_valid (\<lambda>s. src_TPMT_PUBLIC (TPM2B_SUBTYPE_member s)) inPublic" "opt_valid (src_TPM2B 66 64) outsideInfo"
    "opt_valid (src_TPML 16 src_TPMS_PCR_SELECTION) creationPCR"
  shows "\<exists>rc c'. Tss2_Sys_Create_Prepare (Some c) parentHandle inSensitive inPublic outsideInfo creationPCR = Some (rc, Some c') \<and>
    length (ctx_cmdBuffer c') = length (ctx_cmdBuffer c) \<and>
    (rc = 0 \<longleftrightarrow> may_prepare c \<and> opt_valid (\<lambda>s. valid_TPMS_SENSITIVE_CREATE (TPM2B_SUBTYPE_member s)) inSensitive \<and>
       opt_valid (\<lambda>s. valid_TPMT_PUBLIC (TPM2B_SUBTYPE_member s)) inPublic \<and> opt_valid (valid_TPM2B 64) outsideInfo \<and>
       ptr_valid (valid_TPML 16 valid_TPMS_PCR_SELECTION) creationPCR \<and> 14 + length params \<le> unat (ctx_maxCmdSize c)) \<and>
    (rc = 0 \<longrightarrow> ctx_previousStage c' = CMD_STAGE_PREPARE \<and>
       (\<exists>rest. ctx_cmdBuffer c' = cmd_bytes TPM2_ST_NO_SESSIONS TPM2_CC_Create (be_bytes parentHandle) [] params @ rest)) \<and>
    (rc \<noteq> 0 \<longrightarrow> ctx_previousStage c' = ctx_previousStage c)"
proof -
  let ?p = "prepared TPM2_CC_Create (be_bytes parentHandle) params (Option.is_none inSensitive) True True True c"
  from prepare_Create.prepare_total [of c inSensitive inPublic outsideInfo creationPCR parentHandle] assms obtain rc c' where
    r: "Tss2_Sys_Create_Prepare (Some c) parentHandle inSensitive inPublic outsideInfo creationPCR = Some (rc, Some c')"
      "length (ctx_cmdBuffer c') = length (ctx_cmdBuffer c)" "rc \<noteq> 0 \<longrightarrow> ctx_previousStage c' = ctx_previousStage c"
      "rc = 0 \<longrightarrow> c' = ?p"
    and iff: "rc = 0 \<longleftrightarrow> creationPCR \<noteq> None \<and> may_prepare c \<and>
       (opt_valid (\<lambda>s. valid_TPMS_SENSITIVE_CREATE (TPM2B_SUBTYPE_member s)) inSensitive \<and>
        opt_valid (\<lambda>s. valid_TPMT_PUBLIC (TPM2B_SUBTYPE_member s)) inPublic \<and> opt_valid (valid_TPM2B 64) outsideInfo \<and>
        ptr_valid (valid_TPML 16 valid_TPMS_PCR_SELECTION) creationPCR) \<and> 14 + length params \<le> unat (ctx_maxCmdSize c)"
    by (auto simp: Option.is_none_def)
  have "holds_command TPM2_ST_NO_SESSIONS TPM2_CC_Create (be_bytes parentHandle) [] params ?p" if "rc = 0"
    using iff that assms(2) by (intro holds_command_prepared) auto
  with r iff show ?thesis by (intro exI [of _ rc] exI [of _ c']) (auto simp: holds_command_def)
qed

definition ex_pcrs :: "TPMS_PCR_SELECTION TPML" where
  "ex_pcrs = \<lparr>TPML_count = 0, TPML_items = replicate 16 zero_TPMS_PCR_SELECTION\<rparr>"

theorem Create_Prepare_outcome_witness:
  "\<exists>rc c'. Tss2_Sys_Create_Prepare (Some (ex_ctx [])) 0x40000001 None None None (Some ex_pcrs) = Some (rc, Some c') \<and>
    rc = 0 \<and> (\<exists>rest. ctx_cmdBuffer c' = cmd_bytes TPM2_ST_NO_SESSIONS TPM2_CC_Create (be_bytes (0x40000001 :: UINT32)) []
      [0, 0, 0, 0, 0, 0, 0, 0, 0, 0] @ rest)"
proof -
  let ?pcr = "Some ex_pcrs"
  have w: "ptr_wire (wire_TPML wire_TPMS_PCR_SELECTION) ?pcr = [0, 0, 0, 0]" by code_simp
  have v: "valid_TPML 16 valid_TPMS_PCR_SELECTION ex_pcrs" by code_simp
  then have s: "src_TPML 16 src_TPMS_PCR_SELECTION ex_pcrs" by (rule mu_TPML_PCR_SELECTION.valid_src)
  show ?thesis
    using Create_Prepare_outcome [OF refl ex_ctx_ok(1) [of "[]"], of None None None ?pcr "0x40000001"] v s w by auto
qed

text \<open>
  C25: \<open>Tss2_Sys_SetCmdAuths\<close> turns a prepared command into the same command with sessions: tag and size
  are updated, the authorization area with its size stands between handles and parameters, and
  the parameters have moved unchanged.
\<close>

theorem SetCmdAuths_inserts:
  assumes "holds_command TPM2_ST_NO_SESSIONS cc handles [] params c" "ctx_authAllowed c"
    and "0 < AUTH_COMMAND_count arr" "AUTH_COMMAND_count arr \<le> 3" "unat (AUTH_COMMAND_count arr) \<le> length (AUTH_COMMAND_auths arr)"
    and "list_all valid_TPMS_AUTH_COMMAND (array_auths arr)"
    and "sizeof_header + length handles + length params + length (cmd_area (Some arr)) \<le> unat (ctx_maxCmdSize c)"
  shows "\<exists>c' rest. Tss2_Sys_SetCmdAuths (Some c) (Some arr) = Some (TSS2_RC_SUCCESS, Some c') \<and>
    ctx_cmdBuffer c' = cmd_bytes TPM2_ST_SESSIONS cc handles
      (be_bytes (of_nat (length (auths_wire (array_auths arr))) :: UINT32) @ auths_wire (array_auths arr)) params @ rest \<and>
    ctx_previousStage c' = CMD_STAGE_PREPARE"
proof -
  from set_auths_ok [OF assms(1) _ assms(7)] assms(2-6) obtain c' where
    r: "Tss2_Sys_SetCmdAuths (Some c) (Some arr) = Some (0, Some c')"
      "holds_command TPM2_ST_SESSIONS cc handles (cmd_area (Some arr)) params c'" by auto
  then show ?thesis by (auto simp: holds_command_def)
qed

lemma ex_holds:
  "\<exists>c'. Tss2_Sys_GetRandom_Prepare (Some (ex_ctx [])) 16 = Some (0, Some c') \<and> ctx_authAllowed c' \<and> ctx_maxCmdSize c' = 4096 \<and>
    holds_command TPM2_ST_NO_SESSIONS TPM2_CC_GetRandom [] [] (be_bytes (16 :: UINT16)) c'"
  using prepare_GetRandom.prepare_ok [of "ex_ctx []" 16]
    holds_command_prepared [of "ex_ctx []" "[]" "be_bytes (16 :: UINT16)" TPM2_CC_GetRandom False False True True]
  by (auto simp: prepared_def)

theorem SetCmdAuths_inserts_witness:
  "\<exists>c c' rest. Tss2_Sys_GetRandom_Prepare (Some (ex_ctx [])) 16 = Some (0, Some c) \<and>
    Tss2_Sys_SetCmdAuths (Some c) (Some ex_auths) = Some (TSS2_RC_SUCCESS, Some c') \<and>
    ctx_cmdBuffer c' = cmd_bytes TPM2_ST_SESSIONS TPM2_CC_GetRandom []
      (be_bytes (of_nat (length (auths_wire (array_auths ex_auths))) :: UINT32) @ auths_wire (array_auths ex_auths))
      (be_bytes (16 :: UINT16)) @ rest \<and> ctx_previousStage c' = CMD_STAGE_PREPARE"
proof -
  from ex_holds obtain c where c: "Tss2_Sys_GetRandom_Prepare (Some (ex_ctx [])) 16 = Some (0, Some c)" "ctx_authAllowed c"
    "ctx_maxCmdSize c = 4096" "holds_command TPM2_ST_NO_SESSIONS TPM2_CC_GetRandom [] [] (be_bytes (16 :: UINT16)) c" by blast
  have a: "0 < AUTH_COMMAND_count ex_auths" "AUTH_COMMAND_count ex_auths \<le> 3"
    "unat (AUTH_COMMAND_count ex_auths) \<le> length (AUTH_COMMAND_auths ex_auths)" "list_all valid_TPMS_AUTH_COMMAND (array_auths ex_auths)"
    using ex_auths_ok by (simp_all del: ex_auths_ok)
  from SetCmdAuths_inserts [OF c(4,2) a] c(1,3) show ?thesis by (auto simp del: cmd_area.simps)
qed

section \<open>Receiving\<close>

lemma ExecuteFinish_success:
  assumes f: "Tss2_Sys_ExecuteFinish (Some c) timeout = Some (0, Some c')" and "ctx_inv c"
  shows "ctx_previousStage c = CMD_STAGE_SEND_COMMAND \<and> ctx_previousStage c' = CMD_STAGE_RECEIVE_RESPONSE \<and>
    TPM20_Header_Out_tag (ctx_rsp_header c') \<in> {TPM2_ST_SESSIONS, TPM2_ST_NO_SESSIONS} \<and>
    TPM20_Header_Out_responseCode (ctx_rsp_header c') = 0 \<and>
    of_nat sizeof_header \<le> TPM20_Header_Out_responseSize (ctx_rsp_header c') \<and>
    TPM20_Header_Out_responseSize (ctx_rsp_header c') \<le> ctx_maxCmdSize c'"
proof -
  have inv: "ctx_ok c" "\<forall>t. ctx_tctiContext c = Some t \<longrightarrow> tcti_ok t" using assms(2) by (auto simp: ctx_inv_def)
  obtain r1 n1 b1 tc1 where 1: "Tss2_Tcti_Receive (ctx_tctiContext c) 0 None timeout = (r1, n1, b1, tc1)"
    by (metis prod_cases4)
  have t1: "\<forall>t. tc1 = Some t \<longrightarrow> tcti_ok t" by (rule Receive_tcti [OF inv(2) 1])
  from Receive_keeps [OF t1, of n1 "ctx_cmdBuffer c" timeout] obtain r2 n2 b2 tc2 where
    2: "Tss2_Tcti_Receive tc1 n1 (Some (ctx_cmdBuffer c)) timeout = (r2, n2, Some b2, tc2)"
      "length b2 = length (ctx_cmdBuffer c)" by blast
  let ?c2 = "c\<lparr>ctx_tctiContext := tc2, ctx_cmdBuffer := b2\<rparr>"
  have ok: "ctx_ok ?c2" using inv(1) 2(2) by (simp add: ctx_ok_def)
  from f 1 2(1) obtain c3 where st: "ctx_previousStage c = CMD_STAGE_SEND_COMMAND"
    and h: "read_rsp_header ?c2 = Some (0, c3)" "finish_response c3 = Some (0, c')"
    by (auto simp: Tss2_Sys_ExecuteFinish_def Let_def split: if_splits option.splits prod.splits)
  from h(1) have "TPM20_Header_Out_tag (ctx_rsp_header c3) \<in> {TPM2_ST_SESSIONS, TPM2_ST_NO_SESSIONS}"
    "TPM20_Header_Out_responseSize (ctx_rsp_header c3) \<le> ctx_maxCmdSize c3"
    by (auto simp: read_rsp_header_eq [OF ok] Let_def split: if_splits)
  with h(2) st show ?thesis
    by (auto simp: finish_response_def Let_def split: if_splits option.splits)
qed

text \<open>
  C26: Whatever a transport delivers, \<open>Tss2_Sys_ExecuteFinish\<close> returns and keeps the context intact.  It
  returns success only for a command that was sent and a response with a valid tag, response code
  zero and a size between the header and the context's buffer.
\<close>

theorem ExecuteFinish_any_response:
  assumes "ctx_inv c"
  shows "\<exists>rc c'. Tss2_Sys_ExecuteFinish (Some c) timeout = Some (rc, Some c') \<and> ctx_inv c' \<and>
    (rc = 0 \<longrightarrow> ctx_previousStage c = CMD_STAGE_SEND_COMMAND \<and> ctx_previousStage c' = CMD_STAGE_RECEIVE_RESPONSE \<and>
       TPM20_Header_Out_tag (ctx_rsp_header c') \<in> {TPM2_ST_SESSIONS, TPM2_ST_NO_SESSIONS} \<and>
       TPM20_Header_Out_responseCode (ctx_rsp_header c') = 0 \<and>
       of_nat sizeof_header \<le> TPM20_Header_Out_responseSize (ctx_rsp_header c') \<and>
       TPM20_Header_Out_responseSize (ctx_rsp_header c') \<le> ctx_maxCmdSize c')"
proof -
  from ExecuteFinish_keeps [OF assms] obtain rc c' where
    r: "Tss2_Sys_ExecuteFinish (Some c) timeout = Some (rc, Some c')" "ctx_inv c'" by blast
  moreover note ExecuteFinish_success [OF _ assms, of timeout c']
  ultimately show ?thesis by (intro exI [of _ rc] exI [of _ c']) auto
qed

lemma ex_ctx_inv: "ctx_inv (ex_ctx r)"
  by (simp add: ctx_inv_def) (simp add: ex_ctx_def)

theorem ExecuteFinish_any_response_witness:
  "\<exists>rc c'. Tss2_Sys_ExecuteFinish (Some ((ex_ctx [1, 2, 3])\<lparr>ctx_previousStage := CMD_STAGE_SEND_COMMAND\<rparr>)) 5 = Some (rc, Some c') \<and> ctx_inv c'"
proof -
  have "ctx_inv ((ex_ctx [1, 2, 3])\<lparr>ctx_previousStage := CMD_STAGE_SEND_COMMAND\<rparr>)" using ex_ctx_inv by (simp add: ctx_inv_def)
  from ExecuteFinish_any_response [OF this, of 5] show ?thesis by auto
qed

section \<open>The order of calls\<close>

text \<open>
  C9: Building a command is memory safe.  After any \<open>_Prepare\<close> function succeeded, every sequence of
  \<open>Tss2_Sys_SetCmdAuths\<close>, \<open>Tss2_Sys_SetDecryptParam\<close> and \<open>Tss2_Sys_SetEncryptParam\<close>, with any authorizations and
  parameters (also ones without a wire format, null pointers and ones that do not fit) and whatever
  the calls return, never reads or writes outside the buffers, keeps the size that the
  command's header names within \<open>maxCmdSize\<close> and the parameters within it, and the command can then be
  handed to \<open>Tss2_Sys_ExecuteAsync\<close>, which returns too.
\<close>

theorem building_is_safe:
  assumes c: "ctx_ok c" "unat (ctx_maxCmdSize c) < 2 ^ 31"
    and prepare: "sys_prepare P cc nulls src valid handles params null dec enc auth" "src" "P (Some c) = Some (0, Some c1)"
      "dec \<longrightarrow> 2 \<le> length params"
    and edits: "list_all edit_src es"
  shows "\<exists>c2 n r. run_edits es (Some c1) = Some (Some c2) \<and> length (ctx_cmdBuffer c2) = length (ctx_cmdBuffer c) \<and>
    GetCommandSize c2 = Some n \<and> n \<le> ctx_maxCmdSize c \<and>
    sizeof_header \<le> unat (ctx_cpBuffer c2) \<and> unat (ctx_cpBuffer c2) + unat (ctx_cpBufferUsedSize c2) \<le> unat n \<and>
    Tss2_Sys_ExecuteAsync (Some c2) = Some r"
proof -
  have ok: "command_ok c1" using command_ok_prepared [OF prepare(1) c(1) prepare(2,3) c(2) prepare(4)] .
  have room: "length (ctx_cmdBuffer c1) = length (ctx_cmdBuffer c)" "ctx_maxCmdSize c1 = ctx_maxCmdSize c"
    using sys_prepare.prepare_total [OF prepare(1) c(1) prepare(2)] prepare(3) by (auto simp: prepared_def)
  from run_edits_total [OF ok edits] obtain c2 where
    2: "run_edits es (Some c1) = Some (Some c2)" "command_ok c2" "same_room c1 c2" by blast
  from ExecuteAsync_total [OF 2(2)] obtain rc c3 where "Tss2_Sys_ExecuteAsync (Some c2) = Some (rc, Some c3)" by blast
  with 2 room command_ok_facts [OF 2(2)] GetCommandSize_ok [of c2] show ?thesis
    by (auto simp: same_room_def word_le_nat_alt)
qed

definition ex_auths3 :: TSS2L_SYS_AUTH_COMMAND where
  "ex_auths3 = \<lparr>AUTH_COMMAND_count = 2, AUTH_COMMAND_auths = replicate 3 ex_password\<rparr>"

lemma ex_auths3_src: "auths_src ex_auths3"
  using mu_TPMS_AUTH_COMMAND.valid_src [OF ex_password_valid] by (simp add: auths_src_def ex_auths3_def TSS2_SYS_MAX_SESSIONS_def list_all_iff)

theorem building_is_safe_witness:
  "\<exists>c1 c2 n r. Tss2_Sys_Load_Prepare (Some (ex_ctx [])) 0x81000001 (Some ex_private) None = Some (0, Some c1) \<and>
    run_edits [SetCmdAuths (Some ex_auths3), SetDecryptParam 2 (Some [0xBE, 0xEF]), SetEncryptParam 1 None] (Some c1) = Some (Some c2) \<and>
    GetCommandSize c2 = Some n \<and> n \<le> 4096 \<and> Tss2_Sys_ExecuteAsync (Some c2) = Some r"
proof -
  let ?es = "[SetCmdAuths (Some ex_auths3), SetDecryptParam 2 (Some [0xBE, 0xEF]), SetEncryptParam 1 None]"
  let ?c1 = "prepared TPM2_CC_Load (be_bytes (0x81000001 :: UINT32)) (wire_TPM2B ex_private @ [0, 0]) False True True True (ex_ctx [])"
  have p: "Tss2_Sys_Load_Prepare (Some (ex_ctx [])) 0x81000001 (Some ex_private) None = Some (0, Some ?c1)"
    using prepare_Load.prepare_ok [of "ex_ctx []" "Some ex_private" None "0x81000001"] by simp
  have es: "list_all edit_src ?es" using ex_auths3_src by (simp add: param_src_def)
  have src: "opt_valid (src_TPM2B 1552 1550) (Some ex_private) \<and> opt_valid (\<lambda>s. src_TPMT_PUBLIC (TPM2B_SUBTYPE_member s)) None"
    by code_simp
  from building_is_safe [OF ex_ctx_ok(1) _ prepare_Load.sys_prepare_axioms _ p _ es] src p
  show ?thesis by auto
qed


text \<open>
  C27: A response is never read before a command was sent: a context that was not holding a response
  and does so after some calls had sent a command and was waiting in between.
\<close>

theorem answer_follows_send:
  assumes "ctx_inv c" "sys_call\<^sup>*\<^sup>* c c'"
    and "ctx_previousStage c \<noteq> CMD_STAGE_RECEIVE_RESPONSE" "ctx_previousStage c' = CMD_STAGE_RECEIVE_RESPONSE"
  shows "\<exists>d. sys_call\<^sup>*\<^sup>* c d \<and> ctx_previousStage d = CMD_STAGE_SEND_COMMAND \<and> sys_call\<^sup>*\<^sup>* d c'"
  using assms(2,1,3,4)
proof (induction rule: rtranclp_induct)
  case (step y z)
  show ?case
  proof (cases "ctx_previousStage y = CMD_STAGE_RECEIVE_RESPONSE")
    case True
    with step show ?thesis by (meson rtranclp.rtrancl_into_rtrancl)
  next
    case False
    have "ctx_previousStage z \<in> next_stages (ctx_previousStage y)"
      using sys_call_inv [OF step.hyps(2)] reachable_inv [OF step.hyps(1) step.prems(1)] by blast
    with False step.prems(3) have "ctx_previousStage y = CMD_STAGE_SEND_COMMAND"
      by (auto simp: next_stages_def stages_distinct [symmetric] split: if_splits)
    with step.hyps show ?thesis by blast
  qed
qed simp

lemma ex_steps:
  "\<exists>c'. runs sys_step (ex_ctx (rsp_bytes TPM2_ST_NO_SESSIONS 0 [])) [EvPrepare 0, EvExecuteAsync 0, EvExecuteFinish 0] c' \<and>
    ctx_previousStage c' = CMD_STAGE_RECEIVE_RESPONSE"
proof -
  let ?r = "rsp_bytes TPM2_ST_NO_SESSIONS 0 []" and ?w = "cmd_bytes TPM2_ST_NO_SESSIONS TPM2_CC_GetRandom [] [] (be_bytes (16 :: UINT16))"
  let ?c = "ex_ctx ?r" and ?t = "ex_tcti ?r"
  let ?c1 = "prepared TPM2_CC_GetRandom [] (be_bytes (16 :: UINT16)) False False True True ?c"
  have 1: "sys_step ?c (EvPrepare 0) ?c1"
    using prepare_GetRandom.prepare_ok [of ?c 16] step_prepare [OF prepare_GetRandom.sys_prepare_axioms TrueI, of ?c 16 0] by simp
  have h: "holds_command TPM2_ST_NO_SESSIONS TPM2_CC_GetRandom [] [] (be_bytes (16 :: UINT16)) ?c1"
    by (rule holds_command_prepared) simp_all
  have t: "ctx_tctiContext ?c1 = Some ?t" "ctx_maxCmdSize ?c1 = 4096" by (simp_all add: prepared_def)
  let ?c2 = "?c1\<lparr>ctx_tctiContext := Some (?t\<lparr>TCTI_state := [?w]\<rparr>), ctx_previousStage := CMD_STAGE_SEND_COMMAND,
       ctx_cmd_header := take sizeof_header ?w\<rparr>"
  have "Tss2_Sys_ExecuteAsync (Some ?c1) = Some (0, Some ?c2)"
    using ExecuteAsync_sends [OF h t(1), of "\<lambda>s w. (0, w # s)" 0 "[?w]"] by (simp add: ex_tcti_def)
  then have 2: "sys_step ?c1 (EvExecuteAsync 0) ?c2" by (rule step_async)
  have ok: "ctx_ok ?c2" using h by (simp add: holds_command_def ctx_ok_def)
  have "answers_with (?t\<lparr>TCTI_state := [?w]\<rparr>) 0 (ctx_cmdBuffer ?c2) ?r [?w]"
    using ok t by (simp add: answers_with_def ex_tcti_def ex_receive_def ctx_ok_def)
  from ExecuteFinish_response [OF ok _ _ this] t obtain c3 where
    "Tss2_Sys_ExecuteFinish (Some ?c2) 0 = Some (0, Some c3)" "ctx_previousStage c3 = CMD_STAGE_RECEIVE_RESPONSE"
    by (auto simp: Let_def)
  with 1 2 show ?thesis by (meson step_finish runs_Cons runs_Nil)
qed

lemma runs_calls: "runs sys_step c es c' \<Longrightarrow> sys_call\<^sup>*\<^sup>* c c'"
  by (induction rule: runs.induct) (auto intro: converse_rtranclp_into_rtranclp dest: sys_step_call)


theorem answer_follows_send_witness:
  "\<exists>c' d. ctx_previousStage c' = CMD_STAGE_RECEIVE_RESPONSE \<and> sys_call\<^sup>*\<^sup>* (ex_ctx (rsp_bytes TPM2_ST_NO_SESSIONS 0 [])) d \<and>
    ctx_previousStage d = CMD_STAGE_SEND_COMMAND \<and> sys_call\<^sup>*\<^sup>* d c'"
proof -
  let ?c = "ex_ctx (rsp_bytes TPM2_ST_NO_SESSIONS 0 [])"
  from ex_steps obtain c' where c': "sys_call\<^sup>*\<^sup>* ?c c'" "ctx_previousStage c' = CMD_STAGE_RECEIVE_RESPONSE" using runs_calls by blast
  have "ctx_previousStage ?c \<noteq> CMD_STAGE_RECEIVE_RESPONSE" by (simp add: ex_ctx_def)
  from answer_follows_send [OF ex_ctx_inv c'(1) this c'(2)] c'(2) show ?thesis by blast
qed

section \<open>Setting up\<close>

lemma unat_of_nat_80: "n < 2 ^ 32 \<Longrightarrow> unat (of_nat (80 + n) :: size_t) = 80 + n"
  by (simp add: unat_of_nat del: of_nat_add)

text \<open>
  C28: \<open>Tss2_Sys_Initialize\<close> on a memory block of the size \<open>Tss2_Sys_GetContextSize\<close> names, with a transport that
  has both functions and keeps to its contract, succeeds and establishes the invariant of the API
  in the first stage, ready for a command.
\<close>

theorem Initialize_establishes:
  assumes "length (ctx_cmdBuffer m) + 80 = unat (Tss2_Sys_GetContextSize maxSize)" "length (ctx_cmd_header m) = sizeof_header"
    and "unat maxSize < 2 ^ 32" "TCTI_transmit t \<noteq> None" "TCTI_receive t \<noteq> None" "tcti_ok t"
    and "abi = None \<or> abi = Some TSS2_ABI_VERSION_CURRENT"
  shows "\<exists>c. Tss2_Sys_Initialize (Some m) (Tss2_Sys_GetContextSize maxSize) (Some t) abi = Some (TSS2_RC_SUCCESS, Some c) \<and>
    ctx_inv c \<and> may_prepare c \<and> ctx_tctiContext c = Some t \<and>
    unat (ctx_maxCmdSize c) = (if maxSize = 0 then 8192 else max 10 (unat maxSize))"
proof -
  let ?N = "if maxSize = 0 then 8192 else max 10 (unat maxSize)"
  have size: "Tss2_Sys_GetContextSize maxSize = of_nat (80 + ?N)"
    by (auto simp: Tss2_Sys_GetContextSize_def TPM2_MAX_COMMAND_SIZE_def max_def word_less_nat_alt)
  have N: "?N < 2 ^ 32" "10 \<le> ?N" using assms(3) by (auto simp: max_def)
  have u: "unat (of_nat (80 + ?N) :: size_t) = 80 + ?N" by (rule unat_of_nat_80 [OF N(1)])
  have sz: "(ucast (of_nat (80 + ?N) - 80 :: size_t) :: UINT32) = of_nat ?N" using N(1) ucast_of_nat_32 [of ?N] by simp
  have ge: "\<not> (of_nat (80 + ?N) :: size_t) < 80" unfolding word_less_nat_alt u by simp
  let ?c = "(InitSysContextFields (InitSysContextPtrs (m\<lparr>ctx_tctiContext := Some t\<rparr>) (of_nat (80 + ?N))))
    \<lparr>ctx_previousStage := CMD_STAGE_INITIALIZE\<rparr>"
  have max: "ctx_maxCmdSize ?c = of_nat ?N" using sz by (simp add: InitSysContextFields_def InitSysContextPtrs_def del: of_nat_add)
  have "Tss2_Sys_Initialize (Some m) (Tss2_Sys_GetContextSize maxSize) (Some t) abi = Some (0, Some ?c)"
    using assms(4,5,7) ge unfolding size by (auto simp: Tss2_Sys_Initialize_def Option.is_none_def simp del: of_nat_add)
  moreover have "unat (ctx_maxCmdSize ?c) = ?N" unfolding max using N(1) by (rule unat_of_nat_32)
  moreover have "length (ctx_cmdBuffer ?c) = ?N" "length (ctx_cmd_header ?c) = 10"
    using assms(1,2) u unfolding size by (simp_all add: InitSysContextFields_def InitSysContextPtrs_def del: of_nat_add)
  moreover have "ctx_tctiContext ?c = Some t" "ctx_previousStage ?c = CMD_STAGE_INITIALIZE"
    by (simp_all add: InitSysContextFields_def InitSysContextPtrs_def)
  ultimately show ?thesis using N(2) assms(6) by (auto simp: ctx_inv_def ctx_ok_def may_prepare_def)
qed

theorem Initialize_establishes_witness:
  "\<exists>c. Tss2_Sys_Initialize (Some ((ex_ctx [])\<lparr>ctx_maxCmdSize := 7\<rparr>)) (Tss2_Sys_GetContextSize 4096) (Some (ex_tcti [])) None =
      Some (TSS2_RC_SUCCESS, Some c) \<and> ctx_inv c \<and> may_prepare c \<and> ctx_tctiContext c = Some (ex_tcti []) \<and>
    unat (ctx_maxCmdSize c) = 4096"
proof -
  have "unat (Tss2_Sys_GetContextSize 4096) = 4176" by (simp add: Tss2_Sys_GetContextSize_def)
  with Initialize_establishes [of "(ex_ctx [])\<lparr>ctx_maxCmdSize := 7\<rparr>" 4096 "ex_tcti []" None] show ?thesis
    by (simp add: ex_tcti_ok) (simp add: ex_ctx_def ex_tcti_def)
qed

text \<open>
  \<open>Tss2_Sys_Initialize\<close> checks only for the structure itself.  Of a memory block with room for two to
  nine bytes of command it makes a context in which preparing any command writes the command code
  behind the block.
\<close>

theorem Initialize_small_context:
  assumes "length (ctx_cmdBuffer m) + 80 = unat contextSize" "82 \<le> unat contextSize" "unat contextSize < 90"
    and "TCTI_transmit t \<noteq> None" "TCTI_receive t \<noteq> None"
  shows "\<exists>c. Tss2_Sys_Initialize (Some m) contextSize (Some t) None = Some (TSS2_RC_SUCCESS, Some c) \<and>
    Tss2_Sys_GetRandom_Prepare (Some c) bytesRequested = None"
proof -
  let ?c = "(InitSysContextFields (InitSysContextPtrs (m\<lparr>ctx_tctiContext := Some t\<rparr>) contextSize))
    \<lparr>ctx_previousStage := CMD_STAGE_INITIALIZE\<rparr>"
  let ?d = "(InitSysContextFields ?c)\<lparr>ctx_nextData := 0\<rparr>"
  obtain k where k: "unat contextSize = 80 + k" "2 \<le> k" "k < 10" 
    using assms(2,3) le_Suc_ex [of 80 "unat contextSize"] by auto
  have "of_nat (unat contextSize) = contextSize" by simp
  then have cs: "contextSize = of_nat (80 + k)" by (simp only: k(1))
  have "(ucast (of_nat (80 + k) - 80 :: size_t) :: UINT32) = of_nat k" using k(3) ucast_of_nat_32 [of k] by simp
  then have "ctx_maxCmdSize ?c = of_nat k" by (simp add: cs InitSysContextFields_def InitSysContextPtrs_def del: of_nat_add)
  then have m: "unat (ctx_maxCmdSize ?c) = k" "length (ctx_cmdBuffer ?c) = k"
    using assms(1) k unat_of_nat_32 [of k] by (simp_all add: InitSysContextFields_def InitSysContextPtrs_def)
  have "\<not> contextSize < 80" using assms(2) by (simp add: word_less_nat_alt)
  then have 1: "Tss2_Sys_Initialize (Some m) contextSize (Some t) None = Some (0, Some ?c)"
    using assms(4,5) by (auto simp: Tss2_Sys_Initialize_def Option.is_none_def)
  have md: "unat (ctx_maxCmdSize ?d) = k" "length (ctx_cmdBuffer ?d) = k" using m by (simp_all add: InitSysContextFields_def)
  have p: "put (Tss2_MU_TPM2_ST_Marshal TPM2_ST_NO_SESSIONS) (Some ?d) = Some (0, Some (filled (be_bytes TPM2_ST_NO_SESSIONS) False ?d))"
  proof -
    have "fits_ctx ?d (length (be_bytes TPM2_ST_NO_SESSIONS))" using md(1) k(2) by (simp add: fits_ctx_def fits_def)
    with emitsD [OF emits_put [OF mu_TPM2_ST.marshaler_axioms, of TPM2_ST_NO_SESSIONS], of ?d] md show ?thesis by simp
  qed
  have "header_set 6 TPM2_CC_GetRandom (filled (be_bytes TPM2_ST_NO_SESSIONS) False ?d) = None"
    using md k by (simp add: header_set_def mem_write_def filled_def patch_def)
  then have "CopyCommandHeader (Some (InitSysContextFields ?c)) TPM2_CC_GetRandom = None"
    using p by (simp add: CopyCommandHeader_def)
  then have "CommonPreparePrologue TPM2_CC_GetRandom (Some ?c) = None"
    by (simp add: CommonPreparePrologue_def Let_def) (simp add: InitSysContextFields_def)
  with 1 show ?thesis by (simp add: Tss2_Sys_GetRandom_Prepare_def)
qed

theorem Initialize_small_context_witness:
  "\<exists>c. Tss2_Sys_Initialize (Some ((ex_ctx [])\<lparr>ctx_cmdBuffer := [1, 2, 3]\<rparr>)) 83 (Some (ex_tcti [])) None = Some (TSS2_RC_SUCCESS, Some c) \<and>
    Tss2_Sys_GetRandom_Prepare (Some c) 16 = None"
  by (rule Initialize_small_context) (simp_all add: ex_tcti_def)

section \<open>Parameter encryption\<close>

lemma command_at_params:
  assumes "holds_command tag cc handles area params c"
  shows "\<exists>pre rest. ctx_cmdBuffer c = pre @ params @ rest \<and> length pre = sizeof_header + length handles + length area \<and>
    unat (ctx_cpBuffer c) = length pre \<and> (\<forall>ps. length ps = length params \<longrightarrow> cmd_bytes tag cc handles area ps = pre @ ps) \<and>
    length pre + length params < 2 ^ 32"
proof -
  from assms obtain rest where b: "ctx_cmdBuffer c = cmd_bytes tag cc handles area params @ rest"
    and n: "10 + length handles + length area + length params < 2 ^ 32"
    using unat_32_less [of "ctx_maxCmdSize c"] by (fastforce simp: holds_command_def)
  let ?pre = "be_bytes tag @ be_bytes (of_nat (10 + length handles + length area + length params) :: UINT32) @ be_bytes cc @ handles @ area"
  have "unat (of_nat (10 + length handles + length area) :: size_t) = 10 + length handles + length area"
    using n by (intro unat_of_nat_64) simp
  then show ?thesis using b n assms
    by (intro exI [of _ ?pre] exI [of _ rest]) (simp add: cmd_bytes_def holds_command_def del: of_nat_add)
qed

lemma GetDecryptParam_holds:
  assumes "holds_command tag cc handles area (be_bytes (n :: UINT16) @ ps) c" "ctx_decryptAllowed c"
  shows "Tss2_Sys_GetDecryptParam (Some c) (Some a) (Some b) = Some (0, Some (ucast n), Some (ctx_cpBuffer c + 2))"
proof -
  from command_at_params [OF assms(1)] obtain pre rest where
    b: "ctx_cmdBuffer c = pre @ (be_bytes n @ ps) @ rest" "unat (ctx_cpBuffer c) = length pre" by blast
  have "header_get (ctx_cmdBuffer c) (ctx_cpBuffer c) = Some n"
    using b by (subst header_get_eq) (simp_all add: seg_def)
  then show ?thesis using assms by (simp add: Tss2_Sys_GetDecryptParam_def holds_command_def)
qed

text \<open>
  C29: \<open>Tss2_Sys_SetDecryptParam\<close> replaces the first parameter of a prepared command by bytes of the same
  length and changes nothing else, and \<open>Tss2_Sys_GetDecryptParam\<close> then finds the new bytes.
\<close>

theorem SetDecryptParam_replaces:
  assumes c: "holds_command tag cc handles area (be_bytes n @ old @ others) c" "ctx_decryptAllowed c"
    and n: "length old = unat (n :: UINT16)" "0 < n" "length new = unat n"
    and room: "sizeof_header + length handles + length area + 2 + length old + length others + unat n \<le> unat (ctx_maxCmdSize c)"
  shows "\<exists>c'. Tss2_Sys_SetDecryptParam (Some c) (ucast n) (Some new) = Some (TSS2_RC_SUCCESS, Some c') \<and>
    holds_command tag cc handles area (be_bytes n @ new @ others) c' \<and>
    Tss2_Sys_GetDecryptParam (Some c') (Some 0) (Some 0) =
      Some (TSS2_RC_SUCCESS, Some (ucast n), Some (of_nat (sizeof_header + length handles + length area + 2)))"
proof -
  let ?old = "be_bytes n @ old @ others" and ?new = "be_bytes n @ new @ others" and ?m = "10 + length handles + length area"
  from command_at_params [OF c(1)] obtain pre rest where
    b: "ctx_cmdBuffer c = pre @ ?old @ rest" and pre: "length pre = ?m" "unat (ctx_cpBuffer c) = ?m" "?m + length ?old < 2 ^ 32"
    and cb: "\<And>ps. length ps = length ?old \<Longrightarrow> cmd_bytes tag cc handles area ps = pre @ ps" by auto
  have cp: "ctx_cpBuffer c = of_nat ?m" using c(1) by (simp add: holds_command_def)
  have cp2: "unat (ctx_cpBuffer c + 2) = ?m + 2"
    using pre(3) unat_of_nat_64 [of "?m + 2"] by (simp add: cp)
  let ?c' = "c\<lparr>ctx_cmdBuffer := pre @ ?new @ rest\<rparr>"
  have "mem_write (ctx_cmdBuffer c) (ctx_cpBuffer c) (be_bytes n) = Some (ctx_cmdBuffer c)"
    using pre by (simp add: mem_write_def b patch_def)
  then have hs: "header_set (ctx_cpBuffer c) n c = Some c" by (cases c) (simp add: header_set_def)
  have un: "unat (ucast (ucast n :: size_t) :: UINT32) = unat n" "(ucast (ucast n :: size_t) :: UINT16) = n"
    "(ucast (ucast (ucast n :: size_t) :: UINT32) :: size_t) = ucast n"
  proof -
    have "unat n < 2 ^ 16" using unsigned_less [of n] by simp
    then show "unat (ucast (ucast n :: size_t) :: UINT32) = unat n"
      using ucast_of_nat_32 [of "unat n"] unat_of_nat_32 [of "unat n"] by simp
    show "(ucast (ucast n :: size_t) :: UINT16) = n" by (rule bit_word_eqI) (simp add: bit_simps)
    show "(ucast (ucast (ucast n :: size_t) :: UINT32) :: size_t) = ucast n"
      by (rule bit_word_eqI) (auto simp: bit_simps dest: bit_imp_le_length)
  qed
  have mw: "mem_write (ctx_cmdBuffer c) (ctx_cpBuffer c + 2) new = Some (pre @ ?new @ rest)"
    using pre n cp2 patch_at_end [of "pre @ be_bytes n" "?m + 2" "old @ others @ rest" new]
    by (simp add: mem_write_def b)
  have mr: "mem_read new 0 (unat n) = Some new" using n(3) by (simp add: mem_read_def seg_def)
  let ?N = "?m + length ?old"
  have sz: "GetCommandSize c = Some (of_nat ?N)" using GetCommandSize_holds [OF c(1)] by (simp add: add.assoc)
  have max: "unat (ucast (ctx_maxCmdSize c) :: size_t) = unat (ctx_maxCmdSize c)" by simp
  have "(ucast (of_nat ?N :: UINT32) :: size_t) + ucast n = of_nat (?N + unat n)"
    using ucast_of_nat_64 [OF pre(3)] by simp
  moreover have "unat (of_nat (?N + unat n) :: size_t) = ?N + unat n"
    using room n(1) unat_32_less [of "ctx_maxCmdSize c"] by (intro unat_of_nat_64) simp
  ultimately have le1: "\<not> (ucast (of_nat ?N :: UINT32) :: size_t) + ucast n > ucast (ctx_maxCmdSize c)"
    using room n(1) unfolding word_less_nat_alt max by simp
  have "unat (ctx_cpBuffer c + 2 + ucast n) = unat (of_nat (?m + 2 + unat n) :: size_t)" by (simp add: cp add.assoc)
  also have "\<dots> = ?m + 2 + unat n" using room n(1) unat_32_less [of "ctx_maxCmdSize c"] by (intro unat_of_nat_64) simp
  finally have le2: "\<not> ctx_cpBuffer c + 2 + ucast n > ucast (ctx_maxCmdSize c)"
    using room n(1) unfolding word_less_nat_alt max by simp
  have "unat n < 2 ^ 16" using unsigned_less [of n] by simp
  then have "unat (ucast n :: size_t) = unat n" by (simp add: unsigned_ucast_eq take_bit_nat_eq_self)
  then have n0: "\<not> (ucast n :: size_t) < 1" "(ucast n :: size_t) \<noteq> 0"
    using n(2) by (auto simp: word_less_nat_alt simp del: unat_0)
  have st: "ctx_previousStage c = CMD_STAGE_PREPARE" using c(1) by (simp add: holds_command_def)
  have "Tss2_Sys_SetDecryptParam (Some c) (ucast n) (Some new) = Some (0, Some ?c')"
    using c(2) st n0 sz le1 GetDecryptParam_holds [OF c] hs le2 un mr mw
    by (simp add: Tss2_Sys_SetDecryptParam_def Let_def)
  moreover have "holds_command tag cc handles area ?new ?c'"
    using c(1) cb [of ?new] n pre by (auto simp: holds_command_def ctx_ok_def b)
  ultimately show ?thesis
    using GetDecryptParam_holds [of tag cc handles area n "new @ others" ?c' 0 0] c(2) cp by simp
qed

theorem SetDecryptParam_replaces_witness:
  "\<exists>c c'. Tss2_Sys_Load_Prepare (Some (ex_ctx [])) 0x81000001 (Some ex_private) None = Some (0, Some c) \<and>
    Tss2_Sys_SetDecryptParam (Some c) 2 (Some [0xBE, 0xEF]) = Some (TSS2_RC_SUCCESS, Some c') \<and>
    holds_command TPM2_ST_NO_SESSIONS TPM2_CC_Load (be_bytes (0x81000001 :: UINT32)) []
      (be_bytes (2 :: UINT16) @ [0xBE, 0xEF] @ [0, 0]) c'"
proof -
  let ?c = "prepared TPM2_CC_Load (be_bytes (0x81000001 :: UINT32)) (wire_TPM2B ex_private @ [0, 0]) False True True True (ex_ctx [])"
  have w: "wire_TPM2B ex_private = be_bytes (2 :: UINT16) @ [0xDE, 0xAD]" by code_simp
  have "Tss2_Sys_Load_Prepare (Some (ex_ctx [])) 0x81000001 (Some ex_private) None = Some (0, Some ?c)"
    using prepare_Load.prepare_ok [of "ex_ctx []" "Some ex_private" None "0x81000001"] by simp
  moreover have "holds_command TPM2_ST_NO_SESSIONS TPM2_CC_Load (be_bytes (0x81000001 :: UINT32)) []
      (be_bytes (2 :: UINT16) @ [0xDE, 0xAD] @ [0, 0]) ?c"
    using holds_command_prepared [of "ex_ctx []" "be_bytes (0x81000001 :: UINT32)" "wire_TPM2B ex_private @ [0, 0]" TPM2_CC_Load False True True True]
    by (simp add: w)
  moreover have "ctx_decryptAllowed ?c" "ctx_maxCmdSize ?c = 4096" by (simp_all add: prepared_def)
  ultimately show ?thesis
    using SetDecryptParam_replaces [of TPM2_ST_NO_SESSIONS TPM2_CC_Load "be_bytes (0x81000001 :: UINT32)" "[]" 2 "[0xDE, 0xAD]" "[0, 0]" ?c "[0xBE, 0xEF]"]
    by auto
qed

lemma patch_behind: "patch (xs @ ys) (length xs + i) zs = xs @ patch ys i zs"
  by (simp add: patch_def)

lemma insert_param_moves:
  assumes c: "holds_command tag cc handles area ([0, 0] @ others) c" and b: "ctx_cmdBuffer c = cmd_bytes tag cc handles area ([0, 0] @ others) @ rest"
    and n: "n \<le> 2 + length others"
    and m: "m = sizeof_header + length handles + length area" and room: "m + 2 * (2 + length others) \<le> unat (ctx_maxCmdSize c)"
  shows "\<exists>pre c'. insert_param c (of_nat n) = Some (0, c') \<and> length pre = m \<and> ctx_cpBuffer c' = of_nat m \<and> ctx_maxCmdSize c' = ctx_maxCmdSize c \<and>
    ctx_cmdBuffer c' = pre @ be_bytes (of_nat n :: UINT16) @ patch (others @ rest) (2 + length others) others \<and>
    seg pre 2 4 = be_bytes (of_nat (m + 2 + length others + n) :: UINT32)"
proof -
  let ?k = "length others" and ?X = "others @ rest"
  let ?pre = "be_bytes tag @ be_bytes (of_nat (m + (2 + ?k)) :: UINT32) @ be_bytes cc @ handles @ area"
  let ?N = "of_nat (m + 2 + ?k + n) :: UINT32" and ?n = "be_bytes (of_nat n :: UINT16)"
  let ?Y = "patch ?X (2 + ?k) others" and ?pre' = "be_bytes tag @ be_bytes (of_nat (m + 2 + ?k + n) :: UINT32) @ be_bytes cc @ handles @ area"
  have lm: "m + 2 * (2 + ?k) < 2 ^ 32" using room unat_32_less [of "ctx_maxCmdSize c"] by simp
  have B: "ctx_cmdBuffer c = ?pre @ [0, 0] @ ?X" by (simp add: b cmd_bytes_def m add.assoc)
  have cp: "ctx_cpBuffer c = of_nat m" "ctx_cpBufferUsedSize c = of_nat (2 + ?k)" and ok: "ctx_ok c"
    using c by (simp_all add: holds_command_def m)
  have lp: "length ?pre = m" "length ?pre' = m" by (simp_all add: m)
  have X: "2 + 2 * ?k \<le> length ?X" using ok room B lp(1) by (simp add: ctx_ok_def)
  have u: "unat (of_nat m :: size_t) = m" "unat (of_nat m + 2 :: size_t) = m + 2"
    "unat (of_nat m + (ucast (of_nat (2 + ?k) :: UINT32)) + 2 :: size_t) = m + 2 + (2 + ?k)"
    "unat (of_nat (2 + ?k) - 2 :: UINT32) = ?k" "unat (of_nat m + (ucast (of_nat (2 + ?k) :: UINT32)) + 2 + ucast (of_nat (2 + ?k) - 2 :: UINT32) :: size_t) = m + 2 * (2 + ?k)"
    using lm ucast_of_nat_64 [of "2 + ?k"] ucast_of_nat_64 [of ?k]
    by (auto intro!: unat_small_64 unat_small_32 simp: algebra_simps)
  let ?b1 = "?pre @ [0, 0] @ ?Y"
  let ?c1 = "c\<lparr>ctx_cmdBuffer := ?b1, ctx_cpBufferUsedSize := of_nat (2 + ?k) + ucast (of_nat n :: size_t)\<rparr>"
  let ?c2 = "?c1\<lparr>ctx_cmdBuffer := ?pre @ ?n @ ?Y\<rparr>" and ?c3 = "?c1\<lparr>ctx_cmdBuffer := ?pre' @ ?n @ ?Y\<rparr>"
  have rd: "mem_read (ctx_cmdBuffer c) (of_nat m + 2) ?k = Some others" unfolding mem_read_def u B seg_def by (simp add: m)
  have "patch (?pre @ [0, 0] @ ?X) (m + 2 + (2 + ?k)) others = ?b1"
    using lp(1) patch_behind [of "?pre @ [0, 0]" ?X "2 + ?k" others] by simp
  then have wr: "mem_write (ctx_cmdBuffer c) (of_nat m + ucast (of_nat (2 + ?k) :: UINT32) + 2) others = Some ?b1"
    using lp(1) X unfolding mem_write_def u B by simp
  have "patch ?b1 m ?n = ?pre @ ?n @ ?Y" using lp(1) patch_at_end [of ?pre m "[0, 0] @ ?Y" ?n] by simp
  then have h1: "header_set (of_nat m) (of_nat n :: UINT16) ?c1 = Some ?c2"
    using header_set_eq [of "of_nat m" ?c1 "of_nat n :: UINT16"] lp(1) X by (simp add: u)
  have s2: "seg (?pre @ ?n @ ?Y) 2 4 = be_bytes (of_nat (m + (2 + ?k)) :: UINT32)" by (simp add: seg_def)
  have g: "header_get (ctx_cmdBuffer ?c2) 2 = Some (of_nat (m + (2 + ?k)) :: UINT32)"
    using s2 by (subst header_get_eq) simp_all
  have "patch (?pre @ ?n @ ?Y) 2 (be_bytes ?N) = ?pre' @ ?n @ ?Y"
    using patch_at_end [of "be_bytes tag" 2 _ "be_bytes ?N"] by simp
  then have h2: "header_set 2 ?N ?c2 = Some ?c3" using header_set_eq [of 2 ?c2 ?N] by simp
  have un: "(ucast (of_nat n :: size_t) :: UINT16) = of_nat n" by (rule bit_word_eqI) (auto simp: bit_simps)
  have Nn: "of_nat (m + (2 + ?k)) + ucast (of_nat n :: size_t) = ?N" using lm n ucast_of_nat_32 [of n] by (simp add: add.assoc)
  have lim: "\<not> (of_nat m + ucast (of_nat (2 + ?k) :: UINT32) + 2 + ucast (of_nat (2 + ?k) - 2 :: UINT32) :: size_t) > ucast (ctx_maxCmdSize c)"
    unfolding word_less_nat_alt u using room by simp
  have "insert_param c (of_nat n) = Some (0, ?c3)"
    unfolding insert_param_def Let_def cp if_not_P [OF lim] u(4) un by (simp only: rd wr h1 g Nn h2 option.case)
  then show ?thesis using lp cp by (intro exI [of _ ?pre'] exI [of _ ?c3]) (simp add: seg_def)
qed


text \<open>
  C30: When the first parameter was left out, \<open>Tss2_Sys_SetDecryptParam\<close> moves the parameters behind it
  by the number of bytes already in use instead of the size of the new parameter.  For every command
  whose first parameter was left out and every new parameter of at most that number of bytes (with
  room for the move), the call succeeds, and the command that will be sent has behind the new parameter
  bytes of the old command and of the rest of the buffer: the other parameters follow only if the
  two numbers happen to be equal.
\<close>

theorem SetDecryptParam_misplaces:
  assumes c: "holds_command tag cc handles area ([0, 0] @ others) c" "ctx_cmdBuffer c = cmd_bytes tag cc handles area ([0, 0] @ others) @ rest"
      "ctx_decryptAllowed c" "ctx_decryptNull c"
    and new: "n = length new" "0 < n" "n < 2 ^ 16" "n \<le> u" and u: "u = 2 + length others"
    and m: "m = sizeof_header + length handles + length area" and room: "m + 2 * u \<le> unat (ctx_maxCmdSize c)"
  shows "\<exists>c'. Tss2_Sys_SetDecryptParam (Some c) (of_nat n) (Some new) = Some (TSS2_RC_SUCCESS, Some c') \<and>
    GetCommandSize c' = Some (of_nat (m + u + n)) \<and>
    seg (ctx_cmdBuffer c') m (u + n) =
      be_bytes (of_nat n :: UINT16) @ new @ take (length others) (drop n (take u (others @ rest)) @ others)"
proof -
  let ?k = "length others" and ?Y = "patch (others @ rest) (2 + length others) others" and ?n = "be_bytes (of_nat n :: UINT16)"
  from insert_param_moves [OF c(1,2) new(4) [unfolded u] m room [unfolded u]] obtain pre c1 where
    i: "insert_param c (of_nat n) = Some (0, c1)" and pre: "length pre = m" and cp1: "ctx_cpBuffer c1 = of_nat m"
      "ctx_maxCmdSize c1 = ctx_maxCmdSize c" and b1: "ctx_cmdBuffer c1 = pre @ ?n @ ?Y"
      and sz: "seg pre 2 4 = be_bytes (of_nat (m + 2 + ?k + n) :: UINT32)" by blast
  have ok: "ctx_ok c" "ctx_previousStage c = CMD_STAGE_PREPARE" "ctx_cpBuffer c = of_nat m" using c(1) by (simp_all add: holds_command_def m)
  have lm: "m + 2 * u < 2 ^ 32" using room unat_32_less [of "ctx_maxCmdSize c"] by simp
  have X: "2 + 2 * ?k \<le> length (others @ rest)" using ok(1) room c(2) m u by (simp add: ctx_ok_def)
  have un: "unat (of_nat n :: size_t) = n" "unat (of_nat m + 2 :: size_t) = m + 2" "unat (of_nat m :: size_t) = m"
    "unat (of_nat m + 2 + of_nat n :: size_t) = m + 2 + n"
    using lm new(3,4) u by (auto intro!: unat_small_64)
  have uc: "(ucast (of_nat n :: size_t) :: UINT16) = of_nat n" by (rule bit_word_eqI) (auto simp: bit_simps)
  have uc32: "(ucast (of_nat n :: size_t) :: UINT32) = of_nat n" using new(3) ucast_of_nat_32 [of n] by simp
  have n1: "\<not> (of_nat n :: size_t) < 1" using new(2) by (simp add: word_less_nat_alt un)
  have gs: "GetCommandSize c = Some (of_nat (m + u))" using GetCommandSize_holds [OF c(1)] m u by (simp add: add.assoc)
  have l1: "\<not> ucast (of_nat (m + u) :: UINT32) + (of_nat n :: size_t) > ucast (ctx_maxCmdSize c)"
  proof -
    have "unat (ucast (of_nat (m + u) :: UINT32) + of_nat n :: size_t) = m + u + n"
      using lm new(3,4) ucast_of_nat_64 [of "m + u"] by (auto intro!: unat_small_64)
    then show ?thesis using room new(4) by (simp add: word_less_nat_alt)
  qed
  have "holds_command tag cc handles area (be_bytes (0 :: UINT16) @ others) c" using c(1) by simp
  from GetDecryptParam_holds [OF this c(3), of 0 0] have
    gp: "Tss2_Sys_GetDecryptParam (Some c) (Some 0) (Some 0) = Some (0, Some 0, Some (of_nat m + 2))" using ok(3) by simp
  have "patch (ctx_cmdBuffer c1) m ?n = ctx_cmdBuffer c1" using pre patch_at_end [of pre m "?n @ ?Y" ?n] by (simp add: b1)
  then have hs: "header_set (of_nat m) (of_nat n :: UINT16) c1 = Some c1"
    using header_set_eq [of "of_nat m" c1 "of_nat n :: UINT16"] pre un(3) by (simp add: b1)
  have l2: "\<not> (of_nat m + 2 + ucast (of_nat n :: UINT32) :: size_t) > ucast (ctx_maxCmdSize c1)"
    using room new(3,4) u ucast_of_nat_64 [of n] un(4) cp1(2) by (simp add: word_less_nat_alt)
  let ?b = "pre @ ?n @ new @ drop n ?Y"
  have Y: "n \<le> length ?Y" using X new(4) u by simp
  have "patch (ctx_cmdBuffer c1) (m + 2) new = ?b" using pre new(1) patch_at_end [of "pre @ ?n" "m + 2" ?Y new] by (simp add: b1)
  then have wr: "mem_write (ctx_cmdBuffer c1) (of_nat m + 2) new = Some ?b"
    using pre Y new(1) unfolding mem_write_def un by (simp add: b1)
  have rd: "mem_read new 0 (unat (of_nat n :: UINT32)) = Some new"
    using new(1,3) unat_of_nat_32 [of n] by (simp add: mem_read_def seg_def)
  let ?c = "c1\<lparr>ctx_cmdBuffer := ?b\<rparr>"
  have "Tss2_Sys_SetDecryptParam (Some c) (of_nat n) (Some new) = Some (0, Some ?c)"
    using c(3,4) ok(2) n1 gs l1 gp i hs l2 rd wr cp1(1) unfolding Tss2_Sys_SetDecryptParam_def Let_def
    by (simp add: uc uc32 del: of_nat_add)
  moreover have "GetCommandSize ?c = Some (of_nat (m + u + n))"
    using sz pre m u by (subst GetCommandSize_def, subst header_get_eq) (simp_all add: seg_def add.assoc)
  moreover have "seg ?b m (u + n) = ?n @ new @ take ?k (drop n (take u (others @ rest)) @ others)"
  proof -
    have "?Y = take u (others @ rest) @ others @ drop (u + ?k) (others @ rest)" by (simp add: patch_def u)
    then show ?thesis using pre new(1,4) u X by (simp add: seg_def)
  qed
  ultimately show ?thesis by (intro exI [of _ ?c]) simp
qed


definition ex_small :: "BYTE list list TSS2_SYS_CONTEXT_BLOB" where
  "ex_small = (ex_ctx [])\<lparr>ctx_cmdBuffer := replicate 60 0xEE, ctx_maxCmdSize := 60\<rparr>"

definition ex_outside :: TPM2B where
  "ex_outside = \<lparr>TPM2B_size = 2, TPM2B_buffer = [7, 8] @ replicate 62 0\<rparr>"

theorem SetDecryptParam_misplaces_witness:
  "\<exists>c c'. Tss2_Sys_Create_Prepare (Some ex_small) 0x40000001 None None (Some ex_outside) (Some ex_pcrs) = Some (0, Some c) \<and>
    seg (ctx_cmdBuffer c) 14 12 = [0, 0, 0, 0, 0, 2, 7, 8, 0, 0, 0, 0] \<and>
    Tss2_Sys_SetDecryptParam (Some c) 4 (Some [1, 2, 3, 4]) = Some (TSS2_RC_SUCCESS, Some c') \<and>
    seg (ctx_cmdBuffer c') 14 16 = [0, 4, 1, 2, 3, 4, 7, 8, 0, 0, 0, 0, 0xEE, 0xEE, 0, 0]"
proof -
  let ?others = "[0, 0, 0, 2, 7, 8, 0, 0, 0, 0] :: BYTE list" and ?rest = "replicate 34 0xEE :: BYTE list"
  let ?h = "be_bytes (0x40000001 :: UINT32)"
  let ?c = "prepared TPM2_CC_Create ?h ([0, 0] @ ?others) True True True True ex_small"
  have v: "valid_TPML 16 valid_TPMS_PCR_SELECTION ex_pcrs" "valid_TPM2B 64 ex_outside" by code_simp+
  have w: "wire_TPM2B ex_outside = [0, 2, 7, 8]" "wire_TPML wire_TPMS_PCR_SELECTION ex_pcrs = [0, 0, 0, 0]" by code_simp+
  have ok: "ctx_ok ex_small" "may_prepare ex_small" "unat (ctx_maxCmdSize ex_small) = 60"
    by (simp_all add: ex_small_def ctx_ok_def may_prepare_def) (simp_all add: ex_ctx_def)
  have p: "Tss2_Sys_Create_Prepare (Some ex_small) 0x40000001 None None (Some ex_outside) (Some ex_pcrs) = Some (0, Some ?c)"
    using prepare_Create.prepare_ok [of "Some ex_pcrs" ex_small None None "Some ex_outside" "0x40000001"] ok v w by (simp add: Option.is_none_def)
  have h: "holds_command TPM2_ST_NO_SESSIONS TPM2_CC_Create ?h [] ([0, 0] @ ?others) ?c"
    using ok by (intro holds_command_prepared) simp_all
  have b: "ctx_cmdBuffer ?c = cmd_bytes TPM2_ST_NO_SESSIONS TPM2_CC_Create ?h [] ([0, 0] @ ?others) @ ?rest" by code_simp
  have f: "ctx_decryptAllowed ?c" "ctx_decryptNull ?c" "unat (ctx_maxCmdSize ?c) = 60" using ok(3) by (simp_all add: prepared_def)
  have n: "4 = length [1, 2, 3, 4 :: BYTE]" "(0 :: nat) < 4" "(4 :: nat) < 2 ^ 16" "(4 :: nat) \<le> 12" "12 = 2 + length ?others"
    "14 = sizeof_header + length ?h + length ([] :: BYTE list)" "14 + 2 * 12 \<le> unat (ctx_maxCmdSize ?c)" using f(3) by simp_all
  from SetDecryptParam_misplaces [OF h b f(1,2) n] obtain c' where
    r: "Tss2_Sys_SetDecryptParam (Some ?c) (of_nat 4) (Some [1, 2, 3, 4]) = Some (TSS2_RC_SUCCESS, Some c')"
      "seg (ctx_cmdBuffer c') 14 (12 + 4) = be_bytes (of_nat 4 :: UINT16) @ [1, 2, 3, 4] @ take (length ?others) (drop 4 (take 12 (?others @ ?rest)) @ ?others)"
    by blast
  have e: "be_bytes (of_nat 4 :: UINT16) @ [1, 2, 3, 4] @ take (length ?others) (drop 4 (take 12 (?others @ ?rest)) @ ?others) =
    [0, 4, 1, 2, 3, 4, 7, 8, 0, 0, 0, 0, 0xEE, 0xEE, 0, 0]" by code_simp
  have s: "seg (ctx_cmdBuffer ?c) 14 12 = [0, 0, 0, 0, 0, 2, 7, 8, 0, 0, 0, 0]" unfolding b by code_simp
  have d: "(12 + 4 :: nat) = 16" "(of_nat 4 :: size_t) = 4" by simp_all
  show ?thesis using p s r(1) [unfolded d] r(2) [unfolded e d] by blast
qed

section \<open>A misread handle\<close>

text \<open>
  C31: \<open>Tss2_Sys_SignSequenceStart_Complete\<close> delivers a wrong handle.  The response has its handle at
  offset 10, as for every command with a response handle, but the function reads behind the
  handle area, from offset 14: the caller gets the bytes that follow the handle.
\<close>

theorem SignSequenceStart_wrong_handle:
  assumes "response_holds c (be_bytes handle) (be_bytes (other :: UINT32))"
    and "ctx_rspParamsSize c = 14" "rsp_tag c = TPM2_ST_NO_SESSIONS"
  shows "\<exists>c'. Tss2_Sys_SignSequenceStart_Complete (Some c) (Some d) = Some (TSS2_RC_SUCCESS, Some c', Some other, ()) \<and>
    seg (ctx_cmdBuffer c) 10 4 = be_bytes (handle :: UINT32)"
proof -
  have c: "ctx_ok c" "c\<lparr>ctx_nextData := 10\<rparr> = c" and h: "seg (ctx_cmdBuffer c) 10 4 = be_bytes handle"
    using assms(1) by (auto simp: response_holds_def holds_at_def)
  from after_CommonComplete(2) [OF reads_Cons [OF mu_UINT32.unmarshaler_axioms reads_Nil] c(1), of "(Some d, ())" "(Some other, ())" "be_bytes handle"]
  obtain c' out where "steps (on_fst CommonComplete # [get_out Tss2_MU_UINT32_Unmarshal]) (Some c, Some d, ()) = Some (0, Some c', out, ())"
    "ptr_wire be_bytes out = be_bytes other" using assms(1) c(2) by auto
  then show ?thesis using h by (simp add: Tss2_Sys_SignSequenceStart_Complete_def ptr_wire_simps)
qed

definition ex_sequence :: "BYTE list list TSS2_SYS_CONTEXT_BLOB" where
  "ex_sequence = (answered (ex_tcti []) [] (rsp_bytes TPM2_ST_NO_SESSIONS 0 (be_bytes (0x80000007 :: UINT32) @ be_bytes (0xEEEEEEEE :: UINT32)))
     ((ex_ctx [])\<lparr>ctx_rspParamsSize := 14\<rparr>))\<lparr>ctx_previousStage := CMD_STAGE_RECEIVE_RESPONSE\<rparr>"

lemma ex_sequence_holds:
  "response_holds ex_sequence (be_bytes (0x80000007 :: UINT32)) (be_bytes (0xEEEEEEEE :: UINT32))"
  unfolding ex_sequence_def
  by (rule response_holds_answered [where psize = "[]" and rest = "[]" and k = 0]) simp_all

theorem SignSequenceStart_wrong_handle_witness:
  "\<exists>c'. Tss2_Sys_SignSequenceStart_Complete (Some ex_sequence) (Some 0) = Some (TSS2_RC_SUCCESS, Some c', Some 0xEEEEEEEE, ()) \<and>
    seg (ctx_cmdBuffer ex_sequence) 10 4 = be_bytes (0x80000007 :: UINT32)"
proof -
  have "rsp_tag ex_sequence = TPM2_ST_NO_SESSIONS"
    by (simp add: ex_sequence_def rsp_tag_def answered_def ex_ctx_def seg_answered) (simp add: seg_def rsp_bytes_def)
  then show ?thesis
    using SignSequenceStart_wrong_handle [OF ex_sequence_holds, of 0] by (simp add: ex_sequence_def answered_def)
qed

end
