(* ===== verification/RC_Decode.thy ===== *)
theory RC_Decode
  imports TSS_Prelude
begin

text \<open>
  Decoding of return codes (\<open>src/tss2-rc/tss2_rc.c\<close>): the bit fields of a code, the tables of messages,
  the table of layer handlers with its registration function, and the three decoders.  A C string
  is its list of characters; a static buffer of \<open>len\<close> bytes holds at most \<open>len - 1\<close> of them.
\<close>

unbundle bit_operations_syntax

section \<open>Bit fields\<close>

definition tpm2_error_get :: "TSS2_RC \<Rightarrow> UINT16" where
  "tpm2_error_get rc = ucast (rc AND 0xFFFF)"

definition tss2_rc_layer_number_get :: "TSS2_RC \<Rightarrow> UINT8" where
  "tss2_rc_layer_number_get rc = ucast (drop_bit 16 (rc AND TSS2_RC_LAYER_MASK))"

definition tpm2_rc_fmt1_N_get :: "UINT32 \<Rightarrow> UINT8" where
  "tpm2_rc_fmt1_N_get rc = ucast (drop_bit 8 (rc AND push_bit 8 0xF))"

definition tpm2_rc_fmt1_N_index_get :: "UINT32 \<Rightarrow> UINT8" where
  "tpm2_rc_fmt1_N_index_get rc = tpm2_rc_fmt1_N_get rc AND 7"

definition tpm2_rc_fmt1_N_is_handle :: "UINT32 \<Rightarrow> bool" where
  "tpm2_rc_fmt1_N_is_handle rc \<longleftrightarrow> tpm2_rc_fmt1_N_get rc AND 8 = 0"

definition tpm2_rc_fmt1_P_get :: "UINT32 \<Rightarrow> UINT8" where
  "tpm2_rc_fmt1_P_get rc = ucast (drop_bit 6 (rc AND push_bit 6 1))"

definition tpm2_rc_fmt1_error_get :: "UINT32 \<Rightarrow> UINT8" where
  "tpm2_rc_fmt1_error_get rc = ucast (rc AND 0x3F)"

definition tpm2_rc_fmt0_error_get :: "UINT32 \<Rightarrow> UINT8" where
  "tpm2_rc_fmt0_error_get rc = ucast (rc AND 0x7F)"

definition tpm2_rc_tpm_fmt0_V_get :: "UINT32 \<Rightarrow> UINT8" where
  "tpm2_rc_tpm_fmt0_V_get rc = ucast (drop_bit 8 (rc AND push_bit 8 1))"

definition tpm2_rc_fmt0_T_get :: "UINT32 \<Rightarrow> UINT8" where
  "tpm2_rc_fmt0_T_get rc = ucast (drop_bit 8 (rc AND push_bit 10 1))"

definition tpm2_rc_fmt0_S_get :: "UINT32 \<Rightarrow> UINT8" where
  "tpm2_rc_fmt0_S_get rc = ucast (drop_bit 8 (rc AND push_bit 11 1))"

definition tss2_rc_layer_format_get :: "UINT32 \<Rightarrow> UINT8" where
  "tss2_rc_layer_format_get rc = ucast (drop_bit 7 (rc AND push_bit 7 1))"

section \<open>Messages\<close>

definition fmt1_err_strs :: "string option list" where
  "fmt1_err_strs =
     [None,
      Some ''asymmetric algorithm not supported or not correct'',
      Some ''inconsistent attributes'',
      Some ''hash algorithm not supported or not appropriate'',
      Some ''value is out of range or is not correct for the context'',
      Some ''hierarchy is not enabled or is not correct for the use'',
      None,
      Some ''key size is not supported'',
      Some ''mask generation function not supported'',
      Some ''mode of operation not supported'',
      Some ''the type of the value is not appropriate for the use'',
      Some ''the handle is not correct for the use'',
      Some ''unsupported key derivation function or function not appropriate for use'',
      Some ''value was out of allowed range'',
      Some ''the authorization HMAC check failed and DA counter incremented'',
      Some ''invalid nonce size or nonce value mismatch'',
      Some ''authorization requires assertion of PP'',
      None,
      Some ''unsupported or incompatible scheme'',
      None,
      None,
      Some ''structure is the wrong size'',
      Some ''unsupported symmetric algorithm or key size or not appropriate for instance'',
      Some ''incorrect structure tag'',
      Some ''union selector is incorrect'',
      None,
      Some ''the TPM was unable to unmarshal a value because there were not enough octets in the input buffer'',
      Some ''the signature is not valid'',
      Some ''key fields are not compatible with the selected use'',
      Some ''a policy check failed'',
      None,
      Some ''integrity check failed'',
      Some ''invalid ticket'',
      Some ''reserved bits not set to zero as required'',
      Some ''authorization failure without DA implications'',
      Some ''the policy has expired'',
      Some ''the commandCode in the policy is not the commandCode of the command or the command code in a policy command references a command that is not implemented'',
      Some ''public and sensitive portions of an object are not cryptographically bound'',
      Some ''curve not supported'',
      Some ''point is not on the required curve'',
      Some ''the command requires the firmware secret but the firmware secret is unavailable'',
      Some ''the command requires the firmware SVN secret but the firmware SVN secret is unavailable'']"

definition fmt0_warn_strs :: "string option list" where
  "fmt0_warn_strs =
     [None,
      Some ''gap for context ID is too large'',
      Some ''out of memory for object contexts'',
      Some ''out of memory for session contexts'',
      Some ''out of shared objectsession memory or need space for internal operations'',
      Some ''out of session handles'',
      Some ''out of object handles'',
      Some ''bad locality'',
      Some ''the TPM has suspended operation on the command forward progress was made and the command may be retried'',
      Some ''the command was canceled'',
      Some ''TPM is performing selftests'',
      None,
      None,
      None,
      None,
      None,
      Some ''the 1st handle in the handle area references a transient object or session that is not loaded'',
      Some ''the 2nd handle in the handle area references a transient object or session that is not loaded'',
      Some ''the 3rd handle in the handle area references a transient object or session that is not loaded'',
      Some ''the 4th handle in the handle area references a transient object or session that is not loaded'',
      Some ''the 5th handle in the handle area references a transient object or session that is not loaded'',
      Some ''the 6th handle in the handle area references a transient object or session that is not loaded'',
      Some ''the 7th handle in the handle area references a transient object or session that is not loaded'',
      None,
      Some ''the 1st authorization session handle references a session that is not loaded'',
      Some ''the 2nd authorization session handle references a session that is not loaded'',
      Some ''the 3rd authorization session handle references a session that is not loaded'',
      Some ''the 4th authorization session handle references a session that is not loaded'',
      Some ''the 5th session handle references a session that is not loaded'',
      Some ''the 6th session handle references a session that is not loaded'',
      Some ''the 7th authorization session handle references a session that is not loaded'',
      None,
      Some ''the TPM is rate limiting accesses to prevent wearout of NV'',
      Some ''authorizations for objects subject to DA protection are not allowed at this time because the TPM is in DA lockout mode'',
      Some ''the TPM was not able to start the command'',
      Some ''the command may require writing of NV and NV is not current accessible'']"

definition fmt0_err_strs :: "string option list" where
  "fmt0_err_strs =
     [Some ''TPM not initialized by TPM2_Startup or already initialized'',
      Some ''commands not being accepted because of a TPM failure'',
      None,
      Some ''improper use of a sequence handle'',
      None,
      None,
      None,
      None,
      None,
      None,
      None,
      Some ''not currently used'',
      None,
      None,
      None,
      None,
      None,
      None,
      None,
      None,
      None,
      None,
      None,
      None,
      None,
      Some ''not currently used'',
      None,
      None,
      None,
      None,
      None,
      None,
      Some ''the command is disabled'',
      Some ''command failed because audit sequence required exclusivity'',
      None,
      None,
      Some ''authorization handle is not correct for command'',
      Some ''command requires an authorization session for handle and it is not present'',
      Some ''policy failure in math operation or an invalid authPolicy value'',
      Some ''PCR check fail'',
      Some ''PCR have changed since checked'',
      None,
      None,
      None,
      None,
      Some ''For all commands, other than TPM2_FieldUpgradeData, this code indicates that the TPM is in field upgrade mode. For TPM2_FieldUpgradeData, this code indicates that the TPM is not in field upgrade mode'',
      Some ''context ID counter is at maximum'',
      Some ''authValue or authPolicy is not available for selected entity'',
      Some ''a _TPM_Init and StartupCLEAR is required before the TPM can resume operation'',
      Some ''the protection algorithms hash and symmetric are not reasonably balanced. The digest size of the hash must be larger than the key size of the symmetric algorithm.'',
      None,
      None,
      None,
      None,
      None,
      None,
      None,
      None,
      None,
      None,
      None,
      None,
      None,
      None,
      None,
      None,
      Some ''command commandSize value is inconsistent with contents of the command buffer. Either the size is not the same as the octets loaded by the hardware interface layer or the value is not large enough to hold a command header'',
      Some ''command code not supported'',
      Some ''the value of authorizationSize is out of range or the number of octets in the Authorization Area is greater than required'',
      Some ''use of an authorization session with a context command or another command that cannot have an authorization session'',
      Some ''NV offset+size is out of range'',
      Some ''Requested allocation size is larger than allowed'',
      Some ''NV access locked'',
      Some ''NV access authorization fails in command actions'',
      Some ''an NV Index is used before being initialized or the state saved by TPM2_ShutdownSTATE could not be restored'',
      Some ''insufficient space for NV allocation'',
      Some ''NV Index or persistent object already defined'',
      None,
      None,
      None,
      Some ''context in TPM2_ContextLoad is not valid'',
      Some ''cpHash value already set or not correct for use'',
      Some ''handle for parent is not a valid parent'',
      Some ''some function needs testing'',
      Some ''returned when an internal function cannot process a request due to an unspecified problem. This code is usually related to invalid parameters that are not properly filtered by the input unmarshaling code'',
      Some ''the sensitive area did not unmarshal correctly after decryption'']"

definition tss_errors :: "string option list" where
  "tss_errors =
     [Some ''Catch all for all errors not otherwise specified'',
      Some ''If called functionality isn't implemented'',
      Some ''A context structure is bad'',
      Some ''Passed in ABI version doesn't match called module's ABI version'',
      Some ''A pointer is NULL that isn't allowed to be NULL.'',
      Some ''A buffer isn't large enough'',
      Some ''Function called in the wrong order'',
      Some ''Fails to connect to next lower layer'',
      Some ''Operation timed out; function must be called again to be completed'',
      Some ''IO failure'',
      Some ''A parameter has a bad value'',
      Some ''Operation not permitted.'',
      Some ''Session structures were sent, but command doesn't use them or doesn't use the specified number of them'',
      Some ''If function called that uses decrypt parameter, but command doesn't support decrypt parameter.'',
      Some ''If function called that uses encrypt parameter, but command doesn't support decrypt parameter.'',
      Some ''If size of a parameter is incorrect'',
      Some ''Response is malformed'',
      Some ''Context not large enough'',
      Some ''Response is not long enough'',
      Some ''Unknown or unusable TCTI version'',
      Some ''Functionality not supported'',
      Some ''TCTI context is bad'',
      Some ''Failed to allocate memory'',
      Some ''The ESYS_TR resource object is bad'',
      Some ''Multiple sessions were marked with attribute decrypt'',
      Some ''Multiple sessions were marked with attribute encrypt'',
      Some ''Authorizing the TPM response failed'',
      Some ''No config is available'',
      Some ''The provided path is bad'',
      Some ''The object is not deletable'',
      Some ''The provided path already exists'',
      Some ''The key was not found'',
      Some ''Signature verification failed'',
      Some ''Hashes mismatch'',
      Some ''Key is not duplicatable'',
      Some ''The path was not found'',
      Some ''No certificate'',
      Some ''No PCR'',
      Some ''PCR not resettable'',
      Some ''The template is bad'',
      Some ''Authorization failed'',
      Some ''Authorization is unknown'',
      Some ''NV is not readable'',
      Some ''NV is too small'',
      Some ''NV is not writable'',
      Some ''The policy is unknown'',
      Some ''The NV type is wrong'',
      Some ''The name already exists'',
      Some ''No TPM available'',
      Some ''The key is bad'',
      Some ''No handle provided'',
      Some ''Provisioning was not executed.'',
      Some ''Already provisioned'']"

definition table_get :: "string option list \<Rightarrow> nat \<Rightarrow> string option" where
  "table_get strs i = (if i < length strs then strs ! i else None)"

definition tss2_fmt1_err_strs_get :: "TSS2_RC \<Rightarrow> string option" where
  "tss2_fmt1_err_strs_get error = table_get fmt1_err_strs (unat error)"

definition tss2_fmt0_err_strs_get :: "TSS2_RC \<Rightarrow> string option" where
  "tss2_fmt0_err_strs_get rc =
     table_get (if tpm2_rc_fmt0_S_get rc \<noteq> 0 then fmt0_warn_strs else fmt0_err_strs)
       (unat (tpm2_rc_fmt0_error_get rc))"

section \<open>Formatted output\<close>

text \<open>
  \<open>catbuf\<close> appends as much as the buffer holds.  The conversions \<open>%u\<close> and \<open>%X\<close> print without leading
  zeros.
\<close>

definition catbuf :: "nat \<Rightarrow> string \<Rightarrow> string \<Rightarrow> string" where
  "catbuf len buf s = buf @ take (len - 1 - length buf) s"

definition digit :: "nat \<Rightarrow> char" where
  "digit d = (''0123456789ABCDEF'' ! d)"

fun print_base :: "nat \<Rightarrow> nat \<Rightarrow> string" where
  "print_base b n = (if b < 2 \<or> n < b then [digit n] else print_base b (n div b) @ [digit (n mod b)])"

declare print_base.simps [simp del]

definition TSS2_ERR_LAYER_NAME_MAX :: nat where "TSS2_ERR_LAYER_NAME_MAX = 17"
definition TSS2_ERR_LAYER_ERROR_STR_MAX :: nat where "TSS2_ERR_LAYER_ERROR_STR_MAX = 512"

section \<open>Handlers\<close>

type_synonym TSS2_RC_HANDLER = "TSS2_RC \<Rightarrow> string option"

definition tpm2_err_handler_fmt1 :: TSS2_RC_HANDLER where
  "tpm2_err_handler_fmt1 rc =
     (let len = TSS2_ERR_LAYER_ERROR_STR_MAX + 1;
          index = tpm2_rc_fmt1_N_index_get rc;
          is_handle = tpm2_rc_fmt1_N_is_handle rc;
          m = (if tpm2_rc_fmt1_P_get rc \<noteq> 0 then ''parameter'' else if is_handle then ''handle'' else ''session'');
          buf = catbuf len [] m;
          buf = (if index \<noteq> 0 then catbuf len buf (''('' @ print_base 10 (unat index) @ ''):'') else catbuf len buf ''(unk):'');
          errnum = tpm2_rc_fmt1_error_get rc
      in Some (case tss2_fmt1_err_strs_get (ucast errnum) of
                 Some m \<Rightarrow> catbuf len buf m
               | None \<Rightarrow> catbuf len buf (''unknown error num: 0x'' @ print_base 16 (unat errnum))))"

definition tpm2_err_handler_fmt0 :: TSS2_RC_HANDLER where
  "tpm2_err_handler_fmt0 rc =
     (let len = TSS2_ERR_LAYER_ERROR_STR_MAX + 1;
          e = (if tpm2_rc_fmt0_S_get rc \<noteq> 0 then ''warn'' else ''error'');
          v = (if tpm2_rc_tpm_fmt0_V_get rc \<noteq> 0 then ''2.0'' else ''1.2'');
          buf = catbuf len [] (e @ ''('' @ v @ ''): '');
          errnum = tpm2_rc_fmt0_error_get rc
      in if tpm2_rc_tpm_fmt0_V_get rc \<noteq> 0 then
           if tpm2_rc_fmt0_T_get rc \<noteq> 0
           then Some (catbuf len buf (''Vendor specific error: 0x'' @ print_base 16 (unat errnum)))
           else map_option (catbuf len buf) (tss2_fmt0_err_strs_get rc)
         else Some (catbuf len buf ''unknown version 1.2 error code''))"

definition tpm2_ehandler :: TSS2_RC_HANDLER where
  "tpm2_ehandler rc = (if tss2_rc_layer_format_get rc \<noteq> 0 then tpm2_err_handler_fmt1 rc else tpm2_err_handler_fmt0 rc)"

definition tss_err_handler :: TSS2_RC_HANDLER where
  "tss_err_handler rc = table_get tss_errors (unat (rc - 1))"

record layer_entry =
  layer_name :: string
  layer_fn :: "TSS2_RC_HANDLER option"

type_synonym layer_table = "layer_entry list"

definition null_handler :: layer_entry where
  "null_handler = \<lparr>layer_name = [], layer_fn = None\<rparr>"

definition layer_handler :: layer_table where
  "layer_handler =
     [\<lparr>layer_name = ''tpm'', layer_fn = Some tpm2_ehandler\<rparr>,
      null_handler, null_handler, null_handler, null_handler, null_handler,
      \<lparr>layer_name = ''fapi'', layer_fn = Some tss_err_handler\<rparr>,
      \<lparr>layer_name = ''esapi'', layer_fn = Some tss_err_handler\<rparr>,
      \<lparr>layer_name = ''sys'', layer_fn = Some tss_err_handler\<rparr>,
      \<lparr>layer_name = ''mu'', layer_fn = Some tss_err_handler\<rparr>,
      \<lparr>layer_name = ''tcti'', layer_fn = Some tss_err_handler\<rparr>,
      \<lparr>layer_name = ''rmt'', layer_fn = Some tpm2_ehandler\<rparr>,
      \<lparr>layer_name = ''rm'', layer_fn = None\<rparr>,
      \<lparr>layer_name = ''policy'', layer_fn = Some tss_err_handler\<rparr>] @ replicate 242 null_handler"

definition unknown_layer_handler :: "TSS2_RC \<Rightarrow> string" where
  "unknown_layer_handler rc = catbuf 32 [] (''0x'' @ print_base 16 (unat rc))"

text \<open>The table is global state of the library: registration returns the changed table.\<close>

definition Tss2_RC_SetHandler ::
  "UINT8 \<Rightarrow> string option \<Rightarrow> TSS2_RC_HANDLER option \<Rightarrow> layer_table \<Rightarrow> TSS2_RC_HANDLER option \<times> layer_table" where
  "Tss2_RC_SetHandler layer name' handler tab =
     (let i = unat layer; old = layer_fn (tab ! i) in
      (old, tab[i := \<lparr>layer_name = (case (handler, name') of
                         (Some _, Some n) \<Rightarrow> take (TSS2_ERR_LAYER_NAME_MAX - 1) n
                       | _ \<Rightarrow> []),
              layer_fn = handler\<rparr>]))"

section \<open>Decoders\<close>

definition Tss2_RC_Decode :: "layer_table \<Rightarrow> TSS2_RC \<Rightarrow> string" where
  "Tss2_RC_Decode tab rc =
     (let len = TSS2_ERR_LAYER_NAME_MAX + TSS2_ERR_LAYER_ERROR_STR_MAX + 1;
          layer = tss2_rc_layer_number_get rc;
          handler = layer_fn (tab ! unat layer);
          lname = layer_name (tab ! unat layer);
          buf = (if lname \<noteq> [] then catbuf len [] (lname @ '':'') else catbuf len [] (print_base 10 (unat layer) @ '':''))
      in (case handler of
            Some h \<Rightarrow>
              let err_bits = tpm2_error_get rc in
              (case (if err_bits \<noteq> 0 then h (ucast err_bits) else Some ''success'') of
                 Some e \<Rightarrow> catbuf len buf e
               | None \<Rightarrow> catbuf len buf (''0x'' @ print_base 16 (unat err_bits)))
          | None \<Rightarrow> catbuf len buf (unknown_layer_handler rc)))"

record TSS2_RC_INFO =
  INFO_layer :: UINT8
  INFO_format :: UINT8
  INFO_error :: TSS2_RC
  INFO_parameter :: UINT8
  INFO_session :: UINT8
  INFO_handle :: UINT8

definition TSS2_BASE_RC_BAD_REFERENCE :: TSS2_RC where "TSS2_BASE_RC_BAD_REFERENCE = 5"

definition TPM2_RC_FMT1 :: UINT32 where "TPM2_RC_FMT1 = 0x80"

definition Tss2_RC_DecodeInfo :: "TSS2_RC \<Rightarrow> TSS2_RC_INFO option \<Rightarrow> TSS2_RC \<times> TSS2_RC_INFO option" where
  "Tss2_RC_DecodeInfo rc info =
     (case info of
        None \<Rightarrow> (TSS2_BASE_RC_BAD_REFERENCE, None)
      | Some _ \<Rightarrow>
          let info = \<lparr>INFO_layer = tss2_rc_layer_number_get rc, INFO_format = tss2_rc_layer_format_get rc, INFO_error = 0,
                INFO_parameter = 0, INFO_session = 0, INFO_handle = 0\<rparr>;
              n = tpm2_rc_fmt1_N_index_get rc
          in (TSS2_RC_SUCCESS, Some
               (if INFO_format info \<noteq> 0 then
                  let info = info\<lparr>INFO_error := ucast (tpm2_rc_fmt1_error_get rc) OR TPM2_RC_FMT1\<rparr> in
                  if tpm2_rc_fmt1_P_get rc \<noteq> 0 then info\<lparr>INFO_parameter := n\<rparr>
                  else if tpm2_rc_fmt1_N_is_handle rc then info\<lparr>INFO_handle := n\<rparr>
                  else info\<lparr>INFO_session := n\<rparr>
                else info\<lparr>INFO_error := ucast (tpm2_error_get rc)\<rparr>)))"

definition Tss2_RC_DecodeInfoError :: "TSS2_RC_INFO option \<Rightarrow> string option" where
  "Tss2_RC_DecodeInfoError info =
     (case info of
        None \<Rightarrow> None
      | Some i \<Rightarrow>
          let len = TSS2_ERR_LAYER_ERROR_STR_MAX + 1;
              m = (if INFO_format i \<noteq> 0 then tss2_fmt1_err_strs_get (INFO_error i XOR TPM2_RC_FMT1)
                   else tss2_fmt0_err_strs_get (INFO_error i XOR 0x100)) in
          Some (case m of
                  Some m \<Rightarrow> catbuf len [] m
                | None \<Rightarrow> catbuf len [] (''0x'' @ print_base 16 (unat (INFO_error i)))))"

end
