(* ===== verification/RC_Properties.thy ===== *)
theory RC_Properties
  imports RC_Decode
begin

text \<open>
  Correctness of the return code library: what the decoded form keeps of a code, what the printed
  form shows of it, and what registering a handler changes.
\<close>

unbundle bit_operations_syntax

section \<open>The fields of a code\<close>

lemma all_less_list: "(\<forall>n < k. P n) \<longleftrightarrow> list_all P [0..<k]"
  by (auto simp: list_all_iff)

lemma word8_bits: "(x :: UINT8) = y \<longleftrightarrow> list_all (\<lambda>n. bit x n = bit y n) [0..<8]"
  using all_less_list [of 8 "\<lambda>n. bit x n = bit y n"] by (auto simp: bit_word_eqI bit_eq_iff)

lemma word16_bits: "(x :: UINT16) = y \<longleftrightarrow> list_all (\<lambda>n. bit x n = bit y n) [0..<16]"
  using all_less_list [of 16 "\<lambda>n. bit x n = bit y n"] by (auto simp: bit_word_eqI bit_eq_iff)

lemma word32_bits: "(x :: UINT32) = y \<longleftrightarrow> list_all (\<lambda>n. bit x n = bit y n) [0..<32]"
  using all_less_list [of 32 "\<lambda>n. bit x n = bit y n"] by (auto simp: bit_word_eqI bit_eq_iff)

lemmas bitwise_simps = bit_simps bit_numeral_rec upt_rec

lemma format_get_bit: "tss2_rc_layer_format_get rc \<noteq> 0 \<longleftrightarrow> bit rc 7"
  by (simp add: tss2_rc_layer_format_get_def word8_bits bitwise_simps)

lemma P_get_bit: "tpm2_rc_fmt1_P_get rc \<noteq> 0 \<longleftrightarrow> bit rc 6"
  by (simp add: tpm2_rc_fmt1_P_get_def word8_bits bitwise_simps)

lemma unat_ucast_8_32: "unat (ucast (x :: UINT8) :: UINT32) = unat x"
proof -
  have "unat x < 2 ^ LENGTH(8)" by (rule unsigned_less)
  then have "unat x < 2 ^ LENGTH(32)" by (rule less_le_trans) simp
  then show ?thesis unfolding unsigned_ucast_eq by (rule take_bit_nat_eq_self)
qed

lemma unat_ucast_16_32: "unat (ucast (x :: UINT16) :: UINT32) = unat x"
proof -
  have "unat x < 65536" using unsigned_less [of x] by simp
  then show ?thesis by (simp add: unsigned_ucast_eq take_bit_nat_eq_self)
qed

lemma field_masks:
  "(ucast (tpm2_rc_fmt1_N_index_get rc) :: UINT32) = drop_bit 8 rc AND 7"
  "(ucast (tpm2_rc_fmt1_error_get rc) :: UINT32) = rc AND 0x3F"
  "(ucast (tpm2_rc_fmt0_error_get rc) :: UINT32) = rc AND 0x7F"
  "(ucast (tpm2_error_get rc) :: UINT32) = rc AND 0xFFFF"
  by (simp_all add: word32_bits tpm2_rc_fmt1_N_index_get_def tpm2_rc_fmt1_N_get_def tpm2_rc_fmt1_error_get_def
      tpm2_rc_fmt0_error_get_def tpm2_error_get_def bitwise_simps)

lemma unat_fields:
  "unat (tpm2_rc_fmt1_N_index_get rc) = unat (drop_bit 8 rc AND 7)"
  "unat (tpm2_rc_fmt1_error_get rc) = unat (rc AND 0x3F)"
  "unat (tpm2_rc_fmt0_error_get rc) = unat (rc AND 0x7F)"
  "unat (tpm2_error_get rc) = unat (rc AND 0xFFFF)"
  by (simp_all only: unat_ucast_8_32 [symmetric] unat_ucast_16_32 [symmetric] field_masks)

lemma N_index_zero: "tpm2_rc_fmt1_N_index_get rc = 0 \<longleftrightarrow> drop_bit 8 rc AND 7 = 0"
  using unat_fields(1) [of rc] by (simp add: unat_eq_0 [symmetric])


lemma N_is_handle_bit: "tpm2_rc_fmt1_N_is_handle rc \<longleftrightarrow> \<not> bit rc 11"
  by (simp add: tpm2_rc_fmt1_N_is_handle_def tpm2_rc_fmt1_N_get_def word8_bits bitwise_simps)


definition encode_info :: "TSS2_RC_INFO \<Rightarrow> TSS2_RC" where
  "encode_info i =
     TSS2_RC_LAYER (ucast (INFO_layer i)) OR INFO_error i OR
     (if INFO_parameter i \<noteq> 0 then 0x40 OR push_bit 8 (ucast (INFO_parameter i))
      else if INFO_handle i \<noteq> 0 then push_bit 8 (ucast (INFO_handle i))
      else if INFO_session i \<noteq> 0 then 0x800 OR push_bit 8 (ucast (INFO_session i))
      else 0)"


lemmas index_defs = tpm2_rc_fmt1_N_index_get_def tpm2_rc_fmt1_N_get_def

lemma encode_fmt0:
  "\<not> bit rc 7 \<Longrightarrow>
   TSS2_RC_LAYER (ucast (tss2_rc_layer_number_get rc)) OR ucast (tpm2_error_get rc) = rc AND 0xFFFFFF"
  by (simp add: word32_bits rc_layer_defs tss2_rc_layer_number_get_def tpm2_error_get_def bitwise_simps)
     (simp add: numeral_eq_Suc)

lemma encode_fmt1:
  "bit rc 7 \<Longrightarrow>
   TSS2_RC_LAYER (ucast (tss2_rc_layer_number_get rc)) OR (ucast (tpm2_rc_fmt1_error_get rc) OR TPM2_RC_FMT1)
     = rc AND 0xFF00BF"
  by (simp add: word32_bits rc_layer_defs tss2_rc_layer_number_get_def tpm2_rc_fmt1_error_get_def TPM2_RC_FMT1_def
      bitwise_simps)
     (simp add: numeral_eq_Suc)

lemma encode_fmt1_with:
  "bit rc 7 \<Longrightarrow>
   TSS2_RC_LAYER (ucast (tss2_rc_layer_number_get rc)) OR (ucast (tpm2_rc_fmt1_error_get rc) OR TPM2_RC_FMT1) OR x
     = (rc AND 0xFF00BF) OR x"
  by (simp add: encode_fmt1 [symmetric] or.assoc)

lemma encode_index:
  "push_bit 8 (ucast (tpm2_rc_fmt1_N_index_get rc)) = (rc AND 0x700 :: TSS2_RC)"
  by (simp add: word32_bits index_defs bitwise_simps) (simp add: numeral_eq_Suc)

lemma index_mask_zero: "drop_bit 8 rc AND 7 = 0 \<longleftrightarrow> (rc AND 0x700 :: TSS2_RC) = 0"
  by (simp add: word32_bits bitwise_simps) (simp add: numeral_eq_Suc)

lemma encode_add_parameter:
  "bit rc 6 \<Longrightarrow> (rc AND 0xFF00BF) OR (0x40 OR (rc AND 0x700)) = (rc AND 0xFF07FF :: TSS2_RC)"
  by (simp add: word32_bits bitwise_simps) (simp add: numeral_eq_Suc)

lemma encode_add_handle:
  "\<not> bit rc 6 \<Longrightarrow> \<not> bit rc 11 \<Longrightarrow> (rc AND 0xFF00BF) OR (rc AND 0x700) = (rc AND 0xFF0FFF :: TSS2_RC)"
  by (simp add: word32_bits bitwise_simps) (simp add: numeral_eq_Suc)

lemma encode_add_session:
  "\<not> bit rc 6 \<Longrightarrow> bit rc 11 \<Longrightarrow> (rc AND 0xFF00BF) OR (0x800 OR (rc AND 0x700)) = (rc AND 0xFF0FFF :: TSS2_RC)"
  by (simp add: word32_bits bitwise_simps) (simp add: numeral_eq_Suc)

lemmas encode_simps = encode_fmt0 encode_fmt1 encode_fmt1_with encode_index encode_add_parameter encode_add_handle encode_add_session

section \<open>Printed codes\<close>

lemma catbuf_take: "length buf < len \<Longrightarrow> catbuf len buf s = take (len - 1) (buf @ s)"
  by (simp add: catbuf_def)

lemma catbuf_fits: "length buf + length s < len \<Longrightarrow> catbuf len buf s = buf @ s"
  by (simp add: catbuf_def)

lemma print_base_length: "2 \<le> b \<Longrightarrow> n < b ^ Suc k \<Longrightarrow> length (print_base b n) \<le> Suc k"
proof (induction k arbitrary: n)
  case 0
  then show ?case by (simp add: print_base.simps)
next
  case (Suc k)
  from Suc.prems have "n div b < b ^ Suc k"
    by (simp add: less_mult_imp_div_less mult.commute)
  with Suc show ?case by (subst print_base.simps) auto
qed

definition table_max :: "nat \<Rightarrow> string option list \<Rightarrow> bool" where
  "table_max k strs \<longleftrightarrow> list_all (\<lambda>s. case s of None \<Rightarrow> True | Some m \<Rightarrow> length m \<le> k) strs"

lemma table_get_max: "table_max k strs \<Longrightarrow> table_get strs i = Some m \<Longrightarrow> length m \<le> k"
  by (auto simp: table_max_def table_get_def list_all_length split: if_splits)

lemma tables_max:
  "table_max 221 fmt1_err_strs" "table_max 221 fmt0_warn_strs" "table_max 221 fmt0_err_strs"
  "table_max 221 tss_errors"
  by (simp_all add: table_max_def fmt1_err_strs_def fmt0_warn_strs_def fmt0_err_strs_def tss_errors_def)


lemma tss_err_handler_max: "tss_err_handler rc = Some m \<Longrightarrow> length m \<le> 221"
  using table_get_max tables_max by (fastforce simp: tss_err_handler_def)

lemma fmt1_strs_max: "tss2_fmt1_err_strs_get e = Some m \<Longrightarrow> length m \<le> 221"
  using table_get_max tables_max by (fastforce simp: tss2_fmt1_err_strs_get_def)

lemma fmt0_strs_max: "tss2_fmt0_err_strs_get e = Some m \<Longrightarrow> length m \<le> 221"
  using table_get_max tables_max by (fastforce simp: tss2_fmt0_err_strs_get_def split: if_splits)

lemma unat_lt2p_8: "unat (x :: UINT8) < 256"
  using unsigned_less [of x] by simp

lemma print_UINT8:
  "length (print_base 10 (unat (x :: UINT8))) \<le> 3" "length (print_base 16 (unat (x :: UINT8))) \<le> 2"
  using print_base_length [of 10 "unat x" 2] print_base_length [of 16 "unat x" 1] unat_lt2p_8 [of x] by simp_all

lemma print_UINT16: "length (print_base 16 (unat (x :: UINT16))) \<le> 4"
  using print_base_length [of 16 "unat x" 3] unsigned_less [of x] by simp

lemma print_UINT32: "length (print_base 16 (unat (x :: UINT32))) \<le> 8"
  using print_base_length [of 16 "unat x" 7] unsigned_less [of x] by simp

text \<open>
  The texts that the comment of \<open>Tss2_RC_Decode\<close> describes, written on the bits of a code and without
  buffers.
\<close>

definition fmt1_text :: "TSS2_RC \<Rightarrow> string" where
  "fmt1_text rc =
     (if bit rc 6 then ''parameter'' else if bit rc 11 then ''session'' else ''handle'') @
     (let index = unat (drop_bit 8 rc AND 7) in if index = 0 then ''(unk):'' else ''('' @ print_base 10 index @ ''):'') @
     (let error = unat (rc AND 0x3F) in
      case table_get fmt1_err_strs error of Some m \<Rightarrow> m | None \<Rightarrow> ''unknown error num: 0x'' @ print_base 16 error)"

definition fmt0_text :: "TSS2_RC \<Rightarrow> string option" where
  "fmt0_text rc =
     (if \<not> bit rc 8 then
        Some ((if bit rc 11 then ''warn'' else ''error'') @ ''(1.2): unknown version 1.2 error code'')
      else map_option ((@) ((if bit rc 11 then ''warn'' else ''error'') @ ''(2.0): ''))
        (let error = unat (rc AND 0x7F) in
         if bit rc 10 then Some (''Vendor specific error: 0x'' @ print_base 16 error)
         else table_get (if bit rc 11 then fmt0_warn_strs else fmt0_err_strs) error))"

lemma V_get_bit: "tpm2_rc_tpm_fmt0_V_get rc \<noteq> 0 \<longleftrightarrow> bit rc 8"
  by (simp add: tpm2_rc_tpm_fmt0_V_get_def word8_bits bitwise_simps)

lemma T_get_bit: "tpm2_rc_fmt0_T_get rc \<noteq> 0 \<longleftrightarrow> bit rc 10"
  by (simp add: tpm2_rc_fmt0_T_get_def word8_bits bitwise_simps)

lemma S_get_bit: "tpm2_rc_fmt0_S_get rc \<noteq> 0 \<longleftrightarrow> bit rc 11"
  by (simp add: tpm2_rc_fmt0_S_get_def word8_bits bitwise_simps)

lemma fmt1_text_eq:
  "fmt1_text rc = (if bit rc 6 then ''parameter'' else if bit rc 11 then ''session'' else ''handle'') @
     (if tpm2_rc_fmt1_N_index_get rc = 0 then ''(unk):''
      else ''('' @ print_base 10 (unat (tpm2_rc_fmt1_N_index_get rc)) @ ''):'') @
     (case tss2_fmt1_err_strs_get (ucast (tpm2_rc_fmt1_error_get rc)) of
        Some m \<Rightarrow> m
      | None \<Rightarrow> ''unknown error num: 0x'' @ print_base 16 (unat (tpm2_rc_fmt1_error_get rc)))"
  by (simp add: fmt1_text_def unat_fields N_index_zero field_masks tss2_fmt1_err_strs_get_def Let_def unat_eq_zero cong: option.case_cong)

lemma fmt0_text_eq:
  "fmt0_text rc =
     (if \<not> bit rc 8 then
        Some ((if bit rc 11 then ''warn'' else ''error'') @ ''(1.2): unknown version 1.2 error code'')
      else map_option ((@) ((if bit rc 11 then ''warn'' else ''error'') @ ''(2.0): ''))
        (if bit rc 10 then Some (''Vendor specific error: 0x'' @ print_base 16 (unat (tpm2_rc_fmt0_error_get rc)))
         else tss2_fmt0_err_strs_get rc))"
  by (simp add: fmt0_text_def unat_fields tss2_fmt0_err_strs_get_def S_get_bit Let_def)

lemma fmt1_handler_text: "tpm2_err_handler_fmt1 rc = Some (fmt1_text rc)"
  using print_UINT8(1) [of "tpm2_rc_fmt1_N_index_get rc"] print_UINT8(2) [of "tpm2_rc_fmt1_error_get rc"]
  by (auto simp: tpm2_err_handler_fmt1_def fmt1_text_eq Let_def P_get_bit N_is_handle_bit catbuf_fits
      TSS2_ERR_LAYER_ERROR_STR_MAX_def split: option.split dest!: fmt1_strs_max)

lemma fmt0_handler_text: "tpm2_err_handler_fmt0 rc = fmt0_text rc"
  using print_UINT8(2) [of "tpm2_rc_fmt0_error_get rc"]
  by (cases "tss2_fmt0_err_strs_get rc")
     (auto simp: tpm2_err_handler_fmt0_def fmt0_text_eq Let_def V_get_bit T_get_bit S_get_bit catbuf_fits
      TSS2_ERR_LAYER_ERROR_STR_MAX_def dest!: fmt0_strs_max)

lemma tpm2_ehandler_text:
  "tpm2_ehandler rc = (if bit rc 7 then Some (fmt1_text rc) else fmt0_text rc)"
  by (simp add: tpm2_ehandler_def format_get_bit fmt1_handler_text fmt0_handler_text)

lemma fmt1_text_max: "length (fmt1_text rc) \<le> 512"
  using print_UINT8(1) [of "tpm2_rc_fmt1_N_index_get rc"] print_UINT8(2) [of "tpm2_rc_fmt1_error_get rc"]
  by (auto simp: fmt1_text_eq split: option.split dest!: fmt1_strs_max)

lemma fmt0_text_max: "fmt0_text rc = Some m \<Longrightarrow> length m \<le> 512"
  using print_UINT8(2) [of "tpm2_rc_fmt0_error_get rc"]
  by (auto simp: fmt0_text_eq split: if_splits dest!: fmt0_strs_max)

text \<open>
  What the decoder shows of a code.  \<open>layer_text\<close> is the registered name or the decimal number of
  the layer, \<open>message_text\<close> the answer of the registered handler, or the code in hexadecimal.
\<close>

definition layer_text :: "layer_table \<Rightarrow> TSS2_RC \<Rightarrow> string" where
  "layer_text tab rc =
     (let l = unat (tss2_rc_layer_number_get rc) in
      if layer_name (tab ! l) = [] then print_base 10 l else layer_name (tab ! l))"

definition handler_text :: "TSS2_RC_HANDLER \<Rightarrow> TSS2_RC \<Rightarrow> string" where
  "handler_text h rc =
     (if tpm2_error_get rc = 0 then ''success''
      else case h (ucast (tpm2_error_get rc)) of
        Some m \<Rightarrow> m | None \<Rightarrow> ''0x'' @ print_base 16 (unat (tpm2_error_get rc)))"

definition message_text :: "layer_table \<Rightarrow> TSS2_RC \<Rightarrow> string" where
  "message_text tab rc =
     (case layer_fn (tab ! unat (tss2_rc_layer_number_get rc)) of
        Some h \<Rightarrow> handler_text h rc
      | None \<Rightarrow> ''0x'' @ print_base 16 (unat rc))"

definition table_ok :: "layer_table \<Rightarrow> bool" where
  "table_ok tab \<longleftrightarrow> length tab = 256 \<and> list_all (\<lambda>e. length (layer_name e) \<le> 16) tab"

lemma table_ok_name: "table_ok tab \<Longrightarrow> length (layer_name (tab ! unat (l :: UINT8))) \<le> 16"
  using unsigned_less [of l] by (simp add: table_ok_def list_all_length)

lemma layer_text_max: "table_ok tab \<Longrightarrow> length (layer_text tab rc) \<le> 16"
  using table_ok_name print_UINT8(1) [of "tss2_rc_layer_number_get rc"] by (auto simp: layer_text_def Let_def)

lemma Decode_text:
  assumes "table_ok tab"
  shows "Tss2_RC_Decode tab rc = take 529 (layer_text tab rc @ '':'' @ message_text tab rc)"
proof -
  have "Tss2_RC_Decode tab rc = catbuf 530 (layer_text tab rc @ '':'') (message_text tab rc)"
    using layer_text_max [OF assms, of rc] print_UINT32 [of rc]
    by (auto simp: Tss2_RC_Decode_def message_text_def handler_text_def layer_text_def Let_def
        unknown_layer_handler_def TSS2_ERR_LAYER_NAME_MAX_def TSS2_ERR_LAYER_ERROR_STR_MAX_def catbuf_fits
        split: option.split if_splits)
  moreover have "length (layer_text tab rc @ '':'') < 530"
    using layer_text_max [OF assms, of rc] by simp
  ultimately show ?thesis using catbuf_take [of "layer_text tab rc @ '':''" 530] by (simp del: take_append)
qed

locale bounded_handler =
  fixes handler :: TSS2_RC_HANDLER
  assumes fits: "handler rc = Some m \<Longrightarrow> length m \<le> 512"
begin

lemma text_max: "length (handler_text handler rc) \<le> 512"
  using print_UINT16 [of "tpm2_error_get rc"] by (auto simp: handler_text_def split: option.split dest!: fits)

end

interpretation tpm_rc: bounded_handler tpm2_ehandler
  by unfold_locales (auto simp: tpm2_ehandler_text fmt1_text_max dest: fmt0_text_max split: if_splits)

interpretation tss_rc: bounded_handler tss_err_handler
  by unfold_locales (auto dest!: tss_err_handler_max)

lemma layer_handler_ok: "table_ok layer_handler"
  by (simp add: table_ok_def layer_handler_def null_handler_def list_all_iff)

lemma layer_handler_fns:
  "l < 256 \<Longrightarrow> layer_fn (layer_handler ! l) \<in> {None, Some tpm2_ehandler, Some tss_err_handler}"
  by (auto simp: layer_handler_def null_handler_def nth_Cons' nth_append)

lemma layer_handler_nth:
  "layer_handler ! 0 = \<lparr>layer_name = ''tpm'', layer_fn = Some tpm2_ehandler\<rparr>"
  "layer_handler ! 3 = \<lparr>layer_name = [], layer_fn = None\<rparr>"
  "layer_handler ! 11 = \<lparr>layer_name = ''rmt'', layer_fn = Some tpm2_ehandler\<rparr>"
  "layer_handler ! 12 = \<lparr>layer_name = ''rm'', layer_fn = None\<rparr>"
  by (simp_all add: layer_handler_def null_handler_def)

lemma builtin_message_max: "length (message_text layer_handler rc) \<le> 512"
  using layer_handler_fns [of "unat (tss2_rc_layer_number_get rc)"] unsigned_less [of "tss2_rc_layer_number_get rc"]
    print_UINT32 [of rc] tpm_rc.text_max [of rc] tss_rc.text_max [of rc]
  by (auto simp: message_text_def split: option.split)


lemma Decode_builtin:
  "Tss2_RC_Decode layer_handler rc = layer_text layer_handler rc @ '':'' @ message_text layer_handler rc"
  using layer_text_max [OF layer_handler_ok, of rc] builtin_message_max [of rc]
  by (simp add: Decode_text [OF layer_handler_ok] del: take_append)







lemma SetHandler_ok:
  "table_ok tab \<Longrightarrow> table_ok (snd (Tss2_RC_SetHandler layer name' handler tab))"
  by (auto simp: table_ok_def Tss2_RC_SetHandler_def Let_def TSS2_ERR_LAYER_NAME_MAX_def list_all_length nth_list_update
      split: option.split)

lemma SetHandler_nth:
  "table_ok tab \<Longrightarrow> snd (Tss2_RC_SetHandler layer name' handler tab) ! unat (l :: UINT8) =
     (if l = layer
      then \<lparr>layer_name = (if handler = None then [] else take 16 (case name' of Some n \<Rightarrow> n | None \<Rightarrow> [])), layer_fn = handler\<rparr>
      else tab ! unat l)"
  using unat_lt2p_8 [of layer] unat_lt2p_8 [of l]
  by (auto simp: nth_list_update word_unat_eq_iff table_ok_def Tss2_RC_SetHandler_def Let_def TSS2_ERR_LAYER_NAME_MAX_def split: option.split)

lemma error_get_ucast: "tpm2_error_get rc = ucast rc"
  by (simp add: tpm2_error_get_def word16_bits bitwise_simps)

lemma ucast_error_get_bit: "bit (ucast (tpm2_error_get rc) :: TSS2_RC) k \<longleftrightarrow> k < 16 \<and> bit rc k"
  by (auto simp: error_get_ucast bit_simps)

lemma error_get_bit7: "bit rc 7 \<Longrightarrow> tpm2_error_get rc \<noteq> 0"
  using ucast_error_get_bit [of rc 7] by auto

lemma small_not_bit: "unat (w :: 'a :: len word) < 2 ^ k \<Longrightarrow> \<not> bit w k"
proof -
  assume "unat w < 2 ^ k"
  then have "\<not> bit (unat w) k" by (simp add: bit_iff_odd)
  then show ?thesis by (auto simp: bit_unsigned_iff)
qed

lemma fields_or_800:
  "tpm2_rc_fmt1_N_index_get (rc OR 0x800) = tpm2_rc_fmt1_N_index_get rc"
  "tpm2_rc_fmt1_error_get (rc OR 0x800) = tpm2_rc_fmt1_error_get rc"
  "tss2_rc_layer_number_get (rc OR 0x800) = tss2_rc_layer_number_get rc"
  "tss2_rc_layer_format_get (rc OR 0x800) = tss2_rc_layer_format_get rc"
  by (simp_all add: word8_bits index_defs tss2_rc_layer_format_get_def tpm2_rc_fmt1_error_get_def tss2_rc_layer_number_get_def rc_layer_defs
      bitwise_simps)

lemma error_or_800: "ucast (tpm2_error_get (rc OR 0x800)) = (ucast (tpm2_error_get rc) OR 0x800 :: TSS2_RC)"
  by (simp add: word32_bits tpm2_error_get_def bitwise_simps)

section \<open>Properties\<close>

text \<open>
  C12: the decoded form determines the code.  For every code and every output structure
  \<open>Tss2_RC_DecodeInfo\<close> succeeds, and putting the fields together again gives the code back: all 24 bits of
  layer and error in format 0, and in format 1 everything but the reserved bits 12 to 15 when an
  index is there; without an index the form does not say what the error refers to.  One bit of
  information is lost: the number of a parameter has four bits, of which the function keeps three, so
  bit 11 of a parameter error does not come back.  For a null pointer the result is
  \<open>TSS2_BASE_RC_BAD_REFERENCE\<close>, not the \<open>TSS2_ESYS_RC_BAD_REFERENCE\<close> of the function's comment.
\<close>
theorem DecodeInfo_lossless:
  "Tss2_RC_DecodeInfo rc None = (TSS2_BASE_RC_BAD_REFERENCE, None) \<and>
   (\<exists>i. Tss2_RC_DecodeInfo rc (Some i0) = (TSS2_RC_SUCCESS, Some i) \<and>
        encode_info i =
          (if \<not> bit rc 7 then rc AND 0xFFFFFF
           else if rc AND 0x700 = 0 then rc AND 0xFF00BF
           else if bit rc 6 then rc AND 0xFF07FF
           else rc AND 0xFF0FFF))"
  using N_index_zero [of rc] index_mask_zero [of rc]
  by (auto simp: Tss2_RC_DecodeInfo_def Let_def encode_info_def format_get_bit P_get_bit
      N_is_handle_bit encode_simps)

text \<open>
  \<open>Tss2_RC_DecodeInfo\<close> and \<open>Tss2_RC_Decode\<close> cannot tell parameter \<open>n + 8\<close> from parameter \<open>n\<close>:
  adding \<open>TPM2_RC_8\<close>, which the headers define for the errors of parameters 8 to 15, to a parameter
  error of the TPM layer changes neither result.
\<close>
theorem parameter_number_wraps:
  assumes "bit rc 7" and "bit rc 6" and "tss2_rc_layer_number_get rc = 0"
  shows "Tss2_RC_DecodeInfo (rc OR 0x800) i = Tss2_RC_DecodeInfo rc i \<and>
         Tss2_RC_Decode layer_handler (rc OR 0x800) = Tss2_RC_Decode layer_handler rc"
proof -
  have "Tss2_RC_DecodeInfo (rc OR 0x800) i = Tss2_RC_DecodeInfo rc i"
    using assms
    by (auto simp: Tss2_RC_DecodeInfo_def Let_def format_get_bit P_get_bit fields_or_800 bit_or_iff split: option.split)
  moreover have "fmt1_text (ucast (tpm2_error_get (rc OR 0x800))) = fmt1_text (ucast (tpm2_error_get rc))"
    using assms by (simp add: fmt1_text_eq fields_or_800 error_or_800 bit_or_iff ucast_error_get_bit split: option.split)
  ultimately show ?thesis
    using assms error_get_bit7 [of rc] error_get_bit7 [of "rc OR 0x800"]
    by (auto simp: Decode_builtin layer_text_def message_text_def handler_text_def layer_handler_nth fields_or_800
        tpm2_ehandler_text ucast_error_get_bit bit_or_iff)
qed

theorem parameter_number_wraps_witness:
  "Tss2_RC_DecodeInfo 0x9C4 None = Tss2_RC_DecodeInfo 0x1C4 None \<and>
   Tss2_RC_Decode layer_handler 0x9C4 = Tss2_RC_Decode layer_handler 0x1C4"
  using parameter_number_wraps [of "0x1C4" None]
  by (simp add: bitwise_simps tss2_rc_layer_number_get_def rc_layer_defs)


text \<open>
  C33: \<open>Tss2_RC_SetHandler\<close> returns the handler that was registered before (the comment in \<open>tss2_rc.c\<close> says
  true or false, which its return type cannot be), keeps the table well formed and
  changes only the given layer: codes of other layers print as before; codes of this layer print
  with the first 16 characters of the new name (or the number, without one) and the message of the
  new handler, or the whole code in hexadecimal once the handler is removed.
\<close>
theorem SetHandler_effect:
  assumes "table_ok tab" and "Tss2_RC_SetHandler layer name' handler tab = (old, tab')"
  shows "old = layer_fn (tab ! unat layer) \<and> table_ok tab' \<and>
    Tss2_RC_Decode tab' rc =
      (if tss2_rc_layer_number_get rc \<noteq> layer then Tss2_RC_Decode tab rc
       else case handler of
         None \<Rightarrow> print_base 10 (unat layer) @ '':0x'' @ print_base 16 (unat rc)
       | Some h \<Rightarrow>
           take 529 ((if name' = None \<or> name' = Some [] then print_base 10 (unat layer) else take 16 (the name'))
                     @ '':'' @ handler_text h rc))"
proof -
  have ok: "table_ok tab'"
    using SetHandler_ok [OF assms(1), of layer name' handler] assms(2) by simp
  have nth: "tab' ! unat l =
     (if l = layer
      then \<lparr>layer_name = (if handler = None then [] else take 16 (case name' of Some n \<Rightarrow> n | None \<Rightarrow> [])), layer_fn = handler\<rparr>
      else tab ! unat l)" for l :: UINT8
    using SetHandler_nth [OF assms(1), of layer name' handler l] assms(2) by simp
  have old: "old = layer_fn (tab ! unat layer)"
    using assms(2) by (simp add: Tss2_RC_SetHandler_def Let_def)
  show ?thesis
    using ok old print_UINT8(1) [of layer] print_UINT32 [of rc]
    by (auto simp: Decode_text assms(1) layer_text_def message_text_def nth Let_def split: option.split)
qed

theorem SetHandler_effect_witness:
  "fst (Tss2_RC_SetHandler 3 (Some ''cust'') (Some tss_err_handler) layer_handler) = None \<and>
   Tss2_RC_Decode (snd (Tss2_RC_SetHandler 3 (Some ''cust'') (Some tss_err_handler) layer_handler)) 0x30000
     = ''cust:success''"
proof -
  obtain old tab' where s: "Tss2_RC_SetHandler 3 (Some ''cust'') (Some tss_err_handler) layer_handler = (old, tab')"
    by (metis surj_pair)
  show ?thesis
    using SetHandler_effect [OF layer_handler_ok s, of "0x30000"]
    by (simp add: s tss2_rc_layer_number_get_def rc_layer_defs tpm2_error_get_def handler_text_def layer_handler_nth)
qed

text \<open>
  codes of the resource manager are decoded with the tables of two layers exchanged.  The
  headers give layer 11 to the codes of the resource manager itself (base codes) and layer 12 to
  the TPM codes it duplicates; the library prints the former as TPM codes of \<open>rmt\<close>, and of the
  latter it prints only the number.
\<close>
theorem resource_manager_layers_exchanged:
  "(tss2_rc_layer_number_get rc = 11 \<longrightarrow> 0 < tpm2_error_get rc \<longrightarrow> tpm2_error_get rc \<le> 53 \<longrightarrow>
     Tss2_RC_Decode layer_handler rc = ''rmt:error(1.2): unknown version 1.2 error code'') \<and>
   (tss2_rc_layer_number_get rc = 12 \<longrightarrow>
     Tss2_RC_Decode layer_handler rc = ''rm:0x'' @ print_base 16 (unat rc))"
  using small_not_bit [of "tpm2_error_get rc" 7] small_not_bit [of "tpm2_error_get rc" 8]
    small_not_bit [of "tpm2_error_get rc" 11]
  by (auto simp: Decode_builtin layer_text_def message_text_def layer_handler_nth handler_text_def tpm2_ehandler_text
   bit_simps fmt0_text_eq word_le_nat_alt)

theorem resource_manager_layers_exchanged_witness:
  "Tss2_RC_Decode layer_handler 0xB0001 = ''rmt:error(1.2): unknown version 1.2 error code'' \<and>
   Tss2_RC_Decode layer_handler 0xC0101 = ''rm:0xC0101''"
  using resource_manager_layers_exchanged [of "0xB0001"] resource_manager_layers_exchanged [of "0xC0101"]
  by (simp add: tss2_rc_layer_number_get_def rc_layer_defs tpm2_error_get_def print_base.simps digit_def)

end
