(* ===== verification/Esys_Types.thy ===== *)
theory Esys_Types
  imports Sys_Commands_1 Sys_Commands_2 Sys_Commands_3 Sys_Commands_4 Sys_Commands_5
begin

text \<open>
  The data of the enhanced system API (\<open>src/tss2-esys/esys_int.h\<close>, \<open>esys_types.h\<close>): its constants, the
  resource objects with their meta data, the saved input parameters, the crypto callbacks and the
  context.

  Resource objects are heap nodes: the context holds the heap and the list of the addresses that
  \<open>rsrc_list\<close> chains up; a pointer is \<open>None\<close> for \<open>NULL\<close> or an address.  Reading through an address
  the heap does not hold is a fault.
\<close>

unbundle bit_operations_syntax

section \<open>Constants\<close>

definition TSS2_FEATURE_RC_LAYER :: TSS2_RC where "TSS2_FEATURE_RC_LAYER = TSS2_RC_LAYER 6"
definition TSS2_ESAPI_RC_LAYER :: TSS2_RC where "TSS2_ESAPI_RC_LAYER = TSS2_RC_LAYER 7"
definition TSS2_RESMGR_RC_LAYER :: TSS2_RC where "TSS2_RESMGR_RC_LAYER = TSS2_RC_LAYER 11"
definition TSS2_RESMGR_TPM_RC_LAYER :: TSS2_RC where "TSS2_RESMGR_TPM_RC_LAYER = TSS2_RC_LAYER 12"
definition TSS2_BASE_RC_TRY_AGAIN :: TSS2_RC where "TSS2_BASE_RC_TRY_AGAIN = 9"
definition TSS2_ESYS_RC_GENERAL_FAILURE :: TSS2_RC where "TSS2_ESYS_RC_GENERAL_FAILURE = TSS2_ESAPI_RC_LAYER OR 1"
definition TSS2_ESYS_RC_NOT_IMPLEMENTED :: TSS2_RC where "TSS2_ESYS_RC_NOT_IMPLEMENTED = TSS2_ESAPI_RC_LAYER OR 2"
definition TSS2_ESYS_RC_BAD_REFERENCE :: TSS2_RC where "TSS2_ESYS_RC_BAD_REFERENCE = TSS2_ESAPI_RC_LAYER OR 5"
definition TSS2_ESYS_RC_BAD_SEQUENCE :: TSS2_RC where "TSS2_ESYS_RC_BAD_SEQUENCE = TSS2_ESAPI_RC_LAYER OR 7"
definition TSS2_ESYS_RC_INSUFFICIENT_BUFFER :: TSS2_RC where "TSS2_ESYS_RC_INSUFFICIENT_BUFFER = TSS2_ESAPI_RC_LAYER OR 6"
definition TSS2_ESYS_RC_TRY_AGAIN :: TSS2_RC where "TSS2_ESYS_RC_TRY_AGAIN = TSS2_ESAPI_RC_LAYER OR 9"
definition TSS2_ESYS_RC_BAD_VALUE :: TSS2_RC where "TSS2_ESYS_RC_BAD_VALUE = TSS2_ESAPI_RC_LAYER OR 11"
definition TSS2_ESYS_RC_BAD_SIZE :: TSS2_RC where "TSS2_ESYS_RC_BAD_SIZE = TSS2_ESAPI_RC_LAYER OR 16"
definition TSS2_ESYS_RC_MALFORMED_RESPONSE :: TSS2_RC where "TSS2_ESYS_RC_MALFORMED_RESPONSE = TSS2_ESAPI_RC_LAYER OR 17"
definition TSS2_ESYS_RC_MEMORY :: TSS2_RC where "TSS2_ESYS_RC_MEMORY = TSS2_ESAPI_RC_LAYER OR 23"
definition TSS2_ESYS_RC_BAD_TR :: TSS2_RC where "TSS2_ESYS_RC_BAD_TR = TSS2_ESAPI_RC_LAYER OR 24"
definition TSS2_ESYS_RC_MULTIPLE_DECRYPT_SESSIONS :: TSS2_RC where "TSS2_ESYS_RC_MULTIPLE_DECRYPT_SESSIONS = TSS2_ESAPI_RC_LAYER OR 25"
definition TSS2_ESYS_RC_MULTIPLE_ENCRYPT_SESSIONS :: TSS2_RC where "TSS2_ESYS_RC_MULTIPLE_ENCRYPT_SESSIONS = TSS2_ESAPI_RC_LAYER OR 26"
definition TSS2_ESYS_RC_RSP_AUTH_FAILED :: TSS2_RC where "TSS2_ESYS_RC_RSP_AUTH_FAILED = TSS2_ESAPI_RC_LAYER OR 27"
definition TSS2_ESYS_RC_CALLBACK_NULL :: TSS2_RC where "TSS2_ESYS_RC_CALLBACK_NULL = TSS2_ESAPI_RC_LAYER OR 54"
definition TSS2_FAPI_RC_BAD_VALUE :: TSS2_RC where "TSS2_FAPI_RC_BAD_VALUE = TSS2_FEATURE_RC_LAYER OR 11"
definition TPM2_RC_WARN :: TSS2_RC where "TPM2_RC_WARN = 0x900"
definition TPM2_RC_YIELDED :: TSS2_RC where "TPM2_RC_YIELDED = TPM2_RC_WARN + 8"
definition TPM2_RC_TESTING :: TSS2_RC where "TPM2_RC_TESTING = TPM2_RC_WARN + 0xA"
definition TPM2_RC_RETRY :: TSS2_RC where "TPM2_RC_RETRY = TPM2_RC_WARN + 0x22"
definition TPM2_RC_UPGRADE :: TSS2_RC where "TPM2_RC_UPGRADE = TPM2_RC_VER1 + 0x2D"

definition ESYS_TR_NONE :: UINT32 where "ESYS_TR_NONE = 0xfff"
definition ESYS_TR_PASSWORD :: UINT32 where "ESYS_TR_PASSWORD = 0xff"
definition ESYS_TR_PCR31 :: UINT32 where "ESYS_TR_PCR31 = 31"
definition ESYS_TR_RH_OWNER :: UINT32 where "ESYS_TR_RH_OWNER = 0x101"
definition ESYS_TR_RH_NULL :: UINT32 where "ESYS_TR_RH_NULL = 0x107"
definition ESYS_TR_RH_LOCKOUT :: UINT32 where "ESYS_TR_RH_LOCKOUT = 0x10A"
definition ESYS_TR_RH_ENDORSEMENT :: UINT32 where "ESYS_TR_RH_ENDORSEMENT = 0x10B"
definition ESYS_TR_RH_PLATFORM :: UINT32 where "ESYS_TR_RH_PLATFORM = 0x10C"
definition ESYS_TR_RH_PLATFORM_NV :: UINT32 where "ESYS_TR_RH_PLATFORM_NV = 0x10D"
definition ESYS_TR_RH_FW_OWNER :: UINT32 where "ESYS_TR_RH_FW_OWNER = 0x10E"
definition ESYS_TR_RH_FW_ENDORSEMENT :: UINT32 where "ESYS_TR_RH_FW_ENDORSEMENT = 0x10F"
definition ESYS_TR_RH_FW_PLATFORM :: UINT32 where "ESYS_TR_RH_FW_PLATFORM = 0x110"
definition ESYS_TR_RH_FW_NULL :: UINT32 where "ESYS_TR_RH_FW_NULL = 0x111"
definition ESYS_TR_RH_SVN_OWNER_BASE :: UINT32 where "ESYS_TR_RH_SVN_OWNER_BASE = 0x1010000"
definition ESYS_TR_RH_SVN_ENDORSEMENT_BASE :: UINT32 where "ESYS_TR_RH_SVN_ENDORSEMENT_BASE = 0x1020000"
definition ESYS_TR_RH_SVN_PLATFORM_BASE :: UINT32 where "ESYS_TR_RH_SVN_PLATFORM_BASE = 0x1030000"
definition ESYS_TR_RH_SVN_NULL_BASE :: UINT32 where "ESYS_TR_RH_SVN_NULL_BASE = 0x1040000"
definition ESYS_TR_RH_ACT_FIRST :: UINT32 where "ESYS_TR_RH_ACT_FIRST = 0x120"
definition ESYS_TR_RH_ACT_LAST :: UINT32 where "ESYS_TR_RH_ACT_LAST = 0x12F"
definition ESYS_TR_RH_AC_FIRST :: UINT32 where "ESYS_TR_RH_AC_FIRST = 0x140"
definition ESYS_TR_RH_AC_LAST :: UINT32 where "ESYS_TR_RH_AC_LAST = ESYS_TR_RH_AC_FIRST + 0xFFFF"
definition TPM2_RH_OWNER :: UINT32 where "TPM2_RH_OWNER = 0x40000001"
definition TPM2_RH_NULL :: UINT32 where "TPM2_RH_NULL = 0x40000007"
definition TPM2_RH_PW :: UINT32 where "TPM2_RH_PW = 0x40000009"
definition TPM2_RH_LOCKOUT :: UINT32 where "TPM2_RH_LOCKOUT = 0x4000000A"
definition TPM2_RH_ENDORSEMENT :: UINT32 where "TPM2_RH_ENDORSEMENT = 0x4000000B"
definition TPM2_RH_PLATFORM :: UINT32 where "TPM2_RH_PLATFORM = 0x4000000C"
definition TPM2_RH_PLATFORM_NV :: UINT32 where "TPM2_RH_PLATFORM_NV = 0x4000000D"
definition TPM2_RH_ACT_0 :: UINT32 where "TPM2_RH_ACT_0 = 0x40000110"
definition TPM2_RH_FW_OWNER :: UINT32 where "TPM2_RH_FW_OWNER = 0x40000140"
definition TPM2_RH_FW_ENDORSEMENT :: UINT32 where "TPM2_RH_FW_ENDORSEMENT = 0x40000141"
definition TPM2_RH_FW_PLATFORM :: UINT32 where "TPM2_RH_FW_PLATFORM = 0x40000142"
definition TPM2_RH_FW_NULL :: UINT32 where "TPM2_RH_FW_NULL = 0x40000143"
definition TPM2_RH_SVN_OWNER_BASE :: UINT32 where "TPM2_RH_SVN_OWNER_BASE = 0x40010000"
definition TPM2_RH_SVN_ENDORSEMENT_BASE :: UINT32 where "TPM2_RH_SVN_ENDORSEMENT_BASE = 0x40020000"
definition TPM2_RH_SVN_PLATFORM_BASE :: UINT32 where "TPM2_RH_SVN_PLATFORM_BASE = 0x40030000"
definition TPM2_RH_SVN_NULL_BASE :: UINT32 where "TPM2_RH_SVN_NULL_BASE = 0x40040000"
definition TPM2_RH_LAST :: UINT32 where "TPM2_RH_LAST = 0x4004FFFF"
definition TPM2_NV_AC_FIRST :: UINT32 where "TPM2_NV_AC_FIRST = 0x01D00000"
definition TPM2_NV_INDEX_FIRST :: UINT32 where "TPM2_NV_INDEX_FIRST = 0x01000000"
definition TPM2_NV_INDEX_LAST :: UINT32 where "TPM2_NV_INDEX_LAST = TPM2_NV_INDEX_FIRST + 0x00FFFFFF"
definition TPM2_HR_RANGE_MASK :: UINT32 where "TPM2_HR_RANGE_MASK = 0xFF000000"
definition TPM2_HR_SHIFT :: nat where "TPM2_HR_SHIFT = 24"
definition TPM2_HT_LOADED_SESSION :: UINT32 where "TPM2_HT_LOADED_SESSION = 2"
definition TPM2_HT_SAVED_SESSION :: UINT32 where "TPM2_HT_SAVED_SESSION = 3"
definition TPM2_HT_PERSISTENT :: UINT32 where "TPM2_HT_PERSISTENT = 0x81"
definition ESYS_TR_MIN_OBJECT :: UINT32 where "ESYS_TR_MIN_OBJECT = TPM2_RH_LAST + 1 + 0x1000"
definition ESYS_MAX_SUBMISSIONS :: int where "ESYS_MAX_SUBMISSIONS = 5"

definition TPMA_SESSION_CONTINUESESSION :: UINT8 where "TPMA_SESSION_CONTINUESESSION = 0x01"
definition TPMA_SESSION_DECRYPT :: UINT8 where "TPMA_SESSION_DECRYPT = 0x20"
definition TPMA_SESSION_ENCRYPT :: UINT8 where "TPMA_SESSION_ENCRYPT = 0x40"
definition TPMA_SESSION_AUDIT :: UINT8 where "TPMA_SESSION_AUDIT = 0x80"
definition TPMA_NV_POLICY_DELETE :: UINT32 where "TPMA_NV_POLICY_DELETE = 0x400"
definition TPMA_NV_WRITELOCKED :: UINT32 where "TPMA_NV_WRITELOCKED = 0x800"
definition TPMA_NV_READLOCKED :: UINT32 where "TPMA_NV_READLOCKED = 0x10000000"
definition TPMA_NV_WRITTEN :: UINT32 where "TPMA_NV_WRITTEN = 0x20000000"
definition TPM2_ALG_CFB :: UINT16 where "TPM2_ALG_CFB = 0x43"
definition TPM2_SE_HMAC :: UINT8 where "TPM2_SE_HMAC = 0"
definition TPM2_SE_POLICY :: UINT8 where "TPM2_SE_POLICY = 1"
definition TPM2_YES :: UINT8 where "TPM2_YES = 1"
definition TPM2_NO :: UINT8 where "TPM2_NO = 0"
definition TPM2_MAX_SYM_KEY_BYTES :: nat where "TPM2_MAX_SYM_KEY_BYTES = 32"
definition TPM2_MAX_SYM_BLOCK_SIZE :: nat where "TPM2_MAX_SYM_BLOCK_SIZE = 16"
definition TPM2_MAX_DIGEST_BUFFER :: nat where "TPM2_MAX_DIGEST_BUFFER = 1024"
definition AES_BLOCK_SIZE_IN_BYTES :: UINT32 where "AES_BLOCK_SIZE_IN_BYTES = 16"
definition SM4_BLOCK_SIZE_IN_BYTES :: UINT32 where "SM4_BLOCK_SIZE_IN_BYTES = 16"
definition IESYSC_KEY_RSRC :: UINT32 where "IESYSC_KEY_RSRC = 1"
definition IESYSC_NV_RSRC :: UINT32 where "IESYSC_NV_RSRC = 2"
definition IESYSC_SESSION_RSRC :: UINT32 where "IESYSC_SESSION_RSRC = 3"
definition IESYSC_DEGRADED_SESSION_RSRC :: UINT32 where "IESYSC_DEGRADED_SESSION_RSRC = 4"
definition IESYSC_WITHOUT_MISC_RSRC :: UINT32 where "IESYSC_WITHOUT_MISC_RSRC = 0"
definition POLICY_PASSWORD :: UINT32 where "POLICY_PASSWORD = 2"
definition POLICY_AUTH :: UINT32 where "POLICY_AUTH = 1"
definition NO_POLICY_AUTH :: UINT32 where "NO_POLICY_AUTH = 0"

lemmas esys_layer_defs = TSS2_FEATURE_RC_LAYER_def TSS2_ESAPI_RC_LAYER_def TSS2_RESMGR_RC_LAYER_def
  TSS2_RESMGR_TPM_RC_LAYER_def TSS2_BASE_RC_TRY_AGAIN_def TPM2_RC_WARN_def TPM2_RC_YIELDED_def TPM2_RC_TESTING_def
  TPM2_RC_RETRY_def TPM2_RC_UPGRADE_def

lemmas esys_rc_defs = rc_layer_defs esys_layer_defs
  TSS2_ESYS_RC_GENERAL_FAILURE_def
  TSS2_ESYS_RC_NOT_IMPLEMENTED_def
  TSS2_ESYS_RC_BAD_REFERENCE_def
  TSS2_ESYS_RC_BAD_SEQUENCE_def
  TSS2_ESYS_RC_INSUFFICIENT_BUFFER_def
  TSS2_ESYS_RC_TRY_AGAIN_def
  TSS2_ESYS_RC_BAD_VALUE_def
  TSS2_ESYS_RC_BAD_SIZE_def
  TSS2_ESYS_RC_MALFORMED_RESPONSE_def
  TSS2_ESYS_RC_MEMORY_def
  TSS2_ESYS_RC_BAD_TR_def
  TSS2_ESYS_RC_MULTIPLE_DECRYPT_SESSIONS_def
  TSS2_ESYS_RC_MULTIPLE_ENCRYPT_SESSIONS_def
  TSS2_ESYS_RC_RSP_AUTH_FAILED_def
  TSS2_ESYS_RC_CALLBACK_NULL_def
  TSS2_FAPI_RC_BAD_VALUE_def

lemma esys_rc_nonzero [simp]:
  "TSS2_ESYS_RC_GENERAL_FAILURE \<noteq> 0"
  "TSS2_ESYS_RC_NOT_IMPLEMENTED \<noteq> 0"
  "TSS2_ESYS_RC_BAD_REFERENCE \<noteq> 0"
  "TSS2_ESYS_RC_BAD_SEQUENCE \<noteq> 0"
  "TSS2_ESYS_RC_INSUFFICIENT_BUFFER \<noteq> 0"
  "TSS2_ESYS_RC_TRY_AGAIN \<noteq> 0"
  "TSS2_ESYS_RC_BAD_VALUE \<noteq> 0"
  "TSS2_ESYS_RC_BAD_SIZE \<noteq> 0"
  "TSS2_ESYS_RC_MALFORMED_RESPONSE \<noteq> 0"
  "TSS2_ESYS_RC_MEMORY \<noteq> 0"
  "TSS2_ESYS_RC_BAD_TR \<noteq> 0"
  "TSS2_ESYS_RC_MULTIPLE_DECRYPT_SESSIONS \<noteq> 0"
  "TSS2_ESYS_RC_MULTIPLE_ENCRYPT_SESSIONS \<noteq> 0"
  "TSS2_ESYS_RC_RSP_AUTH_FAILED \<noteq> 0"
  "TSS2_ESYS_RC_CALLBACK_NULL \<noteq> 0"
  "TSS2_FAPI_RC_BAD_VALUE \<noteq> 0"
  by (simp_all add: esys_rc_defs)

definition base_rc :: "TSS2_RC \<Rightarrow> TSS2_RC" where
  "base_rc r = r AND NOT TSS2_RC_LAYER_MASK"

definition iesys_tpm_error :: "TSS2_RC \<Rightarrow> bool" where
  "iesys_tpm_error r \<longleftrightarrow> r \<noteq> TSS2_RC_SUCCESS \<and>
     (r AND TSS2_RC_LAYER_MASK = 0 \<or> r AND TSS2_RC_LAYER_MASK = TSS2_RESMGR_TPM_RC_LAYER \<or>
      r AND TSS2_RC_LAYER_MASK = TSS2_RESMGR_RC_LAYER)"

section \<open>Resource objects\<close>

type_synonym ESYS_TR = UINT32

text \<open>The capacities are those of the arrays in the structures; \<open>TPM2B_NAME\<close> has 68 bytes.\<close>

record IESYS_SESSION =
  SESSION_bound_entity :: TPM2B
  SESSION_encryptedSalt :: TPM2B
  SESSION_salt :: TPM2B
  SESSION_symmetric :: TPMT_SYM_DEF
  SESSION_authHash :: UINT16
  SESSION_sessionKey :: TPM2B
  SESSION_sessionType :: UINT8
  SESSION_sessionAttributes :: UINT8
  SESSION_origSessionAttributes :: UINT8
  SESSION_nonceCaller :: TPM2B
  SESSION_nonceTPM :: TPM2B
  SESSION_encrypt :: UINT32
  SESSION_decrypt :: UINT32
  SESSION_type_policy_session :: UINT32
  SESSION_sizeSessionValue :: UINT16
  SESSION_sessionValue :: "BYTE list"
  SESSION_sizeHmacValue :: UINT16

definition zero_IESYS_SESSION :: IESYS_SESSION where
  "zero_IESYS_SESSION =
     \<lparr>SESSION_bound_entity = zero_TPM2B 68, SESSION_encryptedSalt = zero_TPM2B (sizeof ct_TPMU_ENCRYPTED_SECRET),
      SESSION_salt = zero_TPM2B 64, SESSION_symmetric = zero_TPMT_SYM_DEF, SESSION_authHash = 0,
      SESSION_sessionKey = zero_TPM2B 64, SESSION_sessionType = 0, SESSION_sessionAttributes = 0,
      SESSION_origSessionAttributes = 0, SESSION_nonceCaller = zero_TPM2B 64, SESSION_nonceTPM = zero_TPM2B 64,
      SESSION_encrypt = 0, SESSION_decrypt = 0, SESSION_type_policy_session = 0, SESSION_sizeSessionValue = 0,
      SESSION_sessionValue = replicate 128 0, SESSION_sizeHmacValue = 0\<rparr>"

text \<open>
  The union of the resource specific data.  \<open>RSRC_empty\<close> also stands for memory that \<open>calloc\<close>
  cleared: every member reads as its zero value there.  Reading a member of another type is a
  fault.
\<close>

datatype IESYS_RSRC_UNION =
    RSRC_key_pub TPM2B_PUBLIC
  | RSRC_nv_pub TPM2B_NV_PUBLIC
  | RSRC_session IESYS_SESSION
  | RSRC_empty

definition zero_SUBTYPE :: "'a \<Rightarrow> 'a TPM2B_SUBTYPE" where
  "zero_SUBTYPE z = \<lparr>TPM2B_SUBTYPE_size = 0, TPM2B_SUBTYPE_member = z\<rparr>"

fun get_key_pub :: "IESYS_RSRC_UNION \<Rightarrow> TPM2B_PUBLIC option" where
  "get_key_pub (RSRC_key_pub p) = Some p"
| "get_key_pub RSRC_empty = Some (zero_SUBTYPE zero_TPMT_PUBLIC)"
| "get_key_pub _ = None"

fun get_nv_pub :: "IESYS_RSRC_UNION \<Rightarrow> TPM2B_NV_PUBLIC option" where
  "get_nv_pub (RSRC_nv_pub p) = Some p"
| "get_nv_pub RSRC_empty = Some (zero_SUBTYPE zero_TPMS_NV_PUBLIC)"
| "get_nv_pub _ = None"

fun get_session :: "IESYS_RSRC_UNION \<Rightarrow> IESYS_SESSION option" where
  "get_session (RSRC_session s) = Some s"
| "get_session RSRC_empty = Some zero_IESYS_SESSION"
| "get_session _ = None"

record IESYS_RESOURCE =
  rsrc_handle :: UINT32
  rsrc_name :: TPM2B
  rsrc_rsrcType :: UINT32
  rsrc_misc :: IESYS_RSRC_UNION

definition zero_IESYS_RESOURCE :: IESYS_RESOURCE where
  "zero_IESYS_RESOURCE =
     \<lparr>rsrc_handle = 0, rsrc_name = zero_TPM2B 68, rsrc_rsrcType = 0, rsrc_misc = RSRC_empty\<rparr>"

text \<open>The member \<open>next\<close> is the order of the addresses in the context's list.\<close>

record RSRC_NODE_T =
  node_esys_handle :: ESYS_TR
  node_auth :: TPM2B
  node_rsrc :: IESYS_RESOURCE
  node_reference_count :: size_t

definition zero_RSRC_NODE_T :: RSRC_NODE_T where
  "zero_RSRC_NODE_T =
     \<lparr>node_esys_handle = 0, node_auth = zero_TPM2B 64, node_rsrc = zero_IESYS_RESOURCE, node_reference_count = 0\<rparr>"

section \<open>Saved input parameters\<close>

text \<open>
  A pointer member that is null or points to the data member beside it is an option value.  In
  \<open>NV_IN\<close> an outer \<open>None\<close> is a member that no command has written since this member of the union is in
  use.  The structures \<open>HierarchyChangeAuth_IN\<close> and \<open>PCR_IN\<close> are the initial segment of \<open>NV_IN\<close>, a
  handle and an auth value, and share the constructor with it: the code reads one through the
  other.  \<open>MAC_Start_IN\<close> is \<open>HMAC_Start_IN\<close>.
\<close>

record StartAuthSession_IN =
  SAS_tpmKey :: ESYS_TR
  SAS_bind :: ESYS_TR
  SAS_sessionType :: UINT8
  SAS_authHash :: UINT16
  SAS_nonceCaller :: "TPM2B option"
  SAS_symmetric :: "TPMT_SYM_DEF option"

record NV_IN =
  NV_nvIndex :: "ESYS_TR option"
  NV_authData :: "TPM2B option"
  NV_publicInfo :: "TPM2B_NV_PUBLIC option option"

datatype IESYS_CMD_IN_PARAM =
    IN_none
  | IN_StartAuthSession StartAuthSession_IN
  | IN_CreatePrimary "TPM2B_SENSITIVE_CREATE option"
  | IN_Create "TPM2B_SENSITIVE_CREATE option"
  | IN_ContextSave ESYS_TR
  | IN_ContextLoad "TPMS_CONTEXT option"
  | IN_Load "TPM2B_PUBLIC option"
  | IN_LoadExternal "TPM2B_PUBLIC option"
  | IN_CreateLoaded "TPM2B_SENSITIVE_CREATE option" "TPM2B option"
  | IN_EvictControl ESYS_TR UINT32
  | IN_HMAC_Start TPM2B
  | IN_SequenceComplete ESYS_TR
  | IN_Policy ESYS_TR
  | IN_NV NV_IN
  | IN_FlushContext ESYS_TR

section \<open>Crypto callbacks\<close>

text \<open>
  The callbacks and their \<open>userdata\<close>, a state of any type that every call may change.  A crypto
  context is an opaque pointer.  A buffer that is only read is the list of its bytes; a callback
  that writes into a buffer of the caller returns the bytes it writes and the size it reports.
\<close>

type_synonym crypto_ptr = "nat option"

record 'c ESYS_CRYPTO_CALLBACKS =
  CB_rsa_pk_encrypt :: "(TPM2B_PUBLIC \<Rightarrow> BYTE list \<Rightarrow> size_t \<Rightarrow> string \<Rightarrow> 'c \<Rightarrow> TSS2_RC \<times> BYTE list \<times> size_t \<times> 'c) option"
  CB_hash_start :: "(UINT16 \<Rightarrow> 'c \<Rightarrow> TSS2_RC \<times> crypto_ptr \<times> 'c) option"
  CB_hash_update :: "(crypto_ptr \<Rightarrow> BYTE list \<Rightarrow> 'c \<Rightarrow> TSS2_RC \<times> 'c) option"
  CB_hash_finish :: "(crypto_ptr \<Rightarrow> size_t \<Rightarrow> 'c \<Rightarrow> TSS2_RC \<times> crypto_ptr \<times> BYTE list \<times> size_t \<times> 'c) option"
  CB_hash_abort :: "(crypto_ptr \<Rightarrow> 'c \<Rightarrow> crypto_ptr \<times> 'c) option"
  CB_hmac_start :: "(UINT16 \<Rightarrow> BYTE list \<Rightarrow> 'c \<Rightarrow> TSS2_RC \<times> crypto_ptr \<times> 'c) option"
  CB_hmac_update :: "(crypto_ptr \<Rightarrow> BYTE list \<Rightarrow> 'c \<Rightarrow> TSS2_RC \<times> 'c) option"
  CB_hmac_finish :: "(crypto_ptr \<Rightarrow> size_t \<Rightarrow> 'c \<Rightarrow> TSS2_RC \<times> crypto_ptr \<times> BYTE list \<times> size_t \<times> 'c) option"
  CB_hmac_abort :: "(crypto_ptr \<Rightarrow> 'c \<Rightarrow> crypto_ptr \<times> 'c) option"
  CB_get_random2b :: "(TPM2B \<Rightarrow> size_t \<Rightarrow> 'c \<Rightarrow> TSS2_RC \<times> TPM2B \<times> 'c) option"
  CB_get_ecdh_point :: "(TPM2B_PUBLIC \<Rightarrow> size_t \<Rightarrow> 'c \<Rightarrow> TSS2_RC \<times> TPM2B \<times> TPMS_ECC_POINT \<times> BYTE list \<times> size_t \<times> 'c) option"
  CB_aes_encrypt :: "(BYTE list \<Rightarrow> UINT16 \<Rightarrow> UINT16 \<Rightarrow> UINT16 \<Rightarrow> BYTE list \<Rightarrow> BYTE list \<Rightarrow> 'c \<Rightarrow> TSS2_RC \<times> BYTE list \<times> 'c) option"
  CB_aes_decrypt :: "(BYTE list \<Rightarrow> UINT16 \<Rightarrow> UINT16 \<Rightarrow> UINT16 \<Rightarrow> BYTE list \<Rightarrow> BYTE list \<Rightarrow> 'c \<Rightarrow> TSS2_RC \<times> BYTE list \<times> 'c) option"
  CB_sm4_encrypt :: "(BYTE list \<Rightarrow> UINT16 \<Rightarrow> UINT16 \<Rightarrow> UINT16 \<Rightarrow> BYTE list \<Rightarrow> BYTE list \<Rightarrow> 'c \<Rightarrow> TSS2_RC \<times> BYTE list \<times> 'c) option"
  CB_sm4_decrypt :: "(BYTE list \<Rightarrow> UINT16 \<Rightarrow> UINT16 \<Rightarrow> UINT16 \<Rightarrow> BYTE list \<Rightarrow> BYTE list \<Rightarrow> 'c \<Rightarrow> TSS2_RC \<times> BYTE list \<times> 'c) option"
  CB_init :: "('c \<Rightarrow> TSS2_RC \<times> 'c) option"
  CB_userdata :: 'c

section \<open>The context\<close>

datatype ESYS_STATE = ESYS_STATE_INIT | ESYS_STATE_SENT | ESYS_STATE_RESUBMISSION | ESYS_STATE_INTERNALERROR

text \<open>
  Beside the members of the structure the record holds the heap of the resource objects
  (\<open>rsrc_heap\<close>, and \<open>heap_next\<close>, the next address \<open>calloc\<close> hands out) and \<open>calloc_ok\<close>, the answers
  of the next memory allocations, which succeed when the list is used up.  \<open>stack_auths\<close> is what the
  memory of the uninitialised local array \<open>auths\<close> of the commands holds, \<open>stack_node\<close> what a local
  resource node holds.  \<open>encryptNonce\<close> and
  \<open>enc_session\<close> are the addresses of the session the pointers point into.
\<close>

record ('t, 'c) ESYS_CONTEXT =
  esys_state :: ESYS_STATE
  esys_sys :: "'t sysctx"
  esys_handle_cnt :: ESYS_TR
  rsrc_list :: "nat list"
  esys_timeout :: INT32
  session_type :: "ESYS_TR list"
  session_tab :: "nat option list"
  auth_objects :: "nat option list"
  esys_encryptNonceIdx :: nat
  esys_encryptNonce :: "nat option"
  esys_authsCount :: nat
  submissionCount :: int
  esys_salt :: TPM2B
  esys_in :: IESYS_CMD_IN_PARAM
  esys_esys_handle :: ESYS_TR
  tcti_app_param :: "'t TSS2_TCTI_CONTEXT option"
  enc_session :: "nat option"
  sav_session1 :: ESYS_TR
  sav_session2 :: ESYS_TR
  sav_session3 :: ESYS_TR
  crypto_backend :: "'c ESYS_CRYPTO_CALLBACKS"
  rsrc_heap :: "nat \<Rightarrow> RSRC_NODE_T option"
  heap_next :: nat
  calloc_ok :: "bool list"
  stack_auths :: TSS2L_SYS_AUTH_COMMAND
  stack_node :: RSRC_NODE_T

section \<open>Control flow\<close>

text \<open>
  Functions that deliver a value beside their return code continue with it on success
  (\<open>call\<close>).  \<open>or_state\<close> is \<open>return_state_if_error\<close> around a step, \<open>error_cleanup\<close> the label of that
  name: on an error the clean-up runs and the code is returned.
\<close>

definition call :: "('s \<Rightarrow> (TSS2_RC \<times> 'a \<times> 's) option) \<Rightarrow> ('a \<Rightarrow> 's step) \<Rightarrow> 's step" where
  "call f k s =
     (case f s of
        None \<Rightarrow> None
      | Some (r, x, s') \<Rightarrow> if r \<noteq> 0 then Some (r, s') else k x s')"

definition or_state :: "ESYS_STATE \<Rightarrow> ('t, 'c) ESYS_CONTEXT step \<Rightarrow> ('t, 'c) ESYS_CONTEXT step" where
  "or_state st f ctx =
     (case f ctx of
        None \<Rightarrow> None
      | Some (r, ctx') \<Rightarrow> Some (r, if r \<noteq> 0 then ctx'\<lparr>esys_state := st\<rparr> else ctx'))"

definition call_or ::
  "ESYS_STATE \<Rightarrow> (('t, 'c) ESYS_CONTEXT \<Rightarrow> (TSS2_RC \<times> 'a \<times> ('t, 'c) ESYS_CONTEXT) option) \<Rightarrow>
   ('a \<Rightarrow> ('t, 'c) ESYS_CONTEXT step) \<Rightarrow> ('t, 'c) ESYS_CONTEXT step" where
  "call_or st f k ctx =
     (case f ctx of
        None \<Rightarrow> None
      | Some (r, x, ctx') \<Rightarrow> if r \<noteq> 0 then Some (r, ctx'\<lparr>esys_state := st\<rparr>) else k x ctx')"

definition error_cleanup :: "('s \<Rightarrow> 's option) \<Rightarrow> 's step \<Rightarrow> 's step" where
  "error_cleanup cleanup f s =
     (case f s of
        None \<Rightarrow> None
      | Some (r, s') \<Rightarrow>
          if r \<noteq> 0 then (case cleanup s' of None \<Rightarrow> None | Some s'' \<Rightarrow> Some (r, s''))
          else Some (r, s'))"

definition update :: "('s \<Rightarrow> 's) \<Rightarrow> 's step" where
  "update f s = Some (TSS2_RC_SUCCESS, f s)"

definition fail :: "TSS2_RC \<Rightarrow> 's step" where
  "fail r s = Some (r, s)"

definition set_state :: "ESYS_STATE \<Rightarrow> ('t, 'c) ESYS_CONTEXT step" where
  "set_state st = update (\<lambda>ctx. ctx\<lparr>esys_state := st\<rparr>)"

definition on_sys :: "'t sysctx step \<Rightarrow> ('t, 'c) ESYS_CONTEXT step" where
  "on_sys f ctx =
     (case f (esys_sys ctx) of None \<Rightarrow> None | Some (r, sys') \<Rightarrow> Some (r, ctx\<lparr>esys_sys := sys'\<rparr>))"

definition alloc :: "('t, 'c) ESYS_CONTEXT \<Rightarrow> bool \<times> ('t, 'c) ESYS_CONTEXT" where
  "alloc ctx = (case calloc_ok ctx of [] \<Rightarrow> (True, ctx) | b # bs \<Rightarrow> (b, ctx\<lparr>calloc_ok := bs\<rparr>))"

text \<open>Dereferencing a node and changing it.\<close>

definition deref_node :: "nat option \<Rightarrow> ('t, 'c) ESYS_CONTEXT \<Rightarrow> RSRC_NODE_T option" where
  "deref_node p ctx = (case p of None \<Rightarrow> None | Some a \<Rightarrow> rsrc_heap ctx a)"

definition with_node :: "nat option \<Rightarrow> (RSRC_NODE_T \<Rightarrow> ('t, 'c) ESYS_CONTEXT step) \<Rightarrow> ('t, 'c) ESYS_CONTEXT step" where
  "with_node p k ctx = (case deref_node p ctx of None \<Rightarrow> None | Some n \<Rightarrow> k n ctx)"

definition set_node :: "nat option \<Rightarrow> (RSRC_NODE_T \<Rightarrow> RSRC_NODE_T) \<Rightarrow> ('t, 'c) ESYS_CONTEXT step" where
  "set_node p f ctx =
     (case p of
        None \<Rightarrow> None
      | Some a \<Rightarrow>
          (case rsrc_heap ctx a of
             None \<Rightarrow> None
           | Some n \<Rightarrow> Some (TSS2_RC_SUCCESS, ctx\<lparr>rsrc_heap := (rsrc_heap ctx)(a \<mapsto> f n)\<rparr>)))"

definition node_session :: "RSRC_NODE_T \<Rightarrow> IESYS_SESSION option" where
  "node_session n = get_session (rsrc_misc (node_rsrc n))"

definition with_session :: "nat option \<Rightarrow> (IESYS_SESSION \<Rightarrow> ('t, 'c) ESYS_CONTEXT step) \<Rightarrow> ('t, 'c) ESYS_CONTEXT step" where
  "with_session p k ctx =
     (case deref_node p ctx of
        None \<Rightarrow> None
      | Some n \<Rightarrow> (case node_session n of None \<Rightarrow> None | Some s \<Rightarrow> k s ctx))"

definition set_misc :: "IESYS_RSRC_UNION \<Rightarrow> RSRC_NODE_T \<Rightarrow> RSRC_NODE_T" where
  "set_misc m n = n\<lparr>node_rsrc := (node_rsrc n)\<lparr>rsrc_misc := m\<rparr>\<rparr>"

definition set_session :: "nat option \<Rightarrow> (IESYS_SESSION \<Rightarrow> IESYS_SESSION) \<Rightarrow> ('t, 'c) ESYS_CONTEXT step" where
  "set_session p f = with_session p (\<lambda>s. set_node p (set_misc (RSRC_session (f s))))"

end
