(* ===== verification/Esys_Crypto.thy ===== *)
theory Esys_Crypto
  imports Esys_Types
begin

text \<open>
  The crypto layer of the enhanced system API (\<open>src/tss2-esys/esys_crypto.c\<close>): calls through the
  callbacks, the hash of command and response parameters, the HMAC of an authorization, the key
  derivation functions, and parameter obfuscation.  The built-in back end, chosen when the library
  is built, is an argument of \<open>ieys_set_crypto_callbacks\<close>.
\<close>

unbundle bit_operations_syntax

type_synonym 'c crypto = "'c ESYS_CRYPTO_CALLBACKS"

section \<open>Digest sizes\<close>

definition iesys_crypto_hash_get_digest_size :: "UINT16 \<Rightarrow> TSS2_RC \<times> size_t" where
  "iesys_crypto_hash_get_digest_size hashAlg =
     (if hashAlg = TPM2_ALG_SHA1 then (TSS2_RC_SUCCESS, 20)
      else if hashAlg = TPM2_ALG_SHA256 then (TSS2_RC_SUCCESS, 32)
      else if hashAlg = TPM2_ALG_SHA384 then (TSS2_RC_SUCCESS, 48)
      else if hashAlg = TPM2_ALG_SHA512 then (TSS2_RC_SUCCESS, 64)
      else if hashAlg = TPM2_ALG_SM3_256 then (TSS2_RC_SUCCESS, 32)
      else (TSS2_ESYS_RC_BAD_VALUE, 0))"

section \<open>Calls through the callbacks\<close>

definition iesys_crypto_rsa_pk_encrypt ::
  "'c crypto \<Rightarrow> TPM2B_PUBLIC \<Rightarrow> BYTE list \<Rightarrow> size_t \<Rightarrow> string \<Rightarrow> TSS2_RC \<times> BYTE list \<times> size_t \<times> 'c crypto" where
  "iesys_crypto_rsa_pk_encrypt crypto_cb pub_tpm_key in_buffer max_out_size label =
     (case CB_rsa_pk_encrypt crypto_cb of
        None \<Rightarrow> (TSS2_ESYS_RC_CALLBACK_NULL, [], 0, crypto_cb)
      | Some f \<Rightarrow>
          (case f pub_tpm_key in_buffer max_out_size label (CB_userdata crypto_cb) of
             (r, out, n, u) \<Rightarrow> (r, out, n, crypto_cb\<lparr>CB_userdata := u\<rparr>)))"

definition iesys_crypto_hash_start :: "'c crypto \<Rightarrow> UINT16 \<Rightarrow> TSS2_RC \<times> crypto_ptr \<times> 'c crypto" where
  "iesys_crypto_hash_start crypto_cb hashAlg =
     (case CB_hash_start crypto_cb of
        None \<Rightarrow> (TSS2_ESYS_RC_CALLBACK_NULL, None, crypto_cb)
      | Some f \<Rightarrow> (case f hashAlg (CB_userdata crypto_cb) of (r, p, u) \<Rightarrow> (r, p, crypto_cb\<lparr>CB_userdata := u\<rparr>)))"

definition iesys_crypto_hash_update :: "crypto_ptr \<Rightarrow> BYTE list \<Rightarrow> 'c crypto step" where
  "iesys_crypto_hash_update context buffer crypto_cb =
     Some (case CB_hash_update crypto_cb of
        None \<Rightarrow> (TSS2_ESYS_RC_CALLBACK_NULL, crypto_cb)
      | Some f \<Rightarrow> (case f context buffer (CB_userdata crypto_cb) of (r, u) \<Rightarrow> (r, crypto_cb\<lparr>CB_userdata := u\<rparr>)))"

definition iesys_crypto_hash_finish ::
  "'c crypto \<Rightarrow> crypto_ptr \<Rightarrow> size_t \<Rightarrow> TSS2_RC \<times> crypto_ptr \<times> BYTE list \<times> size_t \<times> 'c crypto" where
  "iesys_crypto_hash_finish crypto_cb context sz =
     (case CB_hash_finish crypto_cb of
        None \<Rightarrow> (TSS2_ESYS_RC_CALLBACK_NULL, context, [], sz, crypto_cb)
      | Some f \<Rightarrow>
          (case f context sz (CB_userdata crypto_cb) of (r, p, d, n, u) \<Rightarrow> (r, p, d, n, crypto_cb\<lparr>CB_userdata := u\<rparr>)))"

definition iesys_crypto_hash_abort :: "'c crypto \<Rightarrow> crypto_ptr \<Rightarrow> TSS2_RC \<times> crypto_ptr \<times> 'c crypto" where
  "iesys_crypto_hash_abort crypto_cb context =
     (case CB_hash_abort crypto_cb of
        None \<Rightarrow> (TSS2_ESYS_RC_CALLBACK_NULL, context, crypto_cb)
      | Some f \<Rightarrow> (case f context (CB_userdata crypto_cb) of (p, u) \<Rightarrow> (TSS2_RC_SUCCESS, p, crypto_cb\<lparr>CB_userdata := u\<rparr>)))"

definition iesys_crypto_hmac_start :: "'c crypto \<Rightarrow> UINT16 \<Rightarrow> BYTE list \<Rightarrow> TSS2_RC \<times> crypto_ptr \<times> 'c crypto" where
  "iesys_crypto_hmac_start crypto_cb hashAlg key =
     (case CB_hmac_start crypto_cb of
        None \<Rightarrow> (TSS2_ESYS_RC_CALLBACK_NULL, None, crypto_cb)
      | Some f \<Rightarrow> (case f hashAlg key (CB_userdata crypto_cb) of (r, p, u) \<Rightarrow> (r, p, crypto_cb\<lparr>CB_userdata := u\<rparr>)))"

definition iesys_crypto_hmac_update :: "crypto_ptr \<Rightarrow> BYTE list \<Rightarrow> 'c crypto step" where
  "iesys_crypto_hmac_update context buffer crypto_cb =
     Some (case CB_hmac_update crypto_cb of
        None \<Rightarrow> (TSS2_ESYS_RC_CALLBACK_NULL, crypto_cb)
      | Some f \<Rightarrow> (case f context buffer (CB_userdata crypto_cb) of (r, u) \<Rightarrow> (r, crypto_cb\<lparr>CB_userdata := u\<rparr>)))"

definition iesys_crypto_hmac_finish ::
  "'c crypto \<Rightarrow> crypto_ptr \<Rightarrow> size_t \<Rightarrow> TSS2_RC \<times> crypto_ptr \<times> BYTE list \<times> size_t \<times> 'c crypto" where
  "iesys_crypto_hmac_finish crypto_cb context sz =
     (case CB_hmac_finish crypto_cb of
        None \<Rightarrow> (TSS2_ESYS_RC_CALLBACK_NULL, context, [], sz, crypto_cb)
      | Some f \<Rightarrow>
          (case f context sz (CB_userdata crypto_cb) of (r, p, d, n, u) \<Rightarrow> (r, p, d, n, crypto_cb\<lparr>CB_userdata := u\<rparr>)))"

definition iesys_crypto_hmac_abort :: "'c crypto \<Rightarrow> crypto_ptr \<Rightarrow> TSS2_RC \<times> crypto_ptr \<times> 'c crypto" where
  "iesys_crypto_hmac_abort crypto_cb context =
     (case CB_hmac_abort crypto_cb of
        None \<Rightarrow> (TSS2_ESYS_RC_CALLBACK_NULL, context, crypto_cb)
      | Some f \<Rightarrow> (case f context (CB_userdata crypto_cb) of (p, u) \<Rightarrow> (TSS2_RC_SUCCESS, p, crypto_cb\<lparr>CB_userdata := u\<rparr>)))"

definition iesys_crypto_get_random2b :: "'c crypto \<Rightarrow> TPM2B \<Rightarrow> size_t \<Rightarrow> TSS2_RC \<times> TPM2B \<times> 'c crypto" where
  "iesys_crypto_get_random2b crypto_cb nonce num_bytes =
     (case CB_get_random2b crypto_cb of
        None \<Rightarrow> (TSS2_ESYS_RC_CALLBACK_NULL, nonce, crypto_cb)
      | Some f \<Rightarrow> (case f nonce num_bytes (CB_userdata crypto_cb) of (r, n, u) \<Rightarrow> (r, n, crypto_cb\<lparr>CB_userdata := u\<rparr>)))"

definition iesys_crypto_get_ecdh_point ::
  "'c crypto \<Rightarrow> TPM2B_PUBLIC \<Rightarrow> size_t \<Rightarrow> TSS2_RC \<times> TPM2B \<times> TPMS_ECC_POINT \<times> BYTE list \<times> size_t \<times> 'c crypto" where
  "iesys_crypto_get_ecdh_point crypto_cb key max_out_size =
     (case CB_get_ecdh_point crypto_cb of
        None \<Rightarrow> (TSS2_ESYS_RC_CALLBACK_NULL, zero_TPM2B 128, zero_TPMS_ECC_POINT, [], 0, crypto_cb)
      | Some f \<Rightarrow>
          (case f key max_out_size (CB_userdata crypto_cb) of
             (r, Z, Q, out, n, u) \<Rightarrow> (r, Z, Q, out, n, crypto_cb\<lparr>CB_userdata := u\<rparr>)))"

definition cipher_callback ::
  "(BYTE list \<Rightarrow> UINT16 \<Rightarrow> UINT16 \<Rightarrow> UINT16 \<Rightarrow> BYTE list \<Rightarrow> BYTE list \<Rightarrow> 'c \<Rightarrow> TSS2_RC \<times> BYTE list \<times> 'c) option \<Rightarrow>
   'c crypto \<Rightarrow> BYTE list \<Rightarrow> UINT16 \<Rightarrow> UINT16 \<Rightarrow> UINT16 \<Rightarrow> BYTE list \<Rightarrow> BYTE list \<Rightarrow> TSS2_RC \<times> BYTE list \<times> 'c crypto" where
  "cipher_callback cb crypto_cb key tpm_sym_alg key_bits tpm_mode buffer iv =
     (case cb of
        None \<Rightarrow> (TSS2_ESYS_RC_CALLBACK_NULL, buffer, crypto_cb)
      | Some f \<Rightarrow>
          (case f key tpm_sym_alg key_bits tpm_mode buffer iv (CB_userdata crypto_cb) of
             (r, b, u) \<Rightarrow> (r, b, crypto_cb\<lparr>CB_userdata := u\<rparr>)))"

definition iesys_crypto_aes_encrypt where
  "iesys_crypto_aes_encrypt crypto_cb = cipher_callback (CB_aes_encrypt crypto_cb) crypto_cb"

definition iesys_crypto_aes_decrypt where
  "iesys_crypto_aes_decrypt crypto_cb = cipher_callback (CB_aes_decrypt crypto_cb) crypto_cb"

definition iesys_crypto_sm4_encrypt where
  "iesys_crypto_sm4_encrypt crypto_cb = cipher_callback (CB_sm4_encrypt crypto_cb) crypto_cb"

definition iesys_crypto_sm4_decrypt where
  "iesys_crypto_sm4_decrypt crypto_cb = cipher_callback (CB_sm4_decrypt crypto_cb) crypto_cb"

section \<open>Sized buffers\<close>

text \<open>The bytes a sized buffer announces; announcing more than the array holds is a fault.\<close>

definition tpm2b_bytes :: "TPM2B \<Rightarrow> BYTE list option" where
  "tpm2b_bytes t =
     (if unat (TPM2B_size t) \<le> length (TPM2B_buffer t) then Some (take (unat (TPM2B_size t)) (TPM2B_buffer t)) else None)"

definition iesys_crypto_hash_update2b :: "crypto_ptr \<Rightarrow> TPM2B \<Rightarrow> 'c crypto step" where
  "iesys_crypto_hash_update2b context tpm2b crypto_cb =
     (case tpm2b_bytes tpm2b of None \<Rightarrow> None | Some b \<Rightarrow> iesys_crypto_hash_update context b crypto_cb)"

definition iesys_crypto_hmac_update2b :: "crypto_ptr \<Rightarrow> TPM2B \<Rightarrow> 'c crypto step" where
  "iesys_crypto_hmac_update2b context tpm2b crypto_cb =
     (case tpm2b_bytes tpm2b of None \<Rightarrow> None | Some b \<Rightarrow> iesys_crypto_hmac_update context b crypto_cb)"

definition iesys_crypto_hmac_finish2b ::
  "'c crypto \<Rightarrow> crypto_ptr \<Rightarrow> TPM2B \<Rightarrow> (TSS2_RC \<times> crypto_ptr \<times> TPM2B \<times> 'c crypto) option" where
  "iesys_crypto_hmac_finish2b crypto_cb context tpm2b =
     (case iesys_crypto_hmac_finish crypto_cb context (ucast (TPM2B_size tpm2b)) of
        (r, p, d, n, cb) \<Rightarrow>
          map_option (\<lambda>b. (r, p, tpm2b\<lparr>TPM2B_buffer := b, TPM2B_size := ucast n\<rparr>, cb))
            (mem_write (TPM2B_buffer tpm2b) 0 d))"

section \<open>Parameter hashes and authorization HMACs\<close>

text \<open>An optional argument is hashed when it is not null.\<close>

definition opt_step :: "('a \<Rightarrow> 's step) \<Rightarrow> 'a option \<Rightarrow> 's step" where
  "opt_step f x = (case x of None \<Rightarrow> steps [] | Some a \<Rightarrow> f a)"

definition iesys_crypto_pHash ::
  "'c crypto \<Rightarrow> UINT16 \<Rightarrow> BYTE list option \<Rightarrow> BYTE list option \<Rightarrow> TPM2B option \<Rightarrow> TPM2B option \<Rightarrow> TPM2B option \<Rightarrow>
   BYTE list option \<Rightarrow> BYTE list option \<Rightarrow> size_t option \<Rightarrow> (TSS2_RC \<times> BYTE list option \<times> size_t option \<times> 'c crypto) option" where
  "iesys_crypto_pHash crypto_cb alg rcBuffer ccBuffer name1 name2 name3 pBuffer pHash pHash_size =
     (case (ccBuffer, pBuffer, pHash, pHash_size) of
        (Some cc, Some p, Some h, Some n) \<Rightarrow>
          (case iesys_crypto_hash_start crypto_cb alg of
             (r, cryptoContext, cb) \<Rightarrow>
               if r \<noteq> 0 then Some (r, pHash, pHash_size, cb)
               else
                 (case steps
                    [opt_step (iesys_crypto_hash_update cryptoContext) rcBuffer,
                     iesys_crypto_hash_update cryptoContext cc,
                     opt_step (iesys_crypto_hash_update2b cryptoContext) name1,
                     opt_step (iesys_crypto_hash_update2b cryptoContext) name2,
                     opt_step (iesys_crypto_hash_update2b cryptoContext) name3,
                     iesys_crypto_hash_update cryptoContext p] cb of
                    None \<Rightarrow> None
                  | Some (r, cb) \<Rightarrow>
                      if r \<noteq> 0 then Some (r, pHash, pHash_size, snd (snd (iesys_crypto_hash_abort cb cryptoContext)))
                      else
                        (case iesys_crypto_hash_finish cb cryptoContext n of
                           (r, cryptoContext, d, n, cb) \<Rightarrow>
                             (case mem_write h 0 d of
                                None \<Rightarrow> None
                              | Some h \<Rightarrow>
                                  Some (r, Some h, Some n,
                                    if r \<noteq> 0 then snd (snd (iesys_crypto_hash_abort cb cryptoContext)) else cb)))))
      | _ \<Rightarrow> Some (TSS2_ESYS_RC_BAD_REFERENCE, pHash, pHash_size, crypto_cb))"

text \<open>
  The session attributes are marshalled into a buffer of one byte.  On an error the code releases
  the HMAC context with the function for hash contexts.
\<close>

definition iesys_crypto_authHmac ::
  "'c crypto \<Rightarrow> UINT16 \<Rightarrow> BYTE list \<Rightarrow> BYTE list \<Rightarrow> TPM2B \<Rightarrow> TPM2B \<Rightarrow> TPM2B option \<Rightarrow> TPM2B option \<Rightarrow> UINT8 \<Rightarrow> TPM2B \<Rightarrow>
   (TSS2_RC \<times> TPM2B \<times> 'c crypto) option" where
  "iesys_crypto_authHmac crypto_cb alg hmacKey pHash nonceNewer nonceOlder nonceDecrypt nonceEncrypt sessionAttributes hmac =
     (case iesys_crypto_hmac_start crypto_cb alg hmacKey of
        (r, cryptoContext, cb) \<Rightarrow>
          if r \<noteq> 0 then Some (r, hmac, cb)
          else
            (case steps
               [iesys_crypto_hmac_update cryptoContext pHash,
                iesys_crypto_hmac_update2b cryptoContext nonceNewer,
                iesys_crypto_hmac_update2b cryptoContext nonceOlder,
                opt_step (iesys_crypto_hmac_update2b cryptoContext) nonceDecrypt,
                opt_step (iesys_crypto_hmac_update2b cryptoContext) nonceEncrypt,
                (\<lambda>cb.
                   case Tss2_MU_TPMA_SESSION_Marshal sessionAttributes (Some [0]) 1 (Some 0) of
                     Some (r, Some b, Some n) \<Rightarrow>
                       if r \<noteq> 0 then Some (r, cb) else iesys_crypto_hmac_update cryptoContext (take (unat n) b) cb
                   | _ \<Rightarrow> None)] cb of
               None \<Rightarrow> None
             | Some (r, cb) \<Rightarrow>
                 if r \<noteq> 0 then Some (r, hmac, snd (snd (iesys_crypto_hash_abort cb cryptoContext)))
                 else
                   (case iesys_crypto_hmac_finish2b cb cryptoContext hmac of
                      None \<Rightarrow> None
                    | Some (r, cryptoContext, hmac, cb) \<Rightarrow>
                        Some (r, hmac, if r \<noteq> 0 then snd (snd (iesys_crypto_hash_abort cb cryptoContext)) else cb))))"

section \<open>Key derivation\<close>

text \<open>The 4 bytes \<open>Tss2_MU_UINT32_Marshal\<close> writes into a buffer of 4 bytes go to the update function.\<close>

definition update_UINT32 :: "(BYTE list \<Rightarrow> 'c crypto step) \<Rightarrow> UINT32 \<Rightarrow> 'c crypto step" where
  "update_UINT32 upd w cb =
     (case Tss2_MU_UINT32_Marshal w (Some (replicate 4 0)) 4 (Some 0) of
        Some (r, Some b, Some n) \<Rightarrow> if r \<noteq> 0 then Some (r, cb) else upd (take (unat n) b) cb
      | _ \<Rightarrow> None)"

text \<open>A label is hashed with its terminating zero byte.\<close>

definition label_bytes :: "string \<Rightarrow> BYTE list" where
  "label_bytes label = map of_char label @ [0]"

definition iesys_crypto_KDFaHmac ::
  "'c crypto \<Rightarrow> UINT16 \<Rightarrow> BYTE list \<Rightarrow> UINT32 \<Rightarrow> string option \<Rightarrow> TPM2B \<Rightarrow> TPM2B \<Rightarrow> UINT32 \<Rightarrow> size_t \<Rightarrow>
   (TSS2_RC \<times> BYTE list \<times> size_t \<times> 'c crypto) option" where
  "iesys_crypto_KDFaHmac crypto_cb alg hmacKey counter label contextU contextV bitlength hmacSize =
     (case iesys_crypto_hmac_start crypto_cb alg hmacKey of
        (r, cryptoContext, cb) \<Rightarrow>
          if r \<noteq> 0 then Some (r, [], hmacSize, cb)
          else
            (case steps
               [update_UINT32 (iesys_crypto_hmac_update cryptoContext) counter,
                opt_step (\<lambda>l. iesys_crypto_hmac_update cryptoContext (label_bytes l)) label,
                iesys_crypto_hmac_update2b cryptoContext contextU,
                iesys_crypto_hmac_update2b cryptoContext contextV,
                update_UINT32 (iesys_crypto_hmac_update cryptoContext) bitlength] cb of
               None \<Rightarrow> None
             | Some (r, cb) \<Rightarrow>
                 if r \<noteq> 0 then Some (r, [], hmacSize, snd (snd (iesys_crypto_hmac_abort cb cryptoContext)))
                 else
                   (case iesys_crypto_hmac_finish cb cryptoContext hmacSize of
                      (r, cryptoContext, d, n, cb) \<Rightarrow>
                        Some (r, d, n, if r \<noteq> 0 then snd (snd (iesys_crypto_hmac_abort cb cryptoContext)) else cb))))"

text \<open>
  The loop that fills \<open>outKey\<close> block by block from position \<open>pos\<close> on.  The size of a block is what the
  back end reports; a back end that reports blocks of no bytes keeps the loop running.
\<close>

partial_function (option) KDFa_loop ::
  "UINT16 \<Rightarrow> BYTE list \<Rightarrow> string option \<Rightarrow> TPM2B \<Rightarrow> TPM2B \<Rightarrow> UINT32 \<Rightarrow> BYTE list \<Rightarrow> size_t \<Rightarrow> size_t \<Rightarrow> size_t \<Rightarrow> UINT32 \<Rightarrow> 'c crypto \<Rightarrow>
   (TSS2_RC \<times> BYTE list \<times> UINT32 \<times> 'c crypto) option" where
  "KDFa_loop hashAlg hmacKey label contextU contextV bitLength outKey pos bytes hlen counter crypto_cb =
     Option.bind (iesys_crypto_KDFaHmac crypto_cb hashAlg hmacKey (counter + 1) label contextU contextV bitLength hlen)
       (\<lambda>(r, d, hlen, cb).
          Option.bind (mem_write outKey pos d)
            (\<lambda>outKey.
               if r \<noteq> 0 then Some (r, outKey, counter + 1, cb)
               else if bytes \<le> hlen then Some (TSS2_RC_SUCCESS, outKey, counter + 1, cb)
               else KDFa_loop hashAlg hmacKey label contextU contextV bitLength outKey (pos + hlen) (bytes - hlen) hlen
                      (counter + 1) cb))"

declare KDFa_loop.simps [code]

text \<open>\<open>outKey[0] &= (1 << (bits mod 8)) - 1\<close>\<close>

definition mask_first :: "UINT32 \<Rightarrow> BYTE list \<Rightarrow> BYTE list option" where
  "mask_first bits key =
     (if bits mod 8 = 0 then Some key
      else case key of [] \<Rightarrow> None | b # bs \<Rightarrow> Some ((b AND mask (unat (bits mod 8))) # bs))"

text \<open>Without \<open>counterInOut\<close> the counter starts at zero and its last value is dropped.\<close>

definition iesys_crypto_KDFa ::
  "'c crypto \<Rightarrow> UINT16 \<Rightarrow> BYTE list \<Rightarrow> string option \<Rightarrow> TPM2B \<Rightarrow> TPM2B \<Rightarrow> UINT32 \<Rightarrow> UINT32 option \<Rightarrow> BYTE list \<Rightarrow> bool \<Rightarrow>
   (TSS2_RC \<times> BYTE list \<times> UINT32 option \<times> 'c crypto) option" where
  "iesys_crypto_KDFa crypto_cb hashAlg hmacKey label contextU contextV bitLength counterInOut outKey use_digest_size =
     (case iesys_crypto_hash_get_digest_size hashAlg of
        (r, hlen) \<Rightarrow>
          if r \<noteq> 0 then Some (r, outKey, counterInOut, crypto_cb)
          else
            (case KDFa_loop hashAlg hmacKey label contextU contextV bitLength outKey 0
                    (if use_digest_size then hlen else ucast ((bitLength + 7) div 8)) hlen
                    (case counterInOut of None \<Rightarrow> 0 | Some c \<Rightarrow> c) crypto_cb of
               None \<Rightarrow> None
             | Some (r, outKey, counter, cb) \<Rightarrow>
                 if r \<noteq> 0 then Some (r, outKey, counterInOut, cb)
                 else
                   (case mask_first bitLength outKey of
                      None \<Rightarrow> None
                    | Some outKey \<Rightarrow> Some (TSS2_RC_SUCCESS, outKey, map_option (\<lambda>_. counter) counterInOut, cb))))"

text \<open>On an error the code releases the hash context with the function for HMAC contexts.\<close>

partial_function (option) KDFe_loop ::
  "UINT16 \<Rightarrow> TPM2B option \<Rightarrow> string option \<Rightarrow> TPM2B option \<Rightarrow> TPM2B option \<Rightarrow> BYTE list \<Rightarrow> size_t \<Rightarrow> size_t \<Rightarrow> size_t \<Rightarrow> UINT32 \<Rightarrow>
   'c crypto \<Rightarrow> (TSS2_RC \<times> BYTE list \<times> 'c crypto) option" where
  "KDFe_loop hashAlg Z label partyUInfo partyVInfo key stream byte_size hash_len counter crypto_cb =
     (case iesys_crypto_hash_start crypto_cb hashAlg of
        (r, cryptoContext, cb) \<Rightarrow>
          if r \<noteq> 0 then Some (r, key, cb)
          else
            Option.bind
              (steps
                 [update_UINT32 (iesys_crypto_hash_update cryptoContext) (counter + 1),
                  opt_step (iesys_crypto_hash_update2b cryptoContext) Z,
                  opt_step (\<lambda>l. iesys_crypto_hash_update cryptoContext (label_bytes l)) label,
                  opt_step (iesys_crypto_hash_update2b cryptoContext) partyUInfo,
                  opt_step (iesys_crypto_hash_update2b cryptoContext) partyVInfo] cb)
              (\<lambda>(r, cb).
                 if r \<noteq> 0 then Some (r, key, snd (snd (iesys_crypto_hmac_abort cb cryptoContext)))
                 else
                   (case iesys_crypto_hash_finish cb cryptoContext hash_len of
                      (r, cryptoContext, d, hash_len, cb) \<Rightarrow>
                        Option.bind (mem_write key stream d)
                          (\<lambda>key.
                             if r \<noteq> 0 then Some (r, key, snd (snd (iesys_crypto_hmac_abort cb cryptoContext)))
                             else if byte_size \<le> hash_len then Some (TSS2_RC_SUCCESS, key, cb)
                             else KDFe_loop hashAlg Z label partyUInfo partyVInfo key (stream + hash_len)
                                    (byte_size - hash_len) hash_len (counter + 1) cb))))"

declare KDFe_loop.simps [code]

definition iesys_crypto_KDFe ::
  "'c crypto \<Rightarrow> UINT16 \<Rightarrow> TPM2B option \<Rightarrow> string option \<Rightarrow> TPM2B option \<Rightarrow> TPM2B option \<Rightarrow> UINT32 \<Rightarrow> BYTE list \<Rightarrow>
   (TSS2_RC \<times> BYTE list \<times> 'c crypto) option" where
  "iesys_crypto_KDFe crypto_cb hashAlg Z label partyUInfo partyVInfo bit_size key =
     (case iesys_crypto_hash_get_digest_size hashAlg of
        (r, hash_len) \<Rightarrow>
          let byte_size = ucast ((bit_size + 7) div 8) in
          if r \<noteq> 0 then Some (r, key, crypto_cb)
          else if hashAlg = TPM2_ALG_NULL \<or> byte_size = 0 then Some (TSS2_ESYS_RC_BAD_VALUE, key, crypto_cb)
          else
            (case KDFe_loop hashAlg Z label partyUInfo partyVInfo key 0 byte_size hash_len 0 crypto_cb of
               None \<Rightarrow> None
             | Some (r, key, cb) \<Rightarrow>
                 if r \<noteq> 0 then Some (r, key, cb)
                 else map_option (\<lambda>key. (r, key, cb)) (mask_first bit_size key)))"

section \<open>Parameter obfuscation\<close>

text \<open>
  One round derives a block of key stream and combines it with the next bytes of the parameter.
  \<open>done\<close> are the bytes that are already combined, \<open>rest\<close> those that are left.
\<close>

function xor_loop ::
  "UINT16 \<Rightarrow> BYTE list \<Rightarrow> TPM2B \<Rightarrow> TPM2B \<Rightarrow> nat \<Rightarrow> UINT32 \<Rightarrow> UINT32 \<Rightarrow> BYTE list \<Rightarrow> BYTE list \<Rightarrow> 'c crypto \<Rightarrow>
   (TSS2_RC \<times> BYTE list \<times> 'c crypto) option" where
  "xor_loop hash_alg key contextU contextV digest_size data_size_bits counter finished rest crypto_cb =
     (if rest = [] \<or> digest_size = 0 then Some (TSS2_RC_SUCCESS, finished @ rest, crypto_cb)
      else
        (case iesys_crypto_KDFa crypto_cb hash_alg key (Some ''XOR'') contextU contextV data_size_bits (Some counter)
                (replicate TPM2_MAX_DIGEST_BUFFER 0) True of
           None \<Rightarrow> None
         | Some (r, kdfa_result, counterInOut, cb) \<Rightarrow>
             if r \<noteq> 0 then Some (r, finished @ rest, cb)
             else
               xor_loop hash_alg key contextU contextV digest_size data_size_bits (the counterInOut)
                 (finished @ map2 (\<lambda>d k. d XOR k) (take digest_size rest) kdfa_result) (drop digest_size rest) cb))"
  by pat_completeness auto
termination
  by (relation "measure (\<lambda>(_, _, _, _, _, _, _, _, rest, _). length rest)") auto

definition iesys_xor_parameter_obfuscation ::
  "'c crypto \<Rightarrow> UINT16 \<Rightarrow> BYTE list option \<Rightarrow> TPM2B \<Rightarrow> TPM2B \<Rightarrow> BYTE list option \<Rightarrow> (TSS2_RC \<times> BYTE list option \<times> 'c crypto) option" where
  "iesys_xor_parameter_obfuscation crypto_cb hash_alg key contextU contextV data =
     (case (key, data) of
        (Some k, Some d) \<Rightarrow>
          (case iesys_crypto_hash_get_digest_size hash_alg of
             (r, digest_size) \<Rightarrow>
               if r \<noteq> 0 then Some (r, data, crypto_cb)
               else
                 map_option (\<lambda>(r, d, cb). (r, Some d, cb))
                   (xor_loop hash_alg k contextU contextV (unat digest_size) (of_nat (length d * 8)) 0 [] d crypto_cb))
      | _ \<Rightarrow> Some (TSS2_ESYS_RC_BAD_REFERENCE, data, crypto_cb))"

section \<open>Choosing the back end\<close>

text \<open>One use of \<open>TEST_AND_SET_CALLBACK\<close>: a missing callback ends the function.\<close>

definition TEST_AND_SET_CALLBACK ::
  "('c crypto \<Rightarrow> 'f option) \<Rightarrow> (('f option \<Rightarrow> 'f option) \<Rightarrow> 'c crypto \<Rightarrow> 'c crypto) \<Rightarrow> 'c crypto \<Rightarrow> 'c crypto step" where
  "TEST_AND_SET_CALLBACK fn upd callbacks crypto_cb =
     (case fn callbacks of
        Some f \<Rightarrow> Some (TSS2_RC_SUCCESS, upd (\<lambda>_. Some f) crypto_cb)
      | None \<Rightarrow> Some (TSS2_ESYS_RC_CALLBACK_NULL, crypto_cb))"

definition ieys_set_crypto_callbacks :: "'c crypto \<Rightarrow> 'c crypto option \<Rightarrow> 'c crypto step" where
  "ieys_set_crypto_callbacks internal user_cb crypto_cb =
     (case user_cb of
        None \<Rightarrow> Some (TSS2_RC_SUCCESS, internal)
      | Some u \<Rightarrow>
          steps
            [TEST_AND_SET_CALLBACK CB_aes_decrypt CB_aes_decrypt_update u,
             TEST_AND_SET_CALLBACK CB_aes_encrypt CB_aes_encrypt_update u,
             update (\<lambda>c. c\<lparr>CB_sm4_encrypt := (if CB_sm4_encrypt u \<noteq> None then CB_sm4_encrypt u else CB_sm4_encrypt internal)\<rparr>),
             update (\<lambda>c. c\<lparr>CB_sm4_decrypt := (if CB_sm4_decrypt u \<noteq> None then CB_sm4_decrypt u else CB_sm4_decrypt internal)\<rparr>),
             TEST_AND_SET_CALLBACK CB_get_ecdh_point CB_get_ecdh_point_update u,
             TEST_AND_SET_CALLBACK CB_get_random2b CB_get_random2b_update u,
             TEST_AND_SET_CALLBACK CB_rsa_pk_encrypt CB_rsa_pk_encrypt_update u,
             TEST_AND_SET_CALLBACK CB_hash_abort CB_hash_abort_update u,
             TEST_AND_SET_CALLBACK CB_hash_finish CB_hash_finish_update u,
             TEST_AND_SET_CALLBACK CB_hash_start CB_hash_start_update u,
             TEST_AND_SET_CALLBACK CB_hash_update CB_hash_update_update u,
             TEST_AND_SET_CALLBACK CB_hmac_abort CB_hmac_abort_update u,
             TEST_AND_SET_CALLBACK CB_hmac_finish CB_hmac_finish_update u,
             TEST_AND_SET_CALLBACK CB_hmac_start CB_hmac_start_update u,
             TEST_AND_SET_CALLBACK CB_hmac_update CB_hmac_update_update u,
             update (\<lambda>c. c\<lparr>CB_init := CB_init u, CB_userdata := CB_userdata u\<rparr>)] crypto_cb)"

definition iesys_initialize_crypto_backend :: "'c crypto \<Rightarrow> 'c crypto option \<Rightarrow> 'c crypto step" where
  "iesys_initialize_crypto_backend internal user_cb crypto_cb =
     (case ieys_set_crypto_callbacks internal user_cb crypto_cb of
        None \<Rightarrow> None
      | Some (rc, cb) \<Rightarrow>
          if rc \<noteq> 0 then Some (rc, cb)
          else
            (case CB_init cb of
               None \<Rightarrow> Some (TSS2_RC_SUCCESS, cb)
             | Some f \<Rightarrow> (case f (CB_userdata cb) of (r, u) \<Rightarrow> Some (r, cb\<lparr>CB_userdata := u\<rparr>))))"

end
