(* ===== verification/Esys_Util.thy ===== *)
theory Esys_Util
  imports Esys_Crypto
begin

text \<open>
  Resource objects, names and sessions of the enhanced system API (\<open>src/tss2-esys/esys_iutil.c\<close>).
  A function that delivers a value through a pointer returns it beside the return code.
\<close>

unbundle bit_operations_syntax

type_synonym ('t, 'c) esys = "('t, 'c) ESYS_CONTEXT"

section \<open>Comparing\<close>

definition cmp_BYTE_array :: "BYTE list option \<Rightarrow> BYTE list option \<Rightarrow> bool option" where
  "cmp_BYTE_array in1 in2 =
     (case (in1, in2) of (Some a, Some b) \<Rightarrow> Some (length a = length b \<and> a = b) | _ \<Rightarrow> None)"

definition cmp_TPM2B_DIGEST :: "TPM2B \<Rightarrow> TPM2B \<Rightarrow> bool option" where
  "cmp_TPM2B_DIGEST in1 in2 =
     (if TPM2B_size in1 \<noteq> TPM2B_size in2 then Some False
      else cmp_BYTE_array (tpm2b_bytes in1) (tpm2b_bytes in2))"

definition cmp_TPM2B_NAME :: "TPM2B \<Rightarrow> TPM2B \<Rightarrow> bool option" where
  "cmp_TPM2B_NAME in1 in2 =
     (if TPM2B_size in1 \<noteq> TPM2B_size in2 then Some False
      else cmp_BYTE_array (tpm2b_bytes in1) (tpm2b_bytes in2))"

definition cmp_TPM2B_AUTH :: "TPM2B \<Rightarrow> TPM2B \<Rightarrow> bool option" where
  "cmp_TPM2B_AUTH in1 in2 = cmp_TPM2B_DIGEST in1 in2"

section \<open>Handles\<close>

definition iesys_handle_to_tpm_handle :: "ESYS_TR \<Rightarrow> TSS2_RC \<times> UINT32" where
  "iesys_handle_to_tpm_handle esys_handle =
     (if esys_handle \<le> ESYS_TR_PCR31 then (TSS2_RC_SUCCESS, esys_handle)
      else if esys_handle = ESYS_TR_RH_OWNER then (TSS2_RC_SUCCESS, TPM2_RH_OWNER)
      else if esys_handle = ESYS_TR_RH_NULL then (TSS2_RC_SUCCESS, TPM2_RH_NULL)
      else if esys_handle = ESYS_TR_RH_LOCKOUT then (TSS2_RC_SUCCESS, TPM2_RH_LOCKOUT)
      else if esys_handle = ESYS_TR_RH_ENDORSEMENT then (TSS2_RC_SUCCESS, TPM2_RH_ENDORSEMENT)
      else if esys_handle = ESYS_TR_RH_PLATFORM then (TSS2_RC_SUCCESS, TPM2_RH_PLATFORM)
      else if esys_handle = ESYS_TR_RH_PLATFORM_NV then (TSS2_RC_SUCCESS, TPM2_RH_PLATFORM_NV)
      else if esys_handle = ESYS_TR_RH_FW_OWNER then (TSS2_RC_SUCCESS, TPM2_RH_FW_OWNER)
      else if esys_handle = ESYS_TR_RH_FW_ENDORSEMENT then (TSS2_RC_SUCCESS, TPM2_RH_FW_ENDORSEMENT)
      else if esys_handle = ESYS_TR_RH_FW_PLATFORM then (TSS2_RC_SUCCESS, TPM2_RH_FW_PLATFORM)
      else if esys_handle = ESYS_TR_RH_FW_NULL then (TSS2_RC_SUCCESS, TPM2_RH_FW_NULL)
      else if esys_handle AND 0xFFFF0000 = ESYS_TR_RH_SVN_OWNER_BASE
      then (TSS2_RC_SUCCESS, TPM2_RH_SVN_OWNER_BASE + (esys_handle AND 0x0000FFFF))
      else if esys_handle AND 0xFFFF0000 = ESYS_TR_RH_SVN_ENDORSEMENT_BASE
      then (TSS2_RC_SUCCESS, TPM2_RH_SVN_ENDORSEMENT_BASE + (esys_handle AND 0x0000FFFF))
      else if esys_handle AND 0xFFFF0000 = ESYS_TR_RH_SVN_PLATFORM_BASE
      then (TSS2_RC_SUCCESS, TPM2_RH_SVN_PLATFORM_BASE + (esys_handle AND 0x0000FFFF))
      else if esys_handle AND 0xFFFF0000 = ESYS_TR_RH_SVN_NULL_BASE
      then (TSS2_RC_SUCCESS, TPM2_RH_SVN_NULL_BASE + (esys_handle AND 0x0000FFFF))
      else if esys_handle \<ge> ESYS_TR_RH_ACT_FIRST \<and> esys_handle \<le> ESYS_TR_RH_ACT_LAST
      then (TSS2_RC_SUCCESS, TPM2_RH_ACT_0 + (esys_handle - ESYS_TR_RH_ACT_FIRST))
      else if esys_handle \<ge> ESYS_TR_RH_AC_FIRST \<and> esys_handle \<le> ESYS_TR_RH_AC_LAST
      then (TSS2_RC_SUCCESS, TPM2_NV_AC_FIRST + (esys_handle - ESYS_TR_RH_AC_FIRST))
      else (TSS2_ESYS_RC_BAD_VALUE, 0))"

definition iesys_is_platform_handle :: "ESYS_TR \<Rightarrow> bool" where
  "iesys_is_platform_handle handle \<longleftrightarrow>
     handle \<in> {TPM2_RH_OWNER, TPM2_RH_PLATFORM, TPM2_RH_PLATFORM_NV, TPM2_RH_ENDORSEMENT, TPM2_RH_NULL}"

definition iesys_get_handle_type :: "UINT32 \<Rightarrow> UINT8" where
  "iesys_get_handle_type handle = ucast (drop_bit TPM2_HR_SHIFT (handle AND TPM2_HR_RANGE_MASK))"

section \<open>Resource objects\<close>

definition esys_CreateResourceObject ::
  "ESYS_TR \<Rightarrow> ('t, 'c) esys \<Rightarrow> (TSS2_RC \<times> nat option \<times> ('t, 'c) esys) option" where
  "esys_CreateResourceObject esys_handle ctx =
     (case alloc ctx of
        (ok, ctx) \<Rightarrow>
          if \<not> ok then Some (TSS2_ESYS_RC_MEMORY, None, ctx)
          else
            let a = heap_next ctx in
            Some (TSS2_RC_SUCCESS, Some a,
              ctx\<lparr>heap_next := a + 1, rsrc_heap := (rsrc_heap ctx)(a \<mapsto> zero_RSRC_NODE_T\<lparr>node_esys_handle := esys_handle\<rparr>),
                rsrc_list := a # rsrc_list ctx\<rparr>))"

text \<open>The search along the list; the outer option is a fault at a node that is gone.\<close>

fun find_rsrc :: "(RSRC_NODE_T \<Rightarrow> bool) \<Rightarrow> (nat \<Rightarrow> RSRC_NODE_T option) \<Rightarrow> nat list \<Rightarrow> nat option option" where
  "find_rsrc p hp [] = Some None"
| "find_rsrc p hp (a # as) =
     (case hp a of
        None \<Rightarrow> None
      | Some n \<Rightarrow> if p n then Some (Some a) else find_rsrc p hp as)"

definition esys_GetResourceObject ::
  "ESYS_TR \<Rightarrow> ('t, 'c) esys \<Rightarrow> (TSS2_RC \<times> nat option \<times> ('t, 'c) esys) option" where
  "esys_GetResourceObject esys_handle ctx =
     (if esys_handle = ESYS_TR_NONE then Some (TSS2_RC_SUCCESS, None, ctx)
      else
        (case find_rsrc (\<lambda>n. node_esys_handle n = esys_handle) (rsrc_heap ctx) (rsrc_list ctx) of
           None \<Rightarrow> None
         | Some (Some a) \<Rightarrow> Some (TSS2_RC_SUCCESS, Some a, ctx)
         | Some None \<Rightarrow>
             if esys_handle \<ge> ESYS_TR_MIN_OBJECT then Some (TSS2_ESYS_RC_BAD_TR, None, ctx)
             else
               (case iesys_handle_to_tpm_handle esys_handle of
                  (r, tpm_handle) \<Rightarrow>
                    if r \<noteq> 0 then Some (r, None, ctx)
                    else
                      (case esys_CreateResourceObject esys_handle ctx of
                         Some (r, Some a, ctx) \<Rightarrow>
                           if r \<noteq> 0 then Some (r, None, ctx)
                           else
                             (case rsrc_heap ctx a of
                                None \<Rightarrow> None
                              | Some n \<Rightarrow>
                                  let n1 = n\<lparr>node_rsrc := (node_rsrc n)\<lparr>rsrc_handle := tpm_handle,
                                             rsrc_rsrcType := IESYSC_WITHOUT_MISC_RSRC\<rparr>\<rparr>;
                                      name = rsrc_name (node_rsrc n1) in
                                  (case Tss2_MU_UINT32_Marshal tpm_handle (Some (TPM2B_buffer name))
                                          (of_nat (length (TPM2B_buffer name))) (Some 0) of
                                     Some (r, Some b, Some offset) \<Rightarrow>
                                       let size' = (if r \<noteq> 0 then TPM2B_size name else ucast offset);
                                           n2 = n1\<lparr>node_rsrc := (node_rsrc n1)\<lparr>rsrc_name := name\<lparr>TPM2B_buffer := b, TPM2B_size := size'\<rparr>\<rparr>\<rparr> in
                                       Some (r, Some a, ctx\<lparr>rsrc_heap := (rsrc_heap ctx)(a \<mapsto> n2)\<rparr>)
                                   | _ \<Rightarrow> None))
                       | Some (r, None, ctx) \<Rightarrow> Some (r, None, ctx)
                       | None \<Rightarrow> None))))"

definition iesys_DeleteAllResourceObjects :: "('t, 'c) esys \<Rightarrow> ('t, 'c) esys" where
  "iesys_DeleteAllResourceObjects ctx =
     ctx\<lparr>rsrc_heap := (\<lambda>a. if a \<in> set (rsrc_list ctx) then None else rsrc_heap ctx a), rsrc_list := []\<rparr>"

section \<open>Auth values\<close>

text \<open>The last byte is read only while the size is positive; a size beyond the array is a fault.\<close>

fun strip_count :: "BYTE list \<Rightarrow> nat \<Rightarrow> nat option" where
  "strip_count b 0 = Some 0"
| "strip_count b (Suc n) =
     (if n < length b then if b ! n = 0 then strip_count b n else Some (Suc n) else None)"

definition iesys_strip_trailing_zeros :: "TPM2B option \<Rightarrow> TPM2B option option" where
  "iesys_strip_trailing_zeros digest =
     (case digest of
        None \<Rightarrow> Some None
      | Some d \<Rightarrow> map_option (\<lambda>n. Some (d\<lparr>TPM2B_size := of_nat n\<rparr>)) (strip_count (TPM2B_buffer d) (unat (TPM2B_size d))))"

text \<open>
  The error path of the functions that hash: a context that is not null is released, and an
  error of the release replaces the code.
\<close>

definition hash_cleanup :: "TSS2_RC \<Rightarrow> crypto_ptr \<Rightarrow> 'c crypto \<Rightarrow> TSS2_RC \<times> 'c crypto" where
  "hash_cleanup r cryptoContext cb =
     (if cryptoContext = None then (r, cb)
      else case iesys_crypto_hash_abort cb cryptoContext of
        (tmp_rc, _, cb) \<Rightarrow> (if tmp_rc \<noteq> 0 then tmp_rc else r, cb))"

definition iesys_adapt_auth_value ::
  "'c crypto \<Rightarrow> TPM2B option \<Rightarrow> UINT16 \<Rightarrow> (TSS2_RC \<times> TPM2B option \<times> 'c crypto) option" where
  "iesys_adapt_auth_value crypto_cb auth_value hash_alg =
     (case iesys_strip_trailing_zeros auth_value of
        None \<Rightarrow> None
      | Some auth_value \<Rightarrow>
          if hash_alg = 0 then Some (TSS2_RC_SUCCESS, auth_value, crypto_cb)
          else
            (case iesys_crypto_hash_get_digest_size hash_alg of
               (r, hash_size) \<Rightarrow>
                 if r \<noteq> 0 then Some (r, auth_value, crypto_cb)
                 else
                   (case auth_value of
                      None \<Rightarrow> Some (TSS2_RC_SUCCESS, auth_value, crypto_cb)
                    | Some av \<Rightarrow>
                        if ucast (TPM2B_size av) \<le> hash_size then Some (TSS2_RC_SUCCESS, auth_value, crypto_cb)
                        else
                          (case iesys_crypto_hash_start crypto_cb hash_alg of
                             (r, cryptoContext, cb) \<Rightarrow>
                               if r \<noteq> 0 then Some (r, auth_value, cb)
                               else
                                 (case iesys_crypto_hash_update2b cryptoContext av cb of
                                    None \<Rightarrow> None
                                  | Some (r, cb) \<Rightarrow>
                                      if r \<noteq> 0
                                      then (case hash_cleanup r cryptoContext cb of (r, cb) \<Rightarrow> Some (r, auth_value, cb))
                                      else
                                        (case iesys_crypto_hash_finish cb cryptoContext hash_size of
                                           (r, cryptoContext, d, hash_size, cb) \<Rightarrow>
                                             (case mem_write (replicate 64 0) 0 d of
                                                None \<Rightarrow> None
                                              | Some hash2b \<Rightarrow>
                                                  if r \<noteq> 0
                                                  then (case hash_cleanup r cryptoContext cb of (r, cb) \<Rightarrow> Some (r, auth_value, cb))
                                                  else
                                                    (case mem_read hash2b 0 (unat hash_size) of
                                                       None \<Rightarrow> None
                                                     | Some h \<Rightarrow>
                                                         (case mem_write (TPM2B_buffer av) 0 h of
                                                            None \<Rightarrow> None
                                                          | Some b \<Rightarrow>
                                                              map_option (\<lambda>av. (TSS2_RC_SUCCESS, av, cb))
                                                                (iesys_strip_trailing_zeros
                                                                  (Some (av\<lparr>TPM2B_buffer := b, TPM2B_size := ucast hash_size\<rparr>))))))))))))"

section \<open>Names\<close>

text \<open>
  Both names are \<open>nameAlg || H(nameAlg, public area)\<close>.  The public area is marshalled into a buffer of
  the size of its structure; digest and algorithm go into the name that is passed in.
\<close>

definition name_of ::
  "'c crypto \<Rightarrow> UINT16 \<Rightarrow> (buf option \<Rightarrow> size_t \<Rightarrow> size_t option \<Rightarrow> mres) \<Rightarrow> nat \<Rightarrow> TPM2B \<Rightarrow> (TSS2_RC \<times> TPM2B \<times> 'c crypto) option" where
  "name_of crypto_cb nameAlg marshal n name =
     (if nameAlg = TPM2_ALG_NULL then Some (TSS2_RC_SUCCESS, name\<lparr>TPM2B_size := 0\<rparr>, crypto_cb)
      else
        (case iesys_crypto_hash_start crypto_cb nameAlg of
           (r, cryptoContext, cb) \<Rightarrow>
             if r \<noteq> 0 then Some (r, name, cb)
             else
               (case marshal (Some (replicate n 0)) (of_nat n) (Some 0) of
                  Some (r, Some buffer, Some offset) \<Rightarrow>
                    if r \<noteq> 0 then (case hash_cleanup r cryptoContext cb of (r, cb) \<Rightarrow> Some (r, name, cb))
                    else
                      (case iesys_crypto_hash_update cryptoContext (take (unat offset) buffer) cb of
                         None \<Rightarrow> None
                       | Some (r, cb) \<Rightarrow>
                           if r \<noteq> 0 then (case hash_cleanup r cryptoContext cb of (r, cb) \<Rightarrow> Some (r, name, cb))
                           else
                             (case iesys_crypto_hash_finish cb cryptoContext 66 of
                                (r, cryptoContext, d, size', cb) \<Rightarrow>
                                  (case mem_write (TPM2B_buffer name) 2 d of
                                     None \<Rightarrow> None
                                   | Some b \<Rightarrow>
                                       let name = name\<lparr>TPM2B_buffer := b\<rparr> in
                                       if r \<noteq> 0 then (case hash_cleanup r cryptoContext cb of (r, cb) \<Rightarrow> Some (r, name, cb))
                                       else
                                         (case Tss2_MU_UINT16_Marshal nameAlg (Some b) 2 (Some 0) of
                                            Some (r, Some b, Some _) \<Rightarrow>
                                              let name = name\<lparr>TPM2B_buffer := b\<rparr> in
                                              if r \<noteq> 0 then (case hash_cleanup r cryptoContext cb of (r, cb) \<Rightarrow> Some (r, name, cb))
                                              else Some (TSS2_RC_SUCCESS, name\<lparr>TPM2B_size := ucast (size' + 2)\<rparr>, cb)
                                          | _ \<Rightarrow> None))))
                | _ \<Rightarrow> None)))"

definition iesys_nv_get_name ::
  "'c crypto \<Rightarrow> TPM2B_NV_PUBLIC \<Rightarrow> TPM2B \<Rightarrow> (TSS2_RC \<times> TPM2B \<times> 'c crypto) option" where
  "iesys_nv_get_name crypto_cb publicInfo name =
     name_of crypto_cb (TPMS_NV_PUBLIC_nameAlg (TPM2B_SUBTYPE_member publicInfo))
       (Tss2_MU_TPMS_NV_PUBLIC_Marshal (Some (TPM2B_SUBTYPE_member publicInfo))) (sizeof ct_TPMS_NV_PUBLIC) name"

definition iesys_get_name ::
  "'c crypto \<Rightarrow> TPM2B_PUBLIC \<Rightarrow> TPM2B \<Rightarrow> (TSS2_RC \<times> TPM2B \<times> 'c crypto) option" where
  "iesys_get_name crypto_cb publicInfo name =
     name_of crypto_cb (TPMT_PUBLIC_nameAlg (TPM2B_SUBTYPE_member publicInfo))
       (Tss2_MU_TPMT_PUBLIC_Marshal (Some (TPM2B_SUBTYPE_member publicInfo))) (sizeof ct_TPMT_PUBLIC) name"

definition iesys_compare_name ::
  "'c crypto \<Rightarrow> TPM2B_PUBLIC option \<Rightarrow> TPM2B option \<Rightarrow> (bool \<times> 'c crypto) option" where
  "iesys_compare_name crypto_cb publicInfo name =
     (case (publicInfo, name) of
        (Some p, Some n) \<Rightarrow>
          (case iesys_get_name crypto_cb p (zero_TPM2B 68) of
             None \<Rightarrow> None
           | Some (r, public_info_name, cb) \<Rightarrow>
               if r \<noteq> 0 then Some (False, cb) else map_option (\<lambda>b. (b, cb)) (cmp_TPM2B_NAME public_info_name n))
      | _ \<Rightarrow> Some (False, crypto_cb))"

end
