(* ===== verification/Esys_Session.thy ===== *)
theory Esys_Session
  imports Esys_Util
begin

text \<open>
  Sessions of the enhanced system API (\<open>src/tss2-esys/esys_iutil.c\<close>): the table of the sessions of a
  command, parameter encryption, the authorizations of the command and the check of the response.
  Local arrays whose content is written before it is read start cleared here.
\<close>

unbundle bit_operations_syntax

section \<open>Calls with results\<close>

text \<open>
  \<open>call_val\<close> is a call inside a function that delivers a value itself; \<open>d\<close> is what that function has
  delivered when the call fails.
\<close>

definition call_val ::
  "('s \<Rightarrow> (TSS2_RC \<times> 'a \<times> 's) option) \<Rightarrow> 'b \<Rightarrow> ('a \<Rightarrow> 's \<Rightarrow> (TSS2_RC \<times> 'b \<times> 's) option) \<Rightarrow> 's \<Rightarrow> (TSS2_RC \<times> 'b \<times> 's) option" where
  "call_val f d k s =
     (case f s of
        None \<Rightarrow> None
      | Some (r, x, s') \<Rightarrow> if r \<noteq> 0 then Some (r, d, s') else k x s')"

definition ask :: "('s \<Rightarrow> (TSS2_RC \<times> 'a) option) \<Rightarrow> 's \<Rightarrow> (TSS2_RC \<times> 'a \<times> 's) option" where
  "ask f s = map_option (\<lambda>(r, x). (r, x, s)) (f s)"

definition on_crypto ::
  "('c crypto \<Rightarrow> (TSS2_RC \<times> 'a \<times> 'c crypto) option) \<Rightarrow> ('t, 'c) esys \<Rightarrow> (TSS2_RC \<times> 'a \<times> ('t, 'c) esys) option" where
  "on_crypto f ctx = map_option (\<lambda>(r, x, cb). (r, x, ctx\<lparr>crypto_backend := cb\<rparr>)) (f (crypto_backend ctx))"

definition read_val :: "('s \<Rightarrow> 'a option) \<Rightarrow> ('a \<Rightarrow> 's \<Rightarrow> 'r option) \<Rightarrow> 's \<Rightarrow> 'r option" where
  "read_val f k s = (case f s of None \<Rightarrow> None | Some x \<Rightarrow> k x s)"

definition session_of :: "nat option \<Rightarrow> ('t, 'c) esys \<Rightarrow> IESYS_SESSION option" where
  "session_of p ctx = (case deref_node p ctx of None \<Rightarrow> None | Some n \<Rightarrow> node_session n)"

text \<open>Bytes the system API hands out as a pointer into its command buffer.\<close>

definition sys_bytes :: "size_t \<Rightarrow> size_t \<Rightarrow> ('t, 'c) esys \<Rightarrow> BYTE list option" where
  "sys_bytes p n ctx = (case esys_sys ctx of None \<Rightarrow> None | Some c \<Rightarrow> mem_read (ctx_cmdBuffer c) p (unat n))"

text \<open>
  A query of the system API with two output variables: a size and a pointer into the command
  buffer.
\<close>

definition sys_query ::
  "('t sysctx \<Rightarrow> size_t option \<Rightarrow> size_t option \<Rightarrow> (TSS2_RC \<times> size_t option \<times> size_t option) option) \<Rightarrow>
   ('t, 'c) esys \<Rightarrow> (TSS2_RC \<times> size_t \<times> size_t) option" where
  "sys_query f ctx =
     (case f (esys_sys ctx) (Some 0) (Some 0) of
        Some (r, Some n, Some p) \<Rightarrow> Some (r, n, p)
      | _ \<Rightarrow> None)"

text \<open>
  \<open>for (i = 0; i < n; i++) { session = session_tab[i]; if (session == NULL) continue; ... }\<close> on the context and
  the local variables beside it.
\<close>

definition each_session ::
  "nat \<Rightarrow> (nat \<Rightarrow> nat \<Rightarrow> (('t, 'c) esys \<times> 'l) step) \<Rightarrow> (('t, 'c) esys \<times> 'l) step" where
  "each_session n f =
     steps (map (\<lambda>i s. case session_tab (fst s) ! i of None \<Rightarrow> Some (TSS2_RC_SUCCESS, s) | Some a \<Rightarrow> f i a s) [0..<n])"

definition on_ctx :: "(('t, 'c) esys \<times> unit) step \<Rightarrow> ('t, 'c) esys step" where
  "on_ctx f ctx = map_option (\<lambda>(r, c, _). (r, c)) (f (ctx, ()))"

section \<open>The sessions of a command\<close>

definition init_session :: "nat \<Rightarrow> ESYS_TR \<Rightarrow> ('t, 'c) esys step" where
  "init_session i h ctx =
     (let ctx = ctx\<lparr>session_type := (session_type ctx)[i := h]\<rparr> in
      if h = ESYS_TR_NONE \<or> h = ESYS_TR_PASSWORD
      then Some (TSS2_RC_SUCCESS, ctx\<lparr>session_tab := (session_tab ctx)[i := None]\<rparr>)
      else
        call (esys_GetResourceObject h)
          (\<lambda>p ctx. with_node p
             (\<lambda>n ctx. Some (if rsrc_rsrcType (node_rsrc n) \<noteq> IESYSC_SESSION_RSRC then TSS2_ESYS_RC_BAD_TR else TSS2_RC_SUCCESS, ctx))
             (ctx\<lparr>session_tab := (session_tab ctx)[i := p]\<rparr>)) ctx)"

definition init_session_tab :: "ESYS_TR \<Rightarrow> ESYS_TR \<Rightarrow> ESYS_TR \<Rightarrow> ('t, 'c) esys step" where
  "init_session_tab shandle1 shandle2 shandle3 =
     steps [init_session 0 shandle1, init_session 1 shandle2, init_session 2 shandle3]"

definition iesys_check_sequence_async :: "('t, 'c) esys option \<Rightarrow> TSS2_RC \<times> ('t, 'c) esys option" where
  "iesys_check_sequence_async esys_context =
     (case esys_context of
        None \<Rightarrow> (TSS2_ESYS_RC_BAD_REFERENCE, esys_context)
      | Some ctx \<Rightarrow>
          if esys_state ctx \<noteq> ESYS_STATE_INIT \<and> esys_state ctx \<noteq> ESYS_STATE_RESUBMISSION
          then (TSS2_ESYS_RC_BAD_SEQUENCE, esys_context)
          else (TSS2_RC_SUCCESS, Some (ctx\<lparr>submissionCount := 1\<rparr>)))"

text \<open>The loop runs from the last handle to the first; \<open>None\<close> is the return inside of it.\<close>

fun feasibility_loop :: "ESYS_TR list \<Rightarrow> bool \<Rightarrow> int \<Rightarrow> int option" where
  "feasibility_loop [] check_none mandatory = Some mandatory"
| "feasibility_loop (h # hs) check_none mandatory =
     (let mandatory = (if h \<noteq> ESYS_TR_NONE then mandatory - 1 else mandatory) in
      if h \<noteq> ESYS_TR_NONE \<and> h \<noteq> ESYS_TR_PASSWORD then feasibility_loop hs True mandatory
      else if check_none \<and> h = ESYS_TR_NONE then None
      else feasibility_loop hs check_none mandatory)"

definition check_session_feasibility :: "ESYS_TR \<Rightarrow> ESYS_TR \<Rightarrow> ESYS_TR \<Rightarrow> int \<Rightarrow> TSS2_RC" where
  "check_session_feasibility shandle1 shandle2 shandle3 mandatory =
     (case feasibility_loop (rev [shandle1, shandle2, shandle3]) False mandatory of
        None \<Rightarrow> TSS2_ESYS_RC_BAD_VALUE
      | Some m \<Rightarrow> if m > 0 then TSS2_ESYS_RC_BAD_VALUE else TSS2_RC_SUCCESS)"

section \<open>The salt of a session\<close>

fun oaep_scheme :: "TPMU_PUBLIC_PARMS \<Rightarrow> TPMU_PUBLIC_PARMS option" where
  "oaep_scheme (TPMU_PUBLIC_PARMS_rsaDetail d) =
     Some (TPMU_PUBLIC_PARMS_rsaDetail
       (d\<lparr>TPMS_RSA_PARMS_scheme := (TPMS_RSA_PARMS_scheme d)\<lparr>TPMT_RSA_SCHEME_scheme := TPM2_ALG_OAEP\<rparr>\<rparr>))"
| "oaep_scheme _ = None"

fun unique_ecc :: "TPMU_PUBLIC_ID \<Rightarrow> TPMS_ECC_POINT option" where
  "unique_ecc (TPMU_PUBLIC_ID_ecc p) = Some p"
| "unique_ecc _ = None"

definition rsa_salt ::
  "TPM2B_PUBLIC \<Rightarrow> size_t \<Rightarrow> TPM2B \<Rightarrow> ('t, 'c) esys \<Rightarrow> (TSS2_RC \<times> TPM2B \<times> ('t, 'c) esys) option" where
  "rsa_salt pub keyHash_size encryptedSalt ctx =
     (case iesys_crypto_get_random2b (crypto_backend ctx) (esys_salt ctx) keyHash_size of
        (r, salt, cb) \<Rightarrow>
          let ctx = ctx\<lparr>esys_salt := salt, crypto_backend := cb\<rparr> in
          if r \<noteq> 0 then Some (r, encryptedSalt, ctx)
          else
            (case (oaep_scheme (TPMT_PUBLIC_parameters (TPM2B_SUBTYPE_member pub)), mem_read (TPM2B_buffer salt) 0 (unat keyHash_size)) of
               (Some parms, Some salt_bytes) \<Rightarrow>
                 let pub = pub\<lparr>TPM2B_SUBTYPE_member := (TPM2B_SUBTYPE_member pub)\<lparr>TPMT_PUBLIC_parameters := parms\<rparr>\<rparr> in
                 (case iesys_crypto_rsa_pk_encrypt (crypto_backend ctx) pub salt_bytes
                         (of_nat (sizeof ct_TPMU_ENCRYPTED_SECRET)) ''SECRET'' of
                    (r, out, cSize, cb) \<Rightarrow>
                      (case mem_write (TPM2B_buffer encryptedSalt) 0 out of
                         None \<Rightarrow> None
                       | Some b \<Rightarrow>
                           let ctx = ctx\<lparr>crypto_backend := cb\<rparr>; encryptedSalt = encryptedSalt\<lparr>TPM2B_buffer := b\<rparr> in
                           if r \<noteq> 0 then Some (r, encryptedSalt, ctx)
                           else Some (TSS2_RC_SUCCESS, encryptedSalt\<lparr>TPM2B_size := ucast cSize\<rparr>, ctx)))
             | _ \<Rightarrow> None))"

definition ecc_salt ::
  "TPM2B_PUBLIC \<Rightarrow> size_t \<Rightarrow> TPM2B \<Rightarrow> ('t, 'c) esys \<Rightarrow> (TSS2_RC \<times> TPM2B \<times> ('t, 'c) esys) option" where
  "ecc_salt pub keyHash_size encryptedSalt ctx =
     (case iesys_crypto_get_ecdh_point (crypto_backend ctx) pub (of_nat (sizeof ct_TPMU_ENCRYPTED_SECRET)) of
        (r, Z, Q, out, cSize, cb) \<Rightarrow>
          (case mem_write (TPM2B_buffer encryptedSalt) 0 out of
             None \<Rightarrow> None
           | Some b \<Rightarrow>
               let ctx = ctx\<lparr>crypto_backend := cb\<rparr>; encryptedSalt = encryptedSalt\<lparr>TPM2B_buffer := b\<rparr> in
               if r \<noteq> 0 then Some (r, encryptedSalt, ctx)
               else
                 let encryptedSalt = encryptedSalt\<lparr>TPM2B_size := ucast cSize\<rparr> in
                 (case unique_ecc (TPMT_PUBLIC_unique (TPM2B_SUBTYPE_member pub)) of
                    None \<Rightarrow> None
                  | Some point \<Rightarrow>
                      (case iesys_crypto_KDFe (crypto_backend ctx) (TPMT_PUBLIC_nameAlg (TPM2B_SUBTYPE_member pub)) (Some Z)
                              (Some ''SECRET'') (Some (TPMS_ECC_POINT_x Q)) (Some (TPMS_ECC_POINT_x point))
                              (ucast (keyHash_size * 8)) (TPM2B_buffer (esys_salt ctx)) of
                         None \<Rightarrow> None
                       | Some (r, key, cb) \<Rightarrow>
                           let ctx = ctx\<lparr>crypto_backend := cb, esys_salt := (esys_salt ctx)\<lparr>TPM2B_buffer := key\<rparr>\<rparr> in
                           if r \<noteq> 0 then Some (r, encryptedSalt, ctx)
                           else Some (TSS2_RC_SUCCESS, encryptedSalt,
                                  ctx\<lparr>esys_salt := (esys_salt ctx)\<lparr>TPM2B_size := ucast keyHash_size\<rparr>\<rparr>)))))"

definition iesys_compute_encrypted_salt ::
  "nat option \<Rightarrow> TPM2B \<Rightarrow> ('t, 'c) esys \<Rightarrow> (TSS2_RC \<times> TPM2B \<times> ('t, 'c) esys) option" where
  "iesys_compute_encrypted_salt tpmKeyNode encryptedSalt ctx =
     (case tpmKeyNode of
        None \<Rightarrow> Some (TSS2_RC_SUCCESS, encryptedSalt\<lparr>TPM2B_size := 0\<rparr>, ctx)
      | Some _ \<Rightarrow>
          (case deref_node tpmKeyNode ctx of
             None \<Rightarrow> None
           | Some n \<Rightarrow>
               if rsrc_rsrcType (node_rsrc n) \<noteq> IESYSC_KEY_RSRC then Some (TSS2_ESYS_RC_BAD_VALUE, encryptedSalt, ctx)
               else
                 (case get_key_pub (rsrc_misc (node_rsrc n)) of
                    None \<Rightarrow> None
                  | Some pub \<Rightarrow>
                      (case iesys_crypto_hash_get_digest_size (TPMT_PUBLIC_nameAlg (TPM2B_SUBTYPE_member pub)) of
                         (r, keyHash_size) \<Rightarrow>
                           if r \<noteq> 0 then Some (r, encryptedSalt, ctx)
                           else if TPMT_PUBLIC_type (TPM2B_SUBTYPE_member pub) = TPM2_ALG_RSA then rsa_salt pub keyHash_size encryptedSalt ctx
                           else if TPMT_PUBLIC_type (TPM2B_SUBTYPE_member pub) = TPM2_ALG_ECC then ecc_salt pub keyHash_size encryptedSalt ctx
                           else if TPMT_PUBLIC_type (TPM2B_SUBTYPE_member pub) = TPM2_ALG_MLKEM
                           then Some (TSS2_ESYS_RC_NOT_IMPLEMENTED, encryptedSalt, ctx)
                           else Some (TSS2_ESYS_RC_GENERAL_FAILURE, encryptedSalt, ctx)))))"

section \<open>Nonces and attributes\<close>

definition iesys_gen_caller_nonces :: "('t, 'c) esys step" where
  "iesys_gen_caller_nonces =
     on_ctx (each_session 3 (\<lambda>i a. on_fst
       (with_session (Some a)
          (\<lambda>s ctx.
             case iesys_crypto_get_random2b (crypto_backend ctx) (SESSION_nonceCaller s)
                    (ucast (TPM2B_size (SESSION_nonceCaller s))) of
               (r, nonce, cb) \<Rightarrow>
                 (case set_session (Some a) (\<lambda>s. s\<lparr>SESSION_nonceCaller := nonce\<rparr>) (ctx\<lparr>crypto_backend := cb\<rparr>) of
                    None \<Rightarrow> None
                  | Some (_, ctx) \<Rightarrow> Some (r, ctx))))))"

definition iesys_compute_encrypt_nonce ::
  "nat \<Rightarrow> nat option \<Rightarrow> ('t, 'c) esys \<Rightarrow> (TSS2_RC \<times> (nat \<times> nat option) \<times> ('t, 'c) esys) option" where
  "iesys_compute_encrypt_nonce encryptNonceIdx encryptNonce ctx =
     map_option (\<lambda>(r, c, l). (r, l, c))
       (each_session 3
          (\<lambda>i a (ctx, idx, nonce).
             case session_of (Some a) ctx of
               None \<Rightarrow> None
             | Some s \<Rightarrow>
                 if SESSION_sessionAttributes s AND TPMA_SESSION_ENCRYPT \<noteq> 0 then
                   if nonce \<noteq> None then Some (TSS2_ESYS_RC_MULTIPLE_ENCRYPT_SESSIONS, ctx, idx, nonce)
                   else Some (TSS2_RC_SUCCESS, ctx, i, Some a)
                 else Some (TSS2_RC_SUCCESS, ctx, idx, nonce))
          (ctx, encryptNonceIdx, encryptNonce))"

definition iesys_update_session_flags :: "nat \<Rightarrow> ('t, 'c) esys step" where
  "iesys_update_session_flags rsrc_session ctx =
     (case (sys_query Tss2_Sys_GetDecryptParam ctx, sys_query Tss2_Sys_GetEncryptParam ctx) of
        (Some (rd, _), Some (re, _)) \<Rightarrow>
          set_session (Some rsrc_session)
            (\<lambda>s. let s = s\<lparr>SESSION_origSessionAttributes := SESSION_sessionAttributes s\<rparr>;
                     s = (if rd = TSS2_SYS_RC_NO_DECRYPT_PARAM
                          then s\<lparr>SESSION_sessionAttributes := SESSION_sessionAttributes s AND NOT TPMA_SESSION_DECRYPT\<rparr> else s) in
                 if re = TSS2_SYS_RC_NO_ENCRYPT_PARAM
                 then s\<lparr>SESSION_sessionAttributes := SESSION_sessionAttributes s AND NOT TPMA_SESSION_ENCRYPT\<rparr> else s) ctx
      | _ \<Rightarrow> None)"

definition iesys_restore_session_flags :: "('t, 'c) esys step" where
  "iesys_restore_session_flags =
     on_ctx (each_session 3 (\<lambda>i a. on_fst
       (set_session (Some a) (\<lambda>s. s\<lparr>SESSION_sessionAttributes := SESSION_origSessionAttributes s\<rparr>))))"

section \<open>Parameter encryption\<close>

text \<open>The members of the two unions that are 16-bit numbers overlap.\<close>

fun sym_mode :: "TPMU_SYM_MODE \<Rightarrow> UINT16 option" where
  "sym_mode (TPMU_SYM_MODE_aes m) = Some m"
| "sym_mode (TPMU_SYM_MODE_sm4 m) = Some m"
| "sym_mode (TPMU_SYM_MODE_camellia m) = Some m"
| "sym_mode (TPMU_SYM_MODE_sym m) = Some m"
| "sym_mode _ = None"

fun sym_keyBits :: "TPMU_SYM_KEY_BITS \<Rightarrow> UINT16 option" where
  "sym_keyBits (TPMU_SYM_KEY_BITS_aes n) = Some n"
| "sym_keyBits (TPMU_SYM_KEY_BITS_sm4 n) = Some n"
| "sym_keyBits (TPMU_SYM_KEY_BITS_camellia n) = Some n"
| "sym_keyBits (TPMU_SYM_KEY_BITS_sym n) = Some n"
| "sym_keyBits (TPMU_SYM_KEY_BITS_exclusiveOr n) = Some n"
| "sym_keyBits _ = None"

definition session_value_bytes :: "UINT16 \<Rightarrow> IESYS_SESSION \<Rightarrow> BYTE list option" where
  "session_value_bytes n s = mem_read (SESSION_sessionValue s) 0 (unat n)"

text \<open>The size of \<open>symKey\<close>: the next multiple of the digest size.\<close>

definition sym_key_len :: "size_t \<Rightarrow> size_t" where
  "sym_key_len hlen =
     (let key_len = of_nat (TPM2_MAX_SYM_KEY_BYTES + TPM2_MAX_SYM_BLOCK_SIZE) in
      if key_len mod hlen > 0 then key_len + hlen - key_len mod hlen else key_len)"

type_synonym 'c cipher = "'c crypto \<Rightarrow> BYTE list \<Rightarrow> UINT16 \<Rightarrow> UINT16 \<Rightarrow> UINT16 \<Rightarrow> BYTE list \<Rightarrow> BYTE list \<Rightarrow> TSS2_RC \<times> BYTE list \<times> 'c crypto"

definition cfb_param ::
  "'c cipher \<Rightarrow> UINT32 \<Rightarrow> IESYS_SESSION \<Rightarrow> size_t \<Rightarrow> TPM2B \<Rightarrow> TPM2B \<Rightarrow> BYTE list \<Rightarrow> 'c crypto \<Rightarrow> (TSS2_RC \<times> BYTE list \<times> 'c crypto) option" where
  "cfb_param cipher block_size s hlen nonceNewer nonceOlder param crypto_cb =
     (case (sym_mode (TPMT_SYM_DEF_mode (SESSION_symmetric s)), sym_keyBits (TPMT_SYM_DEF_keyBits (SESSION_symmetric s)),
            session_value_bytes (SESSION_sizeSessionValue s) s) of
        (Some mode, Some keyBits, Some key) \<Rightarrow>
          if mode \<noteq> TPM2_ALG_CFB then Some (TSS2_ESYS_RC_BAD_VALUE, param, crypto_cb)
          else
            (case iesys_crypto_KDFa crypto_cb (SESSION_authHash s) key (Some ''CFB'') nonceNewer nonceOlder
                    (ucast keyBits + block_size * 8) None (replicate (unat (sym_key_len hlen)) 0) False of
               None \<Rightarrow> None
             | Some (r, symKey, _, cb) \<Rightarrow>
                 if r \<noteq> 0 then Some (r, param, cb)
                 else
                   let off = (unat keyBits + 7) div 8 in
                   if off > length symKey then None
                   else Some (cipher cb symKey (TPMT_SYM_DEF_algorithm (SESSION_symmetric s)) keyBits mode param (drop off symKey)))
      | _ \<Rightarrow> None)"

text \<open>
  The choice of the method by \<open>symDef->algorithm\<close>, the same in both directions: the ciphers and the
  order of the nonces differ.
\<close>

definition param_cipher ::
  "'c cipher \<Rightarrow> 'c cipher \<Rightarrow> IESYS_SESSION \<Rightarrow> size_t \<Rightarrow> TPM2B \<Rightarrow> TPM2B \<Rightarrow> BYTE list \<Rightarrow> 'c crypto \<Rightarrow>
   (TSS2_RC \<times> BYTE list \<times> 'c crypto) option" where
  "param_cipher aes sm4 s hlen nonceNewer nonceOlder param crypto_cb =
     (let alg = TPMT_SYM_DEF_algorithm (SESSION_symmetric s) in
      if alg = TPM2_ALG_AES then cfb_param aes AES_BLOCK_SIZE_IN_BYTES s hlen nonceNewer nonceOlder param crypto_cb
      else if alg = TPM2_ALG_SM4 then cfb_param sm4 SM4_BLOCK_SIZE_IN_BYTES s hlen nonceNewer nonceOlder param crypto_cb
      else if alg = TPM2_ALG_XOR then
        (case session_value_bytes (SESSION_sizeSessionValue s) s of
           None \<Rightarrow> None
         | Some key \<Rightarrow>
             map_option (\<lambda>(r, d, cb). (r, case d of None \<Rightarrow> param | Some d \<Rightarrow> d, cb))
               (iesys_xor_parameter_obfuscation crypto_cb (SESSION_authHash s) (Some key) nonceNewer nonceOlder (Some param)))
      else Some (TSS2_ESYS_RC_BAD_VALUE, param, crypto_cb))"

text \<open>
  The local variables of \<open>iesys_encrypt_param\<close>: \<open>encryptNonce\<close>, \<open>decryptNonce\<close> and \<open>decryptNonceIdx\<close>.  The
  first loop checks and adapts the attributes, the second picks the sessions and encrypts.
\<close>

type_synonym enc_locals = "nat option \<times> nat option \<times> nat"

definition check_flags :: "nat \<Rightarrow> nat \<Rightarrow> (('t, 'c) esys \<times> enc_locals) step" where
  "check_flags i a =
     (\<lambda>(ctx, encryptNonce, decryptNonce, decryptNonceIdx).
        case session_of (Some a) ctx of
          None \<Rightarrow> None
        | Some s \<Rightarrow>
            if SESSION_sessionAttributes s AND TPMA_SESSION_ENCRYPT \<noteq> 0 \<and> encryptNonce \<noteq> None
            then Some (TSS2_ESYS_RC_MULTIPLE_ENCRYPT_SESSIONS, ctx, encryptNonce, decryptNonce, decryptNonceIdx)
            else if SESSION_sessionAttributes s AND TPMA_SESSION_DECRYPT \<noteq> 0 \<and> decryptNonce \<noteq> None
            then Some (TSS2_ESYS_RC_MULTIPLE_DECRYPT_SESSIONS, ctx, encryptNonce, decryptNonce, decryptNonceIdx)
            else on_fst (iesys_update_session_flags a) (ctx, encryptNonce, decryptNonce, decryptNonceIdx))"

definition encrypt_with :: "IESYS_SESSION \<Rightarrow> ('t, 'c) esys step" where
  "encrypt_with s ctx =
     (case iesys_crypto_hash_get_digest_size (SESSION_authHash s) of
        (r, hlen) \<Rightarrow>
          if r \<noteq> 0 then Some (r, ctx)
          else
            call (ask (sys_query Tss2_Sys_GetDecryptParam))
              (\<lambda>(paramSize, paramBuffer) ctx.
                 if paramSize = 0 then Some (TSS2_RC_SUCCESS, ctx)
                 else
                   read_val (sys_bytes paramBuffer paramSize)
                     (\<lambda>param.
                        call (on_crypto (param_cipher iesys_crypto_aes_encrypt iesys_crypto_sm4_encrypt s hlen
                                (SESSION_nonceCaller s) (SESSION_nonceTPM s) param))
                          (\<lambda>encrypt_buffer. on_sys (\<lambda>sys. Tss2_Sys_SetDecryptParam sys paramSize (Some encrypt_buffer)))) ctx) ctx)"

definition encrypt_session :: "nat \<Rightarrow> nat \<Rightarrow> (('t, 'c) esys \<times> enc_locals) step" where
  "encrypt_session i a =
     (\<lambda>(ctx, encryptNonce, decryptNonce, decryptNonceIdx).
        case session_of (Some a) ctx of
          None \<Rightarrow> None
        | Some s \<Rightarrow>
            let enc = (SESSION_sessionAttributes s AND TPMA_SESSION_ENCRYPT \<noteq> 0);
                ctx = (if enc then ctx\<lparr>esys_encryptNonceIdx := i, esys_encryptNonce := Some a, enc_session := Some a\<rparr> else ctx);
                encryptNonce = (if enc then Some a else encryptNonce) in
            if SESSION_sessionAttributes s AND TPMA_SESSION_DECRYPT \<noteq> 0
            then on_fst (encrypt_with s) (ctx, encryptNonce, Some a, i)
            else Some (TSS2_RC_SUCCESS, ctx, encryptNonce, decryptNonce, decryptNonceIdx))"

definition iesys_encrypt_param ::
  "('t, 'c) esys \<Rightarrow> (TSS2_RC \<times> (nat option \<times> nat) \<times> ('t, 'c) esys) option" where
  "iesys_encrypt_param ctx =
     map_option (\<lambda>(r, ctx, encryptNonce, decryptNonce, decryptNonceIdx). (r, (decryptNonce, decryptNonceIdx), ctx))
       (steps [each_session 3 check_flags, each_session 3 encrypt_session]
          (ctx\<lparr>enc_session := None\<rparr>, None, None, 0))"

definition iesys_decrypt_param :: "('t, 'c) esys step" where
  "iesys_decrypt_param ctx =
     with_session (session_tab ctx ! esys_encryptNonceIdx ctx)
       (\<lambda>s ctx.
          case iesys_crypto_hash_get_digest_size (SESSION_authHash s) of
            (r, hlen) \<Rightarrow>
              if r \<noteq> 0 then Some (r, ctx)
              else
                call (ask (sys_query Tss2_Sys_GetEncryptParam))
                  (\<lambda>(p2BSize, ciphertext).
                     read_val (sys_bytes ciphertext p2BSize)
                       (\<lambda>param.
                          call (on_crypto (param_cipher iesys_crypto_aes_decrypt iesys_crypto_sm4_decrypt s hlen
                                  (SESSION_nonceTPM s) (SESSION_nonceCaller s) param))
                            (\<lambda>plaintext. on_sys (\<lambda>sys. Tss2_Sys_SetEncryptParam sys p2BSize (Some plaintext))))) ctx) ctx"

end
