(* ===== verification/Esys_Auth.thy ===== *)
theory Esys_Auth
  imports Esys_Session
begin

text \<open>
  Authorizations of the enhanced system API (\<open>src/tss2-esys/esys_iutil.c\<close>): the value of a session,
  the parameter hashes, the HMACs of the command and their check in the response.
\<close>

unbundle bit_operations_syntax

section \<open>The value of a session\<close>

text \<open>
  The auth value is combined with the end of the name's array.  With more bytes than the array has
  the difference wraps around and the loop does not run.
\<close>

definition iesys_compute_bound_entity :: "TPM2B \<Rightarrow> TPM2B \<Rightarrow> TPM2B option" where
  "iesys_compute_bound_entity name auth =
     (let cap = length (TPM2B_buffer name); n = unat (TPM2B_size name); m = unat (TPM2B_size auth) in
      if n > cap then None
      else
        let b = take n (TPM2B_buffer name) @ replicate (cap - n) 0 in
        if m > cap then Some \<lparr>TPM2B_size = of_nat cap, TPM2B_buffer = b\<rparr>
        else if m > length (TPM2B_buffer auth) then None
        else Some \<lparr>TPM2B_size = of_nat cap,
               TPM2B_buffer = take (cap - m) b @ map2 (\<lambda>x y. x XOR y) (drop (cap - m) b) (take m (TPM2B_buffer auth))\<rparr>)"

definition iesys_is_object_bound :: "TPM2B \<Rightarrow> TPM2B \<Rightarrow> IESYS_SESSION \<Rightarrow> bool option" where
  "iesys_is_object_bound name auth session =
     (if TPM2B_size (SESSION_bound_entity session) = 0 then Some False
      else
        (case iesys_compute_bound_entity name auth of
           None \<Rightarrow> None
         | Some tmp \<Rightarrow> cmp_TPM2B_NAME (SESSION_bound_entity session) tmp))"

text \<open>The part of \<open>iesys_compute_session_value\<close> behind the copy of the session key.\<close>

definition append_auth_value :: "TPM2B \<Rightarrow> TPM2B \<Rightarrow> IESYS_SESSION \<Rightarrow> IESYS_SESSION option" where
  "append_auth_value name auth_value s =
     (case tpm2b_bytes auth_value of
        None \<Rightarrow> None
      | Some a \<Rightarrow>
          (case mem_write (SESSION_sessionValue s) (ucast (TPM2B_size (SESSION_sessionKey s))) a of
             None \<Rightarrow> None
           | Some v \<Rightarrow>
               let s = s\<lparr>SESSION_sessionValue := v, SESSION_sizeSessionValue := SESSION_sizeSessionValue s + TPM2B_size auth_value\<rparr> in
               (case iesys_is_object_bound name auth_value s of
                  None \<Rightarrow> None
                | Some True \<Rightarrow> Some s
                | Some False \<Rightarrow>
                    if SESSION_sessionType s = TPM2_SE_POLICY \<and> SESSION_type_policy_session s \<noteq> POLICY_AUTH then Some s
                    else Some (s\<lparr>SESSION_sizeHmacValue := SESSION_sizeHmacValue s + TPM2B_size auth_value\<rparr>))))"

definition session_value :: "TPM2B option \<Rightarrow> TPM2B option \<Rightarrow> IESYS_SESSION \<Rightarrow> IESYS_SESSION option" where
  "session_value name auth_value s =
     (case tpm2b_bytes (SESSION_sessionKey s) of
        None \<Rightarrow> None
      | Some k \<Rightarrow>
          (case mem_write (SESSION_sessionValue s) 0 k of
             None \<Rightarrow> None
           | Some v \<Rightarrow>
               let s = s\<lparr>SESSION_sizeSessionValue := TPM2B_size (SESSION_sessionKey s), SESSION_sessionValue := v\<rparr> in
               if SESSION_sessionType s \<noteq> TPM2_SE_HMAC \<and> SESSION_sessionType s \<noteq> TPM2_SE_POLICY then Some s
               else
                 let s = s\<lparr>SESSION_sizeHmacValue := SESSION_sizeSessionValue s\<rparr> in
                 (case (name, auth_value) of
                    (Some nm, Some av) \<Rightarrow> append_auth_value nm av s
                  | _ \<Rightarrow> Some s)))"

definition iesys_compute_session_value ::
  "nat option \<Rightarrow> TPM2B option \<Rightarrow> TPM2B option \<Rightarrow> ('t, 'c) esys step" where
  "iesys_compute_session_value session name auth_value =
     (case session of
        None \<Rightarrow> steps []
      | Some _ \<Rightarrow>
          with_session session
            (\<lambda>s. case session_value name auth_value s of
               None \<Rightarrow> (\<lambda>_. None)
             | Some s' \<Rightarrow> set_session session (\<lambda>_. s')))"

section \<open>Parameter hashes\<close>

definition sizeof_TPMU_HA :: nat where "sizeof_TPMU_HA = 64"

definition command_code :: "('t, 'c) esys \<Rightarrow> (TSS2_RC \<times> BYTE list) option" where
  "command_code ctx =
     (case Tss2_Sys_GetCommandCode (esys_sys ctx) (Some (replicate 4 0)) of
        Some (r, Some ccBuffer) \<Rightarrow> Some (r, ccBuffer)
      | _ \<Rightarrow> None)"

text \<open>The hash and its size; the result of \<open>iesys_crypto_pHash\<close> with both pointers given.\<close>

definition param_hash ::
  "UINT16 \<Rightarrow> BYTE list option \<Rightarrow> BYTE list \<Rightarrow> TPM2B option \<Rightarrow> TPM2B option \<Rightarrow> TPM2B option \<Rightarrow> BYTE list \<Rightarrow> BYTE list \<Rightarrow>
   'c crypto \<Rightarrow> (TSS2_RC \<times> (BYTE list \<times> size_t) \<times> 'c crypto) option" where
  "param_hash alg rcBuffer ccBuffer name1 name2 name3 pBuffer pHash crypto_cb =
     (case iesys_crypto_pHash crypto_cb alg rcBuffer (Some ccBuffer) name1 name2 name3 (Some pBuffer) (Some pHash)
             (Some (of_nat sizeof_TPMU_HA)) of
        Some (r, Some h, Some n, cb) \<Rightarrow> Some (r, (h, n), cb)
      | _ \<Rightarrow> None)"

definition iesys_compute_rp_hash ::
  "UINT16 \<Rightarrow> BYTE list \<Rightarrow> size_t \<Rightarrow> ('t, 'c) esys \<Rightarrow> (TSS2_RC \<times> (BYTE list \<times> size_t) \<times> ('t, 'c) esys) option" where
  "iesys_compute_rp_hash hash_alg rp_hash rp_hash_size =
     call_val (ask command_code) (rp_hash, rp_hash_size)
       (\<lambda>ccBuffer. call_val (ask (sys_query Tss2_Sys_GetRpBuffer)) (rp_hash, rp_hash_size)
          (\<lambda>(rpBuffer_size, rpBuffer).
             read_val (sys_bytes rpBuffer rpBuffer_size)
               (\<lambda>rp. on_crypto (param_hash hash_alg (Some (replicate 4 0)) ccBuffer None None None rp rp_hash))))"

text \<open>The name of an authorization object, \<open>NULL\<close> when there is no object.\<close>

definition name_at :: "nat \<Rightarrow> ('t, 'c) esys \<Rightarrow> TPM2B option option" where
  "name_at i ctx =
     (case auth_objects ctx ! i of
        None \<Rightarrow> Some None
      | Some a \<Rightarrow> map_option (\<lambda>n. Some (rsrc_name (node_rsrc n))) (rsrc_heap ctx a))"

definition cp_buffer :: "('t, 'c) esys \<Rightarrow> (TSS2_RC \<times> size_t \<times> size_t) option" where
  "cp_buffer = sys_query (\<lambda>sys n p. Some (Tss2_Sys_GetCpBuffer sys n p))"

definition iesys_compute_cp_hash ::
  "UINT16 \<Rightarrow> BYTE list \<Rightarrow> size_t \<Rightarrow> ('t, 'c) esys \<Rightarrow> (TSS2_RC \<times> (BYTE list \<times> size_t) \<times> ('t, 'c) esys) option" where
  "iesys_compute_cp_hash hash_alg cp_hash cp_hash_size =
     call_val (ask command_code) (cp_hash, cp_hash_size)
       (\<lambda>ccBuffer. call_val (ask cp_buffer) (cp_hash, cp_hash_size)
          (\<lambda>(cpBuffer_size, cpBuffer).
             read_val (sys_bytes cpBuffer cpBuffer_size)
               (\<lambda>cp. read_val (name_at 0)
                  (\<lambda>name1. read_val (name_at 1)
                     (\<lambda>name2. read_val (name_at 2)
                        (\<lambda>name3. on_crypto (param_hash hash_alg None ccBuffer name1 name2 name3 cp cp_hash)))))))"

section \<open>The authorizations of the command\<close>

text \<open>A pointer to the TPM nonce of a session, null or the session's address.\<close>

definition nonceTPM_of :: "nat option \<Rightarrow> ('t, 'c) esys \<Rightarrow> TPM2B option option" where
  "nonceTPM_of p ctx =
     (case p of None \<Rightarrow> Some None | Some _ \<Rightarrow> map_option (\<lambda>s. Some (SESSION_nonceTPM s)) (session_of p ctx))"

definition iesys_compute_hmac ::
  "nat option \<Rightarrow> nat option \<Rightarrow> nat option \<Rightarrow> TPMS_AUTH_COMMAND \<Rightarrow> ('t, 'c) esys \<Rightarrow>
   (TSS2_RC \<times> TPMS_AUTH_COMMAND \<times> ('t, 'c) esys) option" where
  "iesys_compute_hmac session decryptNonce encryptNonce auth ctx =
     (case session of
        None \<Rightarrow> Some (TSS2_RC_SUCCESS, auth, ctx)
      | Some _ \<Rightarrow>
          (case (deref_node session ctx, session_of session ctx) of
             (Some n, Some s) \<Rightarrow>
               (case iesys_crypto_hash_get_digest_size (SESSION_authHash s) of
                  (r, authHash_size) \<Rightarrow>
                    if r \<noteq> 0 then Some (r, auth, ctx)
                    else
                      call_val (iesys_compute_cp_hash (SESSION_authHash s) (replicate sizeof_TPMU_HA 0) 0) auth
                        (\<lambda>(cp_hash, cp_hash_size).
                           let auth = auth\<lparr>TPMS_AUTH_COMMAND_hmac := (TPMS_AUTH_COMMAND_hmac auth)\<lparr>TPM2B_size := of_nat sizeof_TPMU_HA\<rparr>\<rparr> in
                           read_val (\<lambda>_. session_value_bytes (SESSION_sizeHmacValue s) s)
                             (\<lambda>key. read_val (\<lambda>_. mem_read cp_hash 0 (unat cp_hash_size))
                                (\<lambda>pHash. read_val (nonceTPM_of decryptNonce)
                                   (\<lambda>dn. read_val (nonceTPM_of encryptNonce)
                                      (\<lambda>en. call_val (on_crypto (\<lambda>cb. iesys_crypto_authHmac cb (SESSION_authHash s) key pHash
                                                 (SESSION_nonceCaller s) (SESSION_nonceTPM s) dn en
                                                 (SESSION_sessionAttributes s) (TPMS_AUTH_COMMAND_hmac auth))) auth
                                         (\<lambda>hmac ctx. Some (TSS2_RC_SUCCESS,
                                            \<lparr>TPMS_AUTH_COMMAND_sessionHandle = rsrc_handle (node_rsrc n),
                                             TPMS_AUTH_COMMAND_nonce = SESSION_nonceCaller s,
                                             TPMS_AUTH_COMMAND_sessionAttributes = SESSION_sessionAttributes s,
                                             TPMS_AUTH_COMMAND_hmac = hmac\<rparr>, ctx))))))) ctx)
           | _ \<Rightarrow> None))"

text \<open>\<open>auths->auths[i]\<close> and \<open>auths->auths[auths->count]\<close>.\<close>

definition upd_auth :: "nat \<Rightarrow> (TPMS_AUTH_COMMAND \<Rightarrow> TPMS_AUTH_COMMAND) \<Rightarrow> TSS2L_SYS_AUTH_COMMAND \<Rightarrow> TSS2L_SYS_AUTH_COMMAND" where
  "upd_auth i f auths =
     auths\<lparr>AUTH_COMMAND_auths := (AUTH_COMMAND_auths auths)[i := f (AUTH_COMMAND_auths auths ! i)]\<rparr>"

definition upd_last :: "(TPMS_AUTH_COMMAND \<Rightarrow> TPMS_AUTH_COMMAND) \<Rightarrow> TSS2L_SYS_AUTH_COMMAND \<Rightarrow> TSS2L_SYS_AUTH_COMMAND" where
  "upd_last f auths = upd_auth (unat (AUTH_COMMAND_count auths)) f auths"

definition count_auth :: "TSS2L_SYS_AUTH_COMMAND \<Rightarrow> TSS2L_SYS_AUTH_COMMAND" where
  "count_auth auths = auths\<lparr>AUTH_COMMAND_count := AUTH_COMMAND_count auths + 1\<rparr>"

definition no_hmac :: "TPMS_AUTH_COMMAND \<Rightarrow> TPMS_AUTH_COMMAND" where
  "no_hmac a = a\<lparr>TPMS_AUTH_COMMAND_hmac := (TPMS_AUTH_COMMAND_hmac a)\<lparr>TPM2B_size := 0\<rparr>\<rparr>"

text \<open>
  The authorization of one of the three positions.  With a password and no object the handle of the
  entry is what the array of the caller holds.
\<close>

definition password_auth :: "nat \<Rightarrow> (('t, 'c) esys \<times> TSS2L_SYS_AUTH_COMMAND) step" where
  "password_auth i =
     (\<lambda>(ctx, auths).
        case auth_objects ctx ! i of
          None \<Rightarrow> Some (TSS2_RC_SUCCESS, ctx, count_auth (upd_last no_hmac auths))
        | Some a \<Rightarrow>
            (case rsrc_heap ctx a of
               None \<Rightarrow> None
             | Some n \<Rightarrow>
                 Some (TSS2_RC_SUCCESS, ctx,
                   count_auth (upd_last (\<lambda>x. x\<lparr>TPMS_AUTH_COMMAND_sessionHandle := TPM2_RH_PW,
                                               TPMS_AUTH_COMMAND_hmac := node_auth n\<rparr>) auths))))"

definition policy_password_auth :: "nat \<Rightarrow> RSRC_NODE_T \<Rightarrow> IESYS_SESSION \<Rightarrow> (('t, 'c) esys \<times> TSS2L_SYS_AUTH_COMMAND) step" where
  "policy_password_auth i n s =
     (\<lambda>(ctx, auths).
        case (case auth_objects ctx ! i of
                None \<Rightarrow> Some no_hmac
              | Some a \<Rightarrow> map_option (\<lambda>o'. TPMS_AUTH_COMMAND_hmac_update (\<lambda>_. node_auth o')) (rsrc_heap ctx a)) of
          None \<Rightarrow> None
        | Some set_hmac \<Rightarrow>
            Some (TSS2_RC_SUCCESS, ctx,
              count_auth (upd_last (\<lambda>x. (set_hmac (x\<lparr>TPMS_AUTH_COMMAND_sessionHandle := rsrc_handle (node_rsrc n)\<rparr>))
                \<lparr>TPMS_AUTH_COMMAND_sessionAttributes := SESSION_sessionAttributes s\<rparr>) auths)))"

definition hmac_auth :: "nat \<Rightarrow> nat option \<Rightarrow> nat option \<Rightarrow> (('t, 'c) esys \<times> TSS2L_SYS_AUTH_COMMAND) step" where
  "hmac_auth i decryptNonce encryptNonce =
     (\<lambda>(ctx, auths).
        case iesys_compute_hmac (session_tab ctx ! i) decryptNonce encryptNonce (AUTH_COMMAND_auths auths ! i) ctx of
          None \<Rightarrow> None
        | Some (r, auth, ctx) \<Rightarrow>
            let auths = upd_auth i (\<lambda>_. auth) auths in
            if r \<noteq> 0 then Some (r, ctx, auths)
            else
              (case session_tab ctx ! i of
                 None \<Rightarrow> Some (TSS2_RC_SUCCESS, ctx, auths)
               | Some a \<Rightarrow>
                   (case rsrc_heap ctx a of
                      None \<Rightarrow> None
                    | Some n \<Rightarrow>
                        Some (TSS2_RC_SUCCESS, ctx,
                          count_auth (upd_last (\<lambda>x. x\<lparr>TPMS_AUTH_COMMAND_sessionHandle := rsrc_handle (node_rsrc n)\<rparr>) auths)))))"

definition gen_auth :: "nat option \<Rightarrow> nat \<Rightarrow> nat option \<Rightarrow> nat \<Rightarrow> nat \<Rightarrow> (('t, 'c) esys \<times> TSS2L_SYS_AUTH_COMMAND) step" where
  "gen_auth decryptNonce decryptNonceIdx encryptNonce encryptNonceIdx session_idx =
     (\<lambda>(ctx, auths).
        let auths = upd_last (\<lambda>x. x\<lparr>TPMS_AUTH_COMMAND_nonce := (TPMS_AUTH_COMMAND_nonce x)\<lparr>TPM2B_size := 0\<rparr>,
                                    TPMS_AUTH_COMMAND_sessionAttributes := 0\<rparr>) auths;
            hmac = hmac_auth session_idx (if session_idx = 0 \<and> decryptNonceIdx > 0 then decryptNonce else None)
                     (if session_idx = 0 \<and> encryptNonceIdx > 0 then encryptNonce else None) in
        if session_type ctx ! session_idx = ESYS_TR_PASSWORD then password_auth session_idx (ctx, auths)
        else
          (case session_tab ctx ! session_idx of
             None \<Rightarrow> hmac (ctx, auths)
           | Some a \<Rightarrow>
               (case (rsrc_heap ctx a, session_of (Some a) ctx) of
                  (Some n, Some s) \<Rightarrow>
                    if SESSION_type_policy_session s = POLICY_PASSWORD then policy_password_auth session_idx n s (ctx, auths)
                    else hmac (ctx, auths)
                | _ \<Rightarrow> None)))"

definition iesys_gen_auths ::
  "nat option \<Rightarrow> nat option \<Rightarrow> nat option \<Rightarrow> TSS2L_SYS_AUTH_COMMAND \<Rightarrow> ('t, 'c) esys \<Rightarrow>
   (TSS2_RC \<times> TSS2L_SYS_AUTH_COMMAND \<times> ('t, 'c) esys) option" where
  "iesys_gen_auths h1 h2 h3 auths ctx =
     (let auths = auths\<lparr>AUTH_COMMAND_count := 0\<rparr> in
      case iesys_gen_caller_nonces (ctx\<lparr>auth_objects := [h1, h2, h3]\<rparr>) of
        None \<Rightarrow> None
      | Some (r, ctx) \<Rightarrow>
          if r \<noteq> 0 then Some (r, auths, ctx)
          else
            call_val iesys_encrypt_param auths
              (\<lambda>(decryptNonce, decryptNonceIdx). call_val (iesys_compute_encrypt_nonce 0 None) auths
                 (\<lambda>(encryptNonceIdx, encryptNonce) ctx.
                    let decryptNonceIdx = (if decryptNonceIdx \<noteq> 0 \<and> decryptNonceIdx = encryptNonceIdx then 0 else decryptNonceIdx) in
                    (case steps (map (gen_auth decryptNonce decryptNonceIdx encryptNonce encryptNonceIdx) [0, 1, 2]) (ctx, auths) of
                       None \<Rightarrow> None
                     | Some (r, ctx, auths) \<Rightarrow>
                         if r \<noteq> 0 then Some (r, auths, ctx)
                         else Some (TSS2_RC_SUCCESS, auths,
                                ctx\<lparr>esys_encryptNonceIdx := encryptNonceIdx, esys_encryptNonce := encryptNonce\<rparr>)))) ctx)"

section \<open>The check of the response\<close>

definition check_rp_hmac :: "TPMS_AUTH_RESPONSE \<Rightarrow> nat \<Rightarrow> ('t, 'c) esys step" where
  "check_rp_hmac auth a ctx =
     (case session_of (Some a) ctx of
        None \<Rightarrow> None
      | Some s \<Rightarrow>
          if SESSION_type_policy_session s = POLICY_PASSWORD then
            Some (if TPM2B_size (TPMS_AUTH_RESPONSE_hmac auth) \<noteq> 0 then TSS2_ESYS_RC_RSP_AUTH_FAILED else TSS2_RC_SUCCESS, ctx)
          else
            call (iesys_compute_rp_hash (SESSION_authHash s) (replicate sizeof_TPMU_HA 0) 0)
              (\<lambda>(rp_digest, rp_digest_size). steps
                 [set_session (Some a) (\<lambda>s. s\<lparr>SESSION_nonceTPM := TPMS_AUTH_RESPONSE_nonce auth,
                    SESSION_sessionAttributes := TPMS_AUTH_RESPONSE_sessionAttributes auth\<rparr>),
                  read_val (\<lambda>_. session_value_bytes (SESSION_sizeHmacValue s) s)
                    (\<lambda>key. read_val (\<lambda>_. mem_read rp_digest 0 (unat rp_digest_size))
                       (\<lambda>pHash. call (on_crypto (\<lambda>cb. iesys_crypto_authHmac cb (SESSION_authHash s) key pHash
                                  (TPMS_AUTH_RESPONSE_nonce auth) (SESSION_nonceCaller s) None None
                                  (TPMS_AUTH_RESPONSE_sessionAttributes auth) ((zero_TPM2B 64)\<lparr>TPM2B_size := of_nat sizeof_TPMU_HA\<rparr>)))
                          (\<lambda>rp_hmac ctx. map_option (\<lambda>eq. (if eq then TSS2_RC_SUCCESS else TSS2_ESYS_RC_RSP_AUTH_FAILED, ctx))
                             (cmp_TPM2B_AUTH (TPMS_AUTH_RESPONSE_hmac auth) rp_hmac))))]) ctx)"

definition iesys_check_rp_hmacs :: "TSS2L_SYS_AUTH_RESPONSE \<Rightarrow> ('t, 'c) esys step" where
  "iesys_check_rp_hmacs rspAuths =
     on_ctx (each_session (unat (AUTH_RESPONSE_count rspAuths))
       (\<lambda>i a. on_fst (check_rp_hmac (AUTH_RESPONSE_auths rspAuths ! i) a)))"

definition rsp_auths :: "('t, 'c) esys \<Rightarrow> (TSS2_RC \<times> TSS2L_SYS_AUTH_RESPONSE) option" where
  "rsp_auths ctx =
     (case Tss2_Sys_GetRspAuths (esys_sys ctx)
             (Some \<lparr>AUTH_RESPONSE_count = 0, AUTH_RESPONSE_auths = replicate TSS2_SYS_MAX_SESSIONS zero_TPMS_AUTH_RESPONSE\<rparr>) of
        Some (r, Some arr) \<Rightarrow> Some (r, arr)
      | _ \<Rightarrow> None)"

definition iesys_check_response :: "('t, 'c) esys step" where
  "iesys_check_response ctx =
     (if esys_authsCount ctx = 0 then Some (TSS2_RC_SUCCESS, ctx)
      else
        call (ask rsp_auths)
          (\<lambda>rspAuths ctx.
             if unat (AUTH_RESPONSE_count rspAuths) \<noteq> esys_authsCount ctx then Some (TSS2_ESYS_RC_GENERAL_FAILURE, ctx)
             else if session_type ctx ! 0 \<ge> ESYS_TR_MIN_OBJECT \<or> session_type ctx ! 1 \<ge> ESYS_TR_MIN_OBJECT \<or>
                     session_type ctx ! 2 \<ge> ESYS_TR_MIN_OBJECT then
               call (ask (sys_query Tss2_Sys_GetRpBuffer))
                 (\<lambda>_. steps
                    [iesys_check_rp_hmacs rspAuths,
                     \<lambda>ctx. if esys_encryptNonce ctx = None then iesys_restore_session_flags ctx
                           else steps [iesys_decrypt_param, iesys_restore_session_flags] ctx]) ctx
             else Some (TSS2_RC_SUCCESS, ctx)) ctx)"

end
