(* ===== verification/Esys_Command.thy ===== *)
theory Esys_Command
  imports Esys_Auth
begin

text \<open>
  The parts the commands of the enhanced system API are made of (\<open>src/tss2-esys/api\<close>).  Every command
  has a function \<open>_Async\<close> that prepares and sends it, a function \<open>_Finish\<close> that receives the response,
  and a one-call function that runs both.
\<close>

unbundle bit_operations_syntax

section \<open>Sending a command\<close>

text \<open>
  The beginning of every \<open>_Async\<close> function: a null context and a context in the wrong state are refused,
  and while the function works the state is \<open>ESYS_STATE_INTERNALERROR\<close>.
\<close>

definition esys_async :: "('t, 'c) esys option \<Rightarrow> ('t, 'c) esys step \<Rightarrow> (TSS2_RC \<times> ('t, 'c) esys option) option" where
  "esys_async esysContext body =
     (case esysContext of
        None \<Rightarrow> Some (TSS2_ESYS_RC_BAD_REFERENCE, None)
      | Some _ \<Rightarrow>
          (case iesys_check_sequence_async esysContext of
             (r, Some ctx) \<Rightarrow>
               if r \<noteq> 0 then Some (r, Some ctx)
               else map_option (\<lambda>(r, ctx). (r, Some ctx)) (steps [set_state ESYS_STATE_INTERNALERROR, body] ctx)
           | _ \<Rightarrow> None))"

text \<open>
  A hierarchy argument is translated after the check of the context and before the check of its state.
\<close>

definition hierarchy_arg ::
  "ESYS_TR \<Rightarrow> ('t, 'c) esys option \<Rightarrow> (UINT32 \<Rightarrow> (TSS2_RC \<times> ('t, 'c) esys option) option) \<Rightarrow>
   (TSS2_RC \<times> ('t, 'c) esys option) option" where
  "hierarchy_arg h esysContext k =
     (case esysContext of
        None \<Rightarrow> Some (TSS2_ESYS_RC_BAD_REFERENCE, None)
      | Some _ \<Rightarrow>
          (case iesys_handle_to_tpm_handle h of
             (r, t) \<Rightarrow> if r \<noteq> 0 then if \<not> iesys_is_platform_handle h then Some (r, esysContext) else k h else k t))"

text \<open>\<open>check_session_feasibility\<close> with its \<open>return_state_if_error\<close>\<close>

definition feasible :: "ESYS_TR \<Rightarrow> ESYS_TR \<Rightarrow> ESYS_TR \<Rightarrow> int \<Rightarrow> ('t, 'c) esys step" where
  "feasible shandle1 shandle2 shandle3 mandatory =
     or_state ESYS_STATE_INIT (ret (check_session_feasibility shandle1 shandle2 shandle3 mandatory))"

text \<open>\<open>esys_GetResourceObject\<close> with its \<open>return_state_if_error\<close>, and the rest of the function with the node.\<close>

definition get_node :: "ESYS_TR \<Rightarrow> (nat option \<Rightarrow> ('t, 'c) esys step) \<Rightarrow> ('t, 'c) esys step" where
  "get_node h k = call_or ESYS_STATE_INIT (esys_GetResourceObject h) k"

text \<open>\<open>(node == NULL) ? TPM2_RH_NULL : node->rsrc.handle\<close>\<close>

definition with_handle :: "nat option \<Rightarrow> (UINT32 \<Rightarrow> ('t, 'c) esys step) \<Rightarrow> ('t, 'c) esys step" where
  "with_handle node k =
     (case node of None \<Rightarrow> k TPM2_RH_NULL | Some _ \<Rightarrow> with_node node (\<lambda>n. k (rsrc_handle (node_rsrc n))))"

text \<open>A call of the system API with \<open>return_state_if_error(r, ESYS_STATE_INIT, ..)\<close>.\<close>

definition prepare :: "'t sysctx step \<Rightarrow> ('t, 'c) esys step" where
  "prepare f = or_state ESYS_STATE_INIT (on_sys f)"

definition init_sessions :: "ESYS_TR \<Rightarrow> ESYS_TR \<Rightarrow> ESYS_TR \<Rightarrow> ('t, 'c) esys step" where
  "init_sessions shandle1 shandle2 shandle3 = or_state ESYS_STATE_INIT (init_session_tab shandle1 shandle2 shandle3)"

text \<open>
  \<open>iesys_compute_session_value\<close> for a position of the session table, with name and auth value of the
  node, or with null pointers when there is no node.
\<close>

definition session_value_for :: "nat \<Rightarrow> nat option \<Rightarrow> ('t, 'c) esys step" where
  "session_value_for i node ctx =
     (case node of
        None \<Rightarrow> iesys_compute_session_value (session_tab ctx ! i) None None ctx
      | Some _ \<Rightarrow>
          with_node node
            (\<lambda>n. iesys_compute_session_value (session_tab ctx ! i) (Some (rsrc_name (node_rsrc n))) (Some (node_auth n))) ctx)"

definition gen_auths ::
  "nat option \<Rightarrow> nat option \<Rightarrow> nat option \<Rightarrow> (TSS2L_SYS_AUTH_COMMAND \<Rightarrow> ('t, 'c) esys step) \<Rightarrow> ('t, 'c) esys step" where
  "gen_auths h1 h2 h3 k = call_or ESYS_STATE_INIT (\<lambda>ctx. iesys_gen_auths h1 h2 h3 (stack_auths ctx) ctx) k"

text \<open>\<open>authsCount = auths.count; if (auths.count > 0) Tss2_Sys_SetCmdAuths(..)\<close>\<close>

definition set_auths :: "TSS2L_SYS_AUTH_COMMAND \<Rightarrow> ('t, 'c) esys step" where
  "set_auths auths = steps
     [update (\<lambda>ctx. ctx\<lparr>esys_authsCount := unat (AUTH_COMMAND_count auths)\<rparr>),
      if AUTH_COMMAND_count auths > 0 then prepare (\<lambda>sys. Tss2_Sys_SetCmdAuths sys (Some auths)) else steps []]"

definition send :: "('t, 'c) esys step" where
  "send = steps [or_state ESYS_STATE_INTERNALERROR (on_sys Tss2_Sys_ExecuteAsync), set_state ESYS_STATE_SENT]"

section \<open>Particular arguments\<close>

text \<open>
  Storing input parameters for the \<open>_Finish\<close> function.  Writing a member of \<open>NV_IN\<close> keeps the others
  when the union holds it already.
\<close>

definition store :: "IESYS_CMD_IN_PARAM \<Rightarrow> ('t, 'c) esys step" where
  "store i = update (\<lambda>ctx. ctx\<lparr>esys_in := i\<rparr>)"

fun nv_in :: "IESYS_CMD_IN_PARAM \<Rightarrow> NV_IN" where
  "nv_in (IN_NV i) = i"
| "nv_in _ = \<lparr>NV_nvIndex = None, NV_authData = None, NV_publicInfo = None\<rparr>"

definition store_NV :: "(NV_IN \<Rightarrow> NV_IN) \<Rightarrow> ('t, 'c) esys step" where
  "store_NV f = update (\<lambda>ctx. ctx\<lparr>esys_in := IN_NV (f (nv_in (esys_in ctx)))\<rparr>)"

definition auth_or_zero :: "TPM2B option \<Rightarrow> TPM2B" where
  "auth_or_zero auth = (case auth of None \<Rightarrow> zero_TPM2B 64 | Some a \<Rightarrow> a)"

text \<open>The stored auth value of \<open>NV_IN\<close>, \<open>HierarchyChangeAuth_IN\<close> and \<open>PCR_IN\<close>.\<close>

definition in_authData :: "('t, 'c) esys \<Rightarrow> TPM2B option" where
  "in_authData ctx = NV_authData (nv_in (esys_in ctx))"

definition strip_authData :: "('t, 'c) esys step" where
  "strip_authData = read_val in_authData
     (\<lambda>a. read_val (\<lambda>_. iesys_strip_trailing_zeros (Some a)) (\<lambda>a'. store_NV (\<lambda>i. i\<lparr>NV_authData := a'\<rparr>)))"

definition adapt_authData :: "UINT16 \<Rightarrow> ('t, 'c) esys step" where
  "adapt_authData hash_alg = or_state ESYS_STATE_INIT (read_val in_authData
     (\<lambda>a ctx.
        case iesys_adapt_auth_value (crypto_backend ctx) (Some a) hash_alg of
          None \<Rightarrow> None
        | Some (r, a', cb) \<Rightarrow> steps [store_NV (\<lambda>i. i\<lparr>NV_authData := a'\<rparr>), ret r] (ctx\<lparr>crypto_backend := cb\<rparr>)))"

text \<open>
  The sensitive area stored for \<open>Create\<close>, \<open>CreatePrimary\<close> and \<open>CreateLoaded\<close>.  The adaption of its auth value
  writes through the pointer, which is a fault when it is null.
\<close>

fun in_sensitive :: "IESYS_CMD_IN_PARAM \<Rightarrow> TPM2B_SENSITIVE_CREATE option" where
  "in_sensitive (IN_CreatePrimary s) = s"
| "in_sensitive (IN_Create s) = s"
| "in_sensitive (IN_CreateLoaded s _) = s"
| "in_sensitive _ = None"

fun set_in_sensitive :: "TPM2B_SENSITIVE_CREATE \<Rightarrow> IESYS_CMD_IN_PARAM \<Rightarrow> IESYS_CMD_IN_PARAM" where
  "set_in_sensitive s (IN_CreatePrimary _) = IN_CreatePrimary (Some s)"
| "set_in_sensitive s (IN_Create _) = IN_Create (Some s)"
| "set_in_sensitive s (IN_CreateLoaded _ p) = IN_CreateLoaded (Some s) p"
| "set_in_sensitive s i = i"

definition with_in_sensitive :: "(TPM2B_SENSITIVE_CREATE option \<Rightarrow> ('t, 'c) esys step) \<Rightarrow> ('t, 'c) esys step" where
  "with_in_sensitive k ctx = k (in_sensitive (esys_in ctx)) ctx"

definition sensitive_userAuth :: "TPM2B_SENSITIVE_CREATE \<Rightarrow> TPM2B" where
  "sensitive_userAuth s = TPMS_SENSITIVE_CREATE_userAuth (TPM2B_SUBTYPE_member s)"

definition set_userAuth :: "TPM2B \<Rightarrow> TPM2B_SENSITIVE_CREATE \<Rightarrow> TPM2B_SENSITIVE_CREATE" where
  "set_userAuth a s = s\<lparr>TPM2B_SUBTYPE_member := (TPM2B_SUBTYPE_member s)\<lparr>TPMS_SENSITIVE_CREATE_userAuth := a\<rparr>\<rparr>"

definition adapt_userAuth :: "UINT16 \<Rightarrow> ('t, 'c) esys step" where
  "adapt_userAuth hash_alg = or_state ESYS_STATE_INIT (\<lambda>ctx.
     case in_sensitive (esys_in ctx) of
       None \<Rightarrow> None
     | Some s \<Rightarrow>
         (case iesys_adapt_auth_value (crypto_backend ctx) (Some (sensitive_userAuth s)) hash_alg of
            Some (r, Some a, cb) \<Rightarrow>
              Some (r, ctx\<lparr>crypto_backend := cb, esys_in := set_in_sensitive (set_userAuth a s) (esys_in ctx)\<rparr>)
          | _ \<Rightarrow> None))"

text \<open>\<open>if (inPublic) { adapt the auth value with its name algorithm }\<close>, and from a template.\<close>

definition adapt_for_public :: "TPM2B_PUBLIC option \<Rightarrow> ('t, 'c) esys step" where
  "adapt_for_public inPublic =
     (case inPublic of None \<Rightarrow> steps [] | Some p \<Rightarrow> adapt_userAuth (TPMT_PUBLIC_nameAlg (TPM2B_SUBTYPE_member p)))"

definition adapt_for_template :: "TPM2B option \<Rightarrow> ('t, 'c) esys step" where
  "adapt_for_template inPublic =
     (case inPublic of
        None \<Rightarrow> steps []
      | Some t \<Rightarrow>
          (\<lambda>ctx. case Tss2_MU_TPMT_PUBLIC_Unmarshal (Some (TPM2B_buffer t)) (ucast (TPM2B_size t)) (Some 0) (Some zero_TPMT_PUBLIC) of
             Some (r, _, Some publicArea) \<Rightarrow> steps [ret r, adapt_userAuth (TPMT_PUBLIC_nameAlg publicArea)] ctx
           | _ \<Rightarrow> None))"

text \<open>A handle of the caller as TPM handle; an error is returned in the state the function is in.\<close>

definition tpm_handle_of :: "ESYS_TR \<Rightarrow> (UINT32 \<Rightarrow> ('t, 'c) esys step) \<Rightarrow> ('t, 'c) esys step" where
  "tpm_handle_of h k = (case iesys_handle_to_tpm_handle h of (r, t) \<Rightarrow> if r \<noteq> 0 then ret r else k t)"

definition object_handle_of :: "ESYS_TR \<Rightarrow> (UINT32 \<Rightarrow> ('t, 'c) esys step) \<Rightarrow> ('t, 'c) esys step" where
  "object_handle_of h k = call (esys_GetResourceObject h) (\<lambda>p. with_node p (\<lambda>n. k (rsrc_handle (node_rsrc n))))"

text \<open>
  \<open>iesys_compute_session_value(session_tab[i], &node->rsrc.name, &node->auth)\<close> without a check of \<open>node\<close>, which is
  read only when there is a session.
\<close>

definition session_value_addr :: "nat \<Rightarrow> nat option \<Rightarrow> ('t, 'c) esys step" where
  "session_value_addr i node ctx =
     (case session_tab ctx ! i of
        None \<Rightarrow> Some (TSS2_RC_SUCCESS, ctx)
      | Some a \<Rightarrow>
          with_node node
            (\<lambda>n. iesys_compute_session_value (Some a) (Some (rsrc_name (node_rsrc n))) (Some (node_auth n))) ctx)"

text \<open>\<open>if (!node) { state = ESYS_STATE_INIT; return TSS2_FAPI_RC_BAD_VALUE; }\<close>\<close>

definition require_node :: "nat option \<Rightarrow> ('t, 'c) esys step" where
  "require_node node = or_state ESYS_STATE_INIT (ret (if node = None then TSS2_FAPI_RC_BAD_VALUE else TSS2_RC_SUCCESS))"

definition nv_nameAlg_of :: "nat option \<Rightarrow> (UINT16 \<Rightarrow> ('t, 'c) esys step) \<Rightarrow> ('t, 'c) esys step" where
  "nv_nameAlg_of node k = with_node node
     (\<lambda>n. read_val (\<lambda>_. get_nv_pub (rsrc_misc (node_rsrc n))) (\<lambda>p. k (TPMS_NV_PUBLIC_nameAlg (TPM2B_SUBTYPE_member p))))"

text \<open>The name algorithm of a key object, 0 for other objects.\<close>

definition key_nameAlg_of :: "nat option \<Rightarrow> (UINT16 \<Rightarrow> ('t, 'c) esys step) \<Rightarrow> ('t, 'c) esys step" where
  "key_nameAlg_of node k = with_node node
     (\<lambda>n. if rsrc_rsrcType (node_rsrc n) = IESYSC_KEY_RSRC
          then read_val (\<lambda>_. get_key_pub (rsrc_misc (node_rsrc n))) (\<lambda>p. k (TPMT_PUBLIC_nameAlg (TPM2B_SUBTYPE_member p)))
          else k 0)"

text \<open>A copy of the new auth value, adapted to a hash algorithm.\<close>

definition adapted_copy :: "TPM2B option \<Rightarrow> UINT16 \<Rightarrow> (TPM2B \<Rightarrow> ('t, 'c) esys step) \<Rightarrow> ('t, 'c) esys step" where
  "adapted_copy newAuth hash_alg =
     call_or ESYS_STATE_INIT (\<lambda>ctx.
       case iesys_adapt_auth_value (crypto_backend ctx) (Some (auth_or_zero newAuth)) hash_alg of
         Some (r, Some a, cb) \<Rightarrow> Some (r, a, ctx\<lparr>crypto_backend := cb\<rparr>)
       | _ \<Rightarrow> None)"

text \<open>The handle of a persistent object replaces the argument of \<open>EvictControl\<close>.\<close>

definition persistent_handle_of :: "nat option \<Rightarrow> UINT32 \<Rightarrow> (UINT32 \<Rightarrow> ('t, 'c) esys step) \<Rightarrow> ('t, 'c) esys step" where
  "persistent_handle_of node persistentHandle k =
     (case node of
        None \<Rightarrow> k persistentHandle
      | Some _ \<Rightarrow>
          with_node node
            (\<lambda>n. k (if ucast (iesys_get_handle_type (rsrc_handle (node_rsrc n))) = TPM2_HT_PERSISTENT
                    then rsrc_handle (node_rsrc n) else persistentHandle)))"

text \<open>The check of the attributes and the policy of a new NV index.\<close>

definition policy_delete_check :: "TPM2B_NV_PUBLIC option \<Rightarrow> ('t, 'c) esys step" where
  "policy_delete_check publicInfo = or_state ESYS_STATE_INIT (ret
     (case publicInfo of
        None \<Rightarrow> TSS2_RC_SUCCESS
      | Some p \<Rightarrow>
          if TPMS_NV_PUBLIC_attributes (TPM2B_SUBTYPE_member p) AND TPMA_NV_POLICY_DELETE \<noteq> 0 \<and>
             TPM2B_size (TPMS_NV_PUBLIC_authPolicy (TPM2B_SUBTYPE_member p)) = 0
          then TSS2_ESYS_RC_BAD_VALUE else TSS2_RC_SUCCESS))"

definition adapt_for_nv :: "TPM2B_NV_PUBLIC option \<Rightarrow> ('t, 'c) esys step" where
  "adapt_for_nv publicInfo =
     (case publicInfo of
        None \<Rightarrow> steps []
      | Some p \<Rightarrow> adapt_authData (TPMS_NV_PUBLIC_nameAlg (TPM2B_SUBTYPE_member p)))"

section \<open>Output parameters\<close>

text \<open>
  A \<open>_Finish\<close> function changes the context and what its output parameters point to, a tuple beside the
  context that ends in \<open>()\<close>.  For a parameter \<open>T **p\<close> the member is \<open>None\<close> when \<open>p\<close> is null, and otherwise
  \<open>Some\<close> of \<open>*p\<close>, which is null or points to an object.  For \<open>T *p\<close> it is \<open>None\<close> or \<open>Some\<close> of the object.
  \<open>out_ptr\<close> is \<open>(p != NULL) ? *p : NULL\<close>.
\<close>

definition out_ptr :: "'a option option \<Rightarrow> 'a option" where
  "out_ptr p = (case p of None \<Rightarrow> None | Some q \<Rightarrow> q)"

definition out_set :: "'a option option \<Rightarrow> 'a option \<Rightarrow> 'a option option" where
  "out_set p x = (case p of None \<Rightarrow> None | Some _ \<Rightarrow> Some x)"

text \<open>Passing the parameters to a \<open>_Complete\<close> function and back, one after the other.\<close>

type_synonym ('o, 'p) outs = "('o \<Rightarrow> 'p) \<times> ('o \<Rightarrow> 'p \<Rightarrow> 'o)"

definition no_out :: "(unit, unit) outs" where
  "no_out = (\<lambda>_. (), \<lambda>_ _. ())"

definition ptr_out :: "('o, 'p) outs \<Rightarrow> ('a option option \<times> 'o, 'a option \<times> 'p) outs" where
  "ptr_out l = (\<lambda>(a, os). (out_ptr a, fst l os), \<lambda>(a, os) (x, xs). (out_set a x, snd l os xs))"

definition val_out :: "('o, 'p) outs \<Rightarrow> ('a \<times> 'o, 'a \<times> 'p) outs" where
  "val_out l = (\<lambda>(a, os). (a, fst l os), \<lambda>(a, os) (x, xs). (x, snd l os xs))"

definition next_out :: "('s \<times> 'o) step \<Rightarrow> ('s \<times> 'a \<times> 'o) step" where
  "next_out f = (\<lambda>(ctx, a, outs).
     case f (ctx, outs) of None \<Rightarrow> None | Some (r, ctx', outs') \<Rightarrow> Some (r, ctx', a, outs'))"

text \<open>\<open>if (p != NULL) *p = NULL;\<close>\<close>

definition null_out :: "('s \<times> 'a option option \<times> 'o) step" where
  "null_out = (\<lambda>(ctx, p, outs). Some (TSS2_RC_SUCCESS, ctx, out_set p None, outs))"

text \<open>\<open>if (p != NULL) { *p = calloc(..); if (*p == NULL) return TSS2_ESYS_RC_MEMORY; }\<close>\<close>

definition alloc_out :: "'a \<Rightarrow> (('t, 'c) esys \<times> 'a option option \<times> 'o) step" where
  "alloc_out z = (\<lambda>(ctx, p, outs).
     case p of
       None \<Rightarrow> Some (TSS2_RC_SUCCESS, ctx, p, outs)
     | Some _ \<Rightarrow>
         (case alloc ctx of
            (ok, ctx) \<Rightarrow>
              if ok then Some (TSS2_RC_SUCCESS, ctx, Some (Some z), outs)
              else Some (TSS2_ESYS_RC_MEMORY, ctx, Some None, outs)))"

text \<open>\<open>if (p != NULL) SAFE_FREE(*p);\<close>\<close>

definition free_out :: "('o \<Rightarrow> 'o) \<Rightarrow> 'a option option \<times> 'o \<Rightarrow> 'a option option \<times> 'o" where
  "free_out f = (\<lambda>(p, outs). (out_set p None, f outs))"

definition keep_out :: "('o \<Rightarrow> 'o) \<Rightarrow> 'a \<times> 'o \<Rightarrow> 'a \<times> 'o" where
  "keep_out f = (\<lambda>(p, outs). (p, f outs))"

definition cleanup_outs :: "('o \<Rightarrow> 'o) \<Rightarrow> ('s \<times> 'o) step \<Rightarrow> ('s \<times> 'o) step" where
  "cleanup_outs f = error_cleanup (\<lambda>(ctx, outs). Some (ctx, f outs))"

section \<open>Receiving the response\<close>

text \<open>
  The beginning of every \<open>_Finish\<close> function.
\<close>

definition esys_finish :: "(('t, 'c) esys \<times> 'o) step \<Rightarrow> (('t, 'c) esys option \<times> 'o) step" where
  "esys_finish body = (\<lambda>(esysContext, outs).
     case esysContext of
       None \<Rightarrow> Some (TSS2_ESYS_RC_BAD_REFERENCE, None, outs)
     | Some ctx \<Rightarrow>
         if esys_state ctx \<noteq> ESYS_STATE_SENT \<and> esys_state ctx \<noteq> ESYS_STATE_RESUBMISSION
         then Some (TSS2_ESYS_RC_BAD_SEQUENCE, Some ctx, outs)
         else map_option (\<lambda>(r, ctx, outs). (r, Some ctx, outs)) (body (ctx\<lparr>esys_state := ESYS_STATE_INTERNALERROR\<rparr>, outs)))"

text \<open>
  Resubmission, when the TPM asks for it, until the command was sent \<open>ESYS_MAX_SUBMISSIONS\<close> times; \<open>st\<close> is the
  state the resubmitted command leaves.
\<close>

definition resubmit :: "ESYS_STATE \<Rightarrow> TSS2_RC \<Rightarrow> ('t, 'c) esys step" where
  "resubmit st r ctx =
     (let n = submissionCount ctx; ctx = ctx\<lparr>submissionCount := n + 1\<rparr> in
      if n \<ge> ESYS_MAX_SUBMISSIONS then Some (r, ctx\<lparr>esys_state := ESYS_STATE_INIT\<rparr>)
      else
        (case on_sys Tss2_Sys_ExecuteAsync (ctx\<lparr>esys_state := st\<rparr>) of
           None \<Rightarrow> None
         | Some (r, ctx) \<Rightarrow> Some (if r \<noteq> 0 then r else TSS2_ESYS_RC_TRY_AGAIN, ctx)))"

definition wants_retry :: "TSS2_RC \<Rightarrow> bool" where
  "wants_retry r \<longleftrightarrow> r = TPM2_RC_RETRY \<or> r = TPM2_RC_TESTING \<or> r = TPM2_RC_YIELDED"

definition receive :: "('t, 'c) esys step" where
  "receive ctx =
     (case on_sys (\<lambda>sys. Tss2_Sys_ExecuteFinish sys (esys_timeout ctx)) ctx of
        None \<Rightarrow> None
      | Some (r, ctx) \<Rightarrow>
          if base_rc r = TSS2_BASE_RC_TRY_AGAIN then Some (r, ctx\<lparr>esys_state := ESYS_STATE_SENT\<rparr>)
          else if wants_retry r then resubmit ESYS_STATE_RESUBMISSION r ctx
          else if iesys_tpm_error r then Some (r, ctx\<lparr>esys_state := ESYS_STATE_INIT\<rparr>)
          else if r \<noteq> TSS2_RC_SUCCESS then Some (r, ctx\<lparr>esys_state := ESYS_STATE_INTERNALERROR\<rparr>)
          else Some (r, ctx))"

definition check_response :: "('t, 'c) esys step" where
  "check_response = or_state ESYS_STATE_INTERNALERROR iesys_check_response"

text \<open>A \<open>_Complete\<close> function with \<open>return_state_if_error(r, ESYS_STATE_INTERNALERROR, ..)\<close>.\<close>

definition complete :: "('o, 'p) outs \<Rightarrow> ('t sysctx \<times> 'p) step \<Rightarrow> (('t, 'c) esys \<times> 'o) step" where
  "complete l f = (\<lambda>(ctx, outs).
     case f (esys_sys ctx, fst l outs) of
       None \<Rightarrow> None
     | Some (r, sys, xs) \<Rightarrow>
         Some (r, (if r \<noteq> 0 then ctx\<lparr>esys_sys := sys, esys_state := ESYS_STATE_INTERNALERROR\<rparr> else ctx\<lparr>esys_sys := sys\<rparr>),
           snd l outs xs))"

definition finished :: "(('t, 'c) esys \<times> 'o) step" where
  "finished = on_fst (set_state ESYS_STATE_INIT)"

section \<open>One-call functions\<close>

text \<open>The loop ends only when a call of the \<open>_Finish\<close> function does not ask to try again.\<close>

partial_function (option) finish_loop :: "'s step \<Rightarrow> 's step" where
  "finish_loop finish s =
     Option.bind (finish s)
       (\<lambda>(r, s'). if base_rc r = TSS2_BASE_RC_TRY_AGAIN then finish_loop finish s' else Some (r, s'))"

declare finish_loop.simps [code]

definition one_call ::
  "(TSS2_RC \<times> ('t, 'c) esys option) option \<Rightarrow> (('t, 'c) esys option \<times> 'o) step \<Rightarrow> 'o \<Rightarrow>
   (TSS2_RC \<times> ('t, 'c) esys option \<times> 'o) option" where
  "one_call async finish outs =
     (case async of
        None \<Rightarrow> None
      | Some (r, esysContext) \<Rightarrow>
          if r \<noteq> 0 then Some (r, esysContext, outs)
          else
            (case esysContext of
               None \<Rightarrow> None
             | Some ctx \<Rightarrow>
                 (case finish_loop finish (Some (ctx\<lparr>esys_timeout := -1\<rparr>), outs) of
                    Some (r, Some ctx', outs') \<Rightarrow> Some (r, Some (ctx'\<lparr>esys_timeout := esys_timeout ctx\<rparr>), outs')
                  | _ \<Rightarrow> None)))"

end
