(* ===== verification/Esys_TR.thy ===== *)
theory Esys_TR
  imports Esys_Command
begin

text \<open>
  Resource objects as the caller sees them (\<open>src/tss2-esys/esys_tr.c\<close>): closing an object, its auth value,
  name and handle, and the attributes of a session.  The functions that serialize objects or
  read them from the TPM come with the marshalling of resources and the commands they use.
\<close>

unbundle bit_operations_syntax

section \<open>Closing an object\<close>

text \<open>
  The list is searched for the first node with the handle; a counted node is kept while other
  references are left.
\<close>

definition Esys_TR_Close ::
  "('t, 'c) esys option \<Rightarrow> ESYS_TR \<Rightarrow> (TSS2_RC \<times> ('t, 'c) esys option \<times> ESYS_TR) option" where
  "Esys_TR_Close esys_context object =
     (case esys_context of
        None \<Rightarrow> Some (TSS2_ESYS_RC_BAD_REFERENCE, None, object)
      | Some ctx \<Rightarrow>
          (case find_rsrc (\<lambda>n. node_esys_handle n = object) (rsrc_heap ctx) (rsrc_list ctx) of
             None \<Rightarrow> None
           | Some None \<Rightarrow> Some (TSS2_ESYS_RC_BAD_TR, Some ctx, object)
           | Some (Some a) \<Rightarrow>
               (case rsrc_heap ctx a of
                  None \<Rightarrow> None
                | Some n \<Rightarrow>
                    if node_reference_count n > 1
                    then Some (TSS2_RC_SUCCESS,
                           Some (ctx\<lparr>rsrc_heap := (rsrc_heap ctx)(a \<mapsto> n\<lparr>node_reference_count := node_reference_count n - 1\<rparr>)\<rparr>), object)
                    else Some (TSS2_RC_SUCCESS,
                           Some (ctx\<lparr>rsrc_heap := (rsrc_heap ctx)(a := None), rsrc_list := remove1 a (rsrc_list ctx)\<rparr>), ESYS_TR_NONE))))"

section \<open>Auth value, name and handle\<close>

text \<open>\<open>ESYS_ASSERT_NON_NULL(esys_context)\<close>, with what the output parameters point to beside the context.\<close>

definition esys_non_null :: "(('t, 'c) esys \<times> 'o) step \<Rightarrow> (('t, 'c) esys option \<times> 'o) step" where
  "esys_non_null f = (\<lambda>(esys_context, outs).
     case esys_context of
       None \<Rightarrow> Some (TSS2_ESYS_RC_BAD_REFERENCE, None, outs)
     | Some ctx \<Rightarrow> map_option (\<lambda>(r, ctx, outs). (r, Some ctx, outs)) (f (ctx, outs)))"

text \<open>\<open>esys_GetResourceObject\<close> with \<open>return_if_error\<close>.\<close>

definition get_object :: "ESYS_TR \<Rightarrow> (nat option \<Rightarrow> (('t, 'c) esys \<times> 'o) step) \<Rightarrow> (('t, 'c) esys \<times> 'o) step" where
  "get_object h k = (\<lambda>(ctx, outs).
     case esys_GetResourceObject h ctx of
       None \<Rightarrow> None
     | Some (r, p, ctx) \<Rightarrow> if r \<noteq> 0 then Some (r, ctx, outs) else k p (ctx, outs))"

definition with_object :: "nat option \<Rightarrow> (RSRC_NODE_T \<Rightarrow> (('t, 'c) esys \<times> 'o) step) \<Rightarrow> (('t, 'c) esys \<times> 'o) step" where
  "with_object p k = (\<lambda>(ctx, outs). case deref_node p ctx of None \<Rightarrow> None | Some n \<Rightarrow> k n (ctx, outs))"

text \<open>The name algorithm of an object; a union member of another type is a fault.\<close>

definition rsrc_nameAlg :: "IESYS_RESOURCE \<Rightarrow> UINT16 option" where
  "rsrc_nameAlg rsrc =
     (if rsrc_rsrcType rsrc = IESYSC_KEY_RSRC
      then map_option (\<lambda>p. TPMT_PUBLIC_nameAlg (TPM2B_SUBTYPE_member p)) (get_key_pub (rsrc_misc rsrc))
      else if rsrc_rsrcType rsrc = IESYSC_NV_RSRC
      then map_option (\<lambda>p. TPMS_NV_PUBLIC_nameAlg (TPM2B_SUBTYPE_member p)) (get_nv_pub (rsrc_misc rsrc))
      else Some TPM2_ALG_NULL)"

definition set_auth :: "nat option \<Rightarrow> TPM2B \<Rightarrow> ('t, 'c) esys step" where
  "set_auth p a = set_node p (\<lambda>n. n\<lparr>node_auth := a\<rparr>)"

definition Esys_TR_SetAuth :: "ESYS_TR \<Rightarrow> TPM2B option \<Rightarrow> (('t, 'c) esys option \<times> unit) step" where
  "Esys_TR_SetAuth esys_handle authValue = esys_non_null (steps
     [ret (if esys_handle = ESYS_TR_NONE then TSS2_ESYS_RC_BAD_TR else TSS2_RC_SUCCESS),
      get_object esys_handle (\<lambda>p. with_object p (\<lambda>n.
        case authValue of
          None \<Rightarrow> on_fst (set_auth p ((node_auth n)\<lparr>TPM2B_size := 0\<rparr>))
        | Some av \<Rightarrow> steps
            [ret (if unat (TPM2B_size av) > sizeof_TPMU_HA then TSS2_ESYS_RC_BAD_SIZE else TSS2_RC_SUCCESS),
             (case rsrc_nameAlg (node_rsrc n) of
                None \<Rightarrow> (\<lambda>_. None)
              | Some name_alg \<Rightarrow> on_fst
                  (if name_alg \<noteq> TPM2_ALG_NULL
                   then (\<lambda>ctx. case iesys_adapt_auth_value (crypto_backend ctx) (Some av) name_alg of
                          Some (r, Some a, cb) \<Rightarrow> steps [set_auth p a, ret r] (ctx\<lparr>crypto_backend := cb\<rparr>)
                        | _ \<Rightarrow> None)
                   else (case iesys_strip_trailing_zeros (Some av) of
                           Some (Some a) \<Rightarrow> set_auth p a
                         | _ \<Rightarrow> (\<lambda>_. None))))]))])"

text \<open>The name goes into a new structure that the caller's pointer receives.\<close>

definition object_name :: "IESYS_RESOURCE \<Rightarrow> ('t, 'c) esys \<Rightarrow> (TSS2_RC \<times> TPM2B \<times> ('t, 'c) esys) option" where
  "object_name rsrc =
     (if rsrc_rsrcType rsrc = IESYSC_KEY_RSRC
      then read_val (\<lambda>_. get_key_pub (rsrc_misc rsrc)) (\<lambda>p. on_crypto (\<lambda>cb. iesys_get_name cb p (zero_TPM2B 68)))
      else if rsrc_rsrcType rsrc = IESYSC_NV_RSRC
      then read_val (\<lambda>_. get_nv_pub (rsrc_misc rsrc)) (\<lambda>p. on_crypto (\<lambda>cb. iesys_nv_get_name cb p (zero_TPM2B 68)))
      else (\<lambda>ctx. case Tss2_MU_UINT32_Marshal (rsrc_handle rsrc) (Some (replicate 68 0)) 4 (Some 0) of
              Some (r, Some b, Some offset) \<Rightarrow>
                Some (r, \<lparr>TPM2B_size = (if r \<noteq> 0 then 0 else ucast offset), TPM2B_buffer = b\<rparr>, ctx)
            | _ \<Rightarrow> None))"

definition Esys_TR_GetName :: "ESYS_TR \<Rightarrow> (('t, 'c) esys option \<times> TPM2B option) step" where
  "Esys_TR_GetName esys_handle = esys_non_null (steps
     [ret (if esys_handle = ESYS_TR_NONE then TSS2_ESYS_RC_BAD_TR else TSS2_RC_SUCCESS),
      get_object esys_handle (\<lambda>p (ctx, name).
        case alloc ctx of
          (ok, ctx) \<Rightarrow>
            if \<not> ok then Some (TSS2_ESYS_RC_MEMORY, ctx, None)
            else with_object p
              (\<lambda>n (ctx, _).
                 case object_name (node_rsrc n) ctx of
                   None \<Rightarrow> None
                 | Some (r, nm, ctx) \<Rightarrow> Some (r, ctx, if r \<noteq> 0 then None else Some nm)) (ctx, name))])"

definition Esys_TR_GetTpmHandle :: "ESYS_TR \<Rightarrow> (('t, 'c) esys option \<times> UINT32 option) step" where
  "Esys_TR_GetTpmHandle esys_handle = esys_non_null (steps
     [(\<lambda>(ctx, tpm_handle). Some (if tpm_handle = None then TSS2_ESYS_RC_BAD_REFERENCE else TSS2_RC_SUCCESS, ctx, tpm_handle)),
      ret (if esys_handle = ESYS_TR_NONE then TSS2_ESYS_RC_BAD_TR else TSS2_RC_SUCCESS),
      get_object esys_handle (\<lambda>p. with_object p (\<lambda>n (ctx, _). Some (TSS2_RC_SUCCESS, ctx, Some (rsrc_handle (node_rsrc n)))))])"

section \<open>Sessions\<close>

definition require_session :: "RSRC_NODE_T \<Rightarrow> 's step" where
  "require_session n = ret (if rsrc_rsrcType (node_rsrc n) \<noteq> IESYSC_SESSION_RSRC then TSS2_ESYS_RC_BAD_TR else TSS2_RC_SUCCESS)"

text \<open>The result is written through the caller's pointer, a fault when it is null.\<close>

definition put_result :: "'a \<Rightarrow> ('s \<times> 'a option) step" where
  "put_result x = (\<lambda>(s, p). case p of None \<Rightarrow> None | Some _ \<Rightarrow> Some (TSS2_RC_SUCCESS, s, Some x))"

definition Esys_TRSess_GetAttributes :: "ESYS_TR \<Rightarrow> (('t, 'c) esys option \<times> UINT8 option) step" where
  "Esys_TRSess_GetAttributes esys_handle = esys_non_null
     (get_object esys_handle (\<lambda>p. with_object p (\<lambda>n. steps
        [require_session n,
         (case node_session n of None \<Rightarrow> (\<lambda>_. None) | Some s \<Rightarrow> put_result (SESSION_sessionAttributes s))])))"

definition Esys_TRSess_SetAttributes :: "ESYS_TR \<Rightarrow> UINT8 \<Rightarrow> UINT8 \<Rightarrow> (('t, 'c) esys option \<times> unit) step" where
  "Esys_TRSess_SetAttributes esys_handle flags' mask' = esys_non_null
     (get_object esys_handle (\<lambda>p. steps
        [ret (if p = None then TSS2_ESYS_RC_BAD_VALUE else TSS2_RC_SUCCESS),
         with_object p (\<lambda>n. steps
           [require_session n,
            on_fst (set_session p (\<lambda>s.
              let attrs = (SESSION_sessionAttributes s AND NOT mask') OR (flags' AND mask');
                  s = s\<lparr>SESSION_sessionAttributes := attrs\<rparr> in
              if attrs AND TPMA_SESSION_AUDIT \<noteq> 0
              then s\<lparr>SESSION_bound_entity := (SESSION_bound_entity s)\<lparr>TPM2B_size := 0\<rparr>\<rparr> else s))])]))"

definition Esys_TRSess_GetNonceTPM :: "ESYS_TR \<Rightarrow> (('t, 'c) esys option \<times> TPM2B option option) step" where
  "Esys_TRSess_GetNonceTPM esys_handle = esys_non_null (steps
     [(\<lambda>(ctx, nonceTPM). Some (if nonceTPM = None then TSS2_ESYS_RC_BAD_REFERENCE else TSS2_RC_SUCCESS, ctx, nonceTPM)),
      get_object esys_handle (\<lambda>p (ctx, nonceTPM).
        case alloc ctx of
          (ok, ctx) \<Rightarrow>
            if \<not> ok then Some (TSS2_ESYS_RC_MEMORY, ctx, Some None)
            else with_object p
              (\<lambda>n (ctx, _).
                 if rsrc_rsrcType (node_rsrc n) \<noteq> IESYSC_SESSION_RSRC then Some (TSS2_ESYS_RC_BAD_TR, ctx, Some None)
                 else map_option (\<lambda>s. (TSS2_RC_SUCCESS, ctx, Some (Some (SESSION_nonceTPM s)))) (node_session n)) (ctx, nonceTPM))])"

definition Esys_TRSess_GetAuthRequired :: "ESYS_TR \<Rightarrow> (('t, 'c) esys option \<times> UINT8 option) step" where
  "Esys_TRSess_GetAuthRequired esys_handle = esys_non_null
     (get_object esys_handle (\<lambda>p. with_object p (\<lambda>n. steps
        [require_session n,
         (case node_session n of
            None \<Rightarrow> (\<lambda>_. None)
          | Some s \<Rightarrow> put_result
              (if SESSION_type_policy_session s = POLICY_AUTH \<or> SESSION_type_policy_session s = POLICY_PASSWORD
               then TPM2_YES else TPM2_NO))])))"

end
