(* ===== verification/Esys_MU.thy ===== *)
theory Esys_MU
  imports Esys_Util
begin

text \<open>
  Marshalling of resource objects (\<open>src/tss2-esys/esys_mu.c\<close>).  The functions have the shape of those of
  \<open>tss2-mu\<close>: a null destination is allowed, the offset changes only on success.
\<close>

section \<open>Structures\<close>

text \<open>
  The fields of a structure one after the other, with the local variable \<open>offset_loc\<close>, which goes
  back to \<open>*offset\<close> at the end.
\<close>

fun marshal_fields :: "(buf option \<Rightarrow> size_t \<Rightarrow> size_t option \<Rightarrow> mres) list \<Rightarrow> buf option \<Rightarrow> size_t \<Rightarrow> size_t \<Rightarrow> mres" where
  "marshal_fields [] buffer size' offset_loc = Some (TSS2_RC_SUCCESS, buffer, Some offset_loc)"
| "marshal_fields (m # ms) buffer size' offset_loc =
     (case m buffer size' (Some offset_loc) of
        Some (rval, b, Some n) \<Rightarrow> if rval \<noteq> 0 then Some (rval, b, Some n) else marshal_fields ms b size' n
      | _ \<Rightarrow> None)"

definition marshal_struct :: "(buf option \<Rightarrow> size_t \<Rightarrow> size_t option \<Rightarrow> mres) list \<Rightarrow> buf option \<Rightarrow> size_t \<Rightarrow> size_t option \<Rightarrow> mres" where
  "marshal_struct ms buffer size' offset =
     (case marshal_fields ms buffer size' (case offset of None \<Rightarrow> 0 | Some n \<Rightarrow> n) of
        Some (rval, b, Some n) \<Rightarrow> Some (rval, b, if rval \<noteq> 0 then offset else map_option (\<lambda>_. n) offset)
      | _ \<Rightarrow> None)"

text \<open>
  A field of the destination, or \<open>NULL\<close> or a local variable (\<open>loc\<close>) when the destination is null.
\<close>

definition unmarshal_field ::
  "'a ufun \<Rightarrow> 'a option \<Rightarrow> ('d \<Rightarrow> 'a) \<Rightarrow> ('a \<Rightarrow> 'd \<Rightarrow> 'd) \<Rightarrow> buf \<Rightarrow> size_t \<Rightarrow> (size_t \<times> 'd option) step" where
  "unmarshal_field U loc get upd buffer size' = (\<lambda>(offset_loc, dst).
     case U (Some buffer) size' (Some offset_loc) (case dst of None \<Rightarrow> loc | Some d \<Rightarrow> Some (get d)) of
       Some (rval, Some n, x) \<Rightarrow>
         Some (rval, n, case (dst, x) of (Some d, Some y) \<Rightarrow> Some (upd y d) | _ \<Rightarrow> dst)
     | _ \<Rightarrow> None)"

definition unmarshal_struct :: "'d \<Rightarrow> (buf \<Rightarrow> size_t \<Rightarrow> (size_t \<times> 'd option) step) list \<Rightarrow> 'd ufun" where
  "unmarshal_struct zero us buffer size' offset dst =
     (case buffer of
        None \<Rightarrow> Some (TSS2_ESYS_RC_BAD_REFERENCE, offset, dst)
      | Some b \<Rightarrow>
          (case steps (map (\<lambda>u. u b size') us) (case offset of None \<Rightarrow> 0 | Some n \<Rightarrow> n, map_option (\<lambda>_. zero) dst) of
             None \<Rightarrow> None
           | Some (rval, n, d) \<Rightarrow> Some (rval, if rval \<noteq> 0 then offset else map_option (\<lambda>_. n) offset, d)))"

section \<open>Arrays and constants\<close>

definition iesys_MU_BYTE_array_Marshal :: "BYTE list option \<Rightarrow> size_t \<Rightarrow> buf option \<Rightarrow> size_t \<Rightarrow> size_t option \<Rightarrow> mres" where
  "iesys_MU_BYTE_array_Marshal src count buffer size' offset =
     (case src of
        None \<Rightarrow> Some (TSS2_ESYS_RC_BAD_REFERENCE, buffer, offset)
      | Some s \<Rightarrow>
          let offset_loc = (case offset of None \<Rightarrow> 0 | Some n \<Rightarrow> n) in
          if count > size' \<or> size' - count < offset_loc then Some (TSS2_ESYS_RC_INSUFFICIENT_BUFFER, buffer, offset)
          else
            (case buffer of
               None \<Rightarrow> Some (TSS2_RC_SUCCESS, None, map_option (\<lambda>_. offset_loc + count) offset)
             | Some b \<Rightarrow>
                 (case mem_read s 0 (unat count) of
                    None \<Rightarrow> None
                  | Some xs \<Rightarrow>
                      (case mem_write b offset_loc xs of
                         None \<Rightarrow> None
                       | Some b' \<Rightarrow> Some (TSS2_RC_SUCCESS, Some b', map_option (\<lambda>_. offset_loc + count) offset)))))"

text \<open>Only the first byte of the destination is cleared; the size of the destination is not known here.\<close>

definition iesys_MU_BYTE_array_Unmarshal :: "buf option \<Rightarrow> size_t \<Rightarrow> size_t option \<Rightarrow> size_t \<Rightarrow> BYTE list option \<Rightarrow> BYTE list ures" where
  "iesys_MU_BYTE_array_Unmarshal buffer size' offset count dst =
     (case buffer of
        None \<Rightarrow> Some (TSS2_ESYS_RC_BAD_REFERENCE, offset, dst)
      | Some b \<Rightarrow>
          let offset_loc = (case offset of None \<Rightarrow> 0 | Some n \<Rightarrow> n) in
          (case (case dst of None \<Rightarrow> Some None | Some d \<Rightarrow> map_option Some (mem_write d 0 [0])) of
             None \<Rightarrow> None
           | Some dst \<Rightarrow>
               if count > size' \<or> size' - count < offset_loc then Some (TSS2_ESYS_RC_INSUFFICIENT_BUFFER, offset, dst)
               else
                 (case dst of
                    None \<Rightarrow> Some (TSS2_RC_SUCCESS, map_option (\<lambda>_. offset_loc + count) offset, None)
                  | Some d \<Rightarrow>
                      (case mem_read b offset_loc (unat count) of
                         None \<Rightarrow> None
                       | Some xs \<Rightarrow>
                           (case mem_write d 0 xs of
                              None \<Rightarrow> None
                            | Some d' \<Rightarrow> Some (TSS2_RC_SUCCESS, map_option (\<lambda>_. offset_loc + count) offset, Some d'))))))"

definition iesys_MU_IESYSC_PARAM_ENCRYPT_Marshal :: "UINT32 mfun" where
  "iesys_MU_IESYSC_PARAM_ENCRYPT_Marshal = Tss2_MU_UINT32_Marshal"

definition iesys_MU_IESYSC_PARAM_DECRYPT_Marshal :: "UINT32 mfun" where
  "iesys_MU_IESYSC_PARAM_DECRYPT_Marshal = Tss2_MU_UINT32_Marshal"

definition iesys_MU_IESYSC_TYPE_POLICY_AUTH_Marshal :: "UINT32 mfun" where
  "iesys_MU_IESYSC_TYPE_POLICY_AUTH_Marshal = Tss2_MU_UINT32_Marshal"

definition iesys_MU_IESYSC_RESOURCE_TYPE_Marshal :: "UINT32 mfun" where
  "iesys_MU_IESYSC_RESOURCE_TYPE_Marshal = Tss2_MU_UINT32_Marshal"

definition iesys_MU_IESYSC_PARAM_ENCRYPT_check :: "UINT32 option \<Rightarrow> TSS2_RC" where
  "iesys_MU_IESYSC_PARAM_ENCRYPT_check p =
     (case p of None \<Rightarrow> TSS2_SYS_RC_BAD_REFERENCE
      | Some x \<Rightarrow> if x = 1 \<or> x = 0 then TSS2_RC_SUCCESS else TSS2_SYS_RC_BAD_VALUE)"

definition iesys_MU_IESYSC_PARAM_DECRYPT_check :: "UINT32 option \<Rightarrow> TSS2_RC" where
  "iesys_MU_IESYSC_PARAM_DECRYPT_check p =
     (case p of None \<Rightarrow> TSS2_SYS_RC_BAD_REFERENCE
      | Some x \<Rightarrow> if x = 1 \<or> x = 0 then TSS2_RC_SUCCESS else TSS2_SYS_RC_BAD_VALUE)"

definition iesys_MU_IESYSC_TYPE_POLICY_AUTH_check :: "UINT32 option \<Rightarrow> TSS2_RC" where
  "iesys_MU_IESYSC_TYPE_POLICY_AUTH_check p =
     (case p of None \<Rightarrow> TSS2_SYS_RC_BAD_REFERENCE
      | Some x \<Rightarrow> if x = POLICY_PASSWORD \<or> x = POLICY_AUTH \<or> x = NO_POLICY_AUTH then TSS2_RC_SUCCESS else TSS2_SYS_RC_BAD_VALUE)"

definition iesys_MU_IESYSC_RESOURCE_TYPE_check :: "UINT32 option \<Rightarrow> TSS2_RC" where
  "iesys_MU_IESYSC_RESOURCE_TYPE_check p =
     (case p of None \<Rightarrow> TSS2_SYS_RC_BAD_REFERENCE
      | Some x \<Rightarrow>
          if x = IESYSC_KEY_RSRC \<or> x = IESYSC_NV_RSRC \<or> x = IESYSC_SESSION_RSRC \<or> x = IESYSC_WITHOUT_MISC_RSRC
          then TSS2_RC_SUCCESS else TSS2_SYS_RC_BAD_VALUE)"

text \<open>A constant is read into a local variable and checked; the offset changes when it passes.\<close>

definition unmarshal_checked :: "(UINT32 option \<Rightarrow> TSS2_RC) \<Rightarrow> UINT32 ufun" where
  "unmarshal_checked check buffer size' offset dst =
     (let offset_loc = (case offset of None \<Rightarrow> 0 | Some n \<Rightarrow> n); dst = map_option (\<lambda>_. 0) dst in
      case Tss2_MU_UINT32_Unmarshal buffer size' (Some offset_loc) (Some 0) of
        Some (rval, Some n, Some x) \<Rightarrow>
          if rval \<noteq> 0 then Some (rval, offset, dst)
          else if check (Some x) \<noteq> 0 then Some (check (Some x), offset, dst)
          else Some (TSS2_RC_SUCCESS, map_option (\<lambda>_. n) offset, map_option (\<lambda>_. x) dst)
      | _ \<Rightarrow> None)"

definition iesys_MU_IESYSC_PARAM_ENCRYPT_Unmarshal :: "UINT32 ufun" where
  "iesys_MU_IESYSC_PARAM_ENCRYPT_Unmarshal = unmarshal_checked iesys_MU_IESYSC_PARAM_ENCRYPT_check"

definition iesys_MU_IESYSC_PARAM_DECRYPT_Unmarshal :: "UINT32 ufun" where
  "iesys_MU_IESYSC_PARAM_DECRYPT_Unmarshal = unmarshal_checked iesys_MU_IESYSC_PARAM_DECRYPT_check"

definition iesys_MU_IESYSC_TYPE_POLICY_AUTH_Unmarshal :: "UINT32 ufun" where
  "iesys_MU_IESYSC_TYPE_POLICY_AUTH_Unmarshal = unmarshal_checked iesys_MU_IESYSC_TYPE_POLICY_AUTH_check"

text \<open>Here the caller's offset goes to the base type: it has moved also when the check fails.\<close>

definition iesys_MU_IESYSC_RESOURCE_TYPE_Unmarshal :: "UINT32 ufun" where
  "iesys_MU_IESYSC_RESOURCE_TYPE_Unmarshal buffer size' offset dst =
     (case Tss2_MU_UINT32_Unmarshal buffer size' offset (Some 0) of
        Some (rval, n, Some x) \<Rightarrow>
          if rval \<noteq> 0 then Some (rval, n, dst)
          else if iesys_MU_IESYSC_RESOURCE_TYPE_check (Some x) \<noteq> 0 then Some (iesys_MU_IESYSC_RESOURCE_TYPE_check (Some x), n, dst)
          else Some (TSS2_RC_SUCCESS, n, map_option (\<lambda>_. x) dst)
      | _ \<Rightarrow> None)"

section \<open>Sessions\<close>

definition iesys_MU_IESYS_SESSION_Marshal :: "IESYS_SESSION option mfun" where
  "iesys_MU_IESYS_SESSION_Marshal src buffer size' offset =
     (case src of
        None \<Rightarrow> Some (TSS2_SYS_RC_BAD_REFERENCE, buffer, offset)
      | Some s \<Rightarrow> marshal_struct
          [Tss2_MU_TPM2B_NAME_Marshal (Some (SESSION_bound_entity s)),
           Tss2_MU_TPM2B_ENCRYPTED_SECRET_Marshal (Some (SESSION_encryptedSalt s)),
           Tss2_MU_TPM2B_DATA_Marshal (Some (SESSION_salt s)),
           Tss2_MU_TPMT_SYM_DEF_Marshal (Some (SESSION_symmetric s)),
           Tss2_MU_TPMI_ALG_HASH_Marshal (SESSION_authHash s),
           Tss2_MU_TPM2B_DIGEST_Marshal (Some (SESSION_sessionKey s)),
           Tss2_MU_TPM2_SE_Marshal (SESSION_sessionType s),
           Tss2_MU_TPMA_SESSION_Marshal (SESSION_sessionAttributes s),
           Tss2_MU_TPM2B_NONCE_Marshal (Some (SESSION_nonceCaller s)),
           Tss2_MU_TPM2B_NONCE_Marshal (Some (SESSION_nonceTPM s)),
           iesys_MU_IESYSC_PARAM_ENCRYPT_Marshal (SESSION_encrypt s),
           iesys_MU_IESYSC_PARAM_DECRYPT_Marshal (SESSION_decrypt s),
           iesys_MU_IESYSC_TYPE_POLICY_AUTH_Marshal (SESSION_type_policy_session s),
           Tss2_MU_UINT16_Marshal (SESSION_sizeSessionValue s),
           iesys_MU_BYTE_array_Marshal (Some (SESSION_sessionValue s)) (ucast (SESSION_sizeSessionValue s)),
           Tss2_MU_UINT16_Marshal (SESSION_sizeHmacValue s)] buffer size' offset)"

text \<open>The array takes as many bytes as the field before it says; its own size is not checked.\<close>

definition session_value_field :: "buf \<Rightarrow> size_t \<Rightarrow> (size_t \<times> IESYS_SESSION option) step" where
  "session_value_field buffer size' = (\<lambda>(offset_loc, dst).
     case iesys_MU_BYTE_array_Unmarshal (Some buffer) size' (Some offset_loc)
            (case dst of None \<Rightarrow> 0 | Some d \<Rightarrow> ucast (SESSION_sizeSessionValue d)) (map_option SESSION_sessionValue dst) of
       Some (rval, Some n, x) \<Rightarrow>
         Some (rval, n, case (dst, x) of (Some d, Some y) \<Rightarrow> Some (d\<lparr>SESSION_sessionValue := y\<rparr>) | _ \<Rightarrow> dst)
     | _ \<Rightarrow> None)"

text \<open>The function is never called without a destination, where the size would be a local variable.\<close>

definition iesys_MU_IESYS_SESSION_Unmarshal :: "IESYS_SESSION ufun" where
  "iesys_MU_IESYS_SESSION_Unmarshal = unmarshal_struct zero_IESYS_SESSION
     [unmarshal_field Tss2_MU_TPM2B_NAME_Unmarshal None SESSION_bound_entity (\<lambda>x s. s\<lparr>SESSION_bound_entity := x\<rparr>),
      unmarshal_field Tss2_MU_TPM2B_ENCRYPTED_SECRET_Unmarshal None SESSION_encryptedSalt (\<lambda>x s. s\<lparr>SESSION_encryptedSalt := x\<rparr>),
      unmarshal_field Tss2_MU_TPM2B_DATA_Unmarshal None SESSION_salt (\<lambda>x s. s\<lparr>SESSION_salt := x\<rparr>),
      unmarshal_field Tss2_MU_TPMT_SYM_DEF_Unmarshal None SESSION_symmetric (\<lambda>x s. s\<lparr>SESSION_symmetric := x\<rparr>),
      unmarshal_field Tss2_MU_TPMI_ALG_HASH_Unmarshal (Some 0) SESSION_authHash (\<lambda>x s. s\<lparr>SESSION_authHash := x\<rparr>),
      unmarshal_field Tss2_MU_TPM2B_DIGEST_Unmarshal None SESSION_sessionKey (\<lambda>x s. s\<lparr>SESSION_sessionKey := x\<rparr>),
      unmarshal_field Tss2_MU_TPM2_SE_Unmarshal (Some 0) SESSION_sessionType (\<lambda>x s. s\<lparr>SESSION_sessionType := x\<rparr>),
      unmarshal_field Tss2_MU_TPMA_SESSION_Unmarshal (Some 0) SESSION_sessionAttributes (\<lambda>x s. s\<lparr>SESSION_sessionAttributes := x\<rparr>),
      unmarshal_field Tss2_MU_TPM2B_NONCE_Unmarshal None SESSION_nonceCaller (\<lambda>x s. s\<lparr>SESSION_nonceCaller := x\<rparr>),
      unmarshal_field Tss2_MU_TPM2B_NONCE_Unmarshal None SESSION_nonceTPM (\<lambda>x s. s\<lparr>SESSION_nonceTPM := x\<rparr>),
      unmarshal_field iesys_MU_IESYSC_PARAM_ENCRYPT_Unmarshal (Some 0) SESSION_encrypt (\<lambda>x s. s\<lparr>SESSION_encrypt := x\<rparr>),
      unmarshal_field iesys_MU_IESYSC_PARAM_DECRYPT_Unmarshal (Some 0) SESSION_decrypt (\<lambda>x s. s\<lparr>SESSION_decrypt := x\<rparr>),
      unmarshal_field iesys_MU_IESYSC_TYPE_POLICY_AUTH_Unmarshal (Some 0) SESSION_type_policy_session (\<lambda>x s. s\<lparr>SESSION_type_policy_session := x\<rparr>),
      unmarshal_field Tss2_MU_UINT16_Unmarshal (Some 0) SESSION_sizeSessionValue (\<lambda>x s. s\<lparr>SESSION_sizeSessionValue := x\<rparr>),
      session_value_field,
      unmarshal_field Tss2_MU_UINT16_Unmarshal (Some 0) SESSION_sizeHmacValue (\<lambda>x s. s\<lparr>SESSION_sizeHmacValue := x\<rparr>)]"

section \<open>Resources\<close>

definition iesys_MU_IESYS_RSRC_UNION_Marshal :: "IESYS_RSRC_UNION option \<Rightarrow> UINT32 \<Rightarrow> buf option \<Rightarrow> size_t \<Rightarrow> size_t option \<Rightarrow> mres" where
  "iesys_MU_IESYS_RSRC_UNION_Marshal src selector buffer size' offset =
     (case src of
        None \<Rightarrow> Some (TSS2_ESYS_RC_BAD_REFERENCE, buffer, offset)
      | Some u \<Rightarrow>
          if selector = IESYSC_KEY_RSRC
          then (case get_key_pub u of None \<Rightarrow> None | Some p \<Rightarrow> Tss2_MU_TPM2B_PUBLIC_Marshal (Some p) buffer size' offset)
          else if selector = IESYSC_NV_RSRC
          then (case get_nv_pub u of None \<Rightarrow> None | Some p \<Rightarrow> Tss2_MU_TPM2B_NV_PUBLIC_Marshal (Some p) buffer size' offset)
          else if selector = IESYSC_SESSION_RSRC
          then (case get_session u of None \<Rightarrow> None | Some s \<Rightarrow> iesys_MU_IESYS_SESSION_Marshal (Some s) buffer size' offset)
          else if selector = IESYSC_WITHOUT_MISC_RSRC then Tss2_MU_TPMS_EMPTY_Marshal (Some zero_TPMS_EMPTY) buffer size' offset
          else Some (TSS2_SYS_RC_BAD_VALUE, buffer, offset))"

text \<open>The destination of one member, from the member it holds or cleared.\<close>

definition union_member :: "'a ufun \<Rightarrow> (IESYS_RSRC_UNION \<Rightarrow> 'a option) \<Rightarrow> 'a \<Rightarrow> ('a \<Rightarrow> IESYS_RSRC_UNION) \<Rightarrow> IESYS_RSRC_UNION ufun" where
  "union_member U get zero con buffer size' offset dst =
     map_option (\<lambda>(rval, n, x). (rval, n, case (dst, x) of (Some _, Some y) \<Rightarrow> Some (con y) | _ \<Rightarrow> dst))
       (U buffer size' offset (map_option (\<lambda>u. case get u of None \<Rightarrow> zero | Some x \<Rightarrow> x) dst))"

definition iesys_MU_IESYS_RSRC_UNION_Unmarshal :: "UINT32 \<Rightarrow> IESYS_RSRC_UNION ufun" where
  "iesys_MU_IESYS_RSRC_UNION_Unmarshal selector buffer size' offset dst =
     (if buffer = None then Some (TSS2_ESYS_RC_BAD_REFERENCE, offset, dst)
      else if selector = IESYSC_KEY_RSRC
      then union_member Tss2_MU_TPM2B_PUBLIC_Unmarshal get_key_pub (zero_SUBTYPE zero_TPMT_PUBLIC) RSRC_key_pub buffer size' offset dst
      else if selector = IESYSC_NV_RSRC
      then union_member Tss2_MU_TPM2B_NV_PUBLIC_Unmarshal get_nv_pub (zero_SUBTYPE zero_TPMS_NV_PUBLIC) RSRC_nv_pub buffer size' offset dst
      else if selector = IESYSC_SESSION_RSRC
      then union_member iesys_MU_IESYS_SESSION_Unmarshal get_session zero_IESYS_SESSION RSRC_session buffer size' offset dst
      else if selector = IESYSC_WITHOUT_MISC_RSRC
      then union_member Tss2_MU_TPMS_EMPTY_Unmarshal (\<lambda>_. Some zero_TPMS_EMPTY) zero_TPMS_EMPTY (\<lambda>_. RSRC_empty) buffer size' offset dst
      else Some (TSS2_SYS_RC_BAD_VALUE, offset, dst))"

definition iesys_MU_IESYS_RESOURCE_Marshal :: "IESYS_RESOURCE option mfun" where
  "iesys_MU_IESYS_RESOURCE_Marshal src buffer size' offset =
     (case src of
        None \<Rightarrow> Some (TSS2_SYS_RC_BAD_REFERENCE, buffer, offset)
      | Some s \<Rightarrow> marshal_struct
          [Tss2_MU_TPM2_HANDLE_Marshal (rsrc_handle s),
           Tss2_MU_TPM2B_NAME_Marshal (Some (rsrc_name s)),
           iesys_MU_IESYSC_RESOURCE_TYPE_Marshal (rsrc_rsrcType s),
           iesys_MU_IESYS_RSRC_UNION_Marshal (Some (rsrc_misc s)) (rsrc_rsrcType s)] buffer size' offset)"

definition rsrc_misc_field :: "buf \<Rightarrow> size_t \<Rightarrow> (size_t \<times> IESYS_RESOURCE option) step" where
  "rsrc_misc_field buffer size' = (\<lambda>(offset_loc, dst).
     unmarshal_field (iesys_MU_IESYS_RSRC_UNION_Unmarshal (case dst of None \<Rightarrow> 0 | Some d \<Rightarrow> rsrc_rsrcType d))
       None rsrc_misc (\<lambda>x d. d\<lparr>rsrc_misc := x\<rparr>) buffer size' (offset_loc, dst))"

definition iesys_MU_IESYS_RESOURCE_Unmarshal :: "IESYS_RESOURCE ufun" where
  "iesys_MU_IESYS_RESOURCE_Unmarshal = unmarshal_struct zero_IESYS_RESOURCE
     [unmarshal_field Tss2_MU_TPM2_HANDLE_Unmarshal (Some 0) rsrc_handle (\<lambda>x d. d\<lparr>rsrc_handle := x\<rparr>),
      unmarshal_field Tss2_MU_TPM2B_NAME_Unmarshal None rsrc_name (\<lambda>x d. d\<lparr>rsrc_name := x\<rparr>),
      unmarshal_field iesys_MU_IESYSC_RESOURCE_TYPE_Unmarshal (Some 0) rsrc_rsrcType (\<lambda>x d. d\<lparr>rsrc_rsrcType := x\<rparr>),
      rsrc_misc_field]"

record IESYS_METADATA =
  METADATA_size :: UINT16
  METADATA_data :: IESYS_RESOURCE

record IESYS_CONTEXT_DATA =
  CONTEXT_DATA_reserved :: UINT32
  CONTEXT_DATA_tpmContext :: TPM2B
  CONTEXT_DATA_esysMetadata :: IESYS_METADATA

definition zero_IESYS_METADATA :: IESYS_METADATA where
  "zero_IESYS_METADATA = \<lparr>METADATA_size = 0, METADATA_data = zero_IESYS_RESOURCE\<rparr>"

definition zero_IESYS_CONTEXT_DATA :: IESYS_CONTEXT_DATA where
  "zero_IESYS_CONTEXT_DATA =
     \<lparr>CONTEXT_DATA_reserved = 0, CONTEXT_DATA_tpmContext = zero_TPM2B (sizeof ct_TPMS_CONTEXT_DATA),
      CONTEXT_DATA_esysMetadata = zero_IESYS_METADATA\<rparr>"

definition iesys_MU_IESYS_METADATA_Marshal :: "IESYS_METADATA option mfun" where
  "iesys_MU_IESYS_METADATA_Marshal src buffer size' offset =
     (case src of
        None \<Rightarrow> Some (TSS2_SYS_RC_BAD_REFERENCE, buffer, offset)
      | Some s \<Rightarrow> marshal_struct
          [Tss2_MU_UINT16_Marshal (METADATA_size s), iesys_MU_IESYS_RESOURCE_Marshal (Some (METADATA_data s))] buffer size' offset)"

definition iesys_MU_IESYS_METADATA_Unmarshal :: "IESYS_METADATA ufun" where
  "iesys_MU_IESYS_METADATA_Unmarshal = unmarshal_struct zero_IESYS_METADATA
     [unmarshal_field Tss2_MU_UINT16_Unmarshal (Some 0) METADATA_size (\<lambda>x d. d\<lparr>METADATA_size := x\<rparr>),
      unmarshal_field iesys_MU_IESYS_RESOURCE_Unmarshal (Some zero_IESYS_RESOURCE) METADATA_data (\<lambda>x d. d\<lparr>METADATA_data := x\<rparr>)]"

definition iesys_MU_IESYS_CONTEXT_DATA_Marshal :: "IESYS_CONTEXT_DATA option mfun" where
  "iesys_MU_IESYS_CONTEXT_DATA_Marshal src buffer size' offset =
     (case src of
        None \<Rightarrow> Some (TSS2_SYS_RC_BAD_REFERENCE, buffer, offset)
      | Some s \<Rightarrow> marshal_struct
          [Tss2_MU_UINT32_Marshal (CONTEXT_DATA_reserved s),
           Tss2_MU_TPM2B_CONTEXT_DATA_Marshal (Some (CONTEXT_DATA_tpmContext s)),
           iesys_MU_IESYS_METADATA_Marshal (Some (CONTEXT_DATA_esysMetadata s))] buffer size' offset)"

definition iesys_MU_IESYS_CONTEXT_DATA_Unmarshal :: "IESYS_CONTEXT_DATA ufun" where
  "iesys_MU_IESYS_CONTEXT_DATA_Unmarshal = unmarshal_struct zero_IESYS_CONTEXT_DATA
     [unmarshal_field Tss2_MU_UINT32_Unmarshal (Some 0) CONTEXT_DATA_reserved (\<lambda>x d. d\<lparr>CONTEXT_DATA_reserved := x\<rparr>),
      unmarshal_field Tss2_MU_TPM2B_CONTEXT_DATA_Unmarshal None CONTEXT_DATA_tpmContext (\<lambda>x d. d\<lparr>CONTEXT_DATA_tpmContext := x\<rparr>),
      unmarshal_field iesys_MU_IESYS_METADATA_Unmarshal (Some zero_IESYS_METADATA) CONTEXT_DATA_esysMetadata
        (\<lambda>x d. d\<lparr>CONTEXT_DATA_esysMetadata := x\<rparr>)]"

text \<open>Layout of the structures on a 64-bit machine, for the sizes the code passes on.\<close>

definition ct_IESYS_SESSION :: ctype where
  "ct_IESYS_SESSION = CStruct
     [ct_TPM2B_NAME, ct_TPM2B_ENCRYPTED_SECRET, ct_TPM2B_DATA, CStruct [CInt 2, CInt 2, CInt 2], CInt 2, ct_TPM2B_DIGEST, CInt 1,
      CInt 1, CInt 1, ct_TPM2B_DIGEST, ct_TPM2B_DIGEST, CInt 4, CInt 4, CInt 4, CInt 2, CArray 128 (CInt 1), CInt 2]"

definition ct_IESYS_RESOURCE :: ctype where
  "ct_IESYS_RESOURCE = CStruct
     [CInt 4, ct_TPM2B_NAME, CInt 4, CUnion [ct_TPM2B_PUBLIC, ct_TPM2B_NV_PUBLIC, ct_IESYS_SESSION]]"

definition ct_IESYS_CONTEXT_DATA :: ctype where
  "ct_IESYS_CONTEXT_DATA = CStruct [CInt 4, ct_TPM2B_CONTEXT_DATA, CStruct [CInt 2, ct_IESYS_RESOURCE]]"

end
