(* ===== verification/Esys_Object.thy ===== *)
theory Esys_Object
  imports Esys_TR Esys_MU
begin

text \<open>
  The parts of the \<open>_Finish\<close> functions that create, change or close resource objects of the context.
\<close>

unbundle bit_operations_syntax

section \<open>New objects\<close>

text \<open>
  \<open>if (h == NULL) return TSS2_ESYS_RC_BAD_REFERENCE; *h = esysContext->esys_handle_cnt++; esys_CreateResourceObject(..)\<close>,
  on the first output parameter; the rest of the function gets the address of the new node.
\<close>

definition new_object ::
  "(nat \<Rightarrow> (('t, 'c) esys \<times> ESYS_TR option \<times> 'o) step) \<Rightarrow> (('t, 'c) esys \<times> ESYS_TR option \<times> 'o) step" where
  "new_object k = (\<lambda>(ctx, h, outs).
     case h of
       None \<Rightarrow> Some (TSS2_ESYS_RC_BAD_REFERENCE, ctx, h, outs)
     | Some _ \<Rightarrow>
         let c = esys_handle_cnt ctx in
         (case esys_CreateResourceObject c (ctx\<lparr>esys_handle_cnt := c + 1\<rparr>) of
            None \<Rightarrow> None
          | Some (r, node, ctx) \<Rightarrow>
              if r \<noteq> 0 then Some (r, ctx, Some c, outs)
              else (case node of None \<Rightarrow> None | Some a \<Rightarrow> k a (ctx, Some c, outs))))"

text \<open>\<open>Esys_TR_Close(esysContext, h)\<close> without regard to its return code.\<close>

definition close_out :: "(('t, 'c) esys \<times> ESYS_TR option \<times> 'o) \<Rightarrow> (('t, 'c) esys \<times> ESYS_TR option \<times> 'o) option" where
  "close_out = (\<lambda>(ctx, h, outs).
     case h of
       None \<Rightarrow> None
     | Some object \<Rightarrow>
         (case Esys_TR_Close (Some ctx) object of
            Some (_, Some ctx, object) \<Rightarrow> Some (ctx, Some object, outs)
          | _ \<Rightarrow> None))"

text \<open>The label \<open>error_cleanup\<close> that closes the new object and then frees other outputs.\<close>

definition object_cleanup ::
  "('o \<Rightarrow> 'o) \<Rightarrow> (('t, 'c) esys \<times> ESYS_TR option \<times> 'o) step \<Rightarrow> (('t, 'c) esys \<times> ESYS_TR option \<times> 'o) step" where
  "object_cleanup f = error_cleanup (\<lambda>s. map_option (\<lambda>(ctx, h, outs). (ctx, h, f outs)) (close_out s))"

text \<open>A local variable that a \<open>_Complete\<close> function fills, kept behind the first output parameter.\<close>

definition with_local :: "'v \<Rightarrow> ('s \<times> 'a \<times> 'v \<times> 'o) step \<Rightarrow> ('s \<times> 'a \<times> 'o) step" where
  "with_local x f = (\<lambda>(ctx, h, outs).
     case f (ctx, h, x, outs) of None \<Rightarrow> None | Some (r, ctx, h, _, outs) \<Rightarrow> Some (r, ctx, h, outs))"

text \<open>An output parameter that is not passed on.\<close>

definition hidden_out :: "('o, 'p) outs \<Rightarrow> ('a \<times> 'o, 'p) outs" where
  "hidden_out l = (\<lambda>(a, os). fst l os, \<lambda>(a, os) xs. (a, snd l os xs))"

text \<open>A \<open>_Complete\<close> function whose first output is \<open>&node->rsrc.handle\<close>.\<close>

definition set_handle :: "UINT32 \<Rightarrow> RSRC_NODE_T \<Rightarrow> RSRC_NODE_T" where
  "set_handle h n = n\<lparr>node_rsrc := (node_rsrc n)\<lparr>rsrc_handle := h\<rparr>\<rparr>"

definition complete_handle ::
  "nat \<Rightarrow> ('o, 'p) outs \<Rightarrow> ('t sysctx \<times> UINT32 option \<times> 'p) step \<Rightarrow> (('t, 'c) esys \<times> 'o) step" where
  "complete_handle a l f = (\<lambda>(ctx, outs).
     case rsrc_heap ctx a of
       None \<Rightarrow> None
     | Some n \<Rightarrow>
         (case f (esys_sys ctx, Some (rsrc_handle (node_rsrc n)), fst l outs) of
            Some (r, sys, Some h, xs) \<Rightarrow>
              let ctx = ctx\<lparr>esys_sys := sys, rsrc_heap := (rsrc_heap ctx)(a \<mapsto> set_handle h n)\<rparr> in
              Some (r, if r \<noteq> 0 then ctx\<lparr>esys_state := ESYS_STATE_INTERNALERROR\<rparr> else ctx, snd l outs xs)
          | _ \<Rightarrow> None))"

section \<open>Keys\<close>

definition set_name :: "TPM2B \<Rightarrow> RSRC_NODE_T \<Rightarrow> RSRC_NODE_T" where
  "set_name name n = n\<lparr>node_rsrc := (node_rsrc n)\<lparr>rsrc_name := name\<rparr>\<rparr>"

definition set_rsrcType :: "UINT32 \<Rightarrow> RSRC_NODE_T \<Rightarrow> RSRC_NODE_T" where
  "set_rsrcType ty n = n\<lparr>node_rsrc := (node_rsrc n)\<lparr>rsrc_rsrcType := ty\<rparr>\<rparr>"

definition set_key_pub :: "TPM2B_PUBLIC \<Rightarrow> RSRC_NODE_T \<Rightarrow> RSRC_NODE_T" where
  "set_key_pub p n = set_rsrcType IESYSC_KEY_RSRC (set_misc (RSRC_key_pub p) n)"

text \<open>The public area of the new object from the stored argument of \<open>Load\<close> and \<open>LoadExternal\<close>.\<close>

fun in_public :: "IESYS_CMD_IN_PARAM \<Rightarrow> TPM2B_PUBLIC option option" where
  "in_public (IN_Load p) = Some p"
| "in_public (IN_LoadExternal p) = Some p"
| "in_public _ = None"

definition init_public :: "nat \<Rightarrow> ('t, 'c) esys step" where
  "init_public a ctx =
     (case in_public (esys_in ctx) of
        None \<Rightarrow> None
      | Some (Some p) \<Rightarrow> set_node (Some a) (set_key_pub p) ctx
      | Some None \<Rightarrow>
          with_node (Some a)
            (\<lambda>n. case get_key_pub (rsrc_misc (node_rsrc n)) of
               None \<Rightarrow> (\<lambda>_. None)
             | Some p \<Rightarrow> set_node (Some a) (set_misc (RSRC_key_pub (p\<lparr>TPM2B_SUBTYPE_size := 0\<rparr>)))) ctx)"

text \<open>\<open>if (!iesys_compare_name(..)) goto_error(r, TSS2_ESYS_RC_MALFORMED_RESPONSE, ..)\<close>\<close>

definition check_name :: "TPM2B_PUBLIC option \<Rightarrow> TPM2B option \<Rightarrow> ('t, 'c) esys step" where
  "check_name pub name ctx =
     (case iesys_compare_name (crypto_backend ctx) pub name of
        None \<Rightarrow> None
      | Some (equal, cb) \<Rightarrow>
          Some (if equal then TSS2_RC_SUCCESS else TSS2_ESYS_RC_MALFORMED_RESPONSE, ctx\<lparr>crypto_backend := cb\<rparr>))"

text \<open>The steps of \<open>Load\<close> and \<open>LoadExternal\<close> behind \<open>_Complete\<close>; \<open>name\<close> is the local variable.\<close>

definition named_object :: "nat \<Rightarrow> (('t, 'c) esys \<times> ESYS_TR option \<times> TPM2B option \<times> 'o) step" where
  "named_object a = (\<lambda>(ctx, h, name, outs).
     case (in_public (esys_in ctx), name) of
       (Some pub, Some nm) \<Rightarrow>
         on_fst (steps [check_name pub name, set_node (Some a) (set_name nm)]) (ctx, h, name, outs)
     | _ \<Rightarrow> None)"

text \<open>The auth value of a created object is that of the stored sensitive area.\<close>

definition userAuth_object :: "nat \<Rightarrow> ('t, 'c) esys step" where
  "userAuth_object a ctx =
     (case in_sensitive (esys_in ctx) of
        None \<Rightarrow> None
      | Some s \<Rightarrow> set_auth (Some a) (sensitive_userAuth s) ctx)"

text \<open>\<open>lp = calloc(..); if (lp == NULL) goto_error(..)\<close> for a local pointer\<close>

definition alloc_local :: "'a \<Rightarrow> (('t, 'c) esys \<times> 'a option \<times> 'o) step" where
  "alloc_local z = (\<lambda>(ctx, p, outs).
     case alloc ctx of
       (ok, ctx) \<Rightarrow> if ok then Some (TSS2_RC_SUCCESS, ctx, Some z, outs) else Some (TSS2_ESYS_RC_MEMORY, ctx, None, outs))"

text \<open>\<open>if (p != NULL) *p = lp; else SAFE_FREE(lp);\<close>\<close>

definition give_out :: "'a option option \<Rightarrow> 'a option \<Rightarrow> 'a option option" where
  "give_out p lp = (case p of None \<Rightarrow> None | Some _ \<Rightarrow> Some lp)"

section \<open>Sequences, NV indices, PCRs and policies\<close>

definition no_name :: "RSRC_NODE_T \<Rightarrow> RSRC_NODE_T" where
  "no_name n = set_name ((rsrc_name (node_rsrc n))\<lparr>TPM2B_size := 0\<rparr>) n"

fun in_HMAC_Start :: "IESYS_CMD_IN_PARAM \<Rightarrow> TPM2B option" where
  "in_HMAC_Start (IN_HMAC_Start a) = Some a"
| "in_HMAC_Start _ = None"

definition sequence_auth :: "nat \<Rightarrow> ('t, 'c) esys step" where
  "sequence_auth a = read_val (\<lambda>ctx. in_HMAC_Start (esys_in ctx)) (\<lambda>auth. set_auth (Some a) auth)"

definition in_nvIndex :: "('t, 'c) esys \<Rightarrow> ESYS_TR option" where
  "in_nvIndex ctx = NV_nvIndex (nv_in (esys_in ctx))"

text \<open>The object of the stored handle; an error is returned in the state the function is in.\<close>

definition nv_object :: "(nat option \<Rightarrow> ('t, 'c) esys step) \<Rightarrow> ('t, 'c) esys step" where
  "nv_object k = read_val in_nvIndex (\<lambda>h. call (esys_GetResourceObject h) k)"

text \<open>
  \<open>if (node != NULL) { attributes |= flag; iesys_nv_get_name(.., &node->rsrc.name); }\<close>
\<close>

definition nv_set_attribute :: "UINT32 \<Rightarrow> nat option \<Rightarrow> ('t, 'c) esys step" where
  "nv_set_attribute flag node =
     (case node of
        None \<Rightarrow> steps []
      | Some a \<Rightarrow>
          with_node node (\<lambda>n. read_val (\<lambda>_. get_nv_pub (rsrc_misc (node_rsrc n)))
            (\<lambda>p. let pa = TPM2B_SUBTYPE_member p;
                     p' = p\<lparr>TPM2B_SUBTYPE_member := pa\<lparr>TPMS_NV_PUBLIC_attributes := TPMS_NV_PUBLIC_attributes pa OR flag\<rparr>\<rparr> in
               steps
                 [set_node node (set_misc (RSRC_nv_pub p')),
                  (\<lambda>ctx. case iesys_nv_get_name (crypto_backend ctx) p' (rsrc_name (node_rsrc n)) of
                     None \<Rightarrow> None
                   | Some (r, name, cb) \<Rightarrow> steps [set_node node (set_name name), ret r] (ctx\<lparr>crypto_backend := cb\<rparr>))])))"

text \<open>The new auth value of an object and the session value that follows from it.\<close>

definition change_auth :: "('t, 'c) esys step" where
  "change_auth = nv_object (\<lambda>node. read_val in_authData (\<lambda>auth. steps
     [set_auth node auth,
      (\<lambda>ctx. with_node node
         (\<lambda>n. iesys_compute_session_value (session_tab ctx ! 0) (Some (rsrc_name (node_rsrc n))) (Some (node_auth n))) ctx)]))"

text \<open>\<open>Esys_TR_Close\<close> on a stored handle, which the call may overwrite.\<close>

definition close_in :: "(IESYS_CMD_IN_PARAM \<Rightarrow> ESYS_TR option) \<Rightarrow> (ESYS_TR \<Rightarrow> IESYS_CMD_IN_PARAM \<Rightarrow> IESYS_CMD_IN_PARAM) \<Rightarrow> ('t, 'c) esys step" where
  "close_in get write_back = read_val (\<lambda>ctx. get (esys_in ctx))
     (\<lambda>h ctx. case Esys_TR_Close (Some ctx) h of
        Some (r, Some ctx, h') \<Rightarrow> Some (r, ctx\<lparr>esys_in := write_back h' (esys_in ctx)\<rparr>)
      | _ \<Rightarrow> None)"

definition close_nvIndex :: "('t, 'c) esys step" where
  "close_nvIndex = close_in (\<lambda>i. NV_nvIndex (nv_in i)) (\<lambda>h i. IN_NV ((nv_in i)\<lparr>NV_nvIndex := Some h\<rparr>))"

fun in_sequence :: "IESYS_CMD_IN_PARAM \<Rightarrow> ESYS_TR option" where
  "in_sequence (IN_SequenceComplete h) = Some h"
| "in_sequence _ = None"

fun in_save :: "IESYS_CMD_IN_PARAM \<Rightarrow> ESYS_TR option" where
  "in_save (IN_ContextSave h) = Some h"
| "in_save _ = None"

fun in_context :: "IESYS_CMD_IN_PARAM \<Rightarrow> TPMS_CONTEXT option" where
  "in_context (IN_ContextLoad c) = c"
| "in_context _ = None"

fun in_flush :: "IESYS_CMD_IN_PARAM \<Rightarrow> ESYS_TR option" where
  "in_flush (IN_FlushContext h) = Some h"
| "in_flush _ = None"

fun in_policy :: "IESYS_CMD_IN_PARAM \<Rightarrow> ESYS_TR option" where
  "in_policy (IN_Policy h) = Some h"
| "in_policy _ = None"

definition set_policy_type :: "UINT32 \<Rightarrow> ('t, 'c) esys step" where
  "set_policy_type ty = read_val (\<lambda>ctx. in_policy (esys_in ctx))
     (\<lambda>h. call (esys_GetResourceObject h)
        (\<lambda>node. if node = None then steps [] else set_session node (\<lambda>s. s\<lparr>SESSION_type_policy_session := ty\<rparr>)))"

text \<open>A \<open>_Complete\<close> function without outputs.\<close>

definition complete0 :: "('t sysctx \<times> unit) step \<Rightarrow> ('t, 'c) esys step" where
  "complete0 f ctx = map_option (\<lambda>(r, ctx, _). (r, ctx)) (complete no_out f (ctx, ()))"

section \<open>Sessions\<close>

text \<open>A clean-up that computes the return code anew, and one behind a call that delivers a value.\<close>

definition on_error :: "(TSS2_RC \<Rightarrow> 's step) \<Rightarrow> 's step \<Rightarrow> 's step" where
  "on_error cleanup f s =
     (case f s of None \<Rightarrow> None | Some (r, s') \<Rightarrow> if r \<noteq> 0 then cleanup r s' else Some (r, s'))"

definition call_on_error ::
  "(TSS2_RC \<Rightarrow> 's step) \<Rightarrow> ('s \<Rightarrow> (TSS2_RC \<times> 'v \<times> 's) option) \<Rightarrow> ('v \<Rightarrow> 's step) \<Rightarrow> 's step" where
  "call_on_error cleanup f k s =
     (case f s of None \<Rightarrow> None | Some (r, x, s') \<Rightarrow> if r \<noteq> 0 then cleanup r s' else k x s')"

definition lookup :: "ESYS_TR \<Rightarrow> (('t, 'c) esys \<times> 'o) \<Rightarrow> (TSS2_RC \<times> nat option \<times> ('t, 'c) esys \<times> 'o) option" where
  "lookup h = (\<lambda>(ctx, outs). map_option (\<lambda>(r, p, ctx). (r, p, ctx, outs)) (esys_GetResourceObject h ctx))"

fun in_start :: "IESYS_CMD_IN_PARAM \<Rightarrow> StartAuthSession_IN option" where
  "in_start (IN_StartAuthSession i) = Some i"
| "in_start _ = None"

text \<open>The node of a new session before the response is read; missing arguments are null pointers.\<close>

definition init_session_node :: "nat \<Rightarrow> ('t, 'c) esys step" where
  "init_session_node a = read_val (\<lambda>ctx. in_start (esys_in ctx))
     (\<lambda>i. case (SAS_symmetric i, SAS_nonceCaller i) of
        (Some symmetric, Some nonceCaller) \<Rightarrow> steps
          [set_node (Some a) (set_handle ESYS_TR_NONE),
           set_session (Some a) (\<lambda>s. s\<lparr>SESSION_sessionAttributes := TPMA_SESSION_CONTINUESESSION,
             SESSION_sessionType := SAS_sessionType i, SESSION_authHash := SAS_authHash i, SESSION_symmetric := symmetric,
             SESSION_nonceCaller := nonceCaller\<rparr>)]
      | _ \<Rightarrow> (\<lambda>_. None))"

text \<open>
  The secret of a session: the auth value of the bound object and the salt.  A null pointer for the
  bound object or the key means that there is none.
\<close>

definition bind_auth :: "ESYS_TR \<Rightarrow> nat option \<Rightarrow> ('t, 'c) esys \<Rightarrow> BYTE list option" where
  "bind_auth bind bindNode ctx =
     (if bind = ESYS_TR_NONE \<or> bindNode = None then Some []
      else case deref_node bindNode ctx of None \<Rightarrow> None | Some n \<Rightarrow> tpm2b_bytes (node_auth n))"

definition salt_bytes :: "ESYS_TR \<Rightarrow> size_t \<Rightarrow> ('t, 'c) esys \<Rightarrow> BYTE list option" where
  "salt_bytes tpmKey keyHash_size ctx =
     (if tpmKey = ESYS_TR_NONE then Some [] else mem_read (TPM2B_buffer (esys_salt ctx)) 0 (unat keyHash_size))"

definition bind_session :: "nat \<Rightarrow> ESYS_TR \<Rightarrow> nat option \<Rightarrow> ('t, 'c) esys step" where
  "bind_session a bind bindNode =
     (if bind = ESYS_TR_NONE \<or> bindNode = None then steps []
      else with_node bindNode (\<lambda>n.
        case iesys_compute_bound_entity (rsrc_name (node_rsrc n)) (node_auth n) of
          None \<Rightarrow> (\<lambda>_. None)
        | Some e \<Rightarrow> set_session (Some a) (\<lambda>s. s\<lparr>SESSION_bound_entity := e\<rparr>)))"

definition session_kdf :: "nat \<Rightarrow> StartAuthSession_IN \<Rightarrow> BYTE list \<Rightarrow> TPM2B \<Rightarrow> size_t \<Rightarrow> ('t, 'c) esys step" where
  "session_kdf a i secret nonceTPM authHash_size = with_session (Some a) (\<lambda>s ctx.
     case SAS_nonceCaller i of
       None \<Rightarrow> None
     | Some nonceCaller \<Rightarrow>
         (case iesys_crypto_KDFa (crypto_backend ctx) (SAS_authHash i) secret (Some ''ATH'') nonceTPM nonceCaller
                 (ucast (authHash_size * 8)) None (TPM2B_buffer (SESSION_sessionKey s)) False of
            None \<Rightarrow> None
          | Some (r, key, _, cb) \<Rightarrow> steps
              [set_session (Some a) (\<lambda>s. s\<lparr>SESSION_sessionKey := (SESSION_sessionKey s)\<lparr>TPM2B_buffer := key\<rparr>\<rparr>),
               ret r,
               set_session (Some a) (\<lambda>s. s\<lparr>SESSION_sessionKey := (SESSION_sessionKey s)\<lparr>TPM2B_size := ucast authHash_size\<rparr>\<rparr>)]
              (ctx\<lparr>crypto_backend := cb\<rparr>)))"

definition key_digest_size :: "nat option \<Rightarrow> (size_t \<Rightarrow> ('t, 'c) esys step) \<Rightarrow> ('t, 'c) esys step" where
  "key_digest_size tpmKeyNode k =
     (case tpmKeyNode of
        None \<Rightarrow> k 0
      | Some _ \<Rightarrow>
          with_node tpmKeyNode (\<lambda>n. read_val (\<lambda>_. get_key_pub (rsrc_misc (node_rsrc n)))
            (\<lambda>p. case iesys_crypto_hash_get_digest_size (TPMT_PUBLIC_nameAlg (TPM2B_SUBTYPE_member p)) of
               (r, n) \<Rightarrow> if r \<noteq> 0 then ret r else k n)))"

definition session_key :: "nat \<Rightarrow> StartAuthSession_IN \<Rightarrow> nat option \<Rightarrow> nat option \<Rightarrow> TPM2B \<Rightarrow> ('t, 'c) esys step" where
  "session_key a i bindNode tpmKeyNode nonceTPM = key_digest_size tpmKeyNode (\<lambda>keyHash_size.
     case iesys_crypto_hash_get_digest_size (SAS_authHash i) of
       (r, authHash_size) \<Rightarrow>
         if r \<noteq> 0 then ret r
         else if SAS_bind i = ESYS_TR_RH_NULL \<and> SAS_tpmKey i = ESYS_TR_NONE then steps []
         else (\<lambda>ctx. case alloc ctx of
           (ok, ctx) \<Rightarrow>
             if \<not> ok then Some (TSS2_ESYS_RC_MEMORY, ctx)
             else
               (case (bind_auth (SAS_bind i) bindNode ctx, salt_bytes (SAS_tpmKey i) keyHash_size ctx) of
                  (Some auth, Some salt) \<Rightarrow> steps
                    [bind_session a (SAS_bind i) bindNode, session_kdf a i (auth @ salt) nonceTPM authHash_size] ctx
                | _ \<Rightarrow> None)))"

text \<open>The name of a session is its handle.\<close>

definition session_name :: "nat \<Rightarrow> ('t, 'c) esys step" where
  "session_name a = with_node (Some a) (\<lambda>n.
     let name = rsrc_name (node_rsrc n) in
     case Tss2_MU_UINT32_Marshal (rsrc_handle (node_rsrc n)) (Some (TPM2B_buffer name)) (of_nat (length (TPM2B_buffer name))) (Some 0) of
       Some (r, Some b, Some offset) \<Rightarrow> steps
         [set_node (Some a) (set_name (name\<lparr>TPM2B_buffer := b\<rparr>)), ret r,
          set_node (Some a) (set_name \<lparr>TPM2B_size = ucast offset, TPM2B_buffer = b\<rparr>)]
     | _ \<Rightarrow> (\<lambda>_. None))"

text \<open>A local node on the stack: it has an address while the function runs.\<close>

definition stack_object :: "(RSRC_NODE_T \<Rightarrow> RSRC_NODE_T) \<Rightarrow> (nat \<Rightarrow> ('t, 'c) esys step) \<Rightarrow> ('t, 'c) esys step" where
  "stack_object f k ctx =
     (let a = heap_next ctx in
      map_option (\<lambda>(r, ctx). (r, ctx\<lparr>rsrc_heap := (rsrc_heap ctx)(a := None)\<rparr>))
        (k a (ctx\<lparr>heap_next := a + 1, rsrc_heap := (rsrc_heap ctx)(a \<mapsto> f (stack_node ctx))\<rparr>)))"

section \<open>Startup\<close>

text \<open>
  The TPM may answer that it is initialized already; a resubmitted command leaves the state
  \<open>ESYS_STATE_SENT\<close>.
\<close>

definition receive_startup :: "('t, 'c) esys step" where
  "receive_startup ctx =
     (case on_sys (\<lambda>sys. Tss2_Sys_ExecuteFinish sys (esys_timeout ctx)) ctx of
        None \<Rightarrow> None
      | Some (r, ctx) \<Rightarrow>
          if base_rc r = TSS2_BASE_RC_TRY_AGAIN then Some (r, ctx\<lparr>esys_state := ESYS_STATE_SENT\<rparr>)
          else if wants_retry r then resubmit ESYS_STATE_SENT r ctx
          else if r = TPM2_RC_UPGRADE then Some (r, ctx\<lparr>esys_state := ESYS_STATE_INIT\<rparr>)
          else if iesys_tpm_error r \<and> r \<noteq> TPM2_RC_INITIALIZE then Some (r, ctx\<lparr>esys_state := ESYS_STATE_INIT\<rparr>)
          else if r \<noteq> TSS2_RC_SUCCESS \<and> r \<noteq> TPM2_RC_INITIALIZE then Some (r, ctx\<lparr>esys_state := ESYS_STATE_INTERNALERROR\<rparr>)
          else Some (TSS2_RC_SUCCESS, ctx))"

end
