(* ===== verification/Esys_Commands_1.thy ===== *)
theory Esys_Commands_1
  imports Esys_Object
begin

text \<open>
  The command functions of \<open>src/tss2-esys/api\<close> from \<open>AC_GetCapability\<close> to \<open>DictionaryAttackParameters\<close>.
\<close>

section \<open>Commands\<close>

definition Esys_AC_GetCapability_Async where
  "Esys_AC_GetCapability_Async esysContext optionalSession1 optionalSession2 optionalSession3 ac capability count =
     esys_async esysContext (steps
       [feasible optionalSession1 optionalSession2 optionalSession3 0,
        tpm_handle_of ac (\<lambda>ac_id. steps
         [prepare (\<lambda>sys. Tss2_Sys_AC_GetCapability_Prepare sys ac_id capability count),
          init_sessions optionalSession1 optionalSession2 optionalSession3,
          session_value_for 0 None,
          session_value_for 1 None,
          session_value_for 2 None,
          gen_auths None None None (\<lambda>auths. steps
           [set_auths auths,
            send])])])"

definition Esys_AC_GetCapability_Finish where
  "Esys_AC_GetCapability_Finish = esys_finish (steps
       [next_out (alloc_out zero_TPML_AC_CAPABILITIES),
        cleanup_outs (keep_out (free_out (\<lambda>_. ()))) (steps
          [on_fst receive,
           on_fst check_response,
           complete (val_out (ptr_out no_out)) (\<lambda>(sys, moreData, capabilityData, _).
               Tss2_Sys_AC_GetCapability_Complete sys moreData capabilityData),
           finished])])"

definition Esys_AC_GetCapability where
  "Esys_AC_GetCapability esysContext optionalSession1 optionalSession2 optionalSession3 ac capability count moreData
      capabilityData =
     one_call (Esys_AC_GetCapability_Async esysContext optionalSession1 optionalSession2 optionalSession3 ac capability
         count) Esys_AC_GetCapability_Finish (moreData, capabilityData, ())"

definition Esys_AC_Send_Async where
  "Esys_AC_Send_Async esysContext sendObject nvAuthHandle optionalSession1 optionalSession2 optionalSession3 ac acDataIn =
     esys_async esysContext (steps
       [feasible optionalSession1 optionalSession2 optionalSession3 0,
        object_handle_of ac (\<lambda>tpmi_ac. steps
         [object_handle_of sendObject (\<lambda>tpmi_sendObject. steps
           [object_handle_of nvAuthHandle (\<lambda>tpmi_nvAuthHandle. steps
             [prepare (\<lambda>sys. Tss2_Sys_AC_Send_Prepare sys tpmi_sendObject tpmi_nvAuthHandle tpmi_ac acDataIn),
              init_sessions optionalSession1 optionalSession2 optionalSession3,
              session_value_for 0 None,
              session_value_for 1 None,
              session_value_for 2 None,
              gen_auths None None None (\<lambda>auths. steps
               [set_auths auths,
                send])])])])])"

definition Esys_AC_Send_Finish where
  "Esys_AC_Send_Finish = esys_finish (steps
       [alloc_out zero_TPMS_AC_OUTPUT,
        cleanup_outs (free_out (\<lambda>_. ())) (steps
          [on_fst receive,
           on_fst check_response,
           complete (ptr_out no_out) (\<lambda>(sys, acDataOut, _). Tss2_Sys_AC_Send_Complete sys acDataOut),
           finished])])"

definition Esys_AC_Send where
  "Esys_AC_Send esysContext sendObject nvAuthHandle ac optionalSession1 optionalSession2 optionalSession3 acDataIn acDataOut =
     one_call (Esys_AC_Send_Async esysContext sendObject nvAuthHandle optionalSession1 optionalSession2 optionalSession3 ac
         acDataIn) Esys_AC_Send_Finish (acDataOut, ())"

definition Esys_ACT_SetTimeout_Async where
  "Esys_ACT_SetTimeout_Async esysContext actHandle shandle1 shandle2 shandle3 startTimeout =
     esys_async esysContext (steps
       [feasible shandle1 shandle2 shandle3 1,
        get_node actHandle (\<lambda>actHandleNode. steps
         [with_handle actHandleNode (\<lambda>actHandle'. prepare (\<lambda>sys.
             Tss2_Sys_ACT_SetTimeout_Prepare sys actHandle' startTimeout)),
          init_sessions shandle1 shandle2 shandle3,
          session_value_for 0 actHandleNode,
          session_value_for 1 None,
          session_value_for 2 None,
          gen_auths actHandleNode None None (\<lambda>auths. steps
           [set_auths auths,
            send])])])"

definition Esys_ACT_SetTimeout_Finish where
  "Esys_ACT_SetTimeout_Finish = esys_finish (steps
       [on_fst receive,
        on_fst check_response,
        complete no_out (\<lambda>(sys, _). Tss2_Sys_ACT_SetTimeout_Complete sys),
        finished])"

definition Esys_ACT_SetTimeout where
  "Esys_ACT_SetTimeout esysContext actHandle shandle1 shandle2 shandle3 startTimeout =
     one_call (Esys_ACT_SetTimeout_Async esysContext actHandle shandle1 shandle2 shandle3 startTimeout)
         Esys_ACT_SetTimeout_Finish ()"

definition Esys_ActivateCredential_Async where
  "Esys_ActivateCredential_Async esysContext activateHandle keyHandle shandle1 shandle2 shandle3 credentialBlob secret =
     esys_async esysContext (steps
       [feasible shandle1 shandle2 shandle3 1,
        get_node activateHandle (\<lambda>activateHandleNode. steps
         [get_node keyHandle (\<lambda>keyHandleNode. steps
           [with_handle activateHandleNode (\<lambda>activateHandle'. with_handle keyHandleNode (\<lambda>keyHandle'.
               prepare (\<lambda>sys. Tss2_Sys_ActivateCredential_Prepare sys activateHandle' keyHandle' credentialBlob
               secret))),
            init_sessions shandle1 shandle2 shandle3,
            session_value_for 0 activateHandleNode,
            session_value_for 1 keyHandleNode,
            session_value_for 2 None,
            gen_auths activateHandleNode keyHandleNode None (\<lambda>auths. steps
             [set_auths auths,
              send])])])])"

definition Esys_ActivateCredential_Finish where
  "Esys_ActivateCredential_Finish = esys_finish (steps
       [alloc_out (zero_TPM2B 64),
        cleanup_outs (free_out (\<lambda>_. ())) (steps
          [on_fst receive,
           on_fst check_response,
           complete (ptr_out no_out) (\<lambda>(sys, certInfo, _). Tss2_Sys_ActivateCredential_Complete sys certInfo),
           finished])])"

definition Esys_ActivateCredential where
  "Esys_ActivateCredential esysContext activateHandle keyHandle shandle1 shandle2 shandle3 credentialBlob secret certInfo =
     one_call (Esys_ActivateCredential_Async esysContext activateHandle keyHandle shandle1 shandle2 shandle3 credentialBlob
         secret) Esys_ActivateCredential_Finish (certInfo, ())"

definition Esys_Certify_Async where
  "Esys_Certify_Async esysContext objectHandle signHandle shandle1 shandle2 shandle3 qualifyingData inScheme =
     esys_async esysContext (steps
       [feasible shandle1 shandle2 shandle3 1,
        get_node objectHandle (\<lambda>objectHandleNode. steps
         [get_node signHandle (\<lambda>signHandleNode. steps
           [with_handle objectHandleNode (\<lambda>objectHandle'. with_handle signHandleNode (\<lambda>signHandle'.
               prepare (\<lambda>sys. Tss2_Sys_Certify_Prepare sys objectHandle' signHandle' qualifyingData inScheme))),
            init_sessions shandle1 shandle2 shandle3,
            session_value_for 0 objectHandleNode,
            session_value_for 1 signHandleNode,
            session_value_for 2 None,
            gen_auths objectHandleNode signHandleNode None (\<lambda>auths. steps
             [set_auths auths,
              send])])])])"

definition Esys_Certify_Finish where
  "Esys_Certify_Finish = esys_finish (steps
       [alloc_out (zero_TPM2B 2304),
        cleanup_outs (free_out (free_out (\<lambda>_. ()))) (steps
          [next_out (alloc_out zero_TPMT_SIGNATURE),
           on_fst receive,
           on_fst check_response,
           complete (ptr_out (ptr_out no_out)) (\<lambda>(sys, certifyInfo, signature, _).
               Tss2_Sys_Certify_Complete sys certifyInfo signature),
           finished])])"

definition Esys_Certify where
  "Esys_Certify esysContext objectHandle signHandle shandle1 shandle2 shandle3 qualifyingData inScheme certifyInfo signature =
     one_call (Esys_Certify_Async esysContext objectHandle signHandle shandle1 shandle2 shandle3 qualifyingData inScheme)
         Esys_Certify_Finish (certifyInfo, signature, ())"

definition Esys_CertifyCreation_Async where
  "Esys_CertifyCreation_Async esysContext signHandle objectHandle shandle1 shandle2 shandle3 qualifyingData creationHash
      inScheme creationTicket =
     esys_async esysContext (steps
       [feasible shandle1 shandle2 shandle3 1,
        get_node signHandle (\<lambda>signHandleNode. steps
         [get_node objectHandle (\<lambda>objectHandleNode. steps
           [with_handle signHandleNode (\<lambda>signHandle'. with_handle objectHandleNode (\<lambda>objectHandle'.
               prepare (\<lambda>sys. Tss2_Sys_CertifyCreation_Prepare sys signHandle' objectHandle' qualifyingData
               creationHash inScheme creationTicket))),
            init_sessions shandle1 shandle2 shandle3,
            session_value_for 0 signHandleNode,
            session_value_for 1 None,
            session_value_for 2 None,
            gen_auths signHandleNode objectHandleNode None (\<lambda>auths. steps
             [set_auths auths,
              send])])])])"

definition Esys_CertifyCreation_Finish where
  "Esys_CertifyCreation_Finish = esys_finish (steps
       [alloc_out (zero_TPM2B 2304),
        cleanup_outs (free_out (free_out (\<lambda>_. ()))) (steps
          [next_out (alloc_out zero_TPMT_SIGNATURE),
           on_fst receive,
           on_fst check_response,
           complete (ptr_out (ptr_out no_out)) (\<lambda>(sys, certifyInfo, signature, _).
               Tss2_Sys_CertifyCreation_Complete sys certifyInfo signature),
           finished])])"

definition Esys_CertifyCreation where
  "Esys_CertifyCreation esysContext signHandle objectHandle shandle1 shandle2 shandle3 qualifyingData creationHash inScheme
      creationTicket certifyInfo signature =
     one_call (Esys_CertifyCreation_Async esysContext signHandle objectHandle shandle1 shandle2 shandle3 qualifyingData
         creationHash inScheme creationTicket) Esys_CertifyCreation_Finish (certifyInfo, signature, ())"

definition Esys_CertifyX509_Async where
  "Esys_CertifyX509_Async esysContext objectHandle signHandle shandle1 shandle2 shandle3 reserved inScheme partialCertificate =
     esys_async esysContext (steps
       [feasible shandle1 shandle2 shandle3 1,
        get_node objectHandle (\<lambda>objectHandleNode. steps
         [get_node signHandle (\<lambda>signHandleNode. steps
           [with_handle objectHandleNode (\<lambda>objectHandle'. with_handle signHandleNode (\<lambda>signHandle'.
               prepare (\<lambda>sys. Tss2_Sys_CertifyX509_Prepare sys objectHandle' signHandle' reserved inScheme
               partialCertificate))),
            init_sessions shandle1 shandle2 shandle3,
            session_value_for 0 objectHandleNode,
            session_value_for 1 signHandleNode,
            session_value_for 2 None,
            gen_auths objectHandleNode signHandleNode None (\<lambda>auths. steps
             [set_auths auths,
              send])])])])"

definition Esys_CertifyX509_Finish where
  "Esys_CertifyX509_Finish = esys_finish (steps
       [alloc_out (zero_TPM2B 1024),
        cleanup_outs (free_out (free_out (free_out (\<lambda>_. ())))) (steps
          [next_out (alloc_out (zero_TPM2B 64)),
           next_out (next_out (alloc_out zero_TPMT_SIGNATURE)),
           on_fst receive,
           on_fst check_response,
           complete (ptr_out (ptr_out (ptr_out no_out))) (\<lambda>(sys, addedToCertificate, tbsDigest, signature, _).
               Tss2_Sys_CertifyX509_Complete sys addedToCertificate tbsDigest signature),
           finished])])"

definition Esys_CertifyX509 where
  "Esys_CertifyX509 esysContext objectHandle signHandle shandle1 shandle2 shandle3 reserved inScheme partialCertificate
      addedToCertificate tbsDigest signature =
     one_call (Esys_CertifyX509_Async esysContext objectHandle signHandle shandle1 shandle2 shandle3 reserved inScheme
         partialCertificate) Esys_CertifyX509_Finish (addedToCertificate, tbsDigest, signature, ())"

definition Esys_ChangeEPS_Async where
  "Esys_ChangeEPS_Async esysContext authHandle shandle1 shandle2 shandle3 =
     esys_async esysContext (steps
       [feasible shandle1 shandle2 shandle3 1,
        get_node authHandle (\<lambda>authHandleNode. steps
         [with_handle authHandleNode (\<lambda>authHandle'. prepare (\<lambda>sys. Tss2_Sys_ChangeEPS_Prepare sys authHandle')),
          init_sessions shandle1 shandle2 shandle3,
          session_value_for 0 authHandleNode,
          session_value_for 1 None,
          session_value_for 2 None,
          gen_auths authHandleNode None None (\<lambda>auths. steps
           [set_auths auths,
            send])])])"

definition Esys_ChangeEPS_Finish where
  "Esys_ChangeEPS_Finish = esys_finish (steps
       [on_fst receive,
        on_fst check_response,
        complete no_out (\<lambda>(sys, _). Tss2_Sys_ChangeEPS_Complete sys),
        finished])"

definition Esys_ChangeEPS where
  "Esys_ChangeEPS esysContext authHandle shandle1 shandle2 shandle3 =
     one_call (Esys_ChangeEPS_Async esysContext authHandle shandle1 shandle2 shandle3) Esys_ChangeEPS_Finish ()"

definition Esys_ChangePPS_Async where
  "Esys_ChangePPS_Async esysContext authHandle shandle1 shandle2 shandle3 =
     esys_async esysContext (steps
       [feasible shandle1 shandle2 shandle3 1,
        get_node authHandle (\<lambda>authHandleNode. steps
         [with_handle authHandleNode (\<lambda>authHandle'. prepare (\<lambda>sys. Tss2_Sys_ChangePPS_Prepare sys authHandle')),
          init_sessions shandle1 shandle2 shandle3,
          session_value_for 0 authHandleNode,
          session_value_for 1 None,
          session_value_for 2 None,
          gen_auths authHandleNode None None (\<lambda>auths. steps
           [set_auths auths,
            send])])])"

definition Esys_ChangePPS_Finish where
  "Esys_ChangePPS_Finish = esys_finish (steps
       [on_fst receive,
        on_fst check_response,
        complete no_out (\<lambda>(sys, _). Tss2_Sys_ChangePPS_Complete sys),
        finished])"

definition Esys_ChangePPS where
  "Esys_ChangePPS esysContext authHandle shandle1 shandle2 shandle3 =
     one_call (Esys_ChangePPS_Async esysContext authHandle shandle1 shandle2 shandle3) Esys_ChangePPS_Finish ()"

definition Esys_Clear_Async where
  "Esys_Clear_Async esysContext authHandle shandle1 shandle2 shandle3 =
     esys_async esysContext (steps
       [feasible shandle1 shandle2 shandle3 1,
        get_node authHandle (\<lambda>authHandleNode. steps
         [with_handle authHandleNode (\<lambda>authHandle'. prepare (\<lambda>sys. Tss2_Sys_Clear_Prepare sys authHandle')),
          init_sessions shandle1 shandle2 shandle3,
          session_value_for 0 authHandleNode,
          session_value_for 1 None,
          session_value_for 2 None,
          gen_auths authHandleNode None None (\<lambda>auths. steps
           [set_auths auths,
            or_state ESYS_STATE_INTERNALERROR (on_sys Tss2_Sys_ExecuteAsync),
            if authHandle = ESYS_TR_RH_LOCKOUT then session_value_for 0 None else steps [],
            set_state ESYS_STATE_SENT])])])"

definition Esys_Clear_Finish where
  "Esys_Clear_Finish = esys_finish (steps
       [on_fst receive,
        on_fst check_response,
        complete no_out (\<lambda>(sys, _). Tss2_Sys_Clear_Complete sys),
        finished])"

definition Esys_Clear where
  "Esys_Clear esysContext authHandle shandle1 shandle2 shandle3 =
     one_call (Esys_Clear_Async esysContext authHandle shandle1 shandle2 shandle3) Esys_Clear_Finish ()"

definition Esys_ClearControl_Async where
  "Esys_ClearControl_Async esysContext auth shandle1 shandle2 shandle3 disable =
     esys_async esysContext (steps
       [feasible shandle1 shandle2 shandle3 1,
        get_node auth (\<lambda>authNode. steps
         [with_handle authNode (\<lambda>auth'. prepare (\<lambda>sys. Tss2_Sys_ClearControl_Prepare sys auth' disable)),
          init_sessions shandle1 shandle2 shandle3,
          session_value_for 0 authNode,
          session_value_for 1 None,
          session_value_for 2 None,
          gen_auths authNode None None (\<lambda>auths. steps
           [set_auths auths,
            send])])])"

definition Esys_ClearControl_Finish where
  "Esys_ClearControl_Finish = esys_finish (steps
       [on_fst receive,
        on_fst check_response,
        complete no_out (\<lambda>(sys, _). Tss2_Sys_ClearControl_Complete sys),
        finished])"

definition Esys_ClearControl where
  "Esys_ClearControl esysContext auth shandle1 shandle2 shandle3 disable =
     one_call (Esys_ClearControl_Async esysContext auth shandle1 shandle2 shandle3 disable) Esys_ClearControl_Finish ()"

definition Esys_ClockRateAdjust_Async where
  "Esys_ClockRateAdjust_Async esysContext auth shandle1 shandle2 shandle3 rateAdjust =
     esys_async esysContext (steps
       [feasible shandle1 shandle2 shandle3 1,
        get_node auth (\<lambda>authNode. steps
         [with_handle authNode (\<lambda>auth'. prepare (\<lambda>sys. Tss2_Sys_ClockRateAdjust_Prepare sys auth' rateAdjust)),
          init_sessions shandle1 shandle2 shandle3,
          session_value_for 0 authNode,
          session_value_for 1 None,
          session_value_for 2 None,
          gen_auths authNode None None (\<lambda>auths. steps
           [set_auths auths,
            send])])])"

definition Esys_ClockRateAdjust_Finish where
  "Esys_ClockRateAdjust_Finish = esys_finish (steps
       [on_fst receive,
        on_fst check_response,
        complete no_out (\<lambda>(sys, _). Tss2_Sys_ClockRateAdjust_Complete sys),
        finished])"

definition Esys_ClockRateAdjust where
  "Esys_ClockRateAdjust esysContext auth shandle1 shandle2 shandle3 rateAdjust =
     one_call (Esys_ClockRateAdjust_Async esysContext auth shandle1 shandle2 shandle3 rateAdjust) Esys_ClockRateAdjust_Finish
         ()"

definition Esys_ClockSet_Async where
  "Esys_ClockSet_Async esysContext auth shandle1 shandle2 shandle3 newTime =
     esys_async esysContext (steps
       [feasible shandle1 shandle2 shandle3 1,
        get_node auth (\<lambda>authNode. steps
         [with_handle authNode (\<lambda>auth'. prepare (\<lambda>sys. Tss2_Sys_ClockSet_Prepare sys auth' newTime)),
          init_sessions shandle1 shandle2 shandle3,
          session_value_for 0 authNode,
          session_value_for 1 None,
          session_value_for 2 None,
          gen_auths authNode None None (\<lambda>auths. steps
           [set_auths auths,
            send])])])"

definition Esys_ClockSet_Finish where
  "Esys_ClockSet_Finish = esys_finish (steps
       [on_fst receive,
        on_fst check_response,
        complete no_out (\<lambda>(sys, _). Tss2_Sys_ClockSet_Complete sys),
        finished])"

definition Esys_ClockSet where
  "Esys_ClockSet esysContext auth shandle1 shandle2 shandle3 newTime =
     one_call (Esys_ClockSet_Async esysContext auth shandle1 shandle2 shandle3 newTime) Esys_ClockSet_Finish ()"

definition Esys_Commit_Async where
  "Esys_Commit_Async esysContext signHandle shandle1 shandle2 shandle3 P1 s2 y2 =
     esys_async esysContext (steps
       [feasible shandle1 shandle2 shandle3 1,
        get_node signHandle (\<lambda>signHandleNode. steps
         [with_handle signHandleNode (\<lambda>signHandle'. prepare (\<lambda>sys.
             Tss2_Sys_Commit_Prepare sys signHandle' P1 s2 y2)),
          init_sessions shandle1 shandle2 shandle3,
          session_value_for 0 signHandleNode,
          session_value_for 1 None,
          session_value_for 2 None,
          gen_auths signHandleNode None None (\<lambda>auths. steps
           [set_auths auths,
            send])])])"

definition Esys_Commit_Finish where
  "Esys_Commit_Finish = esys_finish (steps
       [next_out (next_out null_out),
        alloc_out (zero_SUBTYPE zero_TPMS_ECC_POINT),
        cleanup_outs (free_out (free_out (free_out (keep_out (\<lambda>_. ()))))) (steps
          [next_out (alloc_out (zero_SUBTYPE zero_TPMS_ECC_POINT)),
           next_out (next_out (alloc_out (zero_SUBTYPE zero_TPMS_ECC_POINT))),
           on_fst receive,
           on_fst check_response,
           complete (ptr_out (ptr_out (ptr_out (val_out no_out)))) (\<lambda>(sys, K, L, E, counter, _).
               Tss2_Sys_Commit_Complete sys K L E counter),
           finished])])"

definition Esys_Commit where
  "Esys_Commit esysContext signHandle shandle1 shandle2 shandle3 P1 s2 y2 K L E counter =
     one_call (Esys_Commit_Async esysContext signHandle shandle1 shandle2 shandle3 P1 s2 y2) Esys_Commit_Finish (K, L, E,
         counter, ())"

text \<open>
  The blob of a saved context holds the blob of the TPM and the metadata of the object; only the first
  goes to the TPM.
\<close>

definition load_context :: "TPMS_CONTEXT option \<Rightarrow> ('t, 'c) esys step" where
  "load_context context' =
     (case context' of
        None \<Rightarrow> ret TSS2_ESYS_RC_BAD_REFERENCE
      | Some c \<Rightarrow>
          let blob = TPMS_CONTEXT_contextBlob c in
          (\<lambda>ctx. case iesys_MU_IESYS_CONTEXT_DATA_Unmarshal (Some (TPM2B_buffer blob)) (ucast (TPM2B_size blob)) (Some 0)
                   (Some zero_IESYS_CONTEXT_DATA) of
             Some (r, _, Some esyscontextData) \<Rightarrow> steps
               [ret r,
                prepare (\<lambda>sys. Tss2_Sys_ContextLoad_Prepare sys
                  (Some (c\<lparr>TPMS_CONTEXT_contextBlob := CONTEXT_DATA_tpmContext esyscontextData\<rparr>))),
                send] ctx
           | _ \<Rightarrow> None))"

definition Esys_ContextLoad_Async where
  "Esys_ContextLoad_Async esysContext context' =
     esys_async esysContext (steps [store (IN_ContextLoad context'), load_context context'])"

text \<open>
  The metadata of the loaded object comes from the stored blob; the size given to the function is that
  of the structure, not that of the blob.
\<close>

definition load_metadata :: "nat \<Rightarrow> ('t, 'c) esys step" where
  "load_metadata a = read_val (\<lambda>ctx. in_context (esys_in ctx)) (\<lambda>c ctx.
     case iesys_MU_IESYS_CONTEXT_DATA_Unmarshal (Some (TPM2B_buffer (TPMS_CONTEXT_contextBlob c)))
            (of_nat (sizeof ct_IESYS_CONTEXT_DATA)) (Some 0) (Some zero_IESYS_CONTEXT_DATA) of
       Some (r, _, Some esyscontextData) \<Rightarrow> steps
         [ret r, set_node (Some a) (\<lambda>n. n\<lparr>node_rsrc := METADATA_data (CONTEXT_DATA_esysMetadata esyscontextData)\<rparr>)] ctx
     | _ \<Rightarrow> None)"

definition Esys_ContextLoad_Finish where
  "Esys_ContextLoad_Finish = esys_finish (new_object (\<lambda>a. object_cleanup (\<lambda>_. ()) (steps
       [on_fst (load_metadata a),
        on_fst receive,
        complete_handle a (hidden_out no_out) (\<lambda>(sys, loadedHandle, _). Tss2_Sys_ContextLoad_Complete sys loadedHandle),
        finished])))"

definition Esys_ContextLoad where
  "Esys_ContextLoad esysContext context loadedHandle =
     one_call (Esys_ContextLoad_Async esysContext context) Esys_ContextLoad_Finish (loadedHandle, ())"

definition Esys_ContextSave_Async where
  "Esys_ContextSave_Async esysContext saveHandle =
     esys_async esysContext (steps
       [store (IN_ContextSave saveHandle),
        get_node saveHandle (\<lambda>saveHandleNode. steps
         [with_handle saveHandleNode (\<lambda>saveHandle'. prepare (\<lambda>sys.
             Tss2_Sys_ContextSave_Prepare sys saveHandle')),
          send])])"

text \<open>
  The blob of the TPM is copied into a structure beside the metadata of the object, and the structure is
  written over the blob.  A session that is saved is closed.
\<close>

definition copy_blob :: "TPM2B \<Rightarrow> TPM2B option" where
  "copy_blob blob =
     (case mem_read (TPM2B_buffer blob) 0 (unat (TPM2B_size blob)) of
        None \<Rightarrow> None
      | Some xs \<Rightarrow>
          map_option (\<lambda>b. \<lparr>TPM2B_size = TPM2B_size blob, TPM2B_buffer = b\<rparr>)
            (mem_write (replicate (sizeof ct_TPMS_CONTEXT_DATA) 0) 0 xs))"

definition extend_context :: "TPM2B \<Rightarrow> IESYS_RESOURCE \<Rightarrow> TPMS_CONTEXT \<Rightarrow> (TSS2_RC \<times> TPMS_CONTEXT) option" where
  "extend_context tpmContext rsrc lcontext =
     (let blob = TPMS_CONTEXT_contextBlob lcontext in
      case iesys_MU_IESYS_CONTEXT_DATA_Marshal
             (Some \<lparr>CONTEXT_DATA_reserved = 0, CONTEXT_DATA_tpmContext = tpmContext,
                CONTEXT_DATA_esysMetadata = \<lparr>METADATA_size = 0, METADATA_data = rsrc\<rparr>\<rparr>)
             (Some (TPM2B_buffer blob)) (of_nat (sizeof ct_TPMS_CONTEXT_DATA)) (Some 0) of
        Some (r, Some b, Some offset) \<Rightarrow>
          Some (r, lcontext\<lparr>TPMS_CONTEXT_contextBlob :=
            \<lparr>TPM2B_size = (if r \<noteq> 0 then TPM2B_size blob else ucast offset), TPM2B_buffer = b\<rparr>\<rparr>)
      | _ \<Rightarrow> None)"

definition save_object ::
  "TPM2B \<Rightarrow> TPMS_CONTEXT \<Rightarrow> RSRC_NODE_T \<Rightarrow> (('t, 'c) esys \<times> TPMS_CONTEXT option option \<times> TPMS_CONTEXT option \<times> unit) step" where
  "save_object tpmContext lcontext n = (\<lambda>(ctx, context', _, outs).
     case extend_context tpmContext (node_rsrc n) lcontext of
       None \<Rightarrow> None
     | Some (r, lcontext) \<Rightarrow> steps
         [ret r,
          on_fst (if rsrc_rsrcType (node_rsrc n) = IESYSC_SESSION_RSRC then close_in in_save (\<lambda>h _. IN_ContextSave h) else steps []),
          (\<lambda>(ctx, context', lcontext, outs). Some (TSS2_RC_SUCCESS, ctx, give_out context' lcontext, lcontext, outs))]
         (ctx, context', Some lcontext, outs))"

definition save_context :: "(('t, 'c) esys \<times> TPMS_CONTEXT option option \<times> TPMS_CONTEXT option \<times> unit) step" where
  "save_context = (\<lambda>(ctx, context', lcontext, outs).
     case (lcontext, in_save (esys_in ctx)) of
       (Some lc, Some saveHandle) \<Rightarrow>
         (case copy_blob (TPMS_CONTEXT_contextBlob lc) of
            None \<Rightarrow> None
          | Some tpmContext \<Rightarrow>
              call (lookup saveHandle) (\<lambda>node. with_object node (save_object tpmContext lc)) (ctx, context', lcontext, outs))
     | _ \<Rightarrow> None)"

definition Esys_ContextSave_Finish where
  "Esys_ContextSave_Finish = esys_finish (with_local None (steps
       [next_out (alloc_local zero_TPMS_CONTEXT),
        on_fst receive,
        complete (hidden_out (val_out no_out)) (\<lambda>(sys, context', _). Tss2_Sys_ContextSave_Complete sys context'),
        save_context,
        finished]))"

definition Esys_ContextSave where
  "Esys_ContextSave esysContext saveHandle context =
     one_call (Esys_ContextSave_Async esysContext saveHandle) Esys_ContextSave_Finish (context, ())"

definition Esys_Create_Async where
  "Esys_Create_Async esysContext parentHandle shandle1 shandle2 shandle3 inSensitive inPublic outsideInfo creationPCR =
     esys_async esysContext (steps
       [feasible shandle1 shandle2 shandle3 1,
        store (IN_Create inSensitive),
        adapt_for_public inPublic,
        get_node parentHandle (\<lambda>parentHandleNode. steps
         [with_handle parentHandleNode (\<lambda>parentHandle'. with_in_sensitive (\<lambda>inSensitive'.
             prepare (\<lambda>sys. Tss2_Sys_Create_Prepare sys parentHandle' inSensitive' inPublic outsideInfo creationPCR))),
          init_sessions shandle1 shandle2 shandle3,
          session_value_for 0 parentHandleNode,
          session_value_for 1 None,
          session_value_for 2 None,
          gen_auths parentHandleNode None None (\<lambda>auths. steps
           [set_auths auths,
            send])])])"

definition Esys_Create_Finish where
  "Esys_Create_Finish = esys_finish (steps
       [next_out (next_out null_out),
        next_out (next_out (next_out null_out)),
        next_out (next_out (next_out (next_out null_out))),
        alloc_out (zero_TPM2B 1550),
        cleanup_outs (free_out (free_out (free_out (free_out (free_out (\<lambda>_. ())))))) (steps
          [next_out (alloc_out (zero_SUBTYPE zero_TPMT_PUBLIC)),
           next_out (next_out (alloc_out (zero_SUBTYPE zero_TPMS_CREATION_DATA))),
           next_out (next_out (next_out (alloc_out (zero_TPM2B 64)))),
           next_out (next_out (next_out (next_out (alloc_out zero_TPMT_TK_CREATION)))),
           on_fst receive,
           on_fst check_response,
           complete (ptr_out (ptr_out (ptr_out (ptr_out (ptr_out no_out))))) (\<lambda>(sys, outPrivate, outPublic,
               creationData, creationHash, creationTicket, _).
               Tss2_Sys_Create_Complete sys outPrivate outPublic creationData creationHash creationTicket),
           finished])])"

definition Esys_Create where
  "Esys_Create esysContext parentHandle shandle1 shandle2 shandle3 inSensitive inPublic outsideInfo creationPCR outPrivate
      outPublic creationData creationHash creationTicket =
     one_call (Esys_Create_Async esysContext parentHandle shandle1 shandle2 shandle3 inSensitive inPublic outsideInfo
         creationPCR) Esys_Create_Finish (outPrivate, outPublic, creationData, creationHash, creationTicket, ())"

definition Esys_CreateLoaded_Async where
  "Esys_CreateLoaded_Async esysContext parentHandle shandle1 shandle2 shandle3 inSensitive inPublic =
     esys_async esysContext (steps
       [feasible shandle1 shandle2 shandle3 1,
        store (IN_CreateLoaded inSensitive inPublic),
        adapt_for_template inPublic,
        get_node parentHandle (\<lambda>parentHandleNode. steps
         [with_handle parentHandleNode (\<lambda>parentHandle'. with_in_sensitive (\<lambda>inSensitive'.
             prepare (\<lambda>sys. Tss2_Sys_CreateLoaded_Prepare sys parentHandle' inSensitive' inPublic))),
          init_sessions shandle1 shandle2 shandle3,
          session_value_for 0 parentHandleNode,
          session_value_for 1 None,
          session_value_for 2 None,
          gen_auths parentHandleNode None None (\<lambda>auths. steps
           [set_auths auths,
            send])])])"

definition Esys_CreateLoaded_Finish where
  "Esys_CreateLoaded_Finish = esys_finish (new_object (\<lambda>a. with_local (Some (zero_TPM2B 68)) (with_local None
       (object_cleanup (keep_out (keep_out (free_out (keep_out (\<lambda>_. ()))))) (steps
         [next_out (next_out (next_out (alloc_out (zero_TPM2B 1550)))),
          next_out (alloc_local (zero_SUBTYPE zero_TPMT_PUBLIC)),
          on_fst receive,
          on_fst check_response,
          complete_handle a (hidden_out (val_out (val_out (ptr_out (hidden_out no_out)))))
            (\<lambda>(sys, h, pub, name, outPrivate, _).
               map_option (\<lambda>(r, sys, h, outPrivate, pub, name, _). (r, sys, h, pub, name, outPrivate, ()))
                 (Tss2_Sys_CreateLoaded_Complete sys h outPrivate pub name)),
          (\<lambda>(ctx, h, loutPublic, name, outs).
             case (loutPublic, name) of
               (Some p, Some nm) \<Rightarrow> on_fst (steps
                 [set_node (Some a) (set_key_pub p), check_name loutPublic name, set_node (Some a) (set_name nm), userAuth_object a])
                 (ctx, h, loutPublic, name, outs)
             | _ \<Rightarrow> None),
          (\<lambda>(ctx, h, loutPublic, name, outPrivate, outPublic, _).
             Some (TSS2_RC_SUCCESS, ctx, h, loutPublic, name, outPrivate, give_out outPublic loutPublic, ())),
          finished])))))"

definition Esys_CreateLoaded where
  "Esys_CreateLoaded esysContext parentHandle shandle1 shandle2 shandle3 inSensitive inPublic objectHandle outPrivate
      outPublic =
     one_call (Esys_CreateLoaded_Async esysContext parentHandle shandle1 shandle2 shandle3 inSensitive inPublic)
         Esys_CreateLoaded_Finish (objectHandle, outPrivate, outPublic, ())"

definition Esys_CreatePrimary_Async where
  "Esys_CreatePrimary_Async esysContext primaryHandle shandle1 shandle2 shandle3 inSensitive inPublic outsideInfo creationPCR =
     esys_async esysContext (steps
       [feasible shandle1 shandle2 shandle3 1,
        store (IN_CreatePrimary inSensitive),
        adapt_for_public inPublic,
        get_node primaryHandle (\<lambda>primaryHandleNode. steps
         [with_handle primaryHandleNode (\<lambda>primaryHandle'. with_in_sensitive (\<lambda>inSensitive'.
             prepare (\<lambda>sys. Tss2_Sys_CreatePrimary_Prepare sys primaryHandle' inSensitive' inPublic outsideInfo
             creationPCR))),
          init_sessions shandle1 shandle2 shandle3,
          session_value_for 0 primaryHandleNode,
          session_value_for 1 None,
          session_value_for 2 None,
          gen_auths primaryHandleNode None None (\<lambda>auths. steps
           [set_auths auths,
            send])])])"

definition Esys_CreatePrimary_Finish where
  "Esys_CreatePrimary_Finish = esys_finish (steps
       [next_out (next_out (next_out null_out)),
        next_out (next_out (next_out (next_out null_out))),
        new_object (\<lambda>a. with_local (Some (zero_TPM2B 68)) (with_local None
          (object_cleanup (keep_out (keep_out (keep_out (free_out (free_out (free_out (\<lambda>_. ()))))))) (steps
            [next_out (alloc_local (zero_SUBTYPE zero_TPMT_PUBLIC)),
             next_out (next_out (next_out (next_out (alloc_out (zero_SUBTYPE zero_TPMS_CREATION_DATA))))),
             next_out (next_out (next_out (next_out (next_out (alloc_out (zero_TPM2B 64)))))),
             next_out (next_out (next_out (next_out (next_out (next_out (alloc_out zero_TPMT_TK_CREATION)))))),
             on_fst receive,
             on_fst check_response,
             complete_handle a (hidden_out (val_out (val_out (hidden_out (ptr_out (ptr_out (ptr_out no_out)))))))
               (\<lambda>(sys, h, pub, name, data', hash', ticket, _).
                  map_option (\<lambda>(r, sys, h, pub, data', hash', ticket, name, _). (r, sys, h, pub, name, data', hash', ticket, ()))
                    (Tss2_Sys_CreatePrimary_Complete sys h pub data' hash' ticket name)),
             (\<lambda>(ctx, h, loutPublic, name, outs).
                case (loutPublic, name) of
                  (Some p, Some nm) \<Rightarrow> on_fst (steps
                    [check_name loutPublic name, userAuth_object a, set_node (Some a) (set_name nm), set_node (Some a) (set_key_pub p)])
                    (ctx, h, loutPublic, name, outs)
                | _ \<Rightarrow> None),
             (\<lambda>(ctx, h, loutPublic, name, outPublic, outs).
                Some (TSS2_RC_SUCCESS, ctx, h, loutPublic, name, give_out outPublic loutPublic, outs)),
             finished]))))])"

definition Esys_CreatePrimary where
  "Esys_CreatePrimary esysContext primaryHandle shandle1 shandle2 shandle3 inSensitive inPublic outsideInfo creationPCR
      objectHandle outPublic creationData creationHash creationTicket =
     one_call (Esys_CreatePrimary_Async esysContext primaryHandle shandle1 shandle2 shandle3 inSensitive inPublic outsideInfo
         creationPCR) Esys_CreatePrimary_Finish (objectHandle, outPublic, creationData, creationHash, creationTicket, ())"

definition Esys_Decapsulate_Async where
  "Esys_Decapsulate_Async esysContext keyHandle shandle1 shandle2 shandle3 cipherText label =
     esys_async esysContext (steps
       [feasible shandle1 shandle2 shandle3 0,
        get_node keyHandle (\<lambda>keyHandleNode. steps
         [with_handle keyHandleNode (\<lambda>keyHandle'. prepare (\<lambda>sys.
             Tss2_Sys_Decapsulate_Prepare sys keyHandle' cipherText label)),
          init_sessions shandle1 shandle2 shandle3,
          session_value_for 0 None,
          session_value_for 1 None,
          session_value_for 2 None,
          gen_auths keyHandleNode None None (\<lambda>auths. steps
           [set_auths auths,
            send])])])"

definition Esys_Decapsulate_Finish where
  "Esys_Decapsulate_Finish = esys_finish (steps
       [alloc_out (zero_TPM2B 64),
        cleanup_outs (free_out (\<lambda>_. ())) (steps
          [on_fst receive,
           on_fst check_response,
           complete (ptr_out no_out) (\<lambda>(sys, outSymSeed, _). Tss2_Sys_Decapsulate_Complete sys outSymSeed),
           finished])])"

definition Esys_Decapsulate where
  "Esys_Decapsulate esysContext keyHandle shandle1 shandle2 shandle3 cipherText label outSymSeed =
     one_call (Esys_Decapsulate_Async esysContext keyHandle shandle1 shandle2 shandle3 cipherText label)
         Esys_Decapsulate_Finish (outSymSeed, ())"

definition Esys_DictionaryAttackLockReset_Async where
  "Esys_DictionaryAttackLockReset_Async esysContext lockHandle shandle1 shandle2 shandle3 =
     esys_async esysContext (steps
       [feasible shandle1 shandle2 shandle3 1,
        get_node lockHandle (\<lambda>lockHandleNode. steps
         [with_handle lockHandleNode (\<lambda>lockHandle'. prepare (\<lambda>sys.
             Tss2_Sys_DictionaryAttackLockReset_Prepare sys lockHandle')),
          init_sessions shandle1 shandle2 shandle3,
          session_value_for 0 lockHandleNode,
          session_value_for 1 None,
          session_value_for 2 None,
          gen_auths lockHandleNode None None (\<lambda>auths. steps
           [set_auths auths,
            send])])])"

definition Esys_DictionaryAttackLockReset_Finish where
  "Esys_DictionaryAttackLockReset_Finish = esys_finish (steps
       [on_fst receive,
        on_fst check_response,
        complete no_out (\<lambda>(sys, _). Tss2_Sys_DictionaryAttackLockReset_Complete sys),
        finished])"

definition Esys_DictionaryAttackLockReset where
  "Esys_DictionaryAttackLockReset esysContext lockHandle shandle1 shandle2 shandle3 =
     one_call (Esys_DictionaryAttackLockReset_Async esysContext lockHandle shandle1 shandle2 shandle3)
         Esys_DictionaryAttackLockReset_Finish ()"

definition Esys_DictionaryAttackParameters_Async where
  "Esys_DictionaryAttackParameters_Async esysContext lockHandle shandle1 shandle2 shandle3 newMaxTries newRecoveryTime
      lockoutRecovery =
     esys_async esysContext (steps
       [feasible shandle1 shandle2 shandle3 1,
        get_node lockHandle (\<lambda>lockHandleNode. steps
         [with_handle lockHandleNode (\<lambda>lockHandle'. prepare (\<lambda>sys.
             Tss2_Sys_DictionaryAttackParameters_Prepare sys lockHandle' newMaxTries newRecoveryTime lockoutRecovery)),
          init_sessions shandle1 shandle2 shandle3,
          session_value_for 0 lockHandleNode,
          session_value_for 1 None,
          session_value_for 2 None,
          gen_auths lockHandleNode None None (\<lambda>auths. steps
           [set_auths auths,
            send])])])"

definition Esys_DictionaryAttackParameters_Finish where
  "Esys_DictionaryAttackParameters_Finish = esys_finish (steps
       [on_fst receive,
        on_fst check_response,
        complete no_out (\<lambda>(sys, _). Tss2_Sys_DictionaryAttackParameters_Complete sys),
        finished])"

definition Esys_DictionaryAttackParameters where
  "Esys_DictionaryAttackParameters esysContext lockHandle shandle1 shandle2 shandle3 newMaxTries newRecoveryTime
      lockoutRecovery =
     one_call (Esys_DictionaryAttackParameters_Async esysContext lockHandle shandle1 shandle2 shandle3 newMaxTries
         newRecoveryTime lockoutRecovery) Esys_DictionaryAttackParameters_Finish ()"

end
