(* ===== verification/Esys_Commands_2.thy ===== *)
theory Esys_Commands_2
  imports Esys_Commands_1
begin

text \<open>
  The command functions of \<open>src/tss2-esys/api\<close> from \<open>Duplicate\<close> to \<open>GetTime\<close>.
\<close>

section \<open>Commands\<close>

definition Esys_Duplicate_Async where
  "Esys_Duplicate_Async esysContext objectHandle newParentHandle shandle1 shandle2 shandle3 encryptionKeyIn symmetricAlg =
     esys_async esysContext (steps
       [feasible shandle1 shandle2 shandle3 1,
        get_node objectHandle (\<lambda>objectHandleNode. steps
         [get_node newParentHandle (\<lambda>newParentHandleNode. steps
           [with_handle objectHandleNode (\<lambda>objectHandle'. with_handle newParentHandleNode (\<lambda>newParentHandle'.
               prepare (\<lambda>sys. Tss2_Sys_Duplicate_Prepare sys objectHandle' newParentHandle' encryptionKeyIn
               symmetricAlg))),
            init_sessions shandle1 shandle2 shandle3,
            session_value_for 0 objectHandleNode,
            session_value_for 1 None,
            session_value_for 2 None,
            gen_auths objectHandleNode newParentHandleNode None (\<lambda>auths. steps
             [set_auths auths,
              send])])])])"

definition Esys_Duplicate_Finish where
  "Esys_Duplicate_Finish = esys_finish (steps
       [next_out (next_out null_out),
        alloc_out (zero_TPM2B 64),
        cleanup_outs (free_out (free_out (free_out (\<lambda>_. ())))) (steps
          [next_out (alloc_out (zero_TPM2B 1550)),
           next_out (next_out (alloc_out (zero_TPM2B 1568))),
           on_fst receive,
           on_fst check_response,
           complete (ptr_out (ptr_out (ptr_out no_out))) (\<lambda>(sys, encryptionKeyOut, duplicate, outSymSeed, _).
               Tss2_Sys_Duplicate_Complete sys encryptionKeyOut duplicate outSymSeed),
           finished])])"

definition Esys_Duplicate where
  "Esys_Duplicate esysContext objectHandle newParentHandle shandle1 shandle2 shandle3 encryptionKeyIn symmetricAlg
      encryptionKeyOut duplicate outSymSeed =
     one_call (Esys_Duplicate_Async esysContext objectHandle newParentHandle shandle1 shandle2 shandle3 encryptionKeyIn
         symmetricAlg) Esys_Duplicate_Finish (encryptionKeyOut, duplicate, outSymSeed, ())"

definition Esys_EC_Ephemeral_Async where
  "Esys_EC_Ephemeral_Async esysContext shandle1 shandle2 shandle3 curveID =
     esys_async esysContext (steps
       [feasible shandle1 shandle2 shandle3 0,
        prepare (\<lambda>sys. Tss2_Sys_EC_Ephemeral_Prepare sys curveID),
        init_sessions shandle1 shandle2 shandle3,
        session_value_for 0 None,
        session_value_for 1 None,
        session_value_for 2 None,
        gen_auths None None None (\<lambda>auths. steps
         [set_auths auths,
          send])])"

definition Esys_EC_Ephemeral_Finish where
  "Esys_EC_Ephemeral_Finish = esys_finish (steps
       [alloc_out (zero_SUBTYPE zero_TPMS_ECC_POINT),
        cleanup_outs (free_out (keep_out (\<lambda>_. ()))) (steps
          [on_fst receive,
           on_fst check_response,
           complete (ptr_out (val_out no_out)) (\<lambda>(sys, Q, counter, _). Tss2_Sys_EC_Ephemeral_Complete sys Q counter),
           finished])])"

definition Esys_EC_Ephemeral where
  "Esys_EC_Ephemeral esysContext shandle1 shandle2 shandle3 curveID Q counter =
     one_call (Esys_EC_Ephemeral_Async esysContext shandle1 shandle2 shandle3 curveID) Esys_EC_Ephemeral_Finish (Q, counter,
         ())"

definition Esys_ECC_Decrypt_Async where
  "Esys_ECC_Decrypt_Async esysContext keyHandle shandle1 shandle2 shandle3 c1 c2 c3 inScheme =
     esys_async esysContext (steps
       [feasible shandle1 shandle2 shandle3 1,
        get_node keyHandle (\<lambda>keyHandleNode. steps
         [with_handle keyHandleNode (\<lambda>keyHandle'. prepare (\<lambda>sys.
             Tss2_Sys_ECC_Decrypt_Prepare sys keyHandle' c1 c2 c3 inScheme)),
          init_sessions shandle1 shandle2 shandle3,
          session_value_for 0 keyHandleNode,
          session_value_for 1 None,
          session_value_for 2 None,
          gen_auths keyHandleNode None None (\<lambda>auths. steps
           [set_auths auths,
            send])])])"

definition Esys_ECC_Decrypt_Finish where
  "Esys_ECC_Decrypt_Finish = esys_finish (steps
       [alloc_out (zero_TPM2B 1024),
        cleanup_outs (free_out (\<lambda>_. ())) (steps
          [on_fst receive,
           on_fst check_response,
           complete (ptr_out no_out) (\<lambda>(sys, plainText, _). Tss2_Sys_ECC_Decrypt_Complete sys plainText),
           finished])])"

definition Esys_ECC_Decrypt where
  "Esys_ECC_Decrypt esysContext keyHandle shandle1 shandle2 shandle3 c1 c2 c3 inScheme plainText =
     one_call (Esys_ECC_Decrypt_Async esysContext keyHandle shandle1 shandle2 shandle3 c1 c2 c3 inScheme)
         Esys_ECC_Decrypt_Finish (plainText, ())"

definition Esys_ECC_Encrypt_Async where
  "Esys_ECC_Encrypt_Async esysContext keyHandle shandle1 shandle2 shandle3 plainText inScheme =
     esys_async esysContext (steps
       [feasible shandle1 shandle2 shandle3 0,
        get_node keyHandle (\<lambda>keyHandleNode. steps
         [with_handle keyHandleNode (\<lambda>keyHandle'. prepare (\<lambda>sys.
             Tss2_Sys_ECC_Encrypt_Prepare sys keyHandle' plainText inScheme)),
          init_sessions shandle1 shandle2 shandle3,
          session_value_for 0 None,
          session_value_for 1 None,
          session_value_for 2 None,
          gen_auths keyHandleNode None None (\<lambda>auths. steps
           [set_auths auths,
            send])])])"

definition Esys_ECC_Encrypt_Finish where
  "Esys_ECC_Encrypt_Finish = esys_finish (steps
       [alloc_out (zero_SUBTYPE zero_TPMS_ECC_POINT),
        next_out (alloc_out (zero_TPM2B 1024)),
        next_out (next_out (alloc_out (zero_TPM2B 64))),
        cleanup_outs (free_out (free_out (free_out (\<lambda>_. ())))) (steps
          [on_fst receive,
           on_fst check_response,
           complete (ptr_out (ptr_out (ptr_out no_out))) (\<lambda>(sys, c1, c2, c3, _).
               Tss2_Sys_ECC_Encrypt_Complete sys c1 c2 c3),
           finished])])"

definition Esys_ECC_Encrypt where
  "Esys_ECC_Encrypt esysContext keyHandle shandle1 shandle2 shandle3 plainText inScheme c1 c2 c3 =
     one_call (Esys_ECC_Encrypt_Async esysContext keyHandle shandle1 shandle2 shandle3 plainText inScheme)
         Esys_ECC_Encrypt_Finish (c1, c2, c3, ())"

definition Esys_ECC_Parameters_Async where
  "Esys_ECC_Parameters_Async esysContext shandle1 shandle2 shandle3 curveID =
     esys_async esysContext (steps
       [feasible shandle1 shandle2 shandle3 0,
        prepare (\<lambda>sys. Tss2_Sys_ECC_Parameters_Prepare sys curveID),
        init_sessions shandle1 shandle2 shandle3,
        session_value_for 0 None,
        session_value_for 1 None,
        session_value_for 2 None,
        gen_auths None None None (\<lambda>auths. steps
         [set_auths auths,
          send])])"

definition Esys_ECC_Parameters_Finish where
  "Esys_ECC_Parameters_Finish = esys_finish (steps
       [alloc_out zero_TPMS_ALGORITHM_DETAIL_ECC,
        cleanup_outs (free_out (\<lambda>_. ())) (steps
          [on_fst receive,
           on_fst check_response,
           complete (ptr_out no_out) (\<lambda>(sys, parameters, _). Tss2_Sys_ECC_Parameters_Complete sys parameters),
           finished])])"

definition Esys_ECC_Parameters where
  "Esys_ECC_Parameters esysContext shandle1 shandle2 shandle3 curveID parameters =
     one_call (Esys_ECC_Parameters_Async esysContext shandle1 shandle2 shandle3 curveID) Esys_ECC_Parameters_Finish
         (parameters, ())"

definition Esys_ECDH_KeyGen_Async where
  "Esys_ECDH_KeyGen_Async esysContext keyHandle shandle1 shandle2 shandle3 =
     esys_async esysContext (steps
       [feasible shandle1 shandle2 shandle3 0,
        get_node keyHandle (\<lambda>keyHandleNode. steps
         [with_handle keyHandleNode (\<lambda>keyHandle'. prepare (\<lambda>sys. Tss2_Sys_ECDH_KeyGen_Prepare sys keyHandle')),
          init_sessions shandle1 shandle2 shandle3,
          session_value_for 0 None,
          session_value_for 1 None,
          session_value_for 2 None,
          gen_auths keyHandleNode None None (\<lambda>auths. steps
           [set_auths auths,
            send])])])"

definition Esys_ECDH_KeyGen_Finish where
  "Esys_ECDH_KeyGen_Finish = esys_finish (steps
       [alloc_out (zero_SUBTYPE zero_TPMS_ECC_POINT),
        cleanup_outs (free_out (free_out (\<lambda>_. ()))) (steps
          [next_out (alloc_out (zero_SUBTYPE zero_TPMS_ECC_POINT)),
           on_fst receive,
           on_fst check_response,
           complete (ptr_out (ptr_out no_out)) (\<lambda>(sys, zPoint, pubPoint, _).
               Tss2_Sys_ECDH_KeyGen_Complete sys zPoint pubPoint),
           finished])])"

definition Esys_ECDH_KeyGen where
  "Esys_ECDH_KeyGen esysContext keyHandle shandle1 shandle2 shandle3 zPoint pubPoint =
     one_call (Esys_ECDH_KeyGen_Async esysContext keyHandle shandle1 shandle2 shandle3) Esys_ECDH_KeyGen_Finish (zPoint,
         pubPoint, ())"

definition Esys_ECDH_ZGen_Async where
  "Esys_ECDH_ZGen_Async esysContext keyHandle shandle1 shandle2 shandle3 inPoint =
     esys_async esysContext (steps
       [feasible shandle1 shandle2 shandle3 1,
        get_node keyHandle (\<lambda>keyHandleNode. steps
         [with_handle keyHandleNode (\<lambda>keyHandle'. prepare (\<lambda>sys.
             Tss2_Sys_ECDH_ZGen_Prepare sys keyHandle' inPoint)),
          init_sessions shandle1 shandle2 shandle3,
          session_value_for 0 keyHandleNode,
          session_value_for 1 None,
          session_value_for 2 None,
          gen_auths keyHandleNode None None (\<lambda>auths. steps
           [set_auths auths,
            send])])])"

definition Esys_ECDH_ZGen_Finish where
  "Esys_ECDH_ZGen_Finish = esys_finish (steps
       [alloc_out (zero_SUBTYPE zero_TPMS_ECC_POINT),
        cleanup_outs (free_out (\<lambda>_. ())) (steps
          [on_fst receive,
           on_fst check_response,
           complete (ptr_out no_out) (\<lambda>(sys, outPoint, _). Tss2_Sys_ECDH_ZGen_Complete sys outPoint),
           finished])])"

definition Esys_ECDH_ZGen where
  "Esys_ECDH_ZGen esysContext keyHandle shandle1 shandle2 shandle3 inPoint outPoint =
     one_call (Esys_ECDH_ZGen_Async esysContext keyHandle shandle1 shandle2 shandle3 inPoint) Esys_ECDH_ZGen_Finish
         (outPoint, ())"

definition Esys_Encapsulate_Async where
  "Esys_Encapsulate_Async esysContext keyHandle shandle1 shandle2 shandle3 label =
     esys_async esysContext (steps
       [feasible shandle1 shandle2 shandle3 0,
        get_node keyHandle (\<lambda>keyHandleNode. steps
         [with_handle keyHandleNode (\<lambda>keyHandle'. prepare (\<lambda>sys.
             Tss2_Sys_Encapsulate_Prepare sys keyHandle' label)),
          init_sessions shandle1 shandle2 shandle3,
          session_value_for 0 None,
          session_value_for 1 None,
          session_value_for 2 None,
          gen_auths keyHandleNode None None (\<lambda>auths. steps
           [set_auths auths,
            send])])])"

definition Esys_Encapsulate_Finish where
  "Esys_Encapsulate_Finish = esys_finish (steps
       [alloc_out (zero_TPM2B 64),
        cleanup_outs (free_out (free_out (\<lambda>_. ()))) (steps
          [next_out (alloc_out (zero_TPM2B 1568)),
           on_fst receive,
           on_fst check_response,
           complete (ptr_out (ptr_out no_out)) (\<lambda>(sys, outSymSeed, cipherText, _).
               Tss2_Sys_Encapsulate_Complete sys outSymSeed cipherText),
           finished])])"

definition Esys_Encapsulate where
  "Esys_Encapsulate esysContext keyHandle shandle1 shandle2 shandle3 label outSymSeed cipherText =
     one_call (Esys_Encapsulate_Async esysContext keyHandle shandle1 shandle2 shandle3 label) Esys_Encapsulate_Finish
         (outSymSeed, cipherText, ())"

definition Esys_EncryptDecrypt_Async where
  "Esys_EncryptDecrypt_Async esysContext keyHandle shandle1 shandle2 shandle3 decrypt mode ivIn inData =
     esys_async esysContext (steps
       [feasible shandle1 shandle2 shandle3 1,
        get_node keyHandle (\<lambda>keyHandleNode. steps
         [with_handle keyHandleNode (\<lambda>keyHandle'. prepare (\<lambda>sys.
             Tss2_Sys_EncryptDecrypt_Prepare sys keyHandle' decrypt mode ivIn inData)),
          init_sessions shandle1 shandle2 shandle3,
          session_value_for 0 keyHandleNode,
          session_value_for 1 None,
          session_value_for 2 None,
          gen_auths keyHandleNode None None (\<lambda>auths. steps
           [set_auths auths,
            send])])])"

definition Esys_EncryptDecrypt_Finish where
  "Esys_EncryptDecrypt_Finish = esys_finish (steps
       [alloc_out (zero_TPM2B 1024),
        cleanup_outs (free_out (free_out (\<lambda>_. ()))) (steps
          [next_out (alloc_out (zero_TPM2B 16)),
           on_fst receive,
           on_fst check_response,
           complete (ptr_out (ptr_out no_out)) (\<lambda>(sys, outData, ivOut, _).
               Tss2_Sys_EncryptDecrypt_Complete sys outData ivOut),
           finished])])"

definition Esys_EncryptDecrypt where
  "Esys_EncryptDecrypt esysContext keyHandle shandle1 shandle2 shandle3 decrypt mode ivIn inData outData ivOut =
     one_call (Esys_EncryptDecrypt_Async esysContext keyHandle shandle1 shandle2 shandle3 decrypt mode ivIn inData)
         Esys_EncryptDecrypt_Finish (outData, ivOut, ())"

definition Esys_EncryptDecrypt2_Async where
  "Esys_EncryptDecrypt2_Async esysContext keyHandle shandle1 shandle2 shandle3 inData decrypt mode ivIn =
     esys_async esysContext (steps
       [feasible shandle1 shandle2 shandle3 1,
        get_node keyHandle (\<lambda>keyHandleNode. steps
         [with_handle keyHandleNode (\<lambda>keyHandle'. prepare (\<lambda>sys.
             Tss2_Sys_EncryptDecrypt2_Prepare sys keyHandle' inData decrypt mode ivIn)),
          init_sessions shandle1 shandle2 shandle3,
          session_value_for 0 keyHandleNode,
          session_value_for 1 None,
          session_value_for 2 None,
          gen_auths keyHandleNode None None (\<lambda>auths. steps
           [set_auths auths,
            send])])])"

definition Esys_EncryptDecrypt2_Finish where
  "Esys_EncryptDecrypt2_Finish = esys_finish (steps
       [alloc_out (zero_TPM2B 1024),
        cleanup_outs (free_out (free_out (\<lambda>_. ()))) (steps
          [next_out (alloc_out (zero_TPM2B 16)),
           on_fst receive,
           on_fst check_response,
           complete (ptr_out (ptr_out no_out)) (\<lambda>(sys, outData, ivOut, _).
               Tss2_Sys_EncryptDecrypt2_Complete sys outData ivOut),
           finished])])"

definition Esys_EncryptDecrypt2 where
  "Esys_EncryptDecrypt2 esysContext keyHandle shandle1 shandle2 shandle3 inData decrypt mode ivIn outData ivOut =
     one_call (Esys_EncryptDecrypt2_Async esysContext keyHandle shandle1 shandle2 shandle3 inData decrypt mode ivIn)
         Esys_EncryptDecrypt2_Finish (outData, ivOut, ())"

definition Esys_EventSequenceComplete_Async where
  "Esys_EventSequenceComplete_Async esysContext pcrHandle sequenceHandle shandle1 shandle2 shandle3 buffer =
     esys_async esysContext (steps
       [feasible shandle1 shandle2 shandle3 1,
        get_node pcrHandle (\<lambda>pcrHandleNode. steps
         [get_node sequenceHandle (\<lambda>sequenceHandleNode. steps
           [with_handle pcrHandleNode (\<lambda>pcrHandle'. with_handle sequenceHandleNode (\<lambda>sequenceHandle'.
               prepare (\<lambda>sys. Tss2_Sys_EventSequenceComplete_Prepare sys pcrHandle' sequenceHandle' buffer))),
            init_sessions shandle1 shandle2 shandle3,
            session_value_for 0 pcrHandleNode,
            session_value_for 1 sequenceHandleNode,
            session_value_for 2 None,
            gen_auths pcrHandleNode sequenceHandleNode None (\<lambda>auths. steps
             [set_auths auths,
              send])])])])"

definition Esys_EventSequenceComplete_Finish where
  "Esys_EventSequenceComplete_Finish = esys_finish (steps
       [alloc_out zero_TPML_DIGEST_VALUES,
        cleanup_outs (free_out (\<lambda>_. ())) (steps
          [on_fst receive,
           on_fst check_response,
           complete (ptr_out no_out) (\<lambda>(sys, results, _). Tss2_Sys_EventSequenceComplete_Complete sys results),
           finished])])"

definition Esys_EventSequenceComplete where
  "Esys_EventSequenceComplete esysContext pcrHandle sequenceHandle shandle1 shandle2 shandle3 buffer results =
     one_call (Esys_EventSequenceComplete_Async esysContext pcrHandle sequenceHandle shandle1 shandle2 shandle3 buffer)
         Esys_EventSequenceComplete_Finish (results, ())"

definition Esys_EvictControl_Async where
  "Esys_EvictControl_Async esysContext auth objectHandle shandle1 shandle2 shandle3 persistentHandle =
     esys_async esysContext (steps
       [feasible shandle1 shandle2 shandle3 1,
        store (IN_EvictControl objectHandle persistentHandle),
        get_node auth (\<lambda>authNode. steps
         [get_node objectHandle (\<lambda>objectHandleNode. steps
           [persistent_handle_of objectHandleNode persistentHandle (\<lambda>persistentHandle. steps
             [with_handle authNode (\<lambda>auth'. with_handle objectHandleNode (\<lambda>objectHandle'.
                 prepare (\<lambda>sys. Tss2_Sys_EvictControl_Prepare sys auth' objectHandle' persistentHandle))),
              init_sessions shandle1 shandle2 shandle3,
              session_value_for 0 authNode,
              session_value_for 1 None,
              session_value_for 2 None,
              gen_auths authNode objectHandleNode None (\<lambda>auths. steps
               [set_auths auths,
                send])])])])])"

text \<open>
  The parts of \<open>Esys_EvictControl_Finish\<close>: the label \<open>error_cleanup\<close>, and the change of the objects; a persistent
  object is closed, another one gets a persistent copy.
\<close>

definition evict_cleanup :: "(('t, 'c) esys \<times> ESYS_TR option \<times> unit) \<Rightarrow> (('t, 'c) esys \<times> ESYS_TR option \<times> unit) option" where
  "evict_cleanup = (\<lambda>(ctx, h, outs). if h = Some ESYS_TR_NONE then Some (ctx, h, outs) else close_out (ctx, h, outs))"

definition evict_object :: "ESYS_TR \<Rightarrow> UINT32 \<Rightarrow> RSRC_NODE_T \<Rightarrow> (('t, 'c) esys \<times> ESYS_TR option \<times> unit) step" where
  "evict_object objectHandle persistentHandle n = (\<lambda>(ctx, newObjectHandle, outs).
     if ucast (iesys_get_handle_type (rsrc_handle (node_rsrc n))) = TPM2_HT_PERSISTENT
     then (case Esys_TR_Close (Some ctx) objectHandle of
             Some (r, Some ctx, _) \<Rightarrow> Some (r, ctx, Some ESYS_TR_NONE, outs)
           | _ \<Rightarrow> None)
     else new_object (\<lambda>a. on_fst (set_node (Some a) (\<lambda>m. set_handle persistentHandle (m\<lparr>node_rsrc := node_rsrc n\<rparr>))))
            (ctx, newObjectHandle, outs))"

definition Esys_EvictControl_Finish where
  "Esys_EvictControl_Finish = esys_finish (\<lambda>(ctx, newObjectHandle, _).
     case newObjectHandle of
       None \<Rightarrow> Some (TSS2_ESYS_RC_BAD_REFERENCE, ctx, newObjectHandle, ())
     | Some _ \<Rightarrow> steps
         [error_cleanup evict_cleanup
            (steps [on_fst receive, on_fst check_response, on_fst (complete0 (\<lambda>(sys, _). Tss2_Sys_EvictControl_Complete sys))]),
          (\<lambda>(ctx, outs).
             case esys_in ctx of
               IN_EvictControl objectHandle persistentHandle \<Rightarrow>
                 call_on_error (\<lambda>r s. map_option (Pair r) (evict_cleanup s)) (lookup objectHandle)
                   (\<lambda>objectHandleNode. with_object objectHandleNode (evict_object objectHandle persistentHandle)) (ctx, outs)
             | _ \<Rightarrow> None),
          finished] (ctx, Some ESYS_TR_NONE, ()))"

definition Esys_EvictControl where
  "Esys_EvictControl esysContext auth objectHandle shandle1 shandle2 shandle3 persistentHandle newObjectHandle =
     one_call (Esys_EvictControl_Async esysContext auth objectHandle shandle1 shandle2 shandle3 persistentHandle)
         Esys_EvictControl_Finish (newObjectHandle, ())"

definition Esys_FieldUpgradeData_Async where
  "Esys_FieldUpgradeData_Async esysContext shandle1 shandle2 shandle3 fuData =
     esys_async esysContext (steps
       [feasible shandle1 shandle2 shandle3 0,
        prepare (\<lambda>sys. Tss2_Sys_FieldUpgradeData_Prepare sys fuData),
        init_sessions shandle1 shandle2 shandle3,
        session_value_for 0 None,
        session_value_for 1 None,
        session_value_for 2 None,
        gen_auths None None None (\<lambda>auths. steps
         [set_auths auths,
          send])])"

definition Esys_FieldUpgradeData_Finish where
  "Esys_FieldUpgradeData_Finish = esys_finish (steps
       [alloc_out zero_TPMT_HA,
        cleanup_outs (free_out (free_out (\<lambda>_. ()))) (steps
          [next_out (alloc_out zero_TPMT_HA),
           on_fst receive,
           on_fst check_response,
           complete (ptr_out (ptr_out no_out)) (\<lambda>(sys, nextDigest, firstDigest, _).
               Tss2_Sys_FieldUpgradeData_Complete sys nextDigest firstDigest),
           finished])])"

definition Esys_FieldUpgradeData where
  "Esys_FieldUpgradeData esysContext shandle1 shandle2 shandle3 fuData nextDigest firstDigest =
     one_call (Esys_FieldUpgradeData_Async esysContext shandle1 shandle2 shandle3 fuData) Esys_FieldUpgradeData_Finish
         (nextDigest, firstDigest, ())"

definition Esys_FieldUpgradeStart_Async where
  "Esys_FieldUpgradeStart_Async esysContext authorization keyHandle shandle1 shandle2 shandle3 fuDigest manifestSignature =
     esys_async esysContext (steps
       [feasible shandle1 shandle2 shandle3 1,
        get_node authorization (\<lambda>authorizationNode. steps
         [get_node keyHandle (\<lambda>keyHandleNode. steps
           [with_handle authorizationNode (\<lambda>authorization'. with_handle keyHandleNode (\<lambda>keyHandle'.
               prepare (\<lambda>sys. Tss2_Sys_FieldUpgradeStart_Prepare sys authorization' keyHandle' fuDigest
               manifestSignature))),
            init_sessions shandle1 shandle2 shandle3,
            session_value_for 0 authorizationNode,
            session_value_for 1 None,
            session_value_for 2 None,
            gen_auths authorizationNode keyHandleNode None (\<lambda>auths. steps
             [set_auths auths,
              send])])])])"

definition Esys_FieldUpgradeStart_Finish where
  "Esys_FieldUpgradeStart_Finish = esys_finish (steps
       [on_fst receive,
        on_fst check_response,
        complete no_out (\<lambda>(sys, _). Tss2_Sys_FieldUpgradeStart_Complete sys),
        finished])"

definition Esys_FieldUpgradeStart where
  "Esys_FieldUpgradeStart esysContext authorization keyHandle shandle1 shandle2 shandle3 fuDigest manifestSignature =
     one_call (Esys_FieldUpgradeStart_Async esysContext authorization keyHandle shandle1 shandle2 shandle3 fuDigest
         manifestSignature) Esys_FieldUpgradeStart_Finish ()"

definition Esys_FirmwareRead_Async where
  "Esys_FirmwareRead_Async esysContext shandle1 shandle2 shandle3 sequenceNumber =
     esys_async esysContext (steps
       [feasible shandle1 shandle2 shandle3 0,
        prepare (\<lambda>sys. Tss2_Sys_FirmwareRead_Prepare sys sequenceNumber),
        init_sessions shandle1 shandle2 shandle3,
        session_value_for 0 None,
        session_value_for 1 None,
        session_value_for 2 None,
        gen_auths None None None (\<lambda>auths. steps
         [set_auths auths,
          send])])"

definition Esys_FirmwareRead_Finish where
  "Esys_FirmwareRead_Finish = esys_finish (steps
       [alloc_out (zero_TPM2B 1024),
        cleanup_outs (free_out (\<lambda>_. ())) (steps
          [on_fst receive,
           on_fst check_response,
           complete (ptr_out no_out) (\<lambda>(sys, fuData, _). Tss2_Sys_FirmwareRead_Complete sys fuData),
           finished])])"

definition Esys_FirmwareRead where
  "Esys_FirmwareRead esysContext shandle1 shandle2 shandle3 sequenceNumber fuData =
     one_call (Esys_FirmwareRead_Async esysContext shandle1 shandle2 shandle3 sequenceNumber) Esys_FirmwareRead_Finish
         (fuData, ())"

definition Esys_FlushContext_Async where
  "Esys_FlushContext_Async esysContext flushHandle =
     esys_async esysContext (steps
       [store (IN_FlushContext flushHandle),
        get_node flushHandle (\<lambda>flushHandleNode. steps
         [with_handle flushHandleNode (\<lambda>flushHandle'. prepare (\<lambda>sys.
             Tss2_Sys_FlushContext_Prepare sys flushHandle')),
          send])])"

definition Esys_FlushContext_Finish where
  "Esys_FlushContext_Finish = esys_finish (on_fst (steps
       [receive,
        complete0 (\<lambda>(sys, _). Tss2_Sys_FlushContext_Complete sys),
        read_val (\<lambda>ctx. in_flush (esys_in ctx)) (\<lambda>flushHandle. get_node flushHandle (\<lambda>flushHandleNode. steps
          [set_node flushHandleNode (\<lambda>n. n\<lparr>node_reference_count := 0\<rparr>),
           close_in in_flush (\<lambda>h _. IN_FlushContext h),
           set_state ESYS_STATE_INIT]))]))"

definition Esys_FlushContext where
  "Esys_FlushContext esysContext flushHandle =
     one_call (Esys_FlushContext_Async esysContext flushHandle) Esys_FlushContext_Finish ()"

definition Esys_GetCapability_Async where
  "Esys_GetCapability_Async esysContext shandle1 shandle2 shandle3 capability property propertyCount =
     esys_async esysContext (steps
       [feasible shandle1 shandle2 shandle3 0,
        prepare (\<lambda>sys. Tss2_Sys_GetCapability_Prepare sys capability property propertyCount),
        init_sessions shandle1 shandle2 shandle3,
        session_value_for 0 None,
        session_value_for 1 None,
        session_value_for 2 None,
        gen_auths None None None (\<lambda>auths. steps
         [set_auths auths,
          send])])"

definition Esys_GetCapability_Finish where
  "Esys_GetCapability_Finish = esys_finish (steps
       [next_out (alloc_out zero_TPMS_CAPABILITY_DATA),
        cleanup_outs (keep_out (free_out (\<lambda>_. ()))) (steps
          [on_fst receive,
           on_fst check_response,
           complete (val_out (ptr_out no_out)) (\<lambda>(sys, moreData, capabilityData, _).
               Tss2_Sys_GetCapability_Complete sys moreData capabilityData),
           finished])])"

definition Esys_GetCapability where
  "Esys_GetCapability esysContext shandle1 shandle2 shandle3 capability property propertyCount moreData capabilityData =
     one_call (Esys_GetCapability_Async esysContext shandle1 shandle2 shandle3 capability property propertyCount)
         Esys_GetCapability_Finish (moreData, capabilityData, ())"

definition Esys_GetCommandAuditDigest_Async where
  "Esys_GetCommandAuditDigest_Async esysContext privacyHandle signHandle shandle1 shandle2 shandle3 qualifyingData inScheme =
     esys_async esysContext (steps
       [feasible shandle1 shandle2 shandle3 1,
        get_node privacyHandle (\<lambda>privacyHandleNode. steps
         [get_node signHandle (\<lambda>signHandleNode. steps
           [with_handle privacyHandleNode (\<lambda>privacyHandle'. with_handle signHandleNode (\<lambda>signHandle'.
               prepare (\<lambda>sys. Tss2_Sys_GetCommandAuditDigest_Prepare sys privacyHandle' signHandle' qualifyingData
               inScheme))),
            init_sessions shandle1 shandle2 shandle3,
            session_value_for 0 privacyHandleNode,
            session_value_addr 1 signHandleNode,
            session_value_for 2 None,
            gen_auths privacyHandleNode signHandleNode None (\<lambda>auths. steps
             [set_auths auths,
              send])])])])"

definition Esys_GetCommandAuditDigest_Finish where
  "Esys_GetCommandAuditDigest_Finish = esys_finish (steps
       [alloc_out (zero_TPM2B 2304),
        cleanup_outs (free_out (free_out (\<lambda>_. ()))) (steps
          [next_out (alloc_out zero_TPMT_SIGNATURE),
           on_fst receive,
           on_fst check_response,
           complete (ptr_out (ptr_out no_out)) (\<lambda>(sys, auditInfo, signature, _).
               Tss2_Sys_GetCommandAuditDigest_Complete sys auditInfo signature),
           finished])])"

definition Esys_GetCommandAuditDigest where
  "Esys_GetCommandAuditDigest esysContext privacyHandle signHandle shandle1 shandle2 shandle3 qualifyingData inScheme
      auditInfo signature =
     one_call (Esys_GetCommandAuditDigest_Async esysContext privacyHandle signHandle shandle1 shandle2 shandle3
         qualifyingData inScheme) Esys_GetCommandAuditDigest_Finish (auditInfo, signature, ())"

definition Esys_GetRandom_Async where
  "Esys_GetRandom_Async esysContext shandle1 shandle2 shandle3 bytesRequested =
     esys_async esysContext (steps
       [feasible shandle1 shandle2 shandle3 0,
        prepare (\<lambda>sys. Tss2_Sys_GetRandom_Prepare sys bytesRequested),
        init_sessions shandle1 shandle2 shandle3,
        session_value_for 0 None,
        session_value_for 1 None,
        session_value_for 2 None,
        gen_auths None None None (\<lambda>auths. steps
         [set_auths auths,
          send])])"

definition Esys_GetRandom_Finish where
  "Esys_GetRandom_Finish = esys_finish (steps
       [alloc_out (zero_TPM2B 64),
        cleanup_outs (free_out (\<lambda>_. ())) (steps
          [on_fst receive,
           on_fst check_response,
           complete (ptr_out no_out) (\<lambda>(sys, randomBytes, _). Tss2_Sys_GetRandom_Complete sys randomBytes),
           finished])])"

definition Esys_GetRandom where
  "Esys_GetRandom esysContext shandle1 shandle2 shandle3 bytesRequested randomBytes =
     one_call (Esys_GetRandom_Async esysContext shandle1 shandle2 shandle3 bytesRequested) Esys_GetRandom_Finish
         (randomBytes, ())"

definition Esys_GetSessionAuditDigest_Async where
  "Esys_GetSessionAuditDigest_Async esysContext privacyAdminHandle signHandle sessionHandle shandle1 shandle2 shandle3
      qualifyingData inScheme =
     esys_async esysContext (steps
       [feasible shandle1 shandle2 shandle3 1,
        get_node privacyAdminHandle (\<lambda>privacyAdminHandleNode. steps
         [get_node signHandle (\<lambda>signHandleNode. steps
           [get_node sessionHandle (\<lambda>sessionHandleNode. steps
             [with_handle privacyAdminHandleNode (\<lambda>privacyAdminHandle'.
                 with_handle signHandleNode (\<lambda>signHandle'. with_handle sessionHandleNode (\<lambda>sessionHandle'.
                 prepare (\<lambda>sys. Tss2_Sys_GetSessionAuditDigest_Prepare sys privacyAdminHandle' signHandle'
                 sessionHandle' qualifyingData inScheme)))),
              init_sessions shandle1 shandle2 shandle3,
              session_value_for 0 privacyAdminHandleNode,
              session_value_addr 1 signHandleNode,
              session_value_for 2 None,
              gen_auths privacyAdminHandleNode signHandleNode sessionHandleNode (\<lambda>auths. steps
               [set_auths auths,
                send])])])])])"

definition Esys_GetSessionAuditDigest_Finish where
  "Esys_GetSessionAuditDigest_Finish = esys_finish (steps
       [alloc_out (zero_TPM2B 2304),
        cleanup_outs (free_out (free_out (\<lambda>_. ()))) (steps
          [next_out (alloc_out zero_TPMT_SIGNATURE),
           on_fst receive,
           on_fst check_response,
           complete (ptr_out (ptr_out no_out)) (\<lambda>(sys, auditInfo, signature, _).
               Tss2_Sys_GetSessionAuditDigest_Complete sys auditInfo signature),
           finished])])"

definition Esys_GetSessionAuditDigest where
  "Esys_GetSessionAuditDigest esysContext privacyAdminHandle signHandle sessionHandle shandle1 shandle2 shandle3
      qualifyingData inScheme auditInfo signature =
     one_call (Esys_GetSessionAuditDigest_Async esysContext privacyAdminHandle signHandle sessionHandle shandle1 shandle2
         shandle3 qualifyingData inScheme) Esys_GetSessionAuditDigest_Finish (auditInfo, signature, ())"

definition Esys_GetTestResult_Async where
  "Esys_GetTestResult_Async esysContext shandle1 shandle2 shandle3 =
     esys_async esysContext (steps
       [feasible shandle1 shandle2 shandle3 0,
        prepare (\<lambda>sys. Tss2_Sys_GetTestResult_Prepare sys),
        init_sessions shandle1 shandle2 shandle3,
        session_value_for 0 None,
        session_value_for 1 None,
        session_value_for 2 None,
        gen_auths None None None (\<lambda>auths. steps
         [set_auths auths,
          send])])"

definition Esys_GetTestResult_Finish where
  "Esys_GetTestResult_Finish = esys_finish (steps
       [alloc_out (zero_TPM2B 1024),
        cleanup_outs (free_out (keep_out (\<lambda>_. ()))) (steps
          [on_fst receive,
           on_fst check_response,
           complete (ptr_out (val_out no_out)) (\<lambda>(sys, outData, testResult, _).
               Tss2_Sys_GetTestResult_Complete sys outData testResult),
           finished])])"

definition Esys_GetTestResult where
  "Esys_GetTestResult esysContext shandle1 shandle2 shandle3 outData testResult =
     one_call (Esys_GetTestResult_Async esysContext shandle1 shandle2 shandle3) Esys_GetTestResult_Finish (outData,
         testResult, ())"

definition Esys_GetTime_Async where
  "Esys_GetTime_Async esysContext privacyAdminHandle signHandle shandle1 shandle2 shandle3 qualifyingData inScheme =
     esys_async esysContext (steps
       [feasible shandle1 shandle2 shandle3 1,
        get_node privacyAdminHandle (\<lambda>privacyAdminHandleNode. steps
         [get_node signHandle (\<lambda>signHandleNode. steps
           [with_handle privacyAdminHandleNode (\<lambda>privacyAdminHandle'.
               with_handle signHandleNode (\<lambda>signHandle'. prepare (\<lambda>sys.
               Tss2_Sys_GetTime_Prepare sys privacyAdminHandle' signHandle' qualifyingData inScheme))),
            init_sessions shandle1 shandle2 shandle3,
            session_value_for 0 privacyAdminHandleNode,
            session_value_addr 1 signHandleNode,
            session_value_for 2 None,
            gen_auths privacyAdminHandleNode signHandleNode None (\<lambda>auths. steps
             [set_auths auths,
              send])])])])"

definition Esys_GetTime_Finish where
  "Esys_GetTime_Finish = esys_finish (steps
       [alloc_out (zero_TPM2B 2304),
        cleanup_outs (free_out (free_out (\<lambda>_. ()))) (steps
          [next_out (alloc_out zero_TPMT_SIGNATURE),
           on_fst receive,
           on_fst check_response,
           complete (ptr_out (ptr_out no_out)) (\<lambda>(sys, timeInfo, signature, _).
               Tss2_Sys_GetTime_Complete sys timeInfo signature),
           finished])])"

definition Esys_GetTime where
  "Esys_GetTime esysContext privacyAdminHandle signHandle shandle1 shandle2 shandle3 qualifyingData inScheme timeInfo
      signature =
     one_call (Esys_GetTime_Async esysContext privacyAdminHandle signHandle shandle1 shandle2 shandle3 qualifyingData
         inScheme) Esys_GetTime_Finish (timeInfo, signature, ())"

end
