(* ===== verification/Esys_Commands_3.thy ===== *)
theory Esys_Commands_3
  imports Esys_Commands_2
begin

text \<open>
  The command functions of \<open>src/tss2-esys/api\<close> from \<open>Hash\<close> to \<open>NV_ReadPublic\<close>.
\<close>

section \<open>Commands\<close>

definition Esys_Hash_Async where
  "Esys_Hash_Async esysContext shandle1 shandle2 shandle3 data hashAlg hierarchy =
     hierarchy_arg hierarchy esysContext (\<lambda>tpm_hierarchy. esys_async esysContext (steps
       [feasible shandle1 shandle2 shandle3 0,
        prepare (\<lambda>sys. Tss2_Sys_Hash_Prepare sys data hashAlg tpm_hierarchy),
        init_sessions shandle1 shandle2 shandle3,
        session_value_for 0 None,
        session_value_for 1 None,
        session_value_for 2 None,
        gen_auths None None None (\<lambda>auths. steps
         [set_auths auths,
          send])]))"

definition Esys_Hash_Finish where
  "Esys_Hash_Finish = esys_finish (steps
       [alloc_out (zero_TPM2B 64),
        cleanup_outs (free_out (free_out (\<lambda>_. ()))) (steps
          [next_out (alloc_out zero_TPMT_TK_HASHCHECK),
           on_fst receive,
           on_fst check_response,
           complete (ptr_out (ptr_out no_out)) (\<lambda>(sys, outHash, validation, _).
               Tss2_Sys_Hash_Complete sys outHash validation),
           finished])])"

definition Esys_Hash where
  "Esys_Hash esysContext shandle1 shandle2 shandle3 data hashAlg hierarchy outHash validation =
     one_call (Esys_Hash_Async esysContext shandle1 shandle2 shandle3 data hashAlg hierarchy) Esys_Hash_Finish (outHash,
         validation, ())"

definition Esys_HashSequenceStart_Async where
  "Esys_HashSequenceStart_Async esysContext shandle1 shandle2 shandle3 auth hashAlg =
     esys_async esysContext (steps
       [feasible shandle1 shandle2 shandle3 0,
        prepare (\<lambda>sys. Tss2_Sys_HashSequenceStart_Prepare sys auth hashAlg),
        init_sessions shandle1 shandle2 shandle3,
        session_value_for 0 None,
        session_value_for 1 None,
        session_value_for 2 None,
        gen_auths None None None (\<lambda>auths. steps
         [set_auths auths,
          send])])"

definition Esys_HashSequenceStart_Finish where
  "Esys_HashSequenceStart_Finish = esys_finish (new_object (\<lambda>a. object_cleanup (\<lambda>_. ()) (steps
       [on_fst receive,
        on_fst check_response,
        complete_handle a (hidden_out no_out) (\<lambda>(sys, sequenceHandle, _). Tss2_Sys_HashSequenceStart_Complete sys sequenceHandle),
        on_fst (set_node (Some a) no_name),
        finished])))"

definition Esys_HashSequenceStart where
  "Esys_HashSequenceStart esysContext shandle1 shandle2 shandle3 auth hashAlg sequenceHandle =
     one_call (Esys_HashSequenceStart_Async esysContext shandle1 shandle2 shandle3 auth hashAlg)
         Esys_HashSequenceStart_Finish (sequenceHandle, ())"

definition Esys_HierarchyChangeAuth_Async where
  "Esys_HierarchyChangeAuth_Async esysContext authHandle shandle1 shandle2 shandle3 newAuth =
     esys_async esysContext (steps
       [feasible shandle1 shandle2 shandle3 1,
        store_NV (\<lambda>i. i\<lparr>NV_nvIndex := Some authHandle, NV_authData := Some (auth_or_zero newAuth)\<rparr>),
        if Option.is_none newAuth then steps [] else strip_authData,
        strip_authData,
        get_node authHandle (\<lambda>authHandleNode. steps
         [with_handle authHandleNode (\<lambda>authHandle'. read_val in_authData (\<lambda>authData. prepare (\<lambda>sys.
             Tss2_Sys_HierarchyChangeAuth_Prepare sys authHandle' (Some authData)))),
          init_sessions shandle1 shandle2 shandle3,
          session_value_for 0 authHandleNode,
          session_value_for 1 None,
          session_value_for 2 None,
          gen_auths authHandleNode None None (\<lambda>auths. steps
           [set_auths auths,
            send])])])"

definition Esys_HierarchyChangeAuth_Finish where
  "Esys_HierarchyChangeAuth_Finish = esys_finish (on_fst (steps
       [receive,
        change_auth,
        check_response,
        complete0 (\<lambda>(sys, _). Tss2_Sys_HierarchyChangeAuth_Complete sys),
        set_state ESYS_STATE_INIT]))"

definition Esys_HierarchyChangeAuth where
  "Esys_HierarchyChangeAuth esysContext authHandle shandle1 shandle2 shandle3 newAuth =
     one_call (Esys_HierarchyChangeAuth_Async esysContext authHandle shandle1 shandle2 shandle3 newAuth)
         Esys_HierarchyChangeAuth_Finish ()"

definition Esys_HierarchyControl_Async where
  "Esys_HierarchyControl_Async esysContext authHandle shandle1 shandle2 shandle3 enable state =
     hierarchy_arg enable esysContext (\<lambda>tpm_enable. esys_async esysContext (steps
       [feasible shandle1 shandle2 shandle3 1,
        get_node authHandle (\<lambda>authHandleNode. steps
         [with_handle authHandleNode (\<lambda>authHandle'. prepare (\<lambda>sys.
             Tss2_Sys_HierarchyControl_Prepare sys authHandle' tpm_enable state)),
          init_sessions shandle1 shandle2 shandle3,
          session_value_for 0 authHandleNode,
          session_value_for 1 None,
          session_value_for 2 None,
          gen_auths authHandleNode None None (\<lambda>auths. steps
           [set_auths auths,
            send])])]))"

definition Esys_HierarchyControl_Finish where
  "Esys_HierarchyControl_Finish = esys_finish (steps
       [on_fst receive,
        on_fst check_response,
        complete no_out (\<lambda>(sys, _). Tss2_Sys_HierarchyControl_Complete sys),
        finished])"

definition Esys_HierarchyControl where
  "Esys_HierarchyControl esysContext authHandle shandle1 shandle2 shandle3 enable state =
     one_call (Esys_HierarchyControl_Async esysContext authHandle shandle1 shandle2 shandle3 enable state)
         Esys_HierarchyControl_Finish ()"

definition Esys_HMAC_Async where
  "Esys_HMAC_Async esysContext handle shandle1 shandle2 shandle3 buffer hashAlg =
     esys_async esysContext (steps
       [feasible shandle1 shandle2 shandle3 1,
        get_node handle (\<lambda>handleNode. steps
         [with_handle handleNode (\<lambda>handle'. prepare (\<lambda>sys. Tss2_Sys_HMAC_Prepare sys handle' buffer hashAlg)),
          init_sessions shandle1 shandle2 shandle3,
          session_value_for 0 handleNode,
          session_value_for 1 None,
          session_value_for 2 None,
          gen_auths handleNode None None (\<lambda>auths. steps
           [set_auths auths,
            send])])])"

definition Esys_HMAC_Finish where
  "Esys_HMAC_Finish = esys_finish (steps
       [alloc_out (zero_TPM2B 64),
        cleanup_outs (free_out (\<lambda>_. ())) (steps
          [on_fst receive,
           on_fst check_response,
           complete (ptr_out no_out) (\<lambda>(sys, outHMAC, _). Tss2_Sys_HMAC_Complete sys outHMAC),
           finished])])"

definition Esys_HMAC where
  "Esys_HMAC esysContext handle shandle1 shandle2 shandle3 buffer hashAlg outHMAC =
     one_call (Esys_HMAC_Async esysContext handle shandle1 shandle2 shandle3 buffer hashAlg) Esys_HMAC_Finish (outHMAC, ())"

definition Esys_HMAC_Start_Async where
  "Esys_HMAC_Start_Async esysContext handle shandle1 shandle2 shandle3 auth hashAlg =
     esys_async esysContext (steps
       [feasible shandle1 shandle2 shandle3 1,
        store (IN_HMAC_Start (auth_or_zero auth)),
        get_node handle (\<lambda>handleNode. steps
         [with_handle handleNode (\<lambda>handle'. prepare (\<lambda>sys.
             Tss2_Sys_HMAC_Start_Prepare sys handle' auth hashAlg)),
          init_sessions shandle1 shandle2 shandle3,
          session_value_for 0 handleNode,
          session_value_for 1 None,
          session_value_for 2 None,
          gen_auths handleNode None None (\<lambda>auths. steps
           [set_auths auths,
            send])])])"

definition Esys_HMAC_Start_Finish where
  "Esys_HMAC_Start_Finish = esys_finish (new_object (\<lambda>a. object_cleanup (\<lambda>_. ()) (steps
       [on_fst receive,
        on_fst check_response,
        complete_handle a (hidden_out no_out) (\<lambda>(sys, sequenceHandle, _). Tss2_Sys_HMAC_Start_Complete sys sequenceHandle),
        on_fst (set_node (Some a) no_name),
        on_fst (sequence_auth a),
        finished])))"

definition Esys_HMAC_Start where
  "Esys_HMAC_Start esysContext handle shandle1 shandle2 shandle3 auth hashAlg sequenceHandle =
     one_call (Esys_HMAC_Start_Async esysContext handle shandle1 shandle2 shandle3 auth hashAlg) Esys_HMAC_Start_Finish
         (sequenceHandle, ())"

definition Esys_Import_Async where
  "Esys_Import_Async esysContext parentHandle shandle1 shandle2 shandle3 encryptionKey objectPublic duplicate inSymSeed
      symmetricAlg =
     esys_async esysContext (steps
       [feasible shandle1 shandle2 shandle3 1,
        get_node parentHandle (\<lambda>parentHandleNode. steps
         [with_handle parentHandleNode (\<lambda>parentHandle'. prepare (\<lambda>sys.
             Tss2_Sys_Import_Prepare sys parentHandle' encryptionKey objectPublic duplicate inSymSeed symmetricAlg)),
          init_sessions shandle1 shandle2 shandle3,
          session_value_for 0 parentHandleNode,
          session_value_for 1 None,
          session_value_for 2 None,
          gen_auths parentHandleNode None None (\<lambda>auths. steps
           [set_auths auths,
            send])])])"

definition Esys_Import_Finish where
  "Esys_Import_Finish = esys_finish (steps
       [alloc_out (zero_TPM2B 1550),
        cleanup_outs (free_out (\<lambda>_. ())) (steps
          [on_fst receive,
           on_fst check_response,
           complete (ptr_out no_out) (\<lambda>(sys, outPrivate, _). Tss2_Sys_Import_Complete sys outPrivate),
           finished])])"

definition Esys_Import where
  "Esys_Import esysContext parentHandle shandle1 shandle2 shandle3 encryptionKey objectPublic duplicate inSymSeed
      symmetricAlg outPrivate =
     one_call (Esys_Import_Async esysContext parentHandle shandle1 shandle2 shandle3 encryptionKey objectPublic duplicate
         inSymSeed symmetricAlg) Esys_Import_Finish (outPrivate, ())"

definition Esys_IncrementalSelfTest_Async where
  "Esys_IncrementalSelfTest_Async esysContext shandle1 shandle2 shandle3 toTest =
     esys_async esysContext (steps
       [feasible shandle1 shandle2 shandle3 0,
        prepare (\<lambda>sys. Tss2_Sys_IncrementalSelfTest_Prepare sys toTest),
        init_sessions shandle1 shandle2 shandle3,
        session_value_for 0 None,
        session_value_for 1 None,
        session_value_for 2 None,
        gen_auths None None None (\<lambda>auths. steps
         [set_auths auths,
          send])])"

definition Esys_IncrementalSelfTest_Finish where
  "Esys_IncrementalSelfTest_Finish = esys_finish (steps
       [alloc_out zero_TPML_ALG,
        cleanup_outs (free_out (\<lambda>_. ())) (steps
          [on_fst receive,
           on_fst check_response,
           complete (ptr_out no_out) (\<lambda>(sys, toDoList, _). Tss2_Sys_IncrementalSelfTest_Complete sys toDoList),
           finished])])"

definition Esys_IncrementalSelfTest where
  "Esys_IncrementalSelfTest esysContext shandle1 shandle2 shandle3 toTest toDoList =
     one_call (Esys_IncrementalSelfTest_Async esysContext shandle1 shandle2 shandle3 toTest) Esys_IncrementalSelfTest_Finish
         (toDoList, ())"

definition Esys_Load_Async where
  "Esys_Load_Async esysContext parentHandle shandle1 shandle2 shandle3 inPrivate inPublic =
     esys_async esysContext (steps
       [feasible shandle1 shandle2 shandle3 1,
        store (IN_Load inPublic),
        get_node parentHandle (\<lambda>parentHandleNode. steps
         [with_handle parentHandleNode (\<lambda>parentHandle'. prepare (\<lambda>sys.
             Tss2_Sys_Load_Prepare sys parentHandle' inPrivate inPublic)),
          init_sessions shandle1 shandle2 shandle3,
          session_value_for 0 parentHandleNode,
          session_value_for 1 None,
          session_value_for 2 None,
          gen_auths parentHandleNode None None (\<lambda>auths. steps
           [set_auths auths,
            send])])])"

definition Esys_Load_Finish where
  "Esys_Load_Finish = esys_finish (new_object (\<lambda>a. with_local (Some (zero_TPM2B 68)) (steps
       [on_fst (init_public a),
        object_cleanup (\<lambda>outs. outs) (steps
          [on_fst receive,
           on_fst check_response,
           complete_handle a (hidden_out (val_out no_out)) (\<lambda>(sys, objectHandle, name, _). Tss2_Sys_Load_Complete sys objectHandle name),
           named_object a,
           finished])])))"

definition Esys_Load where
  "Esys_Load esysContext parentHandle shandle1 shandle2 shandle3 inPrivate inPublic objectHandle =
     one_call (Esys_Load_Async esysContext parentHandle shandle1 shandle2 shandle3 inPrivate inPublic) Esys_Load_Finish
         (objectHandle, ())"

definition Esys_LoadExternal_Async where
  "Esys_LoadExternal_Async esysContext shandle1 shandle2 shandle3 inPrivate inPublic hierarchy =
     hierarchy_arg hierarchy esysContext (\<lambda>tpm_hierarchy. esys_async esysContext (steps
       [feasible shandle1 shandle2 shandle3 0,
        store (IN_LoadExternal inPublic),
        prepare (\<lambda>sys. Tss2_Sys_LoadExternal_Prepare sys inPrivate inPublic tpm_hierarchy),
        init_sessions shandle1 shandle2 shandle3,
        session_value_for 0 None,
        session_value_for 1 None,
        session_value_for 2 None,
        gen_auths None None None (\<lambda>auths. steps
         [set_auths auths,
          send])]))"

definition Esys_LoadExternal_Finish where
  "Esys_LoadExternal_Finish = esys_finish (new_object (\<lambda>a. with_local (Some (zero_TPM2B 68)) (steps
       [on_fst (init_public a),
        object_cleanup (\<lambda>outs. outs) (steps
          [on_fst receive,
           on_fst check_response,
           complete_handle a (hidden_out (val_out no_out)) (\<lambda>(sys, objectHandle, name, _). Tss2_Sys_LoadExternal_Complete sys objectHandle name),
           named_object a,
           finished])])))"

definition Esys_LoadExternal where
  "Esys_LoadExternal esysContext shandle1 shandle2 shandle3 inPrivate inPublic hierarchy objectHandle =
     one_call (Esys_LoadExternal_Async esysContext shandle1 shandle2 shandle3 inPrivate inPublic hierarchy)
         Esys_LoadExternal_Finish (objectHandle, ())"

definition Esys_MAC_Async where
  "Esys_MAC_Async esysContext handle handleSession1 optionalSession2 optionalSession3 buffer inScheme =
     esys_async esysContext (steps
       [feasible handleSession1 optionalSession2 optionalSession3 1,
        get_node handle (\<lambda>handleNode. steps
         [with_handle handleNode (\<lambda>handle'. prepare (\<lambda>sys. Tss2_Sys_MAC_Prepare sys handle' buffer inScheme)),
          init_sessions handleSession1 optionalSession2 optionalSession3,
          session_value_for 0 handleNode,
          session_value_for 1 None,
          session_value_for 2 None,
          gen_auths handleNode None None (\<lambda>auths. steps
           [set_auths auths,
            send])])])"

definition Esys_MAC_Finish where
  "Esys_MAC_Finish = esys_finish (steps
       [alloc_out (zero_TPM2B 64),
        cleanup_outs (free_out (\<lambda>_. ())) (steps
          [on_fst receive,
           on_fst check_response,
           complete (ptr_out no_out) (\<lambda>(sys, outMAC, _). Tss2_Sys_MAC_Complete sys outMAC),
           finished])])"

definition Esys_MAC where
  "Esys_MAC esysContext handle handleSession1 optionalSession2 optionalSession3 buffer inScheme outMAC =
     one_call (Esys_MAC_Async esysContext handle handleSession1 optionalSession2 optionalSession3 buffer inScheme)
         Esys_MAC_Finish (outMAC, ())"

definition Esys_MAC_Start_Async where
  "Esys_MAC_Start_Async esysContext handle handleSession1 optionalSession2 optionalSession3 auth inScheme =
     esys_async esysContext (steps
       [feasible handleSession1 optionalSession2 optionalSession3 1,
        store (IN_HMAC_Start (auth_or_zero auth)),
        get_node handle (\<lambda>handleNode. steps
         [with_handle handleNode (\<lambda>handle'. prepare (\<lambda>sys.
             Tss2_Sys_MAC_Start_Prepare sys handle' auth inScheme)),
          init_sessions handleSession1 optionalSession2 optionalSession3,
          session_value_for 0 handleNode,
          session_value_for 1 None,
          session_value_for 2 None,
          gen_auths handleNode None None (\<lambda>auths. steps
           [set_auths auths,
            send])])])"

definition Esys_MAC_Start_Finish where
  "Esys_MAC_Start_Finish = esys_finish (new_object (\<lambda>a. object_cleanup (\<lambda>_. ()) (steps
       [on_fst receive,
        on_fst check_response,
        complete_handle a (hidden_out no_out) (\<lambda>(sys, sequenceHandle, _). Tss2_Sys_MAC_Start_Complete sys sequenceHandle),
        on_fst (set_node (Some a) no_name),
        on_fst (sequence_auth a),
        finished])))"

definition Esys_MAC_Start where
  "Esys_MAC_Start esysContext handle handleSession1 optionalSession2 optionalSession3 auth inScheme sequenceHandle =
     one_call (Esys_MAC_Start_Async esysContext handle handleSession1 optionalSession2 optionalSession3 auth inScheme)
         Esys_MAC_Start_Finish (sequenceHandle, ())"

definition Esys_MakeCredential_Async where
  "Esys_MakeCredential_Async esysContext handle shandle1 shandle2 shandle3 credential objectName =
     esys_async esysContext (steps
       [feasible shandle1 shandle2 shandle3 0,
        get_node handle (\<lambda>handleNode. steps
         [with_handle handleNode (\<lambda>handle'. prepare (\<lambda>sys.
             Tss2_Sys_MakeCredential_Prepare sys handle' credential objectName)),
          init_sessions shandle1 shandle2 shandle3,
          session_value_for 0 None,
          session_value_for 1 None,
          session_value_for 2 None,
          gen_auths handleNode None None (\<lambda>auths. steps
           [set_auths auths,
            send])])])"

definition Esys_MakeCredential_Finish where
  "Esys_MakeCredential_Finish = esys_finish (steps
       [alloc_out (zero_TPM2B 132),
        cleanup_outs (free_out (free_out (\<lambda>_. ()))) (steps
          [next_out (alloc_out (zero_TPM2B 1568)),
           on_fst receive,
           on_fst check_response,
           complete (ptr_out (ptr_out no_out)) (\<lambda>(sys, credentialBlob, secret, _).
               Tss2_Sys_MakeCredential_Complete sys credentialBlob secret),
           finished])])"

definition Esys_MakeCredential where
  "Esys_MakeCredential esysContext handle shandle1 shandle2 shandle3 credential objectName credentialBlob secret =
     one_call (Esys_MakeCredential_Async esysContext handle shandle1 shandle2 shandle3 credential objectName)
         Esys_MakeCredential_Finish (credentialBlob, secret, ())"

definition Esys_NV_Certify_Async where
  "Esys_NV_Certify_Async esysContext signHandle authHandle nvIndex shandle1 shandle2 shandle3 qualifyingData inScheme size'
      offset =
     esys_async esysContext (steps
       [feasible shandle1 shandle2 shandle3 1,
        get_node signHandle (\<lambda>signHandleNode. steps
         [get_node authHandle (\<lambda>authHandleNode. steps
           [get_node nvIndex (\<lambda>nvIndexNode. steps
             [with_handle signHandleNode (\<lambda>signHandle'. with_handle authHandleNode (\<lambda>authHandle'.
                 with_handle nvIndexNode (\<lambda>nvIndex'. prepare (\<lambda>sys.
                 Tss2_Sys_NV_Certify_Prepare sys signHandle' authHandle' nvIndex' qualifyingData inScheme size' offset)))),
              init_sessions shandle1 shandle2 shandle3,
              session_value_for 0 signHandleNode,
              session_value_for 1 authHandleNode,
              session_value_for 2 None,
              gen_auths signHandleNode authHandleNode nvIndexNode (\<lambda>auths. steps
               [set_auths auths,
                send])])])])])"

definition Esys_NV_Certify_Finish where
  "Esys_NV_Certify_Finish = esys_finish (steps
       [alloc_out (zero_TPM2B 2304),
        cleanup_outs (free_out (free_out (\<lambda>_. ()))) (steps
          [next_out (alloc_out zero_TPMT_SIGNATURE),
           on_fst receive,
           on_fst check_response,
           complete (ptr_out (ptr_out no_out)) (\<lambda>(sys, certifyInfo, signature, _).
               Tss2_Sys_NV_Certify_Complete sys certifyInfo signature),
           finished])])"

definition Esys_NV_Certify where
  "Esys_NV_Certify esysContext signHandle authHandle nvIndex shandle1 shandle2 shandle3 qualifyingData inScheme size' offset
      certifyInfo signature =
     one_call (Esys_NV_Certify_Async esysContext signHandle authHandle nvIndex shandle1 shandle2 shandle3 qualifyingData
         inScheme size' offset) Esys_NV_Certify_Finish (certifyInfo, signature, ())"

definition Esys_NV_ChangeAuth_Async where
  "Esys_NV_ChangeAuth_Async esysContext nvIndex shandle1 shandle2 shandle3 newAuth =
     esys_async esysContext (steps
       [feasible shandle1 shandle2 shandle3 1,
        store_NV (\<lambda>i. i\<lparr>NV_nvIndex := Some nvIndex, NV_authData := Some (auth_or_zero newAuth)\<rparr>),
        get_node nvIndex (\<lambda>nvIndexNode. steps
         [require_node nvIndexNode,
          nv_nameAlg_of nvIndexNode adapt_authData,
          with_node nvIndexNode (\<lambda>n. prepare (\<lambda>sys.
              Tss2_Sys_NV_ChangeAuth_Prepare sys (rsrc_handle (node_rsrc n)) newAuth)),
          init_sessions shandle1 shandle2 shandle3,
          session_value_addr 0 nvIndexNode,
          session_value_for 1 None,
          session_value_for 2 None,
          gen_auths nvIndexNode None None (\<lambda>auths. steps
           [set_auths auths,
            send])])])"

definition Esys_NV_ChangeAuth_Finish where
  "Esys_NV_ChangeAuth_Finish = esys_finish (on_fst (steps
       [receive,
        change_auth,
        check_response,
        complete0 (\<lambda>(sys, _). Tss2_Sys_NV_ChangeAuth_Complete sys),
        set_state ESYS_STATE_INIT]))"

definition Esys_NV_ChangeAuth where
  "Esys_NV_ChangeAuth esysContext nvIndex shandle1 shandle2 shandle3 newAuth =
     one_call (Esys_NV_ChangeAuth_Async esysContext nvIndex shandle1 shandle2 shandle3 newAuth) Esys_NV_ChangeAuth_Finish ()"

definition Esys_NV_DefineSpace_Async where
  "Esys_NV_DefineSpace_Async esysContext authHandle shandle1 shandle2 shandle3 auth publicInfo =
     esys_async esysContext (steps
       [policy_delete_check publicInfo,
        feasible shandle1 shandle2 shandle3 1,
        store_NV (\<lambda>i. i\<lparr>NV_authData := Some (auth_or_zero auth), NV_publicInfo := Some publicInfo\<rparr>),
        adapt_for_nv publicInfo,
        get_node authHandle (\<lambda>authHandleNode. steps
         [with_handle authHandleNode (\<lambda>authHandle'. read_val in_authData (\<lambda>authData. prepare (\<lambda>sys.
             Tss2_Sys_NV_DefineSpace_Prepare sys authHandle' (Some authData) publicInfo))),
          init_sessions shandle1 shandle2 shandle3,
          session_value_for 0 authHandleNode,
          session_value_for 1 None,
          session_value_for 2 None,
          gen_auths authHandleNode None None (\<lambda>auths. steps
           [set_auths auths,
            send])])])"

text \<open>
  The object of a new NV index; name and data come from the stored public area, a fault when that
  is a null pointer.
\<close>

definition define_nv :: "nat \<Rightarrow> ('t, 'c) esys step" where
  "define_nv a = steps
     [set_node (Some a) (set_rsrcType IESYSC_NV_RSRC),
      read_val (\<lambda>ctx. NV_publicInfo (nv_in (esys_in ctx))) (\<lambda>publicInfo. read_val (\<lambda>_. publicInfo) (\<lambda>p. read_val in_authData (\<lambda>auth. steps
        [or_state ESYS_STATE_INTERNALERROR (with_node (Some a) (\<lambda>n ctx.
           case iesys_nv_get_name (crypto_backend ctx) p (rsrc_name (node_rsrc n)) of
             None \<Rightarrow> None
           | Some (r, name, cb) \<Rightarrow> steps [set_node (Some a) (set_name name), ret r] (ctx\<lparr>crypto_backend := cb\<rparr>))),
         set_node (Some a) (set_handle (TPMS_NV_PUBLIC_nvIndex (TPM2B_SUBTYPE_member p))),
         set_node (Some a) (set_misc (RSRC_nv_pub p)),
         set_auth (Some a) auth])))]"

definition Esys_NV_DefineSpace_Finish where
  "Esys_NV_DefineSpace_Finish = esys_finish (new_object (\<lambda>a. object_cleanup (\<lambda>_. ()) (steps
       [on_fst receive,
        on_fst check_response,
        on_fst (complete0 (\<lambda>(sys, _). Tss2_Sys_NV_DefineSpace_Complete sys)),
        on_fst (define_nv a),
        finished])))"

definition Esys_NV_DefineSpace where
  "Esys_NV_DefineSpace esysContext authHandle shandle1 shandle2 shandle3 auth publicInfo nvHandle =
     one_call (Esys_NV_DefineSpace_Async esysContext authHandle shandle1 shandle2 shandle3 auth publicInfo)
         Esys_NV_DefineSpace_Finish (nvHandle, ())"

definition Esys_NV_Extend_Async where
  "Esys_NV_Extend_Async esysContext authHandle nvIndex shandle1 shandle2 shandle3 data =
     esys_async esysContext (steps
       [feasible shandle1 shandle2 shandle3 1,
        store_NV (\<lambda>i. i\<lparr>NV_nvIndex := Some nvIndex\<rparr>),
        get_node authHandle (\<lambda>authHandleNode. steps
         [get_node nvIndex (\<lambda>nvIndexNode. steps
           [with_handle authHandleNode (\<lambda>authHandle'. with_handle nvIndexNode (\<lambda>nvIndex'.
               prepare (\<lambda>sys. Tss2_Sys_NV_Extend_Prepare sys authHandle' nvIndex' data))),
            init_sessions shandle1 shandle2 shandle3,
            session_value_for 0 authHandleNode,
            session_value_for 1 None,
            session_value_for 2 None,
            gen_auths authHandleNode nvIndexNode None (\<lambda>auths. steps
             [set_auths auths,
              send])])])])"

definition Esys_NV_Extend_Finish where
  "Esys_NV_Extend_Finish = esys_finish (on_fst (steps
       [receive,
        check_response,
        complete0 (\<lambda>(sys, _). Tss2_Sys_NV_Extend_Complete sys),
        nv_object (nv_set_attribute TPMA_NV_WRITTEN),
        set_state ESYS_STATE_INIT]))"

definition Esys_NV_Extend where
  "Esys_NV_Extend esysContext authHandle nvIndex shandle1 shandle2 shandle3 data =
     one_call (Esys_NV_Extend_Async esysContext authHandle nvIndex shandle1 shandle2 shandle3 data) Esys_NV_Extend_Finish ()"

definition Esys_NV_GlobalWriteLock_Async where
  "Esys_NV_GlobalWriteLock_Async esysContext authHandle shandle1 shandle2 shandle3 =
     esys_async esysContext (steps
       [feasible shandle1 shandle2 shandle3 1,
        get_node authHandle (\<lambda>authHandleNode. steps
         [with_handle authHandleNode (\<lambda>authHandle'. prepare (\<lambda>sys.
             Tss2_Sys_NV_GlobalWriteLock_Prepare sys authHandle')),
          init_sessions shandle1 shandle2 shandle3,
          session_value_for 0 authHandleNode,
          session_value_for 1 None,
          session_value_for 2 None,
          gen_auths authHandleNode None None (\<lambda>auths. steps
           [set_auths auths,
            send])])])"

definition Esys_NV_GlobalWriteLock_Finish where
  "Esys_NV_GlobalWriteLock_Finish = esys_finish (steps
       [on_fst receive,
        on_fst check_response,
        complete no_out (\<lambda>(sys, _). Tss2_Sys_NV_GlobalWriteLock_Complete sys),
        finished])"

definition Esys_NV_GlobalWriteLock where
  "Esys_NV_GlobalWriteLock esysContext authHandle shandle1 shandle2 shandle3 =
     one_call (Esys_NV_GlobalWriteLock_Async esysContext authHandle shandle1 shandle2 shandle3)
         Esys_NV_GlobalWriteLock_Finish ()"

definition Esys_NV_Increment_Async where
  "Esys_NV_Increment_Async esysContext authHandle nvIndex shandle1 shandle2 shandle3 =
     esys_async esysContext (steps
       [feasible shandle1 shandle2 shandle3 1,
        store_NV (\<lambda>i. i\<lparr>NV_nvIndex := Some nvIndex\<rparr>),
        get_node authHandle (\<lambda>authHandleNode. steps
         [get_node nvIndex (\<lambda>nvIndexNode. steps
           [with_handle authHandleNode (\<lambda>authHandle'. with_handle nvIndexNode (\<lambda>nvIndex'.
               prepare (\<lambda>sys. Tss2_Sys_NV_Increment_Prepare sys authHandle' nvIndex'))),
            init_sessions shandle1 shandle2 shandle3,
            session_value_for 0 authHandleNode,
            session_value_for 1 None,
            session_value_for 2 None,
            gen_auths authHandleNode nvIndexNode None (\<lambda>auths. steps
             [set_auths auths,
              send])])])])"

definition Esys_NV_Increment_Finish where
  "Esys_NV_Increment_Finish = esys_finish (on_fst (steps
       [receive,
        check_response,
        complete0 (\<lambda>(sys, _). Tss2_Sys_NV_Increment_Complete sys),
        nv_object (nv_set_attribute TPMA_NV_WRITTEN),
        set_state ESYS_STATE_INIT]))"

definition Esys_NV_Increment where
  "Esys_NV_Increment esysContext authHandle nvIndex shandle1 shandle2 shandle3 =
     one_call (Esys_NV_Increment_Async esysContext authHandle nvIndex shandle1 shandle2 shandle3) Esys_NV_Increment_Finish ()"

definition Esys_NV_Read_Async where
  "Esys_NV_Read_Async esysContext authHandle nvIndex shandle1 shandle2 shandle3 size' offset =
     esys_async esysContext (steps
       [feasible shandle1 shandle2 shandle3 1,
        get_node authHandle (\<lambda>authHandleNode. steps
         [get_node nvIndex (\<lambda>nvIndexNode. steps
           [with_handle authHandleNode (\<lambda>authHandle'. with_handle nvIndexNode (\<lambda>nvIndex'.
               prepare (\<lambda>sys. Tss2_Sys_NV_Read_Prepare sys authHandle' nvIndex' size' offset))),
            init_sessions shandle1 shandle2 shandle3,
            session_value_for 0 authHandleNode,
            session_value_for 1 None,
            session_value_for 2 None,
            gen_auths authHandleNode nvIndexNode None (\<lambda>auths. steps
             [set_auths auths,
              send])])])])"

definition Esys_NV_Read_Finish where
  "Esys_NV_Read_Finish = esys_finish (steps
       [alloc_out (zero_TPM2B 2048),
        cleanup_outs (free_out (\<lambda>_. ())) (steps
          [on_fst receive,
           on_fst check_response,
           complete (ptr_out no_out) (\<lambda>(sys, data, _). Tss2_Sys_NV_Read_Complete sys data),
           finished])])"

definition Esys_NV_Read where
  "Esys_NV_Read esysContext authHandle nvIndex shandle1 shandle2 shandle3 size' offset data =
     one_call (Esys_NV_Read_Async esysContext authHandle nvIndex shandle1 shandle2 shandle3 size' offset) Esys_NV_Read_Finish
         (data, ())"

definition Esys_NV_ReadLock_Async where
  "Esys_NV_ReadLock_Async esysContext authHandle nvIndex shandle1 shandle2 shandle3 =
     esys_async esysContext (steps
       [feasible shandle1 shandle2 shandle3 1,
        store_NV (\<lambda>i. i\<lparr>NV_nvIndex := Some nvIndex\<rparr>),
        get_node authHandle (\<lambda>authHandleNode. steps
         [get_node nvIndex (\<lambda>nvIndexNode. steps
           [with_handle authHandleNode (\<lambda>authHandle'. with_handle nvIndexNode (\<lambda>nvIndex'.
               prepare (\<lambda>sys. Tss2_Sys_NV_ReadLock_Prepare sys authHandle' nvIndex'))),
            init_sessions shandle1 shandle2 shandle3,
            session_value_for 0 authHandleNode,
            session_value_for 1 None,
            session_value_for 2 None,
            gen_auths authHandleNode nvIndexNode None (\<lambda>auths. steps
             [set_auths auths,
              send])])])])"

definition Esys_NV_ReadLock_Finish where
  "Esys_NV_ReadLock_Finish = esys_finish (on_fst (steps
       [receive,
        check_response,
        complete0 (\<lambda>(sys, _). Tss2_Sys_NV_ReadLock_Complete sys),
        nv_object (nv_set_attribute TPMA_NV_READLOCKED),
        set_state ESYS_STATE_INIT]))"

definition Esys_NV_ReadLock where
  "Esys_NV_ReadLock esysContext authHandle nvIndex shandle1 shandle2 shandle3 =
     one_call (Esys_NV_ReadLock_Async esysContext authHandle nvIndex shandle1 shandle2 shandle3) Esys_NV_ReadLock_Finish ()"

definition Esys_NV_ReadPublic_Async where
  "Esys_NV_ReadPublic_Async esysContext nvIndex shandle1 shandle2 shandle3 =
     esys_async esysContext (steps
       [feasible shandle1 shandle2 shandle3 0,
        store_NV (\<lambda>i. i\<lparr>NV_nvIndex := Some nvIndex\<rparr>),
        get_node nvIndex (\<lambda>nvIndexNode. steps
         [with_handle nvIndexNode (\<lambda>nvIndex'. prepare (\<lambda>sys. Tss2_Sys_NV_ReadPublic_Prepare sys nvIndex')),
          init_sessions shandle1 shandle2 shandle3,
          session_value_for 0 None,
          session_value_for 1 None,
          session_value_for 2 None,
          gen_auths nvIndexNode None None (\<lambda>auths. steps
           [set_auths auths,
            send])])])"

definition Esys_NV_ReadPublic_Finish where
  "Esys_NV_ReadPublic_Finish = esys_finish (with_local None (with_local None (steps
       [next_out (alloc_local (zero_SUBTYPE zero_TPMS_NV_PUBLIC)),
        next_out (next_out (alloc_local (zero_TPM2B 68))),
        on_fst receive,
        on_fst check_response,
        complete (hidden_out (val_out (val_out (hidden_out no_out)))) (\<lambda>(sys, nvPublic, nvName, _). Tss2_Sys_NV_ReadPublic_Complete sys nvPublic nvName),
        (\<lambda>(ctx, nvPublic, lnvPublic, lnvName, nvName, outs).
           case (lnvPublic, lnvName) of
             (Some p, Some nm) \<Rightarrow> on_fst (nv_object (\<lambda>node.
               if node = None then steps []
               else set_node node (\<lambda>n. set_misc (RSRC_nv_pub p) (set_name nm (set_rsrcType IESYSC_NV_RSRC n)))))
               (ctx, give_out nvPublic lnvPublic, lnvPublic, lnvName, give_out nvName lnvName, outs)
           | _ \<Rightarrow> None),
        finished])))"

definition Esys_NV_ReadPublic where
  "Esys_NV_ReadPublic esysContext nvIndex shandle1 shandle2 shandle3 nvPublic nvName =
     one_call (Esys_NV_ReadPublic_Async esysContext nvIndex shandle1 shandle2 shandle3) Esys_NV_ReadPublic_Finish (nvPublic,
         nvName, ())"

end
