(* ===== verification/Esys_Commands_4.thy ===== *)
theory Esys_Commands_4
  imports Esys_Commands_3
begin

text \<open>
  The command functions of \<open>src/tss2-esys/api\<close> from \<open>NV_SetBits\<close> to \<open>PolicyGetDigest\<close>.
\<close>

section \<open>Commands\<close>

definition Esys_NV_SetBits_Async where
  "Esys_NV_SetBits_Async esysContext authHandle nvIndex shandle1 shandle2 shandle3 bits =
     esys_async esysContext (steps
       [feasible shandle1 shandle2 shandle3 1,
        store_NV (\<lambda>i. i\<lparr>NV_nvIndex := Some nvIndex\<rparr>),
        get_node authHandle (\<lambda>authHandleNode. steps
         [get_node nvIndex (\<lambda>nvIndexNode. steps
           [with_handle authHandleNode (\<lambda>authHandle'. with_handle nvIndexNode (\<lambda>nvIndex'.
               prepare (\<lambda>sys. Tss2_Sys_NV_SetBits_Prepare sys authHandle' nvIndex' bits))),
            init_sessions shandle1 shandle2 shandle3,
            session_value_for 0 authHandleNode,
            session_value_for 1 None,
            session_value_for 2 None,
            gen_auths authHandleNode nvIndexNode None (\<lambda>auths. steps
             [set_auths auths,
              send])])])])"

definition Esys_NV_SetBits_Finish where
  "Esys_NV_SetBits_Finish = esys_finish (on_fst (steps
       [receive,
        check_response,
        complete0 (\<lambda>(sys, _). Tss2_Sys_NV_SetBits_Complete sys),
        nv_object (nv_set_attribute TPMA_NV_WRITTEN),
        set_state ESYS_STATE_INIT]))"

definition Esys_NV_SetBits where
  "Esys_NV_SetBits esysContext authHandle nvIndex shandle1 shandle2 shandle3 bits =
     one_call (Esys_NV_SetBits_Async esysContext authHandle nvIndex shandle1 shandle2 shandle3 bits) Esys_NV_SetBits_Finish ()"

definition Esys_NV_UndefineSpace_Async where
  "Esys_NV_UndefineSpace_Async esysContext authHandle nvIndex shandle1 shandle2 shandle3 =
     esys_async esysContext (steps
       [feasible shandle1 shandle2 shandle3 1,
        store_NV (\<lambda>i. i\<lparr>NV_nvIndex := Some nvIndex\<rparr>),
        get_node authHandle (\<lambda>authHandleNode. steps
         [get_node nvIndex (\<lambda>nvIndexNode. steps
           [with_handle authHandleNode (\<lambda>authHandle'. with_handle nvIndexNode (\<lambda>nvIndex'.
               prepare (\<lambda>sys. Tss2_Sys_NV_UndefineSpace_Prepare sys authHandle' nvIndex'))),
            init_sessions shandle1 shandle2 shandle3,
            session_value_for 0 authHandleNode,
            session_value_for 1 None,
            session_value_for 2 None,
            gen_auths authHandleNode nvIndexNode None (\<lambda>auths. steps
             [set_auths auths,
              send])])])])"

definition Esys_NV_UndefineSpace_Finish where
  "Esys_NV_UndefineSpace_Finish = esys_finish (on_fst (steps
       [receive,
        check_response,
        complete0 (\<lambda>(sys, _). Tss2_Sys_NV_UndefineSpace_Complete sys),
        close_nvIndex,
        set_state ESYS_STATE_INIT]))"

definition Esys_NV_UndefineSpace where
  "Esys_NV_UndefineSpace esysContext authHandle nvIndex shandle1 shandle2 shandle3 =
     one_call (Esys_NV_UndefineSpace_Async esysContext authHandle nvIndex shandle1 shandle2 shandle3)
         Esys_NV_UndefineSpace_Finish ()"

definition Esys_NV_UndefineSpaceSpecial_Async where
  "Esys_NV_UndefineSpaceSpecial_Async esysContext nvIndex platform shandle1 shandle2 shandle3 =
     esys_async esysContext (steps
       [feasible shandle1 shandle2 shandle3 1,
        store_NV (\<lambda>i. i\<lparr>NV_nvIndex := Some nvIndex\<rparr>),
        get_node nvIndex (\<lambda>nvIndexNode. steps
         [get_node platform (\<lambda>platformNode. steps
           [with_handle nvIndexNode (\<lambda>nvIndex'. with_handle platformNode (\<lambda>platform'. prepare (\<lambda>sys.
               Tss2_Sys_NV_UndefineSpaceSpecial_Prepare sys nvIndex' platform'))),
            init_sessions shandle1 shandle2 shandle3,
            session_value_for 0 nvIndexNode,
            session_value_for 1 platformNode,
            session_value_for 2 None,
            gen_auths nvIndexNode platformNode None (\<lambda>auths. steps
             [set_auths auths,
              send])])])])"

definition Esys_NV_UndefineSpaceSpecial_Finish where
  "Esys_NV_UndefineSpaceSpecial_Finish = esys_finish (on_fst (steps
       [receive,
        nv_object (\<lambda>nvIndexNode ctx. call (esys_GetResourceObject (session_type ctx ! 0))
          (\<lambda>session. with_node nvIndexNode (\<lambda>n.
             set_session session (\<lambda>s. s\<lparr>SESSION_sizeHmacValue := SESSION_sizeHmacValue s - TPM2B_size (node_auth n)\<rparr>))) ctx),
        close_nvIndex,
        check_response,
        complete0 (\<lambda>(sys, _). Tss2_Sys_NV_UndefineSpaceSpecial_Complete sys),
        set_state ESYS_STATE_INIT]))"

definition Esys_NV_UndefineSpaceSpecial where
  "Esys_NV_UndefineSpaceSpecial esysContext nvIndex platform shandle1 shandle2 shandle3 =
     one_call (Esys_NV_UndefineSpaceSpecial_Async esysContext nvIndex platform shandle1 shandle2 shandle3)
         Esys_NV_UndefineSpaceSpecial_Finish ()"

definition Esys_NV_Write_Async where
  "Esys_NV_Write_Async esysContext authHandle nvIndex shandle1 shandle2 shandle3 data offset =
     esys_async esysContext (steps
       [feasible shandle1 shandle2 shandle3 1,
        store_NV (\<lambda>i. i\<lparr>NV_nvIndex := Some nvIndex\<rparr>),
        get_node authHandle (\<lambda>authHandleNode. steps
         [get_node nvIndex (\<lambda>nvIndexNode. steps
           [with_handle authHandleNode (\<lambda>authHandle'. with_handle nvIndexNode (\<lambda>nvIndex'.
               prepare (\<lambda>sys. Tss2_Sys_NV_Write_Prepare sys authHandle' nvIndex' data offset))),
            init_sessions shandle1 shandle2 shandle3,
            session_value_for 0 authHandleNode,
            session_value_for 1 None,
            session_value_for 2 None,
            gen_auths authHandleNode nvIndexNode None (\<lambda>auths. steps
             [set_auths auths,
              send])])])])"

definition Esys_NV_Write_Finish where
  "Esys_NV_Write_Finish = esys_finish (on_fst (steps
       [receive,
        check_response,
        complete0 (\<lambda>(sys, _). Tss2_Sys_NV_Write_Complete sys),
        nv_object (nv_set_attribute TPMA_NV_WRITTEN),
        set_state ESYS_STATE_INIT]))"

definition Esys_NV_Write where
  "Esys_NV_Write esysContext authHandle nvIndex shandle1 shandle2 shandle3 data offset =
     one_call (Esys_NV_Write_Async esysContext authHandle nvIndex shandle1 shandle2 shandle3 data offset)
         Esys_NV_Write_Finish ()"

definition Esys_NV_WriteLock_Async where
  "Esys_NV_WriteLock_Async esysContext authHandle nvIndex shandle1 shandle2 shandle3 =
     esys_async esysContext (steps
       [feasible shandle1 shandle2 shandle3 1,
        store_NV (\<lambda>i. i\<lparr>NV_nvIndex := Some nvIndex\<rparr>),
        get_node authHandle (\<lambda>authHandleNode. steps
         [get_node nvIndex (\<lambda>nvIndexNode. steps
           [with_handle authHandleNode (\<lambda>authHandle'. with_handle nvIndexNode (\<lambda>nvIndex'.
               prepare (\<lambda>sys. Tss2_Sys_NV_WriteLock_Prepare sys authHandle' nvIndex'))),
            init_sessions shandle1 shandle2 shandle3,
            session_value_for 0 authHandleNode,
            session_value_for 1 None,
            session_value_for 2 None,
            gen_auths authHandleNode nvIndexNode None (\<lambda>auths. steps
             [set_auths auths,
              send])])])])"

definition Esys_NV_WriteLock_Finish where
  "Esys_NV_WriteLock_Finish = esys_finish (on_fst (steps
       [receive,
        check_response,
        complete0 (\<lambda>(sys, _). Tss2_Sys_NV_WriteLock_Complete sys),
        nv_object (nv_set_attribute TPMA_NV_WRITELOCKED),
        set_state ESYS_STATE_INIT]))"

definition Esys_NV_WriteLock where
  "Esys_NV_WriteLock esysContext authHandle nvIndex shandle1 shandle2 shandle3 =
     one_call (Esys_NV_WriteLock_Async esysContext authHandle nvIndex shandle1 shandle2 shandle3) Esys_NV_WriteLock_Finish ()"

definition Esys_ObjectChangeAuth_Async where
  "Esys_ObjectChangeAuth_Async esysContext objectHandle parentHandle shandle1 shandle2 shandle3 newAuth =
     esys_async esysContext (steps
       [feasible shandle1 shandle2 shandle3 1,
        get_node objectHandle (\<lambda>objectHandleNode. steps
         [require_node objectHandleNode,
          get_node parentHandle (\<lambda>parentHandleNode. steps
           [key_nameAlg_of objectHandleNode (\<lambda>hashAlg. steps
             [adapted_copy newAuth hashAlg (\<lambda>authCopy. steps
               [with_node objectHandleNode (\<lambda>n. with_handle parentHandleNode (\<lambda>parentHandle'.
                   prepare (\<lambda>sys.
                   Tss2_Sys_ObjectChangeAuth_Prepare sys (rsrc_handle (node_rsrc n)) parentHandle' (Some authCopy)))),
                init_sessions shandle1 shandle2 shandle3,
                session_value_addr 0 objectHandleNode,
                session_value_for 1 None,
                session_value_for 2 None,
                gen_auths objectHandleNode parentHandleNode None (\<lambda>auths. steps
                 [set_auths auths,
                  send])])])])])])"

definition Esys_ObjectChangeAuth_Finish where
  "Esys_ObjectChangeAuth_Finish = esys_finish (steps
       [alloc_out (zero_TPM2B 1550),
        cleanup_outs (free_out (\<lambda>_. ())) (steps
          [on_fst receive,
           on_fst check_response,
           complete (ptr_out no_out) (\<lambda>(sys, outPrivate, _). Tss2_Sys_ObjectChangeAuth_Complete sys outPrivate),
           finished])])"

definition Esys_ObjectChangeAuth where
  "Esys_ObjectChangeAuth esysContext objectHandle parentHandle shandle1 shandle2 shandle3 newAuth outPrivate =
     one_call (Esys_ObjectChangeAuth_Async esysContext objectHandle parentHandle shandle1 shandle2 shandle3 newAuth)
         Esys_ObjectChangeAuth_Finish (outPrivate, ())"

definition Esys_PCR_Allocate_Async where
  "Esys_PCR_Allocate_Async esysContext authHandle shandle1 shandle2 shandle3 pcrAllocation =
     esys_async esysContext (steps
       [feasible shandle1 shandle2 shandle3 1,
        get_node authHandle (\<lambda>authHandleNode. steps
         [with_handle authHandleNode (\<lambda>authHandle'. prepare (\<lambda>sys.
             Tss2_Sys_PCR_Allocate_Prepare sys authHandle' pcrAllocation)),
          init_sessions shandle1 shandle2 shandle3,
          session_value_for 0 authHandleNode,
          session_value_for 1 None,
          session_value_for 2 None,
          gen_auths authHandleNode None None (\<lambda>auths. steps
           [set_auths auths,
            send])])])"

definition Esys_PCR_Allocate_Finish where
  "Esys_PCR_Allocate_Finish = esys_finish (steps
       [on_fst receive,
        on_fst check_response,
        complete (val_out (val_out (val_out (val_out no_out)))) (\<lambda>(sys, allocationSuccess, maxPCR, sizeNeeded,
            sizeAvailable, _). Tss2_Sys_PCR_Allocate_Complete sys allocationSuccess maxPCR sizeNeeded sizeAvailable),
        finished])"

definition Esys_PCR_Allocate where
  "Esys_PCR_Allocate esysContext authHandle shandle1 shandle2 shandle3 pcrAllocation allocationSuccess maxPCR sizeNeeded
      sizeAvailable =
     one_call (Esys_PCR_Allocate_Async esysContext authHandle shandle1 shandle2 shandle3 pcrAllocation)
         Esys_PCR_Allocate_Finish (allocationSuccess, maxPCR, sizeNeeded, sizeAvailable, ())"

definition Esys_PCR_Event_Async where
  "Esys_PCR_Event_Async esysContext pcrHandle shandle1 shandle2 shandle3 eventData =
     esys_async esysContext (steps
       [feasible shandle1 shandle2 shandle3 1,
        get_node pcrHandle (\<lambda>pcrHandleNode. steps
         [with_handle pcrHandleNode (\<lambda>pcrHandle'. prepare (\<lambda>sys.
             Tss2_Sys_PCR_Event_Prepare sys pcrHandle' eventData)),
          init_sessions shandle1 shandle2 shandle3,
          session_value_for 0 pcrHandleNode,
          session_value_for 1 None,
          session_value_for 2 None,
          gen_auths pcrHandleNode None None (\<lambda>auths. steps
           [set_auths auths,
            send])])])"

definition Esys_PCR_Event_Finish where
  "Esys_PCR_Event_Finish = esys_finish (steps
       [alloc_out zero_TPML_DIGEST_VALUES,
        cleanup_outs (free_out (\<lambda>_. ())) (steps
          [on_fst receive,
           on_fst check_response,
           complete (ptr_out no_out) (\<lambda>(sys, digests, _). Tss2_Sys_PCR_Event_Complete sys digests),
           finished])])"

definition Esys_PCR_Event where
  "Esys_PCR_Event esysContext pcrHandle shandle1 shandle2 shandle3 eventData digests =
     one_call (Esys_PCR_Event_Async esysContext pcrHandle shandle1 shandle2 shandle3 eventData) Esys_PCR_Event_Finish
         (digests, ())"

definition Esys_PCR_Extend_Async where
  "Esys_PCR_Extend_Async esysContext pcrHandle shandle1 shandle2 shandle3 digests =
     esys_async esysContext (steps
       [feasible shandle1 shandle2 shandle3 1,
        get_node pcrHandle (\<lambda>pcrHandleNode. steps
         [with_handle pcrHandleNode (\<lambda>pcrHandle'. prepare (\<lambda>sys.
             Tss2_Sys_PCR_Extend_Prepare sys pcrHandle' digests)),
          init_sessions shandle1 shandle2 shandle3,
          session_value_for 0 pcrHandleNode,
          session_value_for 1 None,
          session_value_for 2 None,
          gen_auths pcrHandleNode None None (\<lambda>auths. steps
           [set_auths auths,
            send])])])"

definition Esys_PCR_Extend_Finish where
  "Esys_PCR_Extend_Finish = esys_finish (steps
       [on_fst receive,
        on_fst check_response,
        complete no_out (\<lambda>(sys, _). Tss2_Sys_PCR_Extend_Complete sys),
        finished])"

definition Esys_PCR_Extend where
  "Esys_PCR_Extend esysContext pcrHandle shandle1 shandle2 shandle3 digests =
     one_call (Esys_PCR_Extend_Async esysContext pcrHandle shandle1 shandle2 shandle3 digests) Esys_PCR_Extend_Finish ()"

definition Esys_PCR_Read_Async where
  "Esys_PCR_Read_Async esysContext shandle1 shandle2 shandle3 pcrSelectionIn =
     esys_async esysContext (steps
       [feasible shandle1 shandle2 shandle3 0,
        prepare (\<lambda>sys. Tss2_Sys_PCR_Read_Prepare sys pcrSelectionIn),
        init_sessions shandle1 shandle2 shandle3,
        session_value_for 0 None,
        session_value_for 1 None,
        session_value_for 2 None,
        gen_auths None None None (\<lambda>auths. steps
         [set_auths auths,
          send])])"

definition Esys_PCR_Read_Finish where
  "Esys_PCR_Read_Finish = esys_finish (steps
       [next_out (alloc_out zero_TPML_PCR_SELECTION),
        cleanup_outs (keep_out (free_out (free_out (\<lambda>_. ())))) (steps
          [next_out (next_out (alloc_out zero_TPML_DIGEST)),
           on_fst receive,
           on_fst check_response,
           complete (val_out (ptr_out (ptr_out no_out))) (\<lambda>(sys, pcrUpdateCounter, pcrSelectionOut, pcrValues, _).
               Tss2_Sys_PCR_Read_Complete sys pcrUpdateCounter pcrSelectionOut pcrValues),
           finished])])"

definition Esys_PCR_Read where
  "Esys_PCR_Read esysContext shandle1 shandle2 shandle3 pcrSelectionIn pcrUpdateCounter pcrSelectionOut pcrValues =
     one_call (Esys_PCR_Read_Async esysContext shandle1 shandle2 shandle3 pcrSelectionIn) Esys_PCR_Read_Finish
         (pcrUpdateCounter, pcrSelectionOut, pcrValues, ())"

definition Esys_PCR_Reset_Async where
  "Esys_PCR_Reset_Async esysContext pcrHandle shandle1 shandle2 shandle3 =
     esys_async esysContext (steps
       [feasible shandle1 shandle2 shandle3 1,
        get_node pcrHandle (\<lambda>pcrHandleNode. steps
         [with_handle pcrHandleNode (\<lambda>pcrHandle'. prepare (\<lambda>sys. Tss2_Sys_PCR_Reset_Prepare sys pcrHandle')),
          init_sessions shandle1 shandle2 shandle3,
          session_value_for 0 pcrHandleNode,
          session_value_for 1 None,
          session_value_for 2 None,
          gen_auths pcrHandleNode None None (\<lambda>auths. steps
           [set_auths auths,
            send])])])"

definition Esys_PCR_Reset_Finish where
  "Esys_PCR_Reset_Finish = esys_finish (steps
       [on_fst receive,
        on_fst check_response,
        complete no_out (\<lambda>(sys, _). Tss2_Sys_PCR_Reset_Complete sys),
        finished])"

definition Esys_PCR_Reset where
  "Esys_PCR_Reset esysContext pcrHandle shandle1 shandle2 shandle3 =
     one_call (Esys_PCR_Reset_Async esysContext pcrHandle shandle1 shandle2 shandle3) Esys_PCR_Reset_Finish ()"

definition Esys_PCR_SetAuthPolicy_Async where
  "Esys_PCR_SetAuthPolicy_Async esysContext authHandle shandle1 shandle2 shandle3 authPolicy hashAlg pcrNum =
     esys_async esysContext (steps
       [feasible shandle1 shandle2 shandle3 1,
        get_node authHandle (\<lambda>authHandleNode. steps
         [with_handle authHandleNode (\<lambda>authHandle'. prepare (\<lambda>sys.
             Tss2_Sys_PCR_SetAuthPolicy_Prepare sys authHandle' authPolicy hashAlg pcrNum)),
          init_sessions shandle1 shandle2 shandle3,
          session_value_for 0 authHandleNode,
          session_value_for 1 None,
          session_value_for 2 None,
          gen_auths authHandleNode None None (\<lambda>auths. steps
           [set_auths auths,
            send])])])"

definition Esys_PCR_SetAuthPolicy_Finish where
  "Esys_PCR_SetAuthPolicy_Finish = esys_finish (steps
       [on_fst receive,
        on_fst check_response,
        complete no_out (\<lambda>(sys, _). Tss2_Sys_PCR_SetAuthPolicy_Complete sys),
        finished])"

definition Esys_PCR_SetAuthPolicy where
  "Esys_PCR_SetAuthPolicy esysContext authHandle shandle1 shandle2 shandle3 authPolicy hashAlg pcrNum =
     one_call (Esys_PCR_SetAuthPolicy_Async esysContext authHandle shandle1 shandle2 shandle3 authPolicy hashAlg pcrNum)
         Esys_PCR_SetAuthPolicy_Finish ()"

definition Esys_PCR_SetAuthValue_Async where
  "Esys_PCR_SetAuthValue_Async esysContext pcrHandle shandle1 shandle2 shandle3 auth =
     esys_async esysContext (steps
       [feasible shandle1 shandle2 shandle3 1,
        store_NV (\<lambda>i. i\<lparr>NV_nvIndex := Some pcrHandle, NV_authData := Some (auth_or_zero auth)\<rparr>),
        get_node pcrHandle (\<lambda>pcrHandleNode. steps
         [with_handle pcrHandleNode (\<lambda>pcrHandle'. prepare (\<lambda>sys.
             Tss2_Sys_PCR_SetAuthValue_Prepare sys pcrHandle' auth)),
          init_sessions shandle1 shandle2 shandle3,
          session_value_for 0 pcrHandleNode,
          session_value_for 1 None,
          session_value_for 2 None,
          gen_auths pcrHandleNode None None (\<lambda>auths. steps
           [set_auths auths,
            send])])])"

definition Esys_PCR_SetAuthValue_Finish where
  "Esys_PCR_SetAuthValue_Finish = esys_finish (on_fst (steps
       [receive,
        change_auth,
        check_response,
        complete0 (\<lambda>(sys, _). Tss2_Sys_PCR_SetAuthValue_Complete sys),
        set_state ESYS_STATE_INIT]))"

definition Esys_PCR_SetAuthValue where
  "Esys_PCR_SetAuthValue esysContext pcrHandle shandle1 shandle2 shandle3 auth =
     one_call (Esys_PCR_SetAuthValue_Async esysContext pcrHandle shandle1 shandle2 shandle3 auth)
         Esys_PCR_SetAuthValue_Finish ()"

definition Esys_Policy_AC_SendSelect_Async where
  "Esys_Policy_AC_SendSelect_Async esysContext policySession1 optionalSession2 optionalSession3 objectName authHandleName
      acName includeObject =
     esys_async esysContext (steps
       [feasible policySession1 optionalSession2 optionalSession3 0,
        get_node policySession1 (\<lambda>policySessionNode. steps
         [with_handle policySessionNode (\<lambda>policySession'. prepare (\<lambda>sys.
             Tss2_Sys_Policy_AC_SendSelect_Prepare sys policySession' objectName authHandleName acName includeObject)),
          init_sessions policySession1 optionalSession2 optionalSession3,
          session_value_for 0 None,
          session_value_for 1 None,
          session_value_for 2 None,
          gen_auths policySessionNode None None (\<lambda>auths. steps
           [set_auths auths,
            send])])])"

definition Esys_Policy_AC_SendSelect_Finish where
  "Esys_Policy_AC_SendSelect_Finish = esys_finish (steps
       [on_fst receive,
        on_fst check_response,
        complete no_out (\<lambda>(sys, _). Tss2_Sys_Policy_AC_SendSelect_Complete sys),
        finished])"

definition Esys_Policy_AC_SendSelect where
  "Esys_Policy_AC_SendSelect esysContext policySession1 optionalSession2 optionalSession3 objectName authHandleName acName
      includeObject =
     one_call (Esys_Policy_AC_SendSelect_Async esysContext policySession1 optionalSession2 optionalSession3 objectName
         authHandleName acName includeObject) Esys_Policy_AC_SendSelect_Finish ()"

definition Esys_PolicyAuthorize_Async where
  "Esys_PolicyAuthorize_Async esysContext policySession shandle1 shandle2 shandle3 approvedPolicy policyRef keySign
      checkTicket =
     esys_async esysContext (steps
       [feasible shandle1 shandle2 shandle3 0,
        get_node policySession (\<lambda>policySessionNode. steps
         [with_handle policySessionNode (\<lambda>policySession'. prepare (\<lambda>sys.
             Tss2_Sys_PolicyAuthorize_Prepare sys policySession' approvedPolicy policyRef keySign checkTicket)),
          init_sessions shandle1 shandle2 shandle3,
          session_value_for 0 None,
          session_value_for 1 None,
          session_value_for 2 None,
          gen_auths policySessionNode None None (\<lambda>auths. steps
           [set_auths auths,
            send])])])"

definition Esys_PolicyAuthorize_Finish where
  "Esys_PolicyAuthorize_Finish = esys_finish (steps
       [on_fst receive,
        on_fst check_response,
        complete no_out (\<lambda>(sys, _). Tss2_Sys_PolicyAuthorize_Complete sys),
        finished])"

definition Esys_PolicyAuthorize where
  "Esys_PolicyAuthorize esysContext policySession shandle1 shandle2 shandle3 approvedPolicy policyRef keySign checkTicket =
     one_call (Esys_PolicyAuthorize_Async esysContext policySession shandle1 shandle2 shandle3 approvedPolicy policyRef
         keySign checkTicket) Esys_PolicyAuthorize_Finish ()"

definition Esys_PolicyAuthorizeNV_Async where
  "Esys_PolicyAuthorizeNV_Async esysContext authHandle nvIndex policySession shandle1 shandle2 shandle3 =
     esys_async esysContext (steps
       [feasible shandle1 shandle2 shandle3 1,
        get_node authHandle (\<lambda>authHandleNode. steps
         [get_node nvIndex (\<lambda>nvIndexNode. steps
           [get_node policySession (\<lambda>policySessionNode. steps
             [with_handle authHandleNode (\<lambda>authHandle'. with_handle nvIndexNode (\<lambda>nvIndex'.
                 with_handle policySessionNode (\<lambda>policySession'. prepare (\<lambda>sys.
                 Tss2_Sys_PolicyAuthorizeNV_Prepare sys authHandle' nvIndex' policySession')))),
              init_sessions shandle1 shandle2 shandle3,
              session_value_for 0 authHandleNode,
              session_value_for 1 None,
              session_value_for 2 None,
              gen_auths authHandleNode nvIndexNode policySessionNode (\<lambda>auths. steps
               [set_auths auths,
                send])])])])])"

definition Esys_PolicyAuthorizeNV_Finish where
  "Esys_PolicyAuthorizeNV_Finish = esys_finish (steps
       [on_fst receive,
        on_fst check_response,
        complete no_out (\<lambda>(sys, _). Tss2_Sys_PolicyAuthorizeNV_Complete sys),
        finished])"

definition Esys_PolicyAuthorizeNV where
  "Esys_PolicyAuthorizeNV esysContext authHandle nvIndex policySession shandle1 shandle2 shandle3 =
     one_call (Esys_PolicyAuthorizeNV_Async esysContext authHandle nvIndex policySession shandle1 shandle2 shandle3)
         Esys_PolicyAuthorizeNV_Finish ()"

definition Esys_PolicyAuthValue_Async where
  "Esys_PolicyAuthValue_Async esysContext policySession shandle1 shandle2 shandle3 =
     esys_async esysContext (steps
       [feasible shandle1 shandle2 shandle3 0,
        store (IN_Policy policySession),
        get_node policySession (\<lambda>policySessionNode. steps
         [with_handle policySessionNode (\<lambda>policySession'. prepare (\<lambda>sys.
             Tss2_Sys_PolicyAuthValue_Prepare sys policySession')),
          init_sessions shandle1 shandle2 shandle3,
          session_value_for 0 None,
          session_value_for 1 None,
          session_value_for 2 None,
          gen_auths policySessionNode None None (\<lambda>auths. steps
           [set_auths auths,
            send])])])"

definition Esys_PolicyAuthValue_Finish where
  "Esys_PolicyAuthValue_Finish = esys_finish (on_fst (steps
       [receive,
        check_response,
        complete0 (\<lambda>(sys, _). Tss2_Sys_PolicyAuthValue_Complete sys),
        set_policy_type POLICY_AUTH,
        set_state ESYS_STATE_INIT]))"

definition Esys_PolicyAuthValue where
  "Esys_PolicyAuthValue esysContext policySession shandle1 shandle2 shandle3 =
     one_call (Esys_PolicyAuthValue_Async esysContext policySession shandle1 shandle2 shandle3) Esys_PolicyAuthValue_Finish ()"

definition Esys_PolicyCommandCode_Async where
  "Esys_PolicyCommandCode_Async esysContext policySession shandle1 shandle2 shandle3 code =
     esys_async esysContext (steps
       [feasible shandle1 shandle2 shandle3 0,
        get_node policySession (\<lambda>policySessionNode. steps
         [with_handle policySessionNode (\<lambda>policySession'. prepare (\<lambda>sys.
             Tss2_Sys_PolicyCommandCode_Prepare sys policySession' code)),
          init_sessions shandle1 shandle2 shandle3,
          session_value_for 0 None,
          session_value_for 1 None,
          session_value_for 2 None,
          gen_auths policySessionNode None None (\<lambda>auths. steps
           [set_auths auths,
            send])])])"

definition Esys_PolicyCommandCode_Finish where
  "Esys_PolicyCommandCode_Finish = esys_finish (steps
       [on_fst receive,
        on_fst check_response,
        complete no_out (\<lambda>(sys, _). Tss2_Sys_PolicyCommandCode_Complete sys),
        finished])"

definition Esys_PolicyCommandCode where
  "Esys_PolicyCommandCode esysContext policySession shandle1 shandle2 shandle3 code =
     one_call (Esys_PolicyCommandCode_Async esysContext policySession shandle1 shandle2 shandle3 code)
         Esys_PolicyCommandCode_Finish ()"

definition Esys_PolicyCounterTimer_Async where
  "Esys_PolicyCounterTimer_Async esysContext policySession shandle1 shandle2 shandle3 operandB offset operation =
     esys_async esysContext (steps
       [feasible shandle1 shandle2 shandle3 0,
        get_node policySession (\<lambda>policySessionNode. steps
         [with_handle policySessionNode (\<lambda>policySession'. prepare (\<lambda>sys.
             Tss2_Sys_PolicyCounterTimer_Prepare sys policySession' operandB offset operation)),
          init_sessions shandle1 shandle2 shandle3,
          session_value_for 0 None,
          session_value_for 1 None,
          session_value_for 2 None,
          gen_auths policySessionNode None None (\<lambda>auths. steps
           [set_auths auths,
            send])])])"

definition Esys_PolicyCounterTimer_Finish where
  "Esys_PolicyCounterTimer_Finish = esys_finish (steps
       [on_fst receive,
        on_fst check_response,
        complete no_out (\<lambda>(sys, _). Tss2_Sys_PolicyCounterTimer_Complete sys),
        finished])"

definition Esys_PolicyCounterTimer where
  "Esys_PolicyCounterTimer esysContext policySession shandle1 shandle2 shandle3 operandB offset operation =
     one_call (Esys_PolicyCounterTimer_Async esysContext policySession shandle1 shandle2 shandle3 operandB offset operation)
         Esys_PolicyCounterTimer_Finish ()"

definition Esys_PolicyCpHash_Async where
  "Esys_PolicyCpHash_Async esysContext policySession shandle1 shandle2 shandle3 cpHashA =
     esys_async esysContext (steps
       [feasible shandle1 shandle2 shandle3 0,
        get_node policySession (\<lambda>policySessionNode. steps
         [with_handle policySessionNode (\<lambda>policySession'. prepare (\<lambda>sys.
             Tss2_Sys_PolicyCpHash_Prepare sys policySession' cpHashA)),
          init_sessions shandle1 shandle2 shandle3,
          session_value_for 0 None,
          session_value_for 1 None,
          session_value_for 2 None,
          gen_auths policySessionNode None None (\<lambda>auths. steps
           [set_auths auths,
            send])])])"

definition Esys_PolicyCpHash_Finish where
  "Esys_PolicyCpHash_Finish = esys_finish (steps
       [on_fst receive,
        on_fst check_response,
        complete no_out (\<lambda>(sys, _). Tss2_Sys_PolicyCpHash_Complete sys),
        finished])"

definition Esys_PolicyCpHash where
  "Esys_PolicyCpHash esysContext policySession shandle1 shandle2 shandle3 cpHashA =
     one_call (Esys_PolicyCpHash_Async esysContext policySession shandle1 shandle2 shandle3 cpHashA) Esys_PolicyCpHash_Finish
         ()"

definition Esys_PolicyDuplicationSelect_Async where
  "Esys_PolicyDuplicationSelect_Async esysContext policySession shandle1 shandle2 shandle3 objectName newParentName
      includeObject =
     esys_async esysContext (steps
       [feasible shandle1 shandle2 shandle3 0,
        get_node policySession (\<lambda>policySessionNode. steps
         [with_handle policySessionNode (\<lambda>policySession'. prepare (\<lambda>sys.
             Tss2_Sys_PolicyDuplicationSelect_Prepare sys policySession' objectName newParentName includeObject)),
          init_sessions shandle1 shandle2 shandle3,
          session_value_for 0 None,
          session_value_for 1 None,
          session_value_for 2 None,
          gen_auths policySessionNode None None (\<lambda>auths. steps
           [set_auths auths,
            send])])])"

definition Esys_PolicyDuplicationSelect_Finish where
  "Esys_PolicyDuplicationSelect_Finish = esys_finish (steps
       [on_fst receive,
        on_fst check_response,
        complete no_out (\<lambda>(sys, _). Tss2_Sys_PolicyDuplicationSelect_Complete sys),
        finished])"

definition Esys_PolicyDuplicationSelect where
  "Esys_PolicyDuplicationSelect esysContext policySession shandle1 shandle2 shandle3 objectName newParentName includeObject =
     one_call (Esys_PolicyDuplicationSelect_Async esysContext policySession shandle1 shandle2 shandle3 objectName
         newParentName includeObject) Esys_PolicyDuplicationSelect_Finish ()"

definition Esys_PolicyGetDigest_Async where
  "Esys_PolicyGetDigest_Async esysContext policySession shandle1 shandle2 shandle3 =
     esys_async esysContext (steps
       [feasible shandle1 shandle2 shandle3 0,
        get_node policySession (\<lambda>policySessionNode. steps
         [with_handle policySessionNode (\<lambda>policySession'. prepare (\<lambda>sys.
             Tss2_Sys_PolicyGetDigest_Prepare sys policySession')),
          init_sessions shandle1 shandle2 shandle3,
          session_value_for 0 None,
          session_value_for 1 None,
          session_value_for 2 None,
          gen_auths policySessionNode None None (\<lambda>auths. steps
           [set_auths auths,
            send])])])"

definition Esys_PolicyGetDigest_Finish where
  "Esys_PolicyGetDigest_Finish = esys_finish (steps
       [alloc_out (zero_TPM2B 64),
        cleanup_outs (free_out (\<lambda>_. ())) (steps
          [on_fst receive,
           on_fst check_response,
           complete (ptr_out no_out) (\<lambda>(sys, policyDigest, _). Tss2_Sys_PolicyGetDigest_Complete sys policyDigest),
           finished])])"

definition Esys_PolicyGetDigest where
  "Esys_PolicyGetDigest esysContext policySession shandle1 shandle2 shandle3 policyDigest =
     one_call (Esys_PolicyGetDigest_Async esysContext policySession shandle1 shandle2 shandle3) Esys_PolicyGetDigest_Finish
         (policyDigest, ())"

end
