(* ===== verification/Esys_Commands_5.thy ===== *)
theory Esys_Commands_5
  imports Esys_Commands_4
begin

text \<open>
  The command functions of \<open>src/tss2-esys/api\<close> from \<open>PolicyLocality\<close> to \<open>SequenceComplete\<close>.
\<close>

section \<open>Commands\<close>

definition Esys_PolicyLocality_Async where
  "Esys_PolicyLocality_Async esysContext policySession shandle1 shandle2 shandle3 locality =
     esys_async esysContext (steps
       [feasible shandle1 shandle2 shandle3 0,
        get_node policySession (\<lambda>policySessionNode. steps
         [with_handle policySessionNode (\<lambda>policySession'. prepare (\<lambda>sys.
             Tss2_Sys_PolicyLocality_Prepare sys policySession' locality)),
          init_sessions shandle1 shandle2 shandle3,
          session_value_for 0 None,
          session_value_for 1 None,
          session_value_for 2 None,
          gen_auths policySessionNode None None (\<lambda>auths. steps
           [set_auths auths,
            send])])])"

definition Esys_PolicyLocality_Finish where
  "Esys_PolicyLocality_Finish = esys_finish (steps
       [on_fst receive,
        on_fst check_response,
        complete no_out (\<lambda>(sys, _). Tss2_Sys_PolicyLocality_Complete sys),
        finished])"

definition Esys_PolicyLocality where
  "Esys_PolicyLocality esysContext policySession shandle1 shandle2 shandle3 locality =
     one_call (Esys_PolicyLocality_Async esysContext policySession shandle1 shandle2 shandle3 locality)
         Esys_PolicyLocality_Finish ()"

definition Esys_PolicyNameHash_Async where
  "Esys_PolicyNameHash_Async esysContext policySession shandle1 shandle2 shandle3 nameHash =
     esys_async esysContext (steps
       [feasible shandle1 shandle2 shandle3 0,
        get_node policySession (\<lambda>policySessionNode. steps
         [with_handle policySessionNode (\<lambda>policySession'. prepare (\<lambda>sys.
             Tss2_Sys_PolicyNameHash_Prepare sys policySession' nameHash)),
          init_sessions shandle1 shandle2 shandle3,
          session_value_for 0 None,
          session_value_for 1 None,
          session_value_for 2 None,
          gen_auths policySessionNode None None (\<lambda>auths. steps
           [set_auths auths,
            send])])])"

definition Esys_PolicyNameHash_Finish where
  "Esys_PolicyNameHash_Finish = esys_finish (steps
       [on_fst receive,
        on_fst check_response,
        complete no_out (\<lambda>(sys, _). Tss2_Sys_PolicyNameHash_Complete sys),
        finished])"

definition Esys_PolicyNameHash where
  "Esys_PolicyNameHash esysContext policySession shandle1 shandle2 shandle3 nameHash =
     one_call (Esys_PolicyNameHash_Async esysContext policySession shandle1 shandle2 shandle3 nameHash)
         Esys_PolicyNameHash_Finish ()"

definition Esys_PolicyNV_Async where
  "Esys_PolicyNV_Async esysContext authHandle nvIndex policySession shandle1 shandle2 shandle3 operandB offset operation =
     esys_async esysContext (steps
       [feasible shandle1 shandle2 shandle3 1,
        get_node authHandle (\<lambda>authHandleNode. steps
         [get_node nvIndex (\<lambda>nvIndexNode. steps
           [get_node policySession (\<lambda>policySessionNode. steps
             [with_handle authHandleNode (\<lambda>authHandle'. with_handle nvIndexNode (\<lambda>nvIndex'.
                 with_handle policySessionNode (\<lambda>policySession'. prepare (\<lambda>sys.
                 Tss2_Sys_PolicyNV_Prepare sys authHandle' nvIndex' policySession' operandB offset operation)))),
              init_sessions shandle1 shandle2 shandle3,
              session_value_for 0 authHandleNode,
              session_value_for 1 None,
              session_value_for 2 None,
              gen_auths authHandleNode nvIndexNode policySessionNode (\<lambda>auths. steps
               [set_auths auths,
                send])])])])])"

definition Esys_PolicyNV_Finish where
  "Esys_PolicyNV_Finish = esys_finish (steps
       [on_fst receive,
        on_fst check_response,
        complete no_out (\<lambda>(sys, _). Tss2_Sys_PolicyNV_Complete sys),
        finished])"

definition Esys_PolicyNV where
  "Esys_PolicyNV esysContext authHandle nvIndex policySession shandle1 shandle2 shandle3 operandB offset operation =
     one_call (Esys_PolicyNV_Async esysContext authHandle nvIndex policySession shandle1 shandle2 shandle3 operandB offset
         operation) Esys_PolicyNV_Finish ()"

definition Esys_PolicyNvWritten_Async where
  "Esys_PolicyNvWritten_Async esysContext policySession shandle1 shandle2 shandle3 writtenSet =
     esys_async esysContext (steps
       [feasible shandle1 shandle2 shandle3 0,
        get_node policySession (\<lambda>policySessionNode. steps
         [with_handle policySessionNode (\<lambda>policySession'. prepare (\<lambda>sys.
             Tss2_Sys_PolicyNvWritten_Prepare sys policySession' writtenSet)),
          init_sessions shandle1 shandle2 shandle3,
          session_value_for 0 None,
          session_value_for 1 None,
          session_value_for 2 None,
          gen_auths policySessionNode None None (\<lambda>auths. steps
           [set_auths auths,
            send])])])"

definition Esys_PolicyNvWritten_Finish where
  "Esys_PolicyNvWritten_Finish = esys_finish (steps
       [on_fst receive,
        on_fst check_response,
        complete no_out (\<lambda>(sys, _). Tss2_Sys_PolicyNvWritten_Complete sys),
        finished])"

definition Esys_PolicyNvWritten where
  "Esys_PolicyNvWritten esysContext policySession shandle1 shandle2 shandle3 writtenSet =
     one_call (Esys_PolicyNvWritten_Async esysContext policySession shandle1 shandle2 shandle3 writtenSet)
         Esys_PolicyNvWritten_Finish ()"

definition Esys_PolicyOR_Async where
  "Esys_PolicyOR_Async esysContext policySession shandle1 shandle2 shandle3 pHashList =
     esys_async esysContext (steps
       [feasible shandle1 shandle2 shandle3 0,
        get_node policySession (\<lambda>policySessionNode. steps
         [with_handle policySessionNode (\<lambda>policySession'. prepare (\<lambda>sys.
             Tss2_Sys_PolicyOR_Prepare sys policySession' pHashList)),
          init_sessions shandle1 shandle2 shandle3,
          session_value_for 0 None,
          session_value_for 1 None,
          session_value_for 2 None,
          gen_auths policySessionNode None None (\<lambda>auths. steps
           [set_auths auths,
            send])])])"

definition Esys_PolicyOR_Finish where
  "Esys_PolicyOR_Finish = esys_finish (steps
       [on_fst receive,
        on_fst check_response,
        complete no_out (\<lambda>(sys, _). Tss2_Sys_PolicyOR_Complete sys),
        finished])"

definition Esys_PolicyOR where
  "Esys_PolicyOR esysContext policySession shandle1 shandle2 shandle3 pHashList =
     one_call (Esys_PolicyOR_Async esysContext policySession shandle1 shandle2 shandle3 pHashList) Esys_PolicyOR_Finish ()"

definition Esys_PolicyPassword_Async where
  "Esys_PolicyPassword_Async esysContext policySession shandle1 shandle2 shandle3 =
     esys_async esysContext (steps
       [feasible shandle1 shandle2 shandle3 0,
        store (IN_Policy policySession),
        get_node policySession (\<lambda>policySessionNode. steps
         [with_handle policySessionNode (\<lambda>policySession'. prepare (\<lambda>sys.
             Tss2_Sys_PolicyPassword_Prepare sys policySession')),
          init_sessions shandle1 shandle2 shandle3,
          session_value_for 0 None,
          session_value_for 1 None,
          session_value_for 2 None,
          gen_auths policySessionNode None None (\<lambda>auths. steps
           [set_auths auths,
            send])])])"

definition Esys_PolicyPassword_Finish where
  "Esys_PolicyPassword_Finish = esys_finish (on_fst (steps
       [receive,
        check_response,
        complete0 (\<lambda>(sys, _). Tss2_Sys_PolicyPassword_Complete sys),
        set_policy_type POLICY_PASSWORD,
        set_state ESYS_STATE_INIT]))"

definition Esys_PolicyPassword where
  "Esys_PolicyPassword esysContext policySession shandle1 shandle2 shandle3 =
     one_call (Esys_PolicyPassword_Async esysContext policySession shandle1 shandle2 shandle3) Esys_PolicyPassword_Finish ()"

definition Esys_PolicyPCR_Async where
  "Esys_PolicyPCR_Async esysContext policySession shandle1 shandle2 shandle3 pcrDigest pcrs =
     esys_async esysContext (steps
       [feasible shandle1 shandle2 shandle3 0,
        get_node policySession (\<lambda>policySessionNode. steps
         [with_handle policySessionNode (\<lambda>policySession'. prepare (\<lambda>sys.
             Tss2_Sys_PolicyPCR_Prepare sys policySession' pcrDigest pcrs)),
          init_sessions shandle1 shandle2 shandle3,
          session_value_for 0 None,
          session_value_for 1 None,
          session_value_for 2 None,
          gen_auths policySessionNode None None (\<lambda>auths. steps
           [set_auths auths,
            send])])])"

definition Esys_PolicyPCR_Finish where
  "Esys_PolicyPCR_Finish = esys_finish (steps
       [on_fst receive,
        on_fst check_response,
        complete no_out (\<lambda>(sys, _). Tss2_Sys_PolicyPCR_Complete sys),
        finished])"

definition Esys_PolicyPCR where
  "Esys_PolicyPCR esysContext policySession shandle1 shandle2 shandle3 pcrDigest pcrs =
     one_call (Esys_PolicyPCR_Async esysContext policySession shandle1 shandle2 shandle3 pcrDigest pcrs)
         Esys_PolicyPCR_Finish ()"

definition Esys_PolicyPhysicalPresence_Async where
  "Esys_PolicyPhysicalPresence_Async esysContext policySession shandle1 shandle2 shandle3 =
     esys_async esysContext (steps
       [feasible shandle1 shandle2 shandle3 0,
        get_node policySession (\<lambda>policySessionNode. steps
         [with_handle policySessionNode (\<lambda>policySession'. prepare (\<lambda>sys.
             Tss2_Sys_PolicyPhysicalPresence_Prepare sys policySession')),
          init_sessions shandle1 shandle2 shandle3,
          session_value_for 0 None,
          session_value_for 1 None,
          session_value_for 2 None,
          gen_auths policySessionNode None None (\<lambda>auths. steps
           [set_auths auths,
            send])])])"

definition Esys_PolicyPhysicalPresence_Finish where
  "Esys_PolicyPhysicalPresence_Finish = esys_finish (steps
       [on_fst receive,
        on_fst check_response,
        complete no_out (\<lambda>(sys, _). Tss2_Sys_PolicyPhysicalPresence_Complete sys),
        finished])"

definition Esys_PolicyPhysicalPresence where
  "Esys_PolicyPhysicalPresence esysContext policySession shandle1 shandle2 shandle3 =
     one_call (Esys_PolicyPhysicalPresence_Async esysContext policySession shandle1 shandle2 shandle3)
         Esys_PolicyPhysicalPresence_Finish ()"

definition Esys_PolicyRestart_Async where
  "Esys_PolicyRestart_Async esysContext sessionHandle shandle1 shandle2 shandle3 =
     esys_async esysContext (steps
       [feasible shandle1 shandle2 shandle3 0,
        get_node sessionHandle (\<lambda>sessionHandleNode. steps
         [with_handle sessionHandleNode (\<lambda>sessionHandle'. prepare (\<lambda>sys.
             Tss2_Sys_PolicyRestart_Prepare sys sessionHandle')),
          init_sessions shandle1 shandle2 shandle3,
          session_value_for 0 None,
          session_value_for 1 None,
          session_value_for 2 None,
          gen_auths sessionHandleNode None None (\<lambda>auths. steps
           [set_auths auths,
            send])])])"

definition Esys_PolicyRestart_Finish where
  "Esys_PolicyRestart_Finish = esys_finish (steps
       [on_fst receive,
        on_fst check_response,
        complete no_out (\<lambda>(sys, _). Tss2_Sys_PolicyRestart_Complete sys),
        finished])"

definition Esys_PolicyRestart where
  "Esys_PolicyRestart esysContext sessionHandle shandle1 shandle2 shandle3 =
     one_call (Esys_PolicyRestart_Async esysContext sessionHandle shandle1 shandle2 shandle3) Esys_PolicyRestart_Finish ()"

definition Esys_PolicySecret_Async where
  "Esys_PolicySecret_Async esysContext authHandle policySession shandle1 shandle2 shandle3 nonceTPM cpHashA policyRef
      expiration =
     esys_async esysContext (steps
       [feasible shandle1 shandle2 shandle3 1,
        get_node authHandle (\<lambda>authHandleNode. steps
         [get_node policySession (\<lambda>policySessionNode. steps
           [with_handle authHandleNode (\<lambda>authHandle'. with_handle policySessionNode (\<lambda>policySession'.
               prepare (\<lambda>sys. Tss2_Sys_PolicySecret_Prepare sys authHandle' policySession' nonceTPM cpHashA policyRef
               expiration))),
            init_sessions shandle1 shandle2 shandle3,
            session_value_for 0 authHandleNode,
            session_value_for 1 None,
            session_value_for 2 None,
            gen_auths authHandleNode policySessionNode None (\<lambda>auths. steps
             [set_auths auths,
              send])])])])"

definition Esys_PolicySecret_Finish where
  "Esys_PolicySecret_Finish = esys_finish (steps
       [alloc_out (zero_TPM2B 64),
        cleanup_outs (free_out (free_out (\<lambda>_. ()))) (steps
          [next_out (alloc_out zero_TPMT_TK_AUTH),
           on_fst receive,
           on_fst check_response,
           complete (ptr_out (ptr_out no_out)) (\<lambda>(sys, timeout, policyTicket, _).
               Tss2_Sys_PolicySecret_Complete sys timeout policyTicket),
           finished])])"

definition Esys_PolicySecret where
  "Esys_PolicySecret esysContext authHandle policySession shandle1 shandle2 shandle3 nonceTPM cpHashA policyRef expiration
      timeout policyTicket =
     one_call (Esys_PolicySecret_Async esysContext authHandle policySession shandle1 shandle2 shandle3 nonceTPM cpHashA
         policyRef expiration) Esys_PolicySecret_Finish (timeout, policyTicket, ())"

definition Esys_PolicySigned_Async where
  "Esys_PolicySigned_Async esysContext authObject policySession shandle1 shandle2 shandle3 nonceTPM cpHashA policyRef
      expiration auth =
     esys_async esysContext (steps
       [feasible shandle1 shandle2 shandle3 0,
        get_node authObject (\<lambda>authObjectNode. steps
         [get_node policySession (\<lambda>policySessionNode. steps
           [with_handle authObjectNode (\<lambda>authObject'. with_handle policySessionNode (\<lambda>policySession'.
               prepare (\<lambda>sys. Tss2_Sys_PolicySigned_Prepare sys authObject' policySession' nonceTPM cpHashA policyRef
               expiration auth))),
            init_sessions shandle1 shandle2 shandle3,
            session_value_for 0 None,
            session_value_for 1 None,
            session_value_for 2 None,
            gen_auths authObjectNode policySessionNode None (\<lambda>auths. steps
             [set_auths auths,
              send])])])])"

definition Esys_PolicySigned_Finish where
  "Esys_PolicySigned_Finish = esys_finish (steps
       [alloc_out (zero_TPM2B 64),
        cleanup_outs (free_out (free_out (\<lambda>_. ()))) (steps
          [next_out (alloc_out zero_TPMT_TK_AUTH),
           on_fst receive,
           on_fst check_response,
           complete (ptr_out (ptr_out no_out)) (\<lambda>(sys, timeout, policyTicket, _).
               Tss2_Sys_PolicySigned_Complete sys timeout policyTicket),
           finished])])"

definition Esys_PolicySigned where
  "Esys_PolicySigned esysContext authObject policySession shandle1 shandle2 shandle3 nonceTPM cpHashA policyRef expiration
      auth timeout policyTicket =
     one_call (Esys_PolicySigned_Async esysContext authObject policySession shandle1 shandle2 shandle3 nonceTPM cpHashA
         policyRef expiration auth) Esys_PolicySigned_Finish (timeout, policyTicket, ())"

definition Esys_PolicyTemplate_Async where
  "Esys_PolicyTemplate_Async esysContext policySession shandle1 shandle2 shandle3 templateHash =
     esys_async esysContext (steps
       [feasible shandle1 shandle2 shandle3 0,
        get_node policySession (\<lambda>policySessionNode. steps
         [with_handle policySessionNode (\<lambda>policySession'. prepare (\<lambda>sys.
             Tss2_Sys_PolicyTemplate_Prepare sys policySession' templateHash)),
          init_sessions shandle1 shandle2 shandle3,
          session_value_for 0 None,
          session_value_for 1 None,
          session_value_for 2 None,
          gen_auths policySessionNode None None (\<lambda>auths. steps
           [set_auths auths,
            send])])])"

definition Esys_PolicyTemplate_Finish where
  "Esys_PolicyTemplate_Finish = esys_finish (steps
       [on_fst receive,
        on_fst check_response,
        complete no_out (\<lambda>(sys, _). Tss2_Sys_PolicyTemplate_Complete sys),
        finished])"

definition Esys_PolicyTemplate where
  "Esys_PolicyTemplate esysContext policySession shandle1 shandle2 shandle3 templateHash =
     one_call (Esys_PolicyTemplate_Async esysContext policySession shandle1 shandle2 shandle3 templateHash)
         Esys_PolicyTemplate_Finish ()"

definition Esys_PolicyTicket_Async where
  "Esys_PolicyTicket_Async esysContext policySession shandle1 shandle2 shandle3 timeout cpHashA policyRef authName ticket =
     esys_async esysContext (steps
       [feasible shandle1 shandle2 shandle3 0,
        get_node policySession (\<lambda>policySessionNode. steps
         [with_handle policySessionNode (\<lambda>policySession'. prepare (\<lambda>sys.
             Tss2_Sys_PolicyTicket_Prepare sys policySession' timeout cpHashA policyRef authName ticket)),
          init_sessions shandle1 shandle2 shandle3,
          session_value_for 0 None,
          session_value_for 1 None,
          session_value_for 2 None,
          gen_auths policySessionNode None None (\<lambda>auths. steps
           [set_auths auths,
            send])])])"

definition Esys_PolicyTicket_Finish where
  "Esys_PolicyTicket_Finish = esys_finish (steps
       [on_fst receive,
        on_fst check_response,
        complete no_out (\<lambda>(sys, _). Tss2_Sys_PolicyTicket_Complete sys),
        finished])"

definition Esys_PolicyTicket where
  "Esys_PolicyTicket esysContext policySession shandle1 shandle2 shandle3 timeout cpHashA policyRef authName ticket =
     one_call (Esys_PolicyTicket_Async esysContext policySession shandle1 shandle2 shandle3 timeout cpHashA policyRef
         authName ticket) Esys_PolicyTicket_Finish ()"

definition Esys_PP_Commands_Async where
  "Esys_PP_Commands_Async esysContext auth shandle1 shandle2 shandle3 setList clearList =
     esys_async esysContext (steps
       [feasible shandle1 shandle2 shandle3 1,
        get_node auth (\<lambda>authNode. steps
         [with_handle authNode (\<lambda>auth'. prepare (\<lambda>sys.
             Tss2_Sys_PP_Commands_Prepare sys auth' setList clearList)),
          init_sessions shandle1 shandle2 shandle3,
          session_value_for 0 authNode,
          session_value_for 1 None,
          session_value_for 2 None,
          gen_auths authNode None None (\<lambda>auths. steps
           [set_auths auths,
            send])])])"

definition Esys_PP_Commands_Finish where
  "Esys_PP_Commands_Finish = esys_finish (steps
       [on_fst receive,
        on_fst check_response,
        complete no_out (\<lambda>(sys, _). Tss2_Sys_PP_Commands_Complete sys),
        finished])"

definition Esys_PP_Commands where
  "Esys_PP_Commands esysContext auth shandle1 shandle2 shandle3 setList clearList =
     one_call (Esys_PP_Commands_Async esysContext auth shandle1 shandle2 shandle3 setList clearList) Esys_PP_Commands_Finish ()"

definition Esys_Quote_Async where
  "Esys_Quote_Async esysContext signHandle shandle1 shandle2 shandle3 qualifyingData inScheme PCRselect =
     esys_async esysContext (steps
       [feasible shandle1 shandle2 shandle3 1,
        get_node signHandle (\<lambda>signHandleNode. steps
         [with_handle signHandleNode (\<lambda>signHandle'. prepare (\<lambda>sys.
             Tss2_Sys_Quote_Prepare sys signHandle' qualifyingData inScheme PCRselect)),
          init_sessions shandle1 shandle2 shandle3,
          session_value_for 0 signHandleNode,
          session_value_for 1 None,
          session_value_for 2 None,
          gen_auths signHandleNode None None (\<lambda>auths. steps
           [set_auths auths,
            send])])])"

definition Esys_Quote_Finish where
  "Esys_Quote_Finish = esys_finish (steps
       [alloc_out (zero_TPM2B 2304),
        cleanup_outs (free_out (free_out (\<lambda>_. ()))) (steps
          [next_out (alloc_out zero_TPMT_SIGNATURE),
           on_fst receive,
           on_fst check_response,
           complete (ptr_out (ptr_out no_out)) (\<lambda>(sys, quoted, signature, _).
               Tss2_Sys_Quote_Complete sys quoted signature),
           finished])])"

definition Esys_Quote where
  "Esys_Quote esysContext signHandle shandle1 shandle2 shandle3 qualifyingData inScheme PCRselect quoted signature =
     one_call (Esys_Quote_Async esysContext signHandle shandle1 shandle2 shandle3 qualifyingData inScheme PCRselect)
         Esys_Quote_Finish (quoted, signature, ())"

definition Esys_ReadClock_Async where
  "Esys_ReadClock_Async esysContext shandle1 shandle2 shandle3 =
     esys_async esysContext (steps
       [feasible shandle1 shandle2 shandle3 0,
        prepare (\<lambda>sys. Tss2_Sys_ReadClock_Prepare sys),
        init_sessions shandle1 shandle2 shandle3,
        session_value_for 0 None,
        session_value_for 1 None,
        session_value_for 2 None,
        gen_auths None None None (\<lambda>auths. steps
         [set_auths auths,
          send])])"

definition Esys_ReadClock_Finish where
  "Esys_ReadClock_Finish = esys_finish (steps
       [alloc_out zero_TPMS_TIME_INFO,
        cleanup_outs (free_out (\<lambda>_. ())) (steps
          [on_fst receive,
           on_fst check_response,
           complete (ptr_out no_out) (\<lambda>(sys, currentTime, _). Tss2_Sys_ReadClock_Complete sys currentTime),
           finished])])"

definition Esys_ReadClock where
  "Esys_ReadClock esysContext shandle1 shandle2 shandle3 currentTime =
     one_call (Esys_ReadClock_Async esysContext shandle1 shandle2 shandle3) Esys_ReadClock_Finish (currentTime, ())"

definition Esys_ReadPublic_Async where
  "Esys_ReadPublic_Async esysContext objectHandle shandle1 shandle2 shandle3 =
     esys_async esysContext (steps
       [feasible shandle1 shandle2 shandle3 0,
        get_node objectHandle (\<lambda>objectHandleNode. steps
         [with_handle objectHandleNode (\<lambda>objectHandle'. prepare (\<lambda>sys.
             Tss2_Sys_ReadPublic_Prepare sys objectHandle')),
          init_sessions shandle1 shandle2 shandle3,
          session_value_for 0 None,
          session_value_for 1 None,
          session_value_for 2 None,
          gen_auths objectHandleNode None None (\<lambda>auths. steps
           [set_auths auths,
            send])])])"

definition Esys_ReadPublic_Finish where
  "Esys_ReadPublic_Finish = esys_finish (steps
       [next_out (next_out null_out),
        alloc_out (zero_SUBTYPE zero_TPMT_PUBLIC),
        cleanup_outs (free_out (free_out (free_out (\<lambda>_. ())))) (steps
          [next_out (alloc_out (zero_TPM2B 68)),
           next_out (next_out (alloc_out (zero_TPM2B 68))),
           on_fst receive,
           on_fst check_response,
           complete (ptr_out (ptr_out (ptr_out no_out))) (\<lambda>(sys, outPublic, name, qualifiedName, _).
               Tss2_Sys_ReadPublic_Complete sys outPublic name qualifiedName),
           finished])])"

definition Esys_ReadPublic where
  "Esys_ReadPublic esysContext objectHandle shandle1 shandle2 shandle3 outPublic name qualifiedName =
     one_call (Esys_ReadPublic_Async esysContext objectHandle shandle1 shandle2 shandle3) Esys_ReadPublic_Finish (outPublic,
         name, qualifiedName, ())"

definition Esys_Rewrap_Async where
  "Esys_Rewrap_Async esysContext oldParent newParent shandle1 shandle2 shandle3 inDuplicate name inSymSeed =
     esys_async esysContext (steps
       [feasible shandle1 shandle2 shandle3 1,
        get_node oldParent (\<lambda>oldParentNode. steps
         [get_node newParent (\<lambda>newParentNode. steps
           [with_handle oldParentNode (\<lambda>oldParent'. with_handle newParentNode (\<lambda>newParent'.
               prepare (\<lambda>sys. Tss2_Sys_Rewrap_Prepare sys oldParent' newParent' inDuplicate name inSymSeed))),
            init_sessions shandle1 shandle2 shandle3,
            session_value_for 0 oldParentNode,
            session_value_for 1 None,
            session_value_for 2 None,
            gen_auths oldParentNode newParentNode None (\<lambda>auths. steps
             [set_auths auths,
              send])])])])"

definition Esys_Rewrap_Finish where
  "Esys_Rewrap_Finish = esys_finish (steps
       [alloc_out (zero_TPM2B 1550),
        cleanup_outs (free_out (free_out (\<lambda>_. ()))) (steps
          [next_out (alloc_out (zero_TPM2B 1568)),
           on_fst receive,
           on_fst check_response,
           complete (ptr_out (ptr_out no_out)) (\<lambda>(sys, outDuplicate, outSymSeed, _).
               Tss2_Sys_Rewrap_Complete sys outDuplicate outSymSeed),
           finished])])"

definition Esys_Rewrap where
  "Esys_Rewrap esysContext oldParent newParent shandle1 shandle2 shandle3 inDuplicate name inSymSeed outDuplicate outSymSeed =
     one_call (Esys_Rewrap_Async esysContext oldParent newParent shandle1 shandle2 shandle3 inDuplicate name inSymSeed)
         Esys_Rewrap_Finish (outDuplicate, outSymSeed, ())"

definition Esys_RSA_Decrypt_Async where
  "Esys_RSA_Decrypt_Async esysContext keyHandle shandle1 shandle2 shandle3 cipherText inScheme label =
     esys_async esysContext (steps
       [feasible shandle1 shandle2 shandle3 1,
        get_node keyHandle (\<lambda>keyHandleNode. steps
         [with_handle keyHandleNode (\<lambda>keyHandle'. prepare (\<lambda>sys.
             Tss2_Sys_RSA_Decrypt_Prepare sys keyHandle' cipherText inScheme label)),
          init_sessions shandle1 shandle2 shandle3,
          session_value_for 0 keyHandleNode,
          session_value_for 1 None,
          session_value_for 2 None,
          gen_auths keyHandleNode None None (\<lambda>auths. steps
           [set_auths auths,
            send])])])"

definition Esys_RSA_Decrypt_Finish where
  "Esys_RSA_Decrypt_Finish = esys_finish (steps
       [alloc_out (zero_TPM2B 512),
        cleanup_outs (free_out (\<lambda>_. ())) (steps
          [on_fst receive,
           on_fst check_response,
           complete (ptr_out no_out) (\<lambda>(sys, message, _). Tss2_Sys_RSA_Decrypt_Complete sys message),
           finished])])"

definition Esys_RSA_Decrypt where
  "Esys_RSA_Decrypt esysContext keyHandle shandle1 shandle2 shandle3 cipherText inScheme label message =
     one_call (Esys_RSA_Decrypt_Async esysContext keyHandle shandle1 shandle2 shandle3 cipherText inScheme label)
         Esys_RSA_Decrypt_Finish (message, ())"

definition Esys_RSA_Encrypt_Async where
  "Esys_RSA_Encrypt_Async esysContext keyHandle shandle1 shandle2 shandle3 message inScheme label =
     esys_async esysContext (steps
       [feasible shandle1 shandle2 shandle3 0,
        get_node keyHandle (\<lambda>keyHandleNode. steps
         [with_handle keyHandleNode (\<lambda>keyHandle'. prepare (\<lambda>sys.
             Tss2_Sys_RSA_Encrypt_Prepare sys keyHandle' message inScheme label)),
          init_sessions shandle1 shandle2 shandle3,
          session_value_for 0 None,
          session_value_for 1 None,
          session_value_for 2 None,
          gen_auths keyHandleNode None None (\<lambda>auths. steps
           [set_auths auths,
            send])])])"

definition Esys_RSA_Encrypt_Finish where
  "Esys_RSA_Encrypt_Finish = esys_finish (steps
       [alloc_out (zero_TPM2B 512),
        cleanup_outs (free_out (\<lambda>_. ())) (steps
          [on_fst receive,
           on_fst check_response,
           complete (ptr_out no_out) (\<lambda>(sys, outData, _). Tss2_Sys_RSA_Encrypt_Complete sys outData),
           finished])])"

definition Esys_RSA_Encrypt where
  "Esys_RSA_Encrypt esysContext keyHandle shandle1 shandle2 shandle3 message inScheme label outData =
     one_call (Esys_RSA_Encrypt_Async esysContext keyHandle shandle1 shandle2 shandle3 message inScheme label)
         Esys_RSA_Encrypt_Finish (outData, ())"

definition Esys_SelfTest_Async where
  "Esys_SelfTest_Async esysContext shandle1 shandle2 shandle3 fullTest =
     esys_async esysContext (steps
       [feasible shandle1 shandle2 shandle3 0,
        prepare (\<lambda>sys. Tss2_Sys_SelfTest_Prepare sys fullTest),
        init_sessions shandle1 shandle2 shandle3,
        session_value_for 0 None,
        session_value_for 1 None,
        session_value_for 2 None,
        gen_auths None None None (\<lambda>auths. steps
         [set_auths auths,
          send])])"

definition Esys_SelfTest_Finish where
  "Esys_SelfTest_Finish = esys_finish (steps
       [on_fst receive,
        on_fst check_response,
        complete no_out (\<lambda>(sys, _). Tss2_Sys_SelfTest_Complete sys),
        finished])"

definition Esys_SelfTest where
  "Esys_SelfTest esysContext shandle1 shandle2 shandle3 fullTest =
     one_call (Esys_SelfTest_Async esysContext shandle1 shandle2 shandle3 fullTest) Esys_SelfTest_Finish ()"

definition Esys_SequenceComplete_Async where
  "Esys_SequenceComplete_Async esysContext sequenceHandle shandle1 shandle2 shandle3 buffer hierarchy =
     hierarchy_arg hierarchy esysContext (\<lambda>tpm_hierarchy. esys_async esysContext (steps
       [feasible shandle1 shandle2 shandle3 1,
        store (IN_SequenceComplete sequenceHandle),
        get_node sequenceHandle (\<lambda>sequenceHandleNode. steps
         [with_handle sequenceHandleNode (\<lambda>sequenceHandle'. prepare (\<lambda>sys.
             Tss2_Sys_SequenceComplete_Prepare sys sequenceHandle' buffer tpm_hierarchy)),
          init_sessions shandle1 shandle2 shandle3,
          session_value_for 0 sequenceHandleNode,
          session_value_for 1 None,
          session_value_for 2 None,
          gen_auths sequenceHandleNode None None (\<lambda>auths. steps
           [set_auths auths,
            send])])]))"

definition Esys_SequenceComplete_Finish where
  "Esys_SequenceComplete_Finish = esys_finish (steps
       [alloc_out (zero_TPM2B 64),
        cleanup_outs (free_out (free_out (\<lambda>_. ()))) (steps
          [next_out (alloc_out zero_TPMT_TK_HASHCHECK),
           on_fst receive,
           on_fst check_response,
           complete (ptr_out (ptr_out no_out)) (\<lambda>(sys, result, validation, _). Tss2_Sys_SequenceComplete_Complete sys result validation),
           on_fst (close_in in_sequence (\<lambda>h _. IN_SequenceComplete h)),
           finished])])"

definition Esys_SequenceComplete where
  "Esys_SequenceComplete esysContext sequenceHandle shandle1 shandle2 shandle3 buffer hierarchy result validation =
     one_call (Esys_SequenceComplete_Async esysContext sequenceHandle shandle1 shandle2 shandle3 buffer hierarchy)
         Esys_SequenceComplete_Finish (result, validation, ())"

end
