(* ===== verification/Esys_Commands_6.thy ===== *)
theory Esys_Commands_6
  imports Esys_Commands_5
begin

text \<open>
  The command functions of \<open>src/tss2-esys/api\<close> from \<open>SequenceUpdate\<close> to \<open>ZGen_2Phase\<close>.
\<close>

section \<open>Commands\<close>

definition Esys_SequenceUpdate_Async where
  "Esys_SequenceUpdate_Async esysContext sequenceHandle shandle1 shandle2 shandle3 buffer =
     esys_async esysContext (steps
       [feasible shandle1 shandle2 shandle3 1,
        get_node sequenceHandle (\<lambda>sequenceHandleNode. steps
         [with_handle sequenceHandleNode (\<lambda>sequenceHandle'. prepare (\<lambda>sys.
             Tss2_Sys_SequenceUpdate_Prepare sys sequenceHandle' buffer)),
          init_sessions shandle1 shandle2 shandle3,
          session_value_for 0 sequenceHandleNode,
          session_value_for 1 None,
          session_value_for 2 None,
          gen_auths sequenceHandleNode None None (\<lambda>auths. steps
           [set_auths auths,
            send])])])"

definition Esys_SequenceUpdate_Finish where
  "Esys_SequenceUpdate_Finish = esys_finish (steps
       [on_fst receive,
        on_fst check_response,
        complete no_out (\<lambda>(sys, _). Tss2_Sys_SequenceUpdate_Complete sys),
        finished])"

definition Esys_SequenceUpdate where
  "Esys_SequenceUpdate esysContext sequenceHandle shandle1 shandle2 shandle3 buffer =
     one_call (Esys_SequenceUpdate_Async esysContext sequenceHandle shandle1 shandle2 shandle3 buffer)
         Esys_SequenceUpdate_Finish ()"

definition Esys_SetAlgorithmSet_Async where
  "Esys_SetAlgorithmSet_Async esysContext authHandle shandle1 shandle2 shandle3 algorithmSet =
     esys_async esysContext (steps
       [feasible shandle1 shandle2 shandle3 1,
        get_node authHandle (\<lambda>authHandleNode. steps
         [with_handle authHandleNode (\<lambda>authHandle'. prepare (\<lambda>sys.
             Tss2_Sys_SetAlgorithmSet_Prepare sys authHandle' algorithmSet)),
          init_sessions shandle1 shandle2 shandle3,
          session_value_for 0 authHandleNode,
          session_value_for 1 None,
          session_value_for 2 None,
          gen_auths authHandleNode None None (\<lambda>auths. steps
           [set_auths auths,
            send])])])"

definition Esys_SetAlgorithmSet_Finish where
  "Esys_SetAlgorithmSet_Finish = esys_finish (steps
       [on_fst receive,
        on_fst check_response,
        complete no_out (\<lambda>(sys, _). Tss2_Sys_SetAlgorithmSet_Complete sys),
        finished])"

definition Esys_SetAlgorithmSet where
  "Esys_SetAlgorithmSet esysContext authHandle shandle1 shandle2 shandle3 algorithmSet =
     one_call (Esys_SetAlgorithmSet_Async esysContext authHandle shandle1 shandle2 shandle3 algorithmSet)
         Esys_SetAlgorithmSet_Finish ()"

definition Esys_SetCommandCodeAuditStatus_Async where
  "Esys_SetCommandCodeAuditStatus_Async esysContext auth shandle1 shandle2 shandle3 auditAlg setList clearList =
     esys_async esysContext (steps
       [feasible shandle1 shandle2 shandle3 1,
        get_node auth (\<lambda>authNode. steps
         [with_handle authNode (\<lambda>auth'. prepare (\<lambda>sys.
             Tss2_Sys_SetCommandCodeAuditStatus_Prepare sys auth' auditAlg setList clearList)),
          init_sessions shandle1 shandle2 shandle3,
          session_value_for 0 authNode,
          session_value_for 1 None,
          session_value_for 2 None,
          gen_auths authNode None None (\<lambda>auths. steps
           [set_auths auths,
            send])])])"

definition Esys_SetCommandCodeAuditStatus_Finish where
  "Esys_SetCommandCodeAuditStatus_Finish = esys_finish (steps
       [on_fst receive,
        on_fst check_response,
        complete no_out (\<lambda>(sys, _). Tss2_Sys_SetCommandCodeAuditStatus_Complete sys),
        finished])"

definition Esys_SetCommandCodeAuditStatus where
  "Esys_SetCommandCodeAuditStatus esysContext auth shandle1 shandle2 shandle3 auditAlg setList clearList =
     one_call (Esys_SetCommandCodeAuditStatus_Async esysContext auth shandle1 shandle2 shandle3 auditAlg setList clearList)
         Esys_SetCommandCodeAuditStatus_Finish ()"

definition Esys_SetPrimaryPolicy_Async where
  "Esys_SetPrimaryPolicy_Async esysContext authHandle shandle1 shandle2 shandle3 authPolicy hashAlg =
     esys_async esysContext (steps
       [feasible shandle1 shandle2 shandle3 1,
        get_node authHandle (\<lambda>authHandleNode. steps
         [with_handle authHandleNode (\<lambda>authHandle'. prepare (\<lambda>sys.
             Tss2_Sys_SetPrimaryPolicy_Prepare sys authHandle' authPolicy hashAlg)),
          init_sessions shandle1 shandle2 shandle3,
          session_value_for 0 authHandleNode,
          session_value_for 1 None,
          session_value_for 2 None,
          gen_auths authHandleNode None None (\<lambda>auths. steps
           [set_auths auths,
            send])])])"

definition Esys_SetPrimaryPolicy_Finish where
  "Esys_SetPrimaryPolicy_Finish = esys_finish (steps
       [on_fst receive,
        on_fst check_response,
        complete no_out (\<lambda>(sys, _). Tss2_Sys_SetPrimaryPolicy_Complete sys),
        finished])"

definition Esys_SetPrimaryPolicy where
  "Esys_SetPrimaryPolicy esysContext authHandle shandle1 shandle2 shandle3 authPolicy hashAlg =
     one_call (Esys_SetPrimaryPolicy_Async esysContext authHandle shandle1 shandle2 shandle3 authPolicy hashAlg)
         Esys_SetPrimaryPolicy_Finish ()"

definition Esys_Shutdown_Async where
  "Esys_Shutdown_Async esysContext shandle1 shandle2 shandle3 shutdownType =
     esys_async esysContext (steps
       [feasible shandle1 shandle2 shandle3 0,
        prepare (\<lambda>sys. Tss2_Sys_Shutdown_Prepare sys shutdownType),
        init_sessions shandle1 shandle2 shandle3,
        session_value_for 0 None,
        session_value_for 1 None,
        session_value_for 2 None,
        gen_auths None None None (\<lambda>auths. steps
         [set_auths auths,
          send])])"

definition Esys_Shutdown_Finish where
  "Esys_Shutdown_Finish = esys_finish (steps
       [on_fst receive,
        on_fst check_response,
        complete no_out (\<lambda>(sys, _). Tss2_Sys_Shutdown_Complete sys),
        finished])"

definition Esys_Shutdown where
  "Esys_Shutdown esysContext shandle1 shandle2 shandle3 shutdownType =
     one_call (Esys_Shutdown_Async esysContext shandle1 shandle2 shandle3 shutdownType) Esys_Shutdown_Finish ()"

definition Esys_Sign_Async where
  "Esys_Sign_Async esysContext keyHandle shandle1 shandle2 shandle3 digest inScheme validation =
     esys_async esysContext (steps
       [feasible shandle1 shandle2 shandle3 1,
        get_node keyHandle (\<lambda>keyHandleNode. steps
         [with_handle keyHandleNode (\<lambda>keyHandle'. prepare (\<lambda>sys.
             Tss2_Sys_Sign_Prepare sys keyHandle' digest inScheme validation)),
          init_sessions shandle1 shandle2 shandle3,
          session_value_for 0 keyHandleNode,
          session_value_for 1 None,
          session_value_for 2 None,
          gen_auths keyHandleNode None None (\<lambda>auths. steps
           [set_auths auths,
            send])])])"

definition Esys_Sign_Finish where
  "Esys_Sign_Finish = esys_finish (steps
       [alloc_out zero_TPMT_SIGNATURE,
        cleanup_outs (free_out (\<lambda>_. ())) (steps
          [on_fst receive,
           on_fst check_response,
           complete (ptr_out no_out) (\<lambda>(sys, signature, _). Tss2_Sys_Sign_Complete sys signature),
           finished])])"

definition Esys_Sign where
  "Esys_Sign esysContext keyHandle shandle1 shandle2 shandle3 digest inScheme validation signature =
     one_call (Esys_Sign_Async esysContext keyHandle shandle1 shandle2 shandle3 digest inScheme validation) Esys_Sign_Finish
         (signature, ())"

definition Esys_SignDigest_Async where
  "Esys_SignDigest_Async esysContext keyHandle shandle1 shandle2 shandle3 digest inScheme validation =
     esys_async esysContext (steps
       [feasible shandle1 shandle2 shandle3 0,
        get_node keyHandle (\<lambda>keyHandleNode. steps
         [with_handle keyHandleNode (\<lambda>keyHandle'. prepare (\<lambda>sys.
             Tss2_Sys_SignDigest_Prepare sys keyHandle' digest inScheme validation)),
          init_sessions shandle1 shandle2 shandle3,
          session_value_for 0 None,
          session_value_for 1 None,
          session_value_for 2 None,
          gen_auths keyHandleNode None None (\<lambda>auths. steps
           [set_auths auths,
            send])])])"

definition Esys_SignDigest_Finish where
  "Esys_SignDigest_Finish = esys_finish (steps
       [alloc_out zero_TPMT_SIGNATURE,
        cleanup_outs (free_out (\<lambda>_. ())) (steps
          [on_fst receive,
           on_fst check_response,
           complete (ptr_out no_out) (\<lambda>(sys, signature, _). Tss2_Sys_SignDigest_Complete sys signature),
           finished])])"

definition Esys_SignDigest where
  "Esys_SignDigest esysContext keyHandle shandle1 shandle2 shandle3 digest inScheme validation signature =
     one_call (Esys_SignDigest_Async esysContext keyHandle shandle1 shandle2 shandle3 digest inScheme validation)
         Esys_SignDigest_Finish (signature, ())"

definition Esys_SignSequenceComplete_Async where
  "Esys_SignSequenceComplete_Async esysContext sequenceHandle shandle1 shandle2 shandle3 buffer =
     esys_async esysContext (steps
       [feasible shandle1 shandle2 shandle3 0,
        get_node sequenceHandle (\<lambda>sequenceHandleNode. steps
         [with_handle sequenceHandleNode (\<lambda>sequenceHandle'. prepare (\<lambda>sys.
             Tss2_Sys_SignSequenceComplete_Prepare sys sequenceHandle' buffer)),
          init_sessions shandle1 shandle2 shandle3,
          session_value_for 0 None,
          session_value_for 1 None,
          session_value_for 2 None,
          gen_auths sequenceHandleNode None None (\<lambda>auths. steps
           [set_auths auths,
            send])])])"

definition Esys_SignSequenceComplete_Finish where
  "Esys_SignSequenceComplete_Finish = esys_finish (steps
       [alloc_out zero_TPMT_SIGNATURE,
        cleanup_outs (free_out (\<lambda>_. ())) (steps
          [on_fst receive,
           on_fst check_response,
           complete (ptr_out no_out) (\<lambda>(sys, signature, _). Tss2_Sys_SignSequenceComplete_Complete sys signature),
           finished])])"

definition Esys_SignSequenceComplete where
  "Esys_SignSequenceComplete esysContext sequenceHandle shandle1 shandle2 shandle3 buffer signature =
     one_call (Esys_SignSequenceComplete_Async esysContext sequenceHandle shandle1 shandle2 shandle3 buffer)
         Esys_SignSequenceComplete_Finish (signature, ())"

definition Esys_SignSequenceStart_Async where
  "Esys_SignSequenceStart_Async esysContext keyHandle shandle1 shandle2 shandle3 inScheme keyB =
     esys_async esysContext (steps
       [feasible shandle1 shandle2 shandle3 0,
        get_node keyHandle (\<lambda>keyHandleNode. steps
         [get_node keyB (\<lambda>keyBNode. steps
           [with_handle keyHandleNode (\<lambda>keyHandle'. with_handle keyBNode (\<lambda>keyB'. prepare (\<lambda>sys.
               Tss2_Sys_SignSequenceStart_Prepare sys keyHandle' inScheme keyB'))),
            init_sessions shandle1 shandle2 shandle3,
            session_value_for 0 None,
            session_value_for 1 None,
            session_value_for 2 None,
            gen_auths keyHandleNode keyBNode None (\<lambda>auths. steps
             [set_auths auths,
              send])])])])"

definition Esys_SignSequenceStart_Finish where
  "Esys_SignSequenceStart_Finish = esys_finish (new_object (\<lambda>a. object_cleanup (\<lambda>_. ()) (steps
       [on_fst receive,
        on_fst check_response,
        complete_handle a (hidden_out no_out) (\<lambda>(sys, sequenceHandle, _). Tss2_Sys_SignSequenceStart_Complete sys sequenceHandle),
        on_fst (set_node (Some a) no_name),
        finished])))"

definition Esys_SignSequenceStart where
  "Esys_SignSequenceStart esysContext keyHandle shandle1 shandle2 shandle3 inScheme keyB sequenceHandle =
     one_call (Esys_SignSequenceStart_Async esysContext keyHandle shandle1 shandle2 shandle3 inScheme keyB)
         Esys_SignSequenceStart_Finish (sequenceHandle, ())"

text \<open>
  Without a caller nonce the function makes one of the size of the digest.
\<close>

definition start_nonce :: "UINT16 \<Rightarrow> TPM2B option \<Rightarrow> (TPM2B \<Rightarrow> ('t, 'c) esys step) \<Rightarrow> ('t, 'c) esys step" where
  "start_nonce authHash nonceCaller k =
     (case nonceCaller of
        Some n \<Rightarrow> k n
      | None \<Rightarrow>
          (case iesys_crypto_hash_get_digest_size authHash of
             (r, authHash_size) \<Rightarrow>
               if r \<noteq> 0 then or_state ESYS_STATE_INIT (ret r)
               else call_or ESYS_STATE_INIT
                 (\<lambda>ctx. case iesys_crypto_get_random2b (crypto_backend ctx) (zero_TPM2B 64) authHash_size of
                    (r, n, cb) \<Rightarrow> Some (r, n, ctx\<lparr>crypto_backend := cb\<rparr>))
                 (\<lambda>n. read_val (\<lambda>ctx. in_start (esys_in ctx)) (\<lambda>i. steps
                    [store (IN_StartAuthSession (i\<lparr>SAS_nonceCaller := Some n\<rparr>)), k n]))))"

text \<open>The local node \<open>none\<close>, which stands for \<open>TPM2_RH_NULL\<close>.\<close>

definition none_node :: "(nat \<Rightarrow> ('t, 'c) esys step) \<Rightarrow> ('t, 'c) esys step" where
  "none_node k = stack_object
     (\<lambda>n. n\<lparr>node_rsrc := (node_rsrc n)\<lparr>rsrc_handle := TPM2_RH_NULL, rsrc_rsrcType := IESYSC_WITHOUT_MISC_RSRC\<rparr>\<rparr>)
     (\<lambda>a. with_node (Some a) (\<lambda>n.
        let name = rsrc_name (node_rsrc n) in
        case Tss2_MU_UINT32_Marshal TPM2_RH_NULL (Some (TPM2B_buffer name)) (of_nat (length (TPM2B_buffer name))) (Some 0) of
          Some (r, Some b, Some offset) \<Rightarrow> steps
            [or_state ESYS_STATE_INIT (ret r), set_node (Some a) (set_name \<lparr>TPM2B_size = ucast offset, TPM2B_buffer = b\<rparr>), k a]
        | _ \<Rightarrow> (\<lambda>_. None)))"

definition Esys_StartAuthSession_Async where
  "Esys_StartAuthSession_Async esysContext tpmKey bind shandle1 shandle2 shandle3 nonceCaller sessionType symmetric authHash =
     esys_async esysContext (steps
       [feasible shandle1 shandle2 shandle3 0,
        store (IN_StartAuthSession \<lparr>SAS_tpmKey = tpmKey, SAS_bind = bind, SAS_sessionType = sessionType, SAS_authHash = authHash,
          SAS_nonceCaller = nonceCaller, SAS_symmetric = symmetric\<rparr>),
        get_node tpmKey (\<lambda>tpmKeyNode. get_node bind (\<lambda>bindNode.
          call_or ESYS_STATE_INIT (iesys_compute_encrypted_salt tpmKeyNode (zero_TPM2B (sizeof ct_TPMU_ENCRYPTED_SECRET))) (\<lambda>encryptedSalt.
          start_nonce authHash nonceCaller (\<lambda>nonceCaller. steps
            [with_handle tpmKeyNode (\<lambda>tpmKey'. with_handle bindNode (\<lambda>bind'. prepare (\<lambda>sys.
               Tss2_Sys_StartAuthSession_Prepare sys tpmKey' bind' (Some nonceCaller) (Some encryptedSalt) sessionType symmetric authHash))),
             init_sessions shandle1 shandle2 shandle3,
             session_value_for 0 None,
             session_value_for 1 None,
             session_value_for 2 None,
             none_node (\<lambda>none.
               gen_auths (Some (case tpmKeyNode of None \<Rightarrow> none | Some a \<Rightarrow> a)) (Some (case bindNode of None \<Rightarrow> none | Some a \<Rightarrow> a)) None
                 (\<lambda>auths. steps [set_auths auths, send]))]))))])"

text \<open>
  The label \<open>error_cleanup\<close> of \<open>Esys_StartAuthSession_Finish\<close>: a session the TPM has created is flushed, by its TPM
  handle, and the code of that call replaces the error; then the object is closed.
\<close>

definition session_cleanup :: "nat \<Rightarrow> TSS2_RC \<Rightarrow> (('t, 'c) esys \<times> ESYS_TR option \<times> 'o) step" where
  "session_cleanup a r = (\<lambda>(ctx, h, outs).
     case rsrc_heap ctx a of
       None \<Rightarrow> None
     | Some n \<Rightarrow>
         (case (if rsrc_handle (node_rsrc n) \<noteq> ESYS_TR_NONE then Esys_FlushContext (Some ctx) (rsrc_handle (node_rsrc n))
                else Some (r, Some ctx, ())) of
            Some (r, Some ctx, _) \<Rightarrow> map_option (Pair r) (close_out (ctx, h, outs))
          | _ \<Rightarrow> None))"

definition Esys_StartAuthSession_Finish where
  "Esys_StartAuthSession_Finish = esys_finish (new_object (\<lambda>a. with_local (Some (zero_TPM2B 64)) (steps
       [on_fst (init_session_node a),
        on_error (session_cleanup a) (steps
          [on_fst receive,
           on_fst check_response,
           complete_handle a (hidden_out (val_out no_out)) (\<lambda>(sys, sessionHandle, nonceTPM, _). Tss2_Sys_StartAuthSession_Complete sys sessionHandle nonceTPM),
           (\<lambda>(ctx, h, lnonceTPM, outs).
              case lnonceTPM of
                None \<Rightarrow> None
              | Some nonceTPM \<Rightarrow> on_fst (steps
                  [set_session (Some a) (\<lambda>s. s\<lparr>SESSION_nonceTPM := nonceTPM\<rparr>),
                   set_node (Some a) (set_rsrcType IESYSC_SESSION_RSRC)]) (ctx, h, lnonceTPM, outs))]),
        (\<lambda>(ctx, h, lnonceTPM, outs).
           case (in_start (esys_in ctx), lnonceTPM) of
             (Some i, Some nonceTPM) \<Rightarrow>
               if SAS_bind i \<noteq> ESYS_TR_NONE \<or> TPM2B_size (esys_salt ctx) > 0
               then call_on_error (session_cleanup a) (lookup (SAS_bind i))
                      (\<lambda>bindNode. call_on_error (session_cleanup a) (lookup (SAS_tpmKey i))
                         (\<lambda>tpmKeyNode. on_fst (session_key a i bindNode tpmKeyNode nonceTPM))) (ctx, h, lnonceTPM, outs)
               else Some (TSS2_RC_SUCCESS, ctx, h, lnonceTPM, outs)
           | _ \<Rightarrow> None),
        on_error (session_cleanup a) (on_fst (session_name a)),
        on_fst (update (\<lambda>ctx. ctx\<lparr>esys_salt := zero_TPM2B 64\<rparr>)),
        finished])))"

definition Esys_StartAuthSession where
  "Esys_StartAuthSession esysContext tpmKey bind shandle1 shandle2 shandle3 nonceCaller sessionType symmetric authHash
      sessionHandle =
     one_call (Esys_StartAuthSession_Async esysContext tpmKey bind shandle1 shandle2 shandle3 nonceCaller sessionType
         symmetric authHash) Esys_StartAuthSession_Finish (sessionHandle, ())"

definition Esys_Startup_Async where
  "Esys_Startup_Async esysContext startupType =
     esys_async esysContext (steps
       [prepare (\<lambda>sys. Tss2_Sys_Startup_Prepare sys startupType),
        send])"

definition Esys_Startup_Finish where
  "Esys_Startup_Finish = esys_finish (steps
       [on_fst receive_startup,
        complete no_out (\<lambda>(sys, _). Tss2_Sys_Startup_Complete sys),
        finished])"

definition Esys_Startup where
  "Esys_Startup esysContext startupType =
     one_call (Esys_Startup_Async esysContext startupType) Esys_Startup_Finish ()"

definition Esys_StirRandom_Async where
  "Esys_StirRandom_Async esysContext shandle1 shandle2 shandle3 inData =
     esys_async esysContext (steps
       [feasible shandle1 shandle2 shandle3 0,
        prepare (\<lambda>sys. Tss2_Sys_StirRandom_Prepare sys inData),
        init_sessions shandle1 shandle2 shandle3,
        session_value_for 0 None,
        session_value_for 1 None,
        session_value_for 2 None,
        gen_auths None None None (\<lambda>auths. steps
         [set_auths auths,
          send])])"

definition Esys_StirRandom_Finish where
  "Esys_StirRandom_Finish = esys_finish (steps
       [on_fst receive,
        on_fst check_response,
        complete no_out (\<lambda>(sys, _). Tss2_Sys_StirRandom_Complete sys),
        finished])"

definition Esys_StirRandom where
  "Esys_StirRandom esysContext shandle1 shandle2 shandle3 inData =
     one_call (Esys_StirRandom_Async esysContext shandle1 shandle2 shandle3 inData) Esys_StirRandom_Finish ()"

definition Esys_TestParms_Async where
  "Esys_TestParms_Async esysContext shandle1 shandle2 shandle3 parameters =
     esys_async esysContext (steps
       [feasible shandle1 shandle2 shandle3 0,
        prepare (\<lambda>sys. Tss2_Sys_TestParms_Prepare sys parameters),
        init_sessions shandle1 shandle2 shandle3,
        session_value_for 0 None,
        session_value_for 1 None,
        session_value_for 2 None,
        gen_auths None None None (\<lambda>auths. steps
         [set_auths auths,
          send])])"

definition Esys_TestParms_Finish where
  "Esys_TestParms_Finish = esys_finish (steps
       [on_fst receive,
        on_fst check_response,
        complete no_out (\<lambda>(sys, _). Tss2_Sys_TestParms_Complete sys),
        finished])"

definition Esys_TestParms where
  "Esys_TestParms esysContext shandle1 shandle2 shandle3 parameters =
     one_call (Esys_TestParms_Async esysContext shandle1 shandle2 shandle3 parameters) Esys_TestParms_Finish ()"

definition Esys_Unseal_Async where
  "Esys_Unseal_Async esysContext itemHandle shandle1 shandle2 shandle3 =
     esys_async esysContext (steps
       [feasible shandle1 shandle2 shandle3 1,
        get_node itemHandle (\<lambda>itemHandleNode. steps
         [with_handle itemHandleNode (\<lambda>itemHandle'. prepare (\<lambda>sys. Tss2_Sys_Unseal_Prepare sys itemHandle')),
          init_sessions shandle1 shandle2 shandle3,
          session_value_for 0 itemHandleNode,
          session_value_for 1 None,
          session_value_for 2 None,
          gen_auths itemHandleNode None None (\<lambda>auths. steps
           [set_auths auths,
            send])])])"

definition Esys_Unseal_Finish where
  "Esys_Unseal_Finish = esys_finish (steps
       [alloc_out (zero_TPM2B 256),
        cleanup_outs (free_out (\<lambda>_. ())) (steps
          [on_fst receive,
           on_fst check_response,
           complete (ptr_out no_out) (\<lambda>(sys, outData, _). Tss2_Sys_Unseal_Complete sys outData),
           finished])])"

definition Esys_Unseal where
  "Esys_Unseal esysContext itemHandle shandle1 shandle2 shandle3 outData =
     one_call (Esys_Unseal_Async esysContext itemHandle shandle1 shandle2 shandle3) Esys_Unseal_Finish (outData, ())"

definition Esys_Vendor_TCG_Test_Async where
  "Esys_Vendor_TCG_Test_Async esysContext shandle1 shandle2 shandle3 inputData =
     esys_async esysContext (steps
       [feasible shandle1 shandle2 shandle3 0,
        prepare (\<lambda>sys. Tss2_Sys_Vendor_TCG_Test_Prepare sys inputData),
        init_sessions shandle1 shandle2 shandle3,
        session_value_for 0 None,
        session_value_for 1 None,
        session_value_for 2 None,
        gen_auths None None None (\<lambda>auths. steps
         [set_auths auths,
          send])])"

definition Esys_Vendor_TCG_Test_Finish where
  "Esys_Vendor_TCG_Test_Finish = esys_finish (steps
       [alloc_out (zero_TPM2B 64),
        cleanup_outs (free_out (\<lambda>_. ())) (steps
          [on_fst receive,
           on_fst check_response,
           complete (ptr_out no_out) (\<lambda>(sys, outputData, _). Tss2_Sys_Vendor_TCG_Test_Complete sys outputData),
           finished])])"

definition Esys_Vendor_TCG_Test where
  "Esys_Vendor_TCG_Test esysContext shandle1 shandle2 shandle3 inputData outputData =
     one_call (Esys_Vendor_TCG_Test_Async esysContext shandle1 shandle2 shandle3 inputData) Esys_Vendor_TCG_Test_Finish
         (outputData, ())"

definition Esys_VerifyDigestSignature_Async where
  "Esys_VerifyDigestSignature_Async esysContext keyHandle shandle1 shandle2 shandle3 digest signature =
     esys_async esysContext (steps
       [feasible shandle1 shandle2 shandle3 0,
        get_node keyHandle (\<lambda>keyHandleNode. steps
         [with_handle keyHandleNode (\<lambda>keyHandle'. prepare (\<lambda>sys.
             Tss2_Sys_VerifyDigestSignature_Prepare sys keyHandle' digest signature)),
          init_sessions shandle1 shandle2 shandle3,
          session_value_for 0 None,
          session_value_for 1 None,
          session_value_for 2 None,
          gen_auths keyHandleNode None None (\<lambda>auths. steps
           [set_auths auths,
            send])])])"

definition Esys_VerifyDigestSignature_Finish where
  "Esys_VerifyDigestSignature_Finish = esys_finish (steps
       [alloc_out zero_TPMT_TK_VERIFIED,
        cleanup_outs (free_out (\<lambda>_. ())) (steps
          [on_fst receive,
           on_fst check_response,
           complete (ptr_out no_out) (\<lambda>(sys, validation, _). Tss2_Sys_VerifyDigestSignature_Complete sys validation),
           finished])])"

definition Esys_VerifyDigestSignature where
  "Esys_VerifyDigestSignature esysContext keyHandle shandle1 shandle2 shandle3 digest signature validation =
     one_call (Esys_VerifyDigestSignature_Async esysContext keyHandle shandle1 shandle2 shandle3 digest signature)
         Esys_VerifyDigestSignature_Finish (validation, ())"

definition Esys_VerifySequenceComplete_Async where
  "Esys_VerifySequenceComplete_Async esysContext sequenceHandle shandle1 shandle2 shandle3 buffer =
     esys_async esysContext (steps
       [feasible shandle1 shandle2 shandle3 0,
        get_node sequenceHandle (\<lambda>sequenceHandleNode. steps
         [with_handle sequenceHandleNode (\<lambda>sequenceHandle'. prepare (\<lambda>sys.
             Tss2_Sys_VerifySequenceComplete_Prepare sys sequenceHandle' buffer)),
          init_sessions shandle1 shandle2 shandle3,
          session_value_for 0 None,
          session_value_for 1 None,
          session_value_for 2 None,
          gen_auths sequenceHandleNode None None (\<lambda>auths. steps
           [set_auths auths,
            send])])])"

definition Esys_VerifySequenceComplete_Finish where
  "Esys_VerifySequenceComplete_Finish = esys_finish (steps
       [alloc_out zero_TPMT_TK_VERIFIED,
        cleanup_outs (free_out (\<lambda>_. ())) (steps
          [on_fst receive,
           on_fst check_response,
           complete (ptr_out no_out) (\<lambda>(sys, validation, _). Tss2_Sys_VerifySequenceComplete_Complete sys validation),
           finished])])"

definition Esys_VerifySequenceComplete where
  "Esys_VerifySequenceComplete esysContext sequenceHandle shandle1 shandle2 shandle3 buffer validation =
     one_call (Esys_VerifySequenceComplete_Async esysContext sequenceHandle shandle1 shandle2 shandle3 buffer)
         Esys_VerifySequenceComplete_Finish (validation, ())"

definition Esys_VerifySequenceStart_Async where
  "Esys_VerifySequenceStart_Async esysContext keyHandle shandle1 shandle2 shandle3 signature =
     esys_async esysContext (steps
       [feasible shandle1 shandle2 shandle3 0,
        get_node keyHandle (\<lambda>keyHandleNode. steps
         [with_handle keyHandleNode (\<lambda>keyHandle'. prepare (\<lambda>sys.
             Tss2_Sys_VerifySequenceStart_Prepare sys keyHandle' signature)),
          init_sessions shandle1 shandle2 shandle3,
          session_value_for 0 None,
          session_value_for 1 None,
          session_value_for 2 None,
          gen_auths keyHandleNode None None (\<lambda>auths. steps
           [set_auths auths,
            send])])])"

definition Esys_VerifySequenceStart_Finish where
  "Esys_VerifySequenceStart_Finish = esys_finish (new_object (\<lambda>a. object_cleanup (\<lambda>_. ()) (steps
       [on_fst receive,
        on_fst check_response,
        complete_handle a (hidden_out no_out) (\<lambda>(sys, sequenceHandle, _). Tss2_Sys_VerifySequenceStart_Complete sys sequenceHandle),
        on_fst (set_node (Some a) no_name),
        finished])))"

definition Esys_VerifySequenceStart where
  "Esys_VerifySequenceStart esysContext keyHandle shandle1 shandle2 shandle3 signature sequenceHandle =
     one_call (Esys_VerifySequenceStart_Async esysContext keyHandle shandle1 shandle2 shandle3 signature)
         Esys_VerifySequenceStart_Finish (sequenceHandle, ())"

definition Esys_VerifySignature_Async where
  "Esys_VerifySignature_Async esysContext keyHandle shandle1 shandle2 shandle3 digest signature =
     esys_async esysContext (steps
       [feasible shandle1 shandle2 shandle3 0,
        get_node keyHandle (\<lambda>keyHandleNode. steps
         [with_handle keyHandleNode (\<lambda>keyHandle'. prepare (\<lambda>sys.
             Tss2_Sys_VerifySignature_Prepare sys keyHandle' digest signature)),
          init_sessions shandle1 shandle2 shandle3,
          session_value_for 0 None,
          session_value_for 1 None,
          session_value_for 2 None,
          gen_auths keyHandleNode None None (\<lambda>auths. steps
           [set_auths auths,
            send])])])"

definition Esys_VerifySignature_Finish where
  "Esys_VerifySignature_Finish = esys_finish (steps
       [alloc_out zero_TPMT_TK_VERIFIED,
        cleanup_outs (free_out (\<lambda>_. ())) (steps
          [on_fst receive,
           on_fst check_response,
           complete (ptr_out no_out) (\<lambda>(sys, validation, _). Tss2_Sys_VerifySignature_Complete sys validation),
           finished])])"

definition Esys_VerifySignature where
  "Esys_VerifySignature esysContext keyHandle shandle1 shandle2 shandle3 digest signature validation =
     one_call (Esys_VerifySignature_Async esysContext keyHandle shandle1 shandle2 shandle3 digest signature)
         Esys_VerifySignature_Finish (validation, ())"

definition Esys_ZGen_2Phase_Async where
  "Esys_ZGen_2Phase_Async esysContext keyA shandle1 shandle2 shandle3 inQsB inQeB inScheme counter =
     esys_async esysContext (steps
       [feasible shandle1 shandle2 shandle3 1,
        get_node keyA (\<lambda>keyANode. steps
         [with_handle keyANode (\<lambda>keyA'. prepare (\<lambda>sys.
             Tss2_Sys_ZGen_2Phase_Prepare sys keyA' inQsB inQeB inScheme counter)),
          init_sessions shandle1 shandle2 shandle3,
          session_value_for 0 keyANode,
          session_value_for 1 None,
          session_value_for 2 None,
          gen_auths keyANode None None (\<lambda>auths. steps
           [set_auths auths,
            send])])])"

definition Esys_ZGen_2Phase_Finish where
  "Esys_ZGen_2Phase_Finish = esys_finish (steps
       [alloc_out (zero_SUBTYPE zero_TPMS_ECC_POINT),
        cleanup_outs (free_out (free_out (\<lambda>_. ()))) (steps
          [next_out (alloc_out (zero_SUBTYPE zero_TPMS_ECC_POINT)),
           on_fst receive,
           on_fst check_response,
           complete (ptr_out (ptr_out no_out)) (\<lambda>(sys, outZ1, outZ2, _). Tss2_Sys_ZGen_2Phase_Complete sys outZ1 outZ2),
           finished])])"

definition Esys_ZGen_2Phase where
  "Esys_ZGen_2Phase esysContext keyA shandle1 shandle2 shandle3 inQsB inQeB inScheme counter outZ1 outZ2 =
     one_call (Esys_ZGen_2Phase_Async esysContext keyA shandle1 shandle2 shandle3 inQsB inQeB inScheme counter)
         Esys_ZGen_2Phase_Finish (outZ1, outZ2, ())"

end
