(* ===== verification/Esys_Context.thy ===== *)
theory Esys_Context
  imports Esys_Commands_6
begin

text \<open>
  The functions of \<open>src/tss2-esys/esys_tr.c\<close> that write a resource object to a buffer, read it from a
  buffer, or make it from the data of the TPM.
\<close>

unbundle bit_operations_syntax

section \<open>Serialization\<close>

text \<open>
  The object is marshalled twice, first for its size and then into a buffer of that size, whose
  bytes the second run writes all.  Neither the context nor the pointers are checked.
\<close>

definition SIZE_MAX :: size_t where "SIZE_MAX = - 1"

definition serialize_object ::
  "IESYS_RESOURCE \<Rightarrow> (('t, 'c) esys \<times> BYTE list option option \<times> size_t option) step" where
  "serialize_object rsrc = (\<lambda>(ctx, buffer, buffer_size).
     case iesys_MU_IESYS_RESOURCE_Marshal (Some rsrc) None SIZE_MAX buffer_size of
       Some (r, _, Some n) \<Rightarrow>
         if r \<noteq> 0 then Some (r, ctx, buffer, Some n)
         else
           (case (buffer, alloc ctx) of
              (None, _) \<Rightarrow> None
            | (Some _, ok, ctx) \<Rightarrow>
                if \<not> ok then Some (TSS2_ESYS_RC_MEMORY, ctx, Some None, Some n)
                else
                  (case iesys_MU_IESYS_RESOURCE_Marshal (Some rsrc) (Some (replicate (unat n) 0)) n (Some 0) of
                     Some (r, b, _) \<Rightarrow> Some (r, ctx, Some b, Some n)
                   | None \<Rightarrow> None))
     | _ \<Rightarrow> None)"

definition Esys_TR_Serialize ::
  "ESYS_TR \<Rightarrow> (('t, 'c) esys option \<times> BYTE list option option \<times> size_t option) step" where
  "Esys_TR_Serialize esys_handle = (\<lambda>(esys_context, buffer, buffer_size).
     case (esys_context, buffer_size) of
       (Some ctx, Some _) \<Rightarrow>
         map_option (\<lambda>(r, ctx, outs). (r, Some ctx, outs))
           (get_object esys_handle (\<lambda>p. with_object p (\<lambda>n. serialize_object (node_rsrc n))) (ctx, buffer, Some 0))
     | _ \<Rightarrow> None)"

definition deserialize_object :: "nat \<Rightarrow> buf option \<Rightarrow> size_t \<Rightarrow> ('t, 'c) esys step" where
  "deserialize_object a buffer buffer_size = with_node (Some a) (\<lambda>n ctx.
     case iesys_MU_IESYS_RESOURCE_Unmarshal buffer buffer_size (Some 0) (Some (node_rsrc n)) of
       Some (r, _, Some rsrc) \<Rightarrow> steps [set_node (Some a) (\<lambda>n. n\<lparr>node_rsrc := rsrc\<rparr>), ret r] ctx
     | _ \<Rightarrow> None)"

definition Esys_TR_Deserialize :: "buf option \<Rightarrow> size_t \<Rightarrow> (('t, 'c) esys option \<times> ESYS_TR option \<times> unit) step" where
  "Esys_TR_Deserialize buffer buffer_size = esys_non_null (\<lambda>(ctx, esys_handle, outs).
     if esys_handle = None then None
     else new_object (\<lambda>a. on_fst (deserialize_object a buffer buffer_size)) (ctx, esys_handle, outs))"

section \<open>Objects of the TPM\<close>

definition is_nv_handle :: "UINT32 \<Rightarrow> bool" where
  "is_nv_handle h \<longleftrightarrow> h \<ge> TPM2_NV_INDEX_FIRST \<and> h \<le> TPM2_NV_INDEX_LAST"

definition is_session_handle :: "UINT32 \<Rightarrow> bool" where
  "is_session_handle h \<longleftrightarrow>
     drop_bit TPM2_HR_SHIFT h = ucast TPM2_HT_LOADED_SESSION \<or> drop_bit TPM2_HR_SHIFT h = ucast TPM2_HT_SAVED_SESSION"

definition read_public_async ::
  "UINT32 \<Rightarrow> ESYS_TR \<Rightarrow> ESYS_TR \<Rightarrow> ESYS_TR \<Rightarrow> ESYS_TR \<Rightarrow> ('t, 'c) esys \<Rightarrow> (TSS2_RC \<times> ('t, 'c) esys option) option" where
  "read_public_async tpm_handle esys_handle shandle1 shandle2 shandle3 ctx =
     (if is_nv_handle tpm_handle then Esys_NV_ReadPublic_Async (Some ctx) esys_handle shandle1 shandle2 shandle3
      else if is_session_handle tpm_handle then Some (TSS2_RC_SUCCESS, Some ctx)
      else Esys_ReadPublic_Async (Some ctx) esys_handle shandle1 shandle2 shandle3)"

text \<open>The label \<open>error_cleanup\<close>: the object is closed, also one that existed before.\<close>

definition close_on_error ::
  "ESYS_TR \<Rightarrow> (TSS2_RC \<times> ('t, 'c) esys option) option \<Rightarrow> (TSS2_RC \<times> ('t, 'c) esys option) option" where
  "close_on_error esys_handle res =
     (case res of
        None \<Rightarrow> None
      | Some (r, esys_context) \<Rightarrow>
          if r \<noteq> 0
          then map_option (\<lambda>(_, esys_context, _). (r, esys_context)) (Esys_TR_Close esys_context esys_handle)
          else Some (r, esys_context))"

text \<open>The members of the context a new object changes; its data are first read without sessions.\<close>

definition new_tpm_object :: "UINT32 \<Rightarrow> ESYS_TR \<Rightarrow> ESYS_TR \<Rightarrow> ESYS_TR \<Rightarrow> ESYS_TR \<Rightarrow> nat option \<Rightarrow> ('t, 'c) esys step" where
  "new_tpm_object tpm_handle esys_handle shandle1 shandle2 shandle3 p = steps
     [update (\<lambda>ctx. ctx\<lparr>sav_session1 := shandle1, sav_session2 := shandle2, sav_session3 := shandle3,
        session_tab := [None, None, None]\<rparr>),
      set_node p (set_handle tpm_handle),
      update (\<lambda>ctx. ctx\<lparr>esys_esys_handle := esys_handle\<rparr>)]"

definition Esys_TR_FromTPMPublic_Async ::
  "('t, 'c) esys option \<Rightarrow> UINT32 \<Rightarrow> ESYS_TR \<Rightarrow> ESYS_TR \<Rightarrow> ESYS_TR \<Rightarrow> (TSS2_RC \<times> ('t, 'c) esys option) option" where
  "Esys_TR_FromTPMPublic_Async esys_context tpm_handle shandle1 shandle2 shandle3 =
     (case esys_context of
        None \<Rightarrow> Some (TSS2_ESYS_RC_BAD_REFERENCE, None)
      | Some ctx \<Rightarrow>
          let ctx = ctx\<lparr>esys_handle_cnt := esys_handle_cnt ctx + 1\<rparr> in
          (case find_rsrc (\<lambda>n. rsrc_handle (node_rsrc n) = tpm_handle) (rsrc_heap ctx) (rsrc_list ctx) of
             None \<Rightarrow> None
           | Some (Some a) \<Rightarrow>
               (case rsrc_heap ctx a of
                  None \<Rightarrow> None
                | Some n \<Rightarrow>
                    let esys_handle = node_esys_handle n in
                    close_on_error esys_handle
                      (read_public_async tpm_handle esys_handle shandle1 shandle2 shandle3 (ctx\<lparr>esys_esys_handle := esys_handle\<rparr>)))
           | Some None \<Rightarrow>
               let esys_handle = esys_handle_cnt ctx in
               (case esys_CreateResourceObject esys_handle (ctx\<lparr>esys_handle_cnt := esys_handle + 1\<rparr>) of
                  None \<Rightarrow> None
                | Some (r, p, ctx) \<Rightarrow>
                    if r \<noteq> 0 then close_on_error esys_handle (Some (r, Some ctx))
                    else
                      (case new_tpm_object tpm_handle esys_handle shandle1 shandle2 shandle3 p ctx of
                         None \<Rightarrow> None
                       | Some (_, ctx) \<Rightarrow>
                           close_on_error esys_handle
                             (read_public_async tpm_handle esys_handle ESYS_TR_NONE ESYS_TR_NONE ESYS_TR_NONE ctx)))))"

text \<open>
  The data of the response go to a new object; for an object that has data the names are compared.
\<close>

definition take_public :: "bool \<Rightarrow> UINT32 \<Rightarrow> IESYS_RSRC_UNION \<Rightarrow> TPM2B \<Rightarrow> nat option \<Rightarrow> ('t, 'c) esys step" where
  "take_public first_call ty misc name p =
     (if first_call then set_node p (\<lambda>n. set_misc misc (set_name name (set_rsrcType ty n)))
      else with_node p (\<lambda>n ctx.
        map_option (\<lambda>eq. (if eq then TSS2_RC_SUCCESS else TSS2_ESYS_RC_GENERAL_FAILURE, ctx))
          (cmp_TPM2B_NAME (rsrc_name (node_rsrc n)) name)))"

definition read_public_finish :: "UINT32 \<Rightarrow> bool \<Rightarrow> nat option \<Rightarrow> ('t, 'c) esys step" where
  "read_public_finish tpm_handle first_call p ctx =
     (if is_nv_handle tpm_handle
      then (case Esys_NV_ReadPublic_Finish (Some ctx, Some None, Some None, ()) of
              Some (r, Some ctx, nvPublic, nvName, _) \<Rightarrow>
                if r \<noteq> 0 then Some (r, ctx)
                else (case (nvPublic, nvName) of
                        (Some (Some pub), Some (Some name)) \<Rightarrow> take_public first_call IESYSC_NV_RSRC (RSRC_nv_pub pub) name p ctx
                      | _ \<Rightarrow> None)
            | _ \<Rightarrow> None)
      else if is_session_handle tpm_handle then set_node p (set_rsrcType IESYSC_DEGRADED_SESSION_RSRC) ctx
      else (case Esys_ReadPublic_Finish (Some ctx, Some None, Some None, Some None, ()) of
              Some (r, Some ctx, public, name, _) \<Rightarrow>
                if r \<noteq> 0 then Some (r, ctx)
                else (case (public, name) of
                        (Some (Some pub), Some (Some name)) \<Rightarrow> take_public first_call IESYSC_KEY_RSRC (RSRC_key_pub pub) name p ctx
                      | _ \<Rightarrow> None)
            | _ \<Rightarrow> None))"

text \<open>The second call, with the sessions of the caller; a session table without first session is a fault.\<close>

definition session_tab_handle :: "nat \<Rightarrow> ('t, 'c) esys \<Rightarrow> ESYS_TR option" where
  "session_tab_handle i ctx =
     (case session_tab ctx ! i of
        None \<Rightarrow> if i = 0 then None else Some ESYS_TR_NONE
      | Some a \<Rightarrow> map_option node_esys_handle (rsrc_heap ctx a))"

definition second_call :: "nat option \<Rightarrow> (('t, 'c) esys option \<times> 'o) step" where
  "second_call p = (\<lambda>(esys_context, outs).
     case esys_context of
       None \<Rightarrow> None
     | Some ctx \<Rightarrow>
         (case steps
             [init_session_tab (sav_session1 ctx) (sav_session2 ctx) (sav_session3 ctx),
              with_node p (\<lambda>n ctx. iesys_compute_session_value (session_tab ctx ! 0) (Some (rsrc_name (node_rsrc n))) None ctx),
              (\<lambda>ctx. iesys_compute_session_value (session_tab ctx ! 1) None None ctx),
              (\<lambda>ctx. iesys_compute_session_value (session_tab ctx ! 2) None None ctx)] ctx of
            None \<Rightarrow> None
          | Some (r, ctx) \<Rightarrow>
              if r \<noteq> 0 then Some (r, Some ctx, outs)
              else
                (case (deref_node p ctx, session_tab_handle 0 ctx, session_tab_handle 1 ctx, session_tab_handle 2 ctx) of
                   (Some n, Some h1, Some h2, Some h3) \<Rightarrow>
                     map_option (\<lambda>(r, esys_context). (if r \<noteq> 0 then r else TSS2_ESYS_RC_TRY_AGAIN, esys_context, outs))
                       (Esys_TR_FromTPMPublic_Async (Some ctx) (rsrc_handle (node_rsrc n)) h1 h2 h3)
                 | _ \<Rightarrow> None)))"

definition object_ready :: "nat option \<Rightarrow> ESYS_TR \<Rightarrow> (('t, 'c) esys option \<times> ESYS_TR option \<times> unit) step" where
  "object_ready p objectHandle = (\<lambda>(esys_context, object', outs).
     case (esys_context, object') of
       (Some ctx, Some _) \<Rightarrow>
         map_option (\<lambda>(r, ctx). (r, Some ctx, Some objectHandle, outs))
           (set_node p (\<lambda>n. n\<lparr>node_reference_count := node_reference_count n + 1\<rparr>) ctx)
     | _ \<Rightarrow> None)"

definition Esys_TR_FromTPMPublic_Finish :: "(('t, 'c) esys option \<times> ESYS_TR option \<times> unit) step" where
  "Esys_TR_FromTPMPublic_Finish = (\<lambda>(esys_context, object', outs).
     case esys_context of
       None \<Rightarrow> Some (TSS2_ESYS_RC_BAD_REFERENCE, None, object', outs)
     | Some ctx \<Rightarrow>
         let objectHandle = esys_esys_handle ctx;
             error = (\<lambda>r ctx. map_option (\<lambda>(_, esys_context, _). (r, esys_context, object', outs))
                        (Esys_TR_Close (Some ctx) objectHandle)) in
         (case esys_GetResourceObject objectHandle ctx of
            None \<Rightarrow> None
          | Some (r, p, ctx) \<Rightarrow>
              if r \<noteq> 0 then error r ctx
              else
                (case deref_node p ctx of
                   None \<Rightarrow> None
                 | Some n \<Rightarrow>
                     let first_call = (rsrc_rsrcType (node_rsrc n) = 0) in
                     (case read_public_finish (rsrc_handle (node_rsrc n)) first_call p ctx of
                        None \<Rightarrow> None
                      | Some (r, ctx) \<Rightarrow>
                          if base_rc r = TSS2_BASE_RC_TRY_AGAIN then Some (r, Some ctx, object', outs)
                          else if r \<noteq> 0 then error r ctx
                          else if sav_session1 ctx \<noteq> ESYS_TR_NONE \<and> first_call then second_call p (Some ctx, object', outs)
                          else object_ready p objectHandle (Some ctx, object', outs)))))"

definition Esys_TR_FromTPMPublic where
  "Esys_TR_FromTPMPublic esys_context tpm_handle shandle1 shandle2 shandle3 object' =
     one_call (Esys_TR_FromTPMPublic_Async esys_context tpm_handle shandle1 shandle2 shandle3) Esys_TR_FromTPMPublic_Finish
       (object', ())"

text \<open>
  Creating and deleting a context and its settings (\<open>src/tss2-esys/esys_context.c\<close>), and the parameter
  hashes as the caller sees them (\<open>src/tss2-esys/esys_cp_rp_hash.c\<close>).
\<close>

section \<open>Memory\<close>

text \<open>
  What \<open>calloc\<close> hands out for the two contexts.  \<open>userdata\<close> stands for the null pointer the callbacks get,
  \<open>mem\<close>, \<open>auths\<close> and \<open>node\<close> for the answers of later allocations and the memory of local variables.
\<close>

definition zero_ESYS_CRYPTO_CALLBACKS :: "'c \<Rightarrow> 'c crypto" where
  "zero_ESYS_CRYPTO_CALLBACKS userdata =
     \<lparr>CB_rsa_pk_encrypt = None, CB_hash_start = None, CB_hash_update = None, CB_hash_finish = None, CB_hash_abort = None,
      CB_hmac_start = None, CB_hmac_update = None, CB_hmac_finish = None, CB_hmac_abort = None, CB_get_random2b = None,
      CB_get_ecdh_point = None, CB_aes_encrypt = None, CB_aes_decrypt = None, CB_sm4_encrypt = None, CB_sm4_decrypt = None,
      CB_init = None, CB_userdata = userdata\<rparr>"

definition zero_ESYS_CONTEXT :: "'c \<Rightarrow> bool list \<Rightarrow> TSS2L_SYS_AUTH_COMMAND \<Rightarrow> RSRC_NODE_T \<Rightarrow> ('t, 'c) esys" where
  "zero_ESYS_CONTEXT userdata mem auths node =
     \<lparr>esys_state = ESYS_STATE_INIT, esys_sys = None, esys_handle_cnt = 0, rsrc_list = [], esys_timeout = 0,
      session_type = [0, 0, 0], session_tab = [None, None, None], auth_objects = [None, None, None], esys_encryptNonceIdx = 0,
      esys_encryptNonce = None, esys_authsCount = 0, submissionCount = 0, esys_salt = zero_TPM2B 64, esys_in = IN_none,
      esys_esys_handle = 0, tcti_app_param = None, enc_session = None, sav_session1 = 0, sav_session2 = 0, sav_session3 = 0,
      crypto_backend = zero_ESYS_CRYPTO_CALLBACKS userdata, rsrc_heap = Map.empty, heap_next = 0, calloc_ok = mem,
      stack_auths = auths, stack_node = node\<rparr>"

definition zero_TSS2_SYS_CONTEXT_BLOB :: "size_t \<Rightarrow> 't TSS2_SYS_CONTEXT_BLOB" where
  "zero_TSS2_SYS_CONTEXT_BLOB contextSize =
     \<lparr>ctx_tctiContext = None, ctx_cmdBuffer = replicate (unat contextSize - sizeof ct_TSS2_SYS_CONTEXT_BLOB) 0, ctx_maxCmdSize = 0,
      ctx_cmd_header = replicate 10 0, ctx_rsp_header = \<lparr>TPM20_Header_Out_tag = 0, TPM20_Header_Out_responseSize = 0,
      TPM20_Header_Out_responseCode = 0\<rparr>, ctx_commandCode = 0, ctx_cpBufferUsedSize = 0, ctx_cpBuffer = 0,
      ctx_rspParamsSize = 0, ctx_previousStage = 0, ctx_authsCount = 0, ctx_numResponseHandles = 0, ctx_decryptAllowed = False,
      ctx_encryptAllowed = False, ctx_decryptNull = False, ctx_authAllowed = False, ctx_nextData = 0\<rparr>"

section \<open>Initialization\<close>

text \<open>
  \<open>ldr\<close> is the result of \<open>Tss2_TctiLdr_Initialize\<close>, \<open>rnd\<close> that of \<open>rand\<close>, \<open>internal\<close> the built-in crypto back end
  and \<open>ctx0\<close> the memory of the new context.  The first argument is what \<open>esys_context\<close> points to.
\<close>

definition Esys_Initialize ::
  "TSS2_RC \<times> 't TSS2_TCTI_CONTEXT option \<Rightarrow> nat \<Rightarrow> 'c crypto \<Rightarrow> ('t, 'c) esys \<Rightarrow> ('t, 'c) esys option option \<Rightarrow>
   't TSS2_TCTI_CONTEXT option \<Rightarrow> TSS2_ABI_VERSION option \<Rightarrow> (TSS2_RC \<times> ('t, 'c) esys option option) option" where
  "Esys_Initialize ldr rnd internal ctx0 esys_context tcti abiVersion =
     (if esys_context = None then Some (TSS2_ESYS_RC_BAD_REFERENCE, None)
      else
        (case alloc ctx0 of
           (ok, ctx) \<Rightarrow>
             if \<not> ok then Some (TSS2_ESYS_RC_MEMORY, Some None)
             else
               (case alloc (ctx\<lparr>tcti_app_param := tcti\<rparr>) of
                  (ok, ctx) \<Rightarrow>
                    if \<not> ok then Some (TSS2_ESYS_RC_MEMORY, Some None)
                    else
                      let syssize = Tss2_Sys_GetContextSize 0;
                          (r, tcti) = (case tcti of None \<Rightarrow> ldr | Some _ \<Rightarrow> (TSS2_RC_SUCCESS, tcti)) in
                      if r \<noteq> 0 then Some (r, Some None)
                      else
                        (case Tss2_Sys_Initialize (Some (zero_TSS2_SYS_CONTEXT_BLOB syssize)) syssize tcti abiVersion of
                           None \<Rightarrow> None
                         | Some (r, sys) \<Rightarrow>
                             if r \<noteq> 0 then Some (r, Some None)
                             else
                               let ctx = ctx\<lparr>esys_sys := sys, esys_handle_cnt := ESYS_TR_MIN_OBJECT + of_nat (rnd mod 6000000)\<rparr> in
                               (case iesys_initialize_crypto_backend internal None (crypto_backend ctx) of
                                  None \<Rightarrow> None
                                | Some (r, cb) \<Rightarrow>
                                    if r \<noteq> 0 then Some (r, Some None)
                                    else Some (TSS2_RC_SUCCESS, Some (Some (ctx\<lparr>crypto_backend := cb\<rparr>))))))))"

text \<open>
  The context is gone afterwards; the second result is the connection that goes to \<open>Tss2_TctiLdr_Finalize\<close>, one that
  the library opened itself.
\<close>

definition Esys_Finalize ::
  "('t, 'c) esys option option \<Rightarrow> ('t, 'c) esys option option \<times> 't TSS2_TCTI_CONTEXT option" where
  "Esys_Finalize esys_context =
     (case esys_context of
        Some (Some ctx) \<Rightarrow>
          let ctx = iesys_DeleteAllResourceObjects ctx;
              tctcontext =
                (if tcti_app_param ctx \<noteq> None then None
                 else (case Tss2_Sys_GetTctiContext (esys_sys ctx) (Some None) of
                         (r, p) \<Rightarrow> if r \<noteq> 0 then None else out_ptr p)) in
          (Some None, tctcontext)
      | _ \<Rightarrow> (esys_context, None))"

section \<open>Settings\<close>

definition Esys_GetTcti :: "('t, 'c) esys option \<Rightarrow> 't TSS2_TCTI_CONTEXT option option \<Rightarrow> TSS2_RC \<times> 't TSS2_TCTI_CONTEXT option option" where
  "Esys_GetTcti esys_context tcti =
     (case (esys_context, tcti) of
        (Some ctx, Some _) \<Rightarrow> (TSS2_RC_SUCCESS, Some (tcti_app_param ctx))
      | _ \<Rightarrow> (TSS2_ESYS_RC_BAD_REFERENCE, tcti))"

text \<open>\<open>poll\<close> is the call of \<open>Tss2_Tcti_GetPollHandles\<close>, with a null pointer or an array of the given size for the handles.\<close>

definition Esys_GetPollHandles ::
  "('t TSS2_TCTI_CONTEXT option \<Rightarrow> 'h list option \<Rightarrow> size_t \<Rightarrow> TSS2_RC \<times> 'h list option \<times> size_t) \<Rightarrow> 'h \<Rightarrow>
   (('t, 'c) esys option \<times> 'h list option option \<times> size_t option) step" where
  "Esys_GetPollHandles poll zero = (\<lambda>(esys_context, handles, count).
     case (esys_context, handles, count) of
       (Some ctx, Some _, Some n) \<Rightarrow>
         (case Tss2_Sys_GetTctiContext (esys_sys ctx) (Some None) of
            (r, tcti) \<Rightarrow>
              if r \<noteq> 0 then Some (r, esys_context, handles, count)
              else
                (case poll (out_ptr tcti) None n of
                   (r, _, n) \<Rightarrow>
                     if r \<noteq> 0 then Some (r, esys_context, handles, Some n)
                     else
                       (case alloc ctx of
                          (ok, ctx) \<Rightarrow>
                            if \<not> ok then Some (TSS2_ESYS_RC_MEMORY, Some ctx, Some None, Some n)
                            else
                              (case poll (out_ptr tcti) (Some (replicate (unat n) zero)) n of
                                 (r, hs, n) \<Rightarrow> Some (r, Some ctx, Some hs, Some n)))))
     | _ \<Rightarrow> Some (TSS2_ESYS_RC_BAD_REFERENCE, esys_context, handles, count))"

definition Esys_SetTimeout :: "INT32 \<Rightarrow> ('t, 'c) esys option step" where
  "Esys_SetTimeout timeout esys_context =
     (case esys_context of
        None \<Rightarrow> Some (TSS2_ESYS_RC_BAD_REFERENCE, None)
      | Some ctx \<Rightarrow> Some (TSS2_RC_SUCCESS, Some (ctx\<lparr>esys_timeout := timeout\<rparr>)))"

definition Esys_GetSysContext :: "('t, 'c) esys option \<Rightarrow> 't sysctx option \<Rightarrow> TSS2_RC \<times> 't sysctx option" where
  "Esys_GetSysContext esys_context sys_context =
     (case (esys_context, sys_context) of
        (Some ctx, Some _) \<Rightarrow> (TSS2_RC_SUCCESS, Some (esys_sys ctx))
      | _ \<Rightarrow> (TSS2_ESYS_RC_BAD_REFERENCE, sys_context))"

definition Esys_SetCryptoCallbacks :: "'c crypto \<Rightarrow> 'c crypto option \<Rightarrow> ('t, 'c) esys option step" where
  "Esys_SetCryptoCallbacks internal callbacks esysContext =
     (case esysContext of
        None \<Rightarrow> Some (TSS2_ESYS_RC_BAD_REFERENCE, None)
      | Some ctx \<Rightarrow>
          map_option (\<lambda>(r, cb). (r, Some (ctx\<lparr>crypto_backend := cb\<rparr>)))
            (iesys_initialize_crypto_backend internal callbacks (crypto_backend ctx)))"

definition Esys_GetCryptoCallbacks :: "('t, 'c) esys option \<Rightarrow> 'c crypto option \<Rightarrow> TSS2_RC \<times> 'c crypto option" where
  "Esys_GetCryptoCallbacks esysContext callbacks =
     (case (esysContext, callbacks) of
        (Some ctx, Some _) \<Rightarrow> (TSS2_RC_SUCCESS, Some (crypto_backend ctx))
      | _ \<Rightarrow> (TSS2_ESYS_RC_BAD_REFERENCE, callbacks))"

section \<open>Parameter hashes\<close>

text \<open>
  The hash is computed into a local array and copied into new memory of the caller.  \<open>hash_size\<close> is what the pointer
  of that name points to, which is not checked.
\<close>

definition get_hash ::
  "(BYTE list \<Rightarrow> size_t \<Rightarrow> ('t, 'c) esys \<Rightarrow> (TSS2_RC \<times> (BYTE list \<times> size_t) \<times> ('t, 'c) esys) option) \<Rightarrow>
   (('t, 'c) esys option \<times> BYTE list option option \<times> size_t) step" where
  "get_hash compute = (\<lambda>(esys_ctx, hash', hash_size).
     case esys_ctx of
       None \<Rightarrow> Some (TSS2_ESYS_RC_BAD_REFERENCE, None, hash', hash_size)
     | Some ctx \<Rightarrow>
         (case compute (replicate sizeof_TPMU_HA 0) hash_size ctx of
            None \<Rightarrow> None
          | Some (r, (h, n), ctx) \<Rightarrow>
              if r \<noteq> 0 then Some (r, Some ctx, hash', n)
              else
                (case (hash', alloc ctx) of
                   (None, _) \<Rightarrow> None
                 | (Some _, ok, ctx) \<Rightarrow>
                     if \<not> ok then Some (TSS2_ESYS_RC_MEMORY, Some ctx, Some None, n)
                     else map_option (\<lambda>xs. (TSS2_RC_SUCCESS, Some ctx, Some (Some xs), n)) (mem_read h 0 (unat n)))))"

definition Esys_GetCpHash :: "UINT16 \<Rightarrow> (('t, 'c) esys option \<times> BYTE list option option \<times> size_t) step" where
  "Esys_GetCpHash hashAlg = get_hash (iesys_compute_cp_hash hashAlg)"

definition Esys_GetRpHash :: "UINT16 \<Rightarrow> (('t, 'c) esys option \<times> BYTE list option option \<times> size_t) step" where
  "Esys_GetRpHash hashAlg = get_hash (iesys_compute_rp_hash hashAlg)"

definition Esys_Abort :: "('t, 'c) esys option step" where
  "Esys_Abort esys_ctx =
     (case esys_ctx of
        None \<Rightarrow> Some (TSS2_ESYS_RC_BAD_REFERENCE, None)
      | Some ctx \<Rightarrow>
          map_option (\<lambda>(r, ctx). (r, Some ctx)) (steps [on_sys Tss2_Sys_Abort, set_state ESYS_STATE_INIT] ctx))"

end
