(* ===== verification/Esys_Link.thy ===== *)
theory Esys_Link
  imports Esys_Context
begin

text \<open>
  The connection to the TPM under the calls of the system API: only \<open>Tss2_Sys_ExecuteAsync\<close> and
  \<open>Tss2_Sys_ExecuteFinish\<close> use it.  Every \<open>_Prepare\<close> and \<open>_Complete\<close> function is covered, step by step.
\<close>

section \<open>What a step keeps\<close>

text \<open>\<open>obeys v R f\<close>: the part \<open>v\<close> of the states before and after \<open>f\<close> is related by \<open>R\<close>, whatever the code.\<close>

definition obeys :: "('s \<Rightarrow> 'a) \<Rightarrow> (TSS2_RC \<Rightarrow> 'a \<Rightarrow> 'a \<Rightarrow> bool) \<Rightarrow> 's step \<Rightarrow> bool" where
  "obeys v R f \<longleftrightarrow> (\<forall>s r s'. f s = Some (r, s') \<longrightarrow> R r (v s) (v s'))"

lemma obeysI [intro?]: "(\<And>s r s'. f s = Some (r, s') \<Longrightarrow> R r (v s) (v s')) \<Longrightarrow> obeys v R f"
  by (simp add: obeys_def)

lemma obeysD: "obeys v R f \<Longrightarrow> f s = Some (r, s') \<Longrightarrow> R r (v s) (v s')"
  by (simp add: obeys_def)

lemma obeys_mono: "obeys v R f \<Longrightarrow> (\<And>r s s'. R r s s' \<Longrightarrow> Q r s s') \<Longrightarrow> obeys v Q f"
  by (simp add: obeys_def)

section \<open>The connection\<close>

definition sys_link :: "'t sysctx \<Rightarrow> 't TSS2_TCTI_CONTEXT option option" where
  "sys_link sys = map_option ctx_tctiContext sys"

definition same :: "TSS2_RC \<Rightarrow> 'a \<Rightarrow> 'a \<Rightarrow> bool" where
  "same r x y \<longleftrightarrow> y = x"

definition keeps_link :: "'t sysctx step \<Rightarrow> bool" where
  "keeps_link f \<longleftrightarrow> obeys sys_link same f"

definition keeps_link_out :: "('t sysctx \<times> 'o) step \<Rightarrow> bool" where
  "keeps_link_out f \<longleftrightarrow> obeys (sys_link \<circ> fst) same f"

lemmas link_defs = keeps_link_def keeps_link_out_def obeys_def same_def sys_link_def

named_theorems keeps_link_intros

lemma sys_link_simps [simp]: "sys_link None = None" "sys_link (Some c) = Some (ctx_tctiContext c)"
  by (simp_all add: sys_link_def)

lemma link_steps [keeps_link_intros]:
  "keeps_link (steps [])" "keeps_link f \<Longrightarrow> keeps_link (steps fs) \<Longrightarrow> keeps_link (steps (f # fs))"
  "keeps_link_out (steps [])" "keeps_link_out g \<Longrightarrow> keeps_link_out (steps gs) \<Longrightarrow> keeps_link_out (steps (g # gs))"
  by (auto simp: link_defs split: option.splits if_splits) metis+

lemma link_null_check [keeps_link_intros]: "keeps_link (null_check nulls)"
  by (simp add: link_defs null_check_def)

lemma link_put [keeps_link_intros]: "keeps_link (put m)"
  by (auto simp: link_defs put_def split: option.splits prod.splits)

lemma link_ret [keeps_link_intros]: "keeps_link (ret r)"
  by (simp add: link_defs ret_def)

lemma link_size_check [keeps_link_intros]: "keeps_link (size_check p)"
  by (auto simp: link_defs size_check_def split: option.splits if_splits)

lemma link_flags [keeps_link_intros]: "keeps_link (assign (flags d e a))" "keeps_link (assign (ctx_decryptNull_update g))"
  by (auto simp: link_defs assign_def flags_def split: option.splits)

lemma link_if [keeps_link_intros]: "keeps_link f \<Longrightarrow> keeps_link g \<Longrightarrow> keeps_link (if b then f else g)"
  by simp

lemma header_set_link: "header_set i w c = Some c' \<Longrightarrow> ctx_tctiContext c' = ctx_tctiContext c"
  by (auto simp: header_set_def)

lemma put_link: "put m (Some c) = Some (r, Some c') \<Longrightarrow> ctx_tctiContext c' = ctx_tctiContext c"
  by (auto simp: put_def split: option.splits prod.splits)

lemma CopyCommandHeader_link: "CopyCommandHeader (Some c) cc = Some (r, Some c') \<Longrightarrow> ctx_tctiContext c' = ctx_tctiContext c"
  by (auto simp: CopyCommandHeader_def split: option.splits prod.splits if_splits dest!: put_link header_set_link)

lemma link_Prologue [keeps_link_intros]: "keeps_link (CommonPreparePrologue cc)"
  by (auto simp: link_defs CommonPreparePrologue_def Let_def InitSysContextFields_def split: option.splits prod.splits if_splits
    dest!: CopyCommandHeader_link)

lemma link_Epilogue [keeps_link_intros]: "keeps_link CommonPrepareEpilogue"
  by (auto simp: link_defs CommonPrepareEpilogue_def split: option.splits dest!: header_set_link)

lemma link_CommonComplete [keeps_link_intros]: "keeps_link CommonComplete"
  by (auto simp: link_defs CommonComplete_def Let_def split: option.splits prod.splits if_splits)

lemma link_on_fst [keeps_link_intros]: "keeps_link f \<Longrightarrow> keeps_link_out (on_fst f)"
  by (fastforce simp: link_defs split: option.splits)

lemma link_get_out [keeps_link_intros]: "keeps_link_out (get_out U)"
  by (auto simp: link_defs get_out_def split: option.splits prod.splits)

lemma link_skip_out [keeps_link_intros]: "keeps_link_out f \<Longrightarrow> keeps_link_out (skip_out f)"
  by (fastforce simp: link_defs skip_out_def split: option.splits prod.splits)

lemma link_get_capability [keeps_link_intros]: "keeps_link_out get_capability"
  by (auto simp: link_defs get_capability_def get_out_def Let_def split: option.splits prod.splits if_splits)

section \<open>The functions of the commands\<close>

text \<open>
  A \<open>_Complete\<close> function with any arguments, as it stands in the calling function.
\<close>

lemma Complete_link:
  assumes "keeps_link_out f" "f (sys, outs) = Some (r, sys', outs')"
  shows "sys_link sys' = sys_link sys"
  using assms obeysD [of "sys_link \<circ> fst" same f "(sys, outs)" r "(sys', outs')"] by (simp add: keeps_link_out_def same_def)

named_theorems complete_links

lemma AC_GetCapability_Prepare_link [keeps_link_intros]: "keeps_link (\<lambda>sys. Tss2_Sys_AC_GetCapability_Prepare sys ac capability count')"
  unfolding Tss2_Sys_AC_GetCapability_Prepare_def by (intro keeps_link_intros)

lemma AC_GetCapability_Complete_link [complete_links]: "Tss2_Sys_AC_GetCapability_Complete sys moreData capabilityData = Some (r, sys', outs) \<Longrightarrow> sys_link sys' = sys_link sys"
  unfolding Tss2_Sys_AC_GetCapability_Complete_def by (erule Complete_link [rotated], intro keeps_link_intros)

lemma AC_Send_Prepare_link [keeps_link_intros]: "keeps_link (\<lambda>sys. Tss2_Sys_AC_Send_Prepare sys sendObject authHandle ac acDataIn)"
  unfolding Tss2_Sys_AC_Send_Prepare_def by (intro keeps_link_intros)

lemma AC_Send_Complete_link [complete_links]: "Tss2_Sys_AC_Send_Complete sys acDataOut = Some (r, sys', outs) \<Longrightarrow> sys_link sys' = sys_link sys"
  unfolding Tss2_Sys_AC_Send_Complete_def by (erule Complete_link [rotated], intro keeps_link_intros)

lemma ACT_SetTimeout_Prepare_link [keeps_link_intros]: "keeps_link (\<lambda>sys. Tss2_Sys_ACT_SetTimeout_Prepare sys actHandle startTimeout)"
  unfolding Tss2_Sys_ACT_SetTimeout_Prepare_def by (intro keeps_link_intros)

lemma ACT_SetTimeout_Complete_link [complete_links]: "Tss2_Sys_ACT_SetTimeout_Complete sys = Some (r, sys', outs) \<Longrightarrow> sys_link sys' = sys_link sys"
  unfolding Tss2_Sys_ACT_SetTimeout_Complete_def by (erule Complete_link [rotated], intro keeps_link_intros)

lemma ActivateCredential_Prepare_link [keeps_link_intros]: "keeps_link (\<lambda>sys. Tss2_Sys_ActivateCredential_Prepare sys activateHandle keyHandle credentialBlob secret)"
  unfolding Tss2_Sys_ActivateCredential_Prepare_def by (intro keeps_link_intros)

lemma ActivateCredential_Complete_link [complete_links]: "Tss2_Sys_ActivateCredential_Complete sys certInfo = Some (r, sys', outs) \<Longrightarrow> sys_link sys' = sys_link sys"
  unfolding Tss2_Sys_ActivateCredential_Complete_def by (erule Complete_link [rotated], intro keeps_link_intros)

lemma Certify_Prepare_link [keeps_link_intros]: "keeps_link (\<lambda>sys. Tss2_Sys_Certify_Prepare sys objectHandle signHandle qualifyingData inScheme)"
  unfolding Tss2_Sys_Certify_Prepare_def by (intro keeps_link_intros)

lemma Certify_Complete_link [complete_links]: "Tss2_Sys_Certify_Complete sys certifyInfo signature = Some (r, sys', outs) \<Longrightarrow> sys_link sys' = sys_link sys"
  unfolding Tss2_Sys_Certify_Complete_def by (erule Complete_link [rotated], intro keeps_link_intros)

lemma CertifyCreation_Prepare_link [keeps_link_intros]: "keeps_link (\<lambda>sys. Tss2_Sys_CertifyCreation_Prepare sys signHandle objectHandle qualifyingData creationHash inScheme creationTicket)"
  unfolding Tss2_Sys_CertifyCreation_Prepare_def by (intro keeps_link_intros)

lemma CertifyCreation_Complete_link [complete_links]: "Tss2_Sys_CertifyCreation_Complete sys certifyInfo signature = Some (r, sys', outs) \<Longrightarrow> sys_link sys' = sys_link sys"
  unfolding Tss2_Sys_CertifyCreation_Complete_def by (erule Complete_link [rotated], intro keeps_link_intros)

lemma CertifyX509_Prepare_link [keeps_link_intros]: "keeps_link (\<lambda>sys. Tss2_Sys_CertifyX509_Prepare sys objectHandle signHandle reserved inScheme partialCertificate)"
  unfolding Tss2_Sys_CertifyX509_Prepare_def by (intro keeps_link_intros)

lemma CertifyX509_Complete_link [complete_links]: "Tss2_Sys_CertifyX509_Complete sys addedToCertificate tbsDigest signature = Some (r, sys', outs) \<Longrightarrow> sys_link sys' = sys_link sys"
  unfolding Tss2_Sys_CertifyX509_Complete_def by (erule Complete_link [rotated], intro keeps_link_intros)

lemma ChangeEPS_Prepare_link [keeps_link_intros]: "keeps_link (\<lambda>sys. Tss2_Sys_ChangeEPS_Prepare sys authHandle)"
  unfolding Tss2_Sys_ChangeEPS_Prepare_def by (intro keeps_link_intros)

lemma ChangeEPS_Complete_link [complete_links]: "Tss2_Sys_ChangeEPS_Complete sys = Some (r, sys', outs) \<Longrightarrow> sys_link sys' = sys_link sys"
  unfolding Tss2_Sys_ChangeEPS_Complete_def by (erule Complete_link [rotated], intro keeps_link_intros)

lemma ChangePPS_Prepare_link [keeps_link_intros]: "keeps_link (\<lambda>sys. Tss2_Sys_ChangePPS_Prepare sys authHandle)"
  unfolding Tss2_Sys_ChangePPS_Prepare_def by (intro keeps_link_intros)

lemma ChangePPS_Complete_link [complete_links]: "Tss2_Sys_ChangePPS_Complete sys = Some (r, sys', outs) \<Longrightarrow> sys_link sys' = sys_link sys"
  unfolding Tss2_Sys_ChangePPS_Complete_def by (erule Complete_link [rotated], intro keeps_link_intros)

lemma Clear_Prepare_link [keeps_link_intros]: "keeps_link (\<lambda>sys. Tss2_Sys_Clear_Prepare sys authHandle)"
  unfolding Tss2_Sys_Clear_Prepare_def by (intro keeps_link_intros)

lemma Clear_Complete_link [complete_links]: "Tss2_Sys_Clear_Complete sys = Some (r, sys', outs) \<Longrightarrow> sys_link sys' = sys_link sys"
  unfolding Tss2_Sys_Clear_Complete_def by (erule Complete_link [rotated], intro keeps_link_intros)

lemma ClearControl_Prepare_link [keeps_link_intros]: "keeps_link (\<lambda>sys. Tss2_Sys_ClearControl_Prepare sys auth disable)"
  unfolding Tss2_Sys_ClearControl_Prepare_def by (intro keeps_link_intros)

lemma ClearControl_Complete_link [complete_links]: "Tss2_Sys_ClearControl_Complete sys = Some (r, sys', outs) \<Longrightarrow> sys_link sys' = sys_link sys"
  unfolding Tss2_Sys_ClearControl_Complete_def by (erule Complete_link [rotated], intro keeps_link_intros)

lemma ClockRateAdjust_Prepare_link [keeps_link_intros]: "keeps_link (\<lambda>sys. Tss2_Sys_ClockRateAdjust_Prepare sys auth rateAdjust)"
  unfolding Tss2_Sys_ClockRateAdjust_Prepare_def by (intro keeps_link_intros)

lemma ClockRateAdjust_Complete_link [complete_links]: "Tss2_Sys_ClockRateAdjust_Complete sys = Some (r, sys', outs) \<Longrightarrow> sys_link sys' = sys_link sys"
  unfolding Tss2_Sys_ClockRateAdjust_Complete_def by (erule Complete_link [rotated], intro keeps_link_intros)

lemma ClockSet_Prepare_link [keeps_link_intros]: "keeps_link (\<lambda>sys. Tss2_Sys_ClockSet_Prepare sys auth newTime)"
  unfolding Tss2_Sys_ClockSet_Prepare_def by (intro keeps_link_intros)

lemma ClockSet_Complete_link [complete_links]: "Tss2_Sys_ClockSet_Complete sys = Some (r, sys', outs) \<Longrightarrow> sys_link sys' = sys_link sys"
  unfolding Tss2_Sys_ClockSet_Complete_def by (erule Complete_link [rotated], intro keeps_link_intros)

lemma Commit_Prepare_link [keeps_link_intros]: "keeps_link (\<lambda>sys. Tss2_Sys_Commit_Prepare sys signHandle P1 s2 y2)"
  unfolding Tss2_Sys_Commit_Prepare_def by (intro keeps_link_intros)

lemma Commit_Complete_link [complete_links]: "Tss2_Sys_Commit_Complete sys K L E counter = Some (r, sys', outs) \<Longrightarrow> sys_link sys' = sys_link sys"
  unfolding Tss2_Sys_Commit_Complete_def by (erule Complete_link [rotated], intro keeps_link_intros)

lemma ContextLoad_Prepare_link [keeps_link_intros]: "keeps_link (\<lambda>sys. Tss2_Sys_ContextLoad_Prepare sys context')"
  unfolding Tss2_Sys_ContextLoad_Prepare_def by (intro keeps_link_intros)

lemma ContextLoad_Complete_link [complete_links]: "Tss2_Sys_ContextLoad_Complete sys loadedHandle = Some (r, sys', outs) \<Longrightarrow> sys_link sys' = sys_link sys"
  unfolding Tss2_Sys_ContextLoad_Complete_def by (erule Complete_link [rotated], intro keeps_link_intros)

lemma ContextSave_Prepare_link [keeps_link_intros]: "keeps_link (\<lambda>sys. Tss2_Sys_ContextSave_Prepare sys saveHandle)"
  unfolding Tss2_Sys_ContextSave_Prepare_def by (intro keeps_link_intros)

lemma ContextSave_Complete_link [complete_links]: "Tss2_Sys_ContextSave_Complete sys context' = Some (r, sys', outs) \<Longrightarrow> sys_link sys' = sys_link sys"
  unfolding Tss2_Sys_ContextSave_Complete_def by (erule Complete_link [rotated], intro keeps_link_intros)

lemma Create_Prepare_link [keeps_link_intros]: "keeps_link (\<lambda>sys. Tss2_Sys_Create_Prepare sys parentHandle inSensitive inPublic outsideInfo creationPCR)"
  unfolding Tss2_Sys_Create_Prepare_def by (intro keeps_link_intros)

lemma Create_Complete_link [complete_links]: "Tss2_Sys_Create_Complete sys outPrivate outPublic creationData creationHash creationTicket = Some (r, sys', outs) \<Longrightarrow> sys_link sys' = sys_link sys"
  unfolding Tss2_Sys_Create_Complete_def by (erule Complete_link [rotated], intro keeps_link_intros)

lemma CreateLoaded_Prepare_link [keeps_link_intros]: "keeps_link (\<lambda>sys. Tss2_Sys_CreateLoaded_Prepare sys parentHandle inSensitive inPublic)"
  unfolding Tss2_Sys_CreateLoaded_Prepare_def by (intro keeps_link_intros)

lemma CreateLoaded_Complete_link [complete_links]: "Tss2_Sys_CreateLoaded_Complete sys objectHandle outPrivate outPublic name = Some (r, sys', outs) \<Longrightarrow> sys_link sys' = sys_link sys"
  unfolding Tss2_Sys_CreateLoaded_Complete_def by (erule Complete_link [rotated], intro keeps_link_intros)

lemma CreatePrimary_Prepare_link [keeps_link_intros]: "keeps_link (\<lambda>sys. Tss2_Sys_CreatePrimary_Prepare sys primaryHandle inSensitive inPublic outsideInfo creationPCR)"
  unfolding Tss2_Sys_CreatePrimary_Prepare_def by (intro keeps_link_intros)

lemma CreatePrimary_Complete_link [complete_links]: "Tss2_Sys_CreatePrimary_Complete sys objectHandle outPublic creationData creationHash creationTicket name = Some (r, sys', outs) \<Longrightarrow> sys_link sys' = sys_link sys"
  unfolding Tss2_Sys_CreatePrimary_Complete_def by (erule Complete_link [rotated], intro keeps_link_intros)

lemma Decapsulate_Prepare_link [keeps_link_intros]: "keeps_link (\<lambda>sys. Tss2_Sys_Decapsulate_Prepare sys keyHandle cipherText label')"
  unfolding Tss2_Sys_Decapsulate_Prepare_def by (intro keeps_link_intros)

lemma Decapsulate_Complete_link [complete_links]: "Tss2_Sys_Decapsulate_Complete sys outSymSeed = Some (r, sys', outs) \<Longrightarrow> sys_link sys' = sys_link sys"
  unfolding Tss2_Sys_Decapsulate_Complete_def by (erule Complete_link [rotated], intro keeps_link_intros)

lemma DictionaryAttackLockReset_Prepare_link [keeps_link_intros]: "keeps_link (\<lambda>sys. Tss2_Sys_DictionaryAttackLockReset_Prepare sys lockHandle)"
  unfolding Tss2_Sys_DictionaryAttackLockReset_Prepare_def by (intro keeps_link_intros)

lemma DictionaryAttackLockReset_Complete_link [complete_links]: "Tss2_Sys_DictionaryAttackLockReset_Complete sys = Some (r, sys', outs) \<Longrightarrow> sys_link sys' = sys_link sys"
  unfolding Tss2_Sys_DictionaryAttackLockReset_Complete_def by (erule Complete_link [rotated], intro keeps_link_intros)

lemma DictionaryAttackParameters_Prepare_link [keeps_link_intros]: "keeps_link (\<lambda>sys. Tss2_Sys_DictionaryAttackParameters_Prepare sys lockHandle newMaxTries newRecoveryTime lockoutRecovery)"
  unfolding Tss2_Sys_DictionaryAttackParameters_Prepare_def by (intro keeps_link_intros)

lemma DictionaryAttackParameters_Complete_link [complete_links]: "Tss2_Sys_DictionaryAttackParameters_Complete sys = Some (r, sys', outs) \<Longrightarrow> sys_link sys' = sys_link sys"
  unfolding Tss2_Sys_DictionaryAttackParameters_Complete_def by (erule Complete_link [rotated], intro keeps_link_intros)

lemma Duplicate_Prepare_link [keeps_link_intros]: "keeps_link (\<lambda>sys. Tss2_Sys_Duplicate_Prepare sys objectHandle newParentHandle encryptionKeyIn symmetricAlg)"
  unfolding Tss2_Sys_Duplicate_Prepare_def by (intro keeps_link_intros)

lemma Duplicate_Complete_link [complete_links]: "Tss2_Sys_Duplicate_Complete sys encryptionKeyOut duplicate outSymSeed = Some (r, sys', outs) \<Longrightarrow> sys_link sys' = sys_link sys"
  unfolding Tss2_Sys_Duplicate_Complete_def by (erule Complete_link [rotated], intro keeps_link_intros)

lemma EC_Ephemeral_Prepare_link [keeps_link_intros]: "keeps_link (\<lambda>sys. Tss2_Sys_EC_Ephemeral_Prepare sys curveID)"
  unfolding Tss2_Sys_EC_Ephemeral_Prepare_def by (intro keeps_link_intros)

lemma EC_Ephemeral_Complete_link [complete_links]: "Tss2_Sys_EC_Ephemeral_Complete sys Q counter = Some (r, sys', outs) \<Longrightarrow> sys_link sys' = sys_link sys"
  unfolding Tss2_Sys_EC_Ephemeral_Complete_def by (erule Complete_link [rotated], intro keeps_link_intros)

lemma ECC_Decrypt_Prepare_link [keeps_link_intros]: "keeps_link (\<lambda>sys. Tss2_Sys_ECC_Decrypt_Prepare sys keyHandle c1 c2 c3 inScheme)"
  unfolding Tss2_Sys_ECC_Decrypt_Prepare_def by (intro keeps_link_intros)

lemma ECC_Decrypt_Complete_link [complete_links]: "Tss2_Sys_ECC_Decrypt_Complete sys plaintText = Some (r, sys', outs) \<Longrightarrow> sys_link sys' = sys_link sys"
  unfolding Tss2_Sys_ECC_Decrypt_Complete_def by (erule Complete_link [rotated], intro keeps_link_intros)

lemma ECC_Encrypt_Prepare_link [keeps_link_intros]: "keeps_link (\<lambda>sys. Tss2_Sys_ECC_Encrypt_Prepare sys keyHandle platinText inScheme)"
  unfolding Tss2_Sys_ECC_Encrypt_Prepare_def by (intro keeps_link_intros)

lemma ECC_Encrypt_Complete_link [complete_links]: "Tss2_Sys_ECC_Encrypt_Complete sys c1 c2 c3 = Some (r, sys', outs) \<Longrightarrow> sys_link sys' = sys_link sys"
  unfolding Tss2_Sys_ECC_Encrypt_Complete_def by (erule Complete_link [rotated], intro keeps_link_intros)

lemma ECC_Parameters_Prepare_link [keeps_link_intros]: "keeps_link (\<lambda>sys. Tss2_Sys_ECC_Parameters_Prepare sys curveID)"
  unfolding Tss2_Sys_ECC_Parameters_Prepare_def by (intro keeps_link_intros)

lemma ECC_Parameters_Complete_link [complete_links]: "Tss2_Sys_ECC_Parameters_Complete sys parameters = Some (r, sys', outs) \<Longrightarrow> sys_link sys' = sys_link sys"
  unfolding Tss2_Sys_ECC_Parameters_Complete_def by (erule Complete_link [rotated], intro keeps_link_intros)

lemma ECDH_KeyGen_Prepare_link [keeps_link_intros]: "keeps_link (\<lambda>sys. Tss2_Sys_ECDH_KeyGen_Prepare sys keyHandle)"
  unfolding Tss2_Sys_ECDH_KeyGen_Prepare_def by (intro keeps_link_intros)

lemma ECDH_KeyGen_Complete_link [complete_links]: "Tss2_Sys_ECDH_KeyGen_Complete sys zPoint pubPoint = Some (r, sys', outs) \<Longrightarrow> sys_link sys' = sys_link sys"
  unfolding Tss2_Sys_ECDH_KeyGen_Complete_def by (erule Complete_link [rotated], intro keeps_link_intros)

lemma ECDH_ZGen_Prepare_link [keeps_link_intros]: "keeps_link (\<lambda>sys. Tss2_Sys_ECDH_ZGen_Prepare sys keyHandle inPoint)"
  unfolding Tss2_Sys_ECDH_ZGen_Prepare_def by (intro keeps_link_intros)

lemma ECDH_ZGen_Complete_link [complete_links]: "Tss2_Sys_ECDH_ZGen_Complete sys outPoint = Some (r, sys', outs) \<Longrightarrow> sys_link sys' = sys_link sys"
  unfolding Tss2_Sys_ECDH_ZGen_Complete_def by (erule Complete_link [rotated], intro keeps_link_intros)

lemma Encapsulate_Prepare_link [keeps_link_intros]: "keeps_link (\<lambda>sys. Tss2_Sys_Encapsulate_Prepare sys keyHandle label')"
  unfolding Tss2_Sys_Encapsulate_Prepare_def by (intro keeps_link_intros)

lemma Encapsulate_Complete_link [complete_links]: "Tss2_Sys_Encapsulate_Complete sys outSymSeed cipherText = Some (r, sys', outs) \<Longrightarrow> sys_link sys' = sys_link sys"
  unfolding Tss2_Sys_Encapsulate_Complete_def by (erule Complete_link [rotated], intro keeps_link_intros)

lemma EncryptDecrypt_Prepare_link [keeps_link_intros]: "keeps_link (\<lambda>sys. Tss2_Sys_EncryptDecrypt_Prepare sys keyHandle decrypt mode ivIn inData)"
  unfolding Tss2_Sys_EncryptDecrypt_Prepare_def by (intro keeps_link_intros)

lemma EncryptDecrypt_Complete_link [complete_links]: "Tss2_Sys_EncryptDecrypt_Complete sys outData ivOut = Some (r, sys', outs) \<Longrightarrow> sys_link sys' = sys_link sys"
  unfolding Tss2_Sys_EncryptDecrypt_Complete_def by (erule Complete_link [rotated], intro keeps_link_intros)

lemma EncryptDecrypt2_Prepare_link [keeps_link_intros]: "keeps_link (\<lambda>sys. Tss2_Sys_EncryptDecrypt2_Prepare sys keyHandle inData decrypt mode ivIn)"
  unfolding Tss2_Sys_EncryptDecrypt2_Prepare_def by (intro keeps_link_intros)

lemma EncryptDecrypt2_Complete_link [complete_links]: "Tss2_Sys_EncryptDecrypt2_Complete sys outData ivOut = Some (r, sys', outs) \<Longrightarrow> sys_link sys' = sys_link sys"
  unfolding Tss2_Sys_EncryptDecrypt2_Complete_def by (erule Complete_link [rotated], intro keeps_link_intros)

lemma EventSequenceComplete_Prepare_link [keeps_link_intros]: "keeps_link (\<lambda>sys. Tss2_Sys_EventSequenceComplete_Prepare sys pcrHandle sequenceHandle buffer)"
  unfolding Tss2_Sys_EventSequenceComplete_Prepare_def by (intro keeps_link_intros)

lemma EventSequenceComplete_Complete_link [complete_links]: "Tss2_Sys_EventSequenceComplete_Complete sys results = Some (r, sys', outs) \<Longrightarrow> sys_link sys' = sys_link sys"
  unfolding Tss2_Sys_EventSequenceComplete_Complete_def by (erule Complete_link [rotated], intro keeps_link_intros)

lemma EvictControl_Prepare_link [keeps_link_intros]: "keeps_link (\<lambda>sys. Tss2_Sys_EvictControl_Prepare sys auth objectHandle persistentHandle)"
  unfolding Tss2_Sys_EvictControl_Prepare_def by (intro keeps_link_intros)

lemma EvictControl_Complete_link [complete_links]: "Tss2_Sys_EvictControl_Complete sys = Some (r, sys', outs) \<Longrightarrow> sys_link sys' = sys_link sys"
  unfolding Tss2_Sys_EvictControl_Complete_def by (erule Complete_link [rotated], intro keeps_link_intros)

lemma FieldUpgradeData_Prepare_link [keeps_link_intros]: "keeps_link (\<lambda>sys. Tss2_Sys_FieldUpgradeData_Prepare sys fuData)"
  unfolding Tss2_Sys_FieldUpgradeData_Prepare_def by (intro keeps_link_intros)

lemma FieldUpgradeData_Complete_link [complete_links]: "Tss2_Sys_FieldUpgradeData_Complete sys nextDigest firstDigest = Some (r, sys', outs) \<Longrightarrow> sys_link sys' = sys_link sys"
  unfolding Tss2_Sys_FieldUpgradeData_Complete_def by (erule Complete_link [rotated], intro keeps_link_intros)

lemma FieldUpgradeStart_Prepare_link [keeps_link_intros]: "keeps_link (\<lambda>sys. Tss2_Sys_FieldUpgradeStart_Prepare sys authorization keyHandle fuDigest manifestSignature)"
  unfolding Tss2_Sys_FieldUpgradeStart_Prepare_def by (intro keeps_link_intros)

lemma FieldUpgradeStart_Complete_link [complete_links]: "Tss2_Sys_FieldUpgradeStart_Complete sys = Some (r, sys', outs) \<Longrightarrow> sys_link sys' = sys_link sys"
  unfolding Tss2_Sys_FieldUpgradeStart_Complete_def by (erule Complete_link [rotated], intro keeps_link_intros)

lemma FirmwareRead_Prepare_link [keeps_link_intros]: "keeps_link (\<lambda>sys. Tss2_Sys_FirmwareRead_Prepare sys sequenceNumber)"
  unfolding Tss2_Sys_FirmwareRead_Prepare_def by (intro keeps_link_intros)

lemma FirmwareRead_Complete_link [complete_links]: "Tss2_Sys_FirmwareRead_Complete sys fuData = Some (r, sys', outs) \<Longrightarrow> sys_link sys' = sys_link sys"
  unfolding Tss2_Sys_FirmwareRead_Complete_def by (erule Complete_link [rotated], intro keeps_link_intros)

lemma FlushContext_Prepare_link [keeps_link_intros]: "keeps_link (\<lambda>sys. Tss2_Sys_FlushContext_Prepare sys flushHandle)"
  unfolding Tss2_Sys_FlushContext_Prepare_def by (intro keeps_link_intros)

lemma FlushContext_Complete_link [complete_links]: "Tss2_Sys_FlushContext_Complete sys = Some (r, sys', outs) \<Longrightarrow> sys_link sys' = sys_link sys"
  unfolding Tss2_Sys_FlushContext_Complete_def by (erule Complete_link [rotated], intro keeps_link_intros)

lemma GetCapability_Prepare_link [keeps_link_intros]: "keeps_link (\<lambda>sys. Tss2_Sys_GetCapability_Prepare sys capability property propertyCount)"
  unfolding Tss2_Sys_GetCapability_Prepare_def by (intro keeps_link_intros)

lemma GetCapability_Complete_link [complete_links]: "Tss2_Sys_GetCapability_Complete sys moreData capabilityData = Some (r, sys', outs) \<Longrightarrow> sys_link sys' = sys_link sys"
  unfolding Tss2_Sys_GetCapability_Complete_def by (erule Complete_link [rotated], intro keeps_link_intros)

lemma GetCommandAuditDigest_Prepare_link [keeps_link_intros]: "keeps_link (\<lambda>sys. Tss2_Sys_GetCommandAuditDigest_Prepare sys privacyHandle signHandle qualifyingData inScheme)"
  unfolding Tss2_Sys_GetCommandAuditDigest_Prepare_def by (intro keeps_link_intros)

lemma GetCommandAuditDigest_Complete_link [complete_links]: "Tss2_Sys_GetCommandAuditDigest_Complete sys auditInfo signature = Some (r, sys', outs) \<Longrightarrow> sys_link sys' = sys_link sys"
  unfolding Tss2_Sys_GetCommandAuditDigest_Complete_def by (erule Complete_link [rotated], intro keeps_link_intros)

lemma GetRandom_Prepare_link [keeps_link_intros]: "keeps_link (\<lambda>sys. Tss2_Sys_GetRandom_Prepare sys bytesRequested)"
  unfolding Tss2_Sys_GetRandom_Prepare_def by (intro keeps_link_intros)

lemma GetRandom_Complete_link [complete_links]: "Tss2_Sys_GetRandom_Complete sys randomBytes = Some (r, sys', outs) \<Longrightarrow> sys_link sys' = sys_link sys"
  unfolding Tss2_Sys_GetRandom_Complete_def by (erule Complete_link [rotated], intro keeps_link_intros)

lemma GetSessionAuditDigest_Prepare_link [keeps_link_intros]: "keeps_link (\<lambda>sys. Tss2_Sys_GetSessionAuditDigest_Prepare sys privacyAdminHandle signHandle sessionHandle qualifyingData inScheme)"
  unfolding Tss2_Sys_GetSessionAuditDigest_Prepare_def by (intro keeps_link_intros)

lemma GetSessionAuditDigest_Complete_link [complete_links]: "Tss2_Sys_GetSessionAuditDigest_Complete sys auditInfo signature = Some (r, sys', outs) \<Longrightarrow> sys_link sys' = sys_link sys"
  unfolding Tss2_Sys_GetSessionAuditDigest_Complete_def by (erule Complete_link [rotated], intro keeps_link_intros)

lemma GetTestResult_Prepare_link [keeps_link_intros]: "keeps_link (\<lambda>sys. Tss2_Sys_GetTestResult_Prepare sys)"
  unfolding Tss2_Sys_GetTestResult_Prepare_def by (intro keeps_link_intros)

lemma GetTestResult_Complete_link [complete_links]: "Tss2_Sys_GetTestResult_Complete sys outData testResult = Some (r, sys', outs) \<Longrightarrow> sys_link sys' = sys_link sys"
  unfolding Tss2_Sys_GetTestResult_Complete_def by (erule Complete_link [rotated], intro keeps_link_intros)

lemma GetTime_Prepare_link [keeps_link_intros]: "keeps_link (\<lambda>sys. Tss2_Sys_GetTime_Prepare sys privacyAdminHandle signHandle qualifyingData inScheme)"
  unfolding Tss2_Sys_GetTime_Prepare_def by (intro keeps_link_intros)

lemma GetTime_Complete_link [complete_links]: "Tss2_Sys_GetTime_Complete sys timeInfo signature = Some (r, sys', outs) \<Longrightarrow> sys_link sys' = sys_link sys"
  unfolding Tss2_Sys_GetTime_Complete_def by (erule Complete_link [rotated], intro keeps_link_intros)

lemma Hash_Prepare_link [keeps_link_intros]: "keeps_link (\<lambda>sys. Tss2_Sys_Hash_Prepare sys data' hashAlg hierarchy)"
  unfolding Tss2_Sys_Hash_Prepare_def by (intro keeps_link_intros)

lemma Hash_Complete_link [complete_links]: "Tss2_Sys_Hash_Complete sys outHash validation = Some (r, sys', outs) \<Longrightarrow> sys_link sys' = sys_link sys"
  unfolding Tss2_Sys_Hash_Complete_def by (erule Complete_link [rotated], intro keeps_link_intros)

lemma HashSequenceStart_Prepare_link [keeps_link_intros]: "keeps_link (\<lambda>sys. Tss2_Sys_HashSequenceStart_Prepare sys auth hashAlg)"
  unfolding Tss2_Sys_HashSequenceStart_Prepare_def by (intro keeps_link_intros)

lemma HashSequenceStart_Complete_link [complete_links]: "Tss2_Sys_HashSequenceStart_Complete sys sequenceHandle = Some (r, sys', outs) \<Longrightarrow> sys_link sys' = sys_link sys"
  unfolding Tss2_Sys_HashSequenceStart_Complete_def by (erule Complete_link [rotated], intro keeps_link_intros)

lemma HierarchyChangeAuth_Prepare_link [keeps_link_intros]: "keeps_link (\<lambda>sys. Tss2_Sys_HierarchyChangeAuth_Prepare sys authHandle newAuth)"
  unfolding Tss2_Sys_HierarchyChangeAuth_Prepare_def by (intro keeps_link_intros)

lemma HierarchyChangeAuth_Complete_link [complete_links]: "Tss2_Sys_HierarchyChangeAuth_Complete sys = Some (r, sys', outs) \<Longrightarrow> sys_link sys' = sys_link sys"
  unfolding Tss2_Sys_HierarchyChangeAuth_Complete_def by (erule Complete_link [rotated], intro keeps_link_intros)

lemma HierarchyControl_Prepare_link [keeps_link_intros]: "keeps_link (\<lambda>sys. Tss2_Sys_HierarchyControl_Prepare sys authHandle enable state)"
  unfolding Tss2_Sys_HierarchyControl_Prepare_def by (intro keeps_link_intros)

lemma HierarchyControl_Complete_link [complete_links]: "Tss2_Sys_HierarchyControl_Complete sys = Some (r, sys', outs) \<Longrightarrow> sys_link sys' = sys_link sys"
  unfolding Tss2_Sys_HierarchyControl_Complete_def by (erule Complete_link [rotated], intro keeps_link_intros)

lemma HMAC_Prepare_link [keeps_link_intros]: "keeps_link (\<lambda>sys. Tss2_Sys_HMAC_Prepare sys handle buffer hashAlg)"
  unfolding Tss2_Sys_HMAC_Prepare_def by (intro keeps_link_intros)

lemma HMAC_Complete_link [complete_links]: "Tss2_Sys_HMAC_Complete sys outHMAC = Some (r, sys', outs) \<Longrightarrow> sys_link sys' = sys_link sys"
  unfolding Tss2_Sys_HMAC_Complete_def by (erule Complete_link [rotated], intro keeps_link_intros)

lemma HMAC_Start_Prepare_link [keeps_link_intros]: "keeps_link (\<lambda>sys. Tss2_Sys_HMAC_Start_Prepare sys handle auth hashAlg)"
  unfolding Tss2_Sys_HMAC_Start_Prepare_def by (intro keeps_link_intros)

lemma HMAC_Start_Complete_link [complete_links]: "Tss2_Sys_HMAC_Start_Complete sys sequenceHandle = Some (r, sys', outs) \<Longrightarrow> sys_link sys' = sys_link sys"
  unfolding Tss2_Sys_HMAC_Start_Complete_def by (erule Complete_link [rotated], intro keeps_link_intros)

lemma Import_Prepare_link [keeps_link_intros]: "keeps_link (\<lambda>sys. Tss2_Sys_Import_Prepare sys parentHandle encryptionKey objectPublic duplicate inSymSeed symmetricAlg)"
  unfolding Tss2_Sys_Import_Prepare_def by (intro keeps_link_intros)

lemma Import_Complete_link [complete_links]: "Tss2_Sys_Import_Complete sys outPrivate = Some (r, sys', outs) \<Longrightarrow> sys_link sys' = sys_link sys"
  unfolding Tss2_Sys_Import_Complete_def by (erule Complete_link [rotated], intro keeps_link_intros)

lemma IncrementalSelfTest_Prepare_link [keeps_link_intros]: "keeps_link (\<lambda>sys. Tss2_Sys_IncrementalSelfTest_Prepare sys toTest)"
  unfolding Tss2_Sys_IncrementalSelfTest_Prepare_def by (intro keeps_link_intros)

lemma IncrementalSelfTest_Complete_link [complete_links]: "Tss2_Sys_IncrementalSelfTest_Complete sys toDoList = Some (r, sys', outs) \<Longrightarrow> sys_link sys' = sys_link sys"
  unfolding Tss2_Sys_IncrementalSelfTest_Complete_def by (erule Complete_link [rotated], intro keeps_link_intros)

lemma Load_Prepare_link [keeps_link_intros]: "keeps_link (\<lambda>sys. Tss2_Sys_Load_Prepare sys parentHandle inPrivate inPublic)"
  unfolding Tss2_Sys_Load_Prepare_def by (intro keeps_link_intros)

lemma Load_Complete_link [complete_links]: "Tss2_Sys_Load_Complete sys objectHandle name = Some (r, sys', outs) \<Longrightarrow> sys_link sys' = sys_link sys"
  unfolding Tss2_Sys_Load_Complete_def by (erule Complete_link [rotated], intro keeps_link_intros)

lemma LoadExternal_Prepare_link [keeps_link_intros]: "keeps_link (\<lambda>sys. Tss2_Sys_LoadExternal_Prepare sys inPrivate inPublic hierarchy)"
  unfolding Tss2_Sys_LoadExternal_Prepare_def by (intro keeps_link_intros)

lemma LoadExternal_Complete_link [complete_links]: "Tss2_Sys_LoadExternal_Complete sys objectHandle name = Some (r, sys', outs) \<Longrightarrow> sys_link sys' = sys_link sys"
  unfolding Tss2_Sys_LoadExternal_Complete_def by (erule Complete_link [rotated], intro keeps_link_intros)

lemma MAC_Prepare_link [keeps_link_intros]: "keeps_link (\<lambda>sys. Tss2_Sys_MAC_Prepare sys handle buffer inScheme)"
  unfolding Tss2_Sys_MAC_Prepare_def by (intro keeps_link_intros)

lemma MAC_Complete_link [complete_links]: "Tss2_Sys_MAC_Complete sys outMAC = Some (r, sys', outs) \<Longrightarrow> sys_link sys' = sys_link sys"
  unfolding Tss2_Sys_MAC_Complete_def by (erule Complete_link [rotated], intro keeps_link_intros)

lemma MAC_Start_Prepare_link [keeps_link_intros]: "keeps_link (\<lambda>sys. Tss2_Sys_MAC_Start_Prepare sys handle auth inScheme)"
  unfolding Tss2_Sys_MAC_Start_Prepare_def by (intro keeps_link_intros)

lemma MAC_Start_Complete_link [complete_links]: "Tss2_Sys_MAC_Start_Complete sys sequenceHandle = Some (r, sys', outs) \<Longrightarrow> sys_link sys' = sys_link sys"
  unfolding Tss2_Sys_MAC_Start_Complete_def by (erule Complete_link [rotated], intro keeps_link_intros)

lemma MakeCredential_Prepare_link [keeps_link_intros]: "keeps_link (\<lambda>sys. Tss2_Sys_MakeCredential_Prepare sys handle credential objectName)"
  unfolding Tss2_Sys_MakeCredential_Prepare_def by (intro keeps_link_intros)

lemma MakeCredential_Complete_link [complete_links]: "Tss2_Sys_MakeCredential_Complete sys credentialBlob secret = Some (r, sys', outs) \<Longrightarrow> sys_link sys' = sys_link sys"
  unfolding Tss2_Sys_MakeCredential_Complete_def by (erule Complete_link [rotated], intro keeps_link_intros)

lemma NV_Certify_Prepare_link [keeps_link_intros]: "keeps_link (\<lambda>sys. Tss2_Sys_NV_Certify_Prepare sys signHandle authHandle nvIndex qualifyingData inScheme size' offset)"
  unfolding Tss2_Sys_NV_Certify_Prepare_def by (intro keeps_link_intros)

lemma NV_Certify_Complete_link [complete_links]: "Tss2_Sys_NV_Certify_Complete sys certifyInfo signature = Some (r, sys', outs) \<Longrightarrow> sys_link sys' = sys_link sys"
  unfolding Tss2_Sys_NV_Certify_Complete_def by (erule Complete_link [rotated], intro keeps_link_intros)

lemma NV_ChangeAuth_Prepare_link [keeps_link_intros]: "keeps_link (\<lambda>sys. Tss2_Sys_NV_ChangeAuth_Prepare sys nvIndex newAuth)"
  unfolding Tss2_Sys_NV_ChangeAuth_Prepare_def by (intro keeps_link_intros)

lemma NV_ChangeAuth_Complete_link [complete_links]: "Tss2_Sys_NV_ChangeAuth_Complete sys = Some (r, sys', outs) \<Longrightarrow> sys_link sys' = sys_link sys"
  unfolding Tss2_Sys_NV_ChangeAuth_Complete_def by (erule Complete_link [rotated], intro keeps_link_intros)

lemma NV_DefineSpace_Prepare_link [keeps_link_intros]: "keeps_link (\<lambda>sys. Tss2_Sys_NV_DefineSpace_Prepare sys authHandle auth publicInfo)"
  unfolding Tss2_Sys_NV_DefineSpace_Prepare_def by (intro keeps_link_intros)

lemma NV_DefineSpace_Complete_link [complete_links]: "Tss2_Sys_NV_DefineSpace_Complete sys = Some (r, sys', outs) \<Longrightarrow> sys_link sys' = sys_link sys"
  unfolding Tss2_Sys_NV_DefineSpace_Complete_def by (erule Complete_link [rotated], intro keeps_link_intros)

lemma NV_Extend_Prepare_link [keeps_link_intros]: "keeps_link (\<lambda>sys. Tss2_Sys_NV_Extend_Prepare sys authHandle nvIndex data')"
  unfolding Tss2_Sys_NV_Extend_Prepare_def by (intro keeps_link_intros)

lemma NV_Extend_Complete_link [complete_links]: "Tss2_Sys_NV_Extend_Complete sys = Some (r, sys', outs) \<Longrightarrow> sys_link sys' = sys_link sys"
  unfolding Tss2_Sys_NV_Extend_Complete_def by (erule Complete_link [rotated], intro keeps_link_intros)

lemma NV_GlobalWriteLock_Prepare_link [keeps_link_intros]: "keeps_link (\<lambda>sys. Tss2_Sys_NV_GlobalWriteLock_Prepare sys authHandle)"
  unfolding Tss2_Sys_NV_GlobalWriteLock_Prepare_def by (intro keeps_link_intros)

lemma NV_GlobalWriteLock_Complete_link [complete_links]: "Tss2_Sys_NV_GlobalWriteLock_Complete sys = Some (r, sys', outs) \<Longrightarrow> sys_link sys' = sys_link sys"
  unfolding Tss2_Sys_NV_GlobalWriteLock_Complete_def by (erule Complete_link [rotated], intro keeps_link_intros)

lemma NV_Increment_Prepare_link [keeps_link_intros]: "keeps_link (\<lambda>sys. Tss2_Sys_NV_Increment_Prepare sys authHandle nvIndex)"
  unfolding Tss2_Sys_NV_Increment_Prepare_def by (intro keeps_link_intros)

lemma NV_Increment_Complete_link [complete_links]: "Tss2_Sys_NV_Increment_Complete sys = Some (r, sys', outs) \<Longrightarrow> sys_link sys' = sys_link sys"
  unfolding Tss2_Sys_NV_Increment_Complete_def by (erule Complete_link [rotated], intro keeps_link_intros)

lemma NV_Read_Prepare_link [keeps_link_intros]: "keeps_link (\<lambda>sys. Tss2_Sys_NV_Read_Prepare sys authHandle nvIndex size' offset)"
  unfolding Tss2_Sys_NV_Read_Prepare_def by (intro keeps_link_intros)

lemma NV_Read_Complete_link [complete_links]: "Tss2_Sys_NV_Read_Complete sys data' = Some (r, sys', outs) \<Longrightarrow> sys_link sys' = sys_link sys"
  unfolding Tss2_Sys_NV_Read_Complete_def by (erule Complete_link [rotated], intro keeps_link_intros)

lemma NV_ReadLock_Prepare_link [keeps_link_intros]: "keeps_link (\<lambda>sys. Tss2_Sys_NV_ReadLock_Prepare sys authHandle nvIndex)"
  unfolding Tss2_Sys_NV_ReadLock_Prepare_def by (intro keeps_link_intros)

lemma NV_ReadLock_Complete_link [complete_links]: "Tss2_Sys_NV_ReadLock_Complete sys = Some (r, sys', outs) \<Longrightarrow> sys_link sys' = sys_link sys"
  unfolding Tss2_Sys_NV_ReadLock_Complete_def by (erule Complete_link [rotated], intro keeps_link_intros)

lemma NV_ReadPublic_Prepare_link [keeps_link_intros]: "keeps_link (\<lambda>sys. Tss2_Sys_NV_ReadPublic_Prepare sys nvIndex)"
  unfolding Tss2_Sys_NV_ReadPublic_Prepare_def by (intro keeps_link_intros)

lemma NV_ReadPublic_Complete_link [complete_links]: "Tss2_Sys_NV_ReadPublic_Complete sys nvPublic nvName = Some (r, sys', outs) \<Longrightarrow> sys_link sys' = sys_link sys"
  unfolding Tss2_Sys_NV_ReadPublic_Complete_def by (erule Complete_link [rotated], intro keeps_link_intros)

lemma NV_SetBits_Prepare_link [keeps_link_intros]: "keeps_link (\<lambda>sys. Tss2_Sys_NV_SetBits_Prepare sys authHandle nvIndex bits)"
  unfolding Tss2_Sys_NV_SetBits_Prepare_def by (intro keeps_link_intros)

lemma NV_SetBits_Complete_link [complete_links]: "Tss2_Sys_NV_SetBits_Complete sys = Some (r, sys', outs) \<Longrightarrow> sys_link sys' = sys_link sys"
  unfolding Tss2_Sys_NV_SetBits_Complete_def by (erule Complete_link [rotated], intro keeps_link_intros)

lemma NV_UndefineSpace_Prepare_link [keeps_link_intros]: "keeps_link (\<lambda>sys. Tss2_Sys_NV_UndefineSpace_Prepare sys authHandle nvIndex)"
  unfolding Tss2_Sys_NV_UndefineSpace_Prepare_def by (intro keeps_link_intros)

lemma NV_UndefineSpace_Complete_link [complete_links]: "Tss2_Sys_NV_UndefineSpace_Complete sys = Some (r, sys', outs) \<Longrightarrow> sys_link sys' = sys_link sys"
  unfolding Tss2_Sys_NV_UndefineSpace_Complete_def by (erule Complete_link [rotated], intro keeps_link_intros)

lemma NV_UndefineSpaceSpecial_Prepare_link [keeps_link_intros]: "keeps_link (\<lambda>sys. Tss2_Sys_NV_UndefineSpaceSpecial_Prepare sys nvIndex platform)"
  unfolding Tss2_Sys_NV_UndefineSpaceSpecial_Prepare_def by (intro keeps_link_intros)

lemma NV_UndefineSpaceSpecial_Complete_link [complete_links]: "Tss2_Sys_NV_UndefineSpaceSpecial_Complete sys = Some (r, sys', outs) \<Longrightarrow> sys_link sys' = sys_link sys"
  unfolding Tss2_Sys_NV_UndefineSpaceSpecial_Complete_def by (erule Complete_link [rotated], intro keeps_link_intros)

lemma NV_Write_Prepare_link [keeps_link_intros]: "keeps_link (\<lambda>sys. Tss2_Sys_NV_Write_Prepare sys authHandle nvIndex data' offset)"
  unfolding Tss2_Sys_NV_Write_Prepare_def by (intro keeps_link_intros)

lemma NV_Write_Complete_link [complete_links]: "Tss2_Sys_NV_Write_Complete sys = Some (r, sys', outs) \<Longrightarrow> sys_link sys' = sys_link sys"
  unfolding Tss2_Sys_NV_Write_Complete_def by (erule Complete_link [rotated], intro keeps_link_intros)

lemma NV_WriteLock_Prepare_link [keeps_link_intros]: "keeps_link (\<lambda>sys. Tss2_Sys_NV_WriteLock_Prepare sys authHandle nvIndex)"
  unfolding Tss2_Sys_NV_WriteLock_Prepare_def by (intro keeps_link_intros)

lemma NV_WriteLock_Complete_link [complete_links]: "Tss2_Sys_NV_WriteLock_Complete sys = Some (r, sys', outs) \<Longrightarrow> sys_link sys' = sys_link sys"
  unfolding Tss2_Sys_NV_WriteLock_Complete_def by (erule Complete_link [rotated], intro keeps_link_intros)

lemma ObjectChangeAuth_Prepare_link [keeps_link_intros]: "keeps_link (\<lambda>sys. Tss2_Sys_ObjectChangeAuth_Prepare sys objectHandle parentHandle newAuth)"
  unfolding Tss2_Sys_ObjectChangeAuth_Prepare_def by (intro keeps_link_intros)

lemma ObjectChangeAuth_Complete_link [complete_links]: "Tss2_Sys_ObjectChangeAuth_Complete sys outPrivate = Some (r, sys', outs) \<Longrightarrow> sys_link sys' = sys_link sys"
  unfolding Tss2_Sys_ObjectChangeAuth_Complete_def by (erule Complete_link [rotated], intro keeps_link_intros)

lemma PCR_Allocate_Prepare_link [keeps_link_intros]: "keeps_link (\<lambda>sys. Tss2_Sys_PCR_Allocate_Prepare sys authHandle pcrAllocation)"
  unfolding Tss2_Sys_PCR_Allocate_Prepare_def by (intro keeps_link_intros)

lemma PCR_Allocate_Complete_link [complete_links]: "Tss2_Sys_PCR_Allocate_Complete sys allocationSuccess maxPCR sizeNeeded sizeAvailable = Some (r, sys', outs) \<Longrightarrow> sys_link sys' = sys_link sys"
  unfolding Tss2_Sys_PCR_Allocate_Complete_def by (erule Complete_link [rotated], intro keeps_link_intros)

lemma PCR_Event_Prepare_link [keeps_link_intros]: "keeps_link (\<lambda>sys. Tss2_Sys_PCR_Event_Prepare sys pcrHandle eventData)"
  unfolding Tss2_Sys_PCR_Event_Prepare_def by (intro keeps_link_intros)

lemma PCR_Event_Complete_link [complete_links]: "Tss2_Sys_PCR_Event_Complete sys digests = Some (r, sys', outs) \<Longrightarrow> sys_link sys' = sys_link sys"
  unfolding Tss2_Sys_PCR_Event_Complete_def by (erule Complete_link [rotated], intro keeps_link_intros)

lemma PCR_Extend_Prepare_link [keeps_link_intros]: "keeps_link (\<lambda>sys. Tss2_Sys_PCR_Extend_Prepare sys pcrHandle digests)"
  unfolding Tss2_Sys_PCR_Extend_Prepare_def by (intro keeps_link_intros)

lemma PCR_Extend_Complete_link [complete_links]: "Tss2_Sys_PCR_Extend_Complete sys = Some (r, sys', outs) \<Longrightarrow> sys_link sys' = sys_link sys"
  unfolding Tss2_Sys_PCR_Extend_Complete_def by (erule Complete_link [rotated], intro keeps_link_intros)

lemma PCR_Read_Prepare_link [keeps_link_intros]: "keeps_link (\<lambda>sys. Tss2_Sys_PCR_Read_Prepare sys pcrSelectionIn)"
  unfolding Tss2_Sys_PCR_Read_Prepare_def by (intro keeps_link_intros)

lemma PCR_Read_Complete_link [complete_links]: "Tss2_Sys_PCR_Read_Complete sys pcrUpdateCounter pcrSelectionOut pcrValues = Some (r, sys', outs) \<Longrightarrow> sys_link sys' = sys_link sys"
  unfolding Tss2_Sys_PCR_Read_Complete_def by (erule Complete_link [rotated], intro keeps_link_intros)

lemma PCR_Reset_Prepare_link [keeps_link_intros]: "keeps_link (\<lambda>sys. Tss2_Sys_PCR_Reset_Prepare sys pcrHandle)"
  unfolding Tss2_Sys_PCR_Reset_Prepare_def by (intro keeps_link_intros)

lemma PCR_Reset_Complete_link [complete_links]: "Tss2_Sys_PCR_Reset_Complete sys = Some (r, sys', outs) \<Longrightarrow> sys_link sys' = sys_link sys"
  unfolding Tss2_Sys_PCR_Reset_Complete_def by (erule Complete_link [rotated], intro keeps_link_intros)

lemma PCR_SetAuthPolicy_Prepare_link [keeps_link_intros]: "keeps_link (\<lambda>sys. Tss2_Sys_PCR_SetAuthPolicy_Prepare sys authHandle authPolicy hashAlg pcrNum)"
  unfolding Tss2_Sys_PCR_SetAuthPolicy_Prepare_def by (intro keeps_link_intros)

lemma PCR_SetAuthPolicy_Complete_link [complete_links]: "Tss2_Sys_PCR_SetAuthPolicy_Complete sys = Some (r, sys', outs) \<Longrightarrow> sys_link sys' = sys_link sys"
  unfolding Tss2_Sys_PCR_SetAuthPolicy_Complete_def by (erule Complete_link [rotated], intro keeps_link_intros)

lemma PCR_SetAuthValue_Prepare_link [keeps_link_intros]: "keeps_link (\<lambda>sys. Tss2_Sys_PCR_SetAuthValue_Prepare sys pcrHandle auth)"
  unfolding Tss2_Sys_PCR_SetAuthValue_Prepare_def by (intro keeps_link_intros)

lemma PCR_SetAuthValue_Complete_link [complete_links]: "Tss2_Sys_PCR_SetAuthValue_Complete sys = Some (r, sys', outs) \<Longrightarrow> sys_link sys' = sys_link sys"
  unfolding Tss2_Sys_PCR_SetAuthValue_Complete_def by (erule Complete_link [rotated], intro keeps_link_intros)

lemma Policy_AC_SendSelect_Prepare_link [keeps_link_intros]: "keeps_link (\<lambda>sys. Tss2_Sys_Policy_AC_SendSelect_Prepare sys policySession objectName authHandleName acName includeObject)"
  unfolding Tss2_Sys_Policy_AC_SendSelect_Prepare_def by (intro keeps_link_intros)

lemma Policy_AC_SendSelect_Complete_link [complete_links]: "Tss2_Sys_Policy_AC_SendSelect_Complete sys = Some (r, sys', outs) \<Longrightarrow> sys_link sys' = sys_link sys"
  unfolding Tss2_Sys_Policy_AC_SendSelect_Complete_def by (erule Complete_link [rotated], intro keeps_link_intros)

lemma PolicyAuthorize_Prepare_link [keeps_link_intros]: "keeps_link (\<lambda>sys. Tss2_Sys_PolicyAuthorize_Prepare sys policySession approvedPolicy policyRef keySign checkTicket)"
  unfolding Tss2_Sys_PolicyAuthorize_Prepare_def by (intro keeps_link_intros)

lemma PolicyAuthorize_Complete_link [complete_links]: "Tss2_Sys_PolicyAuthorize_Complete sys = Some (r, sys', outs) \<Longrightarrow> sys_link sys' = sys_link sys"
  unfolding Tss2_Sys_PolicyAuthorize_Complete_def by (erule Complete_link [rotated], intro keeps_link_intros)

lemma PolicyAuthorizeNV_Prepare_link [keeps_link_intros]: "keeps_link (\<lambda>sys. Tss2_Sys_PolicyAuthorizeNV_Prepare sys authHandle nvIndex policySession)"
  unfolding Tss2_Sys_PolicyAuthorizeNV_Prepare_def by (intro keeps_link_intros)

lemma PolicyAuthorizeNV_Complete_link [complete_links]: "Tss2_Sys_PolicyAuthorizeNV_Complete sys = Some (r, sys', outs) \<Longrightarrow> sys_link sys' = sys_link sys"
  unfolding Tss2_Sys_PolicyAuthorizeNV_Complete_def by (erule Complete_link [rotated], intro keeps_link_intros)

lemma PolicyAuthValue_Prepare_link [keeps_link_intros]: "keeps_link (\<lambda>sys. Tss2_Sys_PolicyAuthValue_Prepare sys policySession)"
  unfolding Tss2_Sys_PolicyAuthValue_Prepare_def by (intro keeps_link_intros)

lemma PolicyAuthValue_Complete_link [complete_links]: "Tss2_Sys_PolicyAuthValue_Complete sys = Some (r, sys', outs) \<Longrightarrow> sys_link sys' = sys_link sys"
  unfolding Tss2_Sys_PolicyAuthValue_Complete_def by (erule Complete_link [rotated], intro keeps_link_intros)

lemma PolicyCommandCode_Prepare_link [keeps_link_intros]: "keeps_link (\<lambda>sys. Tss2_Sys_PolicyCommandCode_Prepare sys policySession code)"
  unfolding Tss2_Sys_PolicyCommandCode_Prepare_def by (intro keeps_link_intros)

lemma PolicyCommandCode_Complete_link [complete_links]: "Tss2_Sys_PolicyCommandCode_Complete sys = Some (r, sys', outs) \<Longrightarrow> sys_link sys' = sys_link sys"
  unfolding Tss2_Sys_PolicyCommandCode_Complete_def by (erule Complete_link [rotated], intro keeps_link_intros)

lemma PolicyCounterTimer_Prepare_link [keeps_link_intros]: "keeps_link (\<lambda>sys. Tss2_Sys_PolicyCounterTimer_Prepare sys policySession operandB offset operation)"
  unfolding Tss2_Sys_PolicyCounterTimer_Prepare_def by (intro keeps_link_intros)

lemma PolicyCounterTimer_Complete_link [complete_links]: "Tss2_Sys_PolicyCounterTimer_Complete sys = Some (r, sys', outs) \<Longrightarrow> sys_link sys' = sys_link sys"
  unfolding Tss2_Sys_PolicyCounterTimer_Complete_def by (erule Complete_link [rotated], intro keeps_link_intros)

lemma PolicyCpHash_Prepare_link [keeps_link_intros]: "keeps_link (\<lambda>sys. Tss2_Sys_PolicyCpHash_Prepare sys policySession cpHashA)"
  unfolding Tss2_Sys_PolicyCpHash_Prepare_def by (intro keeps_link_intros)

lemma PolicyCpHash_Complete_link [complete_links]: "Tss2_Sys_PolicyCpHash_Complete sys = Some (r, sys', outs) \<Longrightarrow> sys_link sys' = sys_link sys"
  unfolding Tss2_Sys_PolicyCpHash_Complete_def by (erule Complete_link [rotated], intro keeps_link_intros)

lemma PolicyDuplicationSelect_Prepare_link [keeps_link_intros]: "keeps_link (\<lambda>sys. Tss2_Sys_PolicyDuplicationSelect_Prepare sys policySession objectName newParentName includeObject)"
  unfolding Tss2_Sys_PolicyDuplicationSelect_Prepare_def by (intro keeps_link_intros)

lemma PolicyDuplicationSelect_Complete_link [complete_links]: "Tss2_Sys_PolicyDuplicationSelect_Complete sys = Some (r, sys', outs) \<Longrightarrow> sys_link sys' = sys_link sys"
  unfolding Tss2_Sys_PolicyDuplicationSelect_Complete_def by (erule Complete_link [rotated], intro keeps_link_intros)

lemma PolicyGetDigest_Prepare_link [keeps_link_intros]: "keeps_link (\<lambda>sys. Tss2_Sys_PolicyGetDigest_Prepare sys policySession)"
  unfolding Tss2_Sys_PolicyGetDigest_Prepare_def by (intro keeps_link_intros)

lemma PolicyGetDigest_Complete_link [complete_links]: "Tss2_Sys_PolicyGetDigest_Complete sys policyDigest = Some (r, sys', outs) \<Longrightarrow> sys_link sys' = sys_link sys"
  unfolding Tss2_Sys_PolicyGetDigest_Complete_def by (erule Complete_link [rotated], intro keeps_link_intros)

lemma PolicyLocality_Prepare_link [keeps_link_intros]: "keeps_link (\<lambda>sys. Tss2_Sys_PolicyLocality_Prepare sys policySession locality)"
  unfolding Tss2_Sys_PolicyLocality_Prepare_def by (intro keeps_link_intros)

lemma PolicyLocality_Complete_link [complete_links]: "Tss2_Sys_PolicyLocality_Complete sys = Some (r, sys', outs) \<Longrightarrow> sys_link sys' = sys_link sys"
  unfolding Tss2_Sys_PolicyLocality_Complete_def by (erule Complete_link [rotated], intro keeps_link_intros)

lemma PolicyNameHash_Prepare_link [keeps_link_intros]: "keeps_link (\<lambda>sys. Tss2_Sys_PolicyNameHash_Prepare sys policySession nameHash)"
  unfolding Tss2_Sys_PolicyNameHash_Prepare_def by (intro keeps_link_intros)

lemma PolicyNameHash_Complete_link [complete_links]: "Tss2_Sys_PolicyNameHash_Complete sys = Some (r, sys', outs) \<Longrightarrow> sys_link sys' = sys_link sys"
  unfolding Tss2_Sys_PolicyNameHash_Complete_def by (erule Complete_link [rotated], intro keeps_link_intros)

lemma PolicyNV_Prepare_link [keeps_link_intros]: "keeps_link (\<lambda>sys. Tss2_Sys_PolicyNV_Prepare sys authHandle nvIndex policySession operandB offset operation)"
  unfolding Tss2_Sys_PolicyNV_Prepare_def by (intro keeps_link_intros)

lemma PolicyNV_Complete_link [complete_links]: "Tss2_Sys_PolicyNV_Complete sys = Some (r, sys', outs) \<Longrightarrow> sys_link sys' = sys_link sys"
  unfolding Tss2_Sys_PolicyNV_Complete_def by (erule Complete_link [rotated], intro keeps_link_intros)

lemma PolicyNvWritten_Prepare_link [keeps_link_intros]: "keeps_link (\<lambda>sys. Tss2_Sys_PolicyNvWritten_Prepare sys policySession writtenSet)"
  unfolding Tss2_Sys_PolicyNvWritten_Prepare_def by (intro keeps_link_intros)

lemma PolicyNvWritten_Complete_link [complete_links]: "Tss2_Sys_PolicyNvWritten_Complete sys = Some (r, sys', outs) \<Longrightarrow> sys_link sys' = sys_link sys"
  unfolding Tss2_Sys_PolicyNvWritten_Complete_def by (erule Complete_link [rotated], intro keeps_link_intros)

lemma PolicyOR_Prepare_link [keeps_link_intros]: "keeps_link (\<lambda>sys. Tss2_Sys_PolicyOR_Prepare sys policySession pHashList)"
  unfolding Tss2_Sys_PolicyOR_Prepare_def by (intro keeps_link_intros)

lemma PolicyOR_Complete_link [complete_links]: "Tss2_Sys_PolicyOR_Complete sys = Some (r, sys', outs) \<Longrightarrow> sys_link sys' = sys_link sys"
  unfolding Tss2_Sys_PolicyOR_Complete_def by (erule Complete_link [rotated], intro keeps_link_intros)

lemma PolicyPassword_Prepare_link [keeps_link_intros]: "keeps_link (\<lambda>sys. Tss2_Sys_PolicyPassword_Prepare sys policySession)"
  unfolding Tss2_Sys_PolicyPassword_Prepare_def by (intro keeps_link_intros)

lemma PolicyPassword_Complete_link [complete_links]: "Tss2_Sys_PolicyPassword_Complete sys = Some (r, sys', outs) \<Longrightarrow> sys_link sys' = sys_link sys"
  unfolding Tss2_Sys_PolicyPassword_Complete_def by (erule Complete_link [rotated], intro keeps_link_intros)

lemma PolicyPCR_Prepare_link [keeps_link_intros]: "keeps_link (\<lambda>sys. Tss2_Sys_PolicyPCR_Prepare sys policySession pcrDigest pcrs)"
  unfolding Tss2_Sys_PolicyPCR_Prepare_def by (intro keeps_link_intros)

lemma PolicyPCR_Complete_link [complete_links]: "Tss2_Sys_PolicyPCR_Complete sys = Some (r, sys', outs) \<Longrightarrow> sys_link sys' = sys_link sys"
  unfolding Tss2_Sys_PolicyPCR_Complete_def by (erule Complete_link [rotated], intro keeps_link_intros)

lemma PolicyPhysicalPresence_Prepare_link [keeps_link_intros]: "keeps_link (\<lambda>sys. Tss2_Sys_PolicyPhysicalPresence_Prepare sys policySession)"
  unfolding Tss2_Sys_PolicyPhysicalPresence_Prepare_def by (intro keeps_link_intros)

lemma PolicyPhysicalPresence_Complete_link [complete_links]: "Tss2_Sys_PolicyPhysicalPresence_Complete sys = Some (r, sys', outs) \<Longrightarrow> sys_link sys' = sys_link sys"
  unfolding Tss2_Sys_PolicyPhysicalPresence_Complete_def by (erule Complete_link [rotated], intro keeps_link_intros)

lemma PolicyRestart_Prepare_link [keeps_link_intros]: "keeps_link (\<lambda>sys. Tss2_Sys_PolicyRestart_Prepare sys sessionHandle)"
  unfolding Tss2_Sys_PolicyRestart_Prepare_def by (intro keeps_link_intros)

lemma PolicyRestart_Complete_link [complete_links]: "Tss2_Sys_PolicyRestart_Complete sys = Some (r, sys', outs) \<Longrightarrow> sys_link sys' = sys_link sys"
  unfolding Tss2_Sys_PolicyRestart_Complete_def by (erule Complete_link [rotated], intro keeps_link_intros)

lemma PolicySecret_Prepare_link [keeps_link_intros]: "keeps_link (\<lambda>sys. Tss2_Sys_PolicySecret_Prepare sys authHandle policySession nonceTPM cpHashA policyRef expiration)"
  unfolding Tss2_Sys_PolicySecret_Prepare_def by (intro keeps_link_intros)

lemma PolicySecret_Complete_link [complete_links]: "Tss2_Sys_PolicySecret_Complete sys timeout policyTicket = Some (r, sys', outs) \<Longrightarrow> sys_link sys' = sys_link sys"
  unfolding Tss2_Sys_PolicySecret_Complete_def by (erule Complete_link [rotated], intro keeps_link_intros)

lemma PolicySigned_Prepare_link [keeps_link_intros]: "keeps_link (\<lambda>sys. Tss2_Sys_PolicySigned_Prepare sys authObject policySession nonceTPM cpHashA policyRef expiration auth)"
  unfolding Tss2_Sys_PolicySigned_Prepare_def by (intro keeps_link_intros)

lemma PolicySigned_Complete_link [complete_links]: "Tss2_Sys_PolicySigned_Complete sys timeout policyTicket = Some (r, sys', outs) \<Longrightarrow> sys_link sys' = sys_link sys"
  unfolding Tss2_Sys_PolicySigned_Complete_def by (erule Complete_link [rotated], intro keeps_link_intros)

lemma PolicyTemplate_Prepare_link [keeps_link_intros]: "keeps_link (\<lambda>sys. Tss2_Sys_PolicyTemplate_Prepare sys policySession templateHash)"
  unfolding Tss2_Sys_PolicyTemplate_Prepare_def by (intro keeps_link_intros)

lemma PolicyTemplate_Complete_link [complete_links]: "Tss2_Sys_PolicyTemplate_Complete sys = Some (r, sys', outs) \<Longrightarrow> sys_link sys' = sys_link sys"
  unfolding Tss2_Sys_PolicyTemplate_Complete_def by (erule Complete_link [rotated], intro keeps_link_intros)

lemma PolicyTicket_Prepare_link [keeps_link_intros]: "keeps_link (\<lambda>sys. Tss2_Sys_PolicyTicket_Prepare sys policySession timeout cpHashA policyRef authName ticket)"
  unfolding Tss2_Sys_PolicyTicket_Prepare_def by (intro keeps_link_intros)

lemma PolicyTicket_Complete_link [complete_links]: "Tss2_Sys_PolicyTicket_Complete sys = Some (r, sys', outs) \<Longrightarrow> sys_link sys' = sys_link sys"
  unfolding Tss2_Sys_PolicyTicket_Complete_def by (erule Complete_link [rotated], intro keeps_link_intros)

lemma PP_Commands_Prepare_link [keeps_link_intros]: "keeps_link (\<lambda>sys. Tss2_Sys_PP_Commands_Prepare sys auth setList clearList)"
  unfolding Tss2_Sys_PP_Commands_Prepare_def by (intro keeps_link_intros)

lemma PP_Commands_Complete_link [complete_links]: "Tss2_Sys_PP_Commands_Complete sys = Some (r, sys', outs) \<Longrightarrow> sys_link sys' = sys_link sys"
  unfolding Tss2_Sys_PP_Commands_Complete_def by (erule Complete_link [rotated], intro keeps_link_intros)

lemma Quote_Prepare_link [keeps_link_intros]: "keeps_link (\<lambda>sys. Tss2_Sys_Quote_Prepare sys signHandle qualifyingData inScheme PCRselect)"
  unfolding Tss2_Sys_Quote_Prepare_def by (intro keeps_link_intros)

lemma Quote_Complete_link [complete_links]: "Tss2_Sys_Quote_Complete sys quoted signature = Some (r, sys', outs) \<Longrightarrow> sys_link sys' = sys_link sys"
  unfolding Tss2_Sys_Quote_Complete_def by (erule Complete_link [rotated], intro keeps_link_intros)

lemma ReadClock_Prepare_link [keeps_link_intros]: "keeps_link (\<lambda>sys. Tss2_Sys_ReadClock_Prepare sys)"
  unfolding Tss2_Sys_ReadClock_Prepare_def by (intro keeps_link_intros)

lemma ReadClock_Complete_link [complete_links]: "Tss2_Sys_ReadClock_Complete sys currentTime = Some (r, sys', outs) \<Longrightarrow> sys_link sys' = sys_link sys"
  unfolding Tss2_Sys_ReadClock_Complete_def by (erule Complete_link [rotated], intro keeps_link_intros)

lemma ReadPublic_Prepare_link [keeps_link_intros]: "keeps_link (\<lambda>sys. Tss2_Sys_ReadPublic_Prepare sys objectHandle)"
  unfolding Tss2_Sys_ReadPublic_Prepare_def by (intro keeps_link_intros)

lemma ReadPublic_Complete_link [complete_links]: "Tss2_Sys_ReadPublic_Complete sys outPublic name qualifiedName = Some (r, sys', outs) \<Longrightarrow> sys_link sys' = sys_link sys"
  unfolding Tss2_Sys_ReadPublic_Complete_def by (erule Complete_link [rotated], intro keeps_link_intros)

lemma Rewrap_Prepare_link [keeps_link_intros]: "keeps_link (\<lambda>sys. Tss2_Sys_Rewrap_Prepare sys oldParent newParent inDuplicate name inSymSeed)"
  unfolding Tss2_Sys_Rewrap_Prepare_def by (intro keeps_link_intros)

lemma Rewrap_Complete_link [complete_links]: "Tss2_Sys_Rewrap_Complete sys outDuplicate outSymSeed = Some (r, sys', outs) \<Longrightarrow> sys_link sys' = sys_link sys"
  unfolding Tss2_Sys_Rewrap_Complete_def by (erule Complete_link [rotated], intro keeps_link_intros)

lemma RSA_Decrypt_Prepare_link [keeps_link_intros]: "keeps_link (\<lambda>sys. Tss2_Sys_RSA_Decrypt_Prepare sys keyHandle cipherText inScheme label')"
  unfolding Tss2_Sys_RSA_Decrypt_Prepare_def by (intro keeps_link_intros)

lemma RSA_Decrypt_Complete_link [complete_links]: "Tss2_Sys_RSA_Decrypt_Complete sys message = Some (r, sys', outs) \<Longrightarrow> sys_link sys' = sys_link sys"
  unfolding Tss2_Sys_RSA_Decrypt_Complete_def by (erule Complete_link [rotated], intro keeps_link_intros)

lemma RSA_Encrypt_Prepare_link [keeps_link_intros]: "keeps_link (\<lambda>sys. Tss2_Sys_RSA_Encrypt_Prepare sys keyHandle message inScheme label')"
  unfolding Tss2_Sys_RSA_Encrypt_Prepare_def by (intro keeps_link_intros)

lemma RSA_Encrypt_Complete_link [complete_links]: "Tss2_Sys_RSA_Encrypt_Complete sys outData = Some (r, sys', outs) \<Longrightarrow> sys_link sys' = sys_link sys"
  unfolding Tss2_Sys_RSA_Encrypt_Complete_def by (erule Complete_link [rotated], intro keeps_link_intros)

lemma SelfTest_Prepare_link [keeps_link_intros]: "keeps_link (\<lambda>sys. Tss2_Sys_SelfTest_Prepare sys fullTest)"
  unfolding Tss2_Sys_SelfTest_Prepare_def by (intro keeps_link_intros)

lemma SelfTest_Complete_link [complete_links]: "Tss2_Sys_SelfTest_Complete sys = Some (r, sys', outs) \<Longrightarrow> sys_link sys' = sys_link sys"
  unfolding Tss2_Sys_SelfTest_Complete_def by (erule Complete_link [rotated], intro keeps_link_intros)

lemma SequenceComplete_Prepare_link [keeps_link_intros]: "keeps_link (\<lambda>sys. Tss2_Sys_SequenceComplete_Prepare sys sequenceHandle buffer hierarchy)"
  unfolding Tss2_Sys_SequenceComplete_Prepare_def by (intro keeps_link_intros)

lemma SequenceComplete_Complete_link [complete_links]: "Tss2_Sys_SequenceComplete_Complete sys result validation = Some (r, sys', outs) \<Longrightarrow> sys_link sys' = sys_link sys"
  unfolding Tss2_Sys_SequenceComplete_Complete_def by (erule Complete_link [rotated], intro keeps_link_intros)

lemma SequenceUpdate_Prepare_link [keeps_link_intros]: "keeps_link (\<lambda>sys. Tss2_Sys_SequenceUpdate_Prepare sys sequenceHandle buffer)"
  unfolding Tss2_Sys_SequenceUpdate_Prepare_def by (intro keeps_link_intros)

lemma SequenceUpdate_Complete_link [complete_links]: "Tss2_Sys_SequenceUpdate_Complete sys = Some (r, sys', outs) \<Longrightarrow> sys_link sys' = sys_link sys"
  unfolding Tss2_Sys_SequenceUpdate_Complete_def by (erule Complete_link [rotated], intro keeps_link_intros)

lemma SetAlgorithmSet_Prepare_link [keeps_link_intros]: "keeps_link (\<lambda>sys. Tss2_Sys_SetAlgorithmSet_Prepare sys authHandle algorithmSet)"
  unfolding Tss2_Sys_SetAlgorithmSet_Prepare_def by (intro keeps_link_intros)

lemma SetAlgorithmSet_Complete_link [complete_links]: "Tss2_Sys_SetAlgorithmSet_Complete sys = Some (r, sys', outs) \<Longrightarrow> sys_link sys' = sys_link sys"
  unfolding Tss2_Sys_SetAlgorithmSet_Complete_def by (erule Complete_link [rotated], intro keeps_link_intros)

lemma SetCommandCodeAuditStatus_Prepare_link [keeps_link_intros]: "keeps_link (\<lambda>sys. Tss2_Sys_SetCommandCodeAuditStatus_Prepare sys auth auditAlg setList clearList)"
  unfolding Tss2_Sys_SetCommandCodeAuditStatus_Prepare_def by (intro keeps_link_intros)

lemma SetCommandCodeAuditStatus_Complete_link [complete_links]: "Tss2_Sys_SetCommandCodeAuditStatus_Complete sys = Some (r, sys', outs) \<Longrightarrow> sys_link sys' = sys_link sys"
  unfolding Tss2_Sys_SetCommandCodeAuditStatus_Complete_def by (erule Complete_link [rotated], intro keeps_link_intros)

lemma SetPrimaryPolicy_Prepare_link [keeps_link_intros]: "keeps_link (\<lambda>sys. Tss2_Sys_SetPrimaryPolicy_Prepare sys authHandle authPolicy hashAlg)"
  unfolding Tss2_Sys_SetPrimaryPolicy_Prepare_def by (intro keeps_link_intros)

lemma SetPrimaryPolicy_Complete_link [complete_links]: "Tss2_Sys_SetPrimaryPolicy_Complete sys = Some (r, sys', outs) \<Longrightarrow> sys_link sys' = sys_link sys"
  unfolding Tss2_Sys_SetPrimaryPolicy_Complete_def by (erule Complete_link [rotated], intro keeps_link_intros)

lemma Shutdown_Prepare_link [keeps_link_intros]: "keeps_link (\<lambda>sys. Tss2_Sys_Shutdown_Prepare sys shutdownType)"
  unfolding Tss2_Sys_Shutdown_Prepare_def by (intro keeps_link_intros)

lemma Shutdown_Complete_link [complete_links]: "Tss2_Sys_Shutdown_Complete sys = Some (r, sys', outs) \<Longrightarrow> sys_link sys' = sys_link sys"
  unfolding Tss2_Sys_Shutdown_Complete_def by (erule Complete_link [rotated], intro keeps_link_intros)

lemma Sign_Prepare_link [keeps_link_intros]: "keeps_link (\<lambda>sys. Tss2_Sys_Sign_Prepare sys keyHandle digest inScheme validation)"
  unfolding Tss2_Sys_Sign_Prepare_def by (intro keeps_link_intros)

lemma Sign_Complete_link [complete_links]: "Tss2_Sys_Sign_Complete sys signature = Some (r, sys', outs) \<Longrightarrow> sys_link sys' = sys_link sys"
  unfolding Tss2_Sys_Sign_Complete_def by (erule Complete_link [rotated], intro keeps_link_intros)

lemma SignDigest_Prepare_link [keeps_link_intros]: "keeps_link (\<lambda>sys. Tss2_Sys_SignDigest_Prepare sys keyHandle digest inScheme validation)"
  unfolding Tss2_Sys_SignDigest_Prepare_def by (intro keeps_link_intros)

lemma SignDigest_Complete_link [complete_links]: "Tss2_Sys_SignDigest_Complete sys signature = Some (r, sys', outs) \<Longrightarrow> sys_link sys' = sys_link sys"
  unfolding Tss2_Sys_SignDigest_Complete_def by (erule Complete_link [rotated], intro keeps_link_intros)

lemma SignSequenceComplete_Prepare_link [keeps_link_intros]: "keeps_link (\<lambda>sys. Tss2_Sys_SignSequenceComplete_Prepare sys sequenceHandle buffer)"
  unfolding Tss2_Sys_SignSequenceComplete_Prepare_def by (intro keeps_link_intros)

lemma SignSequenceComplete_Complete_link [complete_links]: "Tss2_Sys_SignSequenceComplete_Complete sys signature = Some (r, sys', outs) \<Longrightarrow> sys_link sys' = sys_link sys"
  unfolding Tss2_Sys_SignSequenceComplete_Complete_def by (erule Complete_link [rotated], intro keeps_link_intros)

lemma SignSequenceStart_Prepare_link [keeps_link_intros]: "keeps_link (\<lambda>sys. Tss2_Sys_SignSequenceStart_Prepare sys keyHandle inScheme keyB)"
  unfolding Tss2_Sys_SignSequenceStart_Prepare_def by (intro keeps_link_intros)

lemma SignSequenceStart_Complete_link [complete_links]: "Tss2_Sys_SignSequenceStart_Complete sys sequenceHandle = Some (r, sys', outs) \<Longrightarrow> sys_link sys' = sys_link sys"
  unfolding Tss2_Sys_SignSequenceStart_Complete_def by (erule Complete_link [rotated], intro keeps_link_intros)

lemma StartAuthSession_Prepare_link [keeps_link_intros]: "keeps_link (\<lambda>sys. Tss2_Sys_StartAuthSession_Prepare sys tpmKey bind nonceCaller encryptedSalt sessionType symmetric authHash)"
  unfolding Tss2_Sys_StartAuthSession_Prepare_def by (intro keeps_link_intros)

lemma StartAuthSession_Complete_link [complete_links]: "Tss2_Sys_StartAuthSession_Complete sys sessionHandle nonceTPM = Some (r, sys', outs) \<Longrightarrow> sys_link sys' = sys_link sys"
  unfolding Tss2_Sys_StartAuthSession_Complete_def by (erule Complete_link [rotated], intro keeps_link_intros)

lemma Startup_Prepare_link [keeps_link_intros]: "keeps_link (\<lambda>sys. Tss2_Sys_Startup_Prepare sys startupType)"
  unfolding Tss2_Sys_Startup_Prepare_def by (intro keeps_link_intros)

lemma Startup_Complete_link [complete_links]: "Tss2_Sys_Startup_Complete sys = Some (r, sys', outs) \<Longrightarrow> sys_link sys' = sys_link sys"
  unfolding Tss2_Sys_Startup_Complete_def by (erule Complete_link [rotated], intro keeps_link_intros)

lemma StirRandom_Prepare_link [keeps_link_intros]: "keeps_link (\<lambda>sys. Tss2_Sys_StirRandom_Prepare sys inData)"
  unfolding Tss2_Sys_StirRandom_Prepare_def by (intro keeps_link_intros)

lemma StirRandom_Complete_link [complete_links]: "Tss2_Sys_StirRandom_Complete sys = Some (r, sys', outs) \<Longrightarrow> sys_link sys' = sys_link sys"
  unfolding Tss2_Sys_StirRandom_Complete_def by (erule Complete_link [rotated], intro keeps_link_intros)

lemma TestParms_Prepare_link [keeps_link_intros]: "keeps_link (\<lambda>sys. Tss2_Sys_TestParms_Prepare sys parameters)"
  unfolding Tss2_Sys_TestParms_Prepare_def by (intro keeps_link_intros)

lemma TestParms_Complete_link [complete_links]: "Tss2_Sys_TestParms_Complete sys = Some (r, sys', outs) \<Longrightarrow> sys_link sys' = sys_link sys"
  unfolding Tss2_Sys_TestParms_Complete_def by (erule Complete_link [rotated], intro keeps_link_intros)

lemma Unseal_Prepare_link [keeps_link_intros]: "keeps_link (\<lambda>sys. Tss2_Sys_Unseal_Prepare sys itemHandle)"
  unfolding Tss2_Sys_Unseal_Prepare_def by (intro keeps_link_intros)

lemma Unseal_Complete_link [complete_links]: "Tss2_Sys_Unseal_Complete sys outData = Some (r, sys', outs) \<Longrightarrow> sys_link sys' = sys_link sys"
  unfolding Tss2_Sys_Unseal_Complete_def by (erule Complete_link [rotated], intro keeps_link_intros)

lemma Vendor_TCG_Test_Prepare_link [keeps_link_intros]: "keeps_link (\<lambda>sys. Tss2_Sys_Vendor_TCG_Test_Prepare sys inputData)"
  unfolding Tss2_Sys_Vendor_TCG_Test_Prepare_def by (intro keeps_link_intros)

lemma Vendor_TCG_Test_Complete_link [complete_links]: "Tss2_Sys_Vendor_TCG_Test_Complete sys outputData = Some (r, sys', outs) \<Longrightarrow> sys_link sys' = sys_link sys"
  unfolding Tss2_Sys_Vendor_TCG_Test_Complete_def by (erule Complete_link [rotated], intro keeps_link_intros)

lemma VerifyDigestSignature_Prepare_link [keeps_link_intros]: "keeps_link (\<lambda>sys. Tss2_Sys_VerifyDigestSignature_Prepare sys keyHandle digest signature)"
  unfolding Tss2_Sys_VerifyDigestSignature_Prepare_def by (intro keeps_link_intros)

lemma VerifyDigestSignature_Complete_link [complete_links]: "Tss2_Sys_VerifyDigestSignature_Complete sys validation = Some (r, sys', outs) \<Longrightarrow> sys_link sys' = sys_link sys"
  unfolding Tss2_Sys_VerifyDigestSignature_Complete_def by (erule Complete_link [rotated], intro keeps_link_intros)

lemma VerifySequenceComplete_Prepare_link [keeps_link_intros]: "keeps_link (\<lambda>sys. Tss2_Sys_VerifySequenceComplete_Prepare sys sequenceHandle buffer)"
  unfolding Tss2_Sys_VerifySequenceComplete_Prepare_def by (intro keeps_link_intros)

lemma VerifySequenceComplete_Complete_link [complete_links]: "Tss2_Sys_VerifySequenceComplete_Complete sys validation = Some (r, sys', outs) \<Longrightarrow> sys_link sys' = sys_link sys"
  unfolding Tss2_Sys_VerifySequenceComplete_Complete_def by (erule Complete_link [rotated], intro keeps_link_intros)

lemma VerifySequenceStart_Prepare_link [keeps_link_intros]: "keeps_link (\<lambda>sys. Tss2_Sys_VerifySequenceStart_Prepare sys keyHandle signature)"
  unfolding Tss2_Sys_VerifySequenceStart_Prepare_def by (intro keeps_link_intros)

lemma VerifySequenceStart_Complete_link [complete_links]: "Tss2_Sys_VerifySequenceStart_Complete sys sequenceHandle = Some (r, sys', outs) \<Longrightarrow> sys_link sys' = sys_link sys"
  unfolding Tss2_Sys_VerifySequenceStart_Complete_def by (erule Complete_link [rotated], intro keeps_link_intros)

lemma VerifySignature_Prepare_link [keeps_link_intros]: "keeps_link (\<lambda>sys. Tss2_Sys_VerifySignature_Prepare sys keyHandle digest signature)"
  unfolding Tss2_Sys_VerifySignature_Prepare_def by (intro keeps_link_intros)

lemma VerifySignature_Complete_link [complete_links]: "Tss2_Sys_VerifySignature_Complete sys validation = Some (r, sys', outs) \<Longrightarrow> sys_link sys' = sys_link sys"
  unfolding Tss2_Sys_VerifySignature_Complete_def by (erule Complete_link [rotated], intro keeps_link_intros)

lemma ZGen_2Phase_Prepare_link [keeps_link_intros]: "keeps_link (\<lambda>sys. Tss2_Sys_ZGen_2Phase_Prepare sys keyA inQsB inQeB inScheme counter)"
  unfolding Tss2_Sys_ZGen_2Phase_Prepare_def by (intro keeps_link_intros)

lemma ZGen_2Phase_Complete_link [complete_links]: "Tss2_Sys_ZGen_2Phase_Complete sys outZ1 outZ2 = Some (r, sys', outs) \<Longrightarrow> sys_link sys' = sys_link sys"
  unfolding Tss2_Sys_ZGen_2Phase_Complete_def by (erule Complete_link [rotated], intro keeps_link_intros)

end
