(* ===== verification/Esys_Frame.thy ===== *)
theory Esys_Frame
  imports Esys_Link
begin

text \<open>
  What the steps of the enhanced system API keep of the context.  The well-formedness of a context, three
  relations between the contexts before and after a step, and a calculus for showing that a function made of steps
  obeys one of them.
\<close>

section \<open>Well-formed contexts\<close>

text \<open>
  The list of the resource objects has no address twice and no address of an object that is gone; new objects
  get addresses that were not in use; the arrays have three members.
\<close>

definition esys_ok :: "('t, 'c) esys \<Rightarrow> bool" where
  "esys_ok ctx \<longleftrightarrow> distinct (rsrc_list ctx) \<and> (\<forall>a \<in> set (rsrc_list ctx). rsrc_heap ctx a \<noteq> None) \<and>
     (\<forall>a. rsrc_heap ctx a \<noteq> None \<longrightarrow> a < heap_next ctx) \<and>
     length (session_type ctx) = 3 \<and> length (session_tab ctx) = 3 \<and> length (auth_objects ctx) = 3"

definition esys_link :: "('t, 'c) esys \<Rightarrow> 't TSS2_TCTI_CONTEXT option option" where
  "esys_link ctx = sys_link (esys_sys ctx)"

text \<open>What every function keeps: the setting of the timeout, well-formedness, and the addresses of old objects.\<close>

definition kept :: "('t, 'c) esys \<Rightarrow> ('t, 'c) esys \<Rightarrow> bool" where
  "kept s s' \<longleftrightarrow> esys_timeout s' = esys_timeout s \<and> heap_next s \<le> heap_next s' \<and>
     set (rsrc_list s') \<subseteq> set (rsrc_list s) \<union> {heap_next s..} \<and> (esys_ok s \<longrightarrow> esys_ok s')"

lemma kept_refl [simp]: "kept s s"
  by (auto simp: kept_def)

lemma kept_trans: "kept s s' \<Longrightarrow> kept s' s'' \<Longrightarrow> kept s s''"
  by (auto simp: kept_def dest: subsetD order_trans)

section \<open>Relations\<close>

text \<open>
  \<open>calm\<close>: the step works on the objects and the settings of a command only.  \<open>frame\<close>: it may also build or change the
  command in the context below and, on an error, set the state.
\<close>

definition calm :: "TSS2_RC \<Rightarrow> ('t, 'c) esys \<Rightarrow> ('t, 'c) esys \<Rightarrow> bool" where
  "calm r s s' \<longleftrightarrow> kept s s' \<and> submissionCount s' = submissionCount s \<and> esys_sys s' = esys_sys s \<and> esys_state s' = esys_state s"

definition failed_state :: "ESYS_STATE \<Rightarrow> ESYS_STATE \<Rightarrow> bool" where
  "failed_state st st' \<longleftrightarrow> st' = st \<or> st' = ESYS_STATE_INIT \<or> st' = ESYS_STATE_INTERNALERROR"

definition frame :: "TSS2_RC \<Rightarrow> ('t, 'c) esys \<Rightarrow> ('t, 'c) esys \<Rightarrow> bool" where
  "frame r s s' \<longleftrightarrow> kept s s' \<and> submissionCount s' = submissionCount s \<and> esys_link s' = esys_link s \<and>
     (if r = 0 then esys_state s' = esys_state s else failed_state (esys_state s) (esys_state s'))"

lemma calm_frame: "calm r s s' \<Longrightarrow> frame r s s'"
  by (simp add: calm_def frame_def esys_link_def failed_state_def)

lemma failed_state_simps [simp]: "failed_state st st" "failed_state st ESYS_STATE_INIT" "failed_state st ESYS_STATE_INTERNALERROR"
  by (simp_all add: failed_state_def)

lemma calm_refl [simp]: "calm r s s"
  by (simp add: calm_def)

lemma calm_trans: "calm q s s' \<Longrightarrow> calm r s' s'' \<Longrightarrow> calm p s s''"
  by (auto simp: calm_def intro: kept_trans)

lemma frame_refl [simp]: "frame r s s"
  by (simp add: frame_def)

lemma frame_trans: "frame 0 s s' \<Longrightarrow> frame r s' s'' \<Longrightarrow> frame r s s''"
  by (auto simp: frame_def intro: kept_trans)

section \<open>The basic functions\<close>

lemma alloc_calm: "alloc s = (ok, s') \<Longrightarrow> calm r s s'"
  by (auto simp: alloc_def calm_def kept_def esys_ok_def split: list.splits)

lemma esys_ok_unused: "esys_ok s \<Longrightarrow> heap_next s \<le> a \<Longrightarrow> rsrc_heap s a = None \<and> a \<notin> set (rsrc_list s)"
  unfolding esys_ok_def by (metis leD not_None_eq)

text \<open>A change of the heap at one address of an object, and a new object.\<close>

lemma esys_ok_new:
  assumes "esys_ok s"
  shows "esys_ok (s\<lparr>heap_next := heap_next s + 1, rsrc_heap := (rsrc_heap s)(heap_next s \<mapsto> n), rsrc_list := heap_next s # rsrc_list s\<rparr>)"
proof -
  have "\<forall>a. rsrc_heap s a \<noteq> None \<longrightarrow> a < Suc (heap_next s)" using assms by (auto simp: esys_ok_def less_Suc_eq)
  with assms esys_ok_unused [OF assms order_refl] show ?thesis by (simp add: esys_ok_def)
qed

lemma create_calm:
  assumes "esys_CreateResourceObject h s = Some (r, p, s')"
  shows "calm r s s'"
proof -
  obtain ok s1 where s1: "alloc s = (ok, s1)" by (cases "alloc s")
  let ?n = "zero_RSRC_NODE_T\<lparr>node_esys_handle := h\<rparr>"
  have "calm r s1 s'" using assms s1 esys_ok_new [of s1 ?n]
    by (auto simp: esys_CreateResourceObject_def Let_def calm_def kept_def split: if_splits)
  with alloc_calm [OF s1] show ?thesis by (rule calm_trans)
qed

section \<open>The calculus\<close>

text \<open>
  Functions with a result beside the code, and the two kinds of steps: on a context, and on a context with output
  parameters or local variables.
\<close>

definition delivers :: "(TSS2_RC \<Rightarrow> 'a \<Rightarrow> 'a \<Rightarrow> bool) \<Rightarrow> ('s \<Rightarrow> 'a) \<Rightarrow> ('s \<Rightarrow> (TSS2_RC \<times> 'x \<times> 's) option) \<Rightarrow> bool" where
  "delivers R v f \<longleftrightarrow> (\<forall>s r x s'. f s = Some (r, x, s') \<longrightarrow> R r (v s) (v s'))"

lemma deliversI [intro?]: "(\<And>s r x s'. f s = Some (r, x, s') \<Longrightarrow> R r (v s) (v s')) \<Longrightarrow> delivers R v f"
  by (simp add: delivers_def)

lemma deliversD: "delivers R v f \<Longrightarrow> f s = Some (r, x, s') \<Longrightarrow> R r (v s) (v s')"
  by (auto simp: delivers_def)

definition plain :: "('t, 'c) esys \<Rightarrow> ('t, 'c) esys" where
  "plain s = s"

text \<open>
  \<open>F\<close> is what the steps on the way obey, \<open>T\<close> what the whole function obeys.
\<close>

locale esys_flow =
  fixes F T :: "TSS2_RC \<Rightarrow> ('t, 'c) esys \<Rightarrow> ('t, 'c) esys \<Rightarrow> bool"
  assumes stop: "F r s s' \<Longrightarrow> r \<noteq> 0 \<Longrightarrow> T r s s'"
    and go_on: "F 0 s s' \<Longrightarrow> T r s' s'' \<Longrightarrow> T r s s''"
    and calm_on_the_way: "calm r s s' \<Longrightarrow> F r s s'"
    and calm_last: "T r s s' \<Longrightarrow> r \<noteq> 0 \<Longrightarrow> calm r s' s'' \<Longrightarrow> T r s s''"
begin

lemma flow_last: "obeys v T f \<Longrightarrow> obeys v T (steps [f])"
  by (auto simp: obeys_def split: option.splits if_splits)

lemma flow_Cons: "obeys v F f \<Longrightarrow> obeys v T (steps fs) \<Longrightarrow> obeys v T (steps (f # fs))"
  unfolding obeys_def by (auto split: option.splits if_splits intro: stop) (metis go_on)

lemma flow_call:
  "delivers F v f \<Longrightarrow> (\<And>x. obeys v T (k x)) \<Longrightarrow> obeys v T (call f k)"
  unfolding obeys_def delivers_def call_def by (fastforce split: option.splits if_splits intro: stop go_on)

lemma flow_read_val: "(\<And>x. obeys v T (k x)) \<Longrightarrow> obeys v T (read_val f k)"
  unfolding obeys_def read_val_def by (auto split: option.splits)

lemma flow_with_node: "(\<And>n. obeys plain T (k n)) \<Longrightarrow> obeys plain T (with_node p k)"
  unfolding obeys_def with_node_def by (auto split: option.splits)

lemma flow_with_session: "(\<And>s. obeys plain T (k s)) \<Longrightarrow> obeys plain T (with_session p k)"
  unfolding obeys_def with_session_def by (auto split: option.splits)

lemma flow_with_handle: "(\<And>h. obeys plain T (k h)) \<Longrightarrow> obeys plain T (with_handle p k)"
  unfolding with_handle_def by (auto split: option.splits intro: flow_with_node)

lemma flow_if: "(b \<Longrightarrow> obeys v T f) \<Longrightarrow> (\<not> b \<Longrightarrow> obeys v T g) \<Longrightarrow> obeys v T (if b then f else g)"
  by simp

lemma flow_Let: "(\<And>x. obeys v T (k x)) \<Longrightarrow> obeys v T (Let y k)"
  by simp

lemma flow_option: "obeys v T f \<Longrightarrow> (\<And>x. obeys v T (g x)) \<Longrightarrow> obeys v T (case p of None \<Rightarrow> f | Some x \<Rightarrow> g x)"
  by (auto split: option.splits)

lemma flow_prod: "(\<And>x y. obeys v T (g x y)) \<Longrightarrow> obeys v T (case p of (x, y) \<Rightarrow> g x y)"
  by (auto split: prod.splits)

lemma flow_fault: "obeys v T (\<lambda>_. None)"
  by (simp add: obeys_def)

text \<open>The same where the choice depends on the state.\<close>

lemma at_if: "obeys v T f \<Longrightarrow> obeys v T g \<Longrightarrow> obeys v T (\<lambda>s. if b s then f s else g s)"
  by (auto simp: obeys_def)

lemma at_option: "obeys v T f \<Longrightarrow> (\<And>x. obeys v T (g x)) \<Longrightarrow> obeys v T (\<lambda>s. case p s of None \<Rightarrow> f s | Some x \<Rightarrow> g x s)"
  by (auto simp: obeys_def split: option.splits)

lemma at_prod: "(\<And>x y. obeys v T (g x y)) \<Longrightarrow> obeys v T (\<lambda>s. case p s of (x, y) \<Rightarrow> g x y s)"
  by (auto simp: obeys_def split: prod.splits)

lemma at_Let: "(\<And>x. obeys v T (g x)) \<Longrightarrow> obeys v T (\<lambda>s. Let (p s) (\<lambda>x. g x s))"
  by (auto simp: obeys_def)

lemma at_with_node: "(\<And>s n. obeys plain T (k s n)) \<Longrightarrow> obeys plain T (\<lambda>s. with_node (p s) (k s) s)"
  unfolding obeys_def with_node_def by (auto split: option.splits)

lemma at_with_session: "(\<And>s n. obeys plain T (k s n)) \<Longrightarrow> obeys plain T (\<lambda>s. with_session (p s) (k s) s)"
  unfolding obeys_def with_session_def by (auto split: option.splits)

lemmas at_rules = at_if at_option at_prod at_Let at_with_node at_with_session

lemma deliver_call_val: "delivers F v f \<Longrightarrow> (\<And>x. delivers T v (k x)) \<Longrightarrow> delivers T v (call_val f d k)"
  unfolding delivers_def call_val_def by (fastforce split: option.splits if_splits intro: stop go_on)

lemma deliver_read_val: "(\<And>x. delivers T v (k x)) \<Longrightarrow> delivers T v (read_val f k)"
  unfolding delivers_def read_val_def by (auto split: option.splits)

lemma deliver_prod: "(\<And>x y. delivers T v (k x y)) \<Longrightarrow> delivers T v (case p of (x, y) \<Rightarrow> k x y)"
  by (auto split: prod.splits)

lemma deliver_Let: "(\<And>x. delivers T v (k x)) \<Longrightarrow> delivers T v (Let y k)"
  by simp

lemma deliver_at_if: "delivers T v f \<Longrightarrow> delivers T v g \<Longrightarrow> delivers T v (\<lambda>s. if b s then f s else g s)"
  by (auto simp: delivers_def)

lemma deliver_at_option:
  "delivers T v f \<Longrightarrow> (\<And>x. delivers T v (g x)) \<Longrightarrow> delivers T v (\<lambda>s. case p s of None \<Rightarrow> f s | Some x \<Rightarrow> g x s)"
  by (auto simp: delivers_def split: option.splits)

lemma deliver_at_prod: "(\<And>x y. delivers T v (g x y)) \<Longrightarrow> delivers T v (\<lambda>s. case p s of (x, y) \<Rightarrow> g x y s)"
  by (auto simp: delivers_def split: prod.splits)

lemma deliver_at_Let: "(\<And>x. delivers T v (g x)) \<Longrightarrow> delivers T v (\<lambda>s. Let (p s) (\<lambda>x. g x s))"
  by (auto simp: delivers_def)

lemma deliver_fault: "delivers T v (\<lambda>_. None)"
  by (auto simp: delivers_def)

lemmas deliver_at_rules = deliver_at_if deliver_at_option deliver_at_prod deliver_at_Let deliver_fault

lemma flow_ret: "r \<noteq> 0 \<Longrightarrow> obeys v T (ret r)"
  by (auto simp: obeys_def ret_def intro!: stop calm_on_the_way)

lemma flow_on_fst: "obeys plain T f \<Longrightarrow> obeys fst T (on_fst f)"
  unfolding obeys_def plain_def by (auto split: option.splits)

lemma flow_on_ctx: "obeys fst T f \<Longrightarrow> obeys plain T (on_ctx f)"
  unfolding obeys_def plain_def on_ctx_def by fastforce

lemma flow_next_out: "obeys fst T f \<Longrightarrow> obeys fst T (next_out f)"
  unfolding obeys_def next_out_def by (fastforce split: option.splits prod.splits)

lemma flow_with_local: "obeys fst T f \<Longrightarrow> obeys fst T (with_local x f)"
  unfolding obeys_def with_local_def by (fastforce split: option.splits prod.splits)

lemma flow_error_cleanup:
  assumes "obeys fst T f" "\<And>s s'. c s = Some s' \<Longrightarrow> calm 0 (fst s) (fst s')"
  shows "obeys fst T (error_cleanup c f)"
proof
  fix s r s'
  assume "error_cleanup c f s = Some (r, s')"
  then obtain s1 where f: "f s = Some (r, s1)" and c: "if r \<noteq> 0 then c s1 = Some s' else s' = s1"
    by (auto simp: error_cleanup_def split: option.splits if_splits)
  from assms(1) f have T: "T r (fst s) (fst s1)" by (rule obeysD)
  show "T r (fst s) (fst s')"
  proof (cases "r = 0")
    case False
    then have "calm r (fst s1) (fst s')" using assms(2) c by (auto simp: calm_def)
    from calm_last [OF T False this] show ?thesis .
  qed (use T c in simp)
qed

lemma flow_cleanup_outs: "obeys fst T f \<Longrightarrow> obeys fst T (cleanup_outs g f)"
  unfolding cleanup_outs_def by (rule flow_error_cleanup) auto

lemma flow_new_object:
  assumes "\<And>a. obeys fst T (k a)"
  shows "obeys fst T (new_object k)"
proof
  fix s r s'
  assume new: "new_object k s = Some (r, s')"
  obtain ctx h outs where s: "s = (ctx, h, outs)" by (cases s)
  let ?ctx = "ctx\<lparr>esys_handle_cnt := esys_handle_cnt ctx + 1\<rparr>"
  show "T r (fst s) (fst s')"
  proof (cases h)
    case None
    with new s show ?thesis by (auto simp: new_object_def intro!: stop calm_on_the_way)
  next
    case (Some x)
    with new s obtain q node ctx1 where c: "esys_CreateResourceObject (esys_handle_cnt ctx) ?ctx = Some (q, node, ctx1)"
      by (auto simp: new_object_def Let_def split: option.splits prod.splits)
    have calm: "calm q ctx ctx1" using create_calm [OF c] calm_trans by (force simp: calm_def kept_def esys_ok_def)
    show ?thesis
    proof (cases "q = 0")
      case True
      with new s Some c obtain a where "node = Some a" "k a (ctx1, Some (esys_handle_cnt ctx), outs) = Some (r, s')"
        by (auto simp: new_object_def Let_def split: option.splits)
      then have "T r ctx1 (fst s')" using obeysD [OF assms] by fastforce
      with True calm s show ?thesis by (auto intro: go_on calm_on_the_way)
    next
      case False
      with calm have "T q ctx ctx1" by (intro stop calm_on_the_way)
      with False new s Some c show ?thesis by (auto simp: new_object_def Let_def)
    qed
  qed
qed

end

text \<open>A relation that holds of nothing happening may be the relation of a loop.\<close>

locale esys_keep = esys_flow R R for R :: "TSS2_RC \<Rightarrow> ('t, 'c) esys \<Rightarrow> ('t, 'c) esys \<Rightarrow> bool" +
  assumes idle: "R 0 s s"
begin

lemma keep_nil: "obeys v R (steps [])"
  using idle by (simp add: obeys_def)

lemma keep_ret: "(\<And>r s. R r s s) \<Longrightarrow> obeys v R (\<lambda>s. Some (r, s))"
  by (simp add: obeys_def)

lemma deliver_ret: "(\<And>r s. R r s s) \<Longrightarrow> delivers R v (\<lambda>s. Some (r, x, s))"
  by (auto simp: delivers_def)

lemma keep_each_session:
  assumes "\<And>i a. obeys fst R (f i a)"
  shows "obeys fst R (each_session n f)"
proof -
  let ?g = "\<lambda>i s. case session_tab (fst s) ! i of None \<Rightarrow> Some (TSS2_RC_SUCCESS, s) | Some a \<Rightarrow> f i a s"
  have g: "obeys fst R (?g i)" for i
    using assms idle by (fastforce simp: obeys_def split: option.splits)
  have "obeys fst R (steps (map ?g is))" for "is"
    by (induction "is") (use g in \<open>auto simp del: steps.simps intro: keep_nil flow_Cons\<close>)
  then show ?thesis by (simp add: each_session_def)
qed

end

interpretation calm: esys_keep calm
  by unfold_locales (auto intro: calm_trans)

interpretation frame: esys_keep frame
proof
  show "frame r s s''" if "frame r s s'" "r \<noteq> 0" "calm r s' s''" for r and s s' s'' :: "('t, 'c) esys"
    using that by (auto simp: frame_def calm_def esys_link_def intro: kept_trans)
qed (auto intro: frame_trans calm_frame)


lemma frame_if_calm: "obeys v calm f \<Longrightarrow> obeys v frame f"
  by (erule obeys_mono) (rule calm_frame)

lemma frame_if_calm_val: "delivers calm v f \<Longrightarrow> delivers frame v f"
  by (auto simp: delivers_def intro: calm_frame)

section \<open>Steps on the objects\<close>

named_theorems calm_intros

declare calm.keep_nil [calm_intros] calm.keep_each_session [calm_intros]

lemma calm_ret [calm_intros]: "obeys v calm (ret r)"
  by (simp add: obeys_def ret_def)

lemma calm_set_node [calm_intros]: "obeys plain calm (set_node p f)"
  by (auto simp: obeys_def plain_def set_node_def calm_def kept_def esys_ok_def split: option.splits)

lemma calm_set_session [calm_intros]: "obeys plain calm (set_session p f)"
  unfolding set_session_def by (intro calm.flow_with_session calm_intros)

lemma calm_update_fields [calm_intros]:
  "obeys plain calm (update (esys_in_update f))"
  "obeys plain calm (update (esys_salt_update g))"
  "obeys plain calm (update (esys_authsCount_update h))"
  by (simp_all add: obeys_def plain_def update_def calm_def kept_def esys_ok_def)

lemma heap_set_calm: "rsrc_heap s a = Some n \<Longrightarrow> calm r s (s\<lparr>rsrc_heap := (rsrc_heap s)(a \<mapsto> m)\<rparr>)"
  by (auto simp: calm_def kept_def esys_ok_def)

lemma get_calm:
  assumes "esys_GetResourceObject h s = Some (r, p, s')"
  shows "calm r s s'"
proof (cases "h = ESYS_TR_NONE \<or> find_rsrc (\<lambda>n. node_esys_handle n = h) (rsrc_heap s) (rsrc_list s) \<noteq> Some None \<or>
    h \<ge> ESYS_TR_MIN_OBJECT \<or> fst (iesys_handle_to_tpm_handle h) \<noteq> 0")
  case True
  with assms show ?thesis
    by (auto simp: esys_GetResourceObject_def split: if_splits option.splits prod.splits)
next
  case False
  then obtain t q a s1 where c: "esys_CreateResourceObject h s = Some (q, a, s1)" and t: "iesys_handle_to_tpm_handle h = (0, t)"
    using assms by (cases "iesys_handle_to_tpm_handle h") (auto simp: esys_GetResourceObject_def split: option.splits)
  from create_calm [OF c] have "calm r s s1" by (simp add: calm_def)
  moreover have "calm r s1 s'" using assms c t False
    by (auto simp: esys_GetResourceObject_def Let_def split: option.splits if_splits prod.splits intro: heap_set_calm)
  ultimately show ?thesis by (rule calm_trans)
qed

lemma get_delivers [calm_intros]: "delivers calm plain (esys_GetResourceObject h)"
  unfolding delivers_def plain_def using get_calm by blast

lemma calm_session_tab: "calm r s (s\<lparr>session_tab := (session_tab s)[i := p]\<rparr>)" "calm r s (s\<lparr>session_type := (session_type s)[i := h]\<rparr>)"
  "calm r s (s\<lparr>session_type := (session_type s)[i := h], session_tab := (session_tab s)[i := p]\<rparr>)"
  by (auto simp: calm_def kept_def esys_ok_def)

lemma calm_init_session [calm_intros]: "obeys plain calm (init_session i h)"
proof
  fix s r s'
  assume i: "init_session i h s = Some (r, s')"
  let ?s = "s\<lparr>session_type := (session_type s)[i := h]\<rparr>"
  show "calm r (plain s) (plain s')"
  proof (cases "h = ESYS_TR_NONE \<or> h = ESYS_TR_PASSWORD")
    case True
    with i calm_session_tab(3) show ?thesis by (auto simp: init_session_def plain_def)
  next
    case False
    with i obtain q p s1 where g: "esys_GetResourceObject h ?s = Some (q, p, s1)"
      by (auto simp: init_session_def call_def Let_def split: option.splits)
    then have 1: "calm r s s1" using calm_trans [OF calm_session_tab(2) get_calm [OF g]] by (simp add: calm_def)
    have "s' = s1 \<or> s' = s1\<lparr>session_tab := (session_tab s1)[i := p]\<rparr>"
      using i g False by (auto simp: init_session_def call_def Let_def with_node_def split: option.splits if_splits)
    with 1 calm_session_tab(1) show ?thesis unfolding plain_def by (metis calm_trans)
  qed
qed

lemma calm_init_session_tab [calm_intros]: "obeys plain calm (init_session_tab h1 h2 h3)"
  unfolding init_session_tab_def by (intro calm.flow_last calm.flow_Cons calm_intros)

lemma calm_session_value [calm_intros]: "obeys plain calm (iesys_compute_session_value p name auth)"
  unfolding iesys_compute_session_value_def
  by (intro calm.flow_option calm.flow_with_session calm.flow_fault calm_intros)

lemma calm_session_value_at [calm_intros]:
  "obeys plain calm (\<lambda>s. iesys_compute_session_value (p s) (name s) (auth s) s)"
  using calm_session_value unfolding obeys_def by blast

end
