(* ===== verification/Esys_Steps.thy ===== *)
theory Esys_Steps
  imports Esys_Frame
begin

text \<open>
  The functions of \<open>esys_iutil.c\<close> and the parts of the commands in the calculus: what they obey.
\<close>

lemmas calm_flow = calm.flow_last calm.flow_Cons calm.flow_call calm.flow_read_val calm.flow_with_node calm.flow_with_session
  calm.flow_with_handle calm.flow_if calm.flow_Let calm.flow_option calm.flow_prod calm.flow_fault calm.flow_on_fst calm.flow_on_ctx
  calm.flow_next_out calm.flow_with_local calm.flow_cleanup_outs calm.flow_new_object calm.deliver_call_val calm.deliver_read_val
  calm.deliver_prod calm.deliver_Let

lemmas frame_flow = frame.flow_last frame.flow_Cons frame.flow_call frame.flow_read_val frame.flow_with_node frame.flow_with_session
  frame.flow_with_handle frame.flow_if frame.flow_Let frame.flow_option frame.flow_prod frame.flow_fault frame.flow_on_fst
  frame.flow_on_ctx frame.flow_next_out frame.flow_with_local frame.flow_cleanup_outs frame.flow_new_object
  frame.deliver_call_val frame.deliver_read_val frame.deliver_prod frame.deliver_Let

lemmas calm_at = calm.at_rules calm.keep_ret [OF calm_refl] calm.deliver_at_rules calm.deliver_ret [OF calm_refl]

lemmas frame_at = frame.at_rules frame.keep_ret [OF frame_refl] frame.deliver_at_rules frame.deliver_ret [OF frame_refl]

named_theorems frame_intros

declare frame.keep_nil [frame_intros] frame.keep_each_session [frame_intros]

section \<open>Queries and callbacks\<close>

lemma ask_calm [calm_intros]: "delivers calm v (ask f)"
  by (auto simp: delivers_def ask_def)

lemma ask_frame [frame_intros]: "delivers frame v (ask f)"
  by (rule frame_if_calm_val [OF ask_calm])

lemma calm_crypto [simp]: "calm r s (s\<lparr>crypto_backend := cb\<rparr>)"
  by (simp add: calm_def kept_def esys_ok_def)

lemma on_crypto_calm [calm_intros]: "delivers calm plain (on_crypto f)"
  by (auto simp: delivers_def on_crypto_def plain_def)

lemma on_crypto_frame [frame_intros]: "delivers frame plain (on_crypto f)"
  by (rule frame_if_calm_val [OF on_crypto_calm])

lemma on_sys_frame [frame_intros]: "keeps_link f \<Longrightarrow> obeys plain frame (on_sys f)"
  by (auto simp: keeps_link_def obeys_def same_def on_sys_def plain_def frame_def kept_def esys_ok_def esys_link_def split: option.splits)

lemma insert_auths_link: "insert_auths n N auths c = Some (r, c') \<Longrightarrow> ctx_tctiContext c' = ctx_tctiContext c"
  by (auto simp: insert_auths_def Let_def split: option.splits prod.splits if_splits dest!: header_set_link)

lemma insert_param_link: "insert_param c n = Some (r, c') \<Longrightarrow> ctx_tctiContext c' = ctx_tctiContext c"
  by (auto simp: insert_param_def Let_def split: option.splits prod.splits if_splits dest!: header_set_link)

lemma SetCmdAuths_link [keeps_link_intros]: "keeps_link (\<lambda>sys. Tss2_Sys_SetCmdAuths sys auths)"
  by (auto simp: link_defs Tss2_Sys_SetCmdAuths_def Let_def split: option.splits prod.splits if_splits
    dest!: header_set_link insert_auths_link)

lemma SetDecryptParam_link [keeps_link_intros]: "keeps_link (\<lambda>sys. Tss2_Sys_SetDecryptParam sys n b)"
  by (auto simp: link_defs Tss2_Sys_SetDecryptParam_def Let_def split: option.splits prod.splits if_splits
    dest!: header_set_link insert_param_link)

lemma SetEncryptParam_link [keeps_link_intros]: "keeps_link (\<lambda>sys. Tss2_Sys_SetEncryptParam sys n b)"
  by (auto simp: link_defs Tss2_Sys_SetEncryptParam_def Let_def split: option.splits prod.splits if_splits)

section \<open>Sessions\<close>

lemma calm_random:
  assumes "(case iesys_crypto_get_random2b (crypto_backend s) n k of
      (r, nonce, cb) \<Rightarrow>
        (case set_session p (g nonce) (s\<lparr>crypto_backend := cb\<rparr>) of None \<Rightarrow> None | Some (_, ctx) \<Rightarrow> Some (r, ctx))) = Some (r, s')"
  shows "calm r s s'"
proof -
  obtain q nonce cb where "iesys_crypto_get_random2b (crypto_backend s) n k = (q, nonce, cb)" by (cases "iesys_crypto_get_random2b (crypto_backend s) n k")
  with assms obtain q' where "set_session p (g nonce) (s\<lparr>crypto_backend := cb\<rparr>) = Some (q', s')"
    by (auto split: option.splits)
  from obeysD [OF calm_set_session this] have "calm q' (s\<lparr>crypto_backend := cb\<rparr>) s'" by (simp add: plain_def)
  with calm_crypto show ?thesis by (rule calm_trans)
qed

lemma gen_caller_nonces_calm [calm_intros]: "obeys plain calm iesys_gen_caller_nonces"
  unfolding iesys_gen_caller_nonces_def
  by (intro calm_flow calm_intros obeysI) (simp only: plain_def calm_random)

lemma delivers_locals: "obeys fst R f \<Longrightarrow> delivers R plain (\<lambda>ctx. map_option (\<lambda>(r, c, l). (r, g l, c)) (f (ctx, l0)))"
  unfolding delivers_def plain_def by (fastforce dest: obeysD)

lemma compute_encrypt_nonce_calm [calm_intros]: "delivers calm plain (iesys_compute_encrypt_nonce i p)"
  unfolding iesys_compute_encrypt_nonce_def
  by (rule delivers_locals [of _ _ "\<lambda>l. l"], rule calm.keep_each_session) (auto simp: obeys_def split: option.splits)

lemma update_session_flags_calm [calm_intros]: "obeys plain calm (iesys_update_session_flags a)"
  unfolding iesys_update_session_flags_def by (intro calm_at calm_flow calm_intros)

lemma restore_session_flags_calm [calm_intros]: "obeys plain calm iesys_restore_session_flags"
  unfolding iesys_restore_session_flags_def by (intro calm_flow calm_intros)

lemma check_flags_calm [calm_intros]: "obeys fst calm (check_flags i a)"
  using update_session_flags_calm unfolding obeys_def check_flags_def plain_def
  by (auto split: option.splits if_splits)

lemma encrypt_with_frame [frame_intros]: "obeys plain frame (encrypt_with s)"
  unfolding encrypt_with_def
  by (intro frame_at frame_flow frame_intros keeps_link_intros)

lemma encrypt_session_frame [frame_intros]: "obeys fst frame (encrypt_session i a)"
proof
  fix s r s'
  assume e: "encrypt_session i a s = Some (r, s')"
  obtain ctx en dn di where s: "s = (ctx, en, dn, di)" by (cases s)
  let ?ctx = "\<lambda>b. if b then ctx\<lparr>esys_encryptNonceIdx := i, esys_encryptNonce := Some a, enc_session := Some a\<rparr> else ctx"
  have 1: "frame 0 ctx (?ctx b)" for b by (auto simp: frame_def kept_def esys_ok_def esys_link_def)
  from e s obtain t where t: "session_of (Some a) ctx = Some t" by (auto simp: encrypt_session_def split: option.splits)
  let ?b = "SESSION_sessionAttributes t AND TPMA_SESSION_ENCRYPT \<noteq> 0"
  show "frame r (fst s) (fst s')"
  proof (cases "SESSION_sessionAttributes t AND TPMA_SESSION_DECRYPT = 0")
    case True
    with e s t 1 [of ?b] show ?thesis by (auto simp: encrypt_session_def Let_def)
  next
    case False
    with e s t have "encrypt_with t (?ctx ?b) = Some (r, fst s')" by (auto simp: encrypt_session_def Let_def split: option.splits)
    from obeysD [OF encrypt_with_frame this] have "frame r (?ctx ?b) (fst s')" by (simp only: plain_def)
    with frame_trans [OF 1] s show ?thesis by simp
  qed
qed

lemma delivers_after: "delivers frame plain f \<Longrightarrow> (\<And>s. calm 0 s (u s)) \<Longrightarrow> delivers frame plain (\<lambda>s. f (u s))"
  unfolding delivers_def plain_def by (meson calm_frame frame_trans)

lemma encrypt_param_frame [frame_intros]: "delivers frame plain (iesys_encrypt_param :: ('t, 'c) esys \<Rightarrow> _)"
proof -
  have loops: "obeys fst frame (steps [each_session 3 check_flags, each_session 3 encrypt_session])"
    by (intro frame_flow frame_intros frame_if_calm calm_intros)
  have eq: "iesys_encrypt_param = (\<lambda>ctx :: ('t, 'c) esys. (\<lambda>ctx. map_option (\<lambda>(r, c, l). (r, snd l, c))
      (steps [each_session 3 check_flags, each_session 3 encrypt_session] (ctx, None, None, 0))) (ctx\<lparr>enc_session := None\<rparr>))"
    unfolding iesys_encrypt_param_def by (intro ext arg_cong2 [of _ _ _ _ map_option] refl) auto
  show ?thesis
    unfolding eq by (rule delivers_after [OF delivers_locals [OF loops]]) (simp add: calm_def kept_def esys_ok_def)
qed

lemma decrypt_param_frame [frame_intros]: "obeys plain frame iesys_decrypt_param"
  unfolding iesys_decrypt_param_def by (intro frame_at frame_flow frame_intros keeps_link_intros)

section \<open>Authorizations\<close>

lemma compute_rp_hash_calm [calm_intros]: "delivers calm plain (iesys_compute_rp_hash alg h n)"
  unfolding iesys_compute_rp_hash_def by (intro calm_flow calm_intros)

lemma compute_cp_hash_calm [calm_intros]: "delivers calm plain (iesys_compute_cp_hash alg h n)"
  unfolding iesys_compute_cp_hash_def by (intro calm_flow calm_intros)

lemma compute_hmac_calm [calm_intros]: "delivers calm plain (iesys_compute_hmac p dn en auth)"
  unfolding iesys_compute_hmac_def by (intro calm_at calm_flow calm_intros)

lemma password_auth_calm [calm_intros]: "obeys fst calm (password_auth i)"
  by (auto simp: obeys_def password_auth_def split: option.splits)

lemma policy_password_auth_calm [calm_intros]: "obeys fst calm (policy_password_auth i n s)"
  by (auto simp: obeys_def policy_password_auth_def split: option.splits)

lemma hmac_auth_calm [calm_intros]: "obeys fst calm (hmac_auth i dn en)"
  unfolding obeys_def hmac_auth_def
  by (auto simp: Let_def plain_def split: option.splits if_splits dest!: deliversD [OF compute_hmac_calm])

lemma gen_auth_calm [calm_intros]: "obeys fst calm (gen_auth dn di en ei i)"
proof
  fix s r s'
  assume g: "gen_auth dn di en ei i s = Some (r, s')"
  obtain ctx auths where s: "s = (ctx, auths)" by (cases s)
  from g s obtain f a where "obeys fst calm f" "f (ctx, a) = Some (r, s')"
    by (auto simp: gen_auth_def Let_def split: if_splits option.splits intro: calm_intros)
  then show "calm r (fst s) (fst s')" using s by (auto dest: obeysD)
qed

lemma calm_auth_objects [simp]: "calm r s (s\<lparr>auth_objects := [h1, h2, h3]\<rparr>)"
  by (simp add: calm_def kept_def esys_ok_def)

lemma calm_encryptNonce [simp]: "calm r s (s\<lparr>esys_encryptNonceIdx := i, esys_encryptNonce := p\<rparr>)"
  by (simp add: calm_def kept_def esys_ok_def)

lemma gen_auths_frame [frame_intros]: "delivers frame plain (iesys_gen_auths h1 h2 h3 auths)"
proof -
  have last: "delivers frame plain (\<lambda>ctx. case steps (map (gen_auth dn di en ei) [0, 1, 2]) (ctx, auths) of
        None \<Rightarrow> None
      | Some (r, ctx, auths) \<Rightarrow>
          if r \<noteq> 0 then Some (r, auths, ctx)
          else Some (TSS2_RC_SUCCESS, auths, ctx\<lparr>esys_encryptNonceIdx := ei, esys_encryptNonce := en\<rparr>))" for dn di en ei auths
  proof
    fix s r x s'
    assume a: "(case steps (map (gen_auth dn di en ei) [0, 1, 2]) (s, auths) of
        None \<Rightarrow> None
      | Some (r, ctx, auths) \<Rightarrow>
          if r \<noteq> 0 then Some (r, auths, ctx)
          else Some (TSS2_RC_SUCCESS, auths, ctx\<lparr>esys_encryptNonceIdx := ei, esys_encryptNonce := en\<rparr>)) = Some (r, x, s')"
    then obtain q s1 auths1 where g: "steps (map (gen_auth dn di en ei) [0, 1, 2]) (s, auths) = Some (q, s1, auths1)"
      by (auto simp del: steps.simps list.map split: option.splits)
    have "obeys fst calm (steps (map (gen_auth dn di en ei) [0, 1, 2]))"
      by (simp del: steps.simps) (intro calm_flow calm_intros)
    from obeysD [OF this g] have "calm q s s1" by simp
    moreover have "calm r s1 s'" using a g by (auto simp del: steps.simps list.map split: if_splits)
    ultimately show "frame r (plain s) (plain s')" unfolding plain_def by (blast intro: calm_frame calm_trans)
  qed
  have first: "delivers frame plain (\<lambda>ctx. case iesys_gen_caller_nonces ctx of None \<Rightarrow> None
      | Some (r, ctx) \<Rightarrow> if r \<noteq> 0 then Some (r, d, ctx) else k ctx)" if "delivers frame plain k" for d and k :: "('t, 'c) esys \<Rightarrow> _"
    using that obeysD [OF gen_caller_nonces_calm] unfolding delivers_def plain_def
    by (fastforce split: option.splits if_splits intro: calm_frame frame_trans)
  show ?thesis
    unfolding iesys_gen_auths_def Let_def
    by (rule delivers_after [OF first])
      (intro frame_at frame_flow frame_intros last frame_if_calm_val calm_intros | simp)+
qed

lemma check_rp_hmac_calm [calm_intros]: "obeys plain calm (check_rp_hmac auth a)"
  unfolding check_rp_hmac_def by (intro calm_at calm_flow calm_intros) (auto simp: obeys_def)

lemma check_rp_hmacs_calm [calm_intros]: "obeys plain calm (iesys_check_rp_hmacs auths)"
  unfolding iesys_check_rp_hmacs_def by (intro calm_flow calm_intros)

lemma check_response_frame [frame_intros]: "obeys plain frame iesys_check_response"
  unfolding iesys_check_response_def
  by (intro frame_at frame_flow frame_intros frame_if_calm [OF check_rp_hmacs_calm] frame_if_calm [OF restore_session_flags_calm])

end
