(* ===== verification/Esys_Async.thy ===== *)
theory Esys_Async
  imports Esys_Steps
begin

text \<open>
  The contract of the \<open>_Async\<close> functions: the parts they are made of in the calculus, and what a whole function does to
  the state, the count of submissions and the connection.
\<close>

section \<open>Sending\<close>

text \<open>One use of the connection to send, and the contexts whose command is on its way.\<close>

inductive transmits :: "'t TSS2_TCTI_CONTEXT option option \<Rightarrow> 't TSS2_TCTI_CONTEXT option option \<Rightarrow> bool" where
  "Tss2_Tcti_Transmit t n b = Some (r, t') \<Longrightarrow> transmits (Some t) (Some t')"

definition sys_stage :: "'t sysctx \<Rightarrow> UINT8 option" where
  "sys_stage sys = map_option ctx_previousStage sys"

definition sent :: "TSS2_RC \<Rightarrow> ('t, 'c) esys \<Rightarrow> ('t, 'c) esys \<Rightarrow> bool" where
  "sent r s s' \<longleftrightarrow> kept s s' \<and> submissionCount s' = submissionCount s \<and>
     (if r = 0 then esys_state s' = ESYS_STATE_SENT \<and> transmits (esys_link s) (esys_link s') \<and>
        sys_stage (esys_sys s') = Some CMD_STAGE_SEND_COMMAND
      else failed_state (esys_state s) (esys_state s') \<and> (esys_link s' = esys_link s \<or> transmits (esys_link s) (esys_link s')))"

lemma ExecuteAsync_transmits:
  assumes "Tss2_Sys_ExecuteAsync sys = Some (r, sys')"
  shows "if r = 0 then transmits (sys_link sys) (sys_link sys') \<and> sys_stage sys' = Some CMD_STAGE_SEND_COMMAND
    else sys_link sys' = sys_link sys \<or> transmits (sys_link sys) (sys_link sys')"
  using assms
  by (auto simp: Tss2_Sys_ExecuteAsync_def Let_def sys_stage_def split: option.splits prod.splits if_splits intro: transmits.intros)

lemma send_sent: "obeys plain sent send"
proof
  fix s r s'
  assume "send s = Some (r, s')"
  then obtain q sys' where e: "Tss2_Sys_ExecuteAsync (esys_sys s) = Some (q, sys')"
    and s': "s' = s\<lparr>esys_sys := sys', esys_state := (if q = 0 then ESYS_STATE_SENT else ESYS_STATE_INTERNALERROR)\<rparr>" "r = q"
    by (auto simp: send_def or_state_def on_sys_def set_state_def update_def split: option.splits if_splits)
  from ExecuteAsync_transmits [OF e] show "sent r (plain s) (plain s')"
    unfolding s' by (auto simp: sent_def plain_def esys_link_def kept_def esys_ok_def)
qed

section \<open>The parts of a command\<close>

text \<open>The steps on the way may set the state when they fail.\<close>

lemma frame_set_state:
  assumes "\<forall>s r s'. f s = Some (r, s') \<longrightarrow> frame r s s'" "f s = Some (r, s')" "r \<noteq> 0"
  shows "frame r s (s'\<lparr>esys_state := ESYS_STATE_INIT\<rparr>)" "frame r s (s'\<lparr>esys_state := ESYS_STATE_INTERNALERROR\<rparr>)"
  using assms(1) [rule_format, OF assms(2)] assms(3) by (simp_all add: frame_def kept_def esys_ok_def esys_link_def)

lemma or_state_frame [frame_intros]:
  "obeys plain frame f \<Longrightarrow> st = ESYS_STATE_INIT \<or> st = ESYS_STATE_INTERNALERROR \<Longrightarrow> obeys plain frame (or_state st f)"
  unfolding obeys_def or_state_def plain_def
  by (auto simp: frame_set_state split: option.splits if_splits)

locale esys_command = esys_flow frame T for T :: "TSS2_RC \<Rightarrow> ('t, 'c) esys \<Rightarrow> ('t, 'c) esys \<Rightarrow> bool"
begin

lemma flow_call_or:
  assumes "delivers frame plain f" "st = ESYS_STATE_INIT \<or> st = ESYS_STATE_INTERNALERROR" "\<And>x. obeys plain T (k x)"
  shows "obeys plain T (call_or st f k)"
proof
  fix s r s'
  assume c: "call_or st f k s = Some (r, s')"
  then obtain q x s1 where f: "f s = Some (q, x, s1)" by (auto simp: call_or_def split: option.splits)
  from deliversD [OF assms(1) f] have fr: "frame q s s1" by (simp add: plain_def)
  show "T r (plain s) (plain s')"
  proof (cases "q = 0")
    case True
    with c f have "k x s1 = Some (r, s')" by (simp add: call_or_def)
    from obeysD [OF assms(3) this] fr True show ?thesis unfolding plain_def by (blast intro: go_on)
  next
    case False
    with c f have "s' = s1\<lparr>esys_state := st\<rparr>" "r = q" by (simp_all add: call_or_def)
    with False fr assms(2) have "frame r s s'" by (auto simp: frame_def kept_def esys_ok_def esys_link_def)
    with False show ?thesis unfolding \<open>r = q\<close> plain_def by (blast intro: stop)
  qed
qed

lemma flow_get_node: "(\<And>p. obeys plain T (k p)) \<Longrightarrow> obeys plain T (get_node h k)"
  unfolding get_node_def by (rule flow_call_or) (auto intro: frame_if_calm_val get_delivers)

lemma flow_gen_auths: "(\<And>auths. obeys plain T (k auths)) \<Longrightarrow> obeys plain T (gen_auths h1 h2 h3 k)"
  unfolding gen_auths_def
proof (rule flow_call_or)
  show "delivers frame plain (\<lambda>ctx. iesys_gen_auths h1 h2 h3 (stack_auths ctx) ctx)"
    using deliversD [OF gen_auths_frame] unfolding delivers_def by blast
qed auto

lemma flow_tpm_handle_of: "(\<And>t. obeys plain T (k t)) \<Longrightarrow> obeys plain T (tpm_handle_of h k)"
  unfolding tpm_handle_of_def by (intro flow_prod flow_if flow_ret)

lemma flow_object_handle_of: "(\<And>t. obeys plain T (k t)) \<Longrightarrow> obeys plain T (object_handle_of h k)"
  unfolding object_handle_of_def by (intro flow_call flow_with_node frame_if_calm_val get_delivers)

lemma flow_nv_nameAlg_of: "(\<And>t. obeys plain T (k t)) \<Longrightarrow> obeys plain T (nv_nameAlg_of p k)"
  unfolding nv_nameAlg_of_def by (intro flow_with_node flow_read_val)

lemma flow_key_nameAlg_of: "(\<And>t. obeys plain T (k t)) \<Longrightarrow> obeys plain T (key_nameAlg_of p k)"
  unfolding key_nameAlg_of_def by (intro flow_with_node flow_if flow_read_val)

lemma flow_adapted_copy: "(\<And>t. obeys plain T (k t)) \<Longrightarrow> obeys plain T (adapted_copy auth alg k)"
  unfolding adapted_copy_def
  by (rule flow_call_or) (auto simp: delivers_def plain_def calm_frame split: option.splits)

lemma flow_persistent_handle_of: "(\<And>t. obeys plain T (k t)) \<Longrightarrow> obeys plain T (persistent_handle_of p h k)"
  unfolding persistent_handle_of_def by (intro flow_option flow_with_node)

lemma flow_with_in_sensitive: "(\<And>t. obeys plain T (k t)) \<Longrightarrow> obeys plain T (with_in_sensitive k)"
  unfolding with_in_sensitive_def by (auto simp: obeys_def)

lemmas command_rules = flow_get_node flow_gen_auths flow_tpm_handle_of flow_object_handle_of flow_nv_nameAlg_of flow_key_nameAlg_of
  flow_adapted_copy flow_persistent_handle_of flow_with_in_sensitive flow_call_or

lemma flow_or_ret: "r \<noteq> 0 \<Longrightarrow> obeys plain T (or_state ESYS_STATE_INIT (ret r))"
  by (auto simp: obeys_def plain_def or_state_def ret_def frame_def kept_def esys_ok_def esys_link_def intro!: stop)

end

interpretation frame: esys_command frame ..

interpretation sent: esys_command sent
proof
  fix r and s s' s'' :: "('t, 'c) esys"
  show "sent r s s'" if "frame r s s'" "r \<noteq> 0" using that by (simp add: frame_def sent_def)
  show "sent r s s''" if "frame 0 s s'" "sent r s' s''"
    using that by (auto simp: frame_def sent_def intro: kept_trans)
  show "sent r s s''" if "sent r s s'" "r \<noteq> 0" "calm r s' s''"
    using that by (auto simp: calm_def sent_def esys_link_def intro: kept_trans)
qed (rule calm_frame)

lemma prepare_frame [frame_intros]: "keeps_link f \<Longrightarrow> obeys plain frame (prepare f)"
  unfolding prepare_def by (intro frame_intros disjI1 refl)

lemma feasible_frame [frame_intros]: "obeys plain frame (feasible h1 h2 h3 m)"
  unfolding feasible_def by (intro frame_intros frame_if_calm calm_intros disjI1 refl)

lemma init_sessions_frame [frame_intros]: "obeys plain frame (init_sessions h1 h2 h3)"
  unfolding init_sessions_def by (intro frame_intros frame_if_calm calm_intros disjI1 refl)

lemma session_value_for_frame [frame_intros]: "obeys plain frame (session_value_for i p)"
  unfolding session_value_for_def
  by (intro frame_if_calm calm_at calm_flow calm_intros)

lemma session_value_addr_frame [frame_intros]: "obeys plain frame (session_value_addr i p)"
  unfolding session_value_addr_def by (intro frame_if_calm calm_at calm_flow calm_intros)

lemma set_auths_frame [frame_intros]: "obeys plain frame (set_auths auths)"
  unfolding set_auths_def by (intro frame_flow frame_intros frame_if_calm [OF calm_update_fields(3)] keeps_link_intros)

lemma store_frame [frame_intros]: "obeys plain frame (store i)" "obeys plain frame (store_NV f)"
  unfolding store_def store_NV_def by (auto simp: obeys_def plain_def update_def frame_def kept_def esys_ok_def esys_link_def)

lemma strip_authData_frame [frame_intros]: "obeys plain frame strip_authData"
  unfolding strip_authData_def by (intro frame_flow frame_intros)

lemma adapt_calm: "iesys_adapt_auth_value (crypto_backend s) a alg = Some (r, a', cb) \<Longrightarrow> frame q s (s\<lparr>crypto_backend := cb\<rparr>)"
  by (rule calm_frame) simp

lemma adapt_authData_frame [frame_intros]: "obeys plain frame (adapt_authData alg)"
  unfolding adapt_authData_def
proof (intro frame_intros frame_flow)
  fix a
  show "obeys plain frame (\<lambda>ctx. case iesys_adapt_auth_value (crypto_backend ctx) (Some a) alg of None \<Rightarrow> None
      | Some (r, a', cb) \<Rightarrow> steps [store_NV (\<lambda>i. i\<lparr>NV_authData := a'\<rparr>), ret r] (ctx\<lparr>crypto_backend := cb\<rparr>))"
    by (auto simp: obeys_def plain_def store_NV_def update_def ret_def frame_def kept_def esys_ok_def esys_link_def split: option.splits)
qed simp

lemma adapt_userAuth_frame [frame_intros]: "obeys plain frame (adapt_userAuth alg)"
  unfolding adapt_userAuth_def
proof (rule or_state_frame)
  show "obeys plain frame (\<lambda>ctx. case in_sensitive (esys_in ctx) of None \<Rightarrow> None
     | Some s \<Rightarrow>
         (case iesys_adapt_auth_value (crypto_backend ctx) (Some (sensitive_userAuth s)) alg of
            Some (r, Some a, cb) \<Rightarrow>
              Some (r, ctx\<lparr>crypto_backend := cb, esys_in := set_in_sensitive (set_userAuth a s) (esys_in ctx)\<rparr>)
          | _ \<Rightarrow> None))"
    by (auto simp: obeys_def plain_def frame_def kept_def esys_ok_def esys_link_def split: option.splits)
qed simp

lemma adapt_for_frame [frame_intros]:
  "obeys plain frame (adapt_for_public p)" "obeys plain frame (adapt_for_nv n)"
  unfolding adapt_for_public_def adapt_for_nv_def by (intro frame_flow frame_intros)+

lemma adapt_for_template_frame [frame_intros]: "obeys plain frame (adapt_for_template t)"
  unfolding adapt_for_template_def
  by (intro frame_at frame_flow frame_intros frame_if_calm [OF calm_ret])

lemma require_frame [frame_intros]: "obeys plain frame (require_node p)" "obeys plain frame (policy_delete_check i)"
  unfolding require_node_def policy_delete_check_def
  by (intro or_state_frame frame_if_calm calm_intros disjI1 refl)+

section \<open>Starting a session\<close>

lemma calm_salt [simp]:
  "calm r s (s\<lparr>esys_salt := x, crypto_backend := cb\<rparr>)" "calm r s (s\<lparr>crypto_backend := cb, esys_salt := x\<rparr>)"
  by (simp_all add: calm_def kept_def esys_ok_def)

lemma salt_calm: "rsa_salt pub n e s = Some (r, x, s') \<Longrightarrow> calm r s s'" "ecc_salt pub n e s = Some (r, x, s') \<Longrightarrow> calm r s s'"
  by (auto simp: rsa_salt_def ecc_salt_def Let_def split: option.splits prod.splits if_splits)

lemma encrypted_salt_frame: "delivers frame plain (iesys_compute_encrypted_salt p e)"
  by (rule frame_if_calm_val)
    (auto simp: delivers_def plain_def iesys_compute_encrypted_salt_def split: option.splits prod.splits if_splits intro: salt_calm)

lemmas sent_flow = sent.flow_last sent.flow_Cons sent.flow_call sent.flow_read_val sent.flow_with_node sent.flow_with_session
  sent.flow_with_handle sent.flow_if sent.flow_Let sent.flow_option sent.flow_prod sent.flow_fault sent.at_rules sent.command_rules

lemma start_nonce_sent: "(\<And>n. obeys plain sent (k n)) \<Longrightarrow> obeys plain sent (start_nonce alg n k)"
  unfolding start_nonce_def
  by (intro sent_flow frame_intros sent.flow_or_ret disjI1 refl)
    (auto simp: delivers_def plain_def calm_frame split: prod.splits)

lemma stack_object_sent:
  assumes "\<And>a. obeys plain sent (k a)"
  shows "obeys plain sent (stack_object f k)"
proof
  fix s r s'
  assume st: "stack_object f k s = Some (r, s')"
  let ?a = "heap_next s" and ?s = "s\<lparr>heap_next := heap_next s + 1, rsrc_heap := (rsrc_heap s)(heap_next s \<mapsto> f (stack_node s))\<rparr>"
  from st obtain s1 where k: "k ?a ?s = Some (r, s1)" and s': "s' = s1\<lparr>rsrc_heap := (rsrc_heap s1)(?a := None)\<rparr>"
    by (auto simp: stack_object_def Let_def)
  from obeysD [OF assms k] have 1: "sent r ?s s1" by (simp add: plain_def)
  have ok: "esys_ok ?s" if "esys_ok s"
    using that esys_ok_unused [OF that order_refl] unfolding esys_ok_def by (auto simp: less_Suc_eq)
  have "esys_ok s'" if s: "esys_ok s"
  proof -
    have "?a \<notin> set (rsrc_list s1)" using 1 esys_ok_unused [OF s order_refl] by (auto simp: sent_def kept_def)
    moreover have "esys_ok s1" using 1 ok [OF s] by (simp add: sent_def kept_def)
    ultimately show ?thesis unfolding s' esys_ok_def by auto
  qed
  moreover have "set (rsrc_list s1) \<subseteq> set (rsrc_list s) \<union> {heap_next s..}" "heap_next s \<le> heap_next s1"
    using 1 by (auto simp: sent_def kept_def)
  ultimately show "sent r (plain s) (plain s')"
    using 1 unfolding plain_def s' sent_def kept_def by (auto simp: esys_link_def split: if_splits)
qed

lemma none_node_sent: "(\<And>a. obeys plain sent (k a)) \<Longrightarrow> obeys plain sent (none_node k)"
  unfolding none_node_def Let_def
  by (intro stack_object_sent sent_flow frame_intros frame_if_calm calm_intros disjI1 refl)

section \<open>Variants of sending\<close>

lemma load_context_sent: "obeys plain sent (load_context c)"
  unfolding load_context_def Let_def
  by (intro sent_flow frame_intros frame_if_calm calm_intros keeps_link_intros send_sent sent.flow_ret) simp

lemma Clear_sends:
  "obeys plain sent (steps [or_state ESYS_STATE_INTERNALERROR (on_sys Tss2_Sys_ExecuteAsync),
     if b then session_value_for 0 None else steps [], set_state ESYS_STATE_SENT])"
proof
  fix s r s'
  assume a: "steps [or_state ESYS_STATE_INTERNALERROR (on_sys Tss2_Sys_ExecuteAsync),
     if b then session_value_for 0 None else steps [], set_state ESYS_STATE_SENT] s = Some (r, s')"
  then obtain q sys' where e: "Tss2_Sys_ExecuteAsync (esys_sys s) = Some (q, sys')"
    by (auto simp: or_state_def on_sys_def split: option.splits)
  let ?s = "s\<lparr>esys_sys := sys'\<rparr>"
  show "sent r (plain s) (plain s')"
  proof (cases "q = 0")
    case False
    with a e ExecuteAsync_transmits [OF e] show ?thesis
      by (auto simp: or_state_def on_sys_def plain_def sent_def kept_def esys_ok_def esys_link_def)
  next
    case True
    let ?v = "if b then session_value_for 0 None else steps []"
    have "obeys plain calm ?v"
      unfolding session_value_for_def by (intro calm_at calm_flow calm_intros)
    moreover from True a e obtain q1 t where v: "?v ?s = Some (q1, t)"
      by (auto simp: or_state_def on_sys_def split: option.splits)
    ultimately have t: "calm q1 ?s t" by (auto dest: obeysD simp: plain_def)
    have "if q1 = 0 then r = 0 \<and> s' = t\<lparr>esys_state := ESYS_STATE_SENT\<rparr> else r = q1 \<and> s' = t"
      using True a e v by (auto simp: or_state_def on_sys_def set_state_def update_def split: if_splits)
    with True t ExecuteAsync_transmits [OF e] show ?thesis
      by (auto simp: plain_def sent_def calm_def kept_def esys_ok_def esys_link_def split: if_splits)
  qed
qed

section \<open>The contract\<close>

text \<open>
  A call is refused and changes nothing, or it sets the context to work and the body of the function does the rest.
\<close>

definition started :: "('t, 'c) esys \<Rightarrow> ('t, 'c) esys" where
  "started s = s\<lparr>submissionCount := 1, esys_state := ESYS_STATE_INTERNALERROR\<rparr>"

definition may_start :: "('t, 'c) esys \<Rightarrow> bool" where
  "may_start s \<longleftrightarrow> esys_state s = ESYS_STATE_INIT \<or> esys_state s = ESYS_STATE_RESUBMISSION"

lemma started_simps [simp]:
  "esys_link (started s) = esys_link s" "esys_timeout (started s) = esys_timeout s" "submissionCount (started s) = 1"
  "esys_state (started s) = ESYS_STATE_INTERNALERROR" "esys_ok (started s) = esys_ok s"
  by (simp_all add: started_def esys_link_def esys_ok_def)

locale esys_async_cmd =
  fixes A :: "('t, 'c) esys option \<Rightarrow> (TSS2_RC \<times> ('t, 'c) esys option) option"
  assumes no_context: "A None = Some (TSS2_ESYS_RC_BAD_REFERENCE, None)"
    and refuses: "\<not> may_start s \<Longrightarrow> \<exists>r. r \<noteq> 0 \<and> A (Some s) = Some (r, Some s)"
    and outcome: "A (Some s) = Some (r, p) \<Longrightarrow> \<exists>s'. p = Some s' \<and> (r \<noteq> 0 \<and> s' = s \<or> may_start s \<and> sent r (started s) s')"
begin

lemma success:
  assumes "A (Some s) = Some (0, p)"
  obtains s' where "p = Some s'" "may_start s" "esys_state s' = ESYS_STATE_SENT" "submissionCount s' = 1"
    "transmits (esys_link s) (esys_link s')" "sys_stage (esys_sys s') = Some CMD_STAGE_SEND_COMMAND"
    "esys_timeout s' = esys_timeout s" "esys_ok s \<Longrightarrow> esys_ok s'"
  using outcome [OF assms] by (auto simp: sent_def kept_def)

lemma failure:
  assumes "A (Some s) = Some (r, p)" "r \<noteq> 0"
  obtains s' where "p = Some s'" "s' = s \<or> esys_state s' = ESYS_STATE_INIT \<or> esys_state s' = ESYS_STATE_INTERNALERROR"
    "esys_link s' = esys_link s \<or> transmits (esys_link s) (esys_link s')" "esys_timeout s' = esys_timeout s" "esys_ok s \<Longrightarrow> esys_ok s'"
  using outcome [OF assms(1)] assms(2)
  by (auto simp: sent_def kept_def failed_state_def)

end

lemma esys_async_cmdI:
  assumes "obeys plain sent body"
  shows "esys_async_cmd (\<lambda>ctx. esys_async ctx body)"
proof
  have body: "esys_async (Some s) body = (if may_start s then map_option (\<lambda>(r, ctx). (r, Some ctx)) (body (started s))
      else Some (TSS2_ESYS_RC_BAD_SEQUENCE, Some s))" for s
    by (auto simp: esys_async_def iesys_check_sequence_async_def may_start_def started_def set_state_def update_def split: option.splits)
  show "\<exists>r. r \<noteq> 0 \<and> esys_async (Some s) body = Some (r, Some s)" if "\<not> may_start s" for s
    using that by (simp add: body)
  show "\<exists>s'. p = Some s' \<and> (r \<noteq> 0 \<and> s' = s \<or> may_start s \<and> sent r (started s) s')"
    if "esys_async (Some s) body = Some (r, p)" for s r p
    using that assms by (auto simp: body plain_def split: if_splits dest: obeysD)
qed (simp add: esys_async_def)

lemma hierarchy_arg_cmdI:
  assumes "\<And>t. esys_async_cmd (A t)"
  shows "esys_async_cmd (\<lambda>ctx. hierarchy_arg h ctx (\<lambda>t. A t ctx))"
proof -
  obtain r t where h: "iesys_handle_to_tpm_handle h = (r, t)" by (cases "iesys_handle_to_tpm_handle h")
  show ?thesis
    by unfold_locales
      (use h esys_async_cmd.refuses [OF assms] esys_async_cmd.outcome [OF assms] in \<open>auto simp: hierarchy_arg_def split: if_splits\<close>)
qed

end
