(* ===== verification/Esys_Finish.thy ===== *)
theory Esys_Finish
  imports Esys_Async
begin

text \<open>
  The contract of the \<open>_Finish\<close> functions.
\<close>

section \<open>Receiving\<close>

inductive receives :: "'t TSS2_TCTI_CONTEXT option option \<Rightarrow> 't TSS2_TCTI_CONTEXT option option \<Rightarrow> bool" where
  "Tss2_Tcti_Receive t n b timeout = (r, n', b', t') \<Longrightarrow> receives (Some t) (Some t')"

text \<open>The rest of a \<open>_Finish\<close> function behind the response.\<close>

definition completes :: "TSS2_RC \<Rightarrow> ('t, 'c) esys \<Rightarrow> ('t, 'c) esys \<Rightarrow> bool" where
  "completes r s s' \<longleftrightarrow> kept s s' \<and> submissionCount s' = submissionCount s \<and> esys_link s' = esys_link s \<and>
     (if r = 0 then esys_state s' = ESYS_STATE_INIT else failed_state (esys_state s) (esys_state s'))"

text \<open>
  A response ends the command; there may be none yet; or the command is sent again, if it was not sent too often.
\<close>

definition no_answer :: "TSS2_RC \<Rightarrow> ('t, 'c) esys \<Rightarrow> ('t, 'c) esys \<Rightarrow> bool" where
  "no_answer r s s' \<longleftrightarrow> esys_state s' = ESYS_STATE_SENT \<and> base_rc r = TSS2_BASE_RC_TRY_AGAIN \<and>
     Tss2_Sys_ExecuteFinish (esys_sys s) (esys_timeout s) = Some (r, esys_sys s')"

definition sent_again :: "TSS2_RC \<Rightarrow> ('t, 'c) esys \<Rightarrow> ('t, 'c) esys \<Rightarrow> bool" where
  "sent_again r s s' \<longleftrightarrow> r \<noteq> 0 \<and> submissionCount s' = submissionCount s + 1 \<and> sys_stage (esys_sys s) = Some CMD_STAGE_SEND_COMMAND \<and>
     (if submissionCount s \<ge> ESYS_MAX_SUBMISSIONS then receives\<^sup>*\<^sup>* (esys_link s) (esys_link s') \<and> esys_state s' = ESYS_STATE_INIT
      else (esys_state s' = ESYS_STATE_RESUBMISSION \<or> esys_state s' = ESYS_STATE_SENT) \<and>
        (\<exists>l. receives\<^sup>*\<^sup>* (esys_link s) l \<and> (esys_link s' = l \<or> transmits l (esys_link s'))))"

definition failed :: "TSS2_RC \<Rightarrow> ('t, 'c) esys \<Rightarrow> ('t, 'c) esys \<Rightarrow> bool" where
  "failed r s s' \<longleftrightarrow> kept s s' \<and>
     (submissionCount s' = submissionCount s \<and> receives\<^sup>*\<^sup>* (esys_link s) (esys_link s') \<and>
        (failed_state (esys_state s) (esys_state s') \<or> no_answer r s s') \<or> sent_again r s s')"

definition received :: "TSS2_RC \<Rightarrow> ('t, 'c) esys \<Rightarrow> ('t, 'c) esys \<Rightarrow> bool" where
  "received r s s' \<longleftrightarrow>
     (if r = 0 then kept s s' \<and> submissionCount s' = submissionCount s \<and> receives\<^sup>*\<^sup>* (esys_link s) (esys_link s') \<and>
        esys_state s' = esys_state s
      else failed r s s')"

definition answered :: "TSS2_RC \<Rightarrow> ('t, 'c) esys \<Rightarrow> ('t, 'c) esys \<Rightarrow> bool" where
  "answered r s s' \<longleftrightarrow>
     (if r = 0 then kept s s' \<and> submissionCount s' = submissionCount s \<and> receives\<^sup>*\<^sup>* (esys_link s) (esys_link s') \<and>
        esys_state s' = ESYS_STATE_INIT
      else failed r s s')"

lemma get_header_link: "get_header U get upd c = Some (r, c') \<Longrightarrow> ctx_tctiContext c' = ctx_tctiContext c"
  by (auto simp: get_header_def split: option.splits prod.splits)

lemma read_rsp_header_link: "read_rsp_header c = Some (r, c') \<Longrightarrow> ctx_tctiContext c' = ctx_tctiContext c"
  by (auto simp: read_rsp_header_def Let_def split: option.splits prod.splits if_splits dest!: get_header_link)

lemma finish_response_link: "finish_response c = Some (r, c') \<Longrightarrow> ctx_tctiContext c' = ctx_tctiContext c"
  by (auto simp: finish_response_def Let_def split: option.splits if_splits)

lemma ExecuteFinish_receives:
  assumes "Tss2_Sys_ExecuteFinish sys timeout = Some (r, sys')"
  shows "receives\<^sup>*\<^sup>* (sys_link sys) (sys_link sys')"
proof (cases "sys_stage sys = Some CMD_STAGE_SEND_COMMAND")
  case False
  with assms show ?thesis by (auto simp: Tss2_Sys_ExecuteFinish_def sys_stage_def split: option.splits)
next
  case True
  then obtain c where c: "sys = Some c" "ctx_previousStage c = CMD_STAGE_SEND_COMMAND" by (auto simp: sys_stage_def)
  obtain r1 n1 b1 t1 where 1: "Tss2_Tcti_Receive (ctx_tctiContext c) 0 None timeout = (r1, n1, b1, t1)"
    by (metis prod_cases4)
  obtain r2 n2 b2 t2 where 2: "Tss2_Tcti_Receive t1 n1 (Some (ctx_cmdBuffer c)) timeout = (r2, n2, b2, t2)"
    by (metis prod_cases4)
  from assms c 1 2 have "sys_link sys' = Some t1 \<or> sys_link sys' = Some t2"
    by (auto simp: Tss2_Sys_ExecuteFinish_def Let_def split: option.splits if_splits dest!: read_rsp_header_link finish_response_link)
  moreover have "receives (sys_link sys) (Some t1)" "receives (Some t1) (Some t2)"
    using c receives.intros [OF 1] receives.intros [OF 2] by simp_all
  ultimately show ?thesis by (metis r_into_rtranclp rtranclp.rtrancl_into_rtrancl)
qed

lemma ExecuteFinish_refused:
  "sys_stage sys \<noteq> Some CMD_STAGE_SEND_COMMAND \<Longrightarrow> Tss2_Sys_ExecuteFinish sys timeout = Some (r, sys') \<Longrightarrow>
   r = TSS2_SYS_RC_BAD_REFERENCE \<or> r = TSS2_SYS_RC_BAD_SEQUENCE"
  by (auto simp: Tss2_Sys_ExecuteFinish_def sys_stage_def split: option.splits if_splits)

lemma retry_needs_stage:
  assumes "wants_retry r" "Tss2_Sys_ExecuteFinish sys timeout = Some (r, sys')"
  shows "sys_stage sys = Some CMD_STAGE_SEND_COMMAND"
proof (rule ccontr)
  assume "sys_stage sys \<noteq> Some CMD_STAGE_SEND_COMMAND"
  with assms ExecuteFinish_refused have "r = TSS2_SYS_RC_BAD_REFERENCE \<or> r = TSS2_SYS_RC_BAD_SEQUENCE" by blast
  with assms(1) show False by (auto simp: wants_retry_def esys_rc_defs TSS2_SYS_RC_BAD_REFERENCE_def TSS2_SYS_RC_BAD_SEQUENCE_def)
qed

section \<open>The calculus\<close>

interpretation completes: esys_command completes
proof
  fix r and s s' s'' :: "('t, 'c) esys"
  show "completes r s s'" if "frame r s s'" "r \<noteq> 0" using that by (simp add: frame_def completes_def)
  show "completes r s s''" if "frame 0 s s'" "completes r s' s''"
    using that by (auto simp: frame_def completes_def intro: kept_trans)
  show "completes r s s''" if "completes r s s'" "r \<noteq> 0" "calm r s' s''"
    using that by (auto simp: calm_def completes_def esys_link_def intro: kept_trans)
qed (rule calm_frame)

lemma failed_calm_first: "calm q s s' \<Longrightarrow> failed r s' s'' \<Longrightarrow> failed r s s''"
  unfolding failed_def calm_def no_answer_def sent_again_def esys_link_def by (auto intro: kept_trans simp: kept_def)

lemma failed_calm_last: "failed r s s' \<Longrightarrow> calm q s' s'' \<Longrightarrow> failed r s s''"
  unfolding failed_def calm_def no_answer_def sent_again_def esys_link_def by (auto intro: kept_trans)

lemma failed_if_frame: "frame r s s' \<Longrightarrow> r \<noteq> 0 \<Longrightarrow> failed r s s'"
  by (simp add: failed_def frame_def)

interpretation received: esys_flow calm received
proof
  fix r and s s' s'' :: "('t, 'c) esys"
  show "received r s s'" if "calm r s s'" "r \<noteq> 0" using that by (simp add: received_def calm_frame failed_if_frame)
  show "received r s s''" if "calm 0 s s'" "received r s' s''"
    using that by (auto simp: received_def calm_def esys_link_def intro: kept_trans failed_calm_first split: if_splits)
  show "received r s s''" if "received r s s'" "r \<noteq> 0" "calm r s' s''"
    using that by (auto simp: received_def intro: failed_calm_last)
qed

interpretation answered: esys_flow calm answered
proof
  fix r and s s' s'' :: "('t, 'c) esys"
  show "answered r s s'" if "calm r s s'" "r \<noteq> 0" using that by (simp add: answered_def calm_frame failed_if_frame)
  show "answered r s s''" if "calm 0 s s'" "answered r s' s''"
    using that by (auto simp: answered_def calm_def esys_link_def intro: kept_trans failed_calm_first split: if_splits)
  show "answered r s s''" if "answered r s s'" "r \<noteq> 0" "calm r s' s''"
    using that by (auto simp: answered_def intro: failed_calm_last)
qed

lemma failed_after_answer:
  assumes "received 0 s s'" "completes r s' s''" "r \<noteq> 0"
  shows "failed r s s''"
  using assms unfolding received_def completes_def failed_def by (auto intro: kept_trans)

lemma answered_Cons: "obeys v received f \<Longrightarrow> obeys v completes (steps fs) \<Longrightarrow> obeys v answered (steps (f # fs))"
proof
  fix s r s'
  assume f: "obeys v received f" and fs: "obeys v completes (steps fs)" and e: "steps (f # fs) s = Some (r, s')"
  then obtain q s1 where q: "f s = Some (q, s1)" by (auto split: option.splits)
  from obeysD [OF f q] have 1: "received q (v s) (v s1)" .
  show "answered r (v s) (v s')"
  proof (cases "q = 0")
    case False
    with e q 1 show ?thesis by (auto simp: received_def answered_def)
  next
    case True
    with e q have "steps fs s1 = Some (r, s')" by simp
    from obeysD [OF fs this] have 2: "completes r (v s1) (v s')" .
    show ?thesis
    proof (cases "r = 0")
      case True
      with 1 2 \<open>q = 0\<close> show ?thesis by (auto simp: received_def completes_def answered_def intro: kept_trans)
    next
      case False
      with 1 2 \<open>q = 0\<close> show ?thesis by (simp add: answered_def failed_after_answer)
    qed
  qed
qed

lemma received_Cons: "obeys v received f \<Longrightarrow> obeys v frame (steps fs) \<Longrightarrow> obeys v received (steps (f # fs))"
proof
  fix s r s'
  assume f: "obeys v received f" and fs: "obeys v frame (steps fs)" and e: "steps (f # fs) s = Some (r, s')"
  then obtain q s1 where q: "f s = Some (q, s1)" by (auto split: option.splits)
  from obeysD [OF f q] have 1: "received q (v s) (v s1)" .
  show "received r (v s) (v s')"
  proof (cases "q = 0")
    case False
    with e q 1 show ?thesis by auto
  next
    case True
    with e q have "steps fs s1 = Some (r, s')" by simp
    from obeysD [OF fs this] have 2: "frame r (v s1) (v s')" .
    then have "completes r (v s1) (v s')" if "r \<noteq> 0" using that by (simp add: frame_def completes_def)
    with 1 2 \<open>q = 0\<close> show ?thesis
      using failed_after_answer by (cases "r = 0") (auto simp: received_def frame_def intro: kept_trans)
  qed
qed

section \<open>The response\<close>

lemma on_ExecuteFinish:
  assumes "on_sys (\<lambda>sys. Tss2_Sys_ExecuteFinish sys (esys_timeout s)) s = Some (r, s')"
  obtains sys where "on_sys (\<lambda>sys. Tss2_Sys_ExecuteFinish sys (esys_timeout s)) s = Some (r, s\<lparr>esys_sys := sys\<rparr>)"
    "Tss2_Sys_ExecuteFinish (esys_sys s) (esys_timeout s) = Some (r, sys)" "receives\<^sup>*\<^sup>* (esys_link s) (sys_link sys)"
  using assms ExecuteFinish_receives [of "esys_sys s" "esys_timeout s"]
  by (auto simp: on_sys_def esys_link_def split: option.splits)

lemma kept_fields [simp]:
  "kept s (s\<lparr>esys_sys := x\<rparr>)" "kept s (s\<lparr>esys_sys := x, esys_state := st\<rparr>)"
  "kept s (s\<lparr>esys_sys := x, submissionCount := n, esys_state := st\<rparr>)"
  by (simp_all add: kept_def esys_ok_def)

lemma base_rc_0 [simp]: "base_rc 0 \<noteq> TSS2_BASE_RC_TRY_AGAIN" "base_rc r = TSS2_BASE_RC_TRY_AGAIN \<Longrightarrow> r \<noteq> 0"
  by (auto simp: base_rc_def TSS2_BASE_RC_TRY_AGAIN_def)

lemma UPGRADE_nonzero [simp]: "TPM2_RC_UPGRADE \<noteq> 0"
  by (simp add: esys_rc_defs TPM2_RC_VER1_def)

lemma resubmit_again:
  assumes "resubmit st r (s\<lparr>esys_sys := sys\<rparr>) = Some (r', s')" "r \<noteq> 0" "st = ESYS_STATE_RESUBMISSION \<or> st = ESYS_STATE_SENT"
    "sys_stage (esys_sys s) = Some CMD_STAGE_SEND_COMMAND" "receives\<^sup>*\<^sup>* (esys_link s) (sys_link sys)"
  shows "kept s s' \<and> sent_again r' s s'"
proof (cases "submissionCount s \<ge> ESYS_MAX_SUBMISSIONS")
  case True
  with assms show ?thesis by (auto simp: resubmit_def Let_def sent_again_def esys_link_def)
next
  case False
  with assms obtain q sys' where e: "Tss2_Sys_ExecuteAsync sys = Some (q, sys')"
    and s': "s' = s\<lparr>esys_sys := sys', submissionCount := submissionCount s + 1, esys_state := st\<rparr>" "r' \<noteq> 0"
    by (auto simp: resubmit_def Let_def on_sys_def split: option.splits)
  from ExecuteAsync_transmits [OF e] False assms(3-5) show ?thesis
    unfolding s'(1) using s'(2) by (auto simp: sent_again_def esys_link_def split: if_splits)
qed

lemma receive_received: "obeys plain received receive"
proof
  fix s r s'
  assume a: "receive s = Some (r, s')"
  then obtain q s1 where "on_sys (\<lambda>sys. Tss2_Sys_ExecuteFinish sys (esys_timeout s)) s = Some (q, s1)"
    by (auto simp: receive_def split: option.splits)
  then obtain sys where o: "on_sys (\<lambda>sys. Tss2_Sys_ExecuteFinish sys (esys_timeout s)) s = Some (q, s\<lparr>esys_sys := sys\<rparr>)"
    and e: "Tss2_Sys_ExecuteFinish (esys_sys s) (esys_timeout s) = Some (q, sys)"
    and l: "receives\<^sup>*\<^sup>* (esys_link s) (sys_link sys)"
    by (rule on_ExecuteFinish)
  show "received r (plain s) (plain s')"
  proof (cases "base_rc q \<noteq> TSS2_BASE_RC_TRY_AGAIN \<and> wants_retry q")
    case True
    with a o have "resubmit ESYS_STATE_RESUBMISSION q (s\<lparr>esys_sys := sys\<rparr>) = Some (r, s')" by (simp add: receive_def)
    moreover have "q \<noteq> 0" using True by (auto simp: wants_retry_def esys_rc_defs)
    ultimately have "kept s s' \<and> sent_again r s s'"
      using resubmit_again retry_needs_stage [OF _ e] True l by blast
    then show ?thesis by (auto simp: plain_def received_def failed_def sent_again_def)
  next
    case False
    with a o l e show ?thesis
      by (auto simp: receive_def plain_def received_def failed_def no_answer_def esys_link_def iesys_tpm_error_def split: if_splits)
  qed
qed

lemma receive_startup_received: "obeys plain received receive_startup"
proof
  fix s r s'
  assume a: "receive_startup s = Some (r, s')"
  then obtain q s1 where "on_sys (\<lambda>sys. Tss2_Sys_ExecuteFinish sys (esys_timeout s)) s = Some (q, s1)"
    by (auto simp: receive_startup_def split: option.splits)
  then obtain sys where o: "on_sys (\<lambda>sys. Tss2_Sys_ExecuteFinish sys (esys_timeout s)) s = Some (q, s\<lparr>esys_sys := sys\<rparr>)"
    and e: "Tss2_Sys_ExecuteFinish (esys_sys s) (esys_timeout s) = Some (q, sys)"
    and l: "receives\<^sup>*\<^sup>* (esys_link s) (sys_link sys)"
    by (rule on_ExecuteFinish)
  show "received r (plain s) (plain s')"
  proof (cases "base_rc q \<noteq> TSS2_BASE_RC_TRY_AGAIN \<and> wants_retry q")
    case True
    with a o have "resubmit ESYS_STATE_SENT q (s\<lparr>esys_sys := sys\<rparr>) = Some (r, s')" by (simp add: receive_startup_def)
    moreover have "q \<noteq> 0" using True by (auto simp: wants_retry_def esys_rc_defs)
    ultimately have "kept s s' \<and> sent_again r s s'"
      using resubmit_again retry_needs_stage [OF _ e] True l by blast
    then show ?thesis by (auto simp: plain_def received_def failed_def sent_again_def)
  next
    case False
    with a o l e show ?thesis
      by (auto simp: receive_startup_def plain_def received_def failed_def no_answer_def esys_link_def iesys_tpm_error_def split: if_splits)
  qed
qed

section \<open>The contract\<close>

definition waiting :: "('t, 'c) esys \<Rightarrow> bool" where
  "waiting s \<longleftrightarrow> esys_state s = ESYS_STATE_SENT \<or> esys_state s = ESYS_STATE_RESUBMISSION"

definition working :: "('t, 'c) esys \<Rightarrow> ('t, 'c) esys" where
  "working s = s\<lparr>esys_state := ESYS_STATE_INTERNALERROR\<rparr>"

lemma working_simps [simp]:
  "esys_link (working s) = esys_link s" "esys_timeout (working s) = esys_timeout s" "submissionCount (working s) = submissionCount s"
  "esys_state (working s) = ESYS_STATE_INTERNALERROR" "esys_ok (working s) = esys_ok s" "esys_sys (working s) = esys_sys s"
  "heap_next (working s) = heap_next s" "rsrc_list (working s) = rsrc_list s"
  by (simp_all add: working_def esys_link_def esys_ok_def)

locale esys_finish_cmd =
  fixes Fi :: "(('t, 'c) esys option \<times> 'o) step"
  assumes no_context: "Fi (None, outs) = Some (TSS2_ESYS_RC_BAD_REFERENCE, None, outs)"
    and refuses: "\<not> waiting s \<Longrightarrow> Fi (Some s, outs) = Some (TSS2_ESYS_RC_BAD_SEQUENCE, Some s, outs)"
    and outcome: "waiting s \<Longrightarrow> Fi (Some s, outs) = Some (r, p, outs') \<Longrightarrow> \<exists>s'. p = Some s' \<and> answered r (working s) s'"
begin

lemma success:
  assumes "Fi (Some s, outs) = Some (0, p, outs')"
  obtains s' where "p = Some s'" "waiting s" "esys_state s' = ESYS_STATE_INIT" "submissionCount s' = submissionCount s"
    "receives\<^sup>*\<^sup>* (esys_link s) (esys_link s')" "esys_timeout s' = esys_timeout s" "esys_ok s \<Longrightarrow> esys_ok s'"
  using assms outcome [OF _ assms] refuses [of s outs] by (cases "waiting s") (auto simp: answered_def kept_def)

end

lemma esys_finish_cmdI:
  assumes "obeys fst answered body"
  shows "esys_finish_cmd (esys_finish body)"
proof
  show "\<exists>s'. p = Some s' \<and> answered r (working s) s'"
    if "waiting s" "esys_finish body (Some s, outs) = Some (r, p, outs')" for s outs r p outs'
  proof -
    from that obtain s1 where "body (working s, outs) = Some (r, s1, outs')" "p = Some s1"
      by (auto simp: esys_finish_def waiting_def working_def)
    with obeysD [OF assms this(1)] show ?thesis by simp
  qed
qed (simp_all add: esys_finish_def waiting_def)

section \<open>The parts of the functions\<close>

lemma find_rsrc_list: "find_rsrc P hp as = Some (Some a) \<Longrightarrow> a \<in> set as"
  by (induction as) (auto split: option.splits if_splits)

lemma close_calm:
  assumes "Esys_TR_Close (Some s) h = Some (r, Some s', h')"
  shows "calm q s s'"
proof -
  have "s' = s \<or> (\<exists>a n m. rsrc_heap s a = Some n \<and> s' = s\<lparr>rsrc_heap := (rsrc_heap s)(a \<mapsto> m)\<rparr>) \<or>
    (\<exists>a. s' = s\<lparr>rsrc_heap := (rsrc_heap s)(a := None), rsrc_list := remove1 a (rsrc_list s)\<rparr>)"
    using assms by (auto simp: Esys_TR_Close_def split: option.splits if_splits)
  moreover have "calm q s (s\<lparr>rsrc_heap := (rsrc_heap s)(a := None), rsrc_list := remove1 a (rsrc_list s)\<rparr>)" for a
    by (auto simp: calm_def kept_def esys_ok_def dest: notin_set_remove1 [rotated] set_remove1_subset [THEN subsetD])
  ultimately show ?thesis using heap_set_calm by auto
qed

lemma close_out_calm: "close_out s = Some s' \<Longrightarrow> calm q (fst s) (fst s')"
  by (auto simp: close_out_def split: option.splits prod.splits dest: close_calm)

lemma null_out_calm [calm_intros]: "obeys fst calm null_out"
  by (auto simp: obeys_def null_out_def)

lemma alloc_out_calm [calm_intros]: "obeys fst calm (alloc_out z)"
  by (auto simp: obeys_def alloc_out_def split: option.splits prod.splits if_splits dest: alloc_calm)

lemma alloc_local_calm [calm_intros]: "obeys fst calm (alloc_local z)"
  by (auto simp: obeys_def alloc_local_def split: prod.splits if_splits dest: alloc_calm)

lemma init_session_node_calm [calm_intros]: "obeys plain calm (init_session_node a)"
  unfolding init_session_node_def by (intro calm_flow calm_intros)

lemma load_metadata_calm [calm_intros]: "obeys plain calm (load_metadata a)"
  unfolding load_metadata_def by (intro calm_at calm_flow calm_intros)

lemma complete_frame:
  assumes "\<And>sys xs r sys' xs'. f (sys, xs) = Some (r, sys', xs') \<Longrightarrow> sys_link sys' = sys_link sys"
  shows "obeys fst frame (complete l f)"
  unfolding obeys_def complete_def
  by (auto simp: frame_def kept_def esys_ok_def esys_link_def split: option.splits if_splits dest: assms)

lemma complete0_frame:
  assumes "\<And>sys xs r sys' xs'. f (sys, xs) = Some (r, sys', xs') \<Longrightarrow> sys_link sys' = sys_link sys"
  shows "obeys plain frame (complete0 f)"
  using complete_frame [OF assms, where l = no_out] unfolding obeys_def complete0_def plain_def by fastforce

lemma complete_handle_frame:
  assumes "\<And>sys xs r sys' xs'. f (sys, xs) = Some (r, sys', xs') \<Longrightarrow> sys_link sys' = sys_link sys"
  shows "obeys fst frame (complete_handle a l f)"
  unfolding obeys_def complete_handle_def
  by (auto simp: frame_def kept_def esys_ok_def esys_link_def Let_def split: option.splits if_splits dest: assms)

lemma init_public_calm [calm_intros]: "obeys plain calm (init_public a)"
  unfolding init_public_def by (intro calm_at calm_flow calm_intros)

lemma set_auth_calm [calm_intros]: "obeys plain calm (set_auth p a)"
  unfolding set_auth_def by (rule calm_set_node)

lemma check_name_calm [calm_intros]: "obeys plain calm (check_name pub name)"
  by (auto simp: obeys_def plain_def check_name_def split: option.splits)

lemma userAuth_object_calm [calm_intros]: "obeys plain calm (userAuth_object a)"
  unfolding userAuth_object_def by (intro calm_at calm_flow calm_intros)

lemma sequence_auth_calm [calm_intros]: "obeys plain calm (sequence_auth a)"
  unfolding sequence_auth_def by (intro calm_flow calm_intros)

lemma on_fst_at:
  assumes "on_fst f (s, x) = Some (r, s')" "obeys plain R f"
  shows "R r s (fst s')"
  using assms obeysD [OF assms(2)] by (auto simp: plain_def split: option.splits)

text \<open>A step that looks at the outputs and then works on the context.\<close>

lemma named_object_calm [calm_intros]: "obeys fst calm (named_object a)"
proof -
  have "obeys plain calm (steps [check_name pub name, set_node (Some a) (set_name nm)])" for pub name nm
    by (intro calm_flow calm_intros)
  from obeysD [OF this] show ?thesis
    unfolding obeys_def named_object_def plain_def by (auto simp del: steps.simps split: option.splits)
qed

lemma nv_object_flow: "(\<And>p. obeys plain frame (k p)) \<Longrightarrow> obeys plain frame (nv_object k)"
  unfolding nv_object_def by (intro frame_flow frame_if_calm_val calm_intros)

lemma name_step_calm:
  "obeys plain calm (\<lambda>ctx. case f (crypto_backend ctx) of
      None \<Rightarrow> None
    | Some (r, name, cb) \<Rightarrow> steps [set_node p (set_name name), ret r] (ctx\<lparr>crypto_backend := cb\<rparr>))"
proof
  fix s r s'
  assume a: "(case f (crypto_backend s) of None \<Rightarrow> None
    | Some (r, name, cb) \<Rightarrow> steps [set_node p (set_name name), ret r] (s\<lparr>crypto_backend := cb\<rparr>)) = Some (r, s')"
  have "calm r t s'" if "steps [set_node p (set_name name), ret q] t = Some (r, s')" for t name q
  proof -
    have "obeys plain calm (steps [set_node p (set_name name), ret q])" by (intro calm_flow calm_intros)
    from obeysD [OF this that] show ?thesis by (simp add: plain_def)
  qed
  with a show "calm r (plain s) (plain s')"
    unfolding plain_def by (auto simp del: steps.simps split: option.splits) (metis calm_crypto calm_trans)
qed

lemma nv_set_attribute_calm [calm_intros]: "obeys plain calm (nv_set_attribute flag p)"
  unfolding nv_set_attribute_def by (intro calm_flow calm_intros name_step_calm)

lemma change_auth_frame [frame_intros]: "obeys plain frame change_auth"
  unfolding change_auth_def by (intro nv_object_flow frame_flow frame_at frame_if_calm calm_at calm_flow calm_intros)

lemma close_in_calm [calm_intros]: "obeys plain calm (close_in get upd)"
  unfolding close_in_def
  by (intro calm_flow)
    (auto simp: obeys_def plain_def split: option.splits dest!: close_calm intro: calm_trans simp: calm_def kept_def esys_ok_def)

lemma set_policy_type_calm [calm_intros]: "obeys plain calm (set_policy_type ty)"
  unfolding set_policy_type_def by (intro calm_flow calm_intros)

text \<open>Steps that look at local variables and then work on the context.\<close>

lemma calm_locals:
  assumes "\<And>a l n os p m. obeys plain calm (G a l n os p m)"
  shows "obeys fst calm (\<lambda>(ctx, a, l, n, os).
    case (l, n) of (Some p, Some m) \<Rightarrow> on_fst (G a l n os p m) (ctx, X a l n os p m) | _ \<Rightarrow> None)"
  using obeysD [OF assms] unfolding obeys_def plain_def by (auto split: option.splits)

lemma calm_locals':
  assumes "\<And>a l n b os p m. obeys plain calm (G a l n b os p m)"
  shows "obeys fst calm (\<lambda>(ctx, a, l, n, b, os).
    case (l, n) of (Some p, Some m) \<Rightarrow> on_fst (G a l n b os p m) (ctx, X a l n b os p m) | _ \<Rightarrow> None)"
  using obeysD [OF assms] unfolding obeys_def plain_def by (auto split: option.splits)

lemma calm_give:
  "obeys fst calm (\<lambda>(ctx, a, l, n, b, os). Some (TSS2_RC_SUCCESS, ctx, X a l n b os))"
  "obeys fst calm (\<lambda>(ctx, a, l, n, b, c, os). Some (TSS2_RC_SUCCESS, ctx, Y a l n b c os))"
  by (auto simp: obeys_def)

lemma nv_object_calm: "(\<And>p. obeys plain calm (k p)) \<Longrightarrow> obeys plain calm (nv_object k)"
  unfolding nv_object_def by (intro calm_flow calm_intros)

lemma close_nvIndex_calm [calm_intros]: "obeys plain calm close_nvIndex"
  unfolding close_nvIndex_def by (rule close_in_calm)

lemma define_nv_frame [frame_intros]: "obeys plain frame (define_nv a)"
  unfolding define_nv_def
  by (intro frame_flow frame_intros frame_if_calm calm_flow calm_intros name_step_calm disjI2 refl)

lemma special_session_calm: "obeys plain calm (\<lambda>ctx. call (esys_GetResourceObject (h ctx)) k ctx)" if "\<And>p. obeys plain calm (k p)"
proof -
  have "obeys plain calm (call (esys_GetResourceObject x) k)" for x by (intro calm_flow calm_intros that)
  then show ?thesis unfolding obeys_def by blast
qed

lemma save_object_calm: "obeys fst calm (save_object blob lc n)"
proof -
  have "obeys fst calm (steps [ret r, on_fst (if b then close_in get upd else steps []),
      (\<lambda>(ctx, context', lcontext, outs). Some (TSS2_RC_SUCCESS, ctx, give_out context' lcontext, lcontext, outs))])" for r b get upd
    by (intro calm_flow calm_intros) (auto simp: obeys_def)
  note part = obeysD [OF this]
  show ?thesis
    unfolding obeys_def
  proof (intro allI impI)
    fix s r and s' :: "('a, 'b) esys \<times> TPMS_CONTEXT option option \<times> TPMS_CONTEXT option \<times> unit"
    assume run: "save_object blob lc n s = Some (r, s')"
    obtain ctx c l outs where s: "s = (ctx, c, l, outs)" by (cases s)
    show "calm r (fst s) (fst s')"
    proof (cases "extend_context blob (node_rsrc n) lc")
      case None
      with run show ?thesis by (simp add: save_object_def s)
    next
      case (Some p)
      obtain q lc' where p: "p = (q, lc')" by (cases p)
      have "save_object blob lc n s = steps [ret q, on_fst (if rsrc_rsrcType (node_rsrc n) = IESYSC_SESSION_RSRC then close_in in_save (\<lambda>h _. IN_ContextSave h) else steps []),
          (\<lambda>(ctx, context', lcontext, outs). Some (TSS2_RC_SUCCESS, ctx, give_out context' lcontext, lcontext, outs))]
          (ctx, c, Some lc', outs)"
        by (simp only: save_object_def s Some p prod.case option.case)
      from part [OF this [symmetric, THEN trans, OF run]] show ?thesis by (simp add: s)
    qed
  qed
qed

lemma lookup_calm [calm_intros]: "delivers calm fst (lookup h)"
  by (auto simp: delivers_def lookup_def dest: get_calm)

lemma with_object_calm: "(\<And>n. obeys fst calm (k n)) \<Longrightarrow> obeys fst calm (with_object p k)"
  unfolding with_object_def obeys_def by (auto split: option.splits)

lemma save_context_calm [calm_intros]: "obeys fst calm save_context"
proof -
  have "obeys fst calm (call (lookup h) (\<lambda>node. with_object node (save_object blob lc)))" for h blob lc
    by (intro calm_flow calm_intros with_object_calm save_object_calm)
  from obeysD [OF this] show ?thesis
    unfolding save_context_def obeys_def by (auto split: option.splits)
qed

section \<open>Whole functions\<close>

lemma answered_receive:
  "obeys plain completes (steps fs) \<Longrightarrow> obeys plain answered (steps (receive # fs))"
  "obeys fst completes (steps gs) \<Longrightarrow> obeys fst answered (steps (on_fst receive # gs))"
  "obeys fst completes (steps gs) \<Longrightarrow> obeys fst answered (steps (on_fst receive_startup # gs))"
  by (intro answered_Cons received.flow_on_fst receive_received receive_startup_received; assumption)+

lemma received_receive:
  "obeys fst frame (steps gs) \<Longrightarrow> obeys fst received (steps (on_fst receive # gs))"
  by (intro received_Cons received.flow_on_fst receive_received)

lemma set_state_completes: "obeys plain completes (set_state ESYS_STATE_INIT)"
  by (auto simp: obeys_def plain_def set_state_def update_def completes_def kept_def esys_ok_def esys_link_def)

lemma finished_completes: "obeys fst completes finished"
  unfolding finished_def by (intro completes.flow_on_fst set_state_completes)

lemma check_response_step [frame_intros]: "obeys plain frame check_response"
  unfolding check_response_def by (intro frame_intros disjI2 refl)

lemma object_cleanup_flow:
  "obeys fst answered f \<Longrightarrow> obeys fst answered (object_cleanup g f)"
  unfolding object_cleanup_def
  by (rule answered.flow_error_cleanup) (auto dest: close_out_calm)

lemmas answered_flow = answered_receive answered.flow_last answered.flow_Cons answered.flow_on_fst answered.flow_next_out
  answered.flow_with_local answered.flow_cleanup_outs answered.flow_new_object object_cleanup_flow

lemmas completes_flow = set_state_completes finished_completes completes.flow_last completes.flow_Cons completes.flow_read_val
  completes.command_rules

lemmas finish_intros = esys_finish_cmdI answered_flow completes_flow complete_frame complete0_frame complete_handle_frame nv_object_flow
  frame_flow frame.command_rules frame_intros frame_if_calm calm_locals calm_locals' calm_give nv_object_calm special_session_calm
  calm_flow calm_intros

end
