(* ===== verification/Esys_Async_Commands.thy ===== *)
theory Esys_Async_Commands
  imports Esys_Async
begin

text \<open>
  The contract of the \<open>_Async\<close> functions for every command.
\<close>

lemmas async_intros = esys_async_cmdI hierarchy_arg_cmdI Clear_sends load_context_sent start_nonce_sent none_node_sent send_sent sent_flow
  frame_flow frame.command_rules frame_intros encrypted_salt_frame keeps_link_intros disjI1 [OF refl]

interpretation async_AC_GetCapability: esys_async_cmd "\<lambda>ctx. Esys_AC_GetCapability_Async ctx optionalSession1 optionalSession2 optionalSession3 ac capability count"
  unfolding Esys_AC_GetCapability_Async_def by (intro async_intros)

interpretation async_AC_Send: esys_async_cmd "\<lambda>ctx. Esys_AC_Send_Async ctx sendObject nvAuthHandle optionalSession1 optionalSession2 optionalSession3 ac acDataIn"
  unfolding Esys_AC_Send_Async_def by (intro async_intros)

interpretation async_ACT_SetTimeout: esys_async_cmd "\<lambda>ctx. Esys_ACT_SetTimeout_Async ctx actHandle shandle1 shandle2 shandle3 startTimeout"
  unfolding Esys_ACT_SetTimeout_Async_def by (intro async_intros)

interpretation async_ActivateCredential: esys_async_cmd "\<lambda>ctx. Esys_ActivateCredential_Async ctx activateHandle keyHandle shandle1 shandle2 shandle3 credentialBlob secret"
  unfolding Esys_ActivateCredential_Async_def by (intro async_intros)

interpretation async_Certify: esys_async_cmd "\<lambda>ctx. Esys_Certify_Async ctx objectHandle signHandle shandle1 shandle2 shandle3 qualifyingData inScheme"
  unfolding Esys_Certify_Async_def by (intro async_intros)

interpretation async_CertifyCreation: esys_async_cmd "\<lambda>ctx. Esys_CertifyCreation_Async ctx signHandle objectHandle shandle1 shandle2 shandle3 qualifyingData creationHash inScheme creationTicket"
  unfolding Esys_CertifyCreation_Async_def by (intro async_intros)

interpretation async_CertifyX509: esys_async_cmd "\<lambda>ctx. Esys_CertifyX509_Async ctx objectHandle signHandle shandle1 shandle2 shandle3 reserved inScheme partialCertificate"
  unfolding Esys_CertifyX509_Async_def by (intro async_intros)

interpretation async_ChangeEPS: esys_async_cmd "\<lambda>ctx. Esys_ChangeEPS_Async ctx authHandle shandle1 shandle2 shandle3"
  unfolding Esys_ChangeEPS_Async_def by (intro async_intros)

interpretation async_ChangePPS: esys_async_cmd "\<lambda>ctx. Esys_ChangePPS_Async ctx authHandle shandle1 shandle2 shandle3"
  unfolding Esys_ChangePPS_Async_def by (intro async_intros)

interpretation async_Clear: esys_async_cmd "\<lambda>ctx. Esys_Clear_Async ctx authHandle shandle1 shandle2 shandle3"
  unfolding Esys_Clear_Async_def by (intro async_intros)

interpretation async_ClearControl: esys_async_cmd "\<lambda>ctx. Esys_ClearControl_Async ctx auth shandle1 shandle2 shandle3 disable"
  unfolding Esys_ClearControl_Async_def by (intro async_intros)

interpretation async_ClockRateAdjust: esys_async_cmd "\<lambda>ctx. Esys_ClockRateAdjust_Async ctx auth shandle1 shandle2 shandle3 rateAdjust"
  unfolding Esys_ClockRateAdjust_Async_def by (intro async_intros)

interpretation async_ClockSet: esys_async_cmd "\<lambda>ctx. Esys_ClockSet_Async ctx auth shandle1 shandle2 shandle3 newTime"
  unfolding Esys_ClockSet_Async_def by (intro async_intros)

interpretation async_Commit: esys_async_cmd "\<lambda>ctx. Esys_Commit_Async ctx signHandle shandle1 shandle2 shandle3 P1 s2 y2"
  unfolding Esys_Commit_Async_def by (intro async_intros)

interpretation async_ContextLoad: esys_async_cmd "\<lambda>ctx. Esys_ContextLoad_Async ctx context'"
  unfolding Esys_ContextLoad_Async_def by (intro async_intros)

interpretation async_ContextSave: esys_async_cmd "\<lambda>ctx. Esys_ContextSave_Async ctx saveHandle"
  unfolding Esys_ContextSave_Async_def by (intro async_intros)

interpretation async_Create: esys_async_cmd "\<lambda>ctx. Esys_Create_Async ctx parentHandle shandle1 shandle2 shandle3 inSensitive inPublic outsideInfo creationPCR"
  unfolding Esys_Create_Async_def by (intro async_intros)

interpretation async_CreateLoaded: esys_async_cmd "\<lambda>ctx. Esys_CreateLoaded_Async ctx parentHandle shandle1 shandle2 shandle3 inSensitive inPublic"
  unfolding Esys_CreateLoaded_Async_def by (intro async_intros)

interpretation async_CreatePrimary: esys_async_cmd "\<lambda>ctx. Esys_CreatePrimary_Async ctx primaryHandle shandle1 shandle2 shandle3 inSensitive inPublic outsideInfo creationPCR"
  unfolding Esys_CreatePrimary_Async_def by (intro async_intros)

interpretation async_Decapsulate: esys_async_cmd "\<lambda>ctx. Esys_Decapsulate_Async ctx keyHandle shandle1 shandle2 shandle3 cipherText label"
  unfolding Esys_Decapsulate_Async_def by (intro async_intros)

interpretation async_DictionaryAttackLockReset: esys_async_cmd "\<lambda>ctx. Esys_DictionaryAttackLockReset_Async ctx lockHandle shandle1 shandle2 shandle3"
  unfolding Esys_DictionaryAttackLockReset_Async_def by (intro async_intros)

interpretation async_DictionaryAttackParameters: esys_async_cmd "\<lambda>ctx. Esys_DictionaryAttackParameters_Async ctx lockHandle shandle1 shandle2 shandle3 newMaxTries newRecoveryTime lockoutRecovery"
  unfolding Esys_DictionaryAttackParameters_Async_def by (intro async_intros)

interpretation async_Duplicate: esys_async_cmd "\<lambda>ctx. Esys_Duplicate_Async ctx objectHandle newParentHandle shandle1 shandle2 shandle3 encryptionKeyIn symmetricAlg"
  unfolding Esys_Duplicate_Async_def by (intro async_intros)

interpretation async_EC_Ephemeral: esys_async_cmd "\<lambda>ctx. Esys_EC_Ephemeral_Async ctx shandle1 shandle2 shandle3 curveID"
  unfolding Esys_EC_Ephemeral_Async_def by (intro async_intros)

interpretation async_ECC_Decrypt: esys_async_cmd "\<lambda>ctx. Esys_ECC_Decrypt_Async ctx keyHandle shandle1 shandle2 shandle3 c1 c2 c3 inScheme"
  unfolding Esys_ECC_Decrypt_Async_def by (intro async_intros)

interpretation async_ECC_Encrypt: esys_async_cmd "\<lambda>ctx. Esys_ECC_Encrypt_Async ctx keyHandle shandle1 shandle2 shandle3 plainText inScheme"
  unfolding Esys_ECC_Encrypt_Async_def by (intro async_intros)

interpretation async_ECC_Parameters: esys_async_cmd "\<lambda>ctx. Esys_ECC_Parameters_Async ctx shandle1 shandle2 shandle3 curveID"
  unfolding Esys_ECC_Parameters_Async_def by (intro async_intros)

interpretation async_ECDH_KeyGen: esys_async_cmd "\<lambda>ctx. Esys_ECDH_KeyGen_Async ctx keyHandle shandle1 shandle2 shandle3"
  unfolding Esys_ECDH_KeyGen_Async_def by (intro async_intros)

interpretation async_ECDH_ZGen: esys_async_cmd "\<lambda>ctx. Esys_ECDH_ZGen_Async ctx keyHandle shandle1 shandle2 shandle3 inPoint"
  unfolding Esys_ECDH_ZGen_Async_def by (intro async_intros)

interpretation async_Encapsulate: esys_async_cmd "\<lambda>ctx. Esys_Encapsulate_Async ctx keyHandle shandle1 shandle2 shandle3 label"
  unfolding Esys_Encapsulate_Async_def by (intro async_intros)

interpretation async_EncryptDecrypt: esys_async_cmd "\<lambda>ctx. Esys_EncryptDecrypt_Async ctx keyHandle shandle1 shandle2 shandle3 decrypt mode ivIn inData"
  unfolding Esys_EncryptDecrypt_Async_def by (intro async_intros)

interpretation async_EncryptDecrypt2: esys_async_cmd "\<lambda>ctx. Esys_EncryptDecrypt2_Async ctx keyHandle shandle1 shandle2 shandle3 inData decrypt mode ivIn"
  unfolding Esys_EncryptDecrypt2_Async_def by (intro async_intros)

interpretation async_EventSequenceComplete: esys_async_cmd "\<lambda>ctx. Esys_EventSequenceComplete_Async ctx pcrHandle sequenceHandle shandle1 shandle2 shandle3 buffer"
  unfolding Esys_EventSequenceComplete_Async_def by (intro async_intros)

interpretation async_EvictControl: esys_async_cmd "\<lambda>ctx. Esys_EvictControl_Async ctx auth objectHandle shandle1 shandle2 shandle3 persistentHandle"
  unfolding Esys_EvictControl_Async_def by (intro async_intros)

interpretation async_FieldUpgradeData: esys_async_cmd "\<lambda>ctx. Esys_FieldUpgradeData_Async ctx shandle1 shandle2 shandle3 fuData"
  unfolding Esys_FieldUpgradeData_Async_def by (intro async_intros)

interpretation async_FieldUpgradeStart: esys_async_cmd "\<lambda>ctx. Esys_FieldUpgradeStart_Async ctx authorization keyHandle shandle1 shandle2 shandle3 fuDigest manifestSignature"
  unfolding Esys_FieldUpgradeStart_Async_def by (intro async_intros)

interpretation async_FirmwareRead: esys_async_cmd "\<lambda>ctx. Esys_FirmwareRead_Async ctx shandle1 shandle2 shandle3 sequenceNumber"
  unfolding Esys_FirmwareRead_Async_def by (intro async_intros)

interpretation async_FlushContext: esys_async_cmd "\<lambda>ctx. Esys_FlushContext_Async ctx flushHandle"
  unfolding Esys_FlushContext_Async_def by (intro async_intros)

interpretation async_GetCapability: esys_async_cmd "\<lambda>ctx. Esys_GetCapability_Async ctx shandle1 shandle2 shandle3 capability property propertyCount"
  unfolding Esys_GetCapability_Async_def by (intro async_intros)

interpretation async_GetCommandAuditDigest: esys_async_cmd "\<lambda>ctx. Esys_GetCommandAuditDigest_Async ctx privacyHandle signHandle shandle1 shandle2 shandle3 qualifyingData inScheme"
  unfolding Esys_GetCommandAuditDigest_Async_def by (intro async_intros)

interpretation async_GetRandom: esys_async_cmd "\<lambda>ctx. Esys_GetRandom_Async ctx shandle1 shandle2 shandle3 bytesRequested"
  unfolding Esys_GetRandom_Async_def by (intro async_intros)

interpretation async_GetSessionAuditDigest: esys_async_cmd "\<lambda>ctx. Esys_GetSessionAuditDigest_Async ctx privacyAdminHandle signHandle sessionHandle shandle1 shandle2 shandle3 qualifyingData inScheme"
  unfolding Esys_GetSessionAuditDigest_Async_def by (intro async_intros)

interpretation async_GetTestResult: esys_async_cmd "\<lambda>ctx. Esys_GetTestResult_Async ctx shandle1 shandle2 shandle3"
  unfolding Esys_GetTestResult_Async_def by (intro async_intros)

interpretation async_GetTime: esys_async_cmd "\<lambda>ctx. Esys_GetTime_Async ctx privacyAdminHandle signHandle shandle1 shandle2 shandle3 qualifyingData inScheme"
  unfolding Esys_GetTime_Async_def by (intro async_intros)

interpretation async_Hash: esys_async_cmd "\<lambda>ctx. Esys_Hash_Async ctx shandle1 shandle2 shandle3 data hashAlg hierarchy"
  unfolding Esys_Hash_Async_def by (intro async_intros)

interpretation async_HashSequenceStart: esys_async_cmd "\<lambda>ctx. Esys_HashSequenceStart_Async ctx shandle1 shandle2 shandle3 auth hashAlg"
  unfolding Esys_HashSequenceStart_Async_def by (intro async_intros)

interpretation async_HierarchyChangeAuth: esys_async_cmd "\<lambda>ctx. Esys_HierarchyChangeAuth_Async ctx authHandle shandle1 shandle2 shandle3 newAuth"
  unfolding Esys_HierarchyChangeAuth_Async_def by (intro async_intros)

interpretation async_HierarchyControl: esys_async_cmd "\<lambda>ctx. Esys_HierarchyControl_Async ctx authHandle shandle1 shandle2 shandle3 enable state"
  unfolding Esys_HierarchyControl_Async_def by (intro async_intros)

interpretation async_HMAC: esys_async_cmd "\<lambda>ctx. Esys_HMAC_Async ctx handle shandle1 shandle2 shandle3 buffer hashAlg"
  unfolding Esys_HMAC_Async_def by (intro async_intros)

interpretation async_HMAC_Start: esys_async_cmd "\<lambda>ctx. Esys_HMAC_Start_Async ctx handle shandle1 shandle2 shandle3 auth hashAlg"
  unfolding Esys_HMAC_Start_Async_def by (intro async_intros)

interpretation async_Import: esys_async_cmd "\<lambda>ctx. Esys_Import_Async ctx parentHandle shandle1 shandle2 shandle3 encryptionKey objectPublic duplicate inSymSeed symmetricAlg"
  unfolding Esys_Import_Async_def by (intro async_intros)

interpretation async_IncrementalSelfTest: esys_async_cmd "\<lambda>ctx. Esys_IncrementalSelfTest_Async ctx shandle1 shandle2 shandle3 toTest"
  unfolding Esys_IncrementalSelfTest_Async_def by (intro async_intros)

interpretation async_Load: esys_async_cmd "\<lambda>ctx. Esys_Load_Async ctx parentHandle shandle1 shandle2 shandle3 inPrivate inPublic"
  unfolding Esys_Load_Async_def by (intro async_intros)

interpretation async_LoadExternal: esys_async_cmd "\<lambda>ctx. Esys_LoadExternal_Async ctx shandle1 shandle2 shandle3 inPrivate inPublic hierarchy"
  unfolding Esys_LoadExternal_Async_def by (intro async_intros)

interpretation async_MAC: esys_async_cmd "\<lambda>ctx. Esys_MAC_Async ctx handle handleSession1 optionalSession2 optionalSession3 buffer inScheme"
  unfolding Esys_MAC_Async_def by (intro async_intros)

interpretation async_MAC_Start: esys_async_cmd "\<lambda>ctx. Esys_MAC_Start_Async ctx handle handleSession1 optionalSession2 optionalSession3 auth inScheme"
  unfolding Esys_MAC_Start_Async_def by (intro async_intros)

interpretation async_MakeCredential: esys_async_cmd "\<lambda>ctx. Esys_MakeCredential_Async ctx handle shandle1 shandle2 shandle3 credential objectName"
  unfolding Esys_MakeCredential_Async_def by (intro async_intros)

interpretation async_NV_Certify: esys_async_cmd "\<lambda>ctx. Esys_NV_Certify_Async ctx signHandle authHandle nvIndex shandle1 shandle2 shandle3 qualifyingData inScheme size' offset"
  unfolding Esys_NV_Certify_Async_def by (intro async_intros)

interpretation async_NV_ChangeAuth: esys_async_cmd "\<lambda>ctx. Esys_NV_ChangeAuth_Async ctx nvIndex shandle1 shandle2 shandle3 newAuth"
  unfolding Esys_NV_ChangeAuth_Async_def by (intro async_intros)

interpretation async_NV_DefineSpace: esys_async_cmd "\<lambda>ctx. Esys_NV_DefineSpace_Async ctx authHandle shandle1 shandle2 shandle3 auth publicInfo"
  unfolding Esys_NV_DefineSpace_Async_def by (intro async_intros)

interpretation async_NV_Extend: esys_async_cmd "\<lambda>ctx. Esys_NV_Extend_Async ctx authHandle nvIndex shandle1 shandle2 shandle3 data"
  unfolding Esys_NV_Extend_Async_def by (intro async_intros)

interpretation async_NV_GlobalWriteLock: esys_async_cmd "\<lambda>ctx. Esys_NV_GlobalWriteLock_Async ctx authHandle shandle1 shandle2 shandle3"
  unfolding Esys_NV_GlobalWriteLock_Async_def by (intro async_intros)

interpretation async_NV_Increment: esys_async_cmd "\<lambda>ctx. Esys_NV_Increment_Async ctx authHandle nvIndex shandle1 shandle2 shandle3"
  unfolding Esys_NV_Increment_Async_def by (intro async_intros)

interpretation async_NV_Read: esys_async_cmd "\<lambda>ctx. Esys_NV_Read_Async ctx authHandle nvIndex shandle1 shandle2 shandle3 size' offset"
  unfolding Esys_NV_Read_Async_def by (intro async_intros)

interpretation async_NV_ReadLock: esys_async_cmd "\<lambda>ctx. Esys_NV_ReadLock_Async ctx authHandle nvIndex shandle1 shandle2 shandle3"
  unfolding Esys_NV_ReadLock_Async_def by (intro async_intros)

interpretation async_NV_ReadPublic: esys_async_cmd "\<lambda>ctx. Esys_NV_ReadPublic_Async ctx nvIndex shandle1 shandle2 shandle3"
  unfolding Esys_NV_ReadPublic_Async_def by (intro async_intros)

interpretation async_NV_SetBits: esys_async_cmd "\<lambda>ctx. Esys_NV_SetBits_Async ctx authHandle nvIndex shandle1 shandle2 shandle3 bits"
  unfolding Esys_NV_SetBits_Async_def by (intro async_intros)

interpretation async_NV_UndefineSpace: esys_async_cmd "\<lambda>ctx. Esys_NV_UndefineSpace_Async ctx authHandle nvIndex shandle1 shandle2 shandle3"
  unfolding Esys_NV_UndefineSpace_Async_def by (intro async_intros)

interpretation async_NV_UndefineSpaceSpecial: esys_async_cmd "\<lambda>ctx. Esys_NV_UndefineSpaceSpecial_Async ctx nvIndex platform shandle1 shandle2 shandle3"
  unfolding Esys_NV_UndefineSpaceSpecial_Async_def by (intro async_intros)

interpretation async_NV_Write: esys_async_cmd "\<lambda>ctx. Esys_NV_Write_Async ctx authHandle nvIndex shandle1 shandle2 shandle3 data offset"
  unfolding Esys_NV_Write_Async_def by (intro async_intros)

interpretation async_NV_WriteLock: esys_async_cmd "\<lambda>ctx. Esys_NV_WriteLock_Async ctx authHandle nvIndex shandle1 shandle2 shandle3"
  unfolding Esys_NV_WriteLock_Async_def by (intro async_intros)

interpretation async_ObjectChangeAuth: esys_async_cmd "\<lambda>ctx. Esys_ObjectChangeAuth_Async ctx objectHandle parentHandle shandle1 shandle2 shandle3 newAuth"
  unfolding Esys_ObjectChangeAuth_Async_def by (intro async_intros)

interpretation async_PCR_Allocate: esys_async_cmd "\<lambda>ctx. Esys_PCR_Allocate_Async ctx authHandle shandle1 shandle2 shandle3 pcrAllocation"
  unfolding Esys_PCR_Allocate_Async_def by (intro async_intros)

interpretation async_PCR_Event: esys_async_cmd "\<lambda>ctx. Esys_PCR_Event_Async ctx pcrHandle shandle1 shandle2 shandle3 eventData"
  unfolding Esys_PCR_Event_Async_def by (intro async_intros)

interpretation async_PCR_Extend: esys_async_cmd "\<lambda>ctx. Esys_PCR_Extend_Async ctx pcrHandle shandle1 shandle2 shandle3 digests"
  unfolding Esys_PCR_Extend_Async_def by (intro async_intros)

interpretation async_PCR_Read: esys_async_cmd "\<lambda>ctx. Esys_PCR_Read_Async ctx shandle1 shandle2 shandle3 pcrSelectionIn"
  unfolding Esys_PCR_Read_Async_def by (intro async_intros)

interpretation async_PCR_Reset: esys_async_cmd "\<lambda>ctx. Esys_PCR_Reset_Async ctx pcrHandle shandle1 shandle2 shandle3"
  unfolding Esys_PCR_Reset_Async_def by (intro async_intros)

interpretation async_PCR_SetAuthPolicy: esys_async_cmd "\<lambda>ctx. Esys_PCR_SetAuthPolicy_Async ctx authHandle shandle1 shandle2 shandle3 authPolicy hashAlg pcrNum"
  unfolding Esys_PCR_SetAuthPolicy_Async_def by (intro async_intros)

interpretation async_PCR_SetAuthValue: esys_async_cmd "\<lambda>ctx. Esys_PCR_SetAuthValue_Async ctx pcrHandle shandle1 shandle2 shandle3 auth"
  unfolding Esys_PCR_SetAuthValue_Async_def by (intro async_intros)

interpretation async_Policy_AC_SendSelect: esys_async_cmd "\<lambda>ctx. Esys_Policy_AC_SendSelect_Async ctx policySession1 optionalSession2 optionalSession3 objectName authHandleName acName includeObject"
  unfolding Esys_Policy_AC_SendSelect_Async_def by (intro async_intros)

interpretation async_PolicyAuthorize: esys_async_cmd "\<lambda>ctx. Esys_PolicyAuthorize_Async ctx policySession shandle1 shandle2 shandle3 approvedPolicy policyRef keySign checkTicket"
  unfolding Esys_PolicyAuthorize_Async_def by (intro async_intros)

interpretation async_PolicyAuthorizeNV: esys_async_cmd "\<lambda>ctx. Esys_PolicyAuthorizeNV_Async ctx authHandle nvIndex policySession shandle1 shandle2 shandle3"
  unfolding Esys_PolicyAuthorizeNV_Async_def by (intro async_intros)

interpretation async_PolicyAuthValue: esys_async_cmd "\<lambda>ctx. Esys_PolicyAuthValue_Async ctx policySession shandle1 shandle2 shandle3"
  unfolding Esys_PolicyAuthValue_Async_def by (intro async_intros)

interpretation async_PolicyCommandCode: esys_async_cmd "\<lambda>ctx. Esys_PolicyCommandCode_Async ctx policySession shandle1 shandle2 shandle3 code"
  unfolding Esys_PolicyCommandCode_Async_def by (intro async_intros)

interpretation async_PolicyCounterTimer: esys_async_cmd "\<lambda>ctx. Esys_PolicyCounterTimer_Async ctx policySession shandle1 shandle2 shandle3 operandB offset operation"
  unfolding Esys_PolicyCounterTimer_Async_def by (intro async_intros)

interpretation async_PolicyCpHash: esys_async_cmd "\<lambda>ctx. Esys_PolicyCpHash_Async ctx policySession shandle1 shandle2 shandle3 cpHashA"
  unfolding Esys_PolicyCpHash_Async_def by (intro async_intros)

interpretation async_PolicyDuplicationSelect: esys_async_cmd "\<lambda>ctx. Esys_PolicyDuplicationSelect_Async ctx policySession shandle1 shandle2 shandle3 objectName newParentName includeObject"
  unfolding Esys_PolicyDuplicationSelect_Async_def by (intro async_intros)

interpretation async_PolicyGetDigest: esys_async_cmd "\<lambda>ctx. Esys_PolicyGetDigest_Async ctx policySession shandle1 shandle2 shandle3"
  unfolding Esys_PolicyGetDigest_Async_def by (intro async_intros)

interpretation async_PolicyLocality: esys_async_cmd "\<lambda>ctx. Esys_PolicyLocality_Async ctx policySession shandle1 shandle2 shandle3 locality"
  unfolding Esys_PolicyLocality_Async_def by (intro async_intros)

interpretation async_PolicyNameHash: esys_async_cmd "\<lambda>ctx. Esys_PolicyNameHash_Async ctx policySession shandle1 shandle2 shandle3 nameHash"
  unfolding Esys_PolicyNameHash_Async_def by (intro async_intros)

interpretation async_PolicyNV: esys_async_cmd "\<lambda>ctx. Esys_PolicyNV_Async ctx authHandle nvIndex policySession shandle1 shandle2 shandle3 operandB offset operation"
  unfolding Esys_PolicyNV_Async_def by (intro async_intros)

interpretation async_PolicyNvWritten: esys_async_cmd "\<lambda>ctx. Esys_PolicyNvWritten_Async ctx policySession shandle1 shandle2 shandle3 writtenSet"
  unfolding Esys_PolicyNvWritten_Async_def by (intro async_intros)

interpretation async_PolicyOR: esys_async_cmd "\<lambda>ctx. Esys_PolicyOR_Async ctx policySession shandle1 shandle2 shandle3 pHashList"
  unfolding Esys_PolicyOR_Async_def by (intro async_intros)

interpretation async_PolicyPassword: esys_async_cmd "\<lambda>ctx. Esys_PolicyPassword_Async ctx policySession shandle1 shandle2 shandle3"
  unfolding Esys_PolicyPassword_Async_def by (intro async_intros)

interpretation async_PolicyPCR: esys_async_cmd "\<lambda>ctx. Esys_PolicyPCR_Async ctx policySession shandle1 shandle2 shandle3 pcrDigest pcrs"
  unfolding Esys_PolicyPCR_Async_def by (intro async_intros)

interpretation async_PolicyPhysicalPresence: esys_async_cmd "\<lambda>ctx. Esys_PolicyPhysicalPresence_Async ctx policySession shandle1 shandle2 shandle3"
  unfolding Esys_PolicyPhysicalPresence_Async_def by (intro async_intros)

interpretation async_PolicyRestart: esys_async_cmd "\<lambda>ctx. Esys_PolicyRestart_Async ctx sessionHandle shandle1 shandle2 shandle3"
  unfolding Esys_PolicyRestart_Async_def by (intro async_intros)

interpretation async_PolicySecret: esys_async_cmd "\<lambda>ctx. Esys_PolicySecret_Async ctx authHandle policySession shandle1 shandle2 shandle3 nonceTPM cpHashA policyRef expiration"
  unfolding Esys_PolicySecret_Async_def by (intro async_intros)

interpretation async_PolicySigned: esys_async_cmd "\<lambda>ctx. Esys_PolicySigned_Async ctx authObject policySession shandle1 shandle2 shandle3 nonceTPM cpHashA policyRef expiration auth"
  unfolding Esys_PolicySigned_Async_def by (intro async_intros)

interpretation async_PolicyTemplate: esys_async_cmd "\<lambda>ctx. Esys_PolicyTemplate_Async ctx policySession shandle1 shandle2 shandle3 templateHash"
  unfolding Esys_PolicyTemplate_Async_def by (intro async_intros)

interpretation async_PolicyTicket: esys_async_cmd "\<lambda>ctx. Esys_PolicyTicket_Async ctx policySession shandle1 shandle2 shandle3 timeout cpHashA policyRef authName ticket"
  unfolding Esys_PolicyTicket_Async_def by (intro async_intros)

interpretation async_PP_Commands: esys_async_cmd "\<lambda>ctx. Esys_PP_Commands_Async ctx auth shandle1 shandle2 shandle3 setList clearList"
  unfolding Esys_PP_Commands_Async_def by (intro async_intros)

interpretation async_Quote: esys_async_cmd "\<lambda>ctx. Esys_Quote_Async ctx signHandle shandle1 shandle2 shandle3 qualifyingData inScheme PCRselect"
  unfolding Esys_Quote_Async_def by (intro async_intros)

interpretation async_ReadClock: esys_async_cmd "\<lambda>ctx. Esys_ReadClock_Async ctx shandle1 shandle2 shandle3"
  unfolding Esys_ReadClock_Async_def by (intro async_intros)

interpretation async_ReadPublic: esys_async_cmd "\<lambda>ctx. Esys_ReadPublic_Async ctx objectHandle shandle1 shandle2 shandle3"
  unfolding Esys_ReadPublic_Async_def by (intro async_intros)

interpretation async_Rewrap: esys_async_cmd "\<lambda>ctx. Esys_Rewrap_Async ctx oldParent newParent shandle1 shandle2 shandle3 inDuplicate name inSymSeed"
  unfolding Esys_Rewrap_Async_def by (intro async_intros)

interpretation async_RSA_Decrypt: esys_async_cmd "\<lambda>ctx. Esys_RSA_Decrypt_Async ctx keyHandle shandle1 shandle2 shandle3 cipherText inScheme label"
  unfolding Esys_RSA_Decrypt_Async_def by (intro async_intros)

interpretation async_RSA_Encrypt: esys_async_cmd "\<lambda>ctx. Esys_RSA_Encrypt_Async ctx keyHandle shandle1 shandle2 shandle3 message inScheme label"
  unfolding Esys_RSA_Encrypt_Async_def by (intro async_intros)

interpretation async_SelfTest: esys_async_cmd "\<lambda>ctx. Esys_SelfTest_Async ctx shandle1 shandle2 shandle3 fullTest"
  unfolding Esys_SelfTest_Async_def by (intro async_intros)

interpretation async_SequenceComplete: esys_async_cmd "\<lambda>ctx. Esys_SequenceComplete_Async ctx sequenceHandle shandle1 shandle2 shandle3 buffer hierarchy"
  unfolding Esys_SequenceComplete_Async_def by (intro async_intros)

interpretation async_SequenceUpdate: esys_async_cmd "\<lambda>ctx. Esys_SequenceUpdate_Async ctx sequenceHandle shandle1 shandle2 shandle3 buffer"
  unfolding Esys_SequenceUpdate_Async_def by (intro async_intros)

interpretation async_SetAlgorithmSet: esys_async_cmd "\<lambda>ctx. Esys_SetAlgorithmSet_Async ctx authHandle shandle1 shandle2 shandle3 algorithmSet"
  unfolding Esys_SetAlgorithmSet_Async_def by (intro async_intros)

interpretation async_SetCommandCodeAuditStatus: esys_async_cmd "\<lambda>ctx. Esys_SetCommandCodeAuditStatus_Async ctx auth shandle1 shandle2 shandle3 auditAlg setList clearList"
  unfolding Esys_SetCommandCodeAuditStatus_Async_def by (intro async_intros)

interpretation async_SetPrimaryPolicy: esys_async_cmd "\<lambda>ctx. Esys_SetPrimaryPolicy_Async ctx authHandle shandle1 shandle2 shandle3 authPolicy hashAlg"
  unfolding Esys_SetPrimaryPolicy_Async_def by (intro async_intros)

interpretation async_Shutdown: esys_async_cmd "\<lambda>ctx. Esys_Shutdown_Async ctx shandle1 shandle2 shandle3 shutdownType"
  unfolding Esys_Shutdown_Async_def by (intro async_intros)

interpretation async_Sign: esys_async_cmd "\<lambda>ctx. Esys_Sign_Async ctx keyHandle shandle1 shandle2 shandle3 digest inScheme validation"
  unfolding Esys_Sign_Async_def by (intro async_intros)

interpretation async_SignDigest: esys_async_cmd "\<lambda>ctx. Esys_SignDigest_Async ctx keyHandle shandle1 shandle2 shandle3 digest inScheme validation"
  unfolding Esys_SignDigest_Async_def by (intro async_intros)

interpretation async_SignSequenceComplete: esys_async_cmd "\<lambda>ctx. Esys_SignSequenceComplete_Async ctx sequenceHandle shandle1 shandle2 shandle3 buffer"
  unfolding Esys_SignSequenceComplete_Async_def by (intro async_intros)

interpretation async_SignSequenceStart: esys_async_cmd "\<lambda>ctx. Esys_SignSequenceStart_Async ctx keyHandle shandle1 shandle2 shandle3 inScheme keyB"
  unfolding Esys_SignSequenceStart_Async_def by (intro async_intros)

interpretation async_StartAuthSession: esys_async_cmd "\<lambda>ctx. Esys_StartAuthSession_Async ctx tpmKey bind shandle1 shandle2 shandle3 nonceCaller sessionType symmetric authHash"
  unfolding Esys_StartAuthSession_Async_def by (intro async_intros)

interpretation async_Startup: esys_async_cmd "\<lambda>ctx. Esys_Startup_Async ctx startupType"
  unfolding Esys_Startup_Async_def by (intro async_intros)

interpretation async_StirRandom: esys_async_cmd "\<lambda>ctx. Esys_StirRandom_Async ctx shandle1 shandle2 shandle3 inData"
  unfolding Esys_StirRandom_Async_def by (intro async_intros)

interpretation async_TestParms: esys_async_cmd "\<lambda>ctx. Esys_TestParms_Async ctx shandle1 shandle2 shandle3 parameters"
  unfolding Esys_TestParms_Async_def by (intro async_intros)

interpretation async_Unseal: esys_async_cmd "\<lambda>ctx. Esys_Unseal_Async ctx itemHandle shandle1 shandle2 shandle3"
  unfolding Esys_Unseal_Async_def by (intro async_intros)

interpretation async_Vendor_TCG_Test: esys_async_cmd "\<lambda>ctx. Esys_Vendor_TCG_Test_Async ctx shandle1 shandle2 shandle3 inputData"
  unfolding Esys_Vendor_TCG_Test_Async_def by (intro async_intros)

interpretation async_VerifyDigestSignature: esys_async_cmd "\<lambda>ctx. Esys_VerifyDigestSignature_Async ctx keyHandle shandle1 shandle2 shandle3 digest signature"
  unfolding Esys_VerifyDigestSignature_Async_def by (intro async_intros)

interpretation async_VerifySequenceComplete: esys_async_cmd "\<lambda>ctx. Esys_VerifySequenceComplete_Async ctx sequenceHandle shandle1 shandle2 shandle3 buffer"
  unfolding Esys_VerifySequenceComplete_Async_def by (intro async_intros)

interpretation async_VerifySequenceStart: esys_async_cmd "\<lambda>ctx. Esys_VerifySequenceStart_Async ctx keyHandle shandle1 shandle2 shandle3 signature"
  unfolding Esys_VerifySequenceStart_Async_def by (intro async_intros)

interpretation async_VerifySignature: esys_async_cmd "\<lambda>ctx. Esys_VerifySignature_Async ctx keyHandle shandle1 shandle2 shandle3 digest signature"
  unfolding Esys_VerifySignature_Async_def by (intro async_intros)

interpretation async_ZGen_2Phase: esys_async_cmd "\<lambda>ctx. Esys_ZGen_2Phase_Async ctx keyA shandle1 shandle2 shandle3 inQsB inQeB inScheme counter"
  unfolding Esys_ZGen_2Phase_Async_def by (intro async_intros)

end
