(* ===== verification/Esys_Finish_Special.thy ===== *)
theory Esys_Finish_Special
  imports Esys_Finish Esys_Async_Commands
begin

text \<open>
  The two \<open>_Finish\<close> functions with a cleanup of their own: \<open>Esys_EvictControl_Finish\<close> and
  \<open>Esys_StartAuthSession_Finish\<close>.
\<close>

section \<open>Eviction\<close>

lemma evict_cleanup_calm: "evict_cleanup s = Some s' \<Longrightarrow> calm q (fst s) (fst s')"
  by (cases s) (auto simp: evict_cleanup_def split: if_splits dest: close_out_calm)

lemma calm_call_on_error:
  assumes "delivers calm v f" "\<And>x. obeys v calm (k x)" "\<And>r. obeys v calm (c r)"
  shows "obeys v calm (call_on_error c f k)"
  using assms unfolding obeys_def delivers_def call_on_error_def
  by (auto split: option.splits if_splits intro: calm_trans) (metis calm_trans)+

lemma evict_object_calm: "obeys fst calm (evict_object oh ph n)"
proof -
  have "obeys fst calm (new_object (\<lambda>a. on_fst (set_node (Some a) f)))" for f
    by (intro calm.flow_new_object calm.flow_on_fst calm_intros)
  from obeysD [OF this] show ?thesis
    unfolding evict_object_def obeys_def by (auto split: option.splits if_splits dest: close_calm)
qed

lemma evict_calm: "obeys fst calm (\<lambda>(ctx, outs).
   case esys_in ctx of
     IN_EvictControl oh ph \<Rightarrow>
       call_on_error (\<lambda>r s. map_option (Pair r) (evict_cleanup s)) (lookup oh) (\<lambda>p. with_object p (evict_object oh ph)) (ctx, outs)
   | _ \<Rightarrow> None)"
proof -
  have "obeys fst calm (call_on_error (\<lambda>r s. map_option (Pair r) (evict_cleanup s)) (lookup oh) (\<lambda>p. with_object p (evict_object oh ph)))"
    for oh ph
    by (intro calm_call_on_error lookup_calm with_object_calm evict_object_calm) (auto simp: obeys_def dest: evict_cleanup_calm)
  from obeysD [OF this] show ?thesis
    unfolding obeys_def by (auto split: IESYS_CMD_IN_PARAM.splits)
qed

interpretation finish_EvictControl: esys_finish_cmd Esys_EvictControl_Finish
proof -
  have "obeys fst answered (steps
      [error_cleanup evict_cleanup
         (steps [on_fst receive, on_fst check_response, on_fst (complete0 (\<lambda>(sys, _). Tss2_Sys_EvictControl_Complete sys))]),
       (\<lambda>(ctx, outs).
          case esys_in ctx of
            IN_EvictControl oh ph \<Rightarrow>
              call_on_error (\<lambda>r s. map_option (Pair r) (evict_cleanup s)) (lookup oh)
                (\<lambda>p. with_object p (evict_object oh ph)) (ctx, outs)
          | _ \<Rightarrow> None),
       finished])"
    by (intro answered_Cons received.flow_error_cleanup received_receive evict_cleanup_calm evict_calm finish_intros)
       (auto split: option.splits prod.splits dest: complete_links)
  from obeysD [OF this] show "esys_finish_cmd Esys_EvictControl_Finish"
    unfolding Esys_EvictControl_Finish_def
    by (intro esys_finish_cmdI, unfold obeys_def)
       (auto simp del: steps.simps split: option.splits intro: answered.stop)
qed

section \<open>The start of a session\<close>

text \<open>
  The cleanup flushes the session if the handle in the object is known.  In the states behind the response
  the call of \<open>Esys_FlushContext\<close> is refused.
\<close>

lemma flush_refused:
  assumes "esys_state s = ESYS_STATE_INTERNALERROR"
  obtains q where "q \<noteq> 0" "Esys_FlushContext (Some s) x = Some (q, Some s, ())"
proof -
  have "\<not> may_start s" using assms by (simp add: may_start_def)
  then obtain q where "q \<noteq> 0" "Esys_FlushContext_Async (Some s) x = Some (q, Some s)" using async_FlushContext.refuses by blast
  then show ?thesis by (intro that) (simp_all add: Esys_FlushContext_def one_call_def)
qed

lemma session_cleanup_hot:
  assumes "session_cleanup a r s = Some (r', s')" "r \<noteq> 0" "esys_state (fst s) = ESYS_STATE_INTERNALERROR"
  shows "calm r' (fst s) (fst s') \<and> r' \<noteq> 0"
proof -
  obtain ctx h outs where s: "s = (ctx, h, outs)" by (cases s)
  obtain n where n: "rsrc_heap ctx a = Some n" using assms by (auto simp: session_cleanup_def s split: option.splits)
  obtain q where "q \<noteq> 0" "Esys_FlushContext (Some ctx) (rsrc_handle (node_rsrc n)) = Some (q, Some ctx, ())"
    using flush_refused assms(3) s by auto
  with assms(1,2) n show ?thesis by (auto simp: session_cleanup_def s split: if_splits dest: close_out_calm)
qed

lemma session_cleanup_none:
  assumes "session_cleanup a r (ctx, hos) = Some (r', s')"
    and "map_option (\<lambda>n. rsrc_handle (node_rsrc n)) (rsrc_heap ctx a) = Some ESYS_TR_NONE"
  shows "calm r' ctx (fst s') \<and> r' = r"
  using assms by (cases hos) (auto simp: session_cleanup_def dest!: close_out_calm [where q = r'])

text \<open>What holds from the response on: the state stays that of an error.\<close>

definition hot :: "TSS2_RC \<Rightarrow> ('t, 'c) esys \<Rightarrow> ('t, 'c) esys \<Rightarrow> bool" where
  "hot r s s' \<longleftrightarrow> (esys_state s = ESYS_STATE_INTERNALERROR \<longrightarrow> frame r s s' \<and> esys_state s' = ESYS_STATE_INTERNALERROR)"

definition hot_completes :: "TSS2_RC \<Rightarrow> ('t, 'c) esys \<Rightarrow> ('t, 'c) esys \<Rightarrow> bool" where
  "hot_completes r s s' \<longleftrightarrow> (esys_state s = ESYS_STATE_INTERNALERROR \<longrightarrow> completes r s s')"

lemma hot_if_calm: "obeys v calm f \<Longrightarrow> obeys v hot f"
  by (erule obeys_mono) (auto simp: hot_def calm_def intro: calm_frame)

interpretation hot: esys_keep hot
  by unfold_locales
    (auto simp: hot_def intro: frame_trans frame.calm_last, auto simp: calm_def intro: calm_frame [unfolded calm_def])

interpretation hot_completes: esys_flow hot hot_completes
  by unfold_locales (auto simp: hot_def hot_completes_def intro: completes.stop completes.go_on completes.calm_last calm_frame, auto simp: calm_def)

lemma hot_on_error:
  assumes "obeys fst hot f"
  shows "obeys fst hot (on_error (session_cleanup a) f)"
proof
  fix s r s'
  assume o: "on_error (session_cleanup a) f s = Some (r, s')"
  then obtain q s1 where f: "f s = Some (q, s1)" by (auto simp: on_error_def split: option.splits)
  from obeysD [OF assms f] have h: "hot q (fst s) (fst s1)" .
  show "hot r (fst s) (fst s')"
  proof (cases "q = 0")
    case True
    with o f h show ?thesis by (auto simp: on_error_def)
  next
    case False
    with o f have "session_cleanup a q s1 = Some (r, s')" by (simp add: on_error_def)
    from session_cleanup_hot [OF this False] h show ?thesis
      unfolding hot_def by (auto simp: frame_def calm_def esys_link_def intro: kept_trans)
  qed
qed

lemma hot_call_on_error:
  assumes "\<And>x. obeys fst hot (k x)"
  shows "obeys fst hot (call_on_error (session_cleanup a) (lookup h) k)"
proof -
  have l: "obeys fst hot (\<lambda>s. map_option (\<lambda>(r, _, s). (r, s)) (lookup h s))"
    by (rule hot_if_calm) (auto simp: obeys_def dest: deliversD [OF lookup_calm])
  show ?thesis
  proof
    fix s r s'
    assume c: "call_on_error (session_cleanup a) (lookup h) k s = Some (r, s')"
    then obtain q x t where t: "lookup h s = Some (q, x, t)" by (auto simp: call_on_error_def split: option.splits)
    show "hot r (fst s) (fst s')"
    proof (cases "q = 0")
      case True
      with c t have "k x t = Some (r, s')" by (simp add: call_on_error_def)
      from obeysD [OF assms this] True obeysD [OF l, of s q t] t show ?thesis by (auto intro: hot.go_on)
    next
      case False
      with c t have "on_error (session_cleanup a) (\<lambda>s. map_option (\<lambda>(r, _, s). (r, s)) (lookup h s)) s = Some (r, s')"
        by (simp add: call_on_error_def on_error_def)
      from obeysD [OF hot_on_error [OF l] this] show ?thesis .
    qed
  qed
qed

lemma hot_or_state: "obeys plain frame f \<Longrightarrow> obeys plain hot (or_state ESYS_STATE_INTERNALERROR f)"
  unfolding obeys_def or_state_def plain_def
  by (auto simp: hot_def frame_def kept_def esys_ok_def esys_link_def split: option.splits if_splits)

lemma hot_complete_handle:
  assumes "\<And>sys xs r sys' xs'. f (sys, xs) = Some (r, sys', xs') \<Longrightarrow> sys_link sys' = sys_link sys"
  shows "obeys fst hot (complete_handle a l f)"
  unfolding obeys_def complete_handle_def
  by (auto simp: hot_def frame_def kept_def esys_ok_def esys_link_def Let_def split: option.splits if_splits dest: assms)

lemma answered_trans:
  assumes "received 0 s s'" "completes r s' s''"
  shows "answered r s s''"
proof (cases "r = 0")
  case True
  with assms show ?thesis by (auto simp: received_def completes_def answered_def intro: kept_trans)
next
  case False
  from failed_after_answer [OF assms False] False show ?thesis by (simp add: answered_def)
qed

lemma receive_heap: "receive s = Some (r, s') \<Longrightarrow> rsrc_heap s' = rsrc_heap s"
  by (auto simp: receive_def resubmit_def on_sys_def Let_def split: option.splits if_splits)

definition no_handle :: "nat \<Rightarrow> ('t, 'c) esys \<Rightarrow> bool" where
  "no_handle a s \<longleftrightarrow> map_option (\<lambda>n. rsrc_handle (node_rsrc n)) (rsrc_heap s a) = Some ESYS_TR_NONE"

lemma init_session_node_handle: "init_session_node a s = Some (0, s') \<Longrightarrow> no_handle a s'"
  by (auto simp: init_session_node_def read_val_def set_node_def set_session_def with_session_def no_handle_def set_handle_def set_misc_def
      split: option.splits)

lemma session_answer:
  assumes run: "steps (on_error (session_cleanup a) (steps (on_fst receive # fs)) # gs) (s, hos) = Some (r, s')"
    and fs: "obeys fst hot (steps fs)" and gs: "obeys fst hot_completes (steps gs)"
    and s: "no_handle a s" "esys_state s = ESYS_STATE_INTERNALERROR"
  shows "answered r s (fst s')"
proof -
  from run obtain q s1 where q: "receive s = Some (q, s1)" by (auto simp: on_error_def split: option.splits)
  from obeysD [OF receive_received q] have rec: "received q s s1" by (simp add: plain_def)
  show ?thesis
  proof (cases "q = 0")
    case False
    from run q False obtain p t where c: "session_cleanup a q (s1, hos) = Some (p, t)" and p: "if p \<noteq> 0 then (r, s') = (p, t) else steps gs t = Some (r, s')"
      by (auto simp: on_error_def split: option.splits if_splits)
    from session_cleanup_none [OF c] s(1) receive_heap [OF q] have calm: "calm p s1 (fst t)" "p = q" by (auto simp: no_handle_def)
    have "answered q s s1" using rec False by (simp add: received_def answered_def)
    from answered.calm_last [OF this False] calm p False show ?thesis by simp
  next
    case True
    with rec s have hot: "esys_state s1 = ESYS_STATE_INTERNALERROR" by (simp add: received_def)
    from run q True have "steps (on_error (session_cleanup a) (steps fs) # gs) (s1, hos) = Some (r, s')"
      by (simp add: on_error_def)
    from obeysD [OF hot_completes.flow_Cons [OF hot_on_error [OF fs] gs] this] hot
    have "completes r s1 (fst s')" by (simp add: hot_completes_def)
    with rec True show ?thesis by (blast intro: answered_trans)
  qed
qed

definition answered_hot :: "TSS2_RC \<Rightarrow> ('t, 'c) esys \<Rightarrow> ('t, 'c) esys \<Rightarrow> bool" where
  "answered_hot r s s' \<longleftrightarrow> (esys_state s = ESYS_STATE_INTERNALERROR \<longrightarrow> answered r s s')"

interpretation answered_hot: esys_flow calm answered_hot
proof
  fix r and s s' s'' :: "('t, 'c) esys"
  show "answered_hot r s s'" if "calm r s s'" "r \<noteq> 0" using that answered.stop by (auto simp: answered_hot_def)
  show "answered_hot r s s''" if "calm 0 s s'" "answered_hot r s' s''"
    using that answered.go_on [of s s' r s''] by (simp add: answered_hot_def calm_def)
  show "answered_hot r s s''" if "answered_hot r s s'" "r \<noteq> 0" "calm r s' s''"
    using that answered.calm_last by (auto simp: answered_hot_def)
qed

lemma session_answered:
  assumes "obeys fst hot (steps fs)" "obeys fst hot_completes (steps gs)"
  shows "obeys fst answered_hot
    (steps (on_fst (init_session_node a) # on_error (session_cleanup a) (steps (on_fst receive # fs)) # gs))"
proof
  let ?rest = "on_error (session_cleanup a) (steps (on_fst receive # fs)) # gs"
  fix s r s'
  assume run: "steps (on_fst (init_session_node a) # ?rest) s = Some (r, s')"
  obtain ctx hos where s: "s = (ctx, hos)" by (cases s)
  from run s obtain q t where i: "init_session_node a ctx = Some (q, t)" by (auto split: option.splits)
  from obeysD [OF init_session_node_calm i] have c: "calm q ctx t" by (simp add: plain_def)
  show "answered_hot r (fst s) (fst s')"
  proof (cases "q = 0")
    case False
    with run s i c show ?thesis by (auto intro: answered_hot.stop)
  next
    case True
    with run s i have "steps ?rest (t, hos) = Some (r, s')" by simp
    from session_answer [OF this assms] init_session_node_handle [of a ctx t] i True
    have "answered_hot r t (fst s')" by (simp add: answered_hot_def)
    with c True s show ?thesis by (simp add: answered_hot.go_on)
  qed
qed

lemma esys_finish_cmd_hotI:
  assumes "obeys fst answered_hot body"
  shows "esys_finish_cmd (esys_finish body)"
proof
  show "\<exists>s'. p = Some s' \<and> answered r (working s) s'"
    if "waiting s" "esys_finish body (Some s, outs) = Some (r, p, outs')" for s outs r p outs'
  proof -
    from that obtain s1 where "body (working s, outs) = Some (r, s1, outs')" "p = Some s1"
      by (auto simp: esys_finish_def waiting_def working_def)
    with obeysD [OF assms this(1)] show ?thesis by (simp add: answered_hot_def)
  qed
qed (simp_all add: esys_finish_def waiting_def)

lemma hot_nonce: "obeys fst hot (\<lambda>(ctx, h, lnonceTPM, outs).
    case lnonceTPM of
      None \<Rightarrow> None
    | Some nonceTPM \<Rightarrow> on_fst (steps
        [set_session (Some a) (\<lambda>s. s\<lparr>SESSION_nonceTPM := nonceTPM\<rparr>),
         set_node (Some a) (set_rsrcType IESYSC_SESSION_RSRC)]) (ctx, h, lnonceTPM, outs))"
proof -
  have "obeys plain hot (steps [set_session (Some a) (\<lambda>s. s\<lparr>SESSION_nonceTPM := n\<rparr>), set_node (Some a) (set_rsrcType IESYSC_SESSION_RSRC)])" for n
    by (intro hot_if_calm calm_flow calm_intros)
  from obeysD [OF this] show ?thesis
    unfolding obeys_def plain_def by (auto simp del: steps.simps split: option.splits)
qed

lemma bind_session_calm [calm_intros]: "obeys plain calm (bind_session a bind p)"
  unfolding bind_session_def by (intro calm_flow calm_intros)

lemma session_kdf_calm [calm_intros]: "obeys plain calm (session_kdf a i secret nonce n)"
proof -
  have "obeys plain calm (\<lambda>ctx. steps
      [set_session (Some a) (\<lambda>s. s\<lparr>SESSION_sessionKey := (SESSION_sessionKey s)\<lparr>TPM2B_buffer := key\<rparr>\<rparr>), ret r,
       set_session (Some a) (\<lambda>s. s\<lparr>SESSION_sessionKey := (SESSION_sessionKey s)\<lparr>TPM2B_size := ucast n\<rparr>\<rparr>)]
      (ctx\<lparr>crypto_backend := cb\<rparr>))" (is "obeys plain calm (\<lambda>ctx. ?f (ctx\<lparr>crypto_backend := cb\<rparr>))") for key r cb
  proof -
    have "obeys plain calm ?f" by (intro calm_flow calm_intros)
    from obeysD [OF this] show ?thesis
      unfolding obeys_def plain_def using calm_trans [OF calm_crypto] by blast
  qed
  then show ?thesis unfolding session_kdf_def by (intro calm_flow calm_at)
qed

lemma session_key_calm: "obeys plain calm (session_key a i p q n)"
proof -
  have "obeys plain calm (\<lambda>ctx. case alloc ctx of
      (ok, ctx) \<Rightarrow>
        if \<not> ok then Some (TSS2_ESYS_RC_MEMORY, ctx)
        else
          (case (bind_auth (SAS_bind i) p ctx, salt_bytes (SAS_tpmKey i) m ctx) of
             (Some auth, Some salt) \<Rightarrow> steps [bind_session a (SAS_bind i) p, session_kdf a i (auth @ salt) n l] ctx
           | _ \<Rightarrow> None))" for m l
  proof -
    have "obeys plain calm (steps [bind_session a (SAS_bind i) p, session_kdf a i x n l])" for x
      by (intro calm_flow calm_intros)
    from calm_trans [OF alloc_calm [where r = 0] obeysD [OF this, unfolded plain_def]] show ?thesis
      unfolding obeys_def plain_def
      by (auto simp del: steps.simps split: prod.splits option.splits if_splits intro: alloc_calm)
  qed
  then show ?thesis unfolding session_key_def key_digest_size_def by (intro calm_flow calm_intros)
qed

lemma session_name_calm: "obeys plain calm (session_name a)"
  unfolding session_name_def by (intro calm_flow calm_intros)

lemma hot_session_key: "obeys fst hot (\<lambda>(ctx, h, lnonceTPM, outs).
   case (in_start (esys_in ctx), lnonceTPM) of
     (Some i, Some nonceTPM) \<Rightarrow>
       if SAS_bind i \<noteq> ESYS_TR_NONE \<or> TPM2B_size (esys_salt ctx) > 0
       then call_on_error (session_cleanup a) (lookup (SAS_bind i))
              (\<lambda>bindNode. call_on_error (session_cleanup a) (lookup (SAS_tpmKey i))
                 (\<lambda>tpmKeyNode. on_fst (session_key a i bindNode tpmKeyNode nonceTPM))) (ctx, h, lnonceTPM, outs)
       else Some (TSS2_RC_SUCCESS, ctx, h, lnonceTPM, outs)
   | _ \<Rightarrow> None)"
proof -
  have "obeys fst hot (call_on_error (session_cleanup a) (lookup b)
       (\<lambda>p. call_on_error (session_cleanup a) (lookup t) (\<lambda>q. on_fst (session_key a i p q n))))" for b t i n
    by (intro hot_call_on_error hot.flow_on_fst hot_if_calm session_key_calm)
  from obeysD [OF this] show ?thesis
    unfolding obeys_def by (auto split: option.splits if_splits simp: hot.idle)
qed

lemma finished_hot: "obeys fst hot_completes finished"
  by (rule obeys_mono [OF finished_completes]) (simp add: hot_completes_def)

interpretation finish_StartAuthSession: esys_finish_cmd Esys_StartAuthSession_Finish
  unfolding Esys_StartAuthSession_Finish_def check_response_def
  by (intro esys_finish_cmd_hotI answered_hot.flow_new_object answered_hot.flow_with_local session_answered
      hot_completes.flow_Cons hot_completes.flow_last hot.flow_Cons hot.flow_last hot_session_key hot_nonce hot_on_error hot.flow_on_fst
      hot_or_state hot_complete_handle finished_hot check_response_frame)
     (auto split: prod.splits dest: complete_links intro!: hot_if_calm calm_intros session_name_calm)

end
