(* ===== verification/Esys_Finish_Commands.thy ===== *)
theory Esys_Finish_Commands
  imports Esys_Finish_Special
begin

text \<open>
  The contract of the \<open>_Finish\<close> functions for every command but the two of the theory before.
\<close>

interpretation finish_AC_GetCapability: esys_finish_cmd Esys_AC_GetCapability_Finish
  unfolding Esys_AC_GetCapability_Finish_def
  by (intro finish_intros) (auto split: option.splits prod.splits dest: complete_links)

interpretation finish_AC_Send: esys_finish_cmd Esys_AC_Send_Finish
  unfolding Esys_AC_Send_Finish_def
  by (intro finish_intros) (auto split: option.splits prod.splits dest: complete_links)

interpretation finish_ACT_SetTimeout: esys_finish_cmd Esys_ACT_SetTimeout_Finish
  unfolding Esys_ACT_SetTimeout_Finish_def
  by (intro finish_intros) (auto split: option.splits prod.splits dest: complete_links)

interpretation finish_ActivateCredential: esys_finish_cmd Esys_ActivateCredential_Finish
  unfolding Esys_ActivateCredential_Finish_def
  by (intro finish_intros) (auto split: option.splits prod.splits dest: complete_links)

interpretation finish_Certify: esys_finish_cmd Esys_Certify_Finish
  unfolding Esys_Certify_Finish_def
  by (intro finish_intros) (auto split: option.splits prod.splits dest: complete_links)

interpretation finish_CertifyCreation: esys_finish_cmd Esys_CertifyCreation_Finish
  unfolding Esys_CertifyCreation_Finish_def
  by (intro finish_intros) (auto split: option.splits prod.splits dest: complete_links)

interpretation finish_CertifyX509: esys_finish_cmd Esys_CertifyX509_Finish
  unfolding Esys_CertifyX509_Finish_def
  by (intro finish_intros) (auto split: option.splits prod.splits dest: complete_links)

interpretation finish_ChangeEPS: esys_finish_cmd Esys_ChangeEPS_Finish
  unfolding Esys_ChangeEPS_Finish_def
  by (intro finish_intros) (auto split: option.splits prod.splits dest: complete_links)

interpretation finish_ChangePPS: esys_finish_cmd Esys_ChangePPS_Finish
  unfolding Esys_ChangePPS_Finish_def
  by (intro finish_intros) (auto split: option.splits prod.splits dest: complete_links)

interpretation finish_Clear: esys_finish_cmd Esys_Clear_Finish
  unfolding Esys_Clear_Finish_def
  by (intro finish_intros) (auto split: option.splits prod.splits dest: complete_links)

interpretation finish_ClearControl: esys_finish_cmd Esys_ClearControl_Finish
  unfolding Esys_ClearControl_Finish_def
  by (intro finish_intros) (auto split: option.splits prod.splits dest: complete_links)

interpretation finish_ClockRateAdjust: esys_finish_cmd Esys_ClockRateAdjust_Finish
  unfolding Esys_ClockRateAdjust_Finish_def
  by (intro finish_intros) (auto split: option.splits prod.splits dest: complete_links)

interpretation finish_ClockSet: esys_finish_cmd Esys_ClockSet_Finish
  unfolding Esys_ClockSet_Finish_def
  by (intro finish_intros) (auto split: option.splits prod.splits dest: complete_links)

interpretation finish_Commit: esys_finish_cmd Esys_Commit_Finish
  unfolding Esys_Commit_Finish_def
  by (intro finish_intros) (auto split: option.splits prod.splits dest: complete_links)

interpretation finish_ContextLoad: esys_finish_cmd Esys_ContextLoad_Finish
  unfolding Esys_ContextLoad_Finish_def
  by (intro finish_intros) (auto split: option.splits prod.splits dest: complete_links)

interpretation finish_ContextSave: esys_finish_cmd Esys_ContextSave_Finish
  unfolding Esys_ContextSave_Finish_def
  by (intro finish_intros) (auto split: option.splits prod.splits dest: complete_links)

interpretation finish_Create: esys_finish_cmd Esys_Create_Finish
  unfolding Esys_Create_Finish_def
  by (intro finish_intros) (auto split: option.splits prod.splits dest: complete_links)

interpretation finish_CreateLoaded: esys_finish_cmd Esys_CreateLoaded_Finish
  unfolding Esys_CreateLoaded_Finish_def
  by (intro finish_intros) (auto split: option.splits prod.splits dest: complete_links)

interpretation finish_CreatePrimary: esys_finish_cmd Esys_CreatePrimary_Finish
  unfolding Esys_CreatePrimary_Finish_def
  by (intro finish_intros) (auto split: option.splits prod.splits dest: complete_links)

interpretation finish_Decapsulate: esys_finish_cmd Esys_Decapsulate_Finish
  unfolding Esys_Decapsulate_Finish_def
  by (intro finish_intros) (auto split: option.splits prod.splits dest: complete_links)

interpretation finish_DictionaryAttackLockReset: esys_finish_cmd Esys_DictionaryAttackLockReset_Finish
  unfolding Esys_DictionaryAttackLockReset_Finish_def
  by (intro finish_intros) (auto split: option.splits prod.splits dest: complete_links)

interpretation finish_DictionaryAttackParameters: esys_finish_cmd Esys_DictionaryAttackParameters_Finish
  unfolding Esys_DictionaryAttackParameters_Finish_def
  by (intro finish_intros) (auto split: option.splits prod.splits dest: complete_links)

interpretation finish_Duplicate: esys_finish_cmd Esys_Duplicate_Finish
  unfolding Esys_Duplicate_Finish_def
  by (intro finish_intros) (auto split: option.splits prod.splits dest: complete_links)

interpretation finish_EC_Ephemeral: esys_finish_cmd Esys_EC_Ephemeral_Finish
  unfolding Esys_EC_Ephemeral_Finish_def
  by (intro finish_intros) (auto split: option.splits prod.splits dest: complete_links)

interpretation finish_ECC_Decrypt: esys_finish_cmd Esys_ECC_Decrypt_Finish
  unfolding Esys_ECC_Decrypt_Finish_def
  by (intro finish_intros) (auto split: option.splits prod.splits dest: complete_links)

interpretation finish_ECC_Encrypt: esys_finish_cmd Esys_ECC_Encrypt_Finish
  unfolding Esys_ECC_Encrypt_Finish_def
  by (intro finish_intros) (auto split: option.splits prod.splits dest: complete_links)

interpretation finish_ECC_Parameters: esys_finish_cmd Esys_ECC_Parameters_Finish
  unfolding Esys_ECC_Parameters_Finish_def
  by (intro finish_intros) (auto split: option.splits prod.splits dest: complete_links)

interpretation finish_ECDH_KeyGen: esys_finish_cmd Esys_ECDH_KeyGen_Finish
  unfolding Esys_ECDH_KeyGen_Finish_def
  by (intro finish_intros) (auto split: option.splits prod.splits dest: complete_links)

interpretation finish_ECDH_ZGen: esys_finish_cmd Esys_ECDH_ZGen_Finish
  unfolding Esys_ECDH_ZGen_Finish_def
  by (intro finish_intros) (auto split: option.splits prod.splits dest: complete_links)

interpretation finish_Encapsulate: esys_finish_cmd Esys_Encapsulate_Finish
  unfolding Esys_Encapsulate_Finish_def
  by (intro finish_intros) (auto split: option.splits prod.splits dest: complete_links)

interpretation finish_EncryptDecrypt: esys_finish_cmd Esys_EncryptDecrypt_Finish
  unfolding Esys_EncryptDecrypt_Finish_def
  by (intro finish_intros) (auto split: option.splits prod.splits dest: complete_links)

interpretation finish_EncryptDecrypt2: esys_finish_cmd Esys_EncryptDecrypt2_Finish
  unfolding Esys_EncryptDecrypt2_Finish_def
  by (intro finish_intros) (auto split: option.splits prod.splits dest: complete_links)

interpretation finish_EventSequenceComplete: esys_finish_cmd Esys_EventSequenceComplete_Finish
  unfolding Esys_EventSequenceComplete_Finish_def
  by (intro finish_intros) (auto split: option.splits prod.splits dest: complete_links)

interpretation finish_FieldUpgradeData: esys_finish_cmd Esys_FieldUpgradeData_Finish
  unfolding Esys_FieldUpgradeData_Finish_def
  by (intro finish_intros) (auto split: option.splits prod.splits dest: complete_links)

interpretation finish_FieldUpgradeStart: esys_finish_cmd Esys_FieldUpgradeStart_Finish
  unfolding Esys_FieldUpgradeStart_Finish_def
  by (intro finish_intros) (auto split: option.splits prod.splits dest: complete_links)

interpretation finish_FirmwareRead: esys_finish_cmd Esys_FirmwareRead_Finish
  unfolding Esys_FirmwareRead_Finish_def
  by (intro finish_intros) (auto split: option.splits prod.splits dest: complete_links)

interpretation finish_FlushContext: esys_finish_cmd Esys_FlushContext_Finish
  unfolding Esys_FlushContext_Finish_def
  by (intro finish_intros) (auto split: option.splits prod.splits dest: complete_links)

interpretation finish_GetCapability: esys_finish_cmd Esys_GetCapability_Finish
  unfolding Esys_GetCapability_Finish_def
  by (intro finish_intros) (auto split: option.splits prod.splits dest: complete_links)

interpretation finish_GetCommandAuditDigest: esys_finish_cmd Esys_GetCommandAuditDigest_Finish
  unfolding Esys_GetCommandAuditDigest_Finish_def
  by (intro finish_intros) (auto split: option.splits prod.splits dest: complete_links)

interpretation finish_GetRandom: esys_finish_cmd Esys_GetRandom_Finish
  unfolding Esys_GetRandom_Finish_def
  by (intro finish_intros) (auto split: option.splits prod.splits dest: complete_links)

interpretation finish_GetSessionAuditDigest: esys_finish_cmd Esys_GetSessionAuditDigest_Finish
  unfolding Esys_GetSessionAuditDigest_Finish_def
  by (intro finish_intros) (auto split: option.splits prod.splits dest: complete_links)

interpretation finish_GetTestResult: esys_finish_cmd Esys_GetTestResult_Finish
  unfolding Esys_GetTestResult_Finish_def
  by (intro finish_intros) (auto split: option.splits prod.splits dest: complete_links)

interpretation finish_GetTime: esys_finish_cmd Esys_GetTime_Finish
  unfolding Esys_GetTime_Finish_def
  by (intro finish_intros) (auto split: option.splits prod.splits dest: complete_links)

interpretation finish_Hash: esys_finish_cmd Esys_Hash_Finish
  unfolding Esys_Hash_Finish_def
  by (intro finish_intros) (auto split: option.splits prod.splits dest: complete_links)

interpretation finish_HashSequenceStart: esys_finish_cmd Esys_HashSequenceStart_Finish
  unfolding Esys_HashSequenceStart_Finish_def
  by (intro finish_intros) (auto split: option.splits prod.splits dest: complete_links)

interpretation finish_HierarchyChangeAuth: esys_finish_cmd Esys_HierarchyChangeAuth_Finish
  unfolding Esys_HierarchyChangeAuth_Finish_def
  by (intro finish_intros) (auto split: option.splits prod.splits dest: complete_links)

interpretation finish_HierarchyControl: esys_finish_cmd Esys_HierarchyControl_Finish
  unfolding Esys_HierarchyControl_Finish_def
  by (intro finish_intros) (auto split: option.splits prod.splits dest: complete_links)

interpretation finish_HMAC: esys_finish_cmd Esys_HMAC_Finish
  unfolding Esys_HMAC_Finish_def
  by (intro finish_intros) (auto split: option.splits prod.splits dest: complete_links)

interpretation finish_HMAC_Start: esys_finish_cmd Esys_HMAC_Start_Finish
  unfolding Esys_HMAC_Start_Finish_def
  by (intro finish_intros) (auto split: option.splits prod.splits dest: complete_links)

interpretation finish_Import: esys_finish_cmd Esys_Import_Finish
  unfolding Esys_Import_Finish_def
  by (intro finish_intros) (auto split: option.splits prod.splits dest: complete_links)

interpretation finish_IncrementalSelfTest: esys_finish_cmd Esys_IncrementalSelfTest_Finish
  unfolding Esys_IncrementalSelfTest_Finish_def
  by (intro finish_intros) (auto split: option.splits prod.splits dest: complete_links)

interpretation finish_Load: esys_finish_cmd Esys_Load_Finish
  unfolding Esys_Load_Finish_def
  by (intro finish_intros) (auto split: option.splits prod.splits dest: complete_links)

interpretation finish_LoadExternal: esys_finish_cmd Esys_LoadExternal_Finish
  unfolding Esys_LoadExternal_Finish_def
  by (intro finish_intros) (auto split: option.splits prod.splits dest: complete_links)

interpretation finish_MAC: esys_finish_cmd Esys_MAC_Finish
  unfolding Esys_MAC_Finish_def
  by (intro finish_intros) (auto split: option.splits prod.splits dest: complete_links)

interpretation finish_MAC_Start: esys_finish_cmd Esys_MAC_Start_Finish
  unfolding Esys_MAC_Start_Finish_def
  by (intro finish_intros) (auto split: option.splits prod.splits dest: complete_links)

interpretation finish_MakeCredential: esys_finish_cmd Esys_MakeCredential_Finish
  unfolding Esys_MakeCredential_Finish_def
  by (intro finish_intros) (auto split: option.splits prod.splits dest: complete_links)

interpretation finish_NV_Certify: esys_finish_cmd Esys_NV_Certify_Finish
  unfolding Esys_NV_Certify_Finish_def
  by (intro finish_intros) (auto split: option.splits prod.splits dest: complete_links)

interpretation finish_NV_ChangeAuth: esys_finish_cmd Esys_NV_ChangeAuth_Finish
  unfolding Esys_NV_ChangeAuth_Finish_def
  by (intro finish_intros) (auto split: option.splits prod.splits dest: complete_links)

interpretation finish_NV_DefineSpace: esys_finish_cmd Esys_NV_DefineSpace_Finish
  unfolding Esys_NV_DefineSpace_Finish_def
  by (intro finish_intros) (auto split: option.splits prod.splits dest: complete_links)

interpretation finish_NV_Extend: esys_finish_cmd Esys_NV_Extend_Finish
  unfolding Esys_NV_Extend_Finish_def
  by (intro finish_intros) (auto split: option.splits prod.splits dest: complete_links)

interpretation finish_NV_GlobalWriteLock: esys_finish_cmd Esys_NV_GlobalWriteLock_Finish
  unfolding Esys_NV_GlobalWriteLock_Finish_def
  by (intro finish_intros) (auto split: option.splits prod.splits dest: complete_links)

interpretation finish_NV_Increment: esys_finish_cmd Esys_NV_Increment_Finish
  unfolding Esys_NV_Increment_Finish_def
  by (intro finish_intros) (auto split: option.splits prod.splits dest: complete_links)

interpretation finish_NV_Read: esys_finish_cmd Esys_NV_Read_Finish
  unfolding Esys_NV_Read_Finish_def
  by (intro finish_intros) (auto split: option.splits prod.splits dest: complete_links)

interpretation finish_NV_ReadLock: esys_finish_cmd Esys_NV_ReadLock_Finish
  unfolding Esys_NV_ReadLock_Finish_def
  by (intro finish_intros) (auto split: option.splits prod.splits dest: complete_links)

interpretation finish_NV_ReadPublic: esys_finish_cmd Esys_NV_ReadPublic_Finish
  unfolding Esys_NV_ReadPublic_Finish_def
  by (intro finish_intros) (auto split: option.splits prod.splits dest: complete_links)

interpretation finish_NV_SetBits: esys_finish_cmd Esys_NV_SetBits_Finish
  unfolding Esys_NV_SetBits_Finish_def
  by (intro finish_intros) (auto split: option.splits prod.splits dest: complete_links)

interpretation finish_NV_UndefineSpace: esys_finish_cmd Esys_NV_UndefineSpace_Finish
  unfolding Esys_NV_UndefineSpace_Finish_def
  by (intro finish_intros) (auto split: option.splits prod.splits dest: complete_links)

interpretation finish_NV_UndefineSpaceSpecial: esys_finish_cmd Esys_NV_UndefineSpaceSpecial_Finish
  unfolding Esys_NV_UndefineSpaceSpecial_Finish_def
  by (intro finish_intros) (auto split: option.splits prod.splits dest: complete_links)

interpretation finish_NV_Write: esys_finish_cmd Esys_NV_Write_Finish
  unfolding Esys_NV_Write_Finish_def
  by (intro finish_intros) (auto split: option.splits prod.splits dest: complete_links)

interpretation finish_NV_WriteLock: esys_finish_cmd Esys_NV_WriteLock_Finish
  unfolding Esys_NV_WriteLock_Finish_def
  by (intro finish_intros) (auto split: option.splits prod.splits dest: complete_links)

interpretation finish_ObjectChangeAuth: esys_finish_cmd Esys_ObjectChangeAuth_Finish
  unfolding Esys_ObjectChangeAuth_Finish_def
  by (intro finish_intros) (auto split: option.splits prod.splits dest: complete_links)

interpretation finish_PCR_Allocate: esys_finish_cmd Esys_PCR_Allocate_Finish
  unfolding Esys_PCR_Allocate_Finish_def
  by (intro finish_intros) (auto split: option.splits prod.splits dest: complete_links)

interpretation finish_PCR_Event: esys_finish_cmd Esys_PCR_Event_Finish
  unfolding Esys_PCR_Event_Finish_def
  by (intro finish_intros) (auto split: option.splits prod.splits dest: complete_links)

interpretation finish_PCR_Extend: esys_finish_cmd Esys_PCR_Extend_Finish
  unfolding Esys_PCR_Extend_Finish_def
  by (intro finish_intros) (auto split: option.splits prod.splits dest: complete_links)

interpretation finish_PCR_Read: esys_finish_cmd Esys_PCR_Read_Finish
  unfolding Esys_PCR_Read_Finish_def
  by (intro finish_intros) (auto split: option.splits prod.splits dest: complete_links)

interpretation finish_PCR_Reset: esys_finish_cmd Esys_PCR_Reset_Finish
  unfolding Esys_PCR_Reset_Finish_def
  by (intro finish_intros) (auto split: option.splits prod.splits dest: complete_links)

interpretation finish_PCR_SetAuthPolicy: esys_finish_cmd Esys_PCR_SetAuthPolicy_Finish
  unfolding Esys_PCR_SetAuthPolicy_Finish_def
  by (intro finish_intros) (auto split: option.splits prod.splits dest: complete_links)

interpretation finish_PCR_SetAuthValue: esys_finish_cmd Esys_PCR_SetAuthValue_Finish
  unfolding Esys_PCR_SetAuthValue_Finish_def
  by (intro finish_intros) (auto split: option.splits prod.splits dest: complete_links)

interpretation finish_Policy_AC_SendSelect: esys_finish_cmd Esys_Policy_AC_SendSelect_Finish
  unfolding Esys_Policy_AC_SendSelect_Finish_def
  by (intro finish_intros) (auto split: option.splits prod.splits dest: complete_links)

interpretation finish_PolicyAuthorize: esys_finish_cmd Esys_PolicyAuthorize_Finish
  unfolding Esys_PolicyAuthorize_Finish_def
  by (intro finish_intros) (auto split: option.splits prod.splits dest: complete_links)

interpretation finish_PolicyAuthorizeNV: esys_finish_cmd Esys_PolicyAuthorizeNV_Finish
  unfolding Esys_PolicyAuthorizeNV_Finish_def
  by (intro finish_intros) (auto split: option.splits prod.splits dest: complete_links)

interpretation finish_PolicyAuthValue: esys_finish_cmd Esys_PolicyAuthValue_Finish
  unfolding Esys_PolicyAuthValue_Finish_def
  by (intro finish_intros) (auto split: option.splits prod.splits dest: complete_links)

interpretation finish_PolicyCommandCode: esys_finish_cmd Esys_PolicyCommandCode_Finish
  unfolding Esys_PolicyCommandCode_Finish_def
  by (intro finish_intros) (auto split: option.splits prod.splits dest: complete_links)

interpretation finish_PolicyCounterTimer: esys_finish_cmd Esys_PolicyCounterTimer_Finish
  unfolding Esys_PolicyCounterTimer_Finish_def
  by (intro finish_intros) (auto split: option.splits prod.splits dest: complete_links)

interpretation finish_PolicyCpHash: esys_finish_cmd Esys_PolicyCpHash_Finish
  unfolding Esys_PolicyCpHash_Finish_def
  by (intro finish_intros) (auto split: option.splits prod.splits dest: complete_links)

interpretation finish_PolicyDuplicationSelect: esys_finish_cmd Esys_PolicyDuplicationSelect_Finish
  unfolding Esys_PolicyDuplicationSelect_Finish_def
  by (intro finish_intros) (auto split: option.splits prod.splits dest: complete_links)

interpretation finish_PolicyGetDigest: esys_finish_cmd Esys_PolicyGetDigest_Finish
  unfolding Esys_PolicyGetDigest_Finish_def
  by (intro finish_intros) (auto split: option.splits prod.splits dest: complete_links)

interpretation finish_PolicyLocality: esys_finish_cmd Esys_PolicyLocality_Finish
  unfolding Esys_PolicyLocality_Finish_def
  by (intro finish_intros) (auto split: option.splits prod.splits dest: complete_links)

interpretation finish_PolicyNameHash: esys_finish_cmd Esys_PolicyNameHash_Finish
  unfolding Esys_PolicyNameHash_Finish_def
  by (intro finish_intros) (auto split: option.splits prod.splits dest: complete_links)

interpretation finish_PolicyNV: esys_finish_cmd Esys_PolicyNV_Finish
  unfolding Esys_PolicyNV_Finish_def
  by (intro finish_intros) (auto split: option.splits prod.splits dest: complete_links)

interpretation finish_PolicyNvWritten: esys_finish_cmd Esys_PolicyNvWritten_Finish
  unfolding Esys_PolicyNvWritten_Finish_def
  by (intro finish_intros) (auto split: option.splits prod.splits dest: complete_links)

interpretation finish_PolicyOR: esys_finish_cmd Esys_PolicyOR_Finish
  unfolding Esys_PolicyOR_Finish_def
  by (intro finish_intros) (auto split: option.splits prod.splits dest: complete_links)

interpretation finish_PolicyPassword: esys_finish_cmd Esys_PolicyPassword_Finish
  unfolding Esys_PolicyPassword_Finish_def
  by (intro finish_intros) (auto split: option.splits prod.splits dest: complete_links)

interpretation finish_PolicyPCR: esys_finish_cmd Esys_PolicyPCR_Finish
  unfolding Esys_PolicyPCR_Finish_def
  by (intro finish_intros) (auto split: option.splits prod.splits dest: complete_links)

interpretation finish_PolicyPhysicalPresence: esys_finish_cmd Esys_PolicyPhysicalPresence_Finish
  unfolding Esys_PolicyPhysicalPresence_Finish_def
  by (intro finish_intros) (auto split: option.splits prod.splits dest: complete_links)

interpretation finish_PolicyRestart: esys_finish_cmd Esys_PolicyRestart_Finish
  unfolding Esys_PolicyRestart_Finish_def
  by (intro finish_intros) (auto split: option.splits prod.splits dest: complete_links)

interpretation finish_PolicySecret: esys_finish_cmd Esys_PolicySecret_Finish
  unfolding Esys_PolicySecret_Finish_def
  by (intro finish_intros) (auto split: option.splits prod.splits dest: complete_links)

interpretation finish_PolicySigned: esys_finish_cmd Esys_PolicySigned_Finish
  unfolding Esys_PolicySigned_Finish_def
  by (intro finish_intros) (auto split: option.splits prod.splits dest: complete_links)

interpretation finish_PolicyTemplate: esys_finish_cmd Esys_PolicyTemplate_Finish
  unfolding Esys_PolicyTemplate_Finish_def
  by (intro finish_intros) (auto split: option.splits prod.splits dest: complete_links)

interpretation finish_PolicyTicket: esys_finish_cmd Esys_PolicyTicket_Finish
  unfolding Esys_PolicyTicket_Finish_def
  by (intro finish_intros) (auto split: option.splits prod.splits dest: complete_links)

interpretation finish_PP_Commands: esys_finish_cmd Esys_PP_Commands_Finish
  unfolding Esys_PP_Commands_Finish_def
  by (intro finish_intros) (auto split: option.splits prod.splits dest: complete_links)

interpretation finish_Quote: esys_finish_cmd Esys_Quote_Finish
  unfolding Esys_Quote_Finish_def
  by (intro finish_intros) (auto split: option.splits prod.splits dest: complete_links)

interpretation finish_ReadClock: esys_finish_cmd Esys_ReadClock_Finish
  unfolding Esys_ReadClock_Finish_def
  by (intro finish_intros) (auto split: option.splits prod.splits dest: complete_links)

interpretation finish_ReadPublic: esys_finish_cmd Esys_ReadPublic_Finish
  unfolding Esys_ReadPublic_Finish_def
  by (intro finish_intros) (auto split: option.splits prod.splits dest: complete_links)

interpretation finish_Rewrap: esys_finish_cmd Esys_Rewrap_Finish
  unfolding Esys_Rewrap_Finish_def
  by (intro finish_intros) (auto split: option.splits prod.splits dest: complete_links)

interpretation finish_RSA_Decrypt: esys_finish_cmd Esys_RSA_Decrypt_Finish
  unfolding Esys_RSA_Decrypt_Finish_def
  by (intro finish_intros) (auto split: option.splits prod.splits dest: complete_links)

interpretation finish_RSA_Encrypt: esys_finish_cmd Esys_RSA_Encrypt_Finish
  unfolding Esys_RSA_Encrypt_Finish_def
  by (intro finish_intros) (auto split: option.splits prod.splits dest: complete_links)

interpretation finish_SelfTest: esys_finish_cmd Esys_SelfTest_Finish
  unfolding Esys_SelfTest_Finish_def
  by (intro finish_intros) (auto split: option.splits prod.splits dest: complete_links)

interpretation finish_SequenceComplete: esys_finish_cmd Esys_SequenceComplete_Finish
  unfolding Esys_SequenceComplete_Finish_def
  by (intro finish_intros) (auto split: option.splits prod.splits dest: complete_links)

interpretation finish_SequenceUpdate: esys_finish_cmd Esys_SequenceUpdate_Finish
  unfolding Esys_SequenceUpdate_Finish_def
  by (intro finish_intros) (auto split: option.splits prod.splits dest: complete_links)

interpretation finish_SetAlgorithmSet: esys_finish_cmd Esys_SetAlgorithmSet_Finish
  unfolding Esys_SetAlgorithmSet_Finish_def
  by (intro finish_intros) (auto split: option.splits prod.splits dest: complete_links)

interpretation finish_SetCommandCodeAuditStatus: esys_finish_cmd Esys_SetCommandCodeAuditStatus_Finish
  unfolding Esys_SetCommandCodeAuditStatus_Finish_def
  by (intro finish_intros) (auto split: option.splits prod.splits dest: complete_links)

interpretation finish_SetPrimaryPolicy: esys_finish_cmd Esys_SetPrimaryPolicy_Finish
  unfolding Esys_SetPrimaryPolicy_Finish_def
  by (intro finish_intros) (auto split: option.splits prod.splits dest: complete_links)

interpretation finish_Shutdown: esys_finish_cmd Esys_Shutdown_Finish
  unfolding Esys_Shutdown_Finish_def
  by (intro finish_intros) (auto split: option.splits prod.splits dest: complete_links)

interpretation finish_Sign: esys_finish_cmd Esys_Sign_Finish
  unfolding Esys_Sign_Finish_def
  by (intro finish_intros) (auto split: option.splits prod.splits dest: complete_links)

interpretation finish_SignDigest: esys_finish_cmd Esys_SignDigest_Finish
  unfolding Esys_SignDigest_Finish_def
  by (intro finish_intros) (auto split: option.splits prod.splits dest: complete_links)

interpretation finish_SignSequenceComplete: esys_finish_cmd Esys_SignSequenceComplete_Finish
  unfolding Esys_SignSequenceComplete_Finish_def
  by (intro finish_intros) (auto split: option.splits prod.splits dest: complete_links)

interpretation finish_SignSequenceStart: esys_finish_cmd Esys_SignSequenceStart_Finish
  unfolding Esys_SignSequenceStart_Finish_def
  by (intro finish_intros) (auto split: option.splits prod.splits dest: complete_links)

interpretation finish_Startup: esys_finish_cmd Esys_Startup_Finish
  unfolding Esys_Startup_Finish_def
  by (intro finish_intros) (auto split: option.splits prod.splits dest: complete_links)

interpretation finish_StirRandom: esys_finish_cmd Esys_StirRandom_Finish
  unfolding Esys_StirRandom_Finish_def
  by (intro finish_intros) (auto split: option.splits prod.splits dest: complete_links)

interpretation finish_TestParms: esys_finish_cmd Esys_TestParms_Finish
  unfolding Esys_TestParms_Finish_def
  by (intro finish_intros) (auto split: option.splits prod.splits dest: complete_links)

interpretation finish_Unseal: esys_finish_cmd Esys_Unseal_Finish
  unfolding Esys_Unseal_Finish_def
  by (intro finish_intros) (auto split: option.splits prod.splits dest: complete_links)

interpretation finish_Vendor_TCG_Test: esys_finish_cmd Esys_Vendor_TCG_Test_Finish
  unfolding Esys_Vendor_TCG_Test_Finish_def
  by (intro finish_intros) (auto split: option.splits prod.splits dest: complete_links)

interpretation finish_VerifyDigestSignature: esys_finish_cmd Esys_VerifyDigestSignature_Finish
  unfolding Esys_VerifyDigestSignature_Finish_def
  by (intro finish_intros) (auto split: option.splits prod.splits dest: complete_links)

interpretation finish_VerifySequenceComplete: esys_finish_cmd Esys_VerifySequenceComplete_Finish
  unfolding Esys_VerifySequenceComplete_Finish_def
  by (intro finish_intros) (auto split: option.splits prod.splits dest: complete_links)

interpretation finish_VerifySequenceStart: esys_finish_cmd Esys_VerifySequenceStart_Finish
  unfolding Esys_VerifySequenceStart_Finish_def
  by (intro finish_intros) (auto split: option.splits prod.splits dest: complete_links)

interpretation finish_VerifySignature: esys_finish_cmd Esys_VerifySignature_Finish
  unfolding Esys_VerifySignature_Finish_def
  by (intro finish_intros) (auto split: option.splits prod.splits dest: complete_links)

interpretation finish_ZGen_2Phase: esys_finish_cmd Esys_ZGen_2Phase_Finish
  unfolding Esys_ZGen_2Phase_Finish_def
  by (intro finish_intros) (auto split: option.splits prod.splits dest: complete_links)

end
