(* ===== verification/Esys_Termination.thy ===== *)
theory Esys_Termination
  imports Esys_Finish
begin

text \<open>
  The functions that send a command and wait for its response: how often they send, what they leave of the
  context, and that their loop ends.
\<close>

section \<open>Traffic\<close>

text \<open>The use of the connection, with the number of transmissions.\<close>

inductive traffic :: "nat \<Rightarrow> 't TSS2_TCTI_CONTEXT option option \<Rightarrow> 't TSS2_TCTI_CONTEXT option option \<Rightarrow> bool" where
  silent: "traffic 0 l l"
| sending: "traffic k l l' \<Longrightarrow> transmits l' l'' \<Longrightarrow> traffic (Suc k) l l''"
| receiving: "traffic k l l' \<Longrightarrow> receives l' l'' \<Longrightarrow> traffic k l l''"

lemma traffic_receives: "receives\<^sup>*\<^sup>* l' l'' \<Longrightarrow> traffic k l l' \<Longrightarrow> traffic k l l''"
  by (induction rule: rtranclp_induct) (auto intro: traffic.receiving)

section \<open>The loop\<close>

definition context_of :: "(TSS2_RC \<times> ('t, 'c) esys option \<times> 'o) option \<Rightarrow> (TSS2_RC \<times> ('t, 'c) esys option) option" where
  "context_of = map_option (\<lambda>(r, p, _). (r, p))"

type_synonym ('t, 'c) api_call = "('t, 'c) esys option \<Rightarrow> (TSS2_RC \<times> ('t, 'c) esys option) option"

text \<open>
  What holds between the calls of the \<open>_Finish\<close> function for a command that started at \<open>l\<close>: the
  command was sent at most as often as counted, and never more than \<open>ESYS_MAX_SUBMISSIONS\<close> times.
\<close>

definition underway :: "'t TSS2_TCTI_CONTEXT option option \<Rightarrow> ('t, 'c) esys \<Rightarrow> ('t, 'c) esys \<Rightarrow> bool" where
  "underway l s s' \<longleftrightarrow> kept s s' \<and>
     (\<exists>k. traffic (Suc k) l (esys_link s') \<and> int (Suc k) \<le> ESYS_MAX_SUBMISSIONS \<and> (waiting s' \<longrightarrow> int (Suc k) \<le> submissionCount s'))"

lemma kept_working: "kept (working s) s' \<Longrightarrow> kept s s'"
  by (auto simp: kept_def)

lemma underway_answered:
  assumes "underway l s0 s" "waiting s" "answered r (working s) s'"
  shows "underway l s0 s'"
proof -
  from assms obtain k where k: "traffic (Suc k) l (esys_link s)" "int (Suc k) \<le> ESYS_MAX_SUBMISSIONS" "int (Suc k) \<le> submissionCount s"
    by (auto simp: underway_def)
  have kept: "kept s0 s'" using assms kept_working [of s s'] kept_trans by (auto simp: underway_def answered_def failed_def split: if_splits)
  from assms(3) consider
      (quiet) "receives\<^sup>*\<^sup>* (esys_link s) (esys_link s')" "submissionCount s' = submissionCount s \<or> \<not> waiting s'"
    | (again) m where "submissionCount s < ESYS_MAX_SUBMISSIONS" "receives\<^sup>*\<^sup>* (esys_link s) m" "esys_link s' = m \<or> transmits m (esys_link s')"
        "submissionCount s' = submissionCount s + 1"
    by (auto simp: answered_def failed_def sent_again_def waiting_def split: if_splits)
  then show ?thesis
  proof cases
    case quiet
    then show ?thesis using k kept traffic_receives unfolding underway_def by fastforce
  next
    case again
    then have m: "traffic (Suc k) l m" using k traffic_receives by blast
    show ?thesis
    proof (cases "esys_link s' = m")
      case True
      with m again k kept show ?thesis unfolding underway_def by fastforce
    next
      case False
      with again m have "traffic (Suc (Suc k)) l (esys_link s')" by (auto intro: traffic.sending)
      moreover have "int (Suc (Suc k)) \<le> submissionCount s'" "int (Suc (Suc k)) \<le> ESYS_MAX_SUBMISSIONS" using again k by simp_all
      ultimately show ?thesis using kept unfolding underway_def by blast
    qed
  qed
qed

text \<open>One call of a \<open>_Finish\<close> function.\<close>

lemma underway_call:
  assumes "esys_finish_cmd Fi" "Fi (Some s, outs) = Some (r, p, outs')" "underway l s0 s"
  shows "\<exists>s'. p = Some s' \<and> underway l s0 s' \<and> (r = 0 \<longrightarrow> esys_state s' = ESYS_STATE_INIT)"
proof (cases "waiting s")
  case True
  from esys_finish_cmd.outcome [OF assms(1) this assms(2)] obtain s' where "p = Some s'" "answered r (working s) s'" by blast
  with underway_answered [OF assms(3) True] show ?thesis by (auto simp: answered_def)
next
  case False
  from esys_finish_cmd.refuses [OF assms(1) this] assms show ?thesis
    by (auto simp: esys_rc_defs)
qed

lemma loop_underway:
  assumes "esys_finish_cmd Fi" "finish_loop Fi (Some s, outs) = Some (r, p, outs')" "underway l s0 s"
  shows "\<exists>s'. p = Some s' \<and> underway l s0 s' \<and> (r = 0 \<longrightarrow> esys_state s' = ESYS_STATE_INIT)"
proof -
  let ?Q = "\<lambda>s r p. \<exists>s'. p = Some s' \<and> underway l s0 s' \<and> (r = 0 \<longrightarrow> esys_state s' = ESYS_STATE_INIT)"
  let ?P = "\<lambda>G x y. G = Fi \<longrightarrow> (\<forall>s. fst x = Some s \<longrightarrow> underway l s0 s \<longrightarrow> ?Q s (fst y) (fst (snd y)))"
  have "?P Fi (Some s, outs) (r, p, outs')"
  proof (rule finish_loop.raw_induct [where P = ?P, OF _ assms(2)], intro impI allI)
    fix loop G x y s
    assume IH: "\<And>G x y. loop G x = Some y \<Longrightarrow> ?P G x y"
      and body: "Option.bind (G x) (\<lambda>(r, s'). if base_rc r = TSS2_BASE_RC_TRY_AGAIN then loop G s' else Some (r, s')) = Some y"
      and a: "G = Fi" "fst x = Some s" "underway l s0 s"
    from body a obtain q t outs1 where c: "Fi (Some s, snd x) = Some (q, t, outs1)"
      and y: "(if base_rc q = TSS2_BASE_RC_TRY_AGAIN then loop G (t, outs1) else Some (q, t, outs1)) = Some y"
      by (cases x) (auto simp: Option.bind_eq_Some_conv)
    from underway_call [OF assms(1) c a(3)] obtain t' where t': "t = Some t'" "underway l s0 t'" "q = 0 \<longrightarrow> esys_state t' = ESYS_STATE_INIT"
      by blast
    show "?Q s (fst y) (fst (snd y))"
    proof (cases "base_rc q = TSS2_BASE_RC_TRY_AGAIN")
      case True
      with y have "loop G (t, outs1) = Some y" by simp
      from IH [OF this] a(1) t' show ?thesis by simp
    qed (use y t' in auto)
  qed
  with assms(3) show ?thesis by simp
qed

section \<open>The contract\<close>

text \<open>
  A one-call function is refused or, if it returns, has sent its command between one and \<open>ESYS_MAX_SUBMISSIONS\<close>
  times (or failed while sending it), and after a success the context is ready for the next command.  The
  timeout the caller has set is in place again.
\<close>

definition called :: "TSS2_RC \<Rightarrow> ('t, 'c) esys \<Rightarrow> ('t, 'c) esys \<Rightarrow> bool" where
  "called r s s' \<longleftrightarrow> may_start s \<and> kept s s' \<and>
     (\<exists>k. traffic k (esys_link s) (esys_link s') \<and> int k \<le> ESYS_MAX_SUBMISSIONS \<and> (r = 0 \<longrightarrow> 0 < k)) \<and>
     (r = 0 \<longrightarrow> esys_state s' = ESYS_STATE_INIT)"

definition call_contract :: "('t, 'c) api_call \<Rightarrow> bool" where
  "call_contract C \<longleftrightarrow> C None = Some (TSS2_ESYS_RC_BAD_REFERENCE, None) \<and>
     (\<forall>s. \<not> may_start s \<longrightarrow> (\<exists>r. r \<noteq> 0 \<and> C (Some s) = Some (r, Some s))) \<and>
     (\<forall>s r p. C (Some s) = Some (r, p) \<longrightarrow> (\<exists>s'. p = Some s' \<and> (r \<noteq> 0 \<and> s' = s \<or> called r s s')))"

lemma one_call_started:
  assumes A: "esys_async_cmd A" and Fi: "esys_finish_cmd Fi"
    and r: "one_call (A (Some s)) Fi outs = Some (r, p, outs')"
  shows "\<exists>s'. p = Some s' \<and> (r \<noteq> 0 \<and> s' = s \<or> called r s s')"
proof -
  from r obtain q pt where q: "A (Some s) = Some (q, pt)" by (auto simp: one_call_def split: option.splits)
  from esys_async_cmd.outcome [OF A q] obtain t where t: "pt = Some t" "q \<noteq> 0 \<and> t = s \<or> may_start s \<and> sent q (started s) t" by blast
  show ?thesis
  proof (cases "q = 0")
    case False
    with r q t have e: "r = q" "p = Some t" by (auto simp: one_call_def)
    show ?thesis
    proof (cases "t = s")
      case False
      with t have m: "may_start s" and st: "sent q (started s) t" by auto
      have "kept s t" using st by (auto simp: sent_def kept_def started_def esys_ok_def)
      moreover have "traffic 0 (esys_link s) (esys_link t) \<or> traffic (Suc 0) (esys_link s) (esys_link t)"
        using st \<open>q \<noteq> 0\<close> by (auto simp: sent_def intro: traffic.intros)
      then have "\<exists>k. traffic k (esys_link s) (esys_link t) \<and> int k \<le> ESYS_MAX_SUBMISSIONS"
        by (auto simp: ESYS_MAX_SUBMISSIONS_def)
      ultimately show ?thesis using e m \<open>q \<noteq> 0\<close> by (auto simp: called_def)
    qed (use e \<open>q \<noteq> 0\<close> in auto)
  next
    case True
    with t have m: "may_start s" and st: "sent 0 (started s) t" by auto
    let ?t = "t\<lparr>esys_timeout := -1\<rparr>"
    from r q True t obtain u where l: "finish_loop Fi (Some ?t, outs) = Some (r, Some u, outs')"
      and p: "p = Some (u\<lparr>esys_timeout := esys_timeout t\<rparr>)"
      by (auto simp: one_call_def split: option.splits)
    have "traffic (Suc 0) (esys_link s) (esys_link ?t)"
      using st by (auto simp: sent_def esys_link_def started_def intro: traffic.intros)
    then have "underway (esys_link s) ?t ?t" using st by (auto simp: underway_def sent_def ESYS_MAX_SUBMISSIONS_def)
    from loop_underway [OF Fi l this] have u: "underway (esys_link s) ?t u" "r = 0 \<longrightarrow> esys_state u = ESYS_STATE_INIT" by auto
    let ?u = "u\<lparr>esys_timeout := esys_timeout t\<rparr>"
    have "kept s ?u" using u(1) st by (auto simp: underway_def sent_def kept_def esys_ok_def started_def)
    moreover have "\<exists>k. traffic k (esys_link s) (esys_link ?u) \<and> int k \<le> ESYS_MAX_SUBMISSIONS \<and> 0 < k"
      using u(1) by (auto simp: underway_def esys_link_def)
    ultimately have "called r s ?u" using m u(2) by (auto simp: called_def)
    with p show ?thesis by blast
  qed
qed

lemma one_call_contract:
  assumes "esys_async_cmd A" "esys_finish_cmd Fi"
  shows "call_contract (\<lambda>ctx. context_of (one_call (A ctx) Fi outs))"
proof -
  have "\<exists>r. r \<noteq> 0 \<and> context_of (one_call (A (Some s)) Fi outs) = Some (r, Some s)" if "\<not> may_start s" for s
  proof -
    from esys_async_cmd.refuses [OF assms(1) that] obtain r where "r \<noteq> 0" "A (Some s) = Some (r, Some s)" by blast
    then show ?thesis by (auto simp: one_call_def context_of_def)
  qed
  moreover have "context_of (one_call (A None) Fi outs) = Some (TSS2_ESYS_RC_BAD_REFERENCE, None)"
    using esys_async_cmd.no_context [OF assms(1)] by (simp add: one_call_def context_of_def esys_rc_defs)
  moreover have "\<exists>s'. p = Some s' \<and> (r \<noteq> 0 \<and> s' = s \<or> called r s s')"
    if "context_of (one_call (A (Some s)) Fi outs) = Some (r, p)" for s r p
    using that one_call_started [OF assms] by (fastforce simp: context_of_def)
  ultimately show ?thesis unfolding call_contract_def by blast
qed

text \<open>
  The loop around the \<open>_Finish\<close> functions ends, if the transport answers a blocking call with something else than
  the request to try again.
\<close>

section \<open>The loop with a bound\<close>

text \<open>\<open>Some None\<close>: the bound was too small; \<open>None\<close>: a call faults.\<close>

fun finish_calls :: "nat \<Rightarrow> 's step \<Rightarrow> 's \<Rightarrow> (TSS2_RC \<times> 's) option option" where
  "finish_calls 0 finish s = Some None"
| "finish_calls (Suc n) finish s =
     (case finish s of
        None \<Rightarrow> None
      | Some (r, s') \<Rightarrow> if base_rc r = TSS2_BASE_RC_TRY_AGAIN then finish_calls n finish s' else Some (Some (r, s')))"

lemma finish_loop_calls: "finish_calls n finish s \<noteq> Some None \<Longrightarrow> finish_loop finish s = Option.bind (finish_calls n finish s) id"
  by (induction n arbitrary: s) (subst finish_loop.simps, auto split: option.splits)+

section \<open>Patient transports\<close>

text \<open>However the connection is used from \<open>l\<close> on, a blocking receive does not ask to try again.\<close>

definition patient :: "'t TSS2_TCTI_CONTEXT option option \<Rightarrow> bool" where
  "patient l \<longleftrightarrow> (\<forall>k l' t n b r n' b' t'. traffic k l l' \<longrightarrow> l' = Some t \<longrightarrow> Tss2_Tcti_Receive t n b (-1) = (r, n', b', t') \<longrightarrow>
     base_rc r \<noteq> TSS2_BASE_RC_TRY_AGAIN)"

lemma traffic_trans: "traffic j l' l'' \<Longrightarrow> traffic k l l' \<Longrightarrow> \<exists>i. traffic i l l''"
  by (induction rule: traffic.induct) (blast intro: traffic.intros)+

lemma patientD: "patient l \<Longrightarrow> traffic k l (Some t) \<Longrightarrow> Tss2_Tcti_Receive t n b (-1) = (r, n', b', t') \<Longrightarrow> base_rc r \<noteq> TSS2_BASE_RC_TRY_AGAIN"
  unfolding patient_def by blast

lemma patient_later:
  assumes "patient l" "traffic k l l'"
  shows "patient l'"
  unfolding patient_def
proof (intro allI impI)
  fix j l'' t n b r n' b' t'
  assume "traffic j l' l''" "l'' = Some t" "Tss2_Tcti_Receive t n b (-1) = (r, n', b', t')"
  with traffic_trans [of j l' l'' k l] assms patientD [of l _ t n b r n' b' t'] show "base_rc r \<noteq> TSS2_BASE_RC_TRY_AGAIN" by auto
qed

text \<open>With such a transport the code to try again comes from the TPM, and the command may be sent again.\<close>

lemma codes [simp]:
  "base_rc TSS2_MU_RC_BAD_REFERENCE \<noteq> TSS2_BASE_RC_TRY_AGAIN" "base_rc TSS2_MU_RC_INSUFFICIENT_BUFFER \<noteq> TSS2_BASE_RC_TRY_AGAIN"
  "base_rc TSS2_MU_RC_BAD_SIZE \<noteq> TSS2_BASE_RC_TRY_AGAIN" "base_rc TSS2_SYS_RC_GENERAL_FAILURE \<noteq> TSS2_BASE_RC_TRY_AGAIN"
  "base_rc TSS2_SYS_RC_MALFORMED_RESPONSE \<noteq> TSS2_BASE_RC_TRY_AGAIN" "base_rc TSS2_SYS_RC_INSUFFICIENT_RESPONSE \<noteq> TSS2_BASE_RC_TRY_AGAIN"
  "base_rc TSS2_SYS_RC_INSUFFICIENT_CONTEXT \<noteq> TSS2_BASE_RC_TRY_AGAIN" "base_rc TSS2_SYS_RC_BAD_REFERENCE \<noteq> TSS2_BASE_RC_TRY_AGAIN"
  "base_rc TSS2_SYS_RC_BAD_SEQUENCE \<noteq> TSS2_BASE_RC_TRY_AGAIN" "base_rc TSS2_ESYS_RC_BAD_SEQUENCE \<noteq> TSS2_BASE_RC_TRY_AGAIN"
  by (simp_all add: base_rc_def esys_rc_defs TSS2_MU_RC_BAD_REFERENCE_def TSS2_MU_RC_INSUFFICIENT_BUFFER_def TSS2_MU_RC_BAD_SIZE_def
      TSS2_SYS_RC_GENERAL_FAILURE_def TSS2_SYS_RC_MALFORMED_RESPONSE_def TSS2_SYS_RC_INSUFFICIENT_RESPONSE_def
      TSS2_SYS_RC_INSUFFICIENT_CONTEXT_def TSS2_SYS_RC_BAD_REFERENCE_def TSS2_SYS_RC_BAD_SEQUENCE_def)

lemma BASE_UNMARSHAL_codes: "BASE_UNMARSHAL b n off d = Some (r, x) \<Longrightarrow> base_rc r \<noteq> TSS2_BASE_RC_TRY_AGAIN"
  by (auto simp: BASE_UNMARSHAL_def Let_def split: option.splits if_splits)

lemma get_header_codes: "get_header BASE_UNMARSHAL get upd c = Some (r, c') \<Longrightarrow> base_rc r = TSS2_BASE_RC_TRY_AGAIN \<Longrightarrow> False"
  by (auto simp: get_header_def split: option.splits prod.splits dest: BASE_UNMARSHAL_codes)

lemma read_rsp_header_codes: "read_rsp_header c = Some (r, c') \<Longrightarrow> base_rc r = TSS2_BASE_RC_TRY_AGAIN \<Longrightarrow> False"
  by (auto simp: read_rsp_header_def Let_def Tss2_MU_TPM2_ST_Unmarshal_def Tss2_MU_UINT16_Unmarshal_def Tss2_MU_UINT32_Unmarshal_def split: option.splits if_splits)
     (erule (1) get_header_codes)+

lemma finish_response_again:
  "finish_response c = Some (r, c') \<Longrightarrow> ctx_previousStage c' = CMD_STAGE_PREPARE \<or> ctx_previousStage c' = CMD_STAGE_RECEIVE_RESPONSE"
  by (auto simp: finish_response_def Let_def split: option.splits if_splits)

lemma ExecuteFinish_again:
  assumes "Tss2_Sys_ExecuteFinish sys (-1) = Some (r, sys')" "base_rc r = TSS2_BASE_RC_TRY_AGAIN" "patient (sys_link sys)"
  shows "sys_stage sys' \<noteq> Some CMD_STAGE_SEND_COMMAND"
proof (cases "sys_stage sys = Some CMD_STAGE_SEND_COMMAND")
  case False
  with ExecuteFinish_refused [OF False assms(1)] assms(2) show ?thesis by auto
next
  case True
  then obtain c where c: "sys = Some c" "ctx_previousStage c = CMD_STAGE_SEND_COMMAND" by (auto simp: sys_stage_def)
  obtain r1 n1 b1 t1 where 1: "Tss2_Tcti_Receive (ctx_tctiContext c) 0 None (-1) = (r1, n1, b1, t1)" by (metis prod_cases4)
  obtain r2 n2 b2 t2 where 2: "Tss2_Tcti_Receive t1 n1 (Some (ctx_cmdBuffer c)) (-1) = (r2, n2, b2, t2)" by (metis prod_cases4)
  have p: "patient (Some (ctx_tctiContext c))" using assms(3) c by simp
  have r1: "base_rc r1 \<noteq> TSS2_BASE_RC_TRY_AGAIN" by (rule patientD [OF p traffic.silent 1])
  have "traffic 0 (Some (ctx_tctiContext c)) (Some t1)" using receives.intros [OF 1] traffic.intros by blast
  then have r2: "base_rc r2 \<noteq> TSS2_BASE_RC_TRY_AGAIN" using patientD [OF p _ 2] by blast
  from assms(1,2) c 1 2 r1 r2 show ?thesis
    by (auto simp: Tss2_Sys_ExecuteFinish_def Let_def sys_stage_def split: option.splits if_splits
        dest!: read_rsp_header_codes finish_response_again simp: CMD_STAGE_SEND_COMMAND_def CMD_STAGE_PREPARE_def CMD_STAGE_RECEIVE_RESPONSE_def)
qed

section \<open>The number of calls\<close>

text \<open>How many more calls of the \<open>_Finish\<close> function a context can take.\<close>

definition calls_left :: "('t, 'c) esys \<Rightarrow> nat" where
  "calls_left s =
     (if \<not> waiting s then 1
      else if sys_stage (esys_sys s) \<noteq> Some CMD_STAGE_SEND_COMMAND then 2
      else 3 + nat (ESYS_MAX_SUBMISSIONS - submissionCount s))"

lemma failed_traffic:
  assumes "failed r (working s) s'"
  shows "\<exists>k. traffic k (esys_link s) (esys_link s')"
proof -
  from assms consider "receives\<^sup>*\<^sup>* (esys_link s) (esys_link s')" | l where "receives\<^sup>*\<^sup>* (esys_link s) l" "esys_link s' = l \<or> transmits l (esys_link s')"
    by (auto simp: failed_def sent_again_def split: if_splits)
  then show ?thesis by cases (use traffic_receives [OF _ traffic.silent] traffic.sending in blast)+
qed

lemma again_progress:
  assumes Fi: "esys_finish_cmd Fi" and c: "Fi (Some s, outs) = Some (r, p, outs')" and r: "base_rc r = TSS2_BASE_RC_TRY_AGAIN"
    and t: "esys_timeout s = -1" and pt: "patient (esys_link s)"
  obtains s' where "p = Some s'" "esys_timeout s' = -1" "patient (esys_link s')" "calls_left s' < calls_left s"
proof -
  have w: "waiting s" using esys_finish_cmd.refuses [OF Fi, of s outs] c r codes(10) by (cases "waiting s") (auto simp del: codes)
  from esys_finish_cmd.outcome [OF Fi w c] obtain s' where s': "p = Some s'" and a: "answered r (working s) s'" by blast
  from a r have f: "failed r (working s) s'" by (auto simp: answered_def)
  have "esys_timeout s' = -1" using f t by (auto simp: failed_def kept_def)
  moreover have "patient (esys_link s')" using failed_traffic [OF f] patient_later [OF pt] by blast
  moreover have "calls_left s' < calls_left s"
  proof -
    from f consider (failed) "\<not> waiting s'" | (wait) "no_answer r (working s) s'" | (again) "sent_again r (working s) s'"
      by (auto simp: failed_def failed_state_def waiting_def)
    then show ?thesis
    proof cases
      case failed
      with w show ?thesis by (simp add: calls_left_def)
    next
      case wait
      then have e: "Tss2_Sys_ExecuteFinish (esys_sys s) (-1) = Some (r, esys_sys s')" using t by (simp add: no_answer_def)
      have "sys_stage (esys_sys s) = Some CMD_STAGE_SEND_COMMAND" using ExecuteFinish_refused [OF _ e] r by (metis codes(8,9))
      moreover have "sys_stage (esys_sys s') \<noteq> Some CMD_STAGE_SEND_COMMAND"
        using ExecuteFinish_again [OF e r] pt by (simp add: esys_link_def)
      ultimately show ?thesis using w by (auto simp: calls_left_def)
    next
      case again
      with w show ?thesis by (auto simp: calls_left_def sent_again_def waiting_def split: if_splits)
    qed
  qed
  ultimately show ?thesis using that s' by blast
qed

lemma finish_calls_enough:
  assumes "esys_finish_cmd Fi"
  shows "esys_timeout s = -1 \<Longrightarrow> patient (esys_link s) \<Longrightarrow> calls_left s \<le> n \<Longrightarrow> finish_calls n Fi (Some s, outs) \<noteq> Some None"
proof (induction n arbitrary: s outs)
  case 0
  then show ?case by (simp add: calls_left_def split: if_splits)
next
  case (Suc n)
  show ?case
  proof (cases "Fi (Some s, outs)")
    case (Some y)
    obtain r p outs' where y: "y = (r, p, outs')" by (cases y)
    show ?thesis
    proof (cases "base_rc r = TSS2_BASE_RC_TRY_AGAIN")
      case True
      from again_progress [OF assms Some [unfolded y] True Suc.prems(1,2)] obtain s' where
        "p = Some s'" "esys_timeout s' = -1" "patient (esys_link s')" "calls_left s' < calls_left s" .
      with Suc.IH [of s' outs'] Suc.prems(3) Some y True show ?thesis by simp
    qed (use Some y in simp)
  qed simp
qed

section \<open>One-call functions\<close>

text \<open>A one-call function with a bound for its loop.\<close>

definition one_call_within ::
  "nat \<Rightarrow> (TSS2_RC \<times> ('t, 'c) esys option) option \<Rightarrow> (('t, 'c) esys option \<times> 'o) step \<Rightarrow> 'o \<Rightarrow>
   (TSS2_RC \<times> ('t, 'c) esys option) option option" where
  "one_call_within n async finish outs =
     (case async of
        None \<Rightarrow> None
      | Some (r, esysContext) \<Rightarrow>
          if r \<noteq> 0 then Some (Some (r, esysContext))
          else
            (case esysContext of
               None \<Rightarrow> None
             | Some ctx \<Rightarrow>
                 (case finish_calls n finish (Some (ctx\<lparr>esys_timeout := -1\<rparr>), outs) of
                    None \<Rightarrow> None
                  | Some None \<Rightarrow> Some None
                  | Some (Some (r, Some ctx', _)) \<Rightarrow> Some (Some (r, Some (ctx'\<lparr>esys_timeout := esys_timeout ctx\<rparr>)))
                  | _ \<Rightarrow> None)))"

lemma one_call_ends:
  assumes A: "esys_async_cmd A" and Fi: "esys_finish_cmd Fi" and p: "patient (esys_link s)"
  shows "one_call_within 7 (A (Some s)) Fi outs \<noteq> Some None \<and>
    context_of (one_call (A (Some s)) Fi outs) = Option.bind (one_call_within 7 (A (Some s)) Fi outs) id"
proof -
  have 1: "finish_calls 7 Fi (Some (t\<lparr>esys_timeout := -1\<rparr>), outs) \<noteq> Some None" if "A (Some s) = Some (0, Some t)" for t
  proof (rule finish_calls_enough [OF Fi])
    from esys_async_cmd.success [OF A that] have t: "esys_state t = ESYS_STATE_SENT" "submissionCount t = 1"
      "transmits (esys_link s) (esys_link t)" "sys_stage (esys_sys t) = Some CMD_STAGE_SEND_COMMAND" by auto
    then have "traffic (Suc 0) (esys_link s) (esys_link t)" by (auto intro: traffic.intros)
    from patient_later [OF p this] show "patient (esys_link (t\<lparr>esys_timeout := -1\<rparr>))" by (simp add: esys_link_def)
    show "calls_left (t\<lparr>esys_timeout := -1\<rparr>) \<le> 7" using t by (simp add: calls_left_def waiting_def ESYS_MAX_SUBMISSIONS_def)
  qed simp
  then have "one_call_within 7 (A (Some s)) Fi outs \<noteq> Some None"
    by (auto simp: one_call_within_def split: option.splits)
  moreover have "context_of (one_call (A (Some s)) Fi outs) = Option.bind (one_call_within 7 (A (Some s)) Fi outs) id"
    using finish_loop_calls [OF 1]
    by (auto simp: one_call_def one_call_within_def context_of_def split: option.splits)
  ultimately show ?thesis ..
qed

end
