(* ===== verification/Esys_Api.thy ===== *)
theory Esys_Api
  imports Esys_Finish_Commands Esys_Termination
begin

text \<open>
  The commands of the enhanced system API as one interface: the sets of the \<open>_Async\<close> functions, of the \<open>_Finish\<close>
  functions and of the functions that do both, each with its parameters applied.  Of the results the return code and
  the context are kept.
\<close>

inductive esys_api_async :: "('t, 'c) api_call \<Rightarrow> bool" where
  api_AC_GetCapability_Async: "esys_api_async (\<lambda>ctx. Esys_AC_GetCapability_Async ctx optionalSession1 optionalSession2 optionalSession3 ac capability
      count)"
| api_AC_Send_Async: "esys_api_async (\<lambda>ctx. Esys_AC_Send_Async ctx sendObject nvAuthHandle optionalSession1 optionalSession2 optionalSession3 ac
      acDataIn)"
| api_ACT_SetTimeout_Async: "esys_api_async (\<lambda>ctx. Esys_ACT_SetTimeout_Async ctx actHandle shandle1 shandle2 shandle3 startTimeout)"
| api_ActivateCredential_Async: "esys_api_async (\<lambda>ctx. Esys_ActivateCredential_Async ctx activateHandle keyHandle shandle1 shandle2 shandle3 credentialBlob
      secret)"
| api_Certify_Async: "esys_api_async (\<lambda>ctx. Esys_Certify_Async ctx objectHandle signHandle shandle1 shandle2 shandle3 qualifyingData inScheme)"
| api_CertifyCreation_Async: "esys_api_async (\<lambda>ctx. Esys_CertifyCreation_Async ctx signHandle objectHandle shandle1 shandle2 shandle3 qualifyingData
      creationHash inScheme creationTicket)"
| api_CertifyX509_Async: "esys_api_async (\<lambda>ctx. Esys_CertifyX509_Async ctx objectHandle signHandle shandle1 shandle2 shandle3 reserved inScheme
      partialCertificate)"
| api_ChangeEPS_Async: "esys_api_async (\<lambda>ctx. Esys_ChangeEPS_Async ctx authHandle shandle1 shandle2 shandle3)"
| api_ChangePPS_Async: "esys_api_async (\<lambda>ctx. Esys_ChangePPS_Async ctx authHandle shandle1 shandle2 shandle3)"
| api_Clear_Async: "esys_api_async (\<lambda>ctx. Esys_Clear_Async ctx authHandle shandle1 shandle2 shandle3)"
| api_ClearControl_Async: "esys_api_async (\<lambda>ctx. Esys_ClearControl_Async ctx auth shandle1 shandle2 shandle3 disable)"
| api_ClockRateAdjust_Async: "esys_api_async (\<lambda>ctx. Esys_ClockRateAdjust_Async ctx auth shandle1 shandle2 shandle3 rateAdjust)"
| api_ClockSet_Async: "esys_api_async (\<lambda>ctx. Esys_ClockSet_Async ctx auth shandle1 shandle2 shandle3 newTime)"
| api_Commit_Async: "esys_api_async (\<lambda>ctx. Esys_Commit_Async ctx signHandle shandle1 shandle2 shandle3 P1 s2 y2)"
| api_ContextLoad_Async: "esys_api_async (\<lambda>ctx. Esys_ContextLoad_Async ctx context')"
| api_ContextSave_Async: "esys_api_async (\<lambda>ctx. Esys_ContextSave_Async ctx saveHandle)"
| api_Create_Async: "esys_api_async (\<lambda>ctx. Esys_Create_Async ctx parentHandle shandle1 shandle2 shandle3 inSensitive inPublic outsideInfo
      creationPCR)"
| api_CreateLoaded_Async: "esys_api_async (\<lambda>ctx. Esys_CreateLoaded_Async ctx parentHandle shandle1 shandle2 shandle3 inSensitive inPublic)"
| api_CreatePrimary_Async: "esys_api_async (\<lambda>ctx. Esys_CreatePrimary_Async ctx primaryHandle shandle1 shandle2 shandle3 inSensitive inPublic
      outsideInfo creationPCR)"
| api_Decapsulate_Async: "esys_api_async (\<lambda>ctx. Esys_Decapsulate_Async ctx keyHandle shandle1 shandle2 shandle3 cipherText label)"
| api_DictionaryAttackLockReset_Async: "esys_api_async (\<lambda>ctx. Esys_DictionaryAttackLockReset_Async ctx lockHandle shandle1 shandle2 shandle3)"
| api_DictionaryAttackParameters_Async: "esys_api_async (\<lambda>ctx. Esys_DictionaryAttackParameters_Async ctx lockHandle shandle1 shandle2 shandle3 newMaxTries
      newRecoveryTime lockoutRecovery)"
| api_Duplicate_Async: "esys_api_async (\<lambda>ctx. Esys_Duplicate_Async ctx objectHandle newParentHandle shandle1 shandle2 shandle3 encryptionKeyIn
      symmetricAlg)"
| api_EC_Ephemeral_Async: "esys_api_async (\<lambda>ctx. Esys_EC_Ephemeral_Async ctx shandle1 shandle2 shandle3 curveID)"
| api_ECC_Decrypt_Async: "esys_api_async (\<lambda>ctx. Esys_ECC_Decrypt_Async ctx keyHandle shandle1 shandle2 shandle3 c1 c2 c3 inScheme)"
| api_ECC_Encrypt_Async: "esys_api_async (\<lambda>ctx. Esys_ECC_Encrypt_Async ctx keyHandle shandle1 shandle2 shandle3 plainText inScheme)"
| api_ECC_Parameters_Async: "esys_api_async (\<lambda>ctx. Esys_ECC_Parameters_Async ctx shandle1 shandle2 shandle3 curveID)"
| api_ECDH_KeyGen_Async: "esys_api_async (\<lambda>ctx. Esys_ECDH_KeyGen_Async ctx keyHandle shandle1 shandle2 shandle3)"
| api_ECDH_ZGen_Async: "esys_api_async (\<lambda>ctx. Esys_ECDH_ZGen_Async ctx keyHandle shandle1 shandle2 shandle3 inPoint)"
| api_Encapsulate_Async: "esys_api_async (\<lambda>ctx. Esys_Encapsulate_Async ctx keyHandle shandle1 shandle2 shandle3 label)"
| api_EncryptDecrypt_Async: "esys_api_async (\<lambda>ctx. Esys_EncryptDecrypt_Async ctx keyHandle shandle1 shandle2 shandle3 decrypt mode ivIn inData)"
| api_EncryptDecrypt2_Async: "esys_api_async (\<lambda>ctx. Esys_EncryptDecrypt2_Async ctx keyHandle shandle1 shandle2 shandle3 inData decrypt mode ivIn)"
| api_EventSequenceComplete_Async: "esys_api_async (\<lambda>ctx. Esys_EventSequenceComplete_Async ctx pcrHandle sequenceHandle shandle1 shandle2 shandle3 buffer)"
| api_EvictControl_Async: "esys_api_async (\<lambda>ctx. Esys_EvictControl_Async ctx auth objectHandle shandle1 shandle2 shandle3 persistentHandle)"
| api_FieldUpgradeData_Async: "esys_api_async (\<lambda>ctx. Esys_FieldUpgradeData_Async ctx shandle1 shandle2 shandle3 fuData)"
| api_FieldUpgradeStart_Async: "esys_api_async (\<lambda>ctx. Esys_FieldUpgradeStart_Async ctx authorization keyHandle shandle1 shandle2 shandle3 fuDigest
      manifestSignature)"
| api_FirmwareRead_Async: "esys_api_async (\<lambda>ctx. Esys_FirmwareRead_Async ctx shandle1 shandle2 shandle3 sequenceNumber)"
| api_FlushContext_Async: "esys_api_async (\<lambda>ctx. Esys_FlushContext_Async ctx flushHandle)"
| api_GetCapability_Async: "esys_api_async (\<lambda>ctx. Esys_GetCapability_Async ctx shandle1 shandle2 shandle3 capability property propertyCount)"
| api_GetCommandAuditDigest_Async: "esys_api_async (\<lambda>ctx. Esys_GetCommandAuditDigest_Async ctx privacyHandle signHandle shandle1 shandle2 shandle3
      qualifyingData inScheme)"
| api_GetRandom_Async: "esys_api_async (\<lambda>ctx. Esys_GetRandom_Async ctx shandle1 shandle2 shandle3 bytesRequested)"
| api_GetSessionAuditDigest_Async: "esys_api_async (\<lambda>ctx. Esys_GetSessionAuditDigest_Async ctx privacyAdminHandle signHandle sessionHandle shandle1 shandle2
      shandle3 qualifyingData inScheme)"
| api_GetTestResult_Async: "esys_api_async (\<lambda>ctx. Esys_GetTestResult_Async ctx shandle1 shandle2 shandle3)"
| api_GetTime_Async: "esys_api_async (\<lambda>ctx. Esys_GetTime_Async ctx privacyAdminHandle signHandle shandle1 shandle2 shandle3 qualifyingData
      inScheme)"
| api_Hash_Async: "esys_api_async (\<lambda>ctx. Esys_Hash_Async ctx shandle1 shandle2 shandle3 data hashAlg hierarchy)"
| api_HashSequenceStart_Async: "esys_api_async (\<lambda>ctx. Esys_HashSequenceStart_Async ctx shandle1 shandle2 shandle3 auth hashAlg)"
| api_HierarchyChangeAuth_Async: "esys_api_async (\<lambda>ctx. Esys_HierarchyChangeAuth_Async ctx authHandle shandle1 shandle2 shandle3 newAuth)"
| api_HierarchyControl_Async: "esys_api_async (\<lambda>ctx. Esys_HierarchyControl_Async ctx authHandle shandle1 shandle2 shandle3 enable state)"
| api_HMAC_Async: "esys_api_async (\<lambda>ctx. Esys_HMAC_Async ctx handle shandle1 shandle2 shandle3 buffer hashAlg)"
| api_HMAC_Start_Async: "esys_api_async (\<lambda>ctx. Esys_HMAC_Start_Async ctx handle shandle1 shandle2 shandle3 auth hashAlg)"
| api_Import_Async: "esys_api_async (\<lambda>ctx. Esys_Import_Async ctx parentHandle shandle1 shandle2 shandle3 encryptionKey objectPublic duplicate
      inSymSeed symmetricAlg)"
| api_IncrementalSelfTest_Async: "esys_api_async (\<lambda>ctx. Esys_IncrementalSelfTest_Async ctx shandle1 shandle2 shandle3 toTest)"
| api_Load_Async: "esys_api_async (\<lambda>ctx. Esys_Load_Async ctx parentHandle shandle1 shandle2 shandle3 inPrivate inPublic)"
| api_LoadExternal_Async: "esys_api_async (\<lambda>ctx. Esys_LoadExternal_Async ctx shandle1 shandle2 shandle3 inPrivate inPublic hierarchy)"
| api_MAC_Async: "esys_api_async (\<lambda>ctx. Esys_MAC_Async ctx handle handleSession1 optionalSession2 optionalSession3 buffer inScheme)"
| api_MAC_Start_Async: "esys_api_async (\<lambda>ctx. Esys_MAC_Start_Async ctx handle handleSession1 optionalSession2 optionalSession3 auth inScheme)"
| api_MakeCredential_Async: "esys_api_async (\<lambda>ctx. Esys_MakeCredential_Async ctx handle shandle1 shandle2 shandle3 credential objectName)"
| api_NV_Certify_Async: "esys_api_async (\<lambda>ctx. Esys_NV_Certify_Async ctx signHandle authHandle nvIndex shandle1 shandle2 shandle3 qualifyingData
      inScheme size' offset)"
| api_NV_ChangeAuth_Async: "esys_api_async (\<lambda>ctx. Esys_NV_ChangeAuth_Async ctx nvIndex shandle1 shandle2 shandle3 newAuth)"
| api_NV_DefineSpace_Async: "esys_api_async (\<lambda>ctx. Esys_NV_DefineSpace_Async ctx authHandle shandle1 shandle2 shandle3 auth publicInfo)"
| api_NV_Extend_Async: "esys_api_async (\<lambda>ctx. Esys_NV_Extend_Async ctx authHandle nvIndex shandle1 shandle2 shandle3 data)"
| api_NV_GlobalWriteLock_Async: "esys_api_async (\<lambda>ctx. Esys_NV_GlobalWriteLock_Async ctx authHandle shandle1 shandle2 shandle3)"
| api_NV_Increment_Async: "esys_api_async (\<lambda>ctx. Esys_NV_Increment_Async ctx authHandle nvIndex shandle1 shandle2 shandle3)"
| api_NV_Read_Async: "esys_api_async (\<lambda>ctx. Esys_NV_Read_Async ctx authHandle nvIndex shandle1 shandle2 shandle3 size' offset)"
| api_NV_ReadLock_Async: "esys_api_async (\<lambda>ctx. Esys_NV_ReadLock_Async ctx authHandle nvIndex shandle1 shandle2 shandle3)"
| api_NV_ReadPublic_Async: "esys_api_async (\<lambda>ctx. Esys_NV_ReadPublic_Async ctx nvIndex shandle1 shandle2 shandle3)"
| api_NV_SetBits_Async: "esys_api_async (\<lambda>ctx. Esys_NV_SetBits_Async ctx authHandle nvIndex shandle1 shandle2 shandle3 bits)"
| api_NV_UndefineSpace_Async: "esys_api_async (\<lambda>ctx. Esys_NV_UndefineSpace_Async ctx authHandle nvIndex shandle1 shandle2 shandle3)"
| api_NV_UndefineSpaceSpecial_Async: "esys_api_async (\<lambda>ctx. Esys_NV_UndefineSpaceSpecial_Async ctx nvIndex platform shandle1 shandle2 shandle3)"
| api_NV_Write_Async: "esys_api_async (\<lambda>ctx. Esys_NV_Write_Async ctx authHandle nvIndex shandle1 shandle2 shandle3 data offset)"
| api_NV_WriteLock_Async: "esys_api_async (\<lambda>ctx. Esys_NV_WriteLock_Async ctx authHandle nvIndex shandle1 shandle2 shandle3)"
| api_ObjectChangeAuth_Async: "esys_api_async (\<lambda>ctx. Esys_ObjectChangeAuth_Async ctx objectHandle parentHandle shandle1 shandle2 shandle3 newAuth)"
| api_PCR_Allocate_Async: "esys_api_async (\<lambda>ctx. Esys_PCR_Allocate_Async ctx authHandle shandle1 shandle2 shandle3 pcrAllocation)"
| api_PCR_Event_Async: "esys_api_async (\<lambda>ctx. Esys_PCR_Event_Async ctx pcrHandle shandle1 shandle2 shandle3 eventData)"
| api_PCR_Extend_Async: "esys_api_async (\<lambda>ctx. Esys_PCR_Extend_Async ctx pcrHandle shandle1 shandle2 shandle3 digests)"
| api_PCR_Read_Async: "esys_api_async (\<lambda>ctx. Esys_PCR_Read_Async ctx shandle1 shandle2 shandle3 pcrSelectionIn)"
| api_PCR_Reset_Async: "esys_api_async (\<lambda>ctx. Esys_PCR_Reset_Async ctx pcrHandle shandle1 shandle2 shandle3)"
| api_PCR_SetAuthPolicy_Async: "esys_api_async (\<lambda>ctx. Esys_PCR_SetAuthPolicy_Async ctx authHandle shandle1 shandle2 shandle3 authPolicy hashAlg pcrNum)"
| api_PCR_SetAuthValue_Async: "esys_api_async (\<lambda>ctx. Esys_PCR_SetAuthValue_Async ctx pcrHandle shandle1 shandle2 shandle3 auth)"
| api_Policy_AC_SendSelect_Async: "esys_api_async (\<lambda>ctx. Esys_Policy_AC_SendSelect_Async ctx policySession1 optionalSession2 optionalSession3 objectName
      authHandleName acName includeObject)"
| api_PolicyAuthorize_Async: "esys_api_async (\<lambda>ctx. Esys_PolicyAuthorize_Async ctx policySession shandle1 shandle2 shandle3 approvedPolicy policyRef
      keySign checkTicket)"
| api_PolicyAuthorizeNV_Async: "esys_api_async (\<lambda>ctx. Esys_PolicyAuthorizeNV_Async ctx authHandle nvIndex policySession shandle1 shandle2 shandle3)"
| api_PolicyAuthValue_Async: "esys_api_async (\<lambda>ctx. Esys_PolicyAuthValue_Async ctx policySession shandle1 shandle2 shandle3)"
| api_PolicyCommandCode_Async: "esys_api_async (\<lambda>ctx. Esys_PolicyCommandCode_Async ctx policySession shandle1 shandle2 shandle3 code)"
| api_PolicyCounterTimer_Async: "esys_api_async (\<lambda>ctx. Esys_PolicyCounterTimer_Async ctx policySession shandle1 shandle2 shandle3 operandB offset
      operation)"
| api_PolicyCpHash_Async: "esys_api_async (\<lambda>ctx. Esys_PolicyCpHash_Async ctx policySession shandle1 shandle2 shandle3 cpHashA)"
| api_PolicyDuplicationSelect_Async: "esys_api_async (\<lambda>ctx. Esys_PolicyDuplicationSelect_Async ctx policySession shandle1 shandle2 shandle3 objectName
      newParentName includeObject)"
| api_PolicyGetDigest_Async: "esys_api_async (\<lambda>ctx. Esys_PolicyGetDigest_Async ctx policySession shandle1 shandle2 shandle3)"
| api_PolicyLocality_Async: "esys_api_async (\<lambda>ctx. Esys_PolicyLocality_Async ctx policySession shandle1 shandle2 shandle3 locality)"
| api_PolicyNameHash_Async: "esys_api_async (\<lambda>ctx. Esys_PolicyNameHash_Async ctx policySession shandle1 shandle2 shandle3 nameHash)"
| api_PolicyNV_Async: "esys_api_async (\<lambda>ctx. Esys_PolicyNV_Async ctx authHandle nvIndex policySession shandle1 shandle2 shandle3 operandB offset
      operation)"
| api_PolicyNvWritten_Async: "esys_api_async (\<lambda>ctx. Esys_PolicyNvWritten_Async ctx policySession shandle1 shandle2 shandle3 writtenSet)"
| api_PolicyOR_Async: "esys_api_async (\<lambda>ctx. Esys_PolicyOR_Async ctx policySession shandle1 shandle2 shandle3 pHashList)"
| api_PolicyPassword_Async: "esys_api_async (\<lambda>ctx. Esys_PolicyPassword_Async ctx policySession shandle1 shandle2 shandle3)"
| api_PolicyPCR_Async: "esys_api_async (\<lambda>ctx. Esys_PolicyPCR_Async ctx policySession shandle1 shandle2 shandle3 pcrDigest pcrs)"
| api_PolicyPhysicalPresence_Async: "esys_api_async (\<lambda>ctx. Esys_PolicyPhysicalPresence_Async ctx policySession shandle1 shandle2 shandle3)"
| api_PolicyRestart_Async: "esys_api_async (\<lambda>ctx. Esys_PolicyRestart_Async ctx sessionHandle shandle1 shandle2 shandle3)"
| api_PolicySecret_Async: "esys_api_async (\<lambda>ctx. Esys_PolicySecret_Async ctx authHandle policySession shandle1 shandle2 shandle3 nonceTPM cpHashA
      policyRef expiration)"
| api_PolicySigned_Async: "esys_api_async (\<lambda>ctx. Esys_PolicySigned_Async ctx authObject policySession shandle1 shandle2 shandle3 nonceTPM cpHashA
      policyRef expiration auth)"
| api_PolicyTemplate_Async: "esys_api_async (\<lambda>ctx. Esys_PolicyTemplate_Async ctx policySession shandle1 shandle2 shandle3 templateHash)"
| api_PolicyTicket_Async: "esys_api_async (\<lambda>ctx. Esys_PolicyTicket_Async ctx policySession shandle1 shandle2 shandle3 timeout cpHashA policyRef
      authName ticket)"
| api_PP_Commands_Async: "esys_api_async (\<lambda>ctx. Esys_PP_Commands_Async ctx auth shandle1 shandle2 shandle3 setList clearList)"
| api_Quote_Async: "esys_api_async (\<lambda>ctx. Esys_Quote_Async ctx signHandle shandle1 shandle2 shandle3 qualifyingData inScheme PCRselect)"
| api_ReadClock_Async: "esys_api_async (\<lambda>ctx. Esys_ReadClock_Async ctx shandle1 shandle2 shandle3)"
| api_ReadPublic_Async: "esys_api_async (\<lambda>ctx. Esys_ReadPublic_Async ctx objectHandle shandle1 shandle2 shandle3)"
| api_Rewrap_Async: "esys_api_async (\<lambda>ctx. Esys_Rewrap_Async ctx oldParent newParent shandle1 shandle2 shandle3 inDuplicate name inSymSeed)"
| api_RSA_Decrypt_Async: "esys_api_async (\<lambda>ctx. Esys_RSA_Decrypt_Async ctx keyHandle shandle1 shandle2 shandle3 cipherText inScheme label)"
| api_RSA_Encrypt_Async: "esys_api_async (\<lambda>ctx. Esys_RSA_Encrypt_Async ctx keyHandle shandle1 shandle2 shandle3 message inScheme label)"
| api_SelfTest_Async: "esys_api_async (\<lambda>ctx. Esys_SelfTest_Async ctx shandle1 shandle2 shandle3 fullTest)"
| api_SequenceComplete_Async: "esys_api_async (\<lambda>ctx. Esys_SequenceComplete_Async ctx sequenceHandle shandle1 shandle2 shandle3 buffer hierarchy)"
| api_SequenceUpdate_Async: "esys_api_async (\<lambda>ctx. Esys_SequenceUpdate_Async ctx sequenceHandle shandle1 shandle2 shandle3 buffer)"
| api_SetAlgorithmSet_Async: "esys_api_async (\<lambda>ctx. Esys_SetAlgorithmSet_Async ctx authHandle shandle1 shandle2 shandle3 algorithmSet)"
| api_SetCommandCodeAuditStatus_Async: "esys_api_async (\<lambda>ctx. Esys_SetCommandCodeAuditStatus_Async ctx auth shandle1 shandle2 shandle3 auditAlg setList clearList)"
| api_SetPrimaryPolicy_Async: "esys_api_async (\<lambda>ctx. Esys_SetPrimaryPolicy_Async ctx authHandle shandle1 shandle2 shandle3 authPolicy hashAlg)"
| api_Shutdown_Async: "esys_api_async (\<lambda>ctx. Esys_Shutdown_Async ctx shandle1 shandle2 shandle3 shutdownType)"
| api_Sign_Async: "esys_api_async (\<lambda>ctx. Esys_Sign_Async ctx keyHandle shandle1 shandle2 shandle3 digest inScheme validation)"
| api_SignDigest_Async: "esys_api_async (\<lambda>ctx. Esys_SignDigest_Async ctx keyHandle shandle1 shandle2 shandle3 digest inScheme validation)"
| api_SignSequenceComplete_Async: "esys_api_async (\<lambda>ctx. Esys_SignSequenceComplete_Async ctx sequenceHandle shandle1 shandle2 shandle3 buffer)"
| api_SignSequenceStart_Async: "esys_api_async (\<lambda>ctx. Esys_SignSequenceStart_Async ctx keyHandle shandle1 shandle2 shandle3 inScheme keyB)"
| api_StartAuthSession_Async: "esys_api_async (\<lambda>ctx. Esys_StartAuthSession_Async ctx tpmKey bind shandle1 shandle2 shandle3 nonceCaller sessionType
      symmetric authHash)"
| api_Startup_Async: "esys_api_async (\<lambda>ctx. Esys_Startup_Async ctx startupType)"
| api_StirRandom_Async: "esys_api_async (\<lambda>ctx. Esys_StirRandom_Async ctx shandle1 shandle2 shandle3 inData)"
| api_TestParms_Async: "esys_api_async (\<lambda>ctx. Esys_TestParms_Async ctx shandle1 shandle2 shandle3 parameters)"
| api_Unseal_Async: "esys_api_async (\<lambda>ctx. Esys_Unseal_Async ctx itemHandle shandle1 shandle2 shandle3)"
| api_Vendor_TCG_Test_Async: "esys_api_async (\<lambda>ctx. Esys_Vendor_TCG_Test_Async ctx shandle1 shandle2 shandle3 inputData)"
| api_VerifyDigestSignature_Async: "esys_api_async (\<lambda>ctx. Esys_VerifyDigestSignature_Async ctx keyHandle shandle1 shandle2 shandle3 digest signature)"
| api_VerifySequenceComplete_Async: "esys_api_async (\<lambda>ctx. Esys_VerifySequenceComplete_Async ctx sequenceHandle shandle1 shandle2 shandle3 buffer)"
| api_VerifySequenceStart_Async: "esys_api_async (\<lambda>ctx. Esys_VerifySequenceStart_Async ctx keyHandle shandle1 shandle2 shandle3 signature)"
| api_VerifySignature_Async: "esys_api_async (\<lambda>ctx. Esys_VerifySignature_Async ctx keyHandle shandle1 shandle2 shandle3 digest signature)"
| api_ZGen_2Phase_Async: "esys_api_async (\<lambda>ctx. Esys_ZGen_2Phase_Async ctx keyA shandle1 shandle2 shandle3 inQsB inQeB inScheme counter)"

inductive esys_api_finish :: "('t, 'c) api_call \<Rightarrow> bool" where
  api_AC_GetCapability_Finish: "esys_api_finish (\<lambda>ctx. context_of (Esys_AC_GetCapability_Finish (ctx, (outs :: _ \<times> _ \<times> unit))))"
| api_AC_Send_Finish: "esys_api_finish (\<lambda>ctx. context_of (Esys_AC_Send_Finish (ctx, (outs :: _ \<times> unit))))"
| api_ACT_SetTimeout_Finish: "esys_api_finish (\<lambda>ctx. context_of (Esys_ACT_SetTimeout_Finish (ctx, (outs :: unit))))"
| api_ActivateCredential_Finish: "esys_api_finish (\<lambda>ctx. context_of (Esys_ActivateCredential_Finish (ctx, (outs :: _ \<times> unit))))"
| api_Certify_Finish: "esys_api_finish (\<lambda>ctx. context_of (Esys_Certify_Finish (ctx, (outs :: _ \<times> _ \<times> unit))))"
| api_CertifyCreation_Finish: "esys_api_finish (\<lambda>ctx. context_of (Esys_CertifyCreation_Finish (ctx, (outs :: _ \<times> _ \<times> unit))))"
| api_CertifyX509_Finish: "esys_api_finish (\<lambda>ctx. context_of (Esys_CertifyX509_Finish (ctx, (outs :: _ \<times> _ \<times> _ \<times> unit))))"
| api_ChangeEPS_Finish: "esys_api_finish (\<lambda>ctx. context_of (Esys_ChangeEPS_Finish (ctx, (outs :: unit))))"
| api_ChangePPS_Finish: "esys_api_finish (\<lambda>ctx. context_of (Esys_ChangePPS_Finish (ctx, (outs :: unit))))"
| api_Clear_Finish: "esys_api_finish (\<lambda>ctx. context_of (Esys_Clear_Finish (ctx, (outs :: unit))))"
| api_ClearControl_Finish: "esys_api_finish (\<lambda>ctx. context_of (Esys_ClearControl_Finish (ctx, (outs :: unit))))"
| api_ClockRateAdjust_Finish: "esys_api_finish (\<lambda>ctx. context_of (Esys_ClockRateAdjust_Finish (ctx, (outs :: unit))))"
| api_ClockSet_Finish: "esys_api_finish (\<lambda>ctx. context_of (Esys_ClockSet_Finish (ctx, (outs :: unit))))"
| api_Commit_Finish: "esys_api_finish (\<lambda>ctx. context_of (Esys_Commit_Finish (ctx, (outs :: _ \<times> _ \<times> _ \<times> _ \<times> unit))))"
| api_ContextLoad_Finish: "esys_api_finish (\<lambda>ctx. context_of (Esys_ContextLoad_Finish (ctx, (outs :: _ \<times> unit))))"
| api_ContextSave_Finish: "esys_api_finish (\<lambda>ctx. context_of (Esys_ContextSave_Finish (ctx, (outs :: _ \<times> unit))))"
| api_Create_Finish: "esys_api_finish (\<lambda>ctx. context_of (Esys_Create_Finish (ctx, (outs :: _ \<times> _ \<times> _ \<times> _ \<times> _ \<times> unit))))"
| api_CreateLoaded_Finish: "esys_api_finish (\<lambda>ctx. context_of (Esys_CreateLoaded_Finish (ctx, (outs :: _ \<times> _ \<times> _ \<times> unit))))"
| api_CreatePrimary_Finish: "esys_api_finish (\<lambda>ctx. context_of (Esys_CreatePrimary_Finish (ctx, (outs :: _ \<times> _ \<times> _ \<times> _ \<times> _ \<times> unit))))"
| api_Decapsulate_Finish: "esys_api_finish (\<lambda>ctx. context_of (Esys_Decapsulate_Finish (ctx, (outs :: _ \<times> unit))))"
| api_DictionaryAttackLockReset_Finish: "esys_api_finish (\<lambda>ctx. context_of (Esys_DictionaryAttackLockReset_Finish (ctx, (outs :: unit))))"
| api_DictionaryAttackParameters_Finish: "esys_api_finish (\<lambda>ctx. context_of (Esys_DictionaryAttackParameters_Finish (ctx, (outs :: unit))))"
| api_Duplicate_Finish: "esys_api_finish (\<lambda>ctx. context_of (Esys_Duplicate_Finish (ctx, (outs :: _ \<times> _ \<times> _ \<times> unit))))"
| api_EC_Ephemeral_Finish: "esys_api_finish (\<lambda>ctx. context_of (Esys_EC_Ephemeral_Finish (ctx, (outs :: _ \<times> _ \<times> unit))))"
| api_ECC_Decrypt_Finish: "esys_api_finish (\<lambda>ctx. context_of (Esys_ECC_Decrypt_Finish (ctx, (outs :: _ \<times> unit))))"
| api_ECC_Encrypt_Finish: "esys_api_finish (\<lambda>ctx. context_of (Esys_ECC_Encrypt_Finish (ctx, (outs :: _ \<times> _ \<times> _ \<times> unit))))"
| api_ECC_Parameters_Finish: "esys_api_finish (\<lambda>ctx. context_of (Esys_ECC_Parameters_Finish (ctx, (outs :: _ \<times> unit))))"
| api_ECDH_KeyGen_Finish: "esys_api_finish (\<lambda>ctx. context_of (Esys_ECDH_KeyGen_Finish (ctx, (outs :: _ \<times> _ \<times> unit))))"
| api_ECDH_ZGen_Finish: "esys_api_finish (\<lambda>ctx. context_of (Esys_ECDH_ZGen_Finish (ctx, (outs :: _ \<times> unit))))"
| api_Encapsulate_Finish: "esys_api_finish (\<lambda>ctx. context_of (Esys_Encapsulate_Finish (ctx, (outs :: _ \<times> _ \<times> unit))))"
| api_EncryptDecrypt_Finish: "esys_api_finish (\<lambda>ctx. context_of (Esys_EncryptDecrypt_Finish (ctx, (outs :: _ \<times> _ \<times> unit))))"
| api_EncryptDecrypt2_Finish: "esys_api_finish (\<lambda>ctx. context_of (Esys_EncryptDecrypt2_Finish (ctx, (outs :: _ \<times> _ \<times> unit))))"
| api_EventSequenceComplete_Finish: "esys_api_finish (\<lambda>ctx. context_of (Esys_EventSequenceComplete_Finish (ctx, (outs :: _ \<times> unit))))"
| api_EvictControl_Finish: "esys_api_finish (\<lambda>ctx. context_of (Esys_EvictControl_Finish (ctx, (outs :: _ \<times> unit))))"
| api_FieldUpgradeData_Finish: "esys_api_finish (\<lambda>ctx. context_of (Esys_FieldUpgradeData_Finish (ctx, (outs :: _ \<times> _ \<times> unit))))"
| api_FieldUpgradeStart_Finish: "esys_api_finish (\<lambda>ctx. context_of (Esys_FieldUpgradeStart_Finish (ctx, (outs :: unit))))"
| api_FirmwareRead_Finish: "esys_api_finish (\<lambda>ctx. context_of (Esys_FirmwareRead_Finish (ctx, (outs :: _ \<times> unit))))"
| api_FlushContext_Finish: "esys_api_finish (\<lambda>ctx. context_of (Esys_FlushContext_Finish (ctx, (outs :: unit))))"
| api_GetCapability_Finish: "esys_api_finish (\<lambda>ctx. context_of (Esys_GetCapability_Finish (ctx, (outs :: _ \<times> _ \<times> unit))))"
| api_GetCommandAuditDigest_Finish: "esys_api_finish (\<lambda>ctx. context_of (Esys_GetCommandAuditDigest_Finish (ctx, (outs :: _ \<times> _ \<times> unit))))"
| api_GetRandom_Finish: "esys_api_finish (\<lambda>ctx. context_of (Esys_GetRandom_Finish (ctx, (outs :: _ \<times> unit))))"
| api_GetSessionAuditDigest_Finish: "esys_api_finish (\<lambda>ctx. context_of (Esys_GetSessionAuditDigest_Finish (ctx, (outs :: _ \<times> _ \<times> unit))))"
| api_GetTestResult_Finish: "esys_api_finish (\<lambda>ctx. context_of (Esys_GetTestResult_Finish (ctx, (outs :: _ \<times> _ \<times> unit))))"
| api_GetTime_Finish: "esys_api_finish (\<lambda>ctx. context_of (Esys_GetTime_Finish (ctx, (outs :: _ \<times> _ \<times> unit))))"
| api_Hash_Finish: "esys_api_finish (\<lambda>ctx. context_of (Esys_Hash_Finish (ctx, (outs :: _ \<times> _ \<times> unit))))"
| api_HashSequenceStart_Finish: "esys_api_finish (\<lambda>ctx. context_of (Esys_HashSequenceStart_Finish (ctx, (outs :: _ \<times> unit))))"
| api_HierarchyChangeAuth_Finish: "esys_api_finish (\<lambda>ctx. context_of (Esys_HierarchyChangeAuth_Finish (ctx, (outs :: unit))))"
| api_HierarchyControl_Finish: "esys_api_finish (\<lambda>ctx. context_of (Esys_HierarchyControl_Finish (ctx, (outs :: unit))))"
| api_HMAC_Finish: "esys_api_finish (\<lambda>ctx. context_of (Esys_HMAC_Finish (ctx, (outs :: _ \<times> unit))))"
| api_HMAC_Start_Finish: "esys_api_finish (\<lambda>ctx. context_of (Esys_HMAC_Start_Finish (ctx, (outs :: _ \<times> unit))))"
| api_Import_Finish: "esys_api_finish (\<lambda>ctx. context_of (Esys_Import_Finish (ctx, (outs :: _ \<times> unit))))"
| api_IncrementalSelfTest_Finish: "esys_api_finish (\<lambda>ctx. context_of (Esys_IncrementalSelfTest_Finish (ctx, (outs :: _ \<times> unit))))"
| api_Load_Finish: "esys_api_finish (\<lambda>ctx. context_of (Esys_Load_Finish (ctx, (outs :: _ \<times> unit))))"
| api_LoadExternal_Finish: "esys_api_finish (\<lambda>ctx. context_of (Esys_LoadExternal_Finish (ctx, (outs :: _ \<times> unit))))"
| api_MAC_Finish: "esys_api_finish (\<lambda>ctx. context_of (Esys_MAC_Finish (ctx, (outs :: _ \<times> unit))))"
| api_MAC_Start_Finish: "esys_api_finish (\<lambda>ctx. context_of (Esys_MAC_Start_Finish (ctx, (outs :: _ \<times> unit))))"
| api_MakeCredential_Finish: "esys_api_finish (\<lambda>ctx. context_of (Esys_MakeCredential_Finish (ctx, (outs :: _ \<times> _ \<times> unit))))"
| api_NV_Certify_Finish: "esys_api_finish (\<lambda>ctx. context_of (Esys_NV_Certify_Finish (ctx, (outs :: _ \<times> _ \<times> unit))))"
| api_NV_ChangeAuth_Finish: "esys_api_finish (\<lambda>ctx. context_of (Esys_NV_ChangeAuth_Finish (ctx, (outs :: unit))))"
| api_NV_DefineSpace_Finish: "esys_api_finish (\<lambda>ctx. context_of (Esys_NV_DefineSpace_Finish (ctx, (outs :: _ \<times> unit))))"
| api_NV_Extend_Finish: "esys_api_finish (\<lambda>ctx. context_of (Esys_NV_Extend_Finish (ctx, (outs :: unit))))"
| api_NV_GlobalWriteLock_Finish: "esys_api_finish (\<lambda>ctx. context_of (Esys_NV_GlobalWriteLock_Finish (ctx, (outs :: unit))))"
| api_NV_Increment_Finish: "esys_api_finish (\<lambda>ctx. context_of (Esys_NV_Increment_Finish (ctx, (outs :: unit))))"
| api_NV_Read_Finish: "esys_api_finish (\<lambda>ctx. context_of (Esys_NV_Read_Finish (ctx, (outs :: _ \<times> unit))))"
| api_NV_ReadLock_Finish: "esys_api_finish (\<lambda>ctx. context_of (Esys_NV_ReadLock_Finish (ctx, (outs :: unit))))"
| api_NV_ReadPublic_Finish: "esys_api_finish (\<lambda>ctx. context_of (Esys_NV_ReadPublic_Finish (ctx, (outs :: _ \<times> _ \<times> unit))))"
| api_NV_SetBits_Finish: "esys_api_finish (\<lambda>ctx. context_of (Esys_NV_SetBits_Finish (ctx, (outs :: unit))))"
| api_NV_UndefineSpace_Finish: "esys_api_finish (\<lambda>ctx. context_of (Esys_NV_UndefineSpace_Finish (ctx, (outs :: unit))))"
| api_NV_UndefineSpaceSpecial_Finish: "esys_api_finish (\<lambda>ctx. context_of (Esys_NV_UndefineSpaceSpecial_Finish (ctx, (outs :: unit))))"
| api_NV_Write_Finish: "esys_api_finish (\<lambda>ctx. context_of (Esys_NV_Write_Finish (ctx, (outs :: unit))))"
| api_NV_WriteLock_Finish: "esys_api_finish (\<lambda>ctx. context_of (Esys_NV_WriteLock_Finish (ctx, (outs :: unit))))"
| api_ObjectChangeAuth_Finish: "esys_api_finish (\<lambda>ctx. context_of (Esys_ObjectChangeAuth_Finish (ctx, (outs :: _ \<times> unit))))"
| api_PCR_Allocate_Finish: "esys_api_finish (\<lambda>ctx. context_of (Esys_PCR_Allocate_Finish (ctx, (outs :: _ \<times> _ \<times> _ \<times> _ \<times> unit))))"
| api_PCR_Event_Finish: "esys_api_finish (\<lambda>ctx. context_of (Esys_PCR_Event_Finish (ctx, (outs :: _ \<times> unit))))"
| api_PCR_Extend_Finish: "esys_api_finish (\<lambda>ctx. context_of (Esys_PCR_Extend_Finish (ctx, (outs :: unit))))"
| api_PCR_Read_Finish: "esys_api_finish (\<lambda>ctx. context_of (Esys_PCR_Read_Finish (ctx, (outs :: _ \<times> _ \<times> _ \<times> unit))))"
| api_PCR_Reset_Finish: "esys_api_finish (\<lambda>ctx. context_of (Esys_PCR_Reset_Finish (ctx, (outs :: unit))))"
| api_PCR_SetAuthPolicy_Finish: "esys_api_finish (\<lambda>ctx. context_of (Esys_PCR_SetAuthPolicy_Finish (ctx, (outs :: unit))))"
| api_PCR_SetAuthValue_Finish: "esys_api_finish (\<lambda>ctx. context_of (Esys_PCR_SetAuthValue_Finish (ctx, (outs :: unit))))"
| api_Policy_AC_SendSelect_Finish: "esys_api_finish (\<lambda>ctx. context_of (Esys_Policy_AC_SendSelect_Finish (ctx, (outs :: unit))))"
| api_PolicyAuthorize_Finish: "esys_api_finish (\<lambda>ctx. context_of (Esys_PolicyAuthorize_Finish (ctx, (outs :: unit))))"
| api_PolicyAuthorizeNV_Finish: "esys_api_finish (\<lambda>ctx. context_of (Esys_PolicyAuthorizeNV_Finish (ctx, (outs :: unit))))"
| api_PolicyAuthValue_Finish: "esys_api_finish (\<lambda>ctx. context_of (Esys_PolicyAuthValue_Finish (ctx, (outs :: unit))))"
| api_PolicyCommandCode_Finish: "esys_api_finish (\<lambda>ctx. context_of (Esys_PolicyCommandCode_Finish (ctx, (outs :: unit))))"
| api_PolicyCounterTimer_Finish: "esys_api_finish (\<lambda>ctx. context_of (Esys_PolicyCounterTimer_Finish (ctx, (outs :: unit))))"
| api_PolicyCpHash_Finish: "esys_api_finish (\<lambda>ctx. context_of (Esys_PolicyCpHash_Finish (ctx, (outs :: unit))))"
| api_PolicyDuplicationSelect_Finish: "esys_api_finish (\<lambda>ctx. context_of (Esys_PolicyDuplicationSelect_Finish (ctx, (outs :: unit))))"
| api_PolicyGetDigest_Finish: "esys_api_finish (\<lambda>ctx. context_of (Esys_PolicyGetDigest_Finish (ctx, (outs :: _ \<times> unit))))"
| api_PolicyLocality_Finish: "esys_api_finish (\<lambda>ctx. context_of (Esys_PolicyLocality_Finish (ctx, (outs :: unit))))"
| api_PolicyNameHash_Finish: "esys_api_finish (\<lambda>ctx. context_of (Esys_PolicyNameHash_Finish (ctx, (outs :: unit))))"
| api_PolicyNV_Finish: "esys_api_finish (\<lambda>ctx. context_of (Esys_PolicyNV_Finish (ctx, (outs :: unit))))"
| api_PolicyNvWritten_Finish: "esys_api_finish (\<lambda>ctx. context_of (Esys_PolicyNvWritten_Finish (ctx, (outs :: unit))))"
| api_PolicyOR_Finish: "esys_api_finish (\<lambda>ctx. context_of (Esys_PolicyOR_Finish (ctx, (outs :: unit))))"
| api_PolicyPassword_Finish: "esys_api_finish (\<lambda>ctx. context_of (Esys_PolicyPassword_Finish (ctx, (outs :: unit))))"
| api_PolicyPCR_Finish: "esys_api_finish (\<lambda>ctx. context_of (Esys_PolicyPCR_Finish (ctx, (outs :: unit))))"
| api_PolicyPhysicalPresence_Finish: "esys_api_finish (\<lambda>ctx. context_of (Esys_PolicyPhysicalPresence_Finish (ctx, (outs :: unit))))"
| api_PolicyRestart_Finish: "esys_api_finish (\<lambda>ctx. context_of (Esys_PolicyRestart_Finish (ctx, (outs :: unit))))"
| api_PolicySecret_Finish: "esys_api_finish (\<lambda>ctx. context_of (Esys_PolicySecret_Finish (ctx, (outs :: _ \<times> _ \<times> unit))))"
| api_PolicySigned_Finish: "esys_api_finish (\<lambda>ctx. context_of (Esys_PolicySigned_Finish (ctx, (outs :: _ \<times> _ \<times> unit))))"
| api_PolicyTemplate_Finish: "esys_api_finish (\<lambda>ctx. context_of (Esys_PolicyTemplate_Finish (ctx, (outs :: unit))))"
| api_PolicyTicket_Finish: "esys_api_finish (\<lambda>ctx. context_of (Esys_PolicyTicket_Finish (ctx, (outs :: unit))))"
| api_PP_Commands_Finish: "esys_api_finish (\<lambda>ctx. context_of (Esys_PP_Commands_Finish (ctx, (outs :: unit))))"
| api_Quote_Finish: "esys_api_finish (\<lambda>ctx. context_of (Esys_Quote_Finish (ctx, (outs :: _ \<times> _ \<times> unit))))"
| api_ReadClock_Finish: "esys_api_finish (\<lambda>ctx. context_of (Esys_ReadClock_Finish (ctx, (outs :: _ \<times> unit))))"
| api_ReadPublic_Finish: "esys_api_finish (\<lambda>ctx. context_of (Esys_ReadPublic_Finish (ctx, (outs :: _ \<times> _ \<times> _ \<times> unit))))"
| api_Rewrap_Finish: "esys_api_finish (\<lambda>ctx. context_of (Esys_Rewrap_Finish (ctx, (outs :: _ \<times> _ \<times> unit))))"
| api_RSA_Decrypt_Finish: "esys_api_finish (\<lambda>ctx. context_of (Esys_RSA_Decrypt_Finish (ctx, (outs :: _ \<times> unit))))"
| api_RSA_Encrypt_Finish: "esys_api_finish (\<lambda>ctx. context_of (Esys_RSA_Encrypt_Finish (ctx, (outs :: _ \<times> unit))))"
| api_SelfTest_Finish: "esys_api_finish (\<lambda>ctx. context_of (Esys_SelfTest_Finish (ctx, (outs :: unit))))"
| api_SequenceComplete_Finish: "esys_api_finish (\<lambda>ctx. context_of (Esys_SequenceComplete_Finish (ctx, (outs :: _ \<times> _ \<times> unit))))"
| api_SequenceUpdate_Finish: "esys_api_finish (\<lambda>ctx. context_of (Esys_SequenceUpdate_Finish (ctx, (outs :: unit))))"
| api_SetAlgorithmSet_Finish: "esys_api_finish (\<lambda>ctx. context_of (Esys_SetAlgorithmSet_Finish (ctx, (outs :: unit))))"
| api_SetCommandCodeAuditStatus_Finish: "esys_api_finish (\<lambda>ctx. context_of (Esys_SetCommandCodeAuditStatus_Finish (ctx, (outs :: unit))))"
| api_SetPrimaryPolicy_Finish: "esys_api_finish (\<lambda>ctx. context_of (Esys_SetPrimaryPolicy_Finish (ctx, (outs :: unit))))"
| api_Shutdown_Finish: "esys_api_finish (\<lambda>ctx. context_of (Esys_Shutdown_Finish (ctx, (outs :: unit))))"
| api_Sign_Finish: "esys_api_finish (\<lambda>ctx. context_of (Esys_Sign_Finish (ctx, (outs :: _ \<times> unit))))"
| api_SignDigest_Finish: "esys_api_finish (\<lambda>ctx. context_of (Esys_SignDigest_Finish (ctx, (outs :: _ \<times> unit))))"
| api_SignSequenceComplete_Finish: "esys_api_finish (\<lambda>ctx. context_of (Esys_SignSequenceComplete_Finish (ctx, (outs :: _ \<times> unit))))"
| api_SignSequenceStart_Finish: "esys_api_finish (\<lambda>ctx. context_of (Esys_SignSequenceStart_Finish (ctx, (outs :: _ \<times> unit))))"
| api_StartAuthSession_Finish: "esys_api_finish (\<lambda>ctx. context_of (Esys_StartAuthSession_Finish (ctx, (outs :: _ \<times> unit))))"
| api_Startup_Finish: "esys_api_finish (\<lambda>ctx. context_of (Esys_Startup_Finish (ctx, (outs :: unit))))"
| api_StirRandom_Finish: "esys_api_finish (\<lambda>ctx. context_of (Esys_StirRandom_Finish (ctx, (outs :: unit))))"
| api_TestParms_Finish: "esys_api_finish (\<lambda>ctx. context_of (Esys_TestParms_Finish (ctx, (outs :: unit))))"
| api_Unseal_Finish: "esys_api_finish (\<lambda>ctx. context_of (Esys_Unseal_Finish (ctx, (outs :: _ \<times> unit))))"
| api_Vendor_TCG_Test_Finish: "esys_api_finish (\<lambda>ctx. context_of (Esys_Vendor_TCG_Test_Finish (ctx, (outs :: _ \<times> unit))))"
| api_VerifyDigestSignature_Finish: "esys_api_finish (\<lambda>ctx. context_of (Esys_VerifyDigestSignature_Finish (ctx, (outs :: _ \<times> unit))))"
| api_VerifySequenceComplete_Finish: "esys_api_finish (\<lambda>ctx. context_of (Esys_VerifySequenceComplete_Finish (ctx, (outs :: _ \<times> unit))))"
| api_VerifySequenceStart_Finish: "esys_api_finish (\<lambda>ctx. context_of (Esys_VerifySequenceStart_Finish (ctx, (outs :: _ \<times> unit))))"
| api_VerifySignature_Finish: "esys_api_finish (\<lambda>ctx. context_of (Esys_VerifySignature_Finish (ctx, (outs :: _ \<times> unit))))"
| api_ZGen_2Phase_Finish: "esys_api_finish (\<lambda>ctx. context_of (Esys_ZGen_2Phase_Finish (ctx, (outs :: _ \<times> _ \<times> unit))))"

lemma api_async_contract: "esys_api_async A \<Longrightarrow> esys_async_cmd A"
  by (induction rule: esys_api_async.induct)
    (rule async_AC_GetCapability.esys_async_cmd_axioms
      async_AC_Send.esys_async_cmd_axioms
      async_ACT_SetTimeout.esys_async_cmd_axioms
      async_ActivateCredential.esys_async_cmd_axioms
      async_Certify.esys_async_cmd_axioms
      async_CertifyCreation.esys_async_cmd_axioms
      async_CertifyX509.esys_async_cmd_axioms
      async_ChangeEPS.esys_async_cmd_axioms
      async_ChangePPS.esys_async_cmd_axioms
      async_Clear.esys_async_cmd_axioms
      async_ClearControl.esys_async_cmd_axioms
      async_ClockRateAdjust.esys_async_cmd_axioms
      async_ClockSet.esys_async_cmd_axioms
      async_Commit.esys_async_cmd_axioms
      async_ContextLoad.esys_async_cmd_axioms
      async_ContextSave.esys_async_cmd_axioms
      async_Create.esys_async_cmd_axioms
      async_CreateLoaded.esys_async_cmd_axioms
      async_CreatePrimary.esys_async_cmd_axioms
      async_Decapsulate.esys_async_cmd_axioms
      async_DictionaryAttackLockReset.esys_async_cmd_axioms
      async_DictionaryAttackParameters.esys_async_cmd_axioms
      async_Duplicate.esys_async_cmd_axioms
      async_EC_Ephemeral.esys_async_cmd_axioms
      async_ECC_Decrypt.esys_async_cmd_axioms
      async_ECC_Encrypt.esys_async_cmd_axioms
      async_ECC_Parameters.esys_async_cmd_axioms
      async_ECDH_KeyGen.esys_async_cmd_axioms
      async_ECDH_ZGen.esys_async_cmd_axioms
      async_Encapsulate.esys_async_cmd_axioms
      async_EncryptDecrypt.esys_async_cmd_axioms
      async_EncryptDecrypt2.esys_async_cmd_axioms
      async_EventSequenceComplete.esys_async_cmd_axioms
      async_EvictControl.esys_async_cmd_axioms
      async_FieldUpgradeData.esys_async_cmd_axioms
      async_FieldUpgradeStart.esys_async_cmd_axioms
      async_FirmwareRead.esys_async_cmd_axioms
      async_FlushContext.esys_async_cmd_axioms
      async_GetCapability.esys_async_cmd_axioms
      async_GetCommandAuditDigest.esys_async_cmd_axioms
      async_GetRandom.esys_async_cmd_axioms
      async_GetSessionAuditDigest.esys_async_cmd_axioms
      async_GetTestResult.esys_async_cmd_axioms
      async_GetTime.esys_async_cmd_axioms
      async_Hash.esys_async_cmd_axioms
      async_HashSequenceStart.esys_async_cmd_axioms
      async_HierarchyChangeAuth.esys_async_cmd_axioms
      async_HierarchyControl.esys_async_cmd_axioms
      async_HMAC.esys_async_cmd_axioms
      async_HMAC_Start.esys_async_cmd_axioms
      async_Import.esys_async_cmd_axioms
      async_IncrementalSelfTest.esys_async_cmd_axioms
      async_Load.esys_async_cmd_axioms
      async_LoadExternal.esys_async_cmd_axioms
      async_MAC.esys_async_cmd_axioms
      async_MAC_Start.esys_async_cmd_axioms
      async_MakeCredential.esys_async_cmd_axioms
      async_NV_Certify.esys_async_cmd_axioms
      async_NV_ChangeAuth.esys_async_cmd_axioms
      async_NV_DefineSpace.esys_async_cmd_axioms
      async_NV_Extend.esys_async_cmd_axioms
      async_NV_GlobalWriteLock.esys_async_cmd_axioms
      async_NV_Increment.esys_async_cmd_axioms
      async_NV_Read.esys_async_cmd_axioms
      async_NV_ReadLock.esys_async_cmd_axioms
      async_NV_ReadPublic.esys_async_cmd_axioms
      async_NV_SetBits.esys_async_cmd_axioms
      async_NV_UndefineSpace.esys_async_cmd_axioms
      async_NV_UndefineSpaceSpecial.esys_async_cmd_axioms
      async_NV_Write.esys_async_cmd_axioms
      async_NV_WriteLock.esys_async_cmd_axioms
      async_ObjectChangeAuth.esys_async_cmd_axioms
      async_PCR_Allocate.esys_async_cmd_axioms
      async_PCR_Event.esys_async_cmd_axioms
      async_PCR_Extend.esys_async_cmd_axioms
      async_PCR_Read.esys_async_cmd_axioms
      async_PCR_Reset.esys_async_cmd_axioms
      async_PCR_SetAuthPolicy.esys_async_cmd_axioms
      async_PCR_SetAuthValue.esys_async_cmd_axioms
      async_Policy_AC_SendSelect.esys_async_cmd_axioms
      async_PolicyAuthorize.esys_async_cmd_axioms
      async_PolicyAuthorizeNV.esys_async_cmd_axioms
      async_PolicyAuthValue.esys_async_cmd_axioms
      async_PolicyCommandCode.esys_async_cmd_axioms
      async_PolicyCounterTimer.esys_async_cmd_axioms
      async_PolicyCpHash.esys_async_cmd_axioms
      async_PolicyDuplicationSelect.esys_async_cmd_axioms
      async_PolicyGetDigest.esys_async_cmd_axioms
      async_PolicyLocality.esys_async_cmd_axioms
      async_PolicyNameHash.esys_async_cmd_axioms
      async_PolicyNV.esys_async_cmd_axioms
      async_PolicyNvWritten.esys_async_cmd_axioms
      async_PolicyOR.esys_async_cmd_axioms
      async_PolicyPassword.esys_async_cmd_axioms
      async_PolicyPCR.esys_async_cmd_axioms
      async_PolicyPhysicalPresence.esys_async_cmd_axioms
      async_PolicyRestart.esys_async_cmd_axioms
      async_PolicySecret.esys_async_cmd_axioms
      async_PolicySigned.esys_async_cmd_axioms
      async_PolicyTemplate.esys_async_cmd_axioms
      async_PolicyTicket.esys_async_cmd_axioms
      async_PP_Commands.esys_async_cmd_axioms
      async_Quote.esys_async_cmd_axioms
      async_ReadClock.esys_async_cmd_axioms
      async_ReadPublic.esys_async_cmd_axioms
      async_Rewrap.esys_async_cmd_axioms
      async_RSA_Decrypt.esys_async_cmd_axioms
      async_RSA_Encrypt.esys_async_cmd_axioms
      async_SelfTest.esys_async_cmd_axioms
      async_SequenceComplete.esys_async_cmd_axioms
      async_SequenceUpdate.esys_async_cmd_axioms
      async_SetAlgorithmSet.esys_async_cmd_axioms
      async_SetCommandCodeAuditStatus.esys_async_cmd_axioms
      async_SetPrimaryPolicy.esys_async_cmd_axioms
      async_Shutdown.esys_async_cmd_axioms
      async_Sign.esys_async_cmd_axioms
      async_SignDigest.esys_async_cmd_axioms
      async_SignSequenceComplete.esys_async_cmd_axioms
      async_SignSequenceStart.esys_async_cmd_axioms
      async_StartAuthSession.esys_async_cmd_axioms
      async_Startup.esys_async_cmd_axioms
      async_StirRandom.esys_async_cmd_axioms
      async_TestParms.esys_async_cmd_axioms
      async_Unseal.esys_async_cmd_axioms
      async_Vendor_TCG_Test.esys_async_cmd_axioms
      async_VerifyDigestSignature.esys_async_cmd_axioms
      async_VerifySequenceComplete.esys_async_cmd_axioms
      async_VerifySequenceStart.esys_async_cmd_axioms
      async_VerifySignature.esys_async_cmd_axioms
      async_ZGen_2Phase.esys_async_cmd_axioms)+

text \<open>
  The contract of the \<open>_Finish\<close> functions without their outputs.
\<close>

definition finish_contract :: "('t, 'c) api_call \<Rightarrow> bool" where
  "finish_contract F \<longleftrightarrow> F None = Some (TSS2_ESYS_RC_BAD_REFERENCE, None) \<and>
     (\<forall>s. \<not> waiting s \<longrightarrow> F (Some s) = Some (TSS2_ESYS_RC_BAD_SEQUENCE, Some s)) \<and>
     (\<forall>s r p. waiting s \<longrightarrow> F (Some s) = Some (r, p) \<longrightarrow> (\<exists>s'. p = Some s' \<and> answered r (working s) s'))"

lemma finish_contractI:
  assumes "esys_finish_cmd Fi"
  shows "finish_contract (\<lambda>ctx. context_of (Fi (ctx, outs)))"
  using esys_finish_cmd.no_context [OF assms] esys_finish_cmd.refuses [OF assms] esys_finish_cmd.outcome [OF assms]
  by (auto simp: finish_contract_def context_of_def)

lemma api_finish_contract: "esys_api_finish F \<Longrightarrow> finish_contract F"
  by (induction rule: esys_api_finish.induct; rule finish_contractI)
    (rule finish_AC_GetCapability.esys_finish_cmd_axioms
      finish_AC_Send.esys_finish_cmd_axioms
      finish_ACT_SetTimeout.esys_finish_cmd_axioms
      finish_ActivateCredential.esys_finish_cmd_axioms
      finish_Certify.esys_finish_cmd_axioms
      finish_CertifyCreation.esys_finish_cmd_axioms
      finish_CertifyX509.esys_finish_cmd_axioms
      finish_ChangeEPS.esys_finish_cmd_axioms
      finish_ChangePPS.esys_finish_cmd_axioms
      finish_Clear.esys_finish_cmd_axioms
      finish_ClearControl.esys_finish_cmd_axioms
      finish_ClockRateAdjust.esys_finish_cmd_axioms
      finish_ClockSet.esys_finish_cmd_axioms
      finish_Commit.esys_finish_cmd_axioms
      finish_ContextLoad.esys_finish_cmd_axioms
      finish_ContextSave.esys_finish_cmd_axioms
      finish_Create.esys_finish_cmd_axioms
      finish_CreateLoaded.esys_finish_cmd_axioms
      finish_CreatePrimary.esys_finish_cmd_axioms
      finish_Decapsulate.esys_finish_cmd_axioms
      finish_DictionaryAttackLockReset.esys_finish_cmd_axioms
      finish_DictionaryAttackParameters.esys_finish_cmd_axioms
      finish_Duplicate.esys_finish_cmd_axioms
      finish_EC_Ephemeral.esys_finish_cmd_axioms
      finish_ECC_Decrypt.esys_finish_cmd_axioms
      finish_ECC_Encrypt.esys_finish_cmd_axioms
      finish_ECC_Parameters.esys_finish_cmd_axioms
      finish_ECDH_KeyGen.esys_finish_cmd_axioms
      finish_ECDH_ZGen.esys_finish_cmd_axioms
      finish_Encapsulate.esys_finish_cmd_axioms
      finish_EncryptDecrypt.esys_finish_cmd_axioms
      finish_EncryptDecrypt2.esys_finish_cmd_axioms
      finish_EventSequenceComplete.esys_finish_cmd_axioms
      finish_EvictControl.esys_finish_cmd_axioms
      finish_FieldUpgradeData.esys_finish_cmd_axioms
      finish_FieldUpgradeStart.esys_finish_cmd_axioms
      finish_FirmwareRead.esys_finish_cmd_axioms
      finish_FlushContext.esys_finish_cmd_axioms
      finish_GetCapability.esys_finish_cmd_axioms
      finish_GetCommandAuditDigest.esys_finish_cmd_axioms
      finish_GetRandom.esys_finish_cmd_axioms
      finish_GetSessionAuditDigest.esys_finish_cmd_axioms
      finish_GetTestResult.esys_finish_cmd_axioms
      finish_GetTime.esys_finish_cmd_axioms
      finish_Hash.esys_finish_cmd_axioms
      finish_HashSequenceStart.esys_finish_cmd_axioms
      finish_HierarchyChangeAuth.esys_finish_cmd_axioms
      finish_HierarchyControl.esys_finish_cmd_axioms
      finish_HMAC.esys_finish_cmd_axioms
      finish_HMAC_Start.esys_finish_cmd_axioms
      finish_Import.esys_finish_cmd_axioms
      finish_IncrementalSelfTest.esys_finish_cmd_axioms
      finish_Load.esys_finish_cmd_axioms
      finish_LoadExternal.esys_finish_cmd_axioms
      finish_MAC.esys_finish_cmd_axioms
      finish_MAC_Start.esys_finish_cmd_axioms
      finish_MakeCredential.esys_finish_cmd_axioms
      finish_NV_Certify.esys_finish_cmd_axioms
      finish_NV_ChangeAuth.esys_finish_cmd_axioms
      finish_NV_DefineSpace.esys_finish_cmd_axioms
      finish_NV_Extend.esys_finish_cmd_axioms
      finish_NV_GlobalWriteLock.esys_finish_cmd_axioms
      finish_NV_Increment.esys_finish_cmd_axioms
      finish_NV_Read.esys_finish_cmd_axioms
      finish_NV_ReadLock.esys_finish_cmd_axioms
      finish_NV_ReadPublic.esys_finish_cmd_axioms
      finish_NV_SetBits.esys_finish_cmd_axioms
      finish_NV_UndefineSpace.esys_finish_cmd_axioms
      finish_NV_UndefineSpaceSpecial.esys_finish_cmd_axioms
      finish_NV_Write.esys_finish_cmd_axioms
      finish_NV_WriteLock.esys_finish_cmd_axioms
      finish_ObjectChangeAuth.esys_finish_cmd_axioms
      finish_PCR_Allocate.esys_finish_cmd_axioms
      finish_PCR_Event.esys_finish_cmd_axioms
      finish_PCR_Extend.esys_finish_cmd_axioms
      finish_PCR_Read.esys_finish_cmd_axioms
      finish_PCR_Reset.esys_finish_cmd_axioms
      finish_PCR_SetAuthPolicy.esys_finish_cmd_axioms
      finish_PCR_SetAuthValue.esys_finish_cmd_axioms
      finish_Policy_AC_SendSelect.esys_finish_cmd_axioms
      finish_PolicyAuthorize.esys_finish_cmd_axioms
      finish_PolicyAuthorizeNV.esys_finish_cmd_axioms
      finish_PolicyAuthValue.esys_finish_cmd_axioms
      finish_PolicyCommandCode.esys_finish_cmd_axioms
      finish_PolicyCounterTimer.esys_finish_cmd_axioms
      finish_PolicyCpHash.esys_finish_cmd_axioms
      finish_PolicyDuplicationSelect.esys_finish_cmd_axioms
      finish_PolicyGetDigest.esys_finish_cmd_axioms
      finish_PolicyLocality.esys_finish_cmd_axioms
      finish_PolicyNameHash.esys_finish_cmd_axioms
      finish_PolicyNV.esys_finish_cmd_axioms
      finish_PolicyNvWritten.esys_finish_cmd_axioms
      finish_PolicyOR.esys_finish_cmd_axioms
      finish_PolicyPassword.esys_finish_cmd_axioms
      finish_PolicyPCR.esys_finish_cmd_axioms
      finish_PolicyPhysicalPresence.esys_finish_cmd_axioms
      finish_PolicyRestart.esys_finish_cmd_axioms
      finish_PolicySecret.esys_finish_cmd_axioms
      finish_PolicySigned.esys_finish_cmd_axioms
      finish_PolicyTemplate.esys_finish_cmd_axioms
      finish_PolicyTicket.esys_finish_cmd_axioms
      finish_PP_Commands.esys_finish_cmd_axioms
      finish_Quote.esys_finish_cmd_axioms
      finish_ReadClock.esys_finish_cmd_axioms
      finish_ReadPublic.esys_finish_cmd_axioms
      finish_Rewrap.esys_finish_cmd_axioms
      finish_RSA_Decrypt.esys_finish_cmd_axioms
      finish_RSA_Encrypt.esys_finish_cmd_axioms
      finish_SelfTest.esys_finish_cmd_axioms
      finish_SequenceComplete.esys_finish_cmd_axioms
      finish_SequenceUpdate.esys_finish_cmd_axioms
      finish_SetAlgorithmSet.esys_finish_cmd_axioms
      finish_SetCommandCodeAuditStatus.esys_finish_cmd_axioms
      finish_SetPrimaryPolicy.esys_finish_cmd_axioms
      finish_Shutdown.esys_finish_cmd_axioms
      finish_Sign.esys_finish_cmd_axioms
      finish_SignDigest.esys_finish_cmd_axioms
      finish_SignSequenceComplete.esys_finish_cmd_axioms
      finish_SignSequenceStart.esys_finish_cmd_axioms
      finish_StartAuthSession.esys_finish_cmd_axioms
      finish_Startup.esys_finish_cmd_axioms
      finish_StirRandom.esys_finish_cmd_axioms
      finish_TestParms.esys_finish_cmd_axioms
      finish_Unseal.esys_finish_cmd_axioms
      finish_Vendor_TCG_Test.esys_finish_cmd_axioms
      finish_VerifyDigestSignature.esys_finish_cmd_axioms
      finish_VerifySequenceComplete.esys_finish_cmd_axioms
      finish_VerifySequenceStart.esys_finish_cmd_axioms
      finish_VerifySignature.esys_finish_cmd_axioms
      finish_ZGen_2Phase.esys_finish_cmd_axioms)+

text \<open>The functions that send a command and wait for its response.\<close>

inductive esys_api_call :: "('t, 'c) api_call \<Rightarrow> bool" where
  api_AC_GetCapability: "esys_api_call (\<lambda>ctx. context_of (Esys_AC_GetCapability ctx optionalSession1 optionalSession2 optionalSession3 ac
      capability count moreData capabilityData))"
| api_AC_Send: "esys_api_call (\<lambda>ctx. context_of (Esys_AC_Send ctx sendObject nvAuthHandle ac optionalSession1 optionalSession2
      optionalSession3 acDataIn acDataOut))"
| api_ACT_SetTimeout: "esys_api_call (\<lambda>ctx. context_of (Esys_ACT_SetTimeout ctx actHandle shandle1 shandle2 shandle3 startTimeout))"
| api_ActivateCredential: "esys_api_call (\<lambda>ctx. context_of (Esys_ActivateCredential ctx activateHandle keyHandle shandle1 shandle2 shandle3
      credentialBlob secret certInfo))"
| api_Certify: "esys_api_call (\<lambda>ctx. context_of (Esys_Certify ctx objectHandle signHandle shandle1 shandle2 shandle3 qualifyingData
      inScheme certifyInfo signature))"
| api_CertifyCreation: "esys_api_call (\<lambda>ctx. context_of (Esys_CertifyCreation ctx signHandle objectHandle shandle1 shandle2 shandle3
      qualifyingData creationHash inScheme creationTicket certifyInfo signature))"
| api_CertifyX509: "esys_api_call (\<lambda>ctx. context_of (Esys_CertifyX509 ctx objectHandle signHandle shandle1 shandle2 shandle3 reserved inScheme
      partialCertificate addedToCertificate tbsDigest signature))"
| api_ChangeEPS: "esys_api_call (\<lambda>ctx. context_of (Esys_ChangeEPS ctx authHandle shandle1 shandle2 shandle3))"
| api_ChangePPS: "esys_api_call (\<lambda>ctx. context_of (Esys_ChangePPS ctx authHandle shandle1 shandle2 shandle3))"
| api_Clear: "esys_api_call (\<lambda>ctx. context_of (Esys_Clear ctx authHandle shandle1 shandle2 shandle3))"
| api_ClearControl: "esys_api_call (\<lambda>ctx. context_of (Esys_ClearControl ctx auth shandle1 shandle2 shandle3 disable))"
| api_ClockRateAdjust: "esys_api_call (\<lambda>ctx. context_of (Esys_ClockRateAdjust ctx auth shandle1 shandle2 shandle3 rateAdjust))"
| api_ClockSet: "esys_api_call (\<lambda>ctx. context_of (Esys_ClockSet ctx auth shandle1 shandle2 shandle3 newTime))"
| api_Commit: "esys_api_call (\<lambda>ctx. context_of (Esys_Commit ctx signHandle shandle1 shandle2 shandle3 P1 s2 y2 K L E counter))"
| api_ContextLoad: "esys_api_call (\<lambda>ctx. context_of (Esys_ContextLoad ctx context loadedHandle))"
| api_ContextSave: "esys_api_call (\<lambda>ctx. context_of (Esys_ContextSave ctx saveHandle context))"
| api_Create: "esys_api_call (\<lambda>ctx. context_of (Esys_Create ctx parentHandle shandle1 shandle2 shandle3 inSensitive inPublic outsideInfo
      creationPCR outPrivate outPublic creationData creationHash creationTicket))"
| api_CreateLoaded: "esys_api_call (\<lambda>ctx. context_of (Esys_CreateLoaded ctx parentHandle shandle1 shandle2 shandle3 inSensitive inPublic
      objectHandle outPrivate outPublic))"
| api_CreatePrimary: "esys_api_call (\<lambda>ctx. context_of (Esys_CreatePrimary ctx primaryHandle shandle1 shandle2 shandle3 inSensitive inPublic
      outsideInfo creationPCR objectHandle outPublic creationData creationHash creationTicket))"
| api_Decapsulate: "esys_api_call (\<lambda>ctx. context_of (Esys_Decapsulate ctx keyHandle shandle1 shandle2 shandle3 cipherText label outSymSeed))"
| api_DictionaryAttackLockReset: "esys_api_call (\<lambda>ctx. context_of (Esys_DictionaryAttackLockReset ctx lockHandle shandle1 shandle2 shandle3))"
| api_DictionaryAttackParameters: "esys_api_call (\<lambda>ctx. context_of (Esys_DictionaryAttackParameters ctx lockHandle shandle1 shandle2 shandle3 newMaxTries
      newRecoveryTime lockoutRecovery))"
| api_Duplicate: "esys_api_call (\<lambda>ctx. context_of (Esys_Duplicate ctx objectHandle newParentHandle shandle1 shandle2 shandle3
      encryptionKeyIn symmetricAlg encryptionKeyOut duplicate outSymSeed))"
| api_EC_Ephemeral: "esys_api_call (\<lambda>ctx. context_of (Esys_EC_Ephemeral ctx shandle1 shandle2 shandle3 curveID Q counter))"
| api_ECC_Decrypt: "esys_api_call (\<lambda>ctx. context_of (Esys_ECC_Decrypt ctx keyHandle shandle1 shandle2 shandle3 c1 c2 c3 inScheme plainText))"
| api_ECC_Encrypt: "esys_api_call (\<lambda>ctx. context_of (Esys_ECC_Encrypt ctx keyHandle shandle1 shandle2 shandle3 plainText inScheme c1 c2 c3))"
| api_ECC_Parameters: "esys_api_call (\<lambda>ctx. context_of (Esys_ECC_Parameters ctx shandle1 shandle2 shandle3 curveID parameters))"
| api_ECDH_KeyGen: "esys_api_call (\<lambda>ctx. context_of (Esys_ECDH_KeyGen ctx keyHandle shandle1 shandle2 shandle3 zPoint pubPoint))"
| api_ECDH_ZGen: "esys_api_call (\<lambda>ctx. context_of (Esys_ECDH_ZGen ctx keyHandle shandle1 shandle2 shandle3 inPoint outPoint))"
| api_Encapsulate: "esys_api_call (\<lambda>ctx. context_of (Esys_Encapsulate ctx keyHandle shandle1 shandle2 shandle3 label outSymSeed cipherText))"
| api_EncryptDecrypt: "esys_api_call (\<lambda>ctx. context_of (Esys_EncryptDecrypt ctx keyHandle shandle1 shandle2 shandle3 decrypt mode ivIn inData
      outData ivOut))"
| api_EncryptDecrypt2: "esys_api_call (\<lambda>ctx. context_of (Esys_EncryptDecrypt2 ctx keyHandle shandle1 shandle2 shandle3 inData decrypt mode ivIn
      outData ivOut))"
| api_EventSequenceComplete: "esys_api_call (\<lambda>ctx. context_of (Esys_EventSequenceComplete ctx pcrHandle sequenceHandle shandle1 shandle2 shandle3 buffer
      results))"
| api_EvictControl: "esys_api_call (\<lambda>ctx. context_of (Esys_EvictControl ctx auth objectHandle shandle1 shandle2 shandle3 persistentHandle
      newObjectHandle))"
| api_FieldUpgradeData: "esys_api_call (\<lambda>ctx. context_of (Esys_FieldUpgradeData ctx shandle1 shandle2 shandle3 fuData nextDigest firstDigest))"
| api_FieldUpgradeStart: "esys_api_call (\<lambda>ctx. context_of (Esys_FieldUpgradeStart ctx authorization keyHandle shandle1 shandle2 shandle3 fuDigest
      manifestSignature))"
| api_FirmwareRead: "esys_api_call (\<lambda>ctx. context_of (Esys_FirmwareRead ctx shandle1 shandle2 shandle3 sequenceNumber fuData))"
| api_FlushContext: "esys_api_call (\<lambda>ctx. context_of (Esys_FlushContext ctx flushHandle))"
| api_GetCapability: "esys_api_call (\<lambda>ctx. context_of (Esys_GetCapability ctx shandle1 shandle2 shandle3 capability property propertyCount
      moreData capabilityData))"
| api_GetCommandAuditDigest: "esys_api_call (\<lambda>ctx. context_of (Esys_GetCommandAuditDigest ctx privacyHandle signHandle shandle1 shandle2 shandle3
      qualifyingData inScheme auditInfo signature))"
| api_GetRandom: "esys_api_call (\<lambda>ctx. context_of (Esys_GetRandom ctx shandle1 shandle2 shandle3 bytesRequested randomBytes))"
| api_GetSessionAuditDigest: "esys_api_call (\<lambda>ctx. context_of (Esys_GetSessionAuditDigest ctx privacyAdminHandle signHandle sessionHandle shandle1
      shandle2 shandle3 qualifyingData inScheme auditInfo signature))"
| api_GetTestResult: "esys_api_call (\<lambda>ctx. context_of (Esys_GetTestResult ctx shandle1 shandle2 shandle3 outData testResult))"
| api_GetTime: "esys_api_call (\<lambda>ctx. context_of (Esys_GetTime ctx privacyAdminHandle signHandle shandle1 shandle2 shandle3 qualifyingData
      inScheme timeInfo signature))"
| api_Hash: "esys_api_call (\<lambda>ctx. context_of (Esys_Hash ctx shandle1 shandle2 shandle3 data hashAlg hierarchy outHash validation))"
| api_HashSequenceStart: "esys_api_call (\<lambda>ctx. context_of (Esys_HashSequenceStart ctx shandle1 shandle2 shandle3 auth hashAlg sequenceHandle))"
| api_HierarchyChangeAuth: "esys_api_call (\<lambda>ctx. context_of (Esys_HierarchyChangeAuth ctx authHandle shandle1 shandle2 shandle3 newAuth))"
| api_HierarchyControl: "esys_api_call (\<lambda>ctx. context_of (Esys_HierarchyControl ctx authHandle shandle1 shandle2 shandle3 enable state))"
| api_HMAC: "esys_api_call (\<lambda>ctx. context_of (Esys_HMAC ctx handle shandle1 shandle2 shandle3 buffer hashAlg outHMAC))"
| api_HMAC_Start: "esys_api_call (\<lambda>ctx. context_of (Esys_HMAC_Start ctx handle shandle1 shandle2 shandle3 auth hashAlg sequenceHandle))"
| api_Import: "esys_api_call (\<lambda>ctx. context_of (Esys_Import ctx parentHandle shandle1 shandle2 shandle3 encryptionKey objectPublic
      duplicate inSymSeed symmetricAlg outPrivate))"
| api_IncrementalSelfTest: "esys_api_call (\<lambda>ctx. context_of (Esys_IncrementalSelfTest ctx shandle1 shandle2 shandle3 toTest toDoList))"
| api_Load: "esys_api_call (\<lambda>ctx. context_of (Esys_Load ctx parentHandle shandle1 shandle2 shandle3 inPrivate inPublic objectHandle))"
| api_LoadExternal: "esys_api_call (\<lambda>ctx. context_of (Esys_LoadExternal ctx shandle1 shandle2 shandle3 inPrivate inPublic hierarchy
      objectHandle))"
| api_MAC: "esys_api_call (\<lambda>ctx. context_of (Esys_MAC ctx handle handleSession1 optionalSession2 optionalSession3 buffer inScheme
      outMAC))"
| api_MAC_Start: "esys_api_call (\<lambda>ctx. context_of (Esys_MAC_Start ctx handle handleSession1 optionalSession2 optionalSession3 auth inScheme
      sequenceHandle))"
| api_MakeCredential: "esys_api_call (\<lambda>ctx. context_of (Esys_MakeCredential ctx handle shandle1 shandle2 shandle3 credential objectName
      credentialBlob secret))"
| api_NV_Certify: "esys_api_call (\<lambda>ctx. context_of (Esys_NV_Certify ctx signHandle authHandle nvIndex shandle1 shandle2 shandle3
      qualifyingData inScheme size' offset certifyInfo signature))"
| api_NV_ChangeAuth: "esys_api_call (\<lambda>ctx. context_of (Esys_NV_ChangeAuth ctx nvIndex shandle1 shandle2 shandle3 newAuth))"
| api_NV_DefineSpace: "esys_api_call (\<lambda>ctx. context_of (Esys_NV_DefineSpace ctx authHandle shandle1 shandle2 shandle3 auth publicInfo nvHandle))"
| api_NV_Extend: "esys_api_call (\<lambda>ctx. context_of (Esys_NV_Extend ctx authHandle nvIndex shandle1 shandle2 shandle3 data))"
| api_NV_GlobalWriteLock: "esys_api_call (\<lambda>ctx. context_of (Esys_NV_GlobalWriteLock ctx authHandle shandle1 shandle2 shandle3))"
| api_NV_Increment: "esys_api_call (\<lambda>ctx. context_of (Esys_NV_Increment ctx authHandle nvIndex shandle1 shandle2 shandle3))"
| api_NV_Read: "esys_api_call (\<lambda>ctx. context_of (Esys_NV_Read ctx authHandle nvIndex shandle1 shandle2 shandle3 size' offset data))"
| api_NV_ReadLock: "esys_api_call (\<lambda>ctx. context_of (Esys_NV_ReadLock ctx authHandle nvIndex shandle1 shandle2 shandle3))"
| api_NV_ReadPublic: "esys_api_call (\<lambda>ctx. context_of (Esys_NV_ReadPublic ctx nvIndex shandle1 shandle2 shandle3 nvPublic nvName))"
| api_NV_SetBits: "esys_api_call (\<lambda>ctx. context_of (Esys_NV_SetBits ctx authHandle nvIndex shandle1 shandle2 shandle3 bits))"
| api_NV_UndefineSpace: "esys_api_call (\<lambda>ctx. context_of (Esys_NV_UndefineSpace ctx authHandle nvIndex shandle1 shandle2 shandle3))"
| api_NV_UndefineSpaceSpecial: "esys_api_call (\<lambda>ctx. context_of (Esys_NV_UndefineSpaceSpecial ctx nvIndex platform shandle1 shandle2 shandle3))"
| api_NV_Write: "esys_api_call (\<lambda>ctx. context_of (Esys_NV_Write ctx authHandle nvIndex shandle1 shandle2 shandle3 data offset))"
| api_NV_WriteLock: "esys_api_call (\<lambda>ctx. context_of (Esys_NV_WriteLock ctx authHandle nvIndex shandle1 shandle2 shandle3))"
| api_ObjectChangeAuth: "esys_api_call (\<lambda>ctx. context_of (Esys_ObjectChangeAuth ctx objectHandle parentHandle shandle1 shandle2 shandle3 newAuth
      outPrivate))"
| api_PCR_Allocate: "esys_api_call (\<lambda>ctx. context_of (Esys_PCR_Allocate ctx authHandle shandle1 shandle2 shandle3 pcrAllocation
      allocationSuccess maxPCR sizeNeeded sizeAvailable))"
| api_PCR_Event: "esys_api_call (\<lambda>ctx. context_of (Esys_PCR_Event ctx pcrHandle shandle1 shandle2 shandle3 eventData digests))"
| api_PCR_Extend: "esys_api_call (\<lambda>ctx. context_of (Esys_PCR_Extend ctx pcrHandle shandle1 shandle2 shandle3 digests))"
| api_PCR_Read: "esys_api_call (\<lambda>ctx. context_of (Esys_PCR_Read ctx shandle1 shandle2 shandle3 pcrSelectionIn pcrUpdateCounter
      pcrSelectionOut pcrValues))"
| api_PCR_Reset: "esys_api_call (\<lambda>ctx. context_of (Esys_PCR_Reset ctx pcrHandle shandle1 shandle2 shandle3))"
| api_PCR_SetAuthPolicy: "esys_api_call (\<lambda>ctx. context_of (Esys_PCR_SetAuthPolicy ctx authHandle shandle1 shandle2 shandle3 authPolicy hashAlg
      pcrNum))"
| api_PCR_SetAuthValue: "esys_api_call (\<lambda>ctx. context_of (Esys_PCR_SetAuthValue ctx pcrHandle shandle1 shandle2 shandle3 auth))"
| api_Policy_AC_SendSelect: "esys_api_call (\<lambda>ctx. context_of (Esys_Policy_AC_SendSelect ctx policySession1 optionalSession2 optionalSession3 objectName
      authHandleName acName includeObject))"
| api_PolicyAuthorize: "esys_api_call (\<lambda>ctx. context_of (Esys_PolicyAuthorize ctx policySession shandle1 shandle2 shandle3 approvedPolicy
      policyRef keySign checkTicket))"
| api_PolicyAuthorizeNV: "esys_api_call (\<lambda>ctx. context_of (Esys_PolicyAuthorizeNV ctx authHandle nvIndex policySession shandle1 shandle2 shandle3))"
| api_PolicyAuthValue: "esys_api_call (\<lambda>ctx. context_of (Esys_PolicyAuthValue ctx policySession shandle1 shandle2 shandle3))"
| api_PolicyCommandCode: "esys_api_call (\<lambda>ctx. context_of (Esys_PolicyCommandCode ctx policySession shandle1 shandle2 shandle3 code))"
| api_PolicyCounterTimer: "esys_api_call (\<lambda>ctx. context_of (Esys_PolicyCounterTimer ctx policySession shandle1 shandle2 shandle3 operandB offset
      operation))"
| api_PolicyCpHash: "esys_api_call (\<lambda>ctx. context_of (Esys_PolicyCpHash ctx policySession shandle1 shandle2 shandle3 cpHashA))"
| api_PolicyDuplicationSelect: "esys_api_call (\<lambda>ctx. context_of (Esys_PolicyDuplicationSelect ctx policySession shandle1 shandle2 shandle3 objectName
      newParentName includeObject))"
| api_PolicyGetDigest: "esys_api_call (\<lambda>ctx. context_of (Esys_PolicyGetDigest ctx policySession shandle1 shandle2 shandle3 policyDigest))"
| api_PolicyLocality: "esys_api_call (\<lambda>ctx. context_of (Esys_PolicyLocality ctx policySession shandle1 shandle2 shandle3 locality))"
| api_PolicyNameHash: "esys_api_call (\<lambda>ctx. context_of (Esys_PolicyNameHash ctx policySession shandle1 shandle2 shandle3 nameHash))"
| api_PolicyNV: "esys_api_call (\<lambda>ctx. context_of (Esys_PolicyNV ctx authHandle nvIndex policySession shandle1 shandle2 shandle3 operandB
      offset operation))"
| api_PolicyNvWritten: "esys_api_call (\<lambda>ctx. context_of (Esys_PolicyNvWritten ctx policySession shandle1 shandle2 shandle3 writtenSet))"
| api_PolicyOR: "esys_api_call (\<lambda>ctx. context_of (Esys_PolicyOR ctx policySession shandle1 shandle2 shandle3 pHashList))"
| api_PolicyPassword: "esys_api_call (\<lambda>ctx. context_of (Esys_PolicyPassword ctx policySession shandle1 shandle2 shandle3))"
| api_PolicyPCR: "esys_api_call (\<lambda>ctx. context_of (Esys_PolicyPCR ctx policySession shandle1 shandle2 shandle3 pcrDigest pcrs))"
| api_PolicyPhysicalPresence: "esys_api_call (\<lambda>ctx. context_of (Esys_PolicyPhysicalPresence ctx policySession shandle1 shandle2 shandle3))"
| api_PolicyRestart: "esys_api_call (\<lambda>ctx. context_of (Esys_PolicyRestart ctx sessionHandle shandle1 shandle2 shandle3))"
| api_PolicySecret: "esys_api_call (\<lambda>ctx. context_of (Esys_PolicySecret ctx authHandle policySession shandle1 shandle2 shandle3 nonceTPM
      cpHashA policyRef expiration timeout policyTicket))"
| api_PolicySigned: "esys_api_call (\<lambda>ctx. context_of (Esys_PolicySigned ctx authObject policySession shandle1 shandle2 shandle3 nonceTPM
      cpHashA policyRef expiration auth timeout policyTicket))"
| api_PolicyTemplate: "esys_api_call (\<lambda>ctx. context_of (Esys_PolicyTemplate ctx policySession shandle1 shandle2 shandle3 templateHash))"
| api_PolicyTicket: "esys_api_call (\<lambda>ctx. context_of (Esys_PolicyTicket ctx policySession shandle1 shandle2 shandle3 timeout cpHashA policyRef
      authName ticket))"
| api_PP_Commands: "esys_api_call (\<lambda>ctx. context_of (Esys_PP_Commands ctx auth shandle1 shandle2 shandle3 setList clearList))"
| api_Quote: "esys_api_call (\<lambda>ctx. context_of (Esys_Quote ctx signHandle shandle1 shandle2 shandle3 qualifyingData inScheme PCRselect
      quoted signature))"
| api_ReadClock: "esys_api_call (\<lambda>ctx. context_of (Esys_ReadClock ctx shandle1 shandle2 shandle3 currentTime))"
| api_ReadPublic: "esys_api_call (\<lambda>ctx. context_of (Esys_ReadPublic ctx objectHandle shandle1 shandle2 shandle3 outPublic name
      qualifiedName))"
| api_Rewrap: "esys_api_call (\<lambda>ctx. context_of (Esys_Rewrap ctx oldParent newParent shandle1 shandle2 shandle3 inDuplicate name inSymSeed
      outDuplicate outSymSeed))"
| api_RSA_Decrypt: "esys_api_call (\<lambda>ctx. context_of (Esys_RSA_Decrypt ctx keyHandle shandle1 shandle2 shandle3 cipherText inScheme label
      message))"
| api_RSA_Encrypt: "esys_api_call (\<lambda>ctx. context_of (Esys_RSA_Encrypt ctx keyHandle shandle1 shandle2 shandle3 message inScheme label
      outData))"
| api_SelfTest: "esys_api_call (\<lambda>ctx. context_of (Esys_SelfTest ctx shandle1 shandle2 shandle3 fullTest))"
| api_SequenceComplete: "esys_api_call (\<lambda>ctx. context_of (Esys_SequenceComplete ctx sequenceHandle shandle1 shandle2 shandle3 buffer hierarchy
      result validation))"
| api_SequenceUpdate: "esys_api_call (\<lambda>ctx. context_of (Esys_SequenceUpdate ctx sequenceHandle shandle1 shandle2 shandle3 buffer))"
| api_SetAlgorithmSet: "esys_api_call (\<lambda>ctx. context_of (Esys_SetAlgorithmSet ctx authHandle shandle1 shandle2 shandle3 algorithmSet))"
| api_SetCommandCodeAuditStatus: "esys_api_call (\<lambda>ctx. context_of (Esys_SetCommandCodeAuditStatus ctx auth shandle1 shandle2 shandle3 auditAlg setList
      clearList))"
| api_SetPrimaryPolicy: "esys_api_call (\<lambda>ctx. context_of (Esys_SetPrimaryPolicy ctx authHandle shandle1 shandle2 shandle3 authPolicy hashAlg))"
| api_Shutdown: "esys_api_call (\<lambda>ctx. context_of (Esys_Shutdown ctx shandle1 shandle2 shandle3 shutdownType))"
| api_Sign: "esys_api_call (\<lambda>ctx. context_of (Esys_Sign ctx keyHandle shandle1 shandle2 shandle3 digest inScheme validation signature))"
| api_SignDigest: "esys_api_call (\<lambda>ctx. context_of (Esys_SignDigest ctx keyHandle shandle1 shandle2 shandle3 digest inScheme validation
      signature))"
| api_SignSequenceComplete: "esys_api_call (\<lambda>ctx. context_of (Esys_SignSequenceComplete ctx sequenceHandle shandle1 shandle2 shandle3 buffer
      signature))"
| api_SignSequenceStart: "esys_api_call (\<lambda>ctx. context_of (Esys_SignSequenceStart ctx keyHandle shandle1 shandle2 shandle3 inScheme keyB
      sequenceHandle))"
| api_StartAuthSession: "esys_api_call (\<lambda>ctx. context_of (Esys_StartAuthSession ctx tpmKey bind shandle1 shandle2 shandle3 nonceCaller sessionType
      symmetric authHash sessionHandle))"
| api_Startup: "esys_api_call (\<lambda>ctx. context_of (Esys_Startup ctx startupType))"
| api_StirRandom: "esys_api_call (\<lambda>ctx. context_of (Esys_StirRandom ctx shandle1 shandle2 shandle3 inData))"
| api_TestParms: "esys_api_call (\<lambda>ctx. context_of (Esys_TestParms ctx shandle1 shandle2 shandle3 parameters))"
| api_Unseal: "esys_api_call (\<lambda>ctx. context_of (Esys_Unseal ctx itemHandle shandle1 shandle2 shandle3 outData))"
| api_Vendor_TCG_Test: "esys_api_call (\<lambda>ctx. context_of (Esys_Vendor_TCG_Test ctx shandle1 shandle2 shandle3 inputData outputData))"
| api_VerifyDigestSignature: "esys_api_call (\<lambda>ctx. context_of (Esys_VerifyDigestSignature ctx keyHandle shandle1 shandle2 shandle3 digest signature
      validation))"
| api_VerifySequenceComplete: "esys_api_call (\<lambda>ctx. context_of (Esys_VerifySequenceComplete ctx sequenceHandle shandle1 shandle2 shandle3 buffer
      validation))"
| api_VerifySequenceStart: "esys_api_call (\<lambda>ctx. context_of (Esys_VerifySequenceStart ctx keyHandle shandle1 shandle2 shandle3 signature
      sequenceHandle))"
| api_VerifySignature: "esys_api_call (\<lambda>ctx. context_of (Esys_VerifySignature ctx keyHandle shandle1 shandle2 shandle3 digest signature
      validation))"
| api_ZGen_2Phase: "esys_api_call (\<lambda>ctx. context_of (Esys_ZGen_2Phase ctx keyA shandle1 shandle2 shandle3 inQsB inQeB inScheme counter outZ1
      outZ2))"

lemma api_call_contract: "esys_api_call C \<Longrightarrow> call_contract C"
proof (induction rule: esys_api_call.induct)
  case api_AC_GetCapability
  show ?case unfolding Esys_AC_GetCapability_def by (rule one_call_contract [OF async_AC_GetCapability.esys_async_cmd_axioms finish_AC_GetCapability.esys_finish_cmd_axioms])
next
  case api_AC_Send
  show ?case unfolding Esys_AC_Send_def by (rule one_call_contract [OF async_AC_Send.esys_async_cmd_axioms finish_AC_Send.esys_finish_cmd_axioms])
next
  case api_ACT_SetTimeout
  show ?case unfolding Esys_ACT_SetTimeout_def by (rule one_call_contract [OF async_ACT_SetTimeout.esys_async_cmd_axioms finish_ACT_SetTimeout.esys_finish_cmd_axioms])
next
  case api_ActivateCredential
  show ?case unfolding Esys_ActivateCredential_def by (rule one_call_contract [OF async_ActivateCredential.esys_async_cmd_axioms finish_ActivateCredential.esys_finish_cmd_axioms])
next
  case api_Certify
  show ?case unfolding Esys_Certify_def by (rule one_call_contract [OF async_Certify.esys_async_cmd_axioms finish_Certify.esys_finish_cmd_axioms])
next
  case api_CertifyCreation
  show ?case unfolding Esys_CertifyCreation_def by (rule one_call_contract [OF async_CertifyCreation.esys_async_cmd_axioms finish_CertifyCreation.esys_finish_cmd_axioms])
next
  case api_CertifyX509
  show ?case unfolding Esys_CertifyX509_def by (rule one_call_contract [OF async_CertifyX509.esys_async_cmd_axioms finish_CertifyX509.esys_finish_cmd_axioms])
next
  case api_ChangeEPS
  show ?case unfolding Esys_ChangeEPS_def by (rule one_call_contract [OF async_ChangeEPS.esys_async_cmd_axioms finish_ChangeEPS.esys_finish_cmd_axioms])
next
  case api_ChangePPS
  show ?case unfolding Esys_ChangePPS_def by (rule one_call_contract [OF async_ChangePPS.esys_async_cmd_axioms finish_ChangePPS.esys_finish_cmd_axioms])
next
  case api_Clear
  show ?case unfolding Esys_Clear_def by (rule one_call_contract [OF async_Clear.esys_async_cmd_axioms finish_Clear.esys_finish_cmd_axioms])
next
  case api_ClearControl
  show ?case unfolding Esys_ClearControl_def by (rule one_call_contract [OF async_ClearControl.esys_async_cmd_axioms finish_ClearControl.esys_finish_cmd_axioms])
next
  case api_ClockRateAdjust
  show ?case unfolding Esys_ClockRateAdjust_def by (rule one_call_contract [OF async_ClockRateAdjust.esys_async_cmd_axioms finish_ClockRateAdjust.esys_finish_cmd_axioms])
next
  case api_ClockSet
  show ?case unfolding Esys_ClockSet_def by (rule one_call_contract [OF async_ClockSet.esys_async_cmd_axioms finish_ClockSet.esys_finish_cmd_axioms])
next
  case api_Commit
  show ?case unfolding Esys_Commit_def by (rule one_call_contract [OF async_Commit.esys_async_cmd_axioms finish_Commit.esys_finish_cmd_axioms])
next
  case api_ContextLoad
  show ?case unfolding Esys_ContextLoad_def by (rule one_call_contract [OF async_ContextLoad.esys_async_cmd_axioms finish_ContextLoad.esys_finish_cmd_axioms])
next
  case api_ContextSave
  show ?case unfolding Esys_ContextSave_def by (rule one_call_contract [OF async_ContextSave.esys_async_cmd_axioms finish_ContextSave.esys_finish_cmd_axioms])
next
  case api_Create
  show ?case unfolding Esys_Create_def by (rule one_call_contract [OF async_Create.esys_async_cmd_axioms finish_Create.esys_finish_cmd_axioms])
next
  case api_CreateLoaded
  show ?case unfolding Esys_CreateLoaded_def by (rule one_call_contract [OF async_CreateLoaded.esys_async_cmd_axioms finish_CreateLoaded.esys_finish_cmd_axioms])
next
  case api_CreatePrimary
  show ?case unfolding Esys_CreatePrimary_def by (rule one_call_contract [OF async_CreatePrimary.esys_async_cmd_axioms finish_CreatePrimary.esys_finish_cmd_axioms])
next
  case api_Decapsulate
  show ?case unfolding Esys_Decapsulate_def by (rule one_call_contract [OF async_Decapsulate.esys_async_cmd_axioms finish_Decapsulate.esys_finish_cmd_axioms])
next
  case api_DictionaryAttackLockReset
  show ?case unfolding Esys_DictionaryAttackLockReset_def by (rule one_call_contract [OF async_DictionaryAttackLockReset.esys_async_cmd_axioms finish_DictionaryAttackLockReset.esys_finish_cmd_axioms])
next
  case api_DictionaryAttackParameters
  show ?case unfolding Esys_DictionaryAttackParameters_def by (rule one_call_contract [OF async_DictionaryAttackParameters.esys_async_cmd_axioms finish_DictionaryAttackParameters.esys_finish_cmd_axioms])
next
  case api_Duplicate
  show ?case unfolding Esys_Duplicate_def by (rule one_call_contract [OF async_Duplicate.esys_async_cmd_axioms finish_Duplicate.esys_finish_cmd_axioms])
next
  case api_EC_Ephemeral
  show ?case unfolding Esys_EC_Ephemeral_def by (rule one_call_contract [OF async_EC_Ephemeral.esys_async_cmd_axioms finish_EC_Ephemeral.esys_finish_cmd_axioms])
next
  case api_ECC_Decrypt
  show ?case unfolding Esys_ECC_Decrypt_def by (rule one_call_contract [OF async_ECC_Decrypt.esys_async_cmd_axioms finish_ECC_Decrypt.esys_finish_cmd_axioms])
next
  case api_ECC_Encrypt
  show ?case unfolding Esys_ECC_Encrypt_def by (rule one_call_contract [OF async_ECC_Encrypt.esys_async_cmd_axioms finish_ECC_Encrypt.esys_finish_cmd_axioms])
next
  case api_ECC_Parameters
  show ?case unfolding Esys_ECC_Parameters_def by (rule one_call_contract [OF async_ECC_Parameters.esys_async_cmd_axioms finish_ECC_Parameters.esys_finish_cmd_axioms])
next
  case api_ECDH_KeyGen
  show ?case unfolding Esys_ECDH_KeyGen_def by (rule one_call_contract [OF async_ECDH_KeyGen.esys_async_cmd_axioms finish_ECDH_KeyGen.esys_finish_cmd_axioms])
next
  case api_ECDH_ZGen
  show ?case unfolding Esys_ECDH_ZGen_def by (rule one_call_contract [OF async_ECDH_ZGen.esys_async_cmd_axioms finish_ECDH_ZGen.esys_finish_cmd_axioms])
next
  case api_Encapsulate
  show ?case unfolding Esys_Encapsulate_def by (rule one_call_contract [OF async_Encapsulate.esys_async_cmd_axioms finish_Encapsulate.esys_finish_cmd_axioms])
next
  case api_EncryptDecrypt
  show ?case unfolding Esys_EncryptDecrypt_def by (rule one_call_contract [OF async_EncryptDecrypt.esys_async_cmd_axioms finish_EncryptDecrypt.esys_finish_cmd_axioms])
next
  case api_EncryptDecrypt2
  show ?case unfolding Esys_EncryptDecrypt2_def by (rule one_call_contract [OF async_EncryptDecrypt2.esys_async_cmd_axioms finish_EncryptDecrypt2.esys_finish_cmd_axioms])
next
  case api_EventSequenceComplete
  show ?case unfolding Esys_EventSequenceComplete_def by (rule one_call_contract [OF async_EventSequenceComplete.esys_async_cmd_axioms finish_EventSequenceComplete.esys_finish_cmd_axioms])
next
  case api_EvictControl
  show ?case unfolding Esys_EvictControl_def by (rule one_call_contract [OF async_EvictControl.esys_async_cmd_axioms finish_EvictControl.esys_finish_cmd_axioms])
next
  case api_FieldUpgradeData
  show ?case unfolding Esys_FieldUpgradeData_def by (rule one_call_contract [OF async_FieldUpgradeData.esys_async_cmd_axioms finish_FieldUpgradeData.esys_finish_cmd_axioms])
next
  case api_FieldUpgradeStart
  show ?case unfolding Esys_FieldUpgradeStart_def by (rule one_call_contract [OF async_FieldUpgradeStart.esys_async_cmd_axioms finish_FieldUpgradeStart.esys_finish_cmd_axioms])
next
  case api_FirmwareRead
  show ?case unfolding Esys_FirmwareRead_def by (rule one_call_contract [OF async_FirmwareRead.esys_async_cmd_axioms finish_FirmwareRead.esys_finish_cmd_axioms])
next
  case api_FlushContext
  show ?case unfolding Esys_FlushContext_def by (rule one_call_contract [OF async_FlushContext.esys_async_cmd_axioms finish_FlushContext.esys_finish_cmd_axioms])
next
  case api_GetCapability
  show ?case unfolding Esys_GetCapability_def by (rule one_call_contract [OF async_GetCapability.esys_async_cmd_axioms finish_GetCapability.esys_finish_cmd_axioms])
next
  case api_GetCommandAuditDigest
  show ?case unfolding Esys_GetCommandAuditDigest_def by (rule one_call_contract [OF async_GetCommandAuditDigest.esys_async_cmd_axioms finish_GetCommandAuditDigest.esys_finish_cmd_axioms])
next
  case api_GetRandom
  show ?case unfolding Esys_GetRandom_def by (rule one_call_contract [OF async_GetRandom.esys_async_cmd_axioms finish_GetRandom.esys_finish_cmd_axioms])
next
  case api_GetSessionAuditDigest
  show ?case unfolding Esys_GetSessionAuditDigest_def by (rule one_call_contract [OF async_GetSessionAuditDigest.esys_async_cmd_axioms finish_GetSessionAuditDigest.esys_finish_cmd_axioms])
next
  case api_GetTestResult
  show ?case unfolding Esys_GetTestResult_def by (rule one_call_contract [OF async_GetTestResult.esys_async_cmd_axioms finish_GetTestResult.esys_finish_cmd_axioms])
next
  case api_GetTime
  show ?case unfolding Esys_GetTime_def by (rule one_call_contract [OF async_GetTime.esys_async_cmd_axioms finish_GetTime.esys_finish_cmd_axioms])
next
  case api_Hash
  show ?case unfolding Esys_Hash_def by (rule one_call_contract [OF async_Hash.esys_async_cmd_axioms finish_Hash.esys_finish_cmd_axioms])
next
  case api_HashSequenceStart
  show ?case unfolding Esys_HashSequenceStart_def by (rule one_call_contract [OF async_HashSequenceStart.esys_async_cmd_axioms finish_HashSequenceStart.esys_finish_cmd_axioms])
next
  case api_HierarchyChangeAuth
  show ?case unfolding Esys_HierarchyChangeAuth_def by (rule one_call_contract [OF async_HierarchyChangeAuth.esys_async_cmd_axioms finish_HierarchyChangeAuth.esys_finish_cmd_axioms])
next
  case api_HierarchyControl
  show ?case unfolding Esys_HierarchyControl_def by (rule one_call_contract [OF async_HierarchyControl.esys_async_cmd_axioms finish_HierarchyControl.esys_finish_cmd_axioms])
next
  case api_HMAC
  show ?case unfolding Esys_HMAC_def by (rule one_call_contract [OF async_HMAC.esys_async_cmd_axioms finish_HMAC.esys_finish_cmd_axioms])
next
  case api_HMAC_Start
  show ?case unfolding Esys_HMAC_Start_def by (rule one_call_contract [OF async_HMAC_Start.esys_async_cmd_axioms finish_HMAC_Start.esys_finish_cmd_axioms])
next
  case api_Import
  show ?case unfolding Esys_Import_def by (rule one_call_contract [OF async_Import.esys_async_cmd_axioms finish_Import.esys_finish_cmd_axioms])
next
  case api_IncrementalSelfTest
  show ?case unfolding Esys_IncrementalSelfTest_def by (rule one_call_contract [OF async_IncrementalSelfTest.esys_async_cmd_axioms finish_IncrementalSelfTest.esys_finish_cmd_axioms])
next
  case api_Load
  show ?case unfolding Esys_Load_def by (rule one_call_contract [OF async_Load.esys_async_cmd_axioms finish_Load.esys_finish_cmd_axioms])
next
  case api_LoadExternal
  show ?case unfolding Esys_LoadExternal_def by (rule one_call_contract [OF async_LoadExternal.esys_async_cmd_axioms finish_LoadExternal.esys_finish_cmd_axioms])
next
  case api_MAC
  show ?case unfolding Esys_MAC_def by (rule one_call_contract [OF async_MAC.esys_async_cmd_axioms finish_MAC.esys_finish_cmd_axioms])
next
  case api_MAC_Start
  show ?case unfolding Esys_MAC_Start_def by (rule one_call_contract [OF async_MAC_Start.esys_async_cmd_axioms finish_MAC_Start.esys_finish_cmd_axioms])
next
  case api_MakeCredential
  show ?case unfolding Esys_MakeCredential_def by (rule one_call_contract [OF async_MakeCredential.esys_async_cmd_axioms finish_MakeCredential.esys_finish_cmd_axioms])
next
  case api_NV_Certify
  show ?case unfolding Esys_NV_Certify_def by (rule one_call_contract [OF async_NV_Certify.esys_async_cmd_axioms finish_NV_Certify.esys_finish_cmd_axioms])
next
  case api_NV_ChangeAuth
  show ?case unfolding Esys_NV_ChangeAuth_def by (rule one_call_contract [OF async_NV_ChangeAuth.esys_async_cmd_axioms finish_NV_ChangeAuth.esys_finish_cmd_axioms])
next
  case api_NV_DefineSpace
  show ?case unfolding Esys_NV_DefineSpace_def by (rule one_call_contract [OF async_NV_DefineSpace.esys_async_cmd_axioms finish_NV_DefineSpace.esys_finish_cmd_axioms])
next
  case api_NV_Extend
  show ?case unfolding Esys_NV_Extend_def by (rule one_call_contract [OF async_NV_Extend.esys_async_cmd_axioms finish_NV_Extend.esys_finish_cmd_axioms])
next
  case api_NV_GlobalWriteLock
  show ?case unfolding Esys_NV_GlobalWriteLock_def by (rule one_call_contract [OF async_NV_GlobalWriteLock.esys_async_cmd_axioms finish_NV_GlobalWriteLock.esys_finish_cmd_axioms])
next
  case api_NV_Increment
  show ?case unfolding Esys_NV_Increment_def by (rule one_call_contract [OF async_NV_Increment.esys_async_cmd_axioms finish_NV_Increment.esys_finish_cmd_axioms])
next
  case api_NV_Read
  show ?case unfolding Esys_NV_Read_def by (rule one_call_contract [OF async_NV_Read.esys_async_cmd_axioms finish_NV_Read.esys_finish_cmd_axioms])
next
  case api_NV_ReadLock
  show ?case unfolding Esys_NV_ReadLock_def by (rule one_call_contract [OF async_NV_ReadLock.esys_async_cmd_axioms finish_NV_ReadLock.esys_finish_cmd_axioms])
next
  case api_NV_ReadPublic
  show ?case unfolding Esys_NV_ReadPublic_def by (rule one_call_contract [OF async_NV_ReadPublic.esys_async_cmd_axioms finish_NV_ReadPublic.esys_finish_cmd_axioms])
next
  case api_NV_SetBits
  show ?case unfolding Esys_NV_SetBits_def by (rule one_call_contract [OF async_NV_SetBits.esys_async_cmd_axioms finish_NV_SetBits.esys_finish_cmd_axioms])
next
  case api_NV_UndefineSpace
  show ?case unfolding Esys_NV_UndefineSpace_def by (rule one_call_contract [OF async_NV_UndefineSpace.esys_async_cmd_axioms finish_NV_UndefineSpace.esys_finish_cmd_axioms])
next
  case api_NV_UndefineSpaceSpecial
  show ?case unfolding Esys_NV_UndefineSpaceSpecial_def by (rule one_call_contract [OF async_NV_UndefineSpaceSpecial.esys_async_cmd_axioms finish_NV_UndefineSpaceSpecial.esys_finish_cmd_axioms])
next
  case api_NV_Write
  show ?case unfolding Esys_NV_Write_def by (rule one_call_contract [OF async_NV_Write.esys_async_cmd_axioms finish_NV_Write.esys_finish_cmd_axioms])
next
  case api_NV_WriteLock
  show ?case unfolding Esys_NV_WriteLock_def by (rule one_call_contract [OF async_NV_WriteLock.esys_async_cmd_axioms finish_NV_WriteLock.esys_finish_cmd_axioms])
next
  case api_ObjectChangeAuth
  show ?case unfolding Esys_ObjectChangeAuth_def by (rule one_call_contract [OF async_ObjectChangeAuth.esys_async_cmd_axioms finish_ObjectChangeAuth.esys_finish_cmd_axioms])
next
  case api_PCR_Allocate
  show ?case unfolding Esys_PCR_Allocate_def by (rule one_call_contract [OF async_PCR_Allocate.esys_async_cmd_axioms finish_PCR_Allocate.esys_finish_cmd_axioms])
next
  case api_PCR_Event
  show ?case unfolding Esys_PCR_Event_def by (rule one_call_contract [OF async_PCR_Event.esys_async_cmd_axioms finish_PCR_Event.esys_finish_cmd_axioms])
next
  case api_PCR_Extend
  show ?case unfolding Esys_PCR_Extend_def by (rule one_call_contract [OF async_PCR_Extend.esys_async_cmd_axioms finish_PCR_Extend.esys_finish_cmd_axioms])
next
  case api_PCR_Read
  show ?case unfolding Esys_PCR_Read_def by (rule one_call_contract [OF async_PCR_Read.esys_async_cmd_axioms finish_PCR_Read.esys_finish_cmd_axioms])
next
  case api_PCR_Reset
  show ?case unfolding Esys_PCR_Reset_def by (rule one_call_contract [OF async_PCR_Reset.esys_async_cmd_axioms finish_PCR_Reset.esys_finish_cmd_axioms])
next
  case api_PCR_SetAuthPolicy
  show ?case unfolding Esys_PCR_SetAuthPolicy_def by (rule one_call_contract [OF async_PCR_SetAuthPolicy.esys_async_cmd_axioms finish_PCR_SetAuthPolicy.esys_finish_cmd_axioms])
next
  case api_PCR_SetAuthValue
  show ?case unfolding Esys_PCR_SetAuthValue_def by (rule one_call_contract [OF async_PCR_SetAuthValue.esys_async_cmd_axioms finish_PCR_SetAuthValue.esys_finish_cmd_axioms])
next
  case api_Policy_AC_SendSelect
  show ?case unfolding Esys_Policy_AC_SendSelect_def by (rule one_call_contract [OF async_Policy_AC_SendSelect.esys_async_cmd_axioms finish_Policy_AC_SendSelect.esys_finish_cmd_axioms])
next
  case api_PolicyAuthorize
  show ?case unfolding Esys_PolicyAuthorize_def by (rule one_call_contract [OF async_PolicyAuthorize.esys_async_cmd_axioms finish_PolicyAuthorize.esys_finish_cmd_axioms])
next
  case api_PolicyAuthorizeNV
  show ?case unfolding Esys_PolicyAuthorizeNV_def by (rule one_call_contract [OF async_PolicyAuthorizeNV.esys_async_cmd_axioms finish_PolicyAuthorizeNV.esys_finish_cmd_axioms])
next
  case api_PolicyAuthValue
  show ?case unfolding Esys_PolicyAuthValue_def by (rule one_call_contract [OF async_PolicyAuthValue.esys_async_cmd_axioms finish_PolicyAuthValue.esys_finish_cmd_axioms])
next
  case api_PolicyCommandCode
  show ?case unfolding Esys_PolicyCommandCode_def by (rule one_call_contract [OF async_PolicyCommandCode.esys_async_cmd_axioms finish_PolicyCommandCode.esys_finish_cmd_axioms])
next
  case api_PolicyCounterTimer
  show ?case unfolding Esys_PolicyCounterTimer_def by (rule one_call_contract [OF async_PolicyCounterTimer.esys_async_cmd_axioms finish_PolicyCounterTimer.esys_finish_cmd_axioms])
next
  case api_PolicyCpHash
  show ?case unfolding Esys_PolicyCpHash_def by (rule one_call_contract [OF async_PolicyCpHash.esys_async_cmd_axioms finish_PolicyCpHash.esys_finish_cmd_axioms])
next
  case api_PolicyDuplicationSelect
  show ?case unfolding Esys_PolicyDuplicationSelect_def by (rule one_call_contract [OF async_PolicyDuplicationSelect.esys_async_cmd_axioms finish_PolicyDuplicationSelect.esys_finish_cmd_axioms])
next
  case api_PolicyGetDigest
  show ?case unfolding Esys_PolicyGetDigest_def by (rule one_call_contract [OF async_PolicyGetDigest.esys_async_cmd_axioms finish_PolicyGetDigest.esys_finish_cmd_axioms])
next
  case api_PolicyLocality
  show ?case unfolding Esys_PolicyLocality_def by (rule one_call_contract [OF async_PolicyLocality.esys_async_cmd_axioms finish_PolicyLocality.esys_finish_cmd_axioms])
next
  case api_PolicyNameHash
  show ?case unfolding Esys_PolicyNameHash_def by (rule one_call_contract [OF async_PolicyNameHash.esys_async_cmd_axioms finish_PolicyNameHash.esys_finish_cmd_axioms])
next
  case api_PolicyNV
  show ?case unfolding Esys_PolicyNV_def by (rule one_call_contract [OF async_PolicyNV.esys_async_cmd_axioms finish_PolicyNV.esys_finish_cmd_axioms])
next
  case api_PolicyNvWritten
  show ?case unfolding Esys_PolicyNvWritten_def by (rule one_call_contract [OF async_PolicyNvWritten.esys_async_cmd_axioms finish_PolicyNvWritten.esys_finish_cmd_axioms])
next
  case api_PolicyOR
  show ?case unfolding Esys_PolicyOR_def by (rule one_call_contract [OF async_PolicyOR.esys_async_cmd_axioms finish_PolicyOR.esys_finish_cmd_axioms])
next
  case api_PolicyPassword
  show ?case unfolding Esys_PolicyPassword_def by (rule one_call_contract [OF async_PolicyPassword.esys_async_cmd_axioms finish_PolicyPassword.esys_finish_cmd_axioms])
next
  case api_PolicyPCR
  show ?case unfolding Esys_PolicyPCR_def by (rule one_call_contract [OF async_PolicyPCR.esys_async_cmd_axioms finish_PolicyPCR.esys_finish_cmd_axioms])
next
  case api_PolicyPhysicalPresence
  show ?case unfolding Esys_PolicyPhysicalPresence_def by (rule one_call_contract [OF async_PolicyPhysicalPresence.esys_async_cmd_axioms finish_PolicyPhysicalPresence.esys_finish_cmd_axioms])
next
  case api_PolicyRestart
  show ?case unfolding Esys_PolicyRestart_def by (rule one_call_contract [OF async_PolicyRestart.esys_async_cmd_axioms finish_PolicyRestart.esys_finish_cmd_axioms])
next
  case api_PolicySecret
  show ?case unfolding Esys_PolicySecret_def by (rule one_call_contract [OF async_PolicySecret.esys_async_cmd_axioms finish_PolicySecret.esys_finish_cmd_axioms])
next
  case api_PolicySigned
  show ?case unfolding Esys_PolicySigned_def by (rule one_call_contract [OF async_PolicySigned.esys_async_cmd_axioms finish_PolicySigned.esys_finish_cmd_axioms])
next
  case api_PolicyTemplate
  show ?case unfolding Esys_PolicyTemplate_def by (rule one_call_contract [OF async_PolicyTemplate.esys_async_cmd_axioms finish_PolicyTemplate.esys_finish_cmd_axioms])
next
  case api_PolicyTicket
  show ?case unfolding Esys_PolicyTicket_def by (rule one_call_contract [OF async_PolicyTicket.esys_async_cmd_axioms finish_PolicyTicket.esys_finish_cmd_axioms])
next
  case api_PP_Commands
  show ?case unfolding Esys_PP_Commands_def by (rule one_call_contract [OF async_PP_Commands.esys_async_cmd_axioms finish_PP_Commands.esys_finish_cmd_axioms])
next
  case api_Quote
  show ?case unfolding Esys_Quote_def by (rule one_call_contract [OF async_Quote.esys_async_cmd_axioms finish_Quote.esys_finish_cmd_axioms])
next
  case api_ReadClock
  show ?case unfolding Esys_ReadClock_def by (rule one_call_contract [OF async_ReadClock.esys_async_cmd_axioms finish_ReadClock.esys_finish_cmd_axioms])
next
  case api_ReadPublic
  show ?case unfolding Esys_ReadPublic_def by (rule one_call_contract [OF async_ReadPublic.esys_async_cmd_axioms finish_ReadPublic.esys_finish_cmd_axioms])
next
  case api_Rewrap
  show ?case unfolding Esys_Rewrap_def by (rule one_call_contract [OF async_Rewrap.esys_async_cmd_axioms finish_Rewrap.esys_finish_cmd_axioms])
next
  case api_RSA_Decrypt
  show ?case unfolding Esys_RSA_Decrypt_def by (rule one_call_contract [OF async_RSA_Decrypt.esys_async_cmd_axioms finish_RSA_Decrypt.esys_finish_cmd_axioms])
next
  case api_RSA_Encrypt
  show ?case unfolding Esys_RSA_Encrypt_def by (rule one_call_contract [OF async_RSA_Encrypt.esys_async_cmd_axioms finish_RSA_Encrypt.esys_finish_cmd_axioms])
next
  case api_SelfTest
  show ?case unfolding Esys_SelfTest_def by (rule one_call_contract [OF async_SelfTest.esys_async_cmd_axioms finish_SelfTest.esys_finish_cmd_axioms])
next
  case api_SequenceComplete
  show ?case unfolding Esys_SequenceComplete_def by (rule one_call_contract [OF async_SequenceComplete.esys_async_cmd_axioms finish_SequenceComplete.esys_finish_cmd_axioms])
next
  case api_SequenceUpdate
  show ?case unfolding Esys_SequenceUpdate_def by (rule one_call_contract [OF async_SequenceUpdate.esys_async_cmd_axioms finish_SequenceUpdate.esys_finish_cmd_axioms])
next
  case api_SetAlgorithmSet
  show ?case unfolding Esys_SetAlgorithmSet_def by (rule one_call_contract [OF async_SetAlgorithmSet.esys_async_cmd_axioms finish_SetAlgorithmSet.esys_finish_cmd_axioms])
next
  case api_SetCommandCodeAuditStatus
  show ?case unfolding Esys_SetCommandCodeAuditStatus_def by (rule one_call_contract [OF async_SetCommandCodeAuditStatus.esys_async_cmd_axioms finish_SetCommandCodeAuditStatus.esys_finish_cmd_axioms])
next
  case api_SetPrimaryPolicy
  show ?case unfolding Esys_SetPrimaryPolicy_def by (rule one_call_contract [OF async_SetPrimaryPolicy.esys_async_cmd_axioms finish_SetPrimaryPolicy.esys_finish_cmd_axioms])
next
  case api_Shutdown
  show ?case unfolding Esys_Shutdown_def by (rule one_call_contract [OF async_Shutdown.esys_async_cmd_axioms finish_Shutdown.esys_finish_cmd_axioms])
next
  case api_Sign
  show ?case unfolding Esys_Sign_def by (rule one_call_contract [OF async_Sign.esys_async_cmd_axioms finish_Sign.esys_finish_cmd_axioms])
next
  case api_SignDigest
  show ?case unfolding Esys_SignDigest_def by (rule one_call_contract [OF async_SignDigest.esys_async_cmd_axioms finish_SignDigest.esys_finish_cmd_axioms])
next
  case api_SignSequenceComplete
  show ?case unfolding Esys_SignSequenceComplete_def by (rule one_call_contract [OF async_SignSequenceComplete.esys_async_cmd_axioms finish_SignSequenceComplete.esys_finish_cmd_axioms])
next
  case api_SignSequenceStart
  show ?case unfolding Esys_SignSequenceStart_def by (rule one_call_contract [OF async_SignSequenceStart.esys_async_cmd_axioms finish_SignSequenceStart.esys_finish_cmd_axioms])
next
  case api_StartAuthSession
  show ?case unfolding Esys_StartAuthSession_def by (rule one_call_contract [OF async_StartAuthSession.esys_async_cmd_axioms finish_StartAuthSession.esys_finish_cmd_axioms])
next
  case api_Startup
  show ?case unfolding Esys_Startup_def by (rule one_call_contract [OF async_Startup.esys_async_cmd_axioms finish_Startup.esys_finish_cmd_axioms])
next
  case api_StirRandom
  show ?case unfolding Esys_StirRandom_def by (rule one_call_contract [OF async_StirRandom.esys_async_cmd_axioms finish_StirRandom.esys_finish_cmd_axioms])
next
  case api_TestParms
  show ?case unfolding Esys_TestParms_def by (rule one_call_contract [OF async_TestParms.esys_async_cmd_axioms finish_TestParms.esys_finish_cmd_axioms])
next
  case api_Unseal
  show ?case unfolding Esys_Unseal_def by (rule one_call_contract [OF async_Unseal.esys_async_cmd_axioms finish_Unseal.esys_finish_cmd_axioms])
next
  case api_Vendor_TCG_Test
  show ?case unfolding Esys_Vendor_TCG_Test_def by (rule one_call_contract [OF async_Vendor_TCG_Test.esys_async_cmd_axioms finish_Vendor_TCG_Test.esys_finish_cmd_axioms])
next
  case api_VerifyDigestSignature
  show ?case unfolding Esys_VerifyDigestSignature_def by (rule one_call_contract [OF async_VerifyDigestSignature.esys_async_cmd_axioms finish_VerifyDigestSignature.esys_finish_cmd_axioms])
next
  case api_VerifySequenceComplete
  show ?case unfolding Esys_VerifySequenceComplete_def by (rule one_call_contract [OF async_VerifySequenceComplete.esys_async_cmd_axioms finish_VerifySequenceComplete.esys_finish_cmd_axioms])
next
  case api_VerifySequenceStart
  show ?case unfolding Esys_VerifySequenceStart_def by (rule one_call_contract [OF async_VerifySequenceStart.esys_async_cmd_axioms finish_VerifySequenceStart.esys_finish_cmd_axioms])
next
  case api_VerifySignature
  show ?case unfolding Esys_VerifySignature_def by (rule one_call_contract [OF async_VerifySignature.esys_async_cmd_axioms finish_VerifySignature.esys_finish_cmd_axioms])
next
  case api_ZGen_2Phase
  show ?case unfolding Esys_ZGen_2Phase_def by (rule one_call_contract [OF async_ZGen_2Phase.esys_async_cmd_axioms finish_ZGen_2Phase.esys_finish_cmd_axioms])
qed

text \<open>The one-call functions with a bound for the number of calls of their \<open>_Finish\<close> function.\<close>

inductive esys_api_bound :: "('t, 'c) api_call \<Rightarrow> (nat \<Rightarrow> ('t, 'c) esys option \<Rightarrow> (TSS2_RC \<times> ('t, 'c) esys option) option option) \<Rightarrow> bool" where
  bound_AC_GetCapability: "esys_api_bound (\<lambda>ctx. context_of (Esys_AC_GetCapability ctx optionalSession1 optionalSession2 optionalSession3 ac
      capability count moreData capabilityData)) (\<lambda>n ctx. one_call_within n (Esys_AC_GetCapability_Async ctx optionalSession1
      optionalSession2 optionalSession3 ac capability count) Esys_AC_GetCapability_Finish (moreData, capabilityData, ()))"
| bound_AC_Send: "esys_api_bound (\<lambda>ctx. context_of (Esys_AC_Send ctx sendObject nvAuthHandle ac optionalSession1 optionalSession2
      optionalSession3 acDataIn acDataOut)) (\<lambda>n ctx. one_call_within n (Esys_AC_Send_Async ctx sendObject nvAuthHandle
      optionalSession1 optionalSession2 optionalSession3 ac acDataIn) Esys_AC_Send_Finish (acDataOut, ()))"
| bound_ACT_SetTimeout: "esys_api_bound (\<lambda>ctx. context_of (Esys_ACT_SetTimeout ctx actHandle shandle1 shandle2 shandle3 startTimeout)) (\<lambda>n
      ctx. one_call_within n (Esys_ACT_SetTimeout_Async ctx actHandle shandle1 shandle2 shandle3 startTimeout)
      Esys_ACT_SetTimeout_Finish ())"
| bound_ActivateCredential: "esys_api_bound (\<lambda>ctx. context_of (Esys_ActivateCredential ctx activateHandle keyHandle shandle1 shandle2 shandle3
      credentialBlob secret certInfo)) (\<lambda>n ctx. one_call_within n (Esys_ActivateCredential_Async ctx activateHandle keyHandle
      shandle1 shandle2 shandle3 credentialBlob secret) Esys_ActivateCredential_Finish (certInfo, ()))"
| bound_Certify: "esys_api_bound (\<lambda>ctx. context_of (Esys_Certify ctx objectHandle signHandle shandle1 shandle2 shandle3 qualifyingData
      inScheme certifyInfo signature)) (\<lambda>n ctx. one_call_within n (Esys_Certify_Async ctx objectHandle signHandle shandle1
      shandle2 shandle3 qualifyingData inScheme) Esys_Certify_Finish (certifyInfo, signature, ()))"
| bound_CertifyCreation: "esys_api_bound (\<lambda>ctx. context_of (Esys_CertifyCreation ctx signHandle objectHandle shandle1 shandle2 shandle3
      qualifyingData creationHash inScheme creationTicket certifyInfo signature)) (\<lambda>n ctx. one_call_within n
      (Esys_CertifyCreation_Async ctx signHandle objectHandle shandle1 shandle2 shandle3 qualifyingData creationHash inScheme
      creationTicket) Esys_CertifyCreation_Finish (certifyInfo, signature, ()))"
| bound_CertifyX509: "esys_api_bound (\<lambda>ctx. context_of (Esys_CertifyX509 ctx objectHandle signHandle shandle1 shandle2 shandle3 reserved
      inScheme partialCertificate addedToCertificate tbsDigest signature)) (\<lambda>n ctx. one_call_within n (Esys_CertifyX509_Async
      ctx objectHandle signHandle shandle1 shandle2 shandle3 reserved inScheme partialCertificate) Esys_CertifyX509_Finish
      (addedToCertificate, tbsDigest, signature, ()))"
| bound_ChangeEPS: "esys_api_bound (\<lambda>ctx. context_of (Esys_ChangeEPS ctx authHandle shandle1 shandle2 shandle3)) (\<lambda>n ctx.
      one_call_within n (Esys_ChangeEPS_Async ctx authHandle shandle1 shandle2 shandle3) Esys_ChangeEPS_Finish ())"
| bound_ChangePPS: "esys_api_bound (\<lambda>ctx. context_of (Esys_ChangePPS ctx authHandle shandle1 shandle2 shandle3)) (\<lambda>n ctx.
      one_call_within n (Esys_ChangePPS_Async ctx authHandle shandle1 shandle2 shandle3) Esys_ChangePPS_Finish ())"
| bound_Clear: "esys_api_bound (\<lambda>ctx. context_of (Esys_Clear ctx authHandle shandle1 shandle2 shandle3)) (\<lambda>n ctx. one_call_within
      n (Esys_Clear_Async ctx authHandle shandle1 shandle2 shandle3) Esys_Clear_Finish ())"
| bound_ClearControl: "esys_api_bound (\<lambda>ctx. context_of (Esys_ClearControl ctx auth shandle1 shandle2 shandle3 disable)) (\<lambda>n ctx.
      one_call_within n (Esys_ClearControl_Async ctx auth shandle1 shandle2 shandle3 disable) Esys_ClearControl_Finish ())"
| bound_ClockRateAdjust: "esys_api_bound (\<lambda>ctx. context_of (Esys_ClockRateAdjust ctx auth shandle1 shandle2 shandle3 rateAdjust)) (\<lambda>n ctx.
      one_call_within n (Esys_ClockRateAdjust_Async ctx auth shandle1 shandle2 shandle3 rateAdjust) Esys_ClockRateAdjust_Finish ())"
| bound_ClockSet: "esys_api_bound (\<lambda>ctx. context_of (Esys_ClockSet ctx auth shandle1 shandle2 shandle3 newTime)) (\<lambda>n ctx.
      one_call_within n (Esys_ClockSet_Async ctx auth shandle1 shandle2 shandle3 newTime) Esys_ClockSet_Finish ())"
| bound_Commit: "esys_api_bound (\<lambda>ctx. context_of (Esys_Commit ctx signHandle shandle1 shandle2 shandle3 P1 s2 y2 K L E counter))
      (\<lambda>n ctx. one_call_within n (Esys_Commit_Async ctx signHandle shandle1 shandle2 shandle3 P1 s2 y2) Esys_Commit_Finish (K,
      L, E, counter, ()))"
| bound_ContextLoad: "esys_api_bound (\<lambda>ctx. context_of (Esys_ContextLoad ctx context loadedHandle)) (\<lambda>n ctx. one_call_within n
      (Esys_ContextLoad_Async ctx context) Esys_ContextLoad_Finish (loadedHandle, ()))"
| bound_ContextSave: "esys_api_bound (\<lambda>ctx. context_of (Esys_ContextSave ctx saveHandle context)) (\<lambda>n ctx. one_call_within n
      (Esys_ContextSave_Async ctx saveHandle) Esys_ContextSave_Finish (context, ()))"
| bound_Create: "esys_api_bound (\<lambda>ctx. context_of (Esys_Create ctx parentHandle shandle1 shandle2 shandle3 inSensitive inPublic outsideInfo
      creationPCR outPrivate outPublic creationData creationHash creationTicket)) (\<lambda>n ctx. one_call_within n (Esys_Create_Async
      ctx parentHandle shandle1 shandle2 shandle3 inSensitive inPublic outsideInfo creationPCR) Esys_Create_Finish (outPrivate,
      outPublic, creationData, creationHash, creationTicket, ()))"
| bound_CreateLoaded: "esys_api_bound (\<lambda>ctx. context_of (Esys_CreateLoaded ctx parentHandle shandle1 shandle2 shandle3 inSensitive inPublic
      objectHandle outPrivate outPublic)) (\<lambda>n ctx. one_call_within n (Esys_CreateLoaded_Async ctx parentHandle shandle1 shandle2
      shandle3 inSensitive inPublic) Esys_CreateLoaded_Finish (objectHandle, outPrivate, outPublic, ()))"
| bound_CreatePrimary: "esys_api_bound (\<lambda>ctx. context_of (Esys_CreatePrimary ctx primaryHandle shandle1 shandle2 shandle3 inSensitive inPublic
      outsideInfo creationPCR objectHandle outPublic creationData creationHash creationTicket)) (\<lambda>n ctx. one_call_within n
      (Esys_CreatePrimary_Async ctx primaryHandle shandle1 shandle2 shandle3 inSensitive inPublic outsideInfo creationPCR)
      Esys_CreatePrimary_Finish (objectHandle, outPublic, creationData, creationHash, creationTicket, ()))"
| bound_Decapsulate: "esys_api_bound (\<lambda>ctx. context_of (Esys_Decapsulate ctx keyHandle shandle1 shandle2 shandle3 cipherText label outSymSeed))
      (\<lambda>n ctx. one_call_within n (Esys_Decapsulate_Async ctx keyHandle shandle1 shandle2 shandle3 cipherText label)
      Esys_Decapsulate_Finish (outSymSeed, ()))"
| bound_DictionaryAttackLockReset: "esys_api_bound (\<lambda>ctx. context_of (Esys_DictionaryAttackLockReset ctx lockHandle shandle1 shandle2 shandle3)) (\<lambda>n
      ctx. one_call_within n (Esys_DictionaryAttackLockReset_Async ctx lockHandle shandle1 shandle2 shandle3)
      Esys_DictionaryAttackLockReset_Finish ())"
| bound_DictionaryAttackParameters: "esys_api_bound (\<lambda>ctx. context_of (Esys_DictionaryAttackParameters ctx lockHandle shandle1 shandle2 shandle3 newMaxTries
      newRecoveryTime lockoutRecovery)) (\<lambda>n ctx. one_call_within n (Esys_DictionaryAttackParameters_Async ctx lockHandle
      shandle1 shandle2 shandle3 newMaxTries newRecoveryTime lockoutRecovery) Esys_DictionaryAttackParameters_Finish ())"
| bound_Duplicate: "esys_api_bound (\<lambda>ctx. context_of (Esys_Duplicate ctx objectHandle newParentHandle shandle1 shandle2 shandle3
      encryptionKeyIn symmetricAlg encryptionKeyOut duplicate outSymSeed)) (\<lambda>n ctx. one_call_within n (Esys_Duplicate_Async ctx
      objectHandle newParentHandle shandle1 shandle2 shandle3 encryptionKeyIn symmetricAlg) Esys_Duplicate_Finish (encryptionKeyOut,
      duplicate, outSymSeed, ()))"
| bound_EC_Ephemeral: "esys_api_bound (\<lambda>ctx. context_of (Esys_EC_Ephemeral ctx shandle1 shandle2 shandle3 curveID Q counter)) (\<lambda>n ctx.
      one_call_within n (Esys_EC_Ephemeral_Async ctx shandle1 shandle2 shandle3 curveID) Esys_EC_Ephemeral_Finish (Q, counter, ()))"
| bound_ECC_Decrypt: "esys_api_bound (\<lambda>ctx. context_of (Esys_ECC_Decrypt ctx keyHandle shandle1 shandle2 shandle3 c1 c2 c3 inScheme plainText))
      (\<lambda>n ctx. one_call_within n (Esys_ECC_Decrypt_Async ctx keyHandle shandle1 shandle2 shandle3 c1 c2 c3 inScheme)
      Esys_ECC_Decrypt_Finish (plainText, ()))"
| bound_ECC_Encrypt: "esys_api_bound (\<lambda>ctx. context_of (Esys_ECC_Encrypt ctx keyHandle shandle1 shandle2 shandle3 plainText inScheme c1 c2 c3))
      (\<lambda>n ctx. one_call_within n (Esys_ECC_Encrypt_Async ctx keyHandle shandle1 shandle2 shandle3 plainText inScheme)
      Esys_ECC_Encrypt_Finish (c1, c2, c3, ()))"
| bound_ECC_Parameters: "esys_api_bound (\<lambda>ctx. context_of (Esys_ECC_Parameters ctx shandle1 shandle2 shandle3 curveID parameters)) (\<lambda>n ctx.
      one_call_within n (Esys_ECC_Parameters_Async ctx shandle1 shandle2 shandle3 curveID) Esys_ECC_Parameters_Finish (parameters, ()))"
| bound_ECDH_KeyGen: "esys_api_bound (\<lambda>ctx. context_of (Esys_ECDH_KeyGen ctx keyHandle shandle1 shandle2 shandle3 zPoint pubPoint)) (\<lambda>n
      ctx. one_call_within n (Esys_ECDH_KeyGen_Async ctx keyHandle shandle1 shandle2 shandle3) Esys_ECDH_KeyGen_Finish (zPoint,
      pubPoint, ()))"
| bound_ECDH_ZGen: "esys_api_bound (\<lambda>ctx. context_of (Esys_ECDH_ZGen ctx keyHandle shandle1 shandle2 shandle3 inPoint outPoint)) (\<lambda>n
      ctx. one_call_within n (Esys_ECDH_ZGen_Async ctx keyHandle shandle1 shandle2 shandle3 inPoint) Esys_ECDH_ZGen_Finish (outPoint,
      ()))"
| bound_Encapsulate: "esys_api_bound (\<lambda>ctx. context_of (Esys_Encapsulate ctx keyHandle shandle1 shandle2 shandle3 label outSymSeed cipherText))
      (\<lambda>n ctx. one_call_within n (Esys_Encapsulate_Async ctx keyHandle shandle1 shandle2 shandle3 label) Esys_Encapsulate_Finish
      (outSymSeed, cipherText, ()))"
| bound_EncryptDecrypt: "esys_api_bound (\<lambda>ctx. context_of (Esys_EncryptDecrypt ctx keyHandle shandle1 shandle2 shandle3 decrypt mode ivIn inData
      outData ivOut)) (\<lambda>n ctx. one_call_within n (Esys_EncryptDecrypt_Async ctx keyHandle shandle1 shandle2 shandle3 decrypt
      mode ivIn inData) Esys_EncryptDecrypt_Finish (outData, ivOut, ()))"
| bound_EncryptDecrypt2: "esys_api_bound (\<lambda>ctx. context_of (Esys_EncryptDecrypt2 ctx keyHandle shandle1 shandle2 shandle3 inData decrypt mode ivIn
      outData ivOut)) (\<lambda>n ctx. one_call_within n (Esys_EncryptDecrypt2_Async ctx keyHandle shandle1 shandle2 shandle3 inData
      decrypt mode ivIn) Esys_EncryptDecrypt2_Finish (outData, ivOut, ()))"
| bound_EventSequenceComplete: "esys_api_bound (\<lambda>ctx. context_of (Esys_EventSequenceComplete ctx pcrHandle sequenceHandle shandle1 shandle2 shandle3
      buffer results)) (\<lambda>n ctx. one_call_within n (Esys_EventSequenceComplete_Async ctx pcrHandle sequenceHandle shandle1
      shandle2 shandle3 buffer) Esys_EventSequenceComplete_Finish (results, ()))"
| bound_EvictControl: "esys_api_bound (\<lambda>ctx. context_of (Esys_EvictControl ctx auth objectHandle shandle1 shandle2 shandle3 persistentHandle
      newObjectHandle)) (\<lambda>n ctx. one_call_within n (Esys_EvictControl_Async ctx auth objectHandle shandle1 shandle2 shandle3
      persistentHandle) Esys_EvictControl_Finish (newObjectHandle, ()))"
| bound_FieldUpgradeData: "esys_api_bound (\<lambda>ctx. context_of (Esys_FieldUpgradeData ctx shandle1 shandle2 shandle3 fuData nextDigest firstDigest))
      (\<lambda>n ctx. one_call_within n (Esys_FieldUpgradeData_Async ctx shandle1 shandle2 shandle3 fuData)
      Esys_FieldUpgradeData_Finish (nextDigest, firstDigest, ()))"
| bound_FieldUpgradeStart: "esys_api_bound (\<lambda>ctx. context_of (Esys_FieldUpgradeStart ctx authorization keyHandle shandle1 shandle2 shandle3 fuDigest
      manifestSignature)) (\<lambda>n ctx. one_call_within n (Esys_FieldUpgradeStart_Async ctx authorization keyHandle shandle1 shandle2
      shandle3 fuDigest manifestSignature) Esys_FieldUpgradeStart_Finish ())"
| bound_FirmwareRead: "esys_api_bound (\<lambda>ctx. context_of (Esys_FirmwareRead ctx shandle1 shandle2 shandle3 sequenceNumber fuData)) (\<lambda>n
      ctx. one_call_within n (Esys_FirmwareRead_Async ctx shandle1 shandle2 shandle3 sequenceNumber) Esys_FirmwareRead_Finish (fuData,
      ()))"
| bound_FlushContext: "esys_api_bound (\<lambda>ctx. context_of (Esys_FlushContext ctx flushHandle)) (\<lambda>n ctx. one_call_within n
      (Esys_FlushContext_Async ctx flushHandle) Esys_FlushContext_Finish ())"
| bound_GetCapability: "esys_api_bound (\<lambda>ctx. context_of (Esys_GetCapability ctx shandle1 shandle2 shandle3 capability property propertyCount
      moreData capabilityData)) (\<lambda>n ctx. one_call_within n (Esys_GetCapability_Async ctx shandle1 shandle2 shandle3 capability
      property propertyCount) Esys_GetCapability_Finish (moreData, capabilityData, ()))"
| bound_GetCommandAuditDigest: "esys_api_bound (\<lambda>ctx. context_of (Esys_GetCommandAuditDigest ctx privacyHandle signHandle shandle1 shandle2 shandle3
      qualifyingData inScheme auditInfo signature)) (\<lambda>n ctx. one_call_within n (Esys_GetCommandAuditDigest_Async ctx
      privacyHandle signHandle shandle1 shandle2 shandle3 qualifyingData inScheme) Esys_GetCommandAuditDigest_Finish (auditInfo,
      signature, ()))"
| bound_GetRandom: "esys_api_bound (\<lambda>ctx. context_of (Esys_GetRandom ctx shandle1 shandle2 shandle3 bytesRequested randomBytes)) (\<lambda>n
      ctx. one_call_within n (Esys_GetRandom_Async ctx shandle1 shandle2 shandle3 bytesRequested) Esys_GetRandom_Finish (randomBytes,
      ()))"
| bound_GetSessionAuditDigest: "esys_api_bound (\<lambda>ctx. context_of (Esys_GetSessionAuditDigest ctx privacyAdminHandle signHandle sessionHandle shandle1
      shandle2 shandle3 qualifyingData inScheme auditInfo signature)) (\<lambda>n ctx. one_call_within n
      (Esys_GetSessionAuditDigest_Async ctx privacyAdminHandle signHandle sessionHandle shandle1 shandle2 shandle3 qualifyingData
      inScheme) Esys_GetSessionAuditDigest_Finish (auditInfo, signature, ()))"
| bound_GetTestResult: "esys_api_bound (\<lambda>ctx. context_of (Esys_GetTestResult ctx shandle1 shandle2 shandle3 outData testResult)) (\<lambda>n ctx.
      one_call_within n (Esys_GetTestResult_Async ctx shandle1 shandle2 shandle3) Esys_GetTestResult_Finish (outData, testResult, ()))"
| bound_GetTime: "esys_api_bound (\<lambda>ctx. context_of (Esys_GetTime ctx privacyAdminHandle signHandle shandle1 shandle2 shandle3 qualifyingData
      inScheme timeInfo signature)) (\<lambda>n ctx. one_call_within n (Esys_GetTime_Async ctx privacyAdminHandle signHandle shandle1
      shandle2 shandle3 qualifyingData inScheme) Esys_GetTime_Finish (timeInfo, signature, ()))"
| bound_Hash: "esys_api_bound (\<lambda>ctx. context_of (Esys_Hash ctx shandle1 shandle2 shandle3 data hashAlg hierarchy outHash validation))
      (\<lambda>n ctx. one_call_within n (Esys_Hash_Async ctx shandle1 shandle2 shandle3 data hashAlg hierarchy) Esys_Hash_Finish
      (outHash, validation, ()))"
| bound_HashSequenceStart: "esys_api_bound (\<lambda>ctx. context_of (Esys_HashSequenceStart ctx shandle1 shandle2 shandle3 auth hashAlg sequenceHandle))
      (\<lambda>n ctx. one_call_within n (Esys_HashSequenceStart_Async ctx shandle1 shandle2 shandle3 auth hashAlg)
      Esys_HashSequenceStart_Finish (sequenceHandle, ()))"
| bound_HierarchyChangeAuth: "esys_api_bound (\<lambda>ctx. context_of (Esys_HierarchyChangeAuth ctx authHandle shandle1 shandle2 shandle3 newAuth)) (\<lambda>n
      ctx. one_call_within n (Esys_HierarchyChangeAuth_Async ctx authHandle shandle1 shandle2 shandle3 newAuth)
      Esys_HierarchyChangeAuth_Finish ())"
| bound_HierarchyControl: "esys_api_bound (\<lambda>ctx. context_of (Esys_HierarchyControl ctx authHandle shandle1 shandle2 shandle3 enable state))
      (\<lambda>n ctx. one_call_within n (Esys_HierarchyControl_Async ctx authHandle shandle1 shandle2 shandle3 enable state)
      Esys_HierarchyControl_Finish ())"
| bound_HMAC: "esys_api_bound (\<lambda>ctx. context_of (Esys_HMAC ctx handle shandle1 shandle2 shandle3 buffer hashAlg outHMAC)) (\<lambda>n
      ctx. one_call_within n (Esys_HMAC_Async ctx handle shandle1 shandle2 shandle3 buffer hashAlg) Esys_HMAC_Finish (outHMAC, ()))"
| bound_HMAC_Start: "esys_api_bound (\<lambda>ctx. context_of (Esys_HMAC_Start ctx handle shandle1 shandle2 shandle3 auth hashAlg sequenceHandle))
      (\<lambda>n ctx. one_call_within n (Esys_HMAC_Start_Async ctx handle shandle1 shandle2 shandle3 auth hashAlg)
      Esys_HMAC_Start_Finish (sequenceHandle, ()))"
| bound_Import: "esys_api_bound (\<lambda>ctx. context_of (Esys_Import ctx parentHandle shandle1 shandle2 shandle3 encryptionKey objectPublic
      duplicate inSymSeed symmetricAlg outPrivate)) (\<lambda>n ctx. one_call_within n (Esys_Import_Async ctx parentHandle shandle1
      shandle2 shandle3 encryptionKey objectPublic duplicate inSymSeed symmetricAlg) Esys_Import_Finish (outPrivate, ()))"
| bound_IncrementalSelfTest: "esys_api_bound (\<lambda>ctx. context_of (Esys_IncrementalSelfTest ctx shandle1 shandle2 shandle3 toTest toDoList)) (\<lambda>n
      ctx. one_call_within n (Esys_IncrementalSelfTest_Async ctx shandle1 shandle2 shandle3 toTest) Esys_IncrementalSelfTest_Finish
      (toDoList, ()))"
| bound_Load: "esys_api_bound (\<lambda>ctx. context_of (Esys_Load ctx parentHandle shandle1 shandle2 shandle3 inPrivate inPublic objectHandle))
      (\<lambda>n ctx. one_call_within n (Esys_Load_Async ctx parentHandle shandle1 shandle2 shandle3 inPrivate inPublic)
      Esys_Load_Finish (objectHandle, ()))"
| bound_LoadExternal: "esys_api_bound (\<lambda>ctx. context_of (Esys_LoadExternal ctx shandle1 shandle2 shandle3 inPrivate inPublic hierarchy
      objectHandle)) (\<lambda>n ctx. one_call_within n (Esys_LoadExternal_Async ctx shandle1 shandle2 shandle3 inPrivate inPublic
      hierarchy) Esys_LoadExternal_Finish (objectHandle, ()))"
| bound_MAC: "esys_api_bound (\<lambda>ctx. context_of (Esys_MAC ctx handle handleSession1 optionalSession2 optionalSession3 buffer inScheme
      outMAC)) (\<lambda>n ctx. one_call_within n (Esys_MAC_Async ctx handle handleSession1 optionalSession2 optionalSession3 buffer
      inScheme) Esys_MAC_Finish (outMAC, ()))"
| bound_MAC_Start: "esys_api_bound (\<lambda>ctx. context_of (Esys_MAC_Start ctx handle handleSession1 optionalSession2 optionalSession3 auth inScheme
      sequenceHandle)) (\<lambda>n ctx. one_call_within n (Esys_MAC_Start_Async ctx handle handleSession1 optionalSession2
      optionalSession3 auth inScheme) Esys_MAC_Start_Finish (sequenceHandle, ()))"
| bound_MakeCredential: "esys_api_bound (\<lambda>ctx. context_of (Esys_MakeCredential ctx handle shandle1 shandle2 shandle3 credential objectName
      credentialBlob secret)) (\<lambda>n ctx. one_call_within n (Esys_MakeCredential_Async ctx handle shandle1 shandle2 shandle3
      credential objectName) Esys_MakeCredential_Finish (credentialBlob, secret, ()))"
| bound_NV_Certify: "esys_api_bound (\<lambda>ctx. context_of (Esys_NV_Certify ctx signHandle authHandle nvIndex shandle1 shandle2 shandle3
      qualifyingData inScheme size' offset certifyInfo signature)) (\<lambda>n ctx. one_call_within n (Esys_NV_Certify_Async ctx
      signHandle authHandle nvIndex shandle1 shandle2 shandle3 qualifyingData inScheme size' offset) Esys_NV_Certify_Finish
      (certifyInfo, signature, ()))"
| bound_NV_ChangeAuth: "esys_api_bound (\<lambda>ctx. context_of (Esys_NV_ChangeAuth ctx nvIndex shandle1 shandle2 shandle3 newAuth)) (\<lambda>n ctx.
      one_call_within n (Esys_NV_ChangeAuth_Async ctx nvIndex shandle1 shandle2 shandle3 newAuth) Esys_NV_ChangeAuth_Finish ())"
| bound_NV_DefineSpace: "esys_api_bound (\<lambda>ctx. context_of (Esys_NV_DefineSpace ctx authHandle shandle1 shandle2 shandle3 auth publicInfo nvHandle))
      (\<lambda>n ctx. one_call_within n (Esys_NV_DefineSpace_Async ctx authHandle shandle1 shandle2 shandle3 auth publicInfo)
      Esys_NV_DefineSpace_Finish (nvHandle, ()))"
| bound_NV_Extend: "esys_api_bound (\<lambda>ctx. context_of (Esys_NV_Extend ctx authHandle nvIndex shandle1 shandle2 shandle3 data)) (\<lambda>n ctx.
      one_call_within n (Esys_NV_Extend_Async ctx authHandle nvIndex shandle1 shandle2 shandle3 data) Esys_NV_Extend_Finish ())"
| bound_NV_GlobalWriteLock: "esys_api_bound (\<lambda>ctx. context_of (Esys_NV_GlobalWriteLock ctx authHandle shandle1 shandle2 shandle3)) (\<lambda>n ctx.
      one_call_within n (Esys_NV_GlobalWriteLock_Async ctx authHandle shandle1 shandle2 shandle3) Esys_NV_GlobalWriteLock_Finish ())"
| bound_NV_Increment: "esys_api_bound (\<lambda>ctx. context_of (Esys_NV_Increment ctx authHandle nvIndex shandle1 shandle2 shandle3)) (\<lambda>n ctx.
      one_call_within n (Esys_NV_Increment_Async ctx authHandle nvIndex shandle1 shandle2 shandle3) Esys_NV_Increment_Finish ())"
| bound_NV_Read: "esys_api_bound (\<lambda>ctx. context_of (Esys_NV_Read ctx authHandle nvIndex shandle1 shandle2 shandle3 size' offset data))
      (\<lambda>n ctx. one_call_within n (Esys_NV_Read_Async ctx authHandle nvIndex shandle1 shandle2 shandle3 size' offset)
      Esys_NV_Read_Finish (data, ()))"
| bound_NV_ReadLock: "esys_api_bound (\<lambda>ctx. context_of (Esys_NV_ReadLock ctx authHandle nvIndex shandle1 shandle2 shandle3)) (\<lambda>n ctx.
      one_call_within n (Esys_NV_ReadLock_Async ctx authHandle nvIndex shandle1 shandle2 shandle3) Esys_NV_ReadLock_Finish ())"
| bound_NV_ReadPublic: "esys_api_bound (\<lambda>ctx. context_of (Esys_NV_ReadPublic ctx nvIndex shandle1 shandle2 shandle3 nvPublic nvName)) (\<lambda>n
      ctx. one_call_within n (Esys_NV_ReadPublic_Async ctx nvIndex shandle1 shandle2 shandle3) Esys_NV_ReadPublic_Finish (nvPublic,
      nvName, ()))"
| bound_NV_SetBits: "esys_api_bound (\<lambda>ctx. context_of (Esys_NV_SetBits ctx authHandle nvIndex shandle1 shandle2 shandle3 bits)) (\<lambda>n
      ctx. one_call_within n (Esys_NV_SetBits_Async ctx authHandle nvIndex shandle1 shandle2 shandle3 bits) Esys_NV_SetBits_Finish ())"
| bound_NV_UndefineSpace: "esys_api_bound (\<lambda>ctx. context_of (Esys_NV_UndefineSpace ctx authHandle nvIndex shandle1 shandle2 shandle3)) (\<lambda>n
      ctx. one_call_within n (Esys_NV_UndefineSpace_Async ctx authHandle nvIndex shandle1 shandle2 shandle3)
      Esys_NV_UndefineSpace_Finish ())"
| bound_NV_UndefineSpaceSpecial: "esys_api_bound (\<lambda>ctx. context_of (Esys_NV_UndefineSpaceSpecial ctx nvIndex platform shandle1 shandle2 shandle3))
      (\<lambda>n ctx. one_call_within n (Esys_NV_UndefineSpaceSpecial_Async ctx nvIndex platform shandle1 shandle2 shandle3)
      Esys_NV_UndefineSpaceSpecial_Finish ())"
| bound_NV_Write: "esys_api_bound (\<lambda>ctx. context_of (Esys_NV_Write ctx authHandle nvIndex shandle1 shandle2 shandle3 data offset))
      (\<lambda>n ctx. one_call_within n (Esys_NV_Write_Async ctx authHandle nvIndex shandle1 shandle2 shandle3 data offset)
      Esys_NV_Write_Finish ())"
| bound_NV_WriteLock: "esys_api_bound (\<lambda>ctx. context_of (Esys_NV_WriteLock ctx authHandle nvIndex shandle1 shandle2 shandle3)) (\<lambda>n ctx.
      one_call_within n (Esys_NV_WriteLock_Async ctx authHandle nvIndex shandle1 shandle2 shandle3) Esys_NV_WriteLock_Finish ())"
| bound_ObjectChangeAuth: "esys_api_bound (\<lambda>ctx. context_of (Esys_ObjectChangeAuth ctx objectHandle parentHandle shandle1 shandle2 shandle3 newAuth
      outPrivate)) (\<lambda>n ctx. one_call_within n (Esys_ObjectChangeAuth_Async ctx objectHandle parentHandle shandle1 shandle2
      shandle3 newAuth) Esys_ObjectChangeAuth_Finish (outPrivate, ()))"
| bound_PCR_Allocate: "esys_api_bound (\<lambda>ctx. context_of (Esys_PCR_Allocate ctx authHandle shandle1 shandle2 shandle3 pcrAllocation
      allocationSuccess maxPCR sizeNeeded sizeAvailable)) (\<lambda>n ctx. one_call_within n (Esys_PCR_Allocate_Async ctx authHandle
      shandle1 shandle2 shandle3 pcrAllocation) Esys_PCR_Allocate_Finish (allocationSuccess, maxPCR, sizeNeeded, sizeAvailable, ()))"
| bound_PCR_Event: "esys_api_bound (\<lambda>ctx. context_of (Esys_PCR_Event ctx pcrHandle shandle1 shandle2 shandle3 eventData digests)) (\<lambda>n
      ctx. one_call_within n (Esys_PCR_Event_Async ctx pcrHandle shandle1 shandle2 shandle3 eventData) Esys_PCR_Event_Finish (digests,
      ()))"
| bound_PCR_Extend: "esys_api_bound (\<lambda>ctx. context_of (Esys_PCR_Extend ctx pcrHandle shandle1 shandle2 shandle3 digests)) (\<lambda>n ctx.
      one_call_within n (Esys_PCR_Extend_Async ctx pcrHandle shandle1 shandle2 shandle3 digests) Esys_PCR_Extend_Finish ())"
| bound_PCR_Read: "esys_api_bound (\<lambda>ctx. context_of (Esys_PCR_Read ctx shandle1 shandle2 shandle3 pcrSelectionIn pcrUpdateCounter
      pcrSelectionOut pcrValues)) (\<lambda>n ctx. one_call_within n (Esys_PCR_Read_Async ctx shandle1 shandle2 shandle3 pcrSelectionIn)
      Esys_PCR_Read_Finish (pcrUpdateCounter, pcrSelectionOut, pcrValues, ()))"
| bound_PCR_Reset: "esys_api_bound (\<lambda>ctx. context_of (Esys_PCR_Reset ctx pcrHandle shandle1 shandle2 shandle3)) (\<lambda>n ctx.
      one_call_within n (Esys_PCR_Reset_Async ctx pcrHandle shandle1 shandle2 shandle3) Esys_PCR_Reset_Finish ())"
| bound_PCR_SetAuthPolicy: "esys_api_bound (\<lambda>ctx. context_of (Esys_PCR_SetAuthPolicy ctx authHandle shandle1 shandle2 shandle3 authPolicy hashAlg
      pcrNum)) (\<lambda>n ctx. one_call_within n (Esys_PCR_SetAuthPolicy_Async ctx authHandle shandle1 shandle2 shandle3 authPolicy
      hashAlg pcrNum) Esys_PCR_SetAuthPolicy_Finish ())"
| bound_PCR_SetAuthValue: "esys_api_bound (\<lambda>ctx. context_of (Esys_PCR_SetAuthValue ctx pcrHandle shandle1 shandle2 shandle3 auth)) (\<lambda>n ctx.
      one_call_within n (Esys_PCR_SetAuthValue_Async ctx pcrHandle shandle1 shandle2 shandle3 auth) Esys_PCR_SetAuthValue_Finish ())"
| bound_Policy_AC_SendSelect: "esys_api_bound (\<lambda>ctx. context_of (Esys_Policy_AC_SendSelect ctx policySession1 optionalSession2 optionalSession3
      objectName authHandleName acName includeObject)) (\<lambda>n ctx. one_call_within n (Esys_Policy_AC_SendSelect_Async ctx
      policySession1 optionalSession2 optionalSession3 objectName authHandleName acName includeObject) Esys_Policy_AC_SendSelect_Finish
      ())"
| bound_PolicyAuthorize: "esys_api_bound (\<lambda>ctx. context_of (Esys_PolicyAuthorize ctx policySession shandle1 shandle2 shandle3 approvedPolicy
      policyRef keySign checkTicket)) (\<lambda>n ctx. one_call_within n (Esys_PolicyAuthorize_Async ctx policySession shandle1 shandle2
      shandle3 approvedPolicy policyRef keySign checkTicket) Esys_PolicyAuthorize_Finish ())"
| bound_PolicyAuthorizeNV: "esys_api_bound (\<lambda>ctx. context_of (Esys_PolicyAuthorizeNV ctx authHandle nvIndex policySession shandle1 shandle2 shandle3))
      (\<lambda>n ctx. one_call_within n (Esys_PolicyAuthorizeNV_Async ctx authHandle nvIndex policySession shandle1 shandle2 shandle3)
      Esys_PolicyAuthorizeNV_Finish ())"
| bound_PolicyAuthValue: "esys_api_bound (\<lambda>ctx. context_of (Esys_PolicyAuthValue ctx policySession shandle1 shandle2 shandle3)) (\<lambda>n ctx.
      one_call_within n (Esys_PolicyAuthValue_Async ctx policySession shandle1 shandle2 shandle3) Esys_PolicyAuthValue_Finish ())"
| bound_PolicyCommandCode: "esys_api_bound (\<lambda>ctx. context_of (Esys_PolicyCommandCode ctx policySession shandle1 shandle2 shandle3 code)) (\<lambda>n
      ctx. one_call_within n (Esys_PolicyCommandCode_Async ctx policySession shandle1 shandle2 shandle3 code)
      Esys_PolicyCommandCode_Finish ())"
| bound_PolicyCounterTimer: "esys_api_bound (\<lambda>ctx. context_of (Esys_PolicyCounterTimer ctx policySession shandle1 shandle2 shandle3 operandB offset
      operation)) (\<lambda>n ctx. one_call_within n (Esys_PolicyCounterTimer_Async ctx policySession shandle1 shandle2 shandle3
      operandB offset operation) Esys_PolicyCounterTimer_Finish ())"
| bound_PolicyCpHash: "esys_api_bound (\<lambda>ctx. context_of (Esys_PolicyCpHash ctx policySession shandle1 shandle2 shandle3 cpHashA)) (\<lambda>n
      ctx. one_call_within n (Esys_PolicyCpHash_Async ctx policySession shandle1 shandle2 shandle3 cpHashA) Esys_PolicyCpHash_Finish ())"
| bound_PolicyDuplicationSelect: "esys_api_bound (\<lambda>ctx. context_of (Esys_PolicyDuplicationSelect ctx policySession shandle1 shandle2 shandle3 objectName
      newParentName includeObject)) (\<lambda>n ctx. one_call_within n (Esys_PolicyDuplicationSelect_Async ctx policySession shandle1
      shandle2 shandle3 objectName newParentName includeObject) Esys_PolicyDuplicationSelect_Finish ())"
| bound_PolicyGetDigest: "esys_api_bound (\<lambda>ctx. context_of (Esys_PolicyGetDigest ctx policySession shandle1 shandle2 shandle3 policyDigest))
      (\<lambda>n ctx. one_call_within n (Esys_PolicyGetDigest_Async ctx policySession shandle1 shandle2 shandle3)
      Esys_PolicyGetDigest_Finish (policyDigest, ()))"
| bound_PolicyLocality: "esys_api_bound (\<lambda>ctx. context_of (Esys_PolicyLocality ctx policySession shandle1 shandle2 shandle3 locality)) (\<lambda>n
      ctx. one_call_within n (Esys_PolicyLocality_Async ctx policySession shandle1 shandle2 shandle3 locality)
      Esys_PolicyLocality_Finish ())"
| bound_PolicyNameHash: "esys_api_bound (\<lambda>ctx. context_of (Esys_PolicyNameHash ctx policySession shandle1 shandle2 shandle3 nameHash)) (\<lambda>n
      ctx. one_call_within n (Esys_PolicyNameHash_Async ctx policySession shandle1 shandle2 shandle3 nameHash)
      Esys_PolicyNameHash_Finish ())"
| bound_PolicyNV: "esys_api_bound (\<lambda>ctx. context_of (Esys_PolicyNV ctx authHandle nvIndex policySession shandle1 shandle2 shandle3 operandB
      offset operation)) (\<lambda>n ctx. one_call_within n (Esys_PolicyNV_Async ctx authHandle nvIndex policySession shandle1 shandle2
      shandle3 operandB offset operation) Esys_PolicyNV_Finish ())"
| bound_PolicyNvWritten: "esys_api_bound (\<lambda>ctx. context_of (Esys_PolicyNvWritten ctx policySession shandle1 shandle2 shandle3 writtenSet))
      (\<lambda>n ctx. one_call_within n (Esys_PolicyNvWritten_Async ctx policySession shandle1 shandle2 shandle3 writtenSet)
      Esys_PolicyNvWritten_Finish ())"
| bound_PolicyOR: "esys_api_bound (\<lambda>ctx. context_of (Esys_PolicyOR ctx policySession shandle1 shandle2 shandle3 pHashList)) (\<lambda>n ctx.
      one_call_within n (Esys_PolicyOR_Async ctx policySession shandle1 shandle2 shandle3 pHashList) Esys_PolicyOR_Finish ())"
| bound_PolicyPassword: "esys_api_bound (\<lambda>ctx. context_of (Esys_PolicyPassword ctx policySession shandle1 shandle2 shandle3)) (\<lambda>n ctx.
      one_call_within n (Esys_PolicyPassword_Async ctx policySession shandle1 shandle2 shandle3) Esys_PolicyPassword_Finish ())"
| bound_PolicyPCR: "esys_api_bound (\<lambda>ctx. context_of (Esys_PolicyPCR ctx policySession shandle1 shandle2 shandle3 pcrDigest pcrs)) (\<lambda>n
      ctx. one_call_within n (Esys_PolicyPCR_Async ctx policySession shandle1 shandle2 shandle3 pcrDigest pcrs) Esys_PolicyPCR_Finish
      ())"
| bound_PolicyPhysicalPresence: "esys_api_bound (\<lambda>ctx. context_of (Esys_PolicyPhysicalPresence ctx policySession shandle1 shandle2 shandle3)) (\<lambda>n
      ctx. one_call_within n (Esys_PolicyPhysicalPresence_Async ctx policySession shandle1 shandle2 shandle3)
      Esys_PolicyPhysicalPresence_Finish ())"
| bound_PolicyRestart: "esys_api_bound (\<lambda>ctx. context_of (Esys_PolicyRestart ctx sessionHandle shandle1 shandle2 shandle3)) (\<lambda>n ctx.
      one_call_within n (Esys_PolicyRestart_Async ctx sessionHandle shandle1 shandle2 shandle3) Esys_PolicyRestart_Finish ())"
| bound_PolicySecret: "esys_api_bound (\<lambda>ctx. context_of (Esys_PolicySecret ctx authHandle policySession shandle1 shandle2 shandle3 nonceTPM
      cpHashA policyRef expiration timeout policyTicket)) (\<lambda>n ctx. one_call_within n (Esys_PolicySecret_Async ctx authHandle
      policySession shandle1 shandle2 shandle3 nonceTPM cpHashA policyRef expiration) Esys_PolicySecret_Finish (timeout, policyTicket,
      ()))"
| bound_PolicySigned: "esys_api_bound (\<lambda>ctx. context_of (Esys_PolicySigned ctx authObject policySession shandle1 shandle2 shandle3 nonceTPM
      cpHashA policyRef expiration auth timeout policyTicket)) (\<lambda>n ctx. one_call_within n (Esys_PolicySigned_Async ctx
      authObject policySession shandle1 shandle2 shandle3 nonceTPM cpHashA policyRef expiration auth) Esys_PolicySigned_Finish (timeout,
      policyTicket, ()))"
| bound_PolicyTemplate: "esys_api_bound (\<lambda>ctx. context_of (Esys_PolicyTemplate ctx policySession shandle1 shandle2 shandle3 templateHash))
      (\<lambda>n ctx. one_call_within n (Esys_PolicyTemplate_Async ctx policySession shandle1 shandle2 shandle3 templateHash)
      Esys_PolicyTemplate_Finish ())"
| bound_PolicyTicket: "esys_api_bound (\<lambda>ctx. context_of (Esys_PolicyTicket ctx policySession shandle1 shandle2 shandle3 timeout cpHashA policyRef
      authName ticket)) (\<lambda>n ctx. one_call_within n (Esys_PolicyTicket_Async ctx policySession shandle1 shandle2 shandle3 timeout
      cpHashA policyRef authName ticket) Esys_PolicyTicket_Finish ())"
| bound_PP_Commands: "esys_api_bound (\<lambda>ctx. context_of (Esys_PP_Commands ctx auth shandle1 shandle2 shandle3 setList clearList)) (\<lambda>n
      ctx. one_call_within n (Esys_PP_Commands_Async ctx auth shandle1 shandle2 shandle3 setList clearList) Esys_PP_Commands_Finish ())"
| bound_Quote: "esys_api_bound (\<lambda>ctx. context_of (Esys_Quote ctx signHandle shandle1 shandle2 shandle3 qualifyingData inScheme PCRselect
      quoted signature)) (\<lambda>n ctx. one_call_within n (Esys_Quote_Async ctx signHandle shandle1 shandle2 shandle3 qualifyingData
      inScheme PCRselect) Esys_Quote_Finish (quoted, signature, ()))"
| bound_ReadClock: "esys_api_bound (\<lambda>ctx. context_of (Esys_ReadClock ctx shandle1 shandle2 shandle3 currentTime)) (\<lambda>n ctx.
      one_call_within n (Esys_ReadClock_Async ctx shandle1 shandle2 shandle3) Esys_ReadClock_Finish (currentTime, ()))"
| bound_ReadPublic: "esys_api_bound (\<lambda>ctx. context_of (Esys_ReadPublic ctx objectHandle shandle1 shandle2 shandle3 outPublic name
      qualifiedName)) (\<lambda>n ctx. one_call_within n (Esys_ReadPublic_Async ctx objectHandle shandle1 shandle2 shandle3)
      Esys_ReadPublic_Finish (outPublic, name, qualifiedName, ()))"
| bound_Rewrap: "esys_api_bound (\<lambda>ctx. context_of (Esys_Rewrap ctx oldParent newParent shandle1 shandle2 shandle3 inDuplicate name
      inSymSeed outDuplicate outSymSeed)) (\<lambda>n ctx. one_call_within n (Esys_Rewrap_Async ctx oldParent newParent shandle1
      shandle2 shandle3 inDuplicate name inSymSeed) Esys_Rewrap_Finish (outDuplicate, outSymSeed, ()))"
| bound_RSA_Decrypt: "esys_api_bound (\<lambda>ctx. context_of (Esys_RSA_Decrypt ctx keyHandle shandle1 shandle2 shandle3 cipherText inScheme label
      message)) (\<lambda>n ctx. one_call_within n (Esys_RSA_Decrypt_Async ctx keyHandle shandle1 shandle2 shandle3 cipherText inScheme
      label) Esys_RSA_Decrypt_Finish (message, ()))"
| bound_RSA_Encrypt: "esys_api_bound (\<lambda>ctx. context_of (Esys_RSA_Encrypt ctx keyHandle shandle1 shandle2 shandle3 message inScheme label
      outData)) (\<lambda>n ctx. one_call_within n (Esys_RSA_Encrypt_Async ctx keyHandle shandle1 shandle2 shandle3 message inScheme
      label) Esys_RSA_Encrypt_Finish (outData, ()))"
| bound_SelfTest: "esys_api_bound (\<lambda>ctx. context_of (Esys_SelfTest ctx shandle1 shandle2 shandle3 fullTest)) (\<lambda>n ctx. one_call_within
      n (Esys_SelfTest_Async ctx shandle1 shandle2 shandle3 fullTest) Esys_SelfTest_Finish ())"
| bound_SequenceComplete: "esys_api_bound (\<lambda>ctx. context_of (Esys_SequenceComplete ctx sequenceHandle shandle1 shandle2 shandle3 buffer hierarchy
      result validation)) (\<lambda>n ctx. one_call_within n (Esys_SequenceComplete_Async ctx sequenceHandle shandle1 shandle2 shandle3
      buffer hierarchy) Esys_SequenceComplete_Finish (result, validation, ()))"
| bound_SequenceUpdate: "esys_api_bound (\<lambda>ctx. context_of (Esys_SequenceUpdate ctx sequenceHandle shandle1 shandle2 shandle3 buffer)) (\<lambda>n
      ctx. one_call_within n (Esys_SequenceUpdate_Async ctx sequenceHandle shandle1 shandle2 shandle3 buffer) Esys_SequenceUpdate_Finish
      ())"
| bound_SetAlgorithmSet: "esys_api_bound (\<lambda>ctx. context_of (Esys_SetAlgorithmSet ctx authHandle shandle1 shandle2 shandle3 algorithmSet))
      (\<lambda>n ctx. one_call_within n (Esys_SetAlgorithmSet_Async ctx authHandle shandle1 shandle2 shandle3 algorithmSet)
      Esys_SetAlgorithmSet_Finish ())"
| bound_SetCommandCodeAuditStatus: "esys_api_bound (\<lambda>ctx. context_of (Esys_SetCommandCodeAuditStatus ctx auth shandle1 shandle2 shandle3 auditAlg setList
      clearList)) (\<lambda>n ctx. one_call_within n (Esys_SetCommandCodeAuditStatus_Async ctx auth shandle1 shandle2 shandle3 auditAlg
      setList clearList) Esys_SetCommandCodeAuditStatus_Finish ())"
| bound_SetPrimaryPolicy: "esys_api_bound (\<lambda>ctx. context_of (Esys_SetPrimaryPolicy ctx authHandle shandle1 shandle2 shandle3 authPolicy hashAlg))
      (\<lambda>n ctx. one_call_within n (Esys_SetPrimaryPolicy_Async ctx authHandle shandle1 shandle2 shandle3 authPolicy hashAlg)
      Esys_SetPrimaryPolicy_Finish ())"
| bound_Shutdown: "esys_api_bound (\<lambda>ctx. context_of (Esys_Shutdown ctx shandle1 shandle2 shandle3 shutdownType)) (\<lambda>n ctx.
      one_call_within n (Esys_Shutdown_Async ctx shandle1 shandle2 shandle3 shutdownType) Esys_Shutdown_Finish ())"
| bound_Sign: "esys_api_bound (\<lambda>ctx. context_of (Esys_Sign ctx keyHandle shandle1 shandle2 shandle3 digest inScheme validation
      signature)) (\<lambda>n ctx. one_call_within n (Esys_Sign_Async ctx keyHandle shandle1 shandle2 shandle3 digest inScheme
      validation) Esys_Sign_Finish (signature, ()))"
| bound_SignDigest: "esys_api_bound (\<lambda>ctx. context_of (Esys_SignDigest ctx keyHandle shandle1 shandle2 shandle3 digest inScheme validation
      signature)) (\<lambda>n ctx. one_call_within n (Esys_SignDigest_Async ctx keyHandle shandle1 shandle2 shandle3 digest inScheme
      validation) Esys_SignDigest_Finish (signature, ()))"
| bound_SignSequenceComplete: "esys_api_bound (\<lambda>ctx. context_of (Esys_SignSequenceComplete ctx sequenceHandle shandle1 shandle2 shandle3 buffer
      signature)) (\<lambda>n ctx. one_call_within n (Esys_SignSequenceComplete_Async ctx sequenceHandle shandle1 shandle2 shandle3
      buffer) Esys_SignSequenceComplete_Finish (signature, ()))"
| bound_SignSequenceStart: "esys_api_bound (\<lambda>ctx. context_of (Esys_SignSequenceStart ctx keyHandle shandle1 shandle2 shandle3 inScheme keyB
      sequenceHandle)) (\<lambda>n ctx. one_call_within n (Esys_SignSequenceStart_Async ctx keyHandle shandle1 shandle2 shandle3
      inScheme keyB) Esys_SignSequenceStart_Finish (sequenceHandle, ()))"
| bound_StartAuthSession: "esys_api_bound (\<lambda>ctx. context_of (Esys_StartAuthSession ctx tpmKey bind shandle1 shandle2 shandle3 nonceCaller sessionType
      symmetric authHash sessionHandle)) (\<lambda>n ctx. one_call_within n (Esys_StartAuthSession_Async ctx tpmKey bind shandle1
      shandle2 shandle3 nonceCaller sessionType symmetric authHash) Esys_StartAuthSession_Finish (sessionHandle, ()))"
| bound_Startup: "esys_api_bound (\<lambda>ctx. context_of (Esys_Startup ctx startupType)) (\<lambda>n ctx. one_call_within n (Esys_Startup_Async
      ctx startupType) Esys_Startup_Finish ())"
| bound_StirRandom: "esys_api_bound (\<lambda>ctx. context_of (Esys_StirRandom ctx shandle1 shandle2 shandle3 inData)) (\<lambda>n ctx. one_call_within
      n (Esys_StirRandom_Async ctx shandle1 shandle2 shandle3 inData) Esys_StirRandom_Finish ())"
| bound_TestParms: "esys_api_bound (\<lambda>ctx. context_of (Esys_TestParms ctx shandle1 shandle2 shandle3 parameters)) (\<lambda>n ctx.
      one_call_within n (Esys_TestParms_Async ctx shandle1 shandle2 shandle3 parameters) Esys_TestParms_Finish ())"
| bound_Unseal: "esys_api_bound (\<lambda>ctx. context_of (Esys_Unseal ctx itemHandle shandle1 shandle2 shandle3 outData)) (\<lambda>n ctx.
      one_call_within n (Esys_Unseal_Async ctx itemHandle shandle1 shandle2 shandle3) Esys_Unseal_Finish (outData, ()))"
| bound_Vendor_TCG_Test: "esys_api_bound (\<lambda>ctx. context_of (Esys_Vendor_TCG_Test ctx shandle1 shandle2 shandle3 inputData outputData)) (\<lambda>n
      ctx. one_call_within n (Esys_Vendor_TCG_Test_Async ctx shandle1 shandle2 shandle3 inputData) Esys_Vendor_TCG_Test_Finish
      (outputData, ()))"
| bound_VerifyDigestSignature: "esys_api_bound (\<lambda>ctx. context_of (Esys_VerifyDigestSignature ctx keyHandle shandle1 shandle2 shandle3 digest signature
      validation)) (\<lambda>n ctx. one_call_within n (Esys_VerifyDigestSignature_Async ctx keyHandle shandle1 shandle2 shandle3 digest
      signature) Esys_VerifyDigestSignature_Finish (validation, ()))"
| bound_VerifySequenceComplete: "esys_api_bound (\<lambda>ctx. context_of (Esys_VerifySequenceComplete ctx sequenceHandle shandle1 shandle2 shandle3 buffer
      validation)) (\<lambda>n ctx. one_call_within n (Esys_VerifySequenceComplete_Async ctx sequenceHandle shandle1 shandle2 shandle3
      buffer) Esys_VerifySequenceComplete_Finish (validation, ()))"
| bound_VerifySequenceStart: "esys_api_bound (\<lambda>ctx. context_of (Esys_VerifySequenceStart ctx keyHandle shandle1 shandle2 shandle3 signature
      sequenceHandle)) (\<lambda>n ctx. one_call_within n (Esys_VerifySequenceStart_Async ctx keyHandle shandle1 shandle2 shandle3
      signature) Esys_VerifySequenceStart_Finish (sequenceHandle, ()))"
| bound_VerifySignature: "esys_api_bound (\<lambda>ctx. context_of (Esys_VerifySignature ctx keyHandle shandle1 shandle2 shandle3 digest signature
      validation)) (\<lambda>n ctx. one_call_within n (Esys_VerifySignature_Async ctx keyHandle shandle1 shandle2 shandle3 digest
      signature) Esys_VerifySignature_Finish (validation, ()))"
| bound_ZGen_2Phase: "esys_api_bound (\<lambda>ctx. context_of (Esys_ZGen_2Phase ctx keyA shandle1 shandle2 shandle3 inQsB inQeB inScheme counter outZ1
      outZ2)) (\<lambda>n ctx. one_call_within n (Esys_ZGen_2Phase_Async ctx keyA shandle1 shandle2 shandle3 inQsB inQeB inScheme
      counter) Esys_ZGen_2Phase_Finish (outZ1, outZ2, ()))"

lemma api_bound_ends:
  "esys_api_bound C B \<Longrightarrow> patient (esys_link s) \<Longrightarrow> B 7 (Some s) \<noteq> Some None \<and> C (Some s) = Option.bind (B 7 (Some s)) id"
proof (induction rule: esys_api_bound.induct)
  case bound_AC_GetCapability
  then show ?case unfolding Esys_AC_GetCapability_def by (rule one_call_ends [OF async_AC_GetCapability.esys_async_cmd_axioms finish_AC_GetCapability.esys_finish_cmd_axioms])
next
  case bound_AC_Send
  then show ?case unfolding Esys_AC_Send_def by (rule one_call_ends [OF async_AC_Send.esys_async_cmd_axioms finish_AC_Send.esys_finish_cmd_axioms])
next
  case bound_ACT_SetTimeout
  then show ?case unfolding Esys_ACT_SetTimeout_def by (rule one_call_ends [OF async_ACT_SetTimeout.esys_async_cmd_axioms finish_ACT_SetTimeout.esys_finish_cmd_axioms])
next
  case bound_ActivateCredential
  then show ?case unfolding Esys_ActivateCredential_def by (rule one_call_ends [OF async_ActivateCredential.esys_async_cmd_axioms finish_ActivateCredential.esys_finish_cmd_axioms])
next
  case bound_Certify
  then show ?case unfolding Esys_Certify_def by (rule one_call_ends [OF async_Certify.esys_async_cmd_axioms finish_Certify.esys_finish_cmd_axioms])
next
  case bound_CertifyCreation
  then show ?case unfolding Esys_CertifyCreation_def by (rule one_call_ends [OF async_CertifyCreation.esys_async_cmd_axioms finish_CertifyCreation.esys_finish_cmd_axioms])
next
  case bound_CertifyX509
  then show ?case unfolding Esys_CertifyX509_def by (rule one_call_ends [OF async_CertifyX509.esys_async_cmd_axioms finish_CertifyX509.esys_finish_cmd_axioms])
next
  case bound_ChangeEPS
  then show ?case unfolding Esys_ChangeEPS_def by (rule one_call_ends [OF async_ChangeEPS.esys_async_cmd_axioms finish_ChangeEPS.esys_finish_cmd_axioms])
next
  case bound_ChangePPS
  then show ?case unfolding Esys_ChangePPS_def by (rule one_call_ends [OF async_ChangePPS.esys_async_cmd_axioms finish_ChangePPS.esys_finish_cmd_axioms])
next
  case bound_Clear
  then show ?case unfolding Esys_Clear_def by (rule one_call_ends [OF async_Clear.esys_async_cmd_axioms finish_Clear.esys_finish_cmd_axioms])
next
  case bound_ClearControl
  then show ?case unfolding Esys_ClearControl_def by (rule one_call_ends [OF async_ClearControl.esys_async_cmd_axioms finish_ClearControl.esys_finish_cmd_axioms])
next
  case bound_ClockRateAdjust
  then show ?case unfolding Esys_ClockRateAdjust_def by (rule one_call_ends [OF async_ClockRateAdjust.esys_async_cmd_axioms finish_ClockRateAdjust.esys_finish_cmd_axioms])
next
  case bound_ClockSet
  then show ?case unfolding Esys_ClockSet_def by (rule one_call_ends [OF async_ClockSet.esys_async_cmd_axioms finish_ClockSet.esys_finish_cmd_axioms])
next
  case bound_Commit
  then show ?case unfolding Esys_Commit_def by (rule one_call_ends [OF async_Commit.esys_async_cmd_axioms finish_Commit.esys_finish_cmd_axioms])
next
  case bound_ContextLoad
  then show ?case unfolding Esys_ContextLoad_def by (rule one_call_ends [OF async_ContextLoad.esys_async_cmd_axioms finish_ContextLoad.esys_finish_cmd_axioms])
next
  case bound_ContextSave
  then show ?case unfolding Esys_ContextSave_def by (rule one_call_ends [OF async_ContextSave.esys_async_cmd_axioms finish_ContextSave.esys_finish_cmd_axioms])
next
  case bound_Create
  then show ?case unfolding Esys_Create_def by (rule one_call_ends [OF async_Create.esys_async_cmd_axioms finish_Create.esys_finish_cmd_axioms])
next
  case bound_CreateLoaded
  then show ?case unfolding Esys_CreateLoaded_def by (rule one_call_ends [OF async_CreateLoaded.esys_async_cmd_axioms finish_CreateLoaded.esys_finish_cmd_axioms])
next
  case bound_CreatePrimary
  then show ?case unfolding Esys_CreatePrimary_def by (rule one_call_ends [OF async_CreatePrimary.esys_async_cmd_axioms finish_CreatePrimary.esys_finish_cmd_axioms])
next
  case bound_Decapsulate
  then show ?case unfolding Esys_Decapsulate_def by (rule one_call_ends [OF async_Decapsulate.esys_async_cmd_axioms finish_Decapsulate.esys_finish_cmd_axioms])
next
  case bound_DictionaryAttackLockReset
  then show ?case unfolding Esys_DictionaryAttackLockReset_def by (rule one_call_ends [OF async_DictionaryAttackLockReset.esys_async_cmd_axioms finish_DictionaryAttackLockReset.esys_finish_cmd_axioms])
next
  case bound_DictionaryAttackParameters
  then show ?case unfolding Esys_DictionaryAttackParameters_def by (rule one_call_ends [OF async_DictionaryAttackParameters.esys_async_cmd_axioms finish_DictionaryAttackParameters.esys_finish_cmd_axioms])
next
  case bound_Duplicate
  then show ?case unfolding Esys_Duplicate_def by (rule one_call_ends [OF async_Duplicate.esys_async_cmd_axioms finish_Duplicate.esys_finish_cmd_axioms])
next
  case bound_EC_Ephemeral
  then show ?case unfolding Esys_EC_Ephemeral_def by (rule one_call_ends [OF async_EC_Ephemeral.esys_async_cmd_axioms finish_EC_Ephemeral.esys_finish_cmd_axioms])
next
  case bound_ECC_Decrypt
  then show ?case unfolding Esys_ECC_Decrypt_def by (rule one_call_ends [OF async_ECC_Decrypt.esys_async_cmd_axioms finish_ECC_Decrypt.esys_finish_cmd_axioms])
next
  case bound_ECC_Encrypt
  then show ?case unfolding Esys_ECC_Encrypt_def by (rule one_call_ends [OF async_ECC_Encrypt.esys_async_cmd_axioms finish_ECC_Encrypt.esys_finish_cmd_axioms])
next
  case bound_ECC_Parameters
  then show ?case unfolding Esys_ECC_Parameters_def by (rule one_call_ends [OF async_ECC_Parameters.esys_async_cmd_axioms finish_ECC_Parameters.esys_finish_cmd_axioms])
next
  case bound_ECDH_KeyGen
  then show ?case unfolding Esys_ECDH_KeyGen_def by (rule one_call_ends [OF async_ECDH_KeyGen.esys_async_cmd_axioms finish_ECDH_KeyGen.esys_finish_cmd_axioms])
next
  case bound_ECDH_ZGen
  then show ?case unfolding Esys_ECDH_ZGen_def by (rule one_call_ends [OF async_ECDH_ZGen.esys_async_cmd_axioms finish_ECDH_ZGen.esys_finish_cmd_axioms])
next
  case bound_Encapsulate
  then show ?case unfolding Esys_Encapsulate_def by (rule one_call_ends [OF async_Encapsulate.esys_async_cmd_axioms finish_Encapsulate.esys_finish_cmd_axioms])
next
  case bound_EncryptDecrypt
  then show ?case unfolding Esys_EncryptDecrypt_def by (rule one_call_ends [OF async_EncryptDecrypt.esys_async_cmd_axioms finish_EncryptDecrypt.esys_finish_cmd_axioms])
next
  case bound_EncryptDecrypt2
  then show ?case unfolding Esys_EncryptDecrypt2_def by (rule one_call_ends [OF async_EncryptDecrypt2.esys_async_cmd_axioms finish_EncryptDecrypt2.esys_finish_cmd_axioms])
next
  case bound_EventSequenceComplete
  then show ?case unfolding Esys_EventSequenceComplete_def by (rule one_call_ends [OF async_EventSequenceComplete.esys_async_cmd_axioms finish_EventSequenceComplete.esys_finish_cmd_axioms])
next
  case bound_EvictControl
  then show ?case unfolding Esys_EvictControl_def by (rule one_call_ends [OF async_EvictControl.esys_async_cmd_axioms finish_EvictControl.esys_finish_cmd_axioms])
next
  case bound_FieldUpgradeData
  then show ?case unfolding Esys_FieldUpgradeData_def by (rule one_call_ends [OF async_FieldUpgradeData.esys_async_cmd_axioms finish_FieldUpgradeData.esys_finish_cmd_axioms])
next
  case bound_FieldUpgradeStart
  then show ?case unfolding Esys_FieldUpgradeStart_def by (rule one_call_ends [OF async_FieldUpgradeStart.esys_async_cmd_axioms finish_FieldUpgradeStart.esys_finish_cmd_axioms])
next
  case bound_FirmwareRead
  then show ?case unfolding Esys_FirmwareRead_def by (rule one_call_ends [OF async_FirmwareRead.esys_async_cmd_axioms finish_FirmwareRead.esys_finish_cmd_axioms])
next
  case bound_FlushContext
  then show ?case unfolding Esys_FlushContext_def by (rule one_call_ends [OF async_FlushContext.esys_async_cmd_axioms finish_FlushContext.esys_finish_cmd_axioms])
next
  case bound_GetCapability
  then show ?case unfolding Esys_GetCapability_def by (rule one_call_ends [OF async_GetCapability.esys_async_cmd_axioms finish_GetCapability.esys_finish_cmd_axioms])
next
  case bound_GetCommandAuditDigest
  then show ?case unfolding Esys_GetCommandAuditDigest_def by (rule one_call_ends [OF async_GetCommandAuditDigest.esys_async_cmd_axioms finish_GetCommandAuditDigest.esys_finish_cmd_axioms])
next
  case bound_GetRandom
  then show ?case unfolding Esys_GetRandom_def by (rule one_call_ends [OF async_GetRandom.esys_async_cmd_axioms finish_GetRandom.esys_finish_cmd_axioms])
next
  case bound_GetSessionAuditDigest
  then show ?case unfolding Esys_GetSessionAuditDigest_def by (rule one_call_ends [OF async_GetSessionAuditDigest.esys_async_cmd_axioms finish_GetSessionAuditDigest.esys_finish_cmd_axioms])
next
  case bound_GetTestResult
  then show ?case unfolding Esys_GetTestResult_def by (rule one_call_ends [OF async_GetTestResult.esys_async_cmd_axioms finish_GetTestResult.esys_finish_cmd_axioms])
next
  case bound_GetTime
  then show ?case unfolding Esys_GetTime_def by (rule one_call_ends [OF async_GetTime.esys_async_cmd_axioms finish_GetTime.esys_finish_cmd_axioms])
next
  case bound_Hash
  then show ?case unfolding Esys_Hash_def by (rule one_call_ends [OF async_Hash.esys_async_cmd_axioms finish_Hash.esys_finish_cmd_axioms])
next
  case bound_HashSequenceStart
  then show ?case unfolding Esys_HashSequenceStart_def by (rule one_call_ends [OF async_HashSequenceStart.esys_async_cmd_axioms finish_HashSequenceStart.esys_finish_cmd_axioms])
next
  case bound_HierarchyChangeAuth
  then show ?case unfolding Esys_HierarchyChangeAuth_def by (rule one_call_ends [OF async_HierarchyChangeAuth.esys_async_cmd_axioms finish_HierarchyChangeAuth.esys_finish_cmd_axioms])
next
  case bound_HierarchyControl
  then show ?case unfolding Esys_HierarchyControl_def by (rule one_call_ends [OF async_HierarchyControl.esys_async_cmd_axioms finish_HierarchyControl.esys_finish_cmd_axioms])
next
  case bound_HMAC
  then show ?case unfolding Esys_HMAC_def by (rule one_call_ends [OF async_HMAC.esys_async_cmd_axioms finish_HMAC.esys_finish_cmd_axioms])
next
  case bound_HMAC_Start
  then show ?case unfolding Esys_HMAC_Start_def by (rule one_call_ends [OF async_HMAC_Start.esys_async_cmd_axioms finish_HMAC_Start.esys_finish_cmd_axioms])
next
  case bound_Import
  then show ?case unfolding Esys_Import_def by (rule one_call_ends [OF async_Import.esys_async_cmd_axioms finish_Import.esys_finish_cmd_axioms])
next
  case bound_IncrementalSelfTest
  then show ?case unfolding Esys_IncrementalSelfTest_def by (rule one_call_ends [OF async_IncrementalSelfTest.esys_async_cmd_axioms finish_IncrementalSelfTest.esys_finish_cmd_axioms])
next
  case bound_Load
  then show ?case unfolding Esys_Load_def by (rule one_call_ends [OF async_Load.esys_async_cmd_axioms finish_Load.esys_finish_cmd_axioms])
next
  case bound_LoadExternal
  then show ?case unfolding Esys_LoadExternal_def by (rule one_call_ends [OF async_LoadExternal.esys_async_cmd_axioms finish_LoadExternal.esys_finish_cmd_axioms])
next
  case bound_MAC
  then show ?case unfolding Esys_MAC_def by (rule one_call_ends [OF async_MAC.esys_async_cmd_axioms finish_MAC.esys_finish_cmd_axioms])
next
  case bound_MAC_Start
  then show ?case unfolding Esys_MAC_Start_def by (rule one_call_ends [OF async_MAC_Start.esys_async_cmd_axioms finish_MAC_Start.esys_finish_cmd_axioms])
next
  case bound_MakeCredential
  then show ?case unfolding Esys_MakeCredential_def by (rule one_call_ends [OF async_MakeCredential.esys_async_cmd_axioms finish_MakeCredential.esys_finish_cmd_axioms])
next
  case bound_NV_Certify
  then show ?case unfolding Esys_NV_Certify_def by (rule one_call_ends [OF async_NV_Certify.esys_async_cmd_axioms finish_NV_Certify.esys_finish_cmd_axioms])
next
  case bound_NV_ChangeAuth
  then show ?case unfolding Esys_NV_ChangeAuth_def by (rule one_call_ends [OF async_NV_ChangeAuth.esys_async_cmd_axioms finish_NV_ChangeAuth.esys_finish_cmd_axioms])
next
  case bound_NV_DefineSpace
  then show ?case unfolding Esys_NV_DefineSpace_def by (rule one_call_ends [OF async_NV_DefineSpace.esys_async_cmd_axioms finish_NV_DefineSpace.esys_finish_cmd_axioms])
next
  case bound_NV_Extend
  then show ?case unfolding Esys_NV_Extend_def by (rule one_call_ends [OF async_NV_Extend.esys_async_cmd_axioms finish_NV_Extend.esys_finish_cmd_axioms])
next
  case bound_NV_GlobalWriteLock
  then show ?case unfolding Esys_NV_GlobalWriteLock_def by (rule one_call_ends [OF async_NV_GlobalWriteLock.esys_async_cmd_axioms finish_NV_GlobalWriteLock.esys_finish_cmd_axioms])
next
  case bound_NV_Increment
  then show ?case unfolding Esys_NV_Increment_def by (rule one_call_ends [OF async_NV_Increment.esys_async_cmd_axioms finish_NV_Increment.esys_finish_cmd_axioms])
next
  case bound_NV_Read
  then show ?case unfolding Esys_NV_Read_def by (rule one_call_ends [OF async_NV_Read.esys_async_cmd_axioms finish_NV_Read.esys_finish_cmd_axioms])
next
  case bound_NV_ReadLock
  then show ?case unfolding Esys_NV_ReadLock_def by (rule one_call_ends [OF async_NV_ReadLock.esys_async_cmd_axioms finish_NV_ReadLock.esys_finish_cmd_axioms])
next
  case bound_NV_ReadPublic
  then show ?case unfolding Esys_NV_ReadPublic_def by (rule one_call_ends [OF async_NV_ReadPublic.esys_async_cmd_axioms finish_NV_ReadPublic.esys_finish_cmd_axioms])
next
  case bound_NV_SetBits
  then show ?case unfolding Esys_NV_SetBits_def by (rule one_call_ends [OF async_NV_SetBits.esys_async_cmd_axioms finish_NV_SetBits.esys_finish_cmd_axioms])
next
  case bound_NV_UndefineSpace
  then show ?case unfolding Esys_NV_UndefineSpace_def by (rule one_call_ends [OF async_NV_UndefineSpace.esys_async_cmd_axioms finish_NV_UndefineSpace.esys_finish_cmd_axioms])
next
  case bound_NV_UndefineSpaceSpecial
  then show ?case unfolding Esys_NV_UndefineSpaceSpecial_def by (rule one_call_ends [OF async_NV_UndefineSpaceSpecial.esys_async_cmd_axioms finish_NV_UndefineSpaceSpecial.esys_finish_cmd_axioms])
next
  case bound_NV_Write
  then show ?case unfolding Esys_NV_Write_def by (rule one_call_ends [OF async_NV_Write.esys_async_cmd_axioms finish_NV_Write.esys_finish_cmd_axioms])
next
  case bound_NV_WriteLock
  then show ?case unfolding Esys_NV_WriteLock_def by (rule one_call_ends [OF async_NV_WriteLock.esys_async_cmd_axioms finish_NV_WriteLock.esys_finish_cmd_axioms])
next
  case bound_ObjectChangeAuth
  then show ?case unfolding Esys_ObjectChangeAuth_def by (rule one_call_ends [OF async_ObjectChangeAuth.esys_async_cmd_axioms finish_ObjectChangeAuth.esys_finish_cmd_axioms])
next
  case bound_PCR_Allocate
  then show ?case unfolding Esys_PCR_Allocate_def by (rule one_call_ends [OF async_PCR_Allocate.esys_async_cmd_axioms finish_PCR_Allocate.esys_finish_cmd_axioms])
next
  case bound_PCR_Event
  then show ?case unfolding Esys_PCR_Event_def by (rule one_call_ends [OF async_PCR_Event.esys_async_cmd_axioms finish_PCR_Event.esys_finish_cmd_axioms])
next
  case bound_PCR_Extend
  then show ?case unfolding Esys_PCR_Extend_def by (rule one_call_ends [OF async_PCR_Extend.esys_async_cmd_axioms finish_PCR_Extend.esys_finish_cmd_axioms])
next
  case bound_PCR_Read
  then show ?case unfolding Esys_PCR_Read_def by (rule one_call_ends [OF async_PCR_Read.esys_async_cmd_axioms finish_PCR_Read.esys_finish_cmd_axioms])
next
  case bound_PCR_Reset
  then show ?case unfolding Esys_PCR_Reset_def by (rule one_call_ends [OF async_PCR_Reset.esys_async_cmd_axioms finish_PCR_Reset.esys_finish_cmd_axioms])
next
  case bound_PCR_SetAuthPolicy
  then show ?case unfolding Esys_PCR_SetAuthPolicy_def by (rule one_call_ends [OF async_PCR_SetAuthPolicy.esys_async_cmd_axioms finish_PCR_SetAuthPolicy.esys_finish_cmd_axioms])
next
  case bound_PCR_SetAuthValue
  then show ?case unfolding Esys_PCR_SetAuthValue_def by (rule one_call_ends [OF async_PCR_SetAuthValue.esys_async_cmd_axioms finish_PCR_SetAuthValue.esys_finish_cmd_axioms])
next
  case bound_Policy_AC_SendSelect
  then show ?case unfolding Esys_Policy_AC_SendSelect_def by (rule one_call_ends [OF async_Policy_AC_SendSelect.esys_async_cmd_axioms finish_Policy_AC_SendSelect.esys_finish_cmd_axioms])
next
  case bound_PolicyAuthorize
  then show ?case unfolding Esys_PolicyAuthorize_def by (rule one_call_ends [OF async_PolicyAuthorize.esys_async_cmd_axioms finish_PolicyAuthorize.esys_finish_cmd_axioms])
next
  case bound_PolicyAuthorizeNV
  then show ?case unfolding Esys_PolicyAuthorizeNV_def by (rule one_call_ends [OF async_PolicyAuthorizeNV.esys_async_cmd_axioms finish_PolicyAuthorizeNV.esys_finish_cmd_axioms])
next
  case bound_PolicyAuthValue
  then show ?case unfolding Esys_PolicyAuthValue_def by (rule one_call_ends [OF async_PolicyAuthValue.esys_async_cmd_axioms finish_PolicyAuthValue.esys_finish_cmd_axioms])
next
  case bound_PolicyCommandCode
  then show ?case unfolding Esys_PolicyCommandCode_def by (rule one_call_ends [OF async_PolicyCommandCode.esys_async_cmd_axioms finish_PolicyCommandCode.esys_finish_cmd_axioms])
next
  case bound_PolicyCounterTimer
  then show ?case unfolding Esys_PolicyCounterTimer_def by (rule one_call_ends [OF async_PolicyCounterTimer.esys_async_cmd_axioms finish_PolicyCounterTimer.esys_finish_cmd_axioms])
next
  case bound_PolicyCpHash
  then show ?case unfolding Esys_PolicyCpHash_def by (rule one_call_ends [OF async_PolicyCpHash.esys_async_cmd_axioms finish_PolicyCpHash.esys_finish_cmd_axioms])
next
  case bound_PolicyDuplicationSelect
  then show ?case unfolding Esys_PolicyDuplicationSelect_def by (rule one_call_ends [OF async_PolicyDuplicationSelect.esys_async_cmd_axioms finish_PolicyDuplicationSelect.esys_finish_cmd_axioms])
next
  case bound_PolicyGetDigest
  then show ?case unfolding Esys_PolicyGetDigest_def by (rule one_call_ends [OF async_PolicyGetDigest.esys_async_cmd_axioms finish_PolicyGetDigest.esys_finish_cmd_axioms])
next
  case bound_PolicyLocality
  then show ?case unfolding Esys_PolicyLocality_def by (rule one_call_ends [OF async_PolicyLocality.esys_async_cmd_axioms finish_PolicyLocality.esys_finish_cmd_axioms])
next
  case bound_PolicyNameHash
  then show ?case unfolding Esys_PolicyNameHash_def by (rule one_call_ends [OF async_PolicyNameHash.esys_async_cmd_axioms finish_PolicyNameHash.esys_finish_cmd_axioms])
next
  case bound_PolicyNV
  then show ?case unfolding Esys_PolicyNV_def by (rule one_call_ends [OF async_PolicyNV.esys_async_cmd_axioms finish_PolicyNV.esys_finish_cmd_axioms])
next
  case bound_PolicyNvWritten
  then show ?case unfolding Esys_PolicyNvWritten_def by (rule one_call_ends [OF async_PolicyNvWritten.esys_async_cmd_axioms finish_PolicyNvWritten.esys_finish_cmd_axioms])
next
  case bound_PolicyOR
  then show ?case unfolding Esys_PolicyOR_def by (rule one_call_ends [OF async_PolicyOR.esys_async_cmd_axioms finish_PolicyOR.esys_finish_cmd_axioms])
next
  case bound_PolicyPassword
  then show ?case unfolding Esys_PolicyPassword_def by (rule one_call_ends [OF async_PolicyPassword.esys_async_cmd_axioms finish_PolicyPassword.esys_finish_cmd_axioms])
next
  case bound_PolicyPCR
  then show ?case unfolding Esys_PolicyPCR_def by (rule one_call_ends [OF async_PolicyPCR.esys_async_cmd_axioms finish_PolicyPCR.esys_finish_cmd_axioms])
next
  case bound_PolicyPhysicalPresence
  then show ?case unfolding Esys_PolicyPhysicalPresence_def by (rule one_call_ends [OF async_PolicyPhysicalPresence.esys_async_cmd_axioms finish_PolicyPhysicalPresence.esys_finish_cmd_axioms])
next
  case bound_PolicyRestart
  then show ?case unfolding Esys_PolicyRestart_def by (rule one_call_ends [OF async_PolicyRestart.esys_async_cmd_axioms finish_PolicyRestart.esys_finish_cmd_axioms])
next
  case bound_PolicySecret
  then show ?case unfolding Esys_PolicySecret_def by (rule one_call_ends [OF async_PolicySecret.esys_async_cmd_axioms finish_PolicySecret.esys_finish_cmd_axioms])
next
  case bound_PolicySigned
  then show ?case unfolding Esys_PolicySigned_def by (rule one_call_ends [OF async_PolicySigned.esys_async_cmd_axioms finish_PolicySigned.esys_finish_cmd_axioms])
next
  case bound_PolicyTemplate
  then show ?case unfolding Esys_PolicyTemplate_def by (rule one_call_ends [OF async_PolicyTemplate.esys_async_cmd_axioms finish_PolicyTemplate.esys_finish_cmd_axioms])
next
  case bound_PolicyTicket
  then show ?case unfolding Esys_PolicyTicket_def by (rule one_call_ends [OF async_PolicyTicket.esys_async_cmd_axioms finish_PolicyTicket.esys_finish_cmd_axioms])
next
  case bound_PP_Commands
  then show ?case unfolding Esys_PP_Commands_def by (rule one_call_ends [OF async_PP_Commands.esys_async_cmd_axioms finish_PP_Commands.esys_finish_cmd_axioms])
next
  case bound_Quote
  then show ?case unfolding Esys_Quote_def by (rule one_call_ends [OF async_Quote.esys_async_cmd_axioms finish_Quote.esys_finish_cmd_axioms])
next
  case bound_ReadClock
  then show ?case unfolding Esys_ReadClock_def by (rule one_call_ends [OF async_ReadClock.esys_async_cmd_axioms finish_ReadClock.esys_finish_cmd_axioms])
next
  case bound_ReadPublic
  then show ?case unfolding Esys_ReadPublic_def by (rule one_call_ends [OF async_ReadPublic.esys_async_cmd_axioms finish_ReadPublic.esys_finish_cmd_axioms])
next
  case bound_Rewrap
  then show ?case unfolding Esys_Rewrap_def by (rule one_call_ends [OF async_Rewrap.esys_async_cmd_axioms finish_Rewrap.esys_finish_cmd_axioms])
next
  case bound_RSA_Decrypt
  then show ?case unfolding Esys_RSA_Decrypt_def by (rule one_call_ends [OF async_RSA_Decrypt.esys_async_cmd_axioms finish_RSA_Decrypt.esys_finish_cmd_axioms])
next
  case bound_RSA_Encrypt
  then show ?case unfolding Esys_RSA_Encrypt_def by (rule one_call_ends [OF async_RSA_Encrypt.esys_async_cmd_axioms finish_RSA_Encrypt.esys_finish_cmd_axioms])
next
  case bound_SelfTest
  then show ?case unfolding Esys_SelfTest_def by (rule one_call_ends [OF async_SelfTest.esys_async_cmd_axioms finish_SelfTest.esys_finish_cmd_axioms])
next
  case bound_SequenceComplete
  then show ?case unfolding Esys_SequenceComplete_def by (rule one_call_ends [OF async_SequenceComplete.esys_async_cmd_axioms finish_SequenceComplete.esys_finish_cmd_axioms])
next
  case bound_SequenceUpdate
  then show ?case unfolding Esys_SequenceUpdate_def by (rule one_call_ends [OF async_SequenceUpdate.esys_async_cmd_axioms finish_SequenceUpdate.esys_finish_cmd_axioms])
next
  case bound_SetAlgorithmSet
  then show ?case unfolding Esys_SetAlgorithmSet_def by (rule one_call_ends [OF async_SetAlgorithmSet.esys_async_cmd_axioms finish_SetAlgorithmSet.esys_finish_cmd_axioms])
next
  case bound_SetCommandCodeAuditStatus
  then show ?case unfolding Esys_SetCommandCodeAuditStatus_def by (rule one_call_ends [OF async_SetCommandCodeAuditStatus.esys_async_cmd_axioms finish_SetCommandCodeAuditStatus.esys_finish_cmd_axioms])
next
  case bound_SetPrimaryPolicy
  then show ?case unfolding Esys_SetPrimaryPolicy_def by (rule one_call_ends [OF async_SetPrimaryPolicy.esys_async_cmd_axioms finish_SetPrimaryPolicy.esys_finish_cmd_axioms])
next
  case bound_Shutdown
  then show ?case unfolding Esys_Shutdown_def by (rule one_call_ends [OF async_Shutdown.esys_async_cmd_axioms finish_Shutdown.esys_finish_cmd_axioms])
next
  case bound_Sign
  then show ?case unfolding Esys_Sign_def by (rule one_call_ends [OF async_Sign.esys_async_cmd_axioms finish_Sign.esys_finish_cmd_axioms])
next
  case bound_SignDigest
  then show ?case unfolding Esys_SignDigest_def by (rule one_call_ends [OF async_SignDigest.esys_async_cmd_axioms finish_SignDigest.esys_finish_cmd_axioms])
next
  case bound_SignSequenceComplete
  then show ?case unfolding Esys_SignSequenceComplete_def by (rule one_call_ends [OF async_SignSequenceComplete.esys_async_cmd_axioms finish_SignSequenceComplete.esys_finish_cmd_axioms])
next
  case bound_SignSequenceStart
  then show ?case unfolding Esys_SignSequenceStart_def by (rule one_call_ends [OF async_SignSequenceStart.esys_async_cmd_axioms finish_SignSequenceStart.esys_finish_cmd_axioms])
next
  case bound_StartAuthSession
  then show ?case unfolding Esys_StartAuthSession_def by (rule one_call_ends [OF async_StartAuthSession.esys_async_cmd_axioms finish_StartAuthSession.esys_finish_cmd_axioms])
next
  case bound_Startup
  then show ?case unfolding Esys_Startup_def by (rule one_call_ends [OF async_Startup.esys_async_cmd_axioms finish_Startup.esys_finish_cmd_axioms])
next
  case bound_StirRandom
  then show ?case unfolding Esys_StirRandom_def by (rule one_call_ends [OF async_StirRandom.esys_async_cmd_axioms finish_StirRandom.esys_finish_cmd_axioms])
next
  case bound_TestParms
  then show ?case unfolding Esys_TestParms_def by (rule one_call_ends [OF async_TestParms.esys_async_cmd_axioms finish_TestParms.esys_finish_cmd_axioms])
next
  case bound_Unseal
  then show ?case unfolding Esys_Unseal_def by (rule one_call_ends [OF async_Unseal.esys_async_cmd_axioms finish_Unseal.esys_finish_cmd_axioms])
next
  case bound_Vendor_TCG_Test
  then show ?case unfolding Esys_Vendor_TCG_Test_def by (rule one_call_ends [OF async_Vendor_TCG_Test.esys_async_cmd_axioms finish_Vendor_TCG_Test.esys_finish_cmd_axioms])
next
  case bound_VerifyDigestSignature
  then show ?case unfolding Esys_VerifyDigestSignature_def by (rule one_call_ends [OF async_VerifyDigestSignature.esys_async_cmd_axioms finish_VerifyDigestSignature.esys_finish_cmd_axioms])
next
  case bound_VerifySequenceComplete
  then show ?case unfolding Esys_VerifySequenceComplete_def by (rule one_call_ends [OF async_VerifySequenceComplete.esys_async_cmd_axioms finish_VerifySequenceComplete.esys_finish_cmd_axioms])
next
  case bound_VerifySequenceStart
  then show ?case unfolding Esys_VerifySequenceStart_def by (rule one_call_ends [OF async_VerifySequenceStart.esys_async_cmd_axioms finish_VerifySequenceStart.esys_finish_cmd_axioms])
next
  case bound_VerifySignature
  then show ?case unfolding Esys_VerifySignature_def by (rule one_call_ends [OF async_VerifySignature.esys_async_cmd_axioms finish_VerifySignature.esys_finish_cmd_axioms])
next
  case bound_ZGen_2Phase
  then show ?case unfolding Esys_ZGen_2Phase_def by (rule one_call_ends [OF async_ZGen_2Phase.esys_async_cmd_axioms finish_ZGen_2Phase.esys_finish_cmd_axioms])
qed

end
