(* ===== verification/Esys_Example.thy ===== *)
theory Esys_Example
  imports Esys_Api
begin

text \<open>
  Contexts of the enhanced system API for concrete runs: a transport that logs the commands it is sent and answers each
  with \<open>r\<close>, and no objects.
\<close>

definition demo_receive ::
  "BYTE list \<Rightarrow> BYTE list list \<Rightarrow> size_t \<Rightarrow> buf option \<Rightarrow> INT32 \<Rightarrow> TSS2_RC \<times> size_t \<times> buf option \<times> BYTE list list" where
  "demo_receive r s n b timeout =
     (case b of None \<Rightarrow> (0, of_nat (length r), None, s) | Some b \<Rightarrow> (0, n, Some (r @ drop (length r) b), s))"

definition demo_tcti :: "BYTE list \<Rightarrow> BYTE list list TSS2_TCTI_CONTEXT" where
  "demo_tcti r = \<lparr>TCTI_version = 2, TCTI_transmit = Some (\<lambda>s w. (0, w # s)),
     TCTI_receive = Some (demo_receive r), TCTI_state = []\<rparr>"

definition demo_sys :: "BYTE list \<Rightarrow> BYTE list list TSS2_SYS_CONTEXT_BLOB" where
  "demo_sys r = (zero_TSS2_SYS_CONTEXT_BLOB 0)\<lparr>ctx_tctiContext := Some (demo_tcti r), ctx_cmdBuffer := replicate 64 0, ctx_maxCmdSize := 64\<rparr>"

definition demo_esys :: "BYTE list \<Rightarrow> (BYTE list list, unit) esys" where
  "demo_esys r = (zero_ESYS_CONTEXT () [] \<lparr>AUTH_COMMAND_count = 0, AUTH_COMMAND_auths = replicate 3 zero_TPMS_AUTH_COMMAND\<rparr>
     zero_RSRC_NODE_T)\<lparr>esys_sys := Some (demo_sys r)\<rparr>"

text \<open>The answer to a \<open>TPM2_GetRandom\<close> command for four bytes, and the request to send a command again.\<close>

definition demo_random :: "BYTE list" where
  "demo_random = [0x80, 0x01, 0, 0, 0, 16, 0, 0, 0, 0, 0, 4, 1, 2, 3, 4]"

definition demo_retry :: "BYTE list" where
  "demo_retry = [0x80, 0x01, 0, 0, 0, 10, 0, 0, 0x09, 0x22]"

text \<open>A blocking receive of this transport never asks to try again.\<close>

definition demo_link :: "BYTE list \<Rightarrow> BYTE list list TSS2_TCTI_CONTEXT option option \<Rightarrow> bool" where
  "demo_link r l \<longleftrightarrow> (\<exists>s. l = Some (Some ((demo_tcti r)\<lparr>TCTI_state := s\<rparr>)))"

lemma demo_transmit:
  "Tss2_Tcti_Transmit (Some ((demo_tcti r)\<lparr>TCTI_state := s\<rparr>)) n b = Some (q, t) \<Longrightarrow> \<exists>s'. t = Some ((demo_tcti r)\<lparr>TCTI_state := s'\<rparr>)"
  by (auto simp: Tss2_Tcti_Transmit_def demo_tcti_def split: option.splits)

lemma demo_receives:
  "Tss2_Tcti_Receive (Some ((demo_tcti r)\<lparr>TCTI_state := s\<rparr>)) n b m = (q, n', b', t) \<Longrightarrow> q = 0 \<and> (\<exists>s'. t = Some ((demo_tcti r)\<lparr>TCTI_state := s'\<rparr>))"
  by (auto simp: Tss2_Tcti_Receive_def demo_tcti_def demo_receive_def split: option.splits)

lemma demo_traffic: "traffic k l l' \<Longrightarrow> demo_link r l \<Longrightarrow> demo_link r l'"
  by (induction rule: traffic.induct)
    (fastforce simp: demo_link_def transmits.simps receives.simps dest: demo_transmit demo_receives)+

lemma demo_esys_link: "demo_link r (esys_link (demo_esys r))"
  by (simp add: demo_link_def esys_link_def sys_link_def demo_esys_def demo_sys_def)
     (metis TSS2_TCTI_CONTEXT.surjective TSS2_TCTI_CONTEXT.update_convs(4) old.unit.exhaust)

lemma demo_patient: "patient (esys_link (demo_esys r))"
proof -
  have "base_rc q \<noteq> TSS2_BASE_RC_TRY_AGAIN" if "demo_link r (Some t)" "Tss2_Tcti_Receive t n b (-1) = (q, n', b', t')" for t n b q n' b' t'
    using that by (auto simp: demo_link_def dest: demo_receives)
  then show ?thesis using demo_traffic [OF _ demo_esys_link [of r]] unfolding patient_def by blast
qed

lemma demo_ok: "esys_ok (demo_esys r)"
  by (simp add: esys_ok_def demo_esys_def zero_ESYS_CONTEXT_def)

end
