(* ===== verification/Esys_Properties.thy ===== *)
theory Esys_Properties
  imports Esys_Example
begin

text \<open>
  What the enhanced system API guarantees, for all of its commands: starting a command, collecting its response, the
  functions that do both, and the objects and sessions they work with.
\<close>

section \<open>Starting a command\<close>

text \<open>
  C15: Every \<open>_Async\<close> function, for all parameters: without a context it is refused with \<open>BAD_REFERENCE\<close>; while another
  command is under way it is refused and leaves the context as it is.  When it succeeds, the context was free, exactly
  one command went out, the context waits for its response with a submission count of 1 in the stage behind sending, the timeout is
  unchanged and the context is still well-formed.  When it fails, either nothing changed or the context is in a state
  without a pending command and at most one transmission was attempted.
\<close>

theorem every_Async_starts:
  assumes "esys_api_async A"
  shows "A None = Some (TSS2_ESYS_RC_BAD_REFERENCE, None) \<and>
    (\<not> may_start s \<longrightarrow> (\<exists>r. r \<noteq> 0 \<and> A (Some s) = Some (r, Some s))) \<and>
    (\<forall>p. A (Some s) = Some (0, p) \<longrightarrow> (\<exists>s'. p = Some s' \<and> may_start s \<and> esys_state s' = ESYS_STATE_SENT \<and>
      submissionCount s' = 1 \<and> transmits (esys_link s) (esys_link s') \<and> sys_stage (esys_sys s') = Some CMD_STAGE_SEND_COMMAND \<and>
      esys_timeout s' = esys_timeout s \<and> (esys_ok s \<longrightarrow> esys_ok s'))) \<and>
    (\<forall>r p. A (Some s) = Some (r, p) \<longrightarrow> r \<noteq> 0 \<longrightarrow> (\<exists>s'. p = Some s' \<and> (s' = s \<or>
      (esys_state s' = ESYS_STATE_INIT \<or> esys_state s' = ESYS_STATE_INTERNALERROR) \<and>
      (esys_link s' = esys_link s \<or> transmits (esys_link s) (esys_link s')) \<and> (esys_ok s \<longrightarrow> esys_ok s'))))"
proof -
  note A = api_async_contract [OF assms]
  have "\<exists>s'. p = Some s' \<and> may_start s \<and> esys_state s' = ESYS_STATE_SENT \<and>
      submissionCount s' = 1 \<and> transmits (esys_link s) (esys_link s') \<and> sys_stage (esys_sys s') = Some CMD_STAGE_SEND_COMMAND \<and>
      esys_timeout s' = esys_timeout s \<and> (esys_ok s \<longrightarrow> esys_ok s')" if "A (Some s) = Some (0, p)" for p
    by (rule esys_async_cmd.success [OF A that]) blast
  moreover have "\<exists>s'. p = Some s' \<and> (s' = s \<or>
      (esys_state s' = ESYS_STATE_INIT \<or> esys_state s' = ESYS_STATE_INTERNALERROR) \<and>
      (esys_link s' = esys_link s \<or> transmits (esys_link s) (esys_link s')) \<and> (esys_ok s \<longrightarrow> esys_ok s'))"
    if "A (Some s) = Some (r, p)" "r \<noteq> 0" for r p
    using esys_async_cmd.outcome [OF A that(1)] that(2) by (auto simp: sent_def failed_state_def kept_def)
  ultimately show ?thesis using esys_async_cmd.no_context [OF A] esys_async_cmd.refuses [OF A] by blast
qed

lemma demo_starts: "\<exists>p. Esys_GetRandom_Async (Some (demo_esys r)) ESYS_TR_NONE ESYS_TR_NONE ESYS_TR_NONE 4 = Some (0, p)"
proof -
  have "map_option fst (Esys_GetRandom_Async (Some (demo_esys r)) ESYS_TR_NONE ESYS_TR_NONE ESYS_TR_NONE 4) = Some 0" by code_simp
  then show ?thesis by auto
qed

definition demo_busy :: "(BYTE list list, unit) esys" where
  "demo_busy = (demo_esys [])\<lparr>esys_state := ESYS_STATE_SENT\<rparr>"

theorem every_Async_starts_witness:
  "(\<exists>s'. Esys_GetRandom_Async (Some (demo_esys demo_random)) ESYS_TR_NONE ESYS_TR_NONE ESYS_TR_NONE 4 = Some (0, Some s') \<and>
      esys_state s' = ESYS_STATE_SENT \<and> transmits (esys_link (demo_esys demo_random)) (esys_link s') \<and> esys_ok s') \<and>
   (\<exists>r. r \<noteq> 0 \<and> Esys_GetRandom_Async (Some demo_busy) ESYS_TR_NONE ESYS_TR_NONE ESYS_TR_NONE 4 = Some (r, Some demo_busy))"
proof
  note A = api_GetRandom_Async [of ESYS_TR_NONE ESYS_TR_NONE ESYS_TR_NONE 4]
  show "\<exists>s'. Esys_GetRandom_Async (Some (demo_esys demo_random)) ESYS_TR_NONE ESYS_TR_NONE ESYS_TR_NONE 4 = Some (0, Some s') \<and>
      esys_state s' = ESYS_STATE_SENT \<and> transmits (esys_link (demo_esys demo_random)) (esys_link s') \<and> esys_ok s'"
    using every_Async_starts [OF A, of "demo_esys demo_random"] demo_starts [of demo_random] demo_ok by metis
  have "\<not> may_start demo_busy" by (simp add: may_start_def demo_busy_def)
  then show "\<exists>r. r \<noteq> 0 \<and> Esys_GetRandom_Async (Some demo_busy) ESYS_TR_NONE ESYS_TR_NONE ESYS_TR_NONE 4 = Some (r, Some demo_busy)"
    using every_Async_starts [OF A, of demo_busy] by metis
qed

section \<open>Collecting the response\<close>

text \<open>
  C14: Every \<open>_Finish\<close> function, for all outputs: without a context, or when no command is under way, it is refused
  with \<open>BAD_REFERENCE\<close> or \<open>BAD_SEQUENCE\<close> and changes nothing.  Otherwise, if it returns, a success leaves the
  context free for the next command; a failure leaves it without a pending command; with no answer yet it stays in the state
  in which \<open>_Finish\<close> may be called again; and when the TPM asks for a retry the command is sent again, or given up when it was sent
  \<open>ESYS_MAX_SUBMISSIONS\<close> times.  The timeout and the well-formedness of the context are kept in all cases, and nothing is
  sent in any but the retry.
\<close>

theorem every_Finish_answers:
  assumes "esys_api_finish F"
  shows "F None = Some (TSS2_ESYS_RC_BAD_REFERENCE, None) \<and>
    (\<not> waiting s \<longrightarrow> F (Some s) = Some (TSS2_ESYS_RC_BAD_SEQUENCE, Some s)) \<and>
    (\<forall>r p. waiting s \<longrightarrow> F (Some s) = Some (r, p) \<longrightarrow> (\<exists>s'. p = Some s' \<and> esys_timeout s' = esys_timeout s \<and>
      (esys_ok s \<longrightarrow> esys_ok s') \<and>
      (if r = 0 then esys_state s' = ESYS_STATE_INIT \<and> submissionCount s' = submissionCount s \<and> receives\<^sup>*\<^sup>* (esys_link s) (esys_link s')
       else submissionCount s' = submissionCount s \<and> receives\<^sup>*\<^sup>* (esys_link s) (esys_link s') \<and>
           (esys_state s' = ESYS_STATE_INIT \<or> esys_state s' = ESYS_STATE_INTERNALERROR \<or>
            esys_state s' = ESYS_STATE_SENT \<and> base_rc r = TSS2_BASE_RC_TRY_AGAIN) \<or>
         submissionCount s' = submissionCount s + 1 \<and>
           (if submissionCount s \<ge> ESYS_MAX_SUBMISSIONS then esys_state s' = ESYS_STATE_INIT \<and> receives\<^sup>*\<^sup>* (esys_link s) (esys_link s')
            else waiting s' \<and> (\<exists>l. receives\<^sup>*\<^sup>* (esys_link s) l \<and> (esys_link s' = l \<or> transmits l (esys_link s')))))))"
proof -
  note F = api_finish_contract [OF assms, unfolded finish_contract_def]
  have "\<exists>s'. p = Some s' \<and> esys_timeout s' = esys_timeout s \<and> (esys_ok s \<longrightarrow> esys_ok s') \<and>
      (if r = 0 then esys_state s' = ESYS_STATE_INIT \<and> submissionCount s' = submissionCount s \<and> receives\<^sup>*\<^sup>* (esys_link s) (esys_link s')
       else submissionCount s' = submissionCount s \<and> receives\<^sup>*\<^sup>* (esys_link s) (esys_link s') \<and>
           (esys_state s' = ESYS_STATE_INIT \<or> esys_state s' = ESYS_STATE_INTERNALERROR \<or>
            esys_state s' = ESYS_STATE_SENT \<and> base_rc r = TSS2_BASE_RC_TRY_AGAIN) \<or>
         submissionCount s' = submissionCount s + 1 \<and>
           (if submissionCount s \<ge> ESYS_MAX_SUBMISSIONS then esys_state s' = ESYS_STATE_INIT \<and> receives\<^sup>*\<^sup>* (esys_link s) (esys_link s')
            else waiting s' \<and> (\<exists>l. receives\<^sup>*\<^sup>* (esys_link s) l \<and> (esys_link s' = l \<or> transmits l (esys_link s')))))"
    if "waiting s" "F (Some s) = Some (r, p)" for r p
  proof -
    from F that obtain s' where s': "p = Some s'" "answered r (working s) s'" by blast
    then show ?thesis
      by (auto simp: answered_def failed_def kept_def failed_state_def no_answer_def sent_again_def waiting_def)
  qed
  with F show ?thesis by blast
qed

definition demo_sent :: "BYTE list \<Rightarrow> (BYTE list list, unit) esys" where
  "demo_sent r = the (snd (the (Esys_GetRandom_Async (Some (demo_esys r)) ESYS_TR_NONE ESYS_TR_NONE ESYS_TR_NONE 4)))"

lemma demo_sent_run: "Esys_GetRandom_Async (Some (demo_esys r)) ESYS_TR_NONE ESYS_TR_NONE ESYS_TR_NONE 4 = Some (0, Some (demo_sent r))"
proof -
  obtain p where p: "Esys_GetRandom_Async (Some (demo_esys r)) ESYS_TR_NONE ESYS_TR_NONE ESYS_TR_NONE 4 = Some (0, p)"
    using demo_starts by blast
  from esys_async_cmd.success [OF api_async_contract [OF api_GetRandom_Async] p] obtain s' where "p = Some s'" by blast
  with p show ?thesis by (simp add: demo_sent_def)
qed

lemma demo_sent_waiting: "waiting (demo_sent r)" "esys_ok (demo_sent r)" "submissionCount (demo_sent r) = 1"
proof -
  have "waiting (demo_sent r) \<and> esys_ok (demo_sent r) \<and> submissionCount (demo_sent r) = 1"
    by (rule esys_async_cmd.success [OF api_async_contract [OF api_GetRandom_Async] demo_sent_run]) (auto simp: waiting_def demo_ok)
  then show "waiting (demo_sent r)" "esys_ok (demo_sent r)" "submissionCount (demo_sent r) = 1" by auto
qed

theorem every_Finish_answers_witness:
  "(\<exists>s'. context_of (Esys_GetRandom_Finish (Some (demo_sent demo_random), (Some None, ()))) = Some (0, Some s') \<and>
      esys_state s' = ESYS_STATE_INIT \<and> esys_ok s') \<and>
   (\<exists>r s'. context_of (Esys_GetRandom_Finish (Some (demo_sent demo_retry), (Some None, ()))) = Some (r, Some s') \<and> r \<noteq> 0 \<and>
      submissionCount s' = 2 \<and> waiting s') \<and>
   context_of (Esys_GetRandom_Finish (Some (demo_esys demo_random), (Some None, ()))) =
     Some (TSS2_ESYS_RC_BAD_SEQUENCE, Some (demo_esys demo_random))"
proof (intro conjI)
  note F = every_Finish_answers [OF api_GetRandom_Finish [of "(Some None, ())"]]
  have "map_option fst (context_of (Esys_GetRandom_Finish (Some (demo_sent demo_random), (Some None, ())))) = Some 0" by code_simp
  with F [of "demo_sent demo_random"] demo_sent_waiting [of demo_random]
  show "\<exists>s'. context_of (Esys_GetRandom_Finish (Some (demo_sent demo_random), (Some None, ()))) = Some (0, Some s') \<and>
      esys_state s' = ESYS_STATE_INIT \<and> esys_ok s'"
    by fastforce
  have "map_option (\<lambda>(r, p). (r = TSS2_ESYS_RC_TRY_AGAIN, map_option submissionCount p))
     (context_of (Esys_GetRandom_Finish (Some (demo_sent demo_retry), (Some None, ())))) = Some (True, Some 2)" by code_simp
  then obtain s' where s': "context_of (Esys_GetRandom_Finish (Some (demo_sent demo_retry), (Some None, ()))) = Some (TSS2_ESYS_RC_TRY_AGAIN, Some s')"
      "submissionCount s' = 2" by auto
  have "TSS2_ESYS_RC_TRY_AGAIN \<noteq> 0" by (simp add: esys_rc_defs)
  with F [of "demo_sent demo_retry"] demo_sent_waiting [of demo_retry] s'
  show "\<exists>r s'. context_of (Esys_GetRandom_Finish (Some (demo_sent demo_retry), (Some None, ()))) = Some (r, Some s') \<and> r \<noteq> 0 \<and>
      submissionCount s' = 2 \<and> waiting s'"
    by (force simp: ESYS_MAX_SUBMISSIONS_def)
  show "context_of (Esys_GetRandom_Finish (Some (demo_esys demo_random), (Some None, ()))) =
     Some (TSS2_ESYS_RC_BAD_SEQUENCE, Some (demo_esys demo_random))"
    using F [of "demo_esys demo_random"] by (simp add: waiting_def demo_esys_def zero_ESYS_CONTEXT_def)
qed

section \<open>Sending and waiting\<close>

text \<open>
  C34: Every one-call function: it is refused without a context and while a command is under way; if it returns, it has sent its
  command at most \<open>ESYS_MAX_SUBMISSIONS\<close> = 5 times, the first submission included (the comment in \<open>esys_int.h\<close> calls the
  constant the number of resubmissions, which would allow six), at least once when it succeeds, after a success the context is free
  again, and the timeout the caller had set and the well-formedness of the context are kept, although
  the function sets the timeout to blocking in between.
\<close>

theorem every_call_sends_boundedly:
  assumes "esys_api_call C"
  shows "C None = Some (TSS2_ESYS_RC_BAD_REFERENCE, None) \<and>
    (\<not> may_start s \<longrightarrow> (\<exists>r. r \<noteq> 0 \<and> C (Some s) = Some (r, Some s))) \<and>
    (\<forall>r p. C (Some s) = Some (r, p) \<longrightarrow> (\<exists>s' k. p = Some s' \<and> esys_timeout s' = esys_timeout s \<and> (esys_ok s \<longrightarrow> esys_ok s') \<and>
      traffic k (esys_link s) (esys_link s') \<and> int k \<le> ESYS_MAX_SUBMISSIONS \<and>
      (r = 0 \<longrightarrow> 0 < k \<and> esys_state s' = ESYS_STATE_INIT)))"
proof -
  note C = api_call_contract [OF assms, unfolded call_contract_def]
  have "\<exists>s' k. p = Some s' \<and> esys_timeout s' = esys_timeout s \<and> (esys_ok s \<longrightarrow> esys_ok s') \<and>
      traffic k (esys_link s) (esys_link s') \<and> int k \<le> ESYS_MAX_SUBMISSIONS \<and> (r = 0 \<longrightarrow> 0 < k \<and> esys_state s' = ESYS_STATE_INIT)"
    if "C (Some s) = Some (r, p)" for r p
  proof -
    from C that obtain s' where s': "p = Some s'" "r \<noteq> 0 \<and> s' = s \<or> called r s s'" by blast
    moreover have "traffic 0 (esys_link s) (esys_link s)" "int 0 \<le> ESYS_MAX_SUBMISSIONS"
      by (simp_all add: traffic.silent ESYS_MAX_SUBMISSIONS_def)
    ultimately show ?thesis by (auto simp: called_def kept_def)
  qed
  with C show ?thesis by blast
qed

lemma demo_call_runs:
  "map_option (\<lambda>(r, p). (r, map_option esys_state p)) (context_of (Esys_GetRandom (Some (demo_esys demo_random)) ESYS_TR_NONE ESYS_TR_NONE ESYS_TR_NONE 4 (Some None))) =
   Some (0, Some ESYS_STATE_INIT)"
  "map_option (\<lambda>(r, p). (r, map_option esys_state p)) (context_of (Esys_GetRandom (Some (demo_esys demo_retry)) ESYS_TR_NONE ESYS_TR_NONE ESYS_TR_NONE 4 (Some None))) =
   Some (TPM2_RC_RETRY, Some ESYS_STATE_INIT)"
  by code_simp+

theorem every_call_sends_boundedly_witness:
  "\<exists>s' k. context_of (Esys_GetRandom (Some (demo_esys demo_random)) ESYS_TR_NONE ESYS_TR_NONE ESYS_TR_NONE 4 (Some None)) = Some (0, Some s') \<and>
     traffic k (esys_link (demo_esys demo_random)) (esys_link s') \<and> 0 < k \<and> k \<le> 5 \<and> esys_state s' = ESYS_STATE_INIT \<and> esys_ok s'"
  using every_call_sends_boundedly [OF api_GetRandom [of ESYS_TR_NONE ESYS_TR_NONE ESYS_TR_NONE 4 "Some None"], of "demo_esys demo_random"]
    demo_call_runs(1) demo_ok [of demo_random]
  by (fastforce simp: ESYS_MAX_SUBMISSIONS_def)

text \<open>
  C7: The loop of every one-call function ends, whatever the TPM answers, if the transport does not ask to try again on a
  blocking receive: the function equals its version with room for seven calls of \<open>_Finish\<close>, and that bound
  is never hit.  The TPM's own requests to try again or to send again can prolong the loop by no more than that.
\<close>

theorem every_call_ends:
  assumes "esys_api_bound C B" "patient (esys_link s)"
  shows "B 7 (Some s) \<noteq> Some None \<and> C (Some s) = Option.bind (B 7 (Some s)) id"
  by (rule api_bound_ends [OF assms])

theorem every_call_ends_witness:
  "one_call_within 7 (Esys_GetRandom_Async (Some (demo_esys demo_retry)) ESYS_TR_NONE ESYS_TR_NONE ESYS_TR_NONE 4) Esys_GetRandom_Finish (Some None, ()) \<noteq> Some None \<and>
   (\<exists>s'. context_of (Esys_GetRandom (Some (demo_esys demo_retry)) ESYS_TR_NONE ESYS_TR_NONE ESYS_TR_NONE 4 (Some None)) = Some (TPM2_RC_RETRY, Some s') \<and>
      esys_state s' = ESYS_STATE_INIT)"
  using every_call_ends [OF bound_GetRandom [of ESYS_TR_NONE ESYS_TR_NONE ESYS_TR_NONE 4 "Some None"] demo_patient [of demo_retry]] demo_call_runs(2)
  by fastforce

end
