(* ===== verification/Esys_Keys.thy ===== *)
theory Esys_Keys
  imports Esys_Context
begin

text \<open>
  What the computations of \<open>esys_crypto.c\<close> and \<open>esys_iutil.c\<close> amount to when the back end computes a
  message authentication code and a hash: the key derivation function and the obfuscation of the TPM specification, and the
  HMAC over a parameter hash, the nonces and the attributes of a session.
\<close>

unbundle bit_operations_syntax

section \<open>Back ends\<close>

text \<open>
  The documented behaviour of a back end: \<open>start\<close> gives a new context, \<open>update\<close> adds bytes to it, and \<open>finish\<close>
  delivers the code of all the bytes if there is room for it.
\<close>

fun absorb :: "(crypto_ptr \<Rightarrow> BYTE list \<Rightarrow> 'c \<Rightarrow> TSS2_RC \<times> 'c) \<Rightarrow> crypto_ptr \<Rightarrow> BYTE list list \<Rightarrow> 'c \<Rightarrow> 'c option" where
  "absorb upd p [] u = Some u"
| "absorb upd p (m # ms) u = (case upd p m u of (r, u') \<Rightarrow> if r = 0 then absorb upd p ms u' else None)"

definition computes_hmac :: "'c crypto \<Rightarrow> UINT16 \<Rightarrow> nat \<Rightarrow> (BYTE list \<Rightarrow> BYTE list \<Rightarrow> BYTE list) \<Rightarrow> bool" where
  "computes_hmac cb alg n mac \<longleftrightarrow> 0 < n \<and> n \<le> 64 \<and> (\<forall>k m. length (mac k m) = n) \<and>
     (\<exists>start upd fin. CB_hmac_start cb = Some start \<and> CB_hmac_update cb = Some upd \<and> CB_hmac_finish cb = Some fin \<and>
       (\<forall>key u. \<exists>p u1. start alg key u = (0, p, u1) \<and>
          (\<forall>ms. \<exists>u2. absorb upd p ms u1 = Some u2 \<and>
             (\<forall>sz. of_nat n \<le> sz \<longrightarrow> (\<exists>p' u3. fin p sz u2 = (0, p', mac key (concat ms), of_nat n, u3))))))"

definition computes_hash :: "'c crypto \<Rightarrow> UINT16 \<Rightarrow> nat \<Rightarrow> (BYTE list \<Rightarrow> BYTE list) \<Rightarrow> bool" where
  "computes_hash cb alg n hash \<longleftrightarrow> 0 < n \<and> n \<le> 64 \<and> (\<forall>m. length (hash m) = n) \<and>
     (\<exists>start upd fin. CB_hash_start cb = Some start \<and> CB_hash_update cb = Some upd \<and> CB_hash_finish cb = Some fin \<and>
       (\<forall>u. \<exists>p u1. start alg u = (0, p, u1) \<and>
          (\<forall>ms. \<exists>u2. absorb upd p ms u1 = Some u2 \<and>
             (\<forall>sz. of_nat n \<le> sz \<longrightarrow> (\<exists>p' u3. fin p sz u2 = (0, p', hash (concat ms), of_nat n, u3))))))"

lemma computes_userdata [simp]:
  "computes_hmac (cb\<lparr>CB_userdata := u\<rparr>) alg n mac = computes_hmac cb alg n mac"
  "computes_hash (cb\<lparr>CB_userdata := u\<rparr>) alg n hash = computes_hash cb alg n hash"
  by (simp_all add: computes_hmac_def computes_hash_def)

lemma userdata_twice [simp]: "cb\<lparr>CB_userdata := u, CB_userdata := u'\<rparr> = (cb\<lparr>CB_userdata := u'\<rparr> :: 'c crypto)"
  by simp

section \<open>Feeding a context\<close>

text \<open>A step that adds some pieces of bytes to a context.\<close>

definition feeds :: "(BYTE list \<Rightarrow> 'c crypto step) \<Rightarrow> 'c crypto step \<Rightarrow> BYTE list list \<Rightarrow> bool" where
  "feeds U f ms \<longleftrightarrow> (\<forall>cb. f cb = steps (map U ms) cb)"

lemma steps_join: "steps (fs @ gs) s = (case steps fs s of None \<Rightarrow> None | Some (r, s') \<Rightarrow> if r \<noteq> 0 then Some (r, s') else steps gs s')"
  by (induction fs arbitrary: s) (auto split: option.splits)

lemma step_id: "(case x of None \<Rightarrow> None | Some (r, s) \<Rightarrow> if r \<noteq> 0 then Some (r, s) else Some (0, s)) = (x :: (TSS2_RC \<times> 's) option)"
  by (auto split: option.splits)

lemma feeds_one: "feeds U (U m) [m]"
  by (auto simp: feeds_def split: option.splits)

lemma feeds_none: "feeds U (steps []) []"
  by (simp add: feeds_def)

lemma feeds_steps_Nil: "feeds U (steps []) []"
  by (simp add: feeds_def)

lemma feeds_steps_Cons: "feeds U f ms \<Longrightarrow> feeds U (steps fs) ms' \<Longrightarrow> feeds U (steps (f # fs)) (ms @ ms')"
  unfolding feeds_def by (simp add: steps_join) (auto split: option.splits)

lemma feeds_cong: "feeds U f ms \<Longrightarrow> (\<And>cb. g cb = f cb) \<Longrightarrow> feeds U g ms"
  by (simp add: feeds_def)

definition opt_list :: "'a option \<Rightarrow> 'a list" where
  "opt_list x = (case x of None \<Rightarrow> [] | Some a \<Rightarrow> [a])"

lemma feeds_opt: "(\<And>a. x = Some a \<Longrightarrow> feeds U (f a) [g a]) \<Longrightarrow> feeds U (opt_step f x) (opt_list (map_option g x))"
  by (cases x) (auto simp: opt_step_def opt_list_def feeds_none)

lemma feeds_2b:
  "tpm2b_bytes t = Some b \<Longrightarrow> feeds (iesys_crypto_hmac_update p) (iesys_crypto_hmac_update2b p t) [b]"
  "tpm2b_bytes t = Some b \<Longrightarrow> feeds (iesys_crypto_hash_update p) (iesys_crypto_hash_update2b p t) [b]"
  by (auto intro: feeds_cong [OF feeds_one] simp: iesys_crypto_hmac_update2b_def iesys_crypto_hash_update2b_def)

lemma marshal_UINT32: "Tss2_MU_UINT32_Marshal w (Some (replicate 4 0)) 4 (Some 0) = Some (0, Some (be_bytes w), Some 4)"
proof -
  have "length (be_bytes w) = 4" by simp
  then show ?thesis
    by (simp add: Tss2_MU_UINT32_Marshal_def BASE_MARSHAL_Some fits_def patch_def)
qed

lemma feeds_UINT32: "feeds U (update_UINT32 U w) [be_bytes w]"
  by (rule feeds_cong [OF feeds_one]) (simp add: update_UINT32_def marshal_UINT32)

lemma run_updates:
  assumes U: "\<And>m c. sel c = Some upd \<Longrightarrow> U m c = Some (case upd p m (CB_userdata c) of (r, u) \<Rightarrow> (r, c\<lparr>CB_userdata := u\<rparr>))"
    and sel: "\<And>c u. sel (c\<lparr>CB_userdata := u\<rparr>) = sel c"
    and run: "sel cb = Some upd" "feeds U f ms" "absorb upd p ms u1 = Some u2"
  shows "f (cb\<lparr>CB_userdata := u1\<rparr>) = Some (0, cb\<lparr>CB_userdata := u2\<rparr>)"
proof -
  have "steps (map U ms) c = Some (0, c\<lparr>CB_userdata := u\<rparr>)" if "sel c = Some upd" "absorb upd p ms (CB_userdata c) = Some u" for c u
    using that by (induction ms arbitrary: c) (auto simp: U sel split: prod.splits if_splits)
  from this [of "cb\<lparr>CB_userdata := u1\<rparr>" u2] run show ?thesis by (simp add: feeds_def sel)
qed

section \<open>The three computations\<close>

lemma hmac_runs:
  assumes "computes_hmac cb alg n mac"
  obtains p cb1 where "iesys_crypto_hmac_start cb alg key = (0, p, cb1)"
    "\<And>f ms. feeds (iesys_crypto_hmac_update p) f ms \<Longrightarrow>
       \<exists>cb2. f cb1 = Some (0, cb2) \<and> (\<forall>sz. of_nat n \<le> sz \<longrightarrow>
         (\<exists>p' u. iesys_crypto_hmac_finish cb2 p sz = (0, p', mac key (concat ms), of_nat n, cb\<lparr>CB_userdata := u\<rparr>)))"
proof -
  from assms obtain start upd fin where cb: "CB_hmac_start cb = Some start" "CB_hmac_update cb = Some upd" "CB_hmac_finish cb = Some fin"
    and law: "\<And>key u. \<exists>p u1. start alg key u = (0, p, u1) \<and> (\<forall>ms. \<exists>u2. absorb upd p ms u1 = Some u2 \<and>
      (\<forall>sz. of_nat n \<le> sz \<longrightarrow> (\<exists>p' u3. fin p sz u2 = (0, p', mac key (concat ms), of_nat n, u3))))"
    unfolding computes_hmac_def by blast
  from law [of key "CB_userdata cb"] obtain p u1 where s: "start alg key (CB_userdata cb) = (0, p, u1)"
    and ms: "\<And>ms. \<exists>u2. absorb upd p ms u1 = Some u2 \<and>
      (\<forall>sz. of_nat n \<le> sz \<longrightarrow> (\<exists>p' u3. fin p sz u2 = (0, p', mac key (concat ms), of_nat n, u3)))" by blast
  have "\<exists>cb2. f (cb\<lparr>CB_userdata := u1\<rparr>) = Some (0, cb2) \<and> (\<forall>sz. of_nat n \<le> sz \<longrightarrow>
         (\<exists>p' u. iesys_crypto_hmac_finish cb2 p sz = (0, p', mac key (concat l), of_nat n, cb\<lparr>CB_userdata := u\<rparr>)))"
    if "feeds (iesys_crypto_hmac_update p) f l" for f l
  proof -
    from ms [of l] obtain u2 where u2: "absorb upd p l u1 = Some u2"
      and fin: "\<forall>sz. of_nat n \<le> sz \<longrightarrow> (\<exists>p' u3. fin p sz u2 = (0, p', mac key (concat l), of_nat n, u3))" by blast
    have "f (cb\<lparr>CB_userdata := u1\<rparr>) = Some (0, cb\<lparr>CB_userdata := u2\<rparr>)"
      by (rule run_updates [of CB_hmac_update, OF _ _ cb(2) that u2]) (simp_all add: iesys_crypto_hmac_update_def)
    moreover have "\<forall>sz. of_nat n \<le> sz \<longrightarrow> (\<exists>p' u. iesys_crypto_hmac_finish (cb\<lparr>CB_userdata := u2\<rparr>) p sz =
        (0, p', mac key (concat l), of_nat n, cb\<lparr>CB_userdata := u\<rparr>))"
      using fin cb by (fastforce simp: iesys_crypto_hmac_finish_def)
    ultimately show ?thesis by blast
  qed
  then show ?thesis using that [of p "cb\<lparr>CB_userdata := u1\<rparr>"] s cb by (simp add: iesys_crypto_hmac_start_def)
qed

lemma hash_runs:
  assumes "computes_hash cb alg n hash"
  obtains p cb1 where "iesys_crypto_hash_start cb alg = (0, p, cb1)"
    "\<And>f ms. feeds (iesys_crypto_hash_update p) f ms \<Longrightarrow>
       \<exists>cb2. f cb1 = Some (0, cb2) \<and> (\<forall>sz. of_nat n \<le> sz \<longrightarrow>
         (\<exists>p' u. iesys_crypto_hash_finish cb2 p sz = (0, p', hash (concat ms), of_nat n, cb\<lparr>CB_userdata := u\<rparr>)))"
proof -
  from assms obtain start upd fin where cb: "CB_hash_start cb = Some start" "CB_hash_update cb = Some upd" "CB_hash_finish cb = Some fin"
    and law: "\<And>u. \<exists>p u1. start alg u = (0, p, u1) \<and> (\<forall>ms. \<exists>u2. absorb upd p ms u1 = Some u2 \<and>
      (\<forall>sz. of_nat n \<le> sz \<longrightarrow> (\<exists>p' u3. fin p sz u2 = (0, p', hash (concat ms), of_nat n, u3))))"
    unfolding computes_hash_def by blast
  from law [of "CB_userdata cb"] obtain p u1 where s: "start alg (CB_userdata cb) = (0, p, u1)"
    and ms: "\<And>ms. \<exists>u2. absorb upd p ms u1 = Some u2 \<and>
      (\<forall>sz. of_nat n \<le> sz \<longrightarrow> (\<exists>p' u3. fin p sz u2 = (0, p', hash (concat ms), of_nat n, u3)))" by blast
  have "\<exists>cb2. f (cb\<lparr>CB_userdata := u1\<rparr>) = Some (0, cb2) \<and> (\<forall>sz. of_nat n \<le> sz \<longrightarrow>
         (\<exists>p' u. iesys_crypto_hash_finish cb2 p sz = (0, p', hash (concat l), of_nat n, cb\<lparr>CB_userdata := u\<rparr>)))"
    if "feeds (iesys_crypto_hash_update p) f l" for f l
  proof -
    from ms [of l] obtain u2 where u2: "absorb upd p l u1 = Some u2"
      and fin: "\<forall>sz. of_nat n \<le> sz \<longrightarrow> (\<exists>p' u3. fin p sz u2 = (0, p', hash (concat l), of_nat n, u3))" by blast
    have "f (cb\<lparr>CB_userdata := u1\<rparr>) = Some (0, cb\<lparr>CB_userdata := u2\<rparr>)"
      by (rule run_updates [of CB_hash_update, OF _ _ cb(2) that u2]) (simp_all add: iesys_crypto_hash_update_def)
    moreover have "\<forall>sz. of_nat n \<le> sz \<longrightarrow> (\<exists>p' u. iesys_crypto_hash_finish (cb\<lparr>CB_userdata := u2\<rparr>) p sz =
        (0, p', hash (concat l), of_nat n, cb\<lparr>CB_userdata := u\<rparr>))"
      using fin cb by (fastforce simp: iesys_crypto_hash_finish_def)
    ultimately show ?thesis by blast
  qed
  then show ?thesis using that [of p "cb\<lparr>CB_userdata := u1\<rparr>"] s cb by (simp add: iesys_crypto_hash_start_def)
qed

text \<open>The bytes of an optional argument, none without it.\<close>

definition opt_bytes :: "TPM2B option \<Rightarrow> BYTE list option" where
  "opt_bytes t = (case t of None \<Rightarrow> Some [] | Some x \<Rightarrow> tpm2b_bytes x)"

lemma feeds_opt_2b:
  "opt_bytes t = Some b \<Longrightarrow> \<exists>ms. concat ms = b \<and> feeds (iesys_crypto_hmac_update p) (opt_step (iesys_crypto_hmac_update2b p) t) ms"
  "opt_bytes t = Some b \<Longrightarrow> \<exists>ms. concat ms = b \<and> feeds (iesys_crypto_hash_update p) (opt_step (iesys_crypto_hash_update2b p) t) ms"
  by (cases t; auto simp: opt_bytes_def opt_step_def intro: exI [of _ "[]"] exI [of _ "[b]"] feeds_none feeds_2b)+

lemma pHash_value:
  fixes cb :: "'c crypto"
  assumes c: "computes_hash cb alg n hash" and b: "opt_bytes name1 = Some b1" "opt_bytes name2 = Some b2" "opt_bytes name3 = Some b3"
    and room: "n \<le> length h" "of_nat n \<le> sz"
  shows "\<exists>w. iesys_crypto_pHash cb alg rc (Some cc) name1 name2 name3 (Some p) (Some h) (Some sz) =
    Some (0, Some (patch h 0 (hash (concat (opt_list rc) @ cc @ b1 @ b2 @ b3 @ p))), Some (of_nat n), cb\<lparr>CB_userdata := w\<rparr>)"
proof -
  from hash_runs [OF c] obtain q cb1 where s: "iesys_crypto_hash_start cb alg = (0, q, cb1)"
    and run: "\<And>f ms. feeds (iesys_crypto_hash_update q) f ms \<Longrightarrow>
       \<exists>cb2. f cb1 = Some (0, cb2) \<and> (\<forall>sz. of_nat n \<le> sz \<longrightarrow>
         (\<exists>p' u. iesys_crypto_hash_finish cb2 q sz = (0, p', hash (concat ms), of_nat n, cb\<lparr>CB_userdata := u\<rparr>)))" by blast
  let ?U = "iesys_crypto_hash_update q :: _ \<Rightarrow> 'c crypto step"
  let ?fs = "[opt_step ?U rc, ?U cc, opt_step (iesys_crypto_hash_update2b q) name1, opt_step (iesys_crypto_hash_update2b q) name2,
     opt_step (iesys_crypto_hash_update2b q) name3, ?U p]"
  obtain m1 m2 m3 where m: "concat m1 = b1" "feeds ?U (opt_step (iesys_crypto_hash_update2b q) name1) m1"
      "concat m2 = b2" "feeds ?U (opt_step (iesys_crypto_hash_update2b q) name2) m2"
      "concat m3 = b3" "feeds ?U (opt_step (iesys_crypto_hash_update2b q) name3) m3"
    using feeds_opt_2b(2) b by meson
  have "feeds ?U (opt_step ?U rc) (opt_list rc)" using feeds_opt [of rc ?U ?U id] by (simp add: feeds_one option.map_id)
  then have "feeds ?U (steps ?fs) (opt_list rc @ [cc] @ m1 @ m2 @ m3 @ [p] @ [])"
    by (intro feeds_steps_Cons feeds_steps_Nil feeds_one m(2,4,6))
  from run [OF this] obtain cb2 where st: "steps ?fs cb1 = Some (0, cb2)" and f: "\<forall>sz. of_nat n \<le> sz \<longrightarrow>
      (\<exists>p' u. iesys_crypto_hash_finish cb2 q sz = (0, p', hash (concat (opt_list rc @ [cc] @ m1 @ m2 @ m3 @ [p] @ [])), of_nat n, cb\<lparr>CB_userdata := u\<rparr>))" by blast
  from f room(2) m obtain p' w where f': "iesys_crypto_hash_finish cb2 q sz =
      (0, p', hash (concat (opt_list rc) @ cc @ b1 @ b2 @ b3 @ p), of_nat n, cb\<lparr>CB_userdata := w\<rparr>)" by auto
  have "mem_write h 0 (hash (concat (opt_list rc) @ cc @ b1 @ b2 @ b3 @ p)) = Some (patch h 0 (hash (concat (opt_list rc) @ cc @ b1 @ b2 @ b3 @ p)))"
    using c room(1) by (simp add: mem_write_def computes_hash_def)
  with s st f' show ?thesis by (auto simp: iesys_crypto_pHash_def simp del: steps.simps)
qed

text \<open>The message of an authorization: the parameter hash, the nonces and the attributes.\<close>

definition auth_message :: "BYTE list \<Rightarrow> BYTE list \<Rightarrow> BYTE list \<Rightarrow> BYTE list \<Rightarrow> BYTE list \<Rightarrow> UINT8 \<Rightarrow> BYTE list" where
  "auth_message pHash newer older decrypt encrypt attrs = pHash @ newer @ older @ decrypt @ encrypt @ [attrs]"

lemma marshal_SESSION: "Tss2_MU_TPMA_SESSION_Marshal a (Some [0]) 1 (Some 0) = Some (0, Some [a], Some 1)"
proof -
  have "be_bytes a = [a]" by (simp add: be_bytes_def bytes_of_def)
  then show ?thesis by (simp add: Tss2_MU_TPMA_SESSION_Marshal_def TPMA_MARSHAL_Some int_width_def BASE_MARSHAL_Some fits_def patch_def)
qed

lemma authHmac_value:
  fixes cb :: "'c crypto"
  assumes c: "computes_hmac cb alg n mac" and b: "tpm2b_bytes newer = Some b1" "tpm2b_bytes older = Some b2"
      "opt_bytes decrypt = Some b3" "opt_bytes encrypt = Some b4"
    and room: "n \<le> length (TPM2B_buffer hmac)" "of_nat n \<le> (ucast (TPM2B_size hmac) :: size_t)"
  shows "\<exists>w. iesys_crypto_authHmac cb alg key pHash newer older decrypt encrypt attrs hmac =
    Some (0, \<lparr>TPM2B_size = of_nat n, TPM2B_buffer = patch (TPM2B_buffer hmac) 0 (mac key (auth_message pHash b1 b2 b3 b4 attrs))\<rparr>, cb\<lparr>CB_userdata := w\<rparr>)"
proof -
  from hmac_runs [OF c] obtain q cb1 where s: "iesys_crypto_hmac_start cb alg key = (0, q, cb1)"
    and run: "\<And>f ms. feeds (iesys_crypto_hmac_update q) f ms \<Longrightarrow>
       \<exists>cb2. f cb1 = Some (0, cb2) \<and> (\<forall>sz. of_nat n \<le> sz \<longrightarrow>
         (\<exists>p' u. iesys_crypto_hmac_finish cb2 q sz = (0, p', mac key (concat ms), of_nat n, cb\<lparr>CB_userdata := u\<rparr>)))" by blast
  let ?U = "iesys_crypto_hmac_update q :: _ \<Rightarrow> 'c crypto step"
  let ?attrs = "\<lambda>cb. case Tss2_MU_TPMA_SESSION_Marshal attrs (Some [0]) 1 (Some 0) of
       Some (r, Some b, Some n) \<Rightarrow> if r \<noteq> 0 then Some (r, cb) else ?U (take (unat n) b) cb | _ \<Rightarrow> None"
  let ?fs = "[?U pHash, iesys_crypto_hmac_update2b q newer, iesys_crypto_hmac_update2b q older,
     opt_step (iesys_crypto_hmac_update2b q) decrypt, opt_step (iesys_crypto_hmac_update2b q) encrypt, ?attrs]"
  obtain m3 m4 where m: "concat m3 = b3" "feeds ?U (opt_step (iesys_crypto_hmac_update2b q) decrypt) m3"
      "concat m4 = b4" "feeds ?U (opt_step (iesys_crypto_hmac_update2b q) encrypt) m4"
    using feeds_opt_2b(1) b by meson
  have "feeds ?U ?attrs [[attrs]]" by (rule feeds_cong [OF feeds_one]) (simp add: marshal_SESSION)
  then have "feeds ?U (steps ?fs) ([pHash] @ [b1] @ [b2] @ m3 @ m4 @ [[attrs]] @ [])"
    by (intro feeds_steps_Cons feeds_steps_Nil feeds_one m(2,4) feeds_2b b)
  from run [OF this] obtain cb2 where st: "steps ?fs cb1 = Some (0, cb2)" and f: "\<forall>sz. of_nat n \<le> sz \<longrightarrow>
      (\<exists>p' u. iesys_crypto_hmac_finish cb2 q sz = (0, p', mac key (concat ([pHash] @ [b1] @ [b2] @ m3 @ m4 @ [[attrs]] @ [])), of_nat n, cb\<lparr>CB_userdata := u\<rparr>))" by blast
  from f room(2) m obtain p' w where f': "iesys_crypto_hmac_finish cb2 q (ucast (TPM2B_size hmac)) =
      (0, p', mac key (auth_message pHash b1 b2 b3 b4 attrs), of_nat n, cb\<lparr>CB_userdata := w\<rparr>)" by (auto simp: auth_message_def)
  have "mem_write (TPM2B_buffer hmac) 0 (mac key (auth_message pHash b1 b2 b3 b4 attrs)) =
      Some (patch (TPM2B_buffer hmac) 0 (mac key (auth_message pHash b1 b2 b3 b4 attrs)))" "ucast (of_nat n :: size_t) = (of_nat n :: UINT16)"
    using c room(1) by (simp_all add: mem_write_def computes_hmac_def unsigned_of_nat take_bit_nat_eq_self)
  with s st f' show ?thesis by (auto simp: iesys_crypto_authHmac_def iesys_crypto_hmac_finish2b_def simp del: steps.simps)
qed

text \<open>A block of key material, as in the key derivation function of the TPM specification, part 1.\<close>

definition KDFa_block :: "(BYTE list \<Rightarrow> BYTE list \<Rightarrow> BYTE list) \<Rightarrow> BYTE list \<Rightarrow> string option \<Rightarrow> BYTE list \<Rightarrow> BYTE list \<Rightarrow> UINT32 \<Rightarrow> UINT32 \<Rightarrow> BYTE list" where
  "KDFa_block mac key label u v bits i =
     mac key (be_bytes i @ (case label of None \<Rightarrow> [] | Some l \<Rightarrow> label_bytes l) @ u @ v @ be_bytes bits)"

lemma KDFaHmac_block:
  assumes c: "computes_hmac cb alg n mac" and u: "tpm2b_bytes contextU = Some u" and v: "tpm2b_bytes contextV = Some v"
  shows "\<exists>d. iesys_crypto_KDFaHmac cb alg key i label contextU contextV bits (of_nat n) =
    Some (0, KDFa_block mac key label u v bits i, of_nat n, cb\<lparr>CB_userdata := d\<rparr>)"
proof -
  from hmac_runs [OF c] obtain p cb1 where s: "iesys_crypto_hmac_start cb alg key = (0, p, cb1)"
    and run: "\<And>f ms. feeds (iesys_crypto_hmac_update p) f ms \<Longrightarrow>
       \<exists>cb2. f cb1 = Some (0, cb2) \<and> (\<forall>sz. of_nat n \<le> sz \<longrightarrow>
         (\<exists>p' u. iesys_crypto_hmac_finish cb2 p sz = (0, p', mac key (concat ms), of_nat n, cb\<lparr>CB_userdata := u\<rparr>)))" by blast
  let ?fs = "[update_UINT32 (iesys_crypto_hmac_update p) i,
      opt_step (\<lambda>l. iesys_crypto_hmac_update p (label_bytes l)) label,
      iesys_crypto_hmac_update2b p contextU, iesys_crypto_hmac_update2b p contextV, update_UINT32 (iesys_crypto_hmac_update p) bits]"
  have "feeds (iesys_crypto_hmac_update p) (steps ?fs)
      ([be_bytes i] @ opt_list (map_option label_bytes label) @ [u] @ [v] @ [be_bytes bits] @ [])"
    by (intro feeds_steps_Cons feeds_steps_Nil feeds_UINT32 feeds_opt feeds_one feeds_2b u v)
  from run [OF this] obtain cb2 where "steps ?fs cb1 = Some (0, cb2)"
    and f: "\<forall>sz. of_nat n \<le> sz \<longrightarrow> (\<exists>p' d. iesys_crypto_hmac_finish cb2 p sz = (0, p',
      mac key (concat ([be_bytes i] @ opt_list (map_option label_bytes label) @ [u] @ [v] @ [be_bytes bits] @ [])), of_nat n, cb\<lparr>CB_userdata := d\<rparr>))"
    by blast
  moreover from f obtain p' d where "iesys_crypto_hmac_finish cb2 p (of_nat n) = (0, p',
      KDFa_block mac key label u v bits i, of_nat n, cb\<lparr>CB_userdata := d\<rparr>)"
    by (force simp: KDFa_block_def opt_list_def split: option.splits)
  ultimately show ?thesis using s by (auto simp: iesys_crypto_KDFaHmac_def simp del: steps.simps)
qed

section \<open>Key derivation\<close>

text \<open>The loop fills the key block by block; \<open>Suc k\<close> is the number of blocks that \<open>bytes\<close> bytes take.\<close>

lemma KDFa_loop_blocks:
  assumes "computes_hmac cb alg n mac" "tpm2b_bytes contextU = Some u" "tpm2b_bytes contextV = Some v"
    and "unat bytes \<le> Suc k * n" "k = 0 \<or> k * n < unat bytes" "unat pos + Suc k * n \<le> length out" "length out < 2 ^ 64"
  shows "\<exists>d. KDFa_loop alg key label contextU contextV bits out pos bytes (of_nat n) c cb =
    Some (0, patch out (unat pos) (concat (map (\<lambda>i. KDFa_block mac key label u v bits (c + of_nat i)) [1..<Suc (Suc k)])),
      c + of_nat (Suc k), cb\<lparr>CB_userdata := d\<rparr>)"
  using assms
proof (induction k arbitrary: out pos bytes c cb)
  case 0
  have n: "unat (of_nat n :: size_t) = n" "\<And>m. length (mac key m) = n" using 0(1) by (auto simp: computes_hmac_def unat_of_nat)
  from KDFaHmac_block [OF 0(1-3)] obtain d where b: "iesys_crypto_KDFaHmac cb alg key (c + 1) label contextU contextV bits (of_nat n) =
      Some (0, KDFa_block mac key label u v bits (c + 1), of_nat n, cb\<lparr>CB_userdata := d\<rparr>)" by blast
  have le: "bytes \<le> of_nat n" using 0 n by (simp add: word_le_nat_alt)
  have w: "mem_write out pos (KDFa_block mac key label u v bits (c + 1)) = Some (patch out (unat pos) (KDFa_block mac key label u v bits (c + 1)))"
    using 0(6) n by (simp add: mem_write_def KDFa_block_def)
  have "KDFa_loop alg key label contextU contextV bits out pos bytes (of_nat n) c cb =
      Some (0, patch out (unat pos) (KDFa_block mac key label u v bits (c + 1)), c + 1, cb\<lparr>CB_userdata := d\<rparr>)"
    by (subst KDFa_loop.simps) (simp add: b w le)
  then show ?case by auto
next
  case (Suc k)
  have n: "0 < n" "unat (of_nat n :: size_t) = n" "\<And>m. length (mac key m) = n" using Suc(2) by (auto simp: computes_hmac_def unat_of_nat)
  let ?b = "\<lambda>i. KDFa_block mac key label u v bits i"
  have len: "length (?b i) = n" for i by (simp add: KDFa_block_def n)
  from KDFaHmac_block [OF Suc(2-4)] obtain d where b: "iesys_crypto_KDFaHmac cb alg key (c + 1) label contextU contextV bits (of_nat n) =
      Some (0, ?b (c + 1), of_nat n, cb\<lparr>CB_userdata := d\<rparr>)" by blast
  have more: "\<not> bytes \<le> of_nat n" using Suc(6) n by (auto simp: word_le_nat_alt)
  have bytes: "unat (bytes - of_nat n) = unat bytes - n" using more n by (simp add: unat_sub word_le_nat_alt)
  have pos: "unat (pos + of_nat n) = unat pos + n" using Suc(7,8) n by (simp add: unat_word_ariths)
  let ?out = "patch out (unat pos) (?b (c + 1))"
  have "computes_hmac (cb\<lparr>CB_userdata := d\<rparr>) alg n mac" "unat (bytes - of_nat n) \<le> Suc k * n" "k = 0 \<or> k * n < unat (bytes - of_nat n)"
      "unat (pos + of_nat n) + Suc k * n \<le> length ?out" "length ?out < 2 ^ 64"
    using Suc.prems n len bytes pos by auto
  from Suc.IH [OF this(1) Suc(3,4) this(2-5), of "c + 1", unfolded pos]
  obtain d' where r: "KDFa_loop alg key label contextU contextV bits ?out (pos + of_nat n) (bytes - of_nat n) (of_nat n) (c + 1) (cb\<lparr>CB_userdata := d\<rparr>) =
      Some (0, patch ?out (unat pos + n) (concat (map (\<lambda>i. ?b (c + 1 + of_nat i)) [1..<Suc (Suc k)])), c + 1 + of_nat (Suc k), cb\<lparr>CB_userdata := d'\<rparr>)" by auto
  have "concat (map (\<lambda>i. ?b (c + of_nat i)) [1..<Suc (Suc (Suc k))]) = ?b (c + 1) @ concat (map (\<lambda>i. ?b (c + 1 + of_nat i)) [1..<Suc (Suc k)])"
  proof -
    have "[1..<Suc (Suc (Suc k))] = 1 # map Suc [1..<Suc (Suc k)]" by (simp only: map_Suc_upt) (rule upt_rec [THEN trans], simp)
    then show ?thesis by (simp add: o_def algebra_simps del: upt_Suc)
  qed
  moreover have "patch ?out (unat pos + n) w = patch out (unat pos) (?b (c + 1) @ w)" if "length w = Suc k * n" for w
    using Suc(7) len that patch_append [of "unat pos" "?b (c + 1)" w out] by simp
  moreover have "length (concat (map (\<lambda>i. ?b (c + 1 + of_nat i)) is)) = length is * n" for "is"
    by (induction "is") (simp_all add: len)
  ultimately have e: "patch ?out (unat pos + n) (concat (map (\<lambda>i. ?b (c + 1 + of_nat i)) [1..<Suc (Suc k)])) =
      patch out (unat pos) (concat (map (\<lambda>i. ?b (c + of_nat i)) [1..<Suc (Suc (Suc k))]))" by (simp del: upt_Suc)
  have w: "mem_write out pos (?b (c + 1)) = Some ?out" using Suc(7) len by (simp add: mem_write_def)
  have "KDFa_loop alg key label contextU contextV bits out pos bytes (of_nat n) c cb =
      Some (0, patch out (unat pos) (concat (map (\<lambda>i. ?b (c + of_nat i)) [1..<Suc (Suc (Suc k))])), c + 1 + of_nat (Suc k), cb\<lparr>CB_userdata := d'\<rparr>)"
    unfolding e [symmetric] by (subst KDFa_loop.simps) (simp add: b more r w del: upt_Suc)
  then show ?case by (auto simp: algebra_simps simp del: upt_Suc)
qed

text \<open>The function of the specification: as many blocks as \<open>bits\<close> bits take, cut off, with the spare bits of the first byte clear.\<close>

definition mask_leading :: "UINT32 \<Rightarrow> BYTE list \<Rightarrow> BYTE list" where
  "mask_leading bits s = (if bits mod 8 = 0 \<or> s = [] then s else (hd s AND mask (unat (bits mod 8))) # tl s)"

definition KDFa_bytes :: "UINT32 \<Rightarrow> nat" where
  "KDFa_bytes bits = (unat bits + 7) div 8"

definition KDFa_blocks :: "nat \<Rightarrow> UINT32 \<Rightarrow> nat" where
  "KDFa_blocks n bits = (KDFa_bytes bits + n - 1) div n"

definition KDFa :: "(BYTE list \<Rightarrow> BYTE list \<Rightarrow> BYTE list) \<Rightarrow> nat \<Rightarrow> BYTE list \<Rightarrow> string option \<Rightarrow> BYTE list \<Rightarrow> BYTE list \<Rightarrow> UINT32 \<Rightarrow> BYTE list" where
  "KDFa mac n key label u v bits =
     mask_leading bits (take (KDFa_bytes bits)
       (concat (map (\<lambda>i. KDFa_block mac key label u v bits (of_nat i)) [1..<Suc (KDFa_blocks n bits)])))"

lemma length_blocks:
  assumes "\<And>k m. length (mac k m) = n"
  shows "length (concat (map (\<lambda>i. KDFa_block mac key label u v bits (c + of_nat i)) is)) = length is * n"
  by (induction "is") (simp_all add: KDFa_block_def assms)

lemma ceil_div:
  fixes B n :: nat
  assumes "0 < n" "0 < B"
  obtains k where "(B + n - 1) div n = Suc k" "B \<le> Suc k * n" "k * n < B"
proof -
  obtain q r where r: "B - 1 = q * n + r" "r < n" using assms by (metis mod_less_divisor div_mult_mod_eq)
  have e: "B + n - 1 = r + (q + 1) * n" using r assms by (simp add: algebra_simps)
  have "(B + n - 1) div n = q + 1" unfolding e using r(2) assms(1) by (simp del: mult_Suc add_mult_distrib)
  moreover have "B \<le> Suc q * n" "q * n < B" using r assms by simp_all
  ultimately show ?thesis using that by simp
qed

lemma mask_first_take:
  assumes "mask_first bits key = Some key'" "0 < m"
  shows "take m key' = mask_leading bits (take m key) \<and> drop m key' = drop m key \<and> length key' = length key"
  using assms by (cases key; cases m) (auto simp: mask_first_def mask_leading_def split: if_splits)

lemma mask_first_defined: "key \<noteq> [] \<Longrightarrow> \<exists>key'. mask_first bits key = Some key'"
  by (cases key) (auto simp: mask_first_def)

lemma KDFa_derived:
  assumes c: "computes_hmac cb alg n mac" and d: "iesys_crypto_hash_get_digest_size alg = (0, of_nat n)"
    and u: "tpm2b_bytes contextU = Some u" and v: "tpm2b_bytes contextV = Some v"
    and bits: "0 < bits" "unat bits + 7 < 2 ^ 32"
    and room: "KDFa_blocks n bits * n \<le> length out" "length out < 2 ^ 64"
  shows "\<exists>out' w. iesys_crypto_KDFa cb alg key label contextU contextV bits None out False = Some (0, out', None, cb\<lparr>CB_userdata := w\<rparr>) \<and>
    take (KDFa_bytes bits) out' = KDFa mac n key label u v bits \<and>
    drop (KDFa_blocks n bits * n) out' = drop (KDFa_blocks n bits * n) out \<and> length out' = length out"
proof -
  have n: "0 < n" "\<And>k m. length (mac k m) = n" using c by (auto simp: computes_hmac_def)
  have B: "unat (ucast ((bits + 7) div 8) :: size_t) = KDFa_bytes bits"
  proof -
    have "unat (bits + 7) = unat bits + 7" using bits(2) by (simp add: unat_word_ariths)
    then have "unat ((bits + 7) div 8) = KDFa_bytes bits" by (simp add: KDFa_bytes_def unat_div)
    moreover have "unat (ucast x :: size_t) = unat x" for x :: UINT32
      by (simp add: unsigned_ucast_eq take_bit_nat_eq_self order.strict_trans [OF unsigned_less])
    ultimately show ?thesis by simp
  qed
  have "0 < KDFa_bytes bits" using bits(1) by (simp add: KDFa_bytes_def word_less_nat_alt)
  then obtain k where k: "KDFa_blocks n bits = Suc k" "KDFa_bytes bits \<le> Suc k * n" "k * n < KDFa_bytes bits"
    using ceil_div [OF n(1)] unfolding KDFa_blocks_def by blast
  let ?s = "concat (map (\<lambda>i. KDFa_block mac key label u v bits (0 + of_nat i)) [1..<Suc (Suc k)])"
  have len: "length ?s = Suc k * n" by (rule length_blocks [THEN trans]) (simp_all add: n del: upt_Suc)
  from KDFa_loop_blocks [OF c u v, of "ucast ((bits + 7) div 8)" k 0 out key label bits 0, unfolded B]
  obtain w where l: "KDFa_loop alg key label contextU contextV bits out 0 (ucast ((bits + 7) div 8)) (of_nat n) 0 cb =
      Some (0, patch out 0 ?s, 0 + of_nat (Suc k), cb\<lparr>CB_userdata := w\<rparr>)"
    using k room by auto
  have p: "patch out 0 ?s = ?s @ drop (Suc k * n) out" using len by (simp add: patch_def del: upt_Suc)
  have "?s \<noteq> []" using len n(1) by (metis length_0_conv mult_is_0 nat.distinct(1) less_numeral_extra(3))
  then have "patch out 0 ?s \<noteq> []" unfolding p by (simp del: upt_Suc)
  then obtain out' where m: "mask_first bits (patch out 0 ?s) = Some out'" using mask_first_defined by blast
  have "take (KDFa_bytes bits) out' = KDFa mac n key label u v bits"
    using mask_first_take [OF m \<open>0 < KDFa_bytes bits\<close>] k len p by (simp add: KDFa_def del: upt_Suc)
  moreover have "drop (Suc k * n) out' = drop (Suc k * n) out \<and> length out' = length out"
    using mask_first_take [OF m, of "Suc k * n"] n(1) len p room k by (simp del: upt_Suc mult_Suc)
  ultimately show ?thesis using d l m k unfolding iesys_crypto_KDFa_def by (auto simp del: upt_Suc mult_Suc)
qed


section \<open>Obfuscation\<close>

text \<open>One digest of key material, the counter continued.\<close>

lemma KDFa_one_block:
  assumes c: "computes_hmac cb alg n mac" and d: "iesys_crypto_hash_get_digest_size alg = (0, of_nat n)"
    and u: "tpm2b_bytes contextU = Some u" and v: "tpm2b_bytes contextV = Some v"
    and room: "n \<le> length out" "length out < 2 ^ 64" and bits: "bits mod 8 = 0"
  shows "\<exists>w. iesys_crypto_KDFa cb alg key label contextU contextV bits (Some i) out True =
    Some (0, patch out 0 (KDFa_block mac key label u v bits (i + 1)), Some (i + 1), cb\<lparr>CB_userdata := w\<rparr>)"
proof -
  have n: "0 < n" "unat (of_nat n :: size_t) = n" using c by (auto simp: computes_hmac_def unat_of_nat)
  from KDFa_loop_blocks [OF c u v, of "of_nat n" 0 0 out key label bits i]
  obtain w where "KDFa_loop alg key label contextU contextV bits out 0 (of_nat n) (of_nat n) i cb =
      Some (0, patch out 0 (KDFa_block mac key label u v bits (i + 1)), i + 1, cb\<lparr>CB_userdata := w\<rparr>)"
    using room n by auto
  then show ?thesis using d bits by (auto simp: iesys_crypto_KDFa_def mask_first_def)
qed

definition xor_mask :: "(BYTE list \<Rightarrow> BYTE list \<Rightarrow> BYTE list) \<Rightarrow> nat \<Rightarrow> BYTE list \<Rightarrow> BYTE list \<Rightarrow> BYTE list \<Rightarrow> UINT32 \<Rightarrow> UINT32 \<Rightarrow> nat \<Rightarrow> BYTE list" where
  "xor_mask mac n key u v bits c m =
     concat (map (\<lambda>i. KDFa_block mac key (Some ''XOR'') u v bits (c + of_nat i)) [1..<Suc ((m + n - 1) div n)])"

lemma length_xor_mask:
  assumes "\<And>k m. length (mac k m) = n" "0 < n"
  shows "m \<le> length (xor_mask mac n key u v bits c m)"
proof (cases "m = 0")
  case False
  then obtain k where "(m + n - 1) div n = Suc k" "m \<le> Suc k * n" using ceil_div [OF assms(2)] by blast
  then show ?thesis by (simp add: xor_mask_def length_blocks [OF assms(1)] del: upt_Suc)
qed simp

lemma xor_mask_step:
  assumes "0 < m" "0 < n"
  shows "xor_mask mac n key u v bits c m =
    KDFa_block mac key (Some ''XOR'') u v bits (c + 1) @ xor_mask mac n key u v bits (c + 1) (m - n)"
proof -
  obtain k where k: "(m + n - 1) div n = Suc k" "m \<le> Suc k * n" "k * n < m" using ceil_div [OF assms(2,1)] by blast
  have "(m - n + n - 1) div n = k"
  proof (cases "m \<le> n")
    case True
    then have "k = 0" using k(3) by (cases k) auto
    then show ?thesis using assms True by simp
  next
    case False
    then have "m - n + n - 1 = m - 1" "m + n - 1 = (m - 1) + n" using assms by simp_all
    then have "(m + n - 1) div n = Suc ((m - 1) div n)" using assms by (metis div_add_self2 Suc_eq_plus1 less_numeral_extra(3))
    then show ?thesis using k(1) \<open>m - n + n - 1 = m - 1\<close> by simp
  qed
  moreover have "[1..<Suc (Suc k)] = 1 # map Suc [1..<Suc k]" by (simp only: map_Suc_upt) (rule upt_rec [THEN trans], simp)
  ultimately show ?thesis using k(1) by (simp add: xor_mask_def o_def algebra_simps del: upt_Suc)
qed

lemma xor_loop_masks:
  assumes "computes_hmac cb alg n mac" and d: "iesys_crypto_hash_get_digest_size alg = (0, of_nat n)"
    and u: "tpm2b_bytes contextU = Some u" and v: "tpm2b_bytes contextV = Some v" and bits: "bits mod 8 = 0"
  shows "\<exists>w. xor_loop alg key contextU contextV n bits c fin rest cb =
    Some (0, fin @ map2 (XOR) rest (xor_mask mac n key u v bits c (length rest)), cb\<lparr>CB_userdata := w\<rparr>)"
  using assms(1)
proof (induction "length rest" arbitrary: rest fin c cb rule: less_induct)
  case less
  have n: "0 < n" "n \<le> 64" "\<And>k m. length (mac k m) = n" using less(2) by (auto simp: computes_hmac_def)
  let ?b = "KDFa_block mac key (Some ''XOR'') u v bits (c + 1)"
  have lb: "length ?b = n" by (simp add: KDFa_block_def n)
  show ?case
  proof (cases "rest = []")
    case False
    from KDFa_one_block [OF less(2) d u v _ _ bits, of "replicate TPM2_MAX_DIGEST_BUFFER 0" key "Some ''XOR''" c]
    obtain w where k: "iesys_crypto_KDFa cb alg key (Some ''XOR'') contextU contextV bits (Some c) (replicate TPM2_MAX_DIGEST_BUFFER 0) True =
        Some (0, patch (replicate TPM2_MAX_DIGEST_BUFFER 0) 0 ?b, Some (c + 1), cb\<lparr>CB_userdata := w\<rparr>)"
      using n by (auto simp: TPM2_MAX_DIGEST_BUFFER_def)
    have "length (drop n rest) < length rest" "computes_hmac (cb\<lparr>CB_userdata := w\<rparr>) alg n mac" using False n less(2) by simp_all
    from less(1) [OF this, of "c + 1" "fin @ map2 (XOR) (take n rest) ?b"] obtain w' where
      "xor_loop alg key contextU contextV n bits (c + 1) (fin @ map2 (XOR) (take n rest) ?b) (drop n rest) (cb\<lparr>CB_userdata := w\<rparr>) =
        Some (0, (fin @ map2 (XOR) (take n rest) ?b) @ map2 (XOR) (drop n rest) (xor_mask mac n key u v bits (c + 1) (length rest - n)),
          cb\<lparr>CB_userdata := w'\<rparr>)" by auto
    moreover have "map2 (XOR) (take n rest) (patch (replicate TPM2_MAX_DIGEST_BUFFER 0) 0 ?b) = map2 (XOR) (take n rest) ?b"
      using lb by (simp add: patch_def zip_append2)
    moreover have "map2 (XOR) rest (xor_mask mac n key u v bits c (length rest)) =
        map2 (XOR) (take n rest) ?b @ map2 (XOR) (drop n rest) (xor_mask mac n key u v bits (c + 1) (length rest - n))"
      using False n lb by (simp add: xor_mask_step zip_append2)
    ultimately have "xor_loop alg key contextU contextV n bits c fin rest cb =
        Some (0, fin @ map2 (XOR) rest (xor_mask mac n key u v bits c (length rest)), cb\<lparr>CB_userdata := w'\<rparr>)"
      using False n k by (subst xor_loop.simps) (simp del: xor_loop.simps)
    then show ?thesis by blast
  next
    case True
    then show ?thesis by (auto intro: exI [of _ "CB_userdata cb"])
  qed
qed


lemma obfuscation_masks:
  assumes c: "computes_hmac cb alg n mac" and d: "iesys_crypto_hash_get_digest_size alg = (0, of_nat n)"
    and u: "tpm2b_bytes contextU = Some u" and v: "tpm2b_bytes contextV = Some v"
  shows "\<exists>w. iesys_xor_parameter_obfuscation cb alg (Some key) contextU contextV (Some data) =
      Some (0, Some (map2 (XOR) data (xor_mask mac n key u v (of_nat (length data * 8)) 0 (length data))), cb\<lparr>CB_userdata := w\<rparr>)"
proof -
  have "unat (of_nat n :: size_t) = n" using c by (simp add: computes_hmac_def unat_of_nat)
  moreover have "(of_nat (length data * 8) :: UINT32) mod 8 = 0"
  proof -
    have "(8::nat) dvd 2 ^ 32" by simp
    then have "unat (of_nat (length data * 8) :: UINT32) mod 8 = 0" unfolding unat_of_nat by (simp add: mod_mod_cancel del: of_nat_mult)
    then show ?thesis by (simp add: word_unat_eq_iff unat_mod del: of_nat_mult)
  qed
  ultimately show ?thesis
    using xor_loop_masks [OF c d u v, of "of_nat (length data * 8)" key 0 "[]" data] d
    by (auto simp: iesys_xor_parameter_obfuscation_def simp del: xor_loop.simps)
qed

lemma xor_twice:
  fixes xs ys :: "BYTE list"
  assumes "length xs \<le> length ys"
  shows "map2 (XOR) (map2 (XOR) xs ys) ys = xs"
  using assms by (induction xs ys rule: list_induct2') (simp_all add: xor.assoc)

lemma obfuscation_masks_twice:
  assumes c: "computes_hmac cb alg n mac" and "iesys_crypto_hash_get_digest_size alg = (0, of_nat n)"
    and "tpm2b_bytes contextU = Some u" "tpm2b_bytes contextV = Some v"
  shows "\<exists>w. iesys_xor_parameter_obfuscation (cb\<lparr>CB_userdata := x\<rparr>) alg (Some key) contextU contextV
      (Some (map2 (XOR) data (xor_mask mac n key u v (of_nat (length data * 8)) 0 (length data)))) = Some (0, Some data, cb\<lparr>CB_userdata := w\<rparr>)"
proof -
  let ?k = "xor_mask mac n key u v (of_nat (length data * 8)) 0 (length data)"
  have "length data \<le> length ?k" using c by (intro length_xor_mask) (auto simp: computes_hmac_def)
  then have "length (map2 (XOR) data ?k) = length data" "map2 (XOR) (map2 (XOR) data ?k) ?k = data" by (simp_all add: xor_twice)
  moreover have "computes_hmac (cb\<lparr>CB_userdata := x\<rparr>) alg n mac" using c by simp
  ultimately show ?thesis using obfuscation_masks [OF _ assms(2-4), of "cb\<lparr>CB_userdata := x\<rparr>" mac key "map2 (XOR) data ?k"] by simp
qed

end
