(* ===== verification/Esys_Verify.thy ===== *)
theory Esys_Verify
  imports Esys_Keys Esys_Api
begin

text \<open>
  When a response counts as authentic: its HMAC for each session is the one the caller computes from the session, the command
  code and the response parameters.  No command with sessions succeeds on a response that is not.
\<close>

section \<open>Authentic responses\<close>

text \<open>A back end that computes \<open>hash alg\<close> and \<open>mac alg\<close> for all algorithms the enhanced system API knows the digest size of.\<close>

definition supports :: "'c crypto \<Rightarrow> (UINT16 \<Rightarrow> BYTE list \<Rightarrow> BYTE list) \<Rightarrow> (UINT16 \<Rightarrow> BYTE list \<Rightarrow> BYTE list \<Rightarrow> BYTE list) \<Rightarrow> bool" where
  "supports cb hash mac \<longleftrightarrow> (\<forall>alg n. iesys_crypto_hash_get_digest_size alg = (0, n) \<longrightarrow>
     computes_hash cb alg (unat n) (hash alg) \<and> computes_hmac cb alg (unat n) (mac alg))"

text \<open>
  The authorization \<open>auth\<close> of the response in the context is authentic for the session \<open>se\<close>: a session for a plain password has
  no HMAC, every other one has the HMAC of the response parameters \<open>rp\<close> to the command \<open>cc\<close>, the new nonce of the TPM and the nonce of
  the caller.
\<close>

definition authentic ::
  "(UINT16 \<Rightarrow> BYTE list \<Rightarrow> BYTE list) \<Rightarrow> (UINT16 \<Rightarrow> BYTE list \<Rightarrow> BYTE list \<Rightarrow> BYTE list) \<Rightarrow> ('t, 'c) esys \<Rightarrow> TPMS_AUTH_RESPONSE \<Rightarrow>
   IESYS_SESSION \<Rightarrow> bool" where
  "authentic hash mac ctx auth se \<longleftrightarrow>
     (if SESSION_type_policy_session se = POLICY_PASSWORD then TPM2B_size (TPMS_AUTH_RESPONSE_hmac auth) = 0
      else \<exists>cc n p rp key nT nC. command_code ctx = Some (0, cc) \<and> sys_query Tss2_Sys_GetRpBuffer ctx = Some (0, n, p) \<and>
        sys_bytes p n ctx = Some rp \<and> session_value_bytes (SESSION_sizeHmacValue se) se = Some key \<and>
        tpm2b_bytes (TPMS_AUTH_RESPONSE_nonce auth) = Some nT \<and> tpm2b_bytes (SESSION_nonceCaller se) = Some nC \<and>
        tpm2b_bytes (TPMS_AUTH_RESPONSE_hmac auth) = Some (mac (SESSION_authHash se) key
          (auth_message (hash (SESSION_authHash se) (replicate 4 0 @ cc @ rp)) nT nC [] [] (TPMS_AUTH_RESPONSE_sessionAttributes auth))))"

text \<open>What the check of one session leaves alone: the transport, the table, the back end's functions and what HMACs depend on.\<close>

definition hmac_view :: "IESYS_SESSION \<Rightarrow> UINT16 \<times> BYTE list \<times> UINT16 \<times> TPM2B \<times> UINT32" where
  "hmac_view se = (SESSION_authHash se, SESSION_sessionValue se, SESSION_sizeHmacValue se, SESSION_nonceCaller se, SESSION_type_policy_session se)"

definition same_auth :: "('t, 'c) esys \<Rightarrow> ('t, 'c) esys \<Rightarrow> bool" where
  "same_auth s s' \<longleftrightarrow> esys_sys s' = esys_sys s \<and> session_tab s' = session_tab s \<and> (\<exists>u. crypto_backend s' = (crypto_backend s)\<lparr>CB_userdata := u\<rparr>) \<and>
     (\<forall>a. map_option hmac_view (session_of (Some a) s') = map_option hmac_view (session_of (Some a) s))"

lemma same_auth_refl [simp]: "same_auth s s"
  by (auto simp: same_auth_def intro: exI [of _ "CB_userdata (crypto_backend s)"])

lemma same_auth_trans: "same_auth s s' \<Longrightarrow> same_auth s' s'' \<Longrightarrow> same_auth s s''"
  by (auto simp: same_auth_def)

lemma supports_userdata [simp]: "supports (cb\<lparr>CB_userdata := u\<rparr>) hash mac = supports cb hash mac"
  by (simp add: supports_def)

lemma authentic_same:
  assumes "same_auth s s'" "hmac_view se' = hmac_view se"
  shows "authentic hash mac s' auth se' = authentic hash mac s auth se"
  using assms by (simp add: authentic_def same_auth_def hmac_view_def command_code_def sys_query_def sys_bytes_def session_value_bytes_def)

section \<open>One session\<close>

lemma digest_small: "iesys_crypto_hash_get_digest_size alg = (0, n) \<Longrightarrow> 0 < unat n \<and> unat n \<le> 64"
  by (auto simp: iesys_crypto_hash_get_digest_size_def split: if_splits)

lemma rp_hash_value:
  assumes "computes_hash (crypto_backend s) alg n (hash alg)" and "iesys_compute_rp_hash alg h z s = Some (0, (d, m), s')" "length h = 64"
  obtains cc k p rp w where "command_code s = Some (0, cc)" "sys_query Tss2_Sys_GetRpBuffer s = Some (0, k, p)" "sys_bytes p k s = Some rp"
    "d = patch h 0 (hash alg (replicate 4 0 @ cc @ rp))" "m = of_nat n" "s' = s\<lparr>crypto_backend := (crypto_backend s)\<lparr>CB_userdata := w\<rparr>\<rparr>"
proof -
  from assms(2) obtain cc k p rp where q: "command_code s = Some (0, cc)" "sys_query Tss2_Sys_GetRpBuffer s = Some (0, k, p)" "sys_bytes p k s = Some rp"
    and r: "on_crypto (param_hash alg (Some (replicate 4 0)) cc None None None rp h) s = Some (0, (d, m), s')"
    by (auto simp: iesys_compute_rp_hash_def call_val_def ask_def read_val_def split: option.splits prod.splits if_splits)
  have n: "n \<le> 64" using assms(1) by (simp add: computes_hash_def)
  then have "of_nat n \<le> (64 :: size_t)" by (simp add: word_le_nat_alt unat_of_nat)
  from pHash_value [OF assms(1), of None "[]" None "[]" None "[]" h 64 "Some (replicate 4 0)" cc rp] this n assms(3)
  obtain w where "iesys_crypto_pHash (crypto_backend s) alg (Some (replicate 4 0)) (Some cc) None None None (Some rp) (Some h) (Some 64) =
      Some (0, Some (patch h 0 (hash alg (replicate 4 0 @ cc @ rp))), Some (of_nat n), (crypto_backend s)\<lparr>CB_userdata := w\<rparr>)"
    by (auto simp: opt_bytes_def opt_list_def)
  with r have "d = patch h 0 (hash alg (replicate 4 0 @ cc @ rp))" "m = of_nat n" "s' = s\<lparr>crypto_backend := (crypto_backend s)\<lparr>CB_userdata := w\<rparr>\<rparr>"
    by (auto simp: on_crypto_def param_hash_def sizeof_TPMU_HA_def)
  with q show ?thesis by (rule that)
qed

lemma session_of_crypto [simp]: "session_of p (s\<lparr>crypto_backend := cb\<rparr>) = session_of p s"
  by (cases p) (simp_all add: session_of_def deref_node_def)

lemma session_set:
  assumes "set_session (Some a) f s = Some (r, s')"
  shows "r = 0 \<and> esys_sys s' = esys_sys s \<and> session_tab s' = session_tab s \<and> crypto_backend s' = crypto_backend s \<and>
    session_of (Some a) s' = map_option f (session_of (Some a) s) \<and> (\<forall>b. b \<noteq> a \<longrightarrow> session_of (Some b) s' = session_of (Some b) s)"
  using assms
  by (auto simp: set_session_def set_node_def session_of_def deref_node_def with_session_def node_session_def set_misc_def split: option.splits)


lemma authHmac_needs_bytes:
  assumes "iesys_crypto_authHmac cb alg key pHash newer older None None attrs hmac = Some (0, hmac', cb')"
  shows "\<exists>b1 b2. tpm2b_bytes newer = Some b1 \<and> tpm2b_bytes older = Some b2"
  using assms
  by (auto simp: iesys_crypto_authHmac_def iesys_crypto_hmac_update2b_def split: option.splits prod.splits if_splits)

lemma take_patch: "length w = n \<Longrightarrow> n \<le> length b \<Longrightarrow> take n (patch b 0 w) = w"
  by (simp add: patch_def)

lemma cmp_AUTH_equal:
  assumes "cmp_TPM2B_AUTH x \<lparr>TPM2B_size = of_nat n, TPM2B_buffer = patch (TPM2B_buffer b) 0 w\<rparr> = Some True"
    "length w = n" "n \<le> 64" "length (TPM2B_buffer b) = 64"
  shows "tpm2b_bytes x = Some w"
proof -
  have "unat (of_nat n :: UINT16) = n" using assms(3) by (simp add: unat_of_nat)
  with assms show ?thesis
    by (auto simp: cmp_TPM2B_AUTH_def cmp_TPM2B_DIGEST_def cmp_BYTE_array_def tpm2b_bytes_def take_patch split: if_splits)
qed

lemma check_rp_hmac_steps:
  assumes "check_rp_hmac auth a s = Some (0, s')" "session_of (Some a) s = Some se" "SESSION_type_policy_session se \<noteq> POLICY_PASSWORD"
  obtains d m s1 s2 key pHash hm cb where "iesys_compute_rp_hash (SESSION_authHash se) (replicate 64 0) 0 s = Some (0, (d, m), s1)"
    "set_session (Some a) (\<lambda>s. s\<lparr>SESSION_nonceTPM := TPMS_AUTH_RESPONSE_nonce auth,
       SESSION_sessionAttributes := TPMS_AUTH_RESPONSE_sessionAttributes auth\<rparr>) s1 = Some (0, s2)"
    "session_value_bytes (SESSION_sizeHmacValue se) se = Some key" "mem_read d 0 (unat m) = Some pHash"
    "iesys_crypto_authHmac (crypto_backend s2) (SESSION_authHash se) key pHash (TPMS_AUTH_RESPONSE_nonce auth) (SESSION_nonceCaller se)
       None None (TPMS_AUTH_RESPONSE_sessionAttributes auth) ((zero_TPM2B 64)\<lparr>TPM2B_size := of_nat 64\<rparr>) = Some (0, hm, cb)"
    "cmp_TPM2B_AUTH (TPMS_AUTH_RESPONSE_hmac auth) hm = Some True" "s' = s2\<lparr>crypto_backend := cb\<rparr>"
proof -
  have "TSS2_ESYS_RC_RSP_AUTH_FAILED \<noteq> 0" by (simp add: esys_rc_defs)
  with assms that show ?thesis
    by (auto simp: check_rp_hmac_def call_def read_val_def on_crypto_def sizeof_TPMU_HA_def split: option.splits prod.splits if_splits)
qed

lemma check_rp_hmac_authentic:
  assumes b: "supports (crypto_backend s) hash mac" and s: "session_of (Some a) s = Some se"
    and d: "fst (iesys_crypto_hash_get_digest_size (SESSION_authHash se)) = 0" and run: "check_rp_hmac auth a s = Some (0, s')"
  shows "same_auth s s' \<and> authentic hash mac s auth se"
proof (cases "SESSION_type_policy_session se = POLICY_PASSWORD")
  case True
  have "TSS2_ESYS_RC_RSP_AUTH_FAILED \<noteq> 0" by (simp add: esys_rc_defs)
  with True run s show ?thesis by (auto simp: check_rp_hmac_def authentic_def split: if_splits)
next
  case False
  let ?alg = "SESSION_authHash se"
  obtain z where z: "iesys_crypto_hash_get_digest_size ?alg = (0, z)" using d by (metis prod.collapse)
  with b have c: "computes_hash (crypto_backend s) ?alg (unat z) (hash ?alg)" "computes_hmac (crypto_backend s) ?alg (unat z) (mac ?alg)"
    by (auto simp: supports_def)
  have z64: "unat z \<le> 64" using digest_small [OF z] by simp
  then have z64': "z \<le> 64" by (simp add: word_le_nat_alt)
  from run s False obtain d m s1 s2 key pHash hm cb where
      rp: "iesys_compute_rp_hash ?alg (replicate 64 0) 0 s = Some (0, (d, m), s1)" and
      set: "set_session (Some a) (\<lambda>s. s\<lparr>SESSION_nonceTPM := TPMS_AUTH_RESPONSE_nonce auth,
        SESSION_sessionAttributes := TPMS_AUTH_RESPONSE_sessionAttributes auth\<rparr>) s1 = Some (0, s2)" and
      key: "session_value_bytes (SESSION_sizeHmacValue se) se = Some key" "mem_read d 0 (unat m) = Some pHash" and
      hm: "iesys_crypto_authHmac (crypto_backend s2) ?alg key pHash (TPMS_AUTH_RESPONSE_nonce auth) (SESSION_nonceCaller se)
        None None (TPMS_AUTH_RESPONSE_sessionAttributes auth) ((zero_TPM2B 64)\<lparr>TPM2B_size := of_nat 64\<rparr>) = Some (0, hm, cb)" and
      cmp: "cmp_TPM2B_AUTH (TPMS_AUTH_RESPONSE_hmac auth) hm = Some True" "s' = s2\<lparr>crypto_backend := cb\<rparr>"
    by (rule check_rp_hmac_steps)
  obtain cc k p rpb w where q: "command_code s = Some (0, cc)"
      "sys_query Tss2_Sys_GetRpBuffer s = Some (0, k, p)" "sys_bytes p k s = Some rpb"
      "d = patch (replicate 64 0) 0 (hash ?alg (replicate 4 0 @ cc @ rpb))" "m = of_nat (unat z)"
      and s1: "s1 = s\<lparr>crypto_backend := (crypto_backend s)\<lparr>CB_userdata := w\<rparr>\<rparr>"
    by (rule rp_hash_value [where hash = hash, OF c(1) rp length_replicate])
  have pHash: "pHash = hash ?alg (replicate 4 0 @ cc @ rpb)"
    using key(2) q(4,5) c(1) z64 by (auto simp: mem_read_def computes_hash_def take_patch seg_def)
  note s2 = session_set [OF set]
  from authHmac_needs_bytes [OF hm] obtain nT nC where n: "tpm2b_bytes (TPMS_AUTH_RESPONSE_nonce auth) = Some nT" "tpm2b_bytes (SESSION_nonceCaller se) = Some nC"
    by blast
  have "computes_hmac (crypto_backend s2) ?alg (unat z) (mac ?alg)" using s2 s1 c(2) by simp
  from authHmac_value [OF this n, of None "[]" None "[]" "(zero_TPM2B 64)\<lparr>TPM2B_size := of_nat 64\<rparr>" key pHash "TPMS_AUTH_RESPONSE_sessionAttributes auth"]
    z64 z64' hm s2 s1 obtain v where
      hm': "hm = \<lparr>TPM2B_size = of_nat (unat z), TPM2B_buffer = patch (TPM2B_buffer (zero_TPM2B 64)) 0
        (mac ?alg key (auth_message pHash nT nC [] [] (TPMS_AUTH_RESPONSE_sessionAttributes auth)))\<rparr>"
      and cb: "cb = (crypto_backend s)\<lparr>CB_userdata := v\<rparr>"
    by (auto simp: opt_bytes_def zero_TPM2B_def)
  have "tpm2b_bytes (TPMS_AUTH_RESPONSE_hmac auth) = Some (mac ?alg key (auth_message pHash nT nC [] [] (TPMS_AUTH_RESPONSE_sessionAttributes auth)))"
    by (rule cmp_AUTH_equal [OF cmp(1) [unfolded hm']]) (use c(2) z64 in \<open>auto simp: computes_hmac_def zero_TPM2B_def\<close>)
  then have "authentic hash mac s auth se" using False q(1-3) key(1) n pHash by (auto simp: authentic_def)
  moreover have "map_option hmac_view (session_of (Some b) s') = map_option hmac_view (session_of (Some b) s)" for b
    using s2 s1 cmp(2) by (cases "b = a"; cases "session_of (Some b) s") (simp_all add: hmac_view_def)
  then have "same_auth s s'" using s2 s1 cmp(2) cb by (auto simp: same_auth_def)
  ultimately show ?thesis by simp
qed


section \<open>All sessions\<close>

text \<open>Steps that all succeed: each of them ran in a state with the invariant \<open>J\<close>.\<close>

lemma steps_all:
  assumes "steps (map f is) s = Some (0, s')" "J s" "\<And>i s s'. i \<in> set is \<Longrightarrow> J s \<Longrightarrow> f i s = Some (0, s') \<Longrightarrow> J s' \<and> P i"
  shows "\<forall>i \<in> set is. P i"
  using assms
proof (induction "is" arbitrary: s)
  case (Cons i "is")
  then obtain s1 where s1: "f i s = Some (0, s1)" "steps (map f is) s1 = Some (0, s')" by (auto split: option.splits if_splits)
  with Cons.prems have "J s1 \<and> P i" by force
  with Cons.IH [OF s1(2)] Cons.prems(3) show ?case by auto
qed simp

text \<open>The sessions in use exist and have a known hash algorithm.\<close>

definition session_hashes :: "('t, 'c) esys \<Rightarrow> bool" where
  "session_hashes s \<longleftrightarrow> (\<forall>a. Some a \<in> set (session_tab s) \<longrightarrow> (\<exists>se. session_of (Some a) s = Some se \<and>
     fst (iesys_crypto_hash_get_digest_size (SESSION_authHash se)) = 0))"

lemma same_session:
  assumes "same_auth s t" "session_of (Some a) t = Some se'"
  obtains se where "session_of (Some a) s = Some se" "hmac_view se' = hmac_view se"
  using assms unfolding same_auth_def by (metis (no_types, lifting) map_option_eq_Some option.map(2))

lemma check_rp_hmacs_authentic:
  assumes b: "supports (crypto_backend s) hash mac" "session_hashes s" "unat (AUTH_RESPONSE_count auths) \<le> length (session_tab s)"
    and run: "iesys_check_rp_hmacs auths s = Some (0, s')"
    and i: "i < unat (AUTH_RESPONSE_count auths)" "session_tab s ! i = Some a" "session_of (Some a) s = Some se"
  shows "authentic hash mac s (AUTH_RESPONSE_auths auths ! i) se"
proof -
  let ?n = "unat (AUTH_RESPONSE_count auths)"
  let ?f = "\<lambda>i s. case session_tab (fst s) ! i of None \<Rightarrow> Some (TSS2_RC_SUCCESS, s)
      | Some a \<Rightarrow> on_fst (check_rp_hmac (AUTH_RESPONSE_auths auths ! i) a) s"
  let ?P = "\<lambda>i. \<forall>a se. session_tab s ! i = Some a \<longrightarrow> session_of (Some a) s = Some se \<longrightarrow>
      authentic hash mac s (AUTH_RESPONSE_auths auths ! i) se"
  from run obtain w where "steps (map ?f [0..<?n]) (s, ()) = Some (0, w)"
    by (auto simp: iesys_check_rp_hmacs_def on_ctx_def each_session_def)
  then have "\<forall>i \<in> set [0..<?n]. ?P i"
  proof (rule steps_all [where J = "\<lambda>w. same_auth s (fst w)"])
    fix j w w' assume j: "j \<in> set [0..<?n]" and J: "same_auth s (fst w)" and f: "?f j w = Some (0, w')"
    show "same_auth s (fst w') \<and> ?P j"
    proof (cases "session_tab s ! j")
      case (Some a)
      with J have tab: "session_tab (fst w) ! j = Some a" by (simp add: same_auth_def)
      with f obtain t where t: "check_rp_hmac (AUTH_RESPONSE_auths auths ! j) a (fst w) = Some (0, t)" "fst w' = t"
        by (cases w) (auto split: option.splits prod.splits)
      then obtain se' where se': "session_of (Some a) (fst w) = Some se'" by (auto simp: check_rp_hmac_def split: option.splits)
      with J obtain se where se: "session_of (Some a) s = Some se" "hmac_view se' = hmac_view se" by (rule same_session)
      have "Some a \<in> set (session_tab s)" using Some j b(3) by (metis nth_mem atLeastLessThan_iff set_upt order.strict_trans2)
      with b(2) se have "fst (iesys_crypto_hash_get_digest_size (SESSION_authHash se')) = 0" by (force simp: session_hashes_def hmac_view_def)
      moreover have "supports (crypto_backend (fst w)) hash mac" using J b(1) by (auto simp: same_auth_def)
      ultimately have "same_auth (fst w) t" "authentic hash mac (fst w) (AUTH_RESPONSE_auths auths ! j) se'"
        using check_rp_hmac_authentic [OF _ se' _ t(1)] by blast+
      then show ?thesis using J se Some t(2) authentic_same [OF J se(2)] same_auth_trans by auto
    qed (use J f in \<open>auto simp: same_auth_def\<close>)
  qed simp
  with i show ?thesis by auto
qed

text \<open>A successful check of a response with sessions: the authorizations of the response are all there and authentic.\<close>

lemma check_response_authentic:
  assumes b: "supports (crypto_backend s) hash mac" "session_hashes s" "esys_authsCount s \<le> length (session_tab s)"
    and run: "iesys_check_response s = Some (0, s')"
    and i: "i < esys_authsCount s" "session_tab s ! i = Some a" "session_of (Some a) s = Some se" "i < 3" "session_type s ! i \<ge> ESYS_TR_MIN_OBJECT"
  shows "\<exists>auths. rsp_auths s = Some (0, auths) \<and> unat (AUTH_RESPONSE_count auths) = esys_authsCount s \<and>
    authentic hash mac s (AUTH_RESPONSE_auths auths ! i) se"
proof -
  have ne: "TSS2_ESYS_RC_GENERAL_FAILURE \<noteq> 0" by (simp add: esys_rc_defs)
  have ty: "session_type s ! 0 \<ge> ESYS_TR_MIN_OBJECT \<or> session_type s ! 1 \<ge> ESYS_TR_MIN_OBJECT \<or> session_type s ! 2 \<ge> ESYS_TR_MIN_OBJECT"
    using i(4,5) by (auto simp: less_Suc_eq numeral_3_eq_3 numeral_2_eq_2)
  from run i(1) ne ty obtain auths s1 where "rsp_auths s = Some (0, auths)" "unat (AUTH_RESPONSE_count auths) = esys_authsCount s"
      "iesys_check_rp_hmacs auths s = Some (0, s1)"
    unfolding iesys_check_response_def call_def ask_def by (auto split: option.splits prod.splits if_splits)
  with check_rp_hmacs_authentic [OF b(1,2) _ this(3) _ i(2,3)] b(3) i(1) show ?thesis by auto
qed


lemma authentic_sys:
  assumes "esys_sys t = esys_sys s"
  shows "authentic hash mac t auth se = authentic hash mac s auth se" "rsp_auths t = rsp_auths s"
  using assms by (simp_all add: authentic_def command_code_def sys_query_def sys_bytes_def rsp_auths_def)

end
