(* ===== verification/Esys_Check.thy ===== *)
theory Esys_Check
  imports Esys_Verify
begin

text \<open>
  Functions that succeed only after a successful check of the response, as rules for the ways in which the functions of the
  enhanced system API are put together.
\<close>

section \<open>Steps before the check\<close>

text \<open>
  What is the same when the response is checked: the sessions in use, the back end's functions and the number of authorizations.
  The object at address \<open>x\<close> is new and not among the sessions.
\<close>

definition quiet :: "nat option \<Rightarrow> TSS2_RC \<Rightarrow> ('t, 'c) esys \<Rightarrow> ('t, 'c) esys \<Rightarrow> bool" where
  "quiet x r s s' \<longleftrightarrow> session_tab s' = session_tab s \<and> session_type s' = session_type s \<and> esys_authsCount s' = esys_authsCount s \<and>
     crypto_backend s' = crypto_backend s \<and> esys_timeout s' = esys_timeout s \<and> (esys_ok s \<longrightarrow> esys_ok s') \<and>
     (esys_ok s \<longrightarrow> (\<forall>a. x \<noteq> Some a \<longrightarrow> rsrc_heap s a \<noteq> None \<longrightarrow> rsrc_heap s' a = rsrc_heap s a))"

text \<open>A success means: the response was received, and checked directly after that.\<close>

definition checked :: "nat option \<Rightarrow> TSS2_RC \<Rightarrow> ('t, 'c) esys \<Rightarrow> ('t, 'c) esys \<Rightarrow> bool" where
  "checked x r s s' \<longleftrightarrow> (r = 0 \<longrightarrow> (\<exists>t t'. quiet x 0 s t \<and> Tss2_Sys_ExecuteFinish (esys_sys s) (esys_timeout s) = Some (0, esys_sys t) \<and>
     iesys_check_response t = Some (0, t')))"

lemma quiet_refl [simp]: "quiet x r s s"
  by (simp add: quiet_def)

lemma quiet_trans: "quiet x q s s' \<Longrightarrow> quiet x r s' s'' \<Longrightarrow> quiet x p s s''"
  by (auto simp: quiet_def)

lemma quiet_alloc: "alloc s = (ok, s') \<Longrightarrow> quiet x r s s'"
  by (auto simp: alloc_def quiet_def esys_ok_def split: list.splits)

lemma quiet_same:
  assumes "session_tab s' = session_tab s" "session_type s' = session_type s" "esys_authsCount s' = esys_authsCount s"
    "crypto_backend s' = crypto_backend s" "rsrc_heap s' = rsrc_heap s" "rsrc_list s' = rsrc_list s" "heap_next s' = heap_next s"
    "auth_objects s' = auth_objects s" "esys_timeout s' = esys_timeout s"
  shows "quiet x r s s'"
  using assms by (simp add: quiet_def esys_ok_def)

lemma receive_success:
  assumes "receive s = Some (0, s')"
  shows "quiet x 0 s s' \<and> Tss2_Sys_ExecuteFinish (esys_sys s) (esys_timeout s) = Some (0, esys_sys s')"
proof -
  from assms obtain c where "Tss2_Sys_ExecuteFinish (esys_sys s) (esys_timeout s) = Some (0, c)" "s' = s\<lparr>esys_sys := c\<rparr>"
    by (auto simp: receive_def resubmit_def on_sys_def Let_def wants_retry_def esys_rc_defs TPM2_RC_RETRY_def TPM2_RC_TESTING_def TPM2_RC_YIELDED_def iesys_tpm_error_def split: option.splits if_splits)
  moreover then have "quiet x 0 s s'" by (intro quiet_same) simp_all
  ultimately show ?thesis by simp
qed

text \<open>The steps before the response is received.\<close>

definition idle :: "nat option \<Rightarrow> TSS2_RC \<Rightarrow> ('t, 'c) esys \<Rightarrow> ('t, 'c) esys \<Rightarrow> bool" where
  "idle x r s s' \<longleftrightarrow> quiet x r s s' \<and> esys_sys s' = esys_sys s"

named_theorems quiet_intros

lemma quiet_null_out [quiet_intros]: "obeys fst (idle x) null_out"
  by (auto simp: obeys_def null_out_def idle_def)

lemma alloc_idle: "alloc s = (ok, s') \<Longrightarrow> idle x r s s'"
  unfolding idle_def by (rule conjI, erule quiet_alloc) (auto simp: alloc_def split: list.splits)

lemma quiet_alloc_out [quiet_intros]: "obeys fst (idle x) (alloc_out z)" "obeys fst (idle x) (alloc_local z)"
  by (auto simp: obeys_def alloc_out_def alloc_local_def idle_def split: option.splits prod.splits if_splits dest: alloc_idle [of _ _ _ x, unfolded idle_def])

lemma quiet_next_out [quiet_intros]: "obeys fst (idle x) f \<Longrightarrow> obeys fst (idle x) (next_out f)"
  unfolding obeys_def next_out_def by (fastforce split: option.splits prod.splits)

lemma quiet_set_node:
  assumes "set_node (Some a) f s = Some (r, s')"
  shows "idle (Some a) r s s'"
proof -
  from assms obtain n where n: "rsrc_heap s a = Some n" "s' = s\<lparr>rsrc_heap := (rsrc_heap s)(a \<mapsto> f n)\<rparr>"
    by (auto simp: set_node_def split: option.splits)
  then have "esys_ok s \<Longrightarrow> esys_ok s'" by (auto simp: esys_ok_def)
  with n show ?thesis by (auto simp: quiet_def idle_def)
qed

lemma quiet_init_public [quiet_intros]: "obeys fst (idle (Some a)) (on_fst (init_public a))"
  by (auto simp: obeys_def init_public_def with_node_def dest: quiet_set_node split: option.splits)

section \<open>The check\<close>

definition checks :: "(('t, 'c) esys option \<times> 'o) step \<Rightarrow> bool" where
  "checks F \<longleftrightarrow> (\<forall>s outs p outs'. F (Some s, outs) = Some (0, p, outs') \<longrightarrow> (\<exists>t. checked None 0 (working s) t))"

lemma checksI: "obeys fst (checked None) body \<Longrightarrow> checks (esys_finish body)"
  unfolding checks_def
proof (intro allI impI)
  fix s outs p outs'
  assume body: "obeys fst (checked None) body" and "esys_finish body (Some s, outs) = Some (0, p, outs')"
  then obtain s1 where "body (working s, outs) = Some (0, s1, outs')"
    by (auto simp: esys_finish_def working_def esys_rc_defs split: if_splits)
  with obeysD [OF body this] show "\<exists>t. checked None 0 (working s) t" by auto
qed

lemma checked_run:
  assumes "receive s = Some (0, s1)" "check_response s1 = Some (0, s2)"
  shows "checked x r s s'"
  using assms receive_success [of s s1 x] by (auto simp: checked_def check_response_def or_state_def split: option.splits)

lemma checkedI: "(\<And>s s'. f s = Some (0, s') \<Longrightarrow> checked x 0 (v s) (v s')) \<Longrightarrow> obeys v (checked x) f"
  unfolding obeys_def checked_def by auto

lemma steps_success:
  assumes "steps (f # fs) s = Some (0, s')"
  obtains s1 where "f s = Some (0, s1)" "steps fs s1 = Some (0, s')"
  using assms by (auto split: option.splits if_splits)

lemma on_fst_success:
  assumes "on_fst f s = Some (0, s')"
  shows "f (fst s) = Some (0, fst s')"
  using assms by (cases s) (auto split: option.splits)

lemma checked_receive:
  "obeys plain (checked x) (steps (receive # check_response # fs))"
  "obeys fst (checked x) (steps (on_fst receive # on_fst check_response # gs))"
  subgoal by (rule checkedI, erule steps_success, erule steps_success) (simp add: plain_def checked_run)
  subgoal by (rule checkedI, erule steps_success, erule steps_success) (drule on_fst_success, drule on_fst_success, simp add: checked_run)
  done

lemma quiet_timeout: "quiet x r s s' \<Longrightarrow> esys_timeout s' = esys_timeout s"
  by (simp add: quiet_def)

lemma idle_checked:
  assumes "idle x 0 s s'" "checked x 0 s' s''"
  shows "checked x 0 s s3"
proof -
  from assms(2) obtain t t' where "quiet x 0 s' t" "Tss2_Sys_ExecuteFinish (esys_sys s') (esys_timeout s') = Some (0, esys_sys t)"
      "iesys_check_response t = Some (0, t')" by (auto simp: checked_def)
  with assms(1) have "quiet x 0 s t" "Tss2_Sys_ExecuteFinish (esys_sys s) (esys_timeout s) = Some (0, esys_sys t)"
    using quiet_trans quiet_timeout unfolding idle_def by metis+
  with \<open>iesys_check_response t = Some (0, t')\<close> show ?thesis by (auto simp: checked_def)
qed

lemma checked_on_fst: "obeys plain (checked x) f \<Longrightarrow> obeys fst (checked x) (on_fst f)"
  by (auto simp: obeys_def plain_def split: option.splits)

text \<open>After the check anything may follow, as it can only make the function fail.\<close>

lemma checked_then: "obeys v (checked x) f \<Longrightarrow> obeys v (checked x) (steps (f # fs))"
  by (rule checkedI, erule steps_success) (drule obeysD, assumption, simp add: checked_def)

lemma checked_before: "obeys v (idle x) f \<Longrightarrow> obeys v (checked x) (steps fs) \<Longrightarrow> obeys v (checked x) (steps (f # fs))"
  by (rule checkedI, erule steps_success) (drule obeysD, assumption, drule obeysD, assumption, erule idle_checked)

lemma checked_error_cleanup: "obeys v (checked x) f \<Longrightarrow> obeys v (checked x) (error_cleanup c f)"
  unfolding obeys_def checked_def error_cleanup_def by (fastforce split: option.splits if_splits)

lemma checked_cleanups:
  "obeys fst (checked x) f \<Longrightarrow> obeys fst (checked x) (cleanup_outs g f)"
  "obeys fst (checked x) f' \<Longrightarrow> obeys fst (checked x) (object_cleanup g' f')"
  unfolding cleanup_outs_def object_cleanup_def by (rule checked_error_cleanup, assumption)+

lemma checked_with_local: "obeys fst (checked x) f \<Longrightarrow> obeys fst (checked x) (with_local z f)"
  unfolding obeys_def with_local_def by (fastforce split: option.splits prod.splits simp: checked_def)

lemma checked_new_object:
  assumes "\<And>a. obeys fst (checked (Some a)) (k a)"
  shows "obeys fst (checked None) (new_object k)"
proof
  fix w r w'
  assume new: "new_object k w = Some (r, w')"
  obtain s h outs where w: "w = (s, h, outs)" by (cases w)
  show "checked None r (fst w) (fst w')"
  proof (cases "r = 0")
    case True
    let ?s = "s\<lparr>esys_handle_cnt := esys_handle_cnt s + 1\<rparr>"
    from new w True obtain node s1 a where c: "esys_CreateResourceObject (esys_handle_cnt s) ?s = Some (0, node, s1)"
        and k: "node = Some a" "k a (s1, Some (esys_handle_cnt s), outs) = Some (0, w')"
      by (auto simp: new_object_def Let_def esys_rc_defs split: option.splits prod.splits if_splits)
    from obeysD [OF assms k(2)] obtain t t' where t: "quiet (Some a) 0 s1 t" "iesys_check_response t = Some (0, t')"
        "Tss2_Sys_ExecuteFinish (esys_sys s1) (esys_timeout s1) = Some (0, esys_sys t)"
      by (auto simp: checked_def)
    obtain s0 where al: "alloc ?s = (True, s0)" and s1: "a = heap_next s0" "s1 = s0\<lparr>heap_next := a + 1, rsrc_heap := (rsrc_heap s0)(a \<mapsto>
        zero_RSRC_NODE_T\<lparr>node_esys_handle := esys_handle_cnt s\<rparr>), rsrc_list := a # rsrc_list s0\<rparr>"
      using c k(1) by (auto simp: esys_CreateResourceObject_def Let_def esys_rc_defs split: prod.splits if_splits)
    have "quiet None 0 s ?s" by (rule quiet_same) simp_all
    with quiet_alloc [OF al, of None 0] have q0: "quiet None 0 s s0" by (rule quiet_trans [rotated])
    moreover have "quiet None 0 s0 t"
    proof -
      have "esys_ok s0 \<Longrightarrow> esys_ok s1" using esys_ok_new [of s0] s1 by simp
      moreover have "rsrc_heap t b = rsrc_heap s0 b" if "esys_ok s0" "rsrc_heap s0 b \<noteq> None" for b
      proof -
        have "b \<noteq> a" using esys_ok_unused [OF that(1), of a] that(2) s1(1) by auto
        then show ?thesis using t(1) s1 that \<open>esys_ok s0 \<Longrightarrow> esys_ok s1\<close> by (simp add: quiet_def)
      qed
      ultimately show ?thesis using t(1) s1 by (simp add: quiet_def)
    qed
    ultimately have "quiet None 0 s t" by (rule quiet_trans)
    moreover have "esys_sys s1 = esys_sys s" "esys_timeout s1 = esys_timeout s"
      using s1(2) quiet_timeout [OF q0] alloc_idle [OF al, of None 0] by (simp_all add: idle_def)
    ultimately show ?thesis using t w True by (auto simp: checked_def)
  qed (simp add: checked_def)
qed

lemma checked_evict: "obeys fst (checked None) (\<lambda>(ctx, newObjectHandle, _). case newObjectHandle of
     None \<Rightarrow> Some (TSS2_ESYS_RC_BAD_REFERENCE, ctx, newObjectHandle, ())
   | Some _ \<Rightarrow> steps (error_cleanup c (steps (on_fst receive # on_fst check_response # fs)) # gs) (ctx, Some h, ()))"
proof -
  have "obeys fst (checked None) (steps (error_cleanup c (steps (on_fst receive # on_fst check_response # fs)) # gs))"
    by (intro checked_then checked_error_cleanup checked_receive)
  then have "checked None r ctx (fst s')" if "steps (error_cleanup c (steps (on_fst receive # on_fst check_response # fs)) # gs) (ctx, Some h, ()) = Some (r, s')" for r ctx s'
    using that by (auto dest: obeysD)
  then show ?thesis unfolding obeys_def by (auto simp: esys_rc_defs checked_def simp del: steps.simps split: option.splits)
qed

lemmas checked_intros = checksI checked_on_fst checked_receive checked_then [OF checked_cleanups(1)] checked_then [OF checked_cleanups(2)]
  checked_then [OF checked_new_object] checked_before checked_cleanups checked_with_local checked_new_object quiet_intros

lemma context_of_run: "context_of x = Some (r, p) \<Longrightarrow> \<exists>outs'. x = Some (r, p, outs')"
  by (auto simp: context_of_def)

lemma checksD: "checks F \<Longrightarrow> F (Some s, outs) = Some (0, p, outs') \<Longrightarrow> checked None 0 (working s) t"
  unfolding checks_def checked_def by blast


text \<open>The sessions of the command when the response is checked.\<close>

lemma quiet_session:
  assumes "quiet None r s t" "esys_ok s" "session_of (Some a) s = Some se"
  shows "session_of (Some a) t = Some se"
proof -
  have "rsrc_heap t a = rsrc_heap s a" using assms by (auto simp: quiet_def session_of_def deref_node_def split: option.splits)
  then show ?thesis using assms(3) by (simp add: session_of_def deref_node_def)
qed

lemma checked_authentic:
  assumes c: "checked None 0 s s'" and s: "esys_ok s" "supports (crypto_backend s) hash mac" "session_hashes s" "esys_authsCount s \<le> 3"
    and i: "i < esys_authsCount s" "session_tab s ! i = Some a" "session_type s ! i \<ge> ESYS_TR_MIN_OBJECT" "session_of (Some a) s = Some se"
  shows "\<exists>c auths. Tss2_Sys_ExecuteFinish (esys_sys s) (esys_timeout s) = Some (0, c) \<and> rsp_auths (s\<lparr>esys_sys := c\<rparr>) = Some (0, auths) \<and>
    unat (AUTH_RESPONSE_count auths) = esys_authsCount s \<and> authentic hash mac (s\<lparr>esys_sys := c\<rparr>) (AUTH_RESPONSE_auths auths ! i) se"
proof -
  from c obtain t t' where q: "quiet None 0 s t" and x: "Tss2_Sys_ExecuteFinish (esys_sys s) (esys_timeout s) = Some (0, esys_sys t)"
      and r: "iesys_check_response t = Some (0, t')" by (auto simp: checked_def)
  have same: "session_tab t = session_tab s" "session_type t = session_type s" "esys_authsCount t = esys_authsCount s" "crypto_backend t = crypto_backend s"
    using q by (simp_all add: quiet_def)
  have len: "length (session_tab s) = 3" using s(1) by (simp add: esys_ok_def)
  have "session_hashes t" using s(3) quiet_session [OF q s(1)] unfolding session_hashes_def same by blast
  then obtain auths where "rsp_auths t = Some (0, auths)" "unat (AUTH_RESPONSE_count auths) = esys_authsCount s"
      "authentic hash mac t (AUTH_RESPONSE_auths auths ! i) se"
    using check_response_authentic [OF _ _ _ r, of hash mac i a se] quiet_session [OF q s(1) i(4)] s i len by (auto simp: same)
  then show ?thesis using x authentic_sys [of t "s\<lparr>esys_sys := esys_sys t\<rparr>"] by auto
qed

end
