(* ===== verification/Esys_Checked.thy ===== *)
theory Esys_Checked
  imports Esys_Check
begin

text \<open>
  The \<open>_Finish\<close> functions that succeed only after a check of the response with the sessions as they were when the command was sent.
  The others are those of the commands without sessions (\<open>ContextLoad\<close>, \<open>ContextSave\<close>, \<open>FlushContext\<close>, \<open>Startup\<close>), those that
  change the value of a session before the check because the TPM does (\<open>HierarchyChangeAuth\<close>, \<open>NV_ChangeAuth\<close>,
  \<open>PCR_SetAuthValue\<close> and \<open>NV_UndefineSpaceSpecial\<close>), and \<open>StartAuthSession\<close>.
\<close>

lemma checked_AC_GetCapability: "checks Esys_AC_GetCapability_Finish"
  unfolding Esys_AC_GetCapability_Finish_def by (intro checked_intros)

lemma checked_AC_Send: "checks Esys_AC_Send_Finish"
  unfolding Esys_AC_Send_Finish_def by (intro checked_intros)

lemma checked_ACT_SetTimeout: "checks Esys_ACT_SetTimeout_Finish"
  unfolding Esys_ACT_SetTimeout_Finish_def by (intro checked_intros)

lemma checked_ActivateCredential: "checks Esys_ActivateCredential_Finish"
  unfolding Esys_ActivateCredential_Finish_def by (intro checked_intros)

lemma checked_Certify: "checks Esys_Certify_Finish"
  unfolding Esys_Certify_Finish_def by (intro checked_intros)

lemma checked_CertifyCreation: "checks Esys_CertifyCreation_Finish"
  unfolding Esys_CertifyCreation_Finish_def by (intro checked_intros)

lemma checked_CertifyX509: "checks Esys_CertifyX509_Finish"
  unfolding Esys_CertifyX509_Finish_def by (intro checked_intros)

lemma checked_ChangeEPS: "checks Esys_ChangeEPS_Finish"
  unfolding Esys_ChangeEPS_Finish_def by (intro checked_intros)

lemma checked_ChangePPS: "checks Esys_ChangePPS_Finish"
  unfolding Esys_ChangePPS_Finish_def by (intro checked_intros)

lemma checked_Clear: "checks Esys_Clear_Finish"
  unfolding Esys_Clear_Finish_def by (intro checked_intros)

lemma checked_ClearControl: "checks Esys_ClearControl_Finish"
  unfolding Esys_ClearControl_Finish_def by (intro checked_intros)

lemma checked_ClockRateAdjust: "checks Esys_ClockRateAdjust_Finish"
  unfolding Esys_ClockRateAdjust_Finish_def by (intro checked_intros)

lemma checked_ClockSet: "checks Esys_ClockSet_Finish"
  unfolding Esys_ClockSet_Finish_def by (intro checked_intros)

lemma checked_Commit: "checks Esys_Commit_Finish"
  unfolding Esys_Commit_Finish_def by (intro checked_intros)

lemma checked_Create: "checks Esys_Create_Finish"
  unfolding Esys_Create_Finish_def by (intro checked_intros)

lemma checked_CreateLoaded: "checks Esys_CreateLoaded_Finish"
  unfolding Esys_CreateLoaded_Finish_def by (intro checked_intros)

lemma checked_CreatePrimary: "checks Esys_CreatePrimary_Finish"
  unfolding Esys_CreatePrimary_Finish_def by (intro checked_intros)

lemma checked_Decapsulate: "checks Esys_Decapsulate_Finish"
  unfolding Esys_Decapsulate_Finish_def by (intro checked_intros)

lemma checked_DictionaryAttackLockReset: "checks Esys_DictionaryAttackLockReset_Finish"
  unfolding Esys_DictionaryAttackLockReset_Finish_def by (intro checked_intros)

lemma checked_DictionaryAttackParameters: "checks Esys_DictionaryAttackParameters_Finish"
  unfolding Esys_DictionaryAttackParameters_Finish_def by (intro checked_intros)

lemma checked_Duplicate: "checks Esys_Duplicate_Finish"
  unfolding Esys_Duplicate_Finish_def by (intro checked_intros)

lemma checked_EC_Ephemeral: "checks Esys_EC_Ephemeral_Finish"
  unfolding Esys_EC_Ephemeral_Finish_def by (intro checked_intros)

lemma checked_ECC_Decrypt: "checks Esys_ECC_Decrypt_Finish"
  unfolding Esys_ECC_Decrypt_Finish_def by (intro checked_intros)

lemma checked_ECC_Encrypt: "checks Esys_ECC_Encrypt_Finish"
  unfolding Esys_ECC_Encrypt_Finish_def by (intro checked_intros)

lemma checked_ECC_Parameters: "checks Esys_ECC_Parameters_Finish"
  unfolding Esys_ECC_Parameters_Finish_def by (intro checked_intros)

lemma checked_ECDH_KeyGen: "checks Esys_ECDH_KeyGen_Finish"
  unfolding Esys_ECDH_KeyGen_Finish_def by (intro checked_intros)

lemma checked_ECDH_ZGen: "checks Esys_ECDH_ZGen_Finish"
  unfolding Esys_ECDH_ZGen_Finish_def by (intro checked_intros)

lemma checked_Encapsulate: "checks Esys_Encapsulate_Finish"
  unfolding Esys_Encapsulate_Finish_def by (intro checked_intros)

lemma checked_EncryptDecrypt: "checks Esys_EncryptDecrypt_Finish"
  unfolding Esys_EncryptDecrypt_Finish_def by (intro checked_intros)

lemma checked_EncryptDecrypt2: "checks Esys_EncryptDecrypt2_Finish"
  unfolding Esys_EncryptDecrypt2_Finish_def by (intro checked_intros)

lemma checked_EventSequenceComplete: "checks Esys_EventSequenceComplete_Finish"
  unfolding Esys_EventSequenceComplete_Finish_def by (intro checked_intros)

lemma checked_EvictControl: "checks Esys_EvictControl_Finish"
  unfolding Esys_EvictControl_Finish_def by (rule checksI, rule checked_evict)

lemma checked_FieldUpgradeData: "checks Esys_FieldUpgradeData_Finish"
  unfolding Esys_FieldUpgradeData_Finish_def by (intro checked_intros)

lemma checked_FieldUpgradeStart: "checks Esys_FieldUpgradeStart_Finish"
  unfolding Esys_FieldUpgradeStart_Finish_def by (intro checked_intros)

lemma checked_FirmwareRead: "checks Esys_FirmwareRead_Finish"
  unfolding Esys_FirmwareRead_Finish_def by (intro checked_intros)

lemma checked_GetCapability: "checks Esys_GetCapability_Finish"
  unfolding Esys_GetCapability_Finish_def by (intro checked_intros)

lemma checked_GetCommandAuditDigest: "checks Esys_GetCommandAuditDigest_Finish"
  unfolding Esys_GetCommandAuditDigest_Finish_def by (intro checked_intros)

lemma checked_GetRandom: "checks Esys_GetRandom_Finish"
  unfolding Esys_GetRandom_Finish_def by (intro checked_intros)

lemma checked_GetSessionAuditDigest: "checks Esys_GetSessionAuditDigest_Finish"
  unfolding Esys_GetSessionAuditDigest_Finish_def by (intro checked_intros)

lemma checked_GetTestResult: "checks Esys_GetTestResult_Finish"
  unfolding Esys_GetTestResult_Finish_def by (intro checked_intros)

lemma checked_GetTime: "checks Esys_GetTime_Finish"
  unfolding Esys_GetTime_Finish_def by (intro checked_intros)

lemma checked_Hash: "checks Esys_Hash_Finish"
  unfolding Esys_Hash_Finish_def by (intro checked_intros)

lemma checked_HashSequenceStart: "checks Esys_HashSequenceStart_Finish"
  unfolding Esys_HashSequenceStart_Finish_def by (intro checked_intros)

lemma checked_HierarchyControl: "checks Esys_HierarchyControl_Finish"
  unfolding Esys_HierarchyControl_Finish_def by (intro checked_intros)

lemma checked_HMAC: "checks Esys_HMAC_Finish"
  unfolding Esys_HMAC_Finish_def by (intro checked_intros)

lemma checked_HMAC_Start: "checks Esys_HMAC_Start_Finish"
  unfolding Esys_HMAC_Start_Finish_def by (intro checked_intros)

lemma checked_Import: "checks Esys_Import_Finish"
  unfolding Esys_Import_Finish_def by (intro checked_intros)

lemma checked_IncrementalSelfTest: "checks Esys_IncrementalSelfTest_Finish"
  unfolding Esys_IncrementalSelfTest_Finish_def by (intro checked_intros)

lemma checked_Load: "checks Esys_Load_Finish"
  unfolding Esys_Load_Finish_def by (intro checked_intros)

lemma checked_LoadExternal: "checks Esys_LoadExternal_Finish"
  unfolding Esys_LoadExternal_Finish_def by (intro checked_intros)

lemma checked_MAC: "checks Esys_MAC_Finish"
  unfolding Esys_MAC_Finish_def by (intro checked_intros)

lemma checked_MAC_Start: "checks Esys_MAC_Start_Finish"
  unfolding Esys_MAC_Start_Finish_def by (intro checked_intros)

lemma checked_MakeCredential: "checks Esys_MakeCredential_Finish"
  unfolding Esys_MakeCredential_Finish_def by (intro checked_intros)

lemma checked_NV_Certify: "checks Esys_NV_Certify_Finish"
  unfolding Esys_NV_Certify_Finish_def by (intro checked_intros)

lemma checked_NV_DefineSpace: "checks Esys_NV_DefineSpace_Finish"
  unfolding Esys_NV_DefineSpace_Finish_def by (intro checked_intros)

lemma checked_NV_Extend: "checks Esys_NV_Extend_Finish"
  unfolding Esys_NV_Extend_Finish_def by (intro checked_intros)

lemma checked_NV_GlobalWriteLock: "checks Esys_NV_GlobalWriteLock_Finish"
  unfolding Esys_NV_GlobalWriteLock_Finish_def by (intro checked_intros)

lemma checked_NV_Increment: "checks Esys_NV_Increment_Finish"
  unfolding Esys_NV_Increment_Finish_def by (intro checked_intros)

lemma checked_NV_Read: "checks Esys_NV_Read_Finish"
  unfolding Esys_NV_Read_Finish_def by (intro checked_intros)

lemma checked_NV_ReadLock: "checks Esys_NV_ReadLock_Finish"
  unfolding Esys_NV_ReadLock_Finish_def by (intro checked_intros)

lemma checked_NV_ReadPublic: "checks Esys_NV_ReadPublic_Finish"
  unfolding Esys_NV_ReadPublic_Finish_def by (intro checked_intros)

lemma checked_NV_SetBits: "checks Esys_NV_SetBits_Finish"
  unfolding Esys_NV_SetBits_Finish_def by (intro checked_intros)

lemma checked_NV_UndefineSpace: "checks Esys_NV_UndefineSpace_Finish"
  unfolding Esys_NV_UndefineSpace_Finish_def by (intro checked_intros)

lemma checked_NV_Write: "checks Esys_NV_Write_Finish"
  unfolding Esys_NV_Write_Finish_def by (intro checked_intros)

lemma checked_NV_WriteLock: "checks Esys_NV_WriteLock_Finish"
  unfolding Esys_NV_WriteLock_Finish_def by (intro checked_intros)

lemma checked_ObjectChangeAuth: "checks Esys_ObjectChangeAuth_Finish"
  unfolding Esys_ObjectChangeAuth_Finish_def by (intro checked_intros)

lemma checked_PCR_Allocate: "checks Esys_PCR_Allocate_Finish"
  unfolding Esys_PCR_Allocate_Finish_def by (intro checked_intros)

lemma checked_PCR_Event: "checks Esys_PCR_Event_Finish"
  unfolding Esys_PCR_Event_Finish_def by (intro checked_intros)

lemma checked_PCR_Extend: "checks Esys_PCR_Extend_Finish"
  unfolding Esys_PCR_Extend_Finish_def by (intro checked_intros)

lemma checked_PCR_Read: "checks Esys_PCR_Read_Finish"
  unfolding Esys_PCR_Read_Finish_def by (intro checked_intros)

lemma checked_PCR_Reset: "checks Esys_PCR_Reset_Finish"
  unfolding Esys_PCR_Reset_Finish_def by (intro checked_intros)

lemma checked_PCR_SetAuthPolicy: "checks Esys_PCR_SetAuthPolicy_Finish"
  unfolding Esys_PCR_SetAuthPolicy_Finish_def by (intro checked_intros)

lemma checked_Policy_AC_SendSelect: "checks Esys_Policy_AC_SendSelect_Finish"
  unfolding Esys_Policy_AC_SendSelect_Finish_def by (intro checked_intros)

lemma checked_PolicyAuthorize: "checks Esys_PolicyAuthorize_Finish"
  unfolding Esys_PolicyAuthorize_Finish_def by (intro checked_intros)

lemma checked_PolicyAuthorizeNV: "checks Esys_PolicyAuthorizeNV_Finish"
  unfolding Esys_PolicyAuthorizeNV_Finish_def by (intro checked_intros)

lemma checked_PolicyAuthValue: "checks Esys_PolicyAuthValue_Finish"
  unfolding Esys_PolicyAuthValue_Finish_def by (intro checked_intros)

lemma checked_PolicyCommandCode: "checks Esys_PolicyCommandCode_Finish"
  unfolding Esys_PolicyCommandCode_Finish_def by (intro checked_intros)

lemma checked_PolicyCounterTimer: "checks Esys_PolicyCounterTimer_Finish"
  unfolding Esys_PolicyCounterTimer_Finish_def by (intro checked_intros)

lemma checked_PolicyCpHash: "checks Esys_PolicyCpHash_Finish"
  unfolding Esys_PolicyCpHash_Finish_def by (intro checked_intros)

lemma checked_PolicyDuplicationSelect: "checks Esys_PolicyDuplicationSelect_Finish"
  unfolding Esys_PolicyDuplicationSelect_Finish_def by (intro checked_intros)

lemma checked_PolicyGetDigest: "checks Esys_PolicyGetDigest_Finish"
  unfolding Esys_PolicyGetDigest_Finish_def by (intro checked_intros)

lemma checked_PolicyLocality: "checks Esys_PolicyLocality_Finish"
  unfolding Esys_PolicyLocality_Finish_def by (intro checked_intros)

lemma checked_PolicyNameHash: "checks Esys_PolicyNameHash_Finish"
  unfolding Esys_PolicyNameHash_Finish_def by (intro checked_intros)

lemma checked_PolicyNV: "checks Esys_PolicyNV_Finish"
  unfolding Esys_PolicyNV_Finish_def by (intro checked_intros)

lemma checked_PolicyNvWritten: "checks Esys_PolicyNvWritten_Finish"
  unfolding Esys_PolicyNvWritten_Finish_def by (intro checked_intros)

lemma checked_PolicyOR: "checks Esys_PolicyOR_Finish"
  unfolding Esys_PolicyOR_Finish_def by (intro checked_intros)

lemma checked_PolicyPassword: "checks Esys_PolicyPassword_Finish"
  unfolding Esys_PolicyPassword_Finish_def by (intro checked_intros)

lemma checked_PolicyPCR: "checks Esys_PolicyPCR_Finish"
  unfolding Esys_PolicyPCR_Finish_def by (intro checked_intros)

lemma checked_PolicyPhysicalPresence: "checks Esys_PolicyPhysicalPresence_Finish"
  unfolding Esys_PolicyPhysicalPresence_Finish_def by (intro checked_intros)

lemma checked_PolicyRestart: "checks Esys_PolicyRestart_Finish"
  unfolding Esys_PolicyRestart_Finish_def by (intro checked_intros)

lemma checked_PolicySecret: "checks Esys_PolicySecret_Finish"
  unfolding Esys_PolicySecret_Finish_def by (intro checked_intros)

lemma checked_PolicySigned: "checks Esys_PolicySigned_Finish"
  unfolding Esys_PolicySigned_Finish_def by (intro checked_intros)

lemma checked_PolicyTemplate: "checks Esys_PolicyTemplate_Finish"
  unfolding Esys_PolicyTemplate_Finish_def by (intro checked_intros)

lemma checked_PolicyTicket: "checks Esys_PolicyTicket_Finish"
  unfolding Esys_PolicyTicket_Finish_def by (intro checked_intros)

lemma checked_PP_Commands: "checks Esys_PP_Commands_Finish"
  unfolding Esys_PP_Commands_Finish_def by (intro checked_intros)

lemma checked_Quote: "checks Esys_Quote_Finish"
  unfolding Esys_Quote_Finish_def by (intro checked_intros)

lemma checked_ReadClock: "checks Esys_ReadClock_Finish"
  unfolding Esys_ReadClock_Finish_def by (intro checked_intros)

lemma checked_ReadPublic: "checks Esys_ReadPublic_Finish"
  unfolding Esys_ReadPublic_Finish_def by (intro checked_intros)

lemma checked_Rewrap: "checks Esys_Rewrap_Finish"
  unfolding Esys_Rewrap_Finish_def by (intro checked_intros)

lemma checked_RSA_Decrypt: "checks Esys_RSA_Decrypt_Finish"
  unfolding Esys_RSA_Decrypt_Finish_def by (intro checked_intros)

lemma checked_RSA_Encrypt: "checks Esys_RSA_Encrypt_Finish"
  unfolding Esys_RSA_Encrypt_Finish_def by (intro checked_intros)

lemma checked_SelfTest: "checks Esys_SelfTest_Finish"
  unfolding Esys_SelfTest_Finish_def by (intro checked_intros)

lemma checked_SequenceComplete: "checks Esys_SequenceComplete_Finish"
  unfolding Esys_SequenceComplete_Finish_def by (intro checked_intros)

lemma checked_SequenceUpdate: "checks Esys_SequenceUpdate_Finish"
  unfolding Esys_SequenceUpdate_Finish_def by (intro checked_intros)

lemma checked_SetAlgorithmSet: "checks Esys_SetAlgorithmSet_Finish"
  unfolding Esys_SetAlgorithmSet_Finish_def by (intro checked_intros)

lemma checked_SetCommandCodeAuditStatus: "checks Esys_SetCommandCodeAuditStatus_Finish"
  unfolding Esys_SetCommandCodeAuditStatus_Finish_def by (intro checked_intros)

lemma checked_SetPrimaryPolicy: "checks Esys_SetPrimaryPolicy_Finish"
  unfolding Esys_SetPrimaryPolicy_Finish_def by (intro checked_intros)

lemma checked_Shutdown: "checks Esys_Shutdown_Finish"
  unfolding Esys_Shutdown_Finish_def by (intro checked_intros)

lemma checked_Sign: "checks Esys_Sign_Finish"
  unfolding Esys_Sign_Finish_def by (intro checked_intros)

lemma checked_SignDigest: "checks Esys_SignDigest_Finish"
  unfolding Esys_SignDigest_Finish_def by (intro checked_intros)

lemma checked_SignSequenceComplete: "checks Esys_SignSequenceComplete_Finish"
  unfolding Esys_SignSequenceComplete_Finish_def by (intro checked_intros)

lemma checked_SignSequenceStart: "checks Esys_SignSequenceStart_Finish"
  unfolding Esys_SignSequenceStart_Finish_def by (intro checked_intros)

lemma checked_StirRandom: "checks Esys_StirRandom_Finish"
  unfolding Esys_StirRandom_Finish_def by (intro checked_intros)

lemma checked_TestParms: "checks Esys_TestParms_Finish"
  unfolding Esys_TestParms_Finish_def by (intro checked_intros)

lemma checked_Unseal: "checks Esys_Unseal_Finish"
  unfolding Esys_Unseal_Finish_def by (intro checked_intros)

lemma checked_Vendor_TCG_Test: "checks Esys_Vendor_TCG_Test_Finish"
  unfolding Esys_Vendor_TCG_Test_Finish_def by (intro checked_intros)

lemma checked_VerifyDigestSignature: "checks Esys_VerifyDigestSignature_Finish"
  unfolding Esys_VerifyDigestSignature_Finish_def by (intro checked_intros)

lemma checked_VerifySequenceComplete: "checks Esys_VerifySequenceComplete_Finish"
  unfolding Esys_VerifySequenceComplete_Finish_def by (intro checked_intros)

lemma checked_VerifySequenceStart: "checks Esys_VerifySequenceStart_Finish"
  unfolding Esys_VerifySequenceStart_Finish_def by (intro checked_intros)

lemma checked_VerifySignature: "checks Esys_VerifySignature_Finish"
  unfolding Esys_VerifySignature_Finish_def by (intro checked_intros)

lemma checked_ZGen_2Phase: "checks Esys_ZGen_2Phase_Finish"
  unfolding Esys_ZGen_2Phase_Finish_def by (intro checked_intros)

inductive esys_api_checked :: "('t, 'c) api_call \<Rightarrow> bool" where
  check_AC_GetCapability_Finish: "esys_api_checked (\<lambda>ctx. context_of (Esys_AC_GetCapability_Finish (ctx, (outs :: _ \<times> _ \<times> unit))))"
| check_AC_Send_Finish: "esys_api_checked (\<lambda>ctx. context_of (Esys_AC_Send_Finish (ctx, (outs :: _ \<times> unit))))"
| check_ACT_SetTimeout_Finish: "esys_api_checked (\<lambda>ctx. context_of (Esys_ACT_SetTimeout_Finish (ctx, (outs :: unit))))"
| check_ActivateCredential_Finish: "esys_api_checked (\<lambda>ctx. context_of (Esys_ActivateCredential_Finish (ctx, (outs :: _ \<times> unit))))"
| check_Certify_Finish: "esys_api_checked (\<lambda>ctx. context_of (Esys_Certify_Finish (ctx, (outs :: _ \<times> _ \<times> unit))))"
| check_CertifyCreation_Finish: "esys_api_checked (\<lambda>ctx. context_of (Esys_CertifyCreation_Finish (ctx, (outs :: _ \<times> _ \<times> unit))))"
| check_CertifyX509_Finish: "esys_api_checked (\<lambda>ctx. context_of (Esys_CertifyX509_Finish (ctx, (outs :: _ \<times> _ \<times> _ \<times> unit))))"
| check_ChangeEPS_Finish: "esys_api_checked (\<lambda>ctx. context_of (Esys_ChangeEPS_Finish (ctx, (outs :: unit))))"
| check_ChangePPS_Finish: "esys_api_checked (\<lambda>ctx. context_of (Esys_ChangePPS_Finish (ctx, (outs :: unit))))"
| check_Clear_Finish: "esys_api_checked (\<lambda>ctx. context_of (Esys_Clear_Finish (ctx, (outs :: unit))))"
| check_ClearControl_Finish: "esys_api_checked (\<lambda>ctx. context_of (Esys_ClearControl_Finish (ctx, (outs :: unit))))"
| check_ClockRateAdjust_Finish: "esys_api_checked (\<lambda>ctx. context_of (Esys_ClockRateAdjust_Finish (ctx, (outs :: unit))))"
| check_ClockSet_Finish: "esys_api_checked (\<lambda>ctx. context_of (Esys_ClockSet_Finish (ctx, (outs :: unit))))"
| check_Commit_Finish: "esys_api_checked (\<lambda>ctx. context_of (Esys_Commit_Finish (ctx, (outs :: _ \<times> _ \<times> _ \<times> _ \<times> unit))))"
| check_Create_Finish: "esys_api_checked (\<lambda>ctx. context_of (Esys_Create_Finish (ctx, (outs :: _ \<times> _ \<times> _ \<times> _ \<times> _ \<times> unit))))"
| check_CreateLoaded_Finish: "esys_api_checked (\<lambda>ctx. context_of (Esys_CreateLoaded_Finish (ctx, (outs :: _ \<times> _ \<times> _ \<times> unit))))"
| check_CreatePrimary_Finish: "esys_api_checked (\<lambda>ctx. context_of (Esys_CreatePrimary_Finish (ctx, (outs :: _ \<times> _ \<times> _ \<times> _ \<times> _ \<times> unit))))"
| check_Decapsulate_Finish: "esys_api_checked (\<lambda>ctx. context_of (Esys_Decapsulate_Finish (ctx, (outs :: _ \<times> unit))))"
| check_DictionaryAttackLockReset_Finish: "esys_api_checked (\<lambda>ctx. context_of (Esys_DictionaryAttackLockReset_Finish (ctx, (outs :: unit))))"
| check_DictionaryAttackParameters_Finish: "esys_api_checked (\<lambda>ctx. context_of (Esys_DictionaryAttackParameters_Finish (ctx, (outs :: unit))))"
| check_Duplicate_Finish: "esys_api_checked (\<lambda>ctx. context_of (Esys_Duplicate_Finish (ctx, (outs :: _ \<times> _ \<times> _ \<times> unit))))"
| check_EC_Ephemeral_Finish: "esys_api_checked (\<lambda>ctx. context_of (Esys_EC_Ephemeral_Finish (ctx, (outs :: _ \<times> _ \<times> unit))))"
| check_ECC_Decrypt_Finish: "esys_api_checked (\<lambda>ctx. context_of (Esys_ECC_Decrypt_Finish (ctx, (outs :: _ \<times> unit))))"
| check_ECC_Encrypt_Finish: "esys_api_checked (\<lambda>ctx. context_of (Esys_ECC_Encrypt_Finish (ctx, (outs :: _ \<times> _ \<times> _ \<times> unit))))"
| check_ECC_Parameters_Finish: "esys_api_checked (\<lambda>ctx. context_of (Esys_ECC_Parameters_Finish (ctx, (outs :: _ \<times> unit))))"
| check_ECDH_KeyGen_Finish: "esys_api_checked (\<lambda>ctx. context_of (Esys_ECDH_KeyGen_Finish (ctx, (outs :: _ \<times> _ \<times> unit))))"
| check_ECDH_ZGen_Finish: "esys_api_checked (\<lambda>ctx. context_of (Esys_ECDH_ZGen_Finish (ctx, (outs :: _ \<times> unit))))"
| check_Encapsulate_Finish: "esys_api_checked (\<lambda>ctx. context_of (Esys_Encapsulate_Finish (ctx, (outs :: _ \<times> _ \<times> unit))))"
| check_EncryptDecrypt_Finish: "esys_api_checked (\<lambda>ctx. context_of (Esys_EncryptDecrypt_Finish (ctx, (outs :: _ \<times> _ \<times> unit))))"
| check_EncryptDecrypt2_Finish: "esys_api_checked (\<lambda>ctx. context_of (Esys_EncryptDecrypt2_Finish (ctx, (outs :: _ \<times> _ \<times> unit))))"
| check_EventSequenceComplete_Finish: "esys_api_checked (\<lambda>ctx. context_of (Esys_EventSequenceComplete_Finish (ctx, (outs :: _ \<times> unit))))"
| check_EvictControl_Finish: "esys_api_checked (\<lambda>ctx. context_of (Esys_EvictControl_Finish (ctx, (outs :: _ \<times> unit))))"
| check_FieldUpgradeData_Finish: "esys_api_checked (\<lambda>ctx. context_of (Esys_FieldUpgradeData_Finish (ctx, (outs :: _ \<times> _ \<times> unit))))"
| check_FieldUpgradeStart_Finish: "esys_api_checked (\<lambda>ctx. context_of (Esys_FieldUpgradeStart_Finish (ctx, (outs :: unit))))"
| check_FirmwareRead_Finish: "esys_api_checked (\<lambda>ctx. context_of (Esys_FirmwareRead_Finish (ctx, (outs :: _ \<times> unit))))"
| check_GetCapability_Finish: "esys_api_checked (\<lambda>ctx. context_of (Esys_GetCapability_Finish (ctx, (outs :: _ \<times> _ \<times> unit))))"
| check_GetCommandAuditDigest_Finish: "esys_api_checked (\<lambda>ctx. context_of (Esys_GetCommandAuditDigest_Finish (ctx, (outs :: _ \<times> _ \<times> unit))))"
| check_GetRandom_Finish: "esys_api_checked (\<lambda>ctx. context_of (Esys_GetRandom_Finish (ctx, (outs :: _ \<times> unit))))"
| check_GetSessionAuditDigest_Finish: "esys_api_checked (\<lambda>ctx. context_of (Esys_GetSessionAuditDigest_Finish (ctx, (outs :: _ \<times> _ \<times> unit))))"
| check_GetTestResult_Finish: "esys_api_checked (\<lambda>ctx. context_of (Esys_GetTestResult_Finish (ctx, (outs :: _ \<times> _ \<times> unit))))"
| check_GetTime_Finish: "esys_api_checked (\<lambda>ctx. context_of (Esys_GetTime_Finish (ctx, (outs :: _ \<times> _ \<times> unit))))"
| check_Hash_Finish: "esys_api_checked (\<lambda>ctx. context_of (Esys_Hash_Finish (ctx, (outs :: _ \<times> _ \<times> unit))))"
| check_HashSequenceStart_Finish: "esys_api_checked (\<lambda>ctx. context_of (Esys_HashSequenceStart_Finish (ctx, (outs :: _ \<times> unit))))"
| check_HierarchyControl_Finish: "esys_api_checked (\<lambda>ctx. context_of (Esys_HierarchyControl_Finish (ctx, (outs :: unit))))"
| check_HMAC_Finish: "esys_api_checked (\<lambda>ctx. context_of (Esys_HMAC_Finish (ctx, (outs :: _ \<times> unit))))"
| check_HMAC_Start_Finish: "esys_api_checked (\<lambda>ctx. context_of (Esys_HMAC_Start_Finish (ctx, (outs :: _ \<times> unit))))"
| check_Import_Finish: "esys_api_checked (\<lambda>ctx. context_of (Esys_Import_Finish (ctx, (outs :: _ \<times> unit))))"
| check_IncrementalSelfTest_Finish: "esys_api_checked (\<lambda>ctx. context_of (Esys_IncrementalSelfTest_Finish (ctx, (outs :: _ \<times> unit))))"
| check_Load_Finish: "esys_api_checked (\<lambda>ctx. context_of (Esys_Load_Finish (ctx, (outs :: _ \<times> unit))))"
| check_LoadExternal_Finish: "esys_api_checked (\<lambda>ctx. context_of (Esys_LoadExternal_Finish (ctx, (outs :: _ \<times> unit))))"
| check_MAC_Finish: "esys_api_checked (\<lambda>ctx. context_of (Esys_MAC_Finish (ctx, (outs :: _ \<times> unit))))"
| check_MAC_Start_Finish: "esys_api_checked (\<lambda>ctx. context_of (Esys_MAC_Start_Finish (ctx, (outs :: _ \<times> unit))))"
| check_MakeCredential_Finish: "esys_api_checked (\<lambda>ctx. context_of (Esys_MakeCredential_Finish (ctx, (outs :: _ \<times> _ \<times> unit))))"
| check_NV_Certify_Finish: "esys_api_checked (\<lambda>ctx. context_of (Esys_NV_Certify_Finish (ctx, (outs :: _ \<times> _ \<times> unit))))"
| check_NV_DefineSpace_Finish: "esys_api_checked (\<lambda>ctx. context_of (Esys_NV_DefineSpace_Finish (ctx, (outs :: _ \<times> unit))))"
| check_NV_Extend_Finish: "esys_api_checked (\<lambda>ctx. context_of (Esys_NV_Extend_Finish (ctx, (outs :: unit))))"
| check_NV_GlobalWriteLock_Finish: "esys_api_checked (\<lambda>ctx. context_of (Esys_NV_GlobalWriteLock_Finish (ctx, (outs :: unit))))"
| check_NV_Increment_Finish: "esys_api_checked (\<lambda>ctx. context_of (Esys_NV_Increment_Finish (ctx, (outs :: unit))))"
| check_NV_Read_Finish: "esys_api_checked (\<lambda>ctx. context_of (Esys_NV_Read_Finish (ctx, (outs :: _ \<times> unit))))"
| check_NV_ReadLock_Finish: "esys_api_checked (\<lambda>ctx. context_of (Esys_NV_ReadLock_Finish (ctx, (outs :: unit))))"
| check_NV_ReadPublic_Finish: "esys_api_checked (\<lambda>ctx. context_of (Esys_NV_ReadPublic_Finish (ctx, (outs :: _ \<times> _ \<times> unit))))"
| check_NV_SetBits_Finish: "esys_api_checked (\<lambda>ctx. context_of (Esys_NV_SetBits_Finish (ctx, (outs :: unit))))"
| check_NV_UndefineSpace_Finish: "esys_api_checked (\<lambda>ctx. context_of (Esys_NV_UndefineSpace_Finish (ctx, (outs :: unit))))"
| check_NV_Write_Finish: "esys_api_checked (\<lambda>ctx. context_of (Esys_NV_Write_Finish (ctx, (outs :: unit))))"
| check_NV_WriteLock_Finish: "esys_api_checked (\<lambda>ctx. context_of (Esys_NV_WriteLock_Finish (ctx, (outs :: unit))))"
| check_ObjectChangeAuth_Finish: "esys_api_checked (\<lambda>ctx. context_of (Esys_ObjectChangeAuth_Finish (ctx, (outs :: _ \<times> unit))))"
| check_PCR_Allocate_Finish: "esys_api_checked (\<lambda>ctx. context_of (Esys_PCR_Allocate_Finish (ctx, (outs :: _ \<times> _ \<times> _ \<times> _ \<times> unit))))"
| check_PCR_Event_Finish: "esys_api_checked (\<lambda>ctx. context_of (Esys_PCR_Event_Finish (ctx, (outs :: _ \<times> unit))))"
| check_PCR_Extend_Finish: "esys_api_checked (\<lambda>ctx. context_of (Esys_PCR_Extend_Finish (ctx, (outs :: unit))))"
| check_PCR_Read_Finish: "esys_api_checked (\<lambda>ctx. context_of (Esys_PCR_Read_Finish (ctx, (outs :: _ \<times> _ \<times> _ \<times> unit))))"
| check_PCR_Reset_Finish: "esys_api_checked (\<lambda>ctx. context_of (Esys_PCR_Reset_Finish (ctx, (outs :: unit))))"
| check_PCR_SetAuthPolicy_Finish: "esys_api_checked (\<lambda>ctx. context_of (Esys_PCR_SetAuthPolicy_Finish (ctx, (outs :: unit))))"
| check_Policy_AC_SendSelect_Finish: "esys_api_checked (\<lambda>ctx. context_of (Esys_Policy_AC_SendSelect_Finish (ctx, (outs :: unit))))"
| check_PolicyAuthorize_Finish: "esys_api_checked (\<lambda>ctx. context_of (Esys_PolicyAuthorize_Finish (ctx, (outs :: unit))))"
| check_PolicyAuthorizeNV_Finish: "esys_api_checked (\<lambda>ctx. context_of (Esys_PolicyAuthorizeNV_Finish (ctx, (outs :: unit))))"
| check_PolicyAuthValue_Finish: "esys_api_checked (\<lambda>ctx. context_of (Esys_PolicyAuthValue_Finish (ctx, (outs :: unit))))"
| check_PolicyCommandCode_Finish: "esys_api_checked (\<lambda>ctx. context_of (Esys_PolicyCommandCode_Finish (ctx, (outs :: unit))))"
| check_PolicyCounterTimer_Finish: "esys_api_checked (\<lambda>ctx. context_of (Esys_PolicyCounterTimer_Finish (ctx, (outs :: unit))))"
| check_PolicyCpHash_Finish: "esys_api_checked (\<lambda>ctx. context_of (Esys_PolicyCpHash_Finish (ctx, (outs :: unit))))"
| check_PolicyDuplicationSelect_Finish: "esys_api_checked (\<lambda>ctx. context_of (Esys_PolicyDuplicationSelect_Finish (ctx, (outs :: unit))))"
| check_PolicyGetDigest_Finish: "esys_api_checked (\<lambda>ctx. context_of (Esys_PolicyGetDigest_Finish (ctx, (outs :: _ \<times> unit))))"
| check_PolicyLocality_Finish: "esys_api_checked (\<lambda>ctx. context_of (Esys_PolicyLocality_Finish (ctx, (outs :: unit))))"
| check_PolicyNameHash_Finish: "esys_api_checked (\<lambda>ctx. context_of (Esys_PolicyNameHash_Finish (ctx, (outs :: unit))))"
| check_PolicyNV_Finish: "esys_api_checked (\<lambda>ctx. context_of (Esys_PolicyNV_Finish (ctx, (outs :: unit))))"
| check_PolicyNvWritten_Finish: "esys_api_checked (\<lambda>ctx. context_of (Esys_PolicyNvWritten_Finish (ctx, (outs :: unit))))"
| check_PolicyOR_Finish: "esys_api_checked (\<lambda>ctx. context_of (Esys_PolicyOR_Finish (ctx, (outs :: unit))))"
| check_PolicyPassword_Finish: "esys_api_checked (\<lambda>ctx. context_of (Esys_PolicyPassword_Finish (ctx, (outs :: unit))))"
| check_PolicyPCR_Finish: "esys_api_checked (\<lambda>ctx. context_of (Esys_PolicyPCR_Finish (ctx, (outs :: unit))))"
| check_PolicyPhysicalPresence_Finish: "esys_api_checked (\<lambda>ctx. context_of (Esys_PolicyPhysicalPresence_Finish (ctx, (outs :: unit))))"
| check_PolicyRestart_Finish: "esys_api_checked (\<lambda>ctx. context_of (Esys_PolicyRestart_Finish (ctx, (outs :: unit))))"
| check_PolicySecret_Finish: "esys_api_checked (\<lambda>ctx. context_of (Esys_PolicySecret_Finish (ctx, (outs :: _ \<times> _ \<times> unit))))"
| check_PolicySigned_Finish: "esys_api_checked (\<lambda>ctx. context_of (Esys_PolicySigned_Finish (ctx, (outs :: _ \<times> _ \<times> unit))))"
| check_PolicyTemplate_Finish: "esys_api_checked (\<lambda>ctx. context_of (Esys_PolicyTemplate_Finish (ctx, (outs :: unit))))"
| check_PolicyTicket_Finish: "esys_api_checked (\<lambda>ctx. context_of (Esys_PolicyTicket_Finish (ctx, (outs :: unit))))"
| check_PP_Commands_Finish: "esys_api_checked (\<lambda>ctx. context_of (Esys_PP_Commands_Finish (ctx, (outs :: unit))))"
| check_Quote_Finish: "esys_api_checked (\<lambda>ctx. context_of (Esys_Quote_Finish (ctx, (outs :: _ \<times> _ \<times> unit))))"
| check_ReadClock_Finish: "esys_api_checked (\<lambda>ctx. context_of (Esys_ReadClock_Finish (ctx, (outs :: _ \<times> unit))))"
| check_ReadPublic_Finish: "esys_api_checked (\<lambda>ctx. context_of (Esys_ReadPublic_Finish (ctx, (outs :: _ \<times> _ \<times> _ \<times> unit))))"
| check_Rewrap_Finish: "esys_api_checked (\<lambda>ctx. context_of (Esys_Rewrap_Finish (ctx, (outs :: _ \<times> _ \<times> unit))))"
| check_RSA_Decrypt_Finish: "esys_api_checked (\<lambda>ctx. context_of (Esys_RSA_Decrypt_Finish (ctx, (outs :: _ \<times> unit))))"
| check_RSA_Encrypt_Finish: "esys_api_checked (\<lambda>ctx. context_of (Esys_RSA_Encrypt_Finish (ctx, (outs :: _ \<times> unit))))"
| check_SelfTest_Finish: "esys_api_checked (\<lambda>ctx. context_of (Esys_SelfTest_Finish (ctx, (outs :: unit))))"
| check_SequenceComplete_Finish: "esys_api_checked (\<lambda>ctx. context_of (Esys_SequenceComplete_Finish (ctx, (outs :: _ \<times> _ \<times> unit))))"
| check_SequenceUpdate_Finish: "esys_api_checked (\<lambda>ctx. context_of (Esys_SequenceUpdate_Finish (ctx, (outs :: unit))))"
| check_SetAlgorithmSet_Finish: "esys_api_checked (\<lambda>ctx. context_of (Esys_SetAlgorithmSet_Finish (ctx, (outs :: unit))))"
| check_SetCommandCodeAuditStatus_Finish: "esys_api_checked (\<lambda>ctx. context_of (Esys_SetCommandCodeAuditStatus_Finish (ctx, (outs :: unit))))"
| check_SetPrimaryPolicy_Finish: "esys_api_checked (\<lambda>ctx. context_of (Esys_SetPrimaryPolicy_Finish (ctx, (outs :: unit))))"
| check_Shutdown_Finish: "esys_api_checked (\<lambda>ctx. context_of (Esys_Shutdown_Finish (ctx, (outs :: unit))))"
| check_Sign_Finish: "esys_api_checked (\<lambda>ctx. context_of (Esys_Sign_Finish (ctx, (outs :: _ \<times> unit))))"
| check_SignDigest_Finish: "esys_api_checked (\<lambda>ctx. context_of (Esys_SignDigest_Finish (ctx, (outs :: _ \<times> unit))))"
| check_SignSequenceComplete_Finish: "esys_api_checked (\<lambda>ctx. context_of (Esys_SignSequenceComplete_Finish (ctx, (outs :: _ \<times> unit))))"
| check_SignSequenceStart_Finish: "esys_api_checked (\<lambda>ctx. context_of (Esys_SignSequenceStart_Finish (ctx, (outs :: _ \<times> unit))))"
| check_StirRandom_Finish: "esys_api_checked (\<lambda>ctx. context_of (Esys_StirRandom_Finish (ctx, (outs :: unit))))"
| check_TestParms_Finish: "esys_api_checked (\<lambda>ctx. context_of (Esys_TestParms_Finish (ctx, (outs :: unit))))"
| check_Unseal_Finish: "esys_api_checked (\<lambda>ctx. context_of (Esys_Unseal_Finish (ctx, (outs :: _ \<times> unit))))"
| check_Vendor_TCG_Test_Finish: "esys_api_checked (\<lambda>ctx. context_of (Esys_Vendor_TCG_Test_Finish (ctx, (outs :: _ \<times> unit))))"
| check_VerifyDigestSignature_Finish: "esys_api_checked (\<lambda>ctx. context_of (Esys_VerifyDigestSignature_Finish (ctx, (outs :: _ \<times> unit))))"
| check_VerifySequenceComplete_Finish: "esys_api_checked (\<lambda>ctx. context_of (Esys_VerifySequenceComplete_Finish (ctx, (outs :: _ \<times> unit))))"
| check_VerifySequenceStart_Finish: "esys_api_checked (\<lambda>ctx. context_of (Esys_VerifySequenceStart_Finish (ctx, (outs :: _ \<times> unit))))"
| check_VerifySignature_Finish: "esys_api_checked (\<lambda>ctx. context_of (Esys_VerifySignature_Finish (ctx, (outs :: _ \<times> unit))))"
| check_ZGen_2Phase_Finish: "esys_api_checked (\<lambda>ctx. context_of (Esys_ZGen_2Phase_Finish (ctx, (outs :: _ \<times> _ \<times> unit))))"

lemma api_checked: "esys_api_checked F \<Longrightarrow> F (Some s) = Some (0, p) \<Longrightarrow> checked None 0 (working s) s'"
  by (induction rule: esys_api_checked.induct; drule context_of_run; elim exE)
    (drule checksD [rotated], rule checked_AC_GetCapability
      checked_AC_Send
      checked_ACT_SetTimeout
      checked_ActivateCredential
      checked_Certify
      checked_CertifyCreation
      checked_CertifyX509
      checked_ChangeEPS
      checked_ChangePPS
      checked_Clear
      checked_ClearControl
      checked_ClockRateAdjust
      checked_ClockSet
      checked_Commit
      checked_Create
      checked_CreateLoaded
      checked_CreatePrimary
      checked_Decapsulate
      checked_DictionaryAttackLockReset
      checked_DictionaryAttackParameters
      checked_Duplicate
      checked_EC_Ephemeral
      checked_ECC_Decrypt
      checked_ECC_Encrypt
      checked_ECC_Parameters
      checked_ECDH_KeyGen
      checked_ECDH_ZGen
      checked_Encapsulate
      checked_EncryptDecrypt
      checked_EncryptDecrypt2
      checked_EventSequenceComplete
      checked_EvictControl
      checked_FieldUpgradeData
      checked_FieldUpgradeStart
      checked_FirmwareRead
      checked_GetCapability
      checked_GetCommandAuditDigest
      checked_GetRandom
      checked_GetSessionAuditDigest
      checked_GetTestResult
      checked_GetTime
      checked_Hash
      checked_HashSequenceStart
      checked_HierarchyControl
      checked_HMAC
      checked_HMAC_Start
      checked_Import
      checked_IncrementalSelfTest
      checked_Load
      checked_LoadExternal
      checked_MAC
      checked_MAC_Start
      checked_MakeCredential
      checked_NV_Certify
      checked_NV_DefineSpace
      checked_NV_Extend
      checked_NV_GlobalWriteLock
      checked_NV_Increment
      checked_NV_Read
      checked_NV_ReadLock
      checked_NV_ReadPublic
      checked_NV_SetBits
      checked_NV_UndefineSpace
      checked_NV_Write
      checked_NV_WriteLock
      checked_ObjectChangeAuth
      checked_PCR_Allocate
      checked_PCR_Event
      checked_PCR_Extend
      checked_PCR_Read
      checked_PCR_Reset
      checked_PCR_SetAuthPolicy
      checked_Policy_AC_SendSelect
      checked_PolicyAuthorize
      checked_PolicyAuthorizeNV
      checked_PolicyAuthValue
      checked_PolicyCommandCode
      checked_PolicyCounterTimer
      checked_PolicyCpHash
      checked_PolicyDuplicationSelect
      checked_PolicyGetDigest
      checked_PolicyLocality
      checked_PolicyNameHash
      checked_PolicyNV
      checked_PolicyNvWritten
      checked_PolicyOR
      checked_PolicyPassword
      checked_PolicyPCR
      checked_PolicyPhysicalPresence
      checked_PolicyRestart
      checked_PolicySecret
      checked_PolicySigned
      checked_PolicyTemplate
      checked_PolicyTicket
      checked_PP_Commands
      checked_Quote
      checked_ReadClock
      checked_ReadPublic
      checked_Rewrap
      checked_RSA_Decrypt
      checked_RSA_Encrypt
      checked_SelfTest
      checked_SequenceComplete
      checked_SequenceUpdate
      checked_SetAlgorithmSet
      checked_SetCommandCodeAuditStatus
      checked_SetPrimaryPolicy
      checked_Shutdown
      checked_Sign
      checked_SignDigest
      checked_SignSequenceComplete
      checked_SignSequenceStart
      checked_StirRandom
      checked_TestParms
      checked_Unseal
      checked_Vendor_TCG_Test
      checked_VerifyDigestSignature
      checked_VerifySequenceComplete
      checked_VerifySequenceStart
      checked_VerifySignature
      checked_ZGen_2Phase, assumption)+

lemma api_checked_authentic:
  assumes "esys_api_checked F" "F (Some s) = Some (0, p)"
    and "esys_ok s" "supports (crypto_backend s) hash mac" "session_hashes s" "esys_authsCount s \<le> 3"
    and "i < esys_authsCount s" "session_tab s ! i = Some a" "session_type s ! i \<ge> ESYS_TR_MIN_OBJECT" "session_of (Some a) s = Some se"
  shows "\<exists>c auths. Tss2_Sys_ExecuteFinish (esys_sys s) (esys_timeout s) = Some (0, c) \<and> rsp_auths (s\<lparr>esys_sys := c\<rparr>) = Some (0, auths) \<and>
    unat (AUTH_RESPONSE_count auths) = esys_authsCount s \<and> authentic hash mac (s\<lparr>esys_sys := c\<rparr>) (AUTH_RESPONSE_auths auths ! i) se"
proof -
  have same: "session_of p (working s) = session_of p s" "(working s)\<lparr>esys_sys := c\<rparr> = working (s\<lparr>esys_sys := c\<rparr>)" for p c
    by (cases p) (simp_all add: working_def session_of_def deref_node_def)
  have "session_hashes (working s)" using assms(5) by (simp add: session_hashes_def same) (simp add: working_def)
  with checked_authentic [OF api_checked [OF assms(1,2)], of hash mac i a se] assms show ?thesis
    by (simp add: same) (simp add: working_def authentic_sys [of "x\<lparr>esys_state := y\<rparr>" x for x y])
qed

end
