(* ===== verification/Esys_Crypto_Properties.thy ===== *)
theory Esys_Crypto_Properties
  imports Esys_Checked Esys_Example
begin

text \<open>
  What the cryptographic part of the enhanced system API guarantees: key derivation, obfuscation of parameters, and authentic
  responses.
\<close>

unbundle bit_operations_syntax

section \<open>A back end\<close>

text \<open>
  A back end for concrete runs.  Its state is the algorithm and the bytes it was given; the digest is the sum of the bytes, repeated, and the HMAC
  is the digest of the key and the message.
\<close>

definition demo_size :: "UINT16 \<Rightarrow> size_t" where
  "demo_size alg = snd (iesys_crypto_hash_get_digest_size alg)"

definition demo_hash :: "UINT16 \<Rightarrow> BYTE list \<Rightarrow> BYTE list" where
  "demo_hash alg m = replicate (unat (demo_size alg)) (sum_list m)"

definition demo_mac :: "UINT16 \<Rightarrow> BYTE list \<Rightarrow> BYTE list \<Rightarrow> BYTE list" where
  "demo_mac alg key m = demo_hash alg (key @ m)"

definition demo_update :: "crypto_ptr \<Rightarrow> BYTE list \<Rightarrow> UINT16 \<times> BYTE list \<Rightarrow> TSS2_RC \<times> UINT16 \<times> BYTE list" where
  "demo_update p m = (\<lambda>(alg, l). (0, alg, l @ m))"

definition demo_finish :: "crypto_ptr \<Rightarrow> size_t \<Rightarrow> UINT16 \<times> BYTE list \<Rightarrow> TSS2_RC \<times> crypto_ptr \<times> BYTE list \<times> size_t \<times> UINT16 \<times> BYTE list" where
  "demo_finish p sz = (\<lambda>(alg, l). (0, None, demo_hash alg l, demo_size alg, alg, []))"

definition demo_crypto :: "(UINT16 \<times> BYTE list) crypto" where
  "demo_crypto = \<lparr>CB_rsa_pk_encrypt = None,
     CB_hash_start = Some (\<lambda>alg u. (0, Some 0, alg, [])), CB_hash_update = Some demo_update, CB_hash_finish = Some demo_finish, CB_hash_abort = None,
     CB_hmac_start = Some (\<lambda>alg key u. (0, Some 0, alg, key)), CB_hmac_update = Some demo_update, CB_hmac_finish = Some demo_finish, CB_hmac_abort = None,
     CB_get_random2b = Some (\<lambda>nonce n u. (0, nonce, u)), CB_get_ecdh_point = None, CB_aes_encrypt = None, CB_aes_decrypt = None,
     CB_sm4_encrypt = None, CB_sm4_decrypt = None, CB_init = None, CB_userdata = (0, [])\<rparr>"

lemma demo_absorb: "absorb demo_update p ms (alg, l) = Some (alg, l @ concat ms)"
  by (induction ms arbitrary: l) (simp_all add: demo_update_def)

lemma demo_supports: "supports demo_crypto demo_hash demo_mac"
proof -
  have "computes_hash demo_crypto alg (unat n) (demo_hash alg) \<and> computes_hmac demo_crypto alg (unat n) (demo_mac alg)"
    if "iesys_crypto_hash_get_digest_size alg = (0, n)" for alg n
    using digest_small [OF that] that
    by (auto simp: computes_hash_def computes_hmac_def demo_crypto_def demo_absorb demo_finish_def demo_hash_def demo_mac_def demo_size_def)
  then show ?thesis by (simp add: supports_def)
qed

lemma demo_sha1: "iesys_crypto_hash_get_digest_size TPM2_ALG_SHA1 = (0, of_nat 20)"
  by (simp add: iesys_crypto_hash_get_digest_size_def)

lemma demo_hmac: "computes_hmac demo_crypto TPM2_ALG_SHA1 20 (demo_mac TPM2_ALG_SHA1)"
  using demo_supports [unfolded supports_def, rule_format, OF demo_sha1] by simp

section \<open>Key derivation\<close>

text \<open>
  C8: The key derivation of \<open>iesys_crypto_KDFa\<close> equals the function \<open>KDFa\<close> of the TPM specification: the first \<open>(bits + 7) div 8\<close> bytes of
  the array are the concatenated HMACs over the block number (from 1), the label with its terminating zero, the two contexts and the number of
  bits, cut off and with the spare bits of the first byte clear, when the back end computes an HMAC of the size the
  algorithm has.  Whole blocks are written, so the array must have room for them; the rest of the array is unchanged, and the function
  returns.
\<close>

theorem KDFa_is_specified:
  assumes "computes_hmac cb alg n mac" "iesys_crypto_hash_get_digest_size alg = (0, of_nat n)"
    and "tpm2b_bytes contextU = Some u" "tpm2b_bytes contextV = Some v"
    and "0 < bits" "unat bits + 7 < 2 ^ 32" "KDFa_blocks n bits * n \<le> length out" "length out < 2 ^ 64"
  shows "\<exists>out' w. iesys_crypto_KDFa cb alg key label contextU contextV bits None out False = Some (0, out', None, cb\<lparr>CB_userdata := w\<rparr>) \<and>
    take (KDFa_bytes bits) out' = KDFa mac n key label u v bits \<and>
    drop (KDFa_blocks n bits * n) out' = drop (KDFa_blocks n bits * n) out \<and> length out' = length out"
  using assms by (rule KDFa_derived)

theorem KDFa_is_specified_witness:
  "\<exists>out' w. iesys_crypto_KDFa demo_crypto TPM2_ALG_SHA1 [7] (Some ''CFB'') \<lparr>TPM2B_size = 1, TPM2B_buffer = [5]\<rparr> \<lparr>TPM2B_size = 1, TPM2B_buffer = [6]\<rparr> 165 None
      (replicate 45 9) False = Some (0, out', None, demo_crypto\<lparr>CB_userdata := w\<rparr>) \<and>
    take 21 out' = KDFa (demo_mac TPM2_ALG_SHA1) 20 [7] (Some ''CFB'') [5] [6] 165 \<and> drop 40 out' = replicate 5 9 \<and> length out' = 45"
proof -
  have "KDFa_blocks 20 165 = 2" "KDFa_bytes 165 = 21" by (simp_all add: KDFa_blocks_def KDFa_bytes_def)
  with KDFa_is_specified [OF demo_hmac demo_sha1, of "\<lparr>TPM2B_size = 1, TPM2B_buffer = [5]\<rparr>" "[5]" "\<lparr>TPM2B_size = 1, TPM2B_buffer = [6]\<rparr>" "[6]" 165 "replicate 45 9" "[7]" "Some ''CFB''"]
  show ?thesis by (simp add: tpm2b_bytes_def)
qed

section \<open>Obfuscation\<close>

text \<open>
  C35: XOR obfuscation (\<open>iesys_xor_parameter_obfuscation\<close>) returns the parameter combined with the key stream that \<open>KDFa\<close> derives for the key and
  the nonces, and applying it a second time with the same key and nonces gives the parameter back, whatever state the back end is in then.
  Null pointers are refused.
\<close>

theorem obfuscation_is_an_involution:
  assumes "computes_hmac cb alg n mac" "iesys_crypto_hash_get_digest_size alg = (0, of_nat n)"
    and "tpm2b_bytes contextU = Some u" "tpm2b_bytes contextV = Some v"
  shows "\<exists>w. iesys_xor_parameter_obfuscation cb alg (Some key) contextU contextV (Some data) =
      Some (0, Some (map2 (XOR) data (xor_mask mac n key u v (of_nat (length data * 8)) 0 (length data))), cb\<lparr>CB_userdata := w\<rparr>) \<and>
    (\<forall>x. \<exists>w'. iesys_xor_parameter_obfuscation (cb\<lparr>CB_userdata := x\<rparr>) alg (Some key) contextU contextV
        (Some (map2 (XOR) data (xor_mask mac n key u v (of_nat (length data * 8)) 0 (length data)))) = Some (0, Some data, cb\<lparr>CB_userdata := w'\<rparr>)) \<and>
    iesys_xor_parameter_obfuscation cb alg None contextU contextV (Some data) = Some (TSS2_ESYS_RC_BAD_REFERENCE, Some data, cb) \<and>
    iesys_xor_parameter_obfuscation cb alg (Some key) contextU contextV None = Some (TSS2_ESYS_RC_BAD_REFERENCE, None, cb)"
  using obfuscation_masks [OF assms] obfuscation_masks_twice [OF assms]
  by (auto simp: iesys_xor_parameter_obfuscation_def)


theorem obfuscation_is_an_involution_witness:
  "\<exists>w x. iesys_xor_parameter_obfuscation demo_crypto TPM2_ALG_SHA1 (Some [7]) \<lparr>TPM2B_size = 1, TPM2B_buffer = [5]\<rparr> \<lparr>TPM2B_size = 1, TPM2B_buffer = [6]\<rparr>
        (Some [1, 2, 3]) = Some (0, Some x, demo_crypto\<lparr>CB_userdata := w\<rparr>) \<and> x \<noteq> [1, 2, 3] \<and>
     (\<exists>w'. iesys_xor_parameter_obfuscation (demo_crypto\<lparr>CB_userdata := w\<rparr>) TPM2_ALG_SHA1 (Some [7]) \<lparr>TPM2B_size = 1, TPM2B_buffer = [5]\<rparr>
        \<lparr>TPM2B_size = 1, TPM2B_buffer = [6]\<rparr> (Some x) = Some (0, Some [1, 2, 3], demo_crypto\<lparr>CB_userdata := w'\<rparr>))"
proof -
  have "map2 (XOR) [1, 2, 3] (xor_mask (demo_mac TPM2_ALG_SHA1) 20 [7] [5] [6] (of_nat (length [1, 2, 3 :: BYTE] * 8)) 0 (length [1, 2, 3 :: BYTE])) \<noteq> [1, 2, 3 :: BYTE]"
    by code_simp
  moreover have "tpm2b_bytes \<lparr>TPM2B_size = 1, TPM2B_buffer = [b]\<rparr> = Some [b]" for b by (simp add: tpm2b_bytes_def)
  ultimately show ?thesis using obfuscation_is_an_involution [OF demo_hmac demo_sha1, where key = "[7]" and data = "[1, 2, 3]"] by blast
qed

section \<open>Authentic responses\<close>

definition demo_session :: IESYS_SESSION where
  "demo_session = zero_IESYS_SESSION\<lparr>SESSION_authHash := TPM2_ALG_SHA1, SESSION_sessionType := TPM2_SE_HMAC,
     SESSION_sessionAttributes := TPMA_SESSION_CONTINUESESSION, SESSION_nonceCaller := (zero_TPM2B 64)\<lparr>TPM2B_size := 2\<rparr>\<rparr>"

definition demo_node :: RSRC_NODE_T where
  "demo_node = set_rsrcType IESYSC_SESSION_RSRC (set_misc (RSRC_session demo_session) (set_handle 0x02000000 (zero_RSRC_NODE_T\<lparr>node_esys_handle := ESYS_TR_MIN_OBJECT\<rparr>)))"

definition demo_context :: "BYTE list \<Rightarrow> (BYTE list list, UINT16 \<times> BYTE list) esys" where
  "demo_context r = (zero_ESYS_CONTEXT (0, []) [] \<lparr>AUTH_COMMAND_count = 0, AUTH_COMMAND_auths = replicate 3 zero_TPMS_AUTH_COMMAND\<rparr>
     zero_RSRC_NODE_T)\<lparr>esys_sys := Some (demo_sys r), crypto_backend := demo_crypto, rsrc_list := [0], rsrc_heap := [0 \<mapsto> demo_node], heap_next := 1\<rparr>"

definition demo_answer :: "BYTE \<Rightarrow> BYTE list" where
  "demo_answer b = [0x80, 0x02, 0, 0, 0, 45, 0, 0, 0, 0, 0, 0, 0, 6, 0, 4, 1, 2, 3, 4, 0, 0, 1, 0, 20] @ replicate 20 b"

text \<open>
  C2: No command is fooled about its response: a \<open>_Finish\<close> function (of the 121 commands that check the response with the sessions as they were
  when the command was sent) succeeds only if the response that the system API received carries as many authorizations as the
  command had sessions, and the one of every HMAC session is the HMAC, under the session's key, of the hash of the
  response code, the command code and the response parameters, the new nonce of the TPM, the nonce of the caller and the attributes.  The back end is
  any that computes a hash and an HMAC of the right size.
\<close>

theorem responses_are_authentic:
  assumes "esys_api_checked F" "F (Some s) = Some (0, p)"
    and "esys_ok s" "supports (crypto_backend s) hash mac" "session_hashes s" "esys_authsCount s \<le> 3"
    and "i < esys_authsCount s" "session_tab s ! i = Some a" "session_type s ! i \<ge> ESYS_TR_MIN_OBJECT" "session_of (Some a) s = Some se"
  shows "\<exists>c auths. Tss2_Sys_ExecuteFinish (esys_sys s) (esys_timeout s) = Some (0, c) \<and> rsp_auths (s\<lparr>esys_sys := c\<rparr>) = Some (0, auths) \<and>
    unat (AUTH_RESPONSE_count auths) = esys_authsCount s \<and> authentic hash mac (s\<lparr>esys_sys := c\<rparr>) (AUTH_RESPONSE_auths auths ! i) se"
  using assms by (rule api_checked_authentic)

text \<open>The context after \<open>Esys_GetRandom_Async\<close> with a session, and a response with the HMAC \<open>b, b, ...\<close>.\<close>

definition demo_asked :: "BYTE \<Rightarrow> (BYTE list list, UINT16 \<times> BYTE list) esys" where
  "demo_asked b = (demo_context (demo_answer b))\<lparr>esys_state := ESYS_STATE_SENT, session_tab := [Some 0, None, None],
     session_type := [ESYS_TR_MIN_OBJECT, ESYS_TR_NONE, ESYS_TR_NONE], esys_authsCount := 1,
     esys_sys := Some ((demo_sys (demo_answer b))\<lparr>ctx_commandCode := TPM2_CC_GetRandom, ctx_previousStage := CMD_STAGE_SEND_COMMAND, ctx_authsCount := 1,
       ctx_rspParamsSize := 10, ctx_encryptAllowed := True, ctx_authAllowed := True\<rparr>)\<rparr>"

lemma demo_asked_session: "session_of (Some 0) (demo_asked b) = Some demo_session"
  by (simp add: demo_asked_def demo_context_def session_of_def deref_node_def demo_node_def node_session_def set_misc_def set_rsrcType_def)

lemma demo_asked_ok: "esys_ok (demo_asked b)" "session_hashes (demo_asked b)" "esys_authsCount (demo_asked b) = 1"
  "session_tab (demo_asked b) ! 0 = Some 0" "session_type (demo_asked b) ! 0 = ESYS_TR_MIN_OBJECT" "crypto_backend (demo_asked b) = demo_crypto"
proof -
  show "session_hashes (demo_asked b)" unfolding session_hashes_def
    using demo_asked_session demo_sha1 by (auto simp: demo_session_def demo_asked_def)
qed (simp_all add: demo_asked_def demo_context_def esys_ok_def zero_ESYS_CONTEXT_def)

theorem responses_are_authentic_witness:
  "(\<exists>p c auths. context_of (Esys_GetRandom_Finish (Some (demo_asked 201), (Some None, ()))) = Some (0, p) \<and>
      Tss2_Sys_ExecuteFinish (esys_sys (demo_asked 201)) (esys_timeout (demo_asked 201)) = Some (0, c) \<and>
      rsp_auths ((demo_asked 201)\<lparr>esys_sys := c\<rparr>) = Some (0, auths) \<and> AUTH_RESPONSE_count auths = 1 \<and>
      authentic demo_hash demo_mac ((demo_asked 201)\<lparr>esys_sys := c\<rparr>) (AUTH_RESPONSE_auths auths ! 0) demo_session) \<and>
   map_option fst (context_of (Esys_GetRandom_Finish (Some (demo_asked 200), (Some None, ())))) = Some TSS2_ESYS_RC_RSP_AUTH_FAILED"
proof
  have "map_option fst (context_of (Esys_GetRandom_Finish (Some (demo_asked 201), (Some None, ())))) = Some 0" by code_simp
  then obtain p where "context_of (Esys_GetRandom_Finish (Some (demo_asked 201), (Some None, ()))) = Some (0, p)" by auto
  moreover have "unat x = 1 \<longleftrightarrow> x = 1" for x :: UINT16 by (simp add: word_unat_eq_iff)
  ultimately show "\<exists>p c auths. context_of (Esys_GetRandom_Finish (Some (demo_asked 201), (Some None, ()))) = Some (0, p) \<and>
      Tss2_Sys_ExecuteFinish (esys_sys (demo_asked 201)) (esys_timeout (demo_asked 201)) = Some (0, c) \<and>
      rsp_auths ((demo_asked 201)\<lparr>esys_sys := c\<rparr>) = Some (0, auths) \<and> AUTH_RESPONSE_count auths = 1 \<and>
      authentic demo_hash demo_mac ((demo_asked 201)\<lparr>esys_sys := c\<rparr>) (AUTH_RESPONSE_auths auths ! 0) demo_session"
    using responses_are_authentic [OF check_GetRandom_Finish [of "(Some None, ())"], of "demo_asked 201" p demo_hash demo_mac 0 0 demo_session]
    by (auto simp: demo_asked_ok demo_asked_session demo_supports)
  show "map_option fst (context_of (Esys_GetRandom_Finish (Some (demo_asked 200), (Some None, ())))) = Some TSS2_ESYS_RC_RSP_AUTH_FAILED" by code_simp
qed

end
