(* ===== verification/Fapi_Json.thy ===== *)
theory Fapi_Json
  imports Esys_Types "HOL-Library.AList"
begin

text \<open>
  What the JSON (de)serializers of \<open>src/tss2-fapi\<close> call: the library json-c, which is a parameter
  of the model, and the functions of the C library on characters, strings and numbers that
  \<open>tpm_json_deserialize.c\<close> uses.
\<close>

section \<open>Return codes\<close>

definition TSS2_FAPI_RC_GENERAL_FAILURE :: TSS2_RC where
  "TSS2_FAPI_RC_GENERAL_FAILURE = TSS2_FEATURE_RC_LAYER OR 1"
definition TSS2_FAPI_RC_BAD_REFERENCE :: TSS2_RC where
  "TSS2_FAPI_RC_BAD_REFERENCE = TSS2_FEATURE_RC_LAYER OR 5"
definition TSS2_FAPI_RC_MEMORY :: TSS2_RC where
  "TSS2_FAPI_RC_MEMORY = TSS2_FEATURE_RC_LAYER OR 23"

lemma fapi_rc_nonzero [simp]:
  "TSS2_FAPI_RC_GENERAL_FAILURE \<noteq> 0" "TSS2_FAPI_RC_BAD_REFERENCE \<noteq> 0" "TSS2_FAPI_RC_MEMORY \<noteq> 0"
  by (simp_all add: TSS2_FAPI_RC_GENERAL_FAILURE_def TSS2_FAPI_RC_BAD_REFERENCE_def
      TSS2_FAPI_RC_MEMORY_def TSS2_FEATURE_RC_LAYER_def TSS2_RC_LAYER_def)

section \<open>json-c\<close>

text \<open>
  A \<open>json_object *\<close> is a value of type \<open>'j option\<close>, with \<open>None\<close> for the null pointer, which is also
  how json-c represents the JSON value \<open>null\<close>.  Every object has one owner here (an object is added
  to one parent and not used afterwards), so that a call which changes an object returns the changed
  object.  Calls that allocate or free run in a state \<open>'w\<close> of the allocator and may fail.
  \<open>json_object_entries\<close> is what the macro \<open>json_object_object_foreach\<close> runs over.
\<close>

datatype json_type = json_type_null | json_type_boolean | json_type_double | json_type_int
  | json_type_object | json_type_array | json_type_string

record ('j, 'w) json_c =
  json_object_new_object :: "'w \<Rightarrow> 'j option \<times> 'w"
  json_object_new_array :: "'w \<Rightarrow> 'j option \<times> 'w"
  json_object_new_string :: "string \<Rightarrow> 'w \<Rightarrow> 'j option \<times> 'w"
  json_object_new_int :: "INT32 \<Rightarrow> 'w \<Rightarrow> 'j option \<times> 'w"
  json_object_new_int64 :: "INT64 \<Rightarrow> 'w \<Rightarrow> 'j option \<times> 'w"
  json_object_object_add :: "'j \<Rightarrow> string \<Rightarrow> 'j option \<Rightarrow> 'w \<Rightarrow> INT32 \<times> 'j \<times> 'w"
  json_object_array_add :: "'j \<Rightarrow> 'j option \<Rightarrow> 'w \<Rightarrow> INT32 \<times> 'j \<times> 'w"
  json_object_put :: "'j \<Rightarrow> 'w \<Rightarrow> 'w"
  json_object_get_type :: "'j option \<Rightarrow> json_type"
  json_object_get_string :: "'j option \<Rightarrow> string option"
  json_object_array_length :: "'j \<Rightarrow> size_t"
  json_object_array_get_idx :: "'j \<Rightarrow> size_t \<Rightarrow> 'j option"
  json_object_object_get_ex :: "'j option \<Rightarrow> string \<Rightarrow> 'j option option"
  json_object_entries :: "'j \<Rightarrow> (string \<times> 'j option) list"

text \<open>
  The documented meaning of these calls: a JSON value that every object stands for, and what each
  call does to it.
\<close>

datatype json = JNull | JBool bool | JInt int | JString string | JArray "json list"
  | JObject "(string \<times> json) list"

fun type_of_json :: "json \<Rightarrow> json_type" where
  "type_of_json JNull = json_type_null"
| "type_of_json (JBool b) = json_type_boolean"
| "type_of_json (JInt i) = json_type_int"
| "type_of_json (JString s) = json_type_string"
| "type_of_json (JArray xs) = json_type_array"
| "type_of_json (JObject es) = json_type_object"

fun show_nat :: "nat \<Rightarrow> string" where
  "show_nat n = (if n < 10 then [char_of (48 + n)] else show_nat (n div 10) @ [char_of (48 + n mod 10)])"

declare show_nat.simps [simp del]

definition show_int :: "int \<Rightarrow> string" where
  "show_int i = (if i < 0 then CHR ''-'' # show_nat (nat (- i)) else show_nat (nat i))"

definition json_of :: "('j \<Rightarrow> json) \<Rightarrow> 'j option \<Rightarrow> json" where
  "json_of V j = (case j of None \<Rightarrow> JNull | Some o' \<Rightarrow> V o')"

lemma json_of_simps [simp]: "json_of V None = JNull" "json_of V (Some j) = V j"
  by (simp_all add: json_of_def)

definition json_c_builds :: "('j, 'w) json_c \<Rightarrow> ('j \<Rightarrow> json) \<Rightarrow> bool" where
  "json_c_builds J V \<longleftrightarrow>
     (\<forall>w j w'. json_object_new_object J w = (Some j, w') \<longrightarrow> V j = JObject []) \<and>
     (\<forall>w j w'. json_object_new_array J w = (Some j, w') \<longrightarrow> V j = JArray []) \<and>
     (\<forall>s w j w'. json_object_new_string J s w = (Some j, w') \<longrightarrow> V j = JString s) \<and>
     (\<forall>n w j w'. json_object_new_int J n w = (Some j, w') \<longrightarrow> V j = JInt (sint n)) \<and>
     (\<forall>n w j w'. json_object_new_int64 J n w = (Some j, w') \<longrightarrow> V j = JInt (sint n)) \<and>
     (\<forall>p es k c w p' w'. V p = JObject es \<and> json_object_object_add J p k c w = (0, p', w') \<longrightarrow>
        V p' = JObject (AList.update k (json_of V c) es)) \<and>
     (\<forall>p xs c w p' w'. V p = JArray xs \<and> json_object_array_add J p c w = (0, p', w') \<longrightarrow>
        V p' = JArray (xs @ [json_of V c]))"

definition json_c_reads :: "('j, 'w) json_c \<Rightarrow> ('j \<Rightarrow> json) \<Rightarrow> bool" where
  "json_c_reads J V \<longleftrightarrow>
     (\<forall>j. json_object_get_type J j = type_of_json (json_of V j)) \<and>
     json_object_get_string J None = None \<and>
     (\<forall>j s. V j = JString s \<longrightarrow> json_object_get_string J (Some j) = Some s) \<and>
     (\<forall>j i. V j = JInt i \<longrightarrow> json_object_get_string J (Some j) = Some (show_int i)) \<and>
     (\<forall>j xs. V j = JArray xs \<longrightarrow> length xs < 2 ^ 31 \<longrightarrow> json_object_array_length J j = of_nat (length xs)) \<and>
     (\<forall>j xs i. V j = JArray xs \<and> unat i < length xs \<longrightarrow>
        json_of V (json_object_array_get_idx J j i) = xs ! unat i) \<and>
     (\<forall>j es k. json_of V j = JObject es \<longrightarrow>
        map_option (json_of V) (json_object_object_get_ex J j k) = map_of es k) \<and>
     (\<forall>j es. V j = JObject es \<longrightarrow> map (apsnd (json_of V)) (json_object_entries J j) = es)"

text \<open>The JSON values themselves are an implementation of json-c that never runs out of memory.\<close>

definition null_or :: "json \<Rightarrow> json option" where
  "null_or v = (if v = JNull then None else Some v)"

definition json_values :: "(json, unit) json_c" where
  "json_values =
    \<lparr>json_object_new_object = (\<lambda>w. (Some (JObject []), w)),
     json_object_new_array = (\<lambda>w. (Some (JArray []), w)),
     json_object_new_string = (\<lambda>s w. (Some (JString s), w)),
     json_object_new_int = (\<lambda>n w. (Some (JInt (sint n)), w)),
     json_object_new_int64 = (\<lambda>n w. (Some (JInt (sint n)), w)),
     json_object_object_add = (\<lambda>p k c w. case p of
         JObject es \<Rightarrow> (0, JObject (AList.update k (json_of id c) es), w) | _ \<Rightarrow> (- 1, p, w)),
     json_object_array_add = (\<lambda>p c w. case p of JArray xs \<Rightarrow> (0, JArray (xs @ [json_of id c]), w) | _ \<Rightarrow> (- 1, p, w)),
     json_object_put = (\<lambda>j w. w),
     json_object_get_type = (\<lambda>j. type_of_json (json_of id j)),
     json_object_get_string = (\<lambda>j. case j of None \<Rightarrow> None | Some (JString s) \<Rightarrow> Some s
        | Some (JInt i) \<Rightarrow> Some (show_int i) | Some (JBool b) \<Rightarrow> Some (if b then ''true'' else ''false'') | _ \<Rightarrow> Some ''''),
     json_object_array_length = (\<lambda>j. case j of JArray xs \<Rightarrow> of_nat (length xs) | _ \<Rightarrow> 0),
     json_object_array_get_idx = (\<lambda>j i. case j of
         JArray xs \<Rightarrow> if unat i < length xs then null_or (xs ! unat i) else None | _ \<Rightarrow> None),
     json_object_object_get_ex = (\<lambda>j k. case j of
         Some (JObject es) \<Rightarrow> map_option null_or (map_of es k) | _ \<Rightarrow> None),
     json_object_entries = (\<lambda>j. case j of JObject es \<Rightarrow> map (apsnd null_or) es | _ \<Rightarrow> [])\<rparr>"

section \<open>The C library\<close>

text \<open>Characters, in the C locale.\<close>

fun tolower :: "char \<Rightarrow> char" where
  "tolower (Char b0 b1 b2 b3 b4 b5 b6 b7) =
     (let n = of_char (Char b0 b1 b2 b3 b4 b5 b6 b7) :: int in
      if 65 \<le> n \<and> n \<le> 90 then Char b0 b1 b2 b3 b4 True b6 b7 else Char b0 b1 b2 b3 b4 b5 b6 b7)"

lemma tolower_add_32: "65 \<le> (of_char c :: int) \<Longrightarrow> of_char c \<le> (90 :: int) \<Longrightarrow> of_char (tolower c) = (of_char c + 32 :: int)"
  by (cases c) (auto simp: of_bool_def split: if_splits)

definition isspace :: "char \<Rightarrow> bool" where
  "isspace c = (let n = of_char c :: int in n = 32 \<or> 9 \<le> n \<and> n \<le> 13)"

definition isdigit :: "char \<Rightarrow> bool" where
  "isdigit c = (let n = of_char c :: int in 48 \<le> n \<and> n \<le> 57)"

definition isxdigit :: "char \<Rightarrow> bool" where
  "isxdigit c = (let n = of_char c :: int in 48 \<le> n \<and> n \<le> 57 \<or> 65 \<le> n \<and> n \<le> 70 \<or> 97 \<le> n \<and> n \<le> 102)"

text \<open>\<open>strcasecmp(a, b) == 0\<close>, \<open>strncasecmp(a, p, strlen(p)) == 0\<close> and \<open>strncmp(a, p, strlen(p)) == 0\<close>.\<close>

definition strcaseeq :: "string \<Rightarrow> string \<Rightarrow> bool" where
  "strcaseeq a b \<longleftrightarrow> map tolower a = map tolower b"

definition has_prefix_nocase :: "string \<Rightarrow> string \<Rightarrow> bool" where
  "has_prefix_nocase p a \<longleftrightarrow> map tolower (take (length p) a) = map tolower p"

definition has_prefix :: "string \<Rightarrow> string \<Rightarrow> bool" where
  "has_prefix p a \<longleftrightarrow> take (length p) a = p"

text \<open>
  \<open>sscanf(s, "%" PRId64 "%n", num, &pos)\<close> and its \<open>PRIx64\<close> variant: white space, a sign, digits (and
  \<open>0x\<close> in the hexadecimal variant), and the number of characters read.  \<open>None\<close> is a matching failure,
  which leaves \<open>num\<close> and \<open>pos\<close> alone.  Out of range, the value is the nearest one, as \<open>strtol\<close> and
  \<open>strtoul\<close> have it.
\<close>

definition digit_value :: "char \<Rightarrow> nat" where
  "digit_value c = (let n = of_char c in if n < 65 then n - 48 else if n < 97 then n - 65 + 10 else n - 97 + 10)"

definition number_value :: "nat \<Rightarrow> string \<Rightarrow> nat" where
  "number_value base ds = foldl (\<lambda>a c. a * base + digit_value c) 0 ds"

fun scan_sign :: "string \<Rightarrow> bool \<times> string" where
  "scan_sign [] = (False, [])"
| "scan_sign (c # s) = (if c = CHR ''-'' then (True, s) else if c = CHR ''+'' then (False, s) else (False, c # s))"

definition clamp_int64 :: "int \<Rightarrow> INT64" where
  "clamp_int64 i = word_of_int (max (- (2 ^ 63)) (min (2 ^ 63 - 1) i))"

definition scan_d64 :: "string \<Rightarrow> (INT64 \<times> nat) option" where
  "scan_d64 s =
     (let (neg, s2) = scan_sign (dropWhile isspace s); ds = takeWhile isdigit s2; n = int (number_value 10 ds) in
      if ds = [] then None
      else Some (clamp_int64 (if neg then - n else n), length s - length s2 + length ds))"

definition scan_x64 :: "string \<Rightarrow> (INT64 \<times> nat) option" where
  "scan_x64 s =
     (let (neg, s1) = scan_sign (dropWhile isspace s);
          s2 = (if has_prefix_nocase ''0x'' s1 then drop 2 s1 else s1);
          ds = takeWhile isxdigit s2; n = number_value 16 ds in
      if ds = [] then None
      else Some (if 2 ^ 64 \<le> n then - 1 else if neg then - of_nat n else of_nat n,
                 length s - length s2 + length ds))"

text \<open>\<open>sprintf(s, "%02x", b)\<close>\<close>

definition hex_digit :: "nat \<Rightarrow> char" where
  "hex_digit n = (if n < 10 then char_of (48 + n) else char_of (87 + n))"

definition sprintf_02x :: "BYTE \<Rightarrow> string" where
  "sprintf_02x b = [hex_digit (unat b div 16), hex_digit (unat b mod 16)]"

section \<open>Members of a union that share a representation\<close>

text \<open>
  The members \<open>aes\<close>, \<open>sm4\<close>, \<open>camellia\<close> and \<open>sym\<close> of \<open>TPMU_SYM_MODE\<close> are the same 16-bit integer.
  \<open>tpm_json_serialize.c\<close> and \<open>tpm_json_deserialize.c\<close> use \<open>aes\<close> for all of them; the model reads any of
  them and names what is written by the member that belongs to the selector.
\<close>

definition sym_mode_value :: "TPMU_SYM_MODE \<Rightarrow> UINT16 option" where
  "sym_mode_value u = (case u of TPMU_SYM_MODE_aes x \<Rightarrow> Some x | TPMU_SYM_MODE_sm4 x \<Rightarrow> Some x
     | TPMU_SYM_MODE_camellia x \<Rightarrow> Some x | TPMU_SYM_MODE_sym x \<Rightarrow> Some x | _ \<Rightarrow> None)"

text \<open>
  The constants of \<open>tss2_tpm2_types.h\<close> that the JSON tables name and that no other part of the development uses.
\<close>

definition TPM2_ALG_ERROR :: UINT16 where "TPM2_ALG_ERROR = 0"
definition TPM2_ALG_TDES :: UINT16 where "TPM2_ALG_TDES = 3"
definition TPM2_ALG_SHA :: UINT16 where "TPM2_ALG_SHA = 4"
definition TPM2_ALG_CMAC :: UINT16 where "TPM2_ALG_CMAC = 0x3f"
definition TPM2_ALG_CTR :: UINT16 where "TPM2_ALG_CTR = 0x40"
definition TPM2_ALG_SHA3_256 :: UINT16 where "TPM2_ALG_SHA3_256 = 0x27"
definition TPM2_ALG_SHA3_384 :: UINT16 where "TPM2_ALG_SHA3_384 = 0x28"
definition TPM2_ALG_SHA3_512 :: UINT16 where "TPM2_ALG_SHA3_512 = 0x29"
definition TPM2_ALG_OFB :: UINT16 where "TPM2_ALG_OFB = 0x41"
definition TPM2_ALG_CBC :: UINT16 where "TPM2_ALG_CBC = 0x42"
definition TPM2_ALG_ECB :: UINT16 where "TPM2_ALG_ECB = 0x44"
definition TPM2_ECC_NONE :: UINT16 where "TPM2_ECC_NONE = 0"
definition TPM2_ECC_NIST_P192 :: UINT16 where "TPM2_ECC_NIST_P192 = 1"
definition TPM2_ECC_NIST_P224 :: UINT16 where "TPM2_ECC_NIST_P224 = 2"
definition TPM2_ECC_NIST_P256 :: UINT16 where "TPM2_ECC_NIST_P256 = 3"
definition TPM2_ECC_NIST_P384 :: UINT16 where "TPM2_ECC_NIST_P384 = 4"
definition TPM2_ECC_NIST_P521 :: UINT16 where "TPM2_ECC_NIST_P521 = 5"
definition TPM2_ECC_BN_P256 :: UINT16 where "TPM2_ECC_BN_P256 = 0x10"
definition TPM2_ECC_BN_P638 :: UINT16 where "TPM2_ECC_BN_P638 = 0x11"
definition TPM2_ECC_SM2_P256 :: UINT16 where "TPM2_ECC_SM2_P256 = 0x20"
definition TPM2_CC_FIRST :: UINT32 where "TPM2_CC_FIRST = 0x11f"
definition TPM2_CC_LAST :: UINT32 where "TPM2_CC_LAST = 0x1aa"
definition TPM2_EO_EQ :: UINT16 where "TPM2_EO_EQ = 0"
definition TPM2_EO_NEQ :: UINT16 where "TPM2_EO_NEQ = 1"
definition TPM2_EO_SIGNED_GT :: UINT16 where "TPM2_EO_SIGNED_GT = 2"
definition TPM2_EO_UNSIGNED_GT :: UINT16 where "TPM2_EO_UNSIGNED_GT = 3"
definition TPM2_EO_SIGNED_LT :: UINT16 where "TPM2_EO_SIGNED_LT = 4"
definition TPM2_EO_UNSIGNED_LT :: UINT16 where "TPM2_EO_UNSIGNED_LT = 5"
definition TPM2_EO_SIGNED_GE :: UINT16 where "TPM2_EO_SIGNED_GE = 6"
definition TPM2_EO_UNSIGNED_GE :: UINT16 where "TPM2_EO_UNSIGNED_GE = 7"
definition TPM2_EO_SIGNED_LE :: UINT16 where "TPM2_EO_SIGNED_LE = 8"
definition TPM2_EO_UNSIGNED_LE :: UINT16 where "TPM2_EO_UNSIGNED_LE = 9"
definition TPM2_EO_BITSET :: UINT16 where "TPM2_EO_BITSET = 0xa"
definition TPM2_EO_BITCLEAR :: UINT16 where "TPM2_EO_BITCLEAR = 0xb"
definition TPM2_ST_NULL :: UINT16 where "TPM2_ST_NULL = 0x8000"
definition TPM2_ST_CREATION :: UINT16 where "TPM2_ST_CREATION = 0x8021"
definition TPM2_ST_VERIFIED :: UINT16 where "TPM2_ST_VERIFIED = 0x8022"
definition TPM2_ST_AUTH_SECRET :: UINT16 where "TPM2_ST_AUTH_SECRET = 0x8023"
definition TPM2_ST_HASHCHECK :: UINT16 where "TPM2_ST_HASHCHECK = 0x8024"
definition TPM2_ST_AUTH_SIGNED :: UINT16 where "TPM2_ST_AUTH_SIGNED = 0x8025"
definition TPM2_ST_FU_MANIFEST :: UINT16 where "TPM2_ST_FU_MANIFEST = 0x8029"
definition TPM2_CAP_LAST :: UINT32 where "TPM2_CAP_LAST = 0xa"
definition TPM2_PT_NONE :: UINT32 where "TPM2_PT_NONE = 0"
definition TPM2_PT_GROUP :: UINT32 where "TPM2_PT_GROUP = 0x100"
definition TPM2_PT_FAMILY_INDICATOR :: UINT32 where "TPM2_PT_FAMILY_INDICATOR = 0x100"
definition TPM2_PT_LEVEL :: UINT32 where "TPM2_PT_LEVEL = 0x101"
definition TPM2_PT_REVISION :: UINT32 where "TPM2_PT_REVISION = 0x102"
definition TPM2_PT_DAY_OF_YEAR :: UINT32 where "TPM2_PT_DAY_OF_YEAR = 0x103"
definition TPM2_PT_YEAR :: UINT32 where "TPM2_PT_YEAR = 0x104"
definition TPM2_PT_MANUFACTURER :: UINT32 where "TPM2_PT_MANUFACTURER = 0x105"
definition TPM2_PT_VENDOR_STRING_1 :: UINT32 where "TPM2_PT_VENDOR_STRING_1 = 0x106"
definition TPM2_PT_VENDOR_STRING_2 :: UINT32 where "TPM2_PT_VENDOR_STRING_2 = 0x107"
definition TPM2_PT_VENDOR_STRING_3 :: UINT32 where "TPM2_PT_VENDOR_STRING_3 = 0x108"
definition TPM2_PT_VENDOR_STRING_4 :: UINT32 where "TPM2_PT_VENDOR_STRING_4 = 0x109"
definition TPM2_PT_VENDOR_TPM_TYPE :: UINT32 where "TPM2_PT_VENDOR_TPM_TYPE = 0x10a"
definition TPM2_PT_FIRMWARE_VERSION_1 :: UINT32 where "TPM2_PT_FIRMWARE_VERSION_1 = 0x10b"
definition TPM2_PT_FIRMWARE_VERSION_2 :: UINT32 where "TPM2_PT_FIRMWARE_VERSION_2 = 0x10c"
definition TPM2_PT_INPUT_BUFFER :: UINT32 where "TPM2_PT_INPUT_BUFFER = 0x10d"
definition TPM2_PT_HR_TRANSIENT_MIN :: UINT32 where "TPM2_PT_HR_TRANSIENT_MIN = 0x10e"
definition TPM2_PT_HR_PERSISTENT_MIN :: UINT32 where "TPM2_PT_HR_PERSISTENT_MIN = 0x10f"
definition TPM2_PT_HR_LOADED_MIN :: UINT32 where "TPM2_PT_HR_LOADED_MIN = 0x110"
definition TPM2_PT_ACTIVE_SESSIONS_MAX :: UINT32 where "TPM2_PT_ACTIVE_SESSIONS_MAX = 0x111"
definition TPM2_PT_PCR_COUNT :: UINT32 where "TPM2_PT_PCR_COUNT = 0x112"
definition TPM2_PT_PCR_SELECT_MIN :: UINT32 where "TPM2_PT_PCR_SELECT_MIN = 0x113"
definition TPM2_PT_CONTEXT_GAP_MAX :: UINT32 where "TPM2_PT_CONTEXT_GAP_MAX = 0x114"
definition TPM2_PT_NV_COUNTERS_MAX :: UINT32 where "TPM2_PT_NV_COUNTERS_MAX = 0x116"
definition TPM2_PT_NV_INDEX_MAX :: UINT32 where "TPM2_PT_NV_INDEX_MAX = 0x117"
definition TPM2_PT_MEMORY :: UINT32 where "TPM2_PT_MEMORY = 0x118"
definition TPM2_PT_CLOCK_UPDATE :: UINT32 where "TPM2_PT_CLOCK_UPDATE = 0x119"
definition TPM2_PT_CONTEXT_HASH :: UINT32 where "TPM2_PT_CONTEXT_HASH = 0x11a"
definition TPM2_PT_CONTEXT_SYM :: UINT32 where "TPM2_PT_CONTEXT_SYM = 0x11b"
definition TPM2_PT_CONTEXT_SYM_SIZE :: UINT32 where "TPM2_PT_CONTEXT_SYM_SIZE = 0x11c"
definition TPM2_PT_ORDERLY_COUNT :: UINT32 where "TPM2_PT_ORDERLY_COUNT = 0x11d"
definition TPM2_PT_MAX_COMMAND_SIZE :: UINT32 where "TPM2_PT_MAX_COMMAND_SIZE = 0x11e"
definition TPM2_PT_MAX_RESPONSE_SIZE :: UINT32 where "TPM2_PT_MAX_RESPONSE_SIZE = 0x11f"
definition TPM2_PT_MAX_DIGEST :: UINT32 where "TPM2_PT_MAX_DIGEST = 0x120"
definition TPM2_PT_MAX_OBJECT_CONTEXT :: UINT32 where "TPM2_PT_MAX_OBJECT_CONTEXT = 0x121"
definition TPM2_PT_MAX_SESSION_CONTEXT :: UINT32 where "TPM2_PT_MAX_SESSION_CONTEXT = 0x122"
definition TPM2_PT_PS_FAMILY_INDICATOR :: UINT32 where "TPM2_PT_PS_FAMILY_INDICATOR = 0x123"
definition TPM2_PT_PS_LEVEL :: UINT32 where "TPM2_PT_PS_LEVEL = 0x124"
definition TPM2_PT_PS_REVISION :: UINT32 where "TPM2_PT_PS_REVISION = 0x125"
definition TPM2_PT_PS_DAY_OF_YEAR :: UINT32 where "TPM2_PT_PS_DAY_OF_YEAR = 0x126"
definition TPM2_PT_PS_YEAR :: UINT32 where "TPM2_PT_PS_YEAR = 0x127"
definition TPM2_PT_SPLIT_MAX :: UINT32 where "TPM2_PT_SPLIT_MAX = 0x128"
definition TPM2_PT_TOTAL_COMMANDS :: UINT32 where "TPM2_PT_TOTAL_COMMANDS = 0x129"
definition TPM2_PT_LIBRARY_COMMANDS :: UINT32 where "TPM2_PT_LIBRARY_COMMANDS = 0x12a"
definition TPM2_PT_VENDOR_COMMANDS :: UINT32 where "TPM2_PT_VENDOR_COMMANDS = 0x12b"
definition TPM2_PT_NV_BUFFER_MAX :: UINT32 where "TPM2_PT_NV_BUFFER_MAX = 0x12c"
definition TPM2_PT_MODES :: UINT32 where "TPM2_PT_MODES = 0x12d"
definition TPM2_PT_MAX_CAP_BUFFER :: UINT32 where "TPM2_PT_MAX_CAP_BUFFER = 0x12e"
definition TPM2_PT_PERMANENT :: UINT32 where "TPM2_PT_PERMANENT = 0x200"
definition TPM2_PT_STARTUP_CLEAR :: UINT32 where "TPM2_PT_STARTUP_CLEAR = 0x201"
definition TPM2_PT_HR_NV_INDEX :: UINT32 where "TPM2_PT_HR_NV_INDEX = 0x202"
definition TPM2_PT_HR_LOADED :: UINT32 where "TPM2_PT_HR_LOADED = 0x203"
definition TPM2_PT_HR_LOADED_AVAIL :: UINT32 where "TPM2_PT_HR_LOADED_AVAIL = 0x204"
definition TPM2_PT_HR_ACTIVE :: UINT32 where "TPM2_PT_HR_ACTIVE = 0x205"
definition TPM2_PT_HR_ACTIVE_AVAIL :: UINT32 where "TPM2_PT_HR_ACTIVE_AVAIL = 0x206"
definition TPM2_PT_HR_TRANSIENT_AVAIL :: UINT32 where "TPM2_PT_HR_TRANSIENT_AVAIL = 0x207"
definition TPM2_PT_HR_PERSISTENT :: UINT32 where "TPM2_PT_HR_PERSISTENT = 0x208"
definition TPM2_PT_HR_PERSISTENT_AVAIL :: UINT32 where "TPM2_PT_HR_PERSISTENT_AVAIL = 0x209"
definition TPM2_PT_NV_COUNTERS :: UINT32 where "TPM2_PT_NV_COUNTERS = 0x20a"
definition TPM2_PT_NV_COUNTERS_AVAIL :: UINT32 where "TPM2_PT_NV_COUNTERS_AVAIL = 0x20b"
definition TPM2_PT_ALGORITHM_SET :: UINT32 where "TPM2_PT_ALGORITHM_SET = 0x20c"
definition TPM2_PT_LOADED_CURVES :: UINT32 where "TPM2_PT_LOADED_CURVES = 0x20d"
definition TPM2_PT_LOCKOUT_COUNTER :: UINT32 where "TPM2_PT_LOCKOUT_COUNTER = 0x20e"
definition TPM2_PT_MAX_AUTH_FAIL :: UINT32 where "TPM2_PT_MAX_AUTH_FAIL = 0x20f"
definition TPM2_PT_LOCKOUT_INTERVAL :: UINT32 where "TPM2_PT_LOCKOUT_INTERVAL = 0x210"
definition TPM2_PT_LOCKOUT_RECOVERY :: UINT32 where "TPM2_PT_LOCKOUT_RECOVERY = 0x211"
definition TPM2_PT_NV_WRITE_RECOVERY :: UINT32 where "TPM2_PT_NV_WRITE_RECOVERY = 0x212"
definition TPM2_PT_AUDIT_COUNTER_0 :: UINT32 where "TPM2_PT_AUDIT_COUNTER_0 = 0x213"
definition TPM2_PT_AUDIT_COUNTER_1 :: UINT32 where "TPM2_PT_AUDIT_COUNTER_1 = 0x214"
definition TPM2_PT_TPM2_PCR_FIRST :: UINT32 where "TPM2_PT_TPM2_PCR_FIRST = 0"
definition TPM2_PT_PCR_SAVE :: UINT32 where "TPM2_PT_PCR_SAVE = 0"
definition TPM2_PT_PCR_EXTEND_L0 :: UINT32 where "TPM2_PT_PCR_EXTEND_L0 = 1"
definition TPM2_PT_PCR_RESET_L0 :: UINT32 where "TPM2_PT_PCR_RESET_L0 = 2"
definition TPM2_PT_PCR_EXTEND_L1 :: UINT32 where "TPM2_PT_PCR_EXTEND_L1 = 3"
definition TPM2_PT_PCR_RESET_L1 :: UINT32 where "TPM2_PT_PCR_RESET_L1 = 4"
definition TPM2_PT_PCR_EXTEND_L2 :: UINT32 where "TPM2_PT_PCR_EXTEND_L2 = 5"
definition TPM2_PT_PCR_RESET_L2 :: UINT32 where "TPM2_PT_PCR_RESET_L2 = 6"
definition TPM2_PT_PCR_EXTEND_L3 :: UINT32 where "TPM2_PT_PCR_EXTEND_L3 = 7"
definition TPM2_PT_PCR_RESET_L3 :: UINT32 where "TPM2_PT_PCR_RESET_L3 = 8"
definition TPM2_PT_PCR_EXTEND_L4 :: UINT32 where "TPM2_PT_PCR_EXTEND_L4 = 9"
definition TPM2_PT_PCR_RESET_L4 :: UINT32 where "TPM2_PT_PCR_RESET_L4 = 0xa"
definition TPM2_PT_PCR_NO_INCREMENT :: UINT32 where "TPM2_PT_PCR_NO_INCREMENT = 0x11"
definition TPM2_PT_PCR_DRTM_RESET :: UINT32 where "TPM2_PT_PCR_DRTM_RESET = 0x12"
definition TPM2_PT_PCR_POLICY :: UINT32 where "TPM2_PT_PCR_POLICY = 0x13"
definition TPM2_PT_PCR_AUTH :: UINT32 where "TPM2_PT_PCR_AUTH = 0x14"
definition TPM2_PT_TPM2_PCR_LAST :: UINT32 where "TPM2_PT_TPM2_PCR_LAST = 0x14"
definition TPM2_PCR_FIRST :: UINT32 where "TPM2_PCR_FIRST = 0"
definition TPM2_PCR_LAST :: UINT32 where "TPM2_PCR_LAST = 0x1f"
definition TPMA_ALGORITHM_ASYMMETRIC :: UINT32 where "TPMA_ALGORITHM_ASYMMETRIC = 1"
definition TPMA_ALGORITHM_SYMMETRIC :: UINT32 where "TPMA_ALGORITHM_SYMMETRIC = 2"
definition TPMA_ALGORITHM_HASH :: UINT32 where "TPMA_ALGORITHM_HASH = 4"
definition TPMA_ALGORITHM_OBJECT :: UINT32 where "TPMA_ALGORITHM_OBJECT = 8"
definition TPMA_ALGORITHM_SIGNING :: UINT32 where "TPMA_ALGORITHM_SIGNING = 0x100"
definition TPMA_ALGORITHM_ENCRYPTING :: UINT32 where "TPMA_ALGORITHM_ENCRYPTING = 0x200"
definition TPMA_ALGORITHM_METHOD :: UINT32 where "TPMA_ALGORITHM_METHOD = 0x400"
definition TPMA_OBJECT_FIXEDTPM :: UINT32 where "TPMA_OBJECT_FIXEDTPM = 2"
definition TPMA_OBJECT_STCLEAR :: UINT32 where "TPMA_OBJECT_STCLEAR = 4"
definition TPMA_OBJECT_FIXEDPARENT :: UINT32 where "TPMA_OBJECT_FIXEDPARENT = 0x10"
definition TPMA_OBJECT_SENSITIVEDATAORIGIN :: UINT32 where "TPMA_OBJECT_SENSITIVEDATAORIGIN = 0x20"
definition TPMA_OBJECT_USERWITHAUTH :: UINT32 where "TPMA_OBJECT_USERWITHAUTH = 0x40"
definition TPMA_OBJECT_ADMINWITHPOLICY :: UINT32 where "TPMA_OBJECT_ADMINWITHPOLICY = 0x80"
definition TPMA_OBJECT_NODA :: UINT32 where "TPMA_OBJECT_NODA = 0x400"
definition TPMA_OBJECT_ENCRYPTEDDUPLICATION :: UINT32 where "TPMA_OBJECT_ENCRYPTEDDUPLICATION = 0x800"
definition TPMA_OBJECT_RESTRICTED :: UINT32 where "TPMA_OBJECT_RESTRICTED = 0x10000"
definition TPMA_OBJECT_DECRYPT :: UINT32 where "TPMA_OBJECT_DECRYPT = 0x20000"
definition TPMA_OBJECT_SIGN_ENCRYPT :: UINT32 where "TPMA_OBJECT_SIGN_ENCRYPT = 0x40000"
definition TPMA_LOCALITY_TPM2_LOC_ZERO :: UINT8 where "TPMA_LOCALITY_TPM2_LOC_ZERO = 1"
definition TPMA_LOCALITY_TPM2_LOC_ONE :: UINT8 where "TPMA_LOCALITY_TPM2_LOC_ONE = 2"
definition TPMA_LOCALITY_TPM2_LOC_TWO :: UINT8 where "TPMA_LOCALITY_TPM2_LOC_TWO = 4"
definition TPMA_LOCALITY_TPM2_LOC_THREE :: UINT8 where "TPMA_LOCALITY_TPM2_LOC_THREE = 8"
definition TPMA_LOCALITY_TPM2_LOC_FOUR :: UINT8 where "TPMA_LOCALITY_TPM2_LOC_FOUR = 0x10"
definition TPMA_LOCALITY_EXTENDED_MASK :: UINT8 where "TPMA_LOCALITY_EXTENDED_MASK = 0xe0"
definition TPMA_CC_COMMANDINDEX_MASK :: UINT32 where "TPMA_CC_COMMANDINDEX_MASK = 0xffff"
definition TPMA_CC_NV :: UINT32 where "TPMA_CC_NV = 0x400000"
definition TPMA_CC_EXTENSIVE :: UINT32 where "TPMA_CC_EXTENSIVE = 0x800000"
definition TPMA_CC_FLUSHED :: UINT32 where "TPMA_CC_FLUSHED = 0x1000000"
definition TPMA_CC_CHANDLES_MASK :: UINT32 where "TPMA_CC_CHANDLES_MASK = 0xe000000"
definition TPMA_CC_RHANDLE :: UINT32 where "TPMA_CC_RHANDLE = 0x10000000"
definition TPMA_CC_V :: UINT32 where "TPMA_CC_V = 0x20000000"
definition TPMA_CC_RES_MASK :: UINT32 where "TPMA_CC_RES_MASK = 0xc0000000"
definition TPMA_ACT_SIGNALED :: UINT32 where "TPMA_ACT_SIGNALED = 1"
definition TPMA_ACT_PRESERVESIGNALED :: UINT32 where "TPMA_ACT_PRESERVESIGNALED = 2"
definition TPM2_NT_ORDINARY :: UINT8 where "TPM2_NT_ORDINARY = 0"
definition TPM2_NT_COUNTER :: UINT8 where "TPM2_NT_COUNTER = 1"
definition TPM2_NT_BITS :: UINT8 where "TPM2_NT_BITS = 2"
definition TPM2_NT_EXTEND :: UINT8 where "TPM2_NT_EXTEND = 4"
definition TPM2_NT_PIN_FAIL :: UINT8 where "TPM2_NT_PIN_FAIL = 8"
definition TPM2_NT_PIN_PASS :: UINT8 where "TPM2_NT_PIN_PASS = 9"
definition TPMA_NV_PPWRITE :: UINT32 where "TPMA_NV_PPWRITE = 1"
definition TPMA_NV_OWNERWRITE :: UINT32 where "TPMA_NV_OWNERWRITE = 2"
definition TPMA_NV_AUTHWRITE :: UINT32 where "TPMA_NV_AUTHWRITE = 4"
definition TPMA_NV_POLICYWRITE :: UINT32 where "TPMA_NV_POLICYWRITE = 8"
definition TPMA_NV_TPM2_NT_MASK :: UINT32 where "TPMA_NV_TPM2_NT_MASK = 0xf0"
definition TPMA_NV_WRITEALL :: UINT32 where "TPMA_NV_WRITEALL = 0x1000"
definition TPMA_NV_WRITEDEFINE :: UINT32 where "TPMA_NV_WRITEDEFINE = 0x2000"
definition TPMA_NV_WRITE_STCLEAR :: UINT32 where "TPMA_NV_WRITE_STCLEAR = 0x4000"
definition TPMA_NV_GLOBALLOCK :: UINT32 where "TPMA_NV_GLOBALLOCK = 0x8000"
definition TPMA_NV_PPREAD :: UINT32 where "TPMA_NV_PPREAD = 0x10000"
definition TPMA_NV_OWNERREAD :: UINT32 where "TPMA_NV_OWNERREAD = 0x20000"
definition TPMA_NV_AUTHREAD :: UINT32 where "TPMA_NV_AUTHREAD = 0x40000"
definition TPMA_NV_POLICYREAD :: UINT32 where "TPMA_NV_POLICYREAD = 0x80000"
definition TPMA_NV_NO_DA :: UINT32 where "TPMA_NV_NO_DA = 0x2000000"
definition TPMA_NV_ORDERLY :: UINT32 where "TPMA_NV_ORDERLY = 0x4000000"
definition TPMA_NV_CLEAR_STCLEAR :: UINT32 where "TPMA_NV_CLEAR_STCLEAR = 0x8000000"
definition TPMA_NV_PLATFORMCREATE :: UINT32 where "TPMA_NV_PLATFORMCREATE = 0x40000000"
definition TPMA_NV_READ_STCLEAR :: UINT32 where "TPMA_NV_READ_STCLEAR = 0x80000000"

lemmas fapi_const_defs =
  TPM2_ALG_ERROR_def
  TPM2_ALG_TDES_def
  TPM2_ALG_SHA_def
  TPM2_ALG_CMAC_def
  TPM2_ALG_CTR_def
  TPM2_ALG_SHA3_256_def
  TPM2_ALG_SHA3_384_def
  TPM2_ALG_SHA3_512_def
  TPM2_ALG_OFB_def
  TPM2_ALG_CBC_def
  TPM2_ALG_ECB_def
  TPM2_ECC_NONE_def
  TPM2_ECC_NIST_P192_def
  TPM2_ECC_NIST_P224_def
  TPM2_ECC_NIST_P256_def
  TPM2_ECC_NIST_P384_def
  TPM2_ECC_NIST_P521_def
  TPM2_ECC_BN_P256_def
  TPM2_ECC_BN_P638_def
  TPM2_ECC_SM2_P256_def
  TPM2_CC_FIRST_def
  TPM2_CC_LAST_def
  TPM2_EO_EQ_def
  TPM2_EO_NEQ_def
  TPM2_EO_SIGNED_GT_def
  TPM2_EO_UNSIGNED_GT_def
  TPM2_EO_SIGNED_LT_def
  TPM2_EO_UNSIGNED_LT_def
  TPM2_EO_SIGNED_GE_def
  TPM2_EO_UNSIGNED_GE_def
  TPM2_EO_SIGNED_LE_def
  TPM2_EO_UNSIGNED_LE_def
  TPM2_EO_BITSET_def
  TPM2_EO_BITCLEAR_def
  TPM2_ST_NULL_def
  TPM2_ST_CREATION_def
  TPM2_ST_VERIFIED_def
  TPM2_ST_AUTH_SECRET_def
  TPM2_ST_HASHCHECK_def
  TPM2_ST_AUTH_SIGNED_def
  TPM2_ST_FU_MANIFEST_def
  TPM2_CAP_LAST_def
  TPM2_PT_NONE_def
  TPM2_PT_GROUP_def
  TPM2_PT_FAMILY_INDICATOR_def
  TPM2_PT_LEVEL_def
  TPM2_PT_REVISION_def
  TPM2_PT_DAY_OF_YEAR_def
  TPM2_PT_YEAR_def
  TPM2_PT_MANUFACTURER_def
  TPM2_PT_VENDOR_STRING_1_def
  TPM2_PT_VENDOR_STRING_2_def
  TPM2_PT_VENDOR_STRING_3_def
  TPM2_PT_VENDOR_STRING_4_def
  TPM2_PT_VENDOR_TPM_TYPE_def
  TPM2_PT_FIRMWARE_VERSION_1_def
  TPM2_PT_FIRMWARE_VERSION_2_def
  TPM2_PT_INPUT_BUFFER_def
  TPM2_PT_HR_TRANSIENT_MIN_def
  TPM2_PT_HR_PERSISTENT_MIN_def
  TPM2_PT_HR_LOADED_MIN_def
  TPM2_PT_ACTIVE_SESSIONS_MAX_def
  TPM2_PT_PCR_COUNT_def
  TPM2_PT_PCR_SELECT_MIN_def
  TPM2_PT_CONTEXT_GAP_MAX_def
  TPM2_PT_NV_COUNTERS_MAX_def
  TPM2_PT_NV_INDEX_MAX_def
  TPM2_PT_MEMORY_def
  TPM2_PT_CLOCK_UPDATE_def
  TPM2_PT_CONTEXT_HASH_def
  TPM2_PT_CONTEXT_SYM_def
  TPM2_PT_CONTEXT_SYM_SIZE_def
  TPM2_PT_ORDERLY_COUNT_def
  TPM2_PT_MAX_COMMAND_SIZE_def
  TPM2_PT_MAX_RESPONSE_SIZE_def
  TPM2_PT_MAX_DIGEST_def
  TPM2_PT_MAX_OBJECT_CONTEXT_def
  TPM2_PT_MAX_SESSION_CONTEXT_def
  TPM2_PT_PS_FAMILY_INDICATOR_def
  TPM2_PT_PS_LEVEL_def
  TPM2_PT_PS_REVISION_def
  TPM2_PT_PS_DAY_OF_YEAR_def
  TPM2_PT_PS_YEAR_def
  TPM2_PT_SPLIT_MAX_def
  TPM2_PT_TOTAL_COMMANDS_def
  TPM2_PT_LIBRARY_COMMANDS_def
  TPM2_PT_VENDOR_COMMANDS_def
  TPM2_PT_NV_BUFFER_MAX_def
  TPM2_PT_MODES_def
  TPM2_PT_MAX_CAP_BUFFER_def
  TPM2_PT_PERMANENT_def
  TPM2_PT_STARTUP_CLEAR_def
  TPM2_PT_HR_NV_INDEX_def
  TPM2_PT_HR_LOADED_def
  TPM2_PT_HR_LOADED_AVAIL_def
  TPM2_PT_HR_ACTIVE_def
  TPM2_PT_HR_ACTIVE_AVAIL_def
  TPM2_PT_HR_TRANSIENT_AVAIL_def
  TPM2_PT_HR_PERSISTENT_def
  TPM2_PT_HR_PERSISTENT_AVAIL_def
  TPM2_PT_NV_COUNTERS_def
  TPM2_PT_NV_COUNTERS_AVAIL_def
  TPM2_PT_ALGORITHM_SET_def
  TPM2_PT_LOADED_CURVES_def
  TPM2_PT_LOCKOUT_COUNTER_def
  TPM2_PT_MAX_AUTH_FAIL_def
  TPM2_PT_LOCKOUT_INTERVAL_def
  TPM2_PT_LOCKOUT_RECOVERY_def
  TPM2_PT_NV_WRITE_RECOVERY_def
  TPM2_PT_AUDIT_COUNTER_0_def
  TPM2_PT_AUDIT_COUNTER_1_def
  TPM2_PT_TPM2_PCR_FIRST_def
  TPM2_PT_PCR_SAVE_def
  TPM2_PT_PCR_EXTEND_L0_def
  TPM2_PT_PCR_RESET_L0_def
  TPM2_PT_PCR_EXTEND_L1_def
  TPM2_PT_PCR_RESET_L1_def
  TPM2_PT_PCR_EXTEND_L2_def
  TPM2_PT_PCR_RESET_L2_def
  TPM2_PT_PCR_EXTEND_L3_def
  TPM2_PT_PCR_RESET_L3_def
  TPM2_PT_PCR_EXTEND_L4_def
  TPM2_PT_PCR_RESET_L4_def
  TPM2_PT_PCR_NO_INCREMENT_def
  TPM2_PT_PCR_DRTM_RESET_def
  TPM2_PT_PCR_POLICY_def
  TPM2_PT_PCR_AUTH_def
  TPM2_PT_TPM2_PCR_LAST_def
  TPM2_PCR_FIRST_def
  TPM2_PCR_LAST_def
  TPMA_ALGORITHM_ASYMMETRIC_def
  TPMA_ALGORITHM_SYMMETRIC_def
  TPMA_ALGORITHM_HASH_def
  TPMA_ALGORITHM_OBJECT_def
  TPMA_ALGORITHM_SIGNING_def
  TPMA_ALGORITHM_ENCRYPTING_def
  TPMA_ALGORITHM_METHOD_def
  TPMA_OBJECT_FIXEDTPM_def
  TPMA_OBJECT_STCLEAR_def
  TPMA_OBJECT_FIXEDPARENT_def
  TPMA_OBJECT_SENSITIVEDATAORIGIN_def
  TPMA_OBJECT_USERWITHAUTH_def
  TPMA_OBJECT_ADMINWITHPOLICY_def
  TPMA_OBJECT_NODA_def
  TPMA_OBJECT_ENCRYPTEDDUPLICATION_def
  TPMA_OBJECT_RESTRICTED_def
  TPMA_OBJECT_DECRYPT_def
  TPMA_OBJECT_SIGN_ENCRYPT_def
  TPMA_LOCALITY_TPM2_LOC_ZERO_def
  TPMA_LOCALITY_TPM2_LOC_ONE_def
  TPMA_LOCALITY_TPM2_LOC_TWO_def
  TPMA_LOCALITY_TPM2_LOC_THREE_def
  TPMA_LOCALITY_TPM2_LOC_FOUR_def
  TPMA_LOCALITY_EXTENDED_MASK_def
  TPMA_CC_COMMANDINDEX_MASK_def
  TPMA_CC_NV_def
  TPMA_CC_EXTENSIVE_def
  TPMA_CC_FLUSHED_def
  TPMA_CC_CHANDLES_MASK_def
  TPMA_CC_RHANDLE_def
  TPMA_CC_V_def
  TPMA_CC_RES_MASK_def
  TPMA_ACT_SIGNALED_def
  TPMA_ACT_PRESERVESIGNALED_def
  TPM2_NT_ORDINARY_def
  TPM2_NT_COUNTER_def
  TPM2_NT_BITS_def
  TPM2_NT_EXTEND_def
  TPM2_NT_PIN_FAIL_def
  TPM2_NT_PIN_PASS_def
  TPMA_NV_PPWRITE_def
  TPMA_NV_OWNERWRITE_def
  TPMA_NV_AUTHWRITE_def
  TPMA_NV_POLICYWRITE_def
  TPMA_NV_TPM2_NT_MASK_def
  TPMA_NV_WRITEALL_def
  TPMA_NV_WRITEDEFINE_def
  TPMA_NV_WRITE_STCLEAR_def
  TPMA_NV_GLOBALLOCK_def
  TPMA_NV_PPREAD_def
  TPMA_NV_OWNERREAD_def
  TPMA_NV_AUTHREAD_def
  TPMA_NV_POLICYREAD_def
  TPMA_NV_NO_DA_def
  TPMA_NV_ORDERLY_def
  TPMA_NV_CLEAR_STCLEAR_def
  TPMA_NV_PLATFORMCREATE_def
  TPMA_NV_READ_STCLEAR_def

end
