(* ===== verification/Fapi_Deserialize.thy ===== *)
theory Fapi_Deserialize
  imports Fapi_Json
begin

text \<open>
  The building blocks of \<open>tpm_json_deserialize.c\<close>.  A deserializer takes a JSON object and the value
  behind \<open>out\<close> and gives back a return code and the new value; \<open>None\<close> is undefined behaviour (an
  access outside an array, a null pointer that is followed, an uninitialized variable that is read).
  The calls of \<open>ifapi_check_json_object_fields\<close> only log and are left out.
\<close>

type_synonym ('j, 'a) des = "'j option \<Rightarrow> 'a option \<Rightarrow> (TSS2_RC \<times> 'a option) option"

section \<open>Strings and numbers\<close>

definition strip_prefix :: "string option \<Rightarrow> string list \<Rightarrow> string option" where
  "strip_prefix inn prefixes =
     map_option (\<lambda>s. fold (\<lambda>prefix s. if has_prefix_nocase prefix s then drop (length prefix) s else s) prefixes s) inn"

text \<open>
  \<open>hex_byte\<close> is the value that the two conditional expressions compute; the second digit may be the
  end of the string.
\<close>

definition hex_byte :: "char \<Rightarrow> char option \<Rightarrow> BYTE" where
  "hex_byte h l = of_nat (digit_value h) * 16 + (case l of None \<Rightarrow> 0 | Some c \<Rightarrow> of_nat (digit_value c))"

fun hex_loop :: "string \<Rightarrow> nat \<Rightarrow> nat \<Rightarrow> BYTE list \<Rightarrow> (TSS2_RC \<times> BYTE list) option" where
  "hex_loop [] j vlen val = map_option (Pair TSS2_RC_SUCCESS) (mem_write val (of_nat j) (replicate (vlen - j) 0))"
| "hex_loop (h # hex) j vlen val =
     (if vlen \<le> j then Some (TSS2_RC_SUCCESS, val)
      else if \<not> isxdigit h \<or> (hex \<noteq> [] \<and> \<not> isxdigit (hd hex)) then Some (TSS2_FAPI_RC_BAD_VALUE, val)
      else if length val \<le> j then None
      else hex_loop (drop 1 hex) (j + 1) vlen
             (val[j := hex_byte h (if hex = [] then None else Some (hd hex))]))"

definition ifapi_hex_to_byte_ary :: "string \<Rightarrow> nat \<Rightarrow> BYTE list \<Rightarrow> (TSS2_RC \<times> BYTE list) option" where
  "ifapi_hex_to_byte_ary hex vlen val =
     (if vlen < length hex div 2 then Some (TSS2_FAPI_RC_BAD_VALUE, val) else hex_loop hex 0 vlen val)"

text \<open>
  \<open>num\<close> is \<open>None\<close> as long as the variable behind it is uninitialized.  When \<open>sscanf\<close> matches nothing,
  \<open>pos\<close> stays 0, which is the length of an empty number.
\<close>

definition get_number :: "string option \<Rightarrow> INT64 option \<Rightarrow> (bool \<times> INT64 option) option" where
  "get_number token num =
     (case token of
        None \<Rightarrow> None
      | Some s \<Rightarrow>
          let itoken = (if has_prefix ''0x'' s then 2 else 0);
              res = (if has_prefix ''0x'' s then scan_x64 else scan_d64) (drop itoken s);
              pos = (case res of None \<Rightarrow> 0 | Some (_, p) \<Rightarrow> p);
              num' = (case res of None \<Rightarrow> num | Some (n, _) \<Rightarrow> Some n)
          in Some (pos = length s - itoken, num'))"

definition get_number_from_json :: "('j, 'w) json_c \<Rightarrow> 'j option \<Rightarrow> INT64 option \<Rightarrow> (TSS2_RC \<times> INT64 option) option" where
  "get_number_from_json J jso num =
     map_option (\<lambda>(ok, n). (if ok then TSS2_RC_SUCCESS else TSS2_FAPI_RC_BAD_VALUE, n))
       (get_number (json_object_get_string J jso) num)"

text \<open>
  The integer deserializers: \<open>*out = (type)i64; if ((int64_t)*out != i64) return BAD_VALUE;\<close>.
\<close>

definition int_deserialize :: "('j, 'w) json_c \<Rightarrow> ('j, 'a::len word) des" where
  "int_deserialize J jso out =
     (case get_number (json_object_get_string J jso) None of
        None \<Rightarrow> None
      | Some (False, _) \<Rightarrow> Some (TSS2_FAPI_RC_BAD_VALUE, out)
      | Some (True, None) \<Rightarrow> None
      | Some (True, Some i64) \<Rightarrow>
          (case out of
             None \<Rightarrow> None
           | Some _ \<Rightarrow>
               let v = (ucast i64 :: 'a word) in
               Some (if ucast v \<noteq> i64 then TSS2_FAPI_RC_BAD_VALUE else TSS2_RC_SUCCESS, Some v)))"

section \<open>Objects and arrays\<close>

definition ifapi_get_sub_object :: "('j, 'w) json_c \<Rightarrow> 'j option \<Rightarrow> string \<Rightarrow> 'j option" where
  "ifapi_get_sub_object J jso name =
     (case json_object_object_get_ex J jso name of
        Some sub_jso \<Rightarrow> sub_jso
      | None \<Rightarrow>
          (case json_object_object_get_ex J jso (map tolower name) of
             Some sub_jso \<Rightarrow> sub_jso
           | None \<Rightarrow> None))"

text \<open>A member of a structure, read from the field of that name.\<close>

type_synonym ('j, 's) step = "'j option \<Rightarrow> 's \<Rightarrow> (TSS2_RC \<times> 's) option"

definition into :: "('s \<Rightarrow> 'a) \<Rightarrow> (('a \<Rightarrow> 'a) \<Rightarrow> 's \<Rightarrow> 's) \<Rightarrow> ('j, 'a) des \<Rightarrow> ('j, 's) step" where
  "into get upd f jso s =
     (case f jso (Some (get s)) of
        Some (r, Some v) \<Rightarrow> Some (r, upd (\<lambda>_. v) s)
      | _ \<Rightarrow> None)"

definition field :: "('j, 'w) json_c \<Rightarrow> string \<Rightarrow> ('j, 's) step \<Rightarrow> ('j, 's) step" where
  "field J name f jso s =
     (case ifapi_get_sub_object J jso name of
        None \<Rightarrow> Some (TSS2_FAPI_RC_BAD_VALUE, s)
      | Some jso2 \<Rightarrow> f (Some jso2) s)"

text \<open>\<open>if (out->selector != TPM2_ALG_NULL) { ... }\<close>\<close>

definition when_step :: "('s \<Rightarrow> bool) \<Rightarrow> ('j, 's) step \<Rightarrow> ('j, 's) step" where
  "when_step c f jso s = (if c s then f jso s else Some (TSS2_RC_SUCCESS, s))"

fun read_fields :: "('j, 's) step list \<Rightarrow> ('j, 's) step" where
  "read_fields [] jso s = Some (TSS2_RC_SUCCESS, s)"
| "read_fields (f # fs) jso s =
     (case f jso s of
        None \<Rightarrow> None
      | Some (r, s') \<Rightarrow> if r \<noteq> TSS2_RC_SUCCESS then Some (r, s') else read_fields fs jso s')"

text \<open>\<open>return_if_null(out, "Bad reference.", TSS2_FAPI_RC_BAD_REFERENCE)\<close>, or no check, before the body.\<close>

definition out_not_null :: "('j, 's) step \<Rightarrow> ('j, 's) des" where
  "out_not_null f jso out =
     (case out of
        None \<Rightarrow> Some (TSS2_FAPI_RC_BAD_REFERENCE, None)
      | Some s \<Rightarrow> map_option (map_prod id Some) (f jso s))"

definition out_deref :: "('j, 's) step \<Rightarrow> ('j, 's) des" where
  "out_deref f jso out =
     (case out of None \<Rightarrow> None | Some s \<Rightarrow> map_option (map_prod id Some) (f jso s))"

text \<open>\<open>memset(out, 0, sizeof(...))\<close> first.\<close>

definition zeroed :: "'s \<Rightarrow> ('j, 's) step \<Rightarrow> ('j, 's) step" where
  "zeroed z f jso s = f jso z"

section \<open>Constants\<close>

definition assign_out :: "'a \<Rightarrow> 'a option \<Rightarrow> (TSS2_RC \<times> 'a option) option" where
  "assign_out v out = (case out of None \<Rightarrow> None | Some _ \<Rightarrow> Some (TSS2_RC_SUCCESS, Some v))"

definition const_deserialize ::
    "('j, 'w) json_c \<Rightarrow> string list \<Rightarrow> ('a \<times> string) list \<Rightarrow> ('j, 'a) des \<Rightarrow> ('j, 'a) des" where
  "const_deserialize J prefixes tab parent jso out =
     (case strip_prefix (json_object_get_string J jso) prefixes of
        None \<Rightarrow> parent jso out
      | Some str \<Rightarrow>
          (case find (\<lambda>row. strcaseeq str (snd row)) tab of
             Some row \<Rightarrow> assign_out (fst row) out
           | None \<Rightarrow> parent jso out))"

text \<open>\<open>SUBTYPE_FILTER\<close>; \<open>v\<close> is written by the parent type before it is read.\<close>

definition SUBTYPE_FILTER :: "('j, 'a::zero) des \<Rightarrow> 'a list \<Rightarrow> ('j, 'a) des" where
  "SUBTYPE_FILTER parent tab jso out =
     (case parent jso (Some 0) of
        Some (r, Some v) \<Rightarrow>
          if r \<noteq> TSS2_RC_SUCCESS then Some (r, out)
          else if v \<in> set tab then assign_out v out
          else Some (TSS2_FAPI_RC_BAD_VALUE, out)
      | _ \<Rightarrow> None)"

section \<open>Byte arrays and lists\<close>

definition ifapi_json_BYTE_deserialize :: "('j, 'w) json_c \<Rightarrow> ('j, BYTE) des" where
  "ifapi_json_BYTE_deserialize J = int_deserialize J"

text \<open>A size above \<open>max\<close> is logged, and the loop runs all the same.\<close>

fun byte_items :: "('j, 'w) json_c \<Rightarrow> 'j \<Rightarrow> nat list \<Rightarrow> BYTE list \<Rightarrow> (TSS2_RC \<times> BYTE list) option" where
  "byte_items J jso [] out = Some (TSS2_RC_SUCCESS, out)"
| "byte_items J jso (i # is) out =
     (if length out \<le> i then None
      else (case ifapi_json_BYTE_deserialize J (json_object_array_get_idx J jso (of_nat i)) (Some (out ! i)) of
          Some (r, Some v) \<Rightarrow>
            if r \<noteq> TSS2_RC_SUCCESS then Some (r, out[i := v]) else byte_items J jso is (out[i := v])
        | _ \<Rightarrow> None))"

definition ifapi_json_BYTE_array_deserialize :: "('j, 'w) json_c \<Rightarrow> nat \<Rightarrow> 'j option \<Rightarrow> BYTE list \<Rightarrow> (TSS2_RC \<times> BYTE list) option" where
  "ifapi_json_BYTE_array_deserialize J bound jso out =
     (if json_object_get_type J jso = json_type_array then
        (case jso of
           None \<Rightarrow> None
         | Some j \<Rightarrow> byte_items J j [0..<unat (json_object_array_length J j)] out)
      else Some (TSS2_FAPI_RC_BAD_VALUE, out))"

definition ifapi_json_byte_deserialize ::
    "('j, 'w) json_c \<Rightarrow> 'j option \<Rightarrow> nat \<Rightarrow> BYTE list \<Rightarrow> UINT16 \<Rightarrow> (TSS2_RC \<times> BYTE list \<times> UINT16) option" where
  "ifapi_json_byte_deserialize J jso bound out out_size =
     (if json_object_get_type J jso = json_type_array then
        (case ifapi_json_BYTE_array_deserialize J bound jso out of
           None \<Rightarrow> None
         | Some (r, out') \<Rightarrow>
             if r \<noteq> TSS2_RC_SUCCESS then Some (r, out', out_size)
             else (case jso of None \<Rightarrow> None | Some j \<Rightarrow> Some (r, out', ucast (json_object_array_length J j))))
      else if json_object_get_type J jso = json_type_string then
        (case json_object_get_string J jso of
           None \<Rightarrow> None
         | Some token \<Rightarrow>
             let itoken = (if has_prefix ''0x'' token then 2 else 0) in
             (case ifapi_hex_to_byte_ary (drop itoken token) bound out of
                None \<Rightarrow> None
              | Some (r, out') \<Rightarrow>
                  if r \<noteq> TSS2_RC_SUCCESS then Some (r, out', out_size)
                  else Some (r, out', of_nat ((length token - itoken) div 2))))
      else Some (TSS2_FAPI_RC_BAD_VALUE, out, out_size))"

definition TPM2B_deserialize :: "('j, 'w) json_c \<Rightarrow> nat \<Rightarrow> ('j, TPM2B) des" where
  "TPM2B_deserialize J bound = out_not_null (\<lambda>jso s.
     case ifapi_json_byte_deserialize J jso bound (TPM2B_buffer s) 0 of
       None \<Rightarrow> None
     | Some (r, buffer, n) \<Rightarrow>
         if r \<noteq> TSS2_RC_SUCCESS then Some (r, s\<lparr>TPM2B_buffer := buffer\<rparr>)
         else Some (r, s\<lparr>TPM2B_buffer := buffer, TPM2B_size := n\<rparr>))"

fun list_items :: "('j, 'w) json_c \<Rightarrow> ('j, 'a) des \<Rightarrow> 'j \<Rightarrow> nat list \<Rightarrow> 'a TPML \<Rightarrow> (TSS2_RC \<times> 'a TPML) option" where
  "list_items J f jso [] s = Some (TSS2_RC_SUCCESS, s)"
| "list_items J f jso (i # is) s =
     (if length (TPML_items s) \<le> i then None
      else (case f (json_object_array_get_idx J jso (of_nat i)) (Some (TPML_items s ! i)) of
          Some (r, Some v) \<Rightarrow>
            if r \<noteq> TSS2_RC_SUCCESS then Some (r, s\<lparr>TPML_items := (TPML_items s)[i := v]\<rparr>)
            else list_items J f jso is (s\<lparr>TPML_items := (TPML_items s)[i := v]\<rparr>)
        | _ \<Rightarrow> None))"

definition TPML_deserialize :: "('j, 'w) json_c \<Rightarrow> nat \<Rightarrow> ('j, 'a) des \<Rightarrow> ('j, 'a TPML) des" where
  "TPML_deserialize J bound f = out_not_null (\<lambda>jso s.
     if json_object_get_type J jso = json_type_array then
       (case jso of
          None \<Rightarrow> None
        | Some j \<Rightarrow>
            let n = json_object_array_length J j in
            if of_nat bound < n then Some (TSS2_FAPI_RC_BAD_VALUE, s)
            else list_items J f j [0..<unat n] (s\<lparr>TPML_count := ucast n\<rparr>))
     else Some (TSS2_FAPI_RC_BAD_VALUE, s))"

section \<open>Unions\<close>

text \<open>
  Writing a member over another starts from that member's zero value, as in \<open>MU_Union\<close>;
  \<open>case ...: { return TSS2_RC_SUCCESS; }\<close> is \<open>nothing\<close>.
\<close>

definition des_member :: "('u \<Rightarrow> 'a option) \<Rightarrow> ('a \<Rightarrow> 'u) \<Rightarrow> 'a \<Rightarrow> ('j, 'a) des \<Rightarrow> ('j, 'u) des" where
  "des_member get ctor zero f jso out =
     (case f jso (map_option (\<lambda>u. case get u of None \<Rightarrow> zero | Some x \<Rightarrow> x) out) of
        None \<Rightarrow> None
      | Some (r, v) \<Rightarrow> Some (r, map_option ctor v))"

definition nothing :: "('j, 'u) des" where
  "nothing jso out = Some (TSS2_RC_SUCCESS, out)"

definition des_switch :: "(UINT32 \<times> ('j, 'u) des) list \<Rightarrow> UINT32 \<Rightarrow> ('j, 'u) des" where
  "des_switch tab selector jso out =
     (case map_of tab selector of Some f \<Rightarrow> f jso out | None \<Rightarrow> Some (TSS2_FAPI_RC_BAD_VALUE, out))"

section \<open>Attributes\<close>

text \<open>The number form of attributes (and the fallback of \<open>get_boolean_from_json\<close>).\<close>

definition YES_NO_tab :: "(BYTE \<times> string) list" where
  "YES_NO_tab = [(0, ''NO''), (1, ''YES'')]"

definition ifapi_json_TPMI_YES_NO_deserialize :: "('j, 'w) json_c \<Rightarrow> ('j, BYTE) des" where
  "ifapi_json_TPMI_YES_NO_deserialize J =
     const_deserialize J [''TPM_'', ''TPM2_'', ''TPMI_''] YES_NO_tab (ifapi_json_BYTE_deserialize J)"

text \<open>
  The comparisons with \<open>set\<close>, \<open>on\<close> and \<open>off\<close> are written with \<open>!= 0\<close>: every token differs from one of
  the first two.
\<close>

definition get_boolean_from_json :: "('j, 'w) json_c \<Rightarrow> ('j, BYTE) des" where
  "get_boolean_from_json J jso value =
     (case ifapi_json_TPMI_YES_NO_deserialize J jso value of
        Some (r, Some v) \<Rightarrow>
          let check = (\<lambda>v. Some (if v \<noteq> 0 \<and> v \<noteq> 1 then TSS2_FAPI_RC_BAD_VALUE else TSS2_RC_SUCCESS, Some v)) in
          if r \<noteq> TSS2_RC_SUCCESS then
            (case json_object_get_string J jso of
               None \<Rightarrow> None
             | Some token \<Rightarrow>
                 if \<not> strcaseeq token ''set'' \<or> \<not> strcaseeq token ''on'' then check 1
                 else if \<not> strcaseeq token ''off'' then check 0
                 else Some (TSS2_FAPI_RC_BAD_VALUE, Some v))
          else check v
      | _ \<Rightarrow> None)"

text \<open>
  An array of names sets their flags; an object sets the flags whose value is true.  \<open>special\<close> handles
  the keys that do not name a flag (the locality extension, the type of an NV index).
\<close>

fun flag_names :: "('j, 'w) json_c \<Rightarrow> string list \<Rightarrow> ('a::len word \<times> string) list \<Rightarrow>
    ('j option \<Rightarrow> 'a word \<Rightarrow> (TSS2_RC \<times> 'a word) option option) \<Rightarrow> 'j \<Rightarrow> nat list \<Rightarrow> 'a word \<Rightarrow> (TSS2_RC \<times> 'a word) option" where
  "flag_names J prefixes tab special jso [] out = Some (TSS2_RC_SUCCESS, out)"
| "flag_names J prefixes tab special jso (i # is) out =
     (let jso2 = json_object_array_get_idx J jso (of_nat i) in
      case special jso2 out of
        Some None \<Rightarrow> None
      | Some (Some (r, out')) \<Rightarrow>
          if r \<noteq> TSS2_RC_SUCCESS then Some (r, out') else flag_names J prefixes tab special jso is out'
      | None \<Rightarrow>
          (case strip_prefix (json_object_get_string J jso2) prefixes of
             None \<Rightarrow> Some (TSS2_FAPI_RC_BAD_VALUE, out)
           | Some token \<Rightarrow>
               (case find (\<lambda>row. strcaseeq (snd row) token) tab of
                  Some row \<Rightarrow> flag_names J prefixes tab special jso is (out OR fst row)
                | None \<Rightarrow> Some (TSS2_FAPI_RC_BAD_VALUE, out))))"

fun flag_members :: "('j, 'w) json_c \<Rightarrow> string list \<Rightarrow> string list \<Rightarrow> ('a::len word \<times> string) list \<Rightarrow>
    (string \<Rightarrow> 'j option \<Rightarrow> 'a word \<Rightarrow> (TSS2_RC \<times> 'a word) option option) \<Rightarrow>
    (string \<times> 'j option) list \<Rightarrow> BYTE \<Rightarrow> 'a word \<Rightarrow> (TSS2_RC \<times> 'a word) option" where
  "flag_members J prefixes prefixes2 tab special [] flag out = Some (TSS2_RC_SUCCESS, out)"
| "flag_members J prefixes prefixes2 tab special ((key, val) # es) flag out =
     (case strip_prefix (Some key) prefixes of
        None \<Rightarrow> None
      | Some token1 \<Rightarrow>
          (case special token1 val out of
             Some None \<Rightarrow> None
           | Some (Some (r, out')) \<Rightarrow>
               if r \<noteq> TSS2_RC_SUCCESS then Some (r, out')
               else flag_members J prefixes prefixes2 tab special es flag out'
           | None \<Rightarrow>
               (case strip_prefix (Some token1) prefixes2 of
                  None \<Rightarrow> None
                | Some token \<Rightarrow>
                    (case get_boolean_from_json J val (Some flag) of
                       Some (r, Some flag') \<Rightarrow>
                         if r \<noteq> TSS2_RC_SUCCESS then Some (r, out)
                         else (case find (\<lambda>row. strcaseeq (snd row) token) tab of
                             Some row \<Rightarrow>
                               flag_members J prefixes prefixes2 tab special es flag'
                                 (if flag' \<noteq> 0 then out OR fst row else out)
                           | None \<Rightarrow> Some (TSS2_FAPI_RC_BAD_VALUE, out))
                     | _ \<Rightarrow> None))))"

definition flags_deserialize :: "('j, 'w) json_c \<Rightarrow> string list \<Rightarrow> string list \<Rightarrow> string list \<Rightarrow> ('a::len word \<times> string) list \<Rightarrow>
    ('j option \<Rightarrow> 'a word \<Rightarrow> (TSS2_RC \<times> 'a word) option option) \<Rightarrow>
    (string \<Rightarrow> 'j option \<Rightarrow> 'a word \<Rightarrow> (TSS2_RC \<times> 'a word) option option) \<Rightarrow> ('j, 'a word) des" where
  "flags_deserialize J array_prefixes prefixes prefixes2 tab special_item special_member =
     out_deref (zeroed 0 (\<lambda>jso s.
       if json_object_get_type J jso = json_type_array then
         (case jso of
            None \<Rightarrow> None
          | Some j \<Rightarrow> flag_names J array_prefixes tab special_item j [0..<unat (json_object_array_length J j)] s)
       else if json_object_get_type J jso = json_type_object then
         (case jso of
            None \<Rightarrow> None
          | Some j \<Rightarrow> flag_members J prefixes prefixes2 tab special_member (json_object_entries J j) 0 s)
       else into (\<lambda>s. s) (\<lambda>f s. f s) (int_deserialize J) jso s))"

section \<open>PCR selections\<close>

fun pcr_bits :: "('j, 'w) json_c \<Rightarrow> 'j \<Rightarrow> nat list \<Rightarrow> INT64 option \<Rightarrow> UINT8 \<Rightarrow> BYTE list \<Rightarrow> (TSS2_RC \<times> UINT8 \<times> BYTE list) option" where
  "pcr_bits J jso [] num sizeofSelect pcrSelect = Some (TSS2_RC_SUCCESS, 3, pcrSelect)"
| "pcr_bits J jso (i # is) num sizeofSelect pcrSelect =
     (case get_number_from_json J (json_object_array_get_idx J jso (of_nat i)) num of
        None \<Rightarrow> None
      | Some (r, num') \<Rightarrow>
          if r \<noteq> TSS2_RC_SUCCESS then Some (r, sizeofSelect, pcrSelect)
          else (case num' of
              None \<Rightarrow> None
            | Some n \<Rightarrow>
                if sint n < 0 \<or> length pcrSelect \<le> unat n div 8 then None
                else let n_byte = unat n div 8 in
                  pcr_bits J jso is num'
                    (if unat sizeofSelect < n_byte then of_nat n_byte else sizeofSelect)
                    (pcrSelect[n_byte := pcrSelect ! n_byte OR push_bit (unat n mod 8) 1])))"

definition ifapi_json_pcr_selection_deserialize ::
    "('j, 'w) json_c \<Rightarrow> 'j option \<Rightarrow> UINT8 \<Rightarrow> BYTE list \<Rightarrow> (TSS2_RC \<times> UINT8 \<times> BYTE list) option" where
  "ifapi_json_pcr_selection_deserialize J jso sizeofSelect pcrSelect =
     (if json_object_get_type J jso \<noteq> json_type_array then Some (TSS2_FAPI_RC_BAD_VALUE, sizeofSelect, pcrSelect)
      else (case jso of
          None \<Rightarrow> None
        | Some j \<Rightarrow> pcr_bits J j [0..<unat (json_object_array_length J j)] None sizeofSelect pcrSelect))"

end
