(* ===== verification/Fapi_Serialize.thy ===== *)
theory Fapi_Serialize
  imports Fapi_Json
begin

text \<open>
  The building blocks of \<open>tpm_json_serialize.c\<close>.  A serializer takes the value behind \<open>json_object **jso\<close>
  and the state of the allocator, and gives back a return code and both of them; \<open>None\<close> is undefined
  behaviour (a read outside an array or of an inactive union member, a null parent object).
\<close>

type_synonym ('j, 'w) ser = "'j option \<Rightarrow> 'w \<Rightarrow> (TSS2_RC \<times> 'j option \<times> 'w) option"

definition ser_return :: "TSS2_RC \<Rightarrow> ('j, 'w) ser" where
  "ser_return r jso w = Some (r, jso, w)"

text \<open>\<open>return_if_null(in, "Bad reference.", TSS2_FAPI_RC_BAD_REFERENCE)\<close>, and a pointer that is not checked.\<close>

definition not_null :: "'a option \<Rightarrow> ('a \<Rightarrow> ('j, 'w) ser) \<Rightarrow> ('j, 'w) ser" where
  "not_null inn f jso w =
     (case inn of None \<Rightarrow> Some (TSS2_FAPI_RC_BAD_REFERENCE, jso, w) | Some s \<Rightarrow> f s jso w)"

definition deref :: "'a option \<Rightarrow> ('a \<Rightarrow> ('j, 'w) ser) \<Rightarrow> ('j, 'w) ser" where
  "deref inn f jso w = (case inn of None \<Rightarrow> None | Some s \<Rightarrow> f s jso w)"

text \<open>\<open>if (*jso == NULL) *jso = json_object_new_object();\<close>, without and with the check for memory.\<close>

definition new_object_if_null :: "('j, 'w) json_c \<Rightarrow> ('j, 'w) ser \<Rightarrow> ('j, 'w) ser" where
  "new_object_if_null J k jso w =
     (case jso of Some j \<Rightarrow> k (Some j) w | None \<Rightarrow> (case json_object_new_object J w of (j, w1) \<Rightarrow> k j w1))"

definition or_memory :: "('j, 'w) ser \<Rightarrow> ('j, 'w) ser" where
  "or_memory k jso w = (if jso = None then Some (TSS2_FAPI_RC_MEMORY, jso, w) else k jso w)"

text \<open>
  The members of an object: serialize into a fresh \<open>jso2\<close>, return its error, add it under its name.
\<close>

fun object_fields :: "('j, 'w) json_c \<Rightarrow> (string \<times> ('j, 'w) ser) list \<Rightarrow> ('j, 'w) ser" where
  "object_fields J [] jso w = Some (TSS2_RC_SUCCESS, jso, w)"
| "object_fields J ((name, f) # fs) jso w =
     (case f None w of
        None \<Rightarrow> None
      | Some (r, jso2, w1) \<Rightarrow>
          if r \<noteq> TSS2_RC_SUCCESS then Some (r, jso, w1)
          else (case jso of
              None \<Rightarrow> None
            | Some p \<Rightarrow>
                (case json_object_object_add J p name jso2 w1 of (c, p', w2) \<Rightarrow>
                   if c \<noteq> 0 then Some (TSS2_FAPI_RC_GENERAL_FAILURE, Some p', w2)
                   else object_fields J fs (Some p') w2)))"

fun array_items :: "('j, 'w) json_c \<Rightarrow> ('j, 'w) ser list \<Rightarrow> ('j, 'w) ser" where
  "array_items J [] jso w = Some (TSS2_RC_SUCCESS, jso, w)"
| "array_items J (f # fs) jso w =
     (case f None w of
        None \<Rightarrow> None
      | Some (r, jso2, w1) \<Rightarrow>
          if r \<noteq> TSS2_RC_SUCCESS then Some (r, jso, w1)
          else (case jso of
              None \<Rightarrow> None
            | Some p \<Rightarrow>
                (case json_object_array_add J p jso2 w1 of (c, p', w2) \<Rightarrow>
                   if c \<noteq> 0 then Some (TSS2_FAPI_RC_GENERAL_FAILURE, Some p', w2)
                   else array_items J fs (Some p') w2)))"

text \<open>\<open>if (ifapi_json_..._serialize(...)) return TSS2_FAPI_RC_BAD_VALUE;\<close>\<close>

definition bad_value_if_error :: "('j, 'w) ser \<Rightarrow> ('j, 'w) ser" where
  "bad_value_if_error f jso w =
     map_option (\<lambda>(r, j, w1). (if r \<noteq> TSS2_RC_SUCCESS then TSS2_FAPI_RC_BAD_VALUE else r, j, w1)) (f jso w)"

text \<open>A new object, with the error code that the source has for a null result.\<close>

definition created :: "TSS2_RC \<Rightarrow> ('w \<Rightarrow> 'j option \<times> 'w) \<Rightarrow> ('j, 'w) ser" where
  "created e new jso w = (case new w of (j, w1) \<Rightarrow> Some (if j = None then e else TSS2_RC_SUCCESS, j, w1))"

text \<open>The loop over a table of constants and their names.\<close>

definition const_serialize :: "('j, 'w) json_c \<Rightarrow> ('a \<times> string) list \<Rightarrow> 'a \<Rightarrow> ('j, 'w) ser" where
  "const_serialize J tab inn jso w =
     (case find (\<lambda>row. fst row = inn) tab of
        Some row \<Rightarrow> created TSS2_FAPI_RC_MEMORY (json_object_new_string J (snd row)) jso w
      | None \<Rightarrow> Some (TSS2_FAPI_RC_BAD_VALUE, jso, w))"

text \<open>\<open>CHECK_IN_LIST\<close>\<close>

definition CHECK_IN_LIST :: "'a \<Rightarrow> 'a list \<Rightarrow> ('j, 'w) ser \<Rightarrow> ('j, 'w) ser" where
  "CHECK_IN_LIST needle tab k jso w =
     (if needle \<in> set tab then k jso w else Some (TSS2_FAPI_RC_BAD_VALUE, jso, w))"

text \<open>The loop over a table of flags and their names: a member 0 or 1 for every flag.\<close>

definition flag_fields :: "('j, 'w) json_c \<Rightarrow> ('a::len word \<times> string) list \<Rightarrow> 'a word \<Rightarrow> (string \<times> ('j, 'w) ser) list" where
  "flag_fields J tab input =
     map (\<lambda>(flag, name). (name, created TSS2_FAPI_RC_MEMORY (json_object_new_int J (if flag AND input \<noteq> 0 then 1 else 0)))) tab"

text \<open>\<open>jso_bit_idx = json_object_new_int64(...)\<close> with its check, for the multi-bit members.\<close>

definition int64_field :: "('j, 'w) json_c \<Rightarrow> INT64 \<Rightarrow> ('j, 'w) ser" where
  "int64_field J n = created TSS2_FAPI_RC_MEMORY (json_object_new_int64 J n)"

text \<open>A byte array as a string of hexadecimal digits.\<close>

definition hex_serialize :: "('j, 'w) json_c \<Rightarrow> BYTE list \<Rightarrow> nat \<Rightarrow> ('j, 'w) ser" where
  "hex_serialize J buffer n jso w =
     (case mem_read buffer 0 n of
        None \<Rightarrow> None
      | Some bs \<Rightarrow> created TSS2_FAPI_RC_MEMORY (json_object_new_string J (concat (map sprintf_02x bs))) jso w)"

definition TPM2B_serialize :: "('j, 'w) json_c \<Rightarrow> nat \<Rightarrow> TPM2B option \<Rightarrow> ('j, 'w) ser" where
  "TPM2B_serialize J bound inn = not_null inn (\<lambda>s.
     if bound < unat (TPM2B_size s) then ser_return TSS2_FAPI_RC_BAD_VALUE
     else hex_serialize J (TPM2B_buffer s) (unat (TPM2B_size s)))"

text \<open>A list as an array; reading more elements than the array has is undefined.\<close>

definition TPML_serialize :: "('j, 'w) json_c \<Rightarrow> nat \<Rightarrow> ('a \<Rightarrow> ('j, 'w) ser) \<Rightarrow> 'a TPML option \<Rightarrow> ('j, 'w) ser" where
  "TPML_serialize J bound f inn = not_null inn (\<lambda>s jso w.
     if bound < unat (TPML_count s) then Some (TSS2_FAPI_RC_BAD_VALUE, jso, w)
     else (case json_object_new_array J w of
         (None, w1) \<Rightarrow> Some (TSS2_FAPI_RC_MEMORY, None, w1)
       | (Some j, w1) \<Rightarrow>
           if length (TPML_items s) < unat (TPML_count s) then None
           else array_items J (map f (take (unat (TPML_count s)) (TPML_items s))) (Some j) w1))"

text \<open>A switch on the selector of a union.\<close>

definition union_member :: "'a option \<Rightarrow> ('a \<Rightarrow> ('j, 'w) ser) \<Rightarrow> ('j, 'w) ser" where
  "union_member m f = (case m of None \<Rightarrow> (\<lambda>jso w. None) | Some x \<Rightarrow> f x)"

definition union_switch :: "(UINT32 \<times> ('j, 'w) ser) list \<Rightarrow> UINT32 \<Rightarrow> ('j, 'w) ser" where
  "union_switch tab selector =
     (case map_of tab selector of Some f \<Rightarrow> f | None \<Rightarrow> ser_return TSS2_FAPI_RC_BAD_VALUE)"

end
