(* ===== verification/Fapi_Ser_Values.thy ===== *)
theory Fapi_Ser_Values
  imports Fapi_Serialize Fapi_Json
begin

text \<open>
  \<open>tpm_json_serialize.c\<close>, integers, constants, interface types and attributes.
\<close>

definition ifapi_json_TPMS_EMPTY_serialize :: "('j, 'w) json_c \<Rightarrow> TPMS_EMPTY option \<Rightarrow> ('j, 'w) ser" where
  "ifapi_json_TPMS_EMPTY_serialize J inn = ser_return TSS2_RC_SUCCESS"

fun pcr_items :: "('j, 'w) json_c \<Rightarrow> BYTE list \<Rightarrow> nat list \<Rightarrow> ('j, 'w) ser" where
  "pcr_items J pcrSelect [] jso w = Some (TSS2_RC_SUCCESS, jso, w)"
| "pcr_items J pcrSelect (i2 # is) jso w =
     (if length pcrSelect \<le> i2 div 8 then None
      else if pcrSelect ! (i2 div 8) AND push_bit (i2 mod 8) 1 \<noteq> 0 then
        (case json_object_new_int64 J (of_nat i2) w of
           (None, w1) \<Rightarrow> Some (TSS2_FAPI_RC_MEMORY, jso, w1)
         | (jso2, w1) \<Rightarrow>
             (case jso of
                None \<Rightarrow> None
              | Some p \<Rightarrow>
                  (case json_object_array_add J p jso2 w1 of (c, p', w2) \<Rightarrow>
                     if c \<noteq> 0 then Some (TSS2_FAPI_RC_GENERAL_FAILURE, Some p', w2)
                     else pcr_items J pcrSelect is (Some p') w2)))
      else pcr_items J pcrSelect is jso w)"

text \<open>\<open>i1\<close> runs below \<open>TPM2_PCR_LAST - TPM2_PCR_FIRST\<close>, so that the last PCR is not reached.\<close>

definition ifapi_json_pcr_select_serialize :: "('j, 'w) json_c \<Rightarrow> UINT8 \<Rightarrow> BYTE list \<Rightarrow> ('j, 'w) ser" where
  "ifapi_json_pcr_select_serialize J sizeofSelect pcrSelect jso w =
     (case (case jso of None \<Rightarrow> json_object_new_array J w | Some j \<Rightarrow> (Some j, w)) of (jso1, w1) \<Rightarrow>
        or_memory
          (if unat sizeofSelect > TPM2_PCR_SELECT_MAX then ser_return TSS2_FAPI_RC_BAD_VALUE
           else pcr_items J pcrSelect
             (map (\<lambda>i1. i1 + unat TPM2_PCR_FIRST) [0..<unat (TPM2_PCR_LAST - TPM2_PCR_FIRST)]))
          jso1 w1)"

definition TPM2_ALG_ID_serialize_tab :: "(UINT16 \<times> string) list" where
  "TPM2_ALG_ID_serialize_tab =
    [(TPM2_ALG_ERROR, ''ERROR''),
     (TPM2_ALG_RSA, ''RSA''),
     (TPM2_ALG_TDES, ''TDES''),
     (TPM2_ALG_SHA1, ''sha1''),
     (TPM2_ALG_CMAC, ''CMAC''),
     (TPM2_ALG_HMAC, ''HMAC''),
     (TPM2_ALG_AES, ''AES''),
     (TPM2_ALG_MGF1, ''MGF1''),
     (TPM2_ALG_KEYEDHASH, ''KEYEDHASH''),
     (TPM2_ALG_XOR, ''XOR''),
     (TPM2_ALG_SHA256, ''sha256''),
     (TPM2_ALG_SHA384, ''sha384''),
     (TPM2_ALG_SHA512, ''sha512''),
     (TPM2_ALG_NULL, ''NULL''),
     (TPM2_ALG_SM3_256, ''sm3_256''),
     (TPM2_ALG_SM4, ''SM4''),
     (TPM2_ALG_RSASSA, ''RSASSA''),
     (TPM2_ALG_RSAES, ''RSAES''),
     (TPM2_ALG_RSAPSS, ''RSAPSS''),
     (TPM2_ALG_OAEP, ''OAEP''),
     (TPM2_ALG_ECDSA, ''ECDSA''),
     (TPM2_ALG_ECDH, ''ECDH''),
     (TPM2_ALG_ECDAA, ''ECDAA''),
     (TPM2_ALG_SM2, ''SM2''),
     (TPM2_ALG_ECSCHNORR, ''ECSCHNORR''),
     (TPM2_ALG_ECMQV, ''ECMQV''),
     (TPM2_ALG_KDF1_SP800_56A, ''KDF1_SP800_56A''),
     (TPM2_ALG_KDF2, ''KDF2''),
     (TPM2_ALG_KDF1_SP800_108, ''KDF1_SP800_108''),
     (TPM2_ALG_ECC, ''ECC''),
     (TPM2_ALG_SYMCIPHER, ''SYMCIPHER''),
     (TPM2_ALG_CAMELLIA, ''CAMELLIA''),
     (TPM2_ALG_CTR, ''CTR''),
     (TPM2_ALG_OFB, ''OFB''),
     (TPM2_ALG_CBC, ''CBC''),
     (TPM2_ALG_CFB, ''CFB''),
     (TPM2_ALG_ECB, ''ECB'')]"

definition ifapi_json_TPM2_ALG_ID_serialize :: "('j, 'w) json_c \<Rightarrow> UINT16 \<Rightarrow> ('j, 'w) ser" where
  "ifapi_json_TPM2_ALG_ID_serialize J inn =
     const_serialize J TPM2_ALG_ID_serialize_tab inn"

definition ifapi_json_TPMI_ALG_HASH_serialize :: "('j, 'w) json_c \<Rightarrow> UINT16 \<Rightarrow> ('j, 'w) ser" where
  "ifapi_json_TPMI_ALG_HASH_serialize J inn =
     CHECK_IN_LIST inn
       [TPM2_ALG_SHA1,
        TPM2_ALG_SHA256,
        TPM2_ALG_SHA384,
        TPM2_ALG_SHA512,
        TPM2_ALG_SM3_256,
        TPM2_ALG_NULL]
       (ifapi_json_TPM2_ALG_ID_serialize J inn)"

definition TPM2_PT_PCR_serialize_tab :: "(UINT32 \<times> string) list" where
  "TPM2_PT_PCR_serialize_tab =
    [(TPM2_PT_PCR_SAVE, ''SAVE''),
     (TPM2_PT_PCR_EXTEND_L0, ''EXTEND_L0''),
     (TPM2_PT_PCR_RESET_L0, ''RESET_L0''),
     (TPM2_PT_PCR_EXTEND_L1, ''EXTEND_L1''),
     (TPM2_PT_PCR_RESET_L1, ''RESET_L1''),
     (TPM2_PT_PCR_EXTEND_L2, ''EXTEND_L2''),
     (TPM2_PT_PCR_RESET_L2, ''RESET_L2''),
     (TPM2_PT_PCR_EXTEND_L3, ''EXTEND_L3''),
     (TPM2_PT_PCR_RESET_L3, ''RESET_L3''),
     (TPM2_PT_PCR_EXTEND_L4, ''EXTEND_L4''),
     (TPM2_PT_PCR_RESET_L4, ''RESET_L4''),
     (TPM2_PT_PCR_NO_INCREMENT, ''NO_INCREMENT''),
     (TPM2_PT_PCR_DRTM_RESET, ''DRTM_RESET''),
     (TPM2_PT_PCR_POLICY, ''POLICY''),
     (TPM2_PT_PCR_AUTH, ''AUTH'')]"

definition ifapi_json_TPM2_PT_PCR_serialize :: "('j, 'w) json_c \<Rightarrow> UINT32 \<Rightarrow> ('j, 'w) ser" where
  "ifapi_json_TPM2_PT_PCR_serialize J inn =
     const_serialize J TPM2_PT_PCR_serialize_tab inn"

definition ifapi_json_TPM2_HANDLE_serialize :: "('j, 'w) json_c \<Rightarrow> UINT32 \<Rightarrow> ('j, 'w) ser" where
  "ifapi_json_TPM2_HANDLE_serialize J inn = created TSS2_FAPI_RC_BAD_VALUE (json_object_new_int J inn)"

definition ifapi_json_UINT32_serialize :: "('j, 'w) json_c \<Rightarrow> UINT32 \<Rightarrow> ('j, 'w) ser" where
  "ifapi_json_UINT32_serialize J inn = created TSS2_FAPI_RC_BAD_VALUE (json_object_new_int64 J (ucast inn))"

definition TPMA_ACT_serialize_tab :: "(UINT32 \<times> string) list" where
  "TPMA_ACT_serialize_tab =
    [(TPMA_ACT_SIGNALED, ''signaled''),
     (TPMA_ACT_PRESERVESIGNALED, ''preserveSignaled'')]"

definition ifapi_json_TPMA_ACT_serialize :: "('j, 'w) json_c \<Rightarrow> UINT32 \<Rightarrow> ('j, 'w) ser" where
  "ifapi_json_TPMA_ACT_serialize J inn =
     new_object_if_null J (or_memory (object_fields J
        (flag_fields J TPMA_ACT_serialize_tab inn)))"

definition ifapi_json_UINT16_serialize :: "('j, 'w) json_c \<Rightarrow> UINT16 \<Rightarrow> ('j, 'w) ser" where
  "ifapi_json_UINT16_serialize J inn = created TSS2_FAPI_RC_BAD_VALUE (json_object_new_int64 J (ucast inn))"

definition ifapi_json_INT32_serialize :: "('j, 'w) json_c \<Rightarrow> INT32 \<Rightarrow> ('j, 'w) ser" where
  "ifapi_json_INT32_serialize J inn = created TSS2_FAPI_RC_BAD_VALUE (json_object_new_int64 J (scast inn))"

definition ifapi_json_UINT64_serialize :: "('j, 'w) json_c \<Rightarrow> UINT64 \<Rightarrow> ('j, 'w) ser" where
  "ifapi_json_UINT64_serialize J inn jso w =
     (if inn < 0x1000000000000 then created TSS2_FAPI_RC_BAD_VALUE (json_object_new_int64 J inn) jso w
      else (case json_object_new_int64 J (inn div 0x100000000) w of
          (None, w1) \<Rightarrow> Some (TSS2_FAPI_RC_MEMORY, jso, w1)
        | (Some jso1, w1) \<Rightarrow>
            (case json_object_new_int64 J (inn mod 0x100000000) w1 of
               (None, w2) \<Rightarrow> Some (TSS2_FAPI_RC_MEMORY, jso, json_object_put J jso1 w2)
             | (Some jso2, w2) \<Rightarrow>
                 (case json_object_new_array J w2 of
                    (None, w3) \<Rightarrow> Some (TSS2_FAPI_RC_MEMORY, None, json_object_put J jso2 (json_object_put J jso1 w3))
                  | (Some a, w3) \<Rightarrow>
                      array_items J [\<lambda>_ w. Some (TSS2_RC_SUCCESS, Some jso1, w), \<lambda>_ w. Some (TSS2_RC_SUCCESS, Some jso2, w)]
                        (Some a) w3))))"

definition ifapi_json_TPM2_GENERATED_serialize :: "('j, 'w) json_c \<Rightarrow> UINT32 \<Rightarrow> ('j, 'w) ser" where
  "ifapi_json_TPM2_GENERATED_serialize J inn =
     (if inn \<noteq> TPM2_GENERATED_VALUE then ser_return TSS2_FAPI_RC_BAD_VALUE
      else created TSS2_FAPI_RC_MEMORY (json_object_new_string J ''VALUE''))"

definition TPM2_ECC_CURVE_serialize_tab :: "(UINT16 \<times> string) list" where
  "TPM2_ECC_CURVE_serialize_tab =
    [(TPM2_ECC_NONE, ''NONE''),
     (TPM2_ECC_NIST_P192, ''NIST_P192''),
     (TPM2_ECC_NIST_P224, ''NIST_P224''),
     (TPM2_ECC_NIST_P256, ''NIST_P256''),
     (TPM2_ECC_NIST_P384, ''NIST_P384''),
     (TPM2_ECC_NIST_P521, ''NIST_P521''),
     (TPM2_ECC_BN_P256, ''BN_P256''),
     (TPM2_ECC_BN_P638, ''BN_P638''),
     (TPM2_ECC_SM2_P256, ''SM2_P256'')]"

definition ifapi_json_TPM2_ECC_CURVE_serialize :: "('j, 'w) json_c \<Rightarrow> UINT16 \<Rightarrow> ('j, 'w) ser" where
  "ifapi_json_TPM2_ECC_CURVE_serialize J inn =
     const_serialize J TPM2_ECC_CURVE_serialize_tab inn"

definition TPM2_CC_serialize_tab :: "(UINT32 \<times> string) list" where
  "TPM2_CC_serialize_tab =
    [(TPM2_CC_NV_UndefineSpaceSpecial, ''NV_UndefineSpaceSpecial''),
     (TPM2_CC_EvictControl, ''EvictControl''),
     (TPM2_CC_HierarchyControl, ''HierarchyControl''),
     (TPM2_CC_NV_UndefineSpace, ''NV_UndefineSpace''),
     (TPM2_CC_ChangeEPS, ''ChangeEPS''),
     (TPM2_CC_ChangePPS, ''ChangePPS''),
     (TPM2_CC_Clear, ''Clear''),
     (TPM2_CC_ClearControl, ''ClearControl''),
     (TPM2_CC_ClockSet, ''ClockSet''),
     (TPM2_CC_HierarchyChangeAuth, ''HierarchyChangeAuth''),
     (TPM2_CC_NV_DefineSpace, ''NV_DefineSpace''),
     (TPM2_CC_PCR_Allocate, ''PCR_Allocate''),
     (TPM2_CC_PCR_SetAuthPolicy, ''PCR_SetAuthPolicy''),
     (TPM2_CC_PP_Commands, ''PP_Commands''),
     (TPM2_CC_SetPrimaryPolicy, ''SetPrimaryPolicy''),
     (TPM2_CC_FieldUpgradeStart, ''FieldUpgradeStart''),
     (TPM2_CC_ClockRateAdjust, ''ClockRateAdjust''),
     (TPM2_CC_CreatePrimary, ''CreatePrimary''),
     (TPM2_CC_NV_GlobalWriteLock, ''NV_GlobalWriteLock''),
     (TPM2_CC_GetCommandAuditDigest, ''GetCommandAuditDigest''),
     (TPM2_CC_NV_Increment, ''NV_Increment''),
     (TPM2_CC_NV_SetBits, ''NV_SetBits''),
     (TPM2_CC_NV_Extend, ''NV_Extend''),
     (TPM2_CC_NV_Write, ''NV_Write''),
     (TPM2_CC_NV_WriteLock, ''NV_WriteLock''),
     (TPM2_CC_DictionaryAttackLockReset, ''DictionaryAttackLockReset''),
     (TPM2_CC_DictionaryAttackParameters, ''DictionaryAttackParameters''),
     (TPM2_CC_NV_ChangeAuth, ''NV_ChangeAuth''),
     (TPM2_CC_PCR_Event, ''PCR_Event''),
     (TPM2_CC_PCR_Reset, ''PCR_Reset''),
     (TPM2_CC_SequenceComplete, ''SequenceComplete''),
     (TPM2_CC_SetAlgorithmSet, ''SetAlgorithmSet''),
     (TPM2_CC_SetCommandCodeAuditStatus, ''SetCommandCodeAuditStatus''),
     (TPM2_CC_FieldUpgradeData, ''FieldUpgradeData''),
     (TPM2_CC_IncrementalSelfTest, ''IncrementalSelfTest''),
     (TPM2_CC_SelfTest, ''SelfTest''),
     (TPM2_CC_Startup, ''Startup''),
     (TPM2_CC_Shutdown, ''Shutdown''),
     (TPM2_CC_StirRandom, ''StirRandom''),
     (TPM2_CC_ActivateCredential, ''ActivateCredential''),
     (TPM2_CC_Certify, ''Certify''),
     (TPM2_CC_PolicyNV, ''PolicyNV''),
     (TPM2_CC_CertifyCreation, ''CertifyCreation''),
     (TPM2_CC_Duplicate, ''Duplicate''),
     (TPM2_CC_GetTime, ''GetTime''),
     (TPM2_CC_GetSessionAuditDigest, ''GetSessionAuditDigest''),
     (TPM2_CC_NV_Read, ''NV_Read''),
     (TPM2_CC_NV_ReadLock, ''NV_ReadLock''),
     (TPM2_CC_ObjectChangeAuth, ''ObjectChangeAuth''),
     (TPM2_CC_PolicySecret, ''PolicySecret''),
     (TPM2_CC_Rewrap, ''Rewrap''),
     (TPM2_CC_Create, ''Create''),
     (TPM2_CC_ECDH_ZGen, ''ECDH_ZGen''),
     (TPM2_CC_HMAC, ''HMAC''),
     (TPM2_CC_Import, ''Import''),
     (TPM2_CC_Load, ''Load''),
     (TPM2_CC_Quote, ''Quote''),
     (TPM2_CC_RSA_Decrypt, ''RSA_Decrypt''),
     (TPM2_CC_HMAC_Start, ''HMAC_Start''),
     (TPM2_CC_SequenceUpdate, ''SequenceUpdate''),
     (TPM2_CC_Sign, ''Sign''),
     (TPM2_CC_Unseal, ''Unseal''),
     (TPM2_CC_PolicySigned, ''PolicySigned''),
     (TPM2_CC_ContextLoad, ''ContextLoad''),
     (TPM2_CC_ContextSave, ''ContextSave''),
     (TPM2_CC_ECDH_KeyGen, ''ECDH_KeyGen''),
     (TPM2_CC_EncryptDecrypt, ''EncryptDecrypt''),
     (TPM2_CC_FlushContext, ''FlushContext''),
     (TPM2_CC_LoadExternal, ''LoadExternal''),
     (TPM2_CC_MakeCredential, ''MakeCredential''),
     (TPM2_CC_NV_ReadPublic, ''NV_ReadPublic''),
     (TPM2_CC_PolicyAuthorize, ''PolicyAuthorize''),
     (TPM2_CC_PolicyAuthValue, ''PolicyAuthValue''),
     (TPM2_CC_PolicyCommandCode, ''PolicyCommandCode''),
     (TPM2_CC_PolicyCounterTimer, ''PolicyCounterTimer''),
     (TPM2_CC_PolicyCpHash, ''PolicyCpHash''),
     (TPM2_CC_PolicyLocality, ''PolicyLocality''),
     (TPM2_CC_PolicyNameHash, ''PolicyNameHash''),
     (TPM2_CC_PolicyOR, ''PolicyOR''),
     (TPM2_CC_PolicyTicket, ''PolicyTicket''),
     (TPM2_CC_ReadPublic, ''ReadPublic''),
     (TPM2_CC_RSA_Encrypt, ''RSA_Encrypt''),
     (TPM2_CC_StartAuthSession, ''StartAuthSession''),
     (TPM2_CC_VerifySignature, ''VerifySignature''),
     (TPM2_CC_ECC_Parameters, ''ECC_Parameters''),
     (TPM2_CC_FirmwareRead, ''FirmwareRead''),
     (TPM2_CC_GetCapability, ''GetCapability''),
     (TPM2_CC_GetRandom, ''GetRandom''),
     (TPM2_CC_GetTestResult, ''GetTestResult''),
     (TPM2_CC_Hash, ''Hash''),
     (TPM2_CC_PCR_Read, ''PCR_Read''),
     (TPM2_CC_PolicyPCR, ''PolicyPCR''),
     (TPM2_CC_PolicyRestart, ''PolicyRestart''),
     (TPM2_CC_ReadClock, ''ReadClock''),
     (TPM2_CC_PCR_Extend, ''PCR_Extend''),
     (TPM2_CC_PCR_SetAuthValue, ''PCR_SetAuthValue''),
     (TPM2_CC_NV_Certify, ''NV_Certify''),
     (TPM2_CC_EventSequenceComplete, ''EventSequenceComplete''),
     (TPM2_CC_HashSequenceStart, ''HashSequenceStart''),
     (TPM2_CC_PolicyPhysicalPresence, ''PolicyPhysicalPresence''),
     (TPM2_CC_PolicyDuplicationSelect, ''PolicyDuplicationSelect''),
     (TPM2_CC_PolicyGetDigest, ''PolicyGetDigest''),
     (TPM2_CC_TestParms, ''TestParms''),
     (TPM2_CC_Commit, ''Commit''),
     (TPM2_CC_PolicyPassword, ''PolicyPassword''),
     (TPM2_CC_ZGen_2Phase, ''ZGen_2Phase''),
     (TPM2_CC_EC_Ephemeral, ''EC_Ephemeral''),
     (TPM2_CC_PolicyNvWritten, ''PolicyNvWritten''),
     (TPM2_CC_PolicyTemplate, ''PolicyTemplate''),
     (TPM2_CC_CreateLoaded, ''CreateLoaded''),
     (TPM2_CC_PolicyAuthorizeNV, ''PolicyAuthorizeNV''),
     (TPM2_CC_EncryptDecrypt2, ''EncryptDecrypt2''),
     (TPM2_CC_Vendor_TCG_Test, ''Vendor_TCG_Test'')]"

definition ifapi_json_TPM2_CC_serialize :: "('j, 'w) json_c \<Rightarrow> UINT32 \<Rightarrow> ('j, 'w) ser" where
  "ifapi_json_TPM2_CC_serialize J inn =
     const_serialize J TPM2_CC_serialize_tab inn"

definition TPM2_EO_serialize_tab :: "(UINT16 \<times> string) list" where
  "TPM2_EO_serialize_tab =
    [(TPM2_EO_EQ, ''EQ''),
     (TPM2_EO_NEQ, ''TPM2_EO_NEQ''),
     (TPM2_EO_SIGNED_GT, ''SIGNED_GT''),
     (TPM2_EO_UNSIGNED_GT, ''UNSIGNED_GT''),
     (TPM2_EO_SIGNED_LT, ''SIGNED_LT''),
     (TPM2_EO_UNSIGNED_LT, ''UNSIGNED_LT''),
     (TPM2_EO_SIGNED_GE, ''SIGNED_GE''),
     (TPM2_EO_UNSIGNED_GE, ''UNSIGNED_GE''),
     (TPM2_EO_SIGNED_LE, ''SIGNED_LE''),
     (TPM2_EO_UNSIGNED_LE, ''UNSIGNED_LE''),
     (TPM2_EO_BITSET, ''BITSET''),
     (TPM2_EO_BITCLEAR, ''BITCLEAR'')]"

definition ifapi_json_TPM2_EO_serialize :: "('j, 'w) json_c \<Rightarrow> UINT16 \<Rightarrow> ('j, 'w) ser" where
  "ifapi_json_TPM2_EO_serialize J inn =
     const_serialize J TPM2_EO_serialize_tab inn"

definition TPM2_ST_serialize_tab :: "(UINT16 \<times> string) list" where
  "TPM2_ST_serialize_tab =
    [(TPM2_ST_RSP_COMMAND, ''RSP_COMMAND''),
     (TPM2_ST_NULL, ''NULL''),
     (TPM2_ST_NO_SESSIONS, ''NO_SESSIONS''),
     (TPM2_ST_SESSIONS, ''SESSIONS''),
     (TPM2_ST_ATTEST_NV, ''ATTEST_NV''),
     (TPM2_ST_ATTEST_COMMAND_AUDIT, ''ATTEST_COMMAND_AUDIT''),
     (TPM2_ST_ATTEST_SESSION_AUDIT, ''ATTEST_SESSION_AUDIT''),
     (TPM2_ST_ATTEST_CERTIFY, ''ATTEST_CERTIFY''),
     (TPM2_ST_ATTEST_QUOTE, ''ATTEST_QUOTE''),
     (TPM2_ST_ATTEST_TIME, ''ATTEST_TIME''),
     (TPM2_ST_ATTEST_CREATION, ''ATTEST_CREATION''),
     (TPM2_ST_CREATION, ''CREATION''),
     (TPM2_ST_VERIFIED, ''VERIFIED''),
     (TPM2_ST_AUTH_SECRET, ''AUTH_SECRET''),
     (TPM2_ST_HASHCHECK, ''HASHCHECK''),
     (TPM2_ST_AUTH_SIGNED, ''AUTH_SIGNED''),
     (TPM2_ST_FU_MANIFEST, ''FU_MANIFEST'')]"

definition ifapi_json_TPM2_ST_serialize :: "('j, 'w) json_c \<Rightarrow> UINT16 \<Rightarrow> ('j, 'w) ser" where
  "ifapi_json_TPM2_ST_serialize J inn =
     const_serialize J TPM2_ST_serialize_tab inn"

definition TPM2_CAP_serialize_tab :: "(UINT32 \<times> string) list" where
  "TPM2_CAP_serialize_tab =
    [(TPM2_CAP_ALGS, ''ALGS''),
     (TPM2_CAP_HANDLES, ''HANDLES''),
     (TPM2_CAP_COMMANDS, ''COMMANDS''),
     (TPM2_CAP_PP_COMMANDS, ''PP_COMMANDS''),
     (TPM2_CAP_AUDIT_COMMANDS, ''AUDIT_COMMANDS''),
     (TPM2_CAP_PCRS, ''PCRS''),
     (TPM2_CAP_TPM_PROPERTIES, ''TPM_PROPERTIES''),
     (TPM2_CAP_PCR_PROPERTIES, ''PCR_PROPERTIES''),
     (TPM2_CAP_ECC_CURVES, ''ECC_CURVES''),
     (TPM2_CAP_AUTH_POLICIES, ''AUTH_POLICIES''),
     (TPM2_CAP_ACT, ''ACT''),
     (TPM2_CAP_LAST, ''LAST''),
     (TPM2_CAP_VENDOR_PROPERTY, ''VENDOR_PROPERTY'')]"

definition ifapi_json_TPM2_CAP_serialize :: "('j, 'w) json_c \<Rightarrow> UINT32 \<Rightarrow> ('j, 'w) ser" where
  "ifapi_json_TPM2_CAP_serialize J inn =
     const_serialize J TPM2_CAP_serialize_tab inn"

definition TPM2_PT_serialize_tab :: "(UINT32 \<times> string) list" where
  "TPM2_PT_serialize_tab =
    [(TPM2_PT_NONE, ''NONE''),
     (TPM2_PT_GROUP, ''GROUP''),
     (TPM2_PT_FAMILY_INDICATOR, ''FAMILY_INDICATOR''),
     (TPM2_PT_LEVEL, ''LEVEL''),
     (TPM2_PT_REVISION, ''REVISION''),
     (TPM2_PT_DAY_OF_YEAR, ''DAY_OF_YEAR''),
     (TPM2_PT_YEAR, ''YEAR''),
     (TPM2_PT_MANUFACTURER, ''MANUFACTURER''),
     (TPM2_PT_VENDOR_STRING_1, ''VENDOR_STRING_1''),
     (TPM2_PT_VENDOR_STRING_2, ''VENDOR_STRING_2''),
     (TPM2_PT_VENDOR_STRING_3, ''VENDOR_STRING_3''),
     (TPM2_PT_VENDOR_STRING_4, ''VENDOR_STRING_4''),
     (TPM2_PT_VENDOR_TPM_TYPE, ''VENDOR_TPM_TYPE''),
     (TPM2_PT_FIRMWARE_VERSION_1, ''FIRMWARE_VERSION_1''),
     (TPM2_PT_FIRMWARE_VERSION_2, ''FIRMWARE_VERSION_2''),
     (TPM2_PT_INPUT_BUFFER, ''INPUT_BUFFER''),
     (TPM2_PT_HR_TRANSIENT_MIN, ''HR_TRANSIENT_MIN''),
     (TPM2_PT_HR_PERSISTENT_MIN, ''HR_PERSISTENT_MIN''),
     (TPM2_PT_HR_LOADED_MIN, ''HR_LOADED_MIN''),
     (TPM2_PT_ACTIVE_SESSIONS_MAX, ''ACTIVE_SESSIONS_MAX''),
     (TPM2_PT_PCR_COUNT, ''PCR_COUNT''),
     (TPM2_PT_PCR_SELECT_MIN, ''PCR_SELECT_MIN''),
     (TPM2_PT_CONTEXT_GAP_MAX, ''CONTEXT_GAP_MAX''),
     (TPM2_PT_NV_COUNTERS_MAX, ''NV_COUNTERS_MAX''),
     (TPM2_PT_NV_INDEX_MAX, ''NV_INDEX_MAX''),
     (TPM2_PT_MEMORY, ''MEMORY''),
     (TPM2_PT_CLOCK_UPDATE, ''CLOCK_UPDATE''),
     (TPM2_PT_CONTEXT_HASH, ''CONTEXT_HASH''),
     (TPM2_PT_CONTEXT_SYM, ''CONTEXT_SYM''),
     (TPM2_PT_CONTEXT_SYM_SIZE, ''CONTEXT_SYM_SIZE''),
     (TPM2_PT_ORDERLY_COUNT, ''ORDERLY_COUNT''),
     (TPM2_PT_MAX_COMMAND_SIZE, ''MAX_COMMAND_SIZE''),
     (TPM2_PT_MAX_RESPONSE_SIZE, ''MAX_RESPONSE_SIZE''),
     (TPM2_PT_MAX_DIGEST, ''MAX_DIGEST''),
     (TPM2_PT_MAX_OBJECT_CONTEXT, ''MAX_OBJECT_CONTEXT''),
     (TPM2_PT_MAX_SESSION_CONTEXT, ''MAX_SESSION_CONTEXT''),
     (TPM2_PT_PS_FAMILY_INDICATOR, ''PS_FAMILY_INDICATOR''),
     (TPM2_PT_PS_LEVEL, ''PS_LEVEL''),
     (TPM2_PT_PS_REVISION, ''PS_REVISION''),
     (TPM2_PT_PS_DAY_OF_YEAR, ''PS_DAY_OF_YEAR''),
     (TPM2_PT_PS_YEAR, ''PS_YEAR''),
     (TPM2_PT_SPLIT_MAX, ''SPLIT_MAX''),
     (TPM2_PT_TOTAL_COMMANDS, ''TOTAL_COMMANDS''),
     (TPM2_PT_LIBRARY_COMMANDS, ''LIBRARY_COMMANDS''),
     (TPM2_PT_VENDOR_COMMANDS, ''VENDOR_COMMANDS''),
     (TPM2_PT_NV_BUFFER_MAX, ''NV_BUFFER_MAX''),
     (TPM2_PT_MODES, ''MODES''),
     (TPM2_PT_MAX_CAP_BUFFER, ''MAX_CAP_BUFFER''),
     (TPM2_PT_PERMANENT, ''PERMANENT''),
     (TPM2_PT_STARTUP_CLEAR, ''STARTUP_CLEAR''),
     (TPM2_PT_HR_NV_INDEX, ''HR_NV_INDEX''),
     (TPM2_PT_HR_LOADED, ''HR_LOADED''),
     (TPM2_PT_HR_LOADED_AVAIL, ''HR_LOADED_AVAIL''),
     (TPM2_PT_HR_ACTIVE, ''HR_ACTIVE''),
     (TPM2_PT_HR_ACTIVE_AVAIL, ''HR_ACTIVE_AVAIL''),
     (TPM2_PT_HR_TRANSIENT_AVAIL, ''HR_TRANSIENT_AVAIL''),
     (TPM2_PT_HR_PERSISTENT, ''HR_PERSISTENT''),
     (TPM2_PT_HR_PERSISTENT_AVAIL, ''HR_PERSISTENT_AVAIL''),
     (TPM2_PT_NV_COUNTERS, ''NV_COUNTERS''),
     (TPM2_PT_NV_COUNTERS_AVAIL, ''NV_COUNTERS_AVAIL''),
     (TPM2_PT_ALGORITHM_SET, ''ALGORITHM_SET''),
     (TPM2_PT_LOADED_CURVES, ''LOADED_CURVES''),
     (TPM2_PT_LOCKOUT_COUNTER, ''LOCKOUT_COUNTER''),
     (TPM2_PT_MAX_AUTH_FAIL, ''MAX_AUTH_FAIL''),
     (TPM2_PT_LOCKOUT_INTERVAL, ''LOCKOUT_INTERVAL''),
     (TPM2_PT_LOCKOUT_RECOVERY, ''LOCKOUT_RECOVERY''),
     (TPM2_PT_NV_WRITE_RECOVERY, ''NV_WRITE_RECOVERY''),
     (TPM2_PT_AUDIT_COUNTER_0, ''AUDIT_COUNTER_0''),
     (TPM2_PT_AUDIT_COUNTER_1, ''AUDIT_COUNTER_1'')]"

definition ifapi_json_TPM2_PT_serialize :: "('j, 'w) json_c \<Rightarrow> UINT32 \<Rightarrow> ('j, 'w) ser" where
  "ifapi_json_TPM2_PT_serialize J inn =
     const_serialize J TPM2_PT_serialize_tab inn"

definition TPMA_ALGORITHM_serialize_tab :: "(UINT32 \<times> string) list" where
  "TPMA_ALGORITHM_serialize_tab =
    [(TPMA_ALGORITHM_ASYMMETRIC, ''asymmetric''),
     (TPMA_ALGORITHM_SYMMETRIC, ''symmetric''),
     (TPMA_ALGORITHM_HASH, ''hash''),
     (TPMA_ALGORITHM_OBJECT, ''object''),
     (TPMA_ALGORITHM_SIGNING, ''signing''),
     (TPMA_ALGORITHM_ENCRYPTING, ''encrypting''),
     (TPMA_ALGORITHM_METHOD, ''method'')]"

definition ifapi_json_TPMA_ALGORITHM_serialize :: "('j, 'w) json_c \<Rightarrow> UINT32 \<Rightarrow> ('j, 'w) ser" where
  "ifapi_json_TPMA_ALGORITHM_serialize J inn =
     new_object_if_null J (or_memory (object_fields J
        (flag_fields J TPMA_ALGORITHM_serialize_tab inn)))"

definition TPMA_OBJECT_serialize_tab :: "(UINT32 \<times> string) list" where
  "TPMA_OBJECT_serialize_tab =
    [(TPMA_OBJECT_FIXEDTPM, ''fixedTPM''),
     (TPMA_OBJECT_STCLEAR, ''stClear''),
     (TPMA_OBJECT_FIXEDPARENT, ''fixedParent''),
     (TPMA_OBJECT_SENSITIVEDATAORIGIN, ''sensitiveDataOrigin''),
     (TPMA_OBJECT_USERWITHAUTH, ''userWithAuth''),
     (TPMA_OBJECT_ADMINWITHPOLICY, ''adminWithPolicy''),
     (TPMA_OBJECT_NODA, ''noDA''),
     (TPMA_OBJECT_ENCRYPTEDDUPLICATION, ''encryptedDuplication''),
     (TPMA_OBJECT_RESTRICTED, ''restricted''),
     (TPMA_OBJECT_DECRYPT, ''decrypt''),
     (TPMA_OBJECT_SIGN_ENCRYPT, ''sign'')]"

definition ifapi_json_TPMA_OBJECT_serialize :: "('j, 'w) json_c \<Rightarrow> UINT32 \<Rightarrow> ('j, 'w) ser" where
  "ifapi_json_TPMA_OBJECT_serialize J inn =
     new_object_if_null J (or_memory (object_fields J
        (flag_fields J TPMA_OBJECT_serialize_tab inn)))"

definition TPMA_LOCALITY_serialize_tab :: "(UINT8 \<times> string) list" where
  "TPMA_LOCALITY_serialize_tab =
    [(TPMA_LOCALITY_TPM2_LOC_ZERO, ''ZERO''),
     (TPMA_LOCALITY_TPM2_LOC_ONE, ''ONE''),
     (TPMA_LOCALITY_TPM2_LOC_TWO, ''TWO''),
     (TPMA_LOCALITY_TPM2_LOC_THREE, ''THREE''),
     (TPMA_LOCALITY_TPM2_LOC_FOUR, ''FOUR'')]"

definition ifapi_json_TPMA_LOCALITY_serialize :: "('j, 'w) json_c \<Rightarrow> UINT8 \<Rightarrow> ('j, 'w) ser" where
  "ifapi_json_TPMA_LOCALITY_serialize J inn =
     new_object_if_null J (or_memory (object_fields J
        (flag_fields J TPMA_LOCALITY_serialize_tab inn @
         [(''Extended'', int64_field J (ucast (drop_bit 5 (TPMA_LOCALITY_EXTENDED_MASK AND inn))))])))"

definition TPMA_CC_serialize_tab :: "(UINT32 \<times> string) list" where
  "TPMA_CC_serialize_tab =
    [(TPMA_CC_NV, ''nv''),
     (TPMA_CC_EXTENSIVE, ''extensive''),
     (TPMA_CC_FLUSHED, ''flushed''),
     (TPMA_CC_RHANDLE, ''rHandle''),
     (TPMA_CC_V, ''V'')]"

definition ifapi_json_TPMA_CC_serialize :: "('j, 'w) json_c \<Rightarrow> UINT32 \<Rightarrow> ('j, 'w) ser" where
  "ifapi_json_TPMA_CC_serialize J inn =
     new_object_if_null J (or_memory (object_fields J
        (flag_fields J TPMA_CC_serialize_tab inn @
         [(''commandIndex'', int64_field J (ucast (drop_bit 0 (TPMA_CC_COMMANDINDEX_MASK AND inn)))),
          (''cHandles'', int64_field J (ucast (drop_bit 25 (TPMA_CC_CHANDLES_MASK AND inn)))),
          (''Res'', int64_field J (ucast (drop_bit 30 (TPMA_CC_RES_MASK AND inn))))])))"

definition ifapi_json_TPMI_YES_NO_serialize :: "('j, 'w) json_c \<Rightarrow> UINT8 \<Rightarrow> ('j, 'w) ser" where
  "ifapi_json_TPMI_YES_NO_serialize J inn =
     (if inn = 1 then created TSS2_FAPI_RC_MEMORY (json_object_new_string J ''YES'')
      else if inn = 0 then created TSS2_FAPI_RC_MEMORY (json_object_new_string J ''NO'')
      else ser_return TSS2_FAPI_RC_BAD_VALUE)"

definition TPMI_RH_HIERARCHY_serialize_tab :: "(UINT32 \<times> string) list" where
  "TPMI_RH_HIERARCHY_serialize_tab =
    [(TPM2_RH_OWNER, ''OWNER''),
     (TPM2_RH_PLATFORM, ''PLATFORM''),
     (TPM2_RH_ENDORSEMENT, ''ENDORSEMENT''),
     (TPM2_RH_NULL, ''NULL'')]"

definition ifapi_json_TPMI_RH_HIERARCHY_serialize :: "('j, 'w) json_c \<Rightarrow> UINT32 \<Rightarrow> ('j, 'w) ser" where
  "ifapi_json_TPMI_RH_HIERARCHY_serialize J inn =
     const_serialize J TPMI_RH_HIERARCHY_serialize_tab inn"

definition ifapi_json_TPMI_RH_NV_INDEX_serialize :: "('j, 'w) json_c \<Rightarrow> UINT32 \<Rightarrow> ('j, 'w) ser" where
  "ifapi_json_TPMI_RH_NV_INDEX_serialize J inn =
     (if TPM2_NV_INDEX_FIRST \<le> inn \<and> inn \<le> TPM2_NV_INDEX_LAST
      then created TSS2_FAPI_RC_MEMORY (json_object_new_int64 J (ucast inn))
      else ser_return TSS2_FAPI_RC_BAD_VALUE)"

definition ifapi_json_TPMI_ALG_SYM_OBJECT_serialize :: "('j, 'w) json_c \<Rightarrow> UINT16 \<Rightarrow> ('j, 'w) ser" where
  "ifapi_json_TPMI_ALG_SYM_OBJECT_serialize J inn =
     CHECK_IN_LIST inn
       [TPM2_ALG_AES,
        TPM2_ALG_CAMELLIA,
        TPM2_ALG_SM4,
        TPM2_ALG_NULL]
       (ifapi_json_TPM2_ALG_ID_serialize J inn)"

definition ifapi_json_TPMI_ALG_SYM_MODE_serialize :: "('j, 'w) json_c \<Rightarrow> UINT16 \<Rightarrow> ('j, 'w) ser" where
  "ifapi_json_TPMI_ALG_SYM_MODE_serialize J inn =
     CHECK_IN_LIST inn
       [TPM2_ALG_CTR,
        TPM2_ALG_OFB,
        TPM2_ALG_CBC,
        TPM2_ALG_CFB,
        TPM2_ALG_ECB,
        TPM2_ALG_NULL]
       (ifapi_json_TPM2_ALG_ID_serialize J inn)"

definition ifapi_json_TPMI_ALG_CIPHER_MODE_serialize :: "('j, 'w) json_c \<Rightarrow> UINT16 \<Rightarrow> ('j, 'w) ser" where
  "ifapi_json_TPMI_ALG_CIPHER_MODE_serialize J inn =
     CHECK_IN_LIST inn
       [TPM2_ALG_CTR,
        TPM2_ALG_OFB,
        TPM2_ALG_CBC,
        TPM2_ALG_CFB,
        TPM2_ALG_ECB,
        TPM2_ALG_NULL]
       (ifapi_json_TPM2_ALG_ID_serialize J inn)"

definition ifapi_json_TPMI_ALG_KDF_serialize :: "('j, 'w) json_c \<Rightarrow> UINT16 \<Rightarrow> ('j, 'w) ser" where
  "ifapi_json_TPMI_ALG_KDF_serialize J inn =
     CHECK_IN_LIST inn
       [TPM2_ALG_MGF1,
        TPM2_ALG_KDF1_SP800_56A,
        TPM2_ALG_KDF1_SP800_108,
        TPM2_ALG_NULL]
       (ifapi_json_TPM2_ALG_ID_serialize J inn)"

definition ifapi_json_TPMI_ALG_SIG_SCHEME_serialize :: "('j, 'w) json_c \<Rightarrow> UINT16 \<Rightarrow> ('j, 'w) ser" where
  "ifapi_json_TPMI_ALG_SIG_SCHEME_serialize J inn =
     CHECK_IN_LIST inn
       [TPM2_ALG_RSASSA,
        TPM2_ALG_RSAPSS,
        TPM2_ALG_ECDSA,
        TPM2_ALG_ECDAA,
        TPM2_ALG_SM2,
        TPM2_ALG_ECSCHNORR,
        TPM2_ALG_HMAC,
        TPM2_ALG_NULL]
       (ifapi_json_TPM2_ALG_ID_serialize J inn)"

definition ifapi_json_TPMI_ST_ATTEST_serialize :: "('j, 'w) json_c \<Rightarrow> UINT16 \<Rightarrow> ('j, 'w) ser" where
  "ifapi_json_TPMI_ST_ATTEST_serialize J inn =
     CHECK_IN_LIST inn
       [TPM2_ST_ATTEST_CERTIFY,
        TPM2_ST_ATTEST_QUOTE,
        TPM2_ST_ATTEST_SESSION_AUDIT,
        TPM2_ST_ATTEST_COMMAND_AUDIT,
        TPM2_ST_ATTEST_TIME,
        TPM2_ST_ATTEST_CREATION,
        TPM2_ST_ATTEST_NV]
       (ifapi_json_TPM2_ST_serialize J inn)"

definition ifapi_json_TPMI_SM4_KEY_BITS_serialize :: "('j, 'w) json_c \<Rightarrow> UINT16 \<Rightarrow> ('j, 'w) ser" where
  "ifapi_json_TPMI_SM4_KEY_BITS_serialize J inn =
     CHECK_IN_LIST inn
       [128]
       (ifapi_json_UINT16_serialize J inn)"

definition ifapi_json_TPMI_CAMELLIA_KEY_BITS_serialize :: "('j, 'w) json_c \<Rightarrow> UINT16 \<Rightarrow> ('j, 'w) ser" where
  "ifapi_json_TPMI_CAMELLIA_KEY_BITS_serialize J inn =
     CHECK_IN_LIST inn
       [128,
        192,
        256]
       (ifapi_json_UINT16_serialize J inn)"

definition ifapi_json_TPMI_AES_KEY_BITS_serialize :: "('j, 'w) json_c \<Rightarrow> UINT16 \<Rightarrow> ('j, 'w) ser" where
  "ifapi_json_TPMI_AES_KEY_BITS_serialize J inn =
     CHECK_IN_LIST inn
       [128,
        192,
        256]
       (ifapi_json_UINT16_serialize J inn)"

definition ifapi_json_TPMI_ALG_KEYEDHASH_SCHEME_serialize :: "('j, 'w) json_c \<Rightarrow> UINT16 \<Rightarrow> ('j, 'w) ser" where
  "ifapi_json_TPMI_ALG_KEYEDHASH_SCHEME_serialize J inn =
     CHECK_IN_LIST inn
       [TPM2_ALG_HMAC,
        TPM2_ALG_XOR,
        TPM2_ALG_NULL]
       (ifapi_json_TPM2_ALG_ID_serialize J inn)"

definition ifapi_json_TPMI_ALG_ASYM_SCHEME_serialize :: "('j, 'w) json_c \<Rightarrow> UINT16 \<Rightarrow> ('j, 'w) ser" where
  "ifapi_json_TPMI_ALG_ASYM_SCHEME_serialize J inn =
     CHECK_IN_LIST inn
       [TPM2_ALG_ECDH,
        TPM2_ALG_RSASSA,
        TPM2_ALG_RSAPSS,
        TPM2_ALG_ECDSA,
        TPM2_ALG_ECDAA,
        TPM2_ALG_SM2,
        TPM2_ALG_ECSCHNORR,
        TPM2_ALG_RSAES,
        TPM2_ALG_OAEP,
        TPM2_ALG_NULL]
       (ifapi_json_TPM2_ALG_ID_serialize J inn)"

definition ifapi_json_TPMI_ALG_RSA_SCHEME_serialize :: "('j, 'w) json_c \<Rightarrow> UINT16 \<Rightarrow> ('j, 'w) ser" where
  "ifapi_json_TPMI_ALG_RSA_SCHEME_serialize J inn =
     CHECK_IN_LIST inn
       [TPM2_ALG_RSAES,
        TPM2_ALG_OAEP,
        TPM2_ALG_RSASSA,
        TPM2_ALG_RSAPSS,
        TPM2_ALG_NULL]
       (ifapi_json_TPM2_ALG_ID_serialize J inn)"

definition ifapi_json_TPMI_RSA_KEY_BITS_serialize :: "('j, 'w) json_c \<Rightarrow> UINT16 \<Rightarrow> ('j, 'w) ser" where
  "ifapi_json_TPMI_RSA_KEY_BITS_serialize J inn =
     CHECK_IN_LIST inn
       [1024,
        2048,
        3072,
        4096]
       (ifapi_json_UINT16_serialize J inn)"

definition ifapi_json_TPMI_ALG_ECC_SCHEME_serialize :: "('j, 'w) json_c \<Rightarrow> UINT16 \<Rightarrow> ('j, 'w) ser" where
  "ifapi_json_TPMI_ALG_ECC_SCHEME_serialize J inn =
     CHECK_IN_LIST inn
       [TPM2_ALG_ECDSA,
        TPM2_ALG_ECDAA,
        TPM2_ALG_SM2,
        TPM2_ALG_ECSCHNORR,
        TPM2_ALG_ECDH,
        TPM2_ALG_NULL]
       (ifapi_json_TPM2_ALG_ID_serialize J inn)"

definition ifapi_json_TPMI_ECC_CURVE_serialize :: "('j, 'w) json_c \<Rightarrow> UINT16 \<Rightarrow> ('j, 'w) ser" where
  "ifapi_json_TPMI_ECC_CURVE_serialize J inn =
     ifapi_json_TPM2_ECC_CURVE_serialize J inn"

definition ifapi_json_TPMI_ALG_PUBLIC_serialize :: "('j, 'w) json_c \<Rightarrow> UINT16 \<Rightarrow> ('j, 'w) ser" where
  "ifapi_json_TPMI_ALG_PUBLIC_serialize J inn =
     CHECK_IN_LIST inn
       [TPM2_ALG_RSA,
        TPM2_ALG_KEYEDHASH,
        TPM2_ALG_ECC,
        TPM2_ALG_SYMCIPHER,
        TPM2_ALG_NULL]
       (ifapi_json_TPM2_ALG_ID_serialize J inn)"

definition TPM2_NT_serialize_tab :: "(UINT8 \<times> string) list" where
  "TPM2_NT_serialize_tab =
    [(TPM2_NT_ORDINARY, ''ORDINARY''),
     (TPM2_NT_COUNTER, ''COUNTER''),
     (TPM2_NT_BITS, ''BITS''),
     (TPM2_NT_EXTEND, ''EXTEND''),
     (TPM2_NT_PIN_FAIL, ''PIN_FAIL''),
     (TPM2_NT_PIN_PASS, ''PIN_PASS'')]"

definition ifapi_json_TPM2_NT_serialize :: "('j, 'w) json_c \<Rightarrow> UINT8 \<Rightarrow> ('j, 'w) ser" where
  "ifapi_json_TPM2_NT_serialize J inn =
     const_serialize J TPM2_NT_serialize_tab inn"

definition TPMA_NV_serialize_tab :: "(UINT32 \<times> string) list" where
  "TPMA_NV_serialize_tab =
    [(TPMA_NV_PPWRITE, ''PPWRITE''),
     (TPMA_NV_OWNERWRITE, ''OWNERWRITE''),
     (TPMA_NV_AUTHWRITE, ''AUTHWRITE''),
     (TPMA_NV_POLICYWRITE, ''POLICYWRITE''),
     (TPMA_NV_POLICY_DELETE, ''POLICY_DELETE''),
     (TPMA_NV_WRITELOCKED, ''WRITELOCKED''),
     (TPMA_NV_WRITEALL, ''WRITEALL''),
     (TPMA_NV_WRITEDEFINE, ''WRITEDEFINE''),
     (TPMA_NV_WRITE_STCLEAR, ''WRITE_STCLEAR''),
     (TPMA_NV_GLOBALLOCK, ''GLOBALLOCK''),
     (TPMA_NV_PPREAD, ''PPREAD''),
     (TPMA_NV_OWNERREAD, ''OWNERREAD''),
     (TPMA_NV_AUTHREAD, ''AUTHREAD''),
     (TPMA_NV_POLICYREAD, ''POLICYREAD''),
     (TPMA_NV_NO_DA, ''NO_DA''),
     (TPMA_NV_ORDERLY, ''ORDERLY''),
     (TPMA_NV_CLEAR_STCLEAR, ''CLEAR_STCLEAR''),
     (TPMA_NV_READLOCKED, ''READLOCKED''),
     (TPMA_NV_WRITTEN, ''WRITTEN''),
     (TPMA_NV_PLATFORMCREATE, ''PLATFORMCREATE''),
     (TPMA_NV_READ_STCLEAR, ''READ_STCLEAR'')]"

definition ifapi_json_TPMA_NV_serialize :: "('j, 'w) json_c \<Rightarrow> UINT32 \<Rightarrow> ('j, 'w) ser" where
  "ifapi_json_TPMA_NV_serialize J inn =
     new_object_if_null J (or_memory (object_fields J
        (flag_fields J TPMA_NV_serialize_tab inn @
         [(''TPM2_NT'', ifapi_json_TPM2_NT_serialize J (ucast (drop_bit 4 (TPMA_NV_TPM2_NT_MASK AND inn))))])))"

end
