(* ===== verification/Fapi_Des_Values.thy ===== *)
theory Fapi_Des_Values
  imports Fapi_Deserialize Fapi_Json
begin

text \<open>
  \<open>tpm_json_deserialize.c\<close>, constants, interface types and attributes.
\<close>

definition ifapi_json_TPMS_EMPTY_deserialize :: "('j, 'w) json_c \<Rightarrow> ('j, TPMS_EMPTY) des" where
  "ifapi_json_TPMS_EMPTY_deserialize J = nothing"

definition ifapi_json_UINT16_deserialize :: "('j, 'w) json_c \<Rightarrow> ('j, UINT16) des" where
  "ifapi_json_UINT16_deserialize J =
     int_deserialize J"

definition TPM2_ALG_ID_deserialize_tab :: "(UINT16 \<times> string) list" where
  "TPM2_ALG_ID_deserialize_tab =
    [(TPM2_ALG_ERROR, ''ERROR''),
     (TPM2_ALG_RSA, ''RSA''),
     (TPM2_ALG_SHA, ''SHA''),
     (TPM2_ALG_SHA1, ''SHA1''),
     (TPM2_ALG_HMAC, ''HMAC''),
     (TPM2_ALG_AES, ''AES''),
     (TPM2_ALG_MGF1, ''MGF1''),
     (TPM2_ALG_KEYEDHASH, ''KEYEDHASH''),
     (TPM2_ALG_XOR, ''XOR''),
     (TPM2_ALG_SHA256, ''SHA256''),
     (TPM2_ALG_SHA384, ''SHA384''),
     (TPM2_ALG_SHA512, ''SHA512''),
     (TPM2_ALG_NULL, ''NULL''),
     (TPM2_ALG_SM3_256, ''SM3_256''),
     (TPM2_ALG_SM4, ''SM4''),
     (TPM2_ALG_RSASSA, ''RSASSA''),
     (TPM2_ALG_RSAES, ''RSAES''),
     (TPM2_ALG_RSAPSS, ''RSAPSS''),
     (TPM2_ALG_OAEP, ''OAEP''),
     (TPM2_ALG_ECDSA, ''ECDSA''),
     (TPM2_ALG_ECDH, ''ECDH''),
     (TPM2_ALG_ECDAA, ''ECDAA''),
     (TPM2_ALG_SM2, ''SM2''),
     (TPM2_ALG_ECSCHNORR, ''ECSCHNORR''),
     (TPM2_ALG_ECMQV, ''ECMQV''),
     (TPM2_ALG_KDF1_SP800_56A, ''KDF1_SP800_56A''),
     (TPM2_ALG_KDF2, ''KDF2''),
     (TPM2_ALG_KDF1_SP800_108, ''KDF1_SP800_108''),
     (TPM2_ALG_ECC, ''ECC''),
     (TPM2_ALG_SYMCIPHER, ''SYMCIPHER''),
     (TPM2_ALG_CAMELLIA, ''CAMELLIA''),
     (TPM2_ALG_CTR, ''CTR''),
     (TPM2_ALG_OFB, ''OFB''),
     (TPM2_ALG_CBC, ''CBC''),
     (TPM2_ALG_CFB, ''CFB''),
     (TPM2_ALG_ECB, ''ECB'')]"

definition ifapi_json_TPM2_ALG_ID_deserialize :: "('j, 'w) json_c \<Rightarrow> ('j, UINT16) des" where
  "ifapi_json_TPM2_ALG_ID_deserialize J =
     const_deserialize J [''TPM_'', ''TPM2_'', ''ALG_'', ''ID_''] TPM2_ALG_ID_deserialize_tab (ifapi_json_UINT16_deserialize J)"

definition ifapi_json_TPMI_ALG_HASH_deserialize :: "('j, 'w) json_c \<Rightarrow> ('j, UINT16) des" where
  "ifapi_json_TPMI_ALG_HASH_deserialize J =
     SUBTYPE_FILTER (ifapi_json_TPM2_ALG_ID_deserialize J)
       [TPM2_ALG_SHA1,
        TPM2_ALG_SHA256,
        TPM2_ALG_SHA384,
        TPM2_ALG_SHA512,
        TPM2_ALG_SM3_256,
        TPM2_ALG_NULL]"

definition ifapi_json_TPM2_HANDLE_deserialize :: "('j, 'w) json_c \<Rightarrow> ('j, UINT32) des" where
  "ifapi_json_TPM2_HANDLE_deserialize J =
     int_deserialize J"

definition ifapi_json_UINT32_deserialize :: "('j, 'w) json_c \<Rightarrow> ('j, UINT32) des" where
  "ifapi_json_UINT32_deserialize J =
     int_deserialize J"

definition TPMA_ACT_deserialize_tab :: "(UINT32 \<times> string) list" where
  "TPMA_ACT_deserialize_tab =
    [(TPMA_ACT_SIGNALED, ''signaled''),
     (TPMA_ACT_PRESERVESIGNALED, ''preserveSignaled'')]"

definition ifapi_json_TPMA_ACT_deserialize :: "('j, 'w) json_c \<Rightarrow> ('j, UINT32) des" where
  "ifapi_json_TPMA_ACT_deserialize J =
     flags_deserialize J [''TPM_'', ''TPM2_'', ''TPMA_'', ''ACT_''] [''TPM_'', ''TPM2_'', ''TPMA_'', ''ACT_''] []
       TPMA_ACT_deserialize_tab (\<lambda>_ _. None) (\<lambda>_ _ _. None)"

definition ifapi_json_UINT8_deserialize :: "('j, 'w) json_c \<Rightarrow> ('j, UINT8) des" where
  "ifapi_json_UINT8_deserialize J =
     int_deserialize J"

definition ifapi_json_UINT64_deserialize :: "('j, 'w) json_c \<Rightarrow> ('j, UINT64) des" where
  "ifapi_json_UINT64_deserialize J jso out =
     (if json_object_get_type J jso = json_type_array then
        (case jso of
           None \<Rightarrow> None
         | Some j \<Rightarrow>
             if json_object_array_length J j \<noteq> 2 then Some (TSS2_FAPI_RC_BAD_VALUE, out)
             else (case ifapi_json_UINT32_deserialize J (json_object_array_get_idx J j 0) (Some 0) of
                 Some (r, Some hi) \<Rightarrow>
                   if r \<noteq> TSS2_RC_SUCCESS then Some (r, out)
                   else (case out of
                       None \<Rightarrow> None
                     | Some _ \<Rightarrow>
                         (case ifapi_json_UINT32_deserialize J (json_object_array_get_idx J j 1) (Some hi) of
                            Some (r, Some lo) \<Rightarrow>
                              if r \<noteq> TSS2_RC_SUCCESS then Some (r, Some (ucast hi * 0x100000000))
                              else Some (TSS2_RC_SUCCESS, Some (ucast hi * 0x100000000 + ucast lo))
                          | _ \<Rightarrow> None))
               | _ \<Rightarrow> None))
      else int_deserialize J jso out)"

definition TPM2_GENERATED_deserialize_tab :: "(UINT32 \<times> string) list" where
  "TPM2_GENERATED_deserialize_tab =
    [(TPM2_GENERATED_VALUE, ''VALUE'')]"

definition ifapi_json_TPM2_GENERATED_deserialize :: "('j, 'w) json_c \<Rightarrow> ('j, UINT32) des" where
  "ifapi_json_TPM2_GENERATED_deserialize J =
     const_deserialize J [''TPM_'', ''TPM2_'', ''GENERATED_''] TPM2_GENERATED_deserialize_tab
       (\<lambda>jso out.
          case ifapi_json_UINT32_deserialize J jso out of
            Some (r, Some v) \<Rightarrow>
              Some (if r \<noteq> TSS2_RC_SUCCESS then r
                    else if v \<noteq> TPM2_GENERATED_VALUE then TSS2_FAPI_RC_BAD_VALUE else TSS2_RC_SUCCESS, Some v)
          | _ \<Rightarrow> None)"

definition TPM2_ECC_CURVE_deserialize_tab :: "(UINT16 \<times> string) list" where
  "TPM2_ECC_CURVE_deserialize_tab =
    [(TPM2_ECC_NONE, ''NONE''),
     (TPM2_ECC_NIST_P192, ''NIST_P192''),
     (TPM2_ECC_NIST_P224, ''NIST_P224''),
     (TPM2_ECC_NIST_P256, ''NIST_P256''),
     (TPM2_ECC_NIST_P384, ''NIST_P384''),
     (TPM2_ECC_NIST_P521, ''NIST_P521''),
     (TPM2_ECC_BN_P256, ''BN_P256''),
     (TPM2_ECC_BN_P638, ''BN_P638''),
     (TPM2_ECC_SM2_P256, ''SM2_P256'')]"

definition ifapi_json_TPM2_ECC_CURVE_deserialize :: "('j, 'w) json_c \<Rightarrow> ('j, UINT16) des" where
  "ifapi_json_TPM2_ECC_CURVE_deserialize J =
     const_deserialize J [''TPM_'', ''TPM2_'', ''ECC_'', ''CURVE_''] TPM2_ECC_CURVE_deserialize_tab (ifapi_json_UINT16_deserialize J)"

definition TPM2_CC_deserialize_tab :: "(UINT32 \<times> string) list" where
  "TPM2_CC_deserialize_tab =
    [(TPM2_CC_FIRST, ''FIRST''),
     (TPM2_CC_NV_UndefineSpaceSpecial, ''NV_UndefineSpaceSpecial''),
     (TPM2_CC_EvictControl, ''EvictControl''),
     (TPM2_CC_HierarchyControl, ''HierarchyControl''),
     (TPM2_CC_NV_UndefineSpace, ''NV_UndefineSpace''),
     (TPM2_CC_ChangeEPS, ''ChangeEPS''),
     (TPM2_CC_ChangePPS, ''ChangePPS''),
     (TPM2_CC_Clear, ''Clear''),
     (TPM2_CC_ClearControl, ''ClearControl''),
     (TPM2_CC_ClockSet, ''ClockSet''),
     (TPM2_CC_HierarchyChangeAuth, ''HierarchyChangeAuth''),
     (TPM2_CC_NV_DefineSpace, ''NV_DefineSpace''),
     (TPM2_CC_PCR_Allocate, ''PCR_Allocate''),
     (TPM2_CC_PCR_SetAuthPolicy, ''PCR_SetAuthPolicy''),
     (TPM2_CC_PP_Commands, ''PP_Commands''),
     (TPM2_CC_SetPrimaryPolicy, ''SetPrimaryPolicy''),
     (TPM2_CC_FieldUpgradeStart, ''FieldUpgradeStart''),
     (TPM2_CC_ClockRateAdjust, ''ClockRateAdjust''),
     (TPM2_CC_CreatePrimary, ''CreatePrimary''),
     (TPM2_CC_NV_GlobalWriteLock, ''NV_GlobalWriteLock''),
     (TPM2_CC_GetCommandAuditDigest, ''GetCommandAuditDigest''),
     (TPM2_CC_NV_Increment, ''NV_Increment''),
     (TPM2_CC_NV_SetBits, ''NV_SetBits''),
     (TPM2_CC_NV_Extend, ''NV_Extend''),
     (TPM2_CC_NV_Write, ''NV_Write''),
     (TPM2_CC_NV_WriteLock, ''NV_WriteLock''),
     (TPM2_CC_DictionaryAttackLockReset, ''DictionaryAttackLockReset''),
     (TPM2_CC_DictionaryAttackParameters, ''DictionaryAttackParameters''),
     (TPM2_CC_NV_ChangeAuth, ''NV_ChangeAuth''),
     (TPM2_CC_PCR_Event, ''PCR_Event''),
     (TPM2_CC_PCR_Reset, ''PCR_Reset''),
     (TPM2_CC_SequenceComplete, ''SequenceComplete''),
     (TPM2_CC_SetAlgorithmSet, ''SetAlgorithmSet''),
     (TPM2_CC_SetCommandCodeAuditStatus, ''SetCommandCodeAuditStatus''),
     (TPM2_CC_FieldUpgradeData, ''FieldUpgradeData''),
     (TPM2_CC_IncrementalSelfTest, ''IncrementalSelfTest''),
     (TPM2_CC_SelfTest, ''SelfTest''),
     (TPM2_CC_Startup, ''Startup''),
     (TPM2_CC_Shutdown, ''Shutdown''),
     (TPM2_CC_StirRandom, ''StirRandom''),
     (TPM2_CC_ActivateCredential, ''ActivateCredential''),
     (TPM2_CC_Certify, ''Certify''),
     (TPM2_CC_PolicyNV, ''PolicyNV''),
     (TPM2_CC_CertifyCreation, ''CertifyCreation''),
     (TPM2_CC_Duplicate, ''Duplicate''),
     (TPM2_CC_GetTime, ''GetTime''),
     (TPM2_CC_GetSessionAuditDigest, ''GetSessionAuditDigest''),
     (TPM2_CC_NV_Read, ''NV_Read''),
     (TPM2_CC_NV_ReadLock, ''NV_ReadLock''),
     (TPM2_CC_ObjectChangeAuth, ''ObjectChangeAuth''),
     (TPM2_CC_PolicySecret, ''PolicySecret''),
     (TPM2_CC_Rewrap, ''Rewrap''),
     (TPM2_CC_Create, ''Create''),
     (TPM2_CC_ECDH_ZGen, ''ECDH_ZGen''),
     (TPM2_CC_HMAC, ''HMAC''),
     (TPM2_CC_Import, ''Import''),
     (TPM2_CC_Load, ''Load''),
     (TPM2_CC_Quote, ''Quote''),
     (TPM2_CC_RSA_Decrypt, ''RSA_Decrypt''),
     (TPM2_CC_HMAC_Start, ''HMAC_Start''),
     (TPM2_CC_SequenceUpdate, ''SequenceUpdate''),
     (TPM2_CC_Sign, ''Sign''),
     (TPM2_CC_Unseal, ''Unseal''),
     (TPM2_CC_PolicySigned, ''PolicySigned''),
     (TPM2_CC_ContextLoad, ''ContextLoad''),
     (TPM2_CC_ContextSave, ''ContextSave''),
     (TPM2_CC_ECDH_KeyGen, ''ECDH_KeyGen''),
     (TPM2_CC_EncryptDecrypt, ''EncryptDecrypt''),
     (TPM2_CC_FlushContext, ''FlushContext''),
     (TPM2_CC_LoadExternal, ''LoadExternal''),
     (TPM2_CC_MakeCredential, ''MakeCredential''),
     (TPM2_CC_NV_ReadPublic, ''NV_ReadPublic''),
     (TPM2_CC_PolicyAuthorize, ''PolicyAuthorize''),
     (TPM2_CC_PolicyAuthValue, ''PolicyAuthValue''),
     (TPM2_CC_PolicyCommandCode, ''PolicyCommandCode''),
     (TPM2_CC_PolicyCounterTimer, ''PolicyCounterTimer''),
     (TPM2_CC_PolicyCpHash, ''PolicyCpHash''),
     (TPM2_CC_PolicyLocality, ''PolicyLocality''),
     (TPM2_CC_PolicyNameHash, ''PolicyNameHash''),
     (TPM2_CC_PolicyOR, ''PolicyOR''),
     (TPM2_CC_PolicyTicket, ''PolicyTicket''),
     (TPM2_CC_ReadPublic, ''ReadPublic''),
     (TPM2_CC_RSA_Encrypt, ''RSA_Encrypt''),
     (TPM2_CC_StartAuthSession, ''StartAuthSession''),
     (TPM2_CC_VerifySignature, ''VerifySignature''),
     (TPM2_CC_ECC_Parameters, ''ECC_Parameters''),
     (TPM2_CC_FirmwareRead, ''FirmwareRead''),
     (TPM2_CC_GetCapability, ''GetCapability''),
     (TPM2_CC_GetRandom, ''GetRandom''),
     (TPM2_CC_GetTestResult, ''GetTestResult''),
     (TPM2_CC_Hash, ''Hash''),
     (TPM2_CC_PCR_Read, ''PCR_Read''),
     (TPM2_CC_PolicyPCR, ''PolicyPCR''),
     (TPM2_CC_PolicyRestart, ''PolicyRestart''),
     (TPM2_CC_ReadClock, ''ReadClock''),
     (TPM2_CC_PCR_Extend, ''PCR_Extend''),
     (TPM2_CC_PCR_SetAuthValue, ''PCR_SetAuthValue''),
     (TPM2_CC_NV_Certify, ''NV_Certify''),
     (TPM2_CC_EventSequenceComplete, ''EventSequenceComplete''),
     (TPM2_CC_HashSequenceStart, ''HashSequenceStart''),
     (TPM2_CC_PolicyPhysicalPresence, ''PolicyPhysicalPresence''),
     (TPM2_CC_PolicyDuplicationSelect, ''PolicyDuplicationSelect''),
     (TPM2_CC_PolicyGetDigest, ''PolicyGetDigest''),
     (TPM2_CC_TestParms, ''TestParms''),
     (TPM2_CC_Commit, ''Commit''),
     (TPM2_CC_PolicyPassword, ''PolicyPassword''),
     (TPM2_CC_ZGen_2Phase, ''ZGen_2Phase''),
     (TPM2_CC_EC_Ephemeral, ''EC_Ephemeral''),
     (TPM2_CC_PolicyNvWritten, ''PolicyNvWritten''),
     (TPM2_CC_PolicyTemplate, ''PolicyTemplate''),
     (TPM2_CC_CreateLoaded, ''CreateLoaded''),
     (TPM2_CC_PolicyAuthorizeNV, ''PolicyAuthorizeNV''),
     (TPM2_CC_EncryptDecrypt2, ''EncryptDecrypt2''),
     (TPM2_CC_LAST, ''LAST''),
     (TPM2_CC_Vendor_TCG_Test, ''Vendor_TCG_Test'')]"

definition ifapi_json_TPM2_CC_deserialize :: "('j, 'w) json_c \<Rightarrow> ('j, UINT32) des" where
  "ifapi_json_TPM2_CC_deserialize J =
     const_deserialize J [''TPM_'', ''TPM2_'', ''CC_''] TPM2_CC_deserialize_tab (ifapi_json_UINT32_deserialize J)"

definition TPM2_EO_deserialize_tab :: "(UINT16 \<times> string) list" where
  "TPM2_EO_deserialize_tab =
    [(TPM2_EO_EQ, ''EQ''),
     (TPM2_EO_NEQ, ''NEQ''),
     (TPM2_EO_SIGNED_GT, ''SIGNED_GT''),
     (TPM2_EO_UNSIGNED_GT, ''UNSIGNED_GT''),
     (TPM2_EO_SIGNED_LT, ''SIGNED_LT''),
     (TPM2_EO_UNSIGNED_LT, ''UNSIGNED_LT''),
     (TPM2_EO_SIGNED_GE, ''SIGNED_GE''),
     (TPM2_EO_UNSIGNED_GE, ''UNSIGNED_GE''),
     (TPM2_EO_SIGNED_LE, ''SIGNED_LE''),
     (TPM2_EO_UNSIGNED_LE, ''UNSIGNED_LE''),
     (TPM2_EO_BITSET, ''BITSET''),
     (TPM2_EO_BITCLEAR, ''BITCLEAR'')]"

definition ifapi_json_TPM2_EO_deserialize :: "('j, 'w) json_c \<Rightarrow> ('j, UINT16) des" where
  "ifapi_json_TPM2_EO_deserialize J =
     const_deserialize J [''TPM_'', ''TPM2_'', ''EO_''] TPM2_EO_deserialize_tab (ifapi_json_UINT16_deserialize J)"

definition TPM2_ST_deserialize_tab :: "(UINT16 \<times> string) list" where
  "TPM2_ST_deserialize_tab =
    [(TPM2_ST_RSP_COMMAND, ''RSP_COMMAND''),
     (TPM2_ST_NULL, ''NULL''),
     (TPM2_ST_NO_SESSIONS, ''NO_SESSIONS''),
     (TPM2_ST_SESSIONS, ''SESSIONS''),
     (TPM2_ST_ATTEST_NV, ''ATTEST_NV''),
     (TPM2_ST_ATTEST_COMMAND_AUDIT, ''ATTEST_COMMAND_AUDIT''),
     (TPM2_ST_ATTEST_SESSION_AUDIT, ''ATTEST_SESSION_AUDIT''),
     (TPM2_ST_ATTEST_CERTIFY, ''ATTEST_CERTIFY''),
     (TPM2_ST_ATTEST_QUOTE, ''ATTEST_QUOTE''),
     (TPM2_ST_ATTEST_TIME, ''ATTEST_TIME''),
     (TPM2_ST_ATTEST_CREATION, ''ATTEST_CREATION''),
     (TPM2_ST_CREATION, ''CREATION''),
     (TPM2_ST_VERIFIED, ''VERIFIED''),
     (TPM2_ST_AUTH_SECRET, ''AUTH_SECRET''),
     (TPM2_ST_HASHCHECK, ''HASHCHECK''),
     (TPM2_ST_AUTH_SIGNED, ''AUTH_SIGNED''),
     (TPM2_ST_FU_MANIFEST, ''FU_MANIFEST'')]"

definition ifapi_json_TPM2_ST_deserialize :: "('j, 'w) json_c \<Rightarrow> ('j, UINT16) des" where
  "ifapi_json_TPM2_ST_deserialize J =
     const_deserialize J [''TPM_'', ''TPM2_'', ''ST_''] TPM2_ST_deserialize_tab (ifapi_json_UINT16_deserialize J)"

definition TPM2_PT_PCR_deserialize_tab :: "(UINT32 \<times> string) list" where
  "TPM2_PT_PCR_deserialize_tab =
    [(TPM2_PT_TPM2_PCR_FIRST, ''FIRST''),
     (TPM2_PT_PCR_SAVE, ''SAVE''),
     (TPM2_PT_PCR_EXTEND_L0, ''EXTEND_L0''),
     (TPM2_PT_PCR_RESET_L0, ''RESET_L0''),
     (TPM2_PT_PCR_EXTEND_L1, ''EXTEND_L1''),
     (TPM2_PT_PCR_RESET_L1, ''RESET_L1''),
     (TPM2_PT_PCR_EXTEND_L2, ''EXTEND_L2''),
     (TPM2_PT_PCR_RESET_L2, ''RESET_L2''),
     (TPM2_PT_PCR_EXTEND_L3, ''EXTEND_L3''),
     (TPM2_PT_PCR_RESET_L3, ''RESET_L3''),
     (TPM2_PT_PCR_EXTEND_L4, ''EXTEND_L4''),
     (TPM2_PT_PCR_RESET_L4, ''RESET_L4''),
     (TPM2_PT_PCR_NO_INCREMENT, ''NO_INCREMENT''),
     (TPM2_PT_PCR_DRTM_RESET, ''DRTM_RESET''),
     (TPM2_PT_PCR_POLICY, ''POLICY''),
     (TPM2_PT_PCR_AUTH, ''AUTH''),
     (TPM2_PT_TPM2_PCR_LAST, ''LAST'')]"

definition ifapi_json_TPM2_PT_PCR_deserialize :: "('j, 'w) json_c \<Rightarrow> ('j, UINT32) des" where
  "ifapi_json_TPM2_PT_PCR_deserialize J =
     const_deserialize J [''TPM_'', ''TPM2_'', ''PT_'', ''PCR_''] TPM2_PT_PCR_deserialize_tab (ifapi_json_UINT32_deserialize J)"

definition TPMA_OBJECT_deserialize_tab :: "(UINT32 \<times> string) list" where
  "TPMA_OBJECT_deserialize_tab =
    [(TPMA_OBJECT_FIXEDTPM, ''fixedTPM''),
     (TPMA_OBJECT_STCLEAR, ''stClear''),
     (TPMA_OBJECT_FIXEDPARENT, ''fixedParent''),
     (TPMA_OBJECT_SENSITIVEDATAORIGIN, ''sensitiveDataOrigin''),
     (TPMA_OBJECT_USERWITHAUTH, ''userWithAuth''),
     (TPMA_OBJECT_ADMINWITHPOLICY, ''adminWithPolicy''),
     (TPMA_OBJECT_NODA, ''noDA''),
     (TPMA_OBJECT_ENCRYPTEDDUPLICATION, ''encryptedDuplication''),
     (TPMA_OBJECT_RESTRICTED, ''restricted''),
     (TPMA_OBJECT_DECRYPT, ''decrypt''),
     (TPMA_OBJECT_SIGN_ENCRYPT, ''sign'')]"

definition ifapi_json_TPMA_OBJECT_deserialize :: "('j, 'w) json_c \<Rightarrow> ('j, UINT32) des" where
  "ifapi_json_TPMA_OBJECT_deserialize J =
     flags_deserialize J [''TPM_'', ''TPM2_'', ''TPMA_'', ''OBJECT_''] [''TPM_'', ''TPM2_'', ''TPMA_'', ''OBJECT_''] []
       TPMA_OBJECT_deserialize_tab (\<lambda>_ _. None) (\<lambda>_ _ _. None)"

definition TPMA_LOCALITY_deserialize_tab :: "(UINT8 \<times> string) list" where
  "TPMA_LOCALITY_deserialize_tab =
    [(TPMA_LOCALITY_TPM2_LOC_ZERO, ''ZERO''),
     (TPMA_LOCALITY_TPM2_LOC_ONE, ''ONE''),
     (TPMA_LOCALITY_TPM2_LOC_TWO, ''TWO''),
     (TPMA_LOCALITY_TPM2_LOC_THREE, ''THREE''),
     (TPMA_LOCALITY_TPM2_LOC_FOUR, ''FOUR'')]"

definition locality_extended :: "('j, 'w) json_c \<Rightarrow> 'j option \<Rightarrow> UINT8 \<Rightarrow> (TSS2_RC \<times> UINT8) option" where
  "locality_extended J val out =
     (case get_number (json_object_get_string J val) None of
        None \<Rightarrow> None
      | Some (False, _) \<Rightarrow> Some (TSS2_FAPI_RC_BAD_VALUE, out)
      | Some (True, None) \<Rightarrow> None
      | Some (True, Some i64) \<Rightarrow>
          if sint i64 < 0 \<or> 2 ^ 58 \<le> sint i64 then None
          else if push_bit 5 i64 AND NOT (ucast TPMA_LOCALITY_EXTENDED_MASK) \<noteq> 0 then Some (TSS2_FAPI_RC_BAD_VALUE, out)
          else Some (TSS2_RC_SUCCESS, out OR ucast (push_bit 5 i64)))"

definition ifapi_json_TPMA_LOCALITY_deserialize :: "('j, 'w) json_c \<Rightarrow> ('j, UINT8) des" where
  "ifapi_json_TPMA_LOCALITY_deserialize J =
     flags_deserialize J [''TPM_'', ''TPM2_'', ''TPMA_'', ''LOCALITY_'', ''TPM2_'', ''LOC_'']
       [''TPM_'', ''TPM2_'', ''TPMA_'', ''LOCALITY_'', ''TPM2_'', ''LOC_''] []
       TPMA_LOCALITY_deserialize_tab (\<lambda>_ _. None)
       (\<lambda>token val out. if strcaseeq token ''extended'' then Some (locality_extended J val out) else None)"

definition TPMI_RH_HIERARCHY_deserialize_tab :: "(UINT32 \<times> string) list" where
  "TPMI_RH_HIERARCHY_deserialize_tab =
    [(TPM2_RH_OWNER, ''OWNER''),
     (TPM2_RH_PLATFORM, ''PLATFORM''),
     (TPM2_RH_ENDORSEMENT, ''ENDORSEMENT''),
     (TPM2_RH_NULL, ''NULL'')]"

definition ifapi_json_TPMI_RH_HIERARCHY_deserialize :: "('j, 'w) json_c \<Rightarrow> ('j, UINT32) des" where
  "ifapi_json_TPMI_RH_HIERARCHY_deserialize J =
     const_deserialize J [''TPM_'', ''TPM2_'', ''TPMI_'', ''RH_'', ''HIERARCHY_''] TPMI_RH_HIERARCHY_deserialize_tab (ifapi_json_UINT32_deserialize J)"

definition ifapi_json_TPMI_RH_NV_INDEX_deserialize :: "('j, 'w) json_c \<Rightarrow> ('j, UINT32) des" where
  "ifapi_json_TPMI_RH_NV_INDEX_deserialize J =
     ifapi_json_TPM2_HANDLE_deserialize J"

definition ifapi_json_TPMI_ALG_SYM_deserialize :: "('j, 'w) json_c \<Rightarrow> ('j, UINT16) des" where
  "ifapi_json_TPMI_ALG_SYM_deserialize J =
     SUBTYPE_FILTER (ifapi_json_TPM2_ALG_ID_deserialize J)
       [TPM2_ALG_AES,
        TPM2_ALG_CAMELLIA,
        TPM2_ALG_SM4,
        TPM2_ALG_XOR,
        TPM2_ALG_NULL]"

definition ifapi_json_TPMI_ALG_SYM_OBJECT_deserialize :: "('j, 'w) json_c \<Rightarrow> ('j, UINT16) des" where
  "ifapi_json_TPMI_ALG_SYM_OBJECT_deserialize J =
     SUBTYPE_FILTER (ifapi_json_TPM2_ALG_ID_deserialize J)
       [TPM2_ALG_AES,
        TPM2_ALG_CAMELLIA,
        TPM2_ALG_SM4,
        TPM2_ALG_NULL]"

definition ifapi_json_TPMI_ALG_SYM_MODE_deserialize :: "('j, 'w) json_c \<Rightarrow> ('j, UINT16) des" where
  "ifapi_json_TPMI_ALG_SYM_MODE_deserialize J =
     SUBTYPE_FILTER (ifapi_json_TPM2_ALG_ID_deserialize J)
       [TPM2_ALG_CTR,
        TPM2_ALG_OFB,
        TPM2_ALG_CBC,
        TPM2_ALG_CFB,
        TPM2_ALG_ECB,
        TPM2_ALG_NULL]"

definition ifapi_json_TPMI_ALG_CIPHER_MODE_deserialize :: "('j, 'w) json_c \<Rightarrow> ('j, UINT16) des" where
  "ifapi_json_TPMI_ALG_CIPHER_MODE_deserialize J =
     SUBTYPE_FILTER (ifapi_json_TPM2_ALG_ID_deserialize J)
       [TPM2_ALG_CTR,
        TPM2_ALG_OFB,
        TPM2_ALG_CBC,
        TPM2_ALG_CFB,
        TPM2_ALG_ECB,
        TPM2_ALG_NULL]"

definition ifapi_json_TPMI_ALG_KDF_deserialize :: "('j, 'w) json_c \<Rightarrow> ('j, UINT16) des" where
  "ifapi_json_TPMI_ALG_KDF_deserialize J =
     SUBTYPE_FILTER (ifapi_json_TPM2_ALG_ID_deserialize J)
       [TPM2_ALG_MGF1,
        TPM2_ALG_KDF1_SP800_56A,
        TPM2_ALG_KDF1_SP800_108,
        TPM2_ALG_NULL]"

definition ifapi_json_TPMI_ALG_SIG_SCHEME_deserialize :: "('j, 'w) json_c \<Rightarrow> ('j, UINT16) des" where
  "ifapi_json_TPMI_ALG_SIG_SCHEME_deserialize J =
     SUBTYPE_FILTER (ifapi_json_TPM2_ALG_ID_deserialize J)
       [TPM2_ALG_RSASSA,
        TPM2_ALG_RSAPSS,
        TPM2_ALG_ECDSA,
        TPM2_ALG_ECDAA,
        TPM2_ALG_SM2,
        TPM2_ALG_ECSCHNORR,
        TPM2_ALG_HMAC,
        TPM2_ALG_NULL]"

definition ifapi_json_TPMI_ST_ATTEST_deserialize :: "('j, 'w) json_c \<Rightarrow> ('j, UINT16) des" where
  "ifapi_json_TPMI_ST_ATTEST_deserialize J =
     SUBTYPE_FILTER (ifapi_json_TPM2_ST_deserialize J)
       [TPM2_ST_ATTEST_CERTIFY,
        TPM2_ST_ATTEST_QUOTE,
        TPM2_ST_ATTEST_SESSION_AUDIT,
        TPM2_ST_ATTEST_COMMAND_AUDIT,
        TPM2_ST_ATTEST_TIME,
        TPM2_ST_ATTEST_CREATION,
        TPM2_ST_ATTEST_NV]"

definition ifapi_json_TPMI_AES_KEY_BITS_deserialize :: "('j, 'w) json_c \<Rightarrow> ('j, UINT16) des" where
  "ifapi_json_TPMI_AES_KEY_BITS_deserialize J =
     SUBTYPE_FILTER (ifapi_json_UINT16_deserialize J)
       [128,
        192,
        256]"

definition ifapi_json_TPMI_CAMELLIA_KEY_BITS_deserialize :: "('j, 'w) json_c \<Rightarrow> ('j, UINT16) des" where
  "ifapi_json_TPMI_CAMELLIA_KEY_BITS_deserialize J =
     SUBTYPE_FILTER (ifapi_json_UINT16_deserialize J)
       [128,
        192,
        256]"

definition ifapi_json_TPMI_SM4_KEY_BITS_deserialize :: "('j, 'w) json_c \<Rightarrow> ('j, UINT16) des" where
  "ifapi_json_TPMI_SM4_KEY_BITS_deserialize J =
     SUBTYPE_FILTER (ifapi_json_UINT16_deserialize J)
       [128]"

definition ifapi_json_TPMI_ALG_KEYEDHASH_SCHEME_deserialize :: "('j, 'w) json_c \<Rightarrow> ('j, UINT16) des" where
  "ifapi_json_TPMI_ALG_KEYEDHASH_SCHEME_deserialize J =
     SUBTYPE_FILTER (ifapi_json_TPM2_ALG_ID_deserialize J)
       [TPM2_ALG_HMAC,
        TPM2_ALG_XOR,
        TPM2_ALG_NULL]"

definition ifapi_json_TPMI_ALG_RSA_SCHEME_deserialize :: "('j, 'w) json_c \<Rightarrow> ('j, UINT16) des" where
  "ifapi_json_TPMI_ALG_RSA_SCHEME_deserialize J =
     SUBTYPE_FILTER (ifapi_json_TPM2_ALG_ID_deserialize J)
       [TPM2_ALG_RSAES,
        TPM2_ALG_OAEP,
        TPM2_ALG_RSASSA,
        TPM2_ALG_RSAPSS,
        TPM2_ALG_NULL]"

definition ifapi_json_TPMI_ALG_RSA_DECRYPT_deserialize :: "('j, 'w) json_c \<Rightarrow> ('j, UINT16) des" where
  "ifapi_json_TPMI_ALG_RSA_DECRYPT_deserialize J =
     SUBTYPE_FILTER (ifapi_json_TPM2_ALG_ID_deserialize J)
       [TPM2_ALG_RSAES,
        TPM2_ALG_OAEP,
        TPM2_ALG_NULL]"

definition ifapi_json_TPMI_RSA_KEY_BITS_deserialize :: "('j, 'w) json_c \<Rightarrow> ('j, UINT16) des" where
  "ifapi_json_TPMI_RSA_KEY_BITS_deserialize J =
     SUBTYPE_FILTER (ifapi_json_UINT16_deserialize J)
       [1024,
        2048,
        3072,
        4096]"

definition ifapi_json_TPMI_ALG_ECC_SCHEME_deserialize :: "('j, 'w) json_c \<Rightarrow> ('j, UINT16) des" where
  "ifapi_json_TPMI_ALG_ECC_SCHEME_deserialize J =
     SUBTYPE_FILTER (ifapi_json_TPM2_ALG_ID_deserialize J)
       [TPM2_ALG_ECDSA,
        TPM2_ALG_ECDAA,
        TPM2_ALG_SM2,
        TPM2_ALG_ECSCHNORR,
        TPM2_ALG_ECDH,
        TPM2_ALG_NULL]"

definition ifapi_json_TPMI_ECC_CURVE_deserialize :: "('j, 'w) json_c \<Rightarrow> ('j, UINT16) des" where
  "ifapi_json_TPMI_ECC_CURVE_deserialize J =
     SUBTYPE_FILTER (ifapi_json_TPM2_ECC_CURVE_deserialize J)
       [TPM2_ECC_NONE,
        TPM2_ECC_NIST_P192,
        TPM2_ECC_NIST_P224,
        TPM2_ECC_NIST_P256,
        TPM2_ECC_NIST_P384,
        TPM2_ECC_NIST_P521,
        TPM2_ECC_BN_P256,
        TPM2_ECC_BN_P638,
        TPM2_ECC_SM2_P256]"

definition ifapi_json_TPMI_ALG_PUBLIC_deserialize :: "('j, 'w) json_c \<Rightarrow> ('j, UINT16) des" where
  "ifapi_json_TPMI_ALG_PUBLIC_deserialize J =
     SUBTYPE_FILTER (ifapi_json_TPM2_ALG_ID_deserialize J)
       [TPM2_ALG_RSA,
        TPM2_ALG_KEYEDHASH,
        TPM2_ALG_ECC,
        TPM2_ALG_SYMCIPHER,
        TPM2_ALG_NULL]"

definition TPM2_NT_deserialize_tab :: "(UINT8 \<times> string) list" where
  "TPM2_NT_deserialize_tab =
    [(TPM2_NT_ORDINARY, ''ORDINARY''),
     (TPM2_NT_COUNTER, ''COUNTER''),
     (TPM2_NT_BITS, ''BITS''),
     (TPM2_NT_EXTEND, ''EXTEND''),
     (TPM2_NT_PIN_FAIL, ''PIN_FAIL''),
     (TPM2_NT_PIN_PASS, ''PIN_PASS'')]"

definition ifapi_json_TPM2_NT_deserialize :: "('j, 'w) json_c \<Rightarrow> ('j, UINT8) des" where
  "ifapi_json_TPM2_NT_deserialize J =
     const_deserialize J [''TPM_'', ''TPM2_'', ''NT_''] TPM2_NT_deserialize_tab (ifapi_json_UINT8_deserialize J)"

definition TPMA_NV_deserialize_tab :: "(UINT32 \<times> string) list" where
  "TPMA_NV_deserialize_tab =
    [(TPMA_NV_PPWRITE, ''PPWRITE''),
     (TPMA_NV_OWNERWRITE, ''OWNERWRITE''),
     (TPMA_NV_AUTHWRITE, ''AUTHWRITE''),
     (TPMA_NV_POLICYWRITE, ''POLICYWRITE''),
     (TPMA_NV_POLICY_DELETE, ''POLICY_DELETE''),
     (TPMA_NV_WRITELOCKED, ''WRITELOCKED''),
     (TPMA_NV_WRITEALL, ''WRITEALL''),
     (TPMA_NV_WRITEDEFINE, ''WRITEDEFINE''),
     (TPMA_NV_WRITE_STCLEAR, ''WRITE_STCLEAR''),
     (TPMA_NV_GLOBALLOCK, ''GLOBALLOCK''),
     (TPMA_NV_PPREAD, ''PPREAD''),
     (TPMA_NV_OWNERREAD, ''OWNERREAD''),
     (TPMA_NV_AUTHREAD, ''AUTHREAD''),
     (TPMA_NV_POLICYREAD, ''POLICYREAD''),
     (TPMA_NV_NO_DA, ''NO_DA''),
     (TPMA_NV_ORDERLY, ''ORDERLY''),
     (TPMA_NV_CLEAR_STCLEAR, ''CLEAR_STCLEAR''),
     (TPMA_NV_READLOCKED, ''READLOCKED''),
     (TPMA_NV_WRITTEN, ''WRITTEN''),
     (TPMA_NV_PLATFORMCREATE, ''PLATFORMCREATE''),
     (TPMA_NV_READ_STCLEAR, ''READ_STCLEAR''),
     (push_bit 4 (ucast TPM2_NT_ORDINARY), ''ORDINARY''),
     (push_bit 4 (ucast TPM2_NT_COUNTER), ''COUNTER''),
     (push_bit 4 (ucast TPM2_NT_BITS), ''BITS''),
     (push_bit 4 (ucast TPM2_NT_EXTEND), ''EXTEND''),
     (push_bit 4 (ucast TPM2_NT_PIN_FAIL), ''PIN_FAIL''),
     (push_bit 4 (ucast TPM2_NT_PIN_PASS), ''PIN_PASS'')]"

definition nv_type :: "('j, 'w) json_c \<Rightarrow> 'j option \<Rightarrow> UINT32 \<Rightarrow> (TSS2_RC \<times> UINT32) option" where
  "nv_type J jso out =
     (case ifapi_json_TPM2_NT_deserialize J jso (Some 0) of
        Some (r, Some out2) \<Rightarrow> Some (r, if r \<noteq> TSS2_RC_SUCCESS then out else out OR push_bit 4 (ucast out2))
      | _ \<Rightarrow> None)"

definition ifapi_json_TPMA_NV_deserialize :: "('j, 'w) json_c \<Rightarrow> ('j, UINT32) des" where
  "ifapi_json_TPMA_NV_deserialize J =
     flags_deserialize J [''TPM_'', ''TPM2_'', ''TPMA_'', ''NV_'', ''TPM2_'', ''NT_'']
       [''TPM_'', ''TPM2_'', ''TPMA_'', ''NV_'', ''TPM2_''] [''NT_'']
       TPMA_NV_deserialize_tab
       (\<lambda>jso2 out.
          if json_object_get_type J jso2 = json_type_object then
            Some (case json_object_object_get_ex J jso2 ''TPM2_NT'' of
                    None \<Rightarrow> Some (TSS2_FAPI_RC_BAD_VALUE, out)
                  | Some nt \<Rightarrow> nv_type J nt out)
          else None)
       (\<lambda>token val out. if strcaseeq token ''NT'' then Some (nv_type J val out) else None)"

end
