(* ===== verification/Fapi_Codec.thy ===== *)
theory Fapi_Codec
  imports Fapi_Deserialize Fapi_Serialize Fapi_Ser_Values Fapi_Des_Values
begin

text \<open>
  Numbers and byte strings as text: what json-c prints for an integer is read back by
  \<open>get_number\<close>, and the hexadecimal digits of a byte array are read back by
  \<open>ifapi_hex_to_byte_ary\<close>.
\<close>

section \<open>Decimal numbers\<close>

lemma of_char_of_int: "(of_char (char_of n :: char) :: int) = int (n mod 256)"
  by (metis of_char_of of_nat_of_char)

lemma isdigit_char: "n < 10 \<Longrightarrow> isdigit (char_of (48 + n :: nat))"
  by (simp add: isdigit_def of_char_of_int)

lemma show_nat_digits: "list_all isdigit (show_nat n)"
proof (induction n rule: show_nat.induct)
  case (1 n)
  then show ?case
    by (subst show_nat.simps) (simp add: isdigit_char)
qed

lemma show_nat_not_Nil [simp]: "show_nat n \<noteq> []"
  by (subst show_nat.simps) simp

lemma number_value_append: "number_value b (xs @ [c]) = number_value b xs * b + digit_value c"
  by (simp add: number_value_def)

lemma number_value_show: "number_value 10 (show_nat n) = n"
proof (induction n rule: show_nat.induct)
  case (1 n)
  have d: "digit_value (char_of (48 + k)) = k" if "k < 10" for k
    using that by (simp add: digit_value_def)
  show ?case
  proof (cases "n < 10")
    case True
    then show ?thesis by (subst show_nat.simps) (simp add: number_value_def d)
  next
    case False
    with 1 show ?thesis
      by (subst show_nat.simps) (simp add: number_value_append d)
  qed
qed

lemma hd_show_nat: "isdigit (hd (show_nat n))"
  using show_nat_digits [of n] by (cases "show_nat n") (auto simp: show_nat_not_Nil)

lemma digit_char:
  assumes "isdigit c" shows "\<not> isspace c" "c \<noteq> CHR ''-''" "c \<noteq> CHR ''+''" "c \<noteq> CHR ''x''"
  using assms by (auto simp: isdigit_def isspace_def Let_def)

lemma scan_d64_digits:
  assumes "list_all isdigit ds" "ds \<noteq> []"
  shows "scan_d64 ds = Some (clamp_int64 (int (number_value 10 ds)), length ds)"
    and "scan_d64 (CHR ''-'' # ds) = Some (clamp_int64 (- int (number_value 10 ds)), Suc (length ds))"
proof -
  from assms obtain c ds' where ds: "ds = c # ds'" and c: "isdigit c" by (cases ds) auto
  have t: "takeWhile isdigit ds = ds" using assms(1) by (simp add: list_all_iff takeWhile_eq_all_conv)
  have "dropWhile isspace ds = ds" "scan_sign ds = (False, ds)" using digit_char [OF c] ds by auto
  then show "scan_d64 ds = Some (clamp_int64 (int (number_value 10 ds)), length ds)"
    using assms(2) by (simp add: scan_d64_def Let_def t)
  show "scan_d64 (CHR ''-'' # ds) = Some (clamp_int64 (- int (number_value 10 ds)), Suc (length ds))"
    using assms(2) by (simp add: scan_d64_def isspace_def Let_def t)
qed

lemma not_hex_prefix:
  assumes "list_all isdigit ds" shows "\<not> has_prefix ''0x'' ds" "\<not> has_prefix ''0x'' (CHR ''-'' # ds)"
proof -
  have "isdigit c" if "ds = x # c # r" for x c r using assms that by simp
  then show "\<not> has_prefix ''0x'' ds" using digit_char(4)
    by (cases ds; cases "tl ds") (auto simp: has_prefix_def)
qed (simp add: has_prefix_def)

lemma clamp_in_range: "- (2 ^ 63) \<le> i \<Longrightarrow> i < 2 ^ 63 \<Longrightarrow> clamp_int64 i = word_of_int i"
  by (simp add: clamp_int64_def max_absorb2 min_absorb2)

lemma get_number_show_int:
  assumes "- (2 ^ 63) \<le> i" "i < 2 ^ 63"
  shows "get_number (Some (show_int i)) num = Some (True, Some (word_of_int i))"
proof (cases "i < 0")
  case True
  have "int (number_value 10 (show_nat (nat (- i)))) = - i" using True by (simp add: number_value_show)
  then show ?thesis
    using True assms show_nat_digits [of "nat (- i)"]
    by (simp add: get_number_def show_int_def not_hex_prefix scan_d64_digits clamp_in_range Let_def)
next
  case False
  have "int (number_value 10 (show_nat (nat i))) = i" using False by (simp add: number_value_show)
  then show ?thesis
    using False assms show_nat_digits [of "nat i"]
    by (simp add: get_number_def show_int_def not_hex_prefix scan_d64_digits clamp_in_range Let_def)
qed

lemma get_number_show_uint:
  assumes "LENGTH('a::len) < 64"
  shows "get_number (Some (show_int (uint (w :: 'a word)))) num = Some (True, Some (ucast w))"
proof -
  have "uint w < 2 ^ LENGTH('a)" by (rule unsigned_less)
  also have "(2::int) ^ LENGTH('a) \<le> 2 ^ 63" using assms by (intro power_increasing) simp_all
  finally have "get_number (Some (show_int (uint w))) num = Some (True, Some (word_of_int (uint w)))"
    by (intro get_number_show_int order_trans [OF _ uint_ge_0]) simp_all
  then show ?thesis by (simp only: unsigned_ucast_eq word_of_int_uint ucast_eq)
qed

section \<open>Hexadecimal byte strings\<close>

lemma hex_digit_xdigit: "n < 16 \<Longrightarrow> isxdigit (hex_digit n)"
  by (auto simp: hex_digit_def isxdigit_def Let_def of_char_of_int)

lemma hex_digit_value: "n < 16 \<Longrightarrow> digit_value (hex_digit n) = n"
  by (auto simp: hex_digit_def digit_value_def Let_def)

lemma nibble_bounds [simp]: "unat (b :: BYTE) div 16 < 16" "unat b mod 16 < 16"
  using unsigned_less [of b] by (simp_all add: div_less_iff_less_mult)

lemma hex_byte_02x: "hex_byte (hex_digit (unat b div 16)) (Some (hex_digit (unat b mod 16))) = b"
proof -
  have "hex_byte (hex_digit (unat b div 16)) (Some (hex_digit (unat b mod 16))) =
      of_nat (unat b div 16) * 16 + of_nat (unat b mod 16)"
    by (simp add: hex_byte_def hex_digit_value)
  also have "\<dots> = of_nat (unat b div 16 * 16 + unat b mod 16)"
    by (simp only: of_nat_add of_nat_mult of_nat_numeral)
  also have "\<dots> = b" by (simp only: div_mult_mod_eq) simp
  finally show ?thesis .
qed

lemma concat_02x_Cons:
  "concat (map sprintf_02x (b # bs)) =
     hex_digit (unat b div 16) # hex_digit (unat b mod 16) # concat (map sprintf_02x bs)"
  by (simp add: sprintf_02x_def)

lemma hex_loop_02x:
  assumes "j + length bs \<le> vlen" "length val = vlen" "vlen < 2 ^ 64"
  shows "hex_loop (concat (map sprintf_02x bs)) j vlen val =
    Some (TSS2_RC_SUCCESS, take j val @ bs @ replicate (vlen - j - length bs) 0)"
  using assms
proof (induction bs arbitrary: j val)
  case Nil
  then have "unat (of_nat j :: size_t) = j" by (simp add: unat_of_nat)
  with Nil show ?case by (simp add: mem_write_def patch_def)
next
  case (Cons b bs)
  have x: "isxdigit (hex_digit (unat b div 16))" "isxdigit (hex_digit (unat b mod 16))"
    by (simp_all add: hex_digit_xdigit)
  from Cons.prems have "hex_loop (concat (map sprintf_02x bs)) (Suc j) vlen (val[j := b]) =
    Some (TSS2_RC_SUCCESS, take (Suc j) (val[j := b]) @ bs @ replicate (vlen - Suc j - length bs) 0)"
    by (intro Cons.IH) auto
  moreover have "take (Suc j) (val[j := b]) = take j val @ [b]"
    using Cons.prems by (simp add: take_Suc_conv_app_nth)
  ultimately show ?case
    using Cons.prems x by (simp add: concat_02x_Cons hex_byte_02x del: concat.simps list.map)
qed

lemma length_concat_02x: "length (concat (map sprintf_02x bs)) = 2 * length bs"
  by (induction bs) (auto simp: sprintf_02x_def)

lemma hex_not_prefixed: "\<not> has_prefix ''0x'' (concat (map sprintf_02x bs))"
proof (cases bs)
  case (Cons b bs')
  have "isxdigit (hex_digit (unat b mod 16))" by (simp add: hex_digit_xdigit)
  moreover have "\<not> isxdigit (CHR ''x'')" by (simp add: isxdigit_def)
  ultimately have "hex_digit (unat b mod 16) \<noteq> CHR ''x''" by metis
  with Cons show ?thesis by (simp add: has_prefix_def sprintf_02x_def)
qed (simp add: has_prefix_def)

lemma hex_to_byte_ary_02x:
  assumes "length bs \<le> vlen" "length val = vlen" "vlen < 2 ^ 64"
  shows "ifapi_hex_to_byte_ary (concat (map sprintf_02x bs)) vlen val =
    Some (TSS2_RC_SUCCESS, bs @ replicate (vlen - length bs) 0)"
  using assms hex_loop_02x [of 0 bs vlen val] by (simp add: ifapi_hex_to_byte_ary_def length_concat_02x)

text \<open>
  The contract between a serializer and its deserializer, for every implementation of json-c with the
  documented meaning: \<open>encodes\<close> relates a successful serializer to the JSON value it built, \<open>decodes\<close>
  says that a deserializer accepts a JSON value, whatever the destination held, and what it delivers.
  The lemmas carry the contract through the building blocks of both files.
\<close>

definition json_world :: "('j, 'w) json_c \<Rightarrow> ('j \<Rightarrow> json) \<Rightarrow> bool" where
  "json_world J V \<longleftrightarrow> json_c_builds J V \<and> json_c_reads J V"

lemma json_values_builds: "json_c_builds json_values id"
  by (simp add: json_c_builds_def json_values_def)

lemma json_of_null_or [simp]: "json_of id (null_or v) = v"
  by (simp add: null_or_def)

lemma json_of_id_iff: "json_of id j = JObject es \<longleftrightarrow> j = Some (JObject es)"
  by (cases j) auto

lemma json_values_reads: "json_c_reads json_values id"
  by (auto simp: json_c_reads_def json_values_def json_of_id_iff option.map_comp comp_def option.map_ident apsnd_compose [symmetric]
      intro!: map_idI split: option.splits)

lemma json_values_world: "json_world json_values id"
  by (simp add: json_world_def json_values_builds json_values_reads)

lemma json_worldD:
  assumes "json_world J V"
  shows "json_object_new_object J w = (Some j, w') \<Longrightarrow> V j = JObject []"
    and "json_object_new_array J w = (Some j, w') \<Longrightarrow> V j = JArray []"
    and "json_object_new_string J s w = (Some j, w') \<Longrightarrow> V j = JString s"
    and "json_object_new_int J m w = (Some j, w') \<Longrightarrow> V j = JInt (sint m)"
    and "json_object_new_int64 J n w = (Some j, w') \<Longrightarrow> V j = JInt (sint n)"
    and "V p = JObject es \<Longrightarrow> json_object_object_add J p k c w = (0, p', w') \<Longrightarrow> V p' = JObject (AList.update k (json_of V c) es)"
    and "V p = JArray xs \<Longrightarrow> json_object_array_add J p c w = (0, p', w') \<Longrightarrow> V p' = JArray (xs @ [json_of V c])"
proof -
  note w = assms [unfolded json_world_def json_c_builds_def]
  show "V j = JObject []" if "json_object_new_object J w = (Some j, w')"
    by (rule w [THEN conjunct1, THEN conjunct1, rule_format]) (use that in simp_all)
  show "V j = JArray []" if "json_object_new_array J w = (Some j, w')"
    by (rule w [THEN conjunct1, THEN conjunct2, THEN conjunct1, rule_format]) (use that in simp_all)
  show "V j = JString s" if "json_object_new_string J s w = (Some j, w')"
    by (rule w [THEN conjunct1, THEN conjunct2, THEN conjunct2, THEN conjunct1, rule_format]) (use that in simp_all)
  show "V j = JInt (sint m)" if "json_object_new_int J m w = (Some j, w')"
    by (rule w [THEN conjunct1, THEN conjunct2, THEN conjunct2, THEN conjunct2, THEN conjunct1, rule_format]) (use that in simp_all)
  show "V j = JInt (sint n)" if "json_object_new_int64 J n w = (Some j, w')"
    by (rule w [THEN conjunct1, THEN conjunct2, THEN conjunct2, THEN conjunct2, THEN conjunct2, THEN conjunct1, rule_format]) (use that in simp_all)
  show "V p' = JObject (AList.update k (json_of V c) es)" if "V p = JObject es" "json_object_object_add J p k c w = (0, p', w')"
    by (rule w [THEN conjunct1, THEN conjunct2, THEN conjunct2, THEN conjunct2, THEN conjunct2, THEN conjunct2, THEN conjunct1, rule_format]) (use that in simp_all)
  show "V p' = JArray (xs @ [json_of V c])" if "V p = JArray xs" "json_object_array_add J p c w = (0, p', w')"
    by (rule w [THEN conjunct1, THEN conjunct2, THEN conjunct2, THEN conjunct2, THEN conjunct2, THEN conjunct2, THEN conjunct2, rule_format]) (use that in simp_all)
qed

lemma json_worldR:
  assumes "json_world J V"
  shows "json_object_get_type J jo = type_of_json (json_of V jo)"
    and "V j = JString s \<Longrightarrow> json_object_get_string J (Some j) = Some s"
    and "V j = JInt i \<Longrightarrow> json_object_get_string J (Some j) = Some (show_int i)"
    and "V j = JArray xs \<Longrightarrow> length xs < 2 ^ 31 \<Longrightarrow> json_object_array_length J j = of_nat (length xs)"
    and "V j = JArray xs \<Longrightarrow> unat n < length xs \<Longrightarrow> json_of V (json_object_array_get_idx J j n) = xs ! unat n"
    and "V j = JObject es \<Longrightarrow> map_option (json_of V) (json_object_object_get_ex J (Some j) k) = map_of es k"
    and "V j = JObject es \<Longrightarrow> map (apsnd (json_of V)) (json_object_entries J j) = es"
proof -
  note w = assms [unfolded json_world_def json_c_reads_def]
  show "json_object_get_type J jo = type_of_json (json_of V jo)"
    by (rule w [THEN conjunct2, THEN conjunct1, rule_format])
  show "json_object_get_string J (Some j) = Some s" if "V j = JString s"
    by (rule w [THEN conjunct2, THEN conjunct2, THEN conjunct2, THEN conjunct1, rule_format]) (use that in simp_all)
  show "json_object_get_string J (Some j) = Some (show_int i)" if "V j = JInt i"
    by (rule w [THEN conjunct2, THEN conjunct2, THEN conjunct2, THEN conjunct2, THEN conjunct1, rule_format]) (use that in simp_all)
  show "json_object_array_length J j = of_nat (length xs)" if "V j = JArray xs" "length xs < 2 ^ 31"
    by (rule w [THEN conjunct2, THEN conjunct2, THEN conjunct2, THEN conjunct2, THEN conjunct2, THEN conjunct1, rule_format]) (use that in simp_all)
  show "json_of V (json_object_array_get_idx J j n) = xs ! unat n" if "V j = JArray xs" "unat n < length xs"
    by (rule w [THEN conjunct2, THEN conjunct2, THEN conjunct2, THEN conjunct2, THEN conjunct2, THEN conjunct2, THEN conjunct1, rule_format]) (use that in simp_all)
  show "map_option (json_of V) (json_object_object_get_ex J (Some j) k) = map_of es k" if "V j = JObject es"
    by (rule w [THEN conjunct2, THEN conjunct2, THEN conjunct2, THEN conjunct2, THEN conjunct2, THEN conjunct2, THEN conjunct2, THEN conjunct1, rule_format]) (use that in simp_all)
  show "map (apsnd (json_of V)) (json_object_entries J j) = es" if "V j = JObject es"
    by (rule w [THEN conjunct2, THEN conjunct2, THEN conjunct2, THEN conjunct2, THEN conjunct2, THEN conjunct2, THEN conjunct2, THEN conjunct2, rule_format]) (use that in simp_all)
qed

definition encodes :: "('j \<Rightarrow> json) \<Rightarrow> ('j, 'w) ser \<Rightarrow> json \<Rightarrow> bool" where
  "encodes V f v \<longleftrightarrow> (\<exists>w j w'. f None w = Some (TSS2_RC_SUCCESS, j, w') \<and> json_of V j = v)"

definition decodes :: "('j \<Rightarrow> json) \<Rightarrow> ('j, 'a) des \<Rightarrow> json \<Rightarrow> ('a \<Rightarrow> bool) \<Rightarrow> ('a \<Rightarrow> bool) \<Rightarrow> bool" where
  "decodes V g v wt R \<longleftrightarrow> v \<noteq> JNull \<and>
     (\<forall>j d. V j = v \<longrightarrow> wt d \<longrightarrow> (\<exists>y. g (Some j) (Some d) = Some (TSS2_RC_SUCCESS, Some y) \<and> wt y \<and> R y))"

text \<open>A step of a structure, as a total Hoare triple over the objects with the given members.\<close>

definition fetches :: "('j \<Rightarrow> json) \<Rightarrow> (string \<times> json) list \<Rightarrow> ('s \<Rightarrow> bool) \<Rightarrow> ('j, 's) step \<Rightarrow> ('s \<Rightarrow> bool) \<Rightarrow> bool" where
  "fetches V es P f Q \<longleftrightarrow>
     (\<forall>j s. V j = JObject es \<longrightarrow> P s \<longrightarrow> (\<exists>s'. f (Some j) s = Some (TSS2_RC_SUCCESS, s') \<and> Q s'))"

lemma decodesD:
  assumes "decodes V g v wt R" "V j = v" "wt d"
  obtains y where "g (Some j) (Some d) = Some (TSS2_RC_SUCCESS, Some y)" "wt y" "R y"
  using assms unfolding decodes_def by blast

lemma decodes_weaken: "decodes V g v wt R \<Longrightarrow> (\<And>y. R y \<Longrightarrow> R' y) \<Longrightarrow> decodes V g v wt R'"
  unfolding decodes_def by blast

section \<open>Building values\<close>

lemma encodes_createdD:
  assumes "encodes V (created e new) v" "e \<noteq> TSS2_RC_SUCCESS"
  obtains w j w' where "new w = (Some j, w')" "v = V j"
proof -
  from assms obtain w j w' where "new w = (j, w')" "j \<noteq> None" "json_of V j = v"
    by (auto simp: encodes_def created_def case_prod_beta split: if_splits)
  then show thesis using that by (cases j) auto
qed

lemma encodes_string:
  assumes "json_world J V" "encodes V (created e (json_object_new_string J s)) v" "e \<noteq> TSS2_RC_SUCCESS"
  shows "v = JString s"
  using encodes_createdD [OF assms(2,3)] json_worldD(3) [OF assms(1)] by metis

lemma encodes_int:
  assumes "json_world J V" "encodes V (created e (json_object_new_int J n)) v" "e \<noteq> TSS2_RC_SUCCESS"
  shows "v = JInt (sint n)"
  using encodes_createdD [OF assms(2,3)] json_worldD(4) [OF assms(1)] by metis

lemma encodes_int64:
  assumes "json_world J V" "encodes V (created e (json_object_new_int64 J n)) v" "e \<noteq> TSS2_RC_SUCCESS"
  shows "v = JInt (sint n)"
  using encodes_createdD [OF assms(2,3)] json_worldD(5) [OF assms(1)] by metis

lemma encodes_return: "encodes V (ser_return r) v \<longleftrightarrow> r = TSS2_RC_SUCCESS \<and> v = JNull"
  by (auto simp: encodes_def ser_return_def)

lemma encodes_not_null [simp]: "encodes V (not_null (Some s) f) v \<longleftrightarrow> encodes V (f s) v"
  by (simp add: encodes_def not_null_def)

lemma encodes_deref [simp]: "encodes V (deref (Some s) f) v \<longleftrightarrow> encodes V (f s) v"
  by (simp add: encodes_def deref_def)

lemma encodes_CHECK_IN_LIST:
  "encodes V (CHECK_IN_LIST x tab f) v \<longleftrightarrow> x \<in> set tab \<and> encodes V f v"
  by (auto simp: encodes_def CHECK_IN_LIST_def)

lemma encodes_union_switch:
  "encodes V (union_switch tab k) v \<longleftrightarrow> (\<exists>f. map_of tab k = Some f \<and> encodes V f v)"
  by (auto simp: union_switch_def encodes_return split: option.splits)

lemma encodes_union_member:
  "encodes V (union_member m f) v \<longleftrightarrow> (\<exists>x. m = Some x \<and> encodes V (f x) v)"
  by (auto simp: union_member_def encodes_def split: option.splits)

lemma encodes_bad_value:
  "encodes V (bad_value_if_error f) v \<longleftrightarrow> encodes V f v"
  by (force simp: encodes_def bad_value_if_error_def split: if_splits)

text \<open>An object holds, under each name, what the serializer of that member built.\<close>

lemma update_fresh: "k \<notin> fst ` set es \<Longrightarrow> AList.update k v es = es @ [(k, v)]"
  by (induction es) auto

lemma object_fields_appends:
  assumes "json_world J V" "object_fields J fs (Some p) w = Some (TSS2_RC_SUCCESS, j, w')"
    and "V p = JObject es" "distinct (map fst es @ map fst fs)"
  shows "\<exists>vs. json_of V j = JObject (es @ zip (map fst fs) vs) \<and> list_all2 (\<lambda>f v. encodes V (snd f) v) fs vs"
  using assms(2-4)
proof (induction fs arbitrary: p es w)
  case Nil
  then show ?case by auto
next
  case (Cons nf fs)
  obtain n f where nf: "nf = (n, f)" by (cases nf)
  from Cons.prems(1) obtain jso2 w1 p' w2 where
    f: "f None w = Some (TSS2_RC_SUCCESS, jso2, w1)" and
    add: "json_object_object_add J p n jso2 w1 = (0, p', w2)" and
    rest: "object_fields J fs (Some p') w2 = Some (TSS2_RC_SUCCESS, j, w')"
    by (auto simp: nf split: option.splits prod.splits if_splits)
  have "n \<notin> fst ` set es" using Cons.prems(3) nf by auto
  with json_worldD(6) [OF assms(1) Cons.prems(2) add] have p': "V p' = JObject (es @ [(n, json_of V jso2)])"
    by (simp add: update_fresh)
  from Cons.IH [OF rest p'] Cons.prems(3) nf obtain vs where
    "json_of V j = JObject (es @ (n, json_of V jso2) # zip (map fst fs) vs)"
    "list_all2 (\<lambda>f v. encodes V (snd f) v) fs vs" by auto
  moreover have "encodes V f (json_of V jso2)" using f unfolding encodes_def by blast
  ultimately show ?case by (intro exI [of _ "json_of V jso2 # vs"]) (simp add: nf)
qed

lemma encodes_or_memory: "encodes V (new_object_if_null J (or_memory k)) v \<Longrightarrow> encodes V (new_object_if_null J k) v"
  unfolding encodes_def new_object_if_null_def or_memory_def
  by (auto simp: case_prod_beta split: if_splits)

lemma encodes_object:
  assumes "json_world J V" "encodes V (new_object_if_null J (object_fields J fs)) v" "distinct (map fst fs)" "fs \<noteq> []"
  obtains vs where "v = JObject (zip (map fst fs) vs)" "list_all2 (\<lambda>f v. encodes V (snd f) v) fs vs"
proof -
  from assms(2) obtain w j w' j0 w0 where
    new: "json_object_new_object J w = (j0, w0)" and
    fields: "object_fields J fs j0 w0 = Some (TSS2_RC_SUCCESS, j, w')" and v: "json_of V j = v"
    unfolding encodes_def new_object_if_null_def by (auto simp: case_prod_beta) (metis prod.collapse)
  from assms(4) fields obtain p where p: "j0 = Some p"
    by (cases fs; cases j0) (auto split: option.splits if_splits)
  from json_worldD(1) [OF assms(1) new [unfolded p]] have "V p = JObject []" .
  from object_fields_appends [OF assms(1) fields [unfolded p] this] assms(3) v that show thesis by auto
qed

section \<open>Reading values\<close>

lemma get_sub_object_found:
  assumes "json_world J V" "V j = JObject es" "map_of es name = Some u" "u \<noteq> JNull"
  obtains j2 where "ifapi_get_sub_object J (Some j) name = Some j2" "V j2 = u"
proof -
  from assms(3) have "map_option (json_of V) (json_object_object_get_ex J (Some j) name) = Some u"
    by (simp add: json_worldR(6) [OF assms(1,2)])
  then obtain jo where "json_object_object_get_ex J (Some j) name = Some jo" "json_of V jo = u" by auto
  with assms(4) that show thesis by (cases jo) (auto simp: ifapi_get_sub_object_def)
qed

lemma fetches_field:
  assumes "json_world J V" "map_of es name = Some u" "decodes V g u wt R"
    and "\<And>s. P s \<Longrightarrow> wt (get s)" "\<And>s y. P s \<Longrightarrow> wt y \<Longrightarrow> R y \<Longrightarrow> Q (upd (\<lambda>_. y) s)"
  shows "fetches V es P (field J name (into get upd g)) Q"
  unfolding fetches_def
proof (intro allI impI)
  fix j s assume j: "V j = JObject es" and s: "P s"
  from assms(3) have "u \<noteq> JNull" by (simp add: decodes_def)
  from get_sub_object_found [OF assms(1) j assms(2) this] obtain j2 where
    j2: "ifapi_get_sub_object J (Some j) name = Some j2" "V j2 = u" .
  from decodesD [OF assms(3) j2(2) assms(4) [OF s]] obtain y where
    "g (Some j2) (Some (get s)) = Some (TSS2_RC_SUCCESS, Some y)" "wt y" "R y" .
  with j2 assms(5) [OF s] show "\<exists>s'. field J name (into get upd g) (Some j) s = Some (TSS2_RC_SUCCESS, s') \<and> Q s'"
    by (simp add: field_def into_def)
qed

lemma fetches_field_sel:
  assumes "json_world J V" "map_of es name = Some u" "decodes V (g k) u wt R"
    and "\<And>s. P s \<Longrightarrow> sel s = k \<and> wt (get s)" "\<And>s y. P s \<Longrightarrow> wt y \<Longrightarrow> R y \<Longrightarrow> Q (upd (\<lambda>_. y) s)"
  shows "fetches V es P (field J name (\<lambda>jso2 s. into get upd (g (sel s)) jso2 s)) Q"
proof -
  have "fetches V es P (field J name (into get upd (g k))) Q"
    by (rule fetches_field [OF assms(1-3)]) (use assms(4,5) in auto)
  moreover have "field J name (\<lambda>jso2 s. into get upd (g (sel s)) jso2 s) j s = field J name (into get upd (g k)) j s"
    if "P s" for j s using assms(4) [OF that] by (simp add: field_def split: option.splits)
  ultimately show ?thesis by (simp add: fetches_def)
qed

text \<open>A member that may be missing is read like any other when it is there.\<close>

lemma fetches_optional_sel:
  assumes "json_world J V" "map_of es name = Some u" "decodes V (g k) u wt R"
    and "\<And>s. P s \<Longrightarrow> sel s = k \<and> wt (get s)" "\<And>s y. P s \<Longrightarrow> wt y \<Longrightarrow> R y \<Longrightarrow> Q (upd (\<lambda>_. y) s)"
  shows "fetches V es P (\<lambda>jso s. case ifapi_get_sub_object J jso name of
      None \<Rightarrow> missing s | Some jso2 \<Rightarrow> into get upd (g (sel s)) (Some jso2) s) Q"
proof -
  have "fetches V es P (field J name (\<lambda>jso2 s. into get upd (g (sel s)) jso2 s)) Q"
    by (rule fetches_field_sel [where g = g and sel = sel, OF assms(1-3)]) (use assms(4,5) in auto)
  moreover have "u \<noteq> JNull" using assms(3) by (simp add: decodes_def)
  then have "\<exists>j2. ifapi_get_sub_object J (Some j) name = Some j2" if "V j = JObject es" for j
    using get_sub_object_found [OF assms(1) that assms(2)] by metis
  ultimately show ?thesis unfolding fetches_def field_def by fastforce
qed

lemma fetches_Nil: "(\<And>s. P s \<Longrightarrow> Q s) \<Longrightarrow> fetches V es P (read_fields []) Q"
  by (simp add: fetches_def)

lemma fetches_Cons: "fetches V es P f Q \<Longrightarrow> fetches V es Q (read_fields fs) R \<Longrightarrow> fetches V es P (read_fields (f # fs)) R"
  by (fastforce simp: fetches_def)

lemma fetches_when_True: "(\<And>s. P s \<Longrightarrow> c s) \<Longrightarrow> fetches V es P f Q \<Longrightarrow> fetches V es P (when_step c f) Q"
  by (simp add: fetches_def when_step_def)

lemma fetches_when_False: "(\<And>s. P s \<Longrightarrow> \<not> c s \<and> Q s) \<Longrightarrow> fetches V es P (when_step c f) Q"
  by (simp add: fetches_def when_step_def)

lemma decodes_out_not_null:
  assumes "fetches V es wt f (\<lambda>y. wt y \<and> R y)" shows "decodes V (out_not_null f) (JObject es) wt R"
  using assms by (fastforce simp: decodes_def fetches_def out_not_null_def)

lemma decodes_out_deref:
  assumes "fetches V es wt f (\<lambda>y. wt y \<and> R y)" shows "decodes V (out_deref f) (JObject es) wt R"
  using assms by (fastforce simp: decodes_def fetches_def out_deref_def)

lemma decodes_switch:
  assumes "map_of tab k = Some g" "decodes V g v wt R" shows "decodes V (des_switch tab k) v wt R"
  using assms by (simp add: decodes_def des_switch_def)

lemma decodes_member:
  assumes "decodes V g v wt R" "wt zero" "\<And>u x. wtu u \<Longrightarrow> get u = Some x \<Longrightarrow> wt x"
    and "\<And>y. wt y \<Longrightarrow> wtu (ctor y)" "\<And>y. R y \<Longrightarrow> Q (ctor y)"
  shows "decodes V (des_member get ctor zero g) v wtu Q"
  unfolding decodes_def
proof (intro conjI allI impI)
  show "v \<noteq> JNull" using assms(1) by (simp add: decodes_def)
  fix j d assume j: "V j = v" and d: "wtu d"
  have "wt (case get d of None \<Rightarrow> zero | Some x \<Rightarrow> x)" using assms(2,3) d by (simp split: option.splits)
  from decodesD [OF assms(1) j this] obtain y where
    "g (Some j) (Some (case get d of None \<Rightarrow> zero | Some x \<Rightarrow> x)) = Some (TSS2_RC_SUCCESS, Some y)" "wt y" "R y" .
  then show "\<exists>y. des_member get ctor zero g (Some j) (Some d) = Some (TSS2_RC_SUCCESS, Some y) \<and> wtu y \<and> Q y"
    using assms(4,5) by (simp add: des_member_def)
qed

lemma decodes_SUBTYPE_FILTER:
  assumes "decodes V g v (\<lambda>_. True) (\<lambda>y. y = x)" "x \<in> set tab"
  shows "decodes V (SUBTYPE_FILTER g tab) v (\<lambda>_. True) (\<lambda>y. y = x)"
  unfolding decodes_def
proof (intro conjI allI impI)
  show "v \<noteq> JNull" using assms(1) by (simp add: decodes_def)
  fix j d assume j: "V j = v"
  from decodesD [OF assms(1) j TrueI] have "g (Some j) (Some 0) = Some (TSS2_RC_SUCCESS, Some x)" by metis
  then show "\<exists>y. SUBTYPE_FILTER g tab (Some j) (Some d) = Some (TSS2_RC_SUCCESS, Some y) \<and> True \<and> y = x"
    using assms(2) by (simp add: SUBTYPE_FILTER_def assign_out_def)
qed

section \<open>Constants, integers and byte arrays\<close>

definition table_inverse :: "('a \<times> string) list \<Rightarrow> string list \<Rightarrow> ('a \<times> string) list \<Rightarrow> 'a \<Rightarrow> bool" where
  "table_inverse tab prefixes dtab x \<longleftrightarrow>
     (case find (\<lambda>row. fst row = x) tab of
        None \<Rightarrow> True
      | Some row \<Rightarrow>
          (case strip_prefix (Some (snd row)) prefixes of
             None \<Rightarrow> False
           | Some s \<Rightarrow> map_option fst (find (\<lambda>row. strcaseeq s (snd row)) dtab) = Some x))"

lemma const_codec:
  assumes "json_world J V" "encodes V (const_serialize J tab x) v" "table_inverse tab prefixes dtab x"
  shows "decodes V (const_deserialize J prefixes dtab g) v (\<lambda>_. True) (\<lambda>y. y = x)"
proof -
  from assms(2) obtain row where row: "find (\<lambda>row. fst row = x) tab = Some row"
    and e: "encodes V (created TSS2_FAPI_RC_MEMORY (json_object_new_string J (snd row))) v"
    unfolding encodes_def const_serialize_def by (auto split: option.splits) blast
  from encodes_string [OF assms(1) e] have v: "v = JString (snd row)" by simp
  from assms(3) row obtain s r where "strip_prefix (Some (snd row)) prefixes = Some s"
    "find (\<lambda>row. strcaseeq s (snd row)) dtab = Some r" "fst r = x"
    by (auto simp: table_inverse_def split: option.splits)
  then show ?thesis using assms(1) v
    by (simp add: decodes_def const_deserialize_def assign_out_def json_worldR(2))
qed

lemma int_codec:
  assumes "json_world J V" "v = JInt (uint (x :: 'a::len word))" "LENGTH('a) < 64"
  shows "decodes V (int_deserialize J) v (\<lambda>_. True) (\<lambda>y. y = x)"
proof -
  have "json_object_get_string J (Some j) = Some (show_int (uint x))" if "V j = v" for j
    using assms(2) that by (simp add: json_worldR(3) [OF assms(1)])
  moreover have "(ucast (ucast x :: 64 word) :: 'a word) = x"
    using assms(3) by (intro bit_word_eqI) (simp add: bit_simps)
  ultimately show ?thesis using assms(2)
    by (auto simp: decodes_def int_deserialize_def get_number_show_uint [OF assms(3)] Let_def)
qed

lemma int64_codec:
  assumes "json_world J V" "encodes V (created e (json_object_new_int64 J (ucast (x :: 'a::len word)))) v"
    and "e \<noteq> TSS2_RC_SUCCESS" "LENGTH('a) < 64"
  shows "decodes V (int_deserialize J) v (\<lambda>_. True) (\<lambda>y. y = x)"
proof (rule int_codec [OF assms(1) _ assms(4)])
  have "sint (ucast x :: 64 word) = uint x" using assms(4)
    by (intro bit_eqI) (auto simp: bit_simps min_def dest: bit_imp_le_length)
  with encodes_int64 [OF assms(1-3)] show "v = JInt (uint x)" by simp
qed

lemma TPM2B_codec:
  assumes J: "json_world J V" and e: "encodes V (TPM2B_serialize J N (Some x)) v" and N: "N < 2 ^ 16"
  shows "decodes V (TPM2B_deserialize J N) v (wt_TPM2B N) (\<lambda>y. wire_TPM2B y = wire_TPM2B x)"
proof -
  let ?n = "unat (TPM2B_size x)" and ?bs = "take (unat (TPM2B_size x)) (TPM2B_buffer x)"
  from e have n: "?n \<le> N" and h: "encodes V (hex_serialize J (TPM2B_buffer x) ?n) v"
    by (auto simp: TPM2B_serialize_def encodes_return split: if_splits)
  from h have l: "?n \<le> length (TPM2B_buffer x)"
    and c: "encodes V (created TSS2_FAPI_RC_MEMORY (json_object_new_string J (concat (map sprintf_02x ?bs)))) v"
    by (auto simp: encodes_def hex_serialize_def mem_read_def seg_def split: option.splits if_splits)
  from encodes_string [OF J c] have v: "v = JString (concat (map sprintf_02x ?bs))" by simp
  have lb: "length ?bs = ?n" using l by simp
  show ?thesis unfolding decodes_def
  proof (intro conjI allI impI)
    fix j d assume j: "V j = v" and d: "wt_TPM2B N d"
    have "ifapi_json_byte_deserialize J (Some j) N (TPM2B_buffer d) 0 =
        Some (TSS2_RC_SUCCESS, ?bs @ replicate (N - ?n) 0, TPM2B_size x)"
      using J j v d n N lb hex_to_byte_ary_02x [of ?bs N "TPM2B_buffer d"]
      by (simp add: ifapi_json_byte_deserialize_def json_worldR(1,2) hex_not_prefixed
          length_concat_02x wt_TPM2B_def)
    then show "\<exists>y. TPM2B_deserialize J N (Some j) (Some d) = Some (TSS2_RC_SUCCESS, Some y) \<and> wt_TPM2B N y \<and>
        wire_TPM2B y = wire_TPM2B x"
      using n l by (simp add: TPM2B_deserialize_def out_not_null_def wt_TPM2B_def wire_TPM2B_def)
  qed (simp add: v)
qed

text \<open>
  The contract for constants and attributes: every name of a table is read back as its constant, and
  the object of flags of an attribute word is read back as the word.
\<close>

section \<open>Flags\<close>

lemma boolean_of_int:
  assumes "json_world J V" "V j = JInt (if b then 1 else 0)"
  shows "get_boolean_from_json J (Some j) (Some f) = Some (TSS2_RC_SUCCESS, Some (if b then 1 else 0))"
proof -
  have n: "get_number (Some (show_int (if b then 1 else 0))) None = Some (True, Some (if b then 1 else 0))"
    by (subst get_number_show_int) auto
  have s: "show_int (if b then 1 else 0) = (if b then ''1'' else ''0'')"
  proof -
    have "show_int 1 = ''1''" "show_int 0 = ''0''" by code_simp+
    then show ?thesis by simp
  qed
  have g: "json_object_get_string J (Some j) = Some (show_int (if b then 1 else 0))"
    by (rule json_worldR(3) [OF assms])
  have p: "strip_prefix (Some (if b then ''1'' else ''0'')) [''TPM_'', ''TPM2_'', ''TPMI_''] = Some (if b then ''1'' else ''0'')"
    by (simp add: strip_prefix_def has_prefix_nocase_def)
  have t: "find (\<lambda>row. strcaseeq (if b then ''1'' else ''0'') (snd row)) YES_NO_tab = None"
    by (simp add: YES_NO_tab_def strcaseeq_def)
  have "ifapi_json_BYTE_deserialize J (Some j) (Some f) = Some (TSS2_RC_SUCCESS, Some (if b then 1 else 0))"
    unfolding ifapi_json_BYTE_deserialize_def int_deserialize_def g n by (cases b) simp_all
  then have "ifapi_json_TPMI_YES_NO_deserialize J (Some j) (Some f) = Some (TSS2_RC_SUCCESS, Some (if b then 1 else 0))"
    by (simp only: ifapi_json_TPMI_YES_NO_deserialize_def const_deserialize_def g s p t option.case)
  then show ?thesis by (cases b) (simp_all add: get_boolean_from_json_def)
qed

definition flag_table :: "string list \<Rightarrow> string list \<Rightarrow> ('a \<times> string) list \<Rightarrow> ('a \<times> string) list \<Rightarrow> bool" where
  "flag_table prefixes prefixes2 tab dtab \<longleftrightarrow>
     list_all (\<lambda>(flag, name). map_option fst (find (\<lambda>row. strcaseeq (snd row)
       (the (strip_prefix (strip_prefix (Some name) prefixes) prefixes2))) dtab) = Some flag) tab"

definition flags_value :: "('a::len word \<times> string) list \<Rightarrow> 'a word \<Rightarrow> 'a word" where
  "flags_value tab x = foldr (\<lambda>(flag, _) a. (if flag AND x \<noteq> 0 then flag else 0) OR a) tab 0"

lemma flag_members_codec:
  assumes "json_world J V" "flag_table prefixes prefixes2 tab dtab"
    and "map (apsnd (json_of V)) es = map (\<lambda>(flag, name). (name, JInt (if flag AND x \<noteq> 0 then 1 else 0))) tab"
    and "\<And>name val out. name \<in> snd ` set tab \<Longrightarrow> special (the (strip_prefix (Some name) prefixes)) val out = None"
  shows "flag_members J prefixes prefixes2 dtab special es f out = Some (TSS2_RC_SUCCESS, out OR flags_value tab x)"
  using assms(2-4)
proof (induction tab arbitrary: es f out)
  case Nil
  then show ?case by (simp add: flags_value_def)
next
  case (Cons row tab)
  obtain flag name where row: "row = (flag, name)" by (cases row)
  from Cons.prems(2) row obtain val es' where es: "es = (name, val) # es'"
    and val: "json_of V val = JInt (if flag AND x \<noteq> 0 then 1 else 0)"
    and es': "map (apsnd (json_of V)) es' = map (\<lambda>(flag, name). (name, JInt (if flag AND x \<noteq> 0 then 1 else 0))) tab"
    by (cases es) auto
  from val obtain j where j: "val = Some j" "V j = JInt (if flag AND x \<noteq> 0 then 1 else 0)" by (cases val) auto
  note b = boolean_of_int [OF assms(1) j(2), of f]
  from Cons.prems(1) row obtain r where
    "find (\<lambda>row. strcaseeq (snd row) (the (strip_prefix (strip_prefix (Some name) prefixes) prefixes2))) dtab = Some r" "fst r = flag"
    by (auto simp: flag_table_def)
  moreover have "flag_members J prefixes prefixes2 dtab special es' f' out' = Some (TSS2_RC_SUCCESS, out' OR flags_value tab x)" for f' out'
    using Cons.prems row by (intro Cons.IH) (auto simp: flag_table_def es')
  moreover have "special (the (strip_prefix (Some name) prefixes)) val out = None" for val out
    using Cons.prems(3) [of name] row by simp
  ultimately show ?case
    using b by (auto simp: es j(1) strip_prefix_def flags_value_def row or.assoc)
qed

lemma flags_codec:
  assumes J: "json_world J V" and t: "flag_table prefixes prefixes2 tab dtab"
    and e: "encodes V (new_object_if_null J (or_memory (object_fields J (flag_fields J tab x)))) v"
    and d: "distinct (map snd tab)" "tab \<noteq> []"
    and s: "\<And>name val out. name \<in> snd ` set tab \<Longrightarrow> special (the (strip_prefix (Some name) prefixes)) val out = None"
  shows "decodes V (flags_deserialize J ap prefixes prefixes2 dtab sp special) v (\<lambda>_. True) (\<lambda>y. y = flags_value tab x)"
proof -
  have names: "map fst (flag_fields J tab x) = map snd tab" by (induction tab) (auto simp: flag_fields_def)
  obtain vs where v: "v = JObject (zip (map snd tab) vs)"
    and vs: "list_all2 (\<lambda>f v. encodes V (snd f) v) (flag_fields J tab x) vs"
    by (rule encodes_object [OF J encodes_or_memory [OF e], unfolded names, OF d(1)])
      (use d(2) in \<open>simp add: flag_fields_def\<close>)
  have "vs = map (\<lambda>(flag, name). JInt (if flag AND x \<noteq> 0 then 1 else 0)) tab"
    using vs
  proof (induction tab arbitrary: vs)
    case (Cons row tab)
    then obtain u us where "vs = u # us" by (auto simp: flag_fields_def list_all2_Cons1)
    moreover obtain flag name where row: "row = (flag, name)" by (cases row)
    ultimately have "encodes V (created TSS2_FAPI_RC_MEMORY (json_object_new_int J (if flag AND x \<noteq> 0 then 1 else 0))) u"
      "us = map (\<lambda>(flag, name). JInt (if flag AND x \<noteq> 0 then 1 else 0)) tab"
      using Cons by (simp_all add: flag_fields_def)
    with encodes_int [OF J this(1)] \<open>vs = u # us\<close> row show ?case by (simp split: if_splits)
  qed (simp add: flag_fields_def)
  then have "zip (map snd tab) vs = map (\<lambda>(flag, name). (name, JInt (if flag AND x \<noteq> 0 then 1 else 0))) tab"
    by (induction tab arbitrary: vs) auto
  with v have v: "v = JObject (map (\<lambda>(flag, name). (name, JInt (if flag AND x \<noteq> 0 then 1 else 0))) tab)" by simp
  show ?thesis unfolding decodes_def
  proof (intro conjI allI impI)
    fix j d assume j: "V j = v"
    from flag_members_codec [OF J t json_worldR(7) [OF J j [unfolded v]], where special = special and f = 0 and out = 0] s
    have "flag_members J prefixes prefixes2 dtab special (json_object_entries J j) 0 0 = Some (TSS2_RC_SUCCESS, flags_value tab x)"
      by simp
    then show "\<exists>y. flags_deserialize J ap prefixes prefixes2 dtab sp special (Some j) (Some d) = Some (TSS2_RC_SUCCESS, Some y) \<and>
        True \<and> y = flags_value tab x"
      using j v by (simp add: flags_deserialize_def out_deref_def zeroed_def json_worldR(1) [OF J])
  qed (simp add: v)
qed

lemma flags_value_bits:
  assumes "list_all (\<lambda>row. fst row \<in> set (map ((^) 2) [0..<m])) tab"
  shows "flags_value tab x = x AND foldr (\<lambda>(flag, _) a. flag OR a) tab 0"
  using assms
proof (induction tab)
  case (Cons row tab)
  then obtain n where n: "fst row = 2 ^ n" by auto
  have "(if 2 ^ n AND x \<noteq> 0 then 2 ^ n else 0) = x AND 2 ^ n"
    by (auto simp: and.commute and_exp_eq_0_iff_not_bit intro!: bit_word_eqI) (auto simp: bit_simps)
  moreover have "flags_value tab x = x AND foldr (\<lambda>(flag, _) a. flag OR a) tab 0" using Cons by simp
  ultimately show ?case using n
    by (cases row) (simp add: flags_value_def bit.conj_disj_distrib del: if_split)
qed (simp add: flags_value_def)

end
