(* ===== verification/Fapi_Ser_Types.thy ===== *)
theory Fapi_Ser_Types
  imports Fapi_Ser_Values
begin

text \<open>
  \<open>tpm_json_serialize.c\<close>, the sized buffers, lists, structures and unions.
\<close>

definition ifapi_json_TPMS_PCR_SELECT_serialize :: "('j, 'w) json_c \<Rightarrow> TPMS_PCR_SELECT option \<Rightarrow> ('j, 'w) ser" where
  "ifapi_json_TPMS_PCR_SELECT_serialize J inn = deref inn (\<lambda>s.
     ifapi_json_pcr_select_serialize J (TPMS_PCR_SELECT_sizeofSelect s) (TPMS_PCR_SELECT_pcrSelect s))"

definition ifapi_json_TPMS_PCR_SELECTION_serialize :: "('j, 'w) json_c \<Rightarrow> TPMS_PCR_SELECTION option \<Rightarrow> ('j, 'w) ser" where
  "ifapi_json_TPMS_PCR_SELECTION_serialize J inn =
     deref inn (\<lambda>s. new_object_if_null J (or_memory (object_fields J
        [(''hash'', ifapi_json_TPMI_ALG_HASH_serialize J (TPMS_PCR_SELECTION_hash s)),
         (''pcrSelect'', ifapi_json_pcr_select_serialize J (TPMS_PCR_SELECTION_sizeofSelect s) (TPMS_PCR_SELECTION_pcrSelect s))])))"

definition ifapi_json_TPMS_TAGGED_PCR_SELECT_serialize :: "('j, 'w) json_c \<Rightarrow> TPMS_TAGGED_PCR_SELECT option \<Rightarrow> ('j, 'w) ser" where
  "ifapi_json_TPMS_TAGGED_PCR_SELECT_serialize J inn =
     deref inn (\<lambda>s. new_object_if_null J (object_fields J
        [(''tag'', ifapi_json_TPM2_PT_PCR_serialize J (TPMS_TAGGED_PCR_SELECT_tag s)),
         (''pcrSelect'', ifapi_json_pcr_select_serialize J (TPMS_TAGGED_PCR_SELECT_sizeofSelect s) (TPMS_TAGGED_PCR_SELECT_pcrSelect s))]))"

definition ifapi_json_TPMU_HA_serialize :: "('j, 'w) json_c \<Rightarrow> TPMU_HA option \<Rightarrow> UINT32 \<Rightarrow> ('j, 'w) ser" where
  "ifapi_json_TPMU_HA_serialize J inn selector =
     deref inn (\<lambda>u. union_switch
       [(ucast TPM2_ALG_SHA1, union_member (get_TPMU_HA_sha1 u) (\<lambda>x. hex_serialize J x TPM2_SHA1_DIGEST_SIZE)),
        (ucast TPM2_ALG_SHA256, union_member (get_TPMU_HA_sha256 u) (\<lambda>x. hex_serialize J x TPM2_SHA256_DIGEST_SIZE)),
        (ucast TPM2_ALG_SHA384, union_member (get_TPMU_HA_sha384 u) (\<lambda>x. hex_serialize J x TPM2_SHA384_DIGEST_SIZE)),
        (ucast TPM2_ALG_SHA512, union_member (get_TPMU_HA_sha512 u) (\<lambda>x. hex_serialize J x TPM2_SHA512_DIGEST_SIZE)),
        (ucast TPM2_ALG_SM3_256, union_member (get_TPMU_HA_sm3_256 u) (\<lambda>x. hex_serialize J x TPM2_SM3_256_DIGEST_SIZE))]
       selector)"

definition ifapi_json_TPMT_HA_serialize :: "('j, 'w) json_c \<Rightarrow> TPMT_HA option \<Rightarrow> ('j, 'w) ser" where
  "ifapi_json_TPMT_HA_serialize J inn =
     not_null inn (\<lambda>s. new_object_if_null J (object_fields J
        ([(''hashAlg'', ifapi_json_TPMI_ALG_HASH_serialize J (TPMT_HA_hashAlg s))] @
         (if TPMT_HA_hashAlg s \<noteq> TPM2_ALG_NULL then [(''digest'', ifapi_json_TPMU_HA_serialize J (Some (TPMT_HA_digest s)) (ucast (TPMT_HA_hashAlg s)))] else []))))"

definition ifapi_json_TPMS_TAGGED_POLICY_serialize :: "('j, 'w) json_c \<Rightarrow> TPMS_TAGGED_POLICY option \<Rightarrow> ('j, 'w) ser" where
  "ifapi_json_TPMS_TAGGED_POLICY_serialize J inn =
     deref inn (\<lambda>s. new_object_if_null J (object_fields J
        [(''handle'', ifapi_json_TPM2_HANDLE_serialize J (TPMS_TAGGED_POLICY_handle s)),
         (''policyHash'', ifapi_json_TPMT_HA_serialize J (Some (TPMS_TAGGED_POLICY_policyHash s)))]))"

definition ifapi_json_TPMS_ACT_DATA_serialize :: "('j, 'w) json_c \<Rightarrow> TPMS_ACT_DATA option \<Rightarrow> ('j, 'w) ser" where
  "ifapi_json_TPMS_ACT_DATA_serialize J inn =
     deref inn (\<lambda>s. new_object_if_null J (object_fields J
        [(''handle'', ifapi_json_TPM2_HANDLE_serialize J (TPMS_ACT_DATA_handle s)),
         (''timeout'', ifapi_json_UINT32_serialize J (TPMS_ACT_DATA_timeout s)),
         (''attributes'', ifapi_json_TPMA_ACT_serialize J (TPMS_ACT_DATA_attributes s))]))"

definition ifapi_json_TPM2B_DIGEST_serialize :: "('j, 'w) json_c \<Rightarrow> TPM2B option \<Rightarrow> ('j, 'w) ser" where
  "ifapi_json_TPM2B_DIGEST_serialize J inn =
     TPM2B_serialize J (sizeof ct_TPMU_HA) inn"

definition ifapi_json_TPM2B_DATA_serialize :: "('j, 'w) json_c \<Rightarrow> TPM2B option \<Rightarrow> ('j, 'w) ser" where
  "ifapi_json_TPM2B_DATA_serialize J inn =
     TPM2B_serialize J (sizeof ct_TPMU_HA) inn"

definition ifapi_json_TPM2B_NONCE_serialize :: "('j, 'w) json_c \<Rightarrow> TPM2B option \<Rightarrow> ('j, 'w) ser" where
  "ifapi_json_TPM2B_NONCE_serialize J inn =
     ifapi_json_TPM2B_DIGEST_serialize J inn"

definition ifapi_json_TPM2B_OPERAND_serialize :: "('j, 'w) json_c \<Rightarrow> TPM2B option \<Rightarrow> ('j, 'w) ser" where
  "ifapi_json_TPM2B_OPERAND_serialize J inn =
     ifapi_json_TPM2B_DIGEST_serialize J inn"

definition ifapi_json_TPM2B_EVENT_serialize :: "('j, 'w) json_c \<Rightarrow> TPM2B option \<Rightarrow> ('j, 'w) ser" where
  "ifapi_json_TPM2B_EVENT_serialize J inn =
     TPM2B_serialize J (1024) inn"

definition ifapi_json_TPM2B_MAX_NV_BUFFER_serialize :: "('j, 'w) json_c \<Rightarrow> TPM2B option \<Rightarrow> ('j, 'w) ser" where
  "ifapi_json_TPM2B_MAX_NV_BUFFER_serialize J inn =
     TPM2B_serialize J (TPM2_MAX_NV_BUFFER_SIZE) inn"

definition ifapi_json_TPM2B_NAME_serialize :: "('j, 'w) json_c \<Rightarrow> TPM2B option \<Rightarrow> ('j, 'w) ser" where
  "ifapi_json_TPM2B_NAME_serialize J inn =
     TPM2B_serialize J (sizeof ct_TPMU_NAME) inn"

definition ifapi_json_TPMT_TK_CREATION_serialize :: "('j, 'w) json_c \<Rightarrow> TPMT_TK_CREATION option \<Rightarrow> ('j, 'w) ser" where
  "ifapi_json_TPMT_TK_CREATION_serialize J inn =
     not_null inn (\<lambda>s. new_object_if_null J
       (if TPMT_TK_CREATION_tag s \<noteq> TPM2_ST_CREATION then ser_return TSS2_FAPI_RC_BAD_VALUE
        else object_fields J
          [(''tag'', ifapi_json_TPM2_ST_serialize J (TPMT_TK_CREATION_tag s)),
           (''hierarchy'', ifapi_json_TPMI_RH_HIERARCHY_serialize J (TPMT_TK_CREATION_hierarchy s)),
           (''digest'', ifapi_json_TPM2B_DIGEST_serialize J (Some (TPMT_TK_CREATION_digest s)))]))"

definition ifapi_json_TPMS_ALG_PROPERTY_serialize :: "('j, 'w) json_c \<Rightarrow> TPMS_ALG_PROPERTY option \<Rightarrow> ('j, 'w) ser" where
  "ifapi_json_TPMS_ALG_PROPERTY_serialize J inn =
     not_null inn (\<lambda>s. if (TPMS_ALG_PROPERTY_alg s) \<in> {TPM2_ALG_SHA3_256, TPM2_ALG_SHA3_384, TPM2_ALG_SHA3_512} then ser_return TSS2_RC_SUCCESS
       else new_object_if_null J (object_fields J
        [(''alg'', ifapi_json_TPM2_ALG_ID_serialize J (TPMS_ALG_PROPERTY_alg s)),
         (''algProperties'', ifapi_json_TPMA_ALGORITHM_serialize J (TPMS_ALG_PROPERTY_algProperties s))]))"

definition ifapi_json_TPMS_TAGGED_PROPERTY_serialize :: "('j, 'w) json_c \<Rightarrow> TPMS_TAGGED_PROPERTY option \<Rightarrow> ('j, 'w) ser" where
  "ifapi_json_TPMS_TAGGED_PROPERTY_serialize J inn =
     not_null inn (\<lambda>s. new_object_if_null J (object_fields J
        [(''property'', ifapi_json_TPM2_PT_serialize J (TPMS_TAGGED_PROPERTY_property s)),
         (''value'', ifapi_json_UINT32_serialize J (TPMS_TAGGED_PROPERTY_value s))]))"

definition ifapi_json_TPML_CC_serialize :: "('j, 'w) json_c \<Rightarrow> TPML_CC option \<Rightarrow> ('j, 'w) ser" where
  "ifapi_json_TPML_CC_serialize J inn =
     TPML_serialize J (TPM2_MAX_CAP_CC) (\<lambda>x. ifapi_json_TPM2_CC_serialize J x) inn"

definition ifapi_json_TPML_CCA_serialize :: "('j, 'w) json_c \<Rightarrow> TPML_CCA option \<Rightarrow> ('j, 'w) ser" where
  "ifapi_json_TPML_CCA_serialize J inn =
     TPML_serialize J (TPM2_MAX_CAP_CC) (\<lambda>x. ifapi_json_TPMA_CC_serialize J x) inn"

definition ifapi_json_TPML_HANDLE_serialize :: "('j, 'w) json_c \<Rightarrow> TPML_HANDLE option \<Rightarrow> ('j, 'w) ser" where
  "ifapi_json_TPML_HANDLE_serialize J inn =
     TPML_serialize J (TPM2_MAX_CAP_HANDLES) (\<lambda>x. ifapi_json_TPM2_HANDLE_serialize J x) inn"

definition ifapi_json_TPML_DIGEST_VALUES_serialize :: "('j, 'w) json_c \<Rightarrow> TPML_DIGEST_VALUES option \<Rightarrow> ('j, 'w) ser" where
  "ifapi_json_TPML_DIGEST_VALUES_serialize J inn =
     TPML_serialize J (TPM2_NUM_PCR_BANKS) (\<lambda>x. ifapi_json_TPMT_HA_serialize J (Some x)) inn"

definition ifapi_json_TPML_PCR_SELECTION_serialize :: "('j, 'w) json_c \<Rightarrow> TPML_PCR_SELECTION option \<Rightarrow> ('j, 'w) ser" where
  "ifapi_json_TPML_PCR_SELECTION_serialize J inn =
     TPML_serialize J (TPM2_NUM_PCR_BANKS) (\<lambda>x. ifapi_json_TPMS_PCR_SELECTION_serialize J (Some x)) inn"

definition ifapi_json_TPML_ALG_PROPERTY_serialize :: "('j, 'w) json_c \<Rightarrow> TPML_ALG_PROPERTY option \<Rightarrow> ('j, 'w) ser" where
  "ifapi_json_TPML_ALG_PROPERTY_serialize J inn =
     TPML_serialize J (TPM2_MAX_CAP_ALGS) (\<lambda>x. ifapi_json_TPMS_ALG_PROPERTY_serialize J (Some x)) inn"

definition ifapi_json_TPML_TAGGED_TPM_PROPERTY_serialize :: "('j, 'w) json_c \<Rightarrow> TPML_TAGGED_TPM_PROPERTY option \<Rightarrow> ('j, 'w) ser" where
  "ifapi_json_TPML_TAGGED_TPM_PROPERTY_serialize J inn =
     TPML_serialize J (TPM2_MAX_TPM_PROPERTIES) (\<lambda>x. ifapi_json_TPMS_TAGGED_PROPERTY_serialize J (Some x)) inn"

definition ifapi_json_TPML_TAGGED_PCR_PROPERTY_serialize :: "('j, 'w) json_c \<Rightarrow> TPML_TAGGED_PCR_PROPERTY option \<Rightarrow> ('j, 'w) ser" where
  "ifapi_json_TPML_TAGGED_PCR_PROPERTY_serialize J inn =
     TPML_serialize J (TPM2_MAX_PCR_PROPERTIES) (\<lambda>x. ifapi_json_TPMS_TAGGED_PCR_SELECT_serialize J (Some x)) inn"

definition ifapi_json_TPML_ECC_CURVE_serialize :: "('j, 'w) json_c \<Rightarrow> TPML_ECC_CURVE option \<Rightarrow> ('j, 'w) ser" where
  "ifapi_json_TPML_ECC_CURVE_serialize J inn =
     TPML_serialize J (TPM2_MAX_ECC_CURVES) (\<lambda>x. ifapi_json_TPM2_ECC_CURVE_serialize J x) inn"

definition ifapi_json_TPML_TAGGED_POLICY_serialize :: "('j, 'w) json_c \<Rightarrow> TPML_TAGGED_POLICY option \<Rightarrow> ('j, 'w) ser" where
  "ifapi_json_TPML_TAGGED_POLICY_serialize J inn =
     TPML_serialize J (TPM2_MAX_TAGGED_POLICIES) (\<lambda>x. ifapi_json_TPMS_TAGGED_POLICY_serialize J (Some x)) inn"

definition ifapi_json_TPML_ACT_DATA_serialize :: "('j, 'w) json_c \<Rightarrow> TPML_ACT_DATA option \<Rightarrow> ('j, 'w) ser" where
  "ifapi_json_TPML_ACT_DATA_serialize J inn =
     TPML_serialize J (TPM2_MAX_ACT_DATA) (\<lambda>x. ifapi_json_TPMS_ACT_DATA_serialize J (Some x)) inn"

definition ifapi_json_TPMU_CAPABILITIES_serialize :: "('j, 'w) json_c \<Rightarrow> TPMU_CAPABILITIES option \<Rightarrow> UINT32 \<Rightarrow> ('j, 'w) ser" where
  "ifapi_json_TPMU_CAPABILITIES_serialize J inn selector =
     deref inn (\<lambda>u. union_switch
       [(TPM2_CAP_ALGS, union_member (get_TPMU_CAPABILITIES_algorithms u) (\<lambda>x. ifapi_json_TPML_ALG_PROPERTY_serialize J (Some x))),
        (TPM2_CAP_HANDLES, union_member (get_TPMU_CAPABILITIES_handles u) (\<lambda>x. ifapi_json_TPML_HANDLE_serialize J (Some x))),
        (TPM2_CAP_COMMANDS, union_member (get_TPMU_CAPABILITIES_command u) (\<lambda>x. ifapi_json_TPML_CCA_serialize J (Some x))),
        (TPM2_CAP_PP_COMMANDS, union_member (get_TPMU_CAPABILITIES_ppCommands u) (\<lambda>x. ifapi_json_TPML_CC_serialize J (Some x))),
        (TPM2_CAP_AUDIT_COMMANDS, union_member (get_TPMU_CAPABILITIES_auditCommands u) (\<lambda>x. ifapi_json_TPML_CC_serialize J (Some x))),
        (TPM2_CAP_PCRS, union_member (get_TPMU_CAPABILITIES_assignedPCR u) (\<lambda>x. ifapi_json_TPML_PCR_SELECTION_serialize J (Some x))),
        (TPM2_CAP_TPM_PROPERTIES, union_member (get_TPMU_CAPABILITIES_tpmProperties u) (\<lambda>x. ifapi_json_TPML_TAGGED_TPM_PROPERTY_serialize J (Some x))),
        (TPM2_CAP_PCR_PROPERTIES, union_member (get_TPMU_CAPABILITIES_pcrProperties u) (\<lambda>x. ifapi_json_TPML_TAGGED_PCR_PROPERTY_serialize J (Some x))),
        (TPM2_CAP_ECC_CURVES, union_member (get_TPMU_CAPABILITIES_eccCurves u) (\<lambda>x. ifapi_json_TPML_ECC_CURVE_serialize J (Some x))),
        (TPM2_CAP_AUTH_POLICIES, union_member (get_TPMU_CAPABILITIES_authPolicies u) (\<lambda>x. ifapi_json_TPML_TAGGED_POLICY_serialize J (Some x))),
        (TPM2_CAP_ACT, union_member (get_TPMU_CAPABILITIES_actData u) (\<lambda>x. ifapi_json_TPML_ACT_DATA_serialize J (Some x)))]
       selector)"

definition ifapi_json_TPMS_CAPABILITY_DATA_serialize :: "('j, 'w) json_c \<Rightarrow> TPMS_CAPABILITY_DATA option \<Rightarrow> ('j, 'w) ser" where
  "ifapi_json_TPMS_CAPABILITY_DATA_serialize J inn =
     not_null inn (\<lambda>s. new_object_if_null J (object_fields J
        [(''capability'', ifapi_json_TPM2_CAP_serialize J (TPMS_CAPABILITY_DATA_capability s)),
         (''data'', ifapi_json_TPMU_CAPABILITIES_serialize J (Some (TPMS_CAPABILITY_DATA_data s)) (TPMS_CAPABILITY_DATA_capability s))]))"

definition ifapi_json_TPMS_CLOCK_INFO_serialize :: "('j, 'w) json_c \<Rightarrow> TPMS_CLOCK_INFO option \<Rightarrow> ('j, 'w) ser" where
  "ifapi_json_TPMS_CLOCK_INFO_serialize J inn =
     not_null inn (\<lambda>s. new_object_if_null J (object_fields J
        [(''clock'', ifapi_json_UINT64_serialize J (TPMS_CLOCK_INFO_clock s)),
         (''resetCount'', ifapi_json_UINT32_serialize J (TPMS_CLOCK_INFO_resetCount s)),
         (''restartCount'', ifapi_json_UINT32_serialize J (TPMS_CLOCK_INFO_restartCount s)),
         (''safe'', ifapi_json_TPMI_YES_NO_serialize J (TPMS_CLOCK_INFO_safe s))]))"

definition ifapi_json_TPMS_TIME_INFO_serialize :: "('j, 'w) json_c \<Rightarrow> TPMS_TIME_INFO option \<Rightarrow> ('j, 'w) ser" where
  "ifapi_json_TPMS_TIME_INFO_serialize J inn =
     not_null inn (\<lambda>s. new_object_if_null J (object_fields J
        [(''time'', ifapi_json_UINT64_serialize J (TPMS_TIME_INFO_time s)),
         (''clockInfo'', ifapi_json_TPMS_CLOCK_INFO_serialize J (Some (TPMS_TIME_INFO_clockInfo s)))]))"

definition ifapi_json_TPMS_TIME_ATTEST_INFO_serialize :: "('j, 'w) json_c \<Rightarrow> TPMS_TIME_ATTEST_INFO option \<Rightarrow> ('j, 'w) ser" where
  "ifapi_json_TPMS_TIME_ATTEST_INFO_serialize J inn =
     not_null inn (\<lambda>s. new_object_if_null J (object_fields J
        [(''time'', ifapi_json_TPMS_TIME_INFO_serialize J (Some (TPMS_TIME_ATTEST_INFO_time s))),
         (''firmwareVersion'', ifapi_json_UINT64_serialize J (TPMS_TIME_ATTEST_INFO_firmwareVersion s))]))"

definition ifapi_json_TPMS_CERTIFY_INFO_serialize :: "('j, 'w) json_c \<Rightarrow> TPMS_CERTIFY_INFO option \<Rightarrow> ('j, 'w) ser" where
  "ifapi_json_TPMS_CERTIFY_INFO_serialize J inn =
     not_null inn (\<lambda>s. new_object_if_null J (object_fields J
        [(''name'', ifapi_json_TPM2B_NAME_serialize J (Some (TPMS_CERTIFY_INFO_name s))),
         (''qualifiedName'', ifapi_json_TPM2B_NAME_serialize J (Some (TPMS_CERTIFY_INFO_qualifiedName s)))]))"

definition ifapi_json_TPMS_QUOTE_INFO_serialize :: "('j, 'w) json_c \<Rightarrow> TPMS_QUOTE_INFO option \<Rightarrow> ('j, 'w) ser" where
  "ifapi_json_TPMS_QUOTE_INFO_serialize J inn =
     not_null inn (\<lambda>s. new_object_if_null J (object_fields J
        [(''pcrSelect'', ifapi_json_TPML_PCR_SELECTION_serialize J (Some (TPMS_QUOTE_INFO_pcrSelect s))),
         (''pcrDigest'', ifapi_json_TPM2B_DIGEST_serialize J (Some (TPMS_QUOTE_INFO_pcrDigest s)))]))"

definition ifapi_json_TPMS_COMMAND_AUDIT_INFO_serialize :: "('j, 'w) json_c \<Rightarrow> TPMS_COMMAND_AUDIT_INFO option \<Rightarrow> ('j, 'w) ser" where
  "ifapi_json_TPMS_COMMAND_AUDIT_INFO_serialize J inn =
     not_null inn (\<lambda>s. new_object_if_null J (object_fields J
        [(''auditCounter'', ifapi_json_UINT64_serialize J (TPMS_COMMAND_AUDIT_INFO_auditCounter s)),
         (''digestAlg'', ifapi_json_TPM2_ALG_ID_serialize J (TPMS_COMMAND_AUDIT_INFO_digestAlg s)),
         (''auditDigest'', ifapi_json_TPM2B_DIGEST_serialize J (Some (TPMS_COMMAND_AUDIT_INFO_auditDigest s))),
         (''commandDigest'', ifapi_json_TPM2B_DIGEST_serialize J (Some (TPMS_COMMAND_AUDIT_INFO_commandDigest s)))]))"

definition ifapi_json_TPMS_SESSION_AUDIT_INFO_serialize :: "('j, 'w) json_c \<Rightarrow> TPMS_SESSION_AUDIT_INFO option \<Rightarrow> ('j, 'w) ser" where
  "ifapi_json_TPMS_SESSION_AUDIT_INFO_serialize J inn =
     not_null inn (\<lambda>s. new_object_if_null J (object_fields J
        [(''exclusiveSession'', ifapi_json_TPMI_YES_NO_serialize J (TPMS_SESSION_AUDIT_INFO_exclusiveSession s)),
         (''sessionDigest'', ifapi_json_TPM2B_DIGEST_serialize J (Some (TPMS_SESSION_AUDIT_INFO_sessionDigest s)))]))"

definition ifapi_json_TPMS_CREATION_INFO_serialize :: "('j, 'w) json_c \<Rightarrow> TPMS_CREATION_INFO option \<Rightarrow> ('j, 'w) ser" where
  "ifapi_json_TPMS_CREATION_INFO_serialize J inn =
     not_null inn (\<lambda>s. new_object_if_null J (object_fields J
        [(''objectName'', ifapi_json_TPM2B_NAME_serialize J (Some (TPMS_CREATION_INFO_objectName s))),
         (''creationHash'', ifapi_json_TPM2B_DIGEST_serialize J (Some (TPMS_CREATION_INFO_creationHash s)))]))"

definition ifapi_json_TPMS_NV_CERTIFY_INFO_serialize :: "('j, 'w) json_c \<Rightarrow> TPMS_NV_CERTIFY_INFO option \<Rightarrow> ('j, 'w) ser" where
  "ifapi_json_TPMS_NV_CERTIFY_INFO_serialize J inn =
     not_null inn (\<lambda>s. new_object_if_null J (object_fields J
        [(''indexName'', ifapi_json_TPM2B_NAME_serialize J (Some (TPMS_NV_CERTIFY_INFO_indexName s))),
         (''offset'', ifapi_json_UINT16_serialize J (TPMS_NV_CERTIFY_INFO_offset s)),
         (''nvContents'', ifapi_json_TPM2B_MAX_NV_BUFFER_serialize J (Some (TPMS_NV_CERTIFY_INFO_nvContents s)))]))"

definition ifapi_json_TPMU_ATTEST_serialize :: "('j, 'w) json_c \<Rightarrow> TPMU_ATTEST option \<Rightarrow> UINT32 \<Rightarrow> ('j, 'w) ser" where
  "ifapi_json_TPMU_ATTEST_serialize J inn selector =
     deref inn (\<lambda>u. union_switch
       [(ucast TPM2_ST_ATTEST_CERTIFY, union_member (get_TPMU_ATTEST_certify u) (\<lambda>x. ifapi_json_TPMS_CERTIFY_INFO_serialize J (Some x))),
        (ucast TPM2_ST_ATTEST_CREATION, union_member (get_TPMU_ATTEST_creation u) (\<lambda>x. ifapi_json_TPMS_CREATION_INFO_serialize J (Some x))),
        (ucast TPM2_ST_ATTEST_QUOTE, union_member (get_TPMU_ATTEST_quote u) (\<lambda>x. ifapi_json_TPMS_QUOTE_INFO_serialize J (Some x))),
        (ucast TPM2_ST_ATTEST_COMMAND_AUDIT, union_member (get_TPMU_ATTEST_commandAudit u) (\<lambda>x. ifapi_json_TPMS_COMMAND_AUDIT_INFO_serialize J (Some x))),
        (ucast TPM2_ST_ATTEST_SESSION_AUDIT, union_member (get_TPMU_ATTEST_sessionAudit u) (\<lambda>x. ifapi_json_TPMS_SESSION_AUDIT_INFO_serialize J (Some x))),
        (ucast TPM2_ST_ATTEST_TIME, union_member (get_TPMU_ATTEST_time u) (\<lambda>x. ifapi_json_TPMS_TIME_ATTEST_INFO_serialize J (Some x))),
        (ucast TPM2_ST_ATTEST_NV, union_member (get_TPMU_ATTEST_nv u) (\<lambda>x. ifapi_json_TPMS_NV_CERTIFY_INFO_serialize J (Some x)))]
       selector)"

definition ifapi_json_TPMS_ATTEST_serialize :: "('j, 'w) json_c \<Rightarrow> TPMS_ATTEST option \<Rightarrow> ('j, 'w) ser" where
  "ifapi_json_TPMS_ATTEST_serialize J inn =
     not_null inn (\<lambda>s. new_object_if_null J (object_fields J
        [(''magic'', ifapi_json_TPM2_GENERATED_serialize J (TPMS_ATTEST_magic s)),
         (''type'', ifapi_json_TPMI_ST_ATTEST_serialize J (TPMS_ATTEST_type s)),
         (''qualifiedSigner'', ifapi_json_TPM2B_NAME_serialize J (Some (TPMS_ATTEST_qualifiedSigner s))),
         (''extraData'', ifapi_json_TPM2B_DATA_serialize J (Some (TPMS_ATTEST_extraData s))),
         (''clockInfo'', ifapi_json_TPMS_CLOCK_INFO_serialize J (Some (TPMS_ATTEST_clockInfo s))),
         (''firmwareVersion'', ifapi_json_UINT64_serialize J (TPMS_ATTEST_firmwareVersion s)),
         (''attested'', ifapi_json_TPMU_ATTEST_serialize J (Some (TPMS_ATTEST_attested s)) (ucast (TPMS_ATTEST_type s)))]))"

definition ifapi_json_TPMU_SYM_KEY_BITS_serialize :: "('j, 'w) json_c \<Rightarrow> TPMU_SYM_KEY_BITS option \<Rightarrow> UINT32 \<Rightarrow> ('j, 'w) ser" where
  "ifapi_json_TPMU_SYM_KEY_BITS_serialize J inn selector =
     deref inn (\<lambda>u. union_switch
       [(ucast TPM2_ALG_AES, union_member (get_TPMU_SYM_KEY_BITS_aes u) (\<lambda>x. ifapi_json_TPMI_AES_KEY_BITS_serialize J x)),
        (ucast TPM2_ALG_SM4, union_member (get_TPMU_SYM_KEY_BITS_sm4 u) (\<lambda>x. ifapi_json_TPMI_SM4_KEY_BITS_serialize J x)),
        (ucast TPM2_ALG_CAMELLIA, union_member (get_TPMU_SYM_KEY_BITS_camellia u) (\<lambda>x. ifapi_json_TPMI_CAMELLIA_KEY_BITS_serialize J x)),
        (ucast TPM2_ALG_XOR, union_member (get_TPMU_SYM_KEY_BITS_exclusiveOr u) (\<lambda>x. ifapi_json_TPMI_ALG_HASH_serialize J x))]
       selector)"

definition ifapi_json_TPMU_SYM_MODE_serialize :: "('j, 'w) json_c \<Rightarrow> TPMU_SYM_MODE option \<Rightarrow> UINT32 \<Rightarrow> ('j, 'w) ser" where
  "ifapi_json_TPMU_SYM_MODE_serialize J inn selector =
     deref inn (\<lambda>u. union_switch
       [(ucast TPM2_ALG_CAMELLIA, union_member (sym_mode_value u) (\<lambda>x. ifapi_json_TPMI_ALG_SYM_MODE_serialize J x)),
        (ucast TPM2_ALG_SM4, union_member (sym_mode_value u) (\<lambda>x. ifapi_json_TPMI_ALG_SYM_MODE_serialize J x)),
        (ucast TPM2_ALG_AES, union_member (sym_mode_value u) (\<lambda>x. ifapi_json_TPMI_ALG_SYM_MODE_serialize J x))]
       selector)"

definition ifapi_json_TPMT_SYM_DEF_OBJECT_serialize :: "('j, 'w) json_c \<Rightarrow> TPMT_SYM_DEF_OBJECT option \<Rightarrow> ('j, 'w) ser" where
  "ifapi_json_TPMT_SYM_DEF_OBJECT_serialize J inn =
     not_null inn (\<lambda>s. new_object_if_null J (object_fields J
        ([(''algorithm'', ifapi_json_TPMI_ALG_SYM_OBJECT_serialize J (TPMT_SYM_DEF_OBJECT_algorithm s))] @
         (if TPMT_SYM_DEF_OBJECT_algorithm s \<noteq> TPM2_ALG_NULL then [(''keyBits'', ifapi_json_TPMU_SYM_KEY_BITS_serialize J (Some (TPMT_SYM_DEF_OBJECT_keyBits s)) (ucast (TPMT_SYM_DEF_OBJECT_algorithm s)))] else []) @
         (if TPMT_SYM_DEF_OBJECT_algorithm s \<noteq> TPM2_ALG_NULL then [(''mode'', ifapi_json_TPMU_SYM_MODE_serialize J (Some (TPMT_SYM_DEF_OBJECT_mode s)) (ucast (TPMT_SYM_DEF_OBJECT_algorithm s)))] else []))))"

definition ifapi_json_TPMS_SYMCIPHER_PARMS_serialize :: "('j, 'w) json_c \<Rightarrow> TPMS_SYMCIPHER_PARMS option \<Rightarrow> ('j, 'w) ser" where
  "ifapi_json_TPMS_SYMCIPHER_PARMS_serialize J inn =
     not_null inn (\<lambda>s. new_object_if_null J (object_fields J
        [(''sym'', ifapi_json_TPMT_SYM_DEF_OBJECT_serialize J (Some (TPMS_SYMCIPHER_PARMS_sym s)))]))"

definition ifapi_json_TPMS_SCHEME_HASH_serialize :: "('j, 'w) json_c \<Rightarrow> TPMS_SCHEME_HASH option \<Rightarrow> ('j, 'w) ser" where
  "ifapi_json_TPMS_SCHEME_HASH_serialize J inn =
     not_null inn (\<lambda>s. new_object_if_null J (object_fields J
        [(''hashAlg'', ifapi_json_TPMI_ALG_HASH_serialize J (TPMS_SCHEME_HASH_hashAlg s))]))"

definition ifapi_json_TPMS_SCHEME_ECDAA_serialize :: "('j, 'w) json_c \<Rightarrow> TPMS_SCHEME_ECDAA option \<Rightarrow> ('j, 'w) ser" where
  "ifapi_json_TPMS_SCHEME_ECDAA_serialize J inn =
     not_null inn (\<lambda>s. new_object_if_null J (object_fields J
        [(''hashAlg'', ifapi_json_TPMI_ALG_HASH_serialize J (TPMS_SCHEME_ECDAA_hashAlg s)),
         (''count'', ifapi_json_UINT16_serialize J (TPMS_SCHEME_ECDAA_count s))]))"

definition ifapi_json_TPMS_SCHEME_HMAC_serialize :: "('j, 'w) json_c \<Rightarrow> TPMS_SCHEME_HASH option \<Rightarrow> ('j, 'w) ser" where
  "ifapi_json_TPMS_SCHEME_HMAC_serialize J inn =
     ifapi_json_TPMS_SCHEME_HASH_serialize J inn"

definition ifapi_json_TPMS_SCHEME_XOR_serialize :: "('j, 'w) json_c \<Rightarrow> TPMS_SCHEME_XOR option \<Rightarrow> ('j, 'w) ser" where
  "ifapi_json_TPMS_SCHEME_XOR_serialize J inn =
     not_null inn (\<lambda>s. new_object_if_null J (object_fields J
        [(''hashAlg'', ifapi_json_TPMI_ALG_HASH_serialize J (TPMS_SCHEME_XOR_hashAlg s)),
         (''kdf'', ifapi_json_TPMI_ALG_KDF_serialize J (TPMS_SCHEME_XOR_kdf s))]))"

definition ifapi_json_TPMU_SCHEME_KEYEDHASH_serialize :: "('j, 'w) json_c \<Rightarrow> TPMU_SCHEME_KEYEDHASH option \<Rightarrow> UINT32 \<Rightarrow> ('j, 'w) ser" where
  "ifapi_json_TPMU_SCHEME_KEYEDHASH_serialize J inn selector =
     deref inn (\<lambda>u. union_switch
       [(ucast TPM2_ALG_HMAC, union_member (get_TPMU_SCHEME_KEYEDHASH_hmac u) (\<lambda>x. ifapi_json_TPMS_SCHEME_HMAC_serialize J (Some x))),
        (ucast TPM2_ALG_XOR, union_member (get_TPMU_SCHEME_KEYEDHASH_exclusiveOr u) (\<lambda>x. ifapi_json_TPMS_SCHEME_XOR_serialize J (Some x)))]
       selector)"

definition ifapi_json_TPMT_KEYEDHASH_SCHEME_serialize :: "('j, 'w) json_c \<Rightarrow> TPMT_KEYEDHASH_SCHEME option \<Rightarrow> ('j, 'w) ser" where
  "ifapi_json_TPMT_KEYEDHASH_SCHEME_serialize J inn =
     not_null inn (\<lambda>s. new_object_if_null J (object_fields J
        ([(''scheme'', ifapi_json_TPMI_ALG_KEYEDHASH_SCHEME_serialize J (TPMT_KEYEDHASH_SCHEME_scheme s))] @
         (if TPMT_KEYEDHASH_SCHEME_scheme s \<noteq> TPM2_ALG_NULL then [(''details'', ifapi_json_TPMU_SCHEME_KEYEDHASH_serialize J (Some (TPMT_KEYEDHASH_SCHEME_details s)) (ucast (TPMT_KEYEDHASH_SCHEME_scheme s)))] else []))))"

definition ifapi_json_TPMS_SIG_SCHEME_RSASSA_serialize :: "('j, 'w) json_c \<Rightarrow> TPMS_SCHEME_HASH option \<Rightarrow> ('j, 'w) ser" where
  "ifapi_json_TPMS_SIG_SCHEME_RSASSA_serialize J inn =
     ifapi_json_TPMS_SCHEME_HASH_serialize J inn"

definition ifapi_json_TPMS_SIG_SCHEME_RSAPSS_serialize :: "('j, 'w) json_c \<Rightarrow> TPMS_SCHEME_HASH option \<Rightarrow> ('j, 'w) ser" where
  "ifapi_json_TPMS_SIG_SCHEME_RSAPSS_serialize J inn =
     ifapi_json_TPMS_SCHEME_HASH_serialize J inn"

definition ifapi_json_TPMS_SIG_SCHEME_ECDSA_serialize :: "('j, 'w) json_c \<Rightarrow> TPMS_SCHEME_HASH option \<Rightarrow> ('j, 'w) ser" where
  "ifapi_json_TPMS_SIG_SCHEME_ECDSA_serialize J inn =
     ifapi_json_TPMS_SCHEME_HASH_serialize J inn"

definition ifapi_json_TPMS_SIG_SCHEME_SM2_serialize :: "('j, 'w) json_c \<Rightarrow> TPMS_SCHEME_HASH option \<Rightarrow> ('j, 'w) ser" where
  "ifapi_json_TPMS_SIG_SCHEME_SM2_serialize J inn =
     ifapi_json_TPMS_SCHEME_HASH_serialize J inn"

definition ifapi_json_TPMS_SIG_SCHEME_ECSCHNORR_serialize :: "('j, 'w) json_c \<Rightarrow> TPMS_SCHEME_HASH option \<Rightarrow> ('j, 'w) ser" where
  "ifapi_json_TPMS_SIG_SCHEME_ECSCHNORR_serialize J inn =
     ifapi_json_TPMS_SCHEME_HASH_serialize J inn"

definition ifapi_json_TPMS_SIG_SCHEME_ECDAA_serialize :: "('j, 'w) json_c \<Rightarrow> TPMS_SCHEME_ECDAA option \<Rightarrow> ('j, 'w) ser" where
  "ifapi_json_TPMS_SIG_SCHEME_ECDAA_serialize J inn =
     ifapi_json_TPMS_SCHEME_ECDAA_serialize J inn"

definition ifapi_json_TPMU_SIG_SCHEME_serialize :: "('j, 'w) json_c \<Rightarrow> TPMU_SIG_SCHEME option \<Rightarrow> UINT32 \<Rightarrow> ('j, 'w) ser" where
  "ifapi_json_TPMU_SIG_SCHEME_serialize J inn selector =
     deref inn (\<lambda>u. union_switch
       [(ucast TPM2_ALG_RSASSA, union_member (get_TPMU_SIG_SCHEME_rsassa u) (\<lambda>x. ifapi_json_TPMS_SIG_SCHEME_RSASSA_serialize J (Some x))),
        (ucast TPM2_ALG_RSAPSS, union_member (get_TPMU_SIG_SCHEME_rsapss u) (\<lambda>x. ifapi_json_TPMS_SIG_SCHEME_RSAPSS_serialize J (Some x))),
        (ucast TPM2_ALG_ECDSA, union_member (get_TPMU_SIG_SCHEME_ecdsa u) (\<lambda>x. ifapi_json_TPMS_SIG_SCHEME_ECDSA_serialize J (Some x))),
        (ucast TPM2_ALG_ECDAA, union_member (get_TPMU_SIG_SCHEME_ecdaa u) (\<lambda>x. ifapi_json_TPMS_SIG_SCHEME_ECDAA_serialize J (Some x))),
        (ucast TPM2_ALG_SM2, union_member (get_TPMU_SIG_SCHEME_sm2 u) (\<lambda>x. ifapi_json_TPMS_SIG_SCHEME_SM2_serialize J (Some x))),
        (ucast TPM2_ALG_ECSCHNORR, union_member (get_TPMU_SIG_SCHEME_ecschnorr u) (\<lambda>x. ifapi_json_TPMS_SIG_SCHEME_ECSCHNORR_serialize J (Some x))),
        (ucast TPM2_ALG_HMAC, union_member (get_TPMU_SIG_SCHEME_hmac u) (\<lambda>x. ifapi_json_TPMS_SCHEME_HMAC_serialize J (Some x)))]
       selector)"

definition ifapi_json_TPMT_SIG_SCHEME_serialize :: "('j, 'w) json_c \<Rightarrow> TPMT_SIG_SCHEME option \<Rightarrow> ('j, 'w) ser" where
  "ifapi_json_TPMT_SIG_SCHEME_serialize J inn =
     not_null inn (\<lambda>s. new_object_if_null J (object_fields J
        ([(''scheme'', ifapi_json_TPMI_ALG_SIG_SCHEME_serialize J (TPMT_SIG_SCHEME_scheme s))] @
         (if TPMT_SIG_SCHEME_scheme s \<noteq> TPM2_ALG_NULL then [(''details'', ifapi_json_TPMU_SIG_SCHEME_serialize J (Some (TPMT_SIG_SCHEME_details s)) (ucast (TPMT_SIG_SCHEME_scheme s)))] else []))))"

definition ifapi_json_TPMS_ENC_SCHEME_OAEP_serialize :: "('j, 'w) json_c \<Rightarrow> TPMS_SCHEME_HASH option \<Rightarrow> ('j, 'w) ser" where
  "ifapi_json_TPMS_ENC_SCHEME_OAEP_serialize J inn =
     ifapi_json_TPMS_SCHEME_HASH_serialize J inn"

definition ifapi_json_TPMS_ENC_SCHEME_RSAES_serialize :: "('j, 'w) json_c \<Rightarrow> TPMS_EMPTY option \<Rightarrow> ('j, 'w) ser" where
  "ifapi_json_TPMS_ENC_SCHEME_RSAES_serialize J inn =
     ifapi_json_TPMS_EMPTY_serialize J inn"

definition ifapi_json_TPMS_KEY_SCHEME_ECDH_serialize :: "('j, 'w) json_c \<Rightarrow> TPMS_SCHEME_HASH option \<Rightarrow> ('j, 'w) ser" where
  "ifapi_json_TPMS_KEY_SCHEME_ECDH_serialize J inn =
     ifapi_json_TPMS_SCHEME_HASH_serialize J inn"

definition ifapi_json_TPMS_SCHEME_MGF1_serialize :: "('j, 'w) json_c \<Rightarrow> TPMS_SCHEME_HASH option \<Rightarrow> ('j, 'w) ser" where
  "ifapi_json_TPMS_SCHEME_MGF1_serialize J inn =
     ifapi_json_TPMS_SCHEME_HASH_serialize J inn"

definition ifapi_json_TPMS_SCHEME_KDF1_SP800_56A_serialize :: "('j, 'w) json_c \<Rightarrow> TPMS_SCHEME_HASH option \<Rightarrow> ('j, 'w) ser" where
  "ifapi_json_TPMS_SCHEME_KDF1_SP800_56A_serialize J inn =
     ifapi_json_TPMS_SCHEME_HASH_serialize J inn"

definition ifapi_json_TPMS_SCHEME_KDF1_SP800_108_serialize :: "('j, 'w) json_c \<Rightarrow> TPMS_SCHEME_HASH option \<Rightarrow> ('j, 'w) ser" where
  "ifapi_json_TPMS_SCHEME_KDF1_SP800_108_serialize J inn =
     ifapi_json_TPMS_SCHEME_HASH_serialize J inn"

definition ifapi_json_TPMU_KDF_SCHEME_serialize :: "('j, 'w) json_c \<Rightarrow> TPMU_KDF_SCHEME option \<Rightarrow> UINT32 \<Rightarrow> ('j, 'w) ser" where
  "ifapi_json_TPMU_KDF_SCHEME_serialize J inn selector =
     deref inn (\<lambda>u. union_switch
       [(ucast TPM2_ALG_MGF1, union_member (get_TPMU_KDF_SCHEME_mgf1 u) (\<lambda>x. ifapi_json_TPMS_SCHEME_MGF1_serialize J (Some x))),
        (ucast TPM2_ALG_KDF1_SP800_56A, union_member (get_TPMU_KDF_SCHEME_kdf1_sp800_56a u) (\<lambda>x. ifapi_json_TPMS_SCHEME_KDF1_SP800_56A_serialize J (Some x))),
        (ucast TPM2_ALG_KDF1_SP800_108, union_member (get_TPMU_KDF_SCHEME_kdf1_sp800_108 u) (\<lambda>x. ifapi_json_TPMS_SCHEME_KDF1_SP800_108_serialize J (Some x)))]
       selector)"

definition ifapi_json_TPMT_KDF_SCHEME_serialize :: "('j, 'w) json_c \<Rightarrow> TPMT_KDF_SCHEME option \<Rightarrow> ('j, 'w) ser" where
  "ifapi_json_TPMT_KDF_SCHEME_serialize J inn =
     not_null inn (\<lambda>s. new_object_if_null J (object_fields J
        ([(''scheme'', ifapi_json_TPMI_ALG_KDF_serialize J (TPMT_KDF_SCHEME_scheme s))] @
         (if TPMT_KDF_SCHEME_scheme s \<noteq> TPM2_ALG_NULL then [(''details'', ifapi_json_TPMU_KDF_SCHEME_serialize J (Some (TPMT_KDF_SCHEME_details s)) (ucast (TPMT_KDF_SCHEME_scheme s)))] else []))))"

definition ifapi_json_TPMU_ASYM_SCHEME_serialize :: "('j, 'w) json_c \<Rightarrow> TPMU_ASYM_SCHEME option \<Rightarrow> UINT32 \<Rightarrow> ('j, 'w) ser" where
  "ifapi_json_TPMU_ASYM_SCHEME_serialize J inn selector =
     deref inn (\<lambda>u. union_switch
       [(ucast TPM2_ALG_ECDH, union_member (get_TPMU_ASYM_SCHEME_ecdh u) (\<lambda>x. ifapi_json_TPMS_KEY_SCHEME_ECDH_serialize J (Some x))),
        (ucast TPM2_ALG_RSASSA, union_member (get_TPMU_ASYM_SCHEME_rsassa u) (\<lambda>x. ifapi_json_TPMS_SIG_SCHEME_RSASSA_serialize J (Some x))),
        (ucast TPM2_ALG_RSAPSS, union_member (get_TPMU_ASYM_SCHEME_rsapss u) (\<lambda>x. ifapi_json_TPMS_SIG_SCHEME_RSAPSS_serialize J (Some x))),
        (ucast TPM2_ALG_ECDSA, union_member (get_TPMU_ASYM_SCHEME_ecdsa u) (\<lambda>x. ifapi_json_TPMS_SIG_SCHEME_ECDSA_serialize J (Some x))),
        (ucast TPM2_ALG_ECDAA, union_member (get_TPMU_ASYM_SCHEME_ecdaa u) (\<lambda>x. ifapi_json_TPMS_SIG_SCHEME_ECDAA_serialize J (Some x))),
        (ucast TPM2_ALG_SM2, union_member (get_TPMU_ASYM_SCHEME_sm2 u) (\<lambda>x. ifapi_json_TPMS_SIG_SCHEME_SM2_serialize J (Some x))),
        (ucast TPM2_ALG_ECSCHNORR, union_member (get_TPMU_ASYM_SCHEME_ecschnorr u) (\<lambda>x. ifapi_json_TPMS_SIG_SCHEME_ECSCHNORR_serialize J (Some x))),
        (ucast TPM2_ALG_RSAES, union_member (get_TPMU_ASYM_SCHEME_rsaes u) (\<lambda>x. ifapi_json_TPMS_ENC_SCHEME_RSAES_serialize J (Some x))),
        (ucast TPM2_ALG_OAEP, union_member (get_TPMU_ASYM_SCHEME_oaep u) (\<lambda>x. ifapi_json_TPMS_ENC_SCHEME_OAEP_serialize J (Some x))),
        (ucast TPM2_ALG_MLDSA, union_member (get_TPMU_ASYM_SCHEME_mldsa u) (\<lambda>x. ifapi_json_TPMS_SCHEME_HASH_serialize J (Some x)))]
       selector)"

definition ifapi_json_TPMT_RSA_SCHEME_serialize :: "('j, 'w) json_c \<Rightarrow> TPMT_RSA_SCHEME option \<Rightarrow> ('j, 'w) ser" where
  "ifapi_json_TPMT_RSA_SCHEME_serialize J inn =
     not_null inn (\<lambda>s. new_object_if_null J (object_fields J
        ([(''scheme'', ifapi_json_TPMI_ALG_RSA_SCHEME_serialize J (TPMT_RSA_SCHEME_scheme s))] @
         (if TPMT_RSA_SCHEME_scheme s \<noteq> TPM2_ALG_NULL then [(''details'', ifapi_json_TPMU_ASYM_SCHEME_serialize J (Some (TPMT_RSA_SCHEME_details s)) (ucast (TPMT_RSA_SCHEME_scheme s)))] else []))))"

definition ifapi_json_TPM2B_PUBLIC_KEY_RSA_serialize :: "('j, 'w) json_c \<Rightarrow> TPM2B option \<Rightarrow> ('j, 'w) ser" where
  "ifapi_json_TPM2B_PUBLIC_KEY_RSA_serialize J inn =
     TPM2B_serialize J (TPM2_MAX_RSA_KEY_BYTES) inn"

definition ifapi_json_TPM2B_ECC_PARAMETER_serialize :: "('j, 'w) json_c \<Rightarrow> TPM2B option \<Rightarrow> ('j, 'w) ser" where
  "ifapi_json_TPM2B_ECC_PARAMETER_serialize J inn =
     TPM2B_serialize J (TPM2_MAX_ECC_KEY_BYTES) inn"

definition ifapi_json_TPMS_ECC_POINT_serialize :: "('j, 'w) json_c \<Rightarrow> TPMS_ECC_POINT option \<Rightarrow> ('j, 'w) ser" where
  "ifapi_json_TPMS_ECC_POINT_serialize J inn =
     not_null inn (\<lambda>s. new_object_if_null J (object_fields J
        [(''x'', ifapi_json_TPM2B_ECC_PARAMETER_serialize J (Some (TPMS_ECC_POINT_x s))),
         (''y'', ifapi_json_TPM2B_ECC_PARAMETER_serialize J (Some (TPMS_ECC_POINT_y s)))]))"

definition ifapi_json_TPMT_ECC_SCHEME_serialize :: "('j, 'w) json_c \<Rightarrow> TPMT_ECC_SCHEME option \<Rightarrow> ('j, 'w) ser" where
  "ifapi_json_TPMT_ECC_SCHEME_serialize J inn =
     not_null inn (\<lambda>s. new_object_if_null J (object_fields J
        ([(''scheme'', ifapi_json_TPMI_ALG_ECC_SCHEME_serialize J (TPMT_ECC_SCHEME_scheme s))] @
         (if TPMT_ECC_SCHEME_scheme s \<noteq> TPM2_ALG_NULL then [(''details'', ifapi_json_TPMU_ASYM_SCHEME_serialize J (Some (TPMT_ECC_SCHEME_details s)) (ucast (TPMT_ECC_SCHEME_scheme s)))] else []))))"

definition ifapi_json_TPMS_SIGNATURE_RSA_serialize :: "('j, 'w) json_c \<Rightarrow> TPMS_SIGNATURE_RSA option \<Rightarrow> ('j, 'w) ser" where
  "ifapi_json_TPMS_SIGNATURE_RSA_serialize J inn =
     not_null inn (\<lambda>s. new_object_if_null J (object_fields J
        [(''hash'', ifapi_json_TPMI_ALG_HASH_serialize J (TPMS_SIGNATURE_RSA_hash s)),
         (''sig'', ifapi_json_TPM2B_PUBLIC_KEY_RSA_serialize J (Some (TPMS_SIGNATURE_RSA_sig s)))]))"

definition ifapi_json_TPMS_SIGNATURE_RSASSA_serialize :: "('j, 'w) json_c \<Rightarrow> TPMS_SIGNATURE_RSA option \<Rightarrow> ('j, 'w) ser" where
  "ifapi_json_TPMS_SIGNATURE_RSASSA_serialize J inn =
     ifapi_json_TPMS_SIGNATURE_RSA_serialize J inn"

definition ifapi_json_TPMS_SIGNATURE_RSAPSS_serialize :: "('j, 'w) json_c \<Rightarrow> TPMS_SIGNATURE_RSA option \<Rightarrow> ('j, 'w) ser" where
  "ifapi_json_TPMS_SIGNATURE_RSAPSS_serialize J inn =
     ifapi_json_TPMS_SIGNATURE_RSA_serialize J inn"

definition ifapi_json_TPMS_SIGNATURE_ECC_serialize :: "('j, 'w) json_c \<Rightarrow> TPMS_SIGNATURE_ECC option \<Rightarrow> ('j, 'w) ser" where
  "ifapi_json_TPMS_SIGNATURE_ECC_serialize J inn =
     not_null inn (\<lambda>s. new_object_if_null J (object_fields J
        [(''hash'', ifapi_json_TPMI_ALG_HASH_serialize J (TPMS_SIGNATURE_ECC_hash s)),
         (''signatureR'', ifapi_json_TPM2B_ECC_PARAMETER_serialize J (Some (TPMS_SIGNATURE_ECC_signatureR s))),
         (''signatureS'', ifapi_json_TPM2B_ECC_PARAMETER_serialize J (Some (TPMS_SIGNATURE_ECC_signatureS s)))]))"

definition ifapi_json_TPMS_SIGNATURE_ECDSA_serialize :: "('j, 'w) json_c \<Rightarrow> TPMS_SIGNATURE_ECC option \<Rightarrow> ('j, 'w) ser" where
  "ifapi_json_TPMS_SIGNATURE_ECDSA_serialize J inn =
     ifapi_json_TPMS_SIGNATURE_ECC_serialize J inn"

definition ifapi_json_TPMS_SIGNATURE_ECDAA_serialize :: "('j, 'w) json_c \<Rightarrow> TPMS_SIGNATURE_ECC option \<Rightarrow> ('j, 'w) ser" where
  "ifapi_json_TPMS_SIGNATURE_ECDAA_serialize J inn =
     ifapi_json_TPMS_SIGNATURE_ECC_serialize J inn"

definition ifapi_json_TPMS_SIGNATURE_SM2_serialize :: "('j, 'w) json_c \<Rightarrow> TPMS_SIGNATURE_ECC option \<Rightarrow> ('j, 'w) ser" where
  "ifapi_json_TPMS_SIGNATURE_SM2_serialize J inn =
     ifapi_json_TPMS_SIGNATURE_ECC_serialize J inn"

definition ifapi_json_TPMS_SIGNATURE_ECSCHNORR_serialize :: "('j, 'w) json_c \<Rightarrow> TPMS_SIGNATURE_ECC option \<Rightarrow> ('j, 'w) ser" where
  "ifapi_json_TPMS_SIGNATURE_ECSCHNORR_serialize J inn =
     ifapi_json_TPMS_SIGNATURE_ECC_serialize J inn"

definition ifapi_json_TPM2B_MLDSA_SIGNATURE_serialize :: "('j, 'w) json_c \<Rightarrow> TPM2B option \<Rightarrow> ('j, 'w) ser" where
  "ifapi_json_TPM2B_MLDSA_SIGNATURE_serialize J inn =
     TPM2B_serialize J (TPM2_MAX_MLDSA_SIGNATURE_SIZE) inn"

definition ifapi_json_TPMS_SIGNATURE_MLDSA_serialize :: "('j, 'w) json_c \<Rightarrow> TPMS_SIGNATURE_MLDSA option \<Rightarrow> ('j, 'w) ser" where
  "ifapi_json_TPMS_SIGNATURE_MLDSA_serialize J inn =
     not_null inn (\<lambda>s. new_object_if_null J (object_fields J
        [(''hash'', ifapi_json_TPMI_ALG_HASH_serialize J (TPMS_SIGNATURE_MLDSA_hash s)),
         (''sig'', ifapi_json_TPM2B_MLDSA_SIGNATURE_serialize J (Some (TPMS_SIGNATURE_MLDSA_sig s)))]))"

definition ifapi_json_TPM2B_MLDSA_PUBLIC_KEY_serialize :: "('j, 'w) json_c \<Rightarrow> TPM2B option \<Rightarrow> ('j, 'w) ser" where
  "ifapi_json_TPM2B_MLDSA_PUBLIC_KEY_serialize J inn =
     TPM2B_serialize J (TPM2_MAX_MLDSA_PUBLIC_KEY_SIZE) inn"

definition ifapi_json_TPM2B_MLKEM_PUBLIC_KEY_serialize :: "('j, 'w) json_c \<Rightarrow> TPM2B option \<Rightarrow> ('j, 'w) ser" where
  "ifapi_json_TPM2B_MLKEM_PUBLIC_KEY_serialize J inn =
     TPM2B_serialize J (TPM2_MAX_MLKEM_PUBLIC_KEY_SIZE) inn"

definition ifapi_json_TPMS_ML_PARAMETER_SET_serialize :: "('j, 'w) json_c \<Rightarrow> TPMS_ML_PARAMETER_SET option \<Rightarrow> ('j, 'w) ser" where
  "ifapi_json_TPMS_ML_PARAMETER_SET_serialize J inn =
     not_null inn (\<lambda>s. new_object_if_null J (object_fields J
        [(''identifier'', int64_field J (ucast (TPMS_ML_PARAMETER_SET_identifier s)))]))"

definition ifapi_json_TPMS_MLDSA_PARMS_serialize :: "('j, 'w) json_c \<Rightarrow> TPMS_MLDSA_PARMS option \<Rightarrow> ('j, 'w) ser" where
  "ifapi_json_TPMS_MLDSA_PARMS_serialize J inn =
     not_null inn (\<lambda>s. new_object_if_null J (object_fields J
        [(''nameAlg'', ifapi_json_TPMI_ALG_HASH_serialize J (TPMS_MLDSA_PARMS_nameAlg s)),
         (''parameterSet'', ifapi_json_TPMS_ML_PARAMETER_SET_serialize J (Some (TPMS_MLDSA_PARMS_parameterSet s)))]))"

definition ifapi_json_TPMS_MLKEM_PARMS_serialize :: "('j, 'w) json_c \<Rightarrow> TPMS_MLKEM_PARMS option \<Rightarrow> ('j, 'w) ser" where
  "ifapi_json_TPMS_MLKEM_PARMS_serialize J inn =
     not_null inn (\<lambda>s. new_object_if_null J (object_fields J
        [(''nameAlg'', ifapi_json_TPMI_ALG_HASH_serialize J (TPMS_MLKEM_PARMS_nameAlg s)),
         (''parameterSet'', ifapi_json_TPMS_ML_PARAMETER_SET_serialize J (Some (TPMS_MLKEM_PARMS_parameterSet s)))]))"

definition ifapi_json_TPMU_SIGNATURE_serialize :: "('j, 'w) json_c \<Rightarrow> TPMU_SIGNATURE option \<Rightarrow> UINT32 \<Rightarrow> ('j, 'w) ser" where
  "ifapi_json_TPMU_SIGNATURE_serialize J inn selector =
     deref inn (\<lambda>u. union_switch
       [(ucast TPM2_ALG_RSASSA, union_member (get_TPMU_SIGNATURE_rsassa u) (\<lambda>x. ifapi_json_TPMS_SIGNATURE_RSASSA_serialize J (Some x))),
        (ucast TPM2_ALG_RSAPSS, union_member (get_TPMU_SIGNATURE_rsapss u) (\<lambda>x. ifapi_json_TPMS_SIGNATURE_RSAPSS_serialize J (Some x))),
        (ucast TPM2_ALG_ECDSA, union_member (get_TPMU_SIGNATURE_ecdsa u) (\<lambda>x. ifapi_json_TPMS_SIGNATURE_ECDSA_serialize J (Some x))),
        (ucast TPM2_ALG_ECDAA, union_member (get_TPMU_SIGNATURE_ecdaa u) (\<lambda>x. ifapi_json_TPMS_SIGNATURE_ECDAA_serialize J (Some x))),
        (ucast TPM2_ALG_SM2, union_member (get_TPMU_SIGNATURE_sm2 u) (\<lambda>x. ifapi_json_TPMS_SIGNATURE_SM2_serialize J (Some x))),
        (ucast TPM2_ALG_ECSCHNORR, union_member (get_TPMU_SIGNATURE_ecschnorr u) (\<lambda>x. ifapi_json_TPMS_SIGNATURE_ECSCHNORR_serialize J (Some x))),
        (ucast TPM2_ALG_HMAC, union_member (get_TPMU_SIGNATURE_hmac u) (\<lambda>x. ifapi_json_TPMT_HA_serialize J (Some x))),
        (ucast TPM2_ALG_MLDSA, union_member (get_TPMU_SIGNATURE_mldsa u) (\<lambda>x. ifapi_json_TPMS_SIGNATURE_MLDSA_serialize J (Some x)))]
       selector)"

definition ifapi_json_TPMT_SIGNATURE_serialize :: "('j, 'w) json_c \<Rightarrow> TPMT_SIGNATURE option \<Rightarrow> ('j, 'w) ser" where
  "ifapi_json_TPMT_SIGNATURE_serialize J inn =
     not_null inn (\<lambda>s. new_object_if_null J (object_fields J
        ([(''sigAlg'', ifapi_json_TPMI_ALG_SIG_SCHEME_serialize J (TPMT_SIGNATURE_sigAlg s))] @
         (if TPMT_SIGNATURE_sigAlg s \<noteq> TPM2_ALG_NULL then [(''signature'', ifapi_json_TPMU_SIGNATURE_serialize J (Some (TPMT_SIGNATURE_signature s)) (ucast (TPMT_SIGNATURE_sigAlg s)))] else []))))"

definition ifapi_json_TPM2B_ENCRYPTED_SECRET_serialize :: "('j, 'w) json_c \<Rightarrow> TPM2B option \<Rightarrow> ('j, 'w) ser" where
  "ifapi_json_TPM2B_ENCRYPTED_SECRET_serialize J inn =
     TPM2B_serialize J (sizeof ct_TPMU_ENCRYPTED_SECRET) inn"

definition ifapi_json_TPMU_PUBLIC_ID_serialize :: "('j, 'w) json_c \<Rightarrow> TPMU_PUBLIC_ID option \<Rightarrow> UINT32 \<Rightarrow> ('j, 'w) ser" where
  "ifapi_json_TPMU_PUBLIC_ID_serialize J inn selector =
     deref inn (\<lambda>u. union_switch
       [(ucast TPM2_ALG_KEYEDHASH, union_member (get_TPMU_PUBLIC_ID_keyedHash u) (\<lambda>x. ifapi_json_TPM2B_DIGEST_serialize J (Some x))),
        (ucast TPM2_ALG_SYMCIPHER, union_member (get_TPMU_PUBLIC_ID_sym u) (\<lambda>x. ifapi_json_TPM2B_DIGEST_serialize J (Some x))),
        (ucast TPM2_ALG_RSA, union_member (get_TPMU_PUBLIC_ID_rsa u) (\<lambda>x. ifapi_json_TPM2B_PUBLIC_KEY_RSA_serialize J (Some x))),
        (ucast TPM2_ALG_ECC, union_member (get_TPMU_PUBLIC_ID_ecc u) (\<lambda>x. ifapi_json_TPMS_ECC_POINT_serialize J (Some x))),
        (ucast TPM2_ALG_MLDSA, union_member (get_TPMU_PUBLIC_ID_mldsa u) (\<lambda>x. ifapi_json_TPM2B_MLDSA_PUBLIC_KEY_serialize J (Some x))),
        (ucast TPM2_ALG_MLKEM, union_member (get_TPMU_PUBLIC_ID_mlkem u) (\<lambda>x. ifapi_json_TPM2B_MLKEM_PUBLIC_KEY_serialize J (Some x)))]
       selector)"

definition ifapi_json_TPMS_KEYEDHASH_PARMS_serialize :: "('j, 'w) json_c \<Rightarrow> TPMS_KEYEDHASH_PARMS option \<Rightarrow> ('j, 'w) ser" where
  "ifapi_json_TPMS_KEYEDHASH_PARMS_serialize J inn =
     not_null inn (\<lambda>s. new_object_if_null J (object_fields J
        [(''scheme'', ifapi_json_TPMT_KEYEDHASH_SCHEME_serialize J (Some (TPMS_KEYEDHASH_PARMS_scheme s)))]))"

definition ifapi_json_TPMS_RSA_PARMS_serialize :: "('j, 'w) json_c \<Rightarrow> TPMS_RSA_PARMS option \<Rightarrow> ('j, 'w) ser" where
  "ifapi_json_TPMS_RSA_PARMS_serialize J inn =
     not_null inn (\<lambda>s. new_object_if_null J (object_fields J
        [(''symmetric'', ifapi_json_TPMT_SYM_DEF_OBJECT_serialize J (Some (TPMS_RSA_PARMS_symmetric s))),
         (''scheme'', ifapi_json_TPMT_RSA_SCHEME_serialize J (Some (TPMS_RSA_PARMS_scheme s))),
         (''keyBits'', ifapi_json_TPMI_RSA_KEY_BITS_serialize J (TPMS_RSA_PARMS_keyBits s)),
         (''exponent'', ifapi_json_UINT32_serialize J (TPMS_RSA_PARMS_exponent s))]))"

definition ifapi_json_TPMS_ECC_PARMS_serialize :: "('j, 'w) json_c \<Rightarrow> TPMS_ECC_PARMS option \<Rightarrow> ('j, 'w) ser" where
  "ifapi_json_TPMS_ECC_PARMS_serialize J inn =
     not_null inn (\<lambda>s. new_object_if_null J (object_fields J
        [(''symmetric'', ifapi_json_TPMT_SYM_DEF_OBJECT_serialize J (Some (TPMS_ECC_PARMS_symmetric s))),
         (''scheme'', ifapi_json_TPMT_ECC_SCHEME_serialize J (Some (TPMS_ECC_PARMS_scheme s))),
         (''curveID'', ifapi_json_TPMI_ECC_CURVE_serialize J (TPMS_ECC_PARMS_curveID s)),
         (''kdf'', ifapi_json_TPMT_KDF_SCHEME_serialize J (Some (TPMS_ECC_PARMS_kdf s)))]))"

definition ifapi_json_TPMU_PUBLIC_PARMS_serialize :: "('j, 'w) json_c \<Rightarrow> TPMU_PUBLIC_PARMS option \<Rightarrow> UINT32 \<Rightarrow> ('j, 'w) ser" where
  "ifapi_json_TPMU_PUBLIC_PARMS_serialize J inn selector =
     deref inn (\<lambda>u. union_switch
       [(ucast TPM2_ALG_KEYEDHASH, union_member (get_TPMU_PUBLIC_PARMS_keyedHashDetail u) (\<lambda>x. ifapi_json_TPMS_KEYEDHASH_PARMS_serialize J (Some x))),
        (ucast TPM2_ALG_SYMCIPHER, union_member (get_TPMU_PUBLIC_PARMS_symDetail u) (\<lambda>x. ifapi_json_TPMS_SYMCIPHER_PARMS_serialize J (Some x))),
        (ucast TPM2_ALG_RSA, union_member (get_TPMU_PUBLIC_PARMS_rsaDetail u) (\<lambda>x. ifapi_json_TPMS_RSA_PARMS_serialize J (Some x))),
        (ucast TPM2_ALG_ECC, union_member (get_TPMU_PUBLIC_PARMS_eccDetail u) (\<lambda>x. ifapi_json_TPMS_ECC_PARMS_serialize J (Some x))),
        (ucast TPM2_ALG_MLDSA, union_member (get_TPMU_PUBLIC_PARMS_mldsaDetail u) (\<lambda>x. ifapi_json_TPMS_MLDSA_PARMS_serialize J (Some x))),
        (ucast TPM2_ALG_MLKEM, union_member (get_TPMU_PUBLIC_PARMS_mlkemDetail u) (\<lambda>x. ifapi_json_TPMS_MLKEM_PARMS_serialize J (Some x)))]
       selector)"

definition ifapi_json_TPMT_PUBLIC_serialize :: "('j, 'w) json_c \<Rightarrow> TPMT_PUBLIC option \<Rightarrow> ('j, 'w) ser" where
  "ifapi_json_TPMT_PUBLIC_serialize J inn =
     not_null inn (\<lambda>s. new_object_if_null J (object_fields J
        [(''type'', ifapi_json_TPMI_ALG_PUBLIC_serialize J (TPMT_PUBLIC_type s)),
         (''nameAlg'', ifapi_json_TPMI_ALG_HASH_serialize J (TPMT_PUBLIC_nameAlg s)),
         (''objectAttributes'', ifapi_json_TPMA_OBJECT_serialize J (TPMT_PUBLIC_objectAttributes s)),
         (''authPolicy'', ifapi_json_TPM2B_DIGEST_serialize J (Some (TPMT_PUBLIC_authPolicy s))),
         (''parameters'', ifapi_json_TPMU_PUBLIC_PARMS_serialize J (Some (TPMT_PUBLIC_parameters s)) (ucast (TPMT_PUBLIC_type s))),
         (''unique'', ifapi_json_TPMU_PUBLIC_ID_serialize J (Some (TPMT_PUBLIC_unique s)) (ucast (TPMT_PUBLIC_type s)))]))"

definition ifapi_json_TPM2B_PUBLIC_serialize :: "('j, 'w) json_c \<Rightarrow> TPM2B_PUBLIC option \<Rightarrow> ('j, 'w) ser" where
  "ifapi_json_TPM2B_PUBLIC_serialize J inn =
     deref inn (\<lambda>s. new_object_if_null J (or_memory (object_fields J
        [(''size'', bad_value_if_error (ifapi_json_UINT16_serialize J (TPM2B_SUBTYPE_size s))),
         (''publicArea'', bad_value_if_error (ifapi_json_TPMT_PUBLIC_serialize J (Some (TPM2B_SUBTYPE_member s))))])))"

definition ifapi_json_TPM2B_PRIVATE_serialize :: "('j, 'w) json_c \<Rightarrow> TPM2B option \<Rightarrow> ('j, 'w) ser" where
  "ifapi_json_TPM2B_PRIVATE_serialize J inn =
     TPM2B_serialize J (sizeof ct_PRIVATE) inn"

definition ifapi_json_TPMS_NV_PUBLIC_serialize :: "('j, 'w) json_c \<Rightarrow> TPMS_NV_PUBLIC option \<Rightarrow> ('j, 'w) ser" where
  "ifapi_json_TPMS_NV_PUBLIC_serialize J inn =
     not_null inn (\<lambda>s. new_object_if_null J (object_fields J
        [(''nvIndex'', ifapi_json_TPMI_RH_NV_INDEX_serialize J (TPMS_NV_PUBLIC_nvIndex s)),
         (''nameAlg'', ifapi_json_TPMI_ALG_HASH_serialize J (TPMS_NV_PUBLIC_nameAlg s)),
         (''attributes'', ifapi_json_TPMA_NV_serialize J (TPMS_NV_PUBLIC_attributes s)),
         (''authPolicy'', ifapi_json_TPM2B_DIGEST_serialize J (Some (TPMS_NV_PUBLIC_authPolicy s))),
         (''dataSize'', ifapi_json_UINT16_serialize J (TPMS_NV_PUBLIC_dataSize s))]))"

definition ifapi_json_TPM2B_NV_PUBLIC_serialize :: "('j, 'w) json_c \<Rightarrow> TPM2B_NV_PUBLIC option \<Rightarrow> ('j, 'w) ser" where
  "ifapi_json_TPM2B_NV_PUBLIC_serialize J inn =
     deref inn (\<lambda>s. new_object_if_null J (or_memory (object_fields J
        [(''size'', bad_value_if_error (ifapi_json_UINT16_serialize J (TPM2B_SUBTYPE_size s))),
         (''nvPublic'', bad_value_if_error (ifapi_json_TPMS_NV_PUBLIC_serialize J (Some (TPM2B_SUBTYPE_member s))))])))"

definition ifapi_json_TPMS_CREATION_DATA_serialize :: "('j, 'w) json_c \<Rightarrow> TPMS_CREATION_DATA option \<Rightarrow> ('j, 'w) ser" where
  "ifapi_json_TPMS_CREATION_DATA_serialize J inn =
     not_null inn (\<lambda>s. new_object_if_null J (object_fields J
        [(''pcrSelect'', ifapi_json_TPML_PCR_SELECTION_serialize J (Some (TPMS_CREATION_DATA_pcrSelect s))),
         (''pcrDigest'', ifapi_json_TPM2B_DIGEST_serialize J (Some (TPMS_CREATION_DATA_pcrDigest s))),
         (''locality'', ifapi_json_TPMA_LOCALITY_serialize J (TPMS_CREATION_DATA_locality s)),
         (''parentNameAlg'', ifapi_json_TPM2_ALG_ID_serialize J (TPMS_CREATION_DATA_parentNameAlg s)),
         (''parentName'', ifapi_json_TPM2B_NAME_serialize J (Some (TPMS_CREATION_DATA_parentName s))),
         (''parentQualifiedName'', ifapi_json_TPM2B_NAME_serialize J (Some (TPMS_CREATION_DATA_parentQualifiedName s))),
         (''outsideInfo'', ifapi_json_TPM2B_DATA_serialize J (Some (TPMS_CREATION_DATA_outsideInfo s)))]))"

definition ifapi_json_TPM2B_CREATION_DATA_serialize :: "('j, 'w) json_c \<Rightarrow> TPM2B_CREATION_DATA option \<Rightarrow> ('j, 'w) ser" where
  "ifapi_json_TPM2B_CREATION_DATA_serialize J inn =
     deref inn (\<lambda>s. new_object_if_null J (or_memory (object_fields J
        [(''size'', bad_value_if_error (ifapi_json_UINT16_serialize J (TPM2B_SUBTYPE_size s))),
         (''creationData'', bad_value_if_error (ifapi_json_TPMS_CREATION_DATA_serialize J (Some (TPM2B_SUBTYPE_member s))))])))"

end
