(* ===== verification/Fapi_Des_Types.thy ===== *)
theory Fapi_Des_Types
  imports Fapi_Des_Values
begin

text \<open>
  \<open>tpm_json_deserialize.c\<close>, the sized buffers, lists, structures and unions.
\<close>

definition ifapi_json_TPMS_PCR_SELECT_deserialize :: "('j, 'w) json_c \<Rightarrow> ('j, TPMS_PCR_SELECT) des" where
  "ifapi_json_TPMS_PCR_SELECT_deserialize J =
     out_deref (zeroed zero_TPMS_PCR_SELECT (\<lambda>jso s.
       map_option (\<lambda>(r, n, b). (r, s\<lparr>TPMS_PCR_SELECT_sizeofSelect := n, TPMS_PCR_SELECT_pcrSelect := b\<rparr>))
         (ifapi_json_pcr_selection_deserialize J jso (TPMS_PCR_SELECT_sizeofSelect s) (TPMS_PCR_SELECT_pcrSelect s))))"

definition ifapi_json_TPMS_PCR_SELECTION_deserialize :: "('j, 'w) json_c \<Rightarrow> ('j, TPMS_PCR_SELECTION) des" where
  "ifapi_json_TPMS_PCR_SELECTION_deserialize J =
     out_deref (zeroed zero_TPMS_PCR_SELECTION (read_fields
       [field J ''hash'' (into TPMS_PCR_SELECTION_hash TPMS_PCR_SELECTION_hash_update (ifapi_json_TPMI_ALG_HASH_deserialize J)),
        field J ''pcrSelect'' (\<lambda>jso2 s.
          map_option (\<lambda>(r, n, b). (r, s\<lparr>TPMS_PCR_SELECTION_sizeofSelect := n, TPMS_PCR_SELECTION_pcrSelect := b\<rparr>))
            (ifapi_json_pcr_selection_deserialize J jso2 (TPMS_PCR_SELECTION_sizeofSelect s) (TPMS_PCR_SELECTION_pcrSelect s)))]))"

definition digest_deserialize :: "('j, 'w) json_c \<Rightarrow> nat \<Rightarrow> ('j, BYTE list) des" where
  "digest_deserialize J hash_size jso out =
     (case out of
        None \<Rightarrow> None
      | Some buffer \<Rightarrow>
          (case ifapi_json_byte_deserialize J jso hash_size buffer 0 of
             None \<Rightarrow> None
           | Some (r, buffer', n) \<Rightarrow>
               Some (if r \<noteq> TSS2_RC_SUCCESS then r
                     else if of_nat hash_size \<noteq> n then TSS2_FAPI_RC_BAD_VALUE else TSS2_RC_SUCCESS, Some buffer')))"

definition ifapi_json_TPMU_HA_deserialize :: "('j, 'w) json_c \<Rightarrow> UINT32 \<Rightarrow> ('j, TPMU_HA) des" where
  "ifapi_json_TPMU_HA_deserialize J selector =
     des_switch
       [(ucast TPM2_ALG_SHA1, des_member get_TPMU_HA_sha1 TPMU_HA_sha1 (replicate 20 0) (digest_deserialize J TPM2_SHA1_DIGEST_SIZE)),
        (ucast TPM2_ALG_SHA256, des_member get_TPMU_HA_sha256 TPMU_HA_sha256 (replicate 32 0) (digest_deserialize J TPM2_SHA256_DIGEST_SIZE)),
        (ucast TPM2_ALG_SHA384, des_member get_TPMU_HA_sha384 TPMU_HA_sha384 (replicate 48 0) (digest_deserialize J TPM2_SHA384_DIGEST_SIZE)),
        (ucast TPM2_ALG_SHA512, des_member get_TPMU_HA_sha512 TPMU_HA_sha512 (replicate 64 0) (digest_deserialize J TPM2_SHA512_DIGEST_SIZE)),
        (ucast TPM2_ALG_SM3_256, des_member get_TPMU_HA_sm3_256 TPMU_HA_sm3_256 (replicate 32 0) (digest_deserialize J TPM2_SM3_256_DIGEST_SIZE)),
        (ucast TPM2_ALG_NULL, nothing)]
       selector"

definition ifapi_json_TPMT_HA_deserialize :: "('j, 'w) json_c \<Rightarrow> ('j, TPMT_HA) des" where
  "ifapi_json_TPMT_HA_deserialize J =
     out_not_null (read_fields
       [field J ''hashAlg'' (into TPMT_HA_hashAlg TPMT_HA_hashAlg_update (ifapi_json_TPMI_ALG_HASH_deserialize J)),
        when_step (\<lambda>s. TPMT_HA_hashAlg s \<noteq> TPM2_ALG_NULL) (field J ''digest'' (\<lambda>jso2 s. into TPMT_HA_digest TPMT_HA_digest_update (ifapi_json_TPMU_HA_deserialize J (ucast (TPMT_HA_hashAlg s))) jso2 s))])"

definition ifapi_json_TPMS_TAGGED_POLICY_deserialize :: "('j, 'w) json_c \<Rightarrow> ('j, TPMS_TAGGED_POLICY) des" where
  "ifapi_json_TPMS_TAGGED_POLICY_deserialize J =
     out_not_null (zeroed zero_TPMS_TAGGED_POLICY (read_fields
       [field J ''handle'' (into TPMS_TAGGED_POLICY_handle TPMS_TAGGED_POLICY_handle_update (ifapi_json_TPM2_HANDLE_deserialize J)),
        field J ''policyHash'' (into TPMS_TAGGED_POLICY_policyHash TPMS_TAGGED_POLICY_policyHash_update (ifapi_json_TPMT_HA_deserialize J))]))"

definition ifapi_json_TPMS_ACT_DATA_deserialize :: "('j, 'w) json_c \<Rightarrow> ('j, TPMS_ACT_DATA) des" where
  "ifapi_json_TPMS_ACT_DATA_deserialize J =
     out_not_null (zeroed zero_TPMS_ACT_DATA (read_fields
       [field J ''handle'' (into TPMS_ACT_DATA_handle TPMS_ACT_DATA_handle_update (ifapi_json_TPM2_HANDLE_deserialize J)),
        field J ''timeout'' (into TPMS_ACT_DATA_timeout TPMS_ACT_DATA_timeout_update (ifapi_json_UINT32_deserialize J)),
        field J ''attributes'' (into TPMS_ACT_DATA_attributes TPMS_ACT_DATA_attributes_update (ifapi_json_TPMA_ACT_deserialize J))]))"

definition ifapi_json_TPM2B_DIGEST_deserialize :: "('j, 'w) json_c \<Rightarrow> ('j, TPM2B) des" where
  "ifapi_json_TPM2B_DIGEST_deserialize J =
     TPM2B_deserialize J (sizeof ct_TPMU_HA)"

definition ifapi_json_TPM2B_DATA_deserialize :: "('j, 'w) json_c \<Rightarrow> ('j, TPM2B) des" where
  "ifapi_json_TPM2B_DATA_deserialize J =
     TPM2B_deserialize J (sizeof ct_TPMT_HA)"

definition ifapi_json_TPM2B_NONCE_deserialize :: "('j, 'w) json_c \<Rightarrow> ('j, TPM2B) des" where
  "ifapi_json_TPM2B_NONCE_deserialize J =
     ifapi_json_TPM2B_DIGEST_deserialize J"

definition ifapi_json_TPM2B_OPERAND_deserialize :: "('j, 'w) json_c \<Rightarrow> ('j, TPM2B) des" where
  "ifapi_json_TPM2B_OPERAND_deserialize J =
     ifapi_json_TPM2B_DIGEST_deserialize J"

definition ifapi_json_TPM2B_EVENT_deserialize :: "('j, 'w) json_c \<Rightarrow> ('j, TPM2B) des" where
  "ifapi_json_TPM2B_EVENT_deserialize J =
     TPM2B_deserialize J (1024)"

definition ifapi_json_TPM2B_MAX_NV_BUFFER_deserialize :: "('j, 'w) json_c \<Rightarrow> ('j, TPM2B) des" where
  "ifapi_json_TPM2B_MAX_NV_BUFFER_deserialize J =
     TPM2B_deserialize J (TPM2_MAX_NV_BUFFER_SIZE)"

definition ifapi_json_TPM2B_NAME_deserialize :: "('j, 'w) json_c \<Rightarrow> ('j, TPM2B) des" where
  "ifapi_json_TPM2B_NAME_deserialize J =
     TPM2B_deserialize J (sizeof ct_TPMU_NAME)"

definition ifapi_json_TPMT_TK_CREATION_deserialize :: "('j, 'w) json_c \<Rightarrow> ('j, TPMT_TK_CREATION) des" where
  "ifapi_json_TPMT_TK_CREATION_deserialize J =
     out_not_null (read_fields
       [field J ''tag'' (into TPMT_TK_CREATION_tag TPMT_TK_CREATION_tag_update (ifapi_json_TPM2_ST_deserialize J)),
        field J ''hierarchy'' (into TPMT_TK_CREATION_hierarchy TPMT_TK_CREATION_hierarchy_update (ifapi_json_TPMI_RH_HIERARCHY_deserialize J)),
        field J ''digest'' (into TPMT_TK_CREATION_digest TPMT_TK_CREATION_digest_update (ifapi_json_TPM2B_DIGEST_deserialize J))])"

definition ifapi_json_TPML_DIGEST_VALUES_deserialize :: "('j, 'w) json_c \<Rightarrow> ('j, TPML_DIGEST_VALUES) des" where
  "ifapi_json_TPML_DIGEST_VALUES_deserialize J =
     TPML_deserialize J (TPM2_NUM_PCR_BANKS) (ifapi_json_TPMT_HA_deserialize J)"

definition ifapi_json_TPML_PCR_SELECTION_deserialize :: "('j, 'w) json_c \<Rightarrow> ('j, TPML_PCR_SELECTION) des" where
  "ifapi_json_TPML_PCR_SELECTION_deserialize J =
     TPML_deserialize J (TPM2_NUM_PCR_BANKS) (ifapi_json_TPMS_PCR_SELECTION_deserialize J)"

definition ifapi_json_TPMS_CLOCK_INFO_deserialize :: "('j, 'w) json_c \<Rightarrow> ('j, TPMS_CLOCK_INFO) des" where
  "ifapi_json_TPMS_CLOCK_INFO_deserialize J =
     out_not_null (read_fields
       [field J ''clock'' (into TPMS_CLOCK_INFO_clock TPMS_CLOCK_INFO_clock_update (ifapi_json_UINT64_deserialize J)),
        field J ''resetCount'' (into TPMS_CLOCK_INFO_resetCount TPMS_CLOCK_INFO_resetCount_update (ifapi_json_UINT32_deserialize J)),
        field J ''restartCount'' (into TPMS_CLOCK_INFO_restartCount TPMS_CLOCK_INFO_restartCount_update (ifapi_json_UINT32_deserialize J)),
        field J ''safe'' (into TPMS_CLOCK_INFO_safe TPMS_CLOCK_INFO_safe_update (ifapi_json_TPMI_YES_NO_deserialize J))])"

definition ifapi_json_TPMS_TIME_INFO_deserialize :: "('j, 'w) json_c \<Rightarrow> ('j, TPMS_TIME_INFO) des" where
  "ifapi_json_TPMS_TIME_INFO_deserialize J =
     out_not_null (read_fields
       [field J ''time'' (into TPMS_TIME_INFO_time TPMS_TIME_INFO_time_update (ifapi_json_UINT64_deserialize J)),
        field J ''clockInfo'' (into TPMS_TIME_INFO_clockInfo TPMS_TIME_INFO_clockInfo_update (ifapi_json_TPMS_CLOCK_INFO_deserialize J))])"

definition ifapi_json_TPMS_TIME_ATTEST_INFO_deserialize :: "('j, 'w) json_c \<Rightarrow> ('j, TPMS_TIME_ATTEST_INFO) des" where
  "ifapi_json_TPMS_TIME_ATTEST_INFO_deserialize J =
     out_not_null (read_fields
       [field J ''time'' (into TPMS_TIME_ATTEST_INFO_time TPMS_TIME_ATTEST_INFO_time_update (ifapi_json_TPMS_TIME_INFO_deserialize J)),
        field J ''firmwareVersion'' (into TPMS_TIME_ATTEST_INFO_firmwareVersion TPMS_TIME_ATTEST_INFO_firmwareVersion_update (ifapi_json_UINT64_deserialize J))])"

definition ifapi_json_TPMS_CERTIFY_INFO_deserialize :: "('j, 'w) json_c \<Rightarrow> ('j, TPMS_CERTIFY_INFO) des" where
  "ifapi_json_TPMS_CERTIFY_INFO_deserialize J =
     out_not_null (read_fields
       [field J ''name'' (into TPMS_CERTIFY_INFO_name TPMS_CERTIFY_INFO_name_update (ifapi_json_TPM2B_NAME_deserialize J)),
        field J ''qualifiedName'' (into TPMS_CERTIFY_INFO_qualifiedName TPMS_CERTIFY_INFO_qualifiedName_update (ifapi_json_TPM2B_NAME_deserialize J))])"

definition ifapi_json_TPMS_QUOTE_INFO_deserialize :: "('j, 'w) json_c \<Rightarrow> ('j, TPMS_QUOTE_INFO) des" where
  "ifapi_json_TPMS_QUOTE_INFO_deserialize J =
     out_not_null (read_fields
       [field J ''pcrSelect'' (into TPMS_QUOTE_INFO_pcrSelect TPMS_QUOTE_INFO_pcrSelect_update (ifapi_json_TPML_PCR_SELECTION_deserialize J)),
        field J ''pcrDigest'' (into TPMS_QUOTE_INFO_pcrDigest TPMS_QUOTE_INFO_pcrDigest_update (ifapi_json_TPM2B_DIGEST_deserialize J))])"

definition ifapi_json_TPMS_COMMAND_AUDIT_INFO_deserialize :: "('j, 'w) json_c \<Rightarrow> ('j, TPMS_COMMAND_AUDIT_INFO) des" where
  "ifapi_json_TPMS_COMMAND_AUDIT_INFO_deserialize J =
     out_not_null (read_fields
       [field J ''auditCounter'' (into TPMS_COMMAND_AUDIT_INFO_auditCounter TPMS_COMMAND_AUDIT_INFO_auditCounter_update (ifapi_json_UINT64_deserialize J)),
        field J ''digestAlg'' (into TPMS_COMMAND_AUDIT_INFO_digestAlg TPMS_COMMAND_AUDIT_INFO_digestAlg_update (ifapi_json_TPM2_ALG_ID_deserialize J)),
        field J ''auditDigest'' (into TPMS_COMMAND_AUDIT_INFO_auditDigest TPMS_COMMAND_AUDIT_INFO_auditDigest_update (ifapi_json_TPM2B_DIGEST_deserialize J)),
        field J ''commandDigest'' (into TPMS_COMMAND_AUDIT_INFO_commandDigest TPMS_COMMAND_AUDIT_INFO_commandDigest_update (ifapi_json_TPM2B_DIGEST_deserialize J))])"

definition ifapi_json_TPMS_SESSION_AUDIT_INFO_deserialize :: "('j, 'w) json_c \<Rightarrow> ('j, TPMS_SESSION_AUDIT_INFO) des" where
  "ifapi_json_TPMS_SESSION_AUDIT_INFO_deserialize J =
     out_not_null (read_fields
       [field J ''exclusiveSession'' (into TPMS_SESSION_AUDIT_INFO_exclusiveSession TPMS_SESSION_AUDIT_INFO_exclusiveSession_update (ifapi_json_TPMI_YES_NO_deserialize J)),
        field J ''sessionDigest'' (into TPMS_SESSION_AUDIT_INFO_sessionDigest TPMS_SESSION_AUDIT_INFO_sessionDigest_update (ifapi_json_TPM2B_DIGEST_deserialize J))])"

definition ifapi_json_TPMS_CREATION_INFO_deserialize :: "('j, 'w) json_c \<Rightarrow> ('j, TPMS_CREATION_INFO) des" where
  "ifapi_json_TPMS_CREATION_INFO_deserialize J =
     out_not_null (read_fields
       [field J ''objectName'' (into TPMS_CREATION_INFO_objectName TPMS_CREATION_INFO_objectName_update (ifapi_json_TPM2B_NAME_deserialize J)),
        field J ''creationHash'' (into TPMS_CREATION_INFO_creationHash TPMS_CREATION_INFO_creationHash_update (ifapi_json_TPM2B_DIGEST_deserialize J))])"

definition ifapi_json_TPMS_NV_CERTIFY_INFO_deserialize :: "('j, 'w) json_c \<Rightarrow> ('j, TPMS_NV_CERTIFY_INFO) des" where
  "ifapi_json_TPMS_NV_CERTIFY_INFO_deserialize J =
     out_not_null (read_fields
       [field J ''indexName'' (into TPMS_NV_CERTIFY_INFO_indexName TPMS_NV_CERTIFY_INFO_indexName_update (ifapi_json_TPM2B_NAME_deserialize J)),
        field J ''offset'' (into TPMS_NV_CERTIFY_INFO_offset TPMS_NV_CERTIFY_INFO_offset_update (ifapi_json_UINT16_deserialize J)),
        field J ''nvContents'' (into TPMS_NV_CERTIFY_INFO_nvContents TPMS_NV_CERTIFY_INFO_nvContents_update (ifapi_json_TPM2B_MAX_NV_BUFFER_deserialize J))])"

definition ifapi_json_TPMU_ATTEST_deserialize :: "('j, 'w) json_c \<Rightarrow> UINT32 \<Rightarrow> ('j, TPMU_ATTEST) des" where
  "ifapi_json_TPMU_ATTEST_deserialize J selector =
     des_switch
       [(ucast TPM2_ST_ATTEST_CERTIFY, des_member get_TPMU_ATTEST_certify TPMU_ATTEST_certify zero_TPMS_CERTIFY_INFO (ifapi_json_TPMS_CERTIFY_INFO_deserialize J)),
        (ucast TPM2_ST_ATTEST_CREATION, des_member get_TPMU_ATTEST_creation TPMU_ATTEST_creation zero_TPMS_CREATION_INFO (ifapi_json_TPMS_CREATION_INFO_deserialize J)),
        (ucast TPM2_ST_ATTEST_QUOTE, des_member get_TPMU_ATTEST_quote TPMU_ATTEST_quote zero_TPMS_QUOTE_INFO (ifapi_json_TPMS_QUOTE_INFO_deserialize J)),
        (ucast TPM2_ST_ATTEST_COMMAND_AUDIT, des_member get_TPMU_ATTEST_commandAudit TPMU_ATTEST_commandAudit zero_TPMS_COMMAND_AUDIT_INFO (ifapi_json_TPMS_COMMAND_AUDIT_INFO_deserialize J)),
        (ucast TPM2_ST_ATTEST_SESSION_AUDIT, des_member get_TPMU_ATTEST_sessionAudit TPMU_ATTEST_sessionAudit zero_TPMS_SESSION_AUDIT_INFO (ifapi_json_TPMS_SESSION_AUDIT_INFO_deserialize J)),
        (ucast TPM2_ST_ATTEST_TIME, des_member get_TPMU_ATTEST_time TPMU_ATTEST_time zero_TPMS_TIME_ATTEST_INFO (ifapi_json_TPMS_TIME_ATTEST_INFO_deserialize J)),
        (ucast TPM2_ST_ATTEST_NV, des_member get_TPMU_ATTEST_nv TPMU_ATTEST_nv zero_TPMS_NV_CERTIFY_INFO (ifapi_json_TPMS_NV_CERTIFY_INFO_deserialize J))]
       selector"

definition ifapi_json_TPMS_ATTEST_deserialize :: "('j, 'w) json_c \<Rightarrow> ('j, TPMS_ATTEST) des" where
  "ifapi_json_TPMS_ATTEST_deserialize J =
     out_not_null (read_fields
       [field J ''magic'' (into TPMS_ATTEST_magic TPMS_ATTEST_magic_update (ifapi_json_TPM2_GENERATED_deserialize J)),
        field J ''type'' (into TPMS_ATTEST_type TPMS_ATTEST_type_update (ifapi_json_TPMI_ST_ATTEST_deserialize J)),
        field J ''qualifiedSigner'' (into TPMS_ATTEST_qualifiedSigner TPMS_ATTEST_qualifiedSigner_update (ifapi_json_TPM2B_NAME_deserialize J)),
        field J ''extraData'' (into TPMS_ATTEST_extraData TPMS_ATTEST_extraData_update (ifapi_json_TPM2B_DATA_deserialize J)),
        field J ''clockInfo'' (into TPMS_ATTEST_clockInfo TPMS_ATTEST_clockInfo_update (ifapi_json_TPMS_CLOCK_INFO_deserialize J)),
        field J ''firmwareVersion'' (into TPMS_ATTEST_firmwareVersion TPMS_ATTEST_firmwareVersion_update (ifapi_json_UINT64_deserialize J)),
        field J ''attested'' (\<lambda>jso2 s. into TPMS_ATTEST_attested TPMS_ATTEST_attested_update (ifapi_json_TPMU_ATTEST_deserialize J (ucast (TPMS_ATTEST_type s))) jso2 s)])"

definition ifapi_json_TPMU_SYM_KEY_BITS_deserialize :: "('j, 'w) json_c \<Rightarrow> UINT32 \<Rightarrow> ('j, TPMU_SYM_KEY_BITS) des" where
  "ifapi_json_TPMU_SYM_KEY_BITS_deserialize J selector =
     des_switch
       [(ucast TPM2_ALG_AES, des_member get_TPMU_SYM_KEY_BITS_aes TPMU_SYM_KEY_BITS_aes 0 (ifapi_json_TPMI_AES_KEY_BITS_deserialize J)),
        (ucast TPM2_ALG_XOR, des_member get_TPMU_SYM_KEY_BITS_exclusiveOr TPMU_SYM_KEY_BITS_exclusiveOr 0 (ifapi_json_TPMI_ALG_HASH_deserialize J)),
        (ucast TPM2_ALG_SM4, des_member get_TPMU_SYM_KEY_BITS_sm4 TPMU_SYM_KEY_BITS_sm4 0 (ifapi_json_TPMI_SM4_KEY_BITS_deserialize J)),
        (ucast TPM2_ALG_CAMELLIA, des_member get_TPMU_SYM_KEY_BITS_camellia TPMU_SYM_KEY_BITS_camellia 0 (ifapi_json_TPMI_CAMELLIA_KEY_BITS_deserialize J)),
        (ucast TPM2_ALG_NULL, nothing)]
       selector"

definition ifapi_json_TPMU_SYM_MODE_deserialize :: "('j, 'w) json_c \<Rightarrow> UINT32 \<Rightarrow> ('j, TPMU_SYM_MODE) des" where
  "ifapi_json_TPMU_SYM_MODE_deserialize J selector =
     des_switch
       [(ucast TPM2_ALG_AES, des_member sym_mode_value TPMU_SYM_MODE_aes 0 (ifapi_json_TPMI_ALG_SYM_MODE_deserialize J)),
        (ucast TPM2_ALG_CAMELLIA, des_member sym_mode_value TPMU_SYM_MODE_camellia 0 (ifapi_json_TPMI_ALG_SYM_MODE_deserialize J)),
        (ucast TPM2_ALG_SM4, des_member sym_mode_value TPMU_SYM_MODE_sm4 0 (ifapi_json_TPMI_ALG_SYM_MODE_deserialize J)),
        (ucast TPM2_ALG_NULL, nothing)]
       selector"

definition ifapi_json_TPMT_SYM_DEF_deserialize :: "('j, 'w) json_c \<Rightarrow> ('j, TPMT_SYM_DEF) des" where
  "ifapi_json_TPMT_SYM_DEF_deserialize J =
     out_not_null (read_fields
       [field J ''algorithm'' (into TPMT_SYM_DEF_algorithm TPMT_SYM_DEF_algorithm_update (ifapi_json_TPMI_ALG_SYM_deserialize J)),
        when_step (\<lambda>s. TPMT_SYM_DEF_algorithm s \<noteq> TPM2_ALG_NULL) (field J ''keyBits'' (\<lambda>jso2 s. into TPMT_SYM_DEF_keyBits TPMT_SYM_DEF_keyBits_update (ifapi_json_TPMU_SYM_KEY_BITS_deserialize J (ucast (TPMT_SYM_DEF_algorithm s))) jso2 s)),
        when_step (\<lambda>s. TPMT_SYM_DEF_algorithm s \<noteq> TPM2_ALG_NULL) (field J ''mode'' (\<lambda>jso2 s. into TPMT_SYM_DEF_mode TPMT_SYM_DEF_mode_update (ifapi_json_TPMU_SYM_MODE_deserialize J (ucast (TPMT_SYM_DEF_algorithm s))) jso2 s))])"

definition ifapi_json_TPMT_SYM_DEF_OBJECT_deserialize :: "('j, 'w) json_c \<Rightarrow> ('j, TPMT_SYM_DEF_OBJECT) des" where
  "ifapi_json_TPMT_SYM_DEF_OBJECT_deserialize J =
     out_not_null (read_fields
       [field J ''algorithm'' (into TPMT_SYM_DEF_OBJECT_algorithm TPMT_SYM_DEF_OBJECT_algorithm_update (ifapi_json_TPMI_ALG_SYM_OBJECT_deserialize J)),
        when_step (\<lambda>s. TPMT_SYM_DEF_OBJECT_algorithm s \<noteq> TPM2_ALG_NULL) (field J ''keyBits'' (\<lambda>jso2 s. into TPMT_SYM_DEF_OBJECT_keyBits TPMT_SYM_DEF_OBJECT_keyBits_update (ifapi_json_TPMU_SYM_KEY_BITS_deserialize J (ucast (TPMT_SYM_DEF_OBJECT_algorithm s))) jso2 s)),
        when_step (\<lambda>s. TPMT_SYM_DEF_OBJECT_algorithm s \<noteq> TPM2_ALG_NULL) (field J ''mode'' (\<lambda>jso2 s. into TPMT_SYM_DEF_OBJECT_mode TPMT_SYM_DEF_OBJECT_mode_update (ifapi_json_TPMU_SYM_MODE_deserialize J (ucast (TPMT_SYM_DEF_OBJECT_algorithm s))) jso2 s))])"

definition ifapi_json_TPMS_SYMCIPHER_PARMS_deserialize :: "('j, 'w) json_c \<Rightarrow> ('j, TPMS_SYMCIPHER_PARMS) des" where
  "ifapi_json_TPMS_SYMCIPHER_PARMS_deserialize J =
     out_not_null (read_fields
       [field J ''sym'' (into TPMS_SYMCIPHER_PARMS_sym TPMS_SYMCIPHER_PARMS_sym_update (ifapi_json_TPMT_SYM_DEF_OBJECT_deserialize J))])"

definition ifapi_json_TPMS_SCHEME_HASH_deserialize :: "('j, 'w) json_c \<Rightarrow> ('j, TPMS_SCHEME_HASH) des" where
  "ifapi_json_TPMS_SCHEME_HASH_deserialize J =
     out_not_null (read_fields
       [field J ''hashAlg'' (into TPMS_SCHEME_HASH_hashAlg TPMS_SCHEME_HASH_hashAlg_update (ifapi_json_TPMI_ALG_HASH_deserialize J))])"

definition ifapi_json_TPMS_SCHEME_ECDAA_deserialize :: "('j, 'w) json_c \<Rightarrow> ('j, TPMS_SCHEME_ECDAA) des" where
  "ifapi_json_TPMS_SCHEME_ECDAA_deserialize J =
     out_not_null (read_fields
       [field J ''hashAlg'' (into TPMS_SCHEME_ECDAA_hashAlg TPMS_SCHEME_ECDAA_hashAlg_update (ifapi_json_TPMI_ALG_HASH_deserialize J)),
        field J ''count'' (into TPMS_SCHEME_ECDAA_count TPMS_SCHEME_ECDAA_count_update (ifapi_json_UINT16_deserialize J))])"

definition ifapi_json_TPMS_SCHEME_HMAC_deserialize :: "('j, 'w) json_c \<Rightarrow> ('j, TPMS_SCHEME_HASH) des" where
  "ifapi_json_TPMS_SCHEME_HMAC_deserialize J =
     ifapi_json_TPMS_SCHEME_HASH_deserialize J"

definition ifapi_json_TPMS_SCHEME_XOR_deserialize :: "('j, 'w) json_c \<Rightarrow> ('j, TPMS_SCHEME_XOR) des" where
  "ifapi_json_TPMS_SCHEME_XOR_deserialize J =
     out_not_null (read_fields
       [field J ''hashAlg'' (into TPMS_SCHEME_XOR_hashAlg TPMS_SCHEME_XOR_hashAlg_update (ifapi_json_TPMI_ALG_HASH_deserialize J)),
        field J ''kdf'' (into TPMS_SCHEME_XOR_kdf TPMS_SCHEME_XOR_kdf_update (ifapi_json_TPMI_ALG_KDF_deserialize J))])"

definition ifapi_json_TPMU_SCHEME_KEYEDHASH_deserialize :: "('j, 'w) json_c \<Rightarrow> UINT32 \<Rightarrow> ('j, TPMU_SCHEME_KEYEDHASH) des" where
  "ifapi_json_TPMU_SCHEME_KEYEDHASH_deserialize J selector =
     des_switch
       [(ucast TPM2_ALG_HMAC, des_member get_TPMU_SCHEME_KEYEDHASH_hmac TPMU_SCHEME_KEYEDHASH_hmac zero_TPMS_SCHEME_HASH (ifapi_json_TPMS_SCHEME_HMAC_deserialize J)),
        (ucast TPM2_ALG_XOR, des_member get_TPMU_SCHEME_KEYEDHASH_exclusiveOr TPMU_SCHEME_KEYEDHASH_exclusiveOr zero_TPMS_SCHEME_XOR (ifapi_json_TPMS_SCHEME_XOR_deserialize J)),
        (ucast TPM2_ALG_NULL, nothing)]
       selector"

definition ifapi_json_TPMT_KEYEDHASH_SCHEME_deserialize :: "('j, 'w) json_c \<Rightarrow> ('j, TPMT_KEYEDHASH_SCHEME) des" where
  "ifapi_json_TPMT_KEYEDHASH_SCHEME_deserialize J =
     out_not_null (read_fields
       [field J ''scheme'' (into TPMT_KEYEDHASH_SCHEME_scheme TPMT_KEYEDHASH_SCHEME_scheme_update (ifapi_json_TPMI_ALG_KEYEDHASH_SCHEME_deserialize J)),
        when_step (\<lambda>s. TPMT_KEYEDHASH_SCHEME_scheme s \<noteq> TPM2_ALG_NULL) (field J ''details'' (\<lambda>jso2 s. into TPMT_KEYEDHASH_SCHEME_details TPMT_KEYEDHASH_SCHEME_details_update (ifapi_json_TPMU_SCHEME_KEYEDHASH_deserialize J (ucast (TPMT_KEYEDHASH_SCHEME_scheme s))) jso2 s))])"

definition ifapi_json_TPMS_SIG_SCHEME_RSASSA_deserialize :: "('j, 'w) json_c \<Rightarrow> ('j, TPMS_SCHEME_HASH) des" where
  "ifapi_json_TPMS_SIG_SCHEME_RSASSA_deserialize J =
     ifapi_json_TPMS_SCHEME_HASH_deserialize J"

definition ifapi_json_TPMS_SIG_SCHEME_RSAPSS_deserialize :: "('j, 'w) json_c \<Rightarrow> ('j, TPMS_SCHEME_HASH) des" where
  "ifapi_json_TPMS_SIG_SCHEME_RSAPSS_deserialize J =
     ifapi_json_TPMS_SCHEME_HASH_deserialize J"

definition ifapi_json_TPMS_SIG_SCHEME_ECDSA_deserialize :: "('j, 'w) json_c \<Rightarrow> ('j, TPMS_SCHEME_HASH) des" where
  "ifapi_json_TPMS_SIG_SCHEME_ECDSA_deserialize J =
     ifapi_json_TPMS_SCHEME_HASH_deserialize J"

definition ifapi_json_TPMS_SIG_SCHEME_SM2_deserialize :: "('j, 'w) json_c \<Rightarrow> ('j, TPMS_SCHEME_HASH) des" where
  "ifapi_json_TPMS_SIG_SCHEME_SM2_deserialize J =
     ifapi_json_TPMS_SCHEME_HASH_deserialize J"

definition ifapi_json_TPMS_SIG_SCHEME_ECSCHNORR_deserialize :: "('j, 'w) json_c \<Rightarrow> ('j, TPMS_SCHEME_HASH) des" where
  "ifapi_json_TPMS_SIG_SCHEME_ECSCHNORR_deserialize J =
     ifapi_json_TPMS_SCHEME_HASH_deserialize J"

definition ifapi_json_TPMS_SIG_SCHEME_ECDAA_deserialize :: "('j, 'w) json_c \<Rightarrow> ('j, TPMS_SCHEME_ECDAA) des" where
  "ifapi_json_TPMS_SIG_SCHEME_ECDAA_deserialize J =
     ifapi_json_TPMS_SCHEME_ECDAA_deserialize J"

definition ifapi_json_TPMU_SIG_SCHEME_deserialize :: "('j, 'w) json_c \<Rightarrow> UINT32 \<Rightarrow> ('j, TPMU_SIG_SCHEME) des" where
  "ifapi_json_TPMU_SIG_SCHEME_deserialize J selector =
     des_switch
       [(ucast TPM2_ALG_RSASSA, des_member get_TPMU_SIG_SCHEME_rsassa TPMU_SIG_SCHEME_rsassa zero_TPMS_SCHEME_HASH (ifapi_json_TPMS_SIG_SCHEME_RSASSA_deserialize J)),
        (ucast TPM2_ALG_RSAPSS, des_member get_TPMU_SIG_SCHEME_rsapss TPMU_SIG_SCHEME_rsapss zero_TPMS_SCHEME_HASH (ifapi_json_TPMS_SIG_SCHEME_RSAPSS_deserialize J)),
        (ucast TPM2_ALG_ECDSA, des_member get_TPMU_SIG_SCHEME_ecdsa TPMU_SIG_SCHEME_ecdsa zero_TPMS_SCHEME_HASH (ifapi_json_TPMS_SIG_SCHEME_ECDSA_deserialize J)),
        (ucast TPM2_ALG_ECDAA, des_member get_TPMU_SIG_SCHEME_ecdaa TPMU_SIG_SCHEME_ecdaa zero_TPMS_SCHEME_ECDAA (ifapi_json_TPMS_SIG_SCHEME_ECDAA_deserialize J)),
        (ucast TPM2_ALG_SM2, des_member get_TPMU_SIG_SCHEME_sm2 TPMU_SIG_SCHEME_sm2 zero_TPMS_SCHEME_HASH (ifapi_json_TPMS_SIG_SCHEME_SM2_deserialize J)),
        (ucast TPM2_ALG_ECSCHNORR, des_member get_TPMU_SIG_SCHEME_ecschnorr TPMU_SIG_SCHEME_ecschnorr zero_TPMS_SCHEME_HASH (ifapi_json_TPMS_SIG_SCHEME_ECSCHNORR_deserialize J)),
        (ucast TPM2_ALG_HMAC, des_member get_TPMU_SIG_SCHEME_hmac TPMU_SIG_SCHEME_hmac zero_TPMS_SCHEME_HASH (ifapi_json_TPMS_SCHEME_HMAC_deserialize J)),
        (ucast TPM2_ALG_NULL, nothing)]
       selector"

definition ifapi_json_TPMT_SIG_SCHEME_deserialize :: "('j, 'w) json_c \<Rightarrow> ('j, TPMT_SIG_SCHEME) des" where
  "ifapi_json_TPMT_SIG_SCHEME_deserialize J =
     out_not_null (read_fields
       [field J ''scheme'' (into TPMT_SIG_SCHEME_scheme TPMT_SIG_SCHEME_scheme_update (ifapi_json_TPMI_ALG_SIG_SCHEME_deserialize J)),
        when_step (\<lambda>s. TPMT_SIG_SCHEME_scheme s \<noteq> TPM2_ALG_NULL) (field J ''details'' (\<lambda>jso2 s. into TPMT_SIG_SCHEME_details TPMT_SIG_SCHEME_details_update (ifapi_json_TPMU_SIG_SCHEME_deserialize J (ucast (TPMT_SIG_SCHEME_scheme s))) jso2 s))])"

definition ifapi_json_TPMS_ENC_SCHEME_OAEP_deserialize :: "('j, 'w) json_c \<Rightarrow> ('j, TPMS_SCHEME_HASH) des" where
  "ifapi_json_TPMS_ENC_SCHEME_OAEP_deserialize J =
     ifapi_json_TPMS_SCHEME_HASH_deserialize J"

definition ifapi_json_TPMS_ENC_SCHEME_RSAES_deserialize :: "('j, 'w) json_c \<Rightarrow> ('j, TPMS_EMPTY) des" where
  "ifapi_json_TPMS_ENC_SCHEME_RSAES_deserialize J =
     ifapi_json_TPMS_EMPTY_deserialize J"

definition ifapi_json_TPMS_KEY_SCHEME_ECDH_deserialize :: "('j, 'w) json_c \<Rightarrow> ('j, TPMS_SCHEME_HASH) des" where
  "ifapi_json_TPMS_KEY_SCHEME_ECDH_deserialize J =
     ifapi_json_TPMS_SCHEME_HASH_deserialize J"

definition ifapi_json_TPMS_SCHEME_MGF1_deserialize :: "('j, 'w) json_c \<Rightarrow> ('j, TPMS_SCHEME_HASH) des" where
  "ifapi_json_TPMS_SCHEME_MGF1_deserialize J =
     ifapi_json_TPMS_SCHEME_HASH_deserialize J"

definition ifapi_json_TPMS_SCHEME_KDF1_SP800_56A_deserialize :: "('j, 'w) json_c \<Rightarrow> ('j, TPMS_SCHEME_HASH) des" where
  "ifapi_json_TPMS_SCHEME_KDF1_SP800_56A_deserialize J =
     ifapi_json_TPMS_SCHEME_HASH_deserialize J"

definition ifapi_json_TPMS_SCHEME_KDF1_SP800_108_deserialize :: "('j, 'w) json_c \<Rightarrow> ('j, TPMS_SCHEME_HASH) des" where
  "ifapi_json_TPMS_SCHEME_KDF1_SP800_108_deserialize J =
     ifapi_json_TPMS_SCHEME_HASH_deserialize J"

definition ifapi_json_TPMU_KDF_SCHEME_deserialize :: "('j, 'w) json_c \<Rightarrow> UINT32 \<Rightarrow> ('j, TPMU_KDF_SCHEME) des" where
  "ifapi_json_TPMU_KDF_SCHEME_deserialize J selector =
     des_switch
       [(ucast TPM2_ALG_MGF1, des_member get_TPMU_KDF_SCHEME_mgf1 TPMU_KDF_SCHEME_mgf1 zero_TPMS_SCHEME_HASH (ifapi_json_TPMS_SCHEME_MGF1_deserialize J)),
        (ucast TPM2_ALG_KDF1_SP800_56A, des_member get_TPMU_KDF_SCHEME_kdf1_sp800_56a TPMU_KDF_SCHEME_kdf1_sp800_56a zero_TPMS_SCHEME_HASH (ifapi_json_TPMS_SCHEME_KDF1_SP800_56A_deserialize J)),
        (ucast TPM2_ALG_KDF1_SP800_108, des_member get_TPMU_KDF_SCHEME_kdf1_sp800_108 TPMU_KDF_SCHEME_kdf1_sp800_108 zero_TPMS_SCHEME_HASH (ifapi_json_TPMS_SCHEME_KDF1_SP800_108_deserialize J)),
        (ucast TPM2_ALG_NULL, nothing)]
       selector"

definition ifapi_json_TPMT_KDF_SCHEME_deserialize :: "('j, 'w) json_c \<Rightarrow> ('j, TPMT_KDF_SCHEME) des" where
  "ifapi_json_TPMT_KDF_SCHEME_deserialize J =
     out_not_null (read_fields
       [field J ''scheme'' (into TPMT_KDF_SCHEME_scheme TPMT_KDF_SCHEME_scheme_update (ifapi_json_TPMI_ALG_KDF_deserialize J)),
        when_step (\<lambda>s. TPMT_KDF_SCHEME_scheme s \<noteq> TPM2_ALG_NULL) (field J ''details'' (\<lambda>jso2 s. into TPMT_KDF_SCHEME_details TPMT_KDF_SCHEME_details_update (ifapi_json_TPMU_KDF_SCHEME_deserialize J (ucast (TPMT_KDF_SCHEME_scheme s))) jso2 s))])"

definition ifapi_json_TPMU_ASYM_SCHEME_deserialize :: "('j, 'w) json_c \<Rightarrow> UINT32 \<Rightarrow> ('j, TPMU_ASYM_SCHEME) des" where
  "ifapi_json_TPMU_ASYM_SCHEME_deserialize J selector =
     des_switch
       [(ucast TPM2_ALG_ECDH, des_member get_TPMU_ASYM_SCHEME_ecdh TPMU_ASYM_SCHEME_ecdh zero_TPMS_SCHEME_HASH (ifapi_json_TPMS_KEY_SCHEME_ECDH_deserialize J)),
        (ucast TPM2_ALG_RSASSA, des_member get_TPMU_ASYM_SCHEME_rsassa TPMU_ASYM_SCHEME_rsassa zero_TPMS_SCHEME_HASH (ifapi_json_TPMS_SIG_SCHEME_RSASSA_deserialize J)),
        (ucast TPM2_ALG_RSAPSS, des_member get_TPMU_ASYM_SCHEME_rsapss TPMU_ASYM_SCHEME_rsapss zero_TPMS_SCHEME_HASH (ifapi_json_TPMS_SIG_SCHEME_RSAPSS_deserialize J)),
        (ucast TPM2_ALG_ECDSA, des_member get_TPMU_ASYM_SCHEME_ecdsa TPMU_ASYM_SCHEME_ecdsa zero_TPMS_SCHEME_HASH (ifapi_json_TPMS_SIG_SCHEME_ECDSA_deserialize J)),
        (ucast TPM2_ALG_ECDAA, des_member get_TPMU_ASYM_SCHEME_ecdaa TPMU_ASYM_SCHEME_ecdaa zero_TPMS_SCHEME_ECDAA (ifapi_json_TPMS_SIG_SCHEME_ECDAA_deserialize J)),
        (ucast TPM2_ALG_SM2, des_member get_TPMU_ASYM_SCHEME_sm2 TPMU_ASYM_SCHEME_sm2 zero_TPMS_SCHEME_HASH (ifapi_json_TPMS_SIG_SCHEME_SM2_deserialize J)),
        (ucast TPM2_ALG_ECSCHNORR, des_member get_TPMU_ASYM_SCHEME_ecschnorr TPMU_ASYM_SCHEME_ecschnorr zero_TPMS_SCHEME_HASH (ifapi_json_TPMS_SIG_SCHEME_ECSCHNORR_deserialize J)),
        (ucast TPM2_ALG_RSAES, des_member get_TPMU_ASYM_SCHEME_rsaes TPMU_ASYM_SCHEME_rsaes zero_TPMS_EMPTY (ifapi_json_TPMS_ENC_SCHEME_RSAES_deserialize J)),
        (ucast TPM2_ALG_OAEP, des_member get_TPMU_ASYM_SCHEME_oaep TPMU_ASYM_SCHEME_oaep zero_TPMS_SCHEME_HASH (ifapi_json_TPMS_ENC_SCHEME_OAEP_deserialize J)),
        (ucast TPM2_ALG_MLDSA, des_member get_TPMU_ASYM_SCHEME_mldsa TPMU_ASYM_SCHEME_mldsa zero_TPMS_SCHEME_HASH (ifapi_json_TPMS_SCHEME_HASH_deserialize J)),
        (ucast TPM2_ALG_NULL, nothing)]
       selector"

definition ifapi_json_TPMT_RSA_SCHEME_deserialize :: "('j, 'w) json_c \<Rightarrow> ('j, TPMT_RSA_SCHEME) des" where
  "ifapi_json_TPMT_RSA_SCHEME_deserialize J =
     out_not_null (read_fields
       [field J ''scheme'' (into TPMT_RSA_SCHEME_scheme TPMT_RSA_SCHEME_scheme_update (ifapi_json_TPMI_ALG_RSA_SCHEME_deserialize J)),
        when_step (\<lambda>s. TPMT_RSA_SCHEME_scheme s \<noteq> TPM2_ALG_NULL) (field J ''details'' (\<lambda>jso2 s. into TPMT_RSA_SCHEME_details TPMT_RSA_SCHEME_details_update (ifapi_json_TPMU_ASYM_SCHEME_deserialize J (ucast (TPMT_RSA_SCHEME_scheme s))) jso2 s))])"

definition ifapi_json_TPMT_RSA_DECRYPT_deserialize :: "('j, 'w) json_c \<Rightarrow> ('j, TPMT_RSA_DECRYPT) des" where
  "ifapi_json_TPMT_RSA_DECRYPT_deserialize J =
     out_not_null (read_fields
       [field J ''scheme'' (into TPMT_RSA_DECRYPT_scheme TPMT_RSA_DECRYPT_scheme_update (ifapi_json_TPMI_ALG_RSA_DECRYPT_deserialize J)),
        when_step (\<lambda>s. TPMT_RSA_DECRYPT_scheme s \<noteq> TPM2_ALG_NULL) (field J ''details'' (\<lambda>jso2 s. into TPMT_RSA_DECRYPT_details TPMT_RSA_DECRYPT_details_update (ifapi_json_TPMU_ASYM_SCHEME_deserialize J (ucast (TPMT_RSA_DECRYPT_scheme s))) jso2 s))])"

definition ifapi_json_TPM2B_PUBLIC_KEY_RSA_deserialize :: "('j, 'w) json_c \<Rightarrow> ('j, TPM2B) des" where
  "ifapi_json_TPM2B_PUBLIC_KEY_RSA_deserialize J =
     TPM2B_deserialize J (TPM2_MAX_RSA_KEY_BYTES)"

definition ifapi_json_TPM2B_ECC_PARAMETER_deserialize :: "('j, 'w) json_c \<Rightarrow> ('j, TPM2B) des" where
  "ifapi_json_TPM2B_ECC_PARAMETER_deserialize J =
     TPM2B_deserialize J (TPM2_MAX_ECC_KEY_BYTES)"

definition ifapi_json_TPMS_ECC_POINT_deserialize :: "('j, 'w) json_c \<Rightarrow> ('j, TPMS_ECC_POINT) des" where
  "ifapi_json_TPMS_ECC_POINT_deserialize J =
     out_not_null (read_fields
       [field J ''x'' (into TPMS_ECC_POINT_x TPMS_ECC_POINT_x_update (ifapi_json_TPM2B_ECC_PARAMETER_deserialize J)),
        field J ''y'' (into TPMS_ECC_POINT_y TPMS_ECC_POINT_y_update (ifapi_json_TPM2B_ECC_PARAMETER_deserialize J))])"

definition ifapi_json_TPMT_ECC_SCHEME_deserialize :: "('j, 'w) json_c \<Rightarrow> ('j, TPMT_ECC_SCHEME) des" where
  "ifapi_json_TPMT_ECC_SCHEME_deserialize J =
     out_not_null (read_fields
       [field J ''scheme'' (into TPMT_ECC_SCHEME_scheme TPMT_ECC_SCHEME_scheme_update (ifapi_json_TPMI_ALG_ECC_SCHEME_deserialize J)),
        when_step (\<lambda>s. TPMT_ECC_SCHEME_scheme s \<noteq> TPM2_ALG_NULL) (field J ''details'' (\<lambda>jso2 s. into TPMT_ECC_SCHEME_details TPMT_ECC_SCHEME_details_update (ifapi_json_TPMU_ASYM_SCHEME_deserialize J (ucast (TPMT_ECC_SCHEME_scheme s))) jso2 s))])"

definition ifapi_json_TPMS_SIGNATURE_RSA_deserialize :: "('j, 'w) json_c \<Rightarrow> ('j, TPMS_SIGNATURE_RSA) des" where
  "ifapi_json_TPMS_SIGNATURE_RSA_deserialize J =
     out_not_null (read_fields
       [field J ''hash'' (into TPMS_SIGNATURE_RSA_hash TPMS_SIGNATURE_RSA_hash_update (ifapi_json_TPMI_ALG_HASH_deserialize J)),
        field J ''sig'' (into TPMS_SIGNATURE_RSA_sig TPMS_SIGNATURE_RSA_sig_update (ifapi_json_TPM2B_PUBLIC_KEY_RSA_deserialize J))])"

definition ifapi_json_TPMS_SIGNATURE_RSASSA_deserialize :: "('j, 'w) json_c \<Rightarrow> ('j, TPMS_SIGNATURE_RSA) des" where
  "ifapi_json_TPMS_SIGNATURE_RSASSA_deserialize J =
     ifapi_json_TPMS_SIGNATURE_RSA_deserialize J"

definition ifapi_json_TPMS_SIGNATURE_RSAPSS_deserialize :: "('j, 'w) json_c \<Rightarrow> ('j, TPMS_SIGNATURE_RSA) des" where
  "ifapi_json_TPMS_SIGNATURE_RSAPSS_deserialize J =
     ifapi_json_TPMS_SIGNATURE_RSA_deserialize J"

definition ifapi_json_TPMS_SIGNATURE_ECC_deserialize :: "('j, 'w) json_c \<Rightarrow> ('j, TPMS_SIGNATURE_ECC) des" where
  "ifapi_json_TPMS_SIGNATURE_ECC_deserialize J =
     out_not_null (read_fields
       [field J ''hash'' (into TPMS_SIGNATURE_ECC_hash TPMS_SIGNATURE_ECC_hash_update (ifapi_json_TPMI_ALG_HASH_deserialize J)),
        field J ''signatureR'' (into TPMS_SIGNATURE_ECC_signatureR TPMS_SIGNATURE_ECC_signatureR_update (ifapi_json_TPM2B_ECC_PARAMETER_deserialize J)),
        field J ''signatureS'' (into TPMS_SIGNATURE_ECC_signatureS TPMS_SIGNATURE_ECC_signatureS_update (ifapi_json_TPM2B_ECC_PARAMETER_deserialize J))])"

definition ifapi_json_TPMS_SIGNATURE_ECDSA_deserialize :: "('j, 'w) json_c \<Rightarrow> ('j, TPMS_SIGNATURE_ECC) des" where
  "ifapi_json_TPMS_SIGNATURE_ECDSA_deserialize J =
     ifapi_json_TPMS_SIGNATURE_ECC_deserialize J"

definition ifapi_json_TPMS_SIGNATURE_ECDAA_deserialize :: "('j, 'w) json_c \<Rightarrow> ('j, TPMS_SIGNATURE_ECC) des" where
  "ifapi_json_TPMS_SIGNATURE_ECDAA_deserialize J =
     ifapi_json_TPMS_SIGNATURE_ECC_deserialize J"

definition ifapi_json_TPMS_SIGNATURE_SM2_deserialize :: "('j, 'w) json_c \<Rightarrow> ('j, TPMS_SIGNATURE_ECC) des" where
  "ifapi_json_TPMS_SIGNATURE_SM2_deserialize J =
     ifapi_json_TPMS_SIGNATURE_ECC_deserialize J"

definition ifapi_json_TPMS_SIGNATURE_ECSCHNORR_deserialize :: "('j, 'w) json_c \<Rightarrow> ('j, TPMS_SIGNATURE_ECC) des" where
  "ifapi_json_TPMS_SIGNATURE_ECSCHNORR_deserialize J =
     ifapi_json_TPMS_SIGNATURE_ECC_deserialize J"

definition ifapi_json_TPM2B_MLDSA_SIGNATURE_deserialize :: "('j, 'w) json_c \<Rightarrow> ('j, TPM2B) des" where
  "ifapi_json_TPM2B_MLDSA_SIGNATURE_deserialize J =
     TPM2B_deserialize J (TPM2_MAX_MLDSA_SIGNATURE_SIZE)"

definition ifapi_json_TPMS_SIGNATURE_MLDSA_deserialize :: "('j, 'w) json_c \<Rightarrow> ('j, TPMS_SIGNATURE_MLDSA) des" where
  "ifapi_json_TPMS_SIGNATURE_MLDSA_deserialize J =
     out_not_null (read_fields
       [field J ''hash'' (into TPMS_SIGNATURE_MLDSA_hash TPMS_SIGNATURE_MLDSA_hash_update (ifapi_json_TPMI_ALG_HASH_deserialize J)),
        field J ''sig'' (into TPMS_SIGNATURE_MLDSA_sig TPMS_SIGNATURE_MLDSA_sig_update (ifapi_json_TPM2B_MLDSA_SIGNATURE_deserialize J))])"

definition ifapi_json_TPM2B_MLDSA_PUBLIC_KEY_deserialize :: "('j, 'w) json_c \<Rightarrow> ('j, TPM2B) des" where
  "ifapi_json_TPM2B_MLDSA_PUBLIC_KEY_deserialize J =
     TPM2B_deserialize J (TPM2_MAX_MLDSA_PUBLIC_KEY_SIZE)"

definition ifapi_json_TPM2B_MLKEM_PUBLIC_KEY_deserialize :: "('j, 'w) json_c \<Rightarrow> ('j, TPM2B) des" where
  "ifapi_json_TPM2B_MLKEM_PUBLIC_KEY_deserialize J =
     TPM2B_deserialize J (TPM2_MAX_MLKEM_PUBLIC_KEY_SIZE)"

definition ifapi_json_TPMS_ML_PARAMETER_SET_deserialize :: "('j, 'w) json_c \<Rightarrow> ('j, TPMS_ML_PARAMETER_SET) des" where
  "ifapi_json_TPMS_ML_PARAMETER_SET_deserialize J =
     out_not_null (read_fields
       [field J ''identifier'' (into TPMS_ML_PARAMETER_SET_identifier TPMS_ML_PARAMETER_SET_identifier_update (ifapi_json_UINT32_deserialize J))])"

definition ifapi_json_TPMS_MLDSA_PARMS_deserialize :: "('j, 'w) json_c \<Rightarrow> ('j, TPMS_MLDSA_PARMS) des" where
  "ifapi_json_TPMS_MLDSA_PARMS_deserialize J =
     out_not_null (read_fields
       [field J ''nameAlg'' (into TPMS_MLDSA_PARMS_nameAlg TPMS_MLDSA_PARMS_nameAlg_update (ifapi_json_TPMI_ALG_HASH_deserialize J)),
        field J ''parameterSet'' (into TPMS_MLDSA_PARMS_parameterSet TPMS_MLDSA_PARMS_parameterSet_update (ifapi_json_TPMS_ML_PARAMETER_SET_deserialize J))])"

definition ifapi_json_TPMS_MLKEM_PARMS_deserialize :: "('j, 'w) json_c \<Rightarrow> ('j, TPMS_MLKEM_PARMS) des" where
  "ifapi_json_TPMS_MLKEM_PARMS_deserialize J =
     out_not_null (read_fields
       [field J ''nameAlg'' (into TPMS_MLKEM_PARMS_nameAlg TPMS_MLKEM_PARMS_nameAlg_update (ifapi_json_TPMI_ALG_HASH_deserialize J)),
        field J ''parameterSet'' (into TPMS_MLKEM_PARMS_parameterSet TPMS_MLKEM_PARMS_parameterSet_update (ifapi_json_TPMS_ML_PARAMETER_SET_deserialize J))])"

definition ifapi_json_TPMU_SIGNATURE_deserialize :: "('j, 'w) json_c \<Rightarrow> UINT32 \<Rightarrow> ('j, TPMU_SIGNATURE) des" where
  "ifapi_json_TPMU_SIGNATURE_deserialize J selector =
     des_switch
       [(ucast TPM2_ALG_RSASSA, des_member get_TPMU_SIGNATURE_rsassa TPMU_SIGNATURE_rsassa zero_TPMS_SIGNATURE_RSA (ifapi_json_TPMS_SIGNATURE_RSASSA_deserialize J)),
        (ucast TPM2_ALG_RSAPSS, des_member get_TPMU_SIGNATURE_rsapss TPMU_SIGNATURE_rsapss zero_TPMS_SIGNATURE_RSA (ifapi_json_TPMS_SIGNATURE_RSAPSS_deserialize J)),
        (ucast TPM2_ALG_ECDSA, des_member get_TPMU_SIGNATURE_ecdsa TPMU_SIGNATURE_ecdsa zero_TPMS_SIGNATURE_ECC (ifapi_json_TPMS_SIGNATURE_ECDSA_deserialize J)),
        (ucast TPM2_ALG_ECDAA, des_member get_TPMU_SIGNATURE_ecdaa TPMU_SIGNATURE_ecdaa zero_TPMS_SIGNATURE_ECC (ifapi_json_TPMS_SIGNATURE_ECDAA_deserialize J)),
        (ucast TPM2_ALG_SM2, des_member get_TPMU_SIGNATURE_sm2 TPMU_SIGNATURE_sm2 zero_TPMS_SIGNATURE_ECC (ifapi_json_TPMS_SIGNATURE_SM2_deserialize J)),
        (ucast TPM2_ALG_ECSCHNORR, des_member get_TPMU_SIGNATURE_ecschnorr TPMU_SIGNATURE_ecschnorr zero_TPMS_SIGNATURE_ECC (ifapi_json_TPMS_SIGNATURE_ECSCHNORR_deserialize J)),
        (ucast TPM2_ALG_HMAC, des_member get_TPMU_SIGNATURE_hmac TPMU_SIGNATURE_hmac zero_TPMT_HA (ifapi_json_TPMT_HA_deserialize J)),
        (ucast TPM2_ALG_MLDSA, des_member get_TPMU_SIGNATURE_mldsa TPMU_SIGNATURE_mldsa zero_TPMS_SIGNATURE_MLDSA (ifapi_json_TPMS_SIGNATURE_MLDSA_deserialize J)),
        (ucast TPM2_ALG_NULL, nothing)]
       selector"

definition ifapi_json_TPMT_SIGNATURE_deserialize :: "('j, 'w) json_c \<Rightarrow> ('j, TPMT_SIGNATURE) des" where
  "ifapi_json_TPMT_SIGNATURE_deserialize J =
     out_not_null (read_fields
       [field J ''sigAlg'' (into TPMT_SIGNATURE_sigAlg TPMT_SIGNATURE_sigAlg_update (ifapi_json_TPMI_ALG_SIG_SCHEME_deserialize J)),
        when_step (\<lambda>s. TPMT_SIGNATURE_sigAlg s \<noteq> TPM2_ALG_NULL) (field J ''signature'' (\<lambda>jso2 s. into TPMT_SIGNATURE_signature TPMT_SIGNATURE_signature_update (ifapi_json_TPMU_SIGNATURE_deserialize J (ucast (TPMT_SIGNATURE_sigAlg s))) jso2 s))])"

definition ifapi_json_TPM2B_ENCRYPTED_SECRET_deserialize :: "('j, 'w) json_c \<Rightarrow> ('j, TPM2B) des" where
  "ifapi_json_TPM2B_ENCRYPTED_SECRET_deserialize J =
     TPM2B_deserialize J (sizeof ct_TPMU_ENCRYPTED_SECRET)"

definition ifapi_json_TPMU_PUBLIC_ID_deserialize :: "('j, 'w) json_c \<Rightarrow> UINT32 \<Rightarrow> ('j, TPMU_PUBLIC_ID) des" where
  "ifapi_json_TPMU_PUBLIC_ID_deserialize J selector =
     des_switch
       [(ucast TPM2_ALG_KEYEDHASH, des_member get_TPMU_PUBLIC_ID_keyedHash TPMU_PUBLIC_ID_keyedHash (zero_TPM2B 64) (ifapi_json_TPM2B_DIGEST_deserialize J)),
        (ucast TPM2_ALG_SYMCIPHER, des_member get_TPMU_PUBLIC_ID_sym TPMU_PUBLIC_ID_sym (zero_TPM2B 64) (ifapi_json_TPM2B_DIGEST_deserialize J)),
        (ucast TPM2_ALG_RSA, des_member get_TPMU_PUBLIC_ID_rsa TPMU_PUBLIC_ID_rsa (zero_TPM2B 512) (ifapi_json_TPM2B_PUBLIC_KEY_RSA_deserialize J)),
        (ucast TPM2_ALG_ECC, des_member get_TPMU_PUBLIC_ID_ecc TPMU_PUBLIC_ID_ecc zero_TPMS_ECC_POINT (ifapi_json_TPMS_ECC_POINT_deserialize J)),
        (ucast TPM2_ALG_MLDSA, des_member get_TPMU_PUBLIC_ID_mldsa TPMU_PUBLIC_ID_mldsa (zero_TPM2B 2592) (ifapi_json_TPM2B_MLDSA_PUBLIC_KEY_deserialize J)),
        (ucast TPM2_ALG_MLKEM, des_member get_TPMU_PUBLIC_ID_mlkem TPMU_PUBLIC_ID_mlkem (zero_TPM2B 1568) (ifapi_json_TPM2B_MLKEM_PUBLIC_KEY_deserialize J))]
       selector"

definition ifapi_json_TPMS_KEYEDHASH_PARMS_deserialize :: "('j, 'w) json_c \<Rightarrow> ('j, TPMS_KEYEDHASH_PARMS) des" where
  "ifapi_json_TPMS_KEYEDHASH_PARMS_deserialize J =
     out_not_null (read_fields
       [field J ''scheme'' (into TPMS_KEYEDHASH_PARMS_scheme TPMS_KEYEDHASH_PARMS_scheme_update (ifapi_json_TPMT_KEYEDHASH_SCHEME_deserialize J))])"

definition ifapi_json_TPMS_RSA_PARMS_deserialize :: "('j, 'w) json_c \<Rightarrow> ('j, TPMS_RSA_PARMS) des" where
  "ifapi_json_TPMS_RSA_PARMS_deserialize J =
     out_not_null (read_fields
       [field J ''symmetric'' (into TPMS_RSA_PARMS_symmetric TPMS_RSA_PARMS_symmetric_update (ifapi_json_TPMT_SYM_DEF_OBJECT_deserialize J)),
        field J ''scheme'' (into TPMS_RSA_PARMS_scheme TPMS_RSA_PARMS_scheme_update (ifapi_json_TPMT_RSA_SCHEME_deserialize J)),
        field J ''keyBits'' (into TPMS_RSA_PARMS_keyBits TPMS_RSA_PARMS_keyBits_update (ifapi_json_TPMI_RSA_KEY_BITS_deserialize J)),
        field J ''exponent'' (into TPMS_RSA_PARMS_exponent TPMS_RSA_PARMS_exponent_update (ifapi_json_UINT32_deserialize J))])"

definition ifapi_json_TPMS_ECC_PARMS_deserialize :: "('j, 'w) json_c \<Rightarrow> ('j, TPMS_ECC_PARMS) des" where
  "ifapi_json_TPMS_ECC_PARMS_deserialize J =
     out_not_null (read_fields
       [field J ''symmetric'' (into TPMS_ECC_PARMS_symmetric TPMS_ECC_PARMS_symmetric_update (ifapi_json_TPMT_SYM_DEF_OBJECT_deserialize J)),
        field J ''scheme'' (into TPMS_ECC_PARMS_scheme TPMS_ECC_PARMS_scheme_update (ifapi_json_TPMT_ECC_SCHEME_deserialize J)),
        field J ''curveID'' (into TPMS_ECC_PARMS_curveID TPMS_ECC_PARMS_curveID_update (ifapi_json_TPMI_ECC_CURVE_deserialize J)),
        field J ''kdf'' (into TPMS_ECC_PARMS_kdf TPMS_ECC_PARMS_kdf_update (ifapi_json_TPMT_KDF_SCHEME_deserialize J))])"

definition ifapi_json_TPMU_PUBLIC_PARMS_deserialize :: "('j, 'w) json_c \<Rightarrow> UINT32 \<Rightarrow> ('j, TPMU_PUBLIC_PARMS) des" where
  "ifapi_json_TPMU_PUBLIC_PARMS_deserialize J selector =
     des_switch
       [(ucast TPM2_ALG_KEYEDHASH, des_member get_TPMU_PUBLIC_PARMS_keyedHashDetail TPMU_PUBLIC_PARMS_keyedHashDetail zero_TPMS_KEYEDHASH_PARMS (ifapi_json_TPMS_KEYEDHASH_PARMS_deserialize J)),
        (ucast TPM2_ALG_SYMCIPHER, des_member get_TPMU_PUBLIC_PARMS_symDetail TPMU_PUBLIC_PARMS_symDetail zero_TPMS_SYMCIPHER_PARMS (ifapi_json_TPMS_SYMCIPHER_PARMS_deserialize J)),
        (ucast TPM2_ALG_RSA, des_member get_TPMU_PUBLIC_PARMS_rsaDetail TPMU_PUBLIC_PARMS_rsaDetail zero_TPMS_RSA_PARMS (ifapi_json_TPMS_RSA_PARMS_deserialize J)),
        (ucast TPM2_ALG_ECC, des_member get_TPMU_PUBLIC_PARMS_eccDetail TPMU_PUBLIC_PARMS_eccDetail zero_TPMS_ECC_PARMS (ifapi_json_TPMS_ECC_PARMS_deserialize J)),
        (ucast TPM2_ALG_MLDSA, des_member get_TPMU_PUBLIC_PARMS_mldsaDetail TPMU_PUBLIC_PARMS_mldsaDetail zero_TPMS_MLDSA_PARMS (ifapi_json_TPMS_MLDSA_PARMS_deserialize J)),
        (ucast TPM2_ALG_MLKEM, des_member get_TPMU_PUBLIC_PARMS_mlkemDetail TPMU_PUBLIC_PARMS_mlkemDetail zero_TPMS_MLKEM_PARMS (ifapi_json_TPMS_MLKEM_PARMS_deserialize J))]
       selector"

definition ifapi_json_TPMT_PUBLIC_deserialize :: "('j, 'w) json_c \<Rightarrow> ('j, TPMT_PUBLIC) des" where
  "ifapi_json_TPMT_PUBLIC_deserialize J =
     out_not_null (read_fields
       [field J ''type'' (into TPMT_PUBLIC_type TPMT_PUBLIC_type_update (ifapi_json_TPMI_ALG_PUBLIC_deserialize J)),
        field J ''nameAlg'' (into TPMT_PUBLIC_nameAlg TPMT_PUBLIC_nameAlg_update (ifapi_json_TPMI_ALG_HASH_deserialize J)),
        field J ''objectAttributes'' (into TPMT_PUBLIC_objectAttributes TPMT_PUBLIC_objectAttributes_update (ifapi_json_TPMA_OBJECT_deserialize J)),
        field J ''authPolicy'' (into TPMT_PUBLIC_authPolicy TPMT_PUBLIC_authPolicy_update (ifapi_json_TPM2B_DIGEST_deserialize J)),
        field J ''parameters'' (\<lambda>jso2 s. into TPMT_PUBLIC_parameters TPMT_PUBLIC_parameters_update
          (ifapi_json_TPMU_PUBLIC_PARMS_deserialize J (ucast (TPMT_PUBLIC_type s))) jso2 s),
        \<lambda>jso s. case ifapi_get_sub_object J jso ''unique'' of
            None \<Rightarrow> Some (TSS2_RC_SUCCESS, s\<lparr>TPMT_PUBLIC_unique := zero_TPMU_PUBLIC_ID\<rparr>)
          | Some jso2 \<Rightarrow> into TPMT_PUBLIC_unique TPMT_PUBLIC_unique_update
              (ifapi_json_TPMU_PUBLIC_ID_deserialize J (ucast (TPMT_PUBLIC_type s))) (Some jso2) s])"

definition ifapi_json_TPM2B_PUBLIC_deserialize :: "('j, 'w) json_c \<Rightarrow> ('j, TPM2B_PUBLIC) des" where
  "ifapi_json_TPM2B_PUBLIC_deserialize J =
     out_deref (read_fields
       [field J ''size'' (into TPM2B_SUBTYPE_size TPM2B_SUBTYPE_size_update (ifapi_json_UINT16_deserialize J)),
        field J ''publicArea'' (into TPM2B_SUBTYPE_member TPM2B_SUBTYPE_member_update (ifapi_json_TPMT_PUBLIC_deserialize J))])"

definition ifapi_json_TPM2B_PRIVATE_deserialize :: "('j, 'w) json_c \<Rightarrow> ('j, TPM2B) des" where
  "ifapi_json_TPM2B_PRIVATE_deserialize J =
     TPM2B_deserialize J (sizeof ct_PRIVATE)"

definition ifapi_json_TPMS_NV_PUBLIC_deserialize :: "('j, 'w) json_c \<Rightarrow> ('j, TPMS_NV_PUBLIC) des" where
  "ifapi_json_TPMS_NV_PUBLIC_deserialize J =
     out_not_null (read_fields
       [field J ''nvIndex'' (into TPMS_NV_PUBLIC_nvIndex TPMS_NV_PUBLIC_nvIndex_update (ifapi_json_TPMI_RH_NV_INDEX_deserialize J)),
        field J ''nameAlg'' (into TPMS_NV_PUBLIC_nameAlg TPMS_NV_PUBLIC_nameAlg_update (ifapi_json_TPMI_ALG_HASH_deserialize J)),
        field J ''attributes'' (into TPMS_NV_PUBLIC_attributes TPMS_NV_PUBLIC_attributes_update (ifapi_json_TPMA_NV_deserialize J)),
        field J ''authPolicy'' (into TPMS_NV_PUBLIC_authPolicy TPMS_NV_PUBLIC_authPolicy_update (ifapi_json_TPM2B_DIGEST_deserialize J)),
        field J ''dataSize'' (into TPMS_NV_PUBLIC_dataSize TPMS_NV_PUBLIC_dataSize_update (ifapi_json_UINT16_deserialize J))])"

definition ifapi_json_TPM2B_NV_PUBLIC_deserialize :: "('j, 'w) json_c \<Rightarrow> ('j, TPM2B_NV_PUBLIC) des" where
  "ifapi_json_TPM2B_NV_PUBLIC_deserialize J =
     out_deref (read_fields
       [field J ''size'' (into TPM2B_SUBTYPE_size TPM2B_SUBTYPE_size_update (ifapi_json_UINT16_deserialize J)),
        field J ''nvPublic'' (into TPM2B_SUBTYPE_member TPM2B_SUBTYPE_member_update (ifapi_json_TPMS_NV_PUBLIC_deserialize J))])"

definition ifapi_json_TPMS_CREATION_DATA_deserialize :: "('j, 'w) json_c \<Rightarrow> ('j, TPMS_CREATION_DATA) des" where
  "ifapi_json_TPMS_CREATION_DATA_deserialize J =
     out_not_null (read_fields
       [field J ''pcrSelect'' (into TPMS_CREATION_DATA_pcrSelect TPMS_CREATION_DATA_pcrSelect_update (ifapi_json_TPML_PCR_SELECTION_deserialize J)),
        field J ''pcrDigest'' (into TPMS_CREATION_DATA_pcrDigest TPMS_CREATION_DATA_pcrDigest_update (ifapi_json_TPM2B_DIGEST_deserialize J)),
        field J ''locality'' (into TPMS_CREATION_DATA_locality TPMS_CREATION_DATA_locality_update (ifapi_json_TPMA_LOCALITY_deserialize J)),
        field J ''parentNameAlg'' (into TPMS_CREATION_DATA_parentNameAlg TPMS_CREATION_DATA_parentNameAlg_update (ifapi_json_TPM2_ALG_ID_deserialize J)),
        field J ''parentName'' (into TPMS_CREATION_DATA_parentName TPMS_CREATION_DATA_parentName_update (ifapi_json_TPM2B_NAME_deserialize J)),
        field J ''parentQualifiedName'' (into TPMS_CREATION_DATA_parentQualifiedName TPMS_CREATION_DATA_parentQualifiedName_update (ifapi_json_TPM2B_NAME_deserialize J)),
        field J ''outsideInfo'' (into TPMS_CREATION_DATA_outsideInfo TPMS_CREATION_DATA_outsideInfo_update (ifapi_json_TPM2B_DATA_deserialize J))])"

definition ifapi_json_TPM2B_CREATION_DATA_deserialize :: "('j, 'w) json_c \<Rightarrow> ('j, TPM2B_CREATION_DATA) des" where
  "ifapi_json_TPM2B_CREATION_DATA_deserialize J =
     out_deref (read_fields
       [field J ''size'' (into TPM2B_SUBTYPE_size TPM2B_SUBTYPE_size_update (ifapi_json_UINT16_deserialize J)),
        field J ''creationData'' (into TPM2B_SUBTYPE_member TPM2B_SUBTYPE_member_update (ifapi_json_TPMS_CREATION_DATA_deserialize J))])"

end
