(* ===== verification/Fapi_Public.thy ===== *)
theory Fapi_Public
  imports Fapi_Codec Fapi_Ser_Types Fapi_Des_Types
begin

text \<open>
  The contract of \<open>Fapi_Codec\<close> for a public area and the types it is made of: what the serializer
  builds is read back as a value of the same wire format.
\<close>

lemmas union_wire = wire_union_def select_spec_def padded_def pad_selectors_def member_spec_def null_spec_def

section \<open>Tables\<close>

lemma table_inverseI:
  assumes "list_all (\<lambda>row. P (fst row) \<longrightarrow>
      map_option fst (find (\<lambda>r. strcaseeq (the (strip_prefix (Some (snd row)) prefixes)) (snd r)) dtab) = Some (fst row)) tab"
    and "P x"
  shows "table_inverse tab prefixes dtab x"
proof (cases "find (\<lambda>row. fst row = x) tab")
  case (Some row)
  then have "row \<in> set tab" "fst row = x" by (auto simp: find_Some_iff)
  with assms Some show ?thesis by (auto simp: table_inverse_def strip_prefix_def list_all_iff)
qed (simp add: table_inverse_def)

lemma TPM2_ALG_ID_table:
  "list_all (\<lambda>row. fst row \<noteq> TPM2_ALG_TDES \<and> fst row \<noteq> TPM2_ALG_CMAC \<longrightarrow>
     map_option fst (find (\<lambda>r. strcaseeq (the (strip_prefix (Some (snd row)) [''TPM_'', ''TPM2_'', ''ALG_'', ''ID_''])) (snd r))
       TPM2_ALG_ID_deserialize_tab) = Some (fst row)) TPM2_ALG_ID_serialize_tab"
  by code_simp

lemma TPM2_ECC_CURVE_table:
  "list_all (\<lambda>row. True \<longrightarrow>
     map_option fst (find (\<lambda>r. strcaseeq (the (strip_prefix (Some (snd row)) [''TPM_'', ''TPM2_'', ''ECC_'', ''CURVE_''])) (snd r))
       TPM2_ECC_CURVE_deserialize_tab) = Some (fst row)) TPM2_ECC_CURVE_serialize_tab"
  by code_simp

lemma TPMA_OBJECT_table:
  "flag_table [''TPM_'', ''TPM2_'', ''TPMA_'', ''OBJECT_''] [] TPMA_OBJECT_serialize_tab TPMA_OBJECT_deserialize_tab"
  by code_simp

text \<open>The attribute bits that have a name.\<close>

definition TPMA_OBJECT_mask :: UINT32 where
  "TPMA_OBJECT_mask = foldr (\<lambda>(flag, _) a. flag OR a) TPMA_OBJECT_serialize_tab 0"

section \<open>Integers and constants\<close>

lemma encodes_const_in: "encodes V (const_serialize J tab x) v \<Longrightarrow> x \<in> fst ` set tab"
  by (auto simp: encodes_def const_serialize_def find_Some_iff image_iff split: option.splits)

lemma json_UINT16:
  assumes J: "json_world J V" and e: "encodes V (ifapi_json_UINT16_serialize J x) v"
  shows "decodes V (ifapi_json_UINT16_deserialize J) v (\<lambda>_. True) (\<lambda>y. y = x)"
  using int64_codec [OF J e [unfolded ifapi_json_UINT16_serialize_def]]
  by (simp add: ifapi_json_UINT16_deserialize_def)

lemma json_UINT32:
  assumes J: "json_world J V" and e: "encodes V (ifapi_json_UINT32_serialize J x) v"
  shows "decodes V (ifapi_json_UINT32_deserialize J) v (\<lambda>_. True) (\<lambda>y. y = x)"
  using int64_codec [OF J e [unfolded ifapi_json_UINT32_serialize_def]]
  by (simp add: ifapi_json_UINT32_deserialize_def)

lemma json_TPM2_ALG_ID:
  assumes J: "json_world J V" and e: "encodes V (ifapi_json_TPM2_ALG_ID_serialize J x) v"
    and x: "x \<noteq> TPM2_ALG_TDES \<and> x \<noteq> TPM2_ALG_CMAC"
  shows "decodes V (ifapi_json_TPM2_ALG_ID_deserialize J) v (\<lambda>_. True) (\<lambda>y. y = x)"
  unfolding ifapi_json_TPM2_ALG_ID_deserialize_def
  by (rule const_codec [OF J e [unfolded ifapi_json_TPM2_ALG_ID_serialize_def]
      table_inverseI [OF TPM2_ALG_ID_table x]])

lemma json_TPM2_ECC_CURVE:
  assumes J: "json_world J V" and e: "encodes V (ifapi_json_TPM2_ECC_CURVE_serialize J x) v"
  shows "decodes V (ifapi_json_TPM2_ECC_CURVE_deserialize J) v (\<lambda>_. True) (\<lambda>y. y = x)"
  unfolding ifapi_json_TPM2_ECC_CURVE_deserialize_def
  by (rule const_codec [OF J e [unfolded ifapi_json_TPM2_ECC_CURVE_serialize_def]
      table_inverseI [OF TPM2_ECC_CURVE_table TrueI]])

lemma json_TPMA_OBJECT:
  assumes J: "json_world J V" and e: "encodes V (ifapi_json_TPMA_OBJECT_serialize J x) v"
    and x: "x AND TPMA_OBJECT_mask = x"
  shows "decodes V (ifapi_json_TPMA_OBJECT_deserialize J) v (\<lambda>_. True) (\<lambda>y. y = x)"
proof -
  have "list_all (\<lambda>row. fst row \<in> set (map ((^) 2) [0..<32])) TPMA_OBJECT_serialize_tab" by code_simp
  then have "flags_value TPMA_OBJECT_serialize_tab x = x"
    using x by (simp add: flags_value_bits TPMA_OBJECT_mask_def)
  moreover have "decodes V (ifapi_json_TPMA_OBJECT_deserialize J) v (\<lambda>_. True) (\<lambda>y. y = flags_value TPMA_OBJECT_serialize_tab x)"
    unfolding ifapi_json_TPMA_OBJECT_deserialize_def
    by (rule flags_codec [OF J TPMA_OBJECT_table e [unfolded ifapi_json_TPMA_OBJECT_serialize_def]])
      (simp_all add: TPMA_OBJECT_serialize_tab_def)
  ultimately show ?thesis by simp
qed

lemma json_TPMI_ECC_CURVE:
  assumes J: "json_world J V" and e: "encodes V (ifapi_json_TPMI_ECC_CURVE_serialize J x) v"
  shows "decodes V (ifapi_json_TPMI_ECC_CURVE_deserialize J) v (\<lambda>_. True) (\<lambda>y. y = x)"
proof -
  from e have p: "encodes V (ifapi_json_TPM2_ECC_CURVE_serialize J x) v"
    by (simp add: ifapi_json_TPMI_ECC_CURVE_serialize_def)
  have "x \<in> fst ` set TPM2_ECC_CURVE_serialize_tab"
    by (rule encodes_const_in [OF p [unfolded ifapi_json_TPM2_ECC_CURVE_serialize_def]])
  then show ?thesis unfolding ifapi_json_TPMI_ECC_CURVE_deserialize_def
    by (intro decodes_SUBTYPE_FILTER json_TPM2_ECC_CURVE [OF J p]) (auto simp: TPM2_ECC_CURVE_serialize_tab_def)
qed

section \<open>Interface types, buffers, structures and unions\<close>

declare selector_defs [simp] fapi_const_defs [simp] TPM2_ALG_CFB_def [simp]

lemma json_TPMI_ALG_KEYEDHASH_SCHEME:
  assumes J: "json_world J V" and e: "encodes V (ifapi_json_TPMI_ALG_KEYEDHASH_SCHEME_serialize J x) v"
  shows "decodes V (ifapi_json_TPMI_ALG_KEYEDHASH_SCHEME_deserialize J) v (\<lambda>_. True) (\<lambda>y. y = x)"
proof -
  from e have x: "x \<in> set [TPM2_ALG_HMAC, TPM2_ALG_XOR, TPM2_ALG_NULL]" and p: "encodes V (ifapi_json_TPM2_ALG_ID_serialize J x) v"
    by (auto simp only: ifapi_json_TPMI_ALG_KEYEDHASH_SCHEME_serialize_def encodes_CHECK_IN_LIST)
  have "decodes V (ifapi_json_TPM2_ALG_ID_deserialize J) v (\<lambda>_. True) (\<lambda>y. y = x)"
    by (rule json_TPM2_ALG_ID [OF J p]) (use x in auto)
  then show ?thesis using x unfolding ifapi_json_TPMI_ALG_KEYEDHASH_SCHEME_deserialize_def by (intro decodes_SUBTYPE_FILTER) simp_all
qed

lemma json_TPMI_ALG_HASH:
  assumes J: "json_world J V" and e: "encodes V (ifapi_json_TPMI_ALG_HASH_serialize J x) v"
  shows "decodes V (ifapi_json_TPMI_ALG_HASH_deserialize J) v (\<lambda>_. True) (\<lambda>y. y = x)"
proof -
  from e have x: "x \<in> set [TPM2_ALG_SHA1, TPM2_ALG_SHA256, TPM2_ALG_SHA384, TPM2_ALG_SHA512, TPM2_ALG_SM3_256, TPM2_ALG_NULL]" and p: "encodes V (ifapi_json_TPM2_ALG_ID_serialize J x) v"
    by (auto simp only: ifapi_json_TPMI_ALG_HASH_serialize_def encodes_CHECK_IN_LIST)
  have "decodes V (ifapi_json_TPM2_ALG_ID_deserialize J) v (\<lambda>_. True) (\<lambda>y. y = x)"
    by (rule json_TPM2_ALG_ID [OF J p]) (use x in auto)
  then show ?thesis using x unfolding ifapi_json_TPMI_ALG_HASH_deserialize_def by (intro decodes_SUBTYPE_FILTER) simp_all
qed

lemma json_TPMS_SCHEME_HASH:
  assumes J: "json_world J V" and e: "encodes V (ifapi_json_TPMS_SCHEME_HASH_serialize J (Some x)) v"
  shows "decodes V (ifapi_json_TPMS_SCHEME_HASH_deserialize J) v wt_TPMS_SCHEME_HASH (\<lambda>y. wire_TPMS_SCHEME_HASH y = wire_TPMS_SCHEME_HASH x)"
proof -
  obtain v1 where v: "v = JObject [(''hashAlg'', v1)]"
    and e1: "encodes V (ifapi_json_TPMI_ALG_HASH_serialize J (TPMS_SCHEME_HASH_hashAlg x)) v1"
  proof -
    from e have "encodes V (new_object_if_null J (object_fields J
       [(''hashAlg'', ifapi_json_TPMI_ALG_HASH_serialize J (TPMS_SCHEME_HASH_hashAlg x))])) v"
      by (simp add: ifapi_json_TPMS_SCHEME_HASH_serialize_def)
    then show thesis by (rule encodes_object [OF J])
      (auto simp: list_all2_Cons1 encodes_bad_value intro: that)
  qed
  show ?thesis unfolding ifapi_json_TPMS_SCHEME_HASH_deserialize_def v
    by (rule decodes_out_not_null,
      rule fetches_Cons [where Q = "\<lambda>s. wt_TPMS_SCHEME_HASH s \<and> TPMS_SCHEME_HASH_hashAlg s = TPMS_SCHEME_HASH_hashAlg x"], rule fetches_field [OF J _ json_TPMI_ALG_HASH [OF J e1]], simp, simp add: wt_TPMS_SCHEME_HASH_def, simp add: wt_TPMS_SCHEME_HASH_def,
      rule fetches_Nil, simp add: wire_TPMS_SCHEME_HASH_def)
qed

lemma json_TPMS_SCHEME_HMAC:
  assumes J: "json_world J V" and e: "encodes V (ifapi_json_TPMS_SCHEME_HMAC_serialize J (Some x)) v"
  shows "decodes V (ifapi_json_TPMS_SCHEME_HMAC_deserialize J) v wt_TPMS_SCHEME_HASH (\<lambda>y. wire_TPMS_SCHEME_HASH y = wire_TPMS_SCHEME_HASH x)"
  using json_TPMS_SCHEME_HASH [OF J] e unfolding ifapi_json_TPMS_SCHEME_HMAC_serialize_def ifapi_json_TPMS_SCHEME_HMAC_deserialize_def .

lemma json_TPMI_ALG_KDF:
  assumes J: "json_world J V" and e: "encodes V (ifapi_json_TPMI_ALG_KDF_serialize J x) v"
  shows "decodes V (ifapi_json_TPMI_ALG_KDF_deserialize J) v (\<lambda>_. True) (\<lambda>y. y = x)"
proof -
  from e have x: "x \<in> set [TPM2_ALG_MGF1, TPM2_ALG_KDF1_SP800_56A, TPM2_ALG_KDF1_SP800_108, TPM2_ALG_NULL]" and p: "encodes V (ifapi_json_TPM2_ALG_ID_serialize J x) v"
    by (auto simp only: ifapi_json_TPMI_ALG_KDF_serialize_def encodes_CHECK_IN_LIST)
  have "decodes V (ifapi_json_TPM2_ALG_ID_deserialize J) v (\<lambda>_. True) (\<lambda>y. y = x)"
    by (rule json_TPM2_ALG_ID [OF J p]) (use x in auto)
  then show ?thesis using x unfolding ifapi_json_TPMI_ALG_KDF_deserialize_def by (intro decodes_SUBTYPE_FILTER) simp_all
qed

lemma json_TPMS_SCHEME_XOR:
  assumes J: "json_world J V" and e: "encodes V (ifapi_json_TPMS_SCHEME_XOR_serialize J (Some x)) v"
  shows "decodes V (ifapi_json_TPMS_SCHEME_XOR_deserialize J) v wt_TPMS_SCHEME_XOR (\<lambda>y. wire_TPMS_SCHEME_XOR y = wire_TPMS_SCHEME_XOR x)"
proof -
  obtain v1 v2 where v: "v = JObject [(''hashAlg'', v1), (''kdf'', v2)]"
    and e1: "encodes V (ifapi_json_TPMI_ALG_HASH_serialize J (TPMS_SCHEME_XOR_hashAlg x)) v1"
    and e2: "encodes V (ifapi_json_TPMI_ALG_KDF_serialize J (TPMS_SCHEME_XOR_kdf x)) v2"
  proof -
    from e have "encodes V (new_object_if_null J (object_fields J
       [(''hashAlg'', ifapi_json_TPMI_ALG_HASH_serialize J (TPMS_SCHEME_XOR_hashAlg x)),
        (''kdf'', ifapi_json_TPMI_ALG_KDF_serialize J (TPMS_SCHEME_XOR_kdf x))])) v"
      by (simp add: ifapi_json_TPMS_SCHEME_XOR_serialize_def)
    then show thesis by (rule encodes_object [OF J])
      (auto simp: list_all2_Cons1 encodes_bad_value intro: that)
  qed
  show ?thesis unfolding ifapi_json_TPMS_SCHEME_XOR_deserialize_def v
    by (rule decodes_out_not_null,
      rule fetches_Cons [where Q = "\<lambda>s. wt_TPMS_SCHEME_XOR s \<and> TPMS_SCHEME_XOR_hashAlg s = TPMS_SCHEME_XOR_hashAlg x"], rule fetches_field [OF J _ json_TPMI_ALG_HASH [OF J e1]], simp, simp add: wt_TPMS_SCHEME_XOR_def, simp add: wt_TPMS_SCHEME_XOR_def,
      rule fetches_Cons [where Q = "\<lambda>s. wt_TPMS_SCHEME_XOR s \<and> TPMS_SCHEME_XOR_hashAlg s = TPMS_SCHEME_XOR_hashAlg x \<and> TPMS_SCHEME_XOR_kdf s = TPMS_SCHEME_XOR_kdf x"], rule fetches_field [OF J _ json_TPMI_ALG_KDF [OF J e2]], simp, simp add: wt_TPMS_SCHEME_XOR_def, simp add: wt_TPMS_SCHEME_XOR_def,
      rule fetches_Nil, simp add: wire_TPMS_SCHEME_XOR_def)
qed

lemma json_TPMU_SCHEME_KEYEDHASH:
  assumes J: "json_world J V" and e: "encodes V (ifapi_json_TPMU_SCHEME_KEYEDHASH_serialize J (Some u) k) v"
  shows "decodes V (ifapi_json_TPMU_SCHEME_KEYEDHASH_deserialize J k) v wt_TPMU_SCHEME_KEYEDHASH (\<lambda>y. wire_TPMU_SCHEME_KEYEDHASH k y = wire_TPMU_SCHEME_KEYEDHASH k u)"
proof -
  from e consider (c0) x where "k = ucast TPM2_ALG_HMAC" "get_TPMU_SCHEME_KEYEDHASH_hmac u = Some x" "encodes V (ifapi_json_TPMS_SCHEME_HMAC_serialize J (Some x)) v"
    | (c1) x where "k = ucast TPM2_ALG_XOR" "get_TPMU_SCHEME_KEYEDHASH_exclusiveOr u = Some x" "encodes V (ifapi_json_TPMS_SCHEME_XOR_serialize J (Some x)) v"
    by (auto simp: ifapi_json_TPMU_SCHEME_KEYEDHASH_serialize_def encodes_union_switch encodes_union_member split: if_splits)
  then show ?thesis
  proof cases
    case c0
    have u: "u = TPMU_SCHEME_KEYEDHASH_hmac x" using c0(2) by simp
    show ?thesis unfolding ifapi_json_TPMU_SCHEME_KEYEDHASH_deserialize_def c0(1) u
      by (rule decodes_switch, simp, rule decodes_member [OF json_TPMS_SCHEME_HMAC [OF J c0(3)]])
        (auto simp: union_wire spec_TPMU_SCHEME_KEYEDHASH_def get_TPMU_SCHEME_KEYEDHASH [THEN iffD2, OF refl])
  next
    case c1
    have u: "u = TPMU_SCHEME_KEYEDHASH_exclusiveOr x" using c1(2) by simp
    show ?thesis unfolding ifapi_json_TPMU_SCHEME_KEYEDHASH_deserialize_def c1(1) u
      by (rule decodes_switch, simp, rule decodes_member [OF json_TPMS_SCHEME_XOR [OF J c1(3)]])
        (auto simp: union_wire spec_TPMU_SCHEME_KEYEDHASH_def get_TPMU_SCHEME_KEYEDHASH [THEN iffD2, OF refl])
  qed
qed

lemma json_TPMT_KEYEDHASH_SCHEME:
  assumes J: "json_world J V" and e: "encodes V (ifapi_json_TPMT_KEYEDHASH_SCHEME_serialize J (Some x)) v"
  shows "decodes V (ifapi_json_TPMT_KEYEDHASH_SCHEME_deserialize J) v wt_TPMT_KEYEDHASH_SCHEME (\<lambda>y. wire_TPMT_KEYEDHASH_SCHEME y = wire_TPMT_KEYEDHASH_SCHEME x)"
proof (cases "TPMT_KEYEDHASH_SCHEME_scheme x = TPM2_ALG_NULL")
  case True
  obtain v1 where v: "v = JObject [(''scheme'', v1)]"
    and e1: "encodes V (ifapi_json_TPMI_ALG_KEYEDHASH_SCHEME_serialize J (TPMT_KEYEDHASH_SCHEME_scheme x)) v1"
  proof -
    from e True have "encodes V (new_object_if_null J (object_fields J
       [(''scheme'', ifapi_json_TPMI_ALG_KEYEDHASH_SCHEME_serialize J (TPMT_KEYEDHASH_SCHEME_scheme x))])) v"
      by (simp add: ifapi_json_TPMT_KEYEDHASH_SCHEME_serialize_def)
    then show thesis by (rule encodes_object [OF J])
      (auto simp: list_all2_Cons1 encodes_bad_value intro: that)
  qed
  show ?thesis unfolding ifapi_json_TPMT_KEYEDHASH_SCHEME_deserialize_def v
    by (rule decodes_out_not_null,
      rule fetches_Cons [where Q = "\<lambda>s. wt_TPMT_KEYEDHASH_SCHEME s \<and> TPMT_KEYEDHASH_SCHEME_scheme s = TPMT_KEYEDHASH_SCHEME_scheme x"], rule fetches_field [OF J _ json_TPMI_ALG_KEYEDHASH_SCHEME [OF J e1]], simp, simp add: wt_TPMT_KEYEDHASH_SCHEME_def, simp add: wt_TPMT_KEYEDHASH_SCHEME_def,
      rule fetches_Cons [where Q = "\<lambda>s. wt_TPMT_KEYEDHASH_SCHEME s \<and> TPMT_KEYEDHASH_SCHEME_scheme s = TPMT_KEYEDHASH_SCHEME_scheme x"], rule fetches_when_False, use True in simp,
      rule fetches_Nil, use True in \<open>simp add: wire_TPMT_KEYEDHASH_SCHEME_def union_wire spec_TPMU_SCHEME_KEYEDHASH_def\<close>)
next
  case False
  obtain v1 v2 where v: "v = JObject [(''scheme'', v1), (''details'', v2)]"
    and e1: "encodes V (ifapi_json_TPMI_ALG_KEYEDHASH_SCHEME_serialize J (TPMT_KEYEDHASH_SCHEME_scheme x)) v1"
    and e2: "encodes V (ifapi_json_TPMU_SCHEME_KEYEDHASH_serialize J (Some (TPMT_KEYEDHASH_SCHEME_details x)) (ucast (TPMT_KEYEDHASH_SCHEME_scheme x))) v2"
  proof -
    from e False have "encodes V (new_object_if_null J (object_fields J
       [(''scheme'', ifapi_json_TPMI_ALG_KEYEDHASH_SCHEME_serialize J (TPMT_KEYEDHASH_SCHEME_scheme x)),
        (''details'', ifapi_json_TPMU_SCHEME_KEYEDHASH_serialize J (Some (TPMT_KEYEDHASH_SCHEME_details x)) (ucast (TPMT_KEYEDHASH_SCHEME_scheme x)))])) v"
      by (simp add: ifapi_json_TPMT_KEYEDHASH_SCHEME_serialize_def)
    then show thesis by (rule encodes_object [OF J])
      (auto simp: list_all2_Cons1 encodes_bad_value intro: that)
  qed
  show ?thesis unfolding ifapi_json_TPMT_KEYEDHASH_SCHEME_deserialize_def v
    by (rule decodes_out_not_null,
      rule fetches_Cons [where Q = "\<lambda>s. wt_TPMT_KEYEDHASH_SCHEME s \<and> TPMT_KEYEDHASH_SCHEME_scheme s = TPMT_KEYEDHASH_SCHEME_scheme x"], rule fetches_field [OF J _ json_TPMI_ALG_KEYEDHASH_SCHEME [OF J e1]], simp, simp add: wt_TPMT_KEYEDHASH_SCHEME_def, simp add: wt_TPMT_KEYEDHASH_SCHEME_def,
      rule fetches_Cons [where Q = "\<lambda>s. wt_TPMT_KEYEDHASH_SCHEME s \<and> TPMT_KEYEDHASH_SCHEME_scheme s = TPMT_KEYEDHASH_SCHEME_scheme x \<and> wire_TPMU_SCHEME_KEYEDHASH (ucast (TPMT_KEYEDHASH_SCHEME_scheme x)) (TPMT_KEYEDHASH_SCHEME_details s) = wire_TPMU_SCHEME_KEYEDHASH (ucast (TPMT_KEYEDHASH_SCHEME_scheme x)) (TPMT_KEYEDHASH_SCHEME_details x)"], rule fetches_when_True, use False in simp, rule fetches_field_sel [where g = "ifapi_json_TPMU_SCHEME_KEYEDHASH_deserialize J" and sel = "\<lambda>s. ucast (TPMT_KEYEDHASH_SCHEME_scheme s)", OF J _ json_TPMU_SCHEME_KEYEDHASH [OF J e2]], simp, simp add: wt_TPMT_KEYEDHASH_SCHEME_def, simp add: wt_TPMT_KEYEDHASH_SCHEME_def,
      rule fetches_Nil, simp add: wire_TPMT_KEYEDHASH_SCHEME_def)
qed

lemma json_TPMI_ALG_SYM_OBJECT:
  assumes J: "json_world J V" and e: "encodes V (ifapi_json_TPMI_ALG_SYM_OBJECT_serialize J x) v"
  shows "decodes V (ifapi_json_TPMI_ALG_SYM_OBJECT_deserialize J) v (\<lambda>_. True) (\<lambda>y. y = x)"
proof -
  from e have x: "x \<in> set [TPM2_ALG_AES, TPM2_ALG_CAMELLIA, TPM2_ALG_SM4, TPM2_ALG_NULL]" and p: "encodes V (ifapi_json_TPM2_ALG_ID_serialize J x) v"
    by (auto simp only: ifapi_json_TPMI_ALG_SYM_OBJECT_serialize_def encodes_CHECK_IN_LIST)
  have "decodes V (ifapi_json_TPM2_ALG_ID_deserialize J) v (\<lambda>_. True) (\<lambda>y. y = x)"
    by (rule json_TPM2_ALG_ID [OF J p]) (use x in auto)
  then show ?thesis using x unfolding ifapi_json_TPMI_ALG_SYM_OBJECT_deserialize_def by (intro decodes_SUBTYPE_FILTER) simp_all
qed

lemma json_TPMI_AES_KEY_BITS:
  assumes J: "json_world J V" and e: "encodes V (ifapi_json_TPMI_AES_KEY_BITS_serialize J x) v"
  shows "decodes V (ifapi_json_TPMI_AES_KEY_BITS_deserialize J) v (\<lambda>_. True) (\<lambda>y. y = x)"
proof -
  from e have x: "x \<in> set [128, 192, 256]" and p: "encodes V (ifapi_json_UINT16_serialize J x) v"
    by (auto simp only: ifapi_json_TPMI_AES_KEY_BITS_serialize_def encodes_CHECK_IN_LIST)
  have "decodes V (ifapi_json_UINT16_deserialize J) v (\<lambda>_. True) (\<lambda>y. y = x)"
    by (rule json_UINT16 [OF J p])
  then show ?thesis using x unfolding ifapi_json_TPMI_AES_KEY_BITS_deserialize_def by (intro decodes_SUBTYPE_FILTER) simp_all
qed

lemma json_TPMI_SM4_KEY_BITS:
  assumes J: "json_world J V" and e: "encodes V (ifapi_json_TPMI_SM4_KEY_BITS_serialize J x) v"
  shows "decodes V (ifapi_json_TPMI_SM4_KEY_BITS_deserialize J) v (\<lambda>_. True) (\<lambda>y. y = x)"
proof -
  from e have x: "x \<in> set [128]" and p: "encodes V (ifapi_json_UINT16_serialize J x) v"
    by (auto simp only: ifapi_json_TPMI_SM4_KEY_BITS_serialize_def encodes_CHECK_IN_LIST)
  have "decodes V (ifapi_json_UINT16_deserialize J) v (\<lambda>_. True) (\<lambda>y. y = x)"
    by (rule json_UINT16 [OF J p])
  then show ?thesis using x unfolding ifapi_json_TPMI_SM4_KEY_BITS_deserialize_def by (intro decodes_SUBTYPE_FILTER) simp_all
qed

lemma json_TPMI_CAMELLIA_KEY_BITS:
  assumes J: "json_world J V" and e: "encodes V (ifapi_json_TPMI_CAMELLIA_KEY_BITS_serialize J x) v"
  shows "decodes V (ifapi_json_TPMI_CAMELLIA_KEY_BITS_deserialize J) v (\<lambda>_. True) (\<lambda>y. y = x)"
proof -
  from e have x: "x \<in> set [128, 192, 256]" and p: "encodes V (ifapi_json_UINT16_serialize J x) v"
    by (auto simp only: ifapi_json_TPMI_CAMELLIA_KEY_BITS_serialize_def encodes_CHECK_IN_LIST)
  have "decodes V (ifapi_json_UINT16_deserialize J) v (\<lambda>_. True) (\<lambda>y. y = x)"
    by (rule json_UINT16 [OF J p])
  then show ?thesis using x unfolding ifapi_json_TPMI_CAMELLIA_KEY_BITS_deserialize_def by (intro decodes_SUBTYPE_FILTER) simp_all
qed

lemma json_TPMU_SYM_KEY_BITS:
  assumes J: "json_world J V" and e: "encodes V (ifapi_json_TPMU_SYM_KEY_BITS_serialize J (Some u) k) v"
  shows "decodes V (ifapi_json_TPMU_SYM_KEY_BITS_deserialize J k) v wt_TPMU_SYM_KEY_BITS (\<lambda>y. wire_TPMU_SYM_KEY_BITS k y = wire_TPMU_SYM_KEY_BITS k u)"
proof -
  from e consider (c0) x where "k = ucast TPM2_ALG_AES" "get_TPMU_SYM_KEY_BITS_aes u = Some x" "encodes V (ifapi_json_TPMI_AES_KEY_BITS_serialize J x) v"
    | (c1) x where "k = ucast TPM2_ALG_SM4" "get_TPMU_SYM_KEY_BITS_sm4 u = Some x" "encodes V (ifapi_json_TPMI_SM4_KEY_BITS_serialize J x) v"
    | (c2) x where "k = ucast TPM2_ALG_CAMELLIA" "get_TPMU_SYM_KEY_BITS_camellia u = Some x" "encodes V (ifapi_json_TPMI_CAMELLIA_KEY_BITS_serialize J x) v"
    | (c3) x where "k = ucast TPM2_ALG_XOR" "get_TPMU_SYM_KEY_BITS_exclusiveOr u = Some x" "encodes V (ifapi_json_TPMI_ALG_HASH_serialize J x) v"
    by (auto simp: ifapi_json_TPMU_SYM_KEY_BITS_serialize_def encodes_union_switch encodes_union_member split: if_splits)
  then show ?thesis
  proof cases
    case c0
    have u: "u = TPMU_SYM_KEY_BITS_aes x" using c0(2) by simp
    show ?thesis unfolding ifapi_json_TPMU_SYM_KEY_BITS_deserialize_def c0(1) u
      by (rule decodes_switch, simp, rule decodes_member [OF json_TPMI_AES_KEY_BITS [OF J c0(3)]])
        (auto simp: union_wire spec_TPMU_SYM_KEY_BITS_def get_TPMU_SYM_KEY_BITS [THEN iffD2, OF refl])
  next
    case c1
    have u: "u = TPMU_SYM_KEY_BITS_sm4 x" using c1(2) by simp
    show ?thesis unfolding ifapi_json_TPMU_SYM_KEY_BITS_deserialize_def c1(1) u
      by (rule decodes_switch, simp, rule decodes_member [OF json_TPMI_SM4_KEY_BITS [OF J c1(3)]])
        (auto simp: union_wire spec_TPMU_SYM_KEY_BITS_def get_TPMU_SYM_KEY_BITS [THEN iffD2, OF refl])
  next
    case c2
    have u: "u = TPMU_SYM_KEY_BITS_camellia x" using c2(2) by simp
    show ?thesis unfolding ifapi_json_TPMU_SYM_KEY_BITS_deserialize_def c2(1) u
      by (rule decodes_switch, simp, rule decodes_member [OF json_TPMI_CAMELLIA_KEY_BITS [OF J c2(3)]])
        (auto simp: union_wire spec_TPMU_SYM_KEY_BITS_def get_TPMU_SYM_KEY_BITS [THEN iffD2, OF refl])
  next
    case c3
    have u: "u = TPMU_SYM_KEY_BITS_exclusiveOr x" using c3(2) by simp
    show ?thesis unfolding ifapi_json_TPMU_SYM_KEY_BITS_deserialize_def c3(1) u
      by (rule decodes_switch, simp, rule decodes_member [OF json_TPMI_ALG_HASH [OF J c3(3)]])
        (auto simp: union_wire spec_TPMU_SYM_KEY_BITS_def get_TPMU_SYM_KEY_BITS [THEN iffD2, OF refl])
  qed
qed

lemma json_TPMI_ALG_SYM_MODE:
  assumes J: "json_world J V" and e: "encodes V (ifapi_json_TPMI_ALG_SYM_MODE_serialize J x) v"
  shows "decodes V (ifapi_json_TPMI_ALG_SYM_MODE_deserialize J) v (\<lambda>_. True) (\<lambda>y. y = x)"
proof -
  from e have x: "x \<in> set [TPM2_ALG_CTR, TPM2_ALG_OFB, TPM2_ALG_CBC, TPM2_ALG_CFB, TPM2_ALG_ECB, TPM2_ALG_NULL]" and p: "encodes V (ifapi_json_TPM2_ALG_ID_serialize J x) v"
    by (auto simp only: ifapi_json_TPMI_ALG_SYM_MODE_serialize_def encodes_CHECK_IN_LIST)
  have "decodes V (ifapi_json_TPM2_ALG_ID_deserialize J) v (\<lambda>_. True) (\<lambda>y. y = x)"
    by (rule json_TPM2_ALG_ID [OF J p]) (use x in auto)
  then show ?thesis using x unfolding ifapi_json_TPMI_ALG_SYM_MODE_deserialize_def by (intro decodes_SUBTYPE_FILTER) simp_all
qed

lemma json_TPMU_SYM_MODE:
  assumes J: "json_world J V" and e: "encodes V (ifapi_json_TPMU_SYM_MODE_serialize J (Some u) k) v" and ok: "valid_TPMU_SYM_MODE k u"
  shows "decodes V (ifapi_json_TPMU_SYM_MODE_deserialize J k) v wt_TPMU_SYM_MODE (\<lambda>y. wire_TPMU_SYM_MODE k y = wire_TPMU_SYM_MODE k u)"
proof -
  from e consider (c0) x where "k = ucast TPM2_ALG_CAMELLIA" "sym_mode_value u = Some x" "encodes V (ifapi_json_TPMI_ALG_SYM_MODE_serialize J x) v"
    | (c1) x where "k = ucast TPM2_ALG_SM4" "sym_mode_value u = Some x" "encodes V (ifapi_json_TPMI_ALG_SYM_MODE_serialize J x) v"
    | (c2) x where "k = ucast TPM2_ALG_AES" "sym_mode_value u = Some x" "encodes V (ifapi_json_TPMI_ALG_SYM_MODE_serialize J x) v"
    by (auto simp: ifapi_json_TPMU_SYM_MODE_serialize_def encodes_union_switch encodes_union_member split: if_splits)
  then show ?thesis
  proof cases
    case c0
    have u: "u = TPMU_SYM_MODE_camellia x" using ok c0(2) unfolding c0(1)
      by (cases u) (simp_all add: valid_union_def union_wire spec_TPMU_SYM_MODE_def sym_mode_value_def get_TPMU_SYM_MODE_aes_def get_TPMU_SYM_MODE_sm4_def get_TPMU_SYM_MODE_camellia_def)
    show ?thesis unfolding ifapi_json_TPMU_SYM_MODE_deserialize_def c0(1) u
      by (rule decodes_switch, simp, rule decodes_member [OF json_TPMI_ALG_SYM_MODE [OF J c0(3)]])
        (auto simp: union_wire spec_TPMU_SYM_MODE_def get_TPMU_SYM_MODE [THEN iffD2, OF refl])
  next
    case c1
    have u: "u = TPMU_SYM_MODE_sm4 x" using ok c1(2) unfolding c1(1)
      by (cases u) (simp_all add: valid_union_def union_wire spec_TPMU_SYM_MODE_def sym_mode_value_def get_TPMU_SYM_MODE_aes_def get_TPMU_SYM_MODE_sm4_def get_TPMU_SYM_MODE_camellia_def)
    show ?thesis unfolding ifapi_json_TPMU_SYM_MODE_deserialize_def c1(1) u
      by (rule decodes_switch, simp, rule decodes_member [OF json_TPMI_ALG_SYM_MODE [OF J c1(3)]])
        (auto simp: union_wire spec_TPMU_SYM_MODE_def get_TPMU_SYM_MODE [THEN iffD2, OF refl])
  next
    case c2
    have u: "u = TPMU_SYM_MODE_aes x" using ok c2(2) unfolding c2(1)
      by (cases u) (simp_all add: valid_union_def union_wire spec_TPMU_SYM_MODE_def sym_mode_value_def get_TPMU_SYM_MODE_aes_def get_TPMU_SYM_MODE_sm4_def get_TPMU_SYM_MODE_camellia_def)
    show ?thesis unfolding ifapi_json_TPMU_SYM_MODE_deserialize_def c2(1) u
      by (rule decodes_switch, simp, rule decodes_member [OF json_TPMI_ALG_SYM_MODE [OF J c2(3)]])
        (auto simp: union_wire spec_TPMU_SYM_MODE_def get_TPMU_SYM_MODE [THEN iffD2, OF refl])
  qed
qed

lemma json_TPMT_SYM_DEF_OBJECT:
  assumes J: "json_world J V" and e: "encodes V (ifapi_json_TPMT_SYM_DEF_OBJECT_serialize J (Some x)) v" and ok: "valid_TPMT_SYM_DEF_OBJECT x"
  shows "decodes V (ifapi_json_TPMT_SYM_DEF_OBJECT_deserialize J) v wt_TPMT_SYM_DEF_OBJECT (\<lambda>y. wire_TPMT_SYM_DEF_OBJECT y = wire_TPMT_SYM_DEF_OBJECT x)"
proof (cases "TPMT_SYM_DEF_OBJECT_algorithm x = TPM2_ALG_NULL")
  case True
  obtain v1 where v: "v = JObject [(''algorithm'', v1)]"
    and e1: "encodes V (ifapi_json_TPMI_ALG_SYM_OBJECT_serialize J (TPMT_SYM_DEF_OBJECT_algorithm x)) v1"
  proof -
    from e True have "encodes V (new_object_if_null J (object_fields J
       [(''algorithm'', ifapi_json_TPMI_ALG_SYM_OBJECT_serialize J (TPMT_SYM_DEF_OBJECT_algorithm x))])) v"
      by (simp add: ifapi_json_TPMT_SYM_DEF_OBJECT_serialize_def)
    then show thesis by (rule encodes_object [OF J])
      (auto simp: list_all2_Cons1 encodes_bad_value intro: that)
  qed
  show ?thesis unfolding ifapi_json_TPMT_SYM_DEF_OBJECT_deserialize_def v
    by (rule decodes_out_not_null,
      rule fetches_Cons [where Q = "\<lambda>s. wt_TPMT_SYM_DEF_OBJECT s \<and> TPMT_SYM_DEF_OBJECT_algorithm s = TPMT_SYM_DEF_OBJECT_algorithm x"], rule fetches_field [OF J _ json_TPMI_ALG_SYM_OBJECT [OF J e1]], simp, simp add: wt_TPMT_SYM_DEF_OBJECT_def, simp add: wt_TPMT_SYM_DEF_OBJECT_def,
      rule fetches_Cons [where Q = "\<lambda>s. wt_TPMT_SYM_DEF_OBJECT s \<and> TPMT_SYM_DEF_OBJECT_algorithm s = TPMT_SYM_DEF_OBJECT_algorithm x"], rule fetches_when_False, use True in simp,
      rule fetches_Cons [where Q = "\<lambda>s. wt_TPMT_SYM_DEF_OBJECT s \<and> TPMT_SYM_DEF_OBJECT_algorithm s = TPMT_SYM_DEF_OBJECT_algorithm x"], rule fetches_when_False, use True in simp,
      rule fetches_Nil, use True in \<open>simp add: wire_TPMT_SYM_DEF_OBJECT_def union_wire spec_TPMU_SYM_KEY_BITS_def spec_TPMU_SYM_MODE_def\<close>)
next
  case False
  have okm: "valid_TPMU_SYM_MODE (ucast (TPMT_SYM_DEF_OBJECT_algorithm x)) (TPMT_SYM_DEF_OBJECT_mode x)"
    using ok by (simp add: valid_TPMT_SYM_DEF_OBJECT_def)
  obtain v1 v2 v3 where v: "v = JObject [(''algorithm'', v1), (''keyBits'', v2), (''mode'', v3)]"
    and e1: "encodes V (ifapi_json_TPMI_ALG_SYM_OBJECT_serialize J (TPMT_SYM_DEF_OBJECT_algorithm x)) v1"
    and e2: "encodes V (ifapi_json_TPMU_SYM_KEY_BITS_serialize J (Some (TPMT_SYM_DEF_OBJECT_keyBits x)) (ucast (TPMT_SYM_DEF_OBJECT_algorithm x))) v2"
    and e3: "encodes V (ifapi_json_TPMU_SYM_MODE_serialize J (Some (TPMT_SYM_DEF_OBJECT_mode x)) (ucast (TPMT_SYM_DEF_OBJECT_algorithm x))) v3"
  proof -
    from e False have "encodes V (new_object_if_null J (object_fields J
       [(''algorithm'', ifapi_json_TPMI_ALG_SYM_OBJECT_serialize J (TPMT_SYM_DEF_OBJECT_algorithm x)),
        (''keyBits'', ifapi_json_TPMU_SYM_KEY_BITS_serialize J (Some (TPMT_SYM_DEF_OBJECT_keyBits x)) (ucast (TPMT_SYM_DEF_OBJECT_algorithm x))),
        (''mode'', ifapi_json_TPMU_SYM_MODE_serialize J (Some (TPMT_SYM_DEF_OBJECT_mode x)) (ucast (TPMT_SYM_DEF_OBJECT_algorithm x)))])) v"
      by (simp add: ifapi_json_TPMT_SYM_DEF_OBJECT_serialize_def)
    then show thesis by (rule encodes_object [OF J])
      (auto simp: list_all2_Cons1 encodes_bad_value intro: that)
  qed
  show ?thesis unfolding ifapi_json_TPMT_SYM_DEF_OBJECT_deserialize_def v
    by (rule decodes_out_not_null,
      rule fetches_Cons [where Q = "\<lambda>s. wt_TPMT_SYM_DEF_OBJECT s \<and> TPMT_SYM_DEF_OBJECT_algorithm s = TPMT_SYM_DEF_OBJECT_algorithm x"], rule fetches_field [OF J _ json_TPMI_ALG_SYM_OBJECT [OF J e1]], simp, simp add: wt_TPMT_SYM_DEF_OBJECT_def, simp add: wt_TPMT_SYM_DEF_OBJECT_def,
      rule fetches_Cons [where Q = "\<lambda>s. wt_TPMT_SYM_DEF_OBJECT s \<and> TPMT_SYM_DEF_OBJECT_algorithm s = TPMT_SYM_DEF_OBJECT_algorithm x \<and> wire_TPMU_SYM_KEY_BITS (ucast (TPMT_SYM_DEF_OBJECT_algorithm x)) (TPMT_SYM_DEF_OBJECT_keyBits s) = wire_TPMU_SYM_KEY_BITS (ucast (TPMT_SYM_DEF_OBJECT_algorithm x)) (TPMT_SYM_DEF_OBJECT_keyBits x)"], rule fetches_when_True, use False in simp, rule fetches_field_sel [where g = "ifapi_json_TPMU_SYM_KEY_BITS_deserialize J" and sel = "\<lambda>s. ucast (TPMT_SYM_DEF_OBJECT_algorithm s)", OF J _ json_TPMU_SYM_KEY_BITS [OF J e2]], simp, simp add: wt_TPMT_SYM_DEF_OBJECT_def, simp add: wt_TPMT_SYM_DEF_OBJECT_def,
      rule fetches_Cons [where Q = "\<lambda>s. wt_TPMT_SYM_DEF_OBJECT s \<and> TPMT_SYM_DEF_OBJECT_algorithm s = TPMT_SYM_DEF_OBJECT_algorithm x \<and> wire_TPMU_SYM_KEY_BITS (ucast (TPMT_SYM_DEF_OBJECT_algorithm x)) (TPMT_SYM_DEF_OBJECT_keyBits s) = wire_TPMU_SYM_KEY_BITS (ucast (TPMT_SYM_DEF_OBJECT_algorithm x)) (TPMT_SYM_DEF_OBJECT_keyBits x) \<and> wire_TPMU_SYM_MODE (ucast (TPMT_SYM_DEF_OBJECT_algorithm x)) (TPMT_SYM_DEF_OBJECT_mode s) = wire_TPMU_SYM_MODE (ucast (TPMT_SYM_DEF_OBJECT_algorithm x)) (TPMT_SYM_DEF_OBJECT_mode x)"], rule fetches_when_True, use False in simp, rule fetches_field_sel [where g = "ifapi_json_TPMU_SYM_MODE_deserialize J" and sel = "\<lambda>s. ucast (TPMT_SYM_DEF_OBJECT_algorithm s)", OF J _ json_TPMU_SYM_MODE [OF J e3 okm]], simp, simp add: wt_TPMT_SYM_DEF_OBJECT_def, simp add: wt_TPMT_SYM_DEF_OBJECT_def,
      rule fetches_Nil, simp add: wire_TPMT_SYM_DEF_OBJECT_def)
qed

lemma json_TPMI_ALG_RSA_SCHEME:
  assumes J: "json_world J V" and e: "encodes V (ifapi_json_TPMI_ALG_RSA_SCHEME_serialize J x) v"
  shows "decodes V (ifapi_json_TPMI_ALG_RSA_SCHEME_deserialize J) v (\<lambda>_. True) (\<lambda>y. y = x)"
proof -
  from e have x: "x \<in> set [TPM2_ALG_RSAES, TPM2_ALG_OAEP, TPM2_ALG_RSASSA, TPM2_ALG_RSAPSS, TPM2_ALG_NULL]" and p: "encodes V (ifapi_json_TPM2_ALG_ID_serialize J x) v"
    by (auto simp only: ifapi_json_TPMI_ALG_RSA_SCHEME_serialize_def encodes_CHECK_IN_LIST)
  have "decodes V (ifapi_json_TPM2_ALG_ID_deserialize J) v (\<lambda>_. True) (\<lambda>y. y = x)"
    by (rule json_TPM2_ALG_ID [OF J p]) (use x in auto)
  then show ?thesis using x unfolding ifapi_json_TPMI_ALG_RSA_SCHEME_deserialize_def by (intro decodes_SUBTYPE_FILTER) simp_all
qed

lemma json_TPMS_KEY_SCHEME_ECDH:
  assumes J: "json_world J V" and e: "encodes V (ifapi_json_TPMS_KEY_SCHEME_ECDH_serialize J (Some x)) v"
  shows "decodes V (ifapi_json_TPMS_KEY_SCHEME_ECDH_deserialize J) v wt_TPMS_SCHEME_HASH (\<lambda>y. wire_TPMS_SCHEME_HASH y = wire_TPMS_SCHEME_HASH x)"
  using json_TPMS_SCHEME_HASH [OF J] e unfolding ifapi_json_TPMS_KEY_SCHEME_ECDH_serialize_def ifapi_json_TPMS_KEY_SCHEME_ECDH_deserialize_def .

lemma json_TPMS_SIG_SCHEME_RSASSA:
  assumes J: "json_world J V" and e: "encodes V (ifapi_json_TPMS_SIG_SCHEME_RSASSA_serialize J (Some x)) v"
  shows "decodes V (ifapi_json_TPMS_SIG_SCHEME_RSASSA_deserialize J) v wt_TPMS_SCHEME_HASH (\<lambda>y. wire_TPMS_SCHEME_HASH y = wire_TPMS_SCHEME_HASH x)"
  using json_TPMS_SCHEME_HASH [OF J] e unfolding ifapi_json_TPMS_SIG_SCHEME_RSASSA_serialize_def ifapi_json_TPMS_SIG_SCHEME_RSASSA_deserialize_def .

lemma json_TPMS_SIG_SCHEME_RSAPSS:
  assumes J: "json_world J V" and e: "encodes V (ifapi_json_TPMS_SIG_SCHEME_RSAPSS_serialize J (Some x)) v"
  shows "decodes V (ifapi_json_TPMS_SIG_SCHEME_RSAPSS_deserialize J) v wt_TPMS_SCHEME_HASH (\<lambda>y. wire_TPMS_SCHEME_HASH y = wire_TPMS_SCHEME_HASH x)"
  using json_TPMS_SCHEME_HASH [OF J] e unfolding ifapi_json_TPMS_SIG_SCHEME_RSAPSS_serialize_def ifapi_json_TPMS_SIG_SCHEME_RSAPSS_deserialize_def .

lemma json_TPMS_SIG_SCHEME_ECDSA:
  assumes J: "json_world J V" and e: "encodes V (ifapi_json_TPMS_SIG_SCHEME_ECDSA_serialize J (Some x)) v"
  shows "decodes V (ifapi_json_TPMS_SIG_SCHEME_ECDSA_deserialize J) v wt_TPMS_SCHEME_HASH (\<lambda>y. wire_TPMS_SCHEME_HASH y = wire_TPMS_SCHEME_HASH x)"
  using json_TPMS_SCHEME_HASH [OF J] e unfolding ifapi_json_TPMS_SIG_SCHEME_ECDSA_serialize_def ifapi_json_TPMS_SIG_SCHEME_ECDSA_deserialize_def .

lemma json_TPMS_SCHEME_ECDAA:
  assumes J: "json_world J V" and e: "encodes V (ifapi_json_TPMS_SCHEME_ECDAA_serialize J (Some x)) v"
  shows "decodes V (ifapi_json_TPMS_SCHEME_ECDAA_deserialize J) v wt_TPMS_SCHEME_ECDAA (\<lambda>y. wire_TPMS_SCHEME_ECDAA y = wire_TPMS_SCHEME_ECDAA x)"
proof -
  obtain v1 v2 where v: "v = JObject [(''hashAlg'', v1), (''count'', v2)]"
    and e1: "encodes V (ifapi_json_TPMI_ALG_HASH_serialize J (TPMS_SCHEME_ECDAA_hashAlg x)) v1"
    and e2: "encodes V (ifapi_json_UINT16_serialize J (TPMS_SCHEME_ECDAA_count x)) v2"
  proof -
    from e have "encodes V (new_object_if_null J (object_fields J
       [(''hashAlg'', ifapi_json_TPMI_ALG_HASH_serialize J (TPMS_SCHEME_ECDAA_hashAlg x)),
        (''count'', ifapi_json_UINT16_serialize J (TPMS_SCHEME_ECDAA_count x))])) v"
      by (simp add: ifapi_json_TPMS_SCHEME_ECDAA_serialize_def)
    then show thesis by (rule encodes_object [OF J])
      (auto simp: list_all2_Cons1 encodes_bad_value intro: that)
  qed
  show ?thesis unfolding ifapi_json_TPMS_SCHEME_ECDAA_deserialize_def v
    by (rule decodes_out_not_null,
      rule fetches_Cons [where Q = "\<lambda>s. wt_TPMS_SCHEME_ECDAA s \<and> TPMS_SCHEME_ECDAA_hashAlg s = TPMS_SCHEME_ECDAA_hashAlg x"], rule fetches_field [OF J _ json_TPMI_ALG_HASH [OF J e1]], simp, simp add: wt_TPMS_SCHEME_ECDAA_def, simp add: wt_TPMS_SCHEME_ECDAA_def,
      rule fetches_Cons [where Q = "\<lambda>s. wt_TPMS_SCHEME_ECDAA s \<and> TPMS_SCHEME_ECDAA_hashAlg s = TPMS_SCHEME_ECDAA_hashAlg x \<and> TPMS_SCHEME_ECDAA_count s = TPMS_SCHEME_ECDAA_count x"], rule fetches_field [OF J _ json_UINT16 [OF J e2]], simp, simp add: wt_TPMS_SCHEME_ECDAA_def, simp add: wt_TPMS_SCHEME_ECDAA_def,
      rule fetches_Nil, simp add: wire_TPMS_SCHEME_ECDAA_def)
qed

lemma json_TPMS_SIG_SCHEME_ECDAA:
  assumes J: "json_world J V" and e: "encodes V (ifapi_json_TPMS_SIG_SCHEME_ECDAA_serialize J (Some x)) v"
  shows "decodes V (ifapi_json_TPMS_SIG_SCHEME_ECDAA_deserialize J) v wt_TPMS_SCHEME_ECDAA (\<lambda>y. wire_TPMS_SCHEME_ECDAA y = wire_TPMS_SCHEME_ECDAA x)"
  using json_TPMS_SCHEME_ECDAA [OF J] e unfolding ifapi_json_TPMS_SIG_SCHEME_ECDAA_serialize_def ifapi_json_TPMS_SIG_SCHEME_ECDAA_deserialize_def .

lemma json_TPMS_SIG_SCHEME_SM2:
  assumes J: "json_world J V" and e: "encodes V (ifapi_json_TPMS_SIG_SCHEME_SM2_serialize J (Some x)) v"
  shows "decodes V (ifapi_json_TPMS_SIG_SCHEME_SM2_deserialize J) v wt_TPMS_SCHEME_HASH (\<lambda>y. wire_TPMS_SCHEME_HASH y = wire_TPMS_SCHEME_HASH x)"
  using json_TPMS_SCHEME_HASH [OF J] e unfolding ifapi_json_TPMS_SIG_SCHEME_SM2_serialize_def ifapi_json_TPMS_SIG_SCHEME_SM2_deserialize_def .

lemma json_TPMS_SIG_SCHEME_ECSCHNORR:
  assumes J: "json_world J V" and e: "encodes V (ifapi_json_TPMS_SIG_SCHEME_ECSCHNORR_serialize J (Some x)) v"
  shows "decodes V (ifapi_json_TPMS_SIG_SCHEME_ECSCHNORR_deserialize J) v wt_TPMS_SCHEME_HASH (\<lambda>y. wire_TPMS_SCHEME_HASH y = wire_TPMS_SCHEME_HASH x)"
  using json_TPMS_SCHEME_HASH [OF J] e unfolding ifapi_json_TPMS_SIG_SCHEME_ECSCHNORR_serialize_def ifapi_json_TPMS_SIG_SCHEME_ECSCHNORR_deserialize_def .

lemma json_TPMS_ENC_SCHEME_OAEP:
  assumes J: "json_world J V" and e: "encodes V (ifapi_json_TPMS_ENC_SCHEME_OAEP_serialize J (Some x)) v"
  shows "decodes V (ifapi_json_TPMS_ENC_SCHEME_OAEP_deserialize J) v wt_TPMS_SCHEME_HASH (\<lambda>y. wire_TPMS_SCHEME_HASH y = wire_TPMS_SCHEME_HASH x)"
  using json_TPMS_SCHEME_HASH [OF J] e unfolding ifapi_json_TPMS_ENC_SCHEME_OAEP_serialize_def ifapi_json_TPMS_ENC_SCHEME_OAEP_deserialize_def .

lemma json_TPMU_ASYM_SCHEME:
  assumes J: "json_world J V" and e: "encodes V (ifapi_json_TPMU_ASYM_SCHEME_serialize J (Some u) k) v" and ok: "k \<noteq> ucast TPM2_ALG_RSAES" "k \<noteq> ucast TPM2_ALG_MLDSA"
  shows "decodes V (ifapi_json_TPMU_ASYM_SCHEME_deserialize J k) v wt_TPMU_ASYM_SCHEME (\<lambda>y. wire_TPMU_ASYM_SCHEME k y = wire_TPMU_ASYM_SCHEME k u)"
proof -
  from e ok consider (c0) x where "k = ucast TPM2_ALG_ECDH" "get_TPMU_ASYM_SCHEME_ecdh u = Some x" "encodes V (ifapi_json_TPMS_KEY_SCHEME_ECDH_serialize J (Some x)) v"
    | (c1) x where "k = ucast TPM2_ALG_RSASSA" "get_TPMU_ASYM_SCHEME_rsassa u = Some x" "encodes V (ifapi_json_TPMS_SIG_SCHEME_RSASSA_serialize J (Some x)) v"
    | (c2) x where "k = ucast TPM2_ALG_RSAPSS" "get_TPMU_ASYM_SCHEME_rsapss u = Some x" "encodes V (ifapi_json_TPMS_SIG_SCHEME_RSAPSS_serialize J (Some x)) v"
    | (c3) x where "k = ucast TPM2_ALG_ECDSA" "get_TPMU_ASYM_SCHEME_ecdsa u = Some x" "encodes V (ifapi_json_TPMS_SIG_SCHEME_ECDSA_serialize J (Some x)) v"
    | (c4) x where "k = ucast TPM2_ALG_ECDAA" "get_TPMU_ASYM_SCHEME_ecdaa u = Some x" "encodes V (ifapi_json_TPMS_SIG_SCHEME_ECDAA_serialize J (Some x)) v"
    | (c5) x where "k = ucast TPM2_ALG_SM2" "get_TPMU_ASYM_SCHEME_sm2 u = Some x" "encodes V (ifapi_json_TPMS_SIG_SCHEME_SM2_serialize J (Some x)) v"
    | (c6) x where "k = ucast TPM2_ALG_ECSCHNORR" "get_TPMU_ASYM_SCHEME_ecschnorr u = Some x" "encodes V (ifapi_json_TPMS_SIG_SCHEME_ECSCHNORR_serialize J (Some x)) v"
    | (c7) x where "k = ucast TPM2_ALG_OAEP" "get_TPMU_ASYM_SCHEME_oaep u = Some x" "encodes V (ifapi_json_TPMS_ENC_SCHEME_OAEP_serialize J (Some x)) v"
    by (auto simp: ifapi_json_TPMU_ASYM_SCHEME_serialize_def encodes_union_switch encodes_union_member split: if_splits)
  then show ?thesis
  proof cases
    case c0
    have u: "u = TPMU_ASYM_SCHEME_ecdh x" using c0(2) by simp
    show ?thesis unfolding ifapi_json_TPMU_ASYM_SCHEME_deserialize_def c0(1) u
      by (rule decodes_switch, simp, rule decodes_member [OF json_TPMS_KEY_SCHEME_ECDH [OF J c0(3)]])
        (auto simp: union_wire spec_TPMU_ASYM_SCHEME_def get_TPMU_ASYM_SCHEME [THEN iffD2, OF refl])
  next
    case c1
    have u: "u = TPMU_ASYM_SCHEME_rsassa x" using c1(2) by simp
    show ?thesis unfolding ifapi_json_TPMU_ASYM_SCHEME_deserialize_def c1(1) u
      by (rule decodes_switch, simp, rule decodes_member [OF json_TPMS_SIG_SCHEME_RSASSA [OF J c1(3)]])
        (auto simp: union_wire spec_TPMU_ASYM_SCHEME_def get_TPMU_ASYM_SCHEME [THEN iffD2, OF refl])
  next
    case c2
    have u: "u = TPMU_ASYM_SCHEME_rsapss x" using c2(2) by simp
    show ?thesis unfolding ifapi_json_TPMU_ASYM_SCHEME_deserialize_def c2(1) u
      by (rule decodes_switch, simp, rule decodes_member [OF json_TPMS_SIG_SCHEME_RSAPSS [OF J c2(3)]])
        (auto simp: union_wire spec_TPMU_ASYM_SCHEME_def get_TPMU_ASYM_SCHEME [THEN iffD2, OF refl])
  next
    case c3
    have u: "u = TPMU_ASYM_SCHEME_ecdsa x" using c3(2) by simp
    show ?thesis unfolding ifapi_json_TPMU_ASYM_SCHEME_deserialize_def c3(1) u
      by (rule decodes_switch, simp, rule decodes_member [OF json_TPMS_SIG_SCHEME_ECDSA [OF J c3(3)]])
        (auto simp: union_wire spec_TPMU_ASYM_SCHEME_def get_TPMU_ASYM_SCHEME [THEN iffD2, OF refl])
  next
    case c4
    have u: "u = TPMU_ASYM_SCHEME_ecdaa x" using c4(2) by simp
    show ?thesis unfolding ifapi_json_TPMU_ASYM_SCHEME_deserialize_def c4(1) u
      by (rule decodes_switch, simp, rule decodes_member [OF json_TPMS_SIG_SCHEME_ECDAA [OF J c4(3)]])
        (auto simp: union_wire spec_TPMU_ASYM_SCHEME_def get_TPMU_ASYM_SCHEME [THEN iffD2, OF refl])
  next
    case c5
    have u: "u = TPMU_ASYM_SCHEME_sm2 x" using c5(2) by simp
    show ?thesis unfolding ifapi_json_TPMU_ASYM_SCHEME_deserialize_def c5(1) u
      by (rule decodes_switch, simp, rule decodes_member [OF json_TPMS_SIG_SCHEME_SM2 [OF J c5(3)]])
        (auto simp: union_wire spec_TPMU_ASYM_SCHEME_def get_TPMU_ASYM_SCHEME [THEN iffD2, OF refl])
  next
    case c6
    have u: "u = TPMU_ASYM_SCHEME_ecschnorr x" using c6(2) by simp
    show ?thesis unfolding ifapi_json_TPMU_ASYM_SCHEME_deserialize_def c6(1) u
      by (rule decodes_switch, simp, rule decodes_member [OF json_TPMS_SIG_SCHEME_ECSCHNORR [OF J c6(3)]])
        (auto simp: union_wire spec_TPMU_ASYM_SCHEME_def get_TPMU_ASYM_SCHEME [THEN iffD2, OF refl])
  next
    case c7
    have u: "u = TPMU_ASYM_SCHEME_oaep x" using c7(2) by simp
    show ?thesis unfolding ifapi_json_TPMU_ASYM_SCHEME_deserialize_def c7(1) u
      by (rule decodes_switch, simp, rule decodes_member [OF json_TPMS_ENC_SCHEME_OAEP [OF J c7(3)]])
        (auto simp: union_wire spec_TPMU_ASYM_SCHEME_def get_TPMU_ASYM_SCHEME [THEN iffD2, OF refl])
  qed
qed

lemma json_TPMT_RSA_SCHEME:
  assumes J: "json_world J V" and e: "encodes V (ifapi_json_TPMT_RSA_SCHEME_serialize J (Some x)) v" and ok: "TPMT_RSA_SCHEME_scheme x \<noteq> TPM2_ALG_RSAES"
  shows "decodes V (ifapi_json_TPMT_RSA_SCHEME_deserialize J) v wt_TPMT_RSA_SCHEME (\<lambda>y. wire_TPMT_RSA_SCHEME y = wire_TPMT_RSA_SCHEME x)"
proof (cases "TPMT_RSA_SCHEME_scheme x = TPM2_ALG_NULL")
  case True
  obtain v1 where v: "v = JObject [(''scheme'', v1)]"
    and e1: "encodes V (ifapi_json_TPMI_ALG_RSA_SCHEME_serialize J (TPMT_RSA_SCHEME_scheme x)) v1"
  proof -
    from e True have "encodes V (new_object_if_null J (object_fields J
       [(''scheme'', ifapi_json_TPMI_ALG_RSA_SCHEME_serialize J (TPMT_RSA_SCHEME_scheme x))])) v"
      by (simp add: ifapi_json_TPMT_RSA_SCHEME_serialize_def)
    then show thesis by (rule encodes_object [OF J])
      (auto simp: list_all2_Cons1 encodes_bad_value intro: that)
  qed
  show ?thesis unfolding ifapi_json_TPMT_RSA_SCHEME_deserialize_def v
    by (rule decodes_out_not_null,
      rule fetches_Cons [where Q = "\<lambda>s. wt_TPMT_RSA_SCHEME s \<and> TPMT_RSA_SCHEME_scheme s = TPMT_RSA_SCHEME_scheme x"], rule fetches_field [OF J _ json_TPMI_ALG_RSA_SCHEME [OF J e1]], simp, simp add: wt_TPMT_RSA_SCHEME_def, simp add: wt_TPMT_RSA_SCHEME_def,
      rule fetches_Cons [where Q = "\<lambda>s. wt_TPMT_RSA_SCHEME s \<and> TPMT_RSA_SCHEME_scheme s = TPMT_RSA_SCHEME_scheme x"], rule fetches_when_False, use True in simp,
      rule fetches_Nil, use True in \<open>simp add: wire_TPMT_RSA_SCHEME_def union_wire spec_TPMU_ASYM_SCHEME_def\<close>)
next
  case False
  obtain v1 v2 where v: "v = JObject [(''scheme'', v1), (''details'', v2)]"
    and e1: "encodes V (ifapi_json_TPMI_ALG_RSA_SCHEME_serialize J (TPMT_RSA_SCHEME_scheme x)) v1"
    and e2: "encodes V (ifapi_json_TPMU_ASYM_SCHEME_serialize J (Some (TPMT_RSA_SCHEME_details x)) (ucast (TPMT_RSA_SCHEME_scheme x))) v2"
  proof -
    from e False have "encodes V (new_object_if_null J (object_fields J
       [(''scheme'', ifapi_json_TPMI_ALG_RSA_SCHEME_serialize J (TPMT_RSA_SCHEME_scheme x)),
        (''details'', ifapi_json_TPMU_ASYM_SCHEME_serialize J (Some (TPMT_RSA_SCHEME_details x)) (ucast (TPMT_RSA_SCHEME_scheme x)))])) v"
      by (simp add: ifapi_json_TPMT_RSA_SCHEME_serialize_def)
    then show thesis by (rule encodes_object [OF J])
      (auto simp: list_all2_Cons1 encodes_bad_value intro: that)
  qed
  have okd: "ucast (TPMT_RSA_SCHEME_scheme x) \<noteq> (ucast TPM2_ALG_RSAES :: UINT32)" "ucast (TPMT_RSA_SCHEME_scheme x) \<noteq> (ucast TPM2_ALG_MLDSA :: UINT32)"
    using e1 ok by (auto simp: ifapi_json_TPMI_ALG_RSA_SCHEME_serialize_def encodes_CHECK_IN_LIST)
  show ?thesis unfolding ifapi_json_TPMT_RSA_SCHEME_deserialize_def v
    by (rule decodes_out_not_null,
      rule fetches_Cons [where Q = "\<lambda>s. wt_TPMT_RSA_SCHEME s \<and> TPMT_RSA_SCHEME_scheme s = TPMT_RSA_SCHEME_scheme x"], rule fetches_field [OF J _ json_TPMI_ALG_RSA_SCHEME [OF J e1]], simp, simp add: wt_TPMT_RSA_SCHEME_def, simp add: wt_TPMT_RSA_SCHEME_def,
      rule fetches_Cons [where Q = "\<lambda>s. wt_TPMT_RSA_SCHEME s \<and> TPMT_RSA_SCHEME_scheme s = TPMT_RSA_SCHEME_scheme x \<and> wire_TPMU_ASYM_SCHEME (ucast (TPMT_RSA_SCHEME_scheme x)) (TPMT_RSA_SCHEME_details s) = wire_TPMU_ASYM_SCHEME (ucast (TPMT_RSA_SCHEME_scheme x)) (TPMT_RSA_SCHEME_details x)"], rule fetches_when_True, use False in simp, rule fetches_field_sel [where g = "ifapi_json_TPMU_ASYM_SCHEME_deserialize J" and sel = "\<lambda>s. ucast (TPMT_RSA_SCHEME_scheme s)", OF J _ json_TPMU_ASYM_SCHEME [OF J e2 okd]], simp, simp add: wt_TPMT_RSA_SCHEME_def, simp add: wt_TPMT_RSA_SCHEME_def,
      rule fetches_Nil, simp add: wire_TPMT_RSA_SCHEME_def)
qed

lemma json_TPMI_RSA_KEY_BITS:
  assumes J: "json_world J V" and e: "encodes V (ifapi_json_TPMI_RSA_KEY_BITS_serialize J x) v"
  shows "decodes V (ifapi_json_TPMI_RSA_KEY_BITS_deserialize J) v (\<lambda>_. True) (\<lambda>y. y = x)"
proof -
  from e have x: "x \<in> set [1024, 2048, 3072, 4096]" and p: "encodes V (ifapi_json_UINT16_serialize J x) v"
    by (auto simp only: ifapi_json_TPMI_RSA_KEY_BITS_serialize_def encodes_CHECK_IN_LIST)
  have "decodes V (ifapi_json_UINT16_deserialize J) v (\<lambda>_. True) (\<lambda>y. y = x)"
    by (rule json_UINT16 [OF J p])
  then show ?thesis using x unfolding ifapi_json_TPMI_RSA_KEY_BITS_deserialize_def by (intro decodes_SUBTYPE_FILTER) simp_all
qed

lemma json_TPMS_RSA_PARMS:
  assumes J: "json_world J V" and e: "encodes V (ifapi_json_TPMS_RSA_PARMS_serialize J (Some x)) v" and ok: "valid_TPMS_RSA_PARMS x" "TPMT_RSA_SCHEME_scheme (TPMS_RSA_PARMS_scheme x) \<noteq> TPM2_ALG_RSAES"
  shows "decodes V (ifapi_json_TPMS_RSA_PARMS_deserialize J) v wt_TPMS_RSA_PARMS (\<lambda>y. wire_TPMS_RSA_PARMS y = wire_TPMS_RSA_PARMS x)"
proof -
  have oks: "valid_TPMT_SYM_DEF_OBJECT (TPMS_RSA_PARMS_symmetric x)"
    using ok(1) by (simp add: valid_TPMS_RSA_PARMS_def)
  obtain v1 v2 v3 v4 where v: "v = JObject [(''symmetric'', v1), (''scheme'', v2), (''keyBits'', v3), (''exponent'', v4)]"
    and e1: "encodes V (ifapi_json_TPMT_SYM_DEF_OBJECT_serialize J (Some (TPMS_RSA_PARMS_symmetric x))) v1"
    and e2: "encodes V (ifapi_json_TPMT_RSA_SCHEME_serialize J (Some (TPMS_RSA_PARMS_scheme x))) v2"
    and e3: "encodes V (ifapi_json_TPMI_RSA_KEY_BITS_serialize J (TPMS_RSA_PARMS_keyBits x)) v3"
    and e4: "encodes V (ifapi_json_UINT32_serialize J (TPMS_RSA_PARMS_exponent x)) v4"
  proof -
    from e have "encodes V (new_object_if_null J (object_fields J
       [(''symmetric'', ifapi_json_TPMT_SYM_DEF_OBJECT_serialize J (Some (TPMS_RSA_PARMS_symmetric x))),
        (''scheme'', ifapi_json_TPMT_RSA_SCHEME_serialize J (Some (TPMS_RSA_PARMS_scheme x))),
        (''keyBits'', ifapi_json_TPMI_RSA_KEY_BITS_serialize J (TPMS_RSA_PARMS_keyBits x)),
        (''exponent'', ifapi_json_UINT32_serialize J (TPMS_RSA_PARMS_exponent x))])) v"
      by (simp add: ifapi_json_TPMS_RSA_PARMS_serialize_def)
    then show thesis by (rule encodes_object [OF J])
      (auto simp: list_all2_Cons1 encodes_bad_value intro: that)
  qed
  show ?thesis unfolding ifapi_json_TPMS_RSA_PARMS_deserialize_def v
    by (rule decodes_out_not_null,
      rule fetches_Cons [where Q = "\<lambda>s. wt_TPMS_RSA_PARMS s \<and> wire_TPMT_SYM_DEF_OBJECT (TPMS_RSA_PARMS_symmetric s) = wire_TPMT_SYM_DEF_OBJECT (TPMS_RSA_PARMS_symmetric x)"], rule fetches_field [OF J _ json_TPMT_SYM_DEF_OBJECT [OF J e1 oks]], simp, simp add: wt_TPMS_RSA_PARMS_def, simp add: wt_TPMS_RSA_PARMS_def,
      rule fetches_Cons [where Q = "\<lambda>s. wt_TPMS_RSA_PARMS s \<and> wire_TPMT_SYM_DEF_OBJECT (TPMS_RSA_PARMS_symmetric s) = wire_TPMT_SYM_DEF_OBJECT (TPMS_RSA_PARMS_symmetric x) \<and> wire_TPMT_RSA_SCHEME (TPMS_RSA_PARMS_scheme s) = wire_TPMT_RSA_SCHEME (TPMS_RSA_PARMS_scheme x)"], rule fetches_field [OF J _ json_TPMT_RSA_SCHEME [OF J e2 ok(2)]], simp, simp add: wt_TPMS_RSA_PARMS_def, simp add: wt_TPMS_RSA_PARMS_def,
      rule fetches_Cons [where Q = "\<lambda>s. wt_TPMS_RSA_PARMS s \<and> wire_TPMT_SYM_DEF_OBJECT (TPMS_RSA_PARMS_symmetric s) = wire_TPMT_SYM_DEF_OBJECT (TPMS_RSA_PARMS_symmetric x) \<and> wire_TPMT_RSA_SCHEME (TPMS_RSA_PARMS_scheme s) = wire_TPMT_RSA_SCHEME (TPMS_RSA_PARMS_scheme x) \<and> TPMS_RSA_PARMS_keyBits s = TPMS_RSA_PARMS_keyBits x"], rule fetches_field [OF J _ json_TPMI_RSA_KEY_BITS [OF J e3]], simp, simp add: wt_TPMS_RSA_PARMS_def, simp add: wt_TPMS_RSA_PARMS_def,
      rule fetches_Cons [where Q = "\<lambda>s. wt_TPMS_RSA_PARMS s \<and> wire_TPMT_SYM_DEF_OBJECT (TPMS_RSA_PARMS_symmetric s) = wire_TPMT_SYM_DEF_OBJECT (TPMS_RSA_PARMS_symmetric x) \<and> wire_TPMT_RSA_SCHEME (TPMS_RSA_PARMS_scheme s) = wire_TPMT_RSA_SCHEME (TPMS_RSA_PARMS_scheme x) \<and> TPMS_RSA_PARMS_keyBits s = TPMS_RSA_PARMS_keyBits x \<and> TPMS_RSA_PARMS_exponent s = TPMS_RSA_PARMS_exponent x"], rule fetches_field [OF J _ json_UINT32 [OF J e4]], simp, simp add: wt_TPMS_RSA_PARMS_def, simp add: wt_TPMS_RSA_PARMS_def,
      rule fetches_Nil, simp add: wire_TPMS_RSA_PARMS_def)
qed

lemma json_TPMI_ALG_ECC_SCHEME:
  assumes J: "json_world J V" and e: "encodes V (ifapi_json_TPMI_ALG_ECC_SCHEME_serialize J x) v"
  shows "decodes V (ifapi_json_TPMI_ALG_ECC_SCHEME_deserialize J) v (\<lambda>_. True) (\<lambda>y. y = x)"
proof -
  from e have x: "x \<in> set [TPM2_ALG_ECDSA, TPM2_ALG_ECDAA, TPM2_ALG_SM2, TPM2_ALG_ECSCHNORR, TPM2_ALG_ECDH, TPM2_ALG_NULL]" and p: "encodes V (ifapi_json_TPM2_ALG_ID_serialize J x) v"
    by (auto simp only: ifapi_json_TPMI_ALG_ECC_SCHEME_serialize_def encodes_CHECK_IN_LIST)
  have "decodes V (ifapi_json_TPM2_ALG_ID_deserialize J) v (\<lambda>_. True) (\<lambda>y. y = x)"
    by (rule json_TPM2_ALG_ID [OF J p]) (use x in auto)
  then show ?thesis using x unfolding ifapi_json_TPMI_ALG_ECC_SCHEME_deserialize_def by (intro decodes_SUBTYPE_FILTER) simp_all
qed

lemma json_TPMT_ECC_SCHEME:
  assumes J: "json_world J V" and e: "encodes V (ifapi_json_TPMT_ECC_SCHEME_serialize J (Some x)) v"
  shows "decodes V (ifapi_json_TPMT_ECC_SCHEME_deserialize J) v wt_TPMT_ECC_SCHEME (\<lambda>y. wire_TPMT_ECC_SCHEME y = wire_TPMT_ECC_SCHEME x)"
proof (cases "TPMT_ECC_SCHEME_scheme x = TPM2_ALG_NULL")
  case True
  obtain v1 where v: "v = JObject [(''scheme'', v1)]"
    and e1: "encodes V (ifapi_json_TPMI_ALG_ECC_SCHEME_serialize J (TPMT_ECC_SCHEME_scheme x)) v1"
  proof -
    from e True have "encodes V (new_object_if_null J (object_fields J
       [(''scheme'', ifapi_json_TPMI_ALG_ECC_SCHEME_serialize J (TPMT_ECC_SCHEME_scheme x))])) v"
      by (simp add: ifapi_json_TPMT_ECC_SCHEME_serialize_def)
    then show thesis by (rule encodes_object [OF J])
      (auto simp: list_all2_Cons1 encodes_bad_value intro: that)
  qed
  show ?thesis unfolding ifapi_json_TPMT_ECC_SCHEME_deserialize_def v
    by (rule decodes_out_not_null,
      rule fetches_Cons [where Q = "\<lambda>s. wt_TPMT_ECC_SCHEME s \<and> TPMT_ECC_SCHEME_scheme s = TPMT_ECC_SCHEME_scheme x"], rule fetches_field [OF J _ json_TPMI_ALG_ECC_SCHEME [OF J e1]], simp, simp add: wt_TPMT_ECC_SCHEME_def, simp add: wt_TPMT_ECC_SCHEME_def,
      rule fetches_Cons [where Q = "\<lambda>s. wt_TPMT_ECC_SCHEME s \<and> TPMT_ECC_SCHEME_scheme s = TPMT_ECC_SCHEME_scheme x"], rule fetches_when_False, use True in simp,
      rule fetches_Nil, use True in \<open>simp add: wire_TPMT_ECC_SCHEME_def union_wire spec_TPMU_ASYM_SCHEME_def\<close>)
next
  case False
  obtain v1 v2 where v: "v = JObject [(''scheme'', v1), (''details'', v2)]"
    and e1: "encodes V (ifapi_json_TPMI_ALG_ECC_SCHEME_serialize J (TPMT_ECC_SCHEME_scheme x)) v1"
    and e2: "encodes V (ifapi_json_TPMU_ASYM_SCHEME_serialize J (Some (TPMT_ECC_SCHEME_details x)) (ucast (TPMT_ECC_SCHEME_scheme x))) v2"
  proof -
    from e False have "encodes V (new_object_if_null J (object_fields J
       [(''scheme'', ifapi_json_TPMI_ALG_ECC_SCHEME_serialize J (TPMT_ECC_SCHEME_scheme x)),
        (''details'', ifapi_json_TPMU_ASYM_SCHEME_serialize J (Some (TPMT_ECC_SCHEME_details x)) (ucast (TPMT_ECC_SCHEME_scheme x)))])) v"
      by (simp add: ifapi_json_TPMT_ECC_SCHEME_serialize_def)
    then show thesis by (rule encodes_object [OF J])
      (auto simp: list_all2_Cons1 encodes_bad_value intro: that)
  qed
  have okd: "ucast (TPMT_ECC_SCHEME_scheme x) \<noteq> (ucast TPM2_ALG_RSAES :: UINT32)" "ucast (TPMT_ECC_SCHEME_scheme x) \<noteq> (ucast TPM2_ALG_MLDSA :: UINT32)"
    using e1 by (auto simp: ifapi_json_TPMI_ALG_ECC_SCHEME_serialize_def encodes_CHECK_IN_LIST)
  show ?thesis unfolding ifapi_json_TPMT_ECC_SCHEME_deserialize_def v
    by (rule decodes_out_not_null,
      rule fetches_Cons [where Q = "\<lambda>s. wt_TPMT_ECC_SCHEME s \<and> TPMT_ECC_SCHEME_scheme s = TPMT_ECC_SCHEME_scheme x"], rule fetches_field [OF J _ json_TPMI_ALG_ECC_SCHEME [OF J e1]], simp, simp add: wt_TPMT_ECC_SCHEME_def, simp add: wt_TPMT_ECC_SCHEME_def,
      rule fetches_Cons [where Q = "\<lambda>s. wt_TPMT_ECC_SCHEME s \<and> TPMT_ECC_SCHEME_scheme s = TPMT_ECC_SCHEME_scheme x \<and> wire_TPMU_ASYM_SCHEME (ucast (TPMT_ECC_SCHEME_scheme x)) (TPMT_ECC_SCHEME_details s) = wire_TPMU_ASYM_SCHEME (ucast (TPMT_ECC_SCHEME_scheme x)) (TPMT_ECC_SCHEME_details x)"], rule fetches_when_True, use False in simp, rule fetches_field_sel [where g = "ifapi_json_TPMU_ASYM_SCHEME_deserialize J" and sel = "\<lambda>s. ucast (TPMT_ECC_SCHEME_scheme s)", OF J _ json_TPMU_ASYM_SCHEME [OF J e2 okd]], simp, simp add: wt_TPMT_ECC_SCHEME_def, simp add: wt_TPMT_ECC_SCHEME_def,
      rule fetches_Nil, simp add: wire_TPMT_ECC_SCHEME_def)
qed

lemma json_TPMS_SCHEME_MGF1:
  assumes J: "json_world J V" and e: "encodes V (ifapi_json_TPMS_SCHEME_MGF1_serialize J (Some x)) v"
  shows "decodes V (ifapi_json_TPMS_SCHEME_MGF1_deserialize J) v wt_TPMS_SCHEME_HASH (\<lambda>y. wire_TPMS_SCHEME_HASH y = wire_TPMS_SCHEME_HASH x)"
  using json_TPMS_SCHEME_HASH [OF J] e unfolding ifapi_json_TPMS_SCHEME_MGF1_serialize_def ifapi_json_TPMS_SCHEME_MGF1_deserialize_def .

lemma json_TPMS_SCHEME_KDF1_SP800_56A:
  assumes J: "json_world J V" and e: "encodes V (ifapi_json_TPMS_SCHEME_KDF1_SP800_56A_serialize J (Some x)) v"
  shows "decodes V (ifapi_json_TPMS_SCHEME_KDF1_SP800_56A_deserialize J) v wt_TPMS_SCHEME_HASH (\<lambda>y. wire_TPMS_SCHEME_HASH y = wire_TPMS_SCHEME_HASH x)"
  using json_TPMS_SCHEME_HASH [OF J] e unfolding ifapi_json_TPMS_SCHEME_KDF1_SP800_56A_serialize_def ifapi_json_TPMS_SCHEME_KDF1_SP800_56A_deserialize_def .

lemma json_TPMS_SCHEME_KDF1_SP800_108:
  assumes J: "json_world J V" and e: "encodes V (ifapi_json_TPMS_SCHEME_KDF1_SP800_108_serialize J (Some x)) v"
  shows "decodes V (ifapi_json_TPMS_SCHEME_KDF1_SP800_108_deserialize J) v wt_TPMS_SCHEME_HASH (\<lambda>y. wire_TPMS_SCHEME_HASH y = wire_TPMS_SCHEME_HASH x)"
  using json_TPMS_SCHEME_HASH [OF J] e unfolding ifapi_json_TPMS_SCHEME_KDF1_SP800_108_serialize_def ifapi_json_TPMS_SCHEME_KDF1_SP800_108_deserialize_def .

lemma json_TPMU_KDF_SCHEME:
  assumes J: "json_world J V" and e: "encodes V (ifapi_json_TPMU_KDF_SCHEME_serialize J (Some u) k) v"
  shows "decodes V (ifapi_json_TPMU_KDF_SCHEME_deserialize J k) v wt_TPMU_KDF_SCHEME (\<lambda>y. wire_TPMU_KDF_SCHEME k y = wire_TPMU_KDF_SCHEME k u)"
proof -
  from e consider (c0) x where "k = ucast TPM2_ALG_MGF1" "get_TPMU_KDF_SCHEME_mgf1 u = Some x" "encodes V (ifapi_json_TPMS_SCHEME_MGF1_serialize J (Some x)) v"
    | (c1) x where "k = ucast TPM2_ALG_KDF1_SP800_56A" "get_TPMU_KDF_SCHEME_kdf1_sp800_56a u = Some x" "encodes V (ifapi_json_TPMS_SCHEME_KDF1_SP800_56A_serialize J (Some x)) v"
    | (c2) x where "k = ucast TPM2_ALG_KDF1_SP800_108" "get_TPMU_KDF_SCHEME_kdf1_sp800_108 u = Some x" "encodes V (ifapi_json_TPMS_SCHEME_KDF1_SP800_108_serialize J (Some x)) v"
    by (auto simp: ifapi_json_TPMU_KDF_SCHEME_serialize_def encodes_union_switch encodes_union_member split: if_splits)
  then show ?thesis
  proof cases
    case c0
    have u: "u = TPMU_KDF_SCHEME_mgf1 x" using c0(2) by simp
    show ?thesis unfolding ifapi_json_TPMU_KDF_SCHEME_deserialize_def c0(1) u
      by (rule decodes_switch, simp, rule decodes_member [OF json_TPMS_SCHEME_MGF1 [OF J c0(3)]])
        (auto simp: union_wire spec_TPMU_KDF_SCHEME_def get_TPMU_KDF_SCHEME [THEN iffD2, OF refl])
  next
    case c1
    have u: "u = TPMU_KDF_SCHEME_kdf1_sp800_56a x" using c1(2) by simp
    show ?thesis unfolding ifapi_json_TPMU_KDF_SCHEME_deserialize_def c1(1) u
      by (rule decodes_switch, simp, rule decodes_member [OF json_TPMS_SCHEME_KDF1_SP800_56A [OF J c1(3)]])
        (auto simp: union_wire spec_TPMU_KDF_SCHEME_def get_TPMU_KDF_SCHEME [THEN iffD2, OF refl])
  next
    case c2
    have u: "u = TPMU_KDF_SCHEME_kdf1_sp800_108 x" using c2(2) by simp
    show ?thesis unfolding ifapi_json_TPMU_KDF_SCHEME_deserialize_def c2(1) u
      by (rule decodes_switch, simp, rule decodes_member [OF json_TPMS_SCHEME_KDF1_SP800_108 [OF J c2(3)]])
        (auto simp: union_wire spec_TPMU_KDF_SCHEME_def get_TPMU_KDF_SCHEME [THEN iffD2, OF refl])
  qed
qed

lemma json_TPMT_KDF_SCHEME:
  assumes J: "json_world J V" and e: "encodes V (ifapi_json_TPMT_KDF_SCHEME_serialize J (Some x)) v"
  shows "decodes V (ifapi_json_TPMT_KDF_SCHEME_deserialize J) v wt_TPMT_KDF_SCHEME (\<lambda>y. wire_TPMT_KDF_SCHEME y = wire_TPMT_KDF_SCHEME x)"
proof (cases "TPMT_KDF_SCHEME_scheme x = TPM2_ALG_NULL")
  case True
  obtain v1 where v: "v = JObject [(''scheme'', v1)]"
    and e1: "encodes V (ifapi_json_TPMI_ALG_KDF_serialize J (TPMT_KDF_SCHEME_scheme x)) v1"
  proof -
    from e True have "encodes V (new_object_if_null J (object_fields J
       [(''scheme'', ifapi_json_TPMI_ALG_KDF_serialize J (TPMT_KDF_SCHEME_scheme x))])) v"
      by (simp add: ifapi_json_TPMT_KDF_SCHEME_serialize_def)
    then show thesis by (rule encodes_object [OF J])
      (auto simp: list_all2_Cons1 encodes_bad_value intro: that)
  qed
  show ?thesis unfolding ifapi_json_TPMT_KDF_SCHEME_deserialize_def v
    by (rule decodes_out_not_null,
      rule fetches_Cons [where Q = "\<lambda>s. wt_TPMT_KDF_SCHEME s \<and> TPMT_KDF_SCHEME_scheme s = TPMT_KDF_SCHEME_scheme x"], rule fetches_field [OF J _ json_TPMI_ALG_KDF [OF J e1]], simp, simp add: wt_TPMT_KDF_SCHEME_def, simp add: wt_TPMT_KDF_SCHEME_def,
      rule fetches_Cons [where Q = "\<lambda>s. wt_TPMT_KDF_SCHEME s \<and> TPMT_KDF_SCHEME_scheme s = TPMT_KDF_SCHEME_scheme x"], rule fetches_when_False, use True in simp,
      rule fetches_Nil, use True in \<open>simp add: wire_TPMT_KDF_SCHEME_def union_wire spec_TPMU_KDF_SCHEME_def\<close>)
next
  case False
  obtain v1 v2 where v: "v = JObject [(''scheme'', v1), (''details'', v2)]"
    and e1: "encodes V (ifapi_json_TPMI_ALG_KDF_serialize J (TPMT_KDF_SCHEME_scheme x)) v1"
    and e2: "encodes V (ifapi_json_TPMU_KDF_SCHEME_serialize J (Some (TPMT_KDF_SCHEME_details x)) (ucast (TPMT_KDF_SCHEME_scheme x))) v2"
  proof -
    from e False have "encodes V (new_object_if_null J (object_fields J
       [(''scheme'', ifapi_json_TPMI_ALG_KDF_serialize J (TPMT_KDF_SCHEME_scheme x)),
        (''details'', ifapi_json_TPMU_KDF_SCHEME_serialize J (Some (TPMT_KDF_SCHEME_details x)) (ucast (TPMT_KDF_SCHEME_scheme x)))])) v"
      by (simp add: ifapi_json_TPMT_KDF_SCHEME_serialize_def)
    then show thesis by (rule encodes_object [OF J])
      (auto simp: list_all2_Cons1 encodes_bad_value intro: that)
  qed
  show ?thesis unfolding ifapi_json_TPMT_KDF_SCHEME_deserialize_def v
    by (rule decodes_out_not_null,
      rule fetches_Cons [where Q = "\<lambda>s. wt_TPMT_KDF_SCHEME s \<and> TPMT_KDF_SCHEME_scheme s = TPMT_KDF_SCHEME_scheme x"], rule fetches_field [OF J _ json_TPMI_ALG_KDF [OF J e1]], simp, simp add: wt_TPMT_KDF_SCHEME_def, simp add: wt_TPMT_KDF_SCHEME_def,
      rule fetches_Cons [where Q = "\<lambda>s. wt_TPMT_KDF_SCHEME s \<and> TPMT_KDF_SCHEME_scheme s = TPMT_KDF_SCHEME_scheme x \<and> wire_TPMU_KDF_SCHEME (ucast (TPMT_KDF_SCHEME_scheme x)) (TPMT_KDF_SCHEME_details s) = wire_TPMU_KDF_SCHEME (ucast (TPMT_KDF_SCHEME_scheme x)) (TPMT_KDF_SCHEME_details x)"], rule fetches_when_True, use False in simp, rule fetches_field_sel [where g = "ifapi_json_TPMU_KDF_SCHEME_deserialize J" and sel = "\<lambda>s. ucast (TPMT_KDF_SCHEME_scheme s)", OF J _ json_TPMU_KDF_SCHEME [OF J e2]], simp, simp add: wt_TPMT_KDF_SCHEME_def, simp add: wt_TPMT_KDF_SCHEME_def,
      rule fetches_Nil, simp add: wire_TPMT_KDF_SCHEME_def)
qed

lemma json_TPMS_ECC_PARMS:
  assumes J: "json_world J V" and e: "encodes V (ifapi_json_TPMS_ECC_PARMS_serialize J (Some x)) v" and ok: "valid_TPMS_ECC_PARMS x"
  shows "decodes V (ifapi_json_TPMS_ECC_PARMS_deserialize J) v wt_TPMS_ECC_PARMS (\<lambda>y. wire_TPMS_ECC_PARMS y = wire_TPMS_ECC_PARMS x)"
proof -
  have oks: "valid_TPMT_SYM_DEF_OBJECT (TPMS_ECC_PARMS_symmetric x)"
    using ok by (simp add: valid_TPMS_ECC_PARMS_def)
  obtain v1 v2 v3 v4 where v: "v = JObject [(''symmetric'', v1), (''scheme'', v2), (''curveID'', v3), (''kdf'', v4)]"
    and e1: "encodes V (ifapi_json_TPMT_SYM_DEF_OBJECT_serialize J (Some (TPMS_ECC_PARMS_symmetric x))) v1"
    and e2: "encodes V (ifapi_json_TPMT_ECC_SCHEME_serialize J (Some (TPMS_ECC_PARMS_scheme x))) v2"
    and e3: "encodes V (ifapi_json_TPMI_ECC_CURVE_serialize J (TPMS_ECC_PARMS_curveID x)) v3"
    and e4: "encodes V (ifapi_json_TPMT_KDF_SCHEME_serialize J (Some (TPMS_ECC_PARMS_kdf x))) v4"
  proof -
    from e have "encodes V (new_object_if_null J (object_fields J
       [(''symmetric'', ifapi_json_TPMT_SYM_DEF_OBJECT_serialize J (Some (TPMS_ECC_PARMS_symmetric x))),
        (''scheme'', ifapi_json_TPMT_ECC_SCHEME_serialize J (Some (TPMS_ECC_PARMS_scheme x))),
        (''curveID'', ifapi_json_TPMI_ECC_CURVE_serialize J (TPMS_ECC_PARMS_curveID x)),
        (''kdf'', ifapi_json_TPMT_KDF_SCHEME_serialize J (Some (TPMS_ECC_PARMS_kdf x)))])) v"
      by (simp add: ifapi_json_TPMS_ECC_PARMS_serialize_def)
    then show thesis by (rule encodes_object [OF J])
      (auto simp: list_all2_Cons1 encodes_bad_value intro: that)
  qed
  show ?thesis unfolding ifapi_json_TPMS_ECC_PARMS_deserialize_def v
    by (rule decodes_out_not_null,
      rule fetches_Cons [where Q = "\<lambda>s. wt_TPMS_ECC_PARMS s \<and> wire_TPMT_SYM_DEF_OBJECT (TPMS_ECC_PARMS_symmetric s) = wire_TPMT_SYM_DEF_OBJECT (TPMS_ECC_PARMS_symmetric x)"], rule fetches_field [OF J _ json_TPMT_SYM_DEF_OBJECT [OF J e1 oks]], simp, simp add: wt_TPMS_ECC_PARMS_def, simp add: wt_TPMS_ECC_PARMS_def,
      rule fetches_Cons [where Q = "\<lambda>s. wt_TPMS_ECC_PARMS s \<and> wire_TPMT_SYM_DEF_OBJECT (TPMS_ECC_PARMS_symmetric s) = wire_TPMT_SYM_DEF_OBJECT (TPMS_ECC_PARMS_symmetric x) \<and> wire_TPMT_ECC_SCHEME (TPMS_ECC_PARMS_scheme s) = wire_TPMT_ECC_SCHEME (TPMS_ECC_PARMS_scheme x)"], rule fetches_field [OF J _ json_TPMT_ECC_SCHEME [OF J e2]], simp, simp add: wt_TPMS_ECC_PARMS_def, simp add: wt_TPMS_ECC_PARMS_def,
      rule fetches_Cons [where Q = "\<lambda>s. wt_TPMS_ECC_PARMS s \<and> wire_TPMT_SYM_DEF_OBJECT (TPMS_ECC_PARMS_symmetric s) = wire_TPMT_SYM_DEF_OBJECT (TPMS_ECC_PARMS_symmetric x) \<and> wire_TPMT_ECC_SCHEME (TPMS_ECC_PARMS_scheme s) = wire_TPMT_ECC_SCHEME (TPMS_ECC_PARMS_scheme x) \<and> TPMS_ECC_PARMS_curveID s = TPMS_ECC_PARMS_curveID x"], rule fetches_field [OF J _ json_TPMI_ECC_CURVE [OF J e3]], simp, simp add: wt_TPMS_ECC_PARMS_def, simp add: wt_TPMS_ECC_PARMS_def,
      rule fetches_Cons [where Q = "\<lambda>s. wt_TPMS_ECC_PARMS s \<and> wire_TPMT_SYM_DEF_OBJECT (TPMS_ECC_PARMS_symmetric s) = wire_TPMT_SYM_DEF_OBJECT (TPMS_ECC_PARMS_symmetric x) \<and> wire_TPMT_ECC_SCHEME (TPMS_ECC_PARMS_scheme s) = wire_TPMT_ECC_SCHEME (TPMS_ECC_PARMS_scheme x) \<and> TPMS_ECC_PARMS_curveID s = TPMS_ECC_PARMS_curveID x \<and> wire_TPMT_KDF_SCHEME (TPMS_ECC_PARMS_kdf s) = wire_TPMT_KDF_SCHEME (TPMS_ECC_PARMS_kdf x)"], rule fetches_field [OF J _ json_TPMT_KDF_SCHEME [OF J e4]], simp, simp add: wt_TPMS_ECC_PARMS_def, simp add: wt_TPMS_ECC_PARMS_def,
      rule fetches_Nil, simp add: wire_TPMS_ECC_PARMS_def)
qed

lemma json_TPMS_KEYEDHASH_PARMS:
  assumes J: "json_world J V" and e: "encodes V (ifapi_json_TPMS_KEYEDHASH_PARMS_serialize J (Some x)) v"
  shows "decodes V (ifapi_json_TPMS_KEYEDHASH_PARMS_deserialize J) v wt_TPMS_KEYEDHASH_PARMS (\<lambda>y. wire_TPMS_KEYEDHASH_PARMS y = wire_TPMS_KEYEDHASH_PARMS x)"
proof -
  obtain v1 where v: "v = JObject [(''scheme'', v1)]"
    and e1: "encodes V (ifapi_json_TPMT_KEYEDHASH_SCHEME_serialize J (Some (TPMS_KEYEDHASH_PARMS_scheme x))) v1"
  proof -
    from e have "encodes V (new_object_if_null J (object_fields J
       [(''scheme'', ifapi_json_TPMT_KEYEDHASH_SCHEME_serialize J (Some (TPMS_KEYEDHASH_PARMS_scheme x)))])) v"
      by (simp add: ifapi_json_TPMS_KEYEDHASH_PARMS_serialize_def)
    then show thesis by (rule encodes_object [OF J])
      (auto simp: list_all2_Cons1 encodes_bad_value intro: that)
  qed
  show ?thesis unfolding ifapi_json_TPMS_KEYEDHASH_PARMS_deserialize_def v
    by (rule decodes_out_not_null,
      rule fetches_Cons [where Q = "\<lambda>s. wt_TPMS_KEYEDHASH_PARMS s \<and> wire_TPMT_KEYEDHASH_SCHEME (TPMS_KEYEDHASH_PARMS_scheme s) = wire_TPMT_KEYEDHASH_SCHEME (TPMS_KEYEDHASH_PARMS_scheme x)"], rule fetches_field [OF J _ json_TPMT_KEYEDHASH_SCHEME [OF J e1]], simp, simp add: wt_TPMS_KEYEDHASH_PARMS_def, simp add: wt_TPMS_KEYEDHASH_PARMS_def,
      rule fetches_Nil, simp add: wire_TPMS_KEYEDHASH_PARMS_def)
qed

lemma json_TPMS_SYMCIPHER_PARMS:
  assumes J: "json_world J V" and e: "encodes V (ifapi_json_TPMS_SYMCIPHER_PARMS_serialize J (Some x)) v" and ok: "valid_TPMS_SYMCIPHER_PARMS x"
  shows "decodes V (ifapi_json_TPMS_SYMCIPHER_PARMS_deserialize J) v wt_TPMS_SYMCIPHER_PARMS (\<lambda>y. wire_TPMS_SYMCIPHER_PARMS y = wire_TPMS_SYMCIPHER_PARMS x)"
proof -
  have oks: "valid_TPMT_SYM_DEF_OBJECT (TPMS_SYMCIPHER_PARMS_sym x)"
    using ok by (simp add: valid_TPMS_SYMCIPHER_PARMS_def)
  obtain v1 where v: "v = JObject [(''sym'', v1)]"
    and e1: "encodes V (ifapi_json_TPMT_SYM_DEF_OBJECT_serialize J (Some (TPMS_SYMCIPHER_PARMS_sym x))) v1"
  proof -
    from e have "encodes V (new_object_if_null J (object_fields J
       [(''sym'', ifapi_json_TPMT_SYM_DEF_OBJECT_serialize J (Some (TPMS_SYMCIPHER_PARMS_sym x)))])) v"
      by (simp add: ifapi_json_TPMS_SYMCIPHER_PARMS_serialize_def)
    then show thesis by (rule encodes_object [OF J])
      (auto simp: list_all2_Cons1 encodes_bad_value intro: that)
  qed
  show ?thesis unfolding ifapi_json_TPMS_SYMCIPHER_PARMS_deserialize_def v
    by (rule decodes_out_not_null,
      rule fetches_Cons [where Q = "\<lambda>s. wt_TPMS_SYMCIPHER_PARMS s \<and> wire_TPMT_SYM_DEF_OBJECT (TPMS_SYMCIPHER_PARMS_sym s) = wire_TPMT_SYM_DEF_OBJECT (TPMS_SYMCIPHER_PARMS_sym x)"], rule fetches_field [OF J _ json_TPMT_SYM_DEF_OBJECT [OF J e1 oks]], simp, simp add: wt_TPMS_SYMCIPHER_PARMS_def, simp add: wt_TPMS_SYMCIPHER_PARMS_def,
      rule fetches_Nil, simp add: wire_TPMS_SYMCIPHER_PARMS_def)
qed

lemma json_TPMU_PUBLIC_PARMS:
  assumes J: "json_world J V" and e: "encodes V (ifapi_json_TPMU_PUBLIC_PARMS_serialize J (Some u) k) v" and ok: "k \<noteq> ucast TPM2_ALG_MLDSA" "k \<noteq> ucast TPM2_ALG_MLKEM" "valid_TPMU_PUBLIC_PARMS k u"
    "\<And>p. u = TPMU_PUBLIC_PARMS_rsaDetail p \<Longrightarrow> TPMT_RSA_SCHEME_scheme (TPMS_RSA_PARMS_scheme p) \<noteq> TPM2_ALG_RSAES"
  shows "decodes V (ifapi_json_TPMU_PUBLIC_PARMS_deserialize J k) v wt_TPMU_PUBLIC_PARMS (\<lambda>y. wire_TPMU_PUBLIC_PARMS k y = wire_TPMU_PUBLIC_PARMS k u)"
proof -
  from e ok consider (c0) x where "k = ucast TPM2_ALG_KEYEDHASH" "get_TPMU_PUBLIC_PARMS_keyedHashDetail u = Some x" "encodes V (ifapi_json_TPMS_KEYEDHASH_PARMS_serialize J (Some x)) v"
    | (c1) x where "k = ucast TPM2_ALG_SYMCIPHER" "get_TPMU_PUBLIC_PARMS_symDetail u = Some x" "encodes V (ifapi_json_TPMS_SYMCIPHER_PARMS_serialize J (Some x)) v"
    | (c2) x where "k = ucast TPM2_ALG_RSA" "get_TPMU_PUBLIC_PARMS_rsaDetail u = Some x" "encodes V (ifapi_json_TPMS_RSA_PARMS_serialize J (Some x)) v"
    | (c3) x where "k = ucast TPM2_ALG_ECC" "get_TPMU_PUBLIC_PARMS_eccDetail u = Some x" "encodes V (ifapi_json_TPMS_ECC_PARMS_serialize J (Some x)) v"
    by (auto simp: ifapi_json_TPMU_PUBLIC_PARMS_serialize_def encodes_union_switch encodes_union_member split: if_splits)
  then show ?thesis
  proof cases
    case c0
    have u: "u = TPMU_PUBLIC_PARMS_keyedHashDetail x" using c0(2) by simp
    show ?thesis unfolding ifapi_json_TPMU_PUBLIC_PARMS_deserialize_def c0(1) u
      by (rule decodes_switch, simp, rule decodes_member [OF json_TPMS_KEYEDHASH_PARMS [OF J c0(3)]])
        (auto simp: union_wire spec_TPMU_PUBLIC_PARMS_def get_TPMU_PUBLIC_PARMS [THEN iffD2, OF refl])
  next
    case c1
    have u: "u = TPMU_PUBLIC_PARMS_symDetail x" using c1(2) by simp
    have okm: "valid_TPMS_SYMCIPHER_PARMS x"
      using ok(3) unfolding c1(1) u
      by (simp add: valid_union_def union_wire spec_TPMU_PUBLIC_PARMS_def get_TPMU_PUBLIC_PARMS [THEN iffD2, OF refl])
    show ?thesis unfolding ifapi_json_TPMU_PUBLIC_PARMS_deserialize_def c1(1) u
      by (rule decodes_switch, simp, rule decodes_member [OF json_TPMS_SYMCIPHER_PARMS [OF J c1(3) okm]])
        (auto simp: union_wire spec_TPMU_PUBLIC_PARMS_def get_TPMU_PUBLIC_PARMS [THEN iffD2, OF refl])
  next
    case c2
    have u: "u = TPMU_PUBLIC_PARMS_rsaDetail x" using c2(2) by simp
    have okm: "valid_TPMS_RSA_PARMS x"
      using ok(3) unfolding c2(1) u
      by (simp add: valid_union_def union_wire spec_TPMU_PUBLIC_PARMS_def get_TPMU_PUBLIC_PARMS [THEN iffD2, OF refl])
    show ?thesis unfolding ifapi_json_TPMU_PUBLIC_PARMS_deserialize_def c2(1) u
      by (rule decodes_switch, simp, rule decodes_member [OF json_TPMS_RSA_PARMS [OF J c2(3) okm ok(4) [OF u]]])
        (auto simp: union_wire spec_TPMU_PUBLIC_PARMS_def get_TPMU_PUBLIC_PARMS [THEN iffD2, OF refl])
  next
    case c3
    have u: "u = TPMU_PUBLIC_PARMS_eccDetail x" using c3(2) by simp
    have okm: "valid_TPMS_ECC_PARMS x"
      using ok(3) unfolding c3(1) u
      by (simp add: valid_union_def union_wire spec_TPMU_PUBLIC_PARMS_def get_TPMU_PUBLIC_PARMS [THEN iffD2, OF refl])
    show ?thesis unfolding ifapi_json_TPMU_PUBLIC_PARMS_deserialize_def c3(1) u
      by (rule decodes_switch, simp, rule decodes_member [OF json_TPMS_ECC_PARMS [OF J c3(3) okm]])
        (auto simp: union_wire spec_TPMU_PUBLIC_PARMS_def get_TPMU_PUBLIC_PARMS [THEN iffD2, OF refl])
  qed
qed

lemma json_TPM2B_DIGEST:
  assumes J: "json_world J V" and e: "encodes V (ifapi_json_TPM2B_DIGEST_serialize J (Some x)) v"
  shows "decodes V (ifapi_json_TPM2B_DIGEST_deserialize J) v (wt_TPM2B 64) (\<lambda>y. wire_TPM2B y = wire_TPM2B x)"
  using TPM2B_codec [OF J, of 64] e by (simp add: ifapi_json_TPM2B_DIGEST_serialize_def ifapi_json_TPM2B_DIGEST_deserialize_def)

lemma json_TPM2B_PUBLIC_KEY_RSA:
  assumes J: "json_world J V" and e: "encodes V (ifapi_json_TPM2B_PUBLIC_KEY_RSA_serialize J (Some x)) v"
  shows "decodes V (ifapi_json_TPM2B_PUBLIC_KEY_RSA_deserialize J) v (wt_TPM2B 512) (\<lambda>y. wire_TPM2B y = wire_TPM2B x)"
  using TPM2B_codec [OF J, of 512] e by (simp add: ifapi_json_TPM2B_PUBLIC_KEY_RSA_serialize_def ifapi_json_TPM2B_PUBLIC_KEY_RSA_deserialize_def)

lemma json_TPM2B_ECC_PARAMETER:
  assumes J: "json_world J V" and e: "encodes V (ifapi_json_TPM2B_ECC_PARAMETER_serialize J (Some x)) v"
  shows "decodes V (ifapi_json_TPM2B_ECC_PARAMETER_deserialize J) v (wt_TPM2B 128) (\<lambda>y. wire_TPM2B y = wire_TPM2B x)"
  using TPM2B_codec [OF J, of 128] e by (simp add: ifapi_json_TPM2B_ECC_PARAMETER_serialize_def ifapi_json_TPM2B_ECC_PARAMETER_deserialize_def)

lemma json_TPMS_ECC_POINT:
  assumes J: "json_world J V" and e: "encodes V (ifapi_json_TPMS_ECC_POINT_serialize J (Some x)) v"
  shows "decodes V (ifapi_json_TPMS_ECC_POINT_deserialize J) v wt_TPMS_ECC_POINT (\<lambda>y. wire_TPMS_ECC_POINT y = wire_TPMS_ECC_POINT x)"
proof -
  obtain v1 v2 where v: "v = JObject [(''x'', v1), (''y'', v2)]"
    and e1: "encodes V (ifapi_json_TPM2B_ECC_PARAMETER_serialize J (Some (TPMS_ECC_POINT_x x))) v1"
    and e2: "encodes V (ifapi_json_TPM2B_ECC_PARAMETER_serialize J (Some (TPMS_ECC_POINT_y x))) v2"
  proof -
    from e have "encodes V (new_object_if_null J (object_fields J
       [(''x'', ifapi_json_TPM2B_ECC_PARAMETER_serialize J (Some (TPMS_ECC_POINT_x x))),
        (''y'', ifapi_json_TPM2B_ECC_PARAMETER_serialize J (Some (TPMS_ECC_POINT_y x)))])) v"
      by (simp add: ifapi_json_TPMS_ECC_POINT_serialize_def)
    then show thesis by (rule encodes_object [OF J])
      (auto simp: list_all2_Cons1 encodes_bad_value intro: that)
  qed
  show ?thesis unfolding ifapi_json_TPMS_ECC_POINT_deserialize_def v
    by (rule decodes_out_not_null,
      rule fetches_Cons [where Q = "\<lambda>s. wt_TPMS_ECC_POINT s \<and> wire_TPM2B (TPMS_ECC_POINT_x s) = wire_TPM2B (TPMS_ECC_POINT_x x)"], rule fetches_field [OF J _ json_TPM2B_ECC_PARAMETER [OF J e1]], simp, simp add: wt_TPMS_ECC_POINT_def, simp add: wt_TPMS_ECC_POINT_def,
      rule fetches_Cons [where Q = "\<lambda>s. wt_TPMS_ECC_POINT s \<and> wire_TPM2B (TPMS_ECC_POINT_x s) = wire_TPM2B (TPMS_ECC_POINT_x x) \<and> wire_TPM2B (TPMS_ECC_POINT_y s) = wire_TPM2B (TPMS_ECC_POINT_y x)"], rule fetches_field [OF J _ json_TPM2B_ECC_PARAMETER [OF J e2]], simp, simp add: wt_TPMS_ECC_POINT_def, simp add: wt_TPMS_ECC_POINT_def,
      rule fetches_Nil, simp add: wire_TPMS_ECC_POINT_def)
qed

lemma json_TPMU_PUBLIC_ID:
  assumes J: "json_world J V" and e: "encodes V (ifapi_json_TPMU_PUBLIC_ID_serialize J (Some u) k) v" and ok: "k \<noteq> ucast TPM2_ALG_MLDSA" "k \<noteq> ucast TPM2_ALG_MLKEM"
  shows "decodes V (ifapi_json_TPMU_PUBLIC_ID_deserialize J k) v wt_TPMU_PUBLIC_ID (\<lambda>y. wire_TPMU_PUBLIC_ID k y = wire_TPMU_PUBLIC_ID k u)"
proof -
  from e ok consider (c0) x where "k = ucast TPM2_ALG_KEYEDHASH" "get_TPMU_PUBLIC_ID_keyedHash u = Some x" "encodes V (ifapi_json_TPM2B_DIGEST_serialize J (Some x)) v"
    | (c1) x where "k = ucast TPM2_ALG_SYMCIPHER" "get_TPMU_PUBLIC_ID_sym u = Some x" "encodes V (ifapi_json_TPM2B_DIGEST_serialize J (Some x)) v"
    | (c2) x where "k = ucast TPM2_ALG_RSA" "get_TPMU_PUBLIC_ID_rsa u = Some x" "encodes V (ifapi_json_TPM2B_PUBLIC_KEY_RSA_serialize J (Some x)) v"
    | (c3) x where "k = ucast TPM2_ALG_ECC" "get_TPMU_PUBLIC_ID_ecc u = Some x" "encodes V (ifapi_json_TPMS_ECC_POINT_serialize J (Some x)) v"
    by (auto simp: ifapi_json_TPMU_PUBLIC_ID_serialize_def encodes_union_switch encodes_union_member split: if_splits)
  then show ?thesis
  proof cases
    case c0
    have u: "u = TPMU_PUBLIC_ID_keyedHash x" using c0(2) by simp
    show ?thesis unfolding ifapi_json_TPMU_PUBLIC_ID_deserialize_def c0(1) u
      by (rule decodes_switch, simp, rule decodes_member [OF json_TPM2B_DIGEST [OF J c0(3)]])
        (auto simp: union_wire spec_TPMU_PUBLIC_ID_def get_TPMU_PUBLIC_ID [THEN iffD2, OF refl])
  next
    case c1
    have u: "u = TPMU_PUBLIC_ID_sym x" using c1(2) by simp
    show ?thesis unfolding ifapi_json_TPMU_PUBLIC_ID_deserialize_def c1(1) u
      by (rule decodes_switch, simp, rule decodes_member [OF json_TPM2B_DIGEST [OF J c1(3)]])
        (auto simp: union_wire spec_TPMU_PUBLIC_ID_def get_TPMU_PUBLIC_ID [THEN iffD2, OF refl])
  next
    case c2
    have u: "u = TPMU_PUBLIC_ID_rsa x" using c2(2) by simp
    show ?thesis unfolding ifapi_json_TPMU_PUBLIC_ID_deserialize_def c2(1) u
      by (rule decodes_switch, simp, rule decodes_member [OF json_TPM2B_PUBLIC_KEY_RSA [OF J c2(3)]])
        (auto simp: union_wire spec_TPMU_PUBLIC_ID_def get_TPMU_PUBLIC_ID [THEN iffD2, OF refl])
  next
    case c3
    have u: "u = TPMU_PUBLIC_ID_ecc x" using c3(2) by simp
    show ?thesis unfolding ifapi_json_TPMU_PUBLIC_ID_deserialize_def c3(1) u
      by (rule decodes_switch, simp, rule decodes_member [OF json_TPMS_ECC_POINT [OF J c3(3)]])
        (auto simp: union_wire spec_TPMU_PUBLIC_ID_def get_TPMU_PUBLIC_ID [THEN iffD2, OF refl])
  qed
qed

lemma json_TPMI_ALG_PUBLIC:
  assumes J: "json_world J V" and e: "encodes V (ifapi_json_TPMI_ALG_PUBLIC_serialize J x) v"
  shows "decodes V (ifapi_json_TPMI_ALG_PUBLIC_deserialize J) v (\<lambda>_. True) (\<lambda>y. y = x)"
proof -
  from e have x: "x \<in> set [TPM2_ALG_RSA, TPM2_ALG_KEYEDHASH, TPM2_ALG_ECC, TPM2_ALG_SYMCIPHER, TPM2_ALG_NULL]" and p: "encodes V (ifapi_json_TPM2_ALG_ID_serialize J x) v"
    by (auto simp only: ifapi_json_TPMI_ALG_PUBLIC_serialize_def encodes_CHECK_IN_LIST)
  have "decodes V (ifapi_json_TPM2_ALG_ID_deserialize J) v (\<lambda>_. True) (\<lambda>y. y = x)"
    by (rule json_TPM2_ALG_ID [OF J p]) (use x in auto)
  then show ?thesis using x unfolding ifapi_json_TPMI_ALG_PUBLIC_deserialize_def by (intro decodes_SUBTYPE_FILTER) simp_all
qed


section \<open>Public areas\<close>

text \<open>
  What the JSON form of a public area cannot carry: attribute bits without a name, and the scheme
  RSAES, whose empty details become a JSON null, which the deserializer takes for a missing field.
\<close>

definition json_faithful :: "TPMT_PUBLIC \<Rightarrow> bool" where
  "json_faithful x \<longleftrightarrow> TPMT_PUBLIC_objectAttributes x AND TPMA_OBJECT_mask = TPMT_PUBLIC_objectAttributes x \<and>
     (case TPMT_PUBLIC_parameters x of
        TPMU_PUBLIC_PARMS_rsaDetail p \<Rightarrow> TPMT_RSA_SCHEME_scheme (TPMS_RSA_PARMS_scheme p) \<noteq> TPM2_ALG_RSAES
      | _ \<Rightarrow> True)"

lemma json_TPMT_PUBLIC:
  assumes J: "json_world J V" and e: "encodes V (ifapi_json_TPMT_PUBLIC_serialize J (Some x)) v"
    and ok: "valid_TPMT_PUBLIC x" "json_faithful x"
  shows "decodes V (ifapi_json_TPMT_PUBLIC_deserialize J) v wt_TPMT_PUBLIC (\<lambda>y. wire_TPMT_PUBLIC y = wire_TPMT_PUBLIC x)"
proof -
  let ?k = "ucast (TPMT_PUBLIC_type x) :: UINT32"
  let ?Q1 = "\<lambda>s. wt_TPMT_PUBLIC s \<and> TPMT_PUBLIC_type s = TPMT_PUBLIC_type x"
  let ?Q2 = "\<lambda>s. ?Q1 s \<and> TPMT_PUBLIC_nameAlg s = TPMT_PUBLIC_nameAlg x"
  let ?Q3 = "\<lambda>s. ?Q2 s \<and> TPMT_PUBLIC_objectAttributes s = TPMT_PUBLIC_objectAttributes x"
  let ?Q4 = "\<lambda>s. ?Q3 s \<and> wire_TPM2B (TPMT_PUBLIC_authPolicy s) = wire_TPM2B (TPMT_PUBLIC_authPolicy x)"
  let ?Q5 = "\<lambda>s. ?Q4 s \<and> wire_TPMU_PUBLIC_PARMS ?k (TPMT_PUBLIC_parameters s) = wire_TPMU_PUBLIC_PARMS ?k (TPMT_PUBLIC_parameters x)"
  let ?Q6 = "\<lambda>s. ?Q5 s \<and> wire_TPMU_PUBLIC_ID ?k (TPMT_PUBLIC_unique s) = wire_TPMU_PUBLIC_ID ?k (TPMT_PUBLIC_unique x)"
  obtain v1 v2 v3 v4 v5 v6 where v: "v = JObject [(''type'', v1), (''nameAlg'', v2), (''objectAttributes'', v3),
      (''authPolicy'', v4), (''parameters'', v5), (''unique'', v6)]"
    and e1: "encodes V (ifapi_json_TPMI_ALG_PUBLIC_serialize J (TPMT_PUBLIC_type x)) v1"
    and e2: "encodes V (ifapi_json_TPMI_ALG_HASH_serialize J (TPMT_PUBLIC_nameAlg x)) v2"
    and e3: "encodes V (ifapi_json_TPMA_OBJECT_serialize J (TPMT_PUBLIC_objectAttributes x)) v3"
    and e4: "encodes V (ifapi_json_TPM2B_DIGEST_serialize J (Some (TPMT_PUBLIC_authPolicy x))) v4"
    and e5: "encodes V (ifapi_json_TPMU_PUBLIC_PARMS_serialize J (Some (TPMT_PUBLIC_parameters x)) ?k) v5"
    and e6: "encodes V (ifapi_json_TPMU_PUBLIC_ID_serialize J (Some (TPMT_PUBLIC_unique x)) ?k) v6"
    by (rule encodes_object [OF J e [unfolded ifapi_json_TPMT_PUBLIC_serialize_def encodes_not_null]])
      (auto simp: list_all2_Cons1)
  have k: "?k \<noteq> ucast TPM2_ALG_MLDSA" "?k \<noteq> ucast TPM2_ALG_MLKEM"
    using e1 by (auto simp: ifapi_json_TPMI_ALG_PUBLIC_serialize_def encodes_CHECK_IN_LIST)
  have a: "TPMT_PUBLIC_objectAttributes x AND TPMA_OBJECT_mask = TPMT_PUBLIC_objectAttributes x"
    using ok(2) by (simp add: json_faithful_def)
  have p: "valid_TPMU_PUBLIC_PARMS ?k (TPMT_PUBLIC_parameters x)"
    using ok(1) by (simp add: valid_TPMT_PUBLIC_def)
  have q: "TPMT_RSA_SCHEME_scheme (TPMS_RSA_PARMS_scheme p) \<noteq> TPM2_ALG_RSAES"
    if "TPMT_PUBLIC_parameters x = TPMU_PUBLIC_PARMS_rsaDetail p" for p
    using ok(2) that by (simp add: json_faithful_def)
  note d5 = json_TPMU_PUBLIC_PARMS [OF J e5 k p q]
  note d6 = json_TPMU_PUBLIC_ID [OF J e6 k]
  show ?thesis unfolding ifapi_json_TPMT_PUBLIC_deserialize_def v
    by (rule decodes_out_not_null,
      rule fetches_Cons [where Q = ?Q1], rule fetches_field [OF J _ json_TPMI_ALG_PUBLIC [OF J e1]],
      simp, simp add: wt_TPMT_PUBLIC_def, simp add: wt_TPMT_PUBLIC_def,
      rule fetches_Cons [where Q = ?Q2], rule fetches_field [OF J _ json_TPMI_ALG_HASH [OF J e2]],
      simp, simp add: wt_TPMT_PUBLIC_def, simp add: wt_TPMT_PUBLIC_def,
      rule fetches_Cons [where Q = ?Q3], rule fetches_field [OF J _ json_TPMA_OBJECT [OF J e3 a]],
      simp, simp add: wt_TPMT_PUBLIC_def, simp add: wt_TPMT_PUBLIC_def,
      rule fetches_Cons [where Q = ?Q4], rule fetches_field [OF J _ json_TPM2B_DIGEST [OF J e4]],
      simp, simp add: wt_TPMT_PUBLIC_def, simp add: wt_TPMT_PUBLIC_def,
      rule fetches_Cons [where Q = ?Q5], rule fetches_field_sel [where g = "ifapi_json_TPMU_PUBLIC_PARMS_deserialize J"
        and sel = "\<lambda>s. ucast (TPMT_PUBLIC_type s)", OF J _ d5],
      simp, assumption, simp add: wt_TPMT_PUBLIC_def, simp add: wt_TPMT_PUBLIC_def,
      rule fetches_Cons [where Q = ?Q6], rule fetches_optional_sel [where g = "ifapi_json_TPMU_PUBLIC_ID_deserialize J"
        and sel = "\<lambda>s. ucast (TPMT_PUBLIC_type s)", OF J _ d6],
      simp, simp add: wt_TPMT_PUBLIC_def, simp add: wt_TPMT_PUBLIC_def,
      rule fetches_Nil, simp add: wire_TPMT_PUBLIC_def)
qed

end
