(* ===== verification/Fapi_Json_Properties.thy ===== *)
theory Fapi_Json_Properties
  imports Fapi_Public
begin

text \<open>
  What the JSON form of the feature API preserves: public areas go through it unchanged, numbers and
  names with exceptions, and one structure is never read back without a write outside its buffer.
\<close>

section \<open>Public areas\<close>

text \<open>A restricted ECC signing key and a destination full of other data.\<close>

definition ex_ecc_public :: TPMT_PUBLIC where
  "ex_ecc_public = zero_TPMT_PUBLIC\<lparr>
     TPMT_PUBLIC_type := TPM2_ALG_ECC,
     TPMT_PUBLIC_nameAlg := TPM2_ALG_SHA256,
     TPMT_PUBLIC_objectAttributes := 0x00050072,
     TPMT_PUBLIC_authPolicy := \<lparr>TPM2B_size = 2, TPM2B_buffer = [0xAB, 0xCD] @ replicate 62 7\<rparr>,
     TPMT_PUBLIC_parameters := TPMU_PUBLIC_PARMS_eccDetail (zero_TPMS_ECC_PARMS\<lparr>
       TPMS_ECC_PARMS_symmetric := zero_TPMT_SYM_DEF_OBJECT\<lparr>TPMT_SYM_DEF_OBJECT_algorithm := TPM2_ALG_NULL\<rparr>,
       TPMS_ECC_PARMS_scheme := \<lparr>TPMT_ECC_SCHEME_scheme = TPM2_ALG_ECDSA,
         TPMT_ECC_SCHEME_details = TPMU_ASYM_SCHEME_ecdsa \<lparr>TPMS_SCHEME_HASH_hashAlg = TPM2_ALG_SHA256\<rparr>\<rparr>,
       TPMS_ECC_PARMS_curveID := TPM2_ECC_NIST_P256,
       TPMS_ECC_PARMS_kdf := zero_TPMT_KDF_SCHEME\<lparr>TPMT_KDF_SCHEME_scheme := TPM2_ALG_NULL\<rparr>\<rparr>),
     TPMT_PUBLIC_unique := TPMU_PUBLIC_ID_ecc
       \<lparr>TPMS_ECC_POINT_x = \<lparr>TPM2B_size = 1, TPM2B_buffer = 0x5A # replicate 127 0\<rparr>,
        TPMS_ECC_POINT_y = \<lparr>TPM2B_size = 2, TPM2B_buffer = [0x0F, 0xF0] @ replicate 126 0\<rparr>\<rparr>\<rparr>"

lemma ex_ecc_public_ok: "valid_TPMT_PUBLIC ex_ecc_public" "json_faithful ex_ecc_public"
  by code_simp+

lemma ex_ecc_public_json:
  "case ifapi_json_TPMT_PUBLIC_serialize json_values (Some ex_ecc_public) None () of
     Some (r, Some j, w) \<Rightarrow> r = TSS2_RC_SUCCESS | _ \<Rightarrow> False"
  by code_simp

text \<open>
  C4: Whatever implements json-c, a valid public area that its JSON form can carry and that
  \<open>ifapi_json_TPMT_PUBLIC_serialize\<close> accepts is read back by \<open>ifapi_json_TPMT_PUBLIC_deserialize\<close>,
  whatever the destination held, as a public area with the same wire format.
\<close>

theorem TPMT_PUBLIC_json_round_trip:
  assumes "json_world J V" "valid_TPMT_PUBLIC x" "json_faithful x" "wt_TPMT_PUBLIC d"
    and "ifapi_json_TPMT_PUBLIC_serialize J (Some x) None w = Some (TSS2_RC_SUCCESS, jso, w')"
  shows "\<exists>j y. jso = Some j \<and>
     ifapi_json_TPMT_PUBLIC_deserialize J (Some j) (Some d) = Some (TSS2_RC_SUCCESS, Some y) \<and>
     wt_TPMT_PUBLIC y \<and> wire_TPMT_PUBLIC y = wire_TPMT_PUBLIC x"
proof -
  have "encodes V (ifapi_json_TPMT_PUBLIC_serialize J (Some x)) (json_of V jso)"
    using assms(5) unfolding encodes_def by blast
  note d = json_TPMT_PUBLIC [OF assms(1) this assms(2,3)]
  then obtain j where "jso = Some j" by (cases jso) (auto simp: decodes_def)
  with decodesD [OF d _ assms(4)] show ?thesis by auto
qed

theorem TPMT_PUBLIC_json_round_trip_witness:
  "\<exists>w jso. ifapi_json_TPMT_PUBLIC_serialize json_values (Some ex_ecc_public) None () = Some (TSS2_RC_SUCCESS, jso, w) \<and>
     (\<exists>j y. jso = Some j \<and>
        ifapi_json_TPMT_PUBLIC_deserialize json_values (Some j) (Some zero_TPMT_PUBLIC) = Some (TSS2_RC_SUCCESS, Some y) \<and>
        wt_TPMT_PUBLIC y \<and> wire_TPMT_PUBLIC y = wire_TPMT_PUBLIC ex_ecc_public)"
proof -
  from ex_ecc_public_json obtain j w where
    "ifapi_json_TPMT_PUBLIC_serialize json_values (Some ex_ecc_public) None () = Some (TSS2_RC_SUCCESS, Some j, w)"
    by (auto split: option.splits prod.splits)
  with TPMT_PUBLIC_json_round_trip [OF json_values_world ex_ecc_public_ok _ this, of zero_TPMT_PUBLIC]
  show ?thesis by auto
qed

section \<open>Handles and algorithm identifiers\<close>

lemma encodesI: "f None w = Some (TSS2_RC_SUCCESS, Some j, w') \<Longrightarrow> encodes V f (V j)"
  unfolding encodes_def by (metis json_of_simps(2))

lemma sign_extends_iff: "(ucast (x :: UINT32) :: INT64) = word_of_int (sint x) \<longleftrightarrow> x < 0x80000000"
proof -
  have "unat x < 4294967296" using unsigned_less [of x, where ?'a = nat] by simp
  then have d: "unat x div 2147483648 < 2" by (simp add: less_mult_imp_div_less)
  have "bit x 31 \<longleftrightarrow> bit (unat x) 31" by (simp add: bit_unsigned_iff)
  also have "\<dots> \<longleftrightarrow> odd (unat x div 2147483648)" by (simp add: bit_iff_odd)
  also have "\<dots> \<longleftrightarrow> unat x div 2147483648 \<noteq> 0"
    using d by (cases "unat x div 2147483648") (auto simp: less_Suc_eq)
  also have "\<dots> \<longleftrightarrow> \<not> x < 0x80000000" by (simp add: div_eq_0_iff word_less_nat_alt)
  finally have b: "bit x 31 \<longleftrightarrow> \<not> x < 0x80000000" .
  have s: "bit (word_of_int (sint x) :: INT64) n \<longleftrightarrow> n < 64 \<and> bit x (min n 31)" for n
    by (simp add: bit_simps min_def)
  show ?thesis
  proof
    assume "(ucast x :: INT64) = word_of_int (sint x)"
    then have "bit (ucast x :: INT64) 40 = bit (word_of_int (sint x) :: INT64) 40" by simp
    then show "x < 0x80000000"
      using bit_imp_le_length [of x 40] by (auto simp: s b bit_simps simp del: bit_word_of_int_iff)
  next
    assume "x < 0x80000000"
    then have "\<not> bit x n" if "31 \<le> n" for n
      using that bit_imp_le_length [of x n] b by (cases "n = 31") auto
    then show "(ucast x :: INT64) = word_of_int (sint x)"
      by (intro bit_word_eqI) (auto simp: s bit_simps min_def simp del: bit_word_of_int_iff)
  qed
qed

text \<open>
  C36: A handle below \<open>0x80000000\<close> is read back from its JSON form; a handle from there on is written as
  a negative number, which the deserializer refuses.
\<close>

theorem TPM2_HANDLE_json_round_trip:
  assumes J: "json_world J V" and e: "ifapi_json_TPM2_HANDLE_serialize J x None w = Some (TSS2_RC_SUCCESS, Some j, w')"
  shows "ifapi_json_TPM2_HANDLE_deserialize J (Some j) (Some d) =
      Some (if x < 0x80000000 then TSS2_RC_SUCCESS else TSS2_FAPI_RC_BAD_VALUE, Some x)"
proof -
  have "V j = JInt (sint x)"
    by (rule encodes_int [where e = TSS2_FAPI_RC_BAD_VALUE, OF J encodesI]) (use e in \<open>simp_all add: ifapi_json_TPM2_HANDLE_serialize_def\<close>)
  then have s: "json_object_get_string J (Some j) = Some (show_int (sint x))"
    by (rule json_worldR(3) [OF J])
  have "- (2 ^ 63) \<le> sint x" "sint x < 2 ^ 63" using sint_range_size [of x] by (simp_all add: word_size)
  note n = get_number_show_int [OF this]
  have "(ucast (word_of_int (sint x) :: INT64) :: UINT32) = x" by (intro bit_word_eqI) (simp add: bit_simps)
  then show ?thesis
    using sign_extends_iff [of x] by (simp add: ifapi_json_TPM2_HANDLE_deserialize_def int_deserialize_def s n Let_def)
qed

theorem TPM2_HANDLE_json_round_trip_witness:
  "ifapi_json_TPM2_HANDLE_deserialize json_values (Some (JInt (- 2130706431))) (Some 0) =
     Some (TSS2_FAPI_RC_BAD_VALUE, Some 0x81000001)"
proof -
  have "ifapi_json_TPM2_HANDLE_serialize json_values 0x81000001 None () =
      Some (TSS2_RC_SUCCESS, Some (JInt (- 2130706431)), ())" by code_simp
  from TPM2_HANDLE_json_round_trip [OF json_values_world this, of 0] show ?thesis by simp
qed

lemma TPM2_ALG_ID_unknown:
  assumes "s \<in> set [''TDES'', ''CMAC'']"
  shows "strip_prefix (Some s) [''TPM_'', ''TPM2_'', ''ALG_'', ''ID_''] = Some s"
    and "find (\<lambda>row. strcaseeq s (snd row)) TPM2_ALG_ID_deserialize_tab = None"
    and "get_number (Some s) None = Some (False, None)"
proof -
  have "list_all (\<lambda>s. strip_prefix (Some s) [''TPM_'', ''TPM2_'', ''ALG_'', ''ID_''] = Some s \<and>
      find (\<lambda>row. strcaseeq s (snd row)) TPM2_ALG_ID_deserialize_tab = None \<and>
      get_number (Some s) None = Some (False, None)) [''TDES'', ''CMAC'']" by code_simp
  with assms show "strip_prefix (Some s) [''TPM_'', ''TPM2_'', ''ALG_'', ''ID_''] = Some s"
    and "find (\<lambda>row. strcaseeq s (snd row)) TPM2_ALG_ID_deserialize_tab = None"
    and "get_number (Some s) None = Some (False, None)"
    by (simp_all only: list_all_iff)
qed

text \<open>
  C37: An algorithm identifier that \<open>ifapi_json_TPM2_ALG_ID_serialize\<close> names is read back from that name,
  except TDES and CMAC, whose names the deserializer does not know and refuses.
\<close>

theorem TPM2_ALG_ID_json_round_trip:
  assumes J: "json_world J V" and e: "ifapi_json_TPM2_ALG_ID_serialize J x None w = Some (TSS2_RC_SUCCESS, Some j, w')"
  shows "ifapi_json_TPM2_ALG_ID_deserialize J (Some j) (Some d) =
      (if x \<in> set [TPM2_ALG_TDES, TPM2_ALG_CMAC] then Some (TSS2_FAPI_RC_BAD_VALUE, Some d)
       else Some (TSS2_RC_SUCCESS, Some x))"
proof (cases "x \<in> set [TPM2_ALG_TDES, TPM2_ALG_CMAC]")
  case False
  then have "x \<noteq> TPM2_ALG_TDES \<and> x \<noteq> TPM2_ALG_CMAC" by simp
  moreover have "encodes V (ifapi_json_TPM2_ALG_ID_serialize J x) (V j)" by (rule encodesI) (rule e)
  ultimately have "decodes V (ifapi_json_TPM2_ALG_ID_deserialize J) (V j) (\<lambda>_. True) (\<lambda>y. y = x)"
    by (intro json_TPM2_ALG_ID [OF J])
  from decodesD [OF this refl TrueI] False show ?thesis by metis
next
  case True
  then obtain s where s: "s \<in> set [''TDES'', ''CMAC'']" "find (\<lambda>row. fst row = x) TPM2_ALG_ID_serialize_tab = Some (x, s)"
    by (auto intro: that simp: TPM2_ALG_ID_serialize_tab_def)
  from e s(2) have "created TSS2_FAPI_RC_MEMORY (json_object_new_string J s) None w = Some (TSS2_RC_SUCCESS, Some j, w')"
    by (simp add: ifapi_json_TPM2_ALG_ID_serialize_def const_serialize_def)
  then have "V j = JString s" by (intro encodes_string [where e = TSS2_FAPI_RC_MEMORY, OF J encodesI]) simp_all
  then have "json_object_get_string J (Some j) = Some s" by (rule json_worldR(2) [OF J])
  with True TPM2_ALG_ID_unknown [OF s(1)] show ?thesis
    by (simp add: ifapi_json_TPM2_ALG_ID_deserialize_def const_deserialize_def ifapi_json_UINT16_deserialize_def int_deserialize_def)
qed

theorem TPM2_ALG_ID_json_round_trip_witness:
  "ifapi_json_TPM2_ALG_ID_deserialize json_values (Some (JString ''CMAC'')) (Some 0) = Some (TSS2_FAPI_RC_BAD_VALUE, Some 0)"
proof -
  have "ifapi_json_TPM2_ALG_ID_serialize json_values TPM2_ALG_CMAC None () = Some (TSS2_RC_SUCCESS, Some (JString ''CMAC''), ())"
    by code_simp
  from TPM2_ALG_ID_json_round_trip [OF json_values_world this, of 0] show ?thesis by simp
qed

section \<open>The buffer of TPM2B_DATA\<close>

lemma hex_loop_overruns:
  assumes "list_all isxdigit hex" "j \<le> length val" "length val < vlen" "vlen < 2 ^ 64"
  shows "hex_loop hex j vlen val = None"
  using assms
proof (induction hex j vlen val rule: hex_loop.induct)
  case (1 j vlen val)
  then have "unat (of_nat j :: size_t) = j" by (simp add: unat_of_nat)
  with 1 show ?case by (simp add: mem_write_def)
next
  case (2 h hex j vlen val)
  then show ?case by (cases hex) auto
qed

lemma digits_not_prefixed: "list_all isxdigit s \<Longrightarrow> \<not> has_prefix ''0x'' s"
  by (cases s; cases "tl s") (auto simp: has_prefix_def isxdigit_def)

text \<open>
  C38: A \<open>TPM2B_DATA\<close> has room for 64 bytes, \<open>ifapi_json_TPM2B_DATA_deserialize\<close> lets 66 be filled: every
  string of at most 133 hexadecimal digits, which is every string it does not refuse for its length,
  makes it write past the end of the buffer.
\<close>

theorem TPM2B_DATA_deserialize_overruns:
  assumes J: "json_world J V" and j: "V j = JString s" and s: "list_all isxdigit s" "length s \<le> 133"
    and d: "length (TPM2B_buffer d) = 64"
  shows "ifapi_json_TPM2B_DATA_deserialize J (Some j) (Some d) = None"
proof -
  have "ifapi_hex_to_byte_ary s (sizeof ct_TPMT_HA) (TPM2B_buffer d) = None"
    using s d hex_loop_overruns [OF s(1), of 0 "TPM2B_buffer d" 66] by (simp add: ifapi_hex_to_byte_ary_def)
  then show ?thesis
    using J j s digits_not_prefixed [OF s(1)]
    by (simp add: ifapi_json_TPM2B_DATA_deserialize_def TPM2B_deserialize_def out_not_null_def
        ifapi_json_byte_deserialize_def json_worldR(1,2) Let_def)
qed

theorem TPM2B_DATA_deserialize_overruns_witness:
  "ifapi_json_TPM2B_DATA_deserialize json_values (Some (JString ''0badcafe'')) (Some (zero_TPM2B 64)) = None"
  by (rule TPM2B_DATA_deserialize_overruns [OF json_values_world, of _ "''0badcafe''"])
    (simp_all add: isxdigit_def zero_TPM2B_def)

end
