(* ===== verification/Fapi_Policy.thy ===== *)
theory Fapi_Policy
  imports Fapi_Json
begin

text \<open>
  The calculation of policy digests: the hash functions of \<open>fapi_crypto.c\<close>, the helpers
  \<open>ifapi_nv_get_name\<close> and \<open>ifapi_compute_policy_digest\<close> of \<open>ifapi_helpers.c\<close>, and
  \<open>ifapi_policy_calculate.c\<close>.  \<open>None\<close> is undefined behaviour, as in the other theories.  OpenSSL (version 3)
  and the allocator are a record of functions on a state; the objects of OpenSSL are handles.
\<close>

section \<open>Hashing\<close>

record ('o, 'w) openssl =
  ossl_calloc :: "'w \<Rightarrow> bool \<times> 'w"
  ossl_free :: "'w \<Rightarrow> 'w"
  OSSL_LIB_CTX_new :: "'w \<Rightarrow> 'o option \<times> 'w"
  OSSL_LIB_CTX_free :: "'o \<Rightarrow> 'w \<Rightarrow> 'w"
  EVP_MD_fetch :: "'o \<Rightarrow> string option \<Rightarrow> 'w \<Rightarrow> 'o option \<times> 'w"
  EVP_MD_free :: "'o \<Rightarrow> 'w \<Rightarrow> 'w"
  EVP_MD_CTX_create :: "'w \<Rightarrow> 'o option \<times> 'w"
  EVP_MD_CTX_destroy :: "'o \<Rightarrow> 'w \<Rightarrow> 'w"
  EVP_DigestInit_ex :: "'o \<Rightarrow> 'o \<Rightarrow> 'w \<Rightarrow> int \<times> 'w"
  EVP_DigestUpdate :: "'o \<Rightarrow> BYTE list \<Rightarrow> 'w \<Rightarrow> int \<times> 'w"
  EVP_DigestFinal_ex :: "'o \<Rightarrow> 'w \<Rightarrow> int \<times> BYTE list \<times> 'w"

text \<open>\<open>EVP_DigestFinal_ex\<close> delivers the bytes it writes; their number is the size it reports.\<close>

record 'o IFAPI_CRYPTO_CONTEXT =
  CRYPTO_libctx :: "'o option"
  CRYPTO_osslHashAlgorithm :: "'o option"
  CRYPTO_osslContext :: "'o option"
  CRYPTO_hashSize :: nat

definition ifapi_crypto_context_free :: "('o, 'w) openssl \<Rightarrow> 'o IFAPI_CRYPTO_CONTEXT option \<Rightarrow> 'w \<Rightarrow> 'w" where
  "ifapi_crypto_context_free S ctx w =
     (case ctx of
        None \<Rightarrow> w
      | Some c \<Rightarrow>
          let w = (case CRYPTO_osslContext c of None \<Rightarrow> w | Some x \<Rightarrow> EVP_MD_CTX_destroy S x w);
              w = (case CRYPTO_osslHashAlgorithm c of None \<Rightarrow> w | Some x \<Rightarrow> EVP_MD_free S x w);
              w = (case CRYPTO_libctx c of None \<Rightarrow> w | Some x \<Rightarrow> OSSL_LIB_CTX_free S x w)
          in ossl_free S w)"

definition get_hash_md :: "UINT16 \<Rightarrow> string option" where
  "get_hash_md hashAlgorithm =
     (if hashAlgorithm = TPM2_ALG_SHA1 then Some ''SHA1''
      else if hashAlgorithm = TPM2_ALG_SHA256 then Some ''SHA256''
      else if hashAlgorithm = TPM2_ALG_SHA384 then Some ''SHA384''
      else if hashAlgorithm = TPM2_ALG_SHA512 then Some ''SHA512''
      else if hashAlgorithm = TPM2_ALG_SM3_256 then Some ''SM3''
      else None)"

definition ifapi_hash_get_digest_size :: "UINT16 \<Rightarrow> nat" where
  "ifapi_hash_get_digest_size hashAlgorithm =
     (if hashAlgorithm = TPM2_ALG_SHA1 then TPM2_SHA1_DIGEST_SIZE
      else if hashAlgorithm = TPM2_ALG_SHA256 then TPM2_SHA256_DIGEST_SIZE
      else if hashAlgorithm = TPM2_ALG_SHA384 then TPM2_SHA384_DIGEST_SIZE
      else if hashAlgorithm = TPM2_ALG_SHA512 then TPM2_SHA512_DIGEST_SIZE
      else if hashAlgorithm = TPM2_ALG_SM3_256 then TPM2_SM3_256_DIGEST_SIZE
      else 0)"

definition ifapi_crypto_hash_start ::
    "('o, 'w) openssl \<Rightarrow> UINT16 \<Rightarrow> 'w \<Rightarrow> TSS2_RC \<times> 'o IFAPI_CRYPTO_CONTEXT option \<times> 'w" where
  "ifapi_crypto_hash_start S hashAlgorithm w =
     (case ossl_calloc S w of (ok, w) \<Rightarrow>
        if \<not> ok then (TSS2_FAPI_RC_MEMORY, None, w)
        else
          let c0 = \<lparr>CRYPTO_libctx = None, CRYPTO_osslHashAlgorithm = None, CRYPTO_osslContext = None, CRYPTO_hashSize = 0\<rparr>;
              fail = (\<lambda>r c w. (r, None, ifapi_crypto_context_free S (Some c) w))
          in
          case OSSL_LIB_CTX_new S w of
            (None, w) \<Rightarrow> fail TSS2_FAPI_RC_MEMORY c0 w
          | (Some lib, w) \<Rightarrow>
              let c1 = c0\<lparr>CRYPTO_libctx := Some lib\<rparr> in
              (case EVP_MD_fetch S lib (get_hash_md hashAlgorithm) w of
                 (None, w) \<Rightarrow> fail TSS2_FAPI_RC_BAD_VALUE c1 w
               | (Some md, w) \<Rightarrow>
                   let c2 = c1\<lparr>CRYPTO_osslHashAlgorithm := Some md, CRYPTO_hashSize := ifapi_hash_get_digest_size hashAlgorithm\<rparr> in
                   if CRYPTO_hashSize c2 = 0 then fail TSS2_FAPI_RC_BAD_VALUE c2 w
                   else
                     (case EVP_MD_CTX_create S w of
                        (None, w) \<Rightarrow> fail TSS2_FAPI_RC_GENERAL_FAILURE c2 w
                      | (Some e, w) \<Rightarrow>
                          let c3 = c2\<lparr>CRYPTO_osslContext := Some e\<rparr> in
                          (case EVP_DigestInit_ex S e md w of
                             (i, w) \<Rightarrow>
                               if i \<noteq> 1 then fail TSS2_FAPI_RC_GENERAL_FAILURE c3 w
                               else (TSS2_RC_SUCCESS, Some c3, w)))))"

definition ifapi_crypto_hash_update ::
    "('o, 'w) openssl \<Rightarrow> 'o IFAPI_CRYPTO_CONTEXT option \<Rightarrow> BYTE list \<Rightarrow> 'w \<Rightarrow> (TSS2_RC \<times> 'w) option" where
  "ifapi_crypto_hash_update S context buffer w =
     (case context of
        None \<Rightarrow> Some (TSS2_FAPI_RC_BAD_REFERENCE, w)
      | Some c \<Rightarrow>
          (case CRYPTO_osslContext c of
             None \<Rightarrow> None
           | Some e \<Rightarrow>
               (case EVP_DigestUpdate S e buffer w of
                  (i, w) \<Rightarrow> Some (if i \<noteq> 1 then TSS2_FAPI_RC_GENERAL_FAILURE else TSS2_RC_SUCCESS, w))))"

text \<open>\<open>digest\<close> is the memory the result is written to; the context is released on every path.\<close>

definition ifapi_crypto_hash_finish ::
    "('o, 'w) openssl \<Rightarrow> 'o IFAPI_CRYPTO_CONTEXT option \<Rightarrow> BYTE list \<Rightarrow> nat \<Rightarrow> 'w \<Rightarrow>
     (TSS2_RC \<times> BYTE list \<times> nat \<times> 'w) option" where
  "ifapi_crypto_hash_finish S context digest digestSize w =
     (case context of
        None \<Rightarrow> None
      | Some c \<Rightarrow>
          (case CRYPTO_osslContext c of
             None \<Rightarrow> None
           | Some e \<Rightarrow>
               (case EVP_DigestFinal_ex S e w of
                  (i, d, w) \<Rightarrow>
                    if length digest < length d then None
                    else
                      let digest = patch digest 0 d; w = ifapi_crypto_context_free S context w in
                      if i \<noteq> 1 \<or> length d \<noteq> CRYPTO_hashSize c then Some (TSS2_FAPI_RC_GENERAL_FAILURE, digest, digestSize, w)
                      else Some (TSS2_RC_SUCCESS, digest, CRYPTO_hashSize c, w))))"

definition ifapi_crypto_hash_abort :: "('o, 'w) openssl \<Rightarrow> 'o IFAPI_CRYPTO_CONTEXT option \<Rightarrow> 'w \<Rightarrow> 'w" where
  "ifapi_crypto_hash_abort S context w = ifapi_crypto_context_free S context w"

text \<open>
  What one \<open>HASH_UPDATE_BUFFER\<close> or \<open>HASH_UPDATE\<close> feeds to the hash: the bytes, an error of the marshalling
  function, or an access outside an object.
\<close>

type_synonym item = "(TSS2_RC \<times> BYTE list) option"

definition HASH_UPDATE_BUFFER :: "BYTE list \<Rightarrow> nat \<Rightarrow> item" where
  "HASH_UPDATE_BUFFER buffer n = map_option (Pair TSS2_RC_SUCCESS) (mem_read buffer 0 n)"

definition HASH_UPDATE :: "'a mfun \<Rightarrow> nat \<Rightarrow> 'a \<Rightarrow> item" where
  "HASH_UPDATE marshal n obj =
     (case marshal obj (Some (replicate n 0)) (of_nat n) (Some 0) of
        Some (r, Some buffer, Some offset) \<Rightarrow>
          if r \<noteq> 0 then Some (r, []) else HASH_UPDATE_BUFFER buffer (unat offset)
      | _ \<Rightarrow> None)"

fun hash_items :: "('o, 'w) openssl \<Rightarrow> 'o IFAPI_CRYPTO_CONTEXT option \<Rightarrow> item list \<Rightarrow> 'w \<Rightarrow> (TSS2_RC \<times> 'w) option" where
  "hash_items S context [] w = Some (TSS2_RC_SUCCESS, w)"
| "hash_items S context (x # xs) w =
     (case x of
        None \<Rightarrow> None
      | Some (r, bs) \<Rightarrow>
          if r \<noteq> 0 then Some (r, w)
          else (case ifapi_crypto_hash_update S context bs w of
              None \<Rightarrow> None
            | Some (r, w) \<Rightarrow> if r \<noteq> 0 then Some (r, w) else hash_items S context xs w))"

text \<open>A hash from start to finish, with the cleanup that every function has.\<close>

definition hash_into ::
    "('o, 'w) openssl \<Rightarrow> UINT16 \<Rightarrow> item list \<Rightarrow> BYTE list \<Rightarrow> nat \<Rightarrow> 'w \<Rightarrow> (TSS2_RC \<times> BYTE list \<times> nat \<times> 'w) option" where
  "hash_into S hashAlg items digest n w =
     (case ifapi_crypto_hash_start S hashAlg w of
        (r, context, w) \<Rightarrow>
          if r \<noteq> 0 then Some (r, digest, n, w)
          else (case hash_items S context items w of
              None \<Rightarrow> None
            | Some (r, w) \<Rightarrow>
                if r \<noteq> 0 then Some (r, digest, n, ifapi_crypto_hash_abort S context w)
                else ifapi_crypto_hash_finish S context digest n w))"

section \<open>Digest lists\<close>

text \<open>
  The code uses the union \<open>TPMU_HA\<close> of a \<open>TPMT_HA\<close> as 64 bytes, at offset 2 behind \<open>hashAlg\<close>; a
  \<open>TPML_DIGEST_VALUES\<close> has 16 of them.
\<close>

record HA =
  HA_hashAlg :: UINT16
  HA_digest :: "BYTE list"

record DIGEST_VALUES =
  DIGEST_VALUES_count :: UINT32
  DIGEST_VALUES_digests :: "HA list"

definition set_HA :: "nat \<Rightarrow> (HA \<Rightarrow> HA) \<Rightarrow> DIGEST_VALUES \<Rightarrow> DIGEST_VALUES" where
  "set_HA i f dv = dv\<lparr>DIGEST_VALUES_digests := (DIGEST_VALUES_digests dv)[i := f (DIGEST_VALUES_digests dv ! i)]\<rparr>"

abbreviation "digest_at dv i \<equiv> HA_digest (DIGEST_VALUES_digests dv ! i)"

definition copy_policy_digest :: "DIGEST_VALUES \<Rightarrow> DIGEST_VALUES \<Rightarrow> nat \<Rightarrow> nat \<Rightarrow> DIGEST_VALUES option" where
  "copy_policy_digest dest src digest_idx hash_size =
     (if length (DIGEST_VALUES_digests dest) \<le> digest_idx \<or> length (DIGEST_VALUES_digests src) \<le> digest_idx then None
      else
        Option.bind (mem_read (digest_at src digest_idx) 0 hash_size)
          (\<lambda>bs. Option.bind (mem_write (digest_at dest digest_idx) 0 bs)
             (\<lambda>d. Some ((set_HA digest_idx
                  (\<lambda>h. h\<lparr>HA_digest := d, HA_hashAlg := HA_hashAlg (DIGEST_VALUES_digests src ! digest_idx)\<rparr>) dest)
                  \<lparr>DIGEST_VALUES_count := DIGEST_VALUES_count src\<rparr>))))"

text \<open>The loop runs over \<open>count\<close> entries; beyond the array it reads outside of it.\<close>

definition get_policy_digest_idx :: "DIGEST_VALUES \<Rightarrow> UINT16 \<Rightarrow> (TSS2_RC \<times> nat \<times> DIGEST_VALUES) option" where
  "get_policy_digest_idx dv hashAlg =
     (let n = unat (DIGEST_VALUES_count dv); ds = DIGEST_VALUES_digests dv in
      case find (\<lambda>i. HA_hashAlg (ds ! i) = hashAlg) [0..<min n (length ds)] of
        Some i \<Rightarrow> Some (TSS2_RC_SUCCESS, i, dv)
      | None \<Rightarrow>
          if length ds < n then None
          else if TPM2_NUM_PCR_BANKS \<le> n then Some (TSS2_FAPI_RC_BAD_VALUE, 0, dv)
          else if length ds \<le> n then None
          else Some (TSS2_RC_SUCCESS, n,
            (set_HA n (\<lambda>h. h\<lparr>HA_hashAlg := hashAlg, HA_digest := replicate (sizeof ct_TPMU_HA) 0\<rparr>) dv)
              \<lparr>DIGEST_VALUES_count := DIGEST_VALUES_count dv + 1\<rparr>))"

type_synonym 'w calc = "DIGEST_VALUES \<Rightarrow> 'w \<Rightarrow> (TSS2_RC \<times> DIGEST_VALUES \<times> 'w) option"

text \<open>The first steps of the functions below: the size of the digests and the position of the current one.\<close>

definition with_digest :: "UINT16 \<Rightarrow> (nat \<Rightarrow> nat \<Rightarrow> 'w calc) \<Rightarrow> 'w calc" where
  "with_digest hashAlg f dv w =
     (let hash_size = ifapi_hash_get_digest_size hashAlg in
      if hash_size = 0 then Some (TSS2_FAPI_RC_BAD_VALUE, dv, w)
      else (case get_policy_digest_idx dv hashAlg of
          None \<Rightarrow> None
        | Some (r, digest_idx, dv) \<Rightarrow>
            if r \<noteq> 0 then Some (r, dv, w) else f hash_size digest_idx dv w))"

definition store_digest :: "nat \<Rightarrow> DIGEST_VALUES \<Rightarrow> (TSS2_RC \<times> BYTE list \<times> 'w) option \<Rightarrow> (TSS2_RC \<times> DIGEST_VALUES \<times> 'w) option" where
  "store_digest digest_idx dv = map_option (\<lambda>(r, d, w). (r, set_HA digest_idx (\<lambda>h. h\<lparr>HA_digest := d\<rparr>) dv, w))"

text \<open>The hash of the current digest and further items replaces the digest.\<close>

definition update_digest :: "('o, 'w) openssl \<Rightarrow> UINT16 \<Rightarrow> item list \<Rightarrow> nat \<Rightarrow> nat \<Rightarrow> 'w calc" where
  "update_digest S hashAlg items hash_size digest_idx dv w =
     store_digest digest_idx dv
       (map_option (\<lambda>(r, d, n, w). (r, d, w))
         (hash_into S hashAlg (HASH_UPDATE_BUFFER (digest_at dv digest_idx) hash_size # items)
            (digest_at dv digest_idx) hash_size w))"

abbreviation "CC code \<equiv> HASH_UPDATE Tss2_MU_TPM2_CC_Marshal 4 code"

section \<open>Policies\<close>

text \<open>The members that the calculation reads or writes.\<close>

record TPMS_PCRVALUE =
  PCRVALUE_pcr :: UINT32
  PCRVALUE_hashAlg :: UINT16
  PCRVALUE_digest :: "BYTE list"

record TPMS_POLICYSIGNED =
  POLICYSIGNED_policyRef :: TPM2B
  POLICYSIGNED_publicKey :: TPM2B

record TPMS_POLICYSECRET =
  POLICYSECRET_policyRef :: TPM2B
  POLICYSECRET_objectName :: TPM2B

record TPMS_POLICYNV =
  POLICYNV_nvPublic :: TPMS_NV_PUBLIC
  POLICYNV_operandB :: TPM2B
  POLICYNV_offset :: UINT16
  POLICYNV_operation :: UINT16

record TPMS_POLICYCOUNTERTIMER =
  POLICYCOUNTERTIMER_operandB :: TPM2B
  POLICYCOUNTERTIMER_offset :: UINT16
  POLICYCOUNTERTIMER_operation :: UINT16

record TPMS_POLICYNAMEHASH =
  POLICYNAMEHASH_count :: UINT32
  POLICYNAMEHASH_objectNames :: "TPM2B list"
  POLICYNAMEHASH_nameHash :: TPM2B

record TPMS_POLICYDUPLICATIONSELECT =
  POLICYDUPLICATIONSELECT_objectName :: TPM2B
  POLICYDUPLICATIONSELECT_newParentName :: TPM2B
  POLICYDUPLICATIONSELECT_includeObject :: BYTE

record TPMS_POLICYAUTHORIZE =
  POLICYAUTHORIZE_policyRef :: TPM2B
  POLICYAUTHORIZE_keyName :: TPM2B

record TPMS_POLICYTEMPLATE =
  POLICYTEMPLATE_templateHash :: TPM2B
  POLICYTEMPLATE_templatePublic :: TPM2B_PUBLIC

datatype TPMT_POLICYELEMENT = TPMT_POLICYELEMENT UINT32 DIGEST_VALUES TPMU_POLICYELEMENT
and TPMU_POLICYELEMENT =
    PolicyOr "TPMS_POLICYBRANCH list"
  | PolicySigned TPMS_POLICYSIGNED
  | PolicySecret TPMS_POLICYSECRET
  | PolicyPCR "TPMS_PCRVALUE list"
  | PolicyLocality BYTE
  | PolicyNV TPMS_POLICYNV
  | PolicyCounterTimer TPMS_POLICYCOUNTERTIMER
  | PolicyCommandCode UINT32
  | PolicyPhysicalPresence
  | PolicyCpHash TPM2B
  | PolicyNameHash TPMS_POLICYNAMEHASH
  | PolicyDuplicationSelect TPMS_POLICYDUPLICATIONSELECT
  | PolicyAuthorize TPMS_POLICYAUTHORIZE
  | PolicyAuthValue
  | PolicyPassword
  | PolicyNvWritten BYTE
  | PolicyTemplate TPMS_POLICYTEMPLATE
  | PolicyAuthorizeNv TPMS_NV_PUBLIC
  | PolicyAction
and TPMS_POLICYBRANCH = TPMS_POLICYBRANCH DIGEST_VALUES "TPMT_POLICYELEMENT list"

text \<open>The arrays of elements and branches are as long as their \<open>count\<close>.\<close>

definition POLICYOR :: UINT32 where "POLICYOR = 1"
definition POLICYSIGNED :: UINT32 where "POLICYSIGNED = 2"
definition POLICYSECRET :: UINT32 where "POLICYSECRET = 3"
definition POLICYPCR :: UINT32 where "POLICYPCR = 4"
definition POLICYLOCALITY :: UINT32 where "POLICYLOCALITY = 5"
definition POLICYNV :: UINT32 where "POLICYNV = 6"
definition POLICYCOUNTERTIMER :: UINT32 where "POLICYCOUNTERTIMER = 7"
definition POLICYCOMMANDCODE :: UINT32 where "POLICYCOMMANDCODE = 8"
definition POLICYPHYSICALPRESENCE :: UINT32 where "POLICYPHYSICALPRESENCE = 9"
definition POLICYCPHASH :: UINT32 where "POLICYCPHASH = 10"
definition POLICYNAMEHASH :: UINT32 where "POLICYNAMEHASH = 11"
definition POLICYDUPLICATIONSELECT :: UINT32 where "POLICYDUPLICATIONSELECT = 12"
definition POLICYAUTHORIZE :: UINT32 where "POLICYAUTHORIZE = 13"
definition POLICYAUTHVALUE :: UINT32 where "POLICYAUTHVALUE = 14"
definition POLICYPASSWORD :: UINT32 where "POLICYPASSWORD = 15"
definition POLICYNVWRITTEN :: UINT32 where "POLICYNVWRITTEN = 16"
definition POLICYTEMPLATE :: UINT32 where "POLICYTEMPLATE = 17"
definition POLICYAUTHORIZENV :: UINT32 where "POLICYAUTHORIZENV = 18"
definition POLICYACTION :: UINT32 where "POLICYACTION = 19"

lemmas policy_type_defs =
  POLICYOR_def POLICYSIGNED_def POLICYSECRET_def POLICYPCR_def POLICYLOCALITY_def POLICYNV_def
  POLICYCOUNTERTIMER_def POLICYCOMMANDCODE_def POLICYPHYSICALPRESENCE_def POLICYCPHASH_def
  POLICYNAMEHASH_def POLICYDUPLICATIONSELECT_def POLICYAUTHORIZE_def POLICYAUTHVALUE_def
  POLICYPASSWORD_def POLICYNVWRITTEN_def POLICYTEMPLATE_def POLICYAUTHORIZENV_def POLICYACTION_def

section \<open>PCRs\<close>

text \<open>The bank of a PCR value, new or known, and the bit of the PCR in its selection.\<close>

fun select_pcrs :: "TPMS_PCRVALUE list \<Rightarrow> TPML_PCR_SELECTION \<Rightarrow> UINT32 \<Rightarrow> (TSS2_RC \<times> TPML_PCR_SELECTION \<times> UINT32) option" where
  "select_pcrs [] sel max_pcr = Some (TSS2_RC_SUCCESS, sel, max_pcr)"
| "select_pcrs (p # ps) sel max_pcr =
     (let n = unat (TPML_count sel);
          j = (case find (\<lambda>j. PCRVALUE_hashAlg p = TPMS_PCR_SELECTION_hash (TPML_items sel ! j)) [0..<n] of None \<Rightarrow> n | Some j \<Rightarrow> j);
          sel1 = (if j = n then sel\<lparr>TPML_count := TPML_count sel + 1\<rparr> else sel)
      in
      if j = n \<and> TPM2_NUM_PCR_BANKS < unat (TPML_count sel1) then Some (TSS2_FAPI_RC_BAD_VALUE, sel1, max_pcr)
      else
        let s = (if j = n then (TPML_items sel1 ! j)\<lparr>TPMS_PCR_SELECTION_hash := PCRVALUE_hashAlg p, TPMS_PCR_SELECTION_sizeofSelect := 3\<rparr>
                 else TPML_items sel1 ! j);
            pcrIndex = PCRVALUE_pcr p;
            i = unat pcrIndex div 8
        in
        if length (TPMS_PCR_SELECTION_pcrSelect s) \<le> i then None
        else
          let s = s\<lparr>TPMS_PCR_SELECTION_pcrSelect := (TPMS_PCR_SELECTION_pcrSelect s)
                      [i := TPMS_PCR_SELECTION_pcrSelect s ! i OR push_bit (unat pcrIndex mod 8) 1]\<rparr>;
              s = (if unat (TPMS_PCR_SELECTION_sizeofSelect s) < i + 1 then s\<lparr>TPMS_PCR_SELECTION_sizeofSelect := of_nat (i + 1)\<rparr> else s)
          in select_pcrs ps (sel1\<lparr>TPML_items := (TPML_items sel1)[j := s]\<rparr>)
               (if max_pcr < pcrIndex + 1 then pcrIndex + 1 else max_pcr))"

text \<open>The values of a selected PCR are added for every bank that selects it.\<close>

definition pcr_value_items :: "TPMS_PCRVALUE list \<Rightarrow> TPML_PCR_SELECTION \<Rightarrow> UINT32 \<Rightarrow> item list" where
  "pcr_value_items pcrs sel max_pcr =
     concat (map (\<lambda>s. let hash_size = ifapi_hash_get_digest_size (TPMS_PCR_SELECTION_hash s) in
         if hash_size = 0 then [Some (TSS2_FAPI_RC_BAD_VALUE, [])]
         else concat (map (\<lambda>pcr.
             if length (TPMS_PCR_SELECTION_pcrSelect s) \<le> pcr div 8 then [None]
             else if TPMS_PCR_SELECTION_pcrSelect s ! (pcr div 8) AND push_bit (pcr mod 8) 1 \<noteq> 0 then
               map (\<lambda>p. HASH_UPDATE_BUFFER (PCRVALUE_digest p) hash_size)
                 (filter (\<lambda>p. unat (PCRVALUE_pcr p) = pcr) pcrs)
             else []) [0..<unat max_pcr]))
       (take (unat (TPML_count sel)) (TPML_items sel)))"

definition ifapi_compute_policy_digest ::
    "('o, 'w) openssl \<Rightarrow> TPMS_PCRVALUE list \<Rightarrow> UINT16 \<Rightarrow> 'w \<Rightarrow> (TSS2_RC \<times> TPML_PCR_SELECTION \<times> TPM2B \<times> 'w) option" where
  "ifapi_compute_policy_digest S pcrs hash_alg w =
     (case select_pcrs pcrs zero_TPML_PCR_SELECTION 0 of
        None \<Rightarrow> None
      | Some (r, sel, max_pcr) \<Rightarrow>
          if r \<noteq> 0 then Some (r, sel, zero_TPM2B 64, w)
          else
            let size = ifapi_hash_get_digest_size hash_alg in
            map_option (\<lambda>(r, d, n, w). (r, sel, \<lparr>TPM2B_size = of_nat size, TPM2B_buffer = d\<rparr>, w))
              (hash_into S hash_alg ((if size = 0 then [Some (TSS2_FAPI_RC_BAD_VALUE, [])] else []) @ pcr_value_items pcrs sel max_pcr)
                 (TPM2B_buffer (zero_TPM2B 64)) size w))"

definition ifapi_compute_policy_pcr :: "('o, 'w) openssl \<Rightarrow> TPMS_PCRVALUE list \<Rightarrow> UINT16 \<Rightarrow> 'w calc" where
  "ifapi_compute_policy_pcr S pcrs hashAlg = with_digest hashAlg (\<lambda>hash_size digest_idx dv w.
     case ifapi_compute_policy_digest S pcrs hashAlg w of
       None \<Rightarrow> None
     | Some (r, pcr_selection, pcr_digest, w) \<Rightarrow>
         if r \<noteq> 0 then Some (r, dv, w)
         else update_digest S hashAlg
           [CC TPM2_CC_PolicyPCR,
            HASH_UPDATE Tss2_MU_TPML_PCR_SELECTION_Marshal (sizeof ct_TPML_PCR_SELECTION) (Some pcr_selection),
            HASH_UPDATE_BUFFER (TPM2B_buffer pcr_digest) hash_size] hash_size digest_idx dv w)"

section \<open>Names\<close>

definition ifapi_nv_get_name :: "('o, 'w) openssl \<Rightarrow> TPMS_NV_PUBLIC \<Rightarrow> 'w \<Rightarrow> (TSS2_RC \<times> TPM2B \<times> 'w) option" where
  "ifapi_nv_get_name S publicInfo w =
     (let name = zero_TPM2B (sizeof ct_TPMU_NAME) in
      if TPMS_NV_PUBLIC_nameAlg publicInfo = TPM2_ALG_NULL then Some (TSS2_RC_SUCCESS, name\<lparr>TPM2B_size := 0\<rparr>, w)
      else
        (case hash_into S (TPMS_NV_PUBLIC_nameAlg publicInfo)
                [HASH_UPDATE Tss2_MU_TPMS_NV_PUBLIC_Marshal (sizeof ct_TPMS_NV_PUBLIC) (Some publicInfo)]
                (drop 2 (TPM2B_buffer name)) (sizeof ct_TPMU_NAME - 2) w of
           None \<Rightarrow> None
         | Some (r, d, n, w) \<Rightarrow>
             if r \<noteq> 0 then Some (r, name\<lparr>TPM2B_buffer := take 2 (TPM2B_buffer name) @ d\<rparr>, w)
             else
               (case Tss2_MU_TPMI_ALG_HASH_Marshal (TPMS_NV_PUBLIC_nameAlg publicInfo)
                       (Some (take 2 (TPM2B_buffer name) @ d)) 2 (Some 0) of
                  Some (r, Some b, _) \<Rightarrow>
                    if r \<noteq> 0 then Some (r, name\<lparr>TPM2B_buffer := b\<rparr>, w)
                    else Some (TSS2_RC_SUCCESS, \<lparr>TPM2B_size = of_nat (n + 2), TPM2B_buffer = b\<rparr>, w)
                | _ \<Rightarrow> None)))"

definition calculate_policy_key_param ::
    "('o, 'w) openssl \<Rightarrow> UINT32 \<Rightarrow> TPM2B option \<Rightarrow> TPM2B option \<Rightarrow> nat \<Rightarrow> UINT16 \<Rightarrow> BYTE list \<Rightarrow> 'w \<Rightarrow> (TSS2_RC \<times> BYTE list \<times> 'w) option" where
  "calculate_policy_key_param S command_code name policyRef hash_size current_hash_alg digest w =
     (case hash_into S current_hash_alg
             ([HASH_UPDATE_BUFFER digest hash_size, CC command_code] @
              (case name of
                 Some m \<Rightarrow> if unat (TPM2B_size m) > 0 then [HASH_UPDATE_BUFFER (TPM2B_buffer m) (unat (TPM2B_size m))] else []
               | None \<Rightarrow> [])) digest hash_size w of
        None \<Rightarrow> None
      | Some (r, digest, hash_size, w) \<Rightarrow>
          if r \<noteq> 0 then Some (r, digest, w)
          else
            (case policyRef of
               None \<Rightarrow> Some (r, digest, w)
             | Some ref \<Rightarrow>
                 map_option (\<lambda>(r, d, n, w). (r, d, w))
                   (hash_into S current_hash_alg
                      [HASH_UPDATE_BUFFER digest hash_size, HASH_UPDATE_BUFFER (TPM2B_buffer ref) (unat (TPM2B_size ref))]
                      digest hash_size w)))"

definition key_param :: "('o, 'w) openssl \<Rightarrow> UINT32 \<Rightarrow> TPM2B option \<Rightarrow> TPM2B option \<Rightarrow> UINT16 \<Rightarrow> 'w calc" where
  "key_param S command_code name policyRef hashAlg = with_digest hashAlg (\<lambda>hash_size digest_idx dv w.
     store_digest digest_idx dv
       (calculate_policy_key_param S command_code name policyRef hash_size hashAlg (digest_at dv digest_idx) w))"

definition ifapi_calculate_policy_signed :: "('o, 'w) openssl \<Rightarrow> TPMS_POLICYSIGNED \<Rightarrow> UINT16 \<Rightarrow> 'w calc" where
  "ifapi_calculate_policy_signed S policy =
     key_param S TPM2_CC_PolicySigned (Some (POLICYSIGNED_publicKey policy)) (Some (POLICYSIGNED_policyRef policy))"

definition ifapi_calculate_policy_authorize :: "('o, 'w) openssl \<Rightarrow> TPMS_POLICYAUTHORIZE \<Rightarrow> UINT16 \<Rightarrow> 'w calc" where
  "ifapi_calculate_policy_authorize S policy =
     key_param S TPM2_CC_PolicyAuthorize (Some (POLICYAUTHORIZE_keyName policy)) (Some (POLICYAUTHORIZE_policyRef policy))"

definition ifapi_calculate_policy_secret :: "('o, 'w) openssl \<Rightarrow> TPMS_POLICYSECRET \<Rightarrow> UINT16 \<Rightarrow> 'w calc" where
  "ifapi_calculate_policy_secret S policy =
     key_param S TPM2_CC_PolicySecret (Some (POLICYSECRET_objectName policy)) (Some (POLICYSECRET_policyRef policy))"

definition written :: "TPMS_NV_PUBLIC \<Rightarrow> TPMS_NV_PUBLIC" where
  "written p = p\<lparr>TPMS_NV_PUBLIC_attributes := TPMS_NV_PUBLIC_attributes p OR TPMA_NV_WRITTEN\<rparr>"

text \<open>The changed policy is the caller's part (\<open>written\<close>).\<close>

definition ifapi_calculate_policy_authorize_nv :: "('o, 'w) openssl \<Rightarrow> TPMS_NV_PUBLIC \<Rightarrow> UINT16 \<Rightarrow> 'w calc" where
  "ifapi_calculate_policy_authorize_nv S nvPublic hashAlg dv w =
     (case ifapi_nv_get_name S (written nvPublic) w of
        None \<Rightarrow> None
      | Some (r, nv_name, w) \<Rightarrow>
          if r \<noteq> 0 then Some (r, dv, w)
          else key_param S TPM2_CC_PolicyAuthorizeNV (Some nv_name) None hashAlg dv w)"

section \<open>The other policies\<close>

definition ifapi_calculate_policy_duplicate :: "('o, 'w) openssl \<Rightarrow> TPMS_POLICYDUPLICATIONSELECT \<Rightarrow> UINT16 \<Rightarrow> 'w calc" where
  "ifapi_calculate_policy_duplicate S policy hashAlg = with_digest hashAlg
     (update_digest S hashAlg
        [CC TPM2_CC_PolicyDuplicationSelect,
         HASH_UPDATE_BUFFER (TPM2B_buffer (POLICYDUPLICATIONSELECT_newParentName policy))
           (unat (TPM2B_size (POLICYDUPLICATIONSELECT_newParentName policy))),
         HASH_UPDATE Tss2_MU_BYTE_Marshal 1 (POLICYDUPLICATIONSELECT_includeObject policy)])"

definition operand_items :: "TPM2B \<Rightarrow> UINT16 \<Rightarrow> UINT16 \<Rightarrow> item list" where
  "operand_items operandB offset operation =
     [HASH_UPDATE_BUFFER (TPM2B_buffer operandB) (unat (TPM2B_size operandB)),
      HASH_UPDATE Tss2_MU_UINT16_Marshal 2 offset, HASH_UPDATE Tss2_MU_UINT16_Marshal 2 operation]"

definition ifapi_calculate_policy_counter_timer :: "('o, 'w) openssl \<Rightarrow> TPMS_POLICYCOUNTERTIMER \<Rightarrow> UINT16 \<Rightarrow> 'w calc" where
  "ifapi_calculate_policy_counter_timer S policy hashAlg = with_digest hashAlg (\<lambda>hash_size digest_idx dv w.
     case hash_into S hashAlg
            (operand_items (POLICYCOUNTERTIMER_operandB policy) (POLICYCOUNTERTIMER_offset policy) (POLICYCOUNTERTIMER_operation policy))
            (TPM2B_buffer (zero_TPM2B 64)) hash_size w of
       None \<Rightarrow> None
     | Some (r, counter_timer_hash, hash_size, w) \<Rightarrow>
         if r \<noteq> 0 then Some (r, dv, w)
         else update_digest S hashAlg
           [CC TPM2_CC_PolicyCounterTimer, HASH_UPDATE_BUFFER counter_timer_hash hash_size] hash_size digest_idx dv w)"

definition ifapi_calculate_simple_policy :: "('o, 'w) openssl \<Rightarrow> UINT32 \<Rightarrow> UINT32 \<Rightarrow> UINT16 \<Rightarrow> 'w calc" where
  "ifapi_calculate_simple_policy S command_code1 command_code2 hashAlg = with_digest hashAlg
     (update_digest S hashAlg
        ((if command_code1 \<noteq> 0 then [CC command_code1] else []) @ (if command_code2 \<noteq> 0 then [CC command_code2] else [])))"

definition ifapi_calculate_policy_physical_presence :: "('o, 'w) openssl \<Rightarrow> UINT16 \<Rightarrow> 'w calc" where
  "ifapi_calculate_policy_physical_presence S = ifapi_calculate_simple_policy S TPM2_CC_PolicyPhysicalPresence 0"

definition ifapi_calculate_policy_auth_value :: "('o, 'w) openssl \<Rightarrow> UINT16 \<Rightarrow> 'w calc" where
  "ifapi_calculate_policy_auth_value S = ifapi_calculate_simple_policy S TPM2_CC_PolicyAuthValue 0"

definition ifapi_calculate_policy_password :: "('o, 'w) openssl \<Rightarrow> UINT16 \<Rightarrow> 'w calc" where
  "ifapi_calculate_policy_password S = ifapi_calculate_simple_policy S TPM2_CC_PolicyAuthValue 0"

definition ifapi_calculate_policy_command_code :: "('o, 'w) openssl \<Rightarrow> UINT32 \<Rightarrow> UINT16 \<Rightarrow> 'w calc" where
  "ifapi_calculate_policy_command_code S code = ifapi_calculate_simple_policy S TPM2_CC_PolicyCommandCode code"

definition ifapi_calculate_policy_digest_hash :: "('o, 'w) openssl \<Rightarrow> TPM2B \<Rightarrow> UINT16 \<Rightarrow> UINT32 \<Rightarrow> 'w calc" where
  "ifapi_calculate_policy_digest_hash S digest hashAlg command_code = with_digest hashAlg
     (update_digest S hashAlg [CC command_code, HASH_UPDATE_BUFFER (TPM2B_buffer digest) (unat (TPM2B_size digest))])"

text \<open>The loop over the names includes the one at index \<open>count\<close>.\<close>

definition name_items :: "TPMS_POLICYNAMEHASH \<Rightarrow> item list" where
  "name_items policy = map (\<lambda>i.
     if length (POLICYNAMEHASH_objectNames policy) \<le> i then None
     else HASH_UPDATE_BUFFER (TPM2B_buffer (POLICYNAMEHASH_objectNames policy ! i)) (unat (TPM2B_size (POLICYNAMEHASH_objectNames policy ! i))))
     [0..<Suc (unat (POLICYNAMEHASH_count policy))]"

definition ifapi_calculate_policy_name_hash ::
    "('o, 'w) openssl \<Rightarrow> TPMS_POLICYNAMEHASH \<Rightarrow> UINT16 \<Rightarrow> DIGEST_VALUES \<Rightarrow> 'w \<Rightarrow>
     (TSS2_RC \<times> TPMS_POLICYNAMEHASH \<times> DIGEST_VALUES \<times> 'w) option" where
  "ifapi_calculate_policy_name_hash S policy hashAlg dv w =
     (let hash_size = ifapi_hash_get_digest_size hashAlg in
      if hash_size = 0 then Some (TSS2_FAPI_RC_BAD_VALUE, policy, dv, w)
      else
        (case hash_into S hashAlg (name_items policy) (TPM2B_buffer (POLICYNAMEHASH_nameHash policy)) hash_size w of
           None \<Rightarrow> None
         | Some (r, d, n, w) \<Rightarrow>
             let nameHash = (POLICYNAMEHASH_nameHash policy)\<lparr>TPM2B_buffer := d\<rparr> in
             if r \<noteq> 0 then Some (r, policy\<lparr>POLICYNAMEHASH_nameHash := nameHash\<rparr>, dv, w)
             else
               let nameHash = nameHash\<lparr>TPM2B_size := of_nat n\<rparr> in
               map_option (\<lambda>(r, dv, w). (r, policy\<lparr>POLICYNAMEHASH_nameHash := nameHash\<rparr>, dv, w))
                 (ifapi_calculate_policy_digest_hash S nameHash hashAlg TPM2_CC_PolicyNameHash dv w)))"

definition ifapi_calculate_policy_cp_hash :: "('o, 'w) openssl \<Rightarrow> TPM2B \<Rightarrow> UINT16 \<Rightarrow> 'w calc" where
  "ifapi_calculate_policy_cp_hash S cpHash hashAlg = ifapi_calculate_policy_digest_hash S cpHash hashAlg TPM2_CC_PolicyCpHash"

definition ifapi_calculate_policy_locality :: "('o, 'w) openssl \<Rightarrow> BYTE \<Rightarrow> UINT16 \<Rightarrow> 'w calc" where
  "ifapi_calculate_policy_locality S locality hashAlg = with_digest hashAlg
     (update_digest S hashAlg [CC TPM2_CC_PolicyLocality, HASH_UPDATE Tss2_MU_BYTE_Marshal 1 locality])"

definition ifapi_calculate_policy_nv_written :: "('o, 'w) openssl \<Rightarrow> BYTE \<Rightarrow> UINT16 \<Rightarrow> 'w calc" where
  "ifapi_calculate_policy_nv_written S writtenSet hashAlg = with_digest hashAlg
     (update_digest S hashAlg [CC TPM2_CC_PolicyNvWritten, HASH_UPDATE Tss2_MU_BYTE_Marshal 1 writtenSet])"

text \<open>Here the size of the digests is not looked up: the first hash delivers it.\<close>

definition ifapi_calculate_policy_nv :: "('o, 'w) openssl \<Rightarrow> TPMS_POLICYNV \<Rightarrow> UINT16 \<Rightarrow> 'w calc" where
  "ifapi_calculate_policy_nv S policy hashAlg dv w =
     (case ifapi_nv_get_name S (written (POLICYNV_nvPublic policy)) w of
        None \<Rightarrow> None
      | Some (r, nv_name, w) \<Rightarrow>
          if r \<noteq> 0 then Some (r, dv, w)
          else
            (case get_policy_digest_idx dv hashAlg of
               None \<Rightarrow> None
             | Some (r, digest_idx, dv) \<Rightarrow>
                 if r \<noteq> 0 then Some (r, dv, w)
                 else
                   (case hash_into S hashAlg
                           (operand_items (POLICYNV_operandB policy) (POLICYNV_offset policy) (POLICYNV_operation policy))
                           (TPM2B_buffer (zero_TPM2B 64)) 0 w of
                      None \<Rightarrow> None
                    | Some (r, nv_hash, hash_size, w) \<Rightarrow>
                        if r \<noteq> 0 then Some (r, dv, w)
                        else update_digest S hashAlg
                          [CC TPM2_CC_PolicyNV, HASH_UPDATE_BUFFER nv_hash hash_size,
                           HASH_UPDATE_BUFFER (TPM2B_buffer nv_name) (unat (TPM2B_size nv_name))] hash_size digest_idx dv w)))"

definition ifapi_calculate_policy_template :: "('o, 'w) openssl \<Rightarrow> TPMS_POLICYTEMPLATE \<Rightarrow> UINT16 \<Rightarrow> 'w calc" where
  "ifapi_calculate_policy_template S policy hashAlg = with_digest hashAlg (\<lambda>hash_size digest_idx dv w.
     let finish = (\<lambda>(h :: BYTE list) n w. update_digest S hashAlg [CC TPM2_CC_PolicyTemplate, HASH_UPDATE_BUFFER h n] hash_size digest_idx dv w) in
     if TPM2B_size (POLICYTEMPLATE_templateHash policy) = 0 then
       (case Tss2_MU_TPMT_PUBLIC_Marshal (Some (TPM2B_SUBTYPE_member (POLICYTEMPLATE_templatePublic policy)))
               (Some (replicate (sizeof ct_TPM2B_PUBLIC) 0)) (of_nat (sizeof ct_TPMT_PUBLIC)) (Some 0) of
          Some (r, Some buffer, Some offset) \<Rightarrow>
            if r \<noteq> 0 then Some (r, dv, w)
            else
              (case hash_into S hashAlg [HASH_UPDATE_BUFFER buffer (unat offset)] (TPM2B_buffer (zero_TPM2B 64)) 0 w of
                 None \<Rightarrow> None
               | Some (r, h, n, w) \<Rightarrow> if r \<noteq> 0 then Some (r, dv, w) else finish h n w)
        | _ \<Rightarrow> None)
     else finish (TPM2B_buffer (POLICYTEMPLATE_templateHash policy)) (unat (TPM2B_size (POLICYTEMPLATE_templateHash policy))) w)"

section \<open>Elements and branches\<close>

text \<open>All cases of the switch but \<open>POLICYOR\<close>; a union that holds another member than the type says is a fault.\<close>

definition keep_element :: "TPMU_POLICYELEMENT \<Rightarrow> (TSS2_RC \<times> DIGEST_VALUES \<times> 'w) option \<Rightarrow>
    (TSS2_RC \<times> TPMU_POLICYELEMENT \<times> DIGEST_VALUES \<times> 'w) option" where
  "keep_element u = map_option (\<lambda>(r, dv, w). (r, u, dv, w))"

definition calculate_element :: "('o, 'w) openssl \<Rightarrow> UINT16 \<Rightarrow> UINT32 \<Rightarrow> TPMU_POLICYELEMENT \<Rightarrow> DIGEST_VALUES \<Rightarrow> 'w \<Rightarrow>
    (TSS2_RC \<times> TPMU_POLICYELEMENT \<times> DIGEST_VALUES \<times> 'w) option" where
  "calculate_element S hash_alg t u dv w =
     (if t = POLICYPHYSICALPRESENCE then keep_element u (ifapi_calculate_policy_physical_presence S hash_alg dv w)
      else if t = POLICYAUTHVALUE then keep_element u (ifapi_calculate_policy_auth_value S hash_alg dv w)
      else if t = POLICYPASSWORD then keep_element u (ifapi_calculate_policy_password S hash_alg dv w)
      else if t = POLICYACTION then Some (TSS2_RC_SUCCESS, u, dv, w)
      else if t \<notin> set [POLICYPCR, POLICYSIGNED, POLICYDUPLICATIONSELECT, POLICYAUTHORIZENV, POLICYAUTHORIZE, POLICYSECRET, POLICYNV,
                       POLICYNVWRITTEN, POLICYCOUNTERTIMER, POLICYCOMMANDCODE, POLICYNAMEHASH, POLICYCPHASH, POLICYLOCALITY, POLICYTEMPLATE]
      then Some (TSS2_FAPI_RC_BAD_VALUE, u, dv, w)
      else
        (case u of
           PolicyPCR p \<Rightarrow> if t = POLICYPCR then keep_element u (ifapi_compute_policy_pcr S p hash_alg dv w) else None
         | PolicySigned p \<Rightarrow> if t = POLICYSIGNED then keep_element u (ifapi_calculate_policy_signed S p hash_alg dv w) else None
         | PolicyDuplicationSelect p \<Rightarrow>
             if t = POLICYDUPLICATIONSELECT then keep_element u (ifapi_calculate_policy_duplicate S p hash_alg dv w) else None
         | PolicyAuthorizeNv p \<Rightarrow>
             if t = POLICYAUTHORIZENV
             then keep_element (PolicyAuthorizeNv (written p)) (ifapi_calculate_policy_authorize_nv S p hash_alg dv w) else None
         | PolicyAuthorize p \<Rightarrow> if t = POLICYAUTHORIZE then keep_element u (ifapi_calculate_policy_authorize S p hash_alg dv w) else None
         | PolicySecret p \<Rightarrow> if t = POLICYSECRET then keep_element u (ifapi_calculate_policy_secret S p hash_alg dv w) else None
         | PolicyNV p \<Rightarrow>
             if t = POLICYNV
             then keep_element (PolicyNV (p\<lparr>POLICYNV_nvPublic := written (POLICYNV_nvPublic p)\<rparr>)) (ifapi_calculate_policy_nv S p hash_alg dv w)
             else None
         | PolicyNvWritten p \<Rightarrow> if t = POLICYNVWRITTEN then keep_element u (ifapi_calculate_policy_nv_written S p hash_alg dv w) else None
         | PolicyCounterTimer p \<Rightarrow>
             if t = POLICYCOUNTERTIMER then keep_element u (ifapi_calculate_policy_counter_timer S p hash_alg dv w) else None
         | PolicyCommandCode p \<Rightarrow>
             if t = POLICYCOMMANDCODE then keep_element u (ifapi_calculate_policy_command_code S p hash_alg dv w) else None
         | PolicyNameHash p \<Rightarrow>
             if t = POLICYNAMEHASH
             then map_option (\<lambda>(r, p, dv, w). (r, PolicyNameHash p, dv, w)) (ifapi_calculate_policy_name_hash S p hash_alg dv w)
             else None
         | PolicyCpHash p \<Rightarrow> if t = POLICYCPHASH then keep_element u (ifapi_calculate_policy_cp_hash S p hash_alg dv w) else None
         | PolicyLocality p \<Rightarrow> if t = POLICYLOCALITY then keep_element u (ifapi_calculate_policy_locality S p hash_alg dv w) else None
         | PolicyTemplate p \<Rightarrow> if t = POLICYTEMPLATE then keep_element u (ifapi_calculate_policy_template S p hash_alg dv w) else None
         | _ \<Rightarrow> None))"

text \<open>
  The second half of \<open>ifapi_calculate_policy_or\<close>.  The \<open>memset\<close> starts at the \<open>TPMT_HA\<close>, that is two bytes
  before the digest.
\<close>

definition reset_HA :: "nat \<Rightarrow> HA \<Rightarrow> HA" where
  "reset_HA hash_size h =
     \<lparr>HA_hashAlg = 0, HA_digest = patch (HA_digest h) 0 (replicate (hash_size - 2) 0)\<rparr>"

fun or_updates :: "('o, 'w) openssl \<Rightarrow> 'o IFAPI_CRYPTO_CONTEXT option \<Rightarrow> nat \<Rightarrow> nat \<Rightarrow> TPMS_POLICYBRANCH list \<Rightarrow> 'w calc" where
  "or_updates S context hash_size digest_idx [] dv w = Some (TSS2_RC_SUCCESS, dv, w)"
| "or_updates S context hash_size digest_idx (TPMS_POLICYBRANCH bd es # bs) dv w =
     (if length (DIGEST_VALUES_digests bd) \<le> digest_idx then None
      else (case mem_read (digest_at bd digest_idx) 0 hash_size of
          None \<Rightarrow> None
        | Some d \<Rightarrow>
            (case ifapi_crypto_hash_update S context d w of
               None \<Rightarrow> None
             | Some (r, w) \<Rightarrow>
                 let dv = dv\<lparr>DIGEST_VALUES_count := DIGEST_VALUES_count bd\<rparr> in
                 if r \<noteq> 0 then Some (r, dv, w) else or_updates S context hash_size digest_idx bs dv w)))"

definition or_digest :: "('o, 'w) openssl \<Rightarrow> UINT16 \<Rightarrow> nat \<Rightarrow> nat \<Rightarrow> TPMS_POLICYBRANCH list \<Rightarrow> 'w calc" where
  "or_digest S hash_alg hash_size digest_idx branches dv w =
     (if length (DIGEST_VALUES_digests dv) \<le> digest_idx then None
      else
        let dv = set_HA digest_idx (reset_HA hash_size) dv in
        case ifapi_crypto_hash_start S hash_alg w of
          (r, context, w) \<Rightarrow>
            if r \<noteq> 0 then Some (r, dv, w)
            else
              (case hash_items S context [HASH_UPDATE_BUFFER (digest_at dv digest_idx) hash_size, CC TPM2_CC_PolicyOR] w of
                 None \<Rightarrow> None
               | Some (r, w) \<Rightarrow>
                   if r \<noteq> 0 then Some (r, dv, ifapi_crypto_hash_abort S context w)
                   else
                     (case or_updates S context hash_size digest_idx branches dv w of
                        None \<Rightarrow> None
                      | Some (r, dv, w) \<Rightarrow>
                          if r \<noteq> 0 then Some (r, dv, ifapi_crypto_hash_abort S context w)
                          else
                            let dv = set_HA digest_idx (\<lambda>h. h\<lparr>HA_hashAlg := hash_alg\<rparr>) dv in
                            map_option (\<lambda>(r, d, n, w). (r, set_HA digest_idx (\<lambda>h. h\<lparr>HA_digest := d\<rparr>) dv, w))
                              (ifapi_crypto_hash_finish S context (digest_at dv digest_idx) hash_size w))))"

fun ifapi_calculate_policy ::
    "('o, 'w) openssl \<Rightarrow> UINT16 \<Rightarrow> nat \<Rightarrow> nat \<Rightarrow> TPMT_POLICYELEMENT list \<Rightarrow> DIGEST_VALUES \<Rightarrow> 'w \<Rightarrow>
     (TSS2_RC \<times> TPMT_POLICYELEMENT list \<times> DIGEST_VALUES \<times> 'w) option"
and or_branches ::
    "('o, 'w) openssl \<Rightarrow> UINT16 \<Rightarrow> nat \<Rightarrow> nat \<Rightarrow> TPMS_POLICYBRANCH list \<Rightarrow> DIGEST_VALUES \<Rightarrow> 'w \<Rightarrow>
     (TSS2_RC \<times> TPMS_POLICYBRANCH list \<times> 'w) option" where
  "ifapi_calculate_policy S hash_alg hash_size digest_idx [] dv w = Some (TSS2_RC_SUCCESS, [], dv, w)"
| "ifapi_calculate_policy S hash_alg hash_size digest_idx (TPMT_POLICYELEMENT t ed u # es) dv w =
     (case copy_policy_digest ed dv digest_idx hash_size of
        None \<Rightarrow> None
      | Some ed \<Rightarrow>
          (case (if t = POLICYOR then
                   (case u of
                      PolicyOr bs \<Rightarrow>
                        (case or_branches S hash_alg hash_size digest_idx bs ed w of
                           None \<Rightarrow> None
                         | Some (r, bs, w) \<Rightarrow>
                             if r \<noteq> 0 then Some (r, PolicyOr bs, ed, w)
                             else keep_element (PolicyOr bs) (or_digest S hash_alg hash_size digest_idx bs ed w))
                    | _ \<Rightarrow> None)
                 else calculate_element S hash_alg t u ed w) of
             None \<Rightarrow> None
           | Some (r, u, ed, w) \<Rightarrow>
               if r \<noteq> 0 then Some (r, TPMT_POLICYELEMENT t ed u # es, dv, w)
               else
                 (case copy_policy_digest dv ed digest_idx hash_size of
                    None \<Rightarrow> None
                  | Some dv \<Rightarrow>
                      map_option (\<lambda>(r, es, dv, w). (r, TPMT_POLICYELEMENT t ed u # es, dv, w))
                        (ifapi_calculate_policy S hash_alg hash_size digest_idx es dv w))))"
| "or_branches S hash_alg hash_size digest_idx [] dv w = Some (TSS2_RC_SUCCESS, [], w)"
| "or_branches S hash_alg hash_size digest_idx (TPMS_POLICYBRANCH bd es # bs) dv w =
     (case copy_policy_digest bd dv digest_idx hash_size of
        None \<Rightarrow> None
      | Some bd \<Rightarrow>
          (case ifapi_calculate_policy S hash_alg hash_size digest_idx es bd w of
             None \<Rightarrow> None
           | Some (r, es, bd, w) \<Rightarrow>
               if r \<noteq> 0 then Some (r, TPMS_POLICYBRANCH bd es # bs, w)
               else map_option (\<lambda>(r, bs, w). (r, TPMS_POLICYBRANCH bd es # bs, w))
                      (or_branches S hash_alg hash_size digest_idx bs dv w)))"

text \<open>
  The end of \<open>ifapi_calculate_tree_ex\<close>: a digest that is already there is kept, a new one starts at zero.
  When the table is full the function returns without an error.
\<close>

definition calculate_tree_digest ::
    "('o, 'w) openssl \<Rightarrow> UINT16 \<Rightarrow> TPMT_POLICYELEMENT list \<Rightarrow> DIGEST_VALUES \<Rightarrow> 'w \<Rightarrow>
     (TSS2_RC \<times> nat option \<times> TPMT_POLICYELEMENT list \<times> DIGEST_VALUES \<times> 'w) option" where
  "calculate_tree_digest S hash_alg es dv w =
     (let hash_size = ifapi_hash_get_digest_size hash_alg; n = unat (DIGEST_VALUES_count dv); ds = DIGEST_VALUES_digests dv in
      if hash_size = 0 then Some (TSS2_FAPI_RC_BAD_VALUE, None, es, dv, w)
      else if length ds < n then None
      else
        (case find (\<lambda>i. HA_hashAlg (ds ! i) = hash_alg) (rev [0..<n]) of
           Some i \<Rightarrow> Some (TSS2_RC_SUCCESS, Some i, es, dv, w)
         | None \<Rightarrow>
             if TPM2_NUM_PCR_BANKS \<le> n then Some (TSS2_RC_SUCCESS, None, es, dv, w)
             else if length ds \<le> n then None
             else
               let dv = (set_HA n (\<lambda>h. h\<lparr>HA_hashAlg := hash_alg, HA_digest := replicate (sizeof ct_TPMU_HA) 0\<rparr>) dv)
                          \<lparr>DIGEST_VALUES_count := DIGEST_VALUES_count dv + 1\<rparr>
               in map_option (\<lambda>(r, es, dv, w). (r, Some n, es, dv, w))
                    (ifapi_calculate_policy S hash_alg hash_size n es dv w)))"

end
