(* ===== verification/Fapi_Policy_Contract.thy ===== *)
theory Fapi_Policy_Contract
  imports Fapi_Policy
begin

text \<open>
  What the functions of \<open>Fapi_Policy\<close> compute, for an OpenSSL with the documented meaning: the hash of
  the items, and for each kind of policy the new digest.
\<close>

section \<open>OpenSSL\<close>

text \<open>
  \<open>V\<close> shows the algorithm of a hash context and the bytes it has been given, \<open>N\<close> the name a fetched
  algorithm was asked for, \<open>H\<close> is the hash.  A digest has at most \<open>EVP_MAX_MD_SIZE\<close> bytes.
\<close>

definition openssl_digests ::
    "('o, 'w) openssl \<Rightarrow> ('w \<Rightarrow> 'o \<Rightarrow> (string \<times> BYTE list) option) \<Rightarrow> ('o \<Rightarrow> string) \<Rightarrow> (string \<Rightarrow> BYTE list \<Rightarrow> BYTE list) \<Rightarrow> bool" where
  "openssl_digests S V N H \<longleftrightarrow>
     (\<forall>lib name w md w'. EVP_MD_fetch S lib (Some name) w = (Some md, w') \<longrightarrow> N md = name) \<and>
     (\<forall>e md w w'. EVP_DigestInit_ex S e md w = (1, w') \<longrightarrow> V w' e = Some (N md, [])) \<and>
     (\<forall>e x w w' n bs. EVP_DigestUpdate S e x w = (1, w') \<longrightarrow> V w e = Some (n, bs) \<longrightarrow> V w' e = Some (n, bs @ x)) \<and>
     (\<forall>e w i d w' n bs. EVP_DigestFinal_ex S e w = (i, d, w') \<longrightarrow> V w e = Some (n, bs) \<longrightarrow>
        length d \<le> 64 \<and> (i = 1 \<longrightarrow> d = H n bs)) \<and>
     (\<forall>alg name bs. get_hash_md alg = Some name \<longrightarrow> length (H name bs) = ifapi_hash_get_digest_size alg)"

text \<open>No call fails.\<close>

definition openssl_works :: "('o, 'w) openssl \<Rightarrow> bool" where
  "openssl_works S \<longleftrightarrow>
     (\<forall>w. fst (ossl_calloc S w)) \<and> (\<forall>w. fst (OSSL_LIB_CTX_new S w) \<noteq> None) \<and>
     (\<forall>lib name w. fst (EVP_MD_fetch S lib (Some name) w) \<noteq> None) \<and> (\<forall>w. fst (EVP_MD_CTX_create S w) \<noteq> None) \<and>
     (\<forall>e md w. fst (EVP_DigestInit_ex S e md w) = 1) \<and> (\<forall>e x w. fst (EVP_DigestUpdate S e x w) = 1) \<and>
     (\<forall>e w. fst (EVP_DigestFinal_ex S e w) = 1)"

definition hashes :: "UINT16 \<Rightarrow> string \<Rightarrow> nat \<Rightarrow> bool" where
  "hashes alg name n \<longleftrightarrow> get_hash_md alg = Some name \<and> ifapi_hash_get_digest_size alg = n"

lemma hashes_size: "hashes alg name n \<Longrightarrow> n \<in> {20, 32, 48, 64}"
  by (auto simp: hashes_def get_hash_md_def ifapi_hash_get_digest_size_def split: if_splits)

lemma digests_length: "openssl_digests S V N H \<Longrightarrow> hashes alg name n \<Longrightarrow> length (H name bs) = n"
  unfolding openssl_digests_def hashes_def by blast

text \<open>A call that ends, with a success that satisfies \<open>Q\<close>, and with a success if \<open>ok\<close>.\<close>

definition yields :: "bool \<Rightarrow> (TSS2_RC \<times> 'x) option \<Rightarrow> ('x \<Rightarrow> bool) \<Rightarrow> bool" where
  "yields ok m Q \<longleftrightarrow> (\<exists>r x. m = Some (r, x) \<and> (r = 0 \<longrightarrow> Q x) \<and> (ok \<longrightarrow> r = 0))"

lemma yields_Some [simp]: "yields ok (Some (r, x)) Q \<longleftrightarrow> (r = 0 \<longrightarrow> Q x) \<and> (ok \<longrightarrow> r = 0)"
  by (simp add: yields_def)

lemma yieldsE:
  assumes "yields ok m Q"
  obtains r x where "m = Some (r, x)" "ok \<Longrightarrow> r = 0" "r = 0 \<Longrightarrow> Q x"
  using assms unfolding yields_def by blast

lemma yields_map:
  "yields ok m (\<lambda>x. Q (f x)) \<Longrightarrow> yields ok (map_option (\<lambda>(r, x). (r, f x)) m) Q"
  by (auto simp: yields_def)

lemma yields_bind:
  assumes "yields ok m P" "\<And>x. P x \<Longrightarrow> yields ok (f x) Q"
    and "\<And>x. m = Some (0, x) \<Longrightarrow> F = f x" "\<And>r x. m = Some (r, x) \<Longrightarrow> r \<noteq> 0 \<Longrightarrow> \<exists>y. F = Some (r, y)"
  shows "yields ok F Q"
proof -
  from assms(1) obtain r x where m: "m = Some (r, x)" "ok \<Longrightarrow> r = 0" "r = 0 \<Longrightarrow> P x" by (rule yieldsE) blast
  show ?thesis
  proof (cases "r = 0")
    case True
    with m assms(2,3) show ?thesis by simp
  next
    case False
    with assms(4) [OF m(1)] m show ?thesis by auto
  qed
qed

section \<open>Hashing\<close>

definition hashing :: "('w \<Rightarrow> 'o \<Rightarrow> (string \<times> BYTE list) option) \<Rightarrow> string \<Rightarrow> nat \<Rightarrow> BYTE list \<Rightarrow> 'o IFAPI_CRYPTO_CONTEXT option \<Rightarrow> 'w \<Rightarrow> bool" where
  "hashing V name n bs context w \<longleftrightarrow>
     (\<exists>c e. context = Some c \<and> CRYPTO_osslContext c = Some e \<and> CRYPTO_hashSize c = n \<and> V w e = Some (name, bs))"

lemma hash_start_yields:
  assumes "openssl_digests S V N H" "hashes alg name n"
  shows "yields (openssl_works S) (Some (ifapi_crypto_hash_start S alg w)) (\<lambda>(context, w). hashing V name n [] context w)"
proof -
  from hashes_size [OF assms(2)] have "n \<noteq> 0" by auto
  with assms show ?thesis
    unfolding ifapi_crypto_hash_start_def openssl_works_def openssl_digests_def hashes_def
    by (auto simp: hashing_def Let_def yields_def split: prod.splits option.splits)
       (metis fst_conv option.distinct(1))+
qed

lemma hash_update_yields:
  assumes "openssl_digests S V N H" "hashing V name n bs context w"
  shows "yields (openssl_works S) (ifapi_crypto_hash_update S context x w) (\<lambda>w. hashing V name n (bs @ x) context w)"
proof -
  from assms(2) obtain c e where c: "context = Some c" "CRYPTO_osslContext c = Some e" "CRYPTO_hashSize c = n" "V w e = Some (name, bs)"
    by (auto simp: hashing_def)
  obtain i w' where u: "EVP_DigestUpdate S e x w = (i, w')" by fastforce
  have "V w' e = Some (name, bs @ x)" if "i = 1" using assms(1) u c(4) that unfolding openssl_digests_def by blast
  moreover have "i = 1" if "openssl_works S" using that u unfolding openssl_works_def by (metis fst_conv)
  ultimately show ?thesis using c u by (auto simp: ifapi_crypto_hash_update_def hashing_def)
qed

text \<open>Items that can all be read.\<close>

fun item_bytes :: "item list \<Rightarrow> BYTE list \<Rightarrow> bool" where
  "item_bytes [] bs \<longleftrightarrow> bs = []"
| "item_bytes (x # xs) bs \<longleftrightarrow> (\<exists>a b. x = Some (TSS2_RC_SUCCESS, a) \<and> item_bytes xs b \<and> bs = a @ b)"

lemma items_Cons: "x = Some (0, a) \<Longrightarrow> item_bytes items bs \<Longrightarrow> item_bytes (x # items) (a @ bs)"
  by auto

lemma items_append: "item_bytes xs a \<Longrightarrow> item_bytes ys b \<Longrightarrow> item_bytes (xs @ ys) (a @ b)"
  by (induction xs arbitrary: a) (simp, force)

lemma items_concat: "(\<And>x. x \<in> set xs \<Longrightarrow> item_bytes (f x) (g x)) \<Longrightarrow> item_bytes (concat (map f xs)) (concat (map g xs))"
  by (induction xs) (auto intro!: items_append)

lemma items_map: "(\<And>x. x \<in> set xs \<Longrightarrow> f x = Some (0, g x)) \<Longrightarrow> item_bytes (map f xs) (concat (map g xs))"
  by (induction xs) (auto intro!: items_Cons)

lemma hash_items_yields:
  assumes "openssl_digests S V N H" "hashing V name n bs context w" "item_bytes items x"
  shows "yields (openssl_works S) (hash_items S context items w) (\<lambda>w. hashing V name n (bs @ x) context w)"
  using assms(2,3)
proof (induction items arbitrary: bs w x)
  case (Cons i items)
  from Cons.prems(2) obtain a x' where i: "i = Some (0, a)" "item_bytes items x'" "x = a @ x'" by auto
  show ?case
  proof (rule yields_bind [OF hash_update_yields [OF assms(1) Cons.prems(1), of a]])
    fix w assume "hashing V name n (bs @ a) context w"
    from Cons.IH [OF this i(2)] show "yields (openssl_works S) (hash_items S context items w) (\<lambda>w. hashing V name n (bs @ x) context w)"
      using i by simp
  qed (simp_all add: i)
qed simp

lemma hash_finish_yields:
  assumes "openssl_digests S V N H" "hashes alg name n" "hashing V name n bs context w" "64 \<le> length digest"
  shows "yields (openssl_works S) (ifapi_crypto_hash_finish S context digest m w) (\<lambda>(d, k, w). d = H name bs @ drop n digest \<and> k = n)"
proof -
  from assms(3) obtain c e where c: "context = Some c" "CRYPTO_osslContext c = Some e" "CRYPTO_hashSize c = n" "V w e = Some (name, bs)"
    by (auto simp: hashing_def)
  obtain i d w' where u: "EVP_DigestFinal_ex S e w = (i, d, w')" by (cases "EVP_DigestFinal_ex S e w") auto
  have d: "length d \<le> 64" "i = 1 \<Longrightarrow> d = H name bs" using assms(1) u c(4) unfolding openssl_digests_def by blast+
  have "i = 1" if "openssl_works S" using that u unfolding openssl_works_def by (metis fst_conv)
  with c u d assms(4) digests_length [OF assms(1,2), of bs] show ?thesis
    by (auto simp: ifapi_crypto_hash_finish_def patch_def Let_def)
qed

lemma hash_into_yields:
  assumes "openssl_digests S V N H" "hashes alg name n" "item_bytes items bs" "64 \<le> length digest"
  shows "yields (openssl_works S) (hash_into S alg items digest m w) (\<lambda>(d, k, w). d = H name bs @ drop n digest \<and> k = n)"
proof (rule yields_bind [OF hash_start_yields [OF assms(1,2), of w]])
  fix x assume x: "case x of (context, w) \<Rightarrow> hashing V name n [] context w"
  obtain ctx w1 where [simp]: "x = (ctx, w1)" by fastforce
  have h: "hashing V name n [] ctx w1" using x by simp
  let ?f = "\<lambda>(context, w). case hash_items S context items w of None \<Rightarrow> None
    | Some (r, w) \<Rightarrow> if r \<noteq> 0 then Some (r, digest, m, ifapi_crypto_hash_abort S context w) else ifapi_crypto_hash_finish S context digest m w"
  show "yields (openssl_works S) (?f x) (\<lambda>(d, k, w). d = H name bs @ drop n digest \<and> k = n)"
  proof (rule yields_bind [OF hash_items_yields [OF assms(1) h assms(3)]])
    fix w assume "hashing V name n ([] @ bs) ctx w"
    from hash_finish_yields [OF assms(1,2) this assms(4)]
    show "yields (openssl_works S) (ifapi_crypto_hash_finish S ctx digest m w) (\<lambda>(d, k, w). d = H name bs @ drop n digest \<and> k = n)" by simp
  qed simp_all
qed (auto simp: hash_into_def split: prod.splits)

text \<open>What the two macros feed.\<close>

lemma HASH_UPDATE_BUFFER_reads [simp]: "n \<le> length b \<Longrightarrow> HASH_UPDATE_BUFFER b n = Some (0, take n b)"
  by (simp add: HASH_UPDATE_BUFFER_def mem_read_def seg_def)

lemma HASH_UPDATE_wire:
  assumes "marshaler F src valid wire lim" "valid x" "lim \<le> n" "n < 2 ^ 64"
  shows "HASH_UPDATE F n x = Some (0, wire x)"
proof -
  from marshaler.wire_le [OF assms(1,2)] assms(3,4) have l: "length (wire x) \<le> n" "unat (of_nat n :: size_t) = n"
    and m: "unat (of_nat (length (wire x)) :: size_t) = length (wire x)" by (simp_all add: unat_of_nat)
  then have "F x (Some (replicate n 0)) (of_nat n) (Some 0) =
      Some (0, Some (patch (replicate n 0) 0 (wire x)), Some (0 + of_nat (length (wire x))))"
    using marshaler.marshal_fit [OF assms(1,2), of "of_nat n" "replicate n 0" 0] by (simp add: fits_def)
  with l m show ?thesis by (simp add: HASH_UPDATE_def patch_def)
qed

section \<open>Digest lists\<close>

definition DIGEST_VALUES_ok :: "UINT16 \<Rightarrow> nat \<Rightarrow> DIGEST_VALUES \<Rightarrow> bool" where
  "DIGEST_VALUES_ok alg i dv \<longleftrightarrow> length (DIGEST_VALUES_digests dv) = 16 \<and>
     (\<forall>j < 16. length (digest_at dv j) = 64) \<and>
     (\<forall>j < i. HA_hashAlg (DIGEST_VALUES_digests dv ! j) \<noteq> alg)"

text \<open>Entry \<open>i\<close> is the one for the hash algorithm.\<close>

definition slot :: "UINT16 \<Rightarrow> nat \<Rightarrow> DIGEST_VALUES \<Rightarrow> bool" where
  "slot alg i dv \<longleftrightarrow> DIGEST_VALUES_ok alg i dv \<and> i < unat (DIGEST_VALUES_count dv) \<and> unat (DIGEST_VALUES_count dv) \<le> 16 \<and>
     HA_hashAlg (DIGEST_VALUES_digests dv ! i) = alg"

lemma slot_length:
  assumes "slot alg i dv"
  shows "i < length (DIGEST_VALUES_digests dv)" "length (digest_at dv i) = 64"
  using assms by (simp_all add: slot_def DIGEST_VALUES_ok_def)

lemma get_policy_digest_idx_slot:
  assumes "slot alg i dv" shows "get_policy_digest_idx dv alg = Some (0, i, dv)"
proof -
  have "find (\<lambda>j. HA_hashAlg (DIGEST_VALUES_digests dv ! j) = alg) [0..<unat (DIGEST_VALUES_count dv)] = Some i"
    unfolding find_Some_iff using assms by (intro exI [of _ i]) (auto simp: slot_def DIGEST_VALUES_ok_def)
  with assms show ?thesis by (simp add: get_policy_digest_idx_def slot_def DIGEST_VALUES_ok_def min_absorb1)
qed

lemma with_digest_slot:
  assumes "slot alg i dv" "hashes alg name n"
  shows "with_digest alg f dv w = f n i dv w"
  using hashes_size [OF assms(2)] assms by (auto simp: with_digest_def get_policy_digest_idx_slot hashes_def)

lemma slot_set_HA [simp]:
  assumes "slot alg i dv" "length d = 64"
  shows "slot alg i (set_HA i (\<lambda>h. h\<lparr>HA_digest := d\<rparr>) dv)" "digest_at (set_HA i (\<lambda>h. h\<lparr>HA_digest := d\<rparr>) dv) i = d"
  using assms slot_length [OF assms(1)]
  by (auto simp: slot_def DIGEST_VALUES_ok_def set_HA_def nth_list_update)

lemma copy_policy_digest_slot:
  assumes "slot alg i src" "DIGEST_VALUES_ok alg i dest" "n \<le> 64"
  obtains dv where "copy_policy_digest dest src i n = Some dv" "slot alg i dv" "take n (digest_at dv i) = take n (digest_at src i)"
proof -
  have l: "length (digest_at dest i) = 64" "i < 16"
    using assms(1,2) by (simp_all add: slot_def DIGEST_VALUES_ok_def)
  let ?d = "patch (digest_at dest i) 0 (take n (digest_at src i))"
  let ?dv = "(set_HA i (\<lambda>h. h\<lparr>HA_digest := ?d, HA_hashAlg := alg\<rparr>) dest)\<lparr>DIGEST_VALUES_count := DIGEST_VALUES_count src\<rparr>"
  show thesis
  proof (rule that)
    show "copy_policy_digest dest src i n = Some ?dv"
      using assms l slot_length [OF assms(1)]
      by (simp add: copy_policy_digest_def mem_read_def mem_write_def seg_def slot_def DIGEST_VALUES_ok_def)
    show "slot alg i ?dv"
      using assms l slot_length [OF assms(1)]
      by (auto simp: slot_def DIGEST_VALUES_ok_def set_HA_def nth_list_update)
    show "take n (digest_at ?dv i) = take n (digest_at src i)"
      using assms l slot_length [OF assms(1)] by (simp add: set_HA_def patch_def DIGEST_VALUES_ok_def)
  qed
qed

text \<open>The contract of the calculations: they turn the digest \<open>d\<close> into \<open>f d\<close>.\<close>

definition extends :: "bool \<Rightarrow> UINT16 \<Rightarrow> nat \<Rightarrow> nat \<Rightarrow> 'w calc \<Rightarrow> (BYTE list \<Rightarrow> BYTE list) \<Rightarrow> bool" where
  "extends ok alg n i F f \<longleftrightarrow> (\<forall>dv w. slot alg i dv \<longrightarrow>
     yields ok (F dv w) (\<lambda>(dv', w'). slot alg i dv' \<and> take n (digest_at dv' i) = f (take n (digest_at dv i))))"

lemma extendsI:
  "(\<And>dv w. slot alg i dv \<Longrightarrow>
     yields ok (F dv w) (\<lambda>(dv', w'). slot alg i dv' \<and> take n (digest_at dv' i) = f (take n (digest_at dv i)))) \<Longrightarrow>
   extends ok alg n i F f"
  by (simp add: extends_def)

lemma extends_update_digest:
  assumes "openssl_digests S V N H" "hashes alg name n" "item_bytes items bs"
  shows "extends (openssl_works S) alg n i (update_digest S alg items n i) (\<lambda>d. H name (d @ bs))"
proof (rule extendsI)
  fix dv w assume dv: "slot alg i dv"
  note l = slot_length [OF dv]
  have n: "n \<le> 64" using hashes_size [OF assms(2)] by auto
  have f: "item_bytes (HASH_UPDATE_BUFFER (digest_at dv i) n # items) (take n (digest_at dv i) @ bs)"
    using assms(3) l n by (intro items_Cons) simp_all
  have len: "length (H name x) = n" for x by (rule digests_length [OF assms(1,2)])
  show "yields (openssl_works S) (update_digest S alg items n i dv w)
      (\<lambda>(dv', w'). slot alg i dv' \<and> take n (digest_at dv' i) = H name (take n (digest_at dv i) @ bs))"
    by (rule yields_bind [OF hash_into_yields [OF assms(1,2) f, of "digest_at dv i" n w],
          where f = "\<lambda>(d, k, w). Some (0, set_HA i (\<lambda>h. h\<lparr>HA_digest := d\<rparr>) dv, w)"])
       (use dv l n len in \<open>auto simp: update_digest_def store_digest_def\<close>)
qed

lemma extends_with_digest:
  assumes "hashes alg name n" "extends ok alg n i (f n i) g"
  shows "extends ok alg n i (with_digest alg f) g"
  using assms by (simp add: extends_def with_digest_slot)

lemma HASH_UPDATE_wire_Some:
  assumes "marshaler (\<lambda>s. F (Some s)) src valid wire lim" "valid x" "lim \<le> n" "n < 2 ^ 64"
  shows "HASH_UPDATE F n (Some x) = Some (0, wire x)"
  using HASH_UPDATE_wire [OF assms] by (simp add: HASH_UPDATE_def)

lemma CC_bytes [simp]: "CC c = Some (0, be_bytes c)"
  by (rule HASH_UPDATE_wire [OF mu_TPM2_CC.marshaler_axioms]) simp_all

lemma UINT16_bytes [simp]: "HASH_UPDATE Tss2_MU_UINT16_Marshal 2 x = Some (0, be_bytes x)"
  by (rule HASH_UPDATE_wire [OF mu_UINT16.marshaler_axioms]) simp_all

lemma BYTE_bytes [simp]: "HASH_UPDATE Tss2_MU_BYTE_Marshal 1 x = Some (0, be_bytes x)"
  by (rule HASH_UPDATE_wire [OF mu_BYTE.marshaler_axioms]) simp_all

section \<open>The policies\<close>

definition TPM2B_ok :: "TPM2B \<Rightarrow> bool" where
  "TPM2B_ok t \<longleftrightarrow> unat (TPM2B_size t) \<le> length (TPM2B_buffer t)"

definition TPM2B_bytes :: "TPM2B \<Rightarrow> BYTE list" where
  "TPM2B_bytes t = take (unat (TPM2B_size t)) (TPM2B_buffer t)"

lemma TPM2B_item: "TPM2B_ok t \<Longrightarrow> HASH_UPDATE_BUFFER (TPM2B_buffer t) (unat (TPM2B_size t)) = Some (0, TPM2B_bytes t)"
  by (simp add: TPM2B_ok_def TPM2B_bytes_def)

lemma take_append_length: "length a = n \<Longrightarrow> take n (a @ b) = a"
  by simp

text \<open>The two steps of the policies with a key, where the second one is left out without a reference.\<close>

definition key_digest :: "(BYTE list \<Rightarrow> BYTE list) \<Rightarrow> UINT32 \<Rightarrow> BYTE list \<Rightarrow> BYTE list option \<Rightarrow> BYTE list \<Rightarrow> BYTE list" where
  "key_digest h cc name ref d =
     (let d = h (d @ be_bytes cc @ name) in case ref of None \<Rightarrow> d | Some r \<Rightarrow> h (d @ r))"

lemma key_param_yields:
  fixes S :: "('o, 'w) openssl"
  assumes "openssl_digests S V N H" "hashes alg name n" "length d = 64" "TPM2B_ok key" "\<And>r. ref = Some r \<Longrightarrow> TPM2B_ok r"
  shows "yields (openssl_works S) (calculate_policy_key_param S cc (Some key) ref n alg d w)
      (\<lambda>(d', w). length d' = 64 \<and> take n d' = key_digest (H name) cc (TPM2B_bytes key) (map_option TPM2B_bytes ref) (take n d))"
proof -
  have n: "n \<le> 64" using hashes_size [OF assms(2)] by auto
  have len: "length (H name x) = n" for x by (rule digests_length [OF assms(1,2)])
  have one: "item_bytes ([HASH_UPDATE_BUFFER d n, CC cc] @ (if unat (TPM2B_size key) > 0 then
      [HASH_UPDATE_BUFFER (TPM2B_buffer key) (unat (TPM2B_size key))] else [])) (take n d @ be_bytes cc @ TPM2B_bytes key)"
    using n assms(3) by (auto simp: TPM2B_item [OF assms(4)] TPM2B_bytes_def)
  let ?d = "H name (take n d @ be_bytes cc @ TPM2B_bytes key) @ drop n d"
  have two: "item_bytes [HASH_UPDATE_BUFFER ?d n, HASH_UPDATE_BUFFER (TPM2B_buffer r) (unat (TPM2B_size r))] (take n ?d @ TPM2B_bytes r)"
    if "ref = Some r" for r using len n assms(3) by (simp add: TPM2B_item [OF assms(5) [OF that]])
  let ?Q = "\<lambda>(d', w). length d' = 64 \<and> take n d' = key_digest (H name) cc (TPM2B_bytes key) (map_option TPM2B_bytes ref) (take n d)"
  let ?g = "\<lambda>(d, k, w). case ref of None \<Rightarrow> Some (0, d, w)
     | Some r \<Rightarrow> map_option (\<lambda>(r, d, n, w). (r, d, w)) (hash_into S alg
         [HASH_UPDATE_BUFFER d k, HASH_UPDATE_BUFFER (TPM2B_buffer r) (unat (TPM2B_size r))] d k w)"
  show ?thesis
  proof (rule yields_bind [OF hash_into_yields [OF assms(1,2) one, of d n w], where f = ?g])
    fix x :: "BYTE list \<times> nat \<times> 'w" assume x: "case x of (d', k, w) \<Rightarrow> d' = ?d \<and> k = n"
    then obtain w1 where x1: "x = (?d, n, w1)" by auto
    show "yields (openssl_works S) (?g x) ?Q"
    proof (cases ref)
      case None
      then show ?thesis using n len assms(3) by (simp add: x1 key_digest_def)
    next
      case (Some r)
      have l: "64 \<le> length ?d" using n len assms(3) by simp
      have "yields (openssl_works S) (map_option (\<lambda>(r, x). (r, (\<lambda>(d, k, w). (d, w)) x)) (hash_into S alg
          [HASH_UPDATE_BUFFER ?d n, HASH_UPDATE_BUFFER (TPM2B_buffer r) (unat (TPM2B_size r))] ?d n w1)) ?Q"
        by (rule yields_map, rule yieldsE [OF hash_into_yields [OF assms(1,2) two [OF Some] l, of n w1]])
           (use n len assms(3) Some in \<open>auto simp: key_digest_def\<close>)
      with Some show ?thesis by (simp add: x1 split_def)
    qed
  qed (use assms(3) in \<open>auto simp: calculate_policy_key_param_def split: option.splits\<close>)
qed

lemma extends_store:
  assumes "\<And>d w. length d = 64 \<Longrightarrow> yields ok (F d w) (\<lambda>(d', w). length d' = 64 \<and> take n d' = f (take n d))"
  shows "extends ok alg n i (\<lambda>dv w. store_digest i dv (F (digest_at dv i) w)) f"
proof (rule extendsI)
  fix dv w assume dv: "slot alg i dv"
  from assms [OF slot_length(2) [OF dv], of w] obtain r x where
    x: "F (digest_at dv i) w = Some (r, x)" "ok \<Longrightarrow> r = 0"
      "r = 0 \<Longrightarrow> (case x of (d', w) \<Rightarrow> length d' = 64 \<and> take n d' = f (take n (digest_at dv i)))"
    by (rule yieldsE) blast
  with dv show "yields ok (store_digest i dv (F (digest_at dv i) w))
      (\<lambda>(dv', w'). slot alg i dv' \<and> take n (digest_at dv' i) = f (take n (digest_at dv i)))"
    by (cases x) (auto simp: store_digest_def)
qed

lemma extends_key_param:
  assumes "openssl_digests S V N H" "hashes alg name n" "TPM2B_ok key" "\<And>r. ref = Some r \<Longrightarrow> TPM2B_ok r"
  shows "extends (openssl_works S) alg n i (key_param S cc (Some key) ref alg)
    (key_digest (H name) cc (TPM2B_bytes key) (map_option TPM2B_bytes ref))"
  unfolding key_param_def
  by (rule extends_with_digest [OF assms(2)], rule extends_store, rule key_param_yields [OF assms(1,2)])
     (use assms(3,4) in auto)

text \<open>What each kind of policy makes of the digest.\<close>

lemma extendsD:
  "extends ok alg n i F f \<Longrightarrow> slot alg i dv \<Longrightarrow>
   yields ok (F dv w) (\<lambda>(dv', w'). slot alg i dv' \<and> take n (digest_at dv' i) = f (take n (digest_at dv i)))"
  by (simp add: extends_def)

text \<open>A hash whose result is used by the rest of the function.\<close>

lemma hash_then:
  fixes S :: "('o, 'w) openssl"
  assumes "openssl_digests S V N H" "hashes alg name n" "item_bytes items bs" "64 \<le> length b"
    and f: "\<And>w. yields (openssl_works S) (f (H name bs @ drop n b) n w) Q"
  shows "yields (openssl_works S) (case hash_into S alg items b m w of None \<Rightarrow> None
     | Some (r, d, k, w) \<Rightarrow> if r \<noteq> 0 then Some (r, g r d k w) else f d k w) Q"
proof (rule yields_bind [OF hash_into_yields [OF assms(1-4), of m w], where f = "\<lambda>(d, k, w). f d k w"])
  fix x :: "BYTE list \<times> nat \<times> 'w" assume "case x of (d, k, w) \<Rightarrow> d = H name bs @ drop n b \<and> k = n"
  then show "yields (openssl_works S) ((\<lambda>(d, k, w). f d k w) x) Q" using f by (cases x) auto
qed auto

section \<open>Names of NV indices\<close>

abbreviation md :: "UINT16 \<Rightarrow> string" where
  "md alg \<equiv> the (get_hash_md alg)"

lemma hashes_md: "ifapi_hash_get_digest_size alg \<noteq> 0 \<Longrightarrow> hashes alg (md alg) (ifapi_hash_get_digest_size alg)"
  by (simp add: hashes_def get_hash_md_def ifapi_hash_get_digest_size_def split: if_splits)

definition nv_ok :: "TPMS_NV_PUBLIC \<Rightarrow> bool" where
  "nv_ok p \<longleftrightarrow> valid_TPMS_NV_PUBLIC p \<and>
     (TPMS_NV_PUBLIC_nameAlg p = TPM2_ALG_NULL \<or> ifapi_hash_get_digest_size (TPMS_NV_PUBLIC_nameAlg p) \<noteq> 0)"

definition nv_name :: "(string \<Rightarrow> BYTE list \<Rightarrow> BYTE list) \<Rightarrow> TPMS_NV_PUBLIC \<Rightarrow> BYTE list" where
  "nv_name H p = (if TPMS_NV_PUBLIC_nameAlg p = TPM2_ALG_NULL then []
     else be_bytes (TPMS_NV_PUBLIC_nameAlg p) @ H (md (TPMS_NV_PUBLIC_nameAlg p)) (wire_TPMS_NV_PUBLIC p))"

lemma marshal_name_alg:
  "2 \<le> length b \<Longrightarrow> Tss2_MU_TPMI_ALG_HASH_Marshal alg (Some b) 2 (Some 0) = Some (0, Some (be_bytes alg @ drop 2 b), Some 2)"
proof -
  assume "2 \<le> length b"
  with mu_TPMI_ALG_HASH.marshal_fit [where x = alg and bs = 2 and b = b and off = 0]
  have "Tss2_MU_TPMI_ALG_HASH_Marshal alg (Some b) 2 (Some 0) = Some (0, Some (be_bytes alg @ drop (Suc (Suc 0)) b), Some 2)"
    by (simp add: fits_def patch_def)
  then show ?thesis by (simp only: numeral_2_eq_2)
qed

lemma nv_get_name_yields:
  fixes S :: "('o, 'w) openssl"
  assumes "openssl_digests S V N H" "nv_ok p"
  shows "yields (openssl_works S) (ifapi_nv_get_name S p w) (\<lambda>(t, w). TPM2B_ok t \<and> TPM2B_bytes t = nv_name H p)"
proof (cases "TPMS_NV_PUBLIC_nameAlg p = TPM2_ALG_NULL")
  case True
  then show ?thesis by (simp add: ifapi_nv_get_name_def nv_name_def TPM2B_ok_def TPM2B_bytes_def)
next
  case False
  let ?alg = "TPMS_NV_PUBLIC_nameAlg p"
  let ?n = "ifapi_hash_get_digest_size ?alg"
  have h: "hashes ?alg (md ?alg) ?n" using assms(2) False by (simp add: hashes_md nv_ok_def)
  then have n: "?n \<in> {20, 32, 48, 64}" by (rule hashes_size)
  have i: "item_bytes [HASH_UPDATE Tss2_MU_TPMS_NV_PUBLIC_Marshal (sizeof ct_TPMS_NV_PUBLIC) (Some p)] (wire_TPMS_NV_PUBLIC p)"
    using HASH_UPDATE_wire_Some [OF mu_TPMS_NV_PUBLIC.marshaler_axioms, of p 80] assms(2) by (simp add: nv_ok_def)
  let ?b = "drop 2 (TPM2B_buffer (zero_TPM2B (sizeof ct_TPMU_NAME)))"
  have b: "64 \<le> length ?b" by (simp add: zero_TPM2B_def)
  show ?thesis unfolding ifapi_nv_get_name_def Let_def if_not_P [OF False]
  proof (rule hash_then [OF assms(1) h i b])
    fix w
    let ?d = "H (md ?alg) (wire_TPMS_NV_PUBLIC p) @ drop ?n ?b"
    have "length (H (md ?alg) (wire_TPMS_NV_PUBLIC p)) = ?n" by (rule digests_length [OF assms(1) h])
    then show "yields (openssl_works S)
        (case Tss2_MU_TPMI_ALG_HASH_Marshal ?alg (Some (take 2 (TPM2B_buffer (zero_TPM2B (sizeof ct_TPMU_NAME))) @ ?d)) 2 (Some 0) of
          Some (r, Some b, _) \<Rightarrow>
            if r \<noteq> 0 then Some (r, zero_TPM2B (sizeof ct_TPMU_NAME)\<lparr>TPM2B_buffer := b\<rparr>, w)
            else Some (TSS2_RC_SUCCESS, \<lparr>TPM2B_size = of_nat (?n + 2), TPM2B_buffer = b\<rparr>, w)
        | _ \<Rightarrow> None) (\<lambda>(t, w). TPM2B_ok t \<and> TPM2B_bytes t = nv_name H p)"
      using n False
      by (auto simp: zero_TPM2B_def marshal_name_alg TPM2B_ok_def TPM2B_bytes_def nv_name_def length_be_bytes)
  qed
qed

section \<open>One policy\<close>

definition operand_bytes :: "TPM2B \<Rightarrow> UINT16 \<Rightarrow> UINT16 \<Rightarrow> BYTE list" where
  "operand_bytes operandB offset operation = TPM2B_bytes operandB @ be_bytes offset @ be_bytes operation"

lemma operand_items_bytes: "TPM2B_ok t \<Longrightarrow> item_bytes (operand_items t x y) (operand_bytes t x y)"
  by (simp add: operand_items_def operand_bytes_def TPM2B_item)

definition template_hash :: "(BYTE list \<Rightarrow> BYTE list) \<Rightarrow> TPMS_POLICYTEMPLATE \<Rightarrow> BYTE list" where
  "template_hash h p =
     (if TPM2B_size (POLICYTEMPLATE_templateHash p) = 0
      then h (wire_TPMT_PUBLIC (TPM2B_SUBTYPE_member (POLICYTEMPLATE_templatePublic p)))
      else TPM2B_bytes (POLICYTEMPLATE_templateHash p))"

definition names_bytes :: "TPMS_POLICYNAMEHASH \<Rightarrow> BYTE list" where
  "names_bytes p = concat (map TPM2B_bytes (take (unat (POLICYNAMEHASH_count p)) (POLICYNAMEHASH_objectNames p)))"

text \<open>The entry behind the names is hashed too: it has to be empty.\<close>

definition names_ok :: "TPMS_POLICYNAMEHASH \<Rightarrow> bool" where
  "names_ok p \<longleftrightarrow> (let n = unat (POLICYNAMEHASH_count p); xs = POLICYNAMEHASH_objectNames p in
     n < length xs \<and> (\<forall>x \<in> set xs. TPM2B_ok x) \<and> TPM2B_size (xs ! n) = 0 \<and> length (TPM2B_buffer (POLICYNAMEHASH_nameHash p)) = 64)"

lemma name_items_bytes:
  assumes "names_ok p" shows "item_bytes (name_items p) (names_bytes p)"
proof -
  let ?n = "unat (POLICYNAMEHASH_count p)" let ?xs = "POLICYNAMEHASH_objectNames p"
  have n: "?n < length ?xs" and e: "TPM2B_bytes (?xs ! ?n) = []" and ok: "\<And>j. j \<le> ?n \<Longrightarrow> TPM2B_ok (?xs ! j)"
    using assms by (auto simp: names_ok_def Let_def TPM2B_bytes_def)
  have "item_bytes (name_items p) (concat (map (\<lambda>j. TPM2B_bytes (?xs ! j)) [0..<Suc ?n]))"
    unfolding name_items_def by (rule items_map) (use n ok in \<open>auto simp: TPM2B_item less_Suc_eq_le\<close>)
  moreover have "map (\<lambda>j. TPM2B_bytes (?xs ! j)) [0..<?n] = map TPM2B_bytes (take ?n ?xs)"
    using n by (simp add: list_eq_iff_nth_eq)
  ultimately show ?thesis using e by (simp add: names_bytes_def)
qed

text \<open>The hash algorithm of the policy, its OpenSSL name and the size of its digests.\<close>

definition policy_hash ::
    "('o, 'w) openssl \<Rightarrow> ('w \<Rightarrow> 'o \<Rightarrow> (string \<times> BYTE list) option) \<Rightarrow> ('o \<Rightarrow> string) \<Rightarrow> (string \<Rightarrow> BYTE list \<Rightarrow> BYTE list) \<Rightarrow>
     UINT16 \<Rightarrow> string \<Rightarrow> nat \<Rightarrow> bool" where
  "policy_hash S V N H alg name n \<longleftrightarrow> openssl_digests S V N H \<and> hashes alg name n"

lemma policy_hashD:
  assumes "policy_hash S V N H alg name n"
  shows "openssl_digests S V N H" "hashes alg name n" "n \<le> 64" "2 \<le> n" "length (H name x) = n"
  using assms hashes_size [of alg name n] digests_length [of S V N H alg name n x] by (auto simp: policy_hash_def)

abbreviation "calculates S alg n F f \<equiv> (\<forall>i. extends (openssl_works S) alg n i F f)"

lemma calculates_hash:
  assumes P: "policy_hash S V N H alg name n" and a: "item_bytes items bs"
  shows "calculates S alg n (with_digest alg (update_digest S alg items)) (\<lambda>d. H name (d @ bs))"
  by (intro allI extends_with_digest [OF policy_hashD(2) [OF P]] extends_update_digest [OF policy_hashD(1) [OF P] policy_hashD(2) [OF P] a])

lemma calculates_signed:
  assumes P: "policy_hash S V N H alg name n" and a: "TPM2B_ok (POLICYSIGNED_publicKey p)" "TPM2B_ok (POLICYSIGNED_policyRef p)"
  shows "calculates S alg n (ifapi_calculate_policy_signed S p alg)
    (key_digest (H name) TPM2_CC_PolicySigned (TPM2B_bytes (POLICYSIGNED_publicKey p)) (Some (TPM2B_bytes (POLICYSIGNED_policyRef p))))"
  using extends_key_param [OF policy_hashD(1) [OF P] policy_hashD(2) [OF P] a(1), of "Some (POLICYSIGNED_policyRef p)"] a(2)
  by (simp add: ifapi_calculate_policy_signed_def)

lemma calculates_authorize:
  assumes P: "policy_hash S V N H alg name n" and a: "TPM2B_ok (POLICYAUTHORIZE_keyName p)" "TPM2B_ok (POLICYAUTHORIZE_policyRef p)"
  shows "calculates S alg n (ifapi_calculate_policy_authorize S p alg)
    (key_digest (H name) TPM2_CC_PolicyAuthorize (TPM2B_bytes (POLICYAUTHORIZE_keyName p)) (Some (TPM2B_bytes (POLICYAUTHORIZE_policyRef p))))"
  using extends_key_param [OF policy_hashD(1) [OF P] policy_hashD(2) [OF P] a(1), of "Some (POLICYAUTHORIZE_policyRef p)"] a(2)
  by (simp add: ifapi_calculate_policy_authorize_def)

lemma calculates_secret:
  assumes P: "policy_hash S V N H alg name n" and a: "TPM2B_ok (POLICYSECRET_objectName p)" "TPM2B_ok (POLICYSECRET_policyRef p)"
  shows "calculates S alg n (ifapi_calculate_policy_secret S p alg)
    (key_digest (H name) TPM2_CC_PolicySecret (TPM2B_bytes (POLICYSECRET_objectName p)) (Some (TPM2B_bytes (POLICYSECRET_policyRef p))))"
  using extends_key_param [OF policy_hashD(1) [OF P] policy_hashD(2) [OF P] a(1), of "Some (POLICYSECRET_policyRef p)"] a(2)
  by (simp add: ifapi_calculate_policy_secret_def)

lemma calculates_duplicate:
  assumes P: "policy_hash S V N H alg name n" and a: "TPM2B_ok (POLICYDUPLICATIONSELECT_newParentName p)"
  shows "calculates S alg n (ifapi_calculate_policy_duplicate S p alg)
    (\<lambda>d. H name (d @ be_bytes TPM2_CC_PolicyDuplicationSelect @ TPM2B_bytes (POLICYDUPLICATIONSELECT_newParentName p) @
       be_bytes (POLICYDUPLICATIONSELECT_includeObject p)))"
  unfolding ifapi_calculate_policy_duplicate_def
  by (rule calculates_hash [OF P]) (simp add: TPM2B_item [OF a] del: One_nat_def)

lemma calculates_simple:
  assumes P: "policy_hash S V N H alg name n" and a: "c1 \<noteq> 0"
  shows "calculates S alg n (ifapi_calculate_simple_policy S c1 c2 alg) (\<lambda>d. H name (d @ be_bytes c1 @ (if c2 = 0 then [] else be_bytes c2)))"
  unfolding ifapi_calculate_simple_policy_def
  by (rule calculates_hash [OF P]) (use a in simp)

lemma calculates_digest_hash:
  assumes P: "policy_hash S V N H alg name n" and a: "TPM2B_ok t"
  shows "calculates S alg n (ifapi_calculate_policy_digest_hash S t alg cc) (\<lambda>d. H name (d @ be_bytes cc @ TPM2B_bytes t))"
  unfolding ifapi_calculate_policy_digest_hash_def
  by (rule calculates_hash [OF P]) (simp add: TPM2B_item [OF a])

lemma calculates_locality:
  assumes P: "policy_hash S V N H alg name n"
  shows "calculates S alg n (ifapi_calculate_policy_locality S b alg) (\<lambda>d. H name (d @ be_bytes TPM2_CC_PolicyLocality @ be_bytes b))"
  unfolding ifapi_calculate_policy_locality_def by (rule calculates_hash [OF P]) (simp del: One_nat_def)

lemma calculates_nv_written:
  assumes P: "policy_hash S V N H alg name n"
  shows "calculates S alg n (ifapi_calculate_policy_nv_written S b alg) (\<lambda>d. H name (d @ be_bytes TPM2_CC_PolicyNvWritten @ be_bytes b))"
  unfolding ifapi_calculate_policy_nv_written_def by (rule calculates_hash [OF P]) (simp del: One_nat_def)

text \<open>A second hash goes into the digest.\<close>

lemma zero_digest: "64 \<le> length (TPM2B_buffer (zero_TPM2B 64))"
  by (simp add: zero_TPM2B_def)

lemma inner_item: "policy_hash S V N H alg name n \<Longrightarrow> HASH_UPDATE_BUFFER (H name bs @ x) n = Some (0, H name bs)"
  using policy_hashD(5) [of S V N H alg name n bs] by simp

lemma calculates_counter_timer:
  assumes P: "policy_hash S V N H alg name n" and a: "TPM2B_ok (POLICYCOUNTERTIMER_operandB p)"
  shows "calculates S alg n (ifapi_calculate_policy_counter_timer S p alg)
    (\<lambda>d. H name (d @ be_bytes TPM2_CC_PolicyCounterTimer @ H name (operand_bytes (POLICYCOUNTERTIMER_operandB p)
       (POLICYCOUNTERTIMER_offset p) (POLICYCOUNTERTIMER_operation p))))"
proof (intro allI, unfold ifapi_calculate_policy_counter_timer_def, rule extends_with_digest [OF policy_hashD(2) [OF P]], rule extendsI)
  fix i dv w assume dv: "slot alg i dv"
  show "yields (openssl_works S) (case hash_into S alg
      (operand_items (POLICYCOUNTERTIMER_operandB p) (POLICYCOUNTERTIMER_offset p) (POLICYCOUNTERTIMER_operation p))
      (TPM2B_buffer (zero_TPM2B 64)) n w of None \<Rightarrow> None
    | Some (r, h, k, w) \<Rightarrow> if r \<noteq> 0 then Some (r, dv, w)
        else update_digest S alg [CC TPM2_CC_PolicyCounterTimer, HASH_UPDATE_BUFFER h k] k i dv w)
    (\<lambda>(dv', w'). slot alg i dv' \<and> take n (digest_at dv' i) = H name (take n (digest_at dv i) @ be_bytes TPM2_CC_PolicyCounterTimer @
       H name (operand_bytes (POLICYCOUNTERTIMER_operandB p) (POLICYCOUNTERTIMER_offset p) (POLICYCOUNTERTIMER_operation p))))"
    by (rule hash_then [OF policy_hashD(1) [OF P] policy_hashD(2) [OF P] operand_items_bytes [OF a] zero_digest],
        rule extendsD [OF extends_update_digest [OF policy_hashD(1) [OF P] policy_hashD(2) [OF P]] dv])
       (simp add: inner_item [OF P])
qed

lemma nv_name_then:
  fixes S :: "('o, 'w) openssl"
  assumes "openssl_digests S V N H" "nv_ok p"
    and f: "\<And>t w. TPM2B_ok t \<Longrightarrow> TPM2B_bytes t = nv_name H p \<Longrightarrow> yields (openssl_works S) (f t w) Q"
  shows "yields (openssl_works S) (case ifapi_nv_get_name S p w of None \<Rightarrow> None
     | Some (r, t, w) \<Rightarrow> if r \<noteq> 0 then Some (r, g r t w) else f t w) Q"
proof (rule yields_bind [OF nv_get_name_yields [OF assms(1,2), of w], where f = "\<lambda>(t, w). f t w"])
  fix x :: "TPM2B \<times> 'w" assume "case x of (t, w) \<Rightarrow> TPM2B_ok t \<and> TPM2B_bytes t = nv_name H p"
  then show "yields (openssl_works S) ((\<lambda>(t, w). f t w) x) Q" using f by (cases x) auto
qed auto

lemma calculates_authorize_nv:
  assumes P: "policy_hash S V N H alg name n" and a: "nv_ok (written p)"
  shows "calculates S alg n (ifapi_calculate_policy_authorize_nv S p alg)
    (key_digest (H name) TPM2_CC_PolicyAuthorizeNV (nv_name H (written p)) None)"
proof (intro allI extendsI, unfold ifapi_calculate_policy_authorize_nv_def, rule nv_name_then [OF policy_hashD(1) [OF P] a])
  fix i dv t w assume dv: "slot alg i dv" and t: "TPM2B_ok t" "TPM2B_bytes t = nv_name H (written p)"
  have "extends (openssl_works S) alg n i (key_param S TPM2_CC_PolicyAuthorizeNV (Some t) None alg)
      (key_digest (H name) TPM2_CC_PolicyAuthorizeNV (TPM2B_bytes t) (map_option TPM2B_bytes None))"
    by (rule extends_key_param [OF policy_hashD(1,2) [OF P] t(1)]) simp
  from extendsD [OF this dv] show "yields (openssl_works S) (key_param S TPM2_CC_PolicyAuthorizeNV (Some t) None alg dv w)
      (\<lambda>(dv', w'). slot alg i dv' \<and> take n (digest_at dv' i) =
         key_digest (H name) TPM2_CC_PolicyAuthorizeNV (nv_name H (written p)) None (take n (digest_at dv i)))"
    by (simp add: t)
qed

lemma calculates_nv:
  fixes S :: "('o, 'w) openssl"
  assumes P: "policy_hash S V N H alg name n" and a: "nv_ok (written (POLICYNV_nvPublic p))" "TPM2B_ok (POLICYNV_operandB p)"
  shows "calculates S alg n (ifapi_calculate_policy_nv S p alg)
    (\<lambda>d. H name (d @ be_bytes TPM2_CC_PolicyNV @
       H name (operand_bytes (POLICYNV_operandB p) (POLICYNV_offset p) (POLICYNV_operation p)) @ nv_name H (written (POLICYNV_nvPublic p))))"
proof (intro allI extendsI, unfold ifapi_calculate_policy_nv_def, rule nv_name_then [OF policy_hashD(1) [OF P] a(1)])
  fix i dv t and w :: 'w
  assume dv: "slot alg i dv" and t: "TPM2B_ok t" "TPM2B_bytes t = nv_name H (written (POLICYNV_nvPublic p))"
  let ?Q = "\<lambda>(dv', w' :: 'w). slot alg i dv' \<and> take n (digest_at dv' i) = H name (take n (digest_at dv i) @ be_bytes TPM2_CC_PolicyNV @
       H name (operand_bytes (POLICYNV_operandB p) (POLICYNV_offset p) (POLICYNV_operation p)) @ nv_name H (written (POLICYNV_nvPublic p)))"
  let ?f = "\<lambda>i dv w. case hash_into S alg (operand_items (POLICYNV_operandB p) (POLICYNV_offset p) (POLICYNV_operation p))
      (TPM2B_buffer (zero_TPM2B 64)) 0 w of None \<Rightarrow> None
    | Some (r, h, k, w) \<Rightarrow> if r \<noteq> 0 then Some (r, dv, w)
        else update_digest S alg [CC TPM2_CC_PolicyNV, HASH_UPDATE_BUFFER h k,
          HASH_UPDATE_BUFFER (TPM2B_buffer t) (unat (TPM2B_size t))] k i dv w"
  have "yields (openssl_works S) (?f i dv w) ?Q"
    by (rule hash_then [OF policy_hashD(1,2) [OF P] operand_items_bytes [OF a(2)] zero_digest],
        rule extendsD [OF extends_update_digest [OF policy_hashD(1,2) [OF P]] dv])
       (simp add: inner_item [OF P] TPM2B_item [OF t(1)] t(2))
  then show "yields (openssl_works S) (case get_policy_digest_idx dv alg of None \<Rightarrow> None
      | Some (r, i, dv) \<Rightarrow> if r \<noteq> 0 then Some (r, dv, w) else ?f i dv w) ?Q"
    by (simp add: get_policy_digest_idx_slot [OF dv])
qed

lemma marshal_template:
  assumes "valid_TPMT_PUBLIC x"
  shows "Tss2_MU_TPMT_PUBLIC_Marshal (Some x) (Some (replicate (sizeof ct_TPM2B_PUBLIC) 0)) (of_nat (sizeof ct_TPMT_PUBLIC)) (Some 0) =
    Some (0, Some (patch (replicate 2696 0) 0 (wire_TPMT_PUBLIC x)), Some (of_nat (length (wire_TPMT_PUBLIC x))))"
    "unat (of_nat (length (wire_TPMT_PUBLIC x)) :: size_t) = length (wire_TPMT_PUBLIC x)"
proof -
  have l: "length (wire_TPMT_PUBLIC x) \<le> 2686" by (rule mu_TPMT_PUBLIC.wire_le [OF assms])
  then show "unat (of_nat (length (wire_TPMT_PUBLIC x)) :: size_t) = length (wire_TPMT_PUBLIC x)" by (simp add: unat_of_nat)
  show "Tss2_MU_TPMT_PUBLIC_Marshal (Some x) (Some (replicate (sizeof ct_TPM2B_PUBLIC) 0)) (of_nat (sizeof ct_TPMT_PUBLIC)) (Some 0) =
    Some (0, Some (patch (replicate 2696 0) 0 (wire_TPMT_PUBLIC x)), Some (of_nat (length (wire_TPMT_PUBLIC x))))"
    using mu_TPMT_PUBLIC.marshal_fit [OF assms, of 2692 "replicate 2696 0" 0] l by (simp add: fits_def)
qed

lemma calculates_template:
  fixes S :: "('o, 'w) openssl"
  assumes P: "policy_hash S V N H alg name n"
    and a: "if TPM2B_size (POLICYTEMPLATE_templateHash p) = 0
            then valid_TPMT_PUBLIC (TPM2B_SUBTYPE_member (POLICYTEMPLATE_templatePublic p)) else TPM2B_ok (POLICYTEMPLATE_templateHash p)"
  shows "calculates S alg n (ifapi_calculate_policy_template S p alg)
    (\<lambda>d. H name (d @ be_bytes TPM2_CC_PolicyTemplate @ template_hash (H name) p))"
proof (intro allI, unfold ifapi_calculate_policy_template_def Let_def, rule extends_with_digest [OF policy_hashD(2) [OF P]])
  fix i
  let ?t = "POLICYTEMPLATE_templateHash p" let ?x = "TPM2B_SUBTYPE_member (POLICYTEMPLATE_templatePublic p)"
  let ?b = "patch (replicate 2696 0) 0 (wire_TPMT_PUBLIC ?x)" let ?o = "of_nat (length (wire_TPMT_PUBLIC ?x)) :: size_t"
  let ?f = "\<lambda>dv w. case hash_into S alg [HASH_UPDATE_BUFFER ?b (unat ?o)] (TPM2B_buffer (zero_TPM2B 64)) 0 w of None \<Rightarrow> None
     | Some (r, h, k, w) \<Rightarrow> if r \<noteq> 0 then Some (r, dv, w) else update_digest S alg [CC TPM2_CC_PolicyTemplate, HASH_UPDATE_BUFFER h k] n i dv w"
  let ?F = "\<lambda>dv w. if TPM2B_size ?t = 0 then
       (case Tss2_MU_TPMT_PUBLIC_Marshal (Some ?x) (Some (replicate (sizeof ct_TPM2B_PUBLIC) 0)) (of_nat (sizeof ct_TPMT_PUBLIC)) (Some 0) of
          Some (r, Some buffer, Some offset) \<Rightarrow> if r \<noteq> 0 then Some (r, dv, w)
            else (case hash_into S alg [HASH_UPDATE_BUFFER buffer (unat offset)] (TPM2B_buffer (zero_TPM2B 64)) 0 w of
                 None \<Rightarrow> None | Some (r, h, k, w) \<Rightarrow> if r \<noteq> 0 then Some (r, dv, w)
                   else update_digest S alg [CC TPM2_CC_PolicyTemplate, HASH_UPDATE_BUFFER h k] n i dv w)
        | _ \<Rightarrow> None)
     else update_digest S alg [CC TPM2_CC_PolicyTemplate, HASH_UPDATE_BUFFER (TPM2B_buffer ?t) (unat (TPM2B_size ?t))] n i dv w"
  show "extends (openssl_works S) alg n i ?F (\<lambda>d. H name (d @ be_bytes TPM2_CC_PolicyTemplate @ template_hash (H name) p))"
  proof (cases "TPM2B_size ?t = 0")
    case True
    with a have x: "valid_TPMT_PUBLIC ?x" by simp
    note m = marshal_template [OF x]
    have l: "length (wire_TPMT_PUBLIC ?x) \<le> 2686" by (rule mu_TPMT_PUBLIC.wire_le [OF x])
    have i: "item_bytes [HASH_UPDATE_BUFFER ?b (unat ?o)] (wire_TPMT_PUBLIC ?x)" using l by (simp add: m(2) patch_def)
    have "extends (openssl_works S) alg n i ?f (\<lambda>d. H name (d @ be_bytes TPM2_CC_PolicyTemplate @ H name (wire_TPMT_PUBLIC ?x)))"
      by (intro extendsI, rule hash_then [OF policy_hashD(1,2) [OF P] i zero_digest],
          rule extendsD [OF extends_update_digest [OF policy_hashD(1,2) [OF P]]]) (simp_all add: inner_item [OF P])
    moreover have "?F = ?f" unfolding m(1) using True by simp
    ultimately show ?thesis using True by (simp add: template_hash_def)
  next
    case False
    with a have "item_bytes [CC TPM2_CC_PolicyTemplate, HASH_UPDATE_BUFFER (TPM2B_buffer ?t) (unat (TPM2B_size ?t))]
        (be_bytes TPM2_CC_PolicyTemplate @ template_hash (H name) p)" by (simp add: TPM2B_item template_hash_def)
    from extends_update_digest [OF policy_hashD(1,2) [OF P] this] False show ?thesis by simp
  qed
qed

section \<open>PCRs\<close>

text \<open>The selection and the values of PCRs of one bank.\<close>

definition selection_bits :: "TPMS_PCRVALUE list \<Rightarrow> nat \<Rightarrow> BYTE" where
  "selection_bits ps k = fold (\<lambda>p b. b OR push_bit (unat (PCRVALUE_pcr p) mod 8) 1) (filter (\<lambda>p. unat (PCRVALUE_pcr p) div 8 = k) ps) 0"

definition pcr_selection :: "TPMS_PCRVALUE list \<Rightarrow> BYTE list" where
  "pcr_selection ps = be_bytes (1 :: UINT32) @ be_bytes (PCRVALUE_hashAlg (hd ps)) @ [3, selection_bits ps 0, selection_bits ps 1, selection_bits ps 2]"

definition pcr_values :: "TPMS_PCRVALUE list \<Rightarrow> BYTE list" where
  "pcr_values ps = concat (map (\<lambda>i. concat (map (\<lambda>p. take (ifapi_hash_get_digest_size (PCRVALUE_hashAlg p)) (PCRVALUE_digest p))
     (filter (\<lambda>p. unat (PCRVALUE_pcr p) = i) ps))) [0..<24])"

definition pcr_ok :: "UINT16 \<Rightarrow> TPMS_PCRVALUE \<Rightarrow> bool" where
  "pcr_ok h p \<longleftrightarrow> PCRVALUE_hashAlg p = h \<and> unat (PCRVALUE_pcr p) < 24 \<and> length (PCRVALUE_digest p) = 64"

definition pcrs_ok :: "TPMS_PCRVALUE list \<Rightarrow> bool" where
  "pcrs_ok ps \<longleftrightarrow> ps \<noteq> [] \<and> ifapi_hash_get_digest_size (PCRVALUE_hashAlg (hd ps)) \<noteq> 0 \<and> list_all (pcr_ok (PCRVALUE_hashAlg (hd ps))) ps"

lemma pcrs_okD:
  assumes "pcrs_ok ps"
  shows "ps \<noteq> []" "ifapi_hash_get_digest_size (PCRVALUE_hashAlg (hd ps)) \<noteq> 0" "p \<in> set ps \<Longrightarrow> pcr_ok (PCRVALUE_hashAlg (hd ps)) p"
  using assms by (auto simp: pcrs_ok_def list_all_iff)

definition bank :: "UINT16 \<Rightarrow> (nat \<Rightarrow> BYTE) \<Rightarrow> TPML_PCR_SELECTION" where
  "bank h bits = \<lparr>TPML_count = 1, TPML_items =
     \<lparr>TPMS_PCR_SELECTION_hash = h, TPMS_PCR_SELECTION_sizeofSelect = 3, TPMS_PCR_SELECTION_pcrSelect = map bits [0..<4]\<rparr> #
       replicate 15 zero_TPMS_PCR_SELECTION\<rparr>"

definition add_pcr :: "TPMS_PCRVALUE \<Rightarrow> (nat \<Rightarrow> BYTE) \<Rightarrow> nat \<Rightarrow> BYTE" where
  "add_pcr p bits = bits(unat (PCRVALUE_pcr p) div 8 := bits (unat (PCRVALUE_pcr p) div 8) OR push_bit (unat (PCRVALUE_pcr p) mod 8) 1)"

lemma map_fun_upd: "i < 4 \<Longrightarrow> (map f [0..<4])[i := v] = map (f(i := v)) [0..<4]"
  by (simp add: list_eq_iff_nth_eq nth_list_update)

lemma find_first: "P 0 \<Longrightarrow> find P [0..<Suc 0] = Some 0"
  by simp

lemma select_pcrs_bank:
  assumes "\<And>p. p \<in> set ps \<Longrightarrow> PCRVALUE_hashAlg p = h \<and> unat (PCRVALUE_pcr p) < 24"
  shows "select_pcrs ps (bank h bits) m = Some (0, bank h (fold add_pcr ps bits), fold (\<lambda>p m. max m (PCRVALUE_pcr p + 1)) ps m)"
  using assms
proof (induction ps arbitrary: bits m)
  case (Cons p ps)
  from Cons.prems have p: "PCRVALUE_hashAlg p = h" "unat (PCRVALUE_pcr p) < 24" by auto
  let ?i = "unat (PCRVALUE_pcr p) div 8"
  have i: "?i < 3" using p(2) by simp
  have m: "(if m < PCRVALUE_pcr p + 1 then PCRVALUE_pcr p + 1 else m) = max m (PCRVALUE_pcr p + 1)" by (auto simp: max_def)
  have "select_pcrs (p # ps) (bank h bits) m = select_pcrs ps (bank h (add_pcr p bits)) (max m (PCRVALUE_pcr p + 1))"
    using i p by (simp add: bank_def add_pcr_def Let_def map_fun_upd m [symmetric])
  also have "\<dots> = Some (0, bank h (fold add_pcr (p # ps) bits), fold (\<lambda>p m. max m (PCRVALUE_pcr p + 1)) (p # ps) m)"
    using Cons.IH [of "add_pcr p bits"] Cons.prems by simp
  finally show ?case .
qed simp

lemma select_pcrs_zero:
  assumes "pcrs_ok ps"
  shows "select_pcrs ps zero_TPML_PCR_SELECTION 0 = Some (0, bank (PCRVALUE_hashAlg (hd ps)) (fold add_pcr ps (\<lambda>_. 0)),
    fold (\<lambda>p m. max m (PCRVALUE_pcr p + 1)) ps 0)"
proof -
  obtain p qs where ps: "ps = p # qs"
    using pcrs_okD(1) [OF assms] by (auto simp: neq_Nil_conv)
  let ?h = "PCRVALUE_hashAlg p"
  have ok: "pcr_ok ?h q" if "q \<in> set (p # qs)" for q using pcrs_okD(3) [OF assms, of q] that by (simp add: ps)
  have p: "unat (PCRVALUE_pcr p) < 24" using ok [of p] by (simp add: pcr_ok_def)
  have qs: "PCRVALUE_hashAlg q = ?h \<and> unat (PCRVALUE_pcr q) < 24" if "q \<in> set qs" for q
    using ok [of q] that by (simp add: pcr_ok_def)
  have i: "unat (PCRVALUE_pcr p) div 8 < 3" using p by simp
  have z: "zero_TPML_PCR_SELECTION = \<lparr>TPML_count = 0, TPML_items = \<lparr>TPMS_PCR_SELECTION_hash = 0, TPMS_PCR_SELECTION_sizeofSelect = 0,
      TPMS_PCR_SELECTION_pcrSelect = map (\<lambda>_. 0) [0..<4]\<rparr> # replicate 15 zero_TPMS_PCR_SELECTION\<rparr>"
    unfolding zero_TPML_PCR_SELECTION_def by (simp add: zero_TPMS_PCR_SELECTION_def eval_nat_numeral)
  have m: "(if 0 < PCRVALUE_pcr p + 1 then PCRVALUE_pcr p + 1 else 0) = max 0 (PCRVALUE_pcr p + 1)" by (auto simp: max_def word_gt_0)
  have "select_pcrs ps zero_TPML_PCR_SELECTION 0 = select_pcrs qs (bank ?h (add_pcr p (\<lambda>_. 0))) (max 0 (PCRVALUE_pcr p + 1))"
    using i p unfolding z ps by (simp add: bank_def add_pcr_def Let_def map_fun_upd m [symmetric])
  then show ?thesis using select_pcrs_bank [OF qs] by (simp add: ps)
qed

lemma fold_add_pcr:
  "fold add_pcr ps f k =
     fold (\<lambda>p b. b OR push_bit (unat (PCRVALUE_pcr p) mod 8) 1) (filter (\<lambda>p. unat (PCRVALUE_pcr p) div 8 = k) ps) (f k)"
  by (induction ps arbitrary: f) (auto simp: add_pcr_def)

lemma bit_selection_bits:
  assumes "j < 8"
  shows "bit (fold (\<lambda>p b. b OR 2 ^ (unat (PCRVALUE_pcr p) mod 8)) qs (b :: BYTE)) j \<longleftrightarrow>
    bit b j \<or> (\<exists>p \<in> set qs. unat (PCRVALUE_pcr p) mod 8 = j)"
  using assms by (induction qs arbitrary: b) (auto simp: bit_or_iff bit_exp_iff)

lemma selected_iff:
  "fold add_pcr ps (\<lambda>_. 0) (i div 8) AND push_bit (i mod 8) 1 \<noteq> 0 \<longleftrightarrow> (\<exists>p \<in> set ps. unat (PCRVALUE_pcr p) = i)"
proof -
  have e: "unat (PCRVALUE_pcr p) = i \<longleftrightarrow> unat (PCRVALUE_pcr p) div 8 = i div 8 \<and> unat (PCRVALUE_pcr p) mod 8 = i mod 8" for p
    by (metis div_mult_mod_eq)
  show ?thesis unfolding push_bit_of_1 and_exp_eq_0_iff_not_bit fold_add_pcr not_not
    by (subst bit_selection_bits) (auto simp: e)
qed

lemma max_pcr_bounds:
  assumes "\<And>p. p \<in> set ps \<Longrightarrow> unat (PCRVALUE_pcr p) < 24"
  defines "M \<equiv> \<lambda>m. unat (fold (\<lambda>p m. max m (PCRVALUE_pcr p + 1)) ps m)"
  shows "unat m \<le> M m \<and> (\<forall>p \<in> set ps. unat (PCRVALUE_pcr p) < M m) \<and> (unat m \<le> 24 \<longrightarrow> M m \<le> 24)"
  using assms(1) unfolding M_def
proof (induction ps arbitrary: m)
  case (Cons p ps)
  then have p24: "unat (PCRVALUE_pcr p) < 24" by simp
  then have p: "unat (PCRVALUE_pcr p + 1) = unat (PCRVALUE_pcr p) + 1" by (simp add: unat_word_ariths)
  have "unat (max m (PCRVALUE_pcr p + 1)) = max (unat m) (unat (PCRVALUE_pcr p) + 1)"
    by (simp add: max_def word_le_nat_alt p)
  with Cons.IH [of "max m (PCRVALUE_pcr p + 1)"] Cons.prems p24 show ?case by auto
qed simp

lemma pcr_value_items_bytes:
  assumes "pcrs_ok ps"
  shows "item_bytes (pcr_value_items ps (bank (PCRVALUE_hashAlg (hd ps)) (fold add_pcr ps (\<lambda>_. 0)))
    (fold (\<lambda>p m. max m (PCRVALUE_pcr p + 1)) ps 0)) (pcr_values ps)"
proof -
  let ?h = "PCRVALUE_hashAlg (hd ps)" let ?n = "ifapi_hash_get_digest_size ?h"
  let ?M = "unat (fold (\<lambda>p m. max m (PCRVALUE_pcr p + 1)) ps 0)" let ?bits = "fold add_pcr ps (\<lambda>_. 0)"
  let ?v = "\<lambda>i. concat (map (\<lambda>p. take (ifapi_hash_get_digest_size (PCRVALUE_hashAlg p)) (PCRVALUE_digest p)) (filter (\<lambda>p. unat (PCRVALUE_pcr p) = i) ps))"
  let ?f = "\<lambda>i. if length (map ?bits [0..<4]) \<le> i div 8 then [None]
    else if map ?bits [0..<4] ! (i div 8) AND push_bit (i mod 8) 1 \<noteq> 0
    then map (\<lambda>p. HASH_UPDATE_BUFFER (PCRVALUE_digest p) ?n) (filter (\<lambda>p. unat (PCRVALUE_pcr p) = i) ps) else []"
  have p: "PCRVALUE_hashAlg p = ?h" "unat (PCRVALUE_pcr p) < 24" "length (PCRVALUE_digest p) = 64" if "p \<in> set ps" for p
    using pcrs_okD(3) [OF assms that] by (simp_all add: pcr_ok_def)
  have n: "?n \<noteq> 0" "?n \<le> 64" using hashes_size [OF hashes_md [OF pcrs_okD(2) [OF assms]]] by auto
  have M: "?M \<le> 24" "\<And>p. p \<in> set ps \<Longrightarrow> unat (PCRVALUE_pcr p) < ?M" using max_pcr_bounds [of ps 0] p by auto
  have "item_bytes (?f i) (?v i)" if "i \<in> set [0..<?M]" for i
  proof -
    have i: "i div 8 < 4" using that M(1) by auto
    have "item_bytes (map (\<lambda>p. HASH_UPDATE_BUFFER (PCRVALUE_digest p) ?n) (filter (\<lambda>p. unat (PCRVALUE_pcr p) = i) ps)) (?v i)"
      by (rule items_map) (use p n in auto)
    moreover have "?v i = []" if "\<not> (\<exists>p \<in> set ps. unat (PCRVALUE_pcr p) = i)" using that by auto
    ultimately show ?thesis using i selected_iff [of ps i] by auto
  qed
  then have b: "item_bytes (concat (map ?f [0..<?M])) (concat (map ?v [0..<?M]))" by (rule items_concat)
  have e: "concat (map ?v [?M..<24]) = []"
  proof -
    have "?v i = []" if "?M \<le> i" for i using that M(2) by (fastforce simp: filter_empty_conv)
    then have "map ?v [?M..<24] = map (\<lambda>_. []) [?M..<24]" by (intro map_cong refl) auto
    then show ?thesis by (simp only:) simp
  qed
  have u: "[0..<24] = [0..<?M] @ [?M..<24]" using upt_add_eq_append [of 0 ?M "24 - ?M"] M(1) by simp
  have "pcr_values ps = concat (map ?v [0..<?M])" unfolding pcr_values_def u map_append concat_append e by simp
  with b n show ?thesis by (simp add: pcr_value_items_def bank_def cong: if_cong)
qed

lemma upt_three: "[0..<3] = [0, Suc 0, 2]"
  by (simp add: upt_rec)

lemma bank_wire:
  assumes "ps \<noteq> []"
  shows "HASH_UPDATE Tss2_MU_TPML_PCR_SELECTION_Marshal (sizeof ct_TPML_PCR_SELECTION)
    (Some (bank (PCRVALUE_hashAlg (hd ps)) (fold add_pcr ps (\<lambda>_. 0)))) = Some (0, pcr_selection ps)"
proof -
  have v: "valid_TPML 16 valid_TPMS_PCR_SELECTION (bank h f)" for h f
    by (simp add: valid_TPML_def bank_def valid_TPMS_PCR_SELECTION_def)
  have "wire_TPML wire_TPMS_PCR_SELECTION (bank (PCRVALUE_hashAlg (hd ps)) (fold add_pcr ps (\<lambda>_. 0))) = pcr_selection ps"
    by (simp add: wire_TPML_def bank_def wire_list_def wire_TPMS_PCR_SELECTION_def pcr_selection_def selection_bits_def fold_add_pcr
        take_map upt_three)
  with HASH_UPDATE_wire_Some [OF mu_TPML_PCR_SELECTION.marshaler_axioms v, of 132] show ?thesis by simp
qed

lemma calculates_pcr:
  fixes S :: "('o, 'w) openssl"
  assumes P: "policy_hash S V N H alg name n" and a: "pcrs_ok ps"
  shows "calculates S alg n (ifapi_compute_policy_pcr S ps alg)
    (\<lambda>d. H name (d @ be_bytes TPM2_CC_PolicyPCR @ pcr_selection ps @ H name (pcr_values ps)))"
proof (intro allI, unfold ifapi_compute_policy_pcr_def, rule extends_with_digest [OF policy_hashD(2) [OF P]], rule extendsI)
  fix i dv and w :: 'w assume dv: "slot alg i dv"
  let ?sel = "bank (PCRVALUE_hashAlg (hd ps)) (fold add_pcr ps (\<lambda>_. 0))"
  have s: "ifapi_hash_get_digest_size alg = n" using policy_hashD(2) [OF P] by (simp add: hashes_def)
  have n: "n \<noteq> 0" using policy_hashD(4) [OF P] by simp
  let ?items = "pcr_value_items ps ?sel (fold (\<lambda>p m. max m (PCRVALUE_pcr p + 1)) ps 0)"
  let ?f = "\<lambda>d k w. update_digest S alg [CC TPM2_CC_PolicyPCR,
      HASH_UPDATE Tss2_MU_TPML_PCR_SELECTION_Marshal (sizeof ct_TPML_PCR_SELECTION) (Some ?sel), HASH_UPDATE_BUFFER d n] n i dv w"
  let ?Q = "\<lambda>(dv', w' :: 'w). slot alg i dv' \<and> take n (digest_at dv' i) = H name (take n (digest_at dv i) @
      be_bytes TPM2_CC_PolicyPCR @ pcr_selection ps @ H name (pcr_values ps))"
  have "yields (openssl_works S) (case hash_into S alg ?items (TPM2B_buffer (zero_TPM2B 64)) n w of None \<Rightarrow> None
     | Some (r, d, k, w) \<Rightarrow> if r \<noteq> 0 then Some (r, dv, w) else ?f d k w) ?Q"
    by (rule hash_then [OF policy_hashD(1,2) [OF P] pcr_value_items_bytes [OF a] zero_digest],
        rule extendsD [OF extends_update_digest [OF policy_hashD(1,2) [OF P]] dv])
       (simp add: inner_item [OF P] bank_wire [OF pcrs_okD(1) [OF a]] del: ct_TPML_PCR_SELECTION_layout)
  then show "yields (openssl_works S) (case ifapi_compute_policy_digest S ps alg w of None \<Rightarrow> None
     | Some (r, sel, t, w) \<Rightarrow> if r \<noteq> 0 then Some (r, dv, w)
         else update_digest S alg [CC TPM2_CC_PolicyPCR,
           HASH_UPDATE Tss2_MU_TPML_PCR_SELECTION_Marshal (sizeof ct_TPML_PCR_SELECTION) (Some sel),
           HASH_UPDATE_BUFFER (TPM2B_buffer t) n] n i dv w) ?Q"
    using n by (auto simp: ifapi_compute_policy_digest_def select_pcrs_zero [OF a] s Let_def split: option.splits prod.splits if_splits)
qed

text \<open>
  The digest that the calculation delivers for a whole policy, as one recursive definition over the
  digests of its elements, and the proof that it does.  It is what the code hashes; where that is what
  the TPM hashes is a matter of \<open>Fapi_Policy_Properties\<close>.
\<close>

section \<open>The digest of an element\<close>

definition leaf_digest :: "(string \<Rightarrow> BYTE list \<Rightarrow> BYTE list) \<Rightarrow> string \<Rightarrow> TPMU_POLICYELEMENT \<Rightarrow> BYTE list \<Rightarrow> BYTE list" where
  "leaf_digest H name u d =
     (let h = H name; step = (\<lambda>cc bs. h (d @ be_bytes (cc :: UINT32) @ bs)) in
      case u of
        PolicySigned p \<Rightarrow> key_digest h TPM2_CC_PolicySigned (TPM2B_bytes (POLICYSIGNED_publicKey p)) (Some (TPM2B_bytes (POLICYSIGNED_policyRef p))) d
      | PolicySecret p \<Rightarrow> key_digest h TPM2_CC_PolicySecret (TPM2B_bytes (POLICYSECRET_objectName p)) (Some (TPM2B_bytes (POLICYSECRET_policyRef p))) d
      | PolicyAuthorize p \<Rightarrow> key_digest h TPM2_CC_PolicyAuthorize (TPM2B_bytes (POLICYAUTHORIZE_keyName p)) (Some (TPM2B_bytes (POLICYAUTHORIZE_policyRef p))) d
      | PolicyAuthorizeNv p \<Rightarrow> key_digest h TPM2_CC_PolicyAuthorizeNV (nv_name H (written p)) None d
      | PolicyPCR ps \<Rightarrow> step TPM2_CC_PolicyPCR (pcr_selection ps @ h (pcr_values ps))
      | PolicyLocality b \<Rightarrow> step TPM2_CC_PolicyLocality (be_bytes b)
      | PolicyNV p \<Rightarrow> step TPM2_CC_PolicyNV
          (h (operand_bytes (POLICYNV_operandB p) (POLICYNV_offset p) (POLICYNV_operation p)) @ nv_name H (written (POLICYNV_nvPublic p)))
      | PolicyCounterTimer p \<Rightarrow> step TPM2_CC_PolicyCounterTimer
          (h (operand_bytes (POLICYCOUNTERTIMER_operandB p) (POLICYCOUNTERTIMER_offset p) (POLICYCOUNTERTIMER_operation p)))
      | PolicyCommandCode c \<Rightarrow> step TPM2_CC_PolicyCommandCode (be_bytes c)
      | PolicyPhysicalPresence \<Rightarrow> step TPM2_CC_PolicyPhysicalPresence []
      | PolicyCpHash t \<Rightarrow> step TPM2_CC_PolicyCpHash (TPM2B_bytes t)
      | PolicyNameHash p \<Rightarrow> step TPM2_CC_PolicyNameHash (h (names_bytes p))
      | PolicyDuplicationSelect p \<Rightarrow> step TPM2_CC_PolicyDuplicationSelect
          (TPM2B_bytes (POLICYDUPLICATIONSELECT_newParentName p) @ be_bytes (POLICYDUPLICATIONSELECT_includeObject p))
      | PolicyAuthValue \<Rightarrow> step TPM2_CC_PolicyAuthValue []
      | PolicyPassword \<Rightarrow> step TPM2_CC_PolicyAuthValue []
      | PolicyNvWritten b \<Rightarrow> step TPM2_CC_PolicyNvWritten (be_bytes b)
      | PolicyTemplate p \<Rightarrow> step TPM2_CC_PolicyTemplate (template_hash h p)
      | PolicyAction \<Rightarrow> d
      | PolicyOr bs \<Rightarrow> d)"

definition leaf_ok :: "TPMU_POLICYELEMENT \<Rightarrow> bool" where
  "leaf_ok u = (case u of
      PolicySigned p \<Rightarrow> TPM2B_ok (POLICYSIGNED_publicKey p) \<and> TPM2B_ok (POLICYSIGNED_policyRef p)
    | PolicySecret p \<Rightarrow> TPM2B_ok (POLICYSECRET_objectName p) \<and> TPM2B_ok (POLICYSECRET_policyRef p)
    | PolicyAuthorize p \<Rightarrow> TPM2B_ok (POLICYAUTHORIZE_keyName p) \<and> TPM2B_ok (POLICYAUTHORIZE_policyRef p)
    | PolicyAuthorizeNv p \<Rightarrow> nv_ok (written p)
    | PolicyPCR ps \<Rightarrow> pcrs_ok ps
    | PolicyNV p \<Rightarrow> nv_ok (written (POLICYNV_nvPublic p)) \<and> TPM2B_ok (POLICYNV_operandB p)
    | PolicyCounterTimer p \<Rightarrow> TPM2B_ok (POLICYCOUNTERTIMER_operandB p)
    | PolicyCommandCode c \<Rightarrow> c \<noteq> 0
    | PolicyCpHash t \<Rightarrow> TPM2B_ok t
    | PolicyNameHash p \<Rightarrow> names_ok p
    | PolicyDuplicationSelect p \<Rightarrow> TPM2B_ok (POLICYDUPLICATIONSELECT_newParentName p)
    | PolicyTemplate p \<Rightarrow> (if TPM2B_size (POLICYTEMPLATE_templateHash p) = 0
        then valid_TPMT_PUBLIC (TPM2B_SUBTYPE_member (POLICYTEMPLATE_templatePublic p)) else TPM2B_ok (POLICYTEMPLATE_templateHash p))
    | PolicyOr bs \<Rightarrow> False
    | _ \<Rightarrow> True)"

definition element_type :: "TPMU_POLICYELEMENT \<Rightarrow> UINT32" where
  "element_type u = (case u of
      PolicyOr _ \<Rightarrow> POLICYOR | PolicySigned _ \<Rightarrow> POLICYSIGNED | PolicySecret _ \<Rightarrow> POLICYSECRET | PolicyPCR _ \<Rightarrow> POLICYPCR
    | PolicyLocality _ \<Rightarrow> POLICYLOCALITY | PolicyNV _ \<Rightarrow> POLICYNV | PolicyCounterTimer _ \<Rightarrow> POLICYCOUNTERTIMER
    | PolicyCommandCode _ \<Rightarrow> POLICYCOMMANDCODE | PolicyPhysicalPresence \<Rightarrow> POLICYPHYSICALPRESENCE | PolicyCpHash _ \<Rightarrow> POLICYCPHASH
    | PolicyNameHash _ \<Rightarrow> POLICYNAMEHASH | PolicyDuplicationSelect _ \<Rightarrow> POLICYDUPLICATIONSELECT | PolicyAuthorize _ \<Rightarrow> POLICYAUTHORIZE
    | PolicyAuthValue \<Rightarrow> POLICYAUTHVALUE | PolicyPassword \<Rightarrow> POLICYPASSWORD | PolicyNvWritten _ \<Rightarrow> POLICYNVWRITTEN
    | PolicyTemplate _ \<Rightarrow> POLICYTEMPLATE | PolicyAuthorizeNv _ \<Rightarrow> POLICYAUTHORIZENV | PolicyAction \<Rightarrow> POLICYACTION)"

abbreviation "digested n alg i d dv \<equiv> slot alg i dv \<and> take n (digest_at dv i) = d"

lemma with_yields:
  assumes "calculates S alg n F f" "slot alg i dv"
  shows "yields (openssl_works S) (map_option (\<lambda>(r, dv, w). (r, u, dv, w)) (F dv w)) (\<lambda>(u', dv', w'). digested n alg i (f (take n (digest_at dv i))) dv')"
proof -
  from assms have "yields (openssl_works S) (F dv w) (\<lambda>(dv', w'). digested n alg i (f (take n (digest_at dv i))) dv')"
    by (simp add: extendsD)
  then obtain r x where "F dv w = Some (r, x)" "openssl_works S \<Longrightarrow> r = 0"
      "r = 0 \<Longrightarrow> (case x of (dv', w') \<Rightarrow> digested n alg i (f (take n (digest_at dv i))) dv')"
    by (rule yieldsE) blast
  then show ?thesis by (cases x) auto
qed

lemma name_hash_yields:
  fixes S :: "('o, 'w) openssl"
  assumes P: "policy_hash S V N H alg name n" and p: "names_ok p" and dv: "slot alg i dv"
  shows "yields (openssl_works S) (ifapi_calculate_policy_name_hash S p alg dv w)
    (\<lambda>(p', dv', w'). digested n alg i (H name (take n (digest_at dv i) @ be_bytes TPM2_CC_PolicyNameHash @ H name (names_bytes p))) dv')"
proof -
  have s: "ifapi_hash_get_digest_size alg = n" using policy_hashD(2) [OF P] by (simp add: hashes_def)
  have n: "n \<noteq> 0" "n \<le> 64" using policy_hashD(3,4) [OF P] by simp_all
  have b: "64 \<le> length (TPM2B_buffer (POLICYNAMEHASH_nameHash p))" using p by (simp add: names_ok_def Let_def)
  let ?t = "\<lambda>d k. (POLICYNAMEHASH_nameHash p)\<lparr>TPM2B_buffer := d, TPM2B_size := of_nat k\<rparr>"
  let ?Q = "\<lambda>(p', dv', w'). digested n alg i (H name (take n (digest_at dv i) @ be_bytes TPM2_CC_PolicyNameHash @ H name (names_bytes p))) dv'"
  have "yields (openssl_works S) (case hash_into S alg (name_items p) (TPM2B_buffer (POLICYNAMEHASH_nameHash p)) n w of None \<Rightarrow> None
    | Some (r, d, k, w) \<Rightarrow> if r \<noteq> 0 then Some (r, p\<lparr>POLICYNAMEHASH_nameHash := (POLICYNAMEHASH_nameHash p)\<lparr>TPM2B_buffer := d\<rparr>\<rparr>, dv, w)
        else map_option (\<lambda>(r, dv, w). (r, p\<lparr>POLICYNAMEHASH_nameHash := ?t d k\<rparr>, dv, w)) (ifapi_calculate_policy_digest_hash S (?t d k) alg TPM2_CC_PolicyNameHash dv w)) ?Q"
  proof (rule hash_then [OF policy_hashD(1,2) [OF P] name_items_bytes [OF p] b])
    fix w
    let ?u = "?t (H name (names_bytes p) @ drop n (TPM2B_buffer (POLICYNAMEHASH_nameHash p))) n"
    have k: "unat (of_nat n :: UINT16) = n" using n by (simp add: unat_of_nat)
    have "TPM2B_ok ?u" "TPM2B_bytes ?u = H name (names_bytes p)"
      using policy_hashD(5) [OF P, of "names_bytes p"] by (simp_all add: TPM2B_ok_def TPM2B_bytes_def k)
    with with_yields [OF calculates_digest_hash [OF P \<open>TPM2B_ok ?u\<close>] dv]
    show "yields (openssl_works S) (map_option (\<lambda>(r, dv, w). (r, p\<lparr>POLICYNAMEHASH_nameHash := ?u\<rparr>, dv, w))
        (ifapi_calculate_policy_digest_hash S ?u alg TPM2_CC_PolicyNameHash dv w)) ?Q" by fastforce
  qed
  then show ?thesis unfolding ifapi_calculate_policy_name_hash_def s Let_def using n by simp
qed


lemma element_yields:
  assumes P: "policy_hash S V N H alg name n" and u: "leaf_ok u" and dv: "slot alg i dv"
  shows "yields (openssl_works S) (calculate_element S alg (element_type u) u dv w)
    (\<lambda>(u', dv', w'). digested n alg i (leaf_digest H name u (take n (digest_at dv i))) dv')"
proof -
  note s = with_yields [OF _ dv]
  have c: "TPM2_CC_PolicyCommandCode \<noteq> 0" "TPM2_CC_PolicyPhysicalPresence \<noteq> 0" "TPM2_CC_PolicyAuthValue \<noteq> 0"
    by (simp_all add: TPM2_CC_PolicyCommandCode_def TPM2_CC_PolicyPhysicalPresence_def TPM2_CC_PolicyAuthValue_def)
  note d = calculate_element_def element_type_def leaf_digest_def leaf_ok_def policy_type_defs Let_def keep_element_def
  show ?thesis
  proof (cases u)
    case (PolicySigned p)
    with u s [OF calculates_signed [OF P, of p]] show ?thesis by (simp add: d)
  next
    case (PolicySecret p)
    with u s [OF calculates_secret [OF P, of p]] show ?thesis by (simp add: d)
  next
    case (PolicyPCR p)
    with u s [OF calculates_pcr [OF P, of p]] show ?thesis by (simp add: d)
  next
    case (PolicyLocality p)
    with u s [OF calculates_locality [OF P, of p]] show ?thesis by (simp add: d)
  next
    case (PolicyNV p)
    with u s [OF calculates_nv [OF P, of p]] show ?thesis by (simp add: d)
  next
    case (PolicyCounterTimer p)
    with u s [OF calculates_counter_timer [OF P, of p]] show ?thesis by (simp add: d)
  next
    case (PolicyCommandCode p)
    with u s [OF calculates_simple [OF P c(1), of p]] show ?thesis by (simp add: d ifapi_calculate_policy_command_code_def)
  next
    case PolicyPhysicalPresence
    with u s [OF calculates_simple [OF P c(2), of 0]] show ?thesis by (simp add: d ifapi_calculate_policy_physical_presence_def)
  next
    case (PolicyCpHash p)
    with u s [OF calculates_digest_hash [OF P, of p]] show ?thesis by (simp add: d ifapi_calculate_policy_cp_hash_def)
  next
    case (PolicyNameHash p)
    with u have "names_ok p" by (simp add: leaf_ok_def)
    from name_hash_yields [OF P this dv, of w] show ?thesis
      by (rule yieldsE) (auto simp: PolicyNameHash d)
  next
    case (PolicyDuplicationSelect p)
    with u s [OF calculates_duplicate [OF P, of p]] show ?thesis by (simp add: d)
  next
    case (PolicyAuthorize p)
    with u s [OF calculates_authorize [OF P, of p]] show ?thesis by (simp add: d)
  next
    case PolicyAuthValue
    with u s [OF calculates_simple [OF P c(3), of 0]] show ?thesis by (simp add: d ifapi_calculate_policy_auth_value_def)
  next
    case PolicyPassword
    with u s [OF calculates_simple [OF P c(3), of 0]] show ?thesis by (simp add: d ifapi_calculate_policy_password_def)
  next
    case (PolicyNvWritten p)
    with u s [OF calculates_nv_written [OF P, of p]] show ?thesis by (simp add: d)
  next
    case (PolicyTemplate p)
    with u s [OF calculates_template [OF P, of p]] show ?thesis by (simp add: d)
  next
    case (PolicyAuthorizeNv p)
    with u s [OF calculates_authorize_nv [OF P, of p]] show ?thesis by (simp add: d)
  next
    case PolicyAction
    with dv show ?thesis by (simp add: d)
  next
    case (PolicyOr bs)
    with u show ?thesis by (simp add: leaf_ok_def)
  qed
qed

section \<open>The digest of a policy\<close>

text \<open>\<open>Z d\<close> is what replaces the digest \<open>d\<close> before an OR.\<close>

fun policy_digest :: "(string \<Rightarrow> BYTE list \<Rightarrow> BYTE list) \<Rightarrow> string \<Rightarrow> (BYTE list \<Rightarrow> BYTE list) \<Rightarrow> TPMT_POLICYELEMENT list \<Rightarrow> BYTE list \<Rightarrow> BYTE list"
and branch_digests :: "(string \<Rightarrow> BYTE list \<Rightarrow> BYTE list) \<Rightarrow> string \<Rightarrow> (BYTE list \<Rightarrow> BYTE list) \<Rightarrow> TPMS_POLICYBRANCH list \<Rightarrow> BYTE list \<Rightarrow> BYTE list list" where
  "policy_digest H name Z [] d = d"
| "policy_digest H name Z (TPMT_POLICYELEMENT t ed u # es) d = policy_digest H name Z es
     (case u of PolicyOr bs \<Rightarrow> H name (Z d @ be_bytes TPM2_CC_PolicyOR @ concat (branch_digests H name Z bs d))
      | _ \<Rightarrow> leaf_digest H name u d)"
| "branch_digests H name Z [] d = []"
| "branch_digests H name Z (TPMS_POLICYBRANCH bd es # bs) d = policy_digest H name Z es d # branch_digests H name Z bs d"

text \<open>The types fit the members, and no entry before the one to fill has its hash algorithm.\<close>

fun policy_ok :: "UINT16 \<Rightarrow> nat \<Rightarrow> TPMT_POLICYELEMENT list \<Rightarrow> bool"
and branches_ok :: "UINT16 \<Rightarrow> nat \<Rightarrow> TPMS_POLICYBRANCH list \<Rightarrow> bool" where
  "policy_ok alg i [] = True"
| "policy_ok alg i (TPMT_POLICYELEMENT t ed u # es) \<longleftrightarrow> DIGEST_VALUES_ok alg i ed \<and> t = element_type u \<and>
     (case u of PolicyOr bs \<Rightarrow> branches_ok alg i bs | _ \<Rightarrow> leaf_ok u) \<and> policy_ok alg i es"
| "branches_ok alg i [] = True"
| "branches_ok alg i (TPMS_POLICYBRANCH bd es # bs) \<longleftrightarrow> DIGEST_VALUES_ok alg i bd \<and> policy_ok alg i es \<and> branches_ok alg i bs"

fun branch_table :: "TPMS_POLICYBRANCH \<Rightarrow> DIGEST_VALUES" where
  "branch_table (TPMS_POLICYBRANCH bd es) = bd"

abbreviation "tables n alg i bs ds \<equiv> list_all2 (\<lambda>b d. digested n alg i d (branch_table b)) bs ds"

text \<open>What is left of a digest when \<open>memset\<close> starts two bytes before it.\<close>

definition keeps_two :: "nat \<Rightarrow> BYTE list \<Rightarrow> BYTE list" where
  "keeps_two n d = replicate (n - 2) 0 @ drop (n - 2) d"

lemma or_updates_yields:
  fixes S :: "('o, 'w) openssl"
  assumes "openssl_digests S V N H" "n \<le> 64" "tables n alg i bs ds" "hashing V name n x context w"
    and "length (DIGEST_VALUES_digests dv) = 16" "i < unat (DIGEST_VALUES_count dv)" "unat (DIGEST_VALUES_count dv) \<le> 16"
  shows "yields (openssl_works S) (or_updates S context n i bs dv w) (\<lambda>(dv', w'). hashing V name n (x @ concat ds) context w' \<and>
    DIGEST_VALUES_digests dv' = DIGEST_VALUES_digests dv \<and> i < unat (DIGEST_VALUES_count dv') \<and> unat (DIGEST_VALUES_count dv') \<le> 16)"
  using assms(3-)
proof (induction bs arbitrary: ds x dv w)
  case (Cons b bs)
  then obtain d ds' where ds: "ds = d # ds'" "digested n alg i d (branch_table b)" "tables n alg i bs ds'"
    by (auto simp: list_all2_Cons1)
  obtain bd es where b: "b = TPMS_POLICYBRANCH bd es" by (cases b)
  have bd: "slot alg i bd" "take n (digest_at bd i) = d" using ds(2) b by simp_all
  note l = slot_length [OF bd(1)]
  let ?Q = "\<lambda>(dv', w'). hashing V name n (x @ concat ds) context w' \<and>
    DIGEST_VALUES_digests dv' = DIGEST_VALUES_digests dv \<and> i < unat (DIGEST_VALUES_count dv') \<and> unat (DIGEST_VALUES_count dv') \<le> 16"
  show ?case
  proof (rule yields_bind [OF hash_update_yields [OF assms(1) Cons.prems(2), of d],
        where f = "or_updates S context n i bs (dv\<lparr>DIGEST_VALUES_count := DIGEST_VALUES_count bd\<rparr>)"])
    fix w assume h: "hashing V name n (x @ d) context w"
    show "yields (openssl_works S) (or_updates S context n i bs (dv\<lparr>DIGEST_VALUES_count := DIGEST_VALUES_count bd\<rparr>) w) ?Q"
      using Cons.IH [OF ds(3) h, of "dv\<lparr>DIGEST_VALUES_count := DIGEST_VALUES_count bd\<rparr>"] bd(1) Cons.prems(3) ds(1)
      by (simp add: slot_def)
  qed (use l bd assms(2) in \<open>auto simp: b mem_read_def seg_def\<close>)
qed (auto simp: list_all2_Nil)

lemma reset_HA_digest:
  assumes "slot alg i dv" "2 \<le> n" "n \<le> 64"
  shows "take n (digest_at (set_HA i (reset_HA n) dv) i) = keeps_two n (take n (digest_at dv i))"
    "length (digest_at (set_HA i (reset_HA n) dv) i) = 64"
  using assms slot_length [OF assms(1)] by (auto simp: set_HA_def reset_HA_def keeps_two_def patch_def drop_take)

lemma or_finish:
  assumes "slot alg i dv" "DIGEST_VALUES_digests dv' = DIGEST_VALUES_digests (set_HA i (reset_HA n) dv)"
    and "i < unat (DIGEST_VALUES_count dv')" "unat (DIGEST_VALUES_count dv') \<le> 16" "length d = 64"
  shows "slot alg i (set_HA i (\<lambda>h. h\<lparr>HA_digest := d\<rparr>) (set_HA i (\<lambda>h. h\<lparr>HA_hashAlg := alg\<rparr>) dv'))"
    "digest_at (set_HA i (\<lambda>h. h\<lparr>HA_digest := d\<rparr>) (set_HA i (\<lambda>h. h\<lparr>HA_hashAlg := alg\<rparr>) dv')) i = d"
  using assms slot_length [OF assms(1)]
  by (auto simp: slot_def DIGEST_VALUES_ok_def set_HA_def nth_list_update)

lemma or_digest_yields:
  fixes S :: "('o, 'w) openssl"
  assumes P: "policy_hash S V N H alg name n" and bs: "tables n alg i bs ds" and dv: "slot alg i dv"
  shows "yields (openssl_works S) (or_digest S alg n i bs dv w) (\<lambda>(dv', w').
    digested n alg i (H name (keeps_two n (take n (digest_at dv i)) @ be_bytes TPM2_CC_PolicyOR @ concat ds)) dv')"
proof -
  note D = policy_hashD [OF P]
  let ?d0 = "keeps_two n (take n (digest_at dv i))" let ?dv = "set_HA i (reset_HA n) dv"
  let ?x = "?d0 @ be_bytes TPM2_CC_PolicyOR"
  let ?Q = "\<lambda>(dv', w' :: 'w). digested n alg i (H name (?d0 @ be_bytes TPM2_CC_PolicyOR @ concat ds)) dv'"
  note l = slot_length [OF dv] and r = reset_HA_digest [OF dv D(4,3)]
  have items: "item_bytes [HASH_UPDATE_BUFFER (digest_at ?dv i) n, CC TPM2_CC_PolicyOR] ?x" using r D(3) by simp
  have len: "length (DIGEST_VALUES_digests ?dv) = 16" "i < unat (DIGEST_VALUES_count ?dv)" "unat (DIGEST_VALUES_count ?dv) \<le> 16"
    using dv by (simp_all add: slot_def DIGEST_VALUES_ok_def set_HA_def)
  let ?h = "\<lambda>c (dv', w). let dv' = set_HA i (\<lambda>h. h\<lparr>HA_hashAlg := alg\<rparr>) dv' in
    map_option (\<lambda>(r, d, k, w). (r, set_HA i (\<lambda>h. h\<lparr>HA_digest := d\<rparr>) dv', w)) (ifapi_crypto_hash_finish S c (digest_at dv' i) n w)"
  let ?g = "\<lambda>c w. case or_updates S c n i bs ?dv w of None \<Rightarrow> None
     | Some (r, dv, w) \<Rightarrow> if r \<noteq> 0 then Some (r, dv, ifapi_crypto_hash_abort S c w) else ?h c (dv, w)"
  let ?f = "\<lambda>(c, w). case hash_items S c [HASH_UPDATE_BUFFER (digest_at ?dv i) n, CC TPM2_CC_PolicyOR] w of None \<Rightarrow> None
     | Some (r, w) \<Rightarrow> if r \<noteq> 0 then Some (r, ?dv, ifapi_crypto_hash_abort S c w) else ?g c w"
  have last: "yields (openssl_works S) (?h c (dv', w)) ?Q"
    if h: "hashing V name n (?x @ concat ds) c w" and e: "DIGEST_VALUES_digests dv' = DIGEST_VALUES_digests ?dv"
      "i < unat (DIGEST_VALUES_count dv')" "unat (DIGEST_VALUES_count dv') \<le> 16" for c dv' and w :: 'w
  proof -
    let ?dv2 = "set_HA i (\<lambda>h. h\<lparr>HA_hashAlg := alg\<rparr>) dv'"
    have b: "length (digest_at ?dv2 i) = 64" using r(2) e(1) l(1) by (simp add: set_HA_def)
    then have "64 \<le> length (digest_at ?dv2 i)" by simp
    from hash_finish_yields [OF D(1,2) h this, of n] obtain rc d k w' where
      fin: "ifapi_crypto_hash_finish S c (digest_at ?dv2 i) n w = Some (rc, d, k, w')" "openssl_works S \<Longrightarrow> rc = 0"
        "rc = 0 \<Longrightarrow> d = H name (?x @ concat ds) @ drop n (digest_at ?dv2 i)"
      by (rule yieldsE) auto
    have "digested n alg i (H name (?x @ concat ds)) (set_HA i (\<lambda>h. h\<lparr>HA_digest := d\<rparr>) ?dv2)" if "rc = 0"
      using or_finish [OF dv e, of d] fin(3) [OF that] D(3) D(5) b by simp
    with fin show ?thesis by (auto simp: Let_def)
  qed
  have mid: "yields (openssl_works S) (?g c w) ?Q" if h: "hashing V name n ?x c w" for c and w :: 'w
    by (rule yields_bind [OF or_updates_yields [OF D(1,3) bs h len], where f = "?h c"]) (use last in auto)
  have first: "yields (openssl_works S) (?f (c, w)) ?Q" if h: "hashing V name n [] c w" for c and w :: 'w
    by (rule yields_bind [OF hash_items_yields [OF D(1) h items], where f = "?g c"]) (use mid in auto)
  show ?thesis
    by (rule yields_bind [OF hash_start_yields [OF D(1,2), of w], where f = ?f])
       (use first l(1) in \<open>auto simp: or_digest_def Let_def\<close>)
qed

lemma or_yields:
  fixes S :: "('o, 'w) openssl"
  assumes P: "policy_hash S V N H alg name n" and dv: "slot alg i dv"
    and bs: "yields (openssl_works S) (or_branches S alg n i bs dv w) (\<lambda>(bs', w'). tables n alg i bs' ds)"
  shows "yields (openssl_works S) (case or_branches S alg n i bs dv w of None \<Rightarrow> None
      | Some (r, bs, w) \<Rightarrow> if r \<noteq> 0 then Some (r, PolicyOr bs, dv, w) else keep_element (PolicyOr bs) (or_digest S alg n i bs dv w))
    (\<lambda>(u', dv', w'). digested n alg i (H name (keeps_two n (take n (digest_at dv i)) @ be_bytes TPM2_CC_PolicyOR @ concat ds)) dv')"
proof (rule yields_bind [OF bs, where f = "\<lambda>(bs, w). keep_element (PolicyOr bs) (or_digest S alg n i bs dv w)"])
  fix x :: "TPMS_POLICYBRANCH list \<times> 'w" assume x: "case x of (bs', w') \<Rightarrow> tables n alg i bs' ds"
  obtain bs' w' where [simp]: "x = (bs', w')" by fastforce
  from or_digest_yields [OF P _ dv, of bs' ds w'] x
  show "yields (openssl_works S) ((\<lambda>(bs, w). keep_element (PolicyOr bs) (or_digest S alg n i bs dv w)) x)
      (\<lambda>(u', dv', w'). digested n alg i (H name (keeps_two n (take n (digest_at dv i)) @ be_bytes TPM2_CC_PolicyOR @ concat ds)) dv')"
    by (auto simp: keep_element_def elim!: yieldsE)
qed auto

lemma leaf_type: "leaf_ok u \<Longrightarrow> element_type u \<noteq> POLICYOR"
  by (auto simp: leaf_ok_def element_type_def policy_type_defs split: TPMU_POLICYELEMENT.splits)

text \<open>One element, from the copy of the digest to the element to the copy back.\<close>

lemma element_step:
  fixes S :: "('o, 'w) openssl"
  assumes P: "policy_hash S V N H alg name n" and dv: "slot alg i dv" and ed: "DIGEST_VALUES_ok alg i ed"
    and step: "\<And>ed. digested n alg i (take n (digest_at dv i)) ed \<Longrightarrow>
      yields (openssl_works S) (F ed) (\<lambda>(u', ed', w' :: 'w). digested n alg i d ed')"
    and rest: "\<And>dv w. digested n alg i d dv \<Longrightarrow>
      yields (openssl_works S) (ifapi_calculate_policy S alg n i es dv w) (\<lambda>(es', dv', w'). digested n alg i d' dv')"
  shows "yields (openssl_works S) (case copy_policy_digest ed dv i n of None \<Rightarrow> None
     | Some ed \<Rightarrow> (case F ed of None \<Rightarrow> None
        | Some (r, u, ed, w) \<Rightarrow> if r \<noteq> 0 then Some (r, TPMT_POLICYELEMENT t ed u # es, dv, w)
          else (case copy_policy_digest dv ed i n of None \<Rightarrow> None
             | Some dv \<Rightarrow> map_option (\<lambda>(r, es, dv, w). (r, TPMT_POLICYELEMENT t ed u # es, dv, w))
                 (ifapi_calculate_policy S alg n i es dv w))))
    (\<lambda>(es', dv', w'). digested n alg i d' dv')"
proof -
  note n = policy_hashD(3) [OF P]
  obtain ed1 where e1: "copy_policy_digest ed dv i n = Some ed1" "slot alg i ed1" "take n (digest_at ed1 i) = take n (digest_at dv i)"
    by (rule copy_policy_digest_slot [OF dv ed n])
  let ?f = "\<lambda>(u, ed, w). case copy_policy_digest dv ed i n of None \<Rightarrow> None
     | Some dv \<Rightarrow> map_option (\<lambda>(r, es, dv, w). (r, TPMT_POLICYELEMENT t ed u # es, dv, w)) (ifapi_calculate_policy S alg n i es dv w)"
  have f: "yields (openssl_works S) (?f (u, ed2, w)) (\<lambda>(es', dv', w'). digested n alg i d' dv')" if "digested n alg i d ed2" for u ed2 w
  proof -
    have "DIGEST_VALUES_ok alg i dv" using dv by (simp add: slot_def)
    with that obtain dv1 where "copy_policy_digest dv ed2 i n = Some dv1" "digested n alg i d dv1"
      by (metis copy_policy_digest_slot n)
    with rest [of dv1 w] show ?thesis by (auto elim!: yieldsE)
  qed
  have "yields (openssl_works S) (F ed1) (\<lambda>(u', ed', w'). digested n alg i d ed')" using step e1 by blast
  then show ?thesis unfolding e1(1) option.case
    by (rule yields_bind [where f = ?f]) (use f in auto)
qed

lemma calculate_policy_yields:
  fixes S :: "('o, 'w) openssl"
  assumes P: "policy_hash S V N H alg name n"
  shows "policy_ok alg i es \<Longrightarrow> slot alg i dv \<Longrightarrow> yields (openssl_works S) (ifapi_calculate_policy S alg n i es dv w)
      (\<lambda>(es', dv', w'). digested n alg i (policy_digest H name (keeps_two n) es (take n (digest_at dv i))) dv')"
    and "branches_ok alg i bs \<Longrightarrow> slot alg i dv \<Longrightarrow> yields (openssl_works S) (or_branches S alg n i bs dv w)
      (\<lambda>(bs', w'). tables n alg i bs' (branch_digests H name (keeps_two n) bs (take n (digest_at dv i))))"
  using P
proof (induction alg i es and alg i bs arbitrary: dv w and dv w rule: policy_ok_branches_ok.induct)
  case (2 alg i t ed u es)
  let ?d = "take n (digest_at dv i)"
  let ?d' = "case u of PolicyOr bs \<Rightarrow> H name (keeps_two n ?d @ be_bytes TPM2_CC_PolicyOR @ concat (branch_digests H name (keeps_two n) bs ?d))
      | _ \<Rightarrow> leaf_digest H name u ?d"
  let ?F = "\<lambda>ed. if t = POLICYOR then
      (case u of PolicyOr bs \<Rightarrow> (case or_branches S alg n i bs ed w of None \<Rightarrow> None
         | Some (r, bs, w) \<Rightarrow> if r \<noteq> 0 then Some (r, PolicyOr bs, ed, w) else keep_element (PolicyOr bs) (or_digest S alg n i bs ed w))
       | _ \<Rightarrow> None) else calculate_element S alg t u ed w"
  have step: "yields (openssl_works S) (?F ed) (\<lambda>(u', ed', w'). digested n alg i ?d' ed')" if e: "digested n alg i ?d ed" for ed
  proof (cases "\<exists>bs. u = PolicyOr bs")
    case True
    then obtain bs where u: "u = PolicyOr bs" by blast
    have b: "yields (openssl_works S) (or_branches S alg n i bs ed w)
        (\<lambda>(bs', w'). tables n alg i bs' (branch_digests H name (keeps_two n) bs (take n (digest_at ed i))))"
      using 2(1) [OF u, of ed w] 2(3,5) e u by simp
    from or_yields [OF \<open>policy_hash S V N H alg name n\<close> _ b] 2 e u show ?thesis by (simp add: element_type_def)
  next
    case False
    then have u: "leaf_ok u" "t = element_type u" using 2 by (auto split: TPMU_POLICYELEMENT.splits)
    moreover have "?d' = leaf_digest H name u ?d" using False by (cases u) auto
    ultimately show ?thesis using element_yields [OF \<open>policy_hash S V N H alg name n\<close> u(1), of i ed w] e leaf_type [OF u(1)] by simp
  qed
  have rest: "yields (openssl_works S) (ifapi_calculate_policy S alg n i es dv w)
      (\<lambda>(es', dv', w'). digested n alg i (policy_digest H name (keeps_two n) es D) dv')" if "digested n alg i D dv" for D dv and w :: 'w
    using 2(2) [of dv w] 2(3,5) that by auto
  have ed: "DIGEST_VALUES_ok alg i ed" using 2(3) by simp
  show ?case
    unfolding ifapi_calculate_policy.simps policy_digest.simps by (rule element_step [OF 2(5,4) ed step rest])
next
  case (4 alg i bd es bs)
  let ?d = "take n (digest_at dv i)" let ?D = "branch_digests H name (keeps_two n) (TPMS_POLICYBRANCH bd es # bs) ?d"
  obtain bd1 where e1: "copy_policy_digest bd dv i n = Some bd1" "slot alg i bd1" "take n (digest_at bd1 i) = ?d"
    using copy_policy_digest_slot [OF 4(4) _ policy_hashD(3) [OF 4(5)], of bd] 4(3) by auto
  let ?f = "\<lambda>(es, bd, w). map_option (\<lambda>(r, bs, w). (r, TPMS_POLICYBRANCH bd es # bs, w)) (or_branches S alg n i bs dv w)"
  have f: "yields (openssl_works S) (?f (es', bd', w')) (\<lambda>(bs', w'). tables n alg i bs' ?D)"
    if "digested n alg i (policy_digest H name (keeps_two n) es ?d) bd'" for es' bd' and w' :: 'w
    using 4(2) [of dv w'] 4(3-5) that by (auto elim!: yieldsE)
  have "yields (openssl_works S) (ifapi_calculate_policy S alg n i es bd1 w)
      (\<lambda>(es', bd', w'). digested n alg i (policy_digest H name (keeps_two n) es ?d) bd')"
    using 4(1) [of bd1 w] 4(3,5) e1 by simp
  then show ?case unfolding or_branches.simps e1(1) option.case
    by (rule yields_bind [where f = ?f]) (use f in auto)
qed (simp_all add: list_all2_Nil)

end
