(* ===== verification/Fapi_Policy_Properties.thy ===== *)
theory Fapi_Policy_Properties
  imports Fapi_Policy_Contract
begin

text \<open>Properties of the policy calculation, and an OpenSSL on which they are evaluated.\<close>

section \<open>An OpenSSL\<close>

text \<open>The state is the only hash context; the handles are names.\<close>

definition sample_hash_size :: "string \<Rightarrow> nat" where
  "sample_hash_size name = (if name = ''SHA1'' then 20 else if name = ''SHA384'' then 48 else if name = ''SHA512'' then 64 else 32)"

definition sample_hash :: "string \<Rightarrow> BYTE list \<Rightarrow> BYTE list" where
  "sample_hash name bs = replicate (sample_hash_size name - 1) 0 @ [fold (\<lambda>b a. 3 * a + b) bs 1]"

definition sample_openssl :: "(string, (string \<times> BYTE list) option) openssl" where
  "sample_openssl = \<lparr>ossl_calloc = (\<lambda>w. (True, w)), ossl_free = (\<lambda>w. w),
     OSSL_LIB_CTX_new = (\<lambda>w. (Some ''lib'', w)), OSSL_LIB_CTX_free = (\<lambda>_ w. w),
     EVP_MD_fetch = (\<lambda>_ name w. (name, w)), EVP_MD_free = (\<lambda>_ w. w),
     EVP_MD_CTX_create = (\<lambda>w. (Some ''ctx'', w)), EVP_MD_CTX_destroy = (\<lambda>_ w. None),
     EVP_DigestInit_ex = (\<lambda>_ md w. (1, Some (md, []))),
     EVP_DigestUpdate = (\<lambda>_ x w. (1, map_option (\<lambda>(n, bs). (n, bs @ x)) w)),
     EVP_DigestFinal_ex = (\<lambda>_ w. (1, (case w of None \<Rightarrow> [] | Some (n, bs) \<Rightarrow> sample_hash n bs), w))\<rparr>"

lemma sample_openssl_digests: "openssl_digests sample_openssl (\<lambda>w e. w) (\<lambda>md. md) sample_hash"
  by (auto simp: openssl_digests_def sample_openssl_def sample_hash_def sample_hash_size_def get_hash_md_def
      ifapi_hash_get_digest_size_def split: if_splits)

lemma sample_openssl_works: "openssl_works sample_openssl"
  by (simp add: openssl_works_def sample_openssl_def)

lemma hashes_SHA256: "hashes TPM2_ALG_SHA256 ''SHA256'' 32"
  by (simp add: hashes_def get_hash_md_def ifapi_hash_get_digest_size_def TPM2_ALG_SHA256_def TPM2_ALG_SHA1_def)

definition zero_table :: DIGEST_VALUES where
  "zero_table = \<lparr>DIGEST_VALUES_count = 0, DIGEST_VALUES_digests = replicate 16 \<lparr>HA_hashAlg = 0, HA_digest = replicate 64 0\<rparr>\<rparr>"

definition element :: "TPMU_POLICYELEMENT \<Rightarrow> TPMT_POLICYELEMENT" where
  "element u = TPMT_POLICYELEMENT (element_type u) zero_table u"

lemma zero_table_ok: "DIGEST_VALUES_ok alg 0 zero_table"
  by (simp add: DIGEST_VALUES_ok_def zero_table_def)

section \<open>The TPM's digest\<close>

text \<open>
  What the policy commands of a TPM make of the digest of a session (TPM 2.0 Library, part 3, the
  commands TPM2_Policy...), with hash function \<open>h\<close> and digests of \<open>n\<close> bytes.  Most commands extend the digest;
  TPM2_PolicyOR, TPM2_PolicyAuthorize and TPM2_PolicyAuthorizeNV first reset it to zeroes.  Of the selected
  PCRs each value is hashed once, in the order of their numbers.
\<close>

definition tpm_select :: "nat set \<Rightarrow> nat \<Rightarrow> BYTE" where
  "tpm_select pcrs k = horner_sum of_bool 2 (map (\<lambda>i. 8 * k + i \<in> pcrs) [0..<8])"

definition tpm_pcr_selection :: "TPMS_PCRVALUE list \<Rightarrow> BYTE list" where
  "tpm_pcr_selection ps =
     (let pcrs = (\<lambda>p. unat (PCRVALUE_pcr p)) ` set ps in
      be_bytes (1 :: UINT32) @ be_bytes (PCRVALUE_hashAlg (hd ps)) @ [3, tpm_select pcrs 0, tpm_select pcrs 1, tpm_select pcrs 2])"

definition tpm_pcr_values :: "TPMS_PCRVALUE list \<Rightarrow> BYTE list" where
  "tpm_pcr_values ps = concat (map (\<lambda>i. case find (\<lambda>p. unat (PCRVALUE_pcr p) = i) ps of
       None \<Rightarrow> [] | Some p \<Rightarrow> take (ifapi_hash_get_digest_size (PCRVALUE_hashAlg p)) (PCRVALUE_digest p)) [0..<24])"

definition tpm_nv_name :: "(string \<Rightarrow> BYTE list \<Rightarrow> BYTE list) \<Rightarrow> TPMS_NV_PUBLIC \<Rightarrow> BYTE list" where
  "tpm_nv_name H p = nv_name H (p\<lparr>TPMS_NV_PUBLIC_attributes := TPMS_NV_PUBLIC_attributes p OR TPMA_NV_WRITTEN\<rparr>)"

definition tpm_command :: "nat \<Rightarrow> (string \<Rightarrow> BYTE list \<Rightarrow> BYTE list) \<Rightarrow> string \<Rightarrow> TPMU_POLICYELEMENT \<Rightarrow> BYTE list \<Rightarrow> BYTE list" where
  "tpm_command n H name u d =
     (let h = H name;
          extend = (\<lambda>d cc bs. h (d @ be_bytes (cc :: UINT32) @ bs));
          zeroes = replicate n (0 :: BYTE) in
      case u of
        PolicySigned p \<Rightarrow> h (extend d TPM2_CC_PolicySigned (TPM2B_bytes (POLICYSIGNED_publicKey p)) @ TPM2B_bytes (POLICYSIGNED_policyRef p))
      | PolicySecret p \<Rightarrow> h (extend d TPM2_CC_PolicySecret (TPM2B_bytes (POLICYSECRET_objectName p)) @ TPM2B_bytes (POLICYSECRET_policyRef p))
      | PolicyAuthorize p \<Rightarrow> h (extend zeroes TPM2_CC_PolicyAuthorize (TPM2B_bytes (POLICYAUTHORIZE_keyName p)) @ TPM2B_bytes (POLICYAUTHORIZE_policyRef p))
      | PolicyAuthorizeNv p \<Rightarrow> extend zeroes TPM2_CC_PolicyAuthorizeNV (tpm_nv_name H p)
      | PolicyPCR ps \<Rightarrow> extend d TPM2_CC_PolicyPCR (tpm_pcr_selection ps @ h (tpm_pcr_values ps))
      | PolicyLocality b \<Rightarrow> extend d TPM2_CC_PolicyLocality (be_bytes b)
      | PolicyNV p \<Rightarrow> extend d TPM2_CC_PolicyNV
          (h (TPM2B_bytes (POLICYNV_operandB p) @ be_bytes (POLICYNV_offset p) @ be_bytes (POLICYNV_operation p)) @ tpm_nv_name H (POLICYNV_nvPublic p))
      | PolicyCounterTimer p \<Rightarrow> extend d TPM2_CC_PolicyCounterTimer
          (h (TPM2B_bytes (POLICYCOUNTERTIMER_operandB p) @ be_bytes (POLICYCOUNTERTIMER_offset p) @ be_bytes (POLICYCOUNTERTIMER_operation p)))
      | PolicyCommandCode c \<Rightarrow> extend d TPM2_CC_PolicyCommandCode (be_bytes c)
      | PolicyPhysicalPresence \<Rightarrow> extend d TPM2_CC_PolicyPhysicalPresence []
      | PolicyCpHash t \<Rightarrow> extend d TPM2_CC_PolicyCpHash (TPM2B_bytes t)
      | PolicyNameHash p \<Rightarrow> extend d TPM2_CC_PolicyNameHash
          (h (concat (map TPM2B_bytes (take (unat (POLICYNAMEHASH_count p)) (POLICYNAMEHASH_objectNames p)))))
      | PolicyDuplicationSelect p \<Rightarrow> extend d TPM2_CC_PolicyDuplicationSelect
          ((if POLICYDUPLICATIONSELECT_includeObject p \<noteq> 0 then TPM2B_bytes (POLICYDUPLICATIONSELECT_objectName p) else []) @
           TPM2B_bytes (POLICYDUPLICATIONSELECT_newParentName p) @ be_bytes (POLICYDUPLICATIONSELECT_includeObject p))
      | PolicyAuthValue \<Rightarrow> extend d TPM2_CC_PolicyAuthValue []
      | PolicyPassword \<Rightarrow> extend d TPM2_CC_PolicyAuthValue []
      | PolicyNvWritten b \<Rightarrow> extend d TPM2_CC_PolicyNvWritten (be_bytes b)
      | PolicyTemplate p \<Rightarrow> extend d TPM2_CC_PolicyTemplate (template_hash h p)
      | PolicyAction \<Rightarrow> d
      | PolicyOr bs \<Rightarrow> d)"

text \<open>A policy is a sequence of commands; the branches of an OR continue from the digest before it.\<close>

fun tpm_policy_digest :: "nat \<Rightarrow> (string \<Rightarrow> BYTE list \<Rightarrow> BYTE list) \<Rightarrow> string \<Rightarrow> TPMT_POLICYELEMENT list \<Rightarrow> BYTE list \<Rightarrow> BYTE list"
and tpm_branch_digests :: "nat \<Rightarrow> (string \<Rightarrow> BYTE list \<Rightarrow> BYTE list) \<Rightarrow> string \<Rightarrow> TPMS_POLICYBRANCH list \<Rightarrow> BYTE list \<Rightarrow> BYTE list list" where
  "tpm_policy_digest n H name [] d = d"
| "tpm_policy_digest n H name (TPMT_POLICYELEMENT t ed u # es) d = tpm_policy_digest n H name es
     (case u of PolicyOr bs \<Rightarrow> H name (replicate n 0 @ be_bytes TPM2_CC_PolicyOR @ concat (tpm_branch_digests n H name bs d))
      | _ \<Rightarrow> tpm_command n H name u d)"
| "tpm_branch_digests n H name [] d = []"
| "tpm_branch_digests n H name (TPMS_POLICYBRANCH bd es # bs) d = tpm_policy_digest n H name es d # tpm_branch_digests n H name bs d"

section \<open>Where the code follows the TPM\<close>

text \<open>
  The code does not reset the digest, or not all of it, before the commands that do so.  It follows
  the TPM on policies that have these commands only while the digest is still zero (\<open>zero\<close>), that name no
  PCR twice and that do not include the object in a duplication, which the structure says is never done.
\<close>

definition plain :: "bool \<Rightarrow> TPMU_POLICYELEMENT \<Rightarrow> bool" where
  "plain zero u \<longleftrightarrow> (case u of
      PolicyAuthorize _ \<Rightarrow> zero
    | PolicyAuthorizeNv _ \<Rightarrow> zero
    | PolicyPCR ps \<Rightarrow> distinct (map PCRVALUE_pcr ps)
    | PolicyDuplicationSelect p \<Rightarrow> POLICYDUPLICATIONSELECT_includeObject p = 0
    | _ \<Rightarrow> True)"

fun resets_first :: "bool \<Rightarrow> TPMT_POLICYELEMENT list \<Rightarrow> bool"
and resets_first_branches :: "bool \<Rightarrow> TPMS_POLICYBRANCH list \<Rightarrow> bool" where
  "resets_first zero [] = True"
| "resets_first zero (TPMT_POLICYELEMENT t ed u # es) \<longleftrightarrow>
     (case u of PolicyOr bs \<Rightarrow> zero \<and> resets_first_branches zero bs | _ \<Rightarrow> plain zero u) \<and> resets_first (zero \<and> u = PolicyAction) es"
| "resets_first_branches zero [] = True"
| "resets_first_branches zero (TPMS_POLICYBRANCH bd es # bs) \<longleftrightarrow> resets_first zero es \<and> resets_first_branches zero bs"

lemma keeps_two_zero: "2 \<le> n \<Longrightarrow> keeps_two n (replicate n 0) = replicate n 0"
  by (rule nth_equalityI) (auto simp: keeps_two_def nth_append)

lemma find_SomeD: "find P xs = Some x \<Longrightarrow> x \<in> set xs \<and> P x"
  by (auto simp: find_Some_iff)

lemma filter_find:
  assumes "distinct (map f xs)"
  shows "concat (map g (filter (\<lambda>x. f x = y) xs)) = (case find (\<lambda>x. f x = y) xs of None \<Rightarrow> [] | Some x \<Rightarrow> g x)"
  using assms by (induction xs) (auto split: option.split dest!: find_SomeD)

lemma tpm_pcr_values_eq:
  assumes "distinct (map PCRVALUE_pcr ps)"
  shows "tpm_pcr_values ps = pcr_values ps"
proof -
  have d: "distinct (map (\<lambda>p. unat (PCRVALUE_pcr p)) ps)"
    using assms by (simp add: distinct_map inj_on_def word_unat_eq_iff)
  show ?thesis unfolding tpm_pcr_values_def pcr_values_def filter_find [OF d] ..
qed

lemma octet_bit: "j < 8 \<Longrightarrow> 8 * k + j = m \<longleftrightarrow> m div 8 = k \<and> m mod 8 = (j :: nat)"
  using mult_div_mod_eq [of 8 m] by auto

lemma tpm_select_eq: "tpm_select ((\<lambda>p. unat (PCRVALUE_pcr p)) ` set ps) k = selection_bits ps k"
proof (rule bit_word_eqI)
  fix j assume "j < LENGTH(8)"
  then have j: "j < 8" by simp
  have "bit (tpm_select ((\<lambda>p. unat (PCRVALUE_pcr p)) ` set ps) k) j \<longleftrightarrow> (\<exists>p \<in> set ps. 8 * k + j = unat (PCRVALUE_pcr p))"
    using j by (auto simp: tpm_select_def bit_horner_sum_bit_iff)
  moreover have "bit (selection_bits ps k) j \<longleftrightarrow> (\<exists>p \<in> set ps. unat (PCRVALUE_pcr p) div 8 = k \<and> unat (PCRVALUE_pcr p) mod 8 = j)"
    unfolding selection_bits_def push_bit_of_1 by (subst bit_selection_bits [OF j]) auto
  ultimately show "bit (tpm_select ((\<lambda>p. unat (PCRVALUE_pcr p)) ` set ps) k) j = bit (selection_bits ps k) j" by (simp add: octet_bit [OF j])
qed

lemma tpm_command_eq:
  assumes "plain z u" "z \<Longrightarrow> d = replicate n 0"
  shows "tpm_command n H name u d = leaf_digest H name u d"
  using assms
  by (cases u)
     (auto simp: tpm_command_def leaf_digest_def plain_def Let_def key_digest_def tpm_nv_name_def written_def operand_bytes_def names_bytes_def
      tpm_pcr_selection_def pcr_selection_def tpm_select_eq tpm_pcr_values_eq)

lemma policy_digest_resets_first:
  assumes "2 \<le> n"
  shows "resets_first z es \<Longrightarrow> (z \<Longrightarrow> d = replicate n 0) \<Longrightarrow>
      policy_digest H name (keeps_two n) es d = tpm_policy_digest n H name es d"
    and "resets_first_branches z bs \<Longrightarrow> (z \<Longrightarrow> d = replicate n 0) \<Longrightarrow>
      branch_digests H name (keeps_two n) bs d = tpm_branch_digests n H name bs d"
proof (induction z es and z bs arbitrary: d and d rule: resets_first_resets_first_branches.induct)
  case (2 z t ed u es)
  show ?case
  proof (cases "\<exists>bs. u = PolicyOr bs")
    case True
    then obtain bs where u: "u = PolicyOr bs" by blast
    with 2(3) have z: "z" "resets_first_branches z bs" "resets_first False es" by auto
    with 2(4) have d: "d = replicate n 0" by simp
    show ?thesis using 2(1) [OF u z(2), of d] 2(2) z(3) u d by (simp add: keeps_two_zero [OF assms])
  next
    case False
    then have p: "plain z u" "resets_first (z \<and> u = PolicyAction) es" using 2(3) by (auto split: TPMU_POLICYELEMENT.splits)
    have "tpm_command n H name u d = leaf_digest H name u d" using tpm_command_eq [OF p(1)] 2(4) by blast
    moreover have "z \<and> u = PolicyAction \<Longrightarrow> leaf_digest H name u d = replicate n 0" using 2(4) by (simp add: leaf_digest_def)
    ultimately show ?thesis using False 2(2) [OF p(2), of "leaf_digest H name u d"] by (cases u) simp_all
  qed
qed simp_all

lemma tree_digest_new:
  assumes "hashes alg name n" "DIGEST_VALUES_ok alg i dv" "unat (DIGEST_VALUES_count dv) = i" "i < 16"
  obtains dv1 where "slot alg i dv1" "digest_at dv1 i = replicate 64 0"
    "calculate_tree_digest S alg es dv w = map_option (\<lambda>(r, es, dv, w). (r, Some i, es, dv, w)) (ifapi_calculate_policy S alg n i es dv1 w)"
proof (rule that)
  let ?dv = "(set_HA i (\<lambda>h. h\<lparr>HA_hashAlg := alg, HA_digest := replicate 64 0\<rparr>) dv)\<lparr>DIGEST_VALUES_count := DIGEST_VALUES_count dv + 1\<rparr>"
  have c: "unat (DIGEST_VALUES_count dv + 1) = Suc i" using assms(3,4) by (simp add: unat_word_ariths)
  have f: "find (\<lambda>j. HA_hashAlg (DIGEST_VALUES_digests dv ! j) = alg) (rev [0..<i]) = None"
    using assms(2) by (simp add: find_None_iff DIGEST_VALUES_ok_def)
  show "slot alg i ?dv" "digest_at ?dv i = replicate 64 0"
    using assms(2-4) c by (auto simp: slot_def DIGEST_VALUES_ok_def set_HA_def nth_list_update)
  show "calculate_tree_digest S alg es dv w = map_option (\<lambda>(r, es, dv, w). (r, Some i, es, dv, w)) (ifapi_calculate_policy S alg n i es ?dv w)"
    using assms hashes_size [OF assms(1)] f by (auto simp: calculate_tree_digest_def Let_def hashes_def DIGEST_VALUES_ok_def)
qed

section \<open>Properties\<close>

text \<open>
  C5: \<open>ifapi_calculate_tree_ex\<close> computes the digest that a TPM computes for a policy, \<open>tpm_policy_digest\<close>: for every
  well-formed policy with all kinds of elements, nested ORs included, in which the elements that make
  the TPM reset the digest (OR, PolicyAuthorize, PolicyAuthorizeNV) come first, and for every OpenSSL with the
  documented meaning, the calculation ends without undefined behaviour, succeeds if no call of
  OpenSSL fails, and on success the new entry of the digest list has the hash algorithm and the
  TPM's digest.
\<close>
theorem policy_digest_is_calculated:
  assumes "openssl_digests S V N H" "hashes alg name n"
    and "DIGEST_VALUES_ok alg i dv" "unat (DIGEST_VALUES_count dv) = i" "i < 16"
    and "policy_ok alg i es" "resets_first True es"
  shows "\<exists>r es' dv' w'. calculate_tree_digest S alg es dv w = Some (r, Some i, es', dv', w') \<and> (openssl_works S \<longrightarrow> r = 0) \<and>
    (r = 0 \<longrightarrow> HA_hashAlg (DIGEST_VALUES_digests dv' ! i) = alg \<and>
       take n (digest_at dv' i) = tpm_policy_digest n H name es (replicate n 0))"
proof -
  have P: "policy_hash S V N H alg name n" using assms(1,2) by (simp add: policy_hash_def)
  obtain dv1 where dv1: "slot alg i dv1" "digest_at dv1 i = replicate 64 0"
    "calculate_tree_digest S alg es dv w = map_option (\<lambda>(r, es, dv, w). (r, Some i, es, dv, w)) (ifapi_calculate_policy S alg n i es dv1 w)"
    by (rule tree_digest_new [OF assms(2-5)])
  have z: "take n (digest_at dv1 i) = replicate n 0" using dv1(2) policy_hashD(3) [OF P] by simp
  have "policy_digest H name (keeps_two n) es (replicate n 0) = tpm_policy_digest n H name es (replicate n 0)"
    by (rule policy_digest_resets_first(1) [OF policy_hashD(4) [OF P] assms(7)]) simp
  with calculate_policy_yields(1) [OF P assms(6) dv1(1), of w] show ?thesis
    by (auto simp: z dv1(3) slot_def elim!: yieldsE)
qed

text \<open>
  An OR of a policy that an administrator signs and of two conditions on the command and on PCR 7,
  then physical presence.
\<close>

definition sample_policy :: "TPMT_POLICYELEMENT list" where
  "sample_policy =
     [element (PolicyOr
       [TPMS_POLICYBRANCH zero_table [element (PolicyAuthorize \<lparr>POLICYAUTHORIZE_policyRef = zero_TPM2B 64, POLICYAUTHORIZE_keyName = zero_TPM2B 68\<rparr>)],
        TPMS_POLICYBRANCH zero_table [element (PolicyCommandCode 0x15d),
          element (PolicyPCR [\<lparr>PCRVALUE_pcr = 7, PCRVALUE_hashAlg = TPM2_ALG_SHA256, PCRVALUE_digest = replicate 64 5\<rparr>])]]),
      element PolicyPhysicalPresence]"

lemma sample_policy_ok: "policy_ok alg 0 sample_policy" "resets_first True sample_policy"
proof -
  have "ifapi_hash_get_digest_size TPM2_ALG_SHA256 \<noteq> 0" using hashes_SHA256 by (simp add: hashes_def)
  then show "policy_ok alg 0 sample_policy"
    by (simp add: sample_policy_def element_def zero_table_ok leaf_ok_def pcrs_ok_def pcr_ok_def TPM2B_ok_def zero_TPM2B_def)
  show "resets_first True sample_policy" by (simp add: sample_policy_def element_def plain_def)
qed

theorem policy_digest_is_calculated_witness:
  "\<exists>es' dv' w'. calculate_tree_digest sample_openssl TPM2_ALG_SHA256 sample_policy zero_table None = Some (0, Some 0, es', dv', w') \<and>
     take 32 (digest_at dv' 0) = tpm_policy_digest 32 sample_hash ''SHA256'' sample_policy (replicate 32 0)"
proof -
  have c: "unat (DIGEST_VALUES_count zero_table) = 0" "(0 :: nat) < 16" by (simp_all add: zero_table_def)
  show ?thesis
    using policy_digest_is_calculated [OF sample_openssl_digests hashes_SHA256 zero_table_ok c sample_policy_ok, of None]
      sample_openssl_works by auto
qed

text \<open>
  Behind another element the code hashes the digest that it has, where TPM2_PolicyAuthorize starts
  from zeroes.
\<close>

lemma PolicyAuthorize_keeps_digest:
  assumes "openssl_digests S V N H" "hashes alg name n" "slot alg i dv" "leaf_ok u" "leaf_ok (PolicyAuthorize p)"
    and "DIGEST_VALUES_ok alg i ed" "DIGEST_VALUES_ok alg i ed'"
  defines "d \<equiv> leaf_digest H name u (take n (digest_at dv i))"
  shows "\<exists>r es' dv' w'. ifapi_calculate_policy S alg n i
      [TPMT_POLICYELEMENT (element_type u) ed u, TPMT_POLICYELEMENT POLICYAUTHORIZE ed' (PolicyAuthorize p)] dv w = Some (r, es', dv', w') \<and>
    (openssl_works S \<longrightarrow> r = 0) \<and>
    (r = 0 \<longrightarrow> take n (digest_at dv' i) =
       H name (H name (d @ be_bytes TPM2_CC_PolicyAuthorize @ TPM2B_bytes (POLICYAUTHORIZE_keyName p)) @ TPM2B_bytes (POLICYAUTHORIZE_policyRef p)))"
proof -
  let ?es = "[TPMT_POLICYELEMENT (element_type u) ed u, TPMT_POLICYELEMENT POLICYAUTHORIZE ed' (PolicyAuthorize p)]"
  have P: "policy_hash S V N H alg name n" using assms(1,2) by (simp add: policy_hash_def)
  have ok: "policy_ok alg i ?es" using assms(4-7) by (cases u) (simp_all add: leaf_ok_def element_type_def)
  have "policy_digest H name (keeps_two n) ?es (take n (digest_at dv i)) =
      H name (H name (d @ be_bytes TPM2_CC_PolicyAuthorize @ TPM2B_bytes (POLICYAUTHORIZE_keyName p)) @ TPM2B_bytes (POLICYAUTHORIZE_policyRef p))"
    using assms(4) by (cases u) (simp_all add: leaf_ok_def d_def, simp_all add: leaf_digest_def key_digest_def Let_def)
  with calculate_policy_yields(1) [OF P ok assms(3), of w] show ?thesis
    by (auto simp del: ifapi_calculate_policy.simps policy_digest.simps elim!: yieldsE)
qed

text \<open>
  C39: \<open>ifapi_calculate_policy_or\<close> does not reset the digest to zeroes: the \<open>memset\<close> starts at the \<open>TPMT_HA\<close>,
  two bytes before the digest, so that the last two bytes of the previous digest stay and go into the hash.
  For every policy with an OR behind another element the calculated digest is the hash over these bytes.
\<close>
theorem PolicyOR_keeps_two_bytes:
  assumes "openssl_digests S V N H" "hashes alg name n" "slot alg i dv"
    and "policy_ok alg i [TPMT_POLICYELEMENT t ed u, TPMT_POLICYELEMENT POLICYOR ed' (PolicyOr bs)]" "leaf_ok u"
  defines "d \<equiv> leaf_digest H name u (take n (digest_at dv i))"
  shows "\<exists>r es' dv' w'. ifapi_calculate_policy S alg n i [TPMT_POLICYELEMENT t ed u, TPMT_POLICYELEMENT POLICYOR ed' (PolicyOr bs)] dv w =
      Some (r, es', dv', w') \<and> (openssl_works S \<longrightarrow> r = 0) \<and>
    (r = 0 \<longrightarrow> take n (digest_at dv' i) =
       H name (replicate (n - 2) 0 @ drop (n - 2) d @ be_bytes TPM2_CC_PolicyOR @ concat (branch_digests H name (keeps_two n) bs d)))"
proof -
  have P: "policy_hash S V N H alg name n" using assms(1,2) by (simp add: policy_hash_def)
  have "policy_digest H name (keeps_two n) [TPMT_POLICYELEMENT t ed u, TPMT_POLICYELEMENT POLICYOR ed' (PolicyOr bs)] (take n (digest_at dv i)) =
      H name (keeps_two n d @ be_bytes TPM2_CC_PolicyOR @ concat (branch_digests H name (keeps_two n) bs d))"
    using assms(5) by (cases u) (auto simp: leaf_ok_def d_def)
  with calculate_policy_yields(1) [OF P assms(4,3), of w] show ?thesis
    by (auto simp: keeps_two_def simp del: ifapi_calculate_policy.simps policy_digest.simps elim!: yieldsE)
qed


definition sample_slot :: DIGEST_VALUES where
  "sample_slot = (set_HA 0 (\<lambda>h. h\<lparr>HA_hashAlg := TPM2_ALG_SHA256\<rparr>) zero_table)\<lparr>DIGEST_VALUES_count := 1\<rparr>"

lemma sample_slot: "slot TPM2_ALG_SHA256 0 sample_slot"
  by (simp add: sample_slot_def slot_def DIGEST_VALUES_ok_def zero_table_def set_HA_def nth_list_update)

lemma sample_slot_digest: "take n (digest_at sample_slot 0) = replicate (min n 64) 0"
  by (simp add: sample_slot_def zero_table_def set_HA_def)

theorem PolicyOR_keeps_two_bytes_witness:
  "\<exists>es' dv' w'. ifapi_calculate_policy sample_openssl TPM2_ALG_SHA256 32 0
       [element PolicyAuthValue, element (PolicyOr [TPMS_POLICYBRANCH zero_table []])] sample_slot None = Some (0, es', dv', w') \<and>
     take 32 (digest_at dv' 0) \<noteq> policy_digest sample_hash ''SHA256'' (\<lambda>_. replicate 32 0)
       [element PolicyAuthValue, element (PolicyOr [TPMS_POLICYBRANCH zero_table []])] (replicate 32 0)"
proof -
  let ?bs = "[TPMS_POLICYBRANCH zero_table []]"
  have t: "element (PolicyOr ?bs) = TPMT_POLICYELEMENT POLICYOR zero_table (PolicyOr ?bs)"
    "element PolicyAuthValue = TPMT_POLICYELEMENT (element_type PolicyAuthValue) zero_table PolicyAuthValue"
    by (simp_all add: element_def element_type_def)
  have ok: "policy_ok TPM2_ALG_SHA256 0 [TPMT_POLICYELEMENT (element_type PolicyAuthValue) zero_table PolicyAuthValue,
      TPMT_POLICYELEMENT POLICYOR zero_table (PolicyOr ?bs)]" "leaf_ok PolicyAuthValue"
    by (simp_all add: zero_table_ok leaf_ok_def element_type_def)
  have "sample_hash ''SHA256'' (replicate 30 0 @ drop 30 d @ be_bytes TPM2_CC_PolicyOR @ d) \<noteq>
      sample_hash ''SHA256'' (replicate 32 0 @ be_bytes TPM2_CC_PolicyOR @ d)"
    if "d = leaf_digest sample_hash ''SHA256'' PolicyAuthValue (replicate 32 0)" for d
    unfolding that by code_simp
  with PolicyOR_keeps_two_bytes [OF sample_openssl_digests hashes_SHA256 sample_slot ok, of None] show ?thesis
    unfolding t using sample_openssl_works
    by (auto simp: sample_slot_digest simp del: ifapi_calculate_policy.simps)
qed

lemma hash_items_append:
  "hash_items S c (xs @ ys) w = (case hash_items S c xs w of None \<Rightarrow> None | Some (r, w) \<Rightarrow> if r \<noteq> 0 then Some (r, w) else hash_items S c ys w)"
  by (induction S c xs w rule: hash_items.induct) (auto split: option.splits prod.splits)

lemma hash_into_overruns:
  fixes S :: "('o, 'w) openssl"
  assumes "openssl_digests S V N H" "openssl_works S" "hashes alg name n" "item_bytes items bs"
  shows "hash_into S alg (items @ [None]) b m w = None"
proof -
  from hash_start_yields [OF assms(1,3), of w] obtain c w1 where
    c: "ifapi_crypto_hash_start S alg w = (0, c, w1)" "hashing V name n [] c w1"
    using assms(2) by (auto elim!: yieldsE)
  from hash_items_yields [OF assms(1) c(2) assms(4)] obtain w2 where "hash_items S c items w1 = Some (0, w2)"
    using assms(2) by (auto elim!: yieldsE)
  with c(1) show ?thesis by (simp add: hash_into_def hash_items_append)
qed

text \<open>
  C40: \<open>ifapi_calculate_policy_name_hash\<close> reads one name more than there are: with as many names as the policy
  has room for (three), each within its buffer, and an OpenSSL whose calls succeed, it accesses memory outside
  the array.
\<close>
theorem PolicyNameHash_overruns:
  assumes "openssl_digests S V N H" "openssl_works S" "hashes alg name n"
    and "length (POLICYNAMEHASH_objectNames p) = 3" "POLICYNAMEHASH_count p = 3" "list_all TPM2B_ok (POLICYNAMEHASH_objectNames p)"
  shows "ifapi_calculate_policy_name_hash S p alg dv w = None"
proof -
  let ?x = "\<lambda>j. POLICYNAMEHASH_objectNames p ! j"
  have n: "ifapi_hash_get_digest_size alg \<noteq> 0" using hashes_size [OF assms(3)] assms(3) by (auto simp: hashes_def)
  have c: "unat (POLICYNAMEHASH_count p) = 3" using assms(5) by simp
  have items: "name_items p = map (\<lambda>j. HASH_UPDATE_BUFFER (TPM2B_buffer (?x j)) (unat (TPM2B_size (?x j)))) [0..<3] @ [None]"
    unfolding name_items_def c upt_Suc using assms(4) by simp
  have "item_bytes (map (\<lambda>j. HASH_UPDATE_BUFFER (TPM2B_buffer (?x j)) (unat (TPM2B_size (?x j)))) [0..<3])
      (concat (map (\<lambda>j. TPM2B_bytes (?x j)) [0..<3]))"
    by (rule items_map) (use assms(4,6) in \<open>auto simp: list_all_length TPM2B_item\<close>)
  from hash_into_overruns [OF assms(1-3) this] n show ?thesis
    by (simp add: ifapi_calculate_policy_name_hash_def Let_def items)
qed

definition sample_names :: TPMS_POLICYNAMEHASH where
  "sample_names = \<lparr>POLICYNAMEHASH_count = 3, POLICYNAMEHASH_objectNames = replicate 3 (zero_TPM2B 68), POLICYNAMEHASH_nameHash = zero_TPM2B 64\<rparr>"

theorem PolicyNameHash_overruns_witness:
  "ifapi_calculate_policy_name_hash sample_openssl sample_names TPM2_ALG_SHA256 sample_slot None = None"
  by (rule PolicyNameHash_overruns [OF sample_openssl_digests sample_openssl_works hashes_SHA256])
     (simp_all add: sample_names_def zero_TPM2B_def TPM2B_ok_def list.pred_set)

end
