(* ===== verification/Spec2Isabelle.thy ===== *)
theory Spec2Isabelle
  imports MU_Properties Sys_Properties RC_Properties Esys_Properties Esys_Crypto_Properties Fapi_Json_Properties Fapi_Policy_Properties
begin

text \<open>
  Verification of \<open>tpm2-tss\<close>, the TCG TPM2 software stack with its post-quantum extensions, for the layers that every
  application uses: the marshalling library (\<open>src/tss2-mu\<close>), the system API (\<open>src/tss2-sys\<close>), the enhanced system API
  (\<open>src/tss2-esys\<close>), the decoding of return codes (\<open>src/tss2-rc\<close>) and, of the feature API (\<open>src/tss2-fapi\<close>), the JSON form
  of the data types and the calculation of policy digests.

  \<^bold>\<open>The program and its parts.\<close>  An application calls the enhanced system API with a context (\<open>ESYS_CONTEXT\<close>) that keeps the objects and
  sessions of the TPM.  Each command has an \<open>_Async\<close> function that sends it, a \<open>_Finish\<close> function that collects the response, and a function that
  does both.  They use the system API, which builds a command in a buffer (\<open>_Prepare\<close>, the authorizations, \<open>ExecuteAsync\<close>), receives the response
  (\<open>ExecuteFinish\<close>) and takes it apart (\<open>_Complete\<close>).  The bytes of all parameters are written and read by the marshalling library.  Commands go out
  and responses come in through a transport (\<open>TSS2_TCTI_CONTEXT\<close>); hashes, HMACs, ciphers and random numbers come from a cryptographic back end
  (\<open>ESYS_CRYPTO_CALLBACKS\<close>).  Return codes carry the layer they come from; \<open>tss2-rc\<close> turns them into text.

  \<^bold>\<open>How C is modelled.\<close>  Machine integers are words of their width.  A structure is a record with one field per member, an enumeration or a macro
  constant is a definition, an array is a list of its declared length (a condition of the lemmas, never of the definitions).  A pointer is an option, \<open>None\<close> for
  a null pointer; objects that the program shares (the resource nodes of a context) live in a heap of addresses.  A union is a datatype with one
  constructor per member; reading another member than the one that was stored is a fault, except where members of the same
  representation overlap and the code relies on it.  A function returns \<open>None\<close> when an access leaves its object or a null pointer is
  dereferenced, and otherwise the return code with everything it may have changed.  The host is little-endian with the memory layout of x86-64
  (\<open>C_Layout\<close> computes the sizes that \<open>sizeof\<close> gives).  Loops are structurally recursive functions; the three loops that can run forever
  (\<open>finish_loop\<close>, \<open>KDFa_loop\<close>, \<open>KDFe_loop\<close>) are \<open>partial_function (option)\<close>, so that not returning is \<open>None\<close>, and the properties
  state separately that they return.  There is no fuel in the model.  Any memory allocation may fail: a context has the list of
  the answers of its next allocations.  The preprocessor symbols \<open>DISABLE_VENDOR\<close> and \<open>DISABLE_WEAK_CRYPTO\<close> are not set.  Messages to the log are left out.
  Preprocessor macros that define functions are functionals with the name of the macro, applied to the same arguments.

  \<^bold>\<open>Marshalling\<close> (\<open>src/tss2-mu\<close>, \<open>include/tss2/tss2_tpm2_types.h\<close>).  \<open>TSS_Prelude\<close>: buffers, byte order (\<open>util/tss2_endian.h\<close>), the shared
  lemmas.  \<open>TPM2_Types\<close>: constants and structures.  \<open>MU_Contract\<close>: the two shapes of functions, and the locales \<open>marshaler\<close>,
  \<open>unmarshaler\<close>, \<open>strict_unmarshaler\<close> and \<open>codec\<close>.  \<open>MU_Base\<close>, \<open>MU_TPM2B\<close>, \<open>MU_Struct\<close>, \<open>MU_List\<close>, \<open>MU_Union\<close>: the macros of \<open>base-types.c\<close>,
  \<open>tpma-types.c\<close>, \<open>tpm2b-types.c\<close>, \<open>tpms-types.c\<close>, \<open>tpmt-types.c\<close>, \<open>tpml-types.c\<close>, \<open>tpmu-types.c\<close>, and for each a rule that gives the contract of the function it defines.
  \<open>MU_Buffers\<close>, \<open>MU_Misc\<close>, \<open>MU_Objects\<close>, \<open>MU_Attest\<close>: the functions for all types, with an interpretation of the contract for each.
  \<open>MU_Properties\<close>: round trips in both directions, memory safety for arbitrary bytes, size fields, and the places where the
  library deviates from its own rules.

  \<^bold>\<open>The system API\<close> (\<open>src/tss2-sys\<close>).  \<open>Sys_Context\<close>: the context and the helpers of \<open>sysapi_util.c\<close>.  \<open>Sys_Execute\<close>, \<open>Sys_Session\<close>, \<open>Sys_Api\<close>: sending and
  receiving, authorizations, the encryptable parameters.  \<open>Sys_Commands_1\<close> to \<open>Sys_Commands_5\<close>: \<open>_Prepare\<close>, \<open>_Complete\<close> and the one-call function of every command.
  \<open>Sys_Contract\<close>, \<open>Sys_Complete\<close>, \<open>Sys_Args\<close>, \<open>Sys_Transfer\<close>, \<open>Sys_RspAuths\<close>, \<open>Sys_OneCall\<close>: what a call does to the buffer, command by command through
  locales for the two halves of a command.  \<open>Sys_Machine\<close>: calls as a step relation labelled with the call and the code it returned, its invariant, the labelled
  protocol of the four phases of a command (\<open>protocol\<close>) and the \<open>simulation\<close> between the two, which gives the inclusion of traces; and that the
  calls which change a prepared command never leave the buffer (\<open>command_ok\<close>, kept by every \<open>edit\<close>).  \<open>Sys_Properties\<close>: the properties.

  \<^bold>\<open>Return codes\<close> (\<open>src/tss2-rc\<close>).  \<open>RC_Decode\<close>: the handlers of the layers, \<open>Tss2_RC_Decode\<close>, \<open>Tss2_RC_DecodeInfo\<close>, \<open>Tss2_RC_SetHandler\<close>.  \<open>RC_Properties\<close>: a code can be recovered
  from its parts up to explicit bits, every code is printed as a text that is specified on the bits of the code and the message tables without the
  buffers of the handlers, and registered handlers are called for their layer.

  \<^bold>\<open>The enhanced system API\<close> (\<open>src/tss2-esys\<close>).  \<open>Esys_Types\<close>: the context, resource objects, the back end.  \<open>Esys_Crypto\<close> (\<open>esys_crypto.c\<close>): hashes, HMACs, key derivation,
  obfuscation.  \<open>Esys_Util\<close>, \<open>Esys_Session\<close>, \<open>Esys_Auth\<close> (\<open>esys_iutil.c\<close>): objects, sessions, parameter encryption, authorizations and the check of
  the response.  \<open>Esys_MU\<close> (\<open>esys_mu.c\<close>), \<open>Esys_TR\<close>, \<open>Esys_Context\<close> (\<open>esys_tr.c\<close>, \<open>esys_context.c\<close>): serialization, the functions on objects, initialization.  \<open>Esys_Command\<close> and
  \<open>Esys_Object\<close>: the parts that the command files share.  \<open>Esys_Commands_1\<close> to \<open>Esys_Commands_6\<close> (\<open>api/\<close>): the three functions of all 130 commands.
  A function is a sequence of steps on the context; the combinators (\<open>steps\<close>, \<open>call\<close>, \<open>or_state\<close>, \<open>error_cleanup\<close>, ...) stand for the error macros of the
  code (\<open>return_if_error\<close>, \<open>return_state_if_error\<close>, \<open>goto_if_error\<close>).

  The proofs for the 130 commands are rules over these combinators: \<open>Esys_Link\<close>, \<open>Esys_Frame\<close> (the locales \<open>esys_flow\<close> and \<open>esys_keep\<close>) and
  \<open>Esys_Steps\<close>; \<open>Esys_Async\<close> and \<open>Esys_Async_Commands\<close> interpret the contract \<open>esys_async_cmd\<close> for every \<open>_Async\<close> function, \<open>Esys_Finish\<close>,
  \<open>Esys_Finish_Special\<close> and \<open>Esys_Finish_Commands\<close> the contract \<open>esys_finish_cmd\<close> for every \<open>_Finish\<close> function; \<open>Esys_Termination\<close> treats the loop of the one-call functions; \<open>Esys_Api\<close> collects the functions in inductive sets, so that a property can speak of all of
  them.  \<open>Esys_Properties\<close>: the state of the context after every call, the number of transmissions, termination.
  \<open>Esys_Keys\<close>: what the cryptographic computations amount to for a back end that computes hashes and HMACs.  \<open>Esys_Verify\<close>, \<open>Esys_Check\<close>,
  \<open>Esys_Checked\<close>: no command succeeds on a response that is not authentic.  \<open>Esys_Crypto_Properties\<close>: the properties.

  \<^bold>\<open>JSON\<close> (\<open>src/tss2-fapi/tpm_json_serialize.c\<close>, \<open>tpm_json_deserialize.c\<close>).  \<open>Fapi_Json\<close>: the functions of json-c that the code calls, as a record of
  functions on a type of objects and a state (its memory), what json-c documents of them (\<open>json_c_builds\<close>, \<open>json_c_reads\<close>, through a view of an
  object as a JSON value), an instance, and the functions of the C library that scan and print numbers.  With them the constants of
  \<open>tss2_tpm2_types.h\<close> that the files name.  \<open>Fapi_Serialize\<close>, \<open>Fapi_Deserialize\<close>: the patterns that the functions follow.  \<open>Fapi_Ser_Values\<close>, \<open>Fapi_Ser_Types\<close>,
  \<open>Fapi_Des_Values\<close>, \<open>Fapi_Des_Types\<close>: the functions for all types.  \<open>Fapi_Codec\<close>: printed numbers and bytes are scanned back; the contract between a
  serializer and a deserializer, and how it is carried through the patterns (members of an object are read by total
  Hoare triples), attributes included.  \<open>Fapi_Public\<close>: the contract for the types of a public area.  \<open>Fapi_Json_Properties\<close>: the properties.

  \<^bold>\<open>Policies\<close> (\<open>src/tss2-fapi/ifapi_policy_calculate.c\<close>, with the hash functions of \<open>fapi_crypto.c\<close>, \<open>ifapi_nv_get_name\<close> and
  \<open>ifapi_compute_policy_digest\<close> of \<open>ifapi_helpers.c\<close> and the last step of \<open>ifapi_calculate_tree_ex\<close>).  \<open>Fapi_Policy\<close>: OpenSSL as a record of functions, the hash
  functions, the digest lists, the policies (elements, whose ORs have branches of elements) and one function for each kind of policy; \<open>ifapi_calculate_policy\<close> and the
  loop over the branches of an OR are mutually recursive.  \<open>Fapi_Policy_Contract\<close>: what OpenSSL documents (\<open>openssl_digests\<close>), calls that end and succeed if
  OpenSSL works (\<open>yields\<close>), the step of each kind of policy, the recursive definition \<open>policy_digest\<close> of what the code hashes, and the proof by induction over the
  policy that the calculation computes it.  \<open>Fapi_Policy_Properties\<close>: the digest as the commands of a TPM compute it (\<open>tpm_policy_digest\<close>, written from the TPM's commands: resets, one
  value per selected PCR, \<open>objectName\<close>), the conditions under which the two agree (\<open>resets_first\<close>: what makes the TPM reset comes first; \<open>plain\<close>: no PCR twice, no included
  object), an instance of OpenSSL and the properties, with the cases in which the two differ.

  \<^bold>\<open>Parameters and hypotheses.\<close>  The transport is a record of two functions on a state of any type.  The properties of the system API on sequences of calls assume that
  a receive leaves the buffer it was given in place (\<open>tcti_ok\<close>), and \<open>every_call_ends\<close> that a blocking receive does not ask to try again; nothing else is assumed of it.  The back end is a table of functions on a state of any type; the
  properties on keys and authentic responses assume that it computes functions of the documented output size
  (\<open>computes_hash\<close>, \<open>computes_hmac\<close>), and their witnesses instantiate it with a concrete one.  json-c is a record of functions; the properties
  on JSON assume its documented behaviour (\<open>json_world\<close>), and their witnesses use the instance \<open>json_values\<close>, whose objects are the values themselves.
  OpenSSL is a record of functions on a state; the properties on policies assume that a hash context collects the bytes of its updates and that its end
  delivers a hash of the documented size, and their witnesses use the instance \<open>sample_openssl\<close>.

  \<^bold>\<open>Not modelled.\<close>  Of the feature API (\<open>src/tss2-fapi\<close>) all but the files and functions above, and of the JSON files \<open>ifapi_parse_json\<close>, which drives the parser of json-c; the front end
  for policies (\<open>src/tss2-policy\<close>); they are built on files, network access and a state machine of their own.  The transports (\<open>src/tss2-tcti\<close>) and the loading of libraries (\<open>tss2-dlopen\<close>, \<open>tctildr\<close>), which are input and output; the back ends for OpenSSL and mbed
  TLS (\<open>esys_crypto_ossl.c\<close>, \<open>esys_crypto_mbed.c\<close>), which call those libraries; the log.
\<close>

end
